(* ===== verification/Prelude.thy ===== *)
theory Prelude
  imports Main "HOL-Library.Word" "HOL-Library.Sublist"
begin

text \<open>
  The shared base of the development: the machine-integer types of the C and Go code, the
  little-endian byte encoding of words that a struct store, an eBPF load and a Go \<open>unsafe\<close> cast have
  in common, and the generic lemmas on words and lists that several components use.
\<close>

unbundle bit_operations_syntax

named_theorems byte_simps \<open>lengths and round trips of little-endian byte encodings\<close>

section \<open>Machine integers\<close>

type_synonym u8 = "8 word"
type_synonym u16 = "16 word"
type_synonym u32 = "32 word"
type_synonym u64 = "64 word"

section \<open>Little-endian bytes\<close>

text \<open>\<open>to_le n w\<close> is the memory image of the low \<open>n\<close> bytes of \<open>w\<close> on the little-endian
  target (\<^verbatim>\<open>bpfel\<close>, amd64); \<open>from_le\<close> reads an image back.\<close>

primrec to_le :: "nat \<Rightarrow> 'a::len word \<Rightarrow> u8 list" where
  "to_le 0 w = []"
| "to_le (Suc n) w = ucast w # to_le n (drop_bit 8 w)"

primrec from_le :: "u8 list \<Rightarrow> 'a::len word" where
  "from_le [] = 0"
| "from_le (b # bs) = ucast b OR push_bit 8 (from_le bs)"

lemma length_to_le [simp, byte_simps]: "length (to_le n w) = n"
  by (induction n arbitrary: w) simp_all

lemma bit_from_to_le:
  "bit (from_le (to_le n w) :: 'a::len word) i \<longleftrightarrow> i < LENGTH('a) \<and> i < 8 * n \<and> bit (w :: 'a word) i"
proof (induction n arbitrary: w i)
  case 0
  then show ?case by simp
next
  case (Suc n)
  show ?case
  proof (cases "i < 8")
    case True
    then show ?thesis
      by (auto simp: bit_or_iff bit_push_bit_iff bit_ucast_iff dest: bit_imp_le_length)
  next
    case False
    then obtain j where i: "i = 8 + j"
      by (metis le_Suc_ex not_le)
    show ?thesis
      by (auto simp: i bit_or_iff bit_push_bit_iff bit_ucast_iff bit_drop_bit_eq Suc.IH
          dest: bit_imp_le_length)
  qed
qed

lemma from_to_le [simp, byte_simps]:
  "LENGTH('a) \<le> 8 * n \<Longrightarrow> from_le (to_le n (w :: 'a::len word)) = w"
  by (rule bit_eqI) (auto simp: bit_from_to_le dest: bit_imp_le_length)

section \<open>Small naturals as words\<close>

lemma unat_of_nat_small: "n < 2 ^ LENGTH('a) \<Longrightarrow> unat (of_nat n :: 'a::len word) = n"
  by (simp add: unsigned_of_nat take_bit_nat_eq_self)

end
