(* ===== verification/CLayout.thy ===== *)
theory CLayout
  imports Prelude
begin

text \<open>
  The C type language of the kernel header \<^verbatim>\<open>bpf/vmlinux.h\<close> and its layout on the amd64
  System V ABI, which clang applies when it compiles the probe and which \<^verbatim>\<open>bpf2go\<close> mirrors in the
  Go structs: size, alignment, bit-fields, anonymous members, the packed attribute, and
  \<^verbatim>\<open>offsetof\<close>. The general theorems say that members of a struct never overlap, lie inside the
  struct and are aligned; \<open>offsetof_in_bounds\<close> carries this to nested anonymous members.
\<close>

named_theorems layout_simps \<open>sizes, alignments and aliases of the kernel types\<close>

section \<open>C types\<close>

text \<open>\<open>CInt n\<close> is an integer type of \<open>n\<close> bytes; \<open>CPtr s\<close> a pointer to the type written \<open>s\<close>;
  \<open>CEnum n es\<close> an enumeration stored in \<open>n\<close> bytes; a struct or union carries its tag and whether
  it is packed. A member without a name (an anonymous struct or union, or padding bits) has the
  empty name.\<close>

datatype cty =
    CInt nat
  | CPtr string
  | CEnum nat "(string \<times> int) list"
  | CArr nat cty
  | CStruct string bool "cmember list"
  | CUnion string bool "cmember list"
and cmember =
    Field string cty
  | BitField string cty nat

text \<open>The base types of amd64. Signedness does not influence layout; it is kept in the names.\<close>

definition c_Bool :: cty where [layout_simps]: "c_Bool = CInt 1"
definition c_char :: cty where [layout_simps]: "c_char = CInt 1"
definition signed_char :: cty where [layout_simps]: "signed_char = CInt 1"
definition unsigned_char :: cty where [layout_simps]: "unsigned_char = CInt 1"
definition short_int :: cty where [layout_simps]: "short_int = CInt 2"
definition short_unsigned_int :: cty where [layout_simps]: "short_unsigned_int = CInt 2"
definition c_int :: cty where [layout_simps]: "c_int = CInt 4"
definition unsigned_int :: cty where [layout_simps]: "unsigned_int = CInt 4"
definition c_long :: cty where [layout_simps]: "c_long = CInt 8"
definition long_unsigned_int :: cty where [layout_simps]: "long_unsigned_int = CInt 8"
definition long_long_int :: cty where [layout_simps]: "long_long_int = CInt 8"
definition long_long_unsigned_int :: cty where [layout_simps]: "long_long_unsigned_int = CInt 8"
definition c__int128_unsigned :: cty where [layout_simps]: "c__int128_unsigned = CInt 16"

text \<open>Each layout lemma further on names the facts it needs, since the collection becomes large.\<close>

lemmas base_types = layout_simps

section \<open>Size, alignment and placement\<close>

definition align_up :: "nat \<Rightarrow> nat \<Rightarrow> nat" where
  "align_up n a = (if a = 0 then n else (n + a - 1) div a * a)"

definition bytes_of_bits :: "nat \<Rightarrow> nat" where
  "bytes_of_bits n = (n + 7) div 8"

fun alignof :: "cty \<Rightarrow> nat"
  and aligns :: "cmember list \<Rightarrow> nat" where
  "alignof (CInt n) = n"
| "alignof (CPtr s) = 8"
| "alignof (CEnum n es) = n"
| "alignof (CArr n t) = alignof t"
| "alignof (CStruct tag packed ms) = (if packed then 1 else aligns ms)"
| "alignof (CUnion tag packed ms) = (if packed then 1 else aligns ms)"
| "aligns [] = 1"
| "aligns (Field x t # ms) = max (alignof t) (aligns ms)"
| "aligns (BitField x t w # ms) = max (if x = [] then 1 else alignof t) (aligns ms)"

text \<open>A bit-field stays where the cursor is when it fits in the storage unit of its type that
  contains the cursor, and moves to the next unit otherwise; width \<open>0\<close> only closes the unit.\<close>

definition bitfield_start :: "bool \<Rightarrow> nat \<Rightarrow> nat \<Rightarrow> nat \<Rightarrow> nat" where
  "bitfield_start packed u w c =
     (if w = 0 then align_up c u
      else if packed \<or> c div u = (c + w - 1) div u then c
      else align_up c u)"

fun sizeof :: "cty \<Rightarrow> nat"
  and member_bits :: "cmember \<Rightarrow> nat"
  and member_start :: "bool \<Rightarrow> nat \<Rightarrow> cmember \<Rightarrow> nat"
  and struct_end :: "bool \<Rightarrow> nat \<Rightarrow> cmember list \<Rightarrow> nat"
  and union_end :: "cmember list \<Rightarrow> nat" where
  "sizeof (CInt n) = n"
| "sizeof (CPtr s) = 8"
| "sizeof (CEnum n es) = n"
| "sizeof (CArr n t) = n * sizeof t"
| "sizeof (CStruct tag packed ms) =
     align_up (bytes_of_bits (struct_end packed 0 ms)) (alignof (CStruct tag packed ms))"
| "sizeof (CUnion tag packed ms) =
     align_up (bytes_of_bits (union_end ms)) (alignof (CUnion tag packed ms))"
| "member_bits (Field x t) = 8 * sizeof t"
| "member_bits (BitField x t w) = w"
| "member_start packed c (Field x t) = align_up c (8 * (if packed then 1 else alignof t))"
| "member_start packed c (BitField x t w) = bitfield_start packed (8 * sizeof t) w c"
| "struct_end packed c [] = c"
| "struct_end packed c (m # ms) =
     struct_end packed (member_start packed c m + member_bits m) ms"
| "union_end [] = 0"
| "union_end (m # ms) = max (member_bits m) (union_end ms)"

fun member_name :: "cmember \<Rightarrow> string" where
  "member_name (Field x t) = x"
| "member_name (BitField x t w) = x"

text \<open>The placement of every member: its name, first bit and width in bits.\<close>

fun struct_layout :: "bool \<Rightarrow> nat \<Rightarrow> cmember list \<Rightarrow> (cmember \<times> nat) list" where
  "struct_layout packed c [] = []"
| "struct_layout packed c (m # ms) =
     (m, member_start packed c m) #
     struct_layout packed (member_start packed c m + member_bits m) ms"

definition layout :: "cty \<Rightarrow> (cmember \<times> nat) list" where
  "layout t = (case t of
      CStruct tag packed ms \<Rightarrow> struct_layout packed 0 ms
    | CUnion tag packed ms \<Rightarrow> map (\<lambda>m. (m, 0)) ms
    | _ \<Rightarrow> [])"

text \<open>\<open>offset_bits\<close> looks a member up by name, through anonymous structs and unions, as C does,
  and returns its first bit and its type.\<close>

fun offset_bits :: "cty \<Rightarrow> string \<Rightarrow> (nat \<times> cty) option"
  and find_struct :: "bool \<Rightarrow> nat \<Rightarrow> cmember list \<Rightarrow> string \<Rightarrow> (nat \<times> cty) option"
  and find_union :: "cmember list \<Rightarrow> string \<Rightarrow> (nat \<times> cty) option"
  and find_member :: "cmember \<Rightarrow> string \<Rightarrow> (nat \<times> cty) option" where
  "offset_bits (CStruct tag packed ms) f = find_struct packed 0 ms f"
| "offset_bits (CUnion tag packed ms) f = find_union ms f"
| "offset_bits (CInt n) f = None"
| "offset_bits (CPtr s) f = None"
| "offset_bits (CEnum n es) f = None"
| "offset_bits (CArr n t) f = None"
| "find_struct packed c [] f = None"
| "find_struct packed c (m # ms) f =
     (case find_member m f of
        Some (o', t) \<Rightarrow> Some (member_start packed c m + o', t)
      | None \<Rightarrow> find_struct packed (member_start packed c m + member_bits m) ms f)"
| "find_union [] f = None"
| "find_union (m # ms) f = (case find_member m f of Some r \<Rightarrow> Some r | None \<Rightarrow> find_union ms f)"
| "find_member (Field x t) f =
     (if x = f \<and> x \<noteq> [] then Some (0, t) else if x = [] then offset_bits t f else None)"
| "find_member (BitField x t w) f = None"

text \<open>\<^verbatim>\<open>offsetof(t, f)\<close> in bytes.\<close>

definition offsetof :: "cty \<Rightarrow> string \<Rightarrow> nat option" where
  "offsetof t f = map_option (\<lambda>(b, _). b div 8) (offset_bits t f)"

text \<open>\<^verbatim>\<open>bpftool\<close> writes the gap before a cache-line- or page-aligned member as a run of unnamed
  64-bit fields (\<^verbatim>\<open>long: 64;\<close>).\<close>

definition padding :: "nat \<Rightarrow> cmember list" where
  "padding n = replicate n (BitField [] c_long 64)"

section \<open>Well-formed types\<close>

text \<open>Integers have a machine size, bit-fields an integer type at least as wide as themselves,
  and no alignment is zero.\<close>

fun wf_cty :: "cty \<Rightarrow> bool"
  and wf_member :: "cmember \<Rightarrow> bool"
  and wf_members :: "cmember list \<Rightarrow> bool" where
  "wf_cty (CInt n) = (n \<in> {1, 2, 4, 8, 16})"
| "wf_cty (CPtr s) = True"
| "wf_cty (CEnum n es) = (n \<in> {1, 4, 8})"
| "wf_cty (CArr n t) = wf_cty t"
| "wf_cty (CStruct tag packed ms) = wf_members ms"
| "wf_cty (CUnion tag packed ms) = wf_members ms"
| "wf_member (Field x t) = wf_cty t"
| "wf_member (BitField x t w) =
     ((case t of CInt n \<Rightarrow> True | CEnum n es \<Rightarrow> True | _ \<Rightarrow> False) \<and> wf_cty t \<and> w \<le> 8 * sizeof t)"
| "wf_members [] = True"
| "wf_members (m # ms) = (wf_member m \<and> wf_members ms)"

text \<open>No packed attribute anywhere inside the type.\<close>

fun packed_free :: "cty \<Rightarrow> bool"
  and packed_free_members :: "cmember list \<Rightarrow> bool" where
  "packed_free (CInt n) = True"
| "packed_free (CPtr s) = True"
| "packed_free (CEnum n es) = True"
| "packed_free (CArr n t) = packed_free t"
| "packed_free (CStruct tag packed ms) = (\<not> packed \<and> packed_free_members ms)"
| "packed_free (CUnion tag packed ms) = (\<not> packed \<and> packed_free_members ms)"
| "packed_free_members [] = True"
| "packed_free_members (Field x t # ms) = (packed_free t \<and> packed_free_members ms)"
| "packed_free_members (BitField x t w # ms) = packed_free_members ms"

lemmas layout_eval = align_up_def bytes_of_bits_def bitfield_start_def

section \<open>Layout theorems\<close>

lemma align_up_ge [intro, simp]: "n \<le> align_up n a"
proof (cases "a = 0")
  case False
  have "(n + a - 1) mod a \<le> a - 1"
    using False by (metis Suc_pred' gr0I less_Suc_eq_le mod_less_divisor)
  moreover have "(n + a - 1) div a * a + (n + a - 1) mod a = n + a - 1"
    by simp
  ultimately have "n \<le> (n + a - 1) div a * a"
    using False by linarith
  with False show ?thesis
    by (simp add: align_up_def)
qed (simp add: align_up_def)

lemma dvd_align_up [intro, simp]: "0 < a \<Longrightarrow> a dvd align_up n a"
  by (simp add: align_up_def)

lemma bits_le_bytes: "n \<le> 8 * bytes_of_bits n"
  unfolding bytes_of_bits_def by linarith

lemma member_start_ge [simp]: "c \<le> member_start packed c m"
  by (cases m) (auto simp: bitfield_start_def)

lemma struct_end_ge: "c \<le> struct_end packed c ms"
proof (induction ms arbitrary: c)
  case (Cons m ms)
  have "c \<le> member_start packed c m + member_bits m"
    by (rule order_trans [OF member_start_ge le_add1])
  also have "\<dots> \<le> struct_end packed \<dots> ms"
    by (rule Cons.IH)
  finally show ?case by simp
qed simp

lemma struct_end_append [simp]:
  "struct_end packed c (ms @ ms') = struct_end packed (struct_end packed c ms) ms'"
  by (induction ms arbitrary: c) simp_all

lemma aligns_append [simp]: "aligns (ms @ ms') = max (aligns ms) (aligns ms')"
proof (induction ms)
  case Nil
  have "1 \<le> aligns ms'"
  proof (induction ms')
    case (Cons m ms')
    then show ?case by (cases m) (simp_all add: le_max_iff_disj)
  qed simp
  then show ?case by simp
next
  case (Cons m ms)
  then show ?case by (cases m) (simp_all add: max.assoc)
qed

lemma wf_members_append [simp]: "wf_members (ms @ ms') \<longleftrightarrow> wf_members ms \<and> wf_members ms'"
  by (induction ms) auto

lemma aligns_padding [simp]: "aligns (padding n) = 1"
  by (induction n) (simp_all add: padding_def)

lemma wf_members_padding [simp]: "wf_members (padding n)"
  by (induction n) (simp_all add: padding_def c_long_def)

lemma bitfield_start_word: "bitfield_start False 64 64 c = align_up c 64"
proof (cases "64 dvd c")
  case True
  then show ?thesis by (auto simp: bitfield_start_def align_up_def elim!: dvdE)
next
  case False
  then obtain q r where c: "c = 64 * q + r" "0 < r" "r < 64"
    by (metis dvd_eq_mod_eq_0 gr0I mod_less_divisor mult_div_mod_eq zero_less_numeral)
  then have "(c + 64 - 1) div 64 = Suc q" "c div 64 = q"
    by (auto intro!: div_nat_eqI)
  then show ?thesis by (simp add: bitfield_start_def)
qed

lemma align_up_idem [simp]: "64 dvd c \<Longrightarrow> align_up c 64 = c"
  by (auto simp: align_up_def elim!: dvdE)

lemma struct_end_padding [simp]:
  "struct_end False c (padding n) = (if n = 0 then c else align_up c 64 + 64 * n)"
proof (induction n arbitrary: c)
  case (Suc n)
  have "struct_end False c (padding (Suc n)) = struct_end False (align_up c 64 + 64) (padding n)"
    by (simp add: padding_def c_long_def bitfield_start_word)
  also have "\<dots> = align_up c 64 + 64 * Suc n"
    unfolding Suc.IH by simp
  finally show ?case by simp
qed (simp add: padding_def)

lemma find_struct_append:
  "find_struct packed c (ms @ ms') f =
     (case find_struct packed c ms f of
        Some r \<Rightarrow> Some r
      | None \<Rightarrow> find_struct packed (struct_end packed c ms) ms' f)"
  by (induction ms arbitrary: c) (simp_all split: option.splits)

lemma find_struct_padding [simp]: "find_struct packed c (padding n) f = None"
  by (induction n arbitrary: c) (simp_all add: padding_def)

lemma struct_end_sizeof: "struct_end packed 0 ms \<le> 8 * sizeof (CStruct tag packed ms)"
  and union_end_sizeof: "union_end ms \<le> 8 * sizeof (CUnion tag packed ms)"
  by (metis align_up_ge bits_le_bytes mult_le_mono2 order_trans sizeof.simps(5))
    (metis align_up_ge bits_le_bytes mult_le_mono2 order_trans sizeof.simps(6))

lemma struct_layout_bounds:
  "(m, b) \<in> set (struct_layout packed c ms) \<Longrightarrow>
     c \<le> b \<and> b + member_bits m \<le> struct_end packed c ms"
proof (induction ms arbitrary: c)
  case (Cons m' ms)
  let ?c = "member_start packed c m' + member_bits m'"
  have c: "c \<le> ?c" by (simp add: trans_le_add1)
  show ?case
  proof (cases "(m, b) \<in> set (struct_layout packed ?c ms)")
    case True
    with Cons.IH c show ?thesis by fastforce
  next
    case False
    with Cons.prems show ?thesis by (auto simp: struct_end_ge)
  qed
qed simp

lemma struct_layout_ordered:
  "sorted_wrt (\<lambda>(m, b) (m', b'). b + member_bits m \<le> b') (struct_layout packed c ms)"
  by (induction ms arbitrary: c) (auto dest: struct_layout_bounds)

lemma union_end_member: "m \<in> set ms \<Longrightarrow> member_bits m \<le> union_end ms"
  by (induction ms) auto

subsection \<open>Alignment\<close>

abbreviation machine_align :: "nat \<Rightarrow> bool" where
  "machine_align a \<equiv> a \<in> {1, 2, 4, 8, 16}"

lemma machine_align_dvd: "machine_align a \<Longrightarrow> machine_align b \<Longrightarrow> a \<le> b \<Longrightarrow> a dvd b"
  by auto

lemma machine_align_max: "machine_align a \<Longrightarrow> machine_align b \<Longrightarrow> machine_align (max a b)"
  by (simp add: max_def)

lemma wf_machine_align:
  "wf_cty t \<Longrightarrow> machine_align (alignof t)"
  "wf_member m \<Longrightarrow> (case m of Field x t \<Rightarrow> machine_align (alignof t)
                          | BitField x t w \<Rightarrow> machine_align (alignof t))"
  "wf_members ms \<Longrightarrow> machine_align (aligns ms)"
proof (induction t and m and ms rule: wf_cty_wf_member_wf_members.induct)
  case (10 m ms)
  show ?case
  proof (cases m)
    case (Field x t)
    with 10 show ?thesis using machine_align_max by simp
  next
    case (BitField x t w)
    with 10 have "machine_align (alignof t)" "machine_align (aligns ms)" by simp_all
    then show ?thesis
      using machine_align_max [of "if x = [] then 1 else alignof t" "aligns ms"]
      by (simp add: BitField split: if_splits)
  qed
qed auto

lemma alignof_pos [simp]: "wf_cty t \<Longrightarrow> 0 < alignof t"
  using wf_machine_align(1) [of t] by auto

lemma alignof_dvd_sizeof: "wf_cty t \<Longrightarrow> alignof t dvd sizeof t"
proof (induction t rule: cty.induct [where ?P2.0 = "\<lambda>_. True"])
  case (CStruct tag packed ms)
  then show ?case
    using dvd_align_up [OF alignof_pos [OF CStruct.prems]] by simp
next
  case (CUnion tag packed ms)
  then show ?case
    using dvd_align_up [OF alignof_pos [OF CUnion.prems]] by simp
qed auto

lemma struct_layout_aligned:
  "(Field x t, b) \<in> set (struct_layout False c ms) \<Longrightarrow> wf_members ms \<Longrightarrow> 8 * alignof t dvd b"
proof (induction ms arbitrary: c)
  case (Cons m ms)
  show ?case
  proof (cases "(Field x t, b) = (m, member_start False c m)")
    case True
    with Cons.prems have "m = Field x t" "b = align_up c (8 * alignof t)" "0 < alignof t"
      by auto
    then show ?thesis by (simp add: dvd_align_up)
  next
    case False
    with Cons show ?thesis by auto
  qed
qed simp

subsection \<open>Member lookup\<close>

text \<open>What a lookup returns lies inside the object it was looked up in, whatever the nesting.\<close>

lemma offset_bits_in_bounds:
  "offset_bits t f = Some (b, ft) \<Longrightarrow> b + 8 * sizeof ft \<le> 8 * sizeof t"
  "find_struct packed c ms f = Some (b, ft) \<Longrightarrow>
     c \<le> b \<and> b + 8 * sizeof ft \<le> struct_end packed c ms"
  "find_union ms f = Some (b, ft) \<Longrightarrow> b + 8 * sizeof ft \<le> union_end ms"
  "find_member m f = Some (b, ft) \<Longrightarrow> b + 8 * sizeof ft \<le> member_bits m"
proof (induction t f and packed c ms f and ms f and m f arbitrary: b ft and b ft and b ft and b ft
    rule: offset_bits_find_struct_find_union_find_member.induct)
  case (1 tag packed ms f)
  then show ?case
    using struct_end_sizeof [of packed ms tag] by fastforce
next
  case (2 tag packed ms f)
  then show ?case
    using union_end_sizeof [of ms tag packed] by fastforce
next
  case (8 packed c m ms f)
  let ?c = "member_start packed c m + member_bits m"
  show ?case
  proof (cases "find_member m f")
    case None
    with 8 have "?c \<le> b \<and> b + 8 * sizeof ft \<le> struct_end packed ?c ms" by simp
    then show ?thesis
      using member_start_ge [of c packed m] by (simp del: member_start_ge)
  next
    case (Some r)
    with "8.prems" obtain o' where o': "find_member m f = Some (o', ft)"
      and b: "b = member_start packed c m + o'" by (cases r) auto
    from "8.IH"(1) [OF o'] have "b + 8 * sizeof ft \<le> ?c" by (simp add: b)
    also have "\<dots> \<le> struct_end packed ?c ms" by (rule struct_end_ge)
    finally show ?thesis
      by (simp add: b trans_le_add1)
  qed
qed (auto split: option.splits if_splits simp: max.coboundedI1 max.coboundedI2)

lemma offsetof_in_bounds:
  assumes "offset_bits t f = Some (b, ft)"
  shows "offsetof t f = Some (b div 8)" and "b div 8 + sizeof ft \<le> sizeof t"
proof -
  show "offsetof t f = Some (b div 8)"
    using assms by (simp add: offsetof_def)
  have "b + 8 * sizeof ft \<le> 8 * sizeof t"
    using assms by (rule offset_bits_in_bounds(1))
  then show "b div 8 + sizeof ft \<le> sizeof t" by linarith
qed

lemma aligns_tl_dvd: "wf_members (m # ms) \<Longrightarrow> aligns ms dvd aligns (m # ms)"
  using wf_machine_align(3) [of "m # ms"] wf_machine_align(3) [of ms]
  by (cases m) (simp_all add: machine_align_dvd)

lemma aligns_Field_dvd: "wf_members (Field x t # ms) \<Longrightarrow> alignof t dvd aligns (Field x t # ms)"
  using wf_machine_align(3) [of "Field x t # ms"] wf_machine_align(1) [of t]
  by (simp add: machine_align_dvd)

text \<open>Without packed attributes, a lookup returns a naturally aligned member.\<close>

lemma offset_bits_aligned:
  "offset_bits t f = Some (b, ft) \<Longrightarrow> wf_cty t \<Longrightarrow> packed_free t \<Longrightarrow>
     8 * alignof ft dvd b \<and> alignof ft dvd alignof t \<and> wf_cty ft"
  "find_struct packed c ms f = Some (b, ft) \<Longrightarrow> \<not> packed \<Longrightarrow> wf_members ms \<Longrightarrow>
     packed_free_members ms \<Longrightarrow> 8 * alignof ft dvd b \<and> alignof ft dvd aligns ms \<and> wf_cty ft"
  "find_union ms f = Some (b, ft) \<Longrightarrow> wf_members ms \<Longrightarrow> packed_free_members ms \<Longrightarrow>
     8 * alignof ft dvd b \<and> alignof ft dvd aligns ms \<and> wf_cty ft"
  "find_member m f = Some (b, ft) \<Longrightarrow> wf_member m \<Longrightarrow> packed_free_members [m] \<Longrightarrow>
     8 * alignof ft dvd b \<and> (\<forall>x t. m = Field x t \<longrightarrow> alignof ft dvd alignof t) \<and> wf_cty ft"
proof (induction t f and packed c ms f and ms f and m f arbitrary: b ft and b ft and b ft and b ft
    rule: offset_bits_find_struct_find_union_find_member.induct)
  case (8 packed c m ms f)
  note IH = "8.IH" and prems = "8.prems"
  have rest: "packed_free_members ms" "packed_free_members [m]" "wf_member m" "wf_members ms"
    using prems by (cases m; simp)+
  show ?case
  proof (cases "find_member m f")
    case None
    with IH(2) prems rest have "8 * alignof ft dvd b \<and> alignof ft dvd aligns ms \<and> wf_cty ft"
      by simp
    then show ?thesis using aligns_tl_dvd [OF prems(3)] by (meson dvd_trans)
  next
    case (Some r)
    with prems obtain o' where o': "find_member m f = Some (o', ft)"
      and b: "b = member_start packed c m + o'" by (cases r) auto
    then obtain x t where m: "m = Field x t" by (cases m) auto
    from IH(1) [OF o'] rest m
    have d: "8 * alignof ft dvd o'" "alignof ft dvd alignof t" "wf_cty ft" by simp_all
    have "8 * alignof t dvd member_start packed c m"
      using prems(2) rest m by simp
    with d have "8 * alignof ft dvd b"
      unfolding b by (meson dvd_add dvd_trans mult_dvd_mono dvd_refl)
    with d show ?thesis using aligns_Field_dvd prems(3) m by (meson dvd_trans)
  qed
next
  case (10 m ms f)
  note IH = "10.IH" and prems = "10.prems"
  have rest: "packed_free_members ms" "packed_free_members [m]" "wf_member m" "wf_members ms"
    using prems by (cases m; simp)+
  show ?case
  proof (cases "find_member m f")
    case None
    with IH(2) prems rest have "8 * alignof ft dvd b \<and> alignof ft dvd aligns ms \<and> wf_cty ft"
      by simp
    then show ?thesis using aligns_tl_dvd [OF prems(2)] by (meson dvd_trans)
  next
    case (Some r)
    then obtain x t where m: "m = Field x t" by (cases m) auto
    from IH(1) [of b ft] prems(1) rest Some m
    have "8 * alignof ft dvd b \<and> alignof ft dvd alignof t \<and> wf_cty ft" by simp
    then show ?thesis using aligns_Field_dvd prems(2) m by (meson dvd_trans)
  qed
qed (auto split: if_splits)

end
