(* ===== verification/KernelFs.thy ===== *)
theory KernelFs
  imports CLayout
begin

text \<open>
  The kernel objects the probe dereferences, from \<^verbatim>\<open>bpf/vmlinux.h\<close>: \<^verbatim>\<open>struct file\<close> and
  \<^verbatim>\<open>struct inode\<close>, which \<^verbatim>\<open>filp->f_inode->i_rdev\<close> walks, with the dentry, the character device and
  the super block around them, and every type they hold by value. A struct is a value of type
  \<open>cty\<close> with the members of the header in order; a pointer keeps the spelling of its target; the
  \<^verbatim>\<open>const\<close> of a member held by value is dropped. Each \<open>_layout\<close> lemma computes size and alignment.
\<close>

section \<open>Types\<close>

definition atomic_t :: cty where
  "atomic_t = CStruct [] False
      [Field ''counter'' c_int]"

definition c__u8 :: cty where [layout_simps]:
  "c__u8 = unsigned_char"

definition u8 :: cty where [layout_simps]:
  "u8 = c__u8"

definition c__u16 :: cty where [layout_simps]:
  "c__u16 = short_unsigned_int"

definition u16 :: cty where [layout_simps]:
  "u16 = c__u16"

definition struct_qspinlock :: cty where
  "struct_qspinlock = CStruct ''qspinlock'' False
     [Field [] (CUnion [] False
        [Field ''val'' atomic_t,
         Field [] (CStruct [] False
           [Field ''locked'' u8,
            Field ''pending'' u8]),
         Field [] (CStruct [] False
           [Field ''locked_pending'' u16,
            Field ''tail'' u16])])]"

definition arch_spinlock_t :: cty where [layout_simps]:
  "arch_spinlock_t = struct_qspinlock"

definition struct_raw_spinlock :: cty where
  "struct_raw_spinlock = CStruct ''raw_spinlock'' False
     [Field ''raw_lock'' arch_spinlock_t]"

definition struct_spinlock :: cty where
  "struct_spinlock = CStruct ''spinlock'' False
     [Field [] (CUnion [] False
        [Field ''rlock'' struct_raw_spinlock])]"

definition spinlock_t :: cty where [layout_simps]:
  "spinlock_t = struct_spinlock"

definition fmode_t :: cty where [layout_simps]:
  "fmode_t = unsigned_int"

definition struct_path :: cty where
  "struct_path = CStruct ''path'' False
     [Field ''mnt'' (CPtr ''struct vfsmount''),
      Field ''dentry'' (CPtr ''struct dentry'')]"

definition c__s64 :: cty where [layout_simps]:
  "c__s64 = long_long_int"

definition s64 :: cty where [layout_simps]:
  "s64 = c__s64"

definition atomic64_t :: cty where
  "atomic64_t = CStruct [] False
      [Field ''counter'' s64]"

definition atomic_long_t :: cty where [layout_simps]:
  "atomic_long_t = atomic64_t"

definition raw_spinlock_t :: cty where [layout_simps]:
  "raw_spinlock_t = struct_raw_spinlock"

definition struct_optimistic_spin_queue :: cty where
  "struct_optimistic_spin_queue = CStruct ''optimistic_spin_queue'' False
     [Field ''tail'' atomic_t]"

definition struct_list_head :: cty where
  "struct_list_head = CStruct ''list_head'' False
     [Field ''next'' (CPtr ''struct list_head''),
      Field ''prev'' (CPtr ''struct list_head'')]"

definition struct_mutex :: cty where
  "struct_mutex = CStruct ''mutex'' False
     [Field ''owner'' atomic_long_t,
      Field ''wait_lock'' raw_spinlock_t,
      Field ''osq'' struct_optimistic_spin_queue,
      Field ''wait_list'' struct_list_head]"

definition c__u64 :: cty where [layout_simps]:
  "c__u64 = long_long_unsigned_int"

definition u64 :: cty where [layout_simps]:
  "u64 = c__u64"

definition c__kernel_loff_t :: cty where [layout_simps]:
  "c__kernel_loff_t = long_long_int"

definition loff_t :: cty where [layout_simps]:
  "loff_t = c__kernel_loff_t"

definition c__u32 :: cty where [layout_simps]:
  "c__u32 = unsigned_int"

definition u32 :: cty where [layout_simps]:
  "u32 = c__u32"

definition errseq_t :: cty where [layout_simps]:
  "errseq_t = u32"

definition struct_callback_head :: cty where
  "struct_callback_head = CStruct ''callback_head'' False
     [Field ''next'' (CPtr ''struct callback_head''),
      Field ''func'' (CPtr ''void (struct callback_head *)'')]"

definition struct_llist_node :: cty where
  "struct_llist_node = CStruct ''llist_node'' False
     [Field ''next'' (CPtr ''struct llist_node'')]"

definition struct_file_ra_state :: cty where
  "struct_file_ra_state = CStruct ''file_ra_state'' False
     [Field ''start'' long_unsigned_int,
      Field ''size'' unsigned_int,
      Field ''async_size'' unsigned_int,
      Field ''ra_pages'' unsigned_int,
      Field ''order'' short_unsigned_int,
      Field ''mmap_miss'' short_unsigned_int,
      Field ''prev_pos'' loff_t]"

definition freeptr_t :: cty where
  "freeptr_t = CStruct [] False
      [Field ''v'' long_unsigned_int]"

definition file_ref_t :: cty where
  "file_ref_t = CStruct [] False
      [Field ''refcnt'' atomic64_t]"

definition struct_file :: cty where
  "struct_file = CStruct ''file'' False
     [Field ''f_lock'' spinlock_t,
      Field ''f_mode'' fmode_t,
      Field ''f_op'' (CPtr ''const struct file_operations''),
      Field ''f_mapping'' (CPtr ''struct address_space''),
      Field ''private_data'' (CPtr ''void''),
      Field ''f_inode'' (CPtr ''struct inode''),
      Field ''f_flags'' unsigned_int,
      Field ''f_iocb_flags'' unsigned_int,
      Field ''f_cred'' (CPtr ''const struct cred''),
      Field ''f_owner'' (CPtr ''struct fown_struct''),
      Field [] (CUnion [] False
        [Field ''f_path'' struct_path,
         Field ''__f_path'' struct_path]),
      Field [] (CUnion [] False
        [Field ''f_pos_lock'' struct_mutex,
         Field ''f_pipe'' u64]),
      Field ''f_pos'' loff_t,
      Field ''f_security'' (CPtr ''void''),
      Field ''f_wb_err'' errseq_t,
      Field ''f_sb_err'' errseq_t,
      Field ''f_ep'' (CPtr ''struct hlist_head''),
      Field [] (CUnion [] False
        [Field ''f_task_work'' struct_callback_head,
         Field ''f_llist'' struct_llist_node,
         Field ''f_ra'' struct_file_ra_state,
         Field ''f_freeptr'' freeptr_t]),
      Field ''f_ref'' file_ref_t]"

definition umode_t :: cty where [layout_simps]:
  "umode_t = short_unsigned_int"

definition c__kernel_uid32_t :: cty where [layout_simps]:
  "c__kernel_uid32_t = unsigned_int"

definition uid_t :: cty where [layout_simps]:
  "uid_t = c__kernel_uid32_t"

definition kuid_t :: cty where
  "kuid_t = CStruct [] False
      [Field ''val'' uid_t]"

definition c__kernel_gid32_t :: cty where [layout_simps]:
  "c__kernel_gid32_t = unsigned_int"

definition gid_t :: cty where [layout_simps]:
  "gid_t = c__kernel_gid32_t"

definition kgid_t :: cty where
  "kgid_t = CStruct [] False
      [Field ''val'' gid_t]"

definition c__kernel_dev_t :: cty where [layout_simps]:
  "c__kernel_dev_t = u32"

definition dev_t :: cty where [layout_simps]:
  "dev_t = c__kernel_dev_t"

definition time64_t :: cty where [layout_simps]:
  "time64_t = c__s64"

definition enum_rw_hint :: cty where
  "enum_rw_hint = CEnum 1
     [(''WRITE_LIFE_NOT_SET'', 0), (''WRITE_LIFE_NONE'', 1), (''WRITE_LIFE_SHORT'', 2),
      (''WRITE_LIFE_MEDIUM'', 3), (''WRITE_LIFE_LONG'', 4), (''WRITE_LIFE_EXTREME'', 5),
      (''WRITE_LIFE_HINT_NR'', 6)]"

definition blkcnt_t :: cty where [layout_simps]:
  "blkcnt_t = u64"

definition enum_inode_state_flags_enum :: cty where
  "enum_inode_state_flags_enum = CEnum 4
     [(''I_NEW'', 1), (''I_SYNC'', 2), (''I_LRU_ISOLATING'', 4), (''I_DIRTY_SYNC'', 16),
      (''I_DIRTY_DATASYNC'', 32), (''I_DIRTY_PAGES'', 64), (''I_WILL_FREE'', 128),
      (''I_FREEING'', 256), (''I_CLEAR'', 512), (''I_REFERENCED'', 1024),
      (''I_LINKABLE'', 2048), (''I_DIRTY_TIME'', 4096), (''I_WB_SWITCH'', 8192),
      (''I_OVL_INUSE'', 16384), (''I_CREATING'', 32768), (''I_DONTCACHE'', 65536),
      (''I_SYNC_QUEUED'', 131072), (''I_PINNING_NETFS_WB'', 262144)]"

definition struct_inode_state_flags :: cty where
  "struct_inode_state_flags = CStruct ''inode_state_flags'' False
     [Field ''__state'' enum_inode_state_flags_enum]"

definition struct_rw_semaphore :: cty where
  "struct_rw_semaphore = CStruct ''rw_semaphore'' False
     [Field ''count'' atomic_long_t,
      Field ''owner'' atomic_long_t,
      Field ''osq'' struct_optimistic_spin_queue,
      Field ''wait_lock'' raw_spinlock_t,
      Field ''wait_list'' struct_list_head]"

definition struct_hlist_node :: cty where
  "struct_hlist_node = CStruct ''hlist_node'' False
     [Field ''next'' (CPtr ''struct hlist_node''),
      Field ''pprev'' (CPtr ''struct hlist_node *'')]"

definition struct_hlist_head :: cty where
  "struct_hlist_head = CStruct ''hlist_head'' False
     [Field ''first'' (CPtr ''struct hlist_node'')]"

definition gfp_t :: cty where [layout_simps]:
  "gfp_t = unsigned_int"

definition struct_xarray :: cty where
  "struct_xarray = CStruct ''xarray'' False
     [Field ''xa_lock'' spinlock_t,
      Field ''xa_flags'' gfp_t,
      Field ''xa_head'' (CPtr ''void'')]"

definition struct_rb_root :: cty where
  "struct_rb_root = CStruct ''rb_root'' False
     [Field ''rb_node'' (CPtr ''struct rb_node'')]"

definition struct_rb_root_cached :: cty where
  "struct_rb_root_cached = CStruct ''rb_root_cached'' False
     [Field ''rb_root'' struct_rb_root,
      Field ''rb_leftmost'' (CPtr ''struct rb_node'')]"

definition struct_address_space :: cty where
  "struct_address_space = CStruct ''address_space'' False
     [Field ''host'' (CPtr ''struct inode''),
      Field ''i_pages'' struct_xarray,
      Field ''invalidate_lock'' struct_rw_semaphore,
      Field ''gfp_mask'' gfp_t,
      Field ''i_mmap_writable'' atomic_t,
      Field ''i_mmap'' struct_rb_root_cached,
      Field ''nrpages'' long_unsigned_int,
      Field ''writeback_index'' long_unsigned_int,
      Field ''a_ops'' (CPtr ''const struct address_space_operations''),
      Field ''flags'' long_unsigned_int,
      Field ''wb_err'' errseq_t,
      Field ''i_private_lock'' spinlock_t,
      Field ''i_private_list'' struct_list_head,
      Field ''i_mmap_rwsem'' struct_rw_semaphore,
      Field ''i_private_data'' (CPtr ''void'')]"

definition struct_inode :: cty where
  "struct_inode = CStruct ''inode'' False
     [Field ''i_mode'' umode_t,
      Field ''i_opflags'' short_unsigned_int,
      Field ''i_flags'' unsigned_int,
      Field ''i_acl'' (CPtr ''struct posix_acl''),
      Field ''i_default_acl'' (CPtr ''struct posix_acl''),
      Field ''i_uid'' kuid_t,
      Field ''i_gid'' kgid_t,
      Field ''i_op'' (CPtr ''const struct inode_operations''),
      Field ''i_sb'' (CPtr ''struct super_block''),
      Field ''i_mapping'' (CPtr ''struct address_space''),
      Field ''i_security'' (CPtr ''void''),
      Field ''i_ino'' long_unsigned_int,
      Field [] (CUnion [] False
        [Field ''i_nlink'' unsigned_int,
         Field ''__i_nlink'' unsigned_int]),
      Field ''i_rdev'' dev_t,
      Field ''i_size'' loff_t,
      Field ''i_atime_sec'' time64_t,
      Field ''i_mtime_sec'' time64_t,
      Field ''i_ctime_sec'' time64_t,
      Field ''i_atime_nsec'' u32,
      Field ''i_mtime_nsec'' u32,
      Field ''i_ctime_nsec'' u32,
      Field ''i_generation'' u32,
      Field ''i_lock'' spinlock_t,
      Field ''i_bytes'' short_unsigned_int,
      Field ''i_blkbits'' u8,
      Field ''i_write_hint'' enum_rw_hint,
      Field ''i_blocks'' blkcnt_t,
      Field ''i_state'' struct_inode_state_flags,
      Field ''i_rwsem'' struct_rw_semaphore,
      Field ''dirtied_when'' long_unsigned_int,
      Field ''dirtied_time_when'' long_unsigned_int,
      Field ''i_hash'' struct_hlist_node,
      Field ''i_io_list'' struct_list_head,
      Field ''i_wb'' (CPtr ''struct bdi_writeback''),
      Field ''i_wb_frn_winner'' c_int,
      Field ''i_wb_frn_avg_time'' u16,
      Field ''i_wb_frn_history'' u16,
      Field ''i_lru'' struct_list_head,
      Field ''i_sb_list'' struct_list_head,
      Field ''i_wb_list'' struct_list_head,
      Field [] (CUnion [] False
        [Field ''i_dentry'' struct_hlist_head,
         Field ''i_rcu'' struct_callback_head]),
      Field ''i_version'' atomic64_t,
      Field ''i_sequence'' atomic64_t,
      Field ''i_count'' atomic_t,
      Field ''i_dio_count'' atomic_t,
      Field ''i_writecount'' atomic_t,
      Field ''i_readcount'' atomic_t,
      Field [] (CUnion [] False
        [Field ''i_fop'' (CPtr ''const struct file_operations''),
         Field ''free_inode'' (CPtr ''void (struct inode *)'')]),
      Field ''i_flctx'' (CPtr ''struct file_lock_context''),
      Field ''i_data'' struct_address_space,
      Field [] (CUnion [] False
        [Field ''i_devices'' struct_list_head,
         Field ''i_linklen'' c_int]),
      Field [] (CUnion [] False
        [Field ''i_pipe'' (CPtr ''struct pipe_inode_info''),
         Field ''i_cdev'' (CPtr ''struct cdev''),
         Field ''i_link'' (CPtr ''char''),
         Field ''i_dir_seq'' unsigned_int]),
      Field ''i_fsnotify_mask'' c__u32,
      Field ''i_fsnotify_marks'' (CPtr ''struct fsnotify_mark_connector''),
      Field ''i_private'' (CPtr ''void'')]"

definition struct_seqcount :: cty where
  "struct_seqcount = CStruct ''seqcount'' False
     [Field ''sequence'' unsigned_int]"

definition seqcount_t :: cty where [layout_simps]:
  "seqcount_t = struct_seqcount"

definition struct_seqcount_spinlock :: cty where
  "struct_seqcount_spinlock = CStruct ''seqcount_spinlock'' False
     [Field ''seqcount'' seqcount_t]"

definition seqcount_spinlock_t :: cty where [layout_simps]:
  "seqcount_spinlock_t = struct_seqcount_spinlock"

definition struct_hlist_bl_node :: cty where
  "struct_hlist_bl_node = CStruct ''hlist_bl_node'' False
     [Field ''next'' (CPtr ''struct hlist_bl_node''),
      Field ''pprev'' (CPtr ''struct hlist_bl_node *'')]"

definition struct_qstr :: cty where
  "struct_qstr = CStruct ''qstr'' False
     [Field [] (CUnion [] False
        [Field [] (CStruct [] False
           [Field ''hash'' u32,
            Field ''len'' u32]),
         Field ''hash_len'' u64]),
      Field ''name'' (CPtr ''const unsigned char'')]"

definition union_shortname_store :: cty where
  "union_shortname_store = CUnion ''shortname_store'' False
     [Field ''string'' (CArr 40 unsigned_char),
      Field ''words'' (CArr 5 long_unsigned_int)]"

definition struct_lockref :: cty where
  "struct_lockref = CStruct ''lockref'' False
     [Field [] (CUnion [] False
        [Field ''lock_count'' c__u64,
         Field [] (CStruct [] False
           [Field ''lock'' spinlock_t,
            Field ''count'' c_int])])]"

definition struct_dentry :: cty where
  "struct_dentry = CStruct ''dentry'' False
     [Field ''d_flags'' unsigned_int,
      Field ''d_seq'' seqcount_spinlock_t,
      Field ''d_hash'' struct_hlist_bl_node,
      Field ''d_parent'' (CPtr ''struct dentry''),
      Field [] (CUnion [] False
        [Field ''__d_name'' struct_qstr,
         Field ''d_name'' struct_qstr]),
      Field ''d_inode'' (CPtr ''struct inode''),
      Field ''d_shortname'' union_shortname_store,
      Field ''d_op'' (CPtr ''const struct dentry_operations''),
      Field ''d_sb'' (CPtr ''struct super_block''),
      Field ''d_time'' long_unsigned_int,
      Field ''d_fsdata'' (CPtr ''void''),
      Field ''d_lockref'' struct_lockref,
      Field [] (CUnion [] False
        [Field ''d_lru'' struct_list_head,
         Field ''d_wait'' (CPtr ''wait_queue_head_t'')]),
      Field ''d_sib'' struct_hlist_node,
      Field ''d_children'' struct_hlist_head,
      Field ''d_u'' (CUnion [] False
        [Field ''d_alias'' struct_hlist_node,
         Field ''d_in_lookup_hash'' struct_hlist_bl_node,
         Field ''d_rcu'' struct_callback_head])]"

definition struct_refcount_struct :: cty where
  "struct_refcount_struct = CStruct ''refcount_struct'' False
     [Field ''refs'' atomic_t]"

definition refcount_t :: cty where [layout_simps]:
  "refcount_t = struct_refcount_struct"

definition struct_kref :: cty where
  "struct_kref = CStruct ''kref'' False
     [Field ''refcount'' refcount_t]"

definition struct_kobject :: cty where
  "struct_kobject = CStruct ''kobject'' False
     [Field ''name'' (CPtr ''const char''),
      Field ''entry'' struct_list_head,
      Field ''parent'' (CPtr ''struct kobject''),
      Field ''kset'' (CPtr ''struct kset''),
      Field ''ktype'' (CPtr ''const struct kobj_type''),
      Field ''sd'' (CPtr ''struct kernfs_node''),
      Field ''kref'' struct_kref,
      BitField ''state_initialized'' unsigned_int 1,
      BitField ''state_in_sysfs'' unsigned_int 1,
      BitField ''state_add_uevent_sent'' unsigned_int 1,
      BitField ''state_remove_uevent_sent'' unsigned_int 1,
      BitField ''uevent_suppress'' unsigned_int 1]"

definition struct_cdev :: cty where
  "struct_cdev = CStruct ''cdev'' False
     [Field ''kobj'' struct_kobject,
      Field ''owner'' (CPtr ''struct module''),
      Field ''ops'' (CPtr ''const struct file_operations''),
      Field ''list'' struct_list_head,
      Field ''dev'' dev_t,
      Field ''count'' unsigned_int]"

definition struct_hlist_bl_head :: cty where
  "struct_hlist_bl_head = CStruct ''hlist_bl_head'' False
     [Field ''first'' (CPtr ''struct hlist_bl_node'')]"

definition qsize_t :: cty where [layout_simps]:
  "qsize_t = long_long_int"

definition struct_mem_dqinfo :: cty where
  "struct_mem_dqinfo = CStruct ''mem_dqinfo'' False
     [Field ''dqi_format'' (CPtr ''struct quota_format_type''),
      Field ''dqi_fmt_id'' c_int,
      Field ''dqi_dirty_list'' struct_list_head,
      Field ''dqi_flags'' long_unsigned_int,
      Field ''dqi_bgrace'' unsigned_int,
      Field ''dqi_igrace'' unsigned_int,
      Field ''dqi_max_spc_limit'' qsize_t,
      Field ''dqi_max_ino_limit'' qsize_t,
      Field ''dqi_priv'' (CPtr ''void'')]"

definition struct_quota_info :: cty where
  "struct_quota_info = CStruct ''quota_info'' False
     [Field ''flags'' unsigned_int,
      Field ''dqio_sem'' struct_rw_semaphore,
      Field ''files'' (CArr 3 (CPtr ''struct inode'')),
      Field ''info'' (CArr 3 struct_mem_dqinfo),
      Field ''ops'' (CArr 3 (CPtr ''const struct quota_format_ops''))]"

definition struct_wait_queue_head :: cty where
  "struct_wait_queue_head = CStruct ''wait_queue_head'' False
     [Field ''lock'' spinlock_t,
      Field ''head'' struct_list_head]"

definition wait_queue_head_t :: cty where [layout_simps]:
  "wait_queue_head_t = struct_wait_queue_head"

definition struct_rcu_sync :: cty where
  "struct_rcu_sync = CStruct ''rcu_sync'' False
     [Field ''gp_state'' c_int,
      Field ''gp_count'' c_int,
      Field ''gp_wait'' wait_queue_head_t,
      Field ''cb_head'' struct_callback_head]"

definition struct_rcuwait :: cty where
  "struct_rcuwait = CStruct ''rcuwait'' False
     [Field ''task'' (CPtr ''struct task_struct'')]"

definition struct_percpu_rw_semaphore :: cty where
  "struct_percpu_rw_semaphore = CStruct ''percpu_rw_semaphore'' False
     [Field ''rss'' struct_rcu_sync,
      Field ''read_count'' (CPtr ''unsigned int''),
      Field ''writer'' struct_rcuwait,
      Field ''waiters'' wait_queue_head_t,
      Field ''block'' atomic_t]"

definition struct_sb_writers :: cty where
  "struct_sb_writers = CStruct ''sb_writers'' False
     [Field ''frozen'' short_unsigned_int,
      Field ''freeze_kcount'' c_int,
      Field ''freeze_ucount'' c_int,
      Field ''freeze_owner'' (CPtr ''const void''),
      Field ''rw_sem'' (CArr 3 struct_percpu_rw_semaphore)]"

definition uuid_t :: cty where
  "uuid_t = CStruct [] False
      [Field ''b'' (CArr 16 c__u8)]"

definition bool :: cty where [layout_simps]:
  "bool = c_Bool"

definition struct_list_lru :: cty where
  "struct_list_lru = CStruct ''list_lru'' False
     [Field ''node'' (CPtr ''struct list_lru_node''),
      Field ''list'' struct_list_head,
      Field ''shrinker_id'' c_int,
      Field ''memcg_aware'' bool,
      Field ''xa'' struct_xarray]"

definition work_func_t :: cty where [layout_simps]:
  "work_func_t = CPtr ''void (struct work_struct *)''"

definition struct_work_struct :: cty where
  "struct_work_struct = CStruct ''work_struct'' False
     [Field ''data'' atomic_long_t,
      Field ''entry'' struct_list_head,
      Field ''func'' work_func_t]"

definition struct_super_block :: cty where
  "struct_super_block = CStruct ''super_block'' False
     [Field ''s_list'' struct_list_head,
      Field ''s_dev'' dev_t,
      Field ''s_blocksize_bits'' unsigned_char,
      Field ''s_blocksize'' long_unsigned_int,
      Field ''s_maxbytes'' loff_t,
      Field ''s_type'' (CPtr ''struct file_system_type''),
      Field ''s_op'' (CPtr ''const struct super_operations''),
      Field ''dq_op'' (CPtr ''const struct dquot_operations''),
      Field ''s_qcop'' (CPtr ''const struct quotactl_ops''),
      Field ''s_export_op'' (CPtr ''const struct export_operations''),
      Field ''s_flags'' long_unsigned_int,
      Field ''s_iflags'' long_unsigned_int,
      Field ''s_magic'' long_unsigned_int,
      Field ''s_root'' (CPtr ''struct dentry''),
      Field ''s_umount'' struct_rw_semaphore,
      Field ''s_count'' c_int,
      Field ''s_active'' atomic_t,
      Field ''s_security'' (CPtr ''void''),
      Field ''s_xattr'' (CPtr ''const struct xattr_handler *''),
      Field ''s_cop'' (CPtr ''const struct fscrypt_operations''),
      Field ''s_master_keys'' (CPtr ''struct fscrypt_keyring''),
      Field ''s_vop'' (CPtr ''const struct fsverity_operations''),
      Field ''s_encoding'' (CPtr ''struct unicode_map''),
      Field ''s_encoding_flags'' c__u16,
      Field ''s_roots'' struct_hlist_bl_head,
      Field ''s_mounts'' (CPtr ''struct mount''),
      Field ''s_bdev'' (CPtr ''struct block_device''),
      Field ''s_bdev_file'' (CPtr ''struct file''),
      Field ''s_bdi'' (CPtr ''struct backing_dev_info''),
      Field ''s_mtd'' (CPtr ''struct mtd_info''),
      Field ''s_instances'' struct_hlist_node,
      Field ''s_quota_types'' unsigned_int,
      Field ''s_dquot'' struct_quota_info,
      Field ''s_writers'' struct_sb_writers,
      Field ''s_fs_info'' (CPtr ''void''),
      Field ''s_time_gran'' u32,
      Field ''s_time_min'' time64_t,
      Field ''s_time_max'' time64_t,
      Field ''s_fsnotify_mask'' u32,
      Field ''s_fsnotify_info'' (CPtr ''struct fsnotify_sb_info''),
      Field ''s_id'' (CArr 32 c_char),
      Field ''s_uuid'' uuid_t,
      Field ''s_uuid_len'' u8,
      Field ''s_sysfs_name'' (CArr 37 c_char),
      Field ''s_max_links'' unsigned_int,
      Field ''s_d_flags'' unsigned_int,
      Field ''s_vfs_rename_mutex'' struct_mutex,
      Field ''s_subtype'' (CPtr ''const char''),
      Field ''__s_d_op'' (CPtr ''const struct dentry_operations''),
      Field ''s_shrink'' (CPtr ''struct shrinker''),
      Field ''s_remove_count'' atomic_long_t,
      Field ''s_readonly_remount'' c_int,
      Field ''s_wb_err'' errseq_t,
      Field ''s_dio_done_wq'' (CPtr ''struct workqueue_struct''),
      Field ''s_pins'' struct_hlist_head,
      Field ''s_user_ns'' (CPtr ''struct user_namespace''),
      Field ''s_dentry_lru'' struct_list_lru,
      Field ''s_inode_lru'' struct_list_lru,
      Field ''rcu'' struct_callback_head,
      Field ''destroy_work'' struct_work_struct,
      Field ''s_sync_lock'' struct_mutex,
      Field ''s_stack_depth'' c_int,
      BitField [] c_long 64,
      Field ''s_inode_list_lock'' spinlock_t,
      Field ''s_inodes'' struct_list_head,
      Field ''s_inode_wblist_lock'' spinlock_t,
      Field ''s_inodes_wb'' struct_list_head,
      Field ''s_min_writeback_pages'' c_long,
      Field ''s_pending_errors'' refcount_t]"

section \<open>Sizes and alignments\<close>

lemma atomic_t_layout [layout_simps]:
  "sizeof atomic_t = 4 \<and> alignof atomic_t = 4 \<and> wf_cty atomic_t"
  by (simp add: atomic_t_def base_types layout_eval
      del: One_nat_def)

lemma struct_qspinlock_layout [layout_simps]:
  "sizeof struct_qspinlock = 4 \<and> alignof struct_qspinlock = 4 \<and> wf_cty struct_qspinlock"
  by (simp add: struct_qspinlock_def base_types layout_eval atomic_t_layout u8_def c__u8_def u16_def c__u16_def
      del: One_nat_def)

lemma struct_raw_spinlock_layout [layout_simps]:
  "sizeof struct_raw_spinlock = 4 \<and> alignof struct_raw_spinlock = 4 \<and> wf_cty struct_raw_spinlock"
  by (simp add: struct_raw_spinlock_def base_types layout_eval arch_spinlock_t_def struct_qspinlock_layout
      del: One_nat_def)

lemma struct_spinlock_layout [layout_simps]:
  "sizeof struct_spinlock = 4 \<and> alignof struct_spinlock = 4 \<and> wf_cty struct_spinlock"
  by (simp add: struct_spinlock_def base_types layout_eval struct_raw_spinlock_layout
      del: One_nat_def)

lemma struct_path_layout [layout_simps]:
  "sizeof struct_path = 16 \<and> alignof struct_path = 8 \<and> wf_cty struct_path"
  by (simp add: struct_path_def base_types layout_eval
      del: One_nat_def)

lemma atomic64_t_layout [layout_simps]:
  "sizeof atomic64_t = 8 \<and> alignof atomic64_t = 8 \<and> wf_cty atomic64_t"
  by (simp add: atomic64_t_def base_types layout_eval s64_def c__s64_def
      del: One_nat_def)

lemma struct_optimistic_spin_queue_layout [layout_simps]:
  "sizeof struct_optimistic_spin_queue = 4 \<and> alignof struct_optimistic_spin_queue = 4 \<and> wf_cty struct_optimistic_spin_queue"
  by (simp add: struct_optimistic_spin_queue_def base_types layout_eval atomic_t_layout
      del: One_nat_def)

lemma struct_list_head_layout [layout_simps]:
  "sizeof struct_list_head = 16 \<and> alignof struct_list_head = 8 \<and> wf_cty struct_list_head"
  by (simp add: struct_list_head_def base_types layout_eval
      del: One_nat_def)

lemma struct_mutex_layout [layout_simps]:
  "sizeof struct_mutex = 32 \<and> alignof struct_mutex = 8 \<and> wf_cty struct_mutex"
  by (simp add: struct_mutex_def base_types layout_eval atomic_long_t_def atomic64_t_layout raw_spinlock_t_def
      struct_raw_spinlock_layout struct_optimistic_spin_queue_layout struct_list_head_layout
      del: One_nat_def)

lemma struct_callback_head_layout [layout_simps]:
  "sizeof struct_callback_head = 16 \<and> alignof struct_callback_head = 8 \<and> wf_cty struct_callback_head"
  by (simp add: struct_callback_head_def base_types layout_eval
      del: One_nat_def)

lemma struct_llist_node_layout [layout_simps]:
  "sizeof struct_llist_node = 8 \<and> alignof struct_llist_node = 8 \<and> wf_cty struct_llist_node"
  by (simp add: struct_llist_node_def base_types layout_eval
      del: One_nat_def)

lemma struct_file_ra_state_layout [layout_simps]:
  "sizeof struct_file_ra_state = 32 \<and> alignof struct_file_ra_state = 8 \<and> wf_cty struct_file_ra_state"
  by (simp add: struct_file_ra_state_def base_types layout_eval loff_t_def c__kernel_loff_t_def
      del: One_nat_def)

lemma freeptr_t_layout [layout_simps]:
  "sizeof freeptr_t = 8 \<and> alignof freeptr_t = 8 \<and> wf_cty freeptr_t"
  by (simp add: freeptr_t_def base_types layout_eval
      del: One_nat_def)

lemma file_ref_t_layout [layout_simps]:
  "sizeof file_ref_t = 8 \<and> alignof file_ref_t = 8 \<and> wf_cty file_ref_t"
  by (simp add: file_ref_t_def base_types layout_eval atomic64_t_layout
      del: One_nat_def)

lemma struct_file_layout [layout_simps]:
  "sizeof struct_file = 184 \<and> alignof struct_file = 8 \<and> wf_cty struct_file"
  by (simp add: struct_file_def base_types layout_eval spinlock_t_def struct_spinlock_layout fmode_t_def
      struct_path_layout struct_mutex_layout u64_def c__u64_def loff_t_def c__kernel_loff_t_def
      errseq_t_def u32_def c__u32_def struct_callback_head_layout struct_llist_node_layout
      struct_file_ra_state_layout freeptr_t_layout file_ref_t_layout
      del: One_nat_def)

lemma kuid_t_layout [layout_simps]:
  "sizeof kuid_t = 4 \<and> alignof kuid_t = 4 \<and> wf_cty kuid_t"
  by (simp add: kuid_t_def base_types layout_eval uid_t_def c__kernel_uid32_t_def
      del: One_nat_def)

lemma kgid_t_layout [layout_simps]:
  "sizeof kgid_t = 4 \<and> alignof kgid_t = 4 \<and> wf_cty kgid_t"
  by (simp add: kgid_t_def base_types layout_eval gid_t_def c__kernel_gid32_t_def
      del: One_nat_def)

lemma enum_rw_hint_layout [layout_simps]:
  "sizeof enum_rw_hint = 1 \<and> alignof enum_rw_hint = 1 \<and> wf_cty enum_rw_hint"
  by (simp add: enum_rw_hint_def base_types layout_eval
      del: One_nat_def)

lemma enum_inode_state_flags_enum_layout [layout_simps]:
  "sizeof enum_inode_state_flags_enum = 4 \<and> alignof enum_inode_state_flags_enum = 4 \<and> wf_cty enum_inode_state_flags_enum"
  by (simp add: enum_inode_state_flags_enum_def base_types layout_eval
      del: One_nat_def)

lemma struct_inode_state_flags_layout [layout_simps]:
  "sizeof struct_inode_state_flags = 4 \<and> alignof struct_inode_state_flags = 4 \<and> wf_cty struct_inode_state_flags"
  by (simp add: struct_inode_state_flags_def base_types layout_eval enum_inode_state_flags_enum_layout
      del: One_nat_def)

lemma struct_rw_semaphore_layout [layout_simps]:
  "sizeof struct_rw_semaphore = 40 \<and> alignof struct_rw_semaphore = 8 \<and> wf_cty struct_rw_semaphore"
  by (simp add: struct_rw_semaphore_def base_types layout_eval atomic_long_t_def atomic64_t_layout
      struct_optimistic_spin_queue_layout raw_spinlock_t_def struct_raw_spinlock_layout
      struct_list_head_layout
      del: One_nat_def)

lemma struct_hlist_node_layout [layout_simps]:
  "sizeof struct_hlist_node = 16 \<and> alignof struct_hlist_node = 8 \<and> wf_cty struct_hlist_node"
  by (simp add: struct_hlist_node_def base_types layout_eval
      del: One_nat_def)

lemma struct_hlist_head_layout [layout_simps]:
  "sizeof struct_hlist_head = 8 \<and> alignof struct_hlist_head = 8 \<and> wf_cty struct_hlist_head"
  by (simp add: struct_hlist_head_def base_types layout_eval
      del: One_nat_def)

lemma struct_xarray_layout [layout_simps]:
  "sizeof struct_xarray = 16 \<and> alignof struct_xarray = 8 \<and> wf_cty struct_xarray"
  by (simp add: struct_xarray_def base_types layout_eval spinlock_t_def struct_spinlock_layout gfp_t_def
      del: One_nat_def)

lemma struct_rb_root_layout [layout_simps]:
  "sizeof struct_rb_root = 8 \<and> alignof struct_rb_root = 8 \<and> wf_cty struct_rb_root"
  by (simp add: struct_rb_root_def base_types layout_eval
      del: One_nat_def)

lemma struct_rb_root_cached_layout [layout_simps]:
  "sizeof struct_rb_root_cached = 16 \<and> alignof struct_rb_root_cached = 8 \<and> wf_cty struct_rb_root_cached"
  by (simp add: struct_rb_root_cached_def base_types layout_eval struct_rb_root_layout
      del: One_nat_def)

lemma struct_address_space_layout [layout_simps]:
  "sizeof struct_address_space = 192 \<and> alignof struct_address_space = 8 \<and> wf_cty struct_address_space"
  by (simp add: struct_address_space_def base_types layout_eval struct_xarray_layout struct_rw_semaphore_layout gfp_t_def
      atomic_t_layout struct_rb_root_cached_layout errseq_t_def u32_def c__u32_def spinlock_t_def
      struct_spinlock_layout struct_list_head_layout
      del: One_nat_def)

lemma struct_inode_layout [layout_simps]:
  "sizeof struct_inode = 608 \<and> alignof struct_inode = 8 \<and> wf_cty struct_inode"
  by (simp add: struct_inode_def base_types layout_eval umode_t_def kuid_t_layout kgid_t_layout dev_t_def
      c__kernel_dev_t_def u32_def c__u32_def loff_t_def c__kernel_loff_t_def time64_t_def c__s64_def
      spinlock_t_def struct_spinlock_layout u8_def c__u8_def enum_rw_hint_layout blkcnt_t_def u64_def
      c__u64_def struct_inode_state_flags_layout struct_rw_semaphore_layout struct_hlist_node_layout
      struct_list_head_layout u16_def c__u16_def struct_hlist_head_layout struct_callback_head_layout
      atomic64_t_layout atomic_t_layout struct_address_space_layout
      del: One_nat_def)

lemma struct_seqcount_layout [layout_simps]:
  "sizeof struct_seqcount = 4 \<and> alignof struct_seqcount = 4 \<and> wf_cty struct_seqcount"
  by (simp add: struct_seqcount_def base_types layout_eval
      del: One_nat_def)

lemma struct_seqcount_spinlock_layout [layout_simps]:
  "sizeof struct_seqcount_spinlock = 4 \<and> alignof struct_seqcount_spinlock = 4 \<and> wf_cty struct_seqcount_spinlock"
  by (simp add: struct_seqcount_spinlock_def base_types layout_eval seqcount_t_def struct_seqcount_layout
      del: One_nat_def)

lemma struct_hlist_bl_node_layout [layout_simps]:
  "sizeof struct_hlist_bl_node = 16 \<and> alignof struct_hlist_bl_node = 8 \<and> wf_cty struct_hlist_bl_node"
  by (simp add: struct_hlist_bl_node_def base_types layout_eval
      del: One_nat_def)

lemma struct_qstr_layout [layout_simps]:
  "sizeof struct_qstr = 16 \<and> alignof struct_qstr = 8 \<and> wf_cty struct_qstr"
  by (simp add: struct_qstr_def base_types layout_eval u32_def c__u32_def u64_def c__u64_def
      del: One_nat_def)

lemma union_shortname_store_layout [layout_simps]:
  "sizeof union_shortname_store = 40 \<and> alignof union_shortname_store = 8 \<and> wf_cty union_shortname_store"
  by (simp add: union_shortname_store_def base_types layout_eval
      del: One_nat_def)

lemma struct_lockref_layout [layout_simps]:
  "sizeof struct_lockref = 8 \<and> alignof struct_lockref = 8 \<and> wf_cty struct_lockref"
  by (simp add: struct_lockref_def base_types layout_eval c__u64_def spinlock_t_def struct_spinlock_layout
      del: One_nat_def)

lemma struct_dentry_layout [layout_simps]:
  "sizeof struct_dentry = 192 \<and> alignof struct_dentry = 8 \<and> wf_cty struct_dentry"
  by (simp add: struct_dentry_def base_types layout_eval seqcount_spinlock_t_def struct_seqcount_spinlock_layout
      struct_hlist_bl_node_layout struct_qstr_layout union_shortname_store_layout struct_lockref_layout
      struct_list_head_layout struct_hlist_node_layout struct_hlist_head_layout
      struct_callback_head_layout
      del: One_nat_def)

lemma struct_refcount_struct_layout [layout_simps]:
  "sizeof struct_refcount_struct = 4 \<and> alignof struct_refcount_struct = 4 \<and> wf_cty struct_refcount_struct"
  by (simp add: struct_refcount_struct_def base_types layout_eval atomic_t_layout
      del: One_nat_def)

lemma struct_kref_layout [layout_simps]:
  "sizeof struct_kref = 4 \<and> alignof struct_kref = 4 \<and> wf_cty struct_kref"
  by (simp add: struct_kref_def base_types layout_eval refcount_t_def struct_refcount_struct_layout
      del: One_nat_def)

lemma struct_kobject_layout [layout_simps]:
  "sizeof struct_kobject = 64 \<and> alignof struct_kobject = 8 \<and> wf_cty struct_kobject"
  by (simp add: struct_kobject_def base_types layout_eval struct_list_head_layout struct_kref_layout
      del: One_nat_def)

lemma struct_cdev_layout [layout_simps]:
  "sizeof struct_cdev = 104 \<and> alignof struct_cdev = 8 \<and> wf_cty struct_cdev"
  by (simp add: struct_cdev_def base_types layout_eval struct_kobject_layout struct_list_head_layout dev_t_def
      c__kernel_dev_t_def u32_def c__u32_def
      del: One_nat_def)

lemma struct_hlist_bl_head_layout [layout_simps]:
  "sizeof struct_hlist_bl_head = 8 \<and> alignof struct_hlist_bl_head = 8 \<and> wf_cty struct_hlist_bl_head"
  by (simp add: struct_hlist_bl_head_def base_types layout_eval
      del: One_nat_def)

lemma struct_mem_dqinfo_layout [layout_simps]:
  "sizeof struct_mem_dqinfo = 72 \<and> alignof struct_mem_dqinfo = 8 \<and> wf_cty struct_mem_dqinfo"
  by (simp add: struct_mem_dqinfo_def base_types layout_eval struct_list_head_layout qsize_t_def
      del: One_nat_def)

lemma struct_quota_info_layout [layout_simps]:
  "sizeof struct_quota_info = 312 \<and> alignof struct_quota_info = 8 \<and> wf_cty struct_quota_info"
  by (simp add: struct_quota_info_def base_types layout_eval struct_rw_semaphore_layout struct_mem_dqinfo_layout
      del: One_nat_def)

lemma struct_wait_queue_head_layout [layout_simps]:
  "sizeof struct_wait_queue_head = 24 \<and> alignof struct_wait_queue_head = 8 \<and> wf_cty struct_wait_queue_head"
  by (simp add: struct_wait_queue_head_def base_types layout_eval spinlock_t_def struct_spinlock_layout
      struct_list_head_layout
      del: One_nat_def)

lemma struct_rcu_sync_layout [layout_simps]:
  "sizeof struct_rcu_sync = 48 \<and> alignof struct_rcu_sync = 8 \<and> wf_cty struct_rcu_sync"
  by (simp add: struct_rcu_sync_def base_types layout_eval wait_queue_head_t_def struct_wait_queue_head_layout
      struct_callback_head_layout
      del: One_nat_def)

lemma struct_rcuwait_layout [layout_simps]:
  "sizeof struct_rcuwait = 8 \<and> alignof struct_rcuwait = 8 \<and> wf_cty struct_rcuwait"
  by (simp add: struct_rcuwait_def base_types layout_eval
      del: One_nat_def)

lemma struct_percpu_rw_semaphore_layout [layout_simps]:
  "sizeof struct_percpu_rw_semaphore = 96 \<and> alignof struct_percpu_rw_semaphore = 8 \<and> wf_cty struct_percpu_rw_semaphore"
  by (simp add: struct_percpu_rw_semaphore_def base_types layout_eval struct_rcu_sync_layout struct_rcuwait_layout
      wait_queue_head_t_def struct_wait_queue_head_layout atomic_t_layout
      del: One_nat_def)

lemma struct_sb_writers_layout [layout_simps]:
  "sizeof struct_sb_writers = 312 \<and> alignof struct_sb_writers = 8 \<and> wf_cty struct_sb_writers"
  by (simp add: struct_sb_writers_def base_types layout_eval struct_percpu_rw_semaphore_layout
      del: One_nat_def)

lemma uuid_t_layout [layout_simps]:
  "sizeof uuid_t = 16 \<and> alignof uuid_t = 1 \<and> wf_cty uuid_t"
  by (simp add: uuid_t_def base_types layout_eval c__u8_def
      del: One_nat_def)

lemma struct_list_lru_layout [layout_simps]:
  "sizeof struct_list_lru = 48 \<and> alignof struct_list_lru = 8 \<and> wf_cty struct_list_lru"
  by (simp add: struct_list_lru_def base_types layout_eval struct_list_head_layout bool_def struct_xarray_layout
      del: One_nat_def)

lemma struct_work_struct_layout [layout_simps]:
  "sizeof struct_work_struct = 32 \<and> alignof struct_work_struct = 8 \<and> wf_cty struct_work_struct"
  by (simp add: struct_work_struct_def base_types layout_eval atomic_long_t_def atomic64_t_layout struct_list_head_layout
      work_func_t_def
      del: One_nat_def)

lemma struct_super_block_layout [layout_simps]:
  "sizeof struct_super_block = 1408 \<and> alignof struct_super_block = 8 \<and> wf_cty struct_super_block"
  by (simp add: struct_super_block_def base_types layout_eval struct_list_head_layout dev_t_def c__kernel_dev_t_def
      u32_def c__u32_def loff_t_def c__kernel_loff_t_def struct_rw_semaphore_layout atomic_t_layout
      c__u16_def struct_hlist_bl_head_layout struct_hlist_node_layout struct_quota_info_layout
      struct_sb_writers_layout time64_t_def c__s64_def uuid_t_layout u8_def c__u8_def struct_mutex_layout
      atomic_long_t_def atomic64_t_layout errseq_t_def struct_hlist_head_layout struct_list_lru_layout
      struct_callback_head_layout struct_work_struct_layout spinlock_t_def struct_spinlock_layout
      refcount_t_def struct_refcount_struct_layout
      del: One_nat_def)


end
