(* ===== verification/KernelTask.thy ===== *)
theory KernelTask
  imports KernelFs
begin

text \<open>
  The objects behind \<^verbatim>\<open>bpf_get_current_pid_tgid\<close>: \<^verbatim>\<open>struct task_struct\<close> of \<^verbatim>\<open>bpf/vmlinux.h\<close>
  with its credentials, pid and signal structures and every type they hold by value.
\<close>

section \<open>Types\<close>

definition struct_thread_info :: cty where
  "struct_thread_info = CStruct ''thread_info'' False
     [Field ''flags'' long_unsigned_int,
      Field ''syscall_work'' long_unsigned_int,
      Field ''status'' u32,
      Field ''cpu'' u32]"

definition struct___call_single_node :: cty where
  "struct___call_single_node = CStruct ''__call_single_node'' False
     [Field ''llist'' struct_llist_node,
      Field [] (CUnion [] False
        [Field ''u_flags'' unsigned_int,
         Field ''a_flags'' atomic_t]),
      Field ''src'' u16,
      Field ''dst'' u16]"

definition struct_load_weight :: cty where
  "struct_load_weight = CStruct ''load_weight'' False
     [Field ''weight'' long_unsigned_int,
      Field ''inv_weight'' u32]"

definition struct_rb_node :: cty where
  "struct_rb_node = CStruct ''rb_node'' False
     [Field ''__rb_parent_color'' long_unsigned_int,
      Field ''rb_right'' (CPtr ''struct rb_node''),
      Field ''rb_left'' (CPtr ''struct rb_node'')]"

definition struct_sched_avg :: cty where
  "struct_sched_avg = CStruct ''sched_avg'' False
     [Field ''last_update_time'' u64,
      Field ''load_sum'' u64,
      Field ''runnable_sum'' u64,
      Field ''util_sum'' u32,
      Field ''period_contrib'' u32,
      Field ''load_avg'' long_unsigned_int,
      Field ''runnable_avg'' long_unsigned_int,
      Field ''util_avg'' long_unsigned_int,
      Field ''util_est'' unsigned_int]"

definition struct_sched_entity :: cty where
  "struct_sched_entity = CStruct ''sched_entity'' False
     [Field ''load'' struct_load_weight,
      Field ''run_node'' struct_rb_node,
      Field ''deadline'' u64,
      Field ''min_vruntime'' u64,
      Field ''min_slice'' u64,
      Field ''max_slice'' u64,
      Field ''group_node'' struct_list_head,
      Field ''on_rq'' unsigned_char,
      Field ''sched_delayed'' unsigned_char,
      Field ''rel_deadline'' unsigned_char,
      Field ''custom_slice'' unsigned_char,
      Field ''exec_start'' u64,
      Field ''sum_exec_runtime'' u64,
      Field ''prev_sum_exec_runtime'' u64,
      Field ''vruntime'' u64,
      Field ''vlag'' s64,
      Field ''vprot'' u64,
      Field ''slice'' u64,
      Field ''nr_migrations'' u64,
      Field ''depth'' c_int,
      Field ''parent'' (CPtr ''struct sched_entity''),
      Field ''cfs_rq'' (CPtr ''struct cfs_rq''),
      Field ''my_q'' (CPtr ''struct cfs_rq''),
      Field ''runnable_weight'' long_unsigned_int,
      BitField [] c_long 64,
      BitField [] c_long 64,
      BitField [] c_long 64,
      BitField [] c_long 64,
      BitField [] c_long 64,
      BitField [] c_long 64,
      BitField [] c_long 64,
      Field ''avg'' struct_sched_avg]"

definition struct_sched_rt_entity :: cty where
  "struct_sched_rt_entity = CStruct ''sched_rt_entity'' False
     [Field ''run_list'' struct_list_head,
      Field ''timeout'' long_unsigned_int,
      Field ''watchdog_stamp'' long_unsigned_int,
      Field ''time_slice'' unsigned_int,
      Field ''on_rq'' short_unsigned_int,
      Field ''on_list'' short_unsigned_int,
      Field ''back'' (CPtr ''struct sched_rt_entity'')]"

definition ktime_t :: cty where [layout_simps]:
  "ktime_t = s64"

definition struct_timerqueue_node :: cty where
  "struct_timerqueue_node = CStruct ''timerqueue_node'' False
     [Field ''node'' struct_rb_node,
      Field ''expires'' ktime_t]"

definition struct_hrtimer :: cty where
  "struct_hrtimer = CStruct ''hrtimer'' False
     [Field ''node'' struct_timerqueue_node,
      Field ''_softexpires'' ktime_t,
      Field ''function'' (CPtr ''enum hrtimer_restart (struct hrtimer *)''),
      Field ''base'' (CPtr ''struct hrtimer_clock_base''),
      Field ''state'' u8,
      Field ''is_rel'' u8,
      Field ''is_soft'' u8,
      Field ''is_hard'' u8]"

definition dl_server_pick_f :: cty where [layout_simps]:
  "dl_server_pick_f = CPtr ''struct task_struct * (struct sched_dl_entity *, struct rq_flags *)''"

definition struct_sched_dl_entity :: cty where
  "struct_sched_dl_entity = CStruct ''sched_dl_entity'' False
     [Field ''rb_node'' struct_rb_node,
      Field ''dl_runtime'' u64,
      Field ''dl_deadline'' u64,
      Field ''dl_period'' u64,
      Field ''dl_bw'' u64,
      Field ''dl_density'' u64,
      Field ''runtime'' s64,
      Field ''deadline'' u64,
      Field ''flags'' unsigned_int,
      BitField ''dl_throttled'' unsigned_int 1,
      BitField ''dl_yielded'' unsigned_int 1,
      BitField ''dl_non_contending'' unsigned_int 1,
      BitField ''dl_overrun'' unsigned_int 1,
      BitField ''dl_server'' unsigned_int 1,
      BitField ''dl_server_active'' unsigned_int 1,
      BitField ''dl_defer'' unsigned_int 1,
      BitField ''dl_defer_armed'' unsigned_int 1,
      BitField ''dl_defer_running'' unsigned_int 1,
      BitField ''dl_defer_idle'' unsigned_int 1,
      Field ''dl_timer'' struct_hrtimer,
      Field ''inactive_timer'' struct_hrtimer,
      Field ''rq'' (CPtr ''struct rq''),
      Field ''server_pick_task'' dl_server_pick_f,
      Field ''pi_se'' (CPtr ''struct sched_dl_entity'')]"

definition struct_scx_dsq_list_node :: cty where
  "struct_scx_dsq_list_node = CStruct ''scx_dsq_list_node'' False
     [Field ''node'' struct_list_head,
      Field ''flags'' u32,
      Field ''priv'' u32]"

definition c__s32 :: cty where [layout_simps]:
  "c__s32 = c_int"

definition s32 :: cty where [layout_simps]:
  "s32 = c__s32"

definition struct_sched_ext_entity :: cty where
  "struct_sched_ext_entity = CStruct ''sched_ext_entity'' False
     [Field ''dsq'' (CPtr ''struct scx_dispatch_q''),
      Field ''dsq_list'' struct_scx_dsq_list_node,
      Field ''dsq_priq'' struct_rb_node,
      Field ''dsq_seq'' u32,
      Field ''dsq_flags'' u32,
      Field ''flags'' u32,
      Field ''weight'' u32,
      Field ''sticky_cpu'' s32,
      Field ''holding_cpu'' s32,
      Field ''selected_cpu'' s32,
      Field ''kf_mask'' u32,
      Field ''kf_tasks'' (CArr 2 (CPtr ''struct task_struct'')),
      Field ''ops_state'' atomic_long_t,
      Field ''runnable_node'' struct_list_head,
      Field ''runnable_at'' long_unsigned_int,
      Field ''core_sched_at'' u64,
      Field ''ddsp_dsq_id'' u64,
      Field ''ddsp_enq_flags'' u64,
      Field ''slice'' u64,
      Field ''dsq_vtime'' u64,
      Field ''disallow'' bool,
      Field ''cgrp_moving_from'' (CPtr ''struct cgroup''),
      Field ''tasks_node'' struct_list_head]"

definition struct_uclamp_se :: cty where
  "struct_uclamp_se = CStruct ''uclamp_se'' False
     [BitField ''value'' unsigned_int 11,
      BitField ''bucket_id'' unsigned_int 3,
      BitField ''active'' unsigned_int 1,
      BitField ''user_defined'' unsigned_int 1]"

definition struct_sched_statistics :: cty where
  "struct_sched_statistics = CStruct ''sched_statistics'' False
     [Field ''wait_start'' u64,
      Field ''wait_max'' u64,
      Field ''wait_count'' u64,
      Field ''wait_sum'' u64,
      Field ''iowait_count'' u64,
      Field ''iowait_sum'' u64,
      Field ''sleep_start'' u64,
      Field ''sleep_max'' u64,
      Field ''sum_sleep_runtime'' s64,
      Field ''block_start'' u64,
      Field ''block_max'' u64,
      Field ''sum_block_runtime'' s64,
      Field ''exec_max'' s64,
      Field ''slice_max'' u64,
      Field ''nr_migrations_cold'' u64,
      Field ''nr_failed_migrations_affine'' u64,
      Field ''nr_failed_migrations_running'' u64,
      Field ''nr_failed_migrations_hot'' u64,
      Field ''nr_forced_migrations'' u64,
      Field ''nr_wakeups'' u64,
      Field ''nr_wakeups_sync'' u64,
      Field ''nr_wakeups_migrate'' u64,
      Field ''nr_wakeups_local'' u64,
      Field ''nr_wakeups_remote'' u64,
      Field ''nr_wakeups_affine'' u64,
      Field ''nr_wakeups_affine_attempts'' u64,
      Field ''nr_wakeups_passive'' u64,
      Field ''nr_wakeups_idle'' u64,
      Field ''core_forceidle_sum'' u64,
      BitField [] c_long 64,
      BitField [] c_long 64,
      BitField [] c_long 64]"

definition struct_cpumask :: cty where
  "struct_cpumask = CStruct ''cpumask'' False
     [Field ''bits'' (CArr 128 long_unsigned_int)]"

definition cpumask_t :: cty where [layout_simps]:
  "cpumask_t = struct_cpumask"

definition union_rcu_special :: cty where
  "union_rcu_special = CUnion ''rcu_special'' False
     [Field ''b'' (CStruct [] False
        [Field ''blocked'' u8,
         Field ''need_qs'' u8,
         Field ''exp_hint'' u8,
         Field ''need_mb'' u8]),
      Field ''s'' u32]"

definition struct_timespec64 :: cty where
  "struct_timespec64 = CStruct ''timespec64'' False
     [Field ''tv_sec'' time64_t,
      Field ''tv_nsec'' c_long]"

definition struct_sched_info :: cty where
  "struct_sched_info = CStruct ''sched_info'' False
     [Field ''pcount'' long_unsigned_int,
      Field ''run_delay'' long_long_unsigned_int,
      Field ''max_run_delay'' long_long_unsigned_int,
      Field ''min_run_delay'' long_long_unsigned_int,
      Field ''last_arrival'' long_long_unsigned_int,
      Field ''last_queued'' long_long_unsigned_int,
      Field ''max_run_delay_ts'' struct_timespec64]"

definition struct_plist_node :: cty where
  "struct_plist_node = CStruct ''plist_node'' False
     [Field ''prio'' c_int,
      Field ''prio_list'' struct_list_head,
      Field ''node_list'' struct_list_head]"

definition c__kernel_clockid_t :: cty where [layout_simps]:
  "c__kernel_clockid_t = c_int"

definition clockid_t :: cty where [layout_simps]:
  "clockid_t = c__kernel_clockid_t"

definition enum_timespec_type :: cty where
  "enum_timespec_type = CEnum 4
     [(''TT_NONE'', 0), (''TT_NATIVE'', 1), (''TT_COMPAT'', 2)]"

definition struct_restart_block :: cty where
  "struct_restart_block = CStruct ''restart_block'' False
     [Field ''arch_data'' long_unsigned_int,
      Field ''fn'' (CPtr ''long int (struct restart_block *)''),
      Field [] (CUnion [] False
        [Field ''futex'' (CStruct [] False
           [Field ''uaddr'' (CPtr ''u32''),
            Field ''val'' u32,
            Field ''flags'' u32,
            Field ''bitset'' u32,
            Field ''time'' ktime_t,
            Field ''uaddr2'' (CPtr ''u32'')]),
         Field ''nanosleep'' (CStruct [] False
           [Field ''clockid'' clockid_t,
            Field ''type'' enum_timespec_type,
            Field [] (CUnion [] False
              [Field ''rmtp'' (CPtr ''struct __kernel_timespec''),
               Field ''compat_rmtp'' (CPtr ''struct old_timespec32'')]),
            Field ''expires'' ktime_t]),
         Field ''poll'' (CStruct [] False
           [Field ''ufds'' (CPtr ''struct pollfd''),
            Field ''nfds'' c_int,
            Field ''has_timeout'' c_int,
            Field ''end_time'' struct_timespec64])])]"

definition c__kernel_pid_t :: cty where [layout_simps]:
  "c__kernel_pid_t = c_int"

definition pid_t :: cty where [layout_simps]:
  "pid_t = c__kernel_pid_t"

definition struct_prev_cputime :: cty where
  "struct_prev_cputime = CStruct ''prev_cputime'' False
     [Field ''utime'' u64,
      Field ''stime'' u64,
      Field ''lock'' raw_spinlock_t]"

definition enum_vtime_state :: cty where
  "enum_vtime_state = CEnum 4
     [(''VTIME_INACTIVE'', 0), (''VTIME_IDLE'', 1), (''VTIME_SYS'', 2), (''VTIME_USER'', 3),
      (''VTIME_GUEST'', 4)]"

definition struct_vtime :: cty where
  "struct_vtime = CStruct ''vtime'' False
     [Field ''seqcount'' seqcount_t,
      Field ''starttime'' long_long_unsigned_int,
      Field ''state'' enum_vtime_state,
      Field ''cpu'' unsigned_int,
      Field ''utime'' u64,
      Field ''stime'' u64,
      Field ''gtime'' u64]"

definition struct_timerqueue_head :: cty where
  "struct_timerqueue_head = CStruct ''timerqueue_head'' False
     [Field ''rb_root'' struct_rb_root_cached]"

definition struct_posix_cputimer_base :: cty where
  "struct_posix_cputimer_base = CStruct ''posix_cputimer_base'' False
     [Field ''nextevt'' u64,
      Field ''tqhead'' struct_timerqueue_head]"

definition struct_posix_cputimers :: cty where
  "struct_posix_cputimers = CStruct ''posix_cputimers'' False
     [Field ''bases'' (CArr 3 struct_posix_cputimer_base),
      Field ''timers_active'' unsigned_int,
      Field ''expiry_active'' unsigned_int]"

definition struct_posix_cputimers_work :: cty where
  "struct_posix_cputimers_work = CStruct ''posix_cputimers_work'' False
     [Field ''work'' struct_callback_head,
      Field ''mutex'' struct_mutex,
      Field ''scheduled'' unsigned_int]"

definition struct_sysv_sem :: cty where
  "struct_sysv_sem = CStruct ''sysv_sem'' False
     [Field ''undo_list'' (CPtr ''struct sem_undo_list'')]"

definition struct_sysv_shm :: cty where
  "struct_sysv_shm = CStruct ''sysv_shm'' False
     [Field ''shm_clist'' struct_list_head]"

definition sigset_t :: cty where
  "sigset_t = CStruct [] False
      [Field ''sig'' (CArr 1 long_unsigned_int)]"

definition struct_sigpending :: cty where
  "struct_sigpending = CStruct ''sigpending'' False
     [Field ''list'' struct_list_head,
      Field ''signal'' sigset_t]"

definition c__kernel_ulong_t :: cty where [layout_simps]:
  "c__kernel_ulong_t = long_unsigned_int"

definition c__kernel_size_t :: cty where [layout_simps]:
  "c__kernel_size_t = c__kernel_ulong_t"

definition size_t :: cty where [layout_simps]:
  "size_t = c__kernel_size_t"

definition struct_seccomp :: cty where
  "struct_seccomp = CStruct ''seccomp'' False
     [Field ''mode'' c_int,
      Field ''filter_count'' atomic_t,
      Field ''filter'' (CPtr ''struct seccomp_filter'')]"

definition struct_syscall_user_dispatch :: cty where
  "struct_syscall_user_dispatch = CStruct ''syscall_user_dispatch'' False
     [Field ''selector'' (CPtr ''char''),
      Field ''offset'' long_unsigned_int,
      Field ''len'' long_unsigned_int,
      Field ''on_dispatch'' bool]"

definition struct_wake_q_node :: cty where
  "struct_wake_q_node = CStruct ''wake_q_node'' False
     [Field ''next'' (CPtr ''struct wake_q_node'')]"

definition struct_task_io_accounting :: cty where
  "struct_task_io_accounting = CStruct ''task_io_accounting'' False
     [Field ''rchar'' u64,
      Field ''wchar'' u64,
      Field ''syscr'' u64,
      Field ''syscw'' u64,
      Field ''read_bytes'' u64,
      Field ''write_bytes'' u64,
      Field ''cancelled_write_bytes'' u64]"

definition nodemask_t :: cty where
  "nodemask_t = CStruct [] False
      [Field ''bits'' (CArr 16 long_unsigned_int)]"

definition struct_rseq_event :: cty where
  "struct_rseq_event = CStruct ''rseq_event'' False
     [Field [] (CUnion [] False
        [Field ''all'' u64,
         Field [] (CStruct [] False
           [Field [] (CUnion [] False
              [Field ''events'' u32,
               Field [] (CStruct [] False
                 [Field ''sched_switch'' u8,
                  Field ''ids_changed'' u8,
                  Field ''user_irq'' u8])]),
            Field ''has_rseq'' u8,
            Field ''__pad'' u8,
            Field [] (CUnion [] False
              [Field ''error'' u16,
               Field [] (CStruct [] False
                 [Field ''fatal'' u8,
                  Field ''slowpath'' u8])])])])]"

definition struct_rseq_ids :: cty where
  "struct_rseq_ids = CStruct ''rseq_ids'' False
     [Field [] (CUnion [] False
        [Field ''cpu_cid'' u64,
         Field [] (CStruct [] False
           [Field ''cpu_id'' u32,
            Field ''mm_cid'' u32])]),
      Field ''node_id'' u32]"

definition struct_rseq_data :: cty where
  "struct_rseq_data = CStruct ''rseq_data'' False
     [Field ''usrptr'' (CPtr ''struct rseq''),
      Field ''len'' u32,
      Field ''sig'' u32,
      Field ''event'' struct_rseq_event,
      Field ''ids'' struct_rseq_ids]"

definition struct_sched_mm_cid :: cty where
  "struct_sched_mm_cid = CStruct ''sched_mm_cid'' False
     [Field ''active'' unsigned_int,
      Field ''cid'' unsigned_int,
      Field ''node'' struct_hlist_node]"

definition struct_arch_tlbflush_unmap_batch :: cty where
  "struct_arch_tlbflush_unmap_batch = CStruct ''arch_tlbflush_unmap_batch'' False
     [Field ''cpumask'' struct_cpumask,
      Field ''unmapped_pages'' bool]"

definition struct_tlbflush_unmap_batch :: cty where
  "struct_tlbflush_unmap_batch = CStruct ''tlbflush_unmap_batch'' False
     [Field ''arch'' struct_arch_tlbflush_unmap_batch,
      Field ''flush_required'' bool,
      Field ''writable'' bool]"

definition struct_page_frag :: cty where
  "struct_page_frag = CStruct ''page_frag'' False
     [Field ''page'' (CPtr ''struct page''),
      Field ''offset'' c__u32,
      Field ''size'' c__u32]"

definition struct_lazy_mmu_state :: cty where
  "struct_lazy_mmu_state = CStruct ''lazy_mmu_state'' False
     [Field ''enable_count'' u8,
      Field ''pause_count'' u8]"

definition struct_latency_record :: cty where
  "struct_latency_record = CStruct ''latency_record'' False
     [Field ''backtrace'' (CArr 12 long_unsigned_int),
      Field ''count'' unsigned_int,
      Field ''time'' long_unsigned_int,
      Field ''max'' long_unsigned_int]"

definition struct_kmap_ctrl :: cty where
  "struct_kmap_ctrl = CStruct ''kmap_ctrl'' False
     []"

definition struct_timer_list :: cty where
  "struct_timer_list = CStruct ''timer_list'' False
     [Field ''entry'' struct_hlist_node,
      Field ''expires'' long_unsigned_int,
      Field ''function'' (CPtr ''void (struct timer_list *)''),
      Field ''flags'' u32]"

definition struct_llist_head :: cty where
  "struct_llist_head = CStruct ''llist_head'' False
     [Field ''first'' (CPtr ''struct llist_node'')]"

definition struct_da_monitor :: cty where
  "struct_da_monitor = CStruct ''da_monitor'' False
     [Field ''monitoring'' bool,
      Field ''curr_state'' unsigned_int]"

definition struct_ltl_monitor :: cty where
  "struct_ltl_monitor = CStruct ''ltl_monitor'' False
     []"

definition union_rv_task_monitor :: cty where
  "union_rv_task_monitor = CUnion ''rv_task_monitor'' False
     [Field ''da_mon'' struct_da_monitor,
      Field ''ltl_mon'' struct_ltl_monitor]"

definition union_unwind_task_id :: cty where
  "union_unwind_task_id = CUnion ''unwind_task_id'' False
     [Field [] (CStruct [] False
        [Field ''cpu'' u32,
         Field ''cnt'' u32]),
      Field ''id'' u64]"

definition struct_unwind_task_info :: cty where
  "struct_unwind_task_info = CStruct ''unwind_task_info'' False
     [Field ''unwind_mask'' atomic_long_t,
      Field ''cache'' (CPtr ''struct unwind_cache''),
      Field ''work'' struct_callback_head,
      Field ''id'' union_unwind_task_id]"

definition struct_desc_struct :: cty where
  "struct_desc_struct = CStruct ''desc_struct'' False
     [Field ''limit0'' u16,
      Field ''base0'' u16,
      BitField ''base1'' u16 8,
      BitField ''type'' u16 4,
      BitField ''s'' u16 1,
      BitField ''dpl'' u16 2,
      BitField ''p'' u16 1,
      BitField ''limit1'' u16 4,
      BitField ''avl'' u16 1,
      BitField ''l'' u16 1,
      BitField ''d'' u16 1,
      BitField ''g'' u16 1,
      BitField ''base2'' u16 8]"

definition struct_thread_shstk :: cty where
  "struct_thread_shstk = CStruct ''thread_shstk'' False
     [Field ''base'' u64,
      Field ''size'' u64]"

definition struct_thread_struct :: cty where
  "struct_thread_struct = CStruct ''thread_struct'' False
     [Field ''tls_array'' (CArr 3 struct_desc_struct),
      Field ''sp'' long_unsigned_int,
      Field ''es'' short_unsigned_int,
      Field ''ds'' short_unsigned_int,
      Field ''fsindex'' short_unsigned_int,
      Field ''gsindex'' short_unsigned_int,
      Field ''fsbase'' long_unsigned_int,
      Field ''gsbase'' long_unsigned_int,
      Field ''ptrace_bps'' (CArr 4 (CPtr ''struct perf_event'')),
      Field ''virtual_dr6'' long_unsigned_int,
      Field ''ptrace_dr7'' long_unsigned_int,
      Field ''cr2'' long_unsigned_int,
      Field ''trap_nr'' long_unsigned_int,
      Field ''error_code'' long_unsigned_int,
      Field ''io_bitmap'' (CPtr ''struct io_bitmap''),
      Field ''iopl_emul'' long_unsigned_int,
      BitField ''iopl_warn'' unsigned_int 1,
      Field ''pkru'' u32,
      Field ''features'' long_unsigned_int,
      Field ''features_locked'' long_unsigned_int,
      Field ''shstk'' struct_thread_shstk]"

definition task_struct_members_1 :: "cmember list" where
  "task_struct_members_1 =
     [Field ''thread_info'' struct_thread_info,
      Field ''__state'' unsigned_int,
      Field ''saved_state'' unsigned_int,
      Field ''stack'' (CPtr ''void''),
      Field ''usage'' refcount_t,
      Field ''flags'' unsigned_int,
      Field ''ptrace'' unsigned_int,
      Field ''on_cpu'' c_int,
      Field ''wake_entry'' struct___call_single_node,
      Field ''wakee_flips'' unsigned_int,
      Field ''wakee_flip_decay_ts'' long_unsigned_int,
      Field ''last_wakee'' (CPtr ''struct task_struct''),
      Field ''recent_used_cpu'' c_int,
      Field ''wake_cpu'' c_int,
      Field ''on_rq'' c_int,
      Field ''prio'' c_int,
      Field ''static_prio'' c_int,
      Field ''normal_prio'' c_int,
      Field ''rt_priority'' unsigned_int,
      Field ''se'' struct_sched_entity,
      Field ''rt'' struct_sched_rt_entity,
      Field ''dl'' struct_sched_dl_entity,
      Field ''dl_server'' (CPtr ''struct sched_dl_entity''),
      Field ''scx'' struct_sched_ext_entity,
      Field ''sched_class'' (CPtr ''const struct sched_class''),
      Field ''core_node'' struct_rb_node,
      Field ''core_cookie'' long_unsigned_int,
      Field ''core_occupation'' unsigned_int,
      Field ''sched_task_group'' (CPtr ''struct task_group''),
      Field ''sched_throttle_work'' struct_callback_head,
      Field ''throttle_node'' struct_list_head,
      Field ''throttled'' bool,
      Field ''uclamp_req'' (CArr 2 struct_uclamp_se),
      Field ''uclamp'' (CArr 2 struct_uclamp_se),
      BitField [] c_long 64,
      BitField [] c_long 64,
      BitField [] c_long 64,
      Field ''stats'' struct_sched_statistics,
      Field ''preempt_notifiers'' struct_hlist_head,
      Field ''btrace_seq'' unsigned_int,
      Field ''policy'' unsigned_int,
      Field ''max_allowed_capacity'' long_unsigned_int,
      Field ''nr_cpus_allowed'' c_int,
      Field ''cpus_ptr'' (CPtr ''const cpumask_t''),
      Field ''user_cpus_ptr'' (CPtr ''cpumask_t''),
      Field ''cpus_mask'' cpumask_t,
      Field ''migration_pending'' (CPtr ''void''),
      Field ''migration_disabled'' short_unsigned_int,
      Field ''migration_flags'' short_unsigned_int,
      Field ''rcu_read_lock_nesting'' c_int,
      Field ''rcu_read_unlock_special'' union_rcu_special,
      Field ''rcu_node_entry'' struct_list_head,
      Field ''rcu_blocked_node'' (CPtr ''struct rcu_node''),
      Field ''rcu_tasks_nvcsw'' long_unsigned_int,
      Field ''rcu_tasks_holdout'' u8,
      Field ''rcu_tasks_idx'' u8,
      Field ''rcu_tasks_idle_cpu'' c_int,
      Field ''rcu_tasks_holdout_list'' struct_list_head,
      Field ''rcu_tasks_exit_cpu'' c_int,
      Field ''rcu_tasks_exit_list'' struct_list_head,
      Field ''trc_reader_nesting'' c_int,
      Field ''trc_reader_scp'' (CPtr ''struct srcu_ctr''),
      Field ''sched_info'' struct_sched_info,
      Field ''tasks'' struct_list_head,
      Field ''pushable_tasks'' struct_plist_node,
      Field ''pushable_dl_tasks'' struct_rb_node,
      Field ''mm'' (CPtr ''struct mm_struct''),
      Field ''active_mm'' (CPtr ''struct mm_struct''),
      Field ''exit_state'' c_int,
      Field ''exit_code'' c_int,
      Field ''exit_signal'' c_int,
      Field ''pdeath_signal'' c_int,
      Field ''jobctl'' long_unsigned_int,
      Field ''personality'' unsigned_int,
      BitField ''sched_reset_on_fork'' unsigned_int 1,
      BitField ''sched_contributes_to_load'' unsigned_int 1,
      BitField ''sched_migrated'' unsigned_int 1,
      BitField ''sched_task_hot'' unsigned_int 1,
      BitField [] c_long 28,
      BitField ''sched_remote_wakeup'' unsigned_int 1,
      BitField ''sched_rt_mutex'' unsigned_int 1,
      BitField ''user_dumpable'' unsigned_int 1,
      BitField ''in_execve'' unsigned_int 1,
      BitField ''in_iowait'' unsigned_int 1,
      BitField ''restore_sigmask'' unsigned_int 1,
      BitField ''in_lru_fault'' unsigned_int 1,
      BitField ''no_cgroup_migration'' unsigned_int 1,
      BitField ''frozen'' unsigned_int 1,
      BitField ''use_memdelay'' unsigned_int 1,
      BitField ''in_memstall'' unsigned_int 1,
      BitField ''in_eventfd'' unsigned_int 1,
      BitField ''pasid_activated'' unsigned_int 1,
      BitField ''reported_split_lock'' unsigned_int 1,
      BitField ''in_thrashing'' unsigned_int 1,
      BitField ''in_nf_duplicate'' unsigned_int 1,
      Field ''atomic_flags'' long_unsigned_int,
      Field ''restart_block'' struct_restart_block,
      Field ''pid'' pid_t,
      Field ''tgid'' pid_t,
      Field ''stack_canary'' long_unsigned_int,
      Field ''real_parent'' (CPtr ''struct task_struct''),
      Field ''parent'' (CPtr ''struct task_struct''),
      Field ''children'' struct_list_head,
      Field ''sibling'' struct_list_head,
      Field ''group_leader'' (CPtr ''struct task_struct''),
      Field ''ptraced'' struct_list_head,
      Field ''ptrace_entry'' struct_list_head,
      Field ''thread_pid'' (CPtr ''struct pid''),
      Field ''pid_links'' (CArr 4 struct_hlist_node),
      Field ''thread_node'' struct_list_head,
      Field ''vfork_done'' (CPtr ''struct completion''),
      Field ''set_child_tid'' (CPtr ''int''),
      Field ''clear_child_tid'' (CPtr ''int''),
      Field ''worker_private'' (CPtr ''void''),
      Field ''utime'' u64,
      Field ''stime'' u64,
      Field ''gtime'' u64,
      Field ''prev_cputime'' struct_prev_cputime,
      Field ''vtime'' struct_vtime,
      Field ''tick_dep_mask'' atomic_t,
      Field ''nvcsw'' long_unsigned_int,
      Field ''nivcsw'' long_unsigned_int,
      Field ''start_time'' u64,
      Field ''start_boottime'' u64,
      Field ''min_flt'' long_unsigned_int,
      Field ''maj_flt'' long_unsigned_int,
      Field ''posix_cputimers'' struct_posix_cputimers,
      Field ''posix_cputimers_work'' struct_posix_cputimers_work,
      Field ''ptracer_cred'' (CPtr ''const struct cred''),
      Field ''real_cred'' (CPtr ''const struct cred''),
      Field ''cred'' (CPtr ''const struct cred''),
      Field ''cached_requested_key'' (CPtr ''struct key''),
      Field ''comm'' (CArr 16 c_char),
      Field ''nameidata'' (CPtr ''struct nameidata''),
      Field ''sysvsem'' struct_sysv_sem,
      Field ''sysvshm'' struct_sysv_shm,
      Field ''last_switch_count'' long_unsigned_int,
      Field ''last_switch_time'' long_unsigned_int,
      Field ''fs'' (CPtr ''struct fs_struct''),
      Field ''files'' (CPtr ''struct files_struct'')]"

definition task_struct_members_2 :: "cmember list" where
  "task_struct_members_2 =
     [Field ''io_uring'' (CPtr ''struct io_uring_task''),
      Field ''io_uring_restrict'' (CPtr ''struct io_restriction''),
      Field ''nsproxy'' (CPtr ''struct nsproxy''),
      Field ''signal'' (CPtr ''struct signal_struct''),
      Field ''sighand'' (CPtr ''struct sighand_struct''),
      Field ''blocked'' sigset_t,
      Field ''real_blocked'' sigset_t,
      Field ''saved_sigmask'' sigset_t,
      Field ''pending'' struct_sigpending,
      Field ''sas_ss_sp'' long_unsigned_int,
      Field ''sas_ss_size'' size_t,
      Field ''sas_ss_flags'' unsigned_int,
      Field ''task_works'' (CPtr ''struct callback_head''),
      Field ''audit_context'' (CPtr ''struct audit_context''),
      Field ''loginuid'' kuid_t,
      Field ''sessionid'' unsigned_int,
      Field ''seccomp'' struct_seccomp,
      Field ''syscall_dispatch'' struct_syscall_user_dispatch,
      Field ''parent_exec_id'' u64,
      Field ''self_exec_id'' u64,
      Field ''alloc_lock'' spinlock_t,
      Field ''pi_lock'' raw_spinlock_t,
      Field ''wake_q'' struct_wake_q_node,
      Field ''pi_waiters'' struct_rb_root_cached,
      Field ''pi_top_task'' (CPtr ''struct task_struct''),
      Field ''pi_blocked_on'' (CPtr ''struct rt_mutex_waiter''),
      Field ''blocked_on'' (CPtr ''struct mutex''),
      Field ''blocker'' long_unsigned_int,
      Field ''in_ubsan'' unsigned_int,
      Field ''journal_info'' (CPtr ''void''),
      Field ''bio_list'' (CPtr ''struct bio_list''),
      Field ''plug'' (CPtr ''struct blk_plug''),
      Field ''reclaim_state'' (CPtr ''struct reclaim_state''),
      Field ''io_context'' (CPtr ''struct io_context''),
      Field ''capture_control'' (CPtr ''struct capture_control''),
      Field ''ptrace_message'' long_unsigned_int,
      Field ''last_siginfo'' (CPtr ''kernel_siginfo_t''),
      Field ''ioac'' struct_task_io_accounting,
      Field ''psi_flags'' unsigned_int,
      Field ''acct_rss_mem1'' u64,
      Field ''acct_vm_mem1'' u64,
      Field ''acct_timexpd'' u64,
      Field ''mems_allowed'' nodemask_t,
      Field ''mems_allowed_seq'' seqcount_spinlock_t,
      Field ''cpuset_mem_spread_rotor'' c_int,
      Field ''cgroups'' (CPtr ''struct css_set''),
      Field ''cg_list'' struct_list_head,
      Field ''closid'' u32,
      Field ''rmid'' u32,
      Field ''robust_list'' (CPtr ''struct robust_list_head''),
      Field ''compat_robust_list'' (CPtr ''struct compat_robust_list_head''),
      Field ''pi_state_list'' struct_list_head,
      Field ''pi_state_cache'' (CPtr ''struct futex_pi_state''),
      Field ''futex_exit_mutex'' struct_mutex,
      Field ''futex_state'' unsigned_int,
      Field ''perf_recursion'' (CArr 4 u8),
      Field ''perf_event_ctxp'' (CPtr ''struct perf_event_context''),
      Field ''perf_event_mutex'' struct_mutex,
      Field ''perf_event_list'' struct_list_head,
      Field ''perf_ctx_data'' (CPtr ''struct perf_ctx_data''),
      Field ''mempolicy'' (CPtr ''struct mempolicy''),
      Field ''il_prev'' short_int,
      Field ''il_weight'' u8,
      Field ''pref_node_fork'' short_int,
      Field ''numa_scan_seq'' c_int,
      Field ''numa_scan_period'' unsigned_int,
      Field ''numa_scan_period_max'' unsigned_int,
      Field ''numa_preferred_nid'' c_int,
      Field ''numa_migrate_retry'' long_unsigned_int,
      Field ''node_stamp'' u64,
      Field ''last_task_numa_placement'' u64,
      Field ''last_sum_exec_runtime'' u64,
      Field ''numa_work'' struct_callback_head,
      Field ''numa_group'' (CPtr ''struct numa_group''),
      Field ''numa_faults'' (CPtr ''long unsigned int''),
      Field ''total_numa_faults'' long_unsigned_int,
      Field ''numa_faults_locality'' (CArr 3 long_unsigned_int),
      Field ''numa_pages_migrated'' long_unsigned_int,
      Field ''rseq'' struct_rseq_data,
      Field ''mm_cid'' struct_sched_mm_cid,
      Field ''tlb_ubc'' struct_tlbflush_unmap_batch,
      Field ''splice_pipe'' (CPtr ''struct pipe_inode_info''),
      Field ''task_frag'' struct_page_frag,
      Field ''lazy_mmu_state'' struct_lazy_mmu_state,
      Field ''delays'' (CPtr ''struct task_delay_info''),
      Field ''nr_dirtied'' c_int,
      Field ''nr_dirtied_pause'' c_int,
      Field ''dirty_paused_when'' long_unsigned_int,
      Field ''latency_record_count'' c_int,
      Field ''latency_record'' (CArr 32 struct_latency_record),
      Field ''timer_slack_ns'' u64,
      Field ''default_timer_slack_ns'' u64,
      Field ''curr_ret_stack'' c_int,
      Field ''curr_ret_depth'' c_int,
      Field ''ret_stack'' (CPtr ''long unsigned int''),
      Field ''ftrace_timestamp'' long_long_unsigned_int,
      Field ''ftrace_sleeptime'' long_long_unsigned_int,
      Field ''trace_overrun'' atomic_t,
      Field ''tracing_graph_pause'' atomic_t,
      Field ''trace_recursion'' long_unsigned_int,
      Field ''memcg_nr_pages_over_high'' unsigned_int,
      Field ''active_memcg'' (CPtr ''struct mem_cgroup''),
      Field ''objcg'' (CPtr ''struct obj_cgroup''),
      Field ''throttle_disk'' (CPtr ''struct gendisk''),
      Field ''utask'' (CPtr ''struct uprobe_task''),
      Field ''sequential_io'' unsigned_int,
      Field ''sequential_io_avg'' unsigned_int,
      Field ''kmap_ctrl'' struct_kmap_ctrl,
      Field ''rcu'' struct_callback_head,
      Field ''rcu_users'' refcount_t,
      Field ''pagefault_disabled'' c_int,
      Field ''oom_reaper_list'' (CPtr ''struct task_struct''),
      Field ''oom_reaper_timer'' struct_timer_list,
      Field ''stack_vm_area'' (CPtr ''struct vm_struct''),
      Field ''stack_refcount'' refcount_t,
      Field ''patch_state'' c_int,
      Field ''security'' (CPtr ''void''),
      Field ''bpf_storage'' (CPtr ''struct bpf_local_storage''),
      Field ''bpf_ctx'' (CPtr ''struct bpf_run_ctx''),
      Field ''bpf_net_context'' (CPtr ''struct bpf_net_context''),
      Field ''kstack_offset'' u32,
      Field ''mce_vaddr'' (CPtr ''void''),
      Field ''mce_kflags'' c__u64,
      Field ''mce_addr'' u64,
      BitField ''mce_ripv'' c__u64 1,
      BitField ''mce_whole_page'' c__u64 1,
      BitField ''__mce_reserved'' c__u64 62,
      Field ''mce_kill_me'' struct_callback_head,
      Field ''mce_count'' c_int,
      Field ''kretprobe_instances'' struct_llist_head,
      Field ''rethooks'' struct_llist_head,
      Field ''l1d_flush_kill'' struct_callback_head,
      Field ''rv'' (CArr 2 union_rv_task_monitor),
      Field ''user_event_mm'' (CPtr ''struct user_event_mm''),
      Field ''unwind_info'' struct_unwind_task_info,
      Field ''thread'' struct_thread_struct,
      BitField [] c_long 64,
      BitField [] c_long 64,
      BitField [] c_long 64,
      BitField [] c_long 64,
      BitField [] c_long 64]"

definition struct_task_struct :: cty where
  "struct_task_struct = CStruct ''task_struct'' False (task_struct_members_1 @ task_struct_members_2)"

definition kernel_cap_t :: cty where
  "kernel_cap_t = CStruct [] False
      [Field ''val'' u64]"

definition struct_cred :: cty where
  "struct_cred = CStruct ''cred'' False
     [Field ''usage'' atomic_long_t,
      Field ''uid'' kuid_t,
      Field ''gid'' kgid_t,
      Field ''suid'' kuid_t,
      Field ''sgid'' kgid_t,
      Field ''euid'' kuid_t,
      Field ''egid'' kgid_t,
      Field ''fsuid'' kuid_t,
      Field ''fsgid'' kgid_t,
      Field ''securebits'' unsigned_int,
      Field ''cap_inheritable'' kernel_cap_t,
      Field ''cap_permitted'' kernel_cap_t,
      Field ''cap_effective'' kernel_cap_t,
      Field ''cap_bset'' kernel_cap_t,
      Field ''cap_ambient'' kernel_cap_t,
      Field ''jit_keyring'' unsigned_char,
      Field ''session_keyring'' (CPtr ''struct key''),
      Field ''process_keyring'' (CPtr ''struct key''),
      Field ''thread_keyring'' (CPtr ''struct key''),
      Field ''request_key_auth'' (CPtr ''struct key''),
      Field ''security'' (CPtr ''void''),
      Field ''user'' (CPtr ''struct user_struct''),
      Field ''user_ns'' (CPtr ''struct user_namespace''),
      Field ''ucounts'' (CPtr ''struct ucounts''),
      Field ''group_info'' (CPtr ''struct group_info''),
      Field [] (CUnion [] False
        [Field ''non_rcu'' c_int,
         Field ''rcu'' struct_callback_head])]"

definition struct_rhash_head :: cty where
  "struct_rhash_head = CStruct ''rhash_head'' False
     [Field ''next'' (CPtr ''struct rhash_head'')]"

definition struct_upid :: cty where
  "struct_upid = CStruct ''upid'' False
     [Field ''nr'' c_int,
      Field ''ns'' (CPtr ''struct pid_namespace'')]"

definition struct_pid :: cty where
  "struct_pid = CStruct ''pid'' False
     [Field ''count'' refcount_t,
      Field ''level'' unsigned_int,
      Field ''lock'' spinlock_t,
      Field [] (CStruct [] False
        [Field ''ino'' u64,
         Field ''pidfs_hash'' struct_rhash_head,
         Field ''stashed'' (CPtr ''struct dentry''),
         Field ''attr'' (CPtr ''struct pidfs_attr'')]),
      Field ''tasks'' (CArr 4 struct_hlist_head),
      Field ''inodes'' struct_hlist_head,
      Field ''wait_pidfd'' wait_queue_head_t,
      Field ''rcu'' struct_callback_head,
      Field ''numbers'' (CArr 0 struct_upid)]"

definition struct_cpu_itimer :: cty where
  "struct_cpu_itimer = CStruct ''cpu_itimer'' False
     [Field ''expires'' u64,
      Field ''incr'' u64]"

definition struct_task_cputime_atomic :: cty where
  "struct_task_cputime_atomic = CStruct ''task_cputime_atomic'' False
     [Field ''utime'' atomic64_t,
      Field ''stime'' atomic64_t,
      Field ''sum_exec_runtime'' atomic64_t]"

definition struct_thread_group_cputimer :: cty where
  "struct_thread_group_cputimer = CStruct ''thread_group_cputimer'' False
     [Field ''cputime_atomic'' struct_task_cputime_atomic]"

definition struct_seqlock :: cty where
  "struct_seqlock = CStruct ''seqlock'' False
     [Field ''seqcount'' seqcount_spinlock_t,
      Field ''lock'' spinlock_t]"

definition seqlock_t :: cty where [layout_simps]:
  "seqlock_t = struct_seqlock"

definition struct_rlimit :: cty where
  "struct_rlimit = CStruct ''rlimit'' False
     [Field ''rlim_cur'' c__kernel_ulong_t,
      Field ''rlim_max'' c__kernel_ulong_t]"

definition struct_pacct_struct :: cty where
  "struct_pacct_struct = CStruct ''pacct_struct'' False
     [Field ''ac_flag'' c_int,
      Field ''ac_exitcode'' c_long,
      Field ''ac_mem'' long_unsigned_int,
      Field ''ac_utime'' u64,
      Field ''ac_stime'' u64,
      Field ''ac_minflt'' long_unsigned_int,
      Field ''ac_majflt'' long_unsigned_int]"

definition struct_signal_struct :: cty where
  "struct_signal_struct = CStruct ''signal_struct'' False
     [Field ''sigcnt'' refcount_t,
      Field ''live'' atomic_t,
      Field ''nr_threads'' c_int,
      Field ''quick_threads'' c_int,
      Field ''thread_head'' struct_list_head,
      Field ''wait_chldexit'' wait_queue_head_t,
      Field ''curr_target'' (CPtr ''struct task_struct''),
      Field ''shared_pending'' struct_sigpending,
      Field ''multiprocess'' struct_hlist_head,
      Field ''group_exit_code'' c_int,
      Field ''notify_count'' c_int,
      Field ''group_exec_task'' (CPtr ''struct task_struct''),
      Field ''group_stop_count'' c_int,
      Field ''flags'' unsigned_int,
      Field ''core_state'' (CPtr ''struct core_state''),
      BitField ''is_child_subreaper'' unsigned_int 1,
      BitField ''has_child_subreaper'' unsigned_int 1,
      BitField ''timer_create_restore_ids'' unsigned_int 1,
      Field ''next_posix_timer_id'' atomic_t,
      Field ''posix_timers'' struct_hlist_head,
      Field ''ignored_posix_timers'' struct_hlist_head,
      Field ''real_timer'' struct_hrtimer,
      Field ''it_real_incr'' ktime_t,
      Field ''it'' (CArr 2 struct_cpu_itimer),
      Field ''cputimer'' struct_thread_group_cputimer,
      Field ''posix_cputimers'' struct_posix_cputimers,
      Field ''pids'' (CArr 4 (CPtr ''struct pid'')),
      Field ''tick_dep_mask'' atomic_t,
      Field ''tty_old_pgrp'' (CPtr ''struct pid''),
      Field ''leader'' c_int,
      Field ''tty'' (CPtr ''struct tty_struct''),
      Field ''autogroup'' (CPtr ''struct autogroup''),
      Field ''stats_lock'' seqlock_t,
      Field ''utime'' u64,
      Field ''stime'' u64,
      Field ''cutime'' u64,
      Field ''cstime'' u64,
      Field ''gtime'' u64,
      Field ''cgtime'' u64,
      Field ''prev_cputime'' struct_prev_cputime,
      Field ''nvcsw'' long_unsigned_int,
      Field ''nivcsw'' long_unsigned_int,
      Field ''cnvcsw'' long_unsigned_int,
      Field ''cnivcsw'' long_unsigned_int,
      Field ''min_flt'' long_unsigned_int,
      Field ''maj_flt'' long_unsigned_int,
      Field ''cmin_flt'' long_unsigned_int,
      Field ''cmaj_flt'' long_unsigned_int,
      Field ''inblock'' long_unsigned_int,
      Field ''oublock'' long_unsigned_int,
      Field ''cinblock'' long_unsigned_int,
      Field ''coublock'' long_unsigned_int,
      Field ''maxrss'' long_unsigned_int,
      Field ''cmaxrss'' long_unsigned_int,
      Field ''ioac'' struct_task_io_accounting,
      Field ''sum_sched_runtime'' long_long_unsigned_int,
      Field ''rlim'' (CArr 16 struct_rlimit),
      Field ''pacct'' struct_pacct_struct,
      Field ''stats'' (CPtr ''struct taskstats''),
      Field ''audit_tty'' unsigned_int,
      Field ''tty_audit_buf'' (CPtr ''struct tty_audit_buf''),
      Field ''cgroup_threadgroup_rwsem'' struct_rw_semaphore,
      Field ''oom_flag_origin'' bool,
      Field ''oom_score_adj'' short_int,
      Field ''oom_score_adj_min'' short_int,
      Field ''oom_mm'' (CPtr ''struct mm_struct''),
      Field ''cred_guard_mutex'' struct_mutex,
      Field ''exec_update_lock'' struct_rw_semaphore]"

section \<open>Sizes and alignments\<close>

lemma struct_thread_info_layout [layout_simps]:
  "sizeof struct_thread_info = 24 \<and> alignof struct_thread_info = 8 \<and> wf_cty struct_thread_info"
  by (simp add: struct_thread_info_def base_types layout_eval u32_def c__u32_def
      del: One_nat_def)

lemma struct___call_single_node_layout [layout_simps]:
  "sizeof struct___call_single_node = 16 \<and> alignof struct___call_single_node = 8 \<and> wf_cty struct___call_single_node"
  by (simp add: struct___call_single_node_def base_types layout_eval struct_llist_node_layout atomic_t_layout u16_def
      c__u16_def
      del: One_nat_def)

lemma struct_load_weight_layout [layout_simps]:
  "sizeof struct_load_weight = 16 \<and> alignof struct_load_weight = 8 \<and> wf_cty struct_load_weight"
  by (simp add: struct_load_weight_def base_types layout_eval u32_def c__u32_def
      del: One_nat_def)

lemma struct_rb_node_layout [layout_simps]:
  "sizeof struct_rb_node = 24 \<and> alignof struct_rb_node = 8 \<and> wf_cty struct_rb_node"
  by (simp add: struct_rb_node_def base_types layout_eval
      del: One_nat_def)

lemma struct_sched_avg_layout [layout_simps]:
  "sizeof struct_sched_avg = 64 \<and> alignof struct_sched_avg = 8 \<and> wf_cty struct_sched_avg"
  by (simp add: struct_sched_avg_def base_types layout_eval u64_def c__u64_def u32_def c__u32_def
      del: One_nat_def)

lemma struct_sched_entity_layout [layout_simps]:
  "sizeof struct_sched_entity = 320 \<and> alignof struct_sched_entity = 8 \<and> wf_cty struct_sched_entity"
  by (simp add: struct_sched_entity_def base_types layout_eval struct_load_weight_layout struct_rb_node_layout u64_def
      c__u64_def struct_list_head_layout s64_def c__s64_def struct_sched_avg_layout
      del: One_nat_def)

lemma struct_sched_rt_entity_layout [layout_simps]:
  "sizeof struct_sched_rt_entity = 48 \<and> alignof struct_sched_rt_entity = 8 \<and> wf_cty struct_sched_rt_entity"
  by (simp add: struct_sched_rt_entity_def base_types layout_eval struct_list_head_layout
      del: One_nat_def)

lemma struct_timerqueue_node_layout [layout_simps]:
  "sizeof struct_timerqueue_node = 32 \<and> alignof struct_timerqueue_node = 8 \<and> wf_cty struct_timerqueue_node"
  by (simp add: struct_timerqueue_node_def base_types layout_eval struct_rb_node_layout ktime_t_def s64_def c__s64_def
      del: One_nat_def)

lemma struct_hrtimer_layout [layout_simps]:
  "sizeof struct_hrtimer = 64 \<and> alignof struct_hrtimer = 8 \<and> wf_cty struct_hrtimer"
  by (simp add: struct_hrtimer_def base_types layout_eval struct_timerqueue_node_layout ktime_t_def s64_def c__s64_def
      u8_def c__u8_def
      del: One_nat_def)

lemma struct_sched_dl_entity_layout [layout_simps]:
  "sizeof struct_sched_dl_entity = 240 \<and> alignof struct_sched_dl_entity = 8 \<and> wf_cty struct_sched_dl_entity"
  by (simp add: struct_sched_dl_entity_def base_types layout_eval struct_rb_node_layout u64_def c__u64_def s64_def
      c__s64_def struct_hrtimer_layout dl_server_pick_f_def
      del: One_nat_def)

lemma struct_scx_dsq_list_node_layout [layout_simps]:
  "sizeof struct_scx_dsq_list_node = 24 \<and> alignof struct_scx_dsq_list_node = 8 \<and> wf_cty struct_scx_dsq_list_node"
  by (simp add: struct_scx_dsq_list_node_def base_types layout_eval struct_list_head_layout u32_def c__u32_def
      del: One_nat_def)

lemma struct_sched_ext_entity_layout [layout_simps]:
  "sizeof struct_sched_ext_entity = 208 \<and> alignof struct_sched_ext_entity = 8 \<and> wf_cty struct_sched_ext_entity"
  by (simp add: struct_sched_ext_entity_def base_types layout_eval struct_scx_dsq_list_node_layout struct_rb_node_layout
      u32_def c__u32_def s32_def c__s32_def atomic_long_t_def atomic64_t_layout struct_list_head_layout
      u64_def c__u64_def bool_def
      del: One_nat_def)

lemma struct_uclamp_se_layout [layout_simps]:
  "sizeof struct_uclamp_se = 4 \<and> alignof struct_uclamp_se = 4 \<and> wf_cty struct_uclamp_se"
  by (simp add: struct_uclamp_se_def base_types layout_eval
      del: One_nat_def)

lemma struct_sched_statistics_layout [layout_simps]:
  "sizeof struct_sched_statistics = 256 \<and> alignof struct_sched_statistics = 8 \<and> wf_cty struct_sched_statistics"
  by (simp add: struct_sched_statistics_def base_types layout_eval u64_def c__u64_def s64_def c__s64_def
      del: One_nat_def)

lemma struct_cpumask_layout [layout_simps]:
  "sizeof struct_cpumask = 1024 \<and> alignof struct_cpumask = 8 \<and> wf_cty struct_cpumask"
  by (simp add: struct_cpumask_def base_types layout_eval
      del: One_nat_def)

lemma union_rcu_special_layout [layout_simps]:
  "sizeof union_rcu_special = 4 \<and> alignof union_rcu_special = 4 \<and> wf_cty union_rcu_special"
  by (simp add: union_rcu_special_def base_types layout_eval u8_def c__u8_def u32_def c__u32_def
      del: One_nat_def)

lemma struct_timespec64_layout [layout_simps]:
  "sizeof struct_timespec64 = 16 \<and> alignof struct_timespec64 = 8 \<and> wf_cty struct_timespec64"
  by (simp add: struct_timespec64_def base_types layout_eval time64_t_def c__s64_def
      del: One_nat_def)

lemma struct_sched_info_layout [layout_simps]:
  "sizeof struct_sched_info = 64 \<and> alignof struct_sched_info = 8 \<and> wf_cty struct_sched_info"
  by (simp add: struct_sched_info_def base_types layout_eval struct_timespec64_layout
      del: One_nat_def)

lemma struct_plist_node_layout [layout_simps]:
  "sizeof struct_plist_node = 40 \<and> alignof struct_plist_node = 8 \<and> wf_cty struct_plist_node"
  by (simp add: struct_plist_node_def base_types layout_eval struct_list_head_layout
      del: One_nat_def)

lemma enum_timespec_type_layout [layout_simps]:
  "sizeof enum_timespec_type = 4 \<and> alignof enum_timespec_type = 4 \<and> wf_cty enum_timespec_type"
  by (simp add: enum_timespec_type_def base_types layout_eval
      del: One_nat_def)

lemma struct_restart_block_layout [layout_simps]:
  "sizeof struct_restart_block = 56 \<and> alignof struct_restart_block = 8 \<and> wf_cty struct_restart_block"
  by (simp add: struct_restart_block_def base_types layout_eval u32_def c__u32_def ktime_t_def s64_def c__s64_def
      clockid_t_def c__kernel_clockid_t_def enum_timespec_type_layout struct_timespec64_layout
      del: One_nat_def)

lemma struct_prev_cputime_layout [layout_simps]:
  "sizeof struct_prev_cputime = 24 \<and> alignof struct_prev_cputime = 8 \<and> wf_cty struct_prev_cputime"
  by (simp add: struct_prev_cputime_def base_types layout_eval u64_def c__u64_def raw_spinlock_t_def
      struct_raw_spinlock_layout
      del: One_nat_def)

lemma enum_vtime_state_layout [layout_simps]:
  "sizeof enum_vtime_state = 4 \<and> alignof enum_vtime_state = 4 \<and> wf_cty enum_vtime_state"
  by (simp add: enum_vtime_state_def base_types layout_eval
      del: One_nat_def)

lemma struct_vtime_layout [layout_simps]:
  "sizeof struct_vtime = 48 \<and> alignof struct_vtime = 8 \<and> wf_cty struct_vtime"
  by (simp add: struct_vtime_def base_types layout_eval seqcount_t_def struct_seqcount_layout enum_vtime_state_layout
      u64_def c__u64_def
      del: One_nat_def)

lemma struct_timerqueue_head_layout [layout_simps]:
  "sizeof struct_timerqueue_head = 16 \<and> alignof struct_timerqueue_head = 8 \<and> wf_cty struct_timerqueue_head"
  by (simp add: struct_timerqueue_head_def base_types layout_eval struct_rb_root_cached_layout
      del: One_nat_def)

lemma struct_posix_cputimer_base_layout [layout_simps]:
  "sizeof struct_posix_cputimer_base = 24 \<and> alignof struct_posix_cputimer_base = 8 \<and> wf_cty struct_posix_cputimer_base"
  by (simp add: struct_posix_cputimer_base_def base_types layout_eval u64_def c__u64_def struct_timerqueue_head_layout
      del: One_nat_def)

lemma struct_posix_cputimers_layout [layout_simps]:
  "sizeof struct_posix_cputimers = 80 \<and> alignof struct_posix_cputimers = 8 \<and> wf_cty struct_posix_cputimers"
  by (simp add: struct_posix_cputimers_def base_types layout_eval struct_posix_cputimer_base_layout
      del: One_nat_def)

lemma struct_posix_cputimers_work_layout [layout_simps]:
  "sizeof struct_posix_cputimers_work = 56 \<and> alignof struct_posix_cputimers_work = 8 \<and> wf_cty struct_posix_cputimers_work"
  by (simp add: struct_posix_cputimers_work_def base_types layout_eval struct_callback_head_layout struct_mutex_layout
      del: One_nat_def)

lemma struct_sysv_sem_layout [layout_simps]:
  "sizeof struct_sysv_sem = 8 \<and> alignof struct_sysv_sem = 8 \<and> wf_cty struct_sysv_sem"
  by (simp add: struct_sysv_sem_def base_types layout_eval
      del: One_nat_def)

lemma struct_sysv_shm_layout [layout_simps]:
  "sizeof struct_sysv_shm = 16 \<and> alignof struct_sysv_shm = 8 \<and> wf_cty struct_sysv_shm"
  by (simp add: struct_sysv_shm_def base_types layout_eval struct_list_head_layout
      del: One_nat_def)

lemma sigset_t_layout [layout_simps]:
  "sizeof sigset_t = 8 \<and> alignof sigset_t = 8 \<and> wf_cty sigset_t"
  by (simp add: sigset_t_def base_types layout_eval
      del: One_nat_def)

lemma struct_sigpending_layout [layout_simps]:
  "sizeof struct_sigpending = 24 \<and> alignof struct_sigpending = 8 \<and> wf_cty struct_sigpending"
  by (simp add: struct_sigpending_def base_types layout_eval struct_list_head_layout sigset_t_layout
      del: One_nat_def)

lemma struct_seccomp_layout [layout_simps]:
  "sizeof struct_seccomp = 16 \<and> alignof struct_seccomp = 8 \<and> wf_cty struct_seccomp"
  by (simp add: struct_seccomp_def base_types layout_eval atomic_t_layout
      del: One_nat_def)

lemma struct_syscall_user_dispatch_layout [layout_simps]:
  "sizeof struct_syscall_user_dispatch = 32 \<and> alignof struct_syscall_user_dispatch = 8 \<and> wf_cty struct_syscall_user_dispatch"
  by (simp add: struct_syscall_user_dispatch_def base_types layout_eval bool_def
      del: One_nat_def)

lemma struct_wake_q_node_layout [layout_simps]:
  "sizeof struct_wake_q_node = 8 \<and> alignof struct_wake_q_node = 8 \<and> wf_cty struct_wake_q_node"
  by (simp add: struct_wake_q_node_def base_types layout_eval
      del: One_nat_def)

lemma struct_task_io_accounting_layout [layout_simps]:
  "sizeof struct_task_io_accounting = 56 \<and> alignof struct_task_io_accounting = 8 \<and> wf_cty struct_task_io_accounting"
  by (simp add: struct_task_io_accounting_def base_types layout_eval u64_def c__u64_def
      del: One_nat_def)

lemma nodemask_t_layout [layout_simps]:
  "sizeof nodemask_t = 128 \<and> alignof nodemask_t = 8 \<and> wf_cty nodemask_t"
  by (simp add: nodemask_t_def base_types layout_eval
      del: One_nat_def)

lemma struct_rseq_event_layout [layout_simps]:
  "sizeof struct_rseq_event = 8 \<and> alignof struct_rseq_event = 8 \<and> wf_cty struct_rseq_event"
  by (simp add: struct_rseq_event_def base_types layout_eval u64_def c__u64_def u32_def c__u32_def u8_def c__u8_def
      u16_def c__u16_def
      del: One_nat_def)

lemma struct_rseq_ids_layout [layout_simps]:
  "sizeof struct_rseq_ids = 16 \<and> alignof struct_rseq_ids = 8 \<and> wf_cty struct_rseq_ids"
  by (simp add: struct_rseq_ids_def base_types layout_eval u64_def c__u64_def u32_def c__u32_def
      del: One_nat_def)

lemma struct_rseq_data_layout [layout_simps]:
  "sizeof struct_rseq_data = 40 \<and> alignof struct_rseq_data = 8 \<and> wf_cty struct_rseq_data"
  by (simp add: struct_rseq_data_def base_types layout_eval u32_def c__u32_def struct_rseq_event_layout
      struct_rseq_ids_layout
      del: One_nat_def)

lemma struct_sched_mm_cid_layout [layout_simps]:
  "sizeof struct_sched_mm_cid = 24 \<and> alignof struct_sched_mm_cid = 8 \<and> wf_cty struct_sched_mm_cid"
  by (simp add: struct_sched_mm_cid_def base_types layout_eval struct_hlist_node_layout
      del: One_nat_def)

lemma struct_arch_tlbflush_unmap_batch_layout [layout_simps]:
  "sizeof struct_arch_tlbflush_unmap_batch = 1032 \<and> alignof struct_arch_tlbflush_unmap_batch = 8 \<and> wf_cty struct_arch_tlbflush_unmap_batch"
  by (simp add: struct_arch_tlbflush_unmap_batch_def base_types layout_eval struct_cpumask_layout bool_def
      del: One_nat_def)

lemma struct_tlbflush_unmap_batch_layout [layout_simps]:
  "sizeof struct_tlbflush_unmap_batch = 1040 \<and> alignof struct_tlbflush_unmap_batch = 8 \<and> wf_cty struct_tlbflush_unmap_batch"
  by (simp add: struct_tlbflush_unmap_batch_def base_types layout_eval struct_arch_tlbflush_unmap_batch_layout bool_def
      del: One_nat_def)

lemma struct_page_frag_layout [layout_simps]:
  "sizeof struct_page_frag = 16 \<and> alignof struct_page_frag = 8 \<and> wf_cty struct_page_frag"
  by (simp add: struct_page_frag_def base_types layout_eval c__u32_def
      del: One_nat_def)

lemma struct_lazy_mmu_state_layout [layout_simps]:
  "sizeof struct_lazy_mmu_state = 2 \<and> alignof struct_lazy_mmu_state = 1 \<and> wf_cty struct_lazy_mmu_state"
  by (simp add: struct_lazy_mmu_state_def base_types layout_eval u8_def c__u8_def
      del: One_nat_def)

lemma struct_latency_record_layout [layout_simps]:
  "sizeof struct_latency_record = 120 \<and> alignof struct_latency_record = 8 \<and> wf_cty struct_latency_record"
  by (simp add: struct_latency_record_def base_types layout_eval
      del: One_nat_def)

lemma struct_kmap_ctrl_layout [layout_simps]:
  "sizeof struct_kmap_ctrl = 0 \<and> alignof struct_kmap_ctrl = 1 \<and> wf_cty struct_kmap_ctrl"
  by (simp add: struct_kmap_ctrl_def base_types layout_eval
      del: One_nat_def)

lemma struct_timer_list_layout [layout_simps]:
  "sizeof struct_timer_list = 40 \<and> alignof struct_timer_list = 8 \<and> wf_cty struct_timer_list"
  by (simp add: struct_timer_list_def base_types layout_eval struct_hlist_node_layout u32_def c__u32_def
      del: One_nat_def)

lemma struct_llist_head_layout [layout_simps]:
  "sizeof struct_llist_head = 8 \<and> alignof struct_llist_head = 8 \<and> wf_cty struct_llist_head"
  by (simp add: struct_llist_head_def base_types layout_eval
      del: One_nat_def)

lemma struct_da_monitor_layout [layout_simps]:
  "sizeof struct_da_monitor = 8 \<and> alignof struct_da_monitor = 4 \<and> wf_cty struct_da_monitor"
  by (simp add: struct_da_monitor_def base_types layout_eval bool_def
      del: One_nat_def)

lemma struct_ltl_monitor_layout [layout_simps]:
  "sizeof struct_ltl_monitor = 0 \<and> alignof struct_ltl_monitor = 1 \<and> wf_cty struct_ltl_monitor"
  by (simp add: struct_ltl_monitor_def base_types layout_eval
      del: One_nat_def)

lemma union_rv_task_monitor_layout [layout_simps]:
  "sizeof union_rv_task_monitor = 8 \<and> alignof union_rv_task_monitor = 4 \<and> wf_cty union_rv_task_monitor"
  by (simp add: union_rv_task_monitor_def base_types layout_eval struct_da_monitor_layout struct_ltl_monitor_layout
      del: One_nat_def)

lemma union_unwind_task_id_layout [layout_simps]:
  "sizeof union_unwind_task_id = 8 \<and> alignof union_unwind_task_id = 8 \<and> wf_cty union_unwind_task_id"
  by (simp add: union_unwind_task_id_def base_types layout_eval u32_def c__u32_def u64_def c__u64_def
      del: One_nat_def)

lemma struct_unwind_task_info_layout [layout_simps]:
  "sizeof struct_unwind_task_info = 40 \<and> alignof struct_unwind_task_info = 8 \<and> wf_cty struct_unwind_task_info"
  by (simp add: struct_unwind_task_info_def base_types layout_eval atomic_long_t_def atomic64_t_layout
      struct_callback_head_layout union_unwind_task_id_layout
      del: One_nat_def)

lemma struct_desc_struct_layout [layout_simps]:
  "sizeof struct_desc_struct = 8 \<and> alignof struct_desc_struct = 2 \<and> wf_cty struct_desc_struct"
  by (simp add: struct_desc_struct_def base_types layout_eval u16_def c__u16_def
      del: One_nat_def)

lemma struct_thread_shstk_layout [layout_simps]:
  "sizeof struct_thread_shstk = 16 \<and> alignof struct_thread_shstk = 8 \<and> wf_cty struct_thread_shstk"
  by (simp add: struct_thread_shstk_def base_types layout_eval u64_def c__u64_def
      del: One_nat_def)

lemma struct_thread_struct_layout [layout_simps]:
  "sizeof struct_thread_struct = 184 \<and> alignof struct_thread_struct = 8 \<and> wf_cty struct_thread_struct"
  by (simp add: struct_thread_struct_def base_types layout_eval struct_desc_struct_layout u32_def c__u32_def
      struct_thread_shstk_layout
      del: One_nat_def)

lemma struct_task_struct_layout [layout_simps]:
  "sizeof struct_task_struct = 9920 \<and> alignof struct_task_struct = 8 \<and> wf_cty struct_task_struct"
  by (simp add: struct_task_struct_def base_types layout_eval struct_thread_info_layout refcount_t_def
      struct_refcount_struct_layout struct___call_single_node_layout struct_sched_entity_layout
      struct_sched_rt_entity_layout struct_sched_dl_entity_layout struct_sched_ext_entity_layout
      struct_rb_node_layout struct_callback_head_layout struct_list_head_layout bool_def
      struct_uclamp_se_layout struct_sched_statistics_layout struct_hlist_head_layout cpumask_t_def
      struct_cpumask_layout union_rcu_special_layout u8_def c__u8_def struct_sched_info_layout
      struct_plist_node_layout struct_restart_block_layout pid_t_def c__kernel_pid_t_def
      struct_hlist_node_layout u64_def c__u64_def struct_prev_cputime_layout struct_vtime_layout
      atomic_t_layout struct_posix_cputimers_layout struct_posix_cputimers_work_layout
      struct_sysv_sem_layout struct_sysv_shm_layout sigset_t_layout struct_sigpending_layout size_t_def
      c__kernel_size_t_def c__kernel_ulong_t_def kuid_t_layout struct_seccomp_layout
      struct_syscall_user_dispatch_layout spinlock_t_def struct_spinlock_layout raw_spinlock_t_def
      struct_raw_spinlock_layout struct_wake_q_node_layout struct_rb_root_cached_layout
      struct_task_io_accounting_layout nodemask_t_layout seqcount_spinlock_t_def
      struct_seqcount_spinlock_layout u32_def c__u32_def struct_mutex_layout struct_rseq_data_layout
      struct_sched_mm_cid_layout struct_tlbflush_unmap_batch_layout struct_page_frag_layout
      struct_lazy_mmu_state_layout struct_latency_record_layout struct_kmap_ctrl_layout
      struct_timer_list_layout struct_llist_head_layout union_rv_task_monitor_layout
      struct_unwind_task_info_layout struct_thread_struct_layout task_struct_members_1_def
      task_struct_members_2_def
      del: One_nat_def)

lemma kernel_cap_t_layout [layout_simps]:
  "sizeof kernel_cap_t = 8 \<and> alignof kernel_cap_t = 8 \<and> wf_cty kernel_cap_t"
  by (simp add: kernel_cap_t_def base_types layout_eval u64_def c__u64_def
      del: One_nat_def)

lemma struct_cred_layout [layout_simps]:
  "sizeof struct_cred = 184 \<and> alignof struct_cred = 8 \<and> wf_cty struct_cred"
  by (simp add: struct_cred_def base_types layout_eval atomic_long_t_def atomic64_t_layout kuid_t_layout kgid_t_layout
      kernel_cap_t_layout struct_callback_head_layout
      del: One_nat_def)

lemma struct_rhash_head_layout [layout_simps]:
  "sizeof struct_rhash_head = 8 \<and> alignof struct_rhash_head = 8 \<and> wf_cty struct_rhash_head"
  by (simp add: struct_rhash_head_def base_types layout_eval
      del: One_nat_def)

lemma struct_upid_layout [layout_simps]:
  "sizeof struct_upid = 16 \<and> alignof struct_upid = 8 \<and> wf_cty struct_upid"
  by (simp add: struct_upid_def base_types layout_eval
      del: One_nat_def)

lemma struct_pid_layout [layout_simps]:
  "sizeof struct_pid = 128 \<and> alignof struct_pid = 8 \<and> wf_cty struct_pid"
  by (simp add: struct_pid_def base_types layout_eval refcount_t_def struct_refcount_struct_layout spinlock_t_def
      struct_spinlock_layout u64_def c__u64_def struct_rhash_head_layout struct_hlist_head_layout
      wait_queue_head_t_def struct_wait_queue_head_layout struct_callback_head_layout struct_upid_layout
      del: One_nat_def)

lemma struct_cpu_itimer_layout [layout_simps]:
  "sizeof struct_cpu_itimer = 16 \<and> alignof struct_cpu_itimer = 8 \<and> wf_cty struct_cpu_itimer"
  by (simp add: struct_cpu_itimer_def base_types layout_eval u64_def c__u64_def
      del: One_nat_def)

lemma struct_task_cputime_atomic_layout [layout_simps]:
  "sizeof struct_task_cputime_atomic = 24 \<and> alignof struct_task_cputime_atomic = 8 \<and> wf_cty struct_task_cputime_atomic"
  by (simp add: struct_task_cputime_atomic_def base_types layout_eval atomic64_t_layout
      del: One_nat_def)

lemma struct_thread_group_cputimer_layout [layout_simps]:
  "sizeof struct_thread_group_cputimer = 24 \<and> alignof struct_thread_group_cputimer = 8 \<and> wf_cty struct_thread_group_cputimer"
  by (simp add: struct_thread_group_cputimer_def base_types layout_eval struct_task_cputime_atomic_layout
      del: One_nat_def)

lemma struct_seqlock_layout [layout_simps]:
  "sizeof struct_seqlock = 8 \<and> alignof struct_seqlock = 4 \<and> wf_cty struct_seqlock"
  by (simp add: struct_seqlock_def base_types layout_eval seqcount_spinlock_t_def struct_seqcount_spinlock_layout
      spinlock_t_def struct_spinlock_layout
      del: One_nat_def)

lemma struct_rlimit_layout [layout_simps]:
  "sizeof struct_rlimit = 16 \<and> alignof struct_rlimit = 8 \<and> wf_cty struct_rlimit"
  by (simp add: struct_rlimit_def base_types layout_eval c__kernel_ulong_t_def
      del: One_nat_def)

lemma struct_pacct_struct_layout [layout_simps]:
  "sizeof struct_pacct_struct = 56 \<and> alignof struct_pacct_struct = 8 \<and> wf_cty struct_pacct_struct"
  by (simp add: struct_pacct_struct_def base_types layout_eval u64_def c__u64_def
      del: One_nat_def)

lemma struct_signal_struct_layout [layout_simps]:
  "sizeof struct_signal_struct = 1152 \<and> alignof struct_signal_struct = 8 \<and> wf_cty struct_signal_struct"
  by (simp add: struct_signal_struct_def base_types layout_eval refcount_t_def struct_refcount_struct_layout
      atomic_t_layout struct_list_head_layout wait_queue_head_t_def struct_wait_queue_head_layout
      struct_sigpending_layout struct_hlist_head_layout struct_hrtimer_layout ktime_t_def s64_def
      c__s64_def struct_cpu_itimer_layout struct_thread_group_cputimer_layout
      struct_posix_cputimers_layout seqlock_t_def struct_seqlock_layout u64_def c__u64_def
      struct_prev_cputime_layout struct_task_io_accounting_layout struct_rlimit_layout
      struct_pacct_struct_layout struct_rw_semaphore_layout bool_def struct_mutex_layout
      del: One_nat_def)


end
