(* ===== verification/KernelBpf.thy ===== *)
theory KernelBpf
  imports KernelTask
begin

text \<open>
  The BPF objects of the probe, from \<^verbatim>\<open>bpf/vmlinux.h\<close>: maps (hash, array, ring buffer), programs,
  the tracing link and trampoline of the fentry hook, and the register file.
\<close>

section \<open>Types\<close>

definition enum_bpf_map_type :: cty where
  "enum_bpf_map_type = CEnum 4
     [(''BPF_MAP_TYPE_UNSPEC'', 0), (''BPF_MAP_TYPE_HASH'', 1), (''BPF_MAP_TYPE_ARRAY'', 2),
      (''BPF_MAP_TYPE_PROG_ARRAY'', 3), (''BPF_MAP_TYPE_PERF_EVENT_ARRAY'', 4),
      (''BPF_MAP_TYPE_PERCPU_HASH'', 5), (''BPF_MAP_TYPE_PERCPU_ARRAY'', 6),
      (''BPF_MAP_TYPE_STACK_TRACE'', 7), (''BPF_MAP_TYPE_CGROUP_ARRAY'', 8),
      (''BPF_MAP_TYPE_LRU_HASH'', 9), (''BPF_MAP_TYPE_LRU_PERCPU_HASH'', 10),
      (''BPF_MAP_TYPE_LPM_TRIE'', 11), (''BPF_MAP_TYPE_ARRAY_OF_MAPS'', 12),
      (''BPF_MAP_TYPE_HASH_OF_MAPS'', 13), (''BPF_MAP_TYPE_DEVMAP'', 14),
      (''BPF_MAP_TYPE_SOCKMAP'', 15), (''BPF_MAP_TYPE_CPUMAP'', 16),
      (''BPF_MAP_TYPE_XSKMAP'', 17), (''BPF_MAP_TYPE_SOCKHASH'', 18),
      (''BPF_MAP_TYPE_CGROUP_STORAGE_DEPRECATED'', 19), (''BPF_MAP_TYPE_CGROUP_STORAGE'', 19),
      (''BPF_MAP_TYPE_REUSEPORT_SOCKARRAY'', 20),
      (''BPF_MAP_TYPE_PERCPU_CGROUP_STORAGE_DEPRECATED'', 21),
      (''BPF_MAP_TYPE_PERCPU_CGROUP_STORAGE'', 21), (''BPF_MAP_TYPE_QUEUE'', 22),
      (''BPF_MAP_TYPE_STACK'', 23), (''BPF_MAP_TYPE_SK_STORAGE'', 24),
      (''BPF_MAP_TYPE_DEVMAP_HASH'', 25), (''BPF_MAP_TYPE_STRUCT_OPS'', 26),
      (''BPF_MAP_TYPE_RINGBUF'', 27), (''BPF_MAP_TYPE_INODE_STORAGE'', 28),
      (''BPF_MAP_TYPE_TASK_STORAGE'', 29), (''BPF_MAP_TYPE_BLOOM_FILTER'', 30),
      (''BPF_MAP_TYPE_USER_RINGBUF'', 31), (''BPF_MAP_TYPE_CGRP_STORAGE'', 32),
      (''BPF_MAP_TYPE_ARENA'', 33), (''BPF_MAP_TYPE_INSN_ARRAY'', 34),
      (''__MAX_BPF_MAP_TYPE'', 35)]"

definition struct_bpf_map :: cty where
  "struct_bpf_map = CStruct ''bpf_map'' False
     [Field ''sha'' (CArr 32 u8),
      Field ''ops'' (CPtr ''const struct bpf_map_ops''),
      Field ''inner_map_meta'' (CPtr ''struct bpf_map''),
      Field ''security'' (CPtr ''void''),
      Field ''map_type'' enum_bpf_map_type,
      Field ''key_size'' u32,
      Field ''value_size'' u32,
      Field ''max_entries'' u32,
      Field ''map_extra'' u64,
      Field ''map_flags'' u32,
      Field ''id'' u32,
      Field ''record'' (CPtr ''struct btf_record''),
      Field ''numa_node'' c_int,
      Field ''btf_key_type_id'' u32,
      Field ''btf_value_type_id'' u32,
      Field ''btf_vmlinux_value_type_id'' u32,
      Field ''btf'' (CPtr ''struct btf''),
      Field ''objcg'' (CPtr ''struct obj_cgroup''),
      Field ''name'' (CArr 16 c_char),
      Field ''freeze_mutex'' struct_mutex,
      Field ''refcnt'' atomic64_t,
      Field ''usercnt'' atomic64_t,
      Field [] (CUnion [] False
        [Field ''work'' struct_work_struct,
         Field ''rcu'' struct_callback_head]),
      Field ''writecnt'' atomic64_t,
      Field ''owner_lock'' spinlock_t,
      Field ''owner'' (CPtr ''struct bpf_map_owner''),
      Field ''bypass_spec_v1'' bool,
      Field ''frozen'' bool,
      Field ''free_after_mult_rcu_gp'' bool,
      Field ''free_after_rcu_gp'' bool,
      Field ''sleepable_refcnt'' atomic64_t,
      Field ''elem_count'' (CPtr ''s64''),
      Field ''cookie'' u64,
      Field ''excl_prog_sha'' (CPtr ''char'')]"

definition struct_bpf_array :: cty where
  "struct_bpf_array = CStruct ''bpf_array'' False
     [Field ''map'' struct_bpf_map,
      Field ''elem_size'' u32,
      Field ''index_mask'' u32,
      Field ''aux'' (CPtr ''struct bpf_array_aux''),
      Field [] (CUnion [] False
        [Field [] (CStruct [] False
           [Field ''__empty_value'' (CStruct [] False
              []),
            Field ''value'' (CArr 0 c_char)]),
         Field [] (CStruct [] False
           [Field ''__empty_ptrs'' (CStruct [] False
              []),
            Field ''ptrs'' (CArr 0 (CPtr ''void''))]),
         Field [] (CStruct [] False
           [Field ''__empty_pptrs'' (CStruct [] False
              []),
            Field ''pptrs'' (CArr 0 (CPtr ''void''))])])]"

definition struct_bpf_mem_alloc :: cty where
  "struct_bpf_mem_alloc = CStruct ''bpf_mem_alloc'' False
     [Field ''caches'' (CPtr ''struct bpf_mem_caches''),
      Field ''cache'' (CPtr ''struct bpf_mem_cache''),
      Field ''objcg'' (CPtr ''struct obj_cgroup''),
      Field ''percpu'' bool,
      Field ''work'' struct_work_struct,
      Field ''dtor_ctx_free'' (CPtr ''void (void *)''),
      Field ''dtor_ctx'' (CPtr ''void'')]"

definition struct_pcpu_freelist :: cty where
  "struct_pcpu_freelist = CStruct ''pcpu_freelist'' False
     [Field ''freelist'' (CPtr ''struct pcpu_freelist_head'')]"

definition struct_bpf_lru_list :: cty where
  "struct_bpf_lru_list = CStruct ''bpf_lru_list'' False
     [Field ''lists'' (CArr 3 struct_list_head),
      Field ''counts'' (CArr 2 unsigned_int),
      Field ''next_inactive_rotation'' (CPtr ''struct list_head''),
      Field ''lock'' raw_spinlock_t,
      BitField [] c_long 64,
      BitField [] c_long 64,
      BitField [] c_long 64,
      BitField [] c_long 64,
      BitField [] c_long 64,
      BitField [] c_long 64,
      BitField [] c_long 64]"

definition struct_bpf_common_lru :: cty where
  "struct_bpf_common_lru = CStruct ''bpf_common_lru'' False
     [Field ''lru_list'' struct_bpf_lru_list,
      Field ''local_list'' (CPtr ''struct bpf_lru_locallist''),
      BitField [] c_long 64,
      BitField [] c_long 64,
      BitField [] c_long 64,
      BitField [] c_long 64,
      BitField [] c_long 64,
      BitField [] c_long 64,
      BitField [] c_long 64]"

definition del_from_htab_func :: cty where [layout_simps]:
  "del_from_htab_func = CPtr ''bool (void *, struct bpf_lru_node *)''"

definition struct_bpf_lru :: cty where
  "struct_bpf_lru = CStruct ''bpf_lru'' False
     [Field [] (CUnion [] False
        [Field ''common_lru'' struct_bpf_common_lru,
         Field ''percpu_lru'' (CPtr ''struct bpf_lru_list'')]),
      Field ''del_from_htab'' del_from_htab_func,
      Field ''del_arg'' (CPtr ''void''),
      Field ''hash_offset'' unsigned_int,
      Field ''target_free'' unsigned_int,
      Field ''nr_scans'' unsigned_int,
      Field ''percpu'' bool,
      BitField [] c_long 64,
      BitField [] c_long 64,
      BitField [] c_long 64,
      BitField [] c_long 64]"

definition struct_percpu_counter :: cty where
  "struct_percpu_counter = CStruct ''percpu_counter'' False
     [Field ''lock'' raw_spinlock_t,
      Field ''count'' s64,
      Field ''list'' struct_list_head,
      Field ''counters'' (CPtr ''s32'')]"

definition struct_bpf_htab :: cty where
  "struct_bpf_htab = CStruct ''bpf_htab'' False
     [Field ''map'' struct_bpf_map,
      Field ''ma'' struct_bpf_mem_alloc,
      Field ''pcpu_ma'' struct_bpf_mem_alloc,
      Field ''buckets'' (CPtr ''struct bucket''),
      Field ''elems'' (CPtr ''void''),
      BitField [] c_long 64,
      BitField [] c_long 64,
      BitField [] c_long 64,
      BitField [] c_long 64,
      BitField [] c_long 64,
      BitField [] c_long 64,
      Field [] (CUnion [] False
        [Field ''freelist'' struct_pcpu_freelist,
         Field ''lru'' struct_bpf_lru]),
      Field ''extra_elems'' (CPtr ''struct htab_elem *''),
      Field ''pcount'' struct_percpu_counter,
      Field ''count'' atomic_t,
      Field ''use_percpu_counter'' bool,
      Field ''n_buckets'' u32,
      Field ''elem_size'' u32,
      Field ''hashrnd'' u32,
      BitField [] c_long 64,
      BitField [] c_long 64,
      BitField [] c_long 64,
      BitField [] c_long 64,
      BitField [] c_long 64,
      BitField [] c_long 64,
      BitField [] c_long 64]"

definition struct_bpf_ringbuf_hdr :: cty where
  "struct_bpf_ringbuf_hdr = CStruct ''bpf_ringbuf_hdr'' False
     [Field ''len'' u32,
      Field ''pg_off'' u32]"

definition struct_bpf_ringbuf_map :: cty where
  "struct_bpf_ringbuf_map = CStruct ''bpf_ringbuf_map'' False
     [Field ''map'' struct_bpf_map,
      Field ''rb'' (CPtr ''struct bpf_ringbuf'')]"

definition enum_bpf_prog_type :: cty where
  "enum_bpf_prog_type = CEnum 4
     [(''BPF_PROG_TYPE_UNSPEC'', 0), (''BPF_PROG_TYPE_SOCKET_FILTER'', 1),
      (''BPF_PROG_TYPE_KPROBE'', 2), (''BPF_PROG_TYPE_SCHED_CLS'', 3),
      (''BPF_PROG_TYPE_SCHED_ACT'', 4), (''BPF_PROG_TYPE_TRACEPOINT'', 5),
      (''BPF_PROG_TYPE_XDP'', 6), (''BPF_PROG_TYPE_PERF_EVENT'', 7),
      (''BPF_PROG_TYPE_CGROUP_SKB'', 8), (''BPF_PROG_TYPE_CGROUP_SOCK'', 9),
      (''BPF_PROG_TYPE_LWT_IN'', 10), (''BPF_PROG_TYPE_LWT_OUT'', 11),
      (''BPF_PROG_TYPE_LWT_XMIT'', 12), (''BPF_PROG_TYPE_SOCK_OPS'', 13),
      (''BPF_PROG_TYPE_SK_SKB'', 14), (''BPF_PROG_TYPE_CGROUP_DEVICE'', 15),
      (''BPF_PROG_TYPE_SK_MSG'', 16), (''BPF_PROG_TYPE_RAW_TRACEPOINT'', 17),
      (''BPF_PROG_TYPE_CGROUP_SOCK_ADDR'', 18), (''BPF_PROG_TYPE_LWT_SEG6LOCAL'', 19),
      (''BPF_PROG_TYPE_LIRC_MODE2'', 20), (''BPF_PROG_TYPE_SK_REUSEPORT'', 21),
      (''BPF_PROG_TYPE_FLOW_DISSECTOR'', 22), (''BPF_PROG_TYPE_CGROUP_SYSCTL'', 23),
      (''BPF_PROG_TYPE_RAW_TRACEPOINT_WRITABLE'', 24), (''BPF_PROG_TYPE_CGROUP_SOCKOPT'', 25),
      (''BPF_PROG_TYPE_TRACING'', 26), (''BPF_PROG_TYPE_STRUCT_OPS'', 27),
      (''BPF_PROG_TYPE_EXT'', 28), (''BPF_PROG_TYPE_LSM'', 29),
      (''BPF_PROG_TYPE_SK_LOOKUP'', 30), (''BPF_PROG_TYPE_SYSCALL'', 31),
      (''BPF_PROG_TYPE_NETFILTER'', 32), (''__MAX_BPF_PROG_TYPE'', 33)]"

definition enum_bpf_attach_type :: cty where
  "enum_bpf_attach_type = CEnum 4
     [(''BPF_CGROUP_INET_INGRESS'', 0), (''BPF_CGROUP_INET_EGRESS'', 1),
      (''BPF_CGROUP_INET_SOCK_CREATE'', 2), (''BPF_CGROUP_SOCK_OPS'', 3),
      (''BPF_SK_SKB_STREAM_PARSER'', 4), (''BPF_SK_SKB_STREAM_VERDICT'', 5),
      (''BPF_CGROUP_DEVICE'', 6), (''BPF_SK_MSG_VERDICT'', 7), (''BPF_CGROUP_INET4_BIND'', 8),
      (''BPF_CGROUP_INET6_BIND'', 9), (''BPF_CGROUP_INET4_CONNECT'', 10),
      (''BPF_CGROUP_INET6_CONNECT'', 11), (''BPF_CGROUP_INET4_POST_BIND'', 12),
      (''BPF_CGROUP_INET6_POST_BIND'', 13), (''BPF_CGROUP_UDP4_SENDMSG'', 14),
      (''BPF_CGROUP_UDP6_SENDMSG'', 15), (''BPF_LIRC_MODE2'', 16), (''BPF_FLOW_DISSECTOR'', 17),
      (''BPF_CGROUP_SYSCTL'', 18), (''BPF_CGROUP_UDP4_RECVMSG'', 19),
      (''BPF_CGROUP_UDP6_RECVMSG'', 20), (''BPF_CGROUP_GETSOCKOPT'', 21),
      (''BPF_CGROUP_SETSOCKOPT'', 22), (''BPF_TRACE_RAW_TP'', 23), (''BPF_TRACE_FENTRY'', 24),
      (''BPF_TRACE_FEXIT'', 25), (''BPF_MODIFY_RETURN'', 26), (''BPF_LSM_MAC'', 27),
      (''BPF_TRACE_ITER'', 28), (''BPF_CGROUP_INET4_GETPEERNAME'', 29),
      (''BPF_CGROUP_INET6_GETPEERNAME'', 30), (''BPF_CGROUP_INET4_GETSOCKNAME'', 31),
      (''BPF_CGROUP_INET6_GETSOCKNAME'', 32), (''BPF_XDP_DEVMAP'', 33),
      (''BPF_CGROUP_INET_SOCK_RELEASE'', 34), (''BPF_XDP_CPUMAP'', 35), (''BPF_SK_LOOKUP'', 36),
      (''BPF_XDP'', 37), (''BPF_SK_SKB_VERDICT'', 38), (''BPF_SK_REUSEPORT_SELECT'', 39),
      (''BPF_SK_REUSEPORT_SELECT_OR_MIGRATE'', 40), (''BPF_PERF_EVENT'', 41),
      (''BPF_TRACE_KPROBE_MULTI'', 42), (''BPF_LSM_CGROUP'', 43), (''BPF_STRUCT_OPS'', 44),
      (''BPF_NETFILTER'', 45), (''BPF_TCX_INGRESS'', 46), (''BPF_TCX_EGRESS'', 47),
      (''BPF_TRACE_UPROBE_MULTI'', 48), (''BPF_CGROUP_UNIX_CONNECT'', 49),
      (''BPF_CGROUP_UNIX_SENDMSG'', 50), (''BPF_CGROUP_UNIX_RECVMSG'', 51),
      (''BPF_CGROUP_UNIX_GETPEERNAME'', 52), (''BPF_CGROUP_UNIX_GETSOCKNAME'', 53),
      (''BPF_NETKIT_PRIMARY'', 54), (''BPF_NETKIT_PEER'', 55),
      (''BPF_TRACE_KPROBE_SESSION'', 56), (''BPF_TRACE_UPROBE_SESSION'', 57),
      (''BPF_TRACE_FSESSION'', 58), (''__MAX_BPF_ATTACH_TYPE'', 59)]"

definition struct_sock_filter :: cty where
  "struct_sock_filter = CStruct ''sock_filter'' False
     [Field ''code'' c__u16,
      Field ''jt'' c__u8,
      Field ''jf'' c__u8,
      Field ''k'' c__u32]"

definition c__s16 :: cty where [layout_simps]:
  "c__s16 = short_int"

definition struct_bpf_insn :: cty where
  "struct_bpf_insn = CStruct ''bpf_insn'' False
     [Field ''code'' c__u8,
      BitField ''dst_reg'' c__u8 4,
      BitField ''src_reg'' c__u8 4,
      Field ''off'' c__s16,
      Field ''imm'' c__s32]"

definition struct_bpf_prog :: cty where
  "struct_bpf_prog = CStruct ''bpf_prog'' False
     [Field ''pages'' u16,
      BitField ''jited'' u16 1,
      BitField ''jit_requested'' u16 1,
      BitField ''gpl_compatible'' u16 1,
      BitField ''cb_access'' u16 1,
      BitField ''dst_needed'' u16 1,
      BitField ''blinding_requested'' u16 1,
      BitField ''blinded'' u16 1,
      BitField ''is_func'' u16 1,
      BitField ''kprobe_override'' u16 1,
      BitField ''has_callchain_buf'' u16 1,
      BitField ''enforce_expected_attach_type'' u16 1,
      BitField ''call_get_stack'' u16 1,
      BitField ''call_get_func_ip'' u16 1,
      BitField ''call_session_cookie'' u16 1,
      BitField ''tstamp_type_access'' u16 1,
      BitField ''sleepable'' u16 1,
      Field ''type'' enum_bpf_prog_type,
      Field ''expected_attach_type'' enum_bpf_attach_type,
      Field ''len'' u32,
      Field ''jited_len'' u32,
      Field [] (CUnion [] False
        [Field ''digest'' (CArr 32 u8),
         Field ''tag'' (CArr 8 u8)]),
      Field ''stats'' (CPtr ''struct bpf_prog_stats''),
      Field ''active'' (CPtr ''u8''),
      Field ''bpf_func'' (CPtr ''unsigned int (const void *, const struct bpf_insn *)''),
      Field ''aux'' (CPtr ''struct bpf_prog_aux''),
      Field ''orig_prog'' (CPtr ''struct sock_fprog_kern''),
      Field [] (CUnion [] False
        [Field [] (CStruct [] False
           [Field ''__empty_insns'' (CStruct [] False
              []),
            Field ''insns'' (CArr 0 struct_sock_filter)]),
         Field [] (CStruct [] False
           [Field ''__empty_insnsi'' (CStruct [] False
              []),
            Field ''insnsi'' (CArr 0 struct_bpf_insn)])])]"

definition struct_latch_tree_node :: cty where
  "struct_latch_tree_node = CStruct ''latch_tree_node'' False
     [Field ''node'' (CArr 2 struct_rb_node)]"

definition struct_bpf_ksym :: cty where
  "struct_bpf_ksym = CStruct ''bpf_ksym'' False
     [Field ''start'' long_unsigned_int,
      Field ''end'' long_unsigned_int,
      Field ''name'' (CArr 512 c_char),
      Field ''lnode'' struct_list_head,
      Field ''tnode'' struct_latch_tree_node,
      Field ''prog'' bool,
      Field ''fp_start'' u32,
      Field ''fp_end'' u32]"

definition struct_bpf_stream :: cty where
  "struct_bpf_stream = CStruct ''bpf_stream'' False
     [Field ''capacity'' atomic_t,
      Field ''log'' struct_llist_head,
      Field ''lock'' struct_mutex,
      Field ''backlog_head'' (CPtr ''struct llist_node''),
      Field ''backlog_tail'' (CPtr ''struct llist_node'')]"

definition struct_bpf_prog_aux :: cty where
  "struct_bpf_prog_aux = CStruct ''bpf_prog_aux'' False
     [Field ''refcnt'' atomic64_t,
      Field ''used_map_cnt'' u32,
      Field ''used_btf_cnt'' u32,
      Field ''max_ctx_offset'' u32,
      Field ''max_pkt_offset'' u32,
      Field ''max_tp_access'' u32,
      Field ''stack_depth'' u32,
      Field ''id'' u32,
      Field ''func_cnt'' u32,
      Field ''real_func_cnt'' u32,
      Field ''func_idx'' u32,
      Field ''attach_btf_id'' u32,
      Field ''attach_st_ops_member_off'' u32,
      Field ''ctx_arg_info_size'' u32,
      Field ''max_rdonly_access'' u32,
      Field ''max_rdwr_access'' u32,
      Field ''subprog_start'' u32,
      Field ''attach_btf'' (CPtr ''struct btf''),
      Field ''ctx_arg_info'' (CPtr ''struct bpf_ctx_arg_aux''),
      Field ''priv_stack_ptr'' (CPtr ''void''),
      Field ''dst_mutex'' struct_mutex,
      Field ''dst_prog'' (CPtr ''struct bpf_prog''),
      Field ''dst_trampoline'' (CPtr ''struct bpf_trampoline''),
      Field ''saved_dst_prog_type'' enum_bpf_prog_type,
      Field ''saved_dst_attach_type'' enum_bpf_attach_type,
      Field ''verifier_zext'' bool,
      Field ''dev_bound'' bool,
      Field ''offload_requested'' bool,
      Field ''attach_btf_trace'' bool,
      Field ''attach_tracing_prog'' bool,
      Field ''func_proto_unreliable'' bool,
      Field ''tail_call_reachable'' bool,
      Field ''xdp_has_frags'' bool,
      Field ''exception_cb'' bool,
      Field ''exception_boundary'' bool,
      Field ''is_extended'' bool,
      Field ''jits_use_priv_stack'' bool,
      Field ''priv_stack_requested'' bool,
      Field ''changes_pkt_data'' bool,
      Field ''might_sleep'' bool,
      Field ''kprobe_write_ctx'' bool,
      Field ''prog_array_member_cnt'' u64,
      Field ''ext_mutex'' struct_mutex,
      Field ''arena'' (CPtr ''struct bpf_arena''),
      Field ''recursion_detected'' (CPtr ''void (struct bpf_prog *)''),
      Field ''attach_func_proto'' (CPtr ''const struct btf_type''),
      Field ''attach_func_name'' (CPtr ''const char''),
      Field ''func'' (CPtr ''struct bpf_prog *''),
      Field ''main_prog_aux'' (CPtr ''struct bpf_prog_aux''),
      Field ''jit_data'' (CPtr ''void''),
      Field ''poke_tab'' (CPtr ''struct bpf_jit_poke_descriptor''),
      Field ''kfunc_tab'' (CPtr ''struct bpf_kfunc_desc_tab''),
      Field ''kfunc_btf_tab'' (CPtr ''struct bpf_kfunc_btf_tab''),
      Field ''size_poke_tab'' u32,
      Field ''ksym'' struct_bpf_ksym,
      Field ''ops'' (CPtr ''const struct bpf_prog_ops''),
      Field ''st_ops'' (CPtr ''const struct bpf_struct_ops''),
      Field ''used_maps'' (CPtr ''struct bpf_map *''),
      Field ''used_maps_mutex'' struct_mutex,
      Field ''used_btfs'' (CPtr ''struct btf_mod_pair''),
      Field ''prog'' (CPtr ''struct bpf_prog''),
      Field ''user'' (CPtr ''struct user_struct''),
      Field ''load_time'' u64,
      Field ''verified_insns'' u32,
      Field ''cgroup_atype'' c_int,
      Field ''cgroup_storage'' (CArr 2 (CPtr ''struct bpf_map'')),
      Field ''name'' (CArr 16 c_char),
      Field ''bpf_exception_cb'' (CPtr ''u64 (u64, u64, u64, u64, u64)''),
      Field ''security'' (CPtr ''void''),
      Field ''token'' (CPtr ''struct bpf_token''),
      Field ''offload'' (CPtr ''struct bpf_prog_offload''),
      Field ''btf'' (CPtr ''struct btf''),
      Field ''func_info'' (CPtr ''struct bpf_func_info''),
      Field ''func_info_aux'' (CPtr ''struct bpf_func_info_aux''),
      Field ''linfo'' (CPtr ''struct bpf_line_info''),
      Field ''jited_linfo'' (CPtr ''void *''),
      Field ''func_info_cnt'' u32,
      Field ''nr_linfo'' u32,
      Field ''linfo_idx'' u32,
      Field ''mod'' (CPtr ''struct module''),
      Field ''num_exentries'' u32,
      Field ''extable'' (CPtr ''struct exception_table_entry''),
      Field [] (CUnion [] False
        [Field ''work'' struct_work_struct,
         Field ''rcu'' struct_callback_head]),
      Field ''stream'' (CArr 2 struct_bpf_stream),
      Field ''st_ops_assoc_mutex'' struct_mutex,
      Field ''st_ops_assoc'' (CPtr ''struct bpf_map'')]"

definition enum_bpf_link_type :: cty where
  "enum_bpf_link_type = CEnum 4
     [(''BPF_LINK_TYPE_UNSPEC'', 0), (''BPF_LINK_TYPE_RAW_TRACEPOINT'', 1),
      (''BPF_LINK_TYPE_TRACING'', 2), (''BPF_LINK_TYPE_CGROUP'', 3),
      (''BPF_LINK_TYPE_ITER'', 4), (''BPF_LINK_TYPE_NETNS'', 5), (''BPF_LINK_TYPE_XDP'', 6),
      (''BPF_LINK_TYPE_PERF_EVENT'', 7), (''BPF_LINK_TYPE_KPROBE_MULTI'', 8),
      (''BPF_LINK_TYPE_STRUCT_OPS'', 9), (''BPF_LINK_TYPE_NETFILTER'', 10),
      (''BPF_LINK_TYPE_TCX'', 11), (''BPF_LINK_TYPE_UPROBE_MULTI'', 12),
      (''BPF_LINK_TYPE_NETKIT'', 13), (''BPF_LINK_TYPE_SOCKMAP'', 14),
      (''__MAX_BPF_LINK_TYPE'', 15)]"

definition struct_bpf_link :: cty where
  "struct_bpf_link = CStruct ''bpf_link'' False
     [Field ''refcnt'' atomic64_t,
      Field ''id'' u32,
      Field ''type'' enum_bpf_link_type,
      Field ''ops'' (CPtr ''const struct bpf_link_ops''),
      Field ''prog'' (CPtr ''struct bpf_prog''),
      Field ''flags'' u32,
      Field ''attach_type'' enum_bpf_attach_type,
      Field [] (CUnion [] False
        [Field ''rcu'' struct_callback_head,
         Field ''work'' struct_work_struct]),
      Field ''sleepable'' bool]"

definition struct_bpf_tramp_link :: cty where
  "struct_bpf_tramp_link = CStruct ''bpf_tramp_link'' False
     [Field ''link'' struct_bpf_link,
      Field ''tramp_hlist'' struct_hlist_node,
      Field ''cookie'' u64]"

definition struct_bpf_tracing_link :: cty where
  "struct_bpf_tracing_link = CStruct ''bpf_tracing_link'' False
     [Field ''link'' struct_bpf_tramp_link,
      Field ''trampoline'' (CPtr ''struct bpf_trampoline''),
      Field ''tgt_prog'' (CPtr ''struct bpf_prog'')]"

definition struct_btf_func_model :: cty where
  "struct_btf_func_model = CStruct ''btf_func_model'' False
     [Field ''ret_size'' u8,
      Field ''ret_flags'' u8,
      Field ''nr_args'' u8,
      Field ''arg_size'' (CArr 12 u8),
      Field ''arg_flags'' (CArr 12 u8)]"

definition struct_bpf_trampoline :: cty where
  "struct_bpf_trampoline = CStruct ''bpf_trampoline'' False
     [Field ''hlist_key'' struct_hlist_node,
      Field ''hlist_ip'' struct_hlist_node,
      Field ''fops'' (CPtr ''struct ftrace_ops''),
      Field ''mutex'' struct_mutex,
      Field ''refcnt'' refcount_t,
      Field ''flags'' u32,
      Field ''key'' u64,
      Field ''ip'' long_unsigned_int,
      Field ''func'' (CStruct [] False
        [Field ''model'' struct_btf_func_model,
         Field ''addr'' (CPtr ''void''),
         Field ''ftrace_managed'' bool]),
      Field ''extension_prog'' (CPtr ''struct bpf_prog''),
      Field ''progs_hlist'' (CArr 3 struct_hlist_head),
      Field ''progs_cnt'' (CArr 3 c_int),
      Field ''cur_image'' (CPtr ''struct bpf_tramp_image'')]"

definition struct_fred_cs :: cty where
  "struct_fred_cs = CStruct ''fred_cs'' False
     [BitField ''cs'' u64 16,
      BitField ''sl'' u64 2,
      BitField ''wfe'' u64 1]"

definition struct_fred_ss :: cty where
  "struct_fred_ss = CStruct ''fred_ss'' False
     [BitField ''ss'' u64 16,
      BitField ''sti'' u64 1,
      BitField ''swevent'' u64 1,
      BitField ''nmi'' u64 1,
      BitField [] c_int 13,
      BitField ''vector'' u64 8,
      BitField [] short_int 8,
      BitField ''type'' u64 4,
      BitField [] c_char 4,
      BitField ''enclave'' u64 1,
      BitField ''l'' u64 1,
      BitField ''nested'' u64 1,
      BitField [] c_char 1,
      BitField ''insnlen'' u64 4]"

definition struct_pt_regs :: cty where
  "struct_pt_regs = CStruct ''pt_regs'' False
     [Field ''r15'' long_unsigned_int,
      Field ''r14'' long_unsigned_int,
      Field ''r13'' long_unsigned_int,
      Field ''r12'' long_unsigned_int,
      Field ''bp'' long_unsigned_int,
      Field ''bx'' long_unsigned_int,
      Field ''r11'' long_unsigned_int,
      Field ''r10'' long_unsigned_int,
      Field ''r9'' long_unsigned_int,
      Field ''r8'' long_unsigned_int,
      Field ''ax'' long_unsigned_int,
      Field ''cx'' long_unsigned_int,
      Field ''dx'' long_unsigned_int,
      Field ''si'' long_unsigned_int,
      Field ''di'' long_unsigned_int,
      Field ''orig_ax'' long_unsigned_int,
      Field ''ip'' long_unsigned_int,
      Field [] (CUnion [] False
        [Field ''cs'' u16,
         Field ''csx'' u64,
         Field ''fred_cs'' struct_fred_cs]),
      Field ''flags'' long_unsigned_int,
      Field ''sp'' long_unsigned_int,
      Field [] (CUnion [] False
        [Field ''ss'' u16,
         Field ''ssx'' u64,
         Field ''fred_ss'' struct_fred_ss])]"

definition struct_irq_work :: cty where
  "struct_irq_work = CStruct ''irq_work'' False
     [Field ''node'' struct___call_single_node,
      Field ''func'' (CPtr ''void (struct irq_work *)''),
      Field ''irqwait'' struct_rcuwait]"

definition rqspinlock_t :: cty where [layout_simps]:
  "rqspinlock_t = struct_qspinlock"

definition ringbuf_kernel_members :: "cmember list" where
  "ringbuf_kernel_members =
     [Field ''waitq'' wait_queue_head_t,
      Field ''work'' struct_irq_work,
      Field ''mask'' u64,
      Field ''pages'' (CPtr ''struct page *''),
      Field ''nr_pages'' c_int,
      Field ''overwrite_mode'' bool] @
     padding 6 @
     [Field ''spinlock'' rqspinlock_t] @
     padding 7 @
     [Field ''busy'' atomic_t] @
     padding 487"

definition ringbuf_consumer_members :: "cmember list" where
  "ringbuf_consumer_members =
     [Field ''consumer_pos'' long_unsigned_int] @
     padding 511"

definition ringbuf_producer_members :: "cmember list" where
  "ringbuf_producer_members =
     [Field ''producer_pos'' long_unsigned_int,
      Field ''pending_pos'' long_unsigned_int,
      Field ''overwrite_pos'' long_unsigned_int] @
     padding 509 @
     [Field ''data'' (CArr 0 c_char)]"

definition struct_bpf_ringbuf :: cty where
  "struct_bpf_ringbuf = CStruct ''bpf_ringbuf'' False
     (ringbuf_kernel_members @ ringbuf_consumer_members @ ringbuf_producer_members)"

section \<open>Sizes and alignments\<close>

lemma enum_bpf_map_type_layout [layout_simps]:
  "sizeof enum_bpf_map_type = 4 \<and> alignof enum_bpf_map_type = 4 \<and> wf_cty enum_bpf_map_type"
  by (simp add: enum_bpf_map_type_def base_types layout_eval
      del: One_nat_def)

lemma struct_bpf_map_layout [layout_simps]:
  "sizeof struct_bpf_map = 288 \<and> alignof struct_bpf_map = 8 \<and> wf_cty struct_bpf_map"
  by (simp add: struct_bpf_map_def base_types layout_eval u8_def c__u8_def enum_bpf_map_type_layout u32_def c__u32_def
      u64_def c__u64_def struct_mutex_layout atomic64_t_layout struct_work_struct_layout
      struct_callback_head_layout spinlock_t_def struct_spinlock_layout bool_def
      del: One_nat_def)

lemma struct_bpf_array_layout [layout_simps]:
  "sizeof struct_bpf_array = 304 \<and> alignof struct_bpf_array = 8 \<and> wf_cty struct_bpf_array"
  by (simp add: struct_bpf_array_def base_types layout_eval struct_bpf_map_layout u32_def c__u32_def
      del: One_nat_def)

lemma struct_bpf_mem_alloc_layout [layout_simps]:
  "sizeof struct_bpf_mem_alloc = 80 \<and> alignof struct_bpf_mem_alloc = 8 \<and> wf_cty struct_bpf_mem_alloc"
  by (simp add: struct_bpf_mem_alloc_def base_types layout_eval bool_def struct_work_struct_layout
      del: One_nat_def)

lemma struct_pcpu_freelist_layout [layout_simps]:
  "sizeof struct_pcpu_freelist = 8 \<and> alignof struct_pcpu_freelist = 8 \<and> wf_cty struct_pcpu_freelist"
  by (simp add: struct_pcpu_freelist_def base_types layout_eval
      del: One_nat_def)

lemma struct_bpf_lru_list_layout [layout_simps]:
  "sizeof struct_bpf_lru_list = 128 \<and> alignof struct_bpf_lru_list = 8 \<and> wf_cty struct_bpf_lru_list"
  by (simp add: struct_bpf_lru_list_def base_types layout_eval struct_list_head_layout raw_spinlock_t_def
      struct_raw_spinlock_layout
      del: One_nat_def)

lemma struct_bpf_common_lru_layout [layout_simps]:
  "sizeof struct_bpf_common_lru = 192 \<and> alignof struct_bpf_common_lru = 8 \<and> wf_cty struct_bpf_common_lru"
  by (simp add: struct_bpf_common_lru_def base_types layout_eval struct_bpf_lru_list_layout
      del: One_nat_def)

lemma struct_bpf_lru_layout [layout_simps]:
  "sizeof struct_bpf_lru = 256 \<and> alignof struct_bpf_lru = 8 \<and> wf_cty struct_bpf_lru"
  by (simp add: struct_bpf_lru_def base_types layout_eval struct_bpf_common_lru_layout del_from_htab_func_def bool_def
      del: One_nat_def)

lemma struct_percpu_counter_layout [layout_simps]:
  "sizeof struct_percpu_counter = 40 \<and> alignof struct_percpu_counter = 8 \<and> wf_cty struct_percpu_counter"
  by (simp add: struct_percpu_counter_def base_types layout_eval raw_spinlock_t_def struct_raw_spinlock_layout s64_def
      c__s64_def struct_list_head_layout
      del: One_nat_def)

lemma struct_bpf_htab_layout [layout_simps]:
  "sizeof struct_bpf_htab = 896 \<and> alignof struct_bpf_htab = 8 \<and> wf_cty struct_bpf_htab"
  by (simp add: struct_bpf_htab_def base_types layout_eval struct_bpf_map_layout struct_bpf_mem_alloc_layout
      struct_pcpu_freelist_layout struct_bpf_lru_layout struct_percpu_counter_layout atomic_t_layout
      bool_def u32_def c__u32_def
      del: One_nat_def)

lemma struct_bpf_ringbuf_hdr_layout [layout_simps]:
  "sizeof struct_bpf_ringbuf_hdr = 8 \<and> alignof struct_bpf_ringbuf_hdr = 4 \<and> wf_cty struct_bpf_ringbuf_hdr"
  by (simp add: struct_bpf_ringbuf_hdr_def base_types layout_eval u32_def c__u32_def
      del: One_nat_def)

lemma struct_bpf_ringbuf_map_layout [layout_simps]:
  "sizeof struct_bpf_ringbuf_map = 296 \<and> alignof struct_bpf_ringbuf_map = 8 \<and> wf_cty struct_bpf_ringbuf_map"
  by (simp add: struct_bpf_ringbuf_map_def base_types layout_eval struct_bpf_map_layout
      del: One_nat_def)

lemma enum_bpf_prog_type_layout [layout_simps]:
  "sizeof enum_bpf_prog_type = 4 \<and> alignof enum_bpf_prog_type = 4 \<and> wf_cty enum_bpf_prog_type"
  by (simp add: enum_bpf_prog_type_def base_types layout_eval
      del: One_nat_def)

lemma enum_bpf_attach_type_layout [layout_simps]:
  "sizeof enum_bpf_attach_type = 4 \<and> alignof enum_bpf_attach_type = 4 \<and> wf_cty enum_bpf_attach_type"
  by (simp add: enum_bpf_attach_type_def base_types layout_eval
      del: One_nat_def)

lemma struct_sock_filter_layout [layout_simps]:
  "sizeof struct_sock_filter = 8 \<and> alignof struct_sock_filter = 4 \<and> wf_cty struct_sock_filter"
  by (simp add: struct_sock_filter_def base_types layout_eval c__u16_def c__u8_def c__u32_def
      del: One_nat_def)

lemma struct_bpf_insn_layout [layout_simps]:
  "sizeof struct_bpf_insn = 8 \<and> alignof struct_bpf_insn = 4 \<and> wf_cty struct_bpf_insn"
  by (simp add: struct_bpf_insn_def base_types layout_eval c__u8_def c__s16_def c__s32_def
      del: One_nat_def)

lemma struct_bpf_prog_layout [layout_simps]:
  "sizeof struct_bpf_prog = 96 \<and> alignof struct_bpf_prog = 8 \<and> wf_cty struct_bpf_prog"
  by (simp add: struct_bpf_prog_def base_types layout_eval u16_def c__u16_def enum_bpf_prog_type_layout
      enum_bpf_attach_type_layout u32_def c__u32_def u8_def c__u8_def struct_sock_filter_layout
      struct_bpf_insn_layout
      del: One_nat_def)

lemma struct_latch_tree_node_layout [layout_simps]:
  "sizeof struct_latch_tree_node = 48 \<and> alignof struct_latch_tree_node = 8 \<and> wf_cty struct_latch_tree_node"
  by (simp add: struct_latch_tree_node_def base_types layout_eval struct_rb_node_layout
      del: One_nat_def)

lemma struct_bpf_ksym_layout [layout_simps]:
  "sizeof struct_bpf_ksym = 608 \<and> alignof struct_bpf_ksym = 8 \<and> wf_cty struct_bpf_ksym"
  by (simp add: struct_bpf_ksym_def base_types layout_eval struct_list_head_layout struct_latch_tree_node_layout bool_def
      u32_def c__u32_def
      del: One_nat_def)

lemma struct_bpf_stream_layout [layout_simps]:
  "sizeof struct_bpf_stream = 64 \<and> alignof struct_bpf_stream = 8 \<and> wf_cty struct_bpf_stream"
  by (simp add: struct_bpf_stream_def base_types layout_eval atomic_t_layout struct_llist_head_layout struct_mutex_layout
      del: One_nat_def)

lemma struct_bpf_prog_aux_layout [layout_simps]:
  "sizeof struct_bpf_prog_aux = 1344 \<and> alignof struct_bpf_prog_aux = 8 \<and> wf_cty struct_bpf_prog_aux"
  by (simp add: struct_bpf_prog_aux_def base_types layout_eval atomic64_t_layout u32_def c__u32_def struct_mutex_layout
      enum_bpf_prog_type_layout enum_bpf_attach_type_layout bool_def u64_def c__u64_def
      struct_bpf_ksym_layout struct_work_struct_layout struct_callback_head_layout
      struct_bpf_stream_layout
      del: One_nat_def)

lemma enum_bpf_link_type_layout [layout_simps]:
  "sizeof enum_bpf_link_type = 4 \<and> alignof enum_bpf_link_type = 4 \<and> wf_cty enum_bpf_link_type"
  by (simp add: enum_bpf_link_type_def base_types layout_eval
      del: One_nat_def)

lemma struct_bpf_link_layout [layout_simps]:
  "sizeof struct_bpf_link = 80 \<and> alignof struct_bpf_link = 8 \<and> wf_cty struct_bpf_link"
  by (simp add: struct_bpf_link_def base_types layout_eval atomic64_t_layout u32_def c__u32_def enum_bpf_link_type_layout
      enum_bpf_attach_type_layout struct_callback_head_layout struct_work_struct_layout bool_def
      del: One_nat_def)

lemma struct_bpf_tramp_link_layout [layout_simps]:
  "sizeof struct_bpf_tramp_link = 104 \<and> alignof struct_bpf_tramp_link = 8 \<and> wf_cty struct_bpf_tramp_link"
  by (simp add: struct_bpf_tramp_link_def base_types layout_eval struct_bpf_link_layout struct_hlist_node_layout u64_def
      c__u64_def
      del: One_nat_def)

lemma struct_bpf_tracing_link_layout [layout_simps]:
  "sizeof struct_bpf_tracing_link = 120 \<and> alignof struct_bpf_tracing_link = 8 \<and> wf_cty struct_bpf_tracing_link"
  by (simp add: struct_bpf_tracing_link_def base_types layout_eval struct_bpf_tramp_link_layout
      del: One_nat_def)

lemma struct_btf_func_model_layout [layout_simps]:
  "sizeof struct_btf_func_model = 27 \<and> alignof struct_btf_func_model = 1 \<and> wf_cty struct_btf_func_model"
  by (simp add: struct_btf_func_model_def base_types layout_eval u8_def c__u8_def
      del: One_nat_def)

lemma struct_bpf_trampoline_layout [layout_simps]:
  "sizeof struct_bpf_trampoline = 200 \<and> alignof struct_bpf_trampoline = 8 \<and> wf_cty struct_bpf_trampoline"
  by (simp add: struct_bpf_trampoline_def base_types layout_eval struct_hlist_node_layout struct_mutex_layout
      refcount_t_def struct_refcount_struct_layout u32_def c__u32_def u64_def c__u64_def
      struct_btf_func_model_layout bool_def struct_hlist_head_layout
      del: One_nat_def)

lemma struct_fred_cs_layout [layout_simps]:
  "sizeof struct_fred_cs = 8 \<and> alignof struct_fred_cs = 8 \<and> wf_cty struct_fred_cs"
  by (simp add: struct_fred_cs_def base_types layout_eval u64_def c__u64_def
      del: One_nat_def)

lemma struct_fred_ss_layout [layout_simps]:
  "sizeof struct_fred_ss = 8 \<and> alignof struct_fred_ss = 8 \<and> wf_cty struct_fred_ss"
  by (simp add: struct_fred_ss_def base_types layout_eval u64_def c__u64_def
      del: One_nat_def)

lemma struct_pt_regs_layout [layout_simps]:
  "sizeof struct_pt_regs = 168 \<and> alignof struct_pt_regs = 8 \<and> wf_cty struct_pt_regs"
  by (simp add: struct_pt_regs_def base_types layout_eval u16_def c__u16_def u64_def c__u64_def struct_fred_cs_layout
      struct_fred_ss_layout
      del: One_nat_def)

lemma struct_irq_work_layout [layout_simps]:
  "sizeof struct_irq_work = 32 \<and> alignof struct_irq_work = 8 \<and> wf_cty struct_irq_work"
  by (simp add: struct_irq_work_def base_types layout_eval struct___call_single_node_layout struct_rcuwait_layout
      del: One_nat_def)

lemma struct_bpf_ringbuf_layout [layout_simps]:
  "sizeof struct_bpf_ringbuf = 12288 \<and> alignof struct_bpf_ringbuf = 8 \<and> wf_cty struct_bpf_ringbuf"
  by (simp add: struct_bpf_ringbuf_def layout_eval layout_simps
      ringbuf_kernel_members_def ringbuf_consumer_members_def ringbuf_producer_members_def del: One_nat_def)


end
