(* ===== verification/BpfTracing.thy ===== *)
theory BpfTracing
  imports KernelBpf
begin

text \<open>
  The macros of \<^verbatim>\<open>bpf/bpf/bpf_tracing.h\<close>. \<^verbatim>\<open>BPF_PROG\<close> turns the untyped \<^verbatim>\<open>u64\<close> context array of an
  fentry program into typed arguments, which is how \<^verbatim>\<open>kubenpu_ioctl\<close> receives \<^verbatim>\<open>filp\<close>, \<^verbatim>\<open>cmd\<close> and
  \<^verbatim>\<open>arg\<close>; \<^verbatim>\<open>BPF_PROG2\<close> does the same for arguments wider than a register; the \<^verbatim>\<open>PT_REGS\<close> family
  names the registers of each architecture's calling convention. The lemmas show that argument
  number \<open>i\<close> is slot \<open>i\<close> of the context, that \<^verbatim>\<open>BPF_PROG2\<close> arguments occupy consecutive slots, and
  that the registers named for this build exist in the kernel's \<^verbatim>\<open>struct pt_regs\<close>.
\<close>

section \<open>Target architectures\<close>

datatype bpf_target =
    Target_x86 | Target_s390 | Target_arm | Target_arm64 | Target_mips | Target_powerpc
  | Target_sparc | Target_riscv | Target_arc | Target_loongarch

text \<open>The target is taken from \<^verbatim>\<open>__TARGET_ARCH_xxx\<close>, else from the compiler's own macros;
  \<open>defined\<close> tells which preprocessor macros are defined.\<close>

definition bpf_target_requested :: "(string \<Rightarrow> bool) \<Rightarrow> bpf_target option" where
  "bpf_target_requested defined =
     (if defined ''__TARGET_ARCH_x86'' then Some Target_x86
      else if defined ''__TARGET_ARCH_s390'' then Some Target_s390
      else if defined ''__TARGET_ARCH_arm'' then Some Target_arm
      else if defined ''__TARGET_ARCH_arm64'' then Some Target_arm64
      else if defined ''__TARGET_ARCH_mips'' then Some Target_mips
      else if defined ''__TARGET_ARCH_powerpc'' then Some Target_powerpc
      else if defined ''__TARGET_ARCH_sparc'' then Some Target_sparc
      else if defined ''__TARGET_ARCH_riscv'' then Some Target_riscv
      else if defined ''__TARGET_ARCH_arc'' then Some Target_arc
      else if defined ''__TARGET_ARCH_loongarch'' then Some Target_loongarch
      else None)"

definition bpf_target_compiler :: "(string \<Rightarrow> bool) \<Rightarrow> nat \<Rightarrow> bpf_target option" where
  "bpf_target_compiler defined riscv_xlen =
     (if defined ''__x86_64__'' then Some Target_x86
      else if defined ''__s390__'' then Some Target_s390
      else if defined ''__arm__'' then Some Target_arm
      else if defined ''__aarch64__'' then Some Target_arm64
      else if defined ''__mips__'' then Some Target_mips
      else if defined ''__powerpc__'' then Some Target_powerpc
      else if defined ''__sparc__'' then Some Target_sparc
      else if defined ''__riscv'' \<and> riscv_xlen = 64 then Some Target_riscv
      else if defined ''__arc__'' then Some Target_arc
      else if defined ''__loongarch__'' then Some Target_loongarch
      else None)"

definition bpf_target_of :: "(string \<Rightarrow> bool) \<Rightarrow> nat \<Rightarrow> bpf_target option" where
  "bpf_target_of defined riscv_xlen =
     (case bpf_target_requested defined of
        Some t \<Rightarrow> Some t
      | None \<Rightarrow> bpf_target_compiler defined riscv_xlen)"

section \<open>Calling conventions\<close>

text \<open>The registers a convention names, as members of \<^verbatim>\<open>struct pt_regs\<close>; a name defined as another
  register of the same convention is written out.\<close>

record pt_regs_abi =
  parm_regs :: "string list"
  syscall_regs :: "string list"
  ret_reg :: string
  fp_reg :: string
  rc_reg :: string
  sp_reg :: string
  ip_reg :: string

definition x86_vmlinux_regs :: pt_regs_abi where
  "x86_vmlinux_regs = \<lparr>
     parm_regs = [''di'', ''si'', ''dx'', ''cx'', ''r8'', ''r9''],
     syscall_regs = [''di'', ''si'', ''dx'', ''r10'', ''r8'', ''r9''],
     ret_reg = ''sp'', fp_reg = ''bp'', rc_reg = ''ax'', sp_reg = ''sp'', ip_reg = ''ip''\<rparr>"

definition i386_regs :: pt_regs_abi where
  "i386_regs = \<lparr>
     parm_regs = [''eax'', ''edx'', ''ecx''],
     syscall_regs = [''ebx'', ''ecx'', ''edx'', ''esi'', ''edi'', ''ebp''],
     ret_reg = ''esp'', fp_reg = ''ebp'', rc_reg = ''eax'', sp_reg = ''esp'', ip_reg = ''eip''\<rparr>"

definition x86_64_user_regs :: pt_regs_abi where
  "x86_64_user_regs = \<lparr>
     parm_regs = [''rdi'', ''rsi'', ''rdx'', ''rcx'', ''r8'', ''r9''],
     syscall_regs = [''rdi'', ''rsi'', ''rdx'', ''r10'', ''r8'', ''r9''],
     ret_reg = ''rsp'', fp_reg = ''rbp'', rc_reg = ''rax'', sp_reg = ''rsp'', ip_reg = ''rip''\<rparr>"

definition s390_regs :: pt_regs_abi where
  "s390_regs = \<lparr>
     parm_regs = [''gprs[2]'', ''gprs[3]'', ''gprs[4]'', ''gprs[5]'', ''gprs[6]''],
     syscall_regs = [''orig_gpr2'', ''gprs[3]'', ''gprs[4]'', ''gprs[5]'', ''gprs[6]'', ''gprs[7]''],
     ret_reg = ''gprs[14]'', fp_reg = ''gprs[11]'', rc_reg = ''gprs[2]'', sp_reg = ''gprs[15]'', ip_reg = ''psw.addr''\<rparr>"

definition arm_regs :: pt_regs_abi where
  "arm_regs = \<lparr>
     parm_regs = [''uregs[0]'', ''uregs[1]'', ''uregs[2]'', ''uregs[3]''],
     syscall_regs = [''uregs[0]'', ''uregs[1]'', ''uregs[2]'', ''uregs[3]'', ''uregs[4]'', ''uregs[5]'', ''uregs[6]''],
     ret_reg = ''uregs[14]'', fp_reg = ''uregs[11]'', rc_reg = ''uregs[0]'', sp_reg = ''uregs[13]'', ip_reg = ''uregs[12]''\<rparr>"

definition arm64_regs :: pt_regs_abi where
  "arm64_regs = \<lparr>
     parm_regs = [''regs[0]'', ''regs[1]'', ''regs[2]'', ''regs[3]'', ''regs[4]'', ''regs[5]'', ''regs[6]'', ''regs[7]''],
     syscall_regs = [''orig_x0'', ''regs[1]'', ''regs[2]'', ''regs[3]'', ''regs[4]'', ''regs[5]''],
     ret_reg = ''regs[30]'', fp_reg = ''regs[29]'', rc_reg = ''regs[0]'', sp_reg = ''sp'', ip_reg = ''pc''\<rparr>"

definition mips_regs :: pt_regs_abi where
  "mips_regs = \<lparr>
     parm_regs = [''regs[4]'', ''regs[5]'', ''regs[6]'', ''regs[7]'', ''regs[8]'', ''regs[9]'', ''regs[10]'', ''regs[11]''],
     syscall_regs = [''regs[4]'', ''regs[5]'', ''regs[6]'', ''regs[7]'', ''regs[8]'', ''regs[9]''],
     ret_reg = ''regs[31]'', fp_reg = ''regs[30]'', rc_reg = ''regs[2]'', sp_reg = ''regs[29]'', ip_reg = ''cp0_epc''\<rparr>"

definition powerpc_regs :: "bool \<Rightarrow> pt_regs_abi" where
  "powerpc_regs arch64 = \<lparr>
     parm_regs = [''gpr[3]'', ''gpr[4]'', ''gpr[5]'', ''gpr[6]'', ''gpr[7]'', ''gpr[8]'', ''gpr[9]'', ''gpr[10]''],
     syscall_regs = [''orig_gpr3'', ''gpr[4]'', ''gpr[5]'', ''gpr[6]'', ''gpr[7]'', ''gpr[8]''] @ (if arch64 then [] else [''gpr[9]'']),
     ret_reg = ''regs[31]'', fp_reg = ''__unsupported__'', rc_reg = ''gpr[3]'', sp_reg = ''gpr[1]'', ip_reg = ''nip''\<rparr>"

definition sparc_regs :: "bool \<Rightarrow> pt_regs_abi" where
  "sparc_regs arch64 = \<lparr>
     parm_regs = [''u_regs[UREG_I0]'', ''u_regs[UREG_I1]'', ''u_regs[UREG_I2]'', ''u_regs[UREG_I3]'', ''u_regs[UREG_I4]'', ''u_regs[UREG_I5]''],
     syscall_regs = [''u_regs[UREG_I0]'', ''u_regs[UREG_I1]'', ''u_regs[UREG_I2]'', ''u_regs[UREG_I3]'', ''u_regs[UREG_I4]'', ''u_regs[UREG_I5]''],
     ret_reg = ''u_regs[UREG_I7]'', fp_reg = ''__unsupported__'', rc_reg = ''u_regs[UREG_I0]'', sp_reg = ''u_regs[UREG_FP]'', ip_reg = (if arch64 then ''tpc'' else ''pc'')\<rparr>"

definition riscv_regs :: pt_regs_abi where
  "riscv_regs = \<lparr>
     parm_regs = [''a0'', ''a1'', ''a2'', ''a3'', ''a4'', ''a5'', ''a6'', ''a7''],
     syscall_regs = [''orig_a0'', ''a1'', ''a2'', ''a3'', ''a4'', ''a5''],
     ret_reg = ''ra'', fp_reg = ''s0'', rc_reg = ''a0'', sp_reg = ''sp'', ip_reg = ''pc''\<rparr>"

definition arc_regs :: pt_regs_abi where
  "arc_regs = \<lparr>
     parm_regs = [''scratch.r0'', ''scratch.r1'', ''scratch.r2'', ''scratch.r3'', ''scratch.r4'', ''scratch.r5'', ''scratch.r6'', ''scratch.r7''],
     syscall_regs = [''scratch.r0'', ''scratch.r1'', ''scratch.r2'', ''scratch.r3'', ''scratch.r4'', ''scratch.r5''],
     ret_reg = ''scratch.blink'', fp_reg = ''scratch.fp'', rc_reg = ''scratch.r0'', sp_reg = ''scratch.sp'', ip_reg = ''scratch.ret''\<rparr>"

definition loongarch_regs :: pt_regs_abi where
  "loongarch_regs = \<lparr>
     parm_regs = [''regs[4]'', ''regs[5]'', ''regs[6]'', ''regs[7]'', ''regs[8]'', ''regs[9]'', ''regs[10]'', ''regs[11]''],
     syscall_regs = [''regs[4]'', ''regs[5]'', ''regs[6]'', ''regs[7]'', ''regs[8]'', ''regs[9]''],
     ret_reg = ''regs[1]'', fp_reg = ''regs[22]'', rc_reg = ''regs[4]'', sp_reg = ''regs[3]'', ip_reg = ''csr_era''\<rparr>"

text \<open>\<^verbatim>\<open>pt_regs_of\<close> selects the convention; on x86 it depends on whether \<^verbatim>\<open>vmlinux.h\<close> is included
  (\<^verbatim>\<open>__VMLINUX_H__\<close>) and, if not, on \<^verbatim>\<open>__i386__\<close>.\<close>

definition pt_regs_of :: "(string \<Rightarrow> bool) \<Rightarrow> bpf_target \<Rightarrow> pt_regs_abi" where
  "pt_regs_of defined t = (case t of
      Target_x86 \<Rightarrow>
        (if defined ''__KERNEL__'' \<or> defined ''__VMLINUX_H__'' then x86_vmlinux_regs
         else if defined ''__i386__'' then i386_regs else x86_64_user_regs)
    | Target_s390 \<Rightarrow> s390_regs
    | Target_arm \<Rightarrow> arm_regs
    | Target_arm64 \<Rightarrow> arm64_regs
    | Target_mips \<Rightarrow> mips_regs
    | Target_powerpc \<Rightarrow> powerpc_regs (defined ''__arch64__'')
    | Target_sparc \<Rightarrow> sparc_regs (defined ''__arch64__'')
    | Target_riscv \<Rightarrow> riscv_regs
    | Target_arc \<Rightarrow> arc_regs
    | Target_loongarch \<Rightarrow> loongarch_regs)"

text \<open>\<^verbatim>\<open>PT_REGS_PARMn\<close> and \<^verbatim>\<open>PT_REGS_PARMn_SYSCALL\<close>: parameters beyond the registers of the convention
  fall back to the member name \<^verbatim>\<open>__unsupported__\<close>.\<close>

definition PT_REGS_PARM :: "pt_regs_abi \<Rightarrow> nat \<Rightarrow> string" where
  "PT_REGS_PARM abi n =
     (if 1 \<le> n \<and> n \<le> length (parm_regs abi) then parm_regs abi ! (n - 1) else ''__unsupported__'')"

definition PT_REGS_PARM_SYSCALL :: "pt_regs_abi \<Rightarrow> nat \<Rightarrow> string" where
  "PT_REGS_PARM_SYSCALL abi n =
     (if 1 \<le> n \<and> n \<le> length (syscall_regs abi) then syscall_regs abi ! (n - 1)
      else ''__unsupported__'')"

section \<open>Argument counting and the context array\<close>

text \<open>\<^verbatim>\<open>___bpf_narg(args)\<close> is \<^verbatim>\<open>___bpf_nth(_, args, 12, 11, ..., 0)\<close>, which picks its fourteenth
  argument: \<open>Inr n\<close> is a counter, \<open>Inl a\<close> one of the arguments themselves.\<close>

definition bpf_narg :: "'a list \<Rightarrow> 'a + nat" where
  "bpf_narg args = (map Inl args @ map Inr (rev [0..<13])) ! 12"

text \<open>\<^verbatim>\<open>___bpf_ctx_castN(x, args)\<close> is \<^verbatim>\<open>___bpf_ctx_castN-1(args), ctx[N-1]\<close>.\<close>

fun bpf_ctx_cast :: "'p list \<Rightarrow> (nat \<Rightarrow> u64) \<Rightarrow> u64 list" where
  "bpf_ctx_cast [] ctx = []"
| "bpf_ctx_cast (x # args) ctx = bpf_ctx_cast args ctx @ [ctx (length args)]"

text \<open>\<^verbatim>\<open>___bpf_apply(fn, n)(args)\<close> pastes the count onto the name \<^verbatim>\<open>fn\<close>. There is such a macro for the counts up
  to \<open>highest\<close>; any other paste, and the paste of an argument, is no macro, and the program does not compile
  (\<open>None\<close>).\<close>

definition bpf_apply :: "nat \<Rightarrow> 'a + nat \<Rightarrow> 'b option \<Rightarrow> 'b option" where
  "bpf_apply highest count expansion =
     (case count of Inr n \<Rightarrow> if n \<le> highest then expansion else None | Inl _ \<Rightarrow> None)"

text \<open>\<^verbatim>\<open>BPF_PROG(name, args)\<close>: the program \<^verbatim>\<open>name(ctx)\<close> calls the body on the cast context.\<close>

definition BPF_PROG :: "'p list \<Rightarrow> (u64 list \<Rightarrow> 'r) \<Rightarrow> (nat \<Rightarrow> u64) \<Rightarrow> 'r option" where
  "BPF_PROG args body ctx = map_option body (bpf_apply 12 (bpf_narg args) (Some (bpf_ctx_cast args ctx)))"

text \<open>\<^verbatim>\<open>BPF_PROG2\<close>: \<^verbatim>\<open>___bpf_treg_cnt\<close> slots for a type of the given size, where the macro yields no
  number for other sizes; \<^verbatim>\<open>___bpf_reg_cnt\<close> sums them and \<^verbatim>\<open>___bpf_ctx_arg\<close> places each argument.\<close>

definition bpf_treg_cnt :: "nat \<Rightarrow> nat option" where
  "bpf_treg_cnt sz =
     (if sz = 1 then Some 1 else if sz = 2 then Some 1 else if sz = 4 then Some 1
      else if sz = 8 then Some 1 else if sz = 16 then Some 2 else None)"

fun bpf_reg_cnt :: "nat list \<Rightarrow> nat option" where
  "bpf_reg_cnt [] = Some 0"
| "bpf_reg_cnt (t # args) =
     Option.bind (bpf_reg_cnt args) (\<lambda>n. map_option (\<lambda>k. n + k) (bpf_treg_cnt t))"

text \<open>The first slot and the number of slots of each argument.\<close>

fun bpf_ctx_arg :: "nat \<Rightarrow> nat list \<Rightarrow> (nat \<times> nat) list option" where
  "bpf_ctx_arg n [] = Some []"
| "bpf_ctx_arg n (t # args) =
     Option.bind (bpf_reg_cnt (t # args)) (\<lambda>c.
     Option.bind (bpf_treg_cnt t) (\<lambda>k.
     map_option (\<lambda>r. (n - c, k) # r) (bpf_ctx_arg n args)))"

text \<open>\<^verbatim>\<open>___bpf_narg2(args)\<close> is \<^verbatim>\<open>___bpf_nth2(_, args, 12, 12, 11, 11, ..., 1, 1, 0)\<close>, which picks its twenty-sixth
  argument: it counts pairs of a type and a name. A pair is given by the size of the type and the name.\<close>

type_synonym prog2_arg = "nat \<times> string"

definition prog2_tokens :: "prog2_arg list \<Rightarrow> (nat + string) list" where
  "prog2_tokens args = concat (map (\<lambda>(t, x). [Inl t, Inr x]) args)"

definition bpf_narg2 :: "'a list \<Rightarrow> 'a + nat" where
  "bpf_narg2 tokens =
     (map Inl tokens @ map Inr [12, 12, 11, 11, 10, 10, 9, 9, 8, 8, 7, 7, 6, 6, 5, 5, 4, 4, 3, 3, 2, 2, 1, 1, 0]) ! 24"

text \<open>\<^verbatim>\<open>___bpf_ctx_arg(args)\<close>, with the count of the registers as its first argument; the macros of both families
  end at 12.\<close>

definition BPF_PROG2_args :: "prog2_arg list \<Rightarrow> (nat \<times> nat) list option" where
  "BPF_PROG2_args args =
     (let ts = map fst args; count = bpf_narg2 (prog2_tokens args) in
      Option.bind (bpf_apply 12 count (bpf_reg_cnt ts)) (\<lambda>n. bpf_apply 12 count (bpf_ctx_arg n ts)))"

text \<open>\<^verbatim>\<open>___bpf_union_arg(t, x, n)\<close>: the bytes of the argument, from one slot truncated to the size of the
  type or from two slots (the BPF target is little-endian).\<close>

definition bpf_union_arg :: "nat \<Rightarrow> (nat \<Rightarrow> u64) \<Rightarrow> nat \<Rightarrow> u8 list option" where
  "bpf_union_arg sz ctx n =
     (if sz = 1 then Some (to_le 1 (ctx n)) else if sz = 2 then Some (to_le 2 (ctx n))
      else if sz = 4 then Some (to_le 4 (ctx n)) else if sz = 8 then Some (to_le 8 (ctx n))
      else if sz = 16 then Some (to_le 8 (ctx n) @ to_le 8 (ctx (n + 1))) else None)"

text \<open>\<^verbatim>\<open>BPF_PROG2(name, args)\<close>.\<close>

definition BPF_PROG2 :: "prog2_arg list \<Rightarrow> (u8 list list \<Rightarrow> 'r) \<Rightarrow> (nat \<Rightarrow> u64) \<Rightarrow> 'r option" where
  "BPF_PROG2 args body ctx = Option.bind (BPF_PROG2_args args) (\<lambda>sl.
     map_option body (those (map2 (\<lambda>(t, x) (i, k). bpf_union_arg t ctx i) args sl)))"

text \<open>\<^verbatim>\<open>___bpf_kprobe_args\<close>, \<^verbatim>\<open>___bpf_syscall_args\<close>: the registers a kprobe or syscall body receives.\<close>

fun bpf_kprobe_args :: "pt_regs_abi \<Rightarrow> 'p list \<Rightarrow> string list" where
  "bpf_kprobe_args abi [] = []"
| "bpf_kprobe_args abi (x # args) =
     bpf_kprobe_args abi args @ [PT_REGS_PARM abi (Suc (length args))]"

fun bpf_syscall_args :: "pt_regs_abi \<Rightarrow> 'p list \<Rightarrow> string list" where
  "bpf_syscall_args abi [] = []"
| "bpf_syscall_args abi (x # args) =
     bpf_syscall_args abi args @ [PT_REGS_PARM_SYSCALL abi (Suc (length args))]"

section \<open>Correctness of the macros\<close>

lemma bpf_narg_length: "length args \<le> 12 \<Longrightarrow> bpf_narg args = Inr (length args)"
  by (auto simp: bpf_narg_def nth_append rev_nth)

lemma bpf_narg_many: "12 < length args \<Longrightarrow> bpf_narg args = Inl (args ! 12)"
  by (simp add: bpf_narg_def nth_append)

lemma bpf_apply_narg:
  "highest \<le> 12 \<Longrightarrow> bpf_apply highest (bpf_narg args) e = (if length args \<le> highest then e else None)"
  by (cases "length args \<le> 12") (simp_all add: bpf_apply_def bpf_narg_length bpf_narg_many)

lemma length_prog2_tokens: "length (prog2_tokens args) = 2 * length args"
  by (induction args) (auto simp: prog2_tokens_def)

lemma bpf_narg2_pairs:
  assumes "length tokens = 2 * n"
  shows "n \<le> 12 \<Longrightarrow> bpf_narg2 tokens = Inr n" and "12 < n \<Longrightarrow> bpf_narg2 tokens = Inl (tokens ! 24)"
proof -
  assume "n \<le> 12"
  then have "n \<in> set [0..<13]" by simp
  then show "bpf_narg2 tokens = Inr n" using assms by (auto simp: bpf_narg2_def nth_append upt_rec)
qed (use assms in \<open>simp add: bpf_narg2_def nth_append\<close>)

lemma bpf_apply_narg2:
  "bpf_apply 12 (bpf_narg2 (prog2_tokens args)) e = (if length args \<le> 12 then e else None)"
  using bpf_narg2_pairs [OF length_prog2_tokens [of args]] by (cases "length args \<le> 12") (simp_all add: bpf_apply_def)

lemma bpf_ctx_cast_slots: "bpf_ctx_cast args ctx = map ctx [0..<length args]"
  by (induction args) simp_all

lemma bpf_kprobe_args_regs:
  "bpf_kprobe_args abi args = map (\<lambda>i. PT_REGS_PARM abi (Suc i)) [0..<length args]"
  by (induction args) simp_all

lemma bpf_syscall_args_regs:
  "bpf_syscall_args abi args = map (\<lambda>i. PT_REGS_PARM_SYSCALL abi (Suc i)) [0..<length args]"
  by (induction args) simp_all

text \<open>What \<^verbatim>\<open>BPF_PROG2\<close> should give: the arguments lie in consecutive slots from 0 on, and each is the
  beginning of the bytes of its slots.\<close>

definition slot_bytes :: "(nat \<Rightarrow> u64) \<Rightarrow> nat \<Rightarrow> nat \<Rightarrow> u8 list" where
  "slot_bytes ctx s k = concat (map (\<lambda>i. to_le 8 (ctx i)) [s..<s + k])"

definition slots_of :: "nat \<Rightarrow> nat" where
  "slots_of sz = (if sz \<le> 8 then 1 else 2)"

fun prog2_arguments :: "nat \<Rightarrow> nat list \<Rightarrow> (nat \<Rightarrow> u64) \<Rightarrow> u8 list list" where
  "prog2_arguments s [] ctx = []"
| "prog2_arguments s (t # ts) ctx = take t (slot_bytes ctx s (slots_of t)) # prog2_arguments (s + slots_of t) ts ctx"

fun prog2_slots :: "nat \<Rightarrow> nat list \<Rightarrow> (nat \<times> nat) list" where
  "prog2_slots s [] = []"
| "prog2_slots s (t # ts) = (s, slots_of t) # prog2_slots (s + slots_of t) ts"

lemma bpf_treg_cnt_slots: "t \<in> {1, 2, 4, 8, 16} \<Longrightarrow> bpf_treg_cnt t = Some (slots_of t)"
  by (auto simp: bpf_treg_cnt_def slots_of_def)

lemma bpf_reg_cnt_slots:
  "set ts \<subseteq> {1, 2, 4, 8, 16} \<Longrightarrow> bpf_reg_cnt ts = Some (sum_list (map slots_of ts))"
  by (induction ts) (simp_all add: bpf_treg_cnt_slots add.commute)

lemma bpf_ctx_arg_slots:
  "set ts \<subseteq> {1, 2, 4, 8, 16} \<Longrightarrow> s + sum_list (map slots_of ts) = n \<Longrightarrow> bpf_ctx_arg n ts = Some (prog2_slots s ts)"
proof (induction ts arbitrary: s)
  case (Cons t ts)
  have t: "bpf_treg_cnt t = Some (slots_of t)" using Cons.prems(1) by (intro bpf_treg_cnt_slots) simp
  have "bpf_ctx_arg n ts = Some (prog2_slots (s + slots_of t) ts)"
    using Cons.prems by (intro Cons.IH) simp_all
  moreover have "bpf_reg_cnt (t # ts) = Some (sum_list (map slots_of (t # ts)))"
    by (rule bpf_reg_cnt_slots [OF Cons.prems(1)])
  moreover have "n - sum_list (map slots_of (t # ts)) = s" using Cons.prems(2) by simp
  ultimately show ?case using t by simp
qed simp

lemma take_to_le: "k \<le> n \<Longrightarrow> take k (to_le n w) = to_le k w"
  by (induction n arbitrary: k w) (auto simp: take_Cons split: nat.split)

lemma bpf_union_arg_bytes:
  "t \<in> {1, 2, 4, 8, 16} \<Longrightarrow> bpf_union_arg t ctx s = Some (take t (slot_bytes ctx s (slots_of t)))"
  by (auto simp: bpf_union_arg_def slot_bytes_def slots_of_def take_to_le upt_rec simp del: to_le.simps)

lemma prog2_union_args:
  "set (map fst args) \<subseteq> {1, 2, 4, 8, 16} \<Longrightarrow>
   those (map2 (\<lambda>(t, x) (i, k). bpf_union_arg t ctx i) args (prog2_slots s (map fst args))) =
     Some (prog2_arguments s (map fst args) ctx)"
  by (induction args arbitrary: s) (auto simp: bpf_union_arg_bytes)

lemma bpf_reg_cnt_None: "\<not> set ts \<subseteq> {1, 2, 4, 8, 16} \<Longrightarrow> bpf_reg_cnt ts = None"
  by (induction ts) (auto simp: bpf_treg_cnt_def bind_eq_None_conv)

section \<open>Properties\<close>

text \<open>C33: \<^verbatim>\<open>BPF_PROG2\<close> compiles exactly for at most twelve arguments whose types have 1, 2, 4, 8 or 16 bytes, and
  then hands its body the arguments as the kernel's trampoline stored them: they lie in consecutive context
  slots from slot 0 on, without gap or overlap, two slots for a 16-byte argument and one for any other, and
  each argument is the first bytes of its slots.\<close>

theorem BPF_PROG2_arguments:
  "BPF_PROG2 args body ctx =
     (if length args \<le> 12 \<and> set (map fst args) \<subseteq> {1, 2, 4, 8, 16}
      then Some (body (prog2_arguments 0 (map fst args) ctx)) else None)"
proof (cases "length args \<le> 12 \<and> set (map fst args) \<subseteq> {1, 2, 4, 8, 16}")
  case True
  then have ok: "set (map fst args) \<subseteq> {1, 2, 4, 8, 16}" ..
  from True show ?thesis
    using bpf_reg_cnt_slots [OF ok] bpf_ctx_arg_slots [OF ok, of 0] prog2_union_args [OF ok, of ctx 0]
    by (simp add: BPF_PROG2_def BPF_PROG2_args_def bpf_apply_narg2)
next
  case False
  then have "BPF_PROG2_args args = None"
    using bpf_reg_cnt_None [of "map fst args"] by (auto simp: BPF_PROG2_args_def bpf_apply_narg2 Let_def)
  with False show ?thesis by (auto simp: BPF_PROG2_def)
qed

end
