(* ===== verification/BpfHelperDefs.thy ===== *)
theory BpfHelperDefs
  imports Prelude
begin

text \<open>
  The helper table of \<^verbatim>\<open>bpf/bpf/bpf_helper_defs.h\<close>: each helper the kernel offers to eBPF programs,
  with its name, return type, parameters and the call number the compiler puts into the \<^verbatim>\<open>call\<close>
  instruction, and the enumeration \<^verbatim>\<open>enum bpf_func_id\<close> of \<^verbatim>\<open>bpf/vmlinux.h\<close> under which the kernel
  dispatches that number. The lemmas show that the two sources agree number by number, that the
  numbering has no gap, and that every helper fits the five argument registers.
\<close>

section \<open>The table\<close>

datatype helper = helper (h_name: string) (h_ret: string) (h_args: "string list") (h_id: nat)

definition bpf_helpers_1_7 :: "helper list" where
  "bpf_helpers_1_7 =
     [helper ''bpf_map_lookup_elem'' ''void *''
        [''void *map'', ''const void *key''] 1,
      helper ''bpf_map_update_elem'' ''long''
        [''void *map'', ''const void *key'', ''const void *value'', ''__u64 flags''] 2,
      helper ''bpf_map_delete_elem'' ''long''
        [''void *map'', ''const void *key''] 3,
      helper ''bpf_probe_read'' ''long''
        [''void *dst'', ''__u32 size'', ''const void *unsafe_ptr''] 4,
      helper ''bpf_ktime_get_ns'' ''__u64''
        [] 5,
      helper ''bpf_trace_printk'' ''long''
        [''const char *fmt'', ''__u32 fmt_size'', ''...''] 6,
      helper ''bpf_get_prandom_u32'' ''__u32''
        [] 7]"

definition bpf_helpers_8_12 :: "helper list" where
  "bpf_helpers_8_12 =
     [helper ''bpf_get_smp_processor_id'' ''__bpf_fastcall __u32''
        [] 8,
      helper ''bpf_skb_store_bytes'' ''long''
        [''struct __sk_buff *skb'', ''__u32 offset'', ''const void *from'', ''__u32 len'', ''__u64 flags''] 9,
      helper ''bpf_l3_csum_replace'' ''long''
        [''struct __sk_buff *skb'', ''__u32 offset'', ''__u64 from'', ''__u64 to'', ''__u64 size''] 10,
      helper ''bpf_l4_csum_replace'' ''long''
        [''struct __sk_buff *skb'', ''__u32 offset'', ''__u64 from'', ''__u64 to'', ''__u64 flags''] 11,
      helper ''bpf_tail_call'' ''long''
        [''void *ctx'', ''void *prog_array_map'', ''__u32 index''] 12]"

definition bpf_helpers_13_19 :: "helper list" where
  "bpf_helpers_13_19 =
     [helper ''bpf_clone_redirect'' ''long''
        [''struct __sk_buff *skb'', ''__u32 ifindex'', ''__u64 flags''] 13,
      helper ''bpf_get_current_pid_tgid'' ''__u64''
        [] 14,
      helper ''bpf_get_current_uid_gid'' ''__u64''
        [] 15,
      helper ''bpf_get_current_comm'' ''long''
        [''void *buf'', ''__u32 size_of_buf''] 16,
      helper ''bpf_get_cgroup_classid'' ''__u32''
        [''struct __sk_buff *skb''] 17,
      helper ''bpf_skb_vlan_push'' ''long''
        [''struct __sk_buff *skb'', ''__be16 vlan_proto'', ''__u16 vlan_tci''] 18,
      helper ''bpf_skb_vlan_pop'' ''long''
        [''struct __sk_buff *skb''] 19]"

definition bpf_helpers_20_22 :: "helper list" where
  "bpf_helpers_20_22 =
     [helper ''bpf_skb_get_tunnel_key'' ''long''
        [''struct __sk_buff *skb'', ''struct bpf_tunnel_key *key'', ''__u32 size'', ''__u64 flags''] 20,
      helper ''bpf_skb_set_tunnel_key'' ''long''
        [''struct __sk_buff *skb'', ''struct bpf_tunnel_key *key'', ''__u32 size'', ''__u64 flags''] 21,
      helper ''bpf_perf_event_read'' ''__u64''
        [''void *map'', ''__u64 flags''] 22]"

definition bpf_helpers_23_26 :: "helper list" where
  "bpf_helpers_23_26 =
     [helper ''bpf_redirect'' ''long''
        [''__u32 ifindex'', ''__u64 flags''] 23,
      helper ''bpf_get_route_realm'' ''__u32''
        [''struct __sk_buff *skb''] 24,
      helper ''bpf_perf_event_output'' ''long''
        [''void *ctx'', ''void *map'', ''__u64 flags'', ''void *data'', ''__u64 size''] 25,
      helper ''bpf_skb_load_bytes'' ''long''
        [''const void *skb'', ''__u32 offset'', ''void *to'', ''__u32 len''] 26]"

definition bpf_helpers_27_31 :: "helper list" where
  "bpf_helpers_27_31 =
     [helper ''bpf_get_stackid'' ''long''
        [''void *ctx'', ''void *map'', ''__u64 flags''] 27,
      helper ''bpf_csum_diff'' ''__s64''
        [''__be32 *from'', ''__u32 from_size'', ''__be32 *to'', ''__u32 to_size'', ''__wsum seed''] 28,
      helper ''bpf_skb_get_tunnel_opt'' ''long''
        [''struct __sk_buff *skb'', ''void *opt'', ''__u32 size''] 29,
      helper ''bpf_skb_set_tunnel_opt'' ''long''
        [''struct __sk_buff *skb'', ''void *opt'', ''__u32 size''] 30,
      helper ''bpf_skb_change_proto'' ''long''
        [''struct __sk_buff *skb'', ''__be16 proto'', ''__u64 flags''] 31]"

definition bpf_helpers_32_38 :: "helper list" where
  "bpf_helpers_32_38 =
     [helper ''bpf_skb_change_type'' ''long''
        [''struct __sk_buff *skb'', ''__u32 type''] 32,
      helper ''bpf_skb_under_cgroup'' ''long''
        [''struct __sk_buff *skb'', ''void *map'', ''__u32 index''] 33,
      helper ''bpf_get_hash_recalc'' ''__u32''
        [''struct __sk_buff *skb''] 34,
      helper ''bpf_get_current_task'' ''__u64''
        [] 35,
      helper ''bpf_probe_write_user'' ''long''
        [''void *dst'', ''const void *src'', ''__u32 len''] 36,
      helper ''bpf_current_task_under_cgroup'' ''long''
        [''void *map'', ''__u32 index''] 37,
      helper ''bpf_skb_change_tail'' ''long''
        [''struct __sk_buff *skb'', ''__u32 len'', ''__u64 flags''] 38]"

definition bpf_helpers_39_45 :: "helper list" where
  "bpf_helpers_39_45 =
     [helper ''bpf_skb_pull_data'' ''long''
        [''struct __sk_buff *skb'', ''__u32 len''] 39,
      helper ''bpf_csum_update'' ''__s64''
        [''struct __sk_buff *skb'', ''__wsum csum''] 40,
      helper ''bpf_set_hash_invalid'' ''void''
        [''struct __sk_buff *skb''] 41,
      helper ''bpf_get_numa_node_id'' ''long''
        [] 42,
      helper ''bpf_skb_change_head'' ''long''
        [''struct __sk_buff *skb'', ''__u32 len'', ''__u64 flags''] 43,
      helper ''bpf_xdp_adjust_head'' ''long''
        [''struct xdp_md *xdp_md'', ''int delta''] 44,
      helper ''bpf_probe_read_str'' ''long''
        [''void *dst'', ''__u32 size'', ''const void *unsafe_ptr''] 45]"

definition bpf_helpers_46_50 :: "helper list" where
  "bpf_helpers_46_50 =
     [helper ''bpf_get_socket_cookie'' ''__u64''
        [''void *ctx''] 46,
      helper ''bpf_get_socket_uid'' ''__u32''
        [''struct __sk_buff *skb''] 47,
      helper ''bpf_set_hash'' ''long''
        [''struct __sk_buff *skb'', ''__u32 hash''] 48,
      helper ''bpf_setsockopt'' ''long''
        [''void *bpf_socket'', ''int level'', ''int optname'', ''void *optval'', ''int optlen''] 49,
      helper ''bpf_skb_adjust_room'' ''long''
        [''struct __sk_buff *skb'', ''__s32 len_diff'', ''__u32 mode'', ''__u64 flags''] 50]"

definition bpf_helpers_51_54 :: "helper list" where
  "bpf_helpers_51_54 =
     [helper ''bpf_redirect_map'' ''long''
        [''void *map'', ''__u64 key'', ''__u64 flags''] 51,
      helper ''bpf_sk_redirect_map'' ''long''
        [''struct __sk_buff *skb'', ''void *map'', ''__u32 key'', ''__u64 flags''] 52,
      helper ''bpf_sock_map_update'' ''long''
        [''struct bpf_sock_ops *skops'', ''void *map'', ''void *key'', ''__u64 flags''] 53,
      helper ''bpf_xdp_adjust_meta'' ''long''
        [''struct xdp_md *xdp_md'', ''int delta''] 54]"

definition bpf_helpers_55_58 :: "helper list" where
  "bpf_helpers_55_58 =
     [helper ''bpf_perf_event_read_value'' ''long''
        [''void *map'', ''__u64 flags'', ''struct bpf_perf_event_value *buf'', ''__u32 buf_size''] 55,
      helper ''bpf_perf_prog_read_value'' ''long''
        [''struct bpf_perf_event_data *ctx'', ''struct bpf_perf_event_value *buf'', ''__u32 buf_size''] 56,
      helper ''bpf_getsockopt'' ''long''
        [''void *bpf_socket'', ''int level'', ''int optname'', ''void *optval'', ''int optlen''] 57,
      helper ''bpf_override_return'' ''long''
        [''struct pt_regs *regs'', ''__u64 rc''] 58]"

definition bpf_helpers_59_62 :: "helper list" where
  "bpf_helpers_59_62 =
     [helper ''bpf_sock_ops_cb_flags_set'' ''long''
        [''struct bpf_sock_ops *bpf_sock'', ''int argval''] 59,
      helper ''bpf_msg_redirect_map'' ''long''
        [''struct sk_msg_md *msg'', ''void *map'', ''__u32 key'', ''__u64 flags''] 60,
      helper ''bpf_msg_apply_bytes'' ''long''
        [''struct sk_msg_md *msg'', ''__u32 bytes''] 61,
      helper ''bpf_msg_cork_bytes'' ''long''
        [''struct sk_msg_md *msg'', ''__u32 bytes''] 62]"

definition bpf_helpers_63_67 :: "helper list" where
  "bpf_helpers_63_67 =
     [helper ''bpf_msg_pull_data'' ''long''
        [''struct sk_msg_md *msg'', ''__u32 start'', ''__u32 end'', ''__u64 flags''] 63,
      helper ''bpf_bind'' ''long''
        [''struct bpf_sock_addr *ctx'', ''struct sockaddr *addr'', ''int addr_len''] 64,
      helper ''bpf_xdp_adjust_tail'' ''long''
        [''struct xdp_md *xdp_md'', ''int delta''] 65,
      helper ''bpf_skb_get_xfrm_state'' ''long''
        [''struct __sk_buff *skb'', ''__u32 index'', ''struct bpf_xfrm_state *xfrm_state'', ''__u32 size'', ''__u64 flags''] 66,
      helper ''bpf_get_stack'' ''long''
        [''void *ctx'', ''void *buf'', ''__u32 size'', ''__u64 flags''] 67]"

definition bpf_helpers_68_72 :: "helper list" where
  "bpf_helpers_68_72 =
     [helper ''bpf_skb_load_bytes_relative'' ''long''
        [''const void *skb'', ''__u32 offset'', ''void *to'', ''__u32 len'', ''__u32 start_header''] 68,
      helper ''bpf_fib_lookup'' ''long''
        [''void *ctx'', ''struct bpf_fib_lookup *params'', ''int plen'', ''__u32 flags''] 69,
      helper ''bpf_sock_hash_update'' ''long''
        [''struct bpf_sock_ops *skops'', ''void *map'', ''void *key'', ''__u64 flags''] 70,
      helper ''bpf_msg_redirect_hash'' ''long''
        [''struct sk_msg_md *msg'', ''void *map'', ''void *key'', ''__u64 flags''] 71,
      helper ''bpf_sk_redirect_hash'' ''long''
        [''struct __sk_buff *skb'', ''void *map'', ''void *key'', ''__u64 flags''] 72]"

definition bpf_helpers_73_77 :: "helper list" where
  "bpf_helpers_73_77 =
     [helper ''bpf_lwt_push_encap'' ''long''
        [''struct __sk_buff *skb'', ''__u32 type'', ''void *hdr'', ''__u32 len''] 73,
      helper ''bpf_lwt_seg6_store_bytes'' ''long''
        [''struct __sk_buff *skb'', ''__u32 offset'', ''const void *from'', ''__u32 len''] 74,
      helper ''bpf_lwt_seg6_adjust_srh'' ''long''
        [''struct __sk_buff *skb'', ''__u32 offset'', ''__s32 delta''] 75,
      helper ''bpf_lwt_seg6_action'' ''long''
        [''struct __sk_buff *skb'', ''__u32 action'', ''void *param'', ''__u32 param_len''] 76,
      helper ''bpf_rc_repeat'' ''long''
        [''void *ctx''] 77]"

definition bpf_helpers_78_83 :: "helper list" where
  "bpf_helpers_78_83 =
     [helper ''bpf_rc_keydown'' ''long''
        [''void *ctx'', ''__u32 protocol'', ''__u64 scancode'', ''__u32 toggle''] 78,
      helper ''bpf_skb_cgroup_id'' ''__u64''
        [''struct __sk_buff *skb''] 79,
      helper ''bpf_get_current_cgroup_id'' ''__u64''
        [] 80,
      helper ''bpf_get_local_storage'' ''void *''
        [''void *map'', ''__u64 flags''] 81,
      helper ''bpf_sk_select_reuseport'' ''long''
        [''struct sk_reuseport_md *reuse'', ''void *map'', ''void *key'', ''__u64 flags''] 82,
      helper ''bpf_skb_ancestor_cgroup_id'' ''__u64''
        [''struct __sk_buff *skb'', ''int ancestor_level''] 83]"

definition bpf_helpers_84_90 :: "helper list" where
  "bpf_helpers_84_90 =
     [helper ''bpf_sk_lookup_tcp'' ''struct bpf_sock *''
        [''void *ctx'', ''struct bpf_sock_tuple *tuple'', ''__u32 tuple_size'', ''__u64 netns'', ''__u64 flags''] 84,
      helper ''bpf_sk_lookup_udp'' ''struct bpf_sock *''
        [''void *ctx'', ''struct bpf_sock_tuple *tuple'', ''__u32 tuple_size'', ''__u64 netns'', ''__u64 flags''] 85,
      helper ''bpf_sk_release'' ''long''
        [''void *sock''] 86,
      helper ''bpf_map_push_elem'' ''long''
        [''void *map'', ''const void *value'', ''__u64 flags''] 87,
      helper ''bpf_map_pop_elem'' ''long''
        [''void *map'', ''void *value''] 88,
      helper ''bpf_map_peek_elem'' ''long''
        [''void *map'', ''void *value''] 89,
      helper ''bpf_msg_push_data'' ''long''
        [''struct sk_msg_md *msg'', ''__u32 start'', ''__u32 len'', ''__u64 flags''] 90]"

definition bpf_helpers_91_98 :: "helper list" where
  "bpf_helpers_91_98 =
     [helper ''bpf_msg_pop_data'' ''long''
        [''struct sk_msg_md *msg'', ''__u32 start'', ''__u32 len'', ''__u64 flags''] 91,
      helper ''bpf_rc_pointer_rel'' ''long''
        [''void *ctx'', ''__s32 rel_x'', ''__s32 rel_y''] 92,
      helper ''bpf_spin_lock'' ''long''
        [''struct bpf_spin_lock *lock''] 93,
      helper ''bpf_spin_unlock'' ''long''
        [''struct bpf_spin_lock *lock''] 94,
      helper ''bpf_sk_fullsock'' ''struct bpf_sock *''
        [''struct bpf_sock *sk''] 95,
      helper ''bpf_tcp_sock'' ''struct bpf_tcp_sock *''
        [''struct bpf_sock *sk''] 96,
      helper ''bpf_skb_ecn_set_ce'' ''long''
        [''struct __sk_buff *skb''] 97,
      helper ''bpf_get_listener_sock'' ''struct bpf_sock *''
        [''struct bpf_sock *sk''] 98]"

definition bpf_helpers_99_104 :: "helper list" where
  "bpf_helpers_99_104 =
     [helper ''bpf_skc_lookup_tcp'' ''struct bpf_sock *''
        [''void *ctx'', ''struct bpf_sock_tuple *tuple'', ''__u32 tuple_size'', ''__u64 netns'', ''__u64 flags''] 99,
      helper ''bpf_tcp_check_syncookie'' ''long''
        [''void *sk'', ''void *iph'', ''__u32 iph_len'', ''struct tcphdr *th'', ''__u32 th_len''] 100,
      helper ''bpf_sysctl_get_name'' ''long''
        [''struct bpf_sysctl *ctx'', ''char *buf'', ''unsigned long buf_len'', ''__u64 flags''] 101,
      helper ''bpf_sysctl_get_current_value'' ''long''
        [''struct bpf_sysctl *ctx'', ''char *buf'', ''unsigned long buf_len''] 102,
      helper ''bpf_sysctl_get_new_value'' ''long''
        [''struct bpf_sysctl *ctx'', ''char *buf'', ''unsigned long buf_len''] 103,
      helper ''bpf_sysctl_set_new_value'' ''long''
        [''struct bpf_sysctl *ctx'', ''const char *buf'', ''unsigned long buf_len''] 104]"

definition bpf_helpers_105_109 :: "helper list" where
  "bpf_helpers_105_109 =
     [helper ''bpf_strtol'' ''long''
        [''const char *buf'', ''unsigned long buf_len'', ''__u64 flags'', ''long *res''] 105,
      helper ''bpf_strtoul'' ''long''
        [''const char *buf'', ''unsigned long buf_len'', ''__u64 flags'', ''unsigned long *res''] 106,
      helper ''bpf_sk_storage_get'' ''void *''
        [''void *map'', ''void *sk'', ''void *value'', ''__u64 flags''] 107,
      helper ''bpf_sk_storage_delete'' ''long''
        [''void *map'', ''void *sk''] 108,
      helper ''bpf_send_signal'' ''long''
        [''__u32 sig''] 109]"

definition bpf_helpers_110_115 :: "helper list" where
  "bpf_helpers_110_115 =
     [helper ''bpf_tcp_gen_syncookie'' ''__s64''
        [''void *sk'', ''void *iph'', ''__u32 iph_len'', ''struct tcphdr *th'', ''__u32 th_len''] 110,
      helper ''bpf_skb_output'' ''long''
        [''void *ctx'', ''void *map'', ''__u64 flags'', ''void *data'', ''__u64 size''] 111,
      helper ''bpf_probe_read_user'' ''long''
        [''void *dst'', ''__u32 size'', ''const void *unsafe_ptr''] 112,
      helper ''bpf_probe_read_kernel'' ''long''
        [''void *dst'', ''__u32 size'', ''const void *unsafe_ptr''] 113,
      helper ''bpf_probe_read_user_str'' ''long''
        [''void *dst'', ''__u32 size'', ''const void *unsafe_ptr''] 114,
      helper ''bpf_probe_read_kernel_str'' ''long''
        [''void *dst'', ''__u32 size'', ''const void *unsafe_ptr''] 115]"

definition bpf_helpers_116_123 :: "helper list" where
  "bpf_helpers_116_123 =
     [helper ''bpf_tcp_send_ack'' ''long''
        [''void *tp'', ''__u32 rcv_nxt''] 116,
      helper ''bpf_send_signal_thread'' ''long''
        [''__u32 sig''] 117,
      helper ''bpf_jiffies64'' ''__u64''
        [] 118,
      helper ''bpf_read_branch_records'' ''long''
        [''struct bpf_perf_event_data *ctx'', ''void *buf'', ''__u32 size'', ''__u64 flags''] 119,
      helper ''bpf_get_ns_current_pid_tgid'' ''long''
        [''__u64 dev'', ''__u64 ino'', ''struct bpf_pidns_info *nsdata'', ''__u32 size''] 120,
      helper ''bpf_xdp_output'' ''long''
        [''void *ctx'', ''void *map'', ''__u64 flags'', ''void *data'', ''__u64 size''] 121,
      helper ''bpf_get_netns_cookie'' ''__u64''
        [''void *ctx''] 122,
      helper ''bpf_get_current_ancestor_cgroup_id'' ''__u64''
        [''int ancestor_level''] 123]"

definition bpf_helpers_124_129 :: "helper list" where
  "bpf_helpers_124_129 =
     [helper ''bpf_sk_assign'' ''long''
        [''void *ctx'', ''void *sk'', ''__u64 flags''] 124,
      helper ''bpf_ktime_get_boot_ns'' ''__u64''
        [] 125,
      helper ''bpf_seq_printf'' ''long''
        [''struct seq_file *m'', ''const char *fmt'', ''__u32 fmt_size'', ''const void *data'', ''__u32 data_len''] 126,
      helper ''bpf_seq_write'' ''long''
        [''struct seq_file *m'', ''const void *data'', ''__u32 len''] 127,
      helper ''bpf_sk_cgroup_id'' ''__u64''
        [''void *sk''] 128,
      helper ''bpf_sk_ancestor_cgroup_id'' ''__u64''
        [''void *sk'', ''int ancestor_level''] 129]"

definition bpf_helpers_130_137 :: "helper list" where
  "bpf_helpers_130_137 =
     [helper ''bpf_ringbuf_output'' ''long''
        [''void *ringbuf'', ''void *data'', ''__u64 size'', ''__u64 flags''] 130,
      helper ''bpf_ringbuf_reserve'' ''void *''
        [''void *ringbuf'', ''__u64 size'', ''__u64 flags''] 131,
      helper ''bpf_ringbuf_submit'' ''void''
        [''void *data'', ''__u64 flags''] 132,
      helper ''bpf_ringbuf_discard'' ''void''
        [''void *data'', ''__u64 flags''] 133,
      helper ''bpf_ringbuf_query'' ''__u64''
        [''void *ringbuf'', ''__u64 flags''] 134,
      helper ''bpf_csum_level'' ''long''
        [''struct __sk_buff *skb'', ''__u64 level''] 135,
      helper ''bpf_skc_to_tcp6_sock'' ''struct tcp6_sock *''
        [''void *sk''] 136,
      helper ''bpf_skc_to_tcp_sock'' ''struct tcp_sock *''
        [''void *sk''] 137]"

definition bpf_helpers_138_142 :: "helper list" where
  "bpf_helpers_138_142 =
     [helper ''bpf_skc_to_tcp_timewait_sock'' ''struct tcp_timewait_sock *''
        [''void *sk''] 138,
      helper ''bpf_skc_to_tcp_request_sock'' ''struct tcp_request_sock *''
        [''void *sk''] 139,
      helper ''bpf_skc_to_udp6_sock'' ''struct udp6_sock *''
        [''void *sk''] 140,
      helper ''bpf_get_task_stack'' ''long''
        [''struct task_struct *task'', ''void *buf'', ''__u32 size'', ''__u64 flags''] 141,
      helper ''bpf_load_hdr_opt'' ''long''
        [''struct bpf_sock_ops *skops'', ''void *searchby_res'', ''__u32 len'', ''__u64 flags''] 142]"

definition bpf_helpers_143_148 :: "helper list" where
  "bpf_helpers_143_148 =
     [helper ''bpf_store_hdr_opt'' ''long''
        [''struct bpf_sock_ops *skops'', ''const void *from'', ''__u32 len'', ''__u64 flags''] 143,
      helper ''bpf_reserve_hdr_opt'' ''long''
        [''struct bpf_sock_ops *skops'', ''__u32 len'', ''__u64 flags''] 144,
      helper ''bpf_inode_storage_get'' ''void *''
        [''void *map'', ''void *inode'', ''void *value'', ''__u64 flags''] 145,
      helper ''bpf_inode_storage_delete'' ''int''
        [''void *map'', ''void *inode''] 146,
      helper ''bpf_d_path'' ''long''
        [''const struct path *path'', ''char *buf'', ''__u32 sz''] 147,
      helper ''bpf_copy_from_user'' ''long''
        [''void *dst'', ''__u32 size'', ''const void *user_ptr''] 148]"

definition bpf_helpers_149_154 :: "helper list" where
  "bpf_helpers_149_154 =
     [helper ''bpf_snprintf_btf'' ''long''
        [''char *str'', ''__u32 str_size'', ''struct btf_ptr *ptr'', ''__u32 btf_ptr_size'', ''__u64 flags''] 149,
      helper ''bpf_seq_printf_btf'' ''long''
        [''struct seq_file *m'', ''struct btf_ptr *ptr'', ''__u32 ptr_size'', ''__u64 flags''] 150,
      helper ''bpf_skb_cgroup_classid'' ''__u64''
        [''struct __sk_buff *skb''] 151,
      helper ''bpf_redirect_neigh'' ''long''
        [''__u32 ifindex'', ''struct bpf_redir_neigh *params'', ''int plen'', ''__u64 flags''] 152,
      helper ''bpf_per_cpu_ptr'' ''void *''
        [''const void *percpu_ptr'', ''__u32 cpu''] 153,
      helper ''bpf_this_cpu_ptr'' ''void *''
        [''const void *percpu_ptr''] 154]"

definition bpf_helpers_155_162 :: "helper list" where
  "bpf_helpers_155_162 =
     [helper ''bpf_redirect_peer'' ''long''
        [''__u32 ifindex'', ''__u64 flags''] 155,
      helper ''bpf_task_storage_get'' ''void *''
        [''void *map'', ''struct task_struct *task'', ''void *value'', ''__u64 flags''] 156,
      helper ''bpf_task_storage_delete'' ''long''
        [''void *map'', ''struct task_struct *task''] 157,
      helper ''bpf_get_current_task_btf'' ''struct task_struct *''
        [] 158,
      helper ''bpf_bprm_opts_set'' ''long''
        [''struct linux_binprm *bprm'', ''__u64 flags''] 159,
      helper ''bpf_ktime_get_coarse_ns'' ''__u64''
        [] 160,
      helper ''bpf_ima_inode_hash'' ''long''
        [''struct inode *inode'', ''void *dst'', ''__u32 size''] 161,
      helper ''bpf_sock_from_file'' ''struct socket *''
        [''struct file *file''] 162]"

definition bpf_helpers_163_166 :: "helper list" where
  "bpf_helpers_163_166 =
     [helper ''bpf_check_mtu'' ''long''
        [''void *ctx'', ''__u32 ifindex'', ''__u32 *mtu_len'', ''__s32 len_diff'', ''__u64 flags''] 163,
      helper ''bpf_for_each_map_elem'' ''long''
        [''void *map'', ''void *callback_fn'', ''void *callback_ctx'', ''__u64 flags''] 164,
      helper ''bpf_snprintf'' ''long''
        [''char *str'', ''__u32 str_size'', ''const char *fmt'', ''__u64 *data'', ''__u32 data_len''] 165,
      helper ''bpf_sys_bpf'' ''long''
        [''__u32 cmd'', ''void *attr'', ''__u32 attr_size''] 166]"

definition bpf_helpers_167_174 :: "helper list" where
  "bpf_helpers_167_174 =
     [helper ''bpf_btf_find_by_name_kind'' ''long''
        [''char *name'', ''int name_sz'', ''__u32 kind'', ''int flags''] 167,
      helper ''bpf_sys_close'' ''long''
        [''__u32 fd''] 168,
      helper ''bpf_timer_init'' ''long''
        [''struct bpf_timer *timer'', ''void *map'', ''__u64 flags''] 169,
      helper ''bpf_timer_set_callback'' ''long''
        [''struct bpf_timer *timer'', ''void *callback_fn''] 170,
      helper ''bpf_timer_start'' ''long''
        [''struct bpf_timer *timer'', ''__u64 nsecs'', ''__u64 flags''] 171,
      helper ''bpf_timer_cancel'' ''long''
        [''struct bpf_timer *timer''] 172,
      helper ''bpf_get_func_ip'' ''__u64''
        [''void *ctx''] 173,
      helper ''bpf_get_attach_cookie'' ''__u64''
        [''void *ctx''] 174]"

definition bpf_helpers_175_182 :: "helper list" where
  "bpf_helpers_175_182 =
     [helper ''bpf_task_pt_regs'' ''long''
        [''struct task_struct *task''] 175,
      helper ''bpf_get_branch_snapshot'' ''long''
        [''void *entries'', ''__u32 size'', ''__u64 flags''] 176,
      helper ''bpf_trace_vprintk'' ''long''
        [''const char *fmt'', ''__u32 fmt_size'', ''const void *data'', ''__u32 data_len''] 177,
      helper ''bpf_skc_to_unix_sock'' ''struct unix_sock *''
        [''void *sk''] 178,
      helper ''bpf_kallsyms_lookup_name'' ''long''
        [''const char *name'', ''int name_sz'', ''int flags'', ''__u64 *res''] 179,
      helper ''bpf_find_vma'' ''long''
        [''struct task_struct *task'', ''__u64 addr'', ''void *callback_fn'', ''void *callback_ctx'', ''__u64 flags''] 180,
      helper ''bpf_loop'' ''long''
        [''__u32 nr_loops'', ''void *callback_fn'', ''void *callback_ctx'', ''__u64 flags''] 181,
      helper ''bpf_strncmp'' ''long''
        [''const char *s1'', ''__u32 s1_sz'', ''const char *s2''] 182]"

definition bpf_helpers_183_191 :: "helper list" where
  "bpf_helpers_183_191 =
     [helper ''bpf_get_func_arg'' ''long''
        [''void *ctx'', ''__u32 n'', ''__u64 *value''] 183,
      helper ''bpf_get_func_ret'' ''long''
        [''void *ctx'', ''__u64 *value''] 184,
      helper ''bpf_get_func_arg_cnt'' ''long''
        [''void *ctx''] 185,
      helper ''bpf_get_retval'' ''int''
        [] 186,
      helper ''bpf_set_retval'' ''int''
        [''int retval''] 187,
      helper ''bpf_xdp_get_buff_len'' ''__u64''
        [''struct xdp_md *xdp_md''] 188,
      helper ''bpf_xdp_load_bytes'' ''long''
        [''struct xdp_md *xdp_md'', ''__u32 offset'', ''void *buf'', ''__u32 len''] 189,
      helper ''bpf_xdp_store_bytes'' ''long''
        [''struct xdp_md *xdp_md'', ''__u32 offset'', ''void *buf'', ''__u32 len''] 190,
      helper ''bpf_copy_from_user_task'' ''long''
        [''void *dst'', ''__u32 size'', ''const void *user_ptr'', ''struct task_struct *tsk'', ''__u64 flags''] 191]"

definition bpf_helpers_192_200 :: "helper list" where
  "bpf_helpers_192_200 =
     [helper ''bpf_skb_set_tstamp'' ''long''
        [''struct __sk_buff *skb'', ''__u64 tstamp'', ''__u32 tstamp_type''] 192,
      helper ''bpf_ima_file_hash'' ''long''
        [''struct file *file'', ''void *dst'', ''__u32 size''] 193,
      helper ''bpf_kptr_xchg'' ''void *''
        [''void *dst'', ''void *ptr''] 194,
      helper ''bpf_map_lookup_percpu_elem'' ''void *''
        [''void *map'', ''const void *key'', ''__u32 cpu''] 195,
      helper ''bpf_skc_to_mptcp_sock'' ''struct mptcp_sock *''
        [''void *sk''] 196,
      helper ''bpf_dynptr_from_mem'' ''long''
        [''void *data'', ''__u64 size'', ''__u64 flags'', ''struct bpf_dynptr *ptr''] 197,
      helper ''bpf_ringbuf_reserve_dynptr'' ''long''
        [''void *ringbuf'', ''__u32 size'', ''__u64 flags'', ''struct bpf_dynptr *ptr''] 198,
      helper ''bpf_ringbuf_submit_dynptr'' ''void''
        [''struct bpf_dynptr *ptr'', ''__u64 flags''] 199,
      helper ''bpf_ringbuf_discard_dynptr'' ''void''
        [''struct bpf_dynptr *ptr'', ''__u64 flags''] 200]"

definition bpf_helpers_201_207 :: "helper list" where
  "bpf_helpers_201_207 =
     [helper ''bpf_dynptr_read'' ''long''
        [''void *dst'', ''__u64 len'', ''const struct bpf_dynptr *src'', ''__u64 offset'', ''__u64 flags''] 201,
      helper ''bpf_dynptr_write'' ''long''
        [''const struct bpf_dynptr *dst'', ''__u64 offset'', ''void *src'', ''__u64 len'', ''__u64 flags''] 202,
      helper ''bpf_dynptr_data'' ''void *''
        [''const struct bpf_dynptr *ptr'', ''__u64 offset'', ''__u64 len''] 203,
      helper ''bpf_tcp_raw_gen_syncookie_ipv4'' ''__s64''
        [''struct iphdr *iph'', ''struct tcphdr *th'', ''__u32 th_len''] 204,
      helper ''bpf_tcp_raw_gen_syncookie_ipv6'' ''__s64''
        [''struct ipv6hdr *iph'', ''struct tcphdr *th'', ''__u32 th_len''] 205,
      helper ''bpf_tcp_raw_check_syncookie_ipv4'' ''long''
        [''struct iphdr *iph'', ''struct tcphdr *th''] 206,
      helper ''bpf_tcp_raw_check_syncookie_ipv6'' ''long''
        [''struct ipv6hdr *iph'', ''struct tcphdr *th''] 207]"

definition bpf_helpers_208_211 :: "helper list" where
  "bpf_helpers_208_211 =
     [helper ''bpf_ktime_get_tai_ns'' ''__u64''
        [] 208,
      helper ''bpf_user_ringbuf_drain'' ''long''
        [''void *map'', ''void *callback_fn'', ''void *ctx'', ''__u64 flags''] 209,
      helper ''bpf_cgrp_storage_get'' ''void *''
        [''void *map'', ''struct cgroup *cgroup'', ''void *value'', ''__u64 flags''] 210,
      helper ''bpf_cgrp_storage_delete'' ''long''
        [''void *map'', ''struct cgroup *cgroup''] 211]"

definition bpf_helper_defs :: "helper list" where
  "bpf_helper_defs =
     bpf_helpers_1_7 @ bpf_helpers_8_12 @ bpf_helpers_13_19 @
     bpf_helpers_20_22 @ bpf_helpers_23_26 @ bpf_helpers_27_31 @
     bpf_helpers_32_38 @ bpf_helpers_39_45 @ bpf_helpers_46_50 @
     bpf_helpers_51_54 @ bpf_helpers_55_58 @ bpf_helpers_59_62 @
     bpf_helpers_63_67 @ bpf_helpers_68_72 @ bpf_helpers_73_77 @
     bpf_helpers_78_83 @ bpf_helpers_84_90 @ bpf_helpers_91_98 @
     bpf_helpers_99_104 @ bpf_helpers_105_109 @ bpf_helpers_110_115 @
     bpf_helpers_116_123 @ bpf_helpers_124_129 @ bpf_helpers_130_137 @
     bpf_helpers_138_142 @ bpf_helpers_143_148 @ bpf_helpers_149_154 @
     bpf_helpers_155_162 @ bpf_helpers_163_166 @ bpf_helpers_167_174 @
     bpf_helpers_175_182 @ bpf_helpers_183_191 @ bpf_helpers_192_200 @
     bpf_helpers_201_207 @ bpf_helpers_208_211"

definition bpf_func_id_1 :: "(string \<times> int) list" where
  "bpf_func_id_1 =
     [(''BPF_FUNC_unspec'', 0), (''BPF_FUNC_map_lookup_elem'', 1),
      (''BPF_FUNC_map_update_elem'', 2), (''BPF_FUNC_map_delete_elem'', 3),
      (''BPF_FUNC_probe_read'', 4), (''BPF_FUNC_ktime_get_ns'', 5),
      (''BPF_FUNC_trace_printk'', 6), (''BPF_FUNC_get_prandom_u32'', 7),
      (''BPF_FUNC_get_smp_processor_id'', 8), (''BPF_FUNC_skb_store_bytes'', 9),
      (''BPF_FUNC_l3_csum_replace'', 10), (''BPF_FUNC_l4_csum_replace'', 11),
      (''BPF_FUNC_tail_call'', 12), (''BPF_FUNC_clone_redirect'', 13),
      (''BPF_FUNC_get_current_pid_tgid'', 14), (''BPF_FUNC_get_current_uid_gid'', 15),
      (''BPF_FUNC_get_current_comm'', 16), (''BPF_FUNC_get_cgroup_classid'', 17),
      (''BPF_FUNC_skb_vlan_push'', 18), (''BPF_FUNC_skb_vlan_pop'', 19),
      (''BPF_FUNC_skb_get_tunnel_key'', 20), (''BPF_FUNC_skb_set_tunnel_key'', 21),
      (''BPF_FUNC_perf_event_read'', 22), (''BPF_FUNC_redirect'', 23),
      (''BPF_FUNC_get_route_realm'', 24), (''BPF_FUNC_perf_event_output'', 25),
      (''BPF_FUNC_skb_load_bytes'', 26), (''BPF_FUNC_get_stackid'', 27),
      (''BPF_FUNC_csum_diff'', 28), (''BPF_FUNC_skb_get_tunnel_opt'', 29),
      (''BPF_FUNC_skb_set_tunnel_opt'', 30), (''BPF_FUNC_skb_change_proto'', 31),
      (''BPF_FUNC_skb_change_type'', 32), (''BPF_FUNC_skb_under_cgroup'', 33),
      (''BPF_FUNC_get_hash_recalc'', 34), (''BPF_FUNC_get_current_task'', 35),
      (''BPF_FUNC_probe_write_user'', 36), (''BPF_FUNC_current_task_under_cgroup'', 37),
      (''BPF_FUNC_skb_change_tail'', 38), (''BPF_FUNC_skb_pull_data'', 39),
      (''BPF_FUNC_csum_update'', 40), (''BPF_FUNC_set_hash_invalid'', 41),
      (''BPF_FUNC_get_numa_node_id'', 42), (''BPF_FUNC_skb_change_head'', 43),
      (''BPF_FUNC_xdp_adjust_head'', 44), (''BPF_FUNC_probe_read_str'', 45),
      (''BPF_FUNC_get_socket_cookie'', 46), (''BPF_FUNC_get_socket_uid'', 47),
      (''BPF_FUNC_set_hash'', 48), (''BPF_FUNC_setsockopt'', 49),
      (''BPF_FUNC_skb_adjust_room'', 50), (''BPF_FUNC_redirect_map'', 51),
      (''BPF_FUNC_sk_redirect_map'', 52), (''BPF_FUNC_sock_map_update'', 53),
      (''BPF_FUNC_xdp_adjust_meta'', 54), (''BPF_FUNC_perf_event_read_value'', 55),
      (''BPF_FUNC_perf_prog_read_value'', 56), (''BPF_FUNC_getsockopt'', 57),
      (''BPF_FUNC_override_return'', 58), (''BPF_FUNC_sock_ops_cb_flags_set'', 59),
      (''BPF_FUNC_msg_redirect_map'', 60), (''BPF_FUNC_msg_apply_bytes'', 61),
      (''BPF_FUNC_msg_cork_bytes'', 62), (''BPF_FUNC_msg_pull_data'', 63),
      (''BPF_FUNC_bind'', 64), (''BPF_FUNC_xdp_adjust_tail'', 65),
      (''BPF_FUNC_skb_get_xfrm_state'', 66), (''BPF_FUNC_get_stack'', 67),
      (''BPF_FUNC_skb_load_bytes_relative'', 68), (''BPF_FUNC_fib_lookup'', 69),
      (''BPF_FUNC_sock_hash_update'', 70), (''BPF_FUNC_msg_redirect_hash'', 71),
      (''BPF_FUNC_sk_redirect_hash'', 72), (''BPF_FUNC_lwt_push_encap'', 73),
      (''BPF_FUNC_lwt_seg6_store_bytes'', 74), (''BPF_FUNC_lwt_seg6_adjust_srh'', 75),
      (''BPF_FUNC_lwt_seg6_action'', 76), (''BPF_FUNC_rc_repeat'', 77),
      (''BPF_FUNC_rc_keydown'', 78), (''BPF_FUNC_skb_cgroup_id'', 79),
      (''BPF_FUNC_get_current_cgroup_id'', 80), (''BPF_FUNC_get_local_storage'', 81),
      (''BPF_FUNC_sk_select_reuseport'', 82), (''BPF_FUNC_skb_ancestor_cgroup_id'', 83),
      (''BPF_FUNC_sk_lookup_tcp'', 84), (''BPF_FUNC_sk_lookup_udp'', 85),
      (''BPF_FUNC_sk_release'', 86), (''BPF_FUNC_map_push_elem'', 87),
      (''BPF_FUNC_map_pop_elem'', 88), (''BPF_FUNC_map_peek_elem'', 89),
      (''BPF_FUNC_msg_push_data'', 90), (''BPF_FUNC_msg_pop_data'', 91),
      (''BPF_FUNC_rc_pointer_rel'', 92), (''BPF_FUNC_spin_lock'', 93),
      (''BPF_FUNC_spin_unlock'', 94), (''BPF_FUNC_sk_fullsock'', 95),
      (''BPF_FUNC_tcp_sock'', 96), (''BPF_FUNC_skb_ecn_set_ce'', 97),
      (''BPF_FUNC_get_listener_sock'', 98), (''BPF_FUNC_skc_lookup_tcp'', 99),
      (''BPF_FUNC_tcp_check_syncookie'', 100), (''BPF_FUNC_sysctl_get_name'', 101),
      (''BPF_FUNC_sysctl_get_current_value'', 102), (''BPF_FUNC_sysctl_get_new_value'', 103),
      (''BPF_FUNC_sysctl_set_new_value'', 104), (''BPF_FUNC_strtol'', 105),
      (''BPF_FUNC_strtoul'', 106), (''BPF_FUNC_sk_storage_get'', 107),
      (''BPF_FUNC_sk_storage_delete'', 108), (''BPF_FUNC_send_signal'', 109)]"

definition bpf_func_id_2 :: "(string \<times> int) list" where
  "bpf_func_id_2 =
     [(''BPF_FUNC_tcp_gen_syncookie'', 110), (''BPF_FUNC_skb_output'', 111),
      (''BPF_FUNC_probe_read_user'', 112), (''BPF_FUNC_probe_read_kernel'', 113),
      (''BPF_FUNC_probe_read_user_str'', 114), (''BPF_FUNC_probe_read_kernel_str'', 115),
      (''BPF_FUNC_tcp_send_ack'', 116), (''BPF_FUNC_send_signal_thread'', 117),
      (''BPF_FUNC_jiffies64'', 118), (''BPF_FUNC_read_branch_records'', 119),
      (''BPF_FUNC_get_ns_current_pid_tgid'', 120), (''BPF_FUNC_xdp_output'', 121),
      (''BPF_FUNC_get_netns_cookie'', 122), (''BPF_FUNC_get_current_ancestor_cgroup_id'', 123),
      (''BPF_FUNC_sk_assign'', 124), (''BPF_FUNC_ktime_get_boot_ns'', 125),
      (''BPF_FUNC_seq_printf'', 126), (''BPF_FUNC_seq_write'', 127),
      (''BPF_FUNC_sk_cgroup_id'', 128), (''BPF_FUNC_sk_ancestor_cgroup_id'', 129),
      (''BPF_FUNC_ringbuf_output'', 130), (''BPF_FUNC_ringbuf_reserve'', 131),
      (''BPF_FUNC_ringbuf_submit'', 132), (''BPF_FUNC_ringbuf_discard'', 133),
      (''BPF_FUNC_ringbuf_query'', 134), (''BPF_FUNC_csum_level'', 135),
      (''BPF_FUNC_skc_to_tcp6_sock'', 136), (''BPF_FUNC_skc_to_tcp_sock'', 137),
      (''BPF_FUNC_skc_to_tcp_timewait_sock'', 138), (''BPF_FUNC_skc_to_tcp_request_sock'', 139),
      (''BPF_FUNC_skc_to_udp6_sock'', 140), (''BPF_FUNC_get_task_stack'', 141),
      (''BPF_FUNC_load_hdr_opt'', 142), (''BPF_FUNC_store_hdr_opt'', 143),
      (''BPF_FUNC_reserve_hdr_opt'', 144), (''BPF_FUNC_inode_storage_get'', 145),
      (''BPF_FUNC_inode_storage_delete'', 146), (''BPF_FUNC_d_path'', 147),
      (''BPF_FUNC_copy_from_user'', 148), (''BPF_FUNC_snprintf_btf'', 149),
      (''BPF_FUNC_seq_printf_btf'', 150), (''BPF_FUNC_skb_cgroup_classid'', 151),
      (''BPF_FUNC_redirect_neigh'', 152), (''BPF_FUNC_per_cpu_ptr'', 153),
      (''BPF_FUNC_this_cpu_ptr'', 154), (''BPF_FUNC_redirect_peer'', 155),
      (''BPF_FUNC_task_storage_get'', 156), (''BPF_FUNC_task_storage_delete'', 157),
      (''BPF_FUNC_get_current_task_btf'', 158), (''BPF_FUNC_bprm_opts_set'', 159),
      (''BPF_FUNC_ktime_get_coarse_ns'', 160), (''BPF_FUNC_ima_inode_hash'', 161),
      (''BPF_FUNC_sock_from_file'', 162), (''BPF_FUNC_check_mtu'', 163),
      (''BPF_FUNC_for_each_map_elem'', 164), (''BPF_FUNC_snprintf'', 165),
      (''BPF_FUNC_sys_bpf'', 166), (''BPF_FUNC_btf_find_by_name_kind'', 167),
      (''BPF_FUNC_sys_close'', 168), (''BPF_FUNC_timer_init'', 169),
      (''BPF_FUNC_timer_set_callback'', 170), (''BPF_FUNC_timer_start'', 171),
      (''BPF_FUNC_timer_cancel'', 172), (''BPF_FUNC_get_func_ip'', 173),
      (''BPF_FUNC_get_attach_cookie'', 174), (''BPF_FUNC_task_pt_regs'', 175),
      (''BPF_FUNC_get_branch_snapshot'', 176), (''BPF_FUNC_trace_vprintk'', 177),
      (''BPF_FUNC_skc_to_unix_sock'', 178), (''BPF_FUNC_kallsyms_lookup_name'', 179),
      (''BPF_FUNC_find_vma'', 180), (''BPF_FUNC_loop'', 181), (''BPF_FUNC_strncmp'', 182),
      (''BPF_FUNC_get_func_arg'', 183), (''BPF_FUNC_get_func_ret'', 184),
      (''BPF_FUNC_get_func_arg_cnt'', 185), (''BPF_FUNC_get_retval'', 186),
      (''BPF_FUNC_set_retval'', 187), (''BPF_FUNC_xdp_get_buff_len'', 188),
      (''BPF_FUNC_xdp_load_bytes'', 189), (''BPF_FUNC_xdp_store_bytes'', 190),
      (''BPF_FUNC_copy_from_user_task'', 191), (''BPF_FUNC_skb_set_tstamp'', 192),
      (''BPF_FUNC_ima_file_hash'', 193), (''BPF_FUNC_kptr_xchg'', 194),
      (''BPF_FUNC_map_lookup_percpu_elem'', 195), (''BPF_FUNC_skc_to_mptcp_sock'', 196),
      (''BPF_FUNC_dynptr_from_mem'', 197), (''BPF_FUNC_ringbuf_reserve_dynptr'', 198),
      (''BPF_FUNC_ringbuf_submit_dynptr'', 199), (''BPF_FUNC_ringbuf_discard_dynptr'', 200),
      (''BPF_FUNC_dynptr_read'', 201), (''BPF_FUNC_dynptr_write'', 202),
      (''BPF_FUNC_dynptr_data'', 203), (''BPF_FUNC_tcp_raw_gen_syncookie_ipv4'', 204),
      (''BPF_FUNC_tcp_raw_gen_syncookie_ipv6'', 205),
      (''BPF_FUNC_tcp_raw_check_syncookie_ipv4'', 206),
      (''BPF_FUNC_tcp_raw_check_syncookie_ipv6'', 207), (''BPF_FUNC_ktime_get_tai_ns'', 208),
      (''BPF_FUNC_user_ringbuf_drain'', 209), (''BPF_FUNC_cgrp_storage_get'', 210),
      (''BPF_FUNC_cgrp_storage_delete'', 211), (''__BPF_FUNC_MAX_ID'', 212)]"

text \<open>The number under which a program calls a helper by name.\<close>

definition helper_id :: "string \<Rightarrow> nat option" where
  "helper_id n = map_option h_id (find (\<lambda>h. h_name h = n) bpf_helper_defs)"

section \<open>The table is consistent\<close>

lemmas helper_table_defs = bpf_helper_defs_def
      bpf_helpers_1_7_def bpf_helpers_8_12_def bpf_helpers_13_19_def bpf_helpers_20_22_def
      bpf_helpers_23_26_def bpf_helpers_27_31_def bpf_helpers_32_38_def bpf_helpers_39_45_def
      bpf_helpers_46_50_def bpf_helpers_51_54_def bpf_helpers_55_58_def bpf_helpers_59_62_def
      bpf_helpers_63_67_def bpf_helpers_68_72_def bpf_helpers_73_77_def bpf_helpers_78_83_def
      bpf_helpers_84_90_def bpf_helpers_91_98_def bpf_helpers_99_104_def bpf_helpers_105_109_def
      bpf_helpers_110_115_def bpf_helpers_116_123_def bpf_helpers_124_129_def
      bpf_helpers_130_137_def bpf_helpers_138_142_def bpf_helpers_143_148_def
      bpf_helpers_149_154_def bpf_helpers_155_162_def bpf_helpers_163_166_def
      bpf_helpers_167_174_def bpf_helpers_175_182_def bpf_helpers_183_191_def
      bpf_helpers_192_200_def bpf_helpers_201_207_def bpf_helpers_208_211_def

lemma bpf_helper_defs_ids: "map h_id bpf_helper_defs = [1..<212]"
  by (simp add: helper_table_defs upt_rec)

lemma bpf_helper_defs_args: "list_all (\<lambda>h. length (h_args h) \<le> 5) bpf_helper_defs"
  by (simp add: helper_table_defs)

lemma bpf_func_ids:
  "bpf_func_id_1 @ bpf_func_id_2 =
     (''BPF_FUNC_unspec'', 0) #
     map (\<lambda>h. (''BPF_FUNC_'' @ drop 4 (h_name h), int (h_id h))) bpf_helper_defs @
     [(''__BPF_FUNC_MAX_ID'', 212)]"
  by (simp add: helper_table_defs bpf_func_id_1_def bpf_func_id_2_def)

text \<open>The helpers that the probe calls, by the chunk of the table they are in.\<close>

definition probe_helpers :: "helper list" where
  "probe_helpers =
     [helper ''bpf_map_lookup_elem'' ''void *'' [''void *map'', ''const void *key''] 1,
      helper ''bpf_ringbuf_reserve'' ''void *'' [''void *ringbuf'', ''__u64 size'', ''__u64 flags''] 131,
      helper ''bpf_ktime_get_tai_ns'' ''__u64'' [] 208,
      helper ''bpf_get_current_cgroup_id'' ''__u64'' [] 80,
      helper ''bpf_get_current_pid_tgid'' ''__u64'' [] 14,
      helper ''bpf_ringbuf_submit'' ''void'' [''void *data'', ''__u64 flags''] 132]"

lemma probe_helpers_chunks:
  "probe_helpers ! 0 \<in> set bpf_helpers_1_7" "probe_helpers ! 4 \<in> set bpf_helpers_13_19"
  "probe_helpers ! 3 \<in> set bpf_helpers_78_83" "probe_helpers ! 1 \<in> set bpf_helpers_130_137"
  "probe_helpers ! 5 \<in> set bpf_helpers_130_137" "probe_helpers ! 2 \<in> set bpf_helpers_208_211"
  by (simp_all add: probe_helpers_def bpf_helpers_1_7_def bpf_helpers_13_19_def bpf_helpers_78_83_def
      bpf_helpers_130_137_def bpf_helpers_208_211_def)

lemma probe_helpers_listed: "set probe_helpers \<subseteq> set bpf_helper_defs"
proof -
  have "set probe_helpers = {probe_helpers ! 0, probe_helpers ! 1, probe_helpers ! 2, probe_helpers ! 3,
      probe_helpers ! 4, probe_helpers ! 5}"
    by (simp add: probe_helpers_def)
  also have "\<dots> \<subseteq> set bpf_helper_defs"
    using probe_helpers_chunks by (simp add: bpf_helper_defs_def)
  finally show ?thesis .
qed

section \<open>Properties\<close>

text \<open>The program's header and the kernel's enumeration agree on every helper: the numbers of the header
  are 1 to 211 without gap or repetition, each is the value of the enumerator of the same name in
  \<^verbatim>\<open>enum bpf_func_id\<close>, no helper takes more than the five arguments the machine has registers for, and the
  six helpers the probe calls are among them under the names and with the arguments it uses.\<close>

lemma helper_numbers:
  "map h_id bpf_helper_defs = [1..<212] \<and>
   bpf_func_id_1 @ bpf_func_id_2 = (''BPF_FUNC_unspec'', 0) #
     map (\<lambda>h. (''BPF_FUNC_'' @ drop 4 (h_name h), int (h_id h))) bpf_helper_defs @ [(''__BPF_FUNC_MAX_ID'', 212)] \<and>
   list_all (\<lambda>h. length (h_args h) \<le> 5) bpf_helper_defs \<and>
   set probe_helpers \<subseteq> set bpf_helper_defs"
  using bpf_helper_defs_ids bpf_func_ids bpf_helper_defs_args probe_helpers_listed by (intro conjI)

end
