(* ===== verification/DrmBpf.thy ===== *)
theory DrmBpf
  imports BpfTracing BpfHelperDefs
begin

text \<open>
  The eBPF probe: \<^verbatim>\<open>bpf/common.h\<close> and \<^verbatim>\<open>bpf/drm_common.bpf.c\<close>. The state is the contents of the
  four maps; \<open>kubenpu_ioctl\<close> is the fentry program statement by statement, with its stores into
  the reserved ring-buffer sample done at the offsets the C layout gives. What the kernel supplies
  (kernel memory, the values of the helpers, whether the ring buffer has room and what bytes a
  reserved sample holds) is the argument \<open>env\<close>; the field offsets that CO-RE relocates at load time
  are the argument \<open>relo\<close>.
\<close>

section \<open>common.h\<close>

definition KindUnknown :: u8 where "KindUnknown = 0"
definition KindSubmit :: u8 where "KindSubmit = 1"
definition KindAlloc :: u8 where "KindAlloc = 2"
definition KindWait :: u8 where "KindWait = 3"

record device_key =
  dk_major :: u32
  dk_minor :: u32

record ioctl_key =
  ik_vendor_id :: u32
  ik_nr :: u32

record event =
  ev_timestamp :: u64
  ev_cgroup_id :: u64
  ev_tgid :: u32
  ev_cmd :: u32
  ev_minor :: u32
  ev_major :: u16
  ev_kind :: u8
  ev_pad :: u8

text \<open>The same structs as C types, for their layout.\<close>

definition struct_device_key :: cty where
  "struct_device_key = CStruct ''device_key'' False [Field ''major'' c__u32, Field ''minor'' c__u32]"

definition struct_ioctl_key :: cty where
  "struct_ioctl_key = CStruct ''ioctl_key'' False [Field ''vendor_id'' c__u32, Field ''nr'' c__u32]"

definition struct_event :: cty where
  "struct_event = CStruct ''event'' False
     [Field ''timestamp'' c__u64,
      Field ''cgroup_id'' c__u64,
      Field ''tgid'' c__u32,
      Field ''cmd'' c__u32,
      Field ''minor'' c__u32,
      Field ''major'' c__u16,
      Field ''kind'' c__u8,
      Field ''_pad'' (CArr 1 c__u8)]"

section \<open>Maps\<close>

definition MAX_ENTRIES_DEVICES :: nat where "MAX_ENTRIES_DEVICES = 32"
definition MAX_ENTRIES_IOCTLS :: nat where "MAX_ENTRIES_IOCTLS = 640"
definition MAX_ENTRIES_EVENTS :: nat where "MAX_ENTRIES_EVENTS = 256 * 1024"

text \<open>A map declaration of section \<^verbatim>\<open>.maps\<close>: the type is an enumerator of \<^verbatim>\<open>enum bpf_map_type\<close>; a
  ring buffer has no key and value types.\<close>

record map_def =
  md_type :: string
  md_max_entries :: nat
  md_key :: "cty option"
  md_value :: "cty option"

definition devices_def :: map_def where
  "devices_def = \<lparr>md_type = ''BPF_MAP_TYPE_HASH'', md_max_entries = MAX_ENTRIES_DEVICES,
     md_key = Some struct_device_key, md_value = Some c__u32\<rparr>"

definition ioctls_def :: map_def where
  "ioctls_def = \<lparr>md_type = ''BPF_MAP_TYPE_HASH'', md_max_entries = MAX_ENTRIES_IOCTLS,
     md_key = Some struct_ioctl_key, md_value = Some c__u8\<rparr>"

definition events_def :: map_def where
  "events_def = \<lparr>md_type = ''BPF_MAP_TYPE_RINGBUF'', md_max_entries = MAX_ENTRIES_EVENTS,
     md_key = None, md_value = None\<rparr>"

definition dropped_def :: map_def where
  "dropped_def = \<lparr>md_type = ''BPF_MAP_TYPE_PERCPU_ARRAY'', md_max_entries = 1,
     md_key = Some c__u32, md_value = Some c__u64\<rparr>"

text \<open>The contents of the maps: the two hash maps, the submitted samples of the ring buffer that
  userspace has not consumed (oldest first), and for each CPU the array \<^verbatim>\<open>dropped\<close>.\<close>

record bpf_state =
  devices :: "device_key \<rightharpoonup> u32"
  ioctls :: "ioctl_key \<rightharpoonup> u8"
  events :: "u8 list list"
  dropped :: "nat \<Rightarrow> u64 list"

text \<open>The maps as the kernel creates them: hash maps empty, array elements zero.\<close>

definition bpf_init :: bpf_state where
  "bpf_init = \<lparr>devices = Map.empty, ioctls = Map.empty, events = [],
     dropped = (\<lambda>cpu. replicate (md_max_entries dropped_def) 0)\<rparr>"

section \<open>The probe\<close>

text \<open>What the kernel supplies to one run of the program. \<open>ringbuf_reserve\<close> gets the unconsumed
  samples and the size and returns the bytes of the reserved sample, or \<open>None\<close> for \<^verbatim>\<open>NULL\<close>.\<close>

record bpf_env =
  kmem :: "u64 \<Rightarrow> u8"
  ktime_get_tai_ns :: u64
  current_cgroup_id :: u64
  current_pid_tgid :: u64
  smp_processor_id :: nat
  ringbuf_reserve :: "u8 list list \<Rightarrow> nat \<Rightarrow> u8 list option"

record core_relo =
  off_f_inode :: u64
  off_i_rdev :: u64

text \<open>The offsets clang compiles in, from \<^verbatim>\<open>vmlinux.h\<close>; CO-RE replaces them by those of the running
  kernel.\<close>

definition vmlinux_relo :: core_relo where
  "vmlinux_relo = \<lparr>off_f_inode = of_nat (the (offsetof struct_file ''f_inode'')),
                  off_i_rdev = of_nat (the (offsetof struct_inode ''i_rdev''))\<rparr>"

definition load_bytes :: "(u64 \<Rightarrow> u8) \<Rightarrow> u64 \<Rightarrow> nat \<Rightarrow> u8 list" where
  "load_bytes mem a n = map (\<lambda>i. mem (a + of_nat i)) [0..<n]"

definition load64 :: "(u64 \<Rightarrow> u8) \<Rightarrow> u64 \<Rightarrow> u64" where
  "load64 mem a = from_le (load_bytes mem a 8)"

definition load32 :: "(u64 \<Rightarrow> u8) \<Rightarrow> u64 \<Rightarrow> u32" where
  "load32 mem a = from_le (load_bytes mem a 4)"

text \<open>A store of \<open>n\<close> bytes into a buffer, and a store to a member of \<^verbatim>\<open>struct event\<close>.\<close>

definition store_le :: "nat \<Rightarrow> nat \<Rightarrow> 'a::len word \<Rightarrow> u8 list \<Rightarrow> u8 list" where
  "store_le off n w buf = take off buf @ to_le n w @ drop (off + n) buf"

definition put_member :: "string \<Rightarrow> nat \<Rightarrow> 'a::len word \<Rightarrow> u8 list \<Rightarrow> u8 list" where
  "put_member f n w buf =
     (case offsetof struct_event f of Some off \<Rightarrow> store_le off n w buf | None \<Rightarrow> buf)"

text \<open>The eight stores of the program, in its order.\<close>

definition fill_event :: "bpf_env \<Rightarrow> u32 \<Rightarrow> u32 \<Rightarrow> u32 \<Rightarrow> u8 \<Rightarrow> u8 list \<Rightarrow> u8 list" where
  "fill_event env cmd minor major kind poll_event =
     (let b = put_member ''timestamp'' 8 (ktime_get_tai_ns env) poll_event;
          b = put_member ''cgroup_id'' 8 (current_cgroup_id env) b;
          b = put_member ''tgid'' 4 (ucast (drop_bit 32 (current_pid_tgid env)) :: u32) b;
          b = put_member ''cmd'' 4 cmd b;
          b = put_member ''minor'' 4 minor b;
          b = put_member ''major'' 2 (ucast major :: u16) b;
          b = put_member ''kind'' 1 kind b;
          b = put_member ''_pad'' 1 (0 :: u8) b
      in b)"

text \<open>\<^verbatim>\<open>*lost += 1\<close> on the element of this CPU, if the lookup finds one.\<close>

definition count_dropped :: "bpf_env \<Rightarrow> bpf_state \<Rightarrow> bpf_state" where
  "count_dropped env st =
     (let zero = 0; cpu = smp_processor_id env; arr = dropped st cpu in
      if zero < length arr
      then st\<lparr>dropped := (dropped st)(cpu := arr[zero := arr ! zero + 1])\<rparr>
      else st)"

definition kubenpu_ioctl ::
  "core_relo \<Rightarrow> bpf_env \<Rightarrow> u64 \<Rightarrow> u32 \<Rightarrow> u64 \<Rightarrow> bpf_state \<Rightarrow> u32 \<times> bpf_state" where
  "kubenpu_ioctl relo env filp cmd arg st =
     (let f_inode = load64 (kmem env) (filp + off_f_inode relo);
          rdev = (ucast (load32 (kmem env) (f_inode + off_i_rdev relo)) :: u64);
          minor = (ucast (rdev AND 0xFFFFF) :: u32);
          major = (ucast (drop_bit 20 rdev) :: u32);
          dkey = \<lparr>dk_major = major, dk_minor = minor\<rparr>
      in case devices st dkey of
           None \<Rightarrow> (0, st)
         | Some devices_data \<Rightarrow>
             (let nr = cmd AND 0xFF;
                  ikey = \<lparr>ik_vendor_id = devices_data, ik_nr = nr\<rparr>
              in case ioctls st ikey of
                   None \<Rightarrow> (0, st)
                 | Some ioctls_data \<Rightarrow>
                     (case ringbuf_reserve env (events st) (sizeof struct_event) of
                        None \<Rightarrow> (0, count_dropped env st)
                      | Some poll_event \<Rightarrow>
                          (0, st\<lparr>events := events st @
                                 [fill_event env cmd minor major ioctls_data poll_event]\<rparr>))))"

text \<open>\<^verbatim>\<open>int BPF_PROG(kubenpu_ioctl, struct file *filp, unsigned int cmd, unsigned long arg)\<close>.\<close>

definition kubenpu_ioctl_prog ::
  "core_relo \<Rightarrow> bpf_env \<Rightarrow> (nat \<Rightarrow> u64) \<Rightarrow> bpf_state \<Rightarrow> (u32 \<times> bpf_state) option" where
  "kubenpu_ioctl_prog relo env ctx st =
     BPF_PROG [''struct file *filp'', ''unsigned int cmd'', ''unsigned long arg'']
       (\<lambda>args. kubenpu_ioctl relo env (args ! 0) (ucast (args ! 1)) (args ! 2) st) ctx"

section \<open>Layout of the shared structs\<close>

lemma struct_event_layout [layout_simps]:
  "sizeof struct_event = 32 \<and> alignof struct_event = 8 \<and> wf_cty struct_event"
  by (simp add: struct_event_def layout_eval layout_simps del: One_nat_def)

lemma map_keys_layout [layout_simps]:
  "sizeof struct_device_key = 8" "sizeof struct_ioctl_key = 8"
  by (simp_all add: struct_device_key_def struct_ioctl_key_def layout_eval layout_simps)

lemma struct_event_offsets:
  "offsetof struct_event ''timestamp'' = Some 0"
  "offsetof struct_event ''cgroup_id'' = Some 8"
  "offsetof struct_event ''tgid'' = Some 16"
  "offsetof struct_event ''cmd'' = Some 20"
  "offsetof struct_event ''minor'' = Some 24"
  "offsetof struct_event ''major'' = Some 28"
  "offsetof struct_event ''kind'' = Some 30"
  "offsetof struct_event ''_pad'' = Some 31"
  by (simp_all add: struct_event_def offsetof_def layout_eval layout_simps del: One_nat_def)

section \<open>The sample a run submits\<close>

text \<open>The memory image of an event, member after member without padding.\<close>

definition event_bytes :: "event \<Rightarrow> u8 list" where
  "event_bytes e =
     to_le 8 (ev_timestamp e) @ to_le 8 (ev_cgroup_id e) @ to_le 4 (ev_tgid e) @
     to_le 4 (ev_cmd e) @ to_le 4 (ev_minor e) @ to_le 2 (ev_major e) @
     to_le 1 (ev_kind e) @ to_le 1 (ev_pad e)"

lemma length_event_bytes [simp, byte_simps]: "length (event_bytes e) = 32"
  by (simp add: event_bytes_def)

lemma length_store_le [simp, byte_simps]:
  "off + n \<le> length buf \<Longrightarrow> length (store_le off n w buf) = length buf"
  by (simp add: store_le_def)

text \<open>A store right behind an already written prefix extends the prefix.\<close>

lemma store_le_first: "store_le 0 n w buf = to_le n w @ drop n buf"
  by (simp add: store_le_def)

lemma store_le_extend:
  "length pre = off \<Longrightarrow> store_le off n w (pre @ drop off buf) = (pre @ to_le n w) @ drop (off + n) buf"
  by (simp add: store_le_def add.commute)

lemma fill_event_bytes:
  assumes "length buf = 32"
  shows "fill_event env cmd minor major kind buf =
    event_bytes \<lparr>ev_timestamp = ktime_get_tai_ns env, ev_cgroup_id = current_cgroup_id env,
      ev_tgid = ucast (drop_bit 32 (current_pid_tgid env)), ev_cmd = cmd, ev_minor = minor,
      ev_major = ucast major, ev_kind = kind, ev_pad = 0\<rparr>"
proof -
  have "fill_event env cmd minor major kind buf =
    (((((((to_le 8 (ktime_get_tai_ns env) @ to_le 8 (current_cgroup_id env)) @
      to_le 4 (ucast (drop_bit 32 (current_pid_tgid env)) :: u32)) @ to_le 4 cmd) @ to_le 4 minor) @
      to_le 2 (ucast major :: u16)) @ to_le 1 kind) @ to_le 1 (0 :: u8)) @ drop 32 buf"
    by (simp add: fill_event_def put_member_def struct_event_offsets store_le_first store_le_extend
        Let_def del: append_assoc to_le.simps)
  with assms show ?thesis
    by (simp add: event_bytes_def)
qed

section \<open>Device numbers\<close>

text \<open>The kernel's \<^verbatim>\<open>dev_t\<close> is 32 bits wide: 12 bits of major and 20 bits of minor number.\<close>

definition dev_major :: "u32 \<Rightarrow> u32" where "dev_major rdev = drop_bit 20 rdev"
definition dev_minor :: "u32 \<Rightarrow> u32" where "dev_minor rdev = rdev AND 0xFFFFF"

lemma mask_20_eq: "(0xFFFFF :: 'a::len word) = mask 20"
  by (simp add: mask_eq_exp_minus_1)

lemma probe_minor: "ucast ((ucast (rdev :: u32) :: u64) AND 0xFFFFF) = dev_minor rdev"
  unfolding dev_minor_def mask_20_eq
  by (rule bit_eqI) (auto simp: bit_ucast_iff bit_and_iff bit_mask_iff)

lemma probe_major: "ucast (drop_bit 20 (ucast (rdev :: u32) :: u64)) = dev_major rdev"
  unfolding dev_major_def
  by (rule bit_eqI) (auto simp: bit_ucast_iff bit_drop_bit_eq dest: bit_imp_le_length)

lemma dev_major_bit: "bit (dev_major rdev) i \<Longrightarrow> i < 12"
  using bit_imp_le_length [of rdev "20 + i"] by (auto simp: dev_major_def bit_drop_bit_eq)

lemma dev_major_bound: "unat (dev_major rdev) < 4096"
proof -
  have "unat (dev_major rdev) = unat rdev div 2 ^ 20"
    unfolding dev_major_def unat_drop_bit_eq by (simp add: drop_bit_eq_div)
  moreover have "unat rdev < 2 ^ LENGTH(32)"
    by (rule unsigned_less)
  ultimately show ?thesis
    by (simp add: less_mult_imp_div_less)
qed

text \<open>Storing the major number in the 16-bit member of \<^verbatim>\<open>struct event\<close> loses nothing.\<close>

lemma dev_major_u16: "ucast (ucast (dev_major rdev) :: u16) = dev_major rdev"
  by (rule bit_eqI) (auto simp: bit_ucast_iff dest: dev_major_bit)

lemma dev_number_split: "push_bit 20 (dev_major rdev) OR dev_minor rdev = rdev"
  unfolding dev_minor_def dev_major_def mask_20_eq
  by (rule bit_eqI) (auto simp: bit_or_iff bit_push_bit_iff bit_drop_bit_eq bit_and_iff bit_mask_iff
      dest: bit_imp_le_length)

section \<open>What one call of the hook does\<close>

text \<open>The contract of the probe: a call is reported exactly when its device is registered and its
  ioctl number is in the table of the device's vendor.\<close>

definition probe_rdev :: "core_relo \<Rightarrow> bpf_env \<Rightarrow> u64 \<Rightarrow> u32" where
  "probe_rdev relo env filp =
     load32 (kmem env) (load64 (kmem env) (filp + off_f_inode relo) + off_i_rdev relo)"

definition probe_kind :: "bpf_state \<Rightarrow> u32 \<Rightarrow> u32 \<Rightarrow> u8 option" where
  "probe_kind st rdev cmd =
     Option.bind (devices st \<lparr>dk_major = dev_major rdev, dk_minor = dev_minor rdev\<rparr>)
       (\<lambda>v. ioctls st \<lparr>ik_vendor_id = v, ik_nr = cmd AND 0xFF\<rparr>)"

definition probe_event :: "bpf_env \<Rightarrow> u32 \<Rightarrow> u32 \<Rightarrow> u8 \<Rightarrow> event" where
  "probe_event env rdev cmd kind =
     \<lparr>ev_timestamp = ktime_get_tai_ns env, ev_cgroup_id = current_cgroup_id env,
      ev_tgid = ucast (drop_bit 32 (current_pid_tgid env)), ev_cmd = cmd,
      ev_minor = dev_minor rdev, ev_major = ucast (dev_major rdev), ev_kind = kind, ev_pad = 0\<rparr>"

text \<open>\<^verbatim>\<open>bpf_ringbuf_reserve\<close> returns \<open>size\<close> bytes or \<^verbatim>\<open>NULL\<close>; nothing is known of the bytes.\<close>

definition reserve_sized :: "bpf_env \<Rightarrow> bool" where
  "reserve_sized env \<longleftrightarrow> (\<forall>q n b. ringbuf_reserve env q n = Some b \<longrightarrow> length b = n)"

lemma kubenpu_ioctl_cases:
  "kubenpu_ioctl relo env filp cmd arg st =
     (case probe_kind st (probe_rdev relo env filp) cmd of
        None \<Rightarrow> (0, st)
      | Some kind \<Rightarrow>
          (case ringbuf_reserve env (events st) 32 of
             None \<Rightarrow> (0, count_dropped env st)
           | Some b \<Rightarrow>
               (0, st\<lparr>events := events st @
                      [fill_event env cmd (dev_minor (probe_rdev relo env filp))
                         (dev_major (probe_rdev relo env filp)) kind b]\<rparr>)))"
  by (simp add: kubenpu_ioctl_def probe_kind_def probe_rdev_def probe_minor probe_major Let_def
      layout_simps split: option.split)

text \<open>A concrete call for the witnesses: \<^verbatim>\<open>/dev/dri/renderD128\<close> (226:128) opened by an i915 client.
  The open file is at \<open>0x1000\<close>, its inode at \<open>0x2000\<close>.\<close>

definition sample_kmem :: "u64 \<Rightarrow> u8" where
  "sample_kmem a =
     (if a = 0x1021 then 0x20
      else if a = 0x204C then 0x80 else if a = 0x204E then 0x20 else if a = 0x204F then 0x0E else 0)"

definition sample_env :: bpf_env where
  "sample_env = \<lparr>kmem = sample_kmem, ktime_get_tai_ns = 1000, current_cgroup_id = 117316,
     current_pid_tgid = 0x0000002A0000002B, smp_processor_id = 0,
     ringbuf_reserve = (\<lambda>q n. if length q < 2 then Some (replicate n 0xAA) else None)\<rparr>"

definition sample_state :: bpf_state where
  "sample_state = bpf_init\<lparr>
     devices := [\<lparr>dk_major = 226, dk_minor = 128\<rparr> \<mapsto> 1],
     ioctls := [\<lparr>ik_vendor_id = 1, ik_nr = 0x69\<rparr> \<mapsto> KindSubmit]\<rparr>"

lemma sample_rdev: "probe_rdev \<lparr>off_f_inode = 32, off_i_rdev = 76\<rparr> sample_env 0x1000 = 0x0E200080"
  by (simp add: probe_rdev_def sample_env_def load64_def load32_def load_bytes_def sample_kmem_def
      upt_rec)

lemma sample_dev: "dev_major 0x0E200080 = 226" "dev_minor 0x0E200080 = 128"
  by (simp_all add: dev_major_def dev_minor_def)

lemmas sample_simps = sample_rdev sample_dev

text \<open>The program as the kernel calls it, with the trampoline's array of 64-bit slots.\<close>

lemma kubenpu_ioctl_arguments:
  "kubenpu_ioctl_prog relo env ctx st = Some (kubenpu_ioctl relo env (ctx 0) (ucast (ctx 1)) (ctx 2) st)"
proof -
  have "[0..<3] = [0, 1, 2 :: nat]" by (simp add: upt_rec)
  then show ?thesis
    by (simp add: kubenpu_ioctl_prog_def BPF_PROG_def bpf_apply_narg bpf_ctx_cast_slots numeral_2_eq_2)
qed

text \<open>C11: The trampoline hands the program an array of 64-bit slots: the open file is slot 0, the command the
  low 32 bits of slot 1. A call whose device and ioctl number are registered and for which the ring buffer
  has room appends exactly one sample and changes nothing else, and the 32 bytes of that sample are the
  image of the event record built from the device number, the command, the kind of the table and the helper
  values. In particular no byte of the reserved, uninitialised kernel memory survives in what userspace
  reads.\<close>

theorem kubenpu_ioctl_submits:
  assumes "reserve_sized env" and "filp = ctx 0" and "cmd = ucast (ctx 1)"
    and "probe_kind st (probe_rdev relo env filp) cmd = Some kind"
    and "ringbuf_reserve env (events st) 32 = Some buf"
  shows "kubenpu_ioctl_prog relo env ctx st = Some
    (0, st\<lparr>events := events st @ [event_bytes (probe_event env (probe_rdev relo env filp) cmd kind)]\<rparr>)"
proof -
  have "length buf = 32" using assms by (auto simp: reserve_sized_def)
  with assms show ?thesis
    by (simp add: kubenpu_ioctl_arguments kubenpu_ioctl_cases fill_event_bytes probe_event_def)
qed

theorem kubenpu_ioctl_submits_witness:
  "kubenpu_ioctl_prog \<lparr>off_f_inode = 32, off_i_rdev = 76\<rparr> sample_env (\<lambda>i. [0x1000, 0x40406469, 0] ! i) sample_state =
     Some (0, sample_state\<lparr>events :=
        [event_bytes (probe_event sample_env 0x0E200080 0x40406469 KindSubmit)]\<rparr>)"
proof -
  have "reserve_sized sample_env"
    by (simp add: reserve_sized_def sample_env_def)
  moreover have "probe_kind sample_state 0x0E200080 0x40406469 = Some KindSubmit"
    by (simp add: probe_kind_def sample_state_def sample_simps)
  moreover have "events sample_state = []"
    by (simp add: sample_state_def bpf_init_def)
  moreover have "ringbuf_reserve sample_env [] 32 = Some (replicate 32 0xAA)"
    by (simp add: sample_env_def)
  ultimately show ?thesis
    using kubenpu_ioctl_submits [where env = sample_env and st = sample_state and filp = "0x1000" and
        ctx = "\<lambda>i. [0x1000, 0x40406469, 0] ! i" and
        relo = "\<lparr>off_f_inode = 32, off_i_rdev = 76\<rparr>" and cmd = "0x40406469" and kind = KindSubmit]
    by (simp add: sample_rdev)
qed

text \<open>C12: Filtering happens before anything is written: a call on a device that is not registered, or
  with an ioctl number the table of the device's vendor does not have, returns 0 and leaves the
  maps, the ring buffer and the drop counters as they were.\<close>

theorem kubenpu_ioctl_filters:
  assumes "case devices st \<lparr>dk_major = dev_major (probe_rdev relo env filp),
                          dk_minor = dev_minor (probe_rdev relo env filp)\<rparr> of
             None \<Rightarrow> True
           | Some v \<Rightarrow> ioctls st \<lparr>ik_vendor_id = v, ik_nr = cmd AND 0xFF\<rparr> = None"
  shows "kubenpu_ioctl relo env filp cmd arg st = (0, st)"
  using assms by (auto simp: kubenpu_ioctl_cases probe_kind_def split: option.splits)

theorem kubenpu_ioctl_filters_witness:
  "kubenpu_ioctl \<lparr>off_f_inode = 32, off_i_rdev = 76\<rparr> sample_env 0x1000 0x40086409 0 sample_state =
     (0, sample_state)"
  by (rule kubenpu_ioctl_filters) (simp add: sample_simps sample_state_def)

text \<open>The offsets compiled into the probe from \<^verbatim>\<open>vmlinux.h\<close> are 32 for \<^verbatim>\<open>f_inode\<close> and 76 for
  \<^verbatim>\<open>i_rdev\<close>; both members are naturally aligned and lie inside their objects, and \<^verbatim>\<open>i_rdev\<close> has the
  four bytes of \<^verbatim>\<open>dev_t\<close>.\<close>

lemma vmlinux_relo_offsets:
  "vmlinux_relo = \<lparr>off_f_inode = 32, off_i_rdev = 76\<rparr> \<and>
   offset_bits struct_file ''f_inode'' = Some (8 * 32, CPtr ''struct inode'') \<and>
   offset_bits struct_inode ''i_rdev'' = Some (8 * 76, dev_t) \<and>
   sizeof dev_t = 4 \<and> 32 + 8 \<le> sizeof struct_file \<and> 76 + 4 \<le> sizeof struct_inode \<and>
   alignof (CPtr ''struct inode'') dvd 32 \<and> alignof dev_t dvd 76"
proof -
  have f: "offset_bits struct_file ''f_inode'' = Some (8 * 32, CPtr ''struct inode'')"
    by (simp add: struct_file_def layout_eval layout_simps del: One_nat_def)
  have i: "offset_bits struct_inode ''i_rdev'' = Some (8 * 76, dev_t)"
    by (simp add: struct_inode_def layout_eval layout_simps del: One_nat_def)
  show ?thesis
    by (simp add: vmlinux_relo_def f i offsetof_in_bounds(1) [OF f] offsetof_in_bounds(1) [OF i]
        layout_simps)
qed

section \<open>Runs of the hook\<close>

text \<open>What user space reads as the drop counter: element 0 of every CPU, summed in 64 bits.\<close>

definition total_dropped :: "nat \<Rightarrow> bpf_state \<Rightarrow> u64" where
  "total_dropped ncpu st = sum_list (map (\<lambda>cpu. dropped st cpu ! 0) [0..<ncpu])"

text \<open>The maps as the declarations make them; user space and the probe only change contents.\<close>

definition bpf_wf :: "bpf_state \<Rightarrow> bool" where
  "bpf_wf st \<longleftrightarrow> (\<forall>cpu. length (dropped st cpu) = md_max_entries dropped_def) \<and>
     (\<forall>s \<in> set (events st). length s = sizeof struct_event)"

type_synonym hook_call = "bpf_env \<times> u64 \<times> u32 \<times> u64"

fun hook_run :: "core_relo \<Rightarrow> hook_call list \<Rightarrow> bpf_state \<Rightarrow> bpf_state" where
  "hook_run relo [] st = st"
| "hook_run relo ((env, filp, cmd, arg) # calls) st =
     hook_run relo calls (snd (kubenpu_ioctl relo env filp cmd arg st))"

text \<open>The calls that the probe should report, given the contents of the two tables.\<close>

definition reported :: "core_relo \<Rightarrow> bpf_state \<Rightarrow> hook_call \<Rightarrow> bool" where
  "reported relo st = (\<lambda>(env, filp, cmd, arg). probe_kind st (probe_rdev relo env filp) cmd \<noteq> None)"

definition call_ok :: "nat \<Rightarrow> hook_call \<Rightarrow> bool" where
  "call_ok ncpu = (\<lambda>(env, filp, cmd, arg). smp_processor_id env < ncpu \<and> reserve_sized env)"

lemma bpf_wf_init: "bpf_wf bpf_init"
  by (simp add: bpf_wf_def bpf_init_def)

lemma max_entries_dropped [simp]: "md_max_entries dropped_def = 1"
  by (simp add: dropped_def_def)

lemma sum_list_update_one:
  "k < n \<Longrightarrow> sum_list (map (\<lambda>i. if i = k then f i + c else f i) [0..<n]) =
     sum_list (map f [0..<n]) + (c :: 'a::comm_monoid_add)"
proof (induction n)
  case (Suc n)
  show ?case
  proof (cases "k = n")
    case True
    then have "map (\<lambda>i. if i = n then f i + c else f i) [0..<n] = map f [0..<n]" by simp
    with True show ?thesis by (simp add: add.assoc del: map_eq_conv)
  next
    case False
    with Suc show ?thesis by (simp add: ac_simps)
  qed
qed simp

lemma count_dropped_total:
  assumes "bpf_wf st" and "smp_processor_id env < ncpu"
  shows "total_dropped ncpu (count_dropped env st) = total_dropped ncpu st + 1"
proof -
  let ?c = "smp_processor_id env"
  have "length (dropped st ?c) = 1" using assms(1) by (simp add: bpf_wf_def)
  then have "dropped (count_dropped env st) cpu ! 0 =
      (if cpu = ?c then dropped st cpu ! 0 + 1 else dropped st cpu ! 0)" for cpu
    by (simp add: count_dropped_def Let_def)
  with assms(2) show ?thesis
    by (simp add: total_dropped_def sum_list_update_one [where k = ?c])
qed

lemma count_dropped_frame [simp]:
  "devices (count_dropped env st) = devices st" "ioctls (count_dropped env st) = ioctls st"
  "events (count_dropped env st) = events st" "bpf_wf (count_dropped env st) = bpf_wf st"
  by (auto simp: count_dropped_def Let_def bpf_wf_def)

lemma length_fill_event: "length buf = 32 \<Longrightarrow> length (fill_event env cmd minor major kind buf) = 32"
  by (simp add: fill_event_bytes)

text \<open>One call: the tables stay, the state stays well formed, and a reported call is either one more
  sample or one more drop.\<close>

lemma kubenpu_ioctl_step:
  fixes relo :: core_relo
  assumes "bpf_wf st" and "call_ok ncpu (env, filp, cmd, arg)"
  defines "st' \<equiv> snd (kubenpu_ioctl relo env filp cmd arg st)"
  shows "devices st' = devices st \<and> ioctls st' = ioctls st \<and> bpf_wf st' \<and>
    of_nat (length (events st')) + total_dropped ncpu st' =
    of_nat (length (events st)) + total_dropped ncpu st +
      (if reported relo st (env, filp, cmd, arg) then 1 else 0)"
proof (cases "probe_kind st (probe_rdev relo env filp) cmd")
  case None
  then show ?thesis using assms by (simp add: st'_def kubenpu_ioctl_cases reported_def)
next
  case (Some kind)
  have cpu: "smp_processor_id env < ncpu" and sized: "reserve_sized env"
    using assms(2) by (simp_all add: call_ok_def)
  show ?thesis
  proof (cases "ringbuf_reserve env (events st) 32")
    case None
    with Some have "st' = count_dropped env st" by (simp add: st'_def kubenpu_ioctl_cases)
    with Some assms(1) cpu show ?thesis by (simp add: count_dropped_total reported_def)
  next
    case (Some buf)
    then have "length buf = 32" using sized by (auto simp: reserve_sized_def)
    with Some \<open>probe_kind _ _ _ = Some kind\<close> assms(1) show ?thesis
      by (auto simp: st'_def kubenpu_ioctl_cases reported_def bpf_wf_def total_dropped_def
          length_fill_event layout_simps)
  qed
qed

lemma reported_cong: "devices st' = devices st \<Longrightarrow> ioctls st' = ioctls st \<Longrightarrow> reported relo st' = reported relo st"
  by (simp add: reported_def probe_kind_def)

lemma hook_run_step:
  assumes "bpf_wf st" and "\<forall>c \<in> set calls. call_ok ncpu c"
  shows "devices (hook_run relo calls st) = devices st \<and> ioctls (hook_run relo calls st) = ioctls st \<and>
    bpf_wf (hook_run relo calls st) \<and>
    of_nat (length (events (hook_run relo calls st))) + total_dropped ncpu (hook_run relo calls st) =
    of_nat (length (events st)) + total_dropped ncpu st + of_nat (length (filter (reported relo st) calls))"
  using assms
proof (induction relo calls st rule: hook_run.induct)
  case (2 relo env filp cmd arg calls st)
  let ?st = "snd (kubenpu_ioctl relo env filp cmd arg st)"
  have one: "devices ?st = devices st" "ioctls ?st = ioctls st" "bpf_wf ?st"
    "of_nat (length (events ?st)) + total_dropped ncpu ?st =
     of_nat (length (events st)) + total_dropped ncpu st +
       (if reported relo st (env, filp, cmd, arg) then 1 else 0)"
    using kubenpu_ioctl_step [of st ncpu env filp cmd arg relo] "2.prems" by simp_all
  with "2.IH" "2.prems"(2) show ?case
    by (simp add: reported_cong [OF one(1,2)])
qed simp

text \<open>C13: No reported call vanishes in the kernel: over any run of the hook, on any CPUs and whatever the
  ring buffer accepts, the samples in the ring buffer and the summed drop counter together grow by
  exactly the number of calls whose device and ioctl number are registered. The counters are 64-bit
  words, and the equation is one of 64-bit words. The tables themselves are not touched.\<close>

theorem hook_run_accounting:
  assumes "bpf_wf st" and "\<forall>c \<in> set calls. call_ok ncpu c"
  shows "of_nat (length (events (hook_run relo calls st))) + total_dropped ncpu (hook_run relo calls st) =
    of_nat (length (events st)) + total_dropped ncpu st + of_nat (length (filter (reported relo st) calls)) \<and>
    devices (hook_run relo calls st) = devices st \<and> ioctls (hook_run relo calls st) = ioctls st \<and>
    (\<forall>s \<in> set (events (hook_run relo calls st)). length s = 32)"
  using hook_run_step [OF assms, of relo] by (simp add: bpf_wf_def layout_simps)

definition sample_call :: hook_call where
  "sample_call = (sample_env, 0x1000, 0x40406469, 0)"

theorem hook_run_accounting_witness:
  "let st = hook_run \<lparr>off_f_inode = 32, off_i_rdev = 76\<rparr> [sample_call, sample_call, sample_call] sample_state
   in of_nat (length (events st)) + total_dropped 1 st = (3 :: u64)"
proof -
  let ?relo = "\<lparr>off_f_inode = 32, off_i_rdev = 76\<rparr>"
  let ?calls = "[sample_call, sample_call, sample_call]"
  have wf: "bpf_wf sample_state"
    using bpf_wf_init by (simp add: sample_state_def bpf_wf_def)
  have ok: "\<forall>c \<in> set ?calls. call_ok 1 c"
    by (simp add: sample_call_def call_ok_def sample_env_def reserve_sized_def)
  have "reported ?relo sample_state sample_call"
    by (simp add: sample_call_def reported_def probe_kind_def sample_simps sample_state_def)
  then have "length (filter (reported ?relo sample_state) ?calls) = 3" by simp
  moreover have "events sample_state = []" "total_dropped 1 sample_state = 0"
    by (simp_all add: sample_state_def bpf_init_def total_dropped_def)
  ultimately show ?thesis
    using hook_run_accounting [OF wf ok, of ?relo] by (simp add: Let_def del: filter.simps)
qed

section \<open>Room in the ring buffer\<close>

text \<open>The kernel's contract, on the ring buffer of the declaration: a record is the sample behind a header, and
  a reservation is refused only when the unread records and the new one would fill the buffer.\<close>

definition record_size :: nat where
  "record_size = sizeof struct_bpf_ringbuf_hdr + sizeof struct_event"

definition reserve_until_full :: "bpf_env \<Rightarrow> bool" where
  "reserve_until_full env \<longleftrightarrow> (\<forall>q. ringbuf_reserve env q (sizeof struct_event) = None \<longrightarrow>
     md_max_entries events_def \<le> (length q + 1) * record_size)"

definition sample_of :: "core_relo \<Rightarrow> bpf_state \<Rightarrow> hook_call \<Rightarrow> u8 list" where
  "sample_of relo st = (\<lambda>(env, filp, cmd, arg).
     event_bytes (probe_event env (probe_rdev relo env filp) cmd (the (probe_kind st (probe_rdev relo env filp) cmd))))"

lemma record_size_eq: "record_size = 40" "md_max_entries events_def = 262144"
  by (simp_all add: record_size_def layout_simps events_def_def MAX_ENTRIES_EVENTS_def)

lemma sample_of_cong: "devices st' = devices st \<Longrightarrow> ioctls st' = ioctls st \<Longrightarrow> sample_of relo st' = sample_of relo st"
  by (simp add: sample_of_def probe_kind_def)

lemma kubenpu_ioctl_room:
  assumes "reserve_sized env" "reserve_until_full env" "length (events st) < 6553"
  shows "snd (kubenpu_ioctl relo env filp cmd arg st) =
    (if reported relo st (env, filp, cmd, arg)
     then st\<lparr>events := events st @ [sample_of relo st (env, filp, cmd, arg)]\<rparr> else st)"
proof -
  have "ringbuf_reserve env (events st) 32 \<noteq> None"
    using assms(2,3) unfolding reserve_until_full_def record_size_eq by (fastforce simp: layout_simps)
  then obtain b where b: "ringbuf_reserve env (events st) 32 = Some b" by blast
  then have "length b = 32" using assms(1) by (auto simp: reserve_sized_def)
  with b show ?thesis
    by (auto simp: kubenpu_ioctl_cases reported_def sample_of_def fill_event_bytes probe_event_def split: option.split)
qed

text \<open>C14: A burst fits. While at most 6553 samples are unread (the 256 KiB of the declaration hold that many
  records of 40 bytes and no more), the kernel loses nothing: a run of the hook appends exactly the samples of
  the reported calls, in the order of the calls, and the drop counters stay as they are.\<close>

theorem burst_fits:
  assumes "\<forall>c \<in> set calls. reserve_sized (fst c) \<and> reserve_until_full (fst c)"
    and "length (events st) + length (filter (reported relo st) calls) \<le> 6553"
  shows "hook_run relo calls st =
      st\<lparr>events := events st @ map (sample_of relo st) (filter (reported relo st) calls)\<rparr> \<and>
    6553 * record_size < md_max_entries events_def \<and> md_max_entries events_def \<le> 6554 * record_size"
proof -
  have "hook_run relo calls st = st\<lparr>events := events st @ map (sample_of relo st) (filter (reported relo st) calls)\<rparr>"
    using assms
  proof (induction relo calls st rule: hook_run.induct)
    case (2 relo env filp cmd arg calls st)
    let ?c = "(env, filp, cmd, arg)"
    let ?st = "snd (kubenpu_ioctl relo env filp cmd arg st)"
    show ?case
    proof (cases "reported relo st ?c")
      case True
      with "2.prems" have st: "?st = st\<lparr>events := events st @ [sample_of relo st ?c]\<rparr>"
        by (subst kubenpu_ioctl_room) simp_all
      have same: "reported relo ?st = reported relo st" "sample_of relo ?st = sample_of relo st"
        unfolding st by (rule reported_cong sample_of_cong; simp)+
      from "2.IH" "2.prems" True show ?thesis unfolding same by (simp add: st)
    next
      case False
      then have "?st = st" by (simp add: kubenpu_ioctl_cases reported_def)
      with "2.IH" "2.prems" False show ?thesis by simp
    qed
  qed simp
  then show ?thesis by (simp add: record_size_eq)
qed

text \<open>A kernel that keeps the contract.\<close>

definition full_env :: bpf_env where
  "full_env = sample_env\<lparr>ringbuf_reserve :=
     (\<lambda>q n. if (length q + 1) * 40 < 262144 then Some (replicate n 0xAA) else None)\<rparr>"

theorem burst_fits_witness:
  "length (events (hook_run \<lparr>off_f_inode = 32, off_i_rdev = 76\<rparr> (replicate 5000 (full_env, 0x1000, 0x40406469, 0))
     sample_state)) = 5000"
proof -
  let ?relo = "\<lparr>off_f_inode = 32, off_i_rdev = 76\<rparr>" and ?call = "(full_env, 0x1000, 0x40406469, 0)"
  have "probe_rdev ?relo full_env 0x1000 = probe_rdev ?relo sample_env 0x1000"
    by (simp add: probe_rdev_def full_env_def)
  then have r: "reported ?relo sample_state ?call"
    by (simp add: reported_def probe_kind_def sample_simps sample_state_def)
  have e: "events sample_state = []" by (simp add: sample_state_def bpf_init_def)
  have "reserve_sized full_env" "reserve_until_full full_env"
    by (simp_all add: full_env_def reserve_sized_def reserve_until_full_def record_size_eq)
  then have "\<forall>c \<in> set (replicate 5000 ?call). reserve_sized (fst c) \<and> reserve_until_full (fst c)"
    unfolding set_replicate_conv_if by simp
  moreover have f: "filter (reported ?relo sample_state) (replicate 5000 ?call) = replicate 5000 ?call"
    by (simp only: filter_replicate r if_True)
  ultimately show ?thesis
    using burst_fits [of "replicate 5000 ?call" sample_state ?relo] unfolding f by (simp add: e)
qed

end
