(* ===== verification/GoLib.thy ===== *)
theory GoLib
  imports Prelude
begin

text \<open>
  What the Go code uses of its standard library: error values with \<^verbatim>\<open>errors.Is\<close> and
  \<^verbatim>\<open>errors.Join\<close>, the functions of \<^verbatim>\<open>strings\<close>, \<^verbatim>\<open>path/filepath\<close>, \<^verbatim>\<open>bufio\<close> and \<^verbatim>\<open>strconv\<close>, and
  map reads with a zero value. A Go string is a list of bytes, here \<open>string\<close>; \<open>None\<close> is a nil error
  of a function that returns only an error, and \<open>Inl e\<close> an error of a function that also returns a
  value. An error built by \<^verbatim>\<open>fmt.Errorf\<close> or \<^verbatim>\<open>errors.New\<close> is kept as its format string.
\<close>

section \<open>Errors\<close>

datatype goerr =
    Sentinel string
  | ErrorString string
  | WrapError string goerr
  | JoinError "goerr list"

text \<open>\<^verbatim>\<open>errors.Is(err, target)\<close> walks the tree of wrapped errors.\<close>

fun errors_Is :: "goerr \<Rightarrow> goerr \<Rightarrow> bool" where
  "errors_Is (WrapError m e) target \<longleftrightarrow> WrapError m e = target \<or> errors_Is e target"
| "errors_Is (JoinError es) target \<longleftrightarrow> JoinError es = target \<or> (\<exists>e \<in> set es. errors_Is e target)"
| "errors_Is e target \<longleftrightarrow> e = target"

definition errors_Join :: "goerr list \<Rightarrow> goerr option" where
  "errors_Join es = (if es = [] then None else Some (JoinError es))"

section \<open>Maps\<close>

text \<open>\<^verbatim>\<open>m[k]\<close> on a map with string values.\<close>

definition map_get :: "('k \<rightharpoonup> string) \<Rightarrow> 'k \<Rightarrow> string" where
  "map_get m k = (case m k of Some v \<Rightarrow> v | None \<Rightarrow> [])"

section \<open>Package strings\<close>

definition HasPrefix :: "string \<Rightarrow> string \<Rightarrow> bool" where
  "HasPrefix s p \<longleftrightarrow> length p \<le> length s \<and> take (length p) s = p"

definition HasSuffix :: "string \<Rightarrow> string \<Rightarrow> bool" where
  "HasSuffix s x \<longleftrightarrow> length x \<le> length s \<and> drop (length s - length x) s = x"

definition TrimSuffix :: "string \<Rightarrow> string \<Rightarrow> string" where
  "TrimSuffix s x = (if HasSuffix s x then take (length s - length x) s else s)"

definition CutPrefix :: "string \<Rightarrow> string \<Rightarrow> string \<times> bool" where
  "CutPrefix s p = (if \<not> HasPrefix s p then (s, False) else (drop (length p) s, True))"

text \<open>\<^verbatim>\<open>strings.Index\<close>, with \<open>None\<close> for \<open>-1\<close>.\<close>

fun Index :: "string \<Rightarrow> string \<Rightarrow> nat option" where
  "Index [] sub = (if sub = [] then Some 0 else None)"
| "Index (c # s) sub = (if HasPrefix (c # s) sub then Some 0 else map_option Suc (Index s sub))"

definition Contains :: "string \<Rightarrow> string \<Rightarrow> bool" where
  "Contains s sub \<longleftrightarrow> Index s sub \<noteq> None"

definition Cut :: "string \<Rightarrow> string \<Rightarrow> string \<times> string \<times> bool" where
  "Cut s sep = (case Index s sep of
      Some i \<Rightarrow> (take i s, drop (i + length sep) s, True)
    | None \<Rightarrow> (s, [], False))"

text \<open>\<^verbatim>\<open>strings.Split\<close>, \<^verbatim>\<open>strings.LastIndex\<close> and \<^verbatim>\<open>strings.ReplaceAll\<close> with a one-byte separator.\<close>

fun Split :: "string \<Rightarrow> char \<Rightarrow> string list" where
  "Split [] c = [[]]"
| "Split (x # s) c =
     (if x = c then [] # Split s c
      else (case Split s c of [] \<Rightarrow> [[x]] | p # ps \<Rightarrow> (x # p) # ps))"

fun LastIndex :: "string \<Rightarrow> char \<Rightarrow> nat option" where
  "LastIndex [] c = None"
| "LastIndex (x # s) c =
     (case LastIndex s c of Some i \<Rightarrow> Some (Suc i) | None \<Rightarrow> if x = c then Some 0 else None)"

definition ReplaceAll :: "string \<Rightarrow> char \<Rightarrow> char \<Rightarrow> string" where
  "ReplaceAll s old new = map (\<lambda>c. if c = old then new else c) s"

fun Join :: "string list \<Rightarrow> string \<Rightarrow> string" where
  "Join [] sep = []"
| "Join [x] sep = x"
| "Join (x # y # xs) sep = x @ sep @ Join (y # xs) sep"

text \<open>\<^verbatim>\<open>strings.TrimSpace\<close> removes the runes of \<^verbatim>\<open>unicode.IsSpace\<close>; \<open>space_runes\<close> lists their UTF-8
  encodings.\<close>

definition space_runes :: "string list" where
  "space_runes =
     [[CHR 0x09], [CHR 0x0A], [CHR 0x0B], [CHR 0x0C], [CHR 0x0D], [CHR 0x20],
      [CHR 0xC2, CHR 0x85], [CHR 0xC2, CHR 0xA0], [CHR 0xE1, CHR 0x9A, CHR 0x80],
      [CHR 0xE2, CHR 0x80, CHR 0x80], [CHR 0xE2, CHR 0x80, CHR 0x81], [CHR 0xE2, CHR 0x80, CHR 0x82],
      [CHR 0xE2, CHR 0x80, CHR 0x83], [CHR 0xE2, CHR 0x80, CHR 0x84], [CHR 0xE2, CHR 0x80, CHR 0x85],
      [CHR 0xE2, CHR 0x80, CHR 0x86], [CHR 0xE2, CHR 0x80, CHR 0x87], [CHR 0xE2, CHR 0x80, CHR 0x88],
      [CHR 0xE2, CHR 0x80, CHR 0x89], [CHR 0xE2, CHR 0x80, CHR 0x8A], [CHR 0xE2, CHR 0x80, CHR 0xA8],
      [CHR 0xE2, CHR 0x80, CHR 0xA9], [CHR 0xE2, CHR 0x80, CHR 0xAF], [CHR 0xE2, CHR 0x81, CHR 0x9F],
      [CHR 0xE3, CHR 0x80, CHR 0x80]]"

fun trim_left_fuel :: "nat \<Rightarrow> string \<Rightarrow> string" where
  "trim_left_fuel 0 s = s"
| "trim_left_fuel (Suc n) s =
     (case find (HasPrefix s) space_runes of
        Some r \<Rightarrow> trim_left_fuel n (drop (length r) s)
      | None \<Rightarrow> s)"

fun trim_right_fuel :: "nat \<Rightarrow> string \<Rightarrow> string" where
  "trim_right_fuel 0 s = s"
| "trim_right_fuel (Suc n) s =
     (case find (HasSuffix s) space_runes of
        Some r \<Rightarrow> trim_right_fuel n (take (length s - length r) s)
      | None \<Rightarrow> s)"

definition TrimSpace :: "string \<Rightarrow> string" where
  "TrimSpace s = (let t = trim_left_fuel (length s) s in trim_right_fuel (length t) t)"

section \<open>Package path/filepath on Unix\<close>

text \<open>\<^verbatim>\<open>filepath.ToSlash\<close> is the identity where the separator is a slash.\<close>

definition ToSlash :: "string \<Rightarrow> string" where
  "ToSlash path = path"

text \<open>\<^verbatim>\<open>filepath.Clean\<close>: empty and \<^verbatim>\<open>.\<close> elements vanish, \<^verbatim>\<open>..\<close> removes the element before it (and
  vanishes at the root); \<open>stack\<close> holds the kept elements, last first.\<close>

fun clean_elems :: "bool \<Rightarrow> string list \<Rightarrow> string list \<Rightarrow> string list" where
  "clean_elems rooted stack [] = rev stack"
| "clean_elems rooted stack (e # es) =
     (if e = [] \<or> e = ''.'' then clean_elems rooted stack es
      else if e = ''..'' then
        (case stack of
           x # xs \<Rightarrow> if x \<noteq> ''..'' then clean_elems rooted xs es
                    else clean_elems rooted (e # stack) es
         | [] \<Rightarrow> if rooted then clean_elems rooted [] es else clean_elems rooted [e] es)
      else clean_elems rooted (e # stack) es)"

definition Clean :: "string \<Rightarrow> string" where
  "Clean path =
     (let rooted = HasPrefix path ''/'';
          es = clean_elems rooted [] (Split path CHR ''/'')
      in if rooted then ''/'' @ Join es ''/'' else if es = [] then ''.'' else Join es ''/'')"

text \<open>\<^verbatim>\<open>filepath.Join\<close> of two elements: empty elements are ignored, the rest is joined and cleaned.\<close>

definition filepath_Join :: "string \<Rightarrow> string \<Rightarrow> string" where
  "filepath_Join a b =
     (if a \<noteq> [] then Clean (a @ ''/'' @ b) else if b \<noteq> [] then Clean b else [])"

text \<open>\<^verbatim>\<open>filepath.Base\<close>: the last element, without trailing slashes.\<close>

definition strip_slashes :: "string \<Rightarrow> string" where
  "strip_slashes path = rev (dropWhile (\<lambda>c. c = CHR ''/'') (rev path))"

definition Base :: "string \<Rightarrow> string" where
  "Base path =
     (if path = [] then ''.''
      else (let p = strip_slashes path;
                b = (case LastIndex p CHR ''/'' of Some i \<Rightarrow> drop (Suc i) p | None \<Rightarrow> p)
            in if b = [] then ''/'' else b))"

section \<open>Package bufio: line scanning\<close>

text \<open>\<^verbatim>\<open>bufio.ScanLines\<close>: lines end at a newline, one trailing carriage return is dropped, and an empty
  last line is not a token. A scanner stops with \<^verbatim>\<open>bufio.ErrTooLong\<close> at a line that does not fit its
  buffer of 64 KiB.\<close>

definition drop_cr :: "string \<Rightarrow> string" where
  "drop_cr l = (if l \<noteq> [] \<and> last l = CHR 0x0D then butlast l else l)"

definition raw_lines :: "string \<Rightarrow> string list" where
  "raw_lines s = (let ls = Split s CHR 0x0A in if last ls = [] then butlast ls else ls)"

definition MaxScanTokenSize :: nat where "MaxScanTokenSize = 64 * 1024"

definition ErrTooLong :: goerr where "ErrTooLong = Sentinel ''bufio.Scanner: token too long''"

definition scan_lines :: "string \<Rightarrow> string list \<times> goerr option" where
  "scan_lines s =
     (let ls = raw_lines s; ok = takeWhile (\<lambda>l. length l < MaxScanTokenSize) ls
      in (map drop_cr ok, if length ok < length ls then Some ErrTooLong else None))"

section \<open>Package strconv\<close>

definition digit_val :: "char \<Rightarrow> nat option" where
  "digit_val c = (let n = (of_char c :: nat) in if 48 \<le> n \<and> n \<le> 57 then Some (n - 48) else None)"

fun parse_digits :: "nat \<Rightarrow> string \<Rightarrow> nat option" where
  "parse_digits acc [] = Some acc"
| "parse_digits acc (c # s) =
     (case digit_val c of Some d \<Rightarrow> parse_digits (10 * acc + d) s | None \<Rightarrow> None)"

text \<open>\<^verbatim>\<open>strconv.ParseInt(s, 10, 64)\<close>, and \<^verbatim>\<open>strconv.Atoi(s)\<close> where \<^verbatim>\<open>int\<close> has 64 bits: an optional
  sign, one or more decimal digits, and a value in range; \<open>None\<close> is any error.\<close>

definition ParseInt64 :: "string \<Rightarrow> int option" where
  "ParseInt64 s =
     (let (neg, ds) = (case s of
            [] \<Rightarrow> (False, s)
          | c # t \<Rightarrow> if c = CHR ''+'' then (False, t) else if c = CHR ''-'' then (True, t) else (False, s))
      in if ds = [] then None
         else (case parse_digits 0 ds of
                 None \<Rightarrow> None
               | Some n \<Rightarrow>
                   (let v = (if neg then - int n else int n)
                    in if - (2 ^ 63) \<le> v \<and> v < 2 ^ 63 then Some v else None)))"

text \<open>\<^verbatim>\<open>%d\<close> of an unsigned integer.\<close>

fun digits_of :: "nat \<Rightarrow> string" where
  "digits_of n =
     (if n < 10 then [char_of (48 + n)] else digits_of (n div 10) @ [char_of (48 + n mod 10)])"

declare digits_of.simps [simp del]

section \<open>Lemmas\<close>

lemma errors_Is_Wrap_Sentinel [simp]:
  "errors_Is (WrapError m e) (Sentinel s) \<longleftrightarrow> errors_Is e (Sentinel s)"
  by simp

lemma HasPrefix_append [simp]: "HasPrefix (p @ s) p"
  by (simp add: HasPrefix_def)

lemma HasPrefix_iff: "HasPrefix s p \<longleftrightarrow> (\<exists>r. s = p @ r)"
  by (metis HasPrefix_append HasPrefix_def append_take_drop_id)

lemma HasSuffix_append [simp]: "HasSuffix (s @ x) x"
  by (simp add: HasSuffix_def)

lemma HasSuffix_iff: "HasSuffix s x \<longleftrightarrow> (\<exists>r. s = r @ x)"
  by (metis HasSuffix_append HasSuffix_def append_take_drop_id)

lemma TrimSuffix_append [simp]: "TrimSuffix (s @ x) x = s"
  by (simp add: TrimSuffix_def)

lemma CutPrefix_append [simp]: "CutPrefix (p @ s) p = (s, True)"
  by (simp add: CutPrefix_def)

lemma Index_Some: "Index s sub = Some i \<Longrightarrow> \<exists>r. s = take i s @ sub @ r \<and> i + length sub \<le> length s"
proof (induction s sub arbitrary: i rule: Index.induct)
  case (2 c s sub)
  show ?case
  proof (cases "HasPrefix (c # s) sub")
    case True
    moreover from True have "length sub \<le> length (c # s)" by (simp add: HasPrefix_def)
    ultimately show ?thesis using "2.prems" by (auto simp: HasPrefix_iff)
  next
    case False
    with "2.prems" obtain j where j: "Index s sub = Some j" "i = Suc j" by auto
    with "2.IH" [OF False j(1)] show ?thesis by auto
  qed
qed (auto split: if_splits)

lemma Index_append: "Index (p @ sub @ r) sub \<noteq> None"
proof (induction p)
  case Nil
  have "HasPrefix (sub @ r) sub" by simp
  then show ?case
    by (cases "sub @ r") (auto simp: HasPrefix_def)
next
  case (Cons c p)
  then show ?case by simp
qed

lemma Contains_iff: "Contains s sub \<longleftrightarrow> (\<exists>p r. s = p @ sub @ r)"
  using Index_append by (auto simp: Contains_def dest!: Index_Some)

text \<open>\<^verbatim>\<open>Cut\<close> at a one-byte separator that the first part does not contain.\<close>

lemma Index_char: "c \<notin> set p \<Longrightarrow> Index (p @ c # r) [c] = Some (length p)"
  by (induction p) (auto simp: HasPrefix_def)

lemma Cut_char: "c \<notin> set k \<Longrightarrow> Cut (k @ c # v) [c] = (k, v, True)"
  by (simp add: Cut_def Index_char)

lemma Split_not_Nil [simp]: "Split s c \<noteq> []"
  by (induction s c rule: Split.induct) (auto split: list.splits)

lemma Split_no_sep: "c \<notin> set s \<Longrightarrow> Split s c = [s]"
  by (induction s c rule: Split.induct) auto

lemma Split_append: "c \<notin> set p \<Longrightarrow> Split (p @ c # s) c = p # Split s c"
  by (induction p) auto

lemma Split_append_sep: "Split (r @ c # s) c = Split r c @ Split s c"
  by (induction r) (auto split: list.splits)

lemma Split_Join: "ps \<noteq> [] \<Longrightarrow> (\<forall>p \<in> set ps. c \<notin> set p) \<Longrightarrow> Split (Join ps [c]) c = ps"
proof (induction ps)
  case (Cons p ps)
  then show ?case by (cases ps) (simp_all add: Split_no_sep Split_append)
qed simp

lemma Split_parts: "p \<in> set (Split s c) \<Longrightarrow> c \<notin> set p"
  by (induction s c arbitrary: p rule: Split.induct) (auto split: list.splits if_splits)

lemma Join_Split: "Join (Split s c) [c] = s"
proof (induction s c rule: Split.induct)
  case (2 x s c)
  then show ?case
    by (cases "Split s c" rule: list.exhaust; cases "tl (Split s c)") (auto simp: Split_not_Nil)
qed simp

text \<open>\<^verbatim>\<open>TrimSpace\<close>: the fuel suffices because every rune has at least one byte.\<close>

lemma find_prefix_None_take:
  "find (HasPrefix s) rs = None \<Longrightarrow> find (HasPrefix (take k s)) rs = None"
  by (auto simp: find_None_iff HasPrefix_iff) (metis append_assoc append_take_drop_id)

lemma space_runes_nonempty: "r \<in> set space_runes \<Longrightarrow> r \<noteq> []"
  by (auto simp: space_runes_def)

lemma trim_left_done: "length s \<le> n \<Longrightarrow> find (HasPrefix (trim_left_fuel n s)) space_runes = None"
proof (induction n arbitrary: s)
  case 0
  then have "s = []" by simp
  then show ?case
    using space_runes_nonempty by (auto simp: find_None_iff HasPrefix_def)
next
  case (Suc n)
  show ?case
  proof (cases "find (HasPrefix s) space_runes")
    case (Some r)
    then have "r \<in> set space_runes" "HasPrefix s r"
      by (auto simp: find_Some_iff in_set_conv_nth)
    then have "0 < length r" "length r \<le> length s"
      using space_runes_nonempty by (auto simp: HasPrefix_def)
    then have "length (drop (length r) s) \<le> n" using Suc.prems unfolding length_drop length_take by linarith
    then show ?thesis using Suc.IH Some by simp
  qed simp
qed

lemma trim_right_done: "length s \<le> n \<Longrightarrow> find (HasSuffix (trim_right_fuel n s)) space_runes = None"
proof (induction n arbitrary: s)
  case 0
  then have "s = []" by simp
  then show ?case
    using space_runes_nonempty by (auto simp: find_None_iff HasSuffix_def)
next
  case (Suc n)
  show ?case
  proof (cases "find (HasSuffix s) space_runes")
    case (Some r)
    then have "r \<in> set space_runes" "HasSuffix s r"
      by (auto simp: find_Some_iff in_set_conv_nth)
    then have "0 < length r" "length r \<le> length s"
      using space_runes_nonempty by (auto simp: HasSuffix_def)
    then have "length (take (length s - length r) s) \<le> n" using Suc.prems unfolding length_drop length_take by linarith
    then show ?thesis using Suc.IH Some by simp
  qed simp
qed

lemma trim_right_take: "\<exists>k. trim_right_fuel n s = take k s"
proof (induction n arbitrary: s)
  case 0
  then show ?case by (intro exI [of _ "length s"]) simp
next
  case (Suc n)
  show ?case
  proof (cases "find (HasSuffix s) space_runes")
    case None
    then show ?thesis by (intro exI [of _ "length s"]) simp
  next
    case (Some r)
    with Suc [of "take (length s - length r) s"] show ?thesis
      by (metis option.simps(5) take_take trim_right_fuel.simps(2))
  qed
qed

lemma TrimSpace_trimmed:
  "find (HasPrefix (TrimSpace s)) space_runes = None \<and> find (HasSuffix (TrimSpace s)) space_runes = None"
proof -
  define t where "t = trim_left_fuel (length s) s"
  have t: "find (HasPrefix t) space_runes = None"
    unfolding t_def by (rule trim_left_done) simp
  obtain k where "TrimSpace s = take k t"
    using trim_right_take by (metis TrimSpace_def t_def)
  with t have "find (HasPrefix (TrimSpace s)) space_runes = None"
    by (metis find_prefix_None_take)
  moreover have "find (HasSuffix (TrimSpace s)) space_runes = None"
    unfolding TrimSpace_def Let_def by (rule trim_right_done) simp
  ultimately show ?thesis by simp
qed

text \<open>Scanning what was written line by line.\<close>

lemma Split_lines:
  "(\<And>l. l \<in> set ls \<Longrightarrow> c \<notin> set l) \<Longrightarrow> Split (concat (map (\<lambda>l. l @ [c]) ls)) c = ls @ [[]]"
  by (induction ls) (simp_all add: Split_append)

lemma scan_lines_written:
  assumes "\<And>l. l \<in> set ls \<Longrightarrow> CHR 0x0A \<notin> set l \<and> drop_cr l = l \<and> length l < MaxScanTokenSize"
  shows "scan_lines (concat (map (\<lambda>l. l @ [CHR 0x0A]) ls)) = (ls, None)"
proof -
  have "raw_lines (concat (map (\<lambda>l. l @ [CHR 0x0A]) ls)) = ls"
    using assms by (subst raw_lines_def, subst Split_lines) auto
  moreover have "takeWhile (\<lambda>l. length l < MaxScanTokenSize) ls = ls"
    using assms by (simp add: takeWhile_eq_all_conv)
  moreover have "map drop_cr ls = ls"
    using assms by (simp add: map_idI)
  ultimately show ?thesis by (simp only: scan_lines_def Let_def) simp
qed

end
