(* ===== verification/Discovery.thy ===== *)
theory Discovery
  imports GoLib "HOL-Library.Multiset" "HOL-Library.List_Lexorder" "HOL-Library.Char_ord"
begin

text \<open>
  Package \<^verbatim>\<open>pkg/discovery\<close>: \<^verbatim>\<open>device.go\<close>, \<^verbatim>\<open>sysfs.go\<close> and \<^verbatim>\<open>discovery.go\<close>. The operating system is
  the argument \<open>env\<close>: directory listings, \<^verbatim>\<open>stat\<close>, file contents and resolved symbolic links as
  functions of the path, and \<^verbatim>\<open>unix.Major\<close>/\<^verbatim>\<open>unix.Minor\<close> of \<^verbatim>\<open>golang.org/x/sys/unix\<close>. The order in which
  Go iterates over a map is the argument \<open>range\<close>. Log lines are not modelled. The main theorem says
  that discovery groups the usable character devices by the address of the PCI device behind them.
\<close>

section \<open>device.go\<close>

record Node =
  Minor :: u32
  Major :: u32
  Path :: string

record Device =
  DriverName :: string
  SysfsPath :: string
  PciID :: string
  PciAddress :: string
  NumaNode :: string
  Nodes :: "Node list"

section \<open>The operating system\<close>

text \<open>A directory entry with the type bits of its \<^verbatim>\<open>fs.FileMode\<close>.\<close>

record DirEntry =
  de_Name :: string
  de_Type :: u32

definition ModeDir :: u32 where "ModeDir = push_bit 31 1"
definition ModeCharDevice :: u32 where "ModeCharDevice = push_bit 21 1"

definition ErrNotExist :: goerr where "ErrNotExist = Sentinel ''file does not exist''"

text \<open>\<open>os_Open\<close> gives the bytes a scanner can read from the file and the read error that ends them, if
  any.\<close>

record os_env =
  os_ReadDir :: "string \<Rightarrow> goerr + DirEntry list"
  os_Stat_Rdev :: "string \<Rightarrow> goerr + u64"
  os_Open :: "string \<Rightarrow> goerr + string \<times> goerr option"
  os_ReadFile :: "string \<Rightarrow> goerr + string"
  os_EvalSymlinks :: "string \<Rightarrow> goerr + string"
  unix_Major :: "u64 \<Rightarrow> u32"
  unix_Minor :: "u64 \<Rightarrow> u32"

section \<open>sysfs.go\<close>

definition GetDeviceAddress :: "os_env \<Rightarrow> string \<Rightarrow> goerr + string \<times> string" where
  "GetDeviceAddress env path =
     (let devicePath = filepath_Join path ''device''
      in case os_EvalSymlinks env devicePath of
           Inl err \<Rightarrow> Inl (WrapError ''resolve %s: %w'' err)
         | Inr retDevicePath \<Rightarrow> Inr (Base retDevicePath, retDevicePath))"

text \<open>The body of the scanning loop.\<close>

definition uevent_line :: "string \<Rightarrow> (string \<rightharpoonup> string) \<Rightarrow> (string \<rightharpoonup> string)" where
  "uevent_line text uevent =
     (let (key, value, ok) = Cut text ''='' in if \<not> ok then uevent else uevent(key \<mapsto> value))"

definition ReadUevent :: "os_env \<Rightarrow> string \<Rightarrow> goerr + (string \<rightharpoonup> string)" where
  "ReadUevent env drmPath =
     (let devicePath = filepath_Join drmPath ''device'';
          ueventPath = filepath_Join devicePath ''uevent''
      in case os_Open env ueventPath of
           Inl err \<Rightarrow> Inl (WrapError ''failed to open %s: %w'' err)
         | Inr (content, rerr) \<Rightarrow>
             (let (lines, serr) = scan_lines content;
                  uevent = fold uevent_line lines Map.empty
              in case (case serr of Some e \<Rightarrow> Some e | None \<Rightarrow> rerr) of
                   Some err \<Rightarrow> Inl (WrapError ''failed to scan %s: %w'' err)
                 | None \<Rightarrow>
                     if map_get uevent ''DRIVER'' = []
                     then Inl (ErrorString ''%s does not contain required field: DRIVER'')
                     else Inr uevent))"

definition ReadNumaNode :: "os_env \<Rightarrow> string \<Rightarrow> string" where
  "ReadNumaNode env deviceSysfsPath =
     (case os_ReadFile env (filepath_Join deviceSysfsPath ''numa_node'') of
        Inl err \<Rightarrow> ''-1''
      | Inr data \<Rightarrow> TrimSpace data)"

section \<open>discovery.go\<close>

record Paths =
  DriPath :: string
  AccelPath :: string
  SysfsDriPath :: string
  SysfsAccelPath :: string

text \<open>The loop body of \<^verbatim>\<open>discoverDevices\<close>; every \<^verbatim>\<open>continue\<close> leaves the map as it is.\<close>

definition discoverFile ::
  "os_env \<Rightarrow> string \<Rightarrow> string \<Rightarrow> DirEntry \<Rightarrow> (string \<rightharpoonup> Device) \<Rightarrow> (string \<rightharpoonup> Device)" where
  "discoverFile env devPath sysfsPath file devices =
     (if de_Type file AND ModeDir \<noteq> 0 then devices
      else if de_Type file AND ModeCharDevice = 0 then devices
      else
        (let fileFullPath = filepath_Join devPath (de_Name file);
             sysfsFullPath = filepath_Join sysfsPath (de_Name file)
         in case os_Stat_Rdev env fileFullPath of
              Inl err \<Rightarrow> devices
            | Inr rdev \<Rightarrow>
                (let major = unix_Major env rdev; minor = unix_Minor env rdev
                 in case ReadUevent env sysfsFullPath of
                      Inl err \<Rightarrow> devices
                    | Inr uevent \<Rightarrow>
                        (case GetDeviceAddress env sysfsFullPath of
                           Inl err \<Rightarrow> devices
                         | Inr (deviceAddress, deviceSysfsPath) \<Rightarrow>
                             (let n = \<lparr>Minor = minor, Major = major, Path = fileFullPath\<rparr>
                              in case devices deviceAddress of
                                   None \<Rightarrow> devices(deviceAddress \<mapsto>
                                     \<lparr>DriverName = map_get uevent ''DRIVER'',
                                      SysfsPath = deviceSysfsPath,
                                      PciID = map_get uevent ''PCI_ID'',
                                      PciAddress = deviceAddress,
                                      NumaNode = ReadNumaNode env deviceSysfsPath,
                                      Nodes = [n]\<rparr>)
                                 | Some device \<Rightarrow>
                                     devices(deviceAddress \<mapsto> device\<lparr>Nodes := Nodes device @ [n]\<rparr>))))))"

definition discoverDevices ::
  "os_env \<Rightarrow> string \<Rightarrow> string \<Rightarrow> (string \<rightharpoonup> Device) \<Rightarrow> goerr option \<times> (string \<rightharpoonup> Device)" where
  "discoverDevices env devPath sysfsPath devices =
     (case os_ReadDir env devPath of
        Inl err \<Rightarrow> (Some err, devices)
      | Inr files \<Rightarrow> (None, fold (discoverFile env devPath sysfsPath) files devices))"

text \<open>\<^verbatim>\<open>if err != nil { if !errors.Is(err, fs.ErrNotExist) { return nil, err } }\<close>: the error that is
  returned, if any.\<close>

definition unless_missing :: "goerr option \<Rightarrow> goerr option" where
  "unless_missing err =
     (case err of None \<Rightarrow> None | Some e \<Rightarrow> if \<not> errors_Is e ErrNotExist then Some e else None)"

text \<open>\<open>order m\<close> lists the keys of \<open>m\<close> in the order of Go's iteration.\<close>

definition Discover ::
  "os_env \<Rightarrow> ((string \<rightharpoonup> Device) \<Rightarrow> string list) \<Rightarrow> Paths \<Rightarrow> goerr + Device list" where
  "Discover env order paths =
     (let (err, devices) = discoverDevices env (DriPath paths) (SysfsDriPath paths) Map.empty
      in case unless_missing err of
           Some e \<Rightarrow> Inl e
         | None \<Rightarrow>
             (let (err, devices) =
                    discoverDevices env (AccelPath paths) (SysfsAccelPath paths) devices
              in case unless_missing err of
                   Some e \<Rightarrow> Inl e
                 | None \<Rightarrow> Inr (map (\<lambda>k. the (devices k)) (order devices))))"

section \<open>Grouping by address\<close>

text \<open>The device one directory entry stands for, when it is a character device that can be inspected.\<close>

definition file_device :: "os_env \<Rightarrow> string \<Rightarrow> string \<Rightarrow> DirEntry \<Rightarrow> Device option" where
  "file_device env devPath sysfsPath file =
     (let sysfsFullPath = filepath_Join sysfsPath (de_Name file);
          fileFullPath = filepath_Join devPath (de_Name file)
      in if de_Type file AND ModeDir \<noteq> 0 \<or> de_Type file AND ModeCharDevice = 0 then None
         else (case (os_Stat_Rdev env fileFullPath, ReadUevent env sysfsFullPath,
                     GetDeviceAddress env sysfsFullPath) of
                 (Inr rdev, Inr uevent, Inr (addr, sysp)) \<Rightarrow>
                   Some \<lparr>DriverName = map_get uevent ''DRIVER'', SysfsPath = sysp,
                         PciID = map_get uevent ''PCI_ID'', PciAddress = addr,
                         NumaNode = ReadNumaNode env sysp,
                         Nodes = [\<lparr>Minor = unix_Minor env rdev, Major = unix_Major env rdev,
                                   Path = fileFullPath\<rparr>]\<rparr>
               | _ \<Rightarrow> None))"

text \<open>The usable entries of a directory, in listing order; an unreadable directory has none.\<close>

definition dir_devices :: "os_env \<Rightarrow> string \<Rightarrow> string \<Rightarrow> Device list" where
  "dir_devices env devPath sysfsPath =
     (case os_ReadDir env devPath of
        Inl err \<Rightarrow> []
      | Inr files \<Rightarrow> List.map_filter (file_device env devPath sysfsPath) files)"

text \<open>The reference: the entries with a given address become one device, which takes its fields from
  the first of them and its nodes from all of them.\<close>

definition group_by_address :: "Device list \<Rightarrow> string \<Rightarrow> Device option" where
  "group_by_address ds addr =
     (case filter (\<lambda>d. PciAddress d = addr) ds of
        [] \<Rightarrow> None
      | d # rest \<Rightarrow> Some (d\<lparr>Nodes := concat (map Nodes (d # rest))\<rparr>))"

definition merge_device :: "Device \<Rightarrow> (string \<rightharpoonup> Device) \<Rightarrow> (string \<rightharpoonup> Device)" where
  "merge_device d m =
     (case m (PciAddress d) of
        None \<Rightarrow> m(PciAddress d \<mapsto> d)
      | Some d0 \<Rightarrow> m(PciAddress d \<mapsto> d0\<lparr>Nodes := Nodes d0 @ Nodes d\<rparr>))"

lemma discoverFile_merge:
  "discoverFile env devPath sysfsPath file m =
     (case file_device env devPath sysfsPath file of None \<Rightarrow> m | Some d \<Rightarrow> merge_device d m)"
  by (simp add: discoverFile_def file_device_def merge_device_def Let_def
      split: sum.split prod.split option.split)

lemma fold_discoverFile:
  "fold (discoverFile env devPath sysfsPath) files m =
     fold merge_device (List.map_filter (file_device env devPath sysfsPath) files) m"
  by (induction files arbitrary: m)
    (simp_all add: discoverFile_merge List.map_filter_simps split: option.split)

lemma group_by_address_snoc:
  "group_by_address (ds @ [d]) = merge_device d (group_by_address ds)"
proof
  fix addr
  show "group_by_address (ds @ [d]) addr = merge_device d (group_by_address ds) addr"
    by (cases "filter (\<lambda>d'. PciAddress d' = PciAddress d) ds")
      (auto simp: group_by_address_def merge_device_def split: list.splits)
qed

lemma fold_merge_device: "fold merge_device ds (group_by_address ds0) = group_by_address (ds0 @ ds)"
proof (induction ds arbitrary: ds0)
  case (Cons d ds)
  then show ?case
    using Cons.IH [of "ds0 @ [d]"] by (simp add: group_by_address_snoc)
qed simp

lemma discoverDevices_groups:
  "snd (discoverDevices env devPath sysfsPath (group_by_address ds0)) =
     group_by_address (ds0 @ dir_devices env devPath sysfsPath)"
  by (simp add: discoverDevices_def dir_devices_def fold_discoverFile fold_merge_device
      split: sum.split)

lemma group_by_address_Nil [simp]: "group_by_address [] = Map.empty"
  by (simp add: group_by_address_def fun_eq_iff)

lemma fst_discoverDevices:
  "fst (discoverDevices env devPath sysfsPath m) =
     (case os_ReadDir env devPath of Inl e \<Rightarrow> Some e | Inr _ \<Rightarrow> None)"
  by (simp add: discoverDevices_def split: sum.split)

lemma group_None_iff: "group_by_address ds a = None \<longleftrightarrow> a \<notin> PciAddress ` set ds"
proof -
  have "filter (\<lambda>d. PciAddress d = a) ds = [] \<longleftrightarrow> a \<notin> PciAddress ` set ds"
    by (auto simp: filter_empty_conv)
  then show ?thesis
    by (cases "filter (\<lambda>d. PciAddress d = a) ds") (simp_all add: group_by_address_def)
qed

lemma dom_group: "dom (group_by_address ds) = PciAddress ` set ds"
  using group_None_iff by (auto simp: dom_def)

lemma sum_merge_nodes:
  assumes "finite (dom m)"
  shows "(\<Sum>a \<in> dom (merge_device d m). mset (Nodes (the (merge_device d m a)))) =
    (\<Sum>a \<in> dom m. mset (Nodes (the (m a)))) + mset (Nodes d)"
proof (cases "m (PciAddress d)")
  case None
  then have "PciAddress d \<notin> dom m" by (simp add: domIff)
  with assms None show ?thesis
    by (auto simp: merge_device_def intro!: sum.cong)
next
  case (Some d0)
  then have "PciAddress d \<in> dom m" by blast
  with assms Some show ?thesis
    by (auto simp: merge_device_def insert_absorb sum.remove [of _ "PciAddress d"] intro!: sum.cong)
qed

lemma sum_group_nodes:
  "(\<Sum>a \<in> dom (group_by_address ds). mset (Nodes (the (group_by_address ds a)))) =
    mset (concat (map Nodes ds))"
proof (induction ds rule: rev_induct)
  case (snoc d ds)
  have "finite (dom (group_by_address ds))" by (simp add: dom_group)
  with snoc show ?case by (simp add: group_by_address_snoc sum_merge_nodes)
qed simp

lemma group_Some:
  assumes "group_by_address ds a = Some d"
  obtains d0 where "d0 \<in> set ds" "PciAddress d0 = a" "d = d0\<lparr>Nodes := Nodes d\<rparr>"
    and "set (Nodes d0) \<subseteq> set (Nodes d)"
proof -
  from assms obtain d0 rest where f: "filter (\<lambda>d. PciAddress d = a) ds = d0 # rest"
    and d: "d = d0\<lparr>Nodes := concat (map Nodes (d0 # rest))\<rparr>"
    by (auto simp: group_by_address_def split: list.splits)
  from f have "d0 \<in> set (filter (\<lambda>d. PciAddress d = a) ds)" by simp
  with d show thesis by (intro that [of d0]) auto
qed

lemma ReadUevent_driver: "ReadUevent env p = Inr m \<Longrightarrow> map_get m ''DRIVER'' \<noteq> []"
  by (auto simp: ReadUevent_def Let_def split: sum.splits prod.splits option.splits if_splits)

lemma file_device_wf:
  assumes "file_device env devPath sysfsPath file = Some d"
  shows "DriverName d \<noteq> [] \<and> Nodes d \<noteq> [] \<and> PciAddress d = Base (SysfsPath d)"
proof -
  from assms obtain rdev uevent addr sysp where
    u: "ReadUevent env (filepath_Join sysfsPath (de_Name file)) = Inr uevent" and
    a: "GetDeviceAddress env (filepath_Join sysfsPath (de_Name file)) = Inr (addr, sysp)" and
    d: "DriverName d = map_get uevent ''DRIVER''" "SysfsPath d = sysp" "PciAddress d = addr" "Nodes d \<noteq> []"
    by (auto simp: file_device_def Let_def split: sum.splits prod.splits if_splits)
  from a have "addr = Base sysp"
    by (auto simp: GetDeviceAddress_def Let_def split: sum.splits)
  with d ReadUevent_driver [OF u] show ?thesis by simp
qed

lemma in_set_map_filter: "y \<in> set (List.map_filter f xs) \<longleftrightarrow> (\<exists>x \<in> set xs. f x = Some y)"
  by (force simp: List.map_filter_def)

lemma dir_devices_wf:
  "d \<in> set (dir_devices env devPath sysfsPath) \<Longrightarrow>
     DriverName d \<noteq> [] \<and> Nodes d \<noteq> [] \<and> PciAddress d = Base (SysfsPath d)"
  by (auto simp: dir_devices_def in_set_map_filter split: sum.splits dest: file_device_wf)

text \<open>What \<^verbatim>\<open>Discover\<close> finds in a file system: all usable entries of both directories.\<close>

definition found_devices :: "os_env \<Rightarrow> Paths \<Rightarrow> Device list" where
  "found_devices env paths =
     dir_devices env (DriPath paths) (SysfsDriPath paths) @
     dir_devices env (AccelPath paths) (SysfsAccelPath paths)"

definition dir_error :: "os_env \<Rightarrow> string \<Rightarrow> goerr option" where
  "dir_error env p = (case os_ReadDir env p of Inl e \<Rightarrow> unless_missing (Some e) | Inr _ \<Rightarrow> None)"

lemma Discover_eq:
  "Discover env order paths =
     (case dir_error env (DriPath paths) of
        Some e \<Rightarrow> Inl e
      | None \<Rightarrow>
          (case dir_error env (AccelPath paths) of
             Some e \<Rightarrow> Inl e
           | None \<Rightarrow>
               (let devices = group_by_address (found_devices env paths)
                in Inr (map (\<lambda>k. the (devices k)) (order devices)))))"
proof -
  let ?dri = "discoverDevices env (DriPath paths) (SysfsDriPath paths) Map.empty"
  have dri: "?dri = (case os_ReadDir env (DriPath paths) of Inl e \<Rightarrow> Some e | Inr _ \<Rightarrow> None,
      group_by_address (dir_devices env (DriPath paths) (SysfsDriPath paths)))"
    using discoverDevices_groups [of env "DriPath paths" "SysfsDriPath paths" "[]"]
    by (intro prod_eqI) (simp_all add: fst_discoverDevices)
  have acc: "discoverDevices env (AccelPath paths) (SysfsAccelPath paths)
      (group_by_address (dir_devices env (DriPath paths) (SysfsDriPath paths))) =
      (case os_ReadDir env (AccelPath paths) of Inl e \<Rightarrow> Some e | Inr _ \<Rightarrow> None,
       group_by_address (found_devices env paths))"
    unfolding found_devices_def
    by (intro prod_eqI) (simp_all add: fst_discoverDevices discoverDevices_groups)
  show ?thesis
    by (simp add: Discover_def dri acc dir_error_def unless_missing_def Let_def
        split: sum.split option.split)
qed

lemma group_found_wf:
  assumes "k \<in> dom (group_by_address (found_devices env paths))"
  defines "d \<equiv> the (group_by_address (found_devices env paths) k)"
  shows "PciAddress d = k" and "DriverName d \<noteq> [] \<and> PciAddress d = Base (SysfsPath d) \<and> Nodes d \<noteq> []"
proof -
  have "group_by_address (found_devices env paths) k = Some d"
    using assms by auto
  then obtain d0 where d0: "d0 \<in> set (found_devices env paths)" "PciAddress d0 = k"
    "d = d0\<lparr>Nodes := Nodes d\<rparr>" "set (Nodes d0) \<subseteq> set (Nodes d)" by (rule group_Some)
  then have f: "PciAddress d = PciAddress d0" "DriverName d = DriverName d0" "SysfsPath d = SysfsPath d0"
    by (metis Device.simps(1,2,4) Device.surjective Device.update_convs(6))+
  have "DriverName d0 \<noteq> [] \<and> Nodes d0 \<noteq> [] \<and> PciAddress d0 = Base (SysfsPath d0)"
    using d0(1) by (auto simp: found_devices_def dest: dir_devices_wf)
  with f d0(4) show "DriverName d \<noteq> [] \<and> PciAddress d = Base (SysfsPath d) \<and> Nodes d \<noteq> []"
    by auto
  show "PciAddress d = k" using f d0(2) by simp
qed

section \<open>Properties\<close>

text \<open>C28: Discovery is the grouping of the usable character devices of \<^verbatim>\<open>/dev/dri\<close> and \<^verbatim>\<open>/dev/accel\<close> by
  the address of the device behind them, in Go's iteration order; a missing directory counts as
  empty, and any other directory error is returned instead of devices.\<close>

theorem Discover_groups:
  "Discover env order paths =
     (case dir_error env (DriPath paths) of
        Some e \<Rightarrow> Inl e
      | None \<Rightarrow>
          (case dir_error env (AccelPath paths) of
             Some e \<Rightarrow> Inl e
           | None \<Rightarrow>
               (let devices = group_by_address (found_devices env paths)
                in Inr (map (\<lambda>k. the (devices k)) (order devices)))))"
  by (rule Discover_eq)

text \<open>C29: In a successful discovery no two devices share an address, every device has a driver name, an
  address that is the base name of its sysfs path and at least one node, and no node is lost or
  listed twice: the nodes of all devices together are exactly the usable device files.\<close>

theorem Discover_wellformed:
  assumes "Discover env order paths = Inr ds"
    and "\<And>m. finite (dom m) \<Longrightarrow> distinct (order m) \<and> set (order m) = dom m"
  shows "distinct (map PciAddress ds) \<and>
    (\<forall>d \<in> set ds. DriverName d \<noteq> [] \<and> PciAddress d = Base (SysfsPath d) \<and> Nodes d \<noteq> []) \<and>
    mset (concat (map Nodes ds)) = mset (concat (map Nodes (found_devices env paths)))"
proof -
  let ?m = "group_by_address (found_devices env paths)"
  have ds: "ds = map (\<lambda>k. the (?m k)) (order ?m)"
    using assms(1) by (auto simp: Discover_eq Let_def split: option.splits)
  have ord: "distinct (order ?m)" "set (order ?m) = dom ?m"
    using assms(2) [of ?m] by (simp_all add: dom_group)
  have "map PciAddress ds = order ?m"
    unfolding ds map_map by (rule map_idI) (simp add: group_found_wf(1) ord(2))
  moreover have "\<forall>d \<in> set ds. DriverName d \<noteq> [] \<and> PciAddress d = Base (SysfsPath d) \<and> Nodes d \<noteq> []"
    unfolding ds set_map ord(2) using group_found_wf(2) by blast
  moreover have "mset (concat (map Nodes ds)) = (\<Sum>a \<in> dom ?m. mset (Nodes (the (?m a))))"
    using ord by (simp add: ds mset_concat comp_def sum_list_distinct_conv_sum_set)
  ultimately show ?thesis
    using ord by (simp add: sum_group_nodes)
qed

text \<open>A node with one Intel GPU and no accel devices, for the witnesses.\<close>

definition sample_os :: os_env where
  "sample_os = \<lparr>
     os_ReadDir = (\<lambda>p. if p = ''/dev/dri''
        then Inr [\<lparr>de_Name = ''by-path'', de_Type = ModeDir\<rparr>,
                  \<lparr>de_Name = ''card1'', de_Type = ModeCharDevice\<rparr>,
                  \<lparr>de_Name = ''renderD128'', de_Type = ModeCharDevice\<rparr>]
        else Inl ErrNotExist),
     os_Stat_Rdev = (\<lambda>p. Inr (if p = ''/dev/dri/card1'' then 0xE201 else 0xE280)),
     os_Open = (\<lambda>p. Inr (''DRIVER=i915'' @ [CHR 0x0A] @ ''PCI_ID=8086:5917'' @ [CHR 0x0A], None)),
     os_ReadFile = (\<lambda>p. Inr (''0'' @ [CHR 0x0A])),
     os_EvalSymlinks = (\<lambda>p. Inr ''/sys/devices/pci0000:00/0000:00:02.0''),
     unix_Major = (\<lambda>r. ucast (drop_bit 8 r AND 0xFFF)),
     unix_Minor = (\<lambda>r. ucast (r AND 0xFF))\<rparr>"

definition sample_paths :: Paths where
  "sample_paths = \<lparr>DriPath = ''/dev/dri'', AccelPath = ''/dev/accel'',
     SysfsDriPath = ''/sys/class/drm'', SysfsAccelPath = ''/sys/class/accel''\<rparr>"

definition sample_device :: Device where
  "sample_device = \<lparr>DriverName = ''i915'', SysfsPath = ''/sys/devices/pci0000:00/0000:00:02.0'',
     PciID = ''8086:5917'', PciAddress = ''0000:00:02.0'', NumaNode = ''0'',
     Nodes = [\<lparr>Minor = 1, Major = 226, Path = ''/dev/dri/card1''\<rparr>,
              \<lparr>Minor = 128, Major = 226, Path = ''/dev/dri/renderD128''\<rparr>]\<rparr>"

lemma sample_uevent:
  "ReadUevent sample_os p = Inr [''DRIVER'' \<mapsto> ''i915'', ''PCI_ID'' \<mapsto> ''8086:5917'']"
  by (simp add: ReadUevent_def sample_os_def scan_lines_def raw_lines_def drop_cr_def
      MaxScanTokenSize_def uevent_line_def Cut_def HasPrefix_def map_get_def)

lemma sample_address:
  "GetDeviceAddress sample_os p = Inr (''0000:00:02.0'', ''/sys/devices/pci0000:00/0000:00:02.0'')"
proof -
  have "Base ''/sys/devices/pci0000:00/0000:00:02.0'' = ''0000:00:02.0''" by code_simp
  then show ?thesis by (simp add: GetDeviceAddress_def sample_os_def)
qed

lemma sample_numa: "ReadNumaNode sample_os p = ''0''"
proof -
  have "TrimSpace (''0'' @ [CHR 0x0A]) = ''0''" by code_simp
  then show ?thesis by (simp add: ReadNumaNode_def sample_os_def)
qed

lemma sample_found:
  "group_by_address (found_devices sample_os sample_paths) = [''0000:00:02.0'' \<mapsto> sample_device]"
proof -
  have j: "filepath_Join ''/dev/dri'' ''card1'' = ''/dev/dri/card1''"
    "filepath_Join ''/dev/dri'' ''renderD128'' = ''/dev/dri/renderD128''" by code_simp+
  have r: "os_ReadDir sample_os ''/dev/dri'' =
      Inr [\<lparr>de_Name = ''by-path'', de_Type = ModeDir\<rparr>, \<lparr>de_Name = ''card1'', de_Type = ModeCharDevice\<rparr>,
           \<lparr>de_Name = ''renderD128'', de_Type = ModeCharDevice\<rparr>]"
    "os_ReadDir sample_os ''/dev/accel'' = Inl ErrNotExist"
    "os_Stat_Rdev sample_os ''/dev/dri/card1'' = Inr 0xE201"
    "os_Stat_Rdev sample_os ''/dev/dri/renderD128'' = Inr 0xE280"
    "unix_Major sample_os 0xE201 = 226" "unix_Minor sample_os 0xE201 = 1"
    "unix_Major sample_os 0xE280 = 226" "unix_Minor sample_os 0xE280 = 128"
    by (simp_all add: sample_os_def)
  have "found_devices sample_os sample_paths =
      [sample_device\<lparr>Nodes := [Nodes sample_device ! 0]\<rparr>, sample_device\<lparr>Nodes := [Nodes sample_device ! 1]\<rparr>]"
    by (simp add: found_devices_def dir_devices_def sample_paths_def r List.map_filter_simps
        file_device_def j sample_uevent sample_address sample_numa map_get_def sample_device_def
        ModeDir_def ModeCharDevice_def)
  then show ?thesis
    by (auto simp: group_by_address_def sample_device_def fun_eq_iff)
qed

text \<open>The keys of a map in ascending order: one of Go's possible iteration orders.\<close>

definition sorted_keys :: "(string \<rightharpoonup> 'a) \<Rightarrow> string list" where
  "sorted_keys m = sorted_list_of_set (dom m)"

lemma sorted_keys_order: "finite (dom m) \<Longrightarrow> distinct (sorted_keys m) \<and> set (sorted_keys m) = dom m"
  by (simp add: sorted_keys_def)

theorem Discover_wellformed_witness:
  "Discover sample_os sorted_keys sample_paths = Inr [sample_device] \<and>
   distinct (map PciAddress [sample_device]) \<and>
   mset (concat (map Nodes [sample_device])) = mset (concat (map Nodes (found_devices sample_os sample_paths)))"
proof -
  have "dir_error sample_os (DriPath sample_paths) = None" "dir_error sample_os (AccelPath sample_paths) = None"
    by (simp_all add: dir_error_def sample_os_def sample_paths_def unless_missing_def ErrNotExist_def)
  then have d: "Discover sample_os sorted_keys sample_paths = Inr [sample_device]"
    by (simp add: Discover_eq sample_found sorted_keys_def)
  then show ?thesis
    using Discover_wellformed [OF d sorted_keys_order] by simp
qed

section \<open>Reading uevent files\<close>

text \<open>A uevent file: one \<^verbatim>\<open>KEY=VALUE\<close> line per entry.\<close>

definition uevent_entry :: "string \<times> string \<Rightarrow> string" where
  "uevent_entry kv = fst kv @ ''='' @ snd kv"

definition uevent_text :: "(string \<times> string) list \<Rightarrow> string" where
  "uevent_text kvs = concat (map (\<lambda>kv. uevent_entry kv @ [CHR 0x0A]) kvs)"

definition uevent_ok :: "string \<times> string \<Rightarrow> bool" where
  "uevent_ok kv \<longleftrightarrow> CHR ''='' \<notin> set (fst kv) \<and> CHR 0x0A \<notin> set (fst kv @ snd kv) \<and>
     (snd kv = [] \<or> last (snd kv) \<noteq> CHR 0x0D) \<and> length (uevent_entry kv) < MaxScanTokenSize"

lemma uevent_line_entry:
  "CHR ''='' \<notin> set (fst kv) \<Longrightarrow> uevent_line (uevent_entry kv) m = m(fst kv \<mapsto> snd kv)"
  using Cut_char [of "CHR ''=''" "fst kv" "snd kv"] by (simp add: uevent_line_def uevent_entry_def)

lemma fold_uevent_line:
  "(\<And>kv. kv \<in> set kvs \<Longrightarrow> uevent_ok kv) \<Longrightarrow>
     fold uevent_line (map uevent_entry kvs) m = m ++ map_of (rev kvs)"
proof (induction kvs arbitrary: m)
  case (Cons kv kvs)
  have "uevent_line (uevent_entry kv) m = m(fst kv \<mapsto> snd kv)"
    using Cons.prems [of kv] by (intro uevent_line_entry) (simp add: uevent_ok_def)
  with Cons show ?case
    by (cases kv) simp
qed simp

lemma uevent_ok_line:
  assumes "uevent_ok kv"
  shows "CHR 0x0A \<notin> set (uevent_entry kv) \<and> drop_cr (uevent_entry kv) = uevent_entry kv \<and>
    length (uevent_entry kv) < MaxScanTokenSize"
  using assms by (cases "snd kv = []") (auto simp: uevent_ok_def uevent_entry_def drop_cr_def)

text \<open>C30: Reading back a uevent file gives every key its last value: values may contain \<^verbatim>\<open>=\<close>, keys that
  are not written are absent, and no line is lost.\<close>

theorem ReadUevent_roundtrip:
  assumes "os_Open env (filepath_Join (filepath_Join drmPath ''device'') ''uevent'') = Inr (uevent_text kvs, None)"
    and "\<And>kv. kv \<in> set kvs \<Longrightarrow> uevent_ok kv"
    and "map_get (map_of (rev kvs)) ''DRIVER'' \<noteq> []"
  shows "ReadUevent env drmPath = Inr (map_of (rev kvs))"
proof -
  have "scan_lines (uevent_text kvs) = (map uevent_entry kvs, None)"
  proof -
    have "CHR 0x0A \<notin> set l \<and> drop_cr l = l \<and> length l < MaxScanTokenSize"
      if "l \<in> set (map uevent_entry kvs)" for l
      using that assms(2) uevent_ok_line by auto
    then show ?thesis
      using scan_lines_written [of "map uevent_entry kvs"] by (simp add: uevent_text_def comp_def)
  qed
  moreover have "fold uevent_line (map uevent_entry kvs) Map.empty = map_of (rev kvs)"
    using fold_uevent_line [of kvs Map.empty] assms(2) by simp
  ultimately show ?thesis
    using assms(1,3) by (simp add: ReadUevent_def)
qed

theorem ReadUevent_roundtrip_witness:
  "ReadUevent (sample_os\<lparr>os_Open := \<lambda>p. Inr (uevent_text [(''DRIVER'', ''i915''), (''MODALIAS'', ''pci:v=extra'')], None)\<rparr>)
     ''/sys/class/drm/card1'' =
   Inr (map_of (rev [(''DRIVER'', ''i915''), (''MODALIAS'', ''pci:v=extra'')]))"
  by (rule ReadUevent_roundtrip)
    (auto simp: uevent_ok_def uevent_entry_def MaxScanTokenSize_def map_get_def)

end
