(* ===== verification/Hw.thy ===== *)
theory Hw
  imports DrmBpf Discovery
begin

text \<open>
  Package \<^verbatim>\<open>pkg/hw\<close> with the two vendor packages \<^verbatim>\<open>pkg/hw/i915\<close> and \<^verbatim>\<open>pkg/hw/ivpu\<close>: the kinds of
  calls, the \<^verbatim>\<open>Vendor\<close> interface, the two implementations and the registry. The locale \<open>vendor\<close> is the
  contract an implementation has to meet so that the probe can use its ioctl table, and both
  implementations are interpretations of it.
\<close>

section \<open>kind.go\<close>

type_synonym Kind = u8

definition hw_KindUnknown :: Kind where "hw_KindUnknown = 0"
definition hw_KindSubmit :: Kind where "hw_KindSubmit = 1"
definition hw_KindAlloc :: Kind where "hw_KindAlloc = 2"
definition hw_KindWait :: Kind where "hw_KindWait = 3"

definition Kind_String :: "Kind \<Rightarrow> string" where
  "Kind_String k =
     (if k = hw_KindSubmit then ''submit''
      else if k = hw_KindAlloc then ''alloc''
      else if k = hw_KindWait then ''wait''
      else ''unknown'')"

lemmas hw_kinds = hw_KindUnknown_def hw_KindSubmit_def hw_KindAlloc_def hw_KindWait_def
lemmas c_kinds = KindUnknown_def KindSubmit_def KindAlloc_def KindWait_def

section \<open>vendor.go\<close>

record Stats =
  BusyNs :: u64

definition ErrNotSupported :: goerr where
  "ErrNotSupported = Sentinel ''driver does not expose device stats''"

text \<open>A value of the interface type is the record of its methods.\<close>

record Vendor =
  Name :: string
  Match :: "Device \<Rightarrow> bool"
  Ioctls :: "u32 \<rightharpoonup> Kind"
  Weight :: "u32 \<Rightarrow> u8 list \<Rightarrow> u64"
  DeviceStats :: "Device \<Rightarrow> Stats \<times> goerr option"

section \<open>i915 and ivpu\<close>

definition i915_Vendor :: Vendor where
  "i915_Vendor = \<lparr>
     Name = ''i915'',
     Match = (\<lambda>d. DriverName d = ''i915''),
     Ioctls = [0x69 \<mapsto> hw_KindSubmit, 0x5b \<mapsto> hw_KindAlloc, 0x6c \<mapsto> hw_KindWait],
     Weight = (\<lambda>cmd payload. 0),
     DeviceStats = (\<lambda>d. (\<lparr>BusyNs = 0\<rparr>, Some ErrNotSupported))\<rparr>"

definition ivpu_Vendor :: Vendor where
  "ivpu_Vendor = \<lparr>
     Name = ''ivpu'',
     Match = (\<lambda>d. DriverName d = ''intel_vpu''),
     Ioctls = [0x4d \<mapsto> hw_KindSubmit, 0x45 \<mapsto> hw_KindSubmit, 0x42 \<mapsto> hw_KindAlloc,
               0x46 \<mapsto> hw_KindWait],
     Weight = (\<lambda>cmd payload. 0),
     DeviceStats = (\<lambda>d. (\<lparr>BusyNs = 0\<rparr>, Some ErrNotSupported))\<rparr>"

section \<open>registry.go\<close>

definition RegisterVendor :: "Vendor \<Rightarrow> Vendor list \<Rightarrow> Vendor list" where
  "RegisterVendor v vs = vs @ [v]"

text \<open>The package-level variable after the \<^verbatim>\<open>init\<close> functions of the two vendor packages, which Go runs
  in the order of their import paths.\<close>

definition registeredVendors :: "Vendor list" where
  "registeredVendors = RegisterVendor ivpu_Vendor (RegisterVendor i915_Vendor [])"

fun GetVendor :: "Vendor list \<Rightarrow> Device \<Rightarrow> Vendor option" where
  "GetVendor [] d = None"
| "GetVendor (v # vs) d = (if Match v d then Some v else GetVendor vs d)"

fun GetVendorID_from :: "nat \<Rightarrow> Vendor list \<Rightarrow> string \<Rightarrow> u32" where
  "GetVendorID_from i [] vendorName = 0"
| "GetVendorID_from i (v # vs) vendorName =
     (if Name v = vendorName then of_nat i + 1 else GetVendorID_from (Suc i) vs vendorName)"

definition GetVendorID :: "Vendor list \<Rightarrow> string \<Rightarrow> u32" where
  "GetVendorID vs vendorName = GetVendorID_from 0 vs vendorName"

section \<open>The contract of a vendor\<close>

text \<open>The probe looks an ioctl up by \<^verbatim>\<open>cmd & 0xff\<close> and the agent exports the kind by its name. So a
  table entry is of use only if its number fits in eight bits, and its kind should be a named one.\<close>

locale vendor =
  fixes V :: Vendor
  assumes name_nonempty: "Name V \<noteq> []"
    and ioctls_finite: "finite (dom (Ioctls V))"
    and ioctl_nr: "Ioctls V nr = Some k \<Longrightarrow> nr AND 0xFF = nr"
    and ioctl_kind: "Ioctls V nr = Some k \<Longrightarrow> k \<in> {hw_KindSubmit, hw_KindAlloc, hw_KindWait}"
    and submits: "hw_KindSubmit \<in> ran (Ioctls V)"
begin

lemma kind_named: "Ioctls V nr = Some k \<Longrightarrow> Kind_String k \<noteq> ''unknown''"
  using ioctl_kind [of nr k] by (auto simp: Kind_String_def)

lemma ioctl_reachable:
  assumes "Ioctls V nr = Some k"
  shows "Ioctls V ((dir_size AND NOT 0xFF OR nr) AND 0xFF) = Some k"
proof -
  have "(dir_size AND NOT 0xFF OR nr) AND 0xFF = nr AND 0xFF"
    by (rule bit_eqI) (auto simp: bit_simps)
  with assms show ?thesis by (simp add: ioctl_nr [OF assms])
qed

end

interpretation i915: vendor i915_Vendor
  by unfold_locales (auto simp: i915_Vendor_def ran_def hw_kinds split: if_splits)

interpretation ivpu: vendor ivpu_Vendor
  by unfold_locales (auto simp: ivpu_Vendor_def ran_def hw_kinds split: if_splits)

section \<open>The registry\<close>

lemma GetVendor_Some: "GetVendor vs d = Some v \<Longrightarrow> v \<in> set vs \<and> Match v d"
  by (induction vs) (auto split: if_splits)

lemma GetVendor_None: "GetVendor vs d = None \<longleftrightarrow> (\<forall>v \<in> set vs. \<not> Match v d)"
  by (induction vs) auto

lemma GetVendorID_from_nth:
  "distinct (map Name vs) \<Longrightarrow> j < length vs \<Longrightarrow> GetVendorID_from i vs (Name (vs ! j)) = of_nat (i + j + 1)"
proof (induction vs arbitrary: i j)
  case (Cons v vs)
  show ?case
  proof (cases j)
    case (Suc j')
    with Cons.prems have "Name v \<noteq> Name (vs ! j')" by auto
    with Suc Cons.IH [of j' "Suc i"] Cons.prems show ?thesis by (simp add: algebra_simps)
  qed simp
qed simp

lemma GetVendorID_from_absent: "n \<notin> Name ` set vs \<Longrightarrow> GetVendorID_from i vs n = 0"
  by (induction vs arbitrary: i) auto

lemma registeredVendors_eq: "registeredVendors = [i915_Vendor, ivpu_Vendor]"
  by (simp add: registeredVendors_def RegisterVendor_def)

lemma registered_names [simp]: "Name i915_Vendor = ''i915''" "Name ivpu_Vendor = ''ivpu''"
  by (simp_all add: i915_Vendor_def ivpu_Vendor_def)

lemma registered_IDs: "GetVendorID registeredVendors ''i915'' = 1" "GetVendorID registeredVendors ''ivpu'' = 2"
  by (simp_all add: registeredVendors_eq GetVendorID_def)

lemma registered_vendor: "v \<in> set registeredVendors \<Longrightarrow> vendor v"
  using i915.vendor_axioms ivpu.vendor_axioms by (auto simp: registeredVendors_eq)

section \<open>Properties\<close>

text \<open>C31: The vendor IDs of a registry with distinct names are the positions counted from one: they are
  pairwise different, never the 0 that stands for no vendor, and a name that is not registered gets
  that 0. The conversion to 32 bits is what limits the length of the registry.\<close>

theorem GetVendorID_unique:
  assumes "distinct (map Name vs)" and "length vs < 2 ^ 32 - 1"
  shows "(\<forall>i < length vs. unat (GetVendorID vs (Name (vs ! i))) = i + 1) \<and>
    inj_on (GetVendorID vs) (Name ` set vs) \<and>
    (\<forall>n. GetVendorID vs n = 0 \<longleftrightarrow> n \<notin> Name ` set vs)"
proof -
  have id: "unat (GetVendorID vs (Name (vs ! i))) = i + 1" if "i < length vs" for i
  proof -
    have "GetVendorID vs (Name (vs ! i)) = of_nat (i + 1)"
      using GetVendorID_from_nth [OF assms(1) that, of 0] by (simp add: GetVendorID_def)
    moreover have "i + 1 < 2 ^ LENGTH(32)" using that assms(2) by simp
    ultimately show ?thesis by (simp only: unat_of_nat_small)
  qed
  have inj: "inj_on (GetVendorID vs) (Name ` set vs)"
  proof (rule inj_onI)
    fix m n assume m: "m \<in> Name ` set vs" and n: "n \<in> Name ` set vs" and e: "GetVendorID vs m = GetVendorID vs n"
    from m obtain i where i: "i < length vs" "m = Name (vs ! i)" by (auto simp: in_set_conv_nth)
    from n obtain j where j: "j < length vs" "n = Name (vs ! j)" by (auto simp: in_set_conv_nth)
    have "i + 1 = j + 1"
      using id [OF i(1)] id [OF j(1)] unfolding i(2) [symmetric] j(2) [symmetric] e by (rule trans [OF sym])
    with i(2) j(2) show "m = n" by simp
  qed
  have "GetVendorID vs n \<noteq> 0" if "n \<in> Name ` set vs" for n
  proof -
    from that obtain i where "i < length vs" "n = Name (vs ! i)" by (auto simp: in_set_conv_nth)
    with id [of i] show ?thesis by (metis Suc_eq_plus1 nat.distinct(1) unat_0)
  qed
  with id inj show ?thesis
    using GetVendorID_from_absent by (auto simp: GetVendorID_def)
qed

theorem GetVendorID_unique_witness:
  "distinct (map Name registeredVendors) \<and> unat (GetVendorID registeredVendors ''ivpu'') = 2 \<and>
   inj_on (GetVendorID registeredVendors) (Name ` set registeredVendors)"
proof -
  have "distinct (map Name registeredVendors)" "length registeredVendors < 2 ^ 32 - 1"
    by (simp_all add: registeredVendors_eq)
  from GetVendorID_unique [OF this] this show ?thesis by (simp add: registered_IDs)
qed

text \<open>The kinds of the Go package and of \<^verbatim>\<open>common.h\<close> are the same numbers, and every entry of an ioctl
  table of a registered vendor has a number that the probe's mask \<^verbatim>\<open>cmd & 0xff\<close> leaves alone and a
  kind that is exported under a name of its own.\<close>

theorem vendor_tables_usable:
  "[hw_KindUnknown, hw_KindSubmit, hw_KindAlloc, hw_KindWait] = [KindUnknown, KindSubmit, KindAlloc, KindWait] \<and>
   (\<forall>v \<in> set registeredVendors. \<forall>nr k. Ioctls v nr = Some k \<longrightarrow>
      nr AND 0xFF = nr \<and> Kind_String k \<in> {''submit'', ''alloc'', ''wait''} \<and>
      (\<forall>dir_size. Ioctls v ((dir_size AND NOT 0xFF OR nr) AND 0xFF) = Some k)) \<and>
   distinct (map Kind_String [hw_KindUnknown, hw_KindSubmit, hw_KindAlloc, hw_KindWait])"
proof -
  have "nr AND 0xFF = nr \<and> Kind_String k \<in> {''submit'', ''alloc'', ''wait''} \<and>
      (\<forall>dir_size. Ioctls v ((dir_size AND NOT 0xFF OR nr) AND 0xFF) = Some k)"
    if "v \<in> set registeredVendors" "Ioctls v nr = Some k" for v nr k
    using vendor.ioctl_nr vendor.ioctl_reachable vendor.ioctl_kind registered_vendor [OF that(1)] that(2)
    by (fastforce simp: Kind_String_def hw_kinds)
  then show ?thesis
    by (simp add: hw_kinds c_kinds Kind_String_def)
qed

theorem vendor_tables_usable_witness:
  "Ioctls i915_Vendor 0x69 = Some hw_KindSubmit \<and> (0x69 :: u32) AND 0xFF = 0x69 \<and>
   Kind_String hw_KindSubmit \<in> {''submit'', ''alloc'', ''wait''}"
proof -
  have "Ioctls i915_Vendor 0x69 = Some hw_KindSubmit" by (simp add: i915_Vendor_def)
  moreover have "i915_Vendor \<in> set registeredVendors" by (simp add: registeredVendors_eq)
  ultimately show ?thesis using vendor_tables_usable by blast
qed

end
