(* ===== verification/Loader.thy ===== *)
theory Loader
  imports DrmBpf GoLib
begin

text \<open>
  Package \<^verbatim>\<open>pkg/loader\<close>: \<^verbatim>\<open>features.go\<close>, \<^verbatim>\<open>loader.go\<close> and the Go types and close functions of the
  generated \<^verbatim>\<open>bpf_x86_bpfel.go\<close>. The library \<^verbatim>\<open>github.com/cilium/ebpf\<close> and the kernel behind it are the
  argument \<open>env\<close>: the result of each call the code makes. A loader keeps the contents of the maps it
  has loaded, the handles of the hook and the reader, the two \<^verbatim>\<open>sync.Once\<close> flags, and (to state what
  is released) the list of the objects whose \<^verbatim>\<open>Close\<close> was called, oldest first. The locale \<open>codec\<close> states
  what it means that both sides of the kernel boundary agree on a memory image.
\<close>

section \<open>bpf\_x86\_bpfel.go\<close>

definition HostLayout :: cty where
  "HostLayout = CStruct ''HostLayout'' False []"

definition bpfDeviceKey :: cty where
  "bpfDeviceKey = CStruct ''bpfDeviceKey'' False
     [Field ''_'' HostLayout, Field ''Major'' c__u32, Field ''Minor'' c__u32]"

definition bpfIoctlKey :: cty where
  "bpfIoctlKey = CStruct ''bpfIoctlKey'' False
     [Field ''_'' HostLayout, Field ''VendorId'' c__u32, Field ''Nr'' c__u32]"

definition bpfEvent :: cty where
  "bpfEvent = CStruct ''bpfEvent'' False
     [Field ''_'' HostLayout,
      Field ''Timestamp'' c__u64,
      Field ''CgroupId'' c__u64,
      Field ''Tgid'' c__u32,
      Field ''Cmd'' c__u32,
      Field ''Minor'' c__u32,
      Field ''Major'' c__u16,
      Field ''Kind'' c__u8,
      Field ''Pad'' (CArr 1 c__u8)]"

text \<open>The objects with a \<^verbatim>\<open>Close\<close> method.\<close>

datatype closer = RingbufReader | HookLink | BpfObject string

text \<open>\<^verbatim>\<open>_BpfClose\<close> stops at the first error: the closers it called, and that error.\<close>

fun BpfClose :: "(closer \<Rightarrow> goerr option) \<Rightarrow> closer list \<Rightarrow> closer list \<times> goerr option" where
  "BpfClose close [] = ([], None)"
| "BpfClose close (c # cs) =
     (case close c of
        Some err \<Rightarrow> ([c], Some err)
      | None \<Rightarrow> (let (called, err) = BpfClose close cs in (c # called, err)))"

definition bpfPrograms_Close :: "(closer \<Rightarrow> goerr option) \<Rightarrow> closer list \<times> goerr option" where
  "bpfPrograms_Close close = BpfClose close [BpfObject ''kubenpu_ioctl'']"

definition bpfMaps_Close :: "(closer \<Rightarrow> goerr option) \<Rightarrow> closer list \<times> goerr option" where
  "bpfMaps_Close close =
     BpfClose close [BpfObject ''devices'', BpfObject ''dropped'', BpfObject ''events'', BpfObject ''ioctls'']"

definition bpfObjects_Close :: "(closer \<Rightarrow> goerr option) \<Rightarrow> closer list \<times> goerr option" where
  "bpfObjects_Close close =
     (let (called, err) = bpfPrograms_Close close
      in case err of
           Some e \<Rightarrow> (called, Some e)
         | None \<Rightarrow> (let (called', err') = bpfMaps_Close close in (called @ called', err')))"

section \<open>The eBPF library and the kernel\<close>

text \<open>\<open>None\<close> is success of a call that returns only an error. \<^verbatim>\<open>errors.As(err, &verifierErr)\<close> is
  \<open>as_VerifierError\<close>. \<open>LoadAndAssign\<close> gets the debug flag, which selects the collection options.\<close>

record ebpf_env =
  os_Stat_cgroup_controllers :: "goerr option"
  btf_LoadKernelSpec :: "goerr option"
  HaveProgramType_Tracing :: "goerr option"
  HaveMapType_RingBuf :: "goerr option"
  HaveProgramHelper_KtimeGetTaiNs :: "goerr option"
  RemoveMemlock :: "goerr option"
  LoadCollectionSpec :: "goerr option"
  LoadAndAssign :: "bool \<Rightarrow> goerr option"
  as_VerifierError :: "goerr \<Rightarrow> goerr option"
  Devices_Put :: "(device_key \<rightharpoonup> u32) \<Rightarrow> device_key \<Rightarrow> u32 \<Rightarrow> goerr + (device_key \<rightharpoonup> u32)"
  Ioctls_Put :: "(ioctl_key \<rightharpoonup> u8) \<Rightarrow> ioctl_key \<Rightarrow> u8 \<Rightarrow> goerr + (ioctl_key \<rightharpoonup> u8)"
  Dropped_Lookup :: "(nat \<Rightarrow> u64 list) \<Rightarrow> u32 \<Rightarrow> goerr + u64 list"
  AttachTracing :: "goerr + nat"
  NewReader :: "goerr + nat"
  Close_of :: "closer \<Rightarrow> goerr option"

definition ebpf_ErrNotSupported :: goerr where "ebpf_ErrNotSupported = Sentinel ''not supported''"
definition ringbuf_ErrClosed :: goerr where "ringbuf_ErrClosed = Sentinel ''file already closed''"

section \<open>features.go\<close>

definition isCgroupV2 :: "ebpf_env \<Rightarrow> bool" where
  "isCgroupV2 env \<longleftrightarrow> os_Stat_cgroup_controllers env = None"

text \<open>The three feature probes differ in their messages only.\<close>

definition feature_error :: "string \<Rightarrow> string \<Rightarrow> goerr \<Rightarrow> goerr" where
  "feature_error unsupported failed err =
     (if errors_Is err ebpf_ErrNotSupported then ErrorString unsupported else WrapError failed err)"

definition CheckKernel :: "ebpf_env \<Rightarrow> goerr option" where
  "CheckKernel env =
     (if \<not> isCgroupV2 env then Some (ErrorString ''cgroup v2 required'')
      else case btf_LoadKernelSpec env of
        Some err \<Rightarrow>
          Some (WrapError ''kernel BTF is not available; required for CO-RE and fentry: %w'' err)
      | None \<Rightarrow>
        (case HaveProgramType_Tracing env of
           Some err \<Rightarrow>
             Some (feature_error ''fentry is not supported; required kernel version: 5.5+''
               ''failed to check kernel support for fentry: %w'' err)
         | None \<Rightarrow>
           (case HaveMapType_RingBuf env of
              Some err \<Rightarrow>
                Some (feature_error ''ring buffer is not supported; required kernel version: 5.8+''
                  ''failed to check kernel support for ring buffer: %w'' err)
            | None \<Rightarrow>
              (case HaveProgramHelper_KtimeGetTaiNs env of
                 Some err \<Rightarrow>
                   Some (feature_error
                     ''bpf_ktime_get_tai_ns is not supported; required kernel version: 6.1+''
                     ''failed to check kernel support for bpf_ktime_get_tai_ns: %w'' err)
               | None \<Rightarrow> None))))"

section \<open>loader.go\<close>

record Loader =
  bpfObjects :: bpf_state
  hook :: "nat option"
  rb :: "nat option"
  closeOnce :: bool
  closeReaderOnce :: bool
  close_calls :: "closer list"

record Event =
  Timestamp :: u64
  CgroupID :: u64
  TGID :: u32
  Cmd :: u32
  Event_Minor :: u32
  Event_Major :: u16
  Event_Kind :: u8

definition loadBpf :: "ebpf_env \<Rightarrow> goerr option" where
  "loadBpf env =
     (case LoadCollectionSpec env of Some err \<Rightarrow> Some (WrapError ''can't load bpf: %w'' err) | None \<Rightarrow> None)"

definition loadBpfObjects :: "ebpf_env \<Rightarrow> bool \<Rightarrow> goerr option" where
  "loadBpfObjects env debug =
     (case loadBpf env of Some err \<Rightarrow> Some err | None \<Rightarrow> LoadAndAssign env debug)"

definition NewLoader :: "ebpf_env \<Rightarrow> bool \<Rightarrow> goerr + Loader" where
  "NewLoader env debug =
     (case CheckKernel env of
        Some err \<Rightarrow> Inl err
      | None \<Rightarrow>
        (case RemoveMemlock env of
           Some err \<Rightarrow> Inl (WrapError ''failed to remove memlock rlimit: %w'' err)
         | None \<Rightarrow>
           (case loadBpfObjects env debug of
              Some err \<Rightarrow>
                (case as_VerifierError env err of
                   Some verifierErr \<Rightarrow> Inl verifierErr
                 | None \<Rightarrow> Inl (WrapError ''failed to load bpf objects: %w'' err))
            | None \<Rightarrow>
                Inr \<lparr>bpfObjects = bpf_init, hook = None, rb = None, closeOnce = False,
                     closeReaderOnce = False, close_calls = []\<rparr>)))"

definition AddDevice :: "ebpf_env \<Rightarrow> u32 \<Rightarrow> u32 \<Rightarrow> u32 \<Rightarrow> Loader \<Rightarrow> goerr + Loader" where
  "AddDevice env major minor vendorID l =
     (let key = \<lparr>dk_major = major, dk_minor = minor\<rparr>
      in case Devices_Put env (devices (bpfObjects l)) key vendorID of
           Inl err \<Rightarrow> Inl (WrapError ''failed to add device: %w'' err)
         | Inr m \<Rightarrow> Inr (l\<lparr>bpfObjects := (bpfObjects l)\<lparr>devices := m\<rparr>\<rparr>))"

definition AddIoctl :: "ebpf_env \<Rightarrow> u32 \<Rightarrow> u32 \<Rightarrow> u8 \<Rightarrow> Loader \<Rightarrow> goerr + Loader" where
  "AddIoctl env vendorID nr kind l =
     (let key = \<lparr>ik_vendor_id = vendorID, ik_nr = nr\<rparr>
      in case Ioctls_Put env (ioctls (bpfObjects l)) key kind of
           Inl err \<Rightarrow> Inl (WrapError ''failed to add ioctl: %w'' err)
         | Inr m \<Rightarrow> Inr (l\<lparr>bpfObjects := (bpfObjects l)\<lparr>ioctls := m\<rparr>\<rparr>))"

definition Attach :: "ebpf_env \<Rightarrow> Loader \<Rightarrow> goerr option \<times> Loader" where
  "Attach env l =
     (let attach = (\<lambda>l. case AttachTracing env of
            Inl err \<Rightarrow> (Some (WrapError ''failed to attach kubenpu_ioctl: %w'' err), l)
          | Inr h \<Rightarrow> (None, l\<lparr>hook := Some h\<rparr>))
      in case hook l of
           None \<Rightarrow> attach l
         | Some _ \<Rightarrow>
             (let l' = l\<lparr>close_calls := close_calls l @ [HookLink]\<rparr>
              in case Close_of env HookLink of
                   Some err \<Rightarrow> (Some (WrapError ''failed to close previous hook: %w'' err), l')
                 | None \<Rightarrow> attach (l'\<lparr>hook := None\<rparr>)))"

definition CreateReader :: "ebpf_env \<Rightarrow> Loader \<Rightarrow> goerr option \<times> Loader" where
  "CreateReader env l =
     (case NewReader env of
        Inl err \<Rightarrow> (Some (WrapError ''failed to create ring buffer reader: %w'' err), l)
      | Inr r \<Rightarrow> (None, l\<lparr>rb := Some r\<rparr>))"

text \<open>A member of the raw sample through the \<^verbatim>\<open>*bpfEvent\<close> pointer.\<close>

definition member_of :: "cty \<Rightarrow> string \<Rightarrow> u8 list \<Rightarrow> 'a::len word" where
  "member_of ty f raw =
     (case offset_bits ty f of
        Some (bits, t) \<Rightarrow> from_le (take (sizeof t) (drop (bits div 8) raw))
      | None \<Rightarrow> 0)"

definition raw_member :: "string \<Rightarrow> u8 list \<Rightarrow> 'a::len word" where
  "raw_member f raw = member_of bpfEvent f raw"

text \<open>\<open>read\<close> is the result of \<^verbatim>\<open>l.rb.Read()\<close>, a record's \<^verbatim>\<open>RawSample\<close> on success.\<close>

definition ReadEvent :: "goerr + u8 list \<Rightarrow> goerr + Event" where
  "ReadEvent read =
     (case read of
        Inl err \<Rightarrow>
          if errors_Is err ringbuf_ErrClosed then Inl err
          else Inl (WrapError ''failed to read ring buffer: %w'' err)
      | Inr raw \<Rightarrow>
          if length raw < sizeof bpfEvent
          then Inl (ErrorString ''invalid event size: got %d bytes, want at least %d'')
          else Inr \<lparr>Timestamp = raw_member ''Timestamp'' raw,
                    CgroupID = raw_member ''CgroupId'' raw,
                    TGID = raw_member ''Tgid'' raw,
                    Cmd = raw_member ''Cmd'' raw,
                    Event_Minor = raw_member ''Minor'' raw,
                    Event_Major = raw_member ''Major'' raw,
                    Event_Kind = raw_member ''Kind'' raw\<rparr>)"

definition CloseReader :: "ebpf_env \<Rightarrow> Loader \<Rightarrow> goerr option \<times> Loader" where
  "CloseReader env l =
     (if closeReaderOnce l then (None, l)
      else
        (let l = l\<lparr>closeReaderOnce := True\<rparr>
         in case rb l of
              None \<Rightarrow> (None, l)
            | Some _ \<Rightarrow>
                (map_option (WrapError ''failed to close ring buffer reader: %w'')
                   (Close_of env RingbufReader),
                 l\<lparr>close_calls := close_calls l @ [RingbufReader]\<rparr>)))"

definition Close :: "ebpf_env \<Rightarrow> Loader \<Rightarrow> goerr option \<times> Loader" where
  "Close env l =
     (if closeOnce l then (errors_Join [], l)
      else
        (let (err, l) = CloseReader env l;
             errs = (case err of Some e \<Rightarrow> [e] | None \<Rightarrow> []);
             (errs, l) =
               (case hook l of
                  None \<Rightarrow> (errs, l)
                | Some _ \<Rightarrow>
                    (case Close_of env HookLink of
                       Some e \<Rightarrow> errs @ [WrapError ''failed to close hook: %w'' e]
                     | None \<Rightarrow> errs,
                     l\<lparr>close_calls := close_calls l @ [HookLink]\<rparr>));
             (called, err) = bpfObjects_Close (Close_of env);
             l = l\<lparr>close_calls := close_calls l @ called\<rparr>;
             errs = (case err of
                       Some e \<Rightarrow> errs @ [WrapError ''failed to close bpf objects: %w'' e]
                     | None \<Rightarrow> errs)
         in (errors_Join errs, l\<lparr>closeOnce := True\<rparr>)))"

definition DroppedEvents :: "ebpf_env \<Rightarrow> Loader \<Rightarrow> goerr + u64" where
  "DroppedEvents env l =
     (case Dropped_Lookup env (dropped (bpfObjects l)) 0 of
        Inl err \<Rightarrow> Inl (WrapError ''read dropped counter: %w'' err)
      | Inr perCPU \<Rightarrow> Inr (fold (\<lambda>v total. total + v) perCPU 0))"

section \<open>Layout of the Go types\<close>

lemma HostLayout_layout [layout_simps]: "sizeof HostLayout = 0" "alignof HostLayout = 1"
  by (simp_all add: HostLayout_def layout_eval layout_simps)

lemma bpfEvent_sizeof [layout_simps]: "sizeof bpfEvent = 32"
  by (simp add: bpfEvent_def layout_eval layout_simps del: One_nat_def)

lemma bpfEvent_offsets:
  "offset_bits bpfEvent ''Timestamp'' = Some (8 * 0, c__u64)"
  "offset_bits bpfEvent ''CgroupId'' = Some (8 * 8, c__u64)"
  "offset_bits bpfEvent ''Tgid'' = Some (8 * 16, c__u32)"
  "offset_bits bpfEvent ''Cmd'' = Some (8 * 20, c__u32)"
  "offset_bits bpfEvent ''Minor'' = Some (8 * 24, c__u32)"
  "offset_bits bpfEvent ''Major'' = Some (8 * 28, c__u16)"
  "offset_bits bpfEvent ''Kind'' = Some (8 * 30, c__u8)"
  "offset_bits bpfEvent ''Pad'' = Some (8 * 31, CArr 1 c__u8)"
  by (simp_all add: bpfEvent_def layout_eval layout_simps del: One_nat_def)

lemma bpf_key_layout:
  "sizeof bpfDeviceKey = 8" "sizeof bpfIoctlKey = 8"
  "offset_bits bpfDeviceKey ''Major'' = Some (8 * 0, c__u32)"
  "offset_bits bpfDeviceKey ''Minor'' = Some (8 * 4, c__u32)"
  "offset_bits bpfIoctlKey ''VendorId'' = Some (8 * 0, c__u32)"
  "offset_bits bpfIoctlKey ''Nr'' = Some (8 * 4, c__u32)"
  by (simp_all add: bpfDeviceKey_def bpfIoctlKey_def layout_eval layout_simps del: One_nat_def)

lemma struct_event_bits:
  "offset_bits struct_event ''timestamp'' = Some (8 * 0, c__u64)"
  "offset_bits struct_event ''cgroup_id'' = Some (8 * 8, c__u64)"
  "offset_bits struct_event ''tgid'' = Some (8 * 16, c__u32)"
  "offset_bits struct_event ''cmd'' = Some (8 * 20, c__u32)"
  "offset_bits struct_event ''minor'' = Some (8 * 24, c__u32)"
  "offset_bits struct_event ''major'' = Some (8 * 28, c__u16)"
  "offset_bits struct_event ''kind'' = Some (8 * 30, c__u8)"
  "offset_bits struct_event ''_pad'' = Some (8 * 31, CArr 1 c__u8)"
  by (simp_all add: struct_event_def layout_eval layout_simps del: One_nat_def)

lemma struct_key_bits:
  "offset_bits struct_device_key ''major'' = Some (8 * 0, c__u32)"
  "offset_bits struct_device_key ''minor'' = Some (8 * 4, c__u32)"
  "offset_bits struct_ioctl_key ''vendor_id'' = Some (8 * 0, c__u32)"
  "offset_bits struct_ioctl_key ''nr'' = Some (8 * 4, c__u32)"
  by (simp_all add: struct_device_key_def struct_ioctl_key_def layout_eval layout_simps del: One_nat_def)

section \<open>Memory images across the kernel boundary\<close>

text \<open>One side writes \<open>enc x\<close>, the other reads \<open>view x\<close> from it; trailing bytes do not matter, a short
  buffer is refused.\<close>

locale codec =
  fixes enc :: "'a \<Rightarrow> u8 list"
    and dec :: "u8 list \<Rightarrow> 'b option"
    and view :: "'a \<Rightarrow> 'b"
    and size :: nat
  assumes enc_length: "length (enc x) = size"
    and dec_enc: "dec (enc x @ rest) = Some (view x)"
    and dec_short: "length raw < size \<Longrightarrow> dec raw = None"
begin

lemma dec_exact: "dec (enc x) = Some (view x)"
  using dec_enc [of x "[]"] by simp

lemma enc_determines_view: "enc x = enc y \<Longrightarrow> view x = view y"
  by (metis dec_exact option.inject)

lemma inj_enc: "inj view \<Longrightarrow> inj enc"
  by (meson enc_determines_view injD injI)

text \<open>A stream of samples is read back in order.\<close>

lemma dec_stream: "map dec (map enc xs) = map (Some \<circ> view) xs"
  by (simp add: dec_exact)

end

definition device_key_bytes :: "device_key \<Rightarrow> u8 list" where
  "device_key_bytes k = to_le 4 (dk_major k) @ to_le 4 (dk_minor k)"

definition ioctl_key_bytes :: "ioctl_key \<Rightarrow> u8 list" where
  "ioctl_key_bytes k = to_le 4 (ik_vendor_id k) @ to_le 4 (ik_nr k)"

definition read_device_key :: "u8 list \<Rightarrow> device_key option" where
  "read_device_key raw =
     (if length raw < sizeof bpfDeviceKey then None
      else Some \<lparr>dk_major = member_of bpfDeviceKey ''Major'' raw, dk_minor = member_of bpfDeviceKey ''Minor'' raw\<rparr>)"

definition read_ioctl_key :: "u8 list \<Rightarrow> ioctl_key option" where
  "read_ioctl_key raw =
     (if length raw < sizeof bpfIoctlKey then None
      else Some \<lparr>ik_vendor_id = member_of bpfIoctlKey ''VendorId'' raw, ik_nr = member_of bpfIoctlKey ''Nr'' raw\<rparr>)"

definition read_sample :: "u8 list \<Rightarrow> Event option" where
  "read_sample raw = (case ReadEvent (Inr raw) of Inr e \<Rightarrow> Some e | Inl _ \<Rightarrow> None)"

definition event_view :: "event \<Rightarrow> Event" where
  "event_view e = \<lparr>Timestamp = ev_timestamp e, CgroupID = ev_cgroup_id e, TGID = ev_tgid e,
     Cmd = ev_cmd e, Event_Minor = ev_minor e, Event_Major = ev_major e, Event_Kind = ev_kind e\<rparr>"

lemma c_int_sizes [layout_simps]: "sizeof c__u64 = 8" "sizeof c__u32 = 4" "sizeof c__u16 = 2" "sizeof c__u8 = 1"
  by (simp_all add: layout_eval layout_simps)

lemma ReadEvent_event_bytes: "ReadEvent (Inr (event_bytes e @ rest)) = Inr (event_view e)"
  by (simp add: ReadEvent_def raw_member_def member_of_def bpfEvent_offsets layout_simps event_bytes_def
      event_view_def del: to_le.simps)

lemma ReadEvent_error_iff:
  "(\<exists>e. ReadEvent (Inr raw) = Inr e) \<longleftrightarrow> 32 \<le> length raw"
  by (simp add: ReadEvent_def layout_simps)

interpretation event_codec: codec event_bytes read_sample event_view 32
  by unfold_locales (simp_all add: read_sample_def ReadEvent_event_bytes, simp add: ReadEvent_def layout_simps)

interpretation device_key_codec: codec device_key_bytes read_device_key id 8
  by unfold_locales
    (simp_all add: device_key_bytes_def read_device_key_def member_of_def bpf_key_layout layout_simps
      del: to_le.simps)

interpretation ioctl_key_codec: codec ioctl_key_bytes read_ioctl_key id 8
  by unfold_locales
    (simp_all add: ioctl_key_bytes_def read_ioctl_key_def member_of_def bpf_key_layout layout_simps
      del: to_le.simps)

section \<open>Closing\<close>

lemma BpfClose_prefix: "\<exists>rest. cs = fst (BpfClose close cs) @ rest"
  by (induction cs) (auto split: option.splits prod.splits)

lemma BpfClose_None_iff: "snd (BpfClose close cs) = None \<longleftrightarrow> (\<forall>c \<in> set cs. close c = None)"
  by (induction cs) (auto split: option.splits prod.splits)

lemma BpfClose_error_iff:
  "snd (BpfClose close cs) = None \<longleftrightarrow> (\<forall>c \<in> set (fst (BpfClose close cs)). close c = None)"
  by (induction cs) (auto split: option.splits prod.splits)

lemma BpfClose_all: "snd (BpfClose close cs) = None \<Longrightarrow> fst (BpfClose close cs) = cs"
  by (induction cs) (auto split: option.splits prod.splits)

definition bpf_closers :: "closer list" where
  "bpf_closers = [BpfObject ''kubenpu_ioctl'', BpfObject ''devices'', BpfObject ''dropped'',
     BpfObject ''events'', BpfObject ''ioctls'']"

lemma bpfObjects_Close_eq: "bpfObjects_Close close = BpfClose close bpf_closers"
  by (auto simp: bpfObjects_Close_def bpfPrograms_Close_def bpfMaps_Close_def bpf_closers_def Let_def
      split: option.splits prod.splits)

definition reader_calls :: "Loader \<Rightarrow> closer list" where
  "reader_calls l = (if closeReaderOnce l \<or> rb l = None then [] else [RingbufReader])"

definition hook_calls :: "Loader \<Rightarrow> closer list" where
  "hook_calls l = (if hook l = None then [] else [HookLink])"

lemma CloseReader_eq:
  "CloseReader env l =
     (if reader_calls l = [] then None
      else map_option (WrapError ''failed to close ring buffer reader: %w'') (Close_of env RingbufReader),
      l\<lparr>closeReaderOnce := True, close_calls := close_calls l @ reader_calls l\<rparr>)"
  by (cases "rb l") (simp_all add: CloseReader_def reader_calls_def)

lemma errors_Join_None_iff [simp]: "errors_Join es = None \<longleftrightarrow> es = []"
  by (simp add: errors_Join_def)

lemma Close_eq:
  fixes env :: ebpf_env
  assumes "\<not> closeOnce l"
  defines "called \<equiv> reader_calls l @ hook_calls l @ fst (BpfClose (Close_of env) bpf_closers)"
  shows "snd (Close env l) =
      l\<lparr>closeOnce := True, closeReaderOnce := True, close_calls := close_calls l @ called\<rparr>"
    and "fst (Close env l) = None \<longleftrightarrow> (\<forall>c \<in> set called. Close_of env c = None)"
proof -
  show "snd (Close env l) =
      l\<lparr>closeOnce := True, closeReaderOnce := True, close_calls := close_calls l @ called\<rparr>"
    using assms by (cases "hook l") (auto simp: Close_def CloseReader_eq bpfObjects_Close_eq hook_calls_def
        Let_def split: prod.split option.split)
  have o: "snd (BpfClose (Close_of env) bpf_closers) = None \<longleftrightarrow>
      (\<forall>c \<in> set (fst (BpfClose (Close_of env) bpf_closers)). Close_of env c = None)"
    by (rule BpfClose_error_iff)
  show "fst (Close env l) = None \<longleftrightarrow> (\<forall>c \<in> set called. Close_of env c = None)"
    using assms(1) o
    by (cases "hook l"; cases "Close_of env HookLink"; cases "reader_calls l";
        cases "Close_of env RingbufReader")
      (auto simp: Close_def CloseReader_eq bpfObjects_Close_eq hook_calls_def called_def Let_def
        reader_calls_def errors_Join_def split: prod.splits option.splits if_splits)
qed

section \<open>Map updates\<close>

text \<open>What the kernel documents of updating a \<^verbatim>\<open>BPF_MAP_TYPE_HASH\<close> map with \<open>max_entries\<close> entries: a
  successful update sets the key, and it succeeds when the key is present or there is room.\<close>

definition hash_put_ok :: "nat \<Rightarrow> (('k \<rightharpoonup> 'v) \<Rightarrow> 'k \<Rightarrow> 'v \<Rightarrow> goerr + ('k \<rightharpoonup> 'v)) \<Rightarrow> bool" where
  "hash_put_ok max_entries put \<longleftrightarrow>
     (\<forall>m k v m'. put m k v = Inr m' \<longrightarrow> m' = m(k \<mapsto> v)) \<and>
     (\<forall>m k v. finite (dom m) \<and> (k \<in> dom m \<or> card (dom m) < max_entries) \<longrightarrow> (\<exists>m'. put m k v = Inr m'))"

text \<open>What it documents of looking a per-CPU array up: one value per possible CPU.\<close>

definition percpu_lookup_ok :: "nat \<Rightarrow> ((nat \<Rightarrow> u64 list) \<Rightarrow> u32 \<Rightarrow> goerr + u64 list) \<Rightarrow> bool" where
  "percpu_lookup_ok ncpu lookup \<longleftrightarrow>
     (\<forall>arr key. (\<forall>cpu < ncpu. unat key < length (arr cpu)) \<longrightarrow>
        lookup arr key = Inr (map (\<lambda>cpu. arr cpu ! unat key) [0..<ncpu]))"

lemma AddDevice_spec:
  assumes "hash_put_ok MAX_ENTRIES_DEVICES (Devices_Put env)"
    and "AddDevice env major minor vendorID l = Inr l'"
  shows "l' = l\<lparr>bpfObjects := (bpfObjects l)\<lparr>devices :=
    (devices (bpfObjects l))(\<lparr>dk_major = major, dk_minor = minor\<rparr> \<mapsto> vendorID)\<rparr>\<rparr>"
  using assms by (auto simp: AddDevice_def hash_put_ok_def Let_def split: sum.splits)

lemma AddIoctl_spec:
  assumes "hash_put_ok MAX_ENTRIES_IOCTLS (Ioctls_Put env)"
    and "AddIoctl env vendorID nr kind l = Inr l'"
  shows "l' = l\<lparr>bpfObjects := (bpfObjects l)\<lparr>ioctls :=
    (ioctls (bpfObjects l))(\<lparr>ik_vendor_id = vendorID, ik_nr = nr\<rparr> \<mapsto> kind)\<rparr>\<rparr>"
  using assms by (auto simp: AddIoctl_def hash_put_ok_def Let_def split: sum.splits)

lemma fold_add_sum_list: "fold (\<lambda>v total. total + v) xs a = a + sum_list (xs :: u64 list)"
  by (induction xs arbitrary: a) (simp_all add: ac_simps)

lemma DroppedEvents_total:
  assumes "percpu_lookup_ok ncpu (Dropped_Lookup env)" and "bpf_wf (bpfObjects l)"
  shows "DroppedEvents env l = Inr (total_dropped ncpu (bpfObjects l))"
proof -
  have "Dropped_Lookup env (dropped (bpfObjects l)) 0 =
      Inr (map (\<lambda>cpu. dropped (bpfObjects l) cpu ! unat (0 :: u32)) [0..<ncpu])"
    using assms unfolding percpu_lookup_ok_def bpf_wf_def by simp
  then show ?thesis
    by (simp add: DroppedEvents_def fold_add_sum_list total_dropped_def)
qed

section \<open>The requirements of a loader\<close>

text \<open>What the checks ask the kernel, in the order in which it is asked, and the error that a
  failure becomes.\<close>

record requirement =
  req_result :: "goerr option"
  req_error :: "goerr \<Rightarrow> goerr"

definition load_error :: "ebpf_env \<Rightarrow> goerr \<Rightarrow> goerr" where
  "load_error env err =
     (case as_VerifierError env err of
        Some verifierErr \<Rightarrow> verifierErr | None \<Rightarrow> WrapError ''failed to load bpf objects: %w'' err)"

definition loader_requirements :: "ebpf_env \<Rightarrow> bool \<Rightarrow> requirement list" where
  "loader_requirements env debug =
     [\<lparr>req_result = os_Stat_cgroup_controllers env, req_error = (\<lambda>_. ErrorString ''cgroup v2 required'')\<rparr>,
      \<lparr>req_result = btf_LoadKernelSpec env,
       req_error = WrapError ''kernel BTF is not available; required for CO-RE and fentry: %w''\<rparr>,
      \<lparr>req_result = HaveProgramType_Tracing env,
       req_error = feature_error ''fentry is not supported; required kernel version: 5.5+''
         ''failed to check kernel support for fentry: %w''\<rparr>,
      \<lparr>req_result = HaveMapType_RingBuf env,
       req_error = feature_error ''ring buffer is not supported; required kernel version: 5.8+''
         ''failed to check kernel support for ring buffer: %w''\<rparr>,
      \<lparr>req_result = HaveProgramHelper_KtimeGetTaiNs env,
       req_error = feature_error ''bpf_ktime_get_tai_ns is not supported; required kernel version: 6.1+''
         ''failed to check kernel support for bpf_ktime_get_tai_ns: %w''\<rparr>,
      \<lparr>req_result = RemoveMemlock env, req_error = WrapError ''failed to remove memlock rlimit: %w''\<rparr>,
      \<lparr>req_result = LoadCollectionSpec env, req_error = (\<lambda>e. load_error env (WrapError ''can't load bpf: %w'' e))\<rparr>,
      \<lparr>req_result = LoadAndAssign env debug, req_error = load_error env\<rparr>]"

fun first_failure :: "requirement list \<Rightarrow> goerr option" where
  "first_failure [] = None"
| "first_failure (r # rs) =
     (case req_result r of Some e \<Rightarrow> Some (req_error r e) | None \<Rightarrow> first_failure rs)"

lemma first_failure_None: "first_failure rs = None \<longleftrightarrow> (\<forall>r \<in> set rs. req_result r = None)"
  by (induction rs) (auto split: option.split)

lemma first_failure_Some:
  "first_failure rs = Some err \<longleftrightarrow>
     (\<exists>i < length rs. (\<forall>j < i. req_result (rs ! j) = None) \<and>
        (\<exists>e. req_result (rs ! i) = Some e \<and> err = req_error (rs ! i) e))"
proof (induction rs)
  case (Cons r rs)
  show ?case
  proof (cases "req_result r")
    case None
    then show ?thesis by (simp add: Cons.IH Ex_less_Suc2 All_less_Suc2)
  next
    case (Some e)
    then show ?thesis by (auto simp: Ex_less_Suc2 All_less_Suc2)
  qed
qed simp

lemma NewLoader_first_failure:
  "NewLoader env debug = (case first_failure (loader_requirements env debug) of
     Some err \<Rightarrow> Inl err
   | None \<Rightarrow> Inr \<lparr>bpfObjects = bpf_init, hook = None, rb = None, closeOnce = False, closeReaderOnce = False,
       close_calls = []\<rparr>)"
  by (simp add: NewLoader_def CheckKernel_def isCgroupV2_def loadBpfObjects_def loadBpf_def loader_requirements_def
      load_error_def split: option.split)

section \<open>Properties\<close>

text \<open>The structs of \<^verbatim>\<open>common.h\<close> and the Go types user space accesses them through have the same size
  and the same member offsets and widths, so the cast of a raw sample in \<^verbatim>\<open>ReadEvent\<close> and the keys passed
  to \<^verbatim>\<open>Put\<close> mean the same on both sides.\<close>

lemma bpf_types_agree:
  "sizeof bpfEvent = sizeof struct_event \<and> sizeof bpfDeviceKey = sizeof struct_device_key \<and>
   sizeof bpfIoctlKey = sizeof struct_ioctl_key \<and>
   map (offset_bits struct_event)
     [''timestamp'', ''cgroup_id'', ''tgid'', ''cmd'', ''minor'', ''major'', ''kind'', ''_pad''] =
   map (offset_bits bpfEvent)
     [''Timestamp'', ''CgroupId'', ''Tgid'', ''Cmd'', ''Minor'', ''Major'', ''Kind'', ''Pad''] \<and>
   map (offset_bits struct_device_key) [''major'', ''minor''] =
   map (offset_bits bpfDeviceKey) [''Major'', ''Minor''] \<and>
   map (offset_bits struct_ioctl_key) [''vendor_id'', ''nr''] =
   map (offset_bits bpfIoctlKey) [''VendorId'', ''Nr'']"
  by (simp add: layout_simps bpfEvent_offsets struct_event_bits bpf_key_layout struct_key_bits)

text \<open>C15: What the probe submits is what \<^verbatim>\<open>ReadEvent\<close> returns: reading the sample of a reported call gives
  back the helper values, the whole command word, the kind of the table, and the device number of the
  inode without loss, although the major number crosses the boundary in 16 bits.\<close>

theorem probe_read_roundtrip:
  assumes "reserve_sized env"
    and "probe_kind st (probe_rdev relo env filp) cmd = Some kind"
    and "ringbuf_reserve env (events st) 32 = Some buf"
  shows "\<exists>raw ev. snd (kubenpu_ioctl relo env filp cmd arg st) = st\<lparr>events := events st @ [raw]\<rparr> \<and>
    ReadEvent (Inr raw) = Inr ev \<and>
    Timestamp ev = ktime_get_tai_ns env \<and> CgroupID ev = current_cgroup_id env \<and>
    unat (TGID ev) = unat (current_pid_tgid env) div 2 ^ 32 \<and> Cmd ev = cmd \<and> Event_Kind ev = kind \<and>
    push_bit 20 (ucast (Event_Major ev)) OR Event_Minor ev = probe_rdev relo env filp"
proof -
  let ?e = "probe_event env (probe_rdev relo env filp) cmd kind"
  have "length buf = 32" using assms(1,3) by (auto simp: reserve_sized_def)
  with assms have k: "snd (kubenpu_ioctl relo env filp cmd arg st) = st\<lparr>events := events st @ [event_bytes ?e]\<rparr>"
    by (simp add: kubenpu_ioctl_cases fill_event_bytes probe_event_def)
  have r: "ReadEvent (Inr (event_bytes ?e)) = Inr (event_view ?e)"
    using ReadEvent_event_bytes [of ?e "[]"] by simp
  have m: "push_bit 20 (ucast (Event_Major (event_view ?e))) OR Event_Minor (event_view ?e) = probe_rdev relo env filp"
    by (simp add: event_view_def probe_event_def dev_major_u16 dev_number_split)
  have t: "unat (TGID (event_view ?e)) = unat (current_pid_tgid env) div 2 ^ 32"
  proof -
    have "unat (drop_bit 32 (current_pid_tgid env)) = unat (current_pid_tgid env) div 2 ^ 32"
      unfolding unat_drop_bit_eq by (simp add: drop_bit_eq_div)
    moreover have "unat (current_pid_tgid env) < 2 ^ 32 * 2 ^ 32"
      using unsigned_less [of "current_pid_tgid env"] by simp
    then have "unat (current_pid_tgid env) div 2 ^ 32 < 2 ^ 32"
      by (rule less_mult_imp_div_less)
    ultimately show ?thesis
      by (simp add: event_view_def probe_event_def unsigned_ucast_eq take_bit_nat_eq_self)
  qed
  have "Timestamp (event_view ?e) = ktime_get_tai_ns env" "CgroupID (event_view ?e) = current_cgroup_id env"
    "Cmd (event_view ?e) = cmd" "Event_Kind (event_view ?e) = kind"
    by (simp_all add: event_view_def probe_event_def)
  with k r m t show ?thesis by blast
qed

theorem probe_read_roundtrip_witness:
  "\<exists>raw ev. snd (kubenpu_ioctl \<lparr>off_f_inode = 32, off_i_rdev = 76\<rparr> sample_env 0x1000 0x40406469 0 sample_state) =
     sample_state\<lparr>events := [raw]\<rparr> \<and> ReadEvent (Inr raw) = Inr ev \<and> Event_Kind ev = KindSubmit \<and>
   push_bit 20 (ucast (Event_Major ev)) OR Event_Minor ev = 0x0E200080"
proof -
  have a: "reserve_sized sample_env"
    by (simp add: reserve_sized_def sample_env_def)
  have b: "probe_kind sample_state (probe_rdev \<lparr>off_f_inode = 32, off_i_rdev = 76\<rparr> sample_env 0x1000)
      0x40406469 = Some KindSubmit"
    by (simp add: probe_kind_def sample_state_def sample_simps)
  have e: "events sample_state = []"
    by (simp add: sample_state_def bpf_init_def)
  have c: "ringbuf_reserve sample_env (events sample_state) 32 = Some (replicate 32 0xAA)"
    by (simp add: e sample_env_def)
  show ?thesis
    using probe_read_roundtrip [OF a b c, of 0] by (auto simp: e sample_rdev)
qed

text \<open>C25: \<^verbatim>\<open>Close\<close> releases everything once. It calls \<^verbatim>\<open>Close\<close> on the reader (unless \<^verbatim>\<open>CloseReader\<close> did), on the
  hook and on the program whatever fails before; it reports an error exactly if one of the calls it made
  failed; if none fails, the four maps are closed too; and a second \<^verbatim>\<open>Close\<close> or \<^verbatim>\<open>CloseReader\<close> calls
  nothing and returns nil.\<close>

theorem Close_releases_once:
  assumes "\<not> closeOnce l"
  shows "\<exists>called rest. close_calls (snd (Close env l)) =
      close_calls l @ reader_calls l @ hook_calls l @ BpfObject ''kubenpu_ioctl'' # called \<and>
    [BpfObject ''devices'', BpfObject ''dropped'', BpfObject ''events'', BpfObject ''ioctls''] = called @ rest \<and>
    (fst (Close env l) = None \<longleftrightarrow>
      (\<forall>c \<in> set (reader_calls l @ hook_calls l @ BpfObject ''kubenpu_ioctl'' # called). Close_of env c = None)) \<and>
    (fst (Close env l) = None \<longrightarrow> rest = []) \<and>
    Close env' (snd (Close env l)) = (None, snd (Close env l)) \<and>
    CloseReader env' (snd (Close env l)) = (None, snd (Close env l))"
proof -
  define c where "c = fst (BpfClose (Close_of env) bpf_closers)"
  obtain rest where rest: "bpf_closers = c @ rest" using BpfClose_prefix unfolding c_def by blast
  have "c \<noteq> []"
    by (simp add: c_def bpf_closers_def split: option.split prod.split)
  then obtain called where c: "c = BpfObject ''kubenpu_ioctl'' # called"
    using rest by (cases c) (simp_all add: bpf_closers_def)
  note eq = Close_eq [OF assms, of env, folded c_def]
  have "rest = []" if "fst (Close env l) = None"
  proof -
    have "snd (BpfClose (Close_of env) bpf_closers) = None"
      using that eq(2) BpfClose_error_iff [of "Close_of env" bpf_closers] by (simp add: c_def)
    with rest show ?thesis using BpfClose_all [of "Close_of env" bpf_closers] by (simp add: c_def)
  qed
  moreover have "[BpfObject ''devices'', BpfObject ''dropped'', BpfObject ''events'', BpfObject ''ioctls''] =
      called @ rest"
    using rest by (simp add: c bpf_closers_def)
  ultimately show ?thesis
    using eq by (intro exI [of _ called] exI [of _ rest]) (simp add: Close_def CloseReader_def c)
qed

definition sample_ebpf :: ebpf_env where
  "sample_ebpf = \<lparr>os_Stat_cgroup_controllers = None, btf_LoadKernelSpec = None,
     HaveProgramType_Tracing = None, HaveMapType_RingBuf = None,
     HaveProgramHelper_KtimeGetTaiNs = None, RemoveMemlock = None, LoadCollectionSpec = None,
     LoadAndAssign = (\<lambda>_. None), as_VerifierError = (\<lambda>_. None),
     Devices_Put = (\<lambda>m k v. if k \<in> dom m \<or> card (dom m) < MAX_ENTRIES_DEVICES then Inr (m(k \<mapsto> v))
                            else Inl (Sentinel ''argument list too long'')),
     Ioctls_Put = (\<lambda>m k v. if k \<in> dom m \<or> card (dom m) < MAX_ENTRIES_IOCTLS then Inr (m(k \<mapsto> v))
                           else Inl (Sentinel ''argument list too long'')),
     Dropped_Lookup = (\<lambda>arr key. Inr (map (\<lambda>cpu. arr cpu ! unat key) [0..<4])),
     AttachTracing = Inr 7, NewReader = Inr 8,
     Close_of = (\<lambda>c. if c = BpfObject ''dropped'' then Some (Sentinel ''bad file descriptor'') else None)\<rparr>"

definition sample_loader :: Loader where
  "sample_loader = \<lparr>bpfObjects = sample_state, hook = Some 7, rb = Some 8, closeOnce = False,
     closeReaderOnce = True, close_calls = [RingbufReader]\<rparr>"

theorem Close_releases_once_witness:
  "fst (Close sample_ebpf sample_loader) \<noteq> None \<and>
   close_calls (snd (Close sample_ebpf sample_loader)) =
     [RingbufReader, HookLink, BpfObject ''kubenpu_ioctl'', BpfObject ''devices'', BpfObject ''dropped''] \<and>
   Close sample_ebpf (snd (Close sample_ebpf sample_loader)) = (None, snd (Close sample_ebpf sample_loader))"
proof -
  have n: "\<not> closeOnce sample_loader" by (simp add: sample_loader_def)
  have "close_calls (snd (Close sample_ebpf sample_loader)) =
     [RingbufReader, HookLink, BpfObject ''kubenpu_ioctl'', BpfObject ''devices'', BpfObject ''dropped'']"
    "fst (Close sample_ebpf sample_loader) \<noteq> None"
    by (simp_all add: Close_def CloseReader_def bpfObjects_Close_def bpfPrograms_Close_def bpfMaps_Close_def
        sample_ebpf_def sample_loader_def)
  with Close_releases_once [OF n, of sample_ebpf sample_ebpf] show ?thesis by blast
qed



text \<open>C26: \<^verbatim>\<open>DroppedEvents\<close> is exact: on a loader whose maps started empty, what it returns after any run of
  the hook is the number of reported calls less the samples in the ring buffer, summed over all CPUs in
  64-bit arithmetic.\<close>

theorem DroppedEvents_exact:
  assumes "percpu_lookup_ok ncpu (Dropped_Lookup env)"
    and "bpf_wf st" "events st = []" "total_dropped ncpu st = 0"
    and "\<forall>c \<in> set calls. call_ok ncpu c"
    and "bpfObjects l = hook_run relo calls st"
  shows "DroppedEvents env l =
    Inr (of_nat (length (filter (reported relo st) calls)) - of_nat (length (events (bpfObjects l))))"
proof -
  have h: "bpf_wf (bpfObjects l)"
    "of_nat (length (events (bpfObjects l))) + total_dropped ncpu (bpfObjects l) =
      (of_nat (length (filter (reported relo st) calls)) :: u64)"
    using hook_run_step [OF assms(2,5), of relo] assms(3,4,6) by simp_all
  then show ?thesis
    using DroppedEvents_total [OF assms(1) h(1)] by (simp add: eq_diff_eq add.commute)
qed

theorem DroppedEvents_exact_witness:
  "DroppedEvents sample_ebpf
     (sample_loader\<lparr>bpfObjects := hook_run \<lparr>off_f_inode = 32, off_i_rdev = 76\<rparr> [sample_call] sample_state\<rparr>) =
   Inr (1 - of_nat (length (events (hook_run \<lparr>off_f_inode = 32, off_i_rdev = 76\<rparr> [sample_call] sample_state))))"
proof -
  let ?relo = "\<lparr>off_f_inode = 32, off_i_rdev = 76\<rparr>"
  have a: "percpu_lookup_ok 4 (Dropped_Lookup sample_ebpf)"
    by (simp add: percpu_lookup_ok_def sample_ebpf_def)
  have b: "bpf_wf sample_state"
    using bpf_wf_init by (simp add: sample_state_def bpf_wf_def)
  have c: "events sample_state = []" "total_dropped 4 sample_state = 0"
    by (simp_all add: sample_state_def bpf_init_def total_dropped_def)
  have d: "\<forall>c \<in> set [sample_call]. call_ok 4 c"
    by (simp add: sample_call_def call_ok_def sample_env_def reserve_sized_def)
  have "reported ?relo sample_state sample_call"
    by (simp add: sample_call_def reported_def probe_kind_def sample_simps sample_state_def)
  then show ?thesis
    using DroppedEvents_exact [OF a b c d, of "sample_loader\<lparr>bpfObjects := hook_run ?relo [sample_call] sample_state\<rparr>" ?relo]
    by simp
qed

end
