(* ===== verification/Cgroup.thy ===== *)
theory Cgroup
  imports GoLib
begin

text \<open>
  \<^verbatim>\<open>pkg/podmap/cgroup.go\<close>: the index from cgroup inode numbers to cgroup paths and the parser that finds
  the pod UID and the container ID in such a path. The file system below the cgroup root is a tree
  argument; the readings of the clock are arguments in nanoseconds. The locale \<open>cgroup_driver\<close> is the
  naming contract of a kubelet cgroup driver; the parser's round trip is proved once in it, and the
  systemd and the cgroupfs driver are its two interpretations.
\<close>

section \<open>Clock\<close>

text \<open>\<^verbatim>\<open>time.Since(t)\<close> with the clock at \<open>now\<close>: a \<^verbatim>\<open>time.Duration\<close>, saturating at the ends of \<^verbatim>\<open>int64\<close>.\<close>

definition time_Since :: "int \<Rightarrow> int \<Rightarrow> int" where
  "time_Since now t = max (- (2 ^ 63)) (min (2 ^ 63 - 1) (now - t))"

section \<open>Parsing cgroup paths\<close>

definition ErrNotPod :: goerr where "ErrNotPod = Sentinel ''cgroup is not a kubernetes pod''"
definition ErrNotIndexed :: goerr where "ErrNotIndexed = Sentinel ''cgroup not found in index''"

record ToIDs =
  PodUID :: string
  ContainerID :: string

text \<open>\<^verbatim>\<open>(uid, true)\<close> is \<open>Some uid\<close>, \<^verbatim>\<open>("", false)\<close> is \<open>None\<close>.\<close>

definition podUIDFromPart :: "string \<Rightarrow> string option" where
  "podUIDFromPart part =
     (if HasPrefix part ''kubepods-'' \<and> HasSuffix part ''.slice'' then
        (let (_, uid, ok) = Cut (TrimSuffix part ''.slice'') ''-pod''
         in if \<not> ok \<or> uid = [] then None else Some (ReplaceAll uid CHR ''_'' CHR ''-''))
      else
        (let (uid, ok) = CutPrefix part ''pod''
         in if ok \<and> uid \<noteq> [] then Some uid else None))"

text \<open>The loop of \<^verbatim>\<open>isHex\<close> is over runes; a rune of more than one byte is no hexadecimal digit, and neither
  is any of its bytes.\<close>

definition hex_digit :: "char \<Rightarrow> bool" where
  "hex_digit c \<longleftrightarrow> \<not> ((of_char c < (48 :: nat) \<or> of_char c > (57 :: nat)) \<and>
                      (of_char c < (97 :: nat) \<or> of_char c > (102 :: nat)))"

definition isHex :: "string \<Rightarrow> bool" where
  "isHex s \<longleftrightarrow> s \<noteq> [] \<and> list_all hex_digit s"

definition containerIDFromPart :: "string \<Rightarrow> goerr + string" where
  "containerIDFromPart part =
     (let id = TrimSuffix part ''.scope'';
          id = (case LastIndex id CHR ''-'' of Some idx \<Rightarrow> drop (idx + 1) id | None \<Rightarrow> id)
      in if \<not> isHex id then Inl (ErrorString ''invalid container cgroup %q'') else Inr id)"

text \<open>The loop of \<^verbatim>\<open>parseCgroupPath\<close> from part \<open>i\<close> on.\<close>

fun parse_parts :: "bool \<Rightarrow> string list \<Rightarrow> goerr + ToIDs" where
  "parse_parts isKubepods [] = Inl (ErrorString ''pod UID not found in %q'')"
| "parse_parts isKubepods (part # rest) =
     (if \<not> isKubepods \<and> \<not> HasPrefix part ''kubepods'' then parse_parts isKubepods rest
      else (case podUIDFromPart part of
              None \<Rightarrow> parse_parts True rest
            | Some podUID \<Rightarrow>
                if rest = [] \<or> hd rest = []
                then Inl (ErrorString ''container ID not found in cgroup path %q'')
                else (case containerIDFromPart (hd rest) of
                        Inl err \<Rightarrow> Inl (WrapError ''%w in cgroup path %q'' err)
                      | Inr containerID \<Rightarrow> Inr \<lparr>PodUID = podUID, ContainerID = containerID\<rparr>)))"

definition parseCgroupPath :: "string \<Rightarrow> goerr + ToIDs" where
  "parseCgroupPath path =
     (if \<not> Contains path ''kubepods'' then Inl ErrNotPod
      else parse_parts False (Split (ToSlash path) CHR ''/''))"

section \<open>Walking the file system\<close>

text \<open>A node: whether it is a directory, what \<^verbatim>\<open>d.Info()\<close> gives (an error, or the inode number if
  \<^verbatim>\<open>info.Sys()\<close> is a \<^verbatim>\<open>*syscall.Stat_t\<close>), the error of reading it as a directory, and the entries that
  reading returned, in order.\<close>

datatype fsnode =
  FsNode (IsDir: bool) (Info: "goerr + u64 option") (read_error: "goerr option") (entries: "(string \<times> fsnode) list")

type_synonym 's walk_fn = "string \<Rightarrow> fsnode option \<Rightarrow> goerr option \<Rightarrow> 's \<Rightarrow> goerr option \<times> 's"

text \<open>\<^verbatim>\<open>filepath.WalkDir\<close> for a callback that does not return \<^verbatim>\<open>SkipDir\<close> or \<^verbatim>\<open>SkipAll\<close>; the callback threads
  the state it closes over.\<close>

fun walkDir :: "'s walk_fn \<Rightarrow> string \<Rightarrow> fsnode \<Rightarrow> 's \<Rightarrow> goerr option \<times> 's"
  and walkDirs :: "'s walk_fn \<Rightarrow> string \<Rightarrow> (string \<times> fsnode) list \<Rightarrow> 's \<Rightarrow> goerr option \<times> 's" where
  "walkDir fn path (FsNode isdir info rerr es) st =
     (let d = FsNode isdir info rerr es; (err, st) = fn path (Some d) None st
      in if err \<noteq> None \<or> \<not> isdir then (err, st)
         else
           (let (err, st) = (case rerr of None \<Rightarrow> (None, st) | Some e \<Rightarrow> fn path (Some d) (Some e) st)
            in if err \<noteq> None then (err, st) else walkDirs fn path es st))"
| "walkDirs fn path [] st = (None, st)"
| "walkDirs fn path ((name, d1) # es) st =
     (let (err, st) = walkDir fn (filepath_Join path name) d1 st
      in if err \<noteq> None then (err, st) else walkDirs fn path es st)"

text \<open>\<open>lstat\<close> is the result of \<^verbatim>\<open>os.Lstat(root)\<close>.\<close>

definition WalkDir :: "'s walk_fn \<Rightarrow> string \<Rightarrow> goerr + fsnode \<Rightarrow> 's \<Rightarrow> goerr option \<times> 's" where
  "WalkDir fn root lstat st =
     (case lstat of Inl err \<Rightarrow> fn root None (Some err) st | Inr d \<Rightarrow> walkDir fn root d st)"

definition index_fn :: "(u64 \<rightharpoonup> string) walk_fn" where
  "index_fn path d err byInode =
     (if err \<noteq> None then (None, byInode)
      else case d of
        None \<Rightarrow> (None, byInode)
      | Some d \<Rightarrow>
          if \<not> IsDir d then (None, byInode)
          else (case Info d of
                  Inl err \<Rightarrow> (None, byInode)
                | Inr None \<Rightarrow> (None, byInode)
                | Inr (Some ino) \<Rightarrow> (None, byInode(ino \<mapsto> path))))"

definition buildCgroupInodeMap :: "(string \<Rightarrow> goerr + fsnode) \<Rightarrow> string \<Rightarrow> goerr + (u64 \<rightharpoonup> string)" where
  "buildCgroupInodeMap lstat root =
     (let (err, byInode) = WalkDir index_fn root (lstat root) Map.empty
      in case err of Some e \<Rightarrow> Inl e | None \<Rightarrow> Inr byInode)"

section \<open>The index\<close>

record Index =
  byInode :: "u64 \<rightharpoonup> string"
  root :: string
  lastUpdated :: int
  interval :: int

text \<open>\<open>now\<close> is \<^verbatim>\<open>time.Now()\<close> after the walk.\<close>

definition BuildCgroupIndex :: "(string \<Rightarrow> goerr + fsnode) \<Rightarrow> int \<Rightarrow> string \<Rightarrow> int \<Rightarrow> goerr + Index" where
  "BuildCgroupIndex lstat now root_path ival =
     (case buildCgroupInodeMap lstat root_path of
        Inl err \<Rightarrow> Inl err
      | Inr m \<Rightarrow> Inr \<lparr>byInode = m, root = root_path, lastUpdated = now, interval = ival\<rparr>)"

text \<open>\<open>now\<close> is the clock at the test of the interval, \<open>now'\<close> after the walk.\<close>

definition RebuildCgroupIndex ::
  "(string \<Rightarrow> goerr + fsnode) \<Rightarrow> int \<Rightarrow> int \<Rightarrow> Index \<Rightarrow> (goerr + bool) \<times> Index" where
  "RebuildCgroupIndex lstat now now' idx =
     (if time_Since now (lastUpdated idx) < interval idx then (Inr False, idx)
      else case buildCgroupInodeMap lstat (root idx) of
        Inl err \<Rightarrow> (Inl err, idx)
      | Inr m \<Rightarrow> (Inr True, idx\<lparr>byInode := m, lastUpdated := now'\<rparr>))"

definition Lookup :: "Index \<Rightarrow> u64 \<Rightarrow> goerr + string" where
  "Lookup idx inode = (case byInode idx inode of None \<Rightarrow> Inl ErrNotIndexed | Some path \<Rightarrow> Inr path)"

definition ParseCgroupToIDs :: "Index \<Rightarrow> u64 \<Rightarrow> goerr + ToIDs" where
  "ParseCgroupToIDs idx cgroupID =
     (case Lookup idx cgroupID of Inl err \<Rightarrow> Inl err | Inr path \<Rightarrow> parseCgroupPath path)"

section \<open>Cgroup drivers\<close>

datatype qos = Guaranteed | Burstable | BestEffort

definition parts_ok :: "string list \<Rightarrow> bool" where
  "parts_ok ps \<longleftrightarrow> ps \<noteq> [] \<and> (\<forall>p \<in> set ps. CHR ''/'' \<notin> set p)"

text \<open>The cgroup of a container below the cgroup root: the slices of the QoS class, the pod, the container
  (which a driver may mark with the name of the runtime).\<close>

definition cgroup_path :: "string \<Rightarrow> string list \<Rightarrow> string \<Rightarrow> string \<Rightarrow> string" where
  "cgroup_path base slices pod container = base @ ''/'' @ Join (slices @ [pod, container]) ''/''"

locale cgroup_driver =
  fixes slices :: "qos \<Rightarrow> string list"
    and pod_part :: "qos \<Rightarrow> string \<Rightarrow> string"
    and container_part :: "string \<Rightarrow> string \<Rightarrow> string"
    and uid_ok :: "string \<Rightarrow> bool"
  assumes slices_kubepods: "HasPrefix (hd (slices q)) ''kubepods''"
    and slices_parts: "parts_ok (slices q)"
    and slices_no_uid: "p \<in> set (slices q) \<Longrightarrow> podUIDFromPart p = None"
    and pod_uid: "uid_ok uid \<Longrightarrow> podUIDFromPart (pod_part q uid) = Some uid"
    and pod_plain: "uid_ok uid \<Longrightarrow> CHR ''/'' \<notin> set (pod_part q uid)"
    and container_id: "isHex cid \<Longrightarrow> containerIDFromPart (container_part rt cid) = Inr cid"
    and container_plain: "isHex cid \<Longrightarrow> CHR ''/'' \<notin> set rt \<Longrightarrow> CHR ''/'' \<notin> set (container_part rt cid)"
    and container_nonempty: "isHex cid \<Longrightarrow> container_part rt cid \<noteq> []"
begin

lemma parse_skip_slices:
  "(\<And>p. p \<in> set ps \<Longrightarrow> podUIDFromPart p = None) \<Longrightarrow> parse_parts True (ps @ rest) = parse_parts True rest"
  by (induction ps) simp_all

lemma parse_from_slices:
  assumes "uid_ok uid" "isHex cid"
  shows "parse_parts False (slices q @ pod_part q uid # container_part rt cid # sub) =
    Inr \<lparr>PodUID = uid, ContainerID = cid\<rparr>"
proof -
  have "slices q \<noteq> []" using slices_parts [of q] by (simp add: parts_ok_def)
  then obtain p ps where s: "slices q = p # ps" by (cases "slices q") auto
  have "parse_parts False (slices q @ pod_part q uid # container_part rt cid # sub) =
      parse_parts True (ps @ pod_part q uid # container_part rt cid # sub)"
    using slices_kubepods [of q] slices_no_uid [of p q] by (simp add: s)
  also have "\<dots> = parse_parts True (pod_part q uid # container_part rt cid # sub)"
    by (rule parse_skip_slices) (use slices_no_uid [of _ q] in \<open>auto simp: s\<close>)
  also have "\<dots> = Inr \<lparr>PodUID = uid, ContainerID = cid\<rparr>"
    using assms by (simp add: pod_uid container_id container_nonempty)
  finally show ?thesis .
qed

lemma parse_skip_base:
  "(\<And>p. p \<in> set ps \<Longrightarrow> \<not> HasPrefix p ''kubepods'') \<Longrightarrow> parse_parts False (ps @ rest) = parse_parts False rest"
  by (induction ps) simp_all

lemma contains_kubepods: "Contains (cgroup_path base (slices q) (pod_part q uid) (container_part rt cid) @ sub) ''kubepods''"
proof -
  have "slices q \<noteq> []" using slices_parts [of q] by (simp add: parts_ok_def)
  then obtain p ps where s: "slices q = p # ps" by (cases "slices q") auto
  then obtain r where "p = ''kubepods'' @ r" using slices_kubepods [of q] by (auto simp: HasPrefix_iff)
  with s have "\<exists>t. cgroup_path base (slices q) (pod_part q uid) (container_part rt cid) @ sub = (base @ ''/'') @ ''kubepods'' @ t"
    by (cases ps) (simp_all add: cgroup_path_def)
  then show ?thesis unfolding Contains_iff by blast
qed

text \<open>The parser finds the UID and the ID, also below the container's own cgroup.\<close>

lemma parse_cgroup_path:
  assumes "uid_ok uid" "isHex cid" "CHR ''/'' \<notin> set rt"
    and "\<And>p. p \<in> set (Split base CHR ''/'') \<Longrightarrow> \<not> HasPrefix p ''kubepods''"
    and "sub = [] \<or> hd sub = CHR ''/''"
  shows "parseCgroupPath (cgroup_path base (slices q) (pod_part q uid) (container_part rt cid) @ sub) = Inr \<lparr>PodUID = uid, ContainerID = cid\<rparr>"
proof -
  let ?ps = "slices q @ [pod_part q uid, container_part rt cid]"
  have ps: "?ps \<noteq> []" "\<forall>p \<in> set ?ps. CHR ''/'' \<notin> set p"
    using assms(1-3) slices_parts [of q] pod_plain [of uid q] container_plain [of cid rt]
    by (auto simp: parts_ok_def)
  obtain ms where "Split (Join ?ps ''/'' @ sub) CHR ''/'' = ?ps @ ms"
  proof (cases sub)
    case Nil
    then show ?thesis using that [of "[]"] Split_Join [OF ps] by simp
  next
    case (Cons c t)
    then show ?thesis using that [of "Split t CHR ''/''"] assms(5) Split_Join [OF ps]
      by (simp add: Split_append_sep)
  qed
  then have "Split (cgroup_path base (slices q) (pod_part q uid) (container_part rt cid) @ sub) CHR ''/'' = Split base CHR ''/'' @ ?ps @ ms"
    by (simp add: cgroup_path_def Split_append_sep)
  then show ?thesis
    using parse_from_slices [OF assms(1,2), of q rt ms]
    by (simp add: parseCgroupPath_def contains_kubepods ToSlash_def parse_skip_base [OF assms(4)])
qed

end

subsection \<open>The systemd driver\<close>

fun qos_name :: "qos \<Rightarrow> string" where
  "qos_name Guaranteed = ''guaranteed''"
| "qos_name Burstable = ''burstable''"
| "qos_name BestEffort = ''besteffort''"

definition systemd_slices :: "qos \<Rightarrow> string list" where
  "systemd_slices q = ''kubepods.slice'' #
     (if q = Guaranteed then [] else [''kubepods-'' @ qos_name q @ ''.slice''])"

definition systemd_pod :: "qos \<Rightarrow> string \<Rightarrow> string" where
  "systemd_pod q uid = ''kubepods'' @ (if q = Guaranteed then [] else ''-'' @ qos_name q) @ ''-pod'' @
     ReplaceAll uid CHR ''-'' CHR ''_'' @ ''.slice''"

definition systemd_container :: "string \<Rightarrow> string \<Rightarrow> string" where
  "systemd_container rt cid = rt @ ''-'' @ cid @ ''.scope''"

definition systemd_uid_ok :: "string \<Rightarrow> bool" where
  "systemd_uid_ok uid \<longleftrightarrow> uid \<noteq> [] \<and> CHR ''_'' \<notin> set uid \<and> CHR ''/'' \<notin> set uid"

definition cgroupfs_slices :: "qos \<Rightarrow> string list" where
  "cgroupfs_slices q = ''kubepods'' # (if q = Guaranteed then [] else [qos_name q])"

definition cgroupfs_pod :: "qos \<Rightarrow> string \<Rightarrow> string" where
  "cgroupfs_pod q uid = ''pod'' @ uid"

definition cgroupfs_container :: "string \<Rightarrow> string \<Rightarrow> string" where
  "cgroupfs_container rt cid = cid"

definition cgroupfs_uid_ok :: "string \<Rightarrow> bool" where
  "cgroupfs_uid_ok uid \<longleftrightarrow> uid \<noteq> [] \<and> CHR ''/'' \<notin> set uid"

lemma ReplaceAll_roundtrip: "c \<notin> set s \<Longrightarrow> ReplaceAll (ReplaceAll s d c) c d = s"
  by (induction s) (auto simp: ReplaceAll_def)

lemma ReplaceAll_Nil_iff [simp]: "ReplaceAll s c d = [] \<longleftrightarrow> s = []"
  by (simp add: ReplaceAll_def)

lemma isHex_set: "isHex s \<Longrightarrow> c \<in> set s \<Longrightarrow> hex_digit c"
  by (simp add: isHex_def list_all_iff)

lemma not_hex_digit: "\<not> hex_digit CHR ''-''" "\<not> hex_digit CHR ''/''" "\<not> hex_digit CHR ''.''" "\<not> hex_digit CHR ''s''"
  by (simp_all add: hex_digit_def)

lemma LastIndex_None: "c \<notin> set s \<Longrightarrow> LastIndex s c = None"
  by (induction s) auto

lemma LastIndex_last: "c \<notin> set t \<Longrightarrow> LastIndex (s @ c # t) c = Some (length s)"
  by (induction s) (simp_all add: LastIndex_None)

lemma podUID_slice:
  "podUIDFromPart (''kubepods'' @ r @ ''.slice'') =
     (if HasPrefix (r @ ''.slice'') ''-'' then
        (let (_, uid, ok) = Cut (''kubepods'' @ r) ''-pod''
         in if \<not> ok \<or> uid = [] then None else Some (ReplaceAll uid CHR ''_'' CHR ''-''))
      else None)"
  using HasSuffix_append [of "''kubepods'' @ r" "''.slice''"] TrimSuffix_append [of "''kubepods'' @ r" "''.slice''"]
  by (cases r) (auto simp: podUIDFromPart_def HasPrefix_def CutPrefix_def)

lemma systemd_pod_uid:
  assumes "systemd_uid_ok uid"
  shows "podUIDFromPart (systemd_pod q uid) = Some uid"
proof -
  let ?u = "ReplaceAll uid CHR ''-'' CHR ''_''"
  let ?r = "(if q = Guaranteed then [] else ''-'' @ qos_name q) @ ''-pod'' @ ?u"
  have "Cut (''kubepods'' @ ?r) ''-pod'' = (''kubepods'' @ (if q = Guaranteed then [] else ''-'' @ qos_name q), ?u, True)"
    by (cases q) (simp_all add: Cut_def HasPrefix_def)
  moreover have "HasPrefix (?r @ ''.slice'') ''-''"
    by (cases q) (simp_all add: HasPrefix_def)
  moreover have "?u \<noteq> []" "ReplaceAll ?u CHR ''_'' CHR ''-'' = uid"
    using assms by (auto simp: systemd_uid_ok_def ReplaceAll_roundtrip)
  ultimately show ?thesis
    using podUID_slice [of ?r] by (simp add: systemd_pod_def)
qed

lemma containerID_scope: "isHex cid \<Longrightarrow> containerIDFromPart (systemd_container rt cid) = Inr cid"
proof -
  assume hex: "isHex cid"
  then have "CHR ''-'' \<notin> set cid" using isHex_set not_hex_digit(1) by blast
  then have "LastIndex (rt @ CHR ''-'' # cid) CHR ''-'' = Some (length rt)"
    by (rule LastIndex_last)
  moreover have "TrimSuffix (systemd_container rt cid) ''.scope'' = rt @ CHR ''-'' # cid"
    using TrimSuffix_append [of "rt @ ''-'' @ cid" "''.scope''"] by (simp add: systemd_container_def)
  ultimately show ?thesis using hex by (simp add: containerIDFromPart_def)
qed

lemma containerID_plain: "isHex cid \<Longrightarrow> containerIDFromPart cid = Inr cid"
proof -
  assume hex: "isHex cid"
  then have "CHR ''-'' \<notin> set cid" "CHR ''s'' \<notin> set cid" using isHex_set not_hex_digit by blast+
  moreover from this have "\<not> HasSuffix cid ''.scope''" by (auto simp: HasSuffix_iff)
  ultimately show ?thesis using hex
    by (simp add: containerIDFromPart_def TrimSuffix_def LastIndex_None)
qed

lemma isHex_plain: "isHex cid \<Longrightarrow> CHR ''/'' \<notin> set cid \<and> cid \<noteq> []"
  using isHex_set not_hex_digit(2) by (auto simp: isHex_def)

lemma podUID_no_slice: "podUIDFromPart ''kubepods.slice'' = None" "podUIDFromPart ''kubepods'' = None"
  "podUIDFromPart (''kubepods-'' @ qos_name q @ ''.slice'') = None" "podUIDFromPart (qos_name q) = None"
proof -
  show "podUIDFromPart ''kubepods.slice'' = None"
    using podUID_slice [of "[]"] by (simp add: HasPrefix_def)
  show "podUIDFromPart ''kubepods'' = None"
    by (simp add: podUIDFromPart_def HasPrefix_def CutPrefix_def)
  have "Cut (''kubepods'' @ ''-'' @ qos_name q) ''-pod'' = (''kubepods'' @ ''-'' @ qos_name q, [], False)"
    by (cases q) (simp_all add: Cut_def HasPrefix_def)
  then show "podUIDFromPart (''kubepods-'' @ qos_name q @ ''.slice'') = None"
    using podUID_slice [of "''-'' @ qos_name q"] by simp
  show "podUIDFromPart (qos_name q) = None"
    by (cases q) (simp_all add: podUIDFromPart_def HasPrefix_def CutPrefix_def)
qed

interpretation systemd: cgroup_driver systemd_slices systemd_pod systemd_container systemd_uid_ok
proof
  fix q p uid cid rt
  show "HasPrefix (hd (systemd_slices q)) ''kubepods''"
    by (simp add: systemd_slices_def HasPrefix_def)
  show "parts_ok (systemd_slices q)"
    by (cases q) (auto simp: systemd_slices_def parts_ok_def)
  show "p \<in> set (systemd_slices q) \<Longrightarrow> podUIDFromPart p = None"
    using podUID_no_slice by (auto simp: systemd_slices_def split: if_splits)
  show "systemd_uid_ok uid \<Longrightarrow> podUIDFromPart (systemd_pod q uid) = Some uid"
    by (rule systemd_pod_uid)
  show "systemd_uid_ok uid \<Longrightarrow> CHR ''/'' \<notin> set (systemd_pod q uid)"
    by (cases q) (auto simp: systemd_pod_def systemd_uid_ok_def ReplaceAll_def)
  show "isHex cid \<Longrightarrow> containerIDFromPart (systemd_container rt cid) = Inr cid"
    by (rule containerID_scope)
  show "isHex cid \<Longrightarrow> CHR ''/'' \<notin> set rt \<Longrightarrow> CHR ''/'' \<notin> set (systemd_container rt cid)"
    by (auto simp: systemd_container_def dest: isHex_plain)
  show "isHex cid \<Longrightarrow> systemd_container rt cid \<noteq> []"
    by (simp add: systemd_container_def)
qed

interpretation cgroupfs: cgroup_driver cgroupfs_slices cgroupfs_pod cgroupfs_container cgroupfs_uid_ok
proof
  fix q p uid cid rt
  show "HasPrefix (hd (cgroupfs_slices q)) ''kubepods''"
    by (simp add: cgroupfs_slices_def HasPrefix_def)
  show "parts_ok (cgroupfs_slices q)"
    by (cases q) (auto simp: cgroupfs_slices_def parts_ok_def)
  show "p \<in> set (cgroupfs_slices q) \<Longrightarrow> podUIDFromPart p = None"
    using podUID_no_slice by (auto simp: cgroupfs_slices_def split: if_splits)
  show "cgroupfs_uid_ok uid \<Longrightarrow> podUIDFromPart (cgroupfs_pod q uid) = Some uid"
    by (simp add: cgroupfs_pod_def cgroupfs_uid_ok_def podUIDFromPart_def HasPrefix_def CutPrefix_def)
  show "cgroupfs_uid_ok uid \<Longrightarrow> CHR ''/'' \<notin> set (cgroupfs_pod q uid)"
    by (auto simp: cgroupfs_pod_def cgroupfs_uid_ok_def)
  show "isHex cid \<Longrightarrow> containerIDFromPart (cgroupfs_container rt cid) = Inr cid"
    by (simp add: cgroupfs_container_def containerID_plain)
  show "isHex cid \<Longrightarrow> CHR ''/'' \<notin> set rt \<Longrightarrow> CHR ''/'' \<notin> set (cgroupfs_container rt cid)"
    by (simp add: cgroupfs_container_def isHex_plain)
  show "isHex cid \<Longrightarrow> cgroupfs_container rt cid \<noteq> []"
    by (simp add: cgroupfs_container_def isHex_plain)
qed

section \<open>Indexing\<close>

text \<open>The reference: the directories of the tree with their inode numbers, in walking order.\<close>

fun tree_dirs :: "string \<Rightarrow> fsnode \<Rightarrow> (u64 \<times> string) list"
  and forest_dirs :: "string \<Rightarrow> (string \<times> fsnode) list \<Rightarrow> (u64 \<times> string) list" where
  "tree_dirs path (FsNode isdir info rerr es) =
     (if isdir then (case info of Inr (Some ino) \<Rightarrow> [(ino, path)] | _ \<Rightarrow> []) @ forest_dirs path es else [])"
| "forest_dirs path [] = []"
| "forest_dirs path ((name, d1) # es) = tree_dirs (filepath_Join path name) d1 @ forest_dirs path es"

definition index_entry :: "u64 \<times> string \<Rightarrow> (u64 \<rightharpoonup> string) \<Rightarrow> (u64 \<rightharpoonup> string)" where
  "index_entry e m = m(fst e \<mapsto> snd e)"

lemma index_fn_ok: "fst (index_fn path d err m) = None"
  by (simp add: index_fn_def split: option.split sum.split)

lemma index_fn_err: "index_fn path d (Some e) m = (None, m)"
  by (simp add: index_fn_def)

lemma index_fn_dir:
  "index_fn path (Some (FsNode isdir info rerr es)) None m =
     (None, if isdir then fold index_entry (case info of Inr (Some ino) \<Rightarrow> [(ino, path)] | _ \<Rightarrow> []) m else m)"
  by (simp add: index_fn_def index_entry_def split: sum.split option.split)

lemma walkDir_index:
  "walkDir index_fn path d m = (None, fold index_entry (tree_dirs path d) m)"
  "walkDirs index_fn path es m = (None, fold index_entry (forest_dirs path es) m)"
  by (induction path d and path es arbitrary: m and m rule: tree_dirs_forest_dirs.induct)
    (simp_all add: index_fn_dir index_fn_err Let_def split: option.split)

lemma fold_index_entry: "fold index_entry es m = m ++ map_of (rev es)"
proof (induction es arbitrary: m)
  case (Cons e es)
  have "fold index_entry (e # es) m = m(fst e \<mapsto> snd e) ++ map_of (rev es)"
    unfolding fold_simps index_entry_def [of e m] by (rule Cons)
  then show ?case by (cases e) simp
qed simp

definition root_dirs :: "(string \<Rightarrow> goerr + fsnode) \<Rightarrow> string \<Rightarrow> (u64 \<times> string) list" where
  "root_dirs lstat path = (case lstat path of Inl _ \<Rightarrow> [] | Inr d \<Rightarrow> tree_dirs path d)"

lemma buildCgroupInodeMap_eq: "buildCgroupInodeMap lstat path = Inr (map_of (rev (root_dirs lstat path)))"
  by (simp add: buildCgroupInodeMap_def WalkDir_def root_dirs_def index_fn_err walkDir_index fold_index_entry
      split: sum.split)

lemma map_of_rev_distinct: "distinct (map fst es) \<Longrightarrow> map_of (rev es) k = Some v \<longleftrightarrow> (k, v) \<in> set es"
  by (metis distinct_rev map_of_eq_Some_iff rev_map set_rev)

section \<open>Errors of the parser\<close>

lemma podUID_nonempty: "podUIDFromPart p = Some u \<Longrightarrow> u \<noteq> []"
  by (auto simp: podUIDFromPart_def split: if_splits prod.splits)

lemma containerID_hex: "containerIDFromPart p = Inr c \<Longrightarrow> isHex c"
  by (auto simp: containerIDFromPart_def Let_def split: if_splits)

lemma containerID_error: "containerIDFromPart p = Inl e \<Longrightarrow> \<not> errors_Is e (Sentinel s)"
  by (auto simp: containerIDFromPart_def Let_def split: if_splits)

lemma parse_parts_Inr: "parse_parts k ps = Inr ids \<Longrightarrow> PodUID ids \<noteq> [] \<and> isHex (ContainerID ids)"
  by (induction k ps rule: parse_parts.induct)
    (auto split: if_splits option.splits sum.splits dest: podUID_nonempty containerID_hex)

lemma parse_parts_Inl: "parse_parts k ps = Inl e \<Longrightarrow> \<not> errors_Is e (Sentinel s)"
  by (induction k ps rule: parse_parts.induct)
    (auto split: if_splits option.splits sum.splits dest: containerID_error)

lemma parseCgroupPath_Inl:
  "parseCgroupPath path = Inl e \<Longrightarrow>
     \<not> errors_Is e ErrNotIndexed \<and> (errors_Is e ErrNotPod \<longleftrightarrow> \<not> Contains path ''kubepods'')"
  by (auto simp: parseCgroupPath_def ErrNotPod_def ErrNotIndexed_def dest: parse_parts_Inl split: if_splits)

lemma ParseCgroupToIDs_not_indexed:
  "ParseCgroupToIDs idx cg = Inl e \<Longrightarrow> errors_Is e ErrNotIndexed \<longleftrightarrow> byInode idx cg = None"
  by (auto simp: ParseCgroupToIDs_def Lookup_def dest: parseCgroupPath_Inl split: option.splits)
    (simp add: ErrNotIndexed_def)

lemma ParseCgroupToIDs_None: "byInode idx cg = None \<Longrightarrow> ParseCgroupToIDs idx cg = Inl ErrNotIndexed"
  by (simp add: ParseCgroupToIDs_def Lookup_def)

text \<open>A result comes from two consecutive parts of the path, at or after a part that starts with
  \<^verbatim>\<open>kubepods\<close>.\<close>

lemma parse_parts_source:
  "parse_parts k ps = Inr ids \<Longrightarrow>
     \<exists>pre pod ctr post. ps = pre @ pod # ctr # post \<and> podUIDFromPart pod = Some (PodUID ids) \<and>
       containerIDFromPart ctr = Inr (ContainerID ids) \<and>
       (k \<or> (\<exists>p \<in> set (pre @ [pod]). HasPrefix p ''kubepods''))"
proof (induction k ps rule: parse_parts.induct)
  case (2 k part rest)
  show ?case
  proof (cases "\<not> k \<and> \<not> HasPrefix part ''kubepods''")
    case True
    with 2 obtain pre pod ctr post where "rest = pre @ pod # ctr # post"
      "podUIDFromPart pod = Some (PodUID ids)" "containerIDFromPart ctr = Inr (ContainerID ids)"
      "\<exists>p \<in> set (pre @ [pod]). HasPrefix p ''kubepods''" by (metis parse_parts.simps(2))
    then show ?thesis
      by (intro exI [of _ "part # pre"] exI [of _ pod] exI [of _ ctr] exI [of _ post]) auto
  next
    case kube: False
    show ?thesis
    proof (cases "podUIDFromPart part")
      case None
      with 2 kube have "parse_parts True rest = Inr ids" by auto
      with "2.IH"(2) [OF kube None] obtain pre pod ctr post where "rest = pre @ pod # ctr # post"
        "podUIDFromPart pod = Some (PodUID ids)" "containerIDFromPart ctr = Inr (ContainerID ids)" by auto
      with kube show ?thesis
        by (intro exI [of _ "part # pre"] exI [of _ pod] exI [of _ ctr] exI [of _ post]) auto
    next
      case (Some u)
      with kube "2.prems" obtain ctr post where "rest = ctr # post" "PodUID ids = u"
        "containerIDFromPart ctr = Inr (ContainerID ids)"
        by (cases rest) (auto split: if_splits sum.splits)
      with Some kube show ?thesis
        by (intro exI [of _ "[]"] exI [of _ part] exI [of _ ctr] exI [of _ post]) auto
    qed
  qed
qed simp

section \<open>Properties\<close>

text \<open>C21: The cgroup paths of both kubelet drivers parse back to the pod UID and the container ID they were
  made from, in every QoS class, for any runtime prefix, below any root without a \<^verbatim>\<open>kubepods\<close> part, and
  also for cgroups nested inside the container. The UID may contain dashes: the systemd driver writes
  them as underscores.\<close>

theorem parseCgroupPath_drivers:
  assumes "isHex cid" and "CHR ''/'' \<notin> set rt"
    and "\<And>p. p \<in> set (Split base CHR ''/'') \<Longrightarrow> \<not> HasPrefix p ''kubepods''"
    and "sub = [] \<or> hd sub = CHR ''/''"
    and "uid \<noteq> []" "CHR ''/'' \<notin> set uid" "CHR ''_'' \<notin> set uid"
  shows "parseCgroupPath (cgroup_path base (systemd_slices q) (systemd_pod q uid) (systemd_container rt cid) @ sub) =
      Inr \<lparr>PodUID = uid, ContainerID = cid\<rparr> \<and>
    parseCgroupPath (cgroup_path base (cgroupfs_slices q) (cgroupfs_pod q uid) (cgroupfs_container rt cid) @ sub) =
      Inr \<lparr>PodUID = uid, ContainerID = cid\<rparr>"
proof -
  have "systemd_uid_ok uid" "cgroupfs_uid_ok uid"
    using assms(5-7) by (simp_all add: systemd_uid_ok_def cgroupfs_uid_ok_def)
  then show ?thesis
    using systemd.parse_cgroup_path [OF _ assms(1-4)] cgroupfs.parse_cgroup_path [OF _ assms(1-4)] by blast
qed

theorem parseCgroupPath_drivers_witness:
  "parseCgroupPath (''/sys/fs/cgroup/kubepods.slice/kubepods-burstable.slice/'' @
     ''kubepods-burstable-pod1a2b_3c.slice/cri-containerd-079adc.scope'') =
     Inr \<lparr>PodUID = ''1a2b-3c'', ContainerID = ''079adc''\<rparr> \<and>
   parseCgroupPath ''/sys/fs/cgroup/kubepods/burstable/pod1a2b-3c/079adc'' =
     Inr \<lparr>PodUID = ''1a2b-3c'', ContainerID = ''079adc''\<rparr>"
proof -
  have hex: "isHex ''079adc''" by (simp add: isHex_def hex_digit_def)
  have base: "\<not> HasPrefix p ''kubepods''" if "p \<in> set (Split ''/sys/fs/cgroup'' CHR ''/'')" for p
    using that by (auto simp: HasPrefix_def)
  have "parseCgroupPath (cgroup_path ''/sys/fs/cgroup'' (systemd_slices Burstable) (systemd_pod Burstable ''1a2b-3c'')
      (systemd_container ''cri-containerd'' ''079adc'') @ []) = Inr \<lparr>PodUID = ''1a2b-3c'', ContainerID = ''079adc''\<rparr>"
    by (rule parseCgroupPath_drivers [OF hex _ base, THEN conjunct1]) simp_all
  moreover have "parseCgroupPath (cgroup_path ''/sys/fs/cgroup'' (cgroupfs_slices Burstable)
      (cgroupfs_pod Burstable ''1a2b-3c'') (cgroupfs_container [] ''079adc'') @ []) =
      Inr \<lparr>PodUID = ''1a2b-3c'', ContainerID = ''079adc''\<rparr>"
    by (rule parseCgroupPath_drivers [OF hex _ base, THEN conjunct2]) simp_all
  ultimately show ?thesis
    by (simp add: cgroup_path_def systemd_slices_def systemd_pod_def systemd_container_def cgroupfs_slices_def
        cgroupfs_pod_def cgroupfs_container_def ReplaceAll_def)
qed

text \<open>C22: What the parser returns is taken from the path and never from outside the Kubernetes subtree: the
  UID and the ID come from two neighbouring path elements at or below an element that starts with
  \<^verbatim>\<open>kubepods\<close>, the UID is not empty and the ID is hexadecimal. An error is \<^verbatim>\<open>ErrNotPod\<close> exactly for paths
  that do not contain \<^verbatim>\<open>kubepods\<close> at all, and never \<^verbatim>\<open>ErrNotIndexed\<close>.\<close>

theorem parseCgroupPath_sound:
  "case parseCgroupPath path of
     Inr ids \<Rightarrow> PodUID ids \<noteq> [] \<and> isHex (ContainerID ids) \<and>
       (\<exists>pre pod ctr post. Split path CHR ''/'' = pre @ pod # ctr # post \<and>
          podUIDFromPart pod = Some (PodUID ids) \<and> containerIDFromPart ctr = Inr (ContainerID ids) \<and>
          (\<exists>p \<in> set (pre @ [pod]). HasPrefix p ''kubepods''))
   | Inl e \<Rightarrow> \<not> errors_Is e ErrNotIndexed \<and> (errors_Is e ErrNotPod \<longleftrightarrow> \<not> Contains path ''kubepods'')"
proof (cases "parseCgroupPath path")
  case (Inl e)
  then show ?thesis by (simp add: parseCgroupPath_Inl)
next
  case (Inr ids)
  then have "parse_parts False (Split path CHR ''/'') = Inr ids"
    by (auto simp: parseCgroupPath_def ToSlash_def split: if_splits)
  then show ?thesis using parse_parts_Inr parse_parts_source [of False] Inr by simp
qed

text \<open>C23: Building the index is total: it indexes every directory below the root that can be inspected, under
  its own path, skips what cannot be read, and never fails, not even when the root does not exist (the
  index is then empty). With distinct inode numbers, \<^verbatim>\<open>Lookup\<close> finds a path exactly if the directory is
  there.\<close>

theorem buildCgroupInodeMap_complete:
  "\<exists>m. buildCgroupInodeMap lstat path = Inr m \<and> m = map_of (rev (root_dirs lstat path)) \<and>
     (\<forall>e. lstat path = Inl e \<longrightarrow> m = Map.empty) \<and>
     (distinct (map fst (root_dirs lstat path)) \<longrightarrow>
        (\<forall>ino p idx. Lookup (idx\<lparr>byInode := m\<rparr>) ino = Inr p \<longleftrightarrow> (ino, p) \<in> set (root_dirs lstat path)))"
proof -
  have "root_dirs lstat path = []" if "lstat path = Inl e" for e
    using that by (simp add: root_dirs_def)
  moreover have "Lookup (idx\<lparr>byInode := m\<rparr>) ino = Inr p \<longleftrightarrow> m ino = Some p" for idx m ino p
    by (simp add: Lookup_def split: option.split)
  ultimately show ?thesis
    by (auto simp: buildCgroupInodeMap_eq map_of_rev_distinct)
qed

definition sample_cgroupfs :: fsnode where
  "sample_cgroupfs = FsNode True (Inr (Some 1)) None
     [(''cgroup.procs'', FsNode False (Inr (Some 2)) None []),
      (''kubepods'', FsNode True (Inr (Some 3)) None
         [(''podab'', FsNode True (Inr (Some 4)) None [(''0c1d'', FsNode True (Inr (Some 5)) None [])])])]"

lemma sample_cgroup_dirs:
  "root_dirs (\<lambda>p. Inr sample_cgroupfs) ''/cg'' =
     [(1, ''/cg''), (3, ''/cg/kubepods''), (4, ''/cg/kubepods/podab''), (5, ''/cg/kubepods/podab/0c1d'')]"
proof -
  have "filepath_Join ''/cg'' ''cgroup.procs'' = ''/cg/cgroup.procs''"
    "filepath_Join ''/cg'' ''kubepods'' = ''/cg/kubepods''"
    "filepath_Join ''/cg/kubepods'' ''podab'' = ''/cg/kubepods/podab''"
    "filepath_Join ''/cg/kubepods/podab'' ''0c1d'' = ''/cg/kubepods/podab/0c1d''"
    by code_simp+
  then show ?thesis by (simp add: root_dirs_def sample_cgroupfs_def)
qed

theorem buildCgroupInodeMap_complete_witness:
  "\<exists>m. buildCgroupInodeMap (\<lambda>p. Inr sample_cgroupfs) ''/cg'' = Inr m \<and>
     Lookup \<lparr>byInode = m, root = ''/cg'', lastUpdated = 0, interval = 1\<rparr> 5 = Inr ''/cg/kubepods/podab/0c1d''"
proof -
  obtain m where m: "buildCgroupInodeMap (\<lambda>p. Inr sample_cgroupfs) ''/cg'' = Inr m"
    "distinct (map fst (root_dirs (\<lambda>p. Inr sample_cgroupfs) ''/cg'')) \<longrightarrow>
        (\<forall>ino p idx. Lookup (idx\<lparr>byInode := m\<rparr>) ino = Inr p \<longleftrightarrow>
           (ino, p) \<in> set (root_dirs (\<lambda>p. Inr sample_cgroupfs) ''/cg''))"
    using buildCgroupInodeMap_complete [of "\<lambda>p. Inr sample_cgroupfs" "''/cg''"] by blast
  have "Lookup (\<lparr>byInode = m, root = ''/cg'', lastUpdated = 0, interval = 1\<rparr>\<lparr>byInode := m\<rparr>) 5 =
      Inr ''/cg/kubepods/podab/0c1d''"
    using m(2) unfolding sample_cgroup_dirs by (auto simp del: Index.update_convs)
  with m(1) show ?thesis by auto
qed

end
