(* ===== verification/Cri.thy ===== *)
theory Cri
  imports Cgroup
begin

text \<open>
  \<^verbatim>\<open>pkg/podmap/cri.go\<close>: the client of the container runtime. The gRPC connection and the runtime behind it
  are the argument \<open>env\<close>: the results of the calls the code makes, with \<open>is_NotFound\<close> for
  \<^verbatim>\<open>status.Code(err) == codes.NotFound\<close>. A call gets the timeout of its context, and a deadline that
  expires is one of the errors it can return; \<open>deadline_ok\<close> is what the context package promises of a deadline
  that lies in the past. The connection that \<^verbatim>\<open>NewCRIClient\<close> closes when the runtime does not answer was
  never handed out, and the result of closing it is ignored.
\<close>

definition podNamespaceLabel :: string where "podNamespaceLabel = ''io.kubernetes.pod.namespace''"
definition podNameLabel :: string where "podNameLabel = ''io.kubernetes.pod.name''"
definition containerNameLabel :: string where "containerNameLabel = ''io.kubernetes.container.name''"

definition ErrContainerNotFound :: goerr where
  "ErrContainerNotFound = Sentinel ''container not found in CRI''"

record ContainerInfo =
  Namespace :: string
  PodName :: string
  ContainerName :: string

text \<open>A \<^verbatim>\<open>ContainerStatusResponse\<close>: its \<^verbatim>\<open>Status\<close> may be nil, otherwise only the labels matter.\<close>

record ContainerStatusResponse =
  Status :: "(string \<rightharpoonup> string) option"

record cri_env =
  grpc_NewClient :: "goerr option"
  cri_Version :: "int \<Rightarrow> goerr option"
  cri_ContainerStatus :: "int \<Rightarrow> string \<Rightarrow> goerr + ContainerStatusResponse option"
  is_NotFound :: "goerr \<Rightarrow> bool"
  conn_Close :: "goerr option"

record CRIClient =
  criTimeout :: int

definition NewCRIClient :: "cri_env \<Rightarrow> string \<Rightarrow> int \<Rightarrow> goerr + CRIClient" where
  "NewCRIClient env socket timeout =
     (if socket = [] then Inl (ErrorString ''CRI socket is empty'')
      else case grpc_NewClient env of
        Some err \<Rightarrow> Inl (WrapError ''create CRI client for socket %q: %w'' err)
      | None \<Rightarrow>
          (case cri_Version env timeout of
             Some err \<Rightarrow> Inl (WrapError ''connect to CRI socket %q: %w'' err)
           | None \<Rightarrow> Inr \<lparr>criTimeout = timeout\<rparr>))"

definition ContainerNames :: "cri_env \<Rightarrow> CRIClient \<Rightarrow> string \<Rightarrow> goerr + ContainerInfo" where
  "ContainerNames env c containerID =
     (if containerID = [] then Inl (ErrorString ''container ID is empty'')
      else case cri_ContainerStatus env (criTimeout c) containerID of
        Inl err \<Rightarrow>
          if is_NotFound env err then Inl (WrapError ''%w: %s'' ErrContainerNotFound)
          else Inl (WrapError ''get status for container %q: %w'' err)
      | Inr None \<Rightarrow> Inl (ErrorString ''CRI returned empty status for container %q'')
      | Inr (Some resp) \<Rightarrow>
          (case Status resp of
             None \<Rightarrow> Inl (ErrorString ''CRI returned empty status for container %q'')
           | Some labels \<Rightarrow>
               (let info = \<lparr>Namespace = map_get labels podNamespaceLabel,
                            PodName = map_get labels podNameLabel,
                            ContainerName = map_get labels containerNameLabel\<rparr>
                in if Namespace info = [] \<or> PodName info = [] \<or> ContainerName info = []
                   then Inl (WrapError ''%w: container %q has no Kubernetes labels'' ErrNotPod)
                   else Inr info)))"

definition CRIClient_Close :: "cri_env \<Rightarrow> CRIClient option \<Rightarrow> goerr option" where
  "CRIClient_Close env c = (case c of None \<Rightarrow> None | Some _ \<Rightarrow> conn_Close env)"

section \<open>Lemmas\<close>

definition info_ok :: "ContainerInfo \<Rightarrow> bool" where
  "info_ok info \<longleftrightarrow> Namespace info \<noteq> [] \<and> PodName info \<noteq> [] \<and> ContainerName info \<noteq> []"

text \<open>The errors of gRPC are its own: none of them wraps an error value of the package.\<close>

definition podmap_sentinels :: "goerr set" where
  "podmap_sentinels = {ErrNotPod, ErrNotIndexed, ErrContainerNotFound}"

definition cri_foreign :: "cri_env \<Rightarrow> bool" where
  "cri_foreign env \<longleftrightarrow>
     (\<forall>timeout cid err. cri_ContainerStatus env timeout cid = Inl err \<longrightarrow> (\<forall>t \<in> podmap_sentinels. \<not> errors_Is err t))"

text \<open>A call whose context has no time left fails, and not because the runtime said anything.\<close>

definition deadline_ok :: "cri_env \<Rightarrow> bool" where
  "deadline_ok env \<longleftrightarrow>
     (\<forall>timeout \<le> 0. cri_Version env timeout \<noteq> None \<and>
        (\<forall>cid. \<exists>err. cri_ContainerStatus env timeout cid = Inl err \<and> \<not> is_NotFound env err))"

lemma NewCRIClient_timeout:
  "deadline_ok env \<Longrightarrow> NewCRIClient env socket timeout = Inr c \<Longrightarrow> 0 < timeout \<and> criTimeout c = timeout"
  by (force simp: NewCRIClient_def deadline_ok_def not_less [symmetric] split: if_splits option.splits)

lemmas sentinel_defs = ErrNotPod_def ErrNotIndexed_def ErrContainerNotFound_def

lemma ContainerNames_ok: "ContainerNames env c cid = Inr info \<Longrightarrow> info_ok info"
  by (auto simp: ContainerNames_def Let_def info_ok_def split: if_splits sum.splits option.splits)

text \<open>The labels behind a missing pod: the runtime knows the container, and not all labels are set.\<close>

definition unlabelled :: "(string \<rightharpoonup> string) \<Rightarrow> bool" where
  "unlabelled labels \<longleftrightarrow>
     (\<exists>l \<in> {podNamespaceLabel, podNameLabel, containerNameLabel}. map_get labels l = [])"

lemma ContainerNames_errors:
  assumes "cri_foreign env" and "ContainerNames env c cid = Inl e"
  shows "\<not> errors_Is e ErrNotIndexed"
    and "errors_Is e ErrContainerNotFound \<longleftrightarrow>
      cid \<noteq> [] \<and> (\<exists>err. cri_ContainerStatus env (criTimeout c) cid = Inl err \<and> is_NotFound env err)"
    and "errors_Is e ErrNotPod \<longleftrightarrow> cid \<noteq> [] \<and>
      (\<exists>labels. cri_ContainerStatus env (criTimeout c) cid = Inr (Some \<lparr>Status = Some labels\<rparr>) \<and> unlabelled labels)"
proof -
  have foreign: "\<not> errors_Is err ErrNotPod \<and> \<not> errors_Is err ErrNotIndexed \<and> \<not> errors_Is err ErrContainerNotFound"
    if "cri_ContainerStatus env (criTimeout c) cid = Inl err" for err
    using that assms(1) by (auto simp: cri_foreign_def podmap_sentinels_def)
  show "\<not> errors_Is e ErrNotIndexed" "errors_Is e ErrContainerNotFound \<longleftrightarrow>
      cid \<noteq> [] \<and> (\<exists>err. cri_ContainerStatus env (criTimeout c) cid = Inl err \<and> is_NotFound env err)"
    "errors_Is e ErrNotPod \<longleftrightarrow> cid \<noteq> [] \<and>
      (\<exists>labels. cri_ContainerStatus env (criTimeout c) cid = Inr (Some \<lparr>Status = Some labels\<rparr>) \<and> unlabelled labels)"
    using assms(2) foreign
    by (auto simp: ContainerNames_def Let_def sentinel_defs unlabelled_def
        split: if_splits sum.splits option.splits)
      (metis ContainerStatusResponse.surjective old.unit.exhaust)+
qed

end
