(* ===== verification/PodMap.thy ===== *)
theory PodMap
  imports Cri
begin

text \<open>
  \<^verbatim>\<open>pkg/podmap/podmap.go\<close>: the cache in front of the cgroup index and the CRI client. The environment of
  a call is the file system, the CRI and the four readings of the clock the call can make, in its
  order. The read-write lock protects single map operations; the agent calls \<^verbatim>\<open>ContainerInfo\<close> from one
  goroutine, so a call is one step.
\<close>

record cacheEntry =
  info :: ContainerInfo
  storedAt :: int

record PodMap =
  index :: Index
  cri :: CRIClient
  cache :: "u64 \<rightharpoonup> cacheEntry"
  cacheTTL :: int
  cgroupIndexRebuilds :: u64

record pod_env =
  lstat :: "string \<Rightarrow> goerr + fsnode"
  now_cache :: int
  now_rebuild :: int
  now_rebuilt :: int
  now_store :: int
  cri_of :: cri_env

definition NewPodMap :: "pod_env \<Rightarrow> string \<Rightarrow> string \<Rightarrow> int \<Rightarrow> int \<Rightarrow> int \<Rightarrow> goerr + PodMap" where
  "NewPodMap env cgroupRoot criSocket ival timeout ttl =
     (if cgroupRoot = [] then Inl (ErrorString ''cgroup root is empty'')
      else if criSocket = [] then Inl (ErrorString ''CRI socket is empty'')
      else if ival \<le> 0 then Inl (ErrorString ''interval must be positive'')
      else if ttl \<le> 0 then Inl (ErrorString ''cache TTL must be positive'')
      else case BuildCgroupIndex (lstat env) (now_rebuilt env) cgroupRoot ival of
        Inl err \<Rightarrow> Inl (WrapError ''build cgroup index: %w'' err)
      | Inr idx \<Rightarrow>
          (case NewCRIClient (cri_of env) criSocket timeout of
             Inl err \<Rightarrow> Inl (WrapError ''create CRI client: %w'' err)
           | Inr c \<Rightarrow> Inr \<lparr>index = idx, cri = c, cache = Map.empty, cacheTTL = ttl,
                            cgroupIndexRebuilds = 0\<rparr>))"

text \<open>The end of \<^verbatim>\<open>ContainerInfo\<close>, from the CRI call on.\<close>

definition finish_info :: "pod_env \<Rightarrow> u64 \<Rightarrow> ToIDs \<Rightarrow> PodMap \<Rightarrow> (goerr + ContainerInfo) \<times> PodMap" where
  "finish_info env cgroupID ids p =
     (case ContainerNames (cri_of env) (cri p) (ContainerID ids) of
        Inl err \<Rightarrow> (Inl (WrapError ''get container info for cgroup %d: %w'' err), p)
      | Inr i \<Rightarrow> (Inr i, p\<lparr>cache := (cache p)(cgroupID \<mapsto> \<lparr>info = i, storedAt = now_store env\<rparr>)\<rparr>))"

definition ContainerInfo :: "pod_env \<Rightarrow> u64 \<Rightarrow> PodMap \<Rightarrow> (goerr + ContainerInfo) \<times> PodMap" where
  "ContainerInfo env cgroupID p =
     (if cgroupID = 0 then (Inl (ErrorString ''cgroup ID is empty''), p)
      else
        (let lookup =
           (case ParseCgroupToIDs (index p) cgroupID of
              Inr ids \<Rightarrow> finish_info env cgroupID ids p
            | Inl err \<Rightarrow>
                if errors_Is err ErrNotIndexed then
                  (let (res, idx) =
                         RebuildCgroupIndex (lstat env) (now_rebuild env) (now_rebuilt env) (index p);
                       p = p\<lparr>index := idx\<rparr>
                   in case res of
                        Inl rerr \<Rightarrow> (Inl (WrapError ''rebuild cgroup index: %w'' rerr), p)
                      | Inr rebuilt \<Rightarrow>
                          if \<not> rebuilt then (Inl err, p)
                          else
                            (let p = p\<lparr>cgroupIndexRebuilds := cgroupIndexRebuilds p + 1\<rparr>;
                                 p = p\<lparr>cache := Map.empty\<rparr>
                             in case ParseCgroupToIDs (index p) cgroupID of
                                  Inl err \<Rightarrow> (Inl (WrapError ''parse cgroup %d after rebuild: %w'' err), p)
                                | Inr ids \<Rightarrow> finish_info env cgroupID ids p))
                else (Inl (WrapError ''parse cgroup %d: %w'' err), p))
         in case cache p cgroupID of
              Some entry \<Rightarrow>
                if time_Since (now_cache env) (storedAt entry) < cacheTTL p then (Inr (info entry), p)
                else lookup
            | None \<Rightarrow> lookup))"

definition CgroupIndexRebuilds :: "PodMap \<Rightarrow> u64" where
  "CgroupIndexRebuilds p = cgroupIndexRebuilds p"

definition PodMap_Close :: "cri_env \<Rightarrow> PodMap option \<Rightarrow> goerr option" where
  "PodMap_Close env p = (case p of None \<Rightarrow> None | Some p \<Rightarrow> CRIClient_Close env (Some (cri p)))"

section \<open>Normal form of a lookup\<close>

definition cached :: "pod_env \<Rightarrow> u64 \<Rightarrow> PodMap \<Rightarrow> ContainerInfo option" where
  "cached env cg p =
     (case cache p cg of
        Some e \<Rightarrow> if time_Since (now_cache env) (storedAt e) < cacheTTL p then Some (info e) else None
      | None \<Rightarrow> None)"

definition rebuild_due :: "pod_env \<Rightarrow> u64 \<Rightarrow> PodMap \<Rightarrow> bool" where
  "rebuild_due env cg p \<longleftrightarrow> byInode (index p) cg = None \<and>
     interval (index p) \<le> time_Since (now_rebuild env) (lastUpdated (index p))"

text \<open>The pod map after the index has been brought up to date for this call, if it is due.\<close>

definition refreshed :: "pod_env \<Rightarrow> u64 \<Rightarrow> PodMap \<Rightarrow> PodMap" where
  "refreshed env cg p =
     (if rebuild_due env cg p
      then p\<lparr>index := (index p)\<lparr>byInode := map_of (rev (root_dirs (lstat env) (root (index p)))),
                               lastUpdated := now_rebuilt env\<rparr>,
             cgroupIndexRebuilds := cgroupIndexRebuilds p + 1, cache := Map.empty\<rparr>
      else p)"

text \<open>What the index then says of the cgroup.\<close>

definition resolved :: "pod_env \<Rightarrow> u64 \<Rightarrow> PodMap \<Rightarrow> goerr + ToIDs" where
  "resolved env cg p = ParseCgroupToIDs (index (refreshed env cg p)) cg"

lemma refreshed_cri [simp]: "cri (refreshed env cg p) = cri p"
  by (simp add: refreshed_def)

lemma Rebuild_eq:
  "RebuildCgroupIndex ls now now' idx =
     (if interval idx \<le> time_Since now (lastUpdated idx)
      then (Inr True, idx\<lparr>byInode := map_of (rev (root_dirs ls (root idx))), lastUpdated := now'\<rparr>)
      else (Inr False, idx))"
  by (simp add: RebuildCgroupIndex_def buildCgroupInodeMap_eq)

text \<open>An error of a lookup wraps the error of the index or of the CRI.\<close>

definition same_class :: "goerr \<Rightarrow> goerr \<Rightarrow> bool" where
  "same_class e e0 \<longleftrightarrow> (\<forall>s. errors_Is e (Sentinel s) \<longleftrightarrow> errors_Is e0 (Sentinel s))"

lemma same_class_refl [simp]: "same_class e e"
  by (simp add: same_class_def)

lemma same_class_Wrap [simp]: "same_class (WrapError m e) e"
  by (simp add: same_class_def)

lemma finish_info_cases:
  "case ContainerNames (cri_of env) (cri p) (ContainerID ids) of
     Inr i \<Rightarrow> finish_info env cg ids p =
       (Inr i, p\<lparr>cache := (cache p)(cg \<mapsto> \<lparr>info = i, storedAt = now_store env\<rparr>)\<rparr>)
   | Inl e0 \<Rightarrow> \<exists>e. finish_info env cg ids p = (Inl e, p) \<and> same_class e e0"
  by (simp add: finish_info_def split: sum.split)

lemma ContainerInfo_uncached:
  assumes "cg \<noteq> 0" "cached env cg p = None"
  shows "case ParseCgroupToIDs (index (refreshed env cg p)) cg of
      Inl e0 \<Rightarrow> \<exists>e. ContainerInfo env cg p = (Inl e, refreshed env cg p) \<and> same_class e e0
    | Inr ids \<Rightarrow> ContainerInfo env cg p = finish_info env cg ids (refreshed env cg p)"
proof (cases "byInode (index p) cg")
  case None
  have nI: "errors_Is ErrNotIndexed ErrNotIndexed" by (simp add: ErrNotIndexed_def)
  from None assms show ?thesis
    by (cases "interval (index p) \<le> time_Since (now_rebuild env) (lastUpdated (index p))")
      (auto simp: ContainerInfo_def Rebuild_eq ParseCgroupToIDs_None nI refreshed_def rebuild_due_def cached_def
        Let_def split: option.splits sum.splits if_splits)
next
  case (Some path)
  then have r: "refreshed env cg p = p" by (simp add: refreshed_def rebuild_due_def)
  have "\<not> errors_Is e ErrNotIndexed" if "ParseCgroupToIDs (index p) cg = Inl e" for e
    using ParseCgroupToIDs_not_indexed [OF that] Some by simp
  with assms show ?thesis
    by (auto simp: ContainerInfo_def r cached_def Let_def split: option.splits sum.splits if_splits)
qed

lemma ContainerInfo_cached:
  "cg \<noteq> 0 \<Longrightarrow> cached env cg p = Some i \<Longrightarrow> ContainerInfo env cg p = (Inr i, p)"
  by (auto simp: ContainerInfo_def cached_def Let_def split: option.splits if_splits)

lemma ContainerInfo_zero:
  "ContainerInfo env 0 p = (Inl (ErrorString ''cgroup ID is empty''), p)"
  by (simp add: ContainerInfo_def)

section \<open>Invariant\<close>

text \<open>What holds of a pod map at all times. A cached cgroup is one the index still has: this is what
  clearing the cache after a rebuild is for.\<close>

definition podmap_ok :: "PodMap \<Rightarrow> bool" where
  "podmap_ok p \<longleftrightarrow> 0 < cacheTTL p \<and> 0 < interval (index p) \<and> cache p 0 = None \<and>
     (\<forall>cg e. cache p cg = Some e \<longrightarrow>
        info_ok (info e) \<and> (\<exists>ids. ParseCgroupToIDs (index p) cg = Inr ids))"

fun pod_run :: "(pod_env \<times> u64) list \<Rightarrow> PodMap \<Rightarrow> PodMap" where
  "pod_run [] p = p"
| "pod_run ((env, cg) # calls) p = pod_run calls (snd (ContainerInfo env cg p))"

lemma NewPodMap_ok: "NewPodMap env r s ival timeout ttl = Inr p \<Longrightarrow> podmap_ok p"
  by (auto simp: NewPodMap_def BuildCgroupIndex_def podmap_ok_def split: if_splits sum.splits)

lemma refreshed_ok: "podmap_ok p \<Longrightarrow> podmap_ok (refreshed env cg p)"
  by (simp add: podmap_ok_def refreshed_def)

lemma finish_info_ok:
  assumes "podmap_ok p" "ParseCgroupToIDs (index p) cg = Inr ids" "cg \<noteq> 0"
  shows "podmap_ok (snd (finish_info env cg ids p))"
  using assms ContainerNames_ok by (auto simp: finish_info_def podmap_ok_def split: sum.split)

text \<open>The pod map after a call is the refreshed one, possibly with one more cache entry.\<close>

lemma ContainerInfo_state:
  assumes "podmap_ok p"
  obtains (unchanged) "snd (ContainerInfo env cg p) = p"
  | (failed) "snd (ContainerInfo env cg p) = refreshed env cg p"
  | (looked_up) ids where "cg \<noteq> 0" "ParseCgroupToIDs (index (refreshed env cg p)) cg = Inr ids"
      "ContainerInfo env cg p = finish_info env cg ids (refreshed env cg p)"
proof (cases "cg = 0")
  case True
  then show thesis using unchanged by (simp add: ContainerInfo_zero)
next
  case nz: False
  show thesis
  proof (cases "cached env cg p")
    case (Some i)
    then show thesis using unchanged nz by (simp add: ContainerInfo_cached)
  next
    case None
    note u = ContainerInfo_uncached [OF nz None]
    show thesis
    proof (cases "ParseCgroupToIDs (index (refreshed env cg p)) cg")
      case (Inl e)
      with u show thesis using failed by auto
    next
      case (Inr ids)
      with u nz show thesis using looked_up by simp
    qed
  qed
qed

lemma ContainerInfo_ok:
  assumes "podmap_ok p"
  shows "podmap_ok (snd (ContainerInfo env cg p))"
  using assms
proof (cases rule: ContainerInfo_state [of p env cg])
  case (looked_up ids)
  then show ?thesis using finish_info_ok refreshed_ok assms by simp
qed (simp_all add: assms refreshed_ok)

lemma pod_run_ok: "podmap_ok p \<Longrightarrow> podmap_ok (pod_run calls p)"
  by (induction calls p rule: pod_run.induct) (simp_all add: ContainerInfo_ok)

section \<open>Rebuilding\<close>

lemma finish_info_frame [simp]:
  "index (snd (finish_info env cg ids p)) = index p"
  "cgroupIndexRebuilds (snd (finish_info env cg ids p)) = cgroupIndexRebuilds p"
  by (simp_all add: finish_info_def split: sum.split)

text \<open>The clock does not run backwards during a call, and a call starts no earlier than the one before;
  the interval is an \<^verbatim>\<open>int64\<close>.\<close>

definition clock_ok :: "pod_env \<Rightarrow> bool" where
  "clock_ok env \<longleftrightarrow> now_rebuild env \<le> now_rebuilt env"

lemma time_Since_ge: "d \<le> time_Since now t \<Longrightarrow> 0 < d \<Longrightarrow> t + d \<le> now"
  by (simp add: time_Since_def)

lemma refreshed_rate:
  assumes "podmap_ok p" "clock_ok env"
  obtains n :: nat where "n \<le> 1" "n = 1 \<longleftrightarrow> rebuild_due env cg p"
    "cgroupIndexRebuilds (refreshed env cg p) = cgroupIndexRebuilds p + of_nat n"
    "lastUpdated (index p) + int n * interval (index p) \<le> lastUpdated (index (refreshed env cg p))"
    "interval (index (refreshed env cg p)) = interval (index p)"
proof (cases "rebuild_due env cg p")
  case True
  then have "lastUpdated (index p) + interval (index p) \<le> now_rebuild env"
    using assms(1) by (intro time_Since_ge) (simp_all add: rebuild_due_def podmap_ok_def)
  with True assms(2) show thesis
    by (intro that [of 1]) (simp_all add: refreshed_def clock_ok_def)
next
  case False
  then show thesis by (intro that [of 0]) (simp_all add: refreshed_def)
qed

lemma ContainerInfo_rate:
  assumes "podmap_ok p" "clock_ok env"
  obtains n :: nat where
    "cgroupIndexRebuilds (snd (ContainerInfo env cg p)) = cgroupIndexRebuilds p + of_nat n"
    "lastUpdated (index p) + int n * interval (index p) \<le> lastUpdated (index (snd (ContainerInfo env cg p)))"
    "interval (index (snd (ContainerInfo env cg p))) = interval (index p)" "n \<le> 1"
  using assms(1)
proof (cases rule: ContainerInfo_state [of p env cg])
  case unchanged
  then show thesis by (intro that [of 0]) simp_all
next
  case failed
  then show thesis using refreshed_rate [OF assms, of cg] that by metis
next
  case (looked_up ids)
  then show thesis using refreshed_rate [OF assms, of cg] that by (metis finish_info_frame)
qed

lemma pod_run_rate:
  "podmap_ok p \<Longrightarrow> \<forall>c \<in> set calls. clock_ok (fst c) \<Longrightarrow>
   \<exists>n. n \<le> length calls \<and> cgroupIndexRebuilds (pod_run calls p) = cgroupIndexRebuilds p + of_nat n \<and>
     lastUpdated (index p) + int n * interval (index p) \<le> lastUpdated (index (pod_run calls p)) \<and>
     interval (index (pod_run calls p)) = interval (index p)"
proof (induction calls p rule: pod_run.induct)
  case (2 env cg calls p)
  let ?p = "snd (ContainerInfo env cg p)"
  obtain k where k: "cgroupIndexRebuilds ?p = cgroupIndexRebuilds p + of_nat k"
    "lastUpdated (index p) + int k * interval (index p) \<le> lastUpdated (index ?p)"
    "interval (index ?p) = interval (index p)" "k \<le> 1"
    using ContainerInfo_rate [of p env cg] "2.prems" by auto
  obtain n where n: "n \<le> length calls" "cgroupIndexRebuilds (pod_run calls ?p) = cgroupIndexRebuilds ?p + of_nat n"
    "lastUpdated (index ?p) + int n * interval (index ?p) \<le> lastUpdated (index (pod_run calls ?p))"
    "interval (index (pod_run calls ?p)) = interval (index ?p)"
    using "2.IH" "2.prems" ContainerInfo_ok by auto
  have "lastUpdated (index p) + int (k + n) * interval (index p) \<le> lastUpdated (index (pod_run calls ?p))"
    using k(2,3) n(3) by (simp add: algebra_simps)
  with k n show ?case
    by (intro exI [of _ "k + n"]) (simp add: algebra_simps)
qed simp

section \<open>Classes of errors\<close>

lemma parse_error_class:
  assumes "ParseCgroupToIDs idx cg = Inl e"
  shows "(errors_Is e ErrNotIndexed \<longleftrightarrow> byInode idx cg = None) \<and> \<not> errors_Is e ErrContainerNotFound \<and>
    (errors_Is e ErrNotPod \<longleftrightarrow> (\<exists>path. byInode idx cg = Some path \<and> \<not> Contains path ''kubepods''))"
proof (cases "byInode idx cg")
  case None
  then show ?thesis using assms by (auto simp: ParseCgroupToIDs_None sentinel_defs)
next
  case (Some path)
  with assms have p: "parseCgroupPath path = Inl e" by (simp add: ParseCgroupToIDs_def Lookup_def)
  have "\<not> errors_Is e ErrContainerNotFound"
    using p by (auto simp: parseCgroupPath_def sentinel_defs dest: parse_parts_Inl split: if_splits)
  with Some parseCgroupPath_Inl [OF p] show ?thesis by simp
qed

lemma parse_ok_hex: "ParseCgroupToIDs idx cg = Inr ids \<Longrightarrow> isHex (ContainerID ids)"
  by (auto simp: ParseCgroupToIDs_def Lookup_def parseCgroupPath_def dest: parse_parts_Inr
      split: option.splits if_splits)

lemma parse_ok_path:
  "ParseCgroupToIDs idx cg = Inr ids \<Longrightarrow> \<exists>path. byInode idx cg = Some path \<and> Contains path ''kubepods''"
  by (auto simp: ParseCgroupToIDs_def Lookup_def parseCgroupPath_def split: option.splits if_splits)

lemma finish_info_class:
  assumes "cri_foreign (cri_of env)" "ContainerID ids \<noteq> []"
  shows "case fst (finish_info env cg ids p) of
      Inr i \<Rightarrow> info_ok i \<and> ContainerNames (cri_of env) (cri p) (ContainerID ids) = Inr i
    | Inl e \<Rightarrow> \<not> errors_Is e ErrNotIndexed \<and>
        (errors_Is e ErrContainerNotFound \<longleftrightarrow>
           (\<exists>err. cri_ContainerStatus (cri_of env) (criTimeout (cri p)) (ContainerID ids) = Inl err \<and> is_NotFound (cri_of env) err)) \<and>
        (errors_Is e ErrNotPod \<longleftrightarrow> (\<exists>labels. unlabelled labels \<and>
           cri_ContainerStatus (cri_of env) (criTimeout (cri p)) (ContainerID ids) = Inr (Some \<lparr>Status = Some labels\<rparr>)))"
proof (cases "ContainerNames (cri_of env) (cri p) (ContainerID ids)")
  case (Inr i)
  then show ?thesis by (simp add: finish_info_def ContainerNames_ok)
next
  case (Inl e0)
  note c = ContainerNames_errors [OF assms(1) Inl]
  from Inl have "fst (finish_info env cg ids p) = Inl (WrapError ''get container info for cgroup %d: %w'' e0)"
    by (simp add: finish_info_def)
  moreover have "errors_Is (WrapError m e0) t = errors_Is e0 t"
    if "t \<in> {ErrNotPod, ErrNotIndexed, ErrContainerNotFound}" for m t
    using that by (auto simp: sentinel_defs)
  ultimately show ?thesis using c assms(2) by auto
qed

section \<open>Properties\<close>

text \<open>A node with one pod for the witnesses: the cgroup of its container has inode 5.\<close>

definition sample_labels :: "string \<rightharpoonup> string" where
  "sample_labels = [podNamespaceLabel \<mapsto> ''default'', podNameLabel \<mapsto> ''ffmpeg-vaapi-test'',
     containerNameLabel \<mapsto> ''ffmpeg'']"

definition DeadlineExceeded :: goerr where "DeadlineExceeded = Sentinel ''context deadline exceeded''"

definition sample_cri :: cri_env where
  "sample_cri = \<lparr>grpc_NewClient = None, cri_Version = (\<lambda>timeout. if timeout \<le> 0 then Some DeadlineExceeded else None),
     cri_ContainerStatus = (\<lambda>timeout cid. if timeout \<le> 0 then Inl DeadlineExceeded else if cid = ''0c1d'' then Inr (Some \<lparr>Status = Some sample_labels\<rparr>)
                                  else Inl (Sentinel ''rpc error'')),
     is_NotFound = (\<lambda>e. e \<noteq> DeadlineExceeded), conn_Close = None\<rparr>"

definition sample_pod_env :: "int \<Rightarrow> pod_env" where
  "sample_pod_env t = \<lparr>lstat = (\<lambda>p. if t < 5 then Inl (Sentinel ''not mounted'') else Inr sample_cgroupfs),
     now_cache = t, now_rebuild = t, now_rebuilt = t + 1, now_store = t + 2, cri_of = sample_cri\<rparr>"

definition sample_podmap :: PodMap where
  "sample_podmap = \<lparr>index = \<lparr>byInode = Map.empty, root = ''/cg'', lastUpdated = 1, interval = 5\<rparr>,
     cri = \<lparr>criTimeout = 5\<rparr>, cache = Map.empty, cacheTTL = 60, cgroupIndexRebuilds = 0\<rparr>"

definition sample_info :: ContainerInfo where
  "sample_info = \<lparr>Namespace = ''default'', PodName = ''ffmpeg-vaapi-test'', ContainerName = ''ffmpeg''\<rparr>"

lemma sample_podmap_new:
  "NewPodMap (sample_pod_env 0) ''/cg'' ''/run/cri.sock'' 5 5 60 = Inr sample_podmap"
  by (simp add: NewPodMap_def BuildCgroupIndex_def buildCgroupInodeMap_eq root_dirs_def NewCRIClient_def
      sample_pod_env_def sample_cri_def sample_podmap_def)

lemma sample_deadline: "deadline_ok sample_cri"
  by (simp add: deadline_ok_def sample_cri_def)

lemma sample_names: "ContainerNames sample_cri (cri sample_podmap) ''0c1d'' = Inr sample_info"
  by (simp add: ContainerNames_def sample_podmap_def sample_cri_def sample_labels_def map_get_def sample_info_def
      podNamespaceLabel_def podNameLabel_def containerNameLabel_def)

lemma sample_parse: "parseCgroupPath ''/cg/kubepods/podab/0c1d'' = Inr \<lparr>PodUID = ''ab'', ContainerID = ''0c1d''\<rparr>"
proof -
  have "Contains ''/cg/kubepods/podab/0c1d'' ''kubepods''"
    by (simp add: Contains_def HasPrefix_def)
  moreover have "containerIDFromPart ''0c1d'' = Inr ''0c1d''"
    by (rule containerID_plain) (simp add: isHex_def hex_digit_def)
  ultimately show ?thesis
    by (simp add: parseCgroupPath_def ToSlash_def HasPrefix_def podUIDFromPart_def CutPrefix_def)
qed

text \<open>C17: From its creation and through every sequence of lookups, whatever the file system, the runtime
  and the clock do, a pod map has a positive interval and TTL, never caches the empty cgroup ID or an
  answer with an empty name, and caches only cgroups that its current index resolves.\<close>

theorem podmap_invariant:
  assumes "NewPodMap env cgroupRoot criSocket ival timeout ttl = Inr p"
  shows "podmap_ok (pod_run calls p) \<and>
    (\<forall>cg e. cache (pod_run calls p) cg = Some e \<longrightarrow>
       cg \<noteq> 0 \<and> info_ok (info e) \<and> byInode (index (pod_run calls p)) cg \<noteq> None)"
proof -
  have ok: "podmap_ok (pod_run calls p)"
    by (rule pod_run_ok) (rule NewPodMap_ok [OF assms])
  moreover have "byInode (index q) cg \<noteq> None" if "ParseCgroupToIDs (index q) cg = Inr ids" for q cg ids
    using that ParseCgroupToIDs_None by fastforce
  ultimately show ?thesis by (fastforce simp: podmap_ok_def)
qed

theorem podmap_invariant_witness:
  "podmap_ok (pod_run [(sample_pod_env 3, 5), (sample_pod_env 20, 5)] sample_podmap)"
  using podmap_invariant [OF sample_podmap_new] by blast

lemma ContainerInfo_class:
  assumes "podmap_ok p" and "cri_foreign (cri_of env)"
  shows "case fst (ContainerInfo env cg p) of
      Inr i \<Rightarrow> cg \<noteq> 0 \<and> info_ok i \<and>
        (cached env cg p = Some i \<or> (\<exists>ids. resolved env cg p = Inr ids \<and> ContainerNames (cri_of env) (cri p) (ContainerID ids) = Inr i))
    | Inl e \<Rightarrow> cached env cg p = None \<and>
        (errors_Is e ErrNotIndexed \<longleftrightarrow> cg \<noteq> 0 \<and> byInode (index (refreshed env cg p)) cg = None) \<and>
        (errors_Is e ErrContainerNotFound \<longleftrightarrow> cg \<noteq> 0 \<and> (\<exists>ids err. resolved env cg p = Inr ids \<and>
           cri_ContainerStatus (cri_of env) (criTimeout (cri p)) (ContainerID ids) = Inl err \<and> is_NotFound (cri_of env) err)) \<and>
        (errors_Is e ErrNotPod \<longleftrightarrow> cg \<noteq> 0 \<and>
           ((\<exists>path. byInode (index (refreshed env cg p)) cg = Some path \<and> \<not> Contains path ''kubepods'') \<or>
            (\<exists>ids labels. resolved env cg p = Inr ids \<and> unlabelled labels \<and>
               cri_ContainerStatus (cri_of env) (criTimeout (cri p)) (ContainerID ids) = Inr (Some \<lparr>Status = Some labels\<rparr>))))"
proof (cases "cg = 0")
  case True
  moreover have "cached env 0 p = None" using assms(1) by (simp add: cached_def podmap_ok_def)
  ultimately show ?thesis by (simp add: ContainerInfo_zero sentinel_defs)
next
  case nz: False
  show ?thesis
  proof (cases "cached env cg p")
    case (Some i)
    then have "info_ok i" using assms(1) by (auto simp: cached_def podmap_ok_def split: option.splits if_splits)
    with Some nz show ?thesis by (simp add: ContainerInfo_cached)
  next
    case None
    note u = ContainerInfo_uncached [OF nz None, folded resolved_def]
    show ?thesis
    proof (cases "resolved env cg p")
      case (Inl e0)
      then obtain e where e: "fst (ContainerInfo env cg p) = Inl e" "same_class e e0" using u by auto
      have cls: "errors_Is e ErrNotIndexed = errors_Is e0 ErrNotIndexed" "errors_Is e ErrNotPod = errors_Is e0 ErrNotPod"
        "errors_Is e ErrContainerNotFound = errors_Is e0 ErrContainerNotFound"
        using e(2) by (simp_all add: same_class_def sentinel_defs)
      show ?thesis
        using Inl e(1) None nz parse_error_class [OF Inl [unfolded resolved_def]] by (simp add: cls)
    next
      case (Inr ids)
      then have f: "ContainerInfo env cg p = finish_info env cg ids (refreshed env cg p)" using u by simp
      have ix: "\<exists>path. byInode (index (refreshed env cg p)) cg = Some path \<and> Contains path ''kubepods''"
        using parse_ok_path [OF Inr [unfolded resolved_def]] .
      have "ContainerID ids \<noteq> []"
        using parse_ok_hex [OF Inr [unfolded resolved_def]] by (simp add: isHex_def)
      then show ?thesis
        using finish_info_class [OF assms(2), of ids "refreshed env cg p" cg] f Inr None nz ix
        by (cases "fst (finish_info env cg ids (refreshed env cg p))") auto
    qed
  qed
qed

text \<open>What a lookup returns. A name is either a cached answer younger than the TTL or the runtime's
  present answer for the container ID found in the index; all three of its parts are non-empty. The
  three error values that the agent turns into drop reasons mean what they say: \<^verbatim>\<open>ErrNotIndexed\<close> that the
  index, refreshed if that was due, has no such inode; \<^verbatim>\<open>ErrContainerNotFound\<close> that the runtime does not
  know the container; \<^verbatim>\<open>ErrNotPod\<close> that the path lies outside \<^verbatim>\<open>kubepods\<close> or the labels are missing.\<close>

theorem ContainerInfo_classifies:
  assumes "podmap_ok p" and "cri_foreign (cri_of env)"
  shows "case fst (ContainerInfo env cg p) of
      Inr i \<Rightarrow> cg \<noteq> 0 \<and> info_ok i \<and>
        (cached env cg p = Some i \<or> (\<exists>ids. resolved env cg p = Inr ids \<and> ContainerNames (cri_of env) (cri p) (ContainerID ids) = Inr i))
    | Inl e \<Rightarrow> cached env cg p = None \<and>
        (errors_Is e ErrNotIndexed \<longleftrightarrow> cg \<noteq> 0 \<and> byInode (index (refreshed env cg p)) cg = None) \<and>
        (errors_Is e ErrContainerNotFound \<longleftrightarrow> cg \<noteq> 0 \<and> (\<exists>ids err. resolved env cg p = Inr ids \<and>
           cri_ContainerStatus (cri_of env) (criTimeout (cri p)) (ContainerID ids) = Inl err \<and> is_NotFound (cri_of env) err)) \<and>
        (errors_Is e ErrNotPod \<longleftrightarrow> cg \<noteq> 0 \<and>
           ((\<exists>path. byInode (index (refreshed env cg p)) cg = Some path \<and> \<not> Contains path ''kubepods'') \<or>
            (\<exists>ids labels. resolved env cg p = Inr ids \<and> unlabelled labels \<and>
               cri_ContainerStatus (cri_of env) (criTimeout (cri p)) (ContainerID ids) = Inr (Some \<lparr>Status = Some labels\<rparr>))))"
  by (rule ContainerInfo_class [OF assms])

lemma sample_podmap_ok: "podmap_ok sample_podmap"
  using sample_podmap_new by (rule NewPodMap_ok)

lemma sample_foreign: "cri_foreign (cri_of (sample_pod_env t))"
  by (auto simp: cri_foreign_def sample_pod_env_def sample_cri_def DeadlineExceeded_def podmap_sentinels_def sentinel_defs
      split: if_splits)

theorem ContainerInfo_classifies_witness:
  "\<exists>e. fst (ContainerInfo (sample_pod_env 3) 5 sample_podmap) = Inl e \<and> errors_Is e ErrNotIndexed \<and>
     \<not> errors_Is e ErrNotPod"
proof -
  have r: "refreshed (sample_pod_env 3) 5 sample_podmap = sample_podmap"
    by (simp add: refreshed_def rebuild_due_def sample_pod_env_def sample_podmap_def time_Since_def)
  have n: "ParseCgroupToIDs (index sample_podmap) 5 = Inl ErrNotIndexed" "byInode (index sample_podmap) 5 = None"
    by (simp_all add: ParseCgroupToIDs_None sample_podmap_def)
  note c = ContainerInfo_classifies [OF sample_podmap_ok sample_foreign [of 3], of 5]
  have "cached (sample_pod_env 3) 5 sample_podmap = None" by (simp add: cached_def sample_podmap_def)
  with c r n show ?thesis
    by (cases "fst (ContainerInfo (sample_pod_env 3) 5 sample_podmap)") (auto simp: resolved_def)
qed

text \<open>C19: A container that starts after the agent is found: at the first lookup after the interval has passed
  the index is rebuilt once, the directory is found, and the runtime's answer is returned. Until the TTL
  has passed the same answer is returned again without asking the index or the runtime.\<close>

theorem ContainerInfo_new_pod:
  assumes "podmap_ok p" "cg \<noteq> 0"
    and "byInode (index p) cg = None"
    and "interval (index p) \<le> time_Since (now_rebuild env) (lastUpdated (index p))"
    and "distinct (map fst (root_dirs (lstat env) (root (index p))))"
    and "(cg, path) \<in> set (root_dirs (lstat env) (root (index p)))"
    and "parseCgroupPath path = Inr ids"
    and "ContainerNames (cri_of env) (cri p) (ContainerID ids) = Inr i"
  shows "fst (ContainerInfo env cg p) = Inr i \<and>
    CgroupIndexRebuilds (snd (ContainerInfo env cg p)) = CgroupIndexRebuilds p + 1 \<and>
    (\<forall>env'. time_Since (now_cache env') (now_store env) < cacheTTL p \<longrightarrow>
       ContainerInfo env' cg (snd (ContainerInfo env cg p)) = (Inr i, snd (ContainerInfo env cg p)))"
proof -
  have "cached env cg p = None"
    using assms(1,3) ParseCgroupToIDs_None
    by (fastforce simp: cached_def podmap_ok_def split: option.splits if_splits)
  moreover have "rebuild_due env cg p" using assms(3,4) by (simp add: rebuild_due_def)
  moreover have "map_of (rev (root_dirs (lstat env) (root (index p)))) cg = Some path"
    using assms(5,6) by (simp add: map_of_rev_distinct)
  ultimately have p': "ContainerInfo env cg p = finish_info env cg ids (refreshed env cg p)"
    "cgroupIndexRebuilds (refreshed env cg p) = cgroupIndexRebuilds p + 1" "cacheTTL (refreshed env cg p) = cacheTTL p"
    using ContainerInfo_uncached [OF assms(2), of env p] assms(7)
    by (simp_all add: refreshed_def ParseCgroupToIDs_def Lookup_def)
  have "snd (ContainerInfo env cg p) =
      (refreshed env cg p)\<lparr>cache := (cache (refreshed env cg p))(cg \<mapsto> \<lparr>info = i, storedAt = now_store env\<rparr>)\<rparr>"
    using assms(8) by (simp add: p' finish_info_def)
  moreover from this p'(3) have "cached env' cg (snd (ContainerInfo env cg p)) = Some i"
    if "time_Since (now_cache env') (now_store env) < cacheTTL p" for env'
    using that by (simp add: cached_def)
  ultimately show ?thesis
    using assms(2,8) p' by (auto simp: ContainerInfo_cached finish_info_def CgroupIndexRebuilds_def)
qed

theorem ContainerInfo_new_pod_witness:
  "fst (ContainerInfo (sample_pod_env 20) 5 sample_podmap) = Inr sample_info \<and>
   CgroupIndexRebuilds (snd (ContainerInfo (sample_pod_env 20) 5 sample_podmap)) = CgroupIndexRebuilds sample_podmap + 1"
proof -
  have l: "lstat (sample_pod_env 20) = (\<lambda>p. Inr sample_cgroupfs)" "root (index sample_podmap) = ''/cg''"
    by (simp_all add: sample_pod_env_def sample_podmap_def)
  have a: "byInode (index sample_podmap) 5 = None"
    "interval (index sample_podmap) \<le> time_Since (now_rebuild (sample_pod_env 20)) (lastUpdated (index sample_podmap))"
    by (simp_all add: sample_podmap_def sample_pod_env_def time_Since_def)
  have b: "distinct (map fst (root_dirs (lstat (sample_pod_env 20)) (root (index sample_podmap))))"
    "(5, ''/cg/kubepods/podab/0c1d'') \<in> set (root_dirs (lstat (sample_pod_env 20)) (root (index sample_podmap)))"
    unfolding l sample_cgroup_dirs by simp_all
  have c: "ContainerNames (cri_of (sample_pod_env 20)) (cri sample_podmap) (ContainerID \<lparr>PodUID = ''ab'', ContainerID = ''0c1d''\<rparr>) =
      Inr sample_info"
    by (simp add: sample_pod_env_def sample_names)
  show ?thesis
    using ContainerInfo_new_pod [OF sample_podmap_ok _ a b sample_parse c] by simp
qed

text \<open>C20: Rebuilding is rate limited: over any sequence of lookups, the number of rebuilds added to the
  counter times the interval is at most the time between the two last updates of the index, however many
  unknown cgroups are looked up. Within the interval of the last rebuild, a lookup of an unknown cgroup
  answers \<^verbatim>\<open>ErrNotIndexed\<close> without touching anything, so a pod created in that time is not picked up by its
  first event.\<close>

theorem rebuild_rate_limited:
  assumes "podmap_ok p" and "\<forall>c \<in> set calls. clock_ok (fst c)"
  shows "(\<exists>n. n \<le> length calls \<and>
      CgroupIndexRebuilds (pod_run calls p) = CgroupIndexRebuilds p + of_nat n \<and>
      int n * interval (index p) \<le> lastUpdated (index (pod_run calls p)) - lastUpdated (index p)) \<and>
    (\<forall>env cg. cg \<noteq> 0 \<and> byInode (index p) cg = None \<and>
       time_Since (now_rebuild env) (lastUpdated (index p)) < interval (index p) \<longrightarrow>
       ContainerInfo env cg p = (Inl ErrNotIndexed, p))"
proof -
  have "ContainerInfo env cg p = (Inl ErrNotIndexed, p)"
    if a: "cg \<noteq> 0" "byInode (index p) cg = None"
      "time_Since (now_rebuild env) (lastUpdated (index p)) < interval (index p)" for env cg
  proof -
    have "cache p cg = None"
      using assms(1) a(2) ParseCgroupToIDs_None [OF a(2)]
      by (cases "cache p cg") (fastforce simp: podmap_ok_def)+
    with a show ?thesis
      by (simp add: ContainerInfo_def ParseCgroupToIDs_None Rebuild_eq ErrNotIndexed_def)
  qed
  then show ?thesis
    using pod_run_rate [OF assms] by (fastforce simp: CgroupIndexRebuilds_def)
qed

theorem rebuild_rate_limited_witness:
  "ContainerInfo (sample_pod_env 3) 5 sample_podmap = (Inl ErrNotIndexed, sample_podmap) \<and>
   (\<exists>n. CgroupIndexRebuilds (pod_run [(sample_pod_env 20, 5), (sample_pod_env 21, 9)] sample_podmap) = of_nat n \<and>
     int n * 5 \<le> lastUpdated (index (pod_run [(sample_pod_env 20, 5), (sample_pod_env 21, 9)] sample_podmap)) - 1)"
proof -
  have c: "\<forall>c \<in> set [(sample_pod_env 20, 5), (sample_pod_env 21, 9)]. clock_ok (fst c)"
    by (simp add: clock_ok_def sample_pod_env_def)
  have "interval (index sample_podmap) = 5" "lastUpdated (index sample_podmap) = 1"
    "byInode (index sample_podmap) 5 = None" "CgroupIndexRebuilds sample_podmap = 0"
    "now_rebuild (sample_pod_env 3) = 3"
    by (simp_all add: sample_podmap_def CgroupIndexRebuilds_def sample_pod_env_def)
  moreover have "time_Since 3 1 < 5" by (simp add: time_Since_def)
  ultimately show ?thesis
    using rebuild_rate_limited [OF sample_podmap_ok c] by (auto simp del: pod_run.simps)
qed

end
