(* ===== verification/Metrics.thy ===== *)
theory Metrics
  imports GoLib "HOL-Library.Multiset"
begin

text \<open>
  \<^verbatim>\<open>pkg/metrics/metrics.go\<close>: the collector. Its two counter maps, the set of known devices and the two
  sources it asks at a scrape are one record; a source is a function of the world \<open>'w\<close> it reads. The mutex
  makes every method one step. \<^verbatim>\<open>float64\<close> and the iteration order over Go maps are arguments of
  \<open>Collect\<close>; a channel is the list of what is sent to it. The locale \<open>counter\<close> is the contract of a
  monotone counter family, met by both counter maps.
\<close>

section \<open>Reasons and keys\<close>

definition ReasonDeviceUnknown :: string where "ReasonDeviceUnknown = ''device_unknown''"
definition ReasonNotPod :: string where "ReasonNotPod = ''not_pod''"
definition ReasonNotIndexed :: string where "ReasonNotIndexed = ''not_indexed''"
definition ReasonContainerNotFound :: string where "ReasonContainerNotFound = ''container_not_found''"
definition ReasonQueueFull :: string where "ReasonQueueFull = ''queue_full''"
definition ReasonRingbufFull :: string where "ReasonRingbufFull = ''ringbuf_full''"

lemmas reason_defs = ReasonDeviceUnknown_def ReasonNotPod_def ReasonNotIndexed_def
  ReasonContainerNotFound_def ReasonQueueFull_def ReasonRingbufFull_def

definition dropReasons :: "string list" where
  "dropReasons = [ReasonDeviceUnknown, ReasonNotPod, ReasonNotIndexed, ReasonContainerNotFound,
     ReasonQueueFull]"

record key =
  key_namespace :: string
  key_pod :: string
  key_container :: string
  key_device :: string
  key_vendor :: string
  key_kind :: string

record deviceKey =
  dev_device :: string
  dev_vendor :: string
  dev_driver :: string
  dev_pciID :: string
  dev_numaNode :: string

section \<open>Descriptions and metrics of the Prometheus client\<close>

record Desc =
  fqName :: string
  desc_help :: string
  variableLabels :: "string list"

datatype ValueType = CounterValue | GaugeValue

record 'f Metric =
  m_desc :: Desc
  m_type :: ValueType
  m_value :: 'f
  m_labels :: "string list"

definition ioctlDesc :: Desc where
  "ioctlDesc = \<lparr>fqName = ''kubenpu_ioctl_total'', desc_help = ''Total number of ioctls'',
     variableLabels = [''namespace'', ''pod'', ''container'', ''device'', ''vendor'', ''kind'']\<rparr>"

definition eventsDroppedDesc :: Desc where
  "eventsDroppedDesc = \<lparr>fqName = ''kubenpu_events_dropped_total'',
     desc_help = ''Total number of dropped events'', variableLabels = [''reason'']\<rparr>"

definition cgroupRebuildsDesc :: Desc where
  "cgroupRebuildsDesc = \<lparr>fqName = ''kubenpu_cgroup_index_rebuilds_total'',
     desc_help = ''Total number of cgroup index rebuilds'', variableLabels = []\<rparr>"

definition deviceInfoDesc :: Desc where
  "deviceInfoDesc = \<lparr>fqName = ''kubenpu_device_info'', desc_help = ''Device information'',
     variableLabels = [''device'', ''vendor'', ''driver'', ''pci_id'', ''numa_node'']\<rparr>"

lemmas desc_defs = ioctlDesc_def eventsDroppedDesc_def cgroupRebuildsDesc_def deviceInfoDesc_def

section \<open>The collector\<close>

record 'w Collector =
  ioctlTotal :: "key \<rightharpoonup> u64"
  eventsDroppedTotal :: "string \<rightharpoonup> u64"
  deviceInfo :: "deviceKey set"
  cgroupIndexRebuildsSource :: "('w \<Rightarrow> u64) option"
  kernelDroppedSource :: "('w \<Rightarrow> goerr + u64) option"

definition NewCollector :: "'w Collector" where
  "NewCollector = \<lparr>ioctlTotal = Map.empty,
     eventsDroppedTotal = fold (\<lambda>reason m. m(reason \<mapsto> 0)) dropReasons Map.empty,
     deviceInfo = {}, cgroupIndexRebuildsSource = None, kernelDroppedSource = None\<rparr>"

definition Describe :: "'w Collector \<Rightarrow> Desc list" where
  "Describe c = [ioctlDesc, eventsDroppedDesc, cgroupRebuildsDesc, deviceInfoDesc]"

text \<open>\<^verbatim>\<open>m[k]++\<close> on a Go map, whose missing elements are zero.\<close>

definition map_inc :: "('k \<rightharpoonup> u64) \<Rightarrow> 'k \<Rightarrow> ('k \<rightharpoonup> u64)" where
  "map_inc m k = m(k \<mapsto> (case m k of Some v \<Rightarrow> v | None \<Rightarrow> 0) + 1)"

definition IncIoctl ::
  "string \<Rightarrow> string \<Rightarrow> string \<Rightarrow> string \<Rightarrow> string \<Rightarrow> string \<Rightarrow> 'w Collector \<Rightarrow> 'w Collector" where
  "IncIoctl namespace pod container device vendor kind c =
     c\<lparr>ioctlTotal := map_inc (ioctlTotal c)
        \<lparr>key_namespace = namespace, key_pod = pod, key_container = container,
         key_device = device, key_vendor = vendor, key_kind = kind\<rparr>\<rparr>"

definition IncEventsDropped :: "string \<Rightarrow> 'w Collector \<Rightarrow> 'w Collector" where
  "IncEventsDropped reason c = c\<lparr>eventsDroppedTotal := map_inc (eventsDroppedTotal c) reason\<rparr>"

definition SetCgroupIndexRebuildsSource :: "('w \<Rightarrow> u64) \<Rightarrow> 'w Collector \<Rightarrow> 'w Collector" where
  "SetCgroupIndexRebuildsSource source c = c\<lparr>cgroupIndexRebuildsSource := Some source\<rparr>"

definition SetKernelDroppedSource :: "('w \<Rightarrow> goerr + u64) \<Rightarrow> 'w Collector \<Rightarrow> 'w Collector" where
  "SetKernelDroppedSource source c = c\<lparr>kernelDroppedSource := Some source\<rparr>"

definition SetDeviceInfo ::
  "string \<Rightarrow> string \<Rightarrow> string \<Rightarrow> string \<Rightarrow> string \<Rightarrow> 'w Collector \<Rightarrow> 'w Collector" where
  "SetDeviceInfo device vendor driver pciID numaNode c =
     c\<lparr>deviceInfo := insert \<lparr>dev_device = device, dev_vendor = vendor, dev_driver = driver,
        dev_pciID = pciID, dev_numaNode = numaNode\<rparr> (deviceInfo c)\<rparr>"

text \<open>The orders in which one scrape iterates over the three maps.\<close>

record orders =
  order_ioctl :: "key list"
  order_dropped :: "string list"
  order_device :: "deviceKey list"

definition Collect :: "(u64 \<Rightarrow> 'f) \<Rightarrow> orders \<Rightarrow> 'w \<Rightarrow> 'w Collector \<Rightarrow> 'f Metric list" where
  "Collect float64 ord w c =
     map (\<lambda>k. \<lparr>m_desc = ioctlDesc, m_type = CounterValue, m_value = float64 (the (ioctlTotal c k)),
               m_labels = [key_namespace k, key_pod k, key_container k, key_device k, key_vendor k,
                           key_kind k]\<rparr>) (order_ioctl ord) @
     map (\<lambda>reason. \<lparr>m_desc = eventsDroppedDesc, m_type = CounterValue,
               m_value = float64 (the (eventsDroppedTotal c reason)), m_labels = [reason]\<rparr>)
       (order_dropped ord) @
     (case kernelDroppedSource c of
        None \<Rightarrow> []
      | Some source \<Rightarrow>
          (case source w of
             Inl err \<Rightarrow> []
           | Inr lost \<Rightarrow> [\<lparr>m_desc = eventsDroppedDesc, m_type = CounterValue, m_value = float64 lost,
                           m_labels = [ReasonRingbufFull]\<rparr>])) @
     (let cgroupRebuilds = (case cgroupIndexRebuildsSource c of Some source \<Rightarrow> source w | None \<Rightarrow> 0)
      in [\<lparr>m_desc = cgroupRebuildsDesc, m_type = CounterValue, m_value = float64 cgroupRebuilds,
           m_labels = []\<rparr>]) @
     map (\<lambda>k. \<lparr>m_desc = deviceInfoDesc, m_type = GaugeValue, m_value = float64 1,
               m_labels = [dev_device k, dev_vendor k, dev_driver k, dev_pciID k, dev_numaNode k]\<rparr>)
       (order_device ord)"

section \<open>Counters\<close>

locale counter =
  fixes inc :: "'k \<Rightarrow> 's \<Rightarrow> 's"
    and val :: "'s \<Rightarrow> 'k \<Rightarrow> u64"
    and exported :: "'s \<Rightarrow> 'k set"
  assumes val_inc: "val (inc k s) k' = val s k' + (if k' = k then 1 else 0)"
    and exported_inc: "exported (inc k s) = insert k (exported s)"
    and val_unexported: "k \<notin> exported s \<Longrightarrow> val s k = 0"
begin

text \<open>A counter counts its own increments and nothing else.\<close>

lemma val_fold: "val (fold inc ks s) k = val s k + of_nat (count_list ks k)"
  by (induction ks arbitrary: s) (simp_all add: val_inc)

lemma exported_fold: "exported (fold inc ks s) = set ks \<union> exported s"
  by (induction ks arbitrary: s) (auto simp: exported_inc)

lemma sum_inc:
  assumes "finite (exported s)"
  shows "(\<Sum>k' \<in> exported (inc k s). val (inc k s) k') = (\<Sum>k' \<in> exported s. val s k') + 1"
proof -
  have "(\<Sum>k' \<in> exported (inc k s). val s k') = (\<Sum>k' \<in> exported s. val s k')"
    using assms by (cases "k \<in> exported s") (simp_all add: exported_inc insert_absorb val_unexported)
  moreover have "(\<Sum>k' \<in> exported (inc k s). if k' = k then 1 else 0 :: u64) = 1"
    using assms by (simp add: exported_inc)
  ultimately show ?thesis
    by (simp add: val_inc sum.distrib)
qed

end

definition map_val :: "('k \<rightharpoonup> u64) \<Rightarrow> 'k \<Rightarrow> u64" where
  "map_val m k = (case m k of Some v \<Rightarrow> v | None \<Rightarrow> 0)"

definition inc_key :: "key \<Rightarrow> 'w Collector \<Rightarrow> 'w Collector" where
  "inc_key k = IncIoctl (key_namespace k) (key_pod k) (key_container k) (key_device k) (key_vendor k) (key_kind k)"

lemma map_val_inc: "map_val (map_inc m k) k' = map_val m k' + (if k' = k then 1 else 0)"
  by (simp add: map_val_def map_inc_def)

lemma dom_map_inc [simp]: "dom (map_inc m k) = insert k (dom m)"
  by (simp add: map_inc_def)

lemma map_val_None: "k \<notin> dom m \<Longrightarrow> map_val m k = 0"
  by (simp add: map_val_def domIff)

lemma inc_key_eq: "inc_key k c = c\<lparr>ioctlTotal := map_inc (ioctlTotal c) k\<rparr>"
  by (cases k) (simp add: inc_key_def IncIoctl_def)

interpretation ioctls: counter inc_key "\<lambda>c. map_val (ioctlTotal c)" "\<lambda>c. dom (ioctlTotal c)"
  by unfold_locales (simp_all add: inc_key_eq map_val_inc map_val_None)

interpretation drops: counter IncEventsDropped "\<lambda>c. map_val (eventsDroppedTotal c)" "\<lambda>c. dom (eventsDroppedTotal c)"
  by unfold_locales (simp_all add: IncEventsDropped_def map_val_inc map_val_None)

text \<open>All that the collector has counted, in the 64 bits of its counters.\<close>

definition ioctls_counted :: "'w Collector \<Rightarrow> u64" where
  "ioctls_counted c = (\<Sum>k \<in> dom (ioctlTotal c). map_val (ioctlTotal c) k)"

definition drops_counted :: "'w Collector \<Rightarrow> u64" where
  "drops_counted c = (\<Sum>k \<in> dom (eventsDroppedTotal c). map_val (eventsDroppedTotal c) k)"

definition collector_fin :: "'w Collector \<Rightarrow> bool" where
  "collector_fin c \<longleftrightarrow> finite (dom (ioctlTotal c)) \<and> finite (dom (eventsDroppedTotal c)) \<and> finite (deviceInfo c)"

lemma ioctls_counted_IncIoctl:
  "collector_fin c \<Longrightarrow> ioctls_counted (IncIoctl n p t d v k c) = ioctls_counted c + 1"
  using ioctls.sum_inc [of c "\<lparr>key_namespace = n, key_pod = p, key_container = t, key_device = d, key_vendor = v, key_kind = k\<rparr>"]
  by (simp add: ioctls_counted_def collector_fin_def inc_key_def)

lemma drops_counted_Inc:
  "collector_fin c \<Longrightarrow> drops_counted (IncEventsDropped r c) = drops_counted c + 1"
  using drops.sum_inc [of c r] by (simp add: drops_counted_def collector_fin_def)

lemma collector_frame [simp]:
  "drops_counted (IncIoctl n p t d v k c) = drops_counted c"
  "ioctls_counted (IncEventsDropped r c) = ioctls_counted c"
  "collector_fin (IncIoctl n p t d v k c) = collector_fin c"
  "collector_fin (IncEventsDropped r c) = collector_fin c"
  by (simp_all add: IncIoctl_def IncEventsDropped_def drops_counted_def ioctls_counted_def collector_fin_def)

section \<open>Histories\<close>

datatype 'w collector_op =
    OpIoctl key
  | OpDropped string
  | OpDevice deviceKey
  | OpRebuildsSource "'w \<Rightarrow> u64"
  | OpKernelSource "'w \<Rightarrow> goerr + u64"

fun apply_op :: "'w collector_op \<Rightarrow> 'w Collector \<Rightarrow> 'w Collector" where
  "apply_op (OpIoctl k) c =
     IncIoctl (key_namespace k) (key_pod k) (key_container k) (key_device k) (key_vendor k) (key_kind k) c"
| "apply_op (OpDropped r) c = IncEventsDropped r c"
| "apply_op (OpDevice d) c =
     SetDeviceInfo (dev_device d) (dev_vendor d) (dev_driver d) (dev_pciID d) (dev_numaNode d) c"
| "apply_op (OpRebuildsSource f) c = SetCgroupIndexRebuildsSource f c"
| "apply_op (OpKernelSource f) c = SetKernelDroppedSource f c"

definition collector_run :: "'w collector_op list \<Rightarrow> 'w Collector" where
  "collector_run ops = fold apply_op ops NewCollector"

definition ioctl_ops :: "'w collector_op list \<Rightarrow> key list" where
  "ioctl_ops = List.map_filter (\<lambda>x. case x of OpIoctl k \<Rightarrow> Some k | _ \<Rightarrow> None)"

definition dropped_ops :: "'w collector_op list \<Rightarrow> string list" where
  "dropped_ops = List.map_filter (\<lambda>x. case x of OpDropped r \<Rightarrow> Some r | _ \<Rightarrow> None)"

definition device_ops :: "'w collector_op list \<Rightarrow> deviceKey list" where
  "device_ops = List.map_filter (\<lambda>x. case x of OpDevice d \<Rightarrow> Some d | _ \<Rightarrow> None)"

lemma map_filter_snoc:
  "List.map_filter f (xs @ [x]) = List.map_filter f xs @ (case f x of Some y \<Rightarrow> [y] | None \<Rightarrow> [])"
  by (induction xs) (simp_all add: List.map_filter_simps split: option.split)

lemma apply_op_simps:
  "apply_op (OpIoctl k) c = inc_key k c"
  "apply_op (OpDropped r) c = IncEventsDropped r c"
  "apply_op (OpDevice d) c = c\<lparr>deviceInfo := insert d (deviceInfo c)\<rparr>"
  "apply_op (OpRebuildsSource f) c = c\<lparr>cgroupIndexRebuildsSource := Some f\<rparr>"
  "apply_op (OpKernelSource g) c = c\<lparr>kernelDroppedSource := Some g\<rparr>"
  by (cases d; simp add: inc_key_def SetDeviceInfo_def SetCgroupIndexRebuildsSource_def SetKernelDroppedSource_def)+

text \<open>The counter maps of a run are those of the increments alone, to which the locale applies.\<close>

lemma collector_run_parts:
  "ioctlTotal (collector_run ops) = ioctlTotal (fold inc_key (ioctl_ops ops) (NewCollector :: 'w Collector)) \<and>
   eventsDroppedTotal (collector_run ops) =
     eventsDroppedTotal (fold IncEventsDropped (dropped_ops ops) (NewCollector :: 'w Collector)) \<and>
   deviceInfo (collector_run ops :: 'w Collector) = set (device_ops ops)"
proof (induction ops rule: rev_induct)
  case Nil
  then show ?case
    by (simp add: collector_run_def ioctl_ops_def dropped_ops_def device_ops_def NewCollector_def
        List.map_filter_simps)
next
  case (snoc x ops)
  then show ?case
    by (cases x)
      (simp_all add: collector_run_def ioctl_ops_def dropped_ops_def device_ops_def map_filter_snoc
        apply_op_simps inc_key_eq IncEventsDropped_def del: apply_op.simps)
qed

lemma NewCollector_counts:
  "map_val (ioctlTotal NewCollector) k = 0" "map_val (eventsDroppedTotal NewCollector) r = 0"
  "dom (ioctlTotal NewCollector) = {}" "dom (eventsDroppedTotal NewCollector) = set dropReasons"
  by (auto simp: NewCollector_def map_val_def dropReasons_def)

definition orders_ok :: "orders \<Rightarrow> 'w Collector \<Rightarrow> bool" where
  "orders_ok ord c \<longleftrightarrow>
     distinct (order_ioctl ord) \<and> set (order_ioctl ord) = dom (ioctlTotal c) \<and>
     distinct (order_dropped ord) \<and> set (order_dropped ord) = dom (eventsDroppedTotal c) \<and>
     distinct (order_device ord) \<and> set (order_device ord) = deviceInfo c"

lemma desc_distinct: "distinct [ioctlDesc, eventsDroppedDesc, cgroupRebuildsDesc, deviceInfoDesc]"
  by (simp add: desc_defs)

lemma desc_neq [simp]:
  "eventsDroppedDesc \<noteq> ioctlDesc" "cgroupRebuildsDesc \<noteq> ioctlDesc" "deviceInfoDesc \<noteq> ioctlDesc"
  "ioctlDesc \<noteq> eventsDroppedDesc" "cgroupRebuildsDesc \<noteq> eventsDroppedDesc" "deviceInfoDesc \<noteq> eventsDroppedDesc"
  by (simp_all add: desc_defs)

lemma inj_key_labels:
  "inj (\<lambda>k :: key. [key_namespace k, key_pod k, key_container k, key_device k, key_vendor k, key_kind k])"
  "inj (\<lambda>k :: deviceKey. [dev_device k, dev_vendor k, dev_driver k, dev_pciID k, dev_numaNode k])"
  by (auto intro!: injI key.equality deviceKey.equality)

text \<open>A scrape of a collector is well formed: every metric carries one value for each label of its description,
  only the described metrics appear, and no two of them have the same name and label values. It needs that
  \<^verbatim>\<open>ringbuf_full\<close>, which the kernel source exports, is not one of the collector's own reasons.\<close>

lemma Collect_wf:
  assumes "orders_ok ord c" and "ReasonRingbufFull \<notin> dom (eventsDroppedTotal c)"
  shows "distinct (map (\<lambda>m. (m_desc m, m_labels m)) (Collect float64 ord w c))"
    and "\<forall>m \<in> set (Collect float64 ord w c). m_desc m \<in> set (Describe c) \<and>
       length (m_labels m) = length (variableLabels (m_desc m))"
proof -
  have ring: "ReasonRingbufFull \<notin> set (order_dropped ord)"
    using assms by (simp add: orders_ok_def)
  have d: "distinct (order_ioctl ord)" "distinct (order_dropped ord)" "distinct (order_device ord)"
    using assms(1) by (simp_all add: orders_ok_def)
  show "distinct (map (\<lambda>m. (m_desc m, m_labels m)) (Collect float64 ord w c))"
    using ring d desc_distinct inj_key_labels
    by (auto simp: Collect_def Let_def comp_def distinct_map inj_on_def split: option.split sum.split)
  show "\<forall>m \<in> set (Collect float64 ord w c). m_desc m \<in> set (Describe c) \<and>
       length (m_labels m) = length (variableLabels (m_desc m))"
    by (auto simp: Collect_def Let_def Describe_def desc_defs split: option.splits sum.splits)
qed

section \<open>Properties\<close>

text \<open>C24: The exported counters are exact: after any history of the collector's methods, in any order, each
  ioctl series counts the \<^verbatim>\<open>IncIoctl\<close> calls with exactly its six labels, each drop series counts the
  \<^verbatim>\<open>IncEventsDropped\<close> calls with its reason (in 64 bits), the device set is the devices that were set, and
  the five reasons of \<^verbatim>\<open>dropReasons\<close> are exported from the start.\<close>

theorem collector_counts:
  "map_val (ioctlTotal (collector_run ops)) k = of_nat (count_list (ioctl_ops ops) k) \<and>
   map_val (eventsDroppedTotal (collector_run ops)) r = of_nat (count_list (dropped_ops ops) r) \<and>
   dom (ioctlTotal (collector_run ops)) = set (ioctl_ops ops) \<and>
   dom (eventsDroppedTotal (collector_run ops)) = set dropReasons \<union> set (dropped_ops ops) \<and>
   deviceInfo (collector_run ops) = set (device_ops ops)"
  using collector_run_parts [of ops] ioctls.val_fold [of "ioctl_ops ops" NewCollector k]
    drops.val_fold [of "dropped_ops ops" NewCollector r] ioctls.exported_fold [of "ioctl_ops ops" NewCollector]
    drops.exported_fold [of "dropped_ops ops" NewCollector]
  by (simp add: NewCollector_counts Un_commute)

end
