(* ===== verification/Config.thy ===== *)
theory Config
  imports GoLib
begin

text \<open>
  \<^verbatim>\<open>pkg/config/config.go\<close>. The process environment is the argument \<open>env\<close>, which is \<^verbatim>\<open>os.LookupEnv\<close>. Go's
  \<^verbatim>\<open>int\<close> and \<^verbatim>\<open>time.Duration\<close> are 64-bit signed integers; the multiplication of seconds by
  \<^verbatim>\<open>time.Second\<close> wraps around.
\<close>

record Config =
  Host :: string
  Port :: int
  CfgDriPath :: string
  CfgAccelPath :: string
  CfgSysfsDriPath :: string
  CfgSysfsAccelPath :: string
  CgroupRootPath :: string
  CriSocketPath :: string
  Interval :: int
  Debug :: bool
  AppVersion :: string
  ShutdownTimeout :: int
  CriTimeout :: int
  CacheTTL :: int
  QueueSize :: int

definition wrap64 :: "int \<Rightarrow> int" where
  "wrap64 i = (i + 2 ^ 63) mod 2 ^ 64 - 2 ^ 63"

definition Second :: int where "Second = 1000000000"

definition getEnv :: "(string \<Rightarrow> string option) \<Rightarrow> string \<Rightarrow> string \<Rightarrow> string" where
  "getEnv env k fallback =
     (case env k of Some v \<Rightarrow> if v \<noteq> [] then v else fallback | None \<Rightarrow> fallback)"

definition getEnvInt :: "(string \<Rightarrow> string option) \<Rightarrow> string \<Rightarrow> int \<Rightarrow> int" where
  "getEnvInt env k fallback =
     (case env k of
        None \<Rightarrow> fallback
      | Some v \<Rightarrow>
          if v = [] then fallback
          else (case ParseInt64 v of
                  None \<Rightarrow> fallback
                | Some n \<Rightarrow>
                    if n \<le> 0 then fallback
                    else if k = ''KUBENPU_PORT'' \<and> n > 65535 then fallback
                    else n))"

definition getEnvTimeDuration :: "(string \<Rightarrow> string option) \<Rightarrow> string \<Rightarrow> int \<Rightarrow> int" where
  "getEnvTimeDuration env k fallback =
     (case env k of
        None \<Rightarrow> fallback
      | Some v \<Rightarrow>
          if v = [] then fallback
          else (case ParseInt64 v of None \<Rightarrow> fallback | Some seconds \<Rightarrow> wrap64 (seconds * Second)))"

definition Load :: "(string \<Rightarrow> string option) \<Rightarrow> Config" where
  "Load env = \<lparr>
     Host = getEnv env ''KUBENPU_HOST'' ''0.0.0.0'',
     Port = getEnvInt env ''KUBENPU_PORT'' 8080,
     CfgDriPath = getEnv env ''KUBENPU_DRI_PATH'' ''/dev/dri'',
     CfgAccelPath = getEnv env ''KUBENPU_ACCEL_PATH'' ''/dev/accel'',
     CfgSysfsDriPath = getEnv env ''KUBENPU_SYSFS_DRI_PATH'' ''/sys/class/drm'',
     CfgSysfsAccelPath = getEnv env ''KUBENPU_SYSFS_ACCEL_PATH'' ''/sys/class/accel'',
     CgroupRootPath = getEnv env ''KUBENPU_CGROUP_ROOT_PATH'' ''/sys/fs/cgroup'',
     CriSocketPath = getEnv env ''KUBENPU_CRI_SOCKET_PATH'' ''/run/k3s/containerd/containerd.sock'',
     Interval = getEnvTimeDuration env ''KUBENPU_INTERVAL'' (5 * Second),
     Debug = (getEnvInt env ''KUBENPU_DEBUG'' 0 \<noteq> 0),
     AppVersion = getEnv env ''KUBENPU_APP_VERSION'' ''0.0.1'',
     ShutdownTimeout = getEnvTimeDuration env ''KUBENPU_SHUTDOWN_TIMEOUT'' (5 * Second),
     CriTimeout = getEnvTimeDuration env ''KUBENPU_CRI_TIMEOUT'' (5 * Second),
     CacheTTL = getEnvTimeDuration env ''KUBENPU_CACHE_TTL'' (60 * Second),
     QueueSize = getEnvInt env ''KUBENPU_QUEUE_SIZE'' 4096\<rparr>"

section \<open>Lemmas\<close>

lemma wrap64_range: "- (2 ^ 63) \<le> wrap64 i \<and> wrap64 i < 2 ^ 63"
  using pos_mod_bound [of "2 ^ 64" "i + 2 ^ 63"] pos_mod_sign [of "2 ^ 64" "i + 2 ^ 63"]
  by (simp add: wrap64_def)

lemma wrap64_id: "- (2 ^ 63) \<le> i \<Longrightarrow> i < 2 ^ 63 \<Longrightarrow> wrap64 i = i"
  by (simp add: wrap64_def)

lemma wrap64_eq_iff: "wrap64 i = i \<longleftrightarrow> - (2 ^ 63) \<le> i \<and> i < 2 ^ 63"
  using wrap64_range [of i] wrap64_id by auto

text \<open>The value of a sequence of decimal digits.\<close>

lemma parse_digits_digits_of: "parse_digits a (digits_of n) = Some (a * 10 ^ length (digits_of n) + n)"
proof (induction n arbitrary: a rule: digits_of.induct)
  case (1 n)
  show ?case
  proof (cases "n < 10")
    case True
    then show ?thesis by (simp add: digits_of.simps [of n] digit_val_def)
  next
    case False
    have app: "parse_digits a (s @ [c]) =
        Option.bind (parse_digits a s) (\<lambda>m. map_option (\<lambda>d. 10 * m + d) (digit_val c))" for s c and a :: nat
      by (induction s arbitrary: a) (auto split: option.split)
    have "n mod 10 < 10" by simp
    then have "digit_val (char_of (48 + n mod 10)) = Some (n mod 10)"
      by (simp add: digit_val_def)
    moreover have "10 * (a * 10 ^ k + n div 10) + n mod 10 = a * 10 ^ (Suc k) + n" for k
      by simp
    ultimately show ?thesis
      using False 1 by (simp add: digits_of.simps [of n] app)
  qed
qed

lemma digits_of_hd: "\<exists>d t. d < 10 \<and> digits_of n = char_of (48 + d :: nat) # t"
proof (induction n rule: digits_of.induct)
  case (1 n)
  show ?case
  proof (cases "n < 10")
    case True
    then show ?thesis by (auto simp: digits_of.simps [of n])
  next
    case False
    with 1 obtain d t where "d < 10" "digits_of (n div 10) = char_of (48 + d :: nat) # t" by blast
    with False show ?thesis by (auto simp: digits_of.simps [of n])
  qed
qed

lemma digit_not_sign: "d < 10 \<Longrightarrow> char_of (48 + d :: nat) \<noteq> CHR ''+'' \<and> char_of (48 + d :: nat) \<noteq> CHR ''-''"
proof -
  assume "d < 10"
  then have "of_char (char_of (48 + d) :: char) = 48 + d" by simp
  then have "(of_char (char_of (48 + d) :: char) :: nat) \<noteq> of_char CHR ''+''"
    "(of_char (char_of (48 + d) :: char) :: nat) \<noteq> of_char CHR ''-''"
    by simp_all
  then show ?thesis by metis
qed

lemma ParseInt64_unsigned:
  "s \<noteq> [] \<Longrightarrow> hd s \<noteq> CHR ''+'' \<Longrightarrow> hd s \<noteq> CHR ''-'' \<Longrightarrow>
   ParseInt64 s = (case parse_digits 0 s of None \<Rightarrow> None
     | Some n \<Rightarrow> if int n < 2 ^ 63 then Some (int n) else None)"
  by (cases s) (auto simp: ParseInt64_def Let_def split: option.splits)

lemma ParseInt64_digits_of: "n < 2 ^ 63 \<Longrightarrow> ParseInt64 (digits_of n) = Some (int n)"
proof -
  assume n: "n < 2 ^ 63"
  obtain d t where d: "d < 10" "digits_of n = char_of (48 + d :: nat) # t" using digits_of_hd by blast
  then have "digits_of n \<noteq> []" "hd (digits_of n) \<noteq> CHR ''+''" "hd (digits_of n) \<noteq> CHR ''-''"
    using digit_not_sign by auto
  then have "ParseInt64 (digits_of n) = (case parse_digits 0 (digits_of n) of None \<Rightarrow> None
     | Some n \<Rightarrow> if int n < 2 ^ 63 then Some (int n) else None)"
    by (rule ParseInt64_unsigned)
  also have "parse_digits 0 (digits_of n) = Some n" using parse_digits_digits_of [of 0 n] by simp
  finally show ?thesis using n by simp
qed

lemma ParseInt64_range: "ParseInt64 s = Some n \<Longrightarrow> - (2 ^ 63) \<le> n \<and> n < 2 ^ 63"
  by (auto simp: ParseInt64_def Let_def split: option.splits if_splits prod.splits)

lemma getEnv_nonempty: "fallback \<noteq> [] \<Longrightarrow> getEnv env k fallback \<noteq> []"
  by (simp add: getEnv_def split: option.split)

lemma getEnvInt_range:
  "0 \<le> fallback \<Longrightarrow> fallback < 2 ^ 63 \<Longrightarrow> getEnvInt env k fallback = fallback \<or>
     0 < getEnvInt env k fallback \<and> getEnvInt env k fallback < 2 ^ 63"
  by (auto simp: getEnvInt_def split: option.split dest: ParseInt64_range)

lemma getEnvInt_port: "0 < fallback \<Longrightarrow> fallback \<le> 65535 \<Longrightarrow> 0 < getEnvInt env ''KUBENPU_PORT'' fallback \<and>
     getEnvInt env ''KUBENPU_PORT'' fallback \<le> 65535"
  by (auto simp: getEnvInt_def split: option.split)

lemma getEnvTimeDuration_range:
  "- (2 ^ 63) \<le> fallback \<Longrightarrow> fallback < 2 ^ 63 \<Longrightarrow>
   - (2 ^ 63) \<le> getEnvTimeDuration env k fallback \<and> getEnvTimeDuration env k fallback < 2 ^ 63"
  using wrap64_range by (auto simp: getEnvTimeDuration_def split: option.split)

text \<open>A duration variable that holds a number of seconds.\<close>

lemma getEnvTimeDuration_digits:
  assumes "env k = Some (digits_of n)" and "n < 2 ^ 63"
  shows "getEnvTimeDuration env k fallback = wrap64 (int n * Second)"
proof -
  have "digits_of n \<noteq> []" using digits_of_hd [of n] by auto
  then show ?thesis using assms by (simp add: getEnvTimeDuration_def ParseInt64_digits_of)
qed

section \<open>Properties\<close>

text \<open>C36: Whatever the environment holds, the configuration is usable where the code checks it: the port is
  between 1 and 65535, the queue has room for at least one event, no path and no address is empty, and
  every duration is a 64-bit value. The debug flag is set exactly by a positive \<^verbatim>\<open>KUBENPU_DEBUG\<close>.\<close>

theorem Load_valid:
  "0 < Port (Load env) \<and> Port (Load env) \<le> 65535 \<and> 0 < QueueSize (Load env) \<and> QueueSize (Load env) < 2 ^ 63 \<and>
   (\<forall>s \<in> {Host (Load env), CfgDriPath (Load env), CfgAccelPath (Load env), CfgSysfsDriPath (Load env),
          CfgSysfsAccelPath (Load env), CgroupRootPath (Load env), CriSocketPath (Load env)}. s \<noteq> []) \<and>
   (\<forall>d \<in> {Interval (Load env), ShutdownTimeout (Load env), CriTimeout (Load env), CacheTTL (Load env)}.
      - (2 ^ 63) \<le> d \<and> d < 2 ^ 63) \<and>
   (Debug (Load env) \<longleftrightarrow> (\<exists>v n. env ''KUBENPU_DEBUG'' = Some v \<and> v \<noteq> [] \<and> ParseInt64 v = Some n \<and> 0 < n))"
proof -
  have "Debug (Load env) \<longleftrightarrow> (\<exists>v n. env ''KUBENPU_DEBUG'' = Some v \<and> v \<noteq> [] \<and> ParseInt64 v = Some n \<and> 0 < n)"
    by (auto simp: Load_def getEnvInt_def split: option.splits)
  moreover have "0 < Port (Load env) \<and> Port (Load env) \<le> 65535"
    using getEnvInt_port [of 8080 env] by (simp add: Load_def)
  moreover have "0 < QueueSize (Load env) \<and> QueueSize (Load env) < 2 ^ 63"
    using getEnvInt_range [of 4096 env "''KUBENPU_QUEUE_SIZE''"] by (auto simp: Load_def)
  moreover have "\<forall>d \<in> {Interval (Load env), ShutdownTimeout (Load env), CriTimeout (Load env), CacheTTL (Load env)}.
      - (2 ^ 63) \<le> d \<and> d < 2 ^ 63"
    using getEnvTimeDuration_range [of "5 * Second" env] getEnvTimeDuration_range [of "60 * Second" env]
    by (auto simp: Load_def Second_def)
  ultimately show ?thesis
    by (simp add: getEnv_nonempty Load_def)
qed

theorem Load_valid_witness:
  "0 < QueueSize (Load (\<lambda>k. if k = ''KUBENPU_QUEUE_SIZE'' then Some ''-3'' else None)) \<and>
   CgroupRootPath (Load (\<lambda>k. if k = ''KUBENPU_QUEUE_SIZE'' then Some ''-3'' else None)) \<noteq> []"
  using Load_valid [of "\<lambda>k. if k = ''KUBENPU_QUEUE_SIZE'' then Some ''-3'' else None"] by blast

text \<open>C37: A duration variable set to a number of seconds is taken exactly up to 9223372036 seconds; the
  product by \<^verbatim>\<open>time.Second\<close> wraps around above that, and the value that results is not the one that was
  set.\<close>

theorem duration_seconds:
  assumes "env k = Some (digits_of n)" and "n < 2 ^ 63"
  shows "getEnvTimeDuration env k fallback = wrap64 (int n * Second) \<and>
    (getEnvTimeDuration env k fallback = int n * Second \<longleftrightarrow> n \<le> 9223372036)"
proof -
  have e: "getEnvTimeDuration env k fallback = wrap64 (int n * Second)"
    using assms by (rule getEnvTimeDuration_digits)
  have "int n * Second < 2 ^ 63 \<longleftrightarrow> n \<le> 9223372036"
    by (simp add: Second_def) linarith
  with e show ?thesis by (simp add: wrap64_eq_iff Second_def)
qed

theorem duration_seconds_witness:
  "getEnvTimeDuration (\<lambda>_. Some ''9223372037'') ''KUBENPU_CRI_TIMEOUT'' (5 * Second) = - 9223372036709551616"
proof -
  have d: "digits_of 9223372037 = ''9223372037''"
    by (simp add: digits_of.simps char_of_def numeral_2_eq_2 [symmetric] bit_nat_def)
  have w: "wrap64 (int 9223372037 * Second) = - 9223372036709551616"
    by (simp add: wrap64_def Second_def)
  show ?thesis
    using duration_seconds [of "\<lambda>_. Some (digits_of 9223372037)" "''KUBENPU_CRI_TIMEOUT''" 9223372037 "5 * Second"]
    unfolding w d by simp
qed

end
