(* ===== verification/AgentSetup.thy ===== *)
theory AgentSetup
  imports Hw Loader PodMap Metrics Config
begin

text \<open>
  \<^verbatim>\<open>cmd/agent/main.go\<close> up to the point where the agent is ready: loading, discovery, the loop that fills
  the two kernel tables and the device map, attaching, the pod map, the collector's sources and the
  reader. \<^verbatim>\<open>log.Fatal(err)\<close> ends the process and is the error result. \<open>agent_prepare\<close> ends where the
  HTTP server starts to answer, \<open>agent_start\<close> where the agent reports ready; the flags before and the
  server beside it are in \<open>AgentHttp\<close>.
\<close>

section \<open>State\<close>

record deviceNode =
  dn_major :: u32
  dn_minor :: u32

record deviceMeta =
  pciAddress :: string
  meta_vendor :: string

text \<open>What the sources of the collector read.\<close>

record world =
  w_podmap :: PodMap
  w_loader :: Loader
  w_ebpf :: ebpf_env

text \<open>The variables the setup loop changes.\<close>

record Setup =
  su_loader :: Loader
  su_collector :: "world Collector"
  su_deviceMap :: "deviceNode \<rightharpoonup> deviceMeta"

text \<open>A \<^verbatim>\<open>for range\<close> loop whose body may end the process.\<close>

fun foldE :: "('a \<Rightarrow> 's \<Rightarrow> goerr + 's) \<Rightarrow> 'a list \<Rightarrow> 's \<Rightarrow> goerr + 's" where
  "foldE f [] st = Inr st"
| "foldE f (x # xs) st = (case f x st of Inl err \<Rightarrow> Inl err | Inr st' \<Rightarrow> foldE f xs st')"

section \<open>The setup loop\<close>

definition setup_node :: "ebpf_env \<Rightarrow> Vendor \<Rightarrow> u32 \<Rightarrow> Device \<Rightarrow> Node \<Rightarrow> Setup \<Rightarrow> goerr + Setup" where
  "setup_node env vnd vendorID device node st =
     (let st = st\<lparr>su_deviceMap := (su_deviceMap st)
            (\<lparr>dn_major = Major node, dn_minor = Minor node\<rparr> \<mapsto>
             \<lparr>pciAddress = PciAddress device, meta_vendor = Name vnd\<rparr>)\<rparr>
      in case AddDevice env (Major node) (Minor node) vendorID (su_loader st) of
           Inl err \<Rightarrow> Inl err
         | Inr l \<Rightarrow> Inr (st\<lparr>su_loader := l\<rparr>))"

definition setup_ioctl :: "ebpf_env \<Rightarrow> u32 \<Rightarrow> (u32 \<rightharpoonup> Kind) \<Rightarrow> u32 \<Rightarrow> Setup \<Rightarrow> goerr + Setup" where
  "setup_ioctl env vendorID kinds nr st =
     (case AddIoctl env vendorID nr (the (kinds nr)) (su_loader st) of
        Inl err \<Rightarrow> Inl err
      | Inr l \<Rightarrow> Inr (st\<lparr>su_loader := l\<rparr>))"

text \<open>\<open>iorder\<close> is the order in which Go iterates over a vendor's table.\<close>

definition setup_device ::
  "ebpf_env \<Rightarrow> ((u32 \<rightharpoonup> Kind) \<Rightarrow> u32 list) \<Rightarrow> Vendor list \<Rightarrow> Device \<Rightarrow> Setup \<Rightarrow> goerr + Setup" where
  "setup_device env iorder vendors device st =
     (case GetVendor vendors device of
        None \<Rightarrow> Inr st
      | Some vnd \<Rightarrow>
          (let vendorID = GetVendorID vendors (Name vnd);
               st = st\<lparr>su_collector := SetDeviceInfo (PciAddress device) (Name vnd) (DriverName device)
                         (PciID device) (NumaNode device) (su_collector st)\<rparr>
           in case foldE (setup_node env vnd vendorID device) (Nodes device) st of
                Inl err \<Rightarrow> Inl err
              | Inr st \<Rightarrow>
                  (let kinds = Ioctls vnd
                   in foldE (setup_ioctl env vendorID kinds) (iorder kinds) st)))"

section \<open>The agent at the start of its loops\<close>

datatype phase = Serving | Signalled | ServerStopped | Stopped

record sys =
  s_loader :: Loader
  s_reader_closed :: bool
  s_podmap :: PodMap
  s_podmap_closed :: bool
  s_collector :: "world Collector"
  s_deviceMap :: "deviceNode \<rightharpoonup> deviceMeta"
  s_ready :: bool
  s_phase :: phase
  s_reading :: bool
  s_pending :: "Event option"
  s_queue :: "Event list"
  s_queue_closed :: bool
  s_busy :: "Event option"
  s_worker_done :: bool
  s_exited :: bool
  s_worker_log :: "goerr list"
  s_reader_log :: "goerr list"

record start_env =
  se_ebpf :: ebpf_env
  se_os :: os_env
  se_order :: "(string \<rightharpoonup> Device) \<Rightarrow> string list"
  se_ioctl_order :: "(u32 \<rightharpoonup> Kind) \<Rightarrow> u32 list"
  se_pod :: pod_env
  se_heap :: "nat \<Rightarrow> bool"

definition agent_paths :: "Config \<Rightarrow> Paths" where
  "agent_paths cfg = \<lparr>DriPath = CfgDriPath cfg, AccelPath = CfgAccelPath cfg,
     SysfsDriPath = CfgSysfsDriPath cfg, SysfsAccelPath = CfgSysfsAccelPath cfg\<rparr>"

text \<open>Up to the start of the HTTP server, which answers from here on; the agent is not ready yet.\<close>

definition agent_prepare :: "start_env \<Rightarrow> Config \<Rightarrow> bool \<Rightarrow> goerr + sys" where
  "agent_prepare se cfg debugFlag =
     (case NewLoader (se_ebpf se) debugFlag of
        Inl err \<Rightarrow> Inl err
      | Inr l \<Rightarrow>
     (case Discover (se_os se) (se_order se) (agent_paths cfg) of
        Inl err \<Rightarrow> Inl err
      | Inr devs \<Rightarrow>
     (case foldE (setup_device (se_ebpf se) (se_ioctl_order se) registeredVendors) devs
             \<lparr>su_loader = l, su_collector = NewCollector, su_deviceMap = Map.empty\<rparr> of
        Inl err \<Rightarrow> Inl err
      | Inr st \<Rightarrow>
     (case Attach (se_ebpf se) (su_loader st) of
        (Some err, _) \<Rightarrow> Inl err
      | (None, l) \<Rightarrow>
     (case NewPodMap (se_pod se) (CgroupRootPath cfg) (CriSocketPath cfg) (Interval cfg)
             (CriTimeout cfg) (CacheTTL cfg) of
        Inl err \<Rightarrow> Inl err
      | Inr p \<Rightarrow>
          (let c = SetCgroupIndexRebuildsSource (\<lambda>w. CgroupIndexRebuilds (w_podmap w)) (su_collector st);
               c = SetKernelDroppedSource (\<lambda>w. DroppedEvents (w_ebpf w) (w_loader w)) c
           in Inr \<lparr>s_loader = l, s_reader_closed = False, s_podmap = p, s_podmap_closed = False,
                   s_collector = c, s_deviceMap = su_deviceMap st, s_ready = False, s_phase = Serving,
                   s_reading = True, s_pending = None, s_queue = [], s_queue_closed = False,
                   s_busy = None, s_worker_done = False, s_exited = False, s_worker_log = [],
                   s_reader_log = []\<rparr>))))))"

text \<open>The reader, and readiness. The queue is made after this, which can end the process: \<open>agent_main\<close> in
  \<open>AgentHttp\<close>.\<close>

definition agent_start :: "start_env \<Rightarrow> Config \<Rightarrow> bool \<Rightarrow> goerr + sys" where
  "agent_start se cfg debugFlag =
     (case agent_prepare se cfg debugFlag of
        Inl err \<Rightarrow> Inl err
      | Inr s \<Rightarrow>
          (case CreateReader (se_ebpf se) (s_loader s) of
             (Some err, _) \<Rightarrow> Inl err
           | (None, l) \<Rightarrow> Inr (s\<lparr>s_loader := l, s_ready := True\<rparr>)))"

section \<open>What the tables hold\<close>

text \<open>The kernel tables and the device map fit together: a registered device number is in the device map
  with the vendor whose ID the kernel table holds, and the ioctl table of an ID is the table of that
  vendor.\<close>

definition tables_ok :: "bpf_state \<Rightarrow> (deviceNode \<rightharpoonup> deviceMeta) \<Rightarrow> bool" where
  "tables_ok b dm \<longleftrightarrow>
     (\<forall>maj min v. devices b \<lparr>dk_major = maj, dk_minor = min\<rparr> = Some v \<longrightarrow>
        (\<exists>meta vnd. dm \<lparr>dn_major = maj, dn_minor = min\<rparr> = Some meta \<and> vnd \<in> set registeredVendors \<and>
           meta_vendor meta = Name vnd \<and> v = GetVendorID registeredVendors (Name vnd))) \<and>
     (\<forall>v nr k. ioctls b \<lparr>ik_vendor_id = v, ik_nr = nr\<rparr> = Some k \<longrightarrow>
        (\<exists>vnd \<in> set registeredVendors. v = GetVendorID registeredVendors (Name vnd) \<and>
           Ioctls vnd nr = Some k))"

lemma foldE_invariant:
  assumes "foldE f xs st = Inr st'" "P st"
    and "\<And>x st st'. x \<in> set xs \<Longrightarrow> P st \<Longrightarrow> f x st = Inr st' \<Longrightarrow> P st'"
  shows "P st'"
  using assms
proof (induction xs arbitrary: st)
  case (Cons x xs)
  from Cons.prems(1) obtain st1 where "f x st = Inr st1" "foldE f xs st1 = Inr st'"
    by (auto split: sum.splits)
  moreover from this have "P st1" using Cons.prems(2) Cons.prems(3) [of x st st1] by simp
  ultimately show ?case
    by (intro Cons.IH [of st1]) (auto intro: Cons.prems(3))
qed simp

definition puts_ok :: "ebpf_env \<Rightarrow> bool" where
  "puts_ok env \<longleftrightarrow> hash_put_ok MAX_ENTRIES_DEVICES (Devices_Put env) \<and>
     hash_put_ok MAX_ENTRIES_IOCTLS (Ioctls_Put env)"

text \<open>What the loop does not touch.\<close>

definition setup_frame :: "Loader \<Rightarrow> Setup \<Rightarrow> bool" where
  "setup_frame l st \<longleftrightarrow> events (bpfObjects (su_loader st)) = events (bpfObjects l) \<and>
     dropped (bpfObjects (su_loader st)) = dropped (bpfObjects l) \<and>
     hook (su_loader st) = hook l \<and> rb (su_loader st) = rb l \<and> closeOnce (su_loader st) = closeOnce l \<and>
     closeReaderOnce (su_loader st) = closeReaderOnce l \<and> close_calls (su_loader st) = close_calls l \<and>
     ioctlTotal (su_collector st) = Map.empty \<and>
     eventsDroppedTotal (su_collector st) = eventsDroppedTotal (NewCollector :: world Collector) \<and>
     finite (deviceInfo (su_collector st))"

lemma setup_node_step:
  assumes "puts_ok env" "setup_node env vnd v device node st = Inr st'"
  shows "st' = st\<lparr>
      su_deviceMap := (su_deviceMap st)(\<lparr>dn_major = Major node, dn_minor = Minor node\<rparr> \<mapsto>
        \<lparr>pciAddress = PciAddress device, meta_vendor = Name vnd\<rparr>),
      su_loader := (su_loader st)\<lparr>bpfObjects := (bpfObjects (su_loader st))\<lparr>devices :=
        (devices (bpfObjects (su_loader st)))(\<lparr>dk_major = Major node, dk_minor = Minor node\<rparr> \<mapsto> v)\<rparr>\<rparr>\<rparr>"
  using assms AddDevice_spec [of env "Major node" "Minor node" v "su_loader st"]
  by (auto simp: setup_node_def puts_ok_def Let_def split: sum.splits)

lemma setup_ioctl_step:
  assumes "puts_ok env" "setup_ioctl env v kinds nr st = Inr st'"
  shows "st' = st\<lparr>su_loader := (su_loader st)\<lparr>bpfObjects := (bpfObjects (su_loader st))\<lparr>ioctls :=
        (ioctls (bpfObjects (su_loader st)))(\<lparr>ik_vendor_id = v, ik_nr = nr\<rparr> \<mapsto> the (kinds nr))\<rparr>\<rparr>\<rparr>"
  using assms AddIoctl_spec [of env v nr "the (kinds nr)" "su_loader st"]
  by (auto simp: setup_ioctl_def puts_ok_def split: sum.splits)

lemma setup_node_tables:
  assumes "puts_ok env" "vnd \<in> set registeredVendors"
    and "setup_node env vnd (GetVendorID registeredVendors (Name vnd)) device node st = Inr st'"
    and "tables_ok (bpfObjects (su_loader st)) (su_deviceMap st)"
  shows "tables_ok (bpfObjects (su_loader st')) (su_deviceMap st')"
  using assms(2,4) unfolding setup_node_step [OF assms(1,3)] by (auto simp: tables_ok_def)

lemma setup_ioctl_tables:
  assumes "puts_ok env" "vnd \<in> set registeredVendors" "nr \<in> dom (Ioctls vnd)"
    and "setup_ioctl env (GetVendorID registeredVendors (Name vnd)) (Ioctls vnd) nr st = Inr st'"
    and "tables_ok (bpfObjects (su_loader st)) (su_deviceMap st)"
  shows "tables_ok (bpfObjects (su_loader st')) (su_deviceMap st')"
  using assms(2,3,5) unfolding setup_ioctl_step [OF assms(1,4)] by (auto simp: tables_ok_def)

lemma setup_node_frame:
  assumes "puts_ok env" "setup_frame l st" "setup_node env vnd v device node st = Inr st'"
  shows "setup_frame l st'"
  using assms(2) unfolding setup_node_step [OF assms(1,3)] by (simp add: setup_frame_def)

lemma setup_ioctl_frame:
  assumes "puts_ok env" "setup_frame l st" "setup_ioctl env v kinds nr st = Inr st'"
  shows "setup_frame l st'"
  using assms(2) unfolding setup_ioctl_step [OF assms(1,3)] by (simp add: setup_frame_def)

text \<open>Anything the loop body preserves step by step holds after it.\<close>

lemma setup_device_invariant:
  assumes "setup_device env iorder registeredVendors device st = Inr st'"
    and ord: "\<And>m. finite (dom m) \<Longrightarrow> set (iorder m) = dom m"
    and P: "P st"
    and info: "\<And>(vnd :: Vendor) st. P st \<Longrightarrow> P (st\<lparr>su_collector := SetDeviceInfo (PciAddress device) (Name vnd)
        (DriverName device) (PciID device) (NumaNode device) (su_collector st)\<rparr>)"
    and node: "\<And>vnd node st st'. vnd \<in> set registeredVendors \<Longrightarrow> P st \<Longrightarrow>
      setup_node env vnd (GetVendorID registeredVendors (Name vnd)) device node st = Inr st' \<Longrightarrow> P st'"
    and ioctl: "\<And>vnd nr st st'. vnd \<in> set registeredVendors \<Longrightarrow> nr \<in> dom (Ioctls vnd) \<Longrightarrow> P st \<Longrightarrow>
      setup_ioctl env (GetVendorID registeredVendors (Name vnd)) (Ioctls vnd) nr st = Inr st' \<Longrightarrow> P st'"
  shows "P st'"
proof (cases "GetVendor registeredVendors device")
  case None
  then show ?thesis using assms(1) P by (simp add: setup_device_def)
next
  case (Some vnd)
  then have v: "vnd \<in> set registeredVendors" using GetVendor_Some by blast
  let ?id = "GetVendorID registeredVendors (Name vnd)"
  let ?st = "st\<lparr>su_collector := SetDeviceInfo (PciAddress device) (Name vnd) (DriverName device)
    (PciID device) (NumaNode device) (su_collector st)\<rparr>"
  from assms(1) Some obtain st1 where st1: "foldE (setup_node env vnd ?id device) (Nodes device) ?st = Inr st1"
    and st2: "foldE (setup_ioctl env ?id (Ioctls vnd)) (iorder (Ioctls vnd)) st1 = Inr st'"
    by (auto simp: setup_device_def Let_def split: sum.splits)
  have "P ?st" by (rule info [OF P])
  then have st1_ok: "P st1"
    by (rule foldE_invariant [OF st1]) (rule node [OF v])
  have dom: "nr \<in> dom (Ioctls vnd)" if "nr \<in> set (iorder (Ioctls vnd))" for nr
    using that ord vendor.ioctls_finite [OF registered_vendor [OF v]] by blast
  show ?thesis
  proof (rule foldE_invariant [where P = P, OF st2 st1_ok])
    fix nr st st' assume n: "nr \<in> set (iorder (Ioctls vnd))" and p: "P st"
      and i: "setup_ioctl env ?id (Ioctls vnd) nr st = Inr st'"
    show "P st'" by (rule ioctl [OF v dom [OF n] p i])
  qed
qed

lemma setup_loop_invariant:
  assumes "foldE (setup_device env iorder registeredVendors) devs st = Inr st'"
    and "puts_ok env" and ord: "\<And>m. finite (dom m) \<Longrightarrow> set (iorder m) = dom m"
    and "tables_ok (bpfObjects (su_loader st)) (su_deviceMap st)" and "setup_frame l st"
  shows "tables_ok (bpfObjects (su_loader st')) (su_deviceMap st') \<and> setup_frame l st'"
proof -
  let ?P = "\<lambda>st. tables_ok (bpfObjects (su_loader st)) (su_deviceMap st) \<and> setup_frame l st"
  have step: "?P st'" if "?P st" "setup_device env iorder registeredVendors device st = Inr st'" for device st st'
  proof (rule setup_device_invariant [OF that(2) ord, of ?P])
    show "?P st" by (rule that(1))
  next
    fix vnd :: Vendor and st assume "?P st"
    then show "?P (st\<lparr>su_collector := SetDeviceInfo (PciAddress device) (Name vnd) (DriverName device)
        (PciID device) (NumaNode device) (su_collector st)\<rparr>)"
      by (simp add: setup_frame_def SetDeviceInfo_def)
  next
    fix vnd node st st' assume "vnd \<in> set registeredVendors" "?P st"
      "setup_node env vnd (GetVendorID registeredVendors (Name vnd)) device node st = Inr st'"
    then show "?P st'" using setup_node_tables setup_node_frame assms(2) by blast
  next
    fix vnd nr st st' assume "vnd \<in> set registeredVendors" "nr \<in> dom (Ioctls vnd)" "?P st"
      "setup_ioctl env (GetVendorID registeredVendors (Name vnd)) (Ioctls vnd) nr st = Inr st'"
    then show "?P st'" using setup_ioctl_tables setup_ioctl_frame assms(2) by blast
  qed
  show ?thesis
    by (rule foldE_invariant [OF assms(1), of ?P]) (use assms(4,5) step in blast)+
qed

section \<open>Coverage of the tables\<close>

definition node_key :: "Node \<Rightarrow> device_key" where
  "node_key n = \<lparr>dk_major = Major n, dk_minor = Minor n\<rparr>"

definition nr_key :: "Vendor \<Rightarrow> u32 \<Rightarrow> ioctl_key" where
  "nr_key v nr = \<lparr>ik_vendor_id = GetVendorID registeredVendors (Name v), ik_nr = nr\<rparr>"

definition covered :: "bpf_state \<Rightarrow> Device \<Rightarrow> bool" where
  "covered b d \<longleftrightarrow> (\<forall>v. GetVendor registeredVendors d = Some v \<longrightarrow>
     (\<forall>n \<in> set (Nodes d). node_key n \<in> dom (devices b)) \<and> (\<forall>nr \<in> dom (Ioctls v). nr_key v nr \<in> dom (ioctls b)))"

abbreviation su_devices :: "Setup \<Rightarrow> (device_key \<rightharpoonup> u32)" where
  "su_devices st \<equiv> devices (bpfObjects (su_loader st))"

abbreviation su_ioctls :: "Setup \<Rightarrow> (ioctl_key \<rightharpoonup> u8)" where
  "su_ioctls st \<equiv> ioctls (bpfObjects (su_loader st))"

lemma setup_node_dom:
  assumes "puts_ok env" "setup_node env v i device node st = Inr st'"
  shows "dom (su_devices st') = insert (node_key node) (dom (su_devices st))" "su_ioctls st' = su_ioctls st"
  using setup_node_step [OF assms] by (simp_all add: node_key_def)

lemma setup_ioctl_dom:
  assumes "puts_ok env" "setup_ioctl env (GetVendorID registeredVendors (Name v)) kinds nr st = Inr st'"
  shows "dom (su_ioctls st') = insert (nr_key v nr) (dom (su_ioctls st))" "su_devices st' = su_devices st"
  using setup_ioctl_step [OF assms] by (simp_all add: nr_key_def)

lemma foldE_establish:
  assumes "foldE f xs st = Inr st'"
    and "\<And>x st st'. x \<in> set xs \<Longrightarrow> f x st = Inr st' \<Longrightarrow> Q x st'"
    and "\<And>x y st st'. x \<in> set xs \<Longrightarrow> f x st = Inr st' \<Longrightarrow> Q y st \<Longrightarrow> Q y st'"
  shows "\<forall>x \<in> set xs. Q x st'"
  using assms
proof (induction xs arbitrary: st)
  case (Cons x xs)
  from Cons.prems(1) obtain st1 where 1: "f x st = Inr st1" "foldE f xs st1 = Inr st'"
    by (auto split: sum.splits)
  have "\<forall>y \<in> set xs. Q y st'"
    by (rule Cons.IH [OF 1(2)]; rule Cons.prems; simp)
  moreover have "Q x st'"
  proof (rule foldE_invariant [where P = "Q x", OF 1(2)])
    show "Q x st1" using Cons.prems(2) [OF _ 1(1)] by simp
  next
    fix y st st' assume a: "y \<in> set xs" "Q x st" "f y st = Inr st'"
    show "Q x st'" by (rule Cons.prems(3) [OF _ a(3,2)]) (simp add: a(1))
  qed
  ultimately show ?case by simp
qed simp

lemma setup_device_mono:
  assumes "setup_device env iorder registeredVendors device st = Inr st'" "puts_ok env"
    and ord: "\<And>m. finite (dom m) \<Longrightarrow> set (iorder m) = dom m"
  shows "dom (su_devices st) \<subseteq> dom (su_devices st') \<and> dom (su_ioctls st) \<subseteq> dom (su_ioctls st')"
proof -
  let ?P = "\<lambda>s. dom (su_devices st) \<subseteq> dom (su_devices s) \<and> dom (su_ioctls st) \<subseteq> dom (su_ioctls s)"
  show ?thesis
  proof (rule setup_device_invariant [where P = ?P, OF assms(1) ord])
    fix vnd node s s' assume p: "?P s" and i: "setup_node env vnd (GetVendorID registeredVendors (Name vnd)) device node s = Inr s'"
    show "?P s'" using p setup_node_dom [OF assms(2) i] by auto
  next
    fix vnd :: Vendor and nr s s' assume p: "?P s" and i: "setup_ioctl env (GetVendorID registeredVendors (Name vnd)) (Ioctls vnd) nr s = Inr s'"
    show "?P s'" using p setup_ioctl_dom [OF assms(2) i] by auto
  qed simp_all
qed

lemma setup_device_covers:
  assumes "setup_device env iorder registeredVendors device st = Inr st'" "puts_ok env"
    and ord: "\<And>m. finite (dom m) \<Longrightarrow> set (iorder m) = dom m"
  shows "covered (bpfObjects (su_loader st')) device"
proof -
  have "(\<forall>n \<in> set (Nodes device). node_key n \<in> dom (su_devices st')) \<and> (\<forall>nr \<in> dom (Ioctls v). nr_key v nr \<in> dom (su_ioctls st'))"
    if v: "GetVendor registeredVendors device = Some v" for v
  proof -
    let ?id = "GetVendorID registeredVendors (Name v)"
    from assms(1) v obtain st0 st1 where
      1: "foldE (setup_node env v ?id device) (Nodes device) st0 = Inr st1" and
      2: "foldE (setup_ioctl env ?id (Ioctls v)) (iorder (Ioctls v)) st1 = Inr st'"
      by (auto simp: setup_device_def Let_def split: sum.splits)
    have n: "\<forall>n \<in> set (Nodes device). node_key n \<in> dom (su_devices st1)"
      by (rule foldE_establish [OF 1]) (auto simp: setup_node_dom [OF assms(2)])
    have "\<forall>nr \<in> set (iorder (Ioctls v)). nr_key v nr \<in> dom (su_ioctls st')"
      by (rule foldE_establish [OF 2]) (auto simp: setup_ioctl_dom [OF assms(2)])
    moreover have "set (iorder (Ioctls v)) = dom (Ioctls v)"
      using ord vendor.ioctls_finite [OF registered_vendor] GetVendor_Some [OF v] by blast
    moreover have "su_devices st' = su_devices st1"
      by (rule foldE_invariant [where P = "\<lambda>s. su_devices s = su_devices st1", OF 2])
        (simp_all add: setup_ioctl_dom [OF assms(2)])
    ultimately show ?thesis using n by simp
  qed
  then show ?thesis by (simp add: covered_def)
qed

lemma setup_loop_covers:
  assumes "foldE (setup_device env iorder registeredVendors) devs st = Inr st'" "puts_ok env"
    and ord: "\<And>m. finite (dom m) \<Longrightarrow> set (iorder m) = dom m"
  shows "\<forall>d \<in> set devs. covered (bpfObjects (su_loader st')) d"
proof (rule foldE_establish [OF assms(1)])
  show "covered (bpfObjects (su_loader s')) d" if "setup_device env iorder registeredVendors d s = Inr s'" for d s s'
    using that assms(2) ord by (rule setup_device_covers)
next
  fix d d' s s'
  assume "setup_device env iorder registeredVendors d s = Inr s'" and c: "covered (bpfObjects (su_loader s)) d'"
  then have "dom (su_devices s) \<subseteq> dom (su_devices s') \<and> dom (su_ioctls s) \<subseteq> dom (su_ioctls s')"
    using setup_device_mono [OF _ assms(2) ord] by blast
  with c show "covered (bpfObjects (su_loader s')) d'" unfolding covered_def by blast
qed

text \<open>The ID determines the vendor, so the entries of a covered table are the vendor's.\<close>

lemma registered_ID_inj:
  "v \<in> set registeredVendors \<Longrightarrow> w \<in> set registeredVendors \<Longrightarrow>
   GetVendorID registeredVendors (Name v) = GetVendorID registeredVendors (Name w) \<Longrightarrow> v = w"
  using registered_IDs by (auto simp: registeredVendors_eq)

lemma tables_kind:
  assumes "tables_ok b dm" "covered b d" "GetVendor registeredVendors d = Some v" "Ioctls v nr = Some k"
  shows "ioctls b (nr_key v nr) = Some k"
proof -
  have "v \<in> set registeredVendors" using GetVendor_Some [OF assms(3)] by simp
  moreover obtain k' where k': "ioctls b (nr_key v nr) = Some k'"
    using assms(2-4) by (auto simp: covered_def)
  moreover from this assms(1) obtain w where "w \<in> set registeredVendors" "Ioctls w nr = Some k'"
    "GetVendorID registeredVendors (Name v) = GetVendorID registeredVendors (Name w)"
    unfolding tables_ok_def nr_key_def by blast
  ultimately show ?thesis using registered_ID_inj assms(4) by fastforce
qed

section \<open>Device information\<close>

text \<open>Every entry of the device map has its series in the device information of the collector.\<close>

definition described :: "(deviceNode \<rightharpoonup> deviceMeta) \<Rightarrow> world Collector \<Rightarrow> bool" where
  "described dm c \<longleftrightarrow> (\<forall>n meta. dm n = Some meta \<longrightarrow>
     (\<exists>d \<in> deviceInfo c. dev_device d = pciAddress meta \<and> dev_vendor d = meta_vendor meta))"

lemma setup_device_described:
  assumes "setup_device env iorder registeredVendors device st = Inr st'" "puts_ok env"
    and d: "described (su_deviceMap st) (su_collector st)"
  shows "described (su_deviceMap st') (su_collector st')"
proof (cases "GetVendor registeredVendors device")
  case None
  then show ?thesis using assms(1) d by (simp add: setup_device_def)
next
  case (Some vnd)
  let ?id = "GetVendorID registeredVendors (Name vnd)"
  let ?st = "st\<lparr>su_collector := SetDeviceInfo (PciAddress device) (Name vnd) (DriverName device)
    (PciID device) (NumaNode device) (su_collector st)\<rparr>"
  let ?P = "\<lambda>s. su_collector s = su_collector ?st \<and> described (su_deviceMap s) (su_collector ?st)"
  from assms(1) Some obtain st1 where st1: "foldE (setup_node env vnd ?id device) (Nodes device) ?st = Inr st1"
    and st2: "foldE (setup_ioctl env ?id (Ioctls vnd)) (iorder (Ioctls vnd)) st1 = Inr st'"
    by (auto simp: setup_device_def Let_def split: sum.splits)
  have "?P ?st" using d by (auto simp: described_def SetDeviceInfo_def)
  then have "?P st1"
  proof (rule foldE_invariant [where P = ?P, OF st1])
    fix node s s' assume "?P s" and n: "setup_node env vnd ?id device node s = Inr s'"
    then show "?P s'"
      unfolding setup_node_step [OF assms(2) n] by (auto simp: described_def SetDeviceInfo_def)
  qed
  then have "?P st'"
  proof (rule foldE_invariant [where P = ?P, OF st2])
    fix nr s s' assume "?P s" and i: "setup_ioctl env ?id (Ioctls vnd) nr s = Inr s'"
    then show "?P s'" unfolding setup_ioctl_step [OF assms(2) i] by simp
  qed
  then show ?thesis by simp
qed

lemma setup_loop_described:
  assumes "foldE (setup_device env iorder registeredVendors) devs st = Inr st'" "puts_ok env"
    and "described (su_deviceMap st) (su_collector st)"
  shows "described (su_deviceMap st') (su_collector st')"
  by (rule foldE_invariant [where P = "\<lambda>s. described (su_deviceMap s) (su_collector s)", OF assms(1,3)])
    (rule setup_device_described [OF _ assms(2)])

section \<open>Origin of the entries\<close>

text \<open>Every entry was put there for a device that discovery found and whose vendor is registered.\<close>

definition tables_from :: "Device list \<Rightarrow> bpf_state \<Rightarrow> (deviceNode \<rightharpoonup> deviceMeta) \<Rightarrow> bool" where
  "tables_from devs b dm \<longleftrightarrow>
     (\<forall>n meta. dm n = Some meta \<longrightarrow> (\<exists>d \<in> set devs. \<exists>v. GetVendor registeredVendors d = Some v \<and>
        meta = \<lparr>pciAddress = PciAddress d, meta_vendor = Name v\<rparr> \<and>
        (\<exists>node \<in> set (Nodes d). n = \<lparr>dn_major = Major node, dn_minor = Minor node\<rparr>))) \<and>
     (\<forall>key k. ioctls b key = Some k \<longrightarrow> (\<exists>d \<in> set devs. \<exists>v. GetVendor registeredVendors d = Some v \<and>
        (\<exists>nr. key = nr_key v nr \<and> Ioctls v nr = Some k)))"

lemma setup_device_from:
  assumes "setup_device env iorder registeredVendors device st = Inr st'" "puts_ok env"
    and ord: "\<And>m. finite (dom m) \<Longrightarrow> set (iorder m) = dom m"
    and dev: "device \<in> set devs" and t: "tables_from devs (bpfObjects (su_loader st)) (su_deviceMap st)"
  shows "tables_from devs (bpfObjects (su_loader st')) (su_deviceMap st')"
proof (cases "GetVendor registeredVendors device")
  case None
  then show ?thesis using assms(1) t by (simp add: setup_device_def)
next
  case (Some vnd)
  let ?id = "GetVendorID registeredVendors (Name vnd)"
  let ?P = "\<lambda>s. tables_from devs (bpfObjects (su_loader s)) (su_deviceMap s)"
  let ?st = "st\<lparr>su_collector := SetDeviceInfo (PciAddress device) (Name vnd) (DriverName device)
    (PciID device) (NumaNode device) (su_collector st)\<rparr>"
  from assms(1) Some obtain st1 where st1: "foldE (setup_node env vnd ?id device) (Nodes device) ?st = Inr st1"
    and st2: "foldE (setup_ioctl env ?id (Ioctls vnd)) (iorder (Ioctls vnd)) st1 = Inr st'"
    by (auto simp: setup_device_def Let_def split: sum.splits)
  have "?P ?st" using t by simp
  then have "?P st1"
  proof (rule foldE_invariant [where P = ?P, OF st1])
    fix node s s' assume "node \<in> set (Nodes device)" "?P s"
      and n: "setup_node env vnd ?id device node s = Inr s'"
    then show "?P s'"
      using Some dev unfolding setup_node_step [OF assms(2) n] by (fastforce simp: tables_from_def)
  qed
  then show ?thesis
  proof (rule foldE_invariant [where P = ?P, OF st2])
    fix nr s s' assume "nr \<in> set (iorder (Ioctls vnd))" "?P s"
      and i: "setup_ioctl env ?id (Ioctls vnd) nr s = Inr s'"
    moreover from this(1) have "Ioctls vnd nr = Some (the (Ioctls vnd nr))"
      using ord vendor.ioctls_finite [OF registered_vendor] GetVendor_Some [OF Some] by (metis domIff option.collapse)
    ultimately show "?P s'"
      using Some dev unfolding setup_ioctl_step [OF assms(2) i] by (fastforce simp: tables_from_def nr_key_def)
  qed
qed

lemma setup_loop_from:
  assumes "foldE (setup_device env iorder registeredVendors) devs st = Inr st'" "puts_ok env"
    and "\<And>m. finite (dom m) \<Longrightarrow> set (iorder m) = dom m"
    and "tables_from devs (bpfObjects (su_loader st)) (su_deviceMap st)"
  shows "tables_from devs (bpfObjects (su_loader st')) (su_deviceMap st')"
  by (rule foldE_invariant [where P = "\<lambda>s. tables_from devs (bpfObjects (su_loader s)) (su_deviceMap s)", OF assms(1,4)])
    (rule setup_device_from [OF _ assms(2,3)])

lemma devices_origin:
  assumes "tables_ok b dm" "tables_from devs b dm" "devices b key = Some i"
  shows "\<exists>d \<in> set devs. \<exists>v. GetVendor registeredVendors d = Some v \<and>
    i = GetVendorID registeredVendors (Name v) \<and> key \<in> node_key ` set (Nodes d)"
proof -
  obtain maj min where key: "key = \<lparr>dk_major = maj, dk_minor = min\<rparr>" by (cases key) simp
  obtain meta vnd where m: "dm \<lparr>dn_major = maj, dn_minor = min\<rparr> = Some meta" "meta_vendor meta = Name (vnd :: Vendor)"
    "i = GetVendorID registeredVendors (Name vnd)"
    using assms(1,3) unfolding tables_ok_def key by blast
  obtain d v node where d: "d \<in> set devs" "GetVendor registeredVendors d = Some v"
    "meta = \<lparr>pciAddress = PciAddress d, meta_vendor = Name v\<rparr>" "node \<in> set (Nodes d)"
    "\<lparr>dn_major = maj, dn_minor = min\<rparr> = \<lparr>dn_major = Major node, dn_minor = Minor node\<rparr>"
    using assms(2) m(1) unfolding tables_from_def by blast
  from d(5) have "key = node_key node" by (simp add: key node_key_def)
  with d m show ?thesis by fastforce
qed

section \<open>Room in the tables\<close>

lemma hash_put_room:
  assumes "hash_put_ok n put" "finite K" "card K \<le> n" "dom m \<subseteq> K" "k \<in> K"
  shows "\<exists>m'. put m k v = Inr m'"
proof -
  have fin: "finite (dom m)" using assms(2,4) finite_subset by blast
  have "k \<in> dom m \<or> card (dom m) < n"
  proof (cases "k \<in> dom m")
    case False
    then have "dom m \<subset> K" using assms(4,5) by blast
    then have "card (dom m) < card K" using assms(2) by (rule psubset_card_mono [rotated])
    then show ?thesis using assms(3) by simp
  qed simp
  with fin assms(1) show ?thesis unfolding hash_put_ok_def by blast
qed

lemma foldE_total:
  assumes "P st" and "\<And>x st. x \<in> set xs \<Longrightarrow> P st \<Longrightarrow> \<exists>st'. f x st = Inr st' \<and> P st'"
  shows "\<exists>st'. foldE f xs st = Inr st' \<and> P st'"
  using assms
proof (induction xs arbitrary: st)
  case (Cons x xs)
  from Cons.prems(2) [of x st] Cons.prems(1) obtain st1 where "f x st = Inr st1" "P st1" by auto
  moreover have "\<exists>st'. foldE f xs st1 = Inr st' \<and> P st'"
    by (rule Cons.IH [OF \<open>P st1\<close>]) (simp add: Cons.prems(2))
  ultimately show ?case by simp
qed simp

definition all_node_keys :: "Device list \<Rightarrow> device_key set" where
  "all_node_keys devs = node_key ` set (concat (map Nodes devs))"

definition all_nr_keys :: "ioctl_key set" where
  "all_nr_keys = (\<Union>v \<in> set registeredVendors. nr_key v ` dom (Ioctls v))"

lemma all_nr_keys_bound: "finite all_nr_keys \<and> card all_nr_keys \<le> 640"
proof -
  have e: "all_nr_keys = nr_key i915_Vendor ` {0x69, 0x5b, 0x6c} \<union> nr_key ivpu_Vendor ` {0x4d, 0x45, 0x42, 0x46}"
    by (simp add: all_nr_keys_def registeredVendors_eq i915_Vendor_def ivpu_Vendor_def insert_commute)
  have "card all_nr_keys \<le> card {0x69, 0x5b, 0x6c :: u32} + card {0x4d, 0x45, 0x42, 0x46 :: u32}"
    unfolding e by (rule order_trans [OF card_Un_le]) (intro add_mono card_image_le; simp)
  then show ?thesis by (simp add: e)
qed

lemma setup_device_total:
  assumes "puts_ok env" "card (all_node_keys devs) \<le> 32" "d \<in> set devs"
    and ord: "\<And>m. finite (dom m) \<Longrightarrow> set (iorder m) = dom m"
    and P: "dom (su_devices st) \<subseteq> all_node_keys devs \<and> dom (su_ioctls st) \<subseteq> all_nr_keys"
  shows "\<exists>st'. setup_device env iorder registeredVendors d st = Inr st' \<and>
    dom (su_devices st') \<subseteq> all_node_keys devs \<and> dom (su_ioctls st') \<subseteq> all_nr_keys"
proof (cases "GetVendor registeredVendors d")
  case None
  with P show ?thesis by (simp add: setup_device_def)
next
  case (Some v)
  let ?P = "\<lambda>s. dom (su_devices s) \<subseteq> all_node_keys devs \<and> dom (su_ioctls s) \<subseteq> all_nr_keys"
  let ?id = "GetVendorID registeredVendors (Name v)"
  have v: "v \<in> set registeredVendors" using GetVendor_Some [OF Some] by simp
  have fin: "finite (all_node_keys devs)" by (simp add: all_node_keys_def)
  have puts: "hash_put_ok 32 (Devices_Put env)" "hash_put_ok 640 (Ioctls_Put env)"
    using assms(1) by (simp_all add: puts_ok_def MAX_ENTRIES_DEVICES_def MAX_ENTRIES_IOCTLS_def)
  have node: "\<exists>s'. setup_node env v ?id d n s = Inr s' \<and> ?P s'" if n: "n \<in> set (Nodes d)" and p: "?P s" for n s
  proof -
    have k: "node_key n \<in> all_node_keys devs" using n assms(3) by (auto simp: all_node_keys_def)
    obtain m where "Devices_Put env (su_devices s) (node_key n) ?id = Inr m"
      using hash_put_room [OF puts(1) fin assms(2) _ k] p by blast
    then obtain s' where s': "setup_node env v ?id d n s = Inr s'"
      by (simp add: setup_node_def AddDevice_def node_key_def)
    with k p show ?thesis using setup_node_dom [OF assms(1) s'] by simp
  qed
  have ioctl: "\<exists>s'. setup_ioctl env ?id (Ioctls v) nr s = Inr s' \<and> ?P s'"
    if n: "nr \<in> set (iorder (Ioctls v))" and p: "?P s" for nr s
  proof -
    have "nr \<in> dom (Ioctls v)"
      using n ord vendor.ioctls_finite [OF registered_vendor [OF v]] by blast
    then have k: "nr_key v nr \<in> all_nr_keys" using v by (auto simp: all_nr_keys_def)
    obtain m where "Ioctls_Put env (su_ioctls s) (nr_key v nr) (the (Ioctls v nr)) = Inr m"
      using hash_put_room [OF puts(2) _ _ _ k] all_nr_keys_bound p by blast
    then obtain s' where s': "setup_ioctl env ?id (Ioctls v) nr s = Inr s'"
      by (simp add: setup_ioctl_def AddIoctl_def nr_key_def)
    with k p show ?thesis using setup_ioctl_dom [OF assms(1) s'] by simp
  qed
  let ?st = "st\<lparr>su_collector := SetDeviceInfo (PciAddress d) (Name v) (DriverName d) (PciID d) (NumaNode d) (su_collector st)\<rparr>"
  have "\<exists>s. foldE (setup_node env v ?id d) (Nodes d) ?st = Inr s \<and> ?P s"
    by (rule foldE_total [where P = ?P]) (use P in simp, rule node)
  then obtain st1 where 1: "foldE (setup_node env v ?id d) (Nodes d) ?st = Inr st1" "?P st1" by blast
  have "\<exists>s. foldE (setup_ioctl env ?id (Ioctls v)) (iorder (Ioctls v)) st1 = Inr s \<and> ?P s"
    by (rule foldE_total [where P = ?P, OF 1(2)]) (rule ioctl)
  then obtain st2 where 2: "foldE (setup_ioctl env ?id (Ioctls v)) (iorder (Ioctls v)) st1 = Inr st2" "?P st2"
    by blast
  from Some 1 2 show ?thesis by (simp add: setup_device_def Let_def)
qed

section \<open>The agent when its loops start\<close>

definition se_ok :: "start_env \<Rightarrow> bool" where
  "se_ok se \<longleftrightarrow> puts_ok (se_ebpf se) \<and> (\<forall>m. finite (dom m) \<longrightarrow> set (se_ioctl_order se m) = dom m)"

text \<open>What the agent starts its loops with.\<close>

definition sys_init :: "sys \<Rightarrow> bool" where
  "sys_init s \<longleftrightarrow> tables_ok (bpfObjects (s_loader s)) (s_deviceMap s) \<and>
     described (s_deviceMap s) (s_collector s) \<and>
     events (bpfObjects (s_loader s)) = [] \<and> dropped (bpfObjects (s_loader s)) = dropped bpf_init \<and>
     hook (s_loader s) \<noteq> None \<and> rb (s_loader s) \<noteq> None \<and>
     \<not> closeOnce (s_loader s) \<and> \<not> closeReaderOnce (s_loader s) \<and> close_calls (s_loader s) = [] \<and>
     podmap_ok (s_podmap s) \<and> ioctlTotal (s_collector s) = Map.empty \<and>
     eventsDroppedTotal (s_collector s) = eventsDroppedTotal (NewCollector :: world Collector) \<and>
     finite (deviceInfo (s_collector s)) \<and>
     cgroupIndexRebuildsSource (s_collector s) = Some (\<lambda>w. CgroupIndexRebuilds (w_podmap w)) \<and>
     kernelDroppedSource (s_collector s) = Some (\<lambda>w. DroppedEvents (w_ebpf w) (w_loader w)) \<and>
     \<not> s_reader_closed s \<and> s_ready s \<and> s_phase s = Serving \<and> s_reading s \<and> s_pending s = None \<and>
     s_queue s = [] \<and> \<not> s_queue_closed s \<and> s_busy s = None \<and> \<not> s_worker_done s \<and> \<not> s_exited s \<and> \<not> s_podmap_closed s \<and>
     s_worker_log s = [] \<and> s_reader_log s = []"

lemma Attach_fresh:
  "hook l = None \<Longrightarrow> Attach env l = (None, l') \<Longrightarrow> \<exists>h. l' = l\<lparr>hook := Some h\<rparr>"
  by (auto simp: Attach_def Let_def split: sum.splits)

lemma CreateReader_ok: "CreateReader env l = (None, l') \<Longrightarrow> \<exists>r. l' = l\<lparr>rb := Some r\<rparr>"
  by (auto simp: CreateReader_def split: sum.splits)

lemma NewLoader_Inr:
  "NewLoader env d = Inr l \<Longrightarrow> l = \<lparr>bpfObjects = bpf_init, hook = None, rb = None, closeOnce = False,
     closeReaderOnce = False, close_calls = []\<rparr>"
  by (auto simp: NewLoader_def split: option.splits)

lemma tables_ok_init: "tables_ok bpf_init dm"
  by (simp add: tables_ok_def bpf_init_def)

lemma agent_start_Inr:
  assumes "agent_start se cfg dbg = Inr s" "se_ok se"
  obtains devs where "Discover (se_os se) (se_order se) (agent_paths cfg) = Inr devs" "sys_init s"
    and "\<forall>d \<in> set devs. covered (bpfObjects (s_loader s)) d"
    and "tables_from devs (bpfObjects (s_loader s)) (s_deviceMap s)"
proof -
  obtain l devs st l1 p l2 where l: "NewLoader (se_ebpf se) dbg = Inr l"
    and devs: "Discover (se_os se) (se_order se) (agent_paths cfg) = Inr devs"
    and st: "foldE (setup_device (se_ebpf se) (se_ioctl_order se) registeredVendors) devs
        \<lparr>su_loader = l, su_collector = NewCollector, su_deviceMap = Map.empty\<rparr> = Inr st"
    and l1: "Attach (se_ebpf se) (su_loader st) = (None, l1)"
    and p: "NewPodMap (se_pod se) (CgroupRootPath cfg) (CriSocketPath cfg) (Interval cfg) (CriTimeout cfg) (CacheTTL cfg) = Inr p"
    and l2: "CreateReader (se_ebpf se) l1 = (None, l2)"
    and s: "s = \<lparr>s_loader = l2, s_reader_closed = False, s_podmap = p, s_podmap_closed = False,
       s_collector = SetKernelDroppedSource (\<lambda>w. DroppedEvents (w_ebpf w) (w_loader w))
         (SetCgroupIndexRebuildsSource (\<lambda>w. CgroupIndexRebuilds (w_podmap w)) (su_collector st)),
       s_deviceMap = su_deviceMap st, s_ready = True, s_phase = Serving,
       s_reading = True, s_pending = None, s_queue = [], s_queue_closed = False,
       s_busy = None, s_worker_done = False, s_exited = False, s_worker_log = [], s_reader_log = []\<rparr>"
    using assms(1) by (auto simp: agent_start_def agent_prepare_def Let_def split: sum.splits option.splits prod.splits)
  have ord: "\<And>m. finite (dom m) \<Longrightarrow> set (se_ioctl_order se m) = dom m" and puts: "puts_ok (se_ebpf se)"
    using assms(2) by (simp_all add: se_ok_def)
  have li: "bpfObjects l = bpf_init" "hook l = None" "rb l = None" "\<not> closeOnce l" "\<not> closeReaderOnce l"
    "close_calls l = []" using NewLoader_Inr [OF l] by simp_all
  have "tables_ok (bpfObjects (su_loader st)) (su_deviceMap st) \<and> setup_frame l st"
    by (rule setup_loop_invariant [OF st puts ord])
      (simp_all add: tables_ok_init li setup_frame_def NewCollector_def)
  moreover have "\<forall>d \<in> set devs. covered (bpfObjects (su_loader st)) d"
    by (rule setup_loop_covers [OF st puts ord])
  moreover have "tables_from devs (bpfObjects (su_loader st)) (su_deviceMap st)"
    by (rule setup_loop_from [OF st puts ord]) (simp_all add: tables_from_def li bpf_init_def)
  moreover have "described (su_deviceMap st) (su_collector st)"
    using setup_loop_described [OF st puts] by (simp add: described_def)
  moreover from calculation li(2) obtain h where "l1 = (su_loader st)\<lparr>hook := Some h\<rparr>"
    using Attach_fresh [OF _ l1] by (auto simp: setup_frame_def)
  moreover obtain r where "l2 = l1\<lparr>rb := Some r\<rparr>" using CreateReader_ok [OF l2] by blast
  ultimately show thesis
    using NewPodMap_ok [OF p] li
    by (intro that [OF devs]) (simp_all add: s sys_init_def setup_frame_def bpf_init_def
        SetKernelDroppedSource_def SetCgroupIndexRebuildsSource_def described_def)
qed

section \<open>Properties\<close>

text \<open>C16: When the agent becomes ready, the probe watches exactly what discovery found and the registry
  supports. Every node of every supported device is in the kernel's device table and in the agent's
  device map, and every entry of the vendor's ioctl table is in the kernel's ioctl table under the
  vendor's ID with its kind. Conversely an entry of the device table is a node of a discovered device of
  a registered vendor and holds that vendor's ID, and an entry of the ioctl table is an entry of the table
  of the vendor of a discovered device.\<close>

theorem agent_start_tables:
  assumes "agent_start se cfg dbg = Inr s" and "se_ok se"
  shows "\<exists>devs. Discover (se_os se) (se_order se) (agent_paths cfg) = Inr devs \<and>
    (\<forall>d \<in> set devs. \<forall>v. GetVendor registeredVendors d = Some v \<longrightarrow>
       (\<forall>n \<in> set (Nodes d). devices (bpfObjects (s_loader s)) (node_key n) \<noteq> None \<and>
          s_deviceMap s \<lparr>dn_major = Major n, dn_minor = Minor n\<rparr> \<noteq> None) \<and>
       (\<forall>nr k. Ioctls v nr = Some k \<longrightarrow> ioctls (bpfObjects (s_loader s)) (nr_key v nr) = Some k)) \<and>
    (\<forall>key i. devices (bpfObjects (s_loader s)) key = Some i \<longrightarrow>
       (\<exists>d \<in> set devs. \<exists>v. GetVendor registeredVendors d = Some v \<and>
          i = GetVendorID registeredVendors (Name v) \<and> key \<in> node_key ` set (Nodes d))) \<and>
    (\<forall>key k. ioctls (bpfObjects (s_loader s)) key = Some k \<longrightarrow>
       (\<exists>d \<in> set devs. \<exists>v. GetVendor registeredVendors d = Some v \<and>
          (\<exists>nr. key = nr_key v nr \<and> Ioctls v nr = Some k)))"
proof -
  obtain devs where devs: "Discover (se_os se) (se_order se) (agent_paths cfg) = Inr devs" "sys_init s"
    and cov: "\<forall>d \<in> set devs. covered (bpfObjects (s_loader s)) d"
    and from_devs: "tables_from devs (bpfObjects (s_loader s)) (s_deviceMap s)"
    using agent_start_Inr [OF assms] by blast
  have t: "tables_ok (bpfObjects (s_loader s)) (s_deviceMap s)" using devs(2) by (simp add: sys_init_def)
  have "devices (bpfObjects (s_loader s)) (node_key n) \<noteq> None \<and>
      s_deviceMap s \<lparr>dn_major = Major n, dn_minor = Minor n\<rparr> \<noteq> None"
    if a: "d \<in> set devs" "GetVendor registeredVendors d = Some v" "n \<in> set (Nodes d)" for d v n
  proof -
    obtain i where "devices (bpfObjects (s_loader s)) (node_key n) = Some i"
      using cov a unfolding covered_def by blast
    with t show ?thesis unfolding tables_ok_def node_key_def by fastforce
  qed
  moreover have "ioctls (bpfObjects (s_loader s)) (nr_key v nr) = Some k"
    if "d \<in> set devs" "GetVendor registeredVendors d = Some v" "Ioctls v nr = Some k" for d v nr k
    using tables_kind [OF t _ that(2,3)] cov that(1) by blast
  moreover have "\<exists>d \<in> set devs. \<exists>v. GetVendor registeredVendors d = Some v \<and>
      i = GetVendorID registeredVendors (Name v) \<and> key \<in> node_key ` set (Nodes d)"
    if "devices (bpfObjects (s_loader s)) key = Some i" for key i
    using devices_origin [OF t from_devs that] .
  moreover have "\<exists>d \<in> set devs. \<exists>v. GetVendor registeredVendors d = Some v \<and>
      (\<exists>nr. key = nr_key v nr \<and> Ioctls v nr = Some k)"
    if "ioctls (bpfObjects (s_loader s)) key = Some k" for key k
    using from_devs that by (simp add: tables_from_def)
  ultimately show ?thesis using devs(1) by blast
qed

text \<open>C32: The table sizes of the probe are enough for what setup writes: if discovery found at most 32
  distinct device numbers, the setup loop ends without an error, in whatever order Go iterates. The ioctl
  tables of the registered vendors always fit in their 640 entries.\<close>

theorem setup_fits:
  assumes "puts_ok env" and "card (all_node_keys devs) \<le> md_max_entries devices_def"
    and "\<And>m. finite (dom m) \<Longrightarrow> set (iorder m) = dom m"
    and "bpfObjects l = bpf_init"
  shows "\<exists>st. foldE (setup_device env iorder registeredVendors) devs
      \<lparr>su_loader = l, su_collector = NewCollector, su_deviceMap = Map.empty\<rparr> = Inr st \<and>
    dom (devices (bpfObjects (su_loader st))) \<subseteq> all_node_keys devs \<and>
    card (dom (ioctls (bpfObjects (su_loader st)))) \<le> md_max_entries ioctls_def"
proof -
  let ?P = "\<lambda>s. dom (su_devices s) \<subseteq> all_node_keys devs \<and> dom (su_ioctls s) \<subseteq> all_nr_keys"
  have c: "card (all_node_keys devs) \<le> 32" using assms(2) by (simp add: devices_def_def MAX_ENTRIES_DEVICES_def)
  have "\<exists>st. foldE (setup_device env iorder registeredVendors) devs
      \<lparr>su_loader = l, su_collector = NewCollector, su_deviceMap = Map.empty\<rparr> = Inr st \<and> ?P st"
  proof (rule foldE_total [where P = ?P])
    fix d st assume "d \<in> set devs" "?P st"
    then show "\<exists>st'. setup_device env iorder registeredVendors d st = Inr st' \<and> ?P st'"
      using setup_device_total [OF assms(1) c _ assms(3)] by blast
  qed (simp add: assms(4) bpf_init_def)
  then obtain st where st: "foldE (setup_device env iorder registeredVendors) devs
      \<lparr>su_loader = l, su_collector = NewCollector, su_deviceMap = Map.empty\<rparr> = Inr st" "?P st" by blast
  have "card (dom (su_ioctls st)) \<le> card all_nr_keys"
    using all_nr_keys_bound st(2) by (intro card_mono) auto
  then have "card (dom (su_ioctls st)) \<le> md_max_entries ioctls_def"
    using all_nr_keys_bound by (simp add: ioctls_def_def MAX_ENTRIES_IOCTLS_def)
  with st show ?thesis by blast
qed

section \<open>A concrete start\<close>

definition sample_iorder :: "(u32 \<rightharpoonup> Kind) \<Rightarrow> u32 list" where
  "sample_iorder m = sorted_list_of_set (dom m)"

definition sample_start :: start_env where
  "sample_start = \<lparr>se_ebpf = sample_ebpf, se_os = sample_os, se_order = sorted_keys,
     se_ioctl_order = sample_iorder, se_pod = sample_pod_env 0, se_heap = (\<lambda>_. True)\<rparr>"

lemma sample_iorder_ok: "finite (dom m) \<Longrightarrow> set (sample_iorder m) = dom m"
  by (simp add: sample_iorder_def)

lemma sample_puts: "puts_ok sample_ebpf"
  by (auto simp: puts_ok_def hash_put_ok_def sample_ebpf_def split: if_splits)

lemma sample_start_ok: "se_ok sample_start"
  using sample_puts sample_iorder_ok by (simp add: se_ok_def sample_start_def)

lemma sample_discover: "Discover sample_os sorted_keys sample_paths = Inr [sample_device]"
proof -
  have "dir_error sample_os (DriPath sample_paths) = None" "dir_error sample_os (AccelPath sample_paths) = None"
    by (simp_all add: dir_error_def sample_os_def sample_paths_def unless_missing_def ErrNotExist_def)
  then show ?thesis by (simp add: Discover_eq sample_found sorted_keys_def)
qed

lemma sample_nodes: "card (all_node_keys [sample_device]) \<le> 32"
proof -
  have "all_node_keys [sample_device] = {\<lparr>dk_major = 226, dk_minor = 1\<rparr>, \<lparr>dk_major = 226, dk_minor = 128\<rparr>}"
    by (auto simp: all_node_keys_def node_key_def sample_device_def)
  then show ?thesis by (simp add: card_insert_if)
qed

definition sample_fresh :: Loader where
  "sample_fresh = \<lparr>bpfObjects = bpf_init, hook = None, rb = None, closeOnce = False, closeReaderOnce = False,
     close_calls = []\<rparr>"

lemma sample_setup:
  "\<exists>st. foldE (setup_device sample_ebpf sample_iorder registeredVendors) [sample_device]
     \<lparr>su_loader = sample_fresh, su_collector = NewCollector, su_deviceMap = Map.empty\<rparr> = Inr st \<and>
     hook (su_loader st) = None"
proof -
  let ?st0 = "\<lparr>su_loader = sample_fresh, su_collector = NewCollector, su_deviceMap = Map.empty\<rparr>"
  obtain st where st: "foldE (setup_device sample_ebpf sample_iorder registeredVendors) [sample_device] ?st0 = Inr st"
    using setup_device_total [OF sample_puts sample_nodes, of sample_device sample_iorder ?st0] sample_iorder_ok
    by (auto simp: sample_fresh_def bpf_init_def)
  have "setup_frame sample_fresh st"
    using setup_loop_invariant [OF st sample_puts sample_iorder_ok, of sample_fresh]
    by (simp add: sample_fresh_def tables_ok_init setup_frame_def NewCollector_def)
  with st show ?thesis by (auto simp: setup_frame_def sample_fresh_def)
qed

lemma sample_config: "agent_paths (Load (\<lambda>_. None)) = sample_paths" "CgroupRootPath (Load (\<lambda>_. None)) \<noteq> []"
  "CriSocketPath (Load (\<lambda>_. None)) \<noteq> []" "0 < Interval (Load (\<lambda>_. None))" "0 < CacheTTL (Load (\<lambda>_. None))"
  "0 < CriTimeout (Load (\<lambda>_. None))"
  by (simp_all add: agent_paths_def Load_def getEnv_def getEnvTimeDuration_def Second_def sample_paths_def)

lemma sample_agent_start: "\<exists>s. agent_start sample_start (Load (\<lambda>_. None)) False = Inr s"
proof -
  have "NewLoader sample_ebpf False = Inr sample_fresh"
    by (simp add: NewLoader_def CheckKernel_def isCgroupV2_def loadBpfObjects_def loadBpf_def sample_ebpf_def
        sample_fresh_def)
  moreover obtain st where "foldE (setup_device sample_ebpf sample_iorder registeredVendors) [sample_device]
     \<lparr>su_loader = sample_fresh, su_collector = NewCollector, su_deviceMap = Map.empty\<rparr> = Inr st"
     "hook (su_loader st) = None" using sample_setup by blast
  moreover from this have "Attach sample_ebpf (su_loader st) = (None, (su_loader st)\<lparr>hook := Some 7\<rparr>)"
    by (simp add: Attach_def sample_ebpf_def)
  moreover have "\<exists>p. NewPodMap (sample_pod_env 0) (CgroupRootPath (Load (\<lambda>_. None))) (CriSocketPath (Load (\<lambda>_. None)))
      (Interval (Load (\<lambda>_. None))) (CriTimeout (Load (\<lambda>_. None))) (CacheTTL (Load (\<lambda>_. None))) = Inr p"
    using sample_config by (simp add: NewPodMap_def BuildCgroupIndex_def buildCgroupInodeMap_eq NewCRIClient_def
        sample_pod_env_def sample_cri_def)
  moreover have "CreateReader sample_ebpf l = (None, l\<lparr>rb := Some 8\<rparr>)" for l
    by (simp add: CreateReader_def sample_ebpf_def)
  ultimately show ?thesis
    using sample_discover by (auto simp: agent_start_def agent_prepare_def sample_start_def sample_config)
qed

theorem agent_start_tables_witness:
  "\<exists>s. agent_start sample_start (Load (\<lambda>_. None)) False = Inr s \<and>
     ioctls (bpfObjects (s_loader s)) (nr_key i915_Vendor 0x69) = Some hw_KindSubmit"
proof -
  obtain s where s: "agent_start sample_start (Load (\<lambda>_. None)) False = Inr s" using sample_agent_start by blast
  have v: "GetVendor registeredVendors sample_device = Some i915_Vendor"
    by (simp add: registeredVendors_eq i915_Vendor_def sample_device_def)
  have "Ioctls i915_Vendor 0x69 = Some hw_KindSubmit" by (simp add: i915_Vendor_def)
  moreover obtain devs where "Discover (se_os sample_start) (se_order sample_start) (agent_paths (Load (\<lambda>_. None))) = Inr devs"
    "\<forall>d \<in> set devs. \<forall>v. GetVendor registeredVendors d = Some v \<longrightarrow>
       (\<forall>nr k. Ioctls v nr = Some k \<longrightarrow> ioctls (bpfObjects (s_loader s)) (nr_key v nr) = Some k)"
    using agent_start_tables [OF s sample_start_ok] by blast
  moreover from this(1) have "devs = [sample_device]"
    using sample_discover by (simp add: sample_start_def sample_config)
  ultimately show ?thesis using s v by auto
qed

theorem setup_fits_witness:
  "\<exists>st. foldE (setup_device sample_ebpf sample_iorder registeredVendors) [sample_device]
      \<lparr>su_loader = sample_fresh, su_collector = NewCollector, su_deviceMap = Map.empty\<rparr> = Inr st"
proof -
  have "card (all_node_keys [sample_device]) \<le> md_max_entries devices_def"
    using sample_nodes by (simp add: devices_def_def MAX_ENTRIES_DEVICES_def)
  from setup_fits [OF sample_puts this sample_iorder_ok, of sample_fresh] show ?thesis
    by (auto simp: sample_fresh_def)
qed

end
