(* ===== verification/Server.thy ===== *)
theory Server
  imports GoLib
begin

text \<open>
  \<^verbatim>\<open>pkg/metrics/server.go\<close>: the three handlers of the HTTP server and its start and stop. The Prometheus
  handler and the listening loop of \<^verbatim>\<open>net/http\<close> are arguments; a request is its path, and the patterns are
  paths without a trailing slash, which \<^verbatim>\<open>http.ServeMux\<close> matches exactly.
\<close>

record response =
  status :: nat
  body :: string

definition StatusOK :: nat where "StatusOK = 200"
definition StatusNotFound :: nat where "StatusNotFound = 404"
definition StatusServiceUnavailable :: nat where "StatusServiceUnavailable = 503"

definition http_ErrServerClosed :: goerr where "http_ErrServerClosed = Sentinel ''http: Server closed''"

text \<open>\<^verbatim>\<open>http.Error(w, error, code)\<close> writes the text and a newline.\<close>

definition http_Error :: "string \<Rightarrow> nat \<Rightarrow> response" where
  "http_Error text code = \<lparr>status = code, body = text @ [CHR 0x0A]\<rparr>"

definition healthz :: response where
  "healthz = \<lparr>status = StatusOK, body = ''ok''\<rparr>"

text \<open>\<open>ready\<close> may be nil; it is called once per request.\<close>

definition readyz :: "(unit \<Rightarrow> bool) option \<Rightarrow> response" where
  "readyz ready =
     (if ready \<noteq> None \<and> the ready () then \<lparr>status = StatusOK, body = ''ok''\<rparr>
      else http_Error ''not ready'' StatusServiceUnavailable)"

record server =
  addr :: string
  handler :: "string \<Rightarrow> response"
  read_header_timeout_ns :: int

definition NewServer :: "string \<Rightarrow> (unit \<Rightarrow> bool) option \<Rightarrow> response \<Rightarrow> server" where
  "NewServer address ready metrics =
     \<lparr>addr = address,
      handler = (\<lambda>path.
        if path = ''/healthz'' then healthz
        else if path = ''/readyz'' then readyz ready
        else if path = ''/metrics'' then metrics
        else http_Error ''404 page not found'' StatusNotFound),
      read_header_timeout_ns = 5 * 10 ^ 9\<rparr>"

text \<open>\<open>served\<close> is the error \<^verbatim>\<open>ListenAndServe\<close> ends with (it always ends with one), \<open>down\<close> the result of
  \<^verbatim>\<open>http.Server.Shutdown\<close>.\<close>

definition Run :: "goerr \<Rightarrow> goerr option" where
  "Run served = (if errors_Is served http_ErrServerClosed then None else Some served)"

definition Server_Shutdown :: "goerr option \<Rightarrow> goerr option" where
  "Server_Shutdown down =
     (case down of Some err \<Rightarrow> Some (WrapError ''shutdown metrics server: %w'' err) | None \<Rightarrow> None)"

end
