(* ===== verification/Agent.thy ===== *)
theory Agent
  imports AgentSetup Server
begin

text \<open>
  \<^verbatim>\<open>cmd/agent/main.go\<close> once the agent is ready: the hook in the kernel, the reader loop of the main
  goroutine, the bounded queue, the worker goroutine, the signal goroutine and the end of the process.
  \<open>agent_step\<close> makes one step of one of them; \<open>arun\<close> is their interleaving as a step relation. A label
  carries what the environment decides in that step. The loop bodies follow the code, with the two
  statements of the reader loop (read, then send or drop) and of the worker loop (receive, then resolve
  and count) as separate steps, so the others can run in between.
\<close>

section \<open>The loop bodies\<close>

text \<open>The body of the worker's loop: the pod map, the collector and the log after one event.\<close>

definition worker_event ::
  "pod_env \<Rightarrow> (deviceNode \<rightharpoonup> deviceMeta) \<Rightarrow> Event \<Rightarrow> PodMap \<Rightarrow> 'w Collector \<Rightarrow> goerr list \<Rightarrow>
     PodMap \<times> 'w Collector \<times> goerr list" where
  "worker_event env deviceMap event p collector lg =
     (case deviceMap \<lparr>dn_major = ucast (Event_Major event), dn_minor = Event_Minor event\<rparr> of
        None \<Rightarrow> (p, IncEventsDropped ReasonDeviceUnknown collector, lg)
      | Some device \<Rightarrow>
          (let (res, p) = ContainerInfo env (CgroupID event) p
           in case res of
                Inl err \<Rightarrow>
                  if errors_Is err ErrNotPod then (p, IncEventsDropped ReasonNotPod collector, lg)
                  else if errors_Is err ErrNotIndexed
                  then (p, IncEventsDropped ReasonNotIndexed collector, lg)
                  else if errors_Is err ErrContainerNotFound
                  then (p, IncEventsDropped ReasonContainerNotFound collector, lg)
                  else (p, collector, lg @ [err])
              | Inr cI \<Rightarrow>
                  (p, IncIoctl (Namespace cI) (PodName cI) (ContainerName cI) (pciAddress device)
                        (meta_vendor device) (Kind_String (Event_Kind event)) collector, lg)))"

text \<open>The reader loop after \<^verbatim>\<open>l.ReadEvent()\<close>: leaving the loop closes the queue.\<close>

definition reader_result :: "goerr + Event \<Rightarrow> sys \<Rightarrow> sys" where
  "reader_result res s =
     (case res of
        Inl err \<Rightarrow>
          if errors_Is err ringbuf_ErrClosed then s\<lparr>s_reading := False, s_queue_closed := True\<rparr>
          else s\<lparr>s_reader_log := s_reader_log s @ [err]\<rparr>
      | Inr event \<Rightarrow> s\<lparr>s_pending := Some event\<rparr>)"

text \<open>The \<^verbatim>\<open>select\<close> with a default case.\<close>

definition reader_send :: "int \<Rightarrow> Event \<Rightarrow> sys \<Rightarrow> sys" where
  "reader_send queueSize event s =
     (if int (length (s_queue s)) < queueSize
      then s\<lparr>s_pending := None, s_queue := s_queue s @ [event]\<rparr>
      else s\<lparr>s_pending := None, s_collector := IncEventsDropped ReasonQueueFull (s_collector s)\<rparr>)"

section \<open>Steps\<close>

record agent_params =
  ap_relo :: core_relo
  ap_queueSize :: int

datatype label =
    Hook hook_call
  | Read
  | ReadFails goerr
  | ReadAfterClose
  | Send
  | Take
  | Work pod_env
  | WorkerExit
  | Signal
  | ServerDown "goerr option"
  | CloseRing ebpf_env
  | Exit cri_env ebpf_env

abbreviation s_bpf :: "sys \<Rightarrow> bpf_state" where
  "s_bpf s \<equiv> bpfObjects (s_loader s)"

definition set_bpf :: "bpf_state \<Rightarrow> sys \<Rightarrow> sys" where
  "set_bpf b s = s\<lparr>s_loader := (s_loader s)\<lparr>bpfObjects := b\<rparr>\<rparr>"

text \<open>\<^verbatim>\<open>if err != nil { log.Print(err) }\<close> in the main goroutine and the signal goroutine.\<close>

definition log_error :: "goerr option \<Rightarrow> sys \<Rightarrow> sys" where
  "log_error err s = (case err of Some e \<Rightarrow> s\<lparr>s_reader_log := s_reader_log s @ [e]\<rparr> | None \<Rightarrow> s)"

lemma log_error_eq:
  "log_error err s = s\<lparr>s_reader_log := s_reader_log s @ (case err of Some e \<Rightarrow> [e] | None \<Rightarrow> [])\<rparr>"
  by (simp add: log_error_def split: option.split)

fun agent_step :: "agent_params \<Rightarrow> label \<Rightarrow> sys \<Rightarrow> sys option" where
  "agent_step P (Hook call) s =
     (if hook (s_loader s) = None \<or> s_exited s then None
      else Some (set_bpf (hook_run (ap_relo P) [call] (s_bpf s)) s))"
| "agent_step P Read s =
     (if \<not> s_reading s \<or> s_pending s \<noteq> None \<or> s_reader_closed s then None
      else case events (s_bpf s) of
        [] \<Rightarrow> None
      | raw # rest \<Rightarrow> Some (reader_result (ReadEvent (Inr raw)) (set_bpf ((s_bpf s)\<lparr>events := rest\<rparr>) s)))"
| "agent_step P (ReadFails err) s =
     (if \<not> s_reading s \<or> s_pending s \<noteq> None \<or> s_reader_closed s \<or> errors_Is err ringbuf_ErrClosed then None
      else Some (reader_result (ReadEvent (Inl err)) s))"
| "agent_step P ReadAfterClose s =
     (if \<not> s_reading s \<or> s_pending s \<noteq> None \<or> \<not> s_reader_closed s then None
      else Some (reader_result (ReadEvent (Inl ringbuf_ErrClosed)) s))"
| "agent_step P Send s =
     (if \<not> s_reading s then None
      else map_option (\<lambda>event. reader_send (ap_queueSize P) event s) (s_pending s))"
| "agent_step P Take s =
     (if s_busy s \<noteq> None \<or> s_worker_done s then None
      else case s_queue s of
        [] \<Rightarrow> None
      | event # rest \<Rightarrow> Some (s\<lparr>s_busy := Some event, s_queue := rest\<rparr>))"
| "agent_step P (Work env) s =
     (case s_busy s of
        None \<Rightarrow> None
      | Some event \<Rightarrow>
          (let (p, c, lg) =
                 worker_event env (s_deviceMap s) event (s_podmap s) (s_collector s) (s_worker_log s)
           in Some (s\<lparr>s_busy := None, s_podmap := p, s_collector := c, s_worker_log := lg\<rparr>)))"
| "agent_step P WorkerExit s =
     (if s_busy s \<noteq> None \<or> s_queue s \<noteq> [] \<or> \<not> s_queue_closed s \<or> s_worker_done s then None
      else Some (s\<lparr>s_worker_done := True\<rparr>))"
| "agent_step P Signal s =
     (if s_phase s \<noteq> Serving \<or> s_exited s then None
      else Some (s\<lparr>s_ready := False, s_phase := Signalled\<rparr>))"
| "agent_step P (ServerDown down) s =
     (if s_phase s \<noteq> Signalled \<or> s_exited s then None
      else Some (log_error (Server_Shutdown down) (s\<lparr>s_phase := ServerStopped\<rparr>)))"
| "agent_step P (CloseRing env) s =
     (if s_phase s \<noteq> ServerStopped \<or> s_exited s then None
      else (let (err, l) = CloseReader env (s_loader s); s = s\<lparr>s_loader := l, s_phase := Stopped\<rparr>
            in case err of
                 Some e \<Rightarrow> Some (s\<lparr>s_reader_log := s_reader_log s @ [e]\<rparr>)
               | None \<Rightarrow> Some (s\<lparr>s_reader_closed := True\<rparr>)))"
| "agent_step P (Exit cenv env) s =
     (if s_reading s \<or> \<not> s_worker_done s \<or> s_exited s then None
      else (let s = log_error (PodMap_Close cenv (Some (s_podmap s))) (s\<lparr>s_podmap_closed := True\<rparr>);
                (err, l) = Close env (s_loader s)
            in Some (log_error err (s\<lparr>s_loader := l, s_exited := True\<rparr>))))"

text \<open>Two steps that log: the rest of the state does not depend on what they log.\<close>

lemma Exit_step:
  assumes "agent_step P (Exit cenv env) s = Some s'"
  obtains lg where "\<not> s_reading s" "s_worker_done s" "\<not> s_exited s"
    "s' = s\<lparr>s_podmap_closed := True, s_loader := snd (Close env (s_loader s)), s_exited := True, s_reader_log := lg\<rparr>"
  using assms that by (auto simp: Let_def log_error_eq split: if_splits prod.splits)

lemma ServerDown_step:
  assumes "agent_step P (ServerDown down) s = Some s'"
  obtains lg where "s_phase s = Signalled" "\<not> s_exited s" "s' = s\<lparr>s_phase := ServerStopped, s_reader_log := lg\<rparr>"
  using assms that by (auto simp: log_error_eq split: if_splits)

inductive arun :: "agent_params \<Rightarrow> sys \<Rightarrow> label list \<Rightarrow> sys \<Rightarrow> bool" for P where
  arun_nil: "arun P s [] s"
| arun_step: "arun P s ls s' \<Longrightarrow> agent_step P l s' = Some s'' \<Longrightarrow> arun P s (ls @ [l]) s''"

inductive_cases arun_snocE: "arun P s (ls @ [l]) s''"
inductive_simps arun_Nil_iff [simp]: "arun P s [] s'"

lemma arun_append: "arun P s' ls' s'' \<Longrightarrow> arun P s ls s' \<Longrightarrow> arun P s (ls @ ls') s''"
proof (induction rule: arun.induct)
  case (arun_step s1 ls' s2 l s3)
  then show ?case using arun.arun_step [of P s "ls @ ls'" s2 l s3] by simp
qed simp

text \<open>The hook is attached before the agent is ready. \<open>early\<close> and \<open>late\<close> are the calls it sees before and after
  the reader is created; no other part of the start touches the maps once the hook is attached.\<close>

definition agent_start_traced ::
  "agent_params \<Rightarrow> hook_call list \<Rightarrow> hook_call list \<Rightarrow> start_env \<Rightarrow> Config \<Rightarrow> bool \<Rightarrow> goerr + sys" where
  "agent_start_traced P early late se cfg debugFlag =
     (case agent_prepare se cfg debugFlag of
        Inl err \<Rightarrow> Inl err
      | Inr s \<Rightarrow>
          (let s = set_bpf (hook_run (ap_relo P) early (s_bpf s)) s
           in case CreateReader (se_ebpf se) (s_loader s) of
             (Some err, _) \<Rightarrow> Inl err
           | (None, l) \<Rightarrow>
               (let s = s\<lparr>s_loader := l\<rparr>; s = set_bpf (hook_run (ap_relo P) late (s_bpf s)) s
                in Inr (s\<lparr>s_ready := True\<rparr>))))"

section \<open>Phases\<close>

text \<open>The phases in the order in which the signal goroutine goes through them.\<close>

primrec phase_rank :: "phase \<Rightarrow> nat" where
  "phase_rank Serving = 0"
| "phase_rank Signalled = 1"
| "phase_rank ServerStopped = 2"
| "phase_rank Stopped = 3"

lemma phase_rank_inj: "phase_rank p = phase_rank q \<longleftrightarrow> p = q"
  by (cases p; cases q) simp_all

instantiation phase :: linorder
begin

definition less_eq_phase :: "phase \<Rightarrow> phase \<Rightarrow> bool" where
  "less_eq_phase p q \<longleftrightarrow> phase_rank p \<le> phase_rank q"

definition less_phase :: "phase \<Rightarrow> phase \<Rightarrow> bool" where
  "less_phase p q \<longleftrightarrow> phase_rank p < phase_rank q"

instance
  by standard (auto simp: less_eq_phase_def less_phase_def phase_rank_inj [symmetric])

end

lemma step_phase: "agent_step P l s = Some s' \<Longrightarrow> s_phase s \<le> s_phase s'"
  by (cases l) (auto simp: less_eq_phase_def set_bpf_def reader_result_def reader_send_def Let_def log_error_def
      split: if_splits list.splits option.splits sum.splits prod.splits)

lemma run_phase: "arun P s ls s' \<Longrightarrow> s_phase s \<le> s_phase s'"
  by (induction rule: arun.induct) (auto dest: step_phase)

end
