(* ===== verification/AgentRun.thy ===== *)
theory AgentRun
  imports Agent
begin

text \<open>
  What holds of the running agent, for every interleaving of the hook, the reader, the worker and the
  shutdown: events are neither lost nor invented between the probe and the exported counters, every event
  in flight is one the agent can name, the queue stays within its bound, the parts are shut down in order,
  and once the reader is closed the rest of the run is short and always able to go on. One lemma per step
  feeds the invariant \<open>agent_inv\<close>; \<open>arun\<close> carries it to every reachable state.
\<close>

section \<open>Events in flight\<close>

text \<open>The events that left the ring buffer and are not yet counted, oldest first.\<close>

definition in_flight :: "sys \<Rightarrow> Event list" where
  "in_flight s = (case s_busy s of None \<Rightarrow> [] | Some e \<Rightarrow> [e]) @ s_queue s @
     (case s_pending s of None \<Rightarrow> [] | Some e \<Rightarrow> [e])"

text \<open>An event the worker can name: its device is in the device map, and its kind is the entry of the
  vendor's table for its ioctl number.\<close>

definition event_known :: "(deviceNode \<rightharpoonup> deviceMeta) \<Rightarrow> Event \<Rightarrow> bool" where
  "event_known dm e \<longleftrightarrow> (\<exists>meta vnd.
     dm \<lparr>dn_major = ucast (Event_Major e), dn_minor = Event_Minor e\<rparr> = Some meta \<and>
     vnd \<in> set registeredVendors \<and> meta_vendor meta = Name vnd \<and>
     Ioctls vnd (Cmd e AND 0xFF) = Some (Event_Kind e))"

definition sample_known :: "(deviceNode \<rightharpoonup> deviceMeta) \<Rightarrow> u8 list \<Rightarrow> bool" where
  "sample_known dm raw \<longleftrightarrow> (\<exists>e. ReadEvent (Inr raw) = Inr e \<and> event_known dm e)"

lemma probe_event_known:
  assumes "tables_ok b dm" "probe_kind b rdev cmd = Some kind"
  shows "event_known dm (event_view (probe_event env rdev cmd kind))"
proof -
  obtain v where v: "devices b \<lparr>dk_major = dev_major rdev, dk_minor = dev_minor rdev\<rparr> = Some v"
    and k: "ioctls b \<lparr>ik_vendor_id = v, ik_nr = cmd AND 0xFF\<rparr> = Some kind"
    using assms(2) by (auto simp: probe_kind_def bind_eq_Some_conv)
  obtain meta vnd where m: "dm \<lparr>dn_major = dev_major rdev, dn_minor = dev_minor rdev\<rparr> = Some meta"
    "vnd \<in> set registeredVendors" "meta_vendor meta = Name vnd" "v = GetVendorID registeredVendors (Name vnd)"
    using assms(1) v unfolding tables_ok_def by blast
  moreover obtain w where "w \<in> set registeredVendors" "v = GetVendorID registeredVendors (Name w)"
    "Ioctls w (cmd AND 0xFF) = Some kind"
    using assms(1) k unfolding tables_ok_def by blast
  ultimately have "Ioctls vnd (cmd AND 0xFF) = Some kind" using registered_ID_inj by metis
  with m show ?thesis
    by (auto simp: event_known_def event_view_def probe_event_def dev_major_u16)
qed

lemma hook_sample_known:
  assumes "tables_ok b dm" "reserve_sized env" "\<forall>raw \<in> set (events b). sample_known dm raw"
  shows "\<forall>raw \<in> set (events (snd (kubenpu_ioctl relo env filp cmd arg b))). sample_known dm raw"
proof (cases "probe_kind b (probe_rdev relo env filp) cmd")
  case None
  then show ?thesis using assms(3) by (simp add: kubenpu_ioctl_cases)
next
  case (Some kind)
  let ?e = "probe_event env (probe_rdev relo env filp) cmd kind"
  show ?thesis
  proof (cases "ringbuf_reserve env (events b) 32")
    case None
    with Some assms(3) show ?thesis by (simp add: kubenpu_ioctl_cases)
  next
    case (Some buf)
    then have "length buf = 32" using assms(2) by (auto simp: reserve_sized_def)
    then have "events (snd (kubenpu_ioctl relo env filp cmd arg b)) = events b @ [event_bytes ?e]"
      using Some \<open>probe_kind _ _ _ = Some kind\<close>
      by (simp add: kubenpu_ioctl_cases fill_event_bytes probe_event_def)
    moreover have "sample_known dm (event_bytes ?e)"
      using ReadEvent_event_bytes [of ?e "[]"] probe_event_known [OF assms(1) \<open>probe_kind _ _ _ = Some kind\<close>]
      by (auto simp: sample_known_def)
    ultimately show ?thesis using assms(3) by simp
  qed
qed

section \<open>The worker\<close>

text \<open>What the exported counters promise of a series.\<close>

definition series_key_ok :: "deviceKey set \<Rightarrow> key \<Rightarrow> bool" where
  "series_key_ok devs k \<longleftrightarrow>
     key_namespace k \<noteq> [] \<and> key_pod k \<noteq> [] \<and> key_container k \<noteq> [] \<and>
     key_kind k \<in> {''submit'', ''alloc'', ''wait''} \<and>
     (\<exists>d \<in> devs. dev_device d = key_device k \<and> dev_vendor d = key_vendor k)"

definition series_ok :: "world Collector \<Rightarrow> bool" where
  "series_ok c \<longleftrightarrow> (\<forall>k \<in> dom (ioctlTotal c). series_key_ok (deviceInfo c) k)"

lemma series_ok_IncIoctl:
  "series_ok c \<Longrightarrow> series_key_ok (deviceInfo c) \<lparr>key_namespace = n, key_pod = q, key_container = t,
     key_device = d, key_vendor = v, key_kind = k\<rparr> \<Longrightarrow> series_ok (IncIoctl n q t d v k c)"
  unfolding series_ok_def IncIoctl_def by simp

text \<open>The drop reason of a failed lookup, and what the worker does with each outcome.\<close>

definition drop_reason :: "goerr \<Rightarrow> string option" where
  "drop_reason err =
     (if errors_Is err ErrNotPod then Some ReasonNotPod
      else if errors_Is err ErrNotIndexed then Some ReasonNotIndexed
      else if errors_Is err ErrContainerNotFound then Some ReasonContainerNotFound
      else None)"

lemma worker_event_cases:
  "worker_event env dm e p c lg =
     (case dm \<lparr>dn_major = ucast (Event_Major e), dn_minor = Event_Minor e\<rparr> of
        None \<Rightarrow> (p, IncEventsDropped ReasonDeviceUnknown c, lg)
      | Some device \<Rightarrow>
          (case ContainerInfo env (CgroupID e) p of
             (Inr i, p') \<Rightarrow> (p', IncIoctl (Namespace i) (PodName i) (ContainerName i) (pciAddress device)
                (meta_vendor device) (Kind_String (Event_Kind e)) c, lg)
           | (Inl err, p') \<Rightarrow>
               (case drop_reason err of
                  Some r \<Rightarrow> (p', IncEventsDropped r c, lg)
                | None \<Rightarrow> (p', c, lg @ [err]))))"
  by (simp add: worker_event_def drop_reason_def Let_def split: option.split prod.split sum.split)

lemma ContainerInfo_info_ok:
  assumes "podmap_ok p" "fst (ContainerInfo env cg p) = Inr i"
  shows "info_ok i"
proof (cases "cg = 0")
  case True
  with assms(2) show ?thesis by (simp add: ContainerInfo_zero)
next
  case nz: False
  show ?thesis
  proof (cases "cached env cg p")
    case (Some j)
    with assms nz show ?thesis
      by (auto simp: ContainerInfo_cached cached_def podmap_ok_def split: option.splits if_splits)
  next
    case None
    note u = ContainerInfo_uncached [OF nz None]
    with assms(2) obtain ids where ids: "ContainerInfo env cg p = finish_info env cg ids (refreshed env cg p)"
      by (auto split: sum.splits)
    with assms(2) have "ContainerNames (cri_of env) (cri p) (ContainerID ids) = Inr i"
      by (auto simp: finish_info_def split: sum.splits)
    then show ?thesis by (rule ContainerNames_ok)
  qed
qed

lemma drop_reason_known: "drop_reason err = Some r \<Longrightarrow> r \<noteq> ReasonDeviceUnknown"
  by (auto simp: drop_reason_def reason_defs split: if_splits)

lemma series_ok_IncEventsDropped [simp]: "series_ok (IncEventsDropped r c) = series_ok c"
  by (simp add: series_ok_def IncEventsDropped_def)

lemma described_cong: "deviceInfo c' = deviceInfo c \<Longrightarrow> described dm c' = described dm c"
  by (simp add: described_def)

lemma deviceInfo_frame [simp]:
  "deviceInfo (IncEventsDropped r c) = deviceInfo c" "deviceInfo (IncIoctl n q t d v k c) = deviceInfo c"
  by (simp_all add: IncEventsDropped_def IncIoctl_def)

text \<open>One event of the worker: each counted in exactly one place, under a name the invariant allows.\<close>

lemma worker_event_step:
  assumes w: "worker_event env dm e p c lg = (p', c', lg')"
    and p: "podmap_ok p" and fin: "collector_fin c"
  shows "podmap_ok p' \<and> collector_fin c' \<and> deviceInfo c' = deviceInfo c \<and>
    ioctls_counted c' + drops_counted c' + of_nat (length lg') =
    ioctls_counted c + drops_counted c + of_nat (length lg) + 1"
proof (cases "dm \<lparr>dn_major = ucast (Event_Major e), dn_minor = Event_Minor e\<rparr>")
  case None
  with w p fin show ?thesis by (auto simp: worker_event_cases drops_counted_Inc)
next
  case (Some device)
  obtain res p1 where ci: "ContainerInfo env (CgroupID e) p = (res, p1)" by fastforce
  then have p1: "podmap_ok p1" using ContainerInfo_ok [OF p, of env "CgroupID e"] by simp
  show ?thesis
  proof (cases res)
    case (Inl err)
    with Some ci w p1 fin show ?thesis
      by (auto simp: worker_event_cases drops_counted_Inc split: option.splits)
  next
    case (Inr i)
    with Some ci w p1 fin show ?thesis
      by (auto simp: worker_event_cases ioctls_counted_IncIoctl)
  qed
qed

lemma worker_event_series:
  assumes w: "worker_event env dm e p c lg = (p', c', lg')"
    and "podmap_ok p" "event_known dm e" "described dm c" "series_ok c"
  shows "series_ok c' \<and>
    map_val (eventsDroppedTotal c') ReasonDeviceUnknown = map_val (eventsDroppedTotal c) ReasonDeviceUnknown"
proof -
  obtain device vnd where dm: "dm \<lparr>dn_major = ucast (Event_Major e), dn_minor = Event_Minor e\<rparr> = Some device"
    and vnd: "vnd \<in> set registeredVendors" "meta_vendor device = Name vnd"
    and k: "Ioctls vnd (Cmd e AND 0xFF) = Some (Event_Kind e)"
    using assms(3) unfolding event_known_def by blast
  have kind: "Kind_String (Event_Kind e) \<in> {''submit'', ''alloc'', ''wait''}"
    using vendor.ioctl_kind [OF registered_vendor [OF vnd(1)] k] by (auto simp: Kind_String_def hw_kinds)
  obtain d where d: "d \<in> deviceInfo c" "dev_device d = pciAddress device" "dev_vendor d = meta_vendor device"
    using assms(4) dm unfolding described_def by blast
  obtain res p1 where ci: "ContainerInfo env (CgroupID e) p = (res, p1)" by fastforce
  show ?thesis
  proof (cases res)
    case (Inl err)
    with dm ci w assms(5) show ?thesis
      by (auto simp: worker_event_cases drops.val_inc dest: drop_reason_known split: option.splits)
  next
    case (Inr i)
    then have "info_ok i" using ContainerInfo_info_ok [OF assms(2), of env "CgroupID e" i] ci by simp
    with kind d have "series_key_ok (deviceInfo c) \<lparr>key_namespace = Namespace i, key_pod = PodName i,
        key_container = ContainerName i, key_device = pciAddress device, key_vendor = meta_vendor device,
        key_kind = Kind_String (Event_Kind e)\<rparr>"
      by (auto simp: series_key_ok_def info_ok_def)
    from series_ok_IncIoctl [OF assms(5) this] show ?thesis
      using dm ci w Inr by (auto simp: worker_event_cases IncIoctl_def)
  qed
qed

section \<open>The invariant\<close>

text \<open>Everything the agent still owes or has counted: samples in the ring buffer, calls the kernel had no
  room for, events in flight, both counter families and the errors that are only logged.\<close>

definition accounted :: "nat \<Rightarrow> sys \<Rightarrow> u64" where
  "accounted ncpu s = of_nat (length (events (s_bpf s))) + total_dropped ncpu (s_bpf s) +
     of_nat (length (in_flight s)) + ioctls_counted (s_collector s) + drops_counted (s_collector s) +
     of_nat (length (s_worker_log s))"

definition data_inv :: "agent_params \<Rightarrow> sys \<Rightarrow> bool" where
  "data_inv P s \<longleftrightarrow> tables_ok (s_bpf s) (s_deviceMap s) \<and> described (s_deviceMap s) (s_collector s) \<and>
     bpf_wf (s_bpf s) \<and> podmap_ok (s_podmap s) \<and> collector_fin (s_collector s) \<and>
     (\<forall>raw \<in> set (events (s_bpf s)). sample_known (s_deviceMap s) raw) \<and>
     (\<forall>e \<in> set (in_flight s). event_known (s_deviceMap s) e) \<and>
     series_ok (s_collector s) \<and> map_val (eventsDroppedTotal (s_collector s)) ReasonDeviceUnknown = 0 \<and>
     int (length (s_queue s)) \<le> max 0 (ap_queueSize P)"

definition control_inv :: "sys \<Rightarrow> bool" where
  "control_inv s \<longleftrightarrow>
     (s_ready s \<longleftrightarrow> s_phase s = Serving) \<and>
     (closeReaderOnce (s_loader s) \<longrightarrow> s_phase s = Stopped) \<and>
     (s_reader_closed s \<longrightarrow> s_phase s = Stopped) \<and>
     (s_queue_closed s \<longleftrightarrow> \<not> s_reading s) \<and>
     (\<not> s_reading s \<longrightarrow> s_reader_closed s \<and> s_pending s = None) \<and>
     (s_worker_done s \<longrightarrow> \<not> s_reading s \<and> s_queue s = [] \<and> s_busy s = None) \<and>
     (s_exited s \<longrightarrow> s_worker_done s) \<and> (s_podmap_closed s \<longleftrightarrow> s_exited s) \<and>
     (\<not> s_exited s \<longrightarrow> hook (s_loader s) \<noteq> None \<and> rb (s_loader s) \<noteq> None \<and> \<not> closeOnce (s_loader s) \<and>
        close_calls (s_loader s) = (if closeReaderOnce (s_loader s) then [RingbufReader] else []))"

lemma accounted_init: "sys_init s \<Longrightarrow> accounted ncpu s = 0"
  by (simp add: sys_init_def accounted_def in_flight_def total_dropped_def bpf_init_def ioctls_counted_def
      drops_counted_def NewCollector_def map_val_def dropReasons_def sum.neutral reason_defs)

lemma data_inv_init: "sys_init s \<Longrightarrow> data_inv P s"
  using bpf_wf_init
  by (simp add: sys_init_def data_inv_def in_flight_def bpf_wf_def series_ok_def collector_fin_def
      NewCollector_counts del: fun_upd_apply)

lemma control_inv_init: "sys_init s \<Longrightarrow> control_inv s"
  by (simp add: sys_init_def control_inv_def)

section \<open>One step\<close>

definition label_ok :: "nat \<Rightarrow> label \<Rightarrow> bool" where
  "label_ok ncpu l = (case l of Hook call \<Rightarrow> call_ok ncpu call | _ \<Rightarrow> True)"

definition hook_labels :: "label list \<Rightarrow> hook_call list" where
  "hook_labels ls = List.map_filter (\<lambda>l. case l of Hook call \<Rightarrow> Some call | _ \<Rightarrow> None) ls"

text \<open>What a step adds to the account: one for a call the probe reports.\<close>

definition gain :: "agent_params \<Rightarrow> bpf_state \<Rightarrow> label \<Rightarrow> u64" where
  "gain P b l = (case l of Hook call \<Rightarrow> if reported (ap_relo P) b call then 1 else 0 | _ \<Rightarrow> 0)"

lemma hook_labels_append: "hook_labels (ls @ ls') = hook_labels ls @ hook_labels ls'"
  by (induction ls) (simp_all add: hook_labels_def List.map_filter_simps split: option.split)

lemma hook_labels_map: "hook_labels (map Hook calls) = calls"
  by (induction calls) (simp_all add: hook_labels_def List.map_filter_simps)

lemma hook_labels_set: "Hook call \<in> set ls \<Longrightarrow> call \<in> set (hook_labels ls)"
  by (induction ls) (auto simp: hook_labels_def List.map_filter_simps split: option.split)

lemma sum_gain:
  "sum_list (map (gain P b) ls) = of_nat (length (filter (reported (ap_relo P) b) (hook_labels ls)))"
proof (induction ls)
  case (Cons l ls)
  then show ?case by (cases l) (simp_all add: gain_def hook_labels_def List.map_filter_simps)
qed (simp add: hook_labels_def List.map_filter_simps)

definition same_tables :: "sys \<Rightarrow> sys \<Rightarrow> bool" where
  "same_tables s s' \<longleftrightarrow> devices (s_bpf s') = devices (s_bpf s) \<and> ioctls (s_bpf s') = ioctls (s_bpf s) \<and>
     s_deviceMap s' = s_deviceMap s \<and> deviceInfo (s_collector s') = deviceInfo (s_collector s)"

lemma bpfObjects_CloseReader [simp]: "bpfObjects (snd (CloseReader env l)) = bpfObjects l"
  by (simp add: CloseReader_def Let_def split: option.split)

lemma bpfObjects_Close [simp]: "bpfObjects (snd (Close env l)) = bpfObjects l"
  by (simp add: Close_def CloseReader_def Let_def split: option.split prod.split)

lemma tables_ok_cong:
  "devices b' = devices b \<Longrightarrow> ioctls b' = ioctls b \<Longrightarrow> tables_ok b' dm = tables_ok b dm"
  by (simp add: tables_ok_def)

definition data_step_ok :: "agent_params \<Rightarrow> nat \<Rightarrow> label \<Rightarrow> sys \<Rightarrow> sys \<Rightarrow> bool" where
  "data_step_ok P ncpu l s s' \<longleftrightarrow> data_inv P s' \<and> same_tables s s' \<and>
     accounted ncpu s' = accounted ncpu s + gain P (s_bpf s) l"

lemma data_step_Hook:
  assumes "agent_step P (Hook call) s = Some s'" "data_inv P s" "call_ok ncpu call"
  shows "data_step_ok P ncpu (Hook call) s s'"
proof -
  obtain env filp cmd arg where call: "call = (env, filp, cmd, arg)" by (cases call)
  let ?b = "snd (kubenpu_ioctl (ap_relo P) env filp cmd arg (s_bpf s))"
  have s': "s' = set_bpf ?b s" using assms(1) by (simp add: call split: if_splits)
  have step: "devices ?b = devices (s_bpf s)" "ioctls ?b = ioctls (s_bpf s)" "bpf_wf ?b"
    "of_nat (length (events ?b)) + total_dropped ncpu ?b =
     of_nat (length (events (s_bpf s))) + total_dropped ncpu (s_bpf s) + gain P (s_bpf s) (Hook call)"
    using kubenpu_ioctl_step [of "s_bpf s" ncpu env filp cmd arg "ap_relo P"] assms(2,3)
    by (simp_all add: call data_inv_def gain_def)
  have "\<forall>raw \<in> set (events ?b). sample_known (s_deviceMap s) raw"
    using assms(2,3) by (intro hook_sample_known) (simp_all add: call data_inv_def call_ok_def)
  moreover have "accounted ncpu s' = accounted ncpu s + gain P (s_bpf s) (Hook call)"
    using step(4) by (simp add: s' accounted_def in_flight_def set_bpf_def)
  ultimately show ?thesis
    using assms(2) step(1-3) tables_ok_cong [OF step(1,2)]
    by (simp add: data_step_ok_def s' data_inv_def same_tables_def set_bpf_def in_flight_def)
qed

lemma data_step_Read:
  assumes "agent_step P Read s = Some s'" "data_inv P s"
  shows "data_step_ok P ncpu Read s s'"
proof -
  obtain raw rest where ev: "events (s_bpf s) = raw # rest" and pend: "s_pending s = None"
    and s': "s' = reader_result (ReadEvent (Inr raw)) (set_bpf ((s_bpf s)\<lparr>events := rest\<rparr>) s)"
    using assms(1) by (auto split: if_splits list.splits)
  obtain e where e: "ReadEvent (Inr raw) = Inr e" "event_known (s_deviceMap s) e"
    using assms(2) ev by (auto simp: data_inv_def sample_known_def)
  have "total_dropped ncpu ((s_bpf s)\<lparr>events := rest\<rparr>) = total_dropped ncpu (s_bpf s)"
    by (simp add: total_dropped_def)
  then have "accounted ncpu s' = accounted ncpu s"
    using ev pend by (simp add: s' e(1) reader_result_def set_bpf_def accounted_def in_flight_def)
  moreover have "tables_ok ((s_bpf s)\<lparr>events := rest\<rparr>) (s_deviceMap s) = tables_ok (s_bpf s) (s_deviceMap s)"
    by (rule tables_ok_cong) simp_all
  ultimately show ?thesis
    using assms(2) e(2) ev pend
    by (auto simp: data_step_ok_def gain_def s' e(1) reader_result_def set_bpf_def data_inv_def same_tables_def
        in_flight_def bpf_wf_def)
qed

lemma data_step_Send:
  assumes "agent_step P Send s = Some s'" "data_inv P s"
  shows "data_step_ok P ncpu Send s s'"
proof -
  obtain e where e: "s_pending s = Some e" and s': "s' = reader_send (ap_queueSize P) e s"
    using assms(1) by (auto split: if_splits)
  have fin: "collector_fin (s_collector s)" using assms(2) by (simp add: data_inv_def)
  show ?thesis
  proof (cases "int (length (s_queue s)) < ap_queueSize P")
    case True
    then show ?thesis
      using assms(2) e by (auto simp: data_step_ok_def gain_def s' reader_send_def data_inv_def same_tables_def
          in_flight_def accounted_def)
  next
    case False
    then show ?thesis
      using assms(2) e drops_counted_Inc [OF fin, of ReasonQueueFull]
      by (auto simp: data_step_ok_def gain_def s' reader_send_def data_inv_def same_tables_def
          in_flight_def accounted_def described_def drops.val_inc reason_defs)
  qed
qed

lemma shift_one: "a + f + (x + 1) = a + (f + 1) + (x :: 'a::comm_semiring_1)"
  by (simp add: ac_simps)

lemma data_step_Work:
  assumes "agent_step P (Work env) s = Some s'" "data_inv P s"
  shows "data_step_ok P ncpu (Work env) s s'"
proof -
  obtain e where e: "s_busy s = Some e" using assms(1) by (auto split: option.splits)
  obtain p c lg where w: "worker_event env (s_deviceMap s) e (s_podmap s) (s_collector s) (s_worker_log s) = (p, c, lg)"
    using prod_cases3 by blast
  have s': "s' = s\<lparr>s_busy := None, s_podmap := p, s_collector := c, s_worker_log := lg\<rparr>"
    using assms(1) by (simp add: e w)
  note step = worker_event_step [OF w] and series = worker_event_series [OF w]
  have st: "podmap_ok p" "collector_fin c" "deviceInfo c = deviceInfo (s_collector s)"
    "ioctls_counted c + drops_counted c + of_nat (length lg) =
     ioctls_counted (s_collector s) + drops_counted (s_collector s) + of_nat (length (s_worker_log s)) + 1"
    using step assms(2) by (simp_all add: data_inv_def)
  have se: "series_ok c" "map_val (eventsDroppedTotal c) ReasonDeviceUnknown = 0"
    using series assms(2) e by (simp_all add: data_inv_def in_flight_def)
  have fields: "s_bpf s' = s_bpf s" "s_collector s' = c" "s_worker_log s' = lg" by (simp_all add: s')
  let ?A = "of_nat (length (events (s_bpf s))) + total_dropped ncpu (s_bpf s)"
  let ?X = "ioctls_counted (s_collector s) + drops_counted (s_collector s) + of_nat (length (s_worker_log s))"
  have "accounted ncpu s' = ?A + of_nat (length (in_flight s')) +
      (ioctls_counted c + drops_counted c + of_nat (length lg))"
    by (simp only: accounted_def fields add.assoc)
  also have "\<dots> = ?A + of_nat (length (in_flight s')) + (?X + 1)"
    by (rule arg_cong [OF st(4)])
  also have "\<dots> = ?A + (of_nat (length (in_flight s')) + 1) + ?X"
    by (rule shift_one)
  also have "of_nat (length (in_flight s')) + 1 = (of_nat (length (in_flight s)) :: u64)"
    by (simp add: s' e in_flight_def)
  also have "?A + of_nat (length (in_flight s)) + ?X = accounted ncpu s"
    by (simp only: accounted_def add.assoc)
  finally have "accounted ncpu s' = accounted ncpu s" .
  moreover have "described (s_deviceMap s) c"
    using assms(2) described_cong [OF st(3)] by (simp add: data_inv_def)
  ultimately show ?thesis
    using st(1-3) se assms(2) e
    by (simp add: data_step_ok_def gain_def s' data_inv_def same_tables_def in_flight_def)
qed

text \<open>A step that moves no data keeps the invariant and the account.\<close>

lemma data_step_quiet:
  assumes "data_inv P s" "gain P (s_bpf s) l = 0"
    and "s_bpf s' = s_bpf s" "s_deviceMap s' = s_deviceMap s" "s_podmap s' = s_podmap s"
    and "s_collector s' = s_collector s" "s_worker_log s' = s_worker_log s"
    and "in_flight s' = in_flight s" "length (s_queue s') \<le> length (s_queue s)"
  shows "data_step_ok P ncpu l s s'"
  using assms by (simp add: data_step_ok_def data_inv_def same_tables_def accounted_def)

lemma data_step:
  assumes "agent_step P l s = Some s'" "data_inv P s" "label_ok ncpu l"
  shows "data_step_ok P ncpu l s s'"
proof (cases l)
  case (Hook call)
  with assms show ?thesis using data_step_Hook by (simp add: label_ok_def)
next
  case Read
  with assms show ?thesis using data_step_Read by simp
next
  case (ReadFails err)
  with assms show ?thesis
    by (intro data_step_quiet) (auto simp: gain_def reader_result_def ReadEvent_def in_flight_def split: if_splits)
next
  case ReadAfterClose
  with assms show ?thesis
    by (intro data_step_quiet) (auto simp: gain_def reader_result_def ReadEvent_def in_flight_def split: if_splits)
next
  case Send
  with assms show ?thesis using data_step_Send by simp
next
  case Take
  with assms show ?thesis
    by (intro data_step_quiet) (auto simp: gain_def in_flight_def split: if_splits list.splits)
next
  case (Work env)
  with assms show ?thesis using data_step_Work by simp
next
  case WorkerExit
  with assms show ?thesis
    by (intro data_step_quiet) (auto simp: gain_def in_flight_def split: if_splits)
next
  case Signal
  with assms show ?thesis
    by (intro data_step_quiet) (auto simp: gain_def in_flight_def split: if_splits)
next
  case (ServerDown down)
  from assms(1) [unfolded ServerDown] assms show ?thesis
    by (elim ServerDown_step, intro data_step_quiet) (auto simp: ServerDown gain_def in_flight_def)
next
  case (CloseRing env)
  obtain err ld where c: "CloseReader env (s_loader s) = (err, ld)" by fastforce
  with bpfObjects_CloseReader [of env "s_loader s"] have "bpfObjects ld = s_bpf s" by simp
  with c CloseRing assms show ?thesis
    by (intro data_step_quiet) (auto simp: gain_def in_flight_def Let_def split: if_splits option.splits)
next
  case (Exit cenv env)
  from assms(1) [unfolded Exit] assms show ?thesis
    by (elim Exit_step, intro data_step_quiet) (auto simp: Exit gain_def in_flight_def)
qed

lemma control_quiet:
  assumes "control_inv s" "s_loader s' = s_loader s \<or> (\<exists>b. s_loader s' = (s_loader s)\<lparr>bpfObjects := b\<rparr>)"
    and "s_ready s' = s_ready s" "s_phase s' = s_phase s" "s_reader_closed s' = s_reader_closed s"
    and "s_queue_closed s' = s_queue_closed s" "s_reading s' = s_reading s"
    and "s_worker_done s' = s_worker_done s" "s_exited s' = s_exited s" "s_podmap_closed s' = s_podmap_closed s"
    and "\<not> s_reading s \<longrightarrow> s_pending s' = None" "s_worker_done s \<longrightarrow> s_queue s' = [] \<and> s_busy s' = None"
  shows "control_inv s'"
proof -
  have "hook (s_loader s') = hook (s_loader s)" "rb (s_loader s') = rb (s_loader s)"
    "closeOnce (s_loader s') = closeOnce (s_loader s)" "close_calls (s_loader s') = close_calls (s_loader s)"
    "closeReaderOnce (s_loader s') = closeReaderOnce (s_loader s)"
    using assms(2) by auto
  with assms(1,3-12) show ?thesis by (simp add: control_inv_def)
qed

lemma control_idle:
  "control_inv s \<Longrightarrow> (\<not> s_reading s \<longrightarrow> s_pending s = None) \<and>
     (s_worker_done s \<longrightarrow> \<not> s_reading s \<and> s_queue s = [] \<and> s_busy s = None)"
  by (simp add: control_inv_def)

lemma control_step:
  assumes step: "agent_step P l s = Some s'" and inv: "control_inv s"
  shows "control_inv s'"
proof (cases l)
  case (Hook call)
  with step control_idle [OF inv] show ?thesis
    by (intro control_quiet [OF inv]) (auto simp: set_bpf_def split: if_splits)
next
  case Read
  with step obtain raw rest where "s_reading s" "\<not> s_reader_closed s"
    and s': "s' = reader_result (ReadEvent (Inr raw)) (set_bpf ((s_bpf s)\<lparr>events := rest\<rparr>) s)"
    by (auto split: if_splits list.splits)
  moreover have "\<not> errors_Is e ringbuf_ErrClosed" if "ReadEvent (Inr raw) = Inl e" for e
    using that by (auto simp: ReadEvent_def ringbuf_ErrClosed_def split: if_splits)
  ultimately show ?thesis using control_idle [OF inv]
    by (intro control_quiet [OF inv]) (auto simp: reader_result_def set_bpf_def split: sum.split)
next
  case (ReadFails err)
  with step control_idle [OF inv] show ?thesis
    by (intro control_quiet [OF inv])
      (auto simp: reader_result_def ReadEvent_def ringbuf_ErrClosed_def split: if_splits)
next
  case ReadAfterClose
  with step have "s_reading s" "s_pending s = None" "s_reader_closed s"
    "s' = s\<lparr>s_reading := False, s_queue_closed := True\<rparr>"
    by (simp_all add: reader_result_def ReadEvent_def ringbuf_ErrClosed_def split: if_splits)
  with inv show ?thesis by (auto simp: control_inv_def)
next
  case Send
  with step control_idle [OF inv] show ?thesis
    by (intro control_quiet [OF inv]) (auto simp: reader_send_def split: if_splits)
next
  case Take
  with step control_idle [OF inv] show ?thesis
    by (intro control_quiet [OF inv]) (auto split: if_splits list.splits)
next
  case (Work env)
  with step control_idle [OF inv] show ?thesis
    by (intro control_quiet [OF inv]) (auto simp: Let_def split: option.splits prod.splits)
next
  case WorkerExit
  with step have "s_busy s = None" "s_queue s = []" "s_queue_closed s" "s' = s\<lparr>s_worker_done := True\<rparr>"
    by (simp_all split: if_splits)
  with inv show ?thesis by (simp add: control_inv_def)
next
  case Signal
  with step have "s_phase s = Serving" "s' = s\<lparr>s_ready := False, s_phase := Signalled\<rparr>"
    by (simp_all split: if_splits)
  with inv show ?thesis by (auto simp: control_inv_def)
next
  case (ServerDown down)
  from step [unfolded ServerDown] inv show ?thesis by (elim ServerDown_step) (auto simp: control_inv_def)
next
  case (CloseRing env)
  with step have ph: "s_phase s = ServerStopped" "\<not> s_exited s" by (simp_all split: if_splits)
  with inv have c: "\<not> closeReaderOnce (s_loader s)" "rb (s_loader s) \<noteq> None" "\<not> s_reader_closed s"
    by (auto simp: control_inv_def)
  let ?l = "(s_loader s)\<lparr>closeReaderOnce := True, close_calls := close_calls (s_loader s) @ [RingbufReader]\<rparr>"
  have "snd (CloseReader env (s_loader s)) = ?l"
    using c by (simp add: CloseReader_eq reader_calls_def)
  then obtain err where e: "CloseReader env (s_loader s) = (err, ?l)" by (metis prod.collapse)
  show ?thesis
  proof (cases err)
    case None
    with e CloseRing step ph have "s' = s\<lparr>s_loader := ?l, s_phase := Stopped, s_reader_closed := True\<rparr>"
      by (simp add: Let_def)
    with inv c ph show ?thesis by (auto simp: control_inv_def)
  next
    case (Some x)
    with e CloseRing step ph
    have "s' = s\<lparr>s_loader := ?l, s_phase := Stopped, s_reader_log := s_reader_log s @ [x]\<rparr>"
      by (simp add: Let_def)
    with inv c ph show ?thesis by (auto simp: control_inv_def)
  qed
next
  case (Exit cenv env)
  moreover have "s_phase s = Stopped" if "s_worker_done s" using inv that by (simp add: control_inv_def)
  ultimately show ?thesis using step [unfolded Exit] inv by (elim Exit_step) (simp add: control_inv_def)
qed

section \<open>Runs\<close>

lemma gain_cong:
  assumes "same_tables s s'"
  shows "gain P (s_bpf s') l = gain P (s_bpf s) l"
proof -
  have "reported relo (s_bpf s') = reported relo (s_bpf s)" for relo
    using assms by (intro reported_cong) (simp_all add: same_tables_def)
  then show ?thesis by (cases l) (simp_all add: gain_def)
qed

lemma same_tables_trans: "same_tables s s' \<Longrightarrow> same_tables s' s'' \<Longrightarrow> same_tables s s''"
  by (simp add: same_tables_def)

lemma arun_invariant:
  assumes "arun P s ls s'" "Q s"
    and "\<And>l s s'. l \<in> set ls \<Longrightarrow> agent_step P l s = Some s' \<Longrightarrow> Q s \<Longrightarrow> Q s'"
  shows "Q s'"
  using assms by (induction rule: arun.induct) auto

lemma run_control: "arun P s ls s' \<Longrightarrow> control_inv s \<Longrightarrow> control_inv s'"
  by (rule arun_invariant) (auto intro: control_step)

lemma run_data:
  assumes "arun P s ls s'" "data_inv P s" "\<forall>l \<in> set ls. label_ok ncpu l"
  shows "data_inv P s' \<and> same_tables s s' \<and>
    accounted ncpu s' = accounted ncpu s + sum_list (map (gain P (s_bpf s)) ls)"
  using assms
proof (induction rule: arun.induct)
  case (arun_nil s)
  then show ?case by (simp add: same_tables_def)
next
  case (arun_step s ls s' l s'')
  then have IH: "data_inv P s'" "same_tables s s'"
    "accounted ncpu s' = accounted ncpu s + sum_list (map (gain P (s_bpf s)) ls)" by simp_all
  have step: "data_step_ok P ncpu l s' s''"
    using data_step arun_step.hyps(2) IH(1) arun_step.prems(2) by simp
  have "gain P (s_bpf s') l = gain P (s_bpf s) l"
    by (rule gain_cong [OF IH(2)])
  moreover have "accounted ncpu s'' = accounted ncpu s' + gain P (s_bpf s') l"
    using step unfolding data_step_ok_def by (elim conjE)
  ultimately have "accounted ncpu s'' = accounted ncpu s + sum_list (map (gain P (s_bpf s)) ls) + gain P (s_bpf s) l"
    unfolding IH(3) by (rule subst)
  also have "\<dots> = accounted ncpu s + sum_list (map (gain P (s_bpf s)) (ls @ [l]))"
    by (simp add: add.assoc)
  finally have "accounted ncpu s'' = accounted ncpu s + sum_list (map (gain P (s_bpf s)) (ls @ [l]))" .
  moreover have "data_inv P s''" "same_tables s' s''"
    using step by (simp_all only: data_step_ok_def)
  ultimately show ?case using same_tables_trans [OF IH(2)] by blast
qed

section \<open>Draining\<close>

text \<open>What is left to do once the reader is closed. Sending moves an event from the reader to the queue,
  taking moves it on to the worker.\<close>

definition left_to_do :: "sys \<Rightarrow> nat" where
  "left_to_do s = (if s_pending s = None then 0 else 3) + 2 * length (s_queue s) +
     (if s_busy s = None then 0 else 1) + (if s_reading s then 1 else 0) +
     (if s_worker_done s then 0 else 1) + (if s_exited s then 0 else 1)"

fun is_hook :: "label \<Rightarrow> bool" where
  "is_hook (Hook call) = True"
| "is_hook l = False"

lemma closed_step:
  assumes step: "agent_step P l s = Some s'" and inv: "control_inv s" and closed: "s_reader_closed s"
  shows "s_reader_closed s' \<and> left_to_do s' + (if is_hook l then 0 else 1) \<le> left_to_do s"
proof -
  have ph: "s_phase s = Stopped" using inv closed by (simp add: control_inv_def)
  show ?thesis
  proof (cases l)
    case (Work env)
    with step obtain e where e: "s_busy s = Some e" by (auto split: option.splits)
    obtain p c lg where
      w: "worker_event env (s_deviceMap s) e (s_podmap s) (s_collector s) (s_worker_log s) = (p, c, lg)"
      using prod_cases3 by blast
    have "s' = s\<lparr>s_busy := None, s_podmap := p, s_collector := c, s_worker_log := lg\<rparr>"
      using step by (simp add: Work e w)
    with e closed Work show ?thesis by (simp add: left_to_do_def)
  next
    case Send
    with step obtain e where e: "s_pending s = Some e" "s' = reader_send (ap_queueSize P) e s"
      by (auto split: if_splits)
    then have "s_pending s' = None" "length (s_queue s') \<le> length (s_queue s) + 1" "s_busy s' = s_busy s"
      "s_reading s' = s_reading s" "s_worker_done s' = s_worker_done s" "s_exited s' = s_exited s"
      "s_reader_closed s' = s_reader_closed s"
      by (simp_all add: reader_send_def)
    with e(1) closed Send show ?thesis by (simp add: left_to_do_def)
  next
    case ReadAfterClose
    with step have "s_pending s = None" "s_reading s" "s' = s\<lparr>s_reading := False, s_queue_closed := True\<rparr>"
      by (simp_all add: reader_result_def ReadEvent_def ringbuf_ErrClosed_def split: if_splits)
    with closed ReadAfterClose show ?thesis by (simp add: left_to_do_def)
  next
    case Take
    with step obtain e es where "s_queue s = e # es" "s_busy s = None" "s' = s\<lparr>s_busy := Some e, s_queue := es\<rparr>"
      by (auto split: if_splits list.splits)
    with closed Take show ?thesis by (simp add: left_to_do_def)
  next
    case (Hook call)
    with step have "s' = set_bpf (hook_run (ap_relo P) [call] (s_bpf s)) s" by (simp split: if_splits)
    with closed Hook show ?thesis by (simp add: left_to_do_def set_bpf_def)
  next
    case WorkerExit
    with step have "s' = s\<lparr>s_worker_done := True\<rparr>" "\<not> s_worker_done s" by (simp_all split: if_splits)
    with closed WorkerExit show ?thesis by (simp add: left_to_do_def)
  next
    case (Exit cenv env)
    from step [unfolded Exit] closed show ?thesis by (elim Exit_step) (simp add: left_to_do_def Exit)
  qed (use step closed ph in simp_all)
qed

lemma closed_run:
  "arun P s ls s' \<Longrightarrow> control_inv s \<Longrightarrow> s_reader_closed s \<Longrightarrow>
   s_reader_closed s' \<and> left_to_do s' + length (filter (\<lambda>l. \<not> is_hook l) ls) \<le> left_to_do s"
proof (induction rule: arun.induct)
  case (arun_step s ls s' l s'')
  then have IH: "s_reader_closed s'" "left_to_do s' + length (filter (\<lambda>l. \<not> is_hook l) ls) \<le> left_to_do s"
    by simp_all
  have "control_inv s'" using run_control arun_step.hyps(1) arun_step.prems(1) by blast
  from closed_step [OF arun_step.hyps(2) this IH(1)] IH(2) show ?case by auto
qed simp

text \<open>Some step other than a hook call can always be made.\<close>

lemma closed_progress:
  assumes inv: "control_inv s" and closed: "s_reader_closed s" and "\<not> s_exited s"
  shows "\<exists>l \<in> {Send, ReadAfterClose, Take, Work env, WorkerExit, Exit cenv env'}. agent_step P l s \<noteq> None"
proof (cases "s_reading s")
  case True
  show ?thesis
  proof (cases "s_pending s")
    case None
    with True closed have "agent_step P ReadAfterClose s \<noteq> None" by simp
    then show ?thesis by blast
  next
    case (Some e)
    with True have "agent_step P Send s \<noteq> None" by simp
    then show ?thesis by blast
  qed
next
  case False
  then have q: "s_queue_closed s" using inv by (simp add: control_inv_def)
  show ?thesis
  proof (cases "s_busy s")
    case (Some e)
    then have "agent_step P (Work env) s \<noteq> None" by (simp add: Let_def split: prod.split)
    then show ?thesis by blast
  next
    case None
    show ?thesis
    proof (cases "s_worker_done s")
      case True
      with False assms(3) have "agent_step P (Exit cenv env') s \<noteq> None"
        by (simp add: Let_def split: prod.split)
      then show ?thesis by blast
    next
      case nd: False
      show ?thesis
      proof (cases "s_queue s")
        case Nil
        with None nd q have "agent_step P WorkerExit s \<noteq> None" by simp
        then show ?thesis by blast
      next
        case (Cons e es)
        with None nd have "agent_step P Take s \<noteq> None" by simp
        then show ?thesis by blast
      qed
    qed
  qed
qed

section \<open>Causes of a drop\<close>

lemma worker_event_error:
  assumes "dm \<lparr>dn_major = ucast (Event_Major e), dn_minor = Event_Minor e\<rparr> = Some device"
    and "fst (ContainerInfo env (CgroupID e) p) = Inl err"
  shows "snd (worker_event env dm e p c lg) =
    (case drop_reason err of Some r \<Rightarrow> (IncEventsDropped r c, lg) | None \<Rightarrow> (c, lg @ [err]))"
  using assms by (cases "ContainerInfo env (CgroupID e) p") (simp add: worker_event_cases split: option.split)

lemma worker_event_found:
  assumes "dm \<lparr>dn_major = ucast (Event_Major e), dn_minor = Event_Minor e\<rparr> = Some device"
    and "fst (ContainerInfo env (CgroupID e) p) = Inr i"
  shows "snd (worker_event env dm e p c lg) =
    (IncIoctl (Namespace i) (PodName i) (ContainerName i) (pciAddress device) (meta_vendor device)
       (Kind_String (Event_Kind e)) c, lg)"
  using assms by (cases "ContainerInfo env (CgroupID e) p") (simp add: worker_event_cases)

section \<open>A concrete run\<close>

definition sample_params :: agent_params where
  "sample_params = \<lparr>ap_relo = \<lparr>off_f_inode = 32, off_i_rdev = 76\<rparr>, ap_queueSize = 4096\<rparr>"

lemma sample_call_ok: "label_ok 1 (Hook sample_call)"
  by (simp add: label_ok_def sample_call_def call_ok_def sample_env_def reserve_sized_def)

lemma sample_system:
  obtains s where "agent_start sample_start (Load (\<lambda>_. None)) False = Inr s" "sys_init s"
    "reported (ap_relo sample_params) (s_bpf s) sample_call"
proof -
  obtain s where s: "agent_start sample_start (Load (\<lambda>_. None)) False = Inr s" using sample_agent_start by blast
  obtain devs where devs: "Discover (se_os sample_start) (se_order sample_start) (agent_paths (Load (\<lambda>_. None))) = Inr devs"
    and i: "sys_init s" and cov: "\<forall>d \<in> set devs. covered (s_bpf s) d" and fr: "tables_from devs (s_bpf s) (s_deviceMap s)"
    using agent_start_Inr [OF s sample_start_ok] by blast
  have one: "devs = [sample_device]" using devs sample_discover by (simp add: sample_start_def sample_config)
  have t: "tables_ok (s_bpf s) (s_deviceMap s)" using i by (simp add: sys_init_def)
  have v: "GetVendor registeredVendors sample_device = Some i915_Vendor"
    by (simp add: registeredVendors_eq i915_Vendor_def sample_device_def)
  have "\<lparr>dk_major = 226, dk_minor = 128\<rparr> \<in> node_key ` set (Nodes sample_device)"
    by (simp add: sample_device_def node_key_def)
  then obtain k where k: "devices (s_bpf s) \<lparr>dk_major = 226, dk_minor = 128\<rparr> = Some k"
    using cov v unfolding one covered_def by fastforce
  with devices_origin [OF t fr] have "k = GetVendorID registeredVendors (Name i915_Vendor)"
    using v unfolding one by fastforce
  moreover have "Ioctls i915_Vendor 0x69 = Some hw_KindSubmit" by (simp add: i915_Vendor_def)
  then have "ioctls (s_bpf s) (nr_key i915_Vendor 0x69) = Some hw_KindSubmit"
    using tables_kind [OF t _ v] cov unfolding one by simp
  ultimately have "reported (ap_relo sample_params) (s_bpf s) sample_call"
    using k by (simp add: reported_def sample_call_def sample_params_def probe_kind_def sample_simps nr_key_def)
  with s i that show thesis by blast
qed

lemma arun_one: "agent_step P l s = Some s' \<Longrightarrow> arun P s [l] s'"
  using arun_step [OF arun_nil] by force

lemma arun_one_inv: "arun P s [l] s' \<Longrightarrow> agent_step P l s = Some s'"
  by (auto elim: arun_snocE [of _ _ "[]", simplified])

lemma sample_hook_run:
  assumes "sys_init s"
  shows "\<exists>s'. arun sample_params s [Hook sample_call] s'"
  using assms by (intro exI arun_one) (simp add: sys_init_def)

text \<open>Calls before the agent is ready are the beginning of a run.\<close>

lemma hook_run_append: "hook_run relo (cs @ cs') b = hook_run relo cs' (hook_run relo cs b)"
  by (induction relo cs b rule: hook_run.induct) simp_all

lemma arun_hooks:
  assumes "hook (s_loader s) \<noteq> None" "\<not> s_exited s"
  shows "arun P s (map Hook calls) (set_bpf (hook_run (ap_relo P) calls (s_bpf s)) s)"
proof (induction calls rule: rev_induct)
  case Nil
  then show ?case by (simp add: set_bpf_def)
next
  case (snoc call calls)
  then have "arun P s (map Hook calls @ [Hook call]) (set_bpf (hook_run (ap_relo P) (calls @ [call]) (s_bpf s)) s)"
    using assms by (elim arun_step) (simp add: set_bpf_def hook_run_append)
  then show ?case by simp
qed

lemma agent_start_traced_run:
  assumes "agent_start_traced P early late se cfg dbg = Inr s'" "se_ok se"
  obtains s where "agent_start se cfg dbg = Inr s" "arun P s (map Hook (early @ late)) s'"
proof -
  obtain s0 where s0: "agent_prepare se cfg dbg = Inr s0"
    using assms(1) by (auto simp: agent_start_traced_def split: sum.splits)
  obtain h where r: "NewReader (se_ebpf se) = Inr h"
    using assms(1) s0 by (auto simp: agent_start_traced_def CreateReader_def Let_def split: sum.splits)
  let ?s = "s0\<lparr>s_loader := (s_loader s0)\<lparr>rb := Some h\<rparr>, s_ready := True\<rparr>"
  have s: "agent_start se cfg dbg = Inr ?s"
    by (simp add: agent_start_def s0 CreateReader_def r)
  have s': "s' = set_bpf (hook_run (ap_relo P) (early @ late) (s_bpf ?s)) ?s"
    using assms(1) by (cases s0) (auto simp: agent_start_traced_def s0 CreateReader_def r set_bpf_def hook_run_append Let_def)
  have "sys_init ?s" using agent_start_Inr [OF s assms(2)] by blast
  then have "hook (s_loader ?s) \<noteq> None" "\<not> s_exited ?s" by (simp_all add: sys_init_def)
  from arun_hooks [OF this, of P "early @ late"] s show thesis by (intro that [of ?s]) (simp_all add: s')
qed

text \<open>The calls do not make the start fail.\<close>

lemma agent_start_traced_total:
  "agent_start se cfg dbg = Inr s \<Longrightarrow> \<exists>s'. agent_start_traced P early late se cfg dbg = Inr s'"
  by (auto simp: agent_start_def agent_start_traced_def CreateReader_def Let_def split: sum.splits)

text \<open>A shutdown without work: signal, server, reader.\<close>

lemma sample_shutdown_run:
  assumes "sys_init s"
  shows "\<exists>s'. arun sample_params s [Signal, ServerDown None, CloseRing sample_ebpf] s' \<and> s_reader_closed s'"
proof -
  have h: "\<not> closeReaderOnce (s_loader s)" "rb (s_loader s) \<noteq> None" "s_phase s = Serving" "\<not> s_exited s"
    using assms by (simp_all add: sys_init_def)
  let ?s1 = "s\<lparr>s_ready := False, s_phase := Signalled\<rparr>"
  let ?s2 = "?s1\<lparr>s_phase := ServerStopped\<rparr>"
  let ?l = "(s_loader s)\<lparr>closeReaderOnce := True, close_calls := close_calls (s_loader s) @ [RingbufReader]\<rparr>"
  let ?s3 = "?s2\<lparr>s_loader := ?l, s_phase := Stopped, s_reader_closed := True\<rparr>"
  have "CloseReader sample_ebpf (s_loader s) = (None, ?l)"
    using h by (simp add: CloseReader_eq reader_calls_def sample_ebpf_def)
  then have 3: "agent_step sample_params (CloseRing sample_ebpf) ?s2 = Some ?s3" using h by (simp add: Let_def)
  have 1: "agent_step sample_params Signal s = Some ?s1" using h by simp
  have 2: "agent_step sample_params (ServerDown None) ?s1 = Some ?s2" using h by (simp add: Server_Shutdown_def log_error_def)
  have "arun sample_params s [Signal, ServerDown None, CloseRing sample_ebpf] ?s3"
    using arun_step [OF arun_step [OF arun_one [OF 1] 2] 3] by simp
  then show ?thesis by (intro exI [of _ ?s3]) simp
qed

section \<open>Properties\<close>

text \<open>C1: Nothing is lost or counted twice between the hook and the exporter. From the moment the hook is
  attached, while the agent is still starting, and after any interleaving of hook calls on any CPUs with the reader,
  the worker and the shutdown, the samples still in the ring buffer, the kernel's drop counter, the events in flight, the ioctl counters, the
  drop counters and the worker's logged errors add up (in the 64 bits of the counters) to the number of
  calls the probe reports; and when the process has ended, nothing is in flight.\<close>

theorem agent_accounting:
  assumes "agent_start_traced P early late se cfg dbg = Inr s" and "se_ok se" and "arun P s ls s'"
    and "\<forall>call \<in> set (early @ late @ hook_labels ls). call_ok ncpu call"
  shows "of_nat (length (events (s_bpf s'))) + total_dropped ncpu (s_bpf s') + of_nat (length (in_flight s')) +
      ioctls_counted (s_collector s') + drops_counted (s_collector s') + of_nat (length (s_worker_log s')) =
      (of_nat (length (filter (reported (ap_relo P) (s_bpf s)) (early @ late @ hook_labels ls))) :: u64) \<and>
    (s_exited s' \<longrightarrow> in_flight s' = [])"
proof -
  obtain s0 where s0: "agent_start se cfg dbg = Inr s0" "arun P s0 (map Hook (early @ late)) s"
    by (rule agent_start_traced_run [OF assms(1,2)])
  have i: "sys_init s0" using agent_start_Inr [OF s0(1) assms(2)] by blast
  let ?ls = "map Hook (early @ late) @ ls"
  have run: "arun P s0 ?ls s'" by (rule arun_append [OF assms(3) s0(2)])
  have hooks: "hook_labels ?ls = early @ late @ hook_labels ls"
    by (simp add: hook_labels_append hook_labels_map)
  have ok: "\<forall>l \<in> set ?ls. label_ok ncpu l"
    using assms(4) by (auto simp: label_ok_def hook_labels_set split: label.split)
  then have "same_tables s0 s" using run_data [OF s0(2) data_inv_init [OF i], of ncpu] by fastforce
  then have same: "reported (ap_relo P) (s_bpf s0) = reported (ap_relo P) (s_bpf s)"
    by (intro ext reported_cong) (simp_all add: same_tables_def)
  have "accounted ncpu s' = sum_list (map (gain P (s_bpf s0)) ?ls)"
    using run_data [OF run data_inv_init [OF i] ok] accounted_init [OF i, of ncpu] by simp
  then have "accounted ncpu s' = of_nat (length (filter (reported (ap_relo P) (s_bpf s)) (early @ late @ hook_labels ls)))"
    unfolding sum_gain hooks same .
  moreover have "s_exited s' \<longrightarrow> in_flight s' = []"
    using run_control [OF run control_inv_init [OF i]] by (auto simp: control_inv_def in_flight_def)
  ultimately show ?thesis unfolding accounted_def by blast
qed

theorem agent_accounting_witness:
  "\<exists>s s'. agent_start_traced sample_params [sample_call] [] sample_start (Load (\<lambda>_. None)) False = Inr s \<and>
     arun sample_params s [Hook sample_call] s' \<and>
     of_nat (length (events (s_bpf s'))) + total_dropped 1 (s_bpf s') + of_nat (length (in_flight s')) +
      ioctls_counted (s_collector s') + drops_counted (s_collector s') + of_nat (length (s_worker_log s')) = (2 :: u64)"
proof -
  obtain s0 where s0: "agent_start sample_start (Load (\<lambda>_. None)) False = Inr s0" "sys_init s0"
    "reported (ap_relo sample_params) (s_bpf s0) sample_call" by (rule sample_system)
  obtain s where t: "agent_start_traced sample_params [sample_call] [] sample_start (Load (\<lambda>_. None)) False = Inr s"
    using agent_start_traced_total [OF s0(1)] by blast
  obtain s1 where s1: "agent_start sample_start (Load (\<lambda>_. None)) False = Inr s1"
    "arun sample_params s1 (map Hook ([sample_call] @ [])) s"
    by (rule agent_start_traced_run [OF t sample_start_ok])
  then have e: "arun sample_params s0 [Hook sample_call] s" using s0(1) by simp
  then have "same_tables s0 s"
    using run_data [OF e data_inv_init [OF s0(2)], of 1] sample_call_ok by simp
  with s0(3) have rep: "reported (ap_relo sample_params) (s_bpf s) sample_call"
    using reported_cong [of "s_bpf s" "s_bpf s0"] by (simp add: same_tables_def)
  have "hook (s_loader s) \<noteq> None \<and> \<not> s_exited s"
    using arun_one_inv [OF e] s0(2) by (auto simp: sys_init_def set_bpf_def)
  then obtain s' where r: "arun sample_params s [Hook sample_call] s'"
    using arun_hooks [of s sample_params "[sample_call]"] by auto
  have ok: "\<forall>call \<in> set ([sample_call] @ [] @ hook_labels [Hook sample_call]). call_ok 1 call"
    using sample_call_ok by (simp add: hook_labels_def List.map_filter_simps label_ok_def)
  from agent_accounting [OF t sample_start_ok r ok] rep t r show ?thesis
    by (intro exI [of _ s] exI [of _ s']) (simp add: hook_labels_def List.map_filter_simps)
qed

text \<open>C3: What the agent exports can be read. Every event on its way is one the worker can name: its device
  is in the device map, and its kind is the entry of that vendor's table for its ioctl number. So the
  reason \<^verbatim>\<open>device_unknown\<close> stays at zero, and every series of \<^verbatim>\<open>kubenpu_ioctl_total\<close> has a
  non-empty namespace, pod and container, one of the three kinds, and a device and vendor for which
  \<^verbatim>\<open>kubenpu_device_info\<close> has a series to join with.\<close>

theorem agent_series:
  assumes "agent_start se cfg dbg = Inr s" and "se_ok se" and "arun P s ls s'"
    and "\<forall>l \<in> set ls. label_ok ncpu l"
  shows "(\<forall>raw \<in> set (events (s_bpf s')). \<exists>e. ReadEvent (Inr raw) = Inr e \<and> event_known (s_deviceMap s') e) \<and>
    (\<forall>e \<in> set (in_flight s'). event_known (s_deviceMap s') e) \<and>
    map_val (eventsDroppedTotal (s_collector s')) ReasonDeviceUnknown = 0 \<and>
    (\<forall>k \<in> dom (ioctlTotal (s_collector s')). series_key_ok (deviceInfo (s_collector s')) k)"
proof -
  have i: "sys_init s" using agent_start_Inr [OF assms(1,2)] by blast
  show ?thesis
    using run_data [OF assms(3) data_inv_init [OF i] assms(4)]
    by (simp add: data_inv_def sample_known_def series_ok_def)
qed

theorem agent_series_witness:
  "\<exists>s s'. agent_start sample_start (Load (\<lambda>_. None)) False = Inr s \<and>
     arun sample_params s [Hook sample_call] s' \<and>
     (\<forall>raw \<in> set (events (s_bpf s')). \<exists>e. ReadEvent (Inr raw) = Inr e \<and> event_known (s_deviceMap s') e)"
proof -
  obtain s where s: "agent_start sample_start (Load (\<lambda>_. None)) False = Inr s" "sys_init s" by (rule sample_system)
  obtain s' where r: "arun sample_params s [Hook sample_call] s'" using sample_hook_run [OF s(2)] by blast
  have "\<forall>l \<in> set [Hook sample_call]. label_ok 1 l" using sample_call_ok by simp
  from agent_series [OF s(1) sample_start_ok r this] s r show ?thesis by blast
qed

text \<open>C4: The parts are stopped in order, whatever runs in between. The agent reports ready exactly until the
  signal, and never again after it; the ring buffer is closed only then, and nothing else is released before the process ends;
  the reader stops only after the ring buffer is closed, and with it the queue; the worker ends only when
  the queue is closed and empty, and the process only after the worker, which finds the connection to the
  container runtime open. The queue never exceeds its capacity.\<close>

theorem agent_shutdown_order:
  assumes "agent_start se cfg dbg = Inr s" and "se_ok se" and "arun P s ls s'"
    and "\<forall>l \<in> set ls. label_ok ncpu l" and "0 \<le> ap_queueSize P"
  shows "(s_ready s' \<longleftrightarrow> s_phase s' = Serving) \<and>
    (\<forall>ls' s''. arun P s' ls' s'' \<longrightarrow> s_phase s' \<le> s_phase s'' \<and> (s_ready s'' \<longrightarrow> s_ready s')) \<and>
    (s_reader_closed s' \<longrightarrow> \<not> s_ready s') \<and>
    (\<not> s_exited s' \<longrightarrow> hook (s_loader s') \<noteq> None \<and> set (close_calls (s_loader s')) \<subseteq> {RingbufReader} \<and>
       (close_calls (s_loader s') \<noteq> [] \<longrightarrow> \<not> s_ready s')) \<and>
    (\<not> s_reading s' \<longrightarrow> s_reader_closed s' \<and> s_queue_closed s' \<and> s_pending s' = None) \<and>
    (s_worker_done s' \<longrightarrow> s_queue_closed s' \<and> in_flight s' = []) \<and>
    (s_exited s' \<longrightarrow> s_worker_done s') \<and> (s_podmap_closed s' \<longrightarrow> s_worker_done s') \<and>
    int (length (s_queue s')) \<le> ap_queueSize P"
proof -
  have i: "sys_init s" using agent_start_Inr [OF assms(1,2)] by blast
  have "int (length (s_queue s')) \<le> ap_queueSize P"
    using run_data [OF assms(3) data_inv_init [OF i] assms(4)] assms(5) by (simp add: data_inv_def)
  moreover have c: "control_inv s'" by (rule run_control [OF assms(3) control_inv_init [OF i]])
  moreover have "s_worker_done s' \<longrightarrow> in_flight s' = []"
    using c by (auto simp: control_inv_def in_flight_def)
  moreover have "s_phase s' \<le> s_phase s'' \<and> (s_ready s'' \<longrightarrow> s_ready s')" if "arun P s' ls' s''" for ls' s''
    using run_phase [OF that] run_control [OF that c] c
    by (cases "s_phase s'") (auto simp: control_inv_def less_eq_phase_def)
  ultimately show ?thesis unfolding control_inv_def by (auto split: if_splits)
qed

theorem agent_shutdown_order_witness:
  "\<exists>s s'. agent_start sample_start (Load (\<lambda>_. None)) False = Inr s \<and>
     arun sample_params s [Signal, ServerDown None, CloseRing sample_ebpf] s' \<and> s_reader_closed s' \<and>
     \<not> s_ready s' \<and> int (length (s_queue s')) \<le> 4096"
proof -
  obtain s where s: "agent_start sample_start (Load (\<lambda>_. None)) False = Inr s" "sys_init s" by (rule sample_system)
  obtain s' where r: "arun sample_params s [Signal, ServerDown None, CloseRing sample_ebpf] s'" "s_reader_closed s'"
    using sample_shutdown_run [OF s(2)] by blast
  have "\<forall>l \<in> set [Signal, ServerDown None, CloseRing sample_ebpf]. label_ok 1 l" by (simp add: label_ok_def)
  moreover have q: "ap_queueSize sample_params = 4096" by (simp add: sample_params_def)
  ultimately show ?thesis
    using agent_shutdown_order [OF s(1) sample_start_ok r(1), of 1] s r by auto
qed

text \<open>C5: The shutdown ends. Once the ring buffer's reader is closed, the reader, the worker and the main
  goroutine together make at most \<open>2 * queueSize + 7\<close> more steps, however many hook calls run in between;
  and until the process has ended one of them can always make a step. So the process ends under every
  schedule that does not starve all of them.\<close>

theorem agent_shutdown_ends:
  assumes "agent_start se cfg dbg = Inr s" and "se_ok se" and "arun P s ls s'"
    and "\<forall>l \<in> set ls. label_ok ncpu l" and "0 \<le> ap_queueSize P"
    and "s_reader_closed s'" and "arun P s' ls' s''"
  shows "int (length (filter (\<lambda>l. \<not> is_hook l) ls')) \<le> 2 * ap_queueSize P + 7 \<and>
    (\<not> s_exited s'' \<longrightarrow>
       (\<exists>l \<in> {Send, ReadAfterClose, Take, Work env, WorkerExit, Exit cenv env'}. agent_step P l s'' \<noteq> None))"
proof -
  have i: "sys_init s" using agent_start_Inr [OF assms(1,2)] by blast
  have c: "control_inv s'" by (rule run_control [OF assms(3) control_inv_init [OF i]])
  have q: "int (length (s_queue s')) \<le> ap_queueSize P"
    using run_data [OF assms(3) data_inv_init [OF i] assms(4)] assms(5) by (simp add: data_inv_def)
  have "left_to_do s' \<le> 2 * length (s_queue s') + 7" by (simp add: left_to_do_def)
  moreover note closed = closed_run [OF assms(7) c assms(6)]
  ultimately have "length (filter (\<lambda>l. \<not> is_hook l) ls') \<le> 2 * length (s_queue s') + 7" by linarith
  moreover have "control_inv s''" by (rule run_control [OF assms(7) c])
  ultimately show ?thesis
    using q closed closed_progress [of s'' env cenv env' P] by auto
qed

theorem agent_shutdown_ends_witness:
  "\<exists>s s'. agent_start sample_start (Load (\<lambda>_. None)) False = Inr s \<and>
     arun sample_params s [Signal, ServerDown None, CloseRing sample_ebpf] s' \<and>
     (\<not> s_exited s' \<longrightarrow> (\<exists>l \<in> {Send, ReadAfterClose, Take, Work (sample_pod_env 1), WorkerExit, Exit sample_cri sample_ebpf}.
        agent_step sample_params l s' \<noteq> None))"
proof -
  obtain s where s: "agent_start sample_start (Load (\<lambda>_. None)) False = Inr s" "sys_init s" by (rule sample_system)
  obtain s' where r: "arun sample_params s [Signal, ServerDown None, CloseRing sample_ebpf] s'" "s_reader_closed s'"
    using sample_shutdown_run [OF s(2)] by blast
  have l: "\<forall>l \<in> set [Signal, ServerDown None, CloseRing sample_ebpf]. label_ok 1 l" by (simp add: label_ok_def)
  have q: "0 \<le> ap_queueSize sample_params" by (simp add: sample_params_def)
  show ?thesis
    using agent_shutdown_ends [OF s(1) sample_start_ok r(1) l q r(2) arun_nil] s(1) r(1) by blast
qed

text \<open>C18: What becomes of an event, for every cause. The event of an unknown device counts as
  \<^verbatim>\<open>device_unknown\<close>. A name that the cache or the runtime gives counts in the series of that container. Otherwise
  the cgroup ID 0 is only logged; a cgroup that the refreshed index does not have counts as \<^verbatim>\<open>not_indexed\<close>; a path
  outside \<^verbatim>\<open>kubepods\<close> counts as \<^verbatim>\<open>not_pod\<close>; a path inside from which no container can be read is only logged; a
  container the runtime does not know counts as \<^verbatim>\<open>container_not_found\<close>, one without all three Kubernetes labels as
  \<^verbatim>\<open>not_pod\<close>; any other answer of the runtime, an error or an empty status, is only logged. An event that is only
  logged is in no counter: the collector is unchanged.\<close>

theorem worker_event_causes:
  assumes "podmap_ok p" and "cri_foreign (cri_of env)"
  shows "snd (worker_event env dm e p c lg) =
    (case dm \<lparr>dn_major = ucast (Event_Major e), dn_minor = Event_Minor e\<rparr> of
       None \<Rightarrow> (IncEventsDropped ReasonDeviceUnknown c, lg)
     | Some device \<Rightarrow>
    (case fst (ContainerInfo env (CgroupID e) p) of
       Inr i \<Rightarrow>
        (IncIoctl (Namespace i) (PodName i) (ContainerName i) (pciAddress device) (meta_vendor device)
          (Kind_String (Event_Kind e)) c, lg)
     | Inl err \<Rightarrow>
        if CgroupID e = 0 then (c, lg @ [err])
        else (case byInode (index (refreshed env (CgroupID e) p)) (CgroupID e) of
          None \<Rightarrow> (IncEventsDropped ReasonNotIndexed c, lg)
        | Some path \<Rightarrow>
           if \<not> Contains path ''kubepods'' then (IncEventsDropped ReasonNotPod c, lg)
           else (case parseCgroupPath path of
             Inl _ \<Rightarrow> (c, lg @ [err])
           | Inr ids \<Rightarrow>
             (case cri_ContainerStatus (cri_of env) (criTimeout (cri p)) (ContainerID ids) of
                Inl err' \<Rightarrow>
                  if is_NotFound (cri_of env) err' then (IncEventsDropped ReasonContainerNotFound c, lg)
                  else (c, lg @ [err])
              | Inr answer \<Rightarrow>
                  if \<exists>labels. answer = Some \<lparr>Status = Some labels\<rparr> \<and> unlabelled labels
                  then (IncEventsDropped ReasonNotPod c, lg) else (c, lg @ [err]))))))"
proof (cases "dm \<lparr>dn_major = ucast (Event_Major e), dn_minor = Event_Minor e\<rparr>")
  case None
  then show ?thesis by (simp add: worker_event_def)
next
  case dm: (Some device)
  let ?cg = "CgroupID e"
  show ?thesis
  proof (cases "fst (ContainerInfo env ?cg p)")
    case (Inr i)
    then show ?thesis using worker_event_found [where dm = dm and e = e, OF dm] dm by simp
  next
    case (Inl err)
    note w = worker_event_error [where dm = dm and e = e, OF dm Inl, of c lg]
    note cls = ContainerInfo_class [OF assms, of ?cg, unfolded Inl sum.case]
    have r: "resolved env ?cg p = (case byInode (index (refreshed env ?cg p)) ?cg of
        None \<Rightarrow> Inl ErrNotIndexed | Some path \<Rightarrow> parseCgroupPath path)"
      by (simp add: resolved_def ParseCgroupToIDs_def Lookup_def split: option.split)
    show ?thesis
    proof (cases "?cg = 0 \<or> byInode (index (refreshed env ?cg p)) ?cg = None")
      case True
      then show ?thesis using w cls dm Inl by (auto simp: drop_reason_def r)
    next
      case False
      then obtain path where nz: "?cg \<noteq> 0" and path: "byInode (index (refreshed env ?cg p)) ?cg = Some path" by auto
      have rp: "resolved env ?cg p = parseCgroupPath path" by (simp add: r path)
      show ?thesis
      proof (cases "Contains path ''kubepods'' \<longrightarrow> (\<exists>e0. parseCgroupPath path = Inl e0)")
        case True
        then show ?thesis using w cls dm Inl nz path by (auto simp: drop_reason_def rp parseCgroupPath_def)
      next
        case False
        then obtain ids where k: "Contains path ''kubepods''" and ids: "parseCgroupPath path = Inr ids"
          by (cases "parseCgroupPath path") auto
        have "drop_reason err = (case cri_ContainerStatus (cri_of env) (criTimeout (cri p)) (ContainerID ids) of
            Inl err' \<Rightarrow> if is_NotFound (cri_of env) err' then Some ReasonContainerNotFound else None
          | Inr answer \<Rightarrow> if \<exists>labels. answer = Some \<lparr>Status = Some labels\<rparr> \<and> unlabelled labels
              then Some ReasonNotPod else None)"
          using cls nz path k ids by (auto simp: drop_reason_def rp split: sum.split)
        then show ?thesis
          using w dm Inl nz path k ids by (auto split: sum.split)
      qed
    qed
  qed
qed

text \<open>The sample event: cgroup 0 on the sample device.\<close>

definition sample_event :: Event where
  "sample_event = \<lparr>Timestamp = 1, CgroupID = 0, TGID = 42, Cmd = 0x40406469, Event_Minor = 128,
     Event_Major = 226, Event_Kind = 1\<rparr>"

theorem worker_event_causes_witness:
  "\<exists>err. snd (worker_event (sample_pod_env 3)
      [\<lparr>dn_major = 226, dn_minor = 128\<rparr> \<mapsto> \<lparr>pciAddress = ''0000:00:02.0'', meta_vendor = ''i915''\<rparr>]
      sample_event sample_podmap (NewCollector :: world Collector) []) = (NewCollector, [err])"
proof -
  let ?dm = "[\<lparr>dn_major = 226, dn_minor = 128\<rparr> \<mapsto> \<lparr>pciAddress = ''0000:00:02.0'', meta_vendor = ''i915''\<rparr>]"
  from worker_event_causes [where dm = ?dm and e = sample_event, OF sample_podmap_ok sample_foreign [of 3],
      of "NewCollector :: world Collector" "[]"]
  show ?thesis by (simp add: sample_event_def ContainerInfo_zero)
qed

end
