(* ===== verification/AgentSpec.thy ===== *)
theory AgentSpec
  imports AgentRun
begin

text \<open>
  The agent as a counting machine. The specification keeps one line of events that wait to be counted,
  the exported counters, the calls the kernel had no room for, and the events that could only be logged.
  The agent with its ring buffer, its reader, its bounded queue and its worker implements it: \<open>abs_sys\<close> puts the
  parts of the pipeline behind one another, and every step of the agent is a step of the machine or none.
\<close>

section \<open>The machine\<close>

record machine =
  waiting :: "Event list"
  ioctl_count :: "key \<Rightarrow> u64"
  drop_count :: "string \<Rightarrow> u64"
  kernel_lost :: u64
  only_logged :: nat

definition machine_init :: machine where
  "machine_init = \<lparr>waiting = [], ioctl_count = (\<lambda>_. 0), drop_count = (\<lambda>_. 0), kernel_lost = 0, only_logged = 0\<rparr>"

text \<open>The series an event may count in: the device, vendor and kind are determined by the event.\<close>

definition series_of :: "(deviceNode \<rightharpoonup> deviceMeta) \<Rightarrow> Event \<Rightarrow> key \<Rightarrow> bool" where
  "series_of dm e k \<longleftrightarrow> (\<exists>device. dm \<lparr>dn_major = ucast (Event_Major e), dn_minor = Event_Minor e\<rparr> = Some device \<and>
     key_device k = pciAddress device \<and> key_vendor k = meta_vendor device \<and>
     key_kind k = Kind_String (Event_Kind e) \<and>
     key_namespace k \<noteq> [] \<and> key_pod k \<noteq> [] \<and> key_container k \<noteq> [])"

text \<open>A known event enters at the end; the kernel may lose a call; an event with at least \<open>queueSize\<close> older ones
  in line may be dropped as \<^verbatim>\<open>queue_full\<close>; the oldest event is counted in a series of its own, or dropped
  for one of the three reasons of a failed lookup, or only logged.\<close>

inductive machine_step :: "(deviceNode \<rightharpoonup> deviceMeta) \<Rightarrow> int \<Rightarrow> machine \<Rightarrow> machine \<Rightarrow> bool" for dm queueSize where
  report: "event_known dm e \<Longrightarrow> machine_step dm queueSize a (a\<lparr>waiting := waiting a @ [e]\<rparr>)"
| lose: "machine_step dm queueSize a (a\<lparr>kernel_lost := kernel_lost a + 1\<rparr>)"
| overflow: "waiting a = older @ e # newer \<Longrightarrow> queueSize \<le> int (length older) \<Longrightarrow>
     machine_step dm queueSize a (a\<lparr>waiting := older @ newer,
       drop_count := (drop_count a)(ReasonQueueFull := drop_count a ReasonQueueFull + 1)\<rparr>)"
| count: "waiting a = e # newer \<Longrightarrow> series_of dm e k \<Longrightarrow>
     machine_step dm queueSize a (a\<lparr>waiting := newer, ioctl_count := (ioctl_count a)(k := ioctl_count a k + 1)\<rparr>)"
| discard: "waiting a = e # newer \<Longrightarrow> r \<in> {ReasonNotPod, ReasonNotIndexed, ReasonContainerNotFound} \<Longrightarrow>
     machine_step dm queueSize a (a\<lparr>waiting := newer, drop_count := (drop_count a)(r := drop_count a r + 1)\<rparr>)"
| give_up: "waiting a = e # newer \<Longrightarrow>
     machine_step dm queueSize a (a\<lparr>waiting := newer, only_logged := only_logged a + 1\<rparr>)"

inductive_cases machine_stepE: "machine_step dm queueSize a b"

definition abs_sys :: "nat \<Rightarrow> sys \<Rightarrow> machine" where
  "abs_sys ncpu s = \<lparr>waiting = in_flight s @ List.map_filter read_sample (events (s_bpf s)),
     ioctl_count = map_val (ioctlTotal (s_collector s)),
     drop_count = map_val (eventsDroppedTotal (s_collector s)),
     kernel_lost = total_dropped ncpu (s_bpf s), only_logged = length (s_worker_log s)\<rparr>"

section \<open>Simulation\<close>

text \<open>Every event that waits is known, so whatever the machine counts is counted under a kind.\<close>

lemma map_val_inc_fun: "map_val (map_inc m k) = (map_val m)(k := map_val m k + 1)"
  by (rule ext) (simp add: map_val_inc)

lemma abs_init: "sys_init s \<Longrightarrow> abs_sys ncpu s = machine_init"
  by (auto simp: sys_init_def abs_sys_def machine_init_def in_flight_def total_dropped_def bpf_init_def map_val_def
      List.map_filter_simps NewCollector_def dropReasons_def fun_eq_iff)

definition simulates :: "agent_params \<Rightarrow> nat \<Rightarrow> sys \<Rightarrow> sys \<Rightarrow> bool" where
  "simulates P ncpu s s' \<longleftrightarrow> abs_sys ncpu s' = abs_sys ncpu s \<or>
     machine_step (s_deviceMap s) (ap_queueSize P) (abs_sys ncpu s) (abs_sys ncpu s')"

lemma simulates_Hook:
  assumes "agent_step P (Hook call) s = Some s'" "data_inv P s" "call_ok ncpu call"
  shows "simulates P ncpu s s'"
proof -
  obtain env filp cmd arg where call: "call = (env, filp, cmd, arg)" by (cases call)
  let ?b = "snd (kubenpu_ioctl (ap_relo P) env filp cmd arg (s_bpf s))"
  let ?rdev = "probe_rdev (ap_relo P) env filp"
  have s': "s' = set_bpf ?b s" using assms(1) by (simp add: call split: if_splits)
  have t: "tables_ok (s_bpf s) (s_deviceMap s)" and wf: "bpf_wf (s_bpf s)"
    using assms(2) by (simp_all add: data_inv_def)
  have cpu: "smp_processor_id env < ncpu" and sized: "reserve_sized env"
    using assms(3) by (simp_all add: call call_ok_def)
  show ?thesis
  proof (cases "probe_kind (s_bpf s) ?rdev cmd")
    case None
    then have "?b = s_bpf s" by (simp add: kubenpu_ioctl_cases)
    then have "abs_sys ncpu s' = abs_sys ncpu s" by (simp add: s' abs_sys_def set_bpf_def in_flight_def)
    then show ?thesis by (simp add: simulates_def)
  next
    case (Some kind)
    show ?thesis
    proof (cases "ringbuf_reserve env (events (s_bpf s)) 32")
      case None
      with Some have "?b = count_dropped env (s_bpf s)" by (simp add: kubenpu_ioctl_cases)
      then have "abs_sys ncpu s' = (abs_sys ncpu s)\<lparr>kernel_lost := kernel_lost (abs_sys ncpu s) + 1\<rparr>"
        using count_dropped_total [OF wf cpu] by (simp add: s' abs_sys_def set_bpf_def in_flight_def)
      then show ?thesis using machine_step.lose [of _ _ "abs_sys ncpu s"] by (simp add: simulates_def)
    next
      case (Some buf)
      then have "length buf = 32" using sized by (auto simp: reserve_sized_def)
      let ?e = "probe_event env ?rdev cmd kind"
      have b: "?b = (s_bpf s)\<lparr>events := events (s_bpf s) @ [event_bytes ?e]\<rparr>"
        using Some \<open>probe_kind _ _ _ = Some kind\<close> \<open>length buf = 32\<close>
        by (simp add: kubenpu_ioctl_cases fill_event_bytes probe_event_def)
      have "read_sample (event_bytes ?e) = Some (event_view ?e)"
        by (rule event_codec.dec_exact)
      then have "abs_sys ncpu s' = (abs_sys ncpu s)\<lparr>waiting := waiting (abs_sys ncpu s) @ [event_view ?e]\<rparr>"
        by (simp add: s' b abs_sys_def set_bpf_def in_flight_def total_dropped_def map_filter_snoc)
      moreover have "event_known (s_deviceMap s) (event_view ?e)"
        by (rule probe_event_known [OF t \<open>probe_kind _ _ _ = Some kind\<close>])
      ultimately show ?thesis
        using machine_step.report [of _ _ _ "abs_sys ncpu s"] by (simp add: simulates_def)
    qed
  qed
qed

lemma simulates_Read:
  assumes "agent_step P Read s = Some s'" "data_inv P s"
  shows "simulates P ncpu s s'"
proof -
  obtain raw rest where ev: "events (s_bpf s) = raw # rest" and pend: "s_pending s = None"
    and s': "s' = reader_result (ReadEvent (Inr raw)) (set_bpf ((s_bpf s)\<lparr>events := rest\<rparr>) s)"
    using assms(1) by (auto split: if_splits list.splits)
  obtain e where e: "ReadEvent (Inr raw) = Inr e"
    using assms(2) ev by (auto simp: data_inv_def sample_known_def)
  have "abs_sys ncpu s' = abs_sys ncpu s"
    using ev pend by (simp add: s' e reader_result_def set_bpf_def abs_sys_def in_flight_def total_dropped_def
        read_sample_def List.map_filter_simps)
  then show ?thesis by (simp add: simulates_def)
qed

lemma simulates_Send:
  assumes "agent_step P Send s = Some s'"
  shows "simulates P ncpu s s'"
proof -
  obtain e where e: "s_pending s = Some e" and s': "s' = reader_send (ap_queueSize P) e s"
    using assms by (auto split: if_splits)
  show ?thesis
  proof (cases "int (length (s_queue s)) < ap_queueSize P")
    case True
    with e have "abs_sys ncpu s' = abs_sys ncpu s" by (simp add: s' reader_send_def abs_sys_def in_flight_def)
    then show ?thesis by (simp add: simulates_def)
  next
    case False
    let ?older = "(case s_busy s of None \<Rightarrow> [] | Some e \<Rightarrow> [e]) @ s_queue s"
    let ?newer = "List.map_filter read_sample (events (s_bpf s))"
    let ?after = "(abs_sys ncpu s)\<lparr>waiting := ?older @ ?newer, drop_count := (drop_count (abs_sys ncpu s))
      (ReasonQueueFull := drop_count (abs_sys ncpu s) ReasonQueueFull + 1)\<rparr>"
    have line: "waiting (abs_sys ncpu s) = ?older @ e # ?newer" using e by (simp add: abs_sys_def in_flight_def)
    have len: "ap_queueSize P \<le> int (length ?older)" using False by simp
    have eq: "abs_sys ncpu s' = ?after"
      using False e by (simp add: s' reader_send_def abs_sys_def in_flight_def IncEventsDropped_def map_val_inc_fun)
    have "machine_step (s_deviceMap s) (ap_queueSize P) (abs_sys ncpu s) (abs_sys ncpu s')"
      unfolding eq by (rule machine_step.overflow [OF line len])
    then show ?thesis by (simp add: simulates_def)
  qed
qed

lemma simulates_Work:
  assumes "agent_step P (Work env) s = Some s'" "data_inv P s"
  shows "simulates P ncpu s s'"
proof -
  let ?a = "abs_sys ncpu s"
  obtain e where e: "s_busy s = Some e" using assms(1) by (auto split: option.splits)
  obtain p c lg where w: "worker_event env (s_deviceMap s) e (s_podmap s) (s_collector s) (s_worker_log s) = (p, c, lg)"
    using prod_cases3 by blast
  have s': "s' = s\<lparr>s_busy := None, s_podmap := p, s_collector := c, s_worker_log := lg\<rparr>"
    using assms(1) by (simp add: e w)
  have ok: "podmap_ok (s_podmap s)" and known: "event_known (s_deviceMap s) e"
    using assms(2) e by (simp_all add: data_inv_def in_flight_def)
  then obtain device where d: "s_deviceMap s \<lparr>dn_major = ucast (Event_Major e), dn_minor = Event_Minor e\<rparr> = Some device"
    unfolding event_known_def by blast
  define newer where "newer = s_queue s @ (case s_pending s of None \<Rightarrow> [] | Some e \<Rightarrow> [e]) @
    List.map_filter read_sample (events (s_bpf s))"
  have line: "waiting ?a = e # newer" using e by (simp add: abs_sys_def in_flight_def newer_def)
  have after: "abs_sys ncpu s' = ?a\<lparr>waiting := newer, ioctl_count := map_val (ioctlTotal c),
      drop_count := map_val (eventsDroppedTotal c), only_logged := length lg\<rparr>"
    by (simp add: s' abs_sys_def in_flight_def newer_def)
  have now: "ioctl_count ?a = map_val (ioctlTotal (s_collector s))"
    "drop_count ?a = map_val (eventsDroppedTotal (s_collector s))" "only_logged ?a = length (s_worker_log s)"
    by (simp_all add: abs_sys_def)
  obtain res p1 where ci: "ContainerInfo env (CgroupID e) (s_podmap s) = (res, p1)" by fastforce
  show ?thesis
  proof (cases res)
    case (Inr i)
    then have info: "info_ok i" using ContainerInfo_info_ok [OF ok, of env "CgroupID e" i] ci by simp
    let ?k = "\<lparr>key_namespace = Namespace i, key_pod = PodName i, key_container = ContainerName i,
      key_device = pciAddress device, key_vendor = meta_vendor device, key_kind = Kind_String (Event_Kind e)\<rparr>"
    have "series_of (s_deviceMap s) e ?k" using d info by (simp add: series_of_def info_ok_def)
    moreover have "c = IncIoctl (Namespace i) (PodName i) (ContainerName i) (pciAddress device)
        (meta_vendor device) (Kind_String (Event_Kind e)) (s_collector s)" "lg = s_worker_log s"
      using w d ci Inr by (simp_all add: worker_event_cases)
    then have "abs_sys ncpu s' = ?a\<lparr>waiting := newer, ioctl_count := (ioctl_count ?a)(?k := ioctl_count ?a ?k + 1)\<rparr>"
      unfolding after now by (simp add: IncIoctl_def map_val_inc_fun flip: now)
    ultimately show ?thesis
      using machine_step.count [OF line, of "s_deviceMap s" ?k] by (simp add: simulates_def)
  next
    case (Inl err)
    show ?thesis
    proof (cases "drop_reason err")
      case None
      then have "c = s_collector s" "lg = s_worker_log s @ [err]"
        using w d ci Inl by (simp_all add: worker_event_cases)
      then have "abs_sys ncpu s' = ?a\<lparr>waiting := newer, only_logged := only_logged ?a + 1\<rparr>"
        unfolding after now by (simp flip: now)
      then show ?thesis using machine_step.give_up [OF line] by (simp add: simulates_def)
    next
      case (Some r)
      then have "c = IncEventsDropped r (s_collector s)" "lg = s_worker_log s"
        using w d ci Inl by (simp_all add: worker_event_cases)
      then have "abs_sys ncpu s' = ?a\<lparr>waiting := newer, drop_count := (drop_count ?a)(r := drop_count ?a r + 1)\<rparr>"
        unfolding after now by (simp add: IncEventsDropped_def map_val_inc_fun flip: now)
      moreover have "r \<in> {ReasonNotPod, ReasonNotIndexed, ReasonContainerNotFound}"
        using Some by (auto simp: drop_reason_def split: if_splits)
      ultimately show ?thesis using machine_step.discard [OF line] by (simp add: simulates_def)
    qed
  qed
qed

lemma simulates_quiet:
  "s_bpf s' = s_bpf s \<Longrightarrow> s_collector s' = s_collector s \<Longrightarrow> s_worker_log s' = s_worker_log s \<Longrightarrow>
   in_flight s' = in_flight s \<Longrightarrow> simulates P ncpu s s'"
  by (simp add: simulates_def abs_sys_def)

lemma simulates_step:
  assumes "agent_step P l s = Some s'" "data_inv P s" "label_ok ncpu l"
  shows "simulates P ncpu s s'"
proof (cases l)
  case (Hook call)
  with assms show ?thesis using simulates_Hook by (simp add: label_ok_def)
next
  case Read
  with assms show ?thesis using simulates_Read by simp
next
  case Send
  with assms show ?thesis using simulates_Send by simp
next
  case (Work env)
  with assms show ?thesis using simulates_Work by simp
next
  case (ReadFails err)
  with assms show ?thesis
    by (intro simulates_quiet) (auto simp: reader_result_def ReadEvent_def in_flight_def split: if_splits)
next
  case ReadAfterClose
  with assms show ?thesis
    by (intro simulates_quiet) (auto simp: reader_result_def ReadEvent_def in_flight_def split: if_splits)
next
  case Take
  with assms show ?thesis
    by (intro simulates_quiet) (auto simp: in_flight_def split: if_splits list.splits)
next
  case WorkerExit
  with assms show ?thesis by (intro simulates_quiet) (auto simp: in_flight_def split: if_splits)
next
  case Signal
  with assms show ?thesis by (intro simulates_quiet) (auto simp: in_flight_def split: if_splits)
next
  case (ServerDown down)
  from assms(1) [unfolded ServerDown] show ?thesis
    by (elim ServerDown_step, intro simulates_quiet) (auto simp: in_flight_def)
next
  case (CloseRing env)
  obtain err ld where c: "CloseReader env (s_loader s) = (err, ld)" by fastforce
  with bpfObjects_CloseReader [of env "s_loader s"] have "bpfObjects ld = s_bpf s" by simp
  with c CloseRing assms show ?thesis
    by (intro simulates_quiet) (auto simp: in_flight_def Let_def split: if_splits option.splits)
next
  case (Exit cenv env)
  from assms(1) [unfolded Exit] show ?thesis
    by (elim Exit_step, intro simulates_quiet) (auto simp: in_flight_def)
qed

lemma run_simulates:
  assumes "arun P s ls s'" "data_inv P s" "\<forall>l \<in> set ls. label_ok ncpu l"
  shows "rtranclp (machine_step (s_deviceMap s) (ap_queueSize P)) (abs_sys ncpu s) (abs_sys ncpu s')"
  using assms
proof (induction rule: arun.induct)
  case (arun_step s ls s' l s'')
  have inv: "data_inv P s'" "same_tables s s'"
    using run_data [OF arun_step.hyps(1), of ncpu] arun_step.prems by simp_all
  have "simulates P ncpu s' s''"
    using simulates_step [OF arun_step.hyps(2) inv(1)] arun_step.prems(2) by simp
  moreover have "s_deviceMap s' = s_deviceMap s" using inv(2) by (simp add: same_tables_def)
  moreover have "rtranclp (machine_step (s_deviceMap s) (ap_queueSize P)) (abs_sys ncpu s) (abs_sys ncpu s')"
    using arun_step.IH arun_step.prems by simp
  ultimately show ?case unfolding simulates_def by (metis rtranclp.rtrancl_into_rtrancl)
qed simp

section \<open>Property\<close>

text \<open>C2: The agent refines the counting machine. It starts as the empty machine, and after any run, whatever
  the interleaving, its line of waiting events, its counters, the kernel's losses and its log are a state the
  machine reaches. So events are counted in the order in which the kernel submitted them, each at most once
  and in a series with its own device, vendor and kind; and an event is dropped as \<^verbatim>\<open>queue_full\<close> only
  behind at least \<open>queueSize\<close> older ones.\<close>

theorem agent_refines_machine:
  assumes "agent_start se cfg dbg = Inr s" and "se_ok se" and "arun P s ls s'"
    and "\<forall>l \<in> set ls. label_ok ncpu l"
  shows "abs_sys ncpu s = machine_init \<and>
    rtranclp (machine_step (s_deviceMap s) (ap_queueSize P)) machine_init (abs_sys ncpu s')"
proof -
  have i: "sys_init s" using agent_start_Inr [OF assms(1,2)] by blast
  show ?thesis
    using run_simulates [OF assms(3) data_inv_init [OF i] assms(4)] abs_init [OF i, of ncpu] by simp
qed

theorem agent_refines_machine_witness:
  "\<exists>s s'. agent_start sample_start (Load (\<lambda>_. None)) False = Inr s \<and>
     arun sample_params s [Hook sample_call] s' \<and>
     rtranclp (machine_step (s_deviceMap s) 4096) machine_init (abs_sys 1 s')"
proof -
  obtain s where s: "agent_start sample_start (Load (\<lambda>_. None)) False = Inr s" "sys_init s" by (rule sample_system)
  obtain s' where r: "arun sample_params s [Hook sample_call] s'" using sample_hook_run [OF s(2)] by blast
  have "\<forall>l \<in> set [Hook sample_call]. label_ok 1 l" using sample_call_ok by simp
  moreover have "ap_queueSize sample_params = 4096" by (simp add: sample_params_def)
  ultimately show ?thesis
    using agent_refines_machine [OF s(1) sample_start_ok r, of 1] s(1) r by (intro exI [of _ s] exI [of _ s']) simp
qed

end
