(* ===== verification/AgentLive.thy ===== *)
theory AgentLive
  imports AgentSpec
begin

text \<open>
  Progress of the running agent. A weight on the samples and events that are not yet counted falls with
  every step of the reader and the worker, and only a hook call raises it; while it is positive and the
  reader is open, one of the two can make a step. So the pipeline empties under every schedule that does
  not starve it, and then the counters hold every call the probe reported.
\<close>

section \<open>The backlog\<close>

text \<open>The steps an uncounted sample still needs: read, send, take, work.\<close>

definition backlog :: "sys \<Rightarrow> nat" where
  "backlog s = 4 * length (events (s_bpf s)) + (if s_pending s = None then 0 else 3) +
     2 * length (s_queue s) + (if s_busy s = None then 0 else 1)"

fun is_pipeline :: "label \<Rightarrow> bool" where
  "is_pipeline Read = True"
| "is_pipeline Send = True"
| "is_pipeline Take = True"
| "is_pipeline (Work env) = True"
| "is_pipeline l = False"

lemma backlog_zero: "backlog s = 0 \<longleftrightarrow> events (s_bpf s) = [] \<and> in_flight s = []"
  by (auto simp: backlog_def in_flight_def split: option.splits if_splits)

lemma hook_events:
  "length (events (snd (kubenpu_ioctl relo env filp cmd arg b))) \<le> Suc (length (events b))"
  by (simp add: kubenpu_ioctl_cases count_dropped_frame split: option.split)

lemma backlog_step:
  assumes step: "agent_step P l s = Some s'"
  shows "backlog s' + (if is_pipeline l then 1 else 0) \<le> backlog s + (if is_hook l then 4 else 0)"
proof (cases l)
  case (Hook call)
  obtain env filp cmd arg where call: "call = (env, filp, cmd, arg)" by (cases call)
  with Hook step have "s' = set_bpf (snd (kubenpu_ioctl (ap_relo P) env filp cmd arg (s_bpf s))) s"
    by (simp split: if_splits)
  then show ?thesis
    using Hook hook_events [of "ap_relo P" env filp cmd arg "s_bpf s"] by (simp add: backlog_def set_bpf_def)
next
  case Read
  with step show ?thesis
    by (auto simp: backlog_def reader_result_def set_bpf_def split: if_splits list.splits sum.splits)
next
  case (Work env)
  with step show ?thesis by (auto simp: backlog_def Let_def split: option.splits prod.splits)
next
  case (CloseRing env)
  obtain err ld where c: "CloseReader env (s_loader s) = (err, ld)" by fastforce
  with bpfObjects_CloseReader [of env "s_loader s"] have "bpfObjects ld = s_bpf s" by simp
  with c CloseRing step show ?thesis by (auto simp: backlog_def Let_def split: if_splits option.splits)
next
  case (ServerDown down)
  from step [unfolded ServerDown] show ?thesis by (elim ServerDown_step) (simp add: backlog_def ServerDown)
next
  case (Exit cenv env)
  from step [unfolded Exit] show ?thesis by (elim Exit_step) (simp add: backlog_def Exit)
qed (use step in \<open>auto simp: backlog_def reader_result_def reader_send_def ReadEvent_def
      split: if_splits list.splits\<close>)

lemma hook_labels_snoc: "length (hook_labels (ls @ [l])) = length (hook_labels ls) + (if is_hook l then 1 else 0)"
  by (cases l) (simp_all add: hook_labels_def map_filter_snoc)

lemma backlog_run:
  "arun P s ls s' \<Longrightarrow> backlog s' + length (filter is_pipeline ls) \<le> backlog s + 4 * length (hook_labels ls)"
proof (induction rule: arun.induct)
  case (arun_step s ls s' l s'')
  with backlog_step [OF arun_step.hyps(2)] show ?case by (auto simp: hook_labels_snoc split: if_splits)
qed simp

section \<open>Progress\<close>

definition pipeline_labels :: "pod_env \<Rightarrow> label set" where
  "pipeline_labels env = {Read, Send, Take, Work env}"

lemma pipeline_progress:
  assumes inv: "control_inv s" and "\<not> s_reader_closed s" "backlog s \<noteq> 0"
  shows "\<exists>l \<in> pipeline_labels env. agent_step P l s \<noteq> None"
proof -
  have r: "s_reading s" "\<not> s_worker_done s" using assms(1,2) by (auto simp: control_inv_def)
  consider (busy) "s_busy s \<noteq> None" | (pending) "s_pending s \<noteq> None"
    | (queue) "s_queue s \<noteq> []" "s_busy s = None" | (ring) "events (s_bpf s) \<noteq> []" "s_pending s = None"
    using assms(3)
    by (cases "s_busy s = None"; cases "s_pending s = None"; cases "s_queue s = []") (auto simp: backlog_def)
  then show ?thesis
  proof cases
    case busy
    then have "agent_step P (Work env) s \<noteq> None" by (auto simp: Let_def split: prod.split)
    then show ?thesis by (simp add: pipeline_labels_def)
  next
    case pending
    with r have "agent_step P Send s \<noteq> None" by auto
    then show ?thesis by (simp add: pipeline_labels_def)
  next
    case queue
    with r have "agent_step P Take s \<noteq> None" by (auto simp: neq_Nil_conv)
    then show ?thesis by (simp add: pipeline_labels_def)
  next
    case ring
    with r assms(2) have "agent_step P Read s \<noteq> None" by (auto simp: neq_Nil_conv)
    then show ?thesis by (simp add: pipeline_labels_def)
  qed
qed

lemma pipeline_frame:
  assumes "agent_step P l s = Some s'" "l \<in> pipeline_labels env"
  shows "s_reader_closed s' = s_reader_closed s" "is_pipeline l" "\<not> is_hook l" "label_ok ncpu l"
  using assms
  by (auto simp: pipeline_labels_def label_ok_def reader_result_def reader_send_def set_bpf_def Let_def
      split: if_splits list.splits option.splits sum.splits prod.splits)

text \<open>A schedule of pipeline steps that empties it.\<close>

lemma drain_exists:
  assumes "control_inv s" "\<not> s_reader_closed s"
  shows "\<exists>ls s'. arun P s ls s' \<and> set ls \<subseteq> pipeline_labels env \<and> backlog s' = 0 \<and> \<not> s_reader_closed s'"
  using assms
proof (induction "backlog s" arbitrary: s rule: less_induct)
  case less
  show ?case
  proof (cases "backlog s = 0")
    case True
    with less.prems show ?thesis by (intro exI [of _ "[]"] exI [of _ s]) simp
  next
    case False
    then obtain l s1 where l: "l \<in> pipeline_labels env" "agent_step P l s = Some s1"
      using pipeline_progress [OF less.prems] by blast
    note f = pipeline_frame [OF l(2,1)]
    have "backlog s1 < backlog s" using backlog_step [OF l(2)] f by simp
    moreover have "control_inv s1" by (rule control_step [OF l(2) less.prems(1)])
    ultimately obtain ls s' where r: "arun P s1 ls s'" "set ls \<subseteq> pipeline_labels env" "backlog s' = 0"
      "\<not> s_reader_closed s'" using less.hyps less.prems(2) f(1) by blast
    then show ?thesis
      using arun_append [OF r(1) arun_one [OF l(2)]] l(1) by (intro exI [of _ "l # ls"] exI [of _ s']) auto
  qed
qed

lemma pipeline_hooks: "set ls \<subseteq> pipeline_labels env \<Longrightarrow> hook_labels ls = []"
  by (induction ls) (auto simp: hook_labels_def List.map_filter_simps pipeline_labels_def)

text \<open>The account of an empty pipeline.\<close>

lemma drained_account:
  assumes "sys_init s" "arun P s ls s'" "\<forall>l \<in> set ls. label_ok ncpu l" "backlog s' = 0"
  shows "total_dropped ncpu (s_bpf s') + ioctls_counted (s_collector s') + drops_counted (s_collector s') +
    of_nat (length (s_worker_log s')) =
    of_nat (length (filter (reported (ap_relo P) (s_bpf s)) (hook_labels ls)))"
proof -
  have "accounted ncpu s' = sum_list (map (gain P (s_bpf s)) ls)"
    using run_data [OF assms(2) data_inv_init [OF assms(1)] assms(3)] accounted_init [OF assms(1), of ncpu] by simp
  then show ?thesis using assms(4) by (simp add: sum_gain accounted_def backlog_zero)
qed

section \<open>Stopping\<close>

text \<open>The way out of an agent that serves and has nothing left to count.\<close>

definition stop_labels :: "ebpf_env \<Rightarrow> cri_env \<Rightarrow> label list" where
  "stop_labels eb cenv = [Signal, ServerDown None, CloseRing eb, ReadAfterClose, WorkerExit, Exit cenv eb]"

lemma arun_Cons: "agent_step P l s = Some s1 \<Longrightarrow> arun P s1 ls s' \<Longrightarrow> arun P s (l # ls) s'"
  using arun_append [OF _ arun_one] by force

lemma orderly_stop:
  assumes inv: "control_inv s" and ph: "s_phase s = Serving" and "backlog s = 0"
    and close: "Close_of eb RingbufReader = None"
  shows "\<exists>s'. arun P s (stop_labels eb cenv) s' \<and> s_exited s' \<and> backlog s' = 0"
proof -
  have h: "\<not> closeReaderOnce (s_loader s)" "\<not> s_reader_closed s" "s_reading s" "\<not> s_worker_done s" "\<not> s_exited s"
    "rb (s_loader s) \<noteq> None"
    using inv ph by (auto simp: control_inv_def)
  have e: "events (s_bpf s) = []" "s_pending s = None" "s_queue s = []" "s_busy s = None"
    using assms(3) by (auto simp: backlog_zero in_flight_def split: option.splits)
  let ?l = "(s_loader s)\<lparr>closeReaderOnce := True, close_calls := close_calls (s_loader s) @ [RingbufReader]\<rparr>"
  have c: "CloseReader eb (s_loader s) = (None, ?l)"
    using h close by (simp add: CloseReader_eq reader_calls_def)
  let ?s1 = "s\<lparr>s_ready := False, s_phase := Signalled\<rparr>"
  let ?s2 = "?s1\<lparr>s_phase := ServerStopped\<rparr>"
  let ?s3 = "?s2\<lparr>s_loader := ?l, s_phase := Stopped, s_reader_closed := True\<rparr>"
  let ?s4 = "?s3\<lparr>s_reading := False, s_queue_closed := True\<rparr>"
  let ?s5 = "?s4\<lparr>s_worker_done := True\<rparr>"
  have 1: "agent_step P Signal s = Some ?s1" using h ph by simp
  have 2: "agent_step P (ServerDown None) ?s1 = Some ?s2" using h by (simp add: Server_Shutdown_def log_error_def)
  have 3: "agent_step P (CloseRing eb) ?s2 = Some ?s3" using h c by (simp add: Let_def)
  have 4: "agent_step P ReadAfterClose ?s3 = Some ?s4"
    using h e by (simp add: reader_result_def ReadEvent_def ringbuf_ErrClosed_def)
  have 5: "agent_step P WorkerExit ?s4 = Some ?s5" using h e by simp
  have "agent_step P (Exit cenv eb) ?s5 \<noteq> None" using h by (simp add: Let_def split: prod.split)
  then obtain s6 where 6: "agent_step P (Exit cenv eb) ?s5 = Some s6" by blast
  from 6 obtain lg where s6: "s6 = ?s5\<lparr>s_podmap_closed := True, s_loader := snd (Close eb (s_loader ?s5)),
      s_exited := True, s_reader_log := lg\<rparr>"
    by (elim Exit_step) blast
  have "arun P s (stop_labels eb cenv) s6"
    unfolding stop_labels_def
    by (intro arun_Cons [OF 1] arun_Cons [OF 2] arun_Cons [OF 3] arun_Cons [OF 4] arun_Cons [OF 5] arun_one [OF 6])
  moreover have "s_exited s6" "backlog s6 = 0" using e by (simp_all add: s6 backlog_def)
  ultimately show ?thesis by blast
qed

lemma stop_labels_frame: "hook_labels (stop_labels eb cenv) = []" "l \<in> set (stop_labels eb cenv) \<Longrightarrow> label_ok ncpu l"
  by (auto simp: stop_labels_def hook_labels_def List.map_filter_simps label_ok_def)

lemma pipeline_labels_ok: "l \<in> pipeline_labels env \<Longrightarrow> label_ok ncpu l"
  by (auto simp: pipeline_labels_def label_ok_def)

lemma pipeline_phase:
  assumes "arun P s ls s'" "set ls \<subseteq> pipeline_labels env"
  shows "s_phase s' = s_phase s"
  using assms
proof (induction rule: arun.induct)
  case (arun_step s ls s' l s'')
  then have "l \<in> pipeline_labels env" by simp
  with arun_step.hyps(2) have "s_phase s'' = s_phase s'"
    by (auto simp: pipeline_labels_def reader_result_def reader_send_def set_bpf_def Let_def
        split: if_splits list.splits option.splits sum.splits prod.splits)
  with arun_step show ?case by simp
qed simp

text \<open>From everywhere the process can be ended with everything counted.\<close>

lemma stop_exists:
  fixes env :: pod_env and cenv :: cri_env and eb :: ebpf_env
  assumes i: "sys_init s" and r: "arun P s ls s'" and ok: "\<forall>l \<in> set ls. label_ok ncpu l"
    and ph: "s_phase s' = Serving" and close: "Close_of eb RingbufReader = None"
  shows "\<exists>ls' s''. arun P s' ls' s'' \<and> hook_labels ls' = [] \<and> s_exited s'' \<and>
    total_dropped ncpu (s_bpf s'') + ioctls_counted (s_collector s'') + drops_counted (s_collector s'') +
      of_nat (length (s_worker_log s'')) =
      (of_nat (length (filter (reported (ap_relo P) (s_bpf s)) (hook_labels ls))) :: u64)"
proof -
  have c: "control_inv s'" by (rule run_control [OF r control_inv_init [OF i]])
  then have "\<not> s_reader_closed s'" using ph by (auto simp: control_inv_def)
  from drain_exists [OF c this, of P env] obtain ls1 s1 where
    d: "arun P s' ls1 s1" "set ls1 \<subseteq> pipeline_labels env" "backlog s1 = 0" by blast
  have c1: "control_inv s1" by (rule run_control [OF d(1) c])
  have "s_phase s1 = Serving" using pipeline_phase [OF d(1,2)] ph by simp
  from orderly_stop [OF c1 this d(3) close] obtain s2 where
    e: "arun P s1 (stop_labels eb cenv) s2" "s_exited s2" "backlog s2 = 0" by blast
  have run: "arun P s' (ls1 @ stop_labels eb cenv) s2" by (rule arun_append [OF e(1) d(1)])
  have h: "hook_labels (ls1 @ stop_labels eb cenv) = []"
    by (simp add: hook_labels_append pipeline_hooks [OF d(2)] stop_labels_frame)
  have "\<forall>l \<in> set (ls @ ls1 @ stop_labels eb cenv). label_ok ncpu l"
    using ok d(2) pipeline_labels_ok [of _ env ncpu] stop_labels_frame(2) by auto
  from drained_account [OF i arun_append [OF run r] this e(3)] h run e(2) show ?thesis
    by (intro exI [of _ "ls1 @ stop_labels eb cenv"] exI [of _ s2]) (simp add: hook_labels_append)
qed

section \<open>Property\<close>

text \<open>C6: Every reported call is counted in the end. While the ring buffer's reader is open, the reader and the
  worker make at most four steps for each hook call beyond the backlog; when neither of them can make a step,
  nothing is left in the ring buffer, the queue or the worker's hands, and the calls the kernel lost, the ioctl
  counters, the drop counters and the logged errors add up exactly to the calls the probe has reported. Such a
  state is reached from everywhere by steps of the reader and the worker alone; and a serving agent can be
  taken from everywhere to the end of the process with everything counted.\<close>

theorem agent_drains:
  assumes "agent_start se cfg dbg = Inr s" and "se_ok se" and "arun P s ls s'"
    and "\<forall>l \<in> set ls. label_ok ncpu l" and "\<not> s_reader_closed s'"
  shows "(\<forall>ls' s''. arun P s' ls' s'' \<longrightarrow>
       length (filter is_pipeline ls') \<le> backlog s' + 4 * length (hook_labels ls')) \<and>
    ((\<forall>l \<in> {Read, Send, Take, Work env}. agent_step P l s' = None) \<longrightarrow>
       events (s_bpf s') = [] \<and> in_flight s' = [] \<and>
       total_dropped ncpu (s_bpf s') + ioctls_counted (s_collector s') + drops_counted (s_collector s') +
         of_nat (length (s_worker_log s')) =
         (of_nat (length (filter (reported (ap_relo P) (s_bpf s)) (hook_labels ls))) :: u64)) \<and>
    (\<exists>ls' s''. arun P s' ls' s'' \<and> set ls' \<subseteq> {Read, Send, Take, Work env} \<and>
       (\<forall>l \<in> {Read, Send, Take, Work env}. agent_step P l s'' = None)) \<and>
    (s_phase s' = Serving \<and> Close_of (eb :: ebpf_env) RingbufReader = None \<longrightarrow>
       (\<exists>ls' s''. arun P s' ls' s'' \<and> hook_labels ls' = [] \<and> s_exited s'' \<and>
          total_dropped ncpu (s_bpf s'') + ioctls_counted (s_collector s'') + drops_counted (s_collector s'') +
            of_nat (length (s_worker_log s'')) =
            (of_nat (length (filter (reported (ap_relo P) (s_bpf s)) (hook_labels ls))) :: u64)))"
proof -
  have i: "sys_init s" using agent_start_Inr [OF assms(1,2)] by blast
  have c: "control_inv s'" by (rule run_control [OF assms(3) control_inv_init [OF i]])
  have "\<forall>l \<in> pipeline_labels env. agent_step P l s' = None \<Longrightarrow> backlog s' = 0"
    using pipeline_progress [OF c assms(5), of env P] by metis
  then have "\<forall>l \<in> {Read, Send, Take, Work env}. agent_step P l s' = None \<Longrightarrow> backlog s' = 0"
    unfolding pipeline_labels_def .
  with drained_account [OF i assms(3,4)] have counted:
    "(\<forall>l \<in> {Read, Send, Take, Work env}. agent_step P l s' = None) \<longrightarrow>
       events (s_bpf s') = [] \<and> in_flight s' = [] \<and>
       total_dropped ncpu (s_bpf s') + ioctls_counted (s_collector s') + drops_counted (s_collector s') +
         of_nat (length (s_worker_log s')) =
         (of_nat (length (filter (reported (ap_relo P) (s_bpf s)) (hook_labels ls))) :: u64)"
    by (meson backlog_zero)
  have bound: "\<forall>ls' s''. arun P s' ls' s'' \<longrightarrow>
      length (filter is_pipeline ls') \<le> backlog s' + 4 * length (hook_labels ls')"
    using backlog_run by fastforce
  obtain ls' s'' where r: "arun P s' ls' s''" "set ls' \<subseteq> pipeline_labels env" "backlog s'' = 0"
    using drain_exists [OF c assms(5)] by blast
  have "\<forall>l \<in> pipeline_labels env. agent_step P l s'' = None"
  proof
    fix l assume l: "l \<in> pipeline_labels env"
    show "agent_step P l s'' = None"
      using backlog_step [of P l s''] pipeline_frame [OF _ l, of P s''] r(3)
      by (cases "agent_step P l s''") fastforce+
  qed
  with r(1,2) have empty: "\<exists>ls' s''. arun P s' ls' s'' \<and> set ls' \<subseteq> {Read, Send, Take, Work env} \<and>
      (\<forall>l \<in> {Read, Send, Take, Work env}. agent_step P l s'' = None)"
    unfolding pipeline_labels_def by (intro exI conjI)
  have stop: "s_phase s' = Serving \<and> Close_of eb RingbufReader = None \<longrightarrow>
      (\<exists>ls' s''. arun P s' ls' s'' \<and> hook_labels ls' = [] \<and> s_exited s'' \<and>
         total_dropped ncpu (s_bpf s'') + ioctls_counted (s_collector s'') + drops_counted (s_collector s'') +
           of_nat (length (s_worker_log s'')) =
           (of_nat (length (filter (reported (ap_relo P) (s_bpf s)) (hook_labels ls))) :: u64))"
    using stop_exists [OF i assms(3,4)] by blast
  show ?thesis by (rule conjI [OF bound conjI [OF counted conjI [OF empty stop]]])
qed

theorem agent_drains_witness:
  "\<exists>s s' ls' s''. agent_start sample_start (Load (\<lambda>_. None)) False = Inr s \<and>
     arun sample_params s [Hook sample_call] s' \<and> arun sample_params s' ls' s'' \<and> s_exited s'' \<and>
     total_dropped 1 (s_bpf s'') + ioctls_counted (s_collector s'') + drops_counted (s_collector s'') +
       of_nat (length (s_worker_log s'')) = 1"
proof -
  obtain s where s: "agent_start sample_start (Load (\<lambda>_. None)) False = Inr s" "sys_init s"
    "reported (ap_relo sample_params) (s_bpf s) sample_call" by (rule sample_system)
  obtain s' where r: "arun sample_params s [Hook sample_call] s'" using sample_hook_run [OF s(2)] by blast
  have l: "\<forall>l \<in> set [Hook sample_call]. label_ok 1 l" using sample_call_ok by simp
  have ph: "s_phase s' = Serving"
    using r s(2) by (auto simp: sys_init_def set_bpf_def elim!: arun_snocE [of _ _ "[]", simplified] split: if_splits)
  moreover have "control_inv s'" by (rule run_control [OF r control_inv_init [OF s(2)]])
  ultimately have open_rb: "\<not> s_reader_closed s'" by (auto simp: control_inv_def)
  have close: "Close_of sample_ebpf RingbufReader = None" by (simp add: sample_ebpf_def)
  have "length (filter (reported (ap_relo sample_params) (s_bpf s)) (hook_labels [Hook sample_call])) = 1"
    using s(3) by (simp add: hook_labels_def List.map_filter_simps)
  with agent_drains [OF s(1) sample_start_ok r l open_rb, of "sample_pod_env 1" sample_ebpf] ph close
  obtain ls' s'' where "arun sample_params s' ls' s''" "s_exited s''"
    "total_dropped 1 (s_bpf s'') + ioctls_counted (s_collector s'') + drops_counted (s_collector s'') +
       of_nat (length (s_worker_log s'')) = 1" by auto
  with s(1) r show ?thesis by blast
qed

end
