(* ===== verification/Flags.thy ===== *)
theory Flags
  imports GoLib
begin

text \<open>
  The command line of \<^verbatim>\<open>cmd/agent/main.go\<close>: the package \<^verbatim>\<open>flag\<close> for the two flags that \<^verbatim>\<open>main\<close> declares, and
  what a command line means, argument by argument.
\<close>

section \<open>Package flag\<close>

text \<open>A flag starts with one or two dashes; a boolean flag has
  its value behind an equals sign or is set to true; the first argument that is no flag, or two dashes alone, ends the
  flags. The command line of a process exits with 0 when help is asked for and with 2 on any other error.\<close>

record flags =
  version_flag :: bool
  debug_flag :: bool

definition ParseBool :: "string \<Rightarrow> bool option" where
  "ParseBool s =
     (if s \<in> set [''1'', ''t'', ''T'', ''true'', ''TRUE'', ''True''] then Some True
      else if s \<in> set [''0'', ''f'', ''F'', ''false'', ''FALSE'', ''False''] then Some False
      else None)"

text \<open>The name and the value: the first equals sign that is not the first character separates them.\<close>

definition flag_split :: "string \<Rightarrow> string \<times> string option" where
  "flag_split s =
     (let name = hd s # takeWhile (\<lambda>c. c \<noteq> CHR ''='') (tl s);
          rest = dropWhile (\<lambda>c. c \<noteq> CHR ''='') (tl s)
      in (name, case rest of [] \<Rightarrow> None | _ # value \<Rightarrow> Some value))"

definition set_flag :: "string \<Rightarrow> bool \<Rightarrow> flags \<Rightarrow> flags" where
  "set_flag name b fl = (if name = ''version'' then fl\<lparr>version_flag := b\<rparr> else fl\<lparr>debug_flag := b\<rparr>)"

definition is_flag :: "string \<Rightarrow> bool" where
  "is_flag s \<longleftrightarrow> 2 \<le> length s \<and> hd s = CHR ''-'' \<and> s \<noteq> ''--''"

definition parseOne :: "string \<Rightarrow> nat + string \<times> bool" where
  "parseOne s =
     (let body = (if s ! 1 = CHR ''-'' then drop 2 s else drop 1 s)
      in if hd body = CHR ''-'' \<or> hd body = CHR ''='' then Inl 2
         else
           (let (name, value) = flag_split body
            in if name \<notin> set [''version'', ''debug'']
               then Inl (if name = ''help'' \<or> name = ''h'' then 0 else 2)
               else case (case value of None \<Rightarrow> Some True | Some v \<Rightarrow> ParseBool v) of
                      None \<Rightarrow> Inl 2
                    | Some b \<Rightarrow> Inr (name, b)))"

fun flag_Parse :: "string list \<Rightarrow> flags \<Rightarrow> nat + flags" where
  "flag_Parse [] fl = Inr fl"
| "flag_Parse (s # args) fl =
     (if \<not> is_flag s then Inr fl
      else case parseOne s of
             Inl code \<Rightarrow> Inl code
           | Inr (name, b) \<Rightarrow> flag_Parse args (set_flag name b fl))"

section \<open>The meaning of a command line\<close>

text \<open>What the command line means: an argument sets a flag to a value, or asks for help.\<close>

definition sets_flag :: "string \<Rightarrow> string \<times> bool \<Rightarrow> bool" where
  "sets_flag s = (\<lambda>(name, b). name \<in> {''version'', ''debug''} \<and>
     (\<exists>dashes \<in> {''-'', ''--''}. s = dashes @ name \<and> b \<or>
        (\<exists>v. s = dashes @ name @ ''='' @ v \<and> ParseBool v = Some b)))"

definition asks_help :: "string \<Rightarrow> bool" where
  "asks_help s \<longleftrightarrow> (\<exists>dashes \<in> {''-'', ''--''}. \<exists>name \<in> {''help'', ''h''}.
     s = dashes @ name \<or> (\<exists>v. s = dashes @ name @ ''='' @ v))"

definition last_setting :: "string \<Rightarrow> bool \<Rightarrow> (string \<times> bool) list \<Rightarrow> bool" where
  "last_setting name initial settings = last (initial # map snd (filter (\<lambda>(n, b). n = name) settings))"

lemma flag_split_append:
  assumes "flag_split arg = (name, vo)" "arg \<noteq> []"
  shows "arg = name @ (case vo of None \<Rightarrow> [] | Some v \<Rightarrow> CHR ''='' # v)"
proof -
  let ?P = "\<lambda>c. c \<noteq> CHR ''=''"
  obtain c cs where arg: "arg = c # cs" using assms(2) by (cases arg) auto
  have split: "takeWhile ?P cs @ dropWhile ?P cs = cs" by simp
  have name: "name = c # takeWhile ?P cs"
    and vo: "vo = (case dropWhile ?P cs of [] \<Rightarrow> None | _ # v \<Rightarrow> Some v)"
    using assms(1) by (simp_all add: flag_split_def arg Let_def)
  show ?thesis
  proof (cases "dropWhile ?P cs")
    case Nil
    with split have "takeWhile ?P cs = cs" by (simp only: append_Nil2)
    then show ?thesis unfolding arg name vo Nil by (simp only: list.case option.case append_Nil2)
  next
    case (Cons x v)
    then have "x = CHR ''=''" using hd_dropWhile [of ?P cs] by simp
    with Cons split have "cs = takeWhile ?P cs @ CHR ''='' # v" by (simp only:)
    then show ?thesis unfolding arg name vo Cons by simp
  qed
qed

lemma flag_body:
  assumes "is_flag s"
  obtains dashes arg where "dashes \<in> {''-'', ''--''}" "s = dashes @ arg" "arg \<noteq> []"
    "(if s ! 1 = CHR ''-'' then drop 2 s else drop 1 s) = arg"
proof -
  obtain c cs where s: "s = CHR ''-'' # c # cs" "c = CHR ''-'' \<longrightarrow> cs \<noteq> []"
    using assms by (cases s; cases "tl s") (auto simp: is_flag_def)
  show thesis
  proof (cases "c = CHR ''-''")
    case True
    with s show thesis by (intro that [of "''--''" cs]) simp_all
  next
    case False
    with s show thesis by (intro that [of "''-''" "c # cs"]) simp_all
  qed
qed

lemma parseOne_sets:
  assumes "is_flag s"
  shows "parseOne s = Inr nb \<longleftrightarrow> sets_flag s nb"
proof
  assume p: "parseOne s = Inr nb"
  obtain dashes arg where d: "dashes \<in> {''-'', ''--''}" "s = dashes @ arg" "arg \<noteq> []"
    "(if s ! 1 = CHR ''-'' then drop 2 s else drop 1 s) = arg" by (rule flag_body [OF assms])
  obtain name vo where f: "flag_split arg = (name, vo)" by fastforce
  with p d(4) have "name \<in> {''version'', ''debug''}" "nb = (name, snd nb)"
    "(case vo of None \<Rightarrow> Some True | Some v \<Rightarrow> ParseBool v) = Some (snd nb)"
    by (auto simp: parseOne_def Let_def split: if_splits option.splits)
  with d(1,2) flag_split_append [OF f d(3)] show "sets_flag s nb"
    by (cases nb; cases vo) (auto simp: sets_flag_def)
next
  assume "sets_flag s nb"
  then show "parseOne s = Inr nb" by (cases nb) (auto simp: sets_flag_def parseOne_def flag_split_def)
qed

lemma parseOne_code:
  assumes "is_flag s" "parseOne s = Inl code"
  shows "code = (if asks_help s then 0 else 2)"
proof (cases "asks_help s")
  case True
  then have "parseOne s = Inl 0" by (auto simp: asks_help_def parseOne_def flag_split_def)
  with assms(2) True show ?thesis by simp
next
  case False
  obtain dashes arg where d: "dashes \<in> {''-'', ''--''}" "s = dashes @ arg" "arg \<noteq> []"
    "(if s ! 1 = CHR ''-'' then drop 2 s else drop 1 s) = arg" by (rule flag_body [OF assms(1)])
  obtain name vo where f: "flag_split arg = (name, vo)" by fastforce
  have "\<not> (name = ''help'' \<or> name = ''h'')"
    using False d(1,2) flag_split_append [OF f d(3)] by (cases vo) (auto simp: asks_help_def)
  with assms(2) d(4) f False show ?thesis
    by (auto simp: parseOne_def Let_def split: if_splits option.splits)
qed

lemma sets_flag_is_flag: "sets_flag s nb \<Longrightarrow> is_flag s"
  by (auto simp: sets_flag_def is_flag_def)

lemma flag_Parse_Inr:
  "flag_Parse args fl = Inr fl' \<Longrightarrow>
     \<exists>settings. list_all2 sets_flag (takeWhile is_flag args) settings \<and> fl' = fold (\<lambda>(n, b). set_flag n b) settings fl"
proof (induction args fl rule: flag_Parse.induct)
  case (2 s args fl)
  show ?case
  proof (cases "is_flag s")
    case True
    with "2.prems" obtain n b where p: "parseOne s = Inr (n, b)" "flag_Parse args (set_flag n b fl) = Inr fl'"
      by (auto split: sum.splits)
    then obtain settings where "list_all2 sets_flag (takeWhile is_flag args) settings"
      "fl' = fold (\<lambda>(n, b). set_flag n b) settings (set_flag n b fl)"
      using "2.IH" True by blast
    with True p(1) show ?thesis by (intro exI [of _ "(n, b) # settings"]) (simp add: parseOne_sets)
  qed (use "2.prems" in simp)
qed simp

lemma flag_Parse_Inl:
  "flag_Parse args fl = Inl code \<Longrightarrow>
     \<exists>pre s post settings. args = pre @ s # post \<and> list_all2 sets_flag pre settings \<and> is_flag s \<and>
       (\<forall>nb. \<not> sets_flag s nb) \<and> code = (if asks_help s then 0 else 2)"
proof (induction args fl rule: flag_Parse.induct)
  case (2 s args fl)
  then have f: "is_flag s" by (simp split: if_splits)
  show ?case
  proof (cases "parseOne s")
    case (Inl c)
    then have "\<forall>nb. \<not> sets_flag s nb" using parseOne_sets [OF f] by fastforce
    with "2.prems" Inl f parseOne_code [OF f Inl] show ?thesis
      by (intro exI [of _ "[]"] exI [of _ s] exI [of _ args]) simp
  next
    case (Inr nb)
    obtain n b where nb: "nb = (n, b)" by (cases nb)
    with "2.prems" Inr f have "flag_Parse args (set_flag n b fl) = Inl code" by simp
    then obtain pre s' post settings where r: "args = pre @ s' # post" "list_all2 sets_flag pre settings"
      "is_flag s' \<and> (\<forall>nb. \<not> sets_flag s' nb) \<and> code = (if asks_help s' then 0 else 2)"
      using "2.IH" Inr nb f by blast
    moreover from Inr have "sets_flag s nb" by (simp add: parseOne_sets [OF f])
    ultimately show ?thesis
      by (intro exI [of _ "s # pre"] exI [of _ s'] exI [of _ post] exI [of _ "nb # settings"]) simp
  qed
qed simp

lemma fold_set_flag:
  "list_all2 sets_flag ss settings \<Longrightarrow>
   debug_flag (fold (\<lambda>(n, b). set_flag n b) settings fl) = last_setting ''debug'' (debug_flag fl) settings \<and>
   version_flag (fold (\<lambda>(n, b). set_flag n b) settings fl) = last_setting ''version'' (version_flag fl) settings"
proof (induction ss settings arbitrary: fl rule: list_all2_induct)
  case (Cons s ss nb settings)
  obtain n b where nb: "nb = (n, b)" by (cases nb)
  with Cons.hyps have "n = ''version'' \<or> n = ''debug''" by (auto simp: sets_flag_def)
  then show ?case using Cons.IH [of "set_flag n b fl"] by (auto simp: nb set_flag_def last_setting_def)
qed (simp add: last_setting_def)

end
