(* ===== verification/AgentHttp.thy ===== *)
theory AgentHttp
  imports AgentLive Flags
begin

text \<open>
  The process as a whole and what it shows to the outside. \<open>agent_main\<close> is the beginning of
  \<^verbatim>\<open>main\<close> in \<^verbatim>\<open>cmd/agent/main.go\<close>: configuration, flags, start. The HTTP server's goroutine runs beside the
  loops of \<open>Agent\<close>; its handlers only read the state, so a request is a function of the state it meets
  (\<open>serve\<close>), and a scrape is the collector's \<open>Collect\<close> over the agent's own loader and pod map. Registering
  the collectors and rendering the metrics are Prometheus' and the argument \<open>promhttp\<close>.
\<close>

section \<open>The beginning of main\<close>

text \<open>\<^verbatim>\<open>make(chan T, n)\<close> for elements of \<open>elem\<close> bytes on linux/amd64, as the runtime does it: the header of a channel
  takes 96 bytes and an object lies below the address 2 to the 48; \<open>heap\<close> tells whether there is memory for an object
  of the given size. Otherwise the process ends with the message and the status 2.\<close>

definition makechan :: "(nat \<Rightarrow> bool) \<Rightarrow> nat \<Rightarrow> int \<Rightarrow> string option" where
  "makechan heap elem n =
     (if n < 0 \<or> 2 ^ 48 - 96 < n * int elem then Some ''panic: makechan: size out of range''
      else if \<not> heap (96 + nat n * elem) then Some ''fatal error: runtime: out of memory''
      else None)"

text \<open>\<^verbatim>\<open>loader.Event\<close>, the element of the queue; Go lays it out as C would.\<close>

definition queue_elem :: cty where
  "queue_elem = CStruct ''Event'' False
     [Field ''Timestamp'' c__u64, Field ''CgroupID'' c__u64, Field ''TGID'' c__u32, Field ''Cmd'' c__u32,
      Field ''Minor'' c__u32, Field ''Major'' c__u16, Field ''Kind'' c__u8]"

datatype outcome = PrintsVersion string | Exits nat | Fatal goerr | Crashes string | Running sys

definition default_flags :: "Config \<Rightarrow> flags" where
  "default_flags appConfig = \<lparr>version_flag = False, debug_flag = Debug appConfig\<rparr>"

definition agent_main :: "start_env \<Rightarrow> (string \<rightharpoonup> string) \<Rightarrow> string list \<Rightarrow> outcome" where
  "agent_main se osenv args =
     (let appConfig = Load osenv
      in case flag_Parse args (default_flags appConfig) of
           Inl code \<Rightarrow> Exits code
         | Inr fl \<Rightarrow>
             if version_flag fl then PrintsVersion (AppVersion appConfig)
             else case agent_start se appConfig (debug_flag fl) of
                    Inl err \<Rightarrow> Fatal err
                  | Inr s \<Rightarrow>
                      (case makechan (se_heap se) (sizeof queue_elem) (QueueSize appConfig) of
                         Some msg \<Rightarrow> Crashes msg
                       | None \<Rightarrow> Running s))"

text \<open>The capacity of the queue is the configured one.\<close>

definition main_params :: "core_relo \<Rightarrow> (string \<rightharpoonup> string) \<Rightarrow> agent_params" where
  "main_params relo osenv = \<lparr>ap_relo = relo, ap_queueSize = QueueSize (Load osenv)\<rparr>"

section \<open>The HTTP server\<close>

definition Itoa :: "int \<Rightarrow> string" where
  "Itoa i = (if i < 0 then CHR ''-'' # digits_of (nat (- i)) else digits_of (nat i))"

definition JoinHostPort :: "string \<Rightarrow> string \<Rightarrow> string" where
  "JoinHostPort host port =
     (if CHR '':'' \<in> set host then ''['' @ host @ '']:'' @ port else host @ '':'' @ port)"

text \<open>\<open>listening\<close>: \<^verbatim>\<open>ListenAndServe\<close> could bind the address.\<close>

record 'f http_env =
  listening :: bool
  float64 :: "u64 \<Rightarrow> 'f"
  promhttp :: "'f Metric list \<Rightarrow> response"

text \<open>One scrape: the order of the iterations over maps and the answer of the kernel to the lookup of the drop
  counter are the scrape's own.\<close>

definition scrape :: "(u64 \<Rightarrow> 'f) \<Rightarrow> orders \<Rightarrow> ebpf_env \<Rightarrow> sys \<Rightarrow> 'f Metric list" where
  "scrape fl ord env s =
     Collect fl ord \<lparr>w_podmap = s_podmap s, w_loader = s_loader s, w_ebpf = env\<rparr> (s_collector s)"

definition agent_server :: "'f http_env \<Rightarrow> Config \<Rightarrow> orders \<Rightarrow> ebpf_env \<Rightarrow> sys \<Rightarrow> server" where
  "agent_server H cfg ord env s =
     NewServer (JoinHostPort (Host cfg) (Itoa (Port cfg))) (Some (\<lambda>_. s_ready s))
       (promhttp H (scrape (float64 H) ord env s))"

text \<open>The answer to a request, if there is one: \<^verbatim>\<open>Shutdown\<close> closes the listener.\<close>

definition serve :: "'f http_env \<Rightarrow> Config \<Rightarrow> orders \<Rightarrow> ebpf_env \<Rightarrow> sys \<Rightarrow> string \<Rightarrow> response option" where
  "serve H cfg ord env s path =
     (if \<not> listening H \<or> ServerStopped \<le> s_phase s \<or> s_exited s then None
      else Some (handler (agent_server H cfg ord env s) path))"

text \<open>The goroutine around \<^verbatim>\<open>srv.Run()\<close>, when it returns.\<close>

definition server_returns :: "goerr \<Rightarrow> sys \<Rightarrow> sys" where
  "server_returns served s = log_error (Run served) s"

section \<open>The collector of a running agent\<close>

definition sources_ok :: "sys \<Rightarrow> bool" where
  "sources_ok s \<longleftrightarrow> dom (eventsDroppedTotal (s_collector s)) = set dropReasons \<and>
     cgroupIndexRebuildsSource (s_collector s) = Some (\<lambda>w. CgroupIndexRebuilds (w_podmap w)) \<and>
     kernelDroppedSource (s_collector s) = Some (\<lambda>w. DroppedEvents (w_ebpf w) (w_loader w))"

lemma sources_init: "sys_init s \<Longrightarrow> sources_ok s"
  by (simp add: sys_init_def sources_ok_def NewCollector_counts)

text \<open>What one step can do to the collector.\<close>

lemma worker_collector:
  assumes "worker_event env dm e p c lg = (p', c', lg')"
  shows "c' = c \<or> (\<exists>r \<in> set dropReasons. c' = IncEventsDropped r c) \<or> (\<exists>k. c' = inc_key k c)"
proof -
  have "r \<in> set dropReasons" if "drop_reason err = Some r" for err r
    using that by (auto simp: drop_reason_def dropReasons_def split: if_splits)
  moreover have "IncIoctl n q t d v k c = inc_key \<lparr>key_namespace = n, key_pod = q, key_container = t,
      key_device = d, key_vendor = v, key_kind = k\<rparr> c" for n q t d v k
    by (simp add: inc_key_def)
  moreover have "ReasonDeviceUnknown \<in> set dropReasons" by (simp add: dropReasons_def)
  ultimately show ?thesis
    using assms unfolding worker_event_cases
    by (auto split: option.splits prod.splits sum.splits)
qed

lemma collector_same:
  assumes "agent_step P l s = Some s'" "l \<noteq> Send" "\<And>env. l \<noteq> Work env"
  shows "s_collector s' = s_collector s"
proof (cases l)
  case (Exit cenv env)
  from assms(1) [unfolded Exit] show ?thesis by (elim Exit_step) simp
qed (use assms in \<open>auto simp: reader_result_def set_bpf_def Let_def log_error_def
      split: if_splits list.splits option.splits sum.splits prod.splits\<close>)

lemma collector_step:
  assumes "agent_step P l s = Some s'"
  shows "s_collector s' = s_collector s \<or>
    (\<exists>r \<in> set dropReasons. s_collector s' = IncEventsDropped r (s_collector s)) \<or>
    (\<exists>k. s_collector s' = inc_key k (s_collector s))"
proof (cases "(\<exists>env. l = Work env) \<or> l = Send")
  case False
  with collector_same [OF assms] show ?thesis by blast
next
  case True
  then show ?thesis
  proof
    assume "\<exists>env. l = Work env"
    with assms obtain env e p c lg where
      "worker_event env (s_deviceMap s) e (s_podmap s) (s_collector s) (s_worker_log s) = (p, c, lg)" "s_collector s' = c"
      by (auto simp: Let_def split: option.splits prod.splits)
    with worker_collector show ?thesis by blast
  next
    have "ReasonQueueFull \<in> set dropReasons" by (simp add: dropReasons_def)
    moreover assume "l = Send"
    ultimately show ?thesis using assms by (auto simp: reader_send_def split: if_splits)
  qed
qed

lemma sources_step:
  assumes "agent_step P l s = Some s'" "sources_ok s"
  shows "sources_ok s'"
  using collector_step [OF assms(1)] assms(2)
  by (elim disjE bexE exE) (simp_all add: sources_ok_def inc_key_eq IncEventsDropped_def insert_absorb)

lemma run_sources: "arun P s ls s' \<Longrightarrow> sources_ok s \<Longrightarrow> sources_ok s'"
  by (rule arun_invariant) (auto intro: sources_step)

text \<open>What a scrape of a running agent consists of.\<close>

lemma scrape_eq:
  assumes "sources_ok s" "DroppedEvents env (s_loader s) = Inr lost"
  shows "scrape fl ord env s =
    map (\<lambda>k. \<lparr>m_desc = ioctlDesc, m_type = CounterValue, m_value = fl (the (ioctlTotal (s_collector s) k)),
      m_labels = [key_namespace k, key_pod k, key_container k, key_device k, key_vendor k, key_kind k]\<rparr>) (order_ioctl ord) @
    map (\<lambda>reason. \<lparr>m_desc = eventsDroppedDesc, m_type = CounterValue,
      m_value = fl (the (eventsDroppedTotal (s_collector s) reason)), m_labels = [reason]\<rparr>) (order_dropped ord) @
    [\<lparr>m_desc = eventsDroppedDesc, m_type = CounterValue, m_value = fl lost, m_labels = [ReasonRingbufFull]\<rparr>,
     \<lparr>m_desc = cgroupRebuildsDesc, m_type = CounterValue, m_value = fl (cgroupIndexRebuilds (s_podmap s)),
      m_labels = []\<rparr>] @
    map (\<lambda>k. \<lparr>m_desc = deviceInfoDesc, m_type = GaugeValue, m_value = fl 1,
      m_labels = [dev_device k, dev_vendor k, dev_driver k, dev_pciID k, dev_numaNode k]\<rparr>) (order_device ord)"
  using assms by (simp add: scrape_def Collect_def sources_ok_def CgroupIndexRebuilds_def)

section \<open>Counters advance\<close>

text \<open>At most \<open>n\<close> increments, in 64 bits.\<close>

definition advanced :: "nat \<Rightarrow> u64 \<Rightarrow> u64 \<Rightarrow> bool" where
  "advanced n v v' \<longleftrightarrow> (\<exists>k \<le> n. v' = v + of_nat k)"

lemma advanced_refl [simp]: "advanced n v v"
  by (auto simp: advanced_def intro: exI [of _ 0])

lemma advanced_one [simp]: "0 < n \<Longrightarrow> advanced n v (v + 1)"
  by (auto simp: advanced_def intro!: exI [of _ 1])

lemma advanced_trans: "advanced n u v \<Longrightarrow> advanced m v w \<Longrightarrow> advanced (n + m) u w"
  unfolding advanced_def
proof (elim exE conjE)
  fix k k' assume "k \<le> n" "k' \<le> m" "v = u + of_nat k" "w = v + of_nat k'"
  then show "\<exists>k \<le> n + m. w = u + of_nat k" by (intro exI [of _ "k + k'"]) (simp add: add.assoc)
qed

definition counters_advanced :: "nat \<Rightarrow> nat \<Rightarrow> sys \<Rightarrow> sys \<Rightarrow> bool" where
  "counters_advanced ncpu n s s' \<longleftrightarrow>
     (\<forall>k. advanced n (map_val (ioctlTotal (s_collector s)) k) (map_val (ioctlTotal (s_collector s')) k)) \<and>
     (\<forall>r. advanced n (map_val (eventsDroppedTotal (s_collector s)) r)
            (map_val (eventsDroppedTotal (s_collector s')) r)) \<and>
     advanced n (total_dropped ncpu (s_bpf s)) (total_dropped ncpu (s_bpf s')) \<and>
     advanced n (cgroupIndexRebuilds (s_podmap s)) (cgroupIndexRebuilds (s_podmap s')) \<and>
     dom (ioctlTotal (s_collector s)) \<subseteq> dom (ioctlTotal (s_collector s'))"

lemma ContainerInfo_rebuilds:
  assumes "podmap_ok p"
  shows "advanced 1 (cgroupIndexRebuilds p) (cgroupIndexRebuilds (snd (ContainerInfo env cg p)))"
proof -
  have r: "advanced 1 (cgroupIndexRebuilds p) (cgroupIndexRebuilds (refreshed env cg p))"
    by (simp add: refreshed_def)
  from assms show ?thesis
  proof (cases rule: ContainerInfo_state [of p env cg])
    case (looked_up ids)
    then show ?thesis using r by (simp add: finish_info_def split: sum.split)
  qed (use r in simp_all)
qed

lemma collector_advanced:
  assumes "c' = c \<or> (\<exists>r \<in> R. c' = IncEventsDropped r c) \<or> (\<exists>k. c' = inc_key k c)"
  shows "advanced 1 (map_val (ioctlTotal c) k) (map_val (ioctlTotal c') k)"
    and "advanced 1 (map_val (eventsDroppedTotal c) r) (map_val (eventsDroppedTotal c') r)"
    and "dom (ioctlTotal c) \<subseteq> dom (ioctlTotal c')"
  using assms by (elim disjE bexE exE; simp add: inc_key_eq IncEventsDropped_def map_val_inc subset_insertI)+

text \<open>Only the worker moves the pod map's counter and only the hook the kernel's.\<close>

lemma step_rebuilds:
  assumes "agent_step P l s = Some s'" "podmap_ok (s_podmap s)"
  shows "advanced 1 (cgroupIndexRebuilds (s_podmap s)) (cgroupIndexRebuilds (s_podmap s'))"
proof (cases l)
  case (Work env)
  with assms(1) obtain e p c lg where
    w: "worker_event env (s_deviceMap s) e (s_podmap s) (s_collector s) (s_worker_log s) = (p, c, lg)" "s_podmap s' = p"
    by (auto simp: Let_def split: option.splits prod.splits)
  then have "p = s_podmap s \<or> p = snd (ContainerInfo env (CgroupID e) (s_podmap s))"
    by (auto simp: worker_event_cases split: option.splits prod.splits sum.splits)
  with w(2) ContainerInfo_rebuilds [OF assms(2)] show ?thesis by auto
next
  case (Exit cenv env)
  from assms(1) [unfolded Exit] show ?thesis by (elim Exit_step) simp
qed (use assms in \<open>auto simp: reader_result_def reader_send_def set_bpf_def Let_def log_error_def
      split: if_splits list.splits option.splits sum.splits prod.splits\<close>)

lemma step_lost:
  assumes "agent_step P l s = Some s'" "bpf_wf (s_bpf s)" "label_ok ncpu l"
  shows "advanced 1 (total_dropped ncpu (s_bpf s)) (total_dropped ncpu (s_bpf s'))"
proof (cases l)
  case (Hook call)
  obtain env filp cmd arg where call: "call = (env, filp, cmd, arg)" by (cases call)
  with Hook assms(1) have s': "s_bpf s' = snd (kubenpu_ioctl (ap_relo P) env filp cmd arg (s_bpf s))"
    by (auto simp: set_bpf_def split: if_splits)
  have "smp_processor_id env < ncpu" using assms(3) by (simp add: Hook call label_ok_def call_ok_def)
  from count_dropped_total [OF assms(2) this] show ?thesis
    unfolding s' kubenpu_ioctl_cases by (auto simp: total_dropped_def split: option.split)
next
  case Read
  with assms(1) show ?thesis
    by (auto simp: reader_result_def set_bpf_def total_dropped_def split: if_splits list.splits sum.splits)
next
  case (CloseRing env)
  obtain err ld where c: "CloseReader env (s_loader s) = (err, ld)" by fastforce
  with bpfObjects_CloseReader [of env "s_loader s"] have "bpfObjects ld = s_bpf s" by simp
  with c CloseRing assms(1) show ?thesis by (auto simp: Let_def split: if_splits option.splits)
next
  case (ServerDown down)
  from assms(1) [unfolded ServerDown] show ?thesis by (elim ServerDown_step) simp
next
  case (Exit cenv env)
  from assms(1) [unfolded Exit] show ?thesis by (elim Exit_step) simp
qed (use assms(1) in \<open>auto simp: reader_result_def reader_send_def ReadEvent_def Let_def
      split: if_splits list.splits option.splits prod.splits\<close>)

lemma counters_step:
  assumes "agent_step P l s = Some s'" "data_inv P s" "label_ok ncpu l"
  shows "counters_advanced ncpu 1 s s'"
  unfolding counters_advanced_def
  using collector_advanced [OF collector_step [OF assms(1)]] step_lost [OF assms(1) _ assms(3)]
    step_rebuilds [OF assms(1)] assms(2)
  by (simp add: data_inv_def)

lemma counters_advanced_trans:
  assumes "counters_advanced ncpu n s1 s2" "counters_advanced ncpu m s2 s3"
  shows "counters_advanced ncpu (n + m) s1 s3"
  using assms unfolding counters_advanced_def by (blast intro: advanced_trans)

lemma counters_run:
  assumes "arun P s ls s'" "data_inv P s" "\<forall>l \<in> set ls. label_ok ncpu l"
  shows "counters_advanced ncpu (length ls) s s'"
  using assms
proof (induction rule: arun.induct)
  case (arun_nil s)
  then show ?case by (simp add: counters_advanced_def)
next
  case (arun_step s ls s' l s'')
  have "data_inv P s'" using run_data [OF arun_step.hyps(1) arun_step.prems(1), of ncpu] arun_step.prems(2) by simp
  from counters_step [OF arun_step.hyps(2) this, of ncpu] arun_step.prems
  have "counters_advanced ncpu 1 s' s''" by simp
  with arun_step.IH arun_step.prems have "counters_advanced ncpu (length ls + 1) s s''"
    by (intro counters_advanced_trans) simp_all
  then show ?case by simp
qed

text \<open>The counter series a scrape exports, with their values.\<close>

inductive_set counter_series :: "nat \<Rightarrow> sys \<Rightarrow> (Desc \<times> string list \<times> u64) set" for ncpu s where
  ioctl: "k \<in> dom (ioctlTotal (s_collector s)) \<Longrightarrow>
    (ioctlDesc, [key_namespace k, key_pod k, key_container k, key_device k, key_vendor k, key_kind k],
     map_val (ioctlTotal (s_collector s)) k) \<in> counter_series ncpu s"
| drop: "r \<in> dom (eventsDroppedTotal (s_collector s)) \<Longrightarrow>
    (eventsDroppedDesc, [r], map_val (eventsDroppedTotal (s_collector s)) r) \<in> counter_series ncpu s"
| lost: "(eventsDroppedDesc, [ReasonRingbufFull], total_dropped ncpu (s_bpf s)) \<in> counter_series ncpu s"
| rebuilds: "(cgroupRebuildsDesc, [], cgroupIndexRebuilds (s_podmap s)) \<in> counter_series ncpu s"

lemma scrape_counters:
  assumes "sources_ok s" "orders_ok ord (s_collector s)" "DroppedEvents env (s_loader s) = Inr (total_dropped ncpu (s_bpf s))"
  shows "m \<in> set (scrape fl ord env s) \<and> m_type m = CounterValue \<longleftrightarrow>
    (\<exists>(d, lb, v) \<in> counter_series ncpu s. m = \<lparr>m_desc = d, m_type = CounterValue, m_value = fl v, m_labels = lb\<rparr>)"
proof -
  have o: "set (order_ioctl ord) = dom (ioctlTotal (s_collector s))"
    "set (order_dropped ord) = dom (eventsDroppedTotal (s_collector s))"
    using assms(2) by (simp_all add: orders_ok_def)
  have val: "the (f k) = map_val f k" if "k \<in> dom f" for f :: "'k \<rightharpoonup> u64" and k
    using that by (auto simp: map_val_def)
  show ?thesis
  proof
    assume "m \<in> set (scrape fl ord env s) \<and> m_type m = CounterValue"
    then consider (ioctl) k where "k \<in> dom (ioctlTotal (s_collector s))" "m = \<lparr>m_desc = ioctlDesc,
        m_type = CounterValue, m_value = fl (the (ioctlTotal (s_collector s) k)),
        m_labels = [key_namespace k, key_pod k, key_container k, key_device k, key_vendor k, key_kind k]\<rparr>"
      | (drop) r where "r \<in> dom (eventsDroppedTotal (s_collector s))" "m = \<lparr>m_desc = eventsDroppedDesc,
        m_type = CounterValue, m_value = fl (the (eventsDroppedTotal (s_collector s) r)), m_labels = [r]\<rparr>"
      | (lost) "m = \<lparr>m_desc = eventsDroppedDesc, m_type = CounterValue,
        m_value = fl (total_dropped ncpu (s_bpf s)), m_labels = [ReasonRingbufFull]\<rparr>"
      | (rebuilds) "m = \<lparr>m_desc = cgroupRebuildsDesc, m_type = CounterValue,
        m_value = fl (cgroupIndexRebuilds (s_podmap s)), m_labels = []\<rparr>"
      unfolding scrape_eq [OF assms(1,3)] set_append Un_iff set_map o by (elim conjE disjE imageE) auto
    then have "\<exists>d lb v. (d, lb, v) \<in> counter_series ncpu s \<and>
        m = \<lparr>m_desc = d, m_type = CounterValue, m_value = fl v, m_labels = lb\<rparr>"
    proof cases
      case (ioctl k)
      from counter_series.ioctl [OF ioctl(1)] ioctl show ?thesis unfolding val [OF ioctl(1)] by blast
    next
      case (drop r)
      from counter_series.drop [OF drop(1)] drop show ?thesis unfolding val [OF drop(1)] by blast
    next
      case lost
      with counter_series.lost show ?thesis by blast
    next
      case rebuilds
      with counter_series.rebuilds show ?thesis by blast
    qed
    then show "\<exists>(d, lb, v) \<in> counter_series ncpu s.
        m = \<lparr>m_desc = d, m_type = CounterValue, m_value = fl v, m_labels = lb\<rparr>" by blast
  next
    assume "\<exists>(d, lb, v) \<in> counter_series ncpu s.
      m = \<lparr>m_desc = d, m_type = CounterValue, m_value = fl v, m_labels = lb\<rparr>"
    then show "m \<in> set (scrape fl ord env s) \<and> m_type m = CounterValue"
      unfolding scrape_eq [OF assms(1,3)] set_append Un_iff set_map o
      by (auto simp: val elim!: counter_series.cases)
  qed
qed

lemma counter_series_advanced:
  assumes "counters_advanced ncpu n s s'" "dom (eventsDroppedTotal (s_collector s)) = dom (eventsDroppedTotal (s_collector s'))"
    and "(d, lb, v) \<in> counter_series ncpu s"
  shows "\<exists>v'. (d, lb, v') \<in> counter_series ncpu s' \<and> advanced n v v'"
  using assms(3)
proof cases
  case (ioctl k)
  then have "k \<in> dom (ioctlTotal (s_collector s'))" using assms(1) by (auto simp: counters_advanced_def)
  from counter_series.ioctl [OF this] ioctl show ?thesis using assms(1) by (auto simp: counters_advanced_def)
next
  case (drop r)
  then have "r \<in> dom (eventsDroppedTotal (s_collector s'))" using assms(2) by simp
  from counter_series.drop [OF this] drop show ?thesis using assms(1) by (auto simp: counters_advanced_def)
next
  case lost
  with counter_series.lost show ?thesis using assms(1) by (auto simp: counters_advanced_def)
next
  case rebuilds
  with counter_series.rebuilds show ?thesis using assms(1) by (auto simp: counters_advanced_def)
qed

text \<open>The sum of the exported series is the sum of the counters.\<close>

definition is_counted :: "'f Metric \<Rightarrow> bool" where
  "is_counted m \<longleftrightarrow> m_desc m = ioctlDesc \<or> m_desc m = eventsDroppedDesc"

lemma exported_sum:
  assumes "sources_ok s" "orders_ok ord (s_collector s)" "DroppedEvents env (s_loader s) = Inr lost"
  shows "sum_list (map m_value (filter is_counted (scrape (\<lambda>v. v) ord env s))) =
    ioctls_counted (s_collector s) + drops_counted (s_collector s) + lost"
proof -
  have val: "the (m k) = map_val m k" if "k \<in> dom m" for m :: "'k \<rightharpoonup> u64" and k
    using that by (auto simp: map_val_def)
  have o: "distinct (order_ioctl ord)" "set (order_ioctl ord) = dom (ioctlTotal (s_collector s))"
    "distinct (order_dropped ord)" "set (order_dropped ord) = dom (eventsDroppedTotal (s_collector s))"
    using assms(2) by (simp_all add: orders_ok_def)
  have "sum_list (map (\<lambda>k. the (ioctlTotal (s_collector s) k)) (order_ioctl ord)) = ioctls_counted (s_collector s)"
    using o(1,2) by (simp add: ioctls_counted_def sum_list_distinct_conv_sum_set val)
  moreover have "sum_list (map (\<lambda>r. the (eventsDroppedTotal (s_collector s) r)) (order_dropped ord)) =
      drops_counted (s_collector s)"
    using o(3,4) by (simp add: drops_counted_def sum_list_distinct_conv_sum_set val)
  ultimately show ?thesis
    by (simp add: scrape_eq [OF assms(1,3)] is_counted_def comp_def filter_map)
qed

section \<open>The first step that fails\<close>

datatype start_step = Loading | Discovering | Filling | Attaching | Mapping | Reading

abbreviation setup_all :: "start_env \<Rightarrow> Loader \<Rightarrow> Device list \<Rightarrow> goerr + Setup" where
  "setup_all se l devs \<equiv> foldE (setup_device (se_ebpf se) (se_ioctl_order se) registeredVendors) devs
     \<lparr>su_loader = l, su_collector = NewCollector, su_deviceMap = Map.empty\<rparr>"

abbreviation start_podmap :: "start_env \<Rightarrow> Config \<Rightarrow> goerr + PodMap" where
  "start_podmap se cfg \<equiv> NewPodMap (se_pod se) (CgroupRootPath cfg) (CriSocketPath cfg) (Interval cfg)
     (CriTimeout cfg) (CacheTTL cfg)"

text \<open>All steps before the failing one have succeeded, and among the devices it is the first that cannot be entered
  into the tables.\<close>

inductive start_fails :: "start_env \<Rightarrow> Config \<Rightarrow> bool \<Rightarrow> start_step \<Rightarrow> goerr \<Rightarrow> bool" for se cfg dbg where
  load_fails: "NewLoader (se_ebpf se) dbg = Inl err \<Longrightarrow> start_fails se cfg dbg Loading err"
| discovery_fails: "NewLoader (se_ebpf se) dbg = Inr l \<Longrightarrow> Discover (se_os se) (se_order se) (agent_paths cfg) = Inl err \<Longrightarrow>
     start_fails se cfg dbg Discovering err"
| tables_fail: "NewLoader (se_ebpf se) dbg = Inr l \<Longrightarrow>
     Discover (se_os se) (se_order se) (agent_paths cfg) = Inr (pre @ d # post) \<Longrightarrow> setup_all se l pre = Inr st \<Longrightarrow>
     setup_device (se_ebpf se) (se_ioctl_order se) registeredVendors d st = Inl err \<Longrightarrow>
     start_fails se cfg dbg Filling err"
| attach_fails: "NewLoader (se_ebpf se) dbg = Inr l \<Longrightarrow> Discover (se_os se) (se_order se) (agent_paths cfg) = Inr devs \<Longrightarrow>
     setup_all se l devs = Inr st \<Longrightarrow> Attach (se_ebpf se) (su_loader st) = (Some err, l') \<Longrightarrow>
     start_fails se cfg dbg Attaching err"
| podmap_fails: "NewLoader (se_ebpf se) dbg = Inr l \<Longrightarrow> Discover (se_os se) (se_order se) (agent_paths cfg) = Inr devs \<Longrightarrow>
     setup_all se l devs = Inr st \<Longrightarrow> Attach (se_ebpf se) (su_loader st) = (None, l') \<Longrightarrow>
     start_podmap se cfg = Inl err \<Longrightarrow> start_fails se cfg dbg Mapping err"
| reader_fails: "NewLoader (se_ebpf se) dbg = Inr l \<Longrightarrow> Discover (se_os se) (se_order se) (agent_paths cfg) = Inr devs \<Longrightarrow>
     setup_all se l devs = Inr st \<Longrightarrow> Attach (se_ebpf se) (su_loader st) = (None, l') \<Longrightarrow>
     start_podmap se cfg = Inr p \<Longrightarrow> CreateReader (se_ebpf se) l' = (Some err, l'') \<Longrightarrow>
     start_fails se cfg dbg Reading err"

lemma foldE_append:
  "foldE f (xs @ ys) st = (case foldE f xs st of Inl err \<Rightarrow> Inl err | Inr st' \<Rightarrow> foldE f ys st')"
  by (induction xs arbitrary: st) (auto split: sum.split)

lemma foldE_Inl:
  assumes "foldE f xs st = Inl err"
  obtains pre x post st' where "xs = pre @ x # post" "foldE f pre st = Inr st'" "f x st' = Inl err"
  using assms
proof (induction xs arbitrary: st thesis)
  case (Cons x xs)
  show ?case
  proof (cases "f x st")
    case (Inl e)
    with Cons.prems show ?thesis by (intro Cons.prems(1) [of "[]" x xs st]) simp_all
  next
    case (Inr st1)
    with Cons.prems(2) have "foldE f xs st1 = Inl err" by simp
    then obtain pre y post st' where "xs = pre @ y # post" "foldE f pre st1 = Inr st'" "f y st' = Inl err"
      using Cons.IH by blast
    with Inr show ?thesis by (intro Cons.prems(1) [of "x # pre" y post st']) simp_all
  qed
qed simp

lemma agent_start_fails:
  "agent_start se cfg dbg = Inl err \<longleftrightarrow> (\<exists>step. start_fails se cfg dbg step err)"
proof
  assume fail: "agent_start se cfg dbg = Inl err"
  note start = fail [unfolded agent_start_def agent_prepare_def]
  show "\<exists>step. start_fails se cfg dbg step err"
  proof (cases "NewLoader (se_ebpf se) dbg")
    case (Inl e)
    with start have "e = err" by simp
    with Inl show ?thesis by (blast intro: start_fails.load_fails)
  next
    case l: (Inr l)
    show ?thesis
    proof (cases "Discover (se_os se) (se_order se) (agent_paths cfg)")
      case (Inl e)
      with start l have "e = err" by simp
      with Inl l show ?thesis by (blast intro: start_fails.discovery_fails)
    next
      case devs: (Inr devs)
      show ?thesis
      proof (cases "setup_all se l devs")
        case (Inl e)
        with start l devs have "setup_all se l devs = Inl err" by simp
        then obtain pre d post st where "devs = pre @ d # post" "setup_all se l pre = Inr st"
          "setup_device (se_ebpf se) (se_ioctl_order se) registeredVendors d st = Inl err" by (rule foldE_Inl)
        with l devs show ?thesis by (blast intro: start_fails.tables_fail)
      next
        case st: (Inr st)
        obtain ae l' where at: "Attach (se_ebpf se) (su_loader st) = (ae, l')" by fastforce
        show ?thesis
        proof (cases ae)
          case (Some e)
          with start l devs st at have "e = err" by simp
          with l devs st at Some show ?thesis by (blast intro: start_fails.attach_fails)
        next
          case None
          note at = at [unfolded None]
          show ?thesis
          proof (cases "start_podmap se cfg")
            case (Inl e)
            with start l devs st at have "e = err" by simp
            with l devs st at Inl show ?thesis by (blast intro: start_fails.podmap_fails)
          next
            case p: (Inr p)
            obtain re l'' where r: "CreateReader (se_ebpf se) l' = (re, l'')" by fastforce
            with start l devs st at p have "re = Some err" by (simp add: Let_def split: option.splits)
            with l devs st at p r show ?thesis by (blast intro: start_fails.reader_fails)
          qed
        qed
      qed
    qed
  qed
next
  assume "\<exists>step. start_fails se cfg dbg step err"
  then obtain step where "start_fails se cfg dbg step err" ..
  then show "agent_start se cfg dbg = Inl err"
    by cases (auto simp: agent_start_def agent_prepare_def foldE_append Let_def)
qed

lemma sizeof_queue_elem: "sizeof queue_elem = 32"
  by (simp add: queue_elem_def layout_eval layout_simps del: One_nat_def)

section \<open>Start-up and the configured durations\<close>

lemma agent_start_durations:
  assumes "agent_start se cfg dbg = Inr s" "deadline_ok (cri_of (se_pod se))"
  shows "0 < Interval cfg \<and> 0 < CacheTTL cfg \<and> 0 < CriTimeout cfg"
proof -
  obtain p where "NewPodMap (se_pod se) (CgroupRootPath cfg) (CriSocketPath cfg) (Interval cfg) (CriTimeout cfg)
      (CacheTTL cfg) = Inr p"
    using assms(1) by (auto simp: agent_start_def agent_prepare_def split: sum.splits option.splits prod.splits)
  then obtain c where "0 < Interval cfg" "0 < CacheTTL cfg"
    "NewCRIClient (cri_of (se_pod se)) (CriSocketPath cfg) (CriTimeout cfg) = Inr c"
    by (auto simp: NewPodMap_def split: if_splits sum.splits)
  with NewCRIClient_timeout [OF assms(2)] show ?thesis by blast
qed

lemma QueueSize_positive: "0 < QueueSize (Load osenv)"
  using getEnvInt_range [of 4096 osenv "''KUBENPU_QUEUE_SIZE''"] by (auto simp: Load_def)

lemma start_durations_positive:
  assumes "agent_start se (Load osenv) dbg = Inr s" "deadline_ok (cri_of (se_pod se))"
  shows "0 < Interval (Load osenv) \<and> 0 < CacheTTL (Load osenv) \<and> 0 < CriTimeout (Load osenv) \<and>
    (\<forall>k \<in> {''KUBENPU_INTERVAL'', ''KUBENPU_CACHE_TTL'', ''KUBENPU_CRI_TIMEOUT''}. \<forall>n < 2 ^ 63.
       osenv k = Some (digits_of n) \<longrightarrow> 0 < wrap64 (int n * Second))"
proof -
  have positive: "0 < Interval (Load osenv)" "0 < CacheTTL (Load osenv)" "0 < CriTimeout (Load osenv)"
    using agent_start_durations [OF assms] by simp_all
  moreover have "0 < wrap64 (int n * Second)"
    if "k \<in> {''KUBENPU_INTERVAL'', ''KUBENPU_CACHE_TTL'', ''KUBENPU_CRI_TIMEOUT''}" "osenv k = Some (digits_of n)"
      "n < 2 ^ 63" for k n
    using that(1) getEnvTimeDuration_digits [where env = osenv and k = k, OF that(2,3)] positive by (auto simp: Load_def)
  ultimately show ?thesis by blast
qed

section \<open>Properties\<close>


lemma sample_start_deadline: "deadline_ok (cri_of (se_pod sample_start))"
  using sample_deadline by (simp add: sample_start_def sample_pod_env_def)


text \<open>C9: What the endpoints answer at every moment of the agent's life. Requests are answered exactly while
  the server listens and is not shut down: \<^verbatim>\<open>/healthz\<close> is 200 throughout, \<^verbatim>\<open>/readyz\<close> is 503 between the
  start of the server and the end of the start-up, 200 until the signal and 503 again after it, and \<^verbatim>\<open>/metrics\<close>
  is a scrape of the state of that moment. The orderly end of the server leaves no error in the log.\<close>

theorem agent_http:
  assumes "agent_start se cfg dbg = Inr s" and "se_ok se" and "arun P s ls s'"
  shows "(\<forall>path. serve H cfg ord env s' path \<noteq> None \<longleftrightarrow> listening H \<and> s_phase s' < ServerStopped) \<and>
    (listening H \<and> s_phase s' < ServerStopped \<longrightarrow>
       map_option status (serve H cfg ord env s' ''/healthz'') = Some 200 \<and>
       map_option status (serve H cfg ord env s' ''/readyz'') = Some (if s_phase s' = Serving then 200 else 503) \<and>
       serve H cfg ord env s' ''/metrics'' = Some (promhttp H (scrape (float64 H) ord env s'))) \<and>
    (\<exists>s0. agent_prepare se cfg dbg = Inr s0 \<and>
       status (handler (agent_server H cfg ord env s0) ''/healthz'') = 200 \<and>
       status (handler (agent_server H cfg ord env s0) ''/readyz'') = 503) \<and>
    server_returns http_ErrServerClosed s' = s'"
proof -
  have i: "sys_init s" using agent_start_Inr [OF assms(1,2)] by blast
  have c: "control_inv s'" by (rule run_control [OF assms(3) control_inv_init [OF i]])
  have ready: "s_ready s' \<longleftrightarrow> s_phase s' = Serving" using c by (simp add: control_inv_def)
  have up: "\<not> (ServerStopped \<le> s_phase s' \<or> s_exited s') \<longleftrightarrow> s_phase s' < ServerStopped"
    using c by (cases "s_phase s'") (auto simp: control_inv_def less_eq_phase_def less_phase_def)
  obtain s0 where s0: "agent_prepare se cfg dbg = Inr s0" "\<not> s_ready s0"
    using assms(1) by (auto simp: agent_start_def agent_prepare_def Let_def split: sum.splits option.splits prod.splits)
  note server_defs = agent_server_def NewServer_def healthz_def readyz_def http_Error_def StatusOK_def
    StatusServiceUnavailable_def
  have served: "serve H cfg ord env s' path =
      (if listening H \<and> s_phase s' < ServerStopped then Some (handler (agent_server H cfg ord env s') path) else None)"
    for path
    using up by (auto simp: serve_def)
  have "server_returns http_ErrServerClosed s' = s'"
    by (simp add: server_returns_def Run_def log_error_def http_ErrServerClosed_def)
  with s0 ready show ?thesis by (simp add: served server_defs)
qed

text \<open>The sample server: it listens, and its rendering is the number of metrics.\<close>

definition sample_http :: "u64 http_env" where
  "sample_http = \<lparr>listening = True, float64 = (\<lambda>v. v), promhttp = (\<lambda>ms. \<lparr>status = 200, body = digits_of (length ms)\<rparr>)\<rparr>"

definition empty_orders :: orders where
  "empty_orders = \<lparr>order_ioctl = [], order_dropped = dropReasons, order_device = []\<rparr>"

theorem agent_http_witness:
  "\<exists>s s'. agent_start sample_start (Load (\<lambda>_. None)) False = Inr s \<and>
     arun sample_params s [Signal, ServerDown None, CloseRing sample_ebpf] s' \<and>
     map_option status (serve sample_http (Load (\<lambda>_. None)) empty_orders sample_ebpf s ''/readyz'') = Some 200 \<and>
     serve sample_http (Load (\<lambda>_. None)) empty_orders sample_ebpf s' ''/readyz'' = None"
proof -
  obtain s where s: "agent_start sample_start (Load (\<lambda>_. None)) False = Inr s" "sys_init s" by (rule sample_system)
  obtain s' where r: "arun sample_params s [Signal, ServerDown None, CloseRing sample_ebpf] s'" "s_reader_closed s'"
    using sample_shutdown_run [OF s(2)] by blast
  have "s_phase s' = Stopped" using run_control [OF r(1) control_inv_init [OF s(2)]] r(2) by (simp add: control_inv_def)
  moreover have "s_phase s = Serving" using s(2) by (simp add: sys_init_def)
  moreover have "listening sample_http" by (simp add: sample_http_def)
  ultimately show ?thesis
    using agent_http [OF s(1) sample_start_ok r(1), of sample_http empty_orders sample_ebpf]
      agent_http [OF s(1) sample_start_ok arun_nil, of sample_http empty_orders sample_ebpf] s r
    by (intro exI [of _ s] exI [of _ s']) (auto simp: less_phase_def)
qed

text \<open>C7: A scrape of the running agent is what Prometheus expects and adds up. At every reachable state no two
  metrics have the same name and labels, each carries one value per label and only described metrics
  appear; all five drop reasons and \<^verbatim>\<open>ringbuf_full\<close> are exported from the start; every series of
  \<^verbatim>\<open>kubenpu_ioctl_total\<close> has a series of \<^verbatim>\<open>kubenpu_device_info\<close> with its device and vendor; and the
  exported counters plus what waits in the ring buffer or the pipeline plus what was only logged is the number
  of calls the probe has reported.\<close>

theorem agent_scrapes:
  assumes "agent_start se cfg dbg = Inr s" and "se_ok se" and "arun P s ls s'"
    and "\<forall>l \<in> set ls. label_ok ncpu l"
    and "orders_ok ord (s_collector s')" and "percpu_lookup_ok ncpu (Dropped_Lookup env)"
  shows "distinct (map (\<lambda>m. (m_desc m, m_labels m)) (scrape fl ord env s')) \<and>
    (\<forall>m \<in> set (scrape fl ord env s'). m_desc m \<in> set (Describe (s_collector s')) \<and>
       length (m_labels m) = length (variableLabels (m_desc m))) \<and>
    (\<forall>r \<in> set (ReasonRingbufFull # dropReasons).
       \<exists>m \<in> set (scrape fl ord env s'). m_desc m = eventsDroppedDesc \<and> m_labels m = [r]) \<and>
    (\<forall>m \<in> set (scrape fl ord env s'). m_desc m = ioctlDesc \<longrightarrow>
       (\<exists>d \<in> set (scrape fl ord env s'). m_desc d = deviceInfoDesc \<and>
          take 2 (m_labels d) = take 2 (drop 3 (m_labels m)))) \<and>
    sum_list (map m_value (filter is_counted (scrape (\<lambda>v. v) ord env s'))) +
      of_nat (length (events (s_bpf s'))) + of_nat (length (in_flight s')) + of_nat (length (s_worker_log s')) =
      (of_nat (length (filter (reported (ap_relo P) (s_bpf s)) (hook_labels ls))) :: u64)"
proof -
  have i: "sys_init s" using agent_start_Inr [OF assms(1,2)] by blast
  have so: "sources_ok s'" by (rule run_sources [OF assms(3) sources_init [OF i]])
  have d: "data_inv P s'" and acc: "accounted ncpu s' = sum_list (map (gain P (s_bpf s)) ls)"
    using run_data [OF assms(3) data_inv_init [OF i] assms(4)] accounted_init [OF i, of ncpu] by simp_all
  have lost: "DroppedEvents env (s_loader s') = Inr (total_dropped ncpu (s_bpf s'))"
    using DroppedEvents_total [OF assms(6)] d by (simp add: data_inv_def)
  note sc = scrape_eq [OF so lost]
  have ring: "ReasonRingbufFull \<notin> dom (eventsDroppedTotal (s_collector s'))"
    using so by (auto simp: sources_ok_def dropReasons_def reason_defs)
  have wf: "distinct (map (\<lambda>m. (m_desc m, m_labels m)) (scrape fl ord env s'))"
    "\<forall>m \<in> set (scrape fl ord env s'). m_desc m \<in> set (Describe (s_collector s')) \<and>
       length (m_labels m) = length (variableLabels (m_desc m))"
    unfolding scrape_def by (rule Collect_wf [OF assms(5) ring])+
  have o: "set (order_ioctl ord) = dom (ioctlTotal (s_collector s'))" "set (order_dropped ord) = set dropReasons"
    "set (order_device ord) = deviceInfo (s_collector s')"
    using assms(5) so by (simp_all add: orders_ok_def sources_ok_def)
  have reasons: "\<forall>r \<in> set (ReasonRingbufFull # dropReasons).
      \<exists>m \<in> set (scrape fl ord env s'). m_desc m = eventsDroppedDesc \<and> m_labels m = [r]"
    by (simp add: sc o(2) ball_Un image_Un bex_Un)
  have join: "\<exists>d \<in> set (scrape fl ord env s'). m_desc d = deviceInfoDesc \<and>
      take 2 (m_labels d) = take 2 (drop 3 (m_labels m))"
    if m: "m \<in> set (scrape fl ord env s')" "m_desc m = ioctlDesc" for m
  proof -
    from m obtain k where "k \<in> set (order_ioctl ord)" and k: "m_labels m = [key_namespace k, key_pod k, key_container k, key_device k, key_vendor k, key_kind k]"
      by (auto simp: sc)
    then have "series_key_ok (deviceInfo (s_collector s')) k" using d o(1) by (simp add: data_inv_def series_ok_def)
    then obtain dk where "dk \<in> set (order_device ord)" "dev_device dk = key_device k" "dev_vendor dk = key_vendor k"
      by (auto simp: series_key_ok_def o(3))
    with k show ?thesis by (auto simp: sc bex_Un)
  qed
  have "sum_list (map m_value (filter is_counted (scrape (\<lambda>v. v) ord env s'))) +
      of_nat (length (events (s_bpf s'))) + of_nat (length (in_flight s')) + of_nat (length (s_worker_log s')) =
      accounted ncpu s'"
    by (simp add: exported_sum [OF so assms(5) lost] accounted_def ac_simps)
  with wf reasons join show ?thesis by (simp add: acc sum_gain)
qed

lemma empty_orders_ok: "sys_init s \<Longrightarrow> deviceInfo (s_collector s) = set ds \<Longrightarrow> distinct ds \<Longrightarrow>
    orders_ok (empty_orders\<lparr>order_device := ds\<rparr>) (s_collector s)"
  by (simp add: sys_init_def orders_ok_def empty_orders_def NewCollector_counts) (simp add: dropReasons_def reason_defs)

theorem agent_scrapes_witness:
  "\<exists>s s' ord. agent_start sample_start (Load (\<lambda>_. None)) False = Inr s \<and>
     arun sample_params s [Hook sample_call] s' \<and>
     sum_list (map m_value (filter is_counted (scrape (\<lambda>v. v) ord sample_ebpf s'))) +
       of_nat (length (events (s_bpf s'))) + of_nat (length (in_flight s')) + of_nat (length (s_worker_log s')) = 1"
proof -
  obtain s where s: "agent_start sample_start (Load (\<lambda>_. None)) False = Inr s" "sys_init s"
    "reported (ap_relo sample_params) (s_bpf s) sample_call" by (rule sample_system)
  obtain s' where r: "arun sample_params s [Hook sample_call] s'" using sample_hook_run [OF s(2)] by blast
  have l: "\<forall>l \<in> set [Hook sample_call]. label_ok 4 l"
    by (simp add: label_ok_def sample_call_def call_ok_def sample_env_def reserve_sized_def)
  have "s_collector s' = s_collector s"
    using r by (auto simp: set_bpf_def elim!: arun_snocE [of _ _ "[]", simplified] split: if_splits)
  moreover obtain ds where "deviceInfo (s_collector s) = set ds" "distinct ds"
    using s(2) finite_distinct_list [of "deviceInfo (s_collector s)"] unfolding sys_init_def by metis
  ultimately have o: "orders_ok (empty_orders\<lparr>order_device := ds\<rparr>) (s_collector s')"
    using empty_orders_ok [OF s(2)] by simp
  have p: "percpu_lookup_ok 4 (Dropped_Lookup sample_ebpf)" by (simp add: percpu_lookup_ok_def sample_ebpf_def)
  have "sum_list (map m_value (filter is_counted (scrape (\<lambda>v. v) (empty_orders\<lparr>order_device := ds\<rparr>) sample_ebpf s'))) +
      of_nat (length (events (s_bpf s'))) + of_nat (length (in_flight s')) + of_nat (length (s_worker_log s')) = 1"
    using agent_scrapes [OF s(1) sample_start_ok r l o p, where fl = "\<lambda>v. v"] s(3) by (simp add: hook_labels_def List.map_filter_simps)
  with s(1) r show ?thesis by blast
qed

text \<open>C8: Prometheus may treat the exported counters as counters. Between two scrapes of one process every
  counter series of the first is still exported with the same labels, and its value has grown by at most one
  for each step the agent made in between (in 64 bits): no step resets, renames or decreases a counter, not
  the rebuild of the cgroup index either.\<close>

theorem agent_monotone:
  assumes "agent_start se cfg dbg = Inr s" and "se_ok se" and "arun P s ls s'" and "arun P s' ls' s''"
    and "\<forall>l \<in> set (ls @ ls'). label_ok ncpu l"
    and "orders_ok ord (s_collector s')" and "percpu_lookup_ok ncpu (Dropped_Lookup env)"
    and "orders_ok ord' (s_collector s'')" and "percpu_lookup_ok ncpu (Dropped_Lookup env')"
    and "m \<in> set (scrape fl ord env s')" and "m_type m = CounterValue"
  shows "\<exists>m' \<in> set (scrape fl ord' env' s''). m_desc m' = m_desc m \<and> m_labels m' = m_labels m \<and>
    m_type m' = CounterValue \<and>
    (\<exists>v n. m_value m = fl v \<and> m_value m' = fl (v + of_nat n) \<and> n \<le> length ls')"
proof -
  have i: "sys_init s" using agent_start_Inr [OF assms(1,2)] by blast
  have so: "sources_ok s'" by (rule run_sources [OF assms(3) sources_init [OF i]])
  have so': "sources_ok s''" by (rule run_sources [OF assms(4) so])
  have d: "data_inv P s'" using run_data [OF assms(3) data_inv_init [OF i], of ncpu] assms(5) by simp
  have d': "data_inv P s''" using run_data [OF assms(4) d, of ncpu] assms(5) by simp
  have lost: "DroppedEvents env (s_loader s') = Inr (total_dropped ncpu (s_bpf s'))"
    using DroppedEvents_total [OF assms(7)] d by (simp add: data_inv_def)
  have lost': "DroppedEvents env' (s_loader s'') = Inr (total_dropped ncpu (s_bpf s''))"
    using DroppedEvents_total [OF assms(9)] d' by (simp add: data_inv_def)
  have adv: "counters_advanced ncpu (length ls') s' s''" using counters_run [OF assms(4) d] assms(5) by simp
  have reasons: "dom (eventsDroppedTotal (s_collector s')) = dom (eventsDroppedTotal (s_collector s''))"
    using so so' by (simp add: sources_ok_def)
  obtain de lb v where m: "(de, lb, v) \<in> counter_series ncpu s'"
    "m = \<lparr>m_desc = de, m_type = CounterValue, m_value = fl v, m_labels = lb\<rparr>"
    using iffD1 [OF scrape_counters [OF so assms(6) lost, of m fl]] assms(10,11) by auto
  obtain v' where v': "(de, lb, v') \<in> counter_series ncpu s''" "advanced (length ls') v v'"
    using counter_series_advanced [OF adv reasons m(1)] by blast
  let ?m' = "\<lparr>m_desc = de, m_type = CounterValue, m_value = fl v', m_labels = lb\<rparr>"
  have "?m' \<in> set (scrape fl ord' env' s'')"
    using iffD2 [OF scrape_counters [OF so' assms(8) lost', of ?m' fl]] v'(1) by blast
  with m(2) v'(2) show ?thesis by (intro bexI [of _ ?m']) (auto simp: advanced_def)
qed

theorem agent_monotone_witness:
  "\<exists>s s' ord. agent_start sample_start (Load (\<lambda>_. None)) False = Inr s \<and>
     arun sample_params s [Hook sample_call] s' \<and>
     (\<forall>m \<in> set (scrape (\<lambda>v. v) ord sample_ebpf s). m_type m = CounterValue \<longrightarrow>
        (\<exists>m' \<in> set (scrape (\<lambda>v. v) ord sample_ebpf s'). \<exists>n \<le> 1. m_value m' = m_value m + of_nat n))"
proof -
  obtain s where s: "agent_start sample_start (Load (\<lambda>_. None)) False = Inr s" "sys_init s"
    "reported (ap_relo sample_params) (s_bpf s) sample_call" by (rule sample_system)
  obtain s' where r: "arun sample_params s [Hook sample_call] s'" using sample_hook_run [OF s(2)] by blast
  have l: "\<forall>l \<in> set ([] @ [Hook sample_call]). label_ok 4 l"
    by (simp add: label_ok_def sample_call_def call_ok_def sample_env_def reserve_sized_def)
  have "s_collector s' = s_collector s"
    using r by (auto simp: set_bpf_def elim!: arun_snocE [of _ _ "[]", simplified] split: if_splits)
  moreover obtain ds where "deviceInfo (s_collector s) = set ds" "distinct ds"
    using s(2) finite_distinct_list [of "deviceInfo (s_collector s)"] unfolding sys_init_def by metis
  ultimately have o: "orders_ok (empty_orders\<lparr>order_device := ds\<rparr>) (s_collector s)"
      "orders_ok (empty_orders\<lparr>order_device := ds\<rparr>) (s_collector s')"
    using empty_orders_ok [OF s(2)] by simp_all
  have p: "percpu_lookup_ok 4 (Dropped_Lookup sample_ebpf)" by (simp add: percpu_lookup_ok_def sample_ebpf_def)
  have "\<exists>m' \<in> set (scrape (\<lambda>v. v) (empty_orders\<lparr>order_device := ds\<rparr>) sample_ebpf s').
      \<exists>n \<le> 1. m_value m' = m_value m + of_nat n"
    if "m \<in> set (scrape (\<lambda>v. v) (empty_orders\<lparr>order_device := ds\<rparr>) sample_ebpf s)" "m_type m = CounterValue" for m
    using agent_monotone [OF s(1) sample_start_ok arun_nil r l o(1) p o(2) p that] by fastforce
  with s(1) r show ?thesis by blast
qed

end
