(* ===== verification/Tabwriter.thy ===== *)
theory Tabwriter
  imports GoLib
begin

text \<open>
  What \<^verbatim>\<open>cmd/kubenpuctl\<close> uses of \<^verbatim>\<open>text/tabwriter\<close>: a writer with the padding character blank, no minimal
  width and no flags. A cell ends at a tab, and the text after the last tab of a line belongs to no column. A
  column is a block of adjacent lines that have a cell there; it is as wide as its widest cell and the padding.
  Described is the text that a flush writes for lines without other control characters; \<open>aligned\<close> is the list of
  lines. A line that is a single cell flushes the writer, which ends all blocks, as the missing cells do.
\<close>

section \<open>The writer\<close>

text \<open>\<^verbatim>\<open>utf8.RuneCount\<close> of valid UTF-8: the bytes that continue no code point.\<close>

definition rune_count :: "string \<Rightarrow> nat" where
  "rune_count s = length (filter (\<lambda>c. \<not> (128 \<le> (of_char c :: nat) \<and> (of_char c :: nat) < 192)) s)"

definition has_column :: "nat \<Rightarrow> string list \<Rightarrow> bool" where
  "has_column j cells \<longleftrightarrow> j + 1 < length cells"

text \<open>The lines of the block of column \<open>j\<close> around line \<open>i\<close>.\<close>

definition column_block :: "string list list \<Rightarrow> nat \<Rightarrow> nat \<Rightarrow> string list list" where
  "column_block rows i j =
     rev (takeWhile (has_column j) (rev (take i rows))) @ takeWhile (has_column j) (drop i rows)"

definition column_width :: "nat \<Rightarrow> string list list \<Rightarrow> nat \<Rightarrow> nat \<Rightarrow> nat" where
  "column_width padding rows i j =
     foldr max (map (\<lambda>cells. rune_count (cells ! j) + padding) (column_block rows i j)) 0"

definition pad_cell :: "nat \<Rightarrow> string \<Rightarrow> string" where
  "pad_cell width cell = cell @ replicate (width - rune_count cell) CHR '' ''"

definition aligned_line :: "nat \<Rightarrow> string list list \<Rightarrow> nat \<Rightarrow> string" where
  "aligned_line padding rows i =
     concat (map (\<lambda>j. if has_column j (rows ! i) then pad_cell (column_width padding rows i j) (rows ! i ! j)
                      else rows ! i ! j) [0..<length (rows ! i)])"

definition aligned :: "nat \<Rightarrow> string list list \<Rightarrow> string list" where
  "aligned padding rows = map (aligned_line padding rows) [0..<length rows]"

section \<open>Tables\<close>

text \<open>When all lines have the same number of cells, a block is the whole column.\<close>

definition table_width :: "nat \<Rightarrow> string list list \<Rightarrow> nat \<Rightarrow> nat" where
  "table_width padding rows j = foldr max (map (\<lambda>cells. rune_count (cells ! j) + padding) rows) 0"

definition column_start :: "nat \<Rightarrow> string list list \<Rightarrow> nat \<Rightarrow> nat" where
  "column_start padding rows j = sum_list (map (table_width padding rows) [0..<j])"

lemma column_block_all:
  assumes "\<forall>cells \<in> set rows. length cells = Suc n" "j < n"
  shows "column_block rows i j = rows"
proof -
  have "takeWhile (has_column j) (rev (take i rows)) = rev (take i rows)"
    "takeWhile (has_column j) (drop i rows) = drop i rows"
    using assms unfolding takeWhile_eq_all_conv by (auto simp: has_column_def dest: in_set_takeD in_set_dropD)
  then show ?thesis unfolding column_block_def by (simp only: rev_rev_ident append_take_drop_id)
qed

lemma foldr_max_ge: "x \<in> set xs \<Longrightarrow> x \<le> foldr max xs (0 :: nat)"
  by (induction xs) auto

lemma table_width_ge: "cells \<in> set rows \<Longrightarrow> rune_count (cells ! j) + padding \<le> table_width padding rows j"
  unfolding table_width_def by (rule foldr_max_ge) simp

lemma column_start_Suc: "column_start padding rows (Suc j) = column_start padding rows j + table_width padding rows j"
  by (simp add: column_start_def)

definition ascii :: "string \<Rightarrow> bool" where
  "ascii s \<longleftrightarrow> (\<forall>c \<in> set s. (of_char c :: nat) < 128)"

lemma rune_count_ascii: "ascii s \<Longrightarrow> rune_count s = length s"
  unfolding rune_count_def ascii_def by (subst filter_True) auto

lemma length_pad_cell: "ascii s \<Longrightarrow> length s \<le> w \<Longrightarrow> length (pad_cell w s) = w"
  by (simp add: pad_cell_def rune_count_ascii)

text \<open>The line of a row, cut at the starts of the columns.\<close>

lemma aligned_line_table:
  assumes "\<forall>cells \<in> set rows. length cells = Suc n" "i < length rows"
  shows "aligned_line padding rows i =
    concat (map (\<lambda>j. pad_cell (table_width padding rows j) (rows ! i ! j)) [0..<n]) @ rows ! i ! n"
proof -
  have len: "length (rows ! i) = Suc n" using assms by simp
  have "column_width padding rows i j = table_width padding rows j" if "j < n" for j
    using column_block_all [OF assms(1) that] by (simp add: column_width_def table_width_def)
  then have "map (\<lambda>j. if has_column j (rows ! i) then pad_cell (column_width padding rows i j) (rows ! i ! j)
      else rows ! i ! j) [0..<n] = map (\<lambda>j. pad_cell (table_width padding rows j) (rows ! i ! j)) [0..<n]"
    by (simp add: has_column_def len)
  then show ?thesis by (simp add: aligned_line_def len del: map_eq_conv) (simp add: has_column_def len)
qed

lemma length_concat_columns:
  assumes "\<forall>j < n. length (f j) = w j"
  shows "length (concat (map f [0..<n])) = sum_list (map w [0..<n])"
proof -
  have "map (length \<circ> f) [0..<n] = map w [0..<n]" using assms by simp
  then show ?thesis by (simp add: length_concat del: map_eq_conv)
qed

lemma concat_upt_split: "j < n \<Longrightarrow> concat (map f [0..<n]) =
    concat (map f [0..<j]) @ f j @ concat (map f [Suc j..<n])"
proof -
  assume "j < n"
  then have "[0..<n] = [0..<j] @ j # [Suc j..<n]" using upt_add_eq_append [of 0 j "n - j"] by (simp add: upt_conv_Cons)
  then show ?thesis by simp
qed

text \<open>The cells of a line stand at given columns, each with at least the padding behind it.\<close>

definition cut_at :: "nat \<Rightarrow> (nat \<Rightarrow> nat) \<Rightarrow> string list \<Rightarrow> string \<Rightarrow> bool" where
  "cut_at padding start cells line \<longleftrightarrow>
     (let n = length cells - 1
      in drop (start n) line = cells ! n \<and>
         (\<forall>j < n. length (cells ! j) + padding \<le> start (Suc j) - start j \<and>
            take (start (Suc j) - start j) (drop (start j) line) =
              cells ! j @ replicate (start (Suc j) - start j - length (cells ! j)) CHR '' ''))"

lemma aligned_columns:
  assumes "\<forall>cells \<in> set rows. length cells = Suc n \<and> (\<forall>c \<in> set cells. ascii c)" and "i < length rows"
  shows "cut_at padding (column_start padding rows) (rows ! i) (aligned padding rows ! i)"
proof -
  let ?f = "\<lambda>j. pad_cell (table_width padding rows j) (rows ! i ! j)"
  have in_rows: "rows ! i \<in> set rows" using assms(2) by simp
  then have cells: "length (rows ! i) = Suc n" "\<forall>j < Suc n. ascii (rows ! i ! j)" using assms(1) by auto
  have wide: "length (rows ! i ! j) + padding \<le> table_width padding rows j" if "j < n" for j
    using table_width_ge [OF in_rows, of j padding] cells(2) that by (simp add: rune_count_ascii)
  have lenf: "length (?f j) = table_width padding rows j" if "j < n" for j
    using wide [OF that] cells(2) that by (simp add: length_pad_cell)
  have start: "length (concat (map ?f [0..<m])) = column_start padding rows m" if "m \<le> n" for m
    unfolding column_start_def using that lenf by (intro length_concat_columns) simp
  have line: "aligned padding rows ! i = concat (map ?f [0..<n]) @ rows ! i ! n"
    using aligned_line_table [of rows n i padding] assms by (simp add: aligned_def)
  have "take (column_start padding rows (Suc j) - column_start padding rows j)
      (drop (column_start padding rows j) (aligned padding rows ! i)) = ?f j" if j: "j < n" for j
  proof -
    have "aligned padding rows ! i = concat (map ?f [0..<j]) @ ?f j @ concat (map ?f [Suc j..<n]) @ rows ! i ! n"
      unfolding line concat_upt_split [OF j] by simp
    then show ?thesis using start [of j] lenf [OF j] j by (simp add: column_start_Suc)
  qed
  moreover have "drop (column_start padding rows n) (aligned padding rows ! i) = rows ! i ! n"
    unfolding line start [OF order.refl, symmetric] by simp
  ultimately show ?thesis
    using wide cells by (simp add: cut_at_def column_start_Suc pad_cell_def rune_count_ascii)
qed

lemma length_aligned [simp]: "length (aligned padding rows) = length rows"
  by (simp add: aligned_def)

end
