(* ===== verification/Kubenpuctl.thy ===== *)
theory Kubenpuctl
  imports Hw Tabwriter
begin

text \<open>
  The program \<^verbatim>\<open>cmd/kubenpuctl\<close>. \<open>devicesCmd\<close> is the error or the text lines that the \<^verbatim>\<open>devices\<close> command of
  \<^verbatim>\<open>devices.go\<close> writes into its \<^verbatim>\<open>tabwriter\<close>, \<open>devices_RunE\<close> what arrives at the standard output; \<open>rootCmd\<close>
  is the command tree of \<^verbatim>\<open>root.go\<close> and \<open>Execute\<close> the process, as its exit code and its output. The cobra
  library, which parses the arguments and runs a command of the tree, is the argument \<open>exec\<close>; \<open>cobra_ok\<close> states
  the part of its documented behaviour that the program relies on.
\<close>

section \<open>The devices command\<close>

definition tab :: char where "tab = CHR 0x09"

definition node_text :: "Node \<Rightarrow> string" where
  "node_text node = digits_of (unat (Major node)) @ '':'' @ digits_of (unat (Minor node))"

text \<open>The arguments of the \<^verbatim>\<open>Fprintf\<close> of one device.\<close>

definition device_fields :: "Vendor list \<Rightarrow> Device \<Rightarrow> string list" where
  "device_fields vendors device =
     (let nodes = map node_text (Nodes device);
          vendorName = (case GetVendor vendors device of Some v \<Rightarrow> Name v | None \<Rightarrow> ''-'');
          pciID = (if PciID device = [] then ''-'' else PciID device)
      in [DriverName device, pciID, PciAddress device, Join nodes '','', vendorName, NumaNode device])"

definition header_fields :: "string list" where
  "header_fields = [''DRIVER'', ''PCI ID'', ''ADDRESS'', ''NODES'', ''VENDOR'', ''NUMA'']"

definition table_line :: "string list \<Rightarrow> string" where
  "table_line fs = Join fs [tab]"

definition devices_paths :: Paths where
  "devices_paths = \<lparr>DriPath = ''/dev/dri'', AccelPath = ''/dev/accel'',
     SysfsDriPath = ''/sys/class/drm'', SysfsAccelPath = ''/sys/class/accel''\<rparr>"

text \<open>\<^verbatim>\<open>devicesCmd.RunE\<close>: the error, or the lines written.\<close>

definition devicesCmd :: "os_env \<Rightarrow> ((string \<rightharpoonup> Device) \<Rightarrow> string list) \<Rightarrow> goerr + string list" where
  "devicesCmd env order =
     (case Discover env order devices_paths of
        Inl err \<Rightarrow> Inl err
      | Inr devs \<Rightarrow>
          Inr (table_line header_fields # map (\<lambda>d. table_line (device_fields registeredVendors d)) devs))"

text \<open>The deferred \<^verbatim>\<open>Flush\<close> writes the lines with their columns aligned. An error returns before the writer is made.\<close>

definition newline :: char where "newline = CHR 0x0A"

definition flush :: "string list \<Rightarrow> string list" where
  "flush ls = map (\<lambda>l. l @ [newline]) (aligned 2 (map (\<lambda>l. Split l tab) ls))"

definition devices_RunE :: "os_env \<Rightarrow> ((string \<rightharpoonup> Device) \<Rightarrow> string list) \<Rightarrow> string list \<Rightarrow> goerr option \<times> string" where
  "devices_RunE env order args =
     (case devicesCmd env order of
        Inl err \<Rightarrow> (Some err, [])
      | Inr ls \<Rightarrow> (None, concat (flush ls)))"

section \<open>The command tree and the process\<close>

text \<open>The members of \<^verbatim>\<open>cobra.Command\<close> that the program sets; the commands added to it come last.\<close>

datatype command = Command (Use: string) (Short: string) (Long: string) (SilenceUsage: bool)
  (RunE: "(string list \<Rightarrow> goerr option \<times> string) option") (Commands: "command list")

primrec AddCommand :: "command \<Rightarrow> command \<Rightarrow> command" where
  "AddCommand cmd (Command use short long silence run cmds) = Command use short long silence run (cmds @ [cmd])"

definition devices_command :: "os_env \<Rightarrow> ((string \<rightharpoonup> Device) \<Rightarrow> string list) \<Rightarrow> command" where
  "devices_command env order =
     Command ''devices'' ''Discover connected devices'' [] False (Some (devices_RunE env order)) []"

definition root_long :: string where
  "root_long =
     ''kubenpuctl inspects NPU and GPU accelerators that kubeNPU can see on '' @ [newline] @
     ''the local node.'' @ [newline, newline] @
     ''It reports which DRM and accel devices were found, which vendor implementation'' @ [newline] @
     ''matched each one, and which pods are using them. Device discovery reads sysfs'' @ [newline] @
     ''only and needs no elevated privileges; live views attach eBPF programs and'' @ [newline] @
     ''require CAP_BPF and CAP_PERFMON.''"

definition rootCmd :: command where
  "rootCmd = Command ''kubenpuctl'' ''Inspect accelerator devices and per-pod usage on this node'' root_long True None []"

text \<open>\<^verbatim>\<open>init\<close> adds the command before \<^verbatim>\<open>main\<close> runs.\<close>

definition initialised_root :: "os_env \<Rightarrow> ((string \<rightharpoonup> Device) \<Rightarrow> string list) \<Rightarrow> command" where
  "initialised_root env order = AddCommand (devices_command env order) rootCmd"

type_synonym cobra = "command \<Rightarrow> string list \<Rightarrow> goerr option \<times> string"

definition Execute :: "cobra \<Rightarrow> command \<Rightarrow> string list \<Rightarrow> nat \<times> string" where
  "Execute exec root args =
     (case exec root args of
        (Some err, out) \<Rightarrow> (1, out)
      | (None, out) \<Rightarrow> (0, out))"

definition kubenpuctl_main :: "cobra \<Rightarrow> os_env \<Rightarrow> ((string \<rightharpoonup> Device) \<Rightarrow> string list) \<Rightarrow> string list \<Rightarrow> nat \<times> string" where
  "kubenpuctl_main exec env order args = Execute exec (initialised_root env order) args"

text \<open>Of cobra: the name of a command that can run, alone on the command line, runs it without arguments, and its
  error is the error of \<^verbatim>\<open>Execute\<close>; a word that is no flag and names no command, neither of the tree nor of those
  cobra adds itself, is an error of a root that has commands and does not run.\<close>

definition cobra_names :: "string list" where
  "cobra_names = [''help'', ''completion'', ''__complete'', ''__completeNoDesc'']"

definition unknown_command :: "command \<Rightarrow> string \<Rightarrow> bool" where
  "unknown_command root a \<longleftrightarrow> a \<noteq> [] \<and> hd a \<noteq> CHR ''-'' \<and> a \<notin> set (map Use (Commands root)) \<and> a \<notin> set cobra_names"

definition cobra_ok :: "cobra \<Rightarrow> bool" where
  "cobra_ok exec \<longleftrightarrow>
     (\<forall>root. distinct (map Use (Commands root)) \<longrightarrow>
        (\<forall>c \<in> set (Commands root). \<forall>run. RunE c = Some run \<longrightarrow> exec root [Use c] = run []) \<and>
        (\<forall>a. Commands root \<noteq> [] \<and> RunE root = None \<and> unknown_command root a \<longrightarrow> fst (exec root [a]) \<noteq> None))"

section \<open>Lemmas\<close>

lemma digits_of_no: "c \<notin> set (map (\<lambda>d. char_of (48 + d :: nat)) [0..<10]) \<Longrightarrow> c \<notin> set (digits_of n)"
proof (induction n rule: digits_of.induct)
  case (1 n)
  have "char_of (48 + d :: nat) \<noteq> c" if "d < 10" for d
    using 1(2) that by auto
  with 1 show ?case
    by (cases "n < 10") (auto simp: digits_of.simps [of n])
qed

lemma tab_not_digit: "tab \<notin> set (digits_of n)" "CHR '','' \<notin> set (digits_of n)" "CHR '':'' \<notin> set (digits_of n)"
  by (rule digits_of_no; simp add: tab_def upt_rec char_of_def bit_nat_def)+

lemma node_text_plain: "tab \<notin> set (node_text n)" "CHR '','' \<notin> set (node_text n)"
  using tab_not_digit by (auto simp: node_text_def tab_def)

lemma set_Join: "set (Join xs sep) \<subseteq> (\<Union>x \<in> set xs. set x) \<union> set sep"
  by (induction xs sep rule: Join.induct) auto

definition tab_free :: "Device \<Rightarrow> bool" where
  "tab_free d \<longleftrightarrow> tab \<notin> set (DriverName d) \<union> set (PciID d) \<union> set (PciAddress d) \<union> set (NumaNode d)"

lemma GetVendor_name: "GetVendor registeredVendors d = Some v \<Longrightarrow> Name v = ''i915'' \<or> Name v = ''ivpu''"
  using GetVendor_Some [of registeredVendors d v] by (auto simp: registeredVendors_eq)

lemma device_fields_tab: "tab_free d \<Longrightarrow> f \<in> set (device_fields registeredVendors d) \<Longrightarrow> tab \<notin> set f"
proof -
  assume d: "tab_free d" "f \<in> set (device_fields registeredVendors d)"
  have "tab \<notin> set (Join (map node_text (Nodes d)) '','')"
    using set_Join [of "map node_text (Nodes d)" "'',''"] node_text_plain(1) by (auto simp: tab_def)
  moreover have "tab \<notin> set (case GetVendor registeredVendors d of Some v \<Rightarrow> Name v | None \<Rightarrow> ''-'')"
    using GetVendor_name [of d] by (auto simp: tab_def split: option.split)
  ultimately show ?thesis
    using d by (auto simp: device_fields_def Let_def tab_free_def tab_def split: if_splits)
qed

text \<open>The device table loses nothing: after the header there is one line for each discovered device, in
  the order of discovery, and splitting a line at its tabs gives back the six fields of the device. The
  nodes field splits at its commas into the device's nodes, and the vendor column is \<^verbatim>\<open>-\<close> exactly for
  devices that no vendor implementation matches.\<close>

lemma devicesCmd_table:
  assumes "devicesCmd env order = Inr ls" and "Discover env order devices_paths = Inr devs"
    and "\<forall>d \<in> set devs. tab_free d"
  shows "map (\<lambda>l. Split l tab) ls = header_fields # map (device_fields registeredVendors) devs \<and>
    (\<forall>d \<in> set devs. (device_fields registeredVendors d ! 4 = ''-'' \<longleftrightarrow> GetVendor registeredVendors d = None) \<and>
       (Nodes d \<noteq> [] \<longrightarrow> Split (device_fields registeredVendors d ! 3) CHR '','' = map node_text (Nodes d)))"
proof -
  have ls: "ls = table_line header_fields # map (\<lambda>d. table_line (device_fields registeredVendors d)) devs"
    using assms(1,2) by (simp add: devicesCmd_def)
  have "Split (table_line header_fields) tab = header_fields"
    unfolding table_line_def by (rule Split_Join) (auto simp: header_fields_def tab_def)
  moreover have "Split (table_line (device_fields registeredVendors d)) tab = device_fields registeredVendors d"
    if "d \<in> set devs" for d
  proof -
    have "\<forall>f \<in> set (device_fields registeredVendors d). tab \<notin> set f"
      using that assms(3) device_fields_tab by blast
    moreover have "device_fields registeredVendors d \<noteq> []" by (simp add: device_fields_def Let_def)
    ultimately show ?thesis unfolding table_line_def by (intro Split_Join)
  qed
  moreover have "device_fields registeredVendors d ! 4 = ''-'' \<longleftrightarrow> GetVendor registeredVendors d = None" for d
    using GetVendor_name [of d] by (auto simp: device_fields_def Let_def split: option.split)
  moreover have "Split (device_fields registeredVendors d ! 3) CHR '','' = map node_text (Nodes d)"
    if "Nodes d \<noteq> []" for d
    using that node_text_plain(2) Split_Join [of "map node_text (Nodes d)" "CHR '',''"]
    by (simp add: device_fields_def Let_def)
  ultimately show ?thesis by (simp add: ls)
qed

lemma devicesCmd_sample:
  "Discover sample_os sorted_keys devices_paths = Inr [sample_device]"
proof -
  have p: "devices_paths = sample_paths" by (simp add: devices_paths_def sample_paths_def)
  have "dir_error sample_os (DriPath sample_paths) = None" "dir_error sample_os (AccelPath sample_paths) = None"
    by (simp_all add: dir_error_def sample_os_def sample_paths_def unless_missing_def ErrNotExist_def)
  then show ?thesis by (simp add: p Discover_eq sample_found sorted_keys_def)
qed

text \<open>Devices whose strings are printable ASCII, as those of sysfs are.\<close>

definition printable :: "string \<Rightarrow> bool" where
  "printable s \<longleftrightarrow> (\<forall>c \<in> set s. 32 \<le> (of_char c :: nat) \<and> (of_char c :: nat) < 127)"

definition printable_device :: "Device \<Rightarrow> bool" where
  "printable_device d \<longleftrightarrow> printable (DriverName d) \<and> printable (PciID d) \<and> printable (PciAddress d) \<and> printable (NumaNode d)"

lemma printable_simps [simp]:
  "printable []" "printable (s @ t) \<longleftrightarrow> printable s \<and> printable t"
  by (auto simp: printable_def)

lemma printable_ascii: "printable s \<Longrightarrow> ascii s"
  by (force simp: printable_def ascii_def)

lemma printable_tab: "printable s \<Longrightarrow> tab \<notin> set s"
  by (auto simp: printable_def tab_def)

lemma printable_digits: "printable (digits_of n)"
proof (induction n rule: digits_of.induct)
  case (1 n)
  have "printable [char_of (48 + d :: nat)]" if "d < 10" for d
    using that by (simp add: printable_def)
  with 1 show ?case by (cases "n < 10") (simp_all add: digits_of.simps [of n])
qed

lemma printable_Join: "\<forall>x \<in> set xs. printable x \<Longrightarrow> printable sep \<Longrightarrow> printable (Join xs sep)"
  by (induction xs sep rule: Join.induct) simp_all

lemma printable_fields:
  assumes "printable_device d" "f \<in> set (device_fields registeredVendors d)"
  shows "printable f"
proof -
  have lit: "printable ''-''" "printable '':''" "printable '',''" "printable ''i915''" "printable ''ivpu''"
    by (simp_all add: printable_def)
  have "printable (Join (map node_text (Nodes d)) '','')"
    by (rule printable_Join) (auto simp: node_text_def printable_digits lit simp del: append_Cons)
  moreover have "printable (case GetVendor registeredVendors d of Some v \<Rightarrow> Name v | None \<Rightarrow> ''-'')"
    using GetVendor_name [of d] lit by (auto split: option.split)
  ultimately show ?thesis
    using assms lit by (auto simp: device_fields_def Let_def printable_device_def split: if_splits)
qed

lemma printable_header: "f \<in> set header_fields \<Longrightarrow> printable f"
  by (auto simp: header_fields_def printable_def)

definition table_rows :: "Device list \<Rightarrow> string list list" where
  "table_rows devs = header_fields # map (device_fields registeredVendors) devs"

lemma table_rows_shape:
  assumes "\<forall>d \<in> set devs. printable_device d"
  shows "\<forall>cells \<in> set (table_rows devs). length cells = Suc 5 \<and> (\<forall>c \<in> set cells. ascii c)"
  using assms printable_fields printable_header printable_ascii
  by (auto simp: table_rows_def) (simp_all add: header_fields_def device_fields_def Let_def)

text \<open>The output of a successful discovery.\<close>

lemma devices_output:
  assumes "Discover env order devices_paths = Inr devs" and "devicesCmd env order = Inr ls"
    and "\<forall>d \<in> set devs. printable_device d"
  shows "\<exists>out start. flush ls = map (\<lambda>l. l @ [newline]) out \<and> length out = length (table_rows devs) \<and>
    (\<forall>i < length out. cut_at 2 start (table_rows devs ! i) (out ! i))"
    and "\<forall>d \<in> set devs. (device_fields registeredVendors d ! 4 = ''-'' \<longleftrightarrow> GetVendor registeredVendors d = None) \<and>
       (Nodes d \<noteq> [] \<longrightarrow> Split (device_fields registeredVendors d ! 3) CHR '','' = map node_text (Nodes d))"
proof -
  have "\<forall>d \<in> set devs. tab_free d"
    using assms(3) printable_tab by (auto simp: printable_device_def tab_free_def)
  note t = devicesCmd_table [OF assms(2,1) this]
  then have "flush ls = map (\<lambda>l. l @ [newline]) (aligned 2 (table_rows devs))"
    by (simp add: flush_def table_rows_def)
  with aligned_columns [OF table_rows_shape [OF assms(3)]]
  show "\<exists>out start. flush ls = map (\<lambda>l. l @ [newline]) out \<and> length out = length (table_rows devs) \<and>
    (\<forall>i < length out. cut_at 2 start (table_rows devs ! i) (out ! i))"
    by (intro exI [of _ "aligned 2 (table_rows devs)"]) auto
  from t show "\<forall>d \<in> set devs. (device_fields registeredVendors d ! 4 = ''-'' \<longleftrightarrow> GetVendor registeredVendors d = None) \<and>
       (Nodes d \<noteq> [] \<longrightarrow> Split (device_fields registeredVendors d ! 3) CHR '','' = map node_text (Nodes d))" ..
qed

section \<open>Property\<close>

text \<open>C38: What \<^verbatim>\<open>kubenpuctl devices\<close> prints. If the discovery fails the process prints no table and exits with
  code 1, as it does for an unknown command. Otherwise it exits with code 0 after one line for the header and one for
  each device, in the order of discovery, in six columns that start at the same places in every line and are separated
  by at least two blanks: cutting a line there gives the header or the fields of the device back. The vendor column is
  \<^verbatim>\<open>-\<close> exactly for devices that no vendor implementation matches, and the nodes column splits at its commas into
  the device's nodes. (The sample output in \<^verbatim>\<open>README.md\<close> shows five columns, without the last, \<^verbatim>\<open>NUMA\<close>.)\<close>

theorem kubenpuctl_devices:
  assumes "cobra_ok exec"
  shows "(case Discover env order devices_paths of
      Inl err \<Rightarrow> kubenpuctl_main exec env order [''devices''] = (1, [])
    | Inr devs \<Rightarrow> (\<forall>d \<in> set devs. printable_device d) \<longrightarrow>
        (\<exists>ls start. kubenpuctl_main exec env order [''devices''] = (0, concat (map (\<lambda>l. l @ [newline]) ls)) \<and>
           length ls = length (table_rows devs) \<and> (\<forall>i < length ls. cut_at 2 start (table_rows devs ! i) (ls ! i))) \<and>
        (\<forall>d \<in> set devs. (device_fields registeredVendors d ! 4 = ''-'' \<longleftrightarrow> GetVendor registeredVendors d = None) \<and>
           (Nodes d \<noteq> [] \<longrightarrow> Split (device_fields registeredVendors d ! 3) CHR '','' = map node_text (Nodes d)))) \<and>
    (\<forall>a. unknown_command (initialised_root env order) a \<longrightarrow> fst (kubenpuctl_main exec env order [a]) = 1)"
proof -
  have root: "Commands (initialised_root env order) = [devices_command env order]" "RunE (initialised_root env order) = None"
    by (simp_all add: initialised_root_def rootCmd_def)
  have run: "exec (initialised_root env order) [''devices''] = devices_RunE env order []"
    using assms root unfolding cobra_ok_def by (force simp: devices_command_def)
  have failed: "fst (kubenpuctl_main exec env order [a]) = 1" if "unknown_command (initialised_root env order) a" for a
    using assms root that unfolding cobra_ok_def by (force simp: kubenpuctl_main_def Execute_def split: prod.split option.split)
  show ?thesis
  proof (cases "Discover env order devices_paths")
    case (Inl err)
    with failed show ?thesis by (simp add: kubenpuctl_main_def Execute_def run devices_RunE_def devicesCmd_def)
  next
    case (Inr devs)
    then obtain ls where ls: "devicesCmd env order = Inr ls" by (simp add: devicesCmd_def)
    then have "kubenpuctl_main exec env order [''devices''] = (0, concat (flush ls))"
      by (simp add: kubenpuctl_main_def Execute_def run devices_RunE_def)
    with failed devices_output [OF Inr ls] show ?thesis unfolding Inr sum.case by metis
  qed
qed

text \<open>A cobra for the witness: it knows the names of the commands and the help.\<close>

definition sample_cobra :: cobra where
  "sample_cobra root args =
     (case args of
        [a] \<Rightarrow> (case filter (\<lambda>c. Use c = a) (Commands root) of
                  c # _ \<Rightarrow> (case RunE c of Some run \<Rightarrow> run [] | None \<Rightarrow> (None, Long c))
                | [] \<Rightarrow> if unknown_command root a then (Some (ErrorString ''unknown command''), []) else (None, Long root))
      | _ \<Rightarrow> (None, Long root))"

lemma sample_cobra_ok: "cobra_ok sample_cobra"
proof -
  have "filter (\<lambda>d. Use d = Use c) cs = [c]" if "distinct (map Use cs)" "c \<in> set cs" for c and cs :: "command list"
    using that by (induction cs) (auto simp: filter_empty_conv image_iff)
  moreover have "filter (\<lambda>c. Use c = a) (Commands root) = []" if "unknown_command root a" for root a
    using that by (auto simp: unknown_command_def filter_empty_conv)
  ultimately show ?thesis by (simp add: cobra_ok_def sample_cobra_def)
qed

theorem kubenpuctl_devices_witness:
  "\<exists>ls start. kubenpuctl_main sample_cobra sample_os sorted_keys [''devices''] = (0, concat (map (\<lambda>l. l @ [newline]) ls)) \<and>
     length ls = 2 \<and> cut_at 2 start header_fields (ls ! 0) \<and> cut_at 2 start (device_fields registeredVendors sample_device) (ls ! 1) \<and>
     fst (kubenpuctl_main sample_cobra sample_os sorted_keys [''pods'']) = 1"
proof -
  have "printable_device sample_device"
    by (simp add: printable_device_def printable_def sample_device_def)
  moreover have "unknown_command (initialised_root sample_os sorted_keys) ''pods''"
    by (simp add: unknown_command_def initialised_root_def rootCmd_def devices_command_def cobra_names_def)
  moreover note k = kubenpuctl_devices [OF sample_cobra_ok, of sample_os sorted_keys, unfolded devicesCmd_sample sum.case]
  ultimately obtain ls start where
    "kubenpuctl_main sample_cobra sample_os sorted_keys [''devices''] = (0, concat (map (\<lambda>l. l @ [newline]) ls))"
    "length ls = length (table_rows [sample_device])"
    "\<forall>i < length ls. cut_at 2 start (table_rows [sample_device] ! i) (ls ! i)"
    "fst (kubenpuctl_main sample_cobra sample_os sorted_keys [''pods'']) = 1"
    by (metis list.set(1) list.set(2) singletonD)
  then show ?thesis
    by (intro exI [of _ ls] exI [of _ start]) (simp add: table_rows_def less_Suc_eq_0_disj all_conj_distrib)
qed

end
