(* ===== verification/KernelCgroup.thy ===== *)
theory KernelCgroup
  imports KernelTask
begin

text \<open>
  The objects behind \<^verbatim>\<open>bpf_get_current_cgroup_id\<close>: the css set of a task, its cgroup and the
  kernfs node whose 64-bit id is the inode number of the cgroup directory, from \<^verbatim>\<open>bpf/vmlinux.h\<close>.
\<close>

section \<open>Types\<close>

definition struct_css_set :: cty where
  "struct_css_set = CStruct ''css_set'' False
     [Field ''subsys'' (CArr 15 (CPtr ''struct cgroup_subsys_state'')),
      Field ''refcount'' refcount_t,
      Field ''dom_cset'' (CPtr ''struct css_set''),
      Field ''dfl_cgrp'' (CPtr ''struct cgroup''),
      Field ''nr_tasks'' c_int,
      Field ''tasks'' struct_list_head,
      Field ''mg_tasks'' struct_list_head,
      Field ''dying_tasks'' struct_list_head,
      Field ''task_iters'' struct_list_head,
      Field ''e_cset_node'' (CArr 15 struct_list_head),
      Field ''threaded_csets'' struct_list_head,
      Field ''threaded_csets_node'' struct_list_head,
      Field ''hlist'' struct_hlist_node,
      Field ''cgrp_links'' struct_list_head,
      Field ''mg_src_preload_node'' struct_list_head,
      Field ''mg_dst_preload_node'' struct_list_head,
      Field ''mg_node'' struct_list_head,
      Field ''mg_src_cgrp'' (CPtr ''struct cgroup''),
      Field ''mg_dst_cgrp'' (CPtr ''struct cgroup''),
      Field ''mg_dst_cset'' (CPtr ''struct css_set''),
      Field ''dead'' bool,
      Field ''callback_head'' struct_callback_head]"

definition struct_percpu_ref :: cty where
  "struct_percpu_ref = CStruct ''percpu_ref'' False
     [Field ''percpu_count_ptr'' long_unsigned_int,
      Field ''data'' (CPtr ''struct percpu_ref_data'')]"

definition struct_rcu_work :: cty where
  "struct_rcu_work = CStruct ''rcu_work'' False
     [Field ''work'' struct_work_struct,
      Field ''rcu'' struct_callback_head,
      Field ''wq'' (CPtr ''struct workqueue_struct'')]"

definition struct_cgroup_subsys_state :: cty where
  "struct_cgroup_subsys_state = CStruct ''cgroup_subsys_state'' False
     [Field ''cgroup'' (CPtr ''struct cgroup''),
      Field ''ss'' (CPtr ''struct cgroup_subsys''),
      Field ''refcnt'' struct_percpu_ref,
      Field ''rstat_cpu'' (CPtr ''struct css_rstat_cpu''),
      Field ''sibling'' struct_list_head,
      Field ''children'' struct_list_head,
      Field ''id'' c_int,
      Field ''flags'' unsigned_int,
      Field ''serial_nr'' u64,
      Field ''online_cnt'' atomic_t,
      Field ''destroy_work'' struct_work_struct,
      Field ''destroy_rwork'' struct_rcu_work,
      Field ''parent'' (CPtr ''struct cgroup_subsys_state''),
      Field ''nr_descendants'' c_int,
      Field ''rstat_flush_next'' (CPtr ''struct cgroup_subsys_state'')]"

definition struct_cgroup_file :: cty where
  "struct_cgroup_file = CStruct ''cgroup_file'' False
     [Field ''kn'' (CPtr ''struct kernfs_node''),
      Field ''notified_at'' long_unsigned_int,
      Field ''notify_timer'' struct_timer_list]"

definition struct_cacheline_padding :: cty where
  "struct_cacheline_padding = CStruct ''cacheline_padding'' False
     [Field ''x'' (CArr 0 c_char)]"

definition struct_task_cputime :: cty where
  "struct_task_cputime = CStruct ''task_cputime'' False
     [Field ''stime'' u64,
      Field ''utime'' u64,
      Field ''sum_exec_runtime'' long_long_unsigned_int]"

definition struct_cgroup_base_stat :: cty where
  "struct_cgroup_base_stat = CStruct ''cgroup_base_stat'' False
     [Field ''cputime'' struct_task_cputime,
      Field ''forceidle_sum'' u64,
      Field ''ntime'' u64]"

definition struct_cgroup_bpf :: cty where
  "struct_cgroup_bpf = CStruct ''cgroup_bpf'' False
     [Field ''effective'' (CArr 38 (CPtr ''struct bpf_prog_array'')),
      Field ''progs'' (CArr 38 struct_hlist_head),
      Field ''flags'' (CArr 38 u8),
      Field ''revisions'' (CArr 38 u64),
      Field ''storages'' struct_list_head,
      Field ''inactive'' (CPtr ''struct bpf_prog_array''),
      Field ''refcnt'' struct_percpu_ref,
      Field ''release_work'' struct_work_struct]"

definition struct_cgroup_freezer_state :: cty where
  "struct_cgroup_freezer_state = CStruct ''cgroup_freezer_state'' False
     [Field ''freeze'' bool,
      Field ''e_freeze'' bool,
      Field ''nr_frozen_descendants'' c_int,
      Field ''nr_frozen_tasks'' c_int,
      Field ''freeze_seq'' seqcount_spinlock_t,
      Field ''freeze_start_nsec'' u64,
      Field ''frozen_nsec'' u64]"

definition struct_cgroup :: cty where
  "struct_cgroup = CStruct ''cgroup'' False
     [Field ''self'' struct_cgroup_subsys_state,
      Field ''flags'' long_unsigned_int,
      Field ''level'' c_int,
      Field ''max_depth'' c_int,
      Field ''nr_descendants'' c_int,
      Field ''nr_dying_descendants'' c_int,
      Field ''max_descendants'' c_int,
      Field ''nr_populated_csets'' c_int,
      Field ''nr_populated_domain_children'' c_int,
      Field ''nr_populated_threaded_children'' c_int,
      Field ''nr_threaded_children'' c_int,
      Field ''kill_seq'' unsigned_int,
      Field ''kn'' (CPtr ''struct kernfs_node''),
      Field ''procs_file'' struct_cgroup_file,
      Field ''events_file'' struct_cgroup_file,
      Field ''psi_files'' (CArr 3 struct_cgroup_file),
      Field ''subtree_control'' u32,
      Field ''subtree_ss_mask'' u32,
      Field ''old_subtree_control'' u32,
      Field ''old_subtree_ss_mask'' u32,
      Field ''subsys'' (CArr 15 (CPtr ''struct cgroup_subsys_state'')),
      Field ''nr_dying_subsys'' (CArr 15 c_int),
      Field ''root'' (CPtr ''struct cgroup_root''),
      Field ''cset_links'' struct_list_head,
      Field ''e_csets'' (CArr 15 struct_list_head),
      Field ''dom_cgrp'' (CPtr ''struct cgroup''),
      Field ''old_dom_cgrp'' (CPtr ''struct cgroup''),
      Field ''rstat_base_cpu'' (CPtr ''struct cgroup_rstat_base_cpu''),
      BitField [] c_long 64,
      BitField [] c_long 64,
      BitField [] c_long 64,
      BitField [] c_long 64,
      BitField [] c_long 64,
      BitField [] c_long 64,
      BitField [] c_long 64,
      Field ''_pad_'' struct_cacheline_padding,
      Field ''last_bstat'' struct_cgroup_base_stat,
      Field ''bstat'' struct_cgroup_base_stat,
      Field ''prev_cputime'' struct_prev_cputime,
      Field ''pidlists'' struct_list_head,
      Field ''pidlist_mutex'' struct_mutex,
      Field ''offline_waitq'' wait_queue_head_t,
      Field ''finish_destroy_work'' struct_work_struct,
      Field ''release_agent_work'' struct_work_struct,
      Field ''psi'' (CPtr ''struct psi_group''),
      Field ''bpf'' struct_cgroup_bpf,
      Field ''freezer'' struct_cgroup_freezer_state,
      Field ''bpf_cgrp_storage'' (CPtr ''struct bpf_local_storage''),
      Field [] (CUnion [] False
        [Field [] (CStruct [] False
           [Field ''__empty_ancestors'' (CStruct [] False
              []),
            Field ''ancestors'' (CArr 0 (CPtr ''struct cgroup''))]),
         Field [] (CStruct [] False
           [Field ''_root_ancestor'' (CPtr ''struct cgroup''),
            Field [] (CStruct [] False
              [Field ''__empty__low_ancestors'' (CStruct [] False
                 []),
               Field ''_low_ancestors'' (CArr 0 (CPtr ''struct cgroup''))])])]),
      BitField [] c_long 64,
      BitField [] c_long 64,
      BitField [] c_long 64]"

definition struct_kernfs_elem_dir :: cty where
  "struct_kernfs_elem_dir = CStruct ''kernfs_elem_dir'' False
     [Field ''subdirs'' long_unsigned_int,
      Field ''children'' struct_rb_root,
      Field ''root'' (CPtr ''struct kernfs_root''),
      Field ''rev'' long_unsigned_int]"

definition struct_kernfs_elem_symlink :: cty where
  "struct_kernfs_elem_symlink = CStruct ''kernfs_elem_symlink'' False
     [Field ''target_kn'' (CPtr ''struct kernfs_node'')]"

definition struct_kernfs_elem_attr :: cty where
  "struct_kernfs_elem_attr = CStruct ''kernfs_elem_attr'' False
     [Field ''ops'' (CPtr ''const struct kernfs_ops''),
      Field ''open'' (CPtr ''struct kernfs_open_node''),
      Field ''size'' loff_t,
      Field ''notify_next'' (CPtr ''struct kernfs_node'')]"

definition struct_kernfs_node :: cty where
  "struct_kernfs_node = CStruct ''kernfs_node'' False
     [Field ''count'' atomic_t,
      Field ''active'' atomic_t,
      Field ''__parent'' (CPtr ''struct kernfs_node''),
      Field ''name'' (CPtr ''const char''),
      Field ''rb'' struct_rb_node,
      Field ''ns'' (CPtr ''const struct ns_common''),
      Field ''hash'' unsigned_int,
      Field ''flags'' short_unsigned_int,
      Field ''mode'' umode_t,
      Field [] (CUnion [] False
        [Field ''dir'' struct_kernfs_elem_dir,
         Field ''symlink'' struct_kernfs_elem_symlink,
         Field ''attr'' struct_kernfs_elem_attr]),
      Field ''id'' u64,
      Field ''priv'' (CPtr ''void''),
      Field ''iattr'' (CPtr ''struct kernfs_iattrs''),
      Field ''rcu'' struct_callback_head]"

section \<open>Sizes and alignments\<close>

lemma struct_css_set_layout [layout_simps]:
  "sizeof struct_css_set = 616 \<and> alignof struct_css_set = 8 \<and> wf_cty struct_css_set"
  by (simp add: struct_css_set_def base_types layout_eval refcount_t_def struct_refcount_struct_layout
      struct_list_head_layout struct_hlist_node_layout bool_def struct_callback_head_layout
      del: One_nat_def)

lemma struct_percpu_ref_layout [layout_simps]:
  "sizeof struct_percpu_ref = 16 \<and> alignof struct_percpu_ref = 8 \<and> wf_cty struct_percpu_ref"
  by (simp add: struct_percpu_ref_def base_types layout_eval
      del: One_nat_def)

lemma struct_rcu_work_layout [layout_simps]:
  "sizeof struct_rcu_work = 56 \<and> alignof struct_rcu_work = 8 \<and> wf_cty struct_rcu_work"
  by (simp add: struct_rcu_work_def base_types layout_eval struct_work_struct_layout struct_callback_head_layout
      del: One_nat_def)

lemma struct_cgroup_subsys_state_layout [layout_simps]:
  "sizeof struct_cgroup_subsys_state = 208 \<and> alignof struct_cgroup_subsys_state = 8 \<and> wf_cty struct_cgroup_subsys_state"
  by (simp add: struct_cgroup_subsys_state_def base_types layout_eval struct_percpu_ref_layout struct_list_head_layout
      u64_def c__u64_def atomic_t_layout struct_work_struct_layout struct_rcu_work_layout
      del: One_nat_def)

lemma struct_cgroup_file_layout [layout_simps]:
  "sizeof struct_cgroup_file = 56 \<and> alignof struct_cgroup_file = 8 \<and> wf_cty struct_cgroup_file"
  by (simp add: struct_cgroup_file_def base_types layout_eval struct_timer_list_layout
      del: One_nat_def)

lemma struct_cacheline_padding_layout [layout_simps]:
  "sizeof struct_cacheline_padding = 0 \<and> alignof struct_cacheline_padding = 1 \<and> wf_cty struct_cacheline_padding"
  by (simp add: struct_cacheline_padding_def base_types layout_eval
      del: One_nat_def)

lemma struct_task_cputime_layout [layout_simps]:
  "sizeof struct_task_cputime = 24 \<and> alignof struct_task_cputime = 8 \<and> wf_cty struct_task_cputime"
  by (simp add: struct_task_cputime_def base_types layout_eval u64_def c__u64_def
      del: One_nat_def)

lemma struct_cgroup_base_stat_layout [layout_simps]:
  "sizeof struct_cgroup_base_stat = 40 \<and> alignof struct_cgroup_base_stat = 8 \<and> wf_cty struct_cgroup_base_stat"
  by (simp add: struct_cgroup_base_stat_def base_types layout_eval struct_task_cputime_layout u64_def c__u64_def
      del: One_nat_def)

lemma struct_cgroup_bpf_layout [layout_simps]:
  "sizeof struct_cgroup_bpf = 1024 \<and> alignof struct_cgroup_bpf = 8 \<and> wf_cty struct_cgroup_bpf"
  by (simp add: struct_cgroup_bpf_def base_types layout_eval struct_hlist_head_layout u8_def c__u8_def u64_def c__u64_def
      struct_list_head_layout struct_percpu_ref_layout struct_work_struct_layout
      del: One_nat_def)

lemma struct_cgroup_freezer_state_layout [layout_simps]:
  "sizeof struct_cgroup_freezer_state = 32 \<and> alignof struct_cgroup_freezer_state = 8 \<and> wf_cty struct_cgroup_freezer_state"
  by (simp add: struct_cgroup_freezer_state_def base_types layout_eval bool_def seqcount_spinlock_t_def
      struct_seqcount_spinlock_layout u64_def c__u64_def
      del: One_nat_def)

lemma struct_cgroup_layout [layout_simps]:
  "sizeof struct_cgroup = 2432 \<and> alignof struct_cgroup = 8 \<and> wf_cty struct_cgroup"
  by (simp add: struct_cgroup_def base_types layout_eval struct_cgroup_subsys_state_layout struct_cgroup_file_layout
      u32_def c__u32_def struct_list_head_layout struct_cacheline_padding_layout
      struct_cgroup_base_stat_layout struct_prev_cputime_layout struct_mutex_layout wait_queue_head_t_def
      struct_wait_queue_head_layout struct_work_struct_layout struct_cgroup_bpf_layout
      struct_cgroup_freezer_state_layout
      del: One_nat_def)

lemma struct_kernfs_elem_dir_layout [layout_simps]:
  "sizeof struct_kernfs_elem_dir = 32 \<and> alignof struct_kernfs_elem_dir = 8 \<and> wf_cty struct_kernfs_elem_dir"
  by (simp add: struct_kernfs_elem_dir_def base_types layout_eval struct_rb_root_layout
      del: One_nat_def)

lemma struct_kernfs_elem_symlink_layout [layout_simps]:
  "sizeof struct_kernfs_elem_symlink = 8 \<and> alignof struct_kernfs_elem_symlink = 8 \<and> wf_cty struct_kernfs_elem_symlink"
  by (simp add: struct_kernfs_elem_symlink_def base_types layout_eval
      del: One_nat_def)

lemma struct_kernfs_elem_attr_layout [layout_simps]:
  "sizeof struct_kernfs_elem_attr = 32 \<and> alignof struct_kernfs_elem_attr = 8 \<and> wf_cty struct_kernfs_elem_attr"
  by (simp add: struct_kernfs_elem_attr_def base_types layout_eval loff_t_def c__kernel_loff_t_def
      del: One_nat_def)

lemma struct_kernfs_node_layout [layout_simps]:
  "sizeof struct_kernfs_node = 136 \<and> alignof struct_kernfs_node = 8 \<and> wf_cty struct_kernfs_node"
  by (simp add: struct_kernfs_node_def base_types layout_eval atomic_t_layout struct_rb_node_layout umode_t_def
      struct_kernfs_elem_dir_layout struct_kernfs_elem_symlink_layout struct_kernfs_elem_attr_layout
      u64_def c__u64_def struct_callback_head_layout
      del: One_nat_def)


end
