(* ===== verification/KernelDrm.thy ===== *)
theory KernelDrm
  imports KernelTask
begin

text \<open>
  The DRM objects around the hooked function \<^verbatim>\<open>drm_ioctl\<close>, from \<^verbatim>\<open>bpf/vmlinux.h\<close>: the per-open
  \<^verbatim>\<open>struct drm_file\<close>, the minor, the device, the driver and its ioctl descriptors.
\<close>

section \<open>Types\<close>

definition drm_magic_t :: cty where [layout_simps]:
  "drm_magic_t = unsigned_int"

definition struct_idr :: cty where
  "struct_idr = CStruct ''idr'' False
     [Field ''idr_rt'' struct_xarray,
      Field ''idr_base'' unsigned_int,
      Field ''idr_next'' unsigned_int]"

definition struct_drm_prime_file_private :: cty where
  "struct_drm_prime_file_private = CStruct ''drm_prime_file_private'' False
     [Field ''lock'' struct_mutex,
      Field ''dmabufs'' struct_rb_root,
      Field ''handles'' struct_rb_root]"

definition struct_drm_file :: cty where
  "struct_drm_file = CStruct ''drm_file'' False
     [Field ''authenticated'' bool,
      Field ''stereo_allowed'' bool,
      Field ''universal_planes'' bool,
      Field ''atomic'' bool,
      Field ''aspect_ratio_allowed'' bool,
      Field ''writeback_connectors'' bool,
      Field ''plane_color_pipeline'' bool,
      Field ''was_master'' bool,
      Field ''is_master'' bool,
      Field ''supports_virtualized_cursor_plane'' bool,
      Field ''master'' (CPtr ''struct drm_master''),
      Field ''master_lookup_lock'' spinlock_t,
      Field ''pid'' (CPtr ''struct pid''),
      Field ''client_id'' u64,
      Field ''magic'' drm_magic_t,
      Field ''lhead'' struct_list_head,
      Field ''minor'' (CPtr ''struct drm_minor''),
      Field ''object_idr'' struct_idr,
      Field ''table_lock'' spinlock_t,
      Field ''syncobj_xa'' struct_xarray,
      Field ''filp'' (CPtr ''struct file''),
      Field ''driver_priv'' (CPtr ''void''),
      Field ''fbs'' struct_list_head,
      Field ''fbs_lock'' struct_mutex,
      Field ''blobs'' struct_list_head,
      Field ''event_wait'' wait_queue_head_t,
      Field ''pending_event_list'' struct_list_head,
      Field ''event_list'' struct_list_head,
      Field ''event_space'' c_int,
      Field ''event_read_lock'' struct_mutex,
      Field ''prime'' struct_drm_prime_file_private,
      Field ''client_name'' (CPtr ''const char''),
      Field ''client_name_lock'' struct_mutex,
      Field ''debugfs_client'' (CPtr ''struct dentry'')]"

definition struct_drm_minor :: cty where
  "struct_drm_minor = CStruct ''drm_minor'' False
     [Field ''index'' c_int,
      Field ''type'' c_int,
      Field ''kdev'' (CPtr ''struct device''),
      Field ''dev'' (CPtr ''struct drm_device''),
      Field ''debugfs_symlink'' (CPtr ''struct dentry''),
      Field ''debugfs_root'' (CPtr ''struct dentry'')]"

definition struct_ww_mutex :: cty where
  "struct_ww_mutex = CStruct ''ww_mutex'' False
     [Field ''base'' struct_mutex,
      Field ''ctx'' (CPtr ''struct ww_acquire_ctx'')]"

definition struct_drm_modeset_lock :: cty where
  "struct_drm_modeset_lock = CStruct ''drm_modeset_lock'' False
     [Field ''mutex'' struct_ww_mutex,
      Field ''head'' struct_list_head]"

definition struct_ida :: cty where
  "struct_ida = CStruct ''ida'' False
     [Field ''xa'' struct_xarray]"

definition struct_delayed_work :: cty where
  "struct_delayed_work = CStruct ''delayed_work'' False
     [Field ''work'' struct_work_struct,
      Field ''timer'' struct_timer_list,
      Field ''wq'' (CPtr ''struct workqueue_struct''),
      Field ''cpu'' c_int]"

definition uint32_t :: cty where [layout_simps]:
  "uint32_t = u32"

definition struct_drm_mode_config :: cty where
  "struct_drm_mode_config = CStruct ''drm_mode_config'' False
     [Field ''mutex'' struct_mutex,
      Field ''connection_mutex'' struct_drm_modeset_lock,
      Field ''acquire_ctx'' (CPtr ''struct drm_modeset_acquire_ctx''),
      Field ''idr_mutex'' struct_mutex,
      Field ''object_idr'' struct_idr,
      Field ''tile_idr'' struct_idr,
      Field ''fb_lock'' struct_mutex,
      Field ''num_fb'' c_int,
      Field ''fb_list'' struct_list_head,
      Field ''connector_list_lock'' spinlock_t,
      Field ''num_connector'' c_int,
      Field ''connector_ida'' struct_ida,
      Field ''connector_list'' struct_list_head,
      Field ''connector_free_list'' struct_llist_head,
      Field ''connector_free_work'' struct_work_struct,
      Field ''num_encoder'' c_int,
      Field ''encoder_list'' struct_list_head,
      Field ''num_total_plane'' c_int,
      Field ''plane_list'' struct_list_head,
      Field ''panic_lock'' struct_raw_spinlock,
      Field ''num_colorop'' c_int,
      Field ''colorop_list'' struct_list_head,
      Field ''num_crtc'' c_int,
      Field ''crtc_list'' struct_list_head,
      Field ''property_list'' struct_list_head,
      Field ''privobj_list'' struct_list_head,
      Field ''min_width'' unsigned_int,
      Field ''min_height'' unsigned_int,
      Field ''max_width'' unsigned_int,
      Field ''max_height'' unsigned_int,
      Field ''funcs'' (CPtr ''const struct drm_mode_config_funcs''),
      Field ''poll_enabled'' bool,
      Field ''poll_running'' bool,
      Field ''delayed_event'' bool,
      Field ''output_poll_work'' struct_delayed_work,
      Field ''blob_lock'' struct_mutex,
      Field ''property_blob_list'' struct_list_head,
      Field ''edid_property'' (CPtr ''struct drm_property''),
      Field ''dpms_property'' (CPtr ''struct drm_property''),
      Field ''path_property'' (CPtr ''struct drm_property''),
      Field ''tile_property'' (CPtr ''struct drm_property''),
      Field ''panel_type_property'' (CPtr ''struct drm_property''),
      Field ''link_status_property'' (CPtr ''struct drm_property''),
      Field ''plane_type_property'' (CPtr ''struct drm_property''),
      Field ''prop_src_x'' (CPtr ''struct drm_property''),
      Field ''prop_src_y'' (CPtr ''struct drm_property''),
      Field ''prop_src_w'' (CPtr ''struct drm_property''),
      Field ''prop_src_h'' (CPtr ''struct drm_property''),
      Field ''prop_crtc_x'' (CPtr ''struct drm_property''),
      Field ''prop_crtc_y'' (CPtr ''struct drm_property''),
      Field ''prop_crtc_w'' (CPtr ''struct drm_property''),
      Field ''prop_crtc_h'' (CPtr ''struct drm_property''),
      Field ''prop_fb_id'' (CPtr ''struct drm_property''),
      Field ''prop_in_fence_fd'' (CPtr ''struct drm_property''),
      Field ''prop_out_fence_ptr'' (CPtr ''struct drm_property''),
      Field ''prop_crtc_id'' (CPtr ''struct drm_property''),
      Field ''prop_fb_damage_clips'' (CPtr ''struct drm_property''),
      Field ''prop_active'' (CPtr ''struct drm_property''),
      Field ''prop_mode_id'' (CPtr ''struct drm_property''),
      Field ''prop_vrr_enabled'' (CPtr ''struct drm_property''),
      Field ''dvi_i_subconnector_property'' (CPtr ''struct drm_property''),
      Field ''dvi_i_select_subconnector_property'' (CPtr ''struct drm_property''),
      Field ''dp_subconnector_property'' (CPtr ''struct drm_property''),
      Field ''tv_subconnector_property'' (CPtr ''struct drm_property''),
      Field ''tv_select_subconnector_property'' (CPtr ''struct drm_property''),
      Field ''legacy_tv_mode_property'' (CPtr ''struct drm_property''),
      Field ''tv_mode_property'' (CPtr ''struct drm_property''),
      Field ''tv_left_margin_property'' (CPtr ''struct drm_property''),
      Field ''tv_right_margin_property'' (CPtr ''struct drm_property''),
      Field ''tv_top_margin_property'' (CPtr ''struct drm_property''),
      Field ''tv_bottom_margin_property'' (CPtr ''struct drm_property''),
      Field ''tv_brightness_property'' (CPtr ''struct drm_property''),
      Field ''tv_contrast_property'' (CPtr ''struct drm_property''),
      Field ''tv_flicker_reduction_property'' (CPtr ''struct drm_property''),
      Field ''tv_overscan_property'' (CPtr ''struct drm_property''),
      Field ''tv_saturation_property'' (CPtr ''struct drm_property''),
      Field ''tv_hue_property'' (CPtr ''struct drm_property''),
      Field ''scaling_mode_property'' (CPtr ''struct drm_property''),
      Field ''aspect_ratio_property'' (CPtr ''struct drm_property''),
      Field ''content_type_property'' (CPtr ''struct drm_property''),
      Field ''degamma_lut_property'' (CPtr ''struct drm_property''),
      Field ''degamma_lut_size_property'' (CPtr ''struct drm_property''),
      Field ''ctm_property'' (CPtr ''struct drm_property''),
      Field ''gamma_lut_property'' (CPtr ''struct drm_property''),
      Field ''gamma_lut_size_property'' (CPtr ''struct drm_property''),
      Field ''suggested_x_property'' (CPtr ''struct drm_property''),
      Field ''suggested_y_property'' (CPtr ''struct drm_property''),
      Field ''non_desktop_property'' (CPtr ''struct drm_property''),
      Field ''panel_orientation_property'' (CPtr ''struct drm_property''),
      Field ''writeback_fb_id_property'' (CPtr ''struct drm_property''),
      Field ''writeback_pixel_formats_property'' (CPtr ''struct drm_property''),
      Field ''writeback_out_fence_ptr_property'' (CPtr ''struct drm_property''),
      Field ''hdr_output_metadata_property'' (CPtr ''struct drm_property''),
      Field ''content_protection_property'' (CPtr ''struct drm_property''),
      Field ''hdcp_content_type_property'' (CPtr ''struct drm_property''),
      Field ''preferred_depth'' uint32_t,
      Field ''prefer_shadow'' uint32_t,
      Field ''quirk_addfb_prefer_xbgr_30bpp'' bool,
      Field ''quirk_addfb_prefer_host_byte_order'' bool,
      Field ''async_page_flip'' bool,
      Field ''fb_modifiers_not_supported'' bool,
      Field ''normalize_zpos'' bool,
      Field ''modifiers_property'' (CPtr ''struct drm_property''),
      Field ''async_modifiers_property'' (CPtr ''struct drm_property''),
      Field ''size_hints_property'' (CPtr ''struct drm_property''),
      Field ''cursor_width'' uint32_t,
      Field ''cursor_height'' uint32_t,
      Field ''suspend_state'' (CPtr ''struct drm_atomic_state''),
      Field ''helper_private'' (CPtr ''const struct drm_mode_config_helper_funcs'')]"

definition enum_switch_power_state :: cty where
  "enum_switch_power_state = CEnum 4
     [(''DRM_SWITCH_POWER_ON'', 0), (''DRM_SWITCH_POWER_OFF'', 1),
      (''DRM_SWITCH_POWER_CHANGING'', 2), (''DRM_SWITCH_POWER_DYNAMIC_OFF'', 3)]"

definition struct_drm_device :: cty where
  "struct_drm_device = CStruct ''drm_device'' False
     [Field ''if_version'' c_int,
      Field ''ref'' struct_kref,
      Field ''dev'' (CPtr ''struct device''),
      Field ''dma_dev'' (CPtr ''struct device''),
      Field ''managed'' (CStruct [] False
        [Field ''resources'' struct_list_head,
         Field ''final_kfree'' (CPtr ''void''),
         Field ''lock'' spinlock_t]),
      Field ''driver'' (CPtr ''const struct drm_driver''),
      Field ''dev_private'' (CPtr ''void''),
      Field ''primary'' (CPtr ''struct drm_minor''),
      Field ''render'' (CPtr ''struct drm_minor''),
      Field ''accel'' (CPtr ''struct drm_minor''),
      Field ''registered'' bool,
      Field ''master'' (CPtr ''struct drm_master''),
      Field ''huge_mnt'' (CPtr ''struct vfsmount''),
      Field ''driver_features'' u32,
      Field ''unplugged'' bool,
      Field ''anon_inode'' (CPtr ''struct inode''),
      Field ''unique'' (CPtr ''char''),
      Field ''master_mutex'' struct_mutex,
      Field ''open_count'' atomic_t,
      Field ''filelist_mutex'' struct_mutex,
      Field ''filelist'' struct_list_head,
      Field ''filelist_internal'' struct_list_head,
      Field ''clientlist_mutex'' struct_mutex,
      Field ''clientlist'' struct_list_head,
      Field ''client_sysrq_list'' struct_list_head,
      Field ''vblank_disable_immediate'' bool,
      Field ''vblank'' (CPtr ''struct drm_vblank_crtc''),
      Field ''vblank_time_lock'' spinlock_t,
      Field ''vbl_lock'' spinlock_t,
      Field ''max_vblank_count'' u32,
      Field ''vblank_event_list'' struct_list_head,
      Field ''event_lock'' spinlock_t,
      Field ''num_crtcs'' unsigned_int,
      Field ''mode_config'' struct_drm_mode_config,
      Field ''object_name_lock'' struct_mutex,
      Field ''object_name_idr'' struct_idr,
      Field ''vma_offset_manager'' (CPtr ''struct drm_vma_offset_manager''),
      Field ''vram_mm'' (CPtr ''struct drm_vram_mm''),
      Field ''switch_power_state'' enum_switch_power_state,
      Field ''fb_helper'' (CPtr ''struct drm_fb_helper''),
      Field ''debugfs_root'' (CPtr ''struct dentry''),
      Field ''gem_lru_mutex'' struct_mutex]"

definition struct_drm_driver :: cty where
  "struct_drm_driver = CStruct ''drm_driver'' False
     [Field ''load'' (CPtr ''int (struct drm_device *, long unsigned int)''),
      Field ''open'' (CPtr ''int (struct drm_device *, struct drm_file *)''),
      Field ''postclose'' (CPtr ''void (struct drm_device *, struct drm_file *)''),
      Field ''unload'' (CPtr ''void (struct drm_device *)''),
      Field ''release'' (CPtr ''void (struct drm_device *)''),
      Field ''master_set'' (CPtr ''void (struct drm_device *, struct drm_file *, bool)''),
      Field ''master_drop'' (CPtr ''void (struct drm_device *, struct drm_file *)''),
      Field ''debugfs_init'' (CPtr ''void (struct drm_minor *)''),
      Field ''gem_create_object'' (CPtr ''struct drm_gem_object * (struct drm_device *, size_t)''),
      Field ''prime_handle_to_fd'' (CPtr ''int (struct drm_device *, struct drm_file *, uint32_t, uint32_t, int *)''),
      Field ''prime_fd_to_handle'' (CPtr ''int (struct drm_device *, struct drm_file *, int, uint32_t *)''),
      Field ''gem_prime_import'' (CPtr ''struct drm_gem_object * (struct drm_device *, struct dma_buf *)''),
      Field ''gem_prime_import_sg_table'' (CPtr ''struct drm_gem_object * (struct drm_device *, struct dma_buf_attachment *, struct sg_table *)''),
      Field ''dumb_create'' (CPtr ''int (struct drm_file *, struct drm_device *, struct drm_mode_create_dumb *)''),
      Field ''dumb_map_offset'' (CPtr ''int (struct drm_file *, struct drm_device *, uint32_t, uint64_t *)''),
      Field ''fbdev_probe'' (CPtr ''int (struct drm_fb_helper *, struct drm_fb_helper_surface_size *)''),
      Field ''show_fdinfo'' (CPtr ''void (struct drm_printer *, struct drm_file *)''),
      Field ''major'' c_int,
      Field ''minor'' c_int,
      Field ''patchlevel'' c_int,
      Field ''name'' (CPtr ''char''),
      Field ''desc'' (CPtr ''char''),
      Field ''driver_features'' u32,
      Field ''ioctls'' (CPtr ''const struct drm_ioctl_desc''),
      Field ''num_ioctls'' c_int,
      Field ''fops'' (CPtr ''const struct file_operations'')]"

definition enum_drm_ioctl_flags :: cty where
  "enum_drm_ioctl_flags = CEnum 4
     [(''DRM_AUTH'', 1), (''DRM_MASTER'', 2), (''DRM_ROOT_ONLY'', 4),
      (''DRM_RENDER_ALLOW'', 32)]"

definition struct_drm_ioctl_desc :: cty where
  "struct_drm_ioctl_desc = CStruct ''drm_ioctl_desc'' False
     [Field ''cmd'' unsigned_int,
      Field ''flags'' enum_drm_ioctl_flags,
      Field ''func'' (CPtr ''drm_ioctl_t''),
      Field ''name'' (CPtr ''const char'')]"

definition fop_flags_t :: cty where [layout_simps]:
  "fop_flags_t = unsigned_int"

definition struct_file_operations :: cty where
  "struct_file_operations = CStruct ''file_operations'' False
     [Field ''owner'' (CPtr ''struct module''),
      Field ''fop_flags'' fop_flags_t,
      Field ''llseek'' (CPtr ''loff_t (struct file *, loff_t, int)''),
      Field ''read'' (CPtr ''ssize_t (struct file *, char *, size_t, loff_t *)''),
      Field ''write'' (CPtr ''ssize_t (struct file *, const char *, size_t, loff_t *)''),
      Field ''read_iter'' (CPtr ''ssize_t (struct kiocb *, struct iov_iter *)''),
      Field ''write_iter'' (CPtr ''ssize_t (struct kiocb *, struct iov_iter *)''),
      Field ''iopoll'' (CPtr ''int (struct kiocb *, struct io_comp_batch *, unsigned int)''),
      Field ''iterate_shared'' (CPtr ''int (struct file *, struct dir_context *)''),
      Field ''poll'' (CPtr ''__poll_t (struct file *, struct poll_table_struct *)''),
      Field ''unlocked_ioctl'' (CPtr ''long int (struct file *, unsigned int, long unsigned int)''),
      Field ''compat_ioctl'' (CPtr ''long int (struct file *, unsigned int, long unsigned int)''),
      Field ''mmap'' (CPtr ''int (struct file *, struct vm_area_struct *)''),
      Field ''open'' (CPtr ''int (struct inode *, struct file *)''),
      Field ''flush'' (CPtr ''int (struct file *, fl_owner_t)''),
      Field ''release'' (CPtr ''int (struct inode *, struct file *)''),
      Field ''fsync'' (CPtr ''int (struct file *, loff_t, loff_t, int)''),
      Field ''fasync'' (CPtr ''int (int, struct file *, int)''),
      Field ''lock'' (CPtr ''int (struct file *, int, struct file_lock *)''),
      Field ''get_unmapped_area'' (CPtr ''long unsigned int (struct file *, long unsigned int, long unsigned int, long unsigned int, long unsigned int)''),
      Field ''check_flags'' (CPtr ''int (int)''),
      Field ''flock'' (CPtr ''int (struct file *, int, struct file_lock *)''),
      Field ''splice_write'' (CPtr ''ssize_t (struct pipe_inode_info *, struct file *, loff_t *, size_t, unsigned int)''),
      Field ''splice_read'' (CPtr ''ssize_t (struct file *, loff_t *, struct pipe_inode_info *, size_t, unsigned int)''),
      Field ''splice_eof'' (CPtr ''void (struct file *)''),
      Field ''setlease'' (CPtr ''int (struct file *, int, struct file_lease **, void **)''),
      Field ''fallocate'' (CPtr ''long int (struct file *, int, loff_t, loff_t)''),
      Field ''show_fdinfo'' (CPtr ''void (struct seq_file *, struct file *)''),
      Field ''copy_file_range'' (CPtr ''ssize_t (struct file *, loff_t, struct file *, loff_t, size_t, unsigned int)''),
      Field ''remap_file_range'' (CPtr ''loff_t (struct file *, loff_t, struct file *, loff_t, loff_t, unsigned int)''),
      Field ''fadvise'' (CPtr ''int (struct file *, loff_t, loff_t, int)''),
      Field ''uring_cmd'' (CPtr ''int (struct io_uring_cmd *, unsigned int)''),
      Field ''uring_cmd_iopoll'' (CPtr ''int (struct io_uring_cmd *, struct io_comp_batch *, unsigned int)''),
      Field ''mmap_prepare'' (CPtr ''int (struct vm_area_desc *)'')]"

definition struct_qrwlock :: cty where
  "struct_qrwlock = CStruct ''qrwlock'' False
     [Field [] (CUnion [] False
        [Field ''cnts'' atomic_t,
         Field [] (CStruct [] False
           [Field ''wlocked'' u8,
            Field ''__lstate'' (CArr 3 u8)])]),
      Field ''wait_lock'' arch_spinlock_t]"

definition arch_rwlock_t :: cty where [layout_simps]:
  "arch_rwlock_t = struct_qrwlock"

definition struct_rwlock :: cty where
  "struct_rwlock = CStruct ''rwlock'' False
     [Field ''raw_lock'' arch_rwlock_t]"

definition rwlock_t :: cty where [layout_simps]:
  "rwlock_t = struct_rwlock"

definition struct_drm_mm_node :: cty where
  "struct_drm_mm_node = CStruct ''drm_mm_node'' False
     [Field ''color'' long_unsigned_int,
      Field ''start'' u64,
      Field ''size'' u64,
      Field ''mm'' (CPtr ''struct drm_mm''),
      Field ''node_list'' struct_list_head,
      Field ''hole_stack'' struct_list_head,
      Field ''rb'' struct_rb_node,
      Field ''rb_hole_size'' struct_rb_node,
      Field ''rb_hole_addr'' struct_rb_node,
      Field ''__subtree_last'' u64,
      Field ''hole_size'' u64,
      Field ''subtree_max_hole'' u64,
      Field ''flags'' long_unsigned_int]"

definition struct_drm_vma_offset_node :: cty where
  "struct_drm_vma_offset_node = CStruct ''drm_vma_offset_node'' False
     [Field ''vm_lock'' rwlock_t,
      Field ''vm_node'' struct_drm_mm_node,
      Field ''vm_files'' struct_rb_root,
      Field ''driver_private'' (CPtr ''void'')]"

definition struct_dma_resv :: cty where
  "struct_dma_resv = CStruct ''dma_resv'' False
     [Field ''lock'' struct_ww_mutex,
      Field ''fences'' (CPtr ''struct dma_resv_list'')]"

definition struct_drm_gem_object :: cty where
  "struct_drm_gem_object = CStruct ''drm_gem_object'' False
     [Field ''refcount'' struct_kref,
      Field ''handle_count'' unsigned_int,
      Field ''dev'' (CPtr ''struct drm_device''),
      Field ''filp'' (CPtr ''struct file''),
      Field ''vma_node'' struct_drm_vma_offset_node,
      Field ''size'' size_t,
      Field ''name'' c_int,
      Field ''dma_buf'' (CPtr ''struct dma_buf''),
      Field ''import_attach'' (CPtr ''struct dma_buf_attachment''),
      Field ''resv'' (CPtr ''struct dma_resv''),
      Field ''_resv'' struct_dma_resv,
      Field ''gpuva'' (CStruct [] False
        [Field ''list'' struct_list_head,
         Field ''lock'' struct_mutex]),
      Field ''funcs'' (CPtr ''const struct drm_gem_object_funcs''),
      Field ''lru_node'' struct_list_head,
      Field ''lru'' (CPtr ''struct drm_gem_lru'')]"

section \<open>Sizes and alignments\<close>

lemma struct_idr_layout [layout_simps]:
  "sizeof struct_idr = 24 \<and> alignof struct_idr = 8 \<and> wf_cty struct_idr"
  by (simp add: struct_idr_def base_types layout_eval struct_xarray_layout
      del: One_nat_def)

lemma struct_drm_prime_file_private_layout [layout_simps]:
  "sizeof struct_drm_prime_file_private = 48 \<and> alignof struct_drm_prime_file_private = 8 \<and> wf_cty struct_drm_prime_file_private"
  by (simp add: struct_drm_prime_file_private_def base_types layout_eval struct_mutex_layout struct_rb_root_layout
      del: One_nat_def)

lemma struct_drm_file_layout [layout_simps]:
  "sizeof struct_drm_file = 400 \<and> alignof struct_drm_file = 8 \<and> wf_cty struct_drm_file"
  by (simp add: struct_drm_file_def base_types layout_eval bool_def spinlock_t_def struct_spinlock_layout u64_def
      c__u64_def drm_magic_t_def struct_list_head_layout struct_idr_layout struct_xarray_layout
      struct_mutex_layout wait_queue_head_t_def struct_wait_queue_head_layout
      struct_drm_prime_file_private_layout
      del: One_nat_def)

lemma struct_drm_minor_layout [layout_simps]:
  "sizeof struct_drm_minor = 40 \<and> alignof struct_drm_minor = 8 \<and> wf_cty struct_drm_minor"
  by (simp add: struct_drm_minor_def base_types layout_eval
      del: One_nat_def)

lemma struct_ww_mutex_layout [layout_simps]:
  "sizeof struct_ww_mutex = 40 \<and> alignof struct_ww_mutex = 8 \<and> wf_cty struct_ww_mutex"
  by (simp add: struct_ww_mutex_def base_types layout_eval struct_mutex_layout
      del: One_nat_def)

lemma struct_drm_modeset_lock_layout [layout_simps]:
  "sizeof struct_drm_modeset_lock = 56 \<and> alignof struct_drm_modeset_lock = 8 \<and> wf_cty struct_drm_modeset_lock"
  by (simp add: struct_drm_modeset_lock_def base_types layout_eval struct_ww_mutex_layout struct_list_head_layout
      del: One_nat_def)

lemma struct_ida_layout [layout_simps]:
  "sizeof struct_ida = 16 \<and> alignof struct_ida = 8 \<and> wf_cty struct_ida"
  by (simp add: struct_ida_def base_types layout_eval struct_xarray_layout
      del: One_nat_def)

lemma struct_delayed_work_layout [layout_simps]:
  "sizeof struct_delayed_work = 88 \<and> alignof struct_delayed_work = 8 \<and> wf_cty struct_delayed_work"
  by (simp add: struct_delayed_work_def base_types layout_eval struct_work_struct_layout struct_timer_list_layout
      del: One_nat_def)

lemma struct_drm_mode_config_layout [layout_simps]:
  "sizeof struct_drm_mode_config = 1136 \<and> alignof struct_drm_mode_config = 8 \<and> wf_cty struct_drm_mode_config"
  by (simp add: struct_drm_mode_config_def base_types layout_eval struct_mutex_layout struct_drm_modeset_lock_layout
      struct_idr_layout struct_list_head_layout spinlock_t_def struct_spinlock_layout struct_ida_layout
      struct_llist_head_layout struct_work_struct_layout struct_raw_spinlock_layout bool_def
      struct_delayed_work_layout uint32_t_def u32_def c__u32_def
      del: One_nat_def)

lemma enum_switch_power_state_layout [layout_simps]:
  "sizeof enum_switch_power_state = 4 \<and> alignof enum_switch_power_state = 4 \<and> wf_cty enum_switch_power_state"
  by (simp add: enum_switch_power_state_def base_types layout_eval
      del: One_nat_def)

lemma struct_drm_device_layout [layout_simps]:
  "sizeof struct_drm_device = 1632 \<and> alignof struct_drm_device = 8 \<and> wf_cty struct_drm_device"
  by (simp add: struct_drm_device_def base_types layout_eval struct_kref_layout struct_list_head_layout spinlock_t_def
      struct_spinlock_layout bool_def u32_def c__u32_def struct_mutex_layout atomic_t_layout
      struct_drm_mode_config_layout struct_idr_layout enum_switch_power_state_layout
      del: One_nat_def)

lemma struct_drm_driver_layout [layout_simps]:
  "sizeof struct_drm_driver = 200 \<and> alignof struct_drm_driver = 8 \<and> wf_cty struct_drm_driver"
  by (simp add: struct_drm_driver_def base_types layout_eval u32_def c__u32_def
      del: One_nat_def)

lemma enum_drm_ioctl_flags_layout [layout_simps]:
  "sizeof enum_drm_ioctl_flags = 4 \<and> alignof enum_drm_ioctl_flags = 4 \<and> wf_cty enum_drm_ioctl_flags"
  by (simp add: enum_drm_ioctl_flags_def base_types layout_eval
      del: One_nat_def)

lemma struct_drm_ioctl_desc_layout [layout_simps]:
  "sizeof struct_drm_ioctl_desc = 24 \<and> alignof struct_drm_ioctl_desc = 8 \<and> wf_cty struct_drm_ioctl_desc"
  by (simp add: struct_drm_ioctl_desc_def base_types layout_eval enum_drm_ioctl_flags_layout
      del: One_nat_def)

lemma struct_file_operations_layout [layout_simps]:
  "sizeof struct_file_operations = 272 \<and> alignof struct_file_operations = 8 \<and> wf_cty struct_file_operations"
  by (simp add: struct_file_operations_def base_types layout_eval fop_flags_t_def
      del: One_nat_def)

lemma struct_qrwlock_layout [layout_simps]:
  "sizeof struct_qrwlock = 8 \<and> alignof struct_qrwlock = 4 \<and> wf_cty struct_qrwlock"
  by (simp add: struct_qrwlock_def base_types layout_eval atomic_t_layout u8_def c__u8_def arch_spinlock_t_def
      struct_qspinlock_layout
      del: One_nat_def)

lemma struct_rwlock_layout [layout_simps]:
  "sizeof struct_rwlock = 8 \<and> alignof struct_rwlock = 4 \<and> wf_cty struct_rwlock"
  by (simp add: struct_rwlock_def base_types layout_eval arch_rwlock_t_def struct_qrwlock_layout
      del: One_nat_def)

lemma struct_drm_mm_node_layout [layout_simps]:
  "sizeof struct_drm_mm_node = 168 \<and> alignof struct_drm_mm_node = 8 \<and> wf_cty struct_drm_mm_node"
  by (simp add: struct_drm_mm_node_def base_types layout_eval u64_def c__u64_def struct_list_head_layout
      struct_rb_node_layout
      del: One_nat_def)

lemma struct_drm_vma_offset_node_layout [layout_simps]:
  "sizeof struct_drm_vma_offset_node = 192 \<and> alignof struct_drm_vma_offset_node = 8 \<and> wf_cty struct_drm_vma_offset_node"
  by (simp add: struct_drm_vma_offset_node_def base_types layout_eval rwlock_t_def struct_rwlock_layout
      struct_drm_mm_node_layout struct_rb_root_layout
      del: One_nat_def)

lemma struct_dma_resv_layout [layout_simps]:
  "sizeof struct_dma_resv = 48 \<and> alignof struct_dma_resv = 8 \<and> wf_cty struct_dma_resv"
  by (simp add: struct_dma_resv_def base_types layout_eval struct_ww_mutex_layout
      del: One_nat_def)

lemma struct_drm_gem_object_layout [layout_simps]:
  "sizeof struct_drm_gem_object = 384 \<and> alignof struct_drm_gem_object = 8 \<and> wf_cty struct_drm_gem_object"
  by (simp add: struct_drm_gem_object_def base_types layout_eval struct_kref_layout struct_drm_vma_offset_node_layout
      size_t_def c__kernel_size_t_def c__kernel_ulong_t_def struct_dma_resv_layout
      struct_list_head_layout struct_mutex_layout
      del: One_nat_def)


end
