(* ===== verification/KernelCgroupRefs.thy ===== *)
theory KernelCgroupRefs
  imports KernelCgroup KernelDrm
begin

text \<open>
  Types of \<^verbatim>\<open>bpf/vmlinux.h\<close> that the objects of \<open>KernelCgroup\<close> (cgroups and kernfs nodes) point to, one
  dereference away, with every type they hold by value.
\<close>

section \<open>Types\<close>

definition struct_bpf_prog_array_item :: cty where
  "struct_bpf_prog_array_item = CStruct ''bpf_prog_array_item'' False
     [Field ''prog'' (CPtr ''struct bpf_prog''),
      Field [] (CUnion [] False
        [Field ''cgroup_storage'' (CArr 2 (CPtr ''struct bpf_cgroup_storage'')),
         Field ''bpf_cookie'' u64])]"

definition struct_bpf_prog_array :: cty where
  "struct_bpf_prog_array = CStruct ''bpf_prog_array'' False
     [Field ''rcu'' struct_callback_head,
      Field ''items'' (CArr 0 struct_bpf_prog_array_item)]"

definition struct_cgroup_root :: cty where
  "struct_cgroup_root = CStruct ''cgroup_root'' False
     [Field ''kf_root'' (CPtr ''struct kernfs_root''),
      Field ''subsys_mask'' unsigned_int,
      Field ''hierarchy_id'' c_int,
      Field ''root_list'' struct_list_head,
      Field ''rcu'' struct_callback_head,
      Field ''nr_cgrps'' atomic_t,
      Field ''flags'' unsigned_int,
      Field ''release_agent_path'' (CArr 4096 c_char),
      Field ''name'' (CArr 64 c_char),
      BitField [] c_long 64,
      Field ''cgrp'' struct_cgroup]"

definition struct_u64_stats_sync :: cty where
  "struct_u64_stats_sync = CStruct ''u64_stats_sync'' False
     []"

definition struct_cgroup_rstat_base_cpu :: cty where
  "struct_cgroup_rstat_base_cpu = CStruct ''cgroup_rstat_base_cpu'' False
     [Field ''bsync'' struct_u64_stats_sync,
      Field ''bstat'' struct_cgroup_base_stat,
      Field ''last_bstat'' struct_cgroup_base_stat,
      Field ''subtree_bstat'' struct_cgroup_base_stat,
      Field ''last_subtree_bstat'' struct_cgroup_base_stat]"

definition struct_cgroup_subsys :: cty where
  "struct_cgroup_subsys = CStruct ''cgroup_subsys'' False
     [Field ''css_alloc'' (CPtr ''struct cgroup_subsys_state * (struct cgroup_subsys_state *)''),
      Field ''css_online'' (CPtr ''int (struct cgroup_subsys_state *)''),
      Field ''css_offline'' (CPtr ''void (struct cgroup_subsys_state *)''),
      Field ''css_released'' (CPtr ''void (struct cgroup_subsys_state *)''),
      Field ''css_free'' (CPtr ''void (struct cgroup_subsys_state *)''),
      Field ''css_reset'' (CPtr ''void (struct cgroup_subsys_state *)''),
      Field ''css_killed'' (CPtr ''void (struct cgroup_subsys_state *)''),
      Field ''css_rstat_flush'' (CPtr ''void (struct cgroup_subsys_state *, int)''),
      Field ''css_extra_stat_show'' (CPtr ''int (struct seq_file *, struct cgroup_subsys_state *)''),
      Field ''css_local_stat_show'' (CPtr ''int (struct seq_file *, struct cgroup_subsys_state *)''),
      Field ''can_attach'' (CPtr ''int (struct cgroup_taskset *)''),
      Field ''cancel_attach'' (CPtr ''void (struct cgroup_taskset *)''),
      Field ''attach'' (CPtr ''void (struct cgroup_taskset *)''),
      Field ''can_fork'' (CPtr ''int (struct task_struct *, struct css_set *)''),
      Field ''cancel_fork'' (CPtr ''void (struct task_struct *, struct css_set *)''),
      Field ''fork'' (CPtr ''void (struct task_struct *)''),
      Field ''exit'' (CPtr ''void (struct task_struct *)''),
      Field ''release'' (CPtr ''void (struct task_struct *)''),
      Field ''bind'' (CPtr ''void (struct cgroup_subsys_state *)''),
      BitField ''early_init'' bool 1,
      BitField ''implicit_on_dfl'' bool 1,
      BitField ''threaded'' bool 1,
      Field ''id'' c_int,
      Field ''name'' (CPtr ''const char''),
      Field ''legacy_name'' (CPtr ''const char''),
      Field ''root'' (CPtr ''struct cgroup_root''),
      Field ''css_idr'' struct_idr,
      Field ''cfts'' struct_list_head,
      Field ''dfl_cftypes'' (CPtr ''struct cftype''),
      Field ''legacy_cftypes'' (CPtr ''struct cftype''),
      Field ''depends_on'' unsigned_int,
      Field ''rstat_ss_lock'' spinlock_t,
      Field ''lhead'' (CPtr ''struct llist_head'')]"

definition struct_css_rstat_cpu :: cty where
  "struct_css_rstat_cpu = CStruct ''css_rstat_cpu'' False
     [Field ''updated_children'' (CPtr ''struct cgroup_subsys_state''),
      Field ''updated_next'' (CPtr ''struct cgroup_subsys_state''),
      Field ''lnode'' struct_llist_node,
      Field ''owner'' (CPtr ''struct cgroup_subsys_state'')]"

definition struct_simple_xattrs :: cty where
  "struct_simple_xattrs = CStruct ''simple_xattrs'' False
     [Field ''rb_root'' struct_rb_root,
      Field ''lock'' rwlock_t]"

definition struct_kernfs_iattrs :: cty where
  "struct_kernfs_iattrs = CStruct ''kernfs_iattrs'' False
     [Field ''ia_uid'' kuid_t,
      Field ''ia_gid'' kgid_t,
      Field ''ia_atime'' struct_timespec64,
      Field ''ia_mtime'' struct_timespec64,
      Field ''ia_ctime'' struct_timespec64,
      Field ''xattrs'' struct_simple_xattrs,
      Field ''nr_user_xattrs'' atomic_t,
      Field ''user_xattr_size'' atomic_t]"

definition struct_kernfs_open_node :: cty where
  "struct_kernfs_open_node = CStruct ''kernfs_open_node'' False
     [Field ''callback_head'' struct_callback_head,
      Field ''event'' atomic_t,
      Field ''poll'' wait_queue_head_t,
      Field ''files'' struct_list_head,
      Field ''nr_mmapped'' unsigned_int,
      Field ''nr_to_release'' unsigned_int]"

definition struct_kernfs_ops :: cty where
  "struct_kernfs_ops = CStruct ''kernfs_ops'' False
     [Field ''open'' (CPtr ''int (struct kernfs_open_file *)''),
      Field ''release'' (CPtr ''void (struct kernfs_open_file *)''),
      Field ''seq_show'' (CPtr ''int (struct seq_file *, void *)''),
      Field ''seq_start'' (CPtr ''void * (struct seq_file *, loff_t *)''),
      Field ''seq_next'' (CPtr ''void * (struct seq_file *, void *, loff_t *)''),
      Field ''seq_stop'' (CPtr ''void (struct seq_file *, void *)''),
      Field ''read'' (CPtr ''ssize_t (struct kernfs_open_file *, char *, size_t, loff_t)''),
      Field ''atomic_write_len'' size_t,
      Field ''prealloc'' bool,
      Field ''write'' (CPtr ''ssize_t (struct kernfs_open_file *, char *, size_t, loff_t)''),
      Field ''poll'' (CPtr ''__poll_t (struct kernfs_open_file *, struct poll_table_struct *)''),
      Field ''mmap'' (CPtr ''int (struct kernfs_open_file *, struct vm_area_struct *)''),
      Field ''llseek'' (CPtr ''loff_t (struct kernfs_open_file *, loff_t, int)'')]"

definition struct_kernfs_root :: cty where
  "struct_kernfs_root = CStruct ''kernfs_root'' False
     [Field ''kn'' (CPtr ''struct kernfs_node''),
      Field ''flags'' unsigned_int,
      Field ''ino_idr'' struct_idr,
      Field ''kernfs_idr_lock'' spinlock_t,
      Field ''last_id_lowbits'' u32,
      Field ''id_highbits'' u32,
      Field ''syscall_ops'' (CPtr ''struct kernfs_syscall_ops''),
      Field ''supers'' struct_list_head,
      Field ''deactivate_waitq'' wait_queue_head_t,
      Field ''kernfs_rwsem'' struct_rw_semaphore,
      Field ''kernfs_iattr_rwsem'' struct_rw_semaphore,
      Field ''kernfs_supers_rwsem'' struct_rw_semaphore,
      Field ''kernfs_rename_lock'' rwlock_t,
      Field ''rcu'' struct_callback_head]"

definition struct_percpu_ref_data :: cty where
  "struct_percpu_ref_data = CStruct ''percpu_ref_data'' False
     [Field ''count'' atomic_long_t,
      Field ''release'' (CPtr ''percpu_ref_func_t''),
      Field ''confirm_switch'' (CPtr ''percpu_ref_func_t''),
      BitField ''force_atomic'' bool 1,
      BitField ''allow_reinit'' bool 1,
      Field ''rcu'' struct_callback_head,
      Field ''ref'' (CPtr ''struct percpu_ref'')]"

definition struct_psi_group :: cty where
  "struct_psi_group = CStruct ''psi_group'' False
     [Field ''parent'' (CPtr ''struct psi_group''),
      Field ''enabled'' bool,
      Field ''avgs_lock'' struct_mutex,
      Field ''pcpu'' (CPtr ''struct psi_group_cpu''),
      Field ''avg_total'' (CArr 6 u64),
      Field ''avg_last_update'' u64,
      Field ''avg_next_update'' u64,
      Field ''avgs_work'' struct_delayed_work,
      Field ''avg_triggers'' struct_list_head,
      Field ''avg_nr_triggers'' (CArr 6 u32),
      Field ''total'' (CArr 12 u64),
      Field ''avg'' (CArr 18 long_unsigned_int),
      Field ''rtpoll_task'' (CPtr ''struct task_struct''),
      Field ''rtpoll_timer'' struct_timer_list,
      Field ''rtpoll_wait'' wait_queue_head_t,
      Field ''rtpoll_wakeup'' atomic_t,
      Field ''rtpoll_scheduled'' atomic_t,
      Field ''rtpoll_trigger_lock'' struct_mutex,
      Field ''rtpoll_triggers'' struct_list_head,
      Field ''rtpoll_nr_triggers'' (CArr 6 u32),
      Field ''rtpoll_states'' u32,
      Field ''rtpoll_min_period'' u64,
      Field ''rtpoll_total'' (CArr 6 u64),
      Field ''rtpoll_next_update'' u64,
      Field ''rtpoll_until'' u64]"

section \<open>Sizes and alignments\<close>

lemma struct_bpf_prog_array_item_layout [layout_simps]:
  "sizeof struct_bpf_prog_array_item = 24 \<and> alignof struct_bpf_prog_array_item = 8 \<and> wf_cty struct_bpf_prog_array_item"
  by (simp add: struct_bpf_prog_array_item_def base_types layout_eval u64_def c__u64_def
      del: One_nat_def)

lemma struct_bpf_prog_array_layout [layout_simps]:
  "sizeof struct_bpf_prog_array = 16 \<and> alignof struct_bpf_prog_array = 8 \<and> wf_cty struct_bpf_prog_array"
  by (simp add: struct_bpf_prog_array_def base_types layout_eval struct_callback_head_layout
      struct_bpf_prog_array_item_layout
      del: One_nat_def)

lemma struct_cgroup_root_layout [layout_simps]:
  "sizeof struct_cgroup_root = 6656 \<and> alignof struct_cgroup_root = 8 \<and> wf_cty struct_cgroup_root"
  by (simp add: struct_cgroup_root_def base_types layout_eval struct_list_head_layout struct_callback_head_layout
      atomic_t_layout struct_cgroup_layout
      del: One_nat_def)

lemma struct_u64_stats_sync_layout [layout_simps]:
  "sizeof struct_u64_stats_sync = 0 \<and> alignof struct_u64_stats_sync = 1 \<and> wf_cty struct_u64_stats_sync"
  by (simp add: struct_u64_stats_sync_def base_types layout_eval
      del: One_nat_def)

lemma struct_cgroup_rstat_base_cpu_layout [layout_simps]:
  "sizeof struct_cgroup_rstat_base_cpu = 160 \<and> alignof struct_cgroup_rstat_base_cpu = 8 \<and> wf_cty struct_cgroup_rstat_base_cpu"
  by (simp add: struct_cgroup_rstat_base_cpu_def base_types layout_eval struct_u64_stats_sync_layout
      struct_cgroup_base_stat_layout
      del: One_nat_def)

lemma struct_cgroup_subsys_layout [layout_simps]:
  "sizeof struct_cgroup_subsys = 256 \<and> alignof struct_cgroup_subsys = 8 \<and> wf_cty struct_cgroup_subsys"
  by (simp add: struct_cgroup_subsys_def base_types layout_eval bool_def struct_idr_layout struct_list_head_layout
      spinlock_t_def struct_spinlock_layout
      del: One_nat_def)

lemma struct_css_rstat_cpu_layout [layout_simps]:
  "sizeof struct_css_rstat_cpu = 32 \<and> alignof struct_css_rstat_cpu = 8 \<and> wf_cty struct_css_rstat_cpu"
  by (simp add: struct_css_rstat_cpu_def base_types layout_eval struct_llist_node_layout
      del: One_nat_def)

lemma struct_simple_xattrs_layout [layout_simps]:
  "sizeof struct_simple_xattrs = 16 \<and> alignof struct_simple_xattrs = 8 \<and> wf_cty struct_simple_xattrs"
  by (simp add: struct_simple_xattrs_def base_types layout_eval struct_rb_root_layout rwlock_t_def struct_rwlock_layout
      del: One_nat_def)

lemma struct_kernfs_iattrs_layout [layout_simps]:
  "sizeof struct_kernfs_iattrs = 80 \<and> alignof struct_kernfs_iattrs = 8 \<and> wf_cty struct_kernfs_iattrs"
  by (simp add: struct_kernfs_iattrs_def base_types layout_eval kuid_t_layout kgid_t_layout struct_timespec64_layout
      struct_simple_xattrs_layout atomic_t_layout
      del: One_nat_def)

lemma struct_kernfs_open_node_layout [layout_simps]:
  "sizeof struct_kernfs_open_node = 72 \<and> alignof struct_kernfs_open_node = 8 \<and> wf_cty struct_kernfs_open_node"
  by (simp add: struct_kernfs_open_node_def base_types layout_eval struct_callback_head_layout atomic_t_layout
      wait_queue_head_t_def struct_wait_queue_head_layout struct_list_head_layout
      del: One_nat_def)

lemma struct_kernfs_ops_layout [layout_simps]:
  "sizeof struct_kernfs_ops = 104 \<and> alignof struct_kernfs_ops = 8 \<and> wf_cty struct_kernfs_ops"
  by (simp add: struct_kernfs_ops_def base_types layout_eval size_t_def c__kernel_size_t_def c__kernel_ulong_t_def
      bool_def
      del: One_nat_def)

lemma struct_kernfs_root_layout [layout_simps]:
  "sizeof struct_kernfs_root = 248 \<and> alignof struct_kernfs_root = 8 \<and> wf_cty struct_kernfs_root"
  by (simp add: struct_kernfs_root_def base_types layout_eval struct_idr_layout spinlock_t_def struct_spinlock_layout
      u32_def c__u32_def struct_list_head_layout wait_queue_head_t_def struct_wait_queue_head_layout
      struct_rw_semaphore_layout rwlock_t_def struct_rwlock_layout struct_callback_head_layout
      del: One_nat_def)

lemma struct_percpu_ref_data_layout [layout_simps]:
  "sizeof struct_percpu_ref_data = 56 \<and> alignof struct_percpu_ref_data = 8 \<and> wf_cty struct_percpu_ref_data"
  by (simp add: struct_percpu_ref_data_def base_types layout_eval atomic_long_t_def atomic64_t_layout bool_def
      struct_callback_head_layout
      del: One_nat_def)

lemma struct_psi_group_layout [layout_simps]:
  "sizeof struct_psi_group = 720 \<and> alignof struct_psi_group = 8 \<and> wf_cty struct_psi_group"
  by (simp add: struct_psi_group_def base_types layout_eval bool_def struct_mutex_layout u64_def c__u64_def
      struct_delayed_work_layout struct_list_head_layout u32_def c__u32_def struct_timer_list_layout
      wait_queue_head_t_def struct_wait_queue_head_layout atomic_t_layout
      del: One_nat_def)

end
