(* ===== verification/KernelVfs.thy ===== *)
theory KernelVfs
  imports KernelCgroup KernelDrm
begin

text \<open>
  The operations and objects around the device node a client opens: inode, dentry and super block operations, mounts, and the
  block devices that share \<^verbatim>\<open>i_rdev\<close>, from \<^verbatim>\<open>bpf/vmlinux.h\<close>.
\<close>

section \<open>Types\<close>

definition struct_inode_operations :: cty where
  "struct_inode_operations = CStruct ''inode_operations'' False
     [Field ''lookup'' (CPtr ''struct dentry * (struct inode *, struct dentry *, unsigned int)''),
      Field ''get_link'' (CPtr ''const char * (struct dentry *, struct inode *, struct delayed_call *)''),
      Field ''permission'' (CPtr ''int (struct mnt_idmap *, struct inode *, int)''),
      Field ''get_inode_acl'' (CPtr ''struct posix_acl * (struct inode *, int, bool)''),
      Field ''readlink'' (CPtr ''int (struct dentry *, char *, int)''),
      Field ''create'' (CPtr ''int (struct mnt_idmap *, struct inode *, struct dentry *, umode_t, bool)''),
      Field ''link'' (CPtr ''int (struct dentry *, struct inode *, struct dentry *)''),
      Field ''unlink'' (CPtr ''int (struct inode *, struct dentry *)''),
      Field ''symlink'' (CPtr ''int (struct mnt_idmap *, struct inode *, struct dentry *, const char *)''),
      Field ''mkdir'' (CPtr ''struct dentry * (struct mnt_idmap *, struct inode *, struct dentry *, umode_t)''),
      Field ''rmdir'' (CPtr ''int (struct inode *, struct dentry *)''),
      Field ''mknod'' (CPtr ''int (struct mnt_idmap *, struct inode *, struct dentry *, umode_t, dev_t)''),
      Field ''rename'' (CPtr ''int (struct mnt_idmap *, struct inode *, struct dentry *, struct inode *, struct dentry *, unsigned int)''),
      Field ''setattr'' (CPtr ''int (struct mnt_idmap *, struct dentry *, struct iattr *)''),
      Field ''getattr'' (CPtr ''int (struct mnt_idmap *, const struct path *, struct kstat *, u32, unsigned int)''),
      Field ''listxattr'' (CPtr ''ssize_t (struct dentry *, char *, size_t)''),
      Field ''fiemap'' (CPtr ''int (struct inode *, struct fiemap_extent_info *, u64, u64)''),
      Field ''update_time'' (CPtr ''int (struct inode *, enum fs_update_time, unsigned int)''),
      Field ''sync_lazytime'' (CPtr ''void (struct inode *)''),
      Field ''atomic_open'' (CPtr ''int (struct inode *, struct dentry *, struct file *, unsigned int, umode_t)''),
      Field ''tmpfile'' (CPtr ''int (struct mnt_idmap *, struct inode *, struct file *, umode_t)''),
      Field ''get_acl'' (CPtr ''struct posix_acl * (struct mnt_idmap *, struct dentry *, int)''),
      Field ''set_acl'' (CPtr ''int (struct mnt_idmap *, struct dentry *, struct posix_acl *, int)''),
      Field ''fileattr_set'' (CPtr ''int (struct mnt_idmap *, struct dentry *, struct file_kattr *)''),
      Field ''fileattr_get'' (CPtr ''int (struct dentry *, struct file_kattr *)''),
      Field ''get_offset_ctx'' (CPtr ''struct offset_ctx * (struct inode *)''),
      BitField [] c_long 64,
      BitField [] c_long 64,
      BitField [] c_long 64,
      BitField [] c_long 64,
      BitField [] c_long 64,
      BitField [] c_long 64]"

definition struct_dentry_operations :: cty where
  "struct_dentry_operations = CStruct ''dentry_operations'' False
     [Field ''d_revalidate'' (CPtr ''int (struct inode *, const struct qstr *, struct dentry *, unsigned int)''),
      Field ''d_weak_revalidate'' (CPtr ''int (struct dentry *, unsigned int)''),
      Field ''d_hash'' (CPtr ''int (const struct dentry *, struct qstr *)''),
      Field ''d_compare'' (CPtr ''int (const struct dentry *, unsigned int, const char *, const struct qstr *)''),
      Field ''d_delete'' (CPtr ''int (const struct dentry *)''),
      Field ''d_init'' (CPtr ''int (struct dentry *)''),
      Field ''d_release'' (CPtr ''void (struct dentry *)''),
      Field ''d_prune'' (CPtr ''void (struct dentry *)''),
      Field ''d_iput'' (CPtr ''void (struct dentry *, struct inode *)''),
      Field ''d_dname'' (CPtr ''char * (struct dentry *, char *, int)''),
      Field ''d_automount'' (CPtr ''struct vfsmount * (struct path *)''),
      Field ''d_manage'' (CPtr ''int (const struct path *, bool)''),
      Field ''d_real'' (CPtr ''struct dentry * (struct dentry *, enum d_real_type)''),
      Field ''d_unalias_trylock'' (CPtr ''bool (const struct dentry *)''),
      Field ''d_unalias_unlock'' (CPtr ''void (const struct dentry *)''),
      BitField [] c_long 64]"

definition struct_super_operations :: cty where
  "struct_super_operations = CStruct ''super_operations'' False
     [Field ''alloc_inode'' (CPtr ''struct inode * (struct super_block *)''),
      Field ''destroy_inode'' (CPtr ''void (struct inode *)''),
      Field ''free_inode'' (CPtr ''void (struct inode *)''),
      Field ''dirty_inode'' (CPtr ''void (struct inode *, int)''),
      Field ''write_inode'' (CPtr ''int (struct inode *, struct writeback_control *)''),
      Field ''drop_inode'' (CPtr ''int (struct inode *)''),
      Field ''evict_inode'' (CPtr ''void (struct inode *)''),
      Field ''put_super'' (CPtr ''void (struct super_block *)''),
      Field ''sync_fs'' (CPtr ''int (struct super_block *, int)''),
      Field ''freeze_super'' (CPtr ''int (struct super_block *, enum freeze_holder, const void *)''),
      Field ''freeze_fs'' (CPtr ''int (struct super_block *)''),
      Field ''thaw_super'' (CPtr ''int (struct super_block *, enum freeze_holder, const void *)''),
      Field ''unfreeze_fs'' (CPtr ''int (struct super_block *)''),
      Field ''statfs'' (CPtr ''int (struct dentry *, struct kstatfs *)''),
      Field ''umount_begin'' (CPtr ''void (struct super_block *)''),
      Field ''show_options'' (CPtr ''int (struct seq_file *, struct dentry *)''),
      Field ''show_devname'' (CPtr ''int (struct seq_file *, struct dentry *)''),
      Field ''show_path'' (CPtr ''int (struct seq_file *, struct dentry *)''),
      Field ''show_stats'' (CPtr ''int (struct seq_file *, struct dentry *)''),
      Field ''quota_read'' (CPtr ''ssize_t (struct super_block *, int, char *, size_t, loff_t)''),
      Field ''quota_write'' (CPtr ''ssize_t (struct super_block *, int, const char *, size_t, loff_t)''),
      Field ''get_dquots'' (CPtr ''struct dquot ** (struct inode *)''),
      Field ''nr_cached_objects'' (CPtr ''long int (struct super_block *, struct shrink_control *)''),
      Field ''free_cached_objects'' (CPtr ''long int (struct super_block *, struct shrink_control *)''),
      Field ''remove_bdev'' (CPtr ''int (struct super_block *, struct block_device *)''),
      Field ''shutdown'' (CPtr ''void (struct super_block *)''),
      Field ''report_error'' (CPtr ''void (const struct fserror_event *)'')]"

definition struct_lock_class_key :: cty where
  "struct_lock_class_key = CStruct ''lock_class_key'' False
     []"

definition struct_file_system_type :: cty where
  "struct_file_system_type = CStruct ''file_system_type'' False
     [Field ''name'' (CPtr ''const char''),
      Field ''fs_flags'' c_int,
      Field ''init_fs_context'' (CPtr ''int (struct fs_context *)''),
      Field ''parameters'' (CPtr ''const struct fs_parameter_spec''),
      Field ''kill_sb'' (CPtr ''void (struct super_block *)''),
      Field ''owner'' (CPtr ''struct module''),
      Field ''next'' (CPtr ''struct file_system_type''),
      Field ''fs_supers'' struct_hlist_head,
      Field ''s_lock_key'' struct_lock_class_key,
      Field ''s_umount_key'' struct_lock_class_key,
      Field ''s_vfs_rename_key'' struct_lock_class_key,
      Field ''s_writers_key'' (CArr 3 struct_lock_class_key),
      Field ''i_lock_key'' struct_lock_class_key,
      Field ''i_mutex_key'' struct_lock_class_key,
      Field ''invalidate_lock_key'' struct_lock_class_key,
      Field ''i_mutex_dir_key'' struct_lock_class_key]"

definition struct_vfsmount :: cty where
  "struct_vfsmount = CStruct ''vfsmount'' False
     [Field ''mnt_root'' (CPtr ''struct dentry''),
      Field ''mnt_sb'' (CPtr ''struct super_block''),
      Field ''mnt_flags'' c_int,
      Field ''mnt_idmap'' (CPtr ''struct mnt_idmap'')]"

definition struct_mount :: cty where
  "struct_mount = CStruct ''mount'' False
     [Field ''mnt_hash'' struct_hlist_node,
      Field ''mnt_parent'' (CPtr ''struct mount''),
      Field ''mnt_mountpoint'' (CPtr ''struct dentry''),
      Field ''mnt'' struct_vfsmount,
      Field [] (CUnion [] False
        [Field ''mnt_node'' struct_rb_node,
         Field ''mnt_rcu'' struct_callback_head,
         Field ''mnt_llist'' struct_llist_node]),
      Field ''mnt_pcp'' (CPtr ''struct mnt_pcp''),
      Field ''mnt_mounts'' struct_list_head,
      Field ''mnt_child'' struct_list_head,
      Field ''mnt_next_for_sb'' (CPtr ''struct mount''),
      Field ''mnt_pprev_for_sb'' (CPtr ''struct mount *''),
      Field ''mnt_devname'' (CPtr ''const char''),
      Field ''mnt_list'' struct_list_head,
      Field ''mnt_expire'' struct_list_head,
      Field ''mnt_share'' struct_list_head,
      Field ''mnt_slave_list'' struct_hlist_head,
      Field ''mnt_slave'' struct_hlist_node,
      Field ''mnt_master'' (CPtr ''struct mount''),
      Field ''mnt_ns'' (CPtr ''struct mnt_namespace''),
      Field ''mnt_mp'' (CPtr ''struct mountpoint''),
      Field [] (CUnion [] False
        [Field ''mnt_mp_list'' struct_hlist_node,
         Field ''mnt_umount'' struct_hlist_node]),
      Field ''mnt_fsnotify_marks'' (CPtr ''struct fsnotify_mark_connector''),
      Field ''mnt_fsnotify_mask'' c__u32,
      Field ''to_notify'' struct_list_head,
      Field ''prev_ns'' (CPtr ''struct mnt_namespace''),
      Field ''mnt_t_flags'' c_int,
      Field ''mnt_id'' c_int,
      Field ''mnt_id_unique'' u64,
      Field ''mnt_group_id'' c_int,
      Field ''mnt_expiry_mark'' c_int,
      Field ''mnt_pins'' struct_hlist_head,
      Field ''mnt_stuck_children'' struct_hlist_head,
      Field ''overmount'' (CPtr ''struct mount'')]"

definition struct_kiocb :: cty where
  "struct_kiocb = CStruct ''kiocb'' False
     [Field ''ki_filp'' (CPtr ''struct file''),
      Field ''ki_pos'' loff_t,
      Field ''ki_complete'' (CPtr ''void (struct kiocb *, long int)''),
      Field ''private'' (CPtr ''void''),
      Field ''ki_flags'' c_int,
      Field ''ki_ioprio'' u16,
      Field ''ki_write_stream'' u8,
      Field ''ki_waitq'' (CPtr ''struct wait_page_queue'')]"

definition struct_iovec :: cty where
  "struct_iovec = CStruct ''iovec'' False
     [Field ''iov_base'' (CPtr ''void''),
      Field ''iov_len'' c__kernel_size_t]"

definition struct_iov_iter :: cty where
  "struct_iov_iter = CStruct ''iov_iter'' False
     [Field ''iter_type'' u8,
      Field ''nofault'' bool,
      Field ''data_source'' bool,
      Field ''iov_offset'' size_t,
      Field [] (CUnion [] False
        [Field ''__ubuf_iovec'' struct_iovec,
         Field [] (CStruct [] False
           [Field [] (CUnion [] False
              [Field ''__iov'' (CPtr ''const struct iovec''),
               Field ''kvec'' (CPtr ''const struct kvec''),
               Field ''bvec'' (CPtr ''const struct bio_vec''),
               Field ''folioq'' (CPtr ''const struct folio_queue''),
               Field ''xarray'' (CPtr ''struct xarray''),
               Field ''ubuf'' (CPtr ''void'')]),
            Field ''count'' size_t])]),
      Field [] (CUnion [] False
        [Field ''nr_segs'' long_unsigned_int,
         Field ''folioq_slot'' u8,
         Field ''xarray_start'' loff_t])]"

definition fl_owner_t :: cty where [layout_simps]:
  "fl_owner_t = CPtr ''void''"

definition struct_file_lock_core :: cty where
  "struct_file_lock_core = CStruct ''file_lock_core'' False
     [Field ''flc_blocker'' (CPtr ''struct file_lock_core''),
      Field ''flc_list'' struct_list_head,
      Field ''flc_link'' struct_hlist_node,
      Field ''flc_blocked_requests'' struct_list_head,
      Field ''flc_blocked_member'' struct_list_head,
      Field ''flc_owner'' fl_owner_t,
      Field ''flc_flags'' unsigned_int,
      Field ''flc_type'' unsigned_char,
      Field ''flc_pid'' pid_t,
      Field ''flc_link_cpu'' c_int,
      Field ''flc_wait'' wait_queue_head_t,
      Field ''flc_file'' (CPtr ''struct file'')]"

definition struct_nfs_lock_info :: cty where
  "struct_nfs_lock_info = CStruct ''nfs_lock_info'' False
     [Field ''state'' u32,
      Field ''owner'' (CPtr ''struct nlm_lockowner''),
      Field ''list'' struct_list_head]"

definition struct_nfs4_lock_info :: cty where
  "struct_nfs4_lock_info = CStruct ''nfs4_lock_info'' False
     [Field ''owner'' (CPtr ''struct nfs4_lock_state'')]"

definition struct_file_lock :: cty where
  "struct_file_lock = CStruct ''file_lock'' False
     [Field ''c'' struct_file_lock_core,
      Field ''fl_start'' loff_t,
      Field ''fl_end'' loff_t,
      Field ''fl_ops'' (CPtr ''const struct file_lock_operations''),
      Field ''fl_lmops'' (CPtr ''const struct lock_manager_operations''),
      Field ''fl_u'' (CUnion [] False
        [Field ''nfs_fl'' struct_nfs_lock_info,
         Field ''nfs4_fl'' struct_nfs4_lock_info,
         Field ''afs'' (CStruct [] False
           [Field ''link'' struct_list_head,
            Field ''state'' c_int,
            Field ''debug_id'' unsigned_int]),
         Field ''ceph'' (CStruct [] False
           [Field ''inode'' (CPtr ''struct inode'')])])]"

definition struct_p_log :: cty where
  "struct_p_log = CStruct ''p_log'' False
     [Field ''prefix'' (CPtr ''const char''),
      Field ''log'' (CPtr ''struct fc_log'')]"

definition enum_fs_context_purpose :: cty where
  "enum_fs_context_purpose = CEnum 4
     [(''FS_CONTEXT_FOR_MOUNT'', 0), (''FS_CONTEXT_FOR_SUBMOUNT'', 1),
      (''FS_CONTEXT_FOR_RECONFIGURE'', 2)]"

definition enum_fs_context_phase :: cty where
  "enum_fs_context_phase = CEnum 4
     [(''FS_CONTEXT_CREATE_PARAMS'', 0), (''FS_CONTEXT_CREATING'', 1),
      (''FS_CONTEXT_AWAITING_MOUNT'', 2), (''FS_CONTEXT_AWAITING_RECONF'', 3),
      (''FS_CONTEXT_RECONF_PARAMS'', 4), (''FS_CONTEXT_RECONFIGURING'', 5),
      (''FS_CONTEXT_FAILED'', 6)]"

definition struct_fs_context :: cty where
  "struct_fs_context = CStruct ''fs_context'' False
     [Field ''ops'' (CPtr ''const struct fs_context_operations''),
      Field ''uapi_mutex'' struct_mutex,
      Field ''fs_type'' (CPtr ''struct file_system_type''),
      Field ''fs_private'' (CPtr ''void''),
      Field ''sget_key'' (CPtr ''void''),
      Field ''root'' (CPtr ''struct dentry''),
      Field ''user_ns'' (CPtr ''struct user_namespace''),
      Field ''net_ns'' (CPtr ''struct net''),
      Field ''cred'' (CPtr ''const struct cred''),
      Field ''log'' struct_p_log,
      Field ''source'' (CPtr ''const char''),
      Field ''security'' (CPtr ''void''),
      Field ''s_fs_info'' (CPtr ''void''),
      Field ''sb_flags'' unsigned_int,
      Field ''sb_flags_mask'' unsigned_int,
      Field ''s_iflags'' unsigned_int,
      BitField ''purpose'' enum_fs_context_purpose 8,
      BitField ''phase'' enum_fs_context_phase 8,
      BitField ''need_free'' bool 1,
      BitField ''global'' bool 1,
      BitField ''oldapi'' bool 1,
      BitField ''exclusive'' bool 1]"

definition filldir_t :: cty where [layout_simps]:
  "filldir_t = CPtr ''bool (struct dir_context *, const char *, int, loff_t, u64, unsigned int)''"

definition struct_dir_context :: cty where
  "struct_dir_context = CStruct ''dir_context'' False
     [Field ''actor'' filldir_t,
      Field ''pos'' loff_t,
      Field ''count'' c_int,
      Field ''dt_flags_mask'' unsigned_int]"

definition struct_kstat :: cty where
  "struct_kstat = CStruct ''kstat'' False
     [Field ''result_mask'' u32,
      Field ''mode'' umode_t,
      Field ''nlink'' unsigned_int,
      Field ''blksize'' uint32_t,
      Field ''attributes'' u64,
      Field ''attributes_mask'' u64,
      Field ''ino'' u64,
      Field ''dev'' dev_t,
      Field ''rdev'' dev_t,
      Field ''uid'' kuid_t,
      Field ''gid'' kgid_t,
      Field ''size'' loff_t,
      Field ''atime'' struct_timespec64,
      Field ''mtime'' struct_timespec64,
      Field ''ctime'' struct_timespec64,
      Field ''btime'' struct_timespec64,
      Field ''blocks'' u64,
      Field ''mnt_id'' u64,
      Field ''change_cookie'' u64,
      Field ''subvol'' u64,
      Field ''dio_mem_align'' u32,
      Field ''dio_offset_align'' u32,
      Field ''dio_read_offset_align'' u32,
      Field ''atomic_write_unit_min'' u32,
      Field ''atomic_write_unit_max'' u32,
      Field ''atomic_write_unit_max_opt'' u32,
      Field ''atomic_write_segments_max'' u32]"

definition struct_export_operations :: cty where
  "struct_export_operations = CStruct ''export_operations'' False
     [Field ''encode_fh'' (CPtr ''int (struct inode *, __u32 *, int *, struct inode *)''),
      Field ''fh_to_dentry'' (CPtr ''struct dentry * (struct super_block *, struct fid *, int, int)''),
      Field ''fh_to_parent'' (CPtr ''struct dentry * (struct super_block *, struct fid *, int, int)''),
      Field ''get_name'' (CPtr ''int (struct dentry *, char *, struct dentry *)''),
      Field ''get_parent'' (CPtr ''struct dentry * (struct dentry *)''),
      Field ''commit_metadata'' (CPtr ''int (struct inode *)''),
      Field ''get_uuid'' (CPtr ''int (struct super_block *, u8 *, u32 *, u64 *)''),
      Field ''map_blocks'' (CPtr ''int (struct inode *, loff_t, u64, struct iomap *, bool, u32 *)''),
      Field ''commit_blocks'' (CPtr ''int (struct inode *, struct iomap *, int, struct iattr *)''),
      Field ''permission'' (CPtr ''int (struct handle_to_path_ctx *, unsigned int)''),
      Field ''open'' (CPtr ''struct file * (const struct path *, unsigned int)''),
      Field ''flags'' long_unsigned_int]"

definition sector_t :: cty where [layout_simps]:
  "sector_t = u64"

definition enum_dl_dev_state :: cty where
  "enum_dl_dev_state = CEnum 4
     [(''DL_DEV_NO_DRIVER'', 0), (''DL_DEV_PROBING'', 1), (''DL_DEV_DRIVER_BOUND'', 2),
      (''DL_DEV_UNBINDING'', 3)]"

definition struct_dev_links_info :: cty where
  "struct_dev_links_info = CStruct ''dev_links_info'' False
     [Field ''suppliers'' struct_list_head,
      Field ''consumers'' struct_list_head,
      Field ''defer_sync'' struct_list_head,
      Field ''status'' enum_dl_dev_state]"

definition struct_pm_message :: cty where
  "struct_pm_message = CStruct ''pm_message'' False
     [Field ''event'' c_int]"

definition pm_message_t :: cty where [layout_simps]:
  "pm_message_t = struct_pm_message"

definition struct_swait_queue_head :: cty where
  "struct_swait_queue_head = CStruct ''swait_queue_head'' False
     [Field ''lock'' raw_spinlock_t,
      Field ''task_list'' struct_list_head]"

definition struct_completion :: cty where
  "struct_completion = CStruct ''completion'' False
     [Field ''done'' unsigned_int,
      Field ''wait'' struct_swait_queue_head]"

definition enum_rpm_request :: cty where
  "enum_rpm_request = CEnum 4
     [(''RPM_REQ_NONE'', 0), (''RPM_REQ_IDLE'', 1), (''RPM_REQ_SUSPEND'', 2),
      (''RPM_REQ_AUTOSUSPEND'', 3), (''RPM_REQ_RESUME'', 4)]"

definition enum_rpm_status :: cty where
  "enum_rpm_status = CEnum 4
     [(''RPM_INVALID'', (- 1)), (''RPM_ACTIVE'', 0), (''RPM_RESUMING'', 1),
      (''RPM_SUSPENDED'', 2), (''RPM_SUSPENDING'', 3), (''RPM_BLOCKED'', 4)]"

definition struct_dev_pm_info :: cty where
  "struct_dev_pm_info = CStruct ''dev_pm_info'' False
     [Field ''power_state'' pm_message_t,
      BitField ''can_wakeup'' bool 1,
      BitField ''async_suspend'' bool 1,
      BitField ''in_dpm_list'' bool 1,
      BitField ''is_prepared'' bool 1,
      BitField ''is_suspended'' bool 1,
      BitField ''is_noirq_suspended'' bool 1,
      BitField ''is_late_suspended'' bool 1,
      BitField ''no_pm'' bool 1,
      BitField ''early_init'' bool 1,
      BitField ''direct_complete'' bool 1,
      Field ''driver_flags'' u32,
      Field ''lock'' spinlock_t,
      Field ''entry'' struct_list_head,
      Field ''completion'' struct_completion,
      Field ''wakeup'' (CPtr ''struct wakeup_source''),
      Field ''work_in_progress'' bool,
      BitField ''wakeup_path'' bool 1,
      BitField ''syscore'' bool 1,
      BitField ''no_pm_callbacks'' bool 1,
      BitField ''smart_suspend'' bool 1,
      BitField ''must_resume'' bool 1,
      BitField ''may_skip_resume'' bool 1,
      BitField ''out_band_wakeup'' bool 1,
      BitField ''strict_midlayer'' bool 1,
      Field ''suspend_timer'' struct_hrtimer,
      Field ''timer_expires'' u64,
      Field ''work'' struct_work_struct,
      Field ''wait_queue'' wait_queue_head_t,
      Field ''wakeirq'' (CPtr ''struct wake_irq''),
      Field ''usage_count'' atomic_t,
      Field ''child_count'' atomic_t,
      BitField ''disable_depth'' unsigned_int 3,
      BitField ''idle_notification'' bool 1,
      BitField ''request_pending'' bool 1,
      BitField ''deferred_resume'' bool 1,
      BitField ''needs_force_resume'' bool 1,
      BitField ''runtime_auto'' bool 1,
      BitField ''ignore_children'' bool 1,
      BitField ''no_callbacks'' bool 1,
      BitField ''irq_safe'' bool 1,
      BitField ''use_autosuspend'' bool 1,
      BitField ''timer_autosuspends'' bool 1,
      BitField ''memalloc_noio'' bool 1,
      Field ''links_count'' unsigned_int,
      Field ''request'' enum_rpm_request,
      Field ''runtime_status'' enum_rpm_status,
      Field ''last_status'' enum_rpm_status,
      Field ''runtime_error'' c_int,
      Field ''autosuspend_delay'' c_int,
      Field ''last_busy'' u64,
      Field ''active_time'' u64,
      Field ''suspended_time'' u64,
      Field ''accounting_timestamp'' u64,
      Field ''subsys_data'' (CPtr ''struct pm_subsys_data''),
      Field ''set_latency_tolerance'' (CPtr ''void (struct device *, s32)''),
      Field ''qos'' (CPtr ''struct dev_pm_qos''),
      BitField ''detach_power_off'' bool 1]"

definition struct_dev_msi_info :: cty where
  "struct_dev_msi_info = CStruct ''dev_msi_info'' False
     [Field ''domain'' (CPtr ''struct irq_domain''),
      Field ''data'' (CPtr ''struct msi_device_data'')]"

definition struct_dev_archdata :: cty where
  "struct_dev_archdata = CStruct ''dev_archdata'' False
     []"

definition enum_device_removable :: cty where
  "enum_device_removable = CEnum 4
     [(''DEVICE_REMOVABLE_NOT_SUPPORTED'', 0), (''DEVICE_REMOVABLE_UNKNOWN'', 1),
      (''DEVICE_FIXED'', 2), (''DEVICE_REMOVABLE'', 3)]"

definition struct_device :: cty where
  "struct_device = CStruct ''device'' False
     [Field ''kobj'' struct_kobject,
      Field ''parent'' (CPtr ''struct device''),
      Field ''p'' (CPtr ''struct device_private''),
      Field ''init_name'' (CPtr ''const char''),
      Field ''type'' (CPtr ''const struct device_type''),
      Field ''bus'' (CPtr ''const struct bus_type''),
      Field ''driver'' (CPtr ''struct device_driver''),
      Field ''platform_data'' (CPtr ''void''),
      Field ''driver_data'' (CPtr ''void''),
      Field ''driver_override'' (CStruct [] False
        [Field ''name'' (CPtr ''const char''),
         Field ''lock'' spinlock_t]),
      Field ''mutex'' struct_mutex,
      Field ''links'' struct_dev_links_info,
      Field ''power'' struct_dev_pm_info,
      Field ''pm_domain'' (CPtr ''struct dev_pm_domain''),
      Field ''em_pd'' (CPtr ''struct em_perf_domain''),
      Field ''pins'' (CPtr ''struct dev_pin_info''),
      Field ''msi'' struct_dev_msi_info,
      Field ''dma_ops'' (CPtr ''const struct dma_map_ops''),
      Field ''dma_mask'' (CPtr ''u64''),
      Field ''coherent_dma_mask'' u64,
      Field ''bus_dma_limit'' u64,
      Field ''dma_range_map'' (CPtr ''const struct bus_dma_region''),
      Field ''dma_parms'' (CPtr ''struct device_dma_parameters''),
      Field ''dma_pools'' struct_list_head,
      Field ''cma_area'' (CPtr ''struct cma''),
      Field ''dma_io_tlb_mem'' (CPtr ''struct io_tlb_mem''),
      Field ''dma_io_tlb_pools'' struct_list_head,
      Field ''dma_io_tlb_lock'' spinlock_t,
      Field ''dma_uses_io_tlb'' bool,
      Field ''archdata'' struct_dev_archdata,
      Field ''of_node'' (CPtr ''struct device_node''),
      Field ''fwnode'' (CPtr ''struct fwnode_handle''),
      Field ''numa_node'' c_int,
      Field ''devt'' dev_t,
      Field ''id'' u32,
      Field ''devres_lock'' spinlock_t,
      Field ''devres_head'' struct_list_head,
      Field ''class'' (CPtr ''const struct class''),
      Field ''groups'' (CPtr ''const struct attribute_group *''),
      Field ''release'' (CPtr ''void (struct device *)''),
      Field ''iommu_group'' (CPtr ''struct iommu_group''),
      Field ''iommu'' (CPtr ''struct dev_iommu''),
      Field ''physical_location'' (CPtr ''struct device_physical_location''),
      Field ''removable'' enum_device_removable,
      BitField ''offline_disabled'' bool 1,
      BitField ''offline'' bool 1,
      BitField ''of_node_reused'' bool 1,
      BitField ''state_synced'' bool 1,
      BitField ''can_match'' bool 1,
      BitField ''dma_skip_sync'' bool 1,
      BitField ''dma_iommu'' bool 1,
      Field ''flags'' (CArr 1 long_unsigned_int)]"

definition struct_block_device :: cty where
  "struct_block_device = CStruct ''block_device'' False
     [Field ''bd_start_sect'' sector_t,
      Field ''bd_nr_sectors'' sector_t,
      Field ''bd_disk'' (CPtr ''struct gendisk''),
      Field ''bd_queue'' (CPtr ''struct request_queue''),
      Field ''bd_stats'' (CPtr ''struct disk_stats''),
      Field ''bd_stamp'' long_unsigned_int,
      Field ''__bd_flags'' atomic_t,
      Field ''bd_dev'' dev_t,
      Field ''bd_mapping'' (CPtr ''struct address_space''),
      Field ''bd_openers'' atomic_t,
      Field ''bd_size_lock'' spinlock_t,
      Field ''bd_claiming'' (CPtr ''void''),
      Field ''bd_holder'' (CPtr ''void''),
      Field ''bd_holder_ops'' (CPtr ''const struct blk_holder_ops''),
      Field ''bd_holder_lock'' struct_mutex,
      Field ''bd_holders'' c_int,
      Field ''bd_holder_dir'' (CPtr ''struct kobject''),
      Field ''bd_fsfreeze_count'' atomic_t,
      Field ''bd_fsfreeze_mutex'' struct_mutex,
      Field ''bd_meta_info'' (CPtr ''struct partition_meta_info''),
      Field ''bd_writers'' c_int,
      Field ''bd_security'' (CPtr ''void''),
      Field ''bd_device'' struct_device]"

definition struct_mempool :: cty where
  "struct_mempool = CStruct ''mempool'' False
     [Field ''lock'' spinlock_t,
      Field ''min_nr'' c_int,
      Field ''curr_nr'' c_int,
      Field ''elements'' (CPtr ''void *''),
      Field ''pool_data'' (CPtr ''void''),
      Field ''alloc'' (CPtr ''mempool_alloc_t''),
      Field ''free'' (CPtr ''mempool_free_t''),
      Field ''wait'' wait_queue_head_t]"

definition mempool_t :: cty where [layout_simps]:
  "mempool_t = struct_mempool"

definition struct_bio_list :: cty where
  "struct_bio_list = CStruct ''bio_list'' False
     [Field ''head'' (CPtr ''struct bio''),
      Field ''tail'' (CPtr ''struct bio'')]"

definition struct_bio_set :: cty where
  "struct_bio_set = CStruct ''bio_set'' False
     [Field ''bio_slab'' (CPtr ''struct kmem_cache''),
      Field ''front_pad'' unsigned_int,
      Field ''cache'' (CPtr ''struct bio_alloc_cache''),
      Field ''bio_pool'' mempool_t,
      Field ''bvec_pool'' mempool_t,
      Field ''back_pad'' unsigned_int,
      Field ''rescue_lock'' spinlock_t,
      Field ''rescue_list'' struct_bio_list,
      Field ''rescue_work'' struct_work_struct,
      Field ''rescue_workqueue'' (CPtr ''struct workqueue_struct''),
      Field ''cpuhp_dead'' struct_hlist_node]"

definition struct_lockdep_map :: cty where
  "struct_lockdep_map = CStruct ''lockdep_map'' False
     []"

definition blk_mode_t :: cty where [layout_simps]:
  "blk_mode_t = unsigned_int"

definition struct_gendisk :: cty where
  "struct_gendisk = CStruct ''gendisk'' False
     [Field ''major'' c_int,
      Field ''first_minor'' c_int,
      Field ''minors'' c_int,
      Field ''disk_name'' (CArr 32 c_char),
      Field ''events'' short_unsigned_int,
      Field ''event_flags'' short_unsigned_int,
      Field ''part_tbl'' struct_xarray,
      Field ''part0'' (CPtr ''struct block_device''),
      Field ''fops'' (CPtr ''const struct block_device_operations''),
      Field ''queue'' (CPtr ''struct request_queue''),
      Field ''private_data'' (CPtr ''void''),
      Field ''bio_split'' struct_bio_set,
      Field ''flags'' c_int,
      Field ''state'' long_unsigned_int,
      Field ''open_mutex'' struct_mutex,
      Field ''open_partitions'' unsigned_int,
      Field ''bdi'' (CPtr ''struct backing_dev_info''),
      Field ''queue_kobj'' struct_kobject,
      Field ''slave_dir'' (CPtr ''struct kobject''),
      Field ''slave_bdevs'' struct_list_head,
      Field ''random'' (CPtr ''struct timer_rand_state''),
      Field ''ev'' (CPtr ''struct disk_events''),
      Field ''nr_zones'' unsigned_int,
      Field ''zone_capacity'' unsigned_int,
      Field ''last_zone_capacity'' unsigned_int,
      Field ''zones_cond'' (CPtr ''u8''),
      Field ''zone_wplugs_hash_bits'' unsigned_int,
      Field ''nr_zone_wplugs'' atomic_t,
      Field ''zone_wplugs_hash_lock'' spinlock_t,
      Field ''zone_wplugs_pool'' (CPtr ''struct mempool''),
      Field ''zone_wplugs_hash'' (CPtr ''struct hlist_head''),
      Field ''zone_wplugs_wq'' (CPtr ''struct workqueue_struct''),
      Field ''zone_wplugs_list_lock'' spinlock_t,
      Field ''zone_wplugs_list'' struct_list_head,
      Field ''zone_wplugs_worker'' (CPtr ''struct task_struct''),
      Field ''zone_wplugs_worker_bio_done'' struct_completion,
      Field ''cdi'' (CPtr ''struct cdrom_device_info''),
      Field ''node_id'' c_int,
      Field ''bb'' (CPtr ''struct badblocks''),
      Field ''lockdep_map'' struct_lockdep_map,
      Field ''diskseq'' u64,
      Field ''open_mode'' blk_mode_t,
      Field ''ia_ranges'' (CPtr ''struct blk_independent_access_ranges''),
      Field ''rqos_state_mutex'' struct_mutex]"

definition blk_opf_t :: cty where [layout_simps]:
  "blk_opf_t = c__u32"

definition blk_status_t :: cty where [layout_simps]:
  "blk_status_t = u8"

definition struct_bvec_iter :: cty where
  "struct_bvec_iter = CStruct ''bvec_iter'' True
     [Field ''bi_sector'' sector_t,
      Field ''bi_size'' unsigned_int,
      Field ''bi_idx'' unsigned_int,
      Field ''bi_bvec_done'' unsigned_int]"

definition blk_qc_t :: cty where [layout_simps]:
  "blk_qc_t = unsigned_int"

definition struct_bio :: cty where
  "struct_bio = CStruct ''bio'' False
     [Field ''bi_next'' (CPtr ''struct bio''),
      Field ''bi_bdev'' (CPtr ''struct block_device''),
      Field ''bi_opf'' blk_opf_t,
      Field ''bi_flags'' short_unsigned_int,
      Field ''bi_ioprio'' short_unsigned_int,
      Field ''bi_write_hint'' enum_rw_hint,
      Field ''bi_write_stream'' u8,
      Field ''bi_status'' blk_status_t,
      Field ''bi_bvec_gap_bit'' u8,
      Field ''__bi_remaining'' atomic_t,
      Field ''bi_io_vec'' (CPtr ''struct bio_vec''),
      Field ''bi_iter'' struct_bvec_iter,
      Field [] (CUnion [] False
        [Field ''bi_cookie'' blk_qc_t,
         Field ''__bi_nr_segments'' unsigned_int]),
      Field ''bi_end_io'' (CPtr ''bio_end_io_t''),
      Field ''bi_private'' (CPtr ''void''),
      Field ''bi_blkg'' (CPtr ''struct blkcg_gq''),
      Field ''issue_time_ns'' u64,
      Field ''bi_iocost_cost'' u64,
      Field ''bi_crypt_context'' (CPtr ''struct bio_crypt_ctx''),
      Field ''bi_integrity'' (CPtr ''struct bio_integrity_payload''),
      Field ''bi_vcnt'' short_unsigned_int,
      Field ''bi_max_vecs'' short_unsigned_int,
      Field ''__bi_cnt'' atomic_t,
      Field ''bi_pool'' (CPtr ''struct bio_set'')]"

definition blk_features_t :: cty where [layout_simps]:
  "blk_features_t = unsigned_int"

definition blk_flags_t :: cty where [layout_simps]:
  "blk_flags_t = unsigned_int"

definition enum_blk_integrity_checksum :: cty where
  "enum_blk_integrity_checksum = CEnum 1
     [(''BLK_INTEGRITY_CSUM_NONE'', 0), (''BLK_INTEGRITY_CSUM_IP'', 1),
      (''BLK_INTEGRITY_CSUM_CRC'', 2), (''BLK_INTEGRITY_CSUM_CRC64'', 3)]"

definition struct_blk_integrity :: cty where
  "struct_blk_integrity = CStruct ''blk_integrity'' False
     [Field ''flags'' unsigned_char,
      Field ''csum_type'' enum_blk_integrity_checksum,
      Field ''metadata_size'' unsigned_char,
      Field ''pi_offset'' unsigned_char,
      Field ''interval_exp'' unsigned_char,
      Field ''tag_size'' unsigned_char,
      Field ''pi_tuple_size'' unsigned_char]"

definition struct_queue_limits :: cty where
  "struct_queue_limits = CStruct ''queue_limits'' False
     [Field ''features'' blk_features_t,
      Field ''flags'' blk_flags_t,
      Field ''seg_boundary_mask'' long_unsigned_int,
      Field ''virt_boundary_mask'' long_unsigned_int,
      Field ''max_hw_sectors'' unsigned_int,
      Field ''max_dev_sectors'' unsigned_int,
      Field ''chunk_sectors'' unsigned_int,
      Field ''max_sectors'' unsigned_int,
      Field ''max_user_sectors'' unsigned_int,
      Field ''max_segment_size'' unsigned_int,
      Field ''max_fast_segment_size'' unsigned_int,
      Field ''physical_block_size'' unsigned_int,
      Field ''logical_block_size'' unsigned_int,
      Field ''alignment_offset'' unsigned_int,
      Field ''io_min'' unsigned_int,
      Field ''io_opt'' unsigned_int,
      Field ''max_discard_sectors'' unsigned_int,
      Field ''max_hw_discard_sectors'' unsigned_int,
      Field ''max_user_discard_sectors'' unsigned_int,
      Field ''max_secure_erase_sectors'' unsigned_int,
      Field ''max_write_zeroes_sectors'' unsigned_int,
      Field ''max_wzeroes_unmap_sectors'' unsigned_int,
      Field ''max_hw_wzeroes_unmap_sectors'' unsigned_int,
      Field ''max_user_wzeroes_unmap_sectors'' unsigned_int,
      Field ''max_hw_zone_append_sectors'' unsigned_int,
      Field ''max_zone_append_sectors'' unsigned_int,
      Field ''discard_granularity'' unsigned_int,
      Field ''discard_alignment'' unsigned_int,
      Field ''zone_write_granularity'' unsigned_int,
      Field ''atomic_write_hw_max'' unsigned_int,
      Field ''atomic_write_max_sectors'' unsigned_int,
      Field ''atomic_write_hw_boundary'' unsigned_int,
      Field ''atomic_write_boundary_sectors'' unsigned_int,
      Field ''atomic_write_hw_unit_min'' unsigned_int,
      Field ''atomic_write_unit_min'' unsigned_int,
      Field ''atomic_write_hw_unit_max'' unsigned_int,
      Field ''atomic_write_unit_max'' unsigned_int,
      Field ''max_segments'' short_unsigned_int,
      Field ''max_integrity_segments'' short_unsigned_int,
      Field ''max_discard_segments'' short_unsigned_int,
      Field ''max_write_streams'' short_unsigned_int,
      Field ''write_stream_granularity'' unsigned_int,
      Field ''max_open_zones'' unsigned_int,
      Field ''max_active_zones'' unsigned_int,
      Field ''dma_alignment'' unsigned_int,
      Field ''dma_pad_mask'' unsigned_int,
      Field ''integrity'' struct_blk_integrity]"

definition struct_request_queue :: cty where
  "struct_request_queue = CStruct ''request_queue'' False
     [Field ''queuedata'' (CPtr ''void''),
      Field ''elevator'' (CPtr ''struct elevator_queue''),
      Field ''mq_ops'' (CPtr ''const struct blk_mq_ops''),
      Field ''queue_ctx'' (CPtr ''struct blk_mq_ctx''),
      Field ''queue_flags'' long_unsigned_int,
      Field ''rq_timeout'' unsigned_int,
      Field ''queue_depth'' unsigned_int,
      Field ''refs'' refcount_t,
      Field ''nr_hw_queues'' unsigned_int,
      Field ''queue_hw_ctx'' (CPtr ''struct blk_mq_hw_ctx *''),
      Field ''q_usage_counter'' struct_percpu_ref,
      Field ''io_lock_cls_key'' struct_lock_class_key,
      Field ''io_lockdep_map'' struct_lockdep_map,
      Field ''q_lock_cls_key'' struct_lock_class_key,
      Field ''q_lockdep_map'' struct_lockdep_map,
      Field ''last_merge'' (CPtr ''struct request''),
      Field ''queue_lock'' spinlock_t,
      Field ''quiesce_depth'' c_int,
      Field ''disk'' (CPtr ''struct gendisk''),
      Field ''mq_kobj'' (CPtr ''struct kobject''),
      Field ''limits'' struct_queue_limits,
      Field ''dev'' (CPtr ''struct device''),
      Field ''rpm_status'' enum_rpm_status,
      Field ''pm_only'' atomic_t,
      Field ''stats'' (CPtr ''struct blk_queue_stats''),
      Field ''rq_qos'' (CPtr ''struct rq_qos''),
      Field ''rq_qos_mutex'' struct_mutex,
      Field ''id'' c_int,
      Field ''nr_requests'' unsigned_int,
      Field ''async_depth'' unsigned_int,
      Field ''crypto_profile'' (CPtr ''struct blk_crypto_profile''),
      Field ''crypto_kobject'' (CPtr ''struct kobject''),
      Field ''timeout'' struct_timer_list,
      Field ''timeout_work'' struct_work_struct,
      Field ''nr_active_requests_shared_tags'' atomic_t,
      Field ''sched_shared_tags'' (CPtr ''struct blk_mq_tags''),
      Field ''icq_list'' struct_list_head,
      Field ''blkcg_pols'' (CArr 1 long_unsigned_int),
      Field ''root_blkg'' (CPtr ''struct blkcg_gq''),
      Field ''blkg_list'' struct_list_head,
      Field ''blkcg_mutex'' struct_mutex,
      Field ''node'' c_int,
      Field ''requeue_lock'' spinlock_t,
      Field ''requeue_list'' struct_list_head,
      Field ''requeue_work'' struct_delayed_work,
      Field ''blk_trace'' (CPtr ''struct blk_trace''),
      Field ''fq'' (CPtr ''struct blk_flush_queue''),
      Field ''flush_list'' struct_list_head,
      Field ''elevator_lock'' struct_mutex,
      Field ''sysfs_lock'' struct_mutex,
      Field ''limits_lock'' struct_mutex,
      Field ''unused_hctx_list'' struct_list_head,
      Field ''unused_hctx_lock'' spinlock_t,
      Field ''mq_freeze_depth'' c_int,
      Field ''td'' (CPtr ''struct throtl_data''),
      Field ''callback_head'' struct_callback_head,
      Field ''mq_freeze_wq'' wait_queue_head_t,
      Field ''mq_freeze_lock'' struct_mutex,
      Field ''tag_set'' (CPtr ''struct blk_mq_tag_set''),
      Field ''tag_set_list'' struct_list_head,
      Field ''debugfs_dir'' (CPtr ''struct dentry''),
      Field ''sched_debugfs_dir'' (CPtr ''struct dentry''),
      Field ''rqos_debugfs_dir'' (CPtr ''struct dentry''),
      Field ''debugfs_mutex'' struct_mutex]"

section \<open>Sizes and alignments\<close>

lemma struct_inode_operations_layout [layout_simps]:
  "sizeof struct_inode_operations = 256 \<and> alignof struct_inode_operations = 8 \<and> wf_cty struct_inode_operations"
  by (simp add: struct_inode_operations_def base_types layout_eval
      del: One_nat_def)

lemma struct_dentry_operations_layout [layout_simps]:
  "sizeof struct_dentry_operations = 128 \<and> alignof struct_dentry_operations = 8 \<and> wf_cty struct_dentry_operations"
  by (simp add: struct_dentry_operations_def base_types layout_eval
      del: One_nat_def)

lemma struct_super_operations_layout [layout_simps]:
  "sizeof struct_super_operations = 216 \<and> alignof struct_super_operations = 8 \<and> wf_cty struct_super_operations"
  by (simp add: struct_super_operations_def base_types layout_eval
      del: One_nat_def)

lemma struct_lock_class_key_layout [layout_simps]:
  "sizeof struct_lock_class_key = 0 \<and> alignof struct_lock_class_key = 1 \<and> wf_cty struct_lock_class_key"
  by (simp add: struct_lock_class_key_def base_types layout_eval
      del: One_nat_def)

lemma struct_file_system_type_layout [layout_simps]:
  "sizeof struct_file_system_type = 64 \<and> alignof struct_file_system_type = 8 \<and> wf_cty struct_file_system_type"
  by (simp add: struct_file_system_type_def base_types layout_eval struct_hlist_head_layout struct_lock_class_key_layout
      del: One_nat_def)

lemma struct_vfsmount_layout [layout_simps]:
  "sizeof struct_vfsmount = 32 \<and> alignof struct_vfsmount = 8 \<and> wf_cty struct_vfsmount"
  by (simp add: struct_vfsmount_def base_types layout_eval
      del: One_nat_def)

lemma struct_mount_layout [layout_simps]:
  "sizeof struct_mount = 352 \<and> alignof struct_mount = 8 \<and> wf_cty struct_mount"
  by (simp add: struct_mount_def base_types layout_eval struct_hlist_node_layout struct_vfsmount_layout
      struct_rb_node_layout struct_callback_head_layout struct_llist_node_layout struct_list_head_layout
      struct_hlist_head_layout c__u32_def u64_def c__u64_def
      del: One_nat_def)

lemma struct_kiocb_layout [layout_simps]:
  "sizeof struct_kiocb = 48 \<and> alignof struct_kiocb = 8 \<and> wf_cty struct_kiocb"
  by (simp add: struct_kiocb_def base_types layout_eval loff_t_def c__kernel_loff_t_def u16_def c__u16_def u8_def
      c__u8_def
      del: One_nat_def)

lemma struct_iovec_layout [layout_simps]:
  "sizeof struct_iovec = 16 \<and> alignof struct_iovec = 8 \<and> wf_cty struct_iovec"
  by (simp add: struct_iovec_def base_types layout_eval c__kernel_size_t_def c__kernel_ulong_t_def
      del: One_nat_def)

lemma struct_iov_iter_layout [layout_simps]:
  "sizeof struct_iov_iter = 40 \<and> alignof struct_iov_iter = 8 \<and> wf_cty struct_iov_iter"
  by (simp add: struct_iov_iter_def base_types layout_eval u8_def c__u8_def bool_def size_t_def c__kernel_size_t_def
      c__kernel_ulong_t_def struct_iovec_layout loff_t_def c__kernel_loff_t_def
      del: One_nat_def)

lemma struct_file_lock_core_layout [layout_simps]:
  "sizeof struct_file_lock_core = 128 \<and> alignof struct_file_lock_core = 8 \<and> wf_cty struct_file_lock_core"
  by (simp add: struct_file_lock_core_def base_types layout_eval struct_list_head_layout struct_hlist_node_layout
      fl_owner_t_def pid_t_def c__kernel_pid_t_def wait_queue_head_t_def struct_wait_queue_head_layout
      del: One_nat_def)

lemma struct_nfs_lock_info_layout [layout_simps]:
  "sizeof struct_nfs_lock_info = 32 \<and> alignof struct_nfs_lock_info = 8 \<and> wf_cty struct_nfs_lock_info"
  by (simp add: struct_nfs_lock_info_def base_types layout_eval u32_def c__u32_def struct_list_head_layout
      del: One_nat_def)

lemma struct_nfs4_lock_info_layout [layout_simps]:
  "sizeof struct_nfs4_lock_info = 8 \<and> alignof struct_nfs4_lock_info = 8 \<and> wf_cty struct_nfs4_lock_info"
  by (simp add: struct_nfs4_lock_info_def base_types layout_eval
      del: One_nat_def)

lemma struct_file_lock_layout [layout_simps]:
  "sizeof struct_file_lock = 192 \<and> alignof struct_file_lock = 8 \<and> wf_cty struct_file_lock"
  by (simp add: struct_file_lock_def base_types layout_eval struct_file_lock_core_layout loff_t_def c__kernel_loff_t_def
      struct_nfs_lock_info_layout struct_nfs4_lock_info_layout struct_list_head_layout
      del: One_nat_def)

lemma struct_p_log_layout [layout_simps]:
  "sizeof struct_p_log = 16 \<and> alignof struct_p_log = 8 \<and> wf_cty struct_p_log"
  by (simp add: struct_p_log_def base_types layout_eval
      del: One_nat_def)

lemma enum_fs_context_purpose_layout [layout_simps]:
  "sizeof enum_fs_context_purpose = 4 \<and> alignof enum_fs_context_purpose = 4 \<and> wf_cty enum_fs_context_purpose"
  by (simp add: enum_fs_context_purpose_def base_types layout_eval
      del: One_nat_def)

lemma enum_fs_context_phase_layout [layout_simps]:
  "sizeof enum_fs_context_phase = 4 \<and> alignof enum_fs_context_phase = 4 \<and> wf_cty enum_fs_context_phase"
  by (simp add: enum_fs_context_phase_def base_types layout_eval
      del: One_nat_def)

lemma struct_fs_context_layout [layout_simps]:
  "sizeof struct_fs_context = 152 \<and> alignof struct_fs_context = 8 \<and> wf_cty struct_fs_context"
  by (simp add: struct_fs_context_def base_types layout_eval struct_mutex_layout struct_p_log_layout
      enum_fs_context_purpose_layout enum_fs_context_phase_layout bool_def enum_fs_context_phase_def
      enum_fs_context_purpose_def
      del: One_nat_def)

lemma struct_dir_context_layout [layout_simps]:
  "sizeof struct_dir_context = 24 \<and> alignof struct_dir_context = 8 \<and> wf_cty struct_dir_context"
  by (simp add: struct_dir_context_def base_types layout_eval filldir_t_def loff_t_def c__kernel_loff_t_def
      del: One_nat_def)

lemma struct_kstat_layout [layout_simps]:
  "sizeof struct_kstat = 192 \<and> alignof struct_kstat = 8 \<and> wf_cty struct_kstat"
  by (simp add: struct_kstat_def base_types layout_eval u32_def c__u32_def umode_t_def uint32_t_def u64_def c__u64_def
      dev_t_def c__kernel_dev_t_def kuid_t_layout kgid_t_layout loff_t_def c__kernel_loff_t_def
      struct_timespec64_layout
      del: One_nat_def)

lemma struct_export_operations_layout [layout_simps]:
  "sizeof struct_export_operations = 96 \<and> alignof struct_export_operations = 8 \<and> wf_cty struct_export_operations"
  by (simp add: struct_export_operations_def base_types layout_eval
      del: One_nat_def)

lemma enum_dl_dev_state_layout [layout_simps]:
  "sizeof enum_dl_dev_state = 4 \<and> alignof enum_dl_dev_state = 4 \<and> wf_cty enum_dl_dev_state"
  by (simp add: enum_dl_dev_state_def base_types layout_eval
      del: One_nat_def)

lemma struct_dev_links_info_layout [layout_simps]:
  "sizeof struct_dev_links_info = 56 \<and> alignof struct_dev_links_info = 8 \<and> wf_cty struct_dev_links_info"
  by (simp add: struct_dev_links_info_def base_types layout_eval struct_list_head_layout enum_dl_dev_state_layout
      del: One_nat_def)

lemma struct_pm_message_layout [layout_simps]:
  "sizeof struct_pm_message = 4 \<and> alignof struct_pm_message = 4 \<and> wf_cty struct_pm_message"
  by (simp add: struct_pm_message_def base_types layout_eval
      del: One_nat_def)

lemma struct_swait_queue_head_layout [layout_simps]:
  "sizeof struct_swait_queue_head = 24 \<and> alignof struct_swait_queue_head = 8 \<and> wf_cty struct_swait_queue_head"
  by (simp add: struct_swait_queue_head_def base_types layout_eval raw_spinlock_t_def struct_raw_spinlock_layout
      struct_list_head_layout
      del: One_nat_def)

lemma struct_completion_layout [layout_simps]:
  "sizeof struct_completion = 32 \<and> alignof struct_completion = 8 \<and> wf_cty struct_completion"
  by (simp add: struct_completion_def base_types layout_eval struct_swait_queue_head_layout
      del: One_nat_def)

lemma enum_rpm_request_layout [layout_simps]:
  "sizeof enum_rpm_request = 4 \<and> alignof enum_rpm_request = 4 \<and> wf_cty enum_rpm_request"
  by (simp add: enum_rpm_request_def base_types layout_eval
      del: One_nat_def)

lemma enum_rpm_status_layout [layout_simps]:
  "sizeof enum_rpm_status = 4 \<and> alignof enum_rpm_status = 4 \<and> wf_cty enum_rpm_status"
  by (simp add: enum_rpm_status_def base_types layout_eval
      del: One_nat_def)

lemma struct_dev_pm_info_layout [layout_simps]:
  "sizeof struct_dev_pm_info = 320 \<and> alignof struct_dev_pm_info = 8 \<and> wf_cty struct_dev_pm_info"
  by (simp add: struct_dev_pm_info_def base_types layout_eval pm_message_t_def struct_pm_message_layout bool_def u32_def
      c__u32_def spinlock_t_def struct_spinlock_layout struct_list_head_layout struct_completion_layout
      struct_hrtimer_layout u64_def c__u64_def struct_work_struct_layout wait_queue_head_t_def
      struct_wait_queue_head_layout atomic_t_layout enum_rpm_request_layout enum_rpm_status_layout
      del: One_nat_def)

lemma struct_dev_msi_info_layout [layout_simps]:
  "sizeof struct_dev_msi_info = 16 \<and> alignof struct_dev_msi_info = 8 \<and> wf_cty struct_dev_msi_info"
  by (simp add: struct_dev_msi_info_def base_types layout_eval
      del: One_nat_def)

lemma struct_dev_archdata_layout [layout_simps]:
  "sizeof struct_dev_archdata = 0 \<and> alignof struct_dev_archdata = 1 \<and> wf_cty struct_dev_archdata"
  by (simp add: struct_dev_archdata_def base_types layout_eval
      del: One_nat_def)

lemma enum_device_removable_layout [layout_simps]:
  "sizeof enum_device_removable = 4 \<and> alignof enum_device_removable = 4 \<and> wf_cty enum_device_removable"
  by (simp add: enum_device_removable_def base_types layout_eval
      del: One_nat_def)

lemma struct_device_layout [layout_simps]:
  "sizeof struct_device = 808 \<and> alignof struct_device = 8 \<and> wf_cty struct_device"
  by (simp add: struct_device_def base_types layout_eval struct_kobject_layout spinlock_t_def struct_spinlock_layout
      struct_mutex_layout struct_dev_links_info_layout struct_dev_pm_info_layout
      struct_dev_msi_info_layout u64_def c__u64_def struct_list_head_layout bool_def
      struct_dev_archdata_layout dev_t_def c__kernel_dev_t_def u32_def c__u32_def
      enum_device_removable_layout
      del: One_nat_def)

lemma struct_block_device_layout [layout_simps]:
  "sizeof struct_block_device = 1016 \<and> alignof struct_block_device = 8 \<and> wf_cty struct_block_device"
  by (simp add: struct_block_device_def base_types layout_eval sector_t_def u64_def c__u64_def atomic_t_layout dev_t_def
      c__kernel_dev_t_def u32_def c__u32_def spinlock_t_def struct_spinlock_layout struct_mutex_layout
      struct_device_layout
      del: One_nat_def)

lemma struct_mempool_layout [layout_simps]:
  "sizeof struct_mempool = 72 \<and> alignof struct_mempool = 8 \<and> wf_cty struct_mempool"
  by (simp add: struct_mempool_def base_types layout_eval spinlock_t_def struct_spinlock_layout wait_queue_head_t_def
      struct_wait_queue_head_layout
      del: One_nat_def)

lemma struct_bio_list_layout [layout_simps]:
  "sizeof struct_bio_list = 16 \<and> alignof struct_bio_list = 8 \<and> wf_cty struct_bio_list"
  by (simp add: struct_bio_list_def base_types layout_eval
      del: One_nat_def)

lemma struct_bio_set_layout [layout_simps]:
  "sizeof struct_bio_set = 248 \<and> alignof struct_bio_set = 8 \<and> wf_cty struct_bio_set"
  by (simp add: struct_bio_set_def base_types layout_eval mempool_t_def struct_mempool_layout spinlock_t_def
      struct_spinlock_layout struct_bio_list_layout struct_work_struct_layout struct_hlist_node_layout
      del: One_nat_def)

lemma struct_lockdep_map_layout [layout_simps]:
  "sizeof struct_lockdep_map = 0 \<and> alignof struct_lockdep_map = 1 \<and> wf_cty struct_lockdep_map"
  by (simp add: struct_lockdep_map_def base_types layout_eval
      del: One_nat_def)

lemma struct_gendisk_layout [layout_simps]:
  "sizeof struct_gendisk = 720 \<and> alignof struct_gendisk = 8 \<and> wf_cty struct_gendisk"
  by (simp add: struct_gendisk_def base_types layout_eval struct_xarray_layout struct_bio_set_layout struct_mutex_layout
      struct_kobject_layout struct_list_head_layout atomic_t_layout spinlock_t_def struct_spinlock_layout
      struct_completion_layout struct_lockdep_map_layout u64_def c__u64_def blk_mode_t_def
      del: One_nat_def)

lemma struct_bvec_iter_layout [layout_simps]:
  "sizeof struct_bvec_iter = 20 \<and> alignof struct_bvec_iter = 1 \<and> wf_cty struct_bvec_iter"
  by (simp add: struct_bvec_iter_def base_types layout_eval sector_t_def u64_def c__u64_def
      del: One_nat_def)

lemma struct_bio_layout [layout_simps]:
  "sizeof struct_bio = 136 \<and> alignof struct_bio = 8 \<and> wf_cty struct_bio"
  by (simp add: struct_bio_def base_types layout_eval blk_opf_t_def c__u32_def enum_rw_hint_layout u8_def c__u8_def
      blk_status_t_def atomic_t_layout struct_bvec_iter_layout blk_qc_t_def u64_def c__u64_def
      del: One_nat_def)

lemma enum_blk_integrity_checksum_layout [layout_simps]:
  "sizeof enum_blk_integrity_checksum = 1 \<and> alignof enum_blk_integrity_checksum = 1 \<and> wf_cty enum_blk_integrity_checksum"
  by (simp add: enum_blk_integrity_checksum_def base_types layout_eval
      del: One_nat_def)

lemma struct_blk_integrity_layout [layout_simps]:
  "sizeof struct_blk_integrity = 7 \<and> alignof struct_blk_integrity = 1 \<and> wf_cty struct_blk_integrity"
  by (simp add: struct_blk_integrity_def base_types layout_eval enum_blk_integrity_checksum_layout
      del: One_nat_def)

lemma struct_queue_limits_layout [layout_simps]:
  "sizeof struct_queue_limits = 192 \<and> alignof struct_queue_limits = 8 \<and> wf_cty struct_queue_limits"
  by (simp add: struct_queue_limits_def base_types layout_eval blk_features_t_def blk_flags_t_def
      struct_blk_integrity_layout
      del: One_nat_def)

lemma struct_request_queue_layout [layout_simps]:
  "sizeof struct_request_queue = 992 \<and> alignof struct_request_queue = 8 \<and> wf_cty struct_request_queue"
  by (simp add: struct_request_queue_def base_types layout_eval refcount_t_def struct_refcount_struct_layout
      struct_percpu_ref_layout struct_lock_class_key_layout struct_lockdep_map_layout spinlock_t_def
      struct_spinlock_layout struct_queue_limits_layout enum_rpm_status_layout atomic_t_layout
      struct_mutex_layout struct_timer_list_layout struct_work_struct_layout struct_list_head_layout
      struct_delayed_work_layout struct_callback_head_layout wait_queue_head_t_def
      struct_wait_queue_head_layout
      del: One_nat_def)

end
