(* ===== verification/KernelDev.thy ===== *)
theory KernelDev
  imports KernelBpf KernelVfs
begin

text \<open>
  The driver model behind \<^verbatim>\<open>/sys/class/drm\<close> and \<^verbatim>\<open>/sys/class/accel\<close>, which the agent reads: devices, drivers, buses, classes
  and PCI devices, from \<^verbatim>\<open>bpf/vmlinux.h\<close>.
\<close>

section \<open>Types\<close>

definition enum_probe_type :: cty where
  "enum_probe_type = CEnum 4
     [(''PROBE_DEFAULT_STRATEGY'', 0), (''PROBE_PREFER_ASYNCHRONOUS'', 1),
      (''PROBE_FORCE_SYNCHRONOUS'', 2)]"

definition struct_device_driver :: cty where
  "struct_device_driver = CStruct ''device_driver'' False
     [Field ''name'' (CPtr ''const char''),
      Field ''bus'' (CPtr ''const struct bus_type''),
      Field ''owner'' (CPtr ''struct module''),
      Field ''mod_name'' (CPtr ''const char''),
      Field ''suppress_bind_attrs'' bool,
      Field ''probe_type'' enum_probe_type,
      Field ''of_match_table'' (CPtr ''const struct of_device_id''),
      Field ''acpi_match_table'' (CPtr ''const struct acpi_device_id''),
      Field ''probe'' (CPtr ''int (struct device *)''),
      Field ''sync_state'' (CPtr ''void (struct device *)''),
      Field ''remove'' (CPtr ''int (struct device *)''),
      Field ''shutdown'' (CPtr ''void (struct device *)''),
      Field ''suspend'' (CPtr ''int (struct device *, pm_message_t)''),
      Field ''resume'' (CPtr ''int (struct device *)''),
      Field ''groups'' (CPtr ''const struct attribute_group *''),
      Field ''dev_groups'' (CPtr ''const struct attribute_group *''),
      Field ''pm'' (CPtr ''const struct dev_pm_ops''),
      Field ''coredump'' (CPtr ''void (struct device *)''),
      Field ''p'' (CPtr ''struct driver_private''),
      Field ''p_cb'' (CStruct [] False
        [Field ''post_unbind_rust'' (CPtr ''void (struct device *)'')])]"

definition struct_bus_type :: cty where
  "struct_bus_type = CStruct ''bus_type'' False
     [Field ''name'' (CPtr ''const char''),
      Field ''dev_name'' (CPtr ''const char''),
      Field ''bus_groups'' (CPtr ''const struct attribute_group *''),
      Field ''dev_groups'' (CPtr ''const struct attribute_group *''),
      Field ''drv_groups'' (CPtr ''const struct attribute_group *''),
      Field ''match'' (CPtr ''int (struct device *, const struct device_driver *)''),
      Field ''uevent'' (CPtr ''int (const struct device *, struct kobj_uevent_env *)''),
      Field ''probe'' (CPtr ''int (struct device *)''),
      Field ''sync_state'' (CPtr ''void (struct device *)''),
      Field ''remove'' (CPtr ''void (struct device *)''),
      Field ''shutdown'' (CPtr ''void (struct device *)''),
      Field ''irq_get_affinity'' (CPtr ''const struct cpumask * (struct device *, unsigned int)''),
      Field ''online'' (CPtr ''int (struct device *)''),
      Field ''offline'' (CPtr ''int (struct device *)''),
      Field ''suspend'' (CPtr ''int (struct device *, pm_message_t)''),
      Field ''resume'' (CPtr ''int (struct device *)''),
      Field ''num_vf'' (CPtr ''int (struct device *)''),
      Field ''dma_configure'' (CPtr ''int (struct device *)''),
      Field ''dma_cleanup'' (CPtr ''void (struct device *)''),
      Field ''pm'' (CPtr ''const struct dev_pm_ops''),
      Field ''driver_override'' bool,
      Field ''need_parent_lock'' bool]"

definition struct_class :: cty where
  "struct_class = CStruct ''class'' False
     [Field ''name'' (CPtr ''const char''),
      Field ''class_groups'' (CPtr ''const struct attribute_group *''),
      Field ''dev_groups'' (CPtr ''const struct attribute_group *''),
      Field ''dev_uevent'' (CPtr ''int (const struct device *, struct kobj_uevent_env *)''),
      Field ''devnode'' (CPtr ''char * (const struct device *, umode_t *)''),
      Field ''class_release'' (CPtr ''void (const struct class *)''),
      Field ''dev_release'' (CPtr ''void (struct device *)''),
      Field ''shutdown_pre'' (CPtr ''int (struct device *)''),
      Field ''ns_type'' (CPtr ''const struct kobj_ns_type_operations''),
      Field ''namespace'' (CPtr ''const struct ns_common * (const struct device *)''),
      Field ''get_ownership'' (CPtr ''void (const struct device *, kuid_t *, kgid_t *)''),
      Field ''pm'' (CPtr ''const struct dev_pm_ops'')]"

definition struct_device_dma_parameters :: cty where
  "struct_device_dma_parameters = CStruct ''device_dma_parameters'' False
     [Field ''max_segment_size'' unsigned_int,
      Field ''min_align_mask'' unsigned_int,
      Field ''segment_boundary_mask'' long_unsigned_int]"

definition pci_power_t :: cty where [layout_simps]:
  "pci_power_t = c_int"

definition pci_channel_state_t :: cty where [layout_simps]:
  "pci_channel_state_t = unsigned_int"

definition phys_addr_t :: cty where [layout_simps]:
  "phys_addr_t = u64"

definition resource_size_t :: cty where [layout_simps]:
  "resource_size_t = phys_addr_t"

definition struct_resource :: cty where
  "struct_resource = CStruct ''resource'' False
     [Field ''start'' resource_size_t,
      Field ''end'' resource_size_t,
      Field ''name'' (CPtr ''const char''),
      Field ''flags'' long_unsigned_int,
      Field ''desc'' long_unsigned_int,
      Field ''parent'' (CPtr ''struct resource''),
      Field ''sibling'' (CPtr ''struct resource''),
      Field ''child'' (CPtr ''struct resource'')]"

definition pci_dev_flags_t :: cty where [layout_simps]:
  "pci_dev_flags_t = short_unsigned_int"

definition struct_pci_vpd :: cty where
  "struct_pci_vpd = CStruct ''pci_vpd'' False
     [Field ''lock'' struct_mutex,
      Field ''len'' unsigned_int,
      Field ''cap'' u8]"

definition struct_pci_dev :: cty where
  "struct_pci_dev = CStruct ''pci_dev'' False
     [Field ''bus_list'' struct_list_head,
      Field ''bus'' (CPtr ''struct pci_bus''),
      Field ''subordinate'' (CPtr ''struct pci_bus''),
      Field ''sysdata'' (CPtr ''void''),
      Field ''procent'' (CPtr ''struct proc_dir_entry''),
      Field ''slot'' (CPtr ''struct pci_slot''),
      Field ''devfn'' unsigned_int,
      Field ''vendor'' short_unsigned_int,
      Field ''device'' short_unsigned_int,
      Field ''subsystem_vendor'' short_unsigned_int,
      Field ''subsystem_device'' short_unsigned_int,
      Field ''class'' unsigned_int,
      Field ''revision'' u8,
      Field ''hdr_type'' u8,
      Field ''aer_cap'' u16,
      Field ''aer_info'' (CPtr ''struct aer_info''),
      Field ''rcec_ea'' (CPtr ''struct rcec_ea''),
      Field ''rcec'' (CPtr ''struct pci_dev''),
      Field ''devcap'' u32,
      Field ''rebar_cap'' u16,
      Field ''pcie_cap'' u8,
      Field ''msi_cap'' u8,
      Field ''msix_cap'' u8,
      BitField ''pcie_mpss'' u8 3,
      Field ''rom_base_reg'' u8,
      Field ''pin'' u8,
      Field ''pcie_flags_reg'' u16,
      Field ''dma_alias_mask'' (CPtr ''long unsigned int''),
      Field ''driver'' (CPtr ''struct pci_driver''),
      Field ''dma_mask'' u64,
      Field ''msi_addr_mask'' u64,
      Field ''dma_parms'' struct_device_dma_parameters,
      Field ''current_state'' pci_power_t,
      Field ''pm_cap'' u8,
      BitField ''pme_support'' unsigned_int 5,
      BitField ''pme_poll'' unsigned_int 1,
      BitField ''pinned'' unsigned_int 1,
      BitField ''config_rrs_sv'' unsigned_int 1,
      BitField ''imm_ready'' unsigned_int 1,
      BitField ''d1_support'' unsigned_int 1,
      BitField ''d2_support'' unsigned_int 1,
      BitField ''no_d1d2'' unsigned_int 1,
      BitField ''no_d3cold'' unsigned_int 1,
      BitField ''bridge_d3'' unsigned_int 1,
      BitField ''d3cold_allowed'' unsigned_int 1,
      BitField ''mmio_always_on'' unsigned_int 1,
      BitField ''wakeup_prepared'' unsigned_int 1,
      BitField ''skip_bus_pm'' unsigned_int 1,
      BitField ''ignore_hotplug'' unsigned_int 1,
      BitField ''hotplug_user_indicators'' unsigned_int 1,
      BitField ''clear_retrain_link'' unsigned_int 1,
      BitField ''no_bw_notif'' unsigned_int 1,
      Field ''d3hot_delay'' unsigned_int,
      Field ''d3cold_delay'' unsigned_int,
      Field ''l1ss'' u16,
      Field ''link_state'' (CPtr ''struct pcie_link_state''),
      BitField ''aspm_l0s_support'' unsigned_int 1,
      BitField ''aspm_l1_support'' unsigned_int 1,
      BitField ''ltr_path'' unsigned_int 1,
      BitField ''pasid_no_tlp'' unsigned_int 1,
      BitField ''eetlp_prefix_max'' unsigned_int 3,
      Field ''error_state'' pci_channel_state_t,
      Field ''dev'' struct_device,
      Field ''cfg_size'' c_int,
      Field ''irq'' unsigned_int,
      Field ''resource'' (CArr 17 struct_resource),
      Field ''driver_exclusive_resource'' struct_resource,
      BitField ''transparent'' unsigned_int 1,
      BitField ''io_window'' unsigned_int 1,
      BitField ''pref_window'' unsigned_int 1,
      BitField ''pref_64_window'' unsigned_int 1,
      BitField ''multifunction'' unsigned_int 1,
      BitField ''is_busmaster'' unsigned_int 1,
      BitField ''no_msi'' unsigned_int 1,
      BitField ''block_cfg_access'' unsigned_int 1,
      BitField ''broken_parity_status'' unsigned_int 1,
      BitField ''irq_reroute_variant'' unsigned_int 2,
      BitField ''msi_enabled'' unsigned_int 1,
      BitField ''msix_enabled'' unsigned_int 1,
      BitField ''ari_enabled'' unsigned_int 1,
      BitField ''ats_enabled'' unsigned_int 1,
      BitField ''pasid_enabled'' unsigned_int 1,
      BitField ''pri_enabled'' unsigned_int 1,
      BitField ''tph_enabled'' unsigned_int 1,
      BitField ''fm_enabled'' unsigned_int 1,
      BitField ''is_managed'' unsigned_int 1,
      BitField ''is_msi_managed'' unsigned_int 1,
      BitField ''needs_freset'' unsigned_int 1,
      BitField ''state_saved'' unsigned_int 1,
      BitField ''is_physfn'' unsigned_int 1,
      BitField ''is_virtfn'' unsigned_int 1,
      BitField ''is_hotplug_bridge'' unsigned_int 1,
      BitField ''is_pciehp'' unsigned_int 1,
      BitField ''shpc_managed'' unsigned_int 1,
      BitField ''is_thunderbolt'' unsigned_int 1,
      BitField ''is_cxl'' unsigned_int 1,
      BitField ''untrusted'' unsigned_int 1,
      BitField ''external_facing'' unsigned_int 1,
      BitField ''broken_intx_masking'' unsigned_int 1,
      BitField ''io_window_1k'' unsigned_int 1,
      BitField ''irq_managed'' unsigned_int 1,
      BitField ''non_compliant_bars'' unsigned_int 1,
      BitField ''is_probed'' unsigned_int 1,
      BitField ''link_active_reporting'' unsigned_int 1,
      BitField ''no_vf_scan'' unsigned_int 1,
      BitField ''no_command_memory'' unsigned_int 1,
      BitField ''rom_bar_overlap'' unsigned_int 1,
      BitField ''rom_attr_enabled'' unsigned_int 1,
      BitField ''non_mappable_bars'' unsigned_int 1,
      BitField ''aspm_os_control'' unsigned_int 1,
      Field ''dev_flags'' pci_dev_flags_t,
      Field ''enable_cnt'' atomic_t,
      Field ''pcie_cap_lock'' spinlock_t,
      Field ''saved_config_space'' (CArr 16 u32),
      Field ''saved_cap_space'' struct_hlist_head,
      Field ''res_attr'' (CArr 17 (CPtr ''struct bin_attribute'')),
      Field ''res_attr_wc'' (CArr 17 (CPtr ''struct bin_attribute'')),
      BitField ''broken_cmd_compl'' unsigned_int 1,
      Field ''ptm_cap'' u16,
      BitField ''ptm_root'' unsigned_int 1,
      BitField ''ptm_responder'' unsigned_int 1,
      BitField ''ptm_requester'' unsigned_int 1,
      BitField ''ptm_enabled'' unsigned_int 1,
      Field ''ptm_granularity'' u8,
      Field ''msix_base'' (CPtr ''void''),
      Field ''msi_lock'' raw_spinlock_t,
      Field ''vpd'' struct_pci_vpd,
      Field ''dpc_cap'' u16,
      BitField ''dpc_rp_extensions'' unsigned_int 1,
      Field ''dpc_rp_log_size'' u8,
      Field ''link_bwctrl'' (CPtr ''struct pcie_bwctrl_data''),
      Field [] (CUnion [] False
        [Field ''sriov'' (CPtr ''struct pci_sriov''),
         Field ''physfn'' (CPtr ''struct pci_dev'')]),
      Field ''ats_cap'' u16,
      Field ''ats_stu'' u8,
      Field ''pri_cap'' u16,
      Field ''pri_reqs_alloc'' u32,
      BitField ''pasid_required'' unsigned_int 1,
      Field ''pasid_cap'' u16,
      Field ''pasid_features'' u16,
      Field ''p2pdma'' (CPtr ''struct pci_p2pdma''),
      Field ''doe_mbs'' struct_xarray,
      Field ''npem'' (CPtr ''struct npem''),
      Field ''ide_cap'' u16,
      Field ''nr_ide_mem'' u8,
      Field ''nr_link_ide'' u8,
      Field ''nr_sel_ide'' u16,
      Field ''ide_stream_ida'' struct_ida,
      BitField ''ide_cfg'' unsigned_int 1,
      BitField ''ide_tee_limit'' unsigned_int 1,
      Field ''tsm'' (CPtr ''struct pci_tsm''),
      Field ''acs_cap'' u16,
      Field ''acs_capabilities'' u16,
      Field ''supported_speeds'' u8,
      Field ''rom'' phys_addr_t,
      Field ''romlen'' size_t,
      Field ''priv_flags'' long_unsigned_int,
      Field ''reset_methods'' (CArr 8 u8),
      Field ''tph_cap'' u16,
      Field ''tph_mode'' u8,
      Field ''tph_req_type'' u8]"

definition struct_pci_dynids :: cty where
  "struct_pci_dynids = CStruct ''pci_dynids'' False
     [Field ''lock'' spinlock_t,
      Field ''list'' struct_list_head]"

definition struct_pci_driver :: cty where
  "struct_pci_driver = CStruct ''pci_driver'' False
     [Field ''name'' (CPtr ''const char''),
      Field ''id_table'' (CPtr ''const struct pci_device_id''),
      Field ''probe'' (CPtr ''int (struct pci_dev *, const struct pci_device_id *)''),
      Field ''remove'' (CPtr ''void (struct pci_dev *)''),
      Field ''suspend'' (CPtr ''int (struct pci_dev *, pm_message_t)''),
      Field ''resume'' (CPtr ''int (struct pci_dev *)''),
      Field ''shutdown'' (CPtr ''void (struct pci_dev *)''),
      Field ''sriov_configure'' (CPtr ''int (struct pci_dev *, int)''),
      Field ''sriov_set_msix_vec_count'' (CPtr ''int (struct pci_dev *, int)''),
      Field ''sriov_get_vf_total_msix'' (CPtr ''u32 (struct pci_dev *)''),
      Field ''err_handler'' (CPtr ''const struct pci_error_handlers''),
      Field ''groups'' (CPtr ''const struct attribute_group *''),
      Field ''dev_groups'' (CPtr ''const struct attribute_group *''),
      Field ''driver'' struct_device_driver,
      Field ''dynids'' struct_pci_dynids,
      Field ''driver_managed_dma'' bool]"

definition pci_bus_flags_t :: cty where [layout_simps]:
  "pci_bus_flags_t = short_unsigned_int"

definition struct_pci_bus :: cty where
  "struct_pci_bus = CStruct ''pci_bus'' False
     [Field ''node'' struct_list_head,
      Field ''parent'' (CPtr ''struct pci_bus''),
      Field ''children'' struct_list_head,
      Field ''devices'' struct_list_head,
      Field ''self'' (CPtr ''struct pci_dev''),
      Field ''slots'' struct_list_head,
      Field ''resource'' (CArr 4 (CPtr ''struct resource'')),
      Field ''resources'' struct_list_head,
      Field ''busn_res'' struct_resource,
      Field ''ops'' (CPtr ''struct pci_ops''),
      Field ''sysdata'' (CPtr ''void''),
      Field ''procdir'' (CPtr ''struct proc_dir_entry''),
      Field ''number'' unsigned_char,
      Field ''primary'' unsigned_char,
      Field ''max_bus_speed'' unsigned_char,
      Field ''cur_bus_speed'' unsigned_char,
      Field ''name'' (CArr 48 c_char),
      Field ''bridge_ctl'' short_unsigned_int,
      Field ''bus_flags'' pci_bus_flags_t,
      Field ''bridge'' (CPtr ''struct device''),
      Field ''dev'' struct_device,
      Field ''legacy_io'' (CPtr ''struct bin_attribute''),
      Field ''legacy_mem'' (CPtr ''struct bin_attribute''),
      BitField ''is_added'' unsigned_int 1,
      BitField ''unsafe_warn'' unsigned_int 1,
      BitField ''flit_mode'' unsigned_int 1]"

definition struct_dev_pm_ops :: cty where
  "struct_dev_pm_ops = CStruct ''dev_pm_ops'' False
     [Field ''prepare'' (CPtr ''int (struct device *)''),
      Field ''complete'' (CPtr ''void (struct device *)''),
      Field ''suspend'' (CPtr ''int (struct device *)''),
      Field ''resume'' (CPtr ''int (struct device *)''),
      Field ''freeze'' (CPtr ''int (struct device *)''),
      Field ''thaw'' (CPtr ''int (struct device *)''),
      Field ''poweroff'' (CPtr ''int (struct device *)''),
      Field ''restore'' (CPtr ''int (struct device *)''),
      Field ''suspend_late'' (CPtr ''int (struct device *)''),
      Field ''resume_early'' (CPtr ''int (struct device *)''),
      Field ''freeze_late'' (CPtr ''int (struct device *)''),
      Field ''thaw_early'' (CPtr ''int (struct device *)''),
      Field ''poweroff_late'' (CPtr ''int (struct device *)''),
      Field ''restore_early'' (CPtr ''int (struct device *)''),
      Field ''suspend_noirq'' (CPtr ''int (struct device *)''),
      Field ''resume_noirq'' (CPtr ''int (struct device *)''),
      Field ''freeze_noirq'' (CPtr ''int (struct device *)''),
      Field ''thaw_noirq'' (CPtr ''int (struct device *)''),
      Field ''poweroff_noirq'' (CPtr ''int (struct device *)''),
      Field ''restore_noirq'' (CPtr ''int (struct device *)''),
      Field ''runtime_suspend'' (CPtr ''int (struct device *)''),
      Field ''runtime_resume'' (CPtr ''int (struct device *)''),
      Field ''runtime_idle'' (CPtr ''int (struct device *)'')]"

definition enum_module_state :: cty where
  "enum_module_state = CEnum 4
     [(''MODULE_STATE_LIVE'', 0), (''MODULE_STATE_COMING'', 1), (''MODULE_STATE_GOING'', 2),
      (''MODULE_STATE_UNFORMED'', 3)]"

definition struct_module_kobject :: cty where
  "struct_module_kobject = CStruct ''module_kobject'' False
     [Field ''kobj'' struct_kobject,
      Field ''mod'' (CPtr ''struct module''),
      Field ''drivers_dir'' (CPtr ''struct kobject''),
      Field ''mp'' (CPtr ''struct module_param_attrs''),
      Field ''kobj_completion'' (CPtr ''struct completion'')]"

definition struct_mod_tree_node :: cty where
  "struct_mod_tree_node = CStruct ''mod_tree_node'' False
     [Field ''mod'' (CPtr ''struct module''),
      Field ''node'' struct_latch_tree_node]"

definition struct_module_memory :: cty where
  "struct_module_memory = CStruct ''module_memory'' False
     [Field ''base'' (CPtr ''void''),
      Field ''is_rox'' bool,
      Field ''size'' unsigned_int,
      Field ''mtn'' struct_mod_tree_node]"

definition struct_its_array :: cty where
  "struct_its_array = CStruct ''its_array'' False
     [Field ''pages'' (CPtr ''void *''),
      Field ''num'' c_int]"

definition struct_mod_arch_specific :: cty where
  "struct_mod_arch_specific = CStruct ''mod_arch_specific'' False
     [Field ''its_pages'' struct_its_array]"

definition struct_mod_kallsyms :: cty where
  "struct_mod_kallsyms = CStruct ''mod_kallsyms'' False
     [Field ''symtab'' (CPtr ''Elf64_Sym''),
      Field ''num_symtab'' unsigned_int,
      Field ''strtab'' (CPtr ''char''),
      Field ''typetab'' (CPtr ''char'')]"

definition struct__ddebug_info :: cty where
  "struct__ddebug_info = CStruct ''_ddebug_info'' False
     [Field ''descs'' (CPtr ''struct _ddebug''),
      Field ''classes'' (CPtr ''struct ddebug_class_map''),
      Field ''num_descs'' unsigned_int,
      Field ''num_classes'' unsigned_int]"

definition struct_module :: cty where
  "struct_module = CStruct ''module'' False
     [Field ''state'' enum_module_state,
      Field ''list'' struct_list_head,
      Field ''name'' (CArr 56 c_char),
      Field ''mkobj'' struct_module_kobject,
      Field ''modinfo_attrs'' (CPtr ''struct module_attribute''),
      Field ''version'' (CPtr ''const char''),
      Field ''srcversion'' (CPtr ''const char''),
      Field ''holders_dir'' (CPtr ''struct kobject''),
      Field ''syms'' (CPtr ''const struct kernel_symbol''),
      Field ''crcs'' (CPtr ''const u32''),
      Field ''num_syms'' unsigned_int,
      Field ''param_lock'' struct_mutex,
      Field ''kp'' (CPtr ''struct kernel_param''),
      Field ''num_kp'' unsigned_int,
      Field ''num_gpl_syms'' unsigned_int,
      Field ''gpl_syms'' (CPtr ''const struct kernel_symbol''),
      Field ''gpl_crcs'' (CPtr ''const u32''),
      Field ''using_gplonly_symbols'' bool,
      Field ''sig_ok'' bool,
      Field ''async_probe_requested'' bool,
      Field ''num_exentries'' unsigned_int,
      Field ''extable'' (CPtr ''struct exception_table_entry''),
      Field ''init'' (CPtr ''int (void)''),
      Field ''mem'' (CArr 7 struct_module_memory),
      Field ''arch'' struct_mod_arch_specific,
      Field ''taints'' long_unsigned_int,
      Field ''num_bugs'' unsigned_int,
      Field ''bug_list'' struct_list_head,
      Field ''bug_table'' (CPtr ''struct bug_entry''),
      Field ''kallsyms'' (CPtr ''struct mod_kallsyms''),
      Field ''core_kallsyms'' struct_mod_kallsyms,
      Field ''sect_attrs'' (CPtr ''struct module_sect_attrs''),
      Field ''notes_attrs'' (CPtr ''struct module_notes_attrs''),
      Field ''args'' (CPtr ''char''),
      Field ''percpu'' (CPtr ''void''),
      Field ''percpu_size'' unsigned_int,
      Field ''noinstr_text_start'' (CPtr ''void''),
      Field ''noinstr_text_size'' unsigned_int,
      Field ''num_tracepoints'' unsigned_int,
      Field ''tracepoints_ptrs'' (CPtr ''tracepoint_ptr_t''),
      Field ''num_srcu_structs'' unsigned_int,
      Field ''srcu_struct_ptrs'' (CPtr ''struct srcu_struct *''),
      Field ''num_bpf_raw_events'' unsigned_int,
      Field ''bpf_raw_events'' (CPtr ''struct bpf_raw_event_map''),
      Field ''btf_data_size'' unsigned_int,
      Field ''btf_base_data_size'' unsigned_int,
      Field ''btf_data'' (CPtr ''void''),
      Field ''btf_base_data'' (CPtr ''void''),
      Field ''jump_entries'' (CPtr ''struct jump_entry''),
      Field ''num_jump_entries'' unsigned_int,
      Field ''num_trace_bprintk_fmt'' unsigned_int,
      Field ''trace_bprintk_fmt_start'' (CPtr ''const char *''),
      Field ''trace_events'' (CPtr ''struct trace_event_call *''),
      Field ''num_trace_events'' unsigned_int,
      Field ''trace_evals'' (CPtr ''struct trace_eval_map *''),
      Field ''num_trace_evals'' unsigned_int,
      Field ''num_ftrace_callsites'' unsigned_int,
      Field ''ftrace_callsites'' (CPtr ''long unsigned int''),
      Field ''kprobes_text_start'' (CPtr ''void''),
      Field ''kprobes_text_size'' unsigned_int,
      Field ''kprobe_blacklist'' (CPtr ''long unsigned int''),
      Field ''num_kprobe_blacklist'' unsigned_int,
      Field ''num_static_call_sites'' c_int,
      Field ''static_call_sites'' (CPtr ''struct static_call_site''),
      Field ''klp'' bool,
      Field ''klp_alive'' bool,
      Field ''klp_info'' (CPtr ''struct klp_modinfo''),
      Field ''source_list'' struct_list_head,
      Field ''target_list'' struct_list_head,
      Field ''exit'' (CPtr ''void (void)''),
      Field ''refcnt'' atomic_t,
      Field ''ei_funcs'' (CPtr ''struct error_injection_entry''),
      Field ''num_ei_funcs'' unsigned_int,
      Field ''dyndbg_info'' struct__ddebug_info,
      BitField [] c_long 64,
      BitField [] c_long 64,
      BitField [] c_long 64,
      BitField [] c_long 64]"

definition struct_kset :: cty where
  "struct_kset = CStruct ''kset'' False
     [Field ''list'' struct_list_head,
      Field ''list_lock'' spinlock_t,
      Field ''kobj'' struct_kobject,
      Field ''uevent_ops'' (CPtr ''const struct kset_uevent_ops'')]"

definition struct_attribute_group :: cty where
  "struct_attribute_group = CStruct ''attribute_group'' False
     [Field ''name'' (CPtr ''const char''),
      Field [] (CUnion [] False
        [Field ''is_visible'' (CPtr ''umode_t (struct kobject *, struct attribute *, int)''),
         Field ''is_visible_const'' (CPtr ''umode_t (struct kobject *, const struct attribute *, int)'')]),
      Field ''is_bin_visible'' (CPtr ''umode_t (struct kobject *, const struct bin_attribute *, int)''),
      Field ''bin_size'' (CPtr ''size_t (struct kobject *, const struct bin_attribute *, int)''),
      Field [] (CUnion [] False
        [Field ''attrs'' (CPtr ''struct attribute *''),
         Field ''attrs_const'' (CPtr ''const struct attribute *'')]),
      Field ''bin_attrs'' (CPtr ''const struct bin_attribute *'')]"

definition struct_device_type :: cty where
  "struct_device_type = CStruct ''device_type'' False
     [Field ''name'' (CPtr ''const char''),
      Field ''groups'' (CPtr ''const struct attribute_group *''),
      Field ''uevent'' (CPtr ''int (const struct device *, struct kobj_uevent_env *)''),
      Field ''devnode'' (CPtr ''char * (const struct device *, umode_t *, kuid_t *, kgid_t *)''),
      Field ''release'' (CPtr ''void (struct device *)''),
      Field ''pm'' (CPtr ''const struct dev_pm_ops'')]"

definition struct_iommu_group :: cty where
  "struct_iommu_group = CStruct ''iommu_group'' False
     [Field ''kobj'' struct_kobject,
      Field ''devices_kobj'' (CPtr ''struct kobject''),
      Field ''devices'' struct_list_head,
      Field ''pasid_array'' struct_xarray,
      Field ''mutex'' struct_mutex,
      Field ''iommu_data'' (CPtr ''void''),
      Field ''iommu_data_release'' (CPtr ''void (void *)''),
      Field ''name'' (CPtr ''char''),
      Field ''id'' c_int,
      Field ''default_domain'' (CPtr ''struct iommu_domain''),
      Field ''blocking_domain'' (CPtr ''struct iommu_domain''),
      Field ''domain'' (CPtr ''struct iommu_domain''),
      Field ''entry'' struct_list_head,
      Field ''owner_cnt'' unsigned_int,
      Field ''recovery_cnt'' unsigned_int,
      Field ''owner'' (CPtr ''void'')]"

section \<open>Sizes and alignments\<close>

lemma enum_probe_type_layout [layout_simps]:
  "sizeof enum_probe_type = 4 \<and> alignof enum_probe_type = 4 \<and> wf_cty enum_probe_type"
  by (simp add: enum_probe_type_def base_types layout_eval
      del: One_nat_def)

lemma struct_device_driver_layout [layout_simps]:
  "sizeof struct_device_driver = 152 \<and> alignof struct_device_driver = 8 \<and> wf_cty struct_device_driver"
  by (simp add: struct_device_driver_def base_types layout_eval bool_def enum_probe_type_layout
      del: One_nat_def)

lemma struct_bus_type_layout [layout_simps]:
  "sizeof struct_bus_type = 168 \<and> alignof struct_bus_type = 8 \<and> wf_cty struct_bus_type"
  by (simp add: struct_bus_type_def base_types layout_eval bool_def
      del: One_nat_def)

lemma struct_class_layout [layout_simps]:
  "sizeof struct_class = 96 \<and> alignof struct_class = 8 \<and> wf_cty struct_class"
  by (simp add: struct_class_def base_types layout_eval
      del: One_nat_def)

lemma struct_device_dma_parameters_layout [layout_simps]:
  "sizeof struct_device_dma_parameters = 16 \<and> alignof struct_device_dma_parameters = 8 \<and> wf_cty struct_device_dma_parameters"
  by (simp add: struct_device_dma_parameters_def base_types layout_eval
      del: One_nat_def)

lemma struct_resource_layout [layout_simps]:
  "sizeof struct_resource = 64 \<and> alignof struct_resource = 8 \<and> wf_cty struct_resource"
  by (simp add: struct_resource_def base_types layout_eval resource_size_t_def phys_addr_t_def u64_def c__u64_def
      del: One_nat_def)

lemma struct_pci_vpd_layout [layout_simps]:
  "sizeof struct_pci_vpd = 40 \<and> alignof struct_pci_vpd = 8 \<and> wf_cty struct_pci_vpd"
  by (simp add: struct_pci_vpd_def base_types layout_eval struct_mutex_layout u8_def c__u8_def
      del: One_nat_def)

lemma struct_pci_dev_layout [layout_simps]:
  "sizeof struct_pci_dev = 2768 \<and> alignof struct_pci_dev = 8 \<and> wf_cty struct_pci_dev"
  by (simp add: struct_pci_dev_def base_types layout_eval struct_list_head_layout u8_def c__u8_def u16_def c__u16_def
      u32_def c__u32_def u64_def c__u64_def struct_device_dma_parameters_layout pci_power_t_def
      pci_channel_state_t_def struct_device_layout struct_resource_layout pci_dev_flags_t_def
      atomic_t_layout spinlock_t_def struct_spinlock_layout struct_hlist_head_layout raw_spinlock_t_def
      struct_raw_spinlock_layout struct_pci_vpd_layout struct_xarray_layout struct_ida_layout
      phys_addr_t_def size_t_def c__kernel_size_t_def c__kernel_ulong_t_def
      del: One_nat_def)

lemma struct_pci_dynids_layout [layout_simps]:
  "sizeof struct_pci_dynids = 24 \<and> alignof struct_pci_dynids = 8 \<and> wf_cty struct_pci_dynids"
  by (simp add: struct_pci_dynids_def base_types layout_eval spinlock_t_def struct_spinlock_layout
      struct_list_head_layout
      del: One_nat_def)

lemma struct_pci_driver_layout [layout_simps]:
  "sizeof struct_pci_driver = 288 \<and> alignof struct_pci_driver = 8 \<and> wf_cty struct_pci_driver"
  by (simp add: struct_pci_driver_def base_types layout_eval struct_device_driver_layout struct_pci_dynids_layout
      bool_def
      del: One_nat_def)

lemma struct_pci_bus_layout [layout_simps]:
  "sizeof struct_pci_bus = 1112 \<and> alignof struct_pci_bus = 8 \<and> wf_cty struct_pci_bus"
  by (simp add: struct_pci_bus_def base_types layout_eval struct_list_head_layout struct_resource_layout
      pci_bus_flags_t_def struct_device_layout
      del: One_nat_def)

lemma struct_dev_pm_ops_layout [layout_simps]:
  "sizeof struct_dev_pm_ops = 184 \<and> alignof struct_dev_pm_ops = 8 \<and> wf_cty struct_dev_pm_ops"
  by (simp add: struct_dev_pm_ops_def base_types layout_eval
      del: One_nat_def)

lemma enum_module_state_layout [layout_simps]:
  "sizeof enum_module_state = 4 \<and> alignof enum_module_state = 4 \<and> wf_cty enum_module_state"
  by (simp add: enum_module_state_def base_types layout_eval
      del: One_nat_def)

lemma struct_module_kobject_layout [layout_simps]:
  "sizeof struct_module_kobject = 96 \<and> alignof struct_module_kobject = 8 \<and> wf_cty struct_module_kobject"
  by (simp add: struct_module_kobject_def base_types layout_eval struct_kobject_layout
      del: One_nat_def)

lemma struct_mod_tree_node_layout [layout_simps]:
  "sizeof struct_mod_tree_node = 56 \<and> alignof struct_mod_tree_node = 8 \<and> wf_cty struct_mod_tree_node"
  by (simp add: struct_mod_tree_node_def base_types layout_eval struct_latch_tree_node_layout
      del: One_nat_def)

lemma struct_module_memory_layout [layout_simps]:
  "sizeof struct_module_memory = 72 \<and> alignof struct_module_memory = 8 \<and> wf_cty struct_module_memory"
  by (simp add: struct_module_memory_def base_types layout_eval bool_def struct_mod_tree_node_layout
      del: One_nat_def)

lemma struct_its_array_layout [layout_simps]:
  "sizeof struct_its_array = 16 \<and> alignof struct_its_array = 8 \<and> wf_cty struct_its_array"
  by (simp add: struct_its_array_def base_types layout_eval
      del: One_nat_def)

lemma struct_mod_arch_specific_layout [layout_simps]:
  "sizeof struct_mod_arch_specific = 16 \<and> alignof struct_mod_arch_specific = 8 \<and> wf_cty struct_mod_arch_specific"
  by (simp add: struct_mod_arch_specific_def base_types layout_eval struct_its_array_layout
      del: One_nat_def)

lemma struct_mod_kallsyms_layout [layout_simps]:
  "sizeof struct_mod_kallsyms = 32 \<and> alignof struct_mod_kallsyms = 8 \<and> wf_cty struct_mod_kallsyms"
  by (simp add: struct_mod_kallsyms_def base_types layout_eval
      del: One_nat_def)

lemma struct__ddebug_info_layout [layout_simps]:
  "sizeof struct__ddebug_info = 24 \<and> alignof struct__ddebug_info = 8 \<and> wf_cty struct__ddebug_info"
  by (simp add: struct__ddebug_info_def base_types layout_eval
      del: One_nat_def)

lemma struct_module_layout [layout_simps]:
  "sizeof struct_module = 1280 \<and> alignof struct_module = 8 \<and> wf_cty struct_module"
  by (simp add: struct_module_def base_types layout_eval enum_module_state_layout struct_list_head_layout
      struct_module_kobject_layout struct_mutex_layout bool_def struct_module_memory_layout
      struct_mod_arch_specific_layout struct_mod_kallsyms_layout atomic_t_layout
      struct__ddebug_info_layout
      del: One_nat_def)

lemma struct_kset_layout [layout_simps]:
  "sizeof struct_kset = 96 \<and> alignof struct_kset = 8 \<and> wf_cty struct_kset"
  by (simp add: struct_kset_def base_types layout_eval struct_list_head_layout spinlock_t_def struct_spinlock_layout
      struct_kobject_layout
      del: One_nat_def)

lemma struct_attribute_group_layout [layout_simps]:
  "sizeof struct_attribute_group = 48 \<and> alignof struct_attribute_group = 8 \<and> wf_cty struct_attribute_group"
  by (simp add: struct_attribute_group_def base_types layout_eval
      del: One_nat_def)

lemma struct_device_type_layout [layout_simps]:
  "sizeof struct_device_type = 48 \<and> alignof struct_device_type = 8 \<and> wf_cty struct_device_type"
  by (simp add: struct_device_type_def base_types layout_eval
      del: One_nat_def)

lemma struct_iommu_group_layout [layout_simps]:
  "sizeof struct_iommu_group = 224 \<and> alignof struct_iommu_group = 8 \<and> wf_cty struct_iommu_group"
  by (simp add: struct_iommu_group_def base_types layout_eval struct_kobject_layout struct_list_head_layout
      struct_xarray_layout struct_mutex_layout
      del: One_nat_def)

end
