(* ===== verification/KernelFsRefs.thy ===== *)
theory KernelFsRefs
  imports KernelBpf KernelVfs
begin

text \<open>
  Types of \<^verbatim>\<open>bpf/vmlinux.h\<close> that the objects of \<open>KernelFs\<close> (files, inodes and super blocks) point to, one
  dereference away, with every type they hold by value.
\<close>

section \<open>Types\<close>

definition struct_fprop_local_percpu :: cty where
  "struct_fprop_local_percpu = CStruct ''fprop_local_percpu'' False
     [Field ''events'' struct_percpu_counter,
      Field ''period'' unsigned_int,
      Field ''lock'' raw_spinlock_t]"

definition enum_wb_reason :: cty where
  "enum_wb_reason = CEnum 4
     [(''WB_REASON_BACKGROUND'', 0), (''WB_REASON_VMSCAN'', 1), (''WB_REASON_SYNC'', 2),
      (''WB_REASON_PERIODIC'', 3), (''WB_REASON_FS_FREE_SPACE'', 4),
      (''WB_REASON_FORKER_THREAD'', 5), (''WB_REASON_FOREIGN_FLUSH'', 6),
      (''WB_REASON_MAX'', 7)]"

definition struct_bdi_writeback :: cty where
  "struct_bdi_writeback = CStruct ''bdi_writeback'' False
     [Field ''bdi'' (CPtr ''struct backing_dev_info''),
      Field ''state'' long_unsigned_int,
      Field ''last_old_flush'' long_unsigned_int,
      Field ''b_dirty'' struct_list_head,
      Field ''b_io'' struct_list_head,
      Field ''b_more_io'' struct_list_head,
      Field ''b_dirty_time'' struct_list_head,
      Field ''list_lock'' spinlock_t,
      Field ''writeback_inodes'' atomic_t,
      Field ''stat'' (CArr 4 struct_percpu_counter),
      Field ''bw_time_stamp'' long_unsigned_int,
      Field ''dirtied_stamp'' long_unsigned_int,
      Field ''written_stamp'' long_unsigned_int,
      Field ''write_bandwidth'' long_unsigned_int,
      Field ''avg_write_bandwidth'' long_unsigned_int,
      Field ''dirty_ratelimit'' long_unsigned_int,
      Field ''balanced_dirty_ratelimit'' long_unsigned_int,
      Field ''completions'' struct_fprop_local_percpu,
      Field ''dirty_exceeded'' c_int,
      Field ''start_all_reason'' enum_wb_reason,
      Field ''work_lock'' spinlock_t,
      Field ''work_list'' struct_list_head,
      Field ''dwork'' struct_delayed_work,
      Field ''bw_dwork'' struct_delayed_work,
      Field ''bdi_node'' struct_list_head,
      Field ''refcnt'' struct_percpu_ref,
      Field ''memcg_completions'' struct_fprop_local_percpu,
      Field ''memcg_css'' (CPtr ''struct cgroup_subsys_state''),
      Field ''blkcg_css'' (CPtr ''struct cgroup_subsys_state''),
      Field ''memcg_node'' struct_list_head,
      Field ''blkcg_node'' struct_list_head,
      Field ''b_attached'' struct_list_head,
      Field ''offline_node'' struct_list_head,
      Field ''switch_work'' struct_work_struct,
      Field ''switch_wbs_ctxs'' struct_llist_head,
      Field [] (CUnion [] False
        [Field ''release_work'' struct_work_struct,
         Field ''rcu'' struct_callback_head])]"

definition struct_backing_dev_info :: cty where
  "struct_backing_dev_info = CStruct ''backing_dev_info'' False
     [Field ''id'' u64,
      Field ''rb_node'' struct_rb_node,
      Field ''bdi_list'' struct_list_head,
      Field ''ra_pages'' long_unsigned_int,
      Field ''io_pages'' long_unsigned_int,
      Field ''refcnt'' struct_kref,
      Field ''capabilities'' unsigned_int,
      Field ''min_ratio'' unsigned_int,
      Field ''max_ratio'' unsigned_int,
      Field ''max_prop_frac'' unsigned_int,
      Field ''tot_write_bandwidth'' atomic_long_t,
      Field ''last_bdp_sleep'' long_unsigned_int,
      Field ''wb'' struct_bdi_writeback,
      Field ''wb_list'' struct_list_head,
      Field ''cgwb_tree'' struct_xarray,
      Field ''cgwb_release_mutex'' struct_mutex,
      Field ''wb_switch_rwsem'' struct_rw_semaphore,
      Field ''wb_waitq'' wait_queue_head_t,
      Field ''dev'' (CPtr ''struct device''),
      Field ''dev_name'' (CArr 64 c_char),
      Field ''owner'' (CPtr ''struct device''),
      Field ''debug_dir'' (CPtr ''struct dentry'')]"

definition struct_dquot_operations :: cty where
  "struct_dquot_operations = CStruct ''dquot_operations'' False
     [Field ''write_dquot'' (CPtr ''int (struct dquot *)''),
      Field ''alloc_dquot'' (CPtr ''struct dquot * (struct super_block *, int)''),
      Field ''destroy_dquot'' (CPtr ''void (struct dquot *)''),
      Field ''acquire_dquot'' (CPtr ''int (struct dquot *)''),
      Field ''release_dquot'' (CPtr ''int (struct dquot *)''),
      Field ''mark_dirty'' (CPtr ''int (struct dquot *)''),
      Field ''write_info'' (CPtr ''int (struct super_block *, int)''),
      Field ''get_reserved_space'' (CPtr ''qsize_t * (struct inode *)''),
      Field ''get_projid'' (CPtr ''int (struct inode *, kprojid_t *)''),
      Field ''get_inode_usage'' (CPtr ''int (struct inode *, qsize_t *)''),
      Field ''get_next_id'' (CPtr ''int (struct super_block *, struct kqid *)'')]"

definition struct_file_lock_context :: cty where
  "struct_file_lock_context = CStruct ''file_lock_context'' False
     [Field ''flc_lock'' spinlock_t,
      Field ''flc_flock'' struct_list_head,
      Field ''flc_posix'' struct_list_head,
      Field ''flc_lease'' struct_list_head]"

definition enum_pid_type :: cty where
  "enum_pid_type = CEnum 4
     [(''PIDTYPE_PID'', 0), (''PIDTYPE_TGID'', 1), (''PIDTYPE_PGID'', 2), (''PIDTYPE_SID'', 3),
      (''PIDTYPE_MAX'', 4)]"

definition struct_fown_struct :: cty where
  "struct_fown_struct = CStruct ''fown_struct'' False
     [Field ''file'' (CPtr ''struct file''),
      Field ''lock'' rwlock_t,
      Field ''pid'' (CPtr ''struct pid''),
      Field ''pid_type'' enum_pid_type,
      Field ''uid'' kuid_t,
      Field ''euid'' kuid_t,
      Field ''signum'' c_int]"

definition struct_fscrypt_keyring :: cty where
  "struct_fscrypt_keyring = CStruct ''fscrypt_keyring'' False
     [Field ''lock'' spinlock_t,
      Field ''key_hashtable'' (CArr 128 struct_hlist_head)]"

definition c__kernel_long_t :: cty where [layout_simps]:
  "c__kernel_long_t = c_long"

definition c__kernel_ptrdiff_t :: cty where [layout_simps]:
  "c__kernel_ptrdiff_t = c__kernel_long_t"

definition ptrdiff_t :: cty where [layout_simps]:
  "ptrdiff_t = c__kernel_ptrdiff_t"

definition struct_fscrypt_operations :: cty where
  "struct_fscrypt_operations = CStruct ''fscrypt_operations'' False
     [Field ''inode_info_offs'' ptrdiff_t,
      BitField ''needs_bounce_pages'' unsigned_int 1,
      BitField ''has_32bit_inodes'' unsigned_int 1,
      BitField ''supports_subblock_data_units'' unsigned_int 1,
      Field ''legacy_key_prefix'' (CPtr ''const char''),
      Field ''get_context'' (CPtr ''int (struct inode *, void *, size_t)''),
      Field ''set_context'' (CPtr ''int (struct inode *, const void *, size_t, void *)''),
      Field ''get_dummy_policy'' (CPtr ''const union fscrypt_policy * (struct super_block *)''),
      Field ''empty_dir'' (CPtr ''bool (struct inode *)''),
      Field ''has_stable_inodes'' (CPtr ''bool (struct super_block *)''),
      Field ''get_devices'' (CPtr ''struct block_device ** (struct super_block *, unsigned int *)'')]"

definition struct_fsnotify_mark_connector :: cty where
  "struct_fsnotify_mark_connector = CStruct ''fsnotify_mark_connector'' False
     [Field ''lock'' spinlock_t,
      Field ''type'' unsigned_char,
      Field ''prio'' unsigned_char,
      Field ''flags'' short_unsigned_int,
      Field [] (CUnion [] False
        [Field ''obj'' (CPtr ''void''),
         Field ''destroy_next'' (CPtr ''struct fsnotify_mark_connector'')]),
      Field ''list'' struct_hlist_head]"

definition struct_fsnotify_sb_info :: cty where
  "struct_fsnotify_sb_info = CStruct ''fsnotify_sb_info'' False
     [Field ''sb_marks'' (CPtr ''struct fsnotify_mark_connector''),
      Field ''inode_conn_list'' struct_list_head,
      Field ''list_lock'' spinlock_t,
      Field ''watched_objects'' (CArr 3 atomic_long_t)]"

definition struct_fsverity_operations :: cty where
  "struct_fsverity_operations = CStruct ''fsverity_operations'' False
     [Field ''begin_enable_verity'' (CPtr ''int (struct file *)''),
      Field ''end_enable_verity'' (CPtr ''int (struct file *, const void *, size_t, u64)''),
      Field ''get_verity_descriptor'' (CPtr ''int (struct inode *, void *, size_t)''),
      Field ''read_merkle_tree_page'' (CPtr ''struct page * (struct inode *, long unsigned int)''),
      Field ''readahead_merkle_tree'' (CPtr ''void (struct inode *, long unsigned int, long unsigned int)''),
      Field ''write_merkle_tree_block'' (CPtr ''int (struct file *, const void *, u64, unsigned int)'')]"

definition struct_kobj_type :: cty where
  "struct_kobj_type = CStruct ''kobj_type'' False
     [Field ''release'' (CPtr ''void (struct kobject *)''),
      Field ''sysfs_ops'' (CPtr ''const struct sysfs_ops''),
      Field ''default_groups'' (CPtr ''const struct attribute_group *''),
      Field ''child_ns_type'' (CPtr ''const struct kobj_ns_type_operations * (const struct kobject *)''),
      Field ''namespace'' (CPtr ''const struct ns_common * (const struct kobject *)''),
      Field ''get_ownership'' (CPtr ''void (const struct kobject *, kuid_t *, kgid_t *)'')]"

definition struct_list_lru_one :: cty where
  "struct_list_lru_one = CStruct ''list_lru_one'' False
     [Field ''list'' struct_list_head,
      Field ''nr_items'' c_long,
      Field ''lock'' spinlock_t]"

definition struct_list_lru_node :: cty where
  "struct_list_lru_node = CStruct ''list_lru_node'' False
     [Field ''lru'' struct_list_lru_one,
      Field ''nr_items'' atomic_long_t,
      BitField [] c_long 64,
      BitField [] c_long 64,
      BitField [] c_long 64]"

definition pipe_index_t :: cty where [layout_simps]:
  "pipe_index_t = unsigned_int"

definition union_pipe_index :: cty where
  "union_pipe_index = CUnion ''pipe_index'' False
     [Field ''head_tail'' long_unsigned_int,
      Field [] (CStruct [] False
        [Field ''head'' pipe_index_t,
         Field ''tail'' pipe_index_t])]"

definition struct_pipe_inode_info :: cty where
  "struct_pipe_inode_info = CStruct ''pipe_inode_info'' False
     [Field ''mutex'' struct_mutex,
      Field ''rd_wait'' wait_queue_head_t,
      Field ''wr_wait'' wait_queue_head_t,
      Field [] union_pipe_index,
      Field ''max_usage'' unsigned_int,
      Field ''ring_size'' unsigned_int,
      Field ''nr_accounted'' unsigned_int,
      Field ''readers'' unsigned_int,
      Field ''writers'' unsigned_int,
      Field ''files'' unsigned_int,
      Field ''r_counter'' unsigned_int,
      Field ''w_counter'' unsigned_int,
      Field ''poll_usage'' bool,
      Field ''note_loss'' bool,
      Field ''tmp_page'' (CArr 2 (CPtr ''struct page'')),
      Field ''fasync_readers'' (CPtr ''struct fasync_struct''),
      Field ''fasync_writers'' (CPtr ''struct fasync_struct''),
      Field ''bufs'' (CPtr ''struct pipe_buffer''),
      Field ''user'' (CPtr ''struct user_struct''),
      Field ''watch_queue'' (CPtr ''struct watch_queue'')]"

definition struct_posix_acl_hdr :: cty where
  "struct_posix_acl_hdr = CStruct ''posix_acl_hdr'' False
     [Field ''a_refcount'' refcount_t,
      Field ''a_count'' unsigned_int,
      Field ''a_rcu'' struct_callback_head]"

definition struct_posix_acl_entry :: cty where
  "struct_posix_acl_entry = CStruct ''posix_acl_entry'' False
     [Field ''e_tag'' short_int,
      Field ''e_perm'' short_unsigned_int,
      Field [] (CUnion [] False
        [Field ''e_uid'' kuid_t,
         Field ''e_gid'' kgid_t])]"

definition struct_posix_acl :: cty where
  "struct_posix_acl = CStruct ''posix_acl'' False
     [Field [] (CUnion [] False
        [Field [] (CStruct [] False
           [Field ''a_refcount'' refcount_t,
            Field ''a_count'' unsigned_int,
            Field ''a_rcu'' struct_callback_head]),
         Field ''hdr'' struct_posix_acl_hdr]),
      Field ''a_entries'' (CArr 0 struct_posix_acl_entry)]"

definition struct_quota_format_ops :: cty where
  "struct_quota_format_ops = CStruct ''quota_format_ops'' False
     [Field ''check_quota_file'' (CPtr ''int (struct super_block *, int)''),
      Field ''read_file_info'' (CPtr ''int (struct super_block *, int)''),
      Field ''write_file_info'' (CPtr ''int (struct super_block *, int)''),
      Field ''free_file_info'' (CPtr ''int (struct super_block *, int)''),
      Field ''read_dqblk'' (CPtr ''int (struct dquot *)''),
      Field ''commit_dqblk'' (CPtr ''int (struct dquot *)''),
      Field ''release_dqblk'' (CPtr ''int (struct dquot *)''),
      Field ''get_next_id'' (CPtr ''int (struct super_block *, struct kqid *)'')]"

definition struct_quota_format_type :: cty where
  "struct_quota_format_type = CStruct ''quota_format_type'' False
     [Field ''qf_fmt_id'' c_int,
      Field ''qf_ops'' (CPtr ''const struct quota_format_ops''),
      Field ''qf_owner'' (CPtr ''struct module''),
      Field ''qf_next'' (CPtr ''struct quota_format_type'')]"

definition struct_quotactl_ops :: cty where
  "struct_quotactl_ops = CStruct ''quotactl_ops'' False
     [Field ''quota_on'' (CPtr ''int (struct super_block *, int, int, const struct path *)''),
      Field ''quota_off'' (CPtr ''int (struct super_block *, int)''),
      Field ''quota_enable'' (CPtr ''int (struct super_block *, unsigned int)''),
      Field ''quota_disable'' (CPtr ''int (struct super_block *, unsigned int)''),
      Field ''quota_sync'' (CPtr ''int (struct super_block *, int)''),
      Field ''set_info'' (CPtr ''int (struct super_block *, int, struct qc_info *)''),
      Field ''get_dqblk'' (CPtr ''int (struct super_block *, struct kqid, struct qc_dqblk *)''),
      Field ''get_nextdqblk'' (CPtr ''int (struct super_block *, struct kqid *, struct qc_dqblk *)''),
      Field ''set_dqblk'' (CPtr ''int (struct super_block *, struct kqid, struct qc_dqblk *)''),
      Field ''get_state'' (CPtr ''int (struct super_block *, struct qc_state *)''),
      Field ''rm_xquota'' (CPtr ''int (struct super_block *, unsigned int)'')]"

definition struct_shrinker :: cty where
  "struct_shrinker = CStruct ''shrinker'' False
     [Field ''count_objects'' (CPtr ''long unsigned int (struct shrinker *, struct shrink_control *)''),
      Field ''scan_objects'' (CPtr ''long unsigned int (struct shrinker *, struct shrink_control *)''),
      Field ''batch'' c_long,
      Field ''seeks'' c_int,
      Field ''flags'' unsigned_int,
      Field ''refcount'' refcount_t,
      Field ''done'' struct_completion,
      Field ''rcu'' struct_callback_head,
      Field ''private_data'' (CPtr ''void''),
      Field ''list'' struct_list_head,
      Field ''id'' c_int,
      Field ''nr_deferred'' (CPtr ''atomic_long_t'')]"

definition struct_unicode_map :: cty where
  "struct_unicode_map = CStruct ''unicode_map'' False
     [Field ''version'' unsigned_int,
      Field ''ntab'' (CArr 2 (CPtr ''const struct utf8data'')),
      Field ''tables'' (CPtr ''const struct utf8data_table'')]"

definition struct_uid_gid_extent :: cty where
  "struct_uid_gid_extent = CStruct ''uid_gid_extent'' False
     [Field ''first'' u32,
      Field ''lower_first'' u32,
      Field ''count'' u32]"

definition struct_uid_gid_map :: cty where
  "struct_uid_gid_map = CStruct ''uid_gid_map'' False
     [Field [] (CUnion [] False
        [Field [] (CStruct [] False
           [Field ''extent'' (CArr 5 struct_uid_gid_extent),
            Field ''nr_extents'' u32]),
         Field [] (CStruct [] False
           [Field ''forward'' (CPtr ''struct uid_gid_extent''),
            Field ''reverse'' (CPtr ''struct uid_gid_extent'')])])]"

definition struct_ns_tree_node :: cty where
  "struct_ns_tree_node = CStruct ''ns_tree_node'' False
     [Field ''ns_node'' struct_rb_node,
      Field ''ns_list_entry'' struct_list_head]"

definition struct_ns_tree_root :: cty where
  "struct_ns_tree_root = CStruct ''ns_tree_root'' False
     [Field ''ns_rb'' struct_rb_root,
      Field ''ns_list_head'' struct_list_head]"

definition struct_ns_tree :: cty where
  "struct_ns_tree = CStruct ''ns_tree'' False
     [Field ''ns_id'' u64,
      Field ''__ns_ref_active'' atomic_t,
      Field ''ns_unified_node'' struct_ns_tree_node,
      Field ''ns_tree_node'' struct_ns_tree_node,
      Field ''ns_owner_node'' struct_ns_tree_node,
      Field ''ns_owner_root'' struct_ns_tree_root]"

definition struct_ns_common :: cty where
  "struct_ns_common = CStruct ''ns_common'' False
     [Field [] (CStruct [] False
        [Field ''__ns_ref'' refcount_t,
         BitField [] c_long 64,
         BitField [] c_long 64,
         BitField [] c_long 64,
         BitField [] c_long 64,
         BitField [] c_long 64,
         BitField [] c_long 64,
         BitField [] c_long 64]),
      Field ''ns_type'' u32,
      Field ''stashed'' (CPtr ''struct dentry''),
      Field ''ops'' (CPtr ''const struct proc_ns_operations''),
      Field ''inum'' unsigned_int,
      Field [] (CUnion [] False
        [Field [] struct_ns_tree,
         Field ''ns_rcu'' struct_callback_head])]"

definition struct_ctl_table_header :: cty where
  "struct_ctl_table_header = CStruct ''ctl_table_header'' False
     [Field [] (CUnion [] False
        [Field [] (CStruct [] False
           [Field ''ctl_table'' (CPtr ''const struct ctl_table''),
            Field ''ctl_table_size'' c_int,
            Field ''used'' c_int,
            Field ''count'' c_int,
            Field ''nreg'' c_int]),
         Field ''rcu'' struct_callback_head]),
      Field ''unregistering'' (CPtr ''struct completion''),
      Field ''ctl_table_arg'' (CPtr ''const struct ctl_table''),
      Field ''root'' (CPtr ''struct ctl_table_root''),
      Field ''set'' (CPtr ''struct ctl_table_set''),
      Field ''parent'' (CPtr ''struct ctl_dir''),
      Field ''node'' (CPtr ''struct ctl_node''),
      Field ''inodes'' struct_hlist_head,
      Field ''type'' (CEnum 4 [(''SYSCTL_TABLE_TYPE_DEFAULT'', 0), (''SYSCTL_TABLE_TYPE_PERMANENTLY_EMPTY'', 1)])]"

definition struct_ctl_dir :: cty where
  "struct_ctl_dir = CStruct ''ctl_dir'' False
     [Field ''header'' struct_ctl_table_header,
      Field ''root'' struct_rb_root]"

definition struct_ctl_table_set :: cty where
  "struct_ctl_table_set = CStruct ''ctl_table_set'' False
     [Field ''is_seen'' (CPtr ''int (struct ctl_table_set *)''),
      Field ''dir'' struct_ctl_dir]"

definition struct_user_namespace :: cty where
  "struct_user_namespace = CStruct ''user_namespace'' False
     [Field ''uid_map'' struct_uid_gid_map,
      Field ''gid_map'' struct_uid_gid_map,
      Field ''projid_map'' struct_uid_gid_map,
      Field ''parent'' (CPtr ''struct user_namespace''),
      Field ''level'' c_int,
      Field ''owner'' kuid_t,
      Field ''group'' kgid_t,
      BitField [] c_long 64,
      BitField [] c_long 64,
      BitField [] c_long 64,
      BitField [] c_long 64,
      BitField [] c_long 64,
      Field ''ns'' struct_ns_common,
      Field ''flags'' long_unsigned_int,
      Field ''parent_could_setfcap'' bool,
      Field ''keyring_name_list'' struct_list_head,
      Field ''user_keyring_register'' (CPtr ''struct key''),
      Field ''keyring_sem'' struct_rw_semaphore,
      Field ''persistent_keyring_register'' (CPtr ''struct key''),
      Field ''work'' struct_work_struct,
      Field ''set'' struct_ctl_table_set,
      Field ''sysctls'' (CPtr ''struct ctl_table_header''),
      Field ''ucounts'' (CPtr ''struct ucounts''),
      Field ''ucount_max'' (CArr 12 c_long),
      Field ''rlimit_max'' (CArr 4 c_long),
      Field ''binfmt_misc'' (CPtr ''struct binfmt_misc''),
      BitField [] c_long 64]"

definition struct_workqueue_struct :: cty where
  "struct_workqueue_struct = CStruct ''workqueue_struct'' False
     [Field ''pwqs'' struct_list_head,
      Field ''list'' struct_list_head,
      Field ''mutex'' struct_mutex,
      Field ''work_color'' c_int,
      Field ''flush_color'' c_int,
      Field ''nr_pwqs_to_flush'' atomic_t,
      Field ''first_flusher'' (CPtr ''struct wq_flusher''),
      Field ''flusher_queue'' struct_list_head,
      Field ''flusher_overflow'' struct_list_head,
      Field ''maydays'' struct_list_head,
      Field ''rescuer'' (CPtr ''struct worker''),
      Field ''nr_drainers'' c_int,
      Field ''max_active'' c_int,
      Field ''min_active'' c_int,
      Field ''saved_max_active'' c_int,
      Field ''saved_min_active'' c_int,
      Field ''unbound_attrs'' (CPtr ''struct workqueue_attrs''),
      Field ''dfl_pwq'' (CPtr ''struct pool_workqueue''),
      Field ''wq_dev'' (CPtr ''struct wq_device''),
      Field ''name'' (CArr 32 c_char),
      Field ''rcu'' struct_callback_head,
      BitField [] c_long 64,
      BitField [] c_long 64,
      Field ''flags'' unsigned_int,
      Field ''cpu_pwq'' (CPtr ''struct pool_workqueue *''),
      Field ''node_nr_active'' (CArr 0 (CPtr ''struct wq_node_nr_active'')),
      BitField [] c_long 64,
      BitField [] c_long 64,
      BitField [] c_long 64,
      BitField [] c_long 64,
      BitField [] c_long 64,
      BitField [] c_long 64]"

definition struct_xattr_handler :: cty where
  "struct_xattr_handler = CStruct ''xattr_handler'' False
     [Field ''name'' (CPtr ''const char''),
      Field ''prefix'' (CPtr ''const char''),
      Field ''flags'' c_int,
      Field ''list'' (CPtr ''bool (struct dentry *)''),
      Field ''get'' (CPtr ''int (const struct xattr_handler *, struct dentry *, struct inode *, const char *, void *, size_t)''),
      Field ''set'' (CPtr ''int (const struct xattr_handler *, struct mnt_idmap *, struct dentry *, struct inode *, const char *, const void *, size_t, int)'')]"

section \<open>Sizes and alignments\<close>

lemma struct_fprop_local_percpu_layout [layout_simps]:
  "sizeof struct_fprop_local_percpu = 48 \<and> alignof struct_fprop_local_percpu = 8 \<and> wf_cty struct_fprop_local_percpu"
  by (simp add: struct_fprop_local_percpu_def base_types layout_eval struct_percpu_counter_layout raw_spinlock_t_def
      struct_raw_spinlock_layout
      del: One_nat_def)

lemma enum_wb_reason_layout [layout_simps]:
  "sizeof enum_wb_reason = 4 \<and> alignof enum_wb_reason = 4 \<and> wf_cty enum_wb_reason"
  by (simp add: enum_wb_reason_def base_types layout_eval
      del: One_nat_def)

lemma struct_bdi_writeback_layout [layout_simps]:
  "sizeof struct_bdi_writeback = 800 \<and> alignof struct_bdi_writeback = 8 \<and> wf_cty struct_bdi_writeback"
  by (simp add: struct_bdi_writeback_def base_types layout_eval struct_list_head_layout spinlock_t_def
      struct_spinlock_layout atomic_t_layout struct_percpu_counter_layout
      struct_fprop_local_percpu_layout enum_wb_reason_layout struct_delayed_work_layout
      struct_percpu_ref_layout struct_work_struct_layout struct_llist_head_layout
      struct_callback_head_layout
      del: One_nat_def)

lemma struct_backing_dev_info_layout [layout_simps]:
  "sizeof struct_backing_dev_info = 1120 \<and> alignof struct_backing_dev_info = 8 \<and> wf_cty struct_backing_dev_info"
  by (simp add: struct_backing_dev_info_def base_types layout_eval u64_def c__u64_def struct_rb_node_layout
      struct_list_head_layout struct_kref_layout atomic_long_t_def atomic64_t_layout
      struct_bdi_writeback_layout struct_xarray_layout struct_mutex_layout struct_rw_semaphore_layout
      wait_queue_head_t_def struct_wait_queue_head_layout
      del: One_nat_def)

lemma struct_dquot_operations_layout [layout_simps]:
  "sizeof struct_dquot_operations = 88 \<and> alignof struct_dquot_operations = 8 \<and> wf_cty struct_dquot_operations"
  by (simp add: struct_dquot_operations_def base_types layout_eval
      del: One_nat_def)

lemma struct_file_lock_context_layout [layout_simps]:
  "sizeof struct_file_lock_context = 56 \<and> alignof struct_file_lock_context = 8 \<and> wf_cty struct_file_lock_context"
  by (simp add: struct_file_lock_context_def base_types layout_eval spinlock_t_def struct_spinlock_layout
      struct_list_head_layout
      del: One_nat_def)

lemma enum_pid_type_layout [layout_simps]:
  "sizeof enum_pid_type = 4 \<and> alignof enum_pid_type = 4 \<and> wf_cty enum_pid_type"
  by (simp add: enum_pid_type_def base_types layout_eval
      del: One_nat_def)

lemma struct_fown_struct_layout [layout_simps]:
  "sizeof struct_fown_struct = 40 \<and> alignof struct_fown_struct = 8 \<and> wf_cty struct_fown_struct"
  by (simp add: struct_fown_struct_def base_types layout_eval rwlock_t_def struct_rwlock_layout enum_pid_type_layout
      kuid_t_layout
      del: One_nat_def)

lemma struct_fscrypt_keyring_layout [layout_simps]:
  "sizeof struct_fscrypt_keyring = 1032 \<and> alignof struct_fscrypt_keyring = 8 \<and> wf_cty struct_fscrypt_keyring"
  by (simp add: struct_fscrypt_keyring_def base_types layout_eval spinlock_t_def struct_spinlock_layout
      struct_hlist_head_layout
      del: One_nat_def)

lemma struct_fscrypt_operations_layout [layout_simps]:
  "sizeof struct_fscrypt_operations = 72 \<and> alignof struct_fscrypt_operations = 8 \<and> wf_cty struct_fscrypt_operations"
  by (simp add: struct_fscrypt_operations_def base_types layout_eval ptrdiff_t_def c__kernel_ptrdiff_t_def
      c__kernel_long_t_def
      del: One_nat_def)

lemma struct_fsnotify_mark_connector_layout [layout_simps]:
  "sizeof struct_fsnotify_mark_connector = 24 \<and> alignof struct_fsnotify_mark_connector = 8 \<and> wf_cty struct_fsnotify_mark_connector"
  by (simp add: struct_fsnotify_mark_connector_def base_types layout_eval spinlock_t_def struct_spinlock_layout
      struct_hlist_head_layout
      del: One_nat_def)

lemma struct_fsnotify_sb_info_layout [layout_simps]:
  "sizeof struct_fsnotify_sb_info = 56 \<and> alignof struct_fsnotify_sb_info = 8 \<and> wf_cty struct_fsnotify_sb_info"
  by (simp add: struct_fsnotify_sb_info_def base_types layout_eval struct_list_head_layout spinlock_t_def
      struct_spinlock_layout atomic_long_t_def atomic64_t_layout
      del: One_nat_def)

lemma struct_fsverity_operations_layout [layout_simps]:
  "sizeof struct_fsverity_operations = 48 \<and> alignof struct_fsverity_operations = 8 \<and> wf_cty struct_fsverity_operations"
  by (simp add: struct_fsverity_operations_def base_types layout_eval
      del: One_nat_def)

lemma struct_kobj_type_layout [layout_simps]:
  "sizeof struct_kobj_type = 48 \<and> alignof struct_kobj_type = 8 \<and> wf_cty struct_kobj_type"
  by (simp add: struct_kobj_type_def base_types layout_eval
      del: One_nat_def)

lemma struct_list_lru_one_layout [layout_simps]:
  "sizeof struct_list_lru_one = 32 \<and> alignof struct_list_lru_one = 8 \<and> wf_cty struct_list_lru_one"
  by (simp add: struct_list_lru_one_def base_types layout_eval struct_list_head_layout spinlock_t_def
      struct_spinlock_layout
      del: One_nat_def)

lemma struct_list_lru_node_layout [layout_simps]:
  "sizeof struct_list_lru_node = 64 \<and> alignof struct_list_lru_node = 8 \<and> wf_cty struct_list_lru_node"
  by (simp add: struct_list_lru_node_def base_types layout_eval struct_list_lru_one_layout atomic_long_t_def
      atomic64_t_layout
      del: One_nat_def)

lemma union_pipe_index_layout [layout_simps]:
  "sizeof union_pipe_index = 8 \<and> alignof union_pipe_index = 8 \<and> wf_cty union_pipe_index"
  by (simp add: union_pipe_index_def base_types layout_eval pipe_index_t_def
      del: One_nat_def)

lemma struct_pipe_inode_info_layout [layout_simps]:
  "sizeof struct_pipe_inode_info = 184 \<and> alignof struct_pipe_inode_info = 8 \<and> wf_cty struct_pipe_inode_info"
  by (simp add: struct_pipe_inode_info_def base_types layout_eval struct_mutex_layout wait_queue_head_t_def
      struct_wait_queue_head_layout union_pipe_index_layout bool_def
      del: One_nat_def)

lemma struct_posix_acl_hdr_layout [layout_simps]:
  "sizeof struct_posix_acl_hdr = 24 \<and> alignof struct_posix_acl_hdr = 8 \<and> wf_cty struct_posix_acl_hdr"
  by (simp add: struct_posix_acl_hdr_def base_types layout_eval refcount_t_def struct_refcount_struct_layout
      struct_callback_head_layout
      del: One_nat_def)

lemma struct_posix_acl_entry_layout [layout_simps]:
  "sizeof struct_posix_acl_entry = 8 \<and> alignof struct_posix_acl_entry = 4 \<and> wf_cty struct_posix_acl_entry"
  by (simp add: struct_posix_acl_entry_def base_types layout_eval kuid_t_layout kgid_t_layout
      del: One_nat_def)

lemma struct_posix_acl_layout [layout_simps]:
  "sizeof struct_posix_acl = 24 \<and> alignof struct_posix_acl = 8 \<and> wf_cty struct_posix_acl"
  by (simp add: struct_posix_acl_def base_types layout_eval refcount_t_def struct_refcount_struct_layout
      struct_callback_head_layout struct_posix_acl_hdr_layout struct_posix_acl_entry_layout
      del: One_nat_def)

lemma struct_quota_format_ops_layout [layout_simps]:
  "sizeof struct_quota_format_ops = 64 \<and> alignof struct_quota_format_ops = 8 \<and> wf_cty struct_quota_format_ops"
  by (simp add: struct_quota_format_ops_def base_types layout_eval
      del: One_nat_def)

lemma struct_quota_format_type_layout [layout_simps]:
  "sizeof struct_quota_format_type = 32 \<and> alignof struct_quota_format_type = 8 \<and> wf_cty struct_quota_format_type"
  by (simp add: struct_quota_format_type_def base_types layout_eval
      del: One_nat_def)

lemma struct_quotactl_ops_layout [layout_simps]:
  "sizeof struct_quotactl_ops = 88 \<and> alignof struct_quotactl_ops = 8 \<and> wf_cty struct_quotactl_ops"
  by (simp add: struct_quotactl_ops_def base_types layout_eval
      del: One_nat_def)

lemma struct_shrinker_layout [layout_simps]:
  "sizeof struct_shrinker = 128 \<and> alignof struct_shrinker = 8 \<and> wf_cty struct_shrinker"
  by (simp add: struct_shrinker_def base_types layout_eval refcount_t_def struct_refcount_struct_layout
      struct_completion_layout struct_callback_head_layout struct_list_head_layout
      del: One_nat_def)

lemma struct_unicode_map_layout [layout_simps]:
  "sizeof struct_unicode_map = 32 \<and> alignof struct_unicode_map = 8 \<and> wf_cty struct_unicode_map"
  by (simp add: struct_unicode_map_def base_types layout_eval
      del: One_nat_def)

lemma struct_uid_gid_extent_layout [layout_simps]:
  "sizeof struct_uid_gid_extent = 12 \<and> alignof struct_uid_gid_extent = 4 \<and> wf_cty struct_uid_gid_extent"
  by (simp add: struct_uid_gid_extent_def base_types layout_eval u32_def c__u32_def
      del: One_nat_def)

lemma struct_uid_gid_map_layout [layout_simps]:
  "sizeof struct_uid_gid_map = 64 \<and> alignof struct_uid_gid_map = 8 \<and> wf_cty struct_uid_gid_map"
  by (simp add: struct_uid_gid_map_def base_types layout_eval struct_uid_gid_extent_layout u32_def c__u32_def
      del: One_nat_def)

lemma struct_ns_tree_node_layout [layout_simps]:
  "sizeof struct_ns_tree_node = 40 \<and> alignof struct_ns_tree_node = 8 \<and> wf_cty struct_ns_tree_node"
  by (simp add: struct_ns_tree_node_def base_types layout_eval struct_rb_node_layout struct_list_head_layout
      del: One_nat_def)

lemma struct_ns_tree_root_layout [layout_simps]:
  "sizeof struct_ns_tree_root = 24 \<and> alignof struct_ns_tree_root = 8 \<and> wf_cty struct_ns_tree_root"
  by (simp add: struct_ns_tree_root_def base_types layout_eval struct_rb_root_layout struct_list_head_layout
      del: One_nat_def)

lemma struct_ns_tree_layout [layout_simps]:
  "sizeof struct_ns_tree = 160 \<and> alignof struct_ns_tree = 8 \<and> wf_cty struct_ns_tree"
  by (simp add: struct_ns_tree_def base_types layout_eval u64_def c__u64_def atomic_t_layout struct_ns_tree_node_layout
      struct_ns_tree_root_layout
      del: One_nat_def)

lemma struct_ns_common_layout [layout_simps]:
  "sizeof struct_ns_common = 256 \<and> alignof struct_ns_common = 8 \<and> wf_cty struct_ns_common"
  by (simp add: struct_ns_common_def base_types layout_eval refcount_t_def struct_refcount_struct_layout u32_def
      c__u32_def struct_ns_tree_layout struct_callback_head_layout
      del: One_nat_def)

lemma struct_ctl_table_header_layout [layout_simps]:
  "sizeof struct_ctl_table_header = 88 \<and> alignof struct_ctl_table_header = 8 \<and> wf_cty struct_ctl_table_header"
  by (simp add: struct_ctl_table_header_def base_types layout_eval struct_callback_head_layout struct_hlist_head_layout
      del: One_nat_def)

lemma struct_ctl_dir_layout [layout_simps]:
  "sizeof struct_ctl_dir = 96 \<and> alignof struct_ctl_dir = 8 \<and> wf_cty struct_ctl_dir"
  by (simp add: struct_ctl_dir_def base_types layout_eval struct_ctl_table_header_layout struct_rb_root_layout
      del: One_nat_def)

lemma struct_ctl_table_set_layout [layout_simps]:
  "sizeof struct_ctl_table_set = 104 \<and> alignof struct_ctl_table_set = 8 \<and> wf_cty struct_ctl_table_set"
  by (simp add: struct_ctl_table_set_def base_types layout_eval struct_ctl_dir_layout
      del: One_nat_def)

lemma struct_user_namespace_layout [layout_simps]:
  "sizeof struct_user_namespace = 896 \<and> alignof struct_user_namespace = 8 \<and> wf_cty struct_user_namespace"
  by (simp add: struct_user_namespace_def base_types layout_eval struct_uid_gid_map_layout kuid_t_layout kgid_t_layout
      struct_ns_common_layout bool_def struct_list_head_layout struct_rw_semaphore_layout
      struct_work_struct_layout struct_ctl_table_set_layout
      del: One_nat_def)

lemma struct_workqueue_struct_layout [layout_simps]:
  "sizeof struct_workqueue_struct = 320 \<and> alignof struct_workqueue_struct = 8 \<and> wf_cty struct_workqueue_struct"
  by (simp add: struct_workqueue_struct_def base_types layout_eval struct_list_head_layout struct_mutex_layout
      atomic_t_layout struct_callback_head_layout
      del: One_nat_def)

lemma struct_xattr_handler_layout [layout_simps]:
  "sizeof struct_xattr_handler = 48 \<and> alignof struct_xattr_handler = 8 \<and> wf_cty struct_xattr_handler"
  by (simp add: struct_xattr_handler_def base_types layout_eval
      del: One_nat_def)

end
