(* ===== verification/KernelKms.thy ===== *)
theory KernelKms
  imports KernelDrm
begin

text \<open>
  The DRM objects the ioctls act on: mode setting, buffer objects, fences, address spaces and shared buffers, from
  \<^verbatim>\<open>bpf/vmlinux.h\<close>.
\<close>

section \<open>Types\<close>

definition struct_drm_mode_object :: cty where
  "struct_drm_mode_object = CStruct ''drm_mode_object'' False
     [Field ''id'' uint32_t,
      Field ''type'' uint32_t,
      Field ''properties'' (CPtr ''struct drm_object_properties''),
      Field ''refcount'' struct_kref,
      Field ''free_cb'' (CPtr ''void (struct kref *)'')]"

definition enum_drm_connector_registration_state :: cty where
  "enum_drm_connector_registration_state = CEnum 4
     [(''DRM_CONNECTOR_INITIALIZING'', 0), (''DRM_CONNECTOR_REGISTERED'', 1),
      (''DRM_CONNECTOR_UNREGISTERED'', 2)]"

definition enum_drm_connector_status :: cty where
  "enum_drm_connector_status = CEnum 4
     [(''connector_status_connected'', 1), (''connector_status_disconnected'', 2),
      (''connector_status_unknown'', 3)]"

definition enum_subpixel_order :: cty where
  "enum_subpixel_order = CEnum 4
     [(''SubPixelUnknown'', 0), (''SubPixelHorizontalRGB'', 1), (''SubPixelHorizontalBGR'', 2),
      (''SubPixelVerticalRGB'', 3), (''SubPixelVerticalBGR'', 4), (''SubPixelNone'', 5)]"

definition struct_drm_scrambling :: cty where
  "struct_drm_scrambling = CStruct ''drm_scrambling'' False
     [Field ''supported'' bool,
      Field ''low_rates'' bool]"

definition struct_drm_scdc :: cty where
  "struct_drm_scdc = CStruct ''drm_scdc'' False
     [Field ''supported'' bool,
      Field ''read_request'' bool,
      Field ''scrambling'' struct_drm_scrambling]"

definition struct_drm_hdmi_dsc_cap :: cty where
  "struct_drm_hdmi_dsc_cap = CStruct ''drm_hdmi_dsc_cap'' False
     [Field ''v_1p2'' bool,
      Field ''native_420'' bool,
      Field ''all_bpp'' bool,
      Field ''bpc_supported'' u8,
      Field ''max_slices'' u8,
      Field ''clk_per_slice'' c_int,
      Field ''max_lanes'' u8,
      Field ''max_frl_rate_per_lane'' u8,
      Field ''total_chunk_kbytes'' u8]"

definition struct_drm_hdmi_info :: cty where
  "struct_drm_hdmi_info = CStruct ''drm_hdmi_info'' False
     [Field ''scdc'' struct_drm_scdc,
      Field ''y420_vdb_modes'' (CArr 4 long_unsigned_int),
      Field ''y420_cmdb_modes'' (CArr 4 long_unsigned_int),
      Field ''y420_dc_modes'' u8,
      Field ''max_frl_rate_per_lane'' u8,
      Field ''max_lanes'' u8,
      Field ''dsc_cap'' struct_drm_hdmi_dsc_cap]"

definition struct_hdr_static_metadata :: cty where
  "struct_hdr_static_metadata = CStruct ''hdr_static_metadata'' False
     [Field ''eotf'' c__u8,
      Field ''metadata_type'' c__u8,
      Field ''max_cll'' c__u16,
      Field ''max_fall'' c__u16,
      Field ''min_cll'' c__u16]"

definition struct_hdr_sink_metadata :: cty where
  "struct_hdr_sink_metadata = CStruct ''hdr_sink_metadata'' False
     [Field ''metadata_type'' c__u32,
      Field [] (CUnion [] False
        [Field ''hdmi_type1'' struct_hdr_static_metadata])]"

definition struct_drm_monitor_range_info :: cty where
  "struct_drm_monitor_range_info = CStruct ''drm_monitor_range_info'' False
     [Field ''min_vfreq'' u16,
      Field ''max_vfreq'' u16]"

definition struct_drm_luminance_range_info :: cty where
  "struct_drm_luminance_range_info = CStruct ''drm_luminance_range_info'' False
     [Field ''min_luminance'' u32,
      Field ''max_luminance'' u32]"

definition struct_drm_display_info :: cty where
  "struct_drm_display_info = CStruct ''drm_display_info'' False
     [Field ''width_mm'' unsigned_int,
      Field ''height_mm'' unsigned_int,
      Field ''bpc'' unsigned_int,
      Field ''subpixel_order'' enum_subpixel_order,
      Field ''panel_orientation'' c_int,
      Field ''color_formats'' u32,
      Field ''bus_formats'' (CPtr ''const u32''),
      Field ''num_bus_formats'' unsigned_int,
      Field ''bus_flags'' u32,
      Field ''max_tmds_clock'' c_int,
      Field ''dvi_dual'' bool,
      Field ''is_hdmi'' bool,
      Field ''has_audio'' bool,
      Field ''has_hdmi_infoframe'' bool,
      Field ''rgb_quant_range_selectable'' bool,
      Field ''edid_hdmi_rgb444_dc_modes'' u8,
      Field ''edid_hdmi_ycbcr444_dc_modes'' u8,
      Field ''cea_rev'' u8,
      Field ''hdmi'' struct_drm_hdmi_info,
      Field ''hdr_sink_metadata'' struct_hdr_sink_metadata,
      Field ''non_desktop'' bool,
      Field ''monitor_range'' struct_drm_monitor_range_info,
      Field ''luminance_range'' struct_drm_luminance_range_info,
      Field ''mso_stream_count'' u8,
      Field ''mso_pixel_overlap'' u8,
      Field ''max_dsc_bpp'' u32,
      Field ''vics'' (CPtr ''u8''),
      Field ''vics_len'' c_int,
      Field ''quirks'' u32,
      Field ''source_physical_address'' u16]"

definition uint64_t :: cty where [layout_simps]:
  "uint64_t = u64"

definition struct_drm_object_properties :: cty where
  "struct_drm_object_properties = CStruct ''drm_object_properties'' False
     [Field ''count'' c_int,
      Field ''properties'' (CArr 64 (CPtr ''struct drm_property'')),
      Field ''values'' (CArr 64 uint64_t)]"

definition notifier_fn_t :: cty where [layout_simps]:
  "notifier_fn_t = CPtr ''int (struct notifier_block *, long unsigned int, void *)''"

definition struct_notifier_block :: cty where
  "struct_notifier_block = CStruct ''notifier_block'' False
     [Field ''notifier_call'' notifier_fn_t,
      Field ''next'' (CPtr ''struct notifier_block''),
      Field ''priority'' c_int]"

definition uint8_t :: cty where [layout_simps]:
  "uint8_t = u8"

definition enum_drm_connector_force :: cty where
  "enum_drm_connector_force = CEnum 4
     [(''DRM_FORCE_UNSPECIFIED'', 0), (''DRM_FORCE_OFF'', 1), (''DRM_FORCE_ON'', 2),
      (''DRM_FORCE_ON_DIGITAL'', 3)]"

definition enum_drm_panel_orientation :: cty where
  "enum_drm_panel_orientation = CEnum 4
     [(''DRM_MODE_PANEL_ORIENTATION_UNKNOWN'', (- 1)),
      (''DRM_MODE_PANEL_ORIENTATION_NORMAL'', 0), (''DRM_MODE_PANEL_ORIENTATION_BOTTOM_UP'', 1),
      (''DRM_MODE_PANEL_ORIENTATION_LEFT_UP'', 2), (''DRM_MODE_PANEL_ORIENTATION_RIGHT_UP'', 3)]"

definition struct_drm_connector_tv_margins :: cty where
  "struct_drm_connector_tv_margins = CStruct ''drm_connector_tv_margins'' False
     [Field ''bottom'' unsigned_int,
      Field ''left'' unsigned_int,
      Field ''right'' unsigned_int,
      Field ''top'' unsigned_int]"

definition enum_drm_connector_tv_mode :: cty where
  "enum_drm_connector_tv_mode = CEnum 4
     [(''DRM_MODE_TV_MODE_NTSC'', 0), (''DRM_MODE_TV_MODE_NTSC_443'', 1),
      (''DRM_MODE_TV_MODE_NTSC_J'', 2), (''DRM_MODE_TV_MODE_PAL'', 3),
      (''DRM_MODE_TV_MODE_PAL_M'', 4), (''DRM_MODE_TV_MODE_PAL_N'', 5),
      (''DRM_MODE_TV_MODE_SECAM'', 6), (''DRM_MODE_TV_MODE_MONOCHROME'', 7),
      (''DRM_MODE_TV_MODE_MAX'', 8)]"

definition struct_drm_cmdline_mode :: cty where
  "struct_drm_cmdline_mode = CStruct ''drm_cmdline_mode'' False
     [Field ''name'' (CArr 32 c_char),
      Field ''specified'' bool,
      Field ''refresh_specified'' bool,
      Field ''bpp_specified'' bool,
      Field ''pixel_clock'' unsigned_int,
      Field ''xres'' c_int,
      Field ''yres'' c_int,
      Field ''bpp'' c_int,
      Field ''refresh'' c_int,
      Field ''rb'' bool,
      Field ''interlace'' bool,
      Field ''cvt'' bool,
      Field ''margins'' bool,
      Field ''force'' enum_drm_connector_force,
      Field ''rotation_reflection'' unsigned_int,
      Field ''panel_orientation'' enum_drm_panel_orientation,
      Field ''tv_margins'' struct_drm_connector_tv_margins,
      Field ''tv_mode'' enum_drm_connector_tv_mode,
      Field ''tv_mode_specified'' bool]"

definition uint16_t :: cty where [layout_simps]:
  "uint16_t = u16"

definition enum_hdmi_infoframe_type :: cty where
  "enum_hdmi_infoframe_type = CEnum 4
     [(''HDMI_INFOFRAME_TYPE_VENDOR'', 129), (''HDMI_INFOFRAME_TYPE_AVI'', 130),
      (''HDMI_INFOFRAME_TYPE_SPD'', 131), (''HDMI_INFOFRAME_TYPE_AUDIO'', 132),
      (''HDMI_INFOFRAME_TYPE_DRM'', 135)]"

definition struct_hdmi_any_infoframe :: cty where
  "struct_hdmi_any_infoframe = CStruct ''hdmi_any_infoframe'' False
     [Field ''type'' enum_hdmi_infoframe_type,
      Field ''version'' unsigned_char,
      Field ''length'' unsigned_char]"

definition enum_hdmi_colorspace :: cty where
  "enum_hdmi_colorspace = CEnum 4
     [(''HDMI_COLORSPACE_RGB'', 0), (''HDMI_COLORSPACE_YUV422'', 1),
      (''HDMI_COLORSPACE_YUV444'', 2), (''HDMI_COLORSPACE_YUV420'', 3),
      (''HDMI_COLORSPACE_RESERVED4'', 4), (''HDMI_COLORSPACE_RESERVED5'', 5),
      (''HDMI_COLORSPACE_RESERVED6'', 6), (''HDMI_COLORSPACE_IDO_DEFINED'', 7)]"

definition enum_hdmi_scan_mode :: cty where
  "enum_hdmi_scan_mode = CEnum 4
     [(''HDMI_SCAN_MODE_NONE'', 0), (''HDMI_SCAN_MODE_OVERSCAN'', 1),
      (''HDMI_SCAN_MODE_UNDERSCAN'', 2), (''HDMI_SCAN_MODE_RESERVED'', 3)]"

definition enum_hdmi_colorimetry :: cty where
  "enum_hdmi_colorimetry = CEnum 4
     [(''HDMI_COLORIMETRY_NONE'', 0), (''HDMI_COLORIMETRY_ITU_601'', 1),
      (''HDMI_COLORIMETRY_ITU_709'', 2), (''HDMI_COLORIMETRY_EXTENDED'', 3)]"

definition enum_hdmi_picture_aspect :: cty where
  "enum_hdmi_picture_aspect = CEnum 4
     [(''HDMI_PICTURE_ASPECT_NONE'', 0), (''HDMI_PICTURE_ASPECT_4_3'', 1),
      (''HDMI_PICTURE_ASPECT_16_9'', 2), (''HDMI_PICTURE_ASPECT_64_27'', 3),
      (''HDMI_PICTURE_ASPECT_256_135'', 4), (''HDMI_PICTURE_ASPECT_RESERVED'', 5)]"

definition enum_hdmi_active_aspect :: cty where
  "enum_hdmi_active_aspect = CEnum 4
     [(''HDMI_ACTIVE_ASPECT_16_9_TOP'', 2), (''HDMI_ACTIVE_ASPECT_14_9_TOP'', 3),
      (''HDMI_ACTIVE_ASPECT_16_9_CENTER'', 4), (''HDMI_ACTIVE_ASPECT_PICTURE'', 8),
      (''HDMI_ACTIVE_ASPECT_4_3'', 9), (''HDMI_ACTIVE_ASPECT_16_9'', 10),
      (''HDMI_ACTIVE_ASPECT_14_9'', 11), (''HDMI_ACTIVE_ASPECT_4_3_SP_14_9'', 13),
      (''HDMI_ACTIVE_ASPECT_16_9_SP_14_9'', 14), (''HDMI_ACTIVE_ASPECT_16_9_SP_4_3'', 15)]"

definition enum_hdmi_extended_colorimetry :: cty where
  "enum_hdmi_extended_colorimetry = CEnum 4
     [(''HDMI_EXTENDED_COLORIMETRY_XV_YCC_601'', 0),
      (''HDMI_EXTENDED_COLORIMETRY_XV_YCC_709'', 1),
      (''HDMI_EXTENDED_COLORIMETRY_S_YCC_601'', 2),
      (''HDMI_EXTENDED_COLORIMETRY_OPYCC_601'', 3), (''HDMI_EXTENDED_COLORIMETRY_OPRGB'', 4),
      (''HDMI_EXTENDED_COLORIMETRY_BT2020_CONST_LUM'', 5),
      (''HDMI_EXTENDED_COLORIMETRY_BT2020'', 6), (''HDMI_EXTENDED_COLORIMETRY_RESERVED'', 7)]"

definition enum_hdmi_quantization_range :: cty where
  "enum_hdmi_quantization_range = CEnum 4
     [(''HDMI_QUANTIZATION_RANGE_DEFAULT'', 0), (''HDMI_QUANTIZATION_RANGE_LIMITED'', 1),
      (''HDMI_QUANTIZATION_RANGE_FULL'', 2), (''HDMI_QUANTIZATION_RANGE_RESERVED'', 3)]"

definition enum_hdmi_nups :: cty where
  "enum_hdmi_nups = CEnum 4
     [(''HDMI_NUPS_UNKNOWN'', 0), (''HDMI_NUPS_HORIZONTAL'', 1), (''HDMI_NUPS_VERTICAL'', 2),
      (''HDMI_NUPS_BOTH'', 3)]"

definition enum_hdmi_ycc_quantization_range :: cty where
  "enum_hdmi_ycc_quantization_range = CEnum 4
     [(''HDMI_YCC_QUANTIZATION_RANGE_LIMITED'', 0), (''HDMI_YCC_QUANTIZATION_RANGE_FULL'', 1)]"

definition enum_hdmi_content_type :: cty where
  "enum_hdmi_content_type = CEnum 4
     [(''HDMI_CONTENT_TYPE_GRAPHICS'', 0), (''HDMI_CONTENT_TYPE_PHOTO'', 1),
      (''HDMI_CONTENT_TYPE_CINEMA'', 2), (''HDMI_CONTENT_TYPE_GAME'', 3)]"

definition struct_hdmi_avi_infoframe :: cty where
  "struct_hdmi_avi_infoframe = CStruct ''hdmi_avi_infoframe'' False
     [Field ''type'' enum_hdmi_infoframe_type,
      Field ''version'' unsigned_char,
      Field ''length'' unsigned_char,
      Field ''itc'' bool,
      Field ''pixel_repeat'' unsigned_char,
      Field ''colorspace'' enum_hdmi_colorspace,
      Field ''scan_mode'' enum_hdmi_scan_mode,
      Field ''colorimetry'' enum_hdmi_colorimetry,
      Field ''picture_aspect'' enum_hdmi_picture_aspect,
      Field ''active_aspect'' enum_hdmi_active_aspect,
      Field ''extended_colorimetry'' enum_hdmi_extended_colorimetry,
      Field ''quantization_range'' enum_hdmi_quantization_range,
      Field ''nups'' enum_hdmi_nups,
      Field ''video_code'' unsigned_char,
      Field ''ycc_quantization_range'' enum_hdmi_ycc_quantization_range,
      Field ''content_type'' enum_hdmi_content_type,
      Field ''top_bar'' short_unsigned_int,
      Field ''bottom_bar'' short_unsigned_int,
      Field ''left_bar'' short_unsigned_int,
      Field ''right_bar'' short_unsigned_int]"

definition enum_hdmi_spd_sdi :: cty where
  "enum_hdmi_spd_sdi = CEnum 4
     [(''HDMI_SPD_SDI_UNKNOWN'', 0), (''HDMI_SPD_SDI_DSTB'', 1), (''HDMI_SPD_SDI_DVDP'', 2),
      (''HDMI_SPD_SDI_DVHS'', 3), (''HDMI_SPD_SDI_HDDVR'', 4), (''HDMI_SPD_SDI_DVC'', 5),
      (''HDMI_SPD_SDI_DSC'', 6), (''HDMI_SPD_SDI_VCD'', 7), (''HDMI_SPD_SDI_GAME'', 8),
      (''HDMI_SPD_SDI_PC'', 9), (''HDMI_SPD_SDI_BD'', 10), (''HDMI_SPD_SDI_SACD'', 11),
      (''HDMI_SPD_SDI_HDDVD'', 12), (''HDMI_SPD_SDI_PMP'', 13)]"

definition struct_hdmi_spd_infoframe :: cty where
  "struct_hdmi_spd_infoframe = CStruct ''hdmi_spd_infoframe'' False
     [Field ''type'' enum_hdmi_infoframe_type,
      Field ''version'' unsigned_char,
      Field ''length'' unsigned_char,
      Field ''vendor'' (CArr 8 c_char),
      Field ''product'' (CArr 16 c_char),
      Field ''sdi'' enum_hdmi_spd_sdi]"

definition enum_hdmi_3d_structure :: cty where
  "enum_hdmi_3d_structure = CEnum 4
     [(''HDMI_3D_STRUCTURE_INVALID'', (- 1)), (''HDMI_3D_STRUCTURE_FRAME_PACKING'', 0),
      (''HDMI_3D_STRUCTURE_FIELD_ALTERNATIVE'', 1), (''HDMI_3D_STRUCTURE_LINE_ALTERNATIVE'', 2),
      (''HDMI_3D_STRUCTURE_SIDE_BY_SIDE_FULL'', 3), (''HDMI_3D_STRUCTURE_L_DEPTH'', 4),
      (''HDMI_3D_STRUCTURE_L_DEPTH_GFX_GFX_DEPTH'', 5),
      (''HDMI_3D_STRUCTURE_TOP_AND_BOTTOM'', 6), (''HDMI_3D_STRUCTURE_SIDE_BY_SIDE_HALF'', 8)]"

definition struct_hdmi_vendor_infoframe :: cty where
  "struct_hdmi_vendor_infoframe = CStruct ''hdmi_vendor_infoframe'' False
     [Field ''type'' enum_hdmi_infoframe_type,
      Field ''version'' unsigned_char,
      Field ''length'' unsigned_char,
      Field ''oui'' unsigned_int,
      Field ''vic'' u8,
      Field ''s3d_struct'' enum_hdmi_3d_structure,
      Field ''s3d_ext_data'' unsigned_int]"

definition union_hdmi_vendor_any_infoframe :: cty where
  "union_hdmi_vendor_any_infoframe = CUnion ''hdmi_vendor_any_infoframe'' False
     [Field ''any'' (CStruct [] False
        [Field ''type'' enum_hdmi_infoframe_type,
         Field ''version'' unsigned_char,
         Field ''length'' unsigned_char,
         Field ''oui'' unsigned_int]),
      Field ''hdmi'' struct_hdmi_vendor_infoframe]"

definition enum_hdmi_audio_coding_type :: cty where
  "enum_hdmi_audio_coding_type = CEnum 4
     [(''HDMI_AUDIO_CODING_TYPE_STREAM'', 0), (''HDMI_AUDIO_CODING_TYPE_PCM'', 1),
      (''HDMI_AUDIO_CODING_TYPE_AC3'', 2), (''HDMI_AUDIO_CODING_TYPE_MPEG1'', 3),
      (''HDMI_AUDIO_CODING_TYPE_MP3'', 4), (''HDMI_AUDIO_CODING_TYPE_MPEG2'', 5),
      (''HDMI_AUDIO_CODING_TYPE_AAC_LC'', 6), (''HDMI_AUDIO_CODING_TYPE_DTS'', 7),
      (''HDMI_AUDIO_CODING_TYPE_ATRAC'', 8), (''HDMI_AUDIO_CODING_TYPE_DSD'', 9),
      (''HDMI_AUDIO_CODING_TYPE_EAC3'', 10), (''HDMI_AUDIO_CODING_TYPE_DTS_HD'', 11),
      (''HDMI_AUDIO_CODING_TYPE_MLP'', 12), (''HDMI_AUDIO_CODING_TYPE_DST'', 13),
      (''HDMI_AUDIO_CODING_TYPE_WMA_PRO'', 14), (''HDMI_AUDIO_CODING_TYPE_CXT'', 15)]"

definition enum_hdmi_audio_sample_size :: cty where
  "enum_hdmi_audio_sample_size = CEnum 4
     [(''HDMI_AUDIO_SAMPLE_SIZE_STREAM'', 0), (''HDMI_AUDIO_SAMPLE_SIZE_16'', 1),
      (''HDMI_AUDIO_SAMPLE_SIZE_20'', 2), (''HDMI_AUDIO_SAMPLE_SIZE_24'', 3)]"

definition enum_hdmi_audio_sample_frequency :: cty where
  "enum_hdmi_audio_sample_frequency = CEnum 4
     [(''HDMI_AUDIO_SAMPLE_FREQUENCY_STREAM'', 0), (''HDMI_AUDIO_SAMPLE_FREQUENCY_32000'', 1),
      (''HDMI_AUDIO_SAMPLE_FREQUENCY_44100'', 2), (''HDMI_AUDIO_SAMPLE_FREQUENCY_48000'', 3),
      (''HDMI_AUDIO_SAMPLE_FREQUENCY_88200'', 4), (''HDMI_AUDIO_SAMPLE_FREQUENCY_96000'', 5),
      (''HDMI_AUDIO_SAMPLE_FREQUENCY_176400'', 6), (''HDMI_AUDIO_SAMPLE_FREQUENCY_192000'', 7)]"

definition enum_hdmi_audio_coding_type_ext :: cty where
  "enum_hdmi_audio_coding_type_ext = CEnum 4
     [(''HDMI_AUDIO_CODING_TYPE_EXT_CT'', 0), (''HDMI_AUDIO_CODING_TYPE_EXT_HE_AAC'', 1),
      (''HDMI_AUDIO_CODING_TYPE_EXT_HE_AAC_V2'', 2),
      (''HDMI_AUDIO_CODING_TYPE_EXT_MPEG_SURROUND'', 3),
      (''HDMI_AUDIO_CODING_TYPE_EXT_MPEG4_HE_AAC'', 4),
      (''HDMI_AUDIO_CODING_TYPE_EXT_MPEG4_HE_AAC_V2'', 5),
      (''HDMI_AUDIO_CODING_TYPE_EXT_MPEG4_AAC_LC'', 6), (''HDMI_AUDIO_CODING_TYPE_EXT_DRA'', 7),
      (''HDMI_AUDIO_CODING_TYPE_EXT_MPEG4_HE_AAC_SURROUND'', 8),
      (''HDMI_AUDIO_CODING_TYPE_EXT_MPEG4_AAC_LC_SURROUND'', 10)]"

definition struct_hdmi_audio_infoframe :: cty where
  "struct_hdmi_audio_infoframe = CStruct ''hdmi_audio_infoframe'' False
     [Field ''type'' enum_hdmi_infoframe_type,
      Field ''version'' unsigned_char,
      Field ''length'' unsigned_char,
      Field ''channels'' unsigned_char,
      Field ''coding_type'' enum_hdmi_audio_coding_type,
      Field ''sample_size'' enum_hdmi_audio_sample_size,
      Field ''sample_frequency'' enum_hdmi_audio_sample_frequency,
      Field ''coding_type_ext'' enum_hdmi_audio_coding_type_ext,
      Field ''channel_allocation'' unsigned_char,
      Field ''level_shift_value'' unsigned_char,
      Field ''downmix_inhibit'' bool]"

definition enum_hdmi_eotf :: cty where
  "enum_hdmi_eotf = CEnum 4
     [(''HDMI_EOTF_TRADITIONAL_GAMMA_SDR'', 0), (''HDMI_EOTF_TRADITIONAL_GAMMA_HDR'', 1),
      (''HDMI_EOTF_SMPTE_ST2084'', 2), (''HDMI_EOTF_BT_2100_HLG'', 3)]"

definition enum_hdmi_metadata_type :: cty where
  "enum_hdmi_metadata_type = CEnum 4
     [(''HDMI_STATIC_METADATA_TYPE1'', 0)]"

definition struct_hdmi_drm_infoframe :: cty where
  "struct_hdmi_drm_infoframe = CStruct ''hdmi_drm_infoframe'' False
     [Field ''type'' enum_hdmi_infoframe_type,
      Field ''version'' unsigned_char,
      Field ''length'' unsigned_char,
      Field ''eotf'' enum_hdmi_eotf,
      Field ''metadata_type'' enum_hdmi_metadata_type,
      Field ''display_primaries'' (CArr 3 (CStruct [] False
        [Field ''x'' u16,
         Field ''y'' u16])),
      Field ''white_point'' (CStruct [] False
        [Field ''x'' u16,
         Field ''y'' u16]),
      Field ''max_display_mastering_luminance'' u16,
      Field ''min_display_mastering_luminance'' u16,
      Field ''max_cll'' u16,
      Field ''max_fall'' u16]"

definition union_hdmi_infoframe :: cty where
  "union_hdmi_infoframe = CUnion ''hdmi_infoframe'' False
     [Field ''any'' struct_hdmi_any_infoframe,
      Field ''avi'' struct_hdmi_avi_infoframe,
      Field ''spd'' struct_hdmi_spd_infoframe,
      Field ''vendor'' union_hdmi_vendor_any_infoframe,
      Field ''audio'' struct_hdmi_audio_infoframe,
      Field ''drm'' struct_hdmi_drm_infoframe]"

definition struct_drm_connector_hdmi_infoframe :: cty where
  "struct_drm_connector_hdmi_infoframe = CStruct ''drm_connector_hdmi_infoframe'' False
     [Field ''data'' union_hdmi_infoframe,
      Field ''set'' bool]"

definition struct_drm_connector_hdmi :: cty where
  "struct_drm_connector_hdmi = CStruct ''drm_connector_hdmi'' False
     [Field ''vendor'' (CArr 8 unsigned_char),
      Field ''product'' (CArr 16 unsigned_char),
      Field ''supported_formats'' long_unsigned_int,
      Field ''funcs'' (CPtr ''const struct drm_connector_hdmi_funcs''),
      Field ''infoframes'' (CStruct [] False
        [Field ''lock'' struct_mutex,
         Field ''audio'' struct_drm_connector_hdmi_infoframe])]"

definition struct_drm_connector_hdmi_audio :: cty where
  "struct_drm_connector_hdmi_audio = CStruct ''drm_connector_hdmi_audio'' False
     [Field ''funcs'' (CPtr ''const struct drm_connector_hdmi_audio_funcs''),
      Field ''codec_pdev'' (CPtr ''struct platform_device''),
      Field ''lock'' struct_mutex,
      Field ''plugged_cb'' (CPtr ''void (struct device *, bool)''),
      Field ''plugged_cb_dev'' (CPtr ''struct device''),
      Field ''last_state'' bool,
      Field ''dai_port'' c_int]"

definition struct_drm_connector_cec :: cty where
  "struct_drm_connector_cec = CStruct ''drm_connector_cec'' False
     [Field ''mutex'' struct_mutex,
      Field ''funcs'' (CPtr ''const struct drm_connector_cec_funcs''),
      Field ''data'' (CPtr ''void'')]"

definition struct_drm_connector :: cty where
  "struct_drm_connector = CStruct ''drm_connector'' False
     [Field ''dev'' (CPtr ''struct drm_device''),
      Field ''kdev'' (CPtr ''struct device''),
      Field ''attr'' (CPtr ''struct device_attribute''),
      Field ''fwnode'' (CPtr ''struct fwnode_handle''),
      Field ''head'' struct_list_head,
      Field ''global_connector_list_entry'' struct_list_head,
      Field ''base'' struct_drm_mode_object,
      Field ''name'' (CPtr ''char''),
      Field ''mutex'' struct_mutex,
      Field ''index'' unsigned_int,
      Field ''connector_type'' c_int,
      Field ''connector_type_id'' c_int,
      Field ''interlace_allowed'' bool,
      Field ''doublescan_allowed'' bool,
      Field ''stereo_allowed'' bool,
      Field ''ycbcr_420_allowed'' bool,
      Field ''registration_state'' enum_drm_connector_registration_state,
      Field ''modes'' struct_list_head,
      Field ''status'' enum_drm_connector_status,
      Field ''probed_modes'' struct_list_head,
      Field ''display_info'' struct_drm_display_info,
      Field ''funcs'' (CPtr ''const struct drm_connector_funcs''),
      Field ''edid_blob_ptr'' (CPtr ''struct drm_property_blob''),
      Field ''properties'' struct_drm_object_properties,
      Field ''scaling_mode_property'' (CPtr ''struct drm_property''),
      Field ''vrr_capable_property'' (CPtr ''struct drm_property''),
      Field ''colorspace_property'' (CPtr ''struct drm_property''),
      Field ''path_blob_ptr'' (CPtr ''struct drm_property_blob''),
      Field ''max_bpc'' unsigned_int,
      Field ''max_bpc_property'' (CPtr ''struct drm_property''),
      Field ''privacy_screen'' (CPtr ''struct drm_privacy_screen''),
      Field ''privacy_screen_notifier'' struct_notifier_block,
      Field ''privacy_screen_sw_state_property'' (CPtr ''struct drm_property''),
      Field ''privacy_screen_hw_state_property'' (CPtr ''struct drm_property''),
      Field ''broadcast_rgb_property'' (CPtr ''struct drm_property''),
      Field ''polled'' uint8_t,
      Field ''dpms'' c_int,
      Field ''helper_private'' (CPtr ''const struct drm_connector_helper_funcs''),
      Field ''cmdline_mode'' struct_drm_cmdline_mode,
      Field ''force'' enum_drm_connector_force,
      Field ''edid_override'' (CPtr ''const struct drm_edid''),
      Field ''edid_override_mutex'' struct_mutex,
      Field ''epoch_counter'' u64,
      Field ''possible_encoders'' u32,
      Field ''encoder'' (CPtr ''struct drm_encoder''),
      Field ''eld'' (CArr 128 uint8_t),
      Field ''eld_mutex'' struct_mutex,
      Field ''latency_present'' (CArr 2 bool),
      Field ''video_latency'' (CArr 2 c_int),
      Field ''audio_latency'' (CArr 2 c_int),
      Field ''ddc'' (CPtr ''struct i2c_adapter''),
      Field ''null_edid_counter'' c_int,
      Field ''bad_edid_counter'' unsigned_int,
      Field ''edid_corrupt'' bool,
      Field ''real_edid_checksum'' u8,
      Field ''debugfs_entry'' (CPtr ''struct dentry''),
      Field ''state'' (CPtr ''struct drm_connector_state''),
      Field ''tile_blob_ptr'' (CPtr ''struct drm_property_blob''),
      Field ''has_tile'' bool,
      Field ''tile_group'' (CPtr ''struct drm_tile_group''),
      Field ''tile_is_single_monitor'' bool,
      Field ''num_h_tile'' uint8_t,
      Field ''num_v_tile'' uint8_t,
      Field ''tile_h_loc'' uint8_t,
      Field ''tile_v_loc'' uint8_t,
      Field ''tile_h_size'' uint16_t,
      Field ''tile_v_size'' uint16_t,
      Field ''free_node'' struct_llist_node,
      Field ''hdmi'' struct_drm_connector_hdmi,
      Field ''hdmi_audio'' struct_drm_connector_hdmi_audio,
      Field ''cec'' struct_drm_connector_cec]"

definition enum_drm_mode_status :: cty where
  "enum_drm_mode_status = CEnum 4
     [(''MODE_OK'', 0), (''MODE_HSYNC'', 1), (''MODE_VSYNC'', 2), (''MODE_H_ILLEGAL'', 3),
      (''MODE_V_ILLEGAL'', 4), (''MODE_BAD_WIDTH'', 5), (''MODE_NOMODE'', 6),
      (''MODE_NO_INTERLACE'', 7), (''MODE_NO_DBLESCAN'', 8), (''MODE_NO_VSCAN'', 9),
      (''MODE_MEM'', 10), (''MODE_VIRTUAL_X'', 11), (''MODE_VIRTUAL_Y'', 12),
      (''MODE_MEM_VIRT'', 13), (''MODE_NOCLOCK'', 14), (''MODE_CLOCK_HIGH'', 15),
      (''MODE_CLOCK_LOW'', 16), (''MODE_CLOCK_RANGE'', 17), (''MODE_BAD_HVALUE'', 18),
      (''MODE_BAD_VVALUE'', 19), (''MODE_BAD_VSCAN'', 20), (''MODE_HSYNC_NARROW'', 21),
      (''MODE_HSYNC_WIDE'', 22), (''MODE_HBLANK_NARROW'', 23), (''MODE_HBLANK_WIDE'', 24),
      (''MODE_VSYNC_NARROW'', 25), (''MODE_VSYNC_WIDE'', 26), (''MODE_VBLANK_NARROW'', 27),
      (''MODE_VBLANK_WIDE'', 28), (''MODE_PANEL'', 29), (''MODE_INTERLACE_WIDTH'', 30),
      (''MODE_ONE_WIDTH'', 31), (''MODE_ONE_HEIGHT'', 32), (''MODE_ONE_SIZE'', 33),
      (''MODE_NO_REDUCED'', 34), (''MODE_NO_STEREO'', 35), (''MODE_NO_420'', 36),
      (''MODE_STALE'', (- 3)), (''MODE_BAD'', (- 2)), (''MODE_ERROR'', (- 1))]"

definition struct_drm_display_mode :: cty where
  "struct_drm_display_mode = CStruct ''drm_display_mode'' False
     [Field ''clock'' c_int,
      Field ''hdisplay'' u16,
      Field ''hsync_start'' u16,
      Field ''hsync_end'' u16,
      Field ''htotal'' u16,
      Field ''hskew'' u16,
      Field ''vdisplay'' u16,
      Field ''vsync_start'' u16,
      Field ''vsync_end'' u16,
      Field ''vtotal'' u16,
      Field ''vscan'' u16,
      Field ''flags'' u32,
      Field ''crtc_clock'' c_int,
      Field ''crtc_hdisplay'' u16,
      Field ''crtc_hblank_start'' u16,
      Field ''crtc_hblank_end'' u16,
      Field ''crtc_hsync_start'' u16,
      Field ''crtc_hsync_end'' u16,
      Field ''crtc_htotal'' u16,
      Field ''crtc_hskew'' u16,
      Field ''crtc_vdisplay'' u16,
      Field ''crtc_vblank_start'' u16,
      Field ''crtc_vblank_end'' u16,
      Field ''crtc_vsync_start'' u16,
      Field ''crtc_vsync_end'' u16,
      Field ''crtc_vtotal'' u16,
      Field ''width_mm'' u16,
      Field ''height_mm'' u16,
      Field ''type'' u8,
      Field ''expose_to_userspace'' bool,
      Field ''head'' struct_list_head,
      Field ''name'' (CArr 32 c_char),
      Field ''status'' enum_drm_mode_status,
      Field ''picture_aspect_ratio'' enum_hdmi_picture_aspect]"

definition struct_drm_crtc_crc :: cty where
  "struct_drm_crtc_crc = CStruct ''drm_crtc_crc'' False
     [Field ''lock'' spinlock_t,
      Field ''source'' (CPtr ''const char''),
      Field ''opened'' bool,
      Field ''overflow'' bool,
      Field ''entries'' (CPtr ''struct drm_crtc_crc_entry''),
      Field ''head'' c_int,
      Field ''tail'' c_int,
      Field ''values_cnt'' size_t,
      Field ''wq'' wait_queue_head_t]"

definition struct_drm_crtc :: cty where
  "struct_drm_crtc = CStruct ''drm_crtc'' False
     [Field ''dev'' (CPtr ''struct drm_device''),
      Field ''port'' (CPtr ''struct device_node''),
      Field ''head'' struct_list_head,
      Field ''name'' (CPtr ''char''),
      Field ''mutex'' struct_drm_modeset_lock,
      Field ''base'' struct_drm_mode_object,
      Field ''primary'' (CPtr ''struct drm_plane''),
      Field ''cursor'' (CPtr ''struct drm_plane''),
      Field ''index'' unsigned_int,
      Field ''cursor_x'' c_int,
      Field ''cursor_y'' c_int,
      Field ''enabled'' bool,
      Field ''mode'' struct_drm_display_mode,
      Field ''hwmode'' struct_drm_display_mode,
      Field ''x'' c_int,
      Field ''y'' c_int,
      Field ''funcs'' (CPtr ''const struct drm_crtc_funcs''),
      Field ''gamma_size'' uint32_t,
      Field ''gamma_store'' (CPtr ''uint16_t''),
      Field ''helper_private'' (CPtr ''const struct drm_crtc_helper_funcs''),
      Field ''properties'' struct_drm_object_properties,
      Field ''scaling_filter_property'' (CPtr ''struct drm_property''),
      Field ''sharpness_strength_property'' (CPtr ''struct drm_property''),
      Field ''state'' (CPtr ''struct drm_crtc_state''),
      Field ''commit_list'' struct_list_head,
      Field ''commit_lock'' spinlock_t,
      Field ''debugfs_entry'' (CPtr ''struct dentry''),
      Field ''crc'' struct_drm_crtc_crc,
      Field ''fence_context'' unsigned_int,
      Field ''fence_lock'' spinlock_t,
      Field ''fence_seqno'' long_unsigned_int,
      Field ''timeline_name'' (CArr 32 c_char),
      Field ''self_refresh_data'' (CPtr ''struct drm_self_refresh_data'')]"

definition enum_drm_plane_type :: cty where
  "enum_drm_plane_type = CEnum 4
     [(''DRM_PLANE_TYPE_OVERLAY'', 0), (''DRM_PLANE_TYPE_PRIMARY'', 1),
      (''DRM_PLANE_TYPE_CURSOR'', 2)]"

definition enum_kmsg_dump_reason :: cty where
  "enum_kmsg_dump_reason = CEnum 4
     [(''KMSG_DUMP_UNDEF'', 0), (''KMSG_DUMP_PANIC'', 1), (''KMSG_DUMP_OOPS'', 2),
      (''KMSG_DUMP_EMERG'', 3), (''KMSG_DUMP_SHUTDOWN'', 4), (''KMSG_DUMP_MAX'', 5)]"

definition struct_kmsg_dumper :: cty where
  "struct_kmsg_dumper = CStruct ''kmsg_dumper'' False
     [Field ''list'' struct_list_head,
      Field ''dump'' (CPtr ''void (struct kmsg_dumper *, struct kmsg_dump_detail *)''),
      Field ''max_reason'' enum_kmsg_dump_reason,
      Field ''registered'' bool]"

definition struct_drm_plane :: cty where
  "struct_drm_plane = CStruct ''drm_plane'' False
     [Field ''dev'' (CPtr ''struct drm_device''),
      Field ''head'' struct_list_head,
      Field ''name'' (CPtr ''char''),
      Field ''mutex'' struct_drm_modeset_lock,
      Field ''base'' struct_drm_mode_object,
      Field ''possible_crtcs'' uint32_t,
      Field ''format_types'' (CPtr ''uint32_t''),
      Field ''format_count'' unsigned_int,
      Field ''format_default'' bool,
      Field ''modifiers'' (CPtr ''uint64_t''),
      Field ''modifier_count'' unsigned_int,
      Field ''crtc'' (CPtr ''struct drm_crtc''),
      Field ''fb'' (CPtr ''struct drm_framebuffer''),
      Field ''old_fb'' (CPtr ''struct drm_framebuffer''),
      Field ''funcs'' (CPtr ''const struct drm_plane_funcs''),
      Field ''properties'' struct_drm_object_properties,
      Field ''type'' enum_drm_plane_type,
      Field ''index'' unsigned_int,
      Field ''helper_private'' (CPtr ''const struct drm_plane_helper_funcs''),
      Field ''state'' (CPtr ''struct drm_plane_state''),
      Field ''alpha_property'' (CPtr ''struct drm_property''),
      Field ''zpos_property'' (CPtr ''struct drm_property''),
      Field ''rotation_property'' (CPtr ''struct drm_property''),
      Field ''blend_mode_property'' (CPtr ''struct drm_property''),
      Field ''color_encoding_property'' (CPtr ''struct drm_property''),
      Field ''color_range_property'' (CPtr ''struct drm_property''),
      Field ''color_pipeline_property'' (CPtr ''struct drm_property''),
      Field ''scaling_filter_property'' (CPtr ''struct drm_property''),
      Field ''hotspot_x_property'' (CPtr ''struct drm_property''),
      Field ''hotspot_y_property'' (CPtr ''struct drm_property''),
      Field ''kmsg_panic'' struct_kmsg_dumper]"

definition struct_drm_framebuffer :: cty where
  "struct_drm_framebuffer = CStruct ''drm_framebuffer'' False
     [Field ''dev'' (CPtr ''struct drm_device''),
      Field ''head'' struct_list_head,
      Field ''base'' struct_drm_mode_object,
      Field ''comm'' (CArr 16 c_char),
      Field ''format'' (CPtr ''const struct drm_format_info''),
      Field ''funcs'' (CPtr ''const struct drm_framebuffer_funcs''),
      Field ''pitches'' (CArr 4 unsigned_int),
      Field ''offsets'' (CArr 4 unsigned_int),
      Field ''modifier'' uint64_t,
      Field ''width'' unsigned_int,
      Field ''height'' unsigned_int,
      Field ''flags'' c_int,
      Field ''internal_flags'' unsigned_int,
      Field ''filp_head'' struct_list_head,
      Field ''obj'' (CArr 4 (CPtr ''struct drm_gem_object''))]"

definition struct_drm_encoder :: cty where
  "struct_drm_encoder = CStruct ''drm_encoder'' False
     [Field ''dev'' (CPtr ''struct drm_device''),
      Field ''head'' struct_list_head,
      Field ''base'' struct_drm_mode_object,
      Field ''name'' (CPtr ''char''),
      Field ''encoder_type'' c_int,
      Field ''index'' unsigned_int,
      Field ''possible_crtcs'' uint32_t,
      Field ''possible_clones'' uint32_t,
      Field ''crtc'' (CPtr ''struct drm_crtc''),
      Field ''bridge_chain'' struct_list_head,
      Field ''funcs'' (CPtr ''const struct drm_encoder_funcs''),
      Field ''helper_private'' (CPtr ''const struct drm_encoder_helper_funcs''),
      Field ''debugfs_entry'' (CPtr ''struct dentry'')]"

definition struct_drm_mode_config_funcs :: cty where
  "struct_drm_mode_config_funcs = CStruct ''drm_mode_config_funcs'' False
     [Field ''fb_create'' (CPtr ''struct drm_framebuffer * (struct drm_device *, struct drm_file *, const struct drm_format_info *, const struct drm_mode_fb_cmd2 *)''),
      Field ''get_format_info'' (CPtr ''const struct drm_format_info * (u32, u64)''),
      Field ''mode_valid'' (CPtr ''enum drm_mode_status (struct drm_device *, const struct drm_display_mode *)''),
      Field ''atomic_check'' (CPtr ''int (struct drm_device *, struct drm_atomic_state *)''),
      Field ''atomic_commit'' (CPtr ''int (struct drm_device *, struct drm_atomic_state *, bool)''),
      Field ''atomic_state_alloc'' (CPtr ''struct drm_atomic_state * (struct drm_device *)''),
      Field ''atomic_state_clear'' (CPtr ''void (struct drm_atomic_state *)''),
      Field ''atomic_state_free'' (CPtr ''void (struct drm_atomic_state *)'')]"

definition enum_drm_scaling_filter :: cty where
  "enum_drm_scaling_filter = CEnum 4
     [(''DRM_SCALING_FILTER_DEFAULT'', 0), (''DRM_SCALING_FILTER_NEAREST_NEIGHBOR'', 1)]"

definition struct_drm_crtc_state :: cty where
  "struct_drm_crtc_state = CStruct ''drm_crtc_state'' False
     [Field ''crtc'' (CPtr ''struct drm_crtc''),
      Field ''enable'' bool,
      Field ''active'' bool,
      BitField ''planes_changed'' bool 1,
      BitField ''mode_changed'' bool 1,
      BitField ''active_changed'' bool 1,
      BitField ''connectors_changed'' bool 1,
      BitField ''zpos_changed'' bool 1,
      BitField ''color_mgmt_changed'' bool 1,
      Field ''no_vblank'' bool,
      Field ''plane_mask'' u32,
      Field ''connector_mask'' u32,
      Field ''encoder_mask'' u32,
      Field ''adjusted_mode'' struct_drm_display_mode,
      Field ''mode'' struct_drm_display_mode,
      Field ''mode_blob'' (CPtr ''struct drm_property_blob''),
      Field ''degamma_lut'' (CPtr ''struct drm_property_blob''),
      Field ''ctm'' (CPtr ''struct drm_property_blob''),
      Field ''gamma_lut'' (CPtr ''struct drm_property_blob''),
      Field ''target_vblank'' u32,
      Field ''async_flip'' bool,
      Field ''vrr_enabled'' bool,
      Field ''self_refresh_active'' bool,
      Field ''scaling_filter'' enum_drm_scaling_filter,
      Field ''sharpness_strength'' u8,
      Field ''event'' (CPtr ''struct drm_pending_vblank_event''),
      Field ''commit'' (CPtr ''struct drm_crtc_commit''),
      Field ''state'' (CPtr ''struct drm_atomic_state'')]"

definition int32_t :: cty where [layout_simps]:
  "int32_t = s32"

definition enum_drm_color_encoding :: cty where
  "enum_drm_color_encoding = CEnum 4
     [(''DRM_COLOR_YCBCR_BT601'', 0), (''DRM_COLOR_YCBCR_BT709'', 1),
      (''DRM_COLOR_YCBCR_BT2020'', 2), (''DRM_COLOR_ENCODING_MAX'', 3)]"

definition enum_drm_color_range :: cty where
  "enum_drm_color_range = CEnum 4
     [(''DRM_COLOR_YCBCR_LIMITED_RANGE'', 0), (''DRM_COLOR_YCBCR_FULL_RANGE'', 1),
      (''DRM_COLOR_RANGE_MAX'', 2)]"

definition struct_drm_rect :: cty where
  "struct_drm_rect = CStruct ''drm_rect'' False
     [Field ''x1'' c_int,
      Field ''y1'' c_int,
      Field ''x2'' c_int,
      Field ''y2'' c_int]"

definition struct_drm_plane_state :: cty where
  "struct_drm_plane_state = CStruct ''drm_plane_state'' False
     [Field ''plane'' (CPtr ''struct drm_plane''),
      Field ''crtc'' (CPtr ''struct drm_crtc''),
      Field ''fb'' (CPtr ''struct drm_framebuffer''),
      Field ''fence'' (CPtr ''struct dma_fence''),
      Field ''crtc_x'' int32_t,
      Field ''crtc_y'' int32_t,
      Field ''crtc_w'' uint32_t,
      Field ''crtc_h'' uint32_t,
      Field ''src_x'' uint32_t,
      Field ''src_y'' uint32_t,
      Field ''src_h'' uint32_t,
      Field ''src_w'' uint32_t,
      Field ''hotspot_x'' int32_t,
      Field ''hotspot_y'' int32_t,
      Field ''alpha'' u16,
      Field ''pixel_blend_mode'' uint16_t,
      Field ''rotation'' unsigned_int,
      Field ''zpos'' unsigned_int,
      Field ''normalized_zpos'' unsigned_int,
      Field ''color_encoding'' enum_drm_color_encoding,
      Field ''color_range'' enum_drm_color_range,
      Field ''fb_damage_clips'' (CPtr ''struct drm_property_blob''),
      Field ''ignore_damage_clips'' bool,
      Field ''src'' struct_drm_rect,
      Field ''dst'' struct_drm_rect,
      Field ''visible'' bool,
      Field ''scaling_filter'' enum_drm_scaling_filter,
      Field ''color_pipeline'' (CPtr ''struct drm_colorop''),
      Field ''commit'' (CPtr ''struct drm_crtc_commit''),
      Field ''state'' (CPtr ''struct drm_atomic_state''),
      BitField ''color_mgmt_changed'' bool 1]"

definition enum_drm_link_status :: cty where
  "enum_drm_link_status = CEnum 4
     [(''DRM_LINK_STATUS_GOOD'', 0), (''DRM_LINK_STATUS_BAD'', 1)]"

definition enum_drm_mode_subconnector :: cty where
  "enum_drm_mode_subconnector = CEnum 4
     [(''DRM_MODE_SUBCONNECTOR_Automatic'', 0), (''DRM_MODE_SUBCONNECTOR_Unknown'', 0),
      (''DRM_MODE_SUBCONNECTOR_VGA'', 1), (''DRM_MODE_SUBCONNECTOR_DVID'', 3),
      (''DRM_MODE_SUBCONNECTOR_DVIA'', 4), (''DRM_MODE_SUBCONNECTOR_Composite'', 5),
      (''DRM_MODE_SUBCONNECTOR_SVIDEO'', 6), (''DRM_MODE_SUBCONNECTOR_Component'', 8),
      (''DRM_MODE_SUBCONNECTOR_SCART'', 9), (''DRM_MODE_SUBCONNECTOR_DisplayPort'', 10),
      (''DRM_MODE_SUBCONNECTOR_HDMIA'', 11), (''DRM_MODE_SUBCONNECTOR_Native'', 15),
      (''DRM_MODE_SUBCONNECTOR_Wireless'', 18)]"

definition struct_drm_tv_connector_state :: cty where
  "struct_drm_tv_connector_state = CStruct ''drm_tv_connector_state'' False
     [Field ''select_subconnector'' enum_drm_mode_subconnector,
      Field ''subconnector'' enum_drm_mode_subconnector,
      Field ''margins'' struct_drm_connector_tv_margins,
      Field ''legacy_mode'' unsigned_int,
      Field ''mode'' unsigned_int,
      Field ''brightness'' unsigned_int,
      Field ''contrast'' unsigned_int,
      Field ''flicker_reduction'' unsigned_int,
      Field ''overscan'' unsigned_int,
      Field ''saturation'' unsigned_int,
      Field ''hue'' unsigned_int]"

definition enum_drm_colorspace :: cty where
  "enum_drm_colorspace = CEnum 4
     [(''DRM_MODE_COLORIMETRY_DEFAULT'', 0), (''DRM_MODE_COLORIMETRY_NO_DATA'', 0),
      (''DRM_MODE_COLORIMETRY_SMPTE_170M_YCC'', 1), (''DRM_MODE_COLORIMETRY_BT709_YCC'', 2),
      (''DRM_MODE_COLORIMETRY_XVYCC_601'', 3), (''DRM_MODE_COLORIMETRY_XVYCC_709'', 4),
      (''DRM_MODE_COLORIMETRY_SYCC_601'', 5), (''DRM_MODE_COLORIMETRY_OPYCC_601'', 6),
      (''DRM_MODE_COLORIMETRY_OPRGB'', 7), (''DRM_MODE_COLORIMETRY_BT2020_CYCC'', 8),
      (''DRM_MODE_COLORIMETRY_BT2020_RGB'', 9), (''DRM_MODE_COLORIMETRY_BT2020_YCC'', 10),
      (''DRM_MODE_COLORIMETRY_DCI_P3_RGB_D65'', 11),
      (''DRM_MODE_COLORIMETRY_DCI_P3_RGB_THEATER'', 12),
      (''DRM_MODE_COLORIMETRY_RGB_WIDE_FIXED'', 13),
      (''DRM_MODE_COLORIMETRY_RGB_WIDE_FLOAT'', 14), (''DRM_MODE_COLORIMETRY_BT601_YCC'', 15),
      (''DRM_MODE_COLORIMETRY_COUNT'', 16)]"

definition enum_drm_privacy_screen_status :: cty where
  "enum_drm_privacy_screen_status = CEnum 4
     [(''PRIVACY_SCREEN_DISABLED'', 0), (''PRIVACY_SCREEN_ENABLED'', 1),
      (''PRIVACY_SCREEN_DISABLED_LOCKED'', 2), (''PRIVACY_SCREEN_ENABLED_LOCKED'', 3)]"

definition enum_drm_hdmi_broadcast_rgb :: cty where
  "enum_drm_hdmi_broadcast_rgb = CEnum 4
     [(''DRM_HDMI_BROADCAST_RGB_AUTO'', 0), (''DRM_HDMI_BROADCAST_RGB_FULL'', 1),
      (''DRM_HDMI_BROADCAST_RGB_LIMITED'', 2)]"

definition struct_drm_connector_hdmi_state :: cty where
  "struct_drm_connector_hdmi_state = CStruct ''drm_connector_hdmi_state'' False
     [Field ''broadcast_rgb'' enum_drm_hdmi_broadcast_rgb,
      Field ''infoframes'' (CStruct [] False
        [Field ''avi'' struct_drm_connector_hdmi_infoframe,
         Field ''hdr_drm'' struct_drm_connector_hdmi_infoframe,
         Field ''spd'' struct_drm_connector_hdmi_infoframe,
         Field ''hdmi'' struct_drm_connector_hdmi_infoframe]),
      Field ''is_limited_range'' bool,
      Field ''output_bpc'' unsigned_int,
      Field ''output_format'' enum_hdmi_colorspace,
      Field ''tmds_char_rate'' long_long_unsigned_int]"

definition struct_drm_connector_state :: cty where
  "struct_drm_connector_state = CStruct ''drm_connector_state'' False
     [Field ''connector'' (CPtr ''struct drm_connector''),
      Field ''crtc'' (CPtr ''struct drm_crtc''),
      Field ''best_encoder'' (CPtr ''struct drm_encoder''),
      Field ''link_status'' enum_drm_link_status,
      Field ''state'' (CPtr ''struct drm_atomic_state''),
      Field ''commit'' (CPtr ''struct drm_crtc_commit''),
      Field ''tv'' struct_drm_tv_connector_state,
      Field ''self_refresh_aware'' bool,
      Field ''picture_aspect_ratio'' enum_hdmi_picture_aspect,
      Field ''content_type'' unsigned_int,
      Field ''hdcp_content_type'' unsigned_int,
      Field ''scaling_mode'' unsigned_int,
      Field ''content_protection'' unsigned_int,
      Field ''colorspace'' enum_drm_colorspace,
      Field ''writeback_job'' (CPtr ''struct drm_writeback_job''),
      Field ''max_requested_bpc'' u8,
      Field ''max_bpc'' u8,
      Field ''privacy_screen_sw_state'' enum_drm_privacy_screen_status,
      Field ''hdr_output_metadata'' (CPtr ''struct drm_property_blob''),
      Field ''hdmi'' struct_drm_connector_hdmi_state]"

definition struct_drm_atomic_state :: cty where
  "struct_drm_atomic_state = CStruct ''drm_atomic_state'' False
     [Field ''ref'' struct_kref,
      Field ''dev'' (CPtr ''struct drm_device''),
      BitField ''allow_modeset'' bool 1,
      BitField ''legacy_cursor_update'' bool 1,
      BitField ''async_update'' bool 1,
      BitField ''duplicated'' bool 1,
      BitField ''checked'' bool 1,
      BitField ''plane_color_pipeline'' bool 1,
      Field ''colorops'' (CPtr ''struct __drm_colorops_state''),
      Field ''planes'' (CPtr ''struct __drm_planes_state''),
      Field ''crtcs'' (CPtr ''struct __drm_crtcs_state''),
      Field ''num_connector'' c_int,
      Field ''connectors'' (CPtr ''struct __drm_connnectors_state''),
      Field ''num_private_objs'' c_int,
      Field ''private_objs'' (CPtr ''struct __drm_private_objs_state''),
      Field ''acquire_ctx'' (CPtr ''struct drm_modeset_acquire_ctx''),
      Field ''fake_commit'' (CPtr ''struct drm_crtc_commit''),
      Field ''commit_work'' struct_work_struct]"

definition struct_drm_property :: cty where
  "struct_drm_property = CStruct ''drm_property'' False
     [Field ''head'' struct_list_head,
      Field ''base'' struct_drm_mode_object,
      Field ''flags'' uint32_t,
      Field ''name'' (CArr 32 c_char),
      Field ''num_values'' uint32_t,
      Field ''values'' (CPtr ''uint64_t''),
      Field ''dev'' (CPtr ''struct drm_device''),
      Field ''enum_list'' struct_list_head]"

definition struct_drm_private_obj :: cty where
  "struct_drm_private_obj = CStruct ''drm_private_obj'' False
     [Field ''dev'' (CPtr ''struct drm_device''),
      Field ''head'' struct_list_head,
      Field ''lock'' struct_drm_modeset_lock,
      Field ''state'' (CPtr ''struct drm_private_state''),
      Field ''funcs'' (CPtr ''const struct drm_private_state_funcs'')]"

definition enum_drm_bridge_ops :: cty where
  "enum_drm_bridge_ops = CEnum 4
     [(''DRM_BRIDGE_OP_DETECT'', 1), (''DRM_BRIDGE_OP_EDID'', 2), (''DRM_BRIDGE_OP_HPD'', 4),
      (''DRM_BRIDGE_OP_MODES'', 8), (''DRM_BRIDGE_OP_HDMI'', 16),
      (''DRM_BRIDGE_OP_HDMI_AUDIO'', 32), (''DRM_BRIDGE_OP_DP_AUDIO'', 64),
      (''DRM_BRIDGE_OP_HDMI_CEC_NOTIFIER'', 128), (''DRM_BRIDGE_OP_HDMI_CEC_ADAPTER'', 256),
      (''DRM_BRIDGE_OP_HDMI_HDR_DRM_INFOFRAME'', 512),
      (''DRM_BRIDGE_OP_HDMI_SPD_INFOFRAME'', 1024)]"

definition struct_drm_bridge :: cty where
  "struct_drm_bridge = CStruct ''drm_bridge'' False
     [Field ''base'' struct_drm_private_obj,
      Field ''dev'' (CPtr ''struct drm_device''),
      Field ''encoder'' (CPtr ''struct drm_encoder''),
      Field ''chain_node'' struct_list_head,
      Field ''of_node'' (CPtr ''struct device_node''),
      Field ''list'' struct_list_head,
      Field ''timings'' (CPtr ''const struct drm_bridge_timings''),
      Field ''funcs'' (CPtr ''const struct drm_bridge_funcs''),
      Field ''container'' (CPtr ''void''),
      Field ''refcount'' struct_kref,
      Field ''unplugged'' bool,
      Field ''driver_private'' (CPtr ''void''),
      Field ''ops'' enum_drm_bridge_ops,
      Field ''type'' c_int,
      Field ''interlace_allowed'' bool,
      Field ''ycbcr_420_allowed'' bool,
      Field ''pre_enable_prev_first'' bool,
      Field ''support_hdcp'' bool,
      Field ''ddc'' (CPtr ''struct i2c_adapter''),
      Field ''vendor'' (CPtr ''const char''),
      Field ''product'' (CPtr ''const char''),
      Field ''supported_formats'' unsigned_int,
      Field ''max_bpc'' unsigned_int,
      Field ''hdmi_cec_dev'' (CPtr ''struct device''),
      Field ''hdmi_audio_dev'' (CPtr ''struct device''),
      Field ''hdmi_audio_max_i2s_playback_channels'' c_int,
      Field ''hdmi_audio_i2s_formats'' u64,
      BitField ''hdmi_audio_spdif_playback'' unsigned_int 1,
      Field ''hdmi_audio_dai_port'' c_int,
      Field ''hdmi_cec_adapter_name'' (CPtr ''const char''),
      Field ''hdmi_cec_available_las'' u8,
      Field ''hpd_mutex'' struct_mutex,
      Field ''hpd_cb'' (CPtr ''void (void *, enum drm_connector_status)''),
      Field ''hpd_data'' (CPtr ''void''),
      Field ''next_bridge'' (CPtr ''struct drm_bridge'')]"

definition struct_drm_panel :: cty where
  "struct_drm_panel = CStruct ''drm_panel'' False
     [Field ''dev'' (CPtr ''struct device''),
      Field ''backlight'' (CPtr ''struct backlight_device''),
      Field ''funcs'' (CPtr ''const struct drm_panel_funcs''),
      Field ''connector_type'' c_int,
      Field ''list'' struct_list_head,
      Field ''followers'' struct_list_head,
      Field ''follower_lock'' struct_mutex,
      Field ''prepare_prev_first'' bool,
      Field ''prepared'' bool,
      Field ''enabled'' bool,
      Field ''container'' (CPtr ''void''),
      Field ''refcount'' struct_kref]"

definition struct_drm_client_dev :: cty where
  "struct_drm_client_dev = CStruct ''drm_client_dev'' False
     [Field ''dev'' (CPtr ''struct drm_device''),
      Field ''name'' (CPtr ''const char''),
      Field ''list'' struct_list_head,
      Field ''funcs'' (CPtr ''const struct drm_client_funcs''),
      Field ''file'' (CPtr ''struct drm_file''),
      Field ''modeset_mutex'' struct_mutex,
      Field ''modesets'' (CPtr ''struct drm_mode_set''),
      Field ''suspended'' bool,
      Field ''hotplug_pending'' bool,
      Field ''hotplug_failed'' bool]"

definition struct_drm_clip_rect :: cty where
  "struct_drm_clip_rect = CStruct ''drm_clip_rect'' False
     [Field ''x1'' short_unsigned_int,
      Field ''y1'' short_unsigned_int,
      Field ''x2'' short_unsigned_int,
      Field ''y2'' short_unsigned_int]"

definition struct_fb_deferred_io :: cty where
  "struct_fb_deferred_io = CStruct ''fb_deferred_io'' False
     [Field ''delay'' long_unsigned_int,
      Field ''sort_pagereflist'' bool,
      Field ''open_count'' c_int,
      Field ''pagereflist'' struct_list_head,
      Field ''mapping'' (CPtr ''struct address_space''),
      Field ''get_page'' (CPtr ''struct page * (struct fb_info *, long unsigned int)''),
      Field ''deferred_io'' (CPtr ''void (struct fb_info *, struct list_head *)'')]"

definition struct_drm_fb_helper :: cty where
  "struct_drm_fb_helper = CStruct ''drm_fb_helper'' False
     [Field ''client'' struct_drm_client_dev,
      Field ''buffer'' (CPtr ''struct drm_client_buffer''),
      Field ''fb'' (CPtr ''struct drm_framebuffer''),
      Field ''dev'' (CPtr ''struct drm_device''),
      Field ''funcs'' (CPtr ''const struct drm_fb_helper_funcs''),
      Field ''info'' (CPtr ''struct fb_info''),
      Field ''pseudo_palette'' (CArr 17 u32),
      Field ''damage_clip'' struct_drm_clip_rect,
      Field ''damage_lock'' spinlock_t,
      Field ''damage_work'' struct_work_struct,
      Field ''resume_work'' struct_work_struct,
      Field ''lock'' struct_mutex,
      Field ''delayed_hotplug'' bool,
      Field ''deferred_setup'' bool,
      Field ''preferred_bpp'' c_int,
      Field ''fbdefio'' struct_fb_deferred_io]"

definition struct_drm_mode_modeinfo :: cty where
  "struct_drm_mode_modeinfo = CStruct ''drm_mode_modeinfo'' False
     [Field ''clock'' c__u32,
      Field ''hdisplay'' c__u16,
      Field ''hsync_start'' c__u16,
      Field ''hsync_end'' c__u16,
      Field ''htotal'' c__u16,
      Field ''hskew'' c__u16,
      Field ''vdisplay'' c__u16,
      Field ''vsync_start'' c__u16,
      Field ''vsync_end'' c__u16,
      Field ''vtotal'' c__u16,
      Field ''vscan'' c__u16,
      Field ''vrefresh'' c__u32,
      Field ''flags'' c__u32,
      Field ''type'' c__u32,
      Field ''name'' (CArr 32 c_char)]"

definition struct_drm_event :: cty where
  "struct_drm_event = CStruct ''drm_event'' False
     [Field ''type'' c__u32,
      Field ''length'' c__u32]"

definition struct_drm_pending_event :: cty where
  "struct_drm_pending_event = CStruct ''drm_pending_event'' False
     [Field ''completion'' (CPtr ''struct completion''),
      Field ''completion_release'' (CPtr ''void (struct completion *)''),
      Field ''event'' (CPtr ''struct drm_event''),
      Field ''fence'' (CPtr ''struct dma_fence''),
      Field ''file_priv'' (CPtr ''struct drm_file''),
      Field ''link'' struct_list_head,
      Field ''pending_link'' struct_list_head]"

definition struct_drm_event_vblank :: cty where
  "struct_drm_event_vblank = CStruct ''drm_event_vblank'' False
     [Field ''base'' struct_drm_event,
      Field ''user_data'' c__u64,
      Field ''tv_sec'' c__u32,
      Field ''tv_usec'' c__u32,
      Field ''sequence'' c__u32,
      Field ''crtc_id'' c__u32]"

definition struct_drm_event_crtc_sequence :: cty where
  "struct_drm_event_crtc_sequence = CStruct ''drm_event_crtc_sequence'' False
     [Field ''base'' struct_drm_event,
      Field ''user_data'' c__u64,
      Field ''time_ns'' c__s64,
      Field ''sequence'' c__u64]"

definition struct_drm_pending_vblank_event :: cty where
  "struct_drm_pending_vblank_event = CStruct ''drm_pending_vblank_event'' False
     [Field ''base'' struct_drm_pending_event,
      Field ''pipe'' unsigned_int,
      Field ''sequence'' u64,
      Field ''event'' (CUnion [] False
        [Field ''base'' struct_drm_event,
         Field ''vbl'' struct_drm_event_vblank,
         Field ''seq'' struct_drm_event_crtc_sequence])]"

definition struct_drm_vblank_crtc_config :: cty where
  "struct_drm_vblank_crtc_config = CStruct ''drm_vblank_crtc_config'' False
     [Field ''offdelay_ms'' c_int,
      Field ''disable_immediate'' bool]"

definition struct_drm_vblank_crtc_timer :: cty where
  "struct_drm_vblank_crtc_timer = CStruct ''drm_vblank_crtc_timer'' False
     [Field ''timer'' struct_hrtimer,
      Field ''interval_lock'' spinlock_t,
      Field ''interval'' ktime_t,
      Field ''crtc'' (CPtr ''struct drm_crtc'')]"

definition struct_drm_vblank_crtc :: cty where
  "struct_drm_vblank_crtc = CStruct ''drm_vblank_crtc'' False
     [Field ''dev'' (CPtr ''struct drm_device''),
      Field ''queue'' wait_queue_head_t,
      Field ''disable_timer'' struct_timer_list,
      Field ''seqlock'' seqlock_t,
      Field ''count'' atomic64_t,
      Field ''time'' ktime_t,
      Field ''refcount'' atomic_t,
      Field ''last'' u32,
      Field ''max_vblank_count'' u32,
      Field ''inmodeset'' unsigned_int,
      Field ''pipe'' unsigned_int,
      Field ''framedur_ns'' c_int,
      Field ''linedur_ns'' c_int,
      Field ''hwmode'' struct_drm_display_mode,
      Field ''config'' struct_drm_vblank_crtc_config,
      Field ''enabled'' bool,
      Field ''worker'' (CPtr ''struct kthread_worker''),
      Field ''pending_work'' struct_list_head,
      Field ''work_wait_queue'' wait_queue_head_t,
      Field ''vblank_timer'' struct_drm_vblank_crtc_timer]"

definition struct_drm_master :: cty where
  "struct_drm_master = CStruct ''drm_master'' False
     [Field ''refcount'' struct_kref,
      Field ''dev'' (CPtr ''struct drm_device''),
      Field ''unique'' (CPtr ''char''),
      Field ''unique_len'' c_int,
      Field ''magic_map'' struct_idr,
      Field ''driver_priv'' (CPtr ''void''),
      Field ''lessor'' (CPtr ''struct drm_master''),
      Field ''lessee_id'' c_int,
      Field ''lessee_list'' struct_list_head,
      Field ''lessees'' struct_list_head,
      Field ''leases'' struct_idr,
      Field ''lessee_idr'' struct_idr]"

definition struct_drm_syncobj :: cty where
  "struct_drm_syncobj = CStruct ''drm_syncobj'' False
     [Field ''refcount'' struct_kref,
      Field ''fence'' (CPtr ''struct dma_fence''),
      Field ''cb_list'' struct_list_head,
      Field ''ev_fd_list'' struct_list_head,
      Field ''lock'' spinlock_t,
      Field ''file'' (CPtr ''struct file'')]"

definition enum_drm_gpuvm_flags :: cty where
  "enum_drm_gpuvm_flags = CEnum 4
     [(''DRM_GPUVM_RESV_PROTECTED'', 1), (''DRM_GPUVM_IMMEDIATE_MODE'', 2),
      (''DRM_GPUVM_USERBITS'', 4)]"

definition enum_drm_gpuva_flags :: cty where
  "enum_drm_gpuva_flags = CEnum 4
     [(''DRM_GPUVA_INVALIDATED'', 1), (''DRM_GPUVA_SPARSE'', 2), (''DRM_GPUVA_USERBITS'', 4)]"

definition struct_drm_gpuva :: cty where
  "struct_drm_gpuva = CStruct ''drm_gpuva'' False
     [Field ''vm'' (CPtr ''struct drm_gpuvm''),
      Field ''vm_bo'' (CPtr ''struct drm_gpuvm_bo''),
      Field ''flags'' enum_drm_gpuva_flags,
      Field ''va'' (CStruct [] False
        [Field ''addr'' u64,
         Field ''range'' u64]),
      Field ''gem'' (CStruct [] False
        [Field ''offset'' u64,
         Field ''obj'' (CPtr ''struct drm_gem_object''),
         Field ''entry'' struct_list_head]),
      Field ''rb'' (CStruct [] False
        [Field ''node'' struct_rb_node,
         Field ''entry'' struct_list_head,
         Field ''__subtree_last'' u64])]"

definition struct_drm_gpuvm :: cty where
  "struct_drm_gpuvm = CStruct ''drm_gpuvm'' False
     [Field ''name'' (CPtr ''const char''),
      Field ''flags'' enum_drm_gpuvm_flags,
      Field ''drm'' (CPtr ''struct drm_device''),
      Field ''mm_start'' u64,
      Field ''mm_range'' u64,
      Field ''rb'' (CStruct [] False
        [Field ''tree'' struct_rb_root_cached,
         Field ''list'' struct_list_head]),
      Field ''kref'' struct_kref,
      Field ''kernel_alloc_node'' struct_drm_gpuva,
      Field ''ops'' (CPtr ''const struct drm_gpuvm_ops''),
      Field ''r_obj'' (CPtr ''struct drm_gem_object''),
      Field ''extobj'' (CStruct [] False
        [Field ''list'' struct_list_head,
         Field ''local_list'' (CPtr ''struct list_head''),
         Field ''lock'' spinlock_t]),
      Field ''evict'' (CStruct [] False
        [Field ''list'' struct_list_head,
         Field ''local_list'' (CPtr ''struct list_head''),
         Field ''lock'' spinlock_t]),
      Field ''bo_defer'' struct_llist_head]"

definition struct_ww_acquire_ctx :: cty where
  "struct_ww_acquire_ctx = CStruct ''ww_acquire_ctx'' False
     [Field ''task'' (CPtr ''struct task_struct''),
      Field ''stamp'' long_unsigned_int,
      Field ''acquired'' unsigned_int,
      Field ''wounded'' short_unsigned_int,
      Field ''is_wait_die'' short_unsigned_int]"

definition struct_drm_exec :: cty where
  "struct_drm_exec = CStruct ''drm_exec'' False
     [Field ''flags'' u32,
      Field ''ticket'' struct_ww_acquire_ctx,
      Field ''num_objects'' unsigned_int,
      Field ''max_objects'' unsigned_int,
      Field ''objects'' (CPtr ''struct drm_gem_object *''),
      Field ''contended'' (CPtr ''struct drm_gem_object''),
      Field ''prelocked'' (CPtr ''struct drm_gem_object'')]"

definition enum_drm_debug_category :: cty where
  "enum_drm_debug_category = CEnum 4
     [(''DRM_UT_CORE'', 0), (''DRM_UT_DRIVER'', 1), (''DRM_UT_KMS'', 2), (''DRM_UT_PRIME'', 3),
      (''DRM_UT_ATOMIC'', 4), (''DRM_UT_VBL'', 5), (''DRM_UT_STATE'', 6), (''DRM_UT_LEASE'', 7),
      (''DRM_UT_DP'', 8), (''DRM_UT_DRMRES'', 9)]"

definition struct_drm_printer :: cty where
  "struct_drm_printer = CStruct ''drm_printer'' False
     [Field ''printfn'' (CPtr ''void (struct drm_printer *, struct va_format *)''),
      Field ''puts'' (CPtr ''void (struct drm_printer *, const char *)''),
      Field ''arg'' (CPtr ''void''),
      Field ''origin'' (CPtr ''const void''),
      Field ''prefix'' (CPtr ''const char''),
      Field ''line'' (CStruct [] False
        [Field ''series'' unsigned_int,
         Field ''counter'' unsigned_int]),
      Field ''category'' enum_drm_debug_category]"

definition struct_drm_gem_object_funcs :: cty where
  "struct_drm_gem_object_funcs = CStruct ''drm_gem_object_funcs'' False
     [Field ''free'' (CPtr ''void (struct drm_gem_object *)''),
      Field ''open'' (CPtr ''int (struct drm_gem_object *, struct drm_file *)''),
      Field ''close'' (CPtr ''void (struct drm_gem_object *, struct drm_file *)''),
      Field ''print_info'' (CPtr ''void (struct drm_printer *, unsigned int, const struct drm_gem_object *)''),
      Field ''export'' (CPtr ''struct dma_buf * (struct drm_gem_object *, int)''),
      Field ''pin'' (CPtr ''int (struct drm_gem_object *)''),
      Field ''unpin'' (CPtr ''void (struct drm_gem_object *)''),
      Field ''get_sg_table'' (CPtr ''struct sg_table * (struct drm_gem_object *)''),
      Field ''vmap'' (CPtr ''int (struct drm_gem_object *, struct iosys_map *)''),
      Field ''vunmap'' (CPtr ''void (struct drm_gem_object *, struct iosys_map *)''),
      Field ''mmap'' (CPtr ''int (struct drm_gem_object *, struct vm_area_struct *)''),
      Field ''evict'' (CPtr ''int (struct drm_gem_object *)''),
      Field ''status'' (CPtr ''enum drm_gem_object_status (struct drm_gem_object *)''),
      Field ''rss'' (CPtr ''size_t (struct drm_gem_object *)''),
      Field ''vm_ops'' (CPtr ''const struct vm_operations_struct'')]"

definition struct_drm_mm :: cty where
  "struct_drm_mm = CStruct ''drm_mm'' False
     [Field ''color_adjust'' (CPtr ''void (const struct drm_mm_node *, long unsigned int, u64 *, u64 *)''),
      Field ''hole_stack'' struct_list_head,
      Field ''head_node'' struct_drm_mm_node,
      Field ''interval_tree'' struct_rb_root_cached,
      Field ''holes_size'' struct_rb_root_cached,
      Field ''holes_addr'' struct_rb_root,
      Field ''scan_active'' long_unsigned_int]"

definition struct_iosys_map :: cty where
  "struct_iosys_map = CStruct ''iosys_map'' False
     [Field [] (CUnion [] False
        [Field ''vaddr_iomem'' (CPtr ''void''),
         Field ''vaddr'' (CPtr ''void'')]),
      Field ''is_iomem'' bool]"

definition dma_fence_func_t :: cty where [layout_simps]:
  "dma_fence_func_t = CPtr ''void (struct dma_fence *, struct dma_fence_cb *)''"

definition struct_dma_fence_cb :: cty where
  "struct_dma_fence_cb = CStruct ''dma_fence_cb'' False
     [Field ''node'' struct_list_head,
      Field ''func'' dma_fence_func_t]"

definition c__poll_t :: cty where [layout_simps]:
  "c__poll_t = unsigned_int"

definition struct_dma_buf_poll_cb_t :: cty where
  "struct_dma_buf_poll_cb_t = CStruct ''dma_buf_poll_cb_t'' False
     [Field ''cb'' struct_dma_fence_cb,
      Field ''poll'' (CPtr ''wait_queue_head_t''),
      Field ''active'' c__poll_t]"

definition struct_dma_buf :: cty where
  "struct_dma_buf = CStruct ''dma_buf'' False
     [Field ''size'' size_t,
      Field ''file'' (CPtr ''struct file''),
      Field ''attachments'' struct_list_head,
      Field ''ops'' (CPtr ''const struct dma_buf_ops''),
      Field ''vmapping_counter'' unsigned_int,
      Field ''vmap_ptr'' struct_iosys_map,
      Field ''exp_name'' (CPtr ''const char''),
      Field ''name'' (CPtr ''const char''),
      Field ''name_lock'' spinlock_t,
      Field ''owner'' (CPtr ''struct module''),
      Field ''list_node'' struct_list_head,
      Field ''priv'' (CPtr ''void''),
      Field ''resv'' (CPtr ''struct dma_resv''),
      Field ''poll'' wait_queue_head_t,
      Field ''cb_in'' struct_dma_buf_poll_cb_t,
      Field ''cb_out'' struct_dma_buf_poll_cb_t]"

definition struct_dma_fence :: cty where
  "struct_dma_fence = CStruct ''dma_fence'' False
     [Field ''lock'' (CPtr ''spinlock_t''),
      Field ''ops'' (CPtr ''const struct dma_fence_ops''),
      Field [] (CUnion [] False
        [Field ''cb_list'' struct_list_head,
         Field ''timestamp'' ktime_t,
         Field ''rcu'' struct_callback_head]),
      Field ''context'' u64,
      Field ''seqno'' u64,
      Field ''flags'' long_unsigned_int,
      Field ''refcount'' struct_kref,
      Field ''error'' c_int]"

definition struct_dma_fence_ops :: cty where
  "struct_dma_fence_ops = CStruct ''dma_fence_ops'' False
     [Field ''get_driver_name'' (CPtr ''const char * (struct dma_fence *)''),
      Field ''get_timeline_name'' (CPtr ''const char * (struct dma_fence *)''),
      Field ''enable_signaling'' (CPtr ''bool (struct dma_fence *)''),
      Field ''signaled'' (CPtr ''bool (struct dma_fence *)''),
      Field ''wait'' (CPtr ''long int (struct dma_fence *, bool, long int)''),
      Field ''release'' (CPtr ''void (struct dma_fence *)''),
      Field ''set_deadline'' (CPtr ''void (struct dma_fence *, ktime_t)'')]"

definition struct_dma_resv_list :: cty where
  "struct_dma_resv_list = CStruct ''dma_resv_list'' False
     [Field ''rcu'' struct_callback_head,
      Field ''num_fences'' u32,
      Field ''max_fences'' u32,
      Field ''table'' (CArr 0 (CPtr ''struct dma_fence''))]"

definition struct_sync_file :: cty where
  "struct_sync_file = CStruct ''sync_file'' False
     [Field ''file'' (CPtr ''struct file''),
      Field ''user_name'' (CArr 32 c_char),
      Field ''sync_file_list'' struct_list_head,
      Field ''wq'' wait_queue_head_t,
      Field ''flags'' long_unsigned_int,
      Field ''fence'' (CPtr ''struct dma_fence''),
      Field ''cb'' struct_dma_fence_cb]"

definition struct_dma_buf_ops :: cty where
  "struct_dma_buf_ops = CStruct ''dma_buf_ops'' False
     [Field ''attach'' (CPtr ''int (struct dma_buf *, struct dma_buf_attachment *)''),
      Field ''detach'' (CPtr ''void (struct dma_buf *, struct dma_buf_attachment *)''),
      Field ''pin'' (CPtr ''int (struct dma_buf_attachment *)''),
      Field ''unpin'' (CPtr ''void (struct dma_buf_attachment *)''),
      Field ''map_dma_buf'' (CPtr ''struct sg_table * (struct dma_buf_attachment *, enum dma_data_direction)''),
      Field ''unmap_dma_buf'' (CPtr ''void (struct dma_buf_attachment *, struct sg_table *, enum dma_data_direction)''),
      Field ''release'' (CPtr ''void (struct dma_buf *)''),
      Field ''begin_cpu_access'' (CPtr ''int (struct dma_buf *, enum dma_data_direction)''),
      Field ''end_cpu_access'' (CPtr ''int (struct dma_buf *, enum dma_data_direction)''),
      Field ''mmap'' (CPtr ''int (struct dma_buf *, struct vm_area_struct *)''),
      Field ''vmap'' (CPtr ''int (struct dma_buf *, struct iosys_map *)''),
      Field ''vunmap'' (CPtr ''void (struct dma_buf *, struct iosys_map *)'')]"

definition struct_dma_buf_attachment :: cty where
  "struct_dma_buf_attachment = CStruct ''dma_buf_attachment'' False
     [Field ''dmabuf'' (CPtr ''struct dma_buf''),
      Field ''dev'' (CPtr ''struct device''),
      Field ''node'' struct_list_head,
      Field ''peer2peer'' bool,
      Field ''importer_ops'' (CPtr ''const struct dma_buf_attach_ops''),
      Field ''importer_priv'' (CPtr ''void''),
      Field ''priv'' (CPtr ''void'')]"

section \<open>Sizes and alignments\<close>

lemma struct_drm_mode_object_layout [layout_simps]:
  "sizeof struct_drm_mode_object = 32 \<and> alignof struct_drm_mode_object = 8 \<and> wf_cty struct_drm_mode_object"
  by (simp add: struct_drm_mode_object_def base_types layout_eval uint32_t_def u32_def c__u32_def struct_kref_layout
      del: One_nat_def)

lemma enum_drm_connector_registration_state_layout [layout_simps]:
  "sizeof enum_drm_connector_registration_state = 4 \<and> alignof enum_drm_connector_registration_state = 4 \<and> wf_cty enum_drm_connector_registration_state"
  by (simp add: enum_drm_connector_registration_state_def base_types layout_eval
      del: One_nat_def)

lemma enum_drm_connector_status_layout [layout_simps]:
  "sizeof enum_drm_connector_status = 4 \<and> alignof enum_drm_connector_status = 4 \<and> wf_cty enum_drm_connector_status"
  by (simp add: enum_drm_connector_status_def base_types layout_eval
      del: One_nat_def)

lemma enum_subpixel_order_layout [layout_simps]:
  "sizeof enum_subpixel_order = 4 \<and> alignof enum_subpixel_order = 4 \<and> wf_cty enum_subpixel_order"
  by (simp add: enum_subpixel_order_def base_types layout_eval
      del: One_nat_def)

lemma struct_drm_scrambling_layout [layout_simps]:
  "sizeof struct_drm_scrambling = 2 \<and> alignof struct_drm_scrambling = 1 \<and> wf_cty struct_drm_scrambling"
  by (simp add: struct_drm_scrambling_def base_types layout_eval bool_def
      del: One_nat_def)

lemma struct_drm_scdc_layout [layout_simps]:
  "sizeof struct_drm_scdc = 4 \<and> alignof struct_drm_scdc = 1 \<and> wf_cty struct_drm_scdc"
  by (simp add: struct_drm_scdc_def base_types layout_eval bool_def struct_drm_scrambling_layout
      del: One_nat_def)

lemma struct_drm_hdmi_dsc_cap_layout [layout_simps]:
  "sizeof struct_drm_hdmi_dsc_cap = 16 \<and> alignof struct_drm_hdmi_dsc_cap = 4 \<and> wf_cty struct_drm_hdmi_dsc_cap"
  by (simp add: struct_drm_hdmi_dsc_cap_def base_types layout_eval bool_def u8_def c__u8_def
      del: One_nat_def)

lemma struct_drm_hdmi_info_layout [layout_simps]:
  "sizeof struct_drm_hdmi_info = 96 \<and> alignof struct_drm_hdmi_info = 8 \<and> wf_cty struct_drm_hdmi_info"
  by (simp add: struct_drm_hdmi_info_def base_types layout_eval struct_drm_scdc_layout u8_def c__u8_def
      struct_drm_hdmi_dsc_cap_layout
      del: One_nat_def)

lemma struct_hdr_static_metadata_layout [layout_simps]:
  "sizeof struct_hdr_static_metadata = 8 \<and> alignof struct_hdr_static_metadata = 2 \<and> wf_cty struct_hdr_static_metadata"
  by (simp add: struct_hdr_static_metadata_def base_types layout_eval c__u8_def c__u16_def
      del: One_nat_def)

lemma struct_hdr_sink_metadata_layout [layout_simps]:
  "sizeof struct_hdr_sink_metadata = 12 \<and> alignof struct_hdr_sink_metadata = 4 \<and> wf_cty struct_hdr_sink_metadata"
  by (simp add: struct_hdr_sink_metadata_def base_types layout_eval c__u32_def struct_hdr_static_metadata_layout
      del: One_nat_def)

lemma struct_drm_monitor_range_info_layout [layout_simps]:
  "sizeof struct_drm_monitor_range_info = 4 \<and> alignof struct_drm_monitor_range_info = 2 \<and> wf_cty struct_drm_monitor_range_info"
  by (simp add: struct_drm_monitor_range_info_def base_types layout_eval u16_def c__u16_def
      del: One_nat_def)

lemma struct_drm_luminance_range_info_layout [layout_simps]:
  "sizeof struct_drm_luminance_range_info = 8 \<and> alignof struct_drm_luminance_range_info = 4 \<and> wf_cty struct_drm_luminance_range_info"
  by (simp add: struct_drm_luminance_range_info_def base_types layout_eval u32_def c__u32_def
      del: One_nat_def)

lemma struct_drm_display_info_layout [layout_simps]:
  "sizeof struct_drm_display_info = 216 \<and> alignof struct_drm_display_info = 8 \<and> wf_cty struct_drm_display_info"
  by (simp add: struct_drm_display_info_def base_types layout_eval enum_subpixel_order_layout u32_def c__u32_def bool_def
      u8_def c__u8_def struct_drm_hdmi_info_layout struct_hdr_sink_metadata_layout
      struct_drm_monitor_range_info_layout struct_drm_luminance_range_info_layout u16_def c__u16_def
      del: One_nat_def)

lemma struct_drm_object_properties_layout [layout_simps]:
  "sizeof struct_drm_object_properties = 1032 \<and> alignof struct_drm_object_properties = 8 \<and> wf_cty struct_drm_object_properties"
  by (simp add: struct_drm_object_properties_def base_types layout_eval uint64_t_def u64_def c__u64_def
      del: One_nat_def)

lemma struct_notifier_block_layout [layout_simps]:
  "sizeof struct_notifier_block = 24 \<and> alignof struct_notifier_block = 8 \<and> wf_cty struct_notifier_block"
  by (simp add: struct_notifier_block_def base_types layout_eval notifier_fn_t_def
      del: One_nat_def)

lemma enum_drm_connector_force_layout [layout_simps]:
  "sizeof enum_drm_connector_force = 4 \<and> alignof enum_drm_connector_force = 4 \<and> wf_cty enum_drm_connector_force"
  by (simp add: enum_drm_connector_force_def base_types layout_eval
      del: One_nat_def)

lemma enum_drm_panel_orientation_layout [layout_simps]:
  "sizeof enum_drm_panel_orientation = 4 \<and> alignof enum_drm_panel_orientation = 4 \<and> wf_cty enum_drm_panel_orientation"
  by (simp add: enum_drm_panel_orientation_def base_types layout_eval
      del: One_nat_def)

lemma struct_drm_connector_tv_margins_layout [layout_simps]:
  "sizeof struct_drm_connector_tv_margins = 16 \<and> alignof struct_drm_connector_tv_margins = 4 \<and> wf_cty struct_drm_connector_tv_margins"
  by (simp add: struct_drm_connector_tv_margins_def base_types layout_eval
      del: One_nat_def)

lemma enum_drm_connector_tv_mode_layout [layout_simps]:
  "sizeof enum_drm_connector_tv_mode = 4 \<and> alignof enum_drm_connector_tv_mode = 4 \<and> wf_cty enum_drm_connector_tv_mode"
  by (simp add: enum_drm_connector_tv_mode_def base_types layout_eval
      del: One_nat_def)

lemma struct_drm_cmdline_mode_layout [layout_simps]:
  "sizeof struct_drm_cmdline_mode = 96 \<and> alignof struct_drm_cmdline_mode = 4 \<and> wf_cty struct_drm_cmdline_mode"
  by (simp add: struct_drm_cmdline_mode_def base_types layout_eval bool_def enum_drm_connector_force_layout
      enum_drm_panel_orientation_layout struct_drm_connector_tv_margins_layout
      enum_drm_connector_tv_mode_layout
      del: One_nat_def)

lemma enum_hdmi_infoframe_type_layout [layout_simps]:
  "sizeof enum_hdmi_infoframe_type = 4 \<and> alignof enum_hdmi_infoframe_type = 4 \<and> wf_cty enum_hdmi_infoframe_type"
  by (simp add: enum_hdmi_infoframe_type_def base_types layout_eval
      del: One_nat_def)

lemma struct_hdmi_any_infoframe_layout [layout_simps]:
  "sizeof struct_hdmi_any_infoframe = 8 \<and> alignof struct_hdmi_any_infoframe = 4 \<and> wf_cty struct_hdmi_any_infoframe"
  by (simp add: struct_hdmi_any_infoframe_def base_types layout_eval enum_hdmi_infoframe_type_layout
      del: One_nat_def)

lemma enum_hdmi_colorspace_layout [layout_simps]:
  "sizeof enum_hdmi_colorspace = 4 \<and> alignof enum_hdmi_colorspace = 4 \<and> wf_cty enum_hdmi_colorspace"
  by (simp add: enum_hdmi_colorspace_def base_types layout_eval
      del: One_nat_def)

lemma enum_hdmi_scan_mode_layout [layout_simps]:
  "sizeof enum_hdmi_scan_mode = 4 \<and> alignof enum_hdmi_scan_mode = 4 \<and> wf_cty enum_hdmi_scan_mode"
  by (simp add: enum_hdmi_scan_mode_def base_types layout_eval
      del: One_nat_def)

lemma enum_hdmi_colorimetry_layout [layout_simps]:
  "sizeof enum_hdmi_colorimetry = 4 \<and> alignof enum_hdmi_colorimetry = 4 \<and> wf_cty enum_hdmi_colorimetry"
  by (simp add: enum_hdmi_colorimetry_def base_types layout_eval
      del: One_nat_def)

lemma enum_hdmi_picture_aspect_layout [layout_simps]:
  "sizeof enum_hdmi_picture_aspect = 4 \<and> alignof enum_hdmi_picture_aspect = 4 \<and> wf_cty enum_hdmi_picture_aspect"
  by (simp add: enum_hdmi_picture_aspect_def base_types layout_eval
      del: One_nat_def)

lemma enum_hdmi_active_aspect_layout [layout_simps]:
  "sizeof enum_hdmi_active_aspect = 4 \<and> alignof enum_hdmi_active_aspect = 4 \<and> wf_cty enum_hdmi_active_aspect"
  by (simp add: enum_hdmi_active_aspect_def base_types layout_eval
      del: One_nat_def)

lemma enum_hdmi_extended_colorimetry_layout [layout_simps]:
  "sizeof enum_hdmi_extended_colorimetry = 4 \<and> alignof enum_hdmi_extended_colorimetry = 4 \<and> wf_cty enum_hdmi_extended_colorimetry"
  by (simp add: enum_hdmi_extended_colorimetry_def base_types layout_eval
      del: One_nat_def)

lemma enum_hdmi_quantization_range_layout [layout_simps]:
  "sizeof enum_hdmi_quantization_range = 4 \<and> alignof enum_hdmi_quantization_range = 4 \<and> wf_cty enum_hdmi_quantization_range"
  by (simp add: enum_hdmi_quantization_range_def base_types layout_eval
      del: One_nat_def)

lemma enum_hdmi_nups_layout [layout_simps]:
  "sizeof enum_hdmi_nups = 4 \<and> alignof enum_hdmi_nups = 4 \<and> wf_cty enum_hdmi_nups"
  by (simp add: enum_hdmi_nups_def base_types layout_eval
      del: One_nat_def)

lemma enum_hdmi_ycc_quantization_range_layout [layout_simps]:
  "sizeof enum_hdmi_ycc_quantization_range = 4 \<and> alignof enum_hdmi_ycc_quantization_range = 4 \<and> wf_cty enum_hdmi_ycc_quantization_range"
  by (simp add: enum_hdmi_ycc_quantization_range_def base_types layout_eval
      del: One_nat_def)

lemma enum_hdmi_content_type_layout [layout_simps]:
  "sizeof enum_hdmi_content_type = 4 \<and> alignof enum_hdmi_content_type = 4 \<and> wf_cty enum_hdmi_content_type"
  by (simp add: enum_hdmi_content_type_def base_types layout_eval
      del: One_nat_def)

lemma struct_hdmi_avi_infoframe_layout [layout_simps]:
  "sizeof struct_hdmi_avi_infoframe = 60 \<and> alignof struct_hdmi_avi_infoframe = 4 \<and> wf_cty struct_hdmi_avi_infoframe"
  by (simp add: struct_hdmi_avi_infoframe_def base_types layout_eval enum_hdmi_infoframe_type_layout bool_def
      enum_hdmi_colorspace_layout enum_hdmi_scan_mode_layout enum_hdmi_colorimetry_layout
      enum_hdmi_picture_aspect_layout enum_hdmi_active_aspect_layout
      enum_hdmi_extended_colorimetry_layout enum_hdmi_quantization_range_layout enum_hdmi_nups_layout
      enum_hdmi_ycc_quantization_range_layout enum_hdmi_content_type_layout
      del: One_nat_def)

lemma enum_hdmi_spd_sdi_layout [layout_simps]:
  "sizeof enum_hdmi_spd_sdi = 4 \<and> alignof enum_hdmi_spd_sdi = 4 \<and> wf_cty enum_hdmi_spd_sdi"
  by (simp add: enum_hdmi_spd_sdi_def base_types layout_eval
      del: One_nat_def)

lemma struct_hdmi_spd_infoframe_layout [layout_simps]:
  "sizeof struct_hdmi_spd_infoframe = 36 \<and> alignof struct_hdmi_spd_infoframe = 4 \<and> wf_cty struct_hdmi_spd_infoframe"
  by (simp add: struct_hdmi_spd_infoframe_def base_types layout_eval enum_hdmi_infoframe_type_layout
      enum_hdmi_spd_sdi_layout
      del: One_nat_def)

lemma enum_hdmi_3d_structure_layout [layout_simps]:
  "sizeof enum_hdmi_3d_structure = 4 \<and> alignof enum_hdmi_3d_structure = 4 \<and> wf_cty enum_hdmi_3d_structure"
  by (simp add: enum_hdmi_3d_structure_def base_types layout_eval
      del: One_nat_def)

lemma struct_hdmi_vendor_infoframe_layout [layout_simps]:
  "sizeof struct_hdmi_vendor_infoframe = 24 \<and> alignof struct_hdmi_vendor_infoframe = 4 \<and> wf_cty struct_hdmi_vendor_infoframe"
  by (simp add: struct_hdmi_vendor_infoframe_def base_types layout_eval enum_hdmi_infoframe_type_layout u8_def c__u8_def
      enum_hdmi_3d_structure_layout
      del: One_nat_def)

lemma union_hdmi_vendor_any_infoframe_layout [layout_simps]:
  "sizeof union_hdmi_vendor_any_infoframe = 24 \<and> alignof union_hdmi_vendor_any_infoframe = 4 \<and> wf_cty union_hdmi_vendor_any_infoframe"
  by (simp add: union_hdmi_vendor_any_infoframe_def base_types layout_eval enum_hdmi_infoframe_type_layout
      struct_hdmi_vendor_infoframe_layout
      del: One_nat_def)

lemma enum_hdmi_audio_coding_type_layout [layout_simps]:
  "sizeof enum_hdmi_audio_coding_type = 4 \<and> alignof enum_hdmi_audio_coding_type = 4 \<and> wf_cty enum_hdmi_audio_coding_type"
  by (simp add: enum_hdmi_audio_coding_type_def base_types layout_eval
      del: One_nat_def)

lemma enum_hdmi_audio_sample_size_layout [layout_simps]:
  "sizeof enum_hdmi_audio_sample_size = 4 \<and> alignof enum_hdmi_audio_sample_size = 4 \<and> wf_cty enum_hdmi_audio_sample_size"
  by (simp add: enum_hdmi_audio_sample_size_def base_types layout_eval
      del: One_nat_def)

lemma enum_hdmi_audio_sample_frequency_layout [layout_simps]:
  "sizeof enum_hdmi_audio_sample_frequency = 4 \<and> alignof enum_hdmi_audio_sample_frequency = 4 \<and> wf_cty enum_hdmi_audio_sample_frequency"
  by (simp add: enum_hdmi_audio_sample_frequency_def base_types layout_eval
      del: One_nat_def)

lemma enum_hdmi_audio_coding_type_ext_layout [layout_simps]:
  "sizeof enum_hdmi_audio_coding_type_ext = 4 \<and> alignof enum_hdmi_audio_coding_type_ext = 4 \<and> wf_cty enum_hdmi_audio_coding_type_ext"
  by (simp add: enum_hdmi_audio_coding_type_ext_def base_types layout_eval
      del: One_nat_def)

lemma struct_hdmi_audio_infoframe_layout [layout_simps]:
  "sizeof struct_hdmi_audio_infoframe = 28 \<and> alignof struct_hdmi_audio_infoframe = 4 \<and> wf_cty struct_hdmi_audio_infoframe"
  by (simp add: struct_hdmi_audio_infoframe_def base_types layout_eval enum_hdmi_infoframe_type_layout
      enum_hdmi_audio_coding_type_layout enum_hdmi_audio_sample_size_layout
      enum_hdmi_audio_sample_frequency_layout enum_hdmi_audio_coding_type_ext_layout bool_def
      del: One_nat_def)

lemma enum_hdmi_eotf_layout [layout_simps]:
  "sizeof enum_hdmi_eotf = 4 \<and> alignof enum_hdmi_eotf = 4 \<and> wf_cty enum_hdmi_eotf"
  by (simp add: enum_hdmi_eotf_def base_types layout_eval
      del: One_nat_def)

lemma enum_hdmi_metadata_type_layout [layout_simps]:
  "sizeof enum_hdmi_metadata_type = 4 \<and> alignof enum_hdmi_metadata_type = 4 \<and> wf_cty enum_hdmi_metadata_type"
  by (simp add: enum_hdmi_metadata_type_def base_types layout_eval
      del: One_nat_def)

lemma struct_hdmi_drm_infoframe_layout [layout_simps]:
  "sizeof struct_hdmi_drm_infoframe = 40 \<and> alignof struct_hdmi_drm_infoframe = 4 \<and> wf_cty struct_hdmi_drm_infoframe"
  by (simp add: struct_hdmi_drm_infoframe_def base_types layout_eval enum_hdmi_infoframe_type_layout
      enum_hdmi_eotf_layout enum_hdmi_metadata_type_layout u16_def c__u16_def
      del: One_nat_def)

lemma union_hdmi_infoframe_layout [layout_simps]:
  "sizeof union_hdmi_infoframe = 60 \<and> alignof union_hdmi_infoframe = 4 \<and> wf_cty union_hdmi_infoframe"
  by (simp add: union_hdmi_infoframe_def base_types layout_eval struct_hdmi_any_infoframe_layout
      struct_hdmi_avi_infoframe_layout struct_hdmi_spd_infoframe_layout
      union_hdmi_vendor_any_infoframe_layout struct_hdmi_audio_infoframe_layout
      struct_hdmi_drm_infoframe_layout
      del: One_nat_def)

lemma struct_drm_connector_hdmi_infoframe_layout [layout_simps]:
  "sizeof struct_drm_connector_hdmi_infoframe = 64 \<and> alignof struct_drm_connector_hdmi_infoframe = 4 \<and> wf_cty struct_drm_connector_hdmi_infoframe"
  by (simp add: struct_drm_connector_hdmi_infoframe_def base_types layout_eval union_hdmi_infoframe_layout bool_def
      del: One_nat_def)

lemma struct_drm_connector_hdmi_layout [layout_simps]:
  "sizeof struct_drm_connector_hdmi = 136 \<and> alignof struct_drm_connector_hdmi = 8 \<and> wf_cty struct_drm_connector_hdmi"
  by (simp add: struct_drm_connector_hdmi_def base_types layout_eval struct_mutex_layout
      struct_drm_connector_hdmi_infoframe_layout
      del: One_nat_def)

lemma struct_drm_connector_hdmi_audio_layout [layout_simps]:
  "sizeof struct_drm_connector_hdmi_audio = 72 \<and> alignof struct_drm_connector_hdmi_audio = 8 \<and> wf_cty struct_drm_connector_hdmi_audio"
  by (simp add: struct_drm_connector_hdmi_audio_def base_types layout_eval struct_mutex_layout bool_def
      del: One_nat_def)

lemma struct_drm_connector_cec_layout [layout_simps]:
  "sizeof struct_drm_connector_cec = 48 \<and> alignof struct_drm_connector_cec = 8 \<and> wf_cty struct_drm_connector_cec"
  by (simp add: struct_drm_connector_cec_def base_types layout_eval struct_mutex_layout
      del: One_nat_def)

lemma struct_drm_connector_layout [layout_simps]:
  "sizeof struct_drm_connector = 2280 \<and> alignof struct_drm_connector = 8 \<and> wf_cty struct_drm_connector"
  by (simp add: struct_drm_connector_def base_types layout_eval struct_list_head_layout struct_drm_mode_object_layout
      struct_mutex_layout bool_def enum_drm_connector_registration_state_layout
      enum_drm_connector_status_layout struct_drm_display_info_layout struct_drm_object_properties_layout
      struct_notifier_block_layout uint8_t_def u8_def c__u8_def struct_drm_cmdline_mode_layout
      enum_drm_connector_force_layout u64_def c__u64_def u32_def c__u32_def uint16_t_def u16_def
      c__u16_def struct_llist_node_layout struct_drm_connector_hdmi_layout
      struct_drm_connector_hdmi_audio_layout struct_drm_connector_cec_layout
      del: One_nat_def)

lemma enum_drm_mode_status_layout [layout_simps]:
  "sizeof enum_drm_mode_status = 4 \<and> alignof enum_drm_mode_status = 4 \<and> wf_cty enum_drm_mode_status"
  by (simp add: enum_drm_mode_status_def base_types layout_eval
      del: One_nat_def)

lemma struct_drm_display_mode_layout [layout_simps]:
  "sizeof struct_drm_display_mode = 120 \<and> alignof struct_drm_display_mode = 8 \<and> wf_cty struct_drm_display_mode"
  by (simp add: struct_drm_display_mode_def base_types layout_eval u16_def c__u16_def u32_def c__u32_def u8_def c__u8_def
      bool_def struct_list_head_layout enum_drm_mode_status_layout enum_hdmi_picture_aspect_layout
      del: One_nat_def)

lemma struct_drm_crtc_crc_layout [layout_simps]:
  "sizeof struct_drm_crtc_crc = 72 \<and> alignof struct_drm_crtc_crc = 8 \<and> wf_cty struct_drm_crtc_crc"
  by (simp add: struct_drm_crtc_crc_def base_types layout_eval spinlock_t_def struct_spinlock_layout bool_def size_t_def
      c__kernel_size_t_def c__kernel_ulong_t_def wait_queue_head_t_def struct_wait_queue_head_layout
      del: One_nat_def)

lemma struct_drm_crtc_layout [layout_simps]:
  "sizeof struct_drm_crtc = 1656 \<and> alignof struct_drm_crtc = 8 \<and> wf_cty struct_drm_crtc"
  by (simp add: struct_drm_crtc_def base_types layout_eval struct_list_head_layout struct_drm_modeset_lock_layout
      struct_drm_mode_object_layout bool_def struct_drm_display_mode_layout uint32_t_def u32_def
      c__u32_def struct_drm_object_properties_layout spinlock_t_def struct_spinlock_layout
      struct_drm_crtc_crc_layout
      del: One_nat_def)

lemma enum_drm_plane_type_layout [layout_simps]:
  "sizeof enum_drm_plane_type = 4 \<and> alignof enum_drm_plane_type = 4 \<and> wf_cty enum_drm_plane_type"
  by (simp add: enum_drm_plane_type_def base_types layout_eval
      del: One_nat_def)

lemma enum_kmsg_dump_reason_layout [layout_simps]:
  "sizeof enum_kmsg_dump_reason = 4 \<and> alignof enum_kmsg_dump_reason = 4 \<and> wf_cty enum_kmsg_dump_reason"
  by (simp add: enum_kmsg_dump_reason_def base_types layout_eval
      del: One_nat_def)

lemma struct_kmsg_dumper_layout [layout_simps]:
  "sizeof struct_kmsg_dumper = 32 \<and> alignof struct_kmsg_dumper = 8 \<and> wf_cty struct_kmsg_dumper"
  by (simp add: struct_kmsg_dumper_def base_types layout_eval struct_list_head_layout enum_kmsg_dump_reason_layout
      bool_def
      del: One_nat_def)

lemma struct_drm_plane_layout [layout_simps]:
  "sizeof struct_drm_plane = 1360 \<and> alignof struct_drm_plane = 8 \<and> wf_cty struct_drm_plane"
  by (simp add: struct_drm_plane_def base_types layout_eval struct_list_head_layout struct_drm_modeset_lock_layout
      struct_drm_mode_object_layout uint32_t_def u32_def c__u32_def bool_def
      struct_drm_object_properties_layout enum_drm_plane_type_layout struct_kmsg_dumper_layout
      del: One_nat_def)

lemma struct_drm_framebuffer_layout [layout_simps]:
  "sizeof struct_drm_framebuffer = 192 \<and> alignof struct_drm_framebuffer = 8 \<and> wf_cty struct_drm_framebuffer"
  by (simp add: struct_drm_framebuffer_def base_types layout_eval struct_list_head_layout struct_drm_mode_object_layout
      uint64_t_def u64_def c__u64_def
      del: One_nat_def)

lemma struct_drm_encoder_layout [layout_simps]:
  "sizeof struct_drm_encoder = 128 \<and> alignof struct_drm_encoder = 8 \<and> wf_cty struct_drm_encoder"
  by (simp add: struct_drm_encoder_def base_types layout_eval struct_list_head_layout struct_drm_mode_object_layout
      uint32_t_def u32_def c__u32_def
      del: One_nat_def)

lemma struct_drm_mode_config_funcs_layout [layout_simps]:
  "sizeof struct_drm_mode_config_funcs = 64 \<and> alignof struct_drm_mode_config_funcs = 8 \<and> wf_cty struct_drm_mode_config_funcs"
  by (simp add: struct_drm_mode_config_funcs_def base_types layout_eval
      del: One_nat_def)

lemma enum_drm_scaling_filter_layout [layout_simps]:
  "sizeof enum_drm_scaling_filter = 4 \<and> alignof enum_drm_scaling_filter = 4 \<and> wf_cty enum_drm_scaling_filter"
  by (simp add: enum_drm_scaling_filter_def base_types layout_eval
      del: One_nat_def)

lemma struct_drm_crtc_state_layout [layout_simps]:
  "sizeof struct_drm_crtc_state = 336 \<and> alignof struct_drm_crtc_state = 8 \<and> wf_cty struct_drm_crtc_state"
  by (simp add: struct_drm_crtc_state_def base_types layout_eval bool_def u32_def c__u32_def
      struct_drm_display_mode_layout enum_drm_scaling_filter_layout u8_def c__u8_def
      del: One_nat_def)

lemma enum_drm_color_encoding_layout [layout_simps]:
  "sizeof enum_drm_color_encoding = 4 \<and> alignof enum_drm_color_encoding = 4 \<and> wf_cty enum_drm_color_encoding"
  by (simp add: enum_drm_color_encoding_def base_types layout_eval
      del: One_nat_def)

lemma enum_drm_color_range_layout [layout_simps]:
  "sizeof enum_drm_color_range = 4 \<and> alignof enum_drm_color_range = 4 \<and> wf_cty enum_drm_color_range"
  by (simp add: enum_drm_color_range_def base_types layout_eval
      del: One_nat_def)

lemma struct_drm_rect_layout [layout_simps]:
  "sizeof struct_drm_rect = 16 \<and> alignof struct_drm_rect = 4 \<and> wf_cty struct_drm_rect"
  by (simp add: struct_drm_rect_def base_types layout_eval
      del: One_nat_def)

lemma struct_drm_plane_state_layout [layout_simps]:
  "sizeof struct_drm_plane_state = 184 \<and> alignof struct_drm_plane_state = 8 \<and> wf_cty struct_drm_plane_state"
  by (simp add: struct_drm_plane_state_def base_types layout_eval int32_t_def s32_def c__s32_def uint32_t_def u32_def
      c__u32_def u16_def c__u16_def uint16_t_def enum_drm_color_encoding_layout
      enum_drm_color_range_layout bool_def struct_drm_rect_layout enum_drm_scaling_filter_layout
      del: One_nat_def)

lemma enum_drm_link_status_layout [layout_simps]:
  "sizeof enum_drm_link_status = 4 \<and> alignof enum_drm_link_status = 4 \<and> wf_cty enum_drm_link_status"
  by (simp add: enum_drm_link_status_def base_types layout_eval
      del: One_nat_def)

lemma enum_drm_mode_subconnector_layout [layout_simps]:
  "sizeof enum_drm_mode_subconnector = 4 \<and> alignof enum_drm_mode_subconnector = 4 \<and> wf_cty enum_drm_mode_subconnector"
  by (simp add: enum_drm_mode_subconnector_def base_types layout_eval
      del: One_nat_def)

lemma struct_drm_tv_connector_state_layout [layout_simps]:
  "sizeof struct_drm_tv_connector_state = 56 \<and> alignof struct_drm_tv_connector_state = 4 \<and> wf_cty struct_drm_tv_connector_state"
  by (simp add: struct_drm_tv_connector_state_def base_types layout_eval enum_drm_mode_subconnector_layout
      struct_drm_connector_tv_margins_layout
      del: One_nat_def)

lemma enum_drm_colorspace_layout [layout_simps]:
  "sizeof enum_drm_colorspace = 4 \<and> alignof enum_drm_colorspace = 4 \<and> wf_cty enum_drm_colorspace"
  by (simp add: enum_drm_colorspace_def base_types layout_eval
      del: One_nat_def)

lemma enum_drm_privacy_screen_status_layout [layout_simps]:
  "sizeof enum_drm_privacy_screen_status = 4 \<and> alignof enum_drm_privacy_screen_status = 4 \<and> wf_cty enum_drm_privacy_screen_status"
  by (simp add: enum_drm_privacy_screen_status_def base_types layout_eval
      del: One_nat_def)

lemma enum_drm_hdmi_broadcast_rgb_layout [layout_simps]:
  "sizeof enum_drm_hdmi_broadcast_rgb = 4 \<and> alignof enum_drm_hdmi_broadcast_rgb = 4 \<and> wf_cty enum_drm_hdmi_broadcast_rgb"
  by (simp add: enum_drm_hdmi_broadcast_rgb_def base_types layout_eval
      del: One_nat_def)

lemma struct_drm_connector_hdmi_state_layout [layout_simps]:
  "sizeof struct_drm_connector_hdmi_state = 280 \<and> alignof struct_drm_connector_hdmi_state = 8 \<and> wf_cty struct_drm_connector_hdmi_state"
  by (simp add: struct_drm_connector_hdmi_state_def base_types layout_eval enum_drm_hdmi_broadcast_rgb_layout
      struct_drm_connector_hdmi_infoframe_layout bool_def enum_hdmi_colorspace_layout
      del: One_nat_def)

lemma struct_drm_connector_state_layout [layout_simps]:
  "sizeof struct_drm_connector_state = 440 \<and> alignof struct_drm_connector_state = 8 \<and> wf_cty struct_drm_connector_state"
  by (simp add: struct_drm_connector_state_def base_types layout_eval enum_drm_link_status_layout
      struct_drm_tv_connector_state_layout bool_def enum_hdmi_picture_aspect_layout
      enum_drm_colorspace_layout u8_def c__u8_def enum_drm_privacy_screen_status_layout
      struct_drm_connector_hdmi_state_layout
      del: One_nat_def)

lemma struct_drm_atomic_state_layout [layout_simps]:
  "sizeof struct_drm_atomic_state = 128 \<and> alignof struct_drm_atomic_state = 8 \<and> wf_cty struct_drm_atomic_state"
  by (simp add: struct_drm_atomic_state_def base_types layout_eval struct_kref_layout bool_def struct_work_struct_layout
      del: One_nat_def)

lemma struct_drm_property_layout [layout_simps]:
  "sizeof struct_drm_property = 120 \<and> alignof struct_drm_property = 8 \<and> wf_cty struct_drm_property"
  by (simp add: struct_drm_property_def base_types layout_eval struct_list_head_layout struct_drm_mode_object_layout
      uint32_t_def u32_def c__u32_def
      del: One_nat_def)

lemma struct_drm_private_obj_layout [layout_simps]:
  "sizeof struct_drm_private_obj = 96 \<and> alignof struct_drm_private_obj = 8 \<and> wf_cty struct_drm_private_obj"
  by (simp add: struct_drm_private_obj_def base_types layout_eval struct_list_head_layout struct_drm_modeset_lock_layout
      del: One_nat_def)

lemma enum_drm_bridge_ops_layout [layout_simps]:
  "sizeof enum_drm_bridge_ops = 4 \<and> alignof enum_drm_bridge_ops = 4 \<and> wf_cty enum_drm_bridge_ops"
  by (simp add: enum_drm_bridge_ops_def base_types layout_eval
      del: One_nat_def)

lemma struct_drm_bridge_layout [layout_simps]:
  "sizeof struct_drm_bridge = 352 \<and> alignof struct_drm_bridge = 8 \<and> wf_cty struct_drm_bridge"
  by (simp add: struct_drm_bridge_def base_types layout_eval struct_drm_private_obj_layout struct_list_head_layout
      struct_kref_layout bool_def enum_drm_bridge_ops_layout u64_def c__u64_def u8_def c__u8_def
      struct_mutex_layout
      del: One_nat_def)

lemma struct_drm_panel_layout [layout_simps]:
  "sizeof struct_drm_panel = 120 \<and> alignof struct_drm_panel = 8 \<and> wf_cty struct_drm_panel"
  by (simp add: struct_drm_panel_def base_types layout_eval struct_list_head_layout struct_mutex_layout bool_def
      struct_kref_layout
      del: One_nat_def)

lemma struct_drm_client_dev_layout [layout_simps]:
  "sizeof struct_drm_client_dev = 96 \<and> alignof struct_drm_client_dev = 8 \<and> wf_cty struct_drm_client_dev"
  by (simp add: struct_drm_client_dev_def base_types layout_eval struct_list_head_layout struct_mutex_layout bool_def
      del: One_nat_def)

lemma struct_drm_clip_rect_layout [layout_simps]:
  "sizeof struct_drm_clip_rect = 8 \<and> alignof struct_drm_clip_rect = 2 \<and> wf_cty struct_drm_clip_rect"
  by (simp add: struct_drm_clip_rect_def base_types layout_eval
      del: One_nat_def)

lemma struct_fb_deferred_io_layout [layout_simps]:
  "sizeof struct_fb_deferred_io = 56 \<and> alignof struct_fb_deferred_io = 8 \<and> wf_cty struct_fb_deferred_io"
  by (simp add: struct_fb_deferred_io_def base_types layout_eval bool_def struct_list_head_layout
      del: One_nat_def)

lemma struct_drm_fb_helper_layout [layout_simps]:
  "sizeof struct_drm_fb_helper = 376 \<and> alignof struct_drm_fb_helper = 8 \<and> wf_cty struct_drm_fb_helper"
  by (simp add: struct_drm_fb_helper_def base_types layout_eval struct_drm_client_dev_layout u32_def c__u32_def
      struct_drm_clip_rect_layout spinlock_t_def struct_spinlock_layout struct_work_struct_layout
      struct_mutex_layout bool_def struct_fb_deferred_io_layout
      del: One_nat_def)

lemma struct_drm_mode_modeinfo_layout [layout_simps]:
  "sizeof struct_drm_mode_modeinfo = 68 \<and> alignof struct_drm_mode_modeinfo = 4 \<and> wf_cty struct_drm_mode_modeinfo"
  by (simp add: struct_drm_mode_modeinfo_def base_types layout_eval c__u32_def c__u16_def
      del: One_nat_def)

lemma struct_drm_event_layout [layout_simps]:
  "sizeof struct_drm_event = 8 \<and> alignof struct_drm_event = 4 \<and> wf_cty struct_drm_event"
  by (simp add: struct_drm_event_def base_types layout_eval c__u32_def
      del: One_nat_def)

lemma struct_drm_pending_event_layout [layout_simps]:
  "sizeof struct_drm_pending_event = 72 \<and> alignof struct_drm_pending_event = 8 \<and> wf_cty struct_drm_pending_event"
  by (simp add: struct_drm_pending_event_def base_types layout_eval struct_list_head_layout
      del: One_nat_def)

lemma struct_drm_event_vblank_layout [layout_simps]:
  "sizeof struct_drm_event_vblank = 32 \<and> alignof struct_drm_event_vblank = 8 \<and> wf_cty struct_drm_event_vblank"
  by (simp add: struct_drm_event_vblank_def base_types layout_eval struct_drm_event_layout c__u64_def c__u32_def
      del: One_nat_def)

lemma struct_drm_event_crtc_sequence_layout [layout_simps]:
  "sizeof struct_drm_event_crtc_sequence = 32 \<and> alignof struct_drm_event_crtc_sequence = 8 \<and> wf_cty struct_drm_event_crtc_sequence"
  by (simp add: struct_drm_event_crtc_sequence_def base_types layout_eval struct_drm_event_layout c__u64_def c__s64_def
      del: One_nat_def)

lemma struct_drm_pending_vblank_event_layout [layout_simps]:
  "sizeof struct_drm_pending_vblank_event = 120 \<and> alignof struct_drm_pending_vblank_event = 8 \<and> wf_cty struct_drm_pending_vblank_event"
  by (simp add: struct_drm_pending_vblank_event_def base_types layout_eval struct_drm_pending_event_layout u64_def
      c__u64_def struct_drm_event_layout struct_drm_event_vblank_layout
      struct_drm_event_crtc_sequence_layout
      del: One_nat_def)

lemma struct_drm_vblank_crtc_config_layout [layout_simps]:
  "sizeof struct_drm_vblank_crtc_config = 8 \<and> alignof struct_drm_vblank_crtc_config = 4 \<and> wf_cty struct_drm_vblank_crtc_config"
  by (simp add: struct_drm_vblank_crtc_config_def base_types layout_eval bool_def
      del: One_nat_def)

lemma struct_drm_vblank_crtc_timer_layout [layout_simps]:
  "sizeof struct_drm_vblank_crtc_timer = 88 \<and> alignof struct_drm_vblank_crtc_timer = 8 \<and> wf_cty struct_drm_vblank_crtc_timer"
  by (simp add: struct_drm_vblank_crtc_timer_def base_types layout_eval struct_hrtimer_layout spinlock_t_def
      struct_spinlock_layout ktime_t_def s64_def c__s64_def
      del: One_nat_def)

lemma struct_drm_vblank_crtc_layout [layout_simps]:
  "sizeof struct_drm_vblank_crtc = 400 \<and> alignof struct_drm_vblank_crtc = 8 \<and> wf_cty struct_drm_vblank_crtc"
  by (simp add: struct_drm_vblank_crtc_def base_types layout_eval wait_queue_head_t_def struct_wait_queue_head_layout
      struct_timer_list_layout seqlock_t_def struct_seqlock_layout atomic64_t_layout ktime_t_def s64_def
      c__s64_def atomic_t_layout u32_def c__u32_def struct_drm_display_mode_layout
      struct_drm_vblank_crtc_config_layout bool_def struct_list_head_layout
      struct_drm_vblank_crtc_timer_layout
      del: One_nat_def)

lemma struct_drm_master_layout [layout_simps]:
  "sizeof struct_drm_master = 160 \<and> alignof struct_drm_master = 8 \<and> wf_cty struct_drm_master"
  by (simp add: struct_drm_master_def base_types layout_eval struct_kref_layout struct_idr_layout struct_list_head_layout
      del: One_nat_def)

lemma struct_drm_syncobj_layout [layout_simps]:
  "sizeof struct_drm_syncobj = 64 \<and> alignof struct_drm_syncobj = 8 \<and> wf_cty struct_drm_syncobj"
  by (simp add: struct_drm_syncobj_def base_types layout_eval struct_kref_layout struct_list_head_layout spinlock_t_def
      struct_spinlock_layout
      del: One_nat_def)

lemma enum_drm_gpuvm_flags_layout [layout_simps]:
  "sizeof enum_drm_gpuvm_flags = 4 \<and> alignof enum_drm_gpuvm_flags = 4 \<and> wf_cty enum_drm_gpuvm_flags"
  by (simp add: enum_drm_gpuvm_flags_def base_types layout_eval
      del: One_nat_def)

lemma enum_drm_gpuva_flags_layout [layout_simps]:
  "sizeof enum_drm_gpuva_flags = 4 \<and> alignof enum_drm_gpuva_flags = 4 \<and> wf_cty enum_drm_gpuva_flags"
  by (simp add: enum_drm_gpuva_flags_def base_types layout_eval
      del: One_nat_def)

lemma struct_drm_gpuva_layout [layout_simps]:
  "sizeof struct_drm_gpuva = 120 \<and> alignof struct_drm_gpuva = 8 \<and> wf_cty struct_drm_gpuva"
  by (simp add: struct_drm_gpuva_def base_types layout_eval enum_drm_gpuva_flags_layout u64_def c__u64_def
      struct_list_head_layout struct_rb_node_layout
      del: One_nat_def)

lemma struct_drm_gpuvm_layout [layout_simps]:
  "sizeof struct_drm_gpuvm = 288 \<and> alignof struct_drm_gpuvm = 8 \<and> wf_cty struct_drm_gpuvm"
  by (simp add: struct_drm_gpuvm_def base_types layout_eval enum_drm_gpuvm_flags_layout u64_def c__u64_def
      struct_rb_root_cached_layout struct_list_head_layout struct_kref_layout struct_drm_gpuva_layout
      spinlock_t_def struct_spinlock_layout struct_llist_head_layout
      del: One_nat_def)

lemma struct_ww_acquire_ctx_layout [layout_simps]:
  "sizeof struct_ww_acquire_ctx = 24 \<and> alignof struct_ww_acquire_ctx = 8 \<and> wf_cty struct_ww_acquire_ctx"
  by (simp add: struct_ww_acquire_ctx_def base_types layout_eval
      del: One_nat_def)

lemma struct_drm_exec_layout [layout_simps]:
  "sizeof struct_drm_exec = 64 \<and> alignof struct_drm_exec = 8 \<and> wf_cty struct_drm_exec"
  by (simp add: struct_drm_exec_def base_types layout_eval u32_def c__u32_def struct_ww_acquire_ctx_layout
      del: One_nat_def)

lemma enum_drm_debug_category_layout [layout_simps]:
  "sizeof enum_drm_debug_category = 4 \<and> alignof enum_drm_debug_category = 4 \<and> wf_cty enum_drm_debug_category"
  by (simp add: enum_drm_debug_category_def base_types layout_eval
      del: One_nat_def)

lemma struct_drm_printer_layout [layout_simps]:
  "sizeof struct_drm_printer = 56 \<and> alignof struct_drm_printer = 8 \<and> wf_cty struct_drm_printer"
  by (simp add: struct_drm_printer_def base_types layout_eval enum_drm_debug_category_layout
      del: One_nat_def)

lemma struct_drm_gem_object_funcs_layout [layout_simps]:
  "sizeof struct_drm_gem_object_funcs = 120 \<and> alignof struct_drm_gem_object_funcs = 8 \<and> wf_cty struct_drm_gem_object_funcs"
  by (simp add: struct_drm_gem_object_funcs_def base_types layout_eval
      del: One_nat_def)

lemma struct_drm_mm_layout [layout_simps]:
  "sizeof struct_drm_mm = 240 \<and> alignof struct_drm_mm = 8 \<and> wf_cty struct_drm_mm"
  by (simp add: struct_drm_mm_def base_types layout_eval struct_list_head_layout struct_drm_mm_node_layout
      struct_rb_root_cached_layout struct_rb_root_layout
      del: One_nat_def)

lemma struct_iosys_map_layout [layout_simps]:
  "sizeof struct_iosys_map = 16 \<and> alignof struct_iosys_map = 8 \<and> wf_cty struct_iosys_map"
  by (simp add: struct_iosys_map_def base_types layout_eval bool_def
      del: One_nat_def)

lemma struct_dma_fence_cb_layout [layout_simps]:
  "sizeof struct_dma_fence_cb = 24 \<and> alignof struct_dma_fence_cb = 8 \<and> wf_cty struct_dma_fence_cb"
  by (simp add: struct_dma_fence_cb_def base_types layout_eval struct_list_head_layout dma_fence_func_t_def
      del: One_nat_def)

lemma struct_dma_buf_poll_cb_t_layout [layout_simps]:
  "sizeof struct_dma_buf_poll_cb_t = 40 \<and> alignof struct_dma_buf_poll_cb_t = 8 \<and> wf_cty struct_dma_buf_poll_cb_t"
  by (simp add: struct_dma_buf_poll_cb_t_def base_types layout_eval struct_dma_fence_cb_layout c__poll_t_def
      del: One_nat_def)

lemma struct_dma_buf_layout [layout_simps]:
  "sizeof struct_dma_buf = 232 \<and> alignof struct_dma_buf = 8 \<and> wf_cty struct_dma_buf"
  by (simp add: struct_dma_buf_def base_types layout_eval size_t_def c__kernel_size_t_def c__kernel_ulong_t_def
      struct_list_head_layout struct_iosys_map_layout spinlock_t_def struct_spinlock_layout
      wait_queue_head_t_def struct_wait_queue_head_layout struct_dma_buf_poll_cb_t_layout
      del: One_nat_def)

lemma struct_dma_fence_layout [layout_simps]:
  "sizeof struct_dma_fence = 64 \<and> alignof struct_dma_fence = 8 \<and> wf_cty struct_dma_fence"
  by (simp add: struct_dma_fence_def base_types layout_eval struct_list_head_layout ktime_t_def s64_def c__s64_def
      struct_callback_head_layout u64_def c__u64_def struct_kref_layout
      del: One_nat_def)

lemma struct_dma_fence_ops_layout [layout_simps]:
  "sizeof struct_dma_fence_ops = 56 \<and> alignof struct_dma_fence_ops = 8 \<and> wf_cty struct_dma_fence_ops"
  by (simp add: struct_dma_fence_ops_def base_types layout_eval
      del: One_nat_def)

lemma struct_dma_resv_list_layout [layout_simps]:
  "sizeof struct_dma_resv_list = 24 \<and> alignof struct_dma_resv_list = 8 \<and> wf_cty struct_dma_resv_list"
  by (simp add: struct_dma_resv_list_def base_types layout_eval struct_callback_head_layout u32_def c__u32_def
      del: One_nat_def)

lemma struct_sync_file_layout [layout_simps]:
  "sizeof struct_sync_file = 120 \<and> alignof struct_sync_file = 8 \<and> wf_cty struct_sync_file"
  by (simp add: struct_sync_file_def base_types layout_eval struct_list_head_layout wait_queue_head_t_def
      struct_wait_queue_head_layout struct_dma_fence_cb_layout
      del: One_nat_def)

lemma struct_dma_buf_ops_layout [layout_simps]:
  "sizeof struct_dma_buf_ops = 96 \<and> alignof struct_dma_buf_ops = 8 \<and> wf_cty struct_dma_buf_ops"
  by (simp add: struct_dma_buf_ops_def base_types layout_eval
      del: One_nat_def)

lemma struct_dma_buf_attachment_layout [layout_simps]:
  "sizeof struct_dma_buf_attachment = 64 \<and> alignof struct_dma_buf_attachment = 8 \<and> wf_cty struct_dma_buf_attachment"
  by (simp add: struct_dma_buf_attachment_def base_types layout_eval struct_list_head_layout bool_def
      del: One_nat_def)

end
