(* ===== verification/KernelMm.thy ===== *)
theory KernelMm
  imports KernelBpf
begin

text \<open>
  The memory behind a buffer object a client maps: \<^verbatim>\<open>struct mm_struct\<close>, its areas and operations, pages and folios, from
  \<^verbatim>\<open>bpf/vmlinux.h\<close>, with every type they hold by value.
\<close>

section \<open>Types\<close>

definition struct_maple_tree :: cty where
  "struct_maple_tree = CStruct ''maple_tree'' False
     [Field [] (CUnion [] False
        [Field ''ma_lock'' spinlock_t]),
      Field ''ma_flags'' unsigned_int,
      Field ''ma_root'' (CPtr ''void'')]"

definition struct_mm_mm_cid :: cty where
  "struct_mm_mm_cid = CStruct ''mm_mm_cid'' False
     [Field ''pcpu'' (CPtr ''struct mm_cid_pcpu''),
      Field ''mode'' unsigned_int,
      Field ''max_cids'' unsigned_int,
      Field ''irq_work'' struct_irq_work,
      Field ''work'' struct_work_struct,
      Field ''lock'' raw_spinlock_t,
      Field ''mutex'' struct_mutex,
      Field ''user_list'' struct_hlist_head,
      Field ''nr_cpus_allowed'' unsigned_int,
      Field ''users'' unsigned_int,
      Field ''pcpu_thrs'' unsigned_int,
      Field ''update_deferred'' unsigned_int,
      BitField [] c_long 64,
      BitField [] c_long 64,
      BitField [] c_long 64,
      BitField [] c_long 64,
      BitField [] c_long 64,
      BitField [] c_long 64]"

definition vm_flags_t :: cty where [layout_simps]:
  "vm_flags_t = long_unsigned_int"

definition s16 :: cty where [layout_simps]:
  "s16 = c__s16"

definition mm_context_t :: cty where
  "mm_context_t = CStruct [] False
      [Field ''ctx_id'' u64,
       Field ''tlb_gen'' atomic64_t,
       Field ''next_trim_cpumask'' long_unsigned_int,
       Field ''ldt_usr_sem'' struct_rw_semaphore,
       Field ''ldt'' (CPtr ''struct ldt_struct''),
       Field ''flags'' long_unsigned_int,
       Field ''lock'' struct_mutex,
       Field ''vdso'' (CPtr ''void''),
       Field ''vdso_image'' (CPtr ''const struct vdso_image''),
       Field ''perf_rdpmc_allowed'' atomic_t,
       Field ''pkey_allocation_map'' u16,
       Field ''execute_only_pkey'' s16,
       Field ''global_asid'' u16,
       Field ''asid_transition'' bool]"

definition mm_flags_t :: cty where
  "mm_flags_t = CStruct [] False
      [Field ''__mm_flags'' (CArr 1 long_unsigned_int)]"

definition struct_uprobes_state :: cty where
  "struct_uprobes_state = CStruct ''uprobes_state'' False
     [Field ''xol_area'' (CPtr ''struct xol_area''),
      Field ''head_tramps'' struct_hlist_head]"

definition mm_id_t :: cty where [layout_simps]:
  "mm_id_t = unsigned_int"

definition struct_mm_struct :: cty where
  "struct_mm_struct = CStruct ''mm_struct'' False
     [Field [] (CStruct [] False
        [Field [] (CStruct [] False
           [Field ''mm_count'' atomic_t,
            BitField [] c_long 64,
            BitField [] c_long 64,
            BitField [] c_long 64,
            BitField [] c_long 64,
            BitField [] c_long 64,
            BitField [] c_long 64,
            BitField [] c_long 64]),
         Field ''mm_mt'' struct_maple_tree,
         Field ''mmap_base'' long_unsigned_int,
         Field ''mmap_legacy_base'' long_unsigned_int,
         Field ''mmap_compat_base'' long_unsigned_int,
         Field ''mmap_compat_legacy_base'' long_unsigned_int,
         Field ''task_size'' long_unsigned_int,
         Field ''pgd'' (CPtr ''pgd_t''),
         Field ''membarrier_state'' atomic_t,
         Field ''mm_users'' atomic_t,
         BitField [] c_long 64,
         BitField [] c_long 64,
         BitField [] c_long 64,
         BitField [] c_long 64,
         BitField [] c_long 64,
         BitField [] c_long 64,
         BitField [] c_long 64,
         Field ''mm_cid'' struct_mm_mm_cid,
         Field ''pgtables_bytes'' atomic_long_t,
         Field ''map_count'' c_int,
         Field ''page_table_lock'' spinlock_t,
         Field ''mmap_lock'' struct_rw_semaphore,
         Field ''mmlist'' struct_list_head,
         Field ''vma_writer_wait'' struct_rcuwait,
         Field ''mm_lock_seq'' seqcount_t,
         Field ''futex_hash_lock'' struct_mutex,
         Field ''futex_phash'' (CPtr ''struct futex_private_hash''),
         Field ''futex_phash_new'' (CPtr ''struct futex_private_hash''),
         Field ''futex_batches'' long_unsigned_int,
         Field ''futex_rcu'' struct_callback_head,
         Field ''futex_atomic'' atomic_long_t,
         Field ''futex_ref'' (CPtr ''unsigned int''),
         Field ''hiwater_rss'' long_unsigned_int,
         Field ''hiwater_vm'' long_unsigned_int,
         Field ''total_vm'' long_unsigned_int,
         Field ''locked_vm'' long_unsigned_int,
         Field ''pinned_vm'' atomic64_t,
         Field ''data_vm'' long_unsigned_int,
         Field ''exec_vm'' long_unsigned_int,
         Field ''stack_vm'' long_unsigned_int,
         Field ''def_flags'' vm_flags_t,
         Field ''write_protect_seq'' seqcount_t,
         Field ''arg_lock'' spinlock_t,
         Field ''start_code'' long_unsigned_int,
         Field ''end_code'' long_unsigned_int,
         Field ''start_data'' long_unsigned_int,
         Field ''end_data'' long_unsigned_int,
         Field ''start_brk'' long_unsigned_int,
         Field ''brk'' long_unsigned_int,
         Field ''start_stack'' long_unsigned_int,
         Field ''arg_start'' long_unsigned_int,
         Field ''arg_end'' long_unsigned_int,
         Field ''env_start'' long_unsigned_int,
         Field ''env_end'' long_unsigned_int,
         Field ''saved_auxv'' (CArr 56 long_unsigned_int),
         Field ''rss_stat'' (CArr 4 struct_percpu_counter),
         Field ''binfmt'' (CPtr ''struct linux_binfmt''),
         Field ''context'' mm_context_t,
         Field ''flags'' mm_flags_t,
         Field ''ioctx_lock'' spinlock_t,
         Field ''ioctx_table'' (CPtr ''struct kioctx_table''),
         Field ''owner'' (CPtr ''struct task_struct''),
         Field ''user_ns'' (CPtr ''struct user_namespace''),
         Field ''exe_file'' (CPtr ''struct file''),
         Field ''notifier_subscriptions'' (CPtr ''struct mmu_notifier_subscriptions''),
         Field ''numa_next_scan'' long_unsigned_int,
         Field ''numa_scan_offset'' long_unsigned_int,
         Field ''numa_scan_seq'' c_int,
         Field ''tlb_flush_pending'' atomic_t,
         Field ''tlb_flush_batched'' atomic_t,
         Field ''uprobes_state'' struct_uprobes_state,
         Field ''hugetlb_usage'' atomic_long_t,
         Field ''async_put_work'' struct_work_struct,
         Field ''iommu_mm'' (CPtr ''struct iommu_mm_data''),
         Field ''ksm_merging_pages'' long_unsigned_int,
         Field ''ksm_rmap_items'' long_unsigned_int,
         Field ''ksm_zero_pages'' atomic_long_t,
         Field ''lru_gen'' (CStruct [] False
           [Field ''list'' struct_list_head,
            Field ''bitmap'' long_unsigned_int,
            Field ''memcg'' (CPtr ''struct mem_cgroup'')]),
         Field ''mm_id'' mm_id_t,
         BitField [] c_long 64,
         BitField [] c_long 64,
         BitField [] c_long 64]),
      Field ''flexible_array'' (CArr 0 c_char)]"

definition pgprotval_t :: cty where [layout_simps]:
  "pgprotval_t = long_unsigned_int"

definition struct_pgprot :: cty where
  "struct_pgprot = CStruct ''pgprot'' False
     [Field ''pgprot'' pgprotval_t]"

definition pgprot_t :: cty where [layout_simps]:
  "pgprot_t = struct_pgprot"

definition vma_flags_t :: cty where
  "vma_flags_t = CStruct [] False
      [Field ''__vma_flags'' (CArr 1 long_unsigned_int)]"

definition struct_vm_userfaultfd_ctx :: cty where
  "struct_vm_userfaultfd_ctx = CStruct ''vm_userfaultfd_ctx'' False
     [Field ''ctx'' (CPtr ''struct userfaultfd_ctx'')]"

definition struct_vm_area_struct :: cty where
  "struct_vm_area_struct = CStruct ''vm_area_struct'' False
     [Field [] (CUnion [] False
        [Field [] (CStruct [] False
           [Field ''vm_start'' long_unsigned_int,
            Field ''vm_end'' long_unsigned_int]),
         Field ''vm_freeptr'' freeptr_t]),
      Field ''vm_mm'' (CPtr ''struct mm_struct''),
      Field ''vm_page_prot'' pgprot_t,
      Field [] (CUnion [] False
        [Field ''vm_flags'' vm_flags_t,
         Field ''flags'' vma_flags_t]),
      Field ''vm_lock_seq'' unsigned_int,
      Field ''anon_vma_chain'' struct_list_head,
      Field ''anon_vma'' (CPtr ''struct anon_vma''),
      Field ''vm_ops'' (CPtr ''const struct vm_operations_struct''),
      Field ''vm_pgoff'' long_unsigned_int,
      Field ''vm_file'' (CPtr ''struct file''),
      Field ''vm_private_data'' (CPtr ''void''),
      Field ''swap_readahead_info'' atomic_long_t,
      Field ''vm_policy'' (CPtr ''struct mempolicy''),
      Field ''numab_state'' (CPtr ''struct vma_numab_state''),
      Field ''vm_refcnt'' refcount_t,
      Field ''shared'' (CStruct [] False
        [Field ''rb'' struct_rb_node,
         Field ''rb_subtree_last'' long_unsigned_int]),
      Field ''anon_name'' (CPtr ''struct anon_vma_name''),
      Field ''vm_userfaultfd_ctx'' struct_vm_userfaultfd_ctx,
      Field ''pfnmap_track_ctx'' (CPtr ''struct pfnmap_track_ctx'')]"

definition memdesc_flags_t :: cty where
  "memdesc_flags_t = CStruct [] False
      [Field ''f'' long_unsigned_int]"

definition struct_page :: cty where
  "struct_page = CStruct ''page'' False
     [Field ''flags'' memdesc_flags_t,
      Field [] (CUnion [] False
        [Field [] (CStruct [] False
           [Field [] (CUnion [] False
              [Field ''lru'' struct_list_head,
               Field ''buddy_list'' struct_list_head,
               Field ''pcp_list'' struct_list_head,
               Field ''pcp_llist'' struct_llist_node]),
            Field ''mapping'' (CPtr ''struct address_space''),
            Field [] (CUnion [] False
              [Field ''__folio_index'' long_unsigned_int,
               Field ''share'' long_unsigned_int]),
            Field ''private'' long_unsigned_int]),
         Field [] (CStruct [] False
           [Field ''pp_magic'' long_unsigned_int,
            Field ''pp'' (CPtr ''struct page_pool''),
            Field ''_pp_mapping_pad'' long_unsigned_int,
            Field ''dma_addr'' long_unsigned_int,
            Field ''pp_ref_count'' atomic_long_t]),
         Field [] (CStruct [] False
           [Field ''compound_head'' long_unsigned_int]),
         Field [] (CStruct [] False
           [Field ''_unused_pgmap_compound_head'' (CPtr ''void''),
            Field ''zone_device_data'' (CPtr ''void'')]),
         Field ''callback_head'' struct_callback_head]),
      Field [] (CUnion [] False
        [Field ''page_type'' unsigned_int,
         Field ''_mapcount'' atomic_t]),
      Field ''_refcount'' atomic_t,
      Field ''memcg_data'' long_unsigned_int]"

definition swp_entry_t :: cty where
  "swp_entry_t = CStruct [] False
      [Field ''val'' long_unsigned_int]"

definition mm_id_mapcount_t :: cty where [layout_simps]:
  "mm_id_mapcount_t = c_int"

definition struct_folio :: cty where
  "struct_folio = CStruct ''folio'' False
     [Field [] (CUnion [] False
        [Field [] (CStruct [] False
           [Field ''flags'' memdesc_flags_t,
            Field [] (CUnion [] False
              [Field ''lru'' struct_list_head,
               Field [] (CStruct [] False
                 [Field ''__filler'' (CPtr ''void''),
                  Field ''mlock_count'' unsigned_int]),
               Field ''pgmap'' (CPtr ''struct dev_pagemap'')]),
            Field ''mapping'' (CPtr ''struct address_space''),
            Field [] (CUnion [] False
              [Field ''index'' long_unsigned_int,
               Field ''share'' long_unsigned_int]),
            Field [] (CUnion [] False
              [Field ''private'' (CPtr ''void''),
               Field ''swap'' swp_entry_t]),
            Field ''_mapcount'' atomic_t,
            Field ''_refcount'' atomic_t,
            Field ''memcg_data'' long_unsigned_int]),
         Field ''page'' struct_page]),
      Field [] (CUnion [] False
        [Field [] (CStruct [] False
           [Field ''_flags_1'' long_unsigned_int,
            Field ''_head_1'' long_unsigned_int,
            Field [] (CUnion [] False
              [Field [] (CStruct [] False
                 [Field ''_large_mapcount'' atomic_t,
                  Field ''_nr_pages_mapped'' atomic_t,
                  Field ''_entire_mapcount'' atomic_t,
                  Field ''_pincount'' atomic_t,
                  Field ''_mm_id_mapcount'' (CArr 2 mm_id_mapcount_t),
                  Field [] (CUnion [] False
                    [Field ''_mm_id'' (CArr 2 mm_id_t),
                     Field ''_mm_ids'' long_unsigned_int])]),
               Field ''_usable_1'' (CArr 4 long_unsigned_int)]),
            Field ''_mapcount_1'' atomic_t,
            Field ''_refcount_1'' atomic_t,
            Field ''_nr_pages'' unsigned_int]),
         Field ''__page_1'' struct_page]),
      Field [] (CUnion [] False
        [Field [] (CStruct [] False
           [Field ''_flags_2'' long_unsigned_int,
            Field ''_head_2'' long_unsigned_int,
            Field ''_deferred_list'' struct_list_head]),
         Field ''__page_2'' struct_page]),
      Field [] (CUnion [] False
        [Field [] (CStruct [] False
           [Field ''_flags_3'' long_unsigned_int,
            Field ''_head_3'' long_unsigned_int,
            Field ''_hugetlb_subpool'' (CPtr ''void''),
            Field ''_hugetlb_cgroup'' (CPtr ''void''),
            Field ''_hugetlb_cgroup_rsvd'' (CPtr ''void''),
            Field ''_hugetlb_hwpoison'' (CPtr ''void'')]),
         Field ''__page_3'' struct_page])]"

definition struct_vm_operations_struct :: cty where
  "struct_vm_operations_struct = CStruct ''vm_operations_struct'' False
     [Field ''open'' (CPtr ''void (struct vm_area_struct *)''),
      Field ''close'' (CPtr ''void (struct vm_area_struct *)''),
      Field ''may_split'' (CPtr ''int (struct vm_area_struct *, long unsigned int)''),
      Field ''mremap'' (CPtr ''int (struct vm_area_struct *)''),
      Field ''mprotect'' (CPtr ''int (struct vm_area_struct *, long unsigned int, long unsigned int, long unsigned int)''),
      Field ''fault'' (CPtr ''vm_fault_t (struct vm_fault *)''),
      Field ''huge_fault'' (CPtr ''vm_fault_t (struct vm_fault *, unsigned int)''),
      Field ''map_pages'' (CPtr ''vm_fault_t (struct vm_fault *, long unsigned int, long unsigned int)''),
      Field ''pagesize'' (CPtr ''long unsigned int (struct vm_area_struct *)''),
      Field ''page_mkwrite'' (CPtr ''vm_fault_t (struct vm_fault *)''),
      Field ''pfn_mkwrite'' (CPtr ''vm_fault_t (struct vm_fault *)''),
      Field ''access'' (CPtr ''int (struct vm_area_struct *, long unsigned int, void *, int, int)''),
      Field ''name'' (CPtr ''const char * (struct vm_area_struct *)''),
      Field ''set_policy'' (CPtr ''int (struct vm_area_struct *, struct mempolicy *)''),
      Field ''get_policy'' (CPtr ''struct mempolicy * (struct vm_area_struct *, long unsigned int, long unsigned int *)''),
      Field ''find_normal_page'' (CPtr ''struct page * (struct vm_area_struct *, long unsigned int)'')]"

definition enum_fault_flag :: cty where
  "enum_fault_flag = CEnum 4
     [(''FAULT_FLAG_WRITE'', 1), (''FAULT_FLAG_MKWRITE'', 2), (''FAULT_FLAG_ALLOW_RETRY'', 4),
      (''FAULT_FLAG_RETRY_NOWAIT'', 8), (''FAULT_FLAG_KILLABLE'', 16),
      (''FAULT_FLAG_TRIED'', 32), (''FAULT_FLAG_USER'', 64), (''FAULT_FLAG_REMOTE'', 128),
      (''FAULT_FLAG_INSTRUCTION'', 256), (''FAULT_FLAG_INTERRUPTIBLE'', 512),
      (''FAULT_FLAG_UNSHARE'', 1024), (''FAULT_FLAG_ORIG_PTE_VALID'', 2048),
      (''FAULT_FLAG_VMA_LOCK'', 4096)]"

definition pteval_t :: cty where [layout_simps]:
  "pteval_t = long_unsigned_int"

definition pte_t :: cty where
  "pte_t = CStruct [] False
      [Field ''pte'' pteval_t]"

definition pmdval_t :: cty where [layout_simps]:
  "pmdval_t = long_unsigned_int"

definition pmd_t :: cty where
  "pmd_t = CStruct [] False
      [Field ''pmd'' pmdval_t]"

definition pgtable_t :: cty where [layout_simps]:
  "pgtable_t = CPtr ''struct page''"

definition struct_vm_fault :: cty where
  "struct_vm_fault = CStruct ''vm_fault'' False
     [Field [] (CStruct [] False
        [Field ''vma'' (CPtr ''struct vm_area_struct''),
         Field ''gfp_mask'' gfp_t,
         Field ''pgoff'' long_unsigned_int,
         Field ''address'' long_unsigned_int,
         Field ''real_address'' long_unsigned_int]),
      Field ''flags'' enum_fault_flag,
      Field ''pmd'' (CPtr ''pmd_t''),
      Field ''pud'' (CPtr ''pud_t''),
      Field [] (CUnion [] False
        [Field ''orig_pte'' pte_t,
         Field ''orig_pmd'' pmd_t]),
      Field ''cow_page'' (CPtr ''struct page''),
      Field ''page'' (CPtr ''struct page''),
      Field ''pte'' (CPtr ''pte_t''),
      Field ''ptl'' (CPtr ''spinlock_t''),
      Field ''prealloc_pte'' pgtable_t]"

definition struct_address_space_operations :: cty where
  "struct_address_space_operations = CStruct ''address_space_operations'' False
     [Field ''read_folio'' (CPtr ''int (struct file *, struct folio *)''),
      Field ''writepages'' (CPtr ''int (struct address_space *, struct writeback_control *)''),
      Field ''dirty_folio'' (CPtr ''bool (struct address_space *, struct folio *)''),
      Field ''readahead'' (CPtr ''void (struct readahead_control *)''),
      Field ''write_begin'' (CPtr ''int (const struct kiocb *, struct address_space *, loff_t, unsigned int, struct folio **, void **)''),
      Field ''write_end'' (CPtr ''int (const struct kiocb *, struct address_space *, loff_t, unsigned int, unsigned int, struct folio *, void *)''),
      Field ''bmap'' (CPtr ''sector_t (struct address_space *, sector_t)''),
      Field ''invalidate_folio'' (CPtr ''void (struct folio *, size_t, size_t)''),
      Field ''release_folio'' (CPtr ''bool (struct folio *, gfp_t)''),
      Field ''free_folio'' (CPtr ''void (struct folio *)''),
      Field ''direct_IO'' (CPtr ''ssize_t (struct kiocb *, struct iov_iter *)''),
      Field ''migrate_folio'' (CPtr ''int (struct address_space *, struct folio *, struct folio *, enum migrate_mode)''),
      Field ''launder_folio'' (CPtr ''int (struct folio *)''),
      Field ''is_partially_uptodate'' (CPtr ''bool (struct folio *, size_t, size_t)''),
      Field ''is_dirty_writeback'' (CPtr ''void (struct folio *, bool *, bool *)''),
      Field ''error_remove_folio'' (CPtr ''int (struct address_space *, struct folio *)''),
      Field ''swap_activate'' (CPtr ''int (struct swap_info_struct *, struct file *, sector_t *)''),
      Field ''swap_deactivate'' (CPtr ''void (struct file *)''),
      Field ''swap_rw'' (CPtr ''int (struct kiocb *, struct iov_iter *)'')]"

section \<open>Sizes and alignments\<close>

lemma struct_maple_tree_layout [layout_simps]:
  "sizeof struct_maple_tree = 16 \<and> alignof struct_maple_tree = 8 \<and> wf_cty struct_maple_tree"
  by (simp add: struct_maple_tree_def base_types layout_eval spinlock_t_def struct_spinlock_layout
      del: One_nat_def)

lemma struct_mm_mm_cid_layout [layout_simps]:
  "sizeof struct_mm_mm_cid = 192 \<and> alignof struct_mm_mm_cid = 8 \<and> wf_cty struct_mm_mm_cid"
  by (simp add: struct_mm_mm_cid_def base_types layout_eval struct_irq_work_layout struct_work_struct_layout
      raw_spinlock_t_def struct_raw_spinlock_layout struct_mutex_layout struct_hlist_head_layout
      del: One_nat_def)

lemma mm_context_t_layout [layout_simps]:
  "sizeof mm_context_t = 144 \<and> alignof mm_context_t = 8 \<and> wf_cty mm_context_t"
  by (simp add: mm_context_t_def base_types layout_eval u64_def c__u64_def atomic64_t_layout struct_rw_semaphore_layout
      struct_mutex_layout atomic_t_layout u16_def c__u16_def s16_def c__s16_def bool_def
      del: One_nat_def)

lemma mm_flags_t_layout [layout_simps]:
  "sizeof mm_flags_t = 8 \<and> alignof mm_flags_t = 8 \<and> wf_cty mm_flags_t"
  by (simp add: mm_flags_t_def base_types layout_eval
      del: One_nat_def)

lemma struct_uprobes_state_layout [layout_simps]:
  "sizeof struct_uprobes_state = 16 \<and> alignof struct_uprobes_state = 8 \<and> wf_cty struct_uprobes_state"
  by (simp add: struct_uprobes_state_def base_types layout_eval struct_hlist_head_layout
      del: One_nat_def)

lemma struct_mm_struct_layout [layout_simps]:
  "sizeof struct_mm_struct = 1728 \<and> alignof struct_mm_struct = 8 \<and> wf_cty struct_mm_struct"
  by (simp add: struct_mm_struct_def base_types layout_eval atomic_t_layout struct_maple_tree_layout
      struct_mm_mm_cid_layout atomic_long_t_def atomic64_t_layout spinlock_t_def struct_spinlock_layout
      struct_rw_semaphore_layout struct_list_head_layout struct_rcuwait_layout seqcount_t_def
      struct_seqcount_layout struct_mutex_layout struct_callback_head_layout vm_flags_t_def
      struct_percpu_counter_layout mm_context_t_layout mm_flags_t_layout struct_uprobes_state_layout
      struct_work_struct_layout mm_id_t_def
      del: One_nat_def)

lemma struct_pgprot_layout [layout_simps]:
  "sizeof struct_pgprot = 8 \<and> alignof struct_pgprot = 8 \<and> wf_cty struct_pgprot"
  by (simp add: struct_pgprot_def base_types layout_eval pgprotval_t_def
      del: One_nat_def)

lemma vma_flags_t_layout [layout_simps]:
  "sizeof vma_flags_t = 8 \<and> alignof vma_flags_t = 8 \<and> wf_cty vma_flags_t"
  by (simp add: vma_flags_t_def base_types layout_eval
      del: One_nat_def)

lemma struct_vm_userfaultfd_ctx_layout [layout_simps]:
  "sizeof struct_vm_userfaultfd_ctx = 8 \<and> alignof struct_vm_userfaultfd_ctx = 8 \<and> wf_cty struct_vm_userfaultfd_ctx"
  by (simp add: struct_vm_userfaultfd_ctx_def base_types layout_eval
      del: One_nat_def)

lemma struct_vm_area_struct_layout [layout_simps]:
  "sizeof struct_vm_area_struct = 192 \<and> alignof struct_vm_area_struct = 8 \<and> wf_cty struct_vm_area_struct"
  by (simp add: struct_vm_area_struct_def base_types layout_eval freeptr_t_layout pgprot_t_def struct_pgprot_layout
      vm_flags_t_def vma_flags_t_layout struct_list_head_layout atomic_long_t_def atomic64_t_layout
      refcount_t_def struct_refcount_struct_layout struct_rb_node_layout struct_vm_userfaultfd_ctx_layout
      del: One_nat_def)

lemma memdesc_flags_t_layout [layout_simps]:
  "sizeof memdesc_flags_t = 8 \<and> alignof memdesc_flags_t = 8 \<and> wf_cty memdesc_flags_t"
  by (simp add: memdesc_flags_t_def base_types layout_eval
      del: One_nat_def)

lemma struct_page_layout [layout_simps]:
  "sizeof struct_page = 64 \<and> alignof struct_page = 8 \<and> wf_cty struct_page"
  by (simp add: struct_page_def base_types layout_eval memdesc_flags_t_layout struct_list_head_layout
      struct_llist_node_layout atomic_long_t_def atomic64_t_layout struct_callback_head_layout
      atomic_t_layout
      del: One_nat_def)

lemma swp_entry_t_layout [layout_simps]:
  "sizeof swp_entry_t = 8 \<and> alignof swp_entry_t = 8 \<and> wf_cty swp_entry_t"
  by (simp add: swp_entry_t_def base_types layout_eval
      del: One_nat_def)

lemma struct_folio_layout [layout_simps]:
  "sizeof struct_folio = 256 \<and> alignof struct_folio = 8 \<and> wf_cty struct_folio"
  by (simp add: struct_folio_def base_types layout_eval memdesc_flags_t_layout struct_list_head_layout swp_entry_t_layout
      atomic_t_layout struct_page_layout mm_id_mapcount_t_def mm_id_t_def
      del: One_nat_def)

lemma struct_vm_operations_struct_layout [layout_simps]:
  "sizeof struct_vm_operations_struct = 128 \<and> alignof struct_vm_operations_struct = 8 \<and> wf_cty struct_vm_operations_struct"
  by (simp add: struct_vm_operations_struct_def base_types layout_eval
      del: One_nat_def)

lemma enum_fault_flag_layout [layout_simps]:
  "sizeof enum_fault_flag = 4 \<and> alignof enum_fault_flag = 4 \<and> wf_cty enum_fault_flag"
  by (simp add: enum_fault_flag_def base_types layout_eval
      del: One_nat_def)

lemma pte_t_layout [layout_simps]:
  "sizeof pte_t = 8 \<and> alignof pte_t = 8 \<and> wf_cty pte_t"
  by (simp add: pte_t_def base_types layout_eval pteval_t_def
      del: One_nat_def)

lemma pmd_t_layout [layout_simps]:
  "sizeof pmd_t = 8 \<and> alignof pmd_t = 8 \<and> wf_cty pmd_t"
  by (simp add: pmd_t_def base_types layout_eval pmdval_t_def
      del: One_nat_def)

lemma struct_vm_fault_layout [layout_simps]:
  "sizeof struct_vm_fault = 112 \<and> alignof struct_vm_fault = 8 \<and> wf_cty struct_vm_fault"
  by (simp add: struct_vm_fault_def base_types layout_eval gfp_t_def enum_fault_flag_layout pte_t_layout pmd_t_layout
      pgtable_t_def
      del: One_nat_def)

lemma struct_address_space_operations_layout [layout_simps]:
  "sizeof struct_address_space_operations = 152 \<and> alignof struct_address_space_operations = 8 \<and> wf_cty struct_address_space_operations"
  by (simp add: struct_address_space_operations_def base_types layout_eval
      del: One_nat_def)

end
