(* ===== verification/KernelVerifier.thy ===== *)
theory KernelVerifier
  imports KernelCgroup KernelMm
begin

text \<open>
  What loading and attaching the probe goes through in the kernel: the system call's attributes, BTF, the verifier, trampolines,
  the function tracer and the objects a program may keep in a map, from \<^verbatim>\<open>bpf/vmlinux.h\<close>.
\<close>

section \<open>Types\<close>

definition struct_btf_header :: cty where
  "struct_btf_header = CStruct ''btf_header'' False
     [Field ''magic'' c__u16,
      Field ''version'' c__u8,
      Field ''flags'' c__u8,
      Field ''hdr_len'' c__u32,
      Field ''type_off'' c__u32,
      Field ''type_len'' c__u32,
      Field ''str_off'' c__u32,
      Field ''str_len'' c__u32]"

definition struct_btf :: cty where
  "struct_btf = CStruct ''btf'' False
     [Field ''data'' (CPtr ''void''),
      Field ''types'' (CPtr ''struct btf_type *''),
      Field ''resolved_ids'' (CPtr ''u32''),
      Field ''resolved_sizes'' (CPtr ''u32''),
      Field ''strings'' (CPtr ''const char''),
      Field ''nohdr_data'' (CPtr ''void''),
      Field ''hdr'' struct_btf_header,
      Field ''nr_types'' u32,
      Field ''named_start_id'' u32,
      Field ''types_size'' u32,
      Field ''data_size'' u32,
      Field ''refcnt'' refcount_t,
      Field ''id'' u32,
      Field ''rcu'' struct_callback_head,
      Field ''kfunc_set_tab'' (CPtr ''struct btf_kfunc_set_tab''),
      Field ''dtor_kfunc_tab'' (CPtr ''struct btf_id_dtor_kfunc_tab''),
      Field ''struct_meta_tab'' (CPtr ''struct btf_struct_metas''),
      Field ''struct_ops_tab'' (CPtr ''struct btf_struct_ops_tab''),
      Field ''base_btf'' (CPtr ''struct btf''),
      Field ''start_id'' u32,
      Field ''start_str_off'' u32,
      Field ''name'' (CArr 56 c_char),
      Field ''kernel_btf'' bool,
      Field ''base_id_map'' (CPtr ''__u32'')]"

definition struct_btf_mod_pair :: cty where
  "struct_btf_mod_pair = CStruct ''btf_mod_pair'' False
     [Field ''btf'' (CPtr ''struct btf''),
      Field ''module'' (CPtr ''struct module'')]"

definition struct_bpf_verifier_log :: cty where
  "struct_bpf_verifier_log = CStruct ''bpf_verifier_log'' False
     [Field ''start_pos'' u64,
      Field ''end_pos'' u64,
      Field ''ubuf'' (CPtr ''char''),
      Field ''level'' u32,
      Field ''len_total'' u32,
      Field ''len_max'' u32,
      Field ''kbuf'' (CArr 1024 c_char)]"

definition enum_priv_stack_mode :: cty where
  "enum_priv_stack_mode = CEnum 4
     [(''PRIV_STACK_UNKNOWN'', 0), (''NO_PRIV_STACK'', 1), (''PRIV_STACK_ADAPTIVE'', 2)]"

definition enum_bpf_arg_type :: cty where
  "enum_bpf_arg_type = CEnum 4
     [(''ARG_DONTCARE'', 0), (''ARG_CONST_MAP_PTR'', 1), (''ARG_PTR_TO_MAP_KEY'', 2),
      (''ARG_PTR_TO_MAP_VALUE'', 3), (''ARG_PTR_TO_MEM'', 4), (''ARG_PTR_TO_ARENA'', 5),
      (''ARG_CONST_SIZE'', 6), (''ARG_CONST_SIZE_OR_ZERO'', 7), (''ARG_PTR_TO_CTX'', 8),
      (''ARG_ANYTHING'', 9), (''ARG_PTR_TO_SPIN_LOCK'', 10), (''ARG_PTR_TO_SOCK_COMMON'', 11),
      (''ARG_PTR_TO_SOCKET'', 12), (''ARG_PTR_TO_BTF_ID'', 13),
      (''ARG_PTR_TO_RINGBUF_MEM'', 14), (''ARG_CONST_ALLOC_SIZE_OR_ZERO'', 15),
      (''ARG_PTR_TO_BTF_ID_SOCK_COMMON'', 16), (''ARG_PTR_TO_PERCPU_BTF_ID'', 17),
      (''ARG_PTR_TO_FUNC'', 18), (''ARG_PTR_TO_STACK'', 19), (''ARG_PTR_TO_CONST_STR'', 20),
      (''ARG_PTR_TO_TIMER'', 21), (''ARG_KPTR_XCHG_DEST'', 22), (''ARG_PTR_TO_DYNPTR'', 23),
      (''__BPF_ARG_TYPE_MAX'', 24), (''ARG_PTR_TO_MAP_VALUE_OR_NULL'', 259),
      (''ARG_PTR_TO_MEM_OR_NULL'', 260), (''ARG_PTR_TO_CTX_OR_NULL'', 264),
      (''ARG_PTR_TO_SOCKET_OR_NULL'', 268), (''ARG_PTR_TO_STACK_OR_NULL'', 275),
      (''ARG_PTR_TO_BTF_ID_OR_NULL'', 269), (''ARG_PTR_TO_UNINIT_MEM'', 67141636),
      (''ARG_PTR_TO_FIXED_SIZE_MEM'', 262148), (''__BPF_ARG_TYPE_LIMIT'', 536870911)]"

definition struct_bpf_subprog_arg_info :: cty where
  "struct_bpf_subprog_arg_info = CStruct ''bpf_subprog_arg_info'' False
     [Field ''arg_type'' enum_bpf_arg_type,
      Field [] (CUnion [] False
        [Field ''mem_size'' u32,
         Field ''btf_id'' u32])]"

definition struct_bpf_subprog_info :: cty where
  "struct_bpf_subprog_info = CStruct ''bpf_subprog_info'' False
     [Field ''start'' u32,
      Field ''linfo_idx'' u32,
      Field ''postorder_start'' u32,
      Field ''exit_idx'' u32,
      Field ''stack_depth'' u16,
      Field ''stack_extra'' u16,
      Field ''fastcall_stack_off'' s16,
      BitField ''has_tail_call'' bool 1,
      BitField ''tail_call_reachable'' bool 1,
      BitField ''has_ld_abs'' bool 1,
      BitField ''is_cb'' bool 1,
      BitField ''is_async_cb'' bool 1,
      BitField ''is_exception_cb'' bool 1,
      BitField ''args_cached'' bool 1,
      BitField ''keep_fastcall_stack'' bool 1,
      BitField ''changes_pkt_data'' bool 1,
      BitField ''might_sleep'' bool 1,
      BitField ''arg_cnt'' u8 3,
      Field ''priv_stack_mode'' enum_priv_stack_mode,
      Field ''args'' (CArr 5 struct_bpf_subprog_arg_info)]"

definition struct_bpf_id_pair :: cty where
  "struct_bpf_id_pair = CStruct ''bpf_id_pair'' False
     [Field ''old'' u32,
      Field ''cur'' u32]"

definition struct_bpf_idmap :: cty where
  "struct_bpf_idmap = CStruct ''bpf_idmap'' False
     [Field ''tmp_id_gen'' u32,
      Field ''cnt'' u32,
      Field ''map'' (CArr 600 struct_bpf_id_pair)]"

definition struct_bpf_idset :: cty where
  "struct_bpf_idset = CStruct ''bpf_idset'' False
     [Field ''num_ids'' u32,
      Field ''entries'' (CArr 600 (CStruct [] False
        [Field ''id'' u32,
         Field ''cnt'' u32]))]"

definition struct_backtrack_state :: cty where
  "struct_backtrack_state = CStruct ''backtrack_state'' False
     [Field ''env'' (CPtr ''struct bpf_verifier_env''),
      Field ''frame'' u32,
      Field ''reg_masks'' (CArr 8 u32),
      Field ''stack_masks'' (CArr 8 u64)]"

definition sockptr_t :: cty where
  "sockptr_t = CStruct [] False
      [Field [] (CUnion [] False
         [Field ''kernel'' (CPtr ''void''),
          Field ''user'' (CPtr ''void'')]),
       BitField ''is_kernel'' bool 1]"

definition bpfptr_t :: cty where [layout_simps]:
  "bpfptr_t = sockptr_t"

definition enum_bpf_reg_type :: cty where
  "enum_bpf_reg_type = CEnum 4
     [(''NOT_INIT'', 0), (''SCALAR_VALUE'', 1), (''PTR_TO_CTX'', 2), (''CONST_PTR_TO_MAP'', 3),
      (''PTR_TO_MAP_VALUE'', 4), (''PTR_TO_MAP_KEY'', 5), (''PTR_TO_STACK'', 6),
      (''PTR_TO_PACKET_META'', 7), (''PTR_TO_PACKET'', 8), (''PTR_TO_PACKET_END'', 9),
      (''PTR_TO_FLOW_KEYS'', 10), (''PTR_TO_SOCKET'', 11), (''PTR_TO_SOCK_COMMON'', 12),
      (''PTR_TO_TCP_SOCK'', 13), (''PTR_TO_TP_BUFFER'', 14), (''PTR_TO_XDP_SOCK'', 15),
      (''PTR_TO_BTF_ID'', 16), (''PTR_TO_MEM'', 17), (''PTR_TO_ARENA'', 18),
      (''PTR_TO_BUF'', 19), (''PTR_TO_FUNC'', 20), (''PTR_TO_INSN'', 21),
      (''CONST_PTR_TO_DYNPTR'', 22), (''__BPF_REG_TYPE_MAX'', 23),
      (''PTR_TO_MAP_VALUE_OR_NULL'', 260), (''PTR_TO_SOCKET_OR_NULL'', 267),
      (''PTR_TO_SOCK_COMMON_OR_NULL'', 268), (''PTR_TO_TCP_SOCK_OR_NULL'', 269),
      (''PTR_TO_BTF_ID_OR_NULL'', 272), (''__BPF_REG_TYPE_LIMIT'', 536870911)]"

definition enum_bpf_dynptr_type :: cty where
  "enum_bpf_dynptr_type = CEnum 4
     [(''BPF_DYNPTR_TYPE_INVALID'', 0), (''BPF_DYNPTR_TYPE_LOCAL'', 1),
      (''BPF_DYNPTR_TYPE_RINGBUF'', 2), (''BPF_DYNPTR_TYPE_SKB'', 3),
      (''BPF_DYNPTR_TYPE_XDP'', 4), (''BPF_DYNPTR_TYPE_SKB_META'', 5),
      (''BPF_DYNPTR_TYPE_FILE'', 6)]"

definition enum_bpf_iter_state :: cty where
  "enum_bpf_iter_state = CEnum 4
     [(''BPF_ITER_STATE_INVALID'', 0), (''BPF_ITER_STATE_ACTIVE'', 1),
      (''BPF_ITER_STATE_DRAINED'', 2)]"

definition struct_tnum :: cty where
  "struct_tnum = CStruct ''tnum'' False
     [Field ''value'' u64,
      Field ''mask'' u64]"

definition struct_bpf_reg_state :: cty where
  "struct_bpf_reg_state = CStruct ''bpf_reg_state'' False
     [Field ''type'' enum_bpf_reg_type,
      Field ''off'' s32,
      Field [] (CUnion [] False
        [Field ''range'' c_int,
         Field [] (CStruct [] False
           [Field ''map_ptr'' (CPtr ''struct bpf_map''),
            Field ''map_uid'' u32]),
         Field [] (CStruct [] False
           [Field ''btf'' (CPtr ''struct btf''),
            Field ''btf_id'' u32]),
         Field [] (CStruct [] False
           [Field ''mem_size'' u32,
            Field ''dynptr_id'' u32]),
         Field ''dynptr'' (CStruct [] False
           [Field ''type'' enum_bpf_dynptr_type,
            Field ''first_slot'' bool]),
         Field ''iter'' (CStruct [] False
           [Field ''btf'' (CPtr ''struct btf''),
            Field ''btf_id'' u32,
            BitField ''state'' enum_bpf_iter_state 2,
            BitField ''depth'' c_int 30]),
         Field ''irq'' (CStruct [] False
           [Field ''kfunc_class'' (CEnum 4 [(''IRQ_NATIVE_KFUNC'', 0), (''IRQ_LOCK_KFUNC'', 1)])]),
         Field ''raw'' (CStruct [] False
           [Field ''raw1'' long_unsigned_int,
            Field ''raw2'' long_unsigned_int]),
         Field ''subprogno'' u32]),
      Field ''var_off'' struct_tnum,
      Field ''smin_value'' s64,
      Field ''smax_value'' s64,
      Field ''umin_value'' u64,
      Field ''umax_value'' u64,
      Field ''s32_min_value'' s32,
      Field ''s32_max_value'' s32,
      Field ''u32_min_value'' u32,
      Field ''u32_max_value'' u32,
      Field ''id'' u32,
      Field ''ref_obj_id'' u32,
      Field ''frameno'' u32,
      Field ''subreg_def'' s32,
      Field ''precise'' bool]"

definition struct_bpf_scc_callchain :: cty where
  "struct_bpf_scc_callchain = CStruct ''bpf_scc_callchain'' False
     [Field ''callsites'' (CArr 7 u32),
      Field ''scc'' u32]"

definition struct_bpf_verifier_env :: cty where
  "struct_bpf_verifier_env = CStruct ''bpf_verifier_env'' False
     [Field ''insn_idx'' u32,
      Field ''prev_insn_idx'' u32,
      Field ''prog'' (CPtr ''struct bpf_prog''),
      Field ''ops'' (CPtr ''const struct bpf_verifier_ops''),
      Field ''attach_btf_mod'' (CPtr ''struct module''),
      Field ''head'' (CPtr ''struct bpf_verifier_stack_elem''),
      Field ''stack_size'' c_int,
      Field ''strict_alignment'' bool,
      Field ''test_state_freq'' bool,
      Field ''test_reg_invariants'' bool,
      Field ''cur_state'' (CPtr ''struct bpf_verifier_state''),
      Field ''explored_states'' (CPtr ''struct list_head''),
      Field ''free_list'' struct_list_head,
      Field ''used_maps'' (CArr 64 (CPtr ''struct bpf_map'')),
      Field ''used_btfs'' (CArr 64 struct_btf_mod_pair),
      Field ''insn_array_maps'' (CArr 64 (CPtr ''struct bpf_map'')),
      Field ''used_map_cnt'' u32,
      Field ''used_btf_cnt'' u32,
      Field ''insn_array_map_cnt'' u32,
      Field ''id_gen'' u32,
      Field ''hidden_subprog_cnt'' u32,
      Field ''exception_callback_subprog'' c_int,
      Field ''explore_alu_limits'' bool,
      Field ''allow_ptr_leaks'' bool,
      Field ''allow_uninit_stack'' bool,
      Field ''bpf_capable'' bool,
      Field ''bypass_spec_v1'' bool,
      Field ''bypass_spec_v4'' bool,
      Field ''seen_direct_write'' bool,
      Field ''seen_exception'' bool,
      Field ''insn_aux_data'' (CPtr ''struct bpf_insn_aux_data''),
      Field ''prev_linfo'' (CPtr ''const struct bpf_line_info''),
      Field ''log'' struct_bpf_verifier_log,
      Field ''subprog_info'' (CArr 258 struct_bpf_subprog_info),
      Field [] (CUnion [] False
        [Field ''idmap_scratch'' struct_bpf_idmap,
         Field ''idset_scratch'' struct_bpf_idset]),
      Field ''cfg'' (CStruct [] False
        [Field ''insn_state'' (CPtr ''int''),
         Field ''insn_stack'' (CPtr ''int''),
         Field ''insn_postorder'' (CPtr ''int''),
         Field ''cur_stack'' c_int,
         Field ''cur_postorder'' c_int]),
      Field ''bt'' struct_backtrack_state,
      Field ''cur_hist_ent'' (CPtr ''struct bpf_jmp_history_entry''),
      Field ''pass_cnt'' u32,
      Field ''subprog_cnt'' u32,
      Field ''prev_insn_processed'' u32,
      Field ''insn_processed'' u32,
      Field ''prev_jmps_processed'' u32,
      Field ''jmps_processed'' u32,
      Field ''verification_time'' u64,
      Field ''max_states_per_insn'' u32,
      Field ''total_states'' u32,
      Field ''peak_states'' u32,
      Field ''longest_mark_read_walk'' u32,
      Field ''free_list_size'' u32,
      Field ''explored_states_size'' u32,
      Field ''num_backedges'' u32,
      Field ''fd_array'' bpfptr_t,
      Field ''scratched_regs'' u32,
      Field ''scratched_stack_slots'' u64,
      Field ''prev_log_pos'' u64,
      Field ''prev_insn_print_pos'' u64,
      Field ''fake_reg'' (CArr 2 struct_bpf_reg_state),
      Field ''tmp_str_buf'' (CArr 320 c_char),
      Field ''insn_buf'' (CArr 32 struct_bpf_insn),
      Field ''epilogue_buf'' (CArr 32 struct_bpf_insn),
      Field ''callchain_buf'' struct_bpf_scc_callchain,
      Field ''liveness'' (CPtr ''struct bpf_liveness''),
      Field ''scc_info'' (CPtr ''struct bpf_scc_info *''),
      Field ''scc_cnt'' u32,
      Field ''succ'' (CPtr ''struct bpf_iarray''),
      Field ''gotox_tmp_buf'' (CPtr ''struct bpf_iarray'')]"

definition enum_bpf_return_type :: cty where
  "enum_bpf_return_type = CEnum 4
     [(''RET_INTEGER'', 0), (''RET_VOID'', 1), (''RET_PTR_TO_MAP_VALUE'', 2),
      (''RET_PTR_TO_SOCKET'', 3), (''RET_PTR_TO_TCP_SOCK'', 4), (''RET_PTR_TO_SOCK_COMMON'', 5),
      (''RET_PTR_TO_MEM'', 6), (''RET_PTR_TO_MEM_OR_BTF_ID'', 7), (''RET_PTR_TO_BTF_ID'', 8),
      (''__BPF_RET_TYPE_MAX'', 9), (''RET_PTR_TO_MAP_VALUE_OR_NULL'', 258),
      (''RET_PTR_TO_SOCKET_OR_NULL'', 259), (''RET_PTR_TO_TCP_SOCK_OR_NULL'', 260),
      (''RET_PTR_TO_SOCK_COMMON_OR_NULL'', 261), (''RET_PTR_TO_RINGBUF_MEM_OR_NULL'', 1286),
      (''RET_PTR_TO_DYNPTR_MEM_OR_NULL'', 262), (''RET_PTR_TO_BTF_ID_OR_NULL'', 264),
      (''RET_PTR_TO_BTF_ID_TRUSTED'', 1048584), (''__BPF_RET_TYPE_LIMIT'', 536870911)]"

definition struct_bpf_func_proto :: cty where
  "struct_bpf_func_proto = CStruct ''bpf_func_proto'' False
     [Field ''func'' (CPtr ''u64 (u64, u64, u64, u64, u64)''),
      Field ''gpl_only'' bool,
      Field ''pkt_access'' bool,
      Field ''might_sleep'' bool,
      Field ''allow_fastcall'' bool,
      Field ''ret_type'' enum_bpf_return_type,
      Field [] (CUnion [] False
        [Field [] (CStruct [] False
           [Field ''arg1_type'' enum_bpf_arg_type,
            Field ''arg2_type'' enum_bpf_arg_type,
            Field ''arg3_type'' enum_bpf_arg_type,
            Field ''arg4_type'' enum_bpf_arg_type,
            Field ''arg5_type'' enum_bpf_arg_type]),
         Field ''arg_type'' (CArr 5 enum_bpf_arg_type)]),
      Field [] (CUnion [] False
        [Field [] (CStruct [] False
           [Field ''arg1_btf_id'' (CPtr ''u32''),
            Field ''arg2_btf_id'' (CPtr ''u32''),
            Field ''arg3_btf_id'' (CPtr ''u32''),
            Field ''arg4_btf_id'' (CPtr ''u32''),
            Field ''arg5_btf_id'' (CPtr ''u32'')]),
         Field ''arg_btf_id'' (CArr 5 (CPtr ''u32'')),
         Field [] (CStruct [] False
           [Field ''arg1_size'' size_t,
            Field ''arg2_size'' size_t,
            Field ''arg3_size'' size_t,
            Field ''arg4_size'' size_t,
            Field ''arg5_size'' size_t]),
         Field ''arg_size'' (CArr 5 size_t)]),
      Field ''ret_btf_id'' (CPtr ''int''),
      Field ''allowed'' (CPtr ''bool (const struct bpf_prog *)'')]"

definition struct_bpf_map_ops :: cty where
  "struct_bpf_map_ops = CStruct ''bpf_map_ops'' False
     [Field ''map_alloc_check'' (CPtr ''int (union bpf_attr *)''),
      Field ''map_alloc'' (CPtr ''struct bpf_map * (union bpf_attr *)''),
      Field ''map_release'' (CPtr ''void (struct bpf_map *, struct file *)''),
      Field ''map_free'' (CPtr ''void (struct bpf_map *)''),
      Field ''map_get_next_key'' (CPtr ''int (struct bpf_map *, void *, void *)''),
      Field ''map_release_uref'' (CPtr ''void (struct bpf_map *)''),
      Field ''map_lookup_elem_sys_only'' (CPtr ''void * (struct bpf_map *, void *)''),
      Field ''map_lookup_batch'' (CPtr ''int (struct bpf_map *, const union bpf_attr *, union bpf_attr *)''),
      Field ''map_lookup_and_delete_elem'' (CPtr ''int (struct bpf_map *, void *, void *, u64)''),
      Field ''map_lookup_and_delete_batch'' (CPtr ''int (struct bpf_map *, const union bpf_attr *, union bpf_attr *)''),
      Field ''map_update_batch'' (CPtr ''int (struct bpf_map *, struct file *, const union bpf_attr *, union bpf_attr *)''),
      Field ''map_delete_batch'' (CPtr ''int (struct bpf_map *, const union bpf_attr *, union bpf_attr *)''),
      Field ''map_lookup_elem'' (CPtr ''void * (struct bpf_map *, void *)''),
      Field ''map_update_elem'' (CPtr ''long int (struct bpf_map *, void *, void *, u64)''),
      Field ''map_delete_elem'' (CPtr ''long int (struct bpf_map *, void *)''),
      Field ''map_push_elem'' (CPtr ''long int (struct bpf_map *, void *, u64)''),
      Field ''map_pop_elem'' (CPtr ''long int (struct bpf_map *, void *)''),
      Field ''map_peek_elem'' (CPtr ''long int (struct bpf_map *, void *)''),
      Field ''map_lookup_percpu_elem'' (CPtr ''void * (struct bpf_map *, void *, u32)''),
      Field ''map_get_hash'' (CPtr ''int (struct bpf_map *, u32, void *)''),
      Field ''map_fd_get_ptr'' (CPtr ''void * (struct bpf_map *, struct file *, int)''),
      Field ''map_fd_put_ptr'' (CPtr ''void (struct bpf_map *, void *, bool)''),
      Field ''map_gen_lookup'' (CPtr ''int (struct bpf_map *, struct bpf_insn *)''),
      Field ''map_fd_sys_lookup_elem'' (CPtr ''u32 (void *)''),
      Field ''map_seq_show_elem'' (CPtr ''void (struct bpf_map *, void *, struct seq_file *)''),
      Field ''map_check_btf'' (CPtr ''int (struct bpf_map *, const struct btf *, const struct btf_type *, const struct btf_type *)''),
      Field ''map_poke_track'' (CPtr ''int (struct bpf_map *, struct bpf_prog_aux *)''),
      Field ''map_poke_untrack'' (CPtr ''void (struct bpf_map *, struct bpf_prog_aux *)''),
      Field ''map_poke_run'' (CPtr ''void (struct bpf_map *, u32, struct bpf_prog *, struct bpf_prog *)''),
      Field ''map_direct_value_addr'' (CPtr ''int (const struct bpf_map *, u64 *, u32)''),
      Field ''map_direct_value_meta'' (CPtr ''int (const struct bpf_map *, u64, u32 *)''),
      Field ''map_mmap'' (CPtr ''int (struct bpf_map *, struct vm_area_struct *)''),
      Field ''map_poll'' (CPtr ''__poll_t (struct bpf_map *, struct file *, struct poll_table_struct *)''),
      Field ''map_get_unmapped_area'' (CPtr ''long unsigned int (struct file *, long unsigned int, long unsigned int, long unsigned int, long unsigned int)''),
      Field ''map_local_storage_charge'' (CPtr ''int (struct bpf_local_storage_map *, void *, u32)''),
      Field ''map_local_storage_uncharge'' (CPtr ''void (struct bpf_local_storage_map *, void *, u32)''),
      Field ''map_owner_storage_ptr'' (CPtr ''struct bpf_local_storage ** (void *)''),
      Field ''map_redirect'' (CPtr ''long int (struct bpf_map *, u64, u64)''),
      Field ''map_meta_equal'' (CPtr ''bool (const struct bpf_map *, const struct bpf_map *)''),
      Field ''map_set_for_each_callback_args'' (CPtr ''int (struct bpf_verifier_env *, struct bpf_func_state *, struct bpf_func_state *)''),
      Field ''map_for_each_callback'' (CPtr ''long int (struct bpf_map *, bpf_callback_t, void *, u64)''),
      Field ''map_mem_usage'' (CPtr ''u64 (const struct bpf_map *)''),
      Field ''map_btf_id'' (CPtr ''int''),
      Field ''iter_seq_info'' (CPtr ''const struct bpf_iter_seq_info'')]"

definition struct_bpf_prog_ops :: cty where
  "struct_bpf_prog_ops = CStruct ''bpf_prog_ops'' False
     [Field ''test_run'' (CPtr ''int (struct bpf_prog *, const union bpf_attr *, union bpf_attr *)'')]"

definition struct_bpf_verifier_ops :: cty where
  "struct_bpf_verifier_ops = CStruct ''bpf_verifier_ops'' False
     [Field ''get_func_proto'' (CPtr ''const struct bpf_func_proto * (enum bpf_func_id, const struct bpf_prog *)''),
      Field ''is_valid_access'' (CPtr ''bool (int, int, enum bpf_access_type, const struct bpf_prog *, struct bpf_insn_access_aux *)''),
      Field ''gen_prologue'' (CPtr ''int (struct bpf_insn *, bool, const struct bpf_prog *)''),
      Field ''gen_epilogue'' (CPtr ''int (struct bpf_insn *, const struct bpf_prog *, s16)''),
      Field ''gen_ld_abs'' (CPtr ''int (const struct bpf_insn *, struct bpf_insn *)''),
      Field ''convert_ctx_access'' (CPtr ''u32 (enum bpf_access_type, const struct bpf_insn *, struct bpf_insn *, struct bpf_prog *, u32 *)''),
      Field ''btf_struct_access'' (CPtr ''int (struct bpf_verifier_log *, const struct bpf_reg_state *, int, int)'')]"

definition struct_bpf_link_ops :: cty where
  "struct_bpf_link_ops = CStruct ''bpf_link_ops'' False
     [Field ''release'' (CPtr ''void (struct bpf_link *)''),
      Field ''dealloc'' (CPtr ''void (struct bpf_link *)''),
      Field ''dealloc_deferred'' (CPtr ''void (struct bpf_link *)''),
      Field ''detach'' (CPtr ''int (struct bpf_link *)''),
      Field ''update_prog'' (CPtr ''int (struct bpf_link *, struct bpf_prog *, struct bpf_prog *)''),
      Field ''show_fdinfo'' (CPtr ''void (const struct bpf_link *, struct seq_file *)''),
      Field ''fill_link_info'' (CPtr ''int (const struct bpf_link *, struct bpf_link_info *)''),
      Field ''update_map'' (CPtr ''int (struct bpf_link *, struct bpf_map *, struct bpf_map *)''),
      Field ''poll'' (CPtr ''__poll_t (struct file *, struct poll_table_struct *)'')]"

definition struct_bpf_link_info :: cty where
  "struct_bpf_link_info = CStruct ''bpf_link_info'' False
     [Field ''type'' c__u32,
      Field ''id'' c__u32,
      Field ''prog_id'' c__u32,
      Field [] (CUnion [] False
        [Field ''raw_tracepoint'' (CStruct [] False
           [Field ''tp_name'' c__u64,
            Field ''tp_name_len'' c__u32,
            Field ''cookie'' c__u64]),
         Field ''tracing'' (CStruct [] False
           [Field ''attach_type'' c__u32,
            Field ''target_obj_id'' c__u32,
            Field ''target_btf_id'' c__u32,
            Field ''cookie'' c__u64]),
         Field ''cgroup'' (CStruct [] False
           [Field ''cgroup_id'' c__u64,
            Field ''attach_type'' c__u32]),
         Field ''iter'' (CStruct [] False
           [Field ''target_name'' c__u64,
            Field ''target_name_len'' c__u32,
            Field [] (CUnion [] False
              [Field ''map'' (CStruct [] False
                 [Field ''map_id'' c__u32])]),
            Field [] (CUnion [] False
              [Field ''cgroup'' (CStruct [] False
                 [Field ''cgroup_id'' c__u64,
                  Field ''order'' c__u32]),
               Field ''task'' (CStruct [] False
                 [Field ''tid'' c__u32,
                  Field ''pid'' c__u32])])]),
         Field ''netns'' (CStruct [] False
           [Field ''netns_ino'' c__u32,
            Field ''attach_type'' c__u32]),
         Field ''xdp'' (CStruct [] False
           [Field ''ifindex'' c__u32]),
         Field ''struct_ops'' (CStruct [] False
           [Field ''map_id'' c__u32]),
         Field ''netfilter'' (CStruct [] False
           [Field ''pf'' c__u32,
            Field ''hooknum'' c__u32,
            Field ''priority'' c__s32,
            Field ''flags'' c__u32]),
         Field ''kprobe_multi'' (CStruct [] False
           [Field ''addrs'' c__u64,
            Field ''count'' c__u32,
            Field ''flags'' c__u32,
            Field ''missed'' c__u64,
            Field ''cookies'' c__u64]),
         Field ''uprobe_multi'' (CStruct [] False
           [Field ''path'' c__u64,
            Field ''offsets'' c__u64,
            Field ''ref_ctr_offsets'' c__u64,
            Field ''cookies'' c__u64,
            Field ''path_size'' c__u32,
            Field ''count'' c__u32,
            Field ''flags'' c__u32,
            Field ''pid'' c__u32]),
         Field ''perf_event'' (CStruct [] False
           [Field ''type'' c__u32,
            Field [] (CUnion [] False
              [Field ''uprobe'' (CStruct [] False
                 [Field ''file_name'' c__u64,
                  Field ''name_len'' c__u32,
                  Field ''offset'' c__u32,
                  Field ''cookie'' c__u64,
                  Field ''ref_ctr_offset'' c__u64]),
               Field ''kprobe'' (CStruct [] False
                 [Field ''func_name'' c__u64,
                  Field ''name_len'' c__u32,
                  Field ''offset'' c__u32,
                  Field ''addr'' c__u64,
                  Field ''missed'' c__u64,
                  Field ''cookie'' c__u64]),
               Field ''tracepoint'' (CStruct [] False
                 [Field ''tp_name'' c__u64,
                  Field ''name_len'' c__u32,
                  Field ''cookie'' c__u64]),
               Field ''event'' (CStruct [] False
                 [Field ''config'' c__u64,
                  Field ''type'' c__u32,
                  Field ''cookie'' c__u64])])]),
         Field ''tcx'' (CStruct [] False
           [Field ''ifindex'' c__u32,
            Field ''attach_type'' c__u32]),
         Field ''netkit'' (CStruct [] False
           [Field ''ifindex'' c__u32,
            Field ''attach_type'' c__u32]),
         Field ''sockmap'' (CStruct [] False
           [Field ''map_id'' c__u32,
            Field ''attach_type'' c__u32])])]"

definition struct_bpf_prog_info :: cty where
  "struct_bpf_prog_info = CStruct ''bpf_prog_info'' False
     [Field ''type'' c__u32,
      Field ''id'' c__u32,
      Field ''tag'' (CArr 8 c__u8),
      Field ''jited_prog_len'' c__u32,
      Field ''xlated_prog_len'' c__u32,
      Field ''jited_prog_insns'' c__u64,
      Field ''xlated_prog_insns'' c__u64,
      Field ''load_time'' c__u64,
      Field ''created_by_uid'' c__u32,
      Field ''nr_map_ids'' c__u32,
      Field ''map_ids'' c__u64,
      Field ''name'' (CArr 16 c_char),
      Field ''ifindex'' c__u32,
      BitField ''gpl_compatible'' c__u32 1,
      Field ''netns_dev'' c__u64,
      Field ''netns_ino'' c__u64,
      Field ''nr_jited_ksyms'' c__u32,
      Field ''nr_jited_func_lens'' c__u32,
      Field ''jited_ksyms'' c__u64,
      Field ''jited_func_lens'' c__u64,
      Field ''btf_id'' c__u32,
      Field ''func_info_rec_size'' c__u32,
      Field ''func_info'' c__u64,
      Field ''nr_func_info'' c__u32,
      Field ''nr_line_info'' c__u32,
      Field ''line_info'' c__u64,
      Field ''jited_line_info'' c__u64,
      Field ''nr_jited_line_info'' c__u32,
      Field ''line_info_rec_size'' c__u32,
      Field ''jited_line_info_rec_size'' c__u32,
      Field ''nr_prog_tags'' c__u32,
      Field ''prog_tags'' c__u64,
      Field ''run_time_ns'' c__u64,
      Field ''run_cnt'' c__u64,
      Field ''recursion_misses'' c__u64,
      Field ''verified_insns'' c__u32,
      Field ''attach_btf_obj_id'' c__u32,
      Field ''attach_btf_id'' c__u32]"

definition struct_bpf_map_info :: cty where
  "struct_bpf_map_info = CStruct ''bpf_map_info'' False
     [Field ''type'' c__u32,
      Field ''id'' c__u32,
      Field ''key_size'' c__u32,
      Field ''value_size'' c__u32,
      Field ''max_entries'' c__u32,
      Field ''map_flags'' c__u32,
      Field ''name'' (CArr 16 c_char),
      Field ''ifindex'' c__u32,
      Field ''btf_vmlinux_value_type_id'' c__u32,
      Field ''netns_dev'' c__u64,
      Field ''netns_ino'' c__u64,
      Field ''btf_id'' c__u32,
      Field ''btf_key_type_id'' c__u32,
      Field ''btf_value_type_id'' c__u32,
      Field ''btf_vmlinux_id'' c__u32,
      Field ''map_extra'' c__u64,
      Field ''hash'' c__u64,
      Field ''hash_size'' c__u32]"

definition struct_bpf_btf_info :: cty where
  "struct_bpf_btf_info = CStruct ''bpf_btf_info'' False
     [Field ''btf'' c__u64,
      Field ''btf_size'' c__u32,
      Field ''id'' c__u32,
      Field ''name'' c__u64,
      Field ''name_len'' c__u32,
      Field ''kernel_btf'' c__u32]"

definition struct_bpf_dispatcher_prog :: cty where
  "struct_bpf_dispatcher_prog = CStruct ''bpf_dispatcher_prog'' False
     [Field ''prog'' (CPtr ''struct bpf_prog''),
      Field ''users'' refcount_t]"

definition struct_bpf_dispatcher :: cty where
  "struct_bpf_dispatcher = CStruct ''bpf_dispatcher'' False
     [Field ''mutex'' struct_mutex,
      Field ''func'' (CPtr ''void''),
      Field ''progs'' (CArr 48 struct_bpf_dispatcher_prog),
      Field ''num_progs'' c_int,
      Field ''image'' (CPtr ''void''),
      Field ''rw_image'' (CPtr ''void''),
      Field ''image_off'' u32,
      Field ''ksym'' struct_bpf_ksym,
      Field ''sc_key'' (CPtr ''struct static_call_key''),
      Field ''sc_tramp'' (CPtr ''void'')]"

definition struct_bpf_tramp_image :: cty where
  "struct_bpf_tramp_image = CStruct ''bpf_tramp_image'' False
     [Field ''image'' (CPtr ''void''),
      Field ''size'' c_int,
      Field ''ksym'' struct_bpf_ksym,
      Field ''pcref'' struct_percpu_ref,
      Field ''ip_after_call'' (CPtr ''void''),
      Field ''ip_epilogue'' (CPtr ''void''),
      Field [] (CUnion [] False
        [Field ''rcu'' struct_callback_head,
         Field ''work'' struct_work_struct])]"

definition struct_bpf_run_ctx :: cty where
  "struct_bpf_run_ctx = CStruct ''bpf_run_ctx'' False
     []"

definition struct_bpf_tramp_run_ctx :: cty where
  "struct_bpf_tramp_run_ctx = CStruct ''bpf_tramp_run_ctx'' False
     [Field ''run_ctx'' struct_bpf_run_ctx,
      Field ''bpf_cookie'' u64,
      Field ''saved_run_ctx'' (CPtr ''struct bpf_run_ctx'')]"

definition struct_bpf_map_ptr_state :: cty where
  "struct_bpf_map_ptr_state = CStruct ''bpf_map_ptr_state'' False
     [Field ''map_ptr'' (CPtr ''struct bpf_map''),
      Field ''poison'' bool,
      Field ''unpriv'' bool]"

definition struct_bpf_loop_inline_state :: cty where
  "struct_bpf_loop_inline_state = CStruct ''bpf_loop_inline_state'' False
     [BitField ''initialized'' unsigned_int 1,
      BitField ''fit_for_inline'' unsigned_int 1,
      Field ''callback_subprogno'' u32]"

definition struct_bpf_insn_aux_data :: cty where
  "struct_bpf_insn_aux_data = CStruct ''bpf_insn_aux_data'' False
     [Field [] (CUnion [] False
        [Field ''ptr_type'' enum_bpf_reg_type,
         Field ''map_ptr_state'' struct_bpf_map_ptr_state,
         Field ''call_imm'' s32,
         Field ''alu_limit'' u32,
         Field [] (CStruct [] False
           [Field ''map_index'' u32,
            Field ''map_off'' u32]),
         Field ''btf_var'' (CStruct [] False
           [Field ''reg_type'' enum_bpf_reg_type,
            Field [] (CUnion [] False
              [Field [] (CStruct [] False
                 [Field ''btf'' (CPtr ''struct btf''),
                  Field ''btf_id'' u32]),
               Field ''mem_size'' u32])]),
         Field ''loop_inline_state'' struct_bpf_loop_inline_state]),
      Field [] (CUnion [] False
        [Field ''obj_new_size'' u64,
         Field ''insert_off'' u64]),
      Field ''jt'' (CPtr ''struct bpf_iarray''),
      Field ''kptr_struct_meta'' (CPtr ''struct btf_struct_meta''),
      Field ''map_key_state'' u64,
      Field ''ctx_field_size'' c_int,
      Field ''seen'' u32,
      Field ''nospec'' bool,
      Field ''nospec_result'' bool,
      Field ''zext_dst'' bool,
      Field ''needs_zext'' bool,
      Field ''non_sleepable'' bool,
      Field ''is_iter_next'' bool,
      Field ''call_with_percpu_alloc_ptr'' bool,
      Field ''alu_state'' u8,
      BitField ''fastcall_pattern'' u8 1,
      BitField ''fastcall_spills_num'' u8 3,
      BitField ''arg_prog'' u8 4,
      Field ''orig_idx'' unsigned_int,
      Field ''jmp_point'' bool,
      Field ''prune_point'' bool,
      Field ''force_checkpoint'' bool,
      Field ''calls_callback'' bool,
      Field ''scc'' u32,
      Field ''live_regs_before'' u16]"

definition struct_bpf_retval_range :: cty where
  "struct_bpf_retval_range = CStruct ''bpf_retval_range'' False
     [Field ''minval'' s32,
      Field ''maxval'' s32]"

definition struct_bpf_func_state :: cty where
  "struct_bpf_func_state = CStruct ''bpf_func_state'' False
     [Field ''regs'' (CArr 11 struct_bpf_reg_state),
      Field ''callsite'' c_int,
      Field ''frameno'' u32,
      Field ''subprogno'' u32,
      Field ''async_entry_cnt'' u32,
      Field ''callback_ret_range'' struct_bpf_retval_range,
      Field ''in_callback_fn'' bool,
      Field ''in_async_callback_fn'' bool,
      Field ''in_exception_callback_fn'' bool,
      Field ''callback_depth'' u32,
      Field ''stack'' (CPtr ''struct bpf_stack_state''),
      Field ''allocated_stack'' c_int]"

definition struct_bpf_cgroup_storage_key :: cty where
  "struct_bpf_cgroup_storage_key = CStruct ''bpf_cgroup_storage_key'' False
     [Field ''cgroup_inode_id'' c__u64,
      Field ''attach_type'' c__u32]"

definition struct_bpf_cgroup_storage :: cty where
  "struct_bpf_cgroup_storage = CStruct ''bpf_cgroup_storage'' False
     [Field [] (CUnion [] False
        [Field ''buf'' (CPtr ''struct bpf_storage_buffer''),
         Field ''percpu_buf'' (CPtr ''void'')]),
      Field ''map'' (CPtr ''struct bpf_cgroup_storage_map''),
      Field ''key'' struct_bpf_cgroup_storage_key,
      Field ''list_map'' struct_list_head,
      Field ''list_cg'' struct_list_head,
      Field ''node'' struct_rb_node,
      Field ''rcu'' struct_callback_head]"

definition struct_bpf_storage_buffer :: cty where
  "struct_bpf_storage_buffer = CStruct ''bpf_storage_buffer'' False
     [Field ''rcu'' struct_callback_head,
      Field ''data'' (CArr 0 c_char)]"

definition struct_bpf_local_storage :: cty where
  "struct_bpf_local_storage = CStruct ''bpf_local_storage'' False
     [Field ''cache'' (CArr 16 (CPtr ''struct bpf_local_storage_data'')),
      Field ''list'' struct_hlist_head,
      Field ''owner'' (CPtr ''void''),
      Field ''rcu'' struct_callback_head,
      Field ''lock'' rqspinlock_t,
      Field ''mem_charge'' u64,
      Field ''owner_refcnt'' refcount_t,
      Field ''use_kmalloc_nolock'' bool]"

definition struct_bpf_offload_dev :: cty where
  "struct_bpf_offload_dev = CStruct ''bpf_offload_dev'' False
     [Field ''ops'' (CPtr ''const struct bpf_prog_offload_ops''),
      Field ''netdevs'' struct_list_head,
      Field ''priv'' (CPtr ''void'')]"

definition bpf_user_pt_regs_t :: cty where [layout_simps]:
  "bpf_user_pt_regs_t = struct_pt_regs"

definition struct_bpf_perf_event_data :: cty where
  "struct_bpf_perf_event_data = CStruct ''bpf_perf_event_data'' False
     [Field ''regs'' bpf_user_pt_regs_t,
      Field ''sample_period'' c__u64,
      Field ''addr'' c__u64]"

definition struct_bpf_raw_tracepoint_args :: cty where
  "struct_bpf_raw_tracepoint_args = CStruct ''bpf_raw_tracepoint_args'' False
     [Field ''args'' (CArr 0 c__u64)]"

definition struct_bpf_iter_num :: cty where
  "struct_bpf_iter_num = CStruct ''bpf_iter_num'' False
     [Field ''__opaque'' (CArr 1 c__u64)]"

definition struct_bpf_stack_state :: cty where
  "struct_bpf_stack_state = CStruct ''bpf_stack_state'' False
     [Field ''spilled_ptr'' struct_bpf_reg_state,
      Field ''slot_type'' (CArr 8 u8)]"

definition struct_bpf_timer :: cty where
  "struct_bpf_timer = CStruct ''bpf_timer'' False
     [Field ''__opaque'' (CArr 2 c__u64)]"

definition struct_bpf_spin_lock :: cty where
  "struct_bpf_spin_lock = CStruct ''bpf_spin_lock'' False
     [Field ''val'' c__u32]"

definition struct_bpf_dynptr :: cty where
  "struct_bpf_dynptr = CStruct ''bpf_dynptr'' False
     [Field ''__opaque'' (CArr 2 c__u64)]"

definition struct_bpf_list_head :: cty where
  "struct_bpf_list_head = CStruct ''bpf_list_head'' False
     [Field ''__opaque'' (CArr 2 c__u64)]"

definition struct_bpf_rb_root :: cty where
  "struct_bpf_rb_root = CStruct ''bpf_rb_root'' False
     [Field ''__opaque'' (CArr 2 c__u64)]"

definition struct_bpf_wq :: cty where
  "struct_bpf_wq = CStruct ''bpf_wq'' False
     [Field ''__opaque'' (CArr 2 c__u64)]"

definition struct_range_tree :: cty where
  "struct_range_tree = CStruct ''range_tree'' False
     [Field ''it_root'' struct_rb_root_cached,
      Field ''range_size_root'' struct_rb_root_cached]"

definition struct_bpf_arena :: cty where
  "struct_bpf_arena = CStruct ''bpf_arena'' False
     [Field ''map'' struct_bpf_map,
      Field ''user_vm_start'' u64,
      Field ''user_vm_end'' u64,
      Field ''kern_vm'' (CPtr ''struct vm_struct''),
      Field ''rt'' struct_range_tree,
      Field ''spinlock'' rqspinlock_t,
      Field ''vma_list'' struct_list_head,
      Field ''lock'' struct_mutex,
      Field ''free_irq'' struct_irq_work,
      Field ''free_work'' struct_work_struct,
      Field ''free_spans'' struct_llist_head]"

definition ftrace_func_t :: cty where [layout_simps]:
  "ftrace_func_t = CPtr ''void (long unsigned int, long unsigned int, struct ftrace_ops *, struct ftrace_regs *)''"

definition struct_ftrace_ops_hash :: cty where
  "struct_ftrace_ops_hash = CStruct ''ftrace_ops_hash'' False
     [Field ''notrace_hash'' (CPtr ''struct ftrace_hash''),
      Field ''filter_hash'' (CPtr ''struct ftrace_hash''),
      Field ''regex_lock'' struct_mutex]"

definition ftrace_ops_func_t :: cty where [layout_simps]:
  "ftrace_ops_func_t = CPtr ''int (struct ftrace_ops *, long unsigned int, enum ftrace_ops_cmd)''"

definition struct_ftrace_ops :: cty where
  "struct_ftrace_ops = CStruct ''ftrace_ops'' False
     [Field ''func'' ftrace_func_t,
      Field ''next'' (CPtr ''struct ftrace_ops''),
      Field ''flags'' long_unsigned_int,
      Field ''private'' (CPtr ''void''),
      Field ''saved_func'' ftrace_func_t,
      Field ''local_hash'' struct_ftrace_ops_hash,
      Field ''func_hash'' (CPtr ''struct ftrace_ops_hash''),
      Field ''old_hash'' struct_ftrace_ops_hash,
      Field ''trampoline'' long_unsigned_int,
      Field ''trampoline_size'' long_unsigned_int,
      Field ''list'' struct_list_head,
      Field ''subop_list'' struct_list_head,
      Field ''ops_func'' ftrace_ops_func_t,
      Field ''managed'' (CPtr ''struct ftrace_ops''),
      Field ''direct_call'' long_unsigned_int]"

definition struct_ftrace_regs :: cty where
  "struct_ftrace_regs = CStruct ''ftrace_regs'' False
     []"

definition struct_trace_event :: cty where
  "struct_trace_event = CStruct ''trace_event'' False
     [Field ''node'' struct_hlist_node,
      Field ''type'' c_int,
      Field ''funcs'' (CPtr ''struct trace_event_functions'')]"

definition struct_trace_event_call :: cty where
  "struct_trace_event_call = CStruct ''trace_event_call'' False
     [Field ''list'' struct_list_head,
      Field ''class'' (CPtr ''struct trace_event_class''),
      Field [] (CUnion [] False
        [Field ''name'' (CPtr ''const char''),
         Field ''tp'' (CPtr ''struct tracepoint'')]),
      Field ''event'' struct_trace_event,
      Field ''print_fmt'' (CPtr ''char''),
      Field [] (CUnion [] False
        [Field ''module'' (CPtr ''void''),
         Field ''refcnt'' atomic_t]),
      Field ''data'' (CPtr ''void''),
      Field ''flags'' c_int,
      Field ''perf_refcount'' c_int,
      Field ''perf_events'' (CPtr ''struct hlist_head''),
      Field ''prog_array'' (CPtr ''struct bpf_prog_array''),
      Field ''perf_perm'' (CPtr ''int (struct trace_event_call *, struct perf_event *)'')]"

definition enum_perf_event_state :: cty where
  "enum_perf_event_state = CEnum 4
     [(''PERF_EVENT_STATE_DEAD'', (- 5)), (''PERF_EVENT_STATE_REVOKED'', (- 4)),
      (''PERF_EVENT_STATE_EXIT'', (- 3)), (''PERF_EVENT_STATE_ERROR'', (- 2)),
      (''PERF_EVENT_STATE_OFF'', (- 1)), (''PERF_EVENT_STATE_INACTIVE'', 0),
      (''PERF_EVENT_STATE_ACTIVE'', 1)]"

definition local_t :: cty where
  "local_t = CStruct [] False
      [Field ''a'' atomic_long_t]"

definition local64_t :: cty where
  "local64_t = CStruct [] False
      [Field ''a'' local_t]"

definition struct_perf_event_attr :: cty where
  "struct_perf_event_attr = CStruct ''perf_event_attr'' False
     [Field ''type'' c__u32,
      Field ''size'' c__u32,
      Field ''config'' c__u64,
      Field [] (CUnion [] False
        [Field ''sample_period'' c__u64,
         Field ''sample_freq'' c__u64]),
      Field ''sample_type'' c__u64,
      Field ''read_format'' c__u64,
      BitField ''disabled'' c__u64 1,
      BitField ''inherit'' c__u64 1,
      BitField ''pinned'' c__u64 1,
      BitField ''exclusive'' c__u64 1,
      BitField ''exclude_user'' c__u64 1,
      BitField ''exclude_kernel'' c__u64 1,
      BitField ''exclude_hv'' c__u64 1,
      BitField ''exclude_idle'' c__u64 1,
      BitField ''mmap'' c__u64 1,
      BitField ''comm'' c__u64 1,
      BitField ''freq'' c__u64 1,
      BitField ''inherit_stat'' c__u64 1,
      BitField ''enable_on_exec'' c__u64 1,
      BitField ''task'' c__u64 1,
      BitField ''watermark'' c__u64 1,
      BitField ''precise_ip'' c__u64 2,
      BitField ''mmap_data'' c__u64 1,
      BitField ''sample_id_all'' c__u64 1,
      BitField ''exclude_host'' c__u64 1,
      BitField ''exclude_guest'' c__u64 1,
      BitField ''exclude_callchain_kernel'' c__u64 1,
      BitField ''exclude_callchain_user'' c__u64 1,
      BitField ''mmap2'' c__u64 1,
      BitField ''comm_exec'' c__u64 1,
      BitField ''use_clockid'' c__u64 1,
      BitField ''context_switch'' c__u64 1,
      BitField ''write_backward'' c__u64 1,
      BitField ''namespaces'' c__u64 1,
      BitField ''ksymbol'' c__u64 1,
      BitField ''bpf_event'' c__u64 1,
      BitField ''aux_output'' c__u64 1,
      BitField ''cgroup'' c__u64 1,
      BitField ''text_poke'' c__u64 1,
      BitField ''build_id'' c__u64 1,
      BitField ''inherit_thread'' c__u64 1,
      BitField ''remove_on_exec'' c__u64 1,
      BitField ''sigtrap'' c__u64 1,
      BitField ''defer_callchain'' c__u64 1,
      BitField ''defer_output'' c__u64 1,
      BitField ''__reserved_1'' c__u64 24,
      Field [] (CUnion [] False
        [Field ''wakeup_events'' c__u32,
         Field ''wakeup_watermark'' c__u32]),
      Field ''bp_type'' c__u32,
      Field [] (CUnion [] False
        [Field ''bp_addr'' c__u64,
         Field ''kprobe_func'' c__u64,
         Field ''uprobe_path'' c__u64,
         Field ''config1'' c__u64]),
      Field [] (CUnion [] False
        [Field ''bp_len'' c__u64,
         Field ''kprobe_addr'' c__u64,
         Field ''probe_offset'' c__u64,
         Field ''config2'' c__u64]),
      Field ''branch_sample_type'' c__u64,
      Field ''sample_regs_user'' c__u64,
      Field ''sample_stack_user'' c__u32,
      Field ''clockid'' c__s32,
      Field ''sample_regs_intr'' c__u64,
      Field ''aux_watermark'' c__u32,
      Field ''sample_max_stack'' c__u16,
      Field ''__reserved_2'' c__u16,
      Field ''aux_sample_size'' c__u32,
      Field [] (CUnion [] False
        [Field ''aux_action'' c__u32,
         Field [] (CStruct [] False
           [BitField ''aux_start_paused'' c__u32 1,
            BitField ''aux_pause'' c__u32 1,
            BitField ''aux_resume'' c__u32 1,
            BitField ''__reserved_3'' c__u32 29])]),
      Field ''sig_data'' c__u64,
      Field ''config3'' c__u64,
      Field ''config4'' c__u64]"

definition struct_hw_perf_event_extra :: cty where
  "struct_hw_perf_event_extra = CStruct ''hw_perf_event_extra'' False
     [Field ''config'' u64,
      Field ''reg'' unsigned_int,
      Field ''alloc'' c_int,
      Field ''idx'' c_int]"

definition struct_arch_hw_breakpoint :: cty where
  "struct_arch_hw_breakpoint = CStruct ''arch_hw_breakpoint'' False
     [Field ''address'' long_unsigned_int,
      Field ''mask'' long_unsigned_int,
      Field ''len'' u8,
      Field ''type'' u8]"

definition struct_rhlist_head :: cty where
  "struct_rhlist_head = CStruct ''rhlist_head'' False
     [Field ''rhead'' struct_rhash_head,
      Field ''next'' (CPtr ''struct rhlist_head'')]"

definition struct_hw_perf_event :: cty where
  "struct_hw_perf_event = CStruct ''hw_perf_event'' False
     [Field [] (CUnion [] False
        [Field [] (CStruct [] False
           [Field ''config'' u64,
            Field ''config1'' u64,
            Field ''last_tag'' u64,
            Field ''dyn_constraint'' u64,
            Field ''config_base'' long_unsigned_int,
            Field ''event_base'' long_unsigned_int,
            Field ''event_base_rdpmc'' c_int,
            Field ''idx'' c_int,
            Field ''last_cpu'' c_int,
            Field ''flags'' c_int,
            Field ''extra_reg'' struct_hw_perf_event_extra,
            Field ''branch_reg'' struct_hw_perf_event_extra]),
         Field [] (CStruct [] False
           [Field ''aux_config'' u64,
            Field ''aux_paused'' unsigned_int]),
         Field [] (CStruct [] False
           [Field ''hrtimer'' struct_hrtimer]),
         Field [] (CStruct [] False
           [Field ''tp_list'' struct_list_head]),
         Field [] (CStruct [] False
           [Field ''pwr_acc'' u64,
            Field ''ptsc'' u64]),
         Field [] (CStruct [] False
           [Field ''info'' struct_arch_hw_breakpoint,
            Field ''bp_list'' struct_rhlist_head]),
         Field [] (CStruct [] False
           [Field ''iommu_bank'' u8,
            Field ''iommu_cntr'' u8,
            Field ''padding'' u16,
            Field ''conf'' u64,
            Field ''conf1'' u64])]),
      Field ''target'' (CPtr ''struct task_struct''),
      Field ''addr_filters'' (CPtr ''void''),
      Field ''addr_filters_gen'' long_unsigned_int,
      Field ''state'' c_int,
      Field ''prev_count'' local64_t,
      Field ''sample_period'' u64,
      Field [] (CUnion [] False
        [Field [] (CStruct [] False
           [Field ''last_period'' u64,
            Field ''period_left'' local64_t]),
         Field [] (CStruct [] False
           [Field ''saved_metric'' u64,
            Field ''saved_slots'' u64])]),
      Field ''interrupts_seq'' u64,
      Field ''interrupts'' u64,
      Field ''freq_time_stamp'' u64,
      Field ''freq_count_stamp'' u64]"

definition struct_perf_addr_filters_head :: cty where
  "struct_perf_addr_filters_head = CStruct ''perf_addr_filters_head'' False
     [Field ''list'' struct_list_head,
      Field ''lock'' raw_spinlock_t,
      Field ''nr_file_filters'' unsigned_int]"

definition perf_overflow_handler_t :: cty where [layout_simps]:
  "perf_overflow_handler_t = CPtr ''void (struct perf_event *, struct perf_sample_data *, struct pt_regs *)''"

definition struct_perf_event :: cty where
  "struct_perf_event = CStruct ''perf_event'' False
     [Field ''event_entry'' struct_list_head,
      Field ''sibling_list'' struct_list_head,
      Field ''active_list'' struct_list_head,
      Field ''group_node'' struct_rb_node,
      Field ''group_index'' u64,
      Field ''migrate_entry'' struct_list_head,
      Field ''hlist_entry'' struct_hlist_node,
      Field ''active_entry'' struct_list_head,
      Field ''nr_siblings'' c_int,
      Field ''event_caps'' c_int,
      Field ''group_caps'' c_int,
      Field ''group_generation'' unsigned_int,
      Field ''group_leader'' (CPtr ''struct perf_event''),
      Field ''pmu'' (CPtr ''struct pmu''),
      Field ''pmu_private'' (CPtr ''void''),
      Field ''state'' enum_perf_event_state,
      Field ''attach_state'' unsigned_int,
      Field ''count'' local64_t,
      Field ''child_count'' atomic64_t,
      Field ''total_time_enabled'' u64,
      Field ''total_time_running'' u64,
      Field ''tstamp'' u64,
      Field ''attr'' struct_perf_event_attr,
      Field ''header_size'' u16,
      Field ''id_header_size'' u16,
      Field ''read_size'' u16,
      Field ''hw'' struct_hw_perf_event,
      Field ''ctx'' (CPtr ''struct perf_event_context''),
      Field ''pmu_ctx'' (CPtr ''struct perf_event_pmu_context''),
      Field ''refcount'' atomic_long_t,
      Field ''child_total_time_enabled'' atomic64_t,
      Field ''child_total_time_running'' atomic64_t,
      Field ''child_mutex'' struct_mutex,
      Field ''child_list'' struct_list_head,
      Field ''parent'' (CPtr ''struct perf_event''),
      Field ''oncpu'' c_int,
      Field ''cpu'' c_int,
      Field ''owner_entry'' struct_list_head,
      Field ''owner'' (CPtr ''struct task_struct''),
      Field ''mmap_mutex'' struct_mutex,
      Field ''mmap_count'' refcount_t,
      Field ''rb'' (CPtr ''struct perf_buffer''),
      Field ''rb_entry'' struct_list_head,
      Field ''rcu_batches'' long_unsigned_int,
      Field ''rcu_pending'' c_int,
      Field ''waitq'' wait_queue_head_t,
      Field ''fasync'' (CPtr ''struct fasync_struct''),
      Field ''pending_wakeup'' unsigned_int,
      Field ''pending_kill'' unsigned_int,
      Field ''pending_disable'' unsigned_int,
      Field ''pending_addr'' long_unsigned_int,
      Field ''pending_irq'' struct_irq_work,
      Field ''pending_disable_irq'' struct_irq_work,
      Field ''pending_task'' struct_callback_head,
      Field ''pending_work'' unsigned_int,
      Field ''event_limit'' atomic_t,
      Field ''addr_filters'' struct_perf_addr_filters_head,
      Field ''addr_filter_ranges'' (CPtr ''struct perf_addr_filter_range''),
      Field ''addr_filters_gen'' long_unsigned_int,
      Field ''aux_event'' (CPtr ''struct perf_event''),
      Field ''destroy'' (CPtr ''void (struct perf_event *)''),
      Field ''callback_head'' struct_callback_head,
      Field ''ns'' (CPtr ''struct pid_namespace''),
      Field ''id'' u64,
      Field ''lost_samples'' atomic64_t,
      Field ''clock'' (CPtr ''u64 (void)''),
      Field ''overflow_handler'' perf_overflow_handler_t,
      Field ''overflow_handler_context'' (CPtr ''void''),
      Field ''prog'' (CPtr ''struct bpf_prog''),
      Field ''bpf_cookie'' u64,
      Field ''tp_event'' (CPtr ''struct trace_event_call''),
      Field ''filter'' (CPtr ''struct event_filter''),
      Field ''ftrace_ops'' struct_ftrace_ops,
      Field ''cgrp'' (CPtr ''struct perf_cgroup''),
      Field ''security'' (CPtr ''void''),
      Field ''sb_list'' struct_list_head,
      Field ''pmu_list'' struct_list_head,
      Field ''orig_type'' u32]"

definition struct_bpf_trace_run_ctx :: cty where
  "struct_bpf_trace_run_ctx = CStruct ''bpf_trace_run_ctx'' False
     [Field ''run_ctx'' struct_bpf_run_ctx,
      Field ''bpf_cookie'' u64,
      Field ''is_uprobe'' bool]"

definition union_bpf_attr :: cty where
  "union_bpf_attr = CUnion ''bpf_attr'' False
     [Field [] (CStruct [] False
        [Field ''map_type'' c__u32,
         Field ''key_size'' c__u32,
         Field ''value_size'' c__u32,
         Field ''max_entries'' c__u32,
         Field ''map_flags'' c__u32,
         Field ''inner_map_fd'' c__u32,
         Field ''numa_node'' c__u32,
         Field ''map_name'' (CArr 16 c_char),
         Field ''map_ifindex'' c__u32,
         Field ''btf_fd'' c__u32,
         Field ''btf_key_type_id'' c__u32,
         Field ''btf_value_type_id'' c__u32,
         Field ''btf_vmlinux_value_type_id'' c__u32,
         Field ''map_extra'' c__u64,
         Field ''value_type_btf_obj_fd'' c__s32,
         Field ''map_token_fd'' c__s32,
         Field ''excl_prog_hash'' c__u64,
         Field ''excl_prog_hash_size'' c__u32]),
      Field [] (CStruct [] False
        [Field ''map_fd'' c__u32,
         Field ''key'' c__u64,
         Field [] (CUnion [] False
           [Field ''value'' c__u64,
            Field ''next_key'' c__u64]),
         Field ''flags'' c__u64]),
      Field ''batch'' (CStruct [] False
        [Field ''in_batch'' c__u64,
         Field ''out_batch'' c__u64,
         Field ''keys'' c__u64,
         Field ''values'' c__u64,
         Field ''count'' c__u32,
         Field ''map_fd'' c__u32,
         Field ''elem_flags'' c__u64,
         Field ''flags'' c__u64]),
      Field [] (CStruct [] False
        [Field ''prog_type'' c__u32,
         Field ''insn_cnt'' c__u32,
         Field ''insns'' c__u64,
         Field ''license'' c__u64,
         Field ''log_level'' c__u32,
         Field ''log_size'' c__u32,
         Field ''log_buf'' c__u64,
         Field ''kern_version'' c__u32,
         Field ''prog_flags'' c__u32,
         Field ''prog_name'' (CArr 16 c_char),
         Field ''prog_ifindex'' c__u32,
         Field ''expected_attach_type'' c__u32,
         Field ''prog_btf_fd'' c__u32,
         Field ''func_info_rec_size'' c__u32,
         Field ''func_info'' c__u64,
         Field ''func_info_cnt'' c__u32,
         Field ''line_info_rec_size'' c__u32,
         Field ''line_info'' c__u64,
         Field ''line_info_cnt'' c__u32,
         Field ''attach_btf_id'' c__u32,
         Field [] (CUnion [] False
           [Field ''attach_prog_fd'' c__u32,
            Field ''attach_btf_obj_fd'' c__u32]),
         Field ''core_relo_cnt'' c__u32,
         Field ''fd_array'' c__u64,
         Field ''core_relos'' c__u64,
         Field ''core_relo_rec_size'' c__u32,
         Field ''log_true_size'' c__u32,
         Field ''prog_token_fd'' c__s32,
         Field ''fd_array_cnt'' c__u32,
         Field ''signature'' c__u64,
         Field ''signature_size'' c__u32,
         Field ''keyring_id'' c__s32]),
      Field [] (CStruct [] False
        [Field ''pathname'' c__u64,
         Field ''bpf_fd'' c__u32,
         Field ''file_flags'' c__u32,
         Field ''path_fd'' c__s32]),
      Field [] (CStruct [] False
        [Field [] (CUnion [] False
           [Field ''target_fd'' c__u32,
            Field ''target_ifindex'' c__u32]),
         Field ''attach_bpf_fd'' c__u32,
         Field ''attach_type'' c__u32,
         Field ''attach_flags'' c__u32,
         Field ''replace_bpf_fd'' c__u32,
         Field [] (CUnion [] False
           [Field ''relative_fd'' c__u32,
            Field ''relative_id'' c__u32]),
         Field ''expected_revision'' c__u64]),
      Field ''test'' (CStruct [] False
        [Field ''prog_fd'' c__u32,
         Field ''retval'' c__u32,
         Field ''data_size_in'' c__u32,
         Field ''data_size_out'' c__u32,
         Field ''data_in'' c__u64,
         Field ''data_out'' c__u64,
         Field ''repeat'' c__u32,
         Field ''duration'' c__u32,
         Field ''ctx_size_in'' c__u32,
         Field ''ctx_size_out'' c__u32,
         Field ''ctx_in'' c__u64,
         Field ''ctx_out'' c__u64,
         Field ''flags'' c__u32,
         Field ''cpu'' c__u32,
         Field ''batch_size'' c__u32]),
      Field [] (CStruct [] False
        [Field [] (CUnion [] False
           [Field ''start_id'' c__u32,
            Field ''prog_id'' c__u32,
            Field ''map_id'' c__u32,
            Field ''btf_id'' c__u32,
            Field ''link_id'' c__u32]),
         Field ''next_id'' c__u32,
         Field ''open_flags'' c__u32,
         Field ''fd_by_id_token_fd'' c__s32]),
      Field ''info'' (CStruct [] False
        [Field ''bpf_fd'' c__u32,
         Field ''info_len'' c__u32,
         Field ''info'' c__u64]),
      Field ''query'' (CStruct [] False
        [Field [] (CUnion [] False
           [Field ''target_fd'' c__u32,
            Field ''target_ifindex'' c__u32]),
         Field ''attach_type'' c__u32,
         Field ''query_flags'' c__u32,
         Field ''attach_flags'' c__u32,
         Field ''prog_ids'' c__u64,
         Field [] (CUnion [] False
           [Field ''prog_cnt'' c__u32,
            Field ''count'' c__u32]),
         Field ''prog_attach_flags'' c__u64,
         Field ''link_ids'' c__u64,
         Field ''link_attach_flags'' c__u64,
         Field ''revision'' c__u64]),
      Field ''raw_tracepoint'' (CStruct [] False
        [Field ''name'' c__u64,
         Field ''prog_fd'' c__u32,
         Field ''cookie'' c__u64]),
      Field [] (CStruct [] False
        [Field ''btf'' c__u64,
         Field ''btf_log_buf'' c__u64,
         Field ''btf_size'' c__u32,
         Field ''btf_log_size'' c__u32,
         Field ''btf_log_level'' c__u32,
         Field ''btf_log_true_size'' c__u32,
         Field ''btf_flags'' c__u32,
         Field ''btf_token_fd'' c__s32]),
      Field ''task_fd_query'' (CStruct [] False
        [Field ''pid'' c__u32,
         Field ''fd'' c__u32,
         Field ''flags'' c__u32,
         Field ''buf_len'' c__u32,
         Field ''buf'' c__u64,
         Field ''prog_id'' c__u32,
         Field ''fd_type'' c__u32,
         Field ''probe_offset'' c__u64,
         Field ''probe_addr'' c__u64]),
      Field ''link_create'' (CStruct [] False
        [Field [] (CUnion [] False
           [Field ''prog_fd'' c__u32,
            Field ''map_fd'' c__u32]),
         Field [] (CUnion [] False
           [Field ''target_fd'' c__u32,
            Field ''target_ifindex'' c__u32]),
         Field ''attach_type'' c__u32,
         Field ''flags'' c__u32,
         Field [] (CUnion [] False
           [Field ''target_btf_id'' c__u32,
            Field [] (CStruct [] False
              [Field ''iter_info'' c__u64,
               Field ''iter_info_len'' c__u32]),
            Field ''perf_event'' (CStruct [] False
              [Field ''bpf_cookie'' c__u64]),
            Field ''kprobe_multi'' (CStruct [] False
              [Field ''flags'' c__u32,
               Field ''cnt'' c__u32,
               Field ''syms'' c__u64,
               Field ''addrs'' c__u64,
               Field ''cookies'' c__u64]),
            Field ''tracing'' (CStruct [] False
              [Field ''target_btf_id'' c__u32,
               Field ''cookie'' c__u64]),
            Field ''netfilter'' (CStruct [] False
              [Field ''pf'' c__u32,
               Field ''hooknum'' c__u32,
               Field ''priority'' c__s32,
               Field ''flags'' c__u32]),
            Field ''tcx'' (CStruct [] False
              [Field [] (CUnion [] False
                 [Field ''relative_fd'' c__u32,
                  Field ''relative_id'' c__u32]),
               Field ''expected_revision'' c__u64]),
            Field ''uprobe_multi'' (CStruct [] False
              [Field ''path'' c__u64,
               Field ''offsets'' c__u64,
               Field ''ref_ctr_offsets'' c__u64,
               Field ''cookies'' c__u64,
               Field ''cnt'' c__u32,
               Field ''flags'' c__u32,
               Field ''pid'' c__u32]),
            Field ''netkit'' (CStruct [] False
              [Field [] (CUnion [] False
                 [Field ''relative_fd'' c__u32,
                  Field ''relative_id'' c__u32]),
               Field ''expected_revision'' c__u64]),
            Field ''cgroup'' (CStruct [] False
              [Field [] (CUnion [] False
                 [Field ''relative_fd'' c__u32,
                  Field ''relative_id'' c__u32]),
               Field ''expected_revision'' c__u64])])]),
      Field ''link_update'' (CStruct [] False
        [Field ''link_fd'' c__u32,
         Field [] (CUnion [] False
           [Field ''new_prog_fd'' c__u32,
            Field ''new_map_fd'' c__u32]),
         Field ''flags'' c__u32,
         Field [] (CUnion [] False
           [Field ''old_prog_fd'' c__u32,
            Field ''old_map_fd'' c__u32])]),
      Field ''link_detach'' (CStruct [] False
        [Field ''link_fd'' c__u32]),
      Field ''enable_stats'' (CStruct [] False
        [Field ''type'' c__u32]),
      Field ''iter_create'' (CStruct [] False
        [Field ''link_fd'' c__u32,
         Field ''flags'' c__u32]),
      Field ''prog_bind_map'' (CStruct [] False
        [Field ''prog_fd'' c__u32,
         Field ''map_fd'' c__u32,
         Field ''flags'' c__u32]),
      Field ''token_create'' (CStruct [] False
        [Field ''flags'' c__u32,
         Field ''bpffs_fd'' c__u32]),
      Field ''prog_stream_read'' (CStruct [] False
        [Field ''stream_buf'' c__u64,
         Field ''stream_buf_len'' c__u32,
         Field ''stream_id'' c__u32,
         Field ''prog_fd'' c__u32]),
      Field ''prog_assoc_struct_ops'' (CStruct [] False
        [Field ''map_fd'' c__u32,
         Field ''prog_fd'' c__u32,
         Field ''flags'' c__u32])]"

definition enum_bpf_cgroup_iter_order :: cty where
  "enum_bpf_cgroup_iter_order = CEnum 4
     [(''BPF_CGROUP_ITER_ORDER_UNSPEC'', 0), (''BPF_CGROUP_ITER_SELF_ONLY'', 1),
      (''BPF_CGROUP_ITER_DESCENDANTS_PRE'', 2), (''BPF_CGROUP_ITER_DESCENDANTS_POST'', 3),
      (''BPF_CGROUP_ITER_ANCESTORS_UP'', 4), (''BPF_CGROUP_ITER_CHILDREN'', 5)]"

definition union_bpf_iter_link_info :: cty where
  "union_bpf_iter_link_info = CUnion ''bpf_iter_link_info'' False
     [Field ''map'' (CStruct [] False
        [Field ''map_fd'' c__u32]),
      Field ''cgroup'' (CStruct [] False
        [Field ''order'' enum_bpf_cgroup_iter_order,
         Field ''cgroup_fd'' c__u32,
         Field ''cgroup_id'' c__u64]),
      Field ''task'' (CStruct [] False
        [Field ''tid'' c__u32,
         Field ''pid'' c__u32,
         Field ''pid_fd'' c__u32])]"

section \<open>Sizes and alignments\<close>

lemma struct_btf_header_layout [layout_simps]:
  "sizeof struct_btf_header = 24 \<and> alignof struct_btf_header = 4 \<and> wf_cty struct_btf_header"
  by (simp add: struct_btf_header_def base_types layout_eval c__u16_def c__u8_def c__u32_def
      del: One_nat_def)

lemma struct_btf_layout [layout_simps]:
  "sizeof struct_btf = 232 \<and> alignof struct_btf = 8 \<and> wf_cty struct_btf"
  by (simp add: struct_btf_def base_types layout_eval struct_btf_header_layout u32_def c__u32_def refcount_t_def
      struct_refcount_struct_layout struct_callback_head_layout bool_def
      del: One_nat_def)

lemma struct_btf_mod_pair_layout [layout_simps]:
  "sizeof struct_btf_mod_pair = 16 \<and> alignof struct_btf_mod_pair = 8 \<and> wf_cty struct_btf_mod_pair"
  by (simp add: struct_btf_mod_pair_def base_types layout_eval
      del: One_nat_def)

lemma struct_bpf_verifier_log_layout [layout_simps]:
  "sizeof struct_bpf_verifier_log = 1064 \<and> alignof struct_bpf_verifier_log = 8 \<and> wf_cty struct_bpf_verifier_log"
  by (simp add: struct_bpf_verifier_log_def base_types layout_eval u64_def c__u64_def u32_def c__u32_def
      del: One_nat_def)

lemma enum_priv_stack_mode_layout [layout_simps]:
  "sizeof enum_priv_stack_mode = 4 \<and> alignof enum_priv_stack_mode = 4 \<and> wf_cty enum_priv_stack_mode"
  by (simp add: enum_priv_stack_mode_def base_types layout_eval
      del: One_nat_def)

lemma enum_bpf_arg_type_layout [layout_simps]:
  "sizeof enum_bpf_arg_type = 4 \<and> alignof enum_bpf_arg_type = 4 \<and> wf_cty enum_bpf_arg_type"
  by (simp add: enum_bpf_arg_type_def base_types layout_eval
      del: One_nat_def)

lemma struct_bpf_subprog_arg_info_layout [layout_simps]:
  "sizeof struct_bpf_subprog_arg_info = 8 \<and> alignof struct_bpf_subprog_arg_info = 4 \<and> wf_cty struct_bpf_subprog_arg_info"
  by (simp add: struct_bpf_subprog_arg_info_def base_types layout_eval enum_bpf_arg_type_layout u32_def c__u32_def
      del: One_nat_def)

lemma struct_bpf_subprog_info_layout [layout_simps]:
  "sizeof struct_bpf_subprog_info = 68 \<and> alignof struct_bpf_subprog_info = 4 \<and> wf_cty struct_bpf_subprog_info"
  by (simp add: struct_bpf_subprog_info_def base_types layout_eval u32_def c__u32_def u16_def c__u16_def s16_def
      c__s16_def bool_def u8_def c__u8_def enum_priv_stack_mode_layout struct_bpf_subprog_arg_info_layout
      del: One_nat_def)

lemma struct_bpf_id_pair_layout [layout_simps]:
  "sizeof struct_bpf_id_pair = 8 \<and> alignof struct_bpf_id_pair = 4 \<and> wf_cty struct_bpf_id_pair"
  by (simp add: struct_bpf_id_pair_def base_types layout_eval u32_def c__u32_def
      del: One_nat_def)

lemma struct_bpf_idmap_layout [layout_simps]:
  "sizeof struct_bpf_idmap = 4808 \<and> alignof struct_bpf_idmap = 4 \<and> wf_cty struct_bpf_idmap"
  by (simp add: struct_bpf_idmap_def base_types layout_eval u32_def c__u32_def struct_bpf_id_pair_layout
      del: One_nat_def)

lemma struct_bpf_idset_layout [layout_simps]:
  "sizeof struct_bpf_idset = 4804 \<and> alignof struct_bpf_idset = 4 \<and> wf_cty struct_bpf_idset"
  by (simp add: struct_bpf_idset_def base_types layout_eval u32_def c__u32_def
      del: One_nat_def)

lemma struct_backtrack_state_layout [layout_simps]:
  "sizeof struct_backtrack_state = 112 \<and> alignof struct_backtrack_state = 8 \<and> wf_cty struct_backtrack_state"
  by (simp add: struct_backtrack_state_def base_types layout_eval u32_def c__u32_def u64_def c__u64_def
      del: One_nat_def)

lemma sockptr_t_layout [layout_simps]:
  "sizeof sockptr_t = 16 \<and> alignof sockptr_t = 8 \<and> wf_cty sockptr_t"
  by (simp add: sockptr_t_def base_types layout_eval bool_def
      del: One_nat_def)

lemma enum_bpf_reg_type_layout [layout_simps]:
  "sizeof enum_bpf_reg_type = 4 \<and> alignof enum_bpf_reg_type = 4 \<and> wf_cty enum_bpf_reg_type"
  by (simp add: enum_bpf_reg_type_def base_types layout_eval
      del: One_nat_def)

lemma enum_bpf_dynptr_type_layout [layout_simps]:
  "sizeof enum_bpf_dynptr_type = 4 \<and> alignof enum_bpf_dynptr_type = 4 \<and> wf_cty enum_bpf_dynptr_type"
  by (simp add: enum_bpf_dynptr_type_def base_types layout_eval
      del: One_nat_def)

lemma enum_bpf_iter_state_layout [layout_simps]:
  "sizeof enum_bpf_iter_state = 4 \<and> alignof enum_bpf_iter_state = 4 \<and> wf_cty enum_bpf_iter_state"
  by (simp add: enum_bpf_iter_state_def base_types layout_eval
      del: One_nat_def)

lemma struct_tnum_layout [layout_simps]:
  "sizeof struct_tnum = 16 \<and> alignof struct_tnum = 8 \<and> wf_cty struct_tnum"
  by (simp add: struct_tnum_def base_types layout_eval u64_def c__u64_def
      del: One_nat_def)

lemma struct_bpf_reg_state_layout [layout_simps]:
  "sizeof struct_bpf_reg_state = 112 \<and> alignof struct_bpf_reg_state = 8 \<and> wf_cty struct_bpf_reg_state"
  by (simp add: struct_bpf_reg_state_def base_types layout_eval enum_bpf_reg_type_layout s32_def c__s32_def u32_def
      c__u32_def enum_bpf_dynptr_type_layout bool_def enum_bpf_iter_state_layout struct_tnum_layout
      s64_def c__s64_def u64_def c__u64_def enum_bpf_iter_state_def
      del: One_nat_def)

lemma struct_bpf_scc_callchain_layout [layout_simps]:
  "sizeof struct_bpf_scc_callchain = 32 \<and> alignof struct_bpf_scc_callchain = 4 \<and> wf_cty struct_bpf_scc_callchain"
  by (simp add: struct_bpf_scc_callchain_def base_types layout_eval u32_def c__u32_def
      del: One_nat_def)

lemma struct_bpf_verifier_env_layout [layout_simps]:
  "sizeof struct_bpf_verifier_env = 26984 \<and> alignof struct_bpf_verifier_env = 8 \<and> wf_cty struct_bpf_verifier_env"
  by (simp add: struct_bpf_verifier_env_def base_types layout_eval u32_def c__u32_def bool_def struct_list_head_layout
      struct_btf_mod_pair_layout struct_bpf_verifier_log_layout struct_bpf_subprog_info_layout
      struct_bpf_idmap_layout struct_bpf_idset_layout struct_backtrack_state_layout u64_def c__u64_def
      bpfptr_t_def sockptr_t_layout struct_bpf_reg_state_layout struct_bpf_insn_layout
      struct_bpf_scc_callchain_layout
      del: One_nat_def)

lemma enum_bpf_return_type_layout [layout_simps]:
  "sizeof enum_bpf_return_type = 4 \<and> alignof enum_bpf_return_type = 4 \<and> wf_cty enum_bpf_return_type"
  by (simp add: enum_bpf_return_type_def base_types layout_eval
      del: One_nat_def)

lemma struct_bpf_func_proto_layout [layout_simps]:
  "sizeof struct_bpf_func_proto = 96 \<and> alignof struct_bpf_func_proto = 8 \<and> wf_cty struct_bpf_func_proto"
  by (simp add: struct_bpf_func_proto_def base_types layout_eval bool_def enum_bpf_return_type_layout
      enum_bpf_arg_type_layout size_t_def c__kernel_size_t_def c__kernel_ulong_t_def
      del: One_nat_def)

lemma struct_bpf_map_ops_layout [layout_simps]:
  "sizeof struct_bpf_map_ops = 352 \<and> alignof struct_bpf_map_ops = 8 \<and> wf_cty struct_bpf_map_ops"
  by (simp add: struct_bpf_map_ops_def base_types layout_eval
      del: One_nat_def)

lemma struct_bpf_prog_ops_layout [layout_simps]:
  "sizeof struct_bpf_prog_ops = 8 \<and> alignof struct_bpf_prog_ops = 8 \<and> wf_cty struct_bpf_prog_ops"
  by (simp add: struct_bpf_prog_ops_def base_types layout_eval
      del: One_nat_def)

lemma struct_bpf_verifier_ops_layout [layout_simps]:
  "sizeof struct_bpf_verifier_ops = 56 \<and> alignof struct_bpf_verifier_ops = 8 \<and> wf_cty struct_bpf_verifier_ops"
  by (simp add: struct_bpf_verifier_ops_def base_types layout_eval
      del: One_nat_def)

lemma struct_bpf_link_ops_layout [layout_simps]:
  "sizeof struct_bpf_link_ops = 72 \<and> alignof struct_bpf_link_ops = 8 \<and> wf_cty struct_bpf_link_ops"
  by (simp add: struct_bpf_link_ops_def base_types layout_eval
      del: One_nat_def)

lemma struct_bpf_link_info_layout [layout_simps]:
  "sizeof struct_bpf_link_info = 64 \<and> alignof struct_bpf_link_info = 8 \<and> wf_cty struct_bpf_link_info"
  by (simp add: struct_bpf_link_info_def base_types layout_eval c__u32_def c__u64_def c__s32_def
      del: One_nat_def)

lemma struct_bpf_prog_info_layout [layout_simps]:
  "sizeof struct_bpf_prog_info = 232 \<and> alignof struct_bpf_prog_info = 8 \<and> wf_cty struct_bpf_prog_info"
  by (simp add: struct_bpf_prog_info_def base_types layout_eval c__u32_def c__u8_def c__u64_def
      del: One_nat_def)

lemma struct_bpf_map_info_layout [layout_simps]:
  "sizeof struct_bpf_map_info = 104 \<and> alignof struct_bpf_map_info = 8 \<and> wf_cty struct_bpf_map_info"
  by (simp add: struct_bpf_map_info_def base_types layout_eval c__u32_def c__u64_def
      del: One_nat_def)

lemma struct_bpf_btf_info_layout [layout_simps]:
  "sizeof struct_bpf_btf_info = 32 \<and> alignof struct_bpf_btf_info = 8 \<and> wf_cty struct_bpf_btf_info"
  by (simp add: struct_bpf_btf_info_def base_types layout_eval c__u64_def c__u32_def
      del: One_nat_def)

lemma struct_bpf_dispatcher_prog_layout [layout_simps]:
  "sizeof struct_bpf_dispatcher_prog = 16 \<and> alignof struct_bpf_dispatcher_prog = 8 \<and> wf_cty struct_bpf_dispatcher_prog"
  by (simp add: struct_bpf_dispatcher_prog_def base_types layout_eval refcount_t_def struct_refcount_struct_layout
      del: One_nat_def)

lemma struct_bpf_dispatcher_layout [layout_simps]:
  "sizeof struct_bpf_dispatcher = 1464 \<and> alignof struct_bpf_dispatcher = 8 \<and> wf_cty struct_bpf_dispatcher"
  by (simp add: struct_bpf_dispatcher_def base_types layout_eval struct_mutex_layout struct_bpf_dispatcher_prog_layout
      u32_def c__u32_def struct_bpf_ksym_layout
      del: One_nat_def)

lemma struct_bpf_tramp_image_layout [layout_simps]:
  "sizeof struct_bpf_tramp_image = 688 \<and> alignof struct_bpf_tramp_image = 8 \<and> wf_cty struct_bpf_tramp_image"
  by (simp add: struct_bpf_tramp_image_def base_types layout_eval struct_bpf_ksym_layout struct_percpu_ref_layout
      struct_callback_head_layout struct_work_struct_layout
      del: One_nat_def)

lemma struct_bpf_run_ctx_layout [layout_simps]:
  "sizeof struct_bpf_run_ctx = 0 \<and> alignof struct_bpf_run_ctx = 1 \<and> wf_cty struct_bpf_run_ctx"
  by (simp add: struct_bpf_run_ctx_def base_types layout_eval
      del: One_nat_def)

lemma struct_bpf_tramp_run_ctx_layout [layout_simps]:
  "sizeof struct_bpf_tramp_run_ctx = 16 \<and> alignof struct_bpf_tramp_run_ctx = 8 \<and> wf_cty struct_bpf_tramp_run_ctx"
  by (simp add: struct_bpf_tramp_run_ctx_def base_types layout_eval struct_bpf_run_ctx_layout u64_def c__u64_def
      del: One_nat_def)

lemma struct_bpf_map_ptr_state_layout [layout_simps]:
  "sizeof struct_bpf_map_ptr_state = 16 \<and> alignof struct_bpf_map_ptr_state = 8 \<and> wf_cty struct_bpf_map_ptr_state"
  by (simp add: struct_bpf_map_ptr_state_def base_types layout_eval bool_def
      del: One_nat_def)

lemma struct_bpf_loop_inline_state_layout [layout_simps]:
  "sizeof struct_bpf_loop_inline_state = 8 \<and> alignof struct_bpf_loop_inline_state = 4 \<and> wf_cty struct_bpf_loop_inline_state"
  by (simp add: struct_bpf_loop_inline_state_def base_types layout_eval u32_def c__u32_def
      del: One_nat_def)

lemma struct_bpf_insn_aux_data_layout [layout_simps]:
  "sizeof struct_bpf_insn_aux_data = 96 \<and> alignof struct_bpf_insn_aux_data = 8 \<and> wf_cty struct_bpf_insn_aux_data"
  by (simp add: struct_bpf_insn_aux_data_def base_types layout_eval enum_bpf_reg_type_layout
      struct_bpf_map_ptr_state_layout s32_def c__s32_def u32_def c__u32_def
      struct_bpf_loop_inline_state_layout u64_def c__u64_def bool_def u8_def c__u8_def u16_def c__u16_def
      del: One_nat_def)

lemma struct_bpf_retval_range_layout [layout_simps]:
  "sizeof struct_bpf_retval_range = 8 \<and> alignof struct_bpf_retval_range = 4 \<and> wf_cty struct_bpf_retval_range"
  by (simp add: struct_bpf_retval_range_def base_types layout_eval s32_def c__s32_def
      del: One_nat_def)

lemma struct_bpf_func_state_layout [layout_simps]:
  "sizeof struct_bpf_func_state = 1280 \<and> alignof struct_bpf_func_state = 8 \<and> wf_cty struct_bpf_func_state"
  by (simp add: struct_bpf_func_state_def base_types layout_eval struct_bpf_reg_state_layout u32_def c__u32_def
      struct_bpf_retval_range_layout bool_def
      del: One_nat_def)

lemma struct_bpf_cgroup_storage_key_layout [layout_simps]:
  "sizeof struct_bpf_cgroup_storage_key = 16 \<and> alignof struct_bpf_cgroup_storage_key = 8 \<and> wf_cty struct_bpf_cgroup_storage_key"
  by (simp add: struct_bpf_cgroup_storage_key_def base_types layout_eval c__u64_def c__u32_def
      del: One_nat_def)

lemma struct_bpf_cgroup_storage_layout [layout_simps]:
  "sizeof struct_bpf_cgroup_storage = 104 \<and> alignof struct_bpf_cgroup_storage = 8 \<and> wf_cty struct_bpf_cgroup_storage"
  by (simp add: struct_bpf_cgroup_storage_def base_types layout_eval struct_bpf_cgroup_storage_key_layout
      struct_list_head_layout struct_rb_node_layout struct_callback_head_layout
      del: One_nat_def)

lemma struct_bpf_storage_buffer_layout [layout_simps]:
  "sizeof struct_bpf_storage_buffer = 16 \<and> alignof struct_bpf_storage_buffer = 8 \<and> wf_cty struct_bpf_storage_buffer"
  by (simp add: struct_bpf_storage_buffer_def base_types layout_eval struct_callback_head_layout
      del: One_nat_def)

lemma struct_bpf_local_storage_layout [layout_simps]:
  "sizeof struct_bpf_local_storage = 184 \<and> alignof struct_bpf_local_storage = 8 \<and> wf_cty struct_bpf_local_storage"
  by (simp add: struct_bpf_local_storage_def base_types layout_eval struct_hlist_head_layout struct_callback_head_layout
      rqspinlock_t_def struct_qspinlock_layout u64_def c__u64_def refcount_t_def
      struct_refcount_struct_layout bool_def
      del: One_nat_def)

lemma struct_bpf_offload_dev_layout [layout_simps]:
  "sizeof struct_bpf_offload_dev = 32 \<and> alignof struct_bpf_offload_dev = 8 \<and> wf_cty struct_bpf_offload_dev"
  by (simp add: struct_bpf_offload_dev_def base_types layout_eval struct_list_head_layout
      del: One_nat_def)

lemma struct_bpf_perf_event_data_layout [layout_simps]:
  "sizeof struct_bpf_perf_event_data = 184 \<and> alignof struct_bpf_perf_event_data = 8 \<and> wf_cty struct_bpf_perf_event_data"
  by (simp add: struct_bpf_perf_event_data_def base_types layout_eval bpf_user_pt_regs_t_def struct_pt_regs_layout
      c__u64_def
      del: One_nat_def)

lemma struct_bpf_raw_tracepoint_args_layout [layout_simps]:
  "sizeof struct_bpf_raw_tracepoint_args = 0 \<and> alignof struct_bpf_raw_tracepoint_args = 8 \<and> wf_cty struct_bpf_raw_tracepoint_args"
  by (simp add: struct_bpf_raw_tracepoint_args_def base_types layout_eval c__u64_def
      del: One_nat_def)

lemma struct_bpf_iter_num_layout [layout_simps]:
  "sizeof struct_bpf_iter_num = 8 \<and> alignof struct_bpf_iter_num = 8 \<and> wf_cty struct_bpf_iter_num"
  by (simp add: struct_bpf_iter_num_def base_types layout_eval c__u64_def
      del: One_nat_def)

lemma struct_bpf_stack_state_layout [layout_simps]:
  "sizeof struct_bpf_stack_state = 120 \<and> alignof struct_bpf_stack_state = 8 \<and> wf_cty struct_bpf_stack_state"
  by (simp add: struct_bpf_stack_state_def base_types layout_eval struct_bpf_reg_state_layout u8_def c__u8_def
      del: One_nat_def)

lemma struct_bpf_timer_layout [layout_simps]:
  "sizeof struct_bpf_timer = 16 \<and> alignof struct_bpf_timer = 8 \<and> wf_cty struct_bpf_timer"
  by (simp add: struct_bpf_timer_def base_types layout_eval c__u64_def
      del: One_nat_def)

lemma struct_bpf_spin_lock_layout [layout_simps]:
  "sizeof struct_bpf_spin_lock = 4 \<and> alignof struct_bpf_spin_lock = 4 \<and> wf_cty struct_bpf_spin_lock"
  by (simp add: struct_bpf_spin_lock_def base_types layout_eval c__u32_def
      del: One_nat_def)

lemma struct_bpf_dynptr_layout [layout_simps]:
  "sizeof struct_bpf_dynptr = 16 \<and> alignof struct_bpf_dynptr = 8 \<and> wf_cty struct_bpf_dynptr"
  by (simp add: struct_bpf_dynptr_def base_types layout_eval c__u64_def
      del: One_nat_def)

lemma struct_bpf_list_head_layout [layout_simps]:
  "sizeof struct_bpf_list_head = 16 \<and> alignof struct_bpf_list_head = 8 \<and> wf_cty struct_bpf_list_head"
  by (simp add: struct_bpf_list_head_def base_types layout_eval c__u64_def
      del: One_nat_def)

lemma struct_bpf_rb_root_layout [layout_simps]:
  "sizeof struct_bpf_rb_root = 16 \<and> alignof struct_bpf_rb_root = 8 \<and> wf_cty struct_bpf_rb_root"
  by (simp add: struct_bpf_rb_root_def base_types layout_eval c__u64_def
      del: One_nat_def)

lemma struct_bpf_wq_layout [layout_simps]:
  "sizeof struct_bpf_wq = 16 \<and> alignof struct_bpf_wq = 8 \<and> wf_cty struct_bpf_wq"
  by (simp add: struct_bpf_wq_def base_types layout_eval c__u64_def
      del: One_nat_def)

lemma struct_range_tree_layout [layout_simps]:
  "sizeof struct_range_tree = 32 \<and> alignof struct_range_tree = 8 \<and> wf_cty struct_range_tree"
  by (simp add: struct_range_tree_def base_types layout_eval struct_rb_root_cached_layout
      del: One_nat_def)

lemma struct_bpf_arena_layout [layout_simps]:
  "sizeof struct_bpf_arena = 472 \<and> alignof struct_bpf_arena = 8 \<and> wf_cty struct_bpf_arena"
  by (simp add: struct_bpf_arena_def base_types layout_eval struct_bpf_map_layout u64_def c__u64_def
      struct_range_tree_layout rqspinlock_t_def struct_qspinlock_layout struct_list_head_layout
      struct_mutex_layout struct_irq_work_layout struct_work_struct_layout struct_llist_head_layout
      del: One_nat_def)

lemma struct_ftrace_ops_hash_layout [layout_simps]:
  "sizeof struct_ftrace_ops_hash = 48 \<and> alignof struct_ftrace_ops_hash = 8 \<and> wf_cty struct_ftrace_ops_hash"
  by (simp add: struct_ftrace_ops_hash_def base_types layout_eval struct_mutex_layout
      del: One_nat_def)

lemma struct_ftrace_ops_layout [layout_simps]:
  "sizeof struct_ftrace_ops = 216 \<and> alignof struct_ftrace_ops = 8 \<and> wf_cty struct_ftrace_ops"
  by (simp add: struct_ftrace_ops_def base_types layout_eval ftrace_func_t_def struct_ftrace_ops_hash_layout
      struct_list_head_layout ftrace_ops_func_t_def
      del: One_nat_def)

lemma struct_ftrace_regs_layout [layout_simps]:
  "sizeof struct_ftrace_regs = 0 \<and> alignof struct_ftrace_regs = 1 \<and> wf_cty struct_ftrace_regs"
  by (simp add: struct_ftrace_regs_def base_types layout_eval
      del: One_nat_def)

lemma struct_trace_event_layout [layout_simps]:
  "sizeof struct_trace_event = 32 \<and> alignof struct_trace_event = 8 \<and> wf_cty struct_trace_event"
  by (simp add: struct_trace_event_def base_types layout_eval struct_hlist_node_layout
      del: One_nat_def)

lemma struct_trace_event_call_layout [layout_simps]:
  "sizeof struct_trace_event_call = 120 \<and> alignof struct_trace_event_call = 8 \<and> wf_cty struct_trace_event_call"
  by (simp add: struct_trace_event_call_def base_types layout_eval struct_list_head_layout struct_trace_event_layout
      atomic_t_layout
      del: One_nat_def)

lemma enum_perf_event_state_layout [layout_simps]:
  "sizeof enum_perf_event_state = 4 \<and> alignof enum_perf_event_state = 4 \<and> wf_cty enum_perf_event_state"
  by (simp add: enum_perf_event_state_def base_types layout_eval
      del: One_nat_def)

lemma local_t_layout [layout_simps]:
  "sizeof local_t = 8 \<and> alignof local_t = 8 \<and> wf_cty local_t"
  by (simp add: local_t_def base_types layout_eval atomic_long_t_def atomic64_t_layout
      del: One_nat_def)

lemma local64_t_layout [layout_simps]:
  "sizeof local64_t = 8 \<and> alignof local64_t = 8 \<and> wf_cty local64_t"
  by (simp add: local64_t_def base_types layout_eval local_t_layout
      del: One_nat_def)

lemma struct_perf_event_attr_layout [layout_simps]:
  "sizeof struct_perf_event_attr = 144 \<and> alignof struct_perf_event_attr = 8 \<and> wf_cty struct_perf_event_attr"
  by (simp add: struct_perf_event_attr_def base_types layout_eval c__u32_def c__u64_def c__s32_def c__u16_def
      del: One_nat_def)

lemma struct_hw_perf_event_extra_layout [layout_simps]:
  "sizeof struct_hw_perf_event_extra = 24 \<and> alignof struct_hw_perf_event_extra = 8 \<and> wf_cty struct_hw_perf_event_extra"
  by (simp add: struct_hw_perf_event_extra_def base_types layout_eval u64_def c__u64_def
      del: One_nat_def)

lemma struct_arch_hw_breakpoint_layout [layout_simps]:
  "sizeof struct_arch_hw_breakpoint = 24 \<and> alignof struct_arch_hw_breakpoint = 8 \<and> wf_cty struct_arch_hw_breakpoint"
  by (simp add: struct_arch_hw_breakpoint_def base_types layout_eval u8_def c__u8_def
      del: One_nat_def)

lemma struct_rhlist_head_layout [layout_simps]:
  "sizeof struct_rhlist_head = 16 \<and> alignof struct_rhlist_head = 8 \<and> wf_cty struct_rhlist_head"
  by (simp add: struct_rhlist_head_def base_types layout_eval struct_rhash_head_layout
      del: One_nat_def)

lemma struct_hw_perf_event_layout [layout_simps]:
  "sizeof struct_hw_perf_event = 208 \<and> alignof struct_hw_perf_event = 8 \<and> wf_cty struct_hw_perf_event"
  by (simp add: struct_hw_perf_event_def base_types layout_eval u64_def c__u64_def struct_hw_perf_event_extra_layout
      struct_hrtimer_layout struct_list_head_layout struct_arch_hw_breakpoint_layout
      struct_rhlist_head_layout u8_def c__u8_def u16_def c__u16_def local64_t_layout
      del: One_nat_def)

lemma struct_perf_addr_filters_head_layout [layout_simps]:
  "sizeof struct_perf_addr_filters_head = 24 \<and> alignof struct_perf_addr_filters_head = 8 \<and> wf_cty struct_perf_addr_filters_head"
  by (simp add: struct_perf_addr_filters_head_def base_types layout_eval struct_list_head_layout raw_spinlock_t_def
      struct_raw_spinlock_layout
      del: One_nat_def)

lemma struct_perf_event_layout [layout_simps]:
  "sizeof struct_perf_event = 1352 \<and> alignof struct_perf_event = 8 \<and> wf_cty struct_perf_event"
  by (simp add: struct_perf_event_def base_types layout_eval struct_list_head_layout struct_rb_node_layout u64_def
      c__u64_def struct_hlist_node_layout enum_perf_event_state_layout local64_t_layout atomic64_t_layout
      struct_perf_event_attr_layout u16_def c__u16_def struct_hw_perf_event_layout atomic_long_t_def
      struct_mutex_layout refcount_t_def struct_refcount_struct_layout wait_queue_head_t_def
      struct_wait_queue_head_layout struct_irq_work_layout struct_callback_head_layout atomic_t_layout
      struct_perf_addr_filters_head_layout perf_overflow_handler_t_def struct_ftrace_ops_layout u32_def
      c__u32_def
      del: One_nat_def)

lemma struct_bpf_trace_run_ctx_layout [layout_simps]:
  "sizeof struct_bpf_trace_run_ctx = 16 \<and> alignof struct_bpf_trace_run_ctx = 8 \<and> wf_cty struct_bpf_trace_run_ctx"
  by (simp add: struct_bpf_trace_run_ctx_def base_types layout_eval struct_bpf_run_ctx_layout u64_def c__u64_def bool_def
      del: One_nat_def)

lemma union_bpf_attr_layout [layout_simps]:
  "sizeof union_bpf_attr = 168 \<and> alignof union_bpf_attr = 8 \<and> wf_cty union_bpf_attr"
  by (simp add: union_bpf_attr_def base_types layout_eval c__u32_def c__u64_def c__s32_def
      del: One_nat_def)

lemma enum_bpf_cgroup_iter_order_layout [layout_simps]:
  "sizeof enum_bpf_cgroup_iter_order = 4 \<and> alignof enum_bpf_cgroup_iter_order = 4 \<and> wf_cty enum_bpf_cgroup_iter_order"
  by (simp add: enum_bpf_cgroup_iter_order_def base_types layout_eval
      del: One_nat_def)

lemma union_bpf_iter_link_info_layout [layout_simps]:
  "sizeof union_bpf_iter_link_info = 16 \<and> alignof union_bpf_iter_link_info = 8 \<and> wf_cty union_bpf_iter_link_info"
  by (simp add: union_bpf_iter_link_info_def base_types layout_eval c__u32_def enum_bpf_cgroup_iter_order_layout
      c__u64_def
      del: One_nat_def)

end
