(* ===== verification/KernelTaskRefs1.thy ===== *)
theory KernelTaskRefs1
  imports KernelFsRefs KernelKms KernelVerifier
begin

text \<open>
  Types of \<^verbatim>\<open>bpf/vmlinux.h\<close> that the objects of \<open>KernelTask\<close> (tasks, signals and credentials) point to, one
  dereference away, with every type they hold by value.
\<close>

section \<open>Types\<close>

definition c__kernel_time64_t :: cty where [layout_simps]:
  "c__kernel_time64_t = long_long_int"

definition struct___kernel_timespec :: cty where
  "struct___kernel_timespec = CStruct ''__kernel_timespec'' False
     [Field ''tv_sec'' c__kernel_time64_t,
      Field ''tv_nsec'' long_long_int]"

definition enum_audit_state :: cty where
  "enum_audit_state = CEnum 4
     [(''AUDIT_STATE_DISABLED'', 0), (''AUDIT_STATE_BUILD'', 1), (''AUDIT_STATE_RECORD'', 2)]"

definition struct_audit_stamp :: cty where
  "struct_audit_stamp = CStruct ''audit_stamp'' False
     [Field ''ctime'' struct_timespec64,
      Field ''serial'' unsigned_int]"

definition struct_lsm_prop_selinux :: cty where
  "struct_lsm_prop_selinux = CStruct ''lsm_prop_selinux'' False
     [Field ''secid'' u32]"

definition struct_lsm_prop_smack :: cty where
  "struct_lsm_prop_smack = CStruct ''lsm_prop_smack'' False
     [Field ''skp'' (CPtr ''struct smack_known'')]"

definition struct_lsm_prop_apparmor :: cty where
  "struct_lsm_prop_apparmor = CStruct ''lsm_prop_apparmor'' False
     [Field ''label'' (CPtr ''struct aa_label'')]"

definition struct_lsm_prop_bpf :: cty where
  "struct_lsm_prop_bpf = CStruct ''lsm_prop_bpf'' False
     [Field ''secid'' u32]"

definition struct_lsm_prop :: cty where
  "struct_lsm_prop = CStruct ''lsm_prop'' False
     [Field ''selinux'' struct_lsm_prop_selinux,
      Field ''smack'' struct_lsm_prop_smack,
      Field ''apparmor'' struct_lsm_prop_apparmor,
      Field ''bpf'' struct_lsm_prop_bpf]"

definition struct_audit_cap_data :: cty where
  "struct_audit_cap_data = CStruct ''audit_cap_data'' False
     [Field ''permitted'' kernel_cap_t,
      Field ''inheritable'' kernel_cap_t,
      Field [] (CUnion [] False
        [Field ''fE'' unsigned_int,
         Field ''effective'' kernel_cap_t]),
      Field ''ambient'' kernel_cap_t,
      Field ''rootid'' kuid_t]"

definition struct_audit_names :: cty where
  "struct_audit_names = CStruct ''audit_names'' False
     [Field ''list'' struct_list_head,
      Field ''name'' (CPtr ''struct filename''),
      Field ''name_len'' c_int,
      Field ''hidden'' bool,
      Field ''ino'' long_unsigned_int,
      Field ''dev'' dev_t,
      Field ''mode'' umode_t,
      Field ''uid'' kuid_t,
      Field ''gid'' kgid_t,
      Field ''rdev'' dev_t,
      Field ''oprop'' struct_lsm_prop,
      Field ''fcap'' struct_audit_cap_data,
      Field ''fcap_ver'' unsigned_int,
      Field ''type'' unsigned_char,
      Field ''should_free'' bool]"

definition c__kernel_mqd_t :: cty where [layout_simps]:
  "c__kernel_mqd_t = c_int"

definition mqd_t :: cty where [layout_simps]:
  "mqd_t = c__kernel_mqd_t"

definition struct_mq_attr :: cty where
  "struct_mq_attr = CStruct ''mq_attr'' False
     [Field ''mq_flags'' c__kernel_long_t,
      Field ''mq_maxmsg'' c__kernel_long_t,
      Field ''mq_msgsize'' c__kernel_long_t,
      Field ''mq_curmsgs'' c__kernel_long_t,
      Field ''__reserved'' (CArr 4 c__kernel_long_t)]"

definition struct_open_how :: cty where
  "struct_open_how = CStruct ''open_how'' False
     [Field ''flags'' c__u64,
      Field ''mode'' c__u64,
      Field ''resolve'' c__u64]"

definition struct_audit_ntp_val :: cty where
  "struct_audit_ntp_val = CStruct ''audit_ntp_val'' False
     [Field ''oldval'' long_long_int,
      Field ''newval'' long_long_int]"

definition struct_audit_ntp_data :: cty where
  "struct_audit_ntp_data = CStruct ''audit_ntp_data'' False
     [Field ''vals'' (CArr 6 struct_audit_ntp_val)]"

definition struct_audit_proctitle :: cty where
  "struct_audit_proctitle = CStruct ''audit_proctitle'' False
     [Field ''len'' c_int,
      Field ''value'' (CPtr ''char'')]"

definition struct_audit_context :: cty where
  "struct_audit_context = CStruct ''audit_context'' False
     [Field ''dummy'' c_int,
      Field ''context'' (CEnum 4 [(''AUDIT_CTX_UNUSED'', 0), (''AUDIT_CTX_SYSCALL'', 1), (''AUDIT_CTX_URING'', 2)]),
      Field ''state'' enum_audit_state,
      Field ''current_state'' enum_audit_state,
      Field ''stamp'' struct_audit_stamp,
      Field ''major'' c_int,
      Field ''uring_op'' c_int,
      Field ''argv'' (CArr 4 long_unsigned_int),
      Field ''return_code'' c_long,
      Field ''prio'' u64,
      Field ''return_valid'' c_int,
      Field ''preallocated_names'' (CArr 5 struct_audit_names),
      Field ''name_count'' c_int,
      Field ''names_list'' struct_list_head,
      Field ''filterkey'' (CPtr ''char''),
      Field ''pwd'' struct_path,
      Field ''aux'' (CPtr ''struct audit_aux_data''),
      Field ''aux_pids'' (CPtr ''struct audit_aux_data''),
      Field ''sockaddr'' (CPtr ''struct __kernel_sockaddr_storage''),
      Field ''sockaddr_len'' size_t,
      Field ''ppid'' pid_t,
      Field ''uid'' kuid_t,
      Field ''euid'' kuid_t,
      Field ''suid'' kuid_t,
      Field ''fsuid'' kuid_t,
      Field ''gid'' kgid_t,
      Field ''egid'' kgid_t,
      Field ''sgid'' kgid_t,
      Field ''fsgid'' kgid_t,
      Field ''personality'' long_unsigned_int,
      Field ''arch'' c_int,
      Field ''target_pid'' pid_t,
      Field ''target_auid'' kuid_t,
      Field ''target_uid'' kuid_t,
      Field ''target_sessionid'' unsigned_int,
      Field ''target_ref'' struct_lsm_prop,
      Field ''target_comm'' (CArr 16 c_char),
      Field ''trees'' (CPtr ''struct audit_tree_refs''),
      Field ''first_trees'' (CPtr ''struct audit_tree_refs''),
      Field ''killed_trees'' struct_list_head,
      Field ''tree_count'' c_int,
      Field ''type'' c_int,
      Field [] (CUnion [] False
        [Field ''socketcall'' (CStruct [] False
           [Field ''nargs'' c_int,
            Field ''args'' (CArr 6 c_long)]),
         Field ''ipc'' (CStruct [] False
           [Field ''uid'' kuid_t,
            Field ''gid'' kgid_t,
            Field ''mode'' umode_t,
            Field ''oprop'' struct_lsm_prop,
            Field ''has_perm'' c_int,
            Field ''perm_uid'' uid_t,
            Field ''perm_gid'' gid_t,
            Field ''perm_mode'' umode_t,
            Field ''qbytes'' long_unsigned_int]),
         Field ''mq_getsetattr'' (CStruct [] False
           [Field ''mqdes'' mqd_t,
            Field ''mqstat'' struct_mq_attr]),
         Field ''mq_notify'' (CStruct [] False
           [Field ''mqdes'' mqd_t,
            Field ''sigev_signo'' c_int]),
         Field ''mq_sendrecv'' (CStruct [] False
           [Field ''mqdes'' mqd_t,
            Field ''msg_len'' size_t,
            Field ''msg_prio'' unsigned_int,
            Field ''abs_timeout'' struct_timespec64]),
         Field ''mq_open'' (CStruct [] False
           [Field ''oflag'' c_int,
            Field ''mode'' umode_t,
            Field ''attr'' struct_mq_attr]),
         Field ''capset'' (CStruct [] False
           [Field ''pid'' pid_t,
            Field ''cap'' struct_audit_cap_data]),
         Field ''mmap'' (CStruct [] False
           [Field ''fd'' c_int,
            Field ''flags'' c_int]),
         Field ''openat2'' struct_open_how,
         Field ''execve'' (CStruct [] False
           [Field ''argc'' c_int]),
         Field ''module'' (CStruct [] False
           [Field ''name'' (CPtr ''const char'')]),
         Field ''time'' (CStruct [] False
           [Field ''ntp_data'' struct_audit_ntp_data,
            Field ''tk_injoffset'' struct_timespec64])]),
      Field ''fds'' (CArr 2 c_int),
      Field ''proctitle'' struct_audit_proctitle]"

definition struct_autogroup :: cty where
  "struct_autogroup = CStruct ''autogroup'' False
     [Field ''kref'' struct_kref,
      Field ''tg'' (CPtr ''struct task_group''),
      Field ''lock'' struct_rw_semaphore,
      Field ''id'' long_unsigned_int,
      Field ''nice'' c_int]"

definition struct_rq_list :: cty where
  "struct_rq_list = CStruct ''rq_list'' False
     [Field ''head'' (CPtr ''struct request''),
      Field ''tail'' (CPtr ''struct request'')]"

definition struct_blk_plug :: cty where
  "struct_blk_plug = CStruct ''blk_plug'' False
     [Field ''mq_list'' struct_rq_list,
      Field ''cached_rqs'' struct_rq_list,
      Field ''cur_ktime'' u64,
      Field ''nr_ios'' short_unsigned_int,
      Field ''rq_count'' short_unsigned_int,
      Field ''multiple_queues'' bool,
      Field ''has_elevator'' bool,
      Field ''cb_list'' struct_list_head]"

definition c__be16 :: cty where [layout_simps]:
  "c__be16 = c__u16"

definition c__be32 :: cty where [layout_simps]:
  "c__be32 = c__u32"

definition struct_in6_addr :: cty where
  "struct_in6_addr = CStruct ''in6_addr'' False
     [Field ''in6_u'' (CUnion [] False
        [Field ''u6_addr8'' (CArr 16 c__u8),
         Field ''u6_addr16'' (CArr 8 c__be16),
         Field ''u6_addr32'' (CArr 4 c__be32)])]"

definition struct_bpf_nh_params :: cty where
  "struct_bpf_nh_params = CStruct ''bpf_nh_params'' False
     [Field ''nh_family'' u32,
      Field [] (CUnion [] False
        [Field ''ipv4_nh'' u32,
         Field ''ipv6_nh'' struct_in6_addr])]"

definition struct_bpf_redirect_info :: cty where
  "struct_bpf_redirect_info = CStruct ''bpf_redirect_info'' False
     [Field ''tgt_index'' u64,
      Field ''tgt_value'' (CPtr ''void''),
      Field ''map'' (CPtr ''struct bpf_map''),
      Field ''flags'' u32,
      Field ''map_id'' u32,
      Field ''map_type'' enum_bpf_map_type,
      Field ''nh'' struct_bpf_nh_params,
      Field ''kern_flags'' u32]"

definition struct_bpf_net_context :: cty where
  "struct_bpf_net_context = CStruct ''bpf_net_context'' False
     [Field ''ri'' struct_bpf_redirect_info,
      Field ''cpu_map_flush_list'' struct_list_head,
      Field ''dev_map_flush_list'' struct_list_head,
      Field ''xskmap_map_flush_list'' struct_list_head]"

definition struct_capture_control :: cty where
  "struct_capture_control = CStruct ''capture_control'' False
     [Field ''cc'' (CPtr ''struct compact_control''),
      Field ''page'' (CPtr ''struct page'')]"

definition struct_cfs_rq :: cty where
  "struct_cfs_rq = CStruct ''cfs_rq'' False
     [Field ''load'' struct_load_weight,
      Field ''nr_queued'' unsigned_int,
      Field ''h_nr_queued'' unsigned_int,
      Field ''h_nr_runnable'' unsigned_int,
      Field ''h_nr_idle'' unsigned_int,
      Field ''sum_w_vruntime'' s64,
      Field ''sum_weight'' u64,
      Field ''zero_vruntime'' u64,
      Field ''forceidle_seq'' unsigned_int,
      Field ''zero_vruntime_fi'' u64,
      Field ''tasks_timeline'' struct_rb_root_cached,
      Field ''curr'' (CPtr ''struct sched_entity''),
      Field ''next'' (CPtr ''struct sched_entity''),
      BitField [] c_long 64,
      BitField [] c_long 64,
      BitField [] c_long 64,
      Field ''avg'' struct_sched_avg,
      Field ''removed'' (CStruct [] False
        [Field ''lock'' raw_spinlock_t,
         Field ''nr'' c_int,
         Field ''load_avg'' long_unsigned_int,
         Field ''util_avg'' long_unsigned_int,
         Field ''runnable_avg'' long_unsigned_int,
         BitField [] c_long 64,
         BitField [] c_long 64,
         BitField [] c_long 64,
         BitField [] c_long 64]),
      Field ''last_update_tg_load_avg'' u64,
      Field ''tg_load_avg_contrib'' long_unsigned_int,
      Field ''propagate'' c_long,
      Field ''prop_runnable_sum'' c_long,
      Field ''h_load'' long_unsigned_int,
      Field ''last_h_load_update'' u64,
      Field ''h_load_next'' (CPtr ''struct sched_entity''),
      Field ''rq'' (CPtr ''struct rq''),
      Field ''on_list'' c_int,
      Field ''leaf_cfs_rq_list'' struct_list_head,
      Field ''tg'' (CPtr ''struct task_group''),
      Field ''idle'' c_int,
      Field ''runtime_enabled'' c_int,
      Field ''runtime_remaining'' s64,
      Field ''throttled_pelt_idle'' u64,
      Field ''throttled_clock'' u64,
      Field ''throttled_clock_pelt'' u64,
      Field ''throttled_clock_pelt_time'' u64,
      Field ''throttled_clock_self'' u64,
      Field ''throttled_clock_self_time'' u64,
      BitField ''throttled'' bool 1,
      BitField ''pelt_clock_throttled'' bool 1,
      Field ''throttle_count'' c_int,
      Field ''throttled_list'' struct_list_head,
      Field ''throttled_csd_list'' struct_list_head,
      Field ''throttled_limbo_list'' struct_list_head,
      BitField [] c_long 64,
      BitField [] c_long 64,
      BitField [] c_long 64,
      BitField [] c_long 64,
      BitField [] c_long 64]"

definition compat_uptr_t :: cty where [layout_simps]:
  "compat_uptr_t = u32"

definition struct_compat_robust_list :: cty where
  "struct_compat_robust_list = CStruct ''compat_robust_list'' False
     [Field ''next'' compat_uptr_t]"

definition compat_long_t :: cty where [layout_simps]:
  "compat_long_t = s32"

definition struct_compat_robust_list_head :: cty where
  "struct_compat_robust_list_head = CStruct ''compat_robust_list_head'' False
     [Field ''list'' struct_compat_robust_list,
      Field ''futex_offset'' compat_long_t,
      Field ''list_op_pending'' compat_uptr_t]"

definition struct_core_thread :: cty where
  "struct_core_thread = CStruct ''core_thread'' False
     [Field ''task'' (CPtr ''struct task_struct''),
      Field ''next'' (CPtr ''struct core_thread'')]"

definition struct_core_state :: cty where
  "struct_core_state = CStruct ''core_state'' False
     [Field ''nr_threads'' atomic_t,
      Field ''dumper'' struct_core_thread,
      Field ''startup'' struct_completion]"

definition struct_fdtable :: cty where
  "struct_fdtable = CStruct ''fdtable'' False
     [Field ''max_fds'' unsigned_int,
      Field ''fd'' (CPtr ''struct file *''),
      Field ''close_on_exec'' (CPtr ''long unsigned int''),
      Field ''open_fds'' (CPtr ''long unsigned int''),
      Field ''full_fds_bits'' (CPtr ''long unsigned int''),
      Field ''rcu'' struct_callback_head]"

definition struct_files_struct :: cty where
  "struct_files_struct = CStruct ''files_struct'' False
     [Field ''count'' atomic_t,
      Field ''resize_in_progress'' bool,
      Field ''resize_wait'' wait_queue_head_t,
      Field ''fdt'' (CPtr ''struct fdtable''),
      Field ''fdtab'' struct_fdtable,
      BitField [] c_long 64,
      BitField [] c_long 64,
      BitField [] c_long 64,
      BitField [] c_long 64,
      Field ''file_lock'' spinlock_t,
      Field ''next_fd'' unsigned_int,
      Field ''close_on_exec_init'' (CArr 1 long_unsigned_int),
      Field ''open_fds_init'' (CArr 1 long_unsigned_int),
      Field ''full_fds_bits_init'' (CArr 1 long_unsigned_int),
      Field ''fd_array'' (CArr 64 (CPtr ''struct file'')),
      BitField [] c_long 64,
      BitField [] c_long 64,
      BitField [] c_long 64,
      BitField [] c_long 64]"

definition struct_fs_struct :: cty where
  "struct_fs_struct = CStruct ''fs_struct'' False
     [Field ''users'' c_int,
      Field ''seq'' seqlock_t,
      Field ''umask'' c_int,
      Field ''in_exec'' c_int,
      Field ''root'' struct_path,
      Field ''pwd'' struct_path]"

definition struct_rt_mutex_base :: cty where
  "struct_rt_mutex_base = CStruct ''rt_mutex_base'' False
     [Field ''wait_lock'' raw_spinlock_t,
      Field ''waiters'' struct_rb_root_cached,
      Field ''owner'' (CPtr ''struct task_struct'')]"

definition union_futex_key :: cty where
  "union_futex_key = CUnion ''futex_key'' False
     [Field ''shared'' (CStruct [] False
        [Field ''i_seq'' u64,
         Field ''pgoff'' long_unsigned_int,
         Field ''offset'' unsigned_int]),
      Field ''private'' (CStruct [] False
        [Field [] (CUnion [] False
           [Field ''mm'' (CPtr ''struct mm_struct''),
            Field ''__tmp'' u64]),
         Field ''address'' long_unsigned_int,
         Field ''offset'' unsigned_int]),
      Field ''both'' (CStruct [] False
        [Field ''ptr'' u64,
         Field ''word'' long_unsigned_int,
         Field ''offset'' unsigned_int,
         Field ''node'' unsigned_int])]"

definition struct_futex_pi_state :: cty where
  "struct_futex_pi_state = CStruct ''futex_pi_state'' False
     [Field ''list'' struct_list_head,
      Field ''pi_mutex'' struct_rt_mutex_base,
      Field ''owner'' (CPtr ''struct task_struct''),
      Field ''refcount'' refcount_t,
      Field ''key'' union_futex_key]"

definition struct_group_info :: cty where
  "struct_group_info = CStruct ''group_info'' False
     [Field ''usage'' refcount_t,
      Field ''ngroups'' c_int,
      Field ''gid'' (CArr 0 kgid_t)]"

definition struct_seqcount_raw_spinlock :: cty where
  "struct_seqcount_raw_spinlock = CStruct ''seqcount_raw_spinlock'' False
     [Field ''seqcount'' seqcount_t]"

definition seqcount_raw_spinlock_t :: cty where [layout_simps]:
  "seqcount_raw_spinlock_t = struct_seqcount_raw_spinlock"

definition struct_hrtimer_clock_base :: cty where
  "struct_hrtimer_clock_base = CStruct ''hrtimer_clock_base'' False
     [Field ''cpu_base'' (CPtr ''struct hrtimer_cpu_base''),
      Field ''index'' unsigned_int,
      Field ''clockid'' clockid_t,
      Field ''seq'' seqcount_raw_spinlock_t,
      Field ''running'' (CPtr ''struct hrtimer''),
      Field ''active'' struct_timerqueue_head,
      Field ''offset'' ktime_t,
      BitField [] c_long 64]"

definition struct_io_bitmap :: cty where
  "struct_io_bitmap = CStruct ''io_bitmap'' False
     [Field ''sequence'' u64,
      Field ''refcnt'' refcount_t,
      Field ''max'' unsigned_int,
      Field ''bitmap'' (CArr 1024 long_unsigned_int)]"

definition struct_io_context :: cty where
  "struct_io_context = CStruct ''io_context'' False
     [Field ''refcount'' atomic_long_t,
      Field ''active_ref'' atomic_t,
      Field ''ioprio'' short_unsigned_int,
      Field ''lock'' spinlock_t,
      Field ''icq_tree'' struct_xarray,
      Field ''icq_hint'' (CPtr ''struct io_cq''),
      Field ''icq_list'' struct_hlist_head,
      Field ''release_work'' struct_work_struct]"

definition struct_io_restriction :: cty where
  "struct_io_restriction = CStruct ''io_restriction'' False
     [Field ''register_op'' (CArr 1 long_unsigned_int),
      Field ''sqe_op'' (CArr 2 long_unsigned_int),
      Field ''bpf_filters'' (CPtr ''struct io_bpf_filters''),
      Field ''bpf_filters_cow'' bool,
      Field ''sqe_flags_allowed'' u8,
      Field ''sqe_flags_required'' u8,
      Field ''op_registered'' bool,
      Field ''reg_registered'' bool]"

definition struct_io_uring_task :: cty where
  "struct_io_uring_task = CStruct ''io_uring_task'' False
     [Field ''cached_refs'' c_int,
      Field ''last'' (CPtr ''const struct io_ring_ctx''),
      Field ''task'' (CPtr ''struct task_struct''),
      Field ''io_wq'' (CPtr ''struct io_wq''),
      Field ''registered_rings'' (CArr 16 (CPtr ''struct file'')),
      Field ''xa'' struct_xarray,
      Field ''wait'' struct_wait_queue_head,
      Field ''in_cancel'' atomic_t,
      Field ''inflight_tracked'' atomic_t,
      Field ''inflight'' struct_percpu_counter,
      BitField [] c_long 64,
      Field [] (CStruct [] False
        [Field ''task_list'' struct_llist_head,
         Field ''task_work'' struct_callback_head,
         BitField [] c_long 64,
         BitField [] c_long 64,
         BitField [] c_long 64,
         BitField [] c_long 64,
         BitField [] c_long 64])]"

definition key_serial_t :: cty where [layout_simps]:
  "key_serial_t = int32_t"

definition key_perm_t :: cty where [layout_simps]:
  "key_perm_t = uint32_t"

definition struct_keyring_index_key :: cty where
  "struct_keyring_index_key = CStruct ''keyring_index_key'' False
     [Field ''hash'' long_unsigned_int,
      Field [] (CUnion [] False
        [Field [] (CStruct [] False
           [Field ''desc_len'' u16,
            Field ''desc'' (CArr 6 c_char)]),
         Field ''x'' long_unsigned_int]),
      Field ''type'' (CPtr ''struct key_type''),
      Field ''domain_tag'' (CPtr ''struct key_tag''),
      Field ''description'' (CPtr ''const char'')]"

definition union_key_payload :: cty where
  "union_key_payload = CUnion ''key_payload'' False
     [Field ''rcu_data0'' (CPtr ''void''),
      Field ''data'' (CArr 4 (CPtr ''void''))]"

definition struct_assoc_array :: cty where
  "struct_assoc_array = CStruct ''assoc_array'' False
     [Field ''root'' (CPtr ''struct assoc_array_ptr''),
      Field ''nr_leaves_on_tree'' long_unsigned_int]"

definition struct_key :: cty where
  "struct_key = CStruct ''key'' False
     [Field ''usage'' refcount_t,
      Field ''serial'' key_serial_t,
      Field [] (CUnion [] False
        [Field ''graveyard_link'' struct_list_head,
         Field ''serial_node'' struct_rb_node]),
      Field ''watchers'' (CPtr ''struct watch_list''),
      Field ''sem'' struct_rw_semaphore,
      Field ''user'' (CPtr ''struct key_user''),
      Field ''security'' (CPtr ''void''),
      Field [] (CUnion [] False
        [Field ''expiry'' time64_t,
         Field ''revoked_at'' time64_t]),
      Field ''last_used_at'' time64_t,
      Field ''uid'' kuid_t,
      Field ''gid'' kgid_t,
      Field ''perm'' key_perm_t,
      Field ''quotalen'' short_unsigned_int,
      Field ''datalen'' short_unsigned_int,
      Field ''state'' short_int,
      Field ''flags'' long_unsigned_int,
      Field [] (CUnion [] False
        [Field ''index_key'' struct_keyring_index_key,
         Field [] (CStruct [] False
           [Field ''hash'' long_unsigned_int,
            Field ''len_desc'' long_unsigned_int,
            Field ''type'' (CPtr ''struct key_type''),
            Field ''domain_tag'' (CPtr ''struct key_tag''),
            Field ''description'' (CPtr ''char'')])]),
      Field [] (CUnion [] False
        [Field ''payload'' union_key_payload,
         Field [] (CStruct [] False
           [Field ''name_link'' struct_list_head,
            Field ''keys'' struct_assoc_array])]),
      Field ''restrict_link'' (CPtr ''struct key_restriction'')]"

definition struct_mem_cgroup_private_id :: cty where
  "struct_mem_cgroup_private_id = CStruct ''mem_cgroup_private_id'' False
     [Field ''id'' c_int,
      Field ''ref'' refcount_t]"

definition struct_page_counter :: cty where
  "struct_page_counter = CStruct ''page_counter'' False
     [Field ''usage'' atomic_long_t,
      Field ''failcnt'' long_unsigned_int,
      BitField [] c_long 64,
      BitField [] c_long 64,
      BitField [] c_long 64,
      BitField [] c_long 64,
      BitField [] c_long 64,
      BitField [] c_long 64,
      Field ''_pad1_'' struct_cacheline_padding,
      Field ''emin'' long_unsigned_int,
      Field ''min_usage'' atomic_long_t,
      Field ''children_min_usage'' atomic_long_t,
      Field ''elow'' long_unsigned_int,
      Field ''low_usage'' atomic_long_t,
      Field ''children_low_usage'' atomic_long_t,
      Field ''watermark'' long_unsigned_int,
      Field ''local_watermark'' long_unsigned_int,
      Field ''_pad2_'' struct_cacheline_padding,
      Field ''protection_support'' bool,
      Field ''track_failcnt'' bool,
      Field ''min'' long_unsigned_int,
      Field ''low'' long_unsigned_int,
      Field ''high'' long_unsigned_int,
      Field ''max'' long_unsigned_int,
      Field ''parent'' (CPtr ''struct page_counter''),
      BitField [] c_long 64,
      BitField [] c_long 64]"

definition struct_vmpressure :: cty where
  "struct_vmpressure = CStruct ''vmpressure'' False
     [Field ''scanned'' long_unsigned_int,
      Field ''reclaimed'' long_unsigned_int,
      Field ''tree_scanned'' long_unsigned_int,
      Field ''tree_reclaimed'' long_unsigned_int,
      Field ''sr_lock'' spinlock_t,
      Field ''events'' struct_list_head,
      Field ''events_lock'' struct_mutex,
      Field ''work'' struct_work_struct]"

definition struct_fprop_global :: cty where
  "struct_fprop_global = CStruct ''fprop_global'' False
     [Field ''events'' struct_percpu_counter,
      Field ''period'' unsigned_int,
      Field ''sequence'' seqcount_t]"

definition struct_wb_domain :: cty where
  "struct_wb_domain = CStruct ''wb_domain'' False
     [Field ''lock'' spinlock_t,
      Field ''completions'' struct_fprop_global,
      Field ''period_timer'' struct_timer_list,
      Field ''period_time'' long_unsigned_int,
      Field ''dirty_limit_tstamp'' long_unsigned_int,
      Field ''dirty_limit'' long_unsigned_int]"

definition struct_wb_completion :: cty where
  "struct_wb_completion = CStruct ''wb_completion'' False
     [Field ''cnt'' atomic_t,
      Field ''waitq'' (CPtr ''wait_queue_head_t''),
      Field ''progress_stamp'' long_unsigned_int,
      Field ''wait_start'' long_unsigned_int]"

definition struct_memcg_cgwb_frn :: cty where
  "struct_memcg_cgwb_frn = CStruct ''memcg_cgwb_frn'' False
     [Field ''bdi_id'' u64,
      Field ''memcg_id'' c_int,
      Field ''at'' u64,
      Field ''done'' struct_wb_completion]"

definition struct_deferred_split :: cty where
  "struct_deferred_split = CStruct ''deferred_split'' False
     [Field ''split_queue_lock'' spinlock_t,
      Field ''split_queue'' struct_list_head,
      Field ''split_queue_len'' long_unsigned_int]"

definition struct_lru_gen_mm_list :: cty where
  "struct_lru_gen_mm_list = CStruct ''lru_gen_mm_list'' False
     [Field ''fifo'' struct_list_head,
      Field ''lock'' spinlock_t]"

definition struct_mem_cgroup :: cty where
  "struct_mem_cgroup = CStruct ''mem_cgroup'' False
     [Field ''css'' struct_cgroup_subsys_state,
      Field ''id'' struct_mem_cgroup_private_id,
      BitField [] c_long 64,
      BitField [] c_long 64,
      BitField [] c_long 64,
      BitField [] c_long 64,
      BitField [] c_long 64,
      Field ''memory'' struct_page_counter,
      Field [] (CUnion [] False
        [Field ''swap'' struct_page_counter,
         Field ''memsw'' struct_page_counter]),
      Field ''memory_peaks'' struct_list_head,
      Field ''swap_peaks'' struct_list_head,
      Field ''peaks_lock'' spinlock_t,
      Field ''high_work'' struct_work_struct,
      Field ''zswap_max'' long_unsigned_int,
      Field ''zswap_writeback'' bool,
      Field ''vmpressure'' struct_vmpressure,
      Field ''oom_group'' bool,
      Field ''swappiness'' c_int,
      Field ''events_file'' struct_cgroup_file,
      Field ''events_local_file'' struct_cgroup_file,
      Field ''swap_events_file'' struct_cgroup_file,
      Field ''vmstats'' (CPtr ''struct memcg_vmstats''),
      Field ''memory_events'' (CArr 10 atomic_long_t),
      Field ''memory_events_local'' (CArr 10 atomic_long_t),
      Field ''socket_pressure'' u64,
      Field ''kmemcg_id'' c_int,
      Field ''objcg'' (CPtr ''struct obj_cgroup''),
      Field ''orig_objcg'' (CPtr ''struct obj_cgroup''),
      Field ''objcg_list'' struct_list_head,
      Field ''vmstats_percpu'' (CPtr ''struct memcg_vmstats_percpu''),
      Field ''cgwb_list'' struct_list_head,
      Field ''cgwb_domain'' struct_wb_domain,
      Field ''cgwb_frn'' (CArr 4 struct_memcg_cgwb_frn),
      Field ''deferred_split_queue'' struct_deferred_split,
      Field ''mm_list'' struct_lru_gen_mm_list,
      Field ''nodeinfo'' (CArr 0 (CPtr ''struct mem_cgroup_per_node''))]"

definition struct_mempolicy :: cty where
  "struct_mempolicy = CStruct ''mempolicy'' False
     [Field ''refcnt'' atomic_t,
      Field ''mode'' short_unsigned_int,
      Field ''flags'' short_unsigned_int,
      Field ''nodes'' nodemask_t,
      Field ''home_node'' c_int,
      Field ''w'' (CUnion [] False
        [Field ''cpuset_mems_allowed'' nodemask_t,
         Field ''user_nodemask'' nodemask_t]),
      Field ''rcu'' struct_callback_head]"

definition struct_delayed_call :: cty where
  "struct_delayed_call = CStruct ''delayed_call'' False
     [Field ''fn'' (CPtr ''void (void *)''),
      Field ''arg'' (CPtr ''void'')]"

definition struct_saved :: cty where
  "struct_saved = CStruct ''saved'' False
     [Field ''link'' struct_path,
      Field ''done'' struct_delayed_call,
      Field ''name'' (CPtr ''const char''),
      Field ''seq'' unsigned_int]"

definition vfsuid_t :: cty where
  "vfsuid_t = CStruct [] False
      [Field ''val'' uid_t]"

definition struct_nameidata :: cty where
  "struct_nameidata = CStruct ''nameidata'' False
     [Field ''path'' struct_path,
      Field ''last'' struct_qstr,
      Field ''root'' struct_path,
      Field ''inode'' (CPtr ''struct inode''),
      Field ''flags'' unsigned_int,
      Field ''state'' unsigned_int,
      Field ''seq'' unsigned_int,
      Field ''next_seq'' unsigned_int,
      Field ''m_seq'' unsigned_int,
      Field ''r_seq'' unsigned_int,
      Field ''last_type'' c_int,
      Field ''depth'' unsigned_int,
      Field ''total_link_count'' c_int,
      Field ''stack'' (CPtr ''struct saved''),
      Field ''internal'' (CArr 2 struct_saved),
      Field ''name'' (CPtr ''struct filename''),
      Field ''pathname'' (CPtr ''const char''),
      Field ''saved'' (CPtr ''struct nameidata''),
      Field ''root_seq'' unsigned_int,
      Field ''dfd'' c_int,
      Field ''dir_vfsuid'' vfsuid_t,
      Field ''dir_mode'' umode_t]"

definition struct_nsproxy :: cty where
  "struct_nsproxy = CStruct ''nsproxy'' False
     [Field ''count'' refcount_t,
      Field ''uts_ns'' (CPtr ''struct uts_namespace''),
      Field ''ipc_ns'' (CPtr ''struct ipc_namespace''),
      Field ''mnt_ns'' (CPtr ''struct mnt_namespace''),
      Field ''pid_ns_for_children'' (CPtr ''struct pid_namespace''),
      Field ''net_ns'' (CPtr ''struct net''),
      Field ''time_ns'' (CPtr ''struct time_namespace''),
      Field ''time_ns_for_children'' (CPtr ''struct time_namespace''),
      Field ''cgroup_ns'' (CPtr ''struct cgroup_namespace'')]"

definition struct_numa_group :: cty where
  "struct_numa_group = CStruct ''numa_group'' False
     [Field ''refcount'' refcount_t,
      Field ''lock'' spinlock_t,
      Field ''nr_tasks'' c_int,
      Field ''gid'' pid_t,
      Field ''active_nodes'' c_int,
      Field ''rcu'' struct_callback_head,
      Field ''total_faults'' long_unsigned_int,
      Field ''max_faults_cpu'' long_unsigned_int,
      Field ''faults'' (CArr 0 long_unsigned_int)]"

definition struct_obj_cgroup :: cty where
  "struct_obj_cgroup = CStruct ''obj_cgroup'' False
     [Field ''refcnt'' struct_percpu_ref,
      Field ''memcg'' (CPtr ''struct mem_cgroup''),
      Field ''nr_charged_bytes'' atomic_t,
      Field [] (CUnion [] False
        [Field ''list'' struct_list_head,
         Field ''rcu'' struct_callback_head])]"

definition old_time32_t :: cty where [layout_simps]:
  "old_time32_t = s32"

definition struct_old_timespec32 :: cty where
  "struct_old_timespec32 = CStruct ''old_timespec32'' False
     [Field ''tv_sec'' old_time32_t,
      Field ''tv_nsec'' s32]"

definition struct_perf_ctx_data :: cty where
  "struct_perf_ctx_data = CStruct ''perf_ctx_data'' False
     [Field ''callback_head'' struct_callback_head,
      Field ''refcount'' refcount_t,
      Field ''global'' c_int,
      Field ''ctx_cache'' (CPtr ''struct kmem_cache''),
      Field ''data'' (CPtr ''void'')]"

definition struct_perf_event_groups :: cty where
  "struct_perf_event_groups = CStruct ''perf_event_groups'' False
     [Field ''tree'' struct_rb_root,
      Field ''index'' u64]"

definition struct_perf_time_ctx :: cty where
  "struct_perf_time_ctx = CStruct ''perf_time_ctx'' False
     [Field ''time'' u64,
      Field ''stamp'' u64,
      Field ''offset'' u64]"

definition struct_perf_event_context :: cty where
  "struct_perf_event_context = CStruct ''perf_event_context'' False
     [Field ''lock'' raw_spinlock_t,
      Field ''mutex'' struct_mutex,
      Field ''pmu_ctx_list'' struct_list_head,
      Field ''pinned_groups'' struct_perf_event_groups,
      Field ''flexible_groups'' struct_perf_event_groups,
      Field ''event_list'' struct_list_head,
      Field ''nr_events'' c_int,
      Field ''nr_user'' c_int,
      Field ''is_active'' c_int,
      Field ''nr_stat'' c_int,
      Field ''nr_freq'' c_int,
      Field ''rotate_disable'' c_int,
      Field ''refcount'' refcount_t,
      Field ''task'' (CPtr ''struct task_struct''),
      Field ''time'' struct_perf_time_ctx,
      Field ''timeguest'' struct_perf_time_ctx,
      Field ''parent_ctx'' (CPtr ''struct perf_event_context''),
      Field ''parent_gen'' u64,
      Field ''generation'' u64,
      Field ''pin_count'' c_int,
      Field ''nr_cgroups'' c_int,
      Field ''callback_head'' struct_callback_head,
      Field ''nr_no_switch_fast'' local_t]"

definition struct_pid_namespace :: cty where
  "struct_pid_namespace = CStruct ''pid_namespace'' False
     [Field ''idr'' struct_idr,
      Field ''rcu'' struct_callback_head,
      Field ''pid_allocated'' unsigned_int,
      Field ''memfd_noexec_scope'' c_int,
      Field ''set'' struct_ctl_table_set,
      Field ''sysctls'' (CPtr ''struct ctl_table_header''),
      Field ''child_reaper'' (CPtr ''struct task_struct''),
      Field ''pid_cachep'' (CPtr ''struct kmem_cache''),
      Field ''level'' unsigned_int,
      Field ''pid_max'' c_int,
      Field ''parent'' (CPtr ''struct pid_namespace''),
      Field ''bacct'' (CPtr ''struct fs_pin''),
      Field ''user_ns'' (CPtr ''struct user_namespace''),
      Field ''ucounts'' (CPtr ''struct ucounts''),
      Field ''reboot'' c_int,
      BitField [] c_long 64,
      BitField [] c_long 64,
      BitField [] c_long 64,
      BitField [] c_long 64,
      Field ''ns'' struct_ns_common,
      Field ''work'' struct_work_struct,
      BitField [] c_long 64,
      BitField [] c_long 64,
      BitField [] c_long 64,
      BitField [] c_long 64]"

definition struct_pidfs_attr :: cty where
  "struct_pidfs_attr = CStruct ''pidfs_attr'' False
     [Field ''attr_mask'' long_unsigned_int,
      Field ''xattrs'' (CPtr ''struct simple_xattrs''),
      Field [] (CStruct [] False
        [Field ''cgroupid'' c__u64,
         Field ''exit_code'' c__s32]),
      Field ''coredump_mask'' c__u32,
      Field ''coredump_signal'' c__u32]"

definition struct_pollfd :: cty where
  "struct_pollfd = CStruct ''pollfd'' False
     [Field ''fd'' c_int,
      Field ''events'' short_int,
      Field ''revents'' short_int]"

definition struct_rt_mutex :: cty where
  "struct_rt_mutex = CStruct ''rt_mutex'' False
     [Field ''rtmutex'' struct_rt_mutex_base]"

definition kthread_work_func_t :: cty where [layout_simps]:
  "kthread_work_func_t = CPtr ''void (struct kthread_work *)''"

definition struct_kthread_work :: cty where
  "struct_kthread_work = CStruct ''kthread_work'' False
     [Field ''node'' struct_list_head,
      Field ''func'' kthread_work_func_t,
      Field ''worker'' (CPtr ''struct kthread_worker''),
      Field ''canceling'' c_int]"

definition struct_rcu_exp_work :: cty where
  "struct_rcu_exp_work = CStruct ''rcu_exp_work'' False
     [Field ''rew_s'' long_unsigned_int,
      Field ''rew_work'' struct_kthread_work]"

definition struct_rcu_node :: cty where
  "struct_rcu_node = CStruct ''rcu_node'' False
     [Field ''lock'' raw_spinlock_t,
      Field ''gp_seq'' long_unsigned_int,
      Field ''gp_seq_needed'' long_unsigned_int,
      Field ''completedqs'' long_unsigned_int,
      Field ''qsmask'' long_unsigned_int,
      Field ''rcu_gp_init_mask'' long_unsigned_int,
      Field ''qsmaskinit'' long_unsigned_int,
      Field ''qsmaskinitnext'' long_unsigned_int,
      Field ''expmask'' long_unsigned_int,
      Field ''expmaskinit'' long_unsigned_int,
      Field ''expmaskinitnext'' long_unsigned_int,
      Field ''exp_kworker'' (CPtr ''struct kthread_worker''),
      Field ''cbovldmask'' long_unsigned_int,
      Field ''ffmask'' long_unsigned_int,
      Field ''grpmask'' long_unsigned_int,
      Field ''grplo'' c_int,
      Field ''grphi'' c_int,
      Field ''grpnum'' u8,
      Field ''level'' u8,
      Field ''wait_blkd_tasks'' bool,
      Field ''parent'' (CPtr ''struct rcu_node''),
      Field ''blkd_tasks'' struct_list_head,
      Field ''gp_tasks'' (CPtr ''struct list_head''),
      Field ''exp_tasks'' (CPtr ''struct list_head''),
      Field ''boost_tasks'' (CPtr ''struct list_head''),
      Field ''boost_mtx'' struct_rt_mutex,
      Field ''boost_time'' long_unsigned_int,
      Field ''kthread_mutex'' struct_mutex,
      Field ''boost_kthread_task'' (CPtr ''struct task_struct''),
      Field ''boost_kthread_status'' unsigned_int,
      Field ''n_boosts'' long_unsigned_int,
      Field ''nocb_gp_wq'' (CArr 2 struct_swait_queue_head),
      BitField [] c_long 64,
      BitField [] c_long 64,
      BitField [] c_long 64,
      BitField [] c_long 64,
      BitField [] c_long 64,
      BitField [] c_long 64,
      BitField [] c_long 64,
      Field ''fqslock'' raw_spinlock_t,
      BitField [] c_long 64,
      BitField [] c_long 64,
      BitField [] c_long 64,
      BitField [] c_long 64,
      BitField [] c_long 64,
      BitField [] c_long 64,
      BitField [] c_long 64,
      Field ''exp_lock'' spinlock_t,
      Field ''exp_seq_rq'' long_unsigned_int,
      Field ''exp_wq'' (CArr 4 wait_queue_head_t),
      Field ''rew'' struct_rcu_exp_work,
      Field ''exp_need_flush'' bool,
      Field ''exp_poll_lock'' raw_spinlock_t,
      Field ''exp_seq_poll_rq'' long_unsigned_int,
      Field ''exp_poll_wq'' struct_work_struct,
      BitField [] c_long 64,
      BitField [] c_long 64,
      BitField [] c_long 64,
      BitField [] c_long 64,
      BitField [] c_long 64,
      BitField [] c_long 64]"

definition struct_reclaim_state :: cty where
  "struct_reclaim_state = CStruct ''reclaim_state'' False
     [Field ''reclaimed'' long_unsigned_int,
      Field ''mm_walk'' (CPtr ''struct lru_gen_mm_walk'')]"

definition struct_robust_list :: cty where
  "struct_robust_list = CStruct ''robust_list'' False
     [Field ''next'' (CPtr ''struct robust_list'')]"

definition struct_robust_list_head :: cty where
  "struct_robust_list_head = CStruct ''robust_list_head'' False
     [Field ''list'' struct_robust_list,
      Field ''futex_offset'' c_long,
      Field ''list_op_pending'' (CPtr ''struct robust_list'')]"

section \<open>Sizes and alignments\<close>

lemma struct___kernel_timespec_layout [layout_simps]:
  "sizeof struct___kernel_timespec = 16 \<and> alignof struct___kernel_timespec = 8 \<and> wf_cty struct___kernel_timespec"
  by (simp add: struct___kernel_timespec_def base_types layout_eval c__kernel_time64_t_def
      del: One_nat_def)

lemma enum_audit_state_layout [layout_simps]:
  "sizeof enum_audit_state = 4 \<and> alignof enum_audit_state = 4 \<and> wf_cty enum_audit_state"
  by (simp add: enum_audit_state_def base_types layout_eval
      del: One_nat_def)

lemma struct_audit_stamp_layout [layout_simps]:
  "sizeof struct_audit_stamp = 24 \<and> alignof struct_audit_stamp = 8 \<and> wf_cty struct_audit_stamp"
  by (simp add: struct_audit_stamp_def base_types layout_eval struct_timespec64_layout
      del: One_nat_def)

lemma struct_lsm_prop_selinux_layout [layout_simps]:
  "sizeof struct_lsm_prop_selinux = 4 \<and> alignof struct_lsm_prop_selinux = 4 \<and> wf_cty struct_lsm_prop_selinux"
  by (simp add: struct_lsm_prop_selinux_def base_types layout_eval u32_def c__u32_def
      del: One_nat_def)

lemma struct_lsm_prop_smack_layout [layout_simps]:
  "sizeof struct_lsm_prop_smack = 8 \<and> alignof struct_lsm_prop_smack = 8 \<and> wf_cty struct_lsm_prop_smack"
  by (simp add: struct_lsm_prop_smack_def base_types layout_eval
      del: One_nat_def)

lemma struct_lsm_prop_apparmor_layout [layout_simps]:
  "sizeof struct_lsm_prop_apparmor = 8 \<and> alignof struct_lsm_prop_apparmor = 8 \<and> wf_cty struct_lsm_prop_apparmor"
  by (simp add: struct_lsm_prop_apparmor_def base_types layout_eval
      del: One_nat_def)

lemma struct_lsm_prop_bpf_layout [layout_simps]:
  "sizeof struct_lsm_prop_bpf = 4 \<and> alignof struct_lsm_prop_bpf = 4 \<and> wf_cty struct_lsm_prop_bpf"
  by (simp add: struct_lsm_prop_bpf_def base_types layout_eval u32_def c__u32_def
      del: One_nat_def)

lemma struct_lsm_prop_layout [layout_simps]:
  "sizeof struct_lsm_prop = 32 \<and> alignof struct_lsm_prop = 8 \<and> wf_cty struct_lsm_prop"
  by (simp add: struct_lsm_prop_def base_types layout_eval struct_lsm_prop_selinux_layout struct_lsm_prop_smack_layout
      struct_lsm_prop_apparmor_layout struct_lsm_prop_bpf_layout
      del: One_nat_def)

lemma struct_audit_cap_data_layout [layout_simps]:
  "sizeof struct_audit_cap_data = 40 \<and> alignof struct_audit_cap_data = 8 \<and> wf_cty struct_audit_cap_data"
  by (simp add: struct_audit_cap_data_def base_types layout_eval kernel_cap_t_layout kuid_t_layout
      del: One_nat_def)

lemma struct_audit_names_layout [layout_simps]:
  "sizeof struct_audit_names = 144 \<and> alignof struct_audit_names = 8 \<and> wf_cty struct_audit_names"
  by (simp add: struct_audit_names_def base_types layout_eval struct_list_head_layout bool_def dev_t_def
      c__kernel_dev_t_def u32_def c__u32_def umode_t_def kuid_t_layout kgid_t_layout
      struct_lsm_prop_layout struct_audit_cap_data_layout
      del: One_nat_def)

lemma struct_mq_attr_layout [layout_simps]:
  "sizeof struct_mq_attr = 64 \<and> alignof struct_mq_attr = 8 \<and> wf_cty struct_mq_attr"
  by (simp add: struct_mq_attr_def base_types layout_eval c__kernel_long_t_def
      del: One_nat_def)

lemma struct_open_how_layout [layout_simps]:
  "sizeof struct_open_how = 24 \<and> alignof struct_open_how = 8 \<and> wf_cty struct_open_how"
  by (simp add: struct_open_how_def base_types layout_eval c__u64_def
      del: One_nat_def)

lemma struct_audit_ntp_val_layout [layout_simps]:
  "sizeof struct_audit_ntp_val = 16 \<and> alignof struct_audit_ntp_val = 8 \<and> wf_cty struct_audit_ntp_val"
  by (simp add: struct_audit_ntp_val_def base_types layout_eval
      del: One_nat_def)

lemma struct_audit_ntp_data_layout [layout_simps]:
  "sizeof struct_audit_ntp_data = 96 \<and> alignof struct_audit_ntp_data = 8 \<and> wf_cty struct_audit_ntp_data"
  by (simp add: struct_audit_ntp_data_def base_types layout_eval struct_audit_ntp_val_layout
      del: One_nat_def)

lemma struct_audit_proctitle_layout [layout_simps]:
  "sizeof struct_audit_proctitle = 16 \<and> alignof struct_audit_proctitle = 8 \<and> wf_cty struct_audit_proctitle"
  by (simp add: struct_audit_proctitle_def base_types layout_eval
      del: One_nat_def)

lemma struct_audit_context_layout [layout_simps]:
  "sizeof struct_audit_context = 1200 \<and> alignof struct_audit_context = 8 \<and> wf_cty struct_audit_context"
  by (simp add: struct_audit_context_def base_types layout_eval enum_audit_state_layout struct_audit_stamp_layout u64_def
      c__u64_def struct_audit_names_layout struct_list_head_layout struct_path_layout size_t_def
      c__kernel_size_t_def c__kernel_ulong_t_def pid_t_def c__kernel_pid_t_def kuid_t_layout
      kgid_t_layout struct_lsm_prop_layout umode_t_def uid_t_def c__kernel_uid32_t_def gid_t_def
      c__kernel_gid32_t_def mqd_t_def c__kernel_mqd_t_def struct_mq_attr_layout struct_timespec64_layout
      struct_audit_cap_data_layout struct_open_how_layout struct_audit_ntp_data_layout
      struct_audit_proctitle_layout
      del: One_nat_def)

lemma struct_autogroup_layout [layout_simps]:
  "sizeof struct_autogroup = 72 \<and> alignof struct_autogroup = 8 \<and> wf_cty struct_autogroup"
  by (simp add: struct_autogroup_def base_types layout_eval struct_kref_layout struct_rw_semaphore_layout
      del: One_nat_def)

lemma struct_rq_list_layout [layout_simps]:
  "sizeof struct_rq_list = 16 \<and> alignof struct_rq_list = 8 \<and> wf_cty struct_rq_list"
  by (simp add: struct_rq_list_def base_types layout_eval
      del: One_nat_def)

lemma struct_blk_plug_layout [layout_simps]:
  "sizeof struct_blk_plug = 64 \<and> alignof struct_blk_plug = 8 \<and> wf_cty struct_blk_plug"
  by (simp add: struct_blk_plug_def base_types layout_eval struct_rq_list_layout u64_def c__u64_def bool_def
      struct_list_head_layout
      del: One_nat_def)

lemma struct_in6_addr_layout [layout_simps]:
  "sizeof struct_in6_addr = 16 \<and> alignof struct_in6_addr = 4 \<and> wf_cty struct_in6_addr"
  by (simp add: struct_in6_addr_def base_types layout_eval c__u8_def c__be16_def c__u16_def c__be32_def c__u32_def
      del: One_nat_def)

lemma struct_bpf_nh_params_layout [layout_simps]:
  "sizeof struct_bpf_nh_params = 20 \<and> alignof struct_bpf_nh_params = 4 \<and> wf_cty struct_bpf_nh_params"
  by (simp add: struct_bpf_nh_params_def base_types layout_eval u32_def c__u32_def struct_in6_addr_layout
      del: One_nat_def)

lemma struct_bpf_redirect_info_layout [layout_simps]:
  "sizeof struct_bpf_redirect_info = 64 \<and> alignof struct_bpf_redirect_info = 8 \<and> wf_cty struct_bpf_redirect_info"
  by (simp add: struct_bpf_redirect_info_def base_types layout_eval u64_def c__u64_def u32_def c__u32_def
      enum_bpf_map_type_layout struct_bpf_nh_params_layout
      del: One_nat_def)

lemma struct_bpf_net_context_layout [layout_simps]:
  "sizeof struct_bpf_net_context = 112 \<and> alignof struct_bpf_net_context = 8 \<and> wf_cty struct_bpf_net_context"
  by (simp add: struct_bpf_net_context_def base_types layout_eval struct_bpf_redirect_info_layout struct_list_head_layout
      del: One_nat_def)

lemma struct_capture_control_layout [layout_simps]:
  "sizeof struct_capture_control = 16 \<and> alignof struct_capture_control = 8 \<and> wf_cty struct_capture_control"
  by (simp add: struct_capture_control_def base_types layout_eval
      del: One_nat_def)

lemma struct_cfs_rq_layout [layout_simps]:
  "sizeof struct_cfs_rq = 512 \<and> alignof struct_cfs_rq = 8 \<and> wf_cty struct_cfs_rq"
  by (simp add: struct_cfs_rq_def base_types layout_eval struct_load_weight_layout s64_def c__s64_def u64_def c__u64_def
      struct_rb_root_cached_layout struct_sched_avg_layout raw_spinlock_t_def struct_raw_spinlock_layout
      struct_list_head_layout bool_def
      del: One_nat_def)

lemma struct_compat_robust_list_layout [layout_simps]:
  "sizeof struct_compat_robust_list = 4 \<and> alignof struct_compat_robust_list = 4 \<and> wf_cty struct_compat_robust_list"
  by (simp add: struct_compat_robust_list_def base_types layout_eval compat_uptr_t_def u32_def c__u32_def
      del: One_nat_def)

lemma struct_compat_robust_list_head_layout [layout_simps]:
  "sizeof struct_compat_robust_list_head = 12 \<and> alignof struct_compat_robust_list_head = 4 \<and> wf_cty struct_compat_robust_list_head"
  by (simp add: struct_compat_robust_list_head_def base_types layout_eval struct_compat_robust_list_layout
      compat_long_t_def s32_def c__s32_def compat_uptr_t_def u32_def c__u32_def
      del: One_nat_def)

lemma struct_core_thread_layout [layout_simps]:
  "sizeof struct_core_thread = 16 \<and> alignof struct_core_thread = 8 \<and> wf_cty struct_core_thread"
  by (simp add: struct_core_thread_def base_types layout_eval
      del: One_nat_def)

lemma struct_core_state_layout [layout_simps]:
  "sizeof struct_core_state = 56 \<and> alignof struct_core_state = 8 \<and> wf_cty struct_core_state"
  by (simp add: struct_core_state_def base_types layout_eval atomic_t_layout struct_core_thread_layout
      struct_completion_layout
      del: One_nat_def)

lemma struct_fdtable_layout [layout_simps]:
  "sizeof struct_fdtable = 56 \<and> alignof struct_fdtable = 8 \<and> wf_cty struct_fdtable"
  by (simp add: struct_fdtable_def base_types layout_eval struct_callback_head_layout
      del: One_nat_def)

lemma struct_files_struct_layout [layout_simps]:
  "sizeof struct_files_struct = 704 \<and> alignof struct_files_struct = 8 \<and> wf_cty struct_files_struct"
  by (simp add: struct_files_struct_def base_types layout_eval atomic_t_layout bool_def wait_queue_head_t_def
      struct_wait_queue_head_layout struct_fdtable_layout spinlock_t_def struct_spinlock_layout
      del: One_nat_def)

lemma struct_fs_struct_layout [layout_simps]:
  "sizeof struct_fs_struct = 56 \<and> alignof struct_fs_struct = 8 \<and> wf_cty struct_fs_struct"
  by (simp add: struct_fs_struct_def base_types layout_eval seqlock_t_def struct_seqlock_layout struct_path_layout
      del: One_nat_def)

lemma struct_rt_mutex_base_layout [layout_simps]:
  "sizeof struct_rt_mutex_base = 32 \<and> alignof struct_rt_mutex_base = 8 \<and> wf_cty struct_rt_mutex_base"
  by (simp add: struct_rt_mutex_base_def base_types layout_eval raw_spinlock_t_def struct_raw_spinlock_layout
      struct_rb_root_cached_layout
      del: One_nat_def)

lemma union_futex_key_layout [layout_simps]:
  "sizeof union_futex_key = 24 \<and> alignof union_futex_key = 8 \<and> wf_cty union_futex_key"
  by (simp add: union_futex_key_def base_types layout_eval u64_def c__u64_def
      del: One_nat_def)

lemma struct_futex_pi_state_layout [layout_simps]:
  "sizeof struct_futex_pi_state = 88 \<and> alignof struct_futex_pi_state = 8 \<and> wf_cty struct_futex_pi_state"
  by (simp add: struct_futex_pi_state_def base_types layout_eval struct_list_head_layout struct_rt_mutex_base_layout
      refcount_t_def struct_refcount_struct_layout union_futex_key_layout
      del: One_nat_def)

lemma struct_group_info_layout [layout_simps]:
  "sizeof struct_group_info = 8 \<and> alignof struct_group_info = 4 \<and> wf_cty struct_group_info"
  by (simp add: struct_group_info_def base_types layout_eval refcount_t_def struct_refcount_struct_layout kgid_t_layout
      del: One_nat_def)

lemma struct_seqcount_raw_spinlock_layout [layout_simps]:
  "sizeof struct_seqcount_raw_spinlock = 4 \<and> alignof struct_seqcount_raw_spinlock = 4 \<and> wf_cty struct_seqcount_raw_spinlock"
  by (simp add: struct_seqcount_raw_spinlock_def base_types layout_eval seqcount_t_def struct_seqcount_layout
      del: One_nat_def)

lemma struct_hrtimer_clock_base_layout [layout_simps]:
  "sizeof struct_hrtimer_clock_base = 64 \<and> alignof struct_hrtimer_clock_base = 8 \<and> wf_cty struct_hrtimer_clock_base"
  by (simp add: struct_hrtimer_clock_base_def base_types layout_eval clockid_t_def c__kernel_clockid_t_def
      seqcount_raw_spinlock_t_def struct_seqcount_raw_spinlock_layout struct_timerqueue_head_layout
      ktime_t_def s64_def c__s64_def
      del: One_nat_def)

lemma struct_io_bitmap_layout [layout_simps]:
  "sizeof struct_io_bitmap = 8208 \<and> alignof struct_io_bitmap = 8 \<and> wf_cty struct_io_bitmap"
  by (simp add: struct_io_bitmap_def base_types layout_eval u64_def c__u64_def refcount_t_def
      struct_refcount_struct_layout
      del: One_nat_def)

lemma struct_io_context_layout [layout_simps]:
  "sizeof struct_io_context = 88 \<and> alignof struct_io_context = 8 \<and> wf_cty struct_io_context"
  by (simp add: struct_io_context_def base_types layout_eval atomic_long_t_def atomic64_t_layout atomic_t_layout
      spinlock_t_def struct_spinlock_layout struct_xarray_layout struct_hlist_head_layout
      struct_work_struct_layout
      del: One_nat_def)

lemma struct_io_restriction_layout [layout_simps]:
  "sizeof struct_io_restriction = 40 \<and> alignof struct_io_restriction = 8 \<and> wf_cty struct_io_restriction"
  by (simp add: struct_io_restriction_def base_types layout_eval bool_def u8_def c__u8_def
      del: One_nat_def)

lemma struct_io_uring_task_layout [layout_simps]:
  "sizeof struct_io_uring_task = 320 \<and> alignof struct_io_uring_task = 8 \<and> wf_cty struct_io_uring_task"
  by (simp add: struct_io_uring_task_def base_types layout_eval struct_xarray_layout struct_wait_queue_head_layout
      atomic_t_layout struct_percpu_counter_layout struct_llist_head_layout struct_callback_head_layout
      del: One_nat_def)

lemma struct_keyring_index_key_layout [layout_simps]:
  "sizeof struct_keyring_index_key = 40 \<and> alignof struct_keyring_index_key = 8 \<and> wf_cty struct_keyring_index_key"
  by (simp add: struct_keyring_index_key_def base_types layout_eval u16_def c__u16_def
      del: One_nat_def)

lemma union_key_payload_layout [layout_simps]:
  "sizeof union_key_payload = 32 \<and> alignof union_key_payload = 8 \<and> wf_cty union_key_payload"
  by (simp add: union_key_payload_def base_types layout_eval
      del: One_nat_def)

lemma struct_assoc_array_layout [layout_simps]:
  "sizeof struct_assoc_array = 16 \<and> alignof struct_assoc_array = 8 \<and> wf_cty struct_assoc_array"
  by (simp add: struct_assoc_array_def base_types layout_eval
      del: One_nat_def)

lemma struct_key_layout [layout_simps]:
  "sizeof struct_key = 224 \<and> alignof struct_key = 8 \<and> wf_cty struct_key"
  by (simp add: struct_key_def base_types layout_eval refcount_t_def struct_refcount_struct_layout key_serial_t_def
      int32_t_def s32_def c__s32_def struct_list_head_layout struct_rb_node_layout
      struct_rw_semaphore_layout time64_t_def c__s64_def kuid_t_layout kgid_t_layout key_perm_t_def
      uint32_t_def u32_def c__u32_def struct_keyring_index_key_layout union_key_payload_layout
      struct_assoc_array_layout
      del: One_nat_def)

lemma struct_mem_cgroup_private_id_layout [layout_simps]:
  "sizeof struct_mem_cgroup_private_id = 8 \<and> alignof struct_mem_cgroup_private_id = 4 \<and> wf_cty struct_mem_cgroup_private_id"
  by (simp add: struct_mem_cgroup_private_id_def base_types layout_eval refcount_t_def struct_refcount_struct_layout
      del: One_nat_def)

lemma struct_page_counter_layout [layout_simps]:
  "sizeof struct_page_counter = 192 \<and> alignof struct_page_counter = 8 \<and> wf_cty struct_page_counter"
  by (simp add: struct_page_counter_def base_types layout_eval atomic_long_t_def atomic64_t_layout
      struct_cacheline_padding_layout bool_def
      del: One_nat_def)

lemma struct_vmpressure_layout [layout_simps]:
  "sizeof struct_vmpressure = 120 \<and> alignof struct_vmpressure = 8 \<and> wf_cty struct_vmpressure"
  by (simp add: struct_vmpressure_def base_types layout_eval spinlock_t_def struct_spinlock_layout
      struct_list_head_layout struct_mutex_layout struct_work_struct_layout
      del: One_nat_def)

lemma struct_fprop_global_layout [layout_simps]:
  "sizeof struct_fprop_global = 48 \<and> alignof struct_fprop_global = 8 \<and> wf_cty struct_fprop_global"
  by (simp add: struct_fprop_global_def base_types layout_eval struct_percpu_counter_layout seqcount_t_def
      struct_seqcount_layout
      del: One_nat_def)

lemma struct_wb_domain_layout [layout_simps]:
  "sizeof struct_wb_domain = 120 \<and> alignof struct_wb_domain = 8 \<and> wf_cty struct_wb_domain"
  by (simp add: struct_wb_domain_def base_types layout_eval spinlock_t_def struct_spinlock_layout
      struct_fprop_global_layout struct_timer_list_layout
      del: One_nat_def)

lemma struct_wb_completion_layout [layout_simps]:
  "sizeof struct_wb_completion = 32 \<and> alignof struct_wb_completion = 8 \<and> wf_cty struct_wb_completion"
  by (simp add: struct_wb_completion_def base_types layout_eval atomic_t_layout
      del: One_nat_def)

lemma struct_memcg_cgwb_frn_layout [layout_simps]:
  "sizeof struct_memcg_cgwb_frn = 56 \<and> alignof struct_memcg_cgwb_frn = 8 \<and> wf_cty struct_memcg_cgwb_frn"
  by (simp add: struct_memcg_cgwb_frn_def base_types layout_eval u64_def c__u64_def struct_wb_completion_layout
      del: One_nat_def)

lemma struct_deferred_split_layout [layout_simps]:
  "sizeof struct_deferred_split = 32 \<and> alignof struct_deferred_split = 8 \<and> wf_cty struct_deferred_split"
  by (simp add: struct_deferred_split_def base_types layout_eval spinlock_t_def struct_spinlock_layout
      struct_list_head_layout
      del: One_nat_def)

lemma struct_lru_gen_mm_list_layout [layout_simps]:
  "sizeof struct_lru_gen_mm_list = 24 \<and> alignof struct_lru_gen_mm_list = 8 \<and> wf_cty struct_lru_gen_mm_list"
  by (simp add: struct_lru_gen_mm_list_def base_types layout_eval struct_list_head_layout spinlock_t_def
      struct_spinlock_layout
      del: One_nat_def)

lemma struct_mem_cgroup_layout [layout_simps]:
  "sizeof struct_mem_cgroup = 1664 \<and> alignof struct_mem_cgroup = 8 \<and> wf_cty struct_mem_cgroup"
  by (simp add: struct_mem_cgroup_def base_types layout_eval struct_cgroup_subsys_state_layout
      struct_mem_cgroup_private_id_layout struct_page_counter_layout struct_list_head_layout
      spinlock_t_def struct_spinlock_layout struct_work_struct_layout bool_def struct_vmpressure_layout
      struct_cgroup_file_layout atomic_long_t_def atomic64_t_layout u64_def c__u64_def
      struct_wb_domain_layout struct_memcg_cgwb_frn_layout struct_deferred_split_layout
      struct_lru_gen_mm_list_layout
      del: One_nat_def)

lemma struct_mempolicy_layout [layout_simps]:
  "sizeof struct_mempolicy = 288 \<and> alignof struct_mempolicy = 8 \<and> wf_cty struct_mempolicy"
  by (simp add: struct_mempolicy_def base_types layout_eval atomic_t_layout nodemask_t_layout struct_callback_head_layout
      del: One_nat_def)

lemma struct_delayed_call_layout [layout_simps]:
  "sizeof struct_delayed_call = 16 \<and> alignof struct_delayed_call = 8 \<and> wf_cty struct_delayed_call"
  by (simp add: struct_delayed_call_def base_types layout_eval
      del: One_nat_def)

lemma struct_saved_layout [layout_simps]:
  "sizeof struct_saved = 48 \<and> alignof struct_saved = 8 \<and> wf_cty struct_saved"
  by (simp add: struct_saved_def base_types layout_eval struct_path_layout struct_delayed_call_layout
      del: One_nat_def)

lemma vfsuid_t_layout [layout_simps]:
  "sizeof vfsuid_t = 4 \<and> alignof vfsuid_t = 4 \<and> wf_cty vfsuid_t"
  by (simp add: vfsuid_t_def base_types layout_eval uid_t_def c__kernel_uid32_t_def
      del: One_nat_def)

lemma struct_nameidata_layout [layout_simps]:
  "sizeof struct_nameidata = 240 \<and> alignof struct_nameidata = 8 \<and> wf_cty struct_nameidata"
  by (simp add: struct_nameidata_def base_types layout_eval struct_path_layout struct_qstr_layout struct_saved_layout
      vfsuid_t_layout umode_t_def
      del: One_nat_def)

lemma struct_nsproxy_layout [layout_simps]:
  "sizeof struct_nsproxy = 72 \<and> alignof struct_nsproxy = 8 \<and> wf_cty struct_nsproxy"
  by (simp add: struct_nsproxy_def base_types layout_eval refcount_t_def struct_refcount_struct_layout
      del: One_nat_def)

lemma struct_numa_group_layout [layout_simps]:
  "sizeof struct_numa_group = 56 \<and> alignof struct_numa_group = 8 \<and> wf_cty struct_numa_group"
  by (simp add: struct_numa_group_def base_types layout_eval refcount_t_def struct_refcount_struct_layout spinlock_t_def
      struct_spinlock_layout pid_t_def c__kernel_pid_t_def struct_callback_head_layout
      del: One_nat_def)

lemma struct_obj_cgroup_layout [layout_simps]:
  "sizeof struct_obj_cgroup = 48 \<and> alignof struct_obj_cgroup = 8 \<and> wf_cty struct_obj_cgroup"
  by (simp add: struct_obj_cgroup_def base_types layout_eval struct_percpu_ref_layout atomic_t_layout
      struct_list_head_layout struct_callback_head_layout
      del: One_nat_def)

lemma struct_old_timespec32_layout [layout_simps]:
  "sizeof struct_old_timespec32 = 8 \<and> alignof struct_old_timespec32 = 4 \<and> wf_cty struct_old_timespec32"
  by (simp add: struct_old_timespec32_def base_types layout_eval old_time32_t_def s32_def c__s32_def
      del: One_nat_def)

lemma struct_perf_ctx_data_layout [layout_simps]:
  "sizeof struct_perf_ctx_data = 40 \<and> alignof struct_perf_ctx_data = 8 \<and> wf_cty struct_perf_ctx_data"
  by (simp add: struct_perf_ctx_data_def base_types layout_eval struct_callback_head_layout refcount_t_def
      struct_refcount_struct_layout
      del: One_nat_def)

lemma struct_perf_event_groups_layout [layout_simps]:
  "sizeof struct_perf_event_groups = 16 \<and> alignof struct_perf_event_groups = 8 \<and> wf_cty struct_perf_event_groups"
  by (simp add: struct_perf_event_groups_def base_types layout_eval struct_rb_root_layout u64_def c__u64_def
      del: One_nat_def)

lemma struct_perf_time_ctx_layout [layout_simps]:
  "sizeof struct_perf_time_ctx = 24 \<and> alignof struct_perf_time_ctx = 8 \<and> wf_cty struct_perf_time_ctx"
  by (simp add: struct_perf_time_ctx_def base_types layout_eval u64_def c__u64_def
      del: One_nat_def)

lemma struct_perf_event_context_layout [layout_simps]:
  "sizeof struct_perf_event_context = 248 \<and> alignof struct_perf_event_context = 8 \<and> wf_cty struct_perf_event_context"
  by (simp add: struct_perf_event_context_def base_types layout_eval raw_spinlock_t_def struct_raw_spinlock_layout
      struct_mutex_layout struct_list_head_layout struct_perf_event_groups_layout refcount_t_def
      struct_refcount_struct_layout struct_perf_time_ctx_layout u64_def c__u64_def
      struct_callback_head_layout local_t_layout
      del: One_nat_def)

lemma struct_pid_namespace_layout [layout_simps]:
  "sizeof struct_pid_namespace = 576 \<and> alignof struct_pid_namespace = 8 \<and> wf_cty struct_pid_namespace"
  by (simp add: struct_pid_namespace_def base_types layout_eval struct_idr_layout struct_callback_head_layout
      struct_ctl_table_set_layout struct_ns_common_layout struct_work_struct_layout
      del: One_nat_def)

lemma struct_pidfs_attr_layout [layout_simps]:
  "sizeof struct_pidfs_attr = 40 \<and> alignof struct_pidfs_attr = 8 \<and> wf_cty struct_pidfs_attr"
  by (simp add: struct_pidfs_attr_def base_types layout_eval c__u64_def c__s32_def c__u32_def
      del: One_nat_def)

lemma struct_pollfd_layout [layout_simps]:
  "sizeof struct_pollfd = 8 \<and> alignof struct_pollfd = 4 \<and> wf_cty struct_pollfd"
  by (simp add: struct_pollfd_def base_types layout_eval
      del: One_nat_def)

lemma struct_rt_mutex_layout [layout_simps]:
  "sizeof struct_rt_mutex = 32 \<and> alignof struct_rt_mutex = 8 \<and> wf_cty struct_rt_mutex"
  by (simp add: struct_rt_mutex_def base_types layout_eval struct_rt_mutex_base_layout
      del: One_nat_def)

lemma struct_kthread_work_layout [layout_simps]:
  "sizeof struct_kthread_work = 40 \<and> alignof struct_kthread_work = 8 \<and> wf_cty struct_kthread_work"
  by (simp add: struct_kthread_work_def base_types layout_eval struct_list_head_layout kthread_work_func_t_def
      del: One_nat_def)

lemma struct_rcu_exp_work_layout [layout_simps]:
  "sizeof struct_rcu_exp_work = 48 \<and> alignof struct_rcu_exp_work = 8 \<and> wf_cty struct_rcu_exp_work"
  by (simp add: struct_rcu_exp_work_def base_types layout_eval struct_kthread_work_layout
      del: One_nat_def)

lemma struct_rcu_node_layout [layout_simps]:
  "sizeof struct_rcu_node = 704 \<and> alignof struct_rcu_node = 8 \<and> wf_cty struct_rcu_node"
  by (simp add: struct_rcu_node_def base_types layout_eval raw_spinlock_t_def struct_raw_spinlock_layout u8_def c__u8_def
      bool_def struct_list_head_layout struct_rt_mutex_layout struct_mutex_layout
      struct_swait_queue_head_layout spinlock_t_def struct_spinlock_layout wait_queue_head_t_def
      struct_wait_queue_head_layout struct_rcu_exp_work_layout struct_work_struct_layout
      del: One_nat_def)

lemma struct_reclaim_state_layout [layout_simps]:
  "sizeof struct_reclaim_state = 16 \<and> alignof struct_reclaim_state = 8 \<and> wf_cty struct_reclaim_state"
  by (simp add: struct_reclaim_state_def base_types layout_eval
      del: One_nat_def)

lemma struct_robust_list_layout [layout_simps]:
  "sizeof struct_robust_list = 8 \<and> alignof struct_robust_list = 8 \<and> wf_cty struct_robust_list"
  by (simp add: struct_robust_list_def base_types layout_eval
      del: One_nat_def)

lemma struct_robust_list_head_layout [layout_simps]:
  "sizeof struct_robust_list_head = 24 \<and> alignof struct_robust_list_head = 8 \<and> wf_cty struct_robust_list_head"
  by (simp add: struct_robust_list_head_def base_types layout_eval struct_robust_list_layout
      del: One_nat_def)

end
