(* ===== verification/KernelTaskRefs2.thy ===== *)
theory KernelTaskRefs2
  imports KernelDev KernelTaskRefs1
begin

text \<open>
  Types of \<^verbatim>\<open>bpf/vmlinux.h\<close> that the objects of \<open>KernelTask\<close> (tasks, signals and credentials) point to, one
  dereference away, with every type they hold by value.
\<close>

section \<open>Types\<close>

definition smp_call_func_t :: cty where [layout_simps]:
  "smp_call_func_t = CPtr ''void (void *)''"

definition struct___call_single_data :: cty where
  "struct___call_single_data = CStruct ''__call_single_data'' False
     [Field ''node'' struct___call_single_node,
      Field ''func'' smp_call_func_t,
      Field ''info'' (CPtr ''void'')]"

definition call_single_data_t :: cty where [layout_simps]:
  "call_single_data_t = struct___call_single_data"

definition struct_uclamp_bucket :: cty where
  "struct_uclamp_bucket = CStruct ''uclamp_bucket'' False
     [BitField ''value'' long_unsigned_int 11,
      BitField ''tasks'' long_unsigned_int 53]"

definition struct_uclamp_rq :: cty where
  "struct_uclamp_rq = CStruct ''uclamp_rq'' False
     [Field ''value'' unsigned_int,
      Field ''bucket'' (CArr 5 struct_uclamp_bucket)]"

definition struct_rt_prio_array :: cty where
  "struct_rt_prio_array = CStruct ''rt_prio_array'' False
     [Field ''bitmap'' (CArr 2 long_unsigned_int),
      Field ''queue'' (CArr 100 struct_list_head)]"

definition struct_plist_head :: cty where
  "struct_plist_head = CStruct ''plist_head'' False
     [Field ''node_list'' struct_list_head]"

definition struct_rt_rq :: cty where
  "struct_rt_rq = CStruct ''rt_rq'' False
     [Field ''active'' struct_rt_prio_array,
      Field ''rt_nr_running'' unsigned_int,
      Field ''rr_nr_running'' unsigned_int,
      Field ''highest_prio'' (CStruct [] False
        [Field ''curr'' c_int,
         Field ''next'' c_int]),
      Field ''overloaded'' bool,
      Field ''pushable_tasks'' struct_plist_head,
      Field ''rt_queued'' c_int,
      Field ''tg'' (CPtr ''struct task_group'')]"

definition struct_dl_rq :: cty where
  "struct_dl_rq = CStruct ''dl_rq'' False
     [Field ''root'' struct_rb_root_cached,
      Field ''dl_nr_running'' unsigned_int,
      Field ''earliest_dl'' (CStruct [] False
        [Field ''curr'' u64,
         Field ''next'' u64]),
      Field ''overloaded'' bool,
      Field ''pushable_dl_tasks_root'' struct_rb_root_cached,
      Field ''running_bw'' u64,
      Field ''this_bw'' u64,
      Field ''extra_bw'' u64,
      Field ''max_bw'' u64,
      Field ''bw_ratio'' u64]"

definition struct_scx_dispatch_q :: cty where
  "struct_scx_dispatch_q = CStruct ''scx_dispatch_q'' False
     [Field ''lock'' raw_spinlock_t,
      Field ''first_task'' (CPtr ''struct task_struct''),
      Field ''list'' struct_list_head,
      Field ''priq'' struct_rb_root,
      Field ''nr'' u32,
      Field ''seq'' u32,
      Field ''id'' u64,
      Field ''hash_node'' struct_rhash_head,
      Field ''free_node'' struct_llist_node,
      Field ''rcu'' struct_callback_head]"

definition cpumask_var_t :: cty where [layout_simps]:
  "cpumask_var_t = CPtr ''struct cpumask''"

definition struct_balance_callback :: cty where
  "struct_balance_callback = CStruct ''balance_callback'' False
     [Field ''next'' (CPtr ''struct balance_callback''),
      Field ''func'' (CPtr ''void (struct rq *)'')]"

definition struct_scx_rq :: cty where
  "struct_scx_rq = CStruct ''scx_rq'' False
     [Field ''local_dsq'' struct_scx_dispatch_q,
      Field ''runnable_list'' struct_list_head,
      Field ''ddsp_deferred_locals'' struct_list_head,
      Field ''ops_qseq'' long_unsigned_int,
      Field ''extra_enq_flags'' u64,
      Field ''nr_running'' u32,
      Field ''cpuperf_target'' u32,
      Field ''cpu_released'' bool,
      Field ''flags'' u32,
      Field ''clock'' u64,
      Field ''cpus_to_kick'' cpumask_var_t,
      Field ''cpus_to_kick_if_idle'' cpumask_var_t,
      Field ''cpus_to_preempt'' cpumask_var_t,
      Field ''cpus_to_wait'' cpumask_var_t,
      Field ''cpus_to_sync'' cpumask_var_t,
      Field ''kick_sync_pending'' bool,
      Field ''kick_sync'' long_unsigned_int,
      Field ''reenq_local_deferred'' local_t,
      Field ''deferred_bal_cb'' struct_balance_callback,
      Field ''kick_sync_bal_cb'' struct_balance_callback,
      Field ''deferred_irq_work'' struct_irq_work,
      Field ''kick_cpus_irq_work'' struct_irq_work,
      Field ''bypass_dsq'' struct_scx_dispatch_q]"

definition cpu_stop_fn_t :: cty where [layout_simps]:
  "cpu_stop_fn_t = CPtr ''int (void *)''"

definition struct_cpu_stop_work :: cty where
  "struct_cpu_stop_work = CStruct ''cpu_stop_work'' False
     [Field ''list'' struct_list_head,
      Field ''fn'' cpu_stop_fn_t,
      Field ''caller'' long_unsigned_int,
      Field ''arg'' (CPtr ''void''),
      Field ''done'' (CPtr ''struct cpu_stop_done'')]"

definition struct_rq :: cty where
  "struct_rq = CStruct ''rq'' False
     [Field ''nr_running'' unsigned_int,
      Field ''nr_numa_running'' unsigned_int,
      Field ''nr_preferred_running'' unsigned_int,
      Field ''ttwu_pending'' unsigned_int,
      Field ''cpu_capacity'' long_unsigned_int,
      Field [] (CUnion [] False
        [Field ''donor'' (CPtr ''struct task_struct''),
         Field ''curr'' (CPtr ''struct task_struct'')]),
      Field ''idle'' (CPtr ''struct task_struct''),
      BitField [] c_long 64,
      BitField [] c_long 64,
      BitField [] c_long 64,
      Field ''nr_switches'' u64,
      Field ''__lock'' raw_spinlock_t,
      Field ''nohz_tick_stopped'' unsigned_int,
      Field ''nohz_flags'' atomic_t,
      Field ''has_blocked_load'' unsigned_int,
      Field ''last_blocked_load_update_tick'' long_unsigned_int,
      Field ''nohz_csd'' call_single_data_t,
      Field ''uclamp'' (CArr 2 struct_uclamp_rq),
      Field ''uclamp_flags'' unsigned_int,
      BitField [] c_long 64,
      BitField [] c_long 64,
      BitField [] c_long 64,
      Field ''cfs'' struct_cfs_rq,
      Field ''rt'' struct_rt_rq,
      Field ''dl'' struct_dl_rq,
      Field ''scx'' struct_scx_rq,
      Field ''ext_server'' struct_sched_dl_entity,
      Field ''fair_server'' struct_sched_dl_entity,
      Field ''leaf_cfs_rq_list'' struct_list_head,
      Field ''tmp_alone_branch'' (CPtr ''struct list_head''),
      Field ''numa_migrate_on'' unsigned_int,
      Field ''nr_uninterruptible'' long_unsigned_int,
      Field ''dl_server'' (CPtr ''struct sched_dl_entity''),
      Field ''stop'' (CPtr ''struct task_struct''),
      Field ''next_class'' (CPtr ''const struct sched_class''),
      Field ''next_balance'' long_unsigned_int,
      Field ''prev_mm'' (CPtr ''struct mm_struct''),
      BitField [] c_long 64,
      Field ''clock_task'' u64,
      Field ''clock_pelt'' u64,
      Field ''clock'' u64,
      Field ''lost_idle_time'' long_unsigned_int,
      Field ''clock_update_flags'' unsigned_int,
      Field ''clock_pelt_idle'' u64,
      Field ''clock_idle'' u64,
      Field ''last_seen_need_resched_ns'' u64,
      Field ''ticks_without_resched'' c_int,
      Field ''membarrier_state'' c_int,
      Field ''rd'' (CPtr ''struct root_domain''),
      Field ''sd'' (CPtr ''struct sched_domain''),
      Field ''balance_callback'' (CPtr ''struct balance_callback''),
      Field ''nohz_idle_balance'' unsigned_char,
      Field ''idle_balance'' unsigned_char,
      Field ''misfit_task_load'' long_unsigned_int,
      Field ''active_balance'' c_int,
      Field ''push_cpu'' c_int,
      Field ''active_balance_work'' struct_cpu_stop_work,
      Field ''cpu'' c_int,
      Field ''online'' c_int,
      Field ''cfs_tasks'' struct_list_head,
      Field ''avg_rt'' struct_sched_avg,
      Field ''avg_dl'' struct_sched_avg,
      Field ''idle_stamp'' u64,
      Field ''avg_idle'' u64,
      Field ''max_idle_balance_cost'' u64,
      Field ''hotplug_wait'' struct_rcuwait,
      Field ''prev_steal_time'' u64,
      Field ''calc_load_update'' long_unsigned_int,
      Field ''calc_load_active'' c_long,
      BitField [] c_long 64,
      Field ''hrtick_csd'' call_single_data_t,
      Field ''hrtick_timer'' struct_hrtimer,
      Field ''hrtick_time'' ktime_t,
      Field ''rq_sched_info'' struct_sched_info,
      Field ''rq_cpu_time'' long_long_unsigned_int,
      Field ''yld_count'' unsigned_int,
      Field ''sched_count'' unsigned_int,
      Field ''sched_goidle'' unsigned_int,
      Field ''ttwu_count'' unsigned_int,
      Field ''ttwu_local'' unsigned_int,
      Field ''idle_state'' (CPtr ''struct cpuidle_state''),
      Field ''nr_pinned'' unsigned_int,
      Field ''push_busy'' unsigned_int,
      Field ''push_work'' struct_cpu_stop_work,
      Field ''core'' (CPtr ''struct rq''),
      Field ''core_pick'' (CPtr ''struct task_struct''),
      Field ''core_dl_server'' (CPtr ''struct sched_dl_entity''),
      Field ''core_enabled'' unsigned_int,
      Field ''core_sched_seq'' unsigned_int,
      Field ''core_tree'' struct_rb_root,
      Field ''core_task_seq'' unsigned_int,
      Field ''core_pick_seq'' unsigned_int,
      Field ''core_cookie'' long_unsigned_int,
      Field ''core_forceidle_count'' unsigned_int,
      Field ''core_forceidle_seq'' unsigned_int,
      Field ''core_forceidle_occupation'' unsigned_int,
      Field ''core_forceidle_start'' u64,
      Field ''scratch_mask'' cpumask_var_t,
      Field ''cfsb_csd'' call_single_data_t,
      Field ''cfsb_csd_list'' struct_list_head,
      Field ''nr_iowait'' atomic_t,
      BitField [] c_long 64,
      BitField [] c_long 64,
      BitField [] c_long 64,
      BitField [] c_long 64,
      BitField [] c_long 64]"

definition struct_rseq_slice_ctrl :: cty where
  "struct_rseq_slice_ctrl = CStruct ''rseq_slice_ctrl'' False
     [Field [] (CUnion [] False
        [Field ''all'' c__u32,
         Field [] (CStruct [] False
           [Field ''request'' c__u8,
            Field ''granted'' c__u8,
            Field ''__reserved'' c__u16])])]"

definition struct_rseq :: cty where
  "struct_rseq = CStruct ''rseq'' False
     [Field ''cpu_id_start'' c__u32,
      Field ''cpu_id'' c__u32,
      Field ''rseq_cs'' c__u64,
      Field ''flags'' c__u32,
      Field ''node_id'' c__u32,
      Field ''mm_cid'' c__u32,
      Field ''slice_ctrl'' struct_rseq_slice_ctrl,
      Field ''__reserved'' c__u8,
      Field ''end'' (CArr 0 c_char),
      BitField [] c_long 64,
      BitField [] c_long 64,
      BitField [] c_long 64]"

definition struct_rt_waiter_node :: cty where
  "struct_rt_waiter_node = CStruct ''rt_waiter_node'' False
     [Field ''entry'' struct_rb_node,
      Field ''prio'' c_int,
      Field ''deadline'' u64]"

definition struct_rt_mutex_waiter :: cty where
  "struct_rt_mutex_waiter = CStruct ''rt_mutex_waiter'' False
     [Field ''tree'' struct_rt_waiter_node,
      Field ''pi_tree'' struct_rt_waiter_node,
      Field ''task'' (CPtr ''struct task_struct''),
      Field ''lock'' (CPtr ''struct rt_mutex_base''),
      Field ''wake_state'' unsigned_int,
      Field ''ww_ctx'' (CPtr ''struct ww_acquire_ctx'')]"

definition struct_sched_class :: cty where
  "struct_sched_class = CStruct ''sched_class'' False
     [Field ''uclamp_enabled'' c_int,
      Field ''enqueue_task'' (CPtr ''void (struct rq *, struct task_struct *, int)''),
      Field ''dequeue_task'' (CPtr ''bool (struct rq *, struct task_struct *, int)''),
      Field ''yield_task'' (CPtr ''void (struct rq *)''),
      Field ''yield_to_task'' (CPtr ''bool (struct rq *, struct task_struct *)''),
      Field ''wakeup_preempt'' (CPtr ''void (struct rq *, struct task_struct *, int)''),
      Field ''balance'' (CPtr ''int (struct rq *, struct task_struct *, struct rq_flags *)''),
      Field ''pick_task'' (CPtr ''struct task_struct * (struct rq *, struct rq_flags *)''),
      Field ''pick_next_task'' (CPtr ''struct task_struct * (struct rq *, struct task_struct *, struct rq_flags *)''),
      Field ''put_prev_task'' (CPtr ''void (struct rq *, struct task_struct *, struct task_struct *)''),
      Field ''set_next_task'' (CPtr ''void (struct rq *, struct task_struct *, bool)''),
      Field ''select_task_rq'' (CPtr ''int (struct task_struct *, int, int)''),
      Field ''migrate_task_rq'' (CPtr ''void (struct task_struct *, int)''),
      Field ''task_woken'' (CPtr ''void (struct rq *, struct task_struct *)''),
      Field ''set_cpus_allowed'' (CPtr ''void (struct task_struct *, struct affinity_context *)''),
      Field ''rq_online'' (CPtr ''void (struct rq *)''),
      Field ''rq_offline'' (CPtr ''void (struct rq *)''),
      Field ''find_lock_rq'' (CPtr ''struct rq * (struct task_struct *, struct rq *)''),
      Field ''task_tick'' (CPtr ''void (struct rq *, struct task_struct *, int)''),
      Field ''task_fork'' (CPtr ''void (struct task_struct *)''),
      Field ''task_dead'' (CPtr ''void (struct task_struct *)''),
      Field ''switching_from'' (CPtr ''void (struct rq *, struct task_struct *)''),
      Field ''switched_from'' (CPtr ''void (struct rq *, struct task_struct *)''),
      Field ''switching_to'' (CPtr ''void (struct rq *, struct task_struct *)''),
      Field ''switched_to'' (CPtr ''void (struct rq *, struct task_struct *)''),
      Field ''get_prio'' (CPtr ''u64 (struct rq *, struct task_struct *)''),
      Field ''prio_changed'' (CPtr ''void (struct rq *, struct task_struct *, u64)''),
      Field ''reweight_task'' (CPtr ''void (struct rq *, struct task_struct *, const struct load_weight *)''),
      Field ''get_rr_interval'' (CPtr ''unsigned int (struct rq *, struct task_struct *)''),
      Field ''update_curr'' (CPtr ''void (struct rq *)''),
      Field ''task_change_group'' (CPtr ''void (struct task_struct *)''),
      Field ''task_is_throttled'' (CPtr ''int (struct task_struct *, int)'')]"

definition struct_action_cache :: cty where
  "struct_action_cache = CStruct ''action_cache'' False
     [Field ''allow_native'' (CArr 8 long_unsigned_int),
      Field ''allow_compat'' (CArr 8 long_unsigned_int)]"

definition struct_seccomp_filter :: cty where
  "struct_seccomp_filter = CStruct ''seccomp_filter'' False
     [Field ''refs'' refcount_t,
      Field ''users'' refcount_t,
      Field ''log'' bool,
      Field ''wait_killable_recv'' bool,
      Field ''cache'' struct_action_cache,
      Field ''prev'' (CPtr ''struct seccomp_filter''),
      Field ''prog'' (CPtr ''struct bpf_prog''),
      Field ''notif'' (CPtr ''struct notification''),
      Field ''notify_lock'' struct_mutex,
      Field ''wqh'' wait_queue_head_t]"

definition struct_sem_undo_list :: cty where
  "struct_sem_undo_list = CStruct ''sem_undo_list'' False
     [Field ''refcnt'' refcount_t,
      Field ''lock'' spinlock_t,
      Field ''list_proc'' struct_list_head]"

definition c__sighandler_t :: cty where [layout_simps]:
  "c__sighandler_t = CPtr ''__signalfn_t''"

definition c__sigrestore_t :: cty where [layout_simps]:
  "c__sigrestore_t = CPtr ''__restorefn_t''"

definition struct_sigaction :: cty where
  "struct_sigaction = CStruct ''sigaction'' False
     [Field ''sa_handler'' c__sighandler_t,
      Field ''sa_flags'' long_unsigned_int,
      Field ''sa_restorer'' c__sigrestore_t,
      Field ''sa_mask'' sigset_t]"

definition struct_k_sigaction :: cty where
  "struct_k_sigaction = CStruct ''k_sigaction'' False
     [Field ''sa'' struct_sigaction]"

definition struct_sighand_struct :: cty where
  "struct_sighand_struct = CStruct ''sighand_struct'' False
     [Field ''siglock'' spinlock_t,
      Field ''count'' refcount_t,
      Field ''signalfd_wqh'' wait_queue_head_t,
      Field ''action'' (CArr 64 struct_k_sigaction)]"

definition struct_srcu_ctr :: cty where
  "struct_srcu_ctr = CStruct ''srcu_ctr'' False
     [Field ''srcu_locks'' atomic_long_t,
      Field ''srcu_unlocks'' atomic_long_t]"

definition struct_task_delay_info :: cty where
  "struct_task_delay_info = CStruct ''task_delay_info'' False
     [Field ''lock'' raw_spinlock_t,
      Field ''blkio_start'' u64,
      Field ''blkio_delay_max'' u64,
      Field ''blkio_delay_min'' u64,
      Field ''blkio_delay'' u64,
      Field ''swapin_start'' u64,
      Field ''swapin_delay_max'' u64,
      Field ''swapin_delay_min'' u64,
      Field ''swapin_delay'' u64,
      Field ''blkio_count'' u32,
      Field ''swapin_count'' u32,
      Field ''freepages_start'' u64,
      Field ''freepages_delay_max'' u64,
      Field ''freepages_delay_min'' u64,
      Field ''freepages_delay'' u64,
      Field ''thrashing_start'' u64,
      Field ''thrashing_delay_max'' u64,
      Field ''thrashing_delay_min'' u64,
      Field ''thrashing_delay'' u64,
      Field ''compact_start'' u64,
      Field ''compact_delay_max'' u64,
      Field ''compact_delay_min'' u64,
      Field ''compact_delay'' u64,
      Field ''wpcopy_start'' u64,
      Field ''wpcopy_delay_max'' u64,
      Field ''wpcopy_delay_min'' u64,
      Field ''wpcopy_delay'' u64,
      Field ''irq_delay_max'' u64,
      Field ''irq_delay_min'' u64,
      Field ''irq_delay'' u64,
      Field ''freepages_count'' u32,
      Field ''thrashing_count'' u32,
      Field ''compact_count'' u32,
      Field ''wpcopy_count'' u32,
      Field ''irq_count'' u32,
      Field ''blkio_delay_max_ts'' struct_timespec64,
      Field ''swapin_delay_max_ts'' struct_timespec64,
      Field ''freepages_delay_max_ts'' struct_timespec64,
      Field ''thrashing_delay_max_ts'' struct_timespec64,
      Field ''compact_delay_max_ts'' struct_timespec64,
      Field ''wpcopy_delay_max_ts'' struct_timespec64,
      Field ''irq_delay_max_ts'' struct_timespec64]"

definition struct_scx_task_group :: cty where
  "struct_scx_task_group = CStruct ''scx_task_group'' False
     [Field ''flags'' u32,
      Field ''weight'' u32,
      Field ''bw_period_us'' u64,
      Field ''bw_quota_us'' u64,
      Field ''bw_burst_us'' u64,
      Field ''idle'' bool]"

definition struct_cfs_bandwidth :: cty where
  "struct_cfs_bandwidth = CStruct ''cfs_bandwidth'' False
     [Field ''lock'' raw_spinlock_t,
      Field ''period'' ktime_t,
      Field ''quota'' u64,
      Field ''runtime'' u64,
      Field ''burst'' u64,
      Field ''runtime_snap'' u64,
      Field ''hierarchical_quota'' s64,
      Field ''idle'' u8,
      Field ''period_active'' u8,
      Field ''slack_started'' u8,
      Field ''period_timer'' struct_hrtimer,
      Field ''slack_timer'' struct_hrtimer,
      Field ''throttled_cfs_rq'' struct_list_head,
      Field ''nr_periods'' c_int,
      Field ''nr_throttled'' c_int,
      Field ''nr_burst'' c_int,
      Field ''throttled_time'' u64,
      Field ''burst_time'' u64]"

definition struct_task_group :: cty where
  "struct_task_group = CStruct ''task_group'' False
     [Field ''css'' struct_cgroup_subsys_state,
      Field ''idle'' c_int,
      Field ''se'' (CPtr ''struct sched_entity *''),
      Field ''cfs_rq'' (CPtr ''struct cfs_rq *''),
      Field ''shares'' long_unsigned_int,
      BitField [] c_long 64,
      BitField [] c_long 64,
      Field ''load_avg'' atomic_long_t,
      Field ''scx'' struct_scx_task_group,
      Field ''rcu'' struct_callback_head,
      Field ''list'' struct_list_head,
      Field ''parent'' (CPtr ''struct task_group''),
      Field ''siblings'' struct_list_head,
      Field ''children'' struct_list_head,
      Field ''autogroup'' (CPtr ''struct autogroup''),
      Field ''cfs_bandwidth'' struct_cfs_bandwidth,
      Field ''uclamp_pct'' (CArr 2 unsigned_int),
      Field ''uclamp_req'' (CArr 2 struct_uclamp_se),
      Field ''uclamp'' (CArr 2 struct_uclamp_se),
      BitField [] c_long 64,
      BitField [] c_long 64,
      BitField [] c_long 64,
      BitField [] c_long 64,
      BitField [] c_long 64,
      BitField [] c_long 64,
      BitField [] c_long 64]"

definition struct_taskstats :: cty where
  "struct_taskstats = CStruct ''taskstats'' False
     [Field ''version'' c__u16,
      Field ''ac_exitcode'' c__u32,
      Field ''ac_flag'' c__u8,
      Field ''ac_nice'' c__u8,
      Field ''cpu_count'' c__u64,
      Field ''cpu_delay_total'' c__u64,
      Field ''blkio_count'' c__u64,
      Field ''blkio_delay_total'' c__u64,
      Field ''swapin_count'' c__u64,
      Field ''swapin_delay_total'' c__u64,
      Field ''cpu_run_real_total'' c__u64,
      Field ''cpu_run_virtual_total'' c__u64,
      Field ''ac_comm'' (CArr 32 c_char),
      Field ''ac_sched'' c__u8,
      Field ''ac_pad'' (CArr 3 c__u8),
      BitField [] c_long 0,
      Field ''ac_uid'' c__u32,
      Field ''ac_gid'' c__u32,
      Field ''ac_pid'' c__u32,
      Field ''ac_ppid'' c__u32,
      Field ''ac_btime'' c__u32,
      Field ''ac_etime'' c__u64,
      Field ''ac_utime'' c__u64,
      Field ''ac_stime'' c__u64,
      Field ''ac_minflt'' c__u64,
      Field ''ac_majflt'' c__u64,
      Field ''coremem'' c__u64,
      Field ''virtmem'' c__u64,
      Field ''hiwater_rss'' c__u64,
      Field ''hiwater_vm'' c__u64,
      Field ''read_char'' c__u64,
      Field ''write_char'' c__u64,
      Field ''read_syscalls'' c__u64,
      Field ''write_syscalls'' c__u64,
      Field ''read_bytes'' c__u64,
      Field ''write_bytes'' c__u64,
      Field ''cancelled_write_bytes'' c__u64,
      Field ''nvcsw'' c__u64,
      Field ''nivcsw'' c__u64,
      Field ''ac_utimescaled'' c__u64,
      Field ''ac_stimescaled'' c__u64,
      Field ''cpu_scaled_run_real_total'' c__u64,
      Field ''freepages_count'' c__u64,
      Field ''freepages_delay_total'' c__u64,
      Field ''thrashing_count'' c__u64,
      Field ''thrashing_delay_total'' c__u64,
      Field ''ac_btime64'' c__u64,
      Field ''compact_count'' c__u64,
      Field ''compact_delay_total'' c__u64,
      Field ''ac_tgid'' c__u32,
      Field ''ac_tgetime'' c__u64,
      Field ''ac_exe_dev'' c__u64,
      Field ''ac_exe_inode'' c__u64,
      Field ''wpcopy_count'' c__u64,
      Field ''wpcopy_delay_total'' c__u64,
      Field ''irq_count'' c__u64,
      Field ''irq_delay_total'' c__u64,
      Field ''cpu_delay_max'' c__u64,
      Field ''cpu_delay_min'' c__u64,
      Field ''blkio_delay_max'' c__u64,
      Field ''blkio_delay_min'' c__u64,
      Field ''swapin_delay_max'' c__u64,
      Field ''swapin_delay_min'' c__u64,
      Field ''freepages_delay_max'' c__u64,
      Field ''freepages_delay_min'' c__u64,
      Field ''thrashing_delay_max'' c__u64,
      Field ''thrashing_delay_min'' c__u64,
      Field ''compact_delay_max'' c__u64,
      Field ''compact_delay_min'' c__u64,
      Field ''wpcopy_delay_max'' c__u64,
      Field ''wpcopy_delay_min'' c__u64,
      Field ''irq_delay_max'' c__u64,
      Field ''irq_delay_min'' c__u64,
      Field ''cpu_delay_max_ts'' struct___kernel_timespec,
      Field ''blkio_delay_max_ts'' struct___kernel_timespec,
      Field ''swapin_delay_max_ts'' struct___kernel_timespec,
      Field ''freepages_delay_max_ts'' struct___kernel_timespec,
      Field ''thrashing_delay_max_ts'' struct___kernel_timespec,
      Field ''compact_delay_max_ts'' struct___kernel_timespec,
      Field ''wpcopy_delay_max_ts'' struct___kernel_timespec,
      Field ''irq_delay_max_ts'' struct___kernel_timespec]"

definition struct_tty_audit_buf :: cty where
  "struct_tty_audit_buf = CStruct ''tty_audit_buf'' False
     [Field ''mutex'' struct_mutex,
      Field ''dev'' dev_t,
      Field ''icanon'' bool,
      Field ''valid'' size_t,
      Field ''data'' (CPtr ''u8'')]"

definition struct_ld_semaphore :: cty where
  "struct_ld_semaphore = CStruct ''ld_semaphore'' False
     [Field ''count'' atomic_long_t,
      Field ''wait_lock'' raw_spinlock_t,
      Field ''wait_readers'' unsigned_int,
      Field ''read_wait'' struct_list_head,
      Field ''write_wait'' struct_list_head]"

definition tcflag_t :: cty where [layout_simps]:
  "tcflag_t = unsigned_int"

definition cc_t :: cty where [layout_simps]:
  "cc_t = unsigned_char"

definition speed_t :: cty where [layout_simps]:
  "speed_t = unsigned_int"

definition struct_ktermios :: cty where
  "struct_ktermios = CStruct ''ktermios'' False
     [Field ''c_iflag'' tcflag_t,
      Field ''c_oflag'' tcflag_t,
      Field ''c_cflag'' tcflag_t,
      Field ''c_lflag'' tcflag_t,
      Field ''c_line'' cc_t,
      Field ''c_cc'' (CArr 19 cc_t),
      Field ''c_ispeed'' speed_t,
      Field ''c_ospeed'' speed_t]"

definition struct_winsize :: cty where
  "struct_winsize = CStruct ''winsize'' False
     [Field ''ws_row'' short_unsigned_int,
      Field ''ws_col'' short_unsigned_int,
      Field ''ws_xpixel'' short_unsigned_int,
      Field ''ws_ypixel'' short_unsigned_int]"

definition struct_tty_struct :: cty where
  "struct_tty_struct = CStruct ''tty_struct'' False
     [Field ''kref'' struct_kref,
      Field ''index'' c_int,
      Field ''dev'' (CPtr ''struct device''),
      Field ''driver'' (CPtr ''struct tty_driver''),
      Field ''port'' (CPtr ''struct tty_port''),
      Field ''ops'' (CPtr ''const struct tty_operations''),
      Field ''ldisc'' (CPtr ''struct tty_ldisc''),
      Field ''ldisc_sem'' struct_ld_semaphore,
      Field ''atomic_write_lock'' struct_mutex,
      Field ''legacy_mutex'' struct_mutex,
      Field ''throttle_mutex'' struct_mutex,
      Field ''termios_rwsem'' struct_rw_semaphore,
      Field ''winsize_mutex'' struct_mutex,
      Field ''termios'' struct_ktermios,
      Field ''termios_locked'' struct_ktermios,
      Field ''name'' (CArr 64 c_char),
      Field ''flags'' long_unsigned_int,
      Field ''count'' c_int,
      Field ''receive_room'' unsigned_int,
      Field ''winsize'' struct_winsize,
      Field ''flow'' (CStruct [] False
        [Field ''lock'' spinlock_t,
         Field ''stopped'' bool,
         Field ''tco_stopped'' bool]),
      Field ''ctrl'' (CStruct [] False
        [Field ''pgrp'' (CPtr ''struct pid''),
         Field ''session'' (CPtr ''struct pid''),
         Field ''lock'' spinlock_t,
         Field ''pktstatus'' unsigned_char,
         Field ''packet'' bool]),
      Field ''hw_stopped'' bool,
      Field ''closing'' bool,
      Field ''flow_change'' c_int,
      Field ''link'' (CPtr ''struct tty_struct''),
      Field ''fasync'' (CPtr ''struct fasync_struct''),
      Field ''write_wait'' wait_queue_head_t,
      Field ''read_wait'' wait_queue_head_t,
      Field ''hangup_work'' struct_work_struct,
      Field ''disc_data'' (CPtr ''void''),
      Field ''driver_data'' (CPtr ''void''),
      Field ''files_lock'' spinlock_t,
      Field ''write_cnt'' c_int,
      Field ''write_buf'' (CPtr ''u8''),
      Field ''tty_files'' struct_list_head,
      Field ''SAK_work'' struct_work_struct]"

definition struct_hlist_nulls_node :: cty where
  "struct_hlist_nulls_node = CStruct ''hlist_nulls_node'' False
     [Field ''next'' (CPtr ''struct hlist_nulls_node''),
      Field ''pprev'' (CPtr ''struct hlist_nulls_node *'')]"

definition rcuref_t :: cty where
  "rcuref_t = CStruct [] False
      [Field ''refcnt'' atomic_t]"

definition struct_ucounts :: cty where
  "struct_ucounts = CStruct ''ucounts'' False
     [Field ''node'' struct_hlist_nulls_node,
      Field ''ns'' (CPtr ''struct user_namespace''),
      Field ''uid'' kuid_t,
      Field ''rcu'' struct_callback_head,
      Field ''count'' rcuref_t,
      Field ''ucount'' (CArr 12 atomic_long_t),
      Field ''rlimit'' (CArr 4 atomic_long_t)]"

definition struct_unwind_cache :: cty where
  "struct_unwind_cache = CStruct ''unwind_cache'' False
     [Field ''unwind_completed'' long_unsigned_int,
      Field ''nr_entries'' unsigned_int,
      Field ''entries'' (CArr 0 long_unsigned_int)]"

definition enum_uprobe_task_state :: cty where
  "enum_uprobe_task_state = CEnum 4
     [(''UTASK_RUNNING'', 0), (''UTASK_SSTEP'', 1), (''UTASK_SSTEP_ACK'', 2),
      (''UTASK_SSTEP_TRAPPED'', 3)]"

definition struct_arch_uprobe_task :: cty where
  "struct_arch_uprobe_task = CStruct ''arch_uprobe_task'' False
     [Field ''saved_scratch_register'' long_unsigned_int,
      Field ''saved_trap_nr'' unsigned_int,
      Field ''saved_tf'' unsigned_int]"

definition struct_uprobe_task :: cty where
  "struct_uprobe_task = CStruct ''uprobe_task'' False
     [Field ''state'' enum_uprobe_task_state,
      Field ''depth'' unsigned_int,
      Field ''return_instances'' (CPtr ''struct return_instance''),
      Field ''ri_pool'' (CPtr ''struct return_instance''),
      Field ''ri_timer'' struct_timer_list,
      Field ''ri_seqcount'' seqcount_t,
      Field [] (CUnion [] False
        [Field [] (CStruct [] False
           [Field ''autask'' struct_arch_uprobe_task,
            Field ''vaddr'' long_unsigned_int]),
         Field [] (CStruct [] False
           [Field ''dup_xol_work'' struct_callback_head,
            Field ''dup_xol_addr'' long_unsigned_int])]),
      Field ''active_uprobe'' (CPtr ''struct uprobe''),
      Field ''xol_vaddr'' long_unsigned_int,
      Field ''signal_denied'' bool,
      Field ''auprobe'' (CPtr ''struct arch_uprobe'')]"

definition struct_user_event_mm :: cty where
  "struct_user_event_mm = CStruct ''user_event_mm'' False
     [Field ''mms_link'' struct_list_head,
      Field ''enablers'' struct_list_head,
      Field ''mm'' (CPtr ''struct mm_struct''),
      Field ''next'' (CPtr ''struct user_event_mm''),
      Field ''refcnt'' refcount_t,
      Field ''tasks'' refcount_t,
      Field ''put_rwork'' struct_rcu_work]"

definition struct_ratelimit_state :: cty where
  "struct_ratelimit_state = CStruct ''ratelimit_state'' False
     [Field ''lock'' raw_spinlock_t,
      Field ''interval'' c_int,
      Field ''burst'' c_int,
      Field ''rs_n_left'' atomic_t,
      Field ''missed'' atomic_t,
      Field ''flags'' unsigned_int,
      Field ''begin'' long_unsigned_int]"

definition struct_user_struct :: cty where
  "struct_user_struct = CStruct ''user_struct'' False
     [Field ''__count'' refcount_t,
      Field ''epoll_watches'' struct_percpu_counter,
      Field ''unix_inflight'' long_unsigned_int,
      Field ''pipe_bufs'' atomic_long_t,
      Field ''uidhash_node'' struct_hlist_node,
      Field ''uid'' kuid_t,
      Field ''locked_vm'' atomic_long_t,
      Field ''nr_watches'' atomic_t,
      Field ''ratelimit'' struct_ratelimit_state]"

definition struct_vm_struct :: cty where
  "struct_vm_struct = CStruct ''vm_struct'' False
     [Field [] (CUnion [] False
        [Field ''next'' (CPtr ''struct vm_struct''),
         Field ''llnode'' struct_llist_node]),
      Field ''addr'' (CPtr ''void''),
      Field ''size'' long_unsigned_int,
      Field ''flags'' long_unsigned_int,
      Field ''pages'' (CPtr ''struct page *''),
      Field ''page_order'' unsigned_int,
      Field ''nr_pages'' unsigned_int,
      Field ''phys_addr'' phys_addr_t,
      Field ''caller'' (CPtr ''const void''),
      Field ''requested_size'' long_unsigned_int]"

definition c__kernel_timer_t :: cty where [layout_simps]:
  "c__kernel_timer_t = c_int"

definition union_sigval :: cty where
  "union_sigval = CUnion ''sigval'' False
     [Field ''sival_int'' c_int,
      Field ''sival_ptr'' (CPtr ''void'')]"

definition sigval_t :: cty where [layout_simps]:
  "sigval_t = union_sigval"

definition c__kernel_clock_t :: cty where [layout_simps]:
  "c__kernel_clock_t = c__kernel_long_t"

definition union___sifields :: cty where
  "union___sifields = CUnion ''__sifields'' False
     [Field ''_kill'' (CStruct [] False
        [Field ''_pid'' c__kernel_pid_t,
         Field ''_uid'' c__kernel_uid32_t]),
      Field ''_timer'' (CStruct [] False
        [Field ''_tid'' c__kernel_timer_t,
         Field ''_overrun'' c_int,
         Field ''_sigval'' sigval_t,
         Field ''_sys_private'' c_int]),
      Field ''_rt'' (CStruct [] False
        [Field ''_pid'' c__kernel_pid_t,
         Field ''_uid'' c__kernel_uid32_t,
         Field ''_sigval'' sigval_t]),
      Field ''_sigchld'' (CStruct [] False
        [Field ''_pid'' c__kernel_pid_t,
         Field ''_uid'' c__kernel_uid32_t,
         Field ''_status'' c_int,
         Field ''_utime'' c__kernel_clock_t,
         Field ''_stime'' c__kernel_clock_t]),
      Field ''_sigfault'' (CStruct [] False
        [Field ''_addr'' (CPtr ''void''),
         Field [] (CUnion [] False
           [Field ''_trapno'' c_int,
            Field ''_addr_lsb'' short_int,
            Field ''_addr_bnd'' (CStruct [] False
              [Field ''_dummy_bnd'' (CArr 8 c_char),
               Field ''_lower'' (CPtr ''void''),
               Field ''_upper'' (CPtr ''void'')]),
            Field ''_addr_pkey'' (CStruct [] False
              [Field ''_dummy_pkey'' (CArr 8 c_char),
               Field ''_pkey'' c__u32]),
            Field ''_perf'' (CStruct [] False
              [Field ''_data'' long_unsigned_int,
               Field ''_type'' c__u32,
               Field ''_flags'' c__u32])])]),
      Field ''_sigpoll'' (CStruct [] False
        [Field ''_band'' c_long,
         Field ''_fd'' c_int]),
      Field ''_sigsys'' (CStruct [] False
        [Field ''_call_addr'' (CPtr ''void''),
         Field ''_syscall'' c_int,
         Field ''_arch'' unsigned_int])]"

definition struct_kernel_siginfo :: cty where
  "struct_kernel_siginfo = CStruct ''kernel_siginfo'' False
     [Field [] (CStruct [] False
        [Field ''si_signo'' c_int,
         Field ''si_errno'' c_int,
         Field ''si_code'' c_int,
         Field ''_sifields'' union___sifields])]"

definition kernel_siginfo_t :: cty where [layout_simps]:
  "kernel_siginfo_t = struct_kernel_siginfo"

section \<open>Sizes and alignments\<close>

lemma struct___call_single_data_layout [layout_simps]:
  "sizeof struct___call_single_data = 32 \<and> alignof struct___call_single_data = 8 \<and> wf_cty struct___call_single_data"
  by (simp add: struct___call_single_data_def base_types layout_eval struct___call_single_node_layout smp_call_func_t_def
      del: One_nat_def)

lemma struct_uclamp_bucket_layout [layout_simps]:
  "sizeof struct_uclamp_bucket = 8 \<and> alignof struct_uclamp_bucket = 8 \<and> wf_cty struct_uclamp_bucket"
  by (simp add: struct_uclamp_bucket_def base_types layout_eval
      del: One_nat_def)

lemma struct_uclamp_rq_layout [layout_simps]:
  "sizeof struct_uclamp_rq = 48 \<and> alignof struct_uclamp_rq = 8 \<and> wf_cty struct_uclamp_rq"
  by (simp add: struct_uclamp_rq_def base_types layout_eval struct_uclamp_bucket_layout
      del: One_nat_def)

lemma struct_rt_prio_array_layout [layout_simps]:
  "sizeof struct_rt_prio_array = 1616 \<and> alignof struct_rt_prio_array = 8 \<and> wf_cty struct_rt_prio_array"
  by (simp add: struct_rt_prio_array_def base_types layout_eval struct_list_head_layout
      del: One_nat_def)

lemma struct_plist_head_layout [layout_simps]:
  "sizeof struct_plist_head = 16 \<and> alignof struct_plist_head = 8 \<and> wf_cty struct_plist_head"
  by (simp add: struct_plist_head_def base_types layout_eval struct_list_head_layout
      del: One_nat_def)

lemma struct_rt_rq_layout [layout_simps]:
  "sizeof struct_rt_rq = 1672 \<and> alignof struct_rt_rq = 8 \<and> wf_cty struct_rt_rq"
  by (simp add: struct_rt_rq_def base_types layout_eval struct_rt_prio_array_layout bool_def struct_plist_head_layout
      del: One_nat_def)

lemma struct_dl_rq_layout [layout_simps]:
  "sizeof struct_dl_rq = 104 \<and> alignof struct_dl_rq = 8 \<and> wf_cty struct_dl_rq"
  by (simp add: struct_dl_rq_def base_types layout_eval struct_rb_root_cached_layout u64_def c__u64_def bool_def
      del: One_nat_def)

lemma struct_scx_dispatch_q_layout [layout_simps]:
  "sizeof struct_scx_dispatch_q = 88 \<and> alignof struct_scx_dispatch_q = 8 \<and> wf_cty struct_scx_dispatch_q"
  by (simp add: struct_scx_dispatch_q_def base_types layout_eval raw_spinlock_t_def struct_raw_spinlock_layout
      struct_list_head_layout struct_rb_root_layout u32_def c__u32_def u64_def c__u64_def
      struct_rhash_head_layout struct_llist_node_layout struct_callback_head_layout
      del: One_nat_def)

lemma struct_balance_callback_layout [layout_simps]:
  "sizeof struct_balance_callback = 16 \<and> alignof struct_balance_callback = 8 \<and> wf_cty struct_balance_callback"
  by (simp add: struct_balance_callback_def base_types layout_eval
      del: One_nat_def)

lemma struct_scx_rq_layout [layout_simps]:
  "sizeof struct_scx_rq = 408 \<and> alignof struct_scx_rq = 8 \<and> wf_cty struct_scx_rq"
  by (simp add: struct_scx_rq_def base_types layout_eval struct_scx_dispatch_q_layout struct_list_head_layout u64_def
      c__u64_def u32_def c__u32_def bool_def cpumask_var_t_def local_t_layout
      struct_balance_callback_layout struct_irq_work_layout
      del: One_nat_def)

lemma struct_cpu_stop_work_layout [layout_simps]:
  "sizeof struct_cpu_stop_work = 48 \<and> alignof struct_cpu_stop_work = 8 \<and> wf_cty struct_cpu_stop_work"
  by (simp add: struct_cpu_stop_work_def base_types layout_eval struct_list_head_layout cpu_stop_fn_t_def
      del: One_nat_def)

lemma struct_rq_layout [layout_simps]:
  "sizeof struct_rq = 4352 \<and> alignof struct_rq = 8 \<and> wf_cty struct_rq"
  by (simp add: struct_rq_def base_types layout_eval u64_def c__u64_def raw_spinlock_t_def struct_raw_spinlock_layout
      atomic_t_layout call_single_data_t_def struct___call_single_data_layout struct_uclamp_rq_layout
      struct_cfs_rq_layout struct_rt_rq_layout struct_dl_rq_layout struct_scx_rq_layout
      struct_sched_dl_entity_layout struct_list_head_layout struct_cpu_stop_work_layout
      struct_sched_avg_layout struct_rcuwait_layout struct_hrtimer_layout ktime_t_def s64_def c__s64_def
      struct_sched_info_layout struct_rb_root_layout cpumask_var_t_def
      del: One_nat_def)

lemma struct_rseq_slice_ctrl_layout [layout_simps]:
  "sizeof struct_rseq_slice_ctrl = 4 \<and> alignof struct_rseq_slice_ctrl = 4 \<and> wf_cty struct_rseq_slice_ctrl"
  by (simp add: struct_rseq_slice_ctrl_def base_types layout_eval c__u32_def c__u8_def c__u16_def
      del: One_nat_def)

lemma struct_rseq_layout [layout_simps]:
  "sizeof struct_rseq = 64 \<and> alignof struct_rseq = 8 \<and> wf_cty struct_rseq"
  by (simp add: struct_rseq_def base_types layout_eval c__u32_def c__u64_def struct_rseq_slice_ctrl_layout c__u8_def
      del: One_nat_def)

lemma struct_rt_waiter_node_layout [layout_simps]:
  "sizeof struct_rt_waiter_node = 40 \<and> alignof struct_rt_waiter_node = 8 \<and> wf_cty struct_rt_waiter_node"
  by (simp add: struct_rt_waiter_node_def base_types layout_eval struct_rb_node_layout u64_def c__u64_def
      del: One_nat_def)

lemma struct_rt_mutex_waiter_layout [layout_simps]:
  "sizeof struct_rt_mutex_waiter = 112 \<and> alignof struct_rt_mutex_waiter = 8 \<and> wf_cty struct_rt_mutex_waiter"
  by (simp add: struct_rt_mutex_waiter_def base_types layout_eval struct_rt_waiter_node_layout
      del: One_nat_def)

lemma struct_sched_class_layout [layout_simps]:
  "sizeof struct_sched_class = 256 \<and> alignof struct_sched_class = 8 \<and> wf_cty struct_sched_class"
  by (simp add: struct_sched_class_def base_types layout_eval
      del: One_nat_def)

lemma struct_action_cache_layout [layout_simps]:
  "sizeof struct_action_cache = 128 \<and> alignof struct_action_cache = 8 \<and> wf_cty struct_action_cache"
  by (simp add: struct_action_cache_def base_types layout_eval
      del: One_nat_def)

lemma struct_seccomp_filter_layout [layout_simps]:
  "sizeof struct_seccomp_filter = 224 \<and> alignof struct_seccomp_filter = 8 \<and> wf_cty struct_seccomp_filter"
  by (simp add: struct_seccomp_filter_def base_types layout_eval refcount_t_def struct_refcount_struct_layout bool_def
      struct_action_cache_layout struct_mutex_layout wait_queue_head_t_def struct_wait_queue_head_layout
      del: One_nat_def)

lemma struct_sem_undo_list_layout [layout_simps]:
  "sizeof struct_sem_undo_list = 24 \<and> alignof struct_sem_undo_list = 8 \<and> wf_cty struct_sem_undo_list"
  by (simp add: struct_sem_undo_list_def base_types layout_eval refcount_t_def struct_refcount_struct_layout
      spinlock_t_def struct_spinlock_layout struct_list_head_layout
      del: One_nat_def)

lemma struct_sigaction_layout [layout_simps]:
  "sizeof struct_sigaction = 32 \<and> alignof struct_sigaction = 8 \<and> wf_cty struct_sigaction"
  by (simp add: struct_sigaction_def base_types layout_eval c__sighandler_t_def c__sigrestore_t_def sigset_t_layout
      del: One_nat_def)

lemma struct_k_sigaction_layout [layout_simps]:
  "sizeof struct_k_sigaction = 32 \<and> alignof struct_k_sigaction = 8 \<and> wf_cty struct_k_sigaction"
  by (simp add: struct_k_sigaction_def base_types layout_eval struct_sigaction_layout
      del: One_nat_def)

lemma struct_sighand_struct_layout [layout_simps]:
  "sizeof struct_sighand_struct = 2080 \<and> alignof struct_sighand_struct = 8 \<and> wf_cty struct_sighand_struct"
  by (simp add: struct_sighand_struct_def base_types layout_eval spinlock_t_def struct_spinlock_layout refcount_t_def
      struct_refcount_struct_layout wait_queue_head_t_def struct_wait_queue_head_layout
      struct_k_sigaction_layout
      del: One_nat_def)

lemma struct_srcu_ctr_layout [layout_simps]:
  "sizeof struct_srcu_ctr = 16 \<and> alignof struct_srcu_ctr = 8 \<and> wf_cty struct_srcu_ctr"
  by (simp add: struct_srcu_ctr_def base_types layout_eval atomic_long_t_def atomic64_t_layout
      del: One_nat_def)

lemma struct_task_delay_info_layout [layout_simps]:
  "sizeof struct_task_delay_info = 368 \<and> alignof struct_task_delay_info = 8 \<and> wf_cty struct_task_delay_info"
  by (simp add: struct_task_delay_info_def base_types layout_eval raw_spinlock_t_def struct_raw_spinlock_layout u64_def
      c__u64_def u32_def c__u32_def struct_timespec64_layout
      del: One_nat_def)

lemma struct_scx_task_group_layout [layout_simps]:
  "sizeof struct_scx_task_group = 40 \<and> alignof struct_scx_task_group = 8 \<and> wf_cty struct_scx_task_group"
  by (simp add: struct_scx_task_group_def base_types layout_eval u32_def c__u32_def u64_def c__u64_def bool_def
      del: One_nat_def)

lemma struct_cfs_bandwidth_layout [layout_simps]:
  "sizeof struct_cfs_bandwidth = 240 \<and> alignof struct_cfs_bandwidth = 8 \<and> wf_cty struct_cfs_bandwidth"
  by (simp add: struct_cfs_bandwidth_def base_types layout_eval raw_spinlock_t_def struct_raw_spinlock_layout ktime_t_def
      s64_def c__s64_def u64_def c__u64_def u8_def c__u8_def struct_hrtimer_layout
      struct_list_head_layout
      del: One_nat_def)

lemma struct_task_group_layout [layout_simps]:
  "sizeof struct_task_group = 704 \<and> alignof struct_task_group = 8 \<and> wf_cty struct_task_group"
  by (simp add: struct_task_group_def base_types layout_eval struct_cgroup_subsys_state_layout atomic_long_t_def
      atomic64_t_layout struct_scx_task_group_layout struct_callback_head_layout struct_list_head_layout
      struct_cfs_bandwidth_layout struct_uclamp_se_layout
      del: One_nat_def)

lemma struct_taskstats_layout [layout_simps]:
  "sizeof struct_taskstats = 688 \<and> alignof struct_taskstats = 8 \<and> wf_cty struct_taskstats"
  by (simp add: struct_taskstats_def base_types layout_eval c__u16_def c__u32_def c__u8_def c__u64_def
      struct___kernel_timespec_layout
      del: One_nat_def)

lemma struct_tty_audit_buf_layout [layout_simps]:
  "sizeof struct_tty_audit_buf = 56 \<and> alignof struct_tty_audit_buf = 8 \<and> wf_cty struct_tty_audit_buf"
  by (simp add: struct_tty_audit_buf_def base_types layout_eval struct_mutex_layout dev_t_def c__kernel_dev_t_def u32_def
      c__u32_def bool_def size_t_def c__kernel_size_t_def c__kernel_ulong_t_def
      del: One_nat_def)

lemma struct_ld_semaphore_layout [layout_simps]:
  "sizeof struct_ld_semaphore = 48 \<and> alignof struct_ld_semaphore = 8 \<and> wf_cty struct_ld_semaphore"
  by (simp add: struct_ld_semaphore_def base_types layout_eval atomic_long_t_def atomic64_t_layout raw_spinlock_t_def
      struct_raw_spinlock_layout struct_list_head_layout
      del: One_nat_def)

lemma struct_ktermios_layout [layout_simps]:
  "sizeof struct_ktermios = 44 \<and> alignof struct_ktermios = 4 \<and> wf_cty struct_ktermios"
  by (simp add: struct_ktermios_def base_types layout_eval tcflag_t_def cc_t_def speed_t_def
      del: One_nat_def)

lemma struct_winsize_layout [layout_simps]:
  "sizeof struct_winsize = 8 \<and> alignof struct_winsize = 2 \<and> wf_cty struct_winsize"
  by (simp add: struct_winsize_def base_types layout_eval
      del: One_nat_def)

lemma struct_tty_struct_layout [layout_simps]:
  "sizeof struct_tty_struct = 656 \<and> alignof struct_tty_struct = 8 \<and> wf_cty struct_tty_struct"
  by (simp add: struct_tty_struct_def base_types layout_eval struct_kref_layout struct_ld_semaphore_layout
      struct_mutex_layout struct_rw_semaphore_layout struct_ktermios_layout struct_winsize_layout
      spinlock_t_def struct_spinlock_layout bool_def wait_queue_head_t_def struct_wait_queue_head_layout
      struct_work_struct_layout struct_list_head_layout
      del: One_nat_def)

lemma struct_hlist_nulls_node_layout [layout_simps]:
  "sizeof struct_hlist_nulls_node = 16 \<and> alignof struct_hlist_nulls_node = 8 \<and> wf_cty struct_hlist_nulls_node"
  by (simp add: struct_hlist_nulls_node_def base_types layout_eval
      del: One_nat_def)

lemma rcuref_t_layout [layout_simps]:
  "sizeof rcuref_t = 4 \<and> alignof rcuref_t = 4 \<and> wf_cty rcuref_t"
  by (simp add: rcuref_t_def base_types layout_eval atomic_t_layout
      del: One_nat_def)

lemma struct_ucounts_layout [layout_simps]:
  "sizeof struct_ucounts = 184 \<and> alignof struct_ucounts = 8 \<and> wf_cty struct_ucounts"
  by (simp add: struct_ucounts_def base_types layout_eval struct_hlist_nulls_node_layout kuid_t_layout
      struct_callback_head_layout rcuref_t_layout atomic_long_t_def atomic64_t_layout
      del: One_nat_def)

lemma struct_unwind_cache_layout [layout_simps]:
  "sizeof struct_unwind_cache = 16 \<and> alignof struct_unwind_cache = 8 \<and> wf_cty struct_unwind_cache"
  by (simp add: struct_unwind_cache_def base_types layout_eval
      del: One_nat_def)

lemma enum_uprobe_task_state_layout [layout_simps]:
  "sizeof enum_uprobe_task_state = 4 \<and> alignof enum_uprobe_task_state = 4 \<and> wf_cty enum_uprobe_task_state"
  by (simp add: enum_uprobe_task_state_def base_types layout_eval
      del: One_nat_def)

lemma struct_arch_uprobe_task_layout [layout_simps]:
  "sizeof struct_arch_uprobe_task = 16 \<and> alignof struct_arch_uprobe_task = 8 \<and> wf_cty struct_arch_uprobe_task"
  by (simp add: struct_arch_uprobe_task_def base_types layout_eval
      del: One_nat_def)

lemma struct_uprobe_task_layout [layout_simps]:
  "sizeof struct_uprobe_task = 128 \<and> alignof struct_uprobe_task = 8 \<and> wf_cty struct_uprobe_task"
  by (simp add: struct_uprobe_task_def base_types layout_eval enum_uprobe_task_state_layout struct_timer_list_layout
      seqcount_t_def struct_seqcount_layout struct_arch_uprobe_task_layout struct_callback_head_layout
      bool_def
      del: One_nat_def)

lemma struct_user_event_mm_layout [layout_simps]:
  "sizeof struct_user_event_mm = 112 \<and> alignof struct_user_event_mm = 8 \<and> wf_cty struct_user_event_mm"
  by (simp add: struct_user_event_mm_def base_types layout_eval struct_list_head_layout refcount_t_def
      struct_refcount_struct_layout struct_rcu_work_layout
      del: One_nat_def)

lemma struct_ratelimit_state_layout [layout_simps]:
  "sizeof struct_ratelimit_state = 32 \<and> alignof struct_ratelimit_state = 8 \<and> wf_cty struct_ratelimit_state"
  by (simp add: struct_ratelimit_state_def base_types layout_eval raw_spinlock_t_def struct_raw_spinlock_layout
      atomic_t_layout
      del: One_nat_def)

lemma struct_user_struct_layout [layout_simps]:
  "sizeof struct_user_struct = 136 \<and> alignof struct_user_struct = 8 \<and> wf_cty struct_user_struct"
  by (simp add: struct_user_struct_def base_types layout_eval refcount_t_def struct_refcount_struct_layout
      struct_percpu_counter_layout atomic_long_t_def atomic64_t_layout struct_hlist_node_layout
      kuid_t_layout atomic_t_layout struct_ratelimit_state_layout
      del: One_nat_def)

lemma struct_vm_struct_layout [layout_simps]:
  "sizeof struct_vm_struct = 72 \<and> alignof struct_vm_struct = 8 \<and> wf_cty struct_vm_struct"
  by (simp add: struct_vm_struct_def base_types layout_eval struct_llist_node_layout phys_addr_t_def u64_def c__u64_def
      del: One_nat_def)

lemma union_sigval_layout [layout_simps]:
  "sizeof union_sigval = 8 \<and> alignof union_sigval = 8 \<and> wf_cty union_sigval"
  by (simp add: union_sigval_def base_types layout_eval
      del: One_nat_def)

lemma union___sifields_layout [layout_simps]:
  "sizeof union___sifields = 32 \<and> alignof union___sifields = 8 \<and> wf_cty union___sifields"
  by (simp add: union___sifields_def base_types layout_eval c__kernel_pid_t_def c__kernel_uid32_t_def
      c__kernel_timer_t_def sigval_t_def union_sigval_layout c__kernel_clock_t_def c__kernel_long_t_def
      c__u32_def
      del: One_nat_def)

lemma struct_kernel_siginfo_layout [layout_simps]:
  "sizeof struct_kernel_siginfo = 48 \<and> alignof struct_kernel_siginfo = 8 \<and> wf_cty struct_kernel_siginfo"
  by (simp add: struct_kernel_siginfo_def base_types layout_eval union___sifields_layout
      del: One_nat_def)

end
