(* ===== verification/KernelBpfRefs.thy ===== *)
theory KernelBpfRefs
  imports KernelCgroupRefs KernelTaskRefs2
begin

text \<open>
  Types of \<^verbatim>\<open>bpf/vmlinux.h\<close> that the objects of \<open>KernelBpf\<close> (maps, programs and trampolines; also those of \<open>KernelDrm\<close>) point to, one
  dereference away, with every type they hold by value.
\<close>

section \<open>Types\<close>

definition struct_bpf_array_aux :: cty where
  "struct_bpf_array_aux = CStruct ''bpf_array_aux'' False
     [Field ''poke_progs'' struct_list_head,
      Field ''map'' (CPtr ''struct bpf_map''),
      Field ''poke_mutex'' struct_mutex,
      Field ''work'' struct_work_struct]"

definition struct_bpf_ctx_arg_aux :: cty where
  "struct_bpf_ctx_arg_aux = CStruct ''bpf_ctx_arg_aux'' False
     [Field ''offset'' u32,
      Field ''reg_type'' enum_bpf_reg_type,
      Field ''btf'' (CPtr ''struct btf''),
      Field ''btf_id'' u32,
      Field ''ref_obj_id'' u32,
      Field ''refcounted'' bool]"

definition struct_bpf_func_info :: cty where
  "struct_bpf_func_info = CStruct ''bpf_func_info'' False
     [Field ''insn_off'' c__u32,
      Field ''type_id'' c__u32]"

definition struct_bpf_func_info_aux :: cty where
  "struct_bpf_func_info_aux = CStruct ''bpf_func_info_aux'' False
     [Field ''linkage'' u16,
      Field ''unreliable'' bool,
      BitField ''called'' bool 1,
      BitField ''verified'' bool 1]"

definition struct_bpf_jit_poke_descriptor :: cty where
  "struct_bpf_jit_poke_descriptor = CStruct ''bpf_jit_poke_descriptor'' False
     [Field ''tailcall_target'' (CPtr ''void''),
      Field ''tailcall_bypass'' (CPtr ''void''),
      Field ''bypass_addr'' (CPtr ''void''),
      Field ''aux'' (CPtr ''void''),
      Field [] (CUnion [] False
        [Field ''tail_call'' (CStruct [] False
           [Field ''map'' (CPtr ''struct bpf_map''),
            Field ''key'' u32])]),
      Field ''tailcall_target_stable'' bool,
      Field ''adj_off'' u8,
      Field ''reason'' u16,
      Field ''insn_idx'' u32]"

definition struct_bpf_kfunc_btf :: cty where
  "struct_bpf_kfunc_btf = CStruct ''bpf_kfunc_btf'' False
     [Field ''btf'' (CPtr ''struct btf''),
      Field ''module'' (CPtr ''struct module''),
      Field ''offset'' u16]"

definition struct_bpf_kfunc_btf_tab :: cty where
  "struct_bpf_kfunc_btf_tab = CStruct ''bpf_kfunc_btf_tab'' False
     [Field ''descs'' (CArr 256 struct_bpf_kfunc_btf),
      Field ''nr_descs'' u32]"

definition struct_bpf_kfunc_desc :: cty where
  "struct_bpf_kfunc_desc = CStruct ''bpf_kfunc_desc'' False
     [Field ''func_model'' struct_btf_func_model,
      Field ''func_id'' u32,
      Field ''imm'' s32,
      Field ''offset'' u16,
      Field ''addr'' long_unsigned_int]"

definition struct_bpf_kfunc_desc_tab :: cty where
  "struct_bpf_kfunc_desc_tab = CStruct ''bpf_kfunc_desc_tab'' False
     [Field ''descs'' (CArr 256 struct_bpf_kfunc_desc),
      Field ''nr_descs'' u32]"

definition struct_bpf_line_info :: cty where
  "struct_bpf_line_info = CStruct ''bpf_line_info'' False
     [Field ''insn_off'' c__u32,
      Field ''file_name_off'' c__u32,
      Field ''line_off'' c__u32,
      Field ''line_col'' c__u32]"

definition struct_bpf_lru_locallist :: cty where
  "struct_bpf_lru_locallist = CStruct ''bpf_lru_locallist'' False
     [Field ''lists'' (CArr 2 struct_list_head),
      Field ''next_steal'' u16,
      Field ''lock'' raw_spinlock_t]"

definition struct_bpf_map_owner :: cty where
  "struct_bpf_map_owner = CStruct ''bpf_map_owner'' False
     [Field ''type'' enum_bpf_prog_type,
      Field ''jited'' bool,
      Field ''xdp_has_frags'' bool,
      Field ''sleepable'' bool,
      Field ''storage_cookie'' (CArr 2 u64),
      Field ''attach_func_proto'' (CPtr ''const struct btf_type''),
      Field ''expected_attach_type'' enum_bpf_attach_type]"

definition struct_bpf_mem_cache :: cty where
  "struct_bpf_mem_cache = CStruct ''bpf_mem_cache'' False
     [Field ''free_llist'' struct_llist_head,
      Field ''active'' local_t,
      Field ''free_llist_extra'' struct_llist_head,
      Field ''refill_work'' struct_irq_work,
      Field ''objcg'' (CPtr ''struct obj_cgroup''),
      Field ''unit_size'' c_int,
      Field ''free_cnt'' c_int,
      Field ''low_watermark'' c_int,
      Field ''high_watermark'' c_int,
      Field ''batch'' c_int,
      Field ''percpu_size'' c_int,
      Field ''draining'' bool,
      Field ''tgt'' (CPtr ''struct bpf_mem_cache''),
      Field ''dtor'' (CPtr ''void (void *, void *)''),
      Field ''dtor_ctx'' (CPtr ''void''),
      Field ''free_by_rcu'' struct_llist_head,
      Field ''free_by_rcu_tail'' (CPtr ''struct llist_node''),
      Field ''waiting_for_gp'' struct_llist_head,
      Field ''waiting_for_gp_tail'' (CPtr ''struct llist_node''),
      Field ''rcu'' struct_callback_head,
      Field ''call_rcu_in_progress'' atomic_t,
      Field ''free_llist_extra_rcu'' struct_llist_head,
      Field ''free_by_rcu_ttrace'' struct_llist_head,
      Field ''waiting_for_gp_ttrace'' struct_llist_head,
      Field ''rcu_ttrace'' struct_callback_head,
      Field ''call_rcu_ttrace_in_progress'' atomic_t]"

definition struct_bpf_mem_caches :: cty where
  "struct_bpf_mem_caches = CStruct ''bpf_mem_caches'' False
     [Field ''cache'' (CArr 11 struct_bpf_mem_cache)]"

definition struct_bpf_prog_offload :: cty where
  "struct_bpf_prog_offload = CStruct ''bpf_prog_offload'' False
     [Field ''prog'' (CPtr ''struct bpf_prog''),
      Field ''netdev'' (CPtr ''struct net_device''),
      Field ''offdev'' (CPtr ''struct bpf_offload_dev''),
      Field ''dev_priv'' (CPtr ''void''),
      Field ''offloads'' struct_list_head,
      Field ''dev_state'' bool,
      Field ''opt_failed'' bool,
      Field ''jited_image'' (CPtr ''void''),
      Field ''jited_len'' u32]"

definition u64_stats_t :: cty where
  "u64_stats_t = CStruct [] False
      [Field ''v'' local64_t]"

definition struct_bpf_prog_stats :: cty where
  "struct_bpf_prog_stats = CStruct ''bpf_prog_stats'' False
     [Field ''cnt'' u64_stats_t,
      Field ''nsecs'' u64_stats_t,
      Field ''misses'' u64_stats_t,
      Field ''syncp'' struct_u64_stats_sync,
      BitField [] c_long 64]"

definition struct_bpf_struct_ops :: cty where
  "struct_bpf_struct_ops = CStruct ''bpf_struct_ops'' False
     [Field ''verifier_ops'' (CPtr ''const struct bpf_verifier_ops''),
      Field ''init'' (CPtr ''int (struct btf *)''),
      Field ''check_member'' (CPtr ''int (const struct btf_type *, const struct btf_member *, const struct bpf_prog *)''),
      Field ''init_member'' (CPtr ''int (const struct btf_type *, const struct btf_member *, void *, const void *)''),
      Field ''reg'' (CPtr ''int (void *, struct bpf_link *)''),
      Field ''unreg'' (CPtr ''void (void *, struct bpf_link *)''),
      Field ''update'' (CPtr ''int (void *, void *, struct bpf_link *)''),
      Field ''validate'' (CPtr ''int (void *)''),
      Field ''cfi_stubs'' (CPtr ''void''),
      Field ''owner'' (CPtr ''struct module''),
      Field ''name'' (CPtr ''const char''),
      Field ''func_models'' (CArr 64 struct_btf_func_model)]"

definition struct_bpf_token :: cty where
  "struct_bpf_token = CStruct ''bpf_token'' False
     [Field ''work'' struct_work_struct,
      Field ''refcnt'' atomic64_t,
      Field ''userns'' (CPtr ''struct user_namespace''),
      Field ''allowed_cmds'' u64,
      Field ''allowed_maps'' u64,
      Field ''allowed_progs'' u64,
      Field ''allowed_attachs'' u64,
      Field ''security'' (CPtr ''void'')]"

definition enum_btf_field_type :: cty where
  "enum_btf_field_type = CEnum 4
     [(''BPF_SPIN_LOCK'', 1), (''BPF_TIMER'', 2), (''BPF_KPTR_UNREF'', 4),
      (''BPF_KPTR_REF'', 8), (''BPF_KPTR_PERCPU'', 16), (''BPF_KPTR'', 28),
      (''BPF_LIST_HEAD'', 32), (''BPF_LIST_NODE'', 64), (''BPF_RB_ROOT'', 128),
      (''BPF_RB_NODE'', 256), (''BPF_GRAPH_NODE'', 320), (''BPF_GRAPH_ROOT'', 160),
      (''BPF_REFCOUNT'', 512), (''BPF_WORKQUEUE'', 1024), (''BPF_UPTR'', 2048),
      (''BPF_RES_SPIN_LOCK'', 4096), (''BPF_TASK_WORK'', 8192)]"

definition btf_dtor_kfunc_t :: cty where [layout_simps]:
  "btf_dtor_kfunc_t = CPtr ''void (void *)''"

definition struct_btf_field_kptr :: cty where
  "struct_btf_field_kptr = CStruct ''btf_field_kptr'' False
     [Field ''btf'' (CPtr ''struct btf''),
      Field ''module'' (CPtr ''struct module''),
      Field ''dtor'' btf_dtor_kfunc_t,
      Field ''btf_id'' u32]"

definition struct_btf_field_graph_root :: cty where
  "struct_btf_field_graph_root = CStruct ''btf_field_graph_root'' False
     [Field ''btf'' (CPtr ''struct btf''),
      Field ''value_btf_id'' u32,
      Field ''node_offset'' u32,
      Field ''value_rec'' (CPtr ''struct btf_record'')]"

definition struct_btf_field :: cty where
  "struct_btf_field = CStruct ''btf_field'' False
     [Field ''offset'' u32,
      Field ''size'' u32,
      Field ''type'' enum_btf_field_type,
      Field [] (CUnion [] False
        [Field ''kptr'' struct_btf_field_kptr,
         Field ''graph_root'' struct_btf_field_graph_root])]"

definition struct_btf_record :: cty where
  "struct_btf_record = CStruct ''btf_record'' False
     [Field ''cnt'' u32,
      Field ''field_mask'' u32,
      Field ''spin_lock_off'' c_int,
      Field ''res_spin_lock_off'' c_int,
      Field ''timer_off'' c_int,
      Field ''wq_off'' c_int,
      Field ''refcount_off'' c_int,
      Field ''task_work_off'' c_int,
      Field ''fields'' (CArr 0 struct_btf_field)]"

definition struct_btf_type :: cty where
  "struct_btf_type = CStruct ''btf_type'' False
     [Field ''name_off'' c__u32,
      Field ''info'' c__u32,
      Field [] (CUnion [] False
        [Field ''size'' c__u32,
         Field ''type'' c__u32])]"

definition struct_hlist_nulls_head :: cty where
  "struct_hlist_nulls_head = CStruct ''hlist_nulls_head'' False
     [Field ''first'' (CPtr ''struct hlist_nulls_node'')]"

definition struct_bucket :: cty where
  "struct_bucket = CStruct ''bucket'' False
     [Field ''head'' struct_hlist_nulls_head,
      Field ''raw_lock'' rqspinlock_t]"

definition struct_drm_gem_lru :: cty where
  "struct_drm_gem_lru = CStruct ''drm_gem_lru'' False
     [Field ''count'' c_long,
      Field ''list'' struct_list_head]"

definition struct_drm_mode_config_helper_funcs :: cty where
  "struct_drm_mode_config_helper_funcs = CStruct ''drm_mode_config_helper_funcs'' False
     [Field ''atomic_commit_tail'' (CPtr ''void (struct drm_atomic_state *)''),
      Field ''atomic_commit_setup'' (CPtr ''int (struct drm_atomic_state *)'')]"

definition depot_stack_handle_t :: cty where [layout_simps]:
  "depot_stack_handle_t = u32"

definition struct_drm_modeset_acquire_ctx :: cty where
  "struct_drm_modeset_acquire_ctx = CStruct ''drm_modeset_acquire_ctx'' False
     [Field ''ww_ctx'' struct_ww_acquire_ctx,
      Field ''contended'' (CPtr ''struct drm_modeset_lock''),
      Field ''stack_depot'' depot_stack_handle_t,
      Field ''locked'' struct_list_head,
      Field ''trylock_only'' bool,
      Field ''interruptible'' bool]"

definition struct_drm_vma_offset_manager :: cty where
  "struct_drm_vma_offset_manager = CStruct ''drm_vma_offset_manager'' False
     [Field ''vm_lock'' rwlock_t,
      Field ''vm_addr_space_mm'' struct_drm_mm]"

definition struct_exception_table_entry :: cty where
  "struct_exception_table_entry = CStruct ''exception_table_entry'' False
     [Field ''insn'' c_int,
      Field ''fixup'' c_int,
      Field ''data'' c_int]"

definition struct_pcpu_freelist_node :: cty where
  "struct_pcpu_freelist_node = CStruct ''pcpu_freelist_node'' False
     [Field ''next'' (CPtr ''struct pcpu_freelist_node'')]"

definition struct_bpf_lru_node :: cty where
  "struct_bpf_lru_node = CStruct ''bpf_lru_node'' False
     [Field ''list'' struct_list_head,
      Field ''cpu'' u16,
      Field ''type'' u8,
      Field ''ref'' u8]"

definition struct_htab_elem :: cty where
  "struct_htab_elem = CStruct ''htab_elem'' False
     [Field [] (CUnion [] False
        [Field ''hash_node'' struct_hlist_nulls_node,
         Field [] (CStruct [] False
           [Field ''padding'' (CPtr ''void''),
            Field [] (CUnion [] False
              [Field ''fnode'' struct_pcpu_freelist_node,
               Field ''batch_flink'' (CPtr ''struct htab_elem'')])])]),
      Field [] (CUnion [] False
        [Field ''ptr_to_pptr'' (CPtr ''void''),
         Field ''lru_node'' struct_bpf_lru_node]),
      Field ''hash'' u32,
      BitField [] c_long 0,
      Field ''key'' (CArr 0 c_char)]"

definition struct_pcpu_freelist_head :: cty where
  "struct_pcpu_freelist_head = CStruct ''pcpu_freelist_head'' False
     [Field ''first'' (CPtr ''struct pcpu_freelist_node''),
      Field ''lock'' rqspinlock_t]"

definition struct_sock_fprog_kern :: cty where
  "struct_sock_fprog_kern = CStruct ''sock_fprog_kern'' False
     [Field ''len'' u16,
      Field ''filter'' (CPtr ''struct sock_filter'')]"

section \<open>Sizes and alignments\<close>

lemma struct_bpf_array_aux_layout [layout_simps]:
  "sizeof struct_bpf_array_aux = 88 \<and> alignof struct_bpf_array_aux = 8 \<and> wf_cty struct_bpf_array_aux"
  by (simp add: struct_bpf_array_aux_def base_types layout_eval struct_list_head_layout struct_mutex_layout
      struct_work_struct_layout
      del: One_nat_def)

lemma struct_bpf_ctx_arg_aux_layout [layout_simps]:
  "sizeof struct_bpf_ctx_arg_aux = 32 \<and> alignof struct_bpf_ctx_arg_aux = 8 \<and> wf_cty struct_bpf_ctx_arg_aux"
  by (simp add: struct_bpf_ctx_arg_aux_def base_types layout_eval u32_def c__u32_def enum_bpf_reg_type_layout bool_def
      del: One_nat_def)

lemma struct_bpf_func_info_layout [layout_simps]:
  "sizeof struct_bpf_func_info = 8 \<and> alignof struct_bpf_func_info = 4 \<and> wf_cty struct_bpf_func_info"
  by (simp add: struct_bpf_func_info_def base_types layout_eval c__u32_def
      del: One_nat_def)

lemma struct_bpf_func_info_aux_layout [layout_simps]:
  "sizeof struct_bpf_func_info_aux = 4 \<and> alignof struct_bpf_func_info_aux = 2 \<and> wf_cty struct_bpf_func_info_aux"
  by (simp add: struct_bpf_func_info_aux_def base_types layout_eval u16_def c__u16_def bool_def
      del: One_nat_def)

lemma struct_bpf_jit_poke_descriptor_layout [layout_simps]:
  "sizeof struct_bpf_jit_poke_descriptor = 56 \<and> alignof struct_bpf_jit_poke_descriptor = 8 \<and> wf_cty struct_bpf_jit_poke_descriptor"
  by (simp add: struct_bpf_jit_poke_descriptor_def base_types layout_eval u32_def c__u32_def bool_def u8_def c__u8_def
      u16_def c__u16_def
      del: One_nat_def)

lemma struct_bpf_kfunc_btf_layout [layout_simps]:
  "sizeof struct_bpf_kfunc_btf = 24 \<and> alignof struct_bpf_kfunc_btf = 8 \<and> wf_cty struct_bpf_kfunc_btf"
  by (simp add: struct_bpf_kfunc_btf_def base_types layout_eval u16_def c__u16_def
      del: One_nat_def)

lemma struct_bpf_kfunc_btf_tab_layout [layout_simps]:
  "sizeof struct_bpf_kfunc_btf_tab = 6152 \<and> alignof struct_bpf_kfunc_btf_tab = 8 \<and> wf_cty struct_bpf_kfunc_btf_tab"
  by (simp add: struct_bpf_kfunc_btf_tab_def base_types layout_eval struct_bpf_kfunc_btf_layout u32_def c__u32_def
      del: One_nat_def)

lemma struct_bpf_kfunc_desc_layout [layout_simps]:
  "sizeof struct_bpf_kfunc_desc = 48 \<and> alignof struct_bpf_kfunc_desc = 8 \<and> wf_cty struct_bpf_kfunc_desc"
  by (simp add: struct_bpf_kfunc_desc_def base_types layout_eval struct_btf_func_model_layout u32_def c__u32_def s32_def
      c__s32_def u16_def c__u16_def
      del: One_nat_def)

lemma struct_bpf_kfunc_desc_tab_layout [layout_simps]:
  "sizeof struct_bpf_kfunc_desc_tab = 12296 \<and> alignof struct_bpf_kfunc_desc_tab = 8 \<and> wf_cty struct_bpf_kfunc_desc_tab"
  by (simp add: struct_bpf_kfunc_desc_tab_def base_types layout_eval struct_bpf_kfunc_desc_layout u32_def c__u32_def
      del: One_nat_def)

lemma struct_bpf_line_info_layout [layout_simps]:
  "sizeof struct_bpf_line_info = 16 \<and> alignof struct_bpf_line_info = 4 \<and> wf_cty struct_bpf_line_info"
  by (simp add: struct_bpf_line_info_def base_types layout_eval c__u32_def
      del: One_nat_def)

lemma struct_bpf_lru_locallist_layout [layout_simps]:
  "sizeof struct_bpf_lru_locallist = 40 \<and> alignof struct_bpf_lru_locallist = 8 \<and> wf_cty struct_bpf_lru_locallist"
  by (simp add: struct_bpf_lru_locallist_def base_types layout_eval struct_list_head_layout u16_def c__u16_def
      raw_spinlock_t_def struct_raw_spinlock_layout
      del: One_nat_def)

lemma struct_bpf_map_owner_layout [layout_simps]:
  "sizeof struct_bpf_map_owner = 40 \<and> alignof struct_bpf_map_owner = 8 \<and> wf_cty struct_bpf_map_owner"
  by (simp add: struct_bpf_map_owner_def base_types layout_eval enum_bpf_prog_type_layout bool_def u64_def c__u64_def
      enum_bpf_attach_type_layout
      del: One_nat_def)

lemma struct_bpf_mem_cache_layout [layout_simps]:
  "sizeof struct_bpf_mem_cache = 224 \<and> alignof struct_bpf_mem_cache = 8 \<and> wf_cty struct_bpf_mem_cache"
  by (simp add: struct_bpf_mem_cache_def base_types layout_eval struct_llist_head_layout local_t_layout
      struct_irq_work_layout bool_def struct_callback_head_layout atomic_t_layout
      del: One_nat_def)

lemma struct_bpf_mem_caches_layout [layout_simps]:
  "sizeof struct_bpf_mem_caches = 2464 \<and> alignof struct_bpf_mem_caches = 8 \<and> wf_cty struct_bpf_mem_caches"
  by (simp add: struct_bpf_mem_caches_def base_types layout_eval struct_bpf_mem_cache_layout
      del: One_nat_def)

lemma struct_bpf_prog_offload_layout [layout_simps]:
  "sizeof struct_bpf_prog_offload = 72 \<and> alignof struct_bpf_prog_offload = 8 \<and> wf_cty struct_bpf_prog_offload"
  by (simp add: struct_bpf_prog_offload_def base_types layout_eval struct_list_head_layout bool_def u32_def c__u32_def
      del: One_nat_def)

lemma u64_stats_t_layout [layout_simps]:
  "sizeof u64_stats_t = 8 \<and> alignof u64_stats_t = 8 \<and> wf_cty u64_stats_t"
  by (simp add: u64_stats_t_def base_types layout_eval local64_t_layout
      del: One_nat_def)

lemma struct_bpf_prog_stats_layout [layout_simps]:
  "sizeof struct_bpf_prog_stats = 32 \<and> alignof struct_bpf_prog_stats = 8 \<and> wf_cty struct_bpf_prog_stats"
  by (simp add: struct_bpf_prog_stats_def base_types layout_eval u64_stats_t_layout struct_u64_stats_sync_layout
      del: One_nat_def)

lemma struct_bpf_struct_ops_layout [layout_simps]:
  "sizeof struct_bpf_struct_ops = 1816 \<and> alignof struct_bpf_struct_ops = 8 \<and> wf_cty struct_bpf_struct_ops"
  by (simp add: struct_bpf_struct_ops_def base_types layout_eval struct_btf_func_model_layout
      del: One_nat_def)

lemma struct_bpf_token_layout [layout_simps]:
  "sizeof struct_bpf_token = 88 \<and> alignof struct_bpf_token = 8 \<and> wf_cty struct_bpf_token"
  by (simp add: struct_bpf_token_def base_types layout_eval struct_work_struct_layout atomic64_t_layout u64_def
      c__u64_def
      del: One_nat_def)

lemma enum_btf_field_type_layout [layout_simps]:
  "sizeof enum_btf_field_type = 4 \<and> alignof enum_btf_field_type = 4 \<and> wf_cty enum_btf_field_type"
  by (simp add: enum_btf_field_type_def base_types layout_eval
      del: One_nat_def)

lemma struct_btf_field_kptr_layout [layout_simps]:
  "sizeof struct_btf_field_kptr = 32 \<and> alignof struct_btf_field_kptr = 8 \<and> wf_cty struct_btf_field_kptr"
  by (simp add: struct_btf_field_kptr_def base_types layout_eval btf_dtor_kfunc_t_def u32_def c__u32_def
      del: One_nat_def)

lemma struct_btf_field_graph_root_layout [layout_simps]:
  "sizeof struct_btf_field_graph_root = 24 \<and> alignof struct_btf_field_graph_root = 8 \<and> wf_cty struct_btf_field_graph_root"
  by (simp add: struct_btf_field_graph_root_def base_types layout_eval u32_def c__u32_def
      del: One_nat_def)

lemma struct_btf_field_layout [layout_simps]:
  "sizeof struct_btf_field = 48 \<and> alignof struct_btf_field = 8 \<and> wf_cty struct_btf_field"
  by (simp add: struct_btf_field_def base_types layout_eval u32_def c__u32_def enum_btf_field_type_layout
      struct_btf_field_kptr_layout struct_btf_field_graph_root_layout
      del: One_nat_def)

lemma struct_btf_record_layout [layout_simps]:
  "sizeof struct_btf_record = 32 \<and> alignof struct_btf_record = 8 \<and> wf_cty struct_btf_record"
  by (simp add: struct_btf_record_def base_types layout_eval u32_def c__u32_def struct_btf_field_layout
      del: One_nat_def)

lemma struct_btf_type_layout [layout_simps]:
  "sizeof struct_btf_type = 12 \<and> alignof struct_btf_type = 4 \<and> wf_cty struct_btf_type"
  by (simp add: struct_btf_type_def base_types layout_eval c__u32_def
      del: One_nat_def)

lemma struct_hlist_nulls_head_layout [layout_simps]:
  "sizeof struct_hlist_nulls_head = 8 \<and> alignof struct_hlist_nulls_head = 8 \<and> wf_cty struct_hlist_nulls_head"
  by (simp add: struct_hlist_nulls_head_def base_types layout_eval
      del: One_nat_def)

lemma struct_bucket_layout [layout_simps]:
  "sizeof struct_bucket = 16 \<and> alignof struct_bucket = 8 \<and> wf_cty struct_bucket"
  by (simp add: struct_bucket_def base_types layout_eval struct_hlist_nulls_head_layout rqspinlock_t_def
      struct_qspinlock_layout
      del: One_nat_def)

lemma struct_drm_gem_lru_layout [layout_simps]:
  "sizeof struct_drm_gem_lru = 24 \<and> alignof struct_drm_gem_lru = 8 \<and> wf_cty struct_drm_gem_lru"
  by (simp add: struct_drm_gem_lru_def base_types layout_eval struct_list_head_layout
      del: One_nat_def)

lemma struct_drm_mode_config_helper_funcs_layout [layout_simps]:
  "sizeof struct_drm_mode_config_helper_funcs = 16 \<and> alignof struct_drm_mode_config_helper_funcs = 8 \<and> wf_cty struct_drm_mode_config_helper_funcs"
  by (simp add: struct_drm_mode_config_helper_funcs_def base_types layout_eval
      del: One_nat_def)

lemma struct_drm_modeset_acquire_ctx_layout [layout_simps]:
  "sizeof struct_drm_modeset_acquire_ctx = 64 \<and> alignof struct_drm_modeset_acquire_ctx = 8 \<and> wf_cty struct_drm_modeset_acquire_ctx"
  by (simp add: struct_drm_modeset_acquire_ctx_def base_types layout_eval struct_ww_acquire_ctx_layout
      depot_stack_handle_t_def u32_def c__u32_def struct_list_head_layout bool_def
      del: One_nat_def)

lemma struct_drm_vma_offset_manager_layout [layout_simps]:
  "sizeof struct_drm_vma_offset_manager = 248 \<and> alignof struct_drm_vma_offset_manager = 8 \<and> wf_cty struct_drm_vma_offset_manager"
  by (simp add: struct_drm_vma_offset_manager_def base_types layout_eval rwlock_t_def struct_rwlock_layout
      struct_drm_mm_layout
      del: One_nat_def)

lemma struct_exception_table_entry_layout [layout_simps]:
  "sizeof struct_exception_table_entry = 12 \<and> alignof struct_exception_table_entry = 4 \<and> wf_cty struct_exception_table_entry"
  by (simp add: struct_exception_table_entry_def base_types layout_eval
      del: One_nat_def)

lemma struct_pcpu_freelist_node_layout [layout_simps]:
  "sizeof struct_pcpu_freelist_node = 8 \<and> alignof struct_pcpu_freelist_node = 8 \<and> wf_cty struct_pcpu_freelist_node"
  by (simp add: struct_pcpu_freelist_node_def base_types layout_eval
      del: One_nat_def)

lemma struct_bpf_lru_node_layout [layout_simps]:
  "sizeof struct_bpf_lru_node = 24 \<and> alignof struct_bpf_lru_node = 8 \<and> wf_cty struct_bpf_lru_node"
  by (simp add: struct_bpf_lru_node_def base_types layout_eval struct_list_head_layout u16_def c__u16_def u8_def
      c__u8_def
      del: One_nat_def)

lemma struct_htab_elem_layout [layout_simps]:
  "sizeof struct_htab_elem = 48 \<and> alignof struct_htab_elem = 8 \<and> wf_cty struct_htab_elem"
  by (simp add: struct_htab_elem_def base_types layout_eval struct_hlist_nulls_node_layout
      struct_pcpu_freelist_node_layout struct_bpf_lru_node_layout u32_def c__u32_def
      del: One_nat_def)

lemma struct_pcpu_freelist_head_layout [layout_simps]:
  "sizeof struct_pcpu_freelist_head = 16 \<and> alignof struct_pcpu_freelist_head = 8 \<and> wf_cty struct_pcpu_freelist_head"
  by (simp add: struct_pcpu_freelist_head_def base_types layout_eval rqspinlock_t_def struct_qspinlock_layout
      del: One_nat_def)

lemma struct_sock_fprog_kern_layout [layout_simps]:
  "sizeof struct_sock_fprog_kern = 16 \<and> alignof struct_sock_fprog_kern = 8 \<and> wf_cty struct_sock_fprog_kern"
  by (simp add: struct_sock_fprog_kern_def base_types layout_eval u16_def c__u16_def
      del: One_nat_def)

end
