(* ===== verification/KernelVfsRefs1.thy ===== *)
theory KernelVfsRefs1
  imports KernelCgroupRefs KernelTaskRefs2
begin

text \<open>
  Types of \<^verbatim>\<open>bpf/vmlinux.h\<close> that the objects of \<open>KernelVfs\<close> (file system operations and block devices) point to, one
  dereference away, with every type they hold by value.
\<close>

section \<open>Types\<close>

definition struct_badblocks :: cty where
  "struct_badblocks = CStruct ''badblocks'' False
     [Field ''dev'' (CPtr ''struct device''),
      Field ''count'' c_int,
      Field ''unacked_exist'' c_int,
      Field ''shift'' c_int,
      Field ''page'' (CPtr ''u64''),
      Field ''changed'' c_int,
      Field ''lock'' seqlock_t,
      Field ''sector'' sector_t,
      Field ''size'' sector_t]"

definition struct_bio_alloc_cache :: cty where
  "struct_bio_alloc_cache = CStruct ''bio_alloc_cache'' False
     [Field ''free_list'' (CPtr ''struct bio''),
      Field ''free_list_irq'' (CPtr ''struct bio''),
      Field ''nr'' unsigned_int,
      Field ''nr_irq'' unsigned_int]"

definition struct_bio_crypt_ctx :: cty where
  "struct_bio_crypt_ctx = CStruct ''bio_crypt_ctx'' False
     [Field ''bc_key'' (CPtr ''const struct blk_crypto_key''),
      Field ''bc_dun'' (CArr 4 u64)]"

definition struct_bio_integrity_payload :: cty where
  "struct_bio_integrity_payload = CStruct ''bio_integrity_payload'' False
     [Field ''bip_iter'' struct_bvec_iter,
      Field ''bip_vcnt'' short_unsigned_int,
      Field ''bip_max_vcnt'' short_unsigned_int,
      Field ''bip_flags'' short_unsigned_int,
      Field ''app_tag'' u16,
      Field ''bip_vec'' (CPtr ''struct bio_vec'')]"

definition struct_bio_vec :: cty where
  "struct_bio_vec = CStruct ''bio_vec'' False
     [Field ''bv_page'' (CPtr ''struct page''),
      Field ''bv_len'' unsigned_int,
      Field ''bv_offset'' unsigned_int]"

definition struct_blk_crypto_ll_ops :: cty where
  "struct_blk_crypto_ll_ops = CStruct ''blk_crypto_ll_ops'' False
     [Field ''keyslot_program'' (CPtr ''int (struct blk_crypto_profile *, const struct blk_crypto_key *, unsigned int)''),
      Field ''keyslot_evict'' (CPtr ''int (struct blk_crypto_profile *, const struct blk_crypto_key *, unsigned int)''),
      Field ''derive_sw_secret'' (CPtr ''int (struct blk_crypto_profile *, const u8 *, size_t, u8 *)''),
      Field ''import_key'' (CPtr ''int (struct blk_crypto_profile *, const u8 *, size_t, u8 *)''),
      Field ''generate_key'' (CPtr ''int (struct blk_crypto_profile *, u8 *)''),
      Field ''prepare_key'' (CPtr ''int (struct blk_crypto_profile *, const u8 *, size_t, u8 *)'')]"

definition struct_blk_crypto_profile :: cty where
  "struct_blk_crypto_profile = CStruct ''blk_crypto_profile'' False
     [Field ''ll_ops'' struct_blk_crypto_ll_ops,
      Field ''max_dun_bytes_supported'' unsigned_int,
      Field ''key_types_supported'' unsigned_int,
      Field ''modes_supported'' (CArr 5 unsigned_int),
      Field ''dev'' (CPtr ''struct device''),
      Field ''num_slots'' unsigned_int,
      Field ''lock'' struct_rw_semaphore,
      Field ''lockdep_key'' struct_lock_class_key,
      Field ''idle_slots_wait_queue'' wait_queue_head_t,
      Field ''idle_slots'' struct_list_head,
      Field ''idle_slots_lock'' spinlock_t,
      Field ''slot_hashtable'' (CPtr ''struct hlist_head''),
      Field ''log_slot_ht_size'' unsigned_int,
      Field ''slots'' (CPtr ''struct blk_crypto_keyslot'')]"

definition struct_blk_flush_queue :: cty where
  "struct_blk_flush_queue = CStruct ''blk_flush_queue'' False
     [Field ''mq_flush_lock'' spinlock_t,
      BitField ''flush_pending_idx'' unsigned_int 1,
      BitField ''flush_running_idx'' unsigned_int 1,
      Field ''rq_status'' blk_status_t,
      Field ''flush_pending_since'' long_unsigned_int,
      Field ''flush_queue'' (CArr 2 struct_list_head),
      Field ''flush_data_in_flight'' long_unsigned_int,
      Field ''flush_rq'' (CPtr ''struct request''),
      Field ''callback_head'' struct_callback_head]"

definition struct_blk_holder_ops :: cty where
  "struct_blk_holder_ops = CStruct ''blk_holder_ops'' False
     [Field ''mark_dead'' (CPtr ''void (struct block_device *, bool)''),
      Field ''sync'' (CPtr ''void (struct block_device *)''),
      Field ''freeze'' (CPtr ''int (struct block_device *)''),
      Field ''thaw'' (CPtr ''int (struct block_device *)'')]"

definition struct_blk_independent_access_range :: cty where
  "struct_blk_independent_access_range = CStruct ''blk_independent_access_range'' False
     [Field ''kobj'' struct_kobject,
      Field ''sector'' sector_t,
      Field ''nr_sectors'' sector_t]"

definition struct_blk_independent_access_ranges :: cty where
  "struct_blk_independent_access_ranges = CStruct ''blk_independent_access_ranges'' False
     [Field ''kobj'' struct_kobject,
      Field ''sysfs_registered'' bool,
      Field ''nr_ia_ranges'' unsigned_int,
      Field ''ia_range'' (CArr 0 struct_blk_independent_access_range)]"

definition struct_blk_mq_ctx :: cty where
  "struct_blk_mq_ctx = CStruct ''blk_mq_ctx'' False
     [Field [] (CStruct [] False
        [Field ''lock'' spinlock_t,
         Field ''rq_lists'' (CArr 3 struct_list_head),
         BitField [] c_long 64]),
      Field ''cpu'' unsigned_int,
      Field ''index_hw'' (CArr 3 short_unsigned_int),
      Field ''hctxs'' (CArr 3 (CPtr ''struct blk_mq_hw_ctx'')),
      Field ''queue'' (CPtr ''struct request_queue''),
      Field ''ctxs'' (CPtr ''struct blk_mq_ctxs''),
      Field ''kobj'' struct_kobject,
      BitField [] c_long 64]"

definition struct_sbitmap :: cty where
  "struct_sbitmap = CStruct ''sbitmap'' False
     [Field ''depth'' unsigned_int,
      Field ''shift'' unsigned_int,
      Field ''map_nr'' unsigned_int,
      Field ''round_robin'' bool,
      Field ''map'' (CPtr ''struct sbitmap_word''),
      Field ''alloc_hint'' (CPtr ''unsigned int'')]"

definition wait_queue_func_t :: cty where [layout_simps]:
  "wait_queue_func_t = CPtr ''int (struct wait_queue_entry *, unsigned int, int, void *)''"

definition struct_wait_queue_entry :: cty where
  "struct_wait_queue_entry = CStruct ''wait_queue_entry'' False
     [Field ''flags'' unsigned_int,
      Field ''private'' (CPtr ''void''),
      Field ''func'' wait_queue_func_t,
      Field ''entry'' struct_list_head]"

definition wait_queue_entry_t :: cty where [layout_simps]:
  "wait_queue_entry_t = struct_wait_queue_entry"

definition struct_blk_mq_hw_ctx :: cty where
  "struct_blk_mq_hw_ctx = CStruct ''blk_mq_hw_ctx'' False
     [Field [] (CStruct [] False
        [Field ''lock'' spinlock_t,
         Field ''dispatch'' struct_list_head,
         Field ''state'' long_unsigned_int,
         BitField [] c_long 64,
         BitField [] c_long 64,
         BitField [] c_long 64,
         BitField [] c_long 64]),
      Field ''run_work'' struct_delayed_work,
      Field ''cpumask'' cpumask_var_t,
      Field ''next_cpu'' c_int,
      Field ''next_cpu_batch'' c_int,
      Field ''flags'' long_unsigned_int,
      Field ''sched_data'' (CPtr ''void''),
      Field ''queue'' (CPtr ''struct request_queue''),
      Field ''fq'' (CPtr ''struct blk_flush_queue''),
      Field ''driver_data'' (CPtr ''void''),
      Field ''ctx_map'' struct_sbitmap,
      Field ''dispatch_from'' (CPtr ''struct blk_mq_ctx''),
      Field ''dispatch_busy'' unsigned_int,
      Field ''type'' short_unsigned_int,
      Field ''nr_ctx'' short_unsigned_int,
      Field ''ctxs'' (CPtr ''struct blk_mq_ctx *''),
      Field ''dispatch_wait_lock'' spinlock_t,
      Field ''dispatch_wait'' wait_queue_entry_t,
      Field ''wait_index'' atomic_t,
      Field ''tags'' (CPtr ''struct blk_mq_tags''),
      Field ''sched_tags'' (CPtr ''struct blk_mq_tags''),
      Field ''numa_node'' unsigned_int,
      Field ''queue_num'' unsigned_int,
      Field ''nr_active'' atomic_t,
      Field ''cpuhp_online'' struct_hlist_node,
      Field ''cpuhp_dead'' struct_hlist_node,
      Field ''kobj'' struct_kobject,
      Field ''debugfs_dir'' (CPtr ''struct dentry''),
      Field ''sched_debugfs_dir'' (CPtr ''struct dentry''),
      Field ''hctx_list'' struct_list_head,
      BitField [] c_long 64,
      BitField [] c_long 64,
      BitField [] c_long 64,
      BitField [] c_long 64]"

definition struct_blk_mq_ops :: cty where
  "struct_blk_mq_ops = CStruct ''blk_mq_ops'' False
     [Field ''queue_rq'' (CPtr ''blk_status_t (struct blk_mq_hw_ctx *, const struct blk_mq_queue_data *)''),
      Field ''commit_rqs'' (CPtr ''void (struct blk_mq_hw_ctx *)''),
      Field ''queue_rqs'' (CPtr ''void (struct rq_list *)''),
      Field ''get_budget'' (CPtr ''int (struct request_queue *)''),
      Field ''put_budget'' (CPtr ''void (struct request_queue *, int)''),
      Field ''set_rq_budget_token'' (CPtr ''void (struct request *, int)''),
      Field ''get_rq_budget_token'' (CPtr ''int (struct request *)''),
      Field ''timeout'' (CPtr ''enum blk_eh_timer_return (struct request *)''),
      Field ''poll'' (CPtr ''int (struct blk_mq_hw_ctx *, struct io_comp_batch *)''),
      Field ''complete'' (CPtr ''void (struct request *)''),
      Field ''init_hctx'' (CPtr ''int (struct blk_mq_hw_ctx *, void *, unsigned int)''),
      Field ''exit_hctx'' (CPtr ''void (struct blk_mq_hw_ctx *, unsigned int)''),
      Field ''init_request'' (CPtr ''int (struct blk_mq_tag_set *, struct request *, unsigned int, unsigned int)''),
      Field ''exit_request'' (CPtr ''void (struct blk_mq_tag_set *, struct request *, unsigned int)''),
      Field ''cleanup_rq'' (CPtr ''void (struct request *)''),
      Field ''busy'' (CPtr ''bool (struct request_queue *)''),
      Field ''map_queues'' (CPtr ''void (struct blk_mq_tag_set *)''),
      Field ''show_rq'' (CPtr ''void (struct seq_file *, struct request *)'')]"

definition struct_blk_mq_queue_map :: cty where
  "struct_blk_mq_queue_map = CStruct ''blk_mq_queue_map'' False
     [Field ''mq_map'' (CPtr ''unsigned int''),
      Field ''nr_queues'' unsigned_int,
      Field ''queue_offset'' unsigned_int]"

definition struct_srcu_struct :: cty where
  "struct_srcu_struct = CStruct ''srcu_struct'' False
     [Field ''srcu_ctrp'' (CPtr ''struct srcu_ctr''),
      Field ''sda'' (CPtr ''struct srcu_data''),
      Field ''srcu_reader_flavor'' u8,
      Field ''dep_map'' struct_lockdep_map,
      Field ''srcu_sup'' (CPtr ''struct srcu_usage'')]"

definition struct_blk_mq_tag_set :: cty where
  "struct_blk_mq_tag_set = CStruct ''blk_mq_tag_set'' False
     [Field ''ops'' (CPtr ''const struct blk_mq_ops''),
      Field ''map'' (CArr 3 struct_blk_mq_queue_map),
      Field ''nr_maps'' unsigned_int,
      Field ''nr_hw_queues'' unsigned_int,
      Field ''queue_depth'' unsigned_int,
      Field ''reserved_tags'' unsigned_int,
      Field ''cmd_size'' unsigned_int,
      Field ''numa_node'' c_int,
      Field ''timeout'' unsigned_int,
      Field ''flags'' unsigned_int,
      Field ''driver_data'' (CPtr ''void''),
      Field ''tags'' (CPtr ''struct blk_mq_tags *''),
      Field ''shared_tags'' (CPtr ''struct blk_mq_tags''),
      Field ''tag_list_lock'' struct_mutex,
      Field ''tag_list'' struct_list_head,
      Field ''srcu'' (CPtr ''struct srcu_struct''),
      Field ''tags_srcu'' struct_srcu_struct,
      Field ''update_nr_hwq_lock'' struct_rw_semaphore]"

definition struct_sbitmap_queue :: cty where
  "struct_sbitmap_queue = CStruct ''sbitmap_queue'' False
     [Field ''sb'' struct_sbitmap,
      Field ''wake_batch'' unsigned_int,
      Field ''wake_index'' atomic_t,
      Field ''ws'' (CPtr ''struct sbq_wait_state''),
      Field ''ws_active'' atomic_t,
      Field ''min_shallow_depth'' unsigned_int,
      Field ''completion_cnt'' atomic_t,
      Field ''wakeup_cnt'' atomic_t]"

definition struct_blk_mq_tags :: cty where
  "struct_blk_mq_tags = CStruct ''blk_mq_tags'' False
     [Field ''nr_tags'' unsigned_int,
      Field ''nr_reserved_tags'' unsigned_int,
      Field ''active_queues'' unsigned_int,
      Field ''bitmap_tags'' struct_sbitmap_queue,
      Field ''breserved_tags'' struct_sbitmap_queue,
      Field ''rqs'' (CPtr ''struct request *''),
      Field ''static_rqs'' (CPtr ''struct request *''),
      Field ''page_list'' struct_list_head,
      Field ''lock'' spinlock_t,
      Field ''callback_head'' struct_callback_head]"

definition struct_blk_queue_stats :: cty where
  "struct_blk_queue_stats = CStruct ''blk_queue_stats'' False
     [Field ''callbacks'' struct_list_head,
      Field ''lock'' spinlock_t,
      Field ''accounting'' c_int]"

definition struct_blk_trace :: cty where
  "struct_blk_trace = CStruct ''blk_trace'' False
     [Field ''version'' c_int,
      Field ''trace_state'' c_int,
      Field ''rchan'' (CPtr ''struct rchan''),
      Field ''sequence'' (CPtr ''long unsigned int''),
      Field ''msg_data'' (CPtr ''unsigned char''),
      Field ''act_mask'' u64,
      Field ''start_lba'' u64,
      Field ''end_lba'' u64,
      Field ''pid'' u32,
      Field ''dev'' u32,
      Field ''dir'' (CPtr ''struct dentry''),
      Field ''running_list'' struct_list_head,
      Field ''dropped'' atomic_t]"

definition struct_blkg_iostat :: cty where
  "struct_blkg_iostat = CStruct ''blkg_iostat'' False
     [Field ''bytes'' (CArr 3 u64),
      Field ''ios'' (CArr 3 u64)]"

definition struct_blkg_iostat_set :: cty where
  "struct_blkg_iostat_set = CStruct ''blkg_iostat_set'' False
     [Field ''sync'' struct_u64_stats_sync,
      Field ''blkg'' (CPtr ''struct blkcg_gq''),
      Field ''lnode'' struct_llist_node,
      Field ''lqueued'' c_int,
      Field ''cur'' struct_blkg_iostat,
      Field ''last'' struct_blkg_iostat]"

definition struct_blkcg_gq :: cty where
  "struct_blkcg_gq = CStruct ''blkcg_gq'' False
     [Field ''q'' (CPtr ''struct request_queue''),
      Field ''q_node'' struct_list_head,
      Field ''blkcg_node'' struct_hlist_node,
      Field ''blkcg'' (CPtr ''struct blkcg''),
      Field ''parent'' (CPtr ''struct blkcg_gq''),
      Field ''refcnt'' struct_percpu_ref,
      Field ''online'' bool,
      Field ''iostat_cpu'' (CPtr ''struct blkg_iostat_set''),
      Field ''iostat'' struct_blkg_iostat_set,
      Field ''pd'' (CArr 6 (CPtr ''struct blkg_policy_data'')),
      Field ''async_bio_lock'' spinlock_t,
      Field ''async_bios'' struct_bio_list,
      Field [] (CUnion [] False
        [Field ''async_bio_work'' struct_work_struct,
         Field ''free_work'' struct_work_struct]),
      Field ''use_delay'' atomic_t,
      Field ''delay_nsec'' atomic64_t,
      Field ''delay_start'' atomic64_t,
      Field ''last_delay'' u64,
      Field ''last_use'' c_int,
      Field ''callback_head'' struct_callback_head]"

definition struct_block_device_operations :: cty where
  "struct_block_device_operations = CStruct ''block_device_operations'' False
     [Field ''submit_bio'' (CPtr ''void (struct bio *)''),
      Field ''poll_bio'' (CPtr ''int (struct bio *, struct io_comp_batch *, unsigned int)''),
      Field ''open'' (CPtr ''int (struct gendisk *, blk_mode_t)''),
      Field ''release'' (CPtr ''void (struct gendisk *)''),
      Field ''ioctl'' (CPtr ''int (struct block_device *, blk_mode_t, unsigned int, long unsigned int)''),
      Field ''compat_ioctl'' (CPtr ''int (struct block_device *, blk_mode_t, unsigned int, long unsigned int)''),
      Field ''check_events'' (CPtr ''unsigned int (struct gendisk *, unsigned int)''),
      Field ''unlock_native_capacity'' (CPtr ''void (struct gendisk *)''),
      Field ''getgeo'' (CPtr ''int (struct gendisk *, struct hd_geometry *)''),
      Field ''set_read_only'' (CPtr ''int (struct block_device *, bool)''),
      Field ''free_disk'' (CPtr ''void (struct gendisk *)''),
      Field ''swap_slot_free_notify'' (CPtr ''void (struct block_device *, long unsigned int)''),
      Field ''report_zones'' (CPtr ''int (struct gendisk *, sector_t, unsigned int, struct blk_report_zones_args *)''),
      Field ''devnode'' (CPtr ''char * (struct gendisk *, umode_t *)''),
      Field ''get_unique_id'' (CPtr ''int (struct gendisk *, u8 *, enum blk_unique_id)''),
      Field ''owner'' (CPtr ''struct module''),
      Field ''pr_ops'' (CPtr ''const struct pr_ops''),
      Field ''alternative_gpt_sector'' (CPtr ''int (struct gendisk *, sector_t *)'')]"

definition dma_addr_t :: cty where [layout_simps]:
  "dma_addr_t = u64"

definition struct_bus_dma_region :: cty where
  "struct_bus_dma_region = CStruct ''bus_dma_region'' False
     [Field ''cpu_start'' phys_addr_t,
      Field ''dma_start'' dma_addr_t,
      Field ''size'' u64]"

definition struct_cdrom_device_info :: cty where
  "struct_cdrom_device_info = CStruct ''cdrom_device_info'' False
     [Field ''ops'' (CPtr ''const struct cdrom_device_ops''),
      Field ''list'' struct_list_head,
      Field ''disk'' (CPtr ''struct gendisk''),
      Field ''handle'' (CPtr ''void''),
      Field ''mask'' c_int,
      Field ''speed'' c_int,
      Field ''capacity'' c_int,
      BitField ''options'' unsigned_int 30,
      BitField ''mc_flags'' unsigned_int 2,
      Field ''vfs_events'' unsigned_int,
      Field ''ioctl_events'' unsigned_int,
      Field ''use_count'' c_int,
      Field ''name'' (CArr 20 c_char),
      BitField ''sanyo_slot'' c__u8 2,
      BitField ''keeplocked'' c__u8 1,
      BitField ''reserved'' c__u8 5,
      Field ''cdda_method'' c_int,
      Field ''last_sense'' c__u8,
      Field ''media_written'' c__u8,
      Field ''mmc3_profile'' short_unsigned_int,
      Field ''mrw_mode_page'' c_int,
      Field ''opened_for_data'' bool,
      Field ''last_media_change_ms'' c__s64]"

definition struct_debugfs_u32_array :: cty where
  "struct_debugfs_u32_array = CStruct ''debugfs_u32_array'' False
     [Field ''array'' (CPtr ''u32''),
      Field ''n_elements'' u32]"

definition struct_cma_memrange :: cty where
  "struct_cma_memrange = CStruct ''cma_memrange'' False
     [Field ''base_pfn'' long_unsigned_int,
      Field ''count'' long_unsigned_int,
      Field [] (CUnion [] False
        [Field ''early_pfn'' long_unsigned_int,
         Field ''bitmap'' (CPtr ''long unsigned int'')]),
      Field ''dfs_bitmap'' struct_debugfs_u32_array]"

definition struct_cma :: cty where
  "struct_cma = CStruct ''cma'' False
     [Field ''count'' long_unsigned_int,
      Field ''available_count'' long_unsigned_int,
      Field ''order_per_bit'' unsigned_int,
      Field ''lock'' spinlock_t,
      Field ''alloc_mutex'' struct_mutex,
      Field ''mem_head'' struct_hlist_head,
      Field ''mem_head_lock'' spinlock_t,
      Field ''name'' (CArr 64 c_char),
      Field ''nranges'' c_int,
      Field ''ranges'' (CArr 8 struct_cma_memrange),
      Field ''nr_pages_succeeded'' atomic64_t,
      Field ''nr_pages_failed'' atomic64_t,
      Field ''nr_pages_released'' atomic64_t,
      Field ''cma_kobj'' (CPtr ''struct cma_kobject''),
      Field ''flags'' long_unsigned_int,
      Field ''nid'' c_int]"

definition struct_dev_iommu :: cty where
  "struct_dev_iommu = CStruct ''dev_iommu'' False
     [Field ''lock'' struct_mutex,
      Field ''fault_param'' (CPtr ''struct iommu_fault_param''),
      Field ''fwspec'' (CPtr ''struct iommu_fwspec''),
      Field ''iommu_dev'' (CPtr ''struct iommu_device''),
      Field ''priv'' (CPtr ''void''),
      Field ''max_pasids'' u32,
      BitField ''attach_deferred'' u32 1,
      BitField ''pci_32bit_workaround'' u32 1,
      BitField ''require_direct'' u32 1,
      BitField ''shadow_on_flush'' u32 1]"

definition struct_dev_pin_info :: cty where
  "struct_dev_pin_info = CStruct ''dev_pin_info'' False
     [Field ''p'' (CPtr ''struct pinctrl''),
      Field ''default_state'' (CPtr ''struct pinctrl_state''),
      Field ''init_state'' (CPtr ''struct pinctrl_state''),
      Field ''sleep_state'' (CPtr ''struct pinctrl_state''),
      Field ''idle_state'' (CPtr ''struct pinctrl_state'')]"

definition struct_dev_pm_domain :: cty where
  "struct_dev_pm_domain = CStruct ''dev_pm_domain'' False
     [Field ''ops'' struct_dev_pm_ops,
      Field ''start'' (CPtr ''int (struct device *)''),
      Field ''detach'' (CPtr ''void (struct device *, bool)''),
      Field ''activate'' (CPtr ''int (struct device *)''),
      Field ''sync'' (CPtr ''void (struct device *)''),
      Field ''dismiss'' (CPtr ''void (struct device *)''),
      Field ''set_performance_state'' (CPtr ''int (struct device *, unsigned int)'')]"

definition enum_pm_qos_type :: cty where
  "enum_pm_qos_type = CEnum 4
     [(''PM_QOS_UNITIALIZED'', 0), (''PM_QOS_MAX'', 1), (''PM_QOS_MIN'', 2)]"

definition struct_pm_qos_constraints :: cty where
  "struct_pm_qos_constraints = CStruct ''pm_qos_constraints'' False
     [Field ''list'' struct_plist_head,
      Field ''target_value'' s32,
      Field ''default_value'' s32,
      Field ''no_constraint_value'' s32,
      Field ''type'' enum_pm_qos_type,
      Field ''notifiers'' (CPtr ''struct blocking_notifier_head'')]"

definition struct_blocking_notifier_head :: cty where
  "struct_blocking_notifier_head = CStruct ''blocking_notifier_head'' False
     [Field ''rwsem'' struct_rw_semaphore,
      Field ''head'' (CPtr ''struct notifier_block'')]"

definition struct_freq_constraints :: cty where
  "struct_freq_constraints = CStruct ''freq_constraints'' False
     [Field ''min_freq'' struct_pm_qos_constraints,
      Field ''min_freq_notifiers'' struct_blocking_notifier_head,
      Field ''max_freq'' struct_pm_qos_constraints,
      Field ''max_freq_notifiers'' struct_blocking_notifier_head]"

definition struct_pm_qos_flags :: cty where
  "struct_pm_qos_flags = CStruct ''pm_qos_flags'' False
     [Field ''list'' struct_list_head,
      Field ''effective_flags'' s32]"

definition struct_dev_pm_qos :: cty where
  "struct_dev_pm_qos = CStruct ''dev_pm_qos'' False
     [Field ''resume_latency'' struct_pm_qos_constraints,
      Field ''latency_tolerance'' struct_pm_qos_constraints,
      Field ''freq'' struct_freq_constraints,
      Field ''flags'' struct_pm_qos_flags,
      Field ''resume_latency_req'' (CPtr ''struct dev_pm_qos_request''),
      Field ''latency_tolerance_req'' (CPtr ''struct dev_pm_qos_request''),
      Field ''flags_req'' (CPtr ''struct dev_pm_qos_request'')]"

definition phandle :: cty where [layout_simps]:
  "phandle = u32"

definition struct_fwnode_handle :: cty where
  "struct_fwnode_handle = CStruct ''fwnode_handle'' False
     [Field ''secondary'' (CPtr ''struct fwnode_handle''),
      Field ''ops'' (CPtr ''const struct fwnode_operations''),
      Field ''dev'' (CPtr ''struct device''),
      Field ''suppliers'' struct_list_head,
      Field ''consumers'' struct_list_head,
      Field ''flags'' long_unsigned_int]"

definition struct_device_node :: cty where
  "struct_device_node = CStruct ''device_node'' False
     [Field ''name'' (CPtr ''const char''),
      Field ''phandle'' phandle,
      Field ''full_name'' (CPtr ''const char''),
      Field ''fwnode'' struct_fwnode_handle,
      Field ''properties'' (CPtr ''struct property''),
      Field ''deadprops'' (CPtr ''struct property''),
      Field ''parent'' (CPtr ''struct device_node''),
      Field ''child'' (CPtr ''struct device_node''),
      Field ''sibling'' (CPtr ''struct device_node''),
      Field ''_flags'' long_unsigned_int,
      Field ''data'' (CPtr ''void'')]"

definition enum_device_physical_location_panel :: cty where
  "enum_device_physical_location_panel = CEnum 4
     [(''DEVICE_PANEL_TOP'', 0), (''DEVICE_PANEL_BOTTOM'', 1), (''DEVICE_PANEL_LEFT'', 2),
      (''DEVICE_PANEL_RIGHT'', 3), (''DEVICE_PANEL_FRONT'', 4), (''DEVICE_PANEL_BACK'', 5),
      (''DEVICE_PANEL_UNKNOWN'', 6)]"

definition enum_device_physical_location_vertical_position :: cty where
  "enum_device_physical_location_vertical_position = CEnum 4
     [(''DEVICE_VERT_POS_UPPER'', 0), (''DEVICE_VERT_POS_CENTER'', 1),
      (''DEVICE_VERT_POS_LOWER'', 2)]"

definition enum_device_physical_location_horizontal_position :: cty where
  "enum_device_physical_location_horizontal_position = CEnum 4
     [(''DEVICE_HORI_POS_LEFT'', 0), (''DEVICE_HORI_POS_CENTER'', 1),
      (''DEVICE_HORI_POS_RIGHT'', 2)]"

definition struct_device_physical_location :: cty where
  "struct_device_physical_location = CStruct ''device_physical_location'' False
     [Field ''panel'' enum_device_physical_location_panel,
      Field ''vertical_position'' enum_device_physical_location_vertical_position,
      Field ''horizontal_position'' enum_device_physical_location_horizontal_position,
      Field ''dock'' bool,
      Field ''lid'' bool]"

definition struct_klist :: cty where
  "struct_klist = CStruct ''klist'' False
     [Field ''k_lock'' spinlock_t,
      Field ''k_list'' struct_list_head,
      Field ''get'' (CPtr ''void (struct klist_node *)''),
      Field ''put'' (CPtr ''void (struct klist_node *)'')]"

definition struct_klist_node :: cty where
  "struct_klist_node = CStruct ''klist_node'' False
     [Field ''n_klist'' (CPtr ''void''),
      Field ''n_node'' struct_list_head,
      Field ''n_ref'' struct_kref]"

definition struct_driver_type :: cty where
  "struct_driver_type = CStruct ''driver_type'' False
     [Field ''id'' (CArr 16 u8)]"

definition struct_device_private :: cty where
  "struct_device_private = CStruct ''device_private'' False
     [Field ''klist_children'' struct_klist,
      Field ''knode_parent'' struct_klist_node,
      Field ''knode_driver'' struct_klist_node,
      Field ''knode_bus'' struct_klist_node,
      Field ''knode_class'' struct_klist_node,
      Field ''deferred_probe'' struct_list_head,
      Field ''async_driver'' (CPtr ''const struct device_driver''),
      Field ''deferred_probe_reason'' (CPtr ''char''),
      Field ''device'' (CPtr ''struct device''),
      Field ''driver_type'' struct_driver_type,
      BitField ''dead'' u8 1]"

definition struct_disk_events :: cty where
  "struct_disk_events = CStruct ''disk_events'' False
     [Field ''node'' struct_list_head,
      Field ''disk'' (CPtr ''struct gendisk''),
      Field ''lock'' spinlock_t,
      Field ''block_mutex'' struct_mutex,
      Field ''block'' c_int,
      Field ''pending'' unsigned_int,
      Field ''clearing'' unsigned_int,
      Field ''poll_msecs'' c_long,
      Field ''dwork'' struct_delayed_work]"

definition struct_disk_stats :: cty where
  "struct_disk_stats = CStruct ''disk_stats'' False
     [Field ''nsecs'' (CArr 4 u64),
      Field ''sectors'' (CArr 4 long_unsigned_int),
      Field ''ios'' (CArr 4 long_unsigned_int),
      Field ''merges'' (CArr 4 long_unsigned_int),
      Field ''io_ticks'' long_unsigned_int,
      Field ''in_flight'' (CArr 2 local_t)]"

definition struct_dma_map_ops :: cty where
  "struct_dma_map_ops = CStruct ''dma_map_ops'' False
     [Field ''alloc'' (CPtr ''void * (struct device *, size_t, dma_addr_t *, gfp_t, long unsigned int)''),
      Field ''free'' (CPtr ''void (struct device *, size_t, void *, dma_addr_t, long unsigned int)''),
      Field ''alloc_pages_op'' (CPtr ''struct page * (struct device *, size_t, dma_addr_t *, enum dma_data_direction, gfp_t)''),
      Field ''free_pages'' (CPtr ''void (struct device *, size_t, struct page *, dma_addr_t, enum dma_data_direction)''),
      Field ''mmap'' (CPtr ''int (struct device *, struct vm_area_struct *, void *, dma_addr_t, size_t, long unsigned int)''),
      Field ''get_sgtable'' (CPtr ''int (struct device *, struct sg_table *, void *, dma_addr_t, size_t, long unsigned int)''),
      Field ''map_phys'' (CPtr ''dma_addr_t (struct device *, phys_addr_t, size_t, enum dma_data_direction, long unsigned int)''),
      Field ''unmap_phys'' (CPtr ''void (struct device *, dma_addr_t, size_t, enum dma_data_direction, long unsigned int)''),
      Field ''map_sg'' (CPtr ''int (struct device *, struct scatterlist *, int, enum dma_data_direction, long unsigned int)''),
      Field ''unmap_sg'' (CPtr ''void (struct device *, struct scatterlist *, int, enum dma_data_direction, long unsigned int)''),
      Field ''sync_single_for_cpu'' (CPtr ''void (struct device *, dma_addr_t, size_t, enum dma_data_direction)''),
      Field ''sync_single_for_device'' (CPtr ''void (struct device *, dma_addr_t, size_t, enum dma_data_direction)''),
      Field ''sync_sg_for_cpu'' (CPtr ''void (struct device *, struct scatterlist *, int, enum dma_data_direction)''),
      Field ''sync_sg_for_device'' (CPtr ''void (struct device *, struct scatterlist *, int, enum dma_data_direction)''),
      Field ''cache_sync'' (CPtr ''void (struct device *, void *, size_t, enum dma_data_direction)''),
      Field ''dma_supported'' (CPtr ''int (struct device *, u64)''),
      Field ''get_required_mask'' (CPtr ''u64 (struct device *)''),
      Field ''max_mapping_size'' (CPtr ''size_t (struct device *)''),
      Field ''opt_mapping_size'' (CPtr ''size_t (void)''),
      Field ''get_merge_boundary'' (CPtr ''long unsigned int (struct device *)'')]"

definition struct_elevator_queue :: cty where
  "struct_elevator_queue = CStruct ''elevator_queue'' False
     [Field ''type'' (CPtr ''struct elevator_type''),
      Field ''et'' (CPtr ''struct elevator_tags''),
      Field ''elevator_data'' (CPtr ''void''),
      Field ''kobj'' struct_kobject,
      Field ''sysfs_lock'' struct_mutex,
      Field ''flags'' long_unsigned_int,
      Field ''hash'' (CArr 64 struct_hlist_head)]"

definition struct_em_perf_domain :: cty where
  "struct_em_perf_domain = CStruct ''em_perf_domain'' False
     [Field ''em_table'' (CPtr ''struct em_perf_table''),
      Field ''node'' struct_list_head,
      Field ''id'' c_int,
      Field ''nr_perf_states'' c_int,
      Field ''min_perf_state'' c_int,
      Field ''max_perf_state'' c_int,
      Field ''flags'' long_unsigned_int,
      Field ''cpus'' (CArr 0 long_unsigned_int)]"

definition struct_fc_log :: cty where
  "struct_fc_log = CStruct ''fc_log'' False
     [Field ''usage'' refcount_t,
      Field ''head'' u8,
      Field ''tail'' u8,
      Field ''need_free'' u8,
      Field ''owner'' (CPtr ''struct module''),
      Field ''buffer'' (CArr 8 (CPtr ''char''))]"

definition struct_file_lock_operations :: cty where
  "struct_file_lock_operations = CStruct ''file_lock_operations'' False
     [Field ''fl_copy_lock'' (CPtr ''void (struct file_lock *, struct file_lock *)''),
      Field ''fl_release_private'' (CPtr ''void (struct file_lock *)'')]"

definition struct_folio_batch :: cty where
  "struct_folio_batch = CStruct ''folio_batch'' False
     [Field ''nr'' unsigned_char,
      Field ''i'' unsigned_char,
      Field ''percpu_pvec_drained'' bool,
      Field ''folios'' (CArr 31 (CPtr ''struct folio''))]"

definition struct_folio_queue :: cty where
  "struct_folio_queue = CStruct ''folio_queue'' False
     [Field ''vec'' struct_folio_batch,
      Field ''orders'' (CArr 31 u8),
      Field ''next'' (CPtr ''struct folio_queue''),
      Field ''prev'' (CPtr ''struct folio_queue''),
      Field ''marks'' long_unsigned_int,
      Field ''marks2'' long_unsigned_int,
      Field ''rreq_id'' unsigned_int,
      Field ''debug_id'' unsigned_int]"

definition struct_fs_context_operations :: cty where
  "struct_fs_context_operations = CStruct ''fs_context_operations'' False
     [Field ''free'' (CPtr ''void (struct fs_context *)''),
      Field ''dup'' (CPtr ''int (struct fs_context *, struct fs_context *)''),
      Field ''parse_param'' (CPtr ''int (struct fs_context *, struct fs_parameter *)''),
      Field ''parse_monolithic'' (CPtr ''int (struct fs_context *, void *)''),
      Field ''get_tree'' (CPtr ''int (struct fs_context *)''),
      Field ''reconfigure'' (CPtr ''int (struct fs_context *)'')]"

definition struct_fs_parameter_spec :: cty where
  "struct_fs_parameter_spec = CStruct ''fs_parameter_spec'' False
     [Field ''name'' (CPtr ''const char''),
      Field ''type'' (CPtr ''fs_param_type''),
      Field ''opt'' u8,
      Field ''flags'' short_unsigned_int,
      Field ''data'' (CPtr ''const void'')]"

definition struct_io_tlb_pool :: cty where
  "struct_io_tlb_pool = CStruct ''io_tlb_pool'' False
     [Field ''start'' phys_addr_t,
      Field ''end'' phys_addr_t,
      Field ''vaddr'' (CPtr ''void''),
      Field ''nslabs'' long_unsigned_int,
      Field ''late_alloc'' bool,
      Field ''nareas'' unsigned_int,
      Field ''area_nslabs'' unsigned_int,
      Field ''areas'' (CPtr ''struct io_tlb_area''),
      Field ''slots'' (CPtr ''struct io_tlb_slot''),
      Field ''node'' struct_list_head,
      Field ''rcu'' struct_callback_head,
      Field ''transient'' bool]"

definition struct_io_tlb_mem :: cty where
  "struct_io_tlb_mem = CStruct ''io_tlb_mem'' False
     [Field ''defpool'' struct_io_tlb_pool,
      Field ''nslabs'' long_unsigned_int,
      Field ''debugfs'' (CPtr ''struct dentry''),
      Field ''force_bounce'' bool,
      Field ''for_alloc'' bool,
      Field ''can_grow'' bool,
      Field ''phys_limit'' u64,
      Field ''lock'' spinlock_t,
      Field ''pools'' struct_list_head,
      Field ''dyn_alloc'' struct_work_struct,
      Field ''total_used'' atomic_long_t,
      Field ''used_hiwater'' atomic_long_t,
      Field ''transient_nslabs'' atomic_long_t]"

definition enum_irq_domain_bus_token :: cty where
  "enum_irq_domain_bus_token = CEnum 4
     [(''DOMAIN_BUS_ANY'', 0), (''DOMAIN_BUS_WIRED'', 1), (''DOMAIN_BUS_GENERIC_MSI'', 2),
      (''DOMAIN_BUS_PCI_MSI'', 3), (''DOMAIN_BUS_PLATFORM_MSI'', 4), (''DOMAIN_BUS_NEXUS'', 5),
      (''DOMAIN_BUS_IPI'', 6), (''DOMAIN_BUS_FSL_MC_MSI'', 7),
      (''DOMAIN_BUS_TI_SCI_INTA_MSI'', 8), (''DOMAIN_BUS_WAKEUP'', 9),
      (''DOMAIN_BUS_VMD_MSI'', 10), (''DOMAIN_BUS_PCI_DEVICE_MSI'', 11),
      (''DOMAIN_BUS_PCI_DEVICE_MSIX'', 12), (''DOMAIN_BUS_DMAR'', 13),
      (''DOMAIN_BUS_AMDVI'', 14), (''DOMAIN_BUS_DEVICE_MSI'', 15),
      (''DOMAIN_BUS_WIRED_TO_MSI'', 16)]"

definition irq_hw_number_t :: cty where [layout_simps]:
  "irq_hw_number_t = long_unsigned_int"

definition struct_irq_domain :: cty where
  "struct_irq_domain = CStruct ''irq_domain'' False
     [Field ''link'' struct_list_head,
      Field ''name'' (CPtr ''const char''),
      Field ''ops'' (CPtr ''const struct irq_domain_ops''),
      Field ''host_data'' (CPtr ''void''),
      Field ''flags'' unsigned_int,
      Field ''mapcount'' unsigned_int,
      Field ''mutex'' struct_mutex,
      Field ''root'' (CPtr ''struct irq_domain''),
      Field ''fwnode'' (CPtr ''struct fwnode_handle''),
      Field ''bus_token'' enum_irq_domain_bus_token,
      Field ''gc'' (CPtr ''struct irq_domain_chip_generic''),
      Field ''dev'' (CPtr ''struct device''),
      Field ''pm_dev'' (CPtr ''struct device''),
      Field ''parent'' (CPtr ''struct irq_domain''),
      Field ''msi_parent_ops'' (CPtr ''const struct msi_parent_ops''),
      Field ''exit'' (CPtr ''void (struct irq_domain *)''),
      Field ''hwirq_max'' irq_hw_number_t,
      Field ''revmap_size'' unsigned_int,
      Field ''revmap_tree'' struct_xarray,
      Field ''revmap'' (CArr 0 (CPtr ''struct irq_data''))]"

definition slab_flags_t :: cty where [layout_simps]:
  "slab_flags_t = unsigned_int"

definition struct_reciprocal_value :: cty where
  "struct_reciprocal_value = CStruct ''reciprocal_value'' False
     [Field ''m'' u32,
      Field ''sh1'' u8,
      Field ''sh2'' u8]"

definition struct_kmem_cache_order_objects :: cty where
  "struct_kmem_cache_order_objects = CStruct ''kmem_cache_order_objects'' False
     [Field ''x'' unsigned_int]"

definition struct_kmem_cache :: cty where
  "struct_kmem_cache = CStruct ''kmem_cache'' False
     [Field ''cpu_sheaves'' (CPtr ''struct slub_percpu_sheaves''),
      Field ''flags'' slab_flags_t,
      Field ''min_partial'' long_unsigned_int,
      Field ''size'' unsigned_int,
      Field ''object_size'' unsigned_int,
      Field ''reciprocal_size'' struct_reciprocal_value,
      Field ''offset'' unsigned_int,
      Field ''sheaf_capacity'' unsigned_int,
      Field ''oo'' struct_kmem_cache_order_objects,
      Field ''min'' struct_kmem_cache_order_objects,
      Field ''allocflags'' gfp_t,
      Field ''refcount'' c_int,
      Field ''ctor'' (CPtr ''void (void *)''),
      Field ''inuse'' unsigned_int,
      Field ''align'' unsigned_int,
      Field ''red_left_pad'' unsigned_int,
      Field ''name'' (CPtr ''const char''),
      Field ''list'' struct_list_head,
      Field ''kobj'' struct_kobject,
      Field ''random'' long_unsigned_int,
      Field ''remote_node_defrag_ratio'' unsigned_int,
      Field ''random_seq'' (CPtr ''unsigned int''),
      Field ''useroffset'' unsigned_int,
      Field ''usersize'' unsigned_int,
      Field ''node'' (CArr 1024 (CPtr ''struct kmem_cache_node''))]"

definition struct_kvec :: cty where
  "struct_kvec = CStruct ''kvec'' False
     [Field ''iov_base'' (CPtr ''void''),
      Field ''iov_len'' size_t]"

definition struct_lock_manager_operations :: cty where
  "struct_lock_manager_operations = CStruct ''lock_manager_operations'' False
     [Field ''lm_mod_owner'' (CPtr ''void''),
      Field ''lm_get_owner'' (CPtr ''fl_owner_t (fl_owner_t)''),
      Field ''lm_put_owner'' (CPtr ''void (fl_owner_t)''),
      Field ''lm_notify'' (CPtr ''void (struct file_lock *)''),
      Field ''lm_grant'' (CPtr ''int (struct file_lock *, int)''),
      Field ''lm_lock_expirable'' (CPtr ''bool (struct file_lock *)''),
      Field ''lm_expire_lock'' (CPtr ''void (void)'')]"

definition struct_mnt_idmap :: cty where
  "struct_mnt_idmap = CStruct ''mnt_idmap'' False
     [Field ''uid_map'' struct_uid_gid_map,
      Field ''gid_map'' struct_uid_gid_map,
      Field ''count'' refcount_t]"

definition struct_mnt_namespace :: cty where
  "struct_mnt_namespace = CStruct ''mnt_namespace'' False
     [Field ''ns'' struct_ns_common,
      Field ''root'' (CPtr ''struct mount''),
      Field [] (CStruct [] False
        [Field ''mounts'' struct_rb_root,
         Field ''mnt_last_node'' (CPtr ''struct rb_node''),
         Field ''mnt_first_node'' (CPtr ''struct rb_node'')]),
      Field ''user_ns'' (CPtr ''struct user_namespace''),
      Field ''ucounts'' (CPtr ''struct ucounts''),
      Field ''poll'' wait_queue_head_t,
      Field ''seq_origin'' u64,
      Field ''event'' u64,
      Field ''n_fsnotify_mask'' c__u32,
      Field ''n_fsnotify_marks'' (CPtr ''struct fsnotify_mark_connector''),
      Field ''nr_mounts'' unsigned_int,
      Field ''pending_mounts'' unsigned_int,
      Field ''passive'' refcount_t,
      Field ''is_anon'' bool,
      BitField [] c_long 64]"

definition struct_mnt_pcp :: cty where
  "struct_mnt_pcp = CStruct ''mnt_pcp'' False
     [Field ''mnt_count'' c_int,
      Field ''mnt_writers'' c_int]"

definition struct_mountpoint :: cty where
  "struct_mountpoint = CStruct ''mountpoint'' False
     [Field ''m_hash'' struct_hlist_node,
      Field ''m_dentry'' (CPtr ''struct dentry''),
      Field ''m_list'' struct_hlist_head]"

definition struct_msi_dev_domain :: cty where
  "struct_msi_dev_domain = CStruct ''msi_dev_domain'' False
     [Field ''store'' struct_xarray,
      Field ''domain'' (CPtr ''struct irq_domain'')]"

definition struct_msi_device_data :: cty where
  "struct_msi_device_data = CStruct ''msi_device_data'' False
     [Field ''properties'' long_unsigned_int,
      Field ''mutex'' struct_mutex,
      Field ''__domains'' (CArr 1 struct_msi_dev_domain),
      Field ''__iter_idx'' long_unsigned_int]"

definition struct_ref_tracker_dir :: cty where
  "struct_ref_tracker_dir = CStruct ''ref_tracker_dir'' False
     []"

definition struct_raw_notifier_head :: cty where
  "struct_raw_notifier_head = CStruct ''raw_notifier_head'' False
     [Field ''head'' (CPtr ''struct notifier_block'')]"

definition struct_netns_core :: cty where
  "struct_netns_core = CStruct ''netns_core'' False
     [Field ''sysctl_hdr'' (CPtr ''struct ctl_table_header''),
      Field ''sysctl_somaxconn'' c_int,
      Field ''sysctl_txq_reselection'' c_int,
      Field ''sysctl_optmem_max'' c_int,
      Field ''sysctl_txrehash'' u8,
      Field ''sysctl_tstamp_allow_data'' u8,
      Field ''sysctl_bypass_prot_mem'' u8,
      Field ''prot_inuse'' (CPtr ''struct prot_inuse''),
      Field ''rps_default_mask'' (CPtr ''struct cpumask'')]"

definition struct_netns_mib :: cty where
  "struct_netns_mib = CStruct ''netns_mib'' False
     [Field ''ip_statistics'' (CPtr ''struct ipstats_mib''),
      Field ''ipv6_statistics'' (CPtr ''struct ipstats_mib''),
      Field ''tcp_statistics'' (CPtr ''struct tcp_mib''),
      Field ''net_statistics'' (CPtr ''struct linux_mib''),
      Field ''udp_statistics'' (CPtr ''struct udp_mib''),
      Field ''udp_stats_in6'' (CPtr ''struct udp_mib''),
      Field ''xfrm_statistics'' (CPtr ''struct linux_xfrm_mib''),
      Field ''tls_statistics'' (CPtr ''struct linux_tls_mib''),
      Field ''mptcp_statistics'' (CPtr ''struct mptcp_mib''),
      Field ''udplite_statistics'' (CPtr ''struct udp_mib''),
      Field ''udplite_stats_in6'' (CPtr ''struct udp_mib''),
      Field ''icmp_statistics'' (CPtr ''struct icmp_mib''),
      Field ''icmpmsg_statistics'' (CPtr ''struct icmpmsg_mib''),
      Field ''icmpv6_statistics'' (CPtr ''struct icmpv6_mib''),
      Field ''icmpv6msg_statistics'' (CPtr ''struct icmpv6msg_mib''),
      Field ''proc_net_devsnmp6'' (CPtr ''struct proc_dir_entry'')]"

definition struct_netns_packet :: cty where
  "struct_netns_packet = CStruct ''netns_packet'' False
     [Field ''sklist_lock'' struct_mutex,
      Field ''sklist'' struct_hlist_head]"

definition struct_unix_table :: cty where
  "struct_unix_table = CStruct ''unix_table'' False
     [Field ''locks'' (CPtr ''spinlock_t''),
      Field ''buckets'' (CPtr ''struct hlist_head'')]"

definition struct_netns_unix :: cty where
  "struct_netns_unix = CStruct ''netns_unix'' False
     [Field ''table'' struct_unix_table,
      Field ''sysctl_max_dgram_qlen'' c_int,
      Field ''ctl'' (CPtr ''struct ctl_table_header'')]"

definition struct_netns_nexthop :: cty where
  "struct_netns_nexthop = CStruct ''netns_nexthop'' False
     [Field ''rb_root'' struct_rb_root,
      Field ''devhash'' (CPtr ''struct hlist_head''),
      Field ''seq'' unsigned_int,
      Field ''last_id_allocated'' u32,
      Field ''notifier_chain'' struct_blocking_notifier_head]"

definition struct_inet_timewait_death_row :: cty where
  "struct_inet_timewait_death_row = CStruct ''inet_timewait_death_row'' False
     [Field ''tw_refcount'' refcount_t,
      BitField [] c_long 64,
      BitField [] c_long 64,
      BitField [] c_long 64,
      BitField [] c_long 64,
      BitField [] c_long 64,
      BitField [] c_long 64,
      BitField [] c_long 64,
      Field ''hashinfo'' (CPtr ''struct inet_hashinfo''),
      Field ''sysctl_max_tw_buckets'' c_int,
      BitField [] c_long 64,
      BitField [] c_long 64,
      BitField [] c_long 64,
      BitField [] c_long 64,
      BitField [] c_long 64,
      BitField [] c_long 64]"

definition struct_udp_tunnel_gro :: cty where
  "struct_udp_tunnel_gro = CStruct ''udp_tunnel_gro'' False
     [Field ''sk'' (CPtr ''struct sock''),
      Field ''list'' struct_hlist_head]"

definition struct_local_ports :: cty where
  "struct_local_ports = CStruct ''local_ports'' False
     [Field ''range'' u32,
      Field ''warned'' bool]"

definition struct_ping_group_range :: cty where
  "struct_ping_group_range = CStruct ''ping_group_range'' False
     [Field ''lock'' seqlock_t,
      Field ''range'' (CArr 2 kgid_t)]"

definition struct_sysctl_fib_multipath_hash_seed :: cty where
  "struct_sysctl_fib_multipath_hash_seed = CStruct ''sysctl_fib_multipath_hash_seed'' False
     [Field ''user_seed'' u32,
      Field ''mp_seed'' u32]"

definition siphash_key_t :: cty where
  "siphash_key_t = CStruct [] False
      [Field ''key'' (CArr 2 u64)]"

definition struct_netns_ipv4 :: cty where
  "struct_netns_ipv4 = CStruct ''netns_ipv4'' False
     [Field ''__cacheline_group_begin__netns_ipv4_read_tx'' (CArr 0 c__u8),
      Field ''sysctl_tcp_early_retrans'' u8,
      Field ''sysctl_tcp_tso_win_divisor'' u8,
      Field ''sysctl_tcp_tso_rtt_log'' u8,
      Field ''sysctl_tcp_autocorking'' u8,
      Field ''sysctl_tcp_min_snd_mss'' c_int,
      Field ''sysctl_tcp_notsent_lowat'' unsigned_int,
      Field ''sysctl_tcp_limit_output_bytes'' c_int,
      Field ''sysctl_tcp_min_rtt_wlen'' c_int,
      Field ''sysctl_tcp_wmem'' (CArr 3 c_int),
      Field ''sysctl_ip_fwd_use_pmtu'' u8,
      Field ''__cacheline_group_end__netns_ipv4_read_tx'' (CArr 0 c__u8),
      Field ''__cacheline_group_begin__netns_ipv4_read_txrx'' (CArr 0 c__u8),
      Field ''__cacheline_group_end__netns_ipv4_read_txrx'' (CArr 0 c__u8),
      Field ''__cacheline_group_begin__netns_ipv4_read_rx'' (CArr 0 c__u8),
      Field ''sysctl_tcp_moderate_rcvbuf'' u8,
      Field ''sysctl_ip_early_demux'' u8,
      Field ''sysctl_tcp_early_demux'' u8,
      Field ''sysctl_tcp_l3mdev_accept'' u8,
      Field ''sysctl_tcp_reordering'' c_int,
      Field ''sysctl_tcp_rmem'' (CArr 3 c_int),
      Field ''sysctl_tcp_rcvbuf_low_rtt'' c_int,
      Field ''__cacheline_group_end__netns_ipv4_read_rx'' (CArr 0 c__u8),
      BitField [] c_long 0,
      Field ''__cacheline_group_begin__icmp'' (CArr 0 c__u8),
      Field ''icmp_global_credit'' atomic_t,
      Field ''icmp_global_stamp'' u32,
      Field ''__cacheline_group_end__icmp'' (CArr 0 c__u8),
      BitField [] c_long 64,
      BitField [] c_long 64,
      BitField [] c_long 64,
      BitField [] c_long 64,
      BitField [] c_long 64,
      BitField [] c_long 64,
      BitField [] c_long 64,
      Field ''__cacheline_group_pad__icmp'' (CStruct [] False
        []),
      Field ''tcp_death_row'' struct_inet_timewait_death_row,
      Field ''udp_table'' (CPtr ''struct udp_table''),
      Field ''udp_tunnel_gro'' (CArr 2 struct_udp_tunnel_gro),
      Field ''forw_hdr'' (CPtr ''struct ctl_table_header''),
      Field ''frags_hdr'' (CPtr ''struct ctl_table_header''),
      Field ''ipv4_hdr'' (CPtr ''struct ctl_table_header''),
      Field ''route_hdr'' (CPtr ''struct ctl_table_header''),
      Field ''xfrm4_hdr'' (CPtr ''struct ctl_table_header''),
      Field ''devconf_all'' (CPtr ''struct ipv4_devconf''),
      Field ''devconf_dflt'' (CPtr ''struct ipv4_devconf''),
      Field ''ra_chain'' (CPtr ''struct ip_ra_chain''),
      Field ''ra_mutex'' struct_mutex,
      Field ''rules_ops'' (CPtr ''struct fib_rules_ops''),
      Field ''fib_main'' (CPtr ''struct fib_table''),
      Field ''fib_default'' (CPtr ''struct fib_table''),
      Field ''fib_rules_require_fldissect'' unsigned_int,
      Field ''fib_has_custom_rules'' bool,
      Field ''fib_has_custom_local_routes'' bool,
      Field ''fib_offload_disabled'' bool,
      Field ''sysctl_tcp_shrink_window'' u8,
      Field ''fib_num_tclassid_users'' atomic_t,
      Field ''fib_table_hash'' (CPtr ''struct hlist_head''),
      Field ''fibnl'' (CPtr ''struct sock''),
      Field ''fib_info_hash'' (CPtr ''struct hlist_head''),
      Field ''fib_info_hash_bits'' unsigned_int,
      Field ''fib_info_cnt'' unsigned_int,
      Field ''mc_autojoin_sk'' (CPtr ''struct sock''),
      Field ''peers'' (CPtr ''struct inet_peer_base''),
      Field ''fqdir'' (CPtr ''struct fqdir''),
      Field ''sysctl_icmp_echo_ignore_all'' u8,
      Field ''sysctl_icmp_echo_enable_probe'' u8,
      Field ''sysctl_icmp_echo_ignore_broadcasts'' u8,
      Field ''sysctl_icmp_ignore_bogus_error_responses'' u8,
      Field ''sysctl_icmp_errors_use_inbound_ifaddr'' u8,
      Field ''sysctl_icmp_errors_extension_mask'' u8,
      Field ''sysctl_icmp_ratelimit'' c_int,
      Field ''sysctl_icmp_ratemask'' c_int,
      Field ''sysctl_icmp_msgs_per_sec'' c_int,
      Field ''sysctl_icmp_msgs_burst'' c_int,
      Field ''ip_rt_min_pmtu'' u32,
      Field ''ip_rt_mtu_expires'' c_int,
      Field ''ip_rt_min_advmss'' c_int,
      Field ''ip_local_ports'' struct_local_ports,
      Field ''sysctl_tcp_ecn'' u8,
      Field ''sysctl_tcp_ecn_option'' u8,
      Field ''sysctl_tcp_ecn_option_beacon'' u8,
      Field ''sysctl_tcp_ecn_fallback'' u8,
      Field ''sysctl_ip_default_ttl'' u8,
      Field ''sysctl_ip_no_pmtu_disc'' u8,
      Field ''sysctl_ip_fwd_update_priority'' u8,
      Field ''sysctl_ip_nonlocal_bind'' u8,
      Field ''sysctl_ip_autobind_reuse'' u8,
      Field ''sysctl_ip_dynaddr'' u8,
      Field ''sysctl_raw_l3mdev_accept'' u8,
      Field ''sysctl_udp_early_demux'' u8,
      Field ''sysctl_nexthop_compat_mode'' u8,
      Field ''sysctl_fwmark_reflect'' u8,
      Field ''sysctl_tcp_fwmark_accept'' u8,
      Field ''sysctl_tcp_mtu_probing'' u8,
      Field ''sysctl_tcp_mtu_probe_floor'' c_int,
      Field ''sysctl_tcp_base_mss'' c_int,
      Field ''sysctl_tcp_probe_threshold'' c_int,
      Field ''sysctl_tcp_probe_interval'' u32,
      Field ''sysctl_tcp_keepalive_time'' c_int,
      Field ''sysctl_tcp_keepalive_intvl'' c_int,
      Field ''sysctl_tcp_keepalive_probes'' u8,
      Field ''sysctl_tcp_syn_retries'' u8,
      Field ''sysctl_tcp_synack_retries'' u8,
      Field ''sysctl_tcp_syncookies'' u8,
      Field ''sysctl_tcp_migrate_req'' u8,
      Field ''sysctl_tcp_comp_sack_nr'' u8,
      Field ''sysctl_tcp_backlog_ack_defer'' u8,
      Field ''sysctl_tcp_pingpong_thresh'' u8,
      Field ''sysctl_tcp_retries1'' u8,
      Field ''sysctl_tcp_retries2'' u8,
      Field ''sysctl_tcp_orphan_retries'' u8,
      Field ''sysctl_tcp_tw_reuse'' u8,
      Field ''sysctl_tcp_tw_reuse_delay'' unsigned_int,
      Field ''sysctl_tcp_fin_timeout'' c_int,
      Field ''sysctl_tcp_sack'' u8,
      Field ''sysctl_tcp_window_scaling'' u8,
      Field ''sysctl_tcp_timestamps'' u8,
      Field ''sysctl_tcp_rto_min_us'' c_int,
      Field ''sysctl_tcp_rto_max_ms'' c_int,
      Field ''sysctl_tcp_recovery'' u8,
      Field ''sysctl_tcp_thin_linear_timeouts'' u8,
      Field ''sysctl_tcp_slow_start_after_idle'' u8,
      Field ''sysctl_tcp_retrans_collapse'' u8,
      Field ''sysctl_tcp_stdurg'' u8,
      Field ''sysctl_tcp_rfc1337'' u8,
      Field ''sysctl_tcp_abort_on_overflow'' u8,
      Field ''sysctl_tcp_fack'' u8,
      Field ''sysctl_tcp_max_reordering'' c_int,
      Field ''sysctl_tcp_adv_win_scale'' c_int,
      Field ''sysctl_tcp_dsack'' u8,
      Field ''sysctl_tcp_app_win'' u8,
      Field ''sysctl_tcp_frto'' u8,
      Field ''sysctl_tcp_nometrics_save'' u8,
      Field ''sysctl_tcp_no_ssthresh_metrics_save'' u8,
      Field ''sysctl_tcp_workaround_signed_windows'' u8,
      Field ''sysctl_tcp_challenge_ack_limit'' c_int,
      Field ''sysctl_tcp_min_tso_segs'' u8,
      Field ''sysctl_tcp_reflect_tos'' u8,
      Field ''sysctl_tcp_invalid_ratelimit'' c_int,
      Field ''sysctl_tcp_pacing_ss_ratio'' c_int,
      Field ''sysctl_tcp_pacing_ca_ratio'' c_int,
      Field ''sysctl_tcp_child_ehash_entries'' unsigned_int,
      Field ''sysctl_tcp_comp_sack_rtt_percent'' c_int,
      Field ''sysctl_tcp_comp_sack_delay_ns'' long_unsigned_int,
      Field ''sysctl_tcp_comp_sack_slack_ns'' long_unsigned_int,
      Field ''sysctl_max_syn_backlog'' c_int,
      Field ''sysctl_tcp_fastopen'' c_int,
      Field ''tcp_congestion_control'' (CPtr ''const struct tcp_congestion_ops''),
      Field ''tcp_fastopen_ctx'' (CPtr ''struct tcp_fastopen_context''),
      Field ''sysctl_tcp_fastopen_blackhole_timeout'' unsigned_int,
      Field ''tfo_active_disable_times'' atomic_t,
      Field ''tfo_active_disable_stamp'' long_unsigned_int,
      Field ''tcp_challenge_timestamp'' u32,
      Field ''tcp_challenge_count'' u32,
      Field ''sysctl_tcp_plb_enabled'' u8,
      Field ''sysctl_tcp_plb_idle_rehash_rounds'' u8,
      Field ''sysctl_tcp_plb_rehash_rounds'' u8,
      Field ''sysctl_tcp_plb_suspend_rto_sec'' u8,
      Field ''sysctl_tcp_plb_cong_thresh'' c_int,
      Field ''sysctl_udp_wmem_min'' c_int,
      Field ''sysctl_udp_rmem_min'' c_int,
      Field ''sysctl_fib_notify_on_flag_change'' u8,
      Field ''sysctl_tcp_syn_linear_timeouts'' u8,
      Field ''sysctl_udp_l3mdev_accept'' u8,
      Field ''sysctl_igmp_llm_reports'' u8,
      Field ''sysctl_igmp_max_memberships'' c_int,
      Field ''sysctl_igmp_max_msf'' c_int,
      Field ''sysctl_igmp_qrv'' c_int,
      Field ''ping_group_range'' struct_ping_group_range,
      Field ''ping_port_rover'' u16,
      Field ''dev_addr_genid'' atomic_t,
      Field ''sysctl_udp_child_hash_entries'' unsigned_int,
      Field ''sysctl_local_reserved_ports'' (CPtr ''long unsigned int''),
      Field ''sysctl_ip_prot_sock'' c_int,
      Field ''mr_tables'' struct_list_head,
      Field ''mr_rules_ops'' (CPtr ''struct fib_rules_ops''),
      Field ''sysctl_fib_multipath_hash_seed'' struct_sysctl_fib_multipath_hash_seed,
      Field ''sysctl_fib_multipath_hash_fields'' u32,
      Field ''sysctl_fib_multipath_use_neigh'' u8,
      Field ''sysctl_fib_multipath_hash_policy'' u8,
      Field ''notifier_ops'' (CPtr ''struct fib_notifier_ops''),
      Field ''fib_seq'' unsigned_int,
      Field ''ipmr_notifier_ops'' (CPtr ''struct fib_notifier_ops''),
      Field ''ipmr_seq'' unsigned_int,
      Field ''rt_genid'' atomic_t,
      Field ''ip_id_key'' siphash_key_t,
      Field ''inet_addr_lst'' (CPtr ''struct hlist_head''),
      Field ''addr_chk_work'' struct_delayed_work,
      BitField [] c_long 64,
      BitField [] c_long 64,
      BitField [] c_long 64,
      BitField [] c_long 64,
      BitField [] c_long 64]"

section \<open>Sizes and alignments\<close>

lemma struct_badblocks_layout [layout_simps]:
  "sizeof struct_badblocks = 64 \<and> alignof struct_badblocks = 8 \<and> wf_cty struct_badblocks"
  by (simp add: struct_badblocks_def base_types layout_eval seqlock_t_def struct_seqlock_layout sector_t_def u64_def
      c__u64_def
      del: One_nat_def)

lemma struct_bio_alloc_cache_layout [layout_simps]:
  "sizeof struct_bio_alloc_cache = 24 \<and> alignof struct_bio_alloc_cache = 8 \<and> wf_cty struct_bio_alloc_cache"
  by (simp add: struct_bio_alloc_cache_def base_types layout_eval
      del: One_nat_def)

lemma struct_bio_crypt_ctx_layout [layout_simps]:
  "sizeof struct_bio_crypt_ctx = 40 \<and> alignof struct_bio_crypt_ctx = 8 \<and> wf_cty struct_bio_crypt_ctx"
  by (simp add: struct_bio_crypt_ctx_def base_types layout_eval u64_def c__u64_def
      del: One_nat_def)

lemma struct_bio_integrity_payload_layout [layout_simps]:
  "sizeof struct_bio_integrity_payload = 40 \<and> alignof struct_bio_integrity_payload = 8 \<and> wf_cty struct_bio_integrity_payload"
  by (simp add: struct_bio_integrity_payload_def base_types layout_eval struct_bvec_iter_layout u16_def c__u16_def
      del: One_nat_def)

lemma struct_bio_vec_layout [layout_simps]:
  "sizeof struct_bio_vec = 16 \<and> alignof struct_bio_vec = 8 \<and> wf_cty struct_bio_vec"
  by (simp add: struct_bio_vec_def base_types layout_eval
      del: One_nat_def)

lemma struct_blk_crypto_ll_ops_layout [layout_simps]:
  "sizeof struct_blk_crypto_ll_ops = 48 \<and> alignof struct_blk_crypto_ll_ops = 8 \<and> wf_cty struct_blk_crypto_ll_ops"
  by (simp add: struct_blk_crypto_ll_ops_def base_types layout_eval
      del: One_nat_def)

lemma struct_blk_crypto_profile_layout [layout_simps]:
  "sizeof struct_blk_crypto_profile = 208 \<and> alignof struct_blk_crypto_profile = 8 \<and> wf_cty struct_blk_crypto_profile"
  by (simp add: struct_blk_crypto_profile_def base_types layout_eval struct_blk_crypto_ll_ops_layout
      struct_rw_semaphore_layout struct_lock_class_key_layout wait_queue_head_t_def
      struct_wait_queue_head_layout struct_list_head_layout spinlock_t_def struct_spinlock_layout
      del: One_nat_def)

lemma struct_blk_flush_queue_layout [layout_simps]:
  "sizeof struct_blk_flush_queue = 80 \<and> alignof struct_blk_flush_queue = 8 \<and> wf_cty struct_blk_flush_queue"
  by (simp add: struct_blk_flush_queue_def base_types layout_eval spinlock_t_def struct_spinlock_layout blk_status_t_def
      u8_def c__u8_def struct_list_head_layout struct_callback_head_layout
      del: One_nat_def)

lemma struct_blk_holder_ops_layout [layout_simps]:
  "sizeof struct_blk_holder_ops = 32 \<and> alignof struct_blk_holder_ops = 8 \<and> wf_cty struct_blk_holder_ops"
  by (simp add: struct_blk_holder_ops_def base_types layout_eval
      del: One_nat_def)

lemma struct_blk_independent_access_range_layout [layout_simps]:
  "sizeof struct_blk_independent_access_range = 80 \<and> alignof struct_blk_independent_access_range = 8 \<and> wf_cty struct_blk_independent_access_range"
  by (simp add: struct_blk_independent_access_range_def base_types layout_eval struct_kobject_layout sector_t_def u64_def
      c__u64_def
      del: One_nat_def)

lemma struct_blk_independent_access_ranges_layout [layout_simps]:
  "sizeof struct_blk_independent_access_ranges = 72 \<and> alignof struct_blk_independent_access_ranges = 8 \<and> wf_cty struct_blk_independent_access_ranges"
  by (simp add: struct_blk_independent_access_ranges_def base_types layout_eval struct_kobject_layout bool_def
      struct_blk_independent_access_range_layout
      del: One_nat_def)

lemma struct_blk_mq_ctx_layout [layout_simps]:
  "sizeof struct_blk_mq_ctx = 192 \<and> alignof struct_blk_mq_ctx = 8 \<and> wf_cty struct_blk_mq_ctx"
  by (simp add: struct_blk_mq_ctx_def base_types layout_eval spinlock_t_def struct_spinlock_layout
      struct_list_head_layout struct_kobject_layout
      del: One_nat_def)

lemma struct_sbitmap_layout [layout_simps]:
  "sizeof struct_sbitmap = 32 \<and> alignof struct_sbitmap = 8 \<and> wf_cty struct_sbitmap"
  by (simp add: struct_sbitmap_def base_types layout_eval bool_def
      del: One_nat_def)

lemma struct_wait_queue_entry_layout [layout_simps]:
  "sizeof struct_wait_queue_entry = 40 \<and> alignof struct_wait_queue_entry = 8 \<and> wf_cty struct_wait_queue_entry"
  by (simp add: struct_wait_queue_entry_def base_types layout_eval wait_queue_func_t_def struct_list_head_layout
      del: One_nat_def)

lemma struct_blk_mq_hw_ctx_layout [layout_simps]:
  "sizeof struct_blk_mq_hw_ctx = 512 \<and> alignof struct_blk_mq_hw_ctx = 8 \<and> wf_cty struct_blk_mq_hw_ctx"
  by (simp add: struct_blk_mq_hw_ctx_def base_types layout_eval spinlock_t_def struct_spinlock_layout
      struct_list_head_layout struct_delayed_work_layout cpumask_var_t_def struct_sbitmap_layout
      wait_queue_entry_t_def struct_wait_queue_entry_layout atomic_t_layout struct_hlist_node_layout
      struct_kobject_layout
      del: One_nat_def)

lemma struct_blk_mq_ops_layout [layout_simps]:
  "sizeof struct_blk_mq_ops = 144 \<and> alignof struct_blk_mq_ops = 8 \<and> wf_cty struct_blk_mq_ops"
  by (simp add: struct_blk_mq_ops_def base_types layout_eval
      del: One_nat_def)

lemma struct_blk_mq_queue_map_layout [layout_simps]:
  "sizeof struct_blk_mq_queue_map = 16 \<and> alignof struct_blk_mq_queue_map = 8 \<and> wf_cty struct_blk_mq_queue_map"
  by (simp add: struct_blk_mq_queue_map_def base_types layout_eval
      del: One_nat_def)

lemma struct_srcu_struct_layout [layout_simps]:
  "sizeof struct_srcu_struct = 32 \<and> alignof struct_srcu_struct = 8 \<and> wf_cty struct_srcu_struct"
  by (simp add: struct_srcu_struct_def base_types layout_eval u8_def c__u8_def struct_lockdep_map_layout
      del: One_nat_def)

lemma struct_blk_mq_tag_set_layout [layout_simps]:
  "sizeof struct_blk_mq_tag_set = 240 \<and> alignof struct_blk_mq_tag_set = 8 \<and> wf_cty struct_blk_mq_tag_set"
  by (simp add: struct_blk_mq_tag_set_def base_types layout_eval struct_blk_mq_queue_map_layout struct_mutex_layout
      struct_list_head_layout struct_srcu_struct_layout struct_rw_semaphore_layout
      del: One_nat_def)

lemma struct_sbitmap_queue_layout [layout_simps]:
  "sizeof struct_sbitmap_queue = 64 \<and> alignof struct_sbitmap_queue = 8 \<and> wf_cty struct_sbitmap_queue"
  by (simp add: struct_sbitmap_queue_def base_types layout_eval struct_sbitmap_layout atomic_t_layout
      del: One_nat_def)

lemma struct_blk_mq_tags_layout [layout_simps]:
  "sizeof struct_blk_mq_tags = 200 \<and> alignof struct_blk_mq_tags = 8 \<and> wf_cty struct_blk_mq_tags"
  by (simp add: struct_blk_mq_tags_def base_types layout_eval struct_sbitmap_queue_layout struct_list_head_layout
      spinlock_t_def struct_spinlock_layout struct_callback_head_layout
      del: One_nat_def)

lemma struct_blk_queue_stats_layout [layout_simps]:
  "sizeof struct_blk_queue_stats = 24 \<and> alignof struct_blk_queue_stats = 8 \<and> wf_cty struct_blk_queue_stats"
  by (simp add: struct_blk_queue_stats_def base_types layout_eval struct_list_head_layout spinlock_t_def
      struct_spinlock_layout
      del: One_nat_def)

lemma struct_blk_trace_layout [layout_simps]:
  "sizeof struct_blk_trace = 96 \<and> alignof struct_blk_trace = 8 \<and> wf_cty struct_blk_trace"
  by (simp add: struct_blk_trace_def base_types layout_eval u64_def c__u64_def u32_def c__u32_def struct_list_head_layout
      atomic_t_layout
      del: One_nat_def)

lemma struct_blkg_iostat_layout [layout_simps]:
  "sizeof struct_blkg_iostat = 48 \<and> alignof struct_blkg_iostat = 8 \<and> wf_cty struct_blkg_iostat"
  by (simp add: struct_blkg_iostat_def base_types layout_eval u64_def c__u64_def
      del: One_nat_def)

lemma struct_blkg_iostat_set_layout [layout_simps]:
  "sizeof struct_blkg_iostat_set = 120 \<and> alignof struct_blkg_iostat_set = 8 \<and> wf_cty struct_blkg_iostat_set"
  by (simp add: struct_blkg_iostat_set_def base_types layout_eval struct_u64_stats_sync_layout struct_llist_node_layout
      struct_blkg_iostat_layout
      del: One_nat_def)

lemma struct_blkcg_gq_layout [layout_simps]:
  "sizeof struct_blkcg_gq = 368 \<and> alignof struct_blkcg_gq = 8 \<and> wf_cty struct_blkcg_gq"
  by (simp add: struct_blkcg_gq_def base_types layout_eval struct_list_head_layout struct_hlist_node_layout
      struct_percpu_ref_layout bool_def struct_blkg_iostat_set_layout spinlock_t_def
      struct_spinlock_layout struct_bio_list_layout struct_work_struct_layout atomic_t_layout
      atomic64_t_layout u64_def c__u64_def struct_callback_head_layout
      del: One_nat_def)

lemma struct_block_device_operations_layout [layout_simps]:
  "sizeof struct_block_device_operations = 144 \<and> alignof struct_block_device_operations = 8 \<and> wf_cty struct_block_device_operations"
  by (simp add: struct_block_device_operations_def base_types layout_eval
      del: One_nat_def)

lemma struct_bus_dma_region_layout [layout_simps]:
  "sizeof struct_bus_dma_region = 24 \<and> alignof struct_bus_dma_region = 8 \<and> wf_cty struct_bus_dma_region"
  by (simp add: struct_bus_dma_region_def base_types layout_eval phys_addr_t_def u64_def c__u64_def dma_addr_t_def
      del: One_nat_def)

lemma struct_cdrom_device_info_layout [layout_simps]:
  "sizeof struct_cdrom_device_info = 120 \<and> alignof struct_cdrom_device_info = 8 \<and> wf_cty struct_cdrom_device_info"
  by (simp add: struct_cdrom_device_info_def base_types layout_eval struct_list_head_layout c__u8_def bool_def c__s64_def
      del: One_nat_def)

lemma struct_debugfs_u32_array_layout [layout_simps]:
  "sizeof struct_debugfs_u32_array = 16 \<and> alignof struct_debugfs_u32_array = 8 \<and> wf_cty struct_debugfs_u32_array"
  by (simp add: struct_debugfs_u32_array_def base_types layout_eval u32_def c__u32_def
      del: One_nat_def)

lemma struct_cma_memrange_layout [layout_simps]:
  "sizeof struct_cma_memrange = 40 \<and> alignof struct_cma_memrange = 8 \<and> wf_cty struct_cma_memrange"
  by (simp add: struct_cma_memrange_def base_types layout_eval struct_debugfs_u32_array_layout
      del: One_nat_def)

lemma struct_cma_layout [layout_simps]:
  "sizeof struct_cma = 504 \<and> alignof struct_cma = 8 \<and> wf_cty struct_cma"
  by (simp add: struct_cma_def base_types layout_eval spinlock_t_def struct_spinlock_layout struct_mutex_layout
      struct_hlist_head_layout struct_cma_memrange_layout atomic64_t_layout
      del: One_nat_def)

lemma struct_dev_iommu_layout [layout_simps]:
  "sizeof struct_dev_iommu = 72 \<and> alignof struct_dev_iommu = 8 \<and> wf_cty struct_dev_iommu"
  by (simp add: struct_dev_iommu_def base_types layout_eval struct_mutex_layout u32_def c__u32_def
      del: One_nat_def)

lemma struct_dev_pin_info_layout [layout_simps]:
  "sizeof struct_dev_pin_info = 40 \<and> alignof struct_dev_pin_info = 8 \<and> wf_cty struct_dev_pin_info"
  by (simp add: struct_dev_pin_info_def base_types layout_eval
      del: One_nat_def)

lemma struct_dev_pm_domain_layout [layout_simps]:
  "sizeof struct_dev_pm_domain = 232 \<and> alignof struct_dev_pm_domain = 8 \<and> wf_cty struct_dev_pm_domain"
  by (simp add: struct_dev_pm_domain_def base_types layout_eval struct_dev_pm_ops_layout
      del: One_nat_def)

lemma enum_pm_qos_type_layout [layout_simps]:
  "sizeof enum_pm_qos_type = 4 \<and> alignof enum_pm_qos_type = 4 \<and> wf_cty enum_pm_qos_type"
  by (simp add: enum_pm_qos_type_def base_types layout_eval
      del: One_nat_def)

lemma struct_pm_qos_constraints_layout [layout_simps]:
  "sizeof struct_pm_qos_constraints = 40 \<and> alignof struct_pm_qos_constraints = 8 \<and> wf_cty struct_pm_qos_constraints"
  by (simp add: struct_pm_qos_constraints_def base_types layout_eval struct_plist_head_layout s32_def c__s32_def
      enum_pm_qos_type_layout
      del: One_nat_def)

lemma struct_blocking_notifier_head_layout [layout_simps]:
  "sizeof struct_blocking_notifier_head = 48 \<and> alignof struct_blocking_notifier_head = 8 \<and> wf_cty struct_blocking_notifier_head"
  by (simp add: struct_blocking_notifier_head_def base_types layout_eval struct_rw_semaphore_layout
      del: One_nat_def)

lemma struct_freq_constraints_layout [layout_simps]:
  "sizeof struct_freq_constraints = 176 \<and> alignof struct_freq_constraints = 8 \<and> wf_cty struct_freq_constraints"
  by (simp add: struct_freq_constraints_def base_types layout_eval struct_pm_qos_constraints_layout
      struct_blocking_notifier_head_layout
      del: One_nat_def)

lemma struct_pm_qos_flags_layout [layout_simps]:
  "sizeof struct_pm_qos_flags = 24 \<and> alignof struct_pm_qos_flags = 8 \<and> wf_cty struct_pm_qos_flags"
  by (simp add: struct_pm_qos_flags_def base_types layout_eval struct_list_head_layout s32_def c__s32_def
      del: One_nat_def)

lemma struct_dev_pm_qos_layout [layout_simps]:
  "sizeof struct_dev_pm_qos = 304 \<and> alignof struct_dev_pm_qos = 8 \<and> wf_cty struct_dev_pm_qos"
  by (simp add: struct_dev_pm_qos_def base_types layout_eval struct_pm_qos_constraints_layout
      struct_freq_constraints_layout struct_pm_qos_flags_layout
      del: One_nat_def)

lemma struct_fwnode_handle_layout [layout_simps]:
  "sizeof struct_fwnode_handle = 64 \<and> alignof struct_fwnode_handle = 8 \<and> wf_cty struct_fwnode_handle"
  by (simp add: struct_fwnode_handle_def base_types layout_eval struct_list_head_layout
      del: One_nat_def)

lemma struct_device_node_layout [layout_simps]:
  "sizeof struct_device_node = 144 \<and> alignof struct_device_node = 8 \<and> wf_cty struct_device_node"
  by (simp add: struct_device_node_def base_types layout_eval phandle_def u32_def c__u32_def struct_fwnode_handle_layout
      del: One_nat_def)

lemma enum_device_physical_location_panel_layout [layout_simps]:
  "sizeof enum_device_physical_location_panel = 4 \<and> alignof enum_device_physical_location_panel = 4 \<and> wf_cty enum_device_physical_location_panel"
  by (simp add: enum_device_physical_location_panel_def base_types layout_eval
      del: One_nat_def)

lemma enum_device_physical_location_vertical_position_layout [layout_simps]:
  "sizeof enum_device_physical_location_vertical_position = 4 \<and> alignof enum_device_physical_location_vertical_position = 4 \<and> wf_cty enum_device_physical_location_vertical_position"
  by (simp add: enum_device_physical_location_vertical_position_def base_types layout_eval
      del: One_nat_def)

lemma enum_device_physical_location_horizontal_position_layout [layout_simps]:
  "sizeof enum_device_physical_location_horizontal_position = 4 \<and> alignof enum_device_physical_location_horizontal_position = 4 \<and> wf_cty enum_device_physical_location_horizontal_position"
  by (simp add: enum_device_physical_location_horizontal_position_def base_types layout_eval
      del: One_nat_def)

lemma struct_device_physical_location_layout [layout_simps]:
  "sizeof struct_device_physical_location = 16 \<and> alignof struct_device_physical_location = 4 \<and> wf_cty struct_device_physical_location"
  by (simp add: struct_device_physical_location_def base_types layout_eval enum_device_physical_location_panel_layout
      enum_device_physical_location_vertical_position_layout
      enum_device_physical_location_horizontal_position_layout bool_def
      del: One_nat_def)

lemma struct_klist_layout [layout_simps]:
  "sizeof struct_klist = 40 \<and> alignof struct_klist = 8 \<and> wf_cty struct_klist"
  by (simp add: struct_klist_def base_types layout_eval spinlock_t_def struct_spinlock_layout struct_list_head_layout
      del: One_nat_def)

lemma struct_klist_node_layout [layout_simps]:
  "sizeof struct_klist_node = 32 \<and> alignof struct_klist_node = 8 \<and> wf_cty struct_klist_node"
  by (simp add: struct_klist_node_def base_types layout_eval struct_list_head_layout struct_kref_layout
      del: One_nat_def)

lemma struct_driver_type_layout [layout_simps]:
  "sizeof struct_driver_type = 16 \<and> alignof struct_driver_type = 1 \<and> wf_cty struct_driver_type"
  by (simp add: struct_driver_type_def base_types layout_eval u8_def c__u8_def
      del: One_nat_def)

lemma struct_device_private_layout [layout_simps]:
  "sizeof struct_device_private = 232 \<and> alignof struct_device_private = 8 \<and> wf_cty struct_device_private"
  by (simp add: struct_device_private_def base_types layout_eval struct_klist_layout struct_klist_node_layout
      struct_list_head_layout struct_driver_type_layout u8_def c__u8_def
      del: One_nat_def)

lemma struct_disk_events_layout [layout_simps]:
  "sizeof struct_disk_events = 176 \<and> alignof struct_disk_events = 8 \<and> wf_cty struct_disk_events"
  by (simp add: struct_disk_events_def base_types layout_eval struct_list_head_layout spinlock_t_def
      struct_spinlock_layout struct_mutex_layout struct_delayed_work_layout
      del: One_nat_def)

lemma struct_disk_stats_layout [layout_simps]:
  "sizeof struct_disk_stats = 152 \<and> alignof struct_disk_stats = 8 \<and> wf_cty struct_disk_stats"
  by (simp add: struct_disk_stats_def base_types layout_eval u64_def c__u64_def local_t_layout
      del: One_nat_def)

lemma struct_dma_map_ops_layout [layout_simps]:
  "sizeof struct_dma_map_ops = 160 \<and> alignof struct_dma_map_ops = 8 \<and> wf_cty struct_dma_map_ops"
  by (simp add: struct_dma_map_ops_def base_types layout_eval
      del: One_nat_def)

lemma struct_elevator_queue_layout [layout_simps]:
  "sizeof struct_elevator_queue = 640 \<and> alignof struct_elevator_queue = 8 \<and> wf_cty struct_elevator_queue"
  by (simp add: struct_elevator_queue_def base_types layout_eval struct_kobject_layout struct_mutex_layout
      struct_hlist_head_layout
      del: One_nat_def)

lemma struct_em_perf_domain_layout [layout_simps]:
  "sizeof struct_em_perf_domain = 48 \<and> alignof struct_em_perf_domain = 8 \<and> wf_cty struct_em_perf_domain"
  by (simp add: struct_em_perf_domain_def base_types layout_eval struct_list_head_layout
      del: One_nat_def)

lemma struct_fc_log_layout [layout_simps]:
  "sizeof struct_fc_log = 80 \<and> alignof struct_fc_log = 8 \<and> wf_cty struct_fc_log"
  by (simp add: struct_fc_log_def base_types layout_eval refcount_t_def struct_refcount_struct_layout u8_def c__u8_def
      del: One_nat_def)

lemma struct_file_lock_operations_layout [layout_simps]:
  "sizeof struct_file_lock_operations = 16 \<and> alignof struct_file_lock_operations = 8 \<and> wf_cty struct_file_lock_operations"
  by (simp add: struct_file_lock_operations_def base_types layout_eval
      del: One_nat_def)

lemma struct_folio_batch_layout [layout_simps]:
  "sizeof struct_folio_batch = 256 \<and> alignof struct_folio_batch = 8 \<and> wf_cty struct_folio_batch"
  by (simp add: struct_folio_batch_def base_types layout_eval bool_def
      del: One_nat_def)

lemma struct_folio_queue_layout [layout_simps]:
  "sizeof struct_folio_queue = 328 \<and> alignof struct_folio_queue = 8 \<and> wf_cty struct_folio_queue"
  by (simp add: struct_folio_queue_def base_types layout_eval struct_folio_batch_layout u8_def c__u8_def
      del: One_nat_def)

lemma struct_fs_context_operations_layout [layout_simps]:
  "sizeof struct_fs_context_operations = 48 \<and> alignof struct_fs_context_operations = 8 \<and> wf_cty struct_fs_context_operations"
  by (simp add: struct_fs_context_operations_def base_types layout_eval
      del: One_nat_def)

lemma struct_fs_parameter_spec_layout [layout_simps]:
  "sizeof struct_fs_parameter_spec = 32 \<and> alignof struct_fs_parameter_spec = 8 \<and> wf_cty struct_fs_parameter_spec"
  by (simp add: struct_fs_parameter_spec_def base_types layout_eval u8_def c__u8_def
      del: One_nat_def)

lemma struct_io_tlb_pool_layout [layout_simps]:
  "sizeof struct_io_tlb_pool = 104 \<and> alignof struct_io_tlb_pool = 8 \<and> wf_cty struct_io_tlb_pool"
  by (simp add: struct_io_tlb_pool_def base_types layout_eval phys_addr_t_def u64_def c__u64_def bool_def
      struct_list_head_layout struct_callback_head_layout
      del: One_nat_def)

lemma struct_io_tlb_mem_layout [layout_simps]:
  "sizeof struct_io_tlb_mem = 216 \<and> alignof struct_io_tlb_mem = 8 \<and> wf_cty struct_io_tlb_mem"
  by (simp add: struct_io_tlb_mem_def base_types layout_eval struct_io_tlb_pool_layout bool_def u64_def c__u64_def
      spinlock_t_def struct_spinlock_layout struct_list_head_layout struct_work_struct_layout
      atomic_long_t_def atomic64_t_layout
      del: One_nat_def)

lemma enum_irq_domain_bus_token_layout [layout_simps]:
  "sizeof enum_irq_domain_bus_token = 4 \<and> alignof enum_irq_domain_bus_token = 4 \<and> wf_cty enum_irq_domain_bus_token"
  by (simp add: enum_irq_domain_bus_token_def base_types layout_eval
      del: One_nat_def)

lemma struct_irq_domain_layout [layout_simps]:
  "sizeof struct_irq_domain = 184 \<and> alignof struct_irq_domain = 8 \<and> wf_cty struct_irq_domain"
  by (simp add: struct_irq_domain_def base_types layout_eval struct_list_head_layout struct_mutex_layout
      enum_irq_domain_bus_token_layout irq_hw_number_t_def struct_xarray_layout
      del: One_nat_def)

lemma struct_reciprocal_value_layout [layout_simps]:
  "sizeof struct_reciprocal_value = 8 \<and> alignof struct_reciprocal_value = 4 \<and> wf_cty struct_reciprocal_value"
  by (simp add: struct_reciprocal_value_def base_types layout_eval u32_def c__u32_def u8_def c__u8_def
      del: One_nat_def)

lemma struct_kmem_cache_order_objects_layout [layout_simps]:
  "sizeof struct_kmem_cache_order_objects = 4 \<and> alignof struct_kmem_cache_order_objects = 4 \<and> wf_cty struct_kmem_cache_order_objects"
  by (simp add: struct_kmem_cache_order_objects_def base_types layout_eval
      del: One_nat_def)

lemma struct_kmem_cache_layout [layout_simps]:
  "sizeof struct_kmem_cache = 8400 \<and> alignof struct_kmem_cache = 8 \<and> wf_cty struct_kmem_cache"
  by (simp add: struct_kmem_cache_def base_types layout_eval slab_flags_t_def struct_reciprocal_value_layout
      struct_kmem_cache_order_objects_layout gfp_t_def struct_list_head_layout struct_kobject_layout
      del: One_nat_def)

lemma struct_kvec_layout [layout_simps]:
  "sizeof struct_kvec = 16 \<and> alignof struct_kvec = 8 \<and> wf_cty struct_kvec"
  by (simp add: struct_kvec_def base_types layout_eval size_t_def c__kernel_size_t_def c__kernel_ulong_t_def
      del: One_nat_def)

lemma struct_lock_manager_operations_layout [layout_simps]:
  "sizeof struct_lock_manager_operations = 56 \<and> alignof struct_lock_manager_operations = 8 \<and> wf_cty struct_lock_manager_operations"
  by (simp add: struct_lock_manager_operations_def base_types layout_eval
      del: One_nat_def)

lemma struct_mnt_idmap_layout [layout_simps]:
  "sizeof struct_mnt_idmap = 136 \<and> alignof struct_mnt_idmap = 8 \<and> wf_cty struct_mnt_idmap"
  by (simp add: struct_mnt_idmap_def base_types layout_eval struct_uid_gid_map_layout refcount_t_def
      struct_refcount_struct_layout
      del: One_nat_def)

lemma struct_mnt_namespace_layout [layout_simps]:
  "sizeof struct_mnt_namespace = 384 \<and> alignof struct_mnt_namespace = 8 \<and> wf_cty struct_mnt_namespace"
  by (simp add: struct_mnt_namespace_def base_types layout_eval struct_ns_common_layout struct_rb_root_layout
      wait_queue_head_t_def struct_wait_queue_head_layout u64_def c__u64_def c__u32_def refcount_t_def
      struct_refcount_struct_layout bool_def
      del: One_nat_def)

lemma struct_mnt_pcp_layout [layout_simps]:
  "sizeof struct_mnt_pcp = 8 \<and> alignof struct_mnt_pcp = 4 \<and> wf_cty struct_mnt_pcp"
  by (simp add: struct_mnt_pcp_def base_types layout_eval
      del: One_nat_def)

lemma struct_mountpoint_layout [layout_simps]:
  "sizeof struct_mountpoint = 32 \<and> alignof struct_mountpoint = 8 \<and> wf_cty struct_mountpoint"
  by (simp add: struct_mountpoint_def base_types layout_eval struct_hlist_node_layout struct_hlist_head_layout
      del: One_nat_def)

lemma struct_msi_dev_domain_layout [layout_simps]:
  "sizeof struct_msi_dev_domain = 24 \<and> alignof struct_msi_dev_domain = 8 \<and> wf_cty struct_msi_dev_domain"
  by (simp add: struct_msi_dev_domain_def base_types layout_eval struct_xarray_layout
      del: One_nat_def)

lemma struct_msi_device_data_layout [layout_simps]:
  "sizeof struct_msi_device_data = 72 \<and> alignof struct_msi_device_data = 8 \<and> wf_cty struct_msi_device_data"
  by (simp add: struct_msi_device_data_def base_types layout_eval struct_mutex_layout struct_msi_dev_domain_layout
      del: One_nat_def)

lemma struct_ref_tracker_dir_layout [layout_simps]:
  "sizeof struct_ref_tracker_dir = 0 \<and> alignof struct_ref_tracker_dir = 1 \<and> wf_cty struct_ref_tracker_dir"
  by (simp add: struct_ref_tracker_dir_def base_types layout_eval
      del: One_nat_def)

lemma struct_raw_notifier_head_layout [layout_simps]:
  "sizeof struct_raw_notifier_head = 8 \<and> alignof struct_raw_notifier_head = 8 \<and> wf_cty struct_raw_notifier_head"
  by (simp add: struct_raw_notifier_head_def base_types layout_eval
      del: One_nat_def)

lemma struct_netns_core_layout [layout_simps]:
  "sizeof struct_netns_core = 40 \<and> alignof struct_netns_core = 8 \<and> wf_cty struct_netns_core"
  by (simp add: struct_netns_core_def base_types layout_eval u8_def c__u8_def
      del: One_nat_def)

lemma struct_netns_mib_layout [layout_simps]:
  "sizeof struct_netns_mib = 128 \<and> alignof struct_netns_mib = 8 \<and> wf_cty struct_netns_mib"
  by (simp add: struct_netns_mib_def base_types layout_eval
      del: One_nat_def)

lemma struct_netns_packet_layout [layout_simps]:
  "sizeof struct_netns_packet = 40 \<and> alignof struct_netns_packet = 8 \<and> wf_cty struct_netns_packet"
  by (simp add: struct_netns_packet_def base_types layout_eval struct_mutex_layout struct_hlist_head_layout
      del: One_nat_def)

lemma struct_unix_table_layout [layout_simps]:
  "sizeof struct_unix_table = 16 \<and> alignof struct_unix_table = 8 \<and> wf_cty struct_unix_table"
  by (simp add: struct_unix_table_def base_types layout_eval
      del: One_nat_def)

lemma struct_netns_unix_layout [layout_simps]:
  "sizeof struct_netns_unix = 32 \<and> alignof struct_netns_unix = 8 \<and> wf_cty struct_netns_unix"
  by (simp add: struct_netns_unix_def base_types layout_eval struct_unix_table_layout
      del: One_nat_def)

lemma struct_netns_nexthop_layout [layout_simps]:
  "sizeof struct_netns_nexthop = 72 \<and> alignof struct_netns_nexthop = 8 \<and> wf_cty struct_netns_nexthop"
  by (simp add: struct_netns_nexthop_def base_types layout_eval struct_rb_root_layout u32_def c__u32_def
      struct_blocking_notifier_head_layout
      del: One_nat_def)

lemma struct_inet_timewait_death_row_layout [layout_simps]:
  "sizeof struct_inet_timewait_death_row = 128 \<and> alignof struct_inet_timewait_death_row = 8 \<and> wf_cty struct_inet_timewait_death_row"
  by (simp add: struct_inet_timewait_death_row_def base_types layout_eval refcount_t_def struct_refcount_struct_layout
      del: One_nat_def)

lemma struct_udp_tunnel_gro_layout [layout_simps]:
  "sizeof struct_udp_tunnel_gro = 16 \<and> alignof struct_udp_tunnel_gro = 8 \<and> wf_cty struct_udp_tunnel_gro"
  by (simp add: struct_udp_tunnel_gro_def base_types layout_eval struct_hlist_head_layout
      del: One_nat_def)

lemma struct_local_ports_layout [layout_simps]:
  "sizeof struct_local_ports = 8 \<and> alignof struct_local_ports = 4 \<and> wf_cty struct_local_ports"
  by (simp add: struct_local_ports_def base_types layout_eval u32_def c__u32_def bool_def
      del: One_nat_def)

lemma struct_ping_group_range_layout [layout_simps]:
  "sizeof struct_ping_group_range = 16 \<and> alignof struct_ping_group_range = 4 \<and> wf_cty struct_ping_group_range"
  by (simp add: struct_ping_group_range_def base_types layout_eval seqlock_t_def struct_seqlock_layout kgid_t_layout
      del: One_nat_def)

lemma struct_sysctl_fib_multipath_hash_seed_layout [layout_simps]:
  "sizeof struct_sysctl_fib_multipath_hash_seed = 8 \<and> alignof struct_sysctl_fib_multipath_hash_seed = 4 \<and> wf_cty struct_sysctl_fib_multipath_hash_seed"
  by (simp add: struct_sysctl_fib_multipath_hash_seed_def base_types layout_eval u32_def c__u32_def
      del: One_nat_def)

lemma siphash_key_t_layout [layout_simps]:
  "sizeof siphash_key_t = 16 \<and> alignof siphash_key_t = 8 \<and> wf_cty siphash_key_t"
  by (simp add: siphash_key_t_def base_types layout_eval u64_def c__u64_def
      del: One_nat_def)

lemma struct_netns_ipv4_layout [layout_simps]:
  "sizeof struct_netns_ipv4 = 1024 \<and> alignof struct_netns_ipv4 = 8 \<and> wf_cty struct_netns_ipv4"
  by (simp add: struct_netns_ipv4_def base_types layout_eval c__u8_def u8_def atomic_t_layout u32_def c__u32_def
      struct_inet_timewait_death_row_layout struct_udp_tunnel_gro_layout struct_mutex_layout bool_def
      struct_local_ports_layout struct_ping_group_range_layout u16_def c__u16_def struct_list_head_layout
      struct_sysctl_fib_multipath_hash_seed_layout siphash_key_t_layout struct_delayed_work_layout
      del: One_nat_def)

end
