(* ===== verification/KernelDevRefs.thy ===== *)
theory KernelDevRefs
  imports KernelVfsRefs1
begin

text \<open>
  Types of \<^verbatim>\<open>bpf/vmlinux.h\<close> that the objects of \<open>KernelDev\<close> (devices, drivers and buses) point to, one
  dereference away, with every type they hold by value.
\<close>

section \<open>Types\<close>

definition struct_static_key :: cty where
  "struct_static_key = CStruct ''static_key'' False
     [Field ''enabled'' atomic_t,
      Field [] (CUnion [] False
        [Field ''type'' long_unsigned_int,
         Field ''entries'' (CPtr ''struct jump_entry''),
         Field ''next'' (CPtr ''struct static_key_mod'')])]"

definition struct_static_key_true :: cty where
  "struct_static_key_true = CStruct ''static_key_true'' False
     [Field ''key'' struct_static_key]"

definition struct_static_key_false :: cty where
  "struct_static_key_false = CStruct ''static_key_false'' False
     [Field ''key'' struct_static_key]"

definition struct__ddebug :: cty where
  "struct__ddebug = CStruct ''_ddebug'' False
     [Field ''modname'' (CPtr ''const char''),
      Field ''function'' (CPtr ''const char''),
      Field ''filename'' (CPtr ''const char''),
      Field ''format'' (CPtr ''const char''),
      BitField ''lineno'' unsigned_int 18,
      BitField ''class_id'' unsigned_int 6,
      BitField ''flags'' unsigned_int 8,
      Field ''key'' (CUnion [] False
        [Field ''dd_key_true'' struct_static_key_true,
         Field ''dd_key_false'' struct_static_key_false])]"

definition kernel_ulong_t :: cty where [layout_simps]:
  "kernel_ulong_t = long_unsigned_int"

definition struct_acpi_device_id :: cty where
  "struct_acpi_device_id = CStruct ''acpi_device_id'' False
     [Field ''id'' (CArr 16 c__u8),
      Field ''driver_data'' kernel_ulong_t,
      Field ''cls'' c__u32,
      Field ''cls_msk'' c__u32]"

definition struct_aer_info :: cty where
  "struct_aer_info = CStruct ''aer_info'' False
     [Field ''dev_cor_errs'' (CArr 16 u64),
      Field ''dev_fatal_errs'' (CArr 32 u64),
      Field ''dev_nonfatal_errs'' (CArr 32 u64),
      Field ''dev_total_cor_errs'' u64,
      Field ''dev_total_fatal_errs'' u64,
      Field ''dev_total_nonfatal_errs'' u64,
      Field ''rootport_total_cor_errs'' u64,
      Field ''rootport_total_fatal_errs'' u64,
      Field ''rootport_total_nonfatal_errs'' u64,
      Field ''correctable_ratelimit'' struct_ratelimit_state,
      Field ''nonfatal_ratelimit'' struct_ratelimit_state]"

definition struct_attribute :: cty where
  "struct_attribute = CStruct ''attribute'' False
     [Field ''name'' (CPtr ''const char''),
      Field ''mode'' umode_t]"

definition struct_bin_attribute :: cty where
  "struct_bin_attribute = CStruct ''bin_attribute'' False
     [Field ''attr'' struct_attribute,
      Field ''size'' size_t,
      Field ''private'' (CPtr ''void''),
      Field ''f_mapping'' (CPtr ''struct address_space * (void)''),
      Field ''read'' (CPtr ''ssize_t (struct file *, struct kobject *, const struct bin_attribute *, char *, loff_t, size_t)''),
      Field ''write'' (CPtr ''ssize_t (struct file *, struct kobject *, const struct bin_attribute *, char *, loff_t, size_t)''),
      Field ''llseek'' (CPtr ''loff_t (struct file *, struct kobject *, const struct bin_attribute *, loff_t, int)''),
      Field ''mmap'' (CPtr ''int (struct file *, struct kobject *, const struct bin_attribute *, struct vm_area_struct *)'')]"

definition struct_bpf_raw_event_map :: cty where
  "struct_bpf_raw_event_map = CStruct ''bpf_raw_event_map'' False
     [Field ''tp'' (CPtr ''struct tracepoint''),
      Field ''bpf_func'' (CPtr ''void''),
      Field ''num_args'' u32,
      Field ''writable_size'' u32,
      BitField [] c_long 64]"

definition struct_bug_entry :: cty where
  "struct_bug_entry = CStruct ''bug_entry'' False
     [Field ''bug_addr_disp'' c_int,
      Field ''format_disp'' c_int,
      Field ''file_disp'' c_int,
      Field ''line'' short_unsigned_int,
      Field ''flags'' short_unsigned_int]"

definition enum_class_map_type :: cty where
  "enum_class_map_type = CEnum 4
     [(''DD_CLASS_TYPE_DISJOINT_BITS'', 0), (''DD_CLASS_TYPE_LEVEL_NUM'', 1),
      (''DD_CLASS_TYPE_DISJOINT_NAMES'', 2), (''DD_CLASS_TYPE_LEVEL_NAMES'', 3)]"

definition struct_ddebug_class_map :: cty where
  "struct_ddebug_class_map = CStruct ''ddebug_class_map'' False
     [Field ''link'' struct_list_head,
      Field ''mod'' (CPtr ''struct module''),
      Field ''mod_name'' (CPtr ''const char''),
      Field ''class_names'' (CPtr ''const char *''),
      Field ''length'' c_int,
      Field ''base'' c_int,
      Field ''map_type'' enum_class_map_type]"

definition struct_driver_private :: cty where
  "struct_driver_private = CStruct ''driver_private'' False
     [Field ''kobj'' struct_kobject,
      Field ''klist_devices'' struct_klist,
      Field ''knode_bus'' struct_klist_node,
      Field ''mkobj'' (CPtr ''struct module_kobject''),
      Field ''driver'' (CPtr ''struct device_driver'')]"

definition struct_error_injection_entry :: cty where
  "struct_error_injection_entry = CStruct ''error_injection_entry'' False
     [Field ''addr'' long_unsigned_int,
      Field ''etype'' c_int]"

definition enum_iommu_domain_cookie_type :: cty where
  "enum_iommu_domain_cookie_type = CEnum 4
     [(''IOMMU_COOKIE_NONE'', 0), (''IOMMU_COOKIE_DMA_IOVA'', 1), (''IOMMU_COOKIE_DMA_MSI'', 2),
      (''IOMMU_COOKIE_FAULT_HANDLER'', 3), (''IOMMU_COOKIE_SVA'', 4),
      (''IOMMU_COOKIE_IOMMUFD'', 5)]"

definition struct_iommu_domain_geometry :: cty where
  "struct_iommu_domain_geometry = CStruct ''iommu_domain_geometry'' False
     [Field ''aperture_start'' dma_addr_t,
      Field ''aperture_end'' dma_addr_t,
      Field ''force_aperture'' bool]"

definition iommu_fault_handler_t :: cty where [layout_simps]:
  "iommu_fault_handler_t = CPtr ''int (struct iommu_domain *, struct device *, long unsigned int, int, void *)''"

definition struct_iommu_domain :: cty where
  "struct_iommu_domain = CStruct ''iommu_domain'' False
     [Field ''type'' unsigned_int,
      Field ''cookie_type'' enum_iommu_domain_cookie_type,
      Field ''is_iommupt'' bool,
      Field ''ops'' (CPtr ''const struct iommu_domain_ops''),
      Field ''dirty_ops'' (CPtr ''const struct iommu_dirty_ops''),
      Field ''owner'' (CPtr ''const struct iommu_ops''),
      Field ''pgsize_bitmap'' long_unsigned_int,
      Field ''geometry'' struct_iommu_domain_geometry,
      Field ''iopf_handler'' (CPtr ''int (struct iopf_group *)''),
      Field [] (CUnion [] False
        [Field ''iova_cookie'' (CPtr ''struct iommu_dma_cookie''),
         Field ''msi_cookie'' (CPtr ''struct iommu_dma_msi_cookie''),
         Field ''iommufd_hwpt'' (CPtr ''struct iommufd_hw_pagetable''),
         Field [] (CStruct [] False
           [Field ''handler'' iommu_fault_handler_t,
            Field ''handler_token'' (CPtr ''void'')]),
         Field [] (CStruct [] False
           [Field ''mm'' (CPtr ''struct mm_struct''),
            Field ''users'' c_int,
            Field ''next'' struct_list_head])])]"

definition struct_jump_entry :: cty where
  "struct_jump_entry = CStruct ''jump_entry'' False
     [Field ''code'' s32,
      Field ''target'' s32,
      Field ''key'' c_long]"

definition c__s8 :: cty where [layout_simps]:
  "c__s8 = signed_char"

definition s8 :: cty where [layout_simps]:
  "s8 = c__s8"

definition struct_kernel_param :: cty where
  "struct_kernel_param = CStruct ''kernel_param'' False
     [Field ''name'' (CPtr ''const char''),
      Field ''mod'' (CPtr ''struct module''),
      Field ''ops'' (CPtr ''const struct kernel_param_ops''),
      Field ''perm'' u16,
      Field ''level'' s8,
      Field ''flags'' u8,
      Field [] (CUnion [] False
        [Field ''arg'' (CPtr ''void''),
         Field ''str'' (CPtr ''const struct kparam_string''),
         Field ''arr'' (CPtr ''const struct kparam_array'')])]"

definition struct_kernel_symbol :: cty where
  "struct_kernel_symbol = CStruct ''kernel_symbol'' False
     [Field ''value_offset'' c_int,
      Field ''name_offset'' c_int,
      Field ''namespace_offset'' c_int]"

definition Elf64_Half :: cty where [layout_simps]:
  "Elf64_Half = c__u16"

definition Elf64_Word :: cty where [layout_simps]:
  "Elf64_Word = c__u32"

definition Elf64_Addr :: cty where [layout_simps]:
  "Elf64_Addr = c__u64"

definition Elf64_Off :: cty where [layout_simps]:
  "Elf64_Off = c__u64"

definition struct_elf64_hdr :: cty where
  "struct_elf64_hdr = CStruct ''elf64_hdr'' False
     [Field ''e_ident'' (CArr 16 unsigned_char),
      Field ''e_type'' Elf64_Half,
      Field ''e_machine'' Elf64_Half,
      Field ''e_version'' Elf64_Word,
      Field ''e_entry'' Elf64_Addr,
      Field ''e_phoff'' Elf64_Off,
      Field ''e_shoff'' Elf64_Off,
      Field ''e_flags'' Elf64_Word,
      Field ''e_ehsize'' Elf64_Half,
      Field ''e_phentsize'' Elf64_Half,
      Field ''e_phnum'' Elf64_Half,
      Field ''e_shentsize'' Elf64_Half,
      Field ''e_shnum'' Elf64_Half,
      Field ''e_shstrndx'' Elf64_Half]"

definition Elf64_Ehdr :: cty where [layout_simps]:
  "Elf64_Ehdr = struct_elf64_hdr"

definition struct_klp_modinfo :: cty where
  "struct_klp_modinfo = CStruct ''klp_modinfo'' False
     [Field ''hdr'' Elf64_Ehdr,
      Field ''sechdrs'' (CPtr ''Elf64_Shdr''),
      Field ''secstrings'' (CPtr ''char''),
      Field ''symndx'' unsigned_int]"

definition enum_kobj_ns_type :: cty where
  "enum_kobj_ns_type = CEnum 4
     [(''KOBJ_NS_TYPE_NONE'', 0), (''KOBJ_NS_TYPE_NET'', 1), (''KOBJ_NS_TYPES'', 2)]"

definition struct_kobj_ns_type_operations :: cty where
  "struct_kobj_ns_type_operations = CStruct ''kobj_ns_type_operations'' False
     [Field ''type'' enum_kobj_ns_type,
      Field ''current_may_mount'' (CPtr ''bool (void)''),
      Field ''grab_current_ns'' (CPtr ''struct ns_common * (void)''),
      Field ''netlink_ns'' (CPtr ''const struct ns_common * (struct sock *)''),
      Field ''initial_ns'' (CPtr ''const struct ns_common * (void)''),
      Field ''drop_ns'' (CPtr ''void (struct ns_common *)'')]"

definition struct_kset_uevent_ops :: cty where
  "struct_kset_uevent_ops = CStruct ''kset_uevent_ops'' False
     [Field ''filter'' (CPtr ''int (const struct kobject *)''),
      Field ''name'' (CPtr ''const char * (const struct kobject *)''),
      Field ''uevent'' (CPtr ''int (const struct kobject *, struct kobj_uevent_env *)'')]"

definition struct_module_attribute :: cty where
  "struct_module_attribute = CStruct ''module_attribute'' False
     [Field ''attr'' struct_attribute,
      Field ''show'' (CPtr ''ssize_t (const struct module_attribute *, struct module_kobject *, char *)''),
      Field ''store'' (CPtr ''ssize_t (const struct module_attribute *, struct module_kobject *, const char *, size_t)''),
      Field ''setup'' (CPtr ''void (struct module *, const char *)''),
      Field ''test'' (CPtr ''int (struct module *)''),
      Field ''free'' (CPtr ''void (struct module *)'')]"

definition struct_module_notes_attrs :: cty where
  "struct_module_notes_attrs = CStruct ''module_notes_attrs'' False
     [Field ''grp'' struct_attribute_group,
      Field ''attrs'' (CArr 0 struct_bin_attribute)]"

definition struct_param_attribute :: cty where
  "struct_param_attribute = CStruct ''param_attribute'' False
     [Field ''mattr'' struct_module_attribute,
      Field ''param'' (CPtr ''const struct kernel_param'')]"

definition struct_module_param_attrs :: cty where
  "struct_module_param_attrs = CStruct ''module_param_attrs'' False
     [Field ''num'' unsigned_int,
      Field ''grp'' struct_attribute_group,
      Field ''attrs'' (CArr 0 struct_param_attribute)]"

definition struct_module_sect_attrs :: cty where
  "struct_module_sect_attrs = CStruct ''module_sect_attrs'' False
     [Field ''grp'' struct_attribute_group,
      Field ''attrs'' (CArr 0 struct_bin_attribute)]"

definition struct_led_classdev :: cty where
  "struct_led_classdev = CStruct ''led_classdev'' False
     [Field ''name'' (CPtr ''const char''),
      Field ''brightness'' unsigned_int,
      Field ''max_brightness'' unsigned_int,
      Field ''color'' unsigned_int,
      Field ''flags'' c_int,
      Field ''work_flags'' long_unsigned_int,
      Field ''brightness_set'' (CPtr ''void (struct led_classdev *, enum led_brightness)''),
      Field ''brightness_set_blocking'' (CPtr ''int (struct led_classdev *, enum led_brightness)''),
      Field ''brightness_get'' (CPtr ''enum led_brightness (struct led_classdev *)''),
      Field ''blink_set'' (CPtr ''int (struct led_classdev *, long unsigned int *, long unsigned int *)''),
      Field ''pattern_set'' (CPtr ''int (struct led_classdev *, struct led_pattern *, u32, int)''),
      Field ''pattern_clear'' (CPtr ''int (struct led_classdev *)''),
      Field ''dev'' (CPtr ''struct device''),
      Field ''groups'' (CPtr ''const struct attribute_group *''),
      Field ''node'' struct_list_head,
      Field ''default_trigger'' (CPtr ''const char''),
      Field ''blink_delay_on'' long_unsigned_int,
      Field ''blink_delay_off'' long_unsigned_int,
      Field ''blink_timer'' struct_timer_list,
      Field ''blink_brightness'' c_int,
      Field ''new_blink_brightness'' c_int,
      Field ''flash_resume'' (CPtr ''void (struct led_classdev *)''),
      Field ''wq'' (CPtr ''struct workqueue_struct''),
      Field ''set_brightness_work'' struct_work_struct,
      Field ''delayed_set_value'' c_int,
      Field ''delayed_delay_on'' long_unsigned_int,
      Field ''delayed_delay_off'' long_unsigned_int,
      Field ''trigger_lock'' struct_rw_semaphore,
      Field ''trigger'' (CPtr ''struct led_trigger''),
      Field ''trig_list'' struct_list_head,
      Field ''trigger_data'' (CPtr ''void''),
      Field ''activated'' bool,
      Field ''trigger_type'' (CPtr ''struct led_hw_trigger_type''),
      Field ''hw_control_trigger'' (CPtr ''const char''),
      Field ''hw_control_is_supported'' (CPtr ''int (struct led_classdev *, long unsigned int)''),
      Field ''hw_control_set'' (CPtr ''int (struct led_classdev *, long unsigned int)''),
      Field ''hw_control_get'' (CPtr ''int (struct led_classdev *, long unsigned int *)''),
      Field ''hw_control_get_device'' (CPtr ''struct device * (struct led_classdev *)''),
      Field ''brightness_hw_changed'' c_int,
      Field ''brightness_hw_changed_kn'' (CPtr ''struct kernfs_node''),
      Field ''led_access'' struct_mutex]"

definition struct_npem_led :: cty where
  "struct_npem_led = CStruct ''npem_led'' False
     [Field ''indication'' (CPtr ''const struct indication''),
      Field ''npem'' (CPtr ''struct npem''),
      Field ''name'' (CArr 64 c_char),
      Field ''led'' struct_led_classdev]"

definition struct_npem :: cty where
  "struct_npem = CStruct ''npem'' False
     [Field ''dev'' (CPtr ''struct pci_dev''),
      Field ''ops'' (CPtr ''const struct npem_ops''),
      Field ''lock'' struct_mutex,
      Field ''pos'' u16,
      Field ''supported_indications'' u32,
      Field ''active_indications'' u32,
      BitField ''active_inds_initialized'' unsigned_int 1,
      Field ''led_cnt'' c_int,
      Field ''leds'' (CArr 0 struct_npem_led)]"

definition struct_of_device_id :: cty where
  "struct_of_device_id = CStruct ''of_device_id'' False
     [Field ''name'' (CArr 32 c_char),
      Field ''type'' (CArr 32 c_char),
      Field ''compatible'' (CArr 128 c_char),
      Field ''data'' (CPtr ''const void'')]"

definition struct_pci_device_id :: cty where
  "struct_pci_device_id = CStruct ''pci_device_id'' False
     [Field ''vendor'' c__u32,
      Field ''device'' c__u32,
      Field ''subvendor'' c__u32,
      Field ''subdevice'' c__u32,
      Field ''class'' c__u32,
      Field ''class_mask'' c__u32,
      Field ''driver_data'' kernel_ulong_t,
      Field ''override_only'' c__u32]"

definition struct_pci_error_handlers :: cty where
  "struct_pci_error_handlers = CStruct ''pci_error_handlers'' False
     [Field ''error_detected'' (CPtr ''pci_ers_result_t (struct pci_dev *, pci_channel_state_t)''),
      Field ''mmio_enabled'' (CPtr ''pci_ers_result_t (struct pci_dev *)''),
      Field ''slot_reset'' (CPtr ''pci_ers_result_t (struct pci_dev *)''),
      Field ''reset_prepare'' (CPtr ''void (struct pci_dev *)''),
      Field ''reset_done'' (CPtr ''void (struct pci_dev *)''),
      Field ''resume'' (CPtr ''void (struct pci_dev *)''),
      Field ''cor_error_detected'' (CPtr ''void (struct pci_dev *)'')]"

definition struct_pci_ops :: cty where
  "struct_pci_ops = CStruct ''pci_ops'' False
     [Field ''add_bus'' (CPtr ''int (struct pci_bus *)''),
      Field ''remove_bus'' (CPtr ''void (struct pci_bus *)''),
      Field ''map_bus'' (CPtr ''void * (struct pci_bus *, unsigned int, int)''),
      Field ''read'' (CPtr ''int (struct pci_bus *, unsigned int, int, int, u32 *)''),
      Field ''write'' (CPtr ''int (struct pci_bus *, unsigned int, int, int, u32)'')]"

definition struct_p2pdma_provider :: cty where
  "struct_p2pdma_provider = CStruct ''p2pdma_provider'' False
     [Field ''owner'' (CPtr ''struct device''),
      Field ''bus_offset'' u64]"

definition struct_pci_p2pdma :: cty where
  "struct_pci_p2pdma = CStruct ''pci_p2pdma'' False
     [Field ''pool'' (CPtr ''struct gen_pool''),
      Field ''p2pmem_published'' bool,
      Field ''map_types'' struct_xarray,
      Field ''mem'' (CArr 6 struct_p2pdma_provider)]"

definition struct_pci_slot :: cty where
  "struct_pci_slot = CStruct ''pci_slot'' False
     [Field ''bus'' (CPtr ''struct pci_bus''),
      Field ''list'' struct_list_head,
      Field ''hotplug'' (CPtr ''struct hotplug_slot''),
      Field ''number'' unsigned_char,
      Field ''kobj'' struct_kobject]"

definition struct_pci_sriov :: cty where
  "struct_pci_sriov = CStruct ''pci_sriov'' False
     [Field ''pos'' c_int,
      Field ''nres'' c_int,
      Field ''cap'' u32,
      Field ''ctrl'' u16,
      Field ''total_VFs'' u16,
      Field ''initial_VFs'' u16,
      Field ''num_VFs'' u16,
      Field ''offset'' u16,
      Field ''stride'' u16,
      Field ''vf_device'' u16,
      Field ''pgsz'' u32,
      Field ''link'' u8,
      Field ''max_VF_buses'' u8,
      Field ''driver_max_VFs'' u16,
      Field ''dev'' (CPtr ''struct pci_dev''),
      Field ''self'' (CPtr ''struct pci_dev''),
      Field ''class'' u32,
      Field ''hdr_type'' u8,
      Field ''subsystem_vendor'' u16,
      Field ''subsystem_device'' u16,
      Field ''barsz'' (CArr 6 resource_size_t),
      Field ''vf_rebar_cap'' u16,
      Field ''drivers_autoprobe'' bool]"

definition struct_pci_tsm :: cty where
  "struct_pci_tsm = CStruct ''pci_tsm'' False
     [Field ''pdev'' (CPtr ''struct pci_dev''),
      Field ''dsm_dev'' (CPtr ''struct pci_dev''),
      Field ''tsm_dev'' (CPtr ''struct tsm_dev''),
      Field ''tdi'' (CPtr ''struct pci_tdi'')]"

definition struct_pcie_bwctrl_data :: cty where
  "struct_pcie_bwctrl_data = CStruct ''pcie_bwctrl_data'' False
     [Field ''set_speed_mutex'' struct_mutex,
      Field ''cdev'' (CPtr ''struct thermal_cooling_device'')]"

definition struct_pcie_link_state :: cty where
  "struct_pcie_link_state = CStruct ''pcie_link_state'' False
     [Field ''pdev'' (CPtr ''struct pci_dev''),
      Field ''downstream'' (CPtr ''struct pci_dev''),
      Field ''root'' (CPtr ''struct pcie_link_state''),
      Field ''parent'' (CPtr ''struct pcie_link_state''),
      Field ''sibling'' struct_list_head,
      BitField ''aspm_support'' u32 7,
      BitField ''aspm_enabled'' u32 7,
      BitField ''aspm_capable'' u32 7,
      BitField ''aspm_default'' u32 7,
      BitField [] c_int 4,
      BitField ''aspm_disable'' u32 7,
      BitField ''clkpm_capable'' u32 1,
      BitField ''clkpm_enabled'' u32 1,
      BitField ''clkpm_default'' u32 1,
      BitField ''clkpm_disable'' u32 1]"

definition proc_write_t :: cty where [layout_simps]:
  "proc_write_t = CPtr ''int (struct file *, char *, size_t)''"

definition nlink_t :: cty where [layout_simps]:
  "nlink_t = u32"

definition struct_proc_dir_entry :: cty where
  "struct_proc_dir_entry = CStruct ''proc_dir_entry'' False
     [Field ''in_use'' atomic_t,
      Field ''refcnt'' refcount_t,
      Field ''pde_openers'' struct_list_head,
      Field ''pde_unload_lock'' spinlock_t,
      Field ''pde_unload_completion'' (CPtr ''struct completion''),
      Field ''proc_iops'' (CPtr ''const struct inode_operations''),
      Field [] (CUnion [] False
        [Field ''proc_ops'' (CPtr ''const struct proc_ops''),
         Field ''proc_dir_ops'' (CPtr ''const struct file_operations'')]),
      Field [] (CUnion [] False
        [Field ''seq_ops'' (CPtr ''const struct seq_operations''),
         Field ''single_show'' (CPtr ''int (struct seq_file *, void *)'')]),
      Field ''write'' proc_write_t,
      Field ''data'' (CPtr ''void''),
      Field ''state_size'' unsigned_int,
      Field ''low_ino'' unsigned_int,
      Field ''nlink'' nlink_t,
      Field ''uid'' kuid_t,
      Field ''gid'' kgid_t,
      Field ''size'' loff_t,
      Field ''parent'' (CPtr ''struct proc_dir_entry''),
      Field ''subdir'' struct_rb_root,
      Field ''subdir_node'' struct_rb_node,
      Field ''name'' (CPtr ''char''),
      Field ''mode'' umode_t,
      Field ''flags'' u8,
      Field ''namelen'' u8,
      Field ''inline_name'' (CArr 0 c_char)]"

definition struct_rcec_ea :: cty where
  "struct_rcec_ea = CStruct ''rcec_ea'' False
     [Field ''nextbusn'' u8,
      Field ''lastbusn'' u8,
      Field ''bitmap'' u32]"

definition struct_static_call_site :: cty where
  "struct_static_call_site = CStruct ''static_call_site'' False
     [Field ''addr'' s32,
      Field ''key'' s32]"

definition struct_trace_eval_map :: cty where
  "struct_trace_eval_map = CStruct ''trace_eval_map'' False
     [Field ''system'' (CPtr ''const char''),
      Field ''eval_string'' (CPtr ''const char''),
      Field ''eval_value'' long_unsigned_int]"

definition Elf64_Xword :: cty where [layout_simps]:
  "Elf64_Xword = c__u64"

definition struct_elf64_sym :: cty where
  "struct_elf64_sym = CStruct ''elf64_sym'' False
     [Field ''st_name'' Elf64_Word,
      Field ''st_info'' unsigned_char,
      Field ''st_other'' unsigned_char,
      Field ''st_shndx'' Elf64_Half,
      Field ''st_value'' Elf64_Addr,
      Field ''st_size'' Elf64_Xword]"

definition Elf64_Sym :: cty where [layout_simps]:
  "Elf64_Sym = struct_elf64_sym"

definition tracepoint_ptr_t :: cty where [layout_simps]:
  "tracepoint_ptr_t = c_int"

section \<open>Sizes and alignments\<close>

lemma struct_static_key_layout [layout_simps]:
  "sizeof struct_static_key = 16 \<and> alignof struct_static_key = 8 \<and> wf_cty struct_static_key"
  by (simp add: struct_static_key_def base_types layout_eval atomic_t_layout
      del: One_nat_def)

lemma struct_static_key_true_layout [layout_simps]:
  "sizeof struct_static_key_true = 16 \<and> alignof struct_static_key_true = 8 \<and> wf_cty struct_static_key_true"
  by (simp add: struct_static_key_true_def base_types layout_eval struct_static_key_layout
      del: One_nat_def)

lemma struct_static_key_false_layout [layout_simps]:
  "sizeof struct_static_key_false = 16 \<and> alignof struct_static_key_false = 8 \<and> wf_cty struct_static_key_false"
  by (simp add: struct_static_key_false_def base_types layout_eval struct_static_key_layout
      del: One_nat_def)

lemma struct__ddebug_layout [layout_simps]:
  "sizeof struct__ddebug = 56 \<and> alignof struct__ddebug = 8 \<and> wf_cty struct__ddebug"
  by (simp add: struct__ddebug_def base_types layout_eval struct_static_key_true_layout struct_static_key_false_layout
      del: One_nat_def)

lemma struct_acpi_device_id_layout [layout_simps]:
  "sizeof struct_acpi_device_id = 32 \<and> alignof struct_acpi_device_id = 8 \<and> wf_cty struct_acpi_device_id"
  by (simp add: struct_acpi_device_id_def base_types layout_eval c__u8_def kernel_ulong_t_def c__u32_def
      del: One_nat_def)

lemma struct_aer_info_layout [layout_simps]:
  "sizeof struct_aer_info = 752 \<and> alignof struct_aer_info = 8 \<and> wf_cty struct_aer_info"
  by (simp add: struct_aer_info_def base_types layout_eval u64_def c__u64_def struct_ratelimit_state_layout
      del: One_nat_def)

lemma struct_attribute_layout [layout_simps]:
  "sizeof struct_attribute = 16 \<and> alignof struct_attribute = 8 \<and> wf_cty struct_attribute"
  by (simp add: struct_attribute_def base_types layout_eval umode_t_def
      del: One_nat_def)

lemma struct_bin_attribute_layout [layout_simps]:
  "sizeof struct_bin_attribute = 72 \<and> alignof struct_bin_attribute = 8 \<and> wf_cty struct_bin_attribute"
  by (simp add: struct_bin_attribute_def base_types layout_eval struct_attribute_layout size_t_def c__kernel_size_t_def
      c__kernel_ulong_t_def
      del: One_nat_def)

lemma struct_bpf_raw_event_map_layout [layout_simps]:
  "sizeof struct_bpf_raw_event_map = 32 \<and> alignof struct_bpf_raw_event_map = 8 \<and> wf_cty struct_bpf_raw_event_map"
  by (simp add: struct_bpf_raw_event_map_def base_types layout_eval u32_def c__u32_def
      del: One_nat_def)

lemma struct_bug_entry_layout [layout_simps]:
  "sizeof struct_bug_entry = 16 \<and> alignof struct_bug_entry = 4 \<and> wf_cty struct_bug_entry"
  by (simp add: struct_bug_entry_def base_types layout_eval
      del: One_nat_def)

lemma enum_class_map_type_layout [layout_simps]:
  "sizeof enum_class_map_type = 4 \<and> alignof enum_class_map_type = 4 \<and> wf_cty enum_class_map_type"
  by (simp add: enum_class_map_type_def base_types layout_eval
      del: One_nat_def)

lemma struct_ddebug_class_map_layout [layout_simps]:
  "sizeof struct_ddebug_class_map = 56 \<and> alignof struct_ddebug_class_map = 8 \<and> wf_cty struct_ddebug_class_map"
  by (simp add: struct_ddebug_class_map_def base_types layout_eval struct_list_head_layout enum_class_map_type_layout
      del: One_nat_def)

lemma struct_driver_private_layout [layout_simps]:
  "sizeof struct_driver_private = 152 \<and> alignof struct_driver_private = 8 \<and> wf_cty struct_driver_private"
  by (simp add: struct_driver_private_def base_types layout_eval struct_kobject_layout struct_klist_layout
      struct_klist_node_layout
      del: One_nat_def)

lemma struct_error_injection_entry_layout [layout_simps]:
  "sizeof struct_error_injection_entry = 16 \<and> alignof struct_error_injection_entry = 8 \<and> wf_cty struct_error_injection_entry"
  by (simp add: struct_error_injection_entry_def base_types layout_eval
      del: One_nat_def)

lemma enum_iommu_domain_cookie_type_layout [layout_simps]:
  "sizeof enum_iommu_domain_cookie_type = 4 \<and> alignof enum_iommu_domain_cookie_type = 4 \<and> wf_cty enum_iommu_domain_cookie_type"
  by (simp add: enum_iommu_domain_cookie_type_def base_types layout_eval
      del: One_nat_def)

lemma struct_iommu_domain_geometry_layout [layout_simps]:
  "sizeof struct_iommu_domain_geometry = 24 \<and> alignof struct_iommu_domain_geometry = 8 \<and> wf_cty struct_iommu_domain_geometry"
  by (simp add: struct_iommu_domain_geometry_def base_types layout_eval dma_addr_t_def u64_def c__u64_def bool_def
      del: One_nat_def)

lemma struct_iommu_domain_layout [layout_simps]:
  "sizeof struct_iommu_domain = 112 \<and> alignof struct_iommu_domain = 8 \<and> wf_cty struct_iommu_domain"
  by (simp add: struct_iommu_domain_def base_types layout_eval enum_iommu_domain_cookie_type_layout bool_def
      struct_iommu_domain_geometry_layout iommu_fault_handler_t_def struct_list_head_layout
      del: One_nat_def)

lemma struct_jump_entry_layout [layout_simps]:
  "sizeof struct_jump_entry = 16 \<and> alignof struct_jump_entry = 8 \<and> wf_cty struct_jump_entry"
  by (simp add: struct_jump_entry_def base_types layout_eval s32_def c__s32_def
      del: One_nat_def)

lemma struct_kernel_param_layout [layout_simps]:
  "sizeof struct_kernel_param = 40 \<and> alignof struct_kernel_param = 8 \<and> wf_cty struct_kernel_param"
  by (simp add: struct_kernel_param_def base_types layout_eval u16_def c__u16_def s8_def c__s8_def u8_def c__u8_def
      del: One_nat_def)

lemma struct_kernel_symbol_layout [layout_simps]:
  "sizeof struct_kernel_symbol = 12 \<and> alignof struct_kernel_symbol = 4 \<and> wf_cty struct_kernel_symbol"
  by (simp add: struct_kernel_symbol_def base_types layout_eval
      del: One_nat_def)

lemma struct_elf64_hdr_layout [layout_simps]:
  "sizeof struct_elf64_hdr = 64 \<and> alignof struct_elf64_hdr = 8 \<and> wf_cty struct_elf64_hdr"
  by (simp add: struct_elf64_hdr_def base_types layout_eval Elf64_Half_def c__u16_def Elf64_Word_def c__u32_def
      Elf64_Addr_def c__u64_def Elf64_Off_def
      del: One_nat_def)

lemma struct_klp_modinfo_layout [layout_simps]:
  "sizeof struct_klp_modinfo = 88 \<and> alignof struct_klp_modinfo = 8 \<and> wf_cty struct_klp_modinfo"
  by (simp add: struct_klp_modinfo_def base_types layout_eval Elf64_Ehdr_def struct_elf64_hdr_layout
      del: One_nat_def)

lemma enum_kobj_ns_type_layout [layout_simps]:
  "sizeof enum_kobj_ns_type = 4 \<and> alignof enum_kobj_ns_type = 4 \<and> wf_cty enum_kobj_ns_type"
  by (simp add: enum_kobj_ns_type_def base_types layout_eval
      del: One_nat_def)

lemma struct_kobj_ns_type_operations_layout [layout_simps]:
  "sizeof struct_kobj_ns_type_operations = 48 \<and> alignof struct_kobj_ns_type_operations = 8 \<and> wf_cty struct_kobj_ns_type_operations"
  by (simp add: struct_kobj_ns_type_operations_def base_types layout_eval enum_kobj_ns_type_layout
      del: One_nat_def)

lemma struct_kset_uevent_ops_layout [layout_simps]:
  "sizeof struct_kset_uevent_ops = 24 \<and> alignof struct_kset_uevent_ops = 8 \<and> wf_cty struct_kset_uevent_ops"
  by (simp add: struct_kset_uevent_ops_def base_types layout_eval
      del: One_nat_def)

lemma struct_module_attribute_layout [layout_simps]:
  "sizeof struct_module_attribute = 56 \<and> alignof struct_module_attribute = 8 \<and> wf_cty struct_module_attribute"
  by (simp add: struct_module_attribute_def base_types layout_eval struct_attribute_layout
      del: One_nat_def)

lemma struct_module_notes_attrs_layout [layout_simps]:
  "sizeof struct_module_notes_attrs = 48 \<and> alignof struct_module_notes_attrs = 8 \<and> wf_cty struct_module_notes_attrs"
  by (simp add: struct_module_notes_attrs_def base_types layout_eval struct_attribute_group_layout
      struct_bin_attribute_layout
      del: One_nat_def)

lemma struct_param_attribute_layout [layout_simps]:
  "sizeof struct_param_attribute = 64 \<and> alignof struct_param_attribute = 8 \<and> wf_cty struct_param_attribute"
  by (simp add: struct_param_attribute_def base_types layout_eval struct_module_attribute_layout
      del: One_nat_def)

lemma struct_module_param_attrs_layout [layout_simps]:
  "sizeof struct_module_param_attrs = 56 \<and> alignof struct_module_param_attrs = 8 \<and> wf_cty struct_module_param_attrs"
  by (simp add: struct_module_param_attrs_def base_types layout_eval struct_attribute_group_layout
      struct_param_attribute_layout
      del: One_nat_def)

lemma struct_module_sect_attrs_layout [layout_simps]:
  "sizeof struct_module_sect_attrs = 48 \<and> alignof struct_module_sect_attrs = 8 \<and> wf_cty struct_module_sect_attrs"
  by (simp add: struct_module_sect_attrs_def base_types layout_eval struct_attribute_group_layout
      struct_bin_attribute_layout
      del: One_nat_def)

lemma struct_led_classdev_layout [layout_simps]:
  "sizeof struct_led_classdev = 432 \<and> alignof struct_led_classdev = 8 \<and> wf_cty struct_led_classdev"
  by (simp add: struct_led_classdev_def base_types layout_eval struct_list_head_layout struct_timer_list_layout
      struct_work_struct_layout struct_rw_semaphore_layout bool_def struct_mutex_layout
      del: One_nat_def)

lemma struct_npem_led_layout [layout_simps]:
  "sizeof struct_npem_led = 512 \<and> alignof struct_npem_led = 8 \<and> wf_cty struct_npem_led"
  by (simp add: struct_npem_led_def base_types layout_eval struct_led_classdev_layout
      del: One_nat_def)

lemma struct_npem_layout [layout_simps]:
  "sizeof struct_npem = 72 \<and> alignof struct_npem = 8 \<and> wf_cty struct_npem"
  by (simp add: struct_npem_def base_types layout_eval struct_mutex_layout u16_def c__u16_def u32_def c__u32_def
      struct_npem_led_layout
      del: One_nat_def)

lemma struct_of_device_id_layout [layout_simps]:
  "sizeof struct_of_device_id = 200 \<and> alignof struct_of_device_id = 8 \<and> wf_cty struct_of_device_id"
  by (simp add: struct_of_device_id_def base_types layout_eval
      del: One_nat_def)

lemma struct_pci_device_id_layout [layout_simps]:
  "sizeof struct_pci_device_id = 40 \<and> alignof struct_pci_device_id = 8 \<and> wf_cty struct_pci_device_id"
  by (simp add: struct_pci_device_id_def base_types layout_eval c__u32_def kernel_ulong_t_def
      del: One_nat_def)

lemma struct_pci_error_handlers_layout [layout_simps]:
  "sizeof struct_pci_error_handlers = 56 \<and> alignof struct_pci_error_handlers = 8 \<and> wf_cty struct_pci_error_handlers"
  by (simp add: struct_pci_error_handlers_def base_types layout_eval
      del: One_nat_def)

lemma struct_pci_ops_layout [layout_simps]:
  "sizeof struct_pci_ops = 40 \<and> alignof struct_pci_ops = 8 \<and> wf_cty struct_pci_ops"
  by (simp add: struct_pci_ops_def base_types layout_eval
      del: One_nat_def)

lemma struct_p2pdma_provider_layout [layout_simps]:
  "sizeof struct_p2pdma_provider = 16 \<and> alignof struct_p2pdma_provider = 8 \<and> wf_cty struct_p2pdma_provider"
  by (simp add: struct_p2pdma_provider_def base_types layout_eval u64_def c__u64_def
      del: One_nat_def)

lemma struct_pci_p2pdma_layout [layout_simps]:
  "sizeof struct_pci_p2pdma = 128 \<and> alignof struct_pci_p2pdma = 8 \<and> wf_cty struct_pci_p2pdma"
  by (simp add: struct_pci_p2pdma_def base_types layout_eval bool_def struct_xarray_layout struct_p2pdma_provider_layout
      del: One_nat_def)

lemma struct_pci_slot_layout [layout_simps]:
  "sizeof struct_pci_slot = 104 \<and> alignof struct_pci_slot = 8 \<and> wf_cty struct_pci_slot"
  by (simp add: struct_pci_slot_def base_types layout_eval struct_list_head_layout struct_kobject_layout
      del: One_nat_def)

lemma struct_pci_sriov_layout [layout_simps]:
  "sizeof struct_pci_sriov = 128 \<and> alignof struct_pci_sriov = 8 \<and> wf_cty struct_pci_sriov"
  by (simp add: struct_pci_sriov_def base_types layout_eval u32_def c__u32_def u16_def c__u16_def u8_def c__u8_def
      resource_size_t_def phys_addr_t_def u64_def c__u64_def bool_def
      del: One_nat_def)

lemma struct_pci_tsm_layout [layout_simps]:
  "sizeof struct_pci_tsm = 32 \<and> alignof struct_pci_tsm = 8 \<and> wf_cty struct_pci_tsm"
  by (simp add: struct_pci_tsm_def base_types layout_eval
      del: One_nat_def)

lemma struct_pcie_bwctrl_data_layout [layout_simps]:
  "sizeof struct_pcie_bwctrl_data = 40 \<and> alignof struct_pcie_bwctrl_data = 8 \<and> wf_cty struct_pcie_bwctrl_data"
  by (simp add: struct_pcie_bwctrl_data_def base_types layout_eval struct_mutex_layout
      del: One_nat_def)

lemma struct_pcie_link_state_layout [layout_simps]:
  "sizeof struct_pcie_link_state = 56 \<and> alignof struct_pcie_link_state = 8 \<and> wf_cty struct_pcie_link_state"
  by (simp add: struct_pcie_link_state_def base_types layout_eval struct_list_head_layout u32_def c__u32_def
      del: One_nat_def)

lemma struct_proc_dir_entry_layout [layout_simps]:
  "sizeof struct_proc_dir_entry = 168 \<and> alignof struct_proc_dir_entry = 8 \<and> wf_cty struct_proc_dir_entry"
  by (simp add: struct_proc_dir_entry_def base_types layout_eval atomic_t_layout refcount_t_def
      struct_refcount_struct_layout struct_list_head_layout spinlock_t_def struct_spinlock_layout
      proc_write_t_def nlink_t_def u32_def c__u32_def kuid_t_layout kgid_t_layout loff_t_def
      c__kernel_loff_t_def struct_rb_root_layout struct_rb_node_layout umode_t_def u8_def c__u8_def
      del: One_nat_def)

lemma struct_rcec_ea_layout [layout_simps]:
  "sizeof struct_rcec_ea = 8 \<and> alignof struct_rcec_ea = 4 \<and> wf_cty struct_rcec_ea"
  by (simp add: struct_rcec_ea_def base_types layout_eval u8_def c__u8_def u32_def c__u32_def
      del: One_nat_def)

lemma struct_static_call_site_layout [layout_simps]:
  "sizeof struct_static_call_site = 8 \<and> alignof struct_static_call_site = 4 \<and> wf_cty struct_static_call_site"
  by (simp add: struct_static_call_site_def base_types layout_eval s32_def c__s32_def
      del: One_nat_def)

lemma struct_trace_eval_map_layout [layout_simps]:
  "sizeof struct_trace_eval_map = 24 \<and> alignof struct_trace_eval_map = 8 \<and> wf_cty struct_trace_eval_map"
  by (simp add: struct_trace_eval_map_def base_types layout_eval
      del: One_nat_def)

lemma struct_elf64_sym_layout [layout_simps]:
  "sizeof struct_elf64_sym = 24 \<and> alignof struct_elf64_sym = 8 \<and> wf_cty struct_elf64_sym"
  by (simp add: struct_elf64_sym_def base_types layout_eval Elf64_Word_def c__u32_def Elf64_Half_def c__u16_def
      Elf64_Addr_def c__u64_def Elf64_Xword_def
      del: One_nat_def)

end
