(* ===== verification/KernelKmsRefs.thy ===== *)
theory KernelKmsRefs
  imports KernelDevRefs
begin

text \<open>
  Types of \<^verbatim>\<open>bpf/vmlinux.h\<close> that the objects of \<open>KernelKms\<close> (mode setting, buffer objects and fences) point to, one
  dereference away, with every type they hold by value.
\<close>

section \<open>Types\<close>

definition struct___drm_colorops_state :: cty where
  "struct___drm_colorops_state = CStruct ''__drm_colorops_state'' False
     [Field ''ptr'' (CPtr ''struct drm_colorop''),
      Field ''state'' (CPtr ''struct drm_colorop_state''),
      Field ''old_state'' (CPtr ''struct drm_colorop_state''),
      Field ''new_state'' (CPtr ''struct drm_colorop_state'')]"

definition struct___drm_connnectors_state :: cty where
  "struct___drm_connnectors_state = CStruct ''__drm_connnectors_state'' False
     [Field ''ptr'' (CPtr ''struct drm_connector''),
      Field ''state_to_destroy'' (CPtr ''struct drm_connector_state''),
      Field ''old_state'' (CPtr ''struct drm_connector_state''),
      Field ''new_state'' (CPtr ''struct drm_connector_state''),
      Field ''out_fence_ptr'' (CPtr ''s32'')]"

definition struct___drm_crtcs_state :: cty where
  "struct___drm_crtcs_state = CStruct ''__drm_crtcs_state'' False
     [Field ''ptr'' (CPtr ''struct drm_crtc''),
      Field ''state_to_destroy'' (CPtr ''struct drm_crtc_state''),
      Field ''old_state'' (CPtr ''struct drm_crtc_state''),
      Field ''new_state'' (CPtr ''struct drm_crtc_state''),
      Field ''commit'' (CPtr ''struct drm_crtc_commit''),
      Field ''out_fence_ptr'' (CPtr ''s32''),
      Field ''last_vblank_count'' u64]"

definition struct___drm_planes_state :: cty where
  "struct___drm_planes_state = CStruct ''__drm_planes_state'' False
     [Field ''ptr'' (CPtr ''struct drm_plane''),
      Field ''state_to_destroy'' (CPtr ''struct drm_plane_state''),
      Field ''old_state'' (CPtr ''struct drm_plane_state''),
      Field ''new_state'' (CPtr ''struct drm_plane_state'')]"

definition struct___drm_private_objs_state :: cty where
  "struct___drm_private_objs_state = CStruct ''__drm_private_objs_state'' False
     [Field ''ptr'' (CPtr ''struct drm_private_obj''),
      Field ''state_to_destroy'' (CPtr ''struct drm_private_state''),
      Field ''old_state'' (CPtr ''struct drm_private_state''),
      Field ''new_state'' (CPtr ''struct drm_private_state'')]"

definition enum_backlight_type :: cty where
  "enum_backlight_type = CEnum 4
     [(''BACKLIGHT_RAW'', 1), (''BACKLIGHT_PLATFORM'', 2), (''BACKLIGHT_FIRMWARE'', 3),
      (''BACKLIGHT_TYPE_MAX'', 4)]"

definition enum_backlight_scale :: cty where
  "enum_backlight_scale = CEnum 4
     [(''BACKLIGHT_SCALE_UNKNOWN'', 0), (''BACKLIGHT_SCALE_LINEAR'', 1),
      (''BACKLIGHT_SCALE_NON_LINEAR'', 2)]"

definition struct_backlight_properties :: cty where
  "struct_backlight_properties = CStruct ''backlight_properties'' False
     [Field ''brightness'' c_int,
      Field ''max_brightness'' c_int,
      Field ''power'' c_int,
      Field ''type'' enum_backlight_type,
      Field ''state'' unsigned_int,
      Field ''scale'' enum_backlight_scale]"

definition struct_backlight_device :: cty where
  "struct_backlight_device = CStruct ''backlight_device'' False
     [Field ''props'' struct_backlight_properties,
      Field ''update_lock'' struct_mutex,
      Field ''ops_lock'' struct_mutex,
      Field ''ops'' (CPtr ''const struct backlight_ops''),
      Field ''entry'' struct_list_head,
      Field ''dev'' struct_device,
      Field ''use_count'' c_int]"

definition struct_device_attribute :: cty where
  "struct_device_attribute = CStruct ''device_attribute'' False
     [Field ''attr'' struct_attribute,
      Field ''show'' (CPtr ''ssize_t (struct device *, struct device_attribute *, char *)''),
      Field ''store'' (CPtr ''ssize_t (struct device *, struct device_attribute *, const char *, size_t)'')]"

definition struct_dma_buf_attach_ops :: cty where
  "struct_dma_buf_attach_ops = CStruct ''dma_buf_attach_ops'' False
     [Field ''allow_peer2peer'' bool,
      Field ''move_notify'' (CPtr ''void (struct dma_buf_attachment *)'')]"

definition struct_drm_bridge_funcs :: cty where
  "struct_drm_bridge_funcs = CStruct ''drm_bridge_funcs'' False
     [Field ''attach'' (CPtr ''int (struct drm_bridge *, struct drm_encoder *, enum drm_bridge_attach_flags)''),
      Field ''destroy'' (CPtr ''void (struct drm_bridge *)''),
      Field ''detach'' (CPtr ''void (struct drm_bridge *)''),
      Field ''mode_valid'' (CPtr ''enum drm_mode_status (struct drm_bridge *, const struct drm_display_info *, const struct drm_display_mode *)''),
      Field ''mode_fixup'' (CPtr ''bool (struct drm_bridge *, const struct drm_display_mode *, struct drm_display_mode *)''),
      Field ''disable'' (CPtr ''void (struct drm_bridge *)''),
      Field ''post_disable'' (CPtr ''void (struct drm_bridge *)''),
      Field ''mode_set'' (CPtr ''void (struct drm_bridge *, const struct drm_display_mode *, const struct drm_display_mode *)''),
      Field ''pre_enable'' (CPtr ''void (struct drm_bridge *)''),
      Field ''enable'' (CPtr ''void (struct drm_bridge *)''),
      Field ''atomic_pre_enable'' (CPtr ''void (struct drm_bridge *, struct drm_atomic_state *)''),
      Field ''atomic_enable'' (CPtr ''void (struct drm_bridge *, struct drm_atomic_state *)''),
      Field ''atomic_disable'' (CPtr ''void (struct drm_bridge *, struct drm_atomic_state *)''),
      Field ''atomic_post_disable'' (CPtr ''void (struct drm_bridge *, struct drm_atomic_state *)''),
      Field ''atomic_duplicate_state'' (CPtr ''struct drm_bridge_state * (struct drm_bridge *)''),
      Field ''atomic_destroy_state'' (CPtr ''void (struct drm_bridge *, struct drm_bridge_state *)''),
      Field ''atomic_get_output_bus_fmts'' (CPtr ''u32 * (struct drm_bridge *, struct drm_bridge_state *, struct drm_crtc_state *, struct drm_connector_state *, unsigned int *)''),
      Field ''atomic_get_input_bus_fmts'' (CPtr ''u32 * (struct drm_bridge *, struct drm_bridge_state *, struct drm_crtc_state *, struct drm_connector_state *, u32, unsigned int *)''),
      Field ''atomic_check'' (CPtr ''int (struct drm_bridge *, struct drm_bridge_state *, struct drm_crtc_state *, struct drm_connector_state *)''),
      Field ''atomic_reset'' (CPtr ''struct drm_bridge_state * (struct drm_bridge *)''),
      Field ''detect'' (CPtr ''enum drm_connector_status (struct drm_bridge *, struct drm_connector *)''),
      Field ''get_modes'' (CPtr ''int (struct drm_bridge *, struct drm_connector *)''),
      Field ''edid_read'' (CPtr ''const struct drm_edid * (struct drm_bridge *, struct drm_connector *)''),
      Field ''hpd_notify'' (CPtr ''void (struct drm_bridge *, struct drm_connector *, enum drm_connector_status)''),
      Field ''hpd_enable'' (CPtr ''void (struct drm_bridge *)''),
      Field ''hpd_disable'' (CPtr ''void (struct drm_bridge *)''),
      Field ''hdmi_tmds_char_rate_valid'' (CPtr ''enum drm_mode_status (const struct drm_bridge *, const struct drm_display_mode *, long long unsigned int)''),
      Field ''hdmi_clear_avi_infoframe'' (CPtr ''int (struct drm_bridge *)''),
      Field ''hdmi_write_avi_infoframe'' (CPtr ''int (struct drm_bridge *, const u8 *, size_t)''),
      Field ''hdmi_clear_hdmi_infoframe'' (CPtr ''int (struct drm_bridge *)''),
      Field ''hdmi_write_hdmi_infoframe'' (CPtr ''int (struct drm_bridge *, const u8 *, size_t)''),
      Field ''hdmi_clear_hdr_drm_infoframe'' (CPtr ''int (struct drm_bridge *)''),
      Field ''hdmi_write_hdr_drm_infoframe'' (CPtr ''int (struct drm_bridge *, const u8 *, size_t)''),
      Field ''hdmi_clear_spd_infoframe'' (CPtr ''int (struct drm_bridge *)''),
      Field ''hdmi_write_spd_infoframe'' (CPtr ''int (struct drm_bridge *, const u8 *, size_t)''),
      Field ''hdmi_clear_audio_infoframe'' (CPtr ''int (struct drm_bridge *)''),
      Field ''hdmi_write_audio_infoframe'' (CPtr ''int (struct drm_bridge *, const u8 *, size_t)''),
      Field ''hdmi_audio_startup'' (CPtr ''int (struct drm_bridge *, struct drm_connector *)''),
      Field ''hdmi_audio_prepare'' (CPtr ''int (struct drm_bridge *, struct drm_connector *, struct hdmi_codec_daifmt *, struct hdmi_codec_params *)''),
      Field ''hdmi_audio_shutdown'' (CPtr ''void (struct drm_bridge *, struct drm_connector *)''),
      Field ''hdmi_audio_mute_stream'' (CPtr ''int (struct drm_bridge *, struct drm_connector *, bool, int)''),
      Field ''hdmi_cec_init'' (CPtr ''int (struct drm_bridge *, struct drm_connector *)''),
      Field ''hdmi_cec_enable'' (CPtr ''int (struct drm_bridge *, bool)''),
      Field ''hdmi_cec_log_addr'' (CPtr ''int (struct drm_bridge *, u8)''),
      Field ''hdmi_cec_transmit'' (CPtr ''int (struct drm_bridge *, u8, u32, struct cec_msg *)''),
      Field ''dp_audio_startup'' (CPtr ''int (struct drm_bridge *, struct drm_connector *)''),
      Field ''dp_audio_prepare'' (CPtr ''int (struct drm_bridge *, struct drm_connector *, struct hdmi_codec_daifmt *, struct hdmi_codec_params *)''),
      Field ''dp_audio_shutdown'' (CPtr ''void (struct drm_bridge *, struct drm_connector *)''),
      Field ''dp_audio_mute_stream'' (CPtr ''int (struct drm_bridge *, struct drm_connector *, bool, int)''),
      Field ''debugfs_init'' (CPtr ''void (struct drm_bridge *, struct dentry *)'')]"

definition struct_drm_bridge_timings :: cty where
  "struct_drm_bridge_timings = CStruct ''drm_bridge_timings'' False
     [Field ''input_bus_flags'' u32,
      Field ''setup_time_ps'' u32,
      Field ''hold_time_ps'' u32,
      Field ''dual_link'' bool]"

definition struct_drm_client_buffer :: cty where
  "struct_drm_client_buffer = CStruct ''drm_client_buffer'' False
     [Field ''client'' (CPtr ''struct drm_client_dev''),
      Field ''gem'' (CPtr ''struct drm_gem_object''),
      Field ''map'' struct_iosys_map,
      Field ''fb'' (CPtr ''struct drm_framebuffer'')]"

definition struct_drm_client_funcs :: cty where
  "struct_drm_client_funcs = CStruct ''drm_client_funcs'' False
     [Field ''owner'' (CPtr ''struct module''),
      Field ''free'' (CPtr ''void (struct drm_client_dev *)''),
      Field ''unregister'' (CPtr ''void (struct drm_client_dev *)''),
      Field ''restore'' (CPtr ''int (struct drm_client_dev *, bool)''),
      Field ''hotplug'' (CPtr ''int (struct drm_client_dev *)''),
      Field ''suspend'' (CPtr ''int (struct drm_client_dev *)''),
      Field ''resume'' (CPtr ''int (struct drm_client_dev *)'')]"

definition enum_drm_colorop_type :: cty where
  "enum_drm_colorop_type = CEnum 4
     [(''DRM_COLOROP_1D_CURVE'', 0), (''DRM_COLOROP_1D_LUT'', 1), (''DRM_COLOROP_CTM_3X4'', 2),
      (''DRM_COLOROP_MULTIPLIER'', 3), (''DRM_COLOROP_3D_LUT'', 4)]"

definition enum_drm_colorop_lut1d_interpolation_type :: cty where
  "enum_drm_colorop_lut1d_interpolation_type = CEnum 4
     [(''DRM_COLOROP_LUT1D_INTERPOLATION_LINEAR'', 0)]"

definition enum_drm_colorop_lut3d_interpolation_type :: cty where
  "enum_drm_colorop_lut3d_interpolation_type = CEnum 4
     [(''DRM_COLOROP_LUT3D_INTERPOLATION_TETRAHEDRAL'', 0)]"

definition struct_drm_colorop :: cty where
  "struct_drm_colorop = CStruct ''drm_colorop'' False
     [Field ''dev'' (CPtr ''struct drm_device''),
      Field ''head'' struct_list_head,
      Field ''index'' unsigned_int,
      Field ''base'' struct_drm_mode_object,
      Field ''plane'' (CPtr ''struct drm_plane''),
      Field ''state'' (CPtr ''struct drm_colorop_state''),
      Field ''properties'' struct_drm_object_properties,
      Field ''type'' enum_drm_colorop_type,
      Field ''next'' (CPtr ''struct drm_colorop''),
      Field ''type_property'' (CPtr ''struct drm_property''),
      Field ''bypass_property'' (CPtr ''struct drm_property''),
      Field ''size'' uint32_t,
      Field ''lut1d_interpolation'' enum_drm_colorop_lut1d_interpolation_type,
      Field ''lut3d_interpolation'' enum_drm_colorop_lut3d_interpolation_type,
      Field ''lut1d_interpolation_property'' (CPtr ''struct drm_property''),
      Field ''curve_1d_type_property'' (CPtr ''struct drm_property''),
      Field ''multiplier_property'' (CPtr ''struct drm_property''),
      Field ''size_property'' (CPtr ''struct drm_property''),
      Field ''lut3d_interpolation_property'' (CPtr ''struct drm_property''),
      Field ''data_property'' (CPtr ''struct drm_property''),
      Field ''next_property'' (CPtr ''struct drm_property'')]"

definition struct_drm_connector_cec_funcs :: cty where
  "struct_drm_connector_cec_funcs = CStruct ''drm_connector_cec_funcs'' False
     [Field ''phys_addr_invalidate'' (CPtr ''void (struct drm_connector *)''),
      Field ''phys_addr_set'' (CPtr ''void (struct drm_connector *, u16)'')]"

definition struct_drm_connector_funcs :: cty where
  "struct_drm_connector_funcs = CStruct ''drm_connector_funcs'' False
     [Field ''dpms'' (CPtr ''int (struct drm_connector *, int)''),
      Field ''reset'' (CPtr ''void (struct drm_connector *)''),
      Field ''detect'' (CPtr ''enum drm_connector_status (struct drm_connector *, bool)''),
      Field ''force'' (CPtr ''void (struct drm_connector *)''),
      Field ''fill_modes'' (CPtr ''int (struct drm_connector *, uint32_t, uint32_t)''),
      Field ''set_property'' (CPtr ''int (struct drm_connector *, struct drm_property *, uint64_t)''),
      Field ''late_register'' (CPtr ''int (struct drm_connector *)''),
      Field ''early_unregister'' (CPtr ''void (struct drm_connector *)''),
      Field ''destroy'' (CPtr ''void (struct drm_connector *)''),
      Field ''atomic_duplicate_state'' (CPtr ''struct drm_connector_state * (struct drm_connector *)''),
      Field ''atomic_destroy_state'' (CPtr ''void (struct drm_connector *, struct drm_connector_state *)''),
      Field ''atomic_set_property'' (CPtr ''int (struct drm_connector *, struct drm_connector_state *, struct drm_property *, uint64_t)''),
      Field ''atomic_get_property'' (CPtr ''int (struct drm_connector *, const struct drm_connector_state *, struct drm_property *, uint64_t *)''),
      Field ''atomic_print_state'' (CPtr ''void (struct drm_printer *, const struct drm_connector_state *)''),
      Field ''oob_hotplug_event'' (CPtr ''void (struct drm_connector *, enum drm_connector_status)''),
      Field ''debugfs_init'' (CPtr ''void (struct drm_connector *, struct dentry *)'')]"

definition struct_drm_connector_hdmi_audio_funcs :: cty where
  "struct_drm_connector_hdmi_audio_funcs = CStruct ''drm_connector_hdmi_audio_funcs'' False
     [Field ''startup'' (CPtr ''int (struct drm_connector *)''),
      Field ''prepare'' (CPtr ''int (struct drm_connector *, struct hdmi_codec_daifmt *, struct hdmi_codec_params *)''),
      Field ''shutdown'' (CPtr ''void (struct drm_connector *)''),
      Field ''mute_stream'' (CPtr ''int (struct drm_connector *, bool, int)'')]"

definition struct_drm_connector_infoframe_funcs :: cty where
  "struct_drm_connector_infoframe_funcs = CStruct ''drm_connector_infoframe_funcs'' False
     [Field ''clear_infoframe'' (CPtr ''int (struct drm_connector *)''),
      Field ''write_infoframe'' (CPtr ''int (struct drm_connector *, const u8 *, size_t)'')]"

definition struct_drm_connector_hdmi_funcs :: cty where
  "struct_drm_connector_hdmi_funcs = CStruct ''drm_connector_hdmi_funcs'' False
     [Field ''tmds_char_rate_valid'' (CPtr ''enum drm_mode_status (const struct drm_connector *, const struct drm_display_mode *, long long unsigned int)''),
      Field ''read_edid'' (CPtr ''const struct drm_edid * (struct drm_connector *)''),
      Field ''avi'' struct_drm_connector_infoframe_funcs,
      Field ''hdmi'' struct_drm_connector_infoframe_funcs,
      Field ''audio'' struct_drm_connector_infoframe_funcs,
      Field ''hdr_drm'' struct_drm_connector_infoframe_funcs,
      Field ''spd'' struct_drm_connector_infoframe_funcs]"

definition struct_drm_connector_helper_funcs :: cty where
  "struct_drm_connector_helper_funcs = CStruct ''drm_connector_helper_funcs'' False
     [Field ''get_modes'' (CPtr ''int (struct drm_connector *)''),
      Field ''detect_ctx'' (CPtr ''int (struct drm_connector *, struct drm_modeset_acquire_ctx *, bool)''),
      Field ''mode_valid'' (CPtr ''enum drm_mode_status (struct drm_connector *, const struct drm_display_mode *)''),
      Field ''mode_valid_ctx'' (CPtr ''int (struct drm_connector *, const struct drm_display_mode *, struct drm_modeset_acquire_ctx *, enum drm_mode_status *)''),
      Field ''best_encoder'' (CPtr ''struct drm_encoder * (struct drm_connector *)''),
      Field ''atomic_best_encoder'' (CPtr ''struct drm_encoder * (struct drm_connector *, struct drm_atomic_state *)''),
      Field ''atomic_check'' (CPtr ''int (struct drm_connector *, struct drm_atomic_state *)''),
      Field ''atomic_commit'' (CPtr ''void (struct drm_connector *, struct drm_atomic_state *)''),
      Field ''prepare_writeback_job'' (CPtr ''int (struct drm_writeback_connector *, struct drm_writeback_job *)''),
      Field ''cleanup_writeback_job'' (CPtr ''void (struct drm_writeback_connector *, struct drm_writeback_job *)''),
      Field ''enable_hpd'' (CPtr ''void (struct drm_connector *)''),
      Field ''disable_hpd'' (CPtr ''void (struct drm_connector *)'')]"

definition struct_drm_crtc_commit :: cty where
  "struct_drm_crtc_commit = CStruct ''drm_crtc_commit'' False
     [Field ''crtc'' (CPtr ''struct drm_crtc''),
      Field ''ref'' struct_kref,
      Field ''flip_done'' struct_completion,
      Field ''hw_done'' struct_completion,
      Field ''cleanup_done'' struct_completion,
      Field ''commit_entry'' struct_list_head,
      Field ''event'' (CPtr ''struct drm_pending_vblank_event''),
      Field ''abort_completion'' bool]"

definition struct_drm_crtc_crc_entry :: cty where
  "struct_drm_crtc_crc_entry = CStruct ''drm_crtc_crc_entry'' False
     [Field ''has_frame_counter'' bool,
      Field ''frame'' uint32_t,
      Field ''crcs'' (CArr 10 uint32_t)]"

definition struct_drm_crtc_funcs :: cty where
  "struct_drm_crtc_funcs = CStruct ''drm_crtc_funcs'' False
     [Field ''reset'' (CPtr ''void (struct drm_crtc *)''),
      Field ''cursor_set'' (CPtr ''int (struct drm_crtc *, struct drm_file *, uint32_t, uint32_t, uint32_t)''),
      Field ''cursor_set2'' (CPtr ''int (struct drm_crtc *, struct drm_file *, uint32_t, uint32_t, uint32_t, int32_t, int32_t)''),
      Field ''cursor_move'' (CPtr ''int (struct drm_crtc *, int, int)''),
      Field ''gamma_set'' (CPtr ''int (struct drm_crtc *, u16 *, u16 *, u16 *, uint32_t, struct drm_modeset_acquire_ctx *)''),
      Field ''destroy'' (CPtr ''void (struct drm_crtc *)''),
      Field ''set_config'' (CPtr ''int (struct drm_mode_set *, struct drm_modeset_acquire_ctx *)''),
      Field ''page_flip'' (CPtr ''int (struct drm_crtc *, struct drm_framebuffer *, struct drm_pending_vblank_event *, uint32_t, struct drm_modeset_acquire_ctx *)''),
      Field ''page_flip_target'' (CPtr ''int (struct drm_crtc *, struct drm_framebuffer *, struct drm_pending_vblank_event *, uint32_t, uint32_t, struct drm_modeset_acquire_ctx *)''),
      Field ''set_property'' (CPtr ''int (struct drm_crtc *, struct drm_property *, uint64_t)''),
      Field ''atomic_duplicate_state'' (CPtr ''struct drm_crtc_state * (struct drm_crtc *)''),
      Field ''atomic_destroy_state'' (CPtr ''void (struct drm_crtc *, struct drm_crtc_state *)''),
      Field ''atomic_set_property'' (CPtr ''int (struct drm_crtc *, struct drm_crtc_state *, struct drm_property *, uint64_t)''),
      Field ''atomic_get_property'' (CPtr ''int (struct drm_crtc *, const struct drm_crtc_state *, struct drm_property *, uint64_t *)''),
      Field ''late_register'' (CPtr ''int (struct drm_crtc *)''),
      Field ''early_unregister'' (CPtr ''void (struct drm_crtc *)''),
      Field ''set_crc_source'' (CPtr ''int (struct drm_crtc *, const char *)''),
      Field ''verify_crc_source'' (CPtr ''int (struct drm_crtc *, const char *, size_t *)''),
      Field ''get_crc_sources'' (CPtr ''const char ** (struct drm_crtc *, size_t *)''),
      Field ''atomic_print_state'' (CPtr ''void (struct drm_printer *, const struct drm_crtc_state *)''),
      Field ''get_vblank_counter'' (CPtr ''u32 (struct drm_crtc *)''),
      Field ''enable_vblank'' (CPtr ''int (struct drm_crtc *)''),
      Field ''disable_vblank'' (CPtr ''void (struct drm_crtc *)''),
      Field ''get_vblank_timestamp'' (CPtr ''bool (struct drm_crtc *, int *, ktime_t *, bool)'')]"

definition struct_drm_crtc_helper_funcs :: cty where
  "struct_drm_crtc_helper_funcs = CStruct ''drm_crtc_helper_funcs'' False
     [Field ''dpms'' (CPtr ''void (struct drm_crtc *, int)''),
      Field ''prepare'' (CPtr ''void (struct drm_crtc *)''),
      Field ''commit'' (CPtr ''void (struct drm_crtc *)''),
      Field ''mode_valid'' (CPtr ''enum drm_mode_status (struct drm_crtc *, const struct drm_display_mode *)''),
      Field ''mode_fixup'' (CPtr ''bool (struct drm_crtc *, const struct drm_display_mode *, struct drm_display_mode *)''),
      Field ''mode_set'' (CPtr ''int (struct drm_crtc *, struct drm_display_mode *, struct drm_display_mode *, int, int, struct drm_framebuffer *)''),
      Field ''mode_set_nofb'' (CPtr ''void (struct drm_crtc *)''),
      Field ''mode_set_base'' (CPtr ''int (struct drm_crtc *, int, int, struct drm_framebuffer *)''),
      Field ''disable'' (CPtr ''void (struct drm_crtc *)''),
      Field ''atomic_check'' (CPtr ''int (struct drm_crtc *, struct drm_atomic_state *)''),
      Field ''atomic_begin'' (CPtr ''void (struct drm_crtc *, struct drm_atomic_state *)''),
      Field ''atomic_flush'' (CPtr ''void (struct drm_crtc *, struct drm_atomic_state *)''),
      Field ''atomic_enable'' (CPtr ''void (struct drm_crtc *, struct drm_atomic_state *)''),
      Field ''atomic_disable'' (CPtr ''void (struct drm_crtc *, struct drm_atomic_state *)''),
      Field ''get_scanout_position'' (CPtr ''bool (struct drm_crtc *, bool, int *, int *, ktime_t *, ktime_t *, const struct drm_display_mode *)''),
      Field ''handle_vblank_timeout'' (CPtr ''bool (struct drm_crtc *)'')]"

definition struct_drm_edid :: cty where
  "struct_drm_edid = CStruct ''drm_edid'' False
     [Field ''size'' size_t,
      Field ''edid'' (CPtr ''const struct edid'')]"

definition struct_drm_encoder_funcs :: cty where
  "struct_drm_encoder_funcs = CStruct ''drm_encoder_funcs'' False
     [Field ''reset'' (CPtr ''void (struct drm_encoder *)''),
      Field ''destroy'' (CPtr ''void (struct drm_encoder *)''),
      Field ''late_register'' (CPtr ''int (struct drm_encoder *)''),
      Field ''early_unregister'' (CPtr ''void (struct drm_encoder *)''),
      Field ''debugfs_init'' (CPtr ''void (struct drm_encoder *, struct dentry *)'')]"

definition struct_drm_encoder_helper_funcs :: cty where
  "struct_drm_encoder_helper_funcs = CStruct ''drm_encoder_helper_funcs'' False
     [Field ''dpms'' (CPtr ''void (struct drm_encoder *, int)''),
      Field ''mode_valid'' (CPtr ''enum drm_mode_status (struct drm_encoder *, const struct drm_display_mode *)''),
      Field ''mode_fixup'' (CPtr ''bool (struct drm_encoder *, const struct drm_display_mode *, struct drm_display_mode *)''),
      Field ''prepare'' (CPtr ''void (struct drm_encoder *)''),
      Field ''commit'' (CPtr ''void (struct drm_encoder *)''),
      Field ''mode_set'' (CPtr ''void (struct drm_encoder *, struct drm_display_mode *, struct drm_display_mode *)''),
      Field ''atomic_mode_set'' (CPtr ''void (struct drm_encoder *, struct drm_crtc_state *, struct drm_connector_state *)''),
      Field ''detect'' (CPtr ''enum drm_connector_status (struct drm_encoder *, struct drm_connector *)''),
      Field ''atomic_disable'' (CPtr ''void (struct drm_encoder *, struct drm_atomic_state *)''),
      Field ''atomic_enable'' (CPtr ''void (struct drm_encoder *, struct drm_atomic_state *)''),
      Field ''disable'' (CPtr ''void (struct drm_encoder *)''),
      Field ''enable'' (CPtr ''void (struct drm_encoder *)''),
      Field ''atomic_check'' (CPtr ''int (struct drm_encoder *, struct drm_crtc_state *, struct drm_connector_state *)'')]"

definition struct_drm_fb_helper_funcs :: cty where
  "struct_drm_fb_helper_funcs = CStruct ''drm_fb_helper_funcs'' False
     [Field ''fb_dirty'' (CPtr ''int (struct drm_fb_helper *, struct drm_clip_rect *)''),
      Field ''fb_restore'' (CPtr ''void (struct drm_fb_helper *)''),
      Field ''fb_set_suspend'' (CPtr ''void (struct drm_fb_helper *, bool)'')]"

definition struct_drm_format_info :: cty where
  "struct_drm_format_info = CStruct ''drm_format_info'' False
     [Field ''format'' u32,
      Field ''depth'' u8,
      Field ''num_planes'' u8,
      Field [] (CUnion [] False
        [Field ''cpp'' (CArr 4 u8),
         Field ''char_per_block'' (CArr 4 u8)]),
      Field ''block_w'' (CArr 4 u8),
      Field ''block_h'' (CArr 4 u8),
      Field ''hsub'' u8,
      Field ''vsub'' u8,
      Field ''has_alpha'' bool,
      Field ''is_yuv'' bool,
      Field ''is_color_indexed'' bool]"

definition struct_drm_framebuffer_funcs :: cty where
  "struct_drm_framebuffer_funcs = CStruct ''drm_framebuffer_funcs'' False
     [Field ''destroy'' (CPtr ''void (struct drm_framebuffer *)''),
      Field ''create_handle'' (CPtr ''int (struct drm_framebuffer *, struct drm_file *, unsigned int *)''),
      Field ''dirty'' (CPtr ''int (struct drm_framebuffer *, struct drm_file *, unsigned int, unsigned int, struct drm_clip_rect *, unsigned int)'')]"

definition struct_drm_gpuvm_bo :: cty where
  "struct_drm_gpuvm_bo = CStruct ''drm_gpuvm_bo'' False
     [Field ''vm'' (CPtr ''struct drm_gpuvm''),
      Field ''obj'' (CPtr ''struct drm_gem_object''),
      Field ''evicted'' bool,
      Field ''kref'' struct_kref,
      Field ''list'' (CStruct [] False
        [Field ''gpuva'' struct_list_head,
         Field ''entry'' (CStruct [] False
           [Field ''gem'' struct_list_head,
            Field ''extobj'' struct_list_head,
            Field ''evict'' struct_list_head,
            Field ''bo_defer'' struct_llist_node])])]"

definition struct_drm_gpuvm_ops :: cty where
  "struct_drm_gpuvm_ops = CStruct ''drm_gpuvm_ops'' False
     [Field ''vm_free'' (CPtr ''void (struct drm_gpuvm *)''),
      Field ''op_alloc'' (CPtr ''struct drm_gpuva_op * (void)''),
      Field ''op_free'' (CPtr ''void (struct drm_gpuva_op *)''),
      Field ''vm_bo_alloc'' (CPtr ''struct drm_gpuvm_bo * (void)''),
      Field ''vm_bo_free'' (CPtr ''void (struct drm_gpuvm_bo *)''),
      Field ''vm_bo_validate'' (CPtr ''int (struct drm_gpuvm_bo *, struct drm_exec *)''),
      Field ''sm_step_map'' (CPtr ''int (struct drm_gpuva_op *, void *)''),
      Field ''sm_step_remap'' (CPtr ''int (struct drm_gpuva_op *, void *)''),
      Field ''sm_step_unmap'' (CPtr ''int (struct drm_gpuva_op *, void *)'')]"

definition struct_drm_mode_set :: cty where
  "struct_drm_mode_set = CStruct ''drm_mode_set'' False
     [Field ''fb'' (CPtr ''struct drm_framebuffer''),
      Field ''crtc'' (CPtr ''struct drm_crtc''),
      Field ''mode'' (CPtr ''struct drm_display_mode''),
      Field ''x'' uint32_t,
      Field ''y'' uint32_t,
      Field ''connectors'' (CPtr ''struct drm_connector *''),
      Field ''num_connectors'' size_t]"

definition struct_drm_panel_funcs :: cty where
  "struct_drm_panel_funcs = CStruct ''drm_panel_funcs'' False
     [Field ''prepare'' (CPtr ''int (struct drm_panel *)''),
      Field ''enable'' (CPtr ''int (struct drm_panel *)''),
      Field ''disable'' (CPtr ''int (struct drm_panel *)''),
      Field ''unprepare'' (CPtr ''int (struct drm_panel *)''),
      Field ''get_modes'' (CPtr ''int (struct drm_panel *, struct drm_connector *)''),
      Field ''get_orientation'' (CPtr ''enum drm_panel_orientation (struct drm_panel *)''),
      Field ''get_timings'' (CPtr ''int (struct drm_panel *, unsigned int, struct display_timing *)''),
      Field ''debugfs_init'' (CPtr ''void (struct drm_panel *, struct dentry *)'')]"

definition struct_drm_plane_funcs :: cty where
  "struct_drm_plane_funcs = CStruct ''drm_plane_funcs'' False
     [Field ''update_plane'' (CPtr ''int (struct drm_plane *, struct drm_crtc *, struct drm_framebuffer *, int, int, unsigned int, unsigned int, uint32_t, uint32_t, uint32_t, uint32_t, struct drm_modeset_acquire_ctx *)''),
      Field ''disable_plane'' (CPtr ''int (struct drm_plane *, struct drm_modeset_acquire_ctx *)''),
      Field ''destroy'' (CPtr ''void (struct drm_plane *)''),
      Field ''reset'' (CPtr ''void (struct drm_plane *)''),
      Field ''set_property'' (CPtr ''int (struct drm_plane *, struct drm_property *, uint64_t)''),
      Field ''atomic_duplicate_state'' (CPtr ''struct drm_plane_state * (struct drm_plane *)''),
      Field ''atomic_destroy_state'' (CPtr ''void (struct drm_plane *, struct drm_plane_state *)''),
      Field ''atomic_set_property'' (CPtr ''int (struct drm_plane *, struct drm_plane_state *, struct drm_property *, uint64_t)''),
      Field ''atomic_get_property'' (CPtr ''int (struct drm_plane *, const struct drm_plane_state *, struct drm_property *, uint64_t *)''),
      Field ''late_register'' (CPtr ''int (struct drm_plane *)''),
      Field ''early_unregister'' (CPtr ''void (struct drm_plane *)''),
      Field ''atomic_print_state'' (CPtr ''void (struct drm_printer *, const struct drm_plane_state *)''),
      Field ''format_mod_supported'' (CPtr ''bool (struct drm_plane *, uint32_t, uint64_t)''),
      Field ''format_mod_supported_async'' (CPtr ''bool (struct drm_plane *, u32, u64)'')]"

definition struct_drm_plane_helper_funcs :: cty where
  "struct_drm_plane_helper_funcs = CStruct ''drm_plane_helper_funcs'' False
     [Field ''prepare_fb'' (CPtr ''int (struct drm_plane *, struct drm_plane_state *)''),
      Field ''cleanup_fb'' (CPtr ''void (struct drm_plane *, struct drm_plane_state *)''),
      Field ''begin_fb_access'' (CPtr ''int (struct drm_plane *, struct drm_plane_state *)''),
      Field ''end_fb_access'' (CPtr ''void (struct drm_plane *, struct drm_plane_state *)''),
      Field ''atomic_check'' (CPtr ''int (struct drm_plane *, struct drm_atomic_state *)''),
      Field ''atomic_update'' (CPtr ''void (struct drm_plane *, struct drm_atomic_state *)''),
      Field ''atomic_enable'' (CPtr ''void (struct drm_plane *, struct drm_atomic_state *)''),
      Field ''atomic_disable'' (CPtr ''void (struct drm_plane *, struct drm_atomic_state *)''),
      Field ''atomic_async_check'' (CPtr ''int (struct drm_plane *, struct drm_atomic_state *, bool)''),
      Field ''atomic_async_update'' (CPtr ''void (struct drm_plane *, struct drm_atomic_state *)''),
      Field ''get_scanout_buffer'' (CPtr ''int (struct drm_plane *, struct drm_scanout_buffer *)''),
      Field ''panic_flush'' (CPtr ''void (struct drm_plane *)'')]"

definition struct_drm_privacy_screen :: cty where
  "struct_drm_privacy_screen = CStruct ''drm_privacy_screen'' False
     [Field ''dev'' struct_device,
      Field ''lock'' struct_mutex,
      Field ''list'' struct_list_head,
      Field ''notifier_head'' struct_blocking_notifier_head,
      Field ''ops'' (CPtr ''const struct drm_privacy_screen_ops''),
      Field ''sw_state'' enum_drm_privacy_screen_status,
      Field ''hw_state'' enum_drm_privacy_screen_status,
      Field ''drvdata'' (CPtr ''void'')]"

definition struct_drm_private_state :: cty where
  "struct_drm_private_state = CStruct ''drm_private_state'' False
     [Field ''state'' (CPtr ''struct drm_atomic_state''),
      Field ''obj'' (CPtr ''struct drm_private_obj'')]"

definition struct_drm_private_state_funcs :: cty where
  "struct_drm_private_state_funcs = CStruct ''drm_private_state_funcs'' False
     [Field ''atomic_duplicate_state'' (CPtr ''struct drm_private_state * (struct drm_private_obj *)''),
      Field ''atomic_destroy_state'' (CPtr ''void (struct drm_private_obj *, struct drm_private_state *)''),
      Field ''atomic_print_state'' (CPtr ''void (struct drm_printer *, const struct drm_private_state *)'')]"

definition struct_drm_property_blob :: cty where
  "struct_drm_property_blob = CStruct ''drm_property_blob'' False
     [Field ''base'' struct_drm_mode_object,
      Field ''dev'' (CPtr ''struct drm_device''),
      Field ''head_global'' struct_list_head,
      Field ''head_file'' struct_list_head,
      Field ''length'' size_t,
      Field ''data'' (CPtr ''void'')]"

definition struct_ewma_psr_time :: cty where
  "struct_ewma_psr_time = CStruct ''ewma_psr_time'' False
     [Field ''internal'' long_unsigned_int]"

definition struct_drm_self_refresh_data :: cty where
  "struct_drm_self_refresh_data = CStruct ''drm_self_refresh_data'' False
     [Field ''crtc'' (CPtr ''struct drm_crtc''),
      Field ''entry_work'' struct_delayed_work,
      Field ''avg_mutex'' struct_mutex,
      Field ''entry_avg_ms'' struct_ewma_psr_time,
      Field ''exit_avg_ms'' struct_ewma_psr_time]"

definition struct_drm_tile_group :: cty where
  "struct_drm_tile_group = CStruct ''drm_tile_group'' False
     [Field ''refcount'' struct_kref,
      Field ''dev'' (CPtr ''struct drm_device''),
      Field ''id'' c_int,
      Field ''group_data'' (CArr 8 u8)]"

definition struct_drm_writeback_job :: cty where
  "struct_drm_writeback_job = CStruct ''drm_writeback_job'' False
     [Field ''connector'' (CPtr ''struct drm_writeback_connector''),
      Field ''prepared'' bool,
      Field ''cleanup_work'' struct_work_struct,
      Field ''list_entry'' struct_list_head,
      Field ''fb'' (CPtr ''struct drm_framebuffer''),
      Field ''out_fence'' (CPtr ''struct dma_fence''),
      Field ''priv'' (CPtr ''void'')]"

definition struct_fb_bitfield :: cty where
  "struct_fb_bitfield = CStruct ''fb_bitfield'' False
     [Field ''offset'' c__u32,
      Field ''length'' c__u32,
      Field ''msb_right'' c__u32]"

definition struct_fb_var_screeninfo :: cty where
  "struct_fb_var_screeninfo = CStruct ''fb_var_screeninfo'' False
     [Field ''xres'' c__u32,
      Field ''yres'' c__u32,
      Field ''xres_virtual'' c__u32,
      Field ''yres_virtual'' c__u32,
      Field ''xoffset'' c__u32,
      Field ''yoffset'' c__u32,
      Field ''bits_per_pixel'' c__u32,
      Field ''grayscale'' c__u32,
      Field ''red'' struct_fb_bitfield,
      Field ''green'' struct_fb_bitfield,
      Field ''blue'' struct_fb_bitfield,
      Field ''transp'' struct_fb_bitfield,
      Field ''nonstd'' c__u32,
      Field ''activate'' c__u32,
      Field ''height'' c__u32,
      Field ''width'' c__u32,
      Field ''accel_flags'' c__u32,
      Field ''pixclock'' c__u32,
      Field ''left_margin'' c__u32,
      Field ''right_margin'' c__u32,
      Field ''upper_margin'' c__u32,
      Field ''lower_margin'' c__u32,
      Field ''hsync_len'' c__u32,
      Field ''vsync_len'' c__u32,
      Field ''sync'' c__u32,
      Field ''vmode'' c__u32,
      Field ''rotate'' c__u32,
      Field ''colorspace'' c__u32,
      Field ''reserved'' (CArr 4 c__u32)]"

definition struct_fb_fix_screeninfo :: cty where
  "struct_fb_fix_screeninfo = CStruct ''fb_fix_screeninfo'' False
     [Field ''id'' (CArr 16 c_char),
      Field ''smem_start'' long_unsigned_int,
      Field ''smem_len'' c__u32,
      Field ''type'' c__u32,
      Field ''type_aux'' c__u32,
      Field ''visual'' c__u32,
      Field ''xpanstep'' c__u16,
      Field ''ypanstep'' c__u16,
      Field ''ywrapstep'' c__u16,
      Field ''line_length'' c__u32,
      Field ''mmio_start'' long_unsigned_int,
      Field ''mmio_len'' c__u32,
      Field ''accel'' c__u32,
      Field ''capabilities'' c__u16,
      Field ''reserved'' (CArr 2 c__u16)]"

definition struct_fb_chroma :: cty where
  "struct_fb_chroma = CStruct ''fb_chroma'' False
     [Field ''redx'' c__u32,
      Field ''greenx'' c__u32,
      Field ''bluex'' c__u32,
      Field ''whitex'' c__u32,
      Field ''redy'' c__u32,
      Field ''greeny'' c__u32,
      Field ''bluey'' c__u32,
      Field ''whitey'' c__u32]"

definition struct_fb_monspecs :: cty where
  "struct_fb_monspecs = CStruct ''fb_monspecs'' False
     [Field ''chroma'' struct_fb_chroma,
      Field ''modedb'' (CPtr ''struct fb_videomode''),
      Field ''manufacturer'' (CArr 4 c__u8),
      Field ''monitor'' (CArr 14 c__u8),
      Field ''serial_no'' (CArr 14 c__u8),
      Field ''ascii'' (CArr 14 c__u8),
      Field ''modedb_len'' c__u32,
      Field ''model'' c__u32,
      Field ''serial'' c__u32,
      Field ''year'' c__u32,
      Field ''week'' c__u32,
      Field ''hfmin'' c__u32,
      Field ''hfmax'' c__u32,
      Field ''dclkmin'' c__u32,
      Field ''dclkmax'' c__u32,
      Field ''input'' c__u16,
      Field ''dpms'' c__u16,
      Field ''signal'' c__u16,
      Field ''vfmin'' c__u16,
      Field ''vfmax'' c__u16,
      Field ''gamma'' c__u16,
      BitField ''gtf'' c__u16 1,
      Field ''misc'' c__u16,
      Field ''version'' c__u8,
      Field ''revision'' c__u8,
      Field ''max_x'' c__u8,
      Field ''max_y'' c__u8]"

definition struct_fb_pixmap :: cty where
  "struct_fb_pixmap = CStruct ''fb_pixmap'' False
     [Field ''addr'' (CPtr ''u8''),
      Field ''size'' u32,
      Field ''offset'' u32,
      Field ''buf_align'' u32,
      Field ''scan_align'' u32,
      Field ''access_align'' u32,
      Field ''flags'' u32,
      Field ''blit_x'' (CArr 1 long_unsigned_int),
      Field ''blit_y'' (CArr 2 long_unsigned_int),
      Field ''writeio'' (CPtr ''void (struct fb_info *, void *, void *, unsigned int)''),
      Field ''readio'' (CPtr ''void (struct fb_info *, void *, void *, unsigned int)'')]"

definition struct_fb_cmap :: cty where
  "struct_fb_cmap = CStruct ''fb_cmap'' False
     [Field ''start'' c__u32,
      Field ''len'' c__u32,
      Field ''red'' (CPtr ''__u16''),
      Field ''green'' (CPtr ''__u16''),
      Field ''blue'' (CPtr ''__u16''),
      Field ''transp'' (CPtr ''__u16'')]"

definition struct_fb_info :: cty where
  "struct_fb_info = CStruct ''fb_info'' False
     [Field ''count'' refcount_t,
      Field ''node'' c_int,
      Field ''flags'' c_int,
      Field ''fbcon_rotate_hint'' c_int,
      Field ''lock'' struct_mutex,
      Field ''mm_lock'' struct_mutex,
      Field ''var'' struct_fb_var_screeninfo,
      Field ''fix'' struct_fb_fix_screeninfo,
      Field ''monspecs'' struct_fb_monspecs,
      Field ''pixmap'' struct_fb_pixmap,
      Field ''sprite'' struct_fb_pixmap,
      Field ''cmap'' struct_fb_cmap,
      Field ''modelist'' struct_list_head,
      Field ''mode'' (CPtr ''struct fb_videomode''),
      Field ''blank'' c_int,
      Field ''bl_dev'' (CPtr ''struct backlight_device''),
      Field ''bl_curve_mutex'' struct_mutex,
      Field ''bl_curve'' (CArr 128 u8),
      Field ''lcd_dev'' (CPtr ''struct lcd_device''),
      Field ''deferred_work'' struct_delayed_work,
      Field ''npagerefs'' long_unsigned_int,
      Field ''pagerefs'' (CPtr ''struct fb_deferred_io_pageref''),
      Field ''fbdefio'' (CPtr ''struct fb_deferred_io''),
      Field ''fbdefio_state'' (CPtr ''struct fb_deferred_io_state''),
      Field ''fbops'' (CPtr ''const struct fb_ops''),
      Field ''device'' (CPtr ''struct device''),
      Field ''dev'' (CPtr ''struct device''),
      Field ''tileops'' (CPtr ''struct fb_tile_ops''),
      Field [] (CUnion [] False
        [Field ''screen_base'' (CPtr ''char''),
         Field ''screen_buffer'' (CPtr ''char'')]),
      Field ''screen_size'' long_unsigned_int,
      Field ''pseudo_palette'' (CPtr ''void''),
      Field ''state'' u32,
      Field ''fbcon_par'' (CPtr ''struct fbcon_par''),
      Field ''par'' (CPtr ''void''),
      Field ''skip_vt_switch'' bool,
      Field ''skip_panic'' bool]"

definition struct_i2c_adapter :: cty where
  "struct_i2c_adapter = CStruct ''i2c_adapter'' False
     [Field ''owner'' (CPtr ''struct module''),
      Field ''class'' unsigned_int,
      Field ''algo'' (CPtr ''const struct i2c_algorithm''),
      Field ''algo_data'' (CPtr ''void''),
      Field ''lock_ops'' (CPtr ''const struct i2c_lock_operations''),
      Field ''bus_lock'' struct_rt_mutex,
      Field ''mux_lock'' struct_rt_mutex,
      Field ''timeout'' c_int,
      Field ''retries'' c_int,
      Field ''dev'' struct_device,
      Field ''locked_flags'' long_unsigned_int,
      Field ''nr'' c_int,
      Field ''name'' (CArr 48 c_char),
      Field ''dev_released'' struct_completion,
      Field ''userspace_clients_lock'' struct_mutex,
      Field ''userspace_clients'' struct_list_head,
      Field ''bus_recovery_info'' (CPtr ''struct i2c_bus_recovery_info''),
      Field ''quirks'' (CPtr ''const struct i2c_adapter_quirks''),
      Field ''host_notify_domain'' (CPtr ''struct irq_domain''),
      Field ''bus_regulator'' (CPtr ''struct regulator''),
      Field ''debugfs'' (CPtr ''struct dentry''),
      Field ''addrs_in_instantiation'' (CArr 2 long_unsigned_int)]"

definition struct_kthread_worker :: cty where
  "struct_kthread_worker = CStruct ''kthread_worker'' False
     [Field ''flags'' unsigned_int,
      Field ''lock'' raw_spinlock_t,
      Field ''work_list'' struct_list_head,
      Field ''delayed_work_list'' struct_list_head,
      Field ''task'' (CPtr ''struct task_struct''),
      Field ''current_work'' (CPtr ''struct kthread_work'')]"

definition struct_pdev_archdata :: cty where
  "struct_pdev_archdata = CStruct ''pdev_archdata'' False
     []"

definition struct_platform_device :: cty where
  "struct_platform_device = CStruct ''platform_device'' False
     [Field ''name'' (CPtr ''const char''),
      Field ''id'' c_int,
      Field ''id_auto'' bool,
      Field ''dev'' struct_device,
      Field ''platform_dma_mask'' u64,
      Field ''dma_parms'' struct_device_dma_parameters,
      Field ''num_resources'' u32,
      Field ''resource'' (CPtr ''struct resource''),
      Field ''id_entry'' (CPtr ''const struct platform_device_id''),
      Field ''mfd_cell'' (CPtr ''struct mfd_cell''),
      Field ''archdata'' struct_pdev_archdata]"

section \<open>Sizes and alignments\<close>

lemma struct___drm_colorops_state_layout [layout_simps]:
  "sizeof struct___drm_colorops_state = 32 \<and> alignof struct___drm_colorops_state = 8 \<and> wf_cty struct___drm_colorops_state"
  by (simp add: struct___drm_colorops_state_def base_types layout_eval
      del: One_nat_def)

lemma struct___drm_connnectors_state_layout [layout_simps]:
  "sizeof struct___drm_connnectors_state = 40 \<and> alignof struct___drm_connnectors_state = 8 \<and> wf_cty struct___drm_connnectors_state"
  by (simp add: struct___drm_connnectors_state_def base_types layout_eval
      del: One_nat_def)

lemma struct___drm_crtcs_state_layout [layout_simps]:
  "sizeof struct___drm_crtcs_state = 56 \<and> alignof struct___drm_crtcs_state = 8 \<and> wf_cty struct___drm_crtcs_state"
  by (simp add: struct___drm_crtcs_state_def base_types layout_eval u64_def c__u64_def
      del: One_nat_def)

lemma struct___drm_planes_state_layout [layout_simps]:
  "sizeof struct___drm_planes_state = 32 \<and> alignof struct___drm_planes_state = 8 \<and> wf_cty struct___drm_planes_state"
  by (simp add: struct___drm_planes_state_def base_types layout_eval
      del: One_nat_def)

lemma struct___drm_private_objs_state_layout [layout_simps]:
  "sizeof struct___drm_private_objs_state = 32 \<and> alignof struct___drm_private_objs_state = 8 \<and> wf_cty struct___drm_private_objs_state"
  by (simp add: struct___drm_private_objs_state_def base_types layout_eval
      del: One_nat_def)

lemma enum_backlight_type_layout [layout_simps]:
  "sizeof enum_backlight_type = 4 \<and> alignof enum_backlight_type = 4 \<and> wf_cty enum_backlight_type"
  by (simp add: enum_backlight_type_def base_types layout_eval
      del: One_nat_def)

lemma enum_backlight_scale_layout [layout_simps]:
  "sizeof enum_backlight_scale = 4 \<and> alignof enum_backlight_scale = 4 \<and> wf_cty enum_backlight_scale"
  by (simp add: enum_backlight_scale_def base_types layout_eval
      del: One_nat_def)

lemma struct_backlight_properties_layout [layout_simps]:
  "sizeof struct_backlight_properties = 24 \<and> alignof struct_backlight_properties = 4 \<and> wf_cty struct_backlight_properties"
  by (simp add: struct_backlight_properties_def base_types layout_eval enum_backlight_type_layout
      enum_backlight_scale_layout
      del: One_nat_def)

lemma struct_backlight_device_layout [layout_simps]:
  "sizeof struct_backlight_device = 928 \<and> alignof struct_backlight_device = 8 \<and> wf_cty struct_backlight_device"
  by (simp add: struct_backlight_device_def base_types layout_eval struct_backlight_properties_layout struct_mutex_layout
      struct_list_head_layout struct_device_layout
      del: One_nat_def)

lemma struct_device_attribute_layout [layout_simps]:
  "sizeof struct_device_attribute = 32 \<and> alignof struct_device_attribute = 8 \<and> wf_cty struct_device_attribute"
  by (simp add: struct_device_attribute_def base_types layout_eval struct_attribute_layout
      del: One_nat_def)

lemma struct_dma_buf_attach_ops_layout [layout_simps]:
  "sizeof struct_dma_buf_attach_ops = 16 \<and> alignof struct_dma_buf_attach_ops = 8 \<and> wf_cty struct_dma_buf_attach_ops"
  by (simp add: struct_dma_buf_attach_ops_def base_types layout_eval bool_def
      del: One_nat_def)

lemma struct_drm_bridge_funcs_layout [layout_simps]:
  "sizeof struct_drm_bridge_funcs = 400 \<and> alignof struct_drm_bridge_funcs = 8 \<and> wf_cty struct_drm_bridge_funcs"
  by (simp add: struct_drm_bridge_funcs_def base_types layout_eval
      del: One_nat_def)

lemma struct_drm_bridge_timings_layout [layout_simps]:
  "sizeof struct_drm_bridge_timings = 16 \<and> alignof struct_drm_bridge_timings = 4 \<and> wf_cty struct_drm_bridge_timings"
  by (simp add: struct_drm_bridge_timings_def base_types layout_eval u32_def c__u32_def bool_def
      del: One_nat_def)

lemma struct_drm_client_buffer_layout [layout_simps]:
  "sizeof struct_drm_client_buffer = 40 \<and> alignof struct_drm_client_buffer = 8 \<and> wf_cty struct_drm_client_buffer"
  by (simp add: struct_drm_client_buffer_def base_types layout_eval struct_iosys_map_layout
      del: One_nat_def)

lemma struct_drm_client_funcs_layout [layout_simps]:
  "sizeof struct_drm_client_funcs = 56 \<and> alignof struct_drm_client_funcs = 8 \<and> wf_cty struct_drm_client_funcs"
  by (simp add: struct_drm_client_funcs_def base_types layout_eval
      del: One_nat_def)

lemma enum_drm_colorop_type_layout [layout_simps]:
  "sizeof enum_drm_colorop_type = 4 \<and> alignof enum_drm_colorop_type = 4 \<and> wf_cty enum_drm_colorop_type"
  by (simp add: enum_drm_colorop_type_def base_types layout_eval
      del: One_nat_def)

lemma enum_drm_colorop_lut1d_interpolation_type_layout [layout_simps]:
  "sizeof enum_drm_colorop_lut1d_interpolation_type = 4 \<and> alignof enum_drm_colorop_lut1d_interpolation_type = 4 \<and> wf_cty enum_drm_colorop_lut1d_interpolation_type"
  by (simp add: enum_drm_colorop_lut1d_interpolation_type_def base_types layout_eval
      del: One_nat_def)

lemma enum_drm_colorop_lut3d_interpolation_type_layout [layout_simps]:
  "sizeof enum_drm_colorop_lut3d_interpolation_type = 4 \<and> alignof enum_drm_colorop_lut3d_interpolation_type = 4 \<and> wf_cty enum_drm_colorop_lut3d_interpolation_type"
  by (simp add: enum_drm_colorop_lut3d_interpolation_type_def base_types layout_eval
      del: One_nat_def)

lemma struct_drm_colorop_layout [layout_simps]:
  "sizeof struct_drm_colorop = 1216 \<and> alignof struct_drm_colorop = 8 \<and> wf_cty struct_drm_colorop"
  by (simp add: struct_drm_colorop_def base_types layout_eval struct_list_head_layout struct_drm_mode_object_layout
      struct_drm_object_properties_layout enum_drm_colorop_type_layout uint32_t_def u32_def c__u32_def
      enum_drm_colorop_lut1d_interpolation_type_layout enum_drm_colorop_lut3d_interpolation_type_layout
      del: One_nat_def)

lemma struct_drm_connector_cec_funcs_layout [layout_simps]:
  "sizeof struct_drm_connector_cec_funcs = 16 \<and> alignof struct_drm_connector_cec_funcs = 8 \<and> wf_cty struct_drm_connector_cec_funcs"
  by (simp add: struct_drm_connector_cec_funcs_def base_types layout_eval
      del: One_nat_def)

lemma struct_drm_connector_funcs_layout [layout_simps]:
  "sizeof struct_drm_connector_funcs = 128 \<and> alignof struct_drm_connector_funcs = 8 \<and> wf_cty struct_drm_connector_funcs"
  by (simp add: struct_drm_connector_funcs_def base_types layout_eval
      del: One_nat_def)

lemma struct_drm_connector_hdmi_audio_funcs_layout [layout_simps]:
  "sizeof struct_drm_connector_hdmi_audio_funcs = 32 \<and> alignof struct_drm_connector_hdmi_audio_funcs = 8 \<and> wf_cty struct_drm_connector_hdmi_audio_funcs"
  by (simp add: struct_drm_connector_hdmi_audio_funcs_def base_types layout_eval
      del: One_nat_def)

lemma struct_drm_connector_infoframe_funcs_layout [layout_simps]:
  "sizeof struct_drm_connector_infoframe_funcs = 16 \<and> alignof struct_drm_connector_infoframe_funcs = 8 \<and> wf_cty struct_drm_connector_infoframe_funcs"
  by (simp add: struct_drm_connector_infoframe_funcs_def base_types layout_eval
      del: One_nat_def)

lemma struct_drm_connector_hdmi_funcs_layout [layout_simps]:
  "sizeof struct_drm_connector_hdmi_funcs = 96 \<and> alignof struct_drm_connector_hdmi_funcs = 8 \<and> wf_cty struct_drm_connector_hdmi_funcs"
  by (simp add: struct_drm_connector_hdmi_funcs_def base_types layout_eval struct_drm_connector_infoframe_funcs_layout
      del: One_nat_def)

lemma struct_drm_connector_helper_funcs_layout [layout_simps]:
  "sizeof struct_drm_connector_helper_funcs = 96 \<and> alignof struct_drm_connector_helper_funcs = 8 \<and> wf_cty struct_drm_connector_helper_funcs"
  by (simp add: struct_drm_connector_helper_funcs_def base_types layout_eval
      del: One_nat_def)

lemma struct_drm_crtc_commit_layout [layout_simps]:
  "sizeof struct_drm_crtc_commit = 144 \<and> alignof struct_drm_crtc_commit = 8 \<and> wf_cty struct_drm_crtc_commit"
  by (simp add: struct_drm_crtc_commit_def base_types layout_eval struct_kref_layout struct_completion_layout
      struct_list_head_layout bool_def
      del: One_nat_def)

lemma struct_drm_crtc_crc_entry_layout [layout_simps]:
  "sizeof struct_drm_crtc_crc_entry = 48 \<and> alignof struct_drm_crtc_crc_entry = 4 \<and> wf_cty struct_drm_crtc_crc_entry"
  by (simp add: struct_drm_crtc_crc_entry_def base_types layout_eval bool_def uint32_t_def u32_def c__u32_def
      del: One_nat_def)

lemma struct_drm_crtc_funcs_layout [layout_simps]:
  "sizeof struct_drm_crtc_funcs = 192 \<and> alignof struct_drm_crtc_funcs = 8 \<and> wf_cty struct_drm_crtc_funcs"
  by (simp add: struct_drm_crtc_funcs_def base_types layout_eval
      del: One_nat_def)

lemma struct_drm_crtc_helper_funcs_layout [layout_simps]:
  "sizeof struct_drm_crtc_helper_funcs = 128 \<and> alignof struct_drm_crtc_helper_funcs = 8 \<and> wf_cty struct_drm_crtc_helper_funcs"
  by (simp add: struct_drm_crtc_helper_funcs_def base_types layout_eval
      del: One_nat_def)

lemma struct_drm_edid_layout [layout_simps]:
  "sizeof struct_drm_edid = 16 \<and> alignof struct_drm_edid = 8 \<and> wf_cty struct_drm_edid"
  by (simp add: struct_drm_edid_def base_types layout_eval size_t_def c__kernel_size_t_def c__kernel_ulong_t_def
      del: One_nat_def)

lemma struct_drm_encoder_funcs_layout [layout_simps]:
  "sizeof struct_drm_encoder_funcs = 40 \<and> alignof struct_drm_encoder_funcs = 8 \<and> wf_cty struct_drm_encoder_funcs"
  by (simp add: struct_drm_encoder_funcs_def base_types layout_eval
      del: One_nat_def)

lemma struct_drm_encoder_helper_funcs_layout [layout_simps]:
  "sizeof struct_drm_encoder_helper_funcs = 104 \<and> alignof struct_drm_encoder_helper_funcs = 8 \<and> wf_cty struct_drm_encoder_helper_funcs"
  by (simp add: struct_drm_encoder_helper_funcs_def base_types layout_eval
      del: One_nat_def)

lemma struct_drm_fb_helper_funcs_layout [layout_simps]:
  "sizeof struct_drm_fb_helper_funcs = 24 \<and> alignof struct_drm_fb_helper_funcs = 8 \<and> wf_cty struct_drm_fb_helper_funcs"
  by (simp add: struct_drm_fb_helper_funcs_def base_types layout_eval
      del: One_nat_def)

lemma struct_drm_format_info_layout [layout_simps]:
  "sizeof struct_drm_format_info = 24 \<and> alignof struct_drm_format_info = 4 \<and> wf_cty struct_drm_format_info"
  by (simp add: struct_drm_format_info_def base_types layout_eval u32_def c__u32_def u8_def c__u8_def bool_def
      del: One_nat_def)

lemma struct_drm_framebuffer_funcs_layout [layout_simps]:
  "sizeof struct_drm_framebuffer_funcs = 24 \<and> alignof struct_drm_framebuffer_funcs = 8 \<and> wf_cty struct_drm_framebuffer_funcs"
  by (simp add: struct_drm_framebuffer_funcs_def base_types layout_eval
      del: One_nat_def)

lemma struct_drm_gpuvm_bo_layout [layout_simps]:
  "sizeof struct_drm_gpuvm_bo = 96 \<and> alignof struct_drm_gpuvm_bo = 8 \<and> wf_cty struct_drm_gpuvm_bo"
  by (simp add: struct_drm_gpuvm_bo_def base_types layout_eval bool_def struct_kref_layout struct_list_head_layout
      struct_llist_node_layout
      del: One_nat_def)

lemma struct_drm_gpuvm_ops_layout [layout_simps]:
  "sizeof struct_drm_gpuvm_ops = 72 \<and> alignof struct_drm_gpuvm_ops = 8 \<and> wf_cty struct_drm_gpuvm_ops"
  by (simp add: struct_drm_gpuvm_ops_def base_types layout_eval
      del: One_nat_def)

lemma struct_drm_mode_set_layout [layout_simps]:
  "sizeof struct_drm_mode_set = 48 \<and> alignof struct_drm_mode_set = 8 \<and> wf_cty struct_drm_mode_set"
  by (simp add: struct_drm_mode_set_def base_types layout_eval uint32_t_def u32_def c__u32_def size_t_def
      c__kernel_size_t_def c__kernel_ulong_t_def
      del: One_nat_def)

lemma struct_drm_panel_funcs_layout [layout_simps]:
  "sizeof struct_drm_panel_funcs = 64 \<and> alignof struct_drm_panel_funcs = 8 \<and> wf_cty struct_drm_panel_funcs"
  by (simp add: struct_drm_panel_funcs_def base_types layout_eval
      del: One_nat_def)

lemma struct_drm_plane_funcs_layout [layout_simps]:
  "sizeof struct_drm_plane_funcs = 112 \<and> alignof struct_drm_plane_funcs = 8 \<and> wf_cty struct_drm_plane_funcs"
  by (simp add: struct_drm_plane_funcs_def base_types layout_eval
      del: One_nat_def)

lemma struct_drm_plane_helper_funcs_layout [layout_simps]:
  "sizeof struct_drm_plane_helper_funcs = 96 \<and> alignof struct_drm_plane_helper_funcs = 8 \<and> wf_cty struct_drm_plane_helper_funcs"
  by (simp add: struct_drm_plane_helper_funcs_def base_types layout_eval
      del: One_nat_def)

lemma struct_drm_privacy_screen_layout [layout_simps]:
  "sizeof struct_drm_privacy_screen = 928 \<and> alignof struct_drm_privacy_screen = 8 \<and> wf_cty struct_drm_privacy_screen"
  by (simp add: struct_drm_privacy_screen_def base_types layout_eval struct_device_layout struct_mutex_layout
      struct_list_head_layout struct_blocking_notifier_head_layout enum_drm_privacy_screen_status_layout
      del: One_nat_def)

lemma struct_drm_private_state_layout [layout_simps]:
  "sizeof struct_drm_private_state = 16 \<and> alignof struct_drm_private_state = 8 \<and> wf_cty struct_drm_private_state"
  by (simp add: struct_drm_private_state_def base_types layout_eval
      del: One_nat_def)

lemma struct_drm_private_state_funcs_layout [layout_simps]:
  "sizeof struct_drm_private_state_funcs = 24 \<and> alignof struct_drm_private_state_funcs = 8 \<and> wf_cty struct_drm_private_state_funcs"
  by (simp add: struct_drm_private_state_funcs_def base_types layout_eval
      del: One_nat_def)

lemma struct_drm_property_blob_layout [layout_simps]:
  "sizeof struct_drm_property_blob = 88 \<and> alignof struct_drm_property_blob = 8 \<and> wf_cty struct_drm_property_blob"
  by (simp add: struct_drm_property_blob_def base_types layout_eval struct_drm_mode_object_layout struct_list_head_layout
      size_t_def c__kernel_size_t_def c__kernel_ulong_t_def
      del: One_nat_def)

lemma struct_ewma_psr_time_layout [layout_simps]:
  "sizeof struct_ewma_psr_time = 8 \<and> alignof struct_ewma_psr_time = 8 \<and> wf_cty struct_ewma_psr_time"
  by (simp add: struct_ewma_psr_time_def base_types layout_eval
      del: One_nat_def)

lemma struct_drm_self_refresh_data_layout [layout_simps]:
  "sizeof struct_drm_self_refresh_data = 144 \<and> alignof struct_drm_self_refresh_data = 8 \<and> wf_cty struct_drm_self_refresh_data"
  by (simp add: struct_drm_self_refresh_data_def base_types layout_eval struct_delayed_work_layout struct_mutex_layout
      struct_ewma_psr_time_layout
      del: One_nat_def)

lemma struct_drm_tile_group_layout [layout_simps]:
  "sizeof struct_drm_tile_group = 32 \<and> alignof struct_drm_tile_group = 8 \<and> wf_cty struct_drm_tile_group"
  by (simp add: struct_drm_tile_group_def base_types layout_eval struct_kref_layout u8_def c__u8_def
      del: One_nat_def)

lemma struct_drm_writeback_job_layout [layout_simps]:
  "sizeof struct_drm_writeback_job = 88 \<and> alignof struct_drm_writeback_job = 8 \<and> wf_cty struct_drm_writeback_job"
  by (simp add: struct_drm_writeback_job_def base_types layout_eval bool_def struct_work_struct_layout
      struct_list_head_layout
      del: One_nat_def)

lemma struct_fb_bitfield_layout [layout_simps]:
  "sizeof struct_fb_bitfield = 12 \<and> alignof struct_fb_bitfield = 4 \<and> wf_cty struct_fb_bitfield"
  by (simp add: struct_fb_bitfield_def base_types layout_eval c__u32_def
      del: One_nat_def)

lemma struct_fb_var_screeninfo_layout [layout_simps]:
  "sizeof struct_fb_var_screeninfo = 160 \<and> alignof struct_fb_var_screeninfo = 4 \<and> wf_cty struct_fb_var_screeninfo"
  by (simp add: struct_fb_var_screeninfo_def base_types layout_eval c__u32_def struct_fb_bitfield_layout
      del: One_nat_def)

lemma struct_fb_fix_screeninfo_layout [layout_simps]:
  "sizeof struct_fb_fix_screeninfo = 80 \<and> alignof struct_fb_fix_screeninfo = 8 \<and> wf_cty struct_fb_fix_screeninfo"
  by (simp add: struct_fb_fix_screeninfo_def base_types layout_eval c__u32_def c__u16_def
      del: One_nat_def)

lemma struct_fb_chroma_layout [layout_simps]:
  "sizeof struct_fb_chroma = 32 \<and> alignof struct_fb_chroma = 4 \<and> wf_cty struct_fb_chroma"
  by (simp add: struct_fb_chroma_def base_types layout_eval c__u32_def
      del: One_nat_def)

lemma struct_fb_monspecs_layout [layout_simps]:
  "sizeof struct_fb_monspecs = 144 \<and> alignof struct_fb_monspecs = 8 \<and> wf_cty struct_fb_monspecs"
  by (simp add: struct_fb_monspecs_def base_types layout_eval struct_fb_chroma_layout c__u8_def c__u32_def c__u16_def
      del: One_nat_def)

lemma struct_fb_pixmap_layout [layout_simps]:
  "sizeof struct_fb_pixmap = 72 \<and> alignof struct_fb_pixmap = 8 \<and> wf_cty struct_fb_pixmap"
  by (simp add: struct_fb_pixmap_def base_types layout_eval u32_def c__u32_def
      del: One_nat_def)

lemma struct_fb_cmap_layout [layout_simps]:
  "sizeof struct_fb_cmap = 40 \<and> alignof struct_fb_cmap = 8 \<and> wf_cty struct_fb_cmap"
  by (simp add: struct_fb_cmap_def base_types layout_eval c__u32_def
      del: One_nat_def)

lemma struct_fb_info_layout [layout_simps]:
  "sizeof struct_fb_info = 1064 \<and> alignof struct_fb_info = 8 \<and> wf_cty struct_fb_info"
  by (simp add: struct_fb_info_def base_types layout_eval refcount_t_def struct_refcount_struct_layout
      struct_mutex_layout struct_fb_var_screeninfo_layout struct_fb_fix_screeninfo_layout
      struct_fb_monspecs_layout struct_fb_pixmap_layout struct_fb_cmap_layout struct_list_head_layout
      u8_def c__u8_def struct_delayed_work_layout u32_def c__u32_def bool_def
      del: One_nat_def)

lemma struct_i2c_adapter_layout [layout_simps]:
  "sizeof struct_i2c_adapter = 1120 \<and> alignof struct_i2c_adapter = 8 \<and> wf_cty struct_i2c_adapter"
  by (simp add: struct_i2c_adapter_def base_types layout_eval struct_rt_mutex_layout struct_device_layout
      struct_completion_layout struct_mutex_layout struct_list_head_layout
      del: One_nat_def)

lemma struct_kthread_worker_layout [layout_simps]:
  "sizeof struct_kthread_worker = 56 \<and> alignof struct_kthread_worker = 8 \<and> wf_cty struct_kthread_worker"
  by (simp add: struct_kthread_worker_def base_types layout_eval raw_spinlock_t_def struct_raw_spinlock_layout
      struct_list_head_layout
      del: One_nat_def)

lemma struct_pdev_archdata_layout [layout_simps]:
  "sizeof struct_pdev_archdata = 0 \<and> alignof struct_pdev_archdata = 1 \<and> wf_cty struct_pdev_archdata"
  by (simp add: struct_pdev_archdata_def base_types layout_eval
      del: One_nat_def)

lemma struct_platform_device_layout [layout_simps]:
  "sizeof struct_platform_device = 880 \<and> alignof struct_platform_device = 8 \<and> wf_cty struct_platform_device"
  by (simp add: struct_platform_device_def base_types layout_eval bool_def struct_device_layout u64_def c__u64_def
      struct_device_dma_parameters_layout u32_def c__u32_def struct_pdev_archdata_layout
      del: One_nat_def)

end
