(* ===== verification/KernelVerifierRefs.thy ===== *)
theory KernelVerifierRefs
  imports KernelDevRefs
begin

text \<open>
  Types of \<^verbatim>\<open>bpf/vmlinux.h\<close> that the objects of \<open>KernelVerifier\<close> (the verifier and the tracer) point to, one
  dereference away, with every type they hold by value.
\<close>

section \<open>Types\<close>

definition struct_bpf_cgroup_storage_map :: cty where
  "struct_bpf_cgroup_storage_map = CStruct ''bpf_cgroup_storage_map'' False
     [Field ''map'' struct_bpf_map,
      Field ''lock'' spinlock_t,
      Field ''root'' struct_rb_root,
      Field ''list'' struct_list_head]"

definition struct_bpf_iarray :: cty where
  "struct_bpf_iarray = CStruct ''bpf_iarray'' False
     [Field ''cnt'' c_int,
      Field ''items'' (CArr 0 u32)]"

definition bpf_iter_init_seq_priv_t :: cty where [layout_simps]:
  "bpf_iter_init_seq_priv_t = CPtr ''int (void *, struct bpf_iter_aux_info *)''"

definition bpf_iter_fini_seq_priv_t :: cty where [layout_simps]:
  "bpf_iter_fini_seq_priv_t = CPtr ''void (void *)''"

definition struct_bpf_iter_seq_info :: cty where
  "struct_bpf_iter_seq_info = CStruct ''bpf_iter_seq_info'' False
     [Field ''seq_ops'' (CPtr ''const struct seq_operations''),
      Field ''init_seq_private'' bpf_iter_init_seq_priv_t,
      Field ''fini_seq_private'' bpf_iter_fini_seq_priv_t,
      Field ''seq_priv_size'' u32]"

definition struct_bpf_jmp_history_entry :: cty where
  "struct_bpf_jmp_history_entry = CStruct ''bpf_jmp_history_entry'' False
     [Field ''idx'' u32,
      BitField ''prev_idx'' u32 20,
      BitField ''flags'' u32 12,
      Field ''linked_regs'' u64]"

definition struct_live_stack_query :: cty where
  "struct_live_stack_query = CStruct ''live_stack_query'' False
     [Field ''instances'' (CArr 8 (CPtr ''struct func_instance'')),
      Field ''curframe'' u32,
      Field ''insn_idx'' u32]"

definition struct_bpf_liveness :: cty where
  "struct_bpf_liveness = CStruct ''bpf_liveness'' False
     [Field ''func_instances'' (CArr 256 struct_hlist_head),
      Field ''live_stack_query'' struct_live_stack_query,
      Field ''cur_instance'' (CPtr ''struct func_instance''),
      Field ''write_masks_acc'' (CArr 8 u64),
      Field ''write_insn_idx'' u32]"

definition struct_bpf_local_storage_data :: cty where
  "struct_bpf_local_storage_data = CStruct ''bpf_local_storage_data'' False
     [Field ''smap'' (CPtr ''struct bpf_local_storage_map''),
      Field ''data'' (CArr 0 u8)]"

definition struct_bpf_prog_offload_ops :: cty where
  "struct_bpf_prog_offload_ops = CStruct ''bpf_prog_offload_ops'' False
     [Field ''insn_hook'' (CPtr ''int (struct bpf_verifier_env *, int, int)''),
      Field ''finalize'' (CPtr ''int (struct bpf_verifier_env *)''),
      Field ''replace_insn'' (CPtr ''int (struct bpf_verifier_env *, u32, struct bpf_insn *)''),
      Field ''remove_insns'' (CPtr ''int (struct bpf_verifier_env *, u32, u32)''),
      Field ''prepare'' (CPtr ''int (struct bpf_prog *)''),
      Field ''translate'' (CPtr ''int (struct bpf_prog *)''),
      Field ''destroy'' (CPtr ''void (struct bpf_prog *)'')]"

definition struct_bpf_scc_visit :: cty where
  "struct_bpf_scc_visit = CStruct ''bpf_scc_visit'' False
     [Field ''callchain'' struct_bpf_scc_callchain,
      Field ''entry_state'' (CPtr ''struct bpf_verifier_state''),
      Field ''backedges'' (CPtr ''struct bpf_scc_backedge''),
      Field ''num_backedges'' u32]"

definition struct_bpf_scc_info :: cty where
  "struct_bpf_scc_info = CStruct ''bpf_scc_info'' False
     [Field ''num_visits'' u32,
      Field ''visits'' (CArr 0 struct_bpf_scc_visit)]"

definition struct_bpf_verifier_state :: cty where
  "struct_bpf_verifier_state = CStruct ''bpf_verifier_state'' False
     [Field ''frame'' (CArr 8 (CPtr ''struct bpf_func_state'')),
      Field ''parent'' (CPtr ''struct bpf_verifier_state''),
      Field ''refs'' (CPtr ''struct bpf_reference_state''),
      Field ''branches'' u32,
      Field ''insn_idx'' u32,
      Field ''curframe'' u32,
      Field ''acquired_refs'' u32,
      Field ''active_locks'' u32,
      Field ''active_preempt_locks'' u32,
      Field ''active_irq_id'' u32,
      Field ''active_lock_id'' u32,
      Field ''active_lock_ptr'' (CPtr ''void''),
      Field ''active_rcu_locks'' u32,
      Field ''speculative'' bool,
      Field ''in_sleepable'' bool,
      Field ''cleaned'' bool,
      Field ''first_insn_idx'' u32,
      Field ''last_insn_idx'' u32,
      Field ''equal_state'' (CPtr ''struct bpf_verifier_state''),
      Field ''jmp_history'' (CPtr ''struct bpf_jmp_history_entry''),
      Field ''jmp_history_cnt'' u32,
      Field ''dfs_depth'' u32,
      Field ''callback_unroll_depth'' u32,
      Field ''may_goto_depth'' u32]"

definition struct_bpf_verifier_stack_elem :: cty where
  "struct_bpf_verifier_stack_elem = CStruct ''bpf_verifier_stack_elem'' False
     [Field ''st'' struct_bpf_verifier_state,
      Field ''insn_idx'' c_int,
      Field ''prev_insn_idx'' c_int,
      Field ''next'' (CPtr ''struct bpf_verifier_stack_elem''),
      Field ''log_pos'' u32]"

definition struct_btf_id_dtor_kfunc :: cty where
  "struct_btf_id_dtor_kfunc = CStruct ''btf_id_dtor_kfunc'' False
     [Field ''btf_id'' u32,
      Field ''kfunc_btf_id'' u32]"

definition struct_btf_id_dtor_kfunc_tab :: cty where
  "struct_btf_id_dtor_kfunc_tab = CStruct ''btf_id_dtor_kfunc_tab'' False
     [Field ''cnt'' u32,
      Field ''dtors'' (CArr 0 struct_btf_id_dtor_kfunc)]"

definition btf_kfunc_filter_t :: cty where [layout_simps]:
  "btf_kfunc_filter_t = CPtr ''int (const struct bpf_prog *, u32)''"

definition struct_btf_kfunc_hook_filter :: cty where
  "struct_btf_kfunc_hook_filter = CStruct ''btf_kfunc_hook_filter'' False
     [Field ''filters'' (CArr 16 btf_kfunc_filter_t),
      Field ''nr_filters'' u32]"

definition struct_btf_kfunc_set_tab :: cty where
  "struct_btf_kfunc_set_tab = CStruct ''btf_kfunc_set_tab'' False
     [Field ''sets'' (CArr 14 (CPtr ''struct btf_id_set8'')),
      Field ''hook_filters'' (CArr 14 struct_btf_kfunc_hook_filter)]"

definition struct_btf_struct_meta :: cty where
  "struct_btf_struct_meta = CStruct ''btf_struct_meta'' False
     [Field ''btf_id'' u32,
      Field ''record'' (CPtr ''struct btf_record'')]"

definition struct_btf_struct_metas :: cty where
  "struct_btf_struct_metas = CStruct ''btf_struct_metas'' False
     [Field ''cnt'' u32,
      Field ''types'' (CArr 0 struct_btf_struct_meta)]"

definition struct_bpf_struct_ops_desc :: cty where
  "struct_bpf_struct_ops_desc = CStruct ''bpf_struct_ops_desc'' False
     [Field ''st_ops'' (CPtr ''struct bpf_struct_ops''),
      Field ''type'' (CPtr ''const struct btf_type''),
      Field ''value_type'' (CPtr ''const struct btf_type''),
      Field ''type_id'' u32,
      Field ''value_id'' u32,
      Field ''arg_info'' (CPtr ''struct bpf_struct_ops_arg_info'')]"

definition struct_btf_struct_ops_tab :: cty where
  "struct_btf_struct_ops_tab = CStruct ''btf_struct_ops_tab'' False
     [Field ''cnt'' u32,
      Field ''capacity'' u32,
      Field ''ops'' (CArr 0 struct_bpf_struct_ops_desc)]"

definition struct_event_filter :: cty where
  "struct_event_filter = CStruct ''event_filter'' False
     [Field ''prog'' (CPtr ''struct prog_entry''),
      Field ''filter_string'' (CPtr ''char'')]"

definition struct_fasync_struct :: cty where
  "struct_fasync_struct = CStruct ''fasync_struct'' False
     [Field ''fa_lock'' rwlock_t,
      Field ''magic'' c_int,
      Field ''fa_fd'' c_int,
      Field ''fa_next'' (CPtr ''struct fasync_struct''),
      Field ''fa_file'' (CPtr ''struct file''),
      Field ''fa_rcu'' struct_callback_head]"

definition struct_ftrace_hash :: cty where
  "struct_ftrace_hash = CStruct ''ftrace_hash'' False
     [Field ''size_bits'' long_unsigned_int,
      Field ''buckets'' (CPtr ''struct hlist_head''),
      Field ''count'' long_unsigned_int,
      Field ''flags'' long_unsigned_int,
      Field ''rcu'' struct_callback_head]"

definition struct_perf_addr_filter_range :: cty where
  "struct_perf_addr_filter_range = CStruct ''perf_addr_filter_range'' False
     [Field ''start'' long_unsigned_int,
      Field ''size'' long_unsigned_int]"

definition struct_perf_buffer :: cty where
  "struct_perf_buffer = CStruct ''perf_buffer'' False
     [Field ''refcount'' refcount_t,
      Field ''callback_head'' struct_callback_head,
      Field ''nr_pages'' c_int,
      Field ''overwrite'' c_int,
      Field ''paused'' c_int,
      Field ''poll'' atomic_t,
      Field ''head'' local_t,
      Field ''nest'' unsigned_int,
      Field ''events'' local_t,
      Field ''wakeup'' local_t,
      Field ''lost'' local_t,
      Field ''watermark'' c_long,
      Field ''aux_watermark'' c_long,
      Field ''event_lock'' spinlock_t,
      Field ''event_list'' struct_list_head,
      Field ''mmap_count'' refcount_t,
      Field ''mmap_locked'' long_unsigned_int,
      Field ''mmap_user'' (CPtr ''struct user_struct''),
      Field ''aux_mutex'' struct_mutex,
      Field ''aux_head'' c_long,
      Field ''aux_nest'' unsigned_int,
      Field ''aux_wakeup'' c_long,
      Field ''aux_pgoff'' long_unsigned_int,
      Field ''aux_nr_pages'' c_int,
      Field ''aux_overwrite'' c_int,
      Field ''aux_mmap_count'' refcount_t,
      Field ''aux_mmap_locked'' long_unsigned_int,
      Field ''free_aux'' (CPtr ''void (void *)''),
      Field ''aux_refcount'' refcount_t,
      Field ''aux_in_sampling'' c_int,
      Field ''aux_in_pause_resume'' c_int,
      Field ''aux_pages'' (CPtr ''void *''),
      Field ''aux_priv'' (CPtr ''void''),
      Field ''user_page'' (CPtr ''struct perf_event_mmap_page''),
      Field ''data_pages'' (CArr 0 (CPtr ''void''))]"

definition struct_perf_cgroup :: cty where
  "struct_perf_cgroup = CStruct ''perf_cgroup'' False
     [Field ''css'' struct_cgroup_subsys_state,
      Field ''info'' (CPtr ''struct perf_cgroup_info'')]"

definition struct_perf_event_pmu_context :: cty where
  "struct_perf_event_pmu_context = CStruct ''perf_event_pmu_context'' False
     [Field ''pmu'' (CPtr ''struct pmu''),
      Field ''ctx'' (CPtr ''struct perf_event_context''),
      Field ''pmu_ctx_entry'' struct_list_head,
      Field ''pinned_active'' struct_list_head,
      Field ''flexible_active'' struct_list_head,
      BitField ''embedded'' unsigned_int 1,
      Field ''nr_events'' unsigned_int,
      Field ''nr_cgroups'' unsigned_int,
      Field ''nr_freq'' unsigned_int,
      Field ''refcount'' atomic_t,
      Field ''callback_head'' struct_callback_head,
      Field ''rotate_necessary'' c_int]"

definition struct_pmu :: cty where
  "struct_pmu = CStruct ''pmu'' False
     [Field ''entry'' struct_list_head,
      Field ''events_lock'' spinlock_t,
      Field ''events'' struct_list_head,
      Field ''module'' (CPtr ''struct module''),
      Field ''dev'' (CPtr ''struct device''),
      Field ''parent'' (CPtr ''struct device''),
      Field ''attr_groups'' (CPtr ''const struct attribute_group *''),
      Field ''attr_update'' (CPtr ''const struct attribute_group *''),
      Field ''name'' (CPtr ''const char''),
      Field ''type'' c_int,
      Field ''capabilities'' c_int,
      Field ''scope'' unsigned_int,
      Field ''cpu_pmu_context'' (CPtr ''struct perf_cpu_pmu_context *''),
      Field ''exclusive_cnt'' atomic_t,
      Field ''task_ctx_nr'' c_int,
      Field ''hrtimer_interval_ms'' c_int,
      Field ''nr_addr_filters'' unsigned_int,
      Field ''pmu_enable'' (CPtr ''void (struct pmu *)''),
      Field ''pmu_disable'' (CPtr ''void (struct pmu *)''),
      Field ''event_init'' (CPtr ''int (struct perf_event *)''),
      Field ''event_mapped'' (CPtr ''void (struct perf_event *, struct mm_struct *)''),
      Field ''event_unmapped'' (CPtr ''void (struct perf_event *, struct mm_struct *)''),
      Field ''add'' (CPtr ''int (struct perf_event *, int)''),
      Field ''del'' (CPtr ''void (struct perf_event *, int)''),
      Field ''start'' (CPtr ''void (struct perf_event *, int)''),
      Field ''stop'' (CPtr ''void (struct perf_event *, int)''),
      Field ''read'' (CPtr ''void (struct perf_event *)''),
      Field ''start_txn'' (CPtr ''void (struct pmu *, unsigned int)''),
      Field ''commit_txn'' (CPtr ''int (struct pmu *)''),
      Field ''cancel_txn'' (CPtr ''void (struct pmu *)''),
      Field ''event_idx'' (CPtr ''int (struct perf_event *)''),
      Field ''sched_task'' (CPtr ''void (struct perf_event_pmu_context *, struct task_struct *, bool)''),
      Field ''task_ctx_cache'' (CPtr ''struct kmem_cache''),
      Field ''setup_aux'' (CPtr ''void * (struct perf_event *, void **, int, bool)''),
      Field ''free_aux'' (CPtr ''void (void *)''),
      Field ''snapshot_aux'' (CPtr ''long int (struct perf_event *, struct perf_output_handle *, long unsigned int)''),
      Field ''addr_filters_validate'' (CPtr ''int (struct list_head *)''),
      Field ''addr_filters_sync'' (CPtr ''void (struct perf_event *)''),
      Field ''aux_output_match'' (CPtr ''int (struct perf_event *)''),
      Field ''filter'' (CPtr ''bool (struct pmu *, int)''),
      Field ''check_period'' (CPtr ''int (struct perf_event *, u64)'')]"

definition struct_static_call_key :: cty where
  "struct_static_call_key = CStruct ''static_call_key'' False
     [Field ''func'' (CPtr ''void''),
      Field [] (CUnion [] False
        [Field ''type'' long_unsigned_int,
         Field ''mods'' (CPtr ''struct static_call_mod''),
         Field ''sites'' (CPtr ''struct static_call_site'')])]"

definition struct_trace_event_class :: cty where
  "struct_trace_event_class = CStruct ''trace_event_class'' False
     [Field ''system'' (CPtr ''const char''),
      Field ''probe'' (CPtr ''void''),
      Field ''perf_probe'' (CPtr ''void''),
      Field ''reg'' (CPtr ''int (struct trace_event_call *, enum trace_reg, void *)''),
      Field ''fields_array'' (CPtr ''struct trace_event_fields''),
      Field ''get_fields'' (CPtr ''struct list_head * (struct trace_event_call *)''),
      Field ''fields'' struct_list_head,
      Field ''raw_init'' (CPtr ''int (struct trace_event_call *)'')]"

definition trace_print_func :: cty where [layout_simps]:
  "trace_print_func = CPtr ''enum print_line_t (struct trace_iterator *, int, struct trace_event *)''"

definition struct_trace_event_functions :: cty where
  "struct_trace_event_functions = CStruct ''trace_event_functions'' False
     [Field ''trace'' trace_print_func,
      Field ''raw'' trace_print_func,
      Field ''hex'' trace_print_func,
      Field ''binary'' trace_print_func]"

definition struct_tracepoint :: cty where
  "struct_tracepoint = CStruct ''tracepoint'' False
     [Field ''name'' (CPtr ''const char''),
      Field ''key'' struct_static_key_false,
      Field ''static_call_key'' (CPtr ''struct static_call_key''),
      Field ''static_call_tramp'' (CPtr ''void''),
      Field ''iterator'' (CPtr ''void''),
      Field ''probestub'' (CPtr ''void''),
      Field ''funcs'' (CPtr ''struct tracepoint_func''),
      Field ''ext'' (CPtr ''struct tracepoint_ext'')]"

section \<open>Sizes and alignments\<close>

lemma struct_bpf_cgroup_storage_map_layout [layout_simps]:
  "sizeof struct_bpf_cgroup_storage_map = 320 \<and> alignof struct_bpf_cgroup_storage_map = 8 \<and> wf_cty struct_bpf_cgroup_storage_map"
  by (simp add: struct_bpf_cgroup_storage_map_def base_types layout_eval struct_bpf_map_layout spinlock_t_def
      struct_spinlock_layout struct_rb_root_layout struct_list_head_layout
      del: One_nat_def)

lemma struct_bpf_iarray_layout [layout_simps]:
  "sizeof struct_bpf_iarray = 4 \<and> alignof struct_bpf_iarray = 4 \<and> wf_cty struct_bpf_iarray"
  by (simp add: struct_bpf_iarray_def base_types layout_eval u32_def c__u32_def
      del: One_nat_def)

lemma struct_bpf_iter_seq_info_layout [layout_simps]:
  "sizeof struct_bpf_iter_seq_info = 32 \<and> alignof struct_bpf_iter_seq_info = 8 \<and> wf_cty struct_bpf_iter_seq_info"
  by (simp add: struct_bpf_iter_seq_info_def base_types layout_eval bpf_iter_init_seq_priv_t_def
      bpf_iter_fini_seq_priv_t_def u32_def c__u32_def
      del: One_nat_def)

lemma struct_bpf_jmp_history_entry_layout [layout_simps]:
  "sizeof struct_bpf_jmp_history_entry = 16 \<and> alignof struct_bpf_jmp_history_entry = 8 \<and> wf_cty struct_bpf_jmp_history_entry"
  by (simp add: struct_bpf_jmp_history_entry_def base_types layout_eval u32_def c__u32_def u64_def c__u64_def
      del: One_nat_def)

lemma struct_live_stack_query_layout [layout_simps]:
  "sizeof struct_live_stack_query = 72 \<and> alignof struct_live_stack_query = 8 \<and> wf_cty struct_live_stack_query"
  by (simp add: struct_live_stack_query_def base_types layout_eval u32_def c__u32_def
      del: One_nat_def)

lemma struct_bpf_liveness_layout [layout_simps]:
  "sizeof struct_bpf_liveness = 2200 \<and> alignof struct_bpf_liveness = 8 \<and> wf_cty struct_bpf_liveness"
  by (simp add: struct_bpf_liveness_def base_types layout_eval struct_hlist_head_layout struct_live_stack_query_layout
      u64_def c__u64_def u32_def c__u32_def
      del: One_nat_def)

lemma struct_bpf_local_storage_data_layout [layout_simps]:
  "sizeof struct_bpf_local_storage_data = 8 \<and> alignof struct_bpf_local_storage_data = 8 \<and> wf_cty struct_bpf_local_storage_data"
  by (simp add: struct_bpf_local_storage_data_def base_types layout_eval u8_def c__u8_def
      del: One_nat_def)

lemma struct_bpf_prog_offload_ops_layout [layout_simps]:
  "sizeof struct_bpf_prog_offload_ops = 56 \<and> alignof struct_bpf_prog_offload_ops = 8 \<and> wf_cty struct_bpf_prog_offload_ops"
  by (simp add: struct_bpf_prog_offload_ops_def base_types layout_eval
      del: One_nat_def)

lemma struct_bpf_scc_visit_layout [layout_simps]:
  "sizeof struct_bpf_scc_visit = 56 \<and> alignof struct_bpf_scc_visit = 8 \<and> wf_cty struct_bpf_scc_visit"
  by (simp add: struct_bpf_scc_visit_def base_types layout_eval struct_bpf_scc_callchain_layout u32_def c__u32_def
      del: One_nat_def)

lemma struct_bpf_scc_info_layout [layout_simps]:
  "sizeof struct_bpf_scc_info = 8 \<and> alignof struct_bpf_scc_info = 8 \<and> wf_cty struct_bpf_scc_info"
  by (simp add: struct_bpf_scc_info_def base_types layout_eval u32_def c__u32_def struct_bpf_scc_visit_layout
      del: One_nat_def)

lemma struct_bpf_verifier_state_layout [layout_simps]:
  "sizeof struct_bpf_verifier_state = 168 \<and> alignof struct_bpf_verifier_state = 8 \<and> wf_cty struct_bpf_verifier_state"
  by (simp add: struct_bpf_verifier_state_def base_types layout_eval u32_def c__u32_def bool_def
      del: One_nat_def)

lemma struct_bpf_verifier_stack_elem_layout [layout_simps]:
  "sizeof struct_bpf_verifier_stack_elem = 192 \<and> alignof struct_bpf_verifier_stack_elem = 8 \<and> wf_cty struct_bpf_verifier_stack_elem"
  by (simp add: struct_bpf_verifier_stack_elem_def base_types layout_eval struct_bpf_verifier_state_layout u32_def
      c__u32_def
      del: One_nat_def)

lemma struct_btf_id_dtor_kfunc_layout [layout_simps]:
  "sizeof struct_btf_id_dtor_kfunc = 8 \<and> alignof struct_btf_id_dtor_kfunc = 4 \<and> wf_cty struct_btf_id_dtor_kfunc"
  by (simp add: struct_btf_id_dtor_kfunc_def base_types layout_eval u32_def c__u32_def
      del: One_nat_def)

lemma struct_btf_id_dtor_kfunc_tab_layout [layout_simps]:
  "sizeof struct_btf_id_dtor_kfunc_tab = 4 \<and> alignof struct_btf_id_dtor_kfunc_tab = 4 \<and> wf_cty struct_btf_id_dtor_kfunc_tab"
  by (simp add: struct_btf_id_dtor_kfunc_tab_def base_types layout_eval u32_def c__u32_def
      struct_btf_id_dtor_kfunc_layout
      del: One_nat_def)

lemma struct_btf_kfunc_hook_filter_layout [layout_simps]:
  "sizeof struct_btf_kfunc_hook_filter = 136 \<and> alignof struct_btf_kfunc_hook_filter = 8 \<and> wf_cty struct_btf_kfunc_hook_filter"
  by (simp add: struct_btf_kfunc_hook_filter_def base_types layout_eval btf_kfunc_filter_t_def u32_def c__u32_def
      del: One_nat_def)

lemma struct_btf_kfunc_set_tab_layout [layout_simps]:
  "sizeof struct_btf_kfunc_set_tab = 2016 \<and> alignof struct_btf_kfunc_set_tab = 8 \<and> wf_cty struct_btf_kfunc_set_tab"
  by (simp add: struct_btf_kfunc_set_tab_def base_types layout_eval struct_btf_kfunc_hook_filter_layout
      del: One_nat_def)

lemma struct_btf_struct_meta_layout [layout_simps]:
  "sizeof struct_btf_struct_meta = 16 \<and> alignof struct_btf_struct_meta = 8 \<and> wf_cty struct_btf_struct_meta"
  by (simp add: struct_btf_struct_meta_def base_types layout_eval u32_def c__u32_def
      del: One_nat_def)

lemma struct_btf_struct_metas_layout [layout_simps]:
  "sizeof struct_btf_struct_metas = 8 \<and> alignof struct_btf_struct_metas = 8 \<and> wf_cty struct_btf_struct_metas"
  by (simp add: struct_btf_struct_metas_def base_types layout_eval u32_def c__u32_def struct_btf_struct_meta_layout
      del: One_nat_def)

lemma struct_bpf_struct_ops_desc_layout [layout_simps]:
  "sizeof struct_bpf_struct_ops_desc = 40 \<and> alignof struct_bpf_struct_ops_desc = 8 \<and> wf_cty struct_bpf_struct_ops_desc"
  by (simp add: struct_bpf_struct_ops_desc_def base_types layout_eval u32_def c__u32_def
      del: One_nat_def)

lemma struct_btf_struct_ops_tab_layout [layout_simps]:
  "sizeof struct_btf_struct_ops_tab = 8 \<and> alignof struct_btf_struct_ops_tab = 8 \<and> wf_cty struct_btf_struct_ops_tab"
  by (simp add: struct_btf_struct_ops_tab_def base_types layout_eval u32_def c__u32_def struct_bpf_struct_ops_desc_layout
      del: One_nat_def)

lemma struct_event_filter_layout [layout_simps]:
  "sizeof struct_event_filter = 16 \<and> alignof struct_event_filter = 8 \<and> wf_cty struct_event_filter"
  by (simp add: struct_event_filter_def base_types layout_eval
      del: One_nat_def)

lemma struct_fasync_struct_layout [layout_simps]:
  "sizeof struct_fasync_struct = 48 \<and> alignof struct_fasync_struct = 8 \<and> wf_cty struct_fasync_struct"
  by (simp add: struct_fasync_struct_def base_types layout_eval rwlock_t_def struct_rwlock_layout
      struct_callback_head_layout
      del: One_nat_def)

lemma struct_ftrace_hash_layout [layout_simps]:
  "sizeof struct_ftrace_hash = 48 \<and> alignof struct_ftrace_hash = 8 \<and> wf_cty struct_ftrace_hash"
  by (simp add: struct_ftrace_hash_def base_types layout_eval struct_callback_head_layout
      del: One_nat_def)

lemma struct_perf_addr_filter_range_layout [layout_simps]:
  "sizeof struct_perf_addr_filter_range = 16 \<and> alignof struct_perf_addr_filter_range = 8 \<and> wf_cty struct_perf_addr_filter_range"
  by (simp add: struct_perf_addr_filter_range_def base_types layout_eval
      del: One_nat_def)

lemma struct_perf_buffer_layout [layout_simps]:
  "sizeof struct_perf_buffer = 280 \<and> alignof struct_perf_buffer = 8 \<and> wf_cty struct_perf_buffer"
  by (simp add: struct_perf_buffer_def base_types layout_eval refcount_t_def struct_refcount_struct_layout
      struct_callback_head_layout atomic_t_layout local_t_layout spinlock_t_def struct_spinlock_layout
      struct_list_head_layout struct_mutex_layout
      del: One_nat_def)

lemma struct_perf_cgroup_layout [layout_simps]:
  "sizeof struct_perf_cgroup = 216 \<and> alignof struct_perf_cgroup = 8 \<and> wf_cty struct_perf_cgroup"
  by (simp add: struct_perf_cgroup_def base_types layout_eval struct_cgroup_subsys_state_layout
      del: One_nat_def)

lemma struct_perf_event_pmu_context_layout [layout_simps]:
  "sizeof struct_perf_event_pmu_context = 112 \<and> alignof struct_perf_event_pmu_context = 8 \<and> wf_cty struct_perf_event_pmu_context"
  by (simp add: struct_perf_event_pmu_context_def base_types layout_eval struct_list_head_layout atomic_t_layout
      struct_callback_head_layout
      del: One_nat_def)

lemma struct_pmu_layout [layout_simps]:
  "sizeof struct_pmu = 320 \<and> alignof struct_pmu = 8 \<and> wf_cty struct_pmu"
  by (simp add: struct_pmu_def base_types layout_eval struct_list_head_layout spinlock_t_def struct_spinlock_layout
      atomic_t_layout
      del: One_nat_def)

lemma struct_static_call_key_layout [layout_simps]:
  "sizeof struct_static_call_key = 16 \<and> alignof struct_static_call_key = 8 \<and> wf_cty struct_static_call_key"
  by (simp add: struct_static_call_key_def base_types layout_eval
      del: One_nat_def)

lemma struct_trace_event_class_layout [layout_simps]:
  "sizeof struct_trace_event_class = 72 \<and> alignof struct_trace_event_class = 8 \<and> wf_cty struct_trace_event_class"
  by (simp add: struct_trace_event_class_def base_types layout_eval struct_list_head_layout
      del: One_nat_def)

lemma struct_trace_event_functions_layout [layout_simps]:
  "sizeof struct_trace_event_functions = 32 \<and> alignof struct_trace_event_functions = 8 \<and> wf_cty struct_trace_event_functions"
  by (simp add: struct_trace_event_functions_def base_types layout_eval trace_print_func_def
      del: One_nat_def)

lemma struct_tracepoint_layout [layout_simps]:
  "sizeof struct_tracepoint = 72 \<and> alignof struct_tracepoint = 8 \<and> wf_cty struct_tracepoint"
  by (simp add: struct_tracepoint_def base_types layout_eval struct_static_key_false_layout
      del: One_nat_def)

end
