(* ===== verification/KernelReach2a.thy ===== *)
theory KernelReach2a
  imports KernelKmsRefs KernelVerifierRefs
begin

text \<open>
  Types of \<^verbatim>\<open>bpf/vmlinux.h\<close> that are two dereferences away from the objects the program and its loading
  touch, with every type they hold by value (part 1 of 4).
\<close>

section \<open>Types\<close>

definition c__kernel_sa_family_t :: cty where [layout_simps]:
  "c__kernel_sa_family_t = short_unsigned_int"

definition struct___kernel_sockaddr_storage :: cty where
  "struct___kernel_sockaddr_storage = CStruct ''__kernel_sockaddr_storage'' False
     [Field [] (CUnion [] False
        [Field [] (CStruct [] False
           [Field ''ss_family'' c__kernel_sa_family_t,
            Field ''__data'' (CArr 126 c_char)]),
         Field ''__align'' (CPtr ''void'')])]"

definition enum_reftype :: cty where
  "enum_reftype = CEnum 4
     [(''REF_NS'', 0), (''REF_PROXY'', 1), (''REF_RAWDATA'', 2)]"

definition struct_aa_common_ref :: cty where
  "struct_aa_common_ref = CStruct ''aa_common_ref'' False
     [Field ''count'' struct_kref,
      Field ''reftype'' enum_reftype]"

definition struct_aa_label :: cty where
  "struct_aa_label = CStruct ''aa_label'' False
     [Field ''count'' struct_aa_common_ref,
      Field ''node'' struct_rb_node,
      Field ''rcu'' struct_callback_head,
      Field ''proxy'' (CPtr ''struct aa_proxy''),
      Field ''hname'' (CPtr ''char''),
      Field ''flags'' c_long,
      Field ''secid'' u32,
      Field ''size'' c_int,
      Field ''mediates'' u64,
      Field [] (CUnion [] False
        [Field [] (CStruct [] False
           [Field ''profile'' (CArr 2 (CPtr ''struct aa_profile'')),
            Field [] (CStruct [] False
              [Field ''__empty_rules'' (CStruct [] False
                 []),
               Field ''rules'' (CArr 0 (CPtr ''struct aa_ruleset''))])]),
         Field [] (CStruct [] False
           [Field ''__empty_vec'' (CStruct [] False
              []),
            Field ''vec'' (CArr 0 (CPtr ''struct aa_profile''))])])]"

definition struct_arch_uprobe :: cty where
  "struct_arch_uprobe = CStruct ''arch_uprobe'' False
     [Field [] (CUnion [] False
        [Field ''insn'' (CArr 16 u8),
         Field ''ixol'' (CArr 16 u8)]),
      Field ''ops'' (CPtr ''const struct uprobe_xol_ops''),
      Field [] (CUnion [] False
        [Field ''branch'' (CStruct [] False
           [Field ''offs'' s32,
            Field ''ilen'' u8,
            Field ''opc1'' u8]),
         Field ''defparam'' (CStruct [] False
           [Field ''fixups'' u8,
            Field ''ilen'' u8]),
         Field ''push'' (CStruct [] False
           [Field ''reg_offset'' u8,
            Field ''ilen'' u8])]),
      Field ''flags'' long_unsigned_int]"

definition struct_audit_aux_data :: cty where
  "struct_audit_aux_data = CStruct ''audit_aux_data'' False
     [Field ''next'' (CPtr ''struct audit_aux_data''),
      Field ''type'' c_int]"

definition struct_audit_tree_refs :: cty where
  "struct_audit_tree_refs = CStruct ''audit_tree_refs'' False
     [Field ''next'' (CPtr ''struct audit_tree_refs''),
      Field ''c'' (CArr 31 (CPtr ''struct audit_chunk''))]"

definition struct_backlight_ops :: cty where
  "struct_backlight_ops = CStruct ''backlight_ops'' False
     [Field ''options'' unsigned_int,
      Field ''update_status'' (CPtr ''int (struct backlight_device *)''),
      Field ''get_brightness'' (CPtr ''int (struct backlight_device *)''),
      Field ''controls_device'' (CPtr ''bool (struct backlight_device *, struct device *)'')]"

definition struct_binfmt_misc :: cty where
  "struct_binfmt_misc = CStruct ''binfmt_misc'' False
     [Field ''entries'' struct_list_head,
      Field ''entries_lock'' rwlock_t,
      Field ''enabled'' bool]"

definition enum_blk_crypto_mode_num :: cty where
  "enum_blk_crypto_mode_num = CEnum 4
     [(''BLK_ENCRYPTION_MODE_INVALID'', 0), (''BLK_ENCRYPTION_MODE_AES_256_XTS'', 1),
      (''BLK_ENCRYPTION_MODE_AES_128_CBC_ESSIV'', 2), (''BLK_ENCRYPTION_MODE_ADIANTUM'', 3),
      (''BLK_ENCRYPTION_MODE_SM4_XTS'', 4), (''BLK_ENCRYPTION_MODE_MAX'', 5)]"

definition enum_blk_crypto_key_type :: cty where
  "enum_blk_crypto_key_type = CEnum 4
     [(''BLK_CRYPTO_KEY_TYPE_RAW'', 1), (''BLK_CRYPTO_KEY_TYPE_HW_WRAPPED'', 2)]"

definition struct_blk_crypto_config :: cty where
  "struct_blk_crypto_config = CStruct ''blk_crypto_config'' False
     [Field ''crypto_mode'' enum_blk_crypto_mode_num,
      Field ''data_unit_size'' unsigned_int,
      Field ''dun_bytes'' unsigned_int,
      Field ''key_type'' enum_blk_crypto_key_type]"

definition struct_blk_crypto_key :: cty where
  "struct_blk_crypto_key = CStruct ''blk_crypto_key'' False
     [Field ''crypto_cfg'' struct_blk_crypto_config,
      Field ''data_unit_size_bits'' unsigned_int,
      Field ''size'' unsigned_int,
      Field ''bytes'' (CArr 128 u8)]"

definition struct_blk_crypto_keyslot :: cty where
  "struct_blk_crypto_keyslot = CStruct ''blk_crypto_keyslot'' False
     [Field ''slot_refs'' atomic_t,
      Field ''idle_slot_node'' struct_list_head,
      Field ''hash_node'' struct_hlist_node,
      Field ''key'' (CPtr ''const struct blk_crypto_key''),
      Field ''profile'' (CPtr ''struct blk_crypto_profile'')]"

definition struct_blk_mq_ctxs :: cty where
  "struct_blk_mq_ctxs = CStruct ''blk_mq_ctxs'' False
     [Field ''kobj'' struct_kobject,
      Field ''queue_ctx'' (CPtr ''struct blk_mq_ctx'')]"

definition struct_blkcg :: cty where
  "struct_blkcg = CStruct ''blkcg'' False
     [Field ''css'' struct_cgroup_subsys_state,
      Field ''lock'' spinlock_t,
      Field ''online_pin'' refcount_t,
      Field ''congestion_count'' atomic_t,
      Field ''blkg_tree'' struct_xarray,
      Field ''blkg_hint'' (CPtr ''struct blkcg_gq''),
      Field ''blkg_list'' struct_hlist_head,
      Field ''cpd'' (CArr 6 (CPtr ''struct blkcg_policy_data'')),
      Field ''all_blkcgs_node'' struct_list_head,
      Field ''lhead'' (CPtr ''struct llist_head''),
      Field ''fc_app_id'' (CArr 129 c_char),
      Field ''cgwb_list'' struct_list_head]"

definition struct_blkg_policy_data :: cty where
  "struct_blkg_policy_data = CStruct ''blkg_policy_data'' False
     [Field ''blkg'' (CPtr ''struct blkcg_gq''),
      Field ''plid'' c_int,
      Field ''online'' bool]"

definition struct_bpf_local_storage_map :: cty where
  "struct_bpf_local_storage_map = CStruct ''bpf_local_storage_map'' False
     [Field ''map'' struct_bpf_map,
      Field ''buckets'' (CPtr ''struct bpf_local_storage_map_bucket''),
      Field ''bucket_log'' u32,
      Field ''elem_size'' u16,
      Field ''cache_idx'' u16,
      Field ''use_kmalloc_nolock'' bool]"

definition enum_ref_state_type :: cty where
  "enum_ref_state_type = CEnum 4
     [(''REF_TYPE_PTR'', 2), (''REF_TYPE_IRQ'', 4), (''REF_TYPE_LOCK'', 8),
      (''REF_TYPE_RES_LOCK'', 16), (''REF_TYPE_RES_LOCK_IRQ'', 32),
      (''REF_TYPE_LOCK_MASK'', 56)]"

definition struct_bpf_reference_state :: cty where
  "struct_bpf_reference_state = CStruct ''bpf_reference_state'' False
     [Field ''type'' enum_ref_state_type,
      Field ''id'' c_int,
      Field ''insn_idx'' c_int,
      Field ''ptr'' (CPtr ''void'')]"

definition struct_bpf_scc_backedge :: cty where
  "struct_bpf_scc_backedge = CStruct ''bpf_scc_backedge'' False
     [Field ''next'' (CPtr ''struct bpf_scc_backedge''),
      Field ''state'' struct_bpf_verifier_state]"

definition struct_bpf_struct_ops_arg_info :: cty where
  "struct_bpf_struct_ops_arg_info = CStruct ''bpf_struct_ops_arg_info'' False
     [Field ''info'' (CPtr ''struct bpf_ctx_arg_aux''),
      Field ''cnt'' u32]"

definition struct_btf_id_set8 :: cty where
  "struct_btf_id_set8 = CStruct ''btf_id_set8'' False
     [Field ''cnt'' u32,
      Field ''flags'' u32,
      Field ''pairs'' (CArr 0 (CStruct [] False
        [Field ''id'' u32,
         Field ''flags'' u32]))]"

definition struct_cdrom_device_ops :: cty where
  "struct_cdrom_device_ops = CStruct ''cdrom_device_ops'' False
     [Field ''open'' (CPtr ''int (struct cdrom_device_info *, int)''),
      Field ''release'' (CPtr ''void (struct cdrom_device_info *)''),
      Field ''drive_status'' (CPtr ''int (struct cdrom_device_info *, int)''),
      Field ''check_events'' (CPtr ''unsigned int (struct cdrom_device_info *, unsigned int, int)''),
      Field ''tray_move'' (CPtr ''int (struct cdrom_device_info *, int)''),
      Field ''lock_door'' (CPtr ''int (struct cdrom_device_info *, int)''),
      Field ''select_speed'' (CPtr ''int (struct cdrom_device_info *, long unsigned int)''),
      Field ''get_last_session'' (CPtr ''int (struct cdrom_device_info *, struct cdrom_multisession *)''),
      Field ''get_mcn'' (CPtr ''int (struct cdrom_device_info *, struct cdrom_mcn *)''),
      Field ''reset'' (CPtr ''int (struct cdrom_device_info *)''),
      Field ''audio_ioctl'' (CPtr ''int (struct cdrom_device_info *, unsigned int, void *)''),
      Field ''generic_packet'' (CPtr ''int (struct cdrom_device_info *, struct packet_command *)''),
      Field ''read_cdda_bpc'' (CPtr ''int (struct cdrom_device_info *, void *, u32, u32, u8 *)''),
      Field ''capability'' c_int]"

definition struct_cftype :: cty where
  "struct_cftype = CStruct ''cftype'' False
     [Field ''name'' (CArr 64 c_char),
      Field ''private'' long_unsigned_int,
      Field ''max_write_len'' size_t,
      Field ''flags'' unsigned_int,
      Field ''file_offset'' unsigned_int,
      Field ''ss'' (CPtr ''struct cgroup_subsys''),
      Field ''node'' struct_list_head,
      Field ''kf_ops'' (CPtr ''struct kernfs_ops''),
      Field ''open'' (CPtr ''int (struct kernfs_open_file *)''),
      Field ''release'' (CPtr ''void (struct kernfs_open_file *)''),
      Field ''read_u64'' (CPtr ''u64 (struct cgroup_subsys_state *, struct cftype *)''),
      Field ''read_s64'' (CPtr ''s64 (struct cgroup_subsys_state *, struct cftype *)''),
      Field ''seq_show'' (CPtr ''int (struct seq_file *, void *)''),
      Field ''seq_start'' (CPtr ''void * (struct seq_file *, loff_t *)''),
      Field ''seq_next'' (CPtr ''void * (struct seq_file *, void *, loff_t *)''),
      Field ''seq_stop'' (CPtr ''void (struct seq_file *, void *)''),
      Field ''write_u64'' (CPtr ''int (struct cgroup_subsys_state *, struct cftype *, u64)''),
      Field ''write_s64'' (CPtr ''int (struct cgroup_subsys_state *, struct cftype *, s64)''),
      Field ''write'' (CPtr ''ssize_t (struct kernfs_open_file *, char *, size_t, loff_t)''),
      Field ''poll'' (CPtr ''__poll_t (struct kernfs_open_file *, struct poll_table_struct *)''),
      Field ''lockdep_key'' struct_lock_class_key]"

definition struct_cgroup_namespace :: cty where
  "struct_cgroup_namespace = CStruct ''cgroup_namespace'' False
     [Field ''ns'' struct_ns_common,
      Field ''user_ns'' (CPtr ''struct user_namespace''),
      Field ''ucounts'' (CPtr ''struct ucounts''),
      Field ''root_cset'' (CPtr ''struct css_set''),
      BitField [] c_long 64,
      BitField [] c_long 64,
      BitField [] c_long 64,
      BitField [] c_long 64,
      BitField [] c_long 64]"

definition struct_cma_kobject :: cty where
  "struct_cma_kobject = CStruct ''cma_kobject'' False
     [Field ''kobj'' struct_kobject,
      Field ''cma'' (CPtr ''struct cma'')]"

definition enum_migrate_mode :: cty where
  "enum_migrate_mode = CEnum 4
     [(''MIGRATE_ASYNC'', 0), (''MIGRATE_SYNC_LIGHT'', 1), (''MIGRATE_SYNC'', 2)]"

definition struct_compact_control :: cty where
  "struct_compact_control = CStruct ''compact_control'' False
     [Field ''freepages'' (CArr 11 struct_list_head),
      Field ''migratepages'' struct_list_head,
      Field ''nr_freepages'' unsigned_int,
      Field ''nr_migratepages'' unsigned_int,
      Field ''free_pfn'' long_unsigned_int,
      Field ''migrate_pfn'' long_unsigned_int,
      Field ''fast_start_pfn'' long_unsigned_int,
      Field ''zone'' (CPtr ''struct zone''),
      Field ''total_migrate_scanned'' long_unsigned_int,
      Field ''total_free_scanned'' long_unsigned_int,
      Field ''fast_search_fail'' short_unsigned_int,
      Field ''search_order'' short_int,
      Field ''gfp_mask'' gfp_t,
      Field ''order'' c_int,
      Field ''migratetype'' c_int,
      Field ''alloc_flags'' unsigned_int,
      Field ''highest_zoneidx'' c_int,
      Field ''mode'' enum_migrate_mode,
      Field ''ignore_skip_hint'' bool,
      Field ''no_set_skip_hint'' bool,
      Field ''ignore_block_suitable'' bool,
      Field ''direct_compaction'' bool,
      Field ''proactive_compaction'' bool,
      Field ''whole_zone'' bool,
      Field ''contended'' bool,
      Field ''finish_pageblock'' bool,
      Field ''alloc_contig'' bool]"

definition struct_cpu_stop_done :: cty where
  "struct_cpu_stop_done = CStruct ''cpu_stop_done'' False
     [Field ''nr_todo'' atomic_t,
      Field ''ret'' c_int,
      Field ''completion'' struct_completion]"

definition struct_cpuidle_state :: cty where
  "struct_cpuidle_state = CStruct ''cpuidle_state'' False
     [Field ''name'' (CArr 16 c_char),
      Field ''desc'' (CArr 32 c_char),
      Field ''exit_latency_ns'' s64,
      Field ''target_residency_ns'' s64,
      Field ''flags'' unsigned_int,
      Field ''exit_latency'' unsigned_int,
      Field ''power_usage'' c_int,
      Field ''target_residency'' unsigned_int,
      Field ''enter'' (CPtr ''int (struct cpuidle_device *, struct cpuidle_driver *, int)''),
      Field ''enter_dead'' (CPtr ''void (struct cpuidle_device *, int)''),
      Field ''enter_s2idle'' (CPtr ''int (struct cpuidle_device *, struct cpuidle_driver *, int)'')]"

definition struct_ctl_node :: cty where
  "struct_ctl_node = CStruct ''ctl_node'' False
     [Field ''node'' struct_rb_node,
      Field ''header'' (CPtr ''struct ctl_table_header'')]"

definition struct_ctl_table :: cty where
  "struct_ctl_table = CStruct ''ctl_table'' False
     [Field ''procname'' (CPtr ''const char''),
      Field ''data'' (CPtr ''void''),
      Field ''maxlen'' c_int,
      Field ''mode'' umode_t,
      Field ''proc_handler'' (CPtr ''proc_handler''),
      Field ''poll'' (CPtr ''struct ctl_table_poll''),
      Field ''extra1'' (CPtr ''void''),
      Field ''extra2'' (CPtr ''void'')]"

definition struct_ctl_table_root :: cty where
  "struct_ctl_table_root = CStruct ''ctl_table_root'' False
     [Field ''default_set'' struct_ctl_table_set,
      Field ''lookup'' (CPtr ''struct ctl_table_set * (struct ctl_table_root *)''),
      Field ''set_ownership'' (CPtr ''void (struct ctl_table_header *, kuid_t *, kgid_t *)''),
      Field ''permissions'' (CPtr ''int (struct ctl_table_header *, const struct ctl_table *)'')]"

definition struct_dev_pagemap_ops :: cty where
  "struct_dev_pagemap_ops = CStruct ''dev_pagemap_ops'' False
     [Field ''folio_free'' (CPtr ''void (struct folio *)''),
      Field ''migrate_to_ram'' (CPtr ''vm_fault_t (struct vm_fault *)''),
      Field ''memory_failure'' (CPtr ''int (struct dev_pagemap *, long unsigned int, long unsigned int, int)''),
      Field ''folio_split'' (CPtr ''void (struct folio *, struct folio *)'')]"

definition enum_dev_pm_qos_req_type :: cty where
  "enum_dev_pm_qos_req_type = CEnum 4
     [(''DEV_PM_QOS_RESUME_LATENCY'', 1), (''DEV_PM_QOS_LATENCY_TOLERANCE'', 2),
      (''DEV_PM_QOS_MIN_FREQUENCY'', 3), (''DEV_PM_QOS_MAX_FREQUENCY'', 4),
      (''DEV_PM_QOS_FLAGS'', 5)]"

definition struct_pm_qos_flags_request :: cty where
  "struct_pm_qos_flags_request = CStruct ''pm_qos_flags_request'' False
     [Field ''node'' struct_list_head,
      Field ''flags'' s32]"

definition enum_freq_qos_req_type :: cty where
  "enum_freq_qos_req_type = CEnum 4
     [(''FREQ_QOS_MIN'', 1), (''FREQ_QOS_MAX'', 2)]"

definition struct_freq_qos_request :: cty where
  "struct_freq_qos_request = CStruct ''freq_qos_request'' False
     [Field ''type'' enum_freq_qos_req_type,
      Field ''pnode'' struct_plist_node,
      Field ''qos'' (CPtr ''struct freq_constraints'')]"

definition struct_dev_pm_qos_request :: cty where
  "struct_dev_pm_qos_request = CStruct ''dev_pm_qos_request'' False
     [Field ''type'' enum_dev_pm_qos_req_type,
      Field ''data'' (CUnion [] False
        [Field ''pnode'' struct_plist_node,
         Field ''flr'' struct_pm_qos_flags_request,
         Field ''freq'' struct_freq_qos_request]),
      Field ''dev'' (CPtr ''struct device'')]"

definition enum_drm_colorop_curve_1d_type :: cty where
  "enum_drm_colorop_curve_1d_type = CEnum 4
     [(''DRM_COLOROP_1D_CURVE_SRGB_EOTF'', 0), (''DRM_COLOROP_1D_CURVE_SRGB_INV_EOTF'', 1),
      (''DRM_COLOROP_1D_CURVE_PQ_125_EOTF'', 2), (''DRM_COLOROP_1D_CURVE_PQ_125_INV_EOTF'', 3),
      (''DRM_COLOROP_1D_CURVE_BT2020_INV_OETF'', 4), (''DRM_COLOROP_1D_CURVE_BT2020_OETF'', 5),
      (''DRM_COLOROP_1D_CURVE_GAMMA22'', 6), (''DRM_COLOROP_1D_CURVE_GAMMA22_INV'', 7),
      (''DRM_COLOROP_1D_CURVE_COUNT'', 8)]"

definition struct_drm_colorop_state :: cty where
  "struct_drm_colorop_state = CStruct ''drm_colorop_state'' False
     [Field ''colorop'' (CPtr ''struct drm_colorop''),
      Field ''bypass'' bool,
      Field ''curve_1d_type'' enum_drm_colorop_curve_1d_type,
      Field ''multiplier'' uint64_t,
      Field ''data'' (CPtr ''struct drm_property_blob''),
      Field ''state'' (CPtr ''struct drm_atomic_state'')]"

definition struct_drm_privacy_screen_ops :: cty where
  "struct_drm_privacy_screen_ops = CStruct ''drm_privacy_screen_ops'' False
     [Field ''set_sw_state'' (CPtr ''int (struct drm_privacy_screen *, enum drm_privacy_screen_status)''),
      Field ''get_hw_state'' (CPtr ''void (struct drm_privacy_screen *)'')]"

definition struct_drm_writeback_connector :: cty where
  "struct_drm_writeback_connector = CStruct ''drm_writeback_connector'' False
     [Field ''base'' struct_drm_connector,
      Field ''encoder'' struct_drm_encoder,
      Field ''pixel_formats_blob_ptr'' (CPtr ''struct drm_property_blob''),
      Field ''job_lock'' spinlock_t,
      Field ''job_queue'' struct_list_head,
      Field ''fence_context'' unsigned_int,
      Field ''fence_lock'' spinlock_t,
      Field ''fence_seqno'' long_unsigned_int,
      Field ''timeline_name'' (CArr 32 c_char)]"

definition c__le16 :: cty where [layout_simps]:
  "c__le16 = c__u16"

definition c__le32 :: cty where [layout_simps]:
  "c__le32 = c__u32"

definition struct_drm_edid_product_id :: cty where
  "struct_drm_edid_product_id = CStruct ''drm_edid_product_id'' True
     [Field ''manufacturer_name'' c__be16,
      Field ''product_code'' c__le16,
      Field ''serial_number'' c__le32,
      Field ''week_of_manufacture'' u8,
      Field ''year_of_manufacture'' u8]"

definition struct_est_timings :: cty where
  "struct_est_timings = CStruct ''est_timings'' False
     [Field ''t1'' u8,
      Field ''t2'' u8,
      Field ''mfg_rsvd'' u8]"

definition struct_std_timing :: cty where
  "struct_std_timing = CStruct ''std_timing'' False
     [Field ''hsize'' u8,
      Field ''vfreq_aspect'' u8]"

definition struct_detailed_pixel_timing :: cty where
  "struct_detailed_pixel_timing = CStruct ''detailed_pixel_timing'' False
     [Field ''hactive_lo'' u8,
      Field ''hblank_lo'' u8,
      Field ''hactive_hblank_hi'' u8,
      Field ''vactive_lo'' u8,
      Field ''vblank_lo'' u8,
      Field ''vactive_vblank_hi'' u8,
      Field ''hsync_offset_lo'' u8,
      Field ''hsync_pulse_width_lo'' u8,
      Field ''vsync_offset_pulse_width_lo'' u8,
      Field ''hsync_vsync_offset_pulse_width_hi'' u8,
      Field ''width_mm_lo'' u8,
      Field ''height_mm_lo'' u8,
      Field ''width_height_mm_hi'' u8,
      Field ''hborder'' u8,
      Field ''vborder'' u8,
      Field ''misc'' u8]"

definition struct_detailed_data_string :: cty where
  "struct_detailed_data_string = CStruct ''detailed_data_string'' False
     [Field ''str'' (CArr 13 u8)]"

definition struct_detailed_data_monitor_range :: cty where
  "struct_detailed_data_monitor_range = CStruct ''detailed_data_monitor_range'' False
     [Field ''min_vfreq'' u8,
      Field ''max_vfreq'' u8,
      Field ''min_hfreq_khz'' u8,
      Field ''max_hfreq_khz'' u8,
      Field ''pixel_clock_mhz'' u8,
      Field ''flags'' u8,
      Field ''formula'' (CUnion [] False
        [Field ''gtf2'' (CStruct [] True
           [Field ''reserved'' u8,
            Field ''hfreq_start_khz'' u8,
            Field ''c'' u8,
            Field ''m'' c__le16,
            Field ''k'' u8,
            Field ''j'' u8]),
         Field ''cvt'' (CStruct [] False
           [Field ''version'' u8,
            Field ''data1'' u8,
            Field ''data2'' u8,
            Field ''supported_aspects'' u8,
            Field ''flags'' u8,
            Field ''supported_scalings'' u8,
            Field ''preferred_refresh'' u8])])]"

definition struct_detailed_data_wpindex :: cty where
  "struct_detailed_data_wpindex = CStruct ''detailed_data_wpindex'' False
     [Field ''white_yx_lo'' u8,
      Field ''white_x_hi'' u8,
      Field ''white_y_hi'' u8,
      Field ''gamma'' u8]"

definition struct_cvt_timing :: cty where
  "struct_cvt_timing = CStruct ''cvt_timing'' False
     [Field ''code'' (CArr 3 u8)]"

definition struct_detailed_non_pixel :: cty where
  "struct_detailed_non_pixel = CStruct ''detailed_non_pixel'' False
     [Field ''pad1'' u8,
      Field ''type'' u8,
      Field ''pad2'' u8,
      Field ''data'' (CUnion [] False
        [Field ''str'' struct_detailed_data_string,
         Field ''range'' struct_detailed_data_monitor_range,
         Field ''color'' struct_detailed_data_wpindex,
         Field ''timings'' (CArr 6 struct_std_timing),
         Field ''cvt'' (CArr 4 struct_cvt_timing)])]"

definition struct_detailed_timing :: cty where
  "struct_detailed_timing = CStruct ''detailed_timing'' False
     [Field ''pixel_clock'' c__le16,
      Field ''data'' (CUnion [] False
        [Field ''pixel_data'' struct_detailed_pixel_timing,
         Field ''other_data'' struct_detailed_non_pixel])]"

definition struct_edid :: cty where
  "struct_edid = CStruct ''edid'' False
     [Field ''header'' (CArr 8 u8),
      Field [] (CUnion [] False
        [Field ''product_id'' struct_drm_edid_product_id,
         Field [] (CStruct [] True
           [Field ''mfg_id'' (CArr 2 u8),
            Field ''prod_code'' (CArr 2 u8),
            Field ''serial'' u32,
            Field ''mfg_week'' u8,
            Field ''mfg_year'' u8])]),
      Field ''version'' u8,
      Field ''revision'' u8,
      Field ''input'' u8,
      Field ''width_cm'' u8,
      Field ''height_cm'' u8,
      Field ''gamma'' u8,
      Field ''features'' u8,
      Field ''red_green_lo'' u8,
      Field ''blue_white_lo'' u8,
      Field ''red_x'' u8,
      Field ''red_y'' u8,
      Field ''green_x'' u8,
      Field ''green_y'' u8,
      Field ''blue_x'' u8,
      Field ''blue_y'' u8,
      Field ''white_x'' u8,
      Field ''white_y'' u8,
      Field ''established_timings'' struct_est_timings,
      Field ''standard_timings'' (CArr 8 struct_std_timing),
      Field ''detailed_timings'' (CArr 4 struct_detailed_timing),
      Field ''extensions'' u8,
      Field ''checksum'' u8]"

definition struct_elevator_tags :: cty where
  "struct_elevator_tags = CStruct ''elevator_tags'' False
     [Field ''nr_hw_queues'' unsigned_int,
      Field ''nr_requests'' unsigned_int,
      Field ''tags'' (CArr 0 (CPtr ''struct blk_mq_tags''))]"

definition struct_elevator_mq_ops :: cty where
  "struct_elevator_mq_ops = CStruct ''elevator_mq_ops'' False
     [Field ''init_sched'' (CPtr ''int (struct request_queue *, struct elevator_queue *)''),
      Field ''exit_sched'' (CPtr ''void (struct elevator_queue *)''),
      Field ''init_hctx'' (CPtr ''int (struct blk_mq_hw_ctx *, unsigned int)''),
      Field ''exit_hctx'' (CPtr ''void (struct blk_mq_hw_ctx *, unsigned int)''),
      Field ''depth_updated'' (CPtr ''void (struct request_queue *)''),
      Field ''alloc_sched_data'' (CPtr ''void * (struct request_queue *)''),
      Field ''free_sched_data'' (CPtr ''void (void *)''),
      Field ''allow_merge'' (CPtr ''bool (struct request_queue *, struct request *, struct bio *)''),
      Field ''bio_merge'' (CPtr ''bool (struct request_queue *, struct bio *, unsigned int)''),
      Field ''request_merge'' (CPtr ''int (struct request_queue *, struct request **, struct bio *)''),
      Field ''request_merged'' (CPtr ''void (struct request_queue *, struct request *, enum elv_merge)''),
      Field ''requests_merged'' (CPtr ''void (struct request_queue *, struct request *, struct request *)''),
      Field ''limit_depth'' (CPtr ''void (blk_opf_t, struct blk_mq_alloc_data *)''),
      Field ''prepare_request'' (CPtr ''void (struct request *)''),
      Field ''finish_request'' (CPtr ''void (struct request *)''),
      Field ''insert_requests'' (CPtr ''void (struct blk_mq_hw_ctx *, struct list_head *, blk_insert_t)''),
      Field ''dispatch_request'' (CPtr ''struct request * (struct blk_mq_hw_ctx *)''),
      Field ''has_work'' (CPtr ''bool (struct blk_mq_hw_ctx *)''),
      Field ''completed_request'' (CPtr ''void (struct request *, u64)''),
      Field ''requeue_request'' (CPtr ''void (struct request *)''),
      Field ''former_request'' (CPtr ''struct request * (struct request_queue *, struct request *)''),
      Field ''next_request'' (CPtr ''struct request * (struct request_queue *, struct request *)''),
      Field ''init_icq'' (CPtr ''void (struct io_cq *)''),
      Field ''exit_icq'' (CPtr ''void (struct io_cq *)'')]"

definition struct_elevator_type :: cty where
  "struct_elevator_type = CStruct ''elevator_type'' False
     [Field ''icq_cache'' (CPtr ''struct kmem_cache''),
      Field ''ops'' struct_elevator_mq_ops,
      Field ''icq_size'' size_t,
      Field ''icq_align'' size_t,
      Field ''elevator_attrs'' (CPtr ''const struct elv_fs_entry''),
      Field ''elevator_name'' (CPtr ''const char''),
      Field ''elevator_alias'' (CPtr ''const char''),
      Field ''elevator_owner'' (CPtr ''struct module''),
      Field ''queue_debugfs_attrs'' (CPtr ''const struct blk_mq_debugfs_attr''),
      Field ''hctx_debugfs_attrs'' (CPtr ''const struct blk_mq_debugfs_attr''),
      Field ''icq_cache_name'' (CArr 22 c_char),
      Field ''list'' struct_list_head]"

definition struct_em_perf_state :: cty where
  "struct_em_perf_state = CStruct ''em_perf_state'' False
     [Field ''performance'' long_unsigned_int,
      Field ''frequency'' long_unsigned_int,
      Field ''power'' long_unsigned_int,
      Field ''cost'' long_unsigned_int,
      Field ''flags'' long_unsigned_int]"

definition struct_em_perf_table :: cty where
  "struct_em_perf_table = CStruct ''em_perf_table'' False
     [Field ''rcu'' struct_callback_head,
      Field ''kref'' struct_kref,
      Field ''state'' (CArr 0 struct_em_perf_state)]"

definition struct_fb_deferred_io_pageref :: cty where
  "struct_fb_deferred_io_pageref = CStruct ''fb_deferred_io_pageref'' False
     [Field ''page'' (CPtr ''struct page''),
      Field ''offset'' long_unsigned_int,
      Field ''list'' struct_list_head]"

definition struct_fb_deferred_io_state :: cty where
  "struct_fb_deferred_io_state = CStruct ''fb_deferred_io_state'' False
     [Field ''ref'' struct_kref,
      Field ''lock'' struct_mutex,
      Field ''info'' (CPtr ''struct fb_info'')]"

definition struct_fb_ops :: cty where
  "struct_fb_ops = CStruct ''fb_ops'' False
     [Field ''owner'' (CPtr ''struct module''),
      Field ''fb_open'' (CPtr ''int (struct fb_info *, int)''),
      Field ''fb_release'' (CPtr ''int (struct fb_info *, int)''),
      Field ''fb_read'' (CPtr ''ssize_t (struct fb_info *, char *, size_t, loff_t *)''),
      Field ''fb_write'' (CPtr ''ssize_t (struct fb_info *, const char *, size_t, loff_t *)''),
      Field ''fb_check_var'' (CPtr ''int (struct fb_var_screeninfo *, struct fb_info *)''),
      Field ''fb_set_par'' (CPtr ''int (struct fb_info *)''),
      Field ''fb_setcolreg'' (CPtr ''int (unsigned int, unsigned int, unsigned int, unsigned int, unsigned int, struct fb_info *)''),
      Field ''fb_setcmap'' (CPtr ''int (struct fb_cmap *, struct fb_info *)''),
      Field ''fb_blank'' (CPtr ''int (int, struct fb_info *)''),
      Field ''fb_pan_display'' (CPtr ''int (struct fb_var_screeninfo *, struct fb_info *)''),
      Field ''fb_fillrect'' (CPtr ''void (struct fb_info *, const struct fb_fillrect *)''),
      Field ''fb_copyarea'' (CPtr ''void (struct fb_info *, const struct fb_copyarea *)''),
      Field ''fb_imageblit'' (CPtr ''void (struct fb_info *, const struct fb_image *)''),
      Field ''fb_cursor'' (CPtr ''int (struct fb_info *, struct fb_cursor *)''),
      Field ''fb_sync'' (CPtr ''int (struct fb_info *)''),
      Field ''fb_ioctl'' (CPtr ''int (struct fb_info *, unsigned int, long unsigned int)''),
      Field ''fb_compat_ioctl'' (CPtr ''int (struct fb_info *, unsigned int, long unsigned int)''),
      Field ''fb_mmap'' (CPtr ''int (struct fb_info *, struct vm_area_struct *)''),
      Field ''fb_get_caps'' (CPtr ''void (struct fb_info *, struct fb_blit_caps *, struct fb_var_screeninfo *)''),
      Field ''fb_destroy'' (CPtr ''void (struct fb_info *)'')]"

definition struct_fb_tile_ops :: cty where
  "struct_fb_tile_ops = CStruct ''fb_tile_ops'' False
     [Field ''fb_settile'' (CPtr ''void (struct fb_info *, struct fb_tilemap *)''),
      Field ''fb_tilecopy'' (CPtr ''void (struct fb_info *, struct fb_tilearea *)''),
      Field ''fb_tilefill'' (CPtr ''void (struct fb_info *, struct fb_tilerect *)''),
      Field ''fb_tileblit'' (CPtr ''void (struct fb_info *, struct fb_tileblit *)''),
      Field ''fb_tilecursor'' (CPtr ''void (struct fb_info *, struct fb_tilecursor *)''),
      Field ''fb_get_tilemax'' (CPtr ''int (struct fb_info *)'')]"

definition struct_fb_videomode :: cty where
  "struct_fb_videomode = CStruct ''fb_videomode'' False
     [Field ''name'' (CPtr ''const char''),
      Field ''refresh'' u32,
      Field ''xres'' u32,
      Field ''yres'' u32,
      Field ''pixclock'' u32,
      Field ''left_margin'' u32,
      Field ''right_margin'' u32,
      Field ''upper_margin'' u32,
      Field ''lower_margin'' u32,
      Field ''hsync_len'' u32,
      Field ''vsync_len'' u32,
      Field ''sync'' u32,
      Field ''vmode'' u32,
      Field ''flag'' u32]"

definition struct_fbcurpos :: cty where
  "struct_fbcurpos = CStruct ''fbcurpos'' False
     [Field ''x'' c__u16,
      Field ''y'' c__u16]"

definition struct_fb_image :: cty where
  "struct_fb_image = CStruct ''fb_image'' False
     [Field ''dx'' c__u32,
      Field ''dy'' c__u32,
      Field ''width'' c__u32,
      Field ''height'' c__u32,
      Field ''fg_color'' c__u32,
      Field ''bg_color'' c__u32,
      Field ''depth'' c__u8,
      Field ''data'' (CPtr ''const char''),
      Field ''cmap'' struct_fb_cmap]"

definition struct_fb_cursor :: cty where
  "struct_fb_cursor = CStruct ''fb_cursor'' False
     [Field ''set'' c__u16,
      Field ''enable'' c__u16,
      Field ''rop'' c__u16,
      Field ''mask'' (CPtr ''const char''),
      Field ''hot'' struct_fbcurpos,
      Field ''image'' struct_fb_image]"

definition struct_fbcon_par :: cty where
  "struct_fbcon_par = CStruct ''fbcon_par'' False
     [Field ''var'' struct_fb_var_screeninfo,
      Field ''cursor_work'' struct_delayed_work,
      Field ''cursor_state'' struct_fb_cursor,
      Field ''p'' (CPtr ''struct fbcon_display''),
      Field ''info'' (CPtr ''struct fb_info''),
      Field ''currcon'' c_int,
      Field ''cur_blink_jiffies'' c_int,
      Field ''cursor_flash'' c_int,
      Field ''cursor_reset'' c_int,
      Field ''blank_state'' c_int,
      Field ''graphics'' c_int,
      Field ''initialized'' bool,
      Field ''rotate'' c_int,
      Field ''cur_rotate'' c_int,
      Field ''cursor_data'' (CPtr ''char''),
      Field ''fontbuffer'' (CPtr ''u8''),
      Field ''fontdata'' (CPtr ''u8''),
      Field ''cursor_src'' (CPtr ''u8''),
      Field ''cursor_size'' u32,
      Field ''fd_size'' u32,
      Field ''bitops'' (CPtr ''const struct fbcon_bitops'')]"

definition struct_rt6key :: cty where
  "struct_rt6key = CStruct ''rt6key'' False
     [Field ''addr'' struct_in6_addr,
      Field ''plen'' c_int]"

definition netdevice_tracker :: cty where
  "netdevice_tracker = CStruct [] False
      []"

definition struct_fib_nh_common :: cty where
  "struct_fib_nh_common = CStruct ''fib_nh_common'' False
     [Field ''nhc_dev'' (CPtr ''struct net_device''),
      Field ''nhc_dev_tracker'' netdevice_tracker,
      Field ''nhc_oif'' c_int,
      Field ''nhc_scope'' unsigned_char,
      Field ''nhc_family'' u8,
      Field ''nhc_gw_family'' u8,
      Field ''nhc_flags'' unsigned_char,
      Field ''nhc_lwtstate'' (CPtr ''struct lwtunnel_state''),
      Field ''nhc_gw'' (CUnion [] False
        [Field ''ipv4'' c__be32,
         Field ''ipv6'' struct_in6_addr]),
      Field ''nhc_weight'' c_int,
      Field ''nhc_upper_bound'' atomic_t,
      Field ''nhc_pcpu_rth_output'' (CPtr ''struct rtable *''),
      Field ''nhc_rth_input'' (CPtr ''struct rtable''),
      Field ''nhc_exceptions'' (CPtr ''struct fnhe_hash_bucket'')]"

definition struct_fib6_nh :: cty where
  "struct_fib6_nh = CStruct ''fib6_nh'' False
     [Field ''nh_common'' struct_fib_nh_common,
      Field ''last_probe'' long_unsigned_int,
      Field ''rt6i_pcpu'' (CPtr ''struct rt6_info *''),
      Field ''rt6i_exception_bucket'' (CPtr ''struct rt6_exception_bucket'')]"

definition struct_fib6_info :: cty where
  "struct_fib6_info = CStruct ''fib6_info'' False
     [Field ''fib6_table'' (CPtr ''struct fib6_table''),
      Field ''fib6_next'' (CPtr ''struct fib6_info''),
      Field ''fib6_node'' (CPtr ''struct fib6_node''),
      Field [] (CUnion [] False
        [Field ''fib6_siblings'' struct_list_head,
         Field ''nh_list'' struct_list_head]),
      Field ''fib6_nsiblings'' unsigned_int,
      Field ''fib6_ref'' refcount_t,
      Field ''expires'' long_unsigned_int,
      Field ''gc_link'' struct_hlist_node,
      Field ''fib6_metrics'' (CPtr ''struct dst_metrics''),
      Field ''fib6_dst'' struct_rt6key,
      Field ''fib6_flags'' u32,
      Field ''fib6_src'' struct_rt6key,
      Field ''fib6_prefsrc'' struct_rt6key,
      Field ''fib6_metric'' u32,
      Field ''fib6_protocol'' u8,
      Field ''fib6_type'' u8,
      Field ''offload'' u8,
      Field ''trap'' u8,
      Field ''offload_failed'' u8,
      BitField ''should_flush'' u8 1,
      BitField ''dst_nocount'' u8 1,
      BitField ''dst_nopolicy'' u8 1,
      BitField ''fib6_destroying'' u8 1,
      BitField ''unused'' u8 4,
      Field ''purge_link'' struct_list_head,
      Field ''rcu'' struct_callback_head,
      Field ''nh'' (CPtr ''struct nexthop''),
      Field ''fib6_nh'' (CArr 0 struct_fib6_nh)]"

definition struct_fib6_node :: cty where
  "struct_fib6_node = CStruct ''fib6_node'' False
     [Field ''parent'' (CPtr ''struct fib6_node''),
      Field ''left'' (CPtr ''struct fib6_node''),
      Field ''right'' (CPtr ''struct fib6_node''),
      Field ''subtree'' (CPtr ''struct fib6_node''),
      Field ''leaf'' (CPtr ''struct fib6_info''),
      Field ''fn_bit'' c__u16,
      Field ''fn_flags'' c__u16,
      Field ''fn_sernum'' c_int,
      Field ''rr_ptr'' (CPtr ''struct fib6_info''),
      Field ''rcu'' struct_callback_head]"

definition struct_inet_peer_base :: cty where
  "struct_inet_peer_base = CStruct ''inet_peer_base'' False
     [Field ''rb_root'' struct_rb_root,
      Field ''lock'' seqlock_t,
      Field ''total'' c_int]"

definition struct_fib6_table :: cty where
  "struct_fib6_table = CStruct ''fib6_table'' False
     [Field ''tb6_hlist'' struct_hlist_node,
      Field ''tb6_id'' u32,
      Field ''tb6_lock'' spinlock_t,
      Field ''tb6_root'' struct_fib6_node,
      Field ''tb6_peers'' struct_inet_peer_base,
      Field ''flags'' unsigned_int,
      Field ''fib_seq'' unsigned_int,
      Field ''tb6_gc_hlist'' struct_hlist_head]"

definition struct_fib_notifier_ops :: cty where
  "struct_fib_notifier_ops = CStruct ''fib_notifier_ops'' False
     [Field ''family'' c_int,
      Field ''list'' struct_list_head,
      Field ''fib_seq_read'' (CPtr ''unsigned int (const struct net *)''),
      Field ''fib_dump'' (CPtr ''int (struct net *, struct notifier_block *, struct netlink_ext_ack *)''),
      Field ''owner'' (CPtr ''struct module''),
      Field ''rcu'' struct_callback_head]"

definition struct_fib_rules_ops :: cty where
  "struct_fib_rules_ops = CStruct ''fib_rules_ops'' False
     [Field ''family'' c_int,
      Field ''list'' struct_list_head,
      Field ''rule_size'' c_int,
      Field ''addr_size'' c_int,
      Field ''unresolved_rules'' c_int,
      Field ''nr_goto_rules'' c_int,
      Field ''fib_rules_seq'' unsigned_int,
      Field ''action'' (CPtr ''int (struct fib_rule *, struct flowi *, int, struct fib_lookup_arg *)''),
      Field ''suppress'' (CPtr ''bool (struct fib_rule *, int, struct fib_lookup_arg *)''),
      Field ''match'' (CPtr ''int (struct fib_rule *, struct flowi *, int)''),
      Field ''configure'' (CPtr ''int (struct fib_rule *, struct sk_buff *, struct fib_rule_hdr *, struct nlattr **, struct netlink_ext_ack *)''),
      Field ''delete'' (CPtr ''int (struct fib_rule *)''),
      Field ''compare'' (CPtr ''int (struct fib_rule *, struct fib_rule_hdr *, struct nlattr **)''),
      Field ''fill'' (CPtr ''int (struct fib_rule *, struct sk_buff *, struct fib_rule_hdr *)''),
      Field ''nlmsg_payload'' (CPtr ''size_t (struct fib_rule *)''),
      Field ''flush_cache'' (CPtr ''void (struct fib_rules_ops *)''),
      Field ''nlgroup'' c_int,
      Field ''rules_list'' struct_list_head,
      Field ''owner'' (CPtr ''struct module''),
      Field ''fro_net'' (CPtr ''struct net''),
      Field ''rcu'' struct_callback_head]"

definition struct_fib_table :: cty where
  "struct_fib_table = CStruct ''fib_table'' False
     [Field ''tb_hlist'' struct_hlist_node,
      Field ''tb_id'' u32,
      Field ''tb_num_default'' c_int,
      Field ''rcu'' struct_callback_head,
      Field ''tb_data'' (CPtr ''long unsigned int''),
      Field ''__data'' (CArr 0 long_unsigned_int)]"

definition struct___filename_head :: cty where
  "struct___filename_head = CStruct ''__filename_head'' False
     [Field ''name'' (CPtr ''const char''),
      Field ''refcnt'' c_int,
      Field ''aname'' (CPtr ''struct audit_names'')]"

definition struct_filename :: cty where
  "struct_filename = CStruct ''filename'' False
     [Field [] struct___filename_head,
      Field ''iname'' (CArr 168 c_char)]"

definition rht_hashfn_t :: cty where [layout_simps]:
  "rht_hashfn_t = CPtr ''u32 (const void *, u32, u32)''"

definition rht_obj_hashfn_t :: cty where [layout_simps]:
  "rht_obj_hashfn_t = CPtr ''u32 (const void *, u32, u32)''"

definition rht_obj_cmpfn_t :: cty where [layout_simps]:
  "rht_obj_cmpfn_t = CPtr ''int (struct rhashtable_compare_arg *, const void *)''"

definition struct_rhashtable_params :: cty where
  "struct_rhashtable_params = CStruct ''rhashtable_params'' False
     [Field ''nelem_hint'' u16,
      Field ''key_len'' u16,
      Field ''key_offset'' u16,
      Field ''head_offset'' u16,
      Field ''max_size'' unsigned_int,
      Field ''min_size'' u16,
      Field ''automatic_shrinking'' bool,
      Field ''hashfn'' rht_hashfn_t,
      Field ''obj_hashfn'' rht_obj_hashfn_t,
      Field ''obj_cmpfn'' rht_obj_cmpfn_t]"

definition struct_rhashtable :: cty where
  "struct_rhashtable = CStruct ''rhashtable'' False
     [Field ''tbl'' (CPtr ''struct bucket_table''),
      Field ''key_len'' unsigned_int,
      Field ''max_elems'' unsigned_int,
      Field ''p'' struct_rhashtable_params,
      Field ''rhlist'' bool,
      Field ''run_work'' struct_work_struct,
      Field ''mutex'' struct_mutex,
      Field ''lock'' spinlock_t,
      Field ''nelems'' atomic_t]"

definition struct_fqdir :: cty where
  "struct_fqdir = CStruct ''fqdir'' False
     [Field ''high_thresh'' c_long,
      Field ''low_thresh'' c_long,
      Field ''timeout'' c_int,
      Field ''max_dist'' c_int,
      Field ''f'' (CPtr ''struct inet_frags''),
      Field ''net'' (CPtr ''struct net''),
      Field ''dead'' bool,
      BitField [] c_long 64,
      BitField [] c_long 64,
      Field ''rhashtable'' struct_rhashtable,
      BitField [] c_long 64,
      BitField [] c_long 64,
      BitField [] c_long 64,
      BitField [] c_long 64,
      BitField [] c_long 64,
      BitField [] c_long 64,
      BitField [] c_long 64,
      Field ''mem'' atomic_long_t,
      Field ''destroy_work'' struct_work_struct,
      Field ''free_list'' struct_llist_node,
      BitField [] c_long 64,
      BitField [] c_long 64]"

definition struct_fs_pin :: cty where
  "struct_fs_pin = CStruct ''fs_pin'' False
     [Field ''wait'' wait_queue_head_t,
      Field ''done'' c_int,
      Field ''s_list'' struct_hlist_node,
      Field ''m_list'' struct_hlist_node,
      Field ''kill'' (CPtr ''void (struct fs_pin *)'')]"

definition struct_callchain :: cty where
  "struct_callchain = CStruct ''callchain'' False
     [Field ''callsites'' (CArr 8 u32),
      Field ''sp_starts'' (CArr 8 u32),
      Field ''curframe'' u32]"

definition struct_func_instance :: cty where
  "struct_func_instance = CStruct ''func_instance'' False
     [Field ''hl_node'' struct_hlist_node,
      Field ''callchain'' struct_callchain,
      Field ''insn_cnt'' u32,
      Field ''updated'' bool,
      Field ''must_write_dropped'' bool,
      Field ''frames'' (CArr 8 (CPtr ''struct per_frame_masks'')),
      Field ''must_write_set'' (CPtr ''bool'')]"

definition struct_fwnode_operations :: cty where
  "struct_fwnode_operations = CStruct ''fwnode_operations'' False
     [Field ''get'' (CPtr ''struct fwnode_handle * (struct fwnode_handle *)''),
      Field ''put'' (CPtr ''void (struct fwnode_handle *)''),
      Field ''device_is_available'' (CPtr ''bool (const struct fwnode_handle *)''),
      Field ''device_get_match_data'' (CPtr ''const void * (const struct fwnode_handle *, const struct device *)''),
      Field ''device_dma_supported'' (CPtr ''bool (const struct fwnode_handle *)''),
      Field ''device_get_dma_attr'' (CPtr ''enum dev_dma_attr (const struct fwnode_handle *)''),
      Field ''property_present'' (CPtr ''bool (const struct fwnode_handle *, const char *)''),
      Field ''property_read_bool'' (CPtr ''bool (const struct fwnode_handle *, const char *)''),
      Field ''property_read_int_array'' (CPtr ''int (const struct fwnode_handle *, const char *, unsigned int, void *, size_t)''),
      Field ''property_read_string_array'' (CPtr ''int (const struct fwnode_handle *, const char *, const char **, size_t)''),
      Field ''get_name'' (CPtr ''const char * (const struct fwnode_handle *)''),
      Field ''get_name_prefix'' (CPtr ''const char * (const struct fwnode_handle *)''),
      Field ''get_parent'' (CPtr ''struct fwnode_handle * (const struct fwnode_handle *)''),
      Field ''get_next_child_node'' (CPtr ''struct fwnode_handle * (const struct fwnode_handle *, struct fwnode_handle *)''),
      Field ''get_named_child_node'' (CPtr ''struct fwnode_handle * (const struct fwnode_handle *, const char *)''),
      Field ''get_reference_args'' (CPtr ''int (const struct fwnode_handle *, const char *, const char *, unsigned int, unsigned int, struct fwnode_reference_args *)''),
      Field ''graph_get_next_endpoint'' (CPtr ''struct fwnode_handle * (const struct fwnode_handle *, struct fwnode_handle *)''),
      Field ''graph_get_remote_endpoint'' (CPtr ''struct fwnode_handle * (const struct fwnode_handle *)''),
      Field ''graph_get_port_parent'' (CPtr ''struct fwnode_handle * (struct fwnode_handle *)''),
      Field ''graph_parse_endpoint'' (CPtr ''int (const struct fwnode_handle *, struct fwnode_endpoint *)''),
      Field ''iomap'' (CPtr ''void * (struct fwnode_handle *, int)''),
      Field ''irq_get'' (CPtr ''int (const struct fwnode_handle *, unsigned int)''),
      Field ''add_links'' (CPtr ''int (struct fwnode_handle *)'')]"

definition genpool_algo_t :: cty where [layout_simps]:
  "genpool_algo_t = CPtr ''long unsigned int (long unsigned int *, long unsigned int, long unsigned int, unsigned int, void *, struct gen_pool *, long unsigned int)''"

definition struct_gen_pool :: cty where
  "struct_gen_pool = CStruct ''gen_pool'' False
     [Field ''lock'' spinlock_t,
      Field ''chunks'' struct_list_head,
      Field ''min_alloc_order'' c_int,
      Field ''algo'' genpool_algo_t,
      Field ''data'' (CPtr ''void''),
      Field ''name'' (CPtr ''const char'')]"

definition struct_hotplug_slot :: cty where
  "struct_hotplug_slot = CStruct ''hotplug_slot'' False
     [Field ''ops'' (CPtr ''const struct hotplug_slot_ops''),
      Field ''pci_slot'' (CPtr ''struct pci_slot''),
      Field ''owner'' (CPtr ''struct module''),
      Field ''mod_name'' (CPtr ''const char'')]"

definition struct_hrtimer_cpu_base :: cty where
  "struct_hrtimer_cpu_base = CStruct ''hrtimer_cpu_base'' False
     [Field ''lock'' raw_spinlock_t,
      Field ''cpu'' unsigned_int,
      Field ''active_bases'' unsigned_int,
      Field ''clock_was_set_seq'' unsigned_int,
      BitField ''hres_active'' unsigned_int 1,
      BitField ''in_hrtirq'' unsigned_int 1,
      BitField ''hang_detected'' unsigned_int 1,
      BitField ''softirq_activated'' unsigned_int 1,
      BitField ''online'' unsigned_int 1,
      Field ''nr_events'' unsigned_int,
      Field ''nr_retries'' short_unsigned_int,
      Field ''nr_hangs'' short_unsigned_int,
      Field ''max_hang_time'' unsigned_int,
      Field ''expires_next'' ktime_t,
      Field ''next_timer'' (CPtr ''struct hrtimer''),
      Field ''softirq_expires_next'' ktime_t,
      Field ''softirq_next_timer'' (CPtr ''struct hrtimer''),
      Field ''clock_base'' (CArr 8 struct_hrtimer_clock_base),
      Field ''csd'' call_single_data_t,
      BitField [] c_long 64,
      BitField [] c_long 64,
      BitField [] c_long 64,
      BitField [] c_long 64]"

definition struct_i2c_adapter_quirks :: cty where
  "struct_i2c_adapter_quirks = CStruct ''i2c_adapter_quirks'' False
     [Field ''flags'' u64,
      Field ''max_num_msgs'' c_int,
      Field ''max_write_len'' u16,
      Field ''max_read_len'' u16,
      Field ''max_comb_1st_msg_len'' u16,
      Field ''max_comb_2nd_msg_len'' u16]"

definition struct_i2c_algorithm :: cty where
  "struct_i2c_algorithm = CStruct ''i2c_algorithm'' False
     [Field [] (CUnion [] False
        [Field ''xfer'' (CPtr ''int (struct i2c_adapter *, struct i2c_msg *, int)''),
         Field ''master_xfer'' (CPtr ''int (struct i2c_adapter *, struct i2c_msg *, int)'')]),
      Field [] (CUnion [] False
        [Field ''xfer_atomic'' (CPtr ''int (struct i2c_adapter *, struct i2c_msg *, int)''),
         Field ''master_xfer_atomic'' (CPtr ''int (struct i2c_adapter *, struct i2c_msg *, int)'')]),
      Field ''smbus_xfer'' (CPtr ''int (struct i2c_adapter *, u16, short unsigned int, char, u8, int, union i2c_smbus_data *)''),
      Field ''smbus_xfer_atomic'' (CPtr ''int (struct i2c_adapter *, u16, short unsigned int, char, u8, int, union i2c_smbus_data *)''),
      Field ''functionality'' (CPtr ''u32 (struct i2c_adapter *)''),
      Field [] (CUnion [] False
        [Field ''reg_target'' (CPtr ''int (struct i2c_client *)''),
         Field ''reg_slave'' (CPtr ''int (struct i2c_client *)'')]),
      Field [] (CUnion [] False
        [Field ''unreg_target'' (CPtr ''int (struct i2c_client *)''),
         Field ''unreg_slave'' (CPtr ''int (struct i2c_client *)'')])]"

definition struct_i2c_bus_recovery_info :: cty where
  "struct_i2c_bus_recovery_info = CStruct ''i2c_bus_recovery_info'' False
     [Field ''recover_bus'' (CPtr ''int (struct i2c_adapter *)''),
      Field ''get_scl'' (CPtr ''int (struct i2c_adapter *)''),
      Field ''set_scl'' (CPtr ''void (struct i2c_adapter *, int)''),
      Field ''get_sda'' (CPtr ''int (struct i2c_adapter *)''),
      Field ''set_sda'' (CPtr ''void (struct i2c_adapter *, int)''),
      Field ''get_bus_free'' (CPtr ''int (struct i2c_adapter *)''),
      Field ''prepare_recovery'' (CPtr ''void (struct i2c_adapter *)''),
      Field ''unprepare_recovery'' (CPtr ''void (struct i2c_adapter *)''),
      Field ''scl_gpiod'' (CPtr ''struct gpio_desc''),
      Field ''sda_gpiod'' (CPtr ''struct gpio_desc''),
      Field ''pinctrl'' (CPtr ''struct pinctrl''),
      Field ''pins_default'' (CPtr ''struct pinctrl_state''),
      Field ''pins_gpio'' (CPtr ''struct pinctrl_state'')]"

definition struct_i2c_lock_operations :: cty where
  "struct_i2c_lock_operations = CStruct ''i2c_lock_operations'' False
     [Field ''lock_bus'' (CPtr ''void (struct i2c_adapter *, unsigned int)''),
      Field ''trylock_bus'' (CPtr ''int (struct i2c_adapter *, unsigned int)''),
      Field ''unlock_bus'' (CPtr ''void (struct i2c_adapter *, unsigned int)'')]"

definition struct_icmp_mib :: cty where
  "struct_icmp_mib = CStruct ''icmp_mib'' False
     [Field ''mibs'' (CArr 30 long_unsigned_int)]"

definition struct_icmpmsg_mib :: cty where
  "struct_icmpmsg_mib = CStruct ''icmpmsg_mib'' False
     [Field ''mibs'' (CArr 512 atomic_long_t)]"

definition struct_icmpv6_mib :: cty where
  "struct_icmpv6_mib = CStruct ''icmpv6_mib'' False
     [Field ''mibs'' (CArr 7 long_unsigned_int)]"

definition struct_icmpv6msg_mib :: cty where
  "struct_icmpv6msg_mib = CStruct ''icmpv6msg_mib'' False
     [Field ''mibs'' (CArr 512 atomic_long_t)]"

definition struct_indication :: cty where
  "struct_indication = CStruct ''indication'' False
     [Field ''bit'' u32,
      Field ''name'' (CPtr ''const char'')]"

definition struct_inet_hashinfo :: cty where
  "struct_inet_hashinfo = CStruct ''inet_hashinfo'' False
     [Field ''ehash'' (CPtr ''struct inet_ehash_bucket''),
      Field ''ehash_locks'' (CPtr ''spinlock_t''),
      Field ''ehash_mask'' unsigned_int,
      Field ''ehash_locks_mask'' unsigned_int,
      Field ''bind_bucket_cachep'' (CPtr ''struct kmem_cache''),
      Field ''bhash'' (CPtr ''struct inet_bind_hashbucket''),
      Field ''bind2_bucket_cachep'' (CPtr ''struct kmem_cache''),
      Field ''bhash2'' (CPtr ''struct inet_bind_hashbucket''),
      Field ''bhash_size'' unsigned_int,
      Field ''lhash2_mask'' unsigned_int,
      Field ''lhash2'' (CPtr ''struct inet_listen_hashbucket''),
      Field ''pernet'' bool,
      BitField [] c_long 64,
      BitField [] c_long 64,
      BitField [] c_long 64,
      BitField [] c_long 64,
      BitField [] c_long 64,
      BitField [] c_long 64]"

section \<open>Sizes and alignments\<close>

lemma struct___kernel_sockaddr_storage_layout [layout_simps]:
  "sizeof struct___kernel_sockaddr_storage = 128 \<and> alignof struct___kernel_sockaddr_storage = 8 \<and> wf_cty struct___kernel_sockaddr_storage"
  by (simp add: struct___kernel_sockaddr_storage_def base_types layout_eval c__kernel_sa_family_t_def
      del: One_nat_def)

lemma enum_reftype_layout [layout_simps]:
  "sizeof enum_reftype = 4 \<and> alignof enum_reftype = 4 \<and> wf_cty enum_reftype"
  by (simp add: enum_reftype_def base_types layout_eval
      del: One_nat_def)

lemma struct_aa_common_ref_layout [layout_simps]:
  "sizeof struct_aa_common_ref = 8 \<and> alignof struct_aa_common_ref = 4 \<and> wf_cty struct_aa_common_ref"
  by (simp add: struct_aa_common_ref_def base_types layout_eval struct_kref_layout enum_reftype_layout
      del: One_nat_def)

lemma struct_aa_label_layout [layout_simps]:
  "sizeof struct_aa_label = 104 \<and> alignof struct_aa_label = 8 \<and> wf_cty struct_aa_label"
  by (simp add: struct_aa_label_def base_types layout_eval struct_aa_common_ref_layout struct_rb_node_layout
      struct_callback_head_layout u32_def c__u32_def u64_def c__u64_def
      del: One_nat_def)

lemma struct_arch_uprobe_layout [layout_simps]:
  "sizeof struct_arch_uprobe = 40 \<and> alignof struct_arch_uprobe = 8 \<and> wf_cty struct_arch_uprobe"
  by (simp add: struct_arch_uprobe_def base_types layout_eval u8_def c__u8_def s32_def c__s32_def
      del: One_nat_def)

lemma struct_audit_aux_data_layout [layout_simps]:
  "sizeof struct_audit_aux_data = 16 \<and> alignof struct_audit_aux_data = 8 \<and> wf_cty struct_audit_aux_data"
  by (simp add: struct_audit_aux_data_def base_types layout_eval
      del: One_nat_def)

lemma struct_audit_tree_refs_layout [layout_simps]:
  "sizeof struct_audit_tree_refs = 256 \<and> alignof struct_audit_tree_refs = 8 \<and> wf_cty struct_audit_tree_refs"
  by (simp add: struct_audit_tree_refs_def base_types layout_eval
      del: One_nat_def)

lemma struct_backlight_ops_layout [layout_simps]:
  "sizeof struct_backlight_ops = 32 \<and> alignof struct_backlight_ops = 8 \<and> wf_cty struct_backlight_ops"
  by (simp add: struct_backlight_ops_def base_types layout_eval
      del: One_nat_def)

lemma struct_binfmt_misc_layout [layout_simps]:
  "sizeof struct_binfmt_misc = 32 \<and> alignof struct_binfmt_misc = 8 \<and> wf_cty struct_binfmt_misc"
  by (simp add: struct_binfmt_misc_def base_types layout_eval struct_list_head_layout rwlock_t_def struct_rwlock_layout
      bool_def
      del: One_nat_def)

lemma enum_blk_crypto_mode_num_layout [layout_simps]:
  "sizeof enum_blk_crypto_mode_num = 4 \<and> alignof enum_blk_crypto_mode_num = 4 \<and> wf_cty enum_blk_crypto_mode_num"
  by (simp add: enum_blk_crypto_mode_num_def base_types layout_eval
      del: One_nat_def)

lemma enum_blk_crypto_key_type_layout [layout_simps]:
  "sizeof enum_blk_crypto_key_type = 4 \<and> alignof enum_blk_crypto_key_type = 4 \<and> wf_cty enum_blk_crypto_key_type"
  by (simp add: enum_blk_crypto_key_type_def base_types layout_eval
      del: One_nat_def)

lemma struct_blk_crypto_config_layout [layout_simps]:
  "sizeof struct_blk_crypto_config = 16 \<and> alignof struct_blk_crypto_config = 4 \<and> wf_cty struct_blk_crypto_config"
  by (simp add: struct_blk_crypto_config_def base_types layout_eval enum_blk_crypto_mode_num_layout
      enum_blk_crypto_key_type_layout
      del: One_nat_def)

lemma struct_blk_crypto_key_layout [layout_simps]:
  "sizeof struct_blk_crypto_key = 152 \<and> alignof struct_blk_crypto_key = 4 \<and> wf_cty struct_blk_crypto_key"
  by (simp add: struct_blk_crypto_key_def base_types layout_eval struct_blk_crypto_config_layout u8_def c__u8_def
      del: One_nat_def)

lemma struct_blk_crypto_keyslot_layout [layout_simps]:
  "sizeof struct_blk_crypto_keyslot = 56 \<and> alignof struct_blk_crypto_keyslot = 8 \<and> wf_cty struct_blk_crypto_keyslot"
  by (simp add: struct_blk_crypto_keyslot_def base_types layout_eval atomic_t_layout struct_list_head_layout
      struct_hlist_node_layout
      del: One_nat_def)

lemma struct_blk_mq_ctxs_layout [layout_simps]:
  "sizeof struct_blk_mq_ctxs = 72 \<and> alignof struct_blk_mq_ctxs = 8 \<and> wf_cty struct_blk_mq_ctxs"
  by (simp add: struct_blk_mq_ctxs_def base_types layout_eval struct_kobject_layout
      del: One_nat_def)

lemma struct_blkcg_layout [layout_simps]:
  "sizeof struct_blkcg = 480 \<and> alignof struct_blkcg = 8 \<and> wf_cty struct_blkcg"
  by (simp add: struct_blkcg_def base_types layout_eval struct_cgroup_subsys_state_layout spinlock_t_def
      struct_spinlock_layout refcount_t_def struct_refcount_struct_layout atomic_t_layout
      struct_xarray_layout struct_hlist_head_layout struct_list_head_layout
      del: One_nat_def)

lemma struct_blkg_policy_data_layout [layout_simps]:
  "sizeof struct_blkg_policy_data = 16 \<and> alignof struct_blkg_policy_data = 8 \<and> wf_cty struct_blkg_policy_data"
  by (simp add: struct_blkg_policy_data_def base_types layout_eval bool_def
      del: One_nat_def)

lemma struct_bpf_local_storage_map_layout [layout_simps]:
  "sizeof struct_bpf_local_storage_map = 312 \<and> alignof struct_bpf_local_storage_map = 8 \<and> wf_cty struct_bpf_local_storage_map"
  by (simp add: struct_bpf_local_storage_map_def base_types layout_eval struct_bpf_map_layout u32_def c__u32_def u16_def
      c__u16_def bool_def
      del: One_nat_def)

lemma enum_ref_state_type_layout [layout_simps]:
  "sizeof enum_ref_state_type = 4 \<and> alignof enum_ref_state_type = 4 \<and> wf_cty enum_ref_state_type"
  by (simp add: enum_ref_state_type_def base_types layout_eval
      del: One_nat_def)

lemma struct_bpf_reference_state_layout [layout_simps]:
  "sizeof struct_bpf_reference_state = 24 \<and> alignof struct_bpf_reference_state = 8 \<and> wf_cty struct_bpf_reference_state"
  by (simp add: struct_bpf_reference_state_def base_types layout_eval enum_ref_state_type_layout
      del: One_nat_def)

lemma struct_bpf_scc_backedge_layout [layout_simps]:
  "sizeof struct_bpf_scc_backedge = 176 \<and> alignof struct_bpf_scc_backedge = 8 \<and> wf_cty struct_bpf_scc_backedge"
  by (simp add: struct_bpf_scc_backedge_def base_types layout_eval struct_bpf_verifier_state_layout
      del: One_nat_def)

lemma struct_bpf_struct_ops_arg_info_layout [layout_simps]:
  "sizeof struct_bpf_struct_ops_arg_info = 16 \<and> alignof struct_bpf_struct_ops_arg_info = 8 \<and> wf_cty struct_bpf_struct_ops_arg_info"
  by (simp add: struct_bpf_struct_ops_arg_info_def base_types layout_eval u32_def c__u32_def
      del: One_nat_def)

lemma struct_btf_id_set8_layout [layout_simps]:
  "sizeof struct_btf_id_set8 = 8 \<and> alignof struct_btf_id_set8 = 4 \<and> wf_cty struct_btf_id_set8"
  by (simp add: struct_btf_id_set8_def base_types layout_eval u32_def c__u32_def
      del: One_nat_def)

lemma struct_cdrom_device_ops_layout [layout_simps]:
  "sizeof struct_cdrom_device_ops = 112 \<and> alignof struct_cdrom_device_ops = 8 \<and> wf_cty struct_cdrom_device_ops"
  by (simp add: struct_cdrom_device_ops_def base_types layout_eval
      del: One_nat_def)

lemma struct_cftype_layout [layout_simps]:
  "sizeof struct_cftype = 216 \<and> alignof struct_cftype = 8 \<and> wf_cty struct_cftype"
  by (simp add: struct_cftype_def base_types layout_eval size_t_def c__kernel_size_t_def c__kernel_ulong_t_def
      struct_list_head_layout struct_lock_class_key_layout
      del: One_nat_def)

lemma struct_cgroup_namespace_layout [layout_simps]:
  "sizeof struct_cgroup_namespace = 320 \<and> alignof struct_cgroup_namespace = 8 \<and> wf_cty struct_cgroup_namespace"
  by (simp add: struct_cgroup_namespace_def base_types layout_eval struct_ns_common_layout
      del: One_nat_def)

lemma struct_cma_kobject_layout [layout_simps]:
  "sizeof struct_cma_kobject = 72 \<and> alignof struct_cma_kobject = 8 \<and> wf_cty struct_cma_kobject"
  by (simp add: struct_cma_kobject_def base_types layout_eval struct_kobject_layout
      del: One_nat_def)

lemma enum_migrate_mode_layout [layout_simps]:
  "sizeof enum_migrate_mode = 4 \<and> alignof enum_migrate_mode = 4 \<and> wf_cty enum_migrate_mode"
  by (simp add: enum_migrate_mode_def base_types layout_eval
      del: One_nat_def)

lemma struct_compact_control_layout [layout_simps]:
  "sizeof struct_compact_control = 288 \<and> alignof struct_compact_control = 8 \<and> wf_cty struct_compact_control"
  by (simp add: struct_compact_control_def base_types layout_eval struct_list_head_layout gfp_t_def
      enum_migrate_mode_layout bool_def
      del: One_nat_def)

lemma struct_cpu_stop_done_layout [layout_simps]:
  "sizeof struct_cpu_stop_done = 40 \<and> alignof struct_cpu_stop_done = 8 \<and> wf_cty struct_cpu_stop_done"
  by (simp add: struct_cpu_stop_done_def base_types layout_eval atomic_t_layout struct_completion_layout
      del: One_nat_def)

lemma struct_cpuidle_state_layout [layout_simps]:
  "sizeof struct_cpuidle_state = 104 \<and> alignof struct_cpuidle_state = 8 \<and> wf_cty struct_cpuidle_state"
  by (simp add: struct_cpuidle_state_def base_types layout_eval s64_def c__s64_def
      del: One_nat_def)

lemma struct_ctl_node_layout [layout_simps]:
  "sizeof struct_ctl_node = 32 \<and> alignof struct_ctl_node = 8 \<and> wf_cty struct_ctl_node"
  by (simp add: struct_ctl_node_def base_types layout_eval struct_rb_node_layout
      del: One_nat_def)

lemma struct_ctl_table_layout [layout_simps]:
  "sizeof struct_ctl_table = 56 \<and> alignof struct_ctl_table = 8 \<and> wf_cty struct_ctl_table"
  by (simp add: struct_ctl_table_def base_types layout_eval umode_t_def
      del: One_nat_def)

lemma struct_ctl_table_root_layout [layout_simps]:
  "sizeof struct_ctl_table_root = 128 \<and> alignof struct_ctl_table_root = 8 \<and> wf_cty struct_ctl_table_root"
  by (simp add: struct_ctl_table_root_def base_types layout_eval struct_ctl_table_set_layout
      del: One_nat_def)

lemma struct_dev_pagemap_ops_layout [layout_simps]:
  "sizeof struct_dev_pagemap_ops = 32 \<and> alignof struct_dev_pagemap_ops = 8 \<and> wf_cty struct_dev_pagemap_ops"
  by (simp add: struct_dev_pagemap_ops_def base_types layout_eval
      del: One_nat_def)

lemma enum_dev_pm_qos_req_type_layout [layout_simps]:
  "sizeof enum_dev_pm_qos_req_type = 4 \<and> alignof enum_dev_pm_qos_req_type = 4 \<and> wf_cty enum_dev_pm_qos_req_type"
  by (simp add: enum_dev_pm_qos_req_type_def base_types layout_eval
      del: One_nat_def)

lemma struct_pm_qos_flags_request_layout [layout_simps]:
  "sizeof struct_pm_qos_flags_request = 24 \<and> alignof struct_pm_qos_flags_request = 8 \<and> wf_cty struct_pm_qos_flags_request"
  by (simp add: struct_pm_qos_flags_request_def base_types layout_eval struct_list_head_layout s32_def c__s32_def
      del: One_nat_def)

lemma enum_freq_qos_req_type_layout [layout_simps]:
  "sizeof enum_freq_qos_req_type = 4 \<and> alignof enum_freq_qos_req_type = 4 \<and> wf_cty enum_freq_qos_req_type"
  by (simp add: enum_freq_qos_req_type_def base_types layout_eval
      del: One_nat_def)

lemma struct_freq_qos_request_layout [layout_simps]:
  "sizeof struct_freq_qos_request = 56 \<and> alignof struct_freq_qos_request = 8 \<and> wf_cty struct_freq_qos_request"
  by (simp add: struct_freq_qos_request_def base_types layout_eval enum_freq_qos_req_type_layout struct_plist_node_layout
      del: One_nat_def)

lemma struct_dev_pm_qos_request_layout [layout_simps]:
  "sizeof struct_dev_pm_qos_request = 72 \<and> alignof struct_dev_pm_qos_request = 8 \<and> wf_cty struct_dev_pm_qos_request"
  by (simp add: struct_dev_pm_qos_request_def base_types layout_eval enum_dev_pm_qos_req_type_layout
      struct_plist_node_layout struct_pm_qos_flags_request_layout struct_freq_qos_request_layout
      del: One_nat_def)

lemma enum_drm_colorop_curve_1d_type_layout [layout_simps]:
  "sizeof enum_drm_colorop_curve_1d_type = 4 \<and> alignof enum_drm_colorop_curve_1d_type = 4 \<and> wf_cty enum_drm_colorop_curve_1d_type"
  by (simp add: enum_drm_colorop_curve_1d_type_def base_types layout_eval
      del: One_nat_def)

lemma struct_drm_colorop_state_layout [layout_simps]:
  "sizeof struct_drm_colorop_state = 40 \<and> alignof struct_drm_colorop_state = 8 \<and> wf_cty struct_drm_colorop_state"
  by (simp add: struct_drm_colorop_state_def base_types layout_eval bool_def enum_drm_colorop_curve_1d_type_layout
      uint64_t_def u64_def c__u64_def
      del: One_nat_def)

lemma struct_drm_privacy_screen_ops_layout [layout_simps]:
  "sizeof struct_drm_privacy_screen_ops = 16 \<and> alignof struct_drm_privacy_screen_ops = 8 \<and> wf_cty struct_drm_privacy_screen_ops"
  by (simp add: struct_drm_privacy_screen_ops_def base_types layout_eval
      del: One_nat_def)

lemma struct_drm_writeback_connector_layout [layout_simps]:
  "sizeof struct_drm_writeback_connector = 2488 \<and> alignof struct_drm_writeback_connector = 8 \<and> wf_cty struct_drm_writeback_connector"
  by (simp add: struct_drm_writeback_connector_def base_types layout_eval struct_drm_connector_layout
      struct_drm_encoder_layout spinlock_t_def struct_spinlock_layout struct_list_head_layout
      del: One_nat_def)

lemma struct_drm_edid_product_id_layout [layout_simps]:
  "sizeof struct_drm_edid_product_id = 10 \<and> alignof struct_drm_edid_product_id = 1 \<and> wf_cty struct_drm_edid_product_id"
  by (simp add: struct_drm_edid_product_id_def base_types layout_eval c__be16_def c__u16_def c__le16_def c__le32_def
      c__u32_def u8_def c__u8_def
      del: One_nat_def)

lemma struct_est_timings_layout [layout_simps]:
  "sizeof struct_est_timings = 3 \<and> alignof struct_est_timings = 1 \<and> wf_cty struct_est_timings"
  by (simp add: struct_est_timings_def base_types layout_eval u8_def c__u8_def
      del: One_nat_def)

lemma struct_std_timing_layout [layout_simps]:
  "sizeof struct_std_timing = 2 \<and> alignof struct_std_timing = 1 \<and> wf_cty struct_std_timing"
  by (simp add: struct_std_timing_def base_types layout_eval u8_def c__u8_def
      del: One_nat_def)

lemma struct_detailed_pixel_timing_layout [layout_simps]:
  "sizeof struct_detailed_pixel_timing = 16 \<and> alignof struct_detailed_pixel_timing = 1 \<and> wf_cty struct_detailed_pixel_timing"
  by (simp add: struct_detailed_pixel_timing_def base_types layout_eval u8_def c__u8_def
      del: One_nat_def)

lemma struct_detailed_data_string_layout [layout_simps]:
  "sizeof struct_detailed_data_string = 13 \<and> alignof struct_detailed_data_string = 1 \<and> wf_cty struct_detailed_data_string"
  by (simp add: struct_detailed_data_string_def base_types layout_eval u8_def c__u8_def
      del: One_nat_def)

lemma struct_detailed_data_monitor_range_layout [layout_simps]:
  "sizeof struct_detailed_data_monitor_range = 13 \<and> alignof struct_detailed_data_monitor_range = 1 \<and> wf_cty struct_detailed_data_monitor_range"
  by (simp add: struct_detailed_data_monitor_range_def base_types layout_eval u8_def c__u8_def c__le16_def c__u16_def
      del: One_nat_def)

lemma struct_detailed_data_wpindex_layout [layout_simps]:
  "sizeof struct_detailed_data_wpindex = 4 \<and> alignof struct_detailed_data_wpindex = 1 \<and> wf_cty struct_detailed_data_wpindex"
  by (simp add: struct_detailed_data_wpindex_def base_types layout_eval u8_def c__u8_def
      del: One_nat_def)

lemma struct_cvt_timing_layout [layout_simps]:
  "sizeof struct_cvt_timing = 3 \<and> alignof struct_cvt_timing = 1 \<and> wf_cty struct_cvt_timing"
  by (simp add: struct_cvt_timing_def base_types layout_eval u8_def c__u8_def
      del: One_nat_def)

lemma struct_detailed_non_pixel_layout [layout_simps]:
  "sizeof struct_detailed_non_pixel = 16 \<and> alignof struct_detailed_non_pixel = 1 \<and> wf_cty struct_detailed_non_pixel"
  by (simp add: struct_detailed_non_pixel_def base_types layout_eval u8_def c__u8_def struct_detailed_data_string_layout
      struct_detailed_data_monitor_range_layout struct_detailed_data_wpindex_layout
      struct_std_timing_layout struct_cvt_timing_layout
      del: One_nat_def)

lemma struct_detailed_timing_layout [layout_simps]:
  "sizeof struct_detailed_timing = 18 \<and> alignof struct_detailed_timing = 2 \<and> wf_cty struct_detailed_timing"
  by (simp add: struct_detailed_timing_def base_types layout_eval c__le16_def c__u16_def
      struct_detailed_pixel_timing_layout struct_detailed_non_pixel_layout
      del: One_nat_def)

lemma struct_edid_layout [layout_simps]:
  "sizeof struct_edid = 128 \<and> alignof struct_edid = 2 \<and> wf_cty struct_edid"
  by (simp add: struct_edid_def base_types layout_eval u8_def c__u8_def struct_drm_edid_product_id_layout u32_def
      c__u32_def struct_est_timings_layout struct_std_timing_layout struct_detailed_timing_layout
      del: One_nat_def)

lemma struct_elevator_tags_layout [layout_simps]:
  "sizeof struct_elevator_tags = 8 \<and> alignof struct_elevator_tags = 8 \<and> wf_cty struct_elevator_tags"
  by (simp add: struct_elevator_tags_def base_types layout_eval
      del: One_nat_def)

lemma struct_elevator_mq_ops_layout [layout_simps]:
  "sizeof struct_elevator_mq_ops = 192 \<and> alignof struct_elevator_mq_ops = 8 \<and> wf_cty struct_elevator_mq_ops"
  by (simp add: struct_elevator_mq_ops_def base_types layout_eval
      del: One_nat_def)

lemma struct_elevator_type_layout [layout_simps]:
  "sizeof struct_elevator_type = 304 \<and> alignof struct_elevator_type = 8 \<and> wf_cty struct_elevator_type"
  by (simp add: struct_elevator_type_def base_types layout_eval struct_elevator_mq_ops_layout size_t_def
      c__kernel_size_t_def c__kernel_ulong_t_def struct_list_head_layout
      del: One_nat_def)

lemma struct_em_perf_state_layout [layout_simps]:
  "sizeof struct_em_perf_state = 40 \<and> alignof struct_em_perf_state = 8 \<and> wf_cty struct_em_perf_state"
  by (simp add: struct_em_perf_state_def base_types layout_eval
      del: One_nat_def)

lemma struct_em_perf_table_layout [layout_simps]:
  "sizeof struct_em_perf_table = 24 \<and> alignof struct_em_perf_table = 8 \<and> wf_cty struct_em_perf_table"
  by (simp add: struct_em_perf_table_def base_types layout_eval struct_callback_head_layout struct_kref_layout
      struct_em_perf_state_layout
      del: One_nat_def)

lemma struct_fb_deferred_io_pageref_layout [layout_simps]:
  "sizeof struct_fb_deferred_io_pageref = 32 \<and> alignof struct_fb_deferred_io_pageref = 8 \<and> wf_cty struct_fb_deferred_io_pageref"
  by (simp add: struct_fb_deferred_io_pageref_def base_types layout_eval struct_list_head_layout
      del: One_nat_def)

lemma struct_fb_deferred_io_state_layout [layout_simps]:
  "sizeof struct_fb_deferred_io_state = 48 \<and> alignof struct_fb_deferred_io_state = 8 \<and> wf_cty struct_fb_deferred_io_state"
  by (simp add: struct_fb_deferred_io_state_def base_types layout_eval struct_kref_layout struct_mutex_layout
      del: One_nat_def)

lemma struct_fb_ops_layout [layout_simps]:
  "sizeof struct_fb_ops = 168 \<and> alignof struct_fb_ops = 8 \<and> wf_cty struct_fb_ops"
  by (simp add: struct_fb_ops_def base_types layout_eval
      del: One_nat_def)

lemma struct_fb_tile_ops_layout [layout_simps]:
  "sizeof struct_fb_tile_ops = 48 \<and> alignof struct_fb_tile_ops = 8 \<and> wf_cty struct_fb_tile_ops"
  by (simp add: struct_fb_tile_ops_def base_types layout_eval
      del: One_nat_def)

lemma struct_fb_videomode_layout [layout_simps]:
  "sizeof struct_fb_videomode = 64 \<and> alignof struct_fb_videomode = 8 \<and> wf_cty struct_fb_videomode"
  by (simp add: struct_fb_videomode_def base_types layout_eval u32_def c__u32_def
      del: One_nat_def)

lemma struct_fbcurpos_layout [layout_simps]:
  "sizeof struct_fbcurpos = 4 \<and> alignof struct_fbcurpos = 2 \<and> wf_cty struct_fbcurpos"
  by (simp add: struct_fbcurpos_def base_types layout_eval c__u16_def
      del: One_nat_def)

lemma struct_fb_image_layout [layout_simps]:
  "sizeof struct_fb_image = 80 \<and> alignof struct_fb_image = 8 \<and> wf_cty struct_fb_image"
  by (simp add: struct_fb_image_def base_types layout_eval c__u32_def c__u8_def struct_fb_cmap_layout
      del: One_nat_def)

lemma struct_fb_cursor_layout [layout_simps]:
  "sizeof struct_fb_cursor = 104 \<and> alignof struct_fb_cursor = 8 \<and> wf_cty struct_fb_cursor"
  by (simp add: struct_fb_cursor_def base_types layout_eval c__u16_def struct_fbcurpos_layout struct_fb_image_layout
      del: One_nat_def)

lemma struct_fbcon_par_layout [layout_simps]:
  "sizeof struct_fbcon_par = 456 \<and> alignof struct_fbcon_par = 8 \<and> wf_cty struct_fbcon_par"
  by (simp add: struct_fbcon_par_def base_types layout_eval struct_fb_var_screeninfo_layout struct_delayed_work_layout
      struct_fb_cursor_layout bool_def u32_def c__u32_def
      del: One_nat_def)

lemma struct_rt6key_layout [layout_simps]:
  "sizeof struct_rt6key = 20 \<and> alignof struct_rt6key = 4 \<and> wf_cty struct_rt6key"
  by (simp add: struct_rt6key_def base_types layout_eval struct_in6_addr_layout
      del: One_nat_def)

lemma netdevice_tracker_layout [layout_simps]:
  "sizeof netdevice_tracker = 0 \<and> alignof netdevice_tracker = 1 \<and> wf_cty netdevice_tracker"
  by (simp add: netdevice_tracker_def base_types layout_eval
      del: One_nat_def)

lemma struct_fib_nh_common_layout [layout_simps]:
  "sizeof struct_fib_nh_common = 72 \<and> alignof struct_fib_nh_common = 8 \<and> wf_cty struct_fib_nh_common"
  by (simp add: struct_fib_nh_common_def base_types layout_eval netdevice_tracker_layout u8_def c__u8_def c__be32_def
      c__u32_def struct_in6_addr_layout atomic_t_layout
      del: One_nat_def)

lemma struct_fib6_nh_layout [layout_simps]:
  "sizeof struct_fib6_nh = 96 \<and> alignof struct_fib6_nh = 8 \<and> wf_cty struct_fib6_nh"
  by (simp add: struct_fib6_nh_def base_types layout_eval struct_fib_nh_common_layout
      del: One_nat_def)

lemma struct_fib6_info_layout [layout_simps]:
  "sizeof struct_fib6_info = 200 \<and> alignof struct_fib6_info = 8 \<and> wf_cty struct_fib6_info"
  by (simp add: struct_fib6_info_def base_types layout_eval struct_list_head_layout refcount_t_def
      struct_refcount_struct_layout struct_hlist_node_layout struct_rt6key_layout u32_def c__u32_def
      u8_def c__u8_def struct_callback_head_layout struct_fib6_nh_layout
      del: One_nat_def)

lemma struct_fib6_node_layout [layout_simps]:
  "sizeof struct_fib6_node = 72 \<and> alignof struct_fib6_node = 8 \<and> wf_cty struct_fib6_node"
  by (simp add: struct_fib6_node_def base_types layout_eval c__u16_def struct_callback_head_layout
      del: One_nat_def)

lemma struct_inet_peer_base_layout [layout_simps]:
  "sizeof struct_inet_peer_base = 24 \<and> alignof struct_inet_peer_base = 8 \<and> wf_cty struct_inet_peer_base"
  by (simp add: struct_inet_peer_base_def base_types layout_eval struct_rb_root_layout seqlock_t_def
      struct_seqlock_layout
      del: One_nat_def)

lemma struct_fib6_table_layout [layout_simps]:
  "sizeof struct_fib6_table = 136 \<and> alignof struct_fib6_table = 8 \<and> wf_cty struct_fib6_table"
  by (simp add: struct_fib6_table_def base_types layout_eval struct_hlist_node_layout u32_def c__u32_def spinlock_t_def
      struct_spinlock_layout struct_fib6_node_layout struct_inet_peer_base_layout
      struct_hlist_head_layout
      del: One_nat_def)

lemma struct_fib_notifier_ops_layout [layout_simps]:
  "sizeof struct_fib_notifier_ops = 64 \<and> alignof struct_fib_notifier_ops = 8 \<and> wf_cty struct_fib_notifier_ops"
  by (simp add: struct_fib_notifier_ops_def base_types layout_eval struct_list_head_layout struct_callback_head_layout
      del: One_nat_def)

lemma struct_fib_rules_ops_layout [layout_simps]:
  "sizeof struct_fib_rules_ops = 176 \<and> alignof struct_fib_rules_ops = 8 \<and> wf_cty struct_fib_rules_ops"
  by (simp add: struct_fib_rules_ops_def base_types layout_eval struct_list_head_layout struct_callback_head_layout
      del: One_nat_def)

lemma struct_fib_table_layout [layout_simps]:
  "sizeof struct_fib_table = 48 \<and> alignof struct_fib_table = 8 \<and> wf_cty struct_fib_table"
  by (simp add: struct_fib_table_def base_types layout_eval struct_hlist_node_layout u32_def c__u32_def
      struct_callback_head_layout
      del: One_nat_def)

lemma struct___filename_head_layout [layout_simps]:
  "sizeof struct___filename_head = 24 \<and> alignof struct___filename_head = 8 \<and> wf_cty struct___filename_head"
  by (simp add: struct___filename_head_def base_types layout_eval
      del: One_nat_def)

lemma struct_filename_layout [layout_simps]:
  "sizeof struct_filename = 192 \<and> alignof struct_filename = 8 \<and> wf_cty struct_filename"
  by (simp add: struct_filename_def base_types layout_eval struct___filename_head_layout
      del: One_nat_def)

lemma struct_rhashtable_params_layout [layout_simps]:
  "sizeof struct_rhashtable_params = 40 \<and> alignof struct_rhashtable_params = 8 \<and> wf_cty struct_rhashtable_params"
  by (simp add: struct_rhashtable_params_def base_types layout_eval u16_def c__u16_def bool_def rht_hashfn_t_def
      rht_obj_hashfn_t_def rht_obj_cmpfn_t_def
      del: One_nat_def)

lemma struct_rhashtable_layout [layout_simps]:
  "sizeof struct_rhashtable = 136 \<and> alignof struct_rhashtable = 8 \<and> wf_cty struct_rhashtable"
  by (simp add: struct_rhashtable_def base_types layout_eval struct_rhashtable_params_layout bool_def
      struct_work_struct_layout struct_mutex_layout spinlock_t_def struct_spinlock_layout atomic_t_layout
      del: One_nat_def)

lemma struct_fqdir_layout [layout_simps]:
  "sizeof struct_fqdir = 320 \<and> alignof struct_fqdir = 8 \<and> wf_cty struct_fqdir"
  by (simp add: struct_fqdir_def base_types layout_eval bool_def struct_rhashtable_layout atomic_long_t_def
      atomic64_t_layout struct_work_struct_layout struct_llist_node_layout
      del: One_nat_def)

lemma struct_fs_pin_layout [layout_simps]:
  "sizeof struct_fs_pin = 72 \<and> alignof struct_fs_pin = 8 \<and> wf_cty struct_fs_pin"
  by (simp add: struct_fs_pin_def base_types layout_eval wait_queue_head_t_def struct_wait_queue_head_layout
      struct_hlist_node_layout
      del: One_nat_def)

lemma struct_callchain_layout [layout_simps]:
  "sizeof struct_callchain = 68 \<and> alignof struct_callchain = 4 \<and> wf_cty struct_callchain"
  by (simp add: struct_callchain_def base_types layout_eval u32_def c__u32_def
      del: One_nat_def)

lemma struct_func_instance_layout [layout_simps]:
  "sizeof struct_func_instance = 168 \<and> alignof struct_func_instance = 8 \<and> wf_cty struct_func_instance"
  by (simp add: struct_func_instance_def base_types layout_eval struct_hlist_node_layout struct_callchain_layout u32_def
      c__u32_def bool_def
      del: One_nat_def)

lemma struct_fwnode_operations_layout [layout_simps]:
  "sizeof struct_fwnode_operations = 184 \<and> alignof struct_fwnode_operations = 8 \<and> wf_cty struct_fwnode_operations"
  by (simp add: struct_fwnode_operations_def base_types layout_eval
      del: One_nat_def)

lemma struct_gen_pool_layout [layout_simps]:
  "sizeof struct_gen_pool = 56 \<and> alignof struct_gen_pool = 8 \<and> wf_cty struct_gen_pool"
  by (simp add: struct_gen_pool_def base_types layout_eval spinlock_t_def struct_spinlock_layout struct_list_head_layout
      genpool_algo_t_def
      del: One_nat_def)

lemma struct_hotplug_slot_layout [layout_simps]:
  "sizeof struct_hotplug_slot = 32 \<and> alignof struct_hotplug_slot = 8 \<and> wf_cty struct_hotplug_slot"
  by (simp add: struct_hotplug_slot_def base_types layout_eval
      del: One_nat_def)

lemma struct_hrtimer_cpu_base_layout [layout_simps]:
  "sizeof struct_hrtimer_cpu_base = 640 \<and> alignof struct_hrtimer_cpu_base = 8 \<and> wf_cty struct_hrtimer_cpu_base"
  by (simp add: struct_hrtimer_cpu_base_def base_types layout_eval raw_spinlock_t_def struct_raw_spinlock_layout
      ktime_t_def s64_def c__s64_def struct_hrtimer_clock_base_layout call_single_data_t_def
      struct___call_single_data_layout
      del: One_nat_def)

lemma struct_i2c_adapter_quirks_layout [layout_simps]:
  "sizeof struct_i2c_adapter_quirks = 24 \<and> alignof struct_i2c_adapter_quirks = 8 \<and> wf_cty struct_i2c_adapter_quirks"
  by (simp add: struct_i2c_adapter_quirks_def base_types layout_eval u64_def c__u64_def u16_def c__u16_def
      del: One_nat_def)

lemma struct_i2c_algorithm_layout [layout_simps]:
  "sizeof struct_i2c_algorithm = 56 \<and> alignof struct_i2c_algorithm = 8 \<and> wf_cty struct_i2c_algorithm"
  by (simp add: struct_i2c_algorithm_def base_types layout_eval
      del: One_nat_def)

lemma struct_i2c_bus_recovery_info_layout [layout_simps]:
  "sizeof struct_i2c_bus_recovery_info = 104 \<and> alignof struct_i2c_bus_recovery_info = 8 \<and> wf_cty struct_i2c_bus_recovery_info"
  by (simp add: struct_i2c_bus_recovery_info_def base_types layout_eval
      del: One_nat_def)

lemma struct_i2c_lock_operations_layout [layout_simps]:
  "sizeof struct_i2c_lock_operations = 24 \<and> alignof struct_i2c_lock_operations = 8 \<and> wf_cty struct_i2c_lock_operations"
  by (simp add: struct_i2c_lock_operations_def base_types layout_eval
      del: One_nat_def)

lemma struct_icmp_mib_layout [layout_simps]:
  "sizeof struct_icmp_mib = 240 \<and> alignof struct_icmp_mib = 8 \<and> wf_cty struct_icmp_mib"
  by (simp add: struct_icmp_mib_def base_types layout_eval
      del: One_nat_def)

lemma struct_icmpmsg_mib_layout [layout_simps]:
  "sizeof struct_icmpmsg_mib = 4096 \<and> alignof struct_icmpmsg_mib = 8 \<and> wf_cty struct_icmpmsg_mib"
  by (simp add: struct_icmpmsg_mib_def base_types layout_eval atomic_long_t_def atomic64_t_layout
      del: One_nat_def)

lemma struct_icmpv6_mib_layout [layout_simps]:
  "sizeof struct_icmpv6_mib = 56 \<and> alignof struct_icmpv6_mib = 8 \<and> wf_cty struct_icmpv6_mib"
  by (simp add: struct_icmpv6_mib_def base_types layout_eval
      del: One_nat_def)

lemma struct_icmpv6msg_mib_layout [layout_simps]:
  "sizeof struct_icmpv6msg_mib = 4096 \<and> alignof struct_icmpv6msg_mib = 8 \<and> wf_cty struct_icmpv6msg_mib"
  by (simp add: struct_icmpv6msg_mib_def base_types layout_eval atomic_long_t_def atomic64_t_layout
      del: One_nat_def)

lemma struct_indication_layout [layout_simps]:
  "sizeof struct_indication = 16 \<and> alignof struct_indication = 8 \<and> wf_cty struct_indication"
  by (simp add: struct_indication_def base_types layout_eval u32_def c__u32_def
      del: One_nat_def)

lemma struct_inet_hashinfo_layout [layout_simps]:
  "sizeof struct_inet_hashinfo = 128 \<and> alignof struct_inet_hashinfo = 8 \<and> wf_cty struct_inet_hashinfo"
  by (simp add: struct_inet_hashinfo_def base_types layout_eval bool_def
      del: One_nat_def)

end
