(* ===== verification/KernelReach2b.thy ===== *)
theory KernelReach2b
  imports KernelBpfRefs KernelReach2a
begin

text \<open>
  Types of \<^verbatim>\<open>bpf/vmlinux.h\<close> that are two dereferences away from the objects the program and its loading
  touch, with every type they hold by value (part 2 of 4).
\<close>

section \<open>Types\<close>

definition struct_io_bpf_filters :: cty where
  "struct_io_bpf_filters = CStruct ''io_bpf_filters'' False
     [Field ''refs'' refcount_t,
      Field ''lock'' spinlock_t,
      Field ''filters'' (CPtr ''struct io_bpf_filter *''),
      Field ''callback_head'' struct_callback_head]"

definition struct_io_cq :: cty where
  "struct_io_cq = CStruct ''io_cq'' False
     [Field ''q'' (CPtr ''struct request_queue''),
      Field ''ioc'' (CPtr ''struct io_context''),
      Field [] (CUnion [] False
        [Field ''q_node'' struct_list_head,
         Field ''__rcu_icq_cache'' (CPtr ''struct kmem_cache'')]),
      Field [] (CUnion [] False
        [Field ''ioc_node'' struct_hlist_node,
         Field ''__rcu_head'' struct_callback_head]),
      Field ''flags'' unsigned_int]"

definition enum_tk_offsets :: cty where
  "enum_tk_offsets = CEnum 4
     [(''TK_OFFS_REAL'', 0), (''TK_OFFS_BOOT'', 1), (''TK_OFFS_TAI'', 2), (''TK_OFFS_MAX'', 3)]"

definition enum_task_work_notify_mode :: cty where
  "enum_task_work_notify_mode = CEnum 4
     [(''TWA_NONE'', 0), (''TWA_RESUME'', 1), (''TWA_SIGNAL'', 2), (''TWA_SIGNAL_NO_IPI'', 3),
      (''TWA_NMI_CURRENT'', 4)]"

definition struct_io_rsrc_data :: cty where
  "struct_io_rsrc_data = CStruct ''io_rsrc_data'' False
     [Field ''nr'' unsigned_int,
      Field ''nodes'' (CPtr ''struct io_rsrc_node *'')]"

definition struct_io_file_table :: cty where
  "struct_io_file_table = CStruct ''io_file_table'' False
     [Field ''data'' struct_io_rsrc_data,
      Field ''bitmap'' (CPtr ''long unsigned int''),
      Field ''alloc_hint'' unsigned_int]"

definition struct_io_alloc_cache :: cty where
  "struct_io_alloc_cache = CStruct ''io_alloc_cache'' False
     [Field ''entries'' (CPtr ''void *''),
      Field ''nr_cached'' unsigned_int,
      Field ''max_cached'' unsigned_int,
      Field ''elem_size'' unsigned_int,
      Field ''init_clear'' unsigned_int]"

definition struct_io_wq_work_node :: cty where
  "struct_io_wq_work_node = CStruct ''io_wq_work_node'' False
     [Field ''next'' (CPtr ''struct io_wq_work_node'')]"

definition struct_io_wq_work_list :: cty where
  "struct_io_wq_work_list = CStruct ''io_wq_work_list'' False
     [Field ''first'' (CPtr ''struct io_wq_work_node''),
      Field ''last'' (CPtr ''struct io_wq_work_node'')]"

definition struct_io_submit_link :: cty where
  "struct_io_submit_link = CStruct ''io_submit_link'' False
     [Field ''head'' (CPtr ''struct io_kiocb''),
      Field ''last'' (CPtr ''struct io_kiocb'')]"

definition struct_io_submit_state :: cty where
  "struct_io_submit_state = CStruct ''io_submit_state'' False
     [Field ''free_list'' struct_io_wq_work_node,
      Field ''compl_reqs'' struct_io_wq_work_list,
      Field ''link'' struct_io_submit_link,
      Field ''plug_started'' bool,
      Field ''need_plug'' bool,
      Field ''cq_flush'' bool,
      Field ''submit_nr'' short_unsigned_int,
      Field ''plug'' struct_blk_plug]"

definition struct_io_hash_table :: cty where
  "struct_io_hash_table = CStruct ''io_hash_table'' False
     [Field ''hbs'' (CPtr ''struct io_hash_bucket''),
      Field ''hash_bits'' unsigned_int]"

definition struct_io_mapped_region :: cty where
  "struct_io_mapped_region = CStruct ''io_mapped_region'' False
     [Field ''pages'' (CPtr ''struct page *''),
      Field ''ptr'' (CPtr ''void''),
      Field ''nr_pages'' unsigned_int,
      Field ''flags'' unsigned_int]"

definition struct_io_ring_ctx :: cty where
  "struct_io_ring_ctx = CStruct ''io_ring_ctx'' False
     [Field [] (CStruct [] False
        [Field ''flags'' unsigned_int,
         BitField ''drain_next'' unsigned_int 1,
         BitField ''op_restricted'' unsigned_int 1,
         BitField ''reg_restricted'' unsigned_int 1,
         BitField ''off_timeout_used'' unsigned_int 1,
         BitField ''drain_active'' unsigned_int 1,
         BitField ''has_evfd'' unsigned_int 1,
         BitField ''task_complete'' unsigned_int 1,
         BitField ''lockless_cq'' unsigned_int 1,
         BitField ''syscall_iopoll'' unsigned_int 1,
         BitField ''poll_activated'' unsigned_int 1,
         BitField ''drain_disabled'' unsigned_int 1,
         BitField ''compat'' unsigned_int 1,
         BitField ''iowq_limits_set'' unsigned_int 1,
         Field ''submitter_task'' (CPtr ''struct task_struct''),
         Field ''rings'' (CPtr ''struct io_rings''),
         Field ''bpf_filters'' (CPtr ''struct io_bpf_filter *''),
         Field ''refs'' struct_percpu_ref,
         Field ''clockid'' clockid_t,
         Field ''clock_offset'' enum_tk_offsets,
         Field ''notify_method'' enum_task_work_notify_mode,
         Field ''sq_thread_idle'' unsigned_int]),
      Field [] (CStruct [] False
        [Field ''uring_lock'' struct_mutex,
         Field ''sq_array'' (CPtr ''u32''),
         Field ''sq_sqes'' (CPtr ''struct io_uring_sqe''),
         Field ''cached_sq_head'' unsigned_int,
         Field ''sq_entries'' unsigned_int,
         Field ''cancel_seq'' atomic_t,
         Field ''poll_multi_queue'' bool,
         Field ''iopoll_list'' struct_list_head,
         Field ''file_table'' struct_io_file_table,
         Field ''buf_table'' struct_io_rsrc_data,
         Field ''node_cache'' struct_io_alloc_cache,
         Field ''imu_cache'' struct_io_alloc_cache,
         Field ''submit_state'' struct_io_submit_state,
         Field ''io_bl_xa'' struct_xarray,
         Field ''cancel_table'' struct_io_hash_table,
         Field ''apoll_cache'' struct_io_alloc_cache,
         Field ''netmsg_cache'' struct_io_alloc_cache,
         Field ''rw_cache'' struct_io_alloc_cache,
         Field ''cmd_cache'' struct_io_alloc_cache,
         Field ''cancelable_uring_cmd'' struct_hlist_head,
         Field ''hybrid_poll_time'' u64,
         BitField [] c_long 64,
         BitField [] c_long 64]),
      Field [] (CStruct [] False
        [Field ''cqe_cached'' (CPtr ''struct io_uring_cqe''),
         Field ''cqe_sentinel'' (CPtr ''struct io_uring_cqe''),
         Field ''cached_cq_tail'' unsigned_int,
         Field ''cq_entries'' unsigned_int,
         Field ''io_ev_fd'' (CPtr ''struct io_ev_fd''),
         Field ''cq_wait_arg'' (CPtr ''void''),
         Field ''cq_wait_size'' size_t,
         BitField [] c_long 64,
         BitField [] c_long 64]),
      Field [] (CStruct [] False
        [Field ''rings_rcu'' (CPtr ''struct io_rings''),
         Field ''work_llist'' struct_llist_head,
         Field ''retry_llist'' struct_llist_head,
         Field ''check_cq'' long_unsigned_int,
         Field ''cq_wait_nr'' atomic_t,
         Field ''cq_timeouts'' atomic_t,
         Field ''cq_wait'' struct_wait_queue_head]),
      Field [] (CStruct [] False
        [Field ''timeout_lock'' raw_spinlock_t,
         Field ''timeout_list'' struct_list_head,
         Field ''ltimeout_list'' struct_list_head,
         Field ''cq_last_tm_flush'' unsigned_int,
         BitField [] c_long 64,
         BitField [] c_long 64]),
      Field ''completion_lock'' spinlock_t,
      Field ''cq_overflow_list'' struct_list_head,
      Field ''waitid_list'' struct_hlist_head,
      Field ''futex_list'' struct_hlist_head,
      Field ''futex_cache'' struct_io_alloc_cache,
      Field ''sq_creds'' (CPtr ''const struct cred''),
      Field ''sq_data'' (CPtr ''struct io_sq_data''),
      Field ''sqo_sq_wait'' struct_wait_queue_head,
      Field ''sqd_list'' struct_list_head,
      Field ''file_alloc_start'' unsigned_int,
      Field ''file_alloc_end'' unsigned_int,
      Field ''poll_wq'' struct_wait_queue_head,
      Field ''restrictions'' struct_io_restriction,
      Field ''zcrx_ctxs'' struct_xarray,
      Field ''pers_next'' u32,
      Field ''personalities'' struct_xarray,
      Field ''hash_map'' (CPtr ''struct io_wq_hash''),
      Field ''user'' (CPtr ''struct user_struct''),
      Field ''mm_account'' (CPtr ''struct mm_struct''),
      Field ''tctx_list'' struct_list_head,
      Field ''tctx_lock'' struct_mutex,
      Field ''fallback_llist'' struct_llist_head,
      Field ''fallback_work'' struct_delayed_work,
      Field ''exit_work'' struct_work_struct,
      Field ''ref_comp'' struct_completion,
      Field ''iowq_limits'' (CArr 2 u32),
      Field ''poll_wq_task_work'' struct_callback_head,
      Field ''defer_list'' struct_list_head,
      Field ''nr_drained'' unsigned_int,
      Field ''nr_req_allocated'' unsigned_int,
      Field ''napi_list'' struct_list_head,
      Field ''napi_lock'' spinlock_t,
      Field ''napi_busy_poll_dt'' ktime_t,
      Field ''napi_prefer_busy_poll'' bool,
      Field ''napi_track_mode'' u8,
      Field ''napi_ht'' (CArr 16 struct_hlist_head),
      Field ''mmap_lock'' struct_mutex,
      Field ''sq_region'' struct_io_mapped_region,
      Field ''ring_region'' struct_io_mapped_region,
      Field ''param_region'' struct_io_mapped_region,
      BitField [] c_long 64,
      BitField [] c_long 64,
      BitField [] c_long 64,
      BitField [] c_long 64,
      BitField [] c_long 64,
      BitField [] c_long 64]"

definition struct_io_tlb_area :: cty where
  "struct_io_tlb_area = CStruct ''io_tlb_area'' False
     [Field ''used'' long_unsigned_int,
      Field ''index'' unsigned_int,
      Field ''lock'' spinlock_t]"

definition struct_io_tlb_slot :: cty where
  "struct_io_tlb_slot = CStruct ''io_tlb_slot'' False
     [Field ''orig_addr'' phys_addr_t,
      Field ''alloc_size'' size_t,
      Field ''list'' short_unsigned_int,
      Field ''pad_slots'' short_unsigned_int]"

definition struct_io_wq_acct :: cty where
  "struct_io_wq_acct = CStruct ''io_wq_acct'' False
     [Field ''workers_lock'' raw_spinlock_t,
      Field ''nr_workers'' unsigned_int,
      Field ''max_workers'' unsigned_int,
      Field ''nr_running'' atomic_t,
      Field ''free_list'' struct_hlist_nulls_head,
      Field ''all_list'' struct_list_head,
      Field ''lock'' raw_spinlock_t,
      Field ''work_list'' struct_io_wq_work_list,
      Field ''flags'' long_unsigned_int]"

definition struct_io_wq :: cty where
  "struct_io_wq = CStruct ''io_wq'' False
     [Field ''state'' long_unsigned_int,
      Field ''hash'' (CPtr ''struct io_wq_hash''),
      Field ''worker_refs'' atomic_t,
      Field ''worker_done'' struct_completion,
      Field ''cpuhp_node'' struct_hlist_node,
      Field ''task'' (CPtr ''struct task_struct''),
      Field ''acct'' (CArr 2 struct_io_wq_acct),
      Field ''wait'' struct_wait_queue_entry,
      Field ''hash_tail'' (CArr 64 (CPtr ''struct io_wq_work'')),
      Field ''cpu_mask'' cpumask_var_t]"

definition struct_ioam6_pernet_data :: cty where
  "struct_ioam6_pernet_data = CStruct ''ioam6_pernet_data'' False
     [Field ''lock'' struct_mutex,
      Field ''namespaces'' struct_rhashtable,
      Field ''schemas'' struct_rhashtable]"

definition struct_iommu_device :: cty where
  "struct_iommu_device = CStruct ''iommu_device'' False
     [Field ''list'' struct_list_head,
      Field ''ops'' (CPtr ''const struct iommu_ops''),
      Field ''fwnode'' (CPtr ''struct fwnode_handle''),
      Field ''dev'' (CPtr ''struct device''),
      Field ''singleton_group'' (CPtr ''struct iommu_group''),
      Field ''max_pasids'' u32,
      Field ''ready'' bool]"

definition struct_iommu_dirty_ops :: cty where
  "struct_iommu_dirty_ops = CStruct ''iommu_dirty_ops'' False
     [Field ''set_dirty_tracking'' (CPtr ''int (struct iommu_domain *, bool)''),
      Field ''read_and_clear_dirty'' (CPtr ''int (struct iommu_domain *, long unsigned int, size_t, long unsigned int, struct iommu_dirty_bitmap *)'')]"

definition struct_iova :: cty where
  "struct_iova = CStruct ''iova'' False
     [Field ''node'' struct_rb_node,
      Field ''pfn_hi'' long_unsigned_int,
      Field ''pfn_lo'' long_unsigned_int]"

definition struct_iova_domain :: cty where
  "struct_iova_domain = CStruct ''iova_domain'' False
     [Field ''iova_rbtree_lock'' spinlock_t,
      Field ''rbroot'' struct_rb_root,
      Field ''cached_node'' (CPtr ''struct rb_node''),
      Field ''cached32_node'' (CPtr ''struct rb_node''),
      Field ''granule'' long_unsigned_int,
      Field ''start_pfn'' long_unsigned_int,
      Field ''dma_32bit_pfn'' long_unsigned_int,
      Field ''max32_alloc_size'' long_unsigned_int,
      Field ''anchor'' struct_iova,
      Field ''rcaches'' (CPtr ''struct iova_rcache''),
      Field ''cpuhp_dead'' struct_hlist_node]"

definition enum_iommu_dma_queue_type :: cty where
  "enum_iommu_dma_queue_type = CEnum 4
     [(''IOMMU_DMA_OPTS_PER_CPU_QUEUE'', 0), (''IOMMU_DMA_OPTS_SINGLE_QUEUE'', 1)]"

definition struct_iommu_dma_options :: cty where
  "struct_iommu_dma_options = CStruct ''iommu_dma_options'' False
     [Field ''qt'' enum_iommu_dma_queue_type,
      Field ''fq_size'' size_t,
      Field ''fq_timeout'' unsigned_int]"

definition struct_iommu_dma_cookie :: cty where
  "struct_iommu_dma_cookie = CStruct ''iommu_dma_cookie'' False
     [Field ''iovad'' struct_iova_domain,
      Field ''msi_page_list'' struct_list_head,
      Field [] (CUnion [] False
        [Field ''single_fq'' (CPtr ''struct iova_fq''),
         Field ''percpu_fq'' (CPtr ''struct iova_fq'')]),
      Field ''fq_flush_start_cnt'' atomic64_t,
      Field ''fq_flush_finish_cnt'' atomic64_t,
      Field ''fq_timer'' struct_timer_list,
      Field ''fq_timer_on'' atomic_t,
      Field ''fq_domain'' (CPtr ''struct iommu_domain''),
      Field ''options'' struct_iommu_dma_options]"

definition struct_iommu_dma_msi_cookie :: cty where
  "struct_iommu_dma_msi_cookie = CStruct ''iommu_dma_msi_cookie'' False
     [Field ''msi_iova'' dma_addr_t,
      Field ''msi_page_list'' struct_list_head]"

definition struct_iommu_domain_ops :: cty where
  "struct_iommu_domain_ops = CStruct ''iommu_domain_ops'' False
     [Field ''attach_dev'' (CPtr ''int (struct iommu_domain *, struct device *, struct iommu_domain *)''),
      Field ''set_dev_pasid'' (CPtr ''int (struct iommu_domain *, struct device *, ioasid_t, struct iommu_domain *)''),
      Field ''map_pages'' (CPtr ''int (struct iommu_domain *, long unsigned int, phys_addr_t, size_t, size_t, int, gfp_t, size_t *)''),
      Field ''unmap_pages'' (CPtr ''size_t (struct iommu_domain *, long unsigned int, size_t, size_t, struct iommu_iotlb_gather *)''),
      Field ''flush_iotlb_all'' (CPtr ''void (struct iommu_domain *)''),
      Field ''iotlb_sync_map'' (CPtr ''int (struct iommu_domain *, long unsigned int, size_t)''),
      Field ''iotlb_sync'' (CPtr ''void (struct iommu_domain *, struct iommu_iotlb_gather *)''),
      Field ''cache_invalidate_user'' (CPtr ''int (struct iommu_domain *, struct iommu_user_data_array *)''),
      Field ''iova_to_phys'' (CPtr ''phys_addr_t (struct iommu_domain *, dma_addr_t)''),
      Field ''enforce_cache_coherency'' (CPtr ''bool (struct iommu_domain *)''),
      Field ''set_pgtable_quirks'' (CPtr ''int (struct iommu_domain *, long unsigned int)''),
      Field ''free'' (CPtr ''void (struct iommu_domain *)'')]"

definition struct_iommu_fault_param :: cty where
  "struct_iommu_fault_param = CStruct ''iommu_fault_param'' False
     [Field ''lock'' struct_mutex,
      Field ''users'' refcount_t,
      Field ''rcu'' struct_callback_head,
      Field ''dev'' (CPtr ''struct device''),
      Field ''queue'' (CPtr ''struct iopf_queue''),
      Field ''queue_list'' struct_list_head,
      Field ''partial'' struct_list_head,
      Field ''faults'' struct_list_head]"

definition struct_iommu_fwspec :: cty where
  "struct_iommu_fwspec = CStruct ''iommu_fwspec'' False
     [Field ''iommu_fwnode'' (CPtr ''struct fwnode_handle''),
      Field ''flags'' u32,
      Field ''num_ids'' unsigned_int,
      Field ''ids'' (CArr 0 u32)]"

definition struct_iommu_ops :: cty where
  "struct_iommu_ops = CStruct ''iommu_ops'' False
     [Field ''capable'' (CPtr ''bool (struct device *, enum iommu_cap)''),
      Field ''hw_info'' (CPtr ''void * (struct device *, u32 *, enum iommu_hw_info_type *)''),
      Field ''domain_alloc_identity'' (CPtr ''struct iommu_domain * (struct device *)''),
      Field ''domain_alloc_paging_flags'' (CPtr ''struct iommu_domain * (struct device *, u32, const struct iommu_user_data *)''),
      Field ''domain_alloc_paging'' (CPtr ''struct iommu_domain * (struct device *)''),
      Field ''domain_alloc_sva'' (CPtr ''struct iommu_domain * (struct device *, struct mm_struct *)''),
      Field ''domain_alloc_nested'' (CPtr ''struct iommu_domain * (struct device *, struct iommu_domain *, u32, const struct iommu_user_data *)''),
      Field ''probe_device'' (CPtr ''struct iommu_device * (struct device *)''),
      Field ''release_device'' (CPtr ''void (struct device *)''),
      Field ''probe_finalize'' (CPtr ''void (struct device *)''),
      Field ''device_group'' (CPtr ''struct iommu_group * (struct device *)''),
      Field ''get_resv_regions'' (CPtr ''void (struct device *, struct list_head *)''),
      Field ''of_xlate'' (CPtr ''int (struct device *, const struct of_phandle_args *)''),
      Field ''is_attach_deferred'' (CPtr ''bool (struct device *)''),
      Field ''page_response'' (CPtr ''void (struct device *, struct iopf_fault *, struct iommu_page_response *)''),
      Field ''def_domain_type'' (CPtr ''int (struct device *)''),
      Field ''get_viommu_size'' (CPtr ''size_t (struct device *, enum iommu_viommu_type)''),
      Field ''viommu_init'' (CPtr ''int (struct iommufd_viommu *, struct iommu_domain *, const struct iommu_user_data *)''),
      Field ''default_domain_ops'' (CPtr ''const struct iommu_domain_ops''),
      Field ''owner'' (CPtr ''struct module''),
      Field ''identity_domain'' (CPtr ''struct iommu_domain''),
      Field ''blocked_domain'' (CPtr ''struct iommu_domain''),
      Field ''release_domain'' (CPtr ''struct iommu_domain''),
      Field ''default_domain'' (CPtr ''struct iommu_domain''),
      BitField ''user_pasid_table'' u8 1]"

definition enum_iommufd_object_type :: cty where
  "enum_iommufd_object_type = CEnum 4
     [(''IOMMUFD_OBJ_NONE'', 0), (''IOMMUFD_OBJ_ANY'', 0), (''IOMMUFD_OBJ_DEVICE'', 1),
      (''IOMMUFD_OBJ_HWPT_PAGING'', 2), (''IOMMUFD_OBJ_HWPT_NESTED'', 3),
      (''IOMMUFD_OBJ_IOAS'', 4), (''IOMMUFD_OBJ_ACCESS'', 5), (''IOMMUFD_OBJ_FAULT'', 6),
      (''IOMMUFD_OBJ_VIOMMU'', 7), (''IOMMUFD_OBJ_VDEVICE'', 8), (''IOMMUFD_OBJ_VEVENTQ'', 9),
      (''IOMMUFD_OBJ_HW_QUEUE'', 10), (''IOMMUFD_OBJ_MAX'', 11)]"

definition struct_iommufd_object :: cty where
  "struct_iommufd_object = CStruct ''iommufd_object'' False
     [Field ''wait_cnt'' refcount_t,
      Field ''users'' refcount_t,
      Field ''type'' enum_iommufd_object_type,
      Field ''id'' unsigned_int]"

definition struct_iommufd_hw_pagetable :: cty where
  "struct_iommufd_hw_pagetable = CStruct ''iommufd_hw_pagetable'' False
     [Field ''obj'' struct_iommufd_object,
      Field ''domain'' (CPtr ''struct iommu_domain''),
      Field ''fault'' (CPtr ''struct iommufd_fault''),
      BitField ''pasid_compat'' bool 1]"

definition struct_ip_conntrack_stat :: cty where
  "struct_ip_conntrack_stat = CStruct ''ip_conntrack_stat'' False
     [Field ''found'' unsigned_int,
      Field ''invalid'' unsigned_int,
      Field ''insert'' unsigned_int,
      Field ''insert_failed'' unsigned_int,
      Field ''clash_resolve'' unsigned_int,
      Field ''drop'' unsigned_int,
      Field ''early_drop'' unsigned_int,
      Field ''error'' unsigned_int,
      Field ''expect_new'' unsigned_int,
      Field ''expect_create'' unsigned_int,
      Field ''expect_delete'' unsigned_int,
      Field ''search_restart'' unsigned_int,
      Field ''chaintoolong'' unsigned_int]"

definition struct_ip_ra_chain :: cty where
  "struct_ip_ra_chain = CStruct ''ip_ra_chain'' False
     [Field ''next'' (CPtr ''struct ip_ra_chain''),
      Field ''sk'' (CPtr ''struct sock''),
      Field [] (CUnion [] False
        [Field ''destructor'' (CPtr ''void (struct sock *)''),
         Field ''saved_sk'' (CPtr ''struct sock'')]),
      Field ''rcu'' struct_callback_head]"

definition struct_ipc_ids :: cty where
  "struct_ipc_ids = CStruct ''ipc_ids'' False
     [Field ''in_use'' c_int,
      Field ''seq'' short_unsigned_int,
      Field ''rwsem'' struct_rw_semaphore,
      Field ''ipcs_idr'' struct_idr,
      Field ''max_idx'' c_int,
      Field ''last_idx'' c_int,
      Field ''next_id'' c_int,
      Field ''key_ht'' struct_rhashtable]"

definition struct_ipc_namespace :: cty where
  "struct_ipc_namespace = CStruct ''ipc_namespace'' False
     [Field ''ids'' (CArr 3 struct_ipc_ids),
      Field ''sem_ctls'' (CArr 4 c_int),
      Field ''used_sems'' c_int,
      Field ''msg_ctlmax'' unsigned_int,
      Field ''msg_ctlmnb'' unsigned_int,
      Field ''msg_ctlmni'' unsigned_int,
      Field ''percpu_msg_bytes'' struct_percpu_counter,
      Field ''percpu_msg_hdrs'' struct_percpu_counter,
      Field ''shm_ctlmax'' size_t,
      Field ''shm_ctlall'' size_t,
      Field ''shm_tot'' long_unsigned_int,
      Field ''shm_ctlmni'' c_int,
      Field ''shm_rmid_forced'' c_int,
      Field ''ipcns_nb'' struct_notifier_block,
      Field ''mq_mnt'' (CPtr ''struct vfsmount''),
      Field ''mq_queues_count'' unsigned_int,
      Field ''mq_queues_max'' unsigned_int,
      Field ''mq_msg_max'' unsigned_int,
      Field ''mq_msgsize_max'' unsigned_int,
      Field ''mq_msg_default'' unsigned_int,
      Field ''mq_msgsize_default'' unsigned_int,
      Field ''mq_set'' struct_ctl_table_set,
      Field ''mq_sysctls'' (CPtr ''struct ctl_table_header''),
      Field ''ipc_set'' struct_ctl_table_set,
      Field ''ipc_sysctls'' (CPtr ''struct ctl_table_header''),
      Field ''user_ns'' (CPtr ''struct user_namespace''),
      Field ''ucounts'' (CPtr ''struct ucounts''),
      Field ''mnt_llist'' struct_llist_node,
      BitField [] c_long 64,
      BitField [] c_long 64,
      BitField [] c_long 64,
      BitField [] c_long 64,
      Field ''ns'' struct_ns_common]"

definition struct_ipstats_mib :: cty where
  "struct_ipstats_mib = CStruct ''ipstats_mib'' False
     [Field ''mibs'' (CArr 38 u64),
      Field ''syncp'' struct_u64_stats_sync]"

definition struct_ipv4_devconf :: cty where
  "struct_ipv4_devconf = CStruct ''ipv4_devconf'' False
     [Field ''sysctl'' (CPtr ''void''),
      Field ''data'' (CArr 33 c_int),
      Field ''state'' (CArr 1 long_unsigned_int)]"

definition struct_ipv6_stable_secret :: cty where
  "struct_ipv6_stable_secret = CStruct ''ipv6_stable_secret'' False
     [Field ''initialized'' bool,
      Field ''secret'' struct_in6_addr]"

definition struct_ipv6_devconf :: cty where
  "struct_ipv6_devconf = CStruct ''ipv6_devconf'' False
     [Field ''__cacheline_group_begin__ipv6_devconf_read_txrx'' (CArr 0 c__u8),
      Field ''disable_ipv6'' c__s32,
      Field ''hop_limit'' c__s32,
      Field ''mtu6'' c__s32,
      Field ''forwarding'' c__s32,
      Field ''force_forwarding'' c__s32,
      Field ''disable_policy'' c__s32,
      Field ''proxy_ndp'' c__s32,
      Field ''__cacheline_group_end__ipv6_devconf_read_txrx'' (CArr 0 c__u8),
      Field ''accept_ra'' c__s32,
      Field ''accept_redirects'' c__s32,
      Field ''autoconf'' c__s32,
      Field ''dad_transmits'' c__s32,
      Field ''rtr_solicits'' c__s32,
      Field ''rtr_solicit_interval'' c__s32,
      Field ''rtr_solicit_max_interval'' c__s32,
      Field ''rtr_solicit_delay'' c__s32,
      Field ''force_mld_version'' c__s32,
      Field ''mldv1_unsolicited_report_interval'' c__s32,
      Field ''mldv2_unsolicited_report_interval'' c__s32,
      Field ''use_tempaddr'' c__s32,
      Field ''temp_valid_lft'' c__s32,
      Field ''temp_prefered_lft'' c__s32,
      Field ''regen_min_advance'' c__s32,
      Field ''regen_max_retry'' c__s32,
      Field ''max_desync_factor'' c__s32,
      Field ''max_addresses'' c__s32,
      Field ''accept_ra_defrtr'' c__s32,
      Field ''ra_defrtr_metric'' c__u32,
      Field ''accept_ra_min_hop_limit'' c__s32,
      Field ''accept_ra_min_lft'' c__s32,
      Field ''accept_ra_pinfo'' c__s32,
      Field ''ignore_routes_with_linkdown'' c__s32,
      Field ''accept_ra_rtr_pref'' c__s32,
      Field ''rtr_probe_interval'' c__s32,
      Field ''accept_ra_rt_info_min_plen'' c__s32,
      Field ''accept_ra_rt_info_max_plen'' c__s32,
      Field ''accept_source_route'' c__s32,
      Field ''accept_ra_from_local'' c__s32,
      Field ''optimistic_dad'' c__s32,
      Field ''use_optimistic'' c__s32,
      Field ''mc_forwarding'' atomic_t,
      Field ''drop_unicast_in_l2_multicast'' c__s32,
      Field ''accept_dad'' c__s32,
      Field ''force_tllao'' c__s32,
      Field ''ndisc_notify'' c__s32,
      Field ''suppress_frag_ndisc'' c__s32,
      Field ''accept_ra_mtu'' c__s32,
      Field ''drop_unsolicited_na'' c__s32,
      Field ''accept_untracked_na'' c__s32,
      Field ''stable_secret'' struct_ipv6_stable_secret,
      Field ''use_oif_addrs_only'' c__s32,
      Field ''keep_addr_on_down'' c__s32,
      Field ''seg6_enabled'' c__s32,
      Field ''seg6_require_hmac'' c__s32,
      Field ''enhanced_dad'' c__u32,
      Field ''addr_gen_mode'' c__u32,
      Field ''ndisc_tclass'' c__s32,
      Field ''rpl_seg_enabled'' c__s32,
      Field ''ioam6_id'' c__u32,
      Field ''ioam6_id_wide'' c__u32,
      Field ''ioam6_enabled'' c__u8,
      Field ''ndisc_evict_nocarrier'' c__u8,
      Field ''ra_honor_pio_life'' c__u8,
      Field ''ra_honor_pio_pflag'' c__u8,
      Field ''sysctl_header'' (CPtr ''struct ctl_table_header'')]"

definition struct_irq_data :: cty where
  "struct_irq_data = CStruct ''irq_data'' False
     [Field ''mask'' u32,
      Field ''irq'' unsigned_int,
      Field ''hwirq'' irq_hw_number_t,
      Field ''common'' (CPtr ''struct irq_common_data''),
      Field ''chip'' (CPtr ''struct irq_chip''),
      Field ''domain'' (CPtr ''struct irq_domain''),
      Field ''parent_data'' (CPtr ''struct irq_data''),
      Field ''chip_data'' (CPtr ''void'')]"

definition enum_irq_gc_flags :: cty where
  "enum_irq_gc_flags = CEnum 4
     [(''IRQ_GC_INIT_MASK_CACHE'', 1), (''IRQ_GC_INIT_NESTED_LOCK'', 2),
      (''IRQ_GC_MASK_CACHE_PER_TYPE'', 4), (''IRQ_GC_NO_MASK'', 8), (''IRQ_GC_BE_IO'', 16)]"

definition struct_irq_domain_chip_generic :: cty where
  "struct_irq_domain_chip_generic = CStruct ''irq_domain_chip_generic'' False
     [Field ''irqs_per_chip'' unsigned_int,
      Field ''num_chips'' unsigned_int,
      Field ''irq_flags_to_clear'' unsigned_int,
      Field ''irq_flags_to_set'' unsigned_int,
      Field ''gc_flags'' enum_irq_gc_flags,
      Field ''exit'' (CPtr ''void (struct irq_chip_generic *)''),
      Field ''gc'' (CArr 0 (CPtr ''struct irq_chip_generic''))]"

definition struct_irq_domain_ops :: cty where
  "struct_irq_domain_ops = CStruct ''irq_domain_ops'' False
     [Field ''match'' (CPtr ''int (struct irq_domain *, struct device_node *, enum irq_domain_bus_token)''),
      Field ''select'' (CPtr ''int (struct irq_domain *, struct irq_fwspec *, enum irq_domain_bus_token)''),
      Field ''map'' (CPtr ''int (struct irq_domain *, unsigned int, irq_hw_number_t)''),
      Field ''unmap'' (CPtr ''void (struct irq_domain *, unsigned int)''),
      Field ''xlate'' (CPtr ''int (struct irq_domain *, struct device_node *, const u32 *, unsigned int, long unsigned int *, unsigned int *)''),
      Field ''alloc'' (CPtr ''int (struct irq_domain *, unsigned int, unsigned int, void *)''),
      Field ''free'' (CPtr ''void (struct irq_domain *, unsigned int, unsigned int)''),
      Field ''activate'' (CPtr ''int (struct irq_domain *, struct irq_data *, bool)''),
      Field ''deactivate'' (CPtr ''void (struct irq_domain *, struct irq_data *)''),
      Field ''translate'' (CPtr ''int (struct irq_domain *, struct irq_fwspec *, long unsigned int *, unsigned int *)''),
      Field ''get_fwspec_info'' (CPtr ''int (struct irq_fwspec *, struct irq_fwspec_info *)'')]"

definition struct_kernel_param_ops :: cty where
  "struct_kernel_param_ops = CStruct ''kernel_param_ops'' False
     [Field ''flags'' unsigned_int,
      Field ''set'' (CPtr ''int (const char *, const struct kernel_param *)''),
      Field ''get'' (CPtr ''int (char *, const struct kernel_param *)''),
      Field ''free'' (CPtr ''void (void *)'')]"

definition struct_kernfs_syscall_ops :: cty where
  "struct_kernfs_syscall_ops = CStruct ''kernfs_syscall_ops'' False
     [Field ''show_options'' (CPtr ''int (struct seq_file *, struct kernfs_root *)''),
      Field ''mkdir'' (CPtr ''int (struct kernfs_node *, const char *, umode_t)''),
      Field ''rmdir'' (CPtr ''int (struct kernfs_node *)''),
      Field ''rename'' (CPtr ''int (struct kernfs_node *, struct kernfs_node *, const char *)''),
      Field ''show_path'' (CPtr ''int (struct seq_file *, struct kernfs_node *, struct kernfs_root *)'')]"

definition key_restrict_link_func_t :: cty where [layout_simps]:
  "key_restrict_link_func_t = CPtr ''int (struct key *, const struct key_type *, const union key_payload *, struct key *)''"

definition struct_key_restriction :: cty where
  "struct_key_restriction = CStruct ''key_restriction'' False
     [Field ''check'' key_restrict_link_func_t,
      Field ''key'' (CPtr ''struct key''),
      Field ''keytype'' (CPtr ''struct key_type'')]"

definition struct_key_tag :: cty where
  "struct_key_tag = CStruct ''key_tag'' False
     [Field ''rcu'' struct_callback_head,
      Field ''usage'' refcount_t,
      Field ''removed'' bool]"

definition request_key_actor_t :: cty where [layout_simps]:
  "request_key_actor_t = CPtr ''int (struct key *, void *)''"

definition struct_key_type :: cty where
  "struct_key_type = CStruct ''key_type'' False
     [Field ''name'' (CPtr ''const char''),
      Field ''def_datalen'' size_t,
      Field ''flags'' unsigned_int,
      Field ''vet_description'' (CPtr ''int (const char *)''),
      Field ''preparse'' (CPtr ''int (struct key_preparsed_payload *)''),
      Field ''free_preparse'' (CPtr ''void (struct key_preparsed_payload *)''),
      Field ''instantiate'' (CPtr ''int (struct key *, struct key_preparsed_payload *)''),
      Field ''update'' (CPtr ''int (struct key *, struct key_preparsed_payload *)''),
      Field ''match_preparse'' (CPtr ''int (struct key_match_data *)''),
      Field ''match_free'' (CPtr ''void (struct key_match_data *)''),
      Field ''revoke'' (CPtr ''void (struct key *)''),
      Field ''destroy'' (CPtr ''void (struct key *)''),
      Field ''describe'' (CPtr ''void (const struct key *, struct seq_file *)''),
      Field ''read'' (CPtr ''long int (const struct key *, char *, size_t)''),
      Field ''request_key'' request_key_actor_t,
      Field ''lookup_restriction'' (CPtr ''struct key_restriction * (const char *)''),
      Field ''asym_query'' (CPtr ''int (const struct kernel_pkey_params *, struct kernel_pkey_query *)''),
      Field ''asym_eds_op'' (CPtr ''int (struct kernel_pkey_params *, const void *, void *)''),
      Field ''asym_verify_signature'' (CPtr ''int (struct kernel_pkey_params *, const void *, const void *)''),
      Field ''link'' struct_list_head,
      Field ''lock_class'' struct_lock_class_key]"

definition struct_key_user :: cty where
  "struct_key_user = CStruct ''key_user'' False
     [Field ''node'' struct_rb_node,
      Field ''cons_lock'' struct_mutex,
      Field ''lock'' spinlock_t,
      Field ''usage'' refcount_t,
      Field ''nkeys'' atomic_t,
      Field ''nikeys'' atomic_t,
      Field ''uid'' kuid_t,
      Field ''qnkeys'' c_int,
      Field ''qnbytes'' c_int]"

definition struct_kioctx :: cty where
  "struct_kioctx = CStruct ''kioctx'' False
     [Field ''users'' struct_percpu_ref,
      Field ''dead'' atomic_t,
      Field ''reqs'' struct_percpu_ref,
      Field ''user_id'' long_unsigned_int,
      Field ''cpu'' (CPtr ''struct kioctx_cpu''),
      Field ''req_batch'' unsigned_int,
      Field ''max_reqs'' unsigned_int,
      Field ''nr_events'' unsigned_int,
      Field ''mmap_base'' long_unsigned_int,
      Field ''mmap_size'' long_unsigned_int,
      Field ''ring_folios'' (CPtr ''struct folio *''),
      Field ''nr_pages'' c_long,
      Field ''free_rwork'' struct_rcu_work,
      Field ''rq_wait'' (CPtr ''struct ctx_rq_wait''),
      BitField [] c_long 64,
      BitField [] c_long 64,
      BitField [] c_long 64,
      Field [] (CStruct [] False
        [Field ''reqs_available'' atomic_t,
         BitField [] c_long 64,
         BitField [] c_long 64,
         BitField [] c_long 64,
         BitField [] c_long 64,
         BitField [] c_long 64,
         BitField [] c_long 64,
         BitField [] c_long 64]),
      Field [] (CStruct [] False
        [Field ''ctx_lock'' spinlock_t,
         Field ''active_reqs'' struct_list_head,
         BitField [] c_long 64,
         BitField [] c_long 64,
         BitField [] c_long 64,
         BitField [] c_long 64,
         BitField [] c_long 64]),
      Field [] (CStruct [] False
        [Field ''ring_lock'' struct_mutex,
         Field ''wait'' wait_queue_head_t,
         BitField [] c_long 64]),
      Field [] (CStruct [] False
        [Field ''tail'' unsigned_int,
         Field ''completed_events'' unsigned_int,
         Field ''completion_lock'' spinlock_t,
         BitField [] c_long 64,
         BitField [] c_long 64,
         BitField [] c_long 64,
         BitField [] c_long 64,
         BitField [] c_long 64,
         BitField [] c_long 64]),
      Field ''internal_folios'' (CArr 8 (CPtr ''struct folio'')),
      Field ''aio_ring_file'' (CPtr ''struct file''),
      Field ''id'' unsigned_int,
      BitField [] c_long 64,
      BitField [] c_long 64,
      BitField [] c_long 64,
      BitField [] c_long 64,
      BitField [] c_long 64,
      BitField [] c_long 64]"

definition struct_kmem_cache_node :: cty where
  "struct_kmem_cache_node = CStruct ''kmem_cache_node'' False
     [Field ''list_lock'' spinlock_t,
      Field ''nr_partial'' long_unsigned_int,
      Field ''partial'' struct_list_head,
      Field ''nr_slabs'' atomic_long_t,
      Field ''total_objects'' atomic_long_t,
      Field ''full'' struct_list_head,
      Field ''barn'' (CPtr ''struct node_barn'')]"

definition struct_kparam_array :: cty where
  "struct_kparam_array = CStruct ''kparam_array'' False
     [Field ''max'' unsigned_int,
      Field ''elemsize'' unsigned_int,
      Field ''num'' (CPtr ''unsigned int''),
      Field ''ops'' (CPtr ''const struct kernel_param_ops''),
      Field ''elem'' (CPtr ''void'')]"

definition struct_kparam_string :: cty where
  "struct_kparam_string = CStruct ''kparam_string'' False
     [Field ''maxlen'' unsigned_int,
      Field ''string'' (CPtr ''char'')]"

definition struct_lcd_properties :: cty where
  "struct_lcd_properties = CStruct ''lcd_properties'' False
     [Field ''max_contrast'' c_int]"

definition struct_lcd_device :: cty where
  "struct_lcd_device = CStruct ''lcd_device'' False
     [Field ''props'' struct_lcd_properties,
      Field ''ops_lock'' struct_mutex,
      Field ''ops'' (CPtr ''const struct lcd_ops''),
      Field ''update_lock'' struct_mutex,
      Field ''entry'' struct_list_head,
      Field ''dev'' struct_device]"

definition struct_led_hw_trigger_type :: cty where
  "struct_led_hw_trigger_type = CStruct ''led_hw_trigger_type'' False
     [Field ''dummy'' c_int]"

definition enum_led_brightness :: cty where
  "enum_led_brightness = CEnum 4
     [(''LED_OFF'', 0), (''LED_ON'', 1), (''LED_HALF'', 127), (''LED_FULL'', 255)]"

definition struct_led_trigger :: cty where
  "struct_led_trigger = CStruct ''led_trigger'' False
     [Field ''name'' (CPtr ''const char''),
      Field ''activate'' (CPtr ''int (struct led_classdev *)''),
      Field ''deactivate'' (CPtr ''void (struct led_classdev *)''),
      Field ''brightness'' enum_led_brightness,
      Field ''trigger_type'' (CPtr ''struct led_hw_trigger_type''),
      Field ''leddev_list_lock'' spinlock_t,
      Field ''led_cdevs'' struct_list_head,
      Field ''next_trig'' struct_list_head,
      Field ''groups'' (CPtr ''const struct attribute_group *'')]"

definition struct_linux_mib :: cty where
  "struct_linux_mib = CStruct ''linux_mib'' False
     [Field ''mibs'' (CArr 136 long_unsigned_int)]"

definition struct_linux_tls_mib :: cty where
  "struct_linux_tls_mib = CStruct ''linux_tls_mib'' False
     [Field ''mibs'' (CArr 18 long_unsigned_int)]"

definition struct_linux_xfrm_mib :: cty where
  "struct_linux_xfrm_mib = CStruct ''linux_xfrm_mib'' False
     [Field ''mibs'' (CArr 33 long_unsigned_int)]"

definition struct_lru_gen_mm_walk :: cty where
  "struct_lru_gen_mm_walk = CStruct ''lru_gen_mm_walk'' False
     [Field ''lruvec'' (CPtr ''struct lruvec''),
      Field ''seq'' long_unsigned_int,
      Field ''next_addr'' long_unsigned_int,
      Field ''nr_pages'' (CArr 40 c_int),
      Field ''mm_stats'' (CArr 4 c_int),
      Field ''batched'' c_int,
      Field ''swappiness'' c_int,
      Field ''force_scan'' bool]"

definition struct_lru_gen_folio :: cty where
  "struct_lru_gen_folio = CStruct ''lru_gen_folio'' False
     [Field ''max_seq'' long_unsigned_int,
      Field ''min_seq'' (CArr 2 long_unsigned_int),
      Field ''timestamps'' (CArr 4 long_unsigned_int),
      Field ''folios'' (CArr 40 struct_list_head),
      Field ''nr_pages'' (CArr 40 c_long),
      Field ''avg_refaulted'' (CArr 8 long_unsigned_int),
      Field ''avg_total'' (CArr 8 long_unsigned_int),
      Field ''protected'' (CArr 8 long_unsigned_int),
      Field ''evicted'' (CArr 8 atomic_long_t),
      Field ''refaulted'' (CArr 8 atomic_long_t),
      Field ''enabled'' bool,
      Field ''gen'' u8,
      Field ''seg'' u8,
      Field ''list'' struct_hlist_nulls_node]"

definition struct_lru_gen_mm_state :: cty where
  "struct_lru_gen_mm_state = CStruct ''lru_gen_mm_state'' False
     [Field ''seq'' long_unsigned_int,
      Field ''head'' (CPtr ''struct list_head''),
      Field ''tail'' (CPtr ''struct list_head''),
      Field ''filters'' (CArr 2 (CPtr ''long unsigned int'')),
      Field ''stats'' (CArr 4 long_unsigned_int)]"

definition struct_zswap_lruvec_state :: cty where
  "struct_zswap_lruvec_state = CStruct ''zswap_lruvec_state'' False
     [Field ''nr_disk_swapins'' atomic_long_t]"

definition struct_lruvec :: cty where
  "struct_lruvec = CStruct ''lruvec'' False
     [Field ''lists'' (CArr 5 struct_list_head),
      Field ''lru_lock'' spinlock_t,
      Field ''anon_cost'' long_unsigned_int,
      Field ''file_cost'' long_unsigned_int,
      Field ''nonresident_age'' atomic_long_t,
      Field ''refaults'' (CArr 2 long_unsigned_int),
      Field ''flags'' long_unsigned_int,
      Field ''lrugen'' struct_lru_gen_folio,
      Field ''mm_state'' struct_lru_gen_mm_state,
      Field ''pgdat'' (CPtr ''struct pglist_data''),
      Field ''zswap_lruvec_state'' struct_zswap_lruvec_state]"

definition struct_mem_cgroup_reclaim_iter :: cty where
  "struct_mem_cgroup_reclaim_iter = CStruct ''mem_cgroup_reclaim_iter'' False
     [Field ''position'' (CPtr ''struct mem_cgroup''),
      Field ''generation'' atomic_t]"

definition struct_mem_cgroup_per_node :: cty where
  "struct_mem_cgroup_per_node = CStruct ''mem_cgroup_per_node'' False
     [Field ''memcg'' (CPtr ''struct mem_cgroup''),
      Field ''lruvec_stats_percpu'' (CPtr ''struct lruvec_stats_percpu''),
      Field ''lruvec_stats'' (CPtr ''struct lruvec_stats''),
      Field ''shrinker_info'' (CPtr ''struct shrinker_info''),
      BitField [] c_long 64,
      BitField [] c_long 64,
      BitField [] c_long 64,
      BitField [] c_long 64,
      Field ''_pad1_'' struct_cacheline_padding,
      Field ''lruvec'' struct_lruvec,
      BitField [] c_long 64,
      BitField [] c_long 64,
      Field ''_pad2_'' struct_cacheline_padding,
      Field ''lru_zone_size'' (CArr 25 long_unsigned_int),
      Field ''iter'' struct_mem_cgroup_reclaim_iter,
      BitField [] c_long 64,
      BitField [] c_long 64,
      BitField [] c_long 64,
      BitField [] c_long 64,
      BitField [] c_long 64]"

definition struct_memcg_vmstats :: cty where
  "struct_memcg_vmstats = CStruct ''memcg_vmstats'' False
     [Field ''state'' (CArr 40 c_long),
      Field ''events'' (CArr 29 long_unsigned_int),
      Field ''state_local'' (CArr 40 c_long),
      Field ''events_local'' (CArr 29 long_unsigned_int),
      Field ''state_pending'' (CArr 40 c_long),
      Field ''events_pending'' (CArr 29 long_unsigned_int),
      Field ''stats_updates'' atomic_t]"

definition struct_memcg_vmstats_percpu :: cty where
  "struct_memcg_vmstats_percpu = CStruct ''memcg_vmstats_percpu'' False
     [Field ''stats_updates'' unsigned_int,
      Field ''parent_pcpu'' (CPtr ''struct memcg_vmstats_percpu''),
      Field ''vmstats'' (CPtr ''struct memcg_vmstats''),
      Field ''state'' (CArr 40 c_long),
      Field ''events'' (CArr 29 long_unsigned_int),
      Field ''state_prev'' (CArr 40 c_long),
      Field ''events_prev'' (CArr 29 long_unsigned_int),
      BitField [] c_long 64,
      BitField [] c_long 64,
      BitField [] c_long 64]"

definition struct_memory_provider_ops :: cty where
  "struct_memory_provider_ops = CStruct ''memory_provider_ops'' False
     [Field ''alloc_netmems'' (CPtr ''netmem_ref (struct page_pool *, gfp_t)''),
      Field ''release_netmem'' (CPtr ''bool (struct page_pool *, netmem_ref)''),
      Field ''init'' (CPtr ''int (struct page_pool *)''),
      Field ''destroy'' (CPtr ''void (struct page_pool *)''),
      Field ''nl_fill'' (CPtr ''int (void *, struct sk_buff *, struct netdev_rx_queue *)''),
      Field ''uninstall'' (CPtr ''void (void *, struct netdev_rx_queue *)'')]"

definition struct_mfd_cell :: cty where
  "struct_mfd_cell = CStruct ''mfd_cell'' False
     [Field ''name'' (CPtr ''const char''),
      Field ''id'' c_int,
      Field ''level'' c_int,
      Field ''suspend'' (CPtr ''int (struct platform_device *)''),
      Field ''resume'' (CPtr ''int (struct platform_device *)''),
      Field ''platform_data'' (CPtr ''const void''),
      Field ''pdata_size'' size_t,
      Field ''acpi_match'' (CPtr ''const struct mfd_cell_acpi_match''),
      Field ''swnode'' (CPtr ''const struct software_node''),
      Field ''of_compatible'' (CPtr ''const char''),
      Field ''of_reg'' u64,
      Field ''use_of_reg'' bool,
      Field ''num_resources'' c_int,
      Field ''resources'' (CPtr ''const struct resource''),
      Field ''ignore_resource_conflicts'' bool,
      Field ''pm_runtime_no_callbacks'' bool,
      Field ''num_parent_supplies'' c_int,
      Field ''parent_supplies'' (CPtr ''const char *'')]"

definition struct_mptcp_mib :: cty where
  "struct_mptcp_mib = CStruct ''mptcp_mib'' False
     [Field ''mibs'' (CArr 77 long_unsigned_int)]"

definition struct_msi_parent_ops :: cty where
  "struct_msi_parent_ops = CStruct ''msi_parent_ops'' False
     [Field ''supported_flags'' u32,
      Field ''required_flags'' u32,
      Field ''chip_flags'' u32,
      Field ''bus_select_token'' u32,
      Field ''bus_select_mask'' u32,
      Field ''prefix'' (CPtr ''const char''),
      Field ''init_dev_msi_info'' (CPtr ''bool (struct device *, struct irq_domain *, struct irq_domain *, struct msi_domain_info *)'')]"

definition struct_gro_list :: cty where
  "struct_gro_list = CStruct ''gro_list'' False
     [Field ''list'' struct_list_head,
      Field ''count'' c_int]"

definition struct_gro_node :: cty where
  "struct_gro_node = CStruct ''gro_node'' False
     [Field ''bitmask'' long_unsigned_int,
      Field ''hash'' (CArr 8 struct_gro_list),
      Field ''rx_list'' struct_list_head,
      Field ''rx_count'' u32,
      Field ''cached_napi_id'' u32]"

definition struct_irq_affinity_notify :: cty where
  "struct_irq_affinity_notify = CStruct ''irq_affinity_notify'' False
     [Field ''irq'' unsigned_int,
      Field ''kref'' struct_kref,
      Field ''work'' struct_work_struct,
      Field ''notify'' (CPtr ''void (struct irq_affinity_notify *, const cpumask_t *)''),
      Field ''release'' (CPtr ''void (struct kref *)'')]"

definition struct_napi_struct :: cty where
  "struct_napi_struct = CStruct ''napi_struct'' False
     [Field ''state'' long_unsigned_int,
      Field ''poll_list'' struct_list_head,
      Field ''weight'' c_int,
      Field ''defer_hard_irqs_count'' u32,
      Field ''poll'' (CPtr ''int (struct napi_struct *, int)''),
      Field ''poll_owner'' c_int,
      Field ''list_owner'' c_int,
      Field ''dev'' (CPtr ''struct net_device''),
      Field ''skb'' (CPtr ''struct sk_buff''),
      Field ''gro'' struct_gro_node,
      Field ''timer'' struct_hrtimer,
      Field ''thread'' (CPtr ''struct task_struct''),
      Field ''gro_flush_timeout'' long_unsigned_int,
      Field ''irq_suspend_timeout'' long_unsigned_int,
      Field ''defer_hard_irqs'' u32,
      Field ''napi_id'' u32,
      Field ''dev_list'' struct_list_head,
      Field ''napi_hash_node'' struct_hlist_node,
      Field ''irq'' c_int,
      Field ''notify'' struct_irq_affinity_notify,
      Field ''napi_rmap_idx'' c_int,
      Field ''index'' c_int,
      Field ''config'' (CPtr ''struct napi_config'')]"

definition netdev_features_t :: cty where [layout_simps]:
  "netdev_features_t = u64"

definition struct_netdev_tc_txq :: cty where
  "struct_netdev_tc_txq = CStruct ''netdev_tc_txq'' False
     [Field ''count'' u16,
      Field ''offset'' u16]"

definition enum_netdev_stat_type :: cty where
  "enum_netdev_stat_type = CEnum 4
     [(''NETDEV_PCPU_STAT_NONE'', 0), (''NETDEV_PCPU_STAT_LSTATS'', 1),
      (''NETDEV_PCPU_STAT_TSTATS'', 2), (''NETDEV_PCPU_STAT_DSTATS'', 3)]"

definition possible_net_t :: cty where
  "possible_net_t = CStruct [] False
      [Field ''net'' (CPtr ''struct net'')]"

definition xdp_features_t :: cty where [layout_simps]:
  "xdp_features_t = u32"

definition struct_net_device_stats :: cty where
  "struct_net_device_stats = CStruct ''net_device_stats'' False
     [Field [] (CUnion [] False
        [Field ''rx_packets'' long_unsigned_int,
         Field ''__rx_packets'' atomic_long_t]),
      Field [] (CUnion [] False
        [Field ''tx_packets'' long_unsigned_int,
         Field ''__tx_packets'' atomic_long_t]),
      Field [] (CUnion [] False
        [Field ''rx_bytes'' long_unsigned_int,
         Field ''__rx_bytes'' atomic_long_t]),
      Field [] (CUnion [] False
        [Field ''tx_bytes'' long_unsigned_int,
         Field ''__tx_bytes'' atomic_long_t]),
      Field [] (CUnion [] False
        [Field ''rx_errors'' long_unsigned_int,
         Field ''__rx_errors'' atomic_long_t]),
      Field [] (CUnion [] False
        [Field ''tx_errors'' long_unsigned_int,
         Field ''__tx_errors'' atomic_long_t]),
      Field [] (CUnion [] False
        [Field ''rx_dropped'' long_unsigned_int,
         Field ''__rx_dropped'' atomic_long_t]),
      Field [] (CUnion [] False
        [Field ''tx_dropped'' long_unsigned_int,
         Field ''__tx_dropped'' atomic_long_t]),
      Field [] (CUnion [] False
        [Field ''multicast'' long_unsigned_int,
         Field ''__multicast'' atomic_long_t]),
      Field [] (CUnion [] False
        [Field ''collisions'' long_unsigned_int,
         Field ''__collisions'' atomic_long_t]),
      Field [] (CUnion [] False
        [Field ''rx_length_errors'' long_unsigned_int,
         Field ''__rx_length_errors'' atomic_long_t]),
      Field [] (CUnion [] False
        [Field ''rx_over_errors'' long_unsigned_int,
         Field ''__rx_over_errors'' atomic_long_t]),
      Field [] (CUnion [] False
        [Field ''rx_crc_errors'' long_unsigned_int,
         Field ''__rx_crc_errors'' atomic_long_t]),
      Field [] (CUnion [] False
        [Field ''rx_frame_errors'' long_unsigned_int,
         Field ''__rx_frame_errors'' atomic_long_t]),
      Field [] (CUnion [] False
        [Field ''rx_fifo_errors'' long_unsigned_int,
         Field ''__rx_fifo_errors'' atomic_long_t]),
      Field [] (CUnion [] False
        [Field ''rx_missed_errors'' long_unsigned_int,
         Field ''__rx_missed_errors'' atomic_long_t]),
      Field [] (CUnion [] False
        [Field ''tx_aborted_errors'' long_unsigned_int,
         Field ''__tx_aborted_errors'' atomic_long_t]),
      Field [] (CUnion [] False
        [Field ''tx_carrier_errors'' long_unsigned_int,
         Field ''__tx_carrier_errors'' atomic_long_t]),
      Field [] (CUnion [] False
        [Field ''tx_fifo_errors'' long_unsigned_int,
         Field ''__tx_fifo_errors'' atomic_long_t]),
      Field [] (CUnion [] False
        [Field ''tx_heartbeat_errors'' long_unsigned_int,
         Field ''__tx_heartbeat_errors'' atomic_long_t]),
      Field [] (CUnion [] False
        [Field ''tx_window_errors'' long_unsigned_int,
         Field ''__tx_window_errors'' atomic_long_t]),
      Field [] (CUnion [] False
        [Field ''rx_compressed'' long_unsigned_int,
         Field ''__rx_compressed'' atomic_long_t]),
      Field [] (CUnion [] False
        [Field ''tx_compressed'' long_unsigned_int,
         Field ''__tx_compressed'' atomic_long_t])]"

section \<open>Sizes and alignments\<close>

lemma struct_io_bpf_filters_layout [layout_simps]:
  "sizeof struct_io_bpf_filters = 32 \<and> alignof struct_io_bpf_filters = 8 \<and> wf_cty struct_io_bpf_filters"
  by (simp add: struct_io_bpf_filters_def base_types layout_eval refcount_t_def struct_refcount_struct_layout
      spinlock_t_def struct_spinlock_layout struct_callback_head_layout
      del: One_nat_def)

lemma struct_io_cq_layout [layout_simps]:
  "sizeof struct_io_cq = 56 \<and> alignof struct_io_cq = 8 \<and> wf_cty struct_io_cq"
  by (simp add: struct_io_cq_def base_types layout_eval struct_list_head_layout struct_hlist_node_layout
      struct_callback_head_layout
      del: One_nat_def)

lemma enum_tk_offsets_layout [layout_simps]:
  "sizeof enum_tk_offsets = 4 \<and> alignof enum_tk_offsets = 4 \<and> wf_cty enum_tk_offsets"
  by (simp add: enum_tk_offsets_def base_types layout_eval
      del: One_nat_def)

lemma enum_task_work_notify_mode_layout [layout_simps]:
  "sizeof enum_task_work_notify_mode = 4 \<and> alignof enum_task_work_notify_mode = 4 \<and> wf_cty enum_task_work_notify_mode"
  by (simp add: enum_task_work_notify_mode_def base_types layout_eval
      del: One_nat_def)

lemma struct_io_rsrc_data_layout [layout_simps]:
  "sizeof struct_io_rsrc_data = 16 \<and> alignof struct_io_rsrc_data = 8 \<and> wf_cty struct_io_rsrc_data"
  by (simp add: struct_io_rsrc_data_def base_types layout_eval
      del: One_nat_def)

lemma struct_io_file_table_layout [layout_simps]:
  "sizeof struct_io_file_table = 32 \<and> alignof struct_io_file_table = 8 \<and> wf_cty struct_io_file_table"
  by (simp add: struct_io_file_table_def base_types layout_eval struct_io_rsrc_data_layout
      del: One_nat_def)

lemma struct_io_alloc_cache_layout [layout_simps]:
  "sizeof struct_io_alloc_cache = 24 \<and> alignof struct_io_alloc_cache = 8 \<and> wf_cty struct_io_alloc_cache"
  by (simp add: struct_io_alloc_cache_def base_types layout_eval
      del: One_nat_def)

lemma struct_io_wq_work_node_layout [layout_simps]:
  "sizeof struct_io_wq_work_node = 8 \<and> alignof struct_io_wq_work_node = 8 \<and> wf_cty struct_io_wq_work_node"
  by (simp add: struct_io_wq_work_node_def base_types layout_eval
      del: One_nat_def)

lemma struct_io_wq_work_list_layout [layout_simps]:
  "sizeof struct_io_wq_work_list = 16 \<and> alignof struct_io_wq_work_list = 8 \<and> wf_cty struct_io_wq_work_list"
  by (simp add: struct_io_wq_work_list_def base_types layout_eval
      del: One_nat_def)

lemma struct_io_submit_link_layout [layout_simps]:
  "sizeof struct_io_submit_link = 16 \<and> alignof struct_io_submit_link = 8 \<and> wf_cty struct_io_submit_link"
  by (simp add: struct_io_submit_link_def base_types layout_eval
      del: One_nat_def)

lemma struct_io_submit_state_layout [layout_simps]:
  "sizeof struct_io_submit_state = 112 \<and> alignof struct_io_submit_state = 8 \<and> wf_cty struct_io_submit_state"
  by (simp add: struct_io_submit_state_def base_types layout_eval struct_io_wq_work_node_layout
      struct_io_wq_work_list_layout struct_io_submit_link_layout bool_def struct_blk_plug_layout
      del: One_nat_def)

lemma struct_io_hash_table_layout [layout_simps]:
  "sizeof struct_io_hash_table = 16 \<and> alignof struct_io_hash_table = 8 \<and> wf_cty struct_io_hash_table"
  by (simp add: struct_io_hash_table_def base_types layout_eval
      del: One_nat_def)

lemma struct_io_mapped_region_layout [layout_simps]:
  "sizeof struct_io_mapped_region = 24 \<and> alignof struct_io_mapped_region = 8 \<and> wf_cty struct_io_mapped_region"
  by (simp add: struct_io_mapped_region_def base_types layout_eval
      del: One_nat_def)

lemma struct_io_ring_ctx_layout [layout_simps]:
  "sizeof struct_io_ring_ctx = 1536 \<and> alignof struct_io_ring_ctx = 8 \<and> wf_cty struct_io_ring_ctx"
  by (simp add: struct_io_ring_ctx_def base_types layout_eval struct_percpu_ref_layout clockid_t_def
      c__kernel_clockid_t_def enum_tk_offsets_layout enum_task_work_notify_mode_layout
      struct_mutex_layout atomic_t_layout bool_def struct_list_head_layout struct_io_file_table_layout
      struct_io_rsrc_data_layout struct_io_alloc_cache_layout struct_io_submit_state_layout
      struct_xarray_layout struct_io_hash_table_layout struct_hlist_head_layout u64_def c__u64_def
      size_t_def c__kernel_size_t_def c__kernel_ulong_t_def struct_llist_head_layout
      struct_wait_queue_head_layout raw_spinlock_t_def struct_raw_spinlock_layout spinlock_t_def
      struct_spinlock_layout struct_io_restriction_layout u32_def c__u32_def struct_delayed_work_layout
      struct_work_struct_layout struct_completion_layout struct_callback_head_layout ktime_t_def s64_def
      c__s64_def u8_def c__u8_def struct_io_mapped_region_layout
      del: One_nat_def)

lemma struct_io_tlb_area_layout [layout_simps]:
  "sizeof struct_io_tlb_area = 16 \<and> alignof struct_io_tlb_area = 8 \<and> wf_cty struct_io_tlb_area"
  by (simp add: struct_io_tlb_area_def base_types layout_eval spinlock_t_def struct_spinlock_layout
      del: One_nat_def)

lemma struct_io_tlb_slot_layout [layout_simps]:
  "sizeof struct_io_tlb_slot = 24 \<and> alignof struct_io_tlb_slot = 8 \<and> wf_cty struct_io_tlb_slot"
  by (simp add: struct_io_tlb_slot_def base_types layout_eval phys_addr_t_def u64_def c__u64_def size_t_def
      c__kernel_size_t_def c__kernel_ulong_t_def
      del: One_nat_def)

lemma struct_io_wq_acct_layout [layout_simps]:
  "sizeof struct_io_wq_acct = 72 \<and> alignof struct_io_wq_acct = 8 \<and> wf_cty struct_io_wq_acct"
  by (simp add: struct_io_wq_acct_def base_types layout_eval raw_spinlock_t_def struct_raw_spinlock_layout
      atomic_t_layout struct_hlist_nulls_head_layout struct_list_head_layout
      struct_io_wq_work_list_layout
      del: One_nat_def)

lemma struct_io_wq_layout [layout_simps]:
  "sizeof struct_io_wq = 784 \<and> alignof struct_io_wq = 8 \<and> wf_cty struct_io_wq"
  by (simp add: struct_io_wq_def base_types layout_eval atomic_t_layout struct_completion_layout struct_hlist_node_layout
      struct_io_wq_acct_layout struct_wait_queue_entry_layout cpumask_var_t_def
      del: One_nat_def)

lemma struct_ioam6_pernet_data_layout [layout_simps]:
  "sizeof struct_ioam6_pernet_data = 304 \<and> alignof struct_ioam6_pernet_data = 8 \<and> wf_cty struct_ioam6_pernet_data"
  by (simp add: struct_ioam6_pernet_data_def base_types layout_eval struct_mutex_layout struct_rhashtable_layout
      del: One_nat_def)

lemma struct_iommu_device_layout [layout_simps]:
  "sizeof struct_iommu_device = 56 \<and> alignof struct_iommu_device = 8 \<and> wf_cty struct_iommu_device"
  by (simp add: struct_iommu_device_def base_types layout_eval struct_list_head_layout u32_def c__u32_def bool_def
      del: One_nat_def)

lemma struct_iommu_dirty_ops_layout [layout_simps]:
  "sizeof struct_iommu_dirty_ops = 16 \<and> alignof struct_iommu_dirty_ops = 8 \<and> wf_cty struct_iommu_dirty_ops"
  by (simp add: struct_iommu_dirty_ops_def base_types layout_eval
      del: One_nat_def)

lemma struct_iova_layout [layout_simps]:
  "sizeof struct_iova = 40 \<and> alignof struct_iova = 8 \<and> wf_cty struct_iova"
  by (simp add: struct_iova_def base_types layout_eval struct_rb_node_layout
      del: One_nat_def)

lemma struct_iova_domain_layout [layout_simps]:
  "sizeof struct_iova_domain = 128 \<and> alignof struct_iova_domain = 8 \<and> wf_cty struct_iova_domain"
  by (simp add: struct_iova_domain_def base_types layout_eval spinlock_t_def struct_spinlock_layout struct_rb_root_layout
      struct_iova_layout struct_hlist_node_layout
      del: One_nat_def)

lemma enum_iommu_dma_queue_type_layout [layout_simps]:
  "sizeof enum_iommu_dma_queue_type = 4 \<and> alignof enum_iommu_dma_queue_type = 4 \<and> wf_cty enum_iommu_dma_queue_type"
  by (simp add: enum_iommu_dma_queue_type_def base_types layout_eval
      del: One_nat_def)

lemma struct_iommu_dma_options_layout [layout_simps]:
  "sizeof struct_iommu_dma_options = 24 \<and> alignof struct_iommu_dma_options = 8 \<and> wf_cty struct_iommu_dma_options"
  by (simp add: struct_iommu_dma_options_def base_types layout_eval enum_iommu_dma_queue_type_layout size_t_def
      c__kernel_size_t_def c__kernel_ulong_t_def
      del: One_nat_def)

lemma struct_iommu_dma_cookie_layout [layout_simps]:
  "sizeof struct_iommu_dma_cookie = 248 \<and> alignof struct_iommu_dma_cookie = 8 \<and> wf_cty struct_iommu_dma_cookie"
  by (simp add: struct_iommu_dma_cookie_def base_types layout_eval struct_iova_domain_layout struct_list_head_layout
      atomic64_t_layout struct_timer_list_layout atomic_t_layout struct_iommu_dma_options_layout
      del: One_nat_def)

lemma struct_iommu_dma_msi_cookie_layout [layout_simps]:
  "sizeof struct_iommu_dma_msi_cookie = 24 \<and> alignof struct_iommu_dma_msi_cookie = 8 \<and> wf_cty struct_iommu_dma_msi_cookie"
  by (simp add: struct_iommu_dma_msi_cookie_def base_types layout_eval dma_addr_t_def u64_def c__u64_def
      struct_list_head_layout
      del: One_nat_def)

lemma struct_iommu_domain_ops_layout [layout_simps]:
  "sizeof struct_iommu_domain_ops = 96 \<and> alignof struct_iommu_domain_ops = 8 \<and> wf_cty struct_iommu_domain_ops"
  by (simp add: struct_iommu_domain_ops_def base_types layout_eval
      del: One_nat_def)

lemma struct_iommu_fault_param_layout [layout_simps]:
  "sizeof struct_iommu_fault_param = 120 \<and> alignof struct_iommu_fault_param = 8 \<and> wf_cty struct_iommu_fault_param"
  by (simp add: struct_iommu_fault_param_def base_types layout_eval struct_mutex_layout refcount_t_def
      struct_refcount_struct_layout struct_callback_head_layout struct_list_head_layout
      del: One_nat_def)

lemma struct_iommu_fwspec_layout [layout_simps]:
  "sizeof struct_iommu_fwspec = 16 \<and> alignof struct_iommu_fwspec = 8 \<and> wf_cty struct_iommu_fwspec"
  by (simp add: struct_iommu_fwspec_def base_types layout_eval u32_def c__u32_def
      del: One_nat_def)

lemma struct_iommu_ops_layout [layout_simps]:
  "sizeof struct_iommu_ops = 200 \<and> alignof struct_iommu_ops = 8 \<and> wf_cty struct_iommu_ops"
  by (simp add: struct_iommu_ops_def base_types layout_eval u8_def c__u8_def
      del: One_nat_def)

lemma enum_iommufd_object_type_layout [layout_simps]:
  "sizeof enum_iommufd_object_type = 4 \<and> alignof enum_iommufd_object_type = 4 \<and> wf_cty enum_iommufd_object_type"
  by (simp add: enum_iommufd_object_type_def base_types layout_eval
      del: One_nat_def)

lemma struct_iommufd_object_layout [layout_simps]:
  "sizeof struct_iommufd_object = 16 \<and> alignof struct_iommufd_object = 4 \<and> wf_cty struct_iommufd_object"
  by (simp add: struct_iommufd_object_def base_types layout_eval refcount_t_def struct_refcount_struct_layout
      enum_iommufd_object_type_layout
      del: One_nat_def)

lemma struct_iommufd_hw_pagetable_layout [layout_simps]:
  "sizeof struct_iommufd_hw_pagetable = 40 \<and> alignof struct_iommufd_hw_pagetable = 8 \<and> wf_cty struct_iommufd_hw_pagetable"
  by (simp add: struct_iommufd_hw_pagetable_def base_types layout_eval struct_iommufd_object_layout bool_def
      del: One_nat_def)

lemma struct_ip_conntrack_stat_layout [layout_simps]:
  "sizeof struct_ip_conntrack_stat = 52 \<and> alignof struct_ip_conntrack_stat = 4 \<and> wf_cty struct_ip_conntrack_stat"
  by (simp add: struct_ip_conntrack_stat_def base_types layout_eval
      del: One_nat_def)

lemma struct_ip_ra_chain_layout [layout_simps]:
  "sizeof struct_ip_ra_chain = 40 \<and> alignof struct_ip_ra_chain = 8 \<and> wf_cty struct_ip_ra_chain"
  by (simp add: struct_ip_ra_chain_def base_types layout_eval struct_callback_head_layout
      del: One_nat_def)

lemma struct_ipc_ids_layout [layout_simps]:
  "sizeof struct_ipc_ids = 224 \<and> alignof struct_ipc_ids = 8 \<and> wf_cty struct_ipc_ids"
  by (simp add: struct_ipc_ids_def base_types layout_eval struct_rw_semaphore_layout struct_idr_layout
      struct_rhashtable_layout
      del: One_nat_def)

lemma struct_ipc_namespace_layout [layout_simps]:
  "sizeof struct_ipc_namespace = 1408 \<and> alignof struct_ipc_namespace = 8 \<and> wf_cty struct_ipc_namespace"
  by (simp add: struct_ipc_namespace_def base_types layout_eval struct_ipc_ids_layout struct_percpu_counter_layout
      size_t_def c__kernel_size_t_def c__kernel_ulong_t_def struct_notifier_block_layout
      struct_ctl_table_set_layout struct_llist_node_layout struct_ns_common_layout
      del: One_nat_def)

lemma struct_ipstats_mib_layout [layout_simps]:
  "sizeof struct_ipstats_mib = 304 \<and> alignof struct_ipstats_mib = 8 \<and> wf_cty struct_ipstats_mib"
  by (simp add: struct_ipstats_mib_def base_types layout_eval u64_def c__u64_def struct_u64_stats_sync_layout
      del: One_nat_def)

lemma struct_ipv4_devconf_layout [layout_simps]:
  "sizeof struct_ipv4_devconf = 152 \<and> alignof struct_ipv4_devconf = 8 \<and> wf_cty struct_ipv4_devconf"
  by (simp add: struct_ipv4_devconf_def base_types layout_eval
      del: One_nat_def)

lemma struct_ipv6_stable_secret_layout [layout_simps]:
  "sizeof struct_ipv6_stable_secret = 20 \<and> alignof struct_ipv6_stable_secret = 4 \<and> wf_cty struct_ipv6_stable_secret"
  by (simp add: struct_ipv6_stable_secret_def base_types layout_eval bool_def struct_in6_addr_layout
      del: One_nat_def)

lemma struct_ipv6_devconf_layout [layout_simps]:
  "sizeof struct_ipv6_devconf = 264 \<and> alignof struct_ipv6_devconf = 8 \<and> wf_cty struct_ipv6_devconf"
  by (simp add: struct_ipv6_devconf_def base_types layout_eval c__u8_def c__s32_def c__u32_def atomic_t_layout
      struct_ipv6_stable_secret_layout
      del: One_nat_def)

lemma struct_irq_data_layout [layout_simps]:
  "sizeof struct_irq_data = 56 \<and> alignof struct_irq_data = 8 \<and> wf_cty struct_irq_data"
  by (simp add: struct_irq_data_def base_types layout_eval u32_def c__u32_def irq_hw_number_t_def
      del: One_nat_def)

lemma enum_irq_gc_flags_layout [layout_simps]:
  "sizeof enum_irq_gc_flags = 4 \<and> alignof enum_irq_gc_flags = 4 \<and> wf_cty enum_irq_gc_flags"
  by (simp add: enum_irq_gc_flags_def base_types layout_eval
      del: One_nat_def)

lemma struct_irq_domain_chip_generic_layout [layout_simps]:
  "sizeof struct_irq_domain_chip_generic = 32 \<and> alignof struct_irq_domain_chip_generic = 8 \<and> wf_cty struct_irq_domain_chip_generic"
  by (simp add: struct_irq_domain_chip_generic_def base_types layout_eval enum_irq_gc_flags_layout
      del: One_nat_def)

lemma struct_irq_domain_ops_layout [layout_simps]:
  "sizeof struct_irq_domain_ops = 88 \<and> alignof struct_irq_domain_ops = 8 \<and> wf_cty struct_irq_domain_ops"
  by (simp add: struct_irq_domain_ops_def base_types layout_eval
      del: One_nat_def)

lemma struct_kernel_param_ops_layout [layout_simps]:
  "sizeof struct_kernel_param_ops = 32 \<and> alignof struct_kernel_param_ops = 8 \<and> wf_cty struct_kernel_param_ops"
  by (simp add: struct_kernel_param_ops_def base_types layout_eval
      del: One_nat_def)

lemma struct_kernfs_syscall_ops_layout [layout_simps]:
  "sizeof struct_kernfs_syscall_ops = 40 \<and> alignof struct_kernfs_syscall_ops = 8 \<and> wf_cty struct_kernfs_syscall_ops"
  by (simp add: struct_kernfs_syscall_ops_def base_types layout_eval
      del: One_nat_def)

lemma struct_key_restriction_layout [layout_simps]:
  "sizeof struct_key_restriction = 24 \<and> alignof struct_key_restriction = 8 \<and> wf_cty struct_key_restriction"
  by (simp add: struct_key_restriction_def base_types layout_eval key_restrict_link_func_t_def
      del: One_nat_def)

lemma struct_key_tag_layout [layout_simps]:
  "sizeof struct_key_tag = 24 \<and> alignof struct_key_tag = 8 \<and> wf_cty struct_key_tag"
  by (simp add: struct_key_tag_def base_types layout_eval struct_callback_head_layout refcount_t_def
      struct_refcount_struct_layout bool_def
      del: One_nat_def)

lemma struct_key_type_layout [layout_simps]:
  "sizeof struct_key_type = 168 \<and> alignof struct_key_type = 8 \<and> wf_cty struct_key_type"
  by (simp add: struct_key_type_def base_types layout_eval size_t_def c__kernel_size_t_def c__kernel_ulong_t_def
      request_key_actor_t_def struct_list_head_layout struct_lock_class_key_layout
      del: One_nat_def)

lemma struct_key_user_layout [layout_simps]:
  "sizeof struct_key_user = 88 \<and> alignof struct_key_user = 8 \<and> wf_cty struct_key_user"
  by (simp add: struct_key_user_def base_types layout_eval struct_rb_node_layout struct_mutex_layout spinlock_t_def
      struct_spinlock_layout refcount_t_def struct_refcount_struct_layout atomic_t_layout kuid_t_layout
      del: One_nat_def)

lemma struct_kioctx_layout [layout_simps]:
  "sizeof struct_kioctx = 576 \<and> alignof struct_kioctx = 8 \<and> wf_cty struct_kioctx"
  by (simp add: struct_kioctx_def base_types layout_eval struct_percpu_ref_layout atomic_t_layout struct_rcu_work_layout
      spinlock_t_def struct_spinlock_layout struct_list_head_layout struct_mutex_layout
      wait_queue_head_t_def struct_wait_queue_head_layout
      del: One_nat_def)

lemma struct_kmem_cache_node_layout [layout_simps]:
  "sizeof struct_kmem_cache_node = 72 \<and> alignof struct_kmem_cache_node = 8 \<and> wf_cty struct_kmem_cache_node"
  by (simp add: struct_kmem_cache_node_def base_types layout_eval spinlock_t_def struct_spinlock_layout
      struct_list_head_layout atomic_long_t_def atomic64_t_layout
      del: One_nat_def)

lemma struct_kparam_array_layout [layout_simps]:
  "sizeof struct_kparam_array = 32 \<and> alignof struct_kparam_array = 8 \<and> wf_cty struct_kparam_array"
  by (simp add: struct_kparam_array_def base_types layout_eval
      del: One_nat_def)

lemma struct_kparam_string_layout [layout_simps]:
  "sizeof struct_kparam_string = 16 \<and> alignof struct_kparam_string = 8 \<and> wf_cty struct_kparam_string"
  by (simp add: struct_kparam_string_def base_types layout_eval
      del: One_nat_def)

lemma struct_lcd_properties_layout [layout_simps]:
  "sizeof struct_lcd_properties = 4 \<and> alignof struct_lcd_properties = 4 \<and> wf_cty struct_lcd_properties"
  by (simp add: struct_lcd_properties_def base_types layout_eval
      del: One_nat_def)

lemma struct_lcd_device_layout [layout_simps]:
  "sizeof struct_lcd_device = 904 \<and> alignof struct_lcd_device = 8 \<and> wf_cty struct_lcd_device"
  by (simp add: struct_lcd_device_def base_types layout_eval struct_lcd_properties_layout struct_mutex_layout
      struct_list_head_layout struct_device_layout
      del: One_nat_def)

lemma struct_led_hw_trigger_type_layout [layout_simps]:
  "sizeof struct_led_hw_trigger_type = 4 \<and> alignof struct_led_hw_trigger_type = 4 \<and> wf_cty struct_led_hw_trigger_type"
  by (simp add: struct_led_hw_trigger_type_def base_types layout_eval
      del: One_nat_def)

lemma enum_led_brightness_layout [layout_simps]:
  "sizeof enum_led_brightness = 4 \<and> alignof enum_led_brightness = 4 \<and> wf_cty enum_led_brightness"
  by (simp add: enum_led_brightness_def base_types layout_eval
      del: One_nat_def)

lemma struct_led_trigger_layout [layout_simps]:
  "sizeof struct_led_trigger = 88 \<and> alignof struct_led_trigger = 8 \<and> wf_cty struct_led_trigger"
  by (simp add: struct_led_trigger_def base_types layout_eval enum_led_brightness_layout spinlock_t_def
      struct_spinlock_layout struct_list_head_layout
      del: One_nat_def)

lemma struct_linux_mib_layout [layout_simps]:
  "sizeof struct_linux_mib = 1088 \<and> alignof struct_linux_mib = 8 \<and> wf_cty struct_linux_mib"
  by (simp add: struct_linux_mib_def base_types layout_eval
      del: One_nat_def)

lemma struct_linux_tls_mib_layout [layout_simps]:
  "sizeof struct_linux_tls_mib = 144 \<and> alignof struct_linux_tls_mib = 8 \<and> wf_cty struct_linux_tls_mib"
  by (simp add: struct_linux_tls_mib_def base_types layout_eval
      del: One_nat_def)

lemma struct_linux_xfrm_mib_layout [layout_simps]:
  "sizeof struct_linux_xfrm_mib = 264 \<and> alignof struct_linux_xfrm_mib = 8 \<and> wf_cty struct_linux_xfrm_mib"
  by (simp add: struct_linux_xfrm_mib_def base_types layout_eval
      del: One_nat_def)

lemma struct_lru_gen_mm_walk_layout [layout_simps]:
  "sizeof struct_lru_gen_mm_walk = 216 \<and> alignof struct_lru_gen_mm_walk = 8 \<and> wf_cty struct_lru_gen_mm_walk"
  by (simp add: struct_lru_gen_mm_walk_def base_types layout_eval bool_def
      del: One_nat_def)

lemma struct_lru_gen_folio_layout [layout_simps]:
  "sizeof struct_lru_gen_folio = 1360 \<and> alignof struct_lru_gen_folio = 8 \<and> wf_cty struct_lru_gen_folio"
  by (simp add: struct_lru_gen_folio_def base_types layout_eval struct_list_head_layout atomic_long_t_def
      atomic64_t_layout bool_def u8_def c__u8_def struct_hlist_nulls_node_layout
      del: One_nat_def)

lemma struct_lru_gen_mm_state_layout [layout_simps]:
  "sizeof struct_lru_gen_mm_state = 72 \<and> alignof struct_lru_gen_mm_state = 8 \<and> wf_cty struct_lru_gen_mm_state"
  by (simp add: struct_lru_gen_mm_state_def base_types layout_eval
      del: One_nat_def)

lemma struct_zswap_lruvec_state_layout [layout_simps]:
  "sizeof struct_zswap_lruvec_state = 8 \<and> alignof struct_zswap_lruvec_state = 8 \<and> wf_cty struct_zswap_lruvec_state"
  by (simp add: struct_zswap_lruvec_state_def base_types layout_eval atomic_long_t_def atomic64_t_layout
      del: One_nat_def)

lemma struct_lruvec_layout [layout_simps]:
  "sizeof struct_lruvec = 1584 \<and> alignof struct_lruvec = 8 \<and> wf_cty struct_lruvec"
  by (simp add: struct_lruvec_def base_types layout_eval struct_list_head_layout spinlock_t_def struct_spinlock_layout
      atomic_long_t_def atomic64_t_layout struct_lru_gen_folio_layout struct_lru_gen_mm_state_layout
      struct_zswap_lruvec_state_layout
      del: One_nat_def)

lemma struct_mem_cgroup_reclaim_iter_layout [layout_simps]:
  "sizeof struct_mem_cgroup_reclaim_iter = 16 \<and> alignof struct_mem_cgroup_reclaim_iter = 8 \<and> wf_cty struct_mem_cgroup_reclaim_iter"
  by (simp add: struct_mem_cgroup_reclaim_iter_def base_types layout_eval atomic_t_layout
      del: One_nat_def)

lemma struct_mem_cgroup_per_node_layout [layout_simps]:
  "sizeof struct_mem_cgroup_per_node = 1920 \<and> alignof struct_mem_cgroup_per_node = 8 \<and> wf_cty struct_mem_cgroup_per_node"
  by (simp add: struct_mem_cgroup_per_node_def base_types layout_eval struct_cacheline_padding_layout
      struct_lruvec_layout struct_mem_cgroup_reclaim_iter_layout
      del: One_nat_def)

lemma struct_memcg_vmstats_layout [layout_simps]:
  "sizeof struct_memcg_vmstats = 1664 \<and> alignof struct_memcg_vmstats = 8 \<and> wf_cty struct_memcg_vmstats"
  by (simp add: struct_memcg_vmstats_def base_types layout_eval atomic_t_layout
      del: One_nat_def)

lemma struct_memcg_vmstats_percpu_layout [layout_simps]:
  "sizeof struct_memcg_vmstats_percpu = 1152 \<and> alignof struct_memcg_vmstats_percpu = 8 \<and> wf_cty struct_memcg_vmstats_percpu"
  by (simp add: struct_memcg_vmstats_percpu_def base_types layout_eval
      del: One_nat_def)

lemma struct_memory_provider_ops_layout [layout_simps]:
  "sizeof struct_memory_provider_ops = 48 \<and> alignof struct_memory_provider_ops = 8 \<and> wf_cty struct_memory_provider_ops"
  by (simp add: struct_memory_provider_ops_def base_types layout_eval
      del: One_nat_def)

lemma struct_mfd_cell_layout [layout_simps]:
  "sizeof struct_mfd_cell = 112 \<and> alignof struct_mfd_cell = 8 \<and> wf_cty struct_mfd_cell"
  by (simp add: struct_mfd_cell_def base_types layout_eval size_t_def c__kernel_size_t_def c__kernel_ulong_t_def u64_def
      c__u64_def bool_def
      del: One_nat_def)

lemma struct_mptcp_mib_layout [layout_simps]:
  "sizeof struct_mptcp_mib = 616 \<and> alignof struct_mptcp_mib = 8 \<and> wf_cty struct_mptcp_mib"
  by (simp add: struct_mptcp_mib_def base_types layout_eval
      del: One_nat_def)

lemma struct_msi_parent_ops_layout [layout_simps]:
  "sizeof struct_msi_parent_ops = 40 \<and> alignof struct_msi_parent_ops = 8 \<and> wf_cty struct_msi_parent_ops"
  by (simp add: struct_msi_parent_ops_def base_types layout_eval u32_def c__u32_def
      del: One_nat_def)

lemma struct_gro_list_layout [layout_simps]:
  "sizeof struct_gro_list = 24 \<and> alignof struct_gro_list = 8 \<and> wf_cty struct_gro_list"
  by (simp add: struct_gro_list_def base_types layout_eval struct_list_head_layout
      del: One_nat_def)

lemma struct_gro_node_layout [layout_simps]:
  "sizeof struct_gro_node = 224 \<and> alignof struct_gro_node = 8 \<and> wf_cty struct_gro_node"
  by (simp add: struct_gro_node_def base_types layout_eval struct_gro_list_layout struct_list_head_layout u32_def
      c__u32_def
      del: One_nat_def)

lemma struct_irq_affinity_notify_layout [layout_simps]:
  "sizeof struct_irq_affinity_notify = 56 \<and> alignof struct_irq_affinity_notify = 8 \<and> wf_cty struct_irq_affinity_notify"
  by (simp add: struct_irq_affinity_notify_def base_types layout_eval struct_kref_layout struct_work_struct_layout
      del: One_nat_def)

lemma struct_napi_struct_layout [layout_simps]:
  "sizeof struct_napi_struct = 496 \<and> alignof struct_napi_struct = 8 \<and> wf_cty struct_napi_struct"
  by (simp add: struct_napi_struct_def base_types layout_eval struct_list_head_layout u32_def c__u32_def
      struct_gro_node_layout struct_hrtimer_layout struct_hlist_node_layout
      struct_irq_affinity_notify_layout
      del: One_nat_def)

lemma struct_netdev_tc_txq_layout [layout_simps]:
  "sizeof struct_netdev_tc_txq = 4 \<and> alignof struct_netdev_tc_txq = 2 \<and> wf_cty struct_netdev_tc_txq"
  by (simp add: struct_netdev_tc_txq_def base_types layout_eval u16_def c__u16_def
      del: One_nat_def)

lemma enum_netdev_stat_type_layout [layout_simps]:
  "sizeof enum_netdev_stat_type = 4 \<and> alignof enum_netdev_stat_type = 4 \<and> wf_cty enum_netdev_stat_type"
  by (simp add: enum_netdev_stat_type_def base_types layout_eval
      del: One_nat_def)

lemma possible_net_t_layout [layout_simps]:
  "sizeof possible_net_t = 8 \<and> alignof possible_net_t = 8 \<and> wf_cty possible_net_t"
  by (simp add: possible_net_t_def base_types layout_eval
      del: One_nat_def)

lemma struct_net_device_stats_layout [layout_simps]:
  "sizeof struct_net_device_stats = 184 \<and> alignof struct_net_device_stats = 8 \<and> wf_cty struct_net_device_stats"
  by (simp add: struct_net_device_stats_def base_types layout_eval atomic_long_t_def atomic64_t_layout
      del: One_nat_def)

end
