(* ===== verification/KernelVfsRefs2.thy ===== *)
theory KernelVfsRefs2
  imports KernelVfsRefs1
begin

text \<open>
  Types of \<^verbatim>\<open>bpf/vmlinux.h\<close> that the objects of \<open>KernelVfs\<close> (file system operations and block devices) point to, one
  dereference away, with every type they hold by value.
\<close>

section \<open>Types\<close>

definition struct_dst_ops :: cty where
  "struct_dst_ops = CStruct ''dst_ops'' False
     [Field ''family'' short_unsigned_int,
      Field ''gc_thresh'' unsigned_int,
      Field ''gc'' (CPtr ''void (struct dst_ops *)''),
      Field ''check'' (CPtr ''struct dst_entry * (struct dst_entry *, __u32)''),
      Field ''default_advmss'' (CPtr ''unsigned int (const struct dst_entry *)''),
      Field ''mtu'' (CPtr ''unsigned int (const struct dst_entry *)''),
      Field ''cow_metrics'' (CPtr ''u32 * (struct dst_entry *, long unsigned int)''),
      Field ''destroy'' (CPtr ''void (struct dst_entry *)''),
      Field ''ifdown'' (CPtr ''void (struct dst_entry *, struct net_device *)''),
      Field ''negative_advice'' (CPtr ''void (struct sock *, struct dst_entry *)''),
      Field ''link_failure'' (CPtr ''void (struct sk_buff *)''),
      Field ''update_pmtu'' (CPtr ''void (struct dst_entry *, struct sock *, struct sk_buff *, u32, bool)''),
      Field ''redirect'' (CPtr ''void (struct dst_entry *, struct sock *, struct sk_buff *)''),
      Field ''local_out'' (CPtr ''int (struct net *, struct sock *, struct sk_buff *)''),
      Field ''neigh_lookup'' (CPtr ''struct neighbour * (const struct dst_entry *, struct sk_buff *, const void *)''),
      Field ''confirm_neigh'' (CPtr ''void (const struct dst_entry *, const void *)''),
      Field ''kmem_cachep'' (CPtr ''struct kmem_cache''),
      Field ''pcpuc_entries'' struct_percpu_counter,
      BitField [] c_long 64,
      BitField [] c_long 64,
      BitField [] c_long 64]"

definition struct_netns_sysctl_ipv6 :: cty where
  "struct_netns_sysctl_ipv6 = CStruct ''netns_sysctl_ipv6'' False
     [Field ''hdr'' (CPtr ''struct ctl_table_header''),
      Field ''route_hdr'' (CPtr ''struct ctl_table_header''),
      Field ''icmp_hdr'' (CPtr ''struct ctl_table_header''),
      Field ''frags_hdr'' (CPtr ''struct ctl_table_header''),
      Field ''xfrm6_hdr'' (CPtr ''struct ctl_table_header''),
      Field ''flush_delay'' c_int,
      Field ''ip6_rt_max_size'' c_int,
      Field ''ip6_rt_gc_min_interval'' c_int,
      Field ''ip6_rt_gc_timeout'' c_int,
      Field ''ip6_rt_gc_interval'' c_int,
      Field ''ip6_rt_gc_elasticity'' c_int,
      Field ''ip6_rt_mtu_expires'' c_int,
      Field ''ip6_rt_min_advmss'' c_int,
      Field ''multipath_hash_fields'' u32,
      Field ''multipath_hash_policy'' u8,
      Field ''__cacheline_group_begin__sysctl_ipv6_flowlabel'' (CArr 0 c__u8),
      Field ''flowlabel_consistency'' u8,
      Field ''auto_flowlabels'' u8,
      Field ''flowlabel_state_ranges'' u8,
      Field ''__cacheline_group_end__sysctl_ipv6_flowlabel'' (CArr 0 c__u8),
      Field ''icmpv6_echo_ignore_all'' u8,
      Field ''icmpv6_echo_ignore_multicast'' u8,
      Field ''icmpv6_echo_ignore_anycast'' u8,
      Field ''icmpv6_time'' c_int,
      Field ''icmpv6_ratemask'' (CArr 4 long_unsigned_int),
      Field ''icmpv6_ratemask_ptr'' (CPtr ''long unsigned int''),
      Field ''anycast_src_echo_reply'' u8,
      Field ''bindv6only'' u8,
      Field ''ip_nonlocal_bind'' u8,
      Field ''fwmark_reflect'' u8,
      Field ''idgen_retries'' c_int,
      Field ''idgen_delay'' c_int,
      Field ''flowlabel_reflect'' c_int,
      Field ''max_dst_opts_cnt'' c_int,
      Field ''max_hbh_opts_cnt'' c_int,
      Field ''max_dst_opts_len'' c_int,
      Field ''max_hbh_opts_len'' c_int,
      Field ''seg6_flowlabel'' c_int,
      Field ''ioam6_id'' u32,
      Field ''ioam6_id_wide'' u64,
      Field ''skip_notify_on_dev_down'' u8,
      Field ''fib_notify_on_flag_change'' u8,
      Field ''icmpv6_error_anycast_as_unicast'' u8,
      Field ''icmpv6_errors_extension_mask'' u8]"

definition struct_netns_ipv6 :: cty where
  "struct_netns_ipv6 = CStruct ''netns_ipv6'' False
     [Field ''ip6_dst_ops'' struct_dst_ops,
      Field ''sysctl'' struct_netns_sysctl_ipv6,
      Field ''devconf_all'' (CPtr ''struct ipv6_devconf''),
      Field ''devconf_dflt'' (CPtr ''struct ipv6_devconf''),
      Field ''peers'' (CPtr ''struct inet_peer_base''),
      Field ''fqdir'' (CPtr ''struct fqdir''),
      Field ''fib6_null_entry'' (CPtr ''struct fib6_info''),
      Field ''ip6_null_entry'' (CPtr ''struct rt6_info''),
      Field ''rt6_stats'' (CPtr ''struct rt6_statistics''),
      Field ''ip6_fib_timer'' struct_timer_list,
      Field ''fib_table_hash'' (CPtr ''struct hlist_head''),
      Field ''fib_table_hash_lock'' spinlock_t,
      Field ''fib6_main_tbl'' (CPtr ''struct fib6_table''),
      Field ''fib6_walkers'' struct_list_head,
      Field ''fib6_walker_lock'' rwlock_t,
      Field ''fib6_gc_lock'' spinlock_t,
      Field ''ip6_rt_gc_expire'' atomic_t,
      Field ''ip6_rt_last_gc'' long_unsigned_int,
      Field ''flowlabel_has_excl'' unsigned_char,
      Field ''fib6_has_custom_rules'' bool,
      Field ''fib6_rules_require_fldissect'' unsigned_int,
      Field ''fib6_routes_require_src'' unsigned_int,
      Field ''ip6_prohibit_entry'' (CPtr ''struct rt6_info''),
      Field ''ip6_blk_hole_entry'' (CPtr ''struct rt6_info''),
      Field ''fib6_local_tbl'' (CPtr ''struct fib6_table''),
      Field ''fib6_rules_ops'' (CPtr ''struct fib_rules_ops''),
      Field ''ndisc_sk'' (CPtr ''struct sock''),
      Field ''tcp_sk'' (CPtr ''struct sock''),
      Field ''igmp_sk'' (CPtr ''struct sock''),
      Field ''mc_autojoin_sk'' (CPtr ''struct sock''),
      Field ''inet6_addr_lst'' (CPtr ''struct hlist_head''),
      Field ''addrconf_hash_lock'' spinlock_t,
      Field ''addr_chk_work'' struct_delayed_work,
      Field ''mr6_tables'' struct_list_head,
      Field ''mr6_rules_ops'' (CPtr ''struct fib_rules_ops''),
      Field ''dev_addr_genid'' atomic_t,
      Field ''fib6_sernum'' atomic_t,
      Field ''seg6_data'' (CPtr ''struct seg6_pernet_data''),
      Field ''notifier_ops'' (CPtr ''struct fib_notifier_ops''),
      Field ''ip6mr_notifier_ops'' (CPtr ''struct fib_notifier_ops''),
      Field ''ipmr_seq'' unsigned_int,
      Field ''ip6addrlbl_table'' (CStruct [] False
        [Field ''head'' struct_hlist_head,
         Field ''lock'' spinlock_t,
         Field ''seq'' u32]),
      Field ''ioam6_data'' (CPtr ''struct ioam6_pernet_data''),
      BitField [] c_long 64,
      BitField [] c_long 64,
      BitField [] c_long 64]"

definition struct_netns_sysctl_lowpan :: cty where
  "struct_netns_sysctl_lowpan = CStruct ''netns_sysctl_lowpan'' False
     [Field ''frags_hdr'' (CPtr ''struct ctl_table_header'')]"

definition struct_netns_ieee802154_lowpan :: cty where
  "struct_netns_ieee802154_lowpan = CStruct ''netns_ieee802154_lowpan'' False
     [Field ''sysctl'' struct_netns_sysctl_lowpan,
      Field ''fqdir'' (CPtr ''struct fqdir'')]"

definition struct_netns_sctp :: cty where
  "struct_netns_sctp = CStruct ''netns_sctp'' False
     [Field ''sctp_statistics'' (CPtr ''struct sctp_mib''),
      Field ''proc_net_sctp'' (CPtr ''struct proc_dir_entry''),
      Field ''sysctl_header'' (CPtr ''struct ctl_table_header''),
      Field ''ctl_sock'' (CPtr ''struct sock''),
      Field ''udp4_sock'' (CPtr ''struct sock''),
      Field ''udp6_sock'' (CPtr ''struct sock''),
      Field ''udp_port'' c_int,
      Field ''encap_port'' c_int,
      Field ''local_addr_list'' struct_list_head,
      Field ''addr_waitq'' struct_list_head,
      Field ''addr_wq_timer'' struct_timer_list,
      Field ''auto_asconf_splist'' struct_list_head,
      Field ''addr_wq_lock'' spinlock_t,
      Field ''local_addr_lock'' spinlock_t,
      Field ''rto_initial'' unsigned_int,
      Field ''rto_min'' unsigned_int,
      Field ''rto_max'' unsigned_int,
      Field ''rto_alpha'' c_int,
      Field ''rto_beta'' c_int,
      Field ''max_burst'' c_int,
      Field ''cookie_preserve_enable'' c_int,
      Field ''cookie_auth_enable'' c_int,
      Field ''valid_cookie_life'' unsigned_int,
      Field ''sack_timeout'' unsigned_int,
      Field ''hb_interval'' unsigned_int,
      Field ''probe_interval'' unsigned_int,
      Field ''max_retrans_association'' c_int,
      Field ''max_retrans_path'' c_int,
      Field ''max_retrans_init'' c_int,
      Field ''pf_retrans'' c_int,
      Field ''ps_retrans'' c_int,
      Field ''pf_enable'' c_int,
      Field ''pf_expose'' c_int,
      Field ''sndbuf_policy'' c_int,
      Field ''rcvbuf_policy'' c_int,
      Field ''default_auto_asconf'' c_int,
      Field ''addip_enable'' c_int,
      Field ''addip_noauth'' c_int,
      Field ''prsctp_enable'' c_int,
      Field ''reconf_enable'' c_int,
      Field ''auth_enable'' c_int,
      Field ''intl_enable'' c_int,
      Field ''ecn_enable'' c_int,
      Field ''scope_policy'' c_int,
      Field ''rwnd_upd_shift'' c_int,
      Field ''max_autoclose'' long_unsigned_int,
      Field ''l3mdev_accept'' c_int]"

definition struct_netns_nf :: cty where
  "struct_netns_nf = CStruct ''netns_nf'' False
     [Field ''proc_netfilter'' (CPtr ''struct proc_dir_entry''),
      Field ''nf_loggers'' (CArr 11 (CPtr ''const struct nf_logger'')),
      Field ''nf_log_dir_header'' (CPtr ''struct ctl_table_header''),
      Field ''nf_lwtnl_dir_header'' (CPtr ''struct ctl_table_header''),
      Field ''hooks_ipv4'' (CArr 5 (CPtr ''struct nf_hook_entries'')),
      Field ''hooks_ipv6'' (CArr 5 (CPtr ''struct nf_hook_entries'')),
      Field ''hooks_arp'' (CArr 3 (CPtr ''struct nf_hook_entries'')),
      Field ''hooks_bridge'' (CArr 5 (CPtr ''struct nf_hook_entries'')),
      Field ''defrag_ipv4_users'' unsigned_int,
      Field ''defrag_ipv6_users'' unsigned_int]"

definition struct_nf_generic_net :: cty where
  "struct_nf_generic_net = CStruct ''nf_generic_net'' False
     [Field ''timeout'' unsigned_int]"

definition struct_nf_tcp_net :: cty where
  "struct_nf_tcp_net = CStruct ''nf_tcp_net'' False
     [Field ''timeouts'' (CArr 14 unsigned_int),
      Field ''tcp_loose'' u8,
      Field ''tcp_be_liberal'' u8,
      Field ''tcp_max_retrans'' u8,
      Field ''tcp_ignore_invalid_rst'' u8,
      Field ''offload_timeout'' unsigned_int]"

definition struct_nf_udp_net :: cty where
  "struct_nf_udp_net = CStruct ''nf_udp_net'' False
     [Field ''timeouts'' (CArr 2 unsigned_int),
      Field ''offload_timeout'' unsigned_int]"

definition struct_nf_icmp_net :: cty where
  "struct_nf_icmp_net = CStruct ''nf_icmp_net'' False
     [Field ''timeout'' unsigned_int]"

definition struct_nf_sctp_net :: cty where
  "struct_nf_sctp_net = CStruct ''nf_sctp_net'' False
     [Field ''timeouts'' (CArr 10 unsigned_int)]"

definition struct_nf_gre_net :: cty where
  "struct_nf_gre_net = CStruct ''nf_gre_net'' False
     [Field ''keymap_list'' struct_list_head,
      Field ''timeouts'' (CArr 2 unsigned_int)]"

definition struct_nf_ip_net :: cty where
  "struct_nf_ip_net = CStruct ''nf_ip_net'' False
     [Field ''generic'' struct_nf_generic_net,
      Field ''tcp'' struct_nf_tcp_net,
      Field ''udp'' struct_nf_udp_net,
      Field ''icmp'' struct_nf_icmp_net,
      Field ''icmpv6'' struct_nf_icmp_net,
      Field ''sctp'' struct_nf_sctp_net,
      Field ''gre'' struct_nf_gre_net]"

definition struct_netns_ct :: cty where
  "struct_netns_ct = CStruct ''netns_ct'' False
     [Field ''ecache_dwork_pending'' bool,
      Field ''sysctl_log_invalid'' u8,
      Field ''sysctl_events'' u8,
      Field ''sysctl_acct'' u8,
      Field ''sysctl_tstamp'' u8,
      Field ''sysctl_checksum'' u8,
      Field ''stat'' (CPtr ''struct ip_conntrack_stat''),
      Field ''nf_conntrack_event_cb'' (CPtr ''struct nf_ct_event_notifier''),
      Field ''nf_ct_proto'' struct_nf_ip_net,
      Field ''labels_used'' atomic_t]"

definition struct_netns_nftables :: cty where
  "struct_netns_nftables = CStruct ''netns_nftables'' False
     [Field ''base_seq'' unsigned_int,
      Field ''gencursor'' u8]"

definition struct_netns_ft :: cty where
  "struct_netns_ft = CStruct ''netns_ft'' False
     [Field ''stat'' (CPtr ''struct nf_flow_table_stat'')]"

definition struct_sk_buff_list :: cty where
  "struct_sk_buff_list = CStruct ''sk_buff_list'' False
     [Field ''next'' (CPtr ''struct sk_buff''),
      Field ''prev'' (CPtr ''struct sk_buff'')]"

definition struct_sk_buff_head :: cty where
  "struct_sk_buff_head = CStruct ''sk_buff_head'' False
     [Field [] (CUnion [] False
        [Field [] (CStruct [] False
           [Field ''next'' (CPtr ''struct sk_buff''),
            Field ''prev'' (CPtr ''struct sk_buff'')]),
         Field ''list'' struct_sk_buff_list]),
      Field ''qlen'' c__u32,
      Field ''lock'' spinlock_t]"

definition struct_netns_bpf :: cty where
  "struct_netns_bpf = CStruct ''netns_bpf'' False
     [Field ''run_array'' (CArr 2 (CPtr ''struct bpf_prog_array'')),
      Field ''progs'' (CArr 2 (CPtr ''struct bpf_prog'')),
      Field ''links'' (CArr 2 struct_list_head)]"

definition struct_xfrm_policy_hash :: cty where
  "struct_xfrm_policy_hash = CStruct ''xfrm_policy_hash'' False
     [Field ''table'' (CPtr ''struct hlist_head''),
      Field ''hmask'' unsigned_int,
      Field ''dbits4'' u8,
      Field ''sbits4'' u8,
      Field ''dbits6'' u8,
      Field ''sbits6'' u8]"

definition struct_xfrm_policy_hthresh :: cty where
  "struct_xfrm_policy_hthresh = CStruct ''xfrm_policy_hthresh'' False
     [Field ''work'' struct_work_struct,
      Field ''lock'' seqlock_t,
      Field ''lbits4'' u8,
      Field ''rbits4'' u8,
      Field ''lbits6'' u8,
      Field ''rbits6'' u8]"

definition struct_netns_xfrm :: cty where
  "struct_netns_xfrm = CStruct ''netns_xfrm'' False
     [Field ''state_all'' struct_list_head,
      Field ''state_bydst'' (CPtr ''struct hlist_head''),
      Field ''state_bysrc'' (CPtr ''struct hlist_head''),
      Field ''state_byspi'' (CPtr ''struct hlist_head''),
      Field ''state_byseq'' (CPtr ''struct hlist_head''),
      Field ''state_cache_input'' (CPtr ''struct hlist_head''),
      Field ''state_hmask'' unsigned_int,
      Field ''state_num'' unsigned_int,
      Field ''state_hash_work'' struct_work_struct,
      Field ''policy_all'' struct_list_head,
      Field ''policy_byidx'' (CPtr ''struct hlist_head''),
      Field ''policy_idx_hmask'' unsigned_int,
      Field ''idx_generator'' unsigned_int,
      Field ''policy_bydst'' (CArr 3 struct_xfrm_policy_hash),
      Field ''policy_count'' (CArr 6 unsigned_int),
      Field ''policy_hash_work'' struct_work_struct,
      Field ''policy_hthresh'' struct_xfrm_policy_hthresh,
      Field ''inexact_bins'' struct_list_head,
      Field ''nlsk'' (CPtr ''struct sock''),
      Field ''nlsk_stash'' (CPtr ''struct sock''),
      Field ''sysctl_aevent_etime'' u32,
      Field ''sysctl_aevent_rseqth'' u32,
      Field ''sysctl_larval_drop'' c_int,
      Field ''sysctl_acq_expires'' u32,
      Field ''policy_default'' (CArr 3 u8),
      Field ''sysctl_hdr'' (CPtr ''struct ctl_table_header''),
      BitField [] c_long 64,
      BitField [] c_long 64,
      BitField [] c_long 64,
      BitField [] c_long 64,
      BitField [] c_long 64,
      Field ''xfrm4_dst_ops'' struct_dst_ops,
      Field ''xfrm6_dst_ops'' struct_dst_ops,
      Field ''xfrm_state_lock'' spinlock_t,
      Field ''xfrm_state_hash_generation'' seqcount_spinlock_t,
      Field ''xfrm_policy_hash_generation'' seqcount_spinlock_t,
      Field ''xfrm_policy_lock'' spinlock_t,
      Field ''xfrm_cfg_mutex'' struct_mutex,
      Field ''nat_keepalive_work'' struct_delayed_work,
      BitField [] c_long 64,
      BitField [] c_long 64,
      BitField [] c_long 64,
      BitField [] c_long 64,
      BitField [] c_long 64,
      BitField [] c_long 64,
      BitField [] c_long 64]"

definition struct_seqcount_mutex :: cty where
  "struct_seqcount_mutex = CStruct ''seqcount_mutex'' False
     [Field ''seqcount'' seqcount_t]"

definition seqcount_mutex_t :: cty where [layout_simps]:
  "seqcount_mutex_t = struct_seqcount_mutex"

definition struct_netns_mpls :: cty where
  "struct_netns_mpls = CStruct ''netns_mpls'' False
     [Field ''ip_ttl_propagate'' c_int,
      Field ''default_ttl'' c_int,
      Field ''platform_labels'' size_t,
      Field ''platform_label'' (CPtr ''struct mpls_route *''),
      Field ''platform_mutex'' struct_mutex,
      Field ''platform_label_seq'' seqcount_mutex_t,
      Field ''ctl'' (CPtr ''struct ctl_table_header'')]"

definition struct_netns_can :: cty where
  "struct_netns_can = CStruct ''netns_can'' False
     [Field ''proc_dir'' (CPtr ''struct proc_dir_entry''),
      Field ''pde_stats'' (CPtr ''struct proc_dir_entry''),
      Field ''pde_reset_stats'' (CPtr ''struct proc_dir_entry''),
      Field ''pde_rcvlist_all'' (CPtr ''struct proc_dir_entry''),
      Field ''pde_rcvlist_fil'' (CPtr ''struct proc_dir_entry''),
      Field ''pde_rcvlist_inv'' (CPtr ''struct proc_dir_entry''),
      Field ''pde_rcvlist_sff'' (CPtr ''struct proc_dir_entry''),
      Field ''pde_rcvlist_eff'' (CPtr ''struct proc_dir_entry''),
      Field ''pde_rcvlist_err'' (CPtr ''struct proc_dir_entry''),
      Field ''bcmproc_dir'' (CPtr ''struct proc_dir_entry''),
      Field ''rx_alldev_list'' (CPtr ''struct can_dev_rcv_lists''),
      Field ''rcvlists_lock'' spinlock_t,
      Field ''stattimer'' struct_timer_list,
      Field ''pkg_stats'' (CPtr ''struct can_pkg_stats''),
      Field ''rcv_lists_stats'' (CPtr ''struct can_rcv_lists_stats''),
      Field ''cgw_list'' struct_hlist_head]"

definition struct_netns_xdp :: cty where
  "struct_netns_xdp = CStruct ''netns_xdp'' False
     [Field ''lock'' struct_mutex,
      Field ''list'' struct_hlist_head]"

definition struct_netns_mctp :: cty where
  "struct_netns_mctp = CStruct ''netns_mctp'' False
     [Field ''routes'' struct_list_head,
      Field ''bind_lock'' struct_mutex,
      Field ''binds'' (CArr 128 struct_hlist_head),
      Field ''keys_lock'' spinlock_t,
      Field ''keys'' struct_hlist_head,
      Field ''default_net'' unsigned_int,
      Field ''neigh_lock'' struct_mutex,
      Field ''neighbours'' struct_list_head]"

definition struct_netns_smc :: cty where
  "struct_netns_smc = CStruct ''netns_smc'' False
     [Field ''smc_stats'' (CPtr ''struct smc_stats''),
      Field ''mutex_fback_rsn'' struct_mutex,
      Field ''fback_rsn'' (CPtr ''struct smc_stats_rsn''),
      Field ''limit_smc_hs'' bool,
      Field ''smc_hdr'' (CPtr ''struct ctl_table_header''),
      Field ''hs_ctrl'' (CPtr ''struct smc_hs_ctrl''),
      Field ''sysctl_autocorking_size'' unsigned_int,
      Field ''sysctl_smcr_buf_type'' unsigned_int,
      Field ''sysctl_smcr_testlink_time'' c_int,
      Field ''sysctl_wmem'' c_int,
      Field ''sysctl_rmem'' c_int,
      Field ''sysctl_max_links_per_lgr'' c_int,
      Field ''sysctl_max_conns_per_lgr'' c_int,
      Field ''sysctl_smcr_max_send_wr'' unsigned_int,
      Field ''sysctl_smcr_max_recv_wr'' unsigned_int]"

definition enum_vsock_net_mode :: cty where
  "enum_vsock_net_mode = CEnum 4
     [(''VSOCK_NET_MODE_GLOBAL'', 0), (''VSOCK_NET_MODE_LOCAL'', 1)]"

definition struct_netns_vsock :: cty where
  "struct_netns_vsock = CStruct ''netns_vsock'' False
     [Field ''sysctl_hdr'' (CPtr ''struct ctl_table_header''),
      Field ''port'' u32,
      Field ''mode'' enum_vsock_net_mode,
      Field ''child_ns_mode'' enum_vsock_net_mode,
      Field ''child_ns_mode_locked'' c_int]"

definition struct_net :: cty where
  "struct_net = CStruct ''net'' False
     [Field ''passive'' refcount_t,
      Field ''rules_mod_lock'' spinlock_t,
      Field ''dev_base_seq'' unsigned_int,
      Field ''ifindex'' u32,
      Field ''nsid_lock'' spinlock_t,
      Field ''fnhe_genid'' atomic_t,
      Field ''list'' struct_list_head,
      Field ''exit_list'' struct_list_head,
      Field ''defer_free_list'' struct_llist_node,
      Field ''cleanup_list'' struct_llist_node,
      Field ''ptype_all'' struct_list_head,
      Field ''ptype_specific'' struct_list_head,
      Field ''key_domain'' (CPtr ''struct key_tag''),
      Field ''user_ns'' (CPtr ''struct user_namespace''),
      Field ''ucounts'' (CPtr ''struct ucounts''),
      Field ''netns_ids'' struct_idr,
      BitField [] c_long 64,
      BitField [] c_long 64,
      BitField [] c_long 64,
      BitField [] c_long 64,
      BitField [] c_long 64,
      Field ''ns'' struct_ns_common,
      Field ''refcnt_tracker'' struct_ref_tracker_dir,
      Field ''notrefcnt_tracker'' struct_ref_tracker_dir,
      Field ''dev_base_head'' struct_list_head,
      Field ''proc_net'' (CPtr ''struct proc_dir_entry''),
      Field ''proc_net_stat'' (CPtr ''struct proc_dir_entry''),
      Field ''sysctls'' struct_ctl_table_set,
      Field ''rtnl'' (CPtr ''struct sock''),
      Field ''genl_sock'' (CPtr ''struct sock''),
      Field ''uevent_sock'' (CPtr ''struct uevent_sock''),
      Field ''dev_name_head'' (CPtr ''struct hlist_head''),
      Field ''dev_index_head'' (CPtr ''struct hlist_head''),
      Field ''dev_by_index'' struct_xarray,
      Field ''netdev_chain'' struct_raw_notifier_head,
      Field ''hash_mix'' u32,
      Field ''is_dying'' bool,
      Field ''loopback_dev'' (CPtr ''struct net_device''),
      Field ''rules_ops'' struct_list_head,
      Field ''core'' struct_netns_core,
      Field ''mib'' struct_netns_mib,
      Field ''packet'' struct_netns_packet,
      Field ''unx'' struct_netns_unix,
      Field ''nexthop'' struct_netns_nexthop,
      BitField [] c_long 64,
      BitField [] c_long 64,
      BitField [] c_long 64,
      BitField [] c_long 64,
      Field ''ipv4'' struct_netns_ipv4,
      Field ''ipv6'' struct_netns_ipv6,
      Field ''ieee802154_lowpan'' struct_netns_ieee802154_lowpan,
      Field ''sctp'' struct_netns_sctp,
      Field ''nf'' struct_netns_nf,
      Field ''ct'' struct_netns_ct,
      Field ''nft'' struct_netns_nftables,
      Field ''ft'' struct_netns_ft,
      Field ''wext_nlevents'' struct_sk_buff_head,
      Field ''gen'' (CPtr ''struct net_generic''),
      Field ''bpf'' struct_netns_bpf,
      BitField [] c_long 64,
      BitField [] c_long 64,
      BitField [] c_long 64,
      Field ''xfrm'' struct_netns_xfrm,
      Field ''net_cookie'' u64,
      Field ''ipvs'' (CPtr ''struct netns_ipvs''),
      Field ''mpls'' struct_netns_mpls,
      Field ''can'' struct_netns_can,
      Field ''xdp'' struct_netns_xdp,
      Field ''mctp'' struct_netns_mctp,
      Field ''crypto_nlsk'' (CPtr ''struct sock''),
      Field ''diag_nlsk'' (CPtr ''struct sock''),
      Field ''smc'' struct_netns_smc,
      Field ''vsock'' struct_netns_vsock,
      BitField [] c_long 64,
      BitField [] c_long 64]"

definition struct_rpc_timer :: cty where
  "struct_rpc_timer = CStruct ''rpc_timer'' False
     [Field ''list'' struct_list_head,
      Field ''expires'' long_unsigned_int,
      Field ''dwork'' struct_delayed_work]"

definition struct_rpc_wait_queue :: cty where
  "struct_rpc_wait_queue = CStruct ''rpc_wait_queue'' False
     [Field ''lock'' spinlock_t,
      Field ''tasks'' (CArr 4 struct_list_head),
      Field ''maxpriority'' unsigned_char,
      Field ''priority'' unsigned_char,
      Field ''nr'' unsigned_char,
      Field ''qlen'' unsigned_int,
      Field ''timer_list'' struct_rpc_timer,
      Field ''name'' (CPtr ''const char'')]"

definition struct_nfs_seqid_counter :: cty where
  "struct_nfs_seqid_counter = CStruct ''nfs_seqid_counter'' False
     [Field ''create_time'' ktime_t,
      Field ''owner_id'' u64,
      Field ''flags'' c_int,
      Field ''counter'' u32,
      Field ''lock'' spinlock_t,
      Field ''list'' struct_list_head,
      Field ''wait'' struct_rpc_wait_queue]"

definition struct_nfs4_stateid_struct :: cty where
  "struct_nfs4_stateid_struct = CStruct ''nfs4_stateid_struct'' False
     [Field [] (CUnion [] False
        [Field ''data'' (CArr 16 c_char),
         Field [] (CStruct [] False
           [Field ''seqid'' c__be32,
            Field ''other'' (CArr 12 c_char)])]),
      Field ''type'' (CEnum 4 [(''NFS4_INVALID_STATEID_TYPE'', 0), (''NFS4_SPECIAL_STATEID_TYPE'', 1),
         (''NFS4_OPEN_STATEID_TYPE'', 2), (''NFS4_LOCK_STATEID_TYPE'', 3),
         (''NFS4_DELEGATION_STATEID_TYPE'', 4), (''NFS4_LAYOUT_STATEID_TYPE'', 5),
         (''NFS4_PNFS_DS_STATEID_TYPE'', 6), (''NFS4_REVOKED_STATEID_TYPE'', 7),
         (''NFS4_FREED_STATEID_TYPE'', 8)])]"

definition nfs4_stateid :: cty where [layout_simps]:
  "nfs4_stateid = struct_nfs4_stateid_struct"

definition struct_nfs4_lock_state :: cty where
  "struct_nfs4_lock_state = CStruct ''nfs4_lock_state'' False
     [Field ''ls_locks'' struct_list_head,
      Field ''ls_state'' (CPtr ''struct nfs4_state''),
      Field ''ls_flags'' long_unsigned_int,
      Field ''ls_seqid'' struct_nfs_seqid_counter,
      Field ''ls_stateid'' nfs4_stateid,
      Field ''ls_count'' refcount_t,
      Field ''ls_owner'' fl_owner_t]"

definition struct_partition_meta_info :: cty where
  "struct_partition_meta_info = CStruct ''partition_meta_info'' False
     [Field ''uuid'' (CArr 37 c_char),
      Field ''volname'' (CArr 64 u8)]"

definition struct_pm_subsys_data :: cty where
  "struct_pm_subsys_data = CStruct ''pm_subsys_data'' False
     [Field ''lock'' spinlock_t,
      Field ''refcount'' unsigned_int,
      Field ''clock_op_might_sleep'' unsigned_int,
      Field ''clock_mutex'' struct_mutex,
      Field ''clock_list'' struct_list_head,
      Field ''domain_data'' (CPtr ''struct pm_domain_data'')]"

definition req_flags_t :: cty where [layout_simps]:
  "req_flags_t = c__u32"

definition enum_mq_rq_state :: cty where
  "enum_mq_rq_state = CEnum 4
     [(''MQ_RQ_IDLE'', 0), (''MQ_RQ_IN_FLIGHT'', 1), (''MQ_RQ_COMPLETE'', 2)]"

definition struct_request :: cty where
  "struct_request = CStruct ''request'' False
     [Field ''q'' (CPtr ''struct request_queue''),
      Field ''mq_ctx'' (CPtr ''struct blk_mq_ctx''),
      Field ''mq_hctx'' (CPtr ''struct blk_mq_hw_ctx''),
      Field ''cmd_flags'' blk_opf_t,
      Field ''rq_flags'' req_flags_t,
      Field ''tag'' c_int,
      Field ''internal_tag'' c_int,
      Field ''timeout'' unsigned_int,
      Field ''__data_len'' unsigned_int,
      Field ''__sector'' sector_t,
      Field ''bio'' (CPtr ''struct bio''),
      Field ''biotail'' (CPtr ''struct bio''),
      Field [] (CUnion [] False
        [Field ''queuelist'' struct_list_head,
         Field ''rq_next'' (CPtr ''struct request'')]),
      Field ''part'' (CPtr ''struct block_device''),
      Field ''alloc_time_ns'' u64,
      Field ''start_time_ns'' u64,
      Field ''io_start_time_ns'' u64,
      Field ''wbt_flags'' short_unsigned_int,
      Field ''stats_sectors'' short_unsigned_int,
      Field ''nr_phys_segments'' short_unsigned_int,
      Field ''nr_integrity_segments'' short_unsigned_int,
      Field ''phys_gap_bit'' unsigned_char,
      Field ''crypt_ctx'' (CPtr ''struct bio_crypt_ctx''),
      Field ''crypt_keyslot'' (CPtr ''struct blk_crypto_keyslot''),
      Field ''state'' enum_mq_rq_state,
      Field ''ref'' atomic_t,
      Field ''deadline'' long_unsigned_int,
      Field [] (CUnion [] False
        [Field ''hash'' struct_hlist_node,
         Field ''ipi_list'' struct_llist_node]),
      Field [] (CUnion [] False
        [Field ''rb_node'' struct_rb_node,
         Field ''special_vec'' struct_bio_vec]),
      Field ''elv'' (CStruct [] False
        [Field ''icq'' (CPtr ''struct io_cq''),
         Field ''priv'' (CArr 2 (CPtr ''void''))]),
      Field ''flush'' (CStruct [] False
        [Field ''seq'' unsigned_int,
         Field ''saved_end_io'' (CPtr ''rq_end_io_fn'')]),
      Field ''fifo_time'' u64,
      Field ''end_io'' (CPtr ''rq_end_io_fn''),
      Field ''end_io_data'' (CPtr ''void'')]"

definition enum_rq_qos_id :: cty where
  "enum_rq_qos_id = CEnum 4
     [(''RQ_QOS_WBT'', 0), (''RQ_QOS_LATENCY'', 1), (''RQ_QOS_COST'', 2)]"

definition struct_rq_qos :: cty where
  "struct_rq_qos = CStruct ''rq_qos'' False
     [Field ''ops'' (CPtr ''const struct rq_qos_ops''),
      Field ''disk'' (CPtr ''struct gendisk''),
      Field ''id'' enum_rq_qos_id,
      Field ''next'' (CPtr ''struct rq_qos''),
      Field ''debugfs_dir'' (CPtr ''struct dentry'')]"

definition struct_throtl_service_queue :: cty where
  "struct_throtl_service_queue = CStruct ''throtl_service_queue'' False
     [Field ''parent_sq'' (CPtr ''struct throtl_service_queue''),
      Field ''queued'' (CArr 2 struct_list_head),
      Field ''nr_queued_bps'' (CArr 2 unsigned_int),
      Field ''nr_queued_iops'' (CArr 2 unsigned_int),
      Field ''pending_tree'' struct_rb_root_cached,
      Field ''nr_pending'' unsigned_int,
      Field ''first_pending_disptime'' long_unsigned_int,
      Field ''pending_timer'' struct_timer_list]"

definition struct_throtl_data :: cty where
  "struct_throtl_data = CStruct ''throtl_data'' False
     [Field ''service_queue'' struct_throtl_service_queue,
      Field ''queue'' (CPtr ''struct request_queue''),
      Field ''nr_queued'' (CArr 2 unsigned_int),
      Field ''dispatch_work'' struct_work_struct]"

definition struct_timer_rand_state :: cty where
  "struct_timer_rand_state = CStruct ''timer_rand_state'' False
     [Field ''last_time'' long_unsigned_int,
      Field ''last_delta'' c_long,
      Field ''last_delta2'' c_long]"

definition struct_wait_page_queue :: cty where
  "struct_wait_page_queue = CStruct ''wait_page_queue'' False
     [Field ''folio'' (CPtr ''struct folio''),
      Field ''bit_nr'' c_int,
      Field ''wait'' wait_queue_entry_t]"

definition struct_wake_irq :: cty where
  "struct_wake_irq = CStruct ''wake_irq'' False
     [Field ''dev'' (CPtr ''struct device''),
      Field ''status'' unsigned_int,
      Field ''irq'' c_int,
      Field ''name'' (CPtr ''const char'')]"

definition struct_wakeup_source :: cty where
  "struct_wakeup_source = CStruct ''wakeup_source'' False
     [Field ''name'' (CPtr ''const char''),
      Field ''id'' c_int,
      Field ''entry'' struct_list_head,
      Field ''lock'' spinlock_t,
      Field ''wakeirq'' (CPtr ''struct wake_irq''),
      Field ''timer'' struct_timer_list,
      Field ''timer_expires'' long_unsigned_int,
      Field ''total_time'' ktime_t,
      Field ''max_time'' ktime_t,
      Field ''last_time'' ktime_t,
      Field ''start_prevent_time'' ktime_t,
      Field ''prevent_sleep_time'' ktime_t,
      Field ''event_count'' long_unsigned_int,
      Field ''active_count'' long_unsigned_int,
      Field ''relax_count'' long_unsigned_int,
      Field ''expire_count'' long_unsigned_int,
      Field ''wakeup_count'' long_unsigned_int,
      Field ''dev'' (CPtr ''struct device''),
      BitField ''active'' bool 1,
      BitField ''autosleep_enabled'' bool 1]"

section \<open>Sizes and alignments\<close>

lemma struct_dst_ops_layout [layout_simps]:
  "sizeof struct_dst_ops = 192 \<and> alignof struct_dst_ops = 8 \<and> wf_cty struct_dst_ops"
  by (simp add: struct_dst_ops_def base_types layout_eval struct_percpu_counter_layout
      del: One_nat_def)

lemma struct_netns_sysctl_ipv6_layout [layout_simps]:
  "sizeof struct_netns_sysctl_ipv6 = 184 \<and> alignof struct_netns_sysctl_ipv6 = 8 \<and> wf_cty struct_netns_sysctl_ipv6"
  by (simp add: struct_netns_sysctl_ipv6_def base_types layout_eval u32_def c__u32_def u8_def c__u8_def u64_def
      c__u64_def
      del: One_nat_def)

lemma struct_netns_ipv6_layout [layout_simps]:
  "sizeof struct_netns_ipv6 = 832 \<and> alignof struct_netns_ipv6 = 8 \<and> wf_cty struct_netns_ipv6"
  by (simp add: struct_netns_ipv6_def base_types layout_eval struct_dst_ops_layout struct_netns_sysctl_ipv6_layout
      struct_timer_list_layout spinlock_t_def struct_spinlock_layout struct_list_head_layout rwlock_t_def
      struct_rwlock_layout atomic_t_layout bool_def struct_delayed_work_layout struct_hlist_head_layout
      u32_def c__u32_def
      del: One_nat_def)

lemma struct_netns_sysctl_lowpan_layout [layout_simps]:
  "sizeof struct_netns_sysctl_lowpan = 8 \<and> alignof struct_netns_sysctl_lowpan = 8 \<and> wf_cty struct_netns_sysctl_lowpan"
  by (simp add: struct_netns_sysctl_lowpan_def base_types layout_eval
      del: One_nat_def)

lemma struct_netns_ieee802154_lowpan_layout [layout_simps]:
  "sizeof struct_netns_ieee802154_lowpan = 16 \<and> alignof struct_netns_ieee802154_lowpan = 8 \<and> wf_cty struct_netns_ieee802154_lowpan"
  by (simp add: struct_netns_ieee802154_lowpan_def base_types layout_eval struct_netns_sysctl_lowpan_layout
      del: One_nat_def)

lemma struct_netns_sctp_layout [layout_simps]:
  "sizeof struct_netns_sctp = 296 \<and> alignof struct_netns_sctp = 8 \<and> wf_cty struct_netns_sctp"
  by (simp add: struct_netns_sctp_def base_types layout_eval struct_list_head_layout struct_timer_list_layout
      spinlock_t_def struct_spinlock_layout
      del: One_nat_def)

lemma struct_netns_nf_layout [layout_simps]:
  "sizeof struct_netns_nf = 264 \<and> alignof struct_netns_nf = 8 \<and> wf_cty struct_netns_nf"
  by (simp add: struct_netns_nf_def base_types layout_eval
      del: One_nat_def)

lemma struct_nf_generic_net_layout [layout_simps]:
  "sizeof struct_nf_generic_net = 4 \<and> alignof struct_nf_generic_net = 4 \<and> wf_cty struct_nf_generic_net"
  by (simp add: struct_nf_generic_net_def base_types layout_eval
      del: One_nat_def)

lemma struct_nf_tcp_net_layout [layout_simps]:
  "sizeof struct_nf_tcp_net = 64 \<and> alignof struct_nf_tcp_net = 4 \<and> wf_cty struct_nf_tcp_net"
  by (simp add: struct_nf_tcp_net_def base_types layout_eval u8_def c__u8_def
      del: One_nat_def)

lemma struct_nf_udp_net_layout [layout_simps]:
  "sizeof struct_nf_udp_net = 12 \<and> alignof struct_nf_udp_net = 4 \<and> wf_cty struct_nf_udp_net"
  by (simp add: struct_nf_udp_net_def base_types layout_eval
      del: One_nat_def)

lemma struct_nf_icmp_net_layout [layout_simps]:
  "sizeof struct_nf_icmp_net = 4 \<and> alignof struct_nf_icmp_net = 4 \<and> wf_cty struct_nf_icmp_net"
  by (simp add: struct_nf_icmp_net_def base_types layout_eval
      del: One_nat_def)

lemma struct_nf_sctp_net_layout [layout_simps]:
  "sizeof struct_nf_sctp_net = 40 \<and> alignof struct_nf_sctp_net = 4 \<and> wf_cty struct_nf_sctp_net"
  by (simp add: struct_nf_sctp_net_def base_types layout_eval
      del: One_nat_def)

lemma struct_nf_gre_net_layout [layout_simps]:
  "sizeof struct_nf_gre_net = 24 \<and> alignof struct_nf_gre_net = 8 \<and> wf_cty struct_nf_gre_net"
  by (simp add: struct_nf_gre_net_def base_types layout_eval struct_list_head_layout
      del: One_nat_def)

lemma struct_nf_ip_net_layout [layout_simps]:
  "sizeof struct_nf_ip_net = 152 \<and> alignof struct_nf_ip_net = 8 \<and> wf_cty struct_nf_ip_net"
  by (simp add: struct_nf_ip_net_def base_types layout_eval struct_nf_generic_net_layout struct_nf_tcp_net_layout
      struct_nf_udp_net_layout struct_nf_icmp_net_layout struct_nf_sctp_net_layout
      struct_nf_gre_net_layout
      del: One_nat_def)

lemma struct_netns_ct_layout [layout_simps]:
  "sizeof struct_netns_ct = 184 \<and> alignof struct_netns_ct = 8 \<and> wf_cty struct_netns_ct"
  by (simp add: struct_netns_ct_def base_types layout_eval bool_def u8_def c__u8_def struct_nf_ip_net_layout
      atomic_t_layout
      del: One_nat_def)

lemma struct_netns_nftables_layout [layout_simps]:
  "sizeof struct_netns_nftables = 8 \<and> alignof struct_netns_nftables = 4 \<and> wf_cty struct_netns_nftables"
  by (simp add: struct_netns_nftables_def base_types layout_eval u8_def c__u8_def
      del: One_nat_def)

lemma struct_netns_ft_layout [layout_simps]:
  "sizeof struct_netns_ft = 8 \<and> alignof struct_netns_ft = 8 \<and> wf_cty struct_netns_ft"
  by (simp add: struct_netns_ft_def base_types layout_eval
      del: One_nat_def)

lemma struct_sk_buff_list_layout [layout_simps]:
  "sizeof struct_sk_buff_list = 16 \<and> alignof struct_sk_buff_list = 8 \<and> wf_cty struct_sk_buff_list"
  by (simp add: struct_sk_buff_list_def base_types layout_eval
      del: One_nat_def)

lemma struct_sk_buff_head_layout [layout_simps]:
  "sizeof struct_sk_buff_head = 24 \<and> alignof struct_sk_buff_head = 8 \<and> wf_cty struct_sk_buff_head"
  by (simp add: struct_sk_buff_head_def base_types layout_eval struct_sk_buff_list_layout c__u32_def spinlock_t_def
      struct_spinlock_layout
      del: One_nat_def)

lemma struct_netns_bpf_layout [layout_simps]:
  "sizeof struct_netns_bpf = 64 \<and> alignof struct_netns_bpf = 8 \<and> wf_cty struct_netns_bpf"
  by (simp add: struct_netns_bpf_def base_types layout_eval struct_list_head_layout
      del: One_nat_def)

lemma struct_xfrm_policy_hash_layout [layout_simps]:
  "sizeof struct_xfrm_policy_hash = 16 \<and> alignof struct_xfrm_policy_hash = 8 \<and> wf_cty struct_xfrm_policy_hash"
  by (simp add: struct_xfrm_policy_hash_def base_types layout_eval u8_def c__u8_def
      del: One_nat_def)

lemma struct_xfrm_policy_hthresh_layout [layout_simps]:
  "sizeof struct_xfrm_policy_hthresh = 48 \<and> alignof struct_xfrm_policy_hthresh = 8 \<and> wf_cty struct_xfrm_policy_hthresh"
  by (simp add: struct_xfrm_policy_hthresh_def base_types layout_eval struct_work_struct_layout seqlock_t_def
      struct_seqlock_layout u8_def c__u8_def
      del: One_nat_def)

lemma struct_netns_xfrm_layout [layout_simps]:
  "sizeof struct_netns_xfrm = 960 \<and> alignof struct_netns_xfrm = 8 \<and> wf_cty struct_netns_xfrm"
  by (simp add: struct_netns_xfrm_def base_types layout_eval struct_list_head_layout struct_work_struct_layout
      struct_xfrm_policy_hash_layout struct_xfrm_policy_hthresh_layout u32_def c__u32_def u8_def
      c__u8_def struct_dst_ops_layout spinlock_t_def struct_spinlock_layout seqcount_spinlock_t_def
      struct_seqcount_spinlock_layout struct_mutex_layout struct_delayed_work_layout
      del: One_nat_def)

lemma struct_seqcount_mutex_layout [layout_simps]:
  "sizeof struct_seqcount_mutex = 4 \<and> alignof struct_seqcount_mutex = 4 \<and> wf_cty struct_seqcount_mutex"
  by (simp add: struct_seqcount_mutex_def base_types layout_eval seqcount_t_def struct_seqcount_layout
      del: One_nat_def)

lemma struct_netns_mpls_layout [layout_simps]:
  "sizeof struct_netns_mpls = 72 \<and> alignof struct_netns_mpls = 8 \<and> wf_cty struct_netns_mpls"
  by (simp add: struct_netns_mpls_def base_types layout_eval size_t_def c__kernel_size_t_def c__kernel_ulong_t_def
      struct_mutex_layout seqcount_mutex_t_def struct_seqcount_mutex_layout
      del: One_nat_def)

lemma struct_netns_can_layout [layout_simps]:
  "sizeof struct_netns_can = 160 \<and> alignof struct_netns_can = 8 \<and> wf_cty struct_netns_can"
  by (simp add: struct_netns_can_def base_types layout_eval spinlock_t_def struct_spinlock_layout
      struct_timer_list_layout struct_hlist_head_layout
      del: One_nat_def)

lemma struct_netns_xdp_layout [layout_simps]:
  "sizeof struct_netns_xdp = 40 \<and> alignof struct_netns_xdp = 8 \<and> wf_cty struct_netns_xdp"
  by (simp add: struct_netns_xdp_def base_types layout_eval struct_mutex_layout struct_hlist_head_layout
      del: One_nat_def)

lemma struct_netns_mctp_layout [layout_simps]:
  "sizeof struct_netns_mctp = 1144 \<and> alignof struct_netns_mctp = 8 \<and> wf_cty struct_netns_mctp"
  by (simp add: struct_netns_mctp_def base_types layout_eval struct_list_head_layout struct_mutex_layout
      struct_hlist_head_layout spinlock_t_def struct_spinlock_layout
      del: One_nat_def)

lemma struct_netns_smc_layout [layout_simps]:
  "sizeof struct_netns_smc = 112 \<and> alignof struct_netns_smc = 8 \<and> wf_cty struct_netns_smc"
  by (simp add: struct_netns_smc_def base_types layout_eval struct_mutex_layout bool_def
      del: One_nat_def)

lemma enum_vsock_net_mode_layout [layout_simps]:
  "sizeof enum_vsock_net_mode = 4 \<and> alignof enum_vsock_net_mode = 4 \<and> wf_cty enum_vsock_net_mode"
  by (simp add: enum_vsock_net_mode_def base_types layout_eval
      del: One_nat_def)

lemma struct_netns_vsock_layout [layout_simps]:
  "sizeof struct_netns_vsock = 24 \<and> alignof struct_netns_vsock = 8 \<and> wf_cty struct_netns_vsock"
  by (simp add: struct_netns_vsock_def base_types layout_eval u32_def c__u32_def enum_vsock_net_mode_layout
      del: One_nat_def)

lemma struct_net_layout [layout_simps]:
  "sizeof struct_net = 6336 \<and> alignof struct_net = 8 \<and> wf_cty struct_net"
  by (simp add: struct_net_def base_types layout_eval refcount_t_def struct_refcount_struct_layout spinlock_t_def
      struct_spinlock_layout u32_def c__u32_def atomic_t_layout struct_list_head_layout
      struct_llist_node_layout struct_idr_layout struct_ns_common_layout struct_ref_tracker_dir_layout
      struct_ctl_table_set_layout struct_xarray_layout struct_raw_notifier_head_layout bool_def
      struct_netns_core_layout struct_netns_mib_layout struct_netns_packet_layout
      struct_netns_unix_layout struct_netns_nexthop_layout struct_netns_ipv4_layout
      struct_netns_ipv6_layout struct_netns_ieee802154_lowpan_layout struct_netns_sctp_layout
      struct_netns_nf_layout struct_netns_ct_layout struct_netns_nftables_layout struct_netns_ft_layout
      struct_sk_buff_head_layout struct_netns_bpf_layout struct_netns_xfrm_layout u64_def c__u64_def
      struct_netns_mpls_layout struct_netns_can_layout struct_netns_xdp_layout struct_netns_mctp_layout
      struct_netns_smc_layout struct_netns_vsock_layout
      del: One_nat_def)

lemma struct_rpc_timer_layout [layout_simps]:
  "sizeof struct_rpc_timer = 112 \<and> alignof struct_rpc_timer = 8 \<and> wf_cty struct_rpc_timer"
  by (simp add: struct_rpc_timer_def base_types layout_eval struct_list_head_layout struct_delayed_work_layout
      del: One_nat_def)

lemma struct_rpc_wait_queue_layout [layout_simps]:
  "sizeof struct_rpc_wait_queue = 200 \<and> alignof struct_rpc_wait_queue = 8 \<and> wf_cty struct_rpc_wait_queue"
  by (simp add: struct_rpc_wait_queue_def base_types layout_eval spinlock_t_def struct_spinlock_layout
      struct_list_head_layout struct_rpc_timer_layout
      del: One_nat_def)

lemma struct_nfs_seqid_counter_layout [layout_simps]:
  "sizeof struct_nfs_seqid_counter = 248 \<and> alignof struct_nfs_seqid_counter = 8 \<and> wf_cty struct_nfs_seqid_counter"
  by (simp add: struct_nfs_seqid_counter_def base_types layout_eval ktime_t_def s64_def c__s64_def u64_def c__u64_def
      u32_def c__u32_def spinlock_t_def struct_spinlock_layout struct_list_head_layout
      struct_rpc_wait_queue_layout
      del: One_nat_def)

lemma struct_nfs4_stateid_struct_layout [layout_simps]:
  "sizeof struct_nfs4_stateid_struct = 20 \<and> alignof struct_nfs4_stateid_struct = 4 \<and> wf_cty struct_nfs4_stateid_struct"
  by (simp add: struct_nfs4_stateid_struct_def base_types layout_eval c__be32_def c__u32_def
      del: One_nat_def)

lemma struct_nfs4_lock_state_layout [layout_simps]:
  "sizeof struct_nfs4_lock_state = 312 \<and> alignof struct_nfs4_lock_state = 8 \<and> wf_cty struct_nfs4_lock_state"
  by (simp add: struct_nfs4_lock_state_def base_types layout_eval struct_list_head_layout struct_nfs_seqid_counter_layout
      nfs4_stateid_def struct_nfs4_stateid_struct_layout refcount_t_def struct_refcount_struct_layout
      fl_owner_t_def
      del: One_nat_def)

lemma struct_partition_meta_info_layout [layout_simps]:
  "sizeof struct_partition_meta_info = 101 \<and> alignof struct_partition_meta_info = 1 \<and> wf_cty struct_partition_meta_info"
  by (simp add: struct_partition_meta_info_def base_types layout_eval u8_def c__u8_def
      del: One_nat_def)

lemma struct_pm_subsys_data_layout [layout_simps]:
  "sizeof struct_pm_subsys_data = 72 \<and> alignof struct_pm_subsys_data = 8 \<and> wf_cty struct_pm_subsys_data"
  by (simp add: struct_pm_subsys_data_def base_types layout_eval spinlock_t_def struct_spinlock_layout
      struct_mutex_layout struct_list_head_layout
      del: One_nat_def)

lemma enum_mq_rq_state_layout [layout_simps]:
  "sizeof enum_mq_rq_state = 4 \<and> alignof enum_mq_rq_state = 4 \<and> wf_cty enum_mq_rq_state"
  by (simp add: enum_mq_rq_state_def base_types layout_eval
      del: One_nat_def)

lemma struct_request_layout [layout_simps]:
  "sizeof struct_request = 272 \<and> alignof struct_request = 8 \<and> wf_cty struct_request"
  by (simp add: struct_request_def base_types layout_eval blk_opf_t_def c__u32_def req_flags_t_def sector_t_def u64_def
      c__u64_def struct_list_head_layout enum_mq_rq_state_layout atomic_t_layout struct_hlist_node_layout
      struct_llist_node_layout struct_rb_node_layout struct_bio_vec_layout
      del: One_nat_def)

lemma enum_rq_qos_id_layout [layout_simps]:
  "sizeof enum_rq_qos_id = 4 \<and> alignof enum_rq_qos_id = 4 \<and> wf_cty enum_rq_qos_id"
  by (simp add: enum_rq_qos_id_def base_types layout_eval
      del: One_nat_def)

lemma struct_rq_qos_layout [layout_simps]:
  "sizeof struct_rq_qos = 40 \<and> alignof struct_rq_qos = 8 \<and> wf_cty struct_rq_qos"
  by (simp add: struct_rq_qos_def base_types layout_eval enum_rq_qos_id_layout
      del: One_nat_def)

lemma struct_throtl_service_queue_layout [layout_simps]:
  "sizeof struct_throtl_service_queue = 128 \<and> alignof struct_throtl_service_queue = 8 \<and> wf_cty struct_throtl_service_queue"
  by (simp add: struct_throtl_service_queue_def base_types layout_eval struct_list_head_layout
      struct_rb_root_cached_layout struct_timer_list_layout
      del: One_nat_def)

lemma struct_throtl_data_layout [layout_simps]:
  "sizeof struct_throtl_data = 176 \<and> alignof struct_throtl_data = 8 \<and> wf_cty struct_throtl_data"
  by (simp add: struct_throtl_data_def base_types layout_eval struct_throtl_service_queue_layout
      struct_work_struct_layout
      del: One_nat_def)

lemma struct_timer_rand_state_layout [layout_simps]:
  "sizeof struct_timer_rand_state = 24 \<and> alignof struct_timer_rand_state = 8 \<and> wf_cty struct_timer_rand_state"
  by (simp add: struct_timer_rand_state_def base_types layout_eval
      del: One_nat_def)

lemma struct_wait_page_queue_layout [layout_simps]:
  "sizeof struct_wait_page_queue = 56 \<and> alignof struct_wait_page_queue = 8 \<and> wf_cty struct_wait_page_queue"
  by (simp add: struct_wait_page_queue_def base_types layout_eval wait_queue_entry_t_def struct_wait_queue_entry_layout
      del: One_nat_def)

lemma struct_wake_irq_layout [layout_simps]:
  "sizeof struct_wake_irq = 24 \<and> alignof struct_wake_irq = 8 \<and> wf_cty struct_wake_irq"
  by (simp add: struct_wake_irq_def base_types layout_eval
      del: One_nat_def)

lemma struct_wakeup_source_layout [layout_simps]:
  "sizeof struct_wakeup_source = 192 \<and> alignof struct_wakeup_source = 8 \<and> wf_cty struct_wakeup_source"
  by (simp add: struct_wakeup_source_def base_types layout_eval struct_list_head_layout spinlock_t_def
      struct_spinlock_layout struct_timer_list_layout ktime_t_def s64_def c__s64_def bool_def
      del: One_nat_def)

end
