(* ===== verification/KernelReach3a.thy ===== *)
theory KernelReach3a
  imports KernelReach2b KernelVfsRefs2
begin

text \<open>
  Types of \<^verbatim>\<open>bpf/vmlinux.h\<close> that are three dereferences away from the objects the program and its loading
  touch, with every type they hold by value (part 1 of 4).
\<close>

section \<open>Types\<close>

definition struct_qdisc_skb_head :: cty where
  "struct_qdisc_skb_head = CStruct ''qdisc_skb_head'' False
     [Field ''head'' (CPtr ''struct sk_buff''),
      Field ''tail'' (CPtr ''struct sk_buff''),
      Field ''qlen'' c__u32,
      Field ''lock'' spinlock_t]"

definition struct_gnet_stats_basic_sync :: cty where
  "struct_gnet_stats_basic_sync = CStruct ''gnet_stats_basic_sync'' False
     [Field ''bytes'' u64_stats_t,
      Field ''packets'' u64_stats_t,
      Field ''syncp'' struct_u64_stats_sync]"

definition struct_gnet_stats_queue :: cty where
  "struct_gnet_stats_queue = CStruct ''gnet_stats_queue'' False
     [Field ''qlen'' c__u32,
      Field ''backlog'' c__u32,
      Field ''drops'' c__u32,
      Field ''requeues'' c__u32,
      Field ''overlimits'' c__u32]"

definition struct_Qdisc :: cty where
  "struct_Qdisc = CStruct ''Qdisc'' False
     [Field ''enqueue'' (CPtr ''int (struct sk_buff *, struct Qdisc *, struct sk_buff **)''),
      Field ''dequeue'' (CPtr ''struct sk_buff * (struct Qdisc *)''),
      Field ''flags'' unsigned_int,
      Field ''limit'' u32,
      Field ''ops'' (CPtr ''const struct Qdisc_ops''),
      Field ''stab'' (CPtr ''struct qdisc_size_table''),
      Field ''hash'' struct_hlist_node,
      Field ''handle'' u32,
      Field ''parent'' u32,
      Field ''dev_queue'' (CPtr ''struct netdev_queue''),
      Field ''rate_est'' (CPtr ''struct net_rate_estimator''),
      Field ''cpu_bstats'' (CPtr ''struct gnet_stats_basic_sync''),
      Field ''cpu_qstats'' (CPtr ''struct gnet_stats_queue''),
      Field ''pad'' c_int,
      Field ''refcnt'' refcount_t,
      BitField [] c_long 64,
      BitField [] c_long 64,
      BitField [] c_long 64,
      Field ''__cacheline_group_begin__Qdisc_read_mostly'' (CArr 0 c__u8),
      Field ''gso_skb'' struct_sk_buff_head,
      Field ''next_sched'' (CPtr ''struct Qdisc''),
      Field ''skb_bad_txq'' struct_sk_buff_head,
      Field ''__cacheline_group_end__Qdisc_read_mostly'' (CArr 0 c__u8),
      BitField [] c_long 64,
      Field ''__cacheline_group_begin__Qdisc_write'' (CArr 0 c__u8),
      Field ''q'' struct_qdisc_skb_head,
      Field ''state'' long_unsigned_int,
      Field ''bstats'' struct_gnet_stats_basic_sync,
      Field ''running'' bool,
      Field ''qstats'' struct_gnet_stats_queue,
      Field ''to_free'' (CPtr ''struct sk_buff''),
      Field ''__cacheline_group_end__Qdisc_write'' (CArr 0 c__u8),
      BitField [] c_long 64,
      BitField [] c_long 64,
      BitField [] c_long 64,
      BitField [] c_long 64,
      BitField [] c_long 64,
      BitField [] c_long 64,
      Field ''defer_count'' atomic_long_t,
      Field ''defer_list'' struct_llist_head,
      Field ''seqlock'' spinlock_t,
      Field ''rcu'' struct_callback_head,
      Field ''dev_tracker'' netdevice_tracker,
      Field ''root_lock_key'' struct_lock_class_key,
      BitField [] c_long 64,
      BitField [] c_long 64,
      BitField [] c_long 64,
      Field ''privdata'' (CArr 0 c_long)]"

definition struct_aa_policy :: cty where
  "struct_aa_policy = CStruct ''aa_policy'' False
     [Field ''name'' (CPtr ''const char''),
      Field ''hname'' (CPtr ''char''),
      Field ''list'' struct_list_head,
      Field ''profiles'' struct_list_head]"

definition enum_audit_mode :: cty where
  "enum_audit_mode = CEnum 4
     [(''AUDIT_NORMAL'', 0), (''AUDIT_QUIET_DENIED'', 1), (''AUDIT_QUIET'', 2),
      (''AUDIT_NOQUIET'', 3), (''AUDIT_ALL'', 4)]"

definition struct_aa_attachment :: cty where
  "struct_aa_attachment = CStruct ''aa_attachment'' False
     [Field ''xmatch_str'' (CPtr ''const char''),
      Field ''xmatch'' (CPtr ''struct aa_policydb''),
      Field ''xmatch_len'' unsigned_int,
      Field ''xattr_count'' c_int,
      Field ''xattrs'' (CPtr ''char *'')]"

definition struct_aa_audit_cache :: cty where
  "struct_aa_audit_cache = CStruct ''aa_audit_cache'' False
     [Field ''lock'' spinlock_t,
      Field ''size'' c_int,
      Field ''head'' struct_list_head]"

definition struct_aa_profile :: cty where
  "struct_aa_profile = CStruct ''aa_profile'' False
     [Field ''base'' struct_aa_policy,
      Field ''parent'' (CPtr ''struct aa_profile''),
      Field ''ns'' (CPtr ''struct aa_ns''),
      Field ''rename'' (CPtr ''const char''),
      Field ''audit'' enum_audit_mode,
      Field ''mode'' c_long,
      Field ''path_flags'' u32,
      Field ''signal'' c_int,
      Field ''disconnected'' (CPtr ''const char''),
      Field ''disconnected_ipc'' (CPtr ''const char''),
      Field ''attach'' struct_aa_attachment,
      Field ''net_compat'' (CPtr ''struct aa_net_compat''),
      Field ''learning_cache'' struct_aa_audit_cache,
      Field ''rawdata'' (CPtr ''struct aa_loaddata''),
      Field ''hash'' (CPtr ''unsigned char''),
      Field ''dirname'' (CPtr ''char''),
      Field ''dents'' (CArr 10 (CPtr ''struct dentry'')),
      Field ''data'' (CPtr ''struct rhashtable''),
      Field ''n_rules'' c_int,
      Field ''label'' struct_aa_label]"

definition struct_aa_proxy :: cty where
  "struct_aa_proxy = CStruct ''aa_proxy'' False
     [Field ''count'' struct_aa_common_ref,
      Field ''label'' (CPtr ''struct aa_label'')]"

definition struct_aa_caps :: cty where
  "struct_aa_caps = CStruct ''aa_caps'' False
     [Field ''allow'' kernel_cap_t,
      Field ''audit'' kernel_cap_t,
      Field ''denied'' kernel_cap_t,
      Field ''quiet'' kernel_cap_t,
      Field ''kill'' kernel_cap_t,
      Field ''extended'' kernel_cap_t]"

definition struct_aa_rlimit :: cty where
  "struct_aa_rlimit = CStruct ''aa_rlimit'' False
     [Field ''mask'' unsigned_int,
      Field ''limits'' (CArr 16 struct_rlimit)]"

definition struct_aa_ruleset :: cty where
  "struct_aa_ruleset = CStruct ''aa_ruleset'' False
     [Field ''size'' c_int,
      Field ''policy'' (CPtr ''struct aa_policydb''),
      Field ''file'' (CPtr ''struct aa_policydb''),
      Field ''caps'' struct_aa_caps,
      Field ''rlimits'' struct_aa_rlimit,
      Field ''secmark_count'' c_int,
      Field ''secmark'' (CPtr ''struct aa_secmark'')]"

definition struct_audit_node :: cty where
  "struct_audit_node = CStruct ''audit_node'' False
     [Field ''list'' struct_list_head,
      Field ''owner'' (CPtr ''struct audit_tree''),
      Field ''index'' unsigned_int]"

definition struct_audit_chunk :: cty where
  "struct_audit_chunk = CStruct ''audit_chunk'' False
     [Field ''hash'' struct_list_head,
      Field ''key'' long_unsigned_int,
      Field ''mark'' (CPtr ''struct fsnotify_mark''),
      Field ''trees'' struct_list_head,
      Field ''count'' c_int,
      Field ''refs'' atomic_long_t,
      Field ''head'' struct_callback_head,
      Field ''owners'' (CArr 0 struct_audit_node)]"

definition ax25_dama_info :: cty where
  "ax25_dama_info = CStruct [] False
      [Field ''slave'' c_char,
       Field ''slave_timer'' struct_timer_list,
       Field ''slave_timeout'' short_unsigned_int]"

definition struct_ax25_dev :: cty where
  "struct_ax25_dev = CStruct ''ax25_dev'' False
     [Field ''list'' struct_list_head,
      Field ''dev'' (CPtr ''struct net_device''),
      Field ''dev_tracker'' netdevice_tracker,
      Field ''forward'' (CPtr ''struct net_device''),
      Field ''sysheader'' (CPtr ''struct ctl_table_header''),
      Field ''values'' (CArr 14 c_int),
      Field ''dama'' ax25_dama_info,
      Field ''refcount'' refcount_t,
      Field ''device_up'' bool,
      Field ''rcu'' struct_callback_head]"

definition struct_blk_mq_debugfs_attr :: cty where
  "struct_blk_mq_debugfs_attr = CStruct ''blk_mq_debugfs_attr'' False
     [Field ''name'' (CPtr ''const char''),
      Field ''mode'' umode_t,
      Field ''show'' (CPtr ''int (void *, struct seq_file *)''),
      Field ''write'' (CPtr ''ssize_t (void *, const char *, size_t, loff_t *)''),
      Field ''seq_ops'' (CPtr ''const struct seq_operations'')]"

definition struct_blkcg_policy_data :: cty where
  "struct_blkcg_policy_data = CStruct ''blkcg_policy_data'' False
     [Field ''blkcg'' (CPtr ''struct blkcg''),
      Field ''plid'' c_int]"

definition struct_bpf_local_storage_map_bucket :: cty where
  "struct_bpf_local_storage_map_bucket = CStruct ''bpf_local_storage_map_bucket'' False
     [Field ''list'' struct_hlist_head,
      Field ''lock'' rqspinlock_t]"

definition struct_bpf_mprog_fp :: cty where
  "struct_bpf_mprog_fp = CStruct ''bpf_mprog_fp'' False
     [Field ''prog'' (CPtr ''struct bpf_prog'')]"

definition struct_bpf_mprog_entry :: cty where
  "struct_bpf_mprog_entry = CStruct ''bpf_mprog_entry'' False
     [Field ''fp_items'' (CArr 64 struct_bpf_mprog_fp),
      Field ''parent'' (CPtr ''struct bpf_mprog_bundle'')]"

definition struct_bpf_xdp_link :: cty where
  "struct_bpf_xdp_link = CStruct ''bpf_xdp_link'' False
     [Field ''link'' struct_bpf_link,
      Field ''dev'' (CPtr ''struct net_device''),
      Field ''flags'' c_int]"

definition struct_bucket_table :: cty where
  "struct_bucket_table = CStruct ''bucket_table'' False
     [Field ''size'' unsigned_int,
      Field ''nest'' unsigned_int,
      Field ''hash_rnd'' u32,
      Field ''walkers'' struct_list_head,
      Field ''rcu'' struct_callback_head,
      Field ''future_tbl'' (CPtr ''struct bucket_table''),
      Field ''dep_map'' struct_lockdep_map,
      BitField [] c_long 64,
      Field ''buckets'' (CArr 0 (CPtr ''struct rhash_lock_head''))]"

definition struct_cpu_rmap :: cty where
  "struct_cpu_rmap = CStruct ''cpu_rmap'' False
     [Field ''refcount'' struct_kref,
      Field ''size'' u16,
      Field ''obj'' (CPtr ''void *''),
      Field ''near'' (CArr 0 (CStruct [] False
        [Field ''index'' u16,
         Field ''dist'' u16]))]"

definition struct_cpudl_item :: cty where
  "struct_cpudl_item = CStruct ''cpudl_item'' False
     [Field ''dl'' u64,
      Field ''cpu'' c_int,
      Field ''idx'' c_int]"

definition struct_ctl_table_poll :: cty where
  "struct_ctl_table_poll = CStruct ''ctl_table_poll'' False
     [Field ''event'' atomic_t,
      Field ''wait'' wait_queue_head_t]"

definition struct_ctx_rq_wait :: cty where
  "struct_ctx_rq_wait = CStruct ''ctx_rq_wait'' False
     [Field ''comp'' struct_completion,
      Field ''count'' atomic_t]"

definition struct_dcbnl_rtnl_ops :: cty where
  "struct_dcbnl_rtnl_ops = CStruct ''dcbnl_rtnl_ops'' False
     [Field ''ieee_getets'' (CPtr ''int (struct net_device *, struct ieee_ets *)''),
      Field ''ieee_setets'' (CPtr ''int (struct net_device *, struct ieee_ets *)''),
      Field ''ieee_getmaxrate'' (CPtr ''int (struct net_device *, struct ieee_maxrate *)''),
      Field ''ieee_setmaxrate'' (CPtr ''int (struct net_device *, struct ieee_maxrate *)''),
      Field ''ieee_getqcn'' (CPtr ''int (struct net_device *, struct ieee_qcn *)''),
      Field ''ieee_setqcn'' (CPtr ''int (struct net_device *, struct ieee_qcn *)''),
      Field ''ieee_getqcnstats'' (CPtr ''int (struct net_device *, struct ieee_qcn_stats *)''),
      Field ''ieee_getpfc'' (CPtr ''int (struct net_device *, struct ieee_pfc *)''),
      Field ''ieee_setpfc'' (CPtr ''int (struct net_device *, struct ieee_pfc *)''),
      Field ''ieee_getapp'' (CPtr ''int (struct net_device *, struct dcb_app *)''),
      Field ''ieee_setapp'' (CPtr ''int (struct net_device *, struct dcb_app *)''),
      Field ''ieee_delapp'' (CPtr ''int (struct net_device *, struct dcb_app *)''),
      Field ''ieee_peer_getets'' (CPtr ''int (struct net_device *, struct ieee_ets *)''),
      Field ''ieee_peer_getpfc'' (CPtr ''int (struct net_device *, struct ieee_pfc *)''),
      Field ''getstate'' (CPtr ''u8 (struct net_device *)''),
      Field ''setstate'' (CPtr ''u8 (struct net_device *, u8)''),
      Field ''getpermhwaddr'' (CPtr ''void (struct net_device *, u8 *)''),
      Field ''setpgtccfgtx'' (CPtr ''void (struct net_device *, int, u8, u8, u8, u8)''),
      Field ''setpgbwgcfgtx'' (CPtr ''void (struct net_device *, int, u8)''),
      Field ''setpgtccfgrx'' (CPtr ''void (struct net_device *, int, u8, u8, u8, u8)''),
      Field ''setpgbwgcfgrx'' (CPtr ''void (struct net_device *, int, u8)''),
      Field ''getpgtccfgtx'' (CPtr ''void (struct net_device *, int, u8 *, u8 *, u8 *, u8 *)''),
      Field ''getpgbwgcfgtx'' (CPtr ''void (struct net_device *, int, u8 *)''),
      Field ''getpgtccfgrx'' (CPtr ''void (struct net_device *, int, u8 *, u8 *, u8 *, u8 *)''),
      Field ''getpgbwgcfgrx'' (CPtr ''void (struct net_device *, int, u8 *)''),
      Field ''setpfccfg'' (CPtr ''void (struct net_device *, int, u8)''),
      Field ''getpfccfg'' (CPtr ''void (struct net_device *, int, u8 *)''),
      Field ''setall'' (CPtr ''u8 (struct net_device *)''),
      Field ''getcap'' (CPtr ''u8 (struct net_device *, int, u8 *)''),
      Field ''getnumtcs'' (CPtr ''int (struct net_device *, int, u8 *)''),
      Field ''setnumtcs'' (CPtr ''int (struct net_device *, int, u8)''),
      Field ''getpfcstate'' (CPtr ''u8 (struct net_device *)''),
      Field ''setpfcstate'' (CPtr ''void (struct net_device *, u8)''),
      Field ''getbcncfg'' (CPtr ''void (struct net_device *, int, u32 *)''),
      Field ''setbcncfg'' (CPtr ''void (struct net_device *, int, u32)''),
      Field ''getbcnrp'' (CPtr ''void (struct net_device *, int, u8 *)''),
      Field ''setbcnrp'' (CPtr ''void (struct net_device *, int, u8)''),
      Field ''setapp'' (CPtr ''int (struct net_device *, u8, u16, u8)''),
      Field ''getapp'' (CPtr ''int (struct net_device *, u8, u16)''),
      Field ''getfeatcfg'' (CPtr ''u8 (struct net_device *, int, u8 *)''),
      Field ''setfeatcfg'' (CPtr ''u8 (struct net_device *, int, u8)''),
      Field ''getdcbx'' (CPtr ''u8 (struct net_device *)''),
      Field ''setdcbx'' (CPtr ''u8 (struct net_device *, u8)''),
      Field ''peer_getappinfo'' (CPtr ''int (struct net_device *, struct dcb_peer_app_info *, u16 *)''),
      Field ''peer_getapptable'' (CPtr ''int (struct net_device *, struct dcb_app *)''),
      Field ''cee_peer_getpg'' (CPtr ''int (struct net_device *, struct cee_pg *)''),
      Field ''cee_peer_getpfc'' (CPtr ''int (struct net_device *, struct cee_pfc *)''),
      Field ''dcbnl_getbuffer'' (CPtr ''int (struct net_device *, struct dcbnl_buffer *)''),
      Field ''dcbnl_setbuffer'' (CPtr ''int (struct net_device *, struct dcbnl_buffer *)''),
      Field ''dcbnl_setapptrust'' (CPtr ''int (struct net_device *, u8 *, int)''),
      Field ''dcbnl_getapptrust'' (CPtr ''int (struct net_device *, u8 *, int *)''),
      Field ''dcbnl_setrewr'' (CPtr ''int (struct net_device *, struct dcb_app *)''),
      Field ''dcbnl_delrewr'' (CPtr ''int (struct net_device *, struct dcb_app *)'')]"

definition struct_dev_ifalias :: cty where
  "struct_dev_ifalias = CStruct ''dev_ifalias'' False
     [Field ''rcuhead'' struct_callback_head,
      Field ''ifalias'' (CArr 0 c_char)]"

definition enum_devlink_port_type :: cty where
  "enum_devlink_port_type = CEnum 4
     [(''DEVLINK_PORT_TYPE_NOTSET'', 0), (''DEVLINK_PORT_TYPE_AUTO'', 1),
      (''DEVLINK_PORT_TYPE_ETH'', 2), (''DEVLINK_PORT_TYPE_IB'', 3)]"

definition enum_devlink_port_flavour :: cty where
  "enum_devlink_port_flavour = CEnum 4
     [(''DEVLINK_PORT_FLAVOUR_PHYSICAL'', 0), (''DEVLINK_PORT_FLAVOUR_CPU'', 1),
      (''DEVLINK_PORT_FLAVOUR_DSA'', 2), (''DEVLINK_PORT_FLAVOUR_PCI_PF'', 3),
      (''DEVLINK_PORT_FLAVOUR_PCI_VF'', 4), (''DEVLINK_PORT_FLAVOUR_VIRTUAL'', 5),
      (''DEVLINK_PORT_FLAVOUR_UNUSED'', 6), (''DEVLINK_PORT_FLAVOUR_PCI_SF'', 7)]"

definition struct_netdev_phys_item_id :: cty where
  "struct_netdev_phys_item_id = CStruct ''netdev_phys_item_id'' False
     [Field ''id'' (CArr 32 unsigned_char),
      Field ''id_len'' unsigned_char]"

definition struct_devlink_port_phys_attrs :: cty where
  "struct_devlink_port_phys_attrs = CStruct ''devlink_port_phys_attrs'' False
     [Field ''port_number'' u32,
      Field ''split_subport_number'' u32]"

definition struct_devlink_port_pci_pf_attrs :: cty where
  "struct_devlink_port_pci_pf_attrs = CStruct ''devlink_port_pci_pf_attrs'' False
     [Field ''controller'' u32,
      Field ''pf'' u16,
      BitField ''external'' u8 1]"

definition struct_devlink_port_pci_vf_attrs :: cty where
  "struct_devlink_port_pci_vf_attrs = CStruct ''devlink_port_pci_vf_attrs'' False
     [Field ''controller'' u32,
      Field ''pf'' u16,
      Field ''vf'' u16,
      BitField ''external'' u8 1]"

definition struct_devlink_port_pci_sf_attrs :: cty where
  "struct_devlink_port_pci_sf_attrs = CStruct ''devlink_port_pci_sf_attrs'' False
     [Field ''controller'' u32,
      Field ''sf'' u32,
      Field ''pf'' u16,
      BitField ''external'' u8 1]"

definition struct_devlink_port_attrs :: cty where
  "struct_devlink_port_attrs = CStruct ''devlink_port_attrs'' False
     [BitField ''split'' u8 1,
      BitField ''splittable'' u8 1,
      BitField ''no_phys_port_name'' u8 1,
      Field ''lanes'' u32,
      Field ''flavour'' enum_devlink_port_flavour,
      Field ''switch_id'' struct_netdev_phys_item_id,
      Field [] (CUnion [] False
        [Field ''phys'' struct_devlink_port_phys_attrs,
         Field ''pci_pf'' struct_devlink_port_pci_pf_attrs,
         Field ''pci_vf'' struct_devlink_port_pci_vf_attrs,
         Field ''pci_sf'' struct_devlink_port_pci_sf_attrs])]"

definition struct_devlink_port :: cty where
  "struct_devlink_port = CStruct ''devlink_port'' False
     [Field ''list'' struct_list_head,
      Field ''region_list'' struct_list_head,
      Field ''devlink'' (CPtr ''struct devlink''),
      Field ''ops'' (CPtr ''const struct devlink_port_ops''),
      Field ''index'' unsigned_int,
      Field ''type_lock'' spinlock_t,
      Field ''type'' enum_devlink_port_type,
      Field ''desired_type'' enum_devlink_port_type,
      Field [] (CUnion [] False
        [Field ''type_eth'' (CStruct [] False
           [Field ''netdev'' (CPtr ''struct net_device''),
            Field ''ifindex'' c_int,
            Field ''ifname'' (CArr 16 c_char)]),
         Field ''type_ib'' (CStruct [] False
           [Field ''ibdev'' (CPtr ''struct ib_device'')])]),
      Field ''attrs'' struct_devlink_port_attrs,
      BitField ''attrs_set'' u8 1,
      BitField ''switch_port'' u8 1,
      BitField ''registered'' u8 1,
      BitField ''initialized'' u8 1,
      Field ''type_warn_dw'' struct_delayed_work,
      Field ''reporter_list'' struct_list_head,
      Field ''devlink_rate'' (CPtr ''struct devlink_rate''),
      Field ''linecard'' (CPtr ''struct devlink_linecard''),
      Field ''rel_index'' u32]"

definition struct_dim_irq_moder :: cty where
  "struct_dim_irq_moder = CStruct ''dim_irq_moder'' False
     [Field ''profile_flags'' u8,
      Field ''coal_flags'' u8,
      Field ''dim_rx_mode'' u8,
      Field ''dim_tx_mode'' u8,
      Field ''rx_profile'' (CPtr ''struct dim_cq_moder''),
      Field ''tx_profile'' (CPtr ''struct dim_cq_moder''),
      Field ''rx_dim_work'' (CPtr ''void (struct work_struct *)''),
      Field ''tx_dim_work'' (CPtr ''void (struct work_struct *)'')]"

definition struct_dm_hw_stat_delta :: cty where
  "struct_dm_hw_stat_delta = CStruct ''dm_hw_stat_delta'' False
     [Field ''last_rx'' long_unsigned_int,
      Field ''last_drop_val'' long_unsigned_int,
      Field ''rcu'' struct_callback_head]"

definition enum_dpll_pin_type :: cty where
  "enum_dpll_pin_type = CEnum 4
     [(''DPLL_PIN_TYPE_MUX'', 1), (''DPLL_PIN_TYPE_EXT'', 2),
      (''DPLL_PIN_TYPE_SYNCE_ETH_PORT'', 3), (''DPLL_PIN_TYPE_INT_OSCILLATOR'', 4),
      (''DPLL_PIN_TYPE_GNSS'', 5), (''__DPLL_PIN_TYPE_MAX'', 6), (''DPLL_PIN_TYPE_MAX'', 5)]"

definition struct_dpll_pin_phase_adjust_range :: cty where
  "struct_dpll_pin_phase_adjust_range = CStruct ''dpll_pin_phase_adjust_range'' False
     [Field ''min'' s32,
      Field ''max'' s32]"

definition struct_dpll_pin_properties :: cty where
  "struct_dpll_pin_properties = CStruct ''dpll_pin_properties'' False
     [Field ''board_label'' (CPtr ''const char''),
      Field ''panel_label'' (CPtr ''const char''),
      Field ''package_label'' (CPtr ''const char''),
      Field ''type'' enum_dpll_pin_type,
      Field ''capabilities'' long_unsigned_int,
      Field ''freq_supported_num'' u32,
      Field ''freq_supported'' (CPtr ''struct dpll_pin_frequency''),
      Field ''phase_range'' struct_dpll_pin_phase_adjust_range,
      Field ''phase_gran'' u32]"

definition struct_dpll_pin :: cty where
  "struct_dpll_pin = CStruct ''dpll_pin'' False
     [Field ''id'' u32,
      Field ''pin_idx'' u32,
      Field ''clock_id'' u64,
      Field ''module'' (CPtr ''struct module''),
      Field ''fwnode'' (CPtr ''struct fwnode_handle''),
      Field ''dpll_refs'' struct_xarray,
      Field ''parent_refs'' struct_xarray,
      Field ''ref_sync_pins'' struct_xarray,
      Field ''prop'' struct_dpll_pin_properties,
      Field ''refcount'' refcount_t,
      Field ''refcnt_tracker'' struct_ref_tracker_dir,
      Field ''rcu'' struct_callback_head]"

definition enum_phylink_op_type :: cty where
  "enum_phylink_op_type = CEnum 4
     [(''PHYLINK_NETDEV'', 0), (''PHYLINK_DEV'', 1)]"

definition struct_phylink_config :: cty where
  "struct_phylink_config = CStruct ''phylink_config'' False
     [Field ''dev'' (CPtr ''struct device''),
      Field ''type'' enum_phylink_op_type,
      Field ''poll_fixed_state'' bool,
      Field ''mac_managed_pm'' bool,
      Field ''mac_requires_rxc'' bool,
      Field ''default_an_inband'' bool,
      Field ''eee_rx_clk_stop_enable'' bool,
      Field ''get_fixed_state'' (CPtr ''void (struct phylink_config *, struct phylink_link_state *)''),
      Field ''supported_interfaces'' (CArr 1 long_unsigned_int),
      Field ''lpi_interfaces'' (CArr 1 long_unsigned_int),
      Field ''mac_capabilities'' long_unsigned_int,
      Field ''lpi_capabilities'' long_unsigned_int,
      Field ''lpi_timer_default'' u32,
      Field ''eee_enabled_default'' bool,
      Field ''wol_phy_legacy'' bool,
      Field ''wol_phy_speed_ctrl'' bool,
      Field ''wol_mac_support'' u32]"

definition struct_dsa_port :: cty where
  "struct_dsa_port = CStruct ''dsa_port'' False
     [Field [] (CUnion [] False
        [Field ''conduit'' (CPtr ''struct net_device''),
         Field ''user'' (CPtr ''struct net_device'')]),
      Field ''tag_ops'' (CPtr ''const struct dsa_device_ops''),
      Field ''dst'' (CPtr ''struct dsa_switch_tree''),
      Field ''rcv'' (CPtr ''struct sk_buff * (struct sk_buff *, struct net_device *)''),
      Field ''ds'' (CPtr ''struct dsa_switch''),
      Field ''index'' unsigned_int,
      Field ''type'' (CEnum 4 [(''DSA_PORT_TYPE_UNUSED'', 0), (''DSA_PORT_TYPE_CPU'', 1), (''DSA_PORT_TYPE_DSA'', 2),
         (''DSA_PORT_TYPE_USER'', 3)]),
      Field ''name'' (CPtr ''const char''),
      Field ''cpu_dp'' (CPtr ''struct dsa_port''),
      Field ''mac'' (CArr 6 u8),
      Field ''stp_state'' u8,
      BitField ''vlan_filtering'' u8 1,
      BitField ''learning'' u8 1,
      BitField ''lag_tx_enabled'' u8 1,
      BitField ''conduit_admin_up'' u8 1,
      BitField ''conduit_oper_up'' u8 1,
      BitField ''cpu_port_in_lag'' u8 1,
      BitField ''setup'' u8 1,
      Field ''dn'' (CPtr ''struct device_node''),
      Field ''ageing_time'' unsigned_int,
      Field ''bridge'' (CPtr ''struct dsa_bridge''),
      Field ''devlink_port'' struct_devlink_port,
      Field ''pl'' (CPtr ''struct phylink''),
      Field ''pl_config'' struct_phylink_config,
      Field ''conduit_tracker'' netdevice_tracker,
      Field ''lag'' (CPtr ''struct dsa_lag''),
      Field ''hsr_dev'' (CPtr ''struct net_device''),
      Field ''list'' struct_list_head,
      Field ''orig_ethtool_ops'' (CPtr ''const struct ethtool_ops''),
      Field ''addr_lists_lock'' struct_mutex,
      Field ''fdbs'' struct_list_head,
      Field ''mdbs'' struct_list_head,
      Field ''vlans_lock'' struct_mutex,
      Field [] (CUnion [] False
        [Field ''vlans'' struct_list_head,
         Field ''user_vlans'' struct_list_head])]"

definition struct_dst_metrics :: cty where
  "struct_dst_metrics = CStruct ''dst_metrics'' False
     [Field ''metrics'' (CArr 17 u32),
      Field ''refcnt'' refcount_t]"

definition struct_elv_fs_entry :: cty where
  "struct_elv_fs_entry = CStruct ''elv_fs_entry'' False
     [Field ''attr'' struct_attribute,
      Field ''show'' (CPtr ''ssize_t (struct elevator_queue *, char *)''),
      Field ''store'' (CPtr ''ssize_t (struct elevator_queue *, const char *, size_t)'')]"

definition struct_ethtool_netdev_state :: cty where
  "struct_ethtool_netdev_state = CStruct ''ethtool_netdev_state'' False
     [Field ''rss_ctx'' struct_xarray,
      Field ''rss_lock'' struct_mutex,
      BitField ''wol_enabled'' unsigned_int 1,
      BitField ''module_fw_flash_in_progress'' unsigned_int 1]"

definition struct_ethtool_ops :: cty where
  "struct_ethtool_ops = CStruct ''ethtool_ops'' False
     [BitField ''supported_input_xfrm'' u32 8,
      BitField ''cap_link_lanes_supported'' u32 1,
      BitField ''rxfh_per_ctx_fields'' u32 1,
      BitField ''rxfh_per_ctx_key'' u32 1,
      BitField ''cap_rss_rxnfc_adds'' u32 1,
      Field ''rxfh_indir_space'' u32,
      Field ''rxfh_key_space'' u16,
      Field ''rxfh_priv_size'' u16,
      Field ''rxfh_max_num_contexts'' u32,
      Field ''supported_coalesce_params'' u32,
      Field ''supported_ring_params'' u32,
      Field ''supported_hwtstamp_qualifiers'' u32,
      Field ''get_drvinfo'' (CPtr ''void (struct net_device *, struct ethtool_drvinfo *)''),
      Field ''get_regs_len'' (CPtr ''int (struct net_device *)''),
      Field ''get_regs'' (CPtr ''void (struct net_device *, struct ethtool_regs *, void *)''),
      Field ''get_wol'' (CPtr ''void (struct net_device *, struct ethtool_wolinfo *)''),
      Field ''set_wol'' (CPtr ''int (struct net_device *, struct ethtool_wolinfo *)''),
      Field ''get_msglevel'' (CPtr ''u32 (struct net_device *)''),
      Field ''set_msglevel'' (CPtr ''void (struct net_device *, u32)''),
      Field ''nway_reset'' (CPtr ''int (struct net_device *)''),
      Field ''get_link'' (CPtr ''u32 (struct net_device *)''),
      Field ''get_link_ext_state'' (CPtr ''int (struct net_device *, struct ethtool_link_ext_state_info *)''),
      Field ''get_link_ext_stats'' (CPtr ''void (struct net_device *, struct ethtool_link_ext_stats *)''),
      Field ''get_eeprom_len'' (CPtr ''int (struct net_device *)''),
      Field ''get_eeprom'' (CPtr ''int (struct net_device *, struct ethtool_eeprom *, u8 *)''),
      Field ''set_eeprom'' (CPtr ''int (struct net_device *, struct ethtool_eeprom *, u8 *)''),
      Field ''get_coalesce'' (CPtr ''int (struct net_device *, struct ethtool_coalesce *, struct kernel_ethtool_coalesce *, struct netlink_ext_ack *)''),
      Field ''set_coalesce'' (CPtr ''int (struct net_device *, struct ethtool_coalesce *, struct kernel_ethtool_coalesce *, struct netlink_ext_ack *)''),
      Field ''get_ringparam'' (CPtr ''void (struct net_device *, struct ethtool_ringparam *, struct kernel_ethtool_ringparam *, struct netlink_ext_ack *)''),
      Field ''set_ringparam'' (CPtr ''int (struct net_device *, struct ethtool_ringparam *, struct kernel_ethtool_ringparam *, struct netlink_ext_ack *)''),
      Field ''get_pause_stats'' (CPtr ''void (struct net_device *, struct ethtool_pause_stats *)''),
      Field ''get_pauseparam'' (CPtr ''void (struct net_device *, struct ethtool_pauseparam *)''),
      Field ''set_pauseparam'' (CPtr ''int (struct net_device *, struct ethtool_pauseparam *)''),
      Field ''self_test'' (CPtr ''void (struct net_device *, struct ethtool_test *, u64 *)''),
      Field ''get_strings'' (CPtr ''void (struct net_device *, u32, u8 *)''),
      Field ''set_phys_id'' (CPtr ''int (struct net_device *, enum ethtool_phys_id_state)''),
      Field ''get_ethtool_stats'' (CPtr ''void (struct net_device *, struct ethtool_stats *, u64 *)''),
      Field ''begin'' (CPtr ''int (struct net_device *)''),
      Field ''complete'' (CPtr ''void (struct net_device *)''),
      Field ''get_priv_flags'' (CPtr ''u32 (struct net_device *)''),
      Field ''set_priv_flags'' (CPtr ''int (struct net_device *, u32)''),
      Field ''get_sset_count'' (CPtr ''int (struct net_device *, int)''),
      Field ''get_rxnfc'' (CPtr ''int (struct net_device *, struct ethtool_rxnfc *, u32 *)''),
      Field ''set_rxnfc'' (CPtr ''int (struct net_device *, struct ethtool_rxnfc *)''),
      Field ''flash_device'' (CPtr ''int (struct net_device *, struct ethtool_flash *)''),
      Field ''reset'' (CPtr ''int (struct net_device *, u32 *)''),
      Field ''get_rx_ring_count'' (CPtr ''u32 (struct net_device *)''),
      Field ''get_rxfh_key_size'' (CPtr ''u32 (struct net_device *)''),
      Field ''get_rxfh_indir_size'' (CPtr ''u32 (struct net_device *)''),
      Field ''get_rxfh'' (CPtr ''int (struct net_device *, struct ethtool_rxfh_param *)''),
      Field ''set_rxfh'' (CPtr ''int (struct net_device *, struct ethtool_rxfh_param *, struct netlink_ext_ack *)''),
      Field ''get_rxfh_fields'' (CPtr ''int (struct net_device *, struct ethtool_rxfh_fields *)''),
      Field ''set_rxfh_fields'' (CPtr ''int (struct net_device *, const struct ethtool_rxfh_fields *, struct netlink_ext_ack *)''),
      Field ''create_rxfh_context'' (CPtr ''int (struct net_device *, struct ethtool_rxfh_context *, const struct ethtool_rxfh_param *, struct netlink_ext_ack *)''),
      Field ''modify_rxfh_context'' (CPtr ''int (struct net_device *, struct ethtool_rxfh_context *, const struct ethtool_rxfh_param *, struct netlink_ext_ack *)''),
      Field ''remove_rxfh_context'' (CPtr ''int (struct net_device *, struct ethtool_rxfh_context *, u32, struct netlink_ext_ack *)''),
      Field ''get_channels'' (CPtr ''void (struct net_device *, struct ethtool_channels *)''),
      Field ''set_channels'' (CPtr ''int (struct net_device *, struct ethtool_channels *)''),
      Field ''get_dump_flag'' (CPtr ''int (struct net_device *, struct ethtool_dump *)''),
      Field ''get_dump_data'' (CPtr ''int (struct net_device *, struct ethtool_dump *, void *)''),
      Field ''set_dump'' (CPtr ''int (struct net_device *, struct ethtool_dump *)''),
      Field ''get_ts_info'' (CPtr ''int (struct net_device *, struct kernel_ethtool_ts_info *)''),
      Field ''get_ts_stats'' (CPtr ''void (struct net_device *, struct ethtool_ts_stats *)''),
      Field ''get_module_info'' (CPtr ''int (struct net_device *, struct ethtool_modinfo *)''),
      Field ''get_module_eeprom'' (CPtr ''int (struct net_device *, struct ethtool_eeprom *, u8 *)''),
      Field ''get_eee'' (CPtr ''int (struct net_device *, struct ethtool_keee *)''),
      Field ''set_eee'' (CPtr ''int (struct net_device *, struct ethtool_keee *)''),
      Field ''get_tunable'' (CPtr ''int (struct net_device *, const struct ethtool_tunable *, void *)''),
      Field ''set_tunable'' (CPtr ''int (struct net_device *, const struct ethtool_tunable *, const void *)''),
      Field ''get_per_queue_coalesce'' (CPtr ''int (struct net_device *, u32, struct ethtool_coalesce *)''),
      Field ''set_per_queue_coalesce'' (CPtr ''int (struct net_device *, u32, struct ethtool_coalesce *)''),
      Field ''get_link_ksettings'' (CPtr ''int (struct net_device *, struct ethtool_link_ksettings *)''),
      Field ''set_link_ksettings'' (CPtr ''int (struct net_device *, const struct ethtool_link_ksettings *)''),
      Field ''get_fec_stats'' (CPtr ''void (struct net_device *, struct ethtool_fec_stats *, struct ethtool_fec_hist *)''),
      Field ''get_fecparam'' (CPtr ''int (struct net_device *, struct ethtool_fecparam *)''),
      Field ''set_fecparam'' (CPtr ''int (struct net_device *, struct ethtool_fecparam *)''),
      Field ''get_ethtool_phy_stats'' (CPtr ''void (struct net_device *, struct ethtool_stats *, u64 *)''),
      Field ''get_phy_tunable'' (CPtr ''int (struct net_device *, const struct ethtool_tunable *, void *)''),
      Field ''set_phy_tunable'' (CPtr ''int (struct net_device *, const struct ethtool_tunable *, const void *)''),
      Field ''get_module_eeprom_by_page'' (CPtr ''int (struct net_device *, const struct ethtool_module_eeprom *, struct netlink_ext_ack *)''),
      Field ''set_module_eeprom_by_page'' (CPtr ''int (struct net_device *, const struct ethtool_module_eeprom *, struct netlink_ext_ack *)''),
      Field ''get_eth_phy_stats'' (CPtr ''void (struct net_device *, struct ethtool_eth_phy_stats *)''),
      Field ''get_eth_mac_stats'' (CPtr ''void (struct net_device *, struct ethtool_eth_mac_stats *)''),
      Field ''get_eth_ctrl_stats'' (CPtr ''void (struct net_device *, struct ethtool_eth_ctrl_stats *)''),
      Field ''get_rmon_stats'' (CPtr ''void (struct net_device *, struct ethtool_rmon_stats *, const struct ethtool_rmon_hist_range **)''),
      Field ''get_module_power_mode'' (CPtr ''int (struct net_device *, struct ethtool_module_power_mode_params *, struct netlink_ext_ack *)''),
      Field ''set_module_power_mode'' (CPtr ''int (struct net_device *, const struct ethtool_module_power_mode_params *, struct netlink_ext_ack *)''),
      Field ''get_mm'' (CPtr ''int (struct net_device *, struct ethtool_mm_state *)''),
      Field ''set_mm'' (CPtr ''int (struct net_device *, struct ethtool_mm_cfg *, struct netlink_ext_ack *)''),
      Field ''get_mm_stats'' (CPtr ''void (struct net_device *, struct ethtool_mm_stats *)'')]"

definition struct_fbcon_bitops :: cty where
  "struct_fbcon_bitops = CStruct ''fbcon_bitops'' False
     [Field ''bmove'' (CPtr ''void (struct vc_data *, struct fb_info *, int, int, int, int, int, int)''),
      Field ''clear'' (CPtr ''void (struct vc_data *, struct fb_info *, int, int, int, int, int, int)''),
      Field ''putcs'' (CPtr ''void (struct vc_data *, struct fb_info *, const short unsigned int *, int, int, int, int, int)''),
      Field ''clear_margins'' (CPtr ''void (struct vc_data *, struct fb_info *, int, int)''),
      Field ''cursor'' (CPtr ''void (struct vc_data *, struct fb_info *, bool, int, int)''),
      Field ''update_start'' (CPtr ''int (struct fb_info *)''),
      Field ''rotate_font'' (CPtr ''int (struct fb_info *, struct vc_data *)'')]"

definition struct_fbcon_display :: cty where
  "struct_fbcon_display = CStruct ''fbcon_display'' False
     [Field ''fontdata'' (CPtr ''const u_char''),
      Field ''userfont'' c_int,
      Field ''yscroll'' short_int,
      Field ''vrows'' c_int,
      Field ''cursor_shape'' c_int,
      Field ''con_rotate'' c_int,
      Field ''xres_virtual'' u32,
      Field ''yres_virtual'' u32,
      Field ''height'' u32,
      Field ''width'' u32,
      Field ''bits_per_pixel'' u32,
      Field ''grayscale'' u32,
      Field ''nonstd'' u32,
      Field ''accel_flags'' u32,
      Field ''rotate'' u32,
      Field ''red'' struct_fb_bitfield,
      Field ''green'' struct_fb_bitfield,
      Field ''blue'' struct_fb_bitfield,
      Field ''transp'' struct_fb_bitfield,
      Field ''mode'' (CPtr ''const struct fb_videomode'')]"

definition enum_filter_pred_fn :: cty where
  "enum_filter_pred_fn = CEnum 4
     [(''FILTER_PRED_FN_NOP'', 0), (''FILTER_PRED_FN_64'', 1),
      (''FILTER_PRED_FN_64_CPUMASK'', 2), (''FILTER_PRED_FN_S64'', 3),
      (''FILTER_PRED_FN_U64'', 4), (''FILTER_PRED_FN_32'', 5),
      (''FILTER_PRED_FN_32_CPUMASK'', 6), (''FILTER_PRED_FN_S32'', 7),
      (''FILTER_PRED_FN_U32'', 8), (''FILTER_PRED_FN_16'', 9),
      (''FILTER_PRED_FN_16_CPUMASK'', 10), (''FILTER_PRED_FN_S16'', 11),
      (''FILTER_PRED_FN_U16'', 12), (''FILTER_PRED_FN_8'', 13),
      (''FILTER_PRED_FN_8_CPUMASK'', 14), (''FILTER_PRED_FN_S8'', 15),
      (''FILTER_PRED_FN_U8'', 16), (''FILTER_PRED_FN_COMM'', 17),
      (''FILTER_PRED_FN_STRING'', 18), (''FILTER_PRED_FN_STRLOC'', 19),
      (''FILTER_PRED_FN_STRRELLOC'', 20), (''FILTER_PRED_FN_PCHAR_USER'', 21),
      (''FILTER_PRED_FN_PCHAR'', 22), (''FILTER_PRED_FN_CPU'', 23),
      (''FILTER_PRED_FN_CPU_CPUMASK'', 24), (''FILTER_PRED_FN_CPUMASK'', 25),
      (''FILTER_PRED_FN_CPUMASK_CPU'', 26), (''FILTER_PRED_FN_FUNCTION'', 27),
      (''FILTER_PRED_FN_'', 28), (''FILTER_PRED_TEST_VISITED'', 29)]"

definition struct_filter_pred :: cty where
  "struct_filter_pred = CStruct ''filter_pred'' False
     [Field ''regex'' (CPtr ''struct regex''),
      Field ''mask'' (CPtr ''struct cpumask''),
      Field ''ops'' (CPtr ''short unsigned int''),
      Field ''field'' (CPtr ''struct ftrace_event_field''),
      Field ''val'' u64,
      Field ''val2'' u64,
      Field ''fn_num'' enum_filter_pred_fn,
      Field ''offset'' c_int,
      Field ''not'' c_int,
      Field ''op'' c_int]"

definition struct_fnhe_hash_bucket :: cty where
  "struct_fnhe_hash_bucket = CStruct ''fnhe_hash_bucket'' False
     [Field ''chain'' (CPtr ''struct fib_nh_exception'')]"

definition struct_gpio_desc :: cty where
  "struct_gpio_desc = CStruct ''gpio_desc'' False
     [Field ''gdev'' (CPtr ''struct gpio_device''),
      Field ''flags'' long_unsigned_int,
      Field ''label'' (CPtr ''struct gpio_desc_label''),
      Field ''name'' (CPtr ''const char''),
      Field ''debounce_period_us'' unsigned_int]"

definition struct_header_ops :: cty where
  "struct_header_ops = CStruct ''header_ops'' False
     [Field ''create'' (CPtr ''int (struct sk_buff *, struct net_device *, short unsigned int, const void *, const void *, unsigned int)''),
      Field ''parse'' (CPtr ''int (const struct sk_buff *, const struct net_device *, unsigned char *)''),
      Field ''cache'' (CPtr ''int (const struct neighbour *, struct hh_cache *, __be16)''),
      Field ''cache_update'' (CPtr ''void (struct hh_cache *, const struct net_device *, const unsigned char *)''),
      Field ''validate'' (CPtr ''bool (const char *, unsigned int)''),
      Field ''parse_protocol'' (CPtr ''__be16 (const struct sk_buff *)'')]"

definition struct_hotplug_slot_ops :: cty where
  "struct_hotplug_slot_ops = CStruct ''hotplug_slot_ops'' False
     [Field ''enable_slot'' (CPtr ''int (struct hotplug_slot *)''),
      Field ''disable_slot'' (CPtr ''int (struct hotplug_slot *)''),
      Field ''set_attention_status'' (CPtr ''int (struct hotplug_slot *, u8)''),
      Field ''hardware_test'' (CPtr ''int (struct hotplug_slot *, u32)''),
      Field ''get_power_status'' (CPtr ''int (struct hotplug_slot *, u8 *)''),
      Field ''get_attention_status'' (CPtr ''int (struct hotplug_slot *, u8 *)''),
      Field ''get_latch_status'' (CPtr ''int (struct hotplug_slot *, u8 *)''),
      Field ''get_adapter_status'' (CPtr ''int (struct hotplug_slot *, u8 *)''),
      Field ''reset_slot'' (CPtr ''int (struct hotplug_slot *, bool)'')]"

definition enum_hwtstamp_source :: cty where
  "enum_hwtstamp_source = CEnum 4
     [(''HWTSTAMP_SOURCE_NETDEV'', 1), (''HWTSTAMP_SOURCE_PHYLIB'', 2)]"

definition enum_hwtstamp_provider_qualifier :: cty where
  "enum_hwtstamp_provider_qualifier = CEnum 4
     [(''HWTSTAMP_PROVIDER_QUALIFIER_PRECISE'', 0), (''HWTSTAMP_PROVIDER_QUALIFIER_APPROX'', 1),
      (''HWTSTAMP_PROVIDER_QUALIFIER_CNT'', 2)]"

definition struct_hwtstamp_provider_desc :: cty where
  "struct_hwtstamp_provider_desc = CStruct ''hwtstamp_provider_desc'' False
     [Field ''index'' c_int,
      Field ''qualifier'' enum_hwtstamp_provider_qualifier]"

definition struct_hwtstamp_provider :: cty where
  "struct_hwtstamp_provider = CStruct ''hwtstamp_provider'' False
     [Field ''callback_head'' struct_callback_head,
      Field ''source'' enum_hwtstamp_source,
      Field ''phydev'' (CPtr ''struct phy_device''),
      Field ''desc'' struct_hwtstamp_provider_desc]"

definition struct_in_device :: cty where
  "struct_in_device = CStruct ''in_device'' False
     [Field ''dev'' (CPtr ''struct net_device''),
      Field ''dev_tracker'' netdevice_tracker,
      Field ''refcnt'' refcount_t,
      Field ''dead'' c_int,
      Field ''ifa_list'' (CPtr ''struct in_ifaddr''),
      Field ''mc_list'' (CPtr ''struct ip_mc_list''),
      Field ''mc_hash'' (CPtr ''struct ip_mc_list *''),
      Field ''mc_count'' c_int,
      Field ''mc_tomb_lock'' spinlock_t,
      Field ''mc_tomb'' (CPtr ''struct ip_mc_list''),
      Field ''mr_v1_seen'' long_unsigned_int,
      Field ''mr_v2_seen'' long_unsigned_int,
      Field ''mr_qi'' long_unsigned_int,
      Field ''mr_qri'' long_unsigned_int,
      Field ''mr_qrv'' unsigned_char,
      Field ''mr_gq_running'' unsigned_char,
      Field ''mr_maxdelay'' u32,
      Field ''mr_ifc_count'' u32,
      Field ''mr_gq_timer'' struct_timer_list,
      Field ''mr_ifc_timer'' struct_timer_list,
      Field ''arp_parms'' (CPtr ''struct neigh_parms''),
      Field ''cnf'' struct_ipv4_devconf,
      Field ''callback_head'' struct_callback_head]"

definition struct_ipv6_devstat :: cty where
  "struct_ipv6_devstat = CStruct ''ipv6_devstat'' False
     [Field ''proc_dir_entry'' (CPtr ''struct proc_dir_entry''),
      Field ''ipv6'' (CPtr ''struct ipstats_mib''),
      Field ''icmpv6dev'' (CPtr ''struct icmpv6_mib_device''),
      Field ''icmpv6msgdev'' (CPtr ''struct icmpv6msg_mib_device'')]"

definition struct_inet6_dev :: cty where
  "struct_inet6_dev = CStruct ''inet6_dev'' False
     [Field ''dev'' (CPtr ''struct net_device''),
      Field ''dev_tracker'' netdevice_tracker,
      Field ''addr_list'' struct_list_head,
      Field ''mc_list'' (CPtr ''struct ifmcaddr6''),
      Field ''mc_tomb'' (CPtr ''struct ifmcaddr6''),
      Field ''mc_qrv'' unsigned_char,
      Field ''mc_gq_running'' unsigned_char,
      Field ''mc_ifc_count'' unsigned_char,
      Field ''mc_dad_count'' unsigned_char,
      Field ''mc_v1_seen'' long_unsigned_int,
      Field ''mc_qi'' long_unsigned_int,
      Field ''mc_qri'' long_unsigned_int,
      Field ''mc_maxdelay'' long_unsigned_int,
      Field ''mc_gq_work'' struct_delayed_work,
      Field ''mc_ifc_work'' struct_delayed_work,
      Field ''mc_dad_work'' struct_delayed_work,
      Field ''mc_query_work'' struct_delayed_work,
      Field ''mc_report_work'' struct_delayed_work,
      Field ''mc_query_queue'' struct_sk_buff_head,
      Field ''mc_report_queue'' struct_sk_buff_head,
      Field ''mc_query_lock'' spinlock_t,
      Field ''mc_report_lock'' spinlock_t,
      Field ''mc_lock'' struct_mutex,
      Field ''ac_list'' (CPtr ''struct ifacaddr6''),
      Field ''lock'' rwlock_t,
      Field ''refcnt'' refcount_t,
      Field ''if_flags'' c__u32,
      Field ''dead'' c_int,
      Field ''desync_factor'' u32,
      Field ''tempaddr_list'' struct_list_head,
      Field ''token'' struct_in6_addr,
      Field ''nd_parms'' (CPtr ''struct neigh_parms''),
      Field ''cnf'' struct_ipv6_devconf,
      Field ''stats'' struct_ipv6_devstat,
      Field ''rs_timer'' struct_timer_list,
      Field ''rs_interval'' c__s32,
      Field ''rs_probes'' c__u8,
      Field ''tstamp'' long_unsigned_int,
      Field ''rcu'' struct_callback_head,
      Field ''ra_mtu'' unsigned_int]"

definition struct_inet_bind_hashbucket :: cty where
  "struct_inet_bind_hashbucket = CStruct ''inet_bind_hashbucket'' False
     [Field ''lock'' spinlock_t,
      Field ''chain'' struct_hlist_head]"

definition struct_inet_ehash_bucket :: cty where
  "struct_inet_ehash_bucket = CStruct ''inet_ehash_bucket'' False
     [Field ''chain'' struct_hlist_nulls_head]"

definition struct_inet_frags :: cty where
  "struct_inet_frags = CStruct ''inet_frags'' False
     [Field ''qsize'' unsigned_int,
      Field ''constructor'' (CPtr ''void (struct inet_frag_queue *, const void *)''),
      Field ''destructor'' (CPtr ''void (struct inet_frag_queue *)''),
      Field ''frag_expire'' (CPtr ''void (struct timer_list *)''),
      Field ''frags_cachep'' (CPtr ''struct kmem_cache''),
      Field ''frags_cache_name'' (CPtr ''const char''),
      Field ''rhash_params'' struct_rhashtable_params,
      Field ''refcnt'' refcount_t,
      Field ''completion'' struct_completion]"

definition struct_inet_listen_hashbucket :: cty where
  "struct_inet_listen_hashbucket = CStruct ''inet_listen_hashbucket'' False
     [Field ''lock'' spinlock_t,
      Field ''nulls_head'' struct_hlist_nulls_head]"

definition struct_io_bpf_filter :: cty where
  "struct_io_bpf_filter = CStruct ''io_bpf_filter'' False
     [Field ''refs'' refcount_t,
      Field ''prog'' (CPtr ''struct bpf_prog''),
      Field ''next'' (CPtr ''struct io_bpf_filter'')]"

definition struct_io_ev_fd :: cty where
  "struct_io_ev_fd = CStruct ''io_ev_fd'' False
     [Field ''cq_ev_fd'' (CPtr ''struct eventfd_ctx''),
      Field ''eventfd_async'' unsigned_int,
      Field ''last_cq_tail'' unsigned_int,
      Field ''refs'' refcount_t,
      Field ''ops'' atomic_t,
      Field ''rcu'' struct_callback_head]"

definition struct_io_hash_bucket :: cty where
  "struct_io_hash_bucket = CStruct ''io_hash_bucket'' False
     [Field ''list'' struct_hlist_head,
      BitField [] c_long 64,
      BitField [] c_long 64,
      BitField [] c_long 64,
      BitField [] c_long 64,
      BitField [] c_long 64,
      BitField [] c_long 64,
      BitField [] c_long 64]"

definition struct_io_cmd_data :: cty where
  "struct_io_cmd_data = CStruct ''io_cmd_data'' False
     [Field ''file'' (CPtr ''struct file''),
      Field ''data'' (CArr 56 c__u8)]"

definition io_req_flags_t :: cty where [layout_simps]:
  "io_req_flags_t = u64"

definition struct_io_cqe :: cty where
  "struct_io_cqe = CStruct ''io_cqe'' False
     [Field ''user_data'' c__u64,
      Field ''res'' c__s32,
      Field [] (CUnion [] False
        [Field ''flags'' c__u32,
         Field ''fd'' c_int])]"

definition io_req_tw_func_t :: cty where [layout_simps]:
  "io_req_tw_func_t = CPtr ''void (struct io_tw_req, io_tw_token_t)''"

definition struct_io_task_work :: cty where
  "struct_io_task_work = CStruct ''io_task_work'' False
     [Field ''node'' struct_llist_node,
      Field ''func'' io_req_tw_func_t]"

definition struct_io_wq_work :: cty where
  "struct_io_wq_work = CStruct ''io_wq_work'' False
     [Field ''list'' struct_io_wq_work_node,
      Field ''flags'' atomic_t,
      Field ''cancel_seq'' c_int]"

definition struct_io_big_cqe :: cty where
  "struct_io_big_cqe = CStruct ''io_big_cqe'' False
     [Field ''extra1'' u64,
      Field ''extra2'' u64]"

definition struct_io_kiocb :: cty where
  "struct_io_kiocb = CStruct ''io_kiocb'' False
     [Field [] (CUnion [] False
        [Field ''file'' (CPtr ''struct file''),
         Field ''cmd'' struct_io_cmd_data]),
      Field ''opcode'' u8,
      Field ''iopoll_completed'' u8,
      Field ''buf_index'' u16,
      Field ''nr_tw'' unsigned_int,
      Field ''flags'' io_req_flags_t,
      Field ''cqe'' struct_io_cqe,
      Field ''ctx'' (CPtr ''struct io_ring_ctx''),
      Field ''tctx'' (CPtr ''struct io_uring_task''),
      Field [] (CUnion [] False
        [Field ''kbuf'' (CPtr ''struct io_buffer''),
         Field ''buf_node'' (CPtr ''struct io_rsrc_node'')]),
      Field [] (CUnion [] False
        [Field ''comp_list'' struct_io_wq_work_node,
         Field ''apoll_events'' c__poll_t]),
      Field ''file_node'' (CPtr ''struct io_rsrc_node''),
      Field ''refs'' atomic_t,
      Field ''cancel_seq_set'' bool,
      Field [] (CUnion [] False
        [Field ''io_task_work'' struct_io_task_work,
         Field ''iopoll_start'' u64]),
      Field [] (CUnion [] False
        [Field ''hash_node'' struct_hlist_node,
         Field ''iopoll_node'' struct_list_head,
         Field ''callback_head'' struct_callback_head]),
      Field ''apoll'' (CPtr ''struct async_poll''),
      Field ''async_data'' (CPtr ''void''),
      Field ''poll_refs'' atomic_t,
      Field ''link'' (CPtr ''struct io_kiocb''),
      Field ''creds'' (CPtr ''const struct cred''),
      Field ''work'' struct_io_wq_work,
      Field ''big_cqe'' struct_io_big_cqe]"

definition struct_io_uring :: cty where
  "struct_io_uring = CStruct ''io_uring'' False
     [Field ''head'' u32,
      Field ''tail'' u32]"

definition struct_io_uring_cqe :: cty where
  "struct_io_uring_cqe = CStruct ''io_uring_cqe'' False
     [Field ''user_data'' c__u64,
      Field ''res'' c__s32,
      Field ''flags'' c__u32,
      Field ''big_cqe'' (CArr 0 c__u64)]"

definition struct_io_rings :: cty where
  "struct_io_rings = CStruct ''io_rings'' False
     [Field ''sq'' struct_io_uring,
      Field ''cq'' struct_io_uring,
      Field ''sq_ring_mask'' u32,
      Field ''cq_ring_mask'' u32,
      Field ''sq_ring_entries'' u32,
      Field ''cq_ring_entries'' u32,
      Field ''sq_dropped'' u32,
      Field ''sq_flags'' atomic_t,
      Field ''cq_flags'' u32,
      Field ''cq_overflow'' u32,
      BitField [] c_long 64,
      BitField [] c_long 64,
      Field ''cqes'' (CArr 0 struct_io_uring_cqe)]"

definition struct_io_rsrc_node :: cty where
  "struct_io_rsrc_node = CStruct ''io_rsrc_node'' False
     [Field ''type'' unsigned_char,
      Field ''refs'' c_int,
      Field ''tag'' u64,
      Field [] (CUnion [] False
        [Field ''file_ptr'' long_unsigned_int,
         Field ''buf'' (CPtr ''struct io_mapped_ubuf'')])]"

definition struct_io_sq_data :: cty where
  "struct_io_sq_data = CStruct ''io_sq_data'' False
     [Field ''refs'' refcount_t,
      Field ''park_pending'' atomic_t,
      Field ''lock'' struct_mutex,
      Field ''ctx_list'' struct_list_head,
      Field ''thread'' (CPtr ''struct task_struct''),
      Field ''wait'' struct_wait_queue_head,
      Field ''sq_thread_idle'' unsigned_int,
      Field ''sq_cpu'' c_int,
      Field ''task_pid'' pid_t,
      Field ''task_tgid'' pid_t,
      Field ''work_time'' u64,
      Field ''state'' long_unsigned_int,
      Field ''exited'' struct_completion]"

definition struct_io_uring_sqe :: cty where
  "struct_io_uring_sqe = CStruct ''io_uring_sqe'' False
     [Field ''opcode'' c__u8,
      Field ''flags'' c__u8,
      Field ''ioprio'' c__u16,
      Field ''fd'' c__s32,
      Field [] (CUnion [] False
        [Field ''off'' c__u64,
         Field ''addr2'' c__u64,
         Field [] (CStruct [] False
           [Field ''cmd_op'' c__u32,
            Field ''__pad1'' c__u32])]),
      Field [] (CUnion [] False
        [Field ''addr'' c__u64,
         Field ''splice_off_in'' c__u64,
         Field [] (CStruct [] False
           [Field ''level'' c__u32,
            Field ''optname'' c__u32])]),
      Field ''len'' c__u32,
      Field [] (CUnion [] False
        [Field ''rw_flags'' c__u32,
         Field ''fsync_flags'' c__u32,
         Field ''poll_events'' c__u16,
         Field ''poll32_events'' c__u32,
         Field ''sync_range_flags'' c__u32,
         Field ''msg_flags'' c__u32,
         Field ''timeout_flags'' c__u32,
         Field ''accept_flags'' c__u32,
         Field ''cancel_flags'' c__u32,
         Field ''open_flags'' c__u32,
         Field ''statx_flags'' c__u32,
         Field ''fadvise_advice'' c__u32,
         Field ''splice_flags'' c__u32,
         Field ''rename_flags'' c__u32,
         Field ''unlink_flags'' c__u32,
         Field ''hardlink_flags'' c__u32,
         Field ''xattr_flags'' c__u32,
         Field ''msg_ring_flags'' c__u32,
         Field ''uring_cmd_flags'' c__u32,
         Field ''waitid_flags'' c__u32,
         Field ''futex_flags'' c__u32,
         Field ''install_fd_flags'' c__u32,
         Field ''nop_flags'' c__u32,
         Field ''pipe_flags'' c__u32]),
      Field ''user_data'' c__u64,
      Field [] (CUnion [] False
        [Field ''buf_index'' c__u16,
         Field ''buf_group'' c__u16]),
      Field ''personality'' c__u16,
      Field [] (CUnion [] False
        [Field ''splice_fd_in'' c__s32,
         Field ''file_index'' c__u32,
         Field ''zcrx_ifq_idx'' c__u32,
         Field ''optlen'' c__u32,
         Field [] (CStruct [] False
           [Field ''addr_len'' c__u16,
            Field ''__pad3'' (CArr 1 c__u16)]),
         Field [] (CStruct [] False
           [Field ''write_stream'' c__u8,
            Field ''__pad4'' (CArr 3 c__u8)])]),
      Field [] (CUnion [] False
        [Field [] (CStruct [] False
           [Field ''addr3'' c__u64,
            Field ''__pad2'' (CArr 1 c__u64)]),
         Field [] (CStruct [] False
           [Field ''attr_ptr'' c__u64,
            Field ''attr_type_mask'' c__u64]),
         Field ''optval'' c__u64,
         Field ''cmd'' (CArr 0 c__u8)])]"

section \<open>Sizes and alignments\<close>

lemma struct_qdisc_skb_head_layout [layout_simps]:
  "sizeof struct_qdisc_skb_head = 24 \<and> alignof struct_qdisc_skb_head = 8 \<and> wf_cty struct_qdisc_skb_head"
  by (simp add: struct_qdisc_skb_head_def base_types layout_eval c__u32_def spinlock_t_def struct_spinlock_layout
      del: One_nat_def)

lemma struct_gnet_stats_basic_sync_layout [layout_simps]:
  "sizeof struct_gnet_stats_basic_sync = 16 \<and> alignof struct_gnet_stats_basic_sync = 8 \<and> wf_cty struct_gnet_stats_basic_sync"
  by (simp add: struct_gnet_stats_basic_sync_def base_types layout_eval u64_stats_t_layout struct_u64_stats_sync_layout
      del: One_nat_def)

lemma struct_gnet_stats_queue_layout [layout_simps]:
  "sizeof struct_gnet_stats_queue = 20 \<and> alignof struct_gnet_stats_queue = 4 \<and> wf_cty struct_gnet_stats_queue"
  by (simp add: struct_gnet_stats_queue_def base_types layout_eval c__u32_def
      del: One_nat_def)

lemma struct_Qdisc_layout [layout_simps]:
  "sizeof struct_Qdisc = 384 \<and> alignof struct_Qdisc = 8 \<and> wf_cty struct_Qdisc"
  by (simp add: struct_Qdisc_def base_types layout_eval u32_def c__u32_def struct_hlist_node_layout refcount_t_def
      struct_refcount_struct_layout c__u8_def struct_sk_buff_head_layout struct_qdisc_skb_head_layout
      struct_gnet_stats_basic_sync_layout bool_def struct_gnet_stats_queue_layout atomic_long_t_def
      atomic64_t_layout struct_llist_head_layout spinlock_t_def struct_spinlock_layout
      struct_callback_head_layout netdevice_tracker_layout struct_lock_class_key_layout
      del: One_nat_def)

lemma struct_aa_policy_layout [layout_simps]:
  "sizeof struct_aa_policy = 48 \<and> alignof struct_aa_policy = 8 \<and> wf_cty struct_aa_policy"
  by (simp add: struct_aa_policy_def base_types layout_eval struct_list_head_layout
      del: One_nat_def)

lemma enum_audit_mode_layout [layout_simps]:
  "sizeof enum_audit_mode = 4 \<and> alignof enum_audit_mode = 4 \<and> wf_cty enum_audit_mode"
  by (simp add: enum_audit_mode_def base_types layout_eval
      del: One_nat_def)

lemma struct_aa_attachment_layout [layout_simps]:
  "sizeof struct_aa_attachment = 32 \<and> alignof struct_aa_attachment = 8 \<and> wf_cty struct_aa_attachment"
  by (simp add: struct_aa_attachment_def base_types layout_eval
      del: One_nat_def)

lemma struct_aa_audit_cache_layout [layout_simps]:
  "sizeof struct_aa_audit_cache = 24 \<and> alignof struct_aa_audit_cache = 8 \<and> wf_cty struct_aa_audit_cache"
  by (simp add: struct_aa_audit_cache_def base_types layout_eval spinlock_t_def struct_spinlock_layout
      struct_list_head_layout
      del: One_nat_def)

lemma struct_aa_profile_layout [layout_simps]:
  "sizeof struct_aa_profile = 400 \<and> alignof struct_aa_profile = 8 \<and> wf_cty struct_aa_profile"
  by (simp add: struct_aa_profile_def base_types layout_eval struct_aa_policy_layout enum_audit_mode_layout u32_def
      c__u32_def struct_aa_attachment_layout struct_aa_audit_cache_layout struct_aa_label_layout
      del: One_nat_def)

lemma struct_aa_proxy_layout [layout_simps]:
  "sizeof struct_aa_proxy = 16 \<and> alignof struct_aa_proxy = 8 \<and> wf_cty struct_aa_proxy"
  by (simp add: struct_aa_proxy_def base_types layout_eval struct_aa_common_ref_layout
      del: One_nat_def)

lemma struct_aa_caps_layout [layout_simps]:
  "sizeof struct_aa_caps = 48 \<and> alignof struct_aa_caps = 8 \<and> wf_cty struct_aa_caps"
  by (simp add: struct_aa_caps_def base_types layout_eval kernel_cap_t_layout
      del: One_nat_def)

lemma struct_aa_rlimit_layout [layout_simps]:
  "sizeof struct_aa_rlimit = 264 \<and> alignof struct_aa_rlimit = 8 \<and> wf_cty struct_aa_rlimit"
  by (simp add: struct_aa_rlimit_def base_types layout_eval struct_rlimit_layout
      del: One_nat_def)

lemma struct_aa_ruleset_layout [layout_simps]:
  "sizeof struct_aa_ruleset = 352 \<and> alignof struct_aa_ruleset = 8 \<and> wf_cty struct_aa_ruleset"
  by (simp add: struct_aa_ruleset_def base_types layout_eval struct_aa_caps_layout struct_aa_rlimit_layout
      del: One_nat_def)

lemma struct_audit_node_layout [layout_simps]:
  "sizeof struct_audit_node = 32 \<and> alignof struct_audit_node = 8 \<and> wf_cty struct_audit_node"
  by (simp add: struct_audit_node_def base_types layout_eval struct_list_head_layout
      del: One_nat_def)

lemma struct_audit_chunk_layout [layout_simps]:
  "sizeof struct_audit_chunk = 80 \<and> alignof struct_audit_chunk = 8 \<and> wf_cty struct_audit_chunk"
  by (simp add: struct_audit_chunk_def base_types layout_eval struct_list_head_layout atomic_long_t_def atomic64_t_layout
      struct_callback_head_layout struct_audit_node_layout
      del: One_nat_def)

lemma ax25_dama_info_layout [layout_simps]:
  "sizeof ax25_dama_info = 56 \<and> alignof ax25_dama_info = 8 \<and> wf_cty ax25_dama_info"
  by (simp add: ax25_dama_info_def base_types layout_eval struct_timer_list_layout
      del: One_nat_def)

lemma struct_ax25_dev_layout [layout_simps]:
  "sizeof struct_ax25_dev = 176 \<and> alignof struct_ax25_dev = 8 \<and> wf_cty struct_ax25_dev"
  by (simp add: struct_ax25_dev_def base_types layout_eval struct_list_head_layout netdevice_tracker_layout
      ax25_dama_info_layout refcount_t_def struct_refcount_struct_layout bool_def
      struct_callback_head_layout
      del: One_nat_def)

lemma struct_blk_mq_debugfs_attr_layout [layout_simps]:
  "sizeof struct_blk_mq_debugfs_attr = 40 \<and> alignof struct_blk_mq_debugfs_attr = 8 \<and> wf_cty struct_blk_mq_debugfs_attr"
  by (simp add: struct_blk_mq_debugfs_attr_def base_types layout_eval umode_t_def
      del: One_nat_def)

lemma struct_blkcg_policy_data_layout [layout_simps]:
  "sizeof struct_blkcg_policy_data = 16 \<and> alignof struct_blkcg_policy_data = 8 \<and> wf_cty struct_blkcg_policy_data"
  by (simp add: struct_blkcg_policy_data_def base_types layout_eval
      del: One_nat_def)

lemma struct_bpf_local_storage_map_bucket_layout [layout_simps]:
  "sizeof struct_bpf_local_storage_map_bucket = 16 \<and> alignof struct_bpf_local_storage_map_bucket = 8 \<and> wf_cty struct_bpf_local_storage_map_bucket"
  by (simp add: struct_bpf_local_storage_map_bucket_def base_types layout_eval struct_hlist_head_layout rqspinlock_t_def
      struct_qspinlock_layout
      del: One_nat_def)

lemma struct_bpf_mprog_fp_layout [layout_simps]:
  "sizeof struct_bpf_mprog_fp = 8 \<and> alignof struct_bpf_mprog_fp = 8 \<and> wf_cty struct_bpf_mprog_fp"
  by (simp add: struct_bpf_mprog_fp_def base_types layout_eval
      del: One_nat_def)

lemma struct_bpf_mprog_entry_layout [layout_simps]:
  "sizeof struct_bpf_mprog_entry = 520 \<and> alignof struct_bpf_mprog_entry = 8 \<and> wf_cty struct_bpf_mprog_entry"
  by (simp add: struct_bpf_mprog_entry_def base_types layout_eval struct_bpf_mprog_fp_layout
      del: One_nat_def)

lemma struct_bpf_xdp_link_layout [layout_simps]:
  "sizeof struct_bpf_xdp_link = 96 \<and> alignof struct_bpf_xdp_link = 8 \<and> wf_cty struct_bpf_xdp_link"
  by (simp add: struct_bpf_xdp_link_def base_types layout_eval struct_bpf_link_layout
      del: One_nat_def)

lemma struct_bucket_table_layout [layout_simps]:
  "sizeof struct_bucket_table = 64 \<and> alignof struct_bucket_table = 8 \<and> wf_cty struct_bucket_table"
  by (simp add: struct_bucket_table_def base_types layout_eval u32_def c__u32_def struct_list_head_layout
      struct_callback_head_layout struct_lockdep_map_layout
      del: One_nat_def)

lemma struct_cpu_rmap_layout [layout_simps]:
  "sizeof struct_cpu_rmap = 16 \<and> alignof struct_cpu_rmap = 8 \<and> wf_cty struct_cpu_rmap"
  by (simp add: struct_cpu_rmap_def base_types layout_eval struct_kref_layout u16_def c__u16_def
      del: One_nat_def)

lemma struct_cpudl_item_layout [layout_simps]:
  "sizeof struct_cpudl_item = 16 \<and> alignof struct_cpudl_item = 8 \<and> wf_cty struct_cpudl_item"
  by (simp add: struct_cpudl_item_def base_types layout_eval u64_def c__u64_def
      del: One_nat_def)

lemma struct_ctl_table_poll_layout [layout_simps]:
  "sizeof struct_ctl_table_poll = 32 \<and> alignof struct_ctl_table_poll = 8 \<and> wf_cty struct_ctl_table_poll"
  by (simp add: struct_ctl_table_poll_def base_types layout_eval atomic_t_layout wait_queue_head_t_def
      struct_wait_queue_head_layout
      del: One_nat_def)

lemma struct_ctx_rq_wait_layout [layout_simps]:
  "sizeof struct_ctx_rq_wait = 40 \<and> alignof struct_ctx_rq_wait = 8 \<and> wf_cty struct_ctx_rq_wait"
  by (simp add: struct_ctx_rq_wait_def base_types layout_eval struct_completion_layout atomic_t_layout
      del: One_nat_def)

lemma struct_dcbnl_rtnl_ops_layout [layout_simps]:
  "sizeof struct_dcbnl_rtnl_ops = 424 \<and> alignof struct_dcbnl_rtnl_ops = 8 \<and> wf_cty struct_dcbnl_rtnl_ops"
  by (simp add: struct_dcbnl_rtnl_ops_def base_types layout_eval
      del: One_nat_def)

lemma struct_dev_ifalias_layout [layout_simps]:
  "sizeof struct_dev_ifalias = 16 \<and> alignof struct_dev_ifalias = 8 \<and> wf_cty struct_dev_ifalias"
  by (simp add: struct_dev_ifalias_def base_types layout_eval struct_callback_head_layout
      del: One_nat_def)

lemma enum_devlink_port_type_layout [layout_simps]:
  "sizeof enum_devlink_port_type = 4 \<and> alignof enum_devlink_port_type = 4 \<and> wf_cty enum_devlink_port_type"
  by (simp add: enum_devlink_port_type_def base_types layout_eval
      del: One_nat_def)

lemma enum_devlink_port_flavour_layout [layout_simps]:
  "sizeof enum_devlink_port_flavour = 4 \<and> alignof enum_devlink_port_flavour = 4 \<and> wf_cty enum_devlink_port_flavour"
  by (simp add: enum_devlink_port_flavour_def base_types layout_eval
      del: One_nat_def)

lemma struct_netdev_phys_item_id_layout [layout_simps]:
  "sizeof struct_netdev_phys_item_id = 33 \<and> alignof struct_netdev_phys_item_id = 1 \<and> wf_cty struct_netdev_phys_item_id"
  by (simp add: struct_netdev_phys_item_id_def base_types layout_eval
      del: One_nat_def)

lemma struct_devlink_port_phys_attrs_layout [layout_simps]:
  "sizeof struct_devlink_port_phys_attrs = 8 \<and> alignof struct_devlink_port_phys_attrs = 4 \<and> wf_cty struct_devlink_port_phys_attrs"
  by (simp add: struct_devlink_port_phys_attrs_def base_types layout_eval u32_def c__u32_def
      del: One_nat_def)

lemma struct_devlink_port_pci_pf_attrs_layout [layout_simps]:
  "sizeof struct_devlink_port_pci_pf_attrs = 8 \<and> alignof struct_devlink_port_pci_pf_attrs = 4 \<and> wf_cty struct_devlink_port_pci_pf_attrs"
  by (simp add: struct_devlink_port_pci_pf_attrs_def base_types layout_eval u32_def c__u32_def u16_def c__u16_def u8_def
      c__u8_def
      del: One_nat_def)

lemma struct_devlink_port_pci_vf_attrs_layout [layout_simps]:
  "sizeof struct_devlink_port_pci_vf_attrs = 12 \<and> alignof struct_devlink_port_pci_vf_attrs = 4 \<and> wf_cty struct_devlink_port_pci_vf_attrs"
  by (simp add: struct_devlink_port_pci_vf_attrs_def base_types layout_eval u32_def c__u32_def u16_def c__u16_def u8_def
      c__u8_def
      del: One_nat_def)

lemma struct_devlink_port_pci_sf_attrs_layout [layout_simps]:
  "sizeof struct_devlink_port_pci_sf_attrs = 12 \<and> alignof struct_devlink_port_pci_sf_attrs = 4 \<and> wf_cty struct_devlink_port_pci_sf_attrs"
  by (simp add: struct_devlink_port_pci_sf_attrs_def base_types layout_eval u32_def c__u32_def u16_def c__u16_def u8_def
      c__u8_def
      del: One_nat_def)

lemma struct_devlink_port_attrs_layout [layout_simps]:
  "sizeof struct_devlink_port_attrs = 60 \<and> alignof struct_devlink_port_attrs = 4 \<and> wf_cty struct_devlink_port_attrs"
  by (simp add: struct_devlink_port_attrs_def base_types layout_eval u8_def c__u8_def u32_def c__u32_def
      enum_devlink_port_flavour_layout struct_netdev_phys_item_id_layout
      struct_devlink_port_phys_attrs_layout struct_devlink_port_pci_pf_attrs_layout
      struct_devlink_port_pci_vf_attrs_layout struct_devlink_port_pci_sf_attrs_layout
      del: One_nat_def)

lemma struct_devlink_port_layout [layout_simps]:
  "sizeof struct_devlink_port = 288 \<and> alignof struct_devlink_port = 8 \<and> wf_cty struct_devlink_port"
  by (simp add: struct_devlink_port_def base_types layout_eval struct_list_head_layout spinlock_t_def
      struct_spinlock_layout enum_devlink_port_type_layout struct_devlink_port_attrs_layout u8_def
      c__u8_def struct_delayed_work_layout u32_def c__u32_def
      del: One_nat_def)

lemma struct_dim_irq_moder_layout [layout_simps]:
  "sizeof struct_dim_irq_moder = 40 \<and> alignof struct_dim_irq_moder = 8 \<and> wf_cty struct_dim_irq_moder"
  by (simp add: struct_dim_irq_moder_def base_types layout_eval u8_def c__u8_def
      del: One_nat_def)

lemma struct_dm_hw_stat_delta_layout [layout_simps]:
  "sizeof struct_dm_hw_stat_delta = 32 \<and> alignof struct_dm_hw_stat_delta = 8 \<and> wf_cty struct_dm_hw_stat_delta"
  by (simp add: struct_dm_hw_stat_delta_def base_types layout_eval struct_callback_head_layout
      del: One_nat_def)

lemma enum_dpll_pin_type_layout [layout_simps]:
  "sizeof enum_dpll_pin_type = 4 \<and> alignof enum_dpll_pin_type = 4 \<and> wf_cty enum_dpll_pin_type"
  by (simp add: enum_dpll_pin_type_def base_types layout_eval
      del: One_nat_def)

lemma struct_dpll_pin_phase_adjust_range_layout [layout_simps]:
  "sizeof struct_dpll_pin_phase_adjust_range = 8 \<and> alignof struct_dpll_pin_phase_adjust_range = 4 \<and> wf_cty struct_dpll_pin_phase_adjust_range"
  by (simp add: struct_dpll_pin_phase_adjust_range_def base_types layout_eval s32_def c__s32_def
      del: One_nat_def)

lemma struct_dpll_pin_properties_layout [layout_simps]:
  "sizeof struct_dpll_pin_properties = 72 \<and> alignof struct_dpll_pin_properties = 8 \<and> wf_cty struct_dpll_pin_properties"
  by (simp add: struct_dpll_pin_properties_def base_types layout_eval enum_dpll_pin_type_layout u32_def c__u32_def
      struct_dpll_pin_phase_adjust_range_layout
      del: One_nat_def)

lemma struct_dpll_pin_layout [layout_simps]:
  "sizeof struct_dpll_pin = 176 \<and> alignof struct_dpll_pin = 8 \<and> wf_cty struct_dpll_pin"
  by (simp add: struct_dpll_pin_def base_types layout_eval u32_def c__u32_def u64_def c__u64_def struct_xarray_layout
      struct_dpll_pin_properties_layout refcount_t_def struct_refcount_struct_layout
      struct_ref_tracker_dir_layout struct_callback_head_layout
      del: One_nat_def)

lemma enum_phylink_op_type_layout [layout_simps]:
  "sizeof enum_phylink_op_type = 4 \<and> alignof enum_phylink_op_type = 4 \<and> wf_cty enum_phylink_op_type"
  by (simp add: enum_phylink_op_type_def base_types layout_eval
      del: One_nat_def)

lemma struct_phylink_config_layout [layout_simps]:
  "sizeof struct_phylink_config = 80 \<and> alignof struct_phylink_config = 8 \<and> wf_cty struct_phylink_config"
  by (simp add: struct_phylink_config_def base_types layout_eval enum_phylink_op_type_layout bool_def u32_def c__u32_def
      del: One_nat_def)

lemma struct_dsa_port_layout [layout_simps]:
  "sizeof struct_dsa_port = 624 \<and> alignof struct_dsa_port = 8 \<and> wf_cty struct_dsa_port"
  by (simp add: struct_dsa_port_def base_types layout_eval u8_def c__u8_def struct_devlink_port_layout
      struct_phylink_config_layout netdevice_tracker_layout struct_list_head_layout struct_mutex_layout
      del: One_nat_def)

lemma struct_dst_metrics_layout [layout_simps]:
  "sizeof struct_dst_metrics = 72 \<and> alignof struct_dst_metrics = 4 \<and> wf_cty struct_dst_metrics"
  by (simp add: struct_dst_metrics_def base_types layout_eval u32_def c__u32_def refcount_t_def
      struct_refcount_struct_layout
      del: One_nat_def)

lemma struct_elv_fs_entry_layout [layout_simps]:
  "sizeof struct_elv_fs_entry = 32 \<and> alignof struct_elv_fs_entry = 8 \<and> wf_cty struct_elv_fs_entry"
  by (simp add: struct_elv_fs_entry_def base_types layout_eval struct_attribute_layout
      del: One_nat_def)

lemma struct_ethtool_netdev_state_layout [layout_simps]:
  "sizeof struct_ethtool_netdev_state = 56 \<and> alignof struct_ethtool_netdev_state = 8 \<and> wf_cty struct_ethtool_netdev_state"
  by (simp add: struct_ethtool_netdev_state_def base_types layout_eval struct_xarray_layout struct_mutex_layout
      del: One_nat_def)

lemma struct_ethtool_ops_layout [layout_simps]:
  "sizeof struct_ethtool_ops = 656 \<and> alignof struct_ethtool_ops = 8 \<and> wf_cty struct_ethtool_ops"
  by (simp add: struct_ethtool_ops_def base_types layout_eval u32_def c__u32_def u16_def c__u16_def
      del: One_nat_def)

lemma struct_fbcon_bitops_layout [layout_simps]:
  "sizeof struct_fbcon_bitops = 56 \<and> alignof struct_fbcon_bitops = 8 \<and> wf_cty struct_fbcon_bitops"
  by (simp add: struct_fbcon_bitops_def base_types layout_eval
      del: One_nat_def)

lemma struct_fbcon_display_layout [layout_simps]:
  "sizeof struct_fbcon_display = 120 \<and> alignof struct_fbcon_display = 8 \<and> wf_cty struct_fbcon_display"
  by (simp add: struct_fbcon_display_def base_types layout_eval u32_def c__u32_def struct_fb_bitfield_layout
      del: One_nat_def)

lemma enum_filter_pred_fn_layout [layout_simps]:
  "sizeof enum_filter_pred_fn = 4 \<and> alignof enum_filter_pred_fn = 4 \<and> wf_cty enum_filter_pred_fn"
  by (simp add: enum_filter_pred_fn_def base_types layout_eval
      del: One_nat_def)

lemma struct_filter_pred_layout [layout_simps]:
  "sizeof struct_filter_pred = 64 \<and> alignof struct_filter_pred = 8 \<and> wf_cty struct_filter_pred"
  by (simp add: struct_filter_pred_def base_types layout_eval u64_def c__u64_def enum_filter_pred_fn_layout
      del: One_nat_def)

lemma struct_fnhe_hash_bucket_layout [layout_simps]:
  "sizeof struct_fnhe_hash_bucket = 8 \<and> alignof struct_fnhe_hash_bucket = 8 \<and> wf_cty struct_fnhe_hash_bucket"
  by (simp add: struct_fnhe_hash_bucket_def base_types layout_eval
      del: One_nat_def)

lemma struct_gpio_desc_layout [layout_simps]:
  "sizeof struct_gpio_desc = 40 \<and> alignof struct_gpio_desc = 8 \<and> wf_cty struct_gpio_desc"
  by (simp add: struct_gpio_desc_def base_types layout_eval
      del: One_nat_def)

lemma struct_header_ops_layout [layout_simps]:
  "sizeof struct_header_ops = 48 \<and> alignof struct_header_ops = 8 \<and> wf_cty struct_header_ops"
  by (simp add: struct_header_ops_def base_types layout_eval
      del: One_nat_def)

lemma struct_hotplug_slot_ops_layout [layout_simps]:
  "sizeof struct_hotplug_slot_ops = 72 \<and> alignof struct_hotplug_slot_ops = 8 \<and> wf_cty struct_hotplug_slot_ops"
  by (simp add: struct_hotplug_slot_ops_def base_types layout_eval
      del: One_nat_def)

lemma enum_hwtstamp_source_layout [layout_simps]:
  "sizeof enum_hwtstamp_source = 4 \<and> alignof enum_hwtstamp_source = 4 \<and> wf_cty enum_hwtstamp_source"
  by (simp add: enum_hwtstamp_source_def base_types layout_eval
      del: One_nat_def)

lemma enum_hwtstamp_provider_qualifier_layout [layout_simps]:
  "sizeof enum_hwtstamp_provider_qualifier = 4 \<and> alignof enum_hwtstamp_provider_qualifier = 4 \<and> wf_cty enum_hwtstamp_provider_qualifier"
  by (simp add: enum_hwtstamp_provider_qualifier_def base_types layout_eval
      del: One_nat_def)

lemma struct_hwtstamp_provider_desc_layout [layout_simps]:
  "sizeof struct_hwtstamp_provider_desc = 8 \<and> alignof struct_hwtstamp_provider_desc = 4 \<and> wf_cty struct_hwtstamp_provider_desc"
  by (simp add: struct_hwtstamp_provider_desc_def base_types layout_eval enum_hwtstamp_provider_qualifier_layout
      del: One_nat_def)

lemma struct_hwtstamp_provider_layout [layout_simps]:
  "sizeof struct_hwtstamp_provider = 40 \<and> alignof struct_hwtstamp_provider = 8 \<and> wf_cty struct_hwtstamp_provider"
  by (simp add: struct_hwtstamp_provider_def base_types layout_eval struct_callback_head_layout
      enum_hwtstamp_source_layout struct_hwtstamp_provider_desc_layout
      del: One_nat_def)

lemma struct_in_device_layout [layout_simps]:
  "sizeof struct_in_device = 360 \<and> alignof struct_in_device = 8 \<and> wf_cty struct_in_device"
  by (simp add: struct_in_device_def base_types layout_eval netdevice_tracker_layout refcount_t_def
      struct_refcount_struct_layout spinlock_t_def struct_spinlock_layout u32_def c__u32_def
      struct_timer_list_layout struct_ipv4_devconf_layout struct_callback_head_layout
      del: One_nat_def)

lemma struct_ipv6_devstat_layout [layout_simps]:
  "sizeof struct_ipv6_devstat = 32 \<and> alignof struct_ipv6_devstat = 8 \<and> wf_cty struct_ipv6_devstat"
  by (simp add: struct_ipv6_devstat_def base_types layout_eval
      del: One_nat_def)

lemma struct_inet6_dev_layout [layout_simps]:
  "sizeof struct_inet6_dev = 1056 \<and> alignof struct_inet6_dev = 8 \<and> wf_cty struct_inet6_dev"
  by (simp add: struct_inet6_dev_def base_types layout_eval netdevice_tracker_layout struct_list_head_layout
      struct_delayed_work_layout struct_sk_buff_head_layout spinlock_t_def struct_spinlock_layout
      struct_mutex_layout rwlock_t_def struct_rwlock_layout refcount_t_def struct_refcount_struct_layout
      c__u32_def u32_def struct_in6_addr_layout struct_ipv6_devconf_layout struct_ipv6_devstat_layout
      struct_timer_list_layout c__s32_def c__u8_def struct_callback_head_layout
      del: One_nat_def)

lemma struct_inet_bind_hashbucket_layout [layout_simps]:
  "sizeof struct_inet_bind_hashbucket = 16 \<and> alignof struct_inet_bind_hashbucket = 8 \<and> wf_cty struct_inet_bind_hashbucket"
  by (simp add: struct_inet_bind_hashbucket_def base_types layout_eval spinlock_t_def struct_spinlock_layout
      struct_hlist_head_layout
      del: One_nat_def)

lemma struct_inet_ehash_bucket_layout [layout_simps]:
  "sizeof struct_inet_ehash_bucket = 8 \<and> alignof struct_inet_ehash_bucket = 8 \<and> wf_cty struct_inet_ehash_bucket"
  by (simp add: struct_inet_ehash_bucket_def base_types layout_eval struct_hlist_nulls_head_layout
      del: One_nat_def)

lemma struct_inet_frags_layout [layout_simps]:
  "sizeof struct_inet_frags = 128 \<and> alignof struct_inet_frags = 8 \<and> wf_cty struct_inet_frags"
  by (simp add: struct_inet_frags_def base_types layout_eval struct_rhashtable_params_layout refcount_t_def
      struct_refcount_struct_layout struct_completion_layout
      del: One_nat_def)

lemma struct_inet_listen_hashbucket_layout [layout_simps]:
  "sizeof struct_inet_listen_hashbucket = 16 \<and> alignof struct_inet_listen_hashbucket = 8 \<and> wf_cty struct_inet_listen_hashbucket"
  by (simp add: struct_inet_listen_hashbucket_def base_types layout_eval spinlock_t_def struct_spinlock_layout
      struct_hlist_nulls_head_layout
      del: One_nat_def)

lemma struct_io_bpf_filter_layout [layout_simps]:
  "sizeof struct_io_bpf_filter = 24 \<and> alignof struct_io_bpf_filter = 8 \<and> wf_cty struct_io_bpf_filter"
  by (simp add: struct_io_bpf_filter_def base_types layout_eval refcount_t_def struct_refcount_struct_layout
      del: One_nat_def)

lemma struct_io_ev_fd_layout [layout_simps]:
  "sizeof struct_io_ev_fd = 40 \<and> alignof struct_io_ev_fd = 8 \<and> wf_cty struct_io_ev_fd"
  by (simp add: struct_io_ev_fd_def base_types layout_eval refcount_t_def struct_refcount_struct_layout atomic_t_layout
      struct_callback_head_layout
      del: One_nat_def)

lemma struct_io_hash_bucket_layout [layout_simps]:
  "sizeof struct_io_hash_bucket = 64 \<and> alignof struct_io_hash_bucket = 8 \<and> wf_cty struct_io_hash_bucket"
  by (simp add: struct_io_hash_bucket_def base_types layout_eval struct_hlist_head_layout
      del: One_nat_def)

lemma struct_io_cmd_data_layout [layout_simps]:
  "sizeof struct_io_cmd_data = 64 \<and> alignof struct_io_cmd_data = 8 \<and> wf_cty struct_io_cmd_data"
  by (simp add: struct_io_cmd_data_def base_types layout_eval c__u8_def
      del: One_nat_def)

lemma struct_io_cqe_layout [layout_simps]:
  "sizeof struct_io_cqe = 16 \<and> alignof struct_io_cqe = 8 \<and> wf_cty struct_io_cqe"
  by (simp add: struct_io_cqe_def base_types layout_eval c__u64_def c__s32_def c__u32_def
      del: One_nat_def)

lemma struct_io_task_work_layout [layout_simps]:
  "sizeof struct_io_task_work = 16 \<and> alignof struct_io_task_work = 8 \<and> wf_cty struct_io_task_work"
  by (simp add: struct_io_task_work_def base_types layout_eval struct_llist_node_layout io_req_tw_func_t_def
      del: One_nat_def)

lemma struct_io_wq_work_layout [layout_simps]:
  "sizeof struct_io_wq_work = 16 \<and> alignof struct_io_wq_work = 8 \<and> wf_cty struct_io_wq_work"
  by (simp add: struct_io_wq_work_def base_types layout_eval struct_io_wq_work_node_layout atomic_t_layout
      del: One_nat_def)

lemma struct_io_big_cqe_layout [layout_simps]:
  "sizeof struct_io_big_cqe = 16 \<and> alignof struct_io_big_cqe = 8 \<and> wf_cty struct_io_big_cqe"
  by (simp add: struct_io_big_cqe_def base_types layout_eval u64_def c__u64_def
      del: One_nat_def)

lemma struct_io_kiocb_layout [layout_simps]:
  "sizeof struct_io_kiocb = 248 \<and> alignof struct_io_kiocb = 8 \<and> wf_cty struct_io_kiocb"
  by (simp add: struct_io_kiocb_def base_types layout_eval struct_io_cmd_data_layout u8_def c__u8_def u16_def c__u16_def
      io_req_flags_t_def u64_def c__u64_def struct_io_cqe_layout struct_io_wq_work_node_layout
      c__poll_t_def atomic_t_layout bool_def struct_io_task_work_layout struct_hlist_node_layout
      struct_list_head_layout struct_callback_head_layout struct_io_wq_work_layout
      struct_io_big_cqe_layout
      del: One_nat_def)

lemma struct_io_uring_layout [layout_simps]:
  "sizeof struct_io_uring = 8 \<and> alignof struct_io_uring = 4 \<and> wf_cty struct_io_uring"
  by (simp add: struct_io_uring_def base_types layout_eval u32_def c__u32_def
      del: One_nat_def)

lemma struct_io_uring_cqe_layout [layout_simps]:
  "sizeof struct_io_uring_cqe = 16 \<and> alignof struct_io_uring_cqe = 8 \<and> wf_cty struct_io_uring_cqe"
  by (simp add: struct_io_uring_cqe_def base_types layout_eval c__u64_def c__s32_def c__u32_def
      del: One_nat_def)

lemma struct_io_rings_layout [layout_simps]:
  "sizeof struct_io_rings = 64 \<and> alignof struct_io_rings = 8 \<and> wf_cty struct_io_rings"
  by (simp add: struct_io_rings_def base_types layout_eval struct_io_uring_layout u32_def c__u32_def atomic_t_layout
      struct_io_uring_cqe_layout
      del: One_nat_def)

lemma struct_io_rsrc_node_layout [layout_simps]:
  "sizeof struct_io_rsrc_node = 24 \<and> alignof struct_io_rsrc_node = 8 \<and> wf_cty struct_io_rsrc_node"
  by (simp add: struct_io_rsrc_node_def base_types layout_eval u64_def c__u64_def
      del: One_nat_def)

lemma struct_io_sq_data_layout [layout_simps]:
  "sizeof struct_io_sq_data = 152 \<and> alignof struct_io_sq_data = 8 \<and> wf_cty struct_io_sq_data"
  by (simp add: struct_io_sq_data_def base_types layout_eval refcount_t_def struct_refcount_struct_layout atomic_t_layout
      struct_mutex_layout struct_list_head_layout struct_wait_queue_head_layout pid_t_def
      c__kernel_pid_t_def u64_def c__u64_def struct_completion_layout
      del: One_nat_def)

lemma struct_io_uring_sqe_layout [layout_simps]:
  "sizeof struct_io_uring_sqe = 64 \<and> alignof struct_io_uring_sqe = 8 \<and> wf_cty struct_io_uring_sqe"
  by (simp add: struct_io_uring_sqe_def base_types layout_eval c__u8_def c__u16_def c__s32_def c__u64_def c__u32_def
      del: One_nat_def)

end
