(* ===== verification/KernelReach2c.thy ===== *)
theory KernelReach2c
  imports KernelReach2b KernelVfsRefs2
begin

text \<open>
  Types of \<^verbatim>\<open>bpf/vmlinux.h\<close> that are two dereferences away from the objects the program and its loading
  touch, with every type they hold by value (part 3 of 4).
\<close>

section \<open>Types\<close>

definition struct_netdev_hw_addr_list :: cty where
  "struct_netdev_hw_addr_list = CStruct ''netdev_hw_addr_list'' False
     [Field ''list'' struct_list_head,
      Field ''count'' c_int,
      Field ''tree'' struct_rb_root]"

definition enum_netdev_ml_priv_type :: cty where
  "enum_netdev_ml_priv_type = CEnum 4
     [(''ML_PRIV_NONE'', 0), (''ML_PRIV_CAN'', 1)]"

definition struct_bpf_xdp_entity :: cty where
  "struct_bpf_xdp_entity = CStruct ''bpf_xdp_entity'' False
     [Field ''prog'' (CPtr ''struct bpf_prog''),
      Field ''link'' (CPtr ''struct bpf_xdp_link'')]"

definition struct_net_device :: cty where
  "struct_net_device = CStruct ''net_device'' False
     [Field ''__cacheline_group_begin__net_device_read_tx'' (CArr 0 c__u8),
      Field [] (CUnion [] False
        [Field [] (CStruct [] False
           [BitField ''priv_flags'' long_unsigned_int 32,
            BitField ''lltx'' long_unsigned_int 1,
            BitField ''netmem_tx'' long_unsigned_int 1]),
         Field ''priv_flags_fast'' (CStruct [] False
           [BitField ''priv_flags'' long_unsigned_int 32,
            BitField ''lltx'' long_unsigned_int 1,
            BitField ''netmem_tx'' long_unsigned_int 1])]),
      Field ''netdev_ops'' (CPtr ''const struct net_device_ops''),
      Field ''header_ops'' (CPtr ''const struct header_ops''),
      Field ''_tx'' (CPtr ''struct netdev_queue''),
      Field ''gso_partial_features'' netdev_features_t,
      Field ''real_num_tx_queues'' unsigned_int,
      Field ''gso_max_size'' unsigned_int,
      Field ''gso_ipv4_max_size'' unsigned_int,
      Field ''gso_max_segs'' u16,
      Field ''num_tc'' s16,
      Field ''mtu'' unsigned_int,
      Field ''needed_headroom'' short_unsigned_int,
      Field ''tc_to_txq'' (CArr 16 struct_netdev_tc_txq),
      Field ''xps_maps'' (CArr 2 (CPtr ''struct xps_dev_maps'')),
      Field ''nf_hooks_egress'' (CPtr ''struct nf_hook_entries''),
      Field ''tcx_egress'' (CPtr ''struct bpf_mprog_entry''),
      Field ''__cacheline_group_end__net_device_read_tx'' (CArr 0 c__u8),
      Field ''__cacheline_group_begin__net_device_read_txrx'' (CArr 0 c__u8),
      Field [] (CUnion [] False
        [Field ''lstats'' (CPtr ''struct pcpu_lstats''),
         Field ''tstats'' (CPtr ''struct pcpu_sw_netstats''),
         Field ''dstats'' (CPtr ''struct pcpu_dstats'')]),
      Field ''state'' long_unsigned_int,
      Field ''flags'' unsigned_int,
      Field ''hard_header_len'' short_unsigned_int,
      BitField ''pcpu_stat_type'' enum_netdev_stat_type 8,
      Field ''features'' netdev_features_t,
      Field ''ip6_ptr'' (CPtr ''struct inet6_dev''),
      Field ''__cacheline_group_end__net_device_read_txrx'' (CArr 0 c__u8),
      Field ''__cacheline_group_begin__net_device_read_rx'' (CArr 0 c__u8),
      Field ''xdp_prog'' (CPtr ''struct bpf_prog''),
      Field ''ptype_specific'' struct_list_head,
      Field ''ifindex'' c_int,
      Field ''real_num_rx_queues'' unsigned_int,
      Field ''_rx'' (CPtr ''struct netdev_rx_queue''),
      Field ''gro_max_size'' unsigned_int,
      Field ''gro_ipv4_max_size'' unsigned_int,
      Field ''rx_handler'' (CPtr ''rx_handler_func_t''),
      Field ''rx_handler_data'' (CPtr ''void''),
      Field ''nd_net'' possible_net_t,
      Field ''npinfo'' (CPtr ''struct netpoll_info''),
      Field ''tcx_ingress'' (CPtr ''struct bpf_mprog_entry''),
      Field ''__cacheline_group_end__net_device_read_rx'' (CArr 0 c__u8),
      Field ''name'' (CArr 16 c_char),
      Field ''name_node'' (CPtr ''struct netdev_name_node''),
      Field ''ifalias'' (CPtr ''struct dev_ifalias''),
      Field ''mem_end'' long_unsigned_int,
      Field ''mem_start'' long_unsigned_int,
      Field ''base_addr'' long_unsigned_int,
      Field ''dev_list'' struct_list_head,
      Field ''napi_list'' struct_list_head,
      Field ''unreg_list'' struct_list_head,
      Field ''close_list'' struct_list_head,
      Field ''ptype_all'' struct_list_head,
      Field ''adj_list'' (CStruct [] False
        [Field ''upper'' struct_list_head,
         Field ''lower'' struct_list_head]),
      Field ''xdp_features'' xdp_features_t,
      Field ''xdp_metadata_ops'' (CPtr ''const struct xdp_metadata_ops''),
      Field ''xsk_tx_metadata_ops'' (CPtr ''const struct xsk_tx_metadata_ops''),
      Field ''gflags'' short_unsigned_int,
      Field ''needed_tailroom'' short_unsigned_int,
      Field ''hw_features'' netdev_features_t,
      Field ''wanted_features'' netdev_features_t,
      Field ''vlan_features'' netdev_features_t,
      Field ''hw_enc_features'' netdev_features_t,
      Field ''mpls_features'' netdev_features_t,
      Field ''mangleid_features'' netdev_features_t,
      Field ''min_mtu'' unsigned_int,
      Field ''max_mtu'' unsigned_int,
      Field ''type'' short_unsigned_int,
      Field ''min_header_len'' unsigned_char,
      Field ''name_assign_type'' unsigned_char,
      Field ''group'' c_int,
      Field ''stats'' struct_net_device_stats,
      Field ''core_stats'' (CPtr ''struct net_device_core_stats''),
      Field ''carrier_up_count'' atomic_t,
      Field ''carrier_down_count'' atomic_t,
      Field ''wireless_handlers'' (CPtr ''const struct iw_handler_def''),
      Field ''ethtool_ops'' (CPtr ''const struct ethtool_ops''),
      Field ''l3mdev_ops'' (CPtr ''const struct l3mdev_ops''),
      Field ''ndisc_ops'' (CPtr ''const struct ndisc_ops''),
      Field ''xfrmdev_ops'' (CPtr ''const struct xfrmdev_ops''),
      Field ''tlsdev_ops'' (CPtr ''const struct tlsdev_ops''),
      Field ''operstate'' unsigned_int,
      Field ''link_mode'' unsigned_char,
      Field ''if_port'' unsigned_char,
      Field ''dma'' unsigned_char,
      Field ''perm_addr'' (CArr 32 unsigned_char),
      Field ''addr_assign_type'' unsigned_char,
      Field ''addr_len'' unsigned_char,
      Field ''upper_level'' unsigned_char,
      Field ''lower_level'' unsigned_char,
      Field ''threaded'' u8,
      Field ''neigh_priv_len'' short_unsigned_int,
      Field ''dev_id'' short_unsigned_int,
      Field ''dev_port'' short_unsigned_int,
      Field ''irq'' c_int,
      Field ''priv_len'' u32,
      Field ''addr_list_lock'' spinlock_t,
      Field ''uc'' struct_netdev_hw_addr_list,
      Field ''mc'' struct_netdev_hw_addr_list,
      Field ''dev_addrs'' struct_netdev_hw_addr_list,
      Field ''queues_kset'' (CPtr ''struct kset''),
      Field ''promiscuity'' unsigned_int,
      Field ''allmulti'' unsigned_int,
      Field ''uc_promisc'' bool,
      Field ''ip_ptr'' (CPtr ''struct in_device''),
      Field ''fib_nh_head'' struct_hlist_head,
      Field ''vlan_info'' (CPtr ''struct vlan_info''),
      Field ''dsa_ptr'' (CPtr ''struct dsa_port''),
      Field ''tipc_ptr'' (CPtr ''struct tipc_bearer''),
      Field ''atalk_ptr'' (CPtr ''void''),
      Field ''ax25_ptr'' (CPtr ''struct ax25_dev''),
      Field ''ieee80211_ptr'' (CPtr ''struct wireless_dev''),
      Field ''ieee802154_ptr'' (CPtr ''struct wpan_dev''),
      Field ''mpls_ptr'' (CPtr ''struct mpls_dev''),
      Field ''mctp_ptr'' (CPtr ''struct mctp_dev''),
      Field ''psp_dev'' (CPtr ''struct psp_dev''),
      Field ''dev_addr'' (CPtr ''const unsigned char''),
      Field ''num_rx_queues'' unsigned_int,
      Field ''xdp_zc_max_segs'' unsigned_int,
      Field ''ingress_queue'' (CPtr ''struct netdev_queue''),
      Field ''nf_hooks_ingress'' (CPtr ''struct nf_hook_entries''),
      Field ''broadcast'' (CArr 32 unsigned_char),
      Field ''rx_cpu_rmap'' (CPtr ''struct cpu_rmap''),
      Field ''index_hlist'' struct_hlist_node,
      Field ''num_tx_queues'' unsigned_int,
      Field ''qdisc'' (CPtr ''struct Qdisc''),
      Field ''tx_queue_len'' unsigned_int,
      Field ''tx_global_lock'' spinlock_t,
      Field ''xdp_bulkq'' (CPtr ''struct xdp_dev_bulk_queue''),
      Field ''qdisc_hash'' (CArr 16 struct_hlist_head),
      Field ''watchdog_timer'' struct_timer_list,
      Field ''watchdog_timeo'' c_int,
      Field ''proto_down_reason'' u32,
      Field ''todo_list'' struct_list_head,
      Field ''pcpu_refcnt'' (CPtr ''int''),
      Field ''refcnt_tracker'' struct_ref_tracker_dir,
      Field ''link_watch_list'' struct_list_head,
      Field ''reg_state'' u8,
      Field ''dismantle'' bool,
      Field ''moving_ns'' bool,
      Field ''rtnl_link_initializing'' bool,
      Field ''needs_free_netdev'' bool,
      Field ''priv_destructor'' (CPtr ''void (struct net_device *)''),
      Field ''ml_priv'' (CPtr ''void''),
      Field ''ml_priv_type'' enum_netdev_ml_priv_type,
      Field ''garp_port'' (CPtr ''struct garp_port''),
      Field ''mrp_port'' (CPtr ''struct mrp_port''),
      Field ''dm_private'' (CPtr ''struct dm_hw_stat_delta''),
      Field ''dev'' struct_device,
      Field ''sysfs_groups'' (CArr 5 (CPtr ''const struct attribute_group'')),
      Field ''sysfs_rx_queue_group'' (CPtr ''const struct attribute_group''),
      Field ''rtnl_link_ops'' (CPtr ''const struct rtnl_link_ops''),
      Field ''stat_ops'' (CPtr ''const struct netdev_stat_ops''),
      Field ''queue_mgmt_ops'' (CPtr ''const struct netdev_queue_mgmt_ops''),
      Field ''tso_max_size'' unsigned_int,
      Field ''tso_max_segs'' u16,
      Field ''dcbnl_ops'' (CPtr ''const struct dcbnl_rtnl_ops''),
      Field ''prio_tc_map'' (CArr 16 u8),
      Field ''fcoe_ddp_xid'' unsigned_int,
      Field ''priomap'' (CPtr ''struct netprio_map''),
      Field ''link_topo'' (CPtr ''struct phy_link_topology''),
      Field ''phydev'' (CPtr ''struct phy_device''),
      Field ''sfp_bus'' (CPtr ''struct sfp_bus''),
      Field ''qdisc_tx_busylock'' (CPtr ''struct lock_class_key''),
      Field ''proto_down'' bool,
      Field ''irq_affinity_auto'' bool,
      Field ''rx_cpu_rmap_auto'' bool,
      BitField ''see_all_hwtstamp_requests'' long_unsigned_int 1,
      BitField ''change_proto_down'' long_unsigned_int 1,
      BitField ''netns_immutable'' long_unsigned_int 1,
      BitField ''fcoe_mtu'' long_unsigned_int 1,
      Field ''net_notifier_list'' struct_list_head,
      Field ''macsec_ops'' (CPtr ''const struct macsec_ops''),
      Field ''udp_tunnel_nic_info'' (CPtr ''const struct udp_tunnel_nic_info''),
      Field ''udp_tunnel_nic'' (CPtr ''struct udp_tunnel_nic''),
      Field ''cfg'' (CPtr ''struct netdev_config''),
      Field ''cfg_pending'' (CPtr ''struct netdev_config''),
      Field ''ethtool'' (CPtr ''struct ethtool_netdev_state''),
      Field ''xdp_state'' (CArr 3 struct_bpf_xdp_entity),
      Field ''dev_addr_shadow'' (CArr 32 u8),
      Field ''linkwatch_dev_tracker'' netdevice_tracker,
      Field ''watchdog_dev_tracker'' netdevice_tracker,
      Field ''dev_registered_tracker'' netdevice_tracker,
      Field ''offload_xstats_l3'' (CPtr ''struct rtnl_hw_stats64''),
      Field ''devlink_port'' (CPtr ''struct devlink_port''),
      Field ''dpll_pin'' (CPtr ''struct dpll_pin''),
      Field ''page_pools'' struct_hlist_head,
      Field ''irq_moder'' (CPtr ''struct dim_irq_moder''),
      Field ''max_pacing_offload_horizon'' u64,
      Field ''napi_config'' (CPtr ''struct napi_config''),
      Field ''num_napi_configs'' u32,
      Field ''napi_defer_hard_irqs'' u32,
      Field ''gro_flush_timeout'' long_unsigned_int,
      Field ''up'' bool,
      Field ''request_ops_lock'' bool,
      Field ''lock'' struct_mutex,
      Field ''net_shaper_hierarchy'' (CPtr ''struct net_shaper_hierarchy''),
      Field ''neighbours'' (CArr 2 struct_hlist_head),
      Field ''hwprov'' (CPtr ''struct hwtstamp_provider''),
      BitField [] c_long 64,
      BitField [] c_long 64,
      BitField [] c_long 64,
      Field ''priv'' (CArr 0 u8)]"

definition struct_net_generic :: cty where
  "struct_net_generic = CStruct ''net_generic'' False
     [Field [] (CUnion [] False
        [Field ''s'' (CStruct [] False
           [Field ''len'' unsigned_int,
            Field ''rcu'' struct_callback_head]),
         Field [] (CStruct [] False
           [Field ''__empty_ptr'' (CStruct [] False
              []),
            Field ''ptr'' (CArr 0 (CPtr ''void''))])])]"

definition struct_nf_ct_event_notifier :: cty where
  "struct_nf_ct_event_notifier = CStruct ''nf_ct_event_notifier'' False
     [Field ''ct_event'' (CPtr ''int (unsigned int, const struct nf_ct_event *)''),
      Field ''exp_event'' (CPtr ''int (unsigned int, const struct nf_exp_event *)'')]"

definition struct_nf_flow_table_stat :: cty where
  "struct_nf_flow_table_stat = CStruct ''nf_flow_table_stat'' False
     [Field ''count_wq_add'' unsigned_int,
      Field ''count_wq_del'' unsigned_int,
      Field ''count_wq_stats'' unsigned_int]"

definition struct_nf_hook_entry :: cty where
  "struct_nf_hook_entry = CStruct ''nf_hook_entry'' False
     [Field ''hook'' (CPtr ''nf_hookfn''),
      Field ''priv'' (CPtr ''void'')]"

definition struct_nf_hook_entries :: cty where
  "struct_nf_hook_entries = CStruct ''nf_hook_entries'' False
     [Field ''num_hook_entries'' u16,
      Field ''hooks'' (CArr 0 struct_nf_hook_entry)]"

definition enum_nf_log_type :: cty where
  "enum_nf_log_type = CEnum 4
     [(''NF_LOG_TYPE_LOG'', 0), (''NF_LOG_TYPE_ULOG'', 1), (''NF_LOG_TYPE_MAX'', 2)]"

definition struct_nf_logger :: cty where
  "struct_nf_logger = CStruct ''nf_logger'' False
     [Field ''name'' (CPtr ''char''),
      Field ''type'' enum_nf_log_type,
      Field ''logfn'' (CPtr ''nf_logfn''),
      Field ''me'' (CPtr ''struct module'')]"

definition struct_nfs4_state :: cty where
  "struct_nfs4_state = CStruct ''nfs4_state'' False
     [Field ''open_states'' struct_list_head,
      Field ''inode_states'' struct_list_head,
      Field ''lock_states'' struct_list_head,
      Field ''owner'' (CPtr ''struct nfs4_state_owner''),
      Field ''inode'' (CPtr ''struct inode''),
      Field ''flags'' long_unsigned_int,
      Field ''state_lock'' spinlock_t,
      Field ''seqlock'' seqlock_t,
      Field ''stateid'' nfs4_stateid,
      Field ''open_stateid'' nfs4_stateid,
      Field ''n_rdonly'' unsigned_int,
      Field ''n_wronly'' unsigned_int,
      Field ''n_rdwr'' unsigned_int,
      Field ''state'' fmode_t,
      Field ''count'' refcount_t,
      Field ''waitq'' wait_queue_head_t,
      Field ''callback_head'' struct_callback_head]"

definition struct_notification :: cty where
  "struct_notification = CStruct ''notification'' False
     [Field ''requests'' atomic_t,
      Field ''flags'' u32,
      Field ''next_id'' u64,
      Field ''notifications'' struct_list_head]"

definition struct_npem_ops :: cty where
  "struct_npem_ops = CStruct ''npem_ops'' False
     [Field ''get_active_indications'' (CPtr ''int (struct npem *, u32 *)''),
      Field ''set_active_indications'' (CPtr ''int (struct npem *, u32)''),
      Field ''inds'' (CPtr ''const struct indication''),
      Field ''name'' (CPtr ''const char'')]"

definition struct_page_pool_recycle_stats :: cty where
  "struct_page_pool_recycle_stats = CStruct ''page_pool_recycle_stats'' False
     [Field ''cached'' u64,
      Field ''cache_full'' u64,
      Field ''ring'' u64,
      Field ''ring_full'' u64,
      Field ''released_refcnt'' u64]"

definition struct_pci_tdi :: cty where
  "struct_pci_tdi = CStruct ''pci_tdi'' False
     [Field ''pdev'' (CPtr ''struct pci_dev''),
      Field ''kvm'' (CPtr ''struct kvm''),
      Field ''tdi_id'' u32]"

definition struct_perf_cgroup_info :: cty where
  "struct_perf_cgroup_info = CStruct ''perf_cgroup_info'' False
     [Field ''time'' struct_perf_time_ctx,
      Field ''timeguest'' struct_perf_time_ctx,
      Field ''active'' c_int]"

definition struct_perf_cpu_pmu_context :: cty where
  "struct_perf_cpu_pmu_context = CStruct ''perf_cpu_pmu_context'' False
     [Field ''epc'' struct_perf_event_pmu_context,
      Field ''task_epc'' (CPtr ''struct perf_event_pmu_context''),
      Field ''sched_cb_entry'' struct_list_head,
      Field ''sched_cb_usage'' c_int,
      Field ''active_oncpu'' c_int,
      Field ''exclusive'' c_int,
      Field ''pmu_disable_count'' c_int,
      Field ''hrtimer_lock'' raw_spinlock_t,
      Field ''hrtimer'' struct_hrtimer,
      Field ''hrtimer_interval'' ktime_t,
      Field ''hrtimer_active'' unsigned_int]"

definition struct_perf_event_mmap_page :: cty where
  "struct_perf_event_mmap_page = CStruct ''perf_event_mmap_page'' False
     [Field ''version'' c__u32,
      Field ''compat_version'' c__u32,
      Field ''lock'' c__u32,
      Field ''index'' c__u32,
      Field ''offset'' c__s64,
      Field ''time_enabled'' c__u64,
      Field ''time_running'' c__u64,
      Field [] (CUnion [] False
        [Field ''capabilities'' c__u64,
         Field [] (CStruct [] False
           [BitField ''cap_bit0'' c__u64 1,
            BitField ''cap_bit0_is_deprecated'' c__u64 1,
            BitField ''cap_user_rdpmc'' c__u64 1,
            BitField ''cap_user_time'' c__u64 1,
            BitField ''cap_user_time_zero'' c__u64 1,
            BitField ''cap_user_time_short'' c__u64 1,
            BitField ''cap_____res'' c__u64 58])]),
      Field ''pmc_width'' c__u16,
      Field ''time_shift'' c__u16,
      Field ''time_mult'' c__u32,
      Field ''time_offset'' c__u64,
      Field ''time_zero'' c__u64,
      Field ''size'' c__u32,
      Field ''__reserved_1'' c__u32,
      Field ''time_cycles'' c__u64,
      Field ''time_mask'' c__u64,
      Field ''__reserved'' (CArr 928 c__u8),
      Field ''data_head'' c__u64,
      Field ''data_tail'' c__u64,
      Field ''data_offset'' c__u64,
      Field ''data_size'' c__u64,
      Field ''aux_head'' c__u64,
      Field ''aux_tail'' c__u64,
      Field ''aux_offset'' c__u64,
      Field ''aux_size'' c__u64]"

definition struct_pinctrl :: cty where
  "struct_pinctrl = CStruct ''pinctrl'' False
     [Field ''node'' struct_list_head,
      Field ''dev'' (CPtr ''struct device''),
      Field ''states'' struct_list_head,
      Field ''state'' (CPtr ''struct pinctrl_state''),
      Field ''dt_maps'' struct_list_head,
      Field ''users'' struct_kref]"

definition struct_pinctrl_state :: cty where
  "struct_pinctrl_state = CStruct ''pinctrl_state'' False
     [Field ''node'' struct_list_head,
      Field ''name'' (CPtr ''const char''),
      Field ''settings'' struct_list_head]"

definition struct_pipe_buffer :: cty where
  "struct_pipe_buffer = CStruct ''pipe_buffer'' False
     [Field ''page'' (CPtr ''struct page''),
      Field ''offset'' unsigned_int,
      Field ''len'' unsigned_int,
      Field ''ops'' (CPtr ''const struct pipe_buf_operations''),
      Field ''flags'' unsigned_int,
      Field ''private'' long_unsigned_int]"

definition struct_platform_device_id :: cty where
  "struct_platform_device_id = CStruct ''platform_device_id'' False
     [Field ''name'' (CArr 24 c_char),
      Field ''driver_data'' kernel_ulong_t]"

definition struct_pm_domain_data :: cty where
  "struct_pm_domain_data = CStruct ''pm_domain_data'' False
     [Field ''list_node'' struct_list_head,
      Field ''dev'' (CPtr ''struct device'')]"

definition struct_pool_workqueue :: cty where
  "struct_pool_workqueue = CStruct ''pool_workqueue'' False
     [Field ''pool'' (CPtr ''struct worker_pool''),
      Field ''wq'' (CPtr ''struct workqueue_struct''),
      Field ''work_color'' c_int,
      Field ''flush_color'' c_int,
      Field ''refcnt'' c_int,
      Field ''nr_in_flight'' (CArr 16 c_int),
      Field ''plugged'' bool,
      Field ''nr_active'' c_int,
      Field ''inactive_works'' struct_list_head,
      Field ''pending_node'' struct_list_head,
      Field ''pwqs_node'' struct_list_head,
      Field ''mayday_node'' struct_list_head,
      Field ''mayday_cursor'' struct_work_struct,
      Field ''stats'' (CArr 8 u64),
      Field ''release_work'' struct_kthread_work,
      Field ''rcu'' struct_callback_head,
      BitField [] c_long 64,
      BitField [] c_long 64,
      BitField [] c_long 64,
      BitField [] c_long 64,
      BitField [] c_long 64,
      BitField [] c_long 64,
      BitField [] c_long 64,
      BitField [] c_long 64,
      BitField [] c_long 64,
      BitField [] c_long 64,
      BitField [] c_long 64,
      BitField [] c_long 64,
      BitField [] c_long 64,
      BitField [] c_long 64,
      BitField [] c_long 64,
      BitField [] c_long 64,
      BitField [] c_long 64,
      BitField [] c_long 64,
      BitField [] c_long 64,
      BitField [] c_long 64,
      BitField [] c_long 64,
      BitField [] c_long 64,
      BitField [] c_long 64,
      BitField [] c_long 64]"

definition struct_pr_ops :: cty where
  "struct_pr_ops = CStruct ''pr_ops'' False
     [Field ''pr_register'' (CPtr ''int (struct block_device *, u64, u64, u32)''),
      Field ''pr_reserve'' (CPtr ''int (struct block_device *, u64, enum pr_type, u32)''),
      Field ''pr_release'' (CPtr ''int (struct block_device *, u64, enum pr_type)''),
      Field ''pr_preempt'' (CPtr ''int (struct block_device *, u64, u64, enum pr_type, bool)''),
      Field ''pr_clear'' (CPtr ''int (struct block_device *, u64)''),
      Field ''pr_read_keys'' (CPtr ''int (struct block_device *, struct pr_keys *)''),
      Field ''pr_read_reservation'' (CPtr ''int (struct block_device *, struct pr_held_reservation *)'')]"

definition struct_proc_ns_operations :: cty where
  "struct_proc_ns_operations = CStruct ''proc_ns_operations'' False
     [Field ''name'' (CPtr ''const char''),
      Field ''real_ns_name'' (CPtr ''const char''),
      Field ''get'' (CPtr ''struct ns_common * (struct task_struct *)''),
      Field ''put'' (CPtr ''void (struct ns_common *)''),
      Field ''install'' (CPtr ''int (struct nsset *, struct ns_common *)''),
      Field ''owner'' (CPtr ''struct user_namespace * (struct ns_common *)''),
      Field ''get_parent'' (CPtr ''struct ns_common * (struct ns_common *)'')]"

definition struct_proc_ops :: cty where
  "struct_proc_ops = CStruct ''proc_ops'' False
     [Field ''proc_flags'' unsigned_int,
      Field ''proc_open'' (CPtr ''int (struct inode *, struct file *)''),
      Field ''proc_read'' (CPtr ''ssize_t (struct file *, char *, size_t, loff_t *)''),
      Field ''proc_read_iter'' (CPtr ''ssize_t (struct kiocb *, struct iov_iter *)''),
      Field ''proc_write'' (CPtr ''ssize_t (struct file *, const char *, size_t, loff_t *)''),
      Field ''proc_lseek'' (CPtr ''loff_t (struct file *, loff_t, int)''),
      Field ''proc_release'' (CPtr ''int (struct inode *, struct file *)''),
      Field ''proc_poll'' (CPtr ''__poll_t (struct file *, struct poll_table_struct *)''),
      Field ''proc_ioctl'' (CPtr ''long int (struct file *, unsigned int, long unsigned int)''),
      Field ''proc_compat_ioctl'' (CPtr ''long int (struct file *, unsigned int, long unsigned int)''),
      Field ''proc_mmap'' (CPtr ''int (struct file *, struct vm_area_struct *)''),
      Field ''proc_get_unmapped_area'' (CPtr ''long unsigned int (struct file *, long unsigned int, long unsigned int, long unsigned int, long unsigned int)'')]"

definition struct_prog_entry :: cty where
  "struct_prog_entry = CStruct ''prog_entry'' False
     [Field ''target'' c_int,
      Field ''when_to_branch'' c_int,
      Field ''pred'' (CPtr ''struct filter_pred'')]"

definition struct_property :: cty where
  "struct_property = CStruct ''property'' False
     [Field ''name'' (CPtr ''char''),
      Field ''length'' c_int,
      Field ''value'' (CPtr ''void''),
      Field ''next'' (CPtr ''struct property'')]"

definition struct_prot_inuse :: cty where
  "struct_prot_inuse = CStruct ''prot_inuse'' False
     [Field ''all'' c_int,
      Field ''val'' (CArr 64 c_int)]"

definition struct_psi_group_cpu :: cty where
  "struct_psi_group_cpu = CStruct ''psi_group_cpu'' False
     [Field ''tasks'' (CArr 4 unsigned_int),
      Field ''state_mask'' u32,
      Field ''times'' (CArr 7 u32),
      Field ''state_start'' u64,
      BitField [] c_long 64,
      Field ''times_prev'' (CArr 14 u32),
      BitField [] c_long 64]"

definition struct_rchan :: cty where
  "struct_rchan = CStruct ''rchan'' False
     [Field ''version'' u32,
      Field ''subbuf_size'' size_t,
      Field ''n_subbufs'' size_t,
      Field ''alloc_size'' size_t,
      Field ''cb'' (CPtr ''const struct rchan_callbacks''),
      Field ''kref'' struct_kref,
      Field ''private_data'' (CPtr ''void''),
      Field ''buf'' (CPtr ''struct rchan_buf *''),
      Field ''is_global'' c_int,
      Field ''list'' struct_list_head,
      Field ''parent'' (CPtr ''struct dentry''),
      Field ''has_base_filename'' c_int,
      Field ''base_filename'' (CArr 255 c_char)]"

definition struct_regulator_voltage :: cty where
  "struct_regulator_voltage = CStruct ''regulator_voltage'' False
     [Field ''min_uV'' c_int,
      Field ''max_uV'' c_int]"

definition struct_regulator :: cty where
  "struct_regulator = CStruct ''regulator'' False
     [Field ''dev'' (CPtr ''struct device''),
      Field ''list'' struct_list_head,
      BitField ''always_on'' unsigned_int 1,
      BitField ''bypass'' unsigned_int 1,
      BitField ''device_link'' unsigned_int 1,
      Field ''uA_load'' c_int,
      Field ''enable_count'' unsigned_int,
      Field ''deferred_disables'' unsigned_int,
      Field ''voltage'' (CArr 5 struct_regulator_voltage),
      Field ''supply_name'' (CPtr ''const char''),
      Field ''dev_attr'' struct_device_attribute,
      Field ''rdev'' (CPtr ''struct regulator_dev''),
      Field ''debugfs'' (CPtr ''struct dentry'')]"

definition enum_hprobe_state :: cty where
  "enum_hprobe_state = CEnum 4
     [(''HPROBE_LEASED'', 0), (''HPROBE_STABLE'', 1), (''HPROBE_GONE'', 2),
      (''HPROBE_CONSUMED'', 3)]"

definition struct_hprobe :: cty where
  "struct_hprobe = CStruct ''hprobe'' False
     [Field ''state'' enum_hprobe_state,
      Field ''srcu_idx'' c_int,
      Field ''uprobe'' (CPtr ''struct uprobe'')]"

definition struct_return_consumer :: cty where
  "struct_return_consumer = CStruct ''return_consumer'' False
     [Field ''cookie'' c__u64,
      Field ''id'' c__u64]"

definition struct_return_instance :: cty where
  "struct_return_instance = CStruct ''return_instance'' False
     [Field ''hprobe'' struct_hprobe,
      Field ''func'' long_unsigned_int,
      Field ''stack'' long_unsigned_int,
      Field ''orig_ret_vaddr'' long_unsigned_int,
      Field ''chained'' bool,
      Field ''cons_cnt'' c_int,
      Field ''next'' (CPtr ''struct return_instance''),
      Field ''rcu'' struct_callback_head,
      Field ''consumer'' struct_return_consumer,
      Field ''extra_consumers'' (CPtr ''struct return_consumer''),
      BitField [] c_long 64,
      BitField [] c_long 64,
      BitField [] c_long 64,
      BitField [] c_long 64]"

definition struct_dl_bw :: cty where
  "struct_dl_bw = CStruct ''dl_bw'' False
     [Field ''lock'' raw_spinlock_t,
      Field ''bw'' u64,
      Field ''total_bw'' u64]"

definition struct_cpudl :: cty where
  "struct_cpudl = CStruct ''cpudl'' False
     [Field ''lock'' raw_spinlock_t,
      Field ''size'' c_int,
      Field ''free_cpus'' cpumask_var_t,
      Field ''elements'' (CPtr ''struct cpudl_item'')]"

definition struct_cpupri_vec :: cty where
  "struct_cpupri_vec = CStruct ''cpupri_vec'' False
     [Field ''count'' atomic_t,
      Field ''mask'' cpumask_var_t]"

definition struct_cpupri :: cty where
  "struct_cpupri = CStruct ''cpupri'' False
     [Field ''pri_to_cpu'' (CArr 101 struct_cpupri_vec),
      Field ''cpu_to_pri'' (CPtr ''int'')]"

definition struct_root_domain :: cty where
  "struct_root_domain = CStruct ''root_domain'' False
     [Field ''refcount'' atomic_t,
      Field ''rto_count'' atomic_t,
      Field ''rcu'' struct_callback_head,
      Field ''span'' cpumask_var_t,
      Field ''online'' cpumask_var_t,
      Field ''overloaded'' bool,
      Field ''overutilized'' bool,
      Field ''dlo_mask'' cpumask_var_t,
      Field ''dlo_count'' atomic_t,
      Field ''dl_bw'' struct_dl_bw,
      Field ''cpudl'' struct_cpudl,
      Field ''visit_cookie'' u64,
      Field ''rto_push_work'' struct_irq_work,
      Field ''rto_lock'' raw_spinlock_t,
      Field ''rto_loop'' c_int,
      Field ''rto_cpu'' c_int,
      Field ''rto_loop_next'' atomic_t,
      Field ''rto_loop_start'' atomic_t,
      Field ''rto_mask'' cpumask_var_t,
      Field ''cpupri'' struct_cpupri,
      Field ''pd'' (CPtr ''struct perf_domain'')]"

definition struct_rq_qos_ops :: cty where
  "struct_rq_qos_ops = CStruct ''rq_qos_ops'' False
     [Field ''throttle'' (CPtr ''void (struct rq_qos *, struct bio *)''),
      Field ''track'' (CPtr ''void (struct rq_qos *, struct request *, struct bio *)''),
      Field ''merge'' (CPtr ''void (struct rq_qos *, struct request *, struct bio *)''),
      Field ''issue'' (CPtr ''void (struct rq_qos *, struct request *)''),
      Field ''requeue'' (CPtr ''void (struct rq_qos *, struct request *)''),
      Field ''done'' (CPtr ''void (struct rq_qos *, struct request *)''),
      Field ''done_bio'' (CPtr ''void (struct rq_qos *, struct bio *)''),
      Field ''cleanup'' (CPtr ''void (struct rq_qos *, struct bio *)''),
      Field ''queue_depth_changed'' (CPtr ''void (struct rq_qos *)''),
      Field ''exit'' (CPtr ''void (struct rq_qos *)''),
      Field ''debugfs_attrs'' (CPtr ''const struct blk_mq_debugfs_attr'')]"

definition struct_dst_entry :: cty where
  "struct_dst_entry = CStruct ''dst_entry'' False
     [Field [] (CUnion [] False
        [Field ''dev'' (CPtr ''struct net_device''),
         Field ''dev_rcu'' (CPtr ''struct net_device'')]),
      Field ''ops'' (CPtr ''struct dst_ops''),
      Field ''_metrics'' long_unsigned_int,
      Field ''expires'' long_unsigned_int,
      Field ''xfrm'' (CPtr ''struct xfrm_state''),
      Field ''input'' (CPtr ''int (struct sk_buff *)''),
      Field ''output'' (CPtr ''int (struct net *, struct sock *, struct sk_buff *)''),
      Field ''flags'' short_unsigned_int,
      Field ''obsolete'' short_int,
      Field ''header_len'' short_unsigned_int,
      Field ''trailer_len'' short_unsigned_int,
      Field ''__rcuref'' rcuref_t,
      Field ''__use'' c_int,
      Field ''lastuse'' long_unsigned_int,
      Field ''callback_head'' struct_callback_head,
      Field ''error'' short_int,
      Field ''__pad'' short_int,
      Field ''tclassid'' c__u32,
      Field ''dev_tracker'' netdevice_tracker,
      Field ''rt_uncached'' struct_list_head,
      Field ''rt_uncached_list'' (CPtr ''struct uncached_list''),
      Field ''lwtstate'' (CPtr ''struct lwtunnel_state'')]"

definition struct_rt6_info :: cty where
  "struct_rt6_info = CStruct ''rt6_info'' False
     [Field ''dst'' struct_dst_entry,
      Field ''from'' (CPtr ''struct fib6_info''),
      Field ''sernum'' c_int,
      Field ''rt6i_dst'' struct_rt6key,
      Field ''rt6i_src'' struct_rt6key,
      Field ''rt6i_gateway'' struct_in6_addr,
      Field ''rt6i_idev'' (CPtr ''struct inet6_dev''),
      Field ''rt6i_flags'' u32,
      Field ''rt6i_nfheader_len'' short_unsigned_int]"

definition struct_rt6_statistics :: cty where
  "struct_rt6_statistics = CStruct ''rt6_statistics'' False
     [Field ''fib_nodes'' c__u32,
      Field ''fib_route_nodes'' c__u32,
      Field ''fib_rt_entries'' c__u32,
      Field ''fib_rt_cache'' c__u32,
      Field ''fib_discarded_routes'' c__u32,
      Field ''fib_rt_alloc'' atomic_t]"

definition struct_sbitmap_word :: cty where
  "struct_sbitmap_word = CStruct ''sbitmap_word'' False
     [Field ''word'' long_unsigned_int,
      BitField [] c_long 64,
      BitField [] c_long 64,
      BitField [] c_long 64,
      BitField [] c_long 64,
      BitField [] c_long 64,
      BitField [] c_long 64,
      BitField [] c_long 64,
      Field ''cleared'' long_unsigned_int,
      Field ''swap_lock'' raw_spinlock_t,
      BitField [] c_long 64,
      BitField [] c_long 64,
      BitField [] c_long 64,
      BitField [] c_long 64,
      BitField [] c_long 64,
      BitField [] c_long 64]"

definition struct_sbq_wait_state :: cty where
  "struct_sbq_wait_state = CStruct ''sbq_wait_state'' False
     [Field ''wait'' wait_queue_head_t,
      BitField [] c_long 64,
      BitField [] c_long 64,
      BitField [] c_long 64,
      BitField [] c_long 64,
      BitField [] c_long 64]"

definition struct_sched_domain :: cty where
  "struct_sched_domain = CStruct ''sched_domain'' False
     [Field ''parent'' (CPtr ''struct sched_domain''),
      Field ''child'' (CPtr ''struct sched_domain''),
      Field ''groups'' (CPtr ''struct sched_group''),
      Field ''min_interval'' long_unsigned_int,
      Field ''max_interval'' long_unsigned_int,
      Field ''busy_factor'' unsigned_int,
      Field ''imbalance_pct'' unsigned_int,
      Field ''cache_nice_tries'' unsigned_int,
      Field ''imb_numa_nr'' unsigned_int,
      Field ''nohz_idle'' c_int,
      Field ''flags'' c_int,
      Field ''level'' c_int,
      Field ''last_balance'' long_unsigned_int,
      Field ''balance_interval'' unsigned_int,
      Field ''nr_balance_failed'' unsigned_int,
      Field ''newidle_call'' unsigned_int,
      Field ''newidle_success'' unsigned_int,
      Field ''newidle_ratio'' unsigned_int,
      Field ''max_newidle_lb_cost'' u64,
      Field ''last_decay_max_lb_cost'' long_unsigned_int,
      Field ''lb_count'' (CArr 3 unsigned_int),
      Field ''lb_failed'' (CArr 3 unsigned_int),
      Field ''lb_balanced'' (CArr 3 unsigned_int),
      Field ''lb_imbalance_load'' (CArr 3 unsigned_int),
      Field ''lb_imbalance_util'' (CArr 3 unsigned_int),
      Field ''lb_imbalance_task'' (CArr 3 unsigned_int),
      Field ''lb_imbalance_misfit'' (CArr 3 unsigned_int),
      Field ''lb_gained'' (CArr 3 unsigned_int),
      Field ''lb_hot_gained'' (CArr 3 unsigned_int),
      Field ''lb_nobusyg'' (CArr 3 unsigned_int),
      Field ''lb_nobusyq'' (CArr 3 unsigned_int),
      Field ''alb_count'' unsigned_int,
      Field ''alb_failed'' unsigned_int,
      Field ''alb_pushed'' unsigned_int,
      Field ''sbe_count'' unsigned_int,
      Field ''sbe_balanced'' unsigned_int,
      Field ''sbe_pushed'' unsigned_int,
      Field ''sbf_count'' unsigned_int,
      Field ''sbf_balanced'' unsigned_int,
      Field ''sbf_pushed'' unsigned_int,
      Field ''ttwu_wake_remote'' unsigned_int,
      Field ''ttwu_move_affine'' unsigned_int,
      Field ''ttwu_move_balance'' unsigned_int,
      Field ''name'' (CPtr ''char''),
      Field [] (CUnion [] False
        [Field ''private'' (CPtr ''void''),
         Field ''rcu'' struct_callback_head]),
      Field ''shared'' (CPtr ''struct sched_domain_shared''),
      Field ''span_weight'' unsigned_int]"

definition struct_seg6_pernet_data :: cty where
  "struct_seg6_pernet_data = CStruct ''seg6_pernet_data'' False
     [Field ''lock'' struct_mutex,
      Field ''tun_src'' (CPtr ''struct in6_addr''),
      Field ''hmac_infos'' struct_rhashtable]"

definition struct_seq_operations :: cty where
  "struct_seq_operations = CStruct ''seq_operations'' False
     [Field ''start'' (CPtr ''void * (struct seq_file *, loff_t *)''),
      Field ''stop'' (CPtr ''void (struct seq_file *, void *)''),
      Field ''next'' (CPtr ''void * (struct seq_file *, void *, loff_t *)''),
      Field ''show'' (CPtr ''int (struct seq_file *, void *)'')]"

definition c__wsum :: cty where [layout_simps]:
  "c__wsum = c__u32"

definition sk_buff_data_t :: cty where [layout_simps]:
  "sk_buff_data_t = unsigned_int"

definition struct_sk_buff :: cty where
  "struct_sk_buff = CStruct ''sk_buff'' False
     [Field [] (CUnion [] False
        [Field [] (CStruct [] False
           [Field ''next'' (CPtr ''struct sk_buff''),
            Field ''prev'' (CPtr ''struct sk_buff''),
            Field [] (CUnion [] False
              [Field ''dev'' (CPtr ''struct net_device''),
               Field ''dev_scratch'' long_unsigned_int])]),
         Field ''rbnode'' struct_rb_node,
         Field ''list'' struct_list_head,
         Field ''ll_node'' struct_llist_node]),
      Field ''sk'' (CPtr ''struct sock''),
      Field [] (CUnion [] False
        [Field ''tstamp'' ktime_t,
         Field ''skb_mstamp_ns'' u64]),
      Field ''cb'' (CArr 48 c_char),
      Field [] (CUnion [] False
        [Field [] (CStruct [] False
           [Field ''_skb_refdst'' long_unsigned_int,
            Field ''destructor'' (CPtr ''void (struct sk_buff *)'')]),
         Field ''tcp_tsorted_anchor'' struct_list_head,
         Field ''_sk_redir'' long_unsigned_int]),
      Field ''_nfct'' long_unsigned_int,
      Field ''len'' unsigned_int,
      Field ''data_len'' unsigned_int,
      Field ''mac_len'' c__u16,
      Field ''hdr_len'' c__u16,
      Field ''queue_mapping'' c__u16,
      Field ''__cloned_offset'' (CArr 0 c__u8),
      BitField ''cloned'' c__u8 1,
      BitField ''nohdr'' c__u8 1,
      BitField ''fclone'' c__u8 2,
      BitField ''peeked'' c__u8 1,
      BitField ''head_frag'' c__u8 1,
      BitField ''pfmemalloc'' c__u8 1,
      BitField ''pp_recycle'' c__u8 1,
      Field ''active_extensions'' c__u8,
      Field [] (CUnion [] False
        [Field [] (CStruct [] False
           [Field ''__pkt_type_offset'' (CArr 0 c__u8),
            BitField ''pkt_type'' c__u8 3,
            BitField ''ignore_df'' c__u8 1,
            BitField ''dst_pending_confirm'' c__u8 1,
            BitField ''ip_summed'' c__u8 2,
            BitField ''ooo_okay'' c__u8 1,
            Field ''__mono_tc_offset'' (CArr 0 c__u8),
            BitField ''tstamp_type'' c__u8 2,
            BitField ''tc_at_ingress'' c__u8 1,
            BitField ''tc_skip_classify'' c__u8 1,
            BitField ''remcsum_offload'' c__u8 1,
            BitField ''csum_complete_sw'' c__u8 1,
            BitField ''csum_level'' c__u8 2,
            BitField ''inner_protocol_type'' c__u8 1,
            BitField ''l4_hash'' c__u8 1,
            BitField ''sw_hash'' c__u8 1,
            BitField ''wifi_acked_valid'' c__u8 1,
            BitField ''wifi_acked'' c__u8 1,
            BitField ''no_fcs'' c__u8 1,
            BitField ''encapsulation'' c__u8 1,
            BitField ''encap_hdr_csum'' c__u8 1,
            BitField ''csum_valid'' c__u8 1,
            BitField ''ndisc_nodetype'' c__u8 2,
            BitField ''ipvs_property'' c__u8 1,
            BitField ''nf_trace'' c__u8 1,
            BitField ''offload_fwd_mark'' c__u8 1,
            BitField ''offload_l3_fwd_mark'' c__u8 1,
            BitField ''redirected'' c__u8 1,
            BitField ''from_ingress'' c__u8 1,
            BitField ''nf_skip_egress'' c__u8 1,
            BitField ''decrypted'' c__u8 1,
            BitField ''slow_gro'' c__u8 1,
            BitField ''csum_not_inet'' c__u8 1,
            BitField ''unreadable'' c__u8 1,
            BitField ''tc_depth'' c__u8 2,
            Field ''tc_index'' c__u16,
            Field ''alloc_cpu'' u16,
            Field [] (CUnion [] False
              [Field ''csum'' c__wsum,
               Field [] (CStruct [] False
                 [Field ''csum_start'' c__u16,
                  Field ''csum_offset'' c__u16])]),
            Field ''priority'' c__u32,
            Field ''skb_iif'' c_int,
            Field ''hash'' c__u32,
            Field [] (CUnion [] False
              [Field ''vlan_all'' u32,
               Field [] (CStruct [] False
                 [Field ''vlan_proto'' c__be16,
                  Field ''vlan_tci'' c__u16])]),
            Field [] (CUnion [] False
              [Field ''napi_id'' unsigned_int,
               Field ''sender_cpu'' unsigned_int]),
            Field ''secmark'' c__u32,
            Field [] (CUnion [] False
              [Field ''mark'' c__u32,
               Field ''reserved_tailroom'' c__u32]),
            Field [] (CUnion [] False
              [Field ''inner_protocol'' c__be16,
               Field ''inner_ipproto'' c__u8]),
            Field ''inner_transport_header'' c__u16,
            Field ''inner_network_header'' c__u16,
            Field ''inner_mac_header'' c__u16,
            Field ''protocol'' c__be16,
            Field ''transport_header'' c__u16,
            Field ''network_header'' c__u16,
            Field ''mac_header'' c__u16]),
         Field ''headers'' (CStruct [] False
           [Field ''__pkt_type_offset'' (CArr 0 c__u8),
            BitField ''pkt_type'' c__u8 3,
            BitField ''ignore_df'' c__u8 1,
            BitField ''dst_pending_confirm'' c__u8 1,
            BitField ''ip_summed'' c__u8 2,
            BitField ''ooo_okay'' c__u8 1,
            Field ''__mono_tc_offset'' (CArr 0 c__u8),
            BitField ''tstamp_type'' c__u8 2,
            BitField ''tc_at_ingress'' c__u8 1,
            BitField ''tc_skip_classify'' c__u8 1,
            BitField ''remcsum_offload'' c__u8 1,
            BitField ''csum_complete_sw'' c__u8 1,
            BitField ''csum_level'' c__u8 2,
            BitField ''inner_protocol_type'' c__u8 1,
            BitField ''l4_hash'' c__u8 1,
            BitField ''sw_hash'' c__u8 1,
            BitField ''wifi_acked_valid'' c__u8 1,
            BitField ''wifi_acked'' c__u8 1,
            BitField ''no_fcs'' c__u8 1,
            BitField ''encapsulation'' c__u8 1,
            BitField ''encap_hdr_csum'' c__u8 1,
            BitField ''csum_valid'' c__u8 1,
            BitField ''ndisc_nodetype'' c__u8 2,
            BitField ''ipvs_property'' c__u8 1,
            BitField ''nf_trace'' c__u8 1,
            BitField ''offload_fwd_mark'' c__u8 1,
            BitField ''offload_l3_fwd_mark'' c__u8 1,
            BitField ''redirected'' c__u8 1,
            BitField ''from_ingress'' c__u8 1,
            BitField ''nf_skip_egress'' c__u8 1,
            BitField ''decrypted'' c__u8 1,
            BitField ''slow_gro'' c__u8 1,
            BitField ''csum_not_inet'' c__u8 1,
            BitField ''unreadable'' c__u8 1,
            BitField ''tc_depth'' c__u8 2,
            Field ''tc_index'' c__u16,
            Field ''alloc_cpu'' u16,
            Field [] (CUnion [] False
              [Field ''csum'' c__wsum,
               Field [] (CStruct [] False
                 [Field ''csum_start'' c__u16,
                  Field ''csum_offset'' c__u16])]),
            Field ''priority'' c__u32,
            Field ''skb_iif'' c_int,
            Field ''hash'' c__u32,
            Field [] (CUnion [] False
              [Field ''vlan_all'' u32,
               Field [] (CStruct [] False
                 [Field ''vlan_proto'' c__be16,
                  Field ''vlan_tci'' c__u16])]),
            Field [] (CUnion [] False
              [Field ''napi_id'' unsigned_int,
               Field ''sender_cpu'' unsigned_int]),
            Field ''secmark'' c__u32,
            Field [] (CUnion [] False
              [Field ''mark'' c__u32,
               Field ''reserved_tailroom'' c__u32]),
            Field [] (CUnion [] False
              [Field ''inner_protocol'' c__be16,
               Field ''inner_ipproto'' c__u8]),
            Field ''inner_transport_header'' c__u16,
            Field ''inner_network_header'' c__u16,
            Field ''inner_mac_header'' c__u16,
            Field ''protocol'' c__be16,
            Field ''transport_header'' c__u16,
            Field ''network_header'' c__u16,
            Field ''mac_header'' c__u16])]),
      Field ''tail'' sk_buff_data_t,
      Field ''end'' sk_buff_data_t,
      Field ''head'' (CPtr ''unsigned char''),
      Field ''data'' (CPtr ''unsigned char''),
      Field ''truesize'' unsigned_int,
      Field ''users'' refcount_t,
      Field ''extensions'' (CPtr ''struct skb_ext'')]"

definition struct_local_trylock :: cty where
  "struct_local_trylock = CStruct ''local_trylock'' False
     [Field ''acquired'' u8]"

definition local_trylock_t :: cty where [layout_simps]:
  "local_trylock_t = struct_local_trylock"

definition struct_slub_percpu_sheaves :: cty where
  "struct_slub_percpu_sheaves = CStruct ''slub_percpu_sheaves'' False
     [Field ''lock'' local_trylock_t,
      Field ''main'' (CPtr ''struct slab_sheaf''),
      Field ''spare'' (CPtr ''struct slab_sheaf''),
      Field ''rcu_free'' (CPtr ''struct slab_sheaf'')]"

definition struct_netlbl_lsm_secattr :: cty where
  "struct_netlbl_lsm_secattr = CStruct ''netlbl_lsm_secattr'' False
     [Field ''flags'' u32,
      Field ''type'' u32,
      Field ''domain'' (CPtr ''char''),
      Field ''cache'' (CPtr ''struct netlbl_lsm_cache''),
      Field ''attr'' (CStruct [] False
        [Field ''mls'' (CStruct [] False
           [Field ''cat'' (CPtr ''struct netlbl_lsm_catmap''),
            Field ''lvl'' u32]),
         Field ''secid'' u32])]"

definition struct_smack_known :: cty where
  "struct_smack_known = CStruct ''smack_known'' False
     [Field ''list'' struct_list_head,
      Field ''smk_hashed'' struct_hlist_node,
      Field ''smk_known'' (CPtr ''char''),
      Field ''smk_secid'' u32,
      Field ''smk_netlabel'' struct_netlbl_lsm_secattr,
      Field ''smk_rules'' struct_list_head,
      Field ''smk_rules_lock'' struct_mutex]"

definition struct_smc_hs_ctrl :: cty where
  "struct_smc_hs_ctrl = CStruct ''smc_hs_ctrl'' False
     [Field ''list'' struct_list_head,
      Field ''owner'' (CPtr ''struct module''),
      Field ''name'' (CArr 16 c_char),
      Field ''flags'' c_int,
      Field ''syn_option'' (CPtr ''int (struct tcp_sock *)''),
      Field ''synack_option'' (CPtr ''int (const struct tcp_sock *, struct inet_request_sock *)'')]"

definition c__addrpair :: cty where [layout_simps]:
  "c__addrpair = c__u64"

definition c__portpair :: cty where [layout_simps]:
  "c__portpair = c__u32"

definition struct_sock_common :: cty where
  "struct_sock_common = CStruct ''sock_common'' False
     [Field [] (CUnion [] False
        [Field ''skc_addrpair'' c__addrpair,
         Field [] (CStruct [] False
           [Field ''skc_daddr'' c__be32,
            Field ''skc_rcv_saddr'' c__be32])]),
      Field [] (CUnion [] False
        [Field ''skc_hash'' unsigned_int,
         Field ''skc_u16hashes'' (CArr 2 c__u16)]),
      Field [] (CUnion [] False
        [Field ''skc_portpair'' c__portpair,
         Field [] (CStruct [] False
           [Field ''skc_dport'' c__be16,
            Field ''skc_num'' c__u16])]),
      Field ''skc_family'' short_unsigned_int,
      Field ''skc_state'' unsigned_char,
      BitField ''skc_reuse'' unsigned_char 4,
      BitField ''skc_reuseport'' unsigned_char 1,
      BitField ''skc_ipv6only'' unsigned_char 1,
      BitField ''skc_net_refcnt'' unsigned_char 1,
      BitField ''skc_bypass_prot_mem'' unsigned_char 1,
      Field ''skc_bound_dev_if'' c_int,
      Field [] (CUnion [] False
        [Field ''skc_bind_node'' struct_hlist_node,
         Field ''skc_portaddr_node'' struct_hlist_node]),
      Field ''skc_prot'' (CPtr ''struct proto''),
      Field ''skc_net'' possible_net_t,
      Field ''skc_v6_daddr'' struct_in6_addr,
      Field ''skc_v6_rcv_saddr'' struct_in6_addr,
      Field ''skc_cookie'' atomic64_t,
      Field [] (CUnion [] False
        [Field ''skc_flags'' long_unsigned_int,
         Field ''skc_listener'' (CPtr ''struct sock''),
         Field ''skc_tw_dr'' (CPtr ''struct inet_timewait_death_row'')]),
      Field ''skc_dontcopy_begin'' (CArr 0 c_int),
      Field [] (CUnion [] False
        [Field ''skc_node'' struct_hlist_node,
         Field ''skc_nulls_node'' struct_hlist_nulls_node]),
      Field ''skc_tx_queue_mapping'' short_unsigned_int,
      Field ''skc_rx_queue_mapping'' short_unsigned_int,
      Field [] (CUnion [] False
        [Field ''skc_incoming_cpu'' c_int,
         Field ''skc_rcv_wnd'' u32,
         Field ''skc_tw_rcv_nxt'' u32]),
      Field ''skc_refcnt'' refcount_t,
      Field ''skc_dontcopy_end'' (CArr 0 c_int),
      Field [] (CUnion [] False
        [Field ''skc_rxhash'' u32,
         Field ''skc_window_clamp'' u32,
         Field ''skc_tw_snd_nxt'' u32])]"

definition socket_lock_t :: cty where
  "socket_lock_t = CStruct [] False
      [Field ''slock'' spinlock_t,
       Field ''owned'' c_int,
       Field ''wq'' wait_queue_head_t]"

definition struct_sock_cgroup_data :: cty where
  "struct_sock_cgroup_data = CStruct ''sock_cgroup_data'' False
     [Field ''cgroup'' (CPtr ''struct cgroup''),
      Field ''classid'' u32,
      Field ''prioidx'' u16]"

definition netns_tracker :: cty where
  "netns_tracker = CStruct [] False
      []"

definition struct_sock :: cty where
  "struct_sock = CStruct ''sock'' False
     [Field ''__sk_common'' struct_sock_common,
      Field ''__cacheline_group_begin__sock_write_rx'' (CArr 0 c__u8),
      Field ''sk_drops'' atomic_t,
      Field ''sk_peek_off'' c__s32,
      Field ''sk_error_queue'' struct_sk_buff_head,
      Field ''sk_receive_queue'' struct_sk_buff_head,
      Field ''sk_backlog'' (CStruct [] False
        [Field ''rmem_alloc'' atomic_t,
         Field ''len'' c_int,
         Field ''head'' (CPtr ''struct sk_buff''),
         Field ''tail'' (CPtr ''struct sk_buff'')]),
      Field ''__cacheline_group_end__sock_write_rx'' (CArr 0 c__u8),
      Field ''__cacheline_group_begin__sock_read_rx'' (CArr 0 c__u8),
      Field ''sk_rx_dst'' (CPtr ''struct dst_entry''),
      Field ''sk_rx_dst_ifindex'' c_int,
      Field ''sk_rx_dst_cookie'' u32,
      Field ''sk_ll_usec'' unsigned_int,
      Field ''sk_napi_id'' unsigned_int,
      Field ''sk_busy_poll_budget'' u16,
      Field ''sk_prefer_busy_poll'' u8,
      Field ''sk_userlocks'' u8,
      Field ''sk_rcvbuf'' c_int,
      Field ''sk_filter'' (CPtr ''struct sk_filter''),
      Field [] (CUnion [] False
        [Field ''sk_wq'' (CPtr ''struct socket_wq''),
         Field ''sk_wq_raw'' (CPtr ''struct socket_wq'')]),
      Field ''sk_data_ready'' (CPtr ''void (struct sock *)''),
      Field ''sk_rcvtimeo'' c_long,
      Field ''sk_rcvlowat'' c_int,
      Field ''__cacheline_group_end__sock_read_rx'' (CArr 0 c__u8),
      Field ''__cacheline_group_begin__sock_read_rxtx'' (CArr 0 c__u8),
      Field ''sk_err'' c_int,
      Field ''sk_socket'' (CPtr ''struct socket''),
      Field ''sk_memcg'' (CPtr ''struct mem_cgroup''),
      Field ''sk_policy'' (CArr 2 (CPtr ''struct xfrm_policy'')),
      Field ''psp_assoc'' (CPtr ''struct psp_assoc''),
      Field ''__cacheline_group_end__sock_read_rxtx'' (CArr 0 c__u8),
      Field ''__cacheline_group_begin__sock_write_rxtx'' (CArr 0 c__u8),
      Field ''sk_lock'' socket_lock_t,
      Field ''sk_reserved_mem'' u32,
      Field ''sk_forward_alloc'' c_int,
      Field ''sk_tsflags'' u32,
      Field ''__cacheline_group_end__sock_write_rxtx'' (CArr 0 c__u8),
      Field ''__cacheline_group_begin__sock_write_tx'' (CArr 0 c__u8),
      Field ''sk_write_pending'' c_int,
      Field ''sk_omem_alloc'' atomic_t,
      Field ''sk_err_soft'' c_int,
      Field ''sk_wmem_queued'' c_int,
      Field ''sk_wmem_alloc'' refcount_t,
      Field ''sk_tsq_flags'' long_unsigned_int,
      Field [] (CUnion [] False
        [Field ''sk_send_head'' (CPtr ''struct sk_buff''),
         Field ''tcp_rtx_queue'' struct_rb_root]),
      Field ''sk_write_queue'' struct_sk_buff_head,
      Field ''sk_frag'' struct_page_frag,
      Field [] (CUnion [] False
        [Field ''sk_timer'' struct_timer_list,
         Field ''tcp_retransmit_timer'' struct_timer_list,
         Field ''mptcp_retransmit_timer'' struct_timer_list]),
      Field ''sk_pacing_rate'' long_unsigned_int,
      Field ''sk_zckey'' atomic_t,
      Field ''sk_tskey'' atomic_t,
      Field ''sk_tx_queue_mapping_jiffies'' long_unsigned_int,
      Field ''__cacheline_group_end__sock_write_tx'' (CArr 0 c__u8),
      Field ''__cacheline_group_begin__sock_read_tx'' (CArr 0 c__u8),
      Field ''sk_dst_pending_confirm'' u32,
      Field ''sk_pacing_status'' u32,
      Field ''sk_max_pacing_rate'' long_unsigned_int,
      Field ''sk_sndtimeo'' c_long,
      Field ''sk_priority'' u32,
      Field ''sk_mark'' u32,
      Field ''sk_uid'' kuid_t,
      Field ''sk_protocol'' u16,
      Field ''sk_type'' u16,
      Field ''sk_dst_cache'' (CPtr ''struct dst_entry''),
      Field ''sk_route_caps'' netdev_features_t,
      Field ''sk_validate_xmit_skb'' (CPtr ''struct sk_buff * (struct sock *, struct net_device *, struct sk_buff *)''),
      Field ''sk_gso_type'' u16,
      Field ''sk_gso_max_segs'' u16,
      Field ''sk_gso_max_size'' unsigned_int,
      Field ''sk_allocation'' gfp_t,
      Field ''sk_txhash'' u32,
      Field ''sk_sndbuf'' c_int,
      Field ''sk_pacing_shift'' u8,
      Field ''sk_use_task_frag'' bool,
      Field ''__cacheline_group_end__sock_read_tx'' (CArr 0 c__u8),
      BitField ''sk_gso_disabled'' u8 1,
      BitField ''sk_kern_sock'' u8 1,
      BitField ''sk_no_check_tx'' u8 1,
      BitField ''sk_no_check_rx'' u8 1,
      Field ''sk_shutdown'' u8,
      Field ''sk_lingertime'' long_unsigned_int,
      Field ''sk_prot_creator'' (CPtr ''struct proto''),
      Field ''sk_callback_lock'' rwlock_t,
      Field ''sk_ack_backlog'' u32,
      Field ''sk_max_ack_backlog'' u32,
      Field ''sk_ino'' long_unsigned_int,
      Field ''sk_peer_lock'' spinlock_t,
      Field ''sk_bind_phc'' c_int,
      Field ''sk_peer_pid'' (CPtr ''struct pid''),
      Field ''sk_peer_cred'' (CPtr ''const struct cred''),
      Field ''sk_stamp'' ktime_t,
      Field ''sk_disconnects'' c_int,
      Field [] (CUnion [] False
        [Field ''sk_txrehash'' u8,
         Field ''sk_scm_recv_flags'' u8,
         Field [] (CStruct [] False
           [BitField ''sk_scm_credentials'' u8 1,
            BitField ''sk_scm_security'' u8 1,
            BitField ''sk_scm_pidfd'' u8 1,
            BitField ''sk_scm_rights'' u8 1,
            BitField ''sk_scm_unused'' u8 4])]),
      Field ''sk_clockid'' u8,
      BitField ''sk_txtime_deadline_mode'' u8 1,
      BitField ''sk_txtime_report_errors'' u8 1,
      BitField ''sk_txtime_unused'' u8 6,
      Field ''sk_bpf_cb_flags'' u8,
      Field ''sk_user_data'' (CPtr ''void''),
      Field ''sk_security'' (CPtr ''void''),
      Field ''sk_cgrp_data'' struct_sock_cgroup_data,
      Field ''sk_state_change'' (CPtr ''void (struct sock *)''),
      Field ''sk_write_space'' (CPtr ''void (struct sock *)''),
      Field ''sk_error_report'' (CPtr ''void (struct sock *)''),
      Field ''sk_backlog_rcv'' (CPtr ''int (struct sock *, struct sk_buff *)''),
      Field ''sk_destruct'' (CPtr ''void (struct sock *)''),
      Field ''sk_reuseport_cb'' (CPtr ''struct sock_reuseport''),
      Field ''sk_bpf_storage'' (CPtr ''struct bpf_local_storage''),
      Field ''sk_drop_counters'' (CPtr ''struct numa_drop_counters''),
      Field [] (CUnion [] False
        [Field ''sk_rcu'' struct_callback_head,
         Field ''sk_freeptr'' freeptr_t]),
      Field ''ns_tracker'' netns_tracker,
      Field ''sk_user_frags'' struct_xarray]"

section \<open>Sizes and alignments\<close>

lemma struct_netdev_hw_addr_list_layout [layout_simps]:
  "sizeof struct_netdev_hw_addr_list = 32 \<and> alignof struct_netdev_hw_addr_list = 8 \<and> wf_cty struct_netdev_hw_addr_list"
  by (simp add: struct_netdev_hw_addr_list_def base_types layout_eval struct_list_head_layout struct_rb_root_layout
      del: One_nat_def)

lemma enum_netdev_ml_priv_type_layout [layout_simps]:
  "sizeof enum_netdev_ml_priv_type = 4 \<and> alignof enum_netdev_ml_priv_type = 4 \<and> wf_cty enum_netdev_ml_priv_type"
  by (simp add: enum_netdev_ml_priv_type_def base_types layout_eval
      del: One_nat_def)

lemma struct_bpf_xdp_entity_layout [layout_simps]:
  "sizeof struct_bpf_xdp_entity = 16 \<and> alignof struct_bpf_xdp_entity = 8 \<and> wf_cty struct_bpf_xdp_entity"
  by (simp add: struct_bpf_xdp_entity_def base_types layout_eval
      del: One_nat_def)

lemma struct_net_device_layout [layout_simps]:
  "sizeof struct_net_device = 2752 \<and> alignof struct_net_device = 8 \<and> wf_cty struct_net_device"
  by (simp add: struct_net_device_def base_types layout_eval c__u8_def netdev_features_t_def u64_def c__u64_def u16_def
      c__u16_def s16_def c__s16_def struct_netdev_tc_txq_layout enum_netdev_stat_type_layout
      struct_list_head_layout possible_net_t_layout xdp_features_t_def u32_def c__u32_def
      struct_net_device_stats_layout atomic_t_layout u8_def spinlock_t_def struct_spinlock_layout
      struct_netdev_hw_addr_list_layout bool_def struct_hlist_head_layout struct_hlist_node_layout
      struct_timer_list_layout struct_ref_tracker_dir_layout enum_netdev_ml_priv_type_layout
      struct_device_layout struct_bpf_xdp_entity_layout netdevice_tracker_layout struct_mutex_layout
      enum_netdev_stat_type_def
      del: One_nat_def)

lemma struct_net_generic_layout [layout_simps]:
  "sizeof struct_net_generic = 24 \<and> alignof struct_net_generic = 8 \<and> wf_cty struct_net_generic"
  by (simp add: struct_net_generic_def base_types layout_eval struct_callback_head_layout
      del: One_nat_def)

lemma struct_nf_ct_event_notifier_layout [layout_simps]:
  "sizeof struct_nf_ct_event_notifier = 16 \<and> alignof struct_nf_ct_event_notifier = 8 \<and> wf_cty struct_nf_ct_event_notifier"
  by (simp add: struct_nf_ct_event_notifier_def base_types layout_eval
      del: One_nat_def)

lemma struct_nf_flow_table_stat_layout [layout_simps]:
  "sizeof struct_nf_flow_table_stat = 12 \<and> alignof struct_nf_flow_table_stat = 4 \<and> wf_cty struct_nf_flow_table_stat"
  by (simp add: struct_nf_flow_table_stat_def base_types layout_eval
      del: One_nat_def)

lemma struct_nf_hook_entry_layout [layout_simps]:
  "sizeof struct_nf_hook_entry = 16 \<and> alignof struct_nf_hook_entry = 8 \<and> wf_cty struct_nf_hook_entry"
  by (simp add: struct_nf_hook_entry_def base_types layout_eval
      del: One_nat_def)

lemma struct_nf_hook_entries_layout [layout_simps]:
  "sizeof struct_nf_hook_entries = 8 \<and> alignof struct_nf_hook_entries = 8 \<and> wf_cty struct_nf_hook_entries"
  by (simp add: struct_nf_hook_entries_def base_types layout_eval u16_def c__u16_def struct_nf_hook_entry_layout
      del: One_nat_def)

lemma enum_nf_log_type_layout [layout_simps]:
  "sizeof enum_nf_log_type = 4 \<and> alignof enum_nf_log_type = 4 \<and> wf_cty enum_nf_log_type"
  by (simp add: enum_nf_log_type_def base_types layout_eval
      del: One_nat_def)

lemma struct_nf_logger_layout [layout_simps]:
  "sizeof struct_nf_logger = 32 \<and> alignof struct_nf_logger = 8 \<and> wf_cty struct_nf_logger"
  by (simp add: struct_nf_logger_def base_types layout_eval enum_nf_log_type_layout
      del: One_nat_def)

lemma struct_nfs4_state_layout [layout_simps]:
  "sizeof struct_nfs4_state = 184 \<and> alignof struct_nfs4_state = 8 \<and> wf_cty struct_nfs4_state"
  by (simp add: struct_nfs4_state_def base_types layout_eval struct_list_head_layout spinlock_t_def
      struct_spinlock_layout seqlock_t_def struct_seqlock_layout nfs4_stateid_def
      struct_nfs4_stateid_struct_layout fmode_t_def refcount_t_def struct_refcount_struct_layout
      wait_queue_head_t_def struct_wait_queue_head_layout struct_callback_head_layout
      del: One_nat_def)

lemma struct_notification_layout [layout_simps]:
  "sizeof struct_notification = 32 \<and> alignof struct_notification = 8 \<and> wf_cty struct_notification"
  by (simp add: struct_notification_def base_types layout_eval atomic_t_layout u32_def c__u32_def u64_def c__u64_def
      struct_list_head_layout
      del: One_nat_def)

lemma struct_npem_ops_layout [layout_simps]:
  "sizeof struct_npem_ops = 32 \<and> alignof struct_npem_ops = 8 \<and> wf_cty struct_npem_ops"
  by (simp add: struct_npem_ops_def base_types layout_eval
      del: One_nat_def)

lemma struct_page_pool_recycle_stats_layout [layout_simps]:
  "sizeof struct_page_pool_recycle_stats = 40 \<and> alignof struct_page_pool_recycle_stats = 8 \<and> wf_cty struct_page_pool_recycle_stats"
  by (simp add: struct_page_pool_recycle_stats_def base_types layout_eval u64_def c__u64_def
      del: One_nat_def)

lemma struct_pci_tdi_layout [layout_simps]:
  "sizeof struct_pci_tdi = 24 \<and> alignof struct_pci_tdi = 8 \<and> wf_cty struct_pci_tdi"
  by (simp add: struct_pci_tdi_def base_types layout_eval u32_def c__u32_def
      del: One_nat_def)

lemma struct_perf_cgroup_info_layout [layout_simps]:
  "sizeof struct_perf_cgroup_info = 56 \<and> alignof struct_perf_cgroup_info = 8 \<and> wf_cty struct_perf_cgroup_info"
  by (simp add: struct_perf_cgroup_info_def base_types layout_eval struct_perf_time_ctx_layout
      del: One_nat_def)

lemma struct_perf_cpu_pmu_context_layout [layout_simps]:
  "sizeof struct_perf_cpu_pmu_context = 240 \<and> alignof struct_perf_cpu_pmu_context = 8 \<and> wf_cty struct_perf_cpu_pmu_context"
  by (simp add: struct_perf_cpu_pmu_context_def base_types layout_eval struct_perf_event_pmu_context_layout
      struct_list_head_layout raw_spinlock_t_def struct_raw_spinlock_layout struct_hrtimer_layout
      ktime_t_def s64_def c__s64_def
      del: One_nat_def)

lemma struct_perf_event_mmap_page_layout [layout_simps]:
  "sizeof struct_perf_event_mmap_page = 1088 \<and> alignof struct_perf_event_mmap_page = 8 \<and> wf_cty struct_perf_event_mmap_page"
  by (simp add: struct_perf_event_mmap_page_def base_types layout_eval c__u32_def c__s64_def c__u64_def c__u16_def
      c__u8_def
      del: One_nat_def)

lemma struct_pinctrl_layout [layout_simps]:
  "sizeof struct_pinctrl = 72 \<and> alignof struct_pinctrl = 8 \<and> wf_cty struct_pinctrl"
  by (simp add: struct_pinctrl_def base_types layout_eval struct_list_head_layout struct_kref_layout
      del: One_nat_def)

lemma struct_pinctrl_state_layout [layout_simps]:
  "sizeof struct_pinctrl_state = 40 \<and> alignof struct_pinctrl_state = 8 \<and> wf_cty struct_pinctrl_state"
  by (simp add: struct_pinctrl_state_def base_types layout_eval struct_list_head_layout
      del: One_nat_def)

lemma struct_pipe_buffer_layout [layout_simps]:
  "sizeof struct_pipe_buffer = 40 \<and> alignof struct_pipe_buffer = 8 \<and> wf_cty struct_pipe_buffer"
  by (simp add: struct_pipe_buffer_def base_types layout_eval
      del: One_nat_def)

lemma struct_platform_device_id_layout [layout_simps]:
  "sizeof struct_platform_device_id = 32 \<and> alignof struct_platform_device_id = 8 \<and> wf_cty struct_platform_device_id"
  by (simp add: struct_platform_device_id_def base_types layout_eval kernel_ulong_t_def
      del: One_nat_def)

lemma struct_pm_domain_data_layout [layout_simps]:
  "sizeof struct_pm_domain_data = 24 \<and> alignof struct_pm_domain_data = 8 \<and> wf_cty struct_pm_domain_data"
  by (simp add: struct_pm_domain_data_def base_types layout_eval struct_list_head_layout
      del: One_nat_def)

lemma struct_pool_workqueue_layout [layout_simps]:
  "sizeof struct_pool_workqueue = 512 \<and> alignof struct_pool_workqueue = 8 \<and> wf_cty struct_pool_workqueue"
  by (simp add: struct_pool_workqueue_def base_types layout_eval bool_def struct_list_head_layout
      struct_work_struct_layout u64_def c__u64_def struct_kthread_work_layout struct_callback_head_layout
      del: One_nat_def)

lemma struct_pr_ops_layout [layout_simps]:
  "sizeof struct_pr_ops = 56 \<and> alignof struct_pr_ops = 8 \<and> wf_cty struct_pr_ops"
  by (simp add: struct_pr_ops_def base_types layout_eval
      del: One_nat_def)

lemma struct_proc_ns_operations_layout [layout_simps]:
  "sizeof struct_proc_ns_operations = 56 \<and> alignof struct_proc_ns_operations = 8 \<and> wf_cty struct_proc_ns_operations"
  by (simp add: struct_proc_ns_operations_def base_types layout_eval
      del: One_nat_def)

lemma struct_proc_ops_layout [layout_simps]:
  "sizeof struct_proc_ops = 96 \<and> alignof struct_proc_ops = 8 \<and> wf_cty struct_proc_ops"
  by (simp add: struct_proc_ops_def base_types layout_eval
      del: One_nat_def)

lemma struct_prog_entry_layout [layout_simps]:
  "sizeof struct_prog_entry = 16 \<and> alignof struct_prog_entry = 8 \<and> wf_cty struct_prog_entry"
  by (simp add: struct_prog_entry_def base_types layout_eval
      del: One_nat_def)

lemma struct_property_layout [layout_simps]:
  "sizeof struct_property = 32 \<and> alignof struct_property = 8 \<and> wf_cty struct_property"
  by (simp add: struct_property_def base_types layout_eval
      del: One_nat_def)

lemma struct_prot_inuse_layout [layout_simps]:
  "sizeof struct_prot_inuse = 260 \<and> alignof struct_prot_inuse = 4 \<and> wf_cty struct_prot_inuse"
  by (simp add: struct_prot_inuse_def base_types layout_eval
      del: One_nat_def)

lemma struct_psi_group_cpu_layout [layout_simps]:
  "sizeof struct_psi_group_cpu = 128 \<and> alignof struct_psi_group_cpu = 8 \<and> wf_cty struct_psi_group_cpu"
  by (simp add: struct_psi_group_cpu_def base_types layout_eval u32_def c__u32_def u64_def c__u64_def
      del: One_nat_def)

lemma struct_rchan_layout [layout_simps]:
  "sizeof struct_rchan = 360 \<and> alignof struct_rchan = 8 \<and> wf_cty struct_rchan"
  by (simp add: struct_rchan_def base_types layout_eval u32_def c__u32_def size_t_def c__kernel_size_t_def
      c__kernel_ulong_t_def struct_kref_layout struct_list_head_layout
      del: One_nat_def)

lemma struct_regulator_voltage_layout [layout_simps]:
  "sizeof struct_regulator_voltage = 8 \<and> alignof struct_regulator_voltage = 4 \<and> wf_cty struct_regulator_voltage"
  by (simp add: struct_regulator_voltage_def base_types layout_eval
      del: One_nat_def)

lemma struct_regulator_layout [layout_simps]:
  "sizeof struct_regulator = 136 \<and> alignof struct_regulator = 8 \<and> wf_cty struct_regulator"
  by (simp add: struct_regulator_def base_types layout_eval struct_list_head_layout struct_regulator_voltage_layout
      struct_device_attribute_layout
      del: One_nat_def)

lemma enum_hprobe_state_layout [layout_simps]:
  "sizeof enum_hprobe_state = 4 \<and> alignof enum_hprobe_state = 4 \<and> wf_cty enum_hprobe_state"
  by (simp add: enum_hprobe_state_def base_types layout_eval
      del: One_nat_def)

lemma struct_hprobe_layout [layout_simps]:
  "sizeof struct_hprobe = 16 \<and> alignof struct_hprobe = 8 \<and> wf_cty struct_hprobe"
  by (simp add: struct_hprobe_def base_types layout_eval enum_hprobe_state_layout
      del: One_nat_def)

lemma struct_return_consumer_layout [layout_simps]:
  "sizeof struct_return_consumer = 16 \<and> alignof struct_return_consumer = 8 \<and> wf_cty struct_return_consumer"
  by (simp add: struct_return_consumer_def base_types layout_eval c__u64_def
      del: One_nat_def)

lemma struct_return_instance_layout [layout_simps]:
  "sizeof struct_return_instance = 128 \<and> alignof struct_return_instance = 8 \<and> wf_cty struct_return_instance"
  by (simp add: struct_return_instance_def base_types layout_eval struct_hprobe_layout bool_def
      struct_callback_head_layout struct_return_consumer_layout
      del: One_nat_def)

lemma struct_dl_bw_layout [layout_simps]:
  "sizeof struct_dl_bw = 24 \<and> alignof struct_dl_bw = 8 \<and> wf_cty struct_dl_bw"
  by (simp add: struct_dl_bw_def base_types layout_eval raw_spinlock_t_def struct_raw_spinlock_layout u64_def c__u64_def
      del: One_nat_def)

lemma struct_cpudl_layout [layout_simps]:
  "sizeof struct_cpudl = 24 \<and> alignof struct_cpudl = 8 \<and> wf_cty struct_cpudl"
  by (simp add: struct_cpudl_def base_types layout_eval raw_spinlock_t_def struct_raw_spinlock_layout cpumask_var_t_def
      del: One_nat_def)

lemma struct_cpupri_vec_layout [layout_simps]:
  "sizeof struct_cpupri_vec = 16 \<and> alignof struct_cpupri_vec = 8 \<and> wf_cty struct_cpupri_vec"
  by (simp add: struct_cpupri_vec_def base_types layout_eval atomic_t_layout cpumask_var_t_def
      del: One_nat_def)

lemma struct_cpupri_layout [layout_simps]:
  "sizeof struct_cpupri = 1624 \<and> alignof struct_cpupri = 8 \<and> wf_cty struct_cpupri"
  by (simp add: struct_cpupri_def base_types layout_eval struct_cpupri_vec_layout
      del: One_nat_def)

lemma struct_root_domain_layout [layout_simps]:
  "sizeof struct_root_domain = 1816 \<and> alignof struct_root_domain = 8 \<and> wf_cty struct_root_domain"
  by (simp add: struct_root_domain_def base_types layout_eval atomic_t_layout struct_callback_head_layout
      cpumask_var_t_def bool_def struct_dl_bw_layout struct_cpudl_layout u64_def c__u64_def
      struct_irq_work_layout raw_spinlock_t_def struct_raw_spinlock_layout struct_cpupri_layout
      del: One_nat_def)

lemma struct_rq_qos_ops_layout [layout_simps]:
  "sizeof struct_rq_qos_ops = 88 \<and> alignof struct_rq_qos_ops = 8 \<and> wf_cty struct_rq_qos_ops"
  by (simp add: struct_rq_qos_ops_def base_types layout_eval
      del: One_nat_def)

lemma struct_dst_entry_layout [layout_simps]:
  "sizeof struct_dst_entry = 136 \<and> alignof struct_dst_entry = 8 \<and> wf_cty struct_dst_entry"
  by (simp add: struct_dst_entry_def base_types layout_eval rcuref_t_layout struct_callback_head_layout c__u32_def
      netdevice_tracker_layout struct_list_head_layout
      del: One_nat_def)

lemma struct_rt6_info_layout [layout_simps]:
  "sizeof struct_rt6_info = 224 \<and> alignof struct_rt6_info = 8 \<and> wf_cty struct_rt6_info"
  by (simp add: struct_rt6_info_def base_types layout_eval struct_dst_entry_layout struct_rt6key_layout
      struct_in6_addr_layout u32_def c__u32_def
      del: One_nat_def)

lemma struct_rt6_statistics_layout [layout_simps]:
  "sizeof struct_rt6_statistics = 24 \<and> alignof struct_rt6_statistics = 4 \<and> wf_cty struct_rt6_statistics"
  by (simp add: struct_rt6_statistics_def base_types layout_eval c__u32_def atomic_t_layout
      del: One_nat_def)

lemma struct_sbitmap_word_layout [layout_simps]:
  "sizeof struct_sbitmap_word = 128 \<and> alignof struct_sbitmap_word = 8 \<and> wf_cty struct_sbitmap_word"
  by (simp add: struct_sbitmap_word_def base_types layout_eval raw_spinlock_t_def struct_raw_spinlock_layout
      del: One_nat_def)

lemma struct_sbq_wait_state_layout [layout_simps]:
  "sizeof struct_sbq_wait_state = 64 \<and> alignof struct_sbq_wait_state = 8 \<and> wf_cty struct_sbq_wait_state"
  by (simp add: struct_sbq_wait_state_def base_types layout_eval wait_queue_head_t_def struct_wait_queue_head_layout
      del: One_nat_def)

lemma struct_sched_domain_layout [layout_simps]:
  "sizeof struct_sched_domain = 344 \<and> alignof struct_sched_domain = 8 \<and> wf_cty struct_sched_domain"
  by (simp add: struct_sched_domain_def base_types layout_eval u64_def c__u64_def struct_callback_head_layout
      del: One_nat_def)

lemma struct_seg6_pernet_data_layout [layout_simps]:
  "sizeof struct_seg6_pernet_data = 176 \<and> alignof struct_seg6_pernet_data = 8 \<and> wf_cty struct_seg6_pernet_data"
  by (simp add: struct_seg6_pernet_data_def base_types layout_eval struct_mutex_layout struct_rhashtable_layout
      del: One_nat_def)

lemma struct_seq_operations_layout [layout_simps]:
  "sizeof struct_seq_operations = 32 \<and> alignof struct_seq_operations = 8 \<and> wf_cty struct_seq_operations"
  by (simp add: struct_seq_operations_def base_types layout_eval
      del: One_nat_def)

lemma struct_sk_buff_layout [layout_simps]:
  "sizeof struct_sk_buff = 232 \<and> alignof struct_sk_buff = 8 \<and> wf_cty struct_sk_buff"
  by (simp add: struct_sk_buff_def base_types layout_eval struct_rb_node_layout struct_list_head_layout
      struct_llist_node_layout ktime_t_def s64_def c__s64_def u64_def c__u64_def c__u16_def c__u8_def
      u16_def c__wsum_def c__u32_def u32_def c__be16_def sk_buff_data_t_def refcount_t_def
      struct_refcount_struct_layout
      del: One_nat_def)

lemma struct_local_trylock_layout [layout_simps]:
  "sizeof struct_local_trylock = 1 \<and> alignof struct_local_trylock = 1 \<and> wf_cty struct_local_trylock"
  by (simp add: struct_local_trylock_def base_types layout_eval u8_def c__u8_def
      del: One_nat_def)

lemma struct_slub_percpu_sheaves_layout [layout_simps]:
  "sizeof struct_slub_percpu_sheaves = 32 \<and> alignof struct_slub_percpu_sheaves = 8 \<and> wf_cty struct_slub_percpu_sheaves"
  by (simp add: struct_slub_percpu_sheaves_def base_types layout_eval local_trylock_t_def struct_local_trylock_layout
      del: One_nat_def)

lemma struct_netlbl_lsm_secattr_layout [layout_simps]:
  "sizeof struct_netlbl_lsm_secattr = 48 \<and> alignof struct_netlbl_lsm_secattr = 8 \<and> wf_cty struct_netlbl_lsm_secattr"
  by (simp add: struct_netlbl_lsm_secattr_def base_types layout_eval u32_def c__u32_def
      del: One_nat_def)

lemma struct_smack_known_layout [layout_simps]:
  "sizeof struct_smack_known = 144 \<and> alignof struct_smack_known = 8 \<and> wf_cty struct_smack_known"
  by (simp add: struct_smack_known_def base_types layout_eval struct_list_head_layout struct_hlist_node_layout u32_def
      c__u32_def struct_netlbl_lsm_secattr_layout struct_mutex_layout
      del: One_nat_def)

lemma struct_smc_hs_ctrl_layout [layout_simps]:
  "sizeof struct_smc_hs_ctrl = 64 \<and> alignof struct_smc_hs_ctrl = 8 \<and> wf_cty struct_smc_hs_ctrl"
  by (simp add: struct_smc_hs_ctrl_def base_types layout_eval struct_list_head_layout
      del: One_nat_def)

lemma struct_sock_common_layout [layout_simps]:
  "sizeof struct_sock_common = 136 \<and> alignof struct_sock_common = 8 \<and> wf_cty struct_sock_common"
  by (simp add: struct_sock_common_def base_types layout_eval c__addrpair_def c__u64_def c__be32_def c__u32_def
      c__u16_def c__portpair_def c__be16_def struct_hlist_node_layout possible_net_t_layout
      struct_in6_addr_layout atomic64_t_layout struct_hlist_nulls_node_layout u32_def refcount_t_def
      struct_refcount_struct_layout
      del: One_nat_def)

lemma socket_lock_t_layout [layout_simps]:
  "sizeof socket_lock_t = 32 \<and> alignof socket_lock_t = 8 \<and> wf_cty socket_lock_t"
  by (simp add: socket_lock_t_def base_types layout_eval spinlock_t_def struct_spinlock_layout wait_queue_head_t_def
      struct_wait_queue_head_layout
      del: One_nat_def)

lemma struct_sock_cgroup_data_layout [layout_simps]:
  "sizeof struct_sock_cgroup_data = 16 \<and> alignof struct_sock_cgroup_data = 8 \<and> wf_cty struct_sock_cgroup_data"
  by (simp add: struct_sock_cgroup_data_def base_types layout_eval u32_def c__u32_def u16_def c__u16_def
      del: One_nat_def)

lemma netns_tracker_layout [layout_simps]:
  "sizeof netns_tracker = 0 \<and> alignof netns_tracker = 1 \<and> wf_cty netns_tracker"
  by (simp add: netns_tracker_def base_types layout_eval
      del: One_nat_def)

lemma struct_sock_layout [layout_simps]:
  "sizeof struct_sock = 808 \<and> alignof struct_sock = 8 \<and> wf_cty struct_sock"
  by (simp add: struct_sock_def base_types layout_eval struct_sock_common_layout c__u8_def atomic_t_layout c__s32_def
      struct_sk_buff_head_layout u32_def c__u32_def u16_def c__u16_def u8_def socket_lock_t_layout
      refcount_t_def struct_refcount_struct_layout struct_rb_root_layout struct_page_frag_layout
      struct_timer_list_layout kuid_t_layout netdev_features_t_def u64_def c__u64_def gfp_t_def bool_def
      rwlock_t_def struct_rwlock_layout spinlock_t_def struct_spinlock_layout ktime_t_def s64_def
      c__s64_def struct_sock_cgroup_data_layout struct_callback_head_layout freeptr_t_layout
      netns_tracker_layout struct_xarray_layout
      del: One_nat_def)

end
