(* ===== verification/KernelReach3b.thy ===== *)
theory KernelReach3b
  imports KernelReach2b KernelVfsRefs2
begin

text \<open>
  Types of \<^verbatim>\<open>bpf/vmlinux.h\<close> that are three dereferences away from the objects the program and its loading
  touch, with every type they hold by value (part 2 of 4).
\<close>

section \<open>Types\<close>

definition struct_io_wq_hash :: cty where
  "struct_io_wq_hash = CStruct ''io_wq_hash'' False
     [Field ''refs'' refcount_t,
      Field ''map'' long_unsigned_int,
      Field ''wait'' struct_wait_queue_head]"

definition struct_iommufd_eventq :: cty where
  "struct_iommufd_eventq = CStruct ''iommufd_eventq'' False
     [Field ''obj'' struct_iommufd_object,
      Field ''ictx'' (CPtr ''struct iommufd_ctx''),
      Field ''filep'' (CPtr ''struct file''),
      Field ''lock'' spinlock_t,
      Field ''deliver'' struct_list_head,
      Field ''wait_queue'' struct_wait_queue_head]"

definition struct_iommufd_fault :: cty where
  "struct_iommufd_fault = CStruct ''iommufd_fault'' False
     [Field ''common'' struct_iommufd_eventq,
      Field ''mutex'' struct_mutex,
      Field ''response'' struct_xarray]"

definition struct_iopf_queue :: cty where
  "struct_iopf_queue = CStruct ''iopf_queue'' False
     [Field ''wq'' (CPtr ''struct workqueue_struct''),
      Field ''devices'' struct_list_head,
      Field ''lock'' struct_mutex]"

definition struct_iommu_pages_list :: cty where
  "struct_iommu_pages_list = CStruct ''iommu_pages_list'' False
     [Field ''pages'' struct_list_head]"

definition struct_iova_fq_entry :: cty where
  "struct_iova_fq_entry = CStruct ''iova_fq_entry'' False
     [Field ''iova_pfn'' long_unsigned_int,
      Field ''pages'' long_unsigned_int,
      Field ''freelist'' struct_iommu_pages_list,
      Field ''counter'' u64]"

definition struct_iova_fq :: cty where
  "struct_iova_fq = CStruct ''iova_fq'' False
     [Field ''lock'' spinlock_t,
      Field ''head'' unsigned_int,
      Field ''tail'' unsigned_int,
      Field ''mod_mask'' unsigned_int,
      Field ''entries'' (CArr 0 struct_iova_fq_entry)]"

definition struct_iova_rcache :: cty where
  "struct_iova_rcache = CStruct ''iova_rcache'' False
     [Field ''lock'' spinlock_t,
      Field ''depot_size'' unsigned_int,
      Field ''depot'' (CPtr ''struct iova_magazine''),
      Field ''cpu_rcaches'' (CPtr ''struct iova_cpu_rcache''),
      Field ''iovad'' (CPtr ''struct iova_domain''),
      Field ''work'' struct_delayed_work]"

definition struct_irq_chip :: cty where
  "struct_irq_chip = CStruct ''irq_chip'' False
     [Field ''name'' (CPtr ''const char''),
      Field ''irq_startup'' (CPtr ''unsigned int (struct irq_data *)''),
      Field ''irq_shutdown'' (CPtr ''void (struct irq_data *)''),
      Field ''irq_enable'' (CPtr ''void (struct irq_data *)''),
      Field ''irq_disable'' (CPtr ''void (struct irq_data *)''),
      Field ''irq_ack'' (CPtr ''void (struct irq_data *)''),
      Field ''irq_mask'' (CPtr ''void (struct irq_data *)''),
      Field ''irq_mask_ack'' (CPtr ''void (struct irq_data *)''),
      Field ''irq_unmask'' (CPtr ''void (struct irq_data *)''),
      Field ''irq_eoi'' (CPtr ''void (struct irq_data *)''),
      Field ''irq_set_affinity'' (CPtr ''int (struct irq_data *, const struct cpumask *, bool)''),
      Field ''irq_pre_redirect'' (CPtr ''void (struct irq_data *)''),
      Field ''irq_retrigger'' (CPtr ''int (struct irq_data *)''),
      Field ''irq_set_type'' (CPtr ''int (struct irq_data *, unsigned int)''),
      Field ''irq_set_wake'' (CPtr ''int (struct irq_data *, unsigned int)''),
      Field ''irq_bus_lock'' (CPtr ''void (struct irq_data *)''),
      Field ''irq_bus_sync_unlock'' (CPtr ''void (struct irq_data *)''),
      Field ''irq_suspend'' (CPtr ''void (struct irq_data *)''),
      Field ''irq_resume'' (CPtr ''void (struct irq_data *)''),
      Field ''irq_pm_shutdown'' (CPtr ''void (struct irq_data *)''),
      Field ''irq_calc_mask'' (CPtr ''void (struct irq_data *)''),
      Field ''irq_print_chip'' (CPtr ''void (struct irq_data *, struct seq_file *)''),
      Field ''irq_request_resources'' (CPtr ''int (struct irq_data *)''),
      Field ''irq_release_resources'' (CPtr ''void (struct irq_data *)''),
      Field ''irq_compose_msi_msg'' (CPtr ''void (struct irq_data *, struct msi_msg *)''),
      Field ''irq_write_msi_msg'' (CPtr ''void (struct irq_data *, struct msi_msg *)''),
      Field ''irq_get_irqchip_state'' (CPtr ''int (struct irq_data *, enum irqchip_irq_state, bool *)''),
      Field ''irq_set_irqchip_state'' (CPtr ''int (struct irq_data *, enum irqchip_irq_state, bool)''),
      Field ''irq_set_vcpu_affinity'' (CPtr ''int (struct irq_data *, void *)''),
      Field ''ipi_send_single'' (CPtr ''void (struct irq_data *, unsigned int)''),
      Field ''ipi_send_mask'' (CPtr ''void (struct irq_data *, const struct cpumask *)''),
      Field ''irq_nmi_setup'' (CPtr ''int (struct irq_data *)''),
      Field ''irq_nmi_teardown'' (CPtr ''void (struct irq_data *)''),
      Field ''irq_force_complete_move'' (CPtr ''void (struct irq_data *)''),
      Field ''flags'' long_unsigned_int]"

definition struct_irq_chip_regs :: cty where
  "struct_irq_chip_regs = CStruct ''irq_chip_regs'' False
     [Field ''enable'' long_unsigned_int,
      Field ''disable'' long_unsigned_int,
      Field ''mask'' long_unsigned_int,
      Field ''ack'' long_unsigned_int,
      Field ''eoi'' long_unsigned_int,
      Field ''type'' long_unsigned_int]"

definition irq_flow_handler_t :: cty where [layout_simps]:
  "irq_flow_handler_t = CPtr ''void (struct irq_desc *)''"

definition struct_irq_chip_type :: cty where
  "struct_irq_chip_type = CStruct ''irq_chip_type'' False
     [Field ''chip'' struct_irq_chip,
      Field ''regs'' struct_irq_chip_regs,
      Field ''handler'' irq_flow_handler_t,
      Field ''type'' u32,
      Field ''mask_cache_priv'' u32,
      Field ''mask_cache'' (CPtr ''u32'')]"

definition struct_irq_chip_generic :: cty where
  "struct_irq_chip_generic = CStruct ''irq_chip_generic'' False
     [Field ''lock'' raw_spinlock_t,
      Field ''reg_base'' (CPtr ''void''),
      Field ''reg_readl'' (CPtr ''u32 (void *)''),
      Field ''reg_writel'' (CPtr ''void (u32, void *)''),
      Field ''suspend'' (CPtr ''void (struct irq_chip_generic *)''),
      Field ''resume'' (CPtr ''void (struct irq_chip_generic *)''),
      Field ''irq_base'' unsigned_int,
      Field ''irq_cnt'' unsigned_int,
      Field ''mask_cache'' u32,
      Field ''wake_enabled'' u32,
      Field ''wake_active'' u32,
      Field ''num_ct'' unsigned_int,
      Field ''private'' (CPtr ''void''),
      Field ''installed'' long_unsigned_int,
      Field ''unused'' long_unsigned_int,
      Field ''domain'' (CPtr ''struct irq_domain''),
      Field ''list'' struct_list_head,
      Field ''chip_types'' (CArr 0 struct_irq_chip_type)]"

definition struct_irq_common_data :: cty where
  "struct_irq_common_data = CStruct ''irq_common_data'' False
     [Field ''state_use_accessors'' unsigned_int,
      Field ''node'' unsigned_int,
      Field ''handler_data'' (CPtr ''void''),
      Field ''msi_desc'' (CPtr ''struct msi_desc''),
      Field ''affinity'' cpumask_var_t,
      Field ''effective_affinity'' cpumask_var_t]"

definition struct_iw_handler_def :: cty where
  "struct_iw_handler_def = CStruct ''iw_handler_def'' False
     [Field ''standard'' (CPtr ''const iw_handler''),
      Field ''num_standard'' c__u16,
      Field ''num_private'' c__u16,
      Field ''num_private_args'' c__u16,
      Field ''private'' (CPtr ''const iw_handler''),
      Field ''private_args'' (CPtr ''const struct iw_priv_args''),
      Field ''get_wireless_stats'' (CPtr ''struct iw_statistics * (struct net_device *)'')]"

definition struct_kioctx_cpu :: cty where
  "struct_kioctx_cpu = CStruct ''kioctx_cpu'' False
     [Field ''reqs_available'' unsigned_int]"

definition struct_kvm_memslots :: cty where
  "struct_kvm_memslots = CStruct ''kvm_memslots'' False
     [Field ''generation'' u64,
      Field ''last_used_slot'' atomic_long_t,
      Field ''hva_tree'' struct_rb_root_cached,
      Field ''gfn_tree'' struct_rb_root,
      Field ''id_hash'' (CArr 128 struct_hlist_head),
      Field ''node_idx'' c_int]"

definition struct_kvm_vm_stat_generic :: cty where
  "struct_kvm_vm_stat_generic = CStruct ''kvm_vm_stat_generic'' False
     [Field ''remote_tlb_flush'' u64,
      Field ''remote_tlb_flush_requests'' u64]"

definition struct_kvm_vm_stat :: cty where
  "struct_kvm_vm_stat = CStruct ''kvm_vm_stat'' False
     [Field ''generic'' struct_kvm_vm_stat_generic,
      Field ''mmu_shadow_zapped'' u64,
      Field ''mmu_pte_write'' u64,
      Field ''mmu_pde_zapped'' u64,
      Field ''mmu_flooded'' u64,
      Field ''mmu_recycled'' u64,
      Field ''mmu_cache_miss'' u64,
      Field ''mmu_unsync'' u64,
      Field [] (CUnion [] False
        [Field [] (CStruct [] False
           [Field ''pages_4k'' atomic64_t,
            Field ''pages_2m'' atomic64_t,
            Field ''pages_1g'' atomic64_t]),
         Field ''pages'' (CArr 3 atomic64_t)]),
      Field ''nx_lpage_splits'' u64,
      Field ''max_mmu_page_hash_collisions'' u64,
      Field ''max_mmu_rmap_size'' u64]"

definition struct_kvm_possible_nx_huge_pages :: cty where
  "struct_kvm_possible_nx_huge_pages = CStruct ''kvm_possible_nx_huge_pages'' False
     [Field ''pages'' struct_list_head,
      Field ''nr_pages'' u64]"

definition struct_kvm_page_track_notifier_head :: cty where
  "struct_kvm_page_track_notifier_head = CStruct ''kvm_page_track_notifier_head'' False
     [Field ''track_srcu'' struct_srcu_struct,
      Field ''track_notifier_list'' struct_hlist_head]"

definition gpa_t :: cty where [layout_simps]:
  "gpa_t = u64"

definition enum_hv_tsc_page_status :: cty where
  "enum_hv_tsc_page_status = CEnum 4
     [(''HV_TSC_PAGE_UNSET'', 0), (''HV_TSC_PAGE_GUEST_CHANGED'', 1),
      (''HV_TSC_PAGE_HOST_CHANGED'', 2), (''HV_TSC_PAGE_SET'', 3), (''HV_TSC_PAGE_BROKEN'', 4)]"

definition struct_ms_hyperv_tsc_page :: cty where
  "struct_ms_hyperv_tsc_page = CStruct ''ms_hyperv_tsc_page'' False
     [Field ''tsc_sequence'' u32,
      Field ''reserved1'' u32,
      Field ''tsc_scale'' u64,
      Field ''tsc_offset'' s64]"

definition struct_kvm_hv_syndbg :: cty where
  "struct_kvm_hv_syndbg = CStruct ''kvm_hv_syndbg'' False
     [Field ''control'' (CStruct [] False
        [Field ''control'' u64,
         Field ''status'' u64,
         Field ''send_page'' u64,
         Field ''recv_page'' u64,
         Field ''pending_page'' u64]),
      Field ''options'' u64]"

definition struct_kvm_hv :: cty where
  "struct_kvm_hv = CStruct ''kvm_hv'' False
     [Field ''hv_lock'' struct_mutex,
      Field ''hv_guest_os_id'' u64,
      Field ''hv_hypercall'' u64,
      Field ''hv_tsc_page'' u64,
      Field ''hv_tsc_page_status'' enum_hv_tsc_page_status,
      Field ''hv_crash_param'' (CArr 5 u64),
      Field ''hv_crash_ctl'' u64,
      Field ''tsc_ref'' struct_ms_hyperv_tsc_page,
      Field ''conn_to_evt'' struct_idr,
      Field ''hv_reenlightenment_control'' u64,
      Field ''hv_tsc_emulation_control'' u64,
      Field ''hv_tsc_emulation_status'' u64,
      Field ''hv_invtsc_control'' u64,
      Field ''num_mismatched_vp_indexes'' atomic_t,
      Field ''synic_auto_eoi_used'' unsigned_int,
      Field ''hv_syndbg'' struct_kvm_hv_syndbg,
      Field ''xsaves_xsavec_checked'' bool]"

definition hfn_t :: cty where [layout_simps]:
  "hfn_t = u64"

definition kvm_pfn_t :: cty where [layout_simps]:
  "kvm_pfn_t = hfn_t"

definition struct_gfn_to_pfn_cache :: cty where
  "struct_gfn_to_pfn_cache = CStruct ''gfn_to_pfn_cache'' False
     [Field ''generation'' u64,
      Field ''gpa'' gpa_t,
      Field ''uhva'' long_unsigned_int,
      Field ''memslot'' (CPtr ''struct kvm_memory_slot''),
      Field ''kvm'' (CPtr ''struct kvm''),
      Field ''list'' struct_list_head,
      Field ''lock'' rwlock_t,
      Field ''refresh_lock'' struct_mutex,
      Field ''khva'' (CPtr ''void''),
      Field ''pfn'' kvm_pfn_t,
      Field ''active'' bool,
      Field ''valid'' bool]"

definition struct_kvm_xen_hvm_config :: cty where
  "struct_kvm_xen_hvm_config = CStruct ''kvm_xen_hvm_config'' False
     [Field ''flags'' c__u32,
      Field ''msr'' c__u32,
      Field ''blob_addr_32'' c__u64,
      Field ''blob_addr_64'' c__u64,
      Field ''blob_size_32'' c__u8,
      Field ''blob_size_64'' c__u8,
      Field ''pad2'' (CArr 30 c__u8)]"

definition struct_kvm_xen :: cty where
  "struct_kvm_xen = CStruct ''kvm_xen'' False
     [Field ''xen_lock'' struct_mutex,
      Field ''xen_version'' u32,
      Field ''long_mode'' bool,
      Field ''runstate_update_flag'' bool,
      Field ''upcall_vector'' u8,
      Field ''shinfo_cache'' struct_gfn_to_pfn_cache,
      Field ''evtchn_ports'' struct_idr,
      Field ''poll_mask'' (CArr 64 long_unsigned_int),
      Field ''hvm_config'' struct_kvm_xen_hvm_config]"

definition enum_kvm_irqchip_mode :: cty where
  "enum_kvm_irqchip_mode = CEnum 4
     [(''KVM_IRQCHIP_NONE'', 0), (''KVM_IRQCHIP_KERNEL'', 1), (''KVM_IRQCHIP_SPLIT'', 2)]"

definition enum_kvm_suppress_eoi_broadcast_mode :: cty where
  "enum_kvm_suppress_eoi_broadcast_mode = CEnum 4
     [(''KVM_SUPPRESS_EOI_BROADCAST_QUIRKED'', 0), (''KVM_SUPPRESS_EOI_BROADCAST_ENABLED'', 1),
      (''KVM_SUPPRESS_EOI_BROADCAST_DISABLED'', 2)]"

definition struct_once :: cty where
  "struct_once = CStruct ''once'' False
     [Field ''state'' atomic_t,
      Field ''lock'' struct_mutex]"

definition hpa_t :: cty where [layout_simps]:
  "hpa_t = u64"

definition struct_kvm_mmu_memory_cache :: cty where
  "struct_kvm_mmu_memory_cache = CStruct ''kvm_mmu_memory_cache'' False
     [Field ''gfp_zero'' gfp_t,
      Field ''gfp_custom'' gfp_t,
      Field ''init_value'' u64,
      Field ''kmem_cache'' (CPtr ''struct kmem_cache''),
      Field ''capacity'' c_int,
      Field ''nobjs'' c_int,
      Field ''objects'' (CPtr ''void *'')]"

definition gfn_t :: cty where [layout_simps]:
  "gfn_t = u64"

definition struct_kvm_arch :: cty where
  "struct_kvm_arch = CStruct ''kvm_arch'' False
     [Field ''n_used_mmu_pages'' long_unsigned_int,
      Field ''n_requested_mmu_pages'' long_unsigned_int,
      Field ''n_max_mmu_pages'' long_unsigned_int,
      Field ''indirect_shadow_pages'' unsigned_int,
      Field ''mmu_valid_gen'' u8,
      Field ''vm_type'' u8,
      Field ''has_private_mem'' bool,
      Field ''has_protected_state'' bool,
      Field ''has_protected_eoi'' bool,
      Field ''pre_fault_allowed'' bool,
      Field ''mmu_page_hash'' (CPtr ''struct hlist_head''),
      Field ''active_mmu_pages'' struct_list_head,
      Field ''possible_nx_huge_pages'' (CArr 2 struct_kvm_possible_nx_huge_pages),
      Field ''track_notifier_head'' struct_kvm_page_track_notifier_head,
      Field ''mmu_unsync_pages_lock'' spinlock_t,
      Field ''shadow_mmio_value'' u64,
      Field ''noncoherent_dma_count'' atomic_t,
      Field ''nr_possible_bypass_irqs'' long_unsigned_int,
      Field ''vpic'' (CPtr ''struct kvm_pic''),
      Field ''vioapic'' (CPtr ''struct kvm_ioapic''),
      Field ''vpit'' (CPtr ''struct kvm_pit''),
      Field ''vapics_in_nmi_mode'' atomic_t,
      Field ''apic_map_lock'' struct_mutex,
      Field ''apic_map'' (CPtr ''struct kvm_apic_map''),
      Field ''apic_map_dirty'' atomic_t,
      Field ''apic_access_memslot_enabled'' bool,
      Field ''apic_access_memslot_inhibited'' bool,
      Field ''apicv_update_lock'' struct_rw_semaphore,
      Field ''apicv_inhibit_reasons'' long_unsigned_int,
      Field ''wall_clock'' gpa_t,
      Field ''disabled_exits'' u64,
      Field ''kvmclock_offset'' s64,
      Field ''tsc_write_lock'' raw_spinlock_t,
      Field ''last_tsc_nsec'' u64,
      Field ''last_tsc_write'' u64,
      Field ''last_tsc_khz'' u32,
      Field ''last_tsc_offset'' u64,
      Field ''cur_tsc_nsec'' u64,
      Field ''cur_tsc_write'' u64,
      Field ''cur_tsc_offset'' u64,
      Field ''cur_tsc_generation'' u64,
      Field ''nr_vcpus_matched_tsc'' c_int,
      Field ''default_tsc_khz'' u32,
      Field ''user_set_tsc'' bool,
      Field ''apic_bus_cycle_ns'' u64,
      Field ''pvclock_sc'' seqcount_raw_spinlock_t,
      Field ''use_master_clock'' bool,
      Field ''master_kernel_ns'' u64,
      Field ''master_cycle_now'' u64,
      Field ''hyperv'' struct_kvm_hv,
      Field ''xen'' struct_kvm_xen,
      Field ''backwards_tsc_observed'' bool,
      Field ''boot_vcpu_runs_old_kvmclock'' bool,
      Field ''bsp_vcpu_id'' u32,
      Field ''disabled_quirks'' u64,
      Field ''irqchip_mode'' enum_kvm_irqchip_mode,
      Field ''nr_reserved_ioapic_pins'' u8,
      Field ''disabled_lapic_found'' bool,
      Field ''x2apic_format'' bool,
      Field ''x2apic_broadcast_quirk_disabled'' bool,
      Field ''suppress_eoi_broadcast_mode'' enum_kvm_suppress_eoi_broadcast_mode,
      Field ''has_mapped_host_mmio'' bool,
      Field ''guest_can_read_msr_platform_info'' bool,
      Field ''exception_payload_enabled'' bool,
      Field ''triple_fault_event'' bool,
      Field ''bus_lock_detection_enabled'' bool,
      Field ''enable_pmu'' bool,
      Field ''created_mediated_pmu'' bool,
      Field ''notify_window'' u32,
      Field ''notify_vmexit_flags'' u32,
      Field ''exit_on_emulation_error'' bool,
      Field ''user_space_msr_mask'' u32,
      Field ''msr_filter'' (CPtr ''struct kvm_x86_msr_filter''),
      Field ''hypercall_exit_enabled'' u32,
      Field ''sgx_provisioning_allowed'' bool,
      Field ''pmu_event_filter'' (CPtr ''struct kvm_x86_pmu_event_filter''),
      Field ''nx_huge_page_recovery_thread'' (CPtr ''struct vhost_task''),
      Field ''nx_huge_page_last'' u64,
      Field ''nx_once'' struct_once,
      Field ''tdp_mmu_roots'' struct_list_head,
      Field ''tdp_mmu_pages_lock'' spinlock_t,
      Field ''shadow_root_allocated'' bool,
      Field ''external_write_tracking_enabled'' bool,
      Field ''hv_root_tdp'' hpa_t,
      Field ''hv_root_tdp_lock'' spinlock_t,
      Field ''hv_pa_pg'' (CPtr ''struct hv_partition_assist_pg''),
      Field ''max_vcpu_ids'' u32,
      Field ''disable_nx_huge_pages'' bool,
      Field ''split_shadow_page_cache'' struct_kvm_mmu_memory_cache,
      Field ''split_page_header_cache'' struct_kvm_mmu_memory_cache,
      Field ''split_desc_cache'' struct_kvm_mmu_memory_cache,
      Field ''gfn_direct_bits'' gfn_t,
      Field ''cpu_dirty_log_size'' c_int]"

definition struct_mmu_notifier :: cty where
  "struct_mmu_notifier = CStruct ''mmu_notifier'' False
     [Field ''hlist'' struct_hlist_node,
      Field ''ops'' (CPtr ''const struct mmu_notifier_ops''),
      Field ''mm'' (CPtr ''struct mm_struct''),
      Field ''rcu'' struct_callback_head,
      Field ''users'' unsigned_int]"

definition struct_kvm :: cty where
  "struct_kvm = CStruct ''kvm'' False
     [Field ''mmu_lock'' rwlock_t,
      Field ''slots_lock'' struct_mutex,
      Field ''slots_arch_lock'' struct_mutex,
      Field ''mm'' (CPtr ''struct mm_struct''),
      Field ''nr_memslot_pages'' long_unsigned_int,
      Field ''__memslots'' (CArr 4 struct_kvm_memslots),
      Field ''memslots'' (CArr 2 (CPtr ''struct kvm_memslots'')),
      Field ''vcpu_array'' struct_xarray,
      Field ''nr_memslots_dirty_logging'' atomic_t,
      Field ''mn_invalidate_lock'' spinlock_t,
      Field ''mn_active_invalidate_count'' long_unsigned_int,
      Field ''mn_memslots_update_rcuwait'' struct_rcuwait,
      Field ''gpc_lock'' spinlock_t,
      Field ''gpc_list'' struct_list_head,
      Field ''online_vcpus'' atomic_t,
      Field ''max_vcpus'' c_int,
      Field ''created_vcpus'' c_int,
      Field ''last_boosted_vcpu'' c_int,
      Field ''vm_list'' struct_list_head,
      Field ''lock'' struct_mutex,
      Field ''buses'' (CArr 5 (CPtr ''struct kvm_io_bus'')),
      Field ''irqfds'' (CStruct [] False
        [Field ''lock'' spinlock_t,
         Field ''items'' struct_list_head,
         Field ''resampler_list'' struct_list_head,
         Field ''resampler_lock'' struct_mutex]),
      Field ''ioeventfds'' struct_list_head,
      Field ''stat'' struct_kvm_vm_stat,
      Field ''arch'' struct_kvm_arch,
      Field ''users_count'' refcount_t,
      Field ''coalesced_mmio_ring'' (CPtr ''struct kvm_coalesced_mmio_ring''),
      Field ''ring_lock'' spinlock_t,
      Field ''coalesced_zones'' struct_list_head,
      Field ''irq_lock'' struct_mutex,
      Field ''irq_routing'' (CPtr ''struct kvm_irq_routing_table''),
      Field ''irq_ack_notifier_list'' struct_hlist_head,
      Field ''mmu_notifier'' struct_mmu_notifier,
      Field ''mmu_invalidate_seq'' long_unsigned_int,
      Field ''mmu_invalidate_in_progress'' c_long,
      Field ''mmu_invalidate_range_start'' gfn_t,
      Field ''mmu_invalidate_range_end'' gfn_t,
      Field ''devices'' struct_list_head,
      Field ''manual_dirty_log_protect'' u64,
      Field ''debugfs_dentry'' (CPtr ''struct dentry''),
      Field ''debugfs_stat_data'' (CPtr ''struct kvm_stat_data *''),
      Field ''srcu'' struct_srcu_struct,
      Field ''irq_srcu'' struct_srcu_struct,
      Field ''userspace_pid'' pid_t,
      Field ''override_halt_poll_ns'' bool,
      Field ''max_halt_poll_ns'' unsigned_int,
      Field ''dirty_ring_size'' u32,
      Field ''dirty_ring_with_bitmap'' bool,
      Field ''vm_bugged'' bool,
      Field ''vm_dead'' bool,
      Field ''pm_notifier'' struct_notifier_block,
      Field ''mem_attr_array'' struct_xarray,
      Field ''stats_id'' (CArr 48 c_char)]"

definition struct_l3mdev_ops :: cty where
  "struct_l3mdev_ops = CStruct ''l3mdev_ops'' False
     [Field ''l3mdev_fib_table'' (CPtr ''u32 (const struct net_device *)''),
      Field ''l3mdev_l3_rcv'' (CPtr ''struct sk_buff * (struct net_device *, struct sk_buff *, u16)''),
      Field ''l3mdev_l3_out'' (CPtr ''struct sk_buff * (struct net_device *, struct sock *, struct sk_buff *, u16)''),
      Field ''l3mdev_link_scope_lookup'' (CPtr ''struct dst_entry * (const struct net_device *, struct flowi6 *)'')]"

definition struct_lcd_ops :: cty where
  "struct_lcd_ops = CStruct ''lcd_ops'' False
     [Field ''get_power'' (CPtr ''int (struct lcd_device *)''),
      Field ''set_power'' (CPtr ''int (struct lcd_device *, int)''),
      Field ''get_contrast'' (CPtr ''int (struct lcd_device *)''),
      Field ''set_contrast'' (CPtr ''int (struct lcd_device *, int)''),
      Field ''set_mode'' (CPtr ''int (struct lcd_device *, u32, u32)''),
      Field ''controls_device'' (CPtr ''bool (struct lcd_device *, struct device *)'')]"

definition struct_lruvec_stats :: cty where
  "struct_lruvec_stats = CStruct ''lruvec_stats'' False
     [Field ''state'' (CArr 33 c_long),
      Field ''state_local'' (CArr 33 c_long),
      Field ''state_pending'' (CArr 33 c_long)]"

definition struct_lruvec_stats_percpu :: cty where
  "struct_lruvec_stats_percpu = CStruct ''lruvec_stats_percpu'' False
     [Field ''state'' (CArr 33 c_long),
      Field ''state_prev'' (CArr 33 c_long)]"

definition struct_lwtunnel_state :: cty where
  "struct_lwtunnel_state = CStruct ''lwtunnel_state'' False
     [Field ''type'' c__u16,
      Field ''flags'' c__u16,
      Field ''headroom'' c__u16,
      Field ''refcnt'' atomic_t,
      Field ''orig_output'' (CPtr ''int (struct net *, struct sock *, struct sk_buff *)''),
      Field ''orig_input'' (CPtr ''int (struct sk_buff *)''),
      Field ''rcu'' struct_callback_head,
      Field ''data'' (CArr 0 c__u8)]"

definition struct_macsec_ops :: cty where
  "struct_macsec_ops = CStruct ''macsec_ops'' False
     [Field ''mdo_dev_open'' (CPtr ''int (struct macsec_context *)''),
      Field ''mdo_dev_stop'' (CPtr ''int (struct macsec_context *)''),
      Field ''mdo_add_secy'' (CPtr ''int (struct macsec_context *)''),
      Field ''mdo_upd_secy'' (CPtr ''int (struct macsec_context *)''),
      Field ''mdo_del_secy'' (CPtr ''int (struct macsec_context *)''),
      Field ''mdo_add_rxsc'' (CPtr ''int (struct macsec_context *)''),
      Field ''mdo_upd_rxsc'' (CPtr ''int (struct macsec_context *)''),
      Field ''mdo_del_rxsc'' (CPtr ''int (struct macsec_context *)''),
      Field ''mdo_add_rxsa'' (CPtr ''int (struct macsec_context *)''),
      Field ''mdo_upd_rxsa'' (CPtr ''int (struct macsec_context *)''),
      Field ''mdo_del_rxsa'' (CPtr ''int (struct macsec_context *)''),
      Field ''mdo_add_txsa'' (CPtr ''int (struct macsec_context *)''),
      Field ''mdo_upd_txsa'' (CPtr ''int (struct macsec_context *)''),
      Field ''mdo_del_txsa'' (CPtr ''int (struct macsec_context *)''),
      Field ''mdo_get_dev_stats'' (CPtr ''int (struct macsec_context *)''),
      Field ''mdo_get_tx_sc_stats'' (CPtr ''int (struct macsec_context *)''),
      Field ''mdo_get_tx_sa_stats'' (CPtr ''int (struct macsec_context *)''),
      Field ''mdo_get_rx_sc_stats'' (CPtr ''int (struct macsec_context *)''),
      Field ''mdo_get_rx_sa_stats'' (CPtr ''int (struct macsec_context *)''),
      Field ''mdo_insert_tx_tag'' (CPtr ''int (struct phy_device *, struct sk_buff *)''),
      Field ''needed_headroom'' unsigned_int,
      Field ''needed_tailroom'' unsigned_int,
      Field ''rx_uses_md_dst'' bool]"

definition enum_mctp_phys_binding :: cty where
  "enum_mctp_phys_binding = CEnum 4
     [(''MCTP_PHYS_BINDING_UNSPEC'', 0), (''MCTP_PHYS_BINDING_SMBUS'', 1),
      (''MCTP_PHYS_BINDING_PCIE_VDM'', 2), (''MCTP_PHYS_BINDING_USB'', 3),
      (''MCTP_PHYS_BINDING_KCS'', 4), (''MCTP_PHYS_BINDING_SERIAL'', 5),
      (''MCTP_PHYS_BINDING_I3C'', 6), (''MCTP_PHYS_BINDING_MMBI'', 7),
      (''MCTP_PHYS_BINDING_PCC'', 8), (''MCTP_PHYS_BINDING_UCIE'', 9),
      (''MCTP_PHYS_BINDING_VENDOR'', 255)]"

definition struct_mctp_dev :: cty where
  "struct_mctp_dev = CStruct ''mctp_dev'' False
     [Field ''dev'' (CPtr ''struct net_device''),
      Field ''refs'' refcount_t,
      Field ''net'' unsigned_int,
      Field ''binding'' enum_mctp_phys_binding,
      Field ''ops'' (CPtr ''const struct mctp_netdev_ops''),
      Field ''addrs'' (CPtr ''u8''),
      Field ''num_addrs'' size_t,
      Field ''addrs_lock'' spinlock_t,
      Field ''rcu'' struct_callback_head]"

definition struct_mfd_cell_acpi_match :: cty where
  "struct_mfd_cell_acpi_match = CStruct ''mfd_cell_acpi_match'' False
     [Field ''pnpid'' (CPtr ''const char''),
      Field ''adr'' long_long_unsigned_int]"

definition struct_napi_config :: cty where
  "struct_napi_config = CStruct ''napi_config'' False
     [Field ''gro_flush_timeout'' u64,
      Field ''irq_suspend_timeout'' u64,
      Field ''defer_hard_irqs'' u32,
      Field ''affinity_mask'' cpumask_t,
      Field ''threaded'' u8,
      Field ''napi_id'' unsigned_int]"

definition struct_ndisc_ops :: cty where
  "struct_ndisc_ops = CStruct ''ndisc_ops'' False
     [Field ''parse_options'' (CPtr ''int (const struct net_device *, struct nd_opt_hdr *, struct ndisc_options *)''),
      Field ''update'' (CPtr ''void (const struct net_device *, struct neighbour *, u32, u8, const struct ndisc_options *)''),
      Field ''opt_addr_space'' (CPtr ''int (const struct net_device *, u8, struct neighbour *, u8 *, u8 **)''),
      Field ''fill_addr_option'' (CPtr ''void (const struct net_device *, struct sk_buff *, u8, const u8 *)''),
      Field ''prefix_rcv_add_addr'' (CPtr ''void (struct net *, struct net_device *, const struct prefix_info *, struct inet6_dev *, struct in6_addr *, int, u32, bool, bool, __u32, u32, bool)'')]"

definition struct_net_device_core_stats :: cty where
  "struct_net_device_core_stats = CStruct ''net_device_core_stats'' False
     [Field ''rx_dropped'' long_unsigned_int,
      Field ''tx_dropped'' long_unsigned_int,
      Field ''rx_nohandler'' long_unsigned_int,
      Field ''rx_otherhost_dropped'' long_unsigned_int]"

definition struct_net_device_ops :: cty where
  "struct_net_device_ops = CStruct ''net_device_ops'' False
     [Field ''ndo_init'' (CPtr ''int (struct net_device *)''),
      Field ''ndo_uninit'' (CPtr ''void (struct net_device *)''),
      Field ''ndo_open'' (CPtr ''int (struct net_device *)''),
      Field ''ndo_stop'' (CPtr ''int (struct net_device *)''),
      Field ''ndo_start_xmit'' (CPtr ''netdev_tx_t (struct sk_buff *, struct net_device *)''),
      Field ''ndo_features_check'' (CPtr ''netdev_features_t (struct sk_buff *, struct net_device *, netdev_features_t)''),
      Field ''ndo_select_queue'' (CPtr ''u16 (struct net_device *, struct sk_buff *, struct net_device *)''),
      Field ''ndo_change_rx_flags'' (CPtr ''void (struct net_device *, int)''),
      Field ''ndo_set_rx_mode'' (CPtr ''void (struct net_device *)''),
      Field ''ndo_set_mac_address'' (CPtr ''int (struct net_device *, void *)''),
      Field ''ndo_validate_addr'' (CPtr ''int (struct net_device *)''),
      Field ''ndo_do_ioctl'' (CPtr ''int (struct net_device *, struct ifreq *, int)''),
      Field ''ndo_eth_ioctl'' (CPtr ''int (struct net_device *, struct ifreq *, int)''),
      Field ''ndo_siocbond'' (CPtr ''int (struct net_device *, struct ifreq *, int)''),
      Field ''ndo_siocwandev'' (CPtr ''int (struct net_device *, struct if_settings *)''),
      Field ''ndo_siocdevprivate'' (CPtr ''int (struct net_device *, struct ifreq *, void *, int)''),
      Field ''ndo_set_config'' (CPtr ''int (struct net_device *, struct ifmap *)''),
      Field ''ndo_change_mtu'' (CPtr ''int (struct net_device *, int)''),
      Field ''ndo_neigh_setup'' (CPtr ''int (struct net_device *, struct neigh_parms *)''),
      Field ''ndo_tx_timeout'' (CPtr ''void (struct net_device *, unsigned int)''),
      Field ''ndo_get_stats64'' (CPtr ''void (struct net_device *, struct rtnl_link_stats64 *)''),
      Field ''ndo_has_offload_stats'' (CPtr ''bool (const struct net_device *, int)''),
      Field ''ndo_get_offload_stats'' (CPtr ''int (int, const struct net_device *, void *)''),
      Field ''ndo_get_stats'' (CPtr ''struct net_device_stats * (struct net_device *)''),
      Field ''ndo_vlan_rx_add_vid'' (CPtr ''int (struct net_device *, __be16, u16)''),
      Field ''ndo_vlan_rx_kill_vid'' (CPtr ''int (struct net_device *, __be16, u16)''),
      Field ''ndo_poll_controller'' (CPtr ''void (struct net_device *)''),
      Field ''ndo_netpoll_setup'' (CPtr ''int (struct net_device *)''),
      Field ''ndo_netpoll_cleanup'' (CPtr ''void (struct net_device *)''),
      Field ''ndo_set_vf_mac'' (CPtr ''int (struct net_device *, int, u8 *)''),
      Field ''ndo_set_vf_vlan'' (CPtr ''int (struct net_device *, int, u16, u8, __be16)''),
      Field ''ndo_set_vf_rate'' (CPtr ''int (struct net_device *, int, int, int)''),
      Field ''ndo_set_vf_spoofchk'' (CPtr ''int (struct net_device *, int, bool)''),
      Field ''ndo_set_vf_trust'' (CPtr ''int (struct net_device *, int, bool)''),
      Field ''ndo_get_vf_config'' (CPtr ''int (struct net_device *, int, struct ifla_vf_info *)''),
      Field ''ndo_set_vf_link_state'' (CPtr ''int (struct net_device *, int, int)''),
      Field ''ndo_get_vf_stats'' (CPtr ''int (struct net_device *, int, struct ifla_vf_stats *)''),
      Field ''ndo_set_vf_port'' (CPtr ''int (struct net_device *, int, struct nlattr **)''),
      Field ''ndo_get_vf_port'' (CPtr ''int (struct net_device *, int, struct sk_buff *)''),
      Field ''ndo_get_vf_guid'' (CPtr ''int (struct net_device *, int, struct ifla_vf_guid *, struct ifla_vf_guid *)''),
      Field ''ndo_set_vf_guid'' (CPtr ''int (struct net_device *, int, u64, int)''),
      Field ''ndo_set_vf_rss_query_en'' (CPtr ''int (struct net_device *, int, bool)''),
      Field ''ndo_setup_tc'' (CPtr ''int (struct net_device *, enum tc_setup_type, void *)''),
      Field ''ndo_fcoe_enable'' (CPtr ''int (struct net_device *)''),
      Field ''ndo_fcoe_disable'' (CPtr ''int (struct net_device *)''),
      Field ''ndo_fcoe_ddp_setup'' (CPtr ''int (struct net_device *, u16, struct scatterlist *, unsigned int)''),
      Field ''ndo_fcoe_ddp_done'' (CPtr ''int (struct net_device *, u16)''),
      Field ''ndo_fcoe_ddp_target'' (CPtr ''int (struct net_device *, u16, struct scatterlist *, unsigned int)''),
      Field ''ndo_fcoe_get_hbainfo'' (CPtr ''int (struct net_device *, struct netdev_fcoe_hbainfo *)''),
      Field ''ndo_fcoe_get_wwn'' (CPtr ''int (struct net_device *, u64 *, int)''),
      Field ''ndo_rx_flow_steer'' (CPtr ''int (struct net_device *, const struct sk_buff *, u16, u32)''),
      Field ''ndo_add_slave'' (CPtr ''int (struct net_device *, struct net_device *, struct netlink_ext_ack *)''),
      Field ''ndo_del_slave'' (CPtr ''int (struct net_device *, struct net_device *)''),
      Field ''ndo_get_xmit_slave'' (CPtr ''struct net_device * (struct net_device *, struct sk_buff *, bool)''),
      Field ''ndo_sk_get_lower_dev'' (CPtr ''struct net_device * (struct net_device *, struct sock *)''),
      Field ''ndo_fix_features'' (CPtr ''netdev_features_t (struct net_device *, netdev_features_t)''),
      Field ''ndo_set_features'' (CPtr ''int (struct net_device *, netdev_features_t)''),
      Field ''ndo_neigh_construct'' (CPtr ''int (struct net_device *, struct neighbour *)''),
      Field ''ndo_neigh_destroy'' (CPtr ''void (struct net_device *, struct neighbour *)''),
      Field ''ndo_fdb_add'' (CPtr ''int (struct ndmsg *, struct nlattr **, struct net_device *, const unsigned char *, u16, u16, bool *, struct netlink_ext_ack *)''),
      Field ''ndo_fdb_del'' (CPtr ''int (struct ndmsg *, struct nlattr **, struct net_device *, const unsigned char *, u16, bool *, struct netlink_ext_ack *)''),
      Field ''ndo_fdb_del_bulk'' (CPtr ''int (struct nlmsghdr *, struct net_device *, struct netlink_ext_ack *)''),
      Field ''ndo_fdb_dump'' (CPtr ''int (struct sk_buff *, struct netlink_callback *, struct net_device *, struct net_device *, int *)''),
      Field ''ndo_fdb_get'' (CPtr ''int (struct sk_buff *, struct nlattr **, struct net_device *, const unsigned char *, u16, u32, u32, struct netlink_ext_ack *)''),
      Field ''ndo_mdb_add'' (CPtr ''int (struct net_device *, struct nlattr **, u16, struct netlink_ext_ack *)''),
      Field ''ndo_mdb_del'' (CPtr ''int (struct net_device *, struct nlattr **, struct netlink_ext_ack *)''),
      Field ''ndo_mdb_del_bulk'' (CPtr ''int (struct net_device *, struct nlattr **, struct netlink_ext_ack *)''),
      Field ''ndo_mdb_dump'' (CPtr ''int (struct net_device *, struct sk_buff *, struct netlink_callback *)''),
      Field ''ndo_mdb_get'' (CPtr ''int (struct net_device *, struct nlattr **, u32, u32, struct netlink_ext_ack *)''),
      Field ''ndo_bridge_setlink'' (CPtr ''int (struct net_device *, struct nlmsghdr *, u16, struct netlink_ext_ack *)''),
      Field ''ndo_bridge_getlink'' (CPtr ''int (struct sk_buff *, u32, u32, struct net_device *, u32, int)''),
      Field ''ndo_bridge_dellink'' (CPtr ''int (struct net_device *, struct nlmsghdr *, u16)''),
      Field ''ndo_change_carrier'' (CPtr ''int (struct net_device *, bool)''),
      Field ''ndo_get_phys_port_id'' (CPtr ''int (struct net_device *, struct netdev_phys_item_id *)''),
      Field ''ndo_get_port_parent_id'' (CPtr ''int (struct net_device *, struct netdev_phys_item_id *)''),
      Field ''ndo_get_phys_port_name'' (CPtr ''int (struct net_device *, char *, size_t)''),
      Field ''ndo_dfwd_add_station'' (CPtr ''void * (struct net_device *, struct net_device *)''),
      Field ''ndo_dfwd_del_station'' (CPtr ''void (struct net_device *, void *)''),
      Field ''ndo_set_tx_maxrate'' (CPtr ''int (struct net_device *, int, u32)''),
      Field ''ndo_get_iflink'' (CPtr ''int (const struct net_device *)''),
      Field ''ndo_fill_metadata_dst'' (CPtr ''int (struct net_device *, struct sk_buff *)''),
      Field ''ndo_set_rx_headroom'' (CPtr ''void (struct net_device *, int)''),
      Field ''ndo_bpf'' (CPtr ''int (struct net_device *, struct netdev_bpf *)''),
      Field ''ndo_xdp_xmit'' (CPtr ''int (struct net_device *, int, struct xdp_frame **, u32)''),
      Field ''ndo_xdp_get_xmit_slave'' (CPtr ''struct net_device * (struct net_device *, struct xdp_buff *)''),
      Field ''ndo_xsk_wakeup'' (CPtr ''int (struct net_device *, u32, u32)''),
      Field ''ndo_tunnel_ctl'' (CPtr ''int (struct net_device *, struct ip_tunnel_parm_kern *, int)''),
      Field ''ndo_get_peer_dev'' (CPtr ''struct net_device * (struct net_device *)''),
      Field ''ndo_fill_forward_path'' (CPtr ''int (struct net_device_path_ctx *, struct net_device_path *)''),
      Field ''ndo_get_tstamp'' (CPtr ''ktime_t (struct net_device *, const struct skb_shared_hwtstamps *, bool)''),
      Field ''ndo_hwtstamp_get'' (CPtr ''int (struct net_device *, struct kernel_hwtstamp_config *)''),
      Field ''ndo_hwtstamp_set'' (CPtr ''int (struct net_device *, struct kernel_hwtstamp_config *, struct netlink_ext_ack *)''),
      Field ''net_shaper_ops'' (CPtr ''const struct net_shaper_ops'')]"

definition struct_net_shaper_hierarchy :: cty where
  "struct_net_shaper_hierarchy = CStruct ''net_shaper_hierarchy'' False
     [Field ''shapers'' struct_xarray]"

definition struct_netdev_config :: cty where
  "struct_netdev_config = CStruct ''netdev_config'' False
     [Field ''hds_thresh'' u32,
      Field ''hds_config'' u8]"

definition struct_netdev_name_node :: cty where
  "struct_netdev_name_node = CStruct ''netdev_name_node'' False
     [Field ''hlist'' struct_hlist_node,
      Field ''list'' struct_list_head,
      Field ''dev'' (CPtr ''struct net_device''),
      Field ''name'' (CPtr ''const char''),
      Field ''rcu'' struct_callback_head]"

definition struct_dql :: cty where
  "struct_dql = CStruct ''dql'' False
     [Field ''num_queued'' unsigned_int,
      Field ''adj_limit'' unsigned_int,
      Field ''last_obj_cnt'' unsigned_int,
      Field ''stall_thrs'' short_unsigned_int,
      Field ''history_head'' long_unsigned_int,
      Field ''history'' (CArr 4 long_unsigned_int),
      BitField [] c_long 64,
      Field ''limit'' unsigned_int,
      Field ''num_completed'' unsigned_int,
      Field ''prev_ovlimit'' unsigned_int,
      Field ''prev_num_queued'' unsigned_int,
      Field ''prev_last_obj_cnt'' unsigned_int,
      Field ''lowest_slack'' unsigned_int,
      Field ''slack_start_time'' long_unsigned_int,
      Field ''max_limit'' unsigned_int,
      Field ''min_limit'' unsigned_int,
      Field ''slack_hold_time'' unsigned_int,
      Field ''stall_max'' short_unsigned_int,
      Field ''last_reap'' long_unsigned_int,
      Field ''stall_cnt'' long_unsigned_int]"

definition struct_netdev_queue :: cty where
  "struct_netdev_queue = CStruct ''netdev_queue'' False
     [Field ''dev'' (CPtr ''struct net_device''),
      Field ''dev_tracker'' netdevice_tracker,
      Field ''qdisc'' (CPtr ''struct Qdisc''),
      Field ''qdisc_sleeping'' (CPtr ''struct Qdisc''),
      Field ''kobj'' struct_kobject,
      Field ''groups'' (CPtr ''const struct attribute_group *''),
      Field ''tx_maxrate'' long_unsigned_int,
      Field ''trans_timeout'' atomic_long_t,
      Field ''sb_dev'' (CPtr ''struct net_device''),
      Field ''pool'' (CPtr ''struct xsk_buff_pool''),
      Field ''dql'' struct_dql,
      Field ''_xmit_lock'' spinlock_t,
      Field ''xmit_lock_owner'' c_int,
      Field ''trans_start'' long_unsigned_int,
      Field ''state'' long_unsigned_int,
      Field ''napi'' (CPtr ''struct napi_struct''),
      Field ''numa_node'' c_int,
      BitField [] c_long 64,
      BitField [] c_long 64,
      BitField [] c_long 64]"

definition struct_netdev_queue_mgmt_ops :: cty where
  "struct_netdev_queue_mgmt_ops = CStruct ''netdev_queue_mgmt_ops'' False
     [Field ''ndo_queue_mem_size'' size_t,
      Field ''ndo_queue_mem_alloc'' (CPtr ''int (struct net_device *, struct netdev_queue_config *, void *, int)''),
      Field ''ndo_queue_mem_free'' (CPtr ''void (struct net_device *, void *)''),
      Field ''ndo_queue_start'' (CPtr ''int (struct net_device *, struct netdev_queue_config *, void *, int)''),
      Field ''ndo_queue_stop'' (CPtr ''int (struct net_device *, void *, int)''),
      Field ''ndo_default_qcfg'' (CPtr ''void (struct net_device *, struct netdev_queue_config *)''),
      Field ''ndo_validate_qcfg'' (CPtr ''int (struct net_device *, struct netdev_queue_config *, struct netlink_ext_ack *)''),
      Field ''ndo_queue_get_dma_dev'' (CPtr ''struct device * (struct net_device *, int)''),
      Field ''supported_params'' unsigned_int]"

definition struct_xdp_mem_info :: cty where
  "struct_xdp_mem_info = CStruct ''xdp_mem_info'' False
     [Field ''type'' u32,
      Field ''id'' u32]"

definition struct_xdp_rxq_info :: cty where
  "struct_xdp_rxq_info = CStruct ''xdp_rxq_info'' False
     [Field ''dev'' (CPtr ''struct net_device''),
      Field ''queue_index'' u32,
      Field ''reg_state'' u32,
      Field ''mem'' struct_xdp_mem_info,
      Field ''frag_size'' u32,
      BitField [] c_long 64,
      BitField [] c_long 64,
      BitField [] c_long 64,
      BitField [] c_long 64]"

definition struct_netdev_queue_config :: cty where
  "struct_netdev_queue_config = CStruct ''netdev_queue_config'' False
     [Field ''rx_page_size'' u32]"

definition struct_pp_memory_provider_params :: cty where
  "struct_pp_memory_provider_params = CStruct ''pp_memory_provider_params'' False
     [Field ''mp_priv'' (CPtr ''void''),
      Field ''mp_ops'' (CPtr ''const struct memory_provider_ops''),
      Field ''rx_page_size'' u32]"

definition struct_netdev_rx_queue :: cty where
  "struct_netdev_rx_queue = CStruct ''netdev_rx_queue'' False
     [Field ''xdp_rxq'' struct_xdp_rxq_info,
      Field ''rps_map'' (CPtr ''struct rps_map''),
      Field ''rps_flow_table'' (CPtr ''struct rps_dev_flow_table''),
      Field ''kobj'' struct_kobject,
      Field ''groups'' (CPtr ''const struct attribute_group *''),
      Field ''dev'' (CPtr ''struct net_device''),
      Field ''dev_tracker'' netdevice_tracker,
      Field ''pool'' (CPtr ''struct xsk_buff_pool''),
      Field ''napi'' (CPtr ''struct napi_struct''),
      Field ''qcfg'' struct_netdev_queue_config,
      Field ''mp_params'' struct_pp_memory_provider_params,
      BitField [] c_long 64,
      BitField [] c_long 64,
      BitField [] c_long 64,
      BitField [] c_long 64,
      BitField [] c_long 64,
      BitField [] c_long 64]"

definition struct_netdev_stat_ops :: cty where
  "struct_netdev_stat_ops = CStruct ''netdev_stat_ops'' False
     [Field ''get_queue_stats_rx'' (CPtr ''void (struct net_device *, int, struct netdev_queue_stats_rx *)''),
      Field ''get_queue_stats_tx'' (CPtr ''void (struct net_device *, int, struct netdev_queue_stats_tx *)''),
      Field ''get_base_stats'' (CPtr ''void (struct net_device *, struct netdev_queue_stats_rx *, struct netdev_queue_stats_tx *)'')]"

definition struct_netlbl_lsm_cache :: cty where
  "struct_netlbl_lsm_cache = CStruct ''netlbl_lsm_cache'' False
     [Field ''refcount'' refcount_t,
      Field ''free'' (CPtr ''void (const void *)''),
      Field ''data'' (CPtr ''void'')]"

definition struct_netlbl_lsm_catmap :: cty where
  "struct_netlbl_lsm_catmap = CStruct ''netlbl_lsm_catmap'' False
     [Field ''startbit'' u32,
      Field ''bitmap'' (CArr 4 u64),
      Field ''next'' (CPtr ''struct netlbl_lsm_catmap'')]"

definition struct_semaphore :: cty where
  "struct_semaphore = CStruct ''semaphore'' False
     [Field ''lock'' raw_spinlock_t,
      Field ''count'' unsigned_int,
      Field ''wait_list'' struct_list_head,
      Field ''last_holder'' long_unsigned_int]"

definition struct_netpoll_info :: cty where
  "struct_netpoll_info = CStruct ''netpoll_info'' False
     [Field ''refcnt'' refcount_t,
      Field ''dev_lock'' struct_semaphore,
      Field ''txq'' struct_sk_buff_head,
      Field ''tx_work'' struct_delayed_work,
      Field ''rcu'' struct_callback_head]"

definition struct_netprio_map :: cty where
  "struct_netprio_map = CStruct ''netprio_map'' False
     [Field ''rcu'' struct_callback_head,
      Field ''priomap_len'' u32,
      Field ''priomap'' (CArr 0 u32)]"

definition struct_nexthop :: cty where
  "struct_nexthop = CStruct ''nexthop'' False
     [Field ''rb_node'' struct_rb_node,
      Field ''fi_list'' struct_list_head,
      Field ''f6i_list'' struct_list_head,
      Field ''fdb_list'' struct_list_head,
      Field ''grp_list'' struct_list_head,
      Field ''net'' (CPtr ''struct net''),
      Field ''id'' u32,
      Field ''protocol'' u8,
      Field ''nh_flags'' u8,
      Field ''is_group'' bool,
      Field ''dead'' bool,
      Field ''lock'' spinlock_t,
      Field ''refcnt'' refcount_t,
      Field ''rcu'' struct_callback_head,
      Field [] (CUnion [] False
        [Field ''nh_info'' (CPtr ''struct nh_info''),
         Field ''nh_grp'' (CPtr ''struct nh_group'')])]"

definition struct_nfs4_state_owner :: cty where
  "struct_nfs4_state_owner = CStruct ''nfs4_state_owner'' False
     [Field ''so_server'' (CPtr ''struct nfs_server''),
      Field ''so_lru'' struct_list_head,
      Field ''so_expires'' long_unsigned_int,
      Field ''so_server_node'' struct_rb_node,
      Field ''so_cred'' (CPtr ''const struct cred''),
      Field ''so_lock'' spinlock_t,
      Field ''so_count'' atomic_t,
      Field ''so_flags'' long_unsigned_int,
      Field ''so_states'' struct_list_head,
      Field ''so_seqid'' struct_nfs_seqid_counter,
      Field ''so_delegreturn_mutex'' struct_mutex]"

definition struct_node_barn :: cty where
  "struct_node_barn = CStruct ''node_barn'' False
     [Field ''lock'' spinlock_t,
      Field ''sheaves_full'' struct_list_head,
      Field ''sheaves_empty'' struct_list_head,
      Field ''nr_full'' unsigned_int,
      Field ''nr_empty'' unsigned_int]"

definition struct_numa_drop_counters :: cty where
  "struct_numa_drop_counters = CStruct ''numa_drop_counters'' False
     [Field ''drops0'' atomic_t,
      BitField [] c_long 64,
      BitField [] c_long 64,
      BitField [] c_long 64,
      BitField [] c_long 64,
      BitField [] c_long 64,
      BitField [] c_long 64,
      BitField [] c_long 64,
      Field ''drops1'' atomic_t,
      BitField [] c_long 64,
      BitField [] c_long 64,
      BitField [] c_long 64,
      BitField [] c_long 64,
      BitField [] c_long 64,
      BitField [] c_long 64,
      BitField [] c_long 64]"

definition struct_pci_tsm_link_ops :: cty where
  "struct_pci_tsm_link_ops = CStruct ''pci_tsm_link_ops'' False
     [Field ''probe'' (CPtr ''struct pci_tsm * (struct tsm_dev *, struct pci_dev *)''),
      Field ''remove'' (CPtr ''void (struct pci_tsm *)''),
      Field ''connect'' (CPtr ''int (struct pci_dev *)''),
      Field ''disconnect'' (CPtr ''void (struct pci_dev *)''),
      Field ''bind'' (CPtr ''struct pci_tdi * (struct pci_dev *, struct kvm *, u32)''),
      Field ''unbind'' (CPtr ''void (struct pci_tdi *)''),
      Field ''guest_req'' (CPtr ''ssize_t (struct pci_tdi *, enum pci_tsm_req_scope, sockptr_t, size_t, sockptr_t, size_t, u64 *)'')]"

definition struct_pci_tsm_devsec_ops :: cty where
  "struct_pci_tsm_devsec_ops = CStruct ''pci_tsm_devsec_ops'' False
     [Field ''lock'' (CPtr ''struct pci_tsm * (struct tsm_dev *, struct pci_dev *)''),
      Field ''unlock'' (CPtr ''void (struct pci_tsm *)'')]"

definition struct_pci_tsm_ops :: cty where
  "struct_pci_tsm_ops = CStruct ''pci_tsm_ops'' False
     [Field [] (CUnion [] False
        [Field [] (CStruct [] False
           [Field ''probe'' (CPtr ''struct pci_tsm * (struct tsm_dev *, struct pci_dev *)''),
            Field ''remove'' (CPtr ''void (struct pci_tsm *)''),
            Field ''connect'' (CPtr ''int (struct pci_dev *)''),
            Field ''disconnect'' (CPtr ''void (struct pci_dev *)''),
            Field ''bind'' (CPtr ''struct pci_tdi * (struct pci_dev *, struct kvm *, u32)''),
            Field ''unbind'' (CPtr ''void (struct pci_tdi *)''),
            Field ''guest_req'' (CPtr ''ssize_t (struct pci_tdi *, enum pci_tsm_req_scope, sockptr_t, size_t, sockptr_t, size_t, u64 *)'')]),
         Field ''link_ops'' struct_pci_tsm_link_ops]),
      Field [] (CUnion [] False
        [Field [] (CStruct [] False
           [Field ''lock'' (CPtr ''struct pci_tsm * (struct tsm_dev *, struct pci_dev *)''),
            Field ''unlock'' (CPtr ''void (struct pci_tsm *)'')]),
         Field ''devsec_ops'' struct_pci_tsm_devsec_ops])]"

definition struct_pcpu_dstats :: cty where
  "struct_pcpu_dstats = CStruct ''pcpu_dstats'' False
     [Field ''rx_packets'' u64_stats_t,
      Field ''rx_bytes'' u64_stats_t,
      Field ''tx_packets'' u64_stats_t,
      Field ''tx_bytes'' u64_stats_t,
      Field ''rx_drops'' u64_stats_t,
      Field ''tx_drops'' u64_stats_t,
      Field ''syncp'' struct_u64_stats_sync,
      BitField [] c_long 64,
      BitField [] c_long 64]"

definition struct_pcpu_lstats :: cty where
  "struct_pcpu_lstats = CStruct ''pcpu_lstats'' False
     [Field ''packets'' u64_stats_t,
      Field ''bytes'' u64_stats_t,
      Field ''syncp'' struct_u64_stats_sync]"

definition struct_pcpu_sw_netstats :: cty where
  "struct_pcpu_sw_netstats = CStruct ''pcpu_sw_netstats'' False
     [Field ''rx_packets'' u64_stats_t,
      Field ''rx_bytes'' u64_stats_t,
      Field ''tx_packets'' u64_stats_t,
      Field ''tx_bytes'' u64_stats_t,
      Field ''syncp'' struct_u64_stats_sync]"

definition struct_per_frame_masks :: cty where
  "struct_per_frame_masks = CStruct ''per_frame_masks'' False
     [Field ''may_read'' u64,
      Field ''must_write'' u64,
      Field ''must_write_acc'' u64,
      Field ''live_before'' u64]"

definition struct_perf_domain :: cty where
  "struct_perf_domain = CStruct ''perf_domain'' False
     [Field ''em_pd'' (CPtr ''struct em_perf_domain''),
      Field ''next'' (CPtr ''struct perf_domain''),
      Field ''rcu'' struct_callback_head]"

definition struct_free_area :: cty where
  "struct_free_area = CStruct ''free_area'' False
     [Field ''free_list'' (CArr 6 struct_list_head),
      Field ''nr_free'' long_unsigned_int]"

definition struct_zone :: cty where
  "struct_zone = CStruct ''zone'' False
     [Field ''_watermark'' (CArr 4 long_unsigned_int),
      Field ''watermark_boost'' long_unsigned_int,
      Field ''nr_reserved_highatomic'' long_unsigned_int,
      Field ''nr_free_highatomic'' long_unsigned_int,
      Field ''lowmem_reserve'' (CArr 5 c_long),
      Field ''node'' c_int,
      Field ''zone_pgdat'' (CPtr ''struct pglist_data''),
      Field ''per_cpu_pageset'' (CPtr ''struct per_cpu_pages''),
      Field ''per_cpu_zonestats'' (CPtr ''struct per_cpu_zonestat''),
      Field ''pageset_high_min'' c_int,
      Field ''pageset_high_max'' c_int,
      Field ''pageset_batch'' c_int,
      Field ''zone_start_pfn'' long_unsigned_int,
      Field ''managed_pages'' atomic_long_t,
      Field ''spanned_pages'' long_unsigned_int,
      Field ''present_pages'' long_unsigned_int,
      Field ''present_early_pages'' long_unsigned_int,
      Field ''cma_pages'' long_unsigned_int,
      Field ''name'' (CPtr ''const char''),
      Field ''nr_isolate_pageblock'' long_unsigned_int,
      Field ''span_seqlock'' seqlock_t,
      Field ''initialized'' c_int,
      BitField [] c_long 64,
      BitField [] c_long 64,
      BitField [] c_long 64,
      BitField [] c_long 64,
      Field ''_pad1_'' struct_cacheline_padding,
      Field ''free_area'' (CArr 11 struct_free_area),
      Field ''unaccepted_pages'' struct_list_head,
      Field ''unaccepted_cleanup'' struct_work_struct,
      Field ''flags'' long_unsigned_int,
      Field ''lock'' spinlock_t,
      Field ''trylock_free_pages'' struct_llist_head,
      Field ''_pad2_'' struct_cacheline_padding,
      Field ''percpu_drift_mark'' long_unsigned_int,
      Field ''compact_cached_free_pfn'' long_unsigned_int,
      Field ''compact_cached_migrate_pfn'' (CArr 2 long_unsigned_int),
      Field ''compact_init_migrate_pfn'' long_unsigned_int,
      Field ''compact_init_free_pfn'' long_unsigned_int,
      Field ''compact_considered'' unsigned_int,
      Field ''compact_defer_shift'' unsigned_int,
      Field ''compact_order_failed'' c_int,
      Field ''compact_blockskip_flush'' bool,
      Field ''contiguous'' bool,
      BitField [] c_long 0,
      Field ''_pad3_'' struct_cacheline_padding,
      Field ''vm_stat'' (CArr 12 atomic_long_t),
      Field ''vm_numa_event'' (CArr 6 atomic_long_t),
      BitField [] c_long 64,
      BitField [] c_long 64,
      BitField [] c_long 64,
      BitField [] c_long 64,
      BitField [] c_long 64,
      BitField [] c_long 64]"

definition struct_zoneref :: cty where
  "struct_zoneref = CStruct ''zoneref'' False
     [Field ''zone'' (CPtr ''struct zone''),
      Field ''zone_idx'' c_int]"

definition struct_zonelist :: cty where
  "struct_zonelist = CStruct ''zonelist'' False
     [Field ''_zonerefs'' (CArr 5121 struct_zoneref)]"

definition enum_zone_type :: cty where
  "enum_zone_type = CEnum 4
     [(''ZONE_DMA'', 0), (''ZONE_DMA32'', 1), (''ZONE_NORMAL'', 2), (''ZONE_MOVABLE'', 3),
      (''ZONE_DEVICE'', 4), (''__MAX_NR_ZONES'', 5)]"

definition struct_lru_gen_memcg :: cty where
  "struct_lru_gen_memcg = CStruct ''lru_gen_memcg'' False
     [Field ''seq'' long_unsigned_int,
      Field ''nr_memcgs'' (CArr 3 long_unsigned_int),
      Field ''fifo'' (CArr 24 struct_hlist_nulls_head),
      Field ''lock'' spinlock_t]"

section \<open>Sizes and alignments\<close>

lemma struct_io_wq_hash_layout [layout_simps]:
  "sizeof struct_io_wq_hash = 40 \<and> alignof struct_io_wq_hash = 8 \<and> wf_cty struct_io_wq_hash"
  by (simp add: struct_io_wq_hash_def base_types layout_eval refcount_t_def struct_refcount_struct_layout
      struct_wait_queue_head_layout
      del: One_nat_def)

lemma struct_iommufd_eventq_layout [layout_simps]:
  "sizeof struct_iommufd_eventq = 80 \<and> alignof struct_iommufd_eventq = 8 \<and> wf_cty struct_iommufd_eventq"
  by (simp add: struct_iommufd_eventq_def base_types layout_eval struct_iommufd_object_layout spinlock_t_def
      struct_spinlock_layout struct_list_head_layout struct_wait_queue_head_layout
      del: One_nat_def)

lemma struct_iommufd_fault_layout [layout_simps]:
  "sizeof struct_iommufd_fault = 128 \<and> alignof struct_iommufd_fault = 8 \<and> wf_cty struct_iommufd_fault"
  by (simp add: struct_iommufd_fault_def base_types layout_eval struct_iommufd_eventq_layout struct_mutex_layout
      struct_xarray_layout
      del: One_nat_def)

lemma struct_iopf_queue_layout [layout_simps]:
  "sizeof struct_iopf_queue = 56 \<and> alignof struct_iopf_queue = 8 \<and> wf_cty struct_iopf_queue"
  by (simp add: struct_iopf_queue_def base_types layout_eval struct_list_head_layout struct_mutex_layout
      del: One_nat_def)

lemma struct_iommu_pages_list_layout [layout_simps]:
  "sizeof struct_iommu_pages_list = 16 \<and> alignof struct_iommu_pages_list = 8 \<and> wf_cty struct_iommu_pages_list"
  by (simp add: struct_iommu_pages_list_def base_types layout_eval struct_list_head_layout
      del: One_nat_def)

lemma struct_iova_fq_entry_layout [layout_simps]:
  "sizeof struct_iova_fq_entry = 40 \<and> alignof struct_iova_fq_entry = 8 \<and> wf_cty struct_iova_fq_entry"
  by (simp add: struct_iova_fq_entry_def base_types layout_eval struct_iommu_pages_list_layout u64_def c__u64_def
      del: One_nat_def)

lemma struct_iova_fq_layout [layout_simps]:
  "sizeof struct_iova_fq = 16 \<and> alignof struct_iova_fq = 8 \<and> wf_cty struct_iova_fq"
  by (simp add: struct_iova_fq_def base_types layout_eval spinlock_t_def struct_spinlock_layout
      struct_iova_fq_entry_layout
      del: One_nat_def)

lemma struct_iova_rcache_layout [layout_simps]:
  "sizeof struct_iova_rcache = 120 \<and> alignof struct_iova_rcache = 8 \<and> wf_cty struct_iova_rcache"
  by (simp add: struct_iova_rcache_def base_types layout_eval spinlock_t_def struct_spinlock_layout
      struct_delayed_work_layout
      del: One_nat_def)

lemma struct_irq_chip_layout [layout_simps]:
  "sizeof struct_irq_chip = 280 \<and> alignof struct_irq_chip = 8 \<and> wf_cty struct_irq_chip"
  by (simp add: struct_irq_chip_def base_types layout_eval
      del: One_nat_def)

lemma struct_irq_chip_regs_layout [layout_simps]:
  "sizeof struct_irq_chip_regs = 48 \<and> alignof struct_irq_chip_regs = 8 \<and> wf_cty struct_irq_chip_regs"
  by (simp add: struct_irq_chip_regs_def base_types layout_eval
      del: One_nat_def)

lemma struct_irq_chip_type_layout [layout_simps]:
  "sizeof struct_irq_chip_type = 352 \<and> alignof struct_irq_chip_type = 8 \<and> wf_cty struct_irq_chip_type"
  by (simp add: struct_irq_chip_type_def base_types layout_eval struct_irq_chip_layout struct_irq_chip_regs_layout
      irq_flow_handler_t_def u32_def c__u32_def
      del: One_nat_def)

lemma struct_irq_chip_generic_layout [layout_simps]:
  "sizeof struct_irq_chip_generic = 120 \<and> alignof struct_irq_chip_generic = 8 \<and> wf_cty struct_irq_chip_generic"
  by (simp add: struct_irq_chip_generic_def base_types layout_eval raw_spinlock_t_def struct_raw_spinlock_layout u32_def
      c__u32_def struct_list_head_layout struct_irq_chip_type_layout
      del: One_nat_def)

lemma struct_irq_common_data_layout [layout_simps]:
  "sizeof struct_irq_common_data = 40 \<and> alignof struct_irq_common_data = 8 \<and> wf_cty struct_irq_common_data"
  by (simp add: struct_irq_common_data_def base_types layout_eval cpumask_var_t_def
      del: One_nat_def)

lemma struct_iw_handler_def_layout [layout_simps]:
  "sizeof struct_iw_handler_def = 40 \<and> alignof struct_iw_handler_def = 8 \<and> wf_cty struct_iw_handler_def"
  by (simp add: struct_iw_handler_def_def base_types layout_eval c__u16_def
      del: One_nat_def)

lemma struct_kioctx_cpu_layout [layout_simps]:
  "sizeof struct_kioctx_cpu = 4 \<and> alignof struct_kioctx_cpu = 4 \<and> wf_cty struct_kioctx_cpu"
  by (simp add: struct_kioctx_cpu_def base_types layout_eval
      del: One_nat_def)

lemma struct_kvm_memslots_layout [layout_simps]:
  "sizeof struct_kvm_memslots = 1072 \<and> alignof struct_kvm_memslots = 8 \<and> wf_cty struct_kvm_memslots"
  by (simp add: struct_kvm_memslots_def base_types layout_eval u64_def c__u64_def atomic_long_t_def atomic64_t_layout
      struct_rb_root_cached_layout struct_rb_root_layout struct_hlist_head_layout
      del: One_nat_def)

lemma struct_kvm_vm_stat_generic_layout [layout_simps]:
  "sizeof struct_kvm_vm_stat_generic = 16 \<and> alignof struct_kvm_vm_stat_generic = 8 \<and> wf_cty struct_kvm_vm_stat_generic"
  by (simp add: struct_kvm_vm_stat_generic_def base_types layout_eval u64_def c__u64_def
      del: One_nat_def)

lemma struct_kvm_vm_stat_layout [layout_simps]:
  "sizeof struct_kvm_vm_stat = 120 \<and> alignof struct_kvm_vm_stat = 8 \<and> wf_cty struct_kvm_vm_stat"
  by (simp add: struct_kvm_vm_stat_def base_types layout_eval struct_kvm_vm_stat_generic_layout u64_def c__u64_def
      atomic64_t_layout
      del: One_nat_def)

lemma struct_kvm_possible_nx_huge_pages_layout [layout_simps]:
  "sizeof struct_kvm_possible_nx_huge_pages = 24 \<and> alignof struct_kvm_possible_nx_huge_pages = 8 \<and> wf_cty struct_kvm_possible_nx_huge_pages"
  by (simp add: struct_kvm_possible_nx_huge_pages_def base_types layout_eval struct_list_head_layout u64_def c__u64_def
      del: One_nat_def)

lemma struct_kvm_page_track_notifier_head_layout [layout_simps]:
  "sizeof struct_kvm_page_track_notifier_head = 40 \<and> alignof struct_kvm_page_track_notifier_head = 8 \<and> wf_cty struct_kvm_page_track_notifier_head"
  by (simp add: struct_kvm_page_track_notifier_head_def base_types layout_eval struct_srcu_struct_layout
      struct_hlist_head_layout
      del: One_nat_def)

lemma enum_hv_tsc_page_status_layout [layout_simps]:
  "sizeof enum_hv_tsc_page_status = 4 \<and> alignof enum_hv_tsc_page_status = 4 \<and> wf_cty enum_hv_tsc_page_status"
  by (simp add: enum_hv_tsc_page_status_def base_types layout_eval
      del: One_nat_def)

lemma struct_ms_hyperv_tsc_page_layout [layout_simps]:
  "sizeof struct_ms_hyperv_tsc_page = 24 \<and> alignof struct_ms_hyperv_tsc_page = 8 \<and> wf_cty struct_ms_hyperv_tsc_page"
  by (simp add: struct_ms_hyperv_tsc_page_def base_types layout_eval u32_def c__u32_def u64_def c__u64_def s64_def
      c__s64_def
      del: One_nat_def)

lemma struct_kvm_hv_syndbg_layout [layout_simps]:
  "sizeof struct_kvm_hv_syndbg = 48 \<and> alignof struct_kvm_hv_syndbg = 8 \<and> wf_cty struct_kvm_hv_syndbg"
  by (simp add: struct_kvm_hv_syndbg_def base_types layout_eval u64_def c__u64_def
      del: One_nat_def)

lemma struct_kvm_hv_layout [layout_simps]:
  "sizeof struct_kvm_hv = 256 \<and> alignof struct_kvm_hv = 8 \<and> wf_cty struct_kvm_hv"
  by (simp add: struct_kvm_hv_def base_types layout_eval struct_mutex_layout u64_def c__u64_def
      enum_hv_tsc_page_status_layout struct_ms_hyperv_tsc_page_layout struct_idr_layout atomic_t_layout
      struct_kvm_hv_syndbg_layout bool_def
      del: One_nat_def)

lemma struct_gfn_to_pfn_cache_layout [layout_simps]:
  "sizeof struct_gfn_to_pfn_cache = 120 \<and> alignof struct_gfn_to_pfn_cache = 8 \<and> wf_cty struct_gfn_to_pfn_cache"
  by (simp add: struct_gfn_to_pfn_cache_def base_types layout_eval u64_def c__u64_def gpa_t_def struct_list_head_layout
      rwlock_t_def struct_rwlock_layout struct_mutex_layout kvm_pfn_t_def hfn_t_def bool_def
      del: One_nat_def)

lemma struct_kvm_xen_hvm_config_layout [layout_simps]:
  "sizeof struct_kvm_xen_hvm_config = 56 \<and> alignof struct_kvm_xen_hvm_config = 8 \<and> wf_cty struct_kvm_xen_hvm_config"
  by (simp add: struct_kvm_xen_hvm_config_def base_types layout_eval c__u32_def c__u64_def c__u8_def
      del: One_nat_def)

lemma struct_kvm_xen_layout [layout_simps]:
  "sizeof struct_kvm_xen = 752 \<and> alignof struct_kvm_xen = 8 \<and> wf_cty struct_kvm_xen"
  by (simp add: struct_kvm_xen_def base_types layout_eval struct_mutex_layout u32_def c__u32_def bool_def u8_def
      c__u8_def struct_gfn_to_pfn_cache_layout struct_idr_layout struct_kvm_xen_hvm_config_layout
      del: One_nat_def)

lemma enum_kvm_irqchip_mode_layout [layout_simps]:
  "sizeof enum_kvm_irqchip_mode = 4 \<and> alignof enum_kvm_irqchip_mode = 4 \<and> wf_cty enum_kvm_irqchip_mode"
  by (simp add: enum_kvm_irqchip_mode_def base_types layout_eval
      del: One_nat_def)

lemma enum_kvm_suppress_eoi_broadcast_mode_layout [layout_simps]:
  "sizeof enum_kvm_suppress_eoi_broadcast_mode = 4 \<and> alignof enum_kvm_suppress_eoi_broadcast_mode = 4 \<and> wf_cty enum_kvm_suppress_eoi_broadcast_mode"
  by (simp add: enum_kvm_suppress_eoi_broadcast_mode_def base_types layout_eval
      del: One_nat_def)

lemma struct_once_layout [layout_simps]:
  "sizeof struct_once = 40 \<and> alignof struct_once = 8 \<and> wf_cty struct_once"
  by (simp add: struct_once_def base_types layout_eval atomic_t_layout struct_mutex_layout
      del: One_nat_def)

lemma struct_kvm_mmu_memory_cache_layout [layout_simps]:
  "sizeof struct_kvm_mmu_memory_cache = 40 \<and> alignof struct_kvm_mmu_memory_cache = 8 \<and> wf_cty struct_kvm_mmu_memory_cache"
  by (simp add: struct_kvm_mmu_memory_cache_def base_types layout_eval gfp_t_def u64_def c__u64_def
      del: One_nat_def)

lemma struct_kvm_arch_layout [layout_simps]:
  "sizeof struct_kvm_arch = 1792 \<and> alignof struct_kvm_arch = 8 \<and> wf_cty struct_kvm_arch"
  by (simp add: struct_kvm_arch_def base_types layout_eval u8_def c__u8_def bool_def struct_list_head_layout
      struct_kvm_possible_nx_huge_pages_layout struct_kvm_page_track_notifier_head_layout spinlock_t_def
      struct_spinlock_layout u64_def c__u64_def atomic_t_layout struct_mutex_layout
      struct_rw_semaphore_layout gpa_t_def s64_def c__s64_def raw_spinlock_t_def
      struct_raw_spinlock_layout u32_def c__u32_def seqcount_raw_spinlock_t_def
      struct_seqcount_raw_spinlock_layout struct_kvm_hv_layout struct_kvm_xen_layout
      enum_kvm_irqchip_mode_layout enum_kvm_suppress_eoi_broadcast_mode_layout struct_once_layout
      hpa_t_def struct_kvm_mmu_memory_cache_layout gfn_t_def
      del: One_nat_def)

lemma struct_mmu_notifier_layout [layout_simps]:
  "sizeof struct_mmu_notifier = 56 \<and> alignof struct_mmu_notifier = 8 \<and> wf_cty struct_mmu_notifier"
  by (simp add: struct_mmu_notifier_def base_types layout_eval struct_hlist_node_layout struct_callback_head_layout
      del: One_nat_def)

lemma struct_kvm_layout [layout_simps]:
  "sizeof struct_kvm = 6952 \<and> alignof struct_kvm = 8 \<and> wf_cty struct_kvm"
  by (simp add: struct_kvm_def base_types layout_eval rwlock_t_def struct_rwlock_layout struct_mutex_layout
      struct_kvm_memslots_layout struct_xarray_layout atomic_t_layout spinlock_t_def
      struct_spinlock_layout struct_rcuwait_layout struct_list_head_layout struct_kvm_vm_stat_layout
      struct_kvm_arch_layout refcount_t_def struct_refcount_struct_layout struct_hlist_head_layout
      struct_mmu_notifier_layout gfn_t_def u64_def c__u64_def struct_srcu_struct_layout pid_t_def
      c__kernel_pid_t_def bool_def u32_def c__u32_def struct_notifier_block_layout
      del: One_nat_def)

lemma struct_l3mdev_ops_layout [layout_simps]:
  "sizeof struct_l3mdev_ops = 32 \<and> alignof struct_l3mdev_ops = 8 \<and> wf_cty struct_l3mdev_ops"
  by (simp add: struct_l3mdev_ops_def base_types layout_eval
      del: One_nat_def)

lemma struct_lcd_ops_layout [layout_simps]:
  "sizeof struct_lcd_ops = 48 \<and> alignof struct_lcd_ops = 8 \<and> wf_cty struct_lcd_ops"
  by (simp add: struct_lcd_ops_def base_types layout_eval
      del: One_nat_def)

lemma struct_lruvec_stats_layout [layout_simps]:
  "sizeof struct_lruvec_stats = 792 \<and> alignof struct_lruvec_stats = 8 \<and> wf_cty struct_lruvec_stats"
  by (simp add: struct_lruvec_stats_def base_types layout_eval
      del: One_nat_def)

lemma struct_lruvec_stats_percpu_layout [layout_simps]:
  "sizeof struct_lruvec_stats_percpu = 528 \<and> alignof struct_lruvec_stats_percpu = 8 \<and> wf_cty struct_lruvec_stats_percpu"
  by (simp add: struct_lruvec_stats_percpu_def base_types layout_eval
      del: One_nat_def)

lemma struct_lwtunnel_state_layout [layout_simps]:
  "sizeof struct_lwtunnel_state = 48 \<and> alignof struct_lwtunnel_state = 8 \<and> wf_cty struct_lwtunnel_state"
  by (simp add: struct_lwtunnel_state_def base_types layout_eval c__u16_def atomic_t_layout struct_callback_head_layout
      c__u8_def
      del: One_nat_def)

lemma struct_macsec_ops_layout [layout_simps]:
  "sizeof struct_macsec_ops = 176 \<and> alignof struct_macsec_ops = 8 \<and> wf_cty struct_macsec_ops"
  by (simp add: struct_macsec_ops_def base_types layout_eval bool_def
      del: One_nat_def)

lemma enum_mctp_phys_binding_layout [layout_simps]:
  "sizeof enum_mctp_phys_binding = 4 \<and> alignof enum_mctp_phys_binding = 4 \<and> wf_cty enum_mctp_phys_binding"
  by (simp add: enum_mctp_phys_binding_def base_types layout_eval
      del: One_nat_def)

lemma struct_mctp_dev_layout [layout_simps]:
  "sizeof struct_mctp_dev = 72 \<and> alignof struct_mctp_dev = 8 \<and> wf_cty struct_mctp_dev"
  by (simp add: struct_mctp_dev_def base_types layout_eval refcount_t_def struct_refcount_struct_layout
      enum_mctp_phys_binding_layout size_t_def c__kernel_size_t_def c__kernel_ulong_t_def spinlock_t_def
      struct_spinlock_layout struct_callback_head_layout
      del: One_nat_def)

lemma struct_mfd_cell_acpi_match_layout [layout_simps]:
  "sizeof struct_mfd_cell_acpi_match = 16 \<and> alignof struct_mfd_cell_acpi_match = 8 \<and> wf_cty struct_mfd_cell_acpi_match"
  by (simp add: struct_mfd_cell_acpi_match_def base_types layout_eval
      del: One_nat_def)

lemma struct_napi_config_layout [layout_simps]:
  "sizeof struct_napi_config = 1056 \<and> alignof struct_napi_config = 8 \<and> wf_cty struct_napi_config"
  by (simp add: struct_napi_config_def base_types layout_eval u64_def c__u64_def u32_def c__u32_def cpumask_t_def
      struct_cpumask_layout u8_def c__u8_def
      del: One_nat_def)

lemma struct_ndisc_ops_layout [layout_simps]:
  "sizeof struct_ndisc_ops = 40 \<and> alignof struct_ndisc_ops = 8 \<and> wf_cty struct_ndisc_ops"
  by (simp add: struct_ndisc_ops_def base_types layout_eval
      del: One_nat_def)

lemma struct_net_device_core_stats_layout [layout_simps]:
  "sizeof struct_net_device_core_stats = 32 \<and> alignof struct_net_device_core_stats = 8 \<and> wf_cty struct_net_device_core_stats"
  by (simp add: struct_net_device_core_stats_def base_types layout_eval
      del: One_nat_def)

lemma struct_net_device_ops_layout [layout_simps]:
  "sizeof struct_net_device_ops = 744 \<and> alignof struct_net_device_ops = 8 \<and> wf_cty struct_net_device_ops"
  by (simp add: struct_net_device_ops_def base_types layout_eval
      del: One_nat_def)

lemma struct_net_shaper_hierarchy_layout [layout_simps]:
  "sizeof struct_net_shaper_hierarchy = 16 \<and> alignof struct_net_shaper_hierarchy = 8 \<and> wf_cty struct_net_shaper_hierarchy"
  by (simp add: struct_net_shaper_hierarchy_def base_types layout_eval struct_xarray_layout
      del: One_nat_def)

lemma struct_netdev_config_layout [layout_simps]:
  "sizeof struct_netdev_config = 8 \<and> alignof struct_netdev_config = 4 \<and> wf_cty struct_netdev_config"
  by (simp add: struct_netdev_config_def base_types layout_eval u32_def c__u32_def u8_def c__u8_def
      del: One_nat_def)

lemma struct_netdev_name_node_layout [layout_simps]:
  "sizeof struct_netdev_name_node = 64 \<and> alignof struct_netdev_name_node = 8 \<and> wf_cty struct_netdev_name_node"
  by (simp add: struct_netdev_name_node_def base_types layout_eval struct_hlist_node_layout struct_list_head_layout
      struct_callback_head_layout
      del: One_nat_def)

lemma struct_dql_layout [layout_simps]:
  "sizeof struct_dql = 128 \<and> alignof struct_dql = 8 \<and> wf_cty struct_dql"
  by (simp add: struct_dql_def base_types layout_eval
      del: One_nat_def)

lemma struct_netdev_queue_layout [layout_simps]:
  "sizeof struct_netdev_queue = 320 \<and> alignof struct_netdev_queue = 8 \<and> wf_cty struct_netdev_queue"
  by (simp add: struct_netdev_queue_def base_types layout_eval netdevice_tracker_layout struct_kobject_layout
      atomic_long_t_def atomic64_t_layout struct_dql_layout spinlock_t_def struct_spinlock_layout
      del: One_nat_def)

lemma struct_netdev_queue_mgmt_ops_layout [layout_simps]:
  "sizeof struct_netdev_queue_mgmt_ops = 72 \<and> alignof struct_netdev_queue_mgmt_ops = 8 \<and> wf_cty struct_netdev_queue_mgmt_ops"
  by (simp add: struct_netdev_queue_mgmt_ops_def base_types layout_eval size_t_def c__kernel_size_t_def
      c__kernel_ulong_t_def
      del: One_nat_def)

lemma struct_xdp_mem_info_layout [layout_simps]:
  "sizeof struct_xdp_mem_info = 8 \<and> alignof struct_xdp_mem_info = 4 \<and> wf_cty struct_xdp_mem_info"
  by (simp add: struct_xdp_mem_info_def base_types layout_eval u32_def c__u32_def
      del: One_nat_def)

lemma struct_xdp_rxq_info_layout [layout_simps]:
  "sizeof struct_xdp_rxq_info = 64 \<and> alignof struct_xdp_rxq_info = 8 \<and> wf_cty struct_xdp_rxq_info"
  by (simp add: struct_xdp_rxq_info_def base_types layout_eval u32_def c__u32_def struct_xdp_mem_info_layout
      del: One_nat_def)

lemma struct_netdev_queue_config_layout [layout_simps]:
  "sizeof struct_netdev_queue_config = 4 \<and> alignof struct_netdev_queue_config = 4 \<and> wf_cty struct_netdev_queue_config"
  by (simp add: struct_netdev_queue_config_def base_types layout_eval u32_def c__u32_def
      del: One_nat_def)

lemma struct_pp_memory_provider_params_layout [layout_simps]:
  "sizeof struct_pp_memory_provider_params = 24 \<and> alignof struct_pp_memory_provider_params = 8 \<and> wf_cty struct_pp_memory_provider_params"
  by (simp add: struct_pp_memory_provider_params_def base_types layout_eval u32_def c__u32_def
      del: One_nat_def)

lemma struct_netdev_rx_queue_layout [layout_simps]:
  "sizeof struct_netdev_rx_queue = 256 \<and> alignof struct_netdev_rx_queue = 8 \<and> wf_cty struct_netdev_rx_queue"
  by (simp add: struct_netdev_rx_queue_def base_types layout_eval struct_xdp_rxq_info_layout struct_kobject_layout
      netdevice_tracker_layout struct_netdev_queue_config_layout struct_pp_memory_provider_params_layout
      del: One_nat_def)

lemma struct_netdev_stat_ops_layout [layout_simps]:
  "sizeof struct_netdev_stat_ops = 24 \<and> alignof struct_netdev_stat_ops = 8 \<and> wf_cty struct_netdev_stat_ops"
  by (simp add: struct_netdev_stat_ops_def base_types layout_eval
      del: One_nat_def)

lemma struct_netlbl_lsm_cache_layout [layout_simps]:
  "sizeof struct_netlbl_lsm_cache = 24 \<and> alignof struct_netlbl_lsm_cache = 8 \<and> wf_cty struct_netlbl_lsm_cache"
  by (simp add: struct_netlbl_lsm_cache_def base_types layout_eval refcount_t_def struct_refcount_struct_layout
      del: One_nat_def)

lemma struct_netlbl_lsm_catmap_layout [layout_simps]:
  "sizeof struct_netlbl_lsm_catmap = 48 \<and> alignof struct_netlbl_lsm_catmap = 8 \<and> wf_cty struct_netlbl_lsm_catmap"
  by (simp add: struct_netlbl_lsm_catmap_def base_types layout_eval u32_def c__u32_def u64_def c__u64_def
      del: One_nat_def)

lemma struct_semaphore_layout [layout_simps]:
  "sizeof struct_semaphore = 32 \<and> alignof struct_semaphore = 8 \<and> wf_cty struct_semaphore"
  by (simp add: struct_semaphore_def base_types layout_eval raw_spinlock_t_def struct_raw_spinlock_layout
      struct_list_head_layout
      del: One_nat_def)

lemma struct_netpoll_info_layout [layout_simps]:
  "sizeof struct_netpoll_info = 168 \<and> alignof struct_netpoll_info = 8 \<and> wf_cty struct_netpoll_info"
  by (simp add: struct_netpoll_info_def base_types layout_eval refcount_t_def struct_refcount_struct_layout
      struct_semaphore_layout struct_sk_buff_head_layout struct_delayed_work_layout
      struct_callback_head_layout
      del: One_nat_def)

lemma struct_netprio_map_layout [layout_simps]:
  "sizeof struct_netprio_map = 24 \<and> alignof struct_netprio_map = 8 \<and> wf_cty struct_netprio_map"
  by (simp add: struct_netprio_map_def base_types layout_eval struct_callback_head_layout u32_def c__u32_def
      del: One_nat_def)

lemma struct_nexthop_layout [layout_simps]:
  "sizeof struct_nexthop = 136 \<and> alignof struct_nexthop = 8 \<and> wf_cty struct_nexthop"
  by (simp add: struct_nexthop_def base_types layout_eval struct_rb_node_layout struct_list_head_layout u32_def
      c__u32_def u8_def c__u8_def bool_def spinlock_t_def struct_spinlock_layout refcount_t_def
      struct_refcount_struct_layout struct_callback_head_layout
      del: One_nat_def)

lemma struct_nfs4_state_owner_layout [layout_simps]:
  "sizeof struct_nfs4_state_owner = 376 \<and> alignof struct_nfs4_state_owner = 8 \<and> wf_cty struct_nfs4_state_owner"
  by (simp add: struct_nfs4_state_owner_def base_types layout_eval struct_list_head_layout struct_rb_node_layout
      spinlock_t_def struct_spinlock_layout atomic_t_layout struct_nfs_seqid_counter_layout
      struct_mutex_layout
      del: One_nat_def)

lemma struct_node_barn_layout [layout_simps]:
  "sizeof struct_node_barn = 48 \<and> alignof struct_node_barn = 8 \<and> wf_cty struct_node_barn"
  by (simp add: struct_node_barn_def base_types layout_eval spinlock_t_def struct_spinlock_layout struct_list_head_layout
      del: One_nat_def)

lemma struct_numa_drop_counters_layout [layout_simps]:
  "sizeof struct_numa_drop_counters = 128 \<and> alignof struct_numa_drop_counters = 4 \<and> wf_cty struct_numa_drop_counters"
  by (simp add: struct_numa_drop_counters_def base_types layout_eval atomic_t_layout
      del: One_nat_def)

lemma struct_pci_tsm_link_ops_layout [layout_simps]:
  "sizeof struct_pci_tsm_link_ops = 56 \<and> alignof struct_pci_tsm_link_ops = 8 \<and> wf_cty struct_pci_tsm_link_ops"
  by (simp add: struct_pci_tsm_link_ops_def base_types layout_eval
      del: One_nat_def)

lemma struct_pci_tsm_devsec_ops_layout [layout_simps]:
  "sizeof struct_pci_tsm_devsec_ops = 16 \<and> alignof struct_pci_tsm_devsec_ops = 8 \<and> wf_cty struct_pci_tsm_devsec_ops"
  by (simp add: struct_pci_tsm_devsec_ops_def base_types layout_eval
      del: One_nat_def)

lemma struct_pci_tsm_ops_layout [layout_simps]:
  "sizeof struct_pci_tsm_ops = 72 \<and> alignof struct_pci_tsm_ops = 8 \<and> wf_cty struct_pci_tsm_ops"
  by (simp add: struct_pci_tsm_ops_def base_types layout_eval struct_pci_tsm_link_ops_layout
      struct_pci_tsm_devsec_ops_layout
      del: One_nat_def)

lemma struct_pcpu_dstats_layout [layout_simps]:
  "sizeof struct_pcpu_dstats = 64 \<and> alignof struct_pcpu_dstats = 8 \<and> wf_cty struct_pcpu_dstats"
  by (simp add: struct_pcpu_dstats_def base_types layout_eval u64_stats_t_layout struct_u64_stats_sync_layout
      del: One_nat_def)

lemma struct_pcpu_lstats_layout [layout_simps]:
  "sizeof struct_pcpu_lstats = 16 \<and> alignof struct_pcpu_lstats = 8 \<and> wf_cty struct_pcpu_lstats"
  by (simp add: struct_pcpu_lstats_def base_types layout_eval u64_stats_t_layout struct_u64_stats_sync_layout
      del: One_nat_def)

lemma struct_pcpu_sw_netstats_layout [layout_simps]:
  "sizeof struct_pcpu_sw_netstats = 32 \<and> alignof struct_pcpu_sw_netstats = 8 \<and> wf_cty struct_pcpu_sw_netstats"
  by (simp add: struct_pcpu_sw_netstats_def base_types layout_eval u64_stats_t_layout struct_u64_stats_sync_layout
      del: One_nat_def)

lemma struct_per_frame_masks_layout [layout_simps]:
  "sizeof struct_per_frame_masks = 32 \<and> alignof struct_per_frame_masks = 8 \<and> wf_cty struct_per_frame_masks"
  by (simp add: struct_per_frame_masks_def base_types layout_eval u64_def c__u64_def
      del: One_nat_def)

lemma struct_perf_domain_layout [layout_simps]:
  "sizeof struct_perf_domain = 32 \<and> alignof struct_perf_domain = 8 \<and> wf_cty struct_perf_domain"
  by (simp add: struct_perf_domain_def base_types layout_eval struct_callback_head_layout
      del: One_nat_def)

lemma struct_free_area_layout [layout_simps]:
  "sizeof struct_free_area = 104 \<and> alignof struct_free_area = 8 \<and> wf_cty struct_free_area"
  by (simp add: struct_free_area_def base_types layout_eval struct_list_head_layout
      del: One_nat_def)

lemma struct_zone_layout [layout_simps]:
  "sizeof struct_zone = 1728 \<and> alignof struct_zone = 8 \<and> wf_cty struct_zone"
  by (simp add: struct_zone_def base_types layout_eval atomic_long_t_def atomic64_t_layout seqlock_t_def
      struct_seqlock_layout struct_cacheline_padding_layout struct_free_area_layout
      struct_list_head_layout struct_work_struct_layout spinlock_t_def struct_spinlock_layout
      struct_llist_head_layout bool_def
      del: One_nat_def)

lemma struct_zoneref_layout [layout_simps]:
  "sizeof struct_zoneref = 16 \<and> alignof struct_zoneref = 8 \<and> wf_cty struct_zoneref"
  by (simp add: struct_zoneref_def base_types layout_eval
      del: One_nat_def)

lemma struct_zonelist_layout [layout_simps]:
  "sizeof struct_zonelist = 81936 \<and> alignof struct_zonelist = 8 \<and> wf_cty struct_zonelist"
  by (simp add: struct_zonelist_def base_types layout_eval struct_zoneref_layout
      del: One_nat_def)

lemma enum_zone_type_layout [layout_simps]:
  "sizeof enum_zone_type = 4 \<and> alignof enum_zone_type = 4 \<and> wf_cty enum_zone_type"
  by (simp add: enum_zone_type_def base_types layout_eval
      del: One_nat_def)

lemma struct_lru_gen_memcg_layout [layout_simps]:
  "sizeof struct_lru_gen_memcg = 232 \<and> alignof struct_lru_gen_memcg = 8 \<and> wf_cty struct_lru_gen_memcg"
  by (simp add: struct_lru_gen_memcg_def base_types layout_eval struct_hlist_nulls_head_layout spinlock_t_def
      struct_spinlock_layout
      del: One_nat_def)

end
