(* ===== verification/KernelReach3c.thy ===== *)
theory KernelReach3c
  imports KernelReach2c KernelReach3b
begin

text \<open>
  Types of \<^verbatim>\<open>bpf/vmlinux.h\<close> that are three dereferences away from the objects the program and its loading
  touch, with every type they hold by value (part 3 of 4).
\<close>

section \<open>Types\<close>

definition struct_memory_failure_stats :: cty where
  "struct_memory_failure_stats = CStruct ''memory_failure_stats'' False
     [Field ''total'' long_unsigned_int,
      Field ''ignored'' long_unsigned_int,
      Field ''failed'' long_unsigned_int,
      Field ''delayed'' long_unsigned_int,
      Field ''recovered'' long_unsigned_int]"

definition struct_pglist_data :: cty where
  "struct_pglist_data = CStruct ''pglist_data'' False
     [Field ''node_zones'' (CArr 5 struct_zone),
      Field ''node_zonelists'' (CArr 2 struct_zonelist),
      Field ''nr_zones'' c_int,
      Field ''node_size_lock'' spinlock_t,
      Field ''node_start_pfn'' long_unsigned_int,
      Field ''node_present_pages'' long_unsigned_int,
      Field ''node_spanned_pages'' long_unsigned_int,
      Field ''node_id'' c_int,
      Field ''kswapd_wait'' wait_queue_head_t,
      Field ''pfmemalloc_wait'' wait_queue_head_t,
      Field ''reclaim_wait'' (CArr 4 wait_queue_head_t),
      Field ''nr_writeback_throttled'' atomic_t,
      Field ''nr_reclaim_start'' long_unsigned_int,
      Field ''kswapd_lock'' struct_mutex,
      Field ''kswapd'' (CPtr ''struct task_struct''),
      Field ''kswapd_order'' c_int,
      Field ''kswapd_highest_zoneidx'' enum_zone_type,
      Field ''kswapd_failures'' atomic_t,
      Field ''kcompactd_max_order'' c_int,
      Field ''kcompactd_highest_zoneidx'' enum_zone_type,
      Field ''kcompactd_wait'' wait_queue_head_t,
      Field ''kcompactd'' (CPtr ''struct task_struct''),
      Field ''proactive_compact_trigger'' bool,
      Field ''totalreserve_pages'' long_unsigned_int,
      Field ''min_unmapped_pages'' long_unsigned_int,
      Field ''min_slab_pages'' long_unsigned_int,
      BitField [] c_long 64,
      BitField [] c_long 64,
      BitField [] c_long 64,
      Field ''_pad1_'' struct_cacheline_padding,
      Field ''deferred_split_queue'' struct_deferred_split,
      Field ''nbp_rl_start'' unsigned_int,
      Field ''nbp_rl_nr_cand'' long_unsigned_int,
      Field ''nbp_threshold'' unsigned_int,
      Field ''nbp_th_start'' unsigned_int,
      Field ''nbp_th_nr_cand'' long_unsigned_int,
      Field ''__lruvec'' struct_lruvec,
      Field ''flags'' long_unsigned_int,
      Field ''mm_walk'' struct_lru_gen_mm_walk,
      Field ''memcg_lru'' struct_lru_gen_memcg,
      BitField [] c_long 64,
      Field ''_pad2_'' struct_cacheline_padding,
      Field ''per_cpu_nodestats'' (CPtr ''struct per_cpu_nodestat''),
      Field ''vm_stat'' (CArr 51 atomic_long_t),
      Field ''memtier'' (CPtr ''struct memory_tier''),
      Field ''mf_stats'' struct_memory_failure_stats,
      BitField [] c_long 64,
      BitField [] c_long 64,
      BitField [] c_long 64,
      BitField [] c_long 64,
      BitField [] c_long 64,
      BitField [] c_long 64]"

definition struct_mdio_device :: cty where
  "struct_mdio_device = CStruct ''mdio_device'' False
     [Field ''dev'' struct_device,
      Field ''bus'' (CPtr ''struct mii_bus''),
      Field ''bus_match'' (CPtr ''int (struct device *, const struct device_driver *)''),
      Field ''device_free'' (CPtr ''void (struct mdio_device *)''),
      Field ''device_remove'' (CPtr ''void (struct mdio_device *)''),
      Field ''addr'' c_int,
      Field ''flags'' c_int,
      Field ''reset_state'' c_int,
      Field ''reset_gpio'' (CPtr ''struct gpio_desc''),
      Field ''reset_ctrl'' (CPtr ''struct reset_control''),
      Field ''reset_assert_delay'' unsigned_int,
      Field ''reset_deassert_delay'' unsigned_int]"

definition struct_phy_c45_device_ids :: cty where
  "struct_phy_c45_device_ids = CStruct ''phy_c45_device_ids'' False
     [Field ''devices_in_package'' u32,
      Field ''mmds_present'' u32,
      Field ''device_ids'' (CArr 32 u32)]"

definition enum_phy_state :: cty where
  "enum_phy_state = CEnum 4
     [(''PHY_DOWN'', 0), (''PHY_READY'', 1), (''PHY_HALTED'', 2), (''PHY_ERROR'', 3),
      (''PHY_UP'', 4), (''PHY_RUNNING'', 5), (''PHY_NOLINK'', 6), (''PHY_CABLETEST'', 7)]"

definition phy_interface_t :: cty where
  "phy_interface_t = CEnum 4 [(''PHY_INTERFACE_MODE_NA'', 0), (''PHY_INTERFACE_MODE_INTERNAL'', 1),
         (''PHY_INTERFACE_MODE_MII'', 2), (''PHY_INTERFACE_MODE_GMII'', 3),
         (''PHY_INTERFACE_MODE_SGMII'', 4), (''PHY_INTERFACE_MODE_TBI'', 5),
         (''PHY_INTERFACE_MODE_REVMII'', 6), (''PHY_INTERFACE_MODE_RMII'', 7),
         (''PHY_INTERFACE_MODE_REVRMII'', 8), (''PHY_INTERFACE_MODE_RGMII'', 9),
         (''PHY_INTERFACE_MODE_RGMII_ID'', 10), (''PHY_INTERFACE_MODE_RGMII_RXID'', 11),
         (''PHY_INTERFACE_MODE_RGMII_TXID'', 12), (''PHY_INTERFACE_MODE_RTBI'', 13),
         (''PHY_INTERFACE_MODE_SMII'', 14), (''PHY_INTERFACE_MODE_XGMII'', 15),
         (''PHY_INTERFACE_MODE_XLGMII'', 16), (''PHY_INTERFACE_MODE_MOCA'', 17),
         (''PHY_INTERFACE_MODE_PSGMII'', 18), (''PHY_INTERFACE_MODE_QSGMII'', 19),
         (''PHY_INTERFACE_MODE_TRGMII'', 20), (''PHY_INTERFACE_MODE_100BASEX'', 21),
         (''PHY_INTERFACE_MODE_1000BASEX'', 22), (''PHY_INTERFACE_MODE_2500BASEX'', 23),
         (''PHY_INTERFACE_MODE_5GBASER'', 24), (''PHY_INTERFACE_MODE_RXAUI'', 25),
         (''PHY_INTERFACE_MODE_XAUI'', 26), (''PHY_INTERFACE_MODE_10GBASER'', 27),
         (''PHY_INTERFACE_MODE_25GBASER'', 28), (''PHY_INTERFACE_MODE_USXGMII'', 29),
         (''PHY_INTERFACE_MODE_10GKR'', 30), (''PHY_INTERFACE_MODE_QUSGMII'', 31),
         (''PHY_INTERFACE_MODE_1000BASEKX'', 32), (''PHY_INTERFACE_MODE_10G_QXGMII'', 33),
         (''PHY_INTERFACE_MODE_50GBASER'', 34), (''PHY_INTERFACE_MODE_LAUI'', 35),
         (''PHY_INTERFACE_MODE_100GBASEP'', 36), (''PHY_INTERFACE_MODE_MIILITE'', 37),
         (''PHY_INTERFACE_MODE_MAX'', 38)]"

definition struct_eee_config :: cty where
  "struct_eee_config = CStruct ''eee_config'' False
     [Field ''tx_lpi_timer'' u32,
      Field ''tx_lpi_enabled'' bool,
      Field ''eee_enabled'' bool]"

definition struct_phy_oatc14_sqi_capability :: cty where
  "struct_phy_oatc14_sqi_capability = CStruct ''phy_oatc14_sqi_capability'' False
     [Field ''updated'' bool,
      Field ''sqi_max'' c_int,
      Field ''sqiplus_bits'' u8]"

definition struct_phy_device :: cty where
  "struct_phy_device = CStruct ''phy_device'' False
     [Field ''mdio'' struct_mdio_device,
      Field ''drv'' (CPtr ''const struct phy_driver''),
      Field ''devlink'' (CPtr ''struct device_link''),
      Field ''phyindex'' u32,
      Field ''phy_id'' u32,
      Field ''c45_ids'' struct_phy_c45_device_ids,
      BitField ''is_c45'' unsigned_int 1,
      BitField ''is_internal'' unsigned_int 1,
      BitField ''is_pseudo_fixed_link'' unsigned_int 1,
      BitField ''is_gigabit_capable'' unsigned_int 1,
      BitField ''has_fixups'' unsigned_int 1,
      BitField ''suspended'' unsigned_int 1,
      BitField ''suspended_by_mdio_bus'' unsigned_int 1,
      BitField ''sysfs_links'' unsigned_int 1,
      BitField ''loopback_enabled'' unsigned_int 1,
      BitField ''downshifted_rate'' unsigned_int 1,
      BitField ''is_on_sfp_module'' unsigned_int 1,
      BitField ''mac_managed_pm'' unsigned_int 1,
      BitField ''wol_enabled'' unsigned_int 1,
      BitField ''is_genphy_driven'' unsigned_int 1,
      BitField ''autoneg'' unsigned_int 1,
      BitField ''link'' unsigned_int 1,
      BitField ''autoneg_complete'' unsigned_int 1,
      BitField ''pause'' bool 1,
      BitField ''asym_pause'' bool 1,
      BitField ''interrupts'' unsigned_int 1,
      BitField ''irq_suspended'' unsigned_int 1,
      BitField ''irq_rerun'' unsigned_int 1,
      BitField ''default_timestamp'' unsigned_int 1,
      Field ''rate_matching'' c_int,
      Field ''state'' enum_phy_state,
      Field ''dev_flags'' u32,
      Field ''interface'' phy_interface_t,
      Field ''possible_interfaces'' (CArr 1 long_unsigned_int),
      Field ''speed'' c_int,
      Field ''duplex'' c_int,
      Field ''port'' c_int,
      Field ''master_slave_get'' u8,
      Field ''master_slave_set'' u8,
      Field ''master_slave_state'' u8,
      Field ''supported'' (CArr 2 long_unsigned_int),
      Field ''advertising'' (CArr 2 long_unsigned_int),
      Field ''lp_advertising'' (CArr 2 long_unsigned_int),
      Field ''adv_old'' (CArr 2 long_unsigned_int),
      Field ''supported_eee'' (CArr 2 long_unsigned_int),
      Field ''advertising_eee'' (CArr 2 long_unsigned_int),
      Field ''eee_disabled_modes'' (CArr 2 long_unsigned_int),
      Field ''enable_tx_lpi'' bool,
      Field ''eee_active'' bool,
      Field ''eee_cfg'' struct_eee_config,
      Field ''host_interfaces'' (CArr 1 long_unsigned_int),
      Field ''phy_led_triggers'' (CPtr ''struct phy_led_trigger''),
      Field ''phy_num_led_triggers'' unsigned_int,
      Field ''last_triggered'' (CPtr ''struct phy_led_trigger''),
      Field ''led_link_trigger'' (CPtr ''struct phy_led_trigger''),
      Field ''leds'' struct_list_head,
      Field ''irq'' c_int,
      Field ''priv'' (CPtr ''void''),
      Field ''shared'' (CPtr ''struct phy_package_shared''),
      Field ''skb'' (CPtr ''struct sk_buff''),
      Field ''ehdr'' (CPtr ''void''),
      Field ''nest'' (CPtr ''struct nlattr''),
      Field ''state_queue'' struct_delayed_work,
      Field ''lock'' struct_mutex,
      Field ''sfp_bus_attached'' bool,
      Field ''sfp_bus'' (CPtr ''struct sfp_bus''),
      Field ''phylink'' (CPtr ''struct phylink''),
      Field ''attached_dev'' (CPtr ''struct net_device''),
      Field ''mii_ts'' (CPtr ''struct mii_timestamper''),
      Field ''psec'' (CPtr ''struct pse_control''),
      Field ''ports'' struct_list_head,
      Field ''n_ports'' c_int,
      Field ''max_n_ports'' c_int,
      Field ''mdix'' u8,
      Field ''mdix_ctrl'' u8,
      Field ''pma_extable'' c_int,
      Field ''link_down_events'' unsigned_int,
      Field ''phy_link_change'' (CPtr ''void (struct phy_device *, bool)''),
      Field ''adjust_link'' (CPtr ''void (struct net_device *)''),
      Field ''macsec_ops'' (CPtr ''const struct macsec_ops''),
      Field ''oatc14_sqi_capability'' struct_phy_oatc14_sqi_capability]"

definition struct_phy_link_topology :: cty where
  "struct_phy_link_topology = CStruct ''phy_link_topology'' False
     [Field ''phys'' struct_xarray,
      Field ''next_phy_index'' u32]"

definition struct_pipe_buf_operations :: cty where
  "struct_pipe_buf_operations = CStruct ''pipe_buf_operations'' False
     [Field ''confirm'' (CPtr ''int (struct pipe_inode_info *, struct pipe_buffer *)''),
      Field ''release'' (CPtr ''void (struct pipe_inode_info *, struct pipe_buffer *)''),
      Field ''try_steal'' (CPtr ''bool (struct pipe_inode_info *, struct pipe_buffer *)''),
      Field ''get'' (CPtr ''bool (struct pipe_inode_info *, struct pipe_buffer *)'')]"

definition struct_proto :: cty where
  "struct_proto = CStruct ''proto'' False
     [Field ''close'' (CPtr ''void (struct sock *, long int)''),
      Field ''pre_connect'' (CPtr ''int (struct sock *, struct sockaddr_unsized *, int)''),
      Field ''connect'' (CPtr ''int (struct sock *, struct sockaddr_unsized *, int)''),
      Field ''disconnect'' (CPtr ''int (struct sock *, int)''),
      Field ''accept'' (CPtr ''struct sock * (struct sock *, struct proto_accept_arg *)''),
      Field ''ioctl'' (CPtr ''int (struct sock *, int, int *)''),
      Field ''init'' (CPtr ''int (struct sock *)''),
      Field ''destroy'' (CPtr ''void (struct sock *)''),
      Field ''shutdown'' (CPtr ''void (struct sock *, int)''),
      Field ''setsockopt'' (CPtr ''int (struct sock *, int, int, sockptr_t, unsigned int)''),
      Field ''getsockopt'' (CPtr ''int (struct sock *, int, int, char *, int *)''),
      Field ''keepalive'' (CPtr ''void (struct sock *, int)''),
      Field ''compat_ioctl'' (CPtr ''int (struct sock *, unsigned int, long unsigned int)''),
      Field ''sendmsg'' (CPtr ''int (struct sock *, struct msghdr *, size_t)''),
      Field ''recvmsg'' (CPtr ''int (struct sock *, struct msghdr *, size_t, int, int *)''),
      Field ''splice_eof'' (CPtr ''void (struct socket *)''),
      Field ''bind'' (CPtr ''int (struct sock *, struct sockaddr_unsized *, int)''),
      Field ''bind_add'' (CPtr ''int (struct sock *, struct sockaddr_unsized *, int)''),
      Field ''backlog_rcv'' (CPtr ''int (struct sock *, struct sk_buff *)''),
      Field ''bpf_bypass_getsockopt'' (CPtr ''bool (int, int)''),
      Field ''release_cb'' (CPtr ''void (struct sock *)''),
      Field ''hash'' (CPtr ''int (struct sock *)''),
      Field ''unhash'' (CPtr ''void (struct sock *)''),
      Field ''rehash'' (CPtr ''void (struct sock *)''),
      Field ''get_port'' (CPtr ''int (struct sock *, short unsigned int)''),
      Field ''put_port'' (CPtr ''void (struct sock *)''),
      Field ''psock_update_sk_prot'' (CPtr ''int (struct sock *, struct sk_psock *, bool)''),
      Field ''inuse_idx'' unsigned_int,
      Field ''stream_memory_free'' (CPtr ''bool (const struct sock *, int)''),
      Field ''sock_is_readable'' (CPtr ''bool (struct sock *)''),
      Field ''enter_memory_pressure'' (CPtr ''void (struct sock *)''),
      Field ''leave_memory_pressure'' (CPtr ''void (struct sock *)''),
      Field ''memory_allocated'' (CPtr ''atomic_long_t''),
      Field ''per_cpu_fw_alloc'' (CPtr ''int''),
      Field ''sockets_allocated'' (CPtr ''struct percpu_counter''),
      Field ''memory_pressure'' (CPtr ''long unsigned int''),
      Field ''sysctl_mem'' (CPtr ''long int''),
      Field ''sysctl_wmem'' (CPtr ''int''),
      Field ''sysctl_rmem'' (CPtr ''int''),
      Field ''sysctl_wmem_offset'' u32,
      Field ''sysctl_rmem_offset'' u32,
      Field ''max_header'' c_int,
      Field ''no_autobind'' bool,
      Field ''slab'' (CPtr ''struct kmem_cache''),
      Field ''obj_size'' unsigned_int,
      Field ''freeptr_offset'' unsigned_int,
      Field ''ipv6_pinfo_offset'' unsigned_int,
      Field ''slab_flags'' slab_flags_t,
      Field ''useroffset'' unsigned_int,
      Field ''usersize'' unsigned_int,
      Field ''rsk_prot'' (CPtr ''struct request_sock_ops''),
      Field ''twsk_prot'' (CPtr ''struct timewait_sock_ops''),
      Field ''h'' (CUnion [] False
        [Field ''hashinfo'' (CPtr ''struct inet_hashinfo''),
         Field ''udp_table'' (CPtr ''struct udp_table''),
         Field ''raw_hash'' (CPtr ''struct raw_hashinfo''),
         Field ''smc_hash'' (CPtr ''struct smc_hashinfo'')]),
      Field ''owner'' (CPtr ''struct module''),
      Field ''name'' (CArr 32 c_char),
      Field ''node'' struct_list_head,
      Field ''diag_destroy'' (CPtr ''int (struct sock *, int)'')]"

definition struct_psp_key_parsed :: cty where
  "struct_psp_key_parsed = CStruct ''psp_key_parsed'' False
     [Field ''spi'' c__be32,
      Field ''key'' (CArr 32 u8)]"

definition struct_psp_assoc :: cty where
  "struct_psp_assoc = CStruct ''psp_assoc'' False
     [Field ''psd'' (CPtr ''struct psp_dev''),
      Field ''dev_id'' u16,
      Field ''generation'' u8,
      Field ''version'' u8,
      Field ''peer_tx'' u8,
      Field ''upgrade_seq'' u32,
      Field ''tx'' struct_psp_key_parsed,
      Field ''rx'' struct_psp_key_parsed,
      Field ''refcnt'' refcount_t,
      Field ''rcu'' struct_callback_head,
      Field ''work'' struct_work_struct,
      Field ''assocs_list'' struct_list_head,
      Field ''drv_data'' (CArr 0 u8)]"

definition struct_psp_dev_config :: cty where
  "struct_psp_dev_config = CStruct ''psp_dev_config'' False
     [Field ''versions'' u32]"

definition struct_psp_dev :: cty where
  "struct_psp_dev = CStruct ''psp_dev'' False
     [Field ''main_netdev'' (CPtr ''struct net_device''),
      Field ''ops'' (CPtr ''struct psp_dev_ops''),
      Field ''caps'' (CPtr ''struct psp_dev_caps''),
      Field ''drv_priv'' (CPtr ''void''),
      Field ''lock'' struct_mutex,
      Field ''refcnt'' refcount_t,
      Field ''id'' u32,
      Field ''generation'' u8,
      Field ''config'' struct_psp_dev_config,
      Field ''active_assocs'' struct_list_head,
      Field ''prev_assocs'' struct_list_head,
      Field ''stale_assocs'' struct_list_head,
      Field ''stats'' (CStruct [] False
        [Field ''rotations'' long_unsigned_int,
         Field ''stales'' long_unsigned_int]),
      Field ''rcu'' struct_callback_head]"

definition struct_rchan_buf_stats :: cty where
  "struct_rchan_buf_stats = CStruct ''rchan_buf_stats'' False
     [Field ''full_count'' unsigned_int,
      Field ''big_count'' unsigned_int]"

definition struct_rchan_buf :: cty where
  "struct_rchan_buf = CStruct ''rchan_buf'' False
     [Field ''start'' (CPtr ''void''),
      Field ''data'' (CPtr ''void''),
      Field ''offset'' size_t,
      Field ''subbufs_produced'' size_t,
      Field ''subbufs_consumed'' size_t,
      Field ''chan'' (CPtr ''struct rchan''),
      Field ''read_wait'' wait_queue_head_t,
      Field ''wakeup_work'' struct_irq_work,
      Field ''dentry'' (CPtr ''struct dentry''),
      Field ''kref'' struct_kref,
      Field ''stats'' struct_rchan_buf_stats,
      Field ''page_array'' (CPtr ''struct page *''),
      Field ''page_count'' unsigned_int,
      Field ''finalized'' unsigned_int,
      Field ''padding'' (CPtr ''size_t''),
      Field ''bytes_consumed'' size_t,
      Field ''early_bytes'' size_t,
      Field ''cpu'' unsigned_int,
      BitField [] c_long 64,
      BitField [] c_long 64]"

definition struct_rchan_callbacks :: cty where
  "struct_rchan_callbacks = CStruct ''rchan_callbacks'' False
     [Field ''subbuf_start'' (CPtr ''int (struct rchan_buf *, void *, void *)''),
      Field ''create_buf_file'' (CPtr ''struct dentry * (const char *, struct dentry *, umode_t, struct rchan_buf *, int *)''),
      Field ''remove_buf_file'' (CPtr ''int (struct dentry *)'')]"

definition struct_coupling_desc :: cty where
  "struct_coupling_desc = CStruct ''coupling_desc'' False
     [Field ''coupled_rdevs'' (CPtr ''struct regulator_dev *''),
      Field ''coupler'' (CPtr ''struct regulator_coupler''),
      Field ''n_resolved'' c_int,
      Field ''n_coupled'' c_int]"

definition struct_regulator_dev :: cty where
  "struct_regulator_dev = CStruct ''regulator_dev'' False
     [Field ''desc'' (CPtr ''const struct regulator_desc''),
      Field ''exclusive'' c_int,
      Field ''use_count'' u32,
      Field ''open_count'' u32,
      Field ''bypass_count'' u32,
      Field ''list'' struct_list_head,
      Field ''consumer_list'' struct_list_head,
      Field ''coupling_desc'' struct_coupling_desc,
      Field ''notifier'' struct_blocking_notifier_head,
      Field ''mutex'' struct_ww_mutex,
      Field ''mutex_owner'' (CPtr ''struct task_struct''),
      Field ''ref_cnt'' c_int,
      Field ''owner'' (CPtr ''struct module''),
      Field ''dev'' struct_device,
      Field ''bdev'' struct_device,
      Field ''constraints'' (CPtr ''struct regulation_constraints''),
      Field ''supply'' (CPtr ''struct regulator''),
      Field ''supply_name'' (CPtr ''const char''),
      Field ''regmap'' (CPtr ''struct regmap''),
      Field ''disable_work'' struct_delayed_work,
      Field ''reg_data'' (CPtr ''void''),
      Field ''debugfs'' (CPtr ''struct dentry''),
      Field ''ena_pin'' (CPtr ''struct regulator_enable_gpio''),
      BitField ''ena_gpio_state'' unsigned_int 1,
      BitField ''constraints_pending'' unsigned_int 1,
      BitField ''is_switch'' unsigned_int 1,
      Field ''last_off'' ktime_t,
      Field ''cached_err'' c_int,
      Field ''use_cached_err'' bool,
      Field ''err_lock'' spinlock_t,
      Field ''pw_requested_mW'' c_int,
      Field ''supply_fwd_nb'' struct_notifier_block]"

definition struct_rt6_exception_bucket :: cty where
  "struct_rt6_exception_bucket = CStruct ''rt6_exception_bucket'' False
     [Field ''chain'' struct_hlist_head,
      Field ''depth'' c_int]"

definition struct_rtable :: cty where
  "struct_rtable = CStruct ''rtable'' False
     [Field ''dst'' struct_dst_entry,
      Field ''rt_genid'' c_int,
      Field ''rt_flags'' unsigned_int,
      Field ''rt_type'' c__u16,
      Field ''rt_is_input'' c__u8,
      Field ''rt_uses_gateway'' c__u8,
      Field ''rt_iif'' c_int,
      Field ''rt_gw_family'' u8,
      Field [] (CUnion [] False
        [Field ''rt_gw4'' c__be32,
         Field ''rt_gw6'' struct_in6_addr]),
      BitField ''rt_mtu_locked'' u32 1,
      BitField ''rt_pmtu'' u32 31]"

definition struct_rtnl_hw_stats64 :: cty where
  "struct_rtnl_hw_stats64 = CStruct ''rtnl_hw_stats64'' False
     [Field ''rx_packets'' c__u64,
      Field ''tx_packets'' c__u64,
      Field ''rx_bytes'' c__u64,
      Field ''tx_bytes'' c__u64,
      Field ''rx_errors'' c__u64,
      Field ''tx_errors'' c__u64,
      Field ''rx_dropped'' c__u64,
      Field ''tx_dropped'' c__u64,
      Field ''multicast'' c__u64]"

definition struct_rtnl_link_ops :: cty where
  "struct_rtnl_link_ops = CStruct ''rtnl_link_ops'' False
     [Field ''list'' struct_list_head,
      Field ''srcu'' struct_srcu_struct,
      Field ''kind'' (CPtr ''const char''),
      Field ''priv_size'' size_t,
      Field ''alloc'' (CPtr ''struct net_device * (struct nlattr **, const char *, unsigned char, unsigned int, unsigned int)''),
      Field ''setup'' (CPtr ''void (struct net_device *)''),
      Field ''netns_refund'' bool,
      Field ''peer_type'' u16,
      Field ''maxtype'' unsigned_int,
      Field ''policy'' (CPtr ''const struct nla_policy''),
      Field ''validate'' (CPtr ''int (struct nlattr **, struct nlattr **, struct netlink_ext_ack *)''),
      Field ''newlink'' (CPtr ''int (struct net_device *, struct rtnl_newlink_params *, struct netlink_ext_ack *)''),
      Field ''changelink'' (CPtr ''int (struct net_device *, struct nlattr **, struct nlattr **, struct netlink_ext_ack *)''),
      Field ''dellink'' (CPtr ''void (struct net_device *, struct list_head *)''),
      Field ''get_size'' (CPtr ''size_t (const struct net_device *)''),
      Field ''fill_info'' (CPtr ''int (struct sk_buff *, const struct net_device *)''),
      Field ''get_xstats_size'' (CPtr ''size_t (const struct net_device *)''),
      Field ''fill_xstats'' (CPtr ''int (struct sk_buff *, const struct net_device *)''),
      Field ''get_num_tx_queues'' (CPtr ''unsigned int (void)''),
      Field ''get_num_rx_queues'' (CPtr ''unsigned int (void)''),
      Field ''slave_maxtype'' unsigned_int,
      Field ''slave_policy'' (CPtr ''const struct nla_policy''),
      Field ''slave_changelink'' (CPtr ''int (struct net_device *, struct net_device *, struct nlattr **, struct nlattr **, struct netlink_ext_ack *)''),
      Field ''get_slave_size'' (CPtr ''size_t (const struct net_device *, const struct net_device *)''),
      Field ''fill_slave_info'' (CPtr ''int (struct sk_buff *, const struct net_device *, const struct net_device *)''),
      Field ''get_link_net'' (CPtr ''struct net * (const struct net_device *)''),
      Field ''get_linkxstats_size'' (CPtr ''size_t (const struct net_device *, int)''),
      Field ''fill_linkxstats'' (CPtr ''int (struct sk_buff *, const struct net_device *, int *, int)'')]"

definition struct_sched_domain_shared :: cty where
  "struct_sched_domain_shared = CStruct ''sched_domain_shared'' False
     [Field ''ref'' atomic_t,
      Field ''nr_busy_cpus'' atomic_t,
      Field ''has_idle_cores'' c_int,
      Field ''nr_idle_scan'' c_int]"

definition struct_sched_group :: cty where
  "struct_sched_group = CStruct ''sched_group'' False
     [Field ''next'' (CPtr ''struct sched_group''),
      Field ''ref'' atomic_t,
      Field ''group_weight'' unsigned_int,
      Field ''cores'' unsigned_int,
      Field ''sgc'' (CPtr ''struct sched_group_capacity''),
      Field ''asym_prefer_cpu'' c_int,
      Field ''flags'' c_int,
      Field ''cpumask'' (CArr 0 long_unsigned_int)]"

definition struct_sfp_module_caps :: cty where
  "struct_sfp_module_caps = CStruct ''sfp_module_caps'' False
     [Field ''interfaces'' (CArr 1 long_unsigned_int),
      Field ''link_modes'' (CArr 2 long_unsigned_int),
      Field ''may_have_phy'' bool,
      Field ''port'' u8]"

definition struct_sfp_bus :: cty where
  "struct_sfp_bus = CStruct ''sfp_bus'' False
     [Field ''kref'' struct_kref,
      Field ''node'' struct_list_head,
      Field ''fwnode'' (CPtr ''const struct fwnode_handle''),
      Field ''socket_ops'' (CPtr ''const struct sfp_socket_ops''),
      Field ''sfp_dev'' (CPtr ''struct device''),
      Field ''sfp'' (CPtr ''struct sfp''),
      Field ''upstream_ops'' (CPtr ''const struct sfp_upstream_ops''),
      Field ''upstream'' (CPtr ''void''),
      Field ''phydev'' (CPtr ''struct phy_device''),
      Field ''registered'' bool,
      Field ''started'' bool,
      Field ''caps'' struct_sfp_module_caps]"

definition struct_shrinker_info :: cty where
  "struct_shrinker_info = CStruct ''shrinker_info'' False
     [Field ''rcu'' struct_callback_head,
      Field ''map_nr_max'' c_int,
      Field ''unit'' (CArr 0 (CPtr ''struct shrinker_info_unit''))]"

definition struct_sk_filter :: cty where
  "struct_sk_filter = CStruct ''sk_filter'' False
     [Field ''refcnt'' refcount_t,
      Field ''rcu'' struct_callback_head,
      Field ''prog'' (CPtr ''struct bpf_prog'')]"

definition struct_skb_ext :: cty where
  "struct_skb_ext = CStruct ''skb_ext'' False
     [Field ''refcnt'' refcount_t,
      Field ''offset'' (CArr 7 u8),
      Field ''chunks'' u8,
      BitField [] c_long 0,
      Field ''data'' (CArr 0 c_char)]"

definition struct_slab_sheaf :: cty where
  "struct_slab_sheaf = CStruct ''slab_sheaf'' False
     [Field [] (CUnion [] False
        [Field ''callback_head'' struct_callback_head,
         Field ''barn_list'' struct_list_head,
         Field [] (CStruct [] False
           [Field ''capacity'' unsigned_int,
            Field ''pfmemalloc'' bool])]),
      Field ''cache'' (CPtr ''struct kmem_cache''),
      Field ''size'' unsigned_int,
      Field ''node'' c_int,
      Field ''objects'' (CArr 0 (CPtr ''void''))]"

definition struct_sock_reuseport :: cty where
  "struct_sock_reuseport = CStruct ''sock_reuseport'' False
     [Field ''rcu'' struct_callback_head,
      Field ''max_socks'' u16,
      Field ''num_socks'' u16,
      Field ''num_closed_socks'' u16,
      Field ''incoming_cpu'' u16,
      Field ''synq_overflow_ts'' unsigned_int,
      Field ''reuseport_id'' unsigned_int,
      BitField ''bind_inany'' unsigned_int 1,
      BitField ''has_conns'' unsigned_int 1,
      Field ''prog'' (CPtr ''struct bpf_prog''),
      Field ''socks'' (CArr 0 (CPtr ''struct sock''))]"

definition socket_state :: cty where
  "socket_state = CEnum 4 [(''SS_FREE'', 0), (''SS_UNCONNECTED'', 1), (''SS_CONNECTING'', 2), (''SS_CONNECTED'', 3),
         (''SS_DISCONNECTING'', 4)]"

definition struct_socket_wq :: cty where
  "struct_socket_wq = CStruct ''socket_wq'' False
     [Field ''wait'' wait_queue_head_t,
      Field ''fasync_list'' (CPtr ''struct fasync_struct''),
      Field ''flags'' long_unsigned_int,
      Field ''rcu'' struct_callback_head,
      BitField [] c_long 64]"

definition struct_socket :: cty where
  "struct_socket = CStruct ''socket'' False
     [Field ''state'' socket_state,
      Field ''type'' short_int,
      Field ''flags'' long_unsigned_int,
      Field ''file'' (CPtr ''struct file''),
      Field ''sk'' (CPtr ''struct sock''),
      Field ''ops'' (CPtr ''const struct proto_ops''),
      BitField [] c_long 64,
      BitField [] c_long 64,
      BitField [] c_long 64,
      Field ''wq'' struct_socket_wq]"

definition struct_software_node :: cty where
  "struct_software_node = CStruct ''software_node'' False
     [Field ''name'' (CPtr ''const char''),
      Field ''parent'' (CPtr ''const struct software_node''),
      Field ''properties'' (CPtr ''const struct property_entry'')]"

definition struct_srcu_node :: cty where
  "struct_srcu_node = CStruct ''srcu_node'' False
     [Field ''lock'' raw_spinlock_t,
      Field ''srcu_have_cbs'' (CArr 4 long_unsigned_int),
      Field ''srcu_data_have_cbs'' (CArr 4 long_unsigned_int),
      Field ''srcu_gp_seq_needed_exp'' long_unsigned_int,
      Field ''srcu_parent'' (CPtr ''struct srcu_node''),
      Field ''grplo'' c_int,
      Field ''grphi'' c_int]"

definition struct_thermal_cooling_device_ops :: cty where
  "struct_thermal_cooling_device_ops = CStruct ''thermal_cooling_device_ops'' False
     [Field ''get_max_state'' (CPtr ''int (struct thermal_cooling_device *, long unsigned int *)''),
      Field ''get_cur_state'' (CPtr ''int (struct thermal_cooling_device *, long unsigned int *)''),
      Field ''set_cur_state'' (CPtr ''int (struct thermal_cooling_device *, long unsigned int)''),
      Field ''get_requested_power'' (CPtr ''int (struct thermal_cooling_device *, u32 *)''),
      Field ''state2power'' (CPtr ''int (struct thermal_cooling_device *, long unsigned int, u32 *)''),
      Field ''power2state'' (CPtr ''int (struct thermal_cooling_device *, u32, long unsigned int *)'')]"

definition struct_tlsdev_ops :: cty where
  "struct_tlsdev_ops = CStruct ''tlsdev_ops'' False
     [Field ''tls_dev_add'' (CPtr ''int (struct net_device *, struct sock *, enum tls_offload_ctx_dir, struct tls_crypto_info *, u32)''),
      Field ''tls_dev_del'' (CPtr ''void (struct net_device *, struct tls_context *, enum tls_offload_ctx_dir)''),
      Field ''tls_dev_resync'' (CPtr ''int (struct net_device *, struct sock *, u32, u8 *, enum tls_offload_ctx_dir)'')]"

definition struct_tty_ldisc_ops :: cty where
  "struct_tty_ldisc_ops = CStruct ''tty_ldisc_ops'' False
     [Field ''name'' (CPtr ''char''),
      Field ''num'' c_int,
      Field ''open'' (CPtr ''int (struct tty_struct *)''),
      Field ''close'' (CPtr ''void (struct tty_struct *)''),
      Field ''flush_buffer'' (CPtr ''void (struct tty_struct *)''),
      Field ''read'' (CPtr ''ssize_t (struct tty_struct *, struct file *, u8 *, size_t, void **, long unsigned int)''),
      Field ''write'' (CPtr ''ssize_t (struct tty_struct *, struct file *, const u8 *, size_t)''),
      Field ''ioctl'' (CPtr ''int (struct tty_struct *, unsigned int, long unsigned int)''),
      Field ''compat_ioctl'' (CPtr ''int (struct tty_struct *, unsigned int, long unsigned int)''),
      Field ''set_termios'' (CPtr ''void (struct tty_struct *, const struct ktermios *)''),
      Field ''poll'' (CPtr ''__poll_t (struct tty_struct *, struct file *, struct poll_table_struct *)''),
      Field ''hangup'' (CPtr ''void (struct tty_struct *)''),
      Field ''receive_buf'' (CPtr ''void (struct tty_struct *, const u8 *, const u8 *, size_t)''),
      Field ''write_wakeup'' (CPtr ''void (struct tty_struct *)''),
      Field ''dcd_change'' (CPtr ''void (struct tty_struct *, bool)''),
      Field ''receive_buf2'' (CPtr ''size_t (struct tty_struct *, const u8 *, const u8 *, size_t)''),
      Field ''lookahead_buf'' (CPtr ''void (struct tty_struct *, const u8 *, const u8 *, size_t)''),
      Field ''owner'' (CPtr ''struct module'')]"

definition struct_tty_port_client_operations :: cty where
  "struct_tty_port_client_operations = CStruct ''tty_port_client_operations'' False
     [Field ''receive_buf'' (CPtr ''size_t (struct tty_port *, const u8 *, const u8 *, size_t)''),
      Field ''lookahead_buf'' (CPtr ''void (struct tty_port *, const u8 *, const u8 *, size_t)''),
      Field ''write_wakeup'' (CPtr ''void (struct tty_port *)'')]"

definition struct_tty_port_operations :: cty where
  "struct_tty_port_operations = CStruct ''tty_port_operations'' False
     [Field ''carrier_raised'' (CPtr ''bool (struct tty_port *)''),
      Field ''dtr_rts'' (CPtr ''void (struct tty_port *, bool)''),
      Field ''shutdown'' (CPtr ''void (struct tty_port *)''),
      Field ''activate'' (CPtr ''int (struct tty_port *, struct tty_struct *)''),
      Field ''destruct'' (CPtr ''void (struct tty_port *)'')]"

definition struct_udp_hslot :: cty where
  "struct_udp_hslot = CStruct ''udp_hslot'' False
     [Field [] (CUnion [] False
        [Field ''head'' struct_hlist_head,
         Field ''nulls_head'' struct_hlist_nulls_head]),
      Field ''count'' c_int,
      Field ''lock'' spinlock_t]"

definition struct_udp_hslot_main :: cty where
  "struct_udp_hslot_main = CStruct ''udp_hslot_main'' False
     [Field ''hslot'' struct_udp_hslot,
      Field ''hash4_cnt'' u32,
      BitField [] c_long 64]"

definition struct_udp_tunnel_nic_table_info :: cty where
  "struct_udp_tunnel_nic_table_info = CStruct ''udp_tunnel_nic_table_info'' False
     [Field ''n_entries'' unsigned_int,
      Field ''tunnel_types'' unsigned_int]"

definition struct_udp_tunnel_nic_info :: cty where
  "struct_udp_tunnel_nic_info = CStruct ''udp_tunnel_nic_info'' False
     [Field ''set_port'' (CPtr ''int (struct net_device *, unsigned int, unsigned int, struct udp_tunnel_info *)''),
      Field ''unset_port'' (CPtr ''int (struct net_device *, unsigned int, unsigned int, struct udp_tunnel_info *)''),
      Field ''sync_table'' (CPtr ''int (struct net_device *, unsigned int)''),
      Field ''shared'' (CPtr ''struct udp_tunnel_nic_shared''),
      Field ''flags'' unsigned_int,
      Field ''tables'' (CArr 4 struct_udp_tunnel_nic_table_info)]"

definition struct_uncached_list :: cty where
  "struct_uncached_list = CStruct ''uncached_list'' False
     [Field ''lock'' spinlock_t,
      Field ''head'' struct_list_head]"

definition struct_uprobe_xol_ops :: cty where
  "struct_uprobe_xol_ops = CStruct ''uprobe_xol_ops'' False
     [Field ''emulate'' (CPtr ''bool (struct arch_uprobe *, struct pt_regs *)''),
      Field ''pre_xol'' (CPtr ''int (struct arch_uprobe *, struct pt_regs *)''),
      Field ''post_xol'' (CPtr ''int (struct arch_uprobe *, struct pt_regs *)''),
      Field ''abort'' (CPtr ''void (struct arch_uprobe *, struct pt_regs *)'')]"

definition struct_vlan_group :: cty where
  "struct_vlan_group = CStruct ''vlan_group'' False
     [Field ''nr_vlan_devs'' unsigned_int,
      Field ''hlist'' struct_hlist_node,
      Field ''vlan_devices_arrays'' (CArr 16 (CPtr ''struct net_device *''))]"

definition struct_vlan_info :: cty where
  "struct_vlan_info = CStruct ''vlan_info'' False
     [Field ''real_dev'' (CPtr ''struct net_device''),
      Field ''grp'' struct_vlan_group,
      Field ''vid_list'' struct_list_head,
      Field ''nr_vids'' unsigned_int,
      Field ''auto_vid0'' bool,
      Field ''rcu'' struct_callback_head]"

definition enum_watch_notification_type :: cty where
  "enum_watch_notification_type = CEnum 4
     [(''WATCH_TYPE_META'', 0), (''WATCH_TYPE_KEY_NOTIFY'', 1), (''WATCH_TYPE__NR'', 2)]"

definition struct_watch_type_filter :: cty where
  "struct_watch_type_filter = CStruct ''watch_type_filter'' False
     [Field ''type'' enum_watch_notification_type,
      Field ''subtype_filter'' (CArr 1 c__u32),
      Field ''info_filter'' c__u32,
      Field ''info_mask'' c__u32]"

definition struct_watch_filter :: cty where
  "struct_watch_filter = CStruct ''watch_filter'' False
     [Field [] (CUnion [] False
        [Field ''rcu'' struct_callback_head,
         Field ''type_filter'' (CArr 1 long_unsigned_int)]),
      Field ''nr_filters'' u32,
      Field ''filters'' (CArr 0 struct_watch_type_filter)]"

definition enum_nl80211_iftype :: cty where
  "enum_nl80211_iftype = CEnum 4
     [(''NL80211_IFTYPE_UNSPECIFIED'', 0), (''NL80211_IFTYPE_ADHOC'', 1),
      (''NL80211_IFTYPE_STATION'', 2), (''NL80211_IFTYPE_AP'', 3),
      (''NL80211_IFTYPE_AP_VLAN'', 4), (''NL80211_IFTYPE_WDS'', 5),
      (''NL80211_IFTYPE_MONITOR'', 6), (''NL80211_IFTYPE_MESH_POINT'', 7),
      (''NL80211_IFTYPE_P2P_CLIENT'', 8), (''NL80211_IFTYPE_P2P_GO'', 9),
      (''NL80211_IFTYPE_P2P_DEVICE'', 10), (''NL80211_IFTYPE_OCB'', 11),
      (''NL80211_IFTYPE_NAN'', 12), (''NUM_NL80211_IFTYPES'', 13), (''NL80211_IFTYPE_MAX'', 12)]"

definition enum_ieee80211_bss_type :: cty where
  "enum_ieee80211_bss_type = CEnum 4
     [(''IEEE80211_BSS_TYPE_ESS'', 0), (''IEEE80211_BSS_TYPE_PBSS'', 1),
      (''IEEE80211_BSS_TYPE_IBSS'', 2), (''IEEE80211_BSS_TYPE_MBSS'', 3),
      (''IEEE80211_BSS_TYPE_ANY'', 4)]"

definition enum_nl80211_chan_width :: cty where
  "enum_nl80211_chan_width = CEnum 4
     [(''NL80211_CHAN_WIDTH_20_NOHT'', 0), (''NL80211_CHAN_WIDTH_20'', 1),
      (''NL80211_CHAN_WIDTH_40'', 2), (''NL80211_CHAN_WIDTH_80'', 3),
      (''NL80211_CHAN_WIDTH_80P80'', 4), (''NL80211_CHAN_WIDTH_160'', 5),
      (''NL80211_CHAN_WIDTH_5'', 6), (''NL80211_CHAN_WIDTH_10'', 7),
      (''NL80211_CHAN_WIDTH_1'', 8), (''NL80211_CHAN_WIDTH_2'', 9),
      (''NL80211_CHAN_WIDTH_4'', 10), (''NL80211_CHAN_WIDTH_8'', 11),
      (''NL80211_CHAN_WIDTH_16'', 12), (''NL80211_CHAN_WIDTH_320'', 13)]"

definition enum_ieee80211_edmg_bw_config :: cty where
  "enum_ieee80211_edmg_bw_config = CEnum 4
     [(''IEEE80211_EDMG_BW_CONFIG_4'', 4), (''IEEE80211_EDMG_BW_CONFIG_5'', 5),
      (''IEEE80211_EDMG_BW_CONFIG_6'', 6), (''IEEE80211_EDMG_BW_CONFIG_7'', 7),
      (''IEEE80211_EDMG_BW_CONFIG_8'', 8), (''IEEE80211_EDMG_BW_CONFIG_9'', 9),
      (''IEEE80211_EDMG_BW_CONFIG_10'', 10), (''IEEE80211_EDMG_BW_CONFIG_11'', 11),
      (''IEEE80211_EDMG_BW_CONFIG_12'', 12), (''IEEE80211_EDMG_BW_CONFIG_13'', 13),
      (''IEEE80211_EDMG_BW_CONFIG_14'', 14), (''IEEE80211_EDMG_BW_CONFIG_15'', 15)]"

definition struct_ieee80211_edmg :: cty where
  "struct_ieee80211_edmg = CStruct ''ieee80211_edmg'' False
     [Field ''channels'' u8,
      Field ''bw_config'' enum_ieee80211_edmg_bw_config]"

definition struct_cfg80211_chan_def :: cty where
  "struct_cfg80211_chan_def = CStruct ''cfg80211_chan_def'' False
     [Field ''chan'' (CPtr ''struct ieee80211_channel''),
      Field ''width'' enum_nl80211_chan_width,
      Field ''center_freq1'' u32,
      Field ''center_freq2'' u32,
      Field ''edmg'' struct_ieee80211_edmg,
      Field ''freq1_offset'' u16,
      Field ''punctured'' u16,
      Field ''s1g_primary_2mhz'' bool]"

definition struct_ieee80211_mcs_info :: cty where
  "struct_ieee80211_mcs_info = CStruct ''ieee80211_mcs_info'' False
     [Field ''rx_mask'' (CArr 10 u8),
      Field ''rx_highest'' c__le16,
      Field ''tx_params'' u8,
      Field ''reserved'' (CArr 3 u8)]"

definition struct_ieee80211_ht_cap :: cty where
  "struct_ieee80211_ht_cap = CStruct ''ieee80211_ht_cap'' True
     [Field ''cap_info'' c__le16,
      Field ''ampdu_params_info'' u8,
      Field ''mcs'' struct_ieee80211_mcs_info,
      Field ''extended_ht_cap_info'' c__le16,
      Field ''tx_BF_cap_info'' c__le32,
      Field ''antenna_selection_info'' u8]"

definition struct_cfg80211_ibss_params :: cty where
  "struct_cfg80211_ibss_params = CStruct ''cfg80211_ibss_params'' False
     [Field ''ssid'' (CPtr ''const u8''),
      Field ''bssid'' (CPtr ''const u8''),
      Field ''chandef'' struct_cfg80211_chan_def,
      Field ''ie'' (CPtr ''const u8''),
      Field ''ssid_len'' u8,
      Field ''ie_len'' u8,
      Field ''beacon_interval'' u16,
      Field ''basic_rates'' u32,
      Field ''channel_fixed'' bool,
      Field ''privacy'' bool,
      Field ''control_port'' bool,
      Field ''control_port_over_nl80211'' bool,
      Field ''userspace_handles_dfs'' bool,
      Field ''mcast_rate'' (CArr 6 c_int),
      Field ''ht_capa'' struct_ieee80211_ht_cap,
      Field ''ht_capa_mask'' struct_ieee80211_ht_cap,
      Field ''wep_keys'' (CPtr ''struct key_params''),
      Field ''wep_tx_key'' c_int]"

definition enum_nl80211_auth_type :: cty where
  "enum_nl80211_auth_type = CEnum 4
     [(''NL80211_AUTHTYPE_OPEN_SYSTEM'', 0), (''NL80211_AUTHTYPE_SHARED_KEY'', 1),
      (''NL80211_AUTHTYPE_FT'', 2), (''NL80211_AUTHTYPE_NETWORK_EAP'', 3),
      (''NL80211_AUTHTYPE_SAE'', 4), (''NL80211_AUTHTYPE_FILS_SK'', 5),
      (''NL80211_AUTHTYPE_FILS_SK_PFS'', 6), (''NL80211_AUTHTYPE_FILS_PK'', 7),
      (''NL80211_AUTHTYPE_EPPKE'', 8), (''__NL80211_AUTHTYPE_NUM'', 9),
      (''NL80211_AUTHTYPE_MAX'', 8), (''NL80211_AUTHTYPE_AUTOMATIC'', 9)]"

definition enum_nl80211_mfp :: cty where
  "enum_nl80211_mfp = CEnum 4
     [(''NL80211_MFP_NO'', 0), (''NL80211_MFP_REQUIRED'', 1), (''NL80211_MFP_OPTIONAL'', 2)]"

definition enum_nl80211_sae_pwe_mechanism :: cty where
  "enum_nl80211_sae_pwe_mechanism = CEnum 4
     [(''NL80211_SAE_PWE_UNSPECIFIED'', 0), (''NL80211_SAE_PWE_HUNT_AND_PECK'', 1),
      (''NL80211_SAE_PWE_HASH_TO_ELEMENT'', 2), (''NL80211_SAE_PWE_BOTH'', 3)]"

definition struct_cfg80211_crypto_settings :: cty where
  "struct_cfg80211_crypto_settings = CStruct ''cfg80211_crypto_settings'' False
     [Field ''wpa_versions'' u32,
      Field ''cipher_group'' u32,
      Field ''n_ciphers_pairwise'' c_int,
      Field ''ciphers_pairwise'' (CArr 5 u32),
      Field ''n_akm_suites'' c_int,
      Field ''akm_suites'' (CArr 10 u32),
      Field ''control_port'' bool,
      Field ''control_port_ethertype'' c__be16,
      Field ''control_port_no_encrypt'' bool,
      Field ''control_port_over_nl80211'' bool,
      Field ''control_port_no_preauth'' bool,
      Field ''psk'' (CPtr ''const u8''),
      Field ''sae_pwd'' (CPtr ''const u8''),
      Field ''sae_pwd_len'' u8,
      Field ''sae_pwe'' enum_nl80211_sae_pwe_mechanism]"

definition struct_ieee80211_vht_mcs_info :: cty where
  "struct_ieee80211_vht_mcs_info = CStruct ''ieee80211_vht_mcs_info'' False
     [Field ''rx_mcs_map'' c__le16,
      Field ''rx_highest'' c__le16,
      Field ''tx_mcs_map'' c__le16,
      Field ''tx_highest'' c__le16]"

definition struct_ieee80211_vht_cap :: cty where
  "struct_ieee80211_vht_cap = CStruct ''ieee80211_vht_cap'' False
     [Field ''vht_cap_info'' c__le32,
      Field ''supp_mcs'' struct_ieee80211_vht_mcs_info]"

definition enum_nl80211_bss_select_attr :: cty where
  "enum_nl80211_bss_select_attr = CEnum 4
     [(''__NL80211_BSS_SELECT_ATTR_INVALID'', 0), (''NL80211_BSS_SELECT_ATTR_RSSI'', 1),
      (''NL80211_BSS_SELECT_ATTR_BAND_PREF'', 2), (''NL80211_BSS_SELECT_ATTR_RSSI_ADJUST'', 3),
      (''__NL80211_BSS_SELECT_ATTR_AFTER_LAST'', 4), (''NL80211_BSS_SELECT_ATTR_MAX'', 3)]"

definition enum_nl80211_band :: cty where
  "enum_nl80211_band = CEnum 4
     [(''NL80211_BAND_2GHZ'', 0), (''NL80211_BAND_5GHZ'', 1), (''NL80211_BAND_60GHZ'', 2),
      (''NL80211_BAND_6GHZ'', 3), (''NL80211_BAND_S1GHZ'', 4), (''NL80211_BAND_LC'', 5),
      (''NUM_NL80211_BANDS'', 6)]"

definition struct_cfg80211_bss_select_adjust :: cty where
  "struct_cfg80211_bss_select_adjust = CStruct ''cfg80211_bss_select_adjust'' False
     [Field ''band'' enum_nl80211_band,
      Field ''delta'' s8]"

definition struct_cfg80211_bss_selection :: cty where
  "struct_cfg80211_bss_selection = CStruct ''cfg80211_bss_selection'' False
     [Field ''behaviour'' enum_nl80211_bss_select_attr,
      Field ''param'' (CUnion [] False
        [Field ''band_pref'' enum_nl80211_band,
         Field ''adjust'' struct_cfg80211_bss_select_adjust])]"

definition struct_cfg80211_connect_params :: cty where
  "struct_cfg80211_connect_params = CStruct ''cfg80211_connect_params'' False
     [Field ''channel'' (CPtr ''struct ieee80211_channel''),
      Field ''channel_hint'' (CPtr ''struct ieee80211_channel''),
      Field ''bssid'' (CPtr ''const u8''),
      Field ''bssid_hint'' (CPtr ''const u8''),
      Field ''ssid'' (CPtr ''const u8''),
      Field ''ssid_len'' size_t,
      Field ''auth_type'' enum_nl80211_auth_type,
      Field ''ie'' (CPtr ''const u8''),
      Field ''ie_len'' size_t,
      Field ''privacy'' bool,
      Field ''mfp'' enum_nl80211_mfp,
      Field ''crypto'' struct_cfg80211_crypto_settings,
      Field ''key'' (CPtr ''const u8''),
      Field ''key_len'' u8,
      Field ''key_idx'' u8,
      Field ''flags'' u32,
      Field ''bg_scan_period'' c_int,
      Field ''ht_capa'' struct_ieee80211_ht_cap,
      Field ''ht_capa_mask'' struct_ieee80211_ht_cap,
      Field ''vht_capa'' struct_ieee80211_vht_cap,
      Field ''vht_capa_mask'' struct_ieee80211_vht_cap,
      Field ''pbss'' bool,
      Field ''bss_select'' struct_cfg80211_bss_selection,
      Field ''prev_bssid'' (CPtr ''const u8''),
      Field ''fils_erp_username'' (CPtr ''const u8''),
      Field ''fils_erp_username_len'' size_t,
      Field ''fils_erp_realm'' (CPtr ''const u8''),
      Field ''fils_erp_realm_len'' size_t,
      Field ''fils_erp_next_seq_num'' u16,
      Field ''fils_erp_rrk'' (CPtr ''const u8''),
      Field ''fils_erp_rrk_len'' size_t,
      Field ''want_1x'' bool,
      Field ''edmg'' struct_ieee80211_edmg]"

definition wiphy_work_func_t :: cty where [layout_simps]:
  "wiphy_work_func_t = CPtr ''void (struct wiphy *, struct wiphy_work *)''"

definition struct_wiphy_work :: cty where
  "struct_wiphy_work = CStruct ''wiphy_work'' False
     [Field ''entry'' struct_list_head,
      Field ''func'' wiphy_work_func_t]"

definition struct_wireless_dev :: cty where
  "struct_wireless_dev = CStruct ''wireless_dev'' False
     [Field ''wiphy'' (CPtr ''struct wiphy''),
      Field ''iftype'' enum_nl80211_iftype,
      Field ''list'' struct_list_head,
      Field ''netdev'' (CPtr ''struct net_device''),
      Field ''identifier'' u32,
      Field ''mgmt_registrations'' struct_list_head,
      BitField ''mgmt_registrations_need_update'' u8 1,
      Field ''use_4addr'' bool,
      Field ''is_running'' bool,
      Field ''registered'' bool,
      Field ''registering'' bool,
      BitField [] short_int 0,
      Field ''address'' (CArr 6 u8),
      Field ''conn'' (CPtr ''struct cfg80211_conn''),
      Field ''connect_keys'' (CPtr ''struct cfg80211_cached_keys''),
      Field ''conn_bss_type'' enum_ieee80211_bss_type,
      Field ''conn_owner_nlportid'' u32,
      Field ''disconnect_wk'' struct_work_struct,
      Field ''disconnect_bssid'' (CArr 6 u8),
      Field ''event_list'' struct_list_head,
      Field ''event_lock'' spinlock_t,
      BitField ''connected'' u8 1,
      Field ''ps'' bool,
      Field ''ps_timeout'' c_int,
      Field ''ap_unexpected_nlportid'' u32,
      Field ''owner_nlportid'' u32,
      Field ''nl_owner_dead'' bool,
      Field ''wext'' (CStruct [] False
        [Field ''ibss'' struct_cfg80211_ibss_params,
         Field ''connect'' struct_cfg80211_connect_params,
         Field ''keys'' (CPtr ''struct cfg80211_cached_keys''),
         Field ''ie'' (CPtr ''const u8''),
         Field ''ie_len'' size_t,
         Field ''bssid'' (CArr 6 u8),
         Field ''prev_bssid'' (CArr 6 u8),
         Field ''ssid'' (CArr 32 u8),
         Field ''default_key'' s8,
         Field ''default_mgmt_key'' s8,
         Field ''prev_bssid_valid'' bool]),
      Field ''cqm_rssi_work'' struct_wiphy_work,
      Field ''cqm_config'' (CPtr ''struct cfg80211_cqm_config''),
      Field ''pmsr_list'' struct_list_head,
      Field ''pmsr_lock'' spinlock_t,
      Field ''pmsr_free_wk'' struct_work_struct,
      Field ''unprot_beacon_reported'' long_unsigned_int,
      Field ''u'' (CUnion [] False
        [Field ''client'' (CStruct [] False
           [Field ''connected_addr'' (CArr 6 u8),
            Field ''ssid'' (CArr 32 u8),
            Field ''ssid_len'' u8,
            BitField [] c_long 0]),
         Field ''mesh'' (CStruct [] False
           [Field ''beacon_interval'' c_int,
            Field ''preset_chandef'' struct_cfg80211_chan_def,
            Field ''chandef'' struct_cfg80211_chan_def,
            Field ''id'' (CArr 32 u8),
            Field ''id_len'' u8,
            Field ''id_up_len'' u8]),
         Field ''ap'' (CStruct [] False
           [Field ''preset_chandef'' struct_cfg80211_chan_def,
            Field ''ssid'' (CArr 32 u8),
            Field ''ssid_len'' u8]),
         Field ''ibss'' (CStruct [] False
           [Field ''current_bss'' (CPtr ''struct cfg80211_internal_bss''),
            Field ''chandef'' struct_cfg80211_chan_def,
            Field ''beacon_interval'' c_int,
            Field ''ssid'' (CArr 32 u8),
            Field ''ssid_len'' u8]),
         Field ''ocb'' (CStruct [] False
           [Field ''chandef'' struct_cfg80211_chan_def]),
         Field ''nan'' (CStruct [] False
           [Field ''cluster_id'' (CArr 6 u8)])]),
      Field ''links'' (CArr 15 (CStruct [] False
        [Field ''addr'' (CArr 6 u8),
         Field [] (CUnion [] False
           [Field ''ap'' (CStruct [] False
              [Field ''beacon_interval'' unsigned_int,
               Field ''chandef'' struct_cfg80211_chan_def]),
            Field ''client'' (CStruct [] False
              [Field ''current_bss'' (CPtr ''struct cfg80211_internal_bss'')])]),
         Field ''cac_started'' bool,
         Field ''cac_start_time'' long_unsigned_int,
         Field ''cac_time_ms'' unsigned_int])),
      Field ''valid_links'' u16,
      Field ''radio_mask'' u32]"

section \<open>Sizes and alignments\<close>

lemma struct_memory_failure_stats_layout [layout_simps]:
  "sizeof struct_memory_failure_stats = 40 \<and> alignof struct_memory_failure_stats = 8 \<and> wf_cty struct_memory_failure_stats"
  by (simp add: struct_memory_failure_stats_def base_types layout_eval
      del: One_nat_def)

lemma struct_pglist_data_layout [layout_simps]:
  "sizeof struct_pglist_data = 175488 \<and> alignof struct_pglist_data = 8 \<and> wf_cty struct_pglist_data"
  by (simp add: struct_pglist_data_def base_types layout_eval struct_zone_layout struct_zonelist_layout spinlock_t_def
      struct_spinlock_layout wait_queue_head_t_def struct_wait_queue_head_layout atomic_t_layout
      struct_mutex_layout enum_zone_type_layout bool_def struct_cacheline_padding_layout
      struct_deferred_split_layout struct_lruvec_layout struct_lru_gen_mm_walk_layout
      struct_lru_gen_memcg_layout atomic_long_t_def atomic64_t_layout struct_memory_failure_stats_layout
      del: One_nat_def)

lemma struct_mdio_device_layout [layout_simps]:
  "sizeof struct_mdio_device = 880 \<and> alignof struct_mdio_device = 8 \<and> wf_cty struct_mdio_device"
  by (simp add: struct_mdio_device_def base_types layout_eval struct_device_layout
      del: One_nat_def)

lemma struct_phy_c45_device_ids_layout [layout_simps]:
  "sizeof struct_phy_c45_device_ids = 136 \<and> alignof struct_phy_c45_device_ids = 4 \<and> wf_cty struct_phy_c45_device_ids"
  by (simp add: struct_phy_c45_device_ids_def base_types layout_eval u32_def c__u32_def
      del: One_nat_def)

lemma enum_phy_state_layout [layout_simps]:
  "sizeof enum_phy_state = 4 \<and> alignof enum_phy_state = 4 \<and> wf_cty enum_phy_state"
  by (simp add: enum_phy_state_def base_types layout_eval
      del: One_nat_def)

lemma phy_interface_t_layout [layout_simps]:
  "sizeof phy_interface_t = 4 \<and> alignof phy_interface_t = 4 \<and> wf_cty phy_interface_t"
  by (simp add: phy_interface_t_def base_types layout_eval
      del: One_nat_def)

lemma struct_eee_config_layout [layout_simps]:
  "sizeof struct_eee_config = 8 \<and> alignof struct_eee_config = 4 \<and> wf_cty struct_eee_config"
  by (simp add: struct_eee_config_def base_types layout_eval u32_def c__u32_def bool_def
      del: One_nat_def)

lemma struct_phy_oatc14_sqi_capability_layout [layout_simps]:
  "sizeof struct_phy_oatc14_sqi_capability = 12 \<and> alignof struct_phy_oatc14_sqi_capability = 4 \<and> wf_cty struct_phy_oatc14_sqi_capability"
  by (simp add: struct_phy_oatc14_sqi_capability_def base_types layout_eval bool_def u8_def c__u8_def
      del: One_nat_def)

lemma struct_phy_device_layout [layout_simps]:
  "sizeof struct_phy_device = 1568 \<and> alignof struct_phy_device = 8 \<and> wf_cty struct_phy_device"
  by (simp add: struct_phy_device_def base_types layout_eval struct_mdio_device_layout u32_def c__u32_def
      struct_phy_c45_device_ids_layout bool_def enum_phy_state_layout phy_interface_t_layout u8_def
      c__u8_def struct_eee_config_layout struct_list_head_layout struct_delayed_work_layout
      struct_mutex_layout struct_phy_oatc14_sqi_capability_layout
      del: One_nat_def)

lemma struct_phy_link_topology_layout [layout_simps]:
  "sizeof struct_phy_link_topology = 24 \<and> alignof struct_phy_link_topology = 8 \<and> wf_cty struct_phy_link_topology"
  by (simp add: struct_phy_link_topology_def base_types layout_eval struct_xarray_layout u32_def c__u32_def
      del: One_nat_def)

lemma struct_pipe_buf_operations_layout [layout_simps]:
  "sizeof struct_pipe_buf_operations = 32 \<and> alignof struct_pipe_buf_operations = 8 \<and> wf_cty struct_pipe_buf_operations"
  by (simp add: struct_pipe_buf_operations_def base_types layout_eval
      del: One_nat_def)

lemma struct_proto_layout [layout_simps]:
  "sizeof struct_proto = 448 \<and> alignof struct_proto = 8 \<and> wf_cty struct_proto"
  by (simp add: struct_proto_def base_types layout_eval u32_def c__u32_def bool_def slab_flags_t_def
      struct_list_head_layout
      del: One_nat_def)

lemma struct_psp_key_parsed_layout [layout_simps]:
  "sizeof struct_psp_key_parsed = 36 \<and> alignof struct_psp_key_parsed = 4 \<and> wf_cty struct_psp_key_parsed"
  by (simp add: struct_psp_key_parsed_def base_types layout_eval c__be32_def c__u32_def u8_def c__u8_def
      del: One_nat_def)

lemma struct_psp_assoc_layout [layout_simps]:
  "sizeof struct_psp_assoc = 160 \<and> alignof struct_psp_assoc = 8 \<and> wf_cty struct_psp_assoc"
  by (simp add: struct_psp_assoc_def base_types layout_eval u16_def c__u16_def u8_def c__u8_def u32_def c__u32_def
      struct_psp_key_parsed_layout refcount_t_def struct_refcount_struct_layout
      struct_callback_head_layout struct_work_struct_layout struct_list_head_layout
      del: One_nat_def)

lemma struct_psp_dev_config_layout [layout_simps]:
  "sizeof struct_psp_dev_config = 4 \<and> alignof struct_psp_dev_config = 4 \<and> wf_cty struct_psp_dev_config"
  by (simp add: struct_psp_dev_config_def base_types layout_eval u32_def c__u32_def
      del: One_nat_def)

lemma struct_psp_dev_layout [layout_simps]:
  "sizeof struct_psp_dev = 160 \<and> alignof struct_psp_dev = 8 \<and> wf_cty struct_psp_dev"
  by (simp add: struct_psp_dev_def base_types layout_eval struct_mutex_layout refcount_t_def
      struct_refcount_struct_layout u32_def c__u32_def u8_def c__u8_def struct_psp_dev_config_layout
      struct_list_head_layout struct_callback_head_layout
      del: One_nat_def)

lemma struct_rchan_buf_stats_layout [layout_simps]:
  "sizeof struct_rchan_buf_stats = 8 \<and> alignof struct_rchan_buf_stats = 4 \<and> wf_cty struct_rchan_buf_stats"
  by (simp add: struct_rchan_buf_stats_def base_types layout_eval
      del: One_nat_def)

lemma struct_rchan_buf_layout [layout_simps]:
  "sizeof struct_rchan_buf = 192 \<and> alignof struct_rchan_buf = 8 \<and> wf_cty struct_rchan_buf"
  by (simp add: struct_rchan_buf_def base_types layout_eval size_t_def c__kernel_size_t_def c__kernel_ulong_t_def
      wait_queue_head_t_def struct_wait_queue_head_layout struct_irq_work_layout struct_kref_layout
      struct_rchan_buf_stats_layout
      del: One_nat_def)

lemma struct_rchan_callbacks_layout [layout_simps]:
  "sizeof struct_rchan_callbacks = 24 \<and> alignof struct_rchan_callbacks = 8 \<and> wf_cty struct_rchan_callbacks"
  by (simp add: struct_rchan_callbacks_def base_types layout_eval
      del: One_nat_def)

lemma struct_coupling_desc_layout [layout_simps]:
  "sizeof struct_coupling_desc = 24 \<and> alignof struct_coupling_desc = 8 \<and> wf_cty struct_coupling_desc"
  by (simp add: struct_coupling_desc_def base_types layout_eval
      del: One_nat_def)

lemma struct_regulator_dev_layout [layout_simps]:
  "sizeof struct_regulator_dev = 2008 \<and> alignof struct_regulator_dev = 8 \<and> wf_cty struct_regulator_dev"
  by (simp add: struct_regulator_dev_def base_types layout_eval u32_def c__u32_def struct_list_head_layout
      struct_coupling_desc_layout struct_blocking_notifier_head_layout struct_ww_mutex_layout
      struct_device_layout struct_delayed_work_layout ktime_t_def s64_def c__s64_def bool_def
      spinlock_t_def struct_spinlock_layout struct_notifier_block_layout
      del: One_nat_def)

lemma struct_rt6_exception_bucket_layout [layout_simps]:
  "sizeof struct_rt6_exception_bucket = 16 \<and> alignof struct_rt6_exception_bucket = 8 \<and> wf_cty struct_rt6_exception_bucket"
  by (simp add: struct_rt6_exception_bucket_def base_types layout_eval struct_hlist_head_layout
      del: One_nat_def)

lemma struct_rtable_layout [layout_simps]:
  "sizeof struct_rtable = 176 \<and> alignof struct_rtable = 8 \<and> wf_cty struct_rtable"
  by (simp add: struct_rtable_def base_types layout_eval struct_dst_entry_layout c__u16_def c__u8_def u8_def c__be32_def
      c__u32_def struct_in6_addr_layout u32_def
      del: One_nat_def)

lemma struct_rtnl_hw_stats64_layout [layout_simps]:
  "sizeof struct_rtnl_hw_stats64 = 72 \<and> alignof struct_rtnl_hw_stats64 = 8 \<and> wf_cty struct_rtnl_hw_stats64"
  by (simp add: struct_rtnl_hw_stats64_def base_types layout_eval c__u64_def
      del: One_nat_def)

lemma struct_rtnl_link_ops_layout [layout_simps]:
  "sizeof struct_rtnl_link_ops = 240 \<and> alignof struct_rtnl_link_ops = 8 \<and> wf_cty struct_rtnl_link_ops"
  by (simp add: struct_rtnl_link_ops_def base_types layout_eval struct_list_head_layout struct_srcu_struct_layout
      size_t_def c__kernel_size_t_def c__kernel_ulong_t_def bool_def u16_def c__u16_def
      del: One_nat_def)

lemma struct_sched_domain_shared_layout [layout_simps]:
  "sizeof struct_sched_domain_shared = 16 \<and> alignof struct_sched_domain_shared = 4 \<and> wf_cty struct_sched_domain_shared"
  by (simp add: struct_sched_domain_shared_def base_types layout_eval atomic_t_layout
      del: One_nat_def)

lemma struct_sched_group_layout [layout_simps]:
  "sizeof struct_sched_group = 40 \<and> alignof struct_sched_group = 8 \<and> wf_cty struct_sched_group"
  by (simp add: struct_sched_group_def base_types layout_eval atomic_t_layout
      del: One_nat_def)

lemma struct_sfp_module_caps_layout [layout_simps]:
  "sizeof struct_sfp_module_caps = 32 \<and> alignof struct_sfp_module_caps = 8 \<and> wf_cty struct_sfp_module_caps"
  by (simp add: struct_sfp_module_caps_def base_types layout_eval bool_def u8_def c__u8_def
      del: One_nat_def)

lemma struct_sfp_bus_layout [layout_simps]:
  "sizeof struct_sfp_bus = 120 \<and> alignof struct_sfp_bus = 8 \<and> wf_cty struct_sfp_bus"
  by (simp add: struct_sfp_bus_def base_types layout_eval struct_kref_layout struct_list_head_layout bool_def
      struct_sfp_module_caps_layout
      del: One_nat_def)

lemma struct_shrinker_info_layout [layout_simps]:
  "sizeof struct_shrinker_info = 24 \<and> alignof struct_shrinker_info = 8 \<and> wf_cty struct_shrinker_info"
  by (simp add: struct_shrinker_info_def base_types layout_eval struct_callback_head_layout
      del: One_nat_def)

lemma struct_sk_filter_layout [layout_simps]:
  "sizeof struct_sk_filter = 32 \<and> alignof struct_sk_filter = 8 \<and> wf_cty struct_sk_filter"
  by (simp add: struct_sk_filter_def base_types layout_eval refcount_t_def struct_refcount_struct_layout
      struct_callback_head_layout
      del: One_nat_def)

lemma struct_skb_ext_layout [layout_simps]:
  "sizeof struct_skb_ext = 16 \<and> alignof struct_skb_ext = 4 \<and> wf_cty struct_skb_ext"
  by (simp add: struct_skb_ext_def base_types layout_eval refcount_t_def struct_refcount_struct_layout u8_def c__u8_def
      del: One_nat_def)

lemma struct_slab_sheaf_layout [layout_simps]:
  "sizeof struct_slab_sheaf = 32 \<and> alignof struct_slab_sheaf = 8 \<and> wf_cty struct_slab_sheaf"
  by (simp add: struct_slab_sheaf_def base_types layout_eval struct_callback_head_layout struct_list_head_layout bool_def
      del: One_nat_def)

lemma struct_sock_reuseport_layout [layout_simps]:
  "sizeof struct_sock_reuseport = 48 \<and> alignof struct_sock_reuseport = 8 \<and> wf_cty struct_sock_reuseport"
  by (simp add: struct_sock_reuseport_def base_types layout_eval struct_callback_head_layout u16_def c__u16_def
      del: One_nat_def)

lemma socket_state_layout [layout_simps]:
  "sizeof socket_state = 4 \<and> alignof socket_state = 4 \<and> wf_cty socket_state"
  by (simp add: socket_state_def base_types layout_eval
      del: One_nat_def)

lemma struct_socket_wq_layout [layout_simps]:
  "sizeof struct_socket_wq = 64 \<and> alignof struct_socket_wq = 8 \<and> wf_cty struct_socket_wq"
  by (simp add: struct_socket_wq_def base_types layout_eval wait_queue_head_t_def struct_wait_queue_head_layout
      struct_callback_head_layout
      del: One_nat_def)

lemma struct_socket_layout [layout_simps]:
  "sizeof struct_socket = 128 \<and> alignof struct_socket = 8 \<and> wf_cty struct_socket"
  by (simp add: struct_socket_def base_types layout_eval socket_state_layout struct_socket_wq_layout
      del: One_nat_def)

lemma struct_software_node_layout [layout_simps]:
  "sizeof struct_software_node = 24 \<and> alignof struct_software_node = 8 \<and> wf_cty struct_software_node"
  by (simp add: struct_software_node_def base_types layout_eval
      del: One_nat_def)

lemma struct_srcu_node_layout [layout_simps]:
  "sizeof struct_srcu_node = 96 \<and> alignof struct_srcu_node = 8 \<and> wf_cty struct_srcu_node"
  by (simp add: struct_srcu_node_def base_types layout_eval raw_spinlock_t_def struct_raw_spinlock_layout
      del: One_nat_def)

lemma struct_thermal_cooling_device_ops_layout [layout_simps]:
  "sizeof struct_thermal_cooling_device_ops = 48 \<and> alignof struct_thermal_cooling_device_ops = 8 \<and> wf_cty struct_thermal_cooling_device_ops"
  by (simp add: struct_thermal_cooling_device_ops_def base_types layout_eval
      del: One_nat_def)

lemma struct_tlsdev_ops_layout [layout_simps]:
  "sizeof struct_tlsdev_ops = 24 \<and> alignof struct_tlsdev_ops = 8 \<and> wf_cty struct_tlsdev_ops"
  by (simp add: struct_tlsdev_ops_def base_types layout_eval
      del: One_nat_def)

lemma struct_tty_ldisc_ops_layout [layout_simps]:
  "sizeof struct_tty_ldisc_ops = 144 \<and> alignof struct_tty_ldisc_ops = 8 \<and> wf_cty struct_tty_ldisc_ops"
  by (simp add: struct_tty_ldisc_ops_def base_types layout_eval
      del: One_nat_def)

lemma struct_tty_port_client_operations_layout [layout_simps]:
  "sizeof struct_tty_port_client_operations = 24 \<and> alignof struct_tty_port_client_operations = 8 \<and> wf_cty struct_tty_port_client_operations"
  by (simp add: struct_tty_port_client_operations_def base_types layout_eval
      del: One_nat_def)

lemma struct_tty_port_operations_layout [layout_simps]:
  "sizeof struct_tty_port_operations = 40 \<and> alignof struct_tty_port_operations = 8 \<and> wf_cty struct_tty_port_operations"
  by (simp add: struct_tty_port_operations_def base_types layout_eval
      del: One_nat_def)

lemma struct_udp_hslot_layout [layout_simps]:
  "sizeof struct_udp_hslot = 16 \<and> alignof struct_udp_hslot = 8 \<and> wf_cty struct_udp_hslot"
  by (simp add: struct_udp_hslot_def base_types layout_eval struct_hlist_head_layout struct_hlist_nulls_head_layout
      spinlock_t_def struct_spinlock_layout
      del: One_nat_def)

lemma struct_udp_hslot_main_layout [layout_simps]:
  "sizeof struct_udp_hslot_main = 32 \<and> alignof struct_udp_hslot_main = 8 \<and> wf_cty struct_udp_hslot_main"
  by (simp add: struct_udp_hslot_main_def base_types layout_eval struct_udp_hslot_layout u32_def c__u32_def
      del: One_nat_def)

lemma struct_udp_tunnel_nic_table_info_layout [layout_simps]:
  "sizeof struct_udp_tunnel_nic_table_info = 8 \<and> alignof struct_udp_tunnel_nic_table_info = 4 \<and> wf_cty struct_udp_tunnel_nic_table_info"
  by (simp add: struct_udp_tunnel_nic_table_info_def base_types layout_eval
      del: One_nat_def)

lemma struct_udp_tunnel_nic_info_layout [layout_simps]:
  "sizeof struct_udp_tunnel_nic_info = 72 \<and> alignof struct_udp_tunnel_nic_info = 8 \<and> wf_cty struct_udp_tunnel_nic_info"
  by (simp add: struct_udp_tunnel_nic_info_def base_types layout_eval struct_udp_tunnel_nic_table_info_layout
      del: One_nat_def)

lemma struct_uncached_list_layout [layout_simps]:
  "sizeof struct_uncached_list = 24 \<and> alignof struct_uncached_list = 8 \<and> wf_cty struct_uncached_list"
  by (simp add: struct_uncached_list_def base_types layout_eval spinlock_t_def struct_spinlock_layout
      struct_list_head_layout
      del: One_nat_def)

lemma struct_uprobe_xol_ops_layout [layout_simps]:
  "sizeof struct_uprobe_xol_ops = 32 \<and> alignof struct_uprobe_xol_ops = 8 \<and> wf_cty struct_uprobe_xol_ops"
  by (simp add: struct_uprobe_xol_ops_def base_types layout_eval
      del: One_nat_def)

lemma struct_vlan_group_layout [layout_simps]:
  "sizeof struct_vlan_group = 152 \<and> alignof struct_vlan_group = 8 \<and> wf_cty struct_vlan_group"
  by (simp add: struct_vlan_group_def base_types layout_eval struct_hlist_node_layout
      del: One_nat_def)

lemma struct_vlan_info_layout [layout_simps]:
  "sizeof struct_vlan_info = 200 \<and> alignof struct_vlan_info = 8 \<and> wf_cty struct_vlan_info"
  by (simp add: struct_vlan_info_def base_types layout_eval struct_vlan_group_layout struct_list_head_layout bool_def
      struct_callback_head_layout
      del: One_nat_def)

lemma enum_watch_notification_type_layout [layout_simps]:
  "sizeof enum_watch_notification_type = 4 \<and> alignof enum_watch_notification_type = 4 \<and> wf_cty enum_watch_notification_type"
  by (simp add: enum_watch_notification_type_def base_types layout_eval
      del: One_nat_def)

lemma struct_watch_type_filter_layout [layout_simps]:
  "sizeof struct_watch_type_filter = 16 \<and> alignof struct_watch_type_filter = 4 \<and> wf_cty struct_watch_type_filter"
  by (simp add: struct_watch_type_filter_def base_types layout_eval enum_watch_notification_type_layout c__u32_def
      del: One_nat_def)

lemma struct_watch_filter_layout [layout_simps]:
  "sizeof struct_watch_filter = 24 \<and> alignof struct_watch_filter = 8 \<and> wf_cty struct_watch_filter"
  by (simp add: struct_watch_filter_def base_types layout_eval struct_callback_head_layout u32_def c__u32_def
      struct_watch_type_filter_layout
      del: One_nat_def)

lemma enum_nl80211_iftype_layout [layout_simps]:
  "sizeof enum_nl80211_iftype = 4 \<and> alignof enum_nl80211_iftype = 4 \<and> wf_cty enum_nl80211_iftype"
  by (simp add: enum_nl80211_iftype_def base_types layout_eval
      del: One_nat_def)

lemma enum_ieee80211_bss_type_layout [layout_simps]:
  "sizeof enum_ieee80211_bss_type = 4 \<and> alignof enum_ieee80211_bss_type = 4 \<and> wf_cty enum_ieee80211_bss_type"
  by (simp add: enum_ieee80211_bss_type_def base_types layout_eval
      del: One_nat_def)

lemma enum_nl80211_chan_width_layout [layout_simps]:
  "sizeof enum_nl80211_chan_width = 4 \<and> alignof enum_nl80211_chan_width = 4 \<and> wf_cty enum_nl80211_chan_width"
  by (simp add: enum_nl80211_chan_width_def base_types layout_eval
      del: One_nat_def)

lemma enum_ieee80211_edmg_bw_config_layout [layout_simps]:
  "sizeof enum_ieee80211_edmg_bw_config = 4 \<and> alignof enum_ieee80211_edmg_bw_config = 4 \<and> wf_cty enum_ieee80211_edmg_bw_config"
  by (simp add: enum_ieee80211_edmg_bw_config_def base_types layout_eval
      del: One_nat_def)

lemma struct_ieee80211_edmg_layout [layout_simps]:
  "sizeof struct_ieee80211_edmg = 8 \<and> alignof struct_ieee80211_edmg = 4 \<and> wf_cty struct_ieee80211_edmg"
  by (simp add: struct_ieee80211_edmg_def base_types layout_eval u8_def c__u8_def enum_ieee80211_edmg_bw_config_layout
      del: One_nat_def)

lemma struct_cfg80211_chan_def_layout [layout_simps]:
  "sizeof struct_cfg80211_chan_def = 40 \<and> alignof struct_cfg80211_chan_def = 8 \<and> wf_cty struct_cfg80211_chan_def"
  by (simp add: struct_cfg80211_chan_def_def base_types layout_eval enum_nl80211_chan_width_layout u32_def c__u32_def
      struct_ieee80211_edmg_layout u16_def c__u16_def bool_def
      del: One_nat_def)

lemma struct_ieee80211_mcs_info_layout [layout_simps]:
  "sizeof struct_ieee80211_mcs_info = 16 \<and> alignof struct_ieee80211_mcs_info = 2 \<and> wf_cty struct_ieee80211_mcs_info"
  by (simp add: struct_ieee80211_mcs_info_def base_types layout_eval u8_def c__u8_def c__le16_def c__u16_def
      del: One_nat_def)

lemma struct_ieee80211_ht_cap_layout [layout_simps]:
  "sizeof struct_ieee80211_ht_cap = 26 \<and> alignof struct_ieee80211_ht_cap = 1 \<and> wf_cty struct_ieee80211_ht_cap"
  by (simp add: struct_ieee80211_ht_cap_def base_types layout_eval c__le16_def c__u16_def u8_def c__u8_def
      struct_ieee80211_mcs_info_layout c__le32_def c__u32_def
      del: One_nat_def)

lemma struct_cfg80211_ibss_params_layout [layout_simps]:
  "sizeof struct_cfg80211_ibss_params = 176 \<and> alignof struct_cfg80211_ibss_params = 8 \<and> wf_cty struct_cfg80211_ibss_params"
  by (simp add: struct_cfg80211_ibss_params_def base_types layout_eval struct_cfg80211_chan_def_layout u8_def c__u8_def
      u16_def c__u16_def u32_def c__u32_def bool_def struct_ieee80211_ht_cap_layout
      del: One_nat_def)

lemma enum_nl80211_auth_type_layout [layout_simps]:
  "sizeof enum_nl80211_auth_type = 4 \<and> alignof enum_nl80211_auth_type = 4 \<and> wf_cty enum_nl80211_auth_type"
  by (simp add: enum_nl80211_auth_type_def base_types layout_eval
      del: One_nat_def)

lemma enum_nl80211_mfp_layout [layout_simps]:
  "sizeof enum_nl80211_mfp = 4 \<and> alignof enum_nl80211_mfp = 4 \<and> wf_cty enum_nl80211_mfp"
  by (simp add: enum_nl80211_mfp_def base_types layout_eval
      del: One_nat_def)

lemma enum_nl80211_sae_pwe_mechanism_layout [layout_simps]:
  "sizeof enum_nl80211_sae_pwe_mechanism = 4 \<and> alignof enum_nl80211_sae_pwe_mechanism = 4 \<and> wf_cty enum_nl80211_sae_pwe_mechanism"
  by (simp add: enum_nl80211_sae_pwe_mechanism_def base_types layout_eval
      del: One_nat_def)

lemma struct_cfg80211_crypto_settings_layout [layout_simps]:
  "sizeof struct_cfg80211_crypto_settings = 112 \<and> alignof struct_cfg80211_crypto_settings = 8 \<and> wf_cty struct_cfg80211_crypto_settings"
  by (simp add: struct_cfg80211_crypto_settings_def base_types layout_eval u32_def c__u32_def bool_def c__be16_def
      c__u16_def u8_def c__u8_def enum_nl80211_sae_pwe_mechanism_layout
      del: One_nat_def)

lemma struct_ieee80211_vht_mcs_info_layout [layout_simps]:
  "sizeof struct_ieee80211_vht_mcs_info = 8 \<and> alignof struct_ieee80211_vht_mcs_info = 2 \<and> wf_cty struct_ieee80211_vht_mcs_info"
  by (simp add: struct_ieee80211_vht_mcs_info_def base_types layout_eval c__le16_def c__u16_def
      del: One_nat_def)

lemma struct_ieee80211_vht_cap_layout [layout_simps]:
  "sizeof struct_ieee80211_vht_cap = 12 \<and> alignof struct_ieee80211_vht_cap = 4 \<and> wf_cty struct_ieee80211_vht_cap"
  by (simp add: struct_ieee80211_vht_cap_def base_types layout_eval c__le32_def c__u32_def
      struct_ieee80211_vht_mcs_info_layout
      del: One_nat_def)

lemma enum_nl80211_bss_select_attr_layout [layout_simps]:
  "sizeof enum_nl80211_bss_select_attr = 4 \<and> alignof enum_nl80211_bss_select_attr = 4 \<and> wf_cty enum_nl80211_bss_select_attr"
  by (simp add: enum_nl80211_bss_select_attr_def base_types layout_eval
      del: One_nat_def)

lemma enum_nl80211_band_layout [layout_simps]:
  "sizeof enum_nl80211_band = 4 \<and> alignof enum_nl80211_band = 4 \<and> wf_cty enum_nl80211_band"
  by (simp add: enum_nl80211_band_def base_types layout_eval
      del: One_nat_def)

lemma struct_cfg80211_bss_select_adjust_layout [layout_simps]:
  "sizeof struct_cfg80211_bss_select_adjust = 8 \<and> alignof struct_cfg80211_bss_select_adjust = 4 \<and> wf_cty struct_cfg80211_bss_select_adjust"
  by (simp add: struct_cfg80211_bss_select_adjust_def base_types layout_eval enum_nl80211_band_layout s8_def c__s8_def
      del: One_nat_def)

lemma struct_cfg80211_bss_selection_layout [layout_simps]:
  "sizeof struct_cfg80211_bss_selection = 12 \<and> alignof struct_cfg80211_bss_selection = 4 \<and> wf_cty struct_cfg80211_bss_selection"
  by (simp add: struct_cfg80211_bss_selection_def base_types layout_eval enum_nl80211_bss_select_attr_layout
      enum_nl80211_band_layout struct_cfg80211_bss_select_adjust_layout
      del: One_nat_def)

lemma struct_cfg80211_connect_params_layout [layout_simps]:
  "sizeof struct_cfg80211_connect_params = 384 \<and> alignof struct_cfg80211_connect_params = 8 \<and> wf_cty struct_cfg80211_connect_params"
  by (simp add: struct_cfg80211_connect_params_def base_types layout_eval size_t_def c__kernel_size_t_def
      c__kernel_ulong_t_def enum_nl80211_auth_type_layout bool_def enum_nl80211_mfp_layout
      struct_cfg80211_crypto_settings_layout u8_def c__u8_def u32_def c__u32_def
      struct_ieee80211_ht_cap_layout struct_ieee80211_vht_cap_layout struct_cfg80211_bss_selection_layout
      u16_def c__u16_def struct_ieee80211_edmg_layout
      del: One_nat_def)

lemma struct_wiphy_work_layout [layout_simps]:
  "sizeof struct_wiphy_work = 24 \<and> alignof struct_wiphy_work = 8 \<and> wf_cty struct_wiphy_work"
  by (simp add: struct_wiphy_work_def base_types layout_eval struct_list_head_layout wiphy_work_func_t_def
      del: One_nat_def)

lemma struct_wireless_dev_layout [layout_simps]:
  "sizeof struct_wireless_dev = 2248 \<and> alignof struct_wireless_dev = 8 \<and> wf_cty struct_wireless_dev"
  by (simp add: struct_wireless_dev_def base_types layout_eval enum_nl80211_iftype_layout struct_list_head_layout u32_def
      c__u32_def u8_def c__u8_def bool_def enum_ieee80211_bss_type_layout struct_work_struct_layout
      spinlock_t_def struct_spinlock_layout struct_cfg80211_ibss_params_layout
      struct_cfg80211_connect_params_layout size_t_def c__kernel_size_t_def c__kernel_ulong_t_def s8_def
      c__s8_def struct_wiphy_work_layout struct_cfg80211_chan_def_layout u16_def c__u16_def
      del: One_nat_def)

end
