(* ===== verification/KernelReach3d.thy ===== *)
theory KernelReach3d
  imports KernelReach2b KernelVfsRefs2
begin

text \<open>
  Types of \<^verbatim>\<open>bpf/vmlinux.h\<close> that are three dereferences away from the objects the program and its loading
  touch, with every type they hold by value (part 4 of 4).
\<close>

section \<open>Types\<close>

definition struct_worker_pool :: cty where
  "struct_worker_pool = CStruct ''worker_pool'' False
     [Field ''lock'' raw_spinlock_t,
      Field ''cpu'' c_int,
      Field ''node'' c_int,
      Field ''id'' c_int,
      Field ''flags'' unsigned_int,
      Field ''last_progress_ts'' long_unsigned_int,
      Field ''cpu_stall'' bool,
      Field ''nr_running'' c_int,
      Field ''worklist'' struct_list_head,
      Field ''nr_workers'' c_int,
      Field ''nr_idle'' c_int,
      Field ''idle_list'' struct_list_head,
      Field ''idle_timer'' struct_timer_list,
      Field ''idle_cull_work'' struct_work_struct,
      Field ''mayday_timer'' struct_timer_list,
      Field ''busy_hash'' (CArr 64 struct_hlist_head),
      Field ''manager'' (CPtr ''struct worker''),
      Field ''workers'' struct_list_head,
      Field ''worker_ida'' struct_ida,
      Field ''attrs'' (CPtr ''struct workqueue_attrs''),
      Field ''hash_node'' struct_hlist_node,
      Field ''refcnt'' c_int,
      Field ''rcu'' struct_callback_head]"

definition c__le64 :: cty where [layout_simps]:
  "c__le64 = c__u64"

definition struct_wpan_dev :: cty where
  "struct_wpan_dev = CStruct ''wpan_dev'' False
     [Field ''wpan_phy'' (CPtr ''struct wpan_phy''),
      Field ''iftype'' c_int,
      Field ''list'' struct_list_head,
      Field ''netdev'' (CPtr ''struct net_device''),
      Field ''header_ops'' (CPtr ''const struct wpan_dev_header_ops''),
      Field ''lowpan_dev'' (CPtr ''struct net_device''),
      Field ''identifier'' u32,
      Field ''pan_id'' c__le16,
      Field ''short_addr'' c__le16,
      Field ''extended_addr'' c__le64,
      Field ''bsn'' atomic_t,
      Field ''dsn'' atomic_t,
      Field ''min_be'' u8,
      Field ''max_be'' u8,
      Field ''csma_retries'' u8,
      Field ''frame_retries'' s8,
      Field ''lbt'' bool,
      Field ''ackreq'' bool,
      Field ''association_lock'' struct_mutex,
      Field ''parent'' (CPtr ''struct ieee802154_pan_device''),
      Field ''children'' struct_list_head,
      Field ''max_associations'' unsigned_int,
      Field ''nchildren'' unsigned_int]"

definition struct_local_lock :: cty where
  "struct_local_lock = CStruct ''local_lock'' False
     []"

definition local_lock_t :: cty where [layout_simps]:
  "local_lock_t = struct_local_lock"

definition struct_xdp_dev_bulk_queue :: cty where
  "struct_xdp_dev_bulk_queue = CStruct ''xdp_dev_bulk_queue'' False
     [Field ''q'' (CArr 16 (CPtr ''struct xdp_frame'')),
      Field ''flush_node'' struct_list_head,
      Field ''dev'' (CPtr ''struct net_device''),
      Field ''dev_rx'' (CPtr ''struct net_device''),
      Field ''xdp_prog'' (CPtr ''struct bpf_prog''),
      Field ''count'' unsigned_int,
      Field ''bq_lock'' local_lock_t]"

definition struct_xdp_metadata_ops :: cty where
  "struct_xdp_metadata_ops = CStruct ''xdp_metadata_ops'' False
     [Field ''xmo_rx_timestamp'' (CPtr ''int (const struct xdp_md *, u64 *)''),
      Field ''xmo_rx_hash'' (CPtr ''int (const struct xdp_md *, u32 *, enum xdp_rss_hash_type *)''),
      Field ''xmo_rx_vlan_tag'' (CPtr ''int (const struct xdp_md *, __be16 *, u16 *)'')]"

definition struct_xfrm_mark :: cty where
  "struct_xfrm_mark = CStruct ''xfrm_mark'' False
     [Field ''v'' c__u32,
      Field ''m'' c__u32]"

definition xfrm_address_t :: cty where
  "xfrm_address_t = CUnion [] False
      [Field ''a4'' c__be32,
       Field ''a6'' (CArr 4 c__be32),
       Field ''in6'' struct_in6_addr]"

definition struct_xfrm_selector :: cty where
  "struct_xfrm_selector = CStruct ''xfrm_selector'' False
     [Field ''daddr'' xfrm_address_t,
      Field ''saddr'' xfrm_address_t,
      Field ''dport'' c__be16,
      Field ''dport_mask'' c__be16,
      Field ''sport'' c__be16,
      Field ''sport_mask'' c__be16,
      Field ''family'' c__u16,
      Field ''prefixlen_d'' c__u8,
      Field ''prefixlen_s'' c__u8,
      Field ''proto'' c__u8,
      Field ''ifindex'' c_int,
      Field ''user'' c__kernel_uid32_t]"

definition struct_xfrm_lifetime_cfg :: cty where
  "struct_xfrm_lifetime_cfg = CStruct ''xfrm_lifetime_cfg'' False
     [Field ''soft_byte_limit'' c__u64,
      Field ''hard_byte_limit'' c__u64,
      Field ''soft_packet_limit'' c__u64,
      Field ''hard_packet_limit'' c__u64,
      Field ''soft_add_expires_seconds'' c__u64,
      Field ''hard_add_expires_seconds'' c__u64,
      Field ''soft_use_expires_seconds'' c__u64,
      Field ''hard_use_expires_seconds'' c__u64]"

definition struct_xfrm_lifetime_cur :: cty where
  "struct_xfrm_lifetime_cur = CStruct ''xfrm_lifetime_cur'' False
     [Field ''bytes'' c__u64,
      Field ''packets'' c__u64,
      Field ''add_time'' c__u64,
      Field ''use_time'' c__u64]"

definition struct_xfrm_policy_walk_entry :: cty where
  "struct_xfrm_policy_walk_entry = CStruct ''xfrm_policy_walk_entry'' False
     [Field ''all'' struct_list_head,
      Field ''dead'' u8]"

definition struct_xfrm_policy_queue :: cty where
  "struct_xfrm_policy_queue = CStruct ''xfrm_policy_queue'' False
     [Field ''hold_queue'' struct_sk_buff_head,
      Field ''hold_timer'' struct_timer_list,
      Field ''timeout'' long_unsigned_int]"

definition struct_xfrm_id :: cty where
  "struct_xfrm_id = CStruct ''xfrm_id'' False
     [Field ''daddr'' xfrm_address_t,
      Field ''spi'' c__be32,
      Field ''proto'' c__u8]"

definition struct_xfrm_tmpl :: cty where
  "struct_xfrm_tmpl = CStruct ''xfrm_tmpl'' False
     [Field ''id'' struct_xfrm_id,
      Field ''saddr'' xfrm_address_t,
      Field ''encap_family'' short_unsigned_int,
      Field ''reqid'' u32,
      Field ''mode'' u8,
      Field ''share'' u8,
      Field ''optional'' u8,
      Field ''allalgs'' u8,
      Field ''aalgos'' u32,
      Field ''ealgos'' u32,
      Field ''calgos'' u32]"

definition struct_xfrm_dev_offload :: cty where
  "struct_xfrm_dev_offload = CStruct ''xfrm_dev_offload'' False
     [Field ''dev'' (CPtr ''struct net_device''),
      Field ''dev_tracker'' netdevice_tracker,
      Field ''real_dev'' (CPtr ''struct net_device''),
      Field ''offload_handle'' long_unsigned_int,
      BitField ''dir'' u8 2,
      BitField ''type'' u8 2,
      BitField ''flags'' u8 2]"

definition struct_xfrm_policy :: cty where
  "struct_xfrm_policy = CStruct ''xfrm_policy'' False
     [Field ''xp_net'' possible_net_t,
      Field ''bydst'' struct_hlist_node,
      Field ''byidx'' struct_hlist_node,
      Field ''state_cache_list'' struct_hlist_head,
      Field ''lock'' rwlock_t,
      Field ''refcnt'' refcount_t,
      Field ''pos'' u32,
      Field ''timer'' struct_timer_list,
      Field ''genid'' atomic_t,
      Field ''priority'' u32,
      Field ''index'' u32,
      Field ''if_id'' u32,
      Field ''mark'' struct_xfrm_mark,
      Field ''selector'' struct_xfrm_selector,
      Field ''lft'' struct_xfrm_lifetime_cfg,
      Field ''curlft'' struct_xfrm_lifetime_cur,
      Field ''walk'' struct_xfrm_policy_walk_entry,
      Field ''polq'' struct_xfrm_policy_queue,
      Field ''bydst_reinsert'' bool,
      Field ''type'' u8,
      Field ''action'' u8,
      Field ''flags'' u8,
      Field ''xfrm_nr'' u8,
      Field ''family'' u16,
      Field ''security'' (CPtr ''struct xfrm_sec_ctx''),
      Field ''xfrm_vec'' (CArr 6 struct_xfrm_tmpl),
      Field ''rcu'' struct_callback_head,
      Field ''xdo'' struct_xfrm_dev_offload]"

definition struct_xfrm_state_walk :: cty where
  "struct_xfrm_state_walk = CStruct ''xfrm_state_walk'' False
     [Field ''all'' struct_list_head,
      Field ''state'' u8,
      Field ''dying'' u8,
      Field ''proto'' u8,
      Field ''seq'' u32,
      Field ''filter'' (CPtr ''struct xfrm_address_filter'')]"

definition struct_xfrm_replay_state :: cty where
  "struct_xfrm_replay_state = CStruct ''xfrm_replay_state'' False
     [Field ''oseq'' c__u32,
      Field ''seq'' c__u32,
      Field ''bitmap'' c__u32]"

definition enum_xfrm_replay_mode :: cty where
  "enum_xfrm_replay_mode = CEnum 4
     [(''XFRM_REPLAY_MODE_LEGACY'', 0), (''XFRM_REPLAY_MODE_BMP'', 1),
      (''XFRM_REPLAY_MODE_ESN'', 2)]"

definition struct_xfrm_stats :: cty where
  "struct_xfrm_stats = CStruct ''xfrm_stats'' False
     [Field ''replay_window'' c__u32,
      Field ''replay'' c__u32,
      Field ''integrity_failed'' c__u32]"

definition struct_xfrm_mode :: cty where
  "struct_xfrm_mode = CStruct ''xfrm_mode'' False
     [Field ''encap'' u8,
      Field ''family'' u8,
      Field ''flags'' u8]"

definition struct_xfrm_state :: cty where
  "struct_xfrm_state = CStruct ''xfrm_state'' False
     [Field ''xs_net'' possible_net_t,
      Field [] (CUnion [] False
        [Field ''gclist'' struct_hlist_node,
         Field ''bydst'' struct_hlist_node]),
      Field [] (CUnion [] False
        [Field ''dev_gclist'' struct_hlist_node,
         Field ''bysrc'' struct_hlist_node]),
      Field ''byspi'' struct_hlist_node,
      Field ''byseq'' struct_hlist_node,
      Field ''state_cache'' struct_hlist_node,
      Field ''state_cache_input'' struct_hlist_node,
      Field ''refcnt'' refcount_t,
      Field ''lock'' spinlock_t,
      Field ''pcpu_num'' u32,
      Field ''id'' struct_xfrm_id,
      Field ''sel'' struct_xfrm_selector,
      Field ''mark'' struct_xfrm_mark,
      Field ''if_id'' u32,
      Field ''tfcpad'' u32,
      Field ''genid'' u32,
      Field ''km'' struct_xfrm_state_walk,
      Field ''props'' (CStruct [] False
        [Field ''reqid'' u32,
         Field ''mode'' u8,
         Field ''replay_window'' u8,
         Field ''aalgo'' u8,
         Field ''ealgo'' u8,
         Field ''calgo'' u8,
         Field ''flags'' u8,
         Field ''family'' u16,
         Field ''saddr'' xfrm_address_t,
         Field ''header_len'' c_int,
         Field ''enc_hdr_len'' c_int,
         Field ''trailer_len'' c_int,
         Field ''extra_flags'' u32,
         Field ''smark'' struct_xfrm_mark]),
      Field ''lft'' struct_xfrm_lifetime_cfg,
      Field ''aalg'' (CPtr ''struct xfrm_algo_auth''),
      Field ''ealg'' (CPtr ''struct xfrm_algo''),
      Field ''calg'' (CPtr ''struct xfrm_algo''),
      Field ''aead'' (CPtr ''struct xfrm_algo_aead''),
      Field ''geniv'' (CPtr ''const char''),
      Field ''new_mapping_sport'' c__be16,
      Field ''new_mapping'' u32,
      Field ''mapping_maxage'' u32,
      Field ''encap'' (CPtr ''struct xfrm_encap_tmpl''),
      Field ''nat_keepalive_interval'' u32,
      Field ''nat_keepalive_expiration'' time64_t,
      Field ''coaddr'' (CPtr ''xfrm_address_t''),
      Field ''tunnel'' (CPtr ''struct xfrm_state''),
      Field ''tunnel_users'' atomic_t,
      Field ''replay'' struct_xfrm_replay_state,
      Field ''replay_esn'' (CPtr ''struct xfrm_replay_state_esn''),
      Field ''preplay'' struct_xfrm_replay_state,
      Field ''preplay_esn'' (CPtr ''struct xfrm_replay_state_esn''),
      Field ''repl_mode'' enum_xfrm_replay_mode,
      Field ''xflags'' u32,
      Field ''replay_maxage'' u32,
      Field ''replay_maxdiff'' u32,
      Field ''rtimer'' struct_timer_list,
      Field ''stats'' struct_xfrm_stats,
      Field ''curlft'' struct_xfrm_lifetime_cur,
      Field ''mtimer'' struct_hrtimer,
      Field ''xso'' struct_xfrm_dev_offload,
      Field ''saved_tmo'' c_long,
      Field ''lastused'' time64_t,
      Field ''xfrag'' struct_page_frag,
      Field ''type'' (CPtr ''const struct xfrm_type''),
      Field ''inner_mode'' struct_xfrm_mode,
      Field ''inner_mode_iaf'' struct_xfrm_mode,
      Field ''outer_mode'' struct_xfrm_mode,
      Field ''type_offload'' (CPtr ''const struct xfrm_type_offload''),
      Field ''security'' (CPtr ''struct xfrm_sec_ctx''),
      Field ''data'' (CPtr ''void''),
      Field ''dir'' u8,
      Field ''mode_cbs'' (CPtr ''const struct xfrm_mode_cbs''),
      Field ''mode_data'' (CPtr ''void'')]"

definition struct_xfrmdev_ops :: cty where
  "struct_xfrmdev_ops = CStruct ''xfrmdev_ops'' False
     [Field ''xdo_dev_state_add'' (CPtr ''int (struct net_device *, struct xfrm_state *, struct netlink_ext_ack *)''),
      Field ''xdo_dev_state_delete'' (CPtr ''void (struct net_device *, struct xfrm_state *)''),
      Field ''xdo_dev_state_free'' (CPtr ''void (struct net_device *, struct xfrm_state *)''),
      Field ''xdo_dev_offload_ok'' (CPtr ''bool (struct sk_buff *, struct xfrm_state *)''),
      Field ''xdo_dev_state_advance_esn'' (CPtr ''void (struct xfrm_state *)''),
      Field ''xdo_dev_state_update_stats'' (CPtr ''void (struct xfrm_state *)''),
      Field ''xdo_dev_policy_add'' (CPtr ''int (struct xfrm_policy *, struct netlink_ext_ack *)''),
      Field ''xdo_dev_policy_delete'' (CPtr ''void (struct xfrm_policy *)''),
      Field ''xdo_dev_policy_free'' (CPtr ''void (struct xfrm_policy *)'')]"

definition struct_xps_dev_maps :: cty where
  "struct_xps_dev_maps = CStruct ''xps_dev_maps'' False
     [Field ''rcu'' struct_callback_head,
      Field ''nr_ids'' unsigned_int,
      Field ''num_tc'' s16,
      Field ''attr_map'' (CArr 0 (CPtr ''struct xps_map''))]"

definition struct_xsk_tx_metadata_ops :: cty where
  "struct_xsk_tx_metadata_ops = CStruct ''xsk_tx_metadata_ops'' False
     [Field ''tmo_request_timestamp'' (CPtr ''void (void *)''),
      Field ''tmo_fill_timestamp'' (CPtr ''u64 (void *)''),
      Field ''tmo_request_checksum'' (CPtr ''void (u16, u16, void *)''),
      Field ''tmo_request_launch_time'' (CPtr ''void (u64, void *)'')]"

section \<open>Sizes and alignments\<close>

lemma struct_worker_pool_layout [layout_simps]:
  "sizeof struct_worker_pool = 792 \<and> alignof struct_worker_pool = 8 \<and> wf_cty struct_worker_pool"
  by (simp add: struct_worker_pool_def base_types layout_eval raw_spinlock_t_def struct_raw_spinlock_layout bool_def
      struct_list_head_layout struct_timer_list_layout struct_work_struct_layout struct_hlist_head_layout
      struct_ida_layout struct_hlist_node_layout struct_callback_head_layout
      del: One_nat_def)

lemma struct_wpan_dev_layout [layout_simps]:
  "sizeof struct_wpan_dev = 152 \<and> alignof struct_wpan_dev = 8 \<and> wf_cty struct_wpan_dev"
  by (simp add: struct_wpan_dev_def base_types layout_eval struct_list_head_layout u32_def c__u32_def c__le16_def
      c__u16_def c__le64_def c__u64_def atomic_t_layout u8_def c__u8_def s8_def c__s8_def bool_def
      struct_mutex_layout
      del: One_nat_def)

lemma struct_local_lock_layout [layout_simps]:
  "sizeof struct_local_lock = 0 \<and> alignof struct_local_lock = 1 \<and> wf_cty struct_local_lock"
  by (simp add: struct_local_lock_def base_types layout_eval
      del: One_nat_def)

lemma struct_xdp_dev_bulk_queue_layout [layout_simps]:
  "sizeof struct_xdp_dev_bulk_queue = 176 \<and> alignof struct_xdp_dev_bulk_queue = 8 \<and> wf_cty struct_xdp_dev_bulk_queue"
  by (simp add: struct_xdp_dev_bulk_queue_def base_types layout_eval struct_list_head_layout local_lock_t_def
      struct_local_lock_layout
      del: One_nat_def)

lemma struct_xdp_metadata_ops_layout [layout_simps]:
  "sizeof struct_xdp_metadata_ops = 24 \<and> alignof struct_xdp_metadata_ops = 8 \<and> wf_cty struct_xdp_metadata_ops"
  by (simp add: struct_xdp_metadata_ops_def base_types layout_eval
      del: One_nat_def)

lemma struct_xfrm_mark_layout [layout_simps]:
  "sizeof struct_xfrm_mark = 8 \<and> alignof struct_xfrm_mark = 4 \<and> wf_cty struct_xfrm_mark"
  by (simp add: struct_xfrm_mark_def base_types layout_eval c__u32_def
      del: One_nat_def)

lemma xfrm_address_t_layout [layout_simps]:
  "sizeof xfrm_address_t = 16 \<and> alignof xfrm_address_t = 4 \<and> wf_cty xfrm_address_t"
  by (simp add: xfrm_address_t_def base_types layout_eval c__be32_def c__u32_def struct_in6_addr_layout
      del: One_nat_def)

lemma struct_xfrm_selector_layout [layout_simps]:
  "sizeof struct_xfrm_selector = 56 \<and> alignof struct_xfrm_selector = 4 \<and> wf_cty struct_xfrm_selector"
  by (simp add: struct_xfrm_selector_def base_types layout_eval xfrm_address_t_layout c__be16_def c__u16_def c__u8_def
      c__kernel_uid32_t_def
      del: One_nat_def)

lemma struct_xfrm_lifetime_cfg_layout [layout_simps]:
  "sizeof struct_xfrm_lifetime_cfg = 64 \<and> alignof struct_xfrm_lifetime_cfg = 8 \<and> wf_cty struct_xfrm_lifetime_cfg"
  by (simp add: struct_xfrm_lifetime_cfg_def base_types layout_eval c__u64_def
      del: One_nat_def)

lemma struct_xfrm_lifetime_cur_layout [layout_simps]:
  "sizeof struct_xfrm_lifetime_cur = 32 \<and> alignof struct_xfrm_lifetime_cur = 8 \<and> wf_cty struct_xfrm_lifetime_cur"
  by (simp add: struct_xfrm_lifetime_cur_def base_types layout_eval c__u64_def
      del: One_nat_def)

lemma struct_xfrm_policy_walk_entry_layout [layout_simps]:
  "sizeof struct_xfrm_policy_walk_entry = 24 \<and> alignof struct_xfrm_policy_walk_entry = 8 \<and> wf_cty struct_xfrm_policy_walk_entry"
  by (simp add: struct_xfrm_policy_walk_entry_def base_types layout_eval struct_list_head_layout u8_def c__u8_def
      del: One_nat_def)

lemma struct_xfrm_policy_queue_layout [layout_simps]:
  "sizeof struct_xfrm_policy_queue = 72 \<and> alignof struct_xfrm_policy_queue = 8 \<and> wf_cty struct_xfrm_policy_queue"
  by (simp add: struct_xfrm_policy_queue_def base_types layout_eval struct_sk_buff_head_layout struct_timer_list_layout
      del: One_nat_def)

lemma struct_xfrm_id_layout [layout_simps]:
  "sizeof struct_xfrm_id = 24 \<and> alignof struct_xfrm_id = 4 \<and> wf_cty struct_xfrm_id"
  by (simp add: struct_xfrm_id_def base_types layout_eval xfrm_address_t_layout c__be32_def c__u32_def c__u8_def
      del: One_nat_def)

lemma struct_xfrm_tmpl_layout [layout_simps]:
  "sizeof struct_xfrm_tmpl = 64 \<and> alignof struct_xfrm_tmpl = 4 \<and> wf_cty struct_xfrm_tmpl"
  by (simp add: struct_xfrm_tmpl_def base_types layout_eval struct_xfrm_id_layout xfrm_address_t_layout u32_def
      c__u32_def u8_def c__u8_def
      del: One_nat_def)

lemma struct_xfrm_dev_offload_layout [layout_simps]:
  "sizeof struct_xfrm_dev_offload = 32 \<and> alignof struct_xfrm_dev_offload = 8 \<and> wf_cty struct_xfrm_dev_offload"
  by (simp add: struct_xfrm_dev_offload_def base_types layout_eval netdevice_tracker_layout u8_def c__u8_def
      del: One_nat_def)

lemma struct_xfrm_policy_layout [layout_simps]:
  "sizeof struct_xfrm_policy = 824 \<and> alignof struct_xfrm_policy = 8 \<and> wf_cty struct_xfrm_policy"
  by (simp add: struct_xfrm_policy_def base_types layout_eval possible_net_t_layout struct_hlist_node_layout
      struct_hlist_head_layout rwlock_t_def struct_rwlock_layout refcount_t_def
      struct_refcount_struct_layout u32_def c__u32_def struct_timer_list_layout atomic_t_layout
      struct_xfrm_mark_layout struct_xfrm_selector_layout struct_xfrm_lifetime_cfg_layout
      struct_xfrm_lifetime_cur_layout struct_xfrm_policy_walk_entry_layout
      struct_xfrm_policy_queue_layout bool_def u8_def c__u8_def u16_def c__u16_def
      struct_xfrm_tmpl_layout struct_callback_head_layout struct_xfrm_dev_offload_layout
      del: One_nat_def)

lemma struct_xfrm_state_walk_layout [layout_simps]:
  "sizeof struct_xfrm_state_walk = 32 \<and> alignof struct_xfrm_state_walk = 8 \<and> wf_cty struct_xfrm_state_walk"
  by (simp add: struct_xfrm_state_walk_def base_types layout_eval struct_list_head_layout u8_def c__u8_def u32_def
      c__u32_def
      del: One_nat_def)

lemma struct_xfrm_replay_state_layout [layout_simps]:
  "sizeof struct_xfrm_replay_state = 12 \<and> alignof struct_xfrm_replay_state = 4 \<and> wf_cty struct_xfrm_replay_state"
  by (simp add: struct_xfrm_replay_state_def base_types layout_eval c__u32_def
      del: One_nat_def)

lemma enum_xfrm_replay_mode_layout [layout_simps]:
  "sizeof enum_xfrm_replay_mode = 4 \<and> alignof enum_xfrm_replay_mode = 4 \<and> wf_cty enum_xfrm_replay_mode"
  by (simp add: enum_xfrm_replay_mode_def base_types layout_eval
      del: One_nat_def)

lemma struct_xfrm_stats_layout [layout_simps]:
  "sizeof struct_xfrm_stats = 12 \<and> alignof struct_xfrm_stats = 4 \<and> wf_cty struct_xfrm_stats"
  by (simp add: struct_xfrm_stats_def base_types layout_eval c__u32_def
      del: One_nat_def)

lemma struct_xfrm_mode_layout [layout_simps]:
  "sizeof struct_xfrm_mode = 3 \<and> alignof struct_xfrm_mode = 1 \<and> wf_cty struct_xfrm_mode"
  by (simp add: struct_xfrm_mode_def base_types layout_eval u8_def c__u8_def
      del: One_nat_def)

lemma struct_xfrm_state_layout [layout_simps]:
  "sizeof struct_xfrm_state = 816 \<and> alignof struct_xfrm_state = 8 \<and> wf_cty struct_xfrm_state"
  by (simp add: struct_xfrm_state_def base_types layout_eval possible_net_t_layout struct_hlist_node_layout
      refcount_t_def struct_refcount_struct_layout spinlock_t_def struct_spinlock_layout u32_def
      c__u32_def struct_xfrm_id_layout struct_xfrm_selector_layout struct_xfrm_mark_layout
      struct_xfrm_state_walk_layout u8_def c__u8_def u16_def c__u16_def xfrm_address_t_layout
      struct_xfrm_lifetime_cfg_layout c__be16_def time64_t_def c__s64_def atomic_t_layout
      struct_xfrm_replay_state_layout enum_xfrm_replay_mode_layout struct_timer_list_layout
      struct_xfrm_stats_layout struct_xfrm_lifetime_cur_layout struct_hrtimer_layout
      struct_xfrm_dev_offload_layout struct_page_frag_layout struct_xfrm_mode_layout
      del: One_nat_def)

lemma struct_xfrmdev_ops_layout [layout_simps]:
  "sizeof struct_xfrmdev_ops = 72 \<and> alignof struct_xfrmdev_ops = 8 \<and> wf_cty struct_xfrmdev_ops"
  by (simp add: struct_xfrmdev_ops_def base_types layout_eval
      del: One_nat_def)

lemma struct_xps_dev_maps_layout [layout_simps]:
  "sizeof struct_xps_dev_maps = 24 \<and> alignof struct_xps_dev_maps = 8 \<and> wf_cty struct_xps_dev_maps"
  by (simp add: struct_xps_dev_maps_def base_types layout_eval struct_callback_head_layout s16_def c__s16_def
      del: One_nat_def)

lemma struct_xsk_tx_metadata_ops_layout [layout_simps]:
  "sizeof struct_xsk_tx_metadata_ops = 32 \<and> alignof struct_xsk_tx_metadata_ops = 8 \<and> wf_cty struct_xsk_tx_metadata_ops"
  by (simp add: struct_xsk_tx_metadata_ops_def base_types layout_eval
      del: One_nat_def)

end
