(* ===== verification/KernelReach4a.thy ===== *)
theory KernelReach4a
  imports KernelReach3a KernelReach3c KernelReach3d
begin

text \<open>
  Types of \<^verbatim>\<open>bpf/vmlinux.h\<close> that are four dereferences away from the objects the program and its loading
  touch, with every type they hold by value (part 1 of 2).
\<close>

section \<open>Types\<close>

definition struct_Qdisc_ops :: cty where
  "struct_Qdisc_ops = CStruct ''Qdisc_ops'' False
     [Field ''next'' (CPtr ''struct Qdisc_ops''),
      Field ''cl_ops'' (CPtr ''const struct Qdisc_class_ops''),
      Field ''id'' (CArr 16 c_char),
      Field ''priv_size'' c_int,
      Field ''static_flags'' unsigned_int,
      Field ''enqueue'' (CPtr ''int (struct sk_buff *, struct Qdisc *, struct sk_buff **)''),
      Field ''dequeue'' (CPtr ''struct sk_buff * (struct Qdisc *)''),
      Field ''peek'' (CPtr ''struct sk_buff * (struct Qdisc *)''),
      Field ''init'' (CPtr ''int (struct Qdisc *, struct nlattr *, struct netlink_ext_ack *)''),
      Field ''reset'' (CPtr ''void (struct Qdisc *)''),
      Field ''destroy'' (CPtr ''void (struct Qdisc *)''),
      Field ''change'' (CPtr ''int (struct Qdisc *, struct nlattr *, struct netlink_ext_ack *)''),
      Field ''attach'' (CPtr ''void (struct Qdisc *)''),
      Field ''change_tx_queue_len'' (CPtr ''int (struct Qdisc *, unsigned int)''),
      Field ''change_real_num_tx'' (CPtr ''void (struct Qdisc *, unsigned int)''),
      Field ''dump'' (CPtr ''int (struct Qdisc *, struct sk_buff *)''),
      Field ''dump_stats'' (CPtr ''int (struct Qdisc *, struct gnet_dump *)''),
      Field ''ingress_block_set'' (CPtr ''void (struct Qdisc *, u32)''),
      Field ''egress_block_set'' (CPtr ''void (struct Qdisc *, u32)''),
      Field ''ingress_block_get'' (CPtr ''u32 (struct Qdisc *)''),
      Field ''egress_block_get'' (CPtr ''u32 (struct Qdisc *)''),
      Field ''owner'' (CPtr ''struct module'')]"

definition struct_aa_loaddata :: cty where
  "struct_aa_loaddata = CStruct ''aa_loaddata'' False
     [Field ''count'' struct_aa_common_ref,
      Field ''pcount'' struct_kref,
      Field ''list'' struct_list_head,
      Field ''work'' struct_work_struct,
      Field ''dents'' (CArr 6 (CPtr ''struct dentry'')),
      Field ''ns'' (CPtr ''struct aa_ns''),
      Field ''name'' (CPtr ''char''),
      Field ''size'' size_t,
      Field ''compressed_size'' size_t,
      Field ''revision'' c_long,
      Field ''abi'' c_int,
      Field ''hash'' (CPtr ''unsigned char''),
      Field ''data'' (CPtr ''char'')]"

definition struct_aa_net_compat :: cty where
  "struct_aa_net_compat = CStruct ''aa_net_compat'' False
     [Field ''allow'' (CArr 46 u16),
      Field ''audit'' (CArr 46 u16),
      Field ''quiet'' (CArr 46 u16)]"

definition struct_aa_ns_acct :: cty where
  "struct_aa_ns_acct = CStruct ''aa_ns_acct'' False
     [Field ''max_size'' c_int,
      Field ''max_count'' c_int,
      Field ''size'' c_int,
      Field ''count'' c_int]"

definition struct_aa_labelset :: cty where
  "struct_aa_labelset = CStruct ''aa_labelset'' False
     [Field ''lock'' rwlock_t,
      Field ''root'' struct_rb_root]"

definition struct_aa_ns :: cty where
  "struct_aa_ns = CStruct ''aa_ns'' False
     [Field ''base'' struct_aa_policy,
      Field ''parent'' (CPtr ''struct aa_ns''),
      Field ''lock'' struct_mutex,
      Field ''acct'' struct_aa_ns_acct,
      Field ''unconfined'' (CPtr ''struct aa_profile''),
      Field ''sub_ns'' struct_list_head,
      Field ''uniq_null'' atomic_t,
      Field ''uniq_id'' c_long,
      Field ''level'' c_int,
      Field ''revision'' c_long,
      Field ''wait'' wait_queue_head_t,
      Field ''listener_lock'' spinlock_t,
      Field ''listeners'' struct_list_head,
      Field ''labels'' struct_aa_labelset,
      Field ''rawdata_list'' struct_list_head,
      Field ''dents'' (CArr 13 (CPtr ''struct dentry''))]"

definition struct_aa_str_table :: cty where
  "struct_aa_str_table = CStruct ''aa_str_table'' False
     [Field ''size'' c_int,
      Field ''table'' (CPtr ''struct aa_str_table_ent'')]"

definition struct_aa_tags_struct :: cty where
  "struct_aa_tags_struct = CStruct ''aa_tags_struct'' False
     [Field ''sets'' (CStruct [] False
        [Field ''size'' u32,
         Field ''table'' (CPtr ''u32'')]),
      Field ''hdrs'' (CStruct [] False
        [Field ''size'' u32,
         Field ''table'' (CPtr ''struct aa_tags_header'')]),
      Field ''strs'' struct_aa_str_table]"

definition struct_aa_policydb :: cty where
  "struct_aa_policydb = CStruct ''aa_policydb'' False
     [Field ''count'' struct_kref,
      Field ''dfa'' (CPtr ''struct aa_dfa''),
      Field [] (CStruct [] False
        [Field ''perms'' (CPtr ''struct aa_perms''),
         Field ''size'' u32]),
      Field ''trans'' struct_aa_str_table,
      Field ''tags'' struct_aa_tags_struct,
      Field ''start'' (CArr 33 unsigned_int)]"

definition struct_aa_secmark :: cty where
  "struct_aa_secmark = CStruct ''aa_secmark'' False
     [Field ''audit'' u8,
      Field ''deny'' u8,
      Field ''secid'' u32,
      Field ''label'' (CPtr ''char'')]"

definition struct_io_poll :: cty where
  "struct_io_poll = CStruct ''io_poll'' False
     [Field ''file'' (CPtr ''struct file''),
      Field ''head'' (CPtr ''struct wait_queue_head''),
      Field ''events'' c__poll_t,
      Field ''retries'' c_int,
      Field ''wait'' struct_wait_queue_entry]"

definition struct_async_poll :: cty where
  "struct_async_poll = CStruct ''async_poll'' False
     [Field ''poll'' struct_io_poll,
      Field ''double_poll'' (CPtr ''struct io_poll'')]"

definition struct_audit_tree :: cty where
  "struct_audit_tree = CStruct ''audit_tree'' False
     [Field ''count'' refcount_t,
      Field ''goner'' c_int,
      Field ''root'' (CPtr ''struct audit_chunk''),
      Field ''chunks'' struct_list_head,
      Field ''rules'' struct_list_head,
      Field ''list'' struct_list_head,
      Field ''same_root'' struct_list_head,
      Field ''head'' struct_callback_head,
      Field ''pathname'' (CArr 0 c_char)]"

definition struct_bpf_mprog_cp :: cty where
  "struct_bpf_mprog_cp = CStruct ''bpf_mprog_cp'' False
     [Field ''link'' (CPtr ''struct bpf_link'')]"

definition struct_bpf_mprog_bundle :: cty where
  "struct_bpf_mprog_bundle = CStruct ''bpf_mprog_bundle'' False
     [Field ''a'' struct_bpf_mprog_entry,
      Field ''b'' struct_bpf_mprog_entry,
      Field ''cp_items'' (CArr 64 struct_bpf_mprog_cp),
      Field ''ref'' (CPtr ''struct bpf_prog''),
      Field ''revision'' atomic64_t,
      Field ''count'' u32]"

definition enum_device_link_state :: cty where
  "enum_device_link_state = CEnum 4
     [(''DL_STATE_NONE'', (- 1)), (''DL_STATE_DORMANT'', 0), (''DL_STATE_AVAILABLE'', 1),
      (''DL_STATE_CONSUMER_PROBE'', 2), (''DL_STATE_ACTIVE'', 3),
      (''DL_STATE_SUPPLIER_UNBIND'', 4)]"

definition struct_device_link :: cty where
  "struct_device_link = CStruct ''device_link'' False
     [Field ''supplier'' (CPtr ''struct device''),
      Field ''s_node'' struct_list_head,
      Field ''consumer'' (CPtr ''struct device''),
      Field ''c_node'' struct_list_head,
      Field ''link_dev'' struct_device,
      Field ''status'' enum_device_link_state,
      Field ''flags'' u32,
      Field ''rpm_active'' refcount_t,
      Field ''kref'' struct_kref,
      Field ''rm_work'' struct_work_struct,
      Field ''supplier_preactivated'' bool]"

definition struct_devlink_dev_stats :: cty where
  "struct_devlink_dev_stats = CStruct ''devlink_dev_stats'' False
     [Field ''reload_stats'' (CArr 6 u32),
      Field ''remote_reload_stats'' (CArr 6 u32)]"

definition struct_devlink :: cty where
  "struct_devlink = CStruct ''devlink'' False
     [Field ''index'' u32,
      Field ''ports'' struct_xarray,
      Field ''rate_list'' struct_list_head,
      Field ''sb_list'' struct_list_head,
      Field ''dpipe_table_list'' struct_list_head,
      Field ''resource_list'' struct_list_head,
      Field ''params'' struct_xarray,
      Field ''region_list'' struct_list_head,
      Field ''reporter_list'' struct_list_head,
      Field ''dpipe_headers'' (CPtr ''struct devlink_dpipe_headers''),
      Field ''trap_list'' struct_list_head,
      Field ''trap_group_list'' struct_list_head,
      Field ''trap_policer_list'' struct_list_head,
      Field ''linecard_list'' struct_list_head,
      Field ''ops'' (CPtr ''const struct devlink_ops''),
      Field ''snapshot_ids'' struct_xarray,
      Field ''stats'' struct_devlink_dev_stats,
      Field ''dev'' (CPtr ''struct device''),
      Field ''_net'' possible_net_t,
      Field ''lock'' struct_mutex,
      Field ''lock_key'' struct_lock_class_key,
      BitField ''reload_failed'' u8 1,
      Field ''refcount'' refcount_t,
      Field ''rwork'' struct_rcu_work,
      Field ''rel'' (CPtr ''struct devlink_rel''),
      Field ''nested_rels'' struct_xarray,
      Field ''priv'' (CArr 0 c_char)]"

definition enum_devlink_linecard_state :: cty where
  "enum_devlink_linecard_state = CEnum 4
     [(''DEVLINK_LINECARD_STATE_UNSPEC'', 0), (''DEVLINK_LINECARD_STATE_UNPROVISIONED'', 1),
      (''DEVLINK_LINECARD_STATE_UNPROVISIONING'', 2),
      (''DEVLINK_LINECARD_STATE_PROVISIONING'', 3),
      (''DEVLINK_LINECARD_STATE_PROVISIONING_FAILED'', 4),
      (''DEVLINK_LINECARD_STATE_PROVISIONED'', 5), (''DEVLINK_LINECARD_STATE_ACTIVE'', 6),
      (''__DEVLINK_LINECARD_STATE_MAX'', 7), (''DEVLINK_LINECARD_STATE_MAX'', 6)]"

definition struct_devlink_linecard :: cty where
  "struct_devlink_linecard = CStruct ''devlink_linecard'' False
     [Field ''list'' struct_list_head,
      Field ''devlink'' (CPtr ''struct devlink''),
      Field ''index'' unsigned_int,
      Field ''ops'' (CPtr ''const struct devlink_linecard_ops''),
      Field ''priv'' (CPtr ''void''),
      Field ''state'' enum_devlink_linecard_state,
      Field ''state_lock'' struct_mutex,
      Field ''type'' (CPtr ''const char''),
      Field ''types'' (CPtr ''struct devlink_linecard_type''),
      Field ''types_count'' unsigned_int,
      Field ''rel_index'' u32]"

definition struct_devlink_port_ops :: cty where
  "struct_devlink_port_ops = CStruct ''devlink_port_ops'' False
     [Field ''port_split'' (CPtr ''int (struct devlink *, struct devlink_port *, unsigned int, struct netlink_ext_ack *)''),
      Field ''port_unsplit'' (CPtr ''int (struct devlink *, struct devlink_port *, struct netlink_ext_ack *)''),
      Field ''port_type_set'' (CPtr ''int (struct devlink_port *, enum devlink_port_type)''),
      Field ''port_del'' (CPtr ''int (struct devlink *, struct devlink_port *, struct netlink_ext_ack *)''),
      Field ''port_fn_hw_addr_get'' (CPtr ''int (struct devlink_port *, u8 *, int *, struct netlink_ext_ack *)''),
      Field ''port_fn_hw_addr_set'' (CPtr ''int (struct devlink_port *, const u8 *, int, struct netlink_ext_ack *)''),
      Field ''port_fn_roce_get'' (CPtr ''int (struct devlink_port *, bool *, struct netlink_ext_ack *)''),
      Field ''port_fn_roce_set'' (CPtr ''int (struct devlink_port *, bool, struct netlink_ext_ack *)''),
      Field ''port_fn_migratable_get'' (CPtr ''int (struct devlink_port *, bool *, struct netlink_ext_ack *)''),
      Field ''port_fn_migratable_set'' (CPtr ''int (struct devlink_port *, bool, struct netlink_ext_ack *)''),
      Field ''port_fn_state_get'' (CPtr ''int (struct devlink_port *, enum devlink_port_fn_state *, enum devlink_port_fn_opstate *, struct netlink_ext_ack *)''),
      Field ''port_fn_state_set'' (CPtr ''int (struct devlink_port *, enum devlink_port_fn_state, struct netlink_ext_ack *)''),
      Field ''port_fn_ipsec_crypto_get'' (CPtr ''int (struct devlink_port *, bool *, struct netlink_ext_ack *)''),
      Field ''port_fn_ipsec_crypto_set'' (CPtr ''int (struct devlink_port *, bool, struct netlink_ext_ack *)''),
      Field ''port_fn_ipsec_packet_get'' (CPtr ''int (struct devlink_port *, bool *, struct netlink_ext_ack *)''),
      Field ''port_fn_ipsec_packet_set'' (CPtr ''int (struct devlink_port *, bool, struct netlink_ext_ack *)''),
      Field ''port_fn_max_io_eqs_get'' (CPtr ''int (struct devlink_port *, u32 *, struct netlink_ext_ack *)''),
      Field ''port_fn_max_io_eqs_set'' (CPtr ''int (struct devlink_port *, u32, struct netlink_ext_ack *)'')]"

definition enum_devlink_rate_type :: cty where
  "enum_devlink_rate_type = CEnum 4
     [(''DEVLINK_RATE_TYPE_LEAF'', 0), (''DEVLINK_RATE_TYPE_NODE'', 1)]"

definition struct_devlink_rate :: cty where
  "struct_devlink_rate = CStruct ''devlink_rate'' False
     [Field ''list'' struct_list_head,
      Field ''type'' enum_devlink_rate_type,
      Field ''devlink'' (CPtr ''struct devlink''),
      Field ''priv'' (CPtr ''void''),
      Field ''tx_share'' u64,
      Field ''tx_max'' u64,
      Field ''parent'' (CPtr ''struct devlink_rate''),
      Field [] (CUnion [] False
        [Field ''devlink_port'' (CPtr ''struct devlink_port''),
         Field [] (CStruct [] False
           [Field ''name'' (CPtr ''char''),
            Field ''refcnt'' refcount_t])]),
      Field ''tx_priority'' u32,
      Field ''tx_weight'' u32,
      Field ''tc_bw'' (CArr 8 u32)]"

definition struct_dim_cq_moder :: cty where
  "struct_dim_cq_moder = CStruct ''dim_cq_moder'' False
     [Field ''usec'' u16,
      Field ''pkts'' u16,
      Field ''comps'' u16,
      Field ''cq_period_mode'' u8,
      Field ''rcu'' struct_callback_head]"

definition struct_dpll_pin_frequency :: cty where
  "struct_dpll_pin_frequency = CStruct ''dpll_pin_frequency'' False
     [Field ''min'' u64,
      Field ''max'' u64]"

definition struct_dsa_bridge :: cty where
  "struct_dsa_bridge = CStruct ''dsa_bridge'' False
     [Field ''dev'' (CPtr ''struct net_device''),
      Field ''num'' unsigned_int,
      Field ''tx_fwd_offload'' bool,
      Field ''refcount'' refcount_t]"

definition enum_dsa_tag_protocol :: cty where
  "enum_dsa_tag_protocol = CEnum 4
     [(''DSA_TAG_PROTO_NONE'', 0), (''DSA_TAG_PROTO_BRCM'', 1),
      (''DSA_TAG_PROTO_BRCM_LEGACY'', 22), (''DSA_TAG_PROTO_BRCM_LEGACY_FCS'', 29),
      (''DSA_TAG_PROTO_BRCM_PREPEND'', 2), (''DSA_TAG_PROTO_DSA'', 3),
      (''DSA_TAG_PROTO_EDSA'', 4), (''DSA_TAG_PROTO_GSWIP'', 5), (''DSA_TAG_PROTO_KSZ9477'', 6),
      (''DSA_TAG_PROTO_KSZ9893'', 7), (''DSA_TAG_PROTO_LAN9303'', 8),
      (''DSA_TAG_PROTO_MTK'', 9), (''DSA_TAG_PROTO_QCA'', 10), (''DSA_TAG_PROTO_TRAILER'', 11),
      (''DSA_TAG_PROTO_8021Q'', 12), (''DSA_TAG_PROTO_SJA1105'', 13),
      (''DSA_TAG_PROTO_KSZ8795'', 14), (''DSA_TAG_PROTO_OCELOT'', 15),
      (''DSA_TAG_PROTO_AR9331'', 16), (''DSA_TAG_PROTO_RTL4_A'', 17),
      (''DSA_TAG_PROTO_HELLCREEK'', 18), (''DSA_TAG_PROTO_XRS700X'', 19),
      (''DSA_TAG_PROTO_OCELOT_8021Q'', 20), (''DSA_TAG_PROTO_SEVILLE'', 21),
      (''DSA_TAG_PROTO_SJA1110'', 23), (''DSA_TAG_PROTO_RTL8_4'', 24),
      (''DSA_TAG_PROTO_RTL8_4T'', 25), (''DSA_TAG_PROTO_RZN1_A5PSW'', 26),
      (''DSA_TAG_PROTO_LAN937X'', 27), (''DSA_TAG_PROTO_VSC73XX_8021Q'', 28),
      (''DSA_TAG_PROTO_YT921X'', 30), (''DSA_TAG_PROTO_MXL_GSW1XX'', 31),
      (''DSA_TAG_PROTO_MXL862'', 32)]"

definition struct_dsa_device_ops :: cty where
  "struct_dsa_device_ops = CStruct ''dsa_device_ops'' False
     [Field ''xmit'' (CPtr ''struct sk_buff * (struct sk_buff *, struct net_device *)''),
      Field ''rcv'' (CPtr ''struct sk_buff * (struct sk_buff *, struct net_device *)''),
      Field ''flow_dissect'' (CPtr ''void (const struct sk_buff *, __be16 *, int *)''),
      Field ''connect'' (CPtr ''int (struct dsa_switch *)''),
      Field ''disconnect'' (CPtr ''void (struct dsa_switch *)''),
      Field ''needed_headroom'' unsigned_int,
      Field ''needed_tailroom'' unsigned_int,
      Field ''name'' (CPtr ''const char''),
      Field ''proto'' enum_dsa_tag_protocol,
      Field ''promisc_on_conduit'' bool]"

definition struct_dsa_lag :: cty where
  "struct_dsa_lag = CStruct ''dsa_lag'' False
     [Field ''dev'' (CPtr ''struct net_device''),
      Field ''id'' unsigned_int,
      Field ''fdb_lock'' struct_mutex,
      Field ''fdbs'' struct_list_head,
      Field ''refcount'' refcount_t]"

definition struct_dsa_switch :: cty where
  "struct_dsa_switch = CStruct ''dsa_switch'' False
     [Field ''dev'' (CPtr ''struct device''),
      Field ''dst'' (CPtr ''struct dsa_switch_tree''),
      Field ''index'' unsigned_int,
      BitField ''setup'' u32 1,
      BitField ''vlan_filtering_is_global'' u32 1,
      BitField ''needs_standalone_vlan_filtering'' u32 1,
      BitField ''configure_vlan_while_not_filtering'' u32 1,
      BitField ''untag_bridge_pvid'' u32 1,
      BitField ''untag_vlan_aware_bridge_pvid'' u32 1,
      BitField ''assisted_learning_on_cpu_port'' u32 1,
      BitField ''vlan_filtering'' u32 1,
      BitField ''mtu_enforcement_ingress'' u32 1,
      BitField ''fdb_isolation'' u32 1,
      BitField ''dscp_prio_mapping_is_global'' u32 1,
      Field ''nb'' struct_notifier_block,
      Field ''priv'' (CPtr ''void''),
      Field ''tagger_data'' (CPtr ''void''),
      Field ''cd'' (CPtr ''struct dsa_chip_data''),
      Field ''ops'' (CPtr ''const struct dsa_switch_ops''),
      Field ''phylink_mac_ops'' (CPtr ''const struct phylink_mac_ops''),
      Field ''phys_mii_mask'' u32,
      Field ''user_mii_bus'' (CPtr ''struct mii_bus''),
      Field ''ageing_time_min'' unsigned_int,
      Field ''ageing_time_max'' unsigned_int,
      Field ''tag_8021q_ctx'' (CPtr ''struct dsa_8021q_context''),
      Field ''devlink'' (CPtr ''struct devlink''),
      Field ''num_tx_queues'' unsigned_int,
      Field ''num_lag_ids'' unsigned_int,
      Field ''max_num_bridges'' unsigned_int,
      Field ''num_ports'' unsigned_int]"

definition struct_dsa_switch_tree :: cty where
  "struct_dsa_switch_tree = CStruct ''dsa_switch_tree'' False
     [Field ''list'' struct_list_head,
      Field ''ports'' struct_list_head,
      Field ''nh'' struct_raw_notifier_head,
      Field ''index'' unsigned_int,
      Field ''refcount'' struct_kref,
      Field ''lags'' (CPtr ''struct dsa_lag *''),
      Field ''tag_ops'' (CPtr ''const struct dsa_device_ops''),
      Field ''default_proto'' enum_dsa_tag_protocol,
      Field ''setup'' bool,
      Field ''pd'' (CPtr ''struct dsa_platform_data''),
      Field ''rtable'' struct_list_head,
      Field ''lags_len'' unsigned_int,
      Field ''last_switch'' unsigned_int]"

definition struct_eventfd_ctx :: cty where
  "struct_eventfd_ctx = CStruct ''eventfd_ctx'' False
     [Field ''kref'' struct_kref,
      Field ''wqh'' wait_queue_head_t,
      Field ''count'' c__u64,
      Field ''flags'' unsigned_int,
      Field ''id'' c_int]"

definition struct_fib_nh_exception :: cty where
  "struct_fib_nh_exception = CStruct ''fib_nh_exception'' False
     [Field ''fnhe_next'' (CPtr ''struct fib_nh_exception''),
      Field ''fnhe_genid'' c_int,
      Field ''fnhe_daddr'' c__be32,
      Field ''fnhe_pmtu'' u32,
      Field ''fnhe_mtu_locked'' bool,
      Field ''fnhe_gw'' c__be32,
      Field ''fnhe_expires'' long_unsigned_int,
      Field ''fnhe_rth_input'' (CPtr ''struct rtable''),
      Field ''fnhe_rth_output'' (CPtr ''struct rtable''),
      Field ''fnhe_stamp'' long_unsigned_int,
      Field ''rcu'' struct_callback_head]"

definition struct_fsnotify_mark :: cty where
  "struct_fsnotify_mark = CStruct ''fsnotify_mark'' False
     [Field ''mask'' c__u32,
      Field ''refcnt'' refcount_t,
      Field ''group'' (CPtr ''struct fsnotify_group''),
      Field ''g_list'' struct_list_head,
      Field ''lock'' spinlock_t,
      Field ''obj_list'' struct_hlist_node,
      Field ''connector'' (CPtr ''struct fsnotify_mark_connector''),
      Field ''ignore_mask'' c__u32,
      Field ''flags'' unsigned_int]"

definition struct_ftrace_event_field :: cty where
  "struct_ftrace_event_field = CStruct ''ftrace_event_field'' False
     [Field ''link'' struct_list_head,
      Field ''name'' (CPtr ''const char''),
      Field ''type'' (CPtr ''const char''),
      Field ''filter_type'' c_int,
      Field ''offset'' c_int,
      Field ''size'' c_int,
      BitField ''is_signed'' unsigned_int 1,
      BitField ''needs_test'' unsigned_int 1,
      Field ''len'' c_int]"

definition struct_gpio_desc_label :: cty where
  "struct_gpio_desc_label = CStruct ''gpio_desc_label'' False
     [Field ''rh'' struct_callback_head,
      Field ''str'' (CArr 0 c_char)]"

definition struct_gpio_device :: cty where
  "struct_gpio_device = CStruct ''gpio_device'' False
     [Field ''dev'' struct_device,
      Field ''chrdev'' struct_cdev,
      Field ''id'' c_int,
      Field ''owner'' (CPtr ''struct module''),
      Field ''chip'' (CPtr ''struct gpio_chip''),
      Field ''descs'' (CPtr ''struct gpio_desc''),
      Field ''valid_mask'' (CPtr ''long unsigned int''),
      Field ''desc_srcu'' struct_srcu_struct,
      Field ''base'' unsigned_int,
      Field ''ngpio'' u16,
      Field ''can_sleep'' bool,
      Field ''label'' (CPtr ''const char''),
      Field ''data'' (CPtr ''void''),
      Field ''list'' struct_list_head,
      Field ''line_state_notifier'' struct_raw_notifier_head,
      Field ''line_state_lock'' rwlock_t,
      Field ''line_state_wq'' (CPtr ''struct workqueue_struct''),
      Field ''device_notifier'' struct_blocking_notifier_head,
      Field ''srcu'' struct_srcu_struct,
      Field ''pin_ranges'' struct_list_head]"

definition struct_hv_partition_assist_pg :: cty where
  "struct_hv_partition_assist_pg = CStruct ''hv_partition_assist_pg'' False
     [Field ''tlb_lock_count'' u32]"

definition enum_rdma_driver_id :: cty where
  "enum_rdma_driver_id = CEnum 4
     [(''RDMA_DRIVER_UNKNOWN'', 0), (''RDMA_DRIVER_MLX5'', 1), (''RDMA_DRIVER_MLX4'', 2),
      (''RDMA_DRIVER_CXGB3'', 3), (''RDMA_DRIVER_CXGB4'', 4), (''RDMA_DRIVER_MTHCA'', 5),
      (''RDMA_DRIVER_BNXT_RE'', 6), (''RDMA_DRIVER_OCRDMA'', 7), (''RDMA_DRIVER_NES'', 8),
      (''RDMA_DRIVER_I40IW'', 9), (''RDMA_DRIVER_IRDMA'', 9), (''RDMA_DRIVER_VMW_PVRDMA'', 10),
      (''RDMA_DRIVER_QEDR'', 11), (''RDMA_DRIVER_HNS'', 12), (''RDMA_DRIVER_USNIC'', 13),
      (''RDMA_DRIVER_RXE'', 14), (''RDMA_DRIVER_HFI1'', 15), (''RDMA_DRIVER_QIB'', 16),
      (''RDMA_DRIVER_EFA'', 17), (''RDMA_DRIVER_SIW'', 18), (''RDMA_DRIVER_ERDMA'', 19),
      (''RDMA_DRIVER_MANA'', 20), (''RDMA_DRIVER_IONIC'', 21)]"

definition struct_ib_device_ops :: cty where
  "struct_ib_device_ops = CStruct ''ib_device_ops'' False
     [Field ''owner'' (CPtr ''struct module''),
      Field ''driver_id'' enum_rdma_driver_id,
      Field ''uverbs_abi_ver'' u32,
      BitField ''uverbs_no_driver_id_binding'' unsigned_int 1,
      Field ''device_group'' (CPtr ''const struct attribute_group''),
      Field ''port_groups'' (CPtr ''const struct attribute_group *''),
      Field ''post_send'' (CPtr ''int (struct ib_qp *, const struct ib_send_wr *, const struct ib_send_wr **)''),
      Field ''post_recv'' (CPtr ''int (struct ib_qp *, const struct ib_recv_wr *, const struct ib_recv_wr **)''),
      Field ''drain_rq'' (CPtr ''void (struct ib_qp *)''),
      Field ''drain_sq'' (CPtr ''void (struct ib_qp *)''),
      Field ''poll_cq'' (CPtr ''int (struct ib_cq *, int, struct ib_wc *)''),
      Field ''peek_cq'' (CPtr ''int (struct ib_cq *, int)''),
      Field ''req_notify_cq'' (CPtr ''int (struct ib_cq *, enum ib_cq_notify_flags)''),
      Field ''post_srq_recv'' (CPtr ''int (struct ib_srq *, const struct ib_recv_wr *, const struct ib_recv_wr **)''),
      Field ''process_mad'' (CPtr ''int (struct ib_device *, int, u32, const struct ib_wc *, const struct ib_grh *, const struct ib_mad *, struct ib_mad *, size_t *, u16 *)''),
      Field ''query_device'' (CPtr ''int (struct ib_device *, struct ib_device_attr *, struct ib_udata *)''),
      Field ''modify_device'' (CPtr ''int (struct ib_device *, int, struct ib_device_modify *)''),
      Field ''get_dev_fw_str'' (CPtr ''void (struct ib_device *, char *)''),
      Field ''get_vector_affinity'' (CPtr ''const struct cpumask * (struct ib_device *, int)''),
      Field ''query_port'' (CPtr ''int (struct ib_device *, u32, struct ib_port_attr *)''),
      Field ''query_port_speed'' (CPtr ''int (struct ib_device *, u32, u64 *)''),
      Field ''modify_port'' (CPtr ''int (struct ib_device *, u32, int, struct ib_port_modify *)''),
      Field ''get_port_immutable'' (CPtr ''int (struct ib_device *, u32, struct ib_port_immutable *)''),
      Field ''get_link_layer'' (CPtr ''enum rdma_link_layer (struct ib_device *, u32)''),
      Field ''get_netdev'' (CPtr ''struct net_device * (struct ib_device *, u32)''),
      Field ''alloc_rdma_netdev'' (CPtr ''struct net_device * (struct ib_device *, u32, enum rdma_netdev_t, const char *, unsigned char, void(*)(struct net_device *))''),
      Field ''rdma_netdev_get_params'' (CPtr ''int (struct ib_device *, u32, enum rdma_netdev_t, struct rdma_netdev_alloc_params *)''),
      Field ''query_gid'' (CPtr ''int (struct ib_device *, u32, int, union ib_gid *)''),
      Field ''add_gid'' (CPtr ''int (const struct ib_gid_attr *, void **)''),
      Field ''del_gid'' (CPtr ''int (const struct ib_gid_attr *, void **)''),
      Field ''query_pkey'' (CPtr ''int (struct ib_device *, u32, u16, u16 *)''),
      Field ''alloc_ucontext'' (CPtr ''int (struct ib_ucontext *, struct ib_udata *)''),
      Field ''dealloc_ucontext'' (CPtr ''void (struct ib_ucontext *)''),
      Field ''mmap'' (CPtr ''int (struct ib_ucontext *, struct vm_area_struct *)''),
      Field ''mmap_free'' (CPtr ''void (struct rdma_user_mmap_entry *)''),
      Field ''mmap_get_pfns'' (CPtr ''int (struct rdma_user_mmap_entry *, struct phys_vec *, struct p2pdma_provider **)''),
      Field ''pgoff_to_mmap_entry'' (CPtr ''struct rdma_user_mmap_entry * (struct ib_ucontext *, off_t)''),
      Field ''disassociate_ucontext'' (CPtr ''void (struct ib_ucontext *)''),
      Field ''alloc_pd'' (CPtr ''int (struct ib_pd *, struct ib_udata *)''),
      Field ''dealloc_pd'' (CPtr ''int (struct ib_pd *, struct ib_udata *)''),
      Field ''create_ah'' (CPtr ''int (struct ib_ah *, struct rdma_ah_init_attr *, struct ib_udata *)''),
      Field ''create_user_ah'' (CPtr ''int (struct ib_ah *, struct rdma_ah_init_attr *, struct ib_udata *)''),
      Field ''modify_ah'' (CPtr ''int (struct ib_ah *, struct rdma_ah_attr *)''),
      Field ''query_ah'' (CPtr ''int (struct ib_ah *, struct rdma_ah_attr *)''),
      Field ''destroy_ah'' (CPtr ''int (struct ib_ah *, u32)''),
      Field ''create_srq'' (CPtr ''int (struct ib_srq *, struct ib_srq_init_attr *, struct ib_udata *)''),
      Field ''modify_srq'' (CPtr ''int (struct ib_srq *, struct ib_srq_attr *, enum ib_srq_attr_mask, struct ib_udata *)''),
      Field ''query_srq'' (CPtr ''int (struct ib_srq *, struct ib_srq_attr *)''),
      Field ''destroy_srq'' (CPtr ''int (struct ib_srq *, struct ib_udata *)''),
      Field ''create_qp'' (CPtr ''int (struct ib_qp *, struct ib_qp_init_attr *, struct ib_udata *)''),
      Field ''modify_qp'' (CPtr ''int (struct ib_qp *, struct ib_qp_attr *, int, struct ib_udata *)''),
      Field ''query_qp'' (CPtr ''int (struct ib_qp *, struct ib_qp_attr *, int, struct ib_qp_init_attr *)''),
      Field ''destroy_qp'' (CPtr ''int (struct ib_qp *, struct ib_udata *)''),
      Field ''create_cq'' (CPtr ''int (struct ib_cq *, const struct ib_cq_init_attr *, struct uverbs_attr_bundle *)''),
      Field ''create_cq_umem'' (CPtr ''int (struct ib_cq *, const struct ib_cq_init_attr *, struct ib_umem *, struct uverbs_attr_bundle *)''),
      Field ''modify_cq'' (CPtr ''int (struct ib_cq *, u16, u16)''),
      Field ''destroy_cq'' (CPtr ''int (struct ib_cq *, struct ib_udata *)''),
      Field ''resize_cq'' (CPtr ''int (struct ib_cq *, int, struct ib_udata *)''),
      Field ''pre_destroy_cq'' (CPtr ''int (struct ib_cq *)''),
      Field ''post_destroy_cq'' (CPtr ''void (struct ib_cq *)''),
      Field ''get_dma_mr'' (CPtr ''struct ib_mr * (struct ib_pd *, int)''),
      Field ''reg_user_mr'' (CPtr ''struct ib_mr * (struct ib_pd *, u64, u64, u64, int, struct ib_dmah *, struct ib_udata *)''),
      Field ''reg_user_mr_dmabuf'' (CPtr ''struct ib_mr * (struct ib_pd *, u64, u64, u64, int, int, struct ib_dmah *, struct uverbs_attr_bundle *)''),
      Field ''rereg_user_mr'' (CPtr ''struct ib_mr * (struct ib_mr *, int, u64, u64, u64, int, struct ib_pd *, struct ib_udata *)''),
      Field ''dereg_mr'' (CPtr ''int (struct ib_mr *, struct ib_udata *)''),
      Field ''alloc_mr'' (CPtr ''struct ib_mr * (struct ib_pd *, enum ib_mr_type, u32)''),
      Field ''alloc_mr_integrity'' (CPtr ''struct ib_mr * (struct ib_pd *, u32, u32)''),
      Field ''advise_mr'' (CPtr ''int (struct ib_pd *, enum ib_uverbs_advise_mr_advice, u32, struct ib_sge *, u32, struct uverbs_attr_bundle *)''),
      Field ''map_mr_sg'' (CPtr ''int (struct ib_mr *, struct scatterlist *, int, unsigned int *)''),
      Field ''check_mr_status'' (CPtr ''int (struct ib_mr *, u32, struct ib_mr_status *)''),
      Field ''alloc_mw'' (CPtr ''int (struct ib_mw *, struct ib_udata *)''),
      Field ''dealloc_mw'' (CPtr ''int (struct ib_mw *)''),
      Field ''attach_mcast'' (CPtr ''int (struct ib_qp *, union ib_gid *, u16)''),
      Field ''detach_mcast'' (CPtr ''int (struct ib_qp *, union ib_gid *, u16)''),
      Field ''alloc_xrcd'' (CPtr ''int (struct ib_xrcd *, struct ib_udata *)''),
      Field ''dealloc_xrcd'' (CPtr ''int (struct ib_xrcd *, struct ib_udata *)''),
      Field ''create_flow'' (CPtr ''struct ib_flow * (struct ib_qp *, struct ib_flow_attr *, struct ib_udata *)''),
      Field ''destroy_flow'' (CPtr ''int (struct ib_flow *)''),
      Field ''destroy_flow_action'' (CPtr ''int (struct ib_flow_action *)''),
      Field ''set_vf_link_state'' (CPtr ''int (struct ib_device *, int, u32, int)''),
      Field ''get_vf_config'' (CPtr ''int (struct ib_device *, int, u32, struct ifla_vf_info *)''),
      Field ''get_vf_stats'' (CPtr ''int (struct ib_device *, int, u32, struct ifla_vf_stats *)''),
      Field ''get_vf_guid'' (CPtr ''int (struct ib_device *, int, u32, struct ifla_vf_guid *, struct ifla_vf_guid *)''),
      Field ''set_vf_guid'' (CPtr ''int (struct ib_device *, int, u32, u64, int)''),
      Field ''create_wq'' (CPtr ''struct ib_wq * (struct ib_pd *, struct ib_wq_init_attr *, struct ib_udata *)''),
      Field ''destroy_wq'' (CPtr ''int (struct ib_wq *, struct ib_udata *)''),
      Field ''modify_wq'' (CPtr ''int (struct ib_wq *, struct ib_wq_attr *, u32, struct ib_udata *)''),
      Field ''create_rwq_ind_table'' (CPtr ''int (struct ib_rwq_ind_table *, struct ib_rwq_ind_table_init_attr *, struct ib_udata *)''),
      Field ''destroy_rwq_ind_table'' (CPtr ''int (struct ib_rwq_ind_table *)''),
      Field ''alloc_dm'' (CPtr ''struct ib_dm * (struct ib_device *, struct ib_ucontext *, struct ib_dm_alloc_attr *, struct uverbs_attr_bundle *)''),
      Field ''dealloc_dm'' (CPtr ''int (struct ib_dm *, struct uverbs_attr_bundle *)''),
      Field ''alloc_dmah'' (CPtr ''int (struct ib_dmah *, struct uverbs_attr_bundle *)''),
      Field ''dealloc_dmah'' (CPtr ''int (struct ib_dmah *, struct uverbs_attr_bundle *)''),
      Field ''reg_dm_mr'' (CPtr ''struct ib_mr * (struct ib_pd *, struct ib_dm *, struct ib_dm_mr_attr *, struct uverbs_attr_bundle *)''),
      Field ''create_counters'' (CPtr ''int (struct ib_counters *, struct uverbs_attr_bundle *)''),
      Field ''destroy_counters'' (CPtr ''int (struct ib_counters *)''),
      Field ''read_counters'' (CPtr ''int (struct ib_counters *, struct ib_counters_read_attr *, struct uverbs_attr_bundle *)''),
      Field ''map_mr_sg_pi'' (CPtr ''int (struct ib_mr *, struct scatterlist *, int, unsigned int *, struct scatterlist *, int, unsigned int *)''),
      Field ''alloc_hw_device_stats'' (CPtr ''struct rdma_hw_stats * (struct ib_device *)''),
      Field ''alloc_hw_port_stats'' (CPtr ''struct rdma_hw_stats * (struct ib_device *, u32)''),
      Field ''get_hw_stats'' (CPtr ''int (struct ib_device *, struct rdma_hw_stats *, u32, int)''),
      Field ''modify_hw_stat'' (CPtr ''int (struct ib_device *, u32, unsigned int, bool)''),
      Field ''fill_res_mr_entry'' (CPtr ''int (struct sk_buff *, struct ib_mr *)''),
      Field ''fill_res_mr_entry_raw'' (CPtr ''int (struct sk_buff *, struct ib_mr *)''),
      Field ''fill_res_cq_entry'' (CPtr ''int (struct sk_buff *, struct ib_cq *)''),
      Field ''fill_res_cq_entry_raw'' (CPtr ''int (struct sk_buff *, struct ib_cq *)''),
      Field ''fill_res_qp_entry'' (CPtr ''int (struct sk_buff *, struct ib_qp *)''),
      Field ''fill_res_qp_entry_raw'' (CPtr ''int (struct sk_buff *, struct ib_qp *)''),
      Field ''fill_res_cm_id_entry'' (CPtr ''int (struct sk_buff *, struct rdma_cm_id *)''),
      Field ''fill_res_srq_entry'' (CPtr ''int (struct sk_buff *, struct ib_srq *)''),
      Field ''fill_res_srq_entry_raw'' (CPtr ''int (struct sk_buff *, struct ib_srq *)''),
      Field ''enable_driver'' (CPtr ''int (struct ib_device *)''),
      Field ''dealloc_driver'' (CPtr ''void (struct ib_device *)''),
      Field ''iw_add_ref'' (CPtr ''void (struct ib_qp *)''),
      Field ''iw_rem_ref'' (CPtr ''void (struct ib_qp *)''),
      Field ''iw_get_qp'' (CPtr ''struct ib_qp * (struct ib_device *, int)''),
      Field ''iw_connect'' (CPtr ''int (struct iw_cm_id *, struct iw_cm_conn_param *)''),
      Field ''iw_accept'' (CPtr ''int (struct iw_cm_id *, struct iw_cm_conn_param *)''),
      Field ''iw_reject'' (CPtr ''int (struct iw_cm_id *, const void *, u8)''),
      Field ''iw_create_listen'' (CPtr ''int (struct iw_cm_id *, int)''),
      Field ''iw_destroy_listen'' (CPtr ''int (struct iw_cm_id *)''),
      Field ''counter_bind_qp'' (CPtr ''int (struct rdma_counter *, struct ib_qp *, u32)''),
      Field ''counter_unbind_qp'' (CPtr ''int (struct ib_qp *, u32)''),
      Field ''counter_dealloc'' (CPtr ''int (struct rdma_counter *)''),
      Field ''counter_alloc_stats'' (CPtr ''struct rdma_hw_stats * (struct rdma_counter *)''),
      Field ''counter_update_stats'' (CPtr ''int (struct rdma_counter *)''),
      Field ''counter_init'' (CPtr ''void (struct rdma_counter *)''),
      Field ''fill_stat_mr_entry'' (CPtr ''int (struct sk_buff *, struct ib_mr *)''),
      Field ''query_ucontext'' (CPtr ''int (struct ib_ucontext *, struct uverbs_attr_bundle *)''),
      Field ''get_numa_node'' (CPtr ''int (struct ib_device *)''),
      Field ''add_sub_dev'' (CPtr ''struct ib_device * (struct ib_device *, enum rdma_nl_dev_type, const char *)''),
      Field ''del_sub_dev'' (CPtr ''void (struct ib_device *)''),
      Field ''ufile_hw_cleanup'' (CPtr ''void (struct ib_uverbs_file *)''),
      Field ''report_port_event'' (CPtr ''void (struct ib_device *, struct net_device *, long unsigned int)''),
      Field ''size_ib_ah'' size_t,
      Field ''size_ib_counters'' size_t,
      Field ''size_ib_cq'' size_t,
      Field ''size_ib_dmah'' size_t,
      Field ''size_ib_mw'' size_t,
      Field ''size_ib_pd'' size_t,
      Field ''size_ib_qp'' size_t,
      Field ''size_ib_rwq_ind_table'' size_t,
      Field ''size_ib_srq'' size_t,
      Field ''size_ib_ucontext'' size_t,
      Field ''size_ib_xrcd'' size_t,
      Field ''size_rdma_counter'' size_t]"

definition struct_ib_core_device :: cty where
  "struct_ib_core_device = CStruct ''ib_core_device'' False
     [Field ''dev'' struct_device,
      Field ''rdma_net'' possible_net_t,
      Field ''ports_kobj'' (CPtr ''struct kobject''),
      Field ''port_list'' struct_list_head,
      Field ''owner'' (CPtr ''struct ib_device'')]"

definition c__be64 :: cty where [layout_simps]:
  "c__be64 = c__u64"

definition enum_ib_atomic_cap :: cty where
  "enum_ib_atomic_cap = CEnum 4
     [(''IB_ATOMIC_NONE'', 0), (''IB_ATOMIC_HCA'', 1), (''IB_ATOMIC_GLOB'', 2)]"

definition struct_ib_odp_caps :: cty where
  "struct_ib_odp_caps = CStruct ''ib_odp_caps'' False
     [Field ''general_caps'' uint64_t,
      Field ''per_transport_caps'' (CStruct [] False
        [Field ''rc_odp_caps'' uint32_t,
         Field ''uc_odp_caps'' uint32_t,
         Field ''ud_odp_caps'' uint32_t,
         Field ''xrc_odp_caps'' uint32_t])]"

definition struct_ib_rss_caps :: cty where
  "struct_ib_rss_caps = CStruct ''ib_rss_caps'' False
     [Field ''supported_qpts'' u32,
      Field ''max_rwq_indirection_tables'' u32,
      Field ''max_rwq_indirection_table_size'' u32]"

definition struct_ib_tm_caps :: cty where
  "struct_ib_tm_caps = CStruct ''ib_tm_caps'' False
     [Field ''max_rndv_hdr_size'' u32,
      Field ''max_num_tags'' u32,
      Field ''flags'' u32,
      Field ''max_ops'' u32,
      Field ''max_sge'' u32]"

definition struct_ib_cq_caps :: cty where
  "struct_ib_cq_caps = CStruct ''ib_cq_caps'' False
     [Field ''max_cq_moderation_count'' u16,
      Field ''max_cq_moderation_period'' u16]"

definition struct_ib_device_attr :: cty where
  "struct_ib_device_attr = CStruct ''ib_device_attr'' False
     [Field ''fw_ver'' u64,
      Field ''sys_image_guid'' c__be64,
      Field ''max_mr_size'' u64,
      Field ''page_size_cap'' u64,
      Field ''vendor_id'' u32,
      Field ''vendor_part_id'' u32,
      Field ''hw_ver'' u32,
      Field ''max_qp'' c_int,
      Field ''max_qp_wr'' c_int,
      Field ''device_cap_flags'' u64,
      Field ''kernel_cap_flags'' u64,
      Field ''max_send_sge'' c_int,
      Field ''max_recv_sge'' c_int,
      Field ''max_sge_rd'' c_int,
      Field ''max_cq'' c_int,
      Field ''max_cqe'' c_int,
      Field ''max_mr'' c_int,
      Field ''max_pd'' c_int,
      Field ''max_qp_rd_atom'' c_int,
      Field ''max_ee_rd_atom'' c_int,
      Field ''max_res_rd_atom'' c_int,
      Field ''max_qp_init_rd_atom'' c_int,
      Field ''max_ee_init_rd_atom'' c_int,
      Field ''atomic_cap'' enum_ib_atomic_cap,
      Field ''masked_atomic_cap'' enum_ib_atomic_cap,
      Field ''max_ee'' c_int,
      Field ''max_rdd'' c_int,
      Field ''max_mw'' c_int,
      Field ''max_raw_ipv6_qp'' c_int,
      Field ''max_raw_ethy_qp'' c_int,
      Field ''max_mcast_grp'' c_int,
      Field ''max_mcast_qp_attach'' c_int,
      Field ''max_total_mcast_qp_attach'' c_int,
      Field ''max_ah'' c_int,
      Field ''max_srq'' c_int,
      Field ''max_srq_wr'' c_int,
      Field ''max_srq_sge'' c_int,
      Field ''max_fast_reg_page_list_len'' unsigned_int,
      Field ''max_pi_fast_reg_page_list_len'' unsigned_int,
      Field ''max_pkeys'' u16,
      Field ''local_ca_ack_delay'' u8,
      Field ''sig_prot_cap'' c_int,
      Field ''sig_guard_cap'' c_int,
      Field ''odp_caps'' struct_ib_odp_caps,
      Field ''timestamp_mask'' uint64_t,
      Field ''hca_core_clock'' uint64_t,
      Field ''rss_caps'' struct_ib_rss_caps,
      Field ''max_wq_type_rq'' u32,
      Field ''raw_packet_caps'' u32,
      Field ''tm_caps'' struct_ib_tm_caps,
      Field ''cq_caps'' struct_ib_cq_caps,
      Field ''max_dm_size'' u64,
      Field ''max_sgl_rd'' u32]"

definition struct_rdmacg_device :: cty where
  "struct_rdmacg_device = CStruct ''rdmacg_device'' False
     [Field ''dev_node'' struct_list_head,
      Field ''rpools'' struct_list_head,
      Field ''name'' (CPtr ''char'')]"

definition enum_rdma_nl_dev_type :: cty where
  "enum_rdma_nl_dev_type = CEnum 4
     [(''RDMA_DEVICE_TYPE_SMI'', 1)]"

definition enum_rdma_nl_name_assign_type :: cty where
  "enum_rdma_nl_name_assign_type = CEnum 4
     [(''RDMA_NAME_ASSIGN_TYPE_UNKNOWN'', 0), (''RDMA_NAME_ASSIGN_TYPE_USER'', 1)]"

definition struct_ib_device :: cty where
  "struct_ib_device = CStruct ''ib_device'' False
     [Field ''dma_device'' (CPtr ''struct device''),
      Field ''ops'' struct_ib_device_ops,
      Field ''name'' (CArr 64 c_char),
      Field ''callback_head'' struct_callback_head,
      Field ''event_handler_list'' struct_list_head,
      Field ''event_handler_rwsem'' struct_rw_semaphore,
      Field ''qp_open_list_lock'' spinlock_t,
      Field ''client_data_rwsem'' struct_rw_semaphore,
      Field ''client_data'' struct_xarray,
      Field ''unregistration_lock'' struct_mutex,
      Field ''cache_lock'' rwlock_t,
      Field ''port_data'' (CPtr ''struct ib_port_data''),
      Field ''num_comp_vectors'' c_int,
      Field [] (CUnion [] False
        [Field ''dev'' struct_device,
         Field ''coredev'' struct_ib_core_device]),
      Field ''groups'' (CArr 4 (CPtr ''const struct attribute_group'')),
      Field ''hw_stats_attr_index'' u8,
      Field ''uverbs_cmd_mask'' u64,
      Field ''node_desc'' (CArr 64 c_char),
      Field ''node_guid'' c__be64,
      Field ''local_dma_lkey'' u32,
      BitField ''is_switch'' u16 1,
      BitField ''kverbs_provider'' u16 1,
      BitField ''use_cq_dim'' u16 1,
      Field ''node_type'' u8,
      Field ''phys_port_cnt'' u32,
      Field ''attrs'' struct_ib_device_attr,
      Field ''hw_stats_data'' (CPtr ''struct hw_stats_device_data''),
      Field ''cg_device'' struct_rdmacg_device,
      Field ''index'' u32,
      Field ''cq_pools_lock'' spinlock_t,
      Field ''cq_pools'' (CArr 3 struct_list_head),
      Field ''res'' (CPtr ''struct rdma_restrack_root''),
      Field ''driver_def'' (CPtr ''const struct uapi_definition''),
      Field ''refcount'' refcount_t,
      Field ''unreg_completion'' struct_completion,
      Field ''unregistration_work'' struct_work_struct,
      Field ''link_ops'' (CPtr ''const struct rdma_link_ops''),
      Field ''compat_devs_mutex'' struct_mutex,
      Field ''compat_devs'' struct_xarray,
      Field ''iw_ifname'' (CArr 16 c_char),
      Field ''iw_driver_flags'' u32,
      Field ''lag_flags'' u32,
      Field ''subdev_lock'' struct_mutex,
      Field ''subdev_list_head'' struct_list_head,
      Field ''type'' enum_rdma_nl_dev_type,
      Field ''parent'' (CPtr ''struct ib_device''),
      Field ''subdev_list'' struct_list_head,
      Field ''name_assign_type'' enum_rdma_nl_name_assign_type]"

definition struct_icmpv6_mib_device :: cty where
  "struct_icmpv6_mib_device = CStruct ''icmpv6_mib_device'' False
     [Field ''mibs'' (CArr 7 atomic_long_t)]"

definition struct_icmpv6msg_mib_device :: cty where
  "struct_icmpv6msg_mib_device = CStruct ''icmpv6msg_mib_device'' False
     [Field ''mibs'' (CArr 512 atomic_long_t)]"

definition enum_nl80211_dfs_state :: cty where
  "enum_nl80211_dfs_state = CEnum 4
     [(''NL80211_DFS_USABLE'', 0), (''NL80211_DFS_UNAVAILABLE'', 1),
      (''NL80211_DFS_AVAILABLE'', 2)]"

definition struct_ieee80211_channel :: cty where
  "struct_ieee80211_channel = CStruct ''ieee80211_channel'' False
     [Field ''band'' enum_nl80211_band,
      Field ''center_freq'' u32,
      Field ''freq_offset'' u16,
      Field ''hw_value'' u16,
      Field ''flags'' u32,
      Field ''max_antenna_gain'' c_int,
      Field ''max_power'' c_int,
      Field ''max_reg_power'' c_int,
      Field ''beacon_found'' bool,
      Field ''orig_flags'' u32,
      Field ''orig_mag'' c_int,
      Field ''orig_mpwr'' c_int,
      Field ''dfs_state'' enum_nl80211_dfs_state,
      Field ''dfs_state_entered'' long_unsigned_int,
      Field ''dfs_cac_ms'' unsigned_int,
      Field ''psd'' s8]"

definition struct_ieee802154_pan_device :: cty where
  "struct_ieee802154_pan_device = CStruct ''ieee802154_pan_device'' False
     [Field ''pan_id'' c__le16,
      Field ''mode'' u8,
      Field ''short_addr'' c__le16,
      Field ''extended_addr'' c__le64,
      Field ''node'' struct_list_head]"

definition struct_ifacaddr6 :: cty where
  "struct_ifacaddr6 = CStruct ''ifacaddr6'' False
     [Field ''aca_addr'' struct_in6_addr,
      Field ''aca_rt'' (CPtr ''struct fib6_info''),
      Field ''aca_next'' (CPtr ''struct ifacaddr6''),
      Field ''aca_addr_lst'' struct_hlist_node,
      Field ''aca_users'' c_int,
      Field ''aca_refcnt'' refcount_t,
      Field ''aca_cstamp'' long_unsigned_int,
      Field ''aca_tstamp'' long_unsigned_int,
      Field ''rcu'' struct_callback_head]"

definition struct_ifmcaddr6 :: cty where
  "struct_ifmcaddr6 = CStruct ''ifmcaddr6'' False
     [Field ''mca_addr'' struct_in6_addr,
      Field ''idev'' (CPtr ''struct inet6_dev''),
      Field ''next'' (CPtr ''struct ifmcaddr6''),
      Field ''mca_sources'' (CPtr ''struct ip6_sf_list''),
      Field ''mca_tomb'' (CPtr ''struct ip6_sf_list''),
      Field ''mca_sfmode'' unsigned_int,
      Field ''mca_crcount'' unsigned_char,
      Field ''mca_sfcount'' (CArr 2 long_unsigned_int),
      Field ''mca_work'' struct_delayed_work,
      Field ''mca_flags'' unsigned_int,
      Field ''mca_users'' c_int,
      Field ''mca_refcnt'' refcount_t,
      Field ''mca_cstamp'' long_unsigned_int,
      Field ''mca_tstamp'' long_unsigned_int,
      Field ''rcu'' struct_callback_head]"

definition struct_in_ifaddr :: cty where
  "struct_in_ifaddr = CStruct ''in_ifaddr'' False
     [Field ''addr_lst'' struct_hlist_node,
      Field ''ifa_next'' (CPtr ''struct in_ifaddr''),
      Field ''ifa_dev'' (CPtr ''struct in_device''),
      Field ''callback_head'' struct_callback_head,
      Field ''ifa_local'' c__be32,
      Field ''ifa_address'' c__be32,
      Field ''ifa_mask'' c__be32,
      Field ''ifa_rt_priority'' c__u32,
      Field ''ifa_broadcast'' c__be32,
      Field ''ifa_scope'' unsigned_char,
      Field ''ifa_prefixlen'' unsigned_char,
      Field ''ifa_proto'' unsigned_char,
      Field ''ifa_flags'' c__u32,
      Field ''ifa_label'' (CArr 16 c_char),
      Field ''ifa_valid_lft'' c__u32,
      Field ''ifa_preferred_lft'' c__u32,
      Field ''ifa_cstamp'' long_unsigned_int,
      Field ''ifa_tstamp'' long_unsigned_int]"

definition struct_io_buffer :: cty where
  "struct_io_buffer = CStruct ''io_buffer'' False
     [Field ''list'' struct_list_head,
      Field ''addr'' c__u64,
      Field ''len'' c__u32,
      Field ''bid'' c__u16,
      Field ''bgid'' c__u16]"

definition struct_io_mapped_ubuf :: cty where
  "struct_io_mapped_ubuf = CStruct ''io_mapped_ubuf'' False
     [Field ''ubuf'' u64,
      Field ''len'' unsigned_int,
      Field ''nr_bvecs'' unsigned_int,
      Field ''folio_shift'' unsigned_int,
      Field ''refs'' refcount_t,
      Field ''acct_pages'' long_unsigned_int,
      Field ''release'' (CPtr ''void (void *)''),
      Field ''priv'' (CPtr ''void''),
      Field ''flags'' u8,
      Field ''dir'' u8,
      Field ''bvec'' (CArr 0 struct_bio_vec)]"

definition struct_iommufd_ctx :: cty where
  "struct_iommufd_ctx = CStruct ''iommufd_ctx'' False
     [Field ''file'' (CPtr ''struct file''),
      Field ''objects'' struct_xarray,
      Field ''groups'' struct_xarray,
      Field ''destroy_wait'' wait_queue_head_t,
      Field ''ioas_creation_lock'' struct_rw_semaphore,
      Field ''mt_mmap'' struct_maple_tree,
      Field ''sw_msi_lock'' struct_mutex,
      Field ''sw_msi_list'' struct_list_head,
      Field ''sw_msi_id'' unsigned_int,
      Field ''account_mode'' u8,
      Field ''no_iommu_mode'' u8,
      Field ''vfio_ioas'' (CPtr ''struct iommufd_ioas'')]"

definition struct_iova_cpu_rcache :: cty where
  "struct_iova_cpu_rcache = CStruct ''iova_cpu_rcache'' False
     [Field ''lock'' spinlock_t,
      Field ''loaded'' (CPtr ''struct iova_magazine''),
      Field ''prev'' (CPtr ''struct iova_magazine'')]"

definition struct_iova_magazine :: cty where
  "struct_iova_magazine = CStruct ''iova_magazine'' False
     [Field [] (CUnion [] False
        [Field ''size'' long_unsigned_int,
         Field ''next'' (CPtr ''struct iova_magazine'')]),
      Field ''pfns'' (CArr 127 long_unsigned_int)]"

definition struct_ip_mc_list :: cty where
  "struct_ip_mc_list = CStruct ''ip_mc_list'' False
     [Field ''interface'' (CPtr ''struct in_device''),
      Field ''multiaddr'' c__be32,
      Field ''sfmode'' unsigned_int,
      Field ''sources'' (CPtr ''struct ip_sf_list''),
      Field ''tomb'' (CPtr ''struct ip_sf_list''),
      Field ''sfcount'' (CArr 2 long_unsigned_int),
      Field [] (CUnion [] False
        [Field ''next'' (CPtr ''struct ip_mc_list''),
         Field ''next_rcu'' (CPtr ''struct ip_mc_list'')]),
      Field ''next_hash'' (CPtr ''struct ip_mc_list''),
      Field ''timer'' struct_timer_list,
      Field ''users'' c_int,
      Field ''refcnt'' refcount_t,
      Field ''lock'' spinlock_t,
      Field ''tm_running'' c_char,
      Field ''reporter'' c_char,
      Field ''unsolicit_count'' c_char,
      Field ''loaded'' c_char,
      Field ''gsquery'' unsigned_char,
      Field ''crcount'' unsigned_char,
      Field ''mca_cstamp'' long_unsigned_int,
      Field ''mca_tstamp'' long_unsigned_int,
      Field ''rcu'' struct_callback_head]"

definition struct_iw_priv_args :: cty where
  "struct_iw_priv_args = CStruct ''iw_priv_args'' False
     [Field ''cmd'' c__u32,
      Field ''set_args'' c__u16,
      Field ''get_args'' c__u16,
      Field ''name'' (CArr 16 c_char)]"

definition enum_nl80211_key_mode :: cty where
  "enum_nl80211_key_mode = CEnum 4
     [(''NL80211_KEY_RX_TX'', 0), (''NL80211_KEY_NO_TX'', 1), (''NL80211_KEY_SET_TX'', 2)]"

definition struct_key_params :: cty where
  "struct_key_params = CStruct ''key_params'' False
     [Field ''key'' (CPtr ''const u8''),
      Field ''seq'' (CPtr ''const u8''),
      Field ''key_len'' c_int,
      Field ''seq_len'' c_int,
      Field ''vlan_id'' u16,
      Field ''cipher'' u32,
      Field ''mode'' enum_nl80211_key_mode]"

definition enum_kvm_apic_logical_mode :: cty where
  "enum_kvm_apic_logical_mode = CEnum 4
     [(''KVM_APIC_MODE_SW_DISABLED'', 0), (''KVM_APIC_MODE_XAPIC_CLUSTER'', 1),
      (''KVM_APIC_MODE_XAPIC_FLAT'', 2), (''KVM_APIC_MODE_X2APIC'', 3),
      (''KVM_APIC_MODE_MAP_DISABLED'', 4)]"

definition struct_kvm_apic_map :: cty where
  "struct_kvm_apic_map = CStruct ''kvm_apic_map'' False
     [Field ''rcu'' struct_callback_head,
      Field ''logical_mode'' enum_kvm_apic_logical_mode,
      Field ''max_apic_id'' u32,
      Field [] (CUnion [] False
        [Field ''xapic_flat_map'' (CArr 8 (CPtr ''struct kvm_lapic'')),
         Field ''xapic_cluster_map'' (CArr 64 (CPtr ''struct kvm_lapic''))]),
      Field ''phys_map'' (CArr 0 (CPtr ''struct kvm_lapic''))]"

definition struct_kvm_coalesced_mmio :: cty where
  "struct_kvm_coalesced_mmio = CStruct ''kvm_coalesced_mmio'' False
     [Field ''phys_addr'' c__u64,
      Field ''len'' c__u32,
      Field [] (CUnion [] False
        [Field ''pad'' c__u32,
         Field ''pio'' c__u32]),
      Field ''data'' (CArr 8 c__u8)]"

definition struct_kvm_coalesced_mmio_ring :: cty where
  "struct_kvm_coalesced_mmio_ring = CStruct ''kvm_coalesced_mmio_ring'' False
     [Field ''first'' c__u32,
      Field ''last'' c__u32,
      Field [] (CStruct [] False
        [Field ''__empty_coalesced_mmio'' (CStruct [] False
           []),
         Field ''coalesced_mmio'' (CArr 0 struct_kvm_coalesced_mmio)])]"

definition struct_kvm_io_range :: cty where
  "struct_kvm_io_range = CStruct ''kvm_io_range'' False
     [Field ''addr'' gpa_t,
      Field ''len'' c_int,
      Field ''dev'' (CPtr ''struct kvm_io_device'')]"

definition struct_kvm_io_bus :: cty where
  "struct_kvm_io_bus = CStruct ''kvm_io_bus'' False
     [Field ''dev_count'' c_int,
      Field ''ioeventfd_count'' c_int,
      Field ''rcu'' struct_callback_head,
      Field ''range'' (CArr 0 struct_kvm_io_range)]"

definition struct_kvm_irq_routing_table :: cty where
  "struct_kvm_irq_routing_table = CStruct ''kvm_irq_routing_table'' False
     [Field ''chip'' (CArr 72 c_int),
      Field ''nr_rt_entries'' u32,
      Field ''map'' (CArr 0 struct_hlist_head)]"

section \<open>Sizes and alignments\<close>

lemma struct_Qdisc_ops_layout [layout_simps]:
  "sizeof struct_Qdisc_ops = 176 \<and> alignof struct_Qdisc_ops = 8 \<and> wf_cty struct_Qdisc_ops"
  by (simp add: struct_Qdisc_ops_def base_types layout_eval
      del: One_nat_def)

lemma struct_aa_loaddata_layout [layout_simps]:
  "sizeof struct_aa_loaddata = 176 \<and> alignof struct_aa_loaddata = 8 \<and> wf_cty struct_aa_loaddata"
  by (simp add: struct_aa_loaddata_def base_types layout_eval struct_aa_common_ref_layout struct_kref_layout
      struct_list_head_layout struct_work_struct_layout size_t_def c__kernel_size_t_def
      c__kernel_ulong_t_def
      del: One_nat_def)

lemma struct_aa_net_compat_layout [layout_simps]:
  "sizeof struct_aa_net_compat = 276 \<and> alignof struct_aa_net_compat = 2 \<and> wf_cty struct_aa_net_compat"
  by (simp add: struct_aa_net_compat_def base_types layout_eval u16_def c__u16_def
      del: One_nat_def)

lemma struct_aa_ns_acct_layout [layout_simps]:
  "sizeof struct_aa_ns_acct = 16 \<and> alignof struct_aa_ns_acct = 4 \<and> wf_cty struct_aa_ns_acct"
  by (simp add: struct_aa_ns_acct_def base_types layout_eval
      del: One_nat_def)

lemma struct_aa_labelset_layout [layout_simps]:
  "sizeof struct_aa_labelset = 16 \<and> alignof struct_aa_labelset = 8 \<and> wf_cty struct_aa_labelset"
  by (simp add: struct_aa_labelset_def base_types layout_eval rwlock_t_def struct_rwlock_layout struct_rb_root_layout
      del: One_nat_def)

lemma struct_aa_ns_layout [layout_simps]:
  "sizeof struct_aa_ns = 344 \<and> alignof struct_aa_ns = 8 \<and> wf_cty struct_aa_ns"
  by (simp add: struct_aa_ns_def base_types layout_eval struct_aa_policy_layout struct_mutex_layout
      struct_aa_ns_acct_layout struct_list_head_layout atomic_t_layout wait_queue_head_t_def
      struct_wait_queue_head_layout spinlock_t_def struct_spinlock_layout struct_aa_labelset_layout
      del: One_nat_def)

lemma struct_aa_str_table_layout [layout_simps]:
  "sizeof struct_aa_str_table = 16 \<and> alignof struct_aa_str_table = 8 \<and> wf_cty struct_aa_str_table"
  by (simp add: struct_aa_str_table_def base_types layout_eval
      del: One_nat_def)

lemma struct_aa_tags_struct_layout [layout_simps]:
  "sizeof struct_aa_tags_struct = 48 \<and> alignof struct_aa_tags_struct = 8 \<and> wf_cty struct_aa_tags_struct"
  by (simp add: struct_aa_tags_struct_def base_types layout_eval u32_def c__u32_def struct_aa_str_table_layout
      del: One_nat_def)

lemma struct_aa_policydb_layout [layout_simps]:
  "sizeof struct_aa_policydb = 232 \<and> alignof struct_aa_policydb = 8 \<and> wf_cty struct_aa_policydb"
  by (simp add: struct_aa_policydb_def base_types layout_eval struct_kref_layout u32_def c__u32_def
      struct_aa_str_table_layout struct_aa_tags_struct_layout
      del: One_nat_def)

lemma struct_aa_secmark_layout [layout_simps]:
  "sizeof struct_aa_secmark = 16 \<and> alignof struct_aa_secmark = 8 \<and> wf_cty struct_aa_secmark"
  by (simp add: struct_aa_secmark_def base_types layout_eval u8_def c__u8_def u32_def c__u32_def
      del: One_nat_def)

lemma struct_io_poll_layout [layout_simps]:
  "sizeof struct_io_poll = 64 \<and> alignof struct_io_poll = 8 \<and> wf_cty struct_io_poll"
  by (simp add: struct_io_poll_def base_types layout_eval c__poll_t_def struct_wait_queue_entry_layout
      del: One_nat_def)

lemma struct_async_poll_layout [layout_simps]:
  "sizeof struct_async_poll = 72 \<and> alignof struct_async_poll = 8 \<and> wf_cty struct_async_poll"
  by (simp add: struct_async_poll_def base_types layout_eval struct_io_poll_layout
      del: One_nat_def)

lemma struct_audit_tree_layout [layout_simps]:
  "sizeof struct_audit_tree = 96 \<and> alignof struct_audit_tree = 8 \<and> wf_cty struct_audit_tree"
  by (simp add: struct_audit_tree_def base_types layout_eval refcount_t_def struct_refcount_struct_layout
      struct_list_head_layout struct_callback_head_layout
      del: One_nat_def)

lemma struct_bpf_mprog_cp_layout [layout_simps]:
  "sizeof struct_bpf_mprog_cp = 8 \<and> alignof struct_bpf_mprog_cp = 8 \<and> wf_cty struct_bpf_mprog_cp"
  by (simp add: struct_bpf_mprog_cp_def base_types layout_eval
      del: One_nat_def)

lemma struct_bpf_mprog_bundle_layout [layout_simps]:
  "sizeof struct_bpf_mprog_bundle = 1576 \<and> alignof struct_bpf_mprog_bundle = 8 \<and> wf_cty struct_bpf_mprog_bundle"
  by (simp add: struct_bpf_mprog_bundle_def base_types layout_eval struct_bpf_mprog_entry_layout
      struct_bpf_mprog_cp_layout atomic64_t_layout u32_def c__u32_def
      del: One_nat_def)

lemma enum_device_link_state_layout [layout_simps]:
  "sizeof enum_device_link_state = 4 \<and> alignof enum_device_link_state = 4 \<and> wf_cty enum_device_link_state"
  by (simp add: enum_device_link_state_def base_types layout_eval
      del: One_nat_def)

lemma struct_device_link_layout [layout_simps]:
  "sizeof struct_device_link = 912 \<and> alignof struct_device_link = 8 \<and> wf_cty struct_device_link"
  by (simp add: struct_device_link_def base_types layout_eval struct_list_head_layout struct_device_layout
      enum_device_link_state_layout u32_def c__u32_def refcount_t_def struct_refcount_struct_layout
      struct_kref_layout struct_work_struct_layout bool_def
      del: One_nat_def)

lemma struct_devlink_dev_stats_layout [layout_simps]:
  "sizeof struct_devlink_dev_stats = 48 \<and> alignof struct_devlink_dev_stats = 4 \<and> wf_cty struct_devlink_dev_stats"
  by (simp add: struct_devlink_dev_stats_def base_types layout_eval u32_def c__u32_def
      del: One_nat_def)

lemma struct_devlink_layout [layout_simps]:
  "sizeof struct_devlink = 416 \<and> alignof struct_devlink = 8 \<and> wf_cty struct_devlink"
  by (simp add: struct_devlink_def base_types layout_eval u32_def c__u32_def struct_xarray_layout struct_list_head_layout
      struct_devlink_dev_stats_layout possible_net_t_layout struct_mutex_layout
      struct_lock_class_key_layout u8_def c__u8_def refcount_t_def struct_refcount_struct_layout
      struct_rcu_work_layout
      del: One_nat_def)

lemma enum_devlink_linecard_state_layout [layout_simps]:
  "sizeof enum_devlink_linecard_state = 4 \<and> alignof enum_devlink_linecard_state = 4 \<and> wf_cty enum_devlink_linecard_state"
  by (simp add: enum_devlink_linecard_state_def base_types layout_eval
      del: One_nat_def)

lemma struct_devlink_linecard_layout [layout_simps]:
  "sizeof struct_devlink_linecard = 112 \<and> alignof struct_devlink_linecard = 8 \<and> wf_cty struct_devlink_linecard"
  by (simp add: struct_devlink_linecard_def base_types layout_eval struct_list_head_layout
      enum_devlink_linecard_state_layout struct_mutex_layout u32_def c__u32_def
      del: One_nat_def)

lemma struct_devlink_port_ops_layout [layout_simps]:
  "sizeof struct_devlink_port_ops = 144 \<and> alignof struct_devlink_port_ops = 8 \<and> wf_cty struct_devlink_port_ops"
  by (simp add: struct_devlink_port_ops_def base_types layout_eval
      del: One_nat_def)

lemma enum_devlink_rate_type_layout [layout_simps]:
  "sizeof enum_devlink_rate_type = 4 \<and> alignof enum_devlink_rate_type = 4 \<and> wf_cty enum_devlink_rate_type"
  by (simp add: enum_devlink_rate_type_def base_types layout_eval
      del: One_nat_def)

lemma struct_devlink_rate_layout [layout_simps]:
  "sizeof struct_devlink_rate = 120 \<and> alignof struct_devlink_rate = 8 \<and> wf_cty struct_devlink_rate"
  by (simp add: struct_devlink_rate_def base_types layout_eval struct_list_head_layout enum_devlink_rate_type_layout
      u64_def c__u64_def refcount_t_def struct_refcount_struct_layout u32_def c__u32_def
      del: One_nat_def)

lemma struct_dim_cq_moder_layout [layout_simps]:
  "sizeof struct_dim_cq_moder = 24 \<and> alignof struct_dim_cq_moder = 8 \<and> wf_cty struct_dim_cq_moder"
  by (simp add: struct_dim_cq_moder_def base_types layout_eval u16_def c__u16_def u8_def c__u8_def
      struct_callback_head_layout
      del: One_nat_def)

lemma struct_dpll_pin_frequency_layout [layout_simps]:
  "sizeof struct_dpll_pin_frequency = 16 \<and> alignof struct_dpll_pin_frequency = 8 \<and> wf_cty struct_dpll_pin_frequency"
  by (simp add: struct_dpll_pin_frequency_def base_types layout_eval u64_def c__u64_def
      del: One_nat_def)

lemma struct_dsa_bridge_layout [layout_simps]:
  "sizeof struct_dsa_bridge = 24 \<and> alignof struct_dsa_bridge = 8 \<and> wf_cty struct_dsa_bridge"
  by (simp add: struct_dsa_bridge_def base_types layout_eval bool_def refcount_t_def struct_refcount_struct_layout
      del: One_nat_def)

lemma enum_dsa_tag_protocol_layout [layout_simps]:
  "sizeof enum_dsa_tag_protocol = 4 \<and> alignof enum_dsa_tag_protocol = 4 \<and> wf_cty enum_dsa_tag_protocol"
  by (simp add: enum_dsa_tag_protocol_def base_types layout_eval
      del: One_nat_def)

lemma struct_dsa_device_ops_layout [layout_simps]:
  "sizeof struct_dsa_device_ops = 64 \<and> alignof struct_dsa_device_ops = 8 \<and> wf_cty struct_dsa_device_ops"
  by (simp add: struct_dsa_device_ops_def base_types layout_eval enum_dsa_tag_protocol_layout bool_def
      del: One_nat_def)

lemma struct_dsa_lag_layout [layout_simps]:
  "sizeof struct_dsa_lag = 72 \<and> alignof struct_dsa_lag = 8 \<and> wf_cty struct_dsa_lag"
  by (simp add: struct_dsa_lag_def base_types layout_eval struct_mutex_layout struct_list_head_layout refcount_t_def
      struct_refcount_struct_layout
      del: One_nat_def)

lemma struct_dsa_switch_layout [layout_simps]:
  "sizeof struct_dsa_switch = 144 \<and> alignof struct_dsa_switch = 8 \<and> wf_cty struct_dsa_switch"
  by (simp add: struct_dsa_switch_def base_types layout_eval u32_def c__u32_def struct_notifier_block_layout
      del: One_nat_def)

lemma struct_dsa_switch_tree_layout [layout_simps]:
  "sizeof struct_dsa_switch_tree = 104 \<and> alignof struct_dsa_switch_tree = 8 \<and> wf_cty struct_dsa_switch_tree"
  by (simp add: struct_dsa_switch_tree_def base_types layout_eval struct_list_head_layout struct_raw_notifier_head_layout
      struct_kref_layout enum_dsa_tag_protocol_layout bool_def
      del: One_nat_def)

lemma struct_eventfd_ctx_layout [layout_simps]:
  "sizeof struct_eventfd_ctx = 48 \<and> alignof struct_eventfd_ctx = 8 \<and> wf_cty struct_eventfd_ctx"
  by (simp add: struct_eventfd_ctx_def base_types layout_eval struct_kref_layout wait_queue_head_t_def
      struct_wait_queue_head_layout c__u64_def
      del: One_nat_def)

lemma struct_fib_nh_exception_layout [layout_simps]:
  "sizeof struct_fib_nh_exception = 80 \<and> alignof struct_fib_nh_exception = 8 \<and> wf_cty struct_fib_nh_exception"
  by (simp add: struct_fib_nh_exception_def base_types layout_eval c__be32_def c__u32_def u32_def bool_def
      struct_callback_head_layout
      del: One_nat_def)

lemma struct_fsnotify_mark_layout [layout_simps]:
  "sizeof struct_fsnotify_mark = 72 \<and> alignof struct_fsnotify_mark = 8 \<and> wf_cty struct_fsnotify_mark"
  by (simp add: struct_fsnotify_mark_def base_types layout_eval c__u32_def refcount_t_def struct_refcount_struct_layout
      struct_list_head_layout spinlock_t_def struct_spinlock_layout struct_hlist_node_layout
      del: One_nat_def)

lemma struct_ftrace_event_field_layout [layout_simps]:
  "sizeof struct_ftrace_event_field = 56 \<and> alignof struct_ftrace_event_field = 8 \<and> wf_cty struct_ftrace_event_field"
  by (simp add: struct_ftrace_event_field_def base_types layout_eval struct_list_head_layout
      del: One_nat_def)

lemma struct_gpio_desc_label_layout [layout_simps]:
  "sizeof struct_gpio_desc_label = 16 \<and> alignof struct_gpio_desc_label = 8 \<and> wf_cty struct_gpio_desc_label"
  by (simp add: struct_gpio_desc_label_def base_types layout_eval struct_callback_head_layout
      del: One_nat_def)

lemma struct_gpio_device_layout [layout_simps]:
  "sizeof struct_gpio_device = 1144 \<and> alignof struct_gpio_device = 8 \<and> wf_cty struct_gpio_device"
  by (simp add: struct_gpio_device_def base_types layout_eval struct_device_layout struct_cdev_layout
      struct_srcu_struct_layout u16_def c__u16_def bool_def struct_list_head_layout
      struct_raw_notifier_head_layout rwlock_t_def struct_rwlock_layout
      struct_blocking_notifier_head_layout
      del: One_nat_def)

lemma struct_hv_partition_assist_pg_layout [layout_simps]:
  "sizeof struct_hv_partition_assist_pg = 4 \<and> alignof struct_hv_partition_assist_pg = 4 \<and> wf_cty struct_hv_partition_assist_pg"
  by (simp add: struct_hv_partition_assist_pg_def base_types layout_eval u32_def c__u32_def
      del: One_nat_def)

lemma enum_rdma_driver_id_layout [layout_simps]:
  "sizeof enum_rdma_driver_id = 4 \<and> alignof enum_rdma_driver_id = 4 \<and> wf_cty enum_rdma_driver_id"
  by (simp add: enum_rdma_driver_id_def base_types layout_eval
      del: One_nat_def)

lemma struct_ib_device_ops_layout [layout_simps]:
  "sizeof struct_ib_device_ops = 1160 \<and> alignof struct_ib_device_ops = 8 \<and> wf_cty struct_ib_device_ops"
  by (simp add: struct_ib_device_ops_def base_types layout_eval enum_rdma_driver_id_layout u32_def c__u32_def size_t_def
      c__kernel_size_t_def c__kernel_ulong_t_def
      del: One_nat_def)

lemma struct_ib_core_device_layout [layout_simps]:
  "sizeof struct_ib_core_device = 848 \<and> alignof struct_ib_core_device = 8 \<and> wf_cty struct_ib_core_device"
  by (simp add: struct_ib_core_device_def base_types layout_eval struct_device_layout possible_net_t_layout
      struct_list_head_layout
      del: One_nat_def)

lemma enum_ib_atomic_cap_layout [layout_simps]:
  "sizeof enum_ib_atomic_cap = 4 \<and> alignof enum_ib_atomic_cap = 4 \<and> wf_cty enum_ib_atomic_cap"
  by (simp add: enum_ib_atomic_cap_def base_types layout_eval
      del: One_nat_def)

lemma struct_ib_odp_caps_layout [layout_simps]:
  "sizeof struct_ib_odp_caps = 24 \<and> alignof struct_ib_odp_caps = 8 \<and> wf_cty struct_ib_odp_caps"
  by (simp add: struct_ib_odp_caps_def base_types layout_eval uint64_t_def u64_def c__u64_def uint32_t_def u32_def
      c__u32_def
      del: One_nat_def)

lemma struct_ib_rss_caps_layout [layout_simps]:
  "sizeof struct_ib_rss_caps = 12 \<and> alignof struct_ib_rss_caps = 4 \<and> wf_cty struct_ib_rss_caps"
  by (simp add: struct_ib_rss_caps_def base_types layout_eval u32_def c__u32_def
      del: One_nat_def)

lemma struct_ib_tm_caps_layout [layout_simps]:
  "sizeof struct_ib_tm_caps = 20 \<and> alignof struct_ib_tm_caps = 4 \<and> wf_cty struct_ib_tm_caps"
  by (simp add: struct_ib_tm_caps_def base_types layout_eval u32_def c__u32_def
      del: One_nat_def)

lemma struct_ib_cq_caps_layout [layout_simps]:
  "sizeof struct_ib_cq_caps = 4 \<and> alignof struct_ib_cq_caps = 2 \<and> wf_cty struct_ib_cq_caps"
  by (simp add: struct_ib_cq_caps_def base_types layout_eval u16_def c__u16_def
      del: One_nat_def)

lemma struct_ib_device_attr_layout [layout_simps]:
  "sizeof struct_ib_device_attr = 304 \<and> alignof struct_ib_device_attr = 8 \<and> wf_cty struct_ib_device_attr"
  by (simp add: struct_ib_device_attr_def base_types layout_eval u64_def c__u64_def c__be64_def u32_def c__u32_def
      enum_ib_atomic_cap_layout u16_def c__u16_def u8_def c__u8_def struct_ib_odp_caps_layout
      uint64_t_def struct_ib_rss_caps_layout struct_ib_tm_caps_layout struct_ib_cq_caps_layout
      del: One_nat_def)

lemma struct_rdmacg_device_layout [layout_simps]:
  "sizeof struct_rdmacg_device = 40 \<and> alignof struct_rdmacg_device = 8 \<and> wf_cty struct_rdmacg_device"
  by (simp add: struct_rdmacg_device_def base_types layout_eval struct_list_head_layout
      del: One_nat_def)

lemma enum_rdma_nl_dev_type_layout [layout_simps]:
  "sizeof enum_rdma_nl_dev_type = 4 \<and> alignof enum_rdma_nl_dev_type = 4 \<and> wf_cty enum_rdma_nl_dev_type"
  by (simp add: enum_rdma_nl_dev_type_def base_types layout_eval
      del: One_nat_def)

lemma enum_rdma_nl_name_assign_type_layout [layout_simps]:
  "sizeof enum_rdma_nl_name_assign_type = 4 \<and> alignof enum_rdma_nl_name_assign_type = 4 \<and> wf_cty enum_rdma_nl_name_assign_type"
  by (simp add: enum_rdma_nl_name_assign_type_def base_types layout_eval
      del: One_nat_def)

lemma struct_ib_device_layout [layout_simps]:
  "sizeof struct_ib_device = 3072 \<and> alignof struct_ib_device = 8 \<and> wf_cty struct_ib_device"
  by (simp add: struct_ib_device_def base_types layout_eval struct_ib_device_ops_layout struct_callback_head_layout
      struct_list_head_layout struct_rw_semaphore_layout spinlock_t_def struct_spinlock_layout
      struct_xarray_layout struct_mutex_layout rwlock_t_def struct_rwlock_layout struct_device_layout
      struct_ib_core_device_layout u8_def c__u8_def u64_def c__u64_def c__be64_def u32_def c__u32_def
      u16_def c__u16_def struct_ib_device_attr_layout struct_rdmacg_device_layout refcount_t_def
      struct_refcount_struct_layout struct_completion_layout struct_work_struct_layout
      enum_rdma_nl_dev_type_layout enum_rdma_nl_name_assign_type_layout
      del: One_nat_def)

lemma struct_icmpv6_mib_device_layout [layout_simps]:
  "sizeof struct_icmpv6_mib_device = 56 \<and> alignof struct_icmpv6_mib_device = 8 \<and> wf_cty struct_icmpv6_mib_device"
  by (simp add: struct_icmpv6_mib_device_def base_types layout_eval atomic_long_t_def atomic64_t_layout
      del: One_nat_def)

lemma struct_icmpv6msg_mib_device_layout [layout_simps]:
  "sizeof struct_icmpv6msg_mib_device = 4096 \<and> alignof struct_icmpv6msg_mib_device = 8 \<and> wf_cty struct_icmpv6msg_mib_device"
  by (simp add: struct_icmpv6msg_mib_device_def base_types layout_eval atomic_long_t_def atomic64_t_layout
      del: One_nat_def)

lemma enum_nl80211_dfs_state_layout [layout_simps]:
  "sizeof enum_nl80211_dfs_state = 4 \<and> alignof enum_nl80211_dfs_state = 4 \<and> wf_cty enum_nl80211_dfs_state"
  by (simp add: enum_nl80211_dfs_state_def base_types layout_eval
      del: One_nat_def)

lemma struct_ieee80211_channel_layout [layout_simps]:
  "sizeof struct_ieee80211_channel = 64 \<and> alignof struct_ieee80211_channel = 8 \<and> wf_cty struct_ieee80211_channel"
  by (simp add: struct_ieee80211_channel_def base_types layout_eval enum_nl80211_band_layout u32_def c__u32_def u16_def
      c__u16_def bool_def enum_nl80211_dfs_state_layout s8_def c__s8_def
      del: One_nat_def)

lemma struct_ieee802154_pan_device_layout [layout_simps]:
  "sizeof struct_ieee802154_pan_device = 32 \<and> alignof struct_ieee802154_pan_device = 8 \<and> wf_cty struct_ieee802154_pan_device"
  by (simp add: struct_ieee802154_pan_device_def base_types layout_eval c__le16_def c__u16_def u8_def c__u8_def
      c__le64_def c__u64_def struct_list_head_layout
      del: One_nat_def)

lemma struct_ifacaddr6_layout [layout_simps]:
  "sizeof struct_ifacaddr6 = 88 \<and> alignof struct_ifacaddr6 = 8 \<and> wf_cty struct_ifacaddr6"
  by (simp add: struct_ifacaddr6_def base_types layout_eval struct_in6_addr_layout struct_hlist_node_layout
      refcount_t_def struct_refcount_struct_layout struct_callback_head_layout
      del: One_nat_def)

lemma struct_ifmcaddr6_layout [layout_simps]:
  "sizeof struct_ifmcaddr6 = 208 \<and> alignof struct_ifmcaddr6 = 8 \<and> wf_cty struct_ifmcaddr6"
  by (simp add: struct_ifmcaddr6_def base_types layout_eval struct_in6_addr_layout struct_delayed_work_layout
      refcount_t_def struct_refcount_struct_layout struct_callback_head_layout
      del: One_nat_def)

lemma struct_in_ifaddr_layout [layout_simps]:
  "sizeof struct_in_ifaddr = 120 \<and> alignof struct_in_ifaddr = 8 \<and> wf_cty struct_in_ifaddr"
  by (simp add: struct_in_ifaddr_def base_types layout_eval struct_hlist_node_layout struct_callback_head_layout
      c__be32_def c__u32_def
      del: One_nat_def)

lemma struct_io_buffer_layout [layout_simps]:
  "sizeof struct_io_buffer = 32 \<and> alignof struct_io_buffer = 8 \<and> wf_cty struct_io_buffer"
  by (simp add: struct_io_buffer_def base_types layout_eval struct_list_head_layout c__u64_def c__u32_def c__u16_def
      del: One_nat_def)

lemma struct_io_mapped_ubuf_layout [layout_simps]:
  "sizeof struct_io_mapped_ubuf = 56 \<and> alignof struct_io_mapped_ubuf = 8 \<and> wf_cty struct_io_mapped_ubuf"
  by (simp add: struct_io_mapped_ubuf_def base_types layout_eval u64_def c__u64_def refcount_t_def
      struct_refcount_struct_layout u8_def c__u8_def struct_bio_vec_layout
      del: One_nat_def)

lemma struct_iommufd_ctx_layout [layout_simps]:
  "sizeof struct_iommufd_ctx = 184 \<and> alignof struct_iommufd_ctx = 8 \<and> wf_cty struct_iommufd_ctx"
  by (simp add: struct_iommufd_ctx_def base_types layout_eval struct_xarray_layout wait_queue_head_t_def
      struct_wait_queue_head_layout struct_rw_semaphore_layout struct_maple_tree_layout
      struct_mutex_layout struct_list_head_layout u8_def c__u8_def
      del: One_nat_def)

lemma struct_iova_cpu_rcache_layout [layout_simps]:
  "sizeof struct_iova_cpu_rcache = 24 \<and> alignof struct_iova_cpu_rcache = 8 \<and> wf_cty struct_iova_cpu_rcache"
  by (simp add: struct_iova_cpu_rcache_def base_types layout_eval spinlock_t_def struct_spinlock_layout
      del: One_nat_def)

lemma struct_iova_magazine_layout [layout_simps]:
  "sizeof struct_iova_magazine = 1024 \<and> alignof struct_iova_magazine = 8 \<and> wf_cty struct_iova_magazine"
  by (simp add: struct_iova_magazine_def base_types layout_eval
      del: One_nat_def)

lemma struct_ip_mc_list_layout [layout_simps]:
  "sizeof struct_ip_mc_list = 160 \<and> alignof struct_ip_mc_list = 8 \<and> wf_cty struct_ip_mc_list"
  by (simp add: struct_ip_mc_list_def base_types layout_eval c__be32_def c__u32_def struct_timer_list_layout
      refcount_t_def struct_refcount_struct_layout spinlock_t_def struct_spinlock_layout
      struct_callback_head_layout
      del: One_nat_def)

lemma struct_iw_priv_args_layout [layout_simps]:
  "sizeof struct_iw_priv_args = 24 \<and> alignof struct_iw_priv_args = 4 \<and> wf_cty struct_iw_priv_args"
  by (simp add: struct_iw_priv_args_def base_types layout_eval c__u32_def c__u16_def
      del: One_nat_def)

lemma enum_nl80211_key_mode_layout [layout_simps]:
  "sizeof enum_nl80211_key_mode = 4 \<and> alignof enum_nl80211_key_mode = 4 \<and> wf_cty enum_nl80211_key_mode"
  by (simp add: enum_nl80211_key_mode_def base_types layout_eval
      del: One_nat_def)

lemma struct_key_params_layout [layout_simps]:
  "sizeof struct_key_params = 40 \<and> alignof struct_key_params = 8 \<and> wf_cty struct_key_params"
  by (simp add: struct_key_params_def base_types layout_eval u16_def c__u16_def u32_def c__u32_def
      enum_nl80211_key_mode_layout
      del: One_nat_def)

lemma enum_kvm_apic_logical_mode_layout [layout_simps]:
  "sizeof enum_kvm_apic_logical_mode = 4 \<and> alignof enum_kvm_apic_logical_mode = 4 \<and> wf_cty enum_kvm_apic_logical_mode"
  by (simp add: enum_kvm_apic_logical_mode_def base_types layout_eval
      del: One_nat_def)

lemma struct_kvm_apic_map_layout [layout_simps]:
  "sizeof struct_kvm_apic_map = 536 \<and> alignof struct_kvm_apic_map = 8 \<and> wf_cty struct_kvm_apic_map"
  by (simp add: struct_kvm_apic_map_def base_types layout_eval struct_callback_head_layout
      enum_kvm_apic_logical_mode_layout u32_def c__u32_def
      del: One_nat_def)

lemma struct_kvm_coalesced_mmio_layout [layout_simps]:
  "sizeof struct_kvm_coalesced_mmio = 24 \<and> alignof struct_kvm_coalesced_mmio = 8 \<and> wf_cty struct_kvm_coalesced_mmio"
  by (simp add: struct_kvm_coalesced_mmio_def base_types layout_eval c__u64_def c__u32_def c__u8_def
      del: One_nat_def)

lemma struct_kvm_coalesced_mmio_ring_layout [layout_simps]:
  "sizeof struct_kvm_coalesced_mmio_ring = 8 \<and> alignof struct_kvm_coalesced_mmio_ring = 8 \<and> wf_cty struct_kvm_coalesced_mmio_ring"
  by (simp add: struct_kvm_coalesced_mmio_ring_def base_types layout_eval c__u32_def struct_kvm_coalesced_mmio_layout
      del: One_nat_def)

lemma struct_kvm_io_range_layout [layout_simps]:
  "sizeof struct_kvm_io_range = 24 \<and> alignof struct_kvm_io_range = 8 \<and> wf_cty struct_kvm_io_range"
  by (simp add: struct_kvm_io_range_def base_types layout_eval gpa_t_def u64_def c__u64_def
      del: One_nat_def)

lemma struct_kvm_io_bus_layout [layout_simps]:
  "sizeof struct_kvm_io_bus = 24 \<and> alignof struct_kvm_io_bus = 8 \<and> wf_cty struct_kvm_io_bus"
  by (simp add: struct_kvm_io_bus_def base_types layout_eval struct_callback_head_layout struct_kvm_io_range_layout
      del: One_nat_def)

lemma struct_kvm_irq_routing_table_layout [layout_simps]:
  "sizeof struct_kvm_irq_routing_table = 296 \<and> alignof struct_kvm_irq_routing_table = 8 \<and> wf_cty struct_kvm_irq_routing_table"
  by (simp add: struct_kvm_irq_routing_table_def base_types layout_eval u32_def c__u32_def struct_hlist_head_layout
      del: One_nat_def)

end
