(* ===== verification/KernelHelpers1.thy ===== *)
theory KernelHelpers1
  imports KernelReach4a
begin

text \<open>
  Types of \<^verbatim>\<open>bpf/vmlinux.h\<close> that the signatures of the helpers in \<^verbatim>\<open>bpf/bpf/bpf_helper_defs.h\<close> name, with the
  types they hold by value or reach through pointers (part 1 of 2).
\<close>

section \<open>Types\<close>

definition struct_bpf_fib_lookup :: cty where
  "struct_bpf_fib_lookup = CStruct ''bpf_fib_lookup'' False
     [Field ''family'' c__u8,
      Field ''l4_protocol'' c__u8,
      Field ''sport'' c__be16,
      Field ''dport'' c__be16,
      Field [] (CUnion [] False
        [Field ''tot_len'' c__u16,
         Field ''mtu_result'' c__u16]),
      Field ''ifindex'' c__u32,
      Field [] (CUnion [] False
        [Field ''tos'' c__u8,
         Field ''flowinfo'' c__be32,
         Field ''rt_metric'' c__u32]),
      Field [] (CUnion [] False
        [Field ''ipv4_src'' c__be32,
         Field ''ipv6_src'' (CArr 4 c__u32)]),
      Field [] (CUnion [] False
        [Field ''ipv4_dst'' c__be32,
         Field ''ipv6_dst'' (CArr 4 c__u32)]),
      Field [] (CUnion [] False
        [Field [] (CStruct [] False
           [Field ''h_vlan_proto'' c__be16,
            Field ''h_vlan_TCI'' c__be16]),
         Field ''tbid'' c__u32]),
      Field [] (CUnion [] False
        [Field [] (CStruct [] False
           [Field ''mark'' c__u32]),
         Field [] (CStruct [] False
           [Field ''smac'' (CArr 6 c__u8),
            Field ''dmac'' (CArr 6 c__u8)])])]"

definition struct_bpf_sk_lookup :: cty where
  "struct_bpf_sk_lookup = CStruct ''bpf_sk_lookup'' False
     [Field [] (CUnion [] False
        [Field [] (CUnion [] False
           [Field ''sk'' (CPtr ''struct bpf_sock'')]),
         Field ''cookie'' c__u64]),
      Field ''family'' c__u32,
      Field ''protocol'' c__u32,
      Field ''remote_ip4'' c__u32,
      Field ''remote_ip6'' (CArr 4 c__u32),
      Field ''remote_port'' c__be16,
      Field ''local_ip4'' c__u32,
      Field ''local_ip6'' (CArr 4 c__u32),
      Field ''local_port'' c__u32,
      Field ''ingress_ifindex'' c__u32]"

definition struct_bpf_perf_event_value :: cty where
  "struct_bpf_perf_event_value = CStruct ''bpf_perf_event_value'' False
     [Field ''counter'' c__u64,
      Field ''enabled'' c__u64,
      Field ''running'' c__u64]"

definition struct_bpf_pidns_info :: cty where
  "struct_bpf_pidns_info = CStruct ''bpf_pidns_info'' False
     [Field ''pid'' c__u32,
      Field ''tgid'' c__u32]"

definition struct_bpf_redir_neigh :: cty where
  "struct_bpf_redir_neigh = CStruct ''bpf_redir_neigh'' False
     [Field ''nh_family'' c__u32,
      Field [] (CUnion [] False
        [Field ''ipv4_nh'' c__be32,
         Field ''ipv6_nh'' (CArr 4 c__u32)])]"

definition struct_bpf_sock :: cty where
  "struct_bpf_sock = CStruct ''bpf_sock'' False
     [Field ''bound_dev_if'' c__u32,
      Field ''family'' c__u32,
      Field ''type'' c__u32,
      Field ''protocol'' c__u32,
      Field ''mark'' c__u32,
      Field ''priority'' c__u32,
      Field ''src_ip4'' c__u32,
      Field ''src_ip6'' (CArr 4 c__u32),
      Field ''src_port'' c__u32,
      Field ''dst_port'' c__be16,
      Field ''dst_ip4'' c__u32,
      Field ''dst_ip6'' (CArr 4 c__u32),
      Field ''state'' c__u32,
      Field ''rx_queue_mapping'' c__s32]"

definition struct_bpf_sock_addr :: cty where
  "struct_bpf_sock_addr = CStruct ''bpf_sock_addr'' False
     [Field ''user_family'' c__u32,
      Field ''user_ip4'' c__u32,
      Field ''user_ip6'' (CArr 4 c__u32),
      Field ''user_port'' c__u32,
      Field ''family'' c__u32,
      Field ''type'' c__u32,
      Field ''protocol'' c__u32,
      Field ''msg_src_ip4'' c__u32,
      Field ''msg_src_ip6'' (CArr 4 c__u32),
      Field [] (CUnion [] False
        [Field ''sk'' (CPtr ''struct bpf_sock'')])]"

definition struct_bpf_sock_ops :: cty where
  "struct_bpf_sock_ops = CStruct ''bpf_sock_ops'' False
     [Field ''op'' c__u32,
      Field [] (CUnion [] False
        [Field ''args'' (CArr 4 c__u32),
         Field ''reply'' c__u32,
         Field ''replylong'' (CArr 4 c__u32)]),
      Field ''family'' c__u32,
      Field ''remote_ip4'' c__u32,
      Field ''local_ip4'' c__u32,
      Field ''remote_ip6'' (CArr 4 c__u32),
      Field ''local_ip6'' (CArr 4 c__u32),
      Field ''remote_port'' c__u32,
      Field ''local_port'' c__u32,
      Field ''is_fullsock'' c__u32,
      Field ''snd_cwnd'' c__u32,
      Field ''srtt_us'' c__u32,
      Field ''bpf_sock_ops_cb_flags'' c__u32,
      Field ''state'' c__u32,
      Field ''rtt_min'' c__u32,
      Field ''snd_ssthresh'' c__u32,
      Field ''rcv_nxt'' c__u32,
      Field ''snd_nxt'' c__u32,
      Field ''snd_una'' c__u32,
      Field ''mss_cache'' c__u32,
      Field ''ecn_flags'' c__u32,
      Field ''rate_delivered'' c__u32,
      Field ''rate_interval_us'' c__u32,
      Field ''packets_out'' c__u32,
      Field ''retrans_out'' c__u32,
      Field ''total_retrans'' c__u32,
      Field ''segs_in'' c__u32,
      Field ''data_segs_in'' c__u32,
      Field ''segs_out'' c__u32,
      Field ''data_segs_out'' c__u32,
      Field ''lost_out'' c__u32,
      Field ''sacked_out'' c__u32,
      Field ''sk_txhash'' c__u32,
      Field ''bytes_received'' c__u64,
      Field ''bytes_acked'' c__u64,
      Field [] (CUnion [] False
        [Field ''sk'' (CPtr ''struct bpf_sock'')]),
      Field [] (CUnion [] False
        [Field ''skb_data'' (CPtr ''void'')]),
      Field [] (CUnion [] False
        [Field ''skb_data_end'' (CPtr ''void'')]),
      Field ''skb_len'' c__u32,
      Field ''skb_tcp_flags'' c__u32,
      Field ''skb_hwtstamp'' c__u64]"

definition struct_bpf_sock_tuple :: cty where
  "struct_bpf_sock_tuple = CStruct ''bpf_sock_tuple'' False
     [Field [] (CUnion [] False
        [Field ''ipv4'' (CStruct [] False
           [Field ''saddr'' c__be32,
            Field ''daddr'' c__be32,
            Field ''sport'' c__be16,
            Field ''dport'' c__be16]),
         Field ''ipv6'' (CStruct [] False
           [Field ''saddr'' (CArr 4 c__be32),
            Field ''daddr'' (CArr 4 c__be32),
            Field ''sport'' c__be16,
            Field ''dport'' c__be16])])]"

definition struct_bpf_sysctl :: cty where
  "struct_bpf_sysctl = CStruct ''bpf_sysctl'' False
     [Field ''write'' c__u32,
      Field ''file_pos'' c__u32]"

definition struct_bpf_tcp_sock :: cty where
  "struct_bpf_tcp_sock = CStruct ''bpf_tcp_sock'' False
     [Field ''snd_cwnd'' c__u32,
      Field ''srtt_us'' c__u32,
      Field ''rtt_min'' c__u32,
      Field ''snd_ssthresh'' c__u32,
      Field ''rcv_nxt'' c__u32,
      Field ''snd_nxt'' c__u32,
      Field ''snd_una'' c__u32,
      Field ''mss_cache'' c__u32,
      Field ''ecn_flags'' c__u32,
      Field ''rate_delivered'' c__u32,
      Field ''rate_interval_us'' c__u32,
      Field ''packets_out'' c__u32,
      Field ''retrans_out'' c__u32,
      Field ''total_retrans'' c__u32,
      Field ''segs_in'' c__u32,
      Field ''data_segs_in'' c__u32,
      Field ''segs_out'' c__u32,
      Field ''data_segs_out'' c__u32,
      Field ''lost_out'' c__u32,
      Field ''sacked_out'' c__u32,
      Field ''bytes_received'' c__u64,
      Field ''bytes_acked'' c__u64,
      Field ''dsack_dups'' c__u32,
      Field ''delivered'' c__u32,
      Field ''delivered_ce'' c__u32,
      Field ''icsk_retransmits'' c__u32]"

definition struct_bpf_tunnel_key :: cty where
  "struct_bpf_tunnel_key = CStruct ''bpf_tunnel_key'' False
     [Field ''tunnel_id'' c__u32,
      Field [] (CUnion [] False
        [Field ''remote_ipv4'' c__u32,
         Field ''remote_ipv6'' (CArr 4 c__u32)]),
      Field ''tunnel_tos'' c__u8,
      Field ''tunnel_ttl'' c__u8,
      Field [] (CUnion [] False
        [Field ''tunnel_ext'' c__u16,
         Field ''tunnel_flags'' c__be16]),
      Field ''tunnel_label'' c__u32,
      Field [] (CUnion [] False
        [Field ''local_ipv4'' c__u32,
         Field ''local_ipv6'' (CArr 4 c__u32)])]"

definition struct_bpf_xfrm_state :: cty where
  "struct_bpf_xfrm_state = CStruct ''bpf_xfrm_state'' False
     [Field ''reqid'' c__u32,
      Field ''spi'' c__u32,
      Field ''family'' c__u16,
      Field ''ext'' c__u16,
      Field [] (CUnion [] False
        [Field ''remote_ipv4'' c__u32,
         Field ''remote_ipv6'' (CArr 4 c__u32)])]"

definition struct_linux_binprm :: cty where
  "struct_linux_binprm = CStruct ''linux_binprm'' False
     [Field ''vma'' (CPtr ''struct vm_area_struct''),
      Field ''vma_pages'' long_unsigned_int,
      Field ''argmin'' long_unsigned_int,
      Field ''mm'' (CPtr ''struct mm_struct''),
      Field ''p'' long_unsigned_int,
      BitField ''have_execfd'' unsigned_int 1,
      BitField ''execfd_creds'' unsigned_int 1,
      BitField ''secureexec'' unsigned_int 1,
      BitField ''point_of_no_return'' unsigned_int 1,
      BitField ''comm_from_dentry'' unsigned_int 1,
      BitField ''is_check'' unsigned_int 1,
      Field ''executable'' (CPtr ''struct file''),
      Field ''interpreter'' (CPtr ''struct file''),
      Field ''file'' (CPtr ''struct file''),
      Field ''cred'' (CPtr ''struct cred''),
      Field ''unsafe'' c_int,
      Field ''per_clear'' unsigned_int,
      Field ''argc'' c_int,
      Field ''envc'' c_int,
      Field ''filename'' (CPtr ''const char''),
      Field ''interp'' (CPtr ''const char''),
      Field ''fdpath'' (CPtr ''const char''),
      Field ''interp_flags'' unsigned_int,
      Field ''execfd'' c_int,
      Field ''exec'' long_unsigned_int,
      Field ''rlim_stack'' struct_rlimit,
      Field ''buf'' (CArr 256 c_char)]"

definition struct_sk_reuseport_md :: cty where
  "struct_sk_reuseport_md = CStruct ''sk_reuseport_md'' False
     [Field [] (CUnion [] False
        [Field ''data'' (CPtr ''void'')]),
      Field [] (CUnion [] False
        [Field ''data_end'' (CPtr ''void'')]),
      Field ''len'' c__u32,
      Field ''eth_protocol'' c__u32,
      Field ''ip_protocol'' c__u32,
      Field ''bind_inany'' c__u32,
      Field ''hash'' c__u32,
      Field [] (CUnion [] False
        [Field ''sk'' (CPtr ''struct bpf_sock'')]),
      Field [] (CUnion [] False
        [Field ''migrating_sk'' (CPtr ''struct bpf_sock'')])]"

definition sa_family_t :: cty where [layout_simps]:
  "sa_family_t = c__kernel_sa_family_t"

definition struct_sockaddr :: cty where
  "struct_sockaddr = CStruct ''sockaddr'' False
     [Field ''sa_family'' sa_family_t,
      Field ''sa_data'' (CArr 14 c_char)]"

definition c__sum16 :: cty where [layout_simps]:
  "c__sum16 = c__u16"

definition struct_tcphdr :: cty where
  "struct_tcphdr = CStruct ''tcphdr'' False
     [Field ''source'' c__be16,
      Field ''dest'' c__be16,
      Field ''seq'' c__be32,
      Field ''ack_seq'' c__be32,
      BitField ''ae'' c__u16 1,
      BitField ''res1'' c__u16 3,
      BitField ''doff'' c__u16 4,
      BitField ''fin'' c__u16 1,
      BitField ''syn'' c__u16 1,
      BitField ''rst'' c__u16 1,
      BitField ''psh'' c__u16 1,
      BitField ''ack'' c__u16 1,
      BitField ''urg'' c__u16 1,
      BitField ''ece'' c__u16 1,
      BitField ''cwr'' c__u16 1,
      Field ''window'' c__be16,
      Field ''check'' c__sum16,
      Field ''urg_ptr'' c__be16]"

definition struct_seq_file :: cty where
  "struct_seq_file = CStruct ''seq_file'' False
     [Field ''buf'' (CPtr ''char''),
      Field ''size'' size_t,
      Field ''from'' size_t,
      Field ''count'' size_t,
      Field ''pad_until'' size_t,
      Field ''index'' loff_t,
      Field ''read_pos'' loff_t,
      Field ''lock'' struct_mutex,
      Field ''op'' (CPtr ''const struct seq_operations''),
      Field ''poll_event'' c_int,
      Field ''file'' (CPtr ''const struct file''),
      Field ''private'' (CPtr ''void'')]"

definition struct_inet_cork :: cty where
  "struct_inet_cork = CStruct ''inet_cork'' False
     [Field ''flags'' unsigned_int,
      Field ''addr'' c__be32,
      Field ''opt'' (CPtr ''struct ip_options''),
      Field ''fragsize'' unsigned_int,
      Field ''length'' c_int,
      Field ''dst'' (CPtr ''struct dst_entry''),
      Field ''tx_flags'' u8,
      Field ''ttl'' c__u8,
      Field ''tos'' c__s16,
      Field ''priority'' u32,
      Field ''gso_size'' c__u16,
      Field ''ts_opt_id'' u32,
      Field ''transmit_time'' u64,
      Field ''mark'' u32]"

definition dscp_t :: cty where [layout_simps]:
  "dscp_t = u8"

definition struct_flowi_tunnel :: cty where
  "struct_flowi_tunnel = CStruct ''flowi_tunnel'' False
     [Field ''tun_id'' c__be64]"

definition struct_flowi_common :: cty where
  "struct_flowi_common = CStruct ''flowi_common'' False
     [Field ''flowic_oif'' c_int,
      Field ''flowic_iif'' c_int,
      Field ''flowic_l3mdev'' c_int,
      Field ''flowic_mark'' c__u32,
      Field ''flowic_dscp'' dscp_t,
      Field ''flowic_scope'' c__u8,
      Field ''flowic_proto'' c__u8,
      Field ''flowic_flags'' c__u8,
      Field ''flowic_secid'' c__u32,
      Field ''flowic_uid'' kuid_t,
      Field ''flowic_multipath_hash'' c__u32,
      Field ''flowic_tun_key'' struct_flowi_tunnel]"

definition union_flowi_uli :: cty where
  "union_flowi_uli = CUnion ''flowi_uli'' False
     [Field ''ports'' (CStruct [] False
        [Field ''dport'' c__be16,
         Field ''sport'' c__be16]),
      Field ''icmpt'' (CStruct [] False
        [Field ''type'' c__u8,
         Field ''code'' c__u8]),
      Field ''gre_key'' c__be32,
      Field ''mht'' (CStruct [] False
        [Field ''type'' c__u8])]"

definition struct_flowi4 :: cty where
  "struct_flowi4 = CStruct ''flowi4'' False
     [Field ''__fl_common'' struct_flowi_common,
      Field ''saddr'' c__be32,
      Field ''daddr'' c__be32,
      Field ''uli'' union_flowi_uli]"

definition struct_flowi6 :: cty where
  "struct_flowi6 = CStruct ''flowi6'' False
     [Field ''__fl_common'' struct_flowi_common,
      Field ''daddr'' struct_in6_addr,
      Field ''saddr'' struct_in6_addr,
      Field ''flowlabel'' c__be32,
      Field ''uli'' union_flowi_uli,
      Field ''mp_hash'' c__u32]"

definition struct_flowi :: cty where
  "struct_flowi = CStruct ''flowi'' False
     [Field ''u'' (CUnion [] False
        [Field ''__fl_common'' struct_flowi_common,
         Field ''ip4'' struct_flowi4,
         Field ''ip6'' struct_flowi6])]"

definition struct_inet6_cork :: cty where
  "struct_inet6_cork = CStruct ''inet6_cork'' False
     [Field ''opt'' (CPtr ''struct ipv6_txoptions''),
      Field ''hop_limit'' u8,
      Field ''tclass'' u8,
      BitField ''dontfrag'' u8 1]"

definition struct_inet_cork_full :: cty where
  "struct_inet_cork_full = CStruct ''inet_cork_full'' False
     [Field ''base'' struct_inet_cork,
      Field ''fl'' struct_flowi,
      Field ''base6'' struct_inet6_cork]"

definition struct_inet_sock :: cty where
  "struct_inet_sock = CStruct ''inet_sock'' False
     [Field ''sk'' struct_sock,
      Field ''pinet6'' (CPtr ''struct ipv6_pinfo''),
      Field ''ipv6_fl_list'' (CPtr ''struct ipv6_fl_socklist''),
      Field ''inet_flags'' long_unsigned_int,
      Field ''inet_saddr'' c__be32,
      Field ''uc_ttl'' c__s16,
      Field ''inet_sport'' c__be16,
      Field ''inet_opt'' (CPtr ''struct ip_options_rcu''),
      Field ''inet_id'' atomic_t,
      Field ''tos'' c__u8,
      Field ''min_ttl'' c__u8,
      Field ''mc_ttl'' c__u8,
      Field ''pmtudisc'' c__u8,
      Field ''rcv_tos'' c__u8,
      Field ''convert_csum'' c__u8,
      Field ''uc_index'' c_int,
      Field ''mc_index'' c_int,
      Field ''mc_addr'' c__be32,
      Field ''local_port_range'' u32,
      Field ''mc_list'' (CPtr ''struct ip_mc_socklist''),
      Field ''cork'' struct_inet_cork_full]"

definition struct_fastopen_queue :: cty where
  "struct_fastopen_queue = CStruct ''fastopen_queue'' False
     [Field ''rskq_rst_head'' (CPtr ''struct request_sock''),
      Field ''rskq_rst_tail'' (CPtr ''struct request_sock''),
      Field ''lock'' spinlock_t,
      Field ''qlen'' c_int,
      Field ''max_qlen'' c_int,
      Field ''ctx'' (CPtr ''struct tcp_fastopen_context'')]"

definition struct_request_sock_queue :: cty where
  "struct_request_sock_queue = CStruct ''request_sock_queue'' False
     [Field ''rskq_lock'' spinlock_t,
      Field ''rskq_defer_accept'' u8,
      Field ''synflood_warned'' u8,
      Field ''qlen'' atomic_t,
      Field ''young'' atomic_t,
      Field ''rskq_accept_head'' (CPtr ''struct request_sock''),
      Field ''rskq_accept_tail'' (CPtr ''struct request_sock''),
      Field ''fastopenq'' struct_fastopen_queue]"

definition struct_inet_connection_sock :: cty where
  "struct_inet_connection_sock = CStruct ''inet_connection_sock'' False
     [Field ''icsk_inet'' struct_inet_sock,
      Field ''icsk_accept_queue'' struct_request_sock_queue,
      Field ''icsk_bind_hash'' (CPtr ''struct inet_bind_bucket''),
      Field ''icsk_bind2_hash'' (CPtr ''struct inet_bind2_bucket''),
      Field ''icsk_delack_timer'' struct_timer_list,
      Field [] (CUnion [] False
        [Field ''icsk_keepalive_timer'' struct_timer_list,
         Field ''mptcp_tout_timer'' struct_timer_list]),
      Field ''icsk_rto'' c__u32,
      Field ''icsk_rto_min'' c__u32,
      Field ''icsk_rto_max'' u32,
      Field ''icsk_delack_max'' c__u32,
      Field ''icsk_pmtu_cookie'' c__u32,
      Field ''icsk_ca_ops'' (CPtr ''const struct tcp_congestion_ops''),
      Field ''icsk_af_ops'' (CPtr ''const struct inet_connection_sock_af_ops''),
      Field ''icsk_ulp_ops'' (CPtr ''const struct tcp_ulp_ops''),
      Field ''icsk_ulp_data'' (CPtr ''void''),
      Field ''icsk_sync_mss'' (CPtr ''unsigned int (struct sock *, u32)''),
      BitField ''icsk_ca_state'' c__u8 5,
      BitField ''icsk_ca_initialized'' c__u8 1,
      BitField ''icsk_ca_setsockopt'' c__u8 1,
      BitField ''icsk_ca_dst_locked'' c__u8 1,
      Field ''icsk_retransmits'' c__u8,
      Field ''icsk_pending'' c__u8,
      Field ''icsk_backoff'' c__u8,
      Field ''icsk_syn_retries'' c__u8,
      Field ''icsk_probes_out'' c__u8,
      Field ''icsk_ext_hdr_len'' c__u16,
      Field ''icsk_ack'' (CStruct [] False
        [Field ''pending'' c__u8,
         Field ''quick'' c__u8,
         Field ''pingpong'' c__u8,
         Field ''retry'' c__u8,
         BitField ''ato'' c__u32 8,
         BitField ''lrcv_flowlabel'' c__u32 20,
         BitField ''dst_quick_ack'' c__u32 1,
         BitField ''unused'' c__u32 3,
         Field ''lrcvtime'' c__u32,
         Field ''last_seg_size'' c__u16,
         Field ''rcv_mss'' c__u16]),
      Field ''icsk_mtup'' (CStruct [] False
        [Field ''search_high'' c_int,
         Field ''search_low'' c_int,
         BitField ''probe_size'' u32 31,
         BitField ''enabled'' u32 1,
         Field ''probe_timestamp'' u32]),
      Field ''icsk_probes_tstamp'' u32,
      Field ''icsk_user_timeout'' u32,
      Field ''icsk_ca_priv'' (CArr 13 u64)]"

definition struct_minmax_sample :: cty where
  "struct_minmax_sample = CStruct ''minmax_sample'' False
     [Field ''t'' u32,
      Field ''v'' u32]"

definition struct_minmax :: cty where
  "struct_minmax = CStruct ''minmax'' False
     [Field ''s'' (CArr 3 struct_minmax_sample)]"

definition struct_tcp_options_received :: cty where
  "struct_tcp_options_received = CStruct ''tcp_options_received'' False
     [Field ''ts_recent_stamp'' c_int,
      Field ''ts_recent'' u32,
      Field ''rcv_tsval'' u32,
      Field ''rcv_tsecr'' u32,
      BitField ''saw_tstamp'' u16 1,
      BitField ''tstamp_ok'' u16 1,
      BitField ''dsack'' u16 1,
      BitField ''wscale_ok'' u16 1,
      BitField ''sack_ok'' u16 3,
      BitField ''smc_ok'' u16 1,
      BitField ''snd_wscale'' u16 4,
      BitField ''rcv_wscale'' u16 4,
      BitField ''accecn'' u8 6,
      BitField ''saw_unknown'' u8 1,
      BitField ''unused'' u8 1,
      Field ''num_sacks'' u8,
      Field ''user_mss'' u16,
      Field ''mss_clamp'' u16]"

definition struct_tcp_rack :: cty where
  "struct_tcp_rack = CStruct ''tcp_rack'' False
     [Field ''mstamp'' u64,
      Field ''rtt_us'' u32,
      Field ''end_seq'' u32,
      Field ''last_delivered'' u32,
      Field ''reo_wnd_steps'' u8,
      BitField ''reo_wnd_persist'' u8 5,
      BitField ''dsack_seen'' u8 1,
      BitField ''advanced'' u8 1]"

definition struct_tcp_sack_block :: cty where
  "struct_tcp_sack_block = CStruct ''tcp_sack_block'' False
     [Field ''start_seq'' u32,
      Field ''end_seq'' u32]"

definition struct_tcp_sock :: cty where
  "struct_tcp_sock = CStruct ''tcp_sock'' False
     [Field ''inet_conn'' struct_inet_connection_sock,
      Field ''__cacheline_group_begin__tcp_sock_read_tx'' (CArr 0 c__u8),
      Field ''max_window'' u32,
      Field ''rcv_ssthresh'' u32,
      Field ''reordering'' u32,
      Field ''notsent_lowat'' u32,
      Field ''gso_segs'' u16,
      Field ''retransmit_skb_hint'' (CPtr ''struct sk_buff''),
      Field ''tcp_clean_acked'' (CPtr ''void (struct sock *, u32)''),
      Field ''__cacheline_group_end__tcp_sock_read_tx'' (CArr 0 c__u8),
      Field ''__cacheline_group_begin__tcp_sock_read_txrx'' (CArr 0 c__u8),
      Field ''tsoffset'' u32,
      Field ''snd_wnd'' u32,
      Field ''mss_cache'' u32,
      Field ''snd_cwnd'' u32,
      Field ''prr_out'' u32,
      Field ''lost_out'' u32,
      Field ''sacked_out'' u32,
      Field ''tcp_header_len'' u16,
      Field ''scaling_ratio'' u8,
      BitField ''repair'' u8 1,
      BitField ''tcp_usec_ts'' u8 1,
      BitField ''is_sack_reneg'' u8 1,
      BitField ''is_cwnd_limited'' u8 1,
      BitField ''recvmsg_inq'' u8 1,
      Field ''__cacheline_group_end__tcp_sock_read_txrx'' (CArr 0 c__u8),
      Field ''__cacheline_group_begin__tcp_sock_read_rx'' (CArr 0 c__u8),
      Field ''copied_seq'' u32,
      Field ''snd_wl1'' u32,
      Field ''tlp_high_seq'' u32,
      Field ''rttvar_us'' u32,
      Field ''retrans_out'' u32,
      Field ''advmss'' u16,
      Field ''urg_data'' u16,
      Field ''lost'' u32,
      Field ''snd_ssthresh'' u32,
      Field ''rtt_min'' struct_minmax,
      Field ''out_of_order_queue'' struct_rb_root,
      Field ''__cacheline_group_end__tcp_sock_read_rx'' (CArr 0 c__u8),
      BitField [] c_long 64,
      BitField [] c_long 64,
      BitField [] c_long 64,
      Field ''__cacheline_group_begin__tcp_sock_write_tx'' (CArr 0 c__u8),
      Field ''segs_out'' u32,
      Field ''data_segs_out'' u32,
      Field ''bytes_sent'' u64,
      Field ''snd_sml'' u32,
      Field ''chrono_type'' u8,
      Field ''chrono_start'' u32,
      Field ''chrono_stat'' (CArr 3 u32),
      Field ''write_seq'' u32,
      Field ''pushed_seq'' u32,
      Field ''lsndtime'' u32,
      Field ''mdev_us'' u32,
      Field ''rtt_seq'' u32,
      Field ''tcp_wstamp_ns'' u64,
      Field ''accecn_opt_tstamp'' u64,
      Field ''tsorted_sent_queue'' struct_list_head,
      Field ''highest_sack'' (CPtr ''struct sk_buff''),
      Field ''ecn_flags'' u8,
      Field ''__cacheline_group_end__tcp_sock_write_tx'' (CArr 0 c__u8),
      Field ''__cacheline_group_begin__tcp_sock_write_txrx'' (CArr 0 c__u8),
      BitField ''nonagle'' u8 4,
      BitField ''rate_app_limited'' u8 1,
      BitField [] short_int 3,
      BitField ''received_ce_pending'' u8 4,
      BitField ''accecn_opt_sent_w_dsack'' u8 1,
      BitField ''unused2'' u8 3,
      BitField ''accecn_minlen'' u8 2,
      BitField ''est_ecnfield'' u8 2,
      BitField ''accecn_opt_demand'' u8 2,
      BitField ''prev_ecnfield'' u8 2,
      Field ''pred_flags'' c__be32,
      Field ''tcp_clock_cache'' u64,
      Field ''tcp_mstamp'' u64,
      Field ''rcv_nxt'' u32,
      Field ''snd_nxt'' u32,
      Field ''snd_una'' u32,
      Field ''window_clamp'' u32,
      Field ''srtt_us'' u32,
      Field ''packets_out'' u32,
      Field ''snd_up'' u32,
      Field ''delivered'' u32,
      Field ''delivered_ce'' u32,
      Field ''received_ce'' u32,
      Field ''received_ecn_bytes'' (CArr 3 u32),
      Field ''app_limited'' u32,
      Field ''rcv_wnd'' u32,
      Field ''rcv_tstamp'' u32,
      Field ''rx_opt'' struct_tcp_options_received,
      Field ''__cacheline_group_end__tcp_sock_write_txrx'' (CArr 0 c__u8),
      Field ''__cacheline_group_begin__tcp_sock_write_rx'' (CArr 0 c__u8),
      Field ''bytes_received'' u64,
      Field ''segs_in'' u32,
      Field ''data_segs_in'' u32,
      Field ''rcv_wup'' u32,
      Field ''max_packets_out'' u32,
      Field ''cwnd_usage_seq'' u32,
      Field ''rate_delivered'' u32,
      Field ''rate_interval_us'' u32,
      Field ''rcv_rtt_last_tsecr'' u32,
      Field ''delivered_ecn_bytes'' (CArr 3 u32),
      Field ''pkts_acked_ewma'' u16,
      Field ''first_tx_mstamp'' u64,
      Field ''delivered_mstamp'' u64,
      Field ''bytes_acked'' u64,
      Field ''rcv_rtt_est'' (CStruct [] False
        [Field ''rtt_us'' u32,
         Field ''seq'' u32,
         Field ''time'' u64]),
      Field ''rcvq_space'' (CStruct [] False
        [Field ''space'' c_int,
         Field ''seq'' u32,
         Field ''time'' u64]),
      Field ''__cacheline_group_end__tcp_sock_write_rx'' (CArr 0 c__u8),
      Field ''dsack_dups'' u32,
      Field ''compressed_ack_rcv_nxt'' u32,
      Field ''tsq_node'' struct_list_head,
      Field ''rack'' struct_tcp_rack,
      Field ''compressed_ack'' u8,
      BitField ''dup_ack_counter'' u8 2,
      BitField ''tlp_retrans'' u8 1,
      BitField ''syn_ect_snt'' u8 2,
      BitField ''syn_ect_rcv'' u8 2,
      BitField ''thin_lto'' u8 1,
      BitField ''fastopen_connect'' u8 1,
      BitField ''fastopen_no_cookie'' u8 1,
      BitField ''fastopen_client_fail'' u8 2,
      BitField ''frto'' u8 1,
      Field ''repair_queue'' u8,
      BitField ''save_syn'' u8 2,
      BitField ''syn_data'' u8 1,
      BitField ''syn_fastopen'' u8 1,
      BitField ''syn_fastopen_exp'' u8 1,
      BitField ''syn_fastopen_ch'' u8 1,
      BitField ''syn_data_acked'' u8 1,
      BitField ''syn_fastopen_child'' u8 1,
      Field ''keepalive_probes'' u8,
      BitField ''accecn_fail_mode'' u8 4,
      BitField ''saw_accecn_opt'' u8 2,
      Field ''tcp_tx_delay'' u32,
      Field ''mdev_max_us'' u32,
      Field ''reord_seen'' u32,
      Field ''snd_cwnd_cnt'' u32,
      Field ''snd_cwnd_clamp'' u32,
      Field ''snd_cwnd_used'' u32,
      Field ''snd_cwnd_stamp'' u32,
      Field ''prior_cwnd'' u32,
      Field ''prr_delivered'' u32,
      Field ''last_oow_ack_time'' u32,
      Field ''pacing_timer'' struct_hrtimer,
      Field ''compressed_ack_timer'' struct_hrtimer,
      Field ''ooo_last_skb'' (CPtr ''struct sk_buff''),
      Field ''duplicate_sack'' (CArr 1 struct_tcp_sack_block),
      Field ''selective_acks'' (CArr 4 struct_tcp_sack_block),
      Field ''recv_sack_cache'' (CArr 4 struct_tcp_sack_block),
      Field ''prior_ssthresh'' u32,
      Field ''high_seq'' u32,
      Field ''retrans_stamp'' u32,
      Field ''undo_marker'' u32,
      Field ''undo_retrans'' c_int,
      Field ''mtu_info'' u32,
      Field ''bytes_retrans'' u64,
      Field ''total_retrans'' u32,
      Field ''rto_stamp'' u32,
      Field ''total_rto'' u16,
      Field ''total_rto_recoveries'' u16,
      Field ''total_rto_time'' u32,
      Field ''urg_seq'' u32,
      Field ''keepalive_time'' unsigned_int,
      Field ''keepalive_intvl'' unsigned_int,
      Field ''linger2'' c_int,
      Field ''bpf_sock_ops_cb_flags'' u8,
      BitField ''bpf_chg_cc_inprogress'' u8 1,
      Field ''timeout_rehash'' u16,
      Field ''rcv_ooopack'' u32,
      Field ''mtu_probe'' (CStruct [] False
        [Field ''probe_seq_start'' u32,
         Field ''probe_seq_end'' u32]),
      Field ''plb_rehash'' u32,
      Field ''is_mptcp'' bool,
      Field ''syn_smc'' bool,
      Field ''smc_hs_congested'' (CPtr ''bool (const struct sock *)''),
      Field ''af_specific'' (CPtr ''const struct tcp_sock_af_ops''),
      Field ''md5sig_info'' (CPtr ''struct tcp_md5sig_info''),
      Field ''ao_info'' (CPtr ''struct tcp_ao_info''),
      Field ''fastopen_req'' (CPtr ''struct tcp_fastopen_request''),
      Field ''fastopen_rsk'' (CPtr ''struct request_sock''),
      Field ''saved_syn'' (CPtr ''struct saved_syn''),
      BitField [] c_long 64,
      BitField [] c_long 64,
      BitField [] c_long 64,
      BitField [] c_long 64,
      BitField [] c_long 64,
      BitField [] c_long 64,
      BitField [] c_long 64]"

definition struct_in6_pktinfo :: cty where
  "struct_in6_pktinfo = CStruct ''in6_pktinfo'' False
     [Field ''ipi6_addr'' struct_in6_addr,
      Field ''ipi6_ifindex'' c_int]"

definition struct_ipv6_pinfo :: cty where
  "struct_ipv6_pinfo = CStruct ''ipv6_pinfo'' False
     [Field ''saddr'' struct_in6_addr,
      Field [] (CUnion [] False
        [Field ''daddr'' struct_in6_addr,
         Field ''final'' struct_in6_addr]),
      Field ''flow_label'' c__be32,
      Field ''dst_cookie'' u32,
      Field ''opt'' (CPtr ''struct ipv6_txoptions''),
      Field ''hop_limit'' s16,
      Field ''pmtudisc'' u8,
      Field ''tclass'' u8,
      Field ''saddr_cache'' bool,
      Field ''daddr_cache'' bool,
      Field ''mcast_hops'' u8,
      Field ''frag_size'' u32,
      Field ''ucast_oif'' c_int,
      Field ''mcast_oif'' c_int,
      Field ''rxopt'' (CUnion [] False
        [Field ''bits'' (CStruct [] False
           [BitField ''srcrt'' u16 1,
            BitField ''osrcrt'' u16 1,
            BitField ''rxinfo'' u16 1,
            BitField ''rxoinfo'' u16 1,
            BitField ''rxhlim'' u16 1,
            BitField ''rxohlim'' u16 1,
            BitField ''hopopts'' u16 1,
            BitField ''ohopopts'' u16 1,
            BitField ''dstopts'' u16 1,
            BitField ''odstopts'' u16 1,
            BitField ''rxflow'' u16 1,
            BitField ''rxtclass'' u16 1,
            BitField ''rxpmtu'' u16 1,
            BitField ''rxorigdstaddr'' u16 1,
            BitField ''recvfragsize'' u16 1]),
         Field ''all'' u16]),
      Field ''srcprefs'' u8,
      Field ''min_hopcount'' u8,
      Field ''rcv_flowinfo'' c__be32,
      Field ''sticky_pktinfo'' struct_in6_pktinfo,
      Field ''pktoptions'' (CPtr ''struct sk_buff''),
      Field ''rxpmtu'' (CPtr ''struct sk_buff''),
      Field ''ipv6_mc_list'' (CPtr ''struct ipv6_mc_socklist''),
      Field ''ipv6_ac_list'' (CPtr ''struct ipv6_ac_socklist'')]"

definition struct_tcp6_sock :: cty where
  "struct_tcp6_sock = CStruct ''tcp6_sock'' False
     [Field ''tcp'' struct_tcp_sock,
      Field ''inet6'' struct_ipv6_pinfo]"

definition struct_inet_timewait_sock :: cty where
  "struct_inet_timewait_sock = CStruct ''inet_timewait_sock'' False
     [Field ''__tw_common'' struct_sock_common,
      Field ''tw_mark'' c__u32,
      Field ''tw_substate'' unsigned_char,
      Field ''tw_rcv_wscale'' unsigned_char,
      Field ''tw_sport'' c__be16,
      BitField ''tw_transparent'' unsigned_int 1,
      BitField ''tw_flowlabel'' unsigned_int 20,
      BitField ''tw_usec_ts'' unsigned_int 1,
      BitField ''tw_connect_bind'' unsigned_int 1,
      BitField ''tw_pad'' unsigned_int 1,
      BitField ''tw_tos'' unsigned_int 8,
      Field ''tw_txhash'' u32,
      Field ''tw_priority'' u32,
      Field ''tw_entry_stamp'' u32,
      Field ''tw_timer'' struct_timer_list,
      Field ''tw_tb'' (CPtr ''struct inet_bind_bucket''),
      Field ''tw_tb2'' (CPtr ''struct inet_bind2_bucket''),
      Field ''psp_assoc'' (CPtr ''struct psp_assoc''),
      Field ''tw_validate_xmit_skb'' (CPtr ''struct sk_buff * (struct sock *, struct net_device *, struct sk_buff *)'')]"

definition struct_tcp_timewait_sock :: cty where
  "struct_tcp_timewait_sock = CStruct ''tcp_timewait_sock'' False
     [Field ''tw_sk'' struct_inet_timewait_sock,
      Field ''tw_rcv_wnd'' u32,
      Field ''tw_ts_offset'' u32,
      Field ''tw_ts_recent'' u32,
      Field ''tw_last_oow_ack_time'' u32,
      Field ''tw_ts_recent_stamp'' c_int,
      Field ''tw_tx_delay'' u32,
      Field ''tw_md5_key'' (CPtr ''struct tcp_md5sig_key''),
      Field ''ao_info'' (CPtr ''struct tcp_ao_info'')]"

definition struct_request_sock :: cty where
  "struct_request_sock = CStruct ''request_sock'' False
     [Field ''__req_common'' struct_sock_common,
      Field ''dl_next'' (CPtr ''struct request_sock''),
      Field ''mss'' u16,
      Field ''num_retrans'' u8,
      BitField ''syncookie'' u8 1,
      BitField ''num_timeout'' u8 7,
      Field ''ts_recent'' u32,
      Field ''rsk_timer'' struct_timer_list,
      Field ''rsk_ops'' (CPtr ''const struct request_sock_ops''),
      Field ''sk'' (CPtr ''struct sock''),
      Field ''saved_syn'' (CPtr ''struct saved_syn''),
      Field ''secid'' u32,
      Field ''peer_secid'' u32,
      Field ''timeout'' u32]"

definition struct_inet_request_sock :: cty where
  "struct_inet_request_sock = CStruct ''inet_request_sock'' False
     [Field ''req'' struct_request_sock,
      BitField ''snd_wscale'' u16 4,
      BitField ''rcv_wscale'' u16 4,
      BitField ''tstamp_ok'' u16 1,
      BitField ''sack_ok'' u16 1,
      BitField ''wscale_ok'' u16 1,
      BitField ''ecn_ok'' u16 1,
      BitField ''acked'' u16 1,
      BitField ''no_srccheck'' u16 1,
      BitField ''smc_ok'' u16 1,
      Field ''ir_mark'' u32,
      Field [] (CUnion [] False
        [Field ''ireq_opt'' (CPtr ''struct ip_options_rcu''),
         Field [] (CStruct [] False
           [Field ''ipv6_opt'' (CPtr ''struct ipv6_txoptions''),
            Field ''pktopts'' (CPtr ''struct sk_buff'')])])]"

definition struct_tcp_request_sock :: cty where
  "struct_tcp_request_sock = CStruct ''tcp_request_sock'' False
     [Field ''req'' struct_inet_request_sock,
      Field ''af_specific'' (CPtr ''const struct tcp_request_sock_ops''),
      Field ''snt_synack'' u64,
      Field ''tfo_listener'' bool,
      Field ''is_mptcp'' bool,
      Field ''req_usec_ts'' bool,
      Field ''drop_req'' bool,
      Field ''txhash'' u32,
      Field ''rcv_isn'' u32,
      Field ''snt_isn'' u32,
      Field ''ts_off'' u32,
      Field ''snt_tsval_first'' u32,
      Field ''snt_tsval_last'' u32,
      Field ''last_oow_ack_time'' u32,
      Field ''rcv_nxt'' u32,
      Field ''syn_tos'' u8,
      Field ''accecn_ok'' bool,
      BitField ''syn_ect_snt'' u8 2,
      BitField ''syn_ect_rcv'' u8 2,
      BitField ''accecn_fail_mode'' u8 4,
      BitField ''saw_accecn_opt'' u8 2,
      Field ''ao_keyid'' u8,
      Field ''ao_rcv_next'' u8,
      Field ''used_tcp_ao'' bool]"

definition struct_udp_sock :: cty where
  "struct_udp_sock = CStruct ''udp_sock'' False
     [Field ''inet'' struct_inet_sock,
      Field ''udp_flags'' long_unsigned_int,
      Field ''pending'' c_int,
      Field ''encap_type'' c__u8,
      Field ''udp_lrpa_hash'' c__u16,
      Field ''udp_lrpa_node'' struct_hlist_nulls_node,
      Field ''len'' c__u16,
      Field ''gso_size'' c__u16,
      Field ''pcslen'' c__u16,
      Field ''pcrlen'' c__u16,
      Field ''encap_rcv'' (CPtr ''int (struct sock *, struct sk_buff *)''),
      Field ''encap_err_rcv'' (CPtr ''void (struct sock *, struct sk_buff *, int, __be16, u32, u8 *)''),
      Field ''encap_err_lookup'' (CPtr ''int (struct sock *, struct sk_buff *)''),
      Field ''encap_destroy'' (CPtr ''void (struct sock *)''),
      Field ''gro_receive'' (CPtr ''struct sk_buff * (struct sock *, struct list_head *, struct sk_buff *)''),
      Field ''gro_complete'' (CPtr ''int (struct sock *, struct sk_buff *, int)''),
      Field ''udp_prod_queue'' (CPtr ''struct udp_prod_queue''),
      Field ''reader_queue'' struct_sk_buff_head,
      Field ''forward_deficit'' c_int,
      Field ''forward_threshold'' c_int,
      Field ''peeking_with_offset'' bool,
      Field ''tunnel_list'' struct_hlist_node,
      BitField [] c_long 64,
      Field ''drop_counters'' struct_numa_drop_counters]"

definition struct_udp6_sock :: cty where
  "struct_udp6_sock = CStruct ''udp6_sock'' False
     [Field ''udp'' struct_udp_sock,
      Field ''inet6'' struct_ipv6_pinfo]"

definition struct_scm_stat :: cty where
  "struct_scm_stat = CStruct ''scm_stat'' False
     [Field ''nr_fds'' atomic_t,
      Field ''nr_unix_fds'' long_unsigned_int]"

definition struct_unix_sock :: cty where
  "struct_unix_sock = CStruct ''unix_sock'' False
     [Field ''sk'' struct_sock,
      Field ''addr'' (CPtr ''struct unix_address''),
      Field ''path'' struct_path,
      Field ''iolock'' struct_mutex,
      Field ''bindlock'' struct_mutex,
      Field ''peer'' (CPtr ''struct sock''),
      Field ''listener'' (CPtr ''struct sock''),
      Field ''vertex'' (CPtr ''struct unix_vertex''),
      Field ''lock'' spinlock_t,
      BitField [] c_long 64,
      BitField [] c_long 64,
      BitField [] c_long 64,
      BitField [] c_long 64,
      Field ''peer_wq'' struct_socket_wq,
      Field ''peer_wake'' wait_queue_entry_t,
      Field ''scm_stat'' struct_scm_stat,
      Field ''inq_len'' c_int,
      Field ''recvmsg_inq'' bool,
      Field ''oob_skb'' (CPtr ''struct sk_buff''),
      BitField [] c_long 64,
      BitField [] c_long 64,
      BitField [] c_long 64,
      BitField [] c_long 64,
      BitField [] c_long 64,
      BitField [] c_long 64,
      BitField [] c_long 64]"

definition struct___sk_buff :: cty where
  "struct___sk_buff = CStruct ''__sk_buff'' False
     [Field ''len'' c__u32,
      Field ''pkt_type'' c__u32,
      Field ''mark'' c__u32,
      Field ''queue_mapping'' c__u32,
      Field ''protocol'' c__u32,
      Field ''vlan_present'' c__u32,
      Field ''vlan_tci'' c__u32,
      Field ''vlan_proto'' c__u32,
      Field ''priority'' c__u32,
      Field ''ingress_ifindex'' c__u32,
      Field ''ifindex'' c__u32,
      Field ''tc_index'' c__u32,
      Field ''cb'' (CArr 5 c__u32),
      Field ''hash'' c__u32,
      Field ''tc_classid'' c__u32,
      Field ''data'' c__u32,
      Field ''data_end'' c__u32,
      Field ''napi_id'' c__u32,
      Field ''family'' c__u32,
      Field ''remote_ip4'' c__u32,
      Field ''local_ip4'' c__u32,
      Field ''remote_ip6'' (CArr 4 c__u32),
      Field ''local_ip6'' (CArr 4 c__u32),
      Field ''remote_port'' c__u32,
      Field ''local_port'' c__u32,
      Field ''data_meta'' c__u32,
      Field [] (CUnion [] False
        [Field ''flow_keys'' (CPtr ''struct bpf_flow_keys'')]),
      Field ''tstamp'' c__u64,
      Field ''wire_len'' c__u32,
      Field ''gso_segs'' c__u32,
      Field [] (CUnion [] False
        [Field ''sk'' (CPtr ''struct bpf_sock'')]),
      Field ''gso_size'' c__u32,
      Field ''tstamp_type'' c__u8,
      Field ''hwtstamp'' c__u64]"

definition struct_sk_msg_md :: cty where
  "struct_sk_msg_md = CStruct ''sk_msg_md'' False
     [Field [] (CUnion [] False
        [Field ''data'' (CPtr ''void'')]),
      Field [] (CUnion [] False
        [Field ''data_end'' (CPtr ''void'')]),
      Field ''family'' c__u32,
      Field ''remote_ip4'' c__u32,
      Field ''local_ip4'' c__u32,
      Field ''remote_ip6'' (CArr 4 c__u32),
      Field ''local_ip6'' (CArr 4 c__u32),
      Field ''remote_port'' c__u32,
      Field ''local_port'' c__u32,
      Field ''size'' c__u32,
      Field [] (CUnion [] False
        [Field ''sk'' (CPtr ''struct bpf_sock'')])]"

definition struct_xdp_md :: cty where
  "struct_xdp_md = CStruct ''xdp_md'' False
     [Field ''data'' c__u32,
      Field ''data_end'' c__u32,
      Field ''data_meta'' c__u32,
      Field ''ingress_ifindex'' c__u32,
      Field ''rx_queue_index'' c__u32,
      Field ''egress_ifindex'' c__u32]"

definition struct_btf_ptr :: cty where
  "struct_btf_ptr = CStruct ''btf_ptr'' False
     [Field ''ptr'' (CPtr ''void''),
      Field ''type_id'' c__u32,
      Field ''flags'' c__u32]"

definition struct_in_addr :: cty where
  "struct_in_addr = CStruct ''in_addr'' False
     [Field ''s_addr'' c__be32]"

definition struct_mptcp_addr_info :: cty where
  "struct_mptcp_addr_info = CStruct ''mptcp_addr_info'' False
     [Field ''id'' u8,
      Field ''family'' sa_family_t,
      Field ''port'' c__be16,
      Field [] (CUnion [] False
        [Field ''addr'' struct_in_addr,
         Field ''addr6'' struct_in6_addr])]"

definition struct_mptcp_rm_list :: cty where
  "struct_mptcp_rm_list = CStruct ''mptcp_rm_list'' False
     [Field ''ids'' (CArr 8 u8),
      Field ''nr'' u8]"

definition struct_mptcp_pm_data :: cty where
  "struct_mptcp_pm_data = CStruct ''mptcp_pm_data'' False
     [Field ''local'' struct_mptcp_addr_info,
      Field ''remote'' struct_mptcp_addr_info,
      Field ''anno_list'' struct_list_head,
      Field ''userspace_pm_local_addr_list'' struct_list_head,
      Field ''lock'' spinlock_t,
      Field [] (CUnion [] False
        [Field [] (CStruct [] False
           [Field ''addr_signal'' u8,
            Field ''server_side'' bool,
            Field ''work_pending'' bool,
            Field ''accept_addr'' bool,
            Field ''accept_subflow'' bool,
            Field ''remote_deny_join_id0'' bool,
            Field ''add_addr_signaled'' u8,
            Field ''add_addr_accepted'' u8,
            Field ''local_addr_used'' u8,
            Field ''pm_type'' u8,
            Field ''extra_subflows'' u8,
            Field ''status'' u8]),
         Field ''reset'' (CStruct [] False
           [Field ''addr_signal'' u8,
            Field ''server_side'' bool,
            Field ''work_pending'' bool,
            Field ''accept_addr'' bool,
            Field ''accept_subflow'' bool,
            Field ''remote_deny_join_id0'' bool,
            Field ''add_addr_signaled'' u8,
            Field ''add_addr_accepted'' u8,
            Field ''local_addr_used'' u8,
            Field ''pm_type'' u8,
            Field ''extra_subflows'' u8,
            Field ''status'' u8])]),
      Field ''id_avail_bitmap'' (CArr 4 long_unsigned_int),
      Field ''rm_list_tx'' struct_mptcp_rm_list,
      Field ''rm_list_rx'' struct_mptcp_rm_list]"

section \<open>Sizes and alignments\<close>

lemma struct_bpf_fib_lookup_layout [layout_simps]:
  "sizeof struct_bpf_fib_lookup = 64 \<and> alignof struct_bpf_fib_lookup = 4 \<and> wf_cty struct_bpf_fib_lookup"
  by (simp add: struct_bpf_fib_lookup_def base_types layout_eval c__u8_def c__be16_def c__u16_def c__u32_def c__be32_def
      del: One_nat_def)

lemma struct_bpf_sk_lookup_layout [layout_simps]:
  "sizeof struct_bpf_sk_lookup = 72 \<and> alignof struct_bpf_sk_lookup = 8 \<and> wf_cty struct_bpf_sk_lookup"
  by (simp add: struct_bpf_sk_lookup_def base_types layout_eval c__u64_def c__u32_def c__be16_def c__u16_def
      del: One_nat_def)

lemma struct_bpf_perf_event_value_layout [layout_simps]:
  "sizeof struct_bpf_perf_event_value = 24 \<and> alignof struct_bpf_perf_event_value = 8 \<and> wf_cty struct_bpf_perf_event_value"
  by (simp add: struct_bpf_perf_event_value_def base_types layout_eval c__u64_def
      del: One_nat_def)

lemma struct_bpf_pidns_info_layout [layout_simps]:
  "sizeof struct_bpf_pidns_info = 8 \<and> alignof struct_bpf_pidns_info = 4 \<and> wf_cty struct_bpf_pidns_info"
  by (simp add: struct_bpf_pidns_info_def base_types layout_eval c__u32_def
      del: One_nat_def)

lemma struct_bpf_redir_neigh_layout [layout_simps]:
  "sizeof struct_bpf_redir_neigh = 20 \<and> alignof struct_bpf_redir_neigh = 4 \<and> wf_cty struct_bpf_redir_neigh"
  by (simp add: struct_bpf_redir_neigh_def base_types layout_eval c__u32_def c__be32_def
      del: One_nat_def)

lemma struct_bpf_sock_layout [layout_simps]:
  "sizeof struct_bpf_sock = 80 \<and> alignof struct_bpf_sock = 4 \<and> wf_cty struct_bpf_sock"
  by (simp add: struct_bpf_sock_def base_types layout_eval c__u32_def c__be16_def c__u16_def c__s32_def
      del: One_nat_def)

lemma struct_bpf_sock_addr_layout [layout_simps]:
  "sizeof struct_bpf_sock_addr = 72 \<and> alignof struct_bpf_sock_addr = 8 \<and> wf_cty struct_bpf_sock_addr"
  by (simp add: struct_bpf_sock_addr_def base_types layout_eval c__u32_def
      del: One_nat_def)

lemma struct_bpf_sock_ops_layout [layout_simps]:
  "sizeof struct_bpf_sock_ops = 224 \<and> alignof struct_bpf_sock_ops = 8 \<and> wf_cty struct_bpf_sock_ops"
  by (simp add: struct_bpf_sock_ops_def base_types layout_eval c__u32_def c__u64_def
      del: One_nat_def)

lemma struct_bpf_sock_tuple_layout [layout_simps]:
  "sizeof struct_bpf_sock_tuple = 36 \<and> alignof struct_bpf_sock_tuple = 4 \<and> wf_cty struct_bpf_sock_tuple"
  by (simp add: struct_bpf_sock_tuple_def base_types layout_eval c__be32_def c__u32_def c__be16_def c__u16_def
      del: One_nat_def)

lemma struct_bpf_sysctl_layout [layout_simps]:
  "sizeof struct_bpf_sysctl = 8 \<and> alignof struct_bpf_sysctl = 4 \<and> wf_cty struct_bpf_sysctl"
  by (simp add: struct_bpf_sysctl_def base_types layout_eval c__u32_def
      del: One_nat_def)

lemma struct_bpf_tcp_sock_layout [layout_simps]:
  "sizeof struct_bpf_tcp_sock = 112 \<and> alignof struct_bpf_tcp_sock = 8 \<and> wf_cty struct_bpf_tcp_sock"
  by (simp add: struct_bpf_tcp_sock_def base_types layout_eval c__u32_def c__u64_def
      del: One_nat_def)

lemma struct_bpf_tunnel_key_layout [layout_simps]:
  "sizeof struct_bpf_tunnel_key = 44 \<and> alignof struct_bpf_tunnel_key = 4 \<and> wf_cty struct_bpf_tunnel_key"
  by (simp add: struct_bpf_tunnel_key_def base_types layout_eval c__u32_def c__u8_def c__u16_def c__be16_def
      del: One_nat_def)

lemma struct_bpf_xfrm_state_layout [layout_simps]:
  "sizeof struct_bpf_xfrm_state = 28 \<and> alignof struct_bpf_xfrm_state = 4 \<and> wf_cty struct_bpf_xfrm_state"
  by (simp add: struct_bpf_xfrm_state_def base_types layout_eval c__u32_def c__u16_def
      del: One_nat_def)

lemma struct_linux_binprm_layout [layout_simps]:
  "sizeof struct_linux_binprm = 408 \<and> alignof struct_linux_binprm = 8 \<and> wf_cty struct_linux_binprm"
  by (simp add: struct_linux_binprm_def base_types layout_eval struct_rlimit_layout
      del: One_nat_def)

lemma struct_sk_reuseport_md_layout [layout_simps]:
  "sizeof struct_sk_reuseport_md = 56 \<and> alignof struct_sk_reuseport_md = 8 \<and> wf_cty struct_sk_reuseport_md"
  by (simp add: struct_sk_reuseport_md_def base_types layout_eval c__u32_def
      del: One_nat_def)

lemma struct_sockaddr_layout [layout_simps]:
  "sizeof struct_sockaddr = 16 \<and> alignof struct_sockaddr = 2 \<and> wf_cty struct_sockaddr"
  by (simp add: struct_sockaddr_def base_types layout_eval sa_family_t_def c__kernel_sa_family_t_def
      del: One_nat_def)

lemma struct_tcphdr_layout [layout_simps]:
  "sizeof struct_tcphdr = 20 \<and> alignof struct_tcphdr = 4 \<and> wf_cty struct_tcphdr"
  by (simp add: struct_tcphdr_def base_types layout_eval c__be16_def c__u16_def c__be32_def c__u32_def c__sum16_def
      del: One_nat_def)

lemma struct_seq_file_layout [layout_simps]:
  "sizeof struct_seq_file = 120 \<and> alignof struct_seq_file = 8 \<and> wf_cty struct_seq_file"
  by (simp add: struct_seq_file_def base_types layout_eval size_t_def c__kernel_size_t_def c__kernel_ulong_t_def
      loff_t_def c__kernel_loff_t_def struct_mutex_layout
      del: One_nat_def)

lemma struct_inet_cork_layout [layout_simps]:
  "sizeof struct_inet_cork = 64 \<and> alignof struct_inet_cork = 8 \<and> wf_cty struct_inet_cork"
  by (simp add: struct_inet_cork_def base_types layout_eval c__be32_def c__u32_def u8_def c__u8_def c__s16_def u32_def
      c__u16_def u64_def c__u64_def
      del: One_nat_def)

lemma struct_flowi_tunnel_layout [layout_simps]:
  "sizeof struct_flowi_tunnel = 8 \<and> alignof struct_flowi_tunnel = 8 \<and> wf_cty struct_flowi_tunnel"
  by (simp add: struct_flowi_tunnel_def base_types layout_eval c__be64_def c__u64_def
      del: One_nat_def)

lemma struct_flowi_common_layout [layout_simps]:
  "sizeof struct_flowi_common = 40 \<and> alignof struct_flowi_common = 8 \<and> wf_cty struct_flowi_common"
  by (simp add: struct_flowi_common_def base_types layout_eval c__u32_def dscp_t_def u8_def c__u8_def kuid_t_layout
      struct_flowi_tunnel_layout
      del: One_nat_def)

lemma union_flowi_uli_layout [layout_simps]:
  "sizeof union_flowi_uli = 4 \<and> alignof union_flowi_uli = 4 \<and> wf_cty union_flowi_uli"
  by (simp add: union_flowi_uli_def base_types layout_eval c__be16_def c__u16_def c__u8_def c__be32_def c__u32_def
      del: One_nat_def)

lemma struct_flowi4_layout [layout_simps]:
  "sizeof struct_flowi4 = 56 \<and> alignof struct_flowi4 = 8 \<and> wf_cty struct_flowi4"
  by (simp add: struct_flowi4_def base_types layout_eval struct_flowi_common_layout c__be32_def c__u32_def
      union_flowi_uli_layout
      del: One_nat_def)

lemma struct_flowi6_layout [layout_simps]:
  "sizeof struct_flowi6 = 88 \<and> alignof struct_flowi6 = 8 \<and> wf_cty struct_flowi6"
  by (simp add: struct_flowi6_def base_types layout_eval struct_flowi_common_layout struct_in6_addr_layout c__be32_def
      c__u32_def union_flowi_uli_layout
      del: One_nat_def)

lemma struct_flowi_layout [layout_simps]:
  "sizeof struct_flowi = 88 \<and> alignof struct_flowi = 8 \<and> wf_cty struct_flowi"
  by (simp add: struct_flowi_def base_types layout_eval struct_flowi_common_layout struct_flowi4_layout
      struct_flowi6_layout
      del: One_nat_def)

lemma struct_inet6_cork_layout [layout_simps]:
  "sizeof struct_inet6_cork = 16 \<and> alignof struct_inet6_cork = 8 \<and> wf_cty struct_inet6_cork"
  by (simp add: struct_inet6_cork_def base_types layout_eval u8_def c__u8_def
      del: One_nat_def)

lemma struct_inet_cork_full_layout [layout_simps]:
  "sizeof struct_inet_cork_full = 168 \<and> alignof struct_inet_cork_full = 8 \<and> wf_cty struct_inet_cork_full"
  by (simp add: struct_inet_cork_full_def base_types layout_eval struct_inet_cork_layout struct_flowi_layout
      struct_inet6_cork_layout
      del: One_nat_def)

lemma struct_inet_sock_layout [layout_simps]:
  "sizeof struct_inet_sock = 1056 \<and> alignof struct_inet_sock = 8 \<and> wf_cty struct_inet_sock"
  by (simp add: struct_inet_sock_def base_types layout_eval struct_sock_layout c__be32_def c__u32_def c__s16_def
      c__be16_def c__u16_def atomic_t_layout c__u8_def u32_def struct_inet_cork_full_layout
      del: One_nat_def)

lemma struct_fastopen_queue_layout [layout_simps]:
  "sizeof struct_fastopen_queue = 40 \<and> alignof struct_fastopen_queue = 8 \<and> wf_cty struct_fastopen_queue"
  by (simp add: struct_fastopen_queue_def base_types layout_eval spinlock_t_def struct_spinlock_layout
      del: One_nat_def)

lemma struct_request_sock_queue_layout [layout_simps]:
  "sizeof struct_request_sock_queue = 72 \<and> alignof struct_request_sock_queue = 8 \<and> wf_cty struct_request_sock_queue"
  by (simp add: struct_request_sock_queue_def base_types layout_eval spinlock_t_def struct_spinlock_layout u8_def
      c__u8_def atomic_t_layout struct_fastopen_queue_layout
      del: One_nat_def)

lemma struct_inet_connection_sock_layout [layout_simps]:
  "sizeof struct_inet_connection_sock = 1440 \<and> alignof struct_inet_connection_sock = 8 \<and> wf_cty struct_inet_connection_sock"
  by (simp add: struct_inet_connection_sock_def base_types layout_eval struct_inet_sock_layout
      struct_request_sock_queue_layout struct_timer_list_layout c__u32_def u32_def c__u8_def c__u16_def
      u64_def c__u64_def
      del: One_nat_def)

lemma struct_minmax_sample_layout [layout_simps]:
  "sizeof struct_minmax_sample = 8 \<and> alignof struct_minmax_sample = 4 \<and> wf_cty struct_minmax_sample"
  by (simp add: struct_minmax_sample_def base_types layout_eval u32_def c__u32_def
      del: One_nat_def)

lemma struct_minmax_layout [layout_simps]:
  "sizeof struct_minmax = 24 \<and> alignof struct_minmax = 4 \<and> wf_cty struct_minmax"
  by (simp add: struct_minmax_def base_types layout_eval struct_minmax_sample_layout
      del: One_nat_def)

lemma struct_tcp_options_received_layout [layout_simps]:
  "sizeof struct_tcp_options_received = 24 \<and> alignof struct_tcp_options_received = 4 \<and> wf_cty struct_tcp_options_received"
  by (simp add: struct_tcp_options_received_def base_types layout_eval u32_def c__u32_def u16_def c__u16_def u8_def
      c__u8_def
      del: One_nat_def)

lemma struct_tcp_rack_layout [layout_simps]:
  "sizeof struct_tcp_rack = 24 \<and> alignof struct_tcp_rack = 8 \<and> wf_cty struct_tcp_rack"
  by (simp add: struct_tcp_rack_def base_types layout_eval u64_def c__u64_def u32_def c__u32_def u8_def c__u8_def
      del: One_nat_def)

lemma struct_tcp_sack_block_layout [layout_simps]:
  "sizeof struct_tcp_sack_block = 8 \<and> alignof struct_tcp_sack_block = 4 \<and> wf_cty struct_tcp_sack_block"
  by (simp add: struct_tcp_sack_block_def base_types layout_eval u32_def c__u32_def
      del: One_nat_def)

lemma struct_tcp_sock_layout [layout_simps]:
  "sizeof struct_tcp_sock = 2432 \<and> alignof struct_tcp_sock = 8 \<and> wf_cty struct_tcp_sock"
  by (simp add: struct_tcp_sock_def base_types layout_eval struct_inet_connection_sock_layout c__u8_def u32_def
      c__u32_def u16_def c__u16_def u8_def struct_minmax_layout struct_rb_root_layout u64_def c__u64_def
      struct_list_head_layout c__be32_def struct_tcp_options_received_layout struct_tcp_rack_layout
      struct_hrtimer_layout struct_tcp_sack_block_layout bool_def
      del: One_nat_def)

lemma struct_in6_pktinfo_layout [layout_simps]:
  "sizeof struct_in6_pktinfo = 20 \<and> alignof struct_in6_pktinfo = 4 \<and> wf_cty struct_in6_pktinfo"
  by (simp add: struct_in6_pktinfo_def base_types layout_eval struct_in6_addr_layout
      del: One_nat_def)

lemma struct_ipv6_pinfo_layout [layout_simps]:
  "sizeof struct_ipv6_pinfo = 128 \<and> alignof struct_ipv6_pinfo = 8 \<and> wf_cty struct_ipv6_pinfo"
  by (simp add: struct_ipv6_pinfo_def base_types layout_eval struct_in6_addr_layout c__be32_def c__u32_def u32_def
      s16_def c__s16_def u8_def c__u8_def bool_def u16_def c__u16_def struct_in6_pktinfo_layout
      del: One_nat_def)

lemma struct_tcp6_sock_layout [layout_simps]:
  "sizeof struct_tcp6_sock = 2560 \<and> alignof struct_tcp6_sock = 8 \<and> wf_cty struct_tcp6_sock"
  by (simp add: struct_tcp6_sock_def base_types layout_eval struct_tcp_sock_layout struct_ipv6_pinfo_layout
      del: One_nat_def)

lemma struct_inet_timewait_sock_layout [layout_simps]:
  "sizeof struct_inet_timewait_sock = 232 \<and> alignof struct_inet_timewait_sock = 8 \<and> wf_cty struct_inet_timewait_sock"
  by (simp add: struct_inet_timewait_sock_def base_types layout_eval struct_sock_common_layout c__u32_def c__be16_def
      c__u16_def u32_def struct_timer_list_layout
      del: One_nat_def)

lemma struct_tcp_timewait_sock_layout [layout_simps]:
  "sizeof struct_tcp_timewait_sock = 272 \<and> alignof struct_tcp_timewait_sock = 8 \<and> wf_cty struct_tcp_timewait_sock"
  by (simp add: struct_tcp_timewait_sock_def base_types layout_eval struct_inet_timewait_sock_layout u32_def c__u32_def
      del: One_nat_def)

lemma struct_request_sock_layout [layout_simps]:
  "sizeof struct_request_sock = 232 \<and> alignof struct_request_sock = 8 \<and> wf_cty struct_request_sock"
  by (simp add: struct_request_sock_def base_types layout_eval struct_sock_common_layout u16_def c__u16_def u8_def
      c__u8_def u32_def c__u32_def struct_timer_list_layout
      del: One_nat_def)

lemma struct_inet_request_sock_layout [layout_simps]:
  "sizeof struct_inet_request_sock = 256 \<and> alignof struct_inet_request_sock = 8 \<and> wf_cty struct_inet_request_sock"
  by (simp add: struct_inet_request_sock_def base_types layout_eval struct_request_sock_layout u16_def c__u16_def u32_def
      c__u32_def
      del: One_nat_def)

lemma struct_tcp_request_sock_layout [layout_simps]:
  "sizeof struct_tcp_request_sock = 320 \<and> alignof struct_tcp_request_sock = 8 \<and> wf_cty struct_tcp_request_sock"
  by (simp add: struct_tcp_request_sock_def base_types layout_eval struct_inet_request_sock_layout u64_def c__u64_def
      bool_def u32_def c__u32_def u8_def c__u8_def
      del: One_nat_def)

lemma struct_udp_sock_layout [layout_simps]:
  "sizeof struct_udp_sock = 1344 \<and> alignof struct_udp_sock = 8 \<and> wf_cty struct_udp_sock"
  by (simp add: struct_udp_sock_def base_types layout_eval struct_inet_sock_layout c__u8_def c__u16_def
      struct_hlist_nulls_node_layout struct_sk_buff_head_layout bool_def struct_hlist_node_layout
      struct_numa_drop_counters_layout
      del: One_nat_def)

lemma struct_udp6_sock_layout [layout_simps]:
  "sizeof struct_udp6_sock = 1472 \<and> alignof struct_udp6_sock = 8 \<and> wf_cty struct_udp6_sock"
  by (simp add: struct_udp6_sock_def base_types layout_eval struct_udp_sock_layout struct_ipv6_pinfo_layout
      del: One_nat_def)

lemma struct_scm_stat_layout [layout_simps]:
  "sizeof struct_scm_stat = 16 \<and> alignof struct_scm_stat = 8 \<and> wf_cty struct_scm_stat"
  by (simp add: struct_scm_stat_def base_types layout_eval atomic_t_layout
      del: One_nat_def)

lemma struct_unix_sock_layout [layout_simps]:
  "sizeof struct_unix_sock = 1152 \<and> alignof struct_unix_sock = 8 \<and> wf_cty struct_unix_sock"
  by (simp add: struct_unix_sock_def base_types layout_eval struct_sock_layout struct_path_layout struct_mutex_layout
      spinlock_t_def struct_spinlock_layout struct_socket_wq_layout wait_queue_entry_t_def
      struct_wait_queue_entry_layout struct_scm_stat_layout bool_def
      del: One_nat_def)

lemma struct___sk_buff_layout [layout_simps]:
  "sizeof struct___sk_buff = 192 \<and> alignof struct___sk_buff = 8 \<and> wf_cty struct___sk_buff"
  by (simp add: struct___sk_buff_def base_types layout_eval c__u32_def c__u64_def c__u8_def
      del: One_nat_def)

lemma struct_sk_msg_md_layout [layout_simps]:
  "sizeof struct_sk_msg_md = 80 \<and> alignof struct_sk_msg_md = 8 \<and> wf_cty struct_sk_msg_md"
  by (simp add: struct_sk_msg_md_def base_types layout_eval c__u32_def
      del: One_nat_def)

lemma struct_xdp_md_layout [layout_simps]:
  "sizeof struct_xdp_md = 24 \<and> alignof struct_xdp_md = 4 \<and> wf_cty struct_xdp_md"
  by (simp add: struct_xdp_md_def base_types layout_eval c__u32_def
      del: One_nat_def)

lemma struct_btf_ptr_layout [layout_simps]:
  "sizeof struct_btf_ptr = 16 \<and> alignof struct_btf_ptr = 8 \<and> wf_cty struct_btf_ptr"
  by (simp add: struct_btf_ptr_def base_types layout_eval c__u32_def
      del: One_nat_def)

lemma struct_in_addr_layout [layout_simps]:
  "sizeof struct_in_addr = 4 \<and> alignof struct_in_addr = 4 \<and> wf_cty struct_in_addr"
  by (simp add: struct_in_addr_def base_types layout_eval c__be32_def c__u32_def
      del: One_nat_def)

lemma struct_mptcp_addr_info_layout [layout_simps]:
  "sizeof struct_mptcp_addr_info = 24 \<and> alignof struct_mptcp_addr_info = 4 \<and> wf_cty struct_mptcp_addr_info"
  by (simp add: struct_mptcp_addr_info_def base_types layout_eval u8_def c__u8_def sa_family_t_def
      c__kernel_sa_family_t_def c__be16_def c__u16_def struct_in_addr_layout struct_in6_addr_layout
      del: One_nat_def)

lemma struct_mptcp_rm_list_layout [layout_simps]:
  "sizeof struct_mptcp_rm_list = 9 \<and> alignof struct_mptcp_rm_list = 1 \<and> wf_cty struct_mptcp_rm_list"
  by (simp add: struct_mptcp_rm_list_def base_types layout_eval u8_def c__u8_def
      del: One_nat_def)

lemma struct_mptcp_pm_data_layout [layout_simps]:
  "sizeof struct_mptcp_pm_data = 152 \<and> alignof struct_mptcp_pm_data = 8 \<and> wf_cty struct_mptcp_pm_data"
  by (simp add: struct_mptcp_pm_data_def base_types layout_eval struct_mptcp_addr_info_layout struct_list_head_layout
      spinlock_t_def struct_spinlock_layout u8_def c__u8_def bool_def struct_mptcp_rm_list_layout
      del: One_nat_def)

end
