(* ===== verification/KernelHelpers2.thy ===== *)
theory KernelHelpers2
  imports KernelHelpers1
begin

text \<open>
  Types of \<^verbatim>\<open>bpf/vmlinux.h\<close> that the signatures of the helpers in \<^verbatim>\<open>bpf/bpf/bpf_helper_defs.h\<close> name, with the
  types they hold by value or reach through pointers (part 2 of 2).
\<close>

section \<open>Types\<close>

definition struct_mptcp_sock :: cty where
  "struct_mptcp_sock = CStruct ''mptcp_sock'' False
     [Field ''sk'' struct_inet_connection_sock,
      Field ''local_key'' u64,
      Field ''remote_key'' u64,
      Field ''write_seq'' u64,
      Field ''bytes_sent'' u64,
      Field ''snd_nxt'' u64,
      Field ''bytes_received'' u64,
      Field ''ack_seq'' u64,
      Field ''rcv_wnd_sent'' atomic64_t,
      Field ''rcv_data_fin_seq'' u64,
      Field ''bytes_retrans'' u64,
      Field ''bytes_consumed'' u64,
      Field ''snd_burst'' c_int,
      Field ''old_wspace'' c_int,
      Field ''recovery_snd_nxt'' u64,
      Field ''bytes_acked'' u64,
      Field ''snd_una'' u64,
      Field ''wnd_end'' u64,
      Field ''last_data_sent'' u32,
      Field ''last_data_recv'' u32,
      Field ''last_ack_recv'' u32,
      Field ''timer_ival'' long_unsigned_int,
      Field ''token'' u32,
      Field ''flags'' long_unsigned_int,
      Field ''cb_flags'' long_unsigned_int,
      Field ''recovery'' bool,
      Field ''can_ack'' bool,
      Field ''fully_established'' bool,
      Field ''rcv_data_fin'' bool,
      Field ''snd_data_fin_enable'' bool,
      Field ''rcv_fastclose'' bool,
      Field ''use_64bit_ack'' bool,
      Field ''csum_enabled'' bool,
      Field ''allow_infinite_fallback'' bool,
      Field ''pending_state'' u8,
      Field ''mpc_endpoint_id'' u8,
      BitField ''recvmsg_inq'' u8 1,
      BitField ''cork'' u8 1,
      BitField ''nodelay'' u8 1,
      BitField ''fastopening'' u8 1,
      BitField ''in_accept_queue'' u8 1,
      BitField ''free_first'' u8 1,
      BitField ''rcvspace_init'' u8 1,
      BitField ''fastclosing'' u8 1,
      Field ''notsent_lowat'' u32,
      Field ''keepalive_cnt'' c_int,
      Field ''keepalive_idle'' c_int,
      Field ''keepalive_intvl'' c_int,
      Field ''maxseg'' c_int,
      Field ''work'' struct_work_struct,
      Field ''ooo_last_skb'' (CPtr ''struct sk_buff''),
      Field ''out_of_order_queue'' struct_rb_root,
      Field ''conn_list'' struct_list_head,
      Field ''rtx_queue'' struct_list_head,
      Field ''first_pending'' (CPtr ''struct mptcp_data_frag''),
      Field ''join_list'' struct_list_head,
      Field ''first'' (CPtr ''struct sock''),
      Field ''pm'' struct_mptcp_pm_data,
      Field ''sched'' (CPtr ''struct mptcp_sched_ops''),
      Field ''rcv_rtt_est'' (CStruct [] False
        [Field ''samples'' (CArr 5 u32),
         Field ''next_sample'' u32]),
      Field ''rcvq_space'' (CStruct [] False
        [Field ''space'' c_int,
         Field ''copied'' c_int,
         Field ''time'' u64]),
      Field ''scaling_ratio'' u8,
      Field ''allow_subflows'' bool,
      Field ''subflow_id'' u32,
      Field ''setsockopt_seq'' u32,
      Field ''ca_name'' (CArr 16 c_char),
      Field ''fallback_lock'' spinlock_t,
      Field ''backlog_list'' struct_list_head,
      Field ''backlog_len'' u32,
      Field ''backlog_unaccounted'' u32]"

definition struct_iphdr :: cty where
  "struct_iphdr = CStruct ''iphdr'' False
     [BitField ''ihl'' c__u8 4,
      BitField ''version'' c__u8 4,
      Field ''tos'' c__u8,
      Field ''tot_len'' c__be16,
      Field ''id'' c__be16,
      Field ''frag_off'' c__be16,
      Field ''ttl'' c__u8,
      Field ''protocol'' c__u8,
      Field ''check'' c__sum16,
      Field [] (CUnion [] False
        [Field [] (CStruct [] False
           [Field ''saddr'' c__be32,
            Field ''daddr'' c__be32]),
         Field ''addrs'' (CStruct [] False
           [Field ''saddr'' c__be32,
            Field ''daddr'' c__be32])])]"

definition struct_ipv6hdr :: cty where
  "struct_ipv6hdr = CStruct ''ipv6hdr'' False
     [BitField ''priority'' c__u8 4,
      BitField ''version'' c__u8 4,
      Field ''flow_lbl'' (CArr 3 c__u8),
      Field ''payload_len'' c__be16,
      Field ''nexthdr'' c__u8,
      Field ''hop_limit'' c__u8,
      Field [] (CUnion [] False
        [Field [] (CStruct [] False
           [Field ''saddr'' struct_in6_addr,
            Field ''daddr'' struct_in6_addr]),
         Field ''addrs'' (CStruct [] False
           [Field ''saddr'' struct_in6_addr,
            Field ''daddr'' struct_in6_addr])])]"

definition struct_bpf_flow_keys :: cty where
  "struct_bpf_flow_keys = CStruct ''bpf_flow_keys'' False
     [Field ''nhoff'' c__u16,
      Field ''thoff'' c__u16,
      Field ''addr_proto'' c__u16,
      Field ''is_frag'' c__u8,
      Field ''is_first_frag'' c__u8,
      Field ''is_encap'' c__u8,
      Field ''ip_proto'' c__u8,
      Field ''n_proto'' c__be16,
      Field ''sport'' c__be16,
      Field ''dport'' c__be16,
      Field [] (CUnion [] False
        [Field [] (CStruct [] False
           [Field ''ipv4_src'' c__be32,
            Field ''ipv4_dst'' c__be32]),
         Field [] (CStruct [] False
           [Field ''ipv6_src'' (CArr 4 c__u32),
            Field ''ipv6_dst'' (CArr 4 c__u32)])]),
      Field ''flags'' c__u32,
      Field ''flow_label'' c__be32]"

definition struct_inet_bind2_bucket :: cty where
  "struct_inet_bind2_bucket = CStruct ''inet_bind2_bucket'' False
     [Field ''ib_net'' possible_net_t,
      Field ''l3mdev'' c_int,
      Field ''port'' short_unsigned_int,
      Field ''addr_type'' short_unsigned_int,
      Field ''v6_rcv_saddr'' struct_in6_addr,
      Field ''node'' struct_hlist_node,
      Field ''bhash_node'' struct_hlist_node,
      Field ''owners'' struct_hlist_head,
      Field ''fastreuse'' signed_char,
      Field ''fastreuseport'' signed_char]"

definition struct_inet_bind_bucket :: cty where
  "struct_inet_bind_bucket = CStruct ''inet_bind_bucket'' False
     [Field ''ib_net'' possible_net_t,
      Field ''l3mdev'' c_int,
      Field ''port'' short_unsigned_int,
      Field ''fastreuse'' signed_char,
      Field ''fastreuseport'' signed_char,
      Field ''fastuid'' kuid_t,
      Field ''fast_v6_rcv_saddr'' struct_in6_addr,
      Field ''fast_rcv_saddr'' c__be32,
      Field ''fast_sk_family'' short_unsigned_int,
      Field ''fast_ipv6_only'' bool,
      Field ''node'' struct_hlist_node,
      Field ''bhash2'' struct_hlist_head,
      Field ''rcu'' struct_callback_head]"

definition struct_inet_connection_sock_af_ops :: cty where
  "struct_inet_connection_sock_af_ops = CStruct ''inet_connection_sock_af_ops'' False
     [Field ''queue_xmit'' (CPtr ''int (struct sock *, struct sk_buff *, struct flowi *)''),
      Field ''send_check'' (CPtr ''void (struct sock *, struct sk_buff *)''),
      Field ''rebuild_header'' (CPtr ''int (struct sock *)''),
      Field ''sk_rx_dst_set'' (CPtr ''void (struct sock *, const struct sk_buff *)''),
      Field ''conn_request'' (CPtr ''int (struct sock *, struct sk_buff *)''),
      Field ''syn_recv_sock'' (CPtr ''struct sock * (const struct sock *, struct sk_buff *, struct request_sock *, struct dst_entry *, struct request_sock *, bool *, void(*)(struct sock *, const struct sock *))''),
      Field ''net_header_len'' u16,
      Field ''setsockopt'' (CPtr ''int (struct sock *, int, int, sockptr_t, unsigned int)''),
      Field ''getsockopt'' (CPtr ''int (struct sock *, int, int, char *, int *)''),
      Field ''mtu_reduced'' (CPtr ''void (struct sock *)'')]"

definition struct_ip_mreqn :: cty where
  "struct_ip_mreqn = CStruct ''ip_mreqn'' False
     [Field ''imr_multiaddr'' struct_in_addr,
      Field ''imr_address'' struct_in_addr,
      Field ''imr_ifindex'' c_int]"

definition struct_ip_mc_socklist :: cty where
  "struct_ip_mc_socklist = CStruct ''ip_mc_socklist'' False
     [Field ''next_rcu'' (CPtr ''struct ip_mc_socklist''),
      Field ''multi'' struct_ip_mreqn,
      Field ''sfmode'' unsigned_int,
      Field ''sflist'' (CPtr ''struct ip_sf_socklist''),
      Field ''rcu'' struct_callback_head]"

definition struct_ip_options :: cty where
  "struct_ip_options = CStruct ''ip_options'' False
     [Field ''faddr'' c__be32,
      Field ''nexthop'' c__be32,
      Field ''optlen'' unsigned_char,
      Field ''srr'' unsigned_char,
      Field ''rr'' unsigned_char,
      Field ''ts'' unsigned_char,
      BitField ''is_strictroute'' unsigned_char 1,
      BitField ''srr_is_hit'' unsigned_char 1,
      BitField ''is_changed'' unsigned_char 1,
      BitField ''rr_needaddr'' unsigned_char 1,
      BitField ''ts_needtime'' unsigned_char 1,
      BitField ''ts_needaddr'' unsigned_char 1,
      Field ''router_alert'' unsigned_char,
      Field ''cipso'' unsigned_char,
      Field ''__pad2'' unsigned_char,
      Field ''__data'' (CArr 0 unsigned_char)]"

definition struct_ip_options_rcu :: cty where
  "struct_ip_options_rcu = CStruct ''ip_options_rcu'' False
     [Field ''rcu'' struct_callback_head,
      Field ''opt'' struct_ip_options]"

definition struct_ipv6_ac_socklist :: cty where
  "struct_ipv6_ac_socklist = CStruct ''ipv6_ac_socklist'' False
     [Field ''acl_addr'' struct_in6_addr,
      Field ''acl_ifindex'' c_int,
      Field ''acl_next'' (CPtr ''struct ipv6_ac_socklist'')]"

definition struct_ipv6_fl_socklist :: cty where
  "struct_ipv6_fl_socklist = CStruct ''ipv6_fl_socklist'' False
     [Field ''next'' (CPtr ''struct ipv6_fl_socklist''),
      Field ''fl'' (CPtr ''struct ip6_flowlabel''),
      Field ''rcu'' struct_callback_head]"

definition struct_ipv6_mc_socklist :: cty where
  "struct_ipv6_mc_socklist = CStruct ''ipv6_mc_socklist'' False
     [Field ''addr'' struct_in6_addr,
      Field ''ifindex'' c_int,
      Field ''sfmode'' unsigned_int,
      Field ''next'' (CPtr ''struct ipv6_mc_socklist''),
      Field ''sflist'' (CPtr ''struct ip6_sf_socklist''),
      Field ''rcu'' struct_callback_head]"

definition struct_ipv6_txoptions :: cty where
  "struct_ipv6_txoptions = CStruct ''ipv6_txoptions'' False
     [Field ''refcnt'' refcount_t,
      Field ''tot_len'' c_int,
      Field ''opt_flen'' c__u16,
      Field ''opt_nflen'' c__u16,
      Field ''hopopt'' (CPtr ''struct ipv6_opt_hdr''),
      Field ''dst0opt'' (CPtr ''struct ipv6_opt_hdr''),
      Field ''srcrt'' (CPtr ''struct ipv6_rt_hdr''),
      Field ''dst1opt'' (CPtr ''struct ipv6_opt_hdr''),
      Field ''rcu'' struct_callback_head]"

definition struct_mptcp_data_frag :: cty where
  "struct_mptcp_data_frag = CStruct ''mptcp_data_frag'' False
     [Field ''list'' struct_list_head,
      Field ''data_seq'' u64,
      Field ''data_len'' u16,
      Field ''offset'' u16,
      Field ''overhead'' u16,
      Field ''already_sent'' u16,
      Field ''page'' (CPtr ''struct page'')]"

definition struct_mptcp_sched_ops :: cty where
  "struct_mptcp_sched_ops = CStruct ''mptcp_sched_ops'' False
     [Field ''get_send'' (CPtr ''int (struct mptcp_sock *)''),
      Field ''get_retrans'' (CPtr ''int (struct mptcp_sock *)''),
      Field ''name'' (CArr 16 c_char),
      Field ''owner'' (CPtr ''struct module''),
      Field ''list'' struct_list_head,
      Field ''init'' (CPtr ''void (struct mptcp_sock *)''),
      Field ''release'' (CPtr ''void (struct mptcp_sock *)''),
      BitField [] c_long 64,
      BitField [] c_long 64,
      BitField [] c_long 64,
      BitField [] c_long 64,
      BitField [] c_long 64,
      BitField [] c_long 64,
      BitField [] c_long 64]"

definition struct_saved_syn :: cty where
  "struct_saved_syn = CStruct ''saved_syn'' False
     [Field ''mac_hdrlen'' u32,
      Field ''network_hdrlen'' u32,
      Field ''tcp_hdrlen'' u32,
      Field ''data'' (CArr 0 u8)]"

definition struct_tcp_ao_counters :: cty where
  "struct_tcp_ao_counters = CStruct ''tcp_ao_counters'' False
     [Field ''pkt_good'' atomic64_t,
      Field ''pkt_bad'' atomic64_t,
      Field ''key_not_found'' atomic64_t,
      Field ''ao_required'' atomic64_t,
      Field ''dropped_icmp'' atomic64_t]"

definition struct_tcp_ao_info :: cty where
  "struct_tcp_ao_info = CStruct ''tcp_ao_info'' False
     [Field ''head'' struct_hlist_head,
      Field ''current_key'' (CPtr ''struct tcp_ao_key''),
      Field ''rnext_key'' (CPtr ''struct tcp_ao_key''),
      Field ''counters'' struct_tcp_ao_counters,
      BitField ''ao_required'' u32 1,
      BitField ''accept_icmps'' u32 1,
      BitField ''__unused'' u32 30,
      Field ''lisn'' c__be32,
      Field ''risn'' c__be32,
      Field ''snd_sne'' u32,
      Field ''rcv_sne'' u32,
      Field ''refcnt'' refcount_t]"

definition struct_tcp_fastopen_cookie :: cty where
  "struct_tcp_fastopen_cookie = CStruct ''tcp_fastopen_cookie'' False
     [Field ''val'' (CArr 2 c__le64),
      Field ''len'' s8,
      Field ''exp'' bool]"

definition struct_tcp_fastopen_request :: cty where
  "struct_tcp_fastopen_request = CStruct ''tcp_fastopen_request'' False
     [Field ''cookie'' struct_tcp_fastopen_cookie,
      Field ''data'' (CPtr ''struct msghdr''),
      Field ''size'' size_t,
      Field ''copied'' c_int,
      Field ''uarg'' (CPtr ''struct ubuf_info'')]"

definition struct_tcp_md5sig_info :: cty where
  "struct_tcp_md5sig_info = CStruct ''tcp_md5sig_info'' False
     [Field ''head'' struct_hlist_head,
      Field ''rcu'' struct_callback_head]"

definition union_tcp_ao_addr :: cty where
  "union_tcp_ao_addr = CUnion ''tcp_ao_addr'' False
     [Field ''a4'' struct_in_addr,
      Field ''a6'' struct_in6_addr]"

definition struct_tcp_md5sig_key :: cty where
  "struct_tcp_md5sig_key = CStruct ''tcp_md5sig_key'' False
     [Field ''node'' struct_hlist_node,
      Field ''keylen'' u8,
      Field ''family'' u8,
      Field ''prefixlen'' u8,
      Field ''flags'' u8,
      Field ''addr'' union_tcp_ao_addr,
      Field ''l3index'' c_int,
      Field ''key'' (CArr 80 u8),
      Field ''rcu'' struct_callback_head]"

definition struct_tcp_request_sock_ops :: cty where
  "struct_tcp_request_sock_ops = CStruct ''tcp_request_sock_ops'' False
     [Field ''mss_clamp'' u16,
      Field ''req_md5_lookup'' (CPtr ''struct tcp_md5sig_key * (const struct sock *, const struct sock *)''),
      Field ''calc_md5_hash'' (CPtr ''void (char *, const struct tcp_md5sig_key *, const struct sock *, const struct sk_buff *)''),
      Field ''ao_lookup'' (CPtr ''struct tcp_ao_key * (const struct sock *, struct request_sock *, int, int)''),
      Field ''ao_calc_key'' (CPtr ''int (struct tcp_ao_key *, u8 *, struct request_sock *)''),
      Field ''ao_synack_hash'' (CPtr ''int (char *, struct tcp_ao_key *, struct request_sock *, const struct sk_buff *, int, u32)''),
      Field ''cookie_init_seq'' (CPtr ''__u32 (const struct sk_buff *, __u16 *)''),
      Field ''route_req'' (CPtr ''struct dst_entry * (const struct sock *, struct sk_buff *, struct flowi *, struct request_sock *, u32)''),
      Field ''init_seq_and_ts_off'' (CPtr ''union tcp_seq_and_ts_off (const struct net *, const struct sk_buff *)''),
      Field ''send_synack'' (CPtr ''int (const struct sock *, struct dst_entry *, struct flowi *, struct request_sock *, struct tcp_fastopen_cookie *, enum tcp_synack_type, struct sk_buff *)'')]"

definition struct_tcp_sock_af_ops :: cty where
  "struct_tcp_sock_af_ops = CStruct ''tcp_sock_af_ops'' False
     [Field ''md5_lookup'' (CPtr ''struct tcp_md5sig_key * (const struct sock *, const struct sock *)''),
      Field ''calc_md5_hash'' (CPtr ''void (char *, const struct tcp_md5sig_key *, const struct sock *, const struct sk_buff *)''),
      Field ''md5_parse'' (CPtr ''int (struct sock *, int, sockptr_t, int)''),
      Field ''ao_parse'' (CPtr ''int (struct sock *, int, sockptr_t, int)''),
      Field ''ao_lookup'' (CPtr ''struct tcp_ao_key * (const struct sock *, struct sock *, int, int)''),
      Field ''ao_calc_key_sk'' (CPtr ''int (struct tcp_ao_key *, u8 *, const struct sock *, __be32, __be32, bool)''),
      Field ''calc_ao_hash'' (CPtr ''int (char *, struct tcp_ao_key *, const struct sock *, const struct sk_buff *, const u8 *, int, u32)'')]"

definition struct_tcp_ulp_ops :: cty where
  "struct_tcp_ulp_ops = CStruct ''tcp_ulp_ops'' False
     [Field ''list'' struct_list_head,
      Field ''init'' (CPtr ''int (struct sock *)''),
      Field ''update'' (CPtr ''void (struct sock *, struct proto *, void(*)(struct sock *))''),
      Field ''release'' (CPtr ''void (struct sock *)''),
      Field ''get_info'' (CPtr ''int (struct sock *, struct sk_buff *, bool)''),
      Field ''get_info_size'' (CPtr ''size_t (const struct sock *, bool)''),
      Field ''clone'' (CPtr ''void (const struct request_sock *, struct sock *, const gfp_t)''),
      Field ''name'' (CArr 16 c_char),
      Field ''owner'' (CPtr ''struct module'')]"

definition struct_udp_prod_queue :: cty where
  "struct_udp_prod_queue = CStruct ''udp_prod_queue'' False
     [Field ''ll_root'' struct_llist_head,
      Field ''rmem_alloc'' atomic_t,
      BitField [] c_long 64,
      BitField [] c_long 64,
      BitField [] c_long 64,
      BitField [] c_long 64,
      BitField [] c_long 64,
      BitField [] c_long 64]"

definition struct_sockaddr_un :: cty where
  "struct_sockaddr_un = CStruct ''sockaddr_un'' False
     [Field ''sun_family'' c__kernel_sa_family_t,
      Field ''sun_path'' (CArr 108 c_char)]"

definition struct_unix_address :: cty where
  "struct_unix_address = CStruct ''unix_address'' False
     [Field ''refcnt'' refcount_t,
      Field ''len'' c_int,
      Field ''name'' (CArr 0 struct_sockaddr_un)]"

definition struct_unix_vertex :: cty where
  "struct_unix_vertex = CStruct ''unix_vertex'' False
     [Field ''edges'' struct_list_head,
      Field ''entry'' struct_list_head,
      Field ''scc_entry'' struct_list_head,
      Field ''out_degree'' long_unsigned_int,
      Field ''index'' long_unsigned_int,
      Field ''scc_index'' long_unsigned_int]"

definition struct_ip6_flowlabel :: cty where
  "struct_ip6_flowlabel = CStruct ''ip6_flowlabel'' False
     [Field ''next'' (CPtr ''struct ip6_flowlabel''),
      Field ''label'' c__be32,
      Field ''users'' atomic_t,
      Field ''dst'' struct_in6_addr,
      Field ''opt'' (CPtr ''struct ipv6_txoptions''),
      Field ''linger'' long_unsigned_int,
      Field ''rcu'' struct_callback_head,
      Field ''share'' u8,
      Field ''owner'' (CUnion [] False
        [Field ''pid'' (CPtr ''struct pid''),
         Field ''uid'' kuid_t]),
      Field ''lastuse'' long_unsigned_int,
      Field ''expires'' long_unsigned_int,
      Field ''fl_net'' (CPtr ''struct net'')]"

definition struct_ip6_sf_socklist :: cty where
  "struct_ip6_sf_socklist = CStruct ''ip6_sf_socklist'' False
     [Field ''sl_max'' unsigned_int,
      Field ''sl_count'' unsigned_int,
      Field ''rcu'' struct_callback_head,
      Field ''sl_addr'' (CArr 0 struct_in6_addr)]"

definition struct_ip_sf_socklist :: cty where
  "struct_ip_sf_socklist = CStruct ''ip_sf_socklist'' False
     [Field ''sl_max'' unsigned_int,
      Field ''sl_count'' unsigned_int,
      Field ''rcu'' struct_callback_head,
      Field ''sl_addr'' (CArr 0 c__be32)]"

definition struct_ipv6_opt_hdr :: cty where
  "struct_ipv6_opt_hdr = CStruct ''ipv6_opt_hdr'' False
     [Field ''nexthdr'' c__u8,
      Field ''hdrlen'' c__u8]"

definition struct_ipv6_rt_hdr :: cty where
  "struct_ipv6_rt_hdr = CStruct ''ipv6_rt_hdr'' False
     [Field ''nexthdr'' c__u8,
      Field ''hdrlen'' c__u8,
      Field ''type'' c__u8,
      Field ''segments_left'' c__u8]"

definition struct_msghdr :: cty where
  "struct_msghdr = CStruct ''msghdr'' False
     [Field ''msg_name'' (CPtr ''void''),
      Field ''msg_namelen'' c_int,
      Field ''msg_inq'' c_int,
      Field ''msg_iter'' struct_iov_iter,
      Field [] (CUnion [] False
        [Field ''msg_control'' (CPtr ''void''),
         Field ''msg_control_user'' (CPtr ''void'')]),
      BitField ''msg_control_is_user'' bool 1,
      BitField ''msg_get_inq'' bool 1,
      Field ''msg_flags'' unsigned_int,
      Field ''msg_controllen'' c__kernel_size_t,
      Field ''msg_iocb'' (CPtr ''struct kiocb''),
      Field ''msg_ubuf'' (CPtr ''struct ubuf_info''),
      Field ''sg_from_iter'' (CPtr ''int (struct sk_buff *, struct iov_iter *, size_t)'')]"

definition struct_tcp_ao_key :: cty where
  "struct_tcp_ao_key = CStruct ''tcp_ao_key'' False
     [Field ''node'' struct_hlist_node,
      Field ''addr'' union_tcp_ao_addr,
      Field ''key'' (CArr 80 u8),
      Field ''tcp_sigpool_id'' unsigned_int,
      Field ''digest_size'' unsigned_int,
      Field ''l3index'' c_int,
      Field ''prefixlen'' u8,
      Field ''family'' u8,
      Field ''keylen'' u8,
      Field ''keyflags'' u8,
      Field ''sndid'' u8,
      Field ''rcvid'' u8,
      Field ''maclen'' u8,
      Field ''rcu'' struct_callback_head,
      Field ''pkt_good'' atomic64_t,
      Field ''pkt_bad'' atomic64_t,
      Field ''traffic_keys'' (CArr 0 u8)]"

definition struct_ubuf_info :: cty where
  "struct_ubuf_info = CStruct ''ubuf_info'' False
     [Field ''ops'' (CPtr ''const struct ubuf_info_ops''),
      Field ''refcnt'' refcount_t,
      Field ''flags'' u8]"

definition struct_ubuf_info_ops :: cty where
  "struct_ubuf_info_ops = CStruct ''ubuf_info_ops'' False
     [Field ''complete'' (CPtr ''void (struct sk_buff *, struct ubuf_info *, bool)''),
      Field ''link_skb'' (CPtr ''int (struct sk_buff *, struct ubuf_info *)'')]"

section \<open>Sizes and alignments\<close>

lemma struct_mptcp_sock_layout [layout_simps]:
  "sizeof struct_mptcp_sock = 2016 \<and> alignof struct_mptcp_sock = 8 \<and> wf_cty struct_mptcp_sock"
  by (simp add: struct_mptcp_sock_def base_types layout_eval struct_inet_connection_sock_layout u64_def c__u64_def
      atomic64_t_layout u32_def c__u32_def bool_def u8_def c__u8_def struct_work_struct_layout
      struct_rb_root_layout struct_list_head_layout struct_mptcp_pm_data_layout spinlock_t_def
      struct_spinlock_layout
      del: One_nat_def)

lemma struct_iphdr_layout [layout_simps]:
  "sizeof struct_iphdr = 20 \<and> alignof struct_iphdr = 4 \<and> wf_cty struct_iphdr"
  by (simp add: struct_iphdr_def base_types layout_eval c__u8_def c__be16_def c__u16_def c__sum16_def c__be32_def
      c__u32_def
      del: One_nat_def)

lemma struct_ipv6hdr_layout [layout_simps]:
  "sizeof struct_ipv6hdr = 40 \<and> alignof struct_ipv6hdr = 4 \<and> wf_cty struct_ipv6hdr"
  by (simp add: struct_ipv6hdr_def base_types layout_eval c__u8_def c__be16_def c__u16_def struct_in6_addr_layout
      del: One_nat_def)

lemma struct_bpf_flow_keys_layout [layout_simps]:
  "sizeof struct_bpf_flow_keys = 56 \<and> alignof struct_bpf_flow_keys = 4 \<and> wf_cty struct_bpf_flow_keys"
  by (simp add: struct_bpf_flow_keys_def base_types layout_eval c__u16_def c__u8_def c__be16_def c__be32_def c__u32_def
      del: One_nat_def)

lemma struct_inet_bind2_bucket_layout [layout_simps]:
  "sizeof struct_inet_bind2_bucket = 80 \<and> alignof struct_inet_bind2_bucket = 8 \<and> wf_cty struct_inet_bind2_bucket"
  by (simp add: struct_inet_bind2_bucket_def base_types layout_eval possible_net_t_layout struct_in6_addr_layout
      struct_hlist_node_layout struct_hlist_head_layout
      del: One_nat_def)

lemma struct_inet_bind_bucket_layout [layout_simps]:
  "sizeof struct_inet_bind_bucket = 88 \<and> alignof struct_inet_bind_bucket = 8 \<and> wf_cty struct_inet_bind_bucket"
  by (simp add: struct_inet_bind_bucket_def base_types layout_eval possible_net_t_layout kuid_t_layout
      struct_in6_addr_layout c__be32_def c__u32_def bool_def struct_hlist_node_layout
      struct_hlist_head_layout struct_callback_head_layout
      del: One_nat_def)

lemma struct_inet_connection_sock_af_ops_layout [layout_simps]:
  "sizeof struct_inet_connection_sock_af_ops = 80 \<and> alignof struct_inet_connection_sock_af_ops = 8 \<and> wf_cty struct_inet_connection_sock_af_ops"
  by (simp add: struct_inet_connection_sock_af_ops_def base_types layout_eval u16_def c__u16_def
      del: One_nat_def)

lemma struct_ip_mreqn_layout [layout_simps]:
  "sizeof struct_ip_mreqn = 12 \<and> alignof struct_ip_mreqn = 4 \<and> wf_cty struct_ip_mreqn"
  by (simp add: struct_ip_mreqn_def base_types layout_eval struct_in_addr_layout
      del: One_nat_def)

lemma struct_ip_mc_socklist_layout [layout_simps]:
  "sizeof struct_ip_mc_socklist = 48 \<and> alignof struct_ip_mc_socklist = 8 \<and> wf_cty struct_ip_mc_socklist"
  by (simp add: struct_ip_mc_socklist_def base_types layout_eval struct_ip_mreqn_layout struct_callback_head_layout
      del: One_nat_def)

lemma struct_ip_options_layout [layout_simps]:
  "sizeof struct_ip_options = 16 \<and> alignof struct_ip_options = 4 \<and> wf_cty struct_ip_options"
  by (simp add: struct_ip_options_def base_types layout_eval c__be32_def c__u32_def
      del: One_nat_def)

lemma struct_ip_options_rcu_layout [layout_simps]:
  "sizeof struct_ip_options_rcu = 32 \<and> alignof struct_ip_options_rcu = 8 \<and> wf_cty struct_ip_options_rcu"
  by (simp add: struct_ip_options_rcu_def base_types layout_eval struct_callback_head_layout struct_ip_options_layout
      del: One_nat_def)

lemma struct_ipv6_ac_socklist_layout [layout_simps]:
  "sizeof struct_ipv6_ac_socklist = 32 \<and> alignof struct_ipv6_ac_socklist = 8 \<and> wf_cty struct_ipv6_ac_socklist"
  by (simp add: struct_ipv6_ac_socklist_def base_types layout_eval struct_in6_addr_layout
      del: One_nat_def)

lemma struct_ipv6_fl_socklist_layout [layout_simps]:
  "sizeof struct_ipv6_fl_socklist = 32 \<and> alignof struct_ipv6_fl_socklist = 8 \<and> wf_cty struct_ipv6_fl_socklist"
  by (simp add: struct_ipv6_fl_socklist_def base_types layout_eval struct_callback_head_layout
      del: One_nat_def)

lemma struct_ipv6_mc_socklist_layout [layout_simps]:
  "sizeof struct_ipv6_mc_socklist = 56 \<and> alignof struct_ipv6_mc_socklist = 8 \<and> wf_cty struct_ipv6_mc_socklist"
  by (simp add: struct_ipv6_mc_socklist_def base_types layout_eval struct_in6_addr_layout struct_callback_head_layout
      del: One_nat_def)

lemma struct_ipv6_txoptions_layout [layout_simps]:
  "sizeof struct_ipv6_txoptions = 64 \<and> alignof struct_ipv6_txoptions = 8 \<and> wf_cty struct_ipv6_txoptions"
  by (simp add: struct_ipv6_txoptions_def base_types layout_eval refcount_t_def struct_refcount_struct_layout c__u16_def
      struct_callback_head_layout
      del: One_nat_def)

lemma struct_mptcp_data_frag_layout [layout_simps]:
  "sizeof struct_mptcp_data_frag = 40 \<and> alignof struct_mptcp_data_frag = 8 \<and> wf_cty struct_mptcp_data_frag"
  by (simp add: struct_mptcp_data_frag_def base_types layout_eval struct_list_head_layout u64_def c__u64_def u16_def
      c__u16_def
      del: One_nat_def)

lemma struct_mptcp_sched_ops_layout [layout_simps]:
  "sizeof struct_mptcp_sched_ops = 128 \<and> alignof struct_mptcp_sched_ops = 8 \<and> wf_cty struct_mptcp_sched_ops"
  by (simp add: struct_mptcp_sched_ops_def base_types layout_eval struct_list_head_layout
      del: One_nat_def)

lemma struct_saved_syn_layout [layout_simps]:
  "sizeof struct_saved_syn = 12 \<and> alignof struct_saved_syn = 4 \<and> wf_cty struct_saved_syn"
  by (simp add: struct_saved_syn_def base_types layout_eval u32_def c__u32_def u8_def c__u8_def
      del: One_nat_def)

lemma struct_tcp_ao_counters_layout [layout_simps]:
  "sizeof struct_tcp_ao_counters = 40 \<and> alignof struct_tcp_ao_counters = 8 \<and> wf_cty struct_tcp_ao_counters"
  by (simp add: struct_tcp_ao_counters_def base_types layout_eval atomic64_t_layout
      del: One_nat_def)

lemma struct_tcp_ao_info_layout [layout_simps]:
  "sizeof struct_tcp_ao_info = 88 \<and> alignof struct_tcp_ao_info = 8 \<and> wf_cty struct_tcp_ao_info"
  by (simp add: struct_tcp_ao_info_def base_types layout_eval struct_hlist_head_layout struct_tcp_ao_counters_layout
      u32_def c__u32_def c__be32_def refcount_t_def struct_refcount_struct_layout
      del: One_nat_def)

lemma struct_tcp_fastopen_cookie_layout [layout_simps]:
  "sizeof struct_tcp_fastopen_cookie = 24 \<and> alignof struct_tcp_fastopen_cookie = 8 \<and> wf_cty struct_tcp_fastopen_cookie"
  by (simp add: struct_tcp_fastopen_cookie_def base_types layout_eval c__le64_def c__u64_def s8_def c__s8_def bool_def
      del: One_nat_def)

lemma struct_tcp_fastopen_request_layout [layout_simps]:
  "sizeof struct_tcp_fastopen_request = 56 \<and> alignof struct_tcp_fastopen_request = 8 \<and> wf_cty struct_tcp_fastopen_request"
  by (simp add: struct_tcp_fastopen_request_def base_types layout_eval struct_tcp_fastopen_cookie_layout size_t_def
      c__kernel_size_t_def c__kernel_ulong_t_def
      del: One_nat_def)

lemma struct_tcp_md5sig_info_layout [layout_simps]:
  "sizeof struct_tcp_md5sig_info = 24 \<and> alignof struct_tcp_md5sig_info = 8 \<and> wf_cty struct_tcp_md5sig_info"
  by (simp add: struct_tcp_md5sig_info_def base_types layout_eval struct_hlist_head_layout struct_callback_head_layout
      del: One_nat_def)

lemma union_tcp_ao_addr_layout [layout_simps]:
  "sizeof union_tcp_ao_addr = 16 \<and> alignof union_tcp_ao_addr = 4 \<and> wf_cty union_tcp_ao_addr"
  by (simp add: union_tcp_ao_addr_def base_types layout_eval struct_in_addr_layout struct_in6_addr_layout
      del: One_nat_def)

lemma struct_tcp_md5sig_key_layout [layout_simps]:
  "sizeof struct_tcp_md5sig_key = 136 \<and> alignof struct_tcp_md5sig_key = 8 \<and> wf_cty struct_tcp_md5sig_key"
  by (simp add: struct_tcp_md5sig_key_def base_types layout_eval struct_hlist_node_layout u8_def c__u8_def
      union_tcp_ao_addr_layout struct_callback_head_layout
      del: One_nat_def)

lemma struct_tcp_request_sock_ops_layout [layout_simps]:
  "sizeof struct_tcp_request_sock_ops = 80 \<and> alignof struct_tcp_request_sock_ops = 8 \<and> wf_cty struct_tcp_request_sock_ops"
  by (simp add: struct_tcp_request_sock_ops_def base_types layout_eval u16_def c__u16_def
      del: One_nat_def)

lemma struct_tcp_sock_af_ops_layout [layout_simps]:
  "sizeof struct_tcp_sock_af_ops = 56 \<and> alignof struct_tcp_sock_af_ops = 8 \<and> wf_cty struct_tcp_sock_af_ops"
  by (simp add: struct_tcp_sock_af_ops_def base_types layout_eval
      del: One_nat_def)

lemma struct_tcp_ulp_ops_layout [layout_simps]:
  "sizeof struct_tcp_ulp_ops = 88 \<and> alignof struct_tcp_ulp_ops = 8 \<and> wf_cty struct_tcp_ulp_ops"
  by (simp add: struct_tcp_ulp_ops_def base_types layout_eval struct_list_head_layout
      del: One_nat_def)

lemma struct_udp_prod_queue_layout [layout_simps]:
  "sizeof struct_udp_prod_queue = 64 \<and> alignof struct_udp_prod_queue = 8 \<and> wf_cty struct_udp_prod_queue"
  by (simp add: struct_udp_prod_queue_def base_types layout_eval struct_llist_head_layout atomic_t_layout
      del: One_nat_def)

lemma struct_sockaddr_un_layout [layout_simps]:
  "sizeof struct_sockaddr_un = 110 \<and> alignof struct_sockaddr_un = 2 \<and> wf_cty struct_sockaddr_un"
  by (simp add: struct_sockaddr_un_def base_types layout_eval c__kernel_sa_family_t_def
      del: One_nat_def)

lemma struct_unix_address_layout [layout_simps]:
  "sizeof struct_unix_address = 8 \<and> alignof struct_unix_address = 4 \<and> wf_cty struct_unix_address"
  by (simp add: struct_unix_address_def base_types layout_eval refcount_t_def struct_refcount_struct_layout
      struct_sockaddr_un_layout
      del: One_nat_def)

lemma struct_unix_vertex_layout [layout_simps]:
  "sizeof struct_unix_vertex = 72 \<and> alignof struct_unix_vertex = 8 \<and> wf_cty struct_unix_vertex"
  by (simp add: struct_unix_vertex_def base_types layout_eval struct_list_head_layout
      del: One_nat_def)

lemma struct_ip6_flowlabel_layout [layout_simps]:
  "sizeof struct_ip6_flowlabel = 104 \<and> alignof struct_ip6_flowlabel = 8 \<and> wf_cty struct_ip6_flowlabel"
  by (simp add: struct_ip6_flowlabel_def base_types layout_eval c__be32_def c__u32_def atomic_t_layout
      struct_in6_addr_layout struct_callback_head_layout u8_def c__u8_def kuid_t_layout
      del: One_nat_def)

lemma struct_ip6_sf_socklist_layout [layout_simps]:
  "sizeof struct_ip6_sf_socklist = 24 \<and> alignof struct_ip6_sf_socklist = 8 \<and> wf_cty struct_ip6_sf_socklist"
  by (simp add: struct_ip6_sf_socklist_def base_types layout_eval struct_callback_head_layout struct_in6_addr_layout
      del: One_nat_def)

lemma struct_ip_sf_socklist_layout [layout_simps]:
  "sizeof struct_ip_sf_socklist = 24 \<and> alignof struct_ip_sf_socklist = 8 \<and> wf_cty struct_ip_sf_socklist"
  by (simp add: struct_ip_sf_socklist_def base_types layout_eval struct_callback_head_layout c__be32_def c__u32_def
      del: One_nat_def)

lemma struct_ipv6_opt_hdr_layout [layout_simps]:
  "sizeof struct_ipv6_opt_hdr = 2 \<and> alignof struct_ipv6_opt_hdr = 1 \<and> wf_cty struct_ipv6_opt_hdr"
  by (simp add: struct_ipv6_opt_hdr_def base_types layout_eval c__u8_def
      del: One_nat_def)

lemma struct_ipv6_rt_hdr_layout [layout_simps]:
  "sizeof struct_ipv6_rt_hdr = 4 \<and> alignof struct_ipv6_rt_hdr = 1 \<and> wf_cty struct_ipv6_rt_hdr"
  by (simp add: struct_ipv6_rt_hdr_def base_types layout_eval c__u8_def
      del: One_nat_def)

lemma struct_msghdr_layout [layout_simps]:
  "sizeof struct_msghdr = 104 \<and> alignof struct_msghdr = 8 \<and> wf_cty struct_msghdr"
  by (simp add: struct_msghdr_def base_types layout_eval struct_iov_iter_layout bool_def c__kernel_size_t_def
      c__kernel_ulong_t_def
      del: One_nat_def)

lemma struct_tcp_ao_key_layout [layout_simps]:
  "sizeof struct_tcp_ao_key = 168 \<and> alignof struct_tcp_ao_key = 8 \<and> wf_cty struct_tcp_ao_key"
  by (simp add: struct_tcp_ao_key_def base_types layout_eval struct_hlist_node_layout union_tcp_ao_addr_layout u8_def
      c__u8_def struct_callback_head_layout atomic64_t_layout
      del: One_nat_def)

lemma struct_ubuf_info_layout [layout_simps]:
  "sizeof struct_ubuf_info = 16 \<and> alignof struct_ubuf_info = 8 \<and> wf_cty struct_ubuf_info"
  by (simp add: struct_ubuf_info_def base_types layout_eval refcount_t_def struct_refcount_struct_layout u8_def c__u8_def
      del: One_nat_def)

lemma struct_ubuf_info_ops_layout [layout_simps]:
  "sizeof struct_ubuf_info_ops = 16 \<and> alignof struct_ubuf_info_ops = 8 \<and> wf_cty struct_ubuf_info_ops"
  by (simp add: struct_ubuf_info_ops_def base_types layout_eval
      del: One_nat_def)

end
