(* ===== verification/HelperArgs.thy ===== *)
theory HelperArgs
  imports BpfHelperDefs
begin

text \<open>
  The structs that the helpers of \<^verbatim>\<open>bpf/bpf/bpf_helper_defs.h\<close> take pointers to, against the declarations at the
  beginning of that header.
\<close>

text \<open>The tag of the struct an argument points to, if its type is such a pointer.\<close>

fun after_prefix :: "string \<Rightarrow> string \<Rightarrow> string option" where
  "after_prefix [] s = Some s"
| "after_prefix (p # ps) [] = None"
| "after_prefix (p # ps) (c # s) = (if p = c then after_prefix ps s else None)"

definition struct_arg :: "string \<Rightarrow> string option" where
  "struct_arg arg =
     (let arg = (case after_prefix ''const '' arg of Some rest \<Rightarrow> rest | None \<Rightarrow> arg)
      in map_option (takeWhile (\<lambda>c. c \<noteq> CHR '' '')) (after_prefix ''struct '' arg))"

definition declared :: "string list \<Rightarrow> helper \<Rightarrow> bool" where
  "declared tags h \<longleftrightarrow>
     list_all (\<lambda>arg. case struct_arg arg of None \<Rightarrow> True | Some tag \<Rightarrow> List.member tags tag) (h_args h)"

definition helper_tags :: "string list" where
  "helper_tags =
     [''bpf_fib_lookup'', ''bpf_sk_lookup'', ''bpf_perf_event_data'', ''bpf_perf_event_value'',
      ''bpf_pidns_info'', ''bpf_redir_neigh'', ''bpf_sock'', ''bpf_sock_addr'', ''bpf_sock_ops'',
      ''bpf_sock_tuple'', ''bpf_spin_lock'', ''bpf_sysctl'', ''bpf_tcp_sock'', ''bpf_tunnel_key'',
      ''bpf_xfrm_state'', ''linux_binprm'', ''pt_regs'', ''sk_reuseport_md'', ''sockaddr'', ''tcphdr'',
      ''seq_file'', ''tcp6_sock'', ''tcp_sock'', ''tcp_timewait_sock'', ''tcp_request_sock'',
      ''udp6_sock'', ''unix_sock'', ''task_struct'', ''cgroup'', ''__sk_buff'', ''sk_msg_md'',
      ''xdp_md'', ''path'', ''btf_ptr'', ''inode'', ''socket'', ''file'', ''bpf_timer'', ''mptcp_sock'',
      ''bpf_dynptr'', ''iphdr'', ''ipv6hdr'']"

lemma helpers_declared: "list_all (declared helper_tags) bpf_helper_defs"
  by code_simp

end
