(* ===== verification/HelperTypes.thy ===== *)
theory HelperTypes
  imports KernelHelpers2 HelperArgs
begin

text \<open>
  The structs that \<^verbatim>\<open>bpf/bpf/bpf_helper_defs.h\<close> declares at its beginning, as the types of \<^verbatim>\<open>bpf/vmlinux.h\<close> they
  are: whatever struct a helper of the table takes a pointer to is one of them.
\<close>

definition helper_structs :: "cty list" where
  "helper_structs =
     [struct_bpf_fib_lookup, struct_bpf_sk_lookup, struct_bpf_perf_event_data,
      struct_bpf_perf_event_value, struct_bpf_pidns_info, struct_bpf_redir_neigh, struct_bpf_sock,
      struct_bpf_sock_addr, struct_bpf_sock_ops, struct_bpf_sock_tuple, struct_bpf_spin_lock,
      struct_bpf_sysctl, struct_bpf_tcp_sock, struct_bpf_tunnel_key, struct_bpf_xfrm_state,
      struct_linux_binprm, struct_pt_regs, struct_sk_reuseport_md, struct_sockaddr, struct_tcphdr,
      struct_seq_file, struct_tcp6_sock, struct_tcp_sock, struct_tcp_timewait_sock,
      struct_tcp_request_sock, struct_udp6_sock, struct_unix_sock, struct_task_struct, struct_cgroup,
      struct___sk_buff, struct_sk_msg_md, struct_xdp_md, struct_path, struct_btf_ptr, struct_inode,
      struct_socket, struct_file, struct_bpf_timer, struct_mptcp_sock, struct_bpf_dynptr, struct_iphdr,
      struct_ipv6hdr]"

section \<open>Pointers in the signatures\<close>

primrec tag_of :: "cty \<Rightarrow> string" where
  "tag_of (CStruct tag packed ms) = tag"
| "tag_of (CUnion tag packed ms) = tag"
| "tag_of (CInt n) = []"
| "tag_of (CPtr target) = []"
| "tag_of (CEnum n es) = []"
| "tag_of (CArr n t) = []"

lemma helper_structs_tags: "map tag_of helper_structs = helper_tags"
  by (simp add: helper_structs_def helper_tags_def struct_bpf_fib_lookup_def struct_bpf_sk_lookup_def struct_bpf_perf_event_data_def
      struct_bpf_perf_event_value_def struct_bpf_pidns_info_def struct_bpf_redir_neigh_def
      struct_bpf_sock_def struct_bpf_sock_addr_def struct_bpf_sock_ops_def struct_bpf_sock_tuple_def
      struct_bpf_spin_lock_def struct_bpf_sysctl_def struct_bpf_tcp_sock_def struct_bpf_tunnel_key_def
      struct_bpf_xfrm_state_def struct_linux_binprm_def struct_pt_regs_def struct_sk_reuseport_md_def
      struct_sockaddr_def struct_tcphdr_def struct_seq_file_def struct_tcp6_sock_def struct_tcp_sock_def
      struct_tcp_timewait_sock_def struct_tcp_request_sock_def struct_udp6_sock_def struct_unix_sock_def
      struct_task_struct_def struct_cgroup_def struct___sk_buff_def struct_sk_msg_md_def
      struct_xdp_md_def struct_path_def struct_btf_ptr_def struct_inode_def struct_socket_def
      struct_file_def struct_bpf_timer_def struct_mptcp_sock_def struct_bpf_dynptr_def struct_iphdr_def
      struct_ipv6hdr_def)

lemma helper_structs_ok: "list_all (\<lambda>t. wf_cty t \<and> 0 < sizeof t) helper_structs"
  by (simp add: helper_structs_def struct_bpf_fib_lookup_layout struct_bpf_sk_lookup_layout struct_bpf_perf_event_data_layout
      struct_bpf_perf_event_value_layout struct_bpf_pidns_info_layout struct_bpf_redir_neigh_layout
      struct_bpf_sock_layout struct_bpf_sock_addr_layout struct_bpf_sock_ops_layout
      struct_bpf_sock_tuple_layout struct_bpf_spin_lock_layout struct_bpf_sysctl_layout
      struct_bpf_tcp_sock_layout struct_bpf_tunnel_key_layout struct_bpf_xfrm_state_layout
      struct_linux_binprm_layout struct_pt_regs_layout struct_sk_reuseport_md_layout
      struct_sockaddr_layout struct_tcphdr_layout struct_seq_file_layout struct_tcp6_sock_layout
      struct_tcp_sock_layout struct_tcp_timewait_sock_layout struct_tcp_request_sock_layout
      struct_udp6_sock_layout struct_unix_sock_layout struct_task_struct_layout struct_cgroup_layout
      struct___sk_buff_layout struct_sk_msg_md_layout struct_xdp_md_layout struct_path_layout
      struct_btf_ptr_layout struct_inode_layout struct_socket_layout struct_file_layout
      struct_bpf_timer_layout struct_mptcp_sock_layout struct_bpf_dynptr_layout struct_iphdr_layout
      struct_ipv6hdr_layout)

text \<open>Every struct a helper points to is declared and defined, and has a positive size.\<close>

theorem helper_structs_defined:
  assumes "h \<in> set bpf_helper_defs" "arg \<in> set (h_args h)" "struct_arg arg = Some tag"
  shows "\<exists>t \<in> set helper_structs. tag_of t = tag \<and> wf_cty t \<and> 0 < sizeof t"
proof -
  have "declared helper_tags h" using helpers_declared assms(1) by (simp add: list_all_iff)
  then have "tag \<in> set helper_tags" using assms(2,3) by (fastforce simp: declared_def list_all_iff)
  then have "tag \<in> tag_of ` set helper_structs" by (simp add: helper_structs_tags [symmetric])
  then show ?thesis using helper_structs_ok by (auto simp: list_all_iff)
qed

end
