(* ===== verification/KernelLargeb.thy ===== *)
theory KernelLargeb
  imports CLayout
begin

text \<open>
  Types of other subsystems in \<^verbatim>\<open>bpf/vmlinux.h\<close>: those that take 25 lines and more there, with every type they
  hold by value (part 2 of 10).
\<close>

section \<open>Types\<close>

definition enum_max8997_pmic_reg :: cty where
  "enum_max8997_pmic_reg = CEnum 4
     [(''MAX8997_REG_PMIC_ID0'', 0), (''MAX8997_REG_PMIC_ID1'', 1), (''MAX8997_REG_INTSRC'', 2),
      (''MAX8997_REG_INT1'', 3), (''MAX8997_REG_INT2'', 4), (''MAX8997_REG_INT3'', 5),
      (''MAX8997_REG_INT4'', 6), (''MAX8997_REG_INT1MSK'', 8), (''MAX8997_REG_INT2MSK'', 9),
      (''MAX8997_REG_INT3MSK'', 10), (''MAX8997_REG_INT4MSK'', 11),
      (''MAX8997_REG_STATUS1'', 13), (''MAX8997_REG_STATUS2'', 14),
      (''MAX8997_REG_STATUS3'', 15), (''MAX8997_REG_STATUS4'', 16),
      (''MAX8997_REG_MAINCON1'', 19), (''MAX8997_REG_MAINCON2'', 20),
      (''MAX8997_REG_BUCKRAMP'', 21), (''MAX8997_REG_BUCK1CTRL'', 24),
      (''MAX8997_REG_BUCK1DVS1'', 25), (''MAX8997_REG_BUCK1DVS2'', 26),
      (''MAX8997_REG_BUCK1DVS3'', 27), (''MAX8997_REG_BUCK1DVS4'', 28),
      (''MAX8997_REG_BUCK1DVS5'', 29), (''MAX8997_REG_BUCK1DVS6'', 30),
      (''MAX8997_REG_BUCK1DVS7'', 31), (''MAX8997_REG_BUCK1DVS8'', 32),
      (''MAX8997_REG_BUCK2CTRL'', 33), (''MAX8997_REG_BUCK2DVS1'', 34),
      (''MAX8997_REG_BUCK2DVS2'', 35), (''MAX8997_REG_BUCK2DVS3'', 36),
      (''MAX8997_REG_BUCK2DVS4'', 37), (''MAX8997_REG_BUCK2DVS5'', 38),
      (''MAX8997_REG_BUCK2DVS6'', 39), (''MAX8997_REG_BUCK2DVS7'', 40),
      (''MAX8997_REG_BUCK2DVS8'', 41), (''MAX8997_REG_BUCK3CTRL'', 42),
      (''MAX8997_REG_BUCK3DVS'', 43), (''MAX8997_REG_BUCK4CTRL'', 44),
      (''MAX8997_REG_BUCK4DVS'', 45), (''MAX8997_REG_BUCK5CTRL'', 46),
      (''MAX8997_REG_BUCK5DVS1'', 47), (''MAX8997_REG_BUCK5DVS2'', 48),
      (''MAX8997_REG_BUCK5DVS3'', 49), (''MAX8997_REG_BUCK5DVS4'', 50),
      (''MAX8997_REG_BUCK5DVS5'', 51), (''MAX8997_REG_BUCK5DVS6'', 52),
      (''MAX8997_REG_BUCK5DVS7'', 53), (''MAX8997_REG_BUCK5DVS8'', 54),
      (''MAX8997_REG_BUCK6CTRL'', 55), (''MAX8997_REG_BUCK6BPSKIPCTRL'', 56),
      (''MAX8997_REG_BUCK7CTRL'', 57), (''MAX8997_REG_BUCK7DVS'', 58),
      (''MAX8997_REG_LDO1CTRL'', 59), (''MAX8997_REG_LDO2CTRL'', 60),
      (''MAX8997_REG_LDO3CTRL'', 61), (''MAX8997_REG_LDO4CTRL'', 62),
      (''MAX8997_REG_LDO5CTRL'', 63), (''MAX8997_REG_LDO6CTRL'', 64),
      (''MAX8997_REG_LDO7CTRL'', 65), (''MAX8997_REG_LDO8CTRL'', 66),
      (''MAX8997_REG_LDO9CTRL'', 67), (''MAX8997_REG_LDO10CTRL'', 68),
      (''MAX8997_REG_LDO11CTRL'', 69), (''MAX8997_REG_LDO12CTRL'', 70),
      (''MAX8997_REG_LDO13CTRL'', 71), (''MAX8997_REG_LDO14CTRL'', 72),
      (''MAX8997_REG_LDO15CTRL'', 73), (''MAX8997_REG_LDO16CTRL'', 74),
      (''MAX8997_REG_LDO17CTRL'', 75), (''MAX8997_REG_LDO18CTRL'', 76),
      (''MAX8997_REG_LDO21CTRL'', 77), (''MAX8997_REG_MBCCTRL1'', 80),
      (''MAX8997_REG_MBCCTRL2'', 81), (''MAX8997_REG_MBCCTRL3'', 82),
      (''MAX8997_REG_MBCCTRL4'', 83), (''MAX8997_REG_MBCCTRL5'', 84),
      (''MAX8997_REG_MBCCTRL6'', 85), (''MAX8997_REG_OTPCGHCVS'', 86),
      (''MAX8997_REG_SAFEOUTCTRL'', 90), (''MAX8997_REG_LBCNFG1'', 94),
      (''MAX8997_REG_LBCNFG2'', 95), (''MAX8997_REG_BBCCTRL'', 96),
      (''MAX8997_REG_FLASH1_CUR'', 99), (''MAX8997_REG_FLASH2_CUR'', 100),
      (''MAX8997_REG_MOVIE_CUR'', 101), (''MAX8997_REG_GSMB_CUR'', 102),
      (''MAX8997_REG_BOOST_CNTL'', 103), (''MAX8997_REG_LEN_CNTL'', 104),
      (''MAX8997_REG_FLASH_CNTL'', 105), (''MAX8997_REG_WDT_CNTL'', 106),
      (''MAX8997_REG_MAXFLASH1'', 107), (''MAX8997_REG_MAXFLASH2'', 108),
      (''MAX8997_REG_FLASHSTATUS'', 109), (''MAX8997_REG_FLASHSTATUSMASK'', 110),
      (''MAX8997_REG_GPIOCNTL1'', 112), (''MAX8997_REG_GPIOCNTL2'', 113),
      (''MAX8997_REG_GPIOCNTL3'', 114), (''MAX8997_REG_GPIOCNTL4'', 115),
      (''MAX8997_REG_GPIOCNTL5'', 116), (''MAX8997_REG_GPIOCNTL6'', 117),
      (''MAX8997_REG_GPIOCNTL7'', 118), (''MAX8997_REG_GPIOCNTL8'', 119),
      (''MAX8997_REG_GPIOCNTL9'', 120), (''MAX8997_REG_GPIOCNTL10'', 121),
      (''MAX8997_REG_GPIOCNTL11'', 122), (''MAX8997_REG_GPIOCNTL12'', 123),
      (''MAX8997_REG_LDO1CONFIG'', 128), (''MAX8997_REG_LDO2CONFIG'', 129),
      (''MAX8997_REG_LDO3CONFIG'', 130), (''MAX8997_REG_LDO4CONFIG'', 131),
      (''MAX8997_REG_LDO5CONFIG'', 132), (''MAX8997_REG_LDO6CONFIG'', 133),
      (''MAX8997_REG_LDO7CONFIG'', 134), (''MAX8997_REG_LDO8CONFIG'', 135),
      (''MAX8997_REG_LDO9CONFIG'', 136), (''MAX8997_REG_LDO10CONFIG'', 137),
      (''MAX8997_REG_LDO11CONFIG'', 138), (''MAX8997_REG_LDO12CONFIG'', 139),
      (''MAX8997_REG_LDO13CONFIG'', 140), (''MAX8997_REG_LDO14CONFIG'', 141),
      (''MAX8997_REG_LDO15CONFIG'', 142), (''MAX8997_REG_LDO16CONFIG'', 143),
      (''MAX8997_REG_LDO17CONFIG'', 144), (''MAX8997_REG_LDO18CONFIG'', 145),
      (''MAX8997_REG_LDO21CONFIG'', 146), (''MAX8997_REG_DVSOKTIMER1'', 151),
      (''MAX8997_REG_DVSOKTIMER2'', 152), (''MAX8997_REG_DVSOKTIMER4'', 153),
      (''MAX8997_REG_DVSOKTIMER5'', 154), (''MAX8997_REG_PMIC_END'', 155)]"

definition enum_mem_type :: cty where
  "enum_mem_type = CEnum 4
     [(''MEM_EMPTY'', 0), (''MEM_RESERVED'', 1), (''MEM_UNKNOWN'', 2), (''MEM_FPM'', 3),
      (''MEM_EDO'', 4), (''MEM_BEDO'', 5), (''MEM_SDR'', 6), (''MEM_RDR'', 7), (''MEM_DDR'', 8),
      (''MEM_RDDR'', 9), (''MEM_RMBS'', 10), (''MEM_DDR2'', 11), (''MEM_FB_DDR2'', 12),
      (''MEM_RDDR2'', 13), (''MEM_XDR'', 14), (''MEM_DDR3'', 15), (''MEM_RDDR3'', 16),
      (''MEM_LRDDR3'', 17), (''MEM_LPDDR3'', 18), (''MEM_DDR4'', 19), (''MEM_RDDR4'', 20),
      (''MEM_LRDDR4'', 21), (''MEM_LPDDR4'', 22), (''MEM_DDR5'', 23), (''MEM_RDDR5'', 24),
      (''MEM_LRDDR5'', 25), (''MEM_NVDIMM'', 26), (''MEM_WIO2'', 27), (''MEM_HBM2'', 28),
      (''MEM_HBM3'', 29)]"

definition enum_net_dm_attr :: cty where
  "enum_net_dm_attr = CEnum 4
     [(''NET_DM_ATTR_UNSPEC'', 0), (''NET_DM_ATTR_ALERT_MODE'', 1), (''NET_DM_ATTR_PC'', 2),
      (''NET_DM_ATTR_SYMBOL'', 3), (''NET_DM_ATTR_IN_PORT'', 4), (''NET_DM_ATTR_TIMESTAMP'', 5),
      (''NET_DM_ATTR_PROTO'', 6), (''NET_DM_ATTR_PAYLOAD'', 7), (''NET_DM_ATTR_PAD'', 8),
      (''NET_DM_ATTR_TRUNC_LEN'', 9), (''NET_DM_ATTR_ORIG_LEN'', 10),
      (''NET_DM_ATTR_QUEUE_LEN'', 11), (''NET_DM_ATTR_STATS'', 12),
      (''NET_DM_ATTR_HW_STATS'', 13), (''NET_DM_ATTR_ORIGIN'', 14),
      (''NET_DM_ATTR_HW_TRAP_GROUP_NAME'', 15), (''NET_DM_ATTR_HW_TRAP_NAME'', 16),
      (''NET_DM_ATTR_HW_ENTRIES'', 17), (''NET_DM_ATTR_HW_ENTRY'', 18),
      (''NET_DM_ATTR_HW_TRAP_COUNT'', 19), (''NET_DM_ATTR_SW_DROPS'', 20),
      (''NET_DM_ATTR_HW_DROPS'', 21), (''NET_DM_ATTR_FLOW_ACTION_COOKIE'', 22),
      (''NET_DM_ATTR_REASON'', 23), (''__NET_DM_ATTR_MAX'', 24), (''NET_DM_ATTR_MAX'', 23)]"

definition enum_netdev_cmd :: cty where
  "enum_netdev_cmd = CEnum 4
     [(''NETDEV_UP'', 1), (''NETDEV_DOWN'', 2), (''NETDEV_REBOOT'', 3), (''NETDEV_CHANGE'', 4),
      (''NETDEV_REGISTER'', 5), (''NETDEV_UNREGISTER'', 6), (''NETDEV_CHANGEMTU'', 7),
      (''NETDEV_CHANGEADDR'', 8), (''NETDEV_PRE_CHANGEADDR'', 9), (''NETDEV_GOING_DOWN'', 10),
      (''NETDEV_CHANGENAME'', 11), (''NETDEV_FEAT_CHANGE'', 12),
      (''NETDEV_BONDING_FAILOVER'', 13), (''NETDEV_PRE_UP'', 14),
      (''NETDEV_PRE_TYPE_CHANGE'', 15), (''NETDEV_POST_TYPE_CHANGE'', 16),
      (''NETDEV_POST_INIT'', 17), (''NETDEV_PRE_UNINIT'', 18), (''NETDEV_RELEASE'', 19),
      (''NETDEV_NOTIFY_PEERS'', 20), (''NETDEV_JOIN'', 21), (''NETDEV_CHANGEUPPER'', 22),
      (''NETDEV_RESEND_IGMP'', 23), (''NETDEV_PRECHANGEMTU'', 24),
      (''NETDEV_CHANGEINFODATA'', 25), (''NETDEV_BONDING_INFO'', 26),
      (''NETDEV_PRECHANGEUPPER'', 27), (''NETDEV_CHANGELOWERSTATE'', 28),
      (''NETDEV_UDP_TUNNEL_PUSH_INFO'', 29), (''NETDEV_UDP_TUNNEL_DROP_INFO'', 30),
      (''NETDEV_CHANGE_TX_QUEUE_LEN'', 31), (''NETDEV_CVLAN_FILTER_PUSH_INFO'', 32),
      (''NETDEV_CVLAN_FILTER_DROP_INFO'', 33), (''NETDEV_SVLAN_FILTER_PUSH_INFO'', 34),
      (''NETDEV_SVLAN_FILTER_DROP_INFO'', 35), (''NETDEV_OFFLOAD_XSTATS_ENABLE'', 36),
      (''NETDEV_OFFLOAD_XSTATS_DISABLE'', 37), (''NETDEV_OFFLOAD_XSTATS_REPORT_USED'', 38),
      (''NETDEV_OFFLOAD_XSTATS_REPORT_DELTA'', 39), (''NETDEV_XDP_FEAT_CHANGE'', 40)]"

definition enum_netdev_priv_flags :: cty where
  "enum_netdev_priv_flags = CEnum 4
     [(''IFF_802_1Q_VLAN'', 1), (''IFF_EBRIDGE'', 2), (''IFF_BONDING'', 4), (''IFF_ISATAP'', 8),
      (''IFF_WAN_HDLC'', 16), (''IFF_XMIT_DST_RELEASE'', 32), (''IFF_DONT_BRIDGE'', 64),
      (''IFF_DISABLE_NETPOLL'', 128), (''IFF_MACVLAN_PORT'', 256), (''IFF_BRIDGE_PORT'', 512),
      (''IFF_OVS_DATAPATH'', 1024), (''IFF_TX_SKB_SHARING'', 2048), (''IFF_UNICAST_FLT'', 4096),
      (''IFF_TEAM_PORT'', 8192), (''IFF_SUPP_NOFCS'', 16384), (''IFF_LIVE_ADDR_CHANGE'', 32768),
      (''IFF_MACVLAN'', 65536), (''IFF_XMIT_DST_RELEASE_PERM'', 131072),
      (''IFF_L3MDEV_MASTER'', 262144), (''IFF_NO_QUEUE'', 524288),
      (''IFF_OPENVSWITCH'', 1048576), (''IFF_L3MDEV_SLAVE'', 2097152), (''IFF_TEAM'', 4194304),
      (''IFF_RXFH_CONFIGURED'', 8388608), (''IFF_PHONY_HEADROOM'', 16777216),
      (''IFF_MACSEC'', 33554432), (''IFF_NO_RX_HANDLER'', 67108864),
      (''IFF_FAILOVER'', 134217728), (''IFF_FAILOVER_SLAVE'', 268435456),
      (''IFF_L3MDEV_RX_HANDLER'', 536870912), (''IFF_NO_ADDRCONF'', 1073741824),
      (''IFF_TX_SKB_NO_LINEAR'', 2147483648)]"

definition enum_nfs_opnum4 :: cty where
  "enum_nfs_opnum4 = CEnum 4
     [(''OP_ACCESS'', 3), (''OP_CLOSE'', 4), (''OP_COMMIT'', 5), (''OP_CREATE'', 6),
      (''OP_DELEGPURGE'', 7), (''OP_DELEGRETURN'', 8), (''OP_GETATTR'', 9), (''OP_GETFH'', 10),
      (''OP_LINK'', 11), (''OP_LOCK'', 12), (''OP_LOCKT'', 13), (''OP_LOCKU'', 14),
      (''OP_LOOKUP'', 15), (''OP_LOOKUPP'', 16), (''OP_NVERIFY'', 17), (''OP_OPEN'', 18),
      (''OP_OPENATTR'', 19), (''OP_OPEN_CONFIRM'', 20), (''OP_OPEN_DOWNGRADE'', 21),
      (''OP_PUTFH'', 22), (''OP_PUTPUBFH'', 23), (''OP_PUTROOTFH'', 24), (''OP_READ'', 25),
      (''OP_READDIR'', 26), (''OP_READLINK'', 27), (''OP_REMOVE'', 28), (''OP_RENAME'', 29),
      (''OP_RENEW'', 30), (''OP_RESTOREFH'', 31), (''OP_SAVEFH'', 32), (''OP_SECINFO'', 33),
      (''OP_SETATTR'', 34), (''OP_SETCLIENTID'', 35), (''OP_SETCLIENTID_CONFIRM'', 36),
      (''OP_VERIFY'', 37), (''OP_WRITE'', 38), (''OP_RELEASE_LOCKOWNER'', 39),
      (''OP_BACKCHANNEL_CTL'', 40), (''OP_BIND_CONN_TO_SESSION'', 41), (''OP_EXCHANGE_ID'', 42),
      (''OP_CREATE_SESSION'', 43), (''OP_DESTROY_SESSION'', 44), (''OP_FREE_STATEID'', 45),
      (''OP_GET_DIR_DELEGATION'', 46), (''OP_GETDEVICEINFO'', 47), (''OP_GETDEVICELIST'', 48),
      (''OP_LAYOUTCOMMIT'', 49), (''OP_LAYOUTGET'', 50), (''OP_LAYOUTRETURN'', 51),
      (''OP_SECINFO_NO_NAME'', 52), (''OP_SEQUENCE'', 53), (''OP_SET_SSV'', 54),
      (''OP_TEST_STATEID'', 55), (''OP_WANT_DELEGATION'', 56), (''OP_DESTROY_CLIENTID'', 57),
      (''OP_RECLAIM_COMPLETE'', 58), (''OP_ALLOCATE'', 59), (''OP_COPY'', 60),
      (''OP_COPY_NOTIFY'', 61), (''OP_DEALLOCATE'', 62), (''OP_IO_ADVISE'', 63),
      (''OP_LAYOUTERROR'', 64), (''OP_LAYOUTSTATS'', 65), (''OP_OFFLOAD_CANCEL'', 66),
      (''OP_OFFLOAD_STATUS'', 67), (''OP_READ_PLUS'', 68), (''OP_SEEK'', 69),
      (''OP_WRITE_SAME'', 70), (''OP_CLONE'', 71), (''OP_GETXATTR'', 72), (''OP_SETXATTR'', 73),
      (''OP_LISTXATTRS'', 74), (''OP_REMOVEXATTR'', 75), (''OP_ILLEGAL'', 10044)]"

definition enum_nfs_stat :: cty where
  "enum_nfs_stat = CEnum 4
     [(''NFS_OK'', 0), (''NFSERR_PERM'', 1), (''NFSERR_NOENT'', 2), (''NFSERR_IO'', 5),
      (''NFSERR_NXIO'', 6), (''NFSERR_ACCES'', 13), (''NFSERR_EXIST'', 17),
      (''NFSERR_XDEV'', 18), (''NFSERR_NODEV'', 19), (''NFSERR_NOTDIR'', 20),
      (''NFSERR_ISDIR'', 21), (''NFSERR_INVAL'', 22), (''NFSERR_FBIG'', 27),
      (''NFSERR_NOSPC'', 28), (''NFSERR_ROFS'', 30), (''NFSERR_MLINK'', 31),
      (''NFSERR_NAMETOOLONG'', 63), (''NFSERR_NOTEMPTY'', 66), (''NFSERR_DQUOT'', 69),
      (''NFSERR_STALE'', 70), (''NFSERR_REMOTE'', 71), (''NFSERR_WFLUSH'', 99),
      (''NFSERR_BADHANDLE'', 10001), (''NFSERR_NOT_SYNC'', 10002),
      (''NFSERR_BAD_COOKIE'', 10003), (''NFSERR_NOTSUPP'', 10004), (''NFSERR_TOOSMALL'', 10005),
      (''NFSERR_SERVERFAULT'', 10006), (''NFSERR_BADTYPE'', 10007), (''NFSERR_JUKEBOX'', 10008),
      (''NFSERR_SAME'', 10009), (''NFSERR_DENIED'', 10010), (''NFSERR_EXPIRED'', 10011),
      (''NFSERR_LOCKED'', 10012), (''NFSERR_GRACE'', 10013), (''NFSERR_FHEXPIRED'', 10014),
      (''NFSERR_SHARE_DENIED'', 10015), (''NFSERR_WRONGSEC'', 10016),
      (''NFSERR_CLID_INUSE'', 10017), (''NFSERR_RESOURCE'', 10018), (''NFSERR_MOVED'', 10019),
      (''NFSERR_NOFILEHANDLE'', 10020), (''NFSERR_MINOR_VERS_MISMATCH'', 10021),
      (''NFSERR_STALE_CLIENTID'', 10022), (''NFSERR_STALE_STATEID'', 10023),
      (''NFSERR_OLD_STATEID'', 10024), (''NFSERR_BAD_STATEID'', 10025),
      (''NFSERR_BAD_SEQID'', 10026), (''NFSERR_NOT_SAME'', 10027),
      (''NFSERR_LOCK_RANGE'', 10028), (''NFSERR_SYMLINK'', 10029),
      (''NFSERR_RESTOREFH'', 10030), (''NFSERR_LEASE_MOVED'', 10031),
      (''NFSERR_ATTRNOTSUPP'', 10032), (''NFSERR_NO_GRACE'', 10033),
      (''NFSERR_RECLAIM_BAD'', 10034), (''NFSERR_RECLAIM_CONFLICT'', 10035),
      (''NFSERR_BAD_XDR'', 10036), (''NFSERR_LOCKS_HELD'', 10037), (''NFSERR_OPENMODE'', 10038),
      (''NFSERR_BADOWNER'', 10039), (''NFSERR_BADCHAR'', 10040), (''NFSERR_BADNAME'', 10041),
      (''NFSERR_BAD_RANGE'', 10042), (''NFSERR_LOCK_NOTSUPP'', 10043),
      (''NFSERR_OP_ILLEGAL'', 10044), (''NFSERR_DEADLOCK'', 10045),
      (''NFSERR_FILE_OPEN'', 10046), (''NFSERR_ADMIN_REVOKED'', 10047),
      (''NFSERR_CB_PATH_DOWN'', 10048)]"

definition enum_nfsstat4 :: cty where
  "enum_nfsstat4 = CEnum 4
     [(''NFS4_OK'', 0), (''NFS4ERR_PERM'', 1), (''NFS4ERR_NOENT'', 2), (''NFS4ERR_IO'', 5),
      (''NFS4ERR_NXIO'', 6), (''NFS4ERR_ACCESS'', 13), (''NFS4ERR_EXIST'', 17),
      (''NFS4ERR_XDEV'', 18), (''NFS4ERR_NOTDIR'', 20), (''NFS4ERR_ISDIR'', 21),
      (''NFS4ERR_INVAL'', 22), (''NFS4ERR_FBIG'', 27), (''NFS4ERR_NOSPC'', 28),
      (''NFS4ERR_ROFS'', 30), (''NFS4ERR_MLINK'', 31), (''NFS4ERR_NAMETOOLONG'', 63),
      (''NFS4ERR_NOTEMPTY'', 66), (''NFS4ERR_DQUOT'', 69), (''NFS4ERR_STALE'', 70),
      (''NFS4ERR_BADHANDLE'', 10001), (''NFS4ERR_BAD_COOKIE'', 10003),
      (''NFS4ERR_NOTSUPP'', 10004), (''NFS4ERR_TOOSMALL'', 10005),
      (''NFS4ERR_SERVERFAULT'', 10006), (''NFS4ERR_BADTYPE'', 10007),
      (''NFS4ERR_DELAY'', 10008), (''NFS4ERR_SAME'', 10009), (''NFS4ERR_DENIED'', 10010),
      (''NFS4ERR_EXPIRED'', 10011), (''NFS4ERR_LOCKED'', 10012), (''NFS4ERR_GRACE'', 10013),
      (''NFS4ERR_FHEXPIRED'', 10014), (''NFS4ERR_SHARE_DENIED'', 10015),
      (''NFS4ERR_WRONGSEC'', 10016), (''NFS4ERR_CLID_INUSE'', 10017),
      (''NFS4ERR_RESOURCE'', 10018), (''NFS4ERR_MOVED'', 10019),
      (''NFS4ERR_NOFILEHANDLE'', 10020), (''NFS4ERR_MINOR_VERS_MISMATCH'', 10021),
      (''NFS4ERR_STALE_CLIENTID'', 10022), (''NFS4ERR_STALE_STATEID'', 10023),
      (''NFS4ERR_OLD_STATEID'', 10024), (''NFS4ERR_BAD_STATEID'', 10025),
      (''NFS4ERR_BAD_SEQID'', 10026), (''NFS4ERR_NOT_SAME'', 10027),
      (''NFS4ERR_LOCK_RANGE'', 10028), (''NFS4ERR_SYMLINK'', 10029),
      (''NFS4ERR_RESTOREFH'', 10030), (''NFS4ERR_LEASE_MOVED'', 10031),
      (''NFS4ERR_ATTRNOTSUPP'', 10032), (''NFS4ERR_NO_GRACE'', 10033),
      (''NFS4ERR_RECLAIM_BAD'', 10034), (''NFS4ERR_RECLAIM_CONFLICT'', 10035),
      (''NFS4ERR_BADXDR'', 10036), (''NFS4ERR_LOCKS_HELD'', 10037),
      (''NFS4ERR_OPENMODE'', 10038), (''NFS4ERR_BADOWNER'', 10039),
      (''NFS4ERR_BADCHAR'', 10040), (''NFS4ERR_BADNAME'', 10041),
      (''NFS4ERR_BAD_RANGE'', 10042), (''NFS4ERR_LOCK_NOTSUPP'', 10043),
      (''NFS4ERR_OP_ILLEGAL'', 10044), (''NFS4ERR_DEADLOCK'', 10045),
      (''NFS4ERR_FILE_OPEN'', 10046), (''NFS4ERR_ADMIN_REVOKED'', 10047),
      (''NFS4ERR_CB_PATH_DOWN'', 10048), (''NFS4ERR_BADIOMODE'', 10049),
      (''NFS4ERR_BADLAYOUT'', 10050), (''NFS4ERR_BAD_SESSION_DIGEST'', 10051),
      (''NFS4ERR_BADSESSION'', 10052), (''NFS4ERR_BADSLOT'', 10053),
      (''NFS4ERR_COMPLETE_ALREADY'', 10054), (''NFS4ERR_CONN_NOT_BOUND_TO_SESSION'', 10055),
      (''NFS4ERR_DELEG_ALREADY_WANTED'', 10056), (''NFS4ERR_BACK_CHAN_BUSY'', 10057),
      (''NFS4ERR_LAYOUTTRYLATER'', 10058), (''NFS4ERR_LAYOUTUNAVAILABLE'', 10059),
      (''NFS4ERR_NOMATCHING_LAYOUT'', 10060), (''NFS4ERR_RECALLCONFLICT'', 10061),
      (''NFS4ERR_UNKNOWN_LAYOUTTYPE'', 10062), (''NFS4ERR_SEQ_MISORDERED'', 10063),
      (''NFS4ERR_SEQUENCE_POS'', 10064), (''NFS4ERR_REQ_TOO_BIG'', 10065),
      (''NFS4ERR_REP_TOO_BIG'', 10066), (''NFS4ERR_REP_TOO_BIG_TO_CACHE'', 10067),
      (''NFS4ERR_RETRY_UNCACHED_REP'', 10068), (''NFS4ERR_UNSAFE_COMPOUND'', 10069),
      (''NFS4ERR_TOO_MANY_OPS'', 10070), (''NFS4ERR_OP_NOT_IN_SESSION'', 10071),
      (''NFS4ERR_HASH_ALG_UNSUPP'', 10072), (''NFS4ERR_CLIENTID_BUSY'', 10074),
      (''NFS4ERR_PNFS_IO_HOLE'', 10075), (''NFS4ERR_SEQ_FALSE_RETRY'', 10076),
      (''NFS4ERR_BAD_HIGH_SLOT'', 10077), (''NFS4ERR_DEADSESSION'', 10078),
      (''NFS4ERR_ENCR_ALG_UNSUPP'', 10079), (''NFS4ERR_PNFS_NO_LAYOUT'', 10080),
      (''NFS4ERR_NOT_ONLY_OP'', 10081), (''NFS4ERR_WRONG_CRED'', 10082),
      (''NFS4ERR_WRONG_TYPE'', 10083), (''NFS4ERR_DIRDELEG_UNAVAIL'', 10084),
      (''NFS4ERR_REJECT_DELEG'', 10085), (''NFS4ERR_RETURNCONFLICT'', 10086),
      (''NFS4ERR_DELEG_REVOKED'', 10087), (''NFS4ERR_PARTNER_NOTSUPP'', 10088),
      (''NFS4ERR_PARTNER_NO_AUTH'', 10089), (''NFS4ERR_UNION_NOTSUPP'', 10090),
      (''NFS4ERR_OFFLOAD_DENIED'', 10091), (''NFS4ERR_WRONG_LFS'', 10092),
      (''NFS4ERR_BADLABEL'', 10093), (''NFS4ERR_OFFLOAD_NO_REQS'', 10094),
      (''NFS4ERR_NOXATTR'', 10095), (''NFS4ERR_XATTR2BIG'', 10096),
      (''NFS4ERR_FIRST_FREE'', 10097)]"

definition enum_node_stat_item :: cty where
  "enum_node_stat_item = CEnum 4
     [(''NR_LRU_BASE'', 0), (''NR_INACTIVE_ANON'', 0), (''NR_ACTIVE_ANON'', 1),
      (''NR_INACTIVE_FILE'', 2), (''NR_ACTIVE_FILE'', 3), (''NR_UNEVICTABLE'', 4),
      (''NR_SLAB_RECLAIMABLE_B'', 5), (''NR_SLAB_UNRECLAIMABLE_B'', 6),
      (''NR_ISOLATED_ANON'', 7), (''NR_ISOLATED_FILE'', 8), (''WORKINGSET_NODES'', 9),
      (''WORKINGSET_REFAULT_BASE'', 10), (''WORKINGSET_REFAULT_ANON'', 10),
      (''WORKINGSET_REFAULT_FILE'', 11), (''WORKINGSET_ACTIVATE_BASE'', 12),
      (''WORKINGSET_ACTIVATE_ANON'', 12), (''WORKINGSET_ACTIVATE_FILE'', 13),
      (''WORKINGSET_RESTORE_BASE'', 14), (''WORKINGSET_RESTORE_ANON'', 14),
      (''WORKINGSET_RESTORE_FILE'', 15), (''WORKINGSET_NODERECLAIM'', 16),
      (''NR_ANON_MAPPED'', 17), (''NR_FILE_MAPPED'', 18), (''NR_FILE_PAGES'', 19),
      (''NR_FILE_DIRTY'', 20), (''NR_WRITEBACK'', 21), (''NR_SHMEM'', 22),
      (''NR_SHMEM_THPS'', 23), (''NR_SHMEM_PMDMAPPED'', 24), (''NR_FILE_THPS'', 25),
      (''NR_FILE_PMDMAPPED'', 26), (''NR_ANON_THPS'', 27), (''NR_VMSCAN_WRITE'', 28),
      (''NR_VMSCAN_IMMEDIATE'', 29), (''NR_DIRTIED'', 30), (''NR_WRITTEN'', 31),
      (''NR_THROTTLED_WRITTEN'', 32), (''NR_KERNEL_MISC_RECLAIMABLE'', 33),
      (''NR_FOLL_PIN_ACQUIRED'', 34), (''NR_FOLL_PIN_RELEASED'', 35),
      (''NR_KERNEL_STACK_KB'', 36), (''NR_PAGETABLE'', 37), (''NR_SECONDARY_PAGETABLE'', 38),
      (''NR_IOMMU_PAGES'', 39), (''NR_SWAPCACHE'', 40), (''PGPROMOTE_SUCCESS'', 41),
      (''PGPROMOTE_CANDIDATE'', 42), (''PGPROMOTE_CANDIDATE_NRL'', 43),
      (''PGDEMOTE_KSWAPD'', 44), (''PGDEMOTE_DIRECT'', 45), (''PGDEMOTE_KHUGEPAGED'', 46),
      (''PGDEMOTE_PROACTIVE'', 47), (''NR_HUGETLB'', 48), (''NR_BALLOON_PAGES'', 49),
      (''NR_KERNEL_FILE_PAGES'', 50), (''NR_VM_NODE_STAT_ITEMS'', 51)]"

definition enum_opal_token :: cty where
  "enum_opal_token = CEnum 4
     [(''OPAL_TRUE'', 1), (''OPAL_FALSE'', 0), (''OPAL_BOOLEAN_EXPR'', 3), (''OPAL_TABLE'', 0),
      (''OPAL_STARTROW'', 1), (''OPAL_ENDROW'', 2), (''OPAL_STARTCOLUMN'', 3),
      (''OPAL_ENDCOLUMN'', 4), (''OPAL_VALUES'', 1), (''OPAL_TABLE_UID'', 0),
      (''OPAL_TABLE_NAME'', 1), (''OPAL_TABLE_COMMON'', 2), (''OPAL_TABLE_TEMPLATE'', 3),
      (''OPAL_TABLE_KIND'', 4), (''OPAL_TABLE_COLUMN'', 5), (''OPAL_TABLE_COLUMNS'', 6),
      (''OPAL_TABLE_ROWS'', 7), (''OPAL_TABLE_ROWS_FREE'', 8), (''OPAL_TABLE_ROW_BYTES'', 9),
      (''OPAL_TABLE_LASTID'', 10), (''OPAL_TABLE_MIN'', 11), (''OPAL_TABLE_MAX'', 12),
      (''OPAL_PIN'', 3), (''OPAL_RANGESTART'', 3), (''OPAL_RANGELENGTH'', 4),
      (''OPAL_READLOCKENABLED'', 5), (''OPAL_WRITELOCKENABLED'', 6), (''OPAL_READLOCKED'', 7),
      (''OPAL_WRITELOCKED'', 8), (''OPAL_ACTIVEKEY'', 10), (''OPAL_LIFECYCLE'', 6),
      (''OPAL_MAXRANGES'', 4), (''OPAL_MBRENABLE'', 1), (''OPAL_MBRDONE'', 2),
      (''OPAL_HOSTPROPERTIES'', 0), (''OPAL_STARTLIST'', 240), (''OPAL_ENDLIST'', 241),
      (''OPAL_STARTNAME'', 242), (''OPAL_ENDNAME'', 243), (''OPAL_CALL'', 248),
      (''OPAL_ENDOFDATA'', 249), (''OPAL_ENDOFSESSION'', 250), (''OPAL_STARTTRANSACTON'', 251),
      (''OPAL_ENDTRANSACTON'', 252), (''OPAL_EMPTYATOM'', 255), (''OPAL_WHERE'', 0)]"

definition enum_opal_uid :: cty where
  "enum_opal_uid = CEnum 4
     [(''OPAL_SMUID_UID'', 0), (''OPAL_THISSP_UID'', 1), (''OPAL_ADMINSP_UID'', 2),
      (''OPAL_LOCKINGSP_UID'', 3), (''OPAL_ENTERPRISE_LOCKINGSP_UID'', 4),
      (''OPAL_ANYBODY_UID'', 5), (''OPAL_SID_UID'', 6), (''OPAL_ADMIN1_UID'', 7),
      (''OPAL_USER1_UID'', 8), (''OPAL_USER2_UID'', 9), (''OPAL_PSID_UID'', 10),
      (''OPAL_ENTERPRISE_BANDMASTER0_UID'', 11), (''OPAL_ENTERPRISE_ERASEMASTER_UID'', 12),
      (''OPAL_TABLE_TABLE'', 13), (''OPAL_LOCKINGRANGE_GLOBAL'', 14),
      (''OPAL_LOCKINGRANGE_ACE_START_TO_KEY'', 15), (''OPAL_LOCKINGRANGE_ACE_RDLOCKED'', 16),
      (''OPAL_LOCKINGRANGE_ACE_WRLOCKED'', 17), (''OPAL_MBRCONTROL'', 18), (''OPAL_MBR'', 19),
      (''OPAL_AUTHORITY_TABLE'', 20), (''OPAL_C_PIN_TABLE'', 21),
      (''OPAL_LOCKING_INFO_TABLE'', 22), (''OPAL_ENTERPRISE_LOCKING_INFO_TABLE'', 23),
      (''OPAL_DATASTORE'', 24), (''OPAL_C_PIN_MSID'', 25), (''OPAL_C_PIN_SID'', 26),
      (''OPAL_C_PIN_ADMIN1'', 27), (''OPAL_HALF_UID_AUTHORITY_OBJ_REF'', 28),
      (''OPAL_HALF_UID_BOOLEAN_ACE'', 29), (''OPAL_UID_HEXFF'', 30)]"

definition enum_pageflags :: cty where
  "enum_pageflags = CEnum 4
     [(''PG_locked'', 0), (''PG_writeback'', 1), (''PG_referenced'', 2), (''PG_uptodate'', 3),
      (''PG_dirty'', 4), (''PG_lru'', 5), (''PG_head'', 6), (''PG_waiters'', 7),
      (''PG_active'', 8), (''PG_workingset'', 9), (''PG_owner_priv_1'', 10),
      (''PG_owner_2'', 11), (''PG_arch_1'', 12), (''PG_reserved'', 13), (''PG_private'', 14),
      (''PG_private_2'', 15), (''PG_reclaim'', 16), (''PG_swapbacked'', 17),
      (''PG_unevictable'', 18), (''PG_dropbehind'', 19), (''PG_mlocked'', 20),
      (''PG_hwpoison'', 21), (''PG_young'', 22), (''PG_idle'', 23), (''PG_arch_2'', 24),
      (''__NR_PAGEFLAGS'', 25), (''PG_readahead'', 16), (''PG_swapcache'', 10),
      (''PG_checked'', 10), (''PG_anon_exclusive'', 11), (''PG_mappedtodisk'', 11),
      (''PG_fscache'', 15), (''PG_pinned'', 10), (''PG_savepinned'', 4), (''PG_foreign'', 10),
      (''PG_xen_remapped'', 10), (''PG_movable_ops_isolated'', 16), (''PG_movable_ops'', 3),
      (''PG_reported'', 3), (''PG_vmemmap_self_hosted'', 10), (''PG_has_hwpoisoned'', 8),
      (''PG_large_rmappable'', 9), (''PG_partially_mapped'', 16)]"

definition enum_palmas_external_requestor_id :: cty where
  "enum_palmas_external_requestor_id = CEnum 4
     [(''PALMAS_EXTERNAL_REQSTR_ID_REGEN1'', 0), (''PALMAS_EXTERNAL_REQSTR_ID_REGEN2'', 1),
      (''PALMAS_EXTERNAL_REQSTR_ID_SYSEN1'', 2), (''PALMAS_EXTERNAL_REQSTR_ID_SYSEN2'', 3),
      (''PALMAS_EXTERNAL_REQSTR_ID_CLK32KG'', 4),
      (''PALMAS_EXTERNAL_REQSTR_ID_CLK32KGAUDIO'', 5),
      (''PALMAS_EXTERNAL_REQSTR_ID_REGEN3'', 6), (''PALMAS_EXTERNAL_REQSTR_ID_SMPS12'', 7),
      (''PALMAS_EXTERNAL_REQSTR_ID_SMPS3'', 8), (''PALMAS_EXTERNAL_REQSTR_ID_SMPS45'', 9),
      (''PALMAS_EXTERNAL_REQSTR_ID_SMPS6'', 10), (''PALMAS_EXTERNAL_REQSTR_ID_SMPS7'', 11),
      (''PALMAS_EXTERNAL_REQSTR_ID_SMPS8'', 12), (''PALMAS_EXTERNAL_REQSTR_ID_SMPS9'', 13),
      (''PALMAS_EXTERNAL_REQSTR_ID_SMPS10'', 14), (''PALMAS_EXTERNAL_REQSTR_ID_LDO1'', 15),
      (''PALMAS_EXTERNAL_REQSTR_ID_LDO2'', 16), (''PALMAS_EXTERNAL_REQSTR_ID_LDO3'', 17),
      (''PALMAS_EXTERNAL_REQSTR_ID_LDO4'', 18), (''PALMAS_EXTERNAL_REQSTR_ID_LDO5'', 19),
      (''PALMAS_EXTERNAL_REQSTR_ID_LDO6'', 20), (''PALMAS_EXTERNAL_REQSTR_ID_LDO7'', 21),
      (''PALMAS_EXTERNAL_REQSTR_ID_LDO8'', 22), (''PALMAS_EXTERNAL_REQSTR_ID_LDO9'', 23),
      (''PALMAS_EXTERNAL_REQSTR_ID_LDOLN'', 24), (''PALMAS_EXTERNAL_REQSTR_ID_LDOUSB'', 25),
      (''PALMAS_EXTERNAL_REQSTR_ID_MAX'', 26)]"

definition enum_palmas_irqs :: cty where
  "enum_palmas_irqs = CEnum 4
     [(''PALMAS_CHARG_DET_N_VBUS_OVV_IRQ'', 0), (''PALMAS_PWRON_IRQ'', 1),
      (''PALMAS_LONG_PRESS_KEY_IRQ'', 2), (''PALMAS_RPWRON_IRQ'', 3),
      (''PALMAS_PWRDOWN_IRQ'', 4), (''PALMAS_HOTDIE_IRQ'', 5), (''PALMAS_VSYS_MON_IRQ'', 6),
      (''PALMAS_VBAT_MON_IRQ'', 7), (''PALMAS_RTC_ALARM_IRQ'', 8),
      (''PALMAS_RTC_TIMER_IRQ'', 9), (''PALMAS_WDT_IRQ'', 10), (''PALMAS_BATREMOVAL_IRQ'', 11),
      (''PALMAS_RESET_IN_IRQ'', 12), (''PALMAS_FBI_BB_IRQ'', 13), (''PALMAS_SHORT_IRQ'', 14),
      (''PALMAS_VAC_ACOK_IRQ'', 15), (''PALMAS_GPADC_AUTO_0_IRQ'', 16),
      (''PALMAS_GPADC_AUTO_1_IRQ'', 17), (''PALMAS_GPADC_EOC_SW_IRQ'', 18),
      (''PALMAS_GPADC_EOC_RT_IRQ'', 19), (''PALMAS_ID_OTG_IRQ'', 20), (''PALMAS_ID_IRQ'', 21),
      (''PALMAS_VBUS_OTG_IRQ'', 22), (''PALMAS_VBUS_IRQ'', 23), (''PALMAS_GPIO_0_IRQ'', 24),
      (''PALMAS_GPIO_1_IRQ'', 25), (''PALMAS_GPIO_2_IRQ'', 26), (''PALMAS_GPIO_3_IRQ'', 27),
      (''PALMAS_GPIO_4_IRQ'', 28), (''PALMAS_GPIO_5_IRQ'', 29), (''PALMAS_GPIO_6_IRQ'', 30),
      (''PALMAS_GPIO_7_IRQ'', 31), (''PALMAS_NUM_IRQ'', 32)]"

definition enum_palmas_regulators :: cty where
  "enum_palmas_regulators = CEnum 4
     [(''PALMAS_REG_SMPS12'', 0), (''PALMAS_REG_SMPS123'', 1), (''PALMAS_REG_SMPS3'', 2),
      (''PALMAS_REG_SMPS45'', 3), (''PALMAS_REG_SMPS457'', 4), (''PALMAS_REG_SMPS6'', 5),
      (''PALMAS_REG_SMPS7'', 6), (''PALMAS_REG_SMPS8'', 7), (''PALMAS_REG_SMPS9'', 8),
      (''PALMAS_REG_SMPS10_OUT2'', 9), (''PALMAS_REG_SMPS10_OUT1'', 10),
      (''PALMAS_REG_LDO1'', 11), (''PALMAS_REG_LDO2'', 12), (''PALMAS_REG_LDO3'', 13),
      (''PALMAS_REG_LDO4'', 14), (''PALMAS_REG_LDO5'', 15), (''PALMAS_REG_LDO6'', 16),
      (''PALMAS_REG_LDO7'', 17), (''PALMAS_REG_LDO8'', 18), (''PALMAS_REG_LDO9'', 19),
      (''PALMAS_REG_LDOLN'', 20), (''PALMAS_REG_LDOUSB'', 21), (''PALMAS_REG_REGEN1'', 22),
      (''PALMAS_REG_REGEN2'', 23), (''PALMAS_REG_REGEN3'', 24), (''PALMAS_REG_SYSEN1'', 25),
      (''PALMAS_REG_SYSEN2'', 26), (''PALMAS_NUM_REGS'', 27)]"

definition enum_pin_config_param :: cty where
  "enum_pin_config_param = CEnum 4
     [(''PIN_CONFIG_BIAS_BUS_HOLD'', 0), (''PIN_CONFIG_BIAS_DISABLE'', 1),
      (''PIN_CONFIG_BIAS_HIGH_IMPEDANCE'', 2), (''PIN_CONFIG_BIAS_PULL_DOWN'', 3),
      (''PIN_CONFIG_BIAS_PULL_PIN_DEFAULT'', 4), (''PIN_CONFIG_BIAS_PULL_UP'', 5),
      (''PIN_CONFIG_DRIVE_OPEN_DRAIN'', 6), (''PIN_CONFIG_DRIVE_OPEN_SOURCE'', 7),
      (''PIN_CONFIG_DRIVE_PUSH_PULL'', 8), (''PIN_CONFIG_DRIVE_STRENGTH'', 9),
      (''PIN_CONFIG_DRIVE_STRENGTH_UA'', 10), (''PIN_CONFIG_INPUT_DEBOUNCE'', 11),
      (''PIN_CONFIG_INPUT_ENABLE'', 12), (''PIN_CONFIG_INPUT_SCHMITT'', 13),
      (''PIN_CONFIG_INPUT_SCHMITT_ENABLE'', 14), (''PIN_CONFIG_INPUT_SCHMITT_UV'', 15),
      (''PIN_CONFIG_MODE_LOW_POWER'', 16), (''PIN_CONFIG_MODE_PWM'', 17),
      (''PIN_CONFIG_LEVEL'', 18), (''PIN_CONFIG_OUTPUT_ENABLE'', 19),
      (''PIN_CONFIG_OUTPUT_IMPEDANCE_OHMS'', 20), (''PIN_CONFIG_PERSIST_STATE'', 21),
      (''PIN_CONFIG_POWER_SOURCE'', 22), (''PIN_CONFIG_SKEW_DELAY'', 23),
      (''PIN_CONFIG_SKEW_DELAY_INPUT_PS'', 24), (''PIN_CONFIG_SKEW_DELAY_OUTPUT_PS'', 25),
      (''PIN_CONFIG_SLEEP_HARDWARE_STATE'', 26), (''PIN_CONFIG_SLEW_RATE'', 27),
      (''PIN_CONFIG_END'', 127), (''PIN_CONFIG_MAX'', 255)]"

definition enum_policy_opt :: cty where
  "enum_policy_opt = CEnum 4
     [(''Opt_measure'', 0), (''Opt_dont_measure'', 1), (''Opt_appraise'', 2),
      (''Opt_dont_appraise'', 3), (''Opt_audit'', 4), (''Opt_dont_audit'', 5),
      (''Opt_hash___3'', 6), (''Opt_dont_hash'', 7), (''Opt_obj_user'', 8),
      (''Opt_obj_role'', 9), (''Opt_obj_type'', 10), (''Opt_subj_user'', 11),
      (''Opt_subj_role'', 12), (''Opt_subj_type'', 13), (''Opt_func'', 14), (''Opt_mask'', 15),
      (''Opt_fsmagic'', 16), (''Opt_fsname'', 17), (''Opt_fs_subtype'', 18),
      (''Opt_fsuuid'', 19), (''Opt_uid_eq'', 20), (''Opt_euid_eq'', 21), (''Opt_gid_eq'', 22),
      (''Opt_egid_eq'', 23), (''Opt_fowner_eq'', 24), (''Opt_fgroup_eq'', 25),
      (''Opt_uid_gt'', 26), (''Opt_euid_gt'', 27), (''Opt_gid_gt'', 28), (''Opt_egid_gt'', 29),
      (''Opt_fowner_gt'', 30), (''Opt_fgroup_gt'', 31), (''Opt_uid_lt'', 32),
      (''Opt_euid_lt'', 33), (''Opt_gid_lt'', 34), (''Opt_egid_lt'', 35),
      (''Opt_fowner_lt'', 36), (''Opt_fgroup_lt'', 37), (''Opt_digest_type'', 38),
      (''Opt_appraise_type'', 39), (''Opt_appraise_flag'', 40), (''Opt_appraise_algos'', 41),
      (''Opt_permit_directio'', 42), (''Opt_pcr'', 43), (''Opt_template'', 44),
      (''Opt_keyrings'', 45), (''Opt_label'', 46), (''Opt_err___7'', 47)]"

definition enum_power_supply_property :: cty where
  "enum_power_supply_property = CEnum 4
     [(''POWER_SUPPLY_PROP_STATUS'', 0), (''POWER_SUPPLY_PROP_CHARGE_TYPE'', 1),
      (''POWER_SUPPLY_PROP_CHARGE_TYPES'', 2), (''POWER_SUPPLY_PROP_HEALTH'', 3),
      (''POWER_SUPPLY_PROP_PRESENT'', 4), (''POWER_SUPPLY_PROP_ONLINE'', 5),
      (''POWER_SUPPLY_PROP_AUTHENTIC'', 6), (''POWER_SUPPLY_PROP_TECHNOLOGY'', 7),
      (''POWER_SUPPLY_PROP_CYCLE_COUNT'', 8), (''POWER_SUPPLY_PROP_VOLTAGE_MAX'', 9),
      (''POWER_SUPPLY_PROP_VOLTAGE_MIN'', 10), (''POWER_SUPPLY_PROP_VOLTAGE_MAX_DESIGN'', 11),
      (''POWER_SUPPLY_PROP_VOLTAGE_MIN_DESIGN'', 12), (''POWER_SUPPLY_PROP_VOLTAGE_NOW'', 13),
      (''POWER_SUPPLY_PROP_VOLTAGE_AVG'', 14), (''POWER_SUPPLY_PROP_VOLTAGE_OCV'', 15),
      (''POWER_SUPPLY_PROP_VOLTAGE_BOOT'', 16), (''POWER_SUPPLY_PROP_CURRENT_MAX'', 17),
      (''POWER_SUPPLY_PROP_CURRENT_NOW'', 18), (''POWER_SUPPLY_PROP_CURRENT_AVG'', 19),
      (''POWER_SUPPLY_PROP_CURRENT_BOOT'', 20), (''POWER_SUPPLY_PROP_POWER_NOW'', 21),
      (''POWER_SUPPLY_PROP_POWER_AVG'', 22), (''POWER_SUPPLY_PROP_CHARGE_FULL_DESIGN'', 23),
      (''POWER_SUPPLY_PROP_CHARGE_EMPTY_DESIGN'', 24), (''POWER_SUPPLY_PROP_CHARGE_FULL'', 25),
      (''POWER_SUPPLY_PROP_CHARGE_EMPTY'', 26), (''POWER_SUPPLY_PROP_CHARGE_NOW'', 27),
      (''POWER_SUPPLY_PROP_CHARGE_AVG'', 28), (''POWER_SUPPLY_PROP_CHARGE_COUNTER'', 29),
      (''POWER_SUPPLY_PROP_CONSTANT_CHARGE_CURRENT'', 30),
      (''POWER_SUPPLY_PROP_CONSTANT_CHARGE_CURRENT_MAX'', 31),
      (''POWER_SUPPLY_PROP_CONSTANT_CHARGE_VOLTAGE'', 32),
      (''POWER_SUPPLY_PROP_CONSTANT_CHARGE_VOLTAGE_MAX'', 33),
      (''POWER_SUPPLY_PROP_CHARGE_CONTROL_LIMIT'', 34),
      (''POWER_SUPPLY_PROP_CHARGE_CONTROL_LIMIT_MAX'', 35),
      (''POWER_SUPPLY_PROP_CHARGE_CONTROL_START_THRESHOLD'', 36),
      (''POWER_SUPPLY_PROP_CHARGE_CONTROL_END_THRESHOLD'', 37),
      (''POWER_SUPPLY_PROP_CHARGE_BEHAVIOUR'', 38),
      (''POWER_SUPPLY_PROP_INPUT_CURRENT_LIMIT'', 39),
      (''POWER_SUPPLY_PROP_INPUT_VOLTAGE_LIMIT'', 40),
      (''POWER_SUPPLY_PROP_INPUT_POWER_LIMIT'', 41),
      (''POWER_SUPPLY_PROP_ENERGY_FULL_DESIGN'', 42),
      (''POWER_SUPPLY_PROP_ENERGY_EMPTY_DESIGN'', 43), (''POWER_SUPPLY_PROP_ENERGY_FULL'', 44),
      (''POWER_SUPPLY_PROP_ENERGY_EMPTY'', 45), (''POWER_SUPPLY_PROP_ENERGY_NOW'', 46),
      (''POWER_SUPPLY_PROP_ENERGY_AVG'', 47), (''POWER_SUPPLY_PROP_CAPACITY'', 48),
      (''POWER_SUPPLY_PROP_CAPACITY_ALERT_MIN'', 49),
      (''POWER_SUPPLY_PROP_CAPACITY_ALERT_MAX'', 50),
      (''POWER_SUPPLY_PROP_CAPACITY_ERROR_MARGIN'', 51),
      (''POWER_SUPPLY_PROP_CAPACITY_LEVEL'', 52), (''POWER_SUPPLY_PROP_TEMP'', 53),
      (''POWER_SUPPLY_PROP_TEMP_MAX'', 54), (''POWER_SUPPLY_PROP_TEMP_MIN'', 55),
      (''POWER_SUPPLY_PROP_TEMP_ALERT_MIN'', 56), (''POWER_SUPPLY_PROP_TEMP_ALERT_MAX'', 57),
      (''POWER_SUPPLY_PROP_TEMP_AMBIENT'', 58),
      (''POWER_SUPPLY_PROP_TEMP_AMBIENT_ALERT_MIN'', 59),
      (''POWER_SUPPLY_PROP_TEMP_AMBIENT_ALERT_MAX'', 60),
      (''POWER_SUPPLY_PROP_TIME_TO_EMPTY_NOW'', 61),
      (''POWER_SUPPLY_PROP_TIME_TO_EMPTY_AVG'', 62),
      (''POWER_SUPPLY_PROP_TIME_TO_FULL_NOW'', 63),
      (''POWER_SUPPLY_PROP_TIME_TO_FULL_AVG'', 64), (''POWER_SUPPLY_PROP_TYPE'', 65),
      (''POWER_SUPPLY_PROP_USB_TYPE'', 66), (''POWER_SUPPLY_PROP_SCOPE'', 67),
      (''POWER_SUPPLY_PROP_PRECHARGE_CURRENT'', 68),
      (''POWER_SUPPLY_PROP_CHARGE_TERM_CURRENT'', 69), (''POWER_SUPPLY_PROP_CALIBRATE'', 70),
      (''POWER_SUPPLY_PROP_MANUFACTURE_YEAR'', 71),
      (''POWER_SUPPLY_PROP_MANUFACTURE_MONTH'', 72),
      (''POWER_SUPPLY_PROP_MANUFACTURE_DAY'', 73),
      (''POWER_SUPPLY_PROP_INTERNAL_RESISTANCE'', 74),
      (''POWER_SUPPLY_PROP_STATE_OF_HEALTH'', 75), (''POWER_SUPPLY_PROP_MODEL_NAME'', 76),
      (''POWER_SUPPLY_PROP_MANUFACTURER'', 77), (''POWER_SUPPLY_PROP_SERIAL_NUMBER'', 78)]"

definition enum_regnames :: cty where
  "enum_regnames = CEnum 4
     [(''GDB_AX'', 0), (''GDB_BX'', 1), (''GDB_CX'', 2), (''GDB_DX'', 3), (''GDB_SI'', 4),
      (''GDB_DI'', 5), (''GDB_BP'', 6), (''GDB_SP'', 7), (''GDB_R8'', 8), (''GDB_R9'', 9),
      (''GDB_R10'', 10), (''GDB_R11'', 11), (''GDB_R12'', 12), (''GDB_R13'', 13),
      (''GDB_R14'', 14), (''GDB_R15'', 15), (''GDB_PC'', 16), (''GDB_PS'', 17),
      (''GDB_CS'', 18), (''GDB_SS'', 19), (''GDB_DS'', 20), (''GDB_ES'', 21), (''GDB_FS'', 22),
      (''GDB_GS'', 23)]"

definition enum_rtattr_type_t :: cty where
  "enum_rtattr_type_t = CEnum 4
     [(''RTA_UNSPEC'', 0), (''RTA_DST'', 1), (''RTA_SRC'', 2), (''RTA_IIF'', 3),
      (''RTA_OIF'', 4), (''RTA_GATEWAY'', 5), (''RTA_PRIORITY'', 6), (''RTA_PREFSRC'', 7),
      (''RTA_METRICS'', 8), (''RTA_MULTIPATH'', 9), (''RTA_PROTOINFO'', 10), (''RTA_FLOW'', 11),
      (''RTA_CACHEINFO'', 12), (''RTA_SESSION'', 13), (''RTA_MP_ALGO'', 14),
      (''RTA_TABLE'', 15), (''RTA_MARK'', 16), (''RTA_MFC_STATS'', 17), (''RTA_VIA'', 18),
      (''RTA_NEWDST'', 19), (''RTA_PREF'', 20), (''RTA_ENCAP_TYPE'', 21), (''RTA_ENCAP'', 22),
      (''RTA_EXPIRES'', 23), (''RTA_PAD'', 24), (''RTA_UID'', 25), (''RTA_TTL_PROPAGATE'', 26),
      (''RTA_IP_PROTO'', 27), (''RTA_SPORT'', 28), (''RTA_DPORT'', 29), (''RTA_NH_ID'', 30),
      (''RTA_FLOWLABEL'', 31), (''__RTA_MAX'', 32)]"

definition enum_rtnetlink_groups :: cty where
  "enum_rtnetlink_groups = CEnum 4
     [(''RTNLGRP_NONE'', 0), (''RTNLGRP_LINK'', 1), (''RTNLGRP_NOTIFY'', 2),
      (''RTNLGRP_NEIGH'', 3), (''RTNLGRP_TC'', 4), (''RTNLGRP_IPV4_IFADDR'', 5),
      (''RTNLGRP_IPV4_MROUTE'', 6), (''RTNLGRP_IPV4_ROUTE'', 7), (''RTNLGRP_IPV4_RULE'', 8),
      (''RTNLGRP_IPV6_IFADDR'', 9), (''RTNLGRP_IPV6_MROUTE'', 10), (''RTNLGRP_IPV6_ROUTE'', 11),
      (''RTNLGRP_IPV6_IFINFO'', 12), (''RTNLGRP_DECnet_IFADDR'', 13), (''RTNLGRP_NOP2'', 14),
      (''RTNLGRP_DECnet_ROUTE'', 15), (''RTNLGRP_DECnet_RULE'', 16), (''RTNLGRP_NOP4'', 17),
      (''RTNLGRP_IPV6_PREFIX'', 18), (''RTNLGRP_IPV6_RULE'', 19), (''RTNLGRP_ND_USEROPT'', 20),
      (''RTNLGRP_PHONET_IFADDR'', 21), (''RTNLGRP_PHONET_ROUTE'', 22), (''RTNLGRP_DCB'', 23),
      (''RTNLGRP_IPV4_NETCONF'', 24), (''RTNLGRP_IPV6_NETCONF'', 25), (''RTNLGRP_MDB'', 26),
      (''RTNLGRP_MPLS_ROUTE'', 27), (''RTNLGRP_NSID'', 28), (''RTNLGRP_MPLS_NETCONF'', 29),
      (''RTNLGRP_IPV4_MROUTE_R'', 30), (''RTNLGRP_IPV6_MROUTE_R'', 31),
      (''RTNLGRP_NEXTHOP'', 32), (''RTNLGRP_BRVLAN'', 33), (''RTNLGRP_MCTP_IFADDR'', 34),
      (''RTNLGRP_TUNNEL'', 35), (''RTNLGRP_STATS'', 36), (''RTNLGRP_IPV4_MCADDR'', 37),
      (''RTNLGRP_IPV6_MCADDR'', 38), (''RTNLGRP_IPV6_ACADDR'', 39), (''__RTNLGRP_MAX'', 40)]"

definition enum_scan_result :: cty where
  "enum_scan_result = CEnum 4
     [(''SCAN_FAIL'', 0), (''SCAN_SUCCEED'', 1), (''SCAN_NO_PTE_TABLE'', 2),
      (''SCAN_PMD_MAPPED'', 3), (''SCAN_EXCEED_NONE_PTE'', 4), (''SCAN_EXCEED_SWAP_PTE'', 5),
      (''SCAN_EXCEED_SHARED_PTE'', 6), (''SCAN_PTE_NON_PRESENT'', 7), (''SCAN_PTE_UFFD_WP'', 8),
      (''SCAN_PTE_MAPPED_HUGEPAGE'', 9), (''SCAN_LACK_REFERENCED_PAGE'', 10),
      (''SCAN_PAGE_NULL'', 11), (''SCAN_SCAN_ABORT'', 12), (''SCAN_PAGE_COUNT'', 13),
      (''SCAN_PAGE_LRU'', 14), (''SCAN_PAGE_LOCK'', 15), (''SCAN_PAGE_ANON'', 16),
      (''SCAN_PAGE_COMPOUND'', 17), (''SCAN_ANY_PROCESS'', 18), (''SCAN_VMA_NULL'', 19),
      (''SCAN_VMA_CHECK'', 20), (''SCAN_ADDRESS_RANGE'', 21), (''SCAN_DEL_PAGE_LRU'', 22),
      (''SCAN_ALLOC_HUGE_PAGE_FAIL'', 23), (''SCAN_CGROUP_CHARGE_FAIL'', 24),
      (''SCAN_TRUNCATED'', 25), (''SCAN_PAGE_HAS_PRIVATE'', 26), (''SCAN_STORE_FAILED'', 27),
      (''SCAN_COPY_MC'', 28), (''SCAN_PAGE_FILLED'', 29),
      (''SCAN_PAGE_DIRTY_OR_WRITEBACK'', 30)]"

definition enum_scsi_msg_byte :: cty where
  "enum_scsi_msg_byte = CEnum 4
     [(''COMMAND_COMPLETE'', 0), (''EXTENDED_MESSAGE'', 1), (''SAVE_POINTERS'', 2),
      (''RESTORE_POINTERS'', 3), (''DISCONNECT'', 4), (''INITIATOR_ERROR'', 5),
      (''ABORT_TASK_SET'', 6), (''MESSAGE_REJECT'', 7), (''NOP___2'', 8),
      (''MSG_PARITY_ERROR'', 9), (''LINKED_CMD_COMPLETE'', 10),
      (''LINKED_FLG_CMD_COMPLETE'', 11), (''TARGET_RESET'', 12), (''ABORT_TASK'', 13),
      (''CLEAR_TASK_SET'', 14), (''INITIATE_RECOVERY'', 15), (''RELEASE_RECOVERY'', 16),
      (''TERMINATE_IO_PROC'', 17), (''CLEAR_ACA'', 22), (''LOGICAL_UNIT_RESET'', 23),
      (''SIMPLE_QUEUE_TAG'', 32), (''HEAD_OF_QUEUE_TAG'', 33), (''ORDERED_QUEUE_TAG'', 34),
      (''IGNORE_WIDE_RESIDUE'', 35), (''ACA'', 36), (''QAS_REQUEST'', 85),
      (''BUS_DEVICE_RESET'', 12), (''ABORT'', 6)]"

definition enum_sctp_cid :: cty where
  "enum_sctp_cid = CEnum 4
     [(''SCTP_CID_DATA'', 0), (''SCTP_CID_INIT'', 1), (''SCTP_CID_INIT_ACK'', 2),
      (''SCTP_CID_SACK'', 3), (''SCTP_CID_HEARTBEAT'', 4), (''SCTP_CID_HEARTBEAT_ACK'', 5),
      (''SCTP_CID_ABORT'', 6), (''SCTP_CID_SHUTDOWN'', 7), (''SCTP_CID_SHUTDOWN_ACK'', 8),
      (''SCTP_CID_ERROR'', 9), (''SCTP_CID_COOKIE_ECHO'', 10), (''SCTP_CID_COOKIE_ACK'', 11),
      (''SCTP_CID_ECN_ECNE'', 12), (''SCTP_CID_ECN_CWR'', 13),
      (''SCTP_CID_SHUTDOWN_COMPLETE'', 14), (''SCTP_CID_AUTH'', 15), (''SCTP_CID_I_DATA'', 64),
      (''SCTP_CID_FWD_TSN'', 192), (''SCTP_CID_ASCONF'', 193), (''SCTP_CID_I_FWD_TSN'', 194),
      (''SCTP_CID_ASCONF_ACK'', 128), (''SCTP_CID_RECONF'', 130), (''SCTP_CID_PAD'', 132)]"

definition enum_sctp_param :: cty where
  "enum_sctp_param = CEnum 4
     [(''SCTP_PARAM_HEARTBEAT_INFO'', 256), (''SCTP_PARAM_IPV4_ADDRESS'', 1280),
      (''SCTP_PARAM_IPV6_ADDRESS'', 1536), (''SCTP_PARAM_STATE_COOKIE'', 1792),
      (''SCTP_PARAM_UNRECOGNIZED_PARAMETERS'', 2048),
      (''SCTP_PARAM_COOKIE_PRESERVATIVE'', 2304), (''SCTP_PARAM_HOST_NAME_ADDRESS'', 2816),
      (''SCTP_PARAM_SUPPORTED_ADDRESS_TYPES'', 3072), (''SCTP_PARAM_ECN_CAPABLE'', 128),
      (''SCTP_PARAM_RANDOM'', 640), (''SCTP_PARAM_CHUNKS'', 896),
      (''SCTP_PARAM_HMAC_ALGO'', 1152), (''SCTP_PARAM_SUPPORTED_EXT'', 2176),
      (''SCTP_PARAM_FWD_TSN_SUPPORT'', 192), (''SCTP_PARAM_ADD_IP'', 448),
      (''SCTP_PARAM_DEL_IP'', 704), (''SCTP_PARAM_ERR_CAUSE'', 960),
      (''SCTP_PARAM_SET_PRIMARY'', 1216), (''SCTP_PARAM_SUCCESS_REPORT'', 1472),
      (''SCTP_PARAM_ADAPTATION_LAYER_IND'', 1728), (''SCTP_PARAM_RESET_OUT_REQUEST'', 3328),
      (''SCTP_PARAM_RESET_IN_REQUEST'', 3584), (''SCTP_PARAM_RESET_TSN_REQUEST'', 3840),
      (''SCTP_PARAM_RESET_RESPONSE'', 4096), (''SCTP_PARAM_RESET_ADD_OUT_STREAMS'', 4352),
      (''SCTP_PARAM_RESET_ADD_IN_STREAMS'', 4608)]"

definition enum_sk_rst_reason :: cty where
  "enum_sk_rst_reason = CEnum 4
     [(''SK_RST_REASON_NOT_SPECIFIED'', 0), (''SK_RST_REASON_NO_SOCKET'', 1),
      (''SK_RST_REASON_TCP_INVALID_ACK_SEQUENCE'', 2), (''SK_RST_REASON_TCP_RFC7323_PAWS'', 3),
      (''SK_RST_REASON_TCP_TOO_OLD_ACK'', 4), (''SK_RST_REASON_TCP_ACK_UNSENT_DATA'', 5),
      (''SK_RST_REASON_TCP_FLAGS'', 6), (''SK_RST_REASON_TCP_OLD_ACK'', 7),
      (''SK_RST_REASON_TCP_ABORT_ON_DATA'', 8), (''SK_RST_REASON_TCP_TIMEWAIT_SOCKET'', 9),
      (''SK_RST_REASON_INVALID_SYN'', 10), (''SK_RST_REASON_TCP_ABORT_ON_CLOSE'', 11),
      (''SK_RST_REASON_TCP_ABORT_ON_LINGER'', 12), (''SK_RST_REASON_TCP_ABORT_ON_MEMORY'', 13),
      (''SK_RST_REASON_TCP_STATE'', 14), (''SK_RST_REASON_TCP_KEEPALIVE_TIMEOUT'', 15),
      (''SK_RST_REASON_TCP_DISCONNECT_WITH_DATA'', 16),
      (''SK_RST_REASON_MPTCP_RST_EUNSPEC'', 17), (''SK_RST_REASON_MPTCP_RST_EMPTCP'', 18),
      (''SK_RST_REASON_MPTCP_RST_ERESOURCE'', 19), (''SK_RST_REASON_MPTCP_RST_EPROHIBIT'', 20),
      (''SK_RST_REASON_MPTCP_RST_EWQ2BIG'', 21), (''SK_RST_REASON_MPTCP_RST_EBADPERF'', 22),
      (''SK_RST_REASON_MPTCP_RST_EMIDDLEBOX'', 23), (''SK_RST_REASON_ERROR'', 24),
      (''SK_RST_REASON_MAX'', 25)]"

definition enum_skb_drop_reason :: cty where
  "enum_skb_drop_reason = CEnum 4
     [(''SKB_NOT_DROPPED_YET'', 0), (''SKB_CONSUMED'', 1),
      (''SKB_DROP_REASON_NOT_SPECIFIED'', 2), (''SKB_DROP_REASON_NO_SOCKET'', 3),
      (''SKB_DROP_REASON_SOCKET_CLOSE'', 4), (''SKB_DROP_REASON_SOCKET_FILTER'', 5),
      (''SKB_DROP_REASON_SOCKET_RCVBUFF'', 6), (''SKB_DROP_REASON_UNIX_DISCONNECT'', 7),
      (''SKB_DROP_REASON_UNIX_SKIP_OOB'', 8), (''SKB_DROP_REASON_PKT_TOO_SMALL'', 9),
      (''SKB_DROP_REASON_TCP_CSUM'', 10), (''SKB_DROP_REASON_UDP_CSUM'', 11),
      (''SKB_DROP_REASON_NETFILTER_DROP'', 12), (''SKB_DROP_REASON_OTHERHOST'', 13),
      (''SKB_DROP_REASON_IP_CSUM'', 14), (''SKB_DROP_REASON_IP_INHDR'', 15),
      (''SKB_DROP_REASON_IP_RPFILTER'', 16), (''SKB_DROP_REASON_UNICAST_IN_L2_MULTICAST'', 17),
      (''SKB_DROP_REASON_XFRM_POLICY'', 18), (''SKB_DROP_REASON_IP_NOPROTO'', 19),
      (''SKB_DROP_REASON_PROTO_MEM'', 20), (''SKB_DROP_REASON_TCP_AUTH_HDR'', 21),
      (''SKB_DROP_REASON_TCP_MD5NOTFOUND'', 22), (''SKB_DROP_REASON_TCP_MD5UNEXPECTED'', 23),
      (''SKB_DROP_REASON_TCP_MD5FAILURE'', 24), (''SKB_DROP_REASON_TCP_AONOTFOUND'', 25),
      (''SKB_DROP_REASON_TCP_AOUNEXPECTED'', 26), (''SKB_DROP_REASON_TCP_AOKEYNOTFOUND'', 27),
      (''SKB_DROP_REASON_TCP_AOFAILURE'', 28), (''SKB_DROP_REASON_SOCKET_BACKLOG'', 29),
      (''SKB_DROP_REASON_TCP_FLAGS'', 30), (''SKB_DROP_REASON_TCP_ABORT_ON_DATA'', 31),
      (''SKB_DROP_REASON_TCP_ZEROWINDOW'', 32), (''SKB_DROP_REASON_TCP_OLD_DATA'', 33),
      (''SKB_DROP_REASON_TCP_OVERWINDOW'', 34), (''SKB_DROP_REASON_TCP_OFOMERGE'', 35),
      (''SKB_DROP_REASON_TCP_RFC7323_PAWS'', 36),
      (''SKB_DROP_REASON_TCP_RFC7323_PAWS_ACK'', 37),
      (''SKB_DROP_REASON_TCP_RFC7323_TW_PAWS'', 38),
      (''SKB_DROP_REASON_TCP_RFC7323_TSECR'', 39),
      (''SKB_DROP_REASON_TCP_LISTEN_OVERFLOW'', 40), (''SKB_DROP_REASON_TCP_OLD_SEQUENCE'', 41),
      (''SKB_DROP_REASON_TCP_INVALID_SEQUENCE'', 42),
      (''SKB_DROP_REASON_TCP_INVALID_END_SEQUENCE'', 43),
      (''SKB_DROP_REASON_TCP_INVALID_ACK_SEQUENCE'', 44), (''SKB_DROP_REASON_TCP_RESET'', 45),
      (''SKB_DROP_REASON_TCP_INVALID_SYN'', 46), (''SKB_DROP_REASON_TCP_CLOSE'', 47),
      (''SKB_DROP_REASON_TCP_FASTOPEN'', 48), (''SKB_DROP_REASON_TCP_OLD_ACK'', 49),
      (''SKB_DROP_REASON_TCP_TOO_OLD_ACK'', 50), (''SKB_DROP_REASON_TCP_ACK_UNSENT_DATA'', 51),
      (''SKB_DROP_REASON_TCP_OFO_QUEUE_PRUNE'', 52), (''SKB_DROP_REASON_TCP_OFO_DROP'', 53),
      (''SKB_DROP_REASON_IP_OUTNOROUTES'', 54), (''SKB_DROP_REASON_BPF_CGROUP_EGRESS'', 55),
      (''SKB_DROP_REASON_IPV6DISABLED'', 56), (''SKB_DROP_REASON_NEIGH_CREATEFAIL'', 57),
      (''SKB_DROP_REASON_NEIGH_FAILED'', 58), (''SKB_DROP_REASON_NEIGH_QUEUEFULL'', 59),
      (''SKB_DROP_REASON_NEIGH_DEAD'', 60), (''SKB_DROP_REASON_NEIGH_HH_FILLFAIL'', 61),
      (''SKB_DROP_REASON_TC_EGRESS'', 62), (''SKB_DROP_REASON_SECURITY_HOOK'', 63),
      (''SKB_DROP_REASON_QDISC_DROP'', 64), (''SKB_DROP_REASON_QDISC_BURST_DROP'', 65),
      (''SKB_DROP_REASON_QDISC_OVERLIMIT'', 66), (''SKB_DROP_REASON_QDISC_CONGESTED'', 67),
      (''SKB_DROP_REASON_CAKE_FLOOD'', 68), (''SKB_DROP_REASON_FQ_BAND_LIMIT'', 69),
      (''SKB_DROP_REASON_FQ_HORIZON_LIMIT'', 70), (''SKB_DROP_REASON_FQ_FLOW_LIMIT'', 71),
      (''SKB_DROP_REASON_CPU_BACKLOG'', 72), (''SKB_DROP_REASON_XDP'', 73),
      (''SKB_DROP_REASON_TC_INGRESS'', 74), (''SKB_DROP_REASON_UNHANDLED_PROTO'', 75),
      (''SKB_DROP_REASON_SKB_CSUM'', 76), (''SKB_DROP_REASON_SKB_GSO_SEG'', 77),
      (''SKB_DROP_REASON_SKB_BAD_GSO'', 78), (''SKB_DROP_REASON_SKB_UCOPY_FAULT'', 79),
      (''SKB_DROP_REASON_DEV_HDR'', 80), (''SKB_DROP_REASON_DEV_READY'', 81),
      (''SKB_DROP_REASON_FULL_RING'', 82), (''SKB_DROP_REASON_NOMEM'', 83),
      (''SKB_DROP_REASON_HDR_TRUNC'', 84), (''SKB_DROP_REASON_TAP_FILTER'', 85),
      (''SKB_DROP_REASON_TAP_TXFILTER'', 86), (''SKB_DROP_REASON_ICMP_CSUM'', 87),
      (''SKB_DROP_REASON_INVALID_PROTO'', 88), (''SKB_DROP_REASON_IP_INADDRERRORS'', 89),
      (''SKB_DROP_REASON_IP_INNOROUTES'', 90), (''SKB_DROP_REASON_IP_LOCAL_SOURCE'', 91),
      (''SKB_DROP_REASON_IP_INVALID_SOURCE'', 92), (''SKB_DROP_REASON_IP_LOCALNET'', 93),
      (''SKB_DROP_REASON_IP_INVALID_DEST'', 94), (''SKB_DROP_REASON_PKT_TOO_BIG'', 95),
      (''SKB_DROP_REASON_DUP_FRAG'', 96), (''SKB_DROP_REASON_FRAG_REASM_TIMEOUT'', 97),
      (''SKB_DROP_REASON_FRAG_TOO_FAR'', 98), (''SKB_DROP_REASON_TCP_MINTTL'', 99),
      (''SKB_DROP_REASON_IPV6_BAD_EXTHDR'', 100), (''SKB_DROP_REASON_IPV6_NDISC_FRAG'', 101),
      (''SKB_DROP_REASON_IPV6_NDISC_HOP_LIMIT'', 102),
      (''SKB_DROP_REASON_IPV6_NDISC_BAD_CODE'', 103),
      (''SKB_DROP_REASON_IPV6_NDISC_BAD_OPTIONS'', 104),
      (''SKB_DROP_REASON_IPV6_NDISC_NS_OTHERHOST'', 105),
      (''SKB_DROP_REASON_QUEUE_PURGE'', 106), (''SKB_DROP_REASON_TC_COOKIE_ERROR'', 107),
      (''SKB_DROP_REASON_PACKET_SOCK_ERROR'', 108),
      (''SKB_DROP_REASON_TC_CHAIN_NOTFOUND'', 109),
      (''SKB_DROP_REASON_TC_RECLASSIFY_LOOP'', 110),
      (''SKB_DROP_REASON_VXLAN_INVALID_HDR'', 111),
      (''SKB_DROP_REASON_VXLAN_VNI_NOT_FOUND'', 112),
      (''SKB_DROP_REASON_MAC_INVALID_SOURCE'', 113),
      (''SKB_DROP_REASON_VXLAN_ENTRY_EXISTS'', 114), (''SKB_DROP_REASON_NO_TX_TARGET'', 115),
      (''SKB_DROP_REASON_IP_TUNNEL_ECN'', 116), (''SKB_DROP_REASON_TUNNEL_TXINFO'', 117),
      (''SKB_DROP_REASON_LOCAL_MAC'', 118), (''SKB_DROP_REASON_ARP_PVLAN_DISABLE'', 119),
      (''SKB_DROP_REASON_MAC_IEEE_MAC_CONTROL'', 120),
      (''SKB_DROP_REASON_BRIDGE_INGRESS_STP_STATE'', 121),
      (''SKB_DROP_REASON_CAN_RX_INVALID_FRAME'', 122),
      (''SKB_DROP_REASON_CANFD_RX_INVALID_FRAME'', 123),
      (''SKB_DROP_REASON_CANXL_RX_INVALID_FRAME'', 124), (''SKB_DROP_REASON_PFMEMALLOC'', 125),
      (''SKB_DROP_REASON_DUALPI2_STEP_DROP'', 126), (''SKB_DROP_REASON_PSP_INPUT'', 127),
      (''SKB_DROP_REASON_PSP_OUTPUT'', 128), (''SKB_DROP_REASON_RECURSION_LIMIT'', 129),
      (''SKB_DROP_REASON_MAX'', 130), (''SKB_DROP_REASON_SUBSYS_MASK'', 4294901760)]"

definition enum_smca_bank_types :: cty where
  "enum_smca_bank_types = CEnum 4
     [(''SMCA_LS'', 0), (''SMCA_LS_V2'', 1), (''SMCA_IF'', 2), (''SMCA_L2_CACHE'', 3),
      (''SMCA_DE'', 4), (''SMCA_RESERVED'', 5), (''SMCA_EX'', 6), (''SMCA_FP'', 7),
      (''SMCA_L3_CACHE'', 8), (''SMCA_CS'', 9), (''SMCA_CS_V2'', 10), (''SMCA_PIE'', 11),
      (''SMCA_UMC'', 12), (''SMCA_UMC_V2'', 13), (''SMCA_MA_LLC'', 14), (''SMCA_PB'', 15),
      (''SMCA_PSP'', 16), (''SMCA_PSP_V2'', 17), (''SMCA_SMU'', 18), (''SMCA_SMU_V2'', 19),
      (''SMCA_MP5'', 20), (''SMCA_MPDMA'', 21), (''SMCA_NBIO'', 22), (''SMCA_PCIE'', 23),
      (''SMCA_PCIE_V2'', 24), (''SMCA_XGMI_PCS'', 25), (''SMCA_NBIF'', 26), (''SMCA_SHUB'', 27),
      (''SMCA_SATA'', 28), (''SMCA_USB'', 29), (''SMCA_USR_DP'', 30), (''SMCA_USR_CP'', 31),
      (''SMCA_GMI_PCS'', 32), (''SMCA_XGMI_PHY'', 33), (''SMCA_WAFL_PHY'', 34),
      (''SMCA_GMI_PHY'', 35), (''N_SMCA_BANK_TYPES'', 36)]"

definition enum_sock_flags :: cty where
  "enum_sock_flags = CEnum 4
     [(''SOCK_DEAD'', 0), (''SOCK_DONE'', 1), (''SOCK_URGINLINE'', 2), (''SOCK_KEEPOPEN'', 3),
      (''SOCK_LINGER'', 4), (''SOCK_DESTROY'', 5), (''SOCK_BROADCAST'', 6),
      (''SOCK_TIMESTAMP'', 7), (''SOCK_ZAPPED'', 8), (''SOCK_USE_WRITE_QUEUE'', 9),
      (''SOCK_DBG'', 10), (''SOCK_RCVTSTAMP'', 11), (''SOCK_RCVTSTAMPNS'', 12),
      (''SOCK_LOCALROUTE'', 13), (''SOCK_MEMALLOC'', 14),
      (''SOCK_TIMESTAMPING_RX_SOFTWARE'', 15), (''SOCK_FASYNC'', 16), (''SOCK_RXQ_OVFL'', 17),
      (''SOCK_ZEROCOPY'', 18), (''SOCK_WIFI_STATUS'', 19), (''SOCK_NOFCS'', 20),
      (''SOCK_FILTER_LOCKED'', 21), (''SOCK_SELECT_ERR_QUEUE'', 22), (''SOCK_RCU_FREE'', 23),
      (''SOCK_TXTIME'', 24), (''SOCK_XDP'', 25), (''SOCK_TSTAMP_NEW'', 26),
      (''SOCK_RCVMARK'', 27), (''SOCK_RCVPRIORITY'', 28), (''SOCK_TIMESTAMPING_ANY'', 29)]"

definition enum_special_kfunc_type :: cty where
  "enum_special_kfunc_type = CEnum 4
     [(''KF_bpf_obj_new_impl'', 0), (''KF_bpf_obj_drop_impl'', 1),
      (''KF_bpf_refcount_acquire_impl'', 2), (''KF_bpf_list_push_front_impl'', 3),
      (''KF_bpf_list_push_back_impl'', 4), (''KF_bpf_list_pop_front'', 5),
      (''KF_bpf_list_pop_back'', 6), (''KF_bpf_list_front'', 7), (''KF_bpf_list_back'', 8),
      (''KF_bpf_cast_to_kern_ctx'', 9), (''KF_bpf_rdonly_cast'', 10),
      (''KF_bpf_rcu_read_lock'', 11), (''KF_bpf_rcu_read_unlock'', 12),
      (''KF_bpf_rbtree_remove'', 13), (''KF_bpf_rbtree_add_impl'', 14),
      (''KF_bpf_rbtree_first'', 15), (''KF_bpf_rbtree_root'', 16), (''KF_bpf_rbtree_left'', 17),
      (''KF_bpf_rbtree_right'', 18), (''KF_bpf_dynptr_from_skb'', 19),
      (''KF_bpf_dynptr_from_xdp'', 20), (''KF_bpf_dynptr_from_skb_meta'', 21),
      (''KF_bpf_xdp_pull_data'', 22), (''KF_bpf_dynptr_slice'', 23),
      (''KF_bpf_dynptr_slice_rdwr'', 24), (''KF_bpf_dynptr_clone'', 25),
      (''KF_bpf_percpu_obj_new_impl'', 26), (''KF_bpf_percpu_obj_drop_impl'', 27),
      (''KF_bpf_throw'', 28), (''KF_bpf_wq_set_callback'', 29),
      (''KF_bpf_preempt_disable'', 30), (''KF_bpf_preempt_enable'', 31),
      (''KF_bpf_iter_css_task_new'', 32), (''KF_bpf_session_cookie'', 33),
      (''KF_bpf_get_kmem_cache'', 34), (''KF_bpf_local_irq_save'', 35),
      (''KF_bpf_local_irq_restore'', 36), (''KF_bpf_iter_num_new'', 37),
      (''KF_bpf_iter_num_next'', 38), (''KF_bpf_iter_num_destroy'', 39),
      (''KF_bpf_set_dentry_xattr'', 40), (''KF_bpf_remove_dentry_xattr'', 41),
      (''KF_bpf_res_spin_lock'', 42), (''KF_bpf_res_spin_unlock'', 43),
      (''KF_bpf_res_spin_lock_irqsave'', 44), (''KF_bpf_res_spin_unlock_irqrestore'', 45),
      (''KF_bpf_dynptr_from_file'', 46), (''KF_bpf_dynptr_file_discard'', 47),
      (''KF___bpf_trap'', 48), (''KF_bpf_task_work_schedule_signal'', 49),
      (''KF_bpf_task_work_schedule_resume'', 50), (''KF_bpf_arena_alloc_pages'', 51),
      (''KF_bpf_arena_free_pages'', 52), (''KF_bpf_arena_reserve_pages'', 53),
      (''KF_bpf_session_is_return'', 54), (''KF_bpf_stream_vprintk'', 55),
      (''KF_bpf_stream_print_stack'', 56)]"

definition enum_stat_item :: cty where
  "enum_stat_item = CEnum 4
     [(''ALLOC_FASTPATH'', 0), (''ALLOC_SLOWPATH'', 1), (''FREE_RCU_SHEAF'', 2),
      (''FREE_RCU_SHEAF_FAIL'', 3), (''FREE_FASTPATH'', 4), (''FREE_SLOWPATH'', 5),
      (''FREE_ADD_PARTIAL'', 6), (''FREE_REMOVE_PARTIAL'', 7), (''ALLOC_SLAB'', 8),
      (''ALLOC_NODE_MISMATCH'', 9), (''FREE_SLAB'', 10), (''ORDER_FALLBACK'', 11),
      (''CMPXCHG_DOUBLE_FAIL'', 12), (''SHEAF_FLUSH'', 13), (''SHEAF_REFILL'', 14),
      (''SHEAF_ALLOC'', 15), (''SHEAF_FREE'', 16), (''BARN_GET'', 17), (''BARN_GET_FAIL'', 18),
      (''BARN_PUT'', 19), (''BARN_PUT_FAIL'', 20), (''SHEAF_PREFILL_FAST'', 21),
      (''SHEAF_PREFILL_SLOW'', 22), (''SHEAF_PREFILL_OVERSIZE'', 23),
      (''SHEAF_RETURN_FAST'', 24), (''SHEAF_RETURN_SLOW'', 25), (''NR_SLUB_STAT_ITEMS'', 26)]"

definition enum_tca_id :: cty where
  "enum_tca_id = CEnum 4
     [(''TCA_ID_UNSPEC'', 0), (''TCA_ID_POLICE'', 1), (''TCA_ID_GACT'', 5), (''TCA_ID_IPT'', 6),
      (''TCA_ID_PEDIT'', 7), (''TCA_ID_MIRRED'', 8), (''TCA_ID_NAT'', 9), (''TCA_ID_XT'', 10),
      (''TCA_ID_SKBEDIT'', 11), (''TCA_ID_VLAN'', 12), (''TCA_ID_BPF'', 13),
      (''TCA_ID_CONNMARK'', 14), (''TCA_ID_SKBMOD'', 15), (''TCA_ID_CSUM'', 16),
      (''TCA_ID_TUNNEL_KEY'', 17), (''TCA_ID_SIMP'', 22), (''TCA_ID_IFE'', 25),
      (''TCA_ID_SAMPLE'', 26), (''TCA_ID_CTINFO'', 27), (''TCA_ID_MPLS'', 28),
      (''TCA_ID_CT'', 29), (''TCA_ID_GATE'', 30), (''__TCA_ID_MAX'', 255)]"

definition enum_thermal_genl_attr :: cty where
  "enum_thermal_genl_attr = CEnum 4
     [(''THERMAL_GENL_ATTR_UNSPEC'', 0), (''THERMAL_GENL_ATTR_TZ'', 1),
      (''THERMAL_GENL_ATTR_TZ_ID'', 2), (''THERMAL_GENL_ATTR_TZ_TEMP'', 3),
      (''THERMAL_GENL_ATTR_TZ_TRIP'', 4), (''THERMAL_GENL_ATTR_TZ_TRIP_ID'', 5),
      (''THERMAL_GENL_ATTR_TZ_TRIP_TYPE'', 6), (''THERMAL_GENL_ATTR_TZ_TRIP_TEMP'', 7),
      (''THERMAL_GENL_ATTR_TZ_TRIP_HYST'', 8), (''THERMAL_GENL_ATTR_TZ_MODE'', 9),
      (''THERMAL_GENL_ATTR_TZ_NAME'', 10), (''THERMAL_GENL_ATTR_TZ_CDEV_WEIGHT'', 11),
      (''THERMAL_GENL_ATTR_TZ_GOV'', 12), (''THERMAL_GENL_ATTR_TZ_GOV_NAME'', 13),
      (''THERMAL_GENL_ATTR_CDEV'', 14), (''THERMAL_GENL_ATTR_CDEV_ID'', 15),
      (''THERMAL_GENL_ATTR_CDEV_CUR_STATE'', 16), (''THERMAL_GENL_ATTR_CDEV_MAX_STATE'', 17),
      (''THERMAL_GENL_ATTR_CDEV_NAME'', 18), (''THERMAL_GENL_ATTR_GOV_NAME'', 19),
      (''THERMAL_GENL_ATTR_CPU_CAPABILITY'', 20), (''THERMAL_GENL_ATTR_CPU_CAPABILITY_ID'', 21),
      (''THERMAL_GENL_ATTR_CPU_CAPABILITY_PERFORMANCE'', 22),
      (''THERMAL_GENL_ATTR_CPU_CAPABILITY_EFFICIENCY'', 23),
      (''THERMAL_GENL_ATTR_THRESHOLD'', 24), (''THERMAL_GENL_ATTR_THRESHOLD_TEMP'', 25),
      (''THERMAL_GENL_ATTR_THRESHOLD_DIRECTION'', 26), (''THERMAL_GENL_ATTR_TZ_PREV_TEMP'', 27),
      (''__THERMAL_GENL_ATTR_MAX'', 28)]"

definition enum_tomoyo_conditions_index :: cty where
  "enum_tomoyo_conditions_index = CEnum 4
     [(''TOMOYO_TASK_UID'', 0), (''TOMOYO_TASK_EUID'', 1), (''TOMOYO_TASK_SUID'', 2),
      (''TOMOYO_TASK_FSUID'', 3), (''TOMOYO_TASK_GID'', 4), (''TOMOYO_TASK_EGID'', 5),
      (''TOMOYO_TASK_SGID'', 6), (''TOMOYO_TASK_FSGID'', 7), (''TOMOYO_TASK_PID'', 8),
      (''TOMOYO_TASK_PPID'', 9), (''TOMOYO_EXEC_ARGC'', 10), (''TOMOYO_EXEC_ENVC'', 11),
      (''TOMOYO_TYPE_IS_SOCKET'', 12), (''TOMOYO_TYPE_IS_SYMLINK'', 13),
      (''TOMOYO_TYPE_IS_FILE'', 14), (''TOMOYO_TYPE_IS_BLOCK_DEV'', 15),
      (''TOMOYO_TYPE_IS_DIRECTORY'', 16), (''TOMOYO_TYPE_IS_CHAR_DEV'', 17),
      (''TOMOYO_TYPE_IS_FIFO'', 18), (''TOMOYO_MODE_SETUID'', 19), (''TOMOYO_MODE_SETGID'', 20),
      (''TOMOYO_MODE_STICKY'', 21), (''TOMOYO_MODE_OWNER_READ'', 22),
      (''TOMOYO_MODE_OWNER_WRITE'', 23), (''TOMOYO_MODE_OWNER_EXECUTE'', 24),
      (''TOMOYO_MODE_GROUP_READ'', 25), (''TOMOYO_MODE_GROUP_WRITE'', 26),
      (''TOMOYO_MODE_GROUP_EXECUTE'', 27), (''TOMOYO_MODE_OTHERS_READ'', 28),
      (''TOMOYO_MODE_OTHERS_WRITE'', 29), (''TOMOYO_MODE_OTHERS_EXECUTE'', 30),
      (''TOMOYO_EXEC_REALPATH'', 31), (''TOMOYO_SYMLINK_TARGET'', 32),
      (''TOMOYO_PATH1_UID'', 33), (''TOMOYO_PATH1_GID'', 34), (''TOMOYO_PATH1_INO'', 35),
      (''TOMOYO_PATH1_MAJOR'', 36), (''TOMOYO_PATH1_MINOR'', 37), (''TOMOYO_PATH1_PERM'', 38),
      (''TOMOYO_PATH1_TYPE'', 39), (''TOMOYO_PATH1_DEV_MAJOR'', 40),
      (''TOMOYO_PATH1_DEV_MINOR'', 41), (''TOMOYO_PATH2_UID'', 42), (''TOMOYO_PATH2_GID'', 43),
      (''TOMOYO_PATH2_INO'', 44), (''TOMOYO_PATH2_MAJOR'', 45), (''TOMOYO_PATH2_MINOR'', 46),
      (''TOMOYO_PATH2_PERM'', 47), (''TOMOYO_PATH2_TYPE'', 48),
      (''TOMOYO_PATH2_DEV_MAJOR'', 49), (''TOMOYO_PATH2_DEV_MINOR'', 50),
      (''TOMOYO_PATH1_PARENT_UID'', 51), (''TOMOYO_PATH1_PARENT_GID'', 52),
      (''TOMOYO_PATH1_PARENT_INO'', 53), (''TOMOYO_PATH1_PARENT_PERM'', 54),
      (''TOMOYO_PATH2_PARENT_UID'', 55), (''TOMOYO_PATH2_PARENT_GID'', 56),
      (''TOMOYO_PATH2_PARENT_INO'', 57), (''TOMOYO_PATH2_PARENT_PERM'', 58),
      (''TOMOYO_MAX_CONDITION_KEYWORD'', 59), (''TOMOYO_NUMBER_UNION'', 60),
      (''TOMOYO_NAME_UNION'', 61), (''TOMOYO_ARGV_ENTRY'', 62), (''TOMOYO_ENVP_ENTRY'', 63)]"

definition enum_tomoyo_mac_index :: cty where
  "enum_tomoyo_mac_index = CEnum 4
     [(''TOMOYO_MAC_FILE_EXECUTE'', 0), (''TOMOYO_MAC_FILE_OPEN'', 1),
      (''TOMOYO_MAC_FILE_CREATE'', 2), (''TOMOYO_MAC_FILE_UNLINK'', 3),
      (''TOMOYO_MAC_FILE_GETATTR'', 4), (''TOMOYO_MAC_FILE_MKDIR'', 5),
      (''TOMOYO_MAC_FILE_RMDIR'', 6), (''TOMOYO_MAC_FILE_MKFIFO'', 7),
      (''TOMOYO_MAC_FILE_MKSOCK'', 8), (''TOMOYO_MAC_FILE_TRUNCATE'', 9),
      (''TOMOYO_MAC_FILE_SYMLINK'', 10), (''TOMOYO_MAC_FILE_MKBLOCK'', 11),
      (''TOMOYO_MAC_FILE_MKCHAR'', 12), (''TOMOYO_MAC_FILE_LINK'', 13),
      (''TOMOYO_MAC_FILE_RENAME'', 14), (''TOMOYO_MAC_FILE_CHMOD'', 15),
      (''TOMOYO_MAC_FILE_CHOWN'', 16), (''TOMOYO_MAC_FILE_CHGRP'', 17),
      (''TOMOYO_MAC_FILE_IOCTL'', 18), (''TOMOYO_MAC_FILE_CHROOT'', 19),
      (''TOMOYO_MAC_FILE_MOUNT'', 20), (''TOMOYO_MAC_FILE_UMOUNT'', 21),
      (''TOMOYO_MAC_FILE_PIVOT_ROOT'', 22), (''TOMOYO_MAC_NETWORK_INET_STREAM_BIND'', 23),
      (''TOMOYO_MAC_NETWORK_INET_STREAM_LISTEN'', 24),
      (''TOMOYO_MAC_NETWORK_INET_STREAM_CONNECT'', 25),
      (''TOMOYO_MAC_NETWORK_INET_DGRAM_BIND'', 26),
      (''TOMOYO_MAC_NETWORK_INET_DGRAM_SEND'', 27), (''TOMOYO_MAC_NETWORK_INET_RAW_BIND'', 28),
      (''TOMOYO_MAC_NETWORK_INET_RAW_SEND'', 29), (''TOMOYO_MAC_NETWORK_UNIX_STREAM_BIND'', 30),
      (''TOMOYO_MAC_NETWORK_UNIX_STREAM_LISTEN'', 31),
      (''TOMOYO_MAC_NETWORK_UNIX_STREAM_CONNECT'', 32),
      (''TOMOYO_MAC_NETWORK_UNIX_DGRAM_BIND'', 33),
      (''TOMOYO_MAC_NETWORK_UNIX_DGRAM_SEND'', 34),
      (''TOMOYO_MAC_NETWORK_UNIX_SEQPACKET_BIND'', 35),
      (''TOMOYO_MAC_NETWORK_UNIX_SEQPACKET_LISTEN'', 36),
      (''TOMOYO_MAC_NETWORK_UNIX_SEQPACKET_CONNECT'', 37), (''TOMOYO_MAC_ENVIRON'', 38),
      (''TOMOYO_MAX_MAC_INDEX'', 39)]"

definition enum_tpm2_command_codes :: cty where
  "enum_tpm2_command_codes = CEnum 4
     [(''TPM2_CC_FIRST'', 287), (''TPM2_CC_HIERARCHY_CONTROL'', 289),
      (''TPM2_CC_HIERARCHY_CHANGE_AUTH'', 297), (''TPM2_CC_CREATE_PRIMARY'', 305),
      (''TPM2_CC_SEQUENCE_COMPLETE'', 318), (''TPM2_CC_SELF_TEST'', 323),
      (''TPM2_CC_STARTUP'', 324), (''TPM2_CC_SHUTDOWN'', 325), (''TPM2_CC_NV_READ'', 334),
      (''TPM2_CC_CREATE'', 339), (''TPM2_CC_LOAD'', 343), (''TPM2_CC_SEQUENCE_UPDATE'', 348),
      (''TPM2_CC_UNSEAL'', 350), (''TPM2_CC_CONTEXT_LOAD'', 353),
      (''TPM2_CC_CONTEXT_SAVE'', 354), (''TPM2_CC_FLUSH_CONTEXT'', 357),
      (''TPM2_CC_READ_PUBLIC'', 371), (''TPM2_CC_START_AUTH_SESS'', 374),
      (''TPM2_CC_VERIFY_SIGNATURE'', 375), (''TPM2_CC_GET_CAPABILITY'', 378),
      (''TPM2_CC_GET_RANDOM'', 379), (''TPM2_CC_PCR_READ'', 382), (''TPM2_CC_PCR_EXTEND'', 386),
      (''TPM2_CC_EVENT_SEQUENCE_COMPLETE'', 389), (''TPM2_CC_HASH_SEQUENCE_START'', 390),
      (''TPM2_CC_CREATE_LOADED'', 401), (''TPM2_CC_LAST'', 403)]"

definition enum_tps65912_irqs :: cty where
  "enum_tps65912_irqs = CEnum 4
     [(''TPS65912_IRQ_PWRHOLD_F'', 0), (''TPS65912_IRQ_VMON'', 1), (''TPS65912_IRQ_PWRON'', 2),
      (''TPS65912_IRQ_PWRON_LP'', 3), (''TPS65912_IRQ_PWRHOLD_R'', 4),
      (''TPS65912_IRQ_HOTDIE'', 5), (''TPS65912_IRQ_GPIO1_R'', 6),
      (''TPS65912_IRQ_GPIO1_F'', 7), (''TPS65912_IRQ_GPIO2_R'', 8),
      (''TPS65912_IRQ_GPIO2_F'', 9), (''TPS65912_IRQ_GPIO3_R'', 10),
      (''TPS65912_IRQ_GPIO3_F'', 11), (''TPS65912_IRQ_GPIO4_R'', 12),
      (''TPS65912_IRQ_GPIO4_F'', 13), (''TPS65912_IRQ_GPIO5_R'', 14),
      (''TPS65912_IRQ_GPIO5_F'', 15), (''TPS65912_IRQ_PGOOD_DCDC1'', 16),
      (''TPS65912_IRQ_PGOOD_DCDC2'', 17), (''TPS65912_IRQ_PGOOD_DCDC3'', 18),
      (''TPS65912_IRQ_PGOOD_DCDC4'', 19), (''TPS65912_IRQ_PGOOD_LDO1'', 20),
      (''TPS65912_IRQ_PGOOD_LDO2'', 21), (''TPS65912_IRQ_PGOOD_LDO3'', 22),
      (''TPS65912_IRQ_PGOOD_LDO4'', 23), (''TPS65912_IRQ_PGOOD_LDO5'', 24),
      (''TPS65912_IRQ_PGOOD_LDO6'', 25), (''TPS65912_IRQ_PGOOD_LDO7'', 26),
      (''TPS65912_IRQ_PGOOD_LDO8'', 27), (''TPS65912_IRQ_PGOOD_LDO9'', 28),
      (''TPS65912_IRQ_PGOOD_LDO10'', 29)]"

definition enum_tps65917_irqs :: cty where
  "enum_tps65917_irqs = CEnum 4
     [(''TPS65917_RESERVED1'', 0), (''TPS65917_PWRON_IRQ'', 1),
      (''TPS65917_LONG_PRESS_KEY_IRQ'', 2), (''TPS65917_RESERVED2'', 3),
      (''TPS65917_PWRDOWN_IRQ'', 4), (''TPS65917_HOTDIE_IRQ'', 5),
      (''TPS65917_VSYS_MON_IRQ'', 6), (''TPS65917_RESERVED3'', 7), (''TPS65917_RESERVED4'', 8),
      (''TPS65917_OTP_ERROR_IRQ'', 9), (''TPS65917_WDT_IRQ'', 10), (''TPS65917_RESERVED5'', 11),
      (''TPS65917_RESET_IN_IRQ'', 12), (''TPS65917_FSD_IRQ'', 13), (''TPS65917_SHORT_IRQ'', 14),
      (''TPS65917_RESERVED6'', 15), (''TPS65917_GPADC_AUTO_0_IRQ'', 16),
      (''TPS65917_GPADC_AUTO_1_IRQ'', 17), (''TPS65917_GPADC_EOC_SW_IRQ'', 18),
      (''TPS65917_RESREVED6'', 19), (''TPS65917_RESERVED7'', 20), (''TPS65917_RESERVED8'', 21),
      (''TPS65917_RESERVED9'', 22), (''TPS65917_VBUS_IRQ'', 23), (''TPS65917_GPIO_0_IRQ'', 24),
      (''TPS65917_GPIO_1_IRQ'', 25), (''TPS65917_GPIO_2_IRQ'', 26),
      (''TPS65917_GPIO_3_IRQ'', 27), (''TPS65917_GPIO_4_IRQ'', 28),
      (''TPS65917_GPIO_5_IRQ'', 29), (''TPS65917_GPIO_6_IRQ'', 30),
      (''TPS65917_RESERVED10'', 31), (''TPS65917_NUM_IRQ'', 32)]"

definition enum_trace_iterator_bits :: cty where
  "enum_trace_iterator_bits = CEnum 4
     [(''TRACE_ITER_PRINT_PARENT_BIT'', 0), (''TRACE_ITER_SYM_OFFSET_BIT'', 1),
      (''TRACE_ITER_SYM_ADDR_BIT'', 2), (''TRACE_ITER_VERBOSE_BIT'', 3),
      (''TRACE_ITER_RAW_BIT'', 4), (''TRACE_ITER_HEX_BIT'', 5), (''TRACE_ITER_BIN_BIT'', 6),
      (''TRACE_ITER_BLOCK_BIT'', 7), (''TRACE_ITER_FIELDS_BIT'', 8),
      (''TRACE_ITER_PRINTK_BIT'', 9), (''TRACE_ITER_ANNOTATE_BIT'', 10),
      (''TRACE_ITER_USERSTACKTRACE_BIT'', 11), (''TRACE_ITER_SYM_USEROBJ_BIT'', 12),
      (''TRACE_ITER_PRINTK_MSGONLY_BIT'', 13), (''TRACE_ITER_CONTEXT_INFO_BIT'', 14),
      (''TRACE_ITER_LATENCY_FMT_BIT'', 15), (''TRACE_ITER_RECORD_CMD_BIT'', 16),
      (''TRACE_ITER_RECORD_TGID_BIT'', 17), (''TRACE_ITER_OVERWRITE_BIT'', 18),
      (''TRACE_ITER_STOP_ON_FREE_BIT'', 19), (''TRACE_ITER_IRQ_INFO_BIT'', 20),
      (''TRACE_ITER_MARKERS_BIT'', 21), (''TRACE_ITER_EVENT_FORK_BIT'', 22),
      (''TRACE_ITER_TRACE_PRINTK_BIT'', 23), (''TRACE_ITER_COPY_MARKER_BIT'', 24),
      (''TRACE_ITER_PAUSE_ON_TRACE_BIT'', 25), (''TRACE_ITER_HASH_PTR_BIT'', 26),
      (''TRACE_ITER_BITMASK_LIST_BIT'', 27), (''TRACE_ITER_FUNCTION_BIT'', 28),
      (''TRACE_ITER_FUNC_FORK_BIT'', 29), (''TRACE_ITER_DISPLAY_GRAPH_BIT'', 30),
      (''TRACE_ITER_STACKTRACE_BIT'', 31), (''TRACE_ITER_PROF_TEXT_OFFSET_BIT'', 32),
      (''TRACE_ITER_GRAPH_TIME_BIT'', 33), (''TRACE_ITER_LAST_BIT'', 34)]"

definition enum_vcap_action_field :: cty where
  "enum_vcap_action_field = CEnum 4
     [(''VCAP_AF_NO_VALUE'', 0), (''VCAP_AF_ACL_ID'', 1), (''VCAP_AF_CLS_VID_SEL'', 2),
      (''VCAP_AF_CNT_ID'', 3), (''VCAP_AF_COPY_PORT_NUM'', 4), (''VCAP_AF_COPY_QUEUE_NUM'', 5),
      (''VCAP_AF_CPU_COPY_ENA'', 6), (''VCAP_AF_CPU_QU'', 7), (''VCAP_AF_CPU_QUEUE_NUM'', 8),
      (''VCAP_AF_CUSTOM_ACE_TYPE_ENA'', 9), (''VCAP_AF_DEI_A_VAL'', 10),
      (''VCAP_AF_DEI_B_VAL'', 11), (''VCAP_AF_DEI_C_VAL'', 12), (''VCAP_AF_DEI_ENA'', 13),
      (''VCAP_AF_DEI_VAL'', 14), (''VCAP_AF_DLR_SEL'', 15), (''VCAP_AF_DP_ENA'', 16),
      (''VCAP_AF_DP_VAL'', 17), (''VCAP_AF_DSCP_ENA'', 18), (''VCAP_AF_DSCP_SEL'', 19),
      (''VCAP_AF_DSCP_VAL'', 20), (''VCAP_AF_ES2_REW_CMD'', 21), (''VCAP_AF_ESDX'', 22),
      (''VCAP_AF_FWD_KILL_ENA'', 23), (''VCAP_AF_FWD_MODE'', 24), (''VCAP_AF_FWD_SEL'', 25),
      (''VCAP_AF_HIT_ME_ONCE'', 26), (''VCAP_AF_HOST_MATCH'', 27),
      (''VCAP_AF_IGNORE_PIPELINE_CTRL'', 28), (''VCAP_AF_INTR_ENA'', 29),
      (''VCAP_AF_ISDX_ADD_REPLACE_SEL'', 30), (''VCAP_AF_ISDX_ADD_VAL'', 31),
      (''VCAP_AF_ISDX_ENA'', 32), (''VCAP_AF_ISDX_REPLACE_ENA'', 33),
      (''VCAP_AF_ISDX_VAL'', 34), (''VCAP_AF_LOOP_ENA'', 35), (''VCAP_AF_LRN_DIS'', 36),
      (''VCAP_AF_MAP_IDX'', 37), (''VCAP_AF_MAP_KEY'', 38), (''VCAP_AF_MAP_LOOKUP_SEL'', 39),
      (''VCAP_AF_MASK_MODE'', 40), (''VCAP_AF_MATCH_ID'', 41), (''VCAP_AF_MATCH_ID_MASK'', 42),
      (''VCAP_AF_MIRROR_ENA'', 43), (''VCAP_AF_MIRROR_PROBE'', 44),
      (''VCAP_AF_MIRROR_PROBE_ID'', 45), (''VCAP_AF_MRP_SEL'', 46), (''VCAP_AF_NXT_IDX'', 47),
      (''VCAP_AF_NXT_IDX_CTRL'', 48), (''VCAP_AF_OAM_SEL'', 49),
      (''VCAP_AF_PAG_OVERRIDE_MASK'', 50), (''VCAP_AF_PAG_VAL'', 51),
      (''VCAP_AF_PCP_A_VAL'', 52), (''VCAP_AF_PCP_B_VAL'', 53), (''VCAP_AF_PCP_C_VAL'', 54),
      (''VCAP_AF_PCP_ENA'', 55), (''VCAP_AF_PCP_VAL'', 56), (''VCAP_AF_PIPELINE_ACT'', 57),
      (''VCAP_AF_PIPELINE_FORCE_ENA'', 58), (''VCAP_AF_PIPELINE_PT'', 59),
      (''VCAP_AF_POLICE_ENA'', 60), (''VCAP_AF_POLICE_IDX'', 61),
      (''VCAP_AF_POLICE_REMARK'', 62), (''VCAP_AF_POLICE_VCAP_ONLY'', 63),
      (''VCAP_AF_POP_VAL'', 64), (''VCAP_AF_PORT_MASK'', 65),
      (''VCAP_AF_PUSH_CUSTOMER_TAG'', 66), (''VCAP_AF_PUSH_INNER_TAG'', 67),
      (''VCAP_AF_PUSH_OUTER_TAG'', 68), (''VCAP_AF_QOS_ENA'', 69), (''VCAP_AF_QOS_VAL'', 70),
      (''VCAP_AF_REW_OP'', 71), (''VCAP_AF_RT_DIS'', 72), (''VCAP_AF_SFID_ENA'', 73),
      (''VCAP_AF_SFID_VAL'', 74), (''VCAP_AF_SGID_ENA'', 75), (''VCAP_AF_SGID_VAL'', 76),
      (''VCAP_AF_SWAP_MACS_ENA'', 77), (''VCAP_AF_TAG_A_DEI_SEL'', 78),
      (''VCAP_AF_TAG_A_PCP_SEL'', 79), (''VCAP_AF_TAG_A_TPID_SEL'', 80),
      (''VCAP_AF_TAG_A_VID_SEL'', 81), (''VCAP_AF_TAG_B_DEI_SEL'', 82),
      (''VCAP_AF_TAG_B_PCP_SEL'', 83), (''VCAP_AF_TAG_B_TPID_SEL'', 84),
      (''VCAP_AF_TAG_B_VID_SEL'', 85), (''VCAP_AF_TAG_C_DEI_SEL'', 86),
      (''VCAP_AF_TAG_C_PCP_SEL'', 87), (''VCAP_AF_TAG_C_TPID_SEL'', 88),
      (''VCAP_AF_TAG_C_VID_SEL'', 89), (''VCAP_AF_TYPE'', 90), (''VCAP_AF_UNTAG_VID_ENA'', 91),
      (''VCAP_AF_VID_A_VAL'', 92), (''VCAP_AF_VID_B_VAL'', 93), (''VCAP_AF_VID_C_VAL'', 94),
      (''VCAP_AF_VID_REPLACE_ENA'', 95), (''VCAP_AF_VID_VAL'', 96),
      (''VCAP_AF_VLAN_POP_CNT'', 97), (''VCAP_AF_VLAN_POP_CNT_ENA'', 98)]"

definition enum_vcap_key_field :: cty where
  "enum_vcap_key_field = CEnum 4
     [(''VCAP_KF_NO_VALUE'', 0), (''VCAP_KF_8021BR_ECID_BASE'', 1),
      (''VCAP_KF_8021BR_ECID_EXT'', 2), (''VCAP_KF_8021BR_E_TAGGED'', 3),
      (''VCAP_KF_8021BR_GRP'', 4), (''VCAP_KF_8021BR_IGR_ECID_BASE'', 5),
      (''VCAP_KF_8021BR_IGR_ECID_EXT'', 6), (''VCAP_KF_8021CB_R_TAGGED_IS'', 7),
      (''VCAP_KF_8021Q_DEI0'', 8), (''VCAP_KF_8021Q_DEI1'', 9), (''VCAP_KF_8021Q_DEI2'', 10),
      (''VCAP_KF_8021Q_DEI_CLS'', 11), (''VCAP_KF_8021Q_PCP0'', 12),
      (''VCAP_KF_8021Q_PCP1'', 13), (''VCAP_KF_8021Q_PCP2'', 14),
      (''VCAP_KF_8021Q_PCP_CLS'', 15), (''VCAP_KF_8021Q_TPID'', 16),
      (''VCAP_KF_8021Q_TPID0'', 17), (''VCAP_KF_8021Q_TPID1'', 18),
      (''VCAP_KF_8021Q_TPID2'', 19), (''VCAP_KF_8021Q_VID0'', 20), (''VCAP_KF_8021Q_VID1'', 21),
      (''VCAP_KF_8021Q_VID2'', 22), (''VCAP_KF_8021Q_VID_CLS'', 23),
      (''VCAP_KF_8021Q_VLAN_DBL_TAGGED_IS'', 24), (''VCAP_KF_8021Q_VLAN_TAGGED_IS'', 25),
      (''VCAP_KF_8021Q_VLAN_TAGS'', 26), (''VCAP_KF_ACL_GRP_ID'', 27),
      (''VCAP_KF_ARP_ADDR_SPACE_OK_IS'', 28), (''VCAP_KF_ARP_LEN_OK_IS'', 29),
      (''VCAP_KF_ARP_OPCODE'', 30), (''VCAP_KF_ARP_OPCODE_UNKNOWN_IS'', 31),
      (''VCAP_KF_ARP_PROTO_SPACE_OK_IS'', 32), (''VCAP_KF_ARP_SENDER_MATCH_IS'', 33),
      (''VCAP_KF_ARP_TGT_MATCH_IS'', 34), (''VCAP_KF_COSID_CLS'', 35),
      (''VCAP_KF_ES0_ISDX_KEY_ENA'', 36), (''VCAP_KF_ETYPE'', 37),
      (''VCAP_KF_ETYPE_LEN_IS'', 38), (''VCAP_KF_HOST_MATCH'', 39),
      (''VCAP_KF_IF_EGR_PORT_MASK'', 40), (''VCAP_KF_IF_EGR_PORT_MASK_RNG'', 41),
      (''VCAP_KF_IF_EGR_PORT_NO'', 42), (''VCAP_KF_IF_IGR_PORT'', 43),
      (''VCAP_KF_IF_IGR_PORT_MASK'', 44), (''VCAP_KF_IF_IGR_PORT_MASK_L3'', 45),
      (''VCAP_KF_IF_IGR_PORT_MASK_RNG'', 46), (''VCAP_KF_IF_IGR_PORT_MASK_SEL'', 47),
      (''VCAP_KF_IF_IGR_PORT_SEL'', 48), (''VCAP_KF_IP4_IS'', 49), (''VCAP_KF_IP_MC_IS'', 50),
      (''VCAP_KF_IP_PAYLOAD_5TUPLE'', 51), (''VCAP_KF_IP_PAYLOAD_S1_IP6'', 52),
      (''VCAP_KF_IP_SNAP_IS'', 53), (''VCAP_KF_ISDX_CLS'', 54), (''VCAP_KF_ISDX_GT0_IS'', 55),
      (''VCAP_KF_L2_BC_IS'', 56), (''VCAP_KF_L2_DMAC'', 57), (''VCAP_KF_L2_FRM_TYPE'', 58),
      (''VCAP_KF_L2_FWD_IS'', 59), (''VCAP_KF_L2_LLC'', 60), (''VCAP_KF_L2_MAC'', 61),
      (''VCAP_KF_L2_MC_IS'', 62), (''VCAP_KF_L2_PAYLOAD0'', 63), (''VCAP_KF_L2_PAYLOAD1'', 64),
      (''VCAP_KF_L2_PAYLOAD2'', 65), (''VCAP_KF_L2_PAYLOAD_ETYPE'', 66),
      (''VCAP_KF_L2_SMAC'', 67), (''VCAP_KF_L2_SNAP'', 68), (''VCAP_KF_L3_DIP_EQ_SIP_IS'', 69),
      (''VCAP_KF_L3_DPL_CLS'', 70), (''VCAP_KF_L3_DSCP'', 71), (''VCAP_KF_L3_DST_IS'', 72),
      (''VCAP_KF_L3_FRAGMENT'', 73), (''VCAP_KF_L3_FRAGMENT_TYPE'', 74),
      (''VCAP_KF_L3_FRAG_INVLD_L4_LEN'', 75), (''VCAP_KF_L3_FRAG_OFS_GT0'', 76),
      (''VCAP_KF_L3_IP4_DIP'', 77), (''VCAP_KF_L3_IP4_SIP'', 78), (''VCAP_KF_L3_IP6_DIP'', 79),
      (''VCAP_KF_L3_IP6_DIP_MSB'', 80), (''VCAP_KF_L3_IP6_SIP'', 81),
      (''VCAP_KF_L3_IP6_SIP_MSB'', 82), (''VCAP_KF_L3_IP_PROTO'', 83),
      (''VCAP_KF_L3_OPTIONS_IS'', 84), (''VCAP_KF_L3_PAYLOAD'', 85), (''VCAP_KF_L3_RT_IS'', 86),
      (''VCAP_KF_L3_TOS'', 87), (''VCAP_KF_L3_TTL_GT0'', 88), (''VCAP_KF_L4_1588_DOM'', 89),
      (''VCAP_KF_L4_1588_VER'', 90), (''VCAP_KF_L4_ACK'', 91), (''VCAP_KF_L4_DPORT'', 92),
      (''VCAP_KF_L4_FIN'', 93), (''VCAP_KF_L4_PAYLOAD'', 94), (''VCAP_KF_L4_PSH'', 95),
      (''VCAP_KF_L4_RNG'', 96), (''VCAP_KF_L4_RST'', 97), (''VCAP_KF_L4_SEQUENCE_EQ0_IS'', 98),
      (''VCAP_KF_L4_SPORT'', 99), (''VCAP_KF_L4_SPORT_EQ_DPORT_IS'', 100),
      (''VCAP_KF_L4_SYN'', 101), (''VCAP_KF_L4_URG'', 102), (''VCAP_KF_LOOKUP_FIRST_IS'', 103),
      (''VCAP_KF_LOOKUP_GEN_IDX'', 104), (''VCAP_KF_LOOKUP_GEN_IDX_SEL'', 105),
      (''VCAP_KF_LOOKUP_INDEX'', 106), (''VCAP_KF_LOOKUP_PAG'', 107),
      (''VCAP_KF_MIRROR_PROBE'', 108), (''VCAP_KF_OAM_CCM_CNTS_EQ0'', 109),
      (''VCAP_KF_OAM_DETECTED'', 110), (''VCAP_KF_OAM_FLAGS'', 111),
      (''VCAP_KF_OAM_MEL_FLAGS'', 112), (''VCAP_KF_OAM_MEPID'', 113),
      (''VCAP_KF_OAM_OPCODE'', 114), (''VCAP_KF_OAM_VER'', 115),
      (''VCAP_KF_OAM_Y1731_IS'', 116), (''VCAP_KF_PDU_TYPE'', 117),
      (''VCAP_KF_PROT_ACTIVE'', 118), (''VCAP_KF_RTP_ID'', 119), (''VCAP_KF_RT_FRMID'', 120),
      (''VCAP_KF_RT_TYPE'', 121), (''VCAP_KF_RT_VLAN_IDX'', 122), (''VCAP_KF_TCP_IS'', 123),
      (''VCAP_KF_TCP_UDP_IS'', 124), (''VCAP_KF_TYPE'', 125)]"

definition enum_vcap_keyfield_set :: cty where
  "enum_vcap_keyfield_set = CEnum 4
     [(''VCAP_KFS_NO_VALUE'', 0), (''VCAP_KFS_5TUPLE_IP4'', 1), (''VCAP_KFS_5TUPLE_IP6'', 2),
      (''VCAP_KFS_7TUPLE'', 3), (''VCAP_KFS_ARP'', 4), (''VCAP_KFS_DBL_VID'', 5),
      (''VCAP_KFS_DMAC_VID'', 6), (''VCAP_KFS_ETAG'', 7), (''VCAP_KFS_IP4_OTHER'', 8),
      (''VCAP_KFS_IP4_TCP_UDP'', 9), (''VCAP_KFS_IP4_VID'', 10), (''VCAP_KFS_IP6_OTHER'', 11),
      (''VCAP_KFS_IP6_STD'', 12), (''VCAP_KFS_IP6_TCP_UDP'', 13), (''VCAP_KFS_IP6_VID'', 14),
      (''VCAP_KFS_IP_7TUPLE'', 15), (''VCAP_KFS_ISDX'', 16), (''VCAP_KFS_LL_FULL'', 17),
      (''VCAP_KFS_MAC_ETYPE'', 18), (''VCAP_KFS_MAC_LLC'', 19), (''VCAP_KFS_MAC_SNAP'', 20),
      (''VCAP_KFS_NORMAL'', 21), (''VCAP_KFS_NORMAL_5TUPLE_IP4'', 22),
      (''VCAP_KFS_NORMAL_7TUPLE'', 23), (''VCAP_KFS_NORMAL_IP6'', 24), (''VCAP_KFS_OAM'', 25),
      (''VCAP_KFS_PURE_5TUPLE_IP4'', 26), (''VCAP_KFS_RT'', 27), (''VCAP_KFS_SMAC_SIP4'', 28),
      (''VCAP_KFS_SMAC_SIP6'', 29), (''VCAP_KFS_VID'', 30)]"

definition enum_vm_event_item :: cty where
  "enum_vm_event_item = CEnum 4
     [(''PGPGIN'', 0), (''PGPGOUT'', 1), (''PSWPIN'', 2), (''PSWPOUT'', 3),
      (''PGALLOC_DMA'', 4), (''PGALLOC_DMA32'', 5), (''PGALLOC_NORMAL'', 6),
      (''PGALLOC_MOVABLE'', 7), (''PGALLOC_DEVICE'', 8), (''ALLOCSTALL_DMA'', 9),
      (''ALLOCSTALL_DMA32'', 10), (''ALLOCSTALL_NORMAL'', 11), (''ALLOCSTALL_MOVABLE'', 12),
      (''ALLOCSTALL_DEVICE'', 13), (''PGSCAN_SKIP_DMA'', 14), (''PGSCAN_SKIP_DMA32'', 15),
      (''PGSCAN_SKIP_NORMAL'', 16), (''PGSCAN_SKIP_MOVABLE'', 17), (''PGSCAN_SKIP_DEVICE'', 18),
      (''PGFREE'', 19), (''PGACTIVATE'', 20), (''PGDEACTIVATE'', 21), (''PGLAZYFREE'', 22),
      (''PGFAULT'', 23), (''PGMAJFAULT'', 24), (''PGLAZYFREED'', 25), (''PGREFILL'', 26),
      (''PGREUSE'', 27), (''PGSTEAL_KSWAPD'', 28), (''PGSTEAL_DIRECT'', 29),
      (''PGSTEAL_KHUGEPAGED'', 30), (''PGSTEAL_PROACTIVE'', 31), (''PGSCAN_KSWAPD'', 32),
      (''PGSCAN_DIRECT'', 33), (''PGSCAN_KHUGEPAGED'', 34), (''PGSCAN_PROACTIVE'', 35),
      (''PGSCAN_DIRECT_THROTTLE'', 36), (''PGSCAN_ANON'', 37), (''PGSCAN_FILE'', 38),
      (''PGSTEAL_ANON'', 39), (''PGSTEAL_FILE'', 40), (''PGSCAN_ZONE_RECLAIM_SUCCESS'', 41),
      (''PGSCAN_ZONE_RECLAIM_FAILED'', 42), (''PGINODESTEAL'', 43), (''SLABS_SCANNED'', 44),
      (''KSWAPD_INODESTEAL'', 45), (''KSWAPD_LOW_WMARK_HIT_QUICKLY'', 46),
      (''KSWAPD_HIGH_WMARK_HIT_QUICKLY'', 47), (''PAGEOUTRUN'', 48), (''PGROTATED'', 49),
      (''DROP_PAGECACHE'', 50), (''DROP_SLAB'', 51), (''OOM_KILL'', 52),
      (''NUMA_PTE_UPDATES'', 53), (''NUMA_HUGE_PTE_UPDATES'', 54), (''NUMA_HINT_FAULTS'', 55),
      (''NUMA_HINT_FAULTS_LOCAL'', 56), (''NUMA_PAGE_MIGRATE'', 57),
      (''PGMIGRATE_SUCCESS'', 58), (''PGMIGRATE_FAIL'', 59), (''THP_MIGRATION_SUCCESS'', 60),
      (''THP_MIGRATION_FAIL'', 61), (''THP_MIGRATION_SPLIT'', 62),
      (''COMPACTMIGRATE_SCANNED'', 63), (''COMPACTFREE_SCANNED'', 64),
      (''COMPACTISOLATED'', 65), (''COMPACTSTALL'', 66), (''COMPACTFAIL'', 67),
      (''COMPACTSUCCESS'', 68), (''KCOMPACTD_WAKE'', 69), (''KCOMPACTD_MIGRATE_SCANNED'', 70),
      (''KCOMPACTD_FREE_SCANNED'', 71), (''HTLB_BUDDY_PGALLOC'', 72),
      (''HTLB_BUDDY_PGALLOC_FAIL'', 73), (''CMA_ALLOC_SUCCESS'', 74), (''CMA_ALLOC_FAIL'', 75),
      (''UNEVICTABLE_PGCULLED'', 76), (''UNEVICTABLE_PGSCANNED'', 77),
      (''UNEVICTABLE_PGRESCUED'', 78), (''UNEVICTABLE_PGMLOCKED'', 79),
      (''UNEVICTABLE_PGMUNLOCKED'', 80), (''UNEVICTABLE_PGCLEARED'', 81),
      (''UNEVICTABLE_PGSTRANDED'', 82), (''THP_FAULT_ALLOC'', 83), (''THP_FAULT_FALLBACK'', 84),
      (''THP_FAULT_FALLBACK_CHARGE'', 85), (''THP_COLLAPSE_ALLOC'', 86),
      (''THP_COLLAPSE_ALLOC_FAILED'', 87), (''THP_FILE_ALLOC'', 88),
      (''THP_FILE_FALLBACK'', 89), (''THP_FILE_FALLBACK_CHARGE'', 90),
      (''THP_FILE_MAPPED'', 91), (''THP_SPLIT_PAGE'', 92), (''THP_SPLIT_PAGE_FAILED'', 93),
      (''THP_DEFERRED_SPLIT_PAGE'', 94), (''THP_UNDERUSED_SPLIT_PAGE'', 95),
      (''THP_SPLIT_PMD'', 96), (''THP_SCAN_EXCEED_NONE_PTE'', 97),
      (''THP_SCAN_EXCEED_SWAP_PTE'', 98), (''THP_SCAN_EXCEED_SHARED_PTE'', 99),
      (''THP_SPLIT_PUD'', 100), (''THP_ZERO_PAGE_ALLOC'', 101),
      (''THP_ZERO_PAGE_ALLOC_FAILED'', 102), (''THP_SWPOUT'', 103),
      (''THP_SWPOUT_FALLBACK'', 104), (''BALLOON_INFLATE'', 105), (''BALLOON_DEFLATE'', 106),
      (''BALLOON_MIGRATE'', 107), (''SWAP_RA'', 108), (''SWAP_RA_HIT'', 109),
      (''SWPIN_ZERO'', 110), (''SWPOUT_ZERO'', 111), (''KSM_SWPIN_COPY'', 112),
      (''COW_KSM'', 113), (''ZSWPIN'', 114), (''ZSWPOUT'', 115), (''ZSWPWB'', 116),
      (''DIRECT_MAP_LEVEL2_SPLIT'', 117), (''DIRECT_MAP_LEVEL3_SPLIT'', 118),
      (''DIRECT_MAP_LEVEL2_COLLAPSE'', 119), (''DIRECT_MAP_LEVEL3_COLLAPSE'', 120),
      (''NR_VM_EVENT_ITEMS'', 121)]"

definition enum_wiphy_flags :: cty where
  "enum_wiphy_flags = CEnum 4
     [(''WIPHY_FLAG_SUPPORTS_EXT_KEK_KCK'', 1), (''WIPHY_FLAG_SUPPORTS_MLO'', 2),
      (''WIPHY_FLAG_SPLIT_SCAN_6GHZ'', 4), (''WIPHY_FLAG_NETNS_OK'', 8),
      (''WIPHY_FLAG_PS_ON_BY_DEFAULT'', 16), (''WIPHY_FLAG_4ADDR_AP'', 32),
      (''WIPHY_FLAG_4ADDR_STATION'', 64), (''WIPHY_FLAG_CONTROL_PORT_PROTOCOL'', 128),
      (''WIPHY_FLAG_IBSS_RSN'', 256), (''WIPHY_FLAG_DISABLE_WEXT'', 512),
      (''WIPHY_FLAG_MESH_AUTH'', 1024), (''WIPHY_FLAG_SUPPORTS_EXT_KCK_32'', 2048),
      (''WIPHY_FLAG_SUPPORTS_NSTR_NONPRIMARY'', 4096), (''WIPHY_FLAG_SUPPORTS_FW_ROAM'', 8192),
      (''WIPHY_FLAG_AP_UAPSD'', 16384), (''WIPHY_FLAG_SUPPORTS_TDLS'', 32768),
      (''WIPHY_FLAG_TDLS_EXTERNAL_SETUP'', 65536), (''WIPHY_FLAG_HAVE_AP_SME'', 131072),
      (''WIPHY_FLAG_REPORTS_OBSS'', 262144), (''WIPHY_FLAG_AP_PROBE_RESP_OFFLOAD'', 524288),
      (''WIPHY_FLAG_OFFCHAN_TX'', 1048576), (''WIPHY_FLAG_HAS_REMAIN_ON_CHANNEL'', 2097152),
      (''WIPHY_FLAG_SUPPORTS_5_10_MHZ'', 4194304), (''WIPHY_FLAG_HAS_CHANNEL_SWITCH'', 8388608),
      (''WIPHY_FLAG_NOTIFY_REGDOM_BY_DRIVER'', 16777216),
      (''WIPHY_FLAG_CHANNEL_CHANGE_ON_BEACON'', 33554432)]"

definition enum_xdp_rss_hash_type :: cty where
  "enum_xdp_rss_hash_type = CEnum 4
     [(''XDP_RSS_L3_IPV4'', 1), (''XDP_RSS_L3_IPV6'', 2), (''XDP_RSS_L3_DYNHDR'', 4),
      (''XDP_RSS_L4'', 8), (''XDP_RSS_L4_TCP'', 16), (''XDP_RSS_L4_UDP'', 32),
      (''XDP_RSS_L4_SCTP'', 64), (''XDP_RSS_L4_IPSEC'', 128), (''XDP_RSS_L4_ICMP'', 256),
      (''XDP_RSS_TYPE_NONE'', 0), (''XDP_RSS_TYPE_L2'', 0), (''XDP_RSS_TYPE_L3_IPV4'', 1),
      (''XDP_RSS_TYPE_L3_IPV6'', 2), (''XDP_RSS_TYPE_L3_IPV4_OPT'', 5),
      (''XDP_RSS_TYPE_L3_IPV6_EX'', 6), (''XDP_RSS_TYPE_L4_ANY'', 8),
      (''XDP_RSS_TYPE_L4_IPV4_TCP'', 25), (''XDP_RSS_TYPE_L4_IPV4_UDP'', 41),
      (''XDP_RSS_TYPE_L4_IPV4_SCTP'', 73), (''XDP_RSS_TYPE_L4_IPV4_IPSEC'', 137),
      (''XDP_RSS_TYPE_L4_IPV4_ICMP'', 265), (''XDP_RSS_TYPE_L4_IPV6_TCP'', 26),
      (''XDP_RSS_TYPE_L4_IPV6_UDP'', 42), (''XDP_RSS_TYPE_L4_IPV6_SCTP'', 74),
      (''XDP_RSS_TYPE_L4_IPV6_IPSEC'', 138), (''XDP_RSS_TYPE_L4_IPV6_ICMP'', 266),
      (''XDP_RSS_TYPE_L4_IPV6_TCP_EX'', 30), (''XDP_RSS_TYPE_L4_IPV6_UDP_EX'', 46),
      (''XDP_RSS_TYPE_L4_IPV6_SCTP_EX'', 78)]"

definition enum_xfrm_attr_type_t :: cty where
  "enum_xfrm_attr_type_t = CEnum 4
     [(''XFRMA_UNSPEC'', 0), (''XFRMA_ALG_AUTH'', 1), (''XFRMA_ALG_CRYPT'', 2),
      (''XFRMA_ALG_COMP'', 3), (''XFRMA_ENCAP'', 4), (''XFRMA_TMPL'', 5), (''XFRMA_SA'', 6),
      (''XFRMA_POLICY'', 7), (''XFRMA_SEC_CTX'', 8), (''XFRMA_LTIME_VAL'', 9),
      (''XFRMA_REPLAY_VAL'', 10), (''XFRMA_REPLAY_THRESH'', 11), (''XFRMA_ETIMER_THRESH'', 12),
      (''XFRMA_SRCADDR'', 13), (''XFRMA_COADDR'', 14), (''XFRMA_LASTUSED'', 15),
      (''XFRMA_POLICY_TYPE'', 16), (''XFRMA_MIGRATE'', 17), (''XFRMA_ALG_AEAD'', 18),
      (''XFRMA_KMADDRESS'', 19), (''XFRMA_ALG_AUTH_TRUNC'', 20), (''XFRMA_MARK'', 21),
      (''XFRMA_TFCPAD'', 22), (''XFRMA_REPLAY_ESN_VAL'', 23), (''XFRMA_SA_EXTRA_FLAGS'', 24),
      (''XFRMA_PROTO'', 25), (''XFRMA_ADDRESS_FILTER'', 26), (''XFRMA_PAD'', 27),
      (''XFRMA_OFFLOAD_DEV'', 28), (''XFRMA_SET_MARK'', 29), (''XFRMA_SET_MARK_MASK'', 30),
      (''XFRMA_IF_ID'', 31), (''XFRMA_MTIMER_THRESH'', 32), (''XFRMA_SA_DIR'', 33),
      (''XFRMA_NAT_KEEPALIVE_INTERVAL'', 34), (''XFRMA_SA_PCPU'', 35),
      (''XFRMA_IPTFS_DROP_TIME'', 36), (''XFRMA_IPTFS_REORDER_WINDOW'', 37),
      (''XFRMA_IPTFS_DONT_FRAG'', 38), (''XFRMA_IPTFS_INIT_DELAY'', 39),
      (''XFRMA_IPTFS_MAX_QSIZE'', 40), (''XFRMA_IPTFS_PKT_SIZE'', 41), (''__XFRMA_MAX'', 42)]"

section \<open>Sizes and alignments\<close>

lemma enum_max8997_pmic_reg_layout [layout_simps]:
  "sizeof enum_max8997_pmic_reg = 4 \<and> alignof enum_max8997_pmic_reg = 4 \<and> wf_cty enum_max8997_pmic_reg"
  by (simp add: enum_max8997_pmic_reg_def base_types layout_eval
      del: One_nat_def)

lemma enum_mem_type_layout [layout_simps]:
  "sizeof enum_mem_type = 4 \<and> alignof enum_mem_type = 4 \<and> wf_cty enum_mem_type"
  by (simp add: enum_mem_type_def base_types layout_eval
      del: One_nat_def)

lemma enum_net_dm_attr_layout [layout_simps]:
  "sizeof enum_net_dm_attr = 4 \<and> alignof enum_net_dm_attr = 4 \<and> wf_cty enum_net_dm_attr"
  by (simp add: enum_net_dm_attr_def base_types layout_eval
      del: One_nat_def)

lemma enum_netdev_cmd_layout [layout_simps]:
  "sizeof enum_netdev_cmd = 4 \<and> alignof enum_netdev_cmd = 4 \<and> wf_cty enum_netdev_cmd"
  by (simp add: enum_netdev_cmd_def base_types layout_eval
      del: One_nat_def)

lemma enum_netdev_priv_flags_layout [layout_simps]:
  "sizeof enum_netdev_priv_flags = 4 \<and> alignof enum_netdev_priv_flags = 4 \<and> wf_cty enum_netdev_priv_flags"
  by (simp add: enum_netdev_priv_flags_def base_types layout_eval
      del: One_nat_def)

lemma enum_nfs_opnum4_layout [layout_simps]:
  "sizeof enum_nfs_opnum4 = 4 \<and> alignof enum_nfs_opnum4 = 4 \<and> wf_cty enum_nfs_opnum4"
  by (simp add: enum_nfs_opnum4_def base_types layout_eval
      del: One_nat_def)

lemma enum_nfs_stat_layout [layout_simps]:
  "sizeof enum_nfs_stat = 4 \<and> alignof enum_nfs_stat = 4 \<and> wf_cty enum_nfs_stat"
  by (simp add: enum_nfs_stat_def base_types layout_eval
      del: One_nat_def)

lemma enum_nfsstat4_layout [layout_simps]:
  "sizeof enum_nfsstat4 = 4 \<and> alignof enum_nfsstat4 = 4 \<and> wf_cty enum_nfsstat4"
  by (simp add: enum_nfsstat4_def base_types layout_eval
      del: One_nat_def)

lemma enum_node_stat_item_layout [layout_simps]:
  "sizeof enum_node_stat_item = 4 \<and> alignof enum_node_stat_item = 4 \<and> wf_cty enum_node_stat_item"
  by (simp add: enum_node_stat_item_def base_types layout_eval
      del: One_nat_def)

lemma enum_opal_token_layout [layout_simps]:
  "sizeof enum_opal_token = 4 \<and> alignof enum_opal_token = 4 \<and> wf_cty enum_opal_token"
  by (simp add: enum_opal_token_def base_types layout_eval
      del: One_nat_def)

lemma enum_opal_uid_layout [layout_simps]:
  "sizeof enum_opal_uid = 4 \<and> alignof enum_opal_uid = 4 \<and> wf_cty enum_opal_uid"
  by (simp add: enum_opal_uid_def base_types layout_eval
      del: One_nat_def)

lemma enum_pageflags_layout [layout_simps]:
  "sizeof enum_pageflags = 4 \<and> alignof enum_pageflags = 4 \<and> wf_cty enum_pageflags"
  by (simp add: enum_pageflags_def base_types layout_eval
      del: One_nat_def)

lemma enum_palmas_external_requestor_id_layout [layout_simps]:
  "sizeof enum_palmas_external_requestor_id = 4 \<and> alignof enum_palmas_external_requestor_id = 4 \<and> wf_cty enum_palmas_external_requestor_id"
  by (simp add: enum_palmas_external_requestor_id_def base_types layout_eval
      del: One_nat_def)

lemma enum_palmas_irqs_layout [layout_simps]:
  "sizeof enum_palmas_irqs = 4 \<and> alignof enum_palmas_irqs = 4 \<and> wf_cty enum_palmas_irqs"
  by (simp add: enum_palmas_irqs_def base_types layout_eval
      del: One_nat_def)

lemma enum_palmas_regulators_layout [layout_simps]:
  "sizeof enum_palmas_regulators = 4 \<and> alignof enum_palmas_regulators = 4 \<and> wf_cty enum_palmas_regulators"
  by (simp add: enum_palmas_regulators_def base_types layout_eval
      del: One_nat_def)

lemma enum_pin_config_param_layout [layout_simps]:
  "sizeof enum_pin_config_param = 4 \<and> alignof enum_pin_config_param = 4 \<and> wf_cty enum_pin_config_param"
  by (simp add: enum_pin_config_param_def base_types layout_eval
      del: One_nat_def)

lemma enum_policy_opt_layout [layout_simps]:
  "sizeof enum_policy_opt = 4 \<and> alignof enum_policy_opt = 4 \<and> wf_cty enum_policy_opt"
  by (simp add: enum_policy_opt_def base_types layout_eval
      del: One_nat_def)

lemma enum_power_supply_property_layout [layout_simps]:
  "sizeof enum_power_supply_property = 4 \<and> alignof enum_power_supply_property = 4 \<and> wf_cty enum_power_supply_property"
  by (simp add: enum_power_supply_property_def base_types layout_eval
      del: One_nat_def)

lemma enum_regnames_layout [layout_simps]:
  "sizeof enum_regnames = 4 \<and> alignof enum_regnames = 4 \<and> wf_cty enum_regnames"
  by (simp add: enum_regnames_def base_types layout_eval
      del: One_nat_def)

lemma enum_rtattr_type_t_layout [layout_simps]:
  "sizeof enum_rtattr_type_t = 4 \<and> alignof enum_rtattr_type_t = 4 \<and> wf_cty enum_rtattr_type_t"
  by (simp add: enum_rtattr_type_t_def base_types layout_eval
      del: One_nat_def)

lemma enum_rtnetlink_groups_layout [layout_simps]:
  "sizeof enum_rtnetlink_groups = 4 \<and> alignof enum_rtnetlink_groups = 4 \<and> wf_cty enum_rtnetlink_groups"
  by (simp add: enum_rtnetlink_groups_def base_types layout_eval
      del: One_nat_def)

lemma enum_scan_result_layout [layout_simps]:
  "sizeof enum_scan_result = 4 \<and> alignof enum_scan_result = 4 \<and> wf_cty enum_scan_result"
  by (simp add: enum_scan_result_def base_types layout_eval
      del: One_nat_def)

lemma enum_scsi_msg_byte_layout [layout_simps]:
  "sizeof enum_scsi_msg_byte = 4 \<and> alignof enum_scsi_msg_byte = 4 \<and> wf_cty enum_scsi_msg_byte"
  by (simp add: enum_scsi_msg_byte_def base_types layout_eval
      del: One_nat_def)

lemma enum_sctp_cid_layout [layout_simps]:
  "sizeof enum_sctp_cid = 4 \<and> alignof enum_sctp_cid = 4 \<and> wf_cty enum_sctp_cid"
  by (simp add: enum_sctp_cid_def base_types layout_eval
      del: One_nat_def)

lemma enum_sctp_param_layout [layout_simps]:
  "sizeof enum_sctp_param = 4 \<and> alignof enum_sctp_param = 4 \<and> wf_cty enum_sctp_param"
  by (simp add: enum_sctp_param_def base_types layout_eval
      del: One_nat_def)

lemma enum_sk_rst_reason_layout [layout_simps]:
  "sizeof enum_sk_rst_reason = 4 \<and> alignof enum_sk_rst_reason = 4 \<and> wf_cty enum_sk_rst_reason"
  by (simp add: enum_sk_rst_reason_def base_types layout_eval
      del: One_nat_def)

lemma enum_skb_drop_reason_layout [layout_simps]:
  "sizeof enum_skb_drop_reason = 4 \<and> alignof enum_skb_drop_reason = 4 \<and> wf_cty enum_skb_drop_reason"
  by (simp add: enum_skb_drop_reason_def base_types layout_eval
      del: One_nat_def)

lemma enum_smca_bank_types_layout [layout_simps]:
  "sizeof enum_smca_bank_types = 4 \<and> alignof enum_smca_bank_types = 4 \<and> wf_cty enum_smca_bank_types"
  by (simp add: enum_smca_bank_types_def base_types layout_eval
      del: One_nat_def)

lemma enum_sock_flags_layout [layout_simps]:
  "sizeof enum_sock_flags = 4 \<and> alignof enum_sock_flags = 4 \<and> wf_cty enum_sock_flags"
  by (simp add: enum_sock_flags_def base_types layout_eval
      del: One_nat_def)

lemma enum_special_kfunc_type_layout [layout_simps]:
  "sizeof enum_special_kfunc_type = 4 \<and> alignof enum_special_kfunc_type = 4 \<and> wf_cty enum_special_kfunc_type"
  by (simp add: enum_special_kfunc_type_def base_types layout_eval
      del: One_nat_def)

lemma enum_stat_item_layout [layout_simps]:
  "sizeof enum_stat_item = 4 \<and> alignof enum_stat_item = 4 \<and> wf_cty enum_stat_item"
  by (simp add: enum_stat_item_def base_types layout_eval
      del: One_nat_def)

lemma enum_tca_id_layout [layout_simps]:
  "sizeof enum_tca_id = 4 \<and> alignof enum_tca_id = 4 \<and> wf_cty enum_tca_id"
  by (simp add: enum_tca_id_def base_types layout_eval
      del: One_nat_def)

lemma enum_thermal_genl_attr_layout [layout_simps]:
  "sizeof enum_thermal_genl_attr = 4 \<and> alignof enum_thermal_genl_attr = 4 \<and> wf_cty enum_thermal_genl_attr"
  by (simp add: enum_thermal_genl_attr_def base_types layout_eval
      del: One_nat_def)

lemma enum_tomoyo_conditions_index_layout [layout_simps]:
  "sizeof enum_tomoyo_conditions_index = 4 \<and> alignof enum_tomoyo_conditions_index = 4 \<and> wf_cty enum_tomoyo_conditions_index"
  by (simp add: enum_tomoyo_conditions_index_def base_types layout_eval
      del: One_nat_def)

lemma enum_tomoyo_mac_index_layout [layout_simps]:
  "sizeof enum_tomoyo_mac_index = 4 \<and> alignof enum_tomoyo_mac_index = 4 \<and> wf_cty enum_tomoyo_mac_index"
  by (simp add: enum_tomoyo_mac_index_def base_types layout_eval
      del: One_nat_def)

lemma enum_tpm2_command_codes_layout [layout_simps]:
  "sizeof enum_tpm2_command_codes = 4 \<and> alignof enum_tpm2_command_codes = 4 \<and> wf_cty enum_tpm2_command_codes"
  by (simp add: enum_tpm2_command_codes_def base_types layout_eval
      del: One_nat_def)

lemma enum_tps65912_irqs_layout [layout_simps]:
  "sizeof enum_tps65912_irqs = 4 \<and> alignof enum_tps65912_irqs = 4 \<and> wf_cty enum_tps65912_irqs"
  by (simp add: enum_tps65912_irqs_def base_types layout_eval
      del: One_nat_def)

lemma enum_tps65917_irqs_layout [layout_simps]:
  "sizeof enum_tps65917_irqs = 4 \<and> alignof enum_tps65917_irqs = 4 \<and> wf_cty enum_tps65917_irqs"
  by (simp add: enum_tps65917_irqs_def base_types layout_eval
      del: One_nat_def)

lemma enum_trace_iterator_bits_layout [layout_simps]:
  "sizeof enum_trace_iterator_bits = 4 \<and> alignof enum_trace_iterator_bits = 4 \<and> wf_cty enum_trace_iterator_bits"
  by (simp add: enum_trace_iterator_bits_def base_types layout_eval
      del: One_nat_def)

lemma enum_vcap_action_field_layout [layout_simps]:
  "sizeof enum_vcap_action_field = 4 \<and> alignof enum_vcap_action_field = 4 \<and> wf_cty enum_vcap_action_field"
  by (simp add: enum_vcap_action_field_def base_types layout_eval
      del: One_nat_def)

lemma enum_vcap_key_field_layout [layout_simps]:
  "sizeof enum_vcap_key_field = 4 \<and> alignof enum_vcap_key_field = 4 \<and> wf_cty enum_vcap_key_field"
  by (simp add: enum_vcap_key_field_def base_types layout_eval
      del: One_nat_def)

lemma enum_vcap_keyfield_set_layout [layout_simps]:
  "sizeof enum_vcap_keyfield_set = 4 \<and> alignof enum_vcap_keyfield_set = 4 \<and> wf_cty enum_vcap_keyfield_set"
  by (simp add: enum_vcap_keyfield_set_def base_types layout_eval
      del: One_nat_def)

lemma enum_vm_event_item_layout [layout_simps]:
  "sizeof enum_vm_event_item = 4 \<and> alignof enum_vm_event_item = 4 \<and> wf_cty enum_vm_event_item"
  by (simp add: enum_vm_event_item_def base_types layout_eval
      del: One_nat_def)

lemma enum_wiphy_flags_layout [layout_simps]:
  "sizeof enum_wiphy_flags = 4 \<and> alignof enum_wiphy_flags = 4 \<and> wf_cty enum_wiphy_flags"
  by (simp add: enum_wiphy_flags_def base_types layout_eval
      del: One_nat_def)

lemma enum_xdp_rss_hash_type_layout [layout_simps]:
  "sizeof enum_xdp_rss_hash_type = 4 \<and> alignof enum_xdp_rss_hash_type = 4 \<and> wf_cty enum_xdp_rss_hash_type"
  by (simp add: enum_xdp_rss_hash_type_def base_types layout_eval
      del: One_nat_def)

lemma enum_xfrm_attr_type_t_layout [layout_simps]:
  "sizeof enum_xfrm_attr_type_t = 4 \<and> alignof enum_xfrm_attr_type_t = 4 \<and> wf_cty enum_xfrm_attr_type_t"
  by (simp add: enum_xfrm_attr_type_t_def base_types layout_eval
      del: One_nat_def)

end
