(* ===== verification/KernelLargea.thy ===== *)
theory KernelLargea
  imports CLayout
begin

text \<open>
  Types of other subsystems in \<^verbatim>\<open>bpf/vmlinux.h\<close>: those that take 25 lines and more there, with every type they
  hold by value (part 1 of 10).
\<close>

section \<open>Types\<close>

definition enum_OID :: cty where
  "enum_OID = CEnum 4
     [(''OID_id_dsa_with_sha1'', 0), (''OID_id_dsa'', 1), (''OID_id_ecPublicKey'', 2),
      (''OID_id_prime192v1'', 3), (''OID_id_prime256v1'', 4), (''OID_id_ecdsa_with_sha1'', 5),
      (''OID_id_ecdsa_with_sha224'', 6), (''OID_id_ecdsa_with_sha256'', 7),
      (''OID_id_ecdsa_with_sha384'', 8), (''OID_id_ecdsa_with_sha512'', 9),
      (''OID_rsaEncryption'', 10), (''OID_sha1WithRSAEncryption'', 11),
      (''OID_sha256WithRSAEncryption'', 12), (''OID_sha384WithRSAEncryption'', 13),
      (''OID_sha512WithRSAEncryption'', 14), (''OID_sha224WithRSAEncryption'', 15),
      (''OID_data'', 16), (''OID_signed_data'', 17), (''OID_email_address'', 18),
      (''OID_contentType'', 19), (''OID_messageDigest'', 20), (''OID_signingTime'', 21),
      (''OID_smimeCapabilites'', 22), (''OID_smimeAuthenticatedAttrs'', 23),
      (''OID_mskrb5'', 24), (''OID_krb5'', 25), (''OID_krb5u2u'', 26),
      (''OID_msIndirectData'', 27), (''OID_msStatementType'', 28), (''OID_msSpOpusInfo'', 29),
      (''OID_msPeImageDataObjId'', 30), (''OID_msIndividualSPKeyPurpose'', 31),
      (''OID_msOutlookExpress'', 32), (''OID_ntlmssp'', 33), (''OID_negoex'', 34),
      (''OID_spnego'', 35), (''OID_IAKerb'', 36), (''OID_PKU2U'', 37), (''OID_Scram'', 38),
      (''OID_certAuthInfoAccess'', 39), (''OID_sha1'', 40), (''OID_id_ansip384r1'', 41),
      (''OID_id_ansip521r1'', 42), (''OID_sha256'', 43), (''OID_sha384'', 44),
      (''OID_sha512'', 45), (''OID_sha224'', 46), (''OID_commonName'', 47),
      (''OID_surname'', 48), (''OID_countryName'', 49), (''OID_locality'', 50),
      (''OID_stateOrProvinceName'', 51), (''OID_organizationName'', 52),
      (''OID_organizationUnitName'', 53), (''OID_title'', 54), (''OID_description'', 55),
      (''OID_name'', 56), (''OID_givenName'', 57), (''OID_initials'', 58),
      (''OID_generationalQualifier'', 59), (''OID_subjectKeyIdentifier'', 60),
      (''OID_keyUsage'', 61), (''OID_subjectAltName'', 62), (''OID_issuerAltName'', 63),
      (''OID_basicConstraints'', 64), (''OID_crlDistributionPoints'', 65),
      (''OID_certPolicies'', 66), (''OID_authorityKeyIdentifier'', 67),
      (''OID_extKeyUsage'', 68), (''OID_NetlogonMechanism'', 69),
      (''OID_appleLocalKdcSupported'', 70), (''OID_gostCPSignA'', 71),
      (''OID_gostCPSignB'', 72), (''OID_gostCPSignC'', 73), (''OID_gost2012PKey256'', 74),
      (''OID_gost2012PKey512'', 75), (''OID_gost2012Digest256'', 76),
      (''OID_gost2012Digest512'', 77), (''OID_gost2012Signature256'', 78),
      (''OID_gost2012Signature512'', 79), (''OID_gostTC26Sign256A'', 80),
      (''OID_gostTC26Sign256B'', 81), (''OID_gostTC26Sign256C'', 82),
      (''OID_gostTC26Sign256D'', 83), (''OID_gostTC26Sign512A'', 84),
      (''OID_gostTC26Sign512B'', 85), (''OID_gostTC26Sign512C'', 86), (''OID_sm2'', 87),
      (''OID_sm3'', 88), (''OID_SM2_with_SM3'', 89), (''OID_sm3WithRSAEncryption'', 90),
      (''OID_TPMLoadableKey'', 91), (''OID_TPMImportableKey'', 92), (''OID_TPMSealedData'', 93),
      (''OID_sha3_256'', 94), (''OID_sha3_384'', 95), (''OID_sha3_512'', 96),
      (''OID_id_ecdsa_with_sha3_256'', 97), (''OID_id_ecdsa_with_sha3_384'', 98),
      (''OID_id_ecdsa_with_sha3_512'', 99), (''OID_id_rsassa_pkcs1_v1_5_with_sha3_256'', 100),
      (''OID_id_rsassa_pkcs1_v1_5_with_sha3_384'', 101),
      (''OID_id_rsassa_pkcs1_v1_5_with_sha3_512'', 102), (''OID_id_ml_dsa_44'', 103),
      (''OID_id_ml_dsa_65'', 104), (''OID_id_ml_dsa_87'', 105), (''OID__NR'', 106)]"

definition enum_P4_ESCR_EMASKS :: cty where
  "enum_P4_ESCR_EMASKS = CEnum 4
     [(''P4_EVENT_TC_DELIVER_MODE__DD'', 512), (''P4_EVENT_TC_DELIVER_MODE__DB'', 1024),
      (''P4_EVENT_TC_DELIVER_MODE__DI'', 2048), (''P4_EVENT_TC_DELIVER_MODE__BD'', 4096),
      (''P4_EVENT_TC_DELIVER_MODE__BB'', 8192), (''P4_EVENT_TC_DELIVER_MODE__BI'', 16384),
      (''P4_EVENT_TC_DELIVER_MODE__ID'', 32768), (''P4_EVENT_BPU_FETCH_REQUEST__TCMISS'', 512),
      (''P4_EVENT_ITLB_REFERENCE__HIT'', 512), (''P4_EVENT_ITLB_REFERENCE__MISS'', 1024),
      (''P4_EVENT_ITLB_REFERENCE__HIT_UK'', 2048),
      (''P4_EVENT_MEMORY_CANCEL__ST_RB_FULL'', 2048),
      (''P4_EVENT_MEMORY_CANCEL__64K_CONF'', 4096), (''P4_EVENT_MEMORY_COMPLETE__LSC'', 512),
      (''P4_EVENT_MEMORY_COMPLETE__SSC'', 1024),
      (''P4_EVENT_LOAD_PORT_REPLAY__SPLIT_LD'', 1024),
      (''P4_EVENT_STORE_PORT_REPLAY__SPLIT_ST'', 1024),
      (''P4_EVENT_MOB_LOAD_REPLAY__NO_STA'', 1024),
      (''P4_EVENT_MOB_LOAD_REPLAY__NO_STD'', 4096),
      (''P4_EVENT_MOB_LOAD_REPLAY__PARTIAL_DATA'', 8192),
      (''P4_EVENT_MOB_LOAD_REPLAY__UNALGN_ADDR'', 16384),
      (''P4_EVENT_PAGE_WALK_TYPE__DTMISS'', 512), (''P4_EVENT_PAGE_WALK_TYPE__ITMISS'', 1024),
      (''P4_EVENT_BSQ_CACHE_REFERENCE__RD_2ndL_HITS'', 512),
      (''P4_EVENT_BSQ_CACHE_REFERENCE__RD_2ndL_HITE'', 1024),
      (''P4_EVENT_BSQ_CACHE_REFERENCE__RD_2ndL_HITM'', 2048),
      (''P4_EVENT_BSQ_CACHE_REFERENCE__RD_3rdL_HITS'', 4096),
      (''P4_EVENT_BSQ_CACHE_REFERENCE__RD_3rdL_HITE'', 8192),
      (''P4_EVENT_BSQ_CACHE_REFERENCE__RD_3rdL_HITM'', 16384),
      (''P4_EVENT_BSQ_CACHE_REFERENCE__RD_2ndL_MISS'', 131072),
      (''P4_EVENT_BSQ_CACHE_REFERENCE__RD_3rdL_MISS'', 262144),
      (''P4_EVENT_BSQ_CACHE_REFERENCE__WR_2ndL_MISS'', 524288),
      (''P4_EVENT_IOQ_ALLOCATION__DEFAULT'', 512),
      (''P4_EVENT_IOQ_ALLOCATION__ALL_READ'', 16384),
      (''P4_EVENT_IOQ_ALLOCATION__ALL_WRITE'', 32768),
      (''P4_EVENT_IOQ_ALLOCATION__MEM_UC'', 65536),
      (''P4_EVENT_IOQ_ALLOCATION__MEM_WC'', 131072),
      (''P4_EVENT_IOQ_ALLOCATION__MEM_WT'', 262144),
      (''P4_EVENT_IOQ_ALLOCATION__MEM_WP'', 524288),
      (''P4_EVENT_IOQ_ALLOCATION__MEM_WB'', 1048576),
      (''P4_EVENT_IOQ_ALLOCATION__OWN'', 4194304),
      (''P4_EVENT_IOQ_ALLOCATION__OTHER'', 8388608),
      (''P4_EVENT_IOQ_ALLOCATION__PREFETCH'', 16777216),
      (''P4_EVENT_IOQ_ACTIVE_ENTRIES__DEFAULT'', 512),
      (''P4_EVENT_IOQ_ACTIVE_ENTRIES__ALL_READ'', 16384),
      (''P4_EVENT_IOQ_ACTIVE_ENTRIES__ALL_WRITE'', 32768),
      (''P4_EVENT_IOQ_ACTIVE_ENTRIES__MEM_UC'', 65536),
      (''P4_EVENT_IOQ_ACTIVE_ENTRIES__MEM_WC'', 131072),
      (''P4_EVENT_IOQ_ACTIVE_ENTRIES__MEM_WT'', 262144),
      (''P4_EVENT_IOQ_ACTIVE_ENTRIES__MEM_WP'', 524288),
      (''P4_EVENT_IOQ_ACTIVE_ENTRIES__MEM_WB'', 1048576),
      (''P4_EVENT_IOQ_ACTIVE_ENTRIES__OWN'', 4194304),
      (''P4_EVENT_IOQ_ACTIVE_ENTRIES__OTHER'', 8388608),
      (''P4_EVENT_IOQ_ACTIVE_ENTRIES__PREFETCH'', 16777216),
      (''P4_EVENT_FSB_DATA_ACTIVITY__DRDY_DRV'', 512),
      (''P4_EVENT_FSB_DATA_ACTIVITY__DRDY_OWN'', 1024),
      (''P4_EVENT_FSB_DATA_ACTIVITY__DRDY_OTHER'', 2048),
      (''P4_EVENT_FSB_DATA_ACTIVITY__DBSY_DRV'', 4096),
      (''P4_EVENT_FSB_DATA_ACTIVITY__DBSY_OWN'', 8192),
      (''P4_EVENT_FSB_DATA_ACTIVITY__DBSY_OTHER'', 16384),
      (''P4_EVENT_BSQ_ALLOCATION__REQ_TYPE0'', 512),
      (''P4_EVENT_BSQ_ALLOCATION__REQ_TYPE1'', 1024),
      (''P4_EVENT_BSQ_ALLOCATION__REQ_LEN0'', 2048),
      (''P4_EVENT_BSQ_ALLOCATION__REQ_LEN1'', 4096),
      (''P4_EVENT_BSQ_ALLOCATION__REQ_IO_TYPE'', 16384),
      (''P4_EVENT_BSQ_ALLOCATION__REQ_LOCK_TYPE'', 32768),
      (''P4_EVENT_BSQ_ALLOCATION__REQ_CACHE_TYPE'', 65536),
      (''P4_EVENT_BSQ_ALLOCATION__REQ_SPLIT_TYPE'', 131072),
      (''P4_EVENT_BSQ_ALLOCATION__REQ_DEM_TYPE'', 262144),
      (''P4_EVENT_BSQ_ALLOCATION__REQ_ORD_TYPE'', 524288),
      (''P4_EVENT_BSQ_ALLOCATION__MEM_TYPE0'', 1048576),
      (''P4_EVENT_BSQ_ALLOCATION__MEM_TYPE1'', 2097152),
      (''P4_EVENT_BSQ_ALLOCATION__MEM_TYPE2'', 4194304),
      (''P4_EVENT_BSQ_ACTIVE_ENTRIES__REQ_TYPE0'', 512),
      (''P4_EVENT_BSQ_ACTIVE_ENTRIES__REQ_TYPE1'', 1024),
      (''P4_EVENT_BSQ_ACTIVE_ENTRIES__REQ_LEN0'', 2048),
      (''P4_EVENT_BSQ_ACTIVE_ENTRIES__REQ_LEN1'', 4096),
      (''P4_EVENT_BSQ_ACTIVE_ENTRIES__REQ_IO_TYPE'', 16384),
      (''P4_EVENT_BSQ_ACTIVE_ENTRIES__REQ_LOCK_TYPE'', 32768),
      (''P4_EVENT_BSQ_ACTIVE_ENTRIES__REQ_CACHE_TYPE'', 65536),
      (''P4_EVENT_BSQ_ACTIVE_ENTRIES__REQ_SPLIT_TYPE'', 131072),
      (''P4_EVENT_BSQ_ACTIVE_ENTRIES__REQ_DEM_TYPE'', 262144),
      (''P4_EVENT_BSQ_ACTIVE_ENTRIES__REQ_ORD_TYPE'', 524288),
      (''P4_EVENT_BSQ_ACTIVE_ENTRIES__MEM_TYPE0'', 1048576),
      (''P4_EVENT_BSQ_ACTIVE_ENTRIES__MEM_TYPE1'', 2097152),
      (''P4_EVENT_BSQ_ACTIVE_ENTRIES__MEM_TYPE2'', 4194304),
      (''P4_EVENT_SSE_INPUT_ASSIST__ALL'', 16777216),
      (''P4_EVENT_PACKED_SP_UOP__ALL'', 16777216), (''P4_EVENT_PACKED_DP_UOP__ALL'', 16777216),
      (''P4_EVENT_SCALAR_SP_UOP__ALL'', 16777216), (''P4_EVENT_SCALAR_DP_UOP__ALL'', 16777216),
      (''P4_EVENT_64BIT_MMX_UOP__ALL'', 16777216), (''P4_EVENT_128BIT_MMX_UOP__ALL'', 16777216),
      (''P4_EVENT_X87_FP_UOP__ALL'', 16777216), (''P4_EVENT_TC_MISC__FLUSH'', 8192),
      (''P4_EVENT_GLOBAL_POWER_EVENTS__RUNNING'', 512), (''P4_EVENT_TC_MS_XFER__CISC'', 512),
      (''P4_EVENT_UOP_QUEUE_WRITES__FROM_TC_BUILD'', 512),
      (''P4_EVENT_UOP_QUEUE_WRITES__FROM_TC_DELIVER'', 1024),
      (''P4_EVENT_UOP_QUEUE_WRITES__FROM_ROM'', 2048),
      (''P4_EVENT_RETIRED_MISPRED_BRANCH_TYPE__CONDITIONAL'', 1024),
      (''P4_EVENT_RETIRED_MISPRED_BRANCH_TYPE__CALL'', 2048),
      (''P4_EVENT_RETIRED_MISPRED_BRANCH_TYPE__RETURN'', 4096),
      (''P4_EVENT_RETIRED_MISPRED_BRANCH_TYPE__INDIRECT'', 8192),
      (''P4_EVENT_RETIRED_BRANCH_TYPE__CONDITIONAL'', 1024),
      (''P4_EVENT_RETIRED_BRANCH_TYPE__CALL'', 2048),
      (''P4_EVENT_RETIRED_BRANCH_TYPE__RETURN'', 4096),
      (''P4_EVENT_RETIRED_BRANCH_TYPE__INDIRECT'', 8192),
      (''P4_EVENT_RESOURCE_STALL__SBFULL'', 16384), (''P4_EVENT_WC_BUFFER__WCB_EVICTS'', 512),
      (''P4_EVENT_WC_BUFFER__WCB_FULL_EVICTS'', 1024),
      (''P4_EVENT_FRONT_END_EVENT__NBOGUS'', 512), (''P4_EVENT_FRONT_END_EVENT__BOGUS'', 1024),
      (''P4_EVENT_EXECUTION_EVENT__NBOGUS0'', 512),
      (''P4_EVENT_EXECUTION_EVENT__NBOGUS1'', 1024),
      (''P4_EVENT_EXECUTION_EVENT__NBOGUS2'', 2048),
      (''P4_EVENT_EXECUTION_EVENT__NBOGUS3'', 4096),
      (''P4_EVENT_EXECUTION_EVENT__BOGUS0'', 8192),
      (''P4_EVENT_EXECUTION_EVENT__BOGUS1'', 16384),
      (''P4_EVENT_EXECUTION_EVENT__BOGUS2'', 32768),
      (''P4_EVENT_EXECUTION_EVENT__BOGUS3'', 65536), (''P4_EVENT_REPLAY_EVENT__NBOGUS'', 512),
      (''P4_EVENT_REPLAY_EVENT__BOGUS'', 1024), (''P4_EVENT_INSTR_RETIRED__NBOGUSNTAG'', 512),
      (''P4_EVENT_INSTR_RETIRED__NBOGUSTAG'', 1024),
      (''P4_EVENT_INSTR_RETIRED__BOGUSNTAG'', 2048),
      (''P4_EVENT_INSTR_RETIRED__BOGUSTAG'', 4096), (''P4_EVENT_UOPS_RETIRED__NBOGUS'', 512),
      (''P4_EVENT_UOPS_RETIRED__BOGUS'', 1024), (''P4_EVENT_UOP_TYPE__TAGLOADS'', 1024),
      (''P4_EVENT_UOP_TYPE__TAGSTORES'', 2048), (''P4_EVENT_BRANCH_RETIRED__MMNP'', 512),
      (''P4_EVENT_BRANCH_RETIRED__MMNM'', 1024), (''P4_EVENT_BRANCH_RETIRED__MMTP'', 2048),
      (''P4_EVENT_BRANCH_RETIRED__MMTM'', 4096),
      (''P4_EVENT_MISPRED_BRANCH_RETIRED__NBOGUS'', 512), (''P4_EVENT_X87_ASSIST__FPSU'', 512),
      (''P4_EVENT_X87_ASSIST__FPSO'', 1024), (''P4_EVENT_X87_ASSIST__POAO'', 2048),
      (''P4_EVENT_X87_ASSIST__POAU'', 4096), (''P4_EVENT_X87_ASSIST__PREA'', 8192),
      (''P4_EVENT_MACHINE_CLEAR__CLEAR'', 512), (''P4_EVENT_MACHINE_CLEAR__MOCLEAR'', 1024),
      (''P4_EVENT_MACHINE_CLEAR__SMCLEAR'', 2048), (''P4_EVENT_INSTR_COMPLETED__NBOGUS'', 512),
      (''P4_EVENT_INSTR_COMPLETED__BOGUS'', 1024)]"

definition enum_P4_EVENTS :: cty where
  "enum_P4_EVENTS = CEnum 4
     [(''P4_EVENT_TC_DELIVER_MODE'', 0), (''P4_EVENT_BPU_FETCH_REQUEST'', 1),
      (''P4_EVENT_ITLB_REFERENCE'', 2), (''P4_EVENT_MEMORY_CANCEL'', 3),
      (''P4_EVENT_MEMORY_COMPLETE'', 4), (''P4_EVENT_LOAD_PORT_REPLAY'', 5),
      (''P4_EVENT_STORE_PORT_REPLAY'', 6), (''P4_EVENT_MOB_LOAD_REPLAY'', 7),
      (''P4_EVENT_PAGE_WALK_TYPE'', 8), (''P4_EVENT_BSQ_CACHE_REFERENCE'', 9),
      (''P4_EVENT_IOQ_ALLOCATION'', 10), (''P4_EVENT_IOQ_ACTIVE_ENTRIES'', 11),
      (''P4_EVENT_FSB_DATA_ACTIVITY'', 12), (''P4_EVENT_BSQ_ALLOCATION'', 13),
      (''P4_EVENT_BSQ_ACTIVE_ENTRIES'', 14), (''P4_EVENT_SSE_INPUT_ASSIST'', 15),
      (''P4_EVENT_PACKED_SP_UOP'', 16), (''P4_EVENT_PACKED_DP_UOP'', 17),
      (''P4_EVENT_SCALAR_SP_UOP'', 18), (''P4_EVENT_SCALAR_DP_UOP'', 19),
      (''P4_EVENT_64BIT_MMX_UOP'', 20), (''P4_EVENT_128BIT_MMX_UOP'', 21),
      (''P4_EVENT_X87_FP_UOP'', 22), (''P4_EVENT_TC_MISC'', 23),
      (''P4_EVENT_GLOBAL_POWER_EVENTS'', 24), (''P4_EVENT_TC_MS_XFER'', 25),
      (''P4_EVENT_UOP_QUEUE_WRITES'', 26), (''P4_EVENT_RETIRED_MISPRED_BRANCH_TYPE'', 27),
      (''P4_EVENT_RETIRED_BRANCH_TYPE'', 28), (''P4_EVENT_RESOURCE_STALL'', 29),
      (''P4_EVENT_WC_BUFFER'', 30), (''P4_EVENT_B2B_CYCLES'', 31), (''P4_EVENT_BNR'', 32),
      (''P4_EVENT_SNOOP'', 33), (''P4_EVENT_RESPONSE'', 34), (''P4_EVENT_FRONT_END_EVENT'', 35),
      (''P4_EVENT_EXECUTION_EVENT'', 36), (''P4_EVENT_REPLAY_EVENT'', 37),
      (''P4_EVENT_INSTR_RETIRED'', 38), (''P4_EVENT_UOPS_RETIRED'', 39),
      (''P4_EVENT_UOP_TYPE'', 40), (''P4_EVENT_BRANCH_RETIRED'', 41),
      (''P4_EVENT_MISPRED_BRANCH_RETIRED'', 42), (''P4_EVENT_X87_ASSIST'', 43),
      (''P4_EVENT_MACHINE_CLEAR'', 44), (''P4_EVENT_INSTR_COMPLETED'', 45)]"

definition enum_P4_EVENT_OPCODES :: cty where
  "enum_P4_EVENT_OPCODES = CEnum 4
     [(''P4_EVENT_TC_DELIVER_MODE_OPCODE'', 257), (''P4_EVENT_BPU_FETCH_REQUEST_OPCODE'', 768),
      (''P4_EVENT_ITLB_REFERENCE_OPCODE'', 6147), (''P4_EVENT_MEMORY_CANCEL_OPCODE'', 517),
      (''P4_EVENT_MEMORY_COMPLETE_OPCODE'', 2050), (''P4_EVENT_LOAD_PORT_REPLAY_OPCODE'', 1026),
      (''P4_EVENT_STORE_PORT_REPLAY_OPCODE'', 1282), (''P4_EVENT_MOB_LOAD_REPLAY_OPCODE'', 770),
      (''P4_EVENT_PAGE_WALK_TYPE_OPCODE'', 260),
      (''P4_EVENT_BSQ_CACHE_REFERENCE_OPCODE'', 3079),
      (''P4_EVENT_IOQ_ALLOCATION_OPCODE'', 774), (''P4_EVENT_IOQ_ACTIVE_ENTRIES_OPCODE'', 6662),
      (''P4_EVENT_FSB_DATA_ACTIVITY_OPCODE'', 5894), (''P4_EVENT_BSQ_ALLOCATION_OPCODE'', 1287),
      (''P4_EVENT_BSQ_ACTIVE_ENTRIES_OPCODE'', 1543),
      (''P4_EVENT_SSE_INPUT_ASSIST_OPCODE'', 13313), (''P4_EVENT_PACKED_SP_UOP_OPCODE'', 2049),
      (''P4_EVENT_PACKED_DP_UOP_OPCODE'', 3073), (''P4_EVENT_SCALAR_SP_UOP_OPCODE'', 2561),
      (''P4_EVENT_SCALAR_DP_UOP_OPCODE'', 3585), (''P4_EVENT_64BIT_MMX_UOP_OPCODE'', 513),
      (''P4_EVENT_128BIT_MMX_UOP_OPCODE'', 6657), (''P4_EVENT_X87_FP_UOP_OPCODE'', 1025),
      (''P4_EVENT_TC_MISC_OPCODE'', 1537), (''P4_EVENT_GLOBAL_POWER_EVENTS_OPCODE'', 4870),
      (''P4_EVENT_TC_MS_XFER_OPCODE'', 1280), (''P4_EVENT_UOP_QUEUE_WRITES_OPCODE'', 2304),
      (''P4_EVENT_RETIRED_MISPRED_BRANCH_TYPE_OPCODE'', 1282),
      (''P4_EVENT_RETIRED_BRANCH_TYPE_OPCODE'', 1026),
      (''P4_EVENT_RESOURCE_STALL_OPCODE'', 257), (''P4_EVENT_WC_BUFFER_OPCODE'', 1285),
      (''P4_EVENT_B2B_CYCLES_OPCODE'', 5635), (''P4_EVENT_BNR_OPCODE'', 2051),
      (''P4_EVENT_SNOOP_OPCODE'', 1539), (''P4_EVENT_RESPONSE_OPCODE'', 1027),
      (''P4_EVENT_FRONT_END_EVENT_OPCODE'', 2053), (''P4_EVENT_EXECUTION_EVENT_OPCODE'', 3077),
      (''P4_EVENT_REPLAY_EVENT_OPCODE'', 2309), (''P4_EVENT_INSTR_RETIRED_OPCODE'', 516),
      (''P4_EVENT_UOPS_RETIRED_OPCODE'', 260), (''P4_EVENT_UOP_TYPE_OPCODE'', 514),
      (''P4_EVENT_BRANCH_RETIRED_OPCODE'', 1541),
      (''P4_EVENT_MISPRED_BRANCH_RETIRED_OPCODE'', 772), (''P4_EVENT_X87_ASSIST_OPCODE'', 773),
      (''P4_EVENT_MACHINE_CLEAR_OPCODE'', 517), (''P4_EVENT_INSTR_COMPLETED_OPCODE'', 1796)]"

definition enum_acpi_ex_debugger_commands :: cty where
  "enum_acpi_ex_debugger_commands = CEnum 4
     [(''CMD_NOT_FOUND'', 0), (''CMD_NULL'', 1), (''CMD_ALL'', 2), (''CMD_ALLOCATIONS'', 3),
      (''CMD_ARGS'', 4), (''CMD_ARGUMENTS'', 5), (''CMD_BREAKPOINT'', 6), (''CMD_BUSINFO'', 7),
      (''CMD_CALL'', 8), (''CMD_DEBUG'', 9), (''CMD_DISASSEMBLE'', 10), (''CMD_DISASM'', 11),
      (''CMD_DUMP'', 12), (''CMD_EVALUATE'', 13), (''CMD_EXECUTE'', 14), (''CMD_EXIT'', 15),
      (''CMD_FIELDS'', 16), (''CMD_FIND'', 17), (''CMD_GO'', 18), (''CMD_HANDLERS'', 19),
      (''CMD_HELP'', 20), (''CMD_HELP2'', 21), (''CMD_HISTORY'', 22), (''CMD_HISTORY_EXE'', 23),
      (''CMD_HISTORY_LAST'', 24), (''CMD_INFORMATION'', 25), (''CMD_INTEGRITY'', 26),
      (''CMD_INTO'', 27), (''CMD_LEVEL'', 28), (''CMD_LIST'', 29), (''CMD_LOCALS'', 30),
      (''CMD_LOCKS'', 31), (''CMD_METHODS'', 32), (''CMD_NAMESPACE'', 33), (''CMD_NOTIFY'', 34),
      (''CMD_OBJECTS'', 35), (''CMD_OSI'', 36), (''CMD_OWNER'', 37), (''CMD_PATHS'', 38),
      (''CMD_PREDEFINED'', 39), (''CMD_PREFIX'', 40), (''CMD_QUIT'', 41),
      (''CMD_REFERENCES'', 42), (''CMD_RESOURCES'', 43), (''CMD_RESULTS'', 44),
      (''CMD_SET'', 45), (''CMD_STATS'', 46), (''CMD_STOP'', 47), (''CMD_TABLES'', 48),
      (''CMD_TEMPLATE'', 49), (''CMD_TRACE'', 50), (''CMD_TREE'', 51), (''CMD_TYPE'', 52)]"

definition enum_acpi_madt_type :: cty where
  "enum_acpi_madt_type = CEnum 4
     [(''ACPI_MADT_TYPE_LOCAL_APIC'', 0), (''ACPI_MADT_TYPE_IO_APIC'', 1),
      (''ACPI_MADT_TYPE_INTERRUPT_OVERRIDE'', 2), (''ACPI_MADT_TYPE_NMI_SOURCE'', 3),
      (''ACPI_MADT_TYPE_LOCAL_APIC_NMI'', 4), (''ACPI_MADT_TYPE_LOCAL_APIC_OVERRIDE'', 5),
      (''ACPI_MADT_TYPE_IO_SAPIC'', 6), (''ACPI_MADT_TYPE_LOCAL_SAPIC'', 7),
      (''ACPI_MADT_TYPE_INTERRUPT_SOURCE'', 8), (''ACPI_MADT_TYPE_LOCAL_X2APIC'', 9),
      (''ACPI_MADT_TYPE_LOCAL_X2APIC_NMI'', 10), (''ACPI_MADT_TYPE_GENERIC_INTERRUPT'', 11),
      (''ACPI_MADT_TYPE_GENERIC_DISTRIBUTOR'', 12), (''ACPI_MADT_TYPE_GENERIC_MSI_FRAME'', 13),
      (''ACPI_MADT_TYPE_GENERIC_REDISTRIBUTOR'', 14),
      (''ACPI_MADT_TYPE_GENERIC_TRANSLATOR'', 15), (''ACPI_MADT_TYPE_MULTIPROC_WAKEUP'', 16),
      (''ACPI_MADT_TYPE_CORE_PIC'', 17), (''ACPI_MADT_TYPE_LIO_PIC'', 18),
      (''ACPI_MADT_TYPE_HT_PIC'', 19), (''ACPI_MADT_TYPE_EIO_PIC'', 20),
      (''ACPI_MADT_TYPE_MSI_PIC'', 21), (''ACPI_MADT_TYPE_BIO_PIC'', 22),
      (''ACPI_MADT_TYPE_LPC_PIC'', 23), (''ACPI_MADT_TYPE_RINTC'', 24),
      (''ACPI_MADT_TYPE_IMSIC'', 25), (''ACPI_MADT_TYPE_APLIC'', 26),
      (''ACPI_MADT_TYPE_PLIC'', 27), (''ACPI_MADT_TYPE_GICV5_IRS'', 28),
      (''ACPI_MADT_TYPE_GICV5_ITS'', 29), (''ACPI_MADT_TYPE_GICV5_ITS_TRANSLATE'', 30),
      (''ACPI_MADT_TYPE_RESERVED'', 31), (''ACPI_MADT_TYPE_OEM_RESERVED'', 128)]"

definition enum_asn1_opcode :: cty where
  "enum_asn1_opcode = CEnum 4
     [(''ASN1_OP_MATCH'', 0), (''ASN1_OP_MATCH_OR_SKIP'', 1), (''ASN1_OP_MATCH_ACT'', 2),
      (''ASN1_OP_MATCH_ACT_OR_SKIP'', 3), (''ASN1_OP_MATCH_JUMP'', 4),
      (''ASN1_OP_MATCH_JUMP_OR_SKIP'', 5), (''ASN1_OP_MATCH_ANY'', 8),
      (''ASN1_OP_MATCH_ANY_OR_SKIP'', 9), (''ASN1_OP_MATCH_ANY_ACT'', 10),
      (''ASN1_OP_MATCH_ANY_ACT_OR_SKIP'', 11), (''ASN1_OP_COND_MATCH_OR_SKIP'', 17),
      (''ASN1_OP_COND_MATCH_ACT_OR_SKIP'', 19), (''ASN1_OP_COND_MATCH_JUMP_OR_SKIP'', 21),
      (''ASN1_OP_COND_MATCH_ANY'', 24), (''ASN1_OP_COND_MATCH_ANY_OR_SKIP'', 25),
      (''ASN1_OP_COND_MATCH_ANY_ACT'', 26), (''ASN1_OP_COND_MATCH_ANY_ACT_OR_SKIP'', 27),
      (''ASN1_OP_COND_FAIL'', 28), (''ASN1_OP_COMPLETE'', 29), (''ASN1_OP_ACT'', 30),
      (''ASN1_OP_MAYBE_ACT'', 31), (''ASN1_OP_END_SEQ'', 32), (''ASN1_OP_END_SET'', 33),
      (''ASN1_OP_END_SEQ_OF'', 34), (''ASN1_OP_END_SET_OF'', 35), (''ASN1_OP_END_SEQ_ACT'', 36),
      (''ASN1_OP_END_SET_ACT'', 37), (''ASN1_OP_END_SEQ_OF_ACT'', 38),
      (''ASN1_OP_END_SET_OF_ACT'', 39), (''ASN1_OP_RETURN'', 40), (''ASN1_OP__NR'', 41)]"

definition enum_asn1_tag :: cty where
  "enum_asn1_tag = CEnum 4
     [(''ASN1_EOC'', 0), (''ASN1_BOOL'', 1), (''ASN1_INT'', 2), (''ASN1_BTS'', 3),
      (''ASN1_OTS'', 4), (''ASN1_NULL'', 5), (''ASN1_OID'', 6), (''ASN1_ODE'', 7),
      (''ASN1_EXT'', 8), (''ASN1_REAL'', 9), (''ASN1_ENUM'', 10), (''ASN1_EPDV'', 11),
      (''ASN1_UTF8STR'', 12), (''ASN1_RELOID'', 13), (''ASN1_SEQ'', 16), (''ASN1_SET'', 17),
      (''ASN1_NUMSTR'', 18), (''ASN1_PRNSTR'', 19), (''ASN1_TEXSTR'', 20),
      (''ASN1_VIDSTR'', 21), (''ASN1_IA5STR'', 22), (''ASN1_UNITIM'', 23),
      (''ASN1_GENTIM'', 24), (''ASN1_GRASTR'', 25), (''ASN1_VISSTR'', 26),
      (''ASN1_GENSTR'', 27), (''ASN1_UNISTR'', 28), (''ASN1_CHRSTR'', 29),
      (''ASN1_BMPSTR'', 30), (''ASN1_LONG_TAG'', 31)]"

definition enum_ata_quirks :: cty where
  "enum_ata_quirks = CEnum 4
     [(''__ATA_QUIRK_DIAGNOSTIC'', 0), (''__ATA_QUIRK_NODMA'', 1), (''__ATA_QUIRK_NONCQ'', 2),
      (''__ATA_QUIRK_BROKEN_HPA'', 3), (''__ATA_QUIRK_DISABLE'', 4),
      (''__ATA_QUIRK_HPA_SIZE'', 5), (''__ATA_QUIRK_IVB'', 6), (''__ATA_QUIRK_STUCK_ERR'', 7),
      (''__ATA_QUIRK_BRIDGE_OK'', 8), (''__ATA_QUIRK_ATAPI_MOD16_DMA'', 9),
      (''__ATA_QUIRK_FIRMWARE_WARN'', 10), (''__ATA_QUIRK_1_5_GBPS'', 11),
      (''__ATA_QUIRK_NOSETXFER'', 12), (''__ATA_QUIRK_BROKEN_FPDMA_AA'', 13),
      (''__ATA_QUIRK_DUMP_ID'', 14), (''__ATA_QUIRK_MAX_SEC_LBA48'', 15),
      (''__ATA_QUIRK_ATAPI_DMADIR'', 16), (''__ATA_QUIRK_NO_NCQ_TRIM'', 17),
      (''__ATA_QUIRK_NOLPM'', 18), (''__ATA_QUIRK_WD_BROKEN_LPM'', 19),
      (''__ATA_QUIRK_ZERO_AFTER_TRIM'', 20), (''__ATA_QUIRK_NO_DMA_LOG'', 21),
      (''__ATA_QUIRK_NOTRIM'', 22), (''__ATA_QUIRK_MAX_SEC'', 23),
      (''__ATA_QUIRK_MAX_TRIM_128M'', 24), (''__ATA_QUIRK_NO_NCQ_ON_ATI'', 25),
      (''__ATA_QUIRK_NO_LPM_ON_ATI'', 26), (''__ATA_QUIRK_NO_ID_DEV_LOG'', 27),
      (''__ATA_QUIRK_NO_LOG_DIR'', 28), (''__ATA_QUIRK_NO_FUA'', 29), (''__ATA_QUIRK_MAX'', 30)]"

definition enum_blktrace_cat :: cty where
  "enum_blktrace_cat = CEnum 4
     [(''BLK_TC_READ'', 1), (''BLK_TC_WRITE'', 2), (''BLK_TC_FLUSH'', 4), (''BLK_TC_SYNC'', 8),
      (''BLK_TC_SYNCIO'', 8), (''BLK_TC_QUEUE'', 16), (''BLK_TC_REQUEUE'', 32),
      (''BLK_TC_ISSUE'', 64), (''BLK_TC_COMPLETE'', 128), (''BLK_TC_FS'', 256),
      (''BLK_TC_PC'', 512), (''BLK_TC_NOTIFY'', 1024), (''BLK_TC_AHEAD'', 2048),
      (''BLK_TC_META'', 4096), (''BLK_TC_DISCARD'', 8192), (''BLK_TC_DRV_DATA'', 16384),
      (''BLK_TC_FUA'', 32768), (''BLK_TC_END_V1'', 32768), (''BLK_TC_ZONE_APPEND'', 65536),
      (''BLK_TC_ZONE_RESET'', 131072), (''BLK_TC_ZONE_RESET_ALL'', 262144),
      (''BLK_TC_ZONE_FINISH'', 524288), (''BLK_TC_ZONE_OPEN'', 1048576),
      (''BLK_TC_ZONE_CLOSE'', 2097152), (''BLK_TC_WRITE_ZEROES'', 4194304),
      (''BLK_TC_END_V2'', 4194304)]"

definition enum_cpuhp_state :: cty where
  "enum_cpuhp_state = CEnum 4
     [(''CPUHP_INVALID'', (- 1)), (''CPUHP_OFFLINE'', 0), (''CPUHP_CREATE_THREADS'', 1),
      (''CPUHP_PERF_X86_PREPARE'', 2), (''CPUHP_PERF_X86_AMD_UNCORE_PREP'', 3),
      (''CPUHP_PERF_POWER'', 4), (''CPUHP_PERF_SUPERH'', 5), (''CPUHP_X86_HPET_DEAD'', 6),
      (''CPUHP_X86_MCE_DEAD'', 7), (''CPUHP_VIRT_NET_DEAD'', 8), (''CPUHP_IBMVNIC_DEAD'', 9),
      (''CPUHP_SLUB_DEAD'', 10), (''CPUHP_DEBUG_OBJ_DEAD'', 11),
      (''CPUHP_MM_WRITEBACK_DEAD'', 12), (''CPUHP_MM_VMSTAT_DEAD'', 13),
      (''CPUHP_SOFTIRQ_DEAD'', 14), (''CPUHP_NET_MVNETA_DEAD'', 15),
      (''CPUHP_CPUIDLE_DEAD'', 16), (''CPUHP_ARM64_FPSIMD_DEAD'', 17),
      (''CPUHP_ARM_OMAP_WAKE_DEAD'', 18), (''CPUHP_IRQ_POLL_DEAD'', 19),
      (''CPUHP_BLOCK_SOFTIRQ_DEAD'', 20), (''CPUHP_BIO_DEAD'', 21),
      (''CPUHP_ACPI_CPUDRV_DEAD'', 22), (''CPUHP_S390_PFAULT_DEAD'', 23),
      (''CPUHP_BLK_MQ_DEAD'', 24), (''CPUHP_FS_BUFF_DEAD'', 25), (''CPUHP_PRINTK_DEAD'', 26),
      (''CPUHP_MM_MEMCQ_DEAD'', 27), (''CPUHP_PERCPU_CNT_DEAD'', 28),
      (''CPUHP_RADIX_DEAD'', 29), (''CPUHP_PAGE_ALLOC'', 30), (''CPUHP_NET_DEV_DEAD'', 31),
      (''CPUHP_IOMMU_IOVA_DEAD'', 32), (''CPUHP_AP_ARM_CACHE_B15_RAC_DEAD'', 33),
      (''CPUHP_AP_DTPM_CPU_DEAD'', 34), (''CPUHP_RANDOM_PREPARE'', 35),
      (''CPUHP_WORKQUEUE_PREP'', 36), (''CPUHP_POWER_NUMA_PREPARE'', 37),
      (''CPUHP_HRTIMERS_PREPARE'', 38), (''CPUHP_X2APIC_PREPARE'', 39),
      (''CPUHP_SMPCFD_PREPARE'', 40), (''CPUHP_RELAY_PREPARE'', 41),
      (''CPUHP_MD_RAID5_PREPARE'', 42), (''CPUHP_RCUTREE_PREP'', 43),
      (''CPUHP_CPUIDLE_COUPLED_PREPARE'', 44), (''CPUHP_POWERPC_PMAC_PREPARE'', 45),
      (''CPUHP_POWERPC_MMU_CTX_PREPARE'', 46), (''CPUHP_XEN_PREPARE'', 47),
      (''CPUHP_XEN_EVTCHN_PREPARE'', 48), (''CPUHP_ARM_SHMOBILE_SCU_PREPARE'', 49),
      (''CPUHP_SH_SH3X_PREPARE'', 50), (''CPUHP_TOPOLOGY_PREPARE'', 51),
      (''CPUHP_NET_IUCV_PREPARE'', 52), (''CPUHP_ARM_BL_PREPARE'', 53),
      (''CPUHP_TRACE_RB_PREPARE'', 54), (''CPUHP_MM_ZSWP_POOL_PREPARE'', 55),
      (''CPUHP_KVM_PPC_BOOK3S_PREPARE'', 56), (''CPUHP_ZCOMP_PREPARE'', 57),
      (''CPUHP_TIMERS_PREPARE'', 58), (''CPUHP_TMIGR_PREPARE'', 59),
      (''CPUHP_MIPS_SOC_PREPARE'', 60), (''CPUHP_BP_PREPARE_DYN'', 61),
      (''CPUHP_BP_PREPARE_DYN_END'', 81), (''CPUHP_BP_KICK_AP'', 82),
      (''CPUHP_BRINGUP_CPU'', 83), (''CPUHP_AP_IDLE_DEAD'', 84), (''CPUHP_AP_OFFLINE'', 85),
      (''CPUHP_AP_CACHECTRL_STARTING'', 86), (''CPUHP_AP_SCHED_STARTING'', 87),
      (''CPUHP_AP_RCUTREE_DYING'', 88), (''CPUHP_AP_CPU_PM_STARTING'', 89),
      (''CPUHP_AP_IRQ_GIC_STARTING'', 90), (''CPUHP_AP_IRQ_HIP04_STARTING'', 91),
      (''CPUHP_AP_IRQ_APPLE_AIC_STARTING'', 92), (''CPUHP_AP_IRQ_ARMADA_XP_STARTING'', 93),
      (''CPUHP_AP_IRQ_BCM2836_STARTING'', 94), (''CPUHP_AP_IRQ_MIPS_GIC_STARTING'', 95),
      (''CPUHP_AP_IRQ_EIOINTC_STARTING'', 96), (''CPUHP_AP_IRQ_AVECINTC_STARTING'', 97),
      (''CPUHP_AP_IRQ_SIFIVE_PLIC_STARTING'', 98), (''CPUHP_AP_IRQ_ACLINT_SSWI_STARTING'', 99),
      (''CPUHP_AP_IRQ_RISCV_IMSIC_STARTING'', 100),
      (''CPUHP_AP_IRQ_RISCV_SBI_IPI_STARTING'', 101), (''CPUHP_AP_ARM_MVEBU_COHERENCY'', 102),
      (''CPUHP_AP_PERF_X86_AMD_UNCORE_STARTING'', 103), (''CPUHP_AP_PERF_X86_STARTING'', 104),
      (''CPUHP_AP_PERF_X86_AMD_IBS_STARTING'', 105), (''CPUHP_AP_PERF_XTENSA_STARTING'', 106),
      (''CPUHP_AP_ARM_VFP_STARTING'', 107), (''CPUHP_AP_ARM64_DEBUG_MONITORS_STARTING'', 108),
      (''CPUHP_AP_PERF_ARM_HW_BREAKPOINT_STARTING'', 109),
      (''CPUHP_AP_PERF_ARM_ACPI_STARTING'', 110), (''CPUHP_AP_PERF_ARM_STARTING'', 111),
      (''CPUHP_AP_PERF_RISCV_STARTING'', 112), (''CPUHP_AP_ARM_L2X0_STARTING'', 113),
      (''CPUHP_AP_EXYNOS4_MCT_TIMER_STARTING'', 114),
      (''CPUHP_AP_ARM_ARCH_TIMER_STARTING'', 115),
      (''CPUHP_AP_ARM_ARCH_TIMER_EVTSTRM_STARTING'', 116),
      (''CPUHP_AP_ARM_GLOBAL_TIMER_STARTING'', 117), (''CPUHP_AP_JCORE_TIMER_STARTING'', 118),
      (''CPUHP_AP_ARM_TWD_STARTING'', 119), (''CPUHP_AP_QCOM_TIMER_STARTING'', 120),
      (''CPUHP_AP_TEGRA_TIMER_STARTING'', 121), (''CPUHP_AP_ARMADA_TIMER_STARTING'', 122),
      (''CPUHP_AP_LOONGARCH_ARCH_TIMER_STARTING'', 123),
      (''CPUHP_AP_MIPS_GIC_TIMER_STARTING'', 124), (''CPUHP_AP_ARC_TIMER_STARTING'', 125),
      (''CPUHP_AP_REALTEK_TIMER_STARTING'', 126), (''CPUHP_AP_RISCV_TIMER_STARTING'', 127),
      (''CPUHP_AP_CLINT_TIMER_STARTING'', 128), (''CPUHP_AP_CSKY_TIMER_STARTING'', 129),
      (''CPUHP_AP_TI_GP_TIMER_STARTING'', 130), (''CPUHP_AP_HYPERV_TIMER_STARTING'', 131),
      (''CPUHP_AP_DUMMY_TIMER_STARTING'', 132), (''CPUHP_AP_ARM_XEN_STARTING'', 133),
      (''CPUHP_AP_ARM_XEN_RUNSTATE_STARTING'', 134), (''CPUHP_AP_ARM_CORESIGHT_STARTING'', 135),
      (''CPUHP_AP_ARM_CORESIGHT_CTI_STARTING'', 136), (''CPUHP_AP_ARM64_ISNDEP_STARTING'', 137),
      (''CPUHP_AP_SMPCFD_DYING'', 138), (''CPUHP_AP_HRTIMERS_DYING'', 139),
      (''CPUHP_AP_TICK_DYING'', 140), (''CPUHP_AP_X86_TBOOT_DYING'', 141),
      (''CPUHP_AP_ARM_CACHE_B15_RAC_DYING'', 142), (''CPUHP_AP_ONLINE'', 143),
      (''CPUHP_TEARDOWN_CPU'', 144), (''CPUHP_AP_ONLINE_IDLE'', 145),
      (''CPUHP_AP_HYPERV_ONLINE'', 146), (''CPUHP_AP_KVM_ONLINE'', 147),
      (''CPUHP_AP_SCHED_WAIT_EMPTY'', 148), (''CPUHP_AP_SMPBOOT_THREADS'', 149),
      (''CPUHP_AP_IRQ_AFFINITY_ONLINE'', 150), (''CPUHP_AP_BLK_MQ_ONLINE'', 151),
      (''CPUHP_AP_ARM_MVEBU_SYNC_CLOCKS'', 152), (''CPUHP_AP_X86_INTEL_EPB_ONLINE'', 153),
      (''CPUHP_AP_PERF_ONLINE'', 154), (''CPUHP_AP_PERF_X86_ONLINE'', 155),
      (''CPUHP_AP_PERF_X86_UNCORE_ONLINE'', 156),
      (''CPUHP_AP_PERF_X86_AMD_UNCORE_ONLINE'', 157),
      (''CPUHP_AP_PERF_X86_AMD_POWER_ONLINE'', 158), (''CPUHP_AP_PERF_S390_CF_ONLINE'', 159),
      (''CPUHP_AP_PERF_S390_SF_ONLINE'', 160), (''CPUHP_AP_PERF_ARM_CCI_ONLINE'', 161),
      (''CPUHP_AP_PERF_ARM_CCN_ONLINE'', 162), (''CPUHP_AP_PERF_ARM_HISI_CPA_ONLINE'', 163),
      (''CPUHP_AP_PERF_ARM_HISI_DDRC_ONLINE'', 164),
      (''CPUHP_AP_PERF_ARM_HISI_HHA_ONLINE'', 165), (''CPUHP_AP_PERF_ARM_HISI_L3_ONLINE'', 166),
      (''CPUHP_AP_PERF_ARM_HISI_PA_ONLINE'', 167),
      (''CPUHP_AP_PERF_ARM_HISI_SLLC_ONLINE'', 168),
      (''CPUHP_AP_PERF_ARM_HISI_PCIE_PMU_ONLINE'', 169),
      (''CPUHP_AP_PERF_ARM_HNS3_PMU_ONLINE'', 170), (''CPUHP_AP_PERF_ARM_L2X0_ONLINE'', 171),
      (''CPUHP_AP_PERF_ARM_QCOM_L2_ONLINE'', 172), (''CPUHP_AP_PERF_ARM_QCOM_L3_ONLINE'', 173),
      (''CPUHP_AP_PERF_ARM_APM_XGENE_ONLINE'', 174),
      (''CPUHP_AP_PERF_ARM_CAVIUM_TX2_UNCORE_ONLINE'', 175),
      (''CPUHP_AP_PERF_ARM_MARVELL_CN10K_DDR_ONLINE'', 176),
      (''CPUHP_AP_PERF_ARM_MRVL_PEM_ONLINE'', 177),
      (''CPUHP_AP_PERF_POWERPC_NEST_IMC_ONLINE'', 178),
      (''CPUHP_AP_PERF_POWERPC_CORE_IMC_ONLINE'', 179),
      (''CPUHP_AP_PERF_POWERPC_THREAD_IMC_ONLINE'', 180),
      (''CPUHP_AP_PERF_POWERPC_TRACE_IMC_ONLINE'', 181),
      (''CPUHP_AP_PERF_POWERPC_HV_24x7_ONLINE'', 182),
      (''CPUHP_AP_PERF_POWERPC_HV_GPCI_ONLINE'', 183), (''CPUHP_AP_PERF_CSKY_ONLINE'', 184),
      (''CPUHP_AP_TMIGR_ONLINE'', 185), (''CPUHP_AP_WATCHDOG_ONLINE'', 186),
      (''CPUHP_AP_WORKQUEUE_ONLINE'', 187), (''CPUHP_AP_RANDOM_ONLINE'', 188),
      (''CPUHP_AP_RCUTREE_ONLINE'', 189), (''CPUHP_AP_KTHREADS_ONLINE'', 190),
      (''CPUHP_AP_BASE_CACHEINFO_ONLINE'', 191), (''CPUHP_AP_ONLINE_DYN'', 192),
      (''CPUHP_AP_ONLINE_DYN_END'', 232), (''CPUHP_AP_X86_HPET_ONLINE'', 233),
      (''CPUHP_AP_X86_KVM_CLK_ONLINE'', 234), (''CPUHP_AP_ACTIVE'', 235),
      (''CPUHP_ONLINE'', 236)]"

definition enum_cpuid_leafs :: cty where
  "enum_cpuid_leafs = CEnum 4
     [(''CPUID_1_EDX'', 0), (''CPUID_8000_0001_EDX'', 1), (''CPUID_8086_0001_EDX'', 2),
      (''CPUID_LNX_1'', 3), (''CPUID_1_ECX'', 4), (''CPUID_C000_0001_EDX'', 5),
      (''CPUID_8000_0001_ECX'', 6), (''CPUID_LNX_2'', 7), (''CPUID_LNX_3'', 8),
      (''CPUID_7_0_EBX'', 9), (''CPUID_D_1_EAX'', 10), (''CPUID_LNX_4'', 11),
      (''CPUID_7_1_EAX'', 12), (''CPUID_8000_0008_EBX'', 13), (''CPUID_6_EAX'', 14),
      (''CPUID_8000_000A_EDX'', 15), (''CPUID_7_ECX'', 16), (''CPUID_LNX_6'', 17),
      (''CPUID_7_EDX'', 18), (''CPUID_8000_001F_EAX'', 19), (''CPUID_8000_0021_EAX'', 20),
      (''CPUID_LNX_5'', 21), (''NR_CPUID_WORDS'', 22)]"

definition enum_crypto_attr_type_t :: cty where
  "enum_crypto_attr_type_t = CEnum 4
     [(''CRYPTOCFGA_UNSPEC'', 0), (''CRYPTOCFGA_PRIORITY_VAL'', 1),
      (''CRYPTOCFGA_REPORT_LARVAL'', 2), (''CRYPTOCFGA_REPORT_HASH'', 3),
      (''CRYPTOCFGA_REPORT_BLKCIPHER'', 4), (''CRYPTOCFGA_REPORT_AEAD'', 5),
      (''CRYPTOCFGA_REPORT_COMPRESS'', 6), (''CRYPTOCFGA_REPORT_RNG'', 7),
      (''CRYPTOCFGA_REPORT_CIPHER'', 8), (''CRYPTOCFGA_REPORT_AKCIPHER'', 9),
      (''CRYPTOCFGA_REPORT_KPP'', 10), (''CRYPTOCFGA_REPORT_ACOMP'', 11),
      (''CRYPTOCFGA_STAT_LARVAL'', 12), (''CRYPTOCFGA_STAT_HASH'', 13),
      (''CRYPTOCFGA_STAT_BLKCIPHER'', 14), (''CRYPTOCFGA_STAT_AEAD'', 15),
      (''CRYPTOCFGA_STAT_COMPRESS'', 16), (''CRYPTOCFGA_STAT_RNG'', 17),
      (''CRYPTOCFGA_STAT_CIPHER'', 18), (''CRYPTOCFGA_STAT_AKCIPHER'', 19),
      (''CRYPTOCFGA_STAT_KPP'', 20), (''CRYPTOCFGA_STAT_ACOMP'', 21),
      (''CRYPTOCFGA_REPORT_SIG'', 22), (''__CRYPTOCFGA_MAX'', 23)]"

definition enum_da9063_irqs :: cty where
  "enum_da9063_irqs = CEnum 4
     [(''DA9063_IRQ_ONKEY'', 0), (''DA9063_IRQ_ALARM'', 1), (''DA9063_IRQ_TICK'', 2),
      (''DA9063_IRQ_ADC_RDY'', 3), (''DA9063_IRQ_SEQ_RDY'', 4), (''DA9063_IRQ_WAKE'', 5),
      (''DA9063_IRQ_TEMP'', 6), (''DA9063_IRQ_COMP_1V2'', 7), (''DA9063_IRQ_LDO_LIM'', 8),
      (''DA9063_IRQ_REG_UVOV'', 9), (''DA9063_IRQ_DVC_RDY'', 10), (''DA9063_IRQ_VDD_MON'', 11),
      (''DA9063_IRQ_WARN'', 12), (''DA9063_IRQ_GPI0'', 13), (''DA9063_IRQ_GPI1'', 14),
      (''DA9063_IRQ_GPI2'', 15), (''DA9063_IRQ_GPI3'', 16), (''DA9063_IRQ_GPI4'', 17),
      (''DA9063_IRQ_GPI5'', 18), (''DA9063_IRQ_GPI6'', 19), (''DA9063_IRQ_GPI7'', 20),
      (''DA9063_IRQ_GPI8'', 21), (''DA9063_IRQ_GPI9'', 22), (''DA9063_IRQ_GPI10'', 23),
      (''DA9063_IRQ_GPI11'', 24), (''DA9063_IRQ_GPI12'', 25), (''DA9063_IRQ_GPI13'', 26),
      (''DA9063_IRQ_GPI14'', 27), (''DA9063_IRQ_GPI15'', 28)]"

definition enum_dcbnl_bcn_attrs :: cty where
  "enum_dcbnl_bcn_attrs = CEnum 4
     [(''DCB_BCN_ATTR_UNDEFINED'', 0), (''DCB_BCN_ATTR_RP_0'', 1), (''DCB_BCN_ATTR_RP_1'', 2),
      (''DCB_BCN_ATTR_RP_2'', 3), (''DCB_BCN_ATTR_RP_3'', 4), (''DCB_BCN_ATTR_RP_4'', 5),
      (''DCB_BCN_ATTR_RP_5'', 6), (''DCB_BCN_ATTR_RP_6'', 7), (''DCB_BCN_ATTR_RP_7'', 8),
      (''DCB_BCN_ATTR_RP_ALL'', 9), (''DCB_BCN_ATTR_BCNA_0'', 10),
      (''DCB_BCN_ATTR_BCNA_1'', 11), (''DCB_BCN_ATTR_ALPHA'', 12), (''DCB_BCN_ATTR_BETA'', 13),
      (''DCB_BCN_ATTR_GD'', 14), (''DCB_BCN_ATTR_GI'', 15), (''DCB_BCN_ATTR_TMAX'', 16),
      (''DCB_BCN_ATTR_TD'', 17), (''DCB_BCN_ATTR_RMIN'', 18), (''DCB_BCN_ATTR_W'', 19),
      (''DCB_BCN_ATTR_RD'', 20), (''DCB_BCN_ATTR_RU'', 21), (''DCB_BCN_ATTR_WRTT'', 22),
      (''DCB_BCN_ATTR_RI'', 23), (''DCB_BCN_ATTR_C'', 24), (''DCB_BCN_ATTR_ALL'', 25),
      (''__DCB_BCN_ATTR_ENUM_MAX'', 26), (''DCB_BCN_ATTR_MAX'', 25)]"

definition enum_dcbnl_commands :: cty where
  "enum_dcbnl_commands = CEnum 4
     [(''DCB_CMD_UNDEFINED'', 0), (''DCB_CMD_GSTATE'', 1), (''DCB_CMD_SSTATE'', 2),
      (''DCB_CMD_PGTX_GCFG'', 3), (''DCB_CMD_PGTX_SCFG'', 4), (''DCB_CMD_PGRX_GCFG'', 5),
      (''DCB_CMD_PGRX_SCFG'', 6), (''DCB_CMD_PFC_GCFG'', 7), (''DCB_CMD_PFC_SCFG'', 8),
      (''DCB_CMD_SET_ALL'', 9), (''DCB_CMD_GPERM_HWADDR'', 10), (''DCB_CMD_GCAP'', 11),
      (''DCB_CMD_GNUMTCS'', 12), (''DCB_CMD_SNUMTCS'', 13), (''DCB_CMD_PFC_GSTATE'', 14),
      (''DCB_CMD_PFC_SSTATE'', 15), (''DCB_CMD_BCN_GCFG'', 16), (''DCB_CMD_BCN_SCFG'', 17),
      (''DCB_CMD_GAPP'', 18), (''DCB_CMD_SAPP'', 19), (''DCB_CMD_IEEE_SET'', 20),
      (''DCB_CMD_IEEE_GET'', 21), (''DCB_CMD_GDCBX'', 22), (''DCB_CMD_SDCBX'', 23),
      (''DCB_CMD_GFEATCFG'', 24), (''DCB_CMD_SFEATCFG'', 25), (''DCB_CMD_CEE_GET'', 26),
      (''DCB_CMD_IEEE_DEL'', 27), (''__DCB_CMD_ENUM_MAX'', 28), (''DCB_CMD_MAX'', 27)]"

definition enum_dcbnl_pg_attrs :: cty where
  "enum_dcbnl_pg_attrs = CEnum 4
     [(''DCB_PG_ATTR_UNDEFINED'', 0), (''DCB_PG_ATTR_TC_0'', 1), (''DCB_PG_ATTR_TC_1'', 2),
      (''DCB_PG_ATTR_TC_2'', 3), (''DCB_PG_ATTR_TC_3'', 4), (''DCB_PG_ATTR_TC_4'', 5),
      (''DCB_PG_ATTR_TC_5'', 6), (''DCB_PG_ATTR_TC_6'', 7), (''DCB_PG_ATTR_TC_7'', 8),
      (''DCB_PG_ATTR_TC_MAX'', 9), (''DCB_PG_ATTR_TC_ALL'', 10), (''DCB_PG_ATTR_BW_ID_0'', 11),
      (''DCB_PG_ATTR_BW_ID_1'', 12), (''DCB_PG_ATTR_BW_ID_2'', 13),
      (''DCB_PG_ATTR_BW_ID_3'', 14), (''DCB_PG_ATTR_BW_ID_4'', 15),
      (''DCB_PG_ATTR_BW_ID_5'', 16), (''DCB_PG_ATTR_BW_ID_6'', 17),
      (''DCB_PG_ATTR_BW_ID_7'', 18), (''DCB_PG_ATTR_BW_ID_MAX'', 19),
      (''DCB_PG_ATTR_BW_ID_ALL'', 20), (''__DCB_PG_ATTR_ENUM_MAX'', 21),
      (''DCB_PG_ATTR_MAX'', 20)]"

definition enum_dentry_flags :: cty where
  "enum_dentry_flags = CEnum 4
     [(''DCACHE_OP_HASH'', 1), (''DCACHE_OP_COMPARE'', 2), (''DCACHE_OP_REVALIDATE'', 4),
      (''DCACHE_OP_DELETE'', 8), (''DCACHE_OP_PRUNE'', 16), (''DCACHE_DISCONNECTED'', 32),
      (''DCACHE_REFERENCED'', 64), (''DCACHE_DONTCACHE'', 128), (''DCACHE_CANT_MOUNT'', 256),
      (''DCACHE_SHRINK_LIST'', 1024), (''DCACHE_OP_WEAK_REVALIDATE'', 2048),
      (''DCACHE_NFSFS_RENAMED'', 4096), (''DCACHE_FSNOTIFY_PARENT_WATCHED'', 8192),
      (''DCACHE_DENTRY_KILLED'', 16384), (''DCACHE_MOUNTED'', 32768),
      (''DCACHE_NEED_AUTOMOUNT'', 65536), (''DCACHE_MANAGE_TRANSIT'', 131072),
      (''DCACHE_LRU_LIST'', 262144), (''DCACHE_ENTRY_TYPE'', 3670016),
      (''DCACHE_MISS_TYPE'', 0), (''DCACHE_WHITEOUT_TYPE'', 524288),
      (''DCACHE_DIRECTORY_TYPE'', 1048576), (''DCACHE_AUTODIR_TYPE'', 1572864),
      (''DCACHE_REGULAR_TYPE'', 2097152), (''DCACHE_SPECIAL_TYPE'', 2621440),
      (''DCACHE_SYMLINK_TYPE'', 3145728), (''DCACHE_NOKEY_NAME'', 4194304),
      (''DCACHE_OP_REAL'', 8388608), (''DCACHE_PAR_LOOKUP'', 16777216),
      (''DCACHE_DENTRY_CURSOR'', 33554432), (''DCACHE_NORCU'', 67108864),
      (''DCACHE_PERSISTENT'', 134217728)]"

definition enum_devlink_attr :: cty where
  "enum_devlink_attr = CEnum 4
     [(''DEVLINK_ATTR_UNSPEC'', 0), (''DEVLINK_ATTR_BUS_NAME'', 1),
      (''DEVLINK_ATTR_DEV_NAME'', 2), (''DEVLINK_ATTR_PORT_INDEX'', 3),
      (''DEVLINK_ATTR_PORT_TYPE'', 4), (''DEVLINK_ATTR_PORT_DESIRED_TYPE'', 5),
      (''DEVLINK_ATTR_PORT_NETDEV_IFINDEX'', 6), (''DEVLINK_ATTR_PORT_NETDEV_NAME'', 7),
      (''DEVLINK_ATTR_PORT_IBDEV_NAME'', 8), (''DEVLINK_ATTR_PORT_SPLIT_COUNT'', 9),
      (''DEVLINK_ATTR_PORT_SPLIT_GROUP'', 10), (''DEVLINK_ATTR_SB_INDEX'', 11),
      (''DEVLINK_ATTR_SB_SIZE'', 12), (''DEVLINK_ATTR_SB_INGRESS_POOL_COUNT'', 13),
      (''DEVLINK_ATTR_SB_EGRESS_POOL_COUNT'', 14), (''DEVLINK_ATTR_SB_INGRESS_TC_COUNT'', 15),
      (''DEVLINK_ATTR_SB_EGRESS_TC_COUNT'', 16), (''DEVLINK_ATTR_SB_POOL_INDEX'', 17),
      (''DEVLINK_ATTR_SB_POOL_TYPE'', 18), (''DEVLINK_ATTR_SB_POOL_SIZE'', 19),
      (''DEVLINK_ATTR_SB_POOL_THRESHOLD_TYPE'', 20), (''DEVLINK_ATTR_SB_THRESHOLD'', 21),
      (''DEVLINK_ATTR_SB_TC_INDEX'', 22), (''DEVLINK_ATTR_SB_OCC_CUR'', 23),
      (''DEVLINK_ATTR_SB_OCC_MAX'', 24), (''DEVLINK_ATTR_ESWITCH_MODE'', 25),
      (''DEVLINK_ATTR_ESWITCH_INLINE_MODE'', 26), (''DEVLINK_ATTR_DPIPE_TABLES'', 27),
      (''DEVLINK_ATTR_DPIPE_TABLE'', 28), (''DEVLINK_ATTR_DPIPE_TABLE_NAME'', 29),
      (''DEVLINK_ATTR_DPIPE_TABLE_SIZE'', 30), (''DEVLINK_ATTR_DPIPE_TABLE_MATCHES'', 31),
      (''DEVLINK_ATTR_DPIPE_TABLE_ACTIONS'', 32),
      (''DEVLINK_ATTR_DPIPE_TABLE_COUNTERS_ENABLED'', 33), (''DEVLINK_ATTR_DPIPE_ENTRIES'', 34),
      (''DEVLINK_ATTR_DPIPE_ENTRY'', 35), (''DEVLINK_ATTR_DPIPE_ENTRY_INDEX'', 36),
      (''DEVLINK_ATTR_DPIPE_ENTRY_MATCH_VALUES'', 37),
      (''DEVLINK_ATTR_DPIPE_ENTRY_ACTION_VALUES'', 38),
      (''DEVLINK_ATTR_DPIPE_ENTRY_COUNTER'', 39), (''DEVLINK_ATTR_DPIPE_MATCH'', 40),
      (''DEVLINK_ATTR_DPIPE_MATCH_VALUE'', 41), (''DEVLINK_ATTR_DPIPE_MATCH_TYPE'', 42),
      (''DEVLINK_ATTR_DPIPE_ACTION'', 43), (''DEVLINK_ATTR_DPIPE_ACTION_VALUE'', 44),
      (''DEVLINK_ATTR_DPIPE_ACTION_TYPE'', 45), (''DEVLINK_ATTR_DPIPE_VALUE'', 46),
      (''DEVLINK_ATTR_DPIPE_VALUE_MASK'', 47), (''DEVLINK_ATTR_DPIPE_VALUE_MAPPING'', 48),
      (''DEVLINK_ATTR_DPIPE_HEADERS'', 49), (''DEVLINK_ATTR_DPIPE_HEADER'', 50),
      (''DEVLINK_ATTR_DPIPE_HEADER_NAME'', 51), (''DEVLINK_ATTR_DPIPE_HEADER_ID'', 52),
      (''DEVLINK_ATTR_DPIPE_HEADER_FIELDS'', 53), (''DEVLINK_ATTR_DPIPE_HEADER_GLOBAL'', 54),
      (''DEVLINK_ATTR_DPIPE_HEADER_INDEX'', 55), (''DEVLINK_ATTR_DPIPE_FIELD'', 56),
      (''DEVLINK_ATTR_DPIPE_FIELD_NAME'', 57), (''DEVLINK_ATTR_DPIPE_FIELD_ID'', 58),
      (''DEVLINK_ATTR_DPIPE_FIELD_BITWIDTH'', 59),
      (''DEVLINK_ATTR_DPIPE_FIELD_MAPPING_TYPE'', 60), (''DEVLINK_ATTR_PAD'', 61),
      (''DEVLINK_ATTR_ESWITCH_ENCAP_MODE'', 62), (''DEVLINK_ATTR_RESOURCE_LIST'', 63),
      (''DEVLINK_ATTR_RESOURCE'', 64), (''DEVLINK_ATTR_RESOURCE_NAME'', 65),
      (''DEVLINK_ATTR_RESOURCE_ID'', 66), (''DEVLINK_ATTR_RESOURCE_SIZE'', 67),
      (''DEVLINK_ATTR_RESOURCE_SIZE_NEW'', 68), (''DEVLINK_ATTR_RESOURCE_SIZE_VALID'', 69),
      (''DEVLINK_ATTR_RESOURCE_SIZE_MIN'', 70), (''DEVLINK_ATTR_RESOURCE_SIZE_MAX'', 71),
      (''DEVLINK_ATTR_RESOURCE_SIZE_GRAN'', 72), (''DEVLINK_ATTR_RESOURCE_UNIT'', 73),
      (''DEVLINK_ATTR_RESOURCE_OCC'', 74), (''DEVLINK_ATTR_DPIPE_TABLE_RESOURCE_ID'', 75),
      (''DEVLINK_ATTR_DPIPE_TABLE_RESOURCE_UNITS'', 76), (''DEVLINK_ATTR_PORT_FLAVOUR'', 77),
      (''DEVLINK_ATTR_PORT_NUMBER'', 78), (''DEVLINK_ATTR_PORT_SPLIT_SUBPORT_NUMBER'', 79),
      (''DEVLINK_ATTR_PARAM'', 80), (''DEVLINK_ATTR_PARAM_NAME'', 81),
      (''DEVLINK_ATTR_PARAM_GENERIC'', 82), (''DEVLINK_ATTR_PARAM_TYPE'', 83),
      (''DEVLINK_ATTR_PARAM_VALUES_LIST'', 84), (''DEVLINK_ATTR_PARAM_VALUE'', 85),
      (''DEVLINK_ATTR_PARAM_VALUE_DATA'', 86), (''DEVLINK_ATTR_PARAM_VALUE_CMODE'', 87),
      (''DEVLINK_ATTR_REGION_NAME'', 88), (''DEVLINK_ATTR_REGION_SIZE'', 89),
      (''DEVLINK_ATTR_REGION_SNAPSHOTS'', 90), (''DEVLINK_ATTR_REGION_SNAPSHOT'', 91),
      (''DEVLINK_ATTR_REGION_SNAPSHOT_ID'', 92), (''DEVLINK_ATTR_REGION_CHUNKS'', 93),
      (''DEVLINK_ATTR_REGION_CHUNK'', 94), (''DEVLINK_ATTR_REGION_CHUNK_DATA'', 95),
      (''DEVLINK_ATTR_REGION_CHUNK_ADDR'', 96), (''DEVLINK_ATTR_REGION_CHUNK_LEN'', 97),
      (''DEVLINK_ATTR_INFO_DRIVER_NAME'', 98), (''DEVLINK_ATTR_INFO_SERIAL_NUMBER'', 99),
      (''DEVLINK_ATTR_INFO_VERSION_FIXED'', 100), (''DEVLINK_ATTR_INFO_VERSION_RUNNING'', 101),
      (''DEVLINK_ATTR_INFO_VERSION_STORED'', 102), (''DEVLINK_ATTR_INFO_VERSION_NAME'', 103),
      (''DEVLINK_ATTR_INFO_VERSION_VALUE'', 104), (''DEVLINK_ATTR_SB_POOL_CELL_SIZE'', 105),
      (''DEVLINK_ATTR_FMSG'', 106), (''DEVLINK_ATTR_FMSG_OBJ_NEST_START'', 107),
      (''DEVLINK_ATTR_FMSG_PAIR_NEST_START'', 108), (''DEVLINK_ATTR_FMSG_ARR_NEST_START'', 109),
      (''DEVLINK_ATTR_FMSG_NEST_END'', 110), (''DEVLINK_ATTR_FMSG_OBJ_NAME'', 111),
      (''DEVLINK_ATTR_FMSG_OBJ_VALUE_TYPE'', 112), (''DEVLINK_ATTR_FMSG_OBJ_VALUE_DATA'', 113),
      (''DEVLINK_ATTR_HEALTH_REPORTER'', 114), (''DEVLINK_ATTR_HEALTH_REPORTER_NAME'', 115),
      (''DEVLINK_ATTR_HEALTH_REPORTER_STATE'', 116),
      (''DEVLINK_ATTR_HEALTH_REPORTER_ERR_COUNT'', 117),
      (''DEVLINK_ATTR_HEALTH_REPORTER_RECOVER_COUNT'', 118),
      (''DEVLINK_ATTR_HEALTH_REPORTER_DUMP_TS'', 119),
      (''DEVLINK_ATTR_HEALTH_REPORTER_GRACEFUL_PERIOD'', 120),
      (''DEVLINK_ATTR_HEALTH_REPORTER_AUTO_RECOVER'', 121),
      (''DEVLINK_ATTR_FLASH_UPDATE_FILE_NAME'', 122),
      (''DEVLINK_ATTR_FLASH_UPDATE_COMPONENT'', 123),
      (''DEVLINK_ATTR_FLASH_UPDATE_STATUS_MSG'', 124),
      (''DEVLINK_ATTR_FLASH_UPDATE_STATUS_DONE'', 125),
      (''DEVLINK_ATTR_FLASH_UPDATE_STATUS_TOTAL'', 126),
      (''DEVLINK_ATTR_PORT_PCI_PF_NUMBER'', 127), (''DEVLINK_ATTR_PORT_PCI_VF_NUMBER'', 128),
      (''DEVLINK_ATTR_STATS'', 129), (''DEVLINK_ATTR_TRAP_NAME'', 130),
      (''DEVLINK_ATTR_TRAP_ACTION'', 131), (''DEVLINK_ATTR_TRAP_TYPE'', 132),
      (''DEVLINK_ATTR_TRAP_GENERIC'', 133), (''DEVLINK_ATTR_TRAP_METADATA'', 134),
      (''DEVLINK_ATTR_TRAP_GROUP_NAME'', 135), (''DEVLINK_ATTR_RELOAD_FAILED'', 136),
      (''DEVLINK_ATTR_HEALTH_REPORTER_DUMP_TS_NS'', 137), (''DEVLINK_ATTR_NETNS_FD'', 138),
      (''DEVLINK_ATTR_NETNS_PID'', 139), (''DEVLINK_ATTR_NETNS_ID'', 140),
      (''DEVLINK_ATTR_HEALTH_REPORTER_AUTO_DUMP'', 141),
      (''DEVLINK_ATTR_TRAP_POLICER_ID'', 142), (''DEVLINK_ATTR_TRAP_POLICER_RATE'', 143),
      (''DEVLINK_ATTR_TRAP_POLICER_BURST'', 144), (''DEVLINK_ATTR_PORT_FUNCTION'', 145),
      (''DEVLINK_ATTR_INFO_BOARD_SERIAL_NUMBER'', 146), (''DEVLINK_ATTR_PORT_LANES'', 147),
      (''DEVLINK_ATTR_PORT_SPLITTABLE'', 148), (''DEVLINK_ATTR_PORT_EXTERNAL'', 149),
      (''DEVLINK_ATTR_PORT_CONTROLLER_NUMBER'', 150),
      (''DEVLINK_ATTR_FLASH_UPDATE_STATUS_TIMEOUT'', 151),
      (''DEVLINK_ATTR_FLASH_UPDATE_OVERWRITE_MASK'', 152),
      (''DEVLINK_ATTR_RELOAD_ACTION'', 153), (''DEVLINK_ATTR_RELOAD_ACTIONS_PERFORMED'', 154),
      (''DEVLINK_ATTR_RELOAD_LIMITS'', 155), (''DEVLINK_ATTR_DEV_STATS'', 156),
      (''DEVLINK_ATTR_RELOAD_STATS'', 157), (''DEVLINK_ATTR_RELOAD_STATS_ENTRY'', 158),
      (''DEVLINK_ATTR_RELOAD_STATS_LIMIT'', 159), (''DEVLINK_ATTR_RELOAD_STATS_VALUE'', 160),
      (''DEVLINK_ATTR_REMOTE_RELOAD_STATS'', 161), (''DEVLINK_ATTR_RELOAD_ACTION_INFO'', 162),
      (''DEVLINK_ATTR_RELOAD_ACTION_STATS'', 163), (''DEVLINK_ATTR_PORT_PCI_SF_NUMBER'', 164),
      (''DEVLINK_ATTR_RATE_TYPE'', 165), (''DEVLINK_ATTR_RATE_TX_SHARE'', 166),
      (''DEVLINK_ATTR_RATE_TX_MAX'', 167), (''DEVLINK_ATTR_RATE_NODE_NAME'', 168),
      (''DEVLINK_ATTR_RATE_PARENT_NODE_NAME'', 169),
      (''DEVLINK_ATTR_REGION_MAX_SNAPSHOTS'', 170), (''DEVLINK_ATTR_LINECARD_INDEX'', 171),
      (''DEVLINK_ATTR_LINECARD_STATE'', 172), (''DEVLINK_ATTR_LINECARD_TYPE'', 173),
      (''DEVLINK_ATTR_LINECARD_SUPPORTED_TYPES'', 174), (''DEVLINK_ATTR_NESTED_DEVLINK'', 175),
      (''DEVLINK_ATTR_SELFTESTS'', 176), (''DEVLINK_ATTR_RATE_TX_PRIORITY'', 177),
      (''DEVLINK_ATTR_RATE_TX_WEIGHT'', 178), (''DEVLINK_ATTR_REGION_DIRECT'', 179),
      (''DEVLINK_ATTR_RATE_TC_BWS'', 180), (''DEVLINK_ATTR_HEALTH_REPORTER_BURST_PERIOD'', 181),
      (''DEVLINK_ATTR_PARAM_VALUE_DEFAULT'', 182), (''DEVLINK_ATTR_PARAM_RESET_DEFAULT'', 183),
      (''__DEVLINK_ATTR_MAX'', 184), (''DEVLINK_ATTR_MAX'', 183)]"

definition enum_devlink_command :: cty where
  "enum_devlink_command = CEnum 4
     [(''DEVLINK_CMD_UNSPEC'', 0), (''DEVLINK_CMD_GET'', 1), (''DEVLINK_CMD_SET'', 2),
      (''DEVLINK_CMD_NEW'', 3), (''DEVLINK_CMD_DEL'', 4), (''DEVLINK_CMD_PORT_GET'', 5),
      (''DEVLINK_CMD_PORT_SET'', 6), (''DEVLINK_CMD_PORT_NEW'', 7),
      (''DEVLINK_CMD_PORT_DEL'', 8), (''DEVLINK_CMD_PORT_SPLIT'', 9),
      (''DEVLINK_CMD_PORT_UNSPLIT'', 10), (''DEVLINK_CMD_SB_GET'', 11),
      (''DEVLINK_CMD_SB_SET'', 12), (''DEVLINK_CMD_SB_NEW'', 13), (''DEVLINK_CMD_SB_DEL'', 14),
      (''DEVLINK_CMD_SB_POOL_GET'', 15), (''DEVLINK_CMD_SB_POOL_SET'', 16),
      (''DEVLINK_CMD_SB_POOL_NEW'', 17), (''DEVLINK_CMD_SB_POOL_DEL'', 18),
      (''DEVLINK_CMD_SB_PORT_POOL_GET'', 19), (''DEVLINK_CMD_SB_PORT_POOL_SET'', 20),
      (''DEVLINK_CMD_SB_PORT_POOL_NEW'', 21), (''DEVLINK_CMD_SB_PORT_POOL_DEL'', 22),
      (''DEVLINK_CMD_SB_TC_POOL_BIND_GET'', 23), (''DEVLINK_CMD_SB_TC_POOL_BIND_SET'', 24),
      (''DEVLINK_CMD_SB_TC_POOL_BIND_NEW'', 25), (''DEVLINK_CMD_SB_TC_POOL_BIND_DEL'', 26),
      (''DEVLINK_CMD_SB_OCC_SNAPSHOT'', 27), (''DEVLINK_CMD_SB_OCC_MAX_CLEAR'', 28),
      (''DEVLINK_CMD_ESWITCH_GET'', 29), (''DEVLINK_CMD_ESWITCH_SET'', 30),
      (''DEVLINK_CMD_DPIPE_TABLE_GET'', 31), (''DEVLINK_CMD_DPIPE_ENTRIES_GET'', 32),
      (''DEVLINK_CMD_DPIPE_HEADERS_GET'', 33), (''DEVLINK_CMD_DPIPE_TABLE_COUNTERS_SET'', 34),
      (''DEVLINK_CMD_RESOURCE_SET'', 35), (''DEVLINK_CMD_RESOURCE_DUMP'', 36),
      (''DEVLINK_CMD_RELOAD'', 37), (''DEVLINK_CMD_PARAM_GET'', 38),
      (''DEVLINK_CMD_PARAM_SET'', 39), (''DEVLINK_CMD_PARAM_NEW'', 40),
      (''DEVLINK_CMD_PARAM_DEL'', 41), (''DEVLINK_CMD_REGION_GET'', 42),
      (''DEVLINK_CMD_REGION_SET'', 43), (''DEVLINK_CMD_REGION_NEW'', 44),
      (''DEVLINK_CMD_REGION_DEL'', 45), (''DEVLINK_CMD_REGION_READ'', 46),
      (''DEVLINK_CMD_PORT_PARAM_GET'', 47), (''DEVLINK_CMD_PORT_PARAM_SET'', 48),
      (''DEVLINK_CMD_PORT_PARAM_NEW'', 49), (''DEVLINK_CMD_PORT_PARAM_DEL'', 50),
      (''DEVLINK_CMD_INFO_GET'', 51), (''DEVLINK_CMD_HEALTH_REPORTER_GET'', 52),
      (''DEVLINK_CMD_HEALTH_REPORTER_SET'', 53), (''DEVLINK_CMD_HEALTH_REPORTER_RECOVER'', 54),
      (''DEVLINK_CMD_HEALTH_REPORTER_DIAGNOSE'', 55),
      (''DEVLINK_CMD_HEALTH_REPORTER_DUMP_GET'', 56),
      (''DEVLINK_CMD_HEALTH_REPORTER_DUMP_CLEAR'', 57), (''DEVLINK_CMD_FLASH_UPDATE'', 58),
      (''DEVLINK_CMD_FLASH_UPDATE_END'', 59), (''DEVLINK_CMD_FLASH_UPDATE_STATUS'', 60),
      (''DEVLINK_CMD_TRAP_GET'', 61), (''DEVLINK_CMD_TRAP_SET'', 62),
      (''DEVLINK_CMD_TRAP_NEW'', 63), (''DEVLINK_CMD_TRAP_DEL'', 64),
      (''DEVLINK_CMD_TRAP_GROUP_GET'', 65), (''DEVLINK_CMD_TRAP_GROUP_SET'', 66),
      (''DEVLINK_CMD_TRAP_GROUP_NEW'', 67), (''DEVLINK_CMD_TRAP_GROUP_DEL'', 68),
      (''DEVLINK_CMD_TRAP_POLICER_GET'', 69), (''DEVLINK_CMD_TRAP_POLICER_SET'', 70),
      (''DEVLINK_CMD_TRAP_POLICER_NEW'', 71), (''DEVLINK_CMD_TRAP_POLICER_DEL'', 72),
      (''DEVLINK_CMD_HEALTH_REPORTER_TEST'', 73), (''DEVLINK_CMD_RATE_GET'', 74),
      (''DEVLINK_CMD_RATE_SET'', 75), (''DEVLINK_CMD_RATE_NEW'', 76),
      (''DEVLINK_CMD_RATE_DEL'', 77), (''DEVLINK_CMD_LINECARD_GET'', 78),
      (''DEVLINK_CMD_LINECARD_SET'', 79), (''DEVLINK_CMD_LINECARD_NEW'', 80),
      (''DEVLINK_CMD_LINECARD_DEL'', 81), (''DEVLINK_CMD_SELFTESTS_GET'', 82),
      (''DEVLINK_CMD_SELFTESTS_RUN'', 83), (''DEVLINK_CMD_NOTIFY_FILTER_SET'', 84),
      (''__DEVLINK_CMD_MAX'', 85), (''DEVLINK_CMD_MAX'', 84)]"

definition enum_devlink_param_generic_id :: cty where
  "enum_devlink_param_generic_id = CEnum 4
     [(''DEVLINK_PARAM_GENERIC_ID_INT_ERR_RESET'', 0),
      (''DEVLINK_PARAM_GENERIC_ID_MAX_MACS'', 1),
      (''DEVLINK_PARAM_GENERIC_ID_ENABLE_SRIOV'', 2),
      (''DEVLINK_PARAM_GENERIC_ID_REGION_SNAPSHOT'', 3),
      (''DEVLINK_PARAM_GENERIC_ID_IGNORE_ARI'', 4),
      (''DEVLINK_PARAM_GENERIC_ID_MSIX_VEC_PER_PF_MAX'', 5),
      (''DEVLINK_PARAM_GENERIC_ID_MSIX_VEC_PER_PF_MIN'', 6),
      (''DEVLINK_PARAM_GENERIC_ID_FW_LOAD_POLICY'', 7),
      (''DEVLINK_PARAM_GENERIC_ID_RESET_DEV_ON_DRV_PROBE'', 8),
      (''DEVLINK_PARAM_GENERIC_ID_ENABLE_ROCE'', 9),
      (''DEVLINK_PARAM_GENERIC_ID_ENABLE_REMOTE_DEV_RESET'', 10),
      (''DEVLINK_PARAM_GENERIC_ID_ENABLE_ETH'', 11),
      (''DEVLINK_PARAM_GENERIC_ID_ENABLE_RDMA'', 12),
      (''DEVLINK_PARAM_GENERIC_ID_ENABLE_VNET'', 13),
      (''DEVLINK_PARAM_GENERIC_ID_ENABLE_IWARP'', 14),
      (''DEVLINK_PARAM_GENERIC_ID_IO_EQ_SIZE'', 15),
      (''DEVLINK_PARAM_GENERIC_ID_EVENT_EQ_SIZE'', 16),
      (''DEVLINK_PARAM_GENERIC_ID_ENABLE_PHC'', 17),
      (''DEVLINK_PARAM_GENERIC_ID_CLOCK_ID'', 18), (''DEVLINK_PARAM_GENERIC_ID_TOTAL_VFS'', 19),
      (''DEVLINK_PARAM_GENERIC_ID_NUM_DOORBELLS'', 20),
      (''DEVLINK_PARAM_GENERIC_ID_MAX_MAC_PER_VF'', 21),
      (''__DEVLINK_PARAM_GENERIC_ID_MAX'', 22), (''DEVLINK_PARAM_GENERIC_ID_MAX'', 21)]"

definition enum_devlink_trap_generic_id :: cty where
  "enum_devlink_trap_generic_id = CEnum 4
     [(''DEVLINK_TRAP_GENERIC_ID_SMAC_MC'', 0),
      (''DEVLINK_TRAP_GENERIC_ID_VLAN_TAG_MISMATCH'', 1),
      (''DEVLINK_TRAP_GENERIC_ID_INGRESS_VLAN_FILTER'', 2),
      (''DEVLINK_TRAP_GENERIC_ID_INGRESS_STP_FILTER'', 3),
      (''DEVLINK_TRAP_GENERIC_ID_EMPTY_TX_LIST'', 4),
      (''DEVLINK_TRAP_GENERIC_ID_PORT_LOOPBACK_FILTER'', 5),
      (''DEVLINK_TRAP_GENERIC_ID_BLACKHOLE_ROUTE'', 6),
      (''DEVLINK_TRAP_GENERIC_ID_TTL_ERROR'', 7), (''DEVLINK_TRAP_GENERIC_ID_TAIL_DROP'', 8),
      (''DEVLINK_TRAP_GENERIC_ID_NON_IP_PACKET'', 9),
      (''DEVLINK_TRAP_GENERIC_ID_UC_DIP_MC_DMAC'', 10),
      (''DEVLINK_TRAP_GENERIC_ID_DIP_LB'', 11), (''DEVLINK_TRAP_GENERIC_ID_SIP_MC'', 12),
      (''DEVLINK_TRAP_GENERIC_ID_SIP_LB'', 13),
      (''DEVLINK_TRAP_GENERIC_ID_CORRUPTED_IP_HDR'', 14),
      (''DEVLINK_TRAP_GENERIC_ID_IPV4_SIP_BC'', 15),
      (''DEVLINK_TRAP_GENERIC_ID_IPV6_MC_DIP_RESERVED_SCOPE'', 16),
      (''DEVLINK_TRAP_GENERIC_ID_IPV6_MC_DIP_INTERFACE_LOCAL_SCOPE'', 17),
      (''DEVLINK_TRAP_GENERIC_ID_MTU_ERROR'', 18),
      (''DEVLINK_TRAP_GENERIC_ID_UNRESOLVED_NEIGH'', 19), (''DEVLINK_TRAP_GENERIC_ID_RPF'', 20),
      (''DEVLINK_TRAP_GENERIC_ID_REJECT_ROUTE'', 21),
      (''DEVLINK_TRAP_GENERIC_ID_IPV4_LPM_UNICAST_MISS'', 22),
      (''DEVLINK_TRAP_GENERIC_ID_IPV6_LPM_UNICAST_MISS'', 23),
      (''DEVLINK_TRAP_GENERIC_ID_NON_ROUTABLE'', 24),
      (''DEVLINK_TRAP_GENERIC_ID_DECAP_ERROR'', 25),
      (''DEVLINK_TRAP_GENERIC_ID_OVERLAY_SMAC_MC'', 26),
      (''DEVLINK_TRAP_GENERIC_ID_INGRESS_FLOW_ACTION_DROP'', 27),
      (''DEVLINK_TRAP_GENERIC_ID_EGRESS_FLOW_ACTION_DROP'', 28),
      (''DEVLINK_TRAP_GENERIC_ID_STP'', 29), (''DEVLINK_TRAP_GENERIC_ID_LACP'', 30),
      (''DEVLINK_TRAP_GENERIC_ID_LLDP'', 31), (''DEVLINK_TRAP_GENERIC_ID_IGMP_QUERY'', 32),
      (''DEVLINK_TRAP_GENERIC_ID_IGMP_V1_REPORT'', 33),
      (''DEVLINK_TRAP_GENERIC_ID_IGMP_V2_REPORT'', 34),
      (''DEVLINK_TRAP_GENERIC_ID_IGMP_V3_REPORT'', 35),
      (''DEVLINK_TRAP_GENERIC_ID_IGMP_V2_LEAVE'', 36),
      (''DEVLINK_TRAP_GENERIC_ID_MLD_QUERY'', 37),
      (''DEVLINK_TRAP_GENERIC_ID_MLD_V1_REPORT'', 38),
      (''DEVLINK_TRAP_GENERIC_ID_MLD_V2_REPORT'', 39),
      (''DEVLINK_TRAP_GENERIC_ID_MLD_V1_DONE'', 40),
      (''DEVLINK_TRAP_GENERIC_ID_IPV4_DHCP'', 41), (''DEVLINK_TRAP_GENERIC_ID_IPV6_DHCP'', 42),
      (''DEVLINK_TRAP_GENERIC_ID_ARP_REQUEST'', 43),
      (''DEVLINK_TRAP_GENERIC_ID_ARP_RESPONSE'', 44),
      (''DEVLINK_TRAP_GENERIC_ID_ARP_OVERLAY'', 45),
      (''DEVLINK_TRAP_GENERIC_ID_IPV6_NEIGH_SOLICIT'', 46),
      (''DEVLINK_TRAP_GENERIC_ID_IPV6_NEIGH_ADVERT'', 47),
      (''DEVLINK_TRAP_GENERIC_ID_IPV4_BFD'', 48), (''DEVLINK_TRAP_GENERIC_ID_IPV6_BFD'', 49),
      (''DEVLINK_TRAP_GENERIC_ID_IPV4_OSPF'', 50), (''DEVLINK_TRAP_GENERIC_ID_IPV6_OSPF'', 51),
      (''DEVLINK_TRAP_GENERIC_ID_IPV4_BGP'', 52), (''DEVLINK_TRAP_GENERIC_ID_IPV6_BGP'', 53),
      (''DEVLINK_TRAP_GENERIC_ID_IPV4_VRRP'', 54), (''DEVLINK_TRAP_GENERIC_ID_IPV6_VRRP'', 55),
      (''DEVLINK_TRAP_GENERIC_ID_IPV4_PIM'', 56), (''DEVLINK_TRAP_GENERIC_ID_IPV6_PIM'', 57),
      (''DEVLINK_TRAP_GENERIC_ID_UC_LB'', 58), (''DEVLINK_TRAP_GENERIC_ID_LOCAL_ROUTE'', 59),
      (''DEVLINK_TRAP_GENERIC_ID_EXTERNAL_ROUTE'', 60),
      (''DEVLINK_TRAP_GENERIC_ID_IPV6_UC_DIP_LINK_LOCAL_SCOPE'', 61),
      (''DEVLINK_TRAP_GENERIC_ID_IPV6_DIP_ALL_NODES'', 62),
      (''DEVLINK_TRAP_GENERIC_ID_IPV6_DIP_ALL_ROUTERS'', 63),
      (''DEVLINK_TRAP_GENERIC_ID_IPV6_ROUTER_SOLICIT'', 64),
      (''DEVLINK_TRAP_GENERIC_ID_IPV6_ROUTER_ADVERT'', 65),
      (''DEVLINK_TRAP_GENERIC_ID_IPV6_REDIRECT'', 66),
      (''DEVLINK_TRAP_GENERIC_ID_IPV4_ROUTER_ALERT'', 67),
      (''DEVLINK_TRAP_GENERIC_ID_IPV6_ROUTER_ALERT'', 68),
      (''DEVLINK_TRAP_GENERIC_ID_PTP_EVENT'', 69),
      (''DEVLINK_TRAP_GENERIC_ID_PTP_GENERAL'', 70),
      (''DEVLINK_TRAP_GENERIC_ID_FLOW_ACTION_SAMPLE'', 71),
      (''DEVLINK_TRAP_GENERIC_ID_FLOW_ACTION_TRAP'', 72),
      (''DEVLINK_TRAP_GENERIC_ID_EARLY_DROP'', 73),
      (''DEVLINK_TRAP_GENERIC_ID_VXLAN_PARSING'', 74),
      (''DEVLINK_TRAP_GENERIC_ID_LLC_SNAP_PARSING'', 75),
      (''DEVLINK_TRAP_GENERIC_ID_VLAN_PARSING'', 76),
      (''DEVLINK_TRAP_GENERIC_ID_PPPOE_PPP_PARSING'', 77),
      (''DEVLINK_TRAP_GENERIC_ID_MPLS_PARSING'', 78),
      (''DEVLINK_TRAP_GENERIC_ID_ARP_PARSING'', 79),
      (''DEVLINK_TRAP_GENERIC_ID_IP_1_PARSING'', 80),
      (''DEVLINK_TRAP_GENERIC_ID_IP_N_PARSING'', 81),
      (''DEVLINK_TRAP_GENERIC_ID_GRE_PARSING'', 82),
      (''DEVLINK_TRAP_GENERIC_ID_UDP_PARSING'', 83),
      (''DEVLINK_TRAP_GENERIC_ID_TCP_PARSING'', 84),
      (''DEVLINK_TRAP_GENERIC_ID_IPSEC_PARSING'', 85),
      (''DEVLINK_TRAP_GENERIC_ID_SCTP_PARSING'', 86),
      (''DEVLINK_TRAP_GENERIC_ID_DCCP_PARSING'', 87),
      (''DEVLINK_TRAP_GENERIC_ID_GTP_PARSING'', 88),
      (''DEVLINK_TRAP_GENERIC_ID_ESP_PARSING'', 89),
      (''DEVLINK_TRAP_GENERIC_ID_BLACKHOLE_NEXTHOP'', 90),
      (''DEVLINK_TRAP_GENERIC_ID_DMAC_FILTER'', 91), (''DEVLINK_TRAP_GENERIC_ID_EAPOL'', 92),
      (''DEVLINK_TRAP_GENERIC_ID_LOCKED_PORT'', 93), (''__DEVLINK_TRAP_GENERIC_ID_MAX'', 94),
      (''DEVLINK_TRAP_GENERIC_ID_MAX'', 93)]"

definition enum_devlink_trap_group_generic_id :: cty where
  "enum_devlink_trap_group_generic_id = CEnum 4
     [(''DEVLINK_TRAP_GROUP_GENERIC_ID_L2_DROPS'', 0),
      (''DEVLINK_TRAP_GROUP_GENERIC_ID_L3_DROPS'', 1),
      (''DEVLINK_TRAP_GROUP_GENERIC_ID_L3_EXCEPTIONS'', 2),
      (''DEVLINK_TRAP_GROUP_GENERIC_ID_BUFFER_DROPS'', 3),
      (''DEVLINK_TRAP_GROUP_GENERIC_ID_TUNNEL_DROPS'', 4),
      (''DEVLINK_TRAP_GROUP_GENERIC_ID_ACL_DROPS'', 5),
      (''DEVLINK_TRAP_GROUP_GENERIC_ID_STP'', 6), (''DEVLINK_TRAP_GROUP_GENERIC_ID_LACP'', 7),
      (''DEVLINK_TRAP_GROUP_GENERIC_ID_LLDP'', 8),
      (''DEVLINK_TRAP_GROUP_GENERIC_ID_MC_SNOOPING'', 9),
      (''DEVLINK_TRAP_GROUP_GENERIC_ID_DHCP'', 10),
      (''DEVLINK_TRAP_GROUP_GENERIC_ID_NEIGH_DISCOVERY'', 11),
      (''DEVLINK_TRAP_GROUP_GENERIC_ID_BFD'', 12), (''DEVLINK_TRAP_GROUP_GENERIC_ID_OSPF'', 13),
      (''DEVLINK_TRAP_GROUP_GENERIC_ID_BGP'', 14), (''DEVLINK_TRAP_GROUP_GENERIC_ID_VRRP'', 15),
      (''DEVLINK_TRAP_GROUP_GENERIC_ID_PIM'', 16),
      (''DEVLINK_TRAP_GROUP_GENERIC_ID_UC_LB'', 17),
      (''DEVLINK_TRAP_GROUP_GENERIC_ID_LOCAL_DELIVERY'', 18),
      (''DEVLINK_TRAP_GROUP_GENERIC_ID_EXTERNAL_DELIVERY'', 19),
      (''DEVLINK_TRAP_GROUP_GENERIC_ID_IPV6'', 20),
      (''DEVLINK_TRAP_GROUP_GENERIC_ID_PTP_EVENT'', 21),
      (''DEVLINK_TRAP_GROUP_GENERIC_ID_PTP_GENERAL'', 22),
      (''DEVLINK_TRAP_GROUP_GENERIC_ID_ACL_SAMPLE'', 23),
      (''DEVLINK_TRAP_GROUP_GENERIC_ID_ACL_TRAP'', 24),
      (''DEVLINK_TRAP_GROUP_GENERIC_ID_PARSER_ERROR_DROPS'', 25),
      (''DEVLINK_TRAP_GROUP_GENERIC_ID_EAPOL'', 26),
      (''__DEVLINK_TRAP_GROUP_GENERIC_ID_MAX'', 27),
      (''DEVLINK_TRAP_GROUP_GENERIC_ID_MAX'', 26)]"

definition enum_dmi_entry_type :: cty where
  "enum_dmi_entry_type = CEnum 4
     [(''DMI_ENTRY_BIOS'', 0), (''DMI_ENTRY_SYSTEM'', 1), (''DMI_ENTRY_BASEBOARD'', 2),
      (''DMI_ENTRY_CHASSIS'', 3), (''DMI_ENTRY_PROCESSOR'', 4),
      (''DMI_ENTRY_MEM_CONTROLLER'', 5), (''DMI_ENTRY_MEM_MODULE'', 6),
      (''DMI_ENTRY_CACHE'', 7), (''DMI_ENTRY_PORT_CONNECTOR'', 8),
      (''DMI_ENTRY_SYSTEM_SLOT'', 9), (''DMI_ENTRY_ONBOARD_DEVICE'', 10),
      (''DMI_ENTRY_OEMSTRINGS'', 11), (''DMI_ENTRY_SYSCONF'', 12),
      (''DMI_ENTRY_BIOS_LANG'', 13), (''DMI_ENTRY_GROUP_ASSOC'', 14),
      (''DMI_ENTRY_SYSTEM_EVENT_LOG'', 15), (''DMI_ENTRY_PHYS_MEM_ARRAY'', 16),
      (''DMI_ENTRY_MEM_DEVICE'', 17), (''DMI_ENTRY_32_MEM_ERROR'', 18),
      (''DMI_ENTRY_MEM_ARRAY_MAPPED_ADDR'', 19), (''DMI_ENTRY_MEM_DEV_MAPPED_ADDR'', 20),
      (''DMI_ENTRY_BUILTIN_POINTING_DEV'', 21), (''DMI_ENTRY_PORTABLE_BATTERY'', 22),
      (''DMI_ENTRY_SYSTEM_RESET'', 23), (''DMI_ENTRY_HW_SECURITY'', 24),
      (''DMI_ENTRY_SYSTEM_POWER_CONTROLS'', 25), (''DMI_ENTRY_VOLTAGE_PROBE'', 26),
      (''DMI_ENTRY_COOLING_DEV'', 27), (''DMI_ENTRY_TEMP_PROBE'', 28),
      (''DMI_ENTRY_ELECTRICAL_CURRENT_PROBE'', 29), (''DMI_ENTRY_OOB_REMOTE_ACCESS'', 30),
      (''DMI_ENTRY_BIS_ENTRY'', 31), (''DMI_ENTRY_SYSTEM_BOOT'', 32),
      (''DMI_ENTRY_64_MEM_ERROR'', 33), (''DMI_ENTRY_MGMT_DEV'', 34),
      (''DMI_ENTRY_MGMT_DEV_COMPONENT'', 35), (''DMI_ENTRY_MGMT_DEV_THRES'', 36),
      (''DMI_ENTRY_MEM_CHANNEL'', 37), (''DMI_ENTRY_IPMI_DEV'', 38),
      (''DMI_ENTRY_SYS_POWER_SUPPLY'', 39), (''DMI_ENTRY_ADDITIONAL'', 40),
      (''DMI_ENTRY_ONBOARD_DEV_EXT'', 41), (''DMI_ENTRY_MGMT_CONTROLLER_HOST'', 42),
      (''DMI_ENTRY_TPM_DEVICE'', 43), (''DMI_ENTRY_PROCESSOR_ADDITIONAL'', 44),
      (''DMI_ENTRY_FIRMWARE_INVENTORY'', 45), (''DMI_ENTRY_STRING_PROPERTY'', 46),
      (''DMI_ENTRY_INACTIVE'', 126), (''DMI_ENTRY_END_OF_TABLE'', 127)]"

definition enum_dmi_field :: cty where
  "enum_dmi_field = CEnum 4
     [(''DMI_NONE'', 0), (''DMI_BIOS_VENDOR'', 1), (''DMI_BIOS_VERSION'', 2),
      (''DMI_BIOS_DATE'', 3), (''DMI_BIOS_RELEASE'', 4), (''DMI_EC_FIRMWARE_RELEASE'', 5),
      (''DMI_SYS_VENDOR'', 6), (''DMI_PRODUCT_NAME'', 7), (''DMI_PRODUCT_VERSION'', 8),
      (''DMI_PRODUCT_SERIAL'', 9), (''DMI_PRODUCT_UUID'', 10), (''DMI_PRODUCT_SKU'', 11),
      (''DMI_PRODUCT_FAMILY'', 12), (''DMI_BOARD_VENDOR'', 13), (''DMI_BOARD_NAME'', 14),
      (''DMI_BOARD_VERSION'', 15), (''DMI_BOARD_SERIAL'', 16), (''DMI_BOARD_ASSET_TAG'', 17),
      (''DMI_CHASSIS_VENDOR'', 18), (''DMI_CHASSIS_TYPE'', 19), (''DMI_CHASSIS_VERSION'', 20),
      (''DMI_CHASSIS_SERIAL'', 21), (''DMI_CHASSIS_ASSET_TAG'', 22), (''DMI_STRING_MAX'', 23),
      (''DMI_OEM_STRING'', 24)]"

definition enum_dpll_a_pin :: cty where
  "enum_dpll_a_pin = CEnum 4
     [(''DPLL_A_PIN_ID'', 1), (''DPLL_A_PIN_PARENT_ID'', 2), (''DPLL_A_PIN_MODULE_NAME'', 3),
      (''DPLL_A_PIN_PAD'', 4), (''DPLL_A_PIN_CLOCK_ID'', 5), (''DPLL_A_PIN_BOARD_LABEL'', 6),
      (''DPLL_A_PIN_PANEL_LABEL'', 7), (''DPLL_A_PIN_PACKAGE_LABEL'', 8),
      (''DPLL_A_PIN_TYPE'', 9), (''DPLL_A_PIN_DIRECTION'', 10), (''DPLL_A_PIN_FREQUENCY'', 11),
      (''DPLL_A_PIN_FREQUENCY_SUPPORTED'', 12), (''DPLL_A_PIN_FREQUENCY_MIN'', 13),
      (''DPLL_A_PIN_FREQUENCY_MAX'', 14), (''DPLL_A_PIN_PRIO'', 15), (''DPLL_A_PIN_STATE'', 16),
      (''DPLL_A_PIN_CAPABILITIES'', 17), (''DPLL_A_PIN_PARENT_DEVICE'', 18),
      (''DPLL_A_PIN_PARENT_PIN'', 19), (''DPLL_A_PIN_PHASE_ADJUST_MIN'', 20),
      (''DPLL_A_PIN_PHASE_ADJUST_MAX'', 21), (''DPLL_A_PIN_PHASE_ADJUST'', 22),
      (''DPLL_A_PIN_PHASE_OFFSET'', 23), (''DPLL_A_PIN_FRACTIONAL_FREQUENCY_OFFSET'', 24),
      (''DPLL_A_PIN_ESYNC_FREQUENCY'', 25), (''DPLL_A_PIN_ESYNC_FREQUENCY_SUPPORTED'', 26),
      (''DPLL_A_PIN_ESYNC_PULSE'', 27), (''DPLL_A_PIN_REFERENCE_SYNC'', 28),
      (''DPLL_A_PIN_PHASE_ADJUST_GRAN'', 29),
      (''DPLL_A_PIN_FRACTIONAL_FREQUENCY_OFFSET_PPT'', 30), (''__DPLL_A_PIN_MAX'', 31),
      (''DPLL_A_PIN_MAX'', 30)]"

definition enum_ethtool_link_mode_bit_indices :: cty where
  "enum_ethtool_link_mode_bit_indices = CEnum 4
     [(''ETHTOOL_LINK_MODE_10baseT_Half_BIT'', 0), (''ETHTOOL_LINK_MODE_10baseT_Full_BIT'', 1),
      (''ETHTOOL_LINK_MODE_100baseT_Half_BIT'', 2),
      (''ETHTOOL_LINK_MODE_100baseT_Full_BIT'', 3),
      (''ETHTOOL_LINK_MODE_1000baseT_Half_BIT'', 4),
      (''ETHTOOL_LINK_MODE_1000baseT_Full_BIT'', 5), (''ETHTOOL_LINK_MODE_Autoneg_BIT'', 6),
      (''ETHTOOL_LINK_MODE_TP_BIT'', 7), (''ETHTOOL_LINK_MODE_AUI_BIT'', 8),
      (''ETHTOOL_LINK_MODE_MII_BIT'', 9), (''ETHTOOL_LINK_MODE_FIBRE_BIT'', 10),
      (''ETHTOOL_LINK_MODE_BNC_BIT'', 11), (''ETHTOOL_LINK_MODE_10000baseT_Full_BIT'', 12),
      (''ETHTOOL_LINK_MODE_Pause_BIT'', 13), (''ETHTOOL_LINK_MODE_Asym_Pause_BIT'', 14),
      (''ETHTOOL_LINK_MODE_2500baseX_Full_BIT'', 15), (''ETHTOOL_LINK_MODE_Backplane_BIT'', 16),
      (''ETHTOOL_LINK_MODE_1000baseKX_Full_BIT'', 17),
      (''ETHTOOL_LINK_MODE_10000baseKX4_Full_BIT'', 18),
      (''ETHTOOL_LINK_MODE_10000baseKR_Full_BIT'', 19),
      (''ETHTOOL_LINK_MODE_10000baseR_FEC_BIT'', 20),
      (''ETHTOOL_LINK_MODE_20000baseMLD2_Full_BIT'', 21),
      (''ETHTOOL_LINK_MODE_20000baseKR2_Full_BIT'', 22),
      (''ETHTOOL_LINK_MODE_40000baseKR4_Full_BIT'', 23),
      (''ETHTOOL_LINK_MODE_40000baseCR4_Full_BIT'', 24),
      (''ETHTOOL_LINK_MODE_40000baseSR4_Full_BIT'', 25),
      (''ETHTOOL_LINK_MODE_40000baseLR4_Full_BIT'', 26),
      (''ETHTOOL_LINK_MODE_56000baseKR4_Full_BIT'', 27),
      (''ETHTOOL_LINK_MODE_56000baseCR4_Full_BIT'', 28),
      (''ETHTOOL_LINK_MODE_56000baseSR4_Full_BIT'', 29),
      (''ETHTOOL_LINK_MODE_56000baseLR4_Full_BIT'', 30),
      (''ETHTOOL_LINK_MODE_25000baseCR_Full_BIT'', 31),
      (''ETHTOOL_LINK_MODE_25000baseKR_Full_BIT'', 32),
      (''ETHTOOL_LINK_MODE_25000baseSR_Full_BIT'', 33),
      (''ETHTOOL_LINK_MODE_50000baseCR2_Full_BIT'', 34),
      (''ETHTOOL_LINK_MODE_50000baseKR2_Full_BIT'', 35),
      (''ETHTOOL_LINK_MODE_100000baseKR4_Full_BIT'', 36),
      (''ETHTOOL_LINK_MODE_100000baseSR4_Full_BIT'', 37),
      (''ETHTOOL_LINK_MODE_100000baseCR4_Full_BIT'', 38),
      (''ETHTOOL_LINK_MODE_100000baseLR4_ER4_Full_BIT'', 39),
      (''ETHTOOL_LINK_MODE_50000baseSR2_Full_BIT'', 40),
      (''ETHTOOL_LINK_MODE_1000baseX_Full_BIT'', 41),
      (''ETHTOOL_LINK_MODE_10000baseCR_Full_BIT'', 42),
      (''ETHTOOL_LINK_MODE_10000baseSR_Full_BIT'', 43),
      (''ETHTOOL_LINK_MODE_10000baseLR_Full_BIT'', 44),
      (''ETHTOOL_LINK_MODE_10000baseLRM_Full_BIT'', 45),
      (''ETHTOOL_LINK_MODE_10000baseER_Full_BIT'', 46),
      (''ETHTOOL_LINK_MODE_2500baseT_Full_BIT'', 47),
      (''ETHTOOL_LINK_MODE_5000baseT_Full_BIT'', 48), (''ETHTOOL_LINK_MODE_FEC_NONE_BIT'', 49),
      (''ETHTOOL_LINK_MODE_FEC_RS_BIT'', 50), (''ETHTOOL_LINK_MODE_FEC_BASER_BIT'', 51),
      (''ETHTOOL_LINK_MODE_50000baseKR_Full_BIT'', 52),
      (''ETHTOOL_LINK_MODE_50000baseSR_Full_BIT'', 53),
      (''ETHTOOL_LINK_MODE_50000baseCR_Full_BIT'', 54),
      (''ETHTOOL_LINK_MODE_50000baseLR_ER_FR_Full_BIT'', 55),
      (''ETHTOOL_LINK_MODE_50000baseDR_Full_BIT'', 56),
      (''ETHTOOL_LINK_MODE_100000baseKR2_Full_BIT'', 57),
      (''ETHTOOL_LINK_MODE_100000baseSR2_Full_BIT'', 58),
      (''ETHTOOL_LINK_MODE_100000baseCR2_Full_BIT'', 59),
      (''ETHTOOL_LINK_MODE_100000baseLR2_ER2_FR2_Full_BIT'', 60),
      (''ETHTOOL_LINK_MODE_100000baseDR2_Full_BIT'', 61),
      (''ETHTOOL_LINK_MODE_200000baseKR4_Full_BIT'', 62),
      (''ETHTOOL_LINK_MODE_200000baseSR4_Full_BIT'', 63),
      (''ETHTOOL_LINK_MODE_200000baseLR4_ER4_FR4_Full_BIT'', 64),
      (''ETHTOOL_LINK_MODE_200000baseDR4_Full_BIT'', 65),
      (''ETHTOOL_LINK_MODE_200000baseCR4_Full_BIT'', 66),
      (''ETHTOOL_LINK_MODE_100baseT1_Full_BIT'', 67),
      (''ETHTOOL_LINK_MODE_1000baseT1_Full_BIT'', 68),
      (''ETHTOOL_LINK_MODE_400000baseKR8_Full_BIT'', 69),
      (''ETHTOOL_LINK_MODE_400000baseSR8_Full_BIT'', 70),
      (''ETHTOOL_LINK_MODE_400000baseLR8_ER8_FR8_Full_BIT'', 71),
      (''ETHTOOL_LINK_MODE_400000baseDR8_Full_BIT'', 72),
      (''ETHTOOL_LINK_MODE_400000baseCR8_Full_BIT'', 73),
      (''ETHTOOL_LINK_MODE_FEC_LLRS_BIT'', 74),
      (''ETHTOOL_LINK_MODE_100000baseKR_Full_BIT'', 75),
      (''ETHTOOL_LINK_MODE_100000baseSR_Full_BIT'', 76),
      (''ETHTOOL_LINK_MODE_100000baseLR_ER_FR_Full_BIT'', 77),
      (''ETHTOOL_LINK_MODE_100000baseCR_Full_BIT'', 78),
      (''ETHTOOL_LINK_MODE_100000baseDR_Full_BIT'', 79),
      (''ETHTOOL_LINK_MODE_200000baseKR2_Full_BIT'', 80),
      (''ETHTOOL_LINK_MODE_200000baseSR2_Full_BIT'', 81),
      (''ETHTOOL_LINK_MODE_200000baseLR2_ER2_FR2_Full_BIT'', 82),
      (''ETHTOOL_LINK_MODE_200000baseDR2_Full_BIT'', 83),
      (''ETHTOOL_LINK_MODE_200000baseCR2_Full_BIT'', 84),
      (''ETHTOOL_LINK_MODE_400000baseKR4_Full_BIT'', 85),
      (''ETHTOOL_LINK_MODE_400000baseSR4_Full_BIT'', 86),
      (''ETHTOOL_LINK_MODE_400000baseLR4_ER4_FR4_Full_BIT'', 87),
      (''ETHTOOL_LINK_MODE_400000baseDR4_Full_BIT'', 88),
      (''ETHTOOL_LINK_MODE_400000baseCR4_Full_BIT'', 89),
      (''ETHTOOL_LINK_MODE_100baseFX_Half_BIT'', 90),
      (''ETHTOOL_LINK_MODE_100baseFX_Full_BIT'', 91),
      (''ETHTOOL_LINK_MODE_10baseT1L_Full_BIT'', 92),
      (''ETHTOOL_LINK_MODE_800000baseCR8_Full_BIT'', 93),
      (''ETHTOOL_LINK_MODE_800000baseKR8_Full_BIT'', 94),
      (''ETHTOOL_LINK_MODE_800000baseDR8_Full_BIT'', 95),
      (''ETHTOOL_LINK_MODE_800000baseDR8_2_Full_BIT'', 96),
      (''ETHTOOL_LINK_MODE_800000baseSR8_Full_BIT'', 97),
      (''ETHTOOL_LINK_MODE_800000baseVR8_Full_BIT'', 98),
      (''ETHTOOL_LINK_MODE_10baseT1S_Full_BIT'', 99),
      (''ETHTOOL_LINK_MODE_10baseT1S_Half_BIT'', 100),
      (''ETHTOOL_LINK_MODE_10baseT1S_P2MP_Half_BIT'', 101),
      (''ETHTOOL_LINK_MODE_10baseT1BRR_Full_BIT'', 102),
      (''ETHTOOL_LINK_MODE_200000baseCR_Full_BIT'', 103),
      (''ETHTOOL_LINK_MODE_200000baseKR_Full_BIT'', 104),
      (''ETHTOOL_LINK_MODE_200000baseDR_Full_BIT'', 105),
      (''ETHTOOL_LINK_MODE_200000baseDR_2_Full_BIT'', 106),
      (''ETHTOOL_LINK_MODE_200000baseSR_Full_BIT'', 107),
      (''ETHTOOL_LINK_MODE_200000baseVR_Full_BIT'', 108),
      (''ETHTOOL_LINK_MODE_400000baseCR2_Full_BIT'', 109),
      (''ETHTOOL_LINK_MODE_400000baseKR2_Full_BIT'', 110),
      (''ETHTOOL_LINK_MODE_400000baseDR2_Full_BIT'', 111),
      (''ETHTOOL_LINK_MODE_400000baseDR2_2_Full_BIT'', 112),
      (''ETHTOOL_LINK_MODE_400000baseSR2_Full_BIT'', 113),
      (''ETHTOOL_LINK_MODE_400000baseVR2_Full_BIT'', 114),
      (''ETHTOOL_LINK_MODE_800000baseCR4_Full_BIT'', 115),
      (''ETHTOOL_LINK_MODE_800000baseKR4_Full_BIT'', 116),
      (''ETHTOOL_LINK_MODE_800000baseDR4_Full_BIT'', 117),
      (''ETHTOOL_LINK_MODE_800000baseDR4_2_Full_BIT'', 118),
      (''ETHTOOL_LINK_MODE_800000baseSR4_Full_BIT'', 119),
      (''ETHTOOL_LINK_MODE_800000baseVR4_Full_BIT'', 120),
      (''ETHTOOL_LINK_MODE_1600000baseCR8_Full_BIT'', 121),
      (''ETHTOOL_LINK_MODE_1600000baseKR8_Full_BIT'', 122),
      (''ETHTOOL_LINK_MODE_1600000baseDR8_Full_BIT'', 123),
      (''ETHTOOL_LINK_MODE_1600000baseDR8_2_Full_BIT'', 124),
      (''__ETHTOOL_LINK_MODE_MASK_NBITS'', 125)]"

definition enum_ethtool_stringset :: cty where
  "enum_ethtool_stringset = CEnum 4
     [(''ETH_SS_TEST'', 0), (''ETH_SS_STATS'', 1), (''ETH_SS_PRIV_FLAGS'', 2),
      (''ETH_SS_NTUPLE_FILTERS'', 3), (''ETH_SS_FEATURES'', 4), (''ETH_SS_RSS_HASH_FUNCS'', 5),
      (''ETH_SS_TUNABLES'', 6), (''ETH_SS_PHY_STATS'', 7), (''ETH_SS_PHY_TUNABLES'', 8),
      (''ETH_SS_LINK_MODES'', 9), (''ETH_SS_MSG_CLASSES'', 10), (''ETH_SS_WOL_MODES'', 11),
      (''ETH_SS_SOF_TIMESTAMPING'', 12), (''ETH_SS_TS_TX_TYPES'', 13),
      (''ETH_SS_TS_RX_FILTERS'', 14), (''ETH_SS_UDP_TUNNEL_TYPES'', 15),
      (''ETH_SS_STATS_STD'', 16), (''ETH_SS_STATS_ETH_PHY'', 17),
      (''ETH_SS_STATS_ETH_MAC'', 18), (''ETH_SS_STATS_ETH_CTRL'', 19),
      (''ETH_SS_STATS_RMON'', 20), (''ETH_SS_STATS_PHY'', 21), (''ETH_SS_TS_FLAGS'', 22),
      (''ETH_SS_COUNT'', 23)]"

definition enum_fetch_op :: cty where
  "enum_fetch_op = CEnum 4
     [(''FETCH_OP_NOP'', 0), (''FETCH_OP_REG'', 1), (''FETCH_OP_STACK'', 2),
      (''FETCH_OP_STACKP'', 3), (''FETCH_OP_RETVAL'', 4), (''FETCH_OP_IMM'', 5),
      (''FETCH_OP_COMM'', 6), (''FETCH_OP_ARG'', 7), (''FETCH_OP_FOFFS'', 8),
      (''FETCH_OP_DATA'', 9), (''FETCH_OP_EDATA'', 10), (''FETCH_OP_DEREF'', 11),
      (''FETCH_OP_UDEREF'', 12), (''FETCH_OP_ST_RAW'', 13), (''FETCH_OP_ST_MEM'', 14),
      (''FETCH_OP_ST_UMEM'', 15), (''FETCH_OP_ST_STRING'', 16), (''FETCH_OP_ST_USTRING'', 17),
      (''FETCH_OP_ST_SYMSTR'', 18), (''FETCH_OP_ST_EDATA'', 19), (''FETCH_OP_MOD_BF'', 20),
      (''FETCH_OP_LP_ARRAY'', 21), (''FETCH_OP_TP_ARG'', 22), (''FETCH_OP_END'', 23),
      (''FETCH_NOP_SYMBOL'', 24)]"

definition enum_flow_action_id :: cty where
  "enum_flow_action_id = CEnum 4
     [(''FLOW_ACTION_ACCEPT'', 0), (''FLOW_ACTION_DROP'', 1), (''FLOW_ACTION_TRAP'', 2),
      (''FLOW_ACTION_GOTO'', 3), (''FLOW_ACTION_REDIRECT'', 4), (''FLOW_ACTION_MIRRED'', 5),
      (''FLOW_ACTION_REDIRECT_INGRESS'', 6), (''FLOW_ACTION_MIRRED_INGRESS'', 7),
      (''FLOW_ACTION_VLAN_PUSH'', 8), (''FLOW_ACTION_VLAN_POP'', 9),
      (''FLOW_ACTION_VLAN_MANGLE'', 10), (''FLOW_ACTION_TUNNEL_ENCAP'', 11),
      (''FLOW_ACTION_TUNNEL_DECAP'', 12), (''FLOW_ACTION_MANGLE'', 13),
      (''FLOW_ACTION_ADD'', 14), (''FLOW_ACTION_CSUM'', 15), (''FLOW_ACTION_MARK'', 16),
      (''FLOW_ACTION_PTYPE'', 17), (''FLOW_ACTION_PRIORITY'', 18),
      (''FLOW_ACTION_RX_QUEUE_MAPPING'', 19), (''FLOW_ACTION_WAKE'', 20),
      (''FLOW_ACTION_QUEUE'', 21), (''FLOW_ACTION_SAMPLE'', 22), (''FLOW_ACTION_POLICE'', 23),
      (''FLOW_ACTION_CT'', 24), (''FLOW_ACTION_CT_METADATA'', 25),
      (''FLOW_ACTION_MPLS_PUSH'', 26), (''FLOW_ACTION_MPLS_POP'', 27),
      (''FLOW_ACTION_MPLS_MANGLE'', 28), (''FLOW_ACTION_GATE'', 29),
      (''FLOW_ACTION_PPPOE_PUSH'', 30), (''FLOW_ACTION_JUMP'', 31), (''FLOW_ACTION_PIPE'', 32),
      (''FLOW_ACTION_VLAN_PUSH_ETH'', 33), (''FLOW_ACTION_VLAN_POP_ETH'', 34),
      (''FLOW_ACTION_CONTINUE'', 35), (''NUM_FLOW_ACTIONS'', 36)]"

definition enum_flow_dissector_key_id :: cty where
  "enum_flow_dissector_key_id = CEnum 4
     [(''FLOW_DISSECTOR_KEY_CONTROL'', 0), (''FLOW_DISSECTOR_KEY_BASIC'', 1),
      (''FLOW_DISSECTOR_KEY_IPV4_ADDRS'', 2), (''FLOW_DISSECTOR_KEY_IPV6_ADDRS'', 3),
      (''FLOW_DISSECTOR_KEY_PORTS'', 4), (''FLOW_DISSECTOR_KEY_PORTS_RANGE'', 5),
      (''FLOW_DISSECTOR_KEY_ICMP'', 6), (''FLOW_DISSECTOR_KEY_ETH_ADDRS'', 7),
      (''FLOW_DISSECTOR_KEY_TIPC'', 8), (''FLOW_DISSECTOR_KEY_ARP'', 9),
      (''FLOW_DISSECTOR_KEY_VLAN'', 10), (''FLOW_DISSECTOR_KEY_FLOW_LABEL'', 11),
      (''FLOW_DISSECTOR_KEY_GRE_KEYID'', 12), (''FLOW_DISSECTOR_KEY_MPLS_ENTROPY'', 13),
      (''FLOW_DISSECTOR_KEY_ENC_KEYID'', 14), (''FLOW_DISSECTOR_KEY_ENC_IPV4_ADDRS'', 15),
      (''FLOW_DISSECTOR_KEY_ENC_IPV6_ADDRS'', 16), (''FLOW_DISSECTOR_KEY_ENC_CONTROL'', 17),
      (''FLOW_DISSECTOR_KEY_ENC_PORTS'', 18), (''FLOW_DISSECTOR_KEY_MPLS'', 19),
      (''FLOW_DISSECTOR_KEY_TCP'', 20), (''FLOW_DISSECTOR_KEY_IP'', 21),
      (''FLOW_DISSECTOR_KEY_CVLAN'', 22), (''FLOW_DISSECTOR_KEY_ENC_IP'', 23),
      (''FLOW_DISSECTOR_KEY_ENC_OPTS'', 24), (''FLOW_DISSECTOR_KEY_META'', 25),
      (''FLOW_DISSECTOR_KEY_CT'', 26), (''FLOW_DISSECTOR_KEY_HASH'', 27),
      (''FLOW_DISSECTOR_KEY_NUM_OF_VLANS'', 28), (''FLOW_DISSECTOR_KEY_PPPOE'', 29),
      (''FLOW_DISSECTOR_KEY_L2TPV3'', 30), (''FLOW_DISSECTOR_KEY_CFM'', 31),
      (''FLOW_DISSECTOR_KEY_IPSEC'', 32), (''FLOW_DISSECTOR_KEY_MAX'', 33)]"

definition enum_fuse_opcode :: cty where
  "enum_fuse_opcode = CEnum 4
     [(''FUSE_LOOKUP'', 1), (''FUSE_FORGET'', 2), (''FUSE_GETATTR'', 3), (''FUSE_SETATTR'', 4),
      (''FUSE_READLINK'', 5), (''FUSE_SYMLINK'', 6), (''FUSE_MKNOD'', 8), (''FUSE_MKDIR'', 9),
      (''FUSE_UNLINK'', 10), (''FUSE_RMDIR'', 11), (''FUSE_RENAME'', 12), (''FUSE_LINK'', 13),
      (''FUSE_OPEN'', 14), (''FUSE_READ'', 15), (''FUSE_WRITE'', 16), (''FUSE_STATFS'', 17),
      (''FUSE_RELEASE'', 18), (''FUSE_FSYNC'', 20), (''FUSE_SETXATTR'', 21),
      (''FUSE_GETXATTR'', 22), (''FUSE_LISTXATTR'', 23), (''FUSE_REMOVEXATTR'', 24),
      (''FUSE_FLUSH'', 25), (''FUSE_INIT'', 26), (''FUSE_OPENDIR'', 27), (''FUSE_READDIR'', 28),
      (''FUSE_RELEASEDIR'', 29), (''FUSE_FSYNCDIR'', 30), (''FUSE_GETLK'', 31),
      (''FUSE_SETLK'', 32), (''FUSE_SETLKW'', 33), (''FUSE_ACCESS'', 34), (''FUSE_CREATE'', 35),
      (''FUSE_INTERRUPT'', 36), (''FUSE_BMAP'', 37), (''FUSE_DESTROY'', 38),
      (''FUSE_IOCTL'', 39), (''FUSE_POLL'', 40), (''FUSE_NOTIFY_REPLY'', 41),
      (''FUSE_BATCH_FORGET'', 42), (''FUSE_FALLOCATE'', 43), (''FUSE_READDIRPLUS'', 44),
      (''FUSE_RENAME2'', 45), (''FUSE_LSEEK'', 46), (''FUSE_COPY_FILE_RANGE'', 47),
      (''FUSE_SETUPMAPPING'', 48), (''FUSE_REMOVEMAPPING'', 49), (''FUSE_SYNCFS'', 50),
      (''FUSE_TMPFILE'', 51), (''FUSE_STATX'', 52), (''FUSE_COPY_FILE_RANGE_64'', 53),
      (''CUSE_INIT'', 4096), (''CUSE_INIT_BSWAP_RESERVED'', 1048576),
      (''FUSE_INIT_BSWAP_RESERVED'', 436207616)]"

definition enum_hash_algo :: cty where
  "enum_hash_algo = CEnum 4
     [(''HASH_ALGO_MD4'', 0), (''HASH_ALGO_MD5'', 1), (''HASH_ALGO_SHA1'', 2),
      (''HASH_ALGO_RIPE_MD_160'', 3), (''HASH_ALGO_SHA256'', 4), (''HASH_ALGO_SHA384'', 5),
      (''HASH_ALGO_SHA512'', 6), (''HASH_ALGO_SHA224'', 7), (''HASH_ALGO_RIPE_MD_128'', 8),
      (''HASH_ALGO_RIPE_MD_256'', 9), (''HASH_ALGO_RIPE_MD_320'', 10),
      (''HASH_ALGO_WP_256'', 11), (''HASH_ALGO_WP_384'', 12), (''HASH_ALGO_WP_512'', 13),
      (''HASH_ALGO_TGR_128'', 14), (''HASH_ALGO_TGR_160'', 15), (''HASH_ALGO_TGR_192'', 16),
      (''HASH_ALGO_SM3_256'', 17), (''HASH_ALGO_STREEBOG_256'', 18),
      (''HASH_ALGO_STREEBOG_512'', 19), (''HASH_ALGO_SHA3_256'', 20),
      (''HASH_ALGO_SHA3_384'', 21), (''HASH_ALGO_SHA3_512'', 22), (''HASH_ALGO__LAST'', 23)]"

definition enum_hist_field_fn :: cty where
  "enum_hist_field_fn = CEnum 4
     [(''HIST_FIELD_FN_NOP'', 0), (''HIST_FIELD_FN_VAR_REF'', 1),
      (''HIST_FIELD_FN_COUNTER'', 2), (''HIST_FIELD_FN_CONST'', 3), (''HIST_FIELD_FN_LOG2'', 4),
      (''HIST_FIELD_FN_BUCKET'', 5), (''HIST_FIELD_FN_TIMESTAMP'', 6),
      (''HIST_FIELD_FN_CPU'', 7), (''HIST_FIELD_FN_COMM'', 8), (''HIST_FIELD_FN_STRING'', 9),
      (''HIST_FIELD_FN_DYNSTRING'', 10), (''HIST_FIELD_FN_RELDYNSTRING'', 11),
      (''HIST_FIELD_FN_PSTRING'', 12), (''HIST_FIELD_FN_S64'', 13), (''HIST_FIELD_FN_U64'', 14),
      (''HIST_FIELD_FN_S32'', 15), (''HIST_FIELD_FN_U32'', 16), (''HIST_FIELD_FN_S16'', 17),
      (''HIST_FIELD_FN_U16'', 18), (''HIST_FIELD_FN_S8'', 19), (''HIST_FIELD_FN_U8'', 20),
      (''HIST_FIELD_FN_UMINUS'', 21), (''HIST_FIELD_FN_MINUS'', 22),
      (''HIST_FIELD_FN_PLUS'', 23), (''HIST_FIELD_FN_DIV'', 24), (''HIST_FIELD_FN_MULT'', 25),
      (''HIST_FIELD_FN_DIV_POWER2'', 26), (''HIST_FIELD_FN_DIV_NOT_POWER2'', 27),
      (''HIST_FIELD_FN_DIV_MULT_SHIFT'', 28), (''HIST_FIELD_FN_EXECNAME'', 29),
      (''HIST_FIELD_FN_STACK'', 30)]"

definition enum_hwmon_power_attributes :: cty where
  "enum_hwmon_power_attributes = CEnum 4
     [(''hwmon_power_enable'', 0), (''hwmon_power_average'', 1),
      (''hwmon_power_average_interval'', 2), (''hwmon_power_average_interval_max'', 3),
      (''hwmon_power_average_interval_min'', 4), (''hwmon_power_average_highest'', 5),
      (''hwmon_power_average_lowest'', 6), (''hwmon_power_average_max'', 7),
      (''hwmon_power_average_min'', 8), (''hwmon_power_input'', 9),
      (''hwmon_power_input_highest'', 10), (''hwmon_power_input_lowest'', 11),
      (''hwmon_power_reset_history'', 12), (''hwmon_power_accuracy'', 13),
      (''hwmon_power_cap'', 14), (''hwmon_power_cap_hyst'', 15), (''hwmon_power_cap_max'', 16),
      (''hwmon_power_cap_min'', 17), (''hwmon_power_min'', 18), (''hwmon_power_max'', 19),
      (''hwmon_power_crit'', 20), (''hwmon_power_lcrit'', 21), (''hwmon_power_label'', 22),
      (''hwmon_power_alarm'', 23), (''hwmon_power_cap_alarm'', 24),
      (''hwmon_power_min_alarm'', 25), (''hwmon_power_max_alarm'', 26),
      (''hwmon_power_lcrit_alarm'', 27), (''hwmon_power_crit_alarm'', 28),
      (''hwmon_power_rated_min'', 29), (''hwmon_power_rated_max'', 30)]"

definition enum_hwmon_temp_attributes :: cty where
  "enum_hwmon_temp_attributes = CEnum 4
     [(''hwmon_temp_enable'', 0), (''hwmon_temp_input'', 1), (''hwmon_temp_type'', 2),
      (''hwmon_temp_lcrit'', 3), (''hwmon_temp_lcrit_hyst'', 4), (''hwmon_temp_min'', 5),
      (''hwmon_temp_min_hyst'', 6), (''hwmon_temp_max'', 7), (''hwmon_temp_max_hyst'', 8),
      (''hwmon_temp_crit'', 9), (''hwmon_temp_crit_hyst'', 10), (''hwmon_temp_emergency'', 11),
      (''hwmon_temp_emergency_hyst'', 12), (''hwmon_temp_alarm'', 13),
      (''hwmon_temp_lcrit_alarm'', 14), (''hwmon_temp_min_alarm'', 15),
      (''hwmon_temp_max_alarm'', 16), (''hwmon_temp_crit_alarm'', 17),
      (''hwmon_temp_emergency_alarm'', 18), (''hwmon_temp_fault'', 19),
      (''hwmon_temp_offset'', 20), (''hwmon_temp_label'', 21), (''hwmon_temp_lowest'', 22),
      (''hwmon_temp_highest'', 23), (''hwmon_temp_reset_history'', 24),
      (''hwmon_temp_rated_min'', 25), (''hwmon_temp_rated_max'', 26), (''hwmon_temp_beep'', 27)]"

definition enum_ib_uverbs_device_cap_flags :: cty where
  "enum_ib_uverbs_device_cap_flags = CEnum 8
     [(''IB_UVERBS_DEVICE_RESIZE_MAX_WR'', 1), (''IB_UVERBS_DEVICE_BAD_PKEY_CNTR'', 2),
      (''IB_UVERBS_DEVICE_BAD_QKEY_CNTR'', 4), (''IB_UVERBS_DEVICE_RAW_MULTI'', 8),
      (''IB_UVERBS_DEVICE_AUTO_PATH_MIG'', 16), (''IB_UVERBS_DEVICE_CHANGE_PHY_PORT'', 32),
      (''IB_UVERBS_DEVICE_UD_AV_PORT_ENFORCE'', 64),
      (''IB_UVERBS_DEVICE_CURR_QP_STATE_MOD'', 128), (''IB_UVERBS_DEVICE_SHUTDOWN_PORT'', 256),
      (''IB_UVERBS_DEVICE_PORT_ACTIVE_EVENT'', 1024),
      (''IB_UVERBS_DEVICE_SYS_IMAGE_GUID'', 2048), (''IB_UVERBS_DEVICE_RC_RNR_NAK_GEN'', 4096),
      (''IB_UVERBS_DEVICE_SRQ_RESIZE'', 8192), (''IB_UVERBS_DEVICE_N_NOTIFY_CQ'', 16384),
      (''IB_UVERBS_DEVICE_MEM_WINDOW'', 131072), (''IB_UVERBS_DEVICE_UD_IP_CSUM'', 262144),
      (''IB_UVERBS_DEVICE_XRC'', 1048576), (''IB_UVERBS_DEVICE_MEM_MGT_EXTENSIONS'', 2097152),
      (''IB_UVERBS_DEVICE_MEM_WINDOW_TYPE_2A'', 8388608),
      (''IB_UVERBS_DEVICE_MEM_WINDOW_TYPE_2B'', 16777216),
      (''IB_UVERBS_DEVICE_RC_IP_CSUM'', 33554432), (''IB_UVERBS_DEVICE_RAW_IP_CSUM'', 67108864),
      (''IB_UVERBS_DEVICE_MANAGED_FLOW_STEERING'', 536870912),
      (''IB_UVERBS_DEVICE_RAW_SCATTER_FCS'', 17179869184),
      (''IB_UVERBS_DEVICE_PCI_WRITE_END_PADDING'', 68719476736),
      (''IB_UVERBS_DEVICE_FLUSH_GLOBAL'', 274877906944),
      (''IB_UVERBS_DEVICE_FLUSH_PERSISTENT'', 549755813888),
      (''IB_UVERBS_DEVICE_ATOMIC_WRITE'', 1099511627776)]"

definition enum_ib_wr_opcode :: cty where
  "enum_ib_wr_opcode = CEnum 4
     [(''IB_WR_RDMA_WRITE'', 0), (''IB_WR_RDMA_WRITE_WITH_IMM'', 1), (''IB_WR_SEND'', 2),
      (''IB_WR_SEND_WITH_IMM'', 3), (''IB_WR_RDMA_READ'', 4), (''IB_WR_ATOMIC_CMP_AND_SWP'', 5),
      (''IB_WR_ATOMIC_FETCH_AND_ADD'', 6), (''IB_WR_BIND_MW'', 8), (''IB_WR_LSO'', 10),
      (''IB_WR_SEND_WITH_INV'', 9), (''IB_WR_RDMA_READ_WITH_INV'', 11),
      (''IB_WR_LOCAL_INV'', 7), (''IB_WR_MASKED_ATOMIC_CMP_AND_SWP'', 12),
      (''IB_WR_MASKED_ATOMIC_FETCH_AND_ADD'', 13), (''IB_WR_FLUSH'', 14),
      (''IB_WR_ATOMIC_WRITE'', 15), (''IB_WR_REG_MR'', 32), (''IB_WR_REG_MR_INTEGRITY'', 33),
      (''IB_WR_RESERVED1'', 240), (''IB_WR_RESERVED2'', 241), (''IB_WR_RESERVED3'', 242),
      (''IB_WR_RESERVED4'', 243), (''IB_WR_RESERVED5'', 244), (''IB_WR_RESERVED6'', 245),
      (''IB_WR_RESERVED7'', 246), (''IB_WR_RESERVED8'', 247), (''IB_WR_RESERVED9'', 248),
      (''IB_WR_RESERVED10'', 249)]"

definition enum_io_uring_op :: cty where
  "enum_io_uring_op = CEnum 4
     [(''IORING_OP_NOP'', 0), (''IORING_OP_READV'', 1), (''IORING_OP_WRITEV'', 2),
      (''IORING_OP_FSYNC'', 3), (''IORING_OP_READ_FIXED'', 4), (''IORING_OP_WRITE_FIXED'', 5),
      (''IORING_OP_POLL_ADD'', 6), (''IORING_OP_POLL_REMOVE'', 7),
      (''IORING_OP_SYNC_FILE_RANGE'', 8), (''IORING_OP_SENDMSG'', 9),
      (''IORING_OP_RECVMSG'', 10), (''IORING_OP_TIMEOUT'', 11),
      (''IORING_OP_TIMEOUT_REMOVE'', 12), (''IORING_OP_ACCEPT'', 13),
      (''IORING_OP_ASYNC_CANCEL'', 14), (''IORING_OP_LINK_TIMEOUT'', 15),
      (''IORING_OP_CONNECT'', 16), (''IORING_OP_FALLOCATE'', 17), (''IORING_OP_OPENAT'', 18),
      (''IORING_OP_CLOSE'', 19), (''IORING_OP_FILES_UPDATE'', 20), (''IORING_OP_STATX'', 21),
      (''IORING_OP_READ'', 22), (''IORING_OP_WRITE'', 23), (''IORING_OP_FADVISE'', 24),
      (''IORING_OP_MADVISE'', 25), (''IORING_OP_SEND'', 26), (''IORING_OP_RECV'', 27),
      (''IORING_OP_OPENAT2'', 28), (''IORING_OP_EPOLL_CTL'', 29), (''IORING_OP_SPLICE'', 30),
      (''IORING_OP_PROVIDE_BUFFERS'', 31), (''IORING_OP_REMOVE_BUFFERS'', 32),
      (''IORING_OP_TEE'', 33), (''IORING_OP_SHUTDOWN'', 34), (''IORING_OP_RENAMEAT'', 35),
      (''IORING_OP_UNLINKAT'', 36), (''IORING_OP_MKDIRAT'', 37), (''IORING_OP_SYMLINKAT'', 38),
      (''IORING_OP_LINKAT'', 39), (''IORING_OP_MSG_RING'', 40), (''IORING_OP_FSETXATTR'', 41),
      (''IORING_OP_SETXATTR'', 42), (''IORING_OP_FGETXATTR'', 43), (''IORING_OP_GETXATTR'', 44),
      (''IORING_OP_SOCKET'', 45), (''IORING_OP_URING_CMD'', 46), (''IORING_OP_SEND_ZC'', 47),
      (''IORING_OP_SENDMSG_ZC'', 48), (''IORING_OP_READ_MULTISHOT'', 49),
      (''IORING_OP_WAITID'', 50), (''IORING_OP_FUTEX_WAIT'', 51),
      (''IORING_OP_FUTEX_WAKE'', 52), (''IORING_OP_FUTEX_WAITV'', 53),
      (''IORING_OP_FIXED_FD_INSTALL'', 54), (''IORING_OP_FTRUNCATE'', 55),
      (''IORING_OP_BIND'', 56), (''IORING_OP_LISTEN'', 57), (''IORING_OP_RECV_ZC'', 58),
      (''IORING_OP_EPOLL_WAIT'', 59), (''IORING_OP_READV_FIXED'', 60),
      (''IORING_OP_WRITEV_FIXED'', 61), (''IORING_OP_PIPE'', 62), (''IORING_OP_NOP128'', 63),
      (''IORING_OP_URING_CMD128'', 64), (''IORING_OP_LAST'', 65)]"

definition enum_io_uring_register_op :: cty where
  "enum_io_uring_register_op = CEnum 4
     [(''IORING_REGISTER_BUFFERS'', 0), (''IORING_UNREGISTER_BUFFERS'', 1),
      (''IORING_REGISTER_FILES'', 2), (''IORING_UNREGISTER_FILES'', 3),
      (''IORING_REGISTER_EVENTFD'', 4), (''IORING_UNREGISTER_EVENTFD'', 5),
      (''IORING_REGISTER_FILES_UPDATE'', 6), (''IORING_REGISTER_EVENTFD_ASYNC'', 7),
      (''IORING_REGISTER_PROBE'', 8), (''IORING_REGISTER_PERSONALITY'', 9),
      (''IORING_UNREGISTER_PERSONALITY'', 10), (''IORING_REGISTER_RESTRICTIONS'', 11),
      (''IORING_REGISTER_ENABLE_RINGS'', 12), (''IORING_REGISTER_FILES2'', 13),
      (''IORING_REGISTER_FILES_UPDATE2'', 14), (''IORING_REGISTER_BUFFERS2'', 15),
      (''IORING_REGISTER_BUFFERS_UPDATE'', 16), (''IORING_REGISTER_IOWQ_AFF'', 17),
      (''IORING_UNREGISTER_IOWQ_AFF'', 18), (''IORING_REGISTER_IOWQ_MAX_WORKERS'', 19),
      (''IORING_REGISTER_RING_FDS'', 20), (''IORING_UNREGISTER_RING_FDS'', 21),
      (''IORING_REGISTER_PBUF_RING'', 22), (''IORING_UNREGISTER_PBUF_RING'', 23),
      (''IORING_REGISTER_SYNC_CANCEL'', 24), (''IORING_REGISTER_FILE_ALLOC_RANGE'', 25),
      (''IORING_REGISTER_PBUF_STATUS'', 26), (''IORING_REGISTER_NAPI'', 27),
      (''IORING_UNREGISTER_NAPI'', 28), (''IORING_REGISTER_CLOCK'', 29),
      (''IORING_REGISTER_CLONE_BUFFERS'', 30), (''IORING_REGISTER_SEND_MSG_RING'', 31),
      (''IORING_REGISTER_ZCRX_IFQ'', 32), (''IORING_REGISTER_RESIZE_RINGS'', 33),
      (''IORING_REGISTER_MEM_REGION'', 34), (''IORING_REGISTER_QUERY'', 35),
      (''IORING_REGISTER_ZCRX_CTRL'', 36), (''IORING_REGISTER_BPF_FILTER'', 37),
      (''IORING_REGISTER_LAST'', 38), (''IORING_REGISTER_USE_REGISTERED_RING'', 2147483648)]"

definition enum_ip_conntrack_status :: cty where
  "enum_ip_conntrack_status = CEnum 4
     [(''IPS_EXPECTED_BIT'', 0), (''IPS_EXPECTED'', 1), (''IPS_SEEN_REPLY_BIT'', 1),
      (''IPS_SEEN_REPLY'', 2), (''IPS_ASSURED_BIT'', 2), (''IPS_ASSURED'', 4),
      (''IPS_CONFIRMED_BIT'', 3), (''IPS_CONFIRMED'', 8), (''IPS_SRC_NAT_BIT'', 4),
      (''IPS_SRC_NAT'', 16), (''IPS_DST_NAT_BIT'', 5), (''IPS_DST_NAT'', 32),
      (''IPS_NAT_MASK'', 48), (''IPS_SEQ_ADJUST_BIT'', 6), (''IPS_SEQ_ADJUST'', 64),
      (''IPS_SRC_NAT_DONE_BIT'', 7), (''IPS_SRC_NAT_DONE'', 128), (''IPS_DST_NAT_DONE_BIT'', 8),
      (''IPS_DST_NAT_DONE'', 256), (''IPS_NAT_DONE_MASK'', 384), (''IPS_DYING_BIT'', 9),
      (''IPS_DYING'', 512), (''IPS_FIXED_TIMEOUT_BIT'', 10), (''IPS_FIXED_TIMEOUT'', 1024),
      (''IPS_TEMPLATE_BIT'', 11), (''IPS_TEMPLATE'', 2048), (''IPS_UNTRACKED_BIT'', 12),
      (''IPS_UNTRACKED'', 4096), (''IPS_NAT_CLASH_BIT'', 12), (''IPS_NAT_CLASH'', 4096),
      (''IPS_HELPER_BIT'', 13), (''IPS_HELPER'', 8192), (''IPS_OFFLOAD_BIT'', 14),
      (''IPS_OFFLOAD'', 16384), (''IPS_HW_OFFLOAD_BIT'', 15), (''IPS_HW_OFFLOAD'', 32768),
      (''IPS_UNCHANGEABLE_MASK'', 56313), (''__IPS_MAX_BIT'', 16)]"

definition enum_kvm_reg :: cty where
  "enum_kvm_reg = CEnum 4
     [(''VCPU_REGS_RAX'', 0), (''VCPU_REGS_RCX'', 1), (''VCPU_REGS_RDX'', 2),
      (''VCPU_REGS_RBX'', 3), (''VCPU_REGS_RSP'', 4), (''VCPU_REGS_RBP'', 5),
      (''VCPU_REGS_RSI'', 6), (''VCPU_REGS_RDI'', 7), (''VCPU_REGS_R8'', 8),
      (''VCPU_REGS_R9'', 9), (''VCPU_REGS_R10'', 10), (''VCPU_REGS_R11'', 11),
      (''VCPU_REGS_R12'', 12), (''VCPU_REGS_R13'', 13), (''VCPU_REGS_R14'', 14),
      (''VCPU_REGS_R15'', 15), (''VCPU_REGS_RIP'', 16), (''NR_VCPU_REGS'', 17),
      (''VCPU_EXREG_PDPTR'', 17), (''VCPU_EXREG_CR0'', 18), (''VCPU_EXREG_CR3'', 19),
      (''VCPU_EXREG_ERAPS'', 19), (''VCPU_EXREG_CR4'', 20), (''VCPU_EXREG_RFLAGS'', 21),
      (''VCPU_EXREG_SEGMENTS'', 22), (''VCPU_EXREG_EXIT_INFO_1'', 23),
      (''VCPU_EXREG_EXIT_INFO_2'', 24)]"

definition enum_linux_mptcp_mib_field :: cty where
  "enum_linux_mptcp_mib_field = CEnum 4
     [(''MPTCP_MIB_NUM'', 0), (''MPTCP_MIB_MPCAPABLEPASSIVE'', 1),
      (''MPTCP_MIB_MPCAPABLEACTIVE'', 2), (''MPTCP_MIB_MPCAPABLEACTIVEACK'', 3),
      (''MPTCP_MIB_MPCAPABLEPASSIVEACK'', 4), (''MPTCP_MIB_MPCAPABLEPASSIVEFALLBACK'', 5),
      (''MPTCP_MIB_MPCAPABLEACTIVEFALLBACK'', 6), (''MPTCP_MIB_MPCAPABLEACTIVEDROP'', 7),
      (''MPTCP_MIB_MPCAPABLEACTIVEDISABLED'', 8), (''MPTCP_MIB_MPCAPABLEENDPATTEMPT'', 9),
      (''MPTCP_MIB_TOKENFALLBACKINIT'', 10), (''MPTCP_MIB_RETRANSSEGS'', 11),
      (''MPTCP_MIB_JOINNOTOKEN'', 12), (''MPTCP_MIB_JOINSYNRX'', 13),
      (''MPTCP_MIB_JOINSYNBACKUPRX'', 14), (''MPTCP_MIB_JOINSYNACKRX'', 15),
      (''MPTCP_MIB_JOINSYNACKBACKUPRX'', 16), (''MPTCP_MIB_JOINSYNACKMAC'', 17),
      (''MPTCP_MIB_JOINACKRX'', 18), (''MPTCP_MIB_JOINACKMAC'', 19),
      (''MPTCP_MIB_JOINREJECTED'', 20), (''MPTCP_MIB_JOINSYNTX'', 21),
      (''MPTCP_MIB_JOINSYNTXCREATSKERR'', 22), (''MPTCP_MIB_JOINSYNTXBINDERR'', 23),
      (''MPTCP_MIB_JOINSYNTXCONNECTERR'', 24), (''MPTCP_MIB_DSSNOMATCH'', 25),
      (''MPTCP_MIB_DSSCORRUPTIONFALLBACK'', 26), (''MPTCP_MIB_DSSCORRUPTIONRESET'', 27),
      (''MPTCP_MIB_INFINITEMAPTX'', 28), (''MPTCP_MIB_INFINITEMAPRX'', 29),
      (''MPTCP_MIB_DSSTCPMISMATCH'', 30), (''MPTCP_MIB_DATACSUMERR'', 31),
      (''MPTCP_MIB_OFOQUEUETAIL'', 32), (''MPTCP_MIB_OFOQUEUE'', 33),
      (''MPTCP_MIB_OFOMERGE'', 34), (''MPTCP_MIB_NODSSWINDOW'', 35),
      (''MPTCP_MIB_DUPDATA'', 36), (''MPTCP_MIB_ADDADDR'', 37), (''MPTCP_MIB_ADDADDRTX'', 38),
      (''MPTCP_MIB_ADDADDRTXDROP'', 39), (''MPTCP_MIB_ECHOADD'', 40),
      (''MPTCP_MIB_ECHOADDTX'', 41), (''MPTCP_MIB_ECHOADDTXDROP'', 42),
      (''MPTCP_MIB_PORTADD'', 43), (''MPTCP_MIB_ADDADDRDROP'', 44),
      (''MPTCP_MIB_JOINPORTSYNRX'', 45), (''MPTCP_MIB_JOINPORTSYNACKRX'', 46),
      (''MPTCP_MIB_JOINPORTACKRX'', 47), (''MPTCP_MIB_MISMATCHPORTSYNRX'', 48),
      (''MPTCP_MIB_MISMATCHPORTACKRX'', 49), (''MPTCP_MIB_RMADDR'', 50),
      (''MPTCP_MIB_RMADDRDROP'', 51), (''MPTCP_MIB_RMADDRTX'', 52),
      (''MPTCP_MIB_RMADDRTXDROP'', 53), (''MPTCP_MIB_RMSUBFLOW'', 54),
      (''MPTCP_MIB_MPPRIOTX'', 55), (''MPTCP_MIB_MPPRIORX'', 56), (''MPTCP_MIB_MPFAILTX'', 57),
      (''MPTCP_MIB_MPFAILRX'', 58), (''MPTCP_MIB_MPFASTCLOSETX'', 59),
      (''MPTCP_MIB_MPFASTCLOSERX'', 60), (''MPTCP_MIB_MPRSTTX'', 61),
      (''MPTCP_MIB_MPRSTRX'', 62), (''MPTCP_MIB_SUBFLOWSTALE'', 63),
      (''MPTCP_MIB_SUBFLOWRECOVER'', 64), (''MPTCP_MIB_SNDWNDSHARED'', 65),
      (''MPTCP_MIB_RCVWNDSHARED'', 66), (''MPTCP_MIB_RCVWNDCONFLICTUPDATE'', 67),
      (''MPTCP_MIB_RCVWNDCONFLICT'', 68), (''MPTCP_MIB_CURRESTAB'', 69),
      (''MPTCP_MIB_BLACKHOLE'', 70), (''MPTCP_MIB_MPCAPABLEDATAFALLBACK'', 71),
      (''MPTCP_MIB_MD5SIGFALLBACK'', 72), (''MPTCP_MIB_DSSFALLBACK'', 73),
      (''MPTCP_MIB_SIMULTCONNFALLBACK'', 74), (''MPTCP_MIB_FALLBACKFAILED'', 75),
      (''MPTCP_MIB_WINPROBE'', 76), (''__MPTCP_MIB_MAX'', 77)]"

definition enum_lockdown_reason :: cty where
  "enum_lockdown_reason = CEnum 4
     [(''LOCKDOWN_NONE'', 0), (''LOCKDOWN_MODULE_SIGNATURE'', 1), (''LOCKDOWN_DEV_MEM'', 2),
      (''LOCKDOWN_EFI_TEST'', 3), (''LOCKDOWN_KEXEC'', 4), (''LOCKDOWN_HIBERNATION'', 5),
      (''LOCKDOWN_PCI_ACCESS'', 6), (''LOCKDOWN_IOPORT'', 7), (''LOCKDOWN_MSR'', 8),
      (''LOCKDOWN_ACPI_TABLES'', 9), (''LOCKDOWN_DEVICE_TREE'', 10),
      (''LOCKDOWN_PCMCIA_CIS'', 11), (''LOCKDOWN_TIOCSSERIAL'', 12),
      (''LOCKDOWN_MODULE_PARAMETERS'', 13), (''LOCKDOWN_MMIOTRACE'', 14),
      (''LOCKDOWN_DEBUGFS'', 15), (''LOCKDOWN_XMON_WR'', 16), (''LOCKDOWN_BPF_WRITE_USER'', 17),
      (''LOCKDOWN_DBG_WRITE_KERNEL'', 18), (''LOCKDOWN_RTAS_ERROR_INJECTION'', 19),
      (''LOCKDOWN_XEN_USER_ACTIONS'', 20), (''LOCKDOWN_INTEGRITY_MAX'', 21),
      (''LOCKDOWN_KCORE'', 22), (''LOCKDOWN_KPROBES'', 23), (''LOCKDOWN_BPF_READ_KERNEL'', 24),
      (''LOCKDOWN_DBG_READ_KERNEL'', 25), (''LOCKDOWN_PERF'', 26), (''LOCKDOWN_TRACEFS'', 27),
      (''LOCKDOWN_XMON_RW'', 28), (''LOCKDOWN_XFRM_SECRET'', 29),
      (''LOCKDOWN_CONFIDENTIALITY_MAX'', 30)]"

definition enum_max14577_reg :: cty where
  "enum_max14577_reg = CEnum 4
     [(''MAX14577_REG_DEVICEID'', 0), (''MAX14577_REG_INT1'', 1), (''MAX14577_REG_INT2'', 2),
      (''MAX14577_REG_INT3'', 3), (''MAX14577_REG_STATUS1'', 4), (''MAX14577_REG_STATUS2'', 5),
      (''MAX14577_REG_STATUS3'', 6), (''MAX14577_REG_INTMASK1'', 7),
      (''MAX14577_REG_INTMASK2'', 8), (''MAX14577_REG_INTMASK3'', 9),
      (''MAX14577_REG_CDETCTRL1'', 10), (''MAX14577_REG_RFU'', 11),
      (''MAX14577_REG_CONTROL1'', 12), (''MAX14577_REG_CONTROL2'', 13),
      (''MAX14577_REG_CONTROL3'', 14), (''MAX14577_REG_CHGCTRL1'', 15),
      (''MAX14577_REG_CHGCTRL2'', 16), (''MAX14577_REG_CHGCTRL3'', 17),
      (''MAX14577_REG_CHGCTRL4'', 18), (''MAX14577_REG_CHGCTRL5'', 19),
      (''MAX14577_REG_CHGCTRL6'', 20), (''MAX14577_REG_CHGCTRL7'', 21),
      (''MAX14577_REG_END'', 22)]"

definition enum_max77693_pmic_reg :: cty where
  "enum_max77693_pmic_reg = CEnum 4
     [(''MAX77693_LED_REG_IFLASH1'', 0), (''MAX77693_LED_REG_IFLASH2'', 1),
      (''MAX77693_LED_REG_ITORCH'', 2), (''MAX77693_LED_REG_ITORCHTIMER'', 3),
      (''MAX77693_LED_REG_FLASH_TIMER'', 4), (''MAX77693_LED_REG_FLASH_EN'', 5),
      (''MAX77693_LED_REG_MAX_FLASH1'', 6), (''MAX77693_LED_REG_MAX_FLASH2'', 7),
      (''MAX77693_LED_REG_MAX_FLASH3'', 8), (''MAX77693_LED_REG_MAX_FLASH4'', 9),
      (''MAX77693_LED_REG_VOUT_CNTL'', 10), (''MAX77693_LED_REG_VOUT_FLASH1'', 11),
      (''MAX77693_LED_REG_VOUT_FLASH2'', 12), (''MAX77693_LED_REG_FLASH_INT'', 14),
      (''MAX77693_LED_REG_FLASH_INT_MASK'', 15), (''MAX77693_LED_REG_FLASH_STATUS'', 16),
      (''MAX77693_PMIC_REG_PMIC_ID1'', 32), (''MAX77693_PMIC_REG_PMIC_ID2'', 33),
      (''MAX77693_PMIC_REG_INTSRC'', 34), (''MAX77693_PMIC_REG_INTSRC_MASK'', 35),
      (''MAX77693_PMIC_REG_TOPSYS_INT'', 36), (''MAX77693_PMIC_REG_TOPSYS_INT_MASK'', 38),
      (''MAX77693_PMIC_REG_TOPSYS_STAT'', 40), (''MAX77693_PMIC_REG_MAINCTRL1'', 42),
      (''MAX77693_PMIC_REG_LSCNFG'', 43), (''MAX77693_CHG_REG_CHG_INT'', 176),
      (''MAX77693_CHG_REG_CHG_INT_MASK'', 177), (''MAX77693_CHG_REG_CHG_INT_OK'', 178),
      (''MAX77693_CHG_REG_CHG_DETAILS_00'', 179), (''MAX77693_CHG_REG_CHG_DETAILS_01'', 180),
      (''MAX77693_CHG_REG_CHG_DETAILS_02'', 181), (''MAX77693_CHG_REG_CHG_DETAILS_03'', 182),
      (''MAX77693_CHG_REG_CHG_CNFG_00'', 183), (''MAX77693_CHG_REG_CHG_CNFG_01'', 184),
      (''MAX77693_CHG_REG_CHG_CNFG_02'', 185), (''MAX77693_CHG_REG_CHG_CNFG_03'', 186),
      (''MAX77693_CHG_REG_CHG_CNFG_04'', 187), (''MAX77693_CHG_REG_CHG_CNFG_05'', 188),
      (''MAX77693_CHG_REG_CHG_CNFG_06'', 189), (''MAX77693_CHG_REG_CHG_CNFG_07'', 190),
      (''MAX77693_CHG_REG_CHG_CNFG_08'', 191), (''MAX77693_CHG_REG_CHG_CNFG_09'', 192),
      (''MAX77693_CHG_REG_CHG_CNFG_10'', 193), (''MAX77693_CHG_REG_CHG_CNFG_11'', 194),
      (''MAX77693_CHG_REG_CHG_CNFG_12'', 195), (''MAX77693_CHG_REG_CHG_CNFG_13'', 196),
      (''MAX77693_CHG_REG_CHG_CNFG_14'', 197), (''MAX77693_CHG_REG_SAFEOUT_CTRL'', 198),
      (''MAX77693_PMIC_REG_END'', 199)]"

definition enum_max8997_irq :: cty where
  "enum_max8997_irq = CEnum 4
     [(''MAX8997_PMICIRQ_PWRONR'', 0), (''MAX8997_PMICIRQ_PWRONF'', 1),
      (''MAX8997_PMICIRQ_PWRON1SEC'', 2), (''MAX8997_PMICIRQ_JIGONR'', 3),
      (''MAX8997_PMICIRQ_JIGONF'', 4), (''MAX8997_PMICIRQ_LOWBAT2'', 5),
      (''MAX8997_PMICIRQ_LOWBAT1'', 6), (''MAX8997_PMICIRQ_JIGR'', 7),
      (''MAX8997_PMICIRQ_JIGF'', 8), (''MAX8997_PMICIRQ_MR'', 9),
      (''MAX8997_PMICIRQ_DVS1OK'', 10), (''MAX8997_PMICIRQ_DVS2OK'', 11),
      (''MAX8997_PMICIRQ_DVS3OK'', 12), (''MAX8997_PMICIRQ_DVS4OK'', 13),
      (''MAX8997_PMICIRQ_CHGINS'', 14), (''MAX8997_PMICIRQ_CHGRM'', 15),
      (''MAX8997_PMICIRQ_DCINOVP'', 16), (''MAX8997_PMICIRQ_TOPOFFR'', 17),
      (''MAX8997_PMICIRQ_CHGRSTF'', 18), (''MAX8997_PMICIRQ_MBCHGTMEXPD'', 19),
      (''MAX8997_PMICIRQ_RTC60S'', 20), (''MAX8997_PMICIRQ_RTCA1'', 21),
      (''MAX8997_PMICIRQ_RTCA2'', 22), (''MAX8997_PMICIRQ_SMPL_INT'', 23),
      (''MAX8997_PMICIRQ_RTC1S'', 24), (''MAX8997_PMICIRQ_WTSR'', 25),
      (''MAX8997_MUICIRQ_ADCError'', 26), (''MAX8997_MUICIRQ_ADCLow'', 27),
      (''MAX8997_MUICIRQ_ADC'', 28), (''MAX8997_MUICIRQ_VBVolt'', 29),
      (''MAX8997_MUICIRQ_DBChg'', 30), (''MAX8997_MUICIRQ_DCDTmr'', 31),
      (''MAX8997_MUICIRQ_ChgDetRun'', 32), (''MAX8997_MUICIRQ_ChgTyp'', 33),
      (''MAX8997_MUICIRQ_OVP'', 34), (''MAX8997_IRQ_NR'', 35)]"

section \<open>Sizes and alignments\<close>

lemma enum_OID_layout [layout_simps]:
  "sizeof enum_OID = 4 \<and> alignof enum_OID = 4 \<and> wf_cty enum_OID"
  by (simp add: enum_OID_def base_types layout_eval
      del: One_nat_def)

lemma enum_P4_ESCR_EMASKS_layout [layout_simps]:
  "sizeof enum_P4_ESCR_EMASKS = 4 \<and> alignof enum_P4_ESCR_EMASKS = 4 \<and> wf_cty enum_P4_ESCR_EMASKS"
  by (simp add: enum_P4_ESCR_EMASKS_def base_types layout_eval
      del: One_nat_def)

lemma enum_P4_EVENTS_layout [layout_simps]:
  "sizeof enum_P4_EVENTS = 4 \<and> alignof enum_P4_EVENTS = 4 \<and> wf_cty enum_P4_EVENTS"
  by (simp add: enum_P4_EVENTS_def base_types layout_eval
      del: One_nat_def)

lemma enum_P4_EVENT_OPCODES_layout [layout_simps]:
  "sizeof enum_P4_EVENT_OPCODES = 4 \<and> alignof enum_P4_EVENT_OPCODES = 4 \<and> wf_cty enum_P4_EVENT_OPCODES"
  by (simp add: enum_P4_EVENT_OPCODES_def base_types layout_eval
      del: One_nat_def)

lemma enum_acpi_ex_debugger_commands_layout [layout_simps]:
  "sizeof enum_acpi_ex_debugger_commands = 4 \<and> alignof enum_acpi_ex_debugger_commands = 4 \<and> wf_cty enum_acpi_ex_debugger_commands"
  by (simp add: enum_acpi_ex_debugger_commands_def base_types layout_eval
      del: One_nat_def)

lemma enum_acpi_madt_type_layout [layout_simps]:
  "sizeof enum_acpi_madt_type = 4 \<and> alignof enum_acpi_madt_type = 4 \<and> wf_cty enum_acpi_madt_type"
  by (simp add: enum_acpi_madt_type_def base_types layout_eval
      del: One_nat_def)

lemma enum_asn1_opcode_layout [layout_simps]:
  "sizeof enum_asn1_opcode = 4 \<and> alignof enum_asn1_opcode = 4 \<and> wf_cty enum_asn1_opcode"
  by (simp add: enum_asn1_opcode_def base_types layout_eval
      del: One_nat_def)

lemma enum_asn1_tag_layout [layout_simps]:
  "sizeof enum_asn1_tag = 4 \<and> alignof enum_asn1_tag = 4 \<and> wf_cty enum_asn1_tag"
  by (simp add: enum_asn1_tag_def base_types layout_eval
      del: One_nat_def)

lemma enum_ata_quirks_layout [layout_simps]:
  "sizeof enum_ata_quirks = 4 \<and> alignof enum_ata_quirks = 4 \<and> wf_cty enum_ata_quirks"
  by (simp add: enum_ata_quirks_def base_types layout_eval
      del: One_nat_def)

lemma enum_blktrace_cat_layout [layout_simps]:
  "sizeof enum_blktrace_cat = 4 \<and> alignof enum_blktrace_cat = 4 \<and> wf_cty enum_blktrace_cat"
  by (simp add: enum_blktrace_cat_def base_types layout_eval
      del: One_nat_def)

lemma enum_cpuhp_state_layout [layout_simps]:
  "sizeof enum_cpuhp_state = 4 \<and> alignof enum_cpuhp_state = 4 \<and> wf_cty enum_cpuhp_state"
  by (simp add: enum_cpuhp_state_def base_types layout_eval
      del: One_nat_def)

lemma enum_cpuid_leafs_layout [layout_simps]:
  "sizeof enum_cpuid_leafs = 4 \<and> alignof enum_cpuid_leafs = 4 \<and> wf_cty enum_cpuid_leafs"
  by (simp add: enum_cpuid_leafs_def base_types layout_eval
      del: One_nat_def)

lemma enum_crypto_attr_type_t_layout [layout_simps]:
  "sizeof enum_crypto_attr_type_t = 4 \<and> alignof enum_crypto_attr_type_t = 4 \<and> wf_cty enum_crypto_attr_type_t"
  by (simp add: enum_crypto_attr_type_t_def base_types layout_eval
      del: One_nat_def)

lemma enum_da9063_irqs_layout [layout_simps]:
  "sizeof enum_da9063_irqs = 4 \<and> alignof enum_da9063_irqs = 4 \<and> wf_cty enum_da9063_irqs"
  by (simp add: enum_da9063_irqs_def base_types layout_eval
      del: One_nat_def)

lemma enum_dcbnl_bcn_attrs_layout [layout_simps]:
  "sizeof enum_dcbnl_bcn_attrs = 4 \<and> alignof enum_dcbnl_bcn_attrs = 4 \<and> wf_cty enum_dcbnl_bcn_attrs"
  by (simp add: enum_dcbnl_bcn_attrs_def base_types layout_eval
      del: One_nat_def)

lemma enum_dcbnl_commands_layout [layout_simps]:
  "sizeof enum_dcbnl_commands = 4 \<and> alignof enum_dcbnl_commands = 4 \<and> wf_cty enum_dcbnl_commands"
  by (simp add: enum_dcbnl_commands_def base_types layout_eval
      del: One_nat_def)

lemma enum_dcbnl_pg_attrs_layout [layout_simps]:
  "sizeof enum_dcbnl_pg_attrs = 4 \<and> alignof enum_dcbnl_pg_attrs = 4 \<and> wf_cty enum_dcbnl_pg_attrs"
  by (simp add: enum_dcbnl_pg_attrs_def base_types layout_eval
      del: One_nat_def)

lemma enum_dentry_flags_layout [layout_simps]:
  "sizeof enum_dentry_flags = 4 \<and> alignof enum_dentry_flags = 4 \<and> wf_cty enum_dentry_flags"
  by (simp add: enum_dentry_flags_def base_types layout_eval
      del: One_nat_def)

lemma enum_devlink_attr_layout [layout_simps]:
  "sizeof enum_devlink_attr = 4 \<and> alignof enum_devlink_attr = 4 \<and> wf_cty enum_devlink_attr"
  by (simp add: enum_devlink_attr_def base_types layout_eval
      del: One_nat_def)

lemma enum_devlink_command_layout [layout_simps]:
  "sizeof enum_devlink_command = 4 \<and> alignof enum_devlink_command = 4 \<and> wf_cty enum_devlink_command"
  by (simp add: enum_devlink_command_def base_types layout_eval
      del: One_nat_def)

lemma enum_devlink_param_generic_id_layout [layout_simps]:
  "sizeof enum_devlink_param_generic_id = 4 \<and> alignof enum_devlink_param_generic_id = 4 \<and> wf_cty enum_devlink_param_generic_id"
  by (simp add: enum_devlink_param_generic_id_def base_types layout_eval
      del: One_nat_def)

lemma enum_devlink_trap_generic_id_layout [layout_simps]:
  "sizeof enum_devlink_trap_generic_id = 4 \<and> alignof enum_devlink_trap_generic_id = 4 \<and> wf_cty enum_devlink_trap_generic_id"
  by (simp add: enum_devlink_trap_generic_id_def base_types layout_eval
      del: One_nat_def)

lemma enum_devlink_trap_group_generic_id_layout [layout_simps]:
  "sizeof enum_devlink_trap_group_generic_id = 4 \<and> alignof enum_devlink_trap_group_generic_id = 4 \<and> wf_cty enum_devlink_trap_group_generic_id"
  by (simp add: enum_devlink_trap_group_generic_id_def base_types layout_eval
      del: One_nat_def)

lemma enum_dmi_entry_type_layout [layout_simps]:
  "sizeof enum_dmi_entry_type = 4 \<and> alignof enum_dmi_entry_type = 4 \<and> wf_cty enum_dmi_entry_type"
  by (simp add: enum_dmi_entry_type_def base_types layout_eval
      del: One_nat_def)

lemma enum_dmi_field_layout [layout_simps]:
  "sizeof enum_dmi_field = 4 \<and> alignof enum_dmi_field = 4 \<and> wf_cty enum_dmi_field"
  by (simp add: enum_dmi_field_def base_types layout_eval
      del: One_nat_def)

lemma enum_dpll_a_pin_layout [layout_simps]:
  "sizeof enum_dpll_a_pin = 4 \<and> alignof enum_dpll_a_pin = 4 \<and> wf_cty enum_dpll_a_pin"
  by (simp add: enum_dpll_a_pin_def base_types layout_eval
      del: One_nat_def)

lemma enum_ethtool_link_mode_bit_indices_layout [layout_simps]:
  "sizeof enum_ethtool_link_mode_bit_indices = 4 \<and> alignof enum_ethtool_link_mode_bit_indices = 4 \<and> wf_cty enum_ethtool_link_mode_bit_indices"
  by (simp add: enum_ethtool_link_mode_bit_indices_def base_types layout_eval
      del: One_nat_def)

lemma enum_ethtool_stringset_layout [layout_simps]:
  "sizeof enum_ethtool_stringset = 4 \<and> alignof enum_ethtool_stringset = 4 \<and> wf_cty enum_ethtool_stringset"
  by (simp add: enum_ethtool_stringset_def base_types layout_eval
      del: One_nat_def)

lemma enum_fetch_op_layout [layout_simps]:
  "sizeof enum_fetch_op = 4 \<and> alignof enum_fetch_op = 4 \<and> wf_cty enum_fetch_op"
  by (simp add: enum_fetch_op_def base_types layout_eval
      del: One_nat_def)

lemma enum_flow_action_id_layout [layout_simps]:
  "sizeof enum_flow_action_id = 4 \<and> alignof enum_flow_action_id = 4 \<and> wf_cty enum_flow_action_id"
  by (simp add: enum_flow_action_id_def base_types layout_eval
      del: One_nat_def)

lemma enum_flow_dissector_key_id_layout [layout_simps]:
  "sizeof enum_flow_dissector_key_id = 4 \<and> alignof enum_flow_dissector_key_id = 4 \<and> wf_cty enum_flow_dissector_key_id"
  by (simp add: enum_flow_dissector_key_id_def base_types layout_eval
      del: One_nat_def)

lemma enum_fuse_opcode_layout [layout_simps]:
  "sizeof enum_fuse_opcode = 4 \<and> alignof enum_fuse_opcode = 4 \<and> wf_cty enum_fuse_opcode"
  by (simp add: enum_fuse_opcode_def base_types layout_eval
      del: One_nat_def)

lemma enum_hash_algo_layout [layout_simps]:
  "sizeof enum_hash_algo = 4 \<and> alignof enum_hash_algo = 4 \<and> wf_cty enum_hash_algo"
  by (simp add: enum_hash_algo_def base_types layout_eval
      del: One_nat_def)

lemma enum_hist_field_fn_layout [layout_simps]:
  "sizeof enum_hist_field_fn = 4 \<and> alignof enum_hist_field_fn = 4 \<and> wf_cty enum_hist_field_fn"
  by (simp add: enum_hist_field_fn_def base_types layout_eval
      del: One_nat_def)

lemma enum_hwmon_power_attributes_layout [layout_simps]:
  "sizeof enum_hwmon_power_attributes = 4 \<and> alignof enum_hwmon_power_attributes = 4 \<and> wf_cty enum_hwmon_power_attributes"
  by (simp add: enum_hwmon_power_attributes_def base_types layout_eval
      del: One_nat_def)

lemma enum_hwmon_temp_attributes_layout [layout_simps]:
  "sizeof enum_hwmon_temp_attributes = 4 \<and> alignof enum_hwmon_temp_attributes = 4 \<and> wf_cty enum_hwmon_temp_attributes"
  by (simp add: enum_hwmon_temp_attributes_def base_types layout_eval
      del: One_nat_def)

lemma enum_ib_uverbs_device_cap_flags_layout [layout_simps]:
  "sizeof enum_ib_uverbs_device_cap_flags = 8 \<and> alignof enum_ib_uverbs_device_cap_flags = 8 \<and> wf_cty enum_ib_uverbs_device_cap_flags"
  by (simp add: enum_ib_uverbs_device_cap_flags_def base_types layout_eval
      del: One_nat_def)

lemma enum_ib_wr_opcode_layout [layout_simps]:
  "sizeof enum_ib_wr_opcode = 4 \<and> alignof enum_ib_wr_opcode = 4 \<and> wf_cty enum_ib_wr_opcode"
  by (simp add: enum_ib_wr_opcode_def base_types layout_eval
      del: One_nat_def)

lemma enum_io_uring_op_layout [layout_simps]:
  "sizeof enum_io_uring_op = 4 \<and> alignof enum_io_uring_op = 4 \<and> wf_cty enum_io_uring_op"
  by (simp add: enum_io_uring_op_def base_types layout_eval
      del: One_nat_def)

lemma enum_io_uring_register_op_layout [layout_simps]:
  "sizeof enum_io_uring_register_op = 4 \<and> alignof enum_io_uring_register_op = 4 \<and> wf_cty enum_io_uring_register_op"
  by (simp add: enum_io_uring_register_op_def base_types layout_eval
      del: One_nat_def)

lemma enum_ip_conntrack_status_layout [layout_simps]:
  "sizeof enum_ip_conntrack_status = 4 \<and> alignof enum_ip_conntrack_status = 4 \<and> wf_cty enum_ip_conntrack_status"
  by (simp add: enum_ip_conntrack_status_def base_types layout_eval
      del: One_nat_def)

lemma enum_kvm_reg_layout [layout_simps]:
  "sizeof enum_kvm_reg = 4 \<and> alignof enum_kvm_reg = 4 \<and> wf_cty enum_kvm_reg"
  by (simp add: enum_kvm_reg_def base_types layout_eval
      del: One_nat_def)

lemma enum_linux_mptcp_mib_field_layout [layout_simps]:
  "sizeof enum_linux_mptcp_mib_field = 4 \<and> alignof enum_linux_mptcp_mib_field = 4 \<and> wf_cty enum_linux_mptcp_mib_field"
  by (simp add: enum_linux_mptcp_mib_field_def base_types layout_eval
      del: One_nat_def)

lemma enum_lockdown_reason_layout [layout_simps]:
  "sizeof enum_lockdown_reason = 4 \<and> alignof enum_lockdown_reason = 4 \<and> wf_cty enum_lockdown_reason"
  by (simp add: enum_lockdown_reason_def base_types layout_eval
      del: One_nat_def)

lemma enum_max14577_reg_layout [layout_simps]:
  "sizeof enum_max14577_reg = 4 \<and> alignof enum_max14577_reg = 4 \<and> wf_cty enum_max14577_reg"
  by (simp add: enum_max14577_reg_def base_types layout_eval
      del: One_nat_def)

lemma enum_max77693_pmic_reg_layout [layout_simps]:
  "sizeof enum_max77693_pmic_reg = 4 \<and> alignof enum_max77693_pmic_reg = 4 \<and> wf_cty enum_max77693_pmic_reg"
  by (simp add: enum_max77693_pmic_reg_def base_types layout_eval
      del: One_nat_def)

lemma enum_max8997_irq_layout [layout_simps]:
  "sizeof enum_max8997_irq = 4 \<and> alignof enum_max8997_irq = 4 \<and> wf_cty enum_max8997_irq"
  by (simp add: enum_max8997_irq_def base_types layout_eval
      del: One_nat_def)

end
