(* ===== verification/KernelLargee.thy ===== *)
theory KernelLargee
  imports KernelHelpers1 KernelLargea
begin

text \<open>
  Types of other subsystems in \<^verbatim>\<open>bpf/vmlinux.h\<close>: those that take 25 lines and more there, with every type they
  hold by value (part 5 of 10).
\<close>

section \<open>Types\<close>

definition struct_usb_otg_caps :: cty where
  "struct_usb_otg_caps = CStruct ''usb_otg_caps'' False
     [Field ''otg_rev'' u16,
      Field ''hnp_support'' bool,
      Field ''srp_support'' bool,
      Field ''adp_support'' bool]"

definition struct_dwc2_core_params :: cty where
  "struct_dwc2_core_params = CStruct ''dwc2_core_params'' False
     [Field ''otg_caps'' struct_usb_otg_caps,
      Field ''phy_type'' u8,
      Field ''speed'' u8,
      Field ''phy_utmi_width'' u8,
      Field ''eusb2_disc'' bool,
      Field ''phy_ulpi_ddr'' bool,
      Field ''phy_ulpi_ext_vbus'' bool,
      Field ''enable_dynamic_fifo'' bool,
      Field ''en_multiple_tx_fifo'' bool,
      Field ''i2c_enable'' bool,
      Field ''acg_enable'' bool,
      Field ''ulpi_fs_ls'' bool,
      Field ''ts_dline'' bool,
      Field ''reload_ctl'' bool,
      Field ''uframe_sched'' bool,
      Field ''external_id_pin_ctl'' bool,
      Field ''power_down'' c_int,
      Field ''no_clock_gating'' bool,
      Field ''lpm'' bool,
      Field ''lpm_clock_gating'' bool,
      Field ''besl'' bool,
      Field ''hird_threshold_en'' bool,
      Field ''service_interval'' bool,
      Field ''hird_threshold'' u8,
      Field ''activate_stm_fs_transceiver'' bool,
      Field ''activate_stm_id_vb_detection'' bool,
      Field ''activate_ingenic_overcurrent_detection'' bool,
      Field ''ipg_isoc_en'' bool,
      Field ''max_packet_count'' u16,
      Field ''max_transfer_size'' u32,
      Field ''ahbcfg'' u32,
      Field ''ref_clk_per'' u32,
      Field ''sof_cnt_wkup_alert'' u16,
      Field ''host_dma'' bool,
      Field ''dma_desc_enable'' bool,
      Field ''dma_desc_fs_enable'' bool,
      Field ''host_support_fs_ls_low_power'' bool,
      Field ''host_ls_low_power_phy_clk'' bool,
      Field ''oc_disable'' bool,
      Field ''host_channels'' u8,
      Field ''host_rx_fifo_size'' u16,
      Field ''host_nperio_tx_fifo_size'' u16,
      Field ''host_perio_tx_fifo_size'' u16,
      Field ''g_dma'' bool,
      Field ''g_dma_desc'' bool,
      Field ''g_rx_fifo_size'' u32,
      Field ''g_np_tx_fifo_size'' u32,
      Field ''g_tx_fifo_size'' (CArr 16 u32),
      Field ''change_speed_quirk'' bool]"

definition enum_dwc2_halt_status :: cty where
  "enum_dwc2_halt_status = CEnum 4
     [(''DWC2_HC_XFER_NO_HALT_STATUS'', 0), (''DWC2_HC_XFER_COMPLETE'', 1),
      (''DWC2_HC_XFER_URB_COMPLETE'', 2), (''DWC2_HC_XFER_ACK'', 3), (''DWC2_HC_XFER_NAK'', 4),
      (''DWC2_HC_XFER_NYET'', 5), (''DWC2_HC_XFER_STALL'', 6), (''DWC2_HC_XFER_XACT_ERR'', 7),
      (''DWC2_HC_XFER_FRAME_OVERRUN'', 8), (''DWC2_HC_XFER_BABBLE_ERR'', 9),
      (''DWC2_HC_XFER_DATA_TOGGLE_ERR'', 10), (''DWC2_HC_XFER_AHB_ERR'', 11),
      (''DWC2_HC_XFER_PERIODIC_INCOMPLETE'', 12), (''DWC2_HC_XFER_URB_DEQUEUE'', 13)]"

definition struct_dwc2_host_chan :: cty where
  "struct_dwc2_host_chan = CStruct ''dwc2_host_chan'' False
     [Field ''hc_num'' u8,
      BitField ''dev_addr'' unsigned_int 7,
      BitField ''ep_num'' unsigned_int 4,
      BitField ''ep_is_in'' unsigned_int 1,
      BitField ''speed'' unsigned_int 4,
      BitField ''ep_type'' unsigned_int 2,
      BitField [] c_int 6,
      BitField ''max_packet'' unsigned_int 11,
      BitField ''data_pid_start'' unsigned_int 2,
      BitField ''multi_count'' unsigned_int 2,
      Field ''xfer_buf'' (CPtr ''u8''),
      Field ''xfer_dma'' dma_addr_t,
      Field ''align_buf'' dma_addr_t,
      Field ''xfer_len'' u32,
      Field ''xfer_count'' u32,
      Field ''start_pkt_count'' u16,
      Field ''xfer_started'' u8,
      Field ''do_ping'' u8,
      Field ''error_state'' u8,
      Field ''halt_on_queue'' u8,
      Field ''halt_pending'' u8,
      Field ''do_split'' u8,
      Field ''complete_split'' u8,
      Field ''hub_addr'' u8,
      Field ''hub_port'' u8,
      Field ''xact_pos'' u8,
      Field ''requests'' u8,
      Field ''schinfo'' u8,
      Field ''ntd'' u16,
      Field ''halt_status'' enum_dwc2_halt_status,
      Field ''hcint'' u32,
      Field ''qh'' (CPtr ''struct dwc2_qh''),
      Field ''hc_list_entry'' struct_list_head,
      Field ''desc_list_addr'' dma_addr_t,
      Field ''desc_list_sz'' u32,
      Field ''split_order_list_entry'' struct_list_head]"

definition struct_dwc2_hw_params :: cty where
  "struct_dwc2_hw_params = CStruct ''dwc2_hw_params'' False
     [BitField ''op_mode'' unsigned_int 3,
      BitField ''arch'' unsigned_int 2,
      BitField ''dma_desc_enable'' unsigned_int 1,
      BitField ''enable_dynamic_fifo'' unsigned_int 1,
      BitField ''en_multiple_tx_fifo'' unsigned_int 1,
      BitField ''rx_fifo_size'' unsigned_int 16,
      BitField [] c_int 8,
      BitField ''host_nperio_tx_fifo_size'' unsigned_int 16,
      BitField ''dev_nperio_tx_fifo_size'' unsigned_int 16,
      BitField ''host_perio_tx_fifo_size'' unsigned_int 16,
      BitField ''nperio_tx_q_depth'' unsigned_int 3,
      BitField ''host_perio_tx_q_depth'' unsigned_int 3,
      BitField ''dev_token_q_depth'' unsigned_int 5,
      BitField [] c_int 5,
      BitField ''max_transfer_size'' unsigned_int 26,
      BitField [] c_long 6,
      BitField ''max_packet_count'' unsigned_int 11,
      BitField ''host_channels'' unsigned_int 5,
      BitField ''hs_phy_type'' unsigned_int 2,
      BitField ''fs_phy_type'' unsigned_int 2,
      BitField ''i2c_enable'' unsigned_int 1,
      BitField ''acg_enable'' unsigned_int 1,
      BitField ''num_dev_ep'' unsigned_int 4,
      BitField ''num_dev_in_eps'' unsigned_int 4,
      BitField [] c_int 2,
      BitField ''num_dev_perio_in_ep'' unsigned_int 4,
      BitField ''total_fifo_size'' unsigned_int 16,
      BitField ''power_optimized'' unsigned_int 1,
      BitField ''hibernation'' unsigned_int 1,
      BitField ''utmi_phy_data_width'' unsigned_int 2,
      BitField ''lpm_mode'' unsigned_int 1,
      BitField ''ipg_isoc_en'' unsigned_int 1,
      BitField ''service_interval_mode'' unsigned_int 1,
      Field ''snpsid'' u32,
      Field ''dev_ep_dirs'' u32,
      Field ''g_tx_fifo_size'' (CArr 16 u32)]"

definition enum_usb_otg_state :: cty where
  "enum_usb_otg_state = CEnum 4
     [(''OTG_STATE_UNDEFINED'', 0), (''OTG_STATE_B_IDLE'', 1), (''OTG_STATE_B_SRP_INIT'', 2),
      (''OTG_STATE_B_PERIPHERAL'', 3), (''OTG_STATE_B_WAIT_ACON'', 4),
      (''OTG_STATE_B_HOST'', 5), (''OTG_STATE_A_IDLE'', 6), (''OTG_STATE_A_WAIT_VRISE'', 7),
      (''OTG_STATE_A_WAIT_BCON'', 8), (''OTG_STATE_A_HOST'', 9), (''OTG_STATE_A_SUSPEND'', 10),
      (''OTG_STATE_A_PERIPHERAL'', 11), (''OTG_STATE_A_WAIT_VFALL'', 12),
      (''OTG_STATE_A_VBUS_ERR'', 13)]"

definition enum_usb_dr_mode :: cty where
  "enum_usb_dr_mode = CEnum 4
     [(''USB_DR_MODE_UNKNOWN'', 0), (''USB_DR_MODE_HOST'', 1), (''USB_DR_MODE_PERIPHERAL'', 2),
      (''USB_DR_MODE_OTG'', 3)]"

definition struct_regulator_bulk_data :: cty where
  "struct_regulator_bulk_data = CStruct ''regulator_bulk_data'' False
     [Field ''supply'' (CPtr ''const char''),
      Field ''consumer'' (CPtr ''struct regulator''),
      Field ''init_load_uA'' c_int,
      Field ''ret'' c_int]"

definition enum_dwc2_lx_state :: cty where
  "enum_dwc2_lx_state = CEnum 4
     [(''DWC2_L0'', 0), (''DWC2_L1'', 1), (''DWC2_L2'', 2), (''DWC2_L3'', 3)]"

definition struct_dwc2_gregs_backup :: cty where
  "struct_dwc2_gregs_backup = CStruct ''dwc2_gregs_backup'' False
     [Field ''gintsts'' u32,
      Field ''gotgctl'' u32,
      Field ''gintmsk'' u32,
      Field ''gahbcfg'' u32,
      Field ''gusbcfg'' u32,
      Field ''grxfsiz'' u32,
      Field ''gnptxfsiz'' u32,
      Field ''gi2cctl'' u32,
      Field ''glpmcfg'' u32,
      Field ''pcgcctl'' u32,
      Field ''pcgcctl1'' u32,
      Field ''gdfifocfg'' u32,
      Field ''gpwrdn'' u32,
      Field ''valid'' bool]"

definition struct_dwc2_dregs_backup :: cty where
  "struct_dwc2_dregs_backup = CStruct ''dwc2_dregs_backup'' False
     [Field ''dcfg'' u32,
      Field ''dctl'' u32,
      Field ''daintmsk'' u32,
      Field ''diepmsk'' u32,
      Field ''doepmsk'' u32,
      Field ''diepctl'' (CArr 16 u32),
      Field ''dieptsiz'' (CArr 16 u32),
      Field ''diepdma'' (CArr 16 u32),
      Field ''doepctl'' (CArr 16 u32),
      Field ''doeptsiz'' (CArr 16 u32),
      Field ''doepdma'' (CArr 16 u32),
      Field ''dtxfsiz'' (CArr 16 u32),
      Field ''valid'' bool]"

definition struct_dwc2_hregs_backup :: cty where
  "struct_dwc2_hregs_backup = CStruct ''dwc2_hregs_backup'' False
     [Field ''hcfg'' u32,
      Field ''hflbaddr'' u32,
      Field ''haintmsk'' u32,
      Field ''hcchar'' (CArr 16 u32),
      Field ''hcsplt'' (CArr 16 u32),
      Field ''hcintmsk'' (CArr 16 u32),
      Field ''hctsiz'' (CArr 16 u32),
      Field ''hcidma'' (CArr 16 u32),
      Field ''hcidmab'' (CArr 16 u32),
      Field ''hprt0'' u32,
      Field ''hfir'' u32,
      Field ''hptxfsiz'' u32,
      Field ''valid'' bool]"

definition union_dwc2_hcd_internal_flags :: cty where
  "union_dwc2_hcd_internal_flags = CUnion ''dwc2_hcd_internal_flags'' False
     [Field ''d32'' u32,
      Field ''b'' (CStruct [] False
        [BitField ''port_connect_status_change'' unsigned_int 1,
         BitField ''port_connect_status'' unsigned_int 1,
         BitField ''port_reset_change'' unsigned_int 1,
         BitField ''port_enable_change'' unsigned_int 1,
         BitField ''port_suspend_change'' unsigned_int 1,
         BitField ''port_over_current_change'' unsigned_int 1,
         BitField ''port_l1_change'' unsigned_int 1,
         BitField ''reserved'' unsigned_int 25])]"

definition struct_dwc2_hsotg :: cty where
  "struct_dwc2_hsotg = CStruct ''dwc2_hsotg'' False
     [Field ''dev'' (CPtr ''struct device''),
      Field ''regs'' (CPtr ''void''),
      Field ''hw_params'' struct_dwc2_hw_params,
      Field ''params'' struct_dwc2_core_params,
      Field ''op_state'' enum_usb_otg_state,
      Field ''dr_mode'' enum_usb_dr_mode,
      Field ''role_sw'' (CPtr ''struct usb_role_switch''),
      Field ''role_sw_default_mode'' enum_usb_dr_mode,
      BitField ''hcd_enabled'' unsigned_int 1,
      BitField ''gadget_enabled'' unsigned_int 1,
      BitField ''ll_hw_enabled'' unsigned_int 1,
      BitField ''hibernated'' unsigned_int 1,
      BitField ''in_ppd'' unsigned_int 1,
      Field ''bus_suspended'' bool,
      BitField ''reset_phy_on_wake'' unsigned_int 1,
      BitField ''need_phy_for_wake'' unsigned_int 1,
      BitField ''phy_off_for_suspend'' unsigned_int 1,
      Field ''frame_number'' u16,
      Field ''phy'' (CPtr ''struct phy''),
      Field ''uphy'' (CPtr ''struct usb_phy''),
      Field ''plat'' (CPtr ''struct dwc2_hsotg_plat''),
      Field ''supplies'' (CArr 2 struct_regulator_bulk_data),
      Field ''vbus_supply'' (CPtr ''struct regulator''),
      Field ''usb33d'' (CPtr ''struct regulator''),
      Field ''lock'' spinlock_t,
      Field ''priv'' (CPtr ''void''),
      Field ''irq'' c_int,
      Field ''clk'' (CPtr ''struct clk''),
      Field ''utmi_clk'' (CPtr ''struct clk''),
      Field ''reset'' (CPtr ''struct reset_control''),
      Field ''reset_ecc'' (CPtr ''struct reset_control''),
      BitField ''queuing_high_bandwidth'' unsigned_int 1,
      BitField ''srp_success'' unsigned_int 1,
      Field ''wq_otg'' (CPtr ''struct workqueue_struct''),
      Field ''wf_otg'' struct_work_struct,
      Field ''wkp_timer'' struct_timer_list,
      Field ''lx_state'' enum_dwc2_lx_state,
      Field ''gr_backup'' struct_dwc2_gregs_backup,
      Field ''dr_backup'' struct_dwc2_dregs_backup,
      Field ''hr_backup'' struct_dwc2_hregs_backup,
      Field ''debug_root'' (CPtr ''struct dentry''),
      Field ''regset'' (CPtr ''struct debugfs_regset32''),
      Field ''needs_byte_swap'' bool,
      Field ''flags'' union_dwc2_hcd_internal_flags,
      Field ''non_periodic_sched_inactive'' struct_list_head,
      Field ''non_periodic_sched_waiting'' struct_list_head,
      Field ''non_periodic_sched_active'' struct_list_head,
      Field ''non_periodic_qh_ptr'' (CPtr ''struct list_head''),
      Field ''periodic_sched_inactive'' struct_list_head,
      Field ''periodic_sched_ready'' struct_list_head,
      Field ''periodic_sched_assigned'' struct_list_head,
      Field ''periodic_sched_queued'' struct_list_head,
      Field ''split_order'' struct_list_head,
      Field ''periodic_usecs'' u16,
      Field ''hs_periodic_bitmap'' (CArr 13 long_unsigned_int),
      Field ''periodic_qh_count'' u16,
      Field ''new_connection'' bool,
      Field ''last_frame_num'' u16,
      Field ''free_hc_list'' struct_list_head,
      Field ''periodic_channels'' c_int,
      Field ''non_periodic_channels'' c_int,
      Field ''available_host_channels'' c_int,
      Field ''hc_ptr_array'' (CArr 16 (CPtr ''struct dwc2_host_chan'')),
      Field ''status_buf'' (CPtr ''u8''),
      Field ''status_buf_dma'' dma_addr_t,
      Field ''start_work'' struct_delayed_work,
      Field ''reset_work'' struct_delayed_work,
      Field ''phy_reset_work'' struct_work_struct,
      Field ''otg_port'' u8,
      Field ''frame_list'' (CPtr ''u32''),
      Field ''frame_list_dma'' dma_addr_t,
      Field ''frame_list_sz'' u32,
      Field ''desc_gen_cache'' (CPtr ''struct kmem_cache''),
      Field ''desc_hsisoc_cache'' (CPtr ''struct kmem_cache''),
      Field ''unaligned_cache'' (CPtr ''struct kmem_cache'')]"

definition struct_dwc2_hs_transfer_time :: cty where
  "struct_dwc2_hs_transfer_time = CStruct ''dwc2_hs_transfer_time'' False
     [Field ''start_schedule_us'' u32,
      Field ''duration_us'' u16]"

definition struct_dwc2_qh :: cty where
  "struct_dwc2_qh = CStruct ''dwc2_qh'' False
     [Field ''hsotg'' (CPtr ''struct dwc2_hsotg''),
      Field ''ep_type'' u8,
      Field ''ep_is_in'' u8,
      Field ''maxp'' u16,
      Field ''maxp_mult'' u16,
      Field ''dev_speed'' u8,
      Field ''data_toggle'' u8,
      Field ''ping_state'' u8,
      Field ''do_split'' u8,
      Field ''td_first'' u8,
      Field ''td_last'' u8,
      Field ''host_us'' u16,
      Field ''device_us'' u16,
      Field ''host_interval'' u16,
      Field ''device_interval'' u16,
      Field ''next_active_frame'' u16,
      Field ''start_active_frame'' u16,
      Field ''num_hs_transfers'' s16,
      Field ''hs_transfers'' (CArr 8 struct_dwc2_hs_transfer_time),
      Field ''ls_start_schedule_slice'' u32,
      Field ''ntd'' u16,
      Field ''dw_align_buf'' (CPtr ''u8''),
      Field ''dw_align_buf_dma'' dma_addr_t,
      Field ''qtd_list'' struct_list_head,
      Field ''channel'' (CPtr ''struct dwc2_host_chan''),
      Field ''qh_list_entry'' struct_list_head,
      Field ''desc_list'' (CPtr ''struct dwc2_dma_desc''),
      Field ''desc_list_dma'' dma_addr_t,
      Field ''desc_list_sz'' u32,
      Field ''n_bytes'' (CPtr ''u32''),
      Field ''unreserve_timer'' struct_timer_list,
      Field ''wait_timer'' struct_hrtimer,
      Field ''dwc_tt'' (CPtr ''struct dwc2_tt''),
      Field ''ttport'' c_int,
      BitField ''tt_buffer_dirty'' unsigned_int 1,
      BitField ''unreserve_pending'' unsigned_int 1,
      BitField ''schedule_low_speed'' unsigned_int 1,
      BitField ''want_wait'' unsigned_int 1,
      BitField ''wait_timer_cancel'' unsigned_int 1]"

definition enum_uart_iotype :: cty where
  "enum_uart_iotype = CEnum 4
     [(''UPIO_UNKNOWN'', (- 1)), (''UPIO_PORT'', 0), (''UPIO_HUB6'', 1), (''UPIO_MEM'', 2),
      (''UPIO_MEM32'', 3), (''UPIO_AU'', 4), (''UPIO_TSI'', 5), (''UPIO_MEM32BE'', 6),
      (''UPIO_MEM16'', 7)]"

definition struct_uart_icount :: cty where
  "struct_uart_icount = CStruct ''uart_icount'' False
     [Field ''cts'' c__u32,
      Field ''dsr'' c__u32,
      Field ''rng'' c__u32,
      Field ''dcd'' c__u32,
      Field ''rx'' c__u32,
      Field ''tx'' c__u32,
      Field ''frame'' c__u32,
      Field ''overrun'' c__u32,
      Field ''parity'' c__u32,
      Field ''brk'' c__u32,
      Field ''buf_overrun'' c__u32]"

definition upf_t :: cty where [layout_simps]:
  "upf_t = u64"

definition upstat_t :: cty where [layout_simps]:
  "upstat_t = unsigned_int"

definition struct_serial_rs485 :: cty where
  "struct_serial_rs485 = CStruct ''serial_rs485'' False
     [Field ''flags'' c__u32,
      Field ''delay_rts_before_send'' c__u32,
      Field ''delay_rts_after_send'' c__u32,
      Field [] (CUnion [] False
        [Field ''padding'' (CArr 5 c__u32),
         Field [] (CStruct [] False
           [Field ''addr_recv'' c__u8,
            Field ''addr_dest'' c__u8,
            Field ''padding0'' (CArr 2 c__u8),
            Field ''padding1'' (CArr 4 c__u32)])])]"

definition struct_serial_iso7816 :: cty where
  "struct_serial_iso7816 = CStruct ''serial_iso7816'' False
     [Field ''flags'' c__u32,
      Field ''tg'' c__u32,
      Field ''sc_fi'' c__u32,
      Field ''sc_di'' c__u32,
      Field ''clk'' c__u32,
      Field ''reserved'' (CArr 5 c__u32)]"

definition struct_uart_port :: cty where
  "struct_uart_port = CStruct ''uart_port'' False
     [Field ''lock'' spinlock_t,
      Field ''iobase'' long_unsigned_int,
      Field ''membase'' (CPtr ''unsigned char''),
      Field ''serial_in'' (CPtr ''u32 (struct uart_port *, unsigned int)''),
      Field ''serial_out'' (CPtr ''void (struct uart_port *, unsigned int, u32)''),
      Field ''set_termios'' (CPtr ''void (struct uart_port *, struct ktermios *, const struct ktermios *)''),
      Field ''set_ldisc'' (CPtr ''void (struct uart_port *, struct ktermios *)''),
      Field ''get_mctrl'' (CPtr ''unsigned int (struct uart_port *)''),
      Field ''set_mctrl'' (CPtr ''void (struct uart_port *, unsigned int)''),
      Field ''get_divisor'' (CPtr ''unsigned int (struct uart_port *, unsigned int, unsigned int *)''),
      Field ''set_divisor'' (CPtr ''void (struct uart_port *, unsigned int, unsigned int, unsigned int)''),
      Field ''startup'' (CPtr ''int (struct uart_port *)''),
      Field ''shutdown'' (CPtr ''void (struct uart_port *)''),
      Field ''throttle'' (CPtr ''void (struct uart_port *)''),
      Field ''unthrottle'' (CPtr ''void (struct uart_port *)''),
      Field ''handle_irq'' (CPtr ''int (struct uart_port *)''),
      Field ''pm'' (CPtr ''void (struct uart_port *, unsigned int, unsigned int)''),
      Field ''handle_break'' (CPtr ''void (struct uart_port *)''),
      Field ''rs485_config'' (CPtr ''int (struct uart_port *, struct ktermios *, struct serial_rs485 *)''),
      Field ''iso7816_config'' (CPtr ''int (struct uart_port *, struct serial_iso7816 *)''),
      Field ''ctrl_id'' unsigned_int,
      Field ''port_id'' unsigned_int,
      Field ''irq'' unsigned_int,
      Field ''irqflags'' long_unsigned_int,
      Field ''uartclk'' unsigned_int,
      Field ''fifosize'' unsigned_int,
      Field ''x_char'' unsigned_char,
      Field ''regshift'' unsigned_char,
      Field ''quirks'' unsigned_char,
      Field ''iotype'' enum_uart_iotype,
      Field ''read_status_mask'' unsigned_int,
      Field ''ignore_status_mask'' unsigned_int,
      Field ''state'' (CPtr ''struct uart_state''),
      Field ''icount'' struct_uart_icount,
      Field ''cons'' (CPtr ''struct console''),
      Field ''flags'' upf_t,
      Field ''status'' upstat_t,
      Field ''hw_stopped'' bool,
      Field ''mctrl'' unsigned_int,
      Field ''frame_time'' unsigned_int,
      Field ''type'' unsigned_int,
      Field ''ops'' (CPtr ''const struct uart_ops''),
      Field ''custom_divisor'' unsigned_int,
      Field ''line'' unsigned_int,
      Field ''minor'' unsigned_int,
      Field ''mapbase'' resource_size_t,
      Field ''mapsize'' resource_size_t,
      Field ''dev'' (CPtr ''struct device''),
      Field ''port_dev'' (CPtr ''struct serial_port_device''),
      Field ''sysrq'' long_unsigned_int,
      Field ''sysrq_ch'' u8,
      Field ''has_sysrq'' unsigned_char,
      Field ''sysrq_seq'' unsigned_char,
      Field ''hub6'' unsigned_char,
      Field ''suspended'' unsigned_char,
      Field ''console_reinit'' unsigned_char,
      Field ''name'' (CPtr ''const char''),
      Field ''attr_group'' (CPtr ''struct attribute_group''),
      Field ''tty_groups'' (CPtr ''const struct attribute_group *''),
      Field ''rs485'' struct_serial_rs485,
      Field ''rs485_supported'' struct_serial_rs485,
      Field ''rs485_term_gpio'' (CPtr ''struct gpio_desc''),
      Field ''rs485_rx_during_tx_gpio'' (CPtr ''struct gpio_desc''),
      Field ''iso7816'' struct_serial_iso7816,
      Field ''private_data'' (CPtr ''void'')]"

definition struct_edac_device_counter :: cty where
  "struct_edac_device_counter = CStruct ''edac_device_counter'' False
     [Field ''ue_count'' u32,
      Field ''ce_count'' u32]"

definition struct_edac_device_ctl_info :: cty where
  "struct_edac_device_ctl_info = CStruct ''edac_device_ctl_info'' False
     [Field ''link'' struct_list_head,
      Field ''owner'' (CPtr ''struct module''),
      Field ''dev_idx'' c_int,
      Field ''log_ue'' c_int,
      Field ''log_ce'' c_int,
      Field ''panic_on_ue'' c_int,
      Field ''poll_msec'' unsigned_int,
      Field ''delay'' long_unsigned_int,
      Field ''sysfs_attributes'' (CPtr ''struct edac_dev_sysfs_attribute''),
      Field ''edac_subsys'' (CPtr ''const struct bus_type''),
      Field ''op_state'' c_int,
      Field ''work'' struct_delayed_work,
      Field ''edac_check'' (CPtr ''void (struct edac_device_ctl_info *)''),
      Field ''dev'' (CPtr ''struct device''),
      Field ''mod_name'' (CPtr ''const char''),
      Field ''ctl_name'' (CPtr ''const char''),
      Field ''dev_name'' (CPtr ''const char''),
      Field ''pvt_info'' (CPtr ''void''),
      Field ''start_time'' long_unsigned_int,
      Field ''name'' (CArr 32 c_char),
      Field ''nr_instances'' u32,
      Field ''instances'' (CPtr ''struct edac_device_instance''),
      Field ''blocks'' (CPtr ''struct edac_device_block''),
      Field ''counters'' struct_edac_device_counter,
      Field ''kobj'' struct_kobject]"

definition struct_edac_mem_repair_ops :: cty where
  "struct_edac_mem_repair_ops = CStruct ''edac_mem_repair_ops'' False
     [Field ''get_repair_type'' (CPtr ''int (struct device *, void *, const char **)''),
      Field ''get_persist_mode'' (CPtr ''int (struct device *, void *, bool *)''),
      Field ''set_persist_mode'' (CPtr ''int (struct device *, void *, bool)''),
      Field ''get_repair_safe_when_in_use'' (CPtr ''int (struct device *, void *, bool *)''),
      Field ''get_hpa'' (CPtr ''int (struct device *, void *, u64 *)''),
      Field ''set_hpa'' (CPtr ''int (struct device *, void *, u64)''),
      Field ''get_min_hpa'' (CPtr ''int (struct device *, void *, u64 *)''),
      Field ''get_max_hpa'' (CPtr ''int (struct device *, void *, u64 *)''),
      Field ''get_dpa'' (CPtr ''int (struct device *, void *, u64 *)''),
      Field ''set_dpa'' (CPtr ''int (struct device *, void *, u64)''),
      Field ''get_min_dpa'' (CPtr ''int (struct device *, void *, u64 *)''),
      Field ''get_max_dpa'' (CPtr ''int (struct device *, void *, u64 *)''),
      Field ''get_nibble_mask'' (CPtr ''int (struct device *, void *, u32 *)''),
      Field ''set_nibble_mask'' (CPtr ''int (struct device *, void *, u32)''),
      Field ''get_bank_group'' (CPtr ''int (struct device *, void *, u32 *)''),
      Field ''set_bank_group'' (CPtr ''int (struct device *, void *, u32)''),
      Field ''get_bank'' (CPtr ''int (struct device *, void *, u32 *)''),
      Field ''set_bank'' (CPtr ''int (struct device *, void *, u32)''),
      Field ''get_rank'' (CPtr ''int (struct device *, void *, u32 *)''),
      Field ''set_rank'' (CPtr ''int (struct device *, void *, u32)''),
      Field ''get_row'' (CPtr ''int (struct device *, void *, u32 *)''),
      Field ''set_row'' (CPtr ''int (struct device *, void *, u32)''),
      Field ''get_column'' (CPtr ''int (struct device *, void *, u32 *)''),
      Field ''set_column'' (CPtr ''int (struct device *, void *, u32)''),
      Field ''get_channel'' (CPtr ''int (struct device *, void *, u32 *)''),
      Field ''set_channel'' (CPtr ''int (struct device *, void *, u32)''),
      Field ''get_sub_channel'' (CPtr ''int (struct device *, void *, u32 *)''),
      Field ''set_sub_channel'' (CPtr ''int (struct device *, void *, u32)''),
      Field ''do_repair'' (CPtr ''int (struct device *, void *, u32)'')]"

definition struct_efi_memory_map :: cty where
  "struct_efi_memory_map = CStruct ''efi_memory_map'' False
     [Field ''phys_map'' phys_addr_t,
      Field ''map'' (CPtr ''void''),
      Field ''map_end'' (CPtr ''void''),
      Field ''nr_map'' c_int,
      Field ''desc_version'' long_unsigned_int,
      Field ''desc_size'' long_unsigned_int,
      Field ''flags'' long_unsigned_int]"

definition struct_efi :: cty where
  "struct_efi = CStruct ''efi'' False
     [Field ''runtime'' (CPtr ''const efi_runtime_services_t''),
      Field ''runtime_version'' unsigned_int,
      Field ''runtime_supported_mask'' unsigned_int,
      Field ''acpi'' long_unsigned_int,
      Field ''acpi20'' long_unsigned_int,
      Field ''smbios'' long_unsigned_int,
      Field ''smbios3'' long_unsigned_int,
      Field ''esrt'' long_unsigned_int,
      Field ''tpm_log'' long_unsigned_int,
      Field ''tpm_final_log'' long_unsigned_int,
      Field ''ovmf_debug_log'' long_unsigned_int,
      Field ''mokvar_table'' long_unsigned_int,
      Field ''coco_secret'' long_unsigned_int,
      Field ''unaccepted'' long_unsigned_int,
      Field ''get_time'' (CPtr ''efi_get_time_t''),
      Field ''set_time'' (CPtr ''efi_set_time_t''),
      Field ''get_wakeup_time'' (CPtr ''efi_get_wakeup_time_t''),
      Field ''set_wakeup_time'' (CPtr ''efi_set_wakeup_time_t''),
      Field ''get_variable'' (CPtr ''efi_get_variable_t''),
      Field ''get_next_variable'' (CPtr ''efi_get_next_variable_t''),
      Field ''set_variable'' (CPtr ''efi_set_variable_t''),
      Field ''set_variable_nonblocking'' (CPtr ''efi_set_variable_t''),
      Field ''query_variable_info'' (CPtr ''efi_query_variable_info_t''),
      Field ''query_variable_info_nonblocking'' (CPtr ''efi_query_variable_info_t''),
      Field ''update_capsule'' (CPtr ''efi_update_capsule_t''),
      Field ''query_capsule_caps'' (CPtr ''efi_query_capsule_caps_t''),
      Field ''get_next_high_mono_count'' (CPtr ''efi_get_next_high_mono_count_t''),
      Field ''reset_system'' (CPtr ''efi_reset_system_t''),
      Field ''memmap'' struct_efi_memory_map,
      Field ''flags'' long_unsigned_int]"

definition efi_bool_t :: cty where [layout_simps]:
  "efi_bool_t = u8"

definition union_efi_rts_args :: cty where
  "union_efi_rts_args = CUnion ''efi_rts_args'' False
     [Field ''GET_TIME'' (CStruct [] False
        [Field ''time'' (CPtr ''efi_time_t''),
         Field ''capabilities'' (CPtr ''efi_time_cap_t'')]),
      Field ''SET_TIME'' (CStruct [] False
        [Field ''time'' (CPtr ''efi_time_t'')]),
      Field ''GET_WAKEUP_TIME'' (CStruct [] False
        [Field ''enabled'' (CPtr ''efi_bool_t''),
         Field ''pending'' (CPtr ''efi_bool_t''),
         Field ''time'' (CPtr ''efi_time_t'')]),
      Field ''SET_WAKEUP_TIME'' (CStruct [] False
        [Field ''enable'' efi_bool_t,
         Field ''time'' (CPtr ''efi_time_t'')]),
      Field ''GET_VARIABLE'' (CStruct [] False
        [Field ''name'' (CPtr ''efi_char16_t''),
         Field ''vendor'' (CPtr ''efi_guid_t''),
         Field ''attr'' (CPtr ''u32''),
         Field ''data_size'' (CPtr ''long unsigned int''),
         Field ''data'' (CPtr ''void'')]),
      Field ''GET_NEXT_VARIABLE'' (CStruct [] False
        [Field ''name_size'' (CPtr ''long unsigned int''),
         Field ''name'' (CPtr ''efi_char16_t''),
         Field ''vendor'' (CPtr ''efi_guid_t'')]),
      Field ''SET_VARIABLE'' (CStruct [] False
        [Field ''name'' (CPtr ''efi_char16_t''),
         Field ''vendor'' (CPtr ''efi_guid_t''),
         Field ''attr'' u32,
         Field ''data_size'' long_unsigned_int,
         Field ''data'' (CPtr ''void'')]),
      Field ''QUERY_VARIABLE_INFO'' (CStruct [] False
        [Field ''attr'' u32,
         Field ''storage_space'' (CPtr ''u64''),
         Field ''remaining_space'' (CPtr ''u64''),
         Field ''max_variable_size'' (CPtr ''u64'')]),
      Field ''GET_NEXT_HIGH_MONO_COUNT'' (CStruct [] False
        [Field ''high_count'' (CPtr ''u32'')]),
      Field ''UPDATE_CAPSULE'' (CStruct [] False
        [Field ''capsules'' (CPtr ''efi_capsule_header_t *''),
         Field ''count'' long_unsigned_int,
         Field ''sg_list'' long_unsigned_int]),
      Field ''QUERY_CAPSULE_CAPS'' (CStruct [] False
        [Field ''capsules'' (CPtr ''efi_capsule_header_t *''),
         Field ''count'' long_unsigned_int,
         Field ''max_size'' (CPtr ''u64''),
         Field ''reset_type'' (CPtr ''int'')]),
      Field ''ACPI_PRM_HANDLER'' (CStruct [] False
        [Field ''acpi_prm_handler'' (CPtr ''efi_status_t (u64, void *)''),
         Field ''param_buffer_addr'' u64,
         Field ''context'' (CPtr ''void'')])]"

definition enum_ehci_hrtimer_event :: cty where
  "enum_ehci_hrtimer_event = CEnum 4
     [(''EHCI_HRTIMER_POLL_ASS'', 0), (''EHCI_HRTIMER_POLL_PSS'', 1),
      (''EHCI_HRTIMER_POLL_DEAD'', 2), (''EHCI_HRTIMER_UNLINK_INTR'', 3),
      (''EHCI_HRTIMER_FREE_ITDS'', 4), (''EHCI_HRTIMER_ACTIVE_UNLINK'', 5),
      (''EHCI_HRTIMER_START_UNLINK_INTR'', 6), (''EHCI_HRTIMER_ASYNC_UNLINKS'', 7),
      (''EHCI_HRTIMER_IAA_WATCHDOG'', 8), (''EHCI_HRTIMER_DISABLE_PERIODIC'', 9),
      (''EHCI_HRTIMER_DISABLE_ASYNC'', 10), (''EHCI_HRTIMER_IO_WATCHDOG'', 11),
      (''EHCI_HRTIMER_NUM_EVENTS'', 12)]"

definition enum_ehci_rh_state :: cty where
  "enum_ehci_rh_state = CEnum 4
     [(''EHCI_RH_HALTED'', 0), (''EHCI_RH_SUSPENDED'', 1), (''EHCI_RH_RUNNING'', 2),
      (''EHCI_RH_STOPPING'', 3)]"

definition struct_ehci_stats :: cty where
  "struct_ehci_stats = CStruct ''ehci_stats'' False
     [Field ''normal'' long_unsigned_int,
      Field ''error'' long_unsigned_int,
      Field ''iaa'' long_unsigned_int,
      Field ''lost_iaa'' long_unsigned_int,
      Field ''complete'' long_unsigned_int,
      Field ''unlink'' long_unsigned_int]"

definition struct_ehci_hcd :: cty where
  "struct_ehci_hcd = CStruct ''ehci_hcd'' False
     [Field ''next_hrtimer_event'' enum_ehci_hrtimer_event,
      Field ''enabled_hrtimer_events'' unsigned_int,
      Field ''hr_timeouts'' (CArr 12 ktime_t),
      Field ''hrtimer'' struct_hrtimer,
      Field ''PSS_poll_count'' c_int,
      Field ''ASS_poll_count'' c_int,
      Field ''died_poll_count'' c_int,
      Field ''caps'' (CPtr ''struct ehci_caps''),
      Field ''regs'' (CPtr ''struct ehci_regs''),
      Field ''debug'' (CPtr ''struct ehci_dbg_port''),
      Field ''hcs_params'' c__u32,
      Field ''lock'' spinlock_t,
      Field ''rh_state'' enum_ehci_rh_state,
      BitField ''scanning'' bool 1,
      BitField ''need_rescan'' bool 1,
      BitField ''intr_unlinking'' bool 1,
      BitField ''iaa_in_progress'' bool 1,
      BitField ''async_unlinking'' bool 1,
      BitField ''shutdown'' bool 1,
      Field ''qh_scan_next'' (CPtr ''struct ehci_qh''),
      Field ''async'' (CPtr ''struct ehci_qh''),
      Field ''dummy'' (CPtr ''struct ehci_qh''),
      Field ''async_unlink'' struct_list_head,
      Field ''async_idle'' struct_list_head,
      Field ''async_unlink_cycle'' unsigned_int,
      Field ''async_count'' unsigned_int,
      Field ''old_current'' c__le32,
      Field ''old_token'' c__le32,
      Field ''periodic_size'' unsigned_int,
      Field ''periodic'' (CPtr ''__le32''),
      Field ''periodic_dma'' dma_addr_t,
      Field ''intr_qh_list'' struct_list_head,
      Field ''i_thresh'' unsigned_int,
      Field ''pshadow'' (CPtr ''union ehci_shadow''),
      Field ''intr_unlink_wait'' struct_list_head,
      Field ''intr_unlink'' struct_list_head,
      Field ''intr_unlink_wait_cycle'' unsigned_int,
      Field ''intr_unlink_cycle'' unsigned_int,
      Field ''now_frame'' unsigned_int,
      Field ''last_iso_frame'' unsigned_int,
      Field ''intr_count'' unsigned_int,
      Field ''isoc_count'' unsigned_int,
      Field ''periodic_count'' unsigned_int,
      Field ''uframe_periodic_max'' unsigned_int,
      Field ''cached_itd_list'' struct_list_head,
      Field ''last_itd_to_free'' (CPtr ''struct ehci_itd''),
      Field ''cached_sitd_list'' struct_list_head,
      Field ''last_sitd_to_free'' (CPtr ''struct ehci_sitd''),
      Field ''reset_done'' (CArr 15 long_unsigned_int),
      Field ''bus_suspended'' long_unsigned_int,
      Field ''companion_ports'' long_unsigned_int,
      Field ''owned_ports'' long_unsigned_int,
      Field ''port_c_suspend'' long_unsigned_int,
      Field ''suspended_ports'' long_unsigned_int,
      Field ''resuming_ports'' long_unsigned_int,
      Field ''qh_pool'' (CPtr ''struct dma_pool''),
      Field ''qtd_pool'' (CPtr ''struct dma_pool''),
      Field ''itd_pool'' (CPtr ''struct dma_pool''),
      Field ''sitd_pool'' (CPtr ''struct dma_pool''),
      Field ''random_frame'' unsigned_int,
      Field ''next_statechange'' long_unsigned_int,
      Field ''last_periodic_enable'' ktime_t,
      Field ''command'' u32,
      BitField ''no_selective_suspend'' unsigned_int 1,
      BitField ''has_fsl_port_bug'' unsigned_int 1,
      BitField ''has_fsl_hs_errata'' unsigned_int 1,
      BitField ''has_fsl_susp_errata'' unsigned_int 1,
      BitField ''has_ci_pec_bug'' unsigned_int 1,
      BitField ''big_endian_mmio'' unsigned_int 1,
      BitField ''big_endian_desc'' unsigned_int 1,
      BitField ''big_endian_capbase'' unsigned_int 1,
      BitField ''has_amcc_usb23'' unsigned_int 1,
      BitField ''need_io_watchdog'' unsigned_int 1,
      BitField ''amd_pll_fix'' unsigned_int 1,
      BitField ''use_dummy_qh'' unsigned_int 1,
      BitField ''has_synopsys_hc_bug'' unsigned_int 1,
      BitField ''frame_index_bug'' unsigned_int 1,
      BitField ''need_oc_pp_cycle'' unsigned_int 1,
      BitField ''imx28_write_fix'' unsigned_int 1,
      BitField ''spurious_oc'' unsigned_int 1,
      BitField ''is_aspeed'' unsigned_int 1,
      BitField ''zx_wakeup_clear_needed'' unsigned_int 1,
      Field ''ohci_hcctrl_reg'' (CPtr ''__le32''),
      BitField ''has_hostpc'' unsigned_int 1,
      BitField ''has_tdi_phy_lpm'' unsigned_int 1,
      BitField ''has_ppcd'' unsigned_int 1,
      Field ''sbrn'' u8,
      Field ''stats'' struct_ehci_stats,
      Field ''debug_dir'' (CPtr ''struct dentry''),
      Field ''bandwidth'' (CArr 64 u8),
      Field ''tt_budget'' (CArr 64 u8),
      Field ''tt_list'' struct_list_head,
      Field ''priv'' (CArr 0 long_unsigned_int)]"

definition struct_ehci_regs :: cty where
  "struct_ehci_regs = CStruct ''ehci_regs'' False
     [Field ''command'' u32,
      Field ''status'' u32,
      Field ''intr_enable'' u32,
      Field ''frame_index'' u32,
      Field ''segment'' u32,
      Field ''frame_list'' u32,
      Field ''async_next'' u32,
      Field ''reserved1'' (CArr 2 u32),
      Field ''txfill_tuning'' u32,
      Field ''reserved2'' (CArr 6 u32),
      Field ''configured_flag'' u32,
      Field [] (CUnion [] False
        [Field ''port_status'' (CArr 15 u32),
         Field [] (CStruct [] False
           [Field ''reserved3'' (CArr 9 u32),
            Field ''usbmode'' u32])]),
      Field [] (CUnion [] False
        [Field [] (CStruct [] False
           [Field ''reserved4'' u32,
            Field ''hostpc'' (CArr 15 u32)]),
         Field ''brcm_insnreg'' (CArr 4 u32)]),
      Field ''reserved5'' (CArr 2 u32),
      Field ''usbmode_ex'' u32]"

definition struct_touchscreen_properties :: cty where
  "struct_touchscreen_properties = CStruct ''touchscreen_properties'' False
     [Field ''max_x'' unsigned_int,
      Field ''max_y'' unsigned_int,
      Field ''invert_x'' bool,
      Field ''invert_y'' bool,
      Field ''swap_x_y'' bool]"

definition enum_elants_state :: cty where
  "enum_elants_state = CEnum 4
     [(''ELAN_STATE_NORMAL'', 0), (''ELAN_WAIT_QUEUE_HEADER'', 1),
      (''ELAN_WAIT_RECALIBRATION'', 2)]"

definition enum_elants_chip_id :: cty where
  "enum_elants_chip_id = CEnum 4
     [(''EKTH3500'', 0), (''EKTF3624'', 1)]"

definition enum_elants_iap_mode :: cty where
  "enum_elants_iap_mode = CEnum 4
     [(''ELAN_IAP_OPERATIONAL'', 0), (''ELAN_IAP_RECOVERY'', 1)]"

definition struct_elants_data :: cty where
  "struct_elants_data = CStruct ''elants_data'' False
     [Field ''client'' (CPtr ''struct i2c_client''),
      Field ''input'' (CPtr ''struct input_dev''),
      Field ''vcc33'' (CPtr ''struct regulator''),
      Field ''vccio'' (CPtr ''struct regulator''),
      Field ''reset_gpio'' (CPtr ''struct gpio_desc''),
      Field ''fw_version'' u16,
      Field ''test_version'' u8,
      Field ''solution_version'' u8,
      Field ''bc_version'' u8,
      Field ''iap_version'' u8,
      Field ''hw_version'' u16,
      Field ''major_res'' u8,
      Field ''x_res'' unsigned_int,
      Field ''y_res'' unsigned_int,
      Field ''x_max'' unsigned_int,
      Field ''y_max'' unsigned_int,
      Field ''phy_x'' unsigned_int,
      Field ''phy_y'' unsigned_int,
      Field ''prop'' struct_touchscreen_properties,
      Field ''state'' enum_elants_state,
      Field ''chip_id'' enum_elants_chip_id,
      Field ''iap_mode'' enum_elants_iap_mode,
      Field ''sysfs_mutex'' struct_mutex,
      Field ''cmd_resp'' (CArr 4 u8),
      Field ''cmd_done'' struct_completion,
      Field ''keep_power_in_suspend'' bool,
      BitField [] c_long 64,
      Field ''buf'' (CArr 169 u8),
      BitField [] c_long 64,
      BitField [] c_long 64]"

definition insn_value_t :: cty where [layout_simps]:
  "insn_value_t = c_int"

definition insn_byte_t :: cty where [layout_simps]:
  "insn_byte_t = unsigned_char"

definition struct_insn_field :: cty where
  "struct_insn_field = CStruct ''insn_field'' False
     [Field [] (CUnion [] False
        [Field ''value'' insn_value_t,
         Field ''bytes'' (CArr 4 insn_byte_t)]),
      Field ''got'' unsigned_char,
      Field ''nbytes'' unsigned_char]"

definition insn_attr_t :: cty where [layout_simps]:
  "insn_attr_t = unsigned_int"

definition struct_insn :: cty where
  "struct_insn = CStruct ''insn'' False
     [Field ''prefixes'' struct_insn_field,
      Field ''rex_prefix'' struct_insn_field,
      Field [] (CUnion [] False
        [Field ''vex_prefix'' struct_insn_field,
         Field ''xop_prefix'' struct_insn_field]),
      Field ''opcode'' struct_insn_field,
      Field ''modrm'' struct_insn_field,
      Field ''sib'' struct_insn_field,
      Field ''displacement'' struct_insn_field,
      Field [] (CUnion [] False
        [Field ''immediate'' struct_insn_field,
         Field ''moffset1'' struct_insn_field,
         Field ''immediate1'' struct_insn_field]),
      Field [] (CUnion [] False
        [Field ''moffset2'' struct_insn_field,
         Field ''immediate2'' struct_insn_field]),
      Field ''emulate_prefix_size'' c_int,
      Field ''attr'' insn_attr_t,
      Field ''opnd_bytes'' unsigned_char,
      Field ''addr_bytes'' unsigned_char,
      Field ''length'' unsigned_char,
      Field ''x86_64'' unsigned_char,
      Field ''kaddr'' (CPtr ''const insn_byte_t''),
      Field ''end_kaddr'' (CPtr ''const insn_byte_t''),
      Field ''next_byte'' (CPtr ''const insn_byte_t'')]"

definition enum_ethtool_mac_stats_src :: cty where
  "enum_ethtool_mac_stats_src = CEnum 4
     [(''ETHTOOL_MAC_STATS_SRC_AGGREGATE'', 0), (''ETHTOOL_MAC_STATS_SRC_EMAC'', 1),
      (''ETHTOOL_MAC_STATS_SRC_PMAC'', 2)]"

definition struct_ethtool_eth_mac_stats :: cty where
  "struct_ethtool_eth_mac_stats = CStruct ''ethtool_eth_mac_stats'' False
     [Field ''src'' enum_ethtool_mac_stats_src,
      Field [] (CUnion [] False
        [Field [] (CStruct [] False
           [Field ''FramesTransmittedOK'' u64,
            Field ''SingleCollisionFrames'' u64,
            Field ''MultipleCollisionFrames'' u64,
            Field ''FramesReceivedOK'' u64,
            Field ''FrameCheckSequenceErrors'' u64,
            Field ''AlignmentErrors'' u64,
            Field ''OctetsTransmittedOK'' u64,
            Field ''FramesWithDeferredXmissions'' u64,
            Field ''LateCollisions'' u64,
            Field ''FramesAbortedDueToXSColls'' u64,
            Field ''FramesLostDueToIntMACXmitError'' u64,
            Field ''CarrierSenseErrors'' u64,
            Field ''OctetsReceivedOK'' u64,
            Field ''FramesLostDueToIntMACRcvError'' u64,
            Field ''MulticastFramesXmittedOK'' u64,
            Field ''BroadcastFramesXmittedOK'' u64,
            Field ''FramesWithExcessiveDeferral'' u64,
            Field ''MulticastFramesReceivedOK'' u64,
            Field ''BroadcastFramesReceivedOK'' u64,
            Field ''InRangeLengthErrors'' u64,
            Field ''OutOfRangeLengthField'' u64,
            Field ''FrameTooLongErrors'' u64]),
         Field ''stats'' (CStruct [] False
           [Field ''FramesTransmittedOK'' u64,
            Field ''SingleCollisionFrames'' u64,
            Field ''MultipleCollisionFrames'' u64,
            Field ''FramesReceivedOK'' u64,
            Field ''FrameCheckSequenceErrors'' u64,
            Field ''AlignmentErrors'' u64,
            Field ''OctetsTransmittedOK'' u64,
            Field ''FramesWithDeferredXmissions'' u64,
            Field ''LateCollisions'' u64,
            Field ''FramesAbortedDueToXSColls'' u64,
            Field ''FramesLostDueToIntMACXmitError'' u64,
            Field ''CarrierSenseErrors'' u64,
            Field ''OctetsReceivedOK'' u64,
            Field ''FramesLostDueToIntMACRcvError'' u64,
            Field ''MulticastFramesXmittedOK'' u64,
            Field ''BroadcastFramesXmittedOK'' u64,
            Field ''FramesWithExcessiveDeferral'' u64,
            Field ''MulticastFramesReceivedOK'' u64,
            Field ''BroadcastFramesReceivedOK'' u64,
            Field ''InRangeLengthErrors'' u64,
            Field ''OutOfRangeLengthField'' u64,
            Field ''FrameTooLongErrors'' u64])])]"

definition ext4_lblk_t :: cty where [layout_simps]:
  "ext4_lblk_t = c__u32"

definition ext4_grpblk_t :: cty where [layout_simps]:
  "ext4_grpblk_t = c_int"

definition ext4_group_t :: cty where [layout_simps]:
  "ext4_group_t = unsigned_int"

definition struct_ext4_free_extent :: cty where
  "struct_ext4_free_extent = CStruct ''ext4_free_extent'' False
     [Field ''fe_logical'' ext4_lblk_t,
      Field ''fe_start'' ext4_grpblk_t,
      Field ''fe_group'' ext4_group_t,
      Field ''fe_len'' ext4_grpblk_t]"

definition struct_ext4_allocation_context :: cty where
  "struct_ext4_allocation_context = CStruct ''ext4_allocation_context'' False
     [Field ''ac_inode'' (CPtr ''struct inode''),
      Field ''ac_sb'' (CPtr ''struct super_block''),
      Field ''ac_o_ex'' struct_ext4_free_extent,
      Field ''ac_g_ex'' struct_ext4_free_extent,
      Field ''ac_b_ex'' struct_ext4_free_extent,
      Field ''ac_f_ex'' struct_ext4_free_extent,
      Field ''ac_orig_goal_len'' ext4_grpblk_t,
      Field ''ac_prefetch_grp'' ext4_group_t,
      Field ''ac_prefetch_ios'' unsigned_int,
      Field ''ac_prefetch_nr'' unsigned_int,
      Field ''ac_first_err'' c_int,
      Field ''ac_flags'' c__u32,
      Field ''ac_groups_scanned'' c__u16,
      Field ''ac_found'' c__u16,
      Field ''ac_cX_found'' (CArr 5 c__u16),
      Field ''ac_tail'' c__u16,
      Field ''ac_buddy'' c__u16,
      Field ''ac_status'' c__u8,
      Field ''ac_criteria'' c__u8,
      Field ''ac_2order'' c__u8,
      Field ''ac_op'' c__u8,
      Field ''ac_e4b'' (CPtr ''struct ext4_buddy''),
      Field ''ac_bitmap_folio'' (CPtr ''struct folio''),
      Field ''ac_buddy_folio'' (CPtr ''struct folio''),
      Field ''ac_pa'' (CPtr ''struct ext4_prealloc_space''),
      Field ''ac_lg'' (CPtr ''struct ext4_locality_group'')]"

definition struct_fscrypt_dummy_policy :: cty where
  "struct_fscrypt_dummy_policy = CStruct ''fscrypt_dummy_policy'' False
     [Field ''policy'' (CPtr ''const union fscrypt_policy'')]"

definition ext4_fsblk_t :: cty where [layout_simps]:
  "ext4_fsblk_t = long_long_unsigned_int"

definition struct_ext4_fs_context :: cty where
  "struct_ext4_fs_context = CStruct ''ext4_fs_context'' False
     [Field ''s_qf_names'' (CArr 3 (CPtr ''char'')),
      Field ''dummy_enc_policy'' struct_fscrypt_dummy_policy,
      Field ''s_jquota_fmt'' c_int,
      Field ''qname_spec'' short_unsigned_int,
      Field ''vals_s_flags'' long_unsigned_int,
      Field ''mask_s_flags'' long_unsigned_int,
      Field ''journal_devnum'' long_unsigned_int,
      Field ''s_commit_interval'' long_unsigned_int,
      Field ''s_stripe'' long_unsigned_int,
      Field ''s_inode_readahead_blks'' unsigned_int,
      Field ''s_want_extra_isize'' unsigned_int,
      Field ''s_li_wait_mult'' unsigned_int,
      Field ''s_max_dir_size_kb'' unsigned_int,
      Field ''journal_ioprio'' unsigned_int,
      Field ''vals_s_mount_opt'' unsigned_int,
      Field ''mask_s_mount_opt'' unsigned_int,
      Field ''vals_s_mount_opt2'' unsigned_int,
      Field ''mask_s_mount_opt2'' unsigned_int,
      Field ''opt_flags'' unsigned_int,
      Field ''spec'' unsigned_int,
      Field ''s_max_batch_time'' u32,
      Field ''s_min_batch_time'' u32,
      Field ''s_resuid'' kuid_t,
      Field ''s_resgid'' kgid_t,
      Field ''s_sb_block'' ext4_fsblk_t]"

definition struct_ext4_group_desc :: cty where
  "struct_ext4_group_desc = CStruct ''ext4_group_desc'' False
     [Field ''bg_block_bitmap_lo'' c__le32,
      Field ''bg_inode_bitmap_lo'' c__le32,
      Field ''bg_inode_table_lo'' c__le32,
      Field ''bg_free_blocks_count_lo'' c__le16,
      Field ''bg_free_inodes_count_lo'' c__le16,
      Field ''bg_used_dirs_count_lo'' c__le16,
      Field ''bg_flags'' c__le16,
      Field ''bg_exclude_bitmap_lo'' c__le32,
      Field ''bg_block_bitmap_csum_lo'' c__le16,
      Field ''bg_inode_bitmap_csum_lo'' c__le16,
      Field ''bg_itable_unused_lo'' c__le16,
      Field ''bg_checksum'' c__le16,
      Field ''bg_block_bitmap_hi'' c__le32,
      Field ''bg_inode_bitmap_hi'' c__le32,
      Field ''bg_inode_table_hi'' c__le32,
      Field ''bg_free_blocks_count_hi'' c__le16,
      Field ''bg_free_inodes_count_hi'' c__le16,
      Field ''bg_used_dirs_count_hi'' c__le16,
      Field ''bg_itable_unused_hi'' c__le16,
      Field ''bg_exclude_bitmap_hi'' c__le32,
      Field ''bg_block_bitmap_csum_hi'' c__le16,
      Field ''bg_inode_bitmap_csum_hi'' c__le16,
      Field ''bg_reserved'' c__u32]"

definition struct_ext4_inode :: cty where
  "struct_ext4_inode = CStruct ''ext4_inode'' False
     [Field ''i_mode'' c__le16,
      Field ''i_uid'' c__le16,
      Field ''i_size_lo'' c__le32,
      Field ''i_atime'' c__le32,
      Field ''i_ctime'' c__le32,
      Field ''i_mtime'' c__le32,
      Field ''i_dtime'' c__le32,
      Field ''i_gid'' c__le16,
      Field ''i_links_count'' c__le16,
      Field ''i_blocks_lo'' c__le32,
      Field ''i_flags'' c__le32,
      Field ''osd1'' (CUnion [] False
        [Field ''linux1'' (CStruct [] False
           [Field ''l_i_version'' c__le32]),
         Field ''hurd1'' (CStruct [] False
           [Field ''h_i_translator'' c__u32]),
         Field ''masix1'' (CStruct [] False
           [Field ''m_i_reserved1'' c__u32])]),
      Field ''i_block'' (CArr 15 c__le32),
      Field ''i_generation'' c__le32,
      Field ''i_file_acl_lo'' c__le32,
      Field ''i_size_high'' c__le32,
      Field ''i_obso_faddr'' c__le32,
      Field ''osd2'' (CUnion [] False
        [Field ''linux2'' (CStruct [] False
           [Field ''l_i_blocks_high'' c__le16,
            Field ''l_i_file_acl_high'' c__le16,
            Field ''l_i_uid_high'' c__le16,
            Field ''l_i_gid_high'' c__le16,
            Field ''l_i_checksum_lo'' c__le16,
            Field ''l_i_reserved'' c__le16]),
         Field ''hurd2'' (CStruct [] False
           [Field ''h_i_reserved1'' c__le16,
            Field ''h_i_mode_high'' c__u16,
            Field ''h_i_uid_high'' c__u16,
            Field ''h_i_gid_high'' c__u16,
            Field ''h_i_author'' c__u32]),
         Field ''masix2'' (CStruct [] False
           [Field ''h_i_reserved1'' c__le16,
            Field ''m_i_file_acl_high'' c__le16,
            Field ''m_i_reserved2'' (CArr 2 c__u32)])]),
      Field ''i_extra_isize'' c__le16,
      Field ''i_checksum_hi'' c__le16,
      Field ''i_ctime_extra'' c__le32,
      Field ''i_mtime_extra'' c__le32,
      Field ''i_atime_extra'' c__le32,
      Field ''i_crtime'' c__le32,
      Field ''i_crtime_extra'' c__le32,
      Field ''i_version_hi'' c__le32,
      Field ''i_projid'' c__le32]"

definition struct_ext4_es_tree :: cty where
  "struct_ext4_es_tree = CStruct ''ext4_es_tree'' False
     [Field ''root'' struct_rb_root,
      Field ''cache_es'' (CPtr ''struct extent_status'')]"

definition struct_ext4_pending_tree :: cty where
  "struct_ext4_pending_tree = CStruct ''ext4_pending_tree'' False
     [Field ''root'' struct_rb_root]"

definition tid_t :: cty where [layout_simps]:
  "tid_t = unsigned_int"

definition projid_t :: cty where [layout_simps]:
  "projid_t = c__kernel_uid32_t"

definition kprojid_t :: cty where
  "kprojid_t = CStruct [] False
      [Field ''val'' projid_t]"

definition struct_ext4_inode_info :: cty where
  "struct_ext4_inode_info = CStruct ''ext4_inode_info'' False
     [Field ''i_data'' (CArr 15 c__le32),
      Field ''i_dtime'' c__u32,
      Field ''i_file_acl'' ext4_fsblk_t,
      Field ''i_block_group'' ext4_group_t,
      Field ''i_dir_start_lookup'' ext4_lblk_t,
      Field ''i_flags'' long_unsigned_int,
      Field ''xattr_sem'' struct_rw_semaphore,
      Field [] (CUnion [] False
        [Field ''i_orphan'' struct_list_head,
         Field ''i_orphan_idx'' unsigned_int]),
      Field ''i_fc_dilist'' struct_list_head,
      Field ''i_fc_list'' struct_list_head,
      Field ''i_fc_lblk_start'' ext4_lblk_t,
      Field ''i_fc_lblk_len'' ext4_lblk_t,
      Field ''i_raw_lock'' spinlock_t,
      Field ''i_fc_wait'' wait_queue_head_t,
      Field ''i_fc_lock'' spinlock_t,
      Field ''i_disksize'' loff_t,
      Field ''i_data_sem'' struct_rw_semaphore,
      Field ''vfs_inode'' struct_inode,
      Field ''jinode'' (CPtr ''struct jbd2_inode''),
      Field ''i_crtime'' struct_timespec64,
      Field ''i_prealloc_active'' atomic_t,
      Field ''i_reserved_data_blocks'' unsigned_int,
      Field ''i_prealloc_node'' struct_rb_root,
      Field ''i_prealloc_lock'' rwlock_t,
      Field ''i_es_tree'' struct_ext4_es_tree,
      Field ''i_es_lock'' rwlock_t,
      Field ''i_es_list'' struct_list_head,
      Field ''i_es_all_nr'' unsigned_int,
      Field ''i_es_shk_nr'' unsigned_int,
      Field ''i_es_shrink_lblk'' ext4_lblk_t,
      Field ''i_es_seq'' u64,
      Field ''i_last_alloc_group'' ext4_group_t,
      Field ''i_pending_tree'' struct_ext4_pending_tree,
      Field ''i_extra_isize'' c__u16,
      Field ''i_inline_off'' u16,
      Field ''i_inline_size'' u16,
      Field ''i_reserved_quota'' qsize_t,
      Field ''i_block_reservation_lock'' spinlock_t,
      Field ''i_completed_io_lock'' spinlock_t,
      Field ''i_rsv_conversion_list'' struct_list_head,
      Field ''i_rsv_conversion_work'' struct_work_struct,
      Field ''i_sync_tid'' tid_t,
      Field ''i_datasync_tid'' tid_t,
      Field ''i_dquot'' (CArr 3 (CPtr ''struct dquot'')),
      Field ''i_csum_seed'' c__u32,
      Field ''i_projid'' kprojid_t,
      Field ''i_crypt_info'' (CPtr ''struct fscrypt_inode_info'')]"

definition struct_ext4_orphan_info :: cty where
  "struct_ext4_orphan_info = CStruct ''ext4_orphan_info'' False
     [Field ''of_blocks'' c_int,
      Field ''of_csum_seed'' c__u32,
      Field ''of_binfo'' (CPtr ''struct ext4_orphan_block'')]"

definition struct_ext4_es_stats :: cty where
  "struct_ext4_es_stats = CStruct ''ext4_es_stats'' False
     [Field ''es_stats_shrunk'' long_unsigned_int,
      Field ''es_stats_cache_hits'' struct_percpu_counter,
      Field ''es_stats_cache_misses'' struct_percpu_counter,
      Field ''es_stats_scan_time'' u64,
      Field ''es_stats_max_scan_time'' u64,
      Field ''es_stats_all_cnt'' struct_percpu_counter,
      Field ''es_stats_shk_cnt'' struct_percpu_counter]"

definition struct_jbd2_buffer_trigger_type :: cty where
  "struct_jbd2_buffer_trigger_type = CStruct ''jbd2_buffer_trigger_type'' False
     [Field ''t_frozen'' (CPtr ''void (struct jbd2_buffer_trigger_type *, struct buffer_head *, void *, size_t)''),
      Field ''t_abort'' (CPtr ''void (struct jbd2_buffer_trigger_type *, struct buffer_head *)'')]"

definition struct_ext4_journal_trigger :: cty where
  "struct_ext4_journal_trigger = CStruct ''ext4_journal_trigger'' False
     [Field ''tr_triggers'' struct_jbd2_buffer_trigger_type,
      Field ''sb'' (CPtr ''struct super_block'')]"

definition struct_ext4_fc_stats :: cty where
  "struct_ext4_fc_stats = CStruct ''ext4_fc_stats'' False
     [Field ''fc_ineligible_reason_count'' (CArr 13 unsigned_int),
      Field ''fc_num_commits'' long_unsigned_int,
      Field ''fc_ineligible_commits'' long_unsigned_int,
      Field ''fc_failed_commits'' long_unsigned_int,
      Field ''fc_skipped_commits'' long_unsigned_int,
      Field ''fc_numblks'' long_unsigned_int,
      Field ''s_fc_avg_commit_time'' u64]"

definition struct_ext4_fc_replay_state :: cty where
  "struct_ext4_fc_replay_state = CStruct ''ext4_fc_replay_state'' False
     [Field ''fc_replay_num_tags'' c_int,
      Field ''fc_replay_expected_off'' c_int,
      Field ''fc_current_pass'' c_int,
      Field ''fc_cur_tag'' c_int,
      Field ''fc_crc'' c_int,
      Field ''fc_regions'' (CPtr ''struct ext4_fc_alloc_region''),
      Field ''fc_regions_size'' c_int,
      Field ''fc_regions_used'' c_int,
      Field ''fc_regions_valid'' c_int,
      Field ''fc_modified_inodes'' (CPtr ''int''),
      Field ''fc_modified_inodes_used'' c_int,
      Field ''fc_modified_inodes_size'' c_int]"

definition struct_ext4_sb_info :: cty where
  "struct_ext4_sb_info = CStruct ''ext4_sb_info'' False
     [Field ''s_desc_size'' long_unsigned_int,
      Field ''s_inodes_per_block'' long_unsigned_int,
      Field ''s_blocks_per_group'' long_unsigned_int,
      Field ''s_clusters_per_group'' long_unsigned_int,
      Field ''s_inodes_per_group'' long_unsigned_int,
      Field ''s_itb_per_group'' long_unsigned_int,
      Field ''s_gdb_count'' long_unsigned_int,
      Field ''s_desc_per_block'' long_unsigned_int,
      Field ''s_groups_count'' ext4_group_t,
      Field ''s_blockfile_groups'' ext4_group_t,
      Field ''s_overhead'' long_unsigned_int,
      Field ''s_cluster_ratio'' unsigned_int,
      Field ''s_cluster_bits'' unsigned_int,
      Field ''s_bitmap_maxbytes'' loff_t,
      Field ''s_sbh'' (CPtr ''struct buffer_head''),
      Field ''s_es'' (CPtr ''struct ext4_super_block''),
      Field ''s_group_desc'' (CPtr ''struct buffer_head *''),
      Field ''s_mount_opt'' unsigned_int,
      Field ''s_mount_opt2'' unsigned_int,
      Field ''s_mount_flags'' long_unsigned_int,
      Field ''s_def_mount_opt'' unsigned_int,
      Field ''s_def_mount_opt2'' unsigned_int,
      Field ''s_sb_block'' ext4_fsblk_t,
      Field ''s_resv_clusters'' atomic64_t,
      Field ''s_resuid'' kuid_t,
      Field ''s_resgid'' kgid_t,
      Field ''s_mount_state'' short_unsigned_int,
      Field ''s_pad'' short_unsigned_int,
      Field ''s_addr_per_block_bits'' c_int,
      Field ''s_desc_per_block_bits'' c_int,
      Field ''s_inode_size'' c_int,
      Field ''s_first_ino'' c_int,
      Field ''s_inode_readahead_blks'' unsigned_int,
      Field ''s_inode_goal'' unsigned_int,
      Field ''s_hash_seed'' (CArr 4 u32),
      Field ''s_def_hash_version'' c_int,
      Field ''s_hash_unsigned'' c_int,
      Field ''s_freeclusters_counter'' struct_percpu_counter,
      Field ''s_freeinodes_counter'' struct_percpu_counter,
      Field ''s_dirs_counter'' struct_percpu_counter,
      Field ''s_dirtyclusters_counter'' struct_percpu_counter,
      Field ''s_sra_exceeded_retry_limit'' struct_percpu_counter,
      Field ''s_blockgroup_lock'' (CPtr ''struct blockgroup_lock''),
      Field ''s_proc'' (CPtr ''struct proc_dir_entry''),
      Field ''s_kobj'' struct_kobject,
      Field ''s_kobj_unregister'' struct_completion,
      Field ''s_error_notify_mutex'' struct_mutex,
      Field ''s_sb'' (CPtr ''struct super_block''),
      Field ''s_mmp_bh'' (CPtr ''struct buffer_head''),
      Field ''s_journal'' (CPtr ''struct journal_s''),
      Field ''s_ext4_flags'' long_unsigned_int,
      Field ''s_orphan_lock'' struct_mutex,
      Field ''s_orphan'' struct_list_head,
      Field ''s_orphan_info'' struct_ext4_orphan_info,
      Field ''s_commit_interval'' long_unsigned_int,
      Field ''s_max_batch_time'' u32,
      Field ''s_min_batch_time'' u32,
      Field ''s_journal_bdev_file'' (CPtr ''struct file''),
      Field ''s_qf_names'' (CArr 3 (CPtr ''char'')),
      Field ''s_jquota_fmt'' c_int,
      Field ''s_want_extra_isize'' unsigned_int,
      Field ''s_system_blks'' (CPtr ''struct ext4_system_blocks''),
      Field ''s_group_info'' (CPtr ''struct ext4_group_info **''),
      Field ''s_buddy_cache'' (CPtr ''struct inode''),
      Field ''s_md_lock'' spinlock_t,
      Field ''s_mb_offsets'' (CPtr ''short unsigned int''),
      Field ''s_mb_maxs'' (CPtr ''unsigned int''),
      Field ''s_group_info_size'' unsigned_int,
      Field ''s_mb_free_pending'' atomic_t,
      Field ''s_freed_data_list'' (CArr 2 struct_list_head),
      Field ''s_discard_list'' struct_list_head,
      Field ''s_discard_work'' struct_work_struct,
      Field ''s_retry_alloc_pending'' atomic_t,
      Field ''s_mb_avg_fragment_size'' (CPtr ''struct xarray''),
      Field ''s_mb_largest_free_orders'' (CPtr ''struct xarray''),
      Field ''s_stripe'' long_unsigned_int,
      Field ''s_mb_max_linear_groups'' unsigned_int,
      Field ''s_mb_stream_request'' unsigned_int,
      Field ''s_mb_max_to_scan'' unsigned_int,
      Field ''s_mb_min_to_scan'' unsigned_int,
      Field ''s_mb_stats'' unsigned_int,
      Field ''s_mb_order2_reqs'' unsigned_int,
      Field ''s_mb_group_prealloc'' unsigned_int,
      Field ''s_max_dir_size_kb'' unsigned_int,
      Field ''s_mb_prefetch'' unsigned_int,
      Field ''s_mb_prefetch_limit'' unsigned_int,
      Field ''s_mb_best_avail_max_trim_order'' unsigned_int,
      Field ''s_sb_update_sec'' unsigned_int,
      Field ''s_sb_update_kb'' unsigned_int,
      Field ''s_mb_last_groups'' (CPtr ''ext4_group_t''),
      Field ''s_mb_nr_global_goals'' unsigned_int,
      Field ''s_bal_reqs'' atomic_t,
      Field ''s_bal_success'' atomic_t,
      Field ''s_bal_allocated'' atomic_t,
      Field ''s_bal_ex_scanned'' atomic_t,
      Field ''s_bal_cX_ex_scanned'' (CArr 5 atomic_t),
      Field ''s_bal_groups_scanned'' atomic_t,
      Field ''s_bal_goals'' atomic_t,
      Field ''s_bal_stream_goals'' atomic_t,
      Field ''s_bal_len_goals'' atomic_t,
      Field ''s_bal_breaks'' atomic_t,
      Field ''s_bal_2orders'' atomic_t,
      Field ''s_bal_cX_groups_considered'' (CArr 5 atomic64_t),
      Field ''s_bal_cX_hits'' (CArr 5 atomic64_t),
      Field ''s_bal_cX_failed'' (CArr 5 atomic64_t),
      Field ''s_mb_buddies_generated'' atomic_t,
      Field ''s_mb_generation_time'' atomic64_t,
      Field ''s_mb_lost_chunks'' atomic_t,
      Field ''s_mb_preallocated'' atomic_t,
      Field ''s_mb_discarded'' atomic_t,
      Field ''s_lock_busy'' atomic_t,
      Field ''s_locality_groups'' (CPtr ''struct ext4_locality_group''),
      Field ''s_sectors_written_start'' long_unsigned_int,
      Field ''s_kbytes_written'' u64,
      Field ''s_extent_max_zeroout_kb'' unsigned_int,
      Field ''s_log_groups_per_flex'' unsigned_int,
      Field ''s_flex_groups'' (CPtr ''struct flex_groups *''),
      Field ''s_flex_groups_allocated'' ext4_group_t,
      Field ''rsv_conversion_wq'' (CPtr ''struct workqueue_struct''),
      Field ''s_err_report'' struct_timer_list,
      Field ''s_err_report_sec'' long_unsigned_int,
      Field ''s_li_request'' (CPtr ''struct ext4_li_request''),
      Field ''s_li_wait_mult'' unsigned_int,
      Field ''s_mmp_tsk'' (CPtr ''struct task_struct''),
      Field ''s_last_trim_minblks'' long_unsigned_int,
      Field ''s_min_folio_order'' u16,
      Field ''s_max_folio_order'' u16,
      Field ''s_csum_seed'' c__u32,
      Field ''s_es_shrinker'' (CPtr ''struct shrinker''),
      Field ''s_es_list'' struct_list_head,
      Field ''s_es_nr_inode'' c_long,
      Field ''s_es_stats'' struct_ext4_es_stats,
      Field ''s_ea_block_cache'' (CPtr ''struct mb_cache''),
      Field ''s_ea_inode_cache'' (CPtr ''struct mb_cache''),
      BitField [] c_long 64,
      BitField [] c_long 64,
      BitField [] c_long 64,
      BitField [] c_long 64,
      BitField [] c_long 64,
      BitField [] c_long 64,
      BitField [] c_long 64,
      Field ''s_es_lock'' spinlock_t,
      Field ''s_journal_triggers'' (CArr 1 struct_ext4_journal_trigger),
      Field ''s_err_ratelimit_state'' struct_ratelimit_state,
      Field ''s_warning_ratelimit_state'' struct_ratelimit_state,
      Field ''s_msg_ratelimit_state'' struct_ratelimit_state,
      Field ''s_warning_count'' atomic_t,
      Field ''s_msg_count'' atomic_t,
      Field ''s_dummy_enc_policy'' struct_fscrypt_dummy_policy,
      Field ''s_writepages_rwsem'' struct_percpu_rw_semaphore,
      Field ''s_daxdev'' (CPtr ''struct dax_device''),
      Field ''s_dax_part_off'' u64,
      Field ''s_bdev_wb_err'' errseq_t,
      Field ''s_bdev_wb_lock'' spinlock_t,
      Field ''s_error_lock'' spinlock_t,
      Field ''s_add_error_count'' c_int,
      Field ''s_first_error_code'' c_int,
      Field ''s_first_error_line'' c__u32,
      Field ''s_first_error_ino'' c__u32,
      Field ''s_first_error_block'' c__u64,
      Field ''s_first_error_func'' (CPtr ''const char''),
      Field ''s_first_error_time'' time64_t,
      Field ''s_last_error_code'' c_int,
      Field ''s_last_error_line'' c__u32,
      Field ''s_last_error_ino'' c__u32,
      Field ''s_last_error_block'' c__u64,
      Field ''s_last_error_func'' (CPtr ''const char''),
      Field ''s_last_error_time'' time64_t,
      Field ''s_sb_upd_work'' struct_work_struct,
      Field ''s_awu_min'' unsigned_int,
      Field ''s_awu_max'' unsigned_int,
      Field ''s_fc_subtid'' atomic_t,
      Field ''s_fc_q'' (CArr 2 struct_list_head),
      Field ''s_fc_dentry_q'' (CArr 2 struct_list_head),
      Field ''s_fc_bytes'' unsigned_int,
      Field ''s_fc_lock'' struct_mutex,
      Field ''s_fc_bh'' (CPtr ''struct buffer_head''),
      Field ''s_fc_stats'' struct_ext4_fc_stats,
      Field ''s_fc_ineligible_tid'' tid_t,
      Field ''s_fc_replay_state'' struct_ext4_fc_replay_state,
      BitField [] c_long 64,
      BitField [] c_long 64]"

definition struct_ext4_super_block :: cty where
  "struct_ext4_super_block = CStruct ''ext4_super_block'' False
     [Field ''s_inodes_count'' c__le32,
      Field ''s_blocks_count_lo'' c__le32,
      Field ''s_r_blocks_count_lo'' c__le32,
      Field ''s_free_blocks_count_lo'' c__le32,
      Field ''s_free_inodes_count'' c__le32,
      Field ''s_first_data_block'' c__le32,
      Field ''s_log_block_size'' c__le32,
      Field ''s_log_cluster_size'' c__le32,
      Field ''s_blocks_per_group'' c__le32,
      Field ''s_clusters_per_group'' c__le32,
      Field ''s_inodes_per_group'' c__le32,
      Field ''s_mtime'' c__le32,
      Field ''s_wtime'' c__le32,
      Field ''s_mnt_count'' c__le16,
      Field ''s_max_mnt_count'' c__le16,
      Field ''s_magic'' c__le16,
      Field ''s_state'' c__le16,
      Field ''s_errors'' c__le16,
      Field ''s_minor_rev_level'' c__le16,
      Field ''s_lastcheck'' c__le32,
      Field ''s_checkinterval'' c__le32,
      Field ''s_creator_os'' c__le32,
      Field ''s_rev_level'' c__le32,
      Field ''s_def_resuid'' c__le16,
      Field ''s_def_resgid'' c__le16,
      Field ''s_first_ino'' c__le32,
      Field ''s_inode_size'' c__le16,
      Field ''s_block_group_nr'' c__le16,
      Field ''s_feature_compat'' c__le32,
      Field ''s_feature_incompat'' c__le32,
      Field ''s_feature_ro_compat'' c__le32,
      Field ''s_uuid'' (CArr 16 c__u8),
      Field ''s_volume_name'' (CArr 16 c_char),
      Field ''s_last_mounted'' (CArr 64 c_char),
      Field ''s_algorithm_usage_bitmap'' c__le32,
      Field ''s_prealloc_blocks'' c__u8,
      Field ''s_prealloc_dir_blocks'' c__u8,
      Field ''s_reserved_gdt_blocks'' c__le16,
      Field ''s_journal_uuid'' (CArr 16 c__u8),
      Field ''s_journal_inum'' c__le32,
      Field ''s_journal_dev'' c__le32,
      Field ''s_last_orphan'' c__le32,
      Field ''s_hash_seed'' (CArr 4 c__le32),
      Field ''s_def_hash_version'' c__u8,
      Field ''s_jnl_backup_type'' c__u8,
      Field ''s_desc_size'' c__le16,
      Field ''s_default_mount_opts'' c__le32,
      Field ''s_first_meta_bg'' c__le32,
      Field ''s_mkfs_time'' c__le32,
      Field ''s_jnl_blocks'' (CArr 17 c__le32),
      Field ''s_blocks_count_hi'' c__le32,
      Field ''s_r_blocks_count_hi'' c__le32,
      Field ''s_free_blocks_count_hi'' c__le32,
      Field ''s_min_extra_isize'' c__le16,
      Field ''s_want_extra_isize'' c__le16,
      Field ''s_flags'' c__le32,
      Field ''s_raid_stride'' c__le16,
      Field ''s_mmp_update_interval'' c__le16,
      Field ''s_mmp_block'' c__le64,
      Field ''s_raid_stripe_width'' c__le32,
      Field ''s_log_groups_per_flex'' c__u8,
      Field ''s_checksum_type'' c__u8,
      Field ''s_encryption_level'' c__u8,
      Field ''s_reserved_pad'' c__u8,
      Field ''s_kbytes_written'' c__le64,
      Field ''s_snapshot_inum'' c__le32,
      Field ''s_snapshot_id'' c__le32,
      Field ''s_snapshot_r_blocks_count'' c__le64,
      Field ''s_snapshot_list'' c__le32,
      Field ''s_error_count'' c__le32,
      Field ''s_first_error_time'' c__le32,
      Field ''s_first_error_ino'' c__le32,
      Field ''s_first_error_block'' c__le64,
      Field ''s_first_error_func'' (CArr 32 c__u8),
      Field ''s_first_error_line'' c__le32,
      Field ''s_last_error_time'' c__le32,
      Field ''s_last_error_ino'' c__le32,
      Field ''s_last_error_line'' c__le32,
      Field ''s_last_error_block'' c__le64,
      Field ''s_last_error_func'' (CArr 32 c__u8),
      Field ''s_mount_opts'' (CArr 64 c__u8),
      Field ''s_usr_quota_inum'' c__le32,
      Field ''s_grp_quota_inum'' c__le32,
      Field ''s_overhead_clusters'' c__le32,
      Field ''s_backup_bgs'' (CArr 2 c__le32),
      Field ''s_encrypt_algos'' (CArr 4 c__u8),
      Field ''s_encrypt_pw_salt'' (CArr 16 c__u8),
      Field ''s_lpf_ino'' c__le32,
      Field ''s_prj_quota_inum'' c__le32,
      Field ''s_checksum_seed'' c__le32,
      Field ''s_wtime_hi'' c__u8,
      Field ''s_mtime_hi'' c__u8,
      Field ''s_mkfs_time_hi'' c__u8,
      Field ''s_lastcheck_hi'' c__u8,
      Field ''s_first_error_time_hi'' c__u8,
      Field ''s_last_error_time_hi'' c__u8,
      Field ''s_first_error_errcode'' c__u8,
      Field ''s_last_error_errcode'' c__u8,
      Field ''s_encoding'' c__le16,
      Field ''s_encoding_flags'' c__le16,
      Field ''s_orphan_file_inum'' c__le32,
      Field ''s_def_resuid_hi'' c__le16,
      Field ''s_def_resgid_hi'' c__le16,
      Field ''s_reserved'' (CArr 93 c__le32),
      Field ''s_checksum'' c__le32]"

definition struct_ext4_tune_sb_params :: cty where
  "struct_ext4_tune_sb_params = CStruct ''ext4_tune_sb_params'' False
     [Field ''set_flags'' c__u32,
      Field ''checkinterval'' c__u32,
      Field ''errors_behavior'' c__u16,
      Field ''mnt_count'' c__u16,
      Field ''max_mnt_count'' c__u16,
      Field ''raid_stride'' c__u16,
      Field ''last_check_time'' c__u64,
      Field ''reserved_blocks'' c__u64,
      Field ''blocks_count'' c__u64,
      Field ''default_mnt_opts'' c__u32,
      Field ''reserved_uid'' c__u32,
      Field ''reserved_gid'' c__u32,
      Field ''raid_stripe_width'' c__u32,
      Field ''encoding'' c__u16,
      Field ''encoding_flags'' c__u16,
      Field ''def_hash_alg'' c__u8,
      Field ''pad_1'' c__u8,
      Field ''pad_2'' c__u16,
      Field ''feature_compat'' c__u32,
      Field ''feature_incompat'' c__u32,
      Field ''feature_ro_compat'' c__u32,
      Field ''set_feature_compat_mask'' c__u32,
      Field ''set_feature_incompat_mask'' c__u32,
      Field ''set_feature_ro_compat_mask'' c__u32,
      Field ''clear_feature_compat_mask'' c__u32,
      Field ''clear_feature_incompat_mask'' c__u32,
      Field ''clear_feature_ro_compat_mask'' c__u32,
      Field ''mount_opts'' (CArr 64 c__u8),
      Field ''pad'' (CArr 68 c__u8)]"

definition struct_fat_boot_sector :: cty where
  "struct_fat_boot_sector = CStruct ''fat_boot_sector'' False
     [Field ''ignored'' (CArr 3 c__u8),
      Field ''system_id'' (CArr 8 c__u8),
      Field ''sector_size'' (CArr 2 c__u8),
      Field ''sec_per_clus'' c__u8,
      Field ''reserved'' c__le16,
      Field ''fats'' c__u8,
      Field ''dir_entries'' (CArr 2 c__u8),
      Field ''sectors'' (CArr 2 c__u8),
      Field ''media'' c__u8,
      Field ''fat_length'' c__le16,
      Field ''secs_track'' c__le16,
      Field ''heads'' c__le16,
      Field ''hidden'' c__le32,
      Field ''total_sect'' c__le32,
      Field [] (CUnion [] False
        [Field ''fat16'' (CStruct [] False
           [Field ''drive_number'' c__u8,
            Field ''state'' c__u8,
            Field ''signature'' c__u8,
            Field ''vol_id'' (CArr 4 c__u8),
            Field ''vol_label'' (CArr 11 c__u8),
            Field ''fs_type'' (CArr 8 c__u8)]),
         Field ''fat32'' (CStruct [] False
           [Field ''length'' c__le32,
            Field ''flags'' c__le16,
            Field ''version'' (CArr 2 c__u8),
            Field ''root_cluster'' c__le32,
            Field ''info_sector'' c__le16,
            Field ''backup_boot'' c__le16,
            Field ''reserved2'' (CArr 6 c__le16),
            Field ''drive_number'' c__u8,
            Field ''state'' c__u8,
            Field ''signature'' c__u8,
            Field ''vol_id'' (CArr 4 c__u8),
            Field ''vol_label'' (CArr 11 c__u8),
            Field ''fs_type'' (CArr 8 c__u8)])])]"

definition struct_fat_mount_options :: cty where
  "struct_fat_mount_options = CStruct ''fat_mount_options'' False
     [Field ''fs_uid'' kuid_t,
      Field ''fs_gid'' kgid_t,
      Field ''fs_fmask'' short_unsigned_int,
      Field ''fs_dmask'' short_unsigned_int,
      Field ''codepage'' short_unsigned_int,
      Field ''time_offset'' c_int,
      Field ''iocharset'' (CPtr ''char''),
      Field ''shortname'' short_unsigned_int,
      Field ''name_check'' unsigned_char,
      Field ''errors'' unsigned_char,
      Field ''nfs'' unsigned_char,
      Field ''allow_utime'' short_unsigned_int,
      BitField ''quiet'' unsigned_int 1,
      BitField ''showexec'' unsigned_int 1,
      BitField ''sys_immutable'' unsigned_int 1,
      BitField ''dotsOK'' unsigned_int 1,
      BitField ''isvfat'' unsigned_int 1,
      BitField ''utf8'' unsigned_int 1,
      BitField ''unicode_xlate'' unsigned_int 1,
      BitField ''numtail'' unsigned_int 1,
      BitField ''flush'' unsigned_int 1,
      BitField ''nocase'' unsigned_int 1,
      BitField ''usefree'' unsigned_int 1,
      BitField ''tz_set'' unsigned_int 1,
      BitField ''rodir'' unsigned_int 1,
      BitField ''discard'' unsigned_int 1,
      BitField ''dos1xfloppy'' unsigned_int 1,
      BitField ''debug'' unsigned_int 1]"

definition struct_fb_cvt_data :: cty where
  "struct_fb_cvt_data = CStruct ''fb_cvt_data'' False
     [Field ''xres'' u32,
      Field ''yres'' u32,
      Field ''refresh'' u32,
      Field ''f_refresh'' u32,
      Field ''pixclock'' u32,
      Field ''hperiod'' u32,
      Field ''hblank'' u32,
      Field ''hfreq'' u32,
      Field ''htotal'' u32,
      Field ''vtotal'' u32,
      Field ''vsync'' u32,
      Field ''hsync'' u32,
      Field ''h_front_porch'' u32,
      Field ''h_back_porch'' u32,
      Field ''v_front_porch'' u32,
      Field ''v_back_porch'' u32,
      Field ''h_margin'' u32,
      Field ''v_margin'' u32,
      Field ''interlace'' u32,
      Field ''aspect_ratio'' u32,
      Field ''active_pixels'' u32,
      Field ''flags'' u32,
      Field ''status'' u32]"

definition struct_fib_kuid_range :: cty where
  "struct_fib_kuid_range = CStruct ''fib_kuid_range'' False
     [Field ''start'' kuid_t,
      Field ''end'' kuid_t]"

definition struct_fib_rule_port_range :: cty where
  "struct_fib_rule_port_range = CStruct ''fib_rule_port_range'' False
     [Field ''start'' c__u16,
      Field ''end'' c__u16]"

definition struct_fib_rule :: cty where
  "struct_fib_rule = CStruct ''fib_rule'' False
     [Field ''list'' struct_list_head,
      Field ''iifindex'' c_int,
      Field ''oifindex'' c_int,
      Field ''mark'' u32,
      Field ''mark_mask'' u32,
      Field ''flags'' u32,
      Field ''table'' u32,
      Field ''action'' u8,
      Field ''l3mdev'' u8,
      Field ''proto'' u8,
      Field ''ip_proto'' u8,
      Field ''target'' u32,
      Field ''tun_id'' c__be64,
      Field ''ctarget'' (CPtr ''struct fib_rule''),
      Field ''fr_net'' (CPtr ''struct net''),
      Field ''refcnt'' refcount_t,
      Field ''pref'' u32,
      Field ''suppress_ifgroup'' c_int,
      Field ''suppress_prefixlen'' c_int,
      Field ''iifname'' (CArr 16 c_char),
      Field ''oifname'' (CArr 16 c_char),
      Field ''uid_range'' struct_fib_kuid_range,
      Field ''sport_range'' struct_fib_rule_port_range,
      Field ''dport_range'' struct_fib_rule_port_range,
      Field ''sport_mask'' u16,
      Field ''dport_mask'' u16,
      Field ''iif_is_l3_master'' u8,
      Field ''oif_is_l3_master'' u8,
      Field ''rcu'' struct_callback_head]"

definition struct_nl_info :: cty where
  "struct_nl_info = CStruct ''nl_info'' False
     [Field ''nlh'' (CPtr ''struct nlmsghdr''),
      Field ''nl_net'' (CPtr ''struct net''),
      Field ''portid'' u32,
      BitField ''skip_notify'' u8 1,
      BitField ''skip_notify_kernel'' u8 1]"

definition struct_fib6_config :: cty where
  "struct_fib6_config = CStruct ''fib6_config'' False
     [Field ''fc_table'' u32,
      Field ''fc_metric'' u32,
      Field ''fc_dst_len'' c_int,
      Field ''fc_src_len'' c_int,
      Field ''fc_ifindex'' c_int,
      Field ''fc_flags'' u32,
      Field ''fc_protocol'' u32,
      Field ''fc_type'' u16,
      BitField ''fc_delete_all_nh'' u16 1,
      BitField ''fc_ignore_dev_down'' u16 1,
      BitField ''__unused'' u16 14,
      Field ''fc_nh_id'' u32,
      Field ''fc_dst'' struct_in6_addr,
      Field ''fc_src'' struct_in6_addr,
      Field ''fc_prefsrc'' struct_in6_addr,
      Field ''fc_gateway'' struct_in6_addr,
      Field ''fc_expires'' long_unsigned_int,
      Field ''fc_mx'' (CPtr ''struct nlattr''),
      Field ''fc_mx_len'' c_int,
      Field ''fc_mp_len'' c_int,
      Field ''fc_mp'' (CPtr ''struct nlattr''),
      Field ''fc_nlinfo'' struct_nl_info,
      Field ''fc_encap'' (CPtr ''struct nlattr''),
      Field ''fc_encap_type'' u16,
      Field ''fc_is_fdb'' bool]"

definition struct_fib_config :: cty where
  "struct_fib_config = CStruct ''fib_config'' False
     [Field ''fc_dst_len'' u8,
      Field ''fc_dscp'' dscp_t,
      Field ''fc_protocol'' u8,
      Field ''fc_scope'' u8,
      Field ''fc_type'' u8,
      Field ''fc_gw_family'' u8,
      Field ''fc_table'' u32,
      Field ''fc_dst'' c__be32,
      Field [] (CUnion [] False
        [Field ''fc_gw4'' c__be32,
         Field ''fc_gw6'' struct_in6_addr]),
      Field ''fc_oif'' c_int,
      Field ''fc_flags'' u32,
      Field ''fc_priority'' u32,
      Field ''fc_prefsrc'' c__be32,
      Field ''fc_nh_id'' u32,
      Field ''fc_mx'' (CPtr ''struct nlattr''),
      Field ''fc_mp'' (CPtr ''struct rtnexthop''),
      Field ''fc_mx_len'' c_int,
      Field ''fc_mp_len'' c_int,
      Field ''fc_flow'' u32,
      Field ''fc_nlflags'' u32,
      Field ''fc_nlinfo'' struct_nl_info,
      Field ''fc_encap'' (CPtr ''struct nlattr''),
      Field ''fc_encap_type'' u16]"

definition struct_fid :: cty where
  "struct_fid = CStruct ''fid'' False
     [Field [] (CUnion [] False
        [Field ''i32'' (CStruct [] False
           [Field ''ino'' u32,
            Field ''gen'' u32,
            Field ''parent_ino'' u32,
            Field ''parent_gen'' u32]),
         Field ''i64'' (CStruct [] True
           [Field ''ino'' u64,
            Field ''gen'' u32]),
         Field ''udf'' (CStruct [] False
           [Field ''block'' u32,
            Field ''partref'' u16,
            Field ''parent_partref'' u16,
            Field ''generation'' u32,
            Field ''parent_block'' u32,
            Field ''parent_generation'' u32]),
         Field [] (CStruct [] False
           [Field ''__empty_raw'' (CStruct [] False
              []),
            Field ''raw'' (CArr 0 c__u32)])])]"

definition enum_flow_action_hw_stats :: cty where
  "enum_flow_action_hw_stats = CEnum 4
     [(''FLOW_ACTION_HW_STATS_IMMEDIATE'', 1), (''FLOW_ACTION_HW_STATS_DELAYED'', 2),
      (''FLOW_ACTION_HW_STATS_ANY'', 3), (''FLOW_ACTION_HW_STATS_DISABLED'', 4),
      (''FLOW_ACTION_HW_STATS_DONT_CARE'', 7)]"

definition action_destr :: cty where [layout_simps]:
  "action_destr = CPtr ''void (void *)''"

definition enum_flow_action_mangle_base :: cty where
  "enum_flow_action_mangle_base = CEnum 4
     [(''FLOW_ACT_MANGLE_UNSPEC'', 0), (''FLOW_ACT_MANGLE_HDR_TYPE_ETH'', 1),
      (''FLOW_ACT_MANGLE_HDR_TYPE_IP4'', 2), (''FLOW_ACT_MANGLE_HDR_TYPE_IP6'', 3),
      (''FLOW_ACT_MANGLE_HDR_TYPE_TCP'', 4), (''FLOW_ACT_MANGLE_HDR_TYPE_UDP'', 5)]"

definition struct_flow_action_police :: cty where
  "struct_flow_action_police = CStruct ''flow_action_police'' False
     [Field ''burst'' u32,
      Field ''rate_bytes_ps'' u64,
      Field ''peakrate_bytes_ps'' u64,
      Field ''avrate'' u32,
      Field ''overhead'' u16,
      Field ''burst_pkt'' u64,
      Field ''rate_pkt_ps'' u64,
      Field ''mtu'' u32,
      Field ''exceed'' (CStruct [] False
        [Field ''act_id'' enum_flow_action_id,
         Field ''extval'' u32]),
      Field ''notexceed'' (CStruct [] False
        [Field ''act_id'' enum_flow_action_id,
         Field ''extval'' u32])]"

definition struct_flow_action_entry :: cty where
  "struct_flow_action_entry = CStruct ''flow_action_entry'' False
     [Field ''id'' enum_flow_action_id,
      Field ''hw_index'' u32,
      Field ''cookie'' long_unsigned_int,
      Field ''miss_cookie'' u64,
      Field ''hw_stats'' enum_flow_action_hw_stats,
      Field ''destructor'' action_destr,
      Field ''destructor_priv'' (CPtr ''void''),
      Field [] (CUnion [] False
        [Field ''chain_index'' u32,
         Field ''dev'' (CPtr ''struct net_device''),
         Field ''vlan'' (CStruct [] False
           [Field ''vid'' u16,
            Field ''proto'' c__be16,
            Field ''prio'' u8]),
         Field ''vlan_push_eth'' (CStruct [] False
           [Field ''dst'' (CArr 6 unsigned_char),
            Field ''src'' (CArr 6 unsigned_char)]),
         Field ''mangle'' (CStruct [] False
           [Field ''htype'' enum_flow_action_mangle_base,
            Field ''offset'' u32,
            Field ''mask'' u32,
            Field ''val'' u32]),
         Field ''tunnel'' (CPtr ''struct ip_tunnel_info''),
         Field ''csum_flags'' u32,
         Field ''mark'' u32,
         Field ''ptype'' u16,
         Field ''rx_queue'' u16,
         Field ''priority'' u32,
         Field ''queue'' (CStruct [] False
           [Field ''ctx'' u32,
            Field ''index'' u32,
            Field ''vf'' u8]),
         Field ''sample'' (CStruct [] False
           [Field ''psample_group'' (CPtr ''struct psample_group''),
            Field ''rate'' u32,
            Field ''trunc_size'' u32,
            Field ''truncate'' bool]),
         Field ''police'' struct_flow_action_police,
         Field ''ct'' (CStruct [] False
           [Field ''action'' c_int,
            Field ''zone'' u16,
            Field ''flow_table'' (CPtr ''struct nf_flowtable'')]),
         Field ''ct_metadata'' (CStruct [] False
           [Field ''cookie'' long_unsigned_int,
            Field ''mark'' u32,
            Field ''labels'' (CArr 4 u32),
            Field ''orig_dir'' bool]),
         Field ''mpls_push'' (CStruct [] False
           [Field ''label'' u32,
            Field ''proto'' c__be16,
            Field ''tc'' u8,
            Field ''bos'' u8,
            Field ''ttl'' u8]),
         Field ''mpls_pop'' (CStruct [] False
           [Field ''proto'' c__be16]),
         Field ''mpls_mangle'' (CStruct [] False
           [Field ''label'' u32,
            Field ''tc'' u8,
            Field ''bos'' u8,
            Field ''ttl'' u8]),
         Field ''gate'' (CStruct [] False
           [Field ''prio'' s32,
            Field ''basetime'' u64,
            Field ''cycletime'' u64,
            Field ''cycletimeext'' u64,
            Field ''num_entries'' u32,
            Field ''entries'' (CPtr ''struct action_gate_entry'')]),
         Field ''pppoe'' (CStruct [] False
           [Field ''sid'' u16])]),
      Field ''user_cookie'' (CPtr ''struct flow_action_cookie'')]"

definition struct_fs_disk_quota :: cty where
  "struct_fs_disk_quota = CStruct ''fs_disk_quota'' False
     [Field ''d_version'' c__s8,
      Field ''d_flags'' c__s8,
      Field ''d_fieldmask'' c__u16,
      Field ''d_id'' c__u32,
      Field ''d_blk_hardlimit'' c__u64,
      Field ''d_blk_softlimit'' c__u64,
      Field ''d_ino_hardlimit'' c__u64,
      Field ''d_ino_softlimit'' c__u64,
      Field ''d_bcount'' c__u64,
      Field ''d_icount'' c__u64,
      Field ''d_itimer'' c__s32,
      Field ''d_btimer'' c__s32,
      Field ''d_iwarns'' c__u16,
      Field ''d_bwarns'' c__u16,
      Field ''d_itimer_hi'' c__s8,
      Field ''d_btimer_hi'' c__s8,
      Field ''d_rtbtimer_hi'' c__s8,
      Field ''d_padding2'' c__s8,
      Field ''d_rtb_hardlimit'' c__u64,
      Field ''d_rtb_softlimit'' c__u64,
      Field ''d_rtbcount'' c__u64,
      Field ''d_rtbtimer'' c__s32,
      Field ''d_rtbwarns'' c__u16,
      Field ''d_padding3'' c__s16,
      Field ''d_padding4'' (CArr 8 c_char)]"

definition struct_seq_buf :: cty where
  "struct_seq_buf = CStruct ''seq_buf'' False
     [Field ''buffer'' (CPtr ''char''),
      Field ''size'' size_t,
      Field ''len'' size_t]"

definition struct_trace_seq :: cty where
  "struct_trace_seq = CStruct ''trace_seq'' False
     [Field ''seq'' struct_seq_buf,
      Field ''readpos'' size_t,
      Field ''full'' c_int,
      Field ''buffer'' (CArr 8156 c_char)]"

definition struct_trace_iterator :: cty where
  "struct_trace_iterator = CStruct ''trace_iterator'' False
     [Field ''tr'' (CPtr ''struct trace_array''),
      Field ''trace'' (CPtr ''struct tracer''),
      Field ''array_buffer'' (CPtr ''struct array_buffer''),
      Field ''private'' (CPtr ''void''),
      Field ''cpu_file'' c_int,
      Field ''mutex'' struct_mutex,
      Field ''buffer_iter'' (CPtr ''struct ring_buffer_iter *''),
      Field ''iter_flags'' long_unsigned_int,
      Field ''temp'' (CPtr ''void''),
      Field ''temp_size'' unsigned_int,
      Field ''fmt'' (CPtr ''char''),
      Field ''fmt_size'' unsigned_int,
      Field ''wait_index'' atomic_t,
      Field ''tmp_seq'' struct_trace_seq,
      Field ''started'' cpumask_var_t,
      Field ''closed'' bool,
      Field ''snapshot'' bool,
      Field ''seq'' struct_trace_seq,
      Field ''ent'' (CPtr ''struct trace_entry''),
      Field ''lost_events'' long_unsigned_int,
      Field ''leftover'' c_int,
      Field ''ent_size'' c_int,
      Field ''cpu'' c_int,
      Field ''ts'' u64,
      Field ''pos'' loff_t,
      Field ''idx'' c_long]"

definition struct_fuse_in_arg :: cty where
  "struct_fuse_in_arg = CStruct ''fuse_in_arg'' False
     [Field ''size'' unsigned_int,
      Field ''value'' (CPtr ''const void'')]"

definition struct_fuse_arg :: cty where
  "struct_fuse_arg = CStruct ''fuse_arg'' False
     [Field ''size'' unsigned_int,
      Field ''value'' (CPtr ''void'')]"

definition struct_fuse_args :: cty where
  "struct_fuse_args = CStruct ''fuse_args'' False
     [Field ''nodeid'' uint64_t,
      Field ''opcode'' uint32_t,
      Field ''in_numargs'' uint8_t,
      Field ''out_numargs'' uint8_t,
      Field ''ext_idx'' uint8_t,
      BitField ''force'' bool 1,
      BitField ''noreply'' bool 1,
      BitField ''nocreds'' bool 1,
      BitField ''in_pages'' bool 1,
      BitField ''out_pages'' bool 1,
      BitField ''user_pages'' bool 1,
      BitField ''out_argvar'' bool 1,
      BitField ''page_zeroing'' bool 1,
      BitField ''page_replace'' bool 1,
      BitField ''may_block'' bool 1,
      BitField ''is_ext'' bool 1,
      BitField ''is_pinned'' bool 1,
      BitField ''invalidate_vmap'' bool 1,
      BitField ''abort_on_kill'' bool 1,
      Field ''in_args'' (CArr 4 struct_fuse_in_arg),
      Field ''out_args'' (CArr 2 struct_fuse_arg),
      Field ''end'' (CPtr ''void (struct fuse_mount *, struct fuse_args *, int)''),
      Field ''vmap_base'' (CPtr ''void'')]"

definition struct_fuse_forget_one :: cty where
  "struct_fuse_forget_one = CStruct ''fuse_forget_one'' False
     [Field ''nodeid'' uint64_t,
      Field ''nlookup'' uint64_t]"

definition struct_fuse_forget_link :: cty where
  "struct_fuse_forget_link = CStruct ''fuse_forget_link'' False
     [Field ''forget_one'' struct_fuse_forget_one,
      Field ''next'' (CPtr ''struct fuse_forget_link'')]"

definition struct_fuse_iqueue :: cty where
  "struct_fuse_iqueue = CStruct ''fuse_iqueue'' False
     [Field ''connected'' unsigned_int,
      Field ''lock'' spinlock_t,
      Field ''waitq'' wait_queue_head_t,
      Field ''reqctr'' u64,
      Field ''pending'' struct_list_head,
      Field ''interrupts'' struct_list_head,
      Field ''forget_list_head'' struct_fuse_forget_link,
      Field ''forget_list_tail'' (CPtr ''struct fuse_forget_link''),
      Field ''forget_batch'' c_int,
      Field ''fasync'' (CPtr ''struct fasync_struct''),
      Field ''ops'' (CPtr ''const struct fuse_iqueue_ops''),
      Field ''priv'' (CPtr ''void'')]"

definition enum_fuse_dax_mode :: cty where
  "enum_fuse_dax_mode = CEnum 4
     [(''FUSE_DAX_INODE_DEFAULT'', 0), (''FUSE_DAX_ALWAYS'', 1), (''FUSE_DAX_NEVER'', 2),
      (''FUSE_DAX_INODE_USER'', 3)]"

definition struct_fuse_conn :: cty where
  "struct_fuse_conn = CStruct ''fuse_conn'' False
     [Field ''lock'' spinlock_t,
      Field ''count'' refcount_t,
      Field ''dev_count'' atomic_t,
      Field ''epoch'' atomic_t,
      Field ''epoch_work'' struct_work_struct,
      Field ''rcu'' struct_callback_head,
      Field ''user_id'' kuid_t,
      Field ''group_id'' kgid_t,
      Field ''pid_ns'' (CPtr ''struct pid_namespace''),
      Field ''user_ns'' (CPtr ''struct user_namespace''),
      Field ''max_read'' unsigned_int,
      Field ''max_write'' unsigned_int,
      Field ''max_pages'' unsigned_int,
      Field ''max_pages_limit'' unsigned_int,
      Field ''iq'' struct_fuse_iqueue,
      Field ''khctr'' atomic64_t,
      Field ''polled_files'' struct_rb_root,
      Field ''max_background'' unsigned_int,
      Field ''congestion_threshold'' unsigned_int,
      Field ''num_background'' unsigned_int,
      Field ''active_background'' unsigned_int,
      Field ''bg_queue'' struct_list_head,
      Field ''bg_lock'' spinlock_t,
      Field ''initialized'' c_int,
      Field ''blocked'' c_int,
      Field ''blocked_waitq'' wait_queue_head_t,
      Field ''connected'' unsigned_int,
      Field ''aborted'' bool,
      BitField ''conn_error'' unsigned_int 1,
      BitField ''conn_init'' unsigned_int 1,
      BitField ''async_read'' unsigned_int 1,
      BitField ''abort_err'' unsigned_int 1,
      BitField ''atomic_o_trunc'' unsigned_int 1,
      BitField ''export_support'' unsigned_int 1,
      BitField ''writeback_cache'' unsigned_int 1,
      BitField ''parallel_dirops'' unsigned_int 1,
      BitField ''handle_killpriv'' unsigned_int 1,
      BitField ''cache_symlinks'' unsigned_int 1,
      BitField ''legacy_opts_show'' unsigned_int 1,
      BitField ''handle_killpriv_v2'' unsigned_int 1,
      BitField ''no_open'' unsigned_int 1,
      BitField ''no_opendir'' unsigned_int 1,
      BitField ''no_fsync'' unsigned_int 1,
      BitField ''no_fsyncdir'' unsigned_int 1,
      BitField ''no_flush'' unsigned_int 1,
      BitField ''no_setxattr'' unsigned_int 1,
      BitField ''setxattr_ext'' unsigned_int 1,
      BitField ''no_getxattr'' unsigned_int 1,
      BitField ''no_listxattr'' unsigned_int 1,
      BitField ''no_removexattr'' unsigned_int 1,
      BitField ''no_lock'' unsigned_int 1,
      BitField ''no_access'' unsigned_int 1,
      BitField ''no_create'' unsigned_int 1,
      BitField ''no_interrupt'' unsigned_int 1,
      BitField ''no_bmap'' unsigned_int 1,
      BitField ''no_poll'' unsigned_int 1,
      BitField ''big_writes'' unsigned_int 1,
      BitField ''dont_mask'' unsigned_int 1,
      BitField ''no_flock'' unsigned_int 1,
      BitField ''no_fallocate'' unsigned_int 1,
      BitField ''no_rename2'' unsigned_int 1,
      BitField ''auto_inval_data'' unsigned_int 1,
      BitField ''explicit_inval_data'' unsigned_int 1,
      BitField ''do_readdirplus'' unsigned_int 1,
      BitField ''readdirplus_auto'' unsigned_int 1,
      BitField ''async_dio'' unsigned_int 1,
      BitField ''no_lseek'' unsigned_int 1,
      BitField ''posix_acl'' unsigned_int 1,
      BitField ''default_permissions'' unsigned_int 1,
      BitField ''allow_other'' unsigned_int 1,
      BitField ''no_copy_file_range'' unsigned_int 1,
      BitField ''no_copy_file_range_64'' unsigned_int 1,
      BitField ''destroy'' unsigned_int 1,
      BitField ''delete_stale'' unsigned_int 1,
      BitField ''no_control'' unsigned_int 1,
      BitField ''no_force_umount'' unsigned_int 1,
      BitField ''auto_submounts'' unsigned_int 1,
      BitField ''sync_fs'' unsigned_int 1,
      BitField ''init_security'' unsigned_int 1,
      BitField ''create_supp_group'' unsigned_int 1,
      BitField ''inode_dax'' unsigned_int 1,
      BitField ''no_tmpfile'' unsigned_int 1,
      BitField ''direct_io_allow_mmap'' unsigned_int 1,
      BitField ''no_statx'' unsigned_int 1,
      BitField ''passthrough'' unsigned_int 1,
      BitField ''use_pages_for_kvec_io'' unsigned_int 1,
      BitField ''no_link'' unsigned_int 1,
      BitField ''sync_init'' unsigned_int 1,
      Field ''io_uring'' unsigned_int,
      Field ''max_stack_depth'' c_int,
      Field ''num_waiting'' atomic_t,
      Field ''minor'' unsigned_int,
      Field ''entry'' struct_list_head,
      Field ''dev'' dev_t,
      Field ''scramble_key'' (CArr 4 u32),
      Field ''attr_version'' atomic64_t,
      Field ''evict_ctr'' atomic64_t,
      Field ''name_max'' u32,
      Field ''release'' (CPtr ''void (struct fuse_conn *)''),
      Field ''killsb'' struct_rw_semaphore,
      Field ''devices'' struct_list_head,
      Field ''dax_mode'' enum_fuse_dax_mode,
      Field ''dax'' (CPtr ''struct fuse_conn_dax''),
      Field ''mounts'' struct_list_head,
      Field ''curr_bucket'' (CPtr ''struct fuse_sync_bucket''),
      Field ''backing_files_map'' struct_idr,
      Field ''ring'' (CPtr ''struct fuse_ring''),
      Field ''timeout'' (CStruct [] False
        [Field ''work'' struct_delayed_work,
         Field ''req_timeout'' unsigned_int])]"

definition struct_fuse_file :: cty where
  "struct_fuse_file = CStruct ''fuse_file'' False
     [Field ''fm'' (CPtr ''struct fuse_mount''),
      Field ''args'' (CPtr ''union fuse_file_args''),
      Field ''kh'' u64,
      Field ''fh'' u64,
      Field ''nodeid'' u64,
      Field ''count'' refcount_t,
      Field ''open_flags'' u32,
      Field ''write_entry'' struct_list_head,
      Field ''readdir'' (CStruct [] False
        [Field ''pos'' loff_t,
         Field ''cache_off'' loff_t,
         Field ''version'' u64]),
      Field ''polled_node'' struct_rb_node,
      Field ''poll_wait'' wait_queue_head_t,
      Field ''iomode'' (CEnum 4 [(''IOM_NONE'', 0), (''IOM_CACHED'', 1), (''IOM_UNCACHED'', 2)]),
      Field ''passthrough'' (CPtr ''struct file''),
      Field ''cred'' (CPtr ''const struct cred''),
      BitField ''flock'' bool 1]"

definition struct_fuse_inode :: cty where
  "struct_fuse_inode = CStruct ''fuse_inode'' False
     [Field ''inode'' struct_inode,
      Field ''nodeid'' u64,
      Field ''nlookup'' u64,
      Field ''forget'' (CPtr ''struct fuse_forget_link''),
      Field ''i_time'' u64,
      Field ''inval_mask'' u32,
      Field ''orig_i_mode'' umode_t,
      Field ''i_btime'' struct_timespec64,
      Field ''orig_ino'' u64,
      Field ''attr_version'' u64,
      Field [] (CUnion [] False
        [Field [] (CStruct [] False
           [Field ''write_files'' struct_list_head,
            Field ''queued_writes'' struct_list_head,
            Field ''writectr'' c_int,
            Field ''iocachectr'' c_int,
            Field ''page_waitq'' wait_queue_head_t,
            Field ''direct_io_waitq'' wait_queue_head_t]),
         Field ''rdc'' (CStruct [] False
           [Field ''cached'' bool,
            Field ''size'' loff_t,
            Field ''pos'' loff_t,
            Field ''version'' u64,
            Field ''mtime'' struct_timespec64,
            Field ''iversion'' u64,
            Field ''lock'' spinlock_t])]),
      Field ''state'' long_unsigned_int,
      Field ''mutex'' struct_mutex,
      Field ''lock'' spinlock_t,
      Field ''dax'' (CPtr ''struct fuse_inode_dax''),
      Field ''submount_lookup'' (CPtr ''struct fuse_submount_lookup''),
      Field ''fb'' (CPtr ''struct fuse_backing''),
      Field ''cached_i_blkbits'' u8]"

definition enum_gpd_status :: cty where
  "enum_gpd_status = CEnum 4
     [(''GENPD_STATE_ON'', 0), (''GENPD_STATE_OFF'', 1)]"

definition enum_genpd_sync_state :: cty where
  "enum_genpd_sync_state = CEnum 4
     [(''GENPD_SYNC_STATE_OFF'', 0), (''GENPD_SYNC_STATE_SIMPLE'', 1),
      (''GENPD_SYNC_STATE_ONECELL'', 2)]"

definition struct_gpd_dev_ops :: cty where
  "struct_gpd_dev_ops = CStruct ''gpd_dev_ops'' False
     [Field ''start'' (CPtr ''int (struct device *)''),
      Field ''stop'' (CPtr ''int (struct device *)'')]"

definition struct_generic_pm_domain :: cty where
  "struct_generic_pm_domain = CStruct ''generic_pm_domain'' False
     [Field ''dev'' struct_device,
      Field ''domain'' struct_dev_pm_domain,
      Field ''gpd_list_node'' struct_list_head,
      Field ''parent_links'' struct_list_head,
      Field ''child_links'' struct_list_head,
      Field ''dev_list'' struct_list_head,
      Field ''gov'' (CPtr ''struct dev_power_governor''),
      Field ''gd'' (CPtr ''struct genpd_governor_data''),
      Field ''power_off_work'' struct_work_struct,
      Field ''provider'' (CPtr ''struct fwnode_handle''),
      Field ''has_provider'' bool,
      Field ''name'' (CPtr ''const char''),
      Field ''sd_count'' atomic_t,
      Field ''status'' enum_gpd_status,
      Field ''device_count'' unsigned_int,
      Field ''device_id'' unsigned_int,
      Field ''suspended_count'' unsigned_int,
      Field ''prepared_count'' unsigned_int,
      Field ''performance_state'' unsigned_int,
      Field ''cpus'' cpumask_var_t,
      Field ''synced_poweroff'' bool,
      Field ''stay_on'' bool,
      Field ''sync_state'' enum_genpd_sync_state,
      Field ''power_off'' (CPtr ''int (struct generic_pm_domain *)''),
      Field ''power_on'' (CPtr ''int (struct generic_pm_domain *)''),
      Field ''power_notifiers'' struct_raw_notifier_head,
      Field ''opp_table'' (CPtr ''struct opp_table''),
      Field ''set_performance_state'' (CPtr ''int (struct generic_pm_domain *, unsigned int)''),
      Field ''dev_ops'' struct_gpd_dev_ops,
      Field ''set_hwmode_dev'' (CPtr ''int (struct generic_pm_domain *, struct device *, bool)''),
      Field ''get_hwmode_dev'' (CPtr ''bool (struct generic_pm_domain *, struct device *)''),
      Field ''attach_dev'' (CPtr ''int (struct generic_pm_domain *, struct device *)''),
      Field ''detach_dev'' (CPtr ''void (struct generic_pm_domain *, struct device *)''),
      Field ''flags'' unsigned_int,
      Field ''states'' (CPtr ''struct genpd_power_state''),
      Field ''free_states'' (CPtr ''void (struct genpd_power_state *, unsigned int)''),
      Field ''state_count'' unsigned_int,
      Field ''state_idx'' unsigned_int,
      Field ''on_time'' u64,
      Field ''accounting_time'' u64,
      Field ''lock_ops'' (CPtr ''const struct genpd_lock_ops''),
      Field [] (CUnion [] False
        [Field ''mlock'' struct_mutex,
         Field [] (CStruct [] False
           [Field ''slock'' spinlock_t,
            Field ''lock_flags'' long_unsigned_int]),
         Field [] (CStruct [] False
           [Field ''raw_slock'' raw_spinlock_t,
            Field ''raw_lock_flags'' long_unsigned_int])])]"

definition struct_genl_family :: cty where
  "struct_genl_family = CStruct ''genl_family'' False
     [Field ''hdrsize'' unsigned_int,
      Field ''name'' (CArr 16 c_char),
      Field ''version'' unsigned_int,
      Field ''maxattr'' unsigned_int,
      BitField ''netnsok'' u8 1,
      BitField ''parallel_ops'' u8 1,
      Field ''n_ops'' u8,
      Field ''n_small_ops'' u8,
      Field ''n_split_ops'' u8,
      Field ''n_mcgrps'' u8,
      Field ''resv_start_op'' u8,
      Field ''policy'' (CPtr ''const struct nla_policy''),
      Field ''pre_doit'' (CPtr ''int (const struct genl_split_ops *, struct sk_buff *, struct genl_info *)''),
      Field ''post_doit'' (CPtr ''void (const struct genl_split_ops *, struct sk_buff *, struct genl_info *)''),
      Field ''bind'' (CPtr ''int (int)''),
      Field ''unbind'' (CPtr ''void (int)''),
      Field ''ops'' (CPtr ''const struct genl_ops''),
      Field ''small_ops'' (CPtr ''const struct genl_small_ops''),
      Field ''split_ops'' (CPtr ''const struct genl_split_ops''),
      Field ''mcgrps'' (CPtr ''const struct genl_multicast_group''),
      Field ''module'' (CPtr ''struct module''),
      Field ''sock_priv_size'' size_t,
      Field ''sock_priv_init'' (CPtr ''void (void *)''),
      Field ''sock_priv_destroy'' (CPtr ''void (void *)''),
      Field ''id'' c_int,
      Field ''mcgrp_offset'' unsigned_int,
      Field ''sock_privs'' (CPtr ''struct xarray'')]"

definition struct_ghcb_save_area :: cty where
  "struct_ghcb_save_area = CStruct ''ghcb_save_area'' False
     [Field ''reserved_0x0'' (CArr 203 u8),
      Field ''cpl'' u8,
      Field ''reserved_0xcc'' (CArr 116 u8),
      Field ''xss'' u64,
      Field ''reserved_0x148'' (CArr 24 u8),
      Field ''dr7'' u64,
      Field ''reserved_0x168'' (CArr 16 u8),
      Field ''rip'' u64,
      Field ''reserved_0x180'' (CArr 88 u8),
      Field ''rsp'' u64,
      Field ''reserved_0x1e0'' (CArr 24 u8),
      Field ''rax'' u64,
      Field ''reserved_0x200'' (CArr 264 u8),
      Field ''rcx'' u64,
      Field ''rdx'' u64,
      Field ''rbx'' u64,
      Field ''reserved_0x320'' (CArr 8 u8),
      Field ''rbp'' u64,
      Field ''rsi'' u64,
      Field ''rdi'' u64,
      Field ''r8'' u64,
      Field ''r9'' u64,
      Field ''r10'' u64,
      Field ''r11'' u64,
      Field ''r12'' u64,
      Field ''r13'' u64,
      Field ''r14'' u64,
      Field ''r15'' u64,
      Field ''reserved_0x380'' (CArr 16 u8),
      Field ''sw_exit_code'' u64,
      Field ''sw_exit_info_1'' u64,
      Field ''sw_exit_info_2'' u64,
      Field ''sw_scratch'' u64,
      Field ''reserved_0x3b0'' (CArr 56 u8),
      Field ''xcr0'' u64,
      Field ''valid_bitmap'' (CArr 16 u8),
      Field ''x87_state_gpa'' u64]"

definition struct_hc_driver :: cty where
  "struct_hc_driver = CStruct ''hc_driver'' False
     [Field ''description'' (CPtr ''const char''),
      Field ''product_desc'' (CPtr ''const char''),
      Field ''hcd_priv_size'' size_t,
      Field ''irq'' (CPtr ''irqreturn_t (struct usb_hcd *)''),
      Field ''flags'' c_int,
      Field ''reset'' (CPtr ''int (struct usb_hcd *)''),
      Field ''start'' (CPtr ''int (struct usb_hcd *)''),
      Field ''pci_suspend'' (CPtr ''int (struct usb_hcd *, bool)''),
      Field ''pci_resume'' (CPtr ''int (struct usb_hcd *, pm_message_t)''),
      Field ''pci_poweroff_late'' (CPtr ''int (struct usb_hcd *, bool)''),
      Field ''stop'' (CPtr ''void (struct usb_hcd *)''),
      Field ''shutdown'' (CPtr ''void (struct usb_hcd *)''),
      Field ''get_frame_number'' (CPtr ''int (struct usb_hcd *)''),
      Field ''urb_enqueue'' (CPtr ''int (struct usb_hcd *, struct urb *, gfp_t)''),
      Field ''urb_dequeue'' (CPtr ''int (struct usb_hcd *, struct urb *, int)''),
      Field ''map_urb_for_dma'' (CPtr ''int (struct usb_hcd *, struct urb *, gfp_t)''),
      Field ''unmap_urb_for_dma'' (CPtr ''void (struct usb_hcd *, struct urb *)''),
      Field ''endpoint_disable'' (CPtr ''void (struct usb_hcd *, struct usb_host_endpoint *)''),
      Field ''endpoint_reset'' (CPtr ''void (struct usb_hcd *, struct usb_host_endpoint *)''),
      Field ''hub_status_data'' (CPtr ''int (struct usb_hcd *, char *)''),
      Field ''hub_control'' (CPtr ''int (struct usb_hcd *, u16, u16, u16, char *, u16)''),
      Field ''bus_suspend'' (CPtr ''int (struct usb_hcd *)''),
      Field ''bus_resume'' (CPtr ''int (struct usb_hcd *)''),
      Field ''start_port_reset'' (CPtr ''int (struct usb_hcd *, unsigned int)''),
      Field ''get_resuming_ports'' (CPtr ''long unsigned int (struct usb_hcd *)''),
      Field ''relinquish_port'' (CPtr ''void (struct usb_hcd *, int)''),
      Field ''port_handed_over'' (CPtr ''int (struct usb_hcd *, int)''),
      Field ''clear_tt_buffer_complete'' (CPtr ''void (struct usb_hcd *, struct usb_host_endpoint *)''),
      Field ''alloc_dev'' (CPtr ''int (struct usb_hcd *, struct usb_device *)''),
      Field ''free_dev'' (CPtr ''void (struct usb_hcd *, struct usb_device *)''),
      Field ''alloc_streams'' (CPtr ''int (struct usb_hcd *, struct usb_device *, struct usb_host_endpoint **, unsigned int, unsigned int, gfp_t)''),
      Field ''free_streams'' (CPtr ''int (struct usb_hcd *, struct usb_device *, struct usb_host_endpoint **, unsigned int, gfp_t)''),
      Field ''add_endpoint'' (CPtr ''int (struct usb_hcd *, struct usb_device *, struct usb_host_endpoint *)''),
      Field ''drop_endpoint'' (CPtr ''int (struct usb_hcd *, struct usb_device *, struct usb_host_endpoint *)''),
      Field ''check_bandwidth'' (CPtr ''int (struct usb_hcd *, struct usb_device *)''),
      Field ''reset_bandwidth'' (CPtr ''void (struct usb_hcd *, struct usb_device *)''),
      Field ''address_device'' (CPtr ''int (struct usb_hcd *, struct usb_device *, unsigned int)''),
      Field ''enable_device'' (CPtr ''int (struct usb_hcd *, struct usb_device *)''),
      Field ''update_hub_device'' (CPtr ''int (struct usb_hcd *, struct usb_device *, struct usb_tt *, gfp_t)''),
      Field ''reset_device'' (CPtr ''int (struct usb_hcd *, struct usb_device *)''),
      Field ''update_device'' (CPtr ''int (struct usb_hcd *, struct usb_device *)''),
      Field ''set_usb2_hw_lpm'' (CPtr ''int (struct usb_hcd *, struct usb_device *, int)''),
      Field ''enable_usb3_lpm_timeout'' (CPtr ''int (struct usb_hcd *, struct usb_device *, enum usb3_link_state)''),
      Field ''disable_usb3_lpm_timeout'' (CPtr ''int (struct usb_hcd *, struct usb_device *, enum usb3_link_state)''),
      Field ''find_raw_port_number'' (CPtr ''int (struct usb_hcd *, int)''),
      Field ''port_power'' (CPtr ''int (struct usb_hcd *, int, bool)''),
      Field ''submit_single_step_set_feature'' (CPtr ''int (struct usb_hcd *, struct urb *, int)'')]"

section \<open>Sizes and alignments\<close>

lemma struct_usb_otg_caps_layout [layout_simps]:
  "sizeof struct_usb_otg_caps = 6 \<and> alignof struct_usb_otg_caps = 2 \<and> wf_cty struct_usb_otg_caps"
  by (simp add: struct_usb_otg_caps_def base_types layout_eval u16_def c__u16_def bool_def
      del: One_nat_def)

lemma struct_dwc2_core_params_layout [layout_simps]:
  "sizeof struct_dwc2_core_params = 152 \<and> alignof struct_dwc2_core_params = 4 \<and> wf_cty struct_dwc2_core_params"
  by (simp add: struct_dwc2_core_params_def base_types layout_eval struct_usb_otg_caps_layout u8_def c__u8_def bool_def
      u16_def c__u16_def u32_def c__u32_def
      del: One_nat_def)

lemma enum_dwc2_halt_status_layout [layout_simps]:
  "sizeof enum_dwc2_halt_status = 4 \<and> alignof enum_dwc2_halt_status = 4 \<and> wf_cty enum_dwc2_halt_status"
  by (simp add: enum_dwc2_halt_status_def base_types layout_eval
      del: One_nat_def)

lemma struct_dwc2_host_chan_layout [layout_simps]:
  "sizeof struct_dwc2_host_chan = 120 \<and> alignof struct_dwc2_host_chan = 8 \<and> wf_cty struct_dwc2_host_chan"
  by (simp add: struct_dwc2_host_chan_def base_types layout_eval u8_def c__u8_def dma_addr_t_def u64_def c__u64_def
      u32_def c__u32_def u16_def c__u16_def enum_dwc2_halt_status_layout struct_list_head_layout
      del: One_nat_def)

lemma struct_dwc2_hw_params_layout [layout_simps]:
  "sizeof struct_dwc2_hw_params = 96 \<and> alignof struct_dwc2_hw_params = 4 \<and> wf_cty struct_dwc2_hw_params"
  by (simp add: struct_dwc2_hw_params_def base_types layout_eval u32_def c__u32_def
      del: One_nat_def)

lemma enum_usb_otg_state_layout [layout_simps]:
  "sizeof enum_usb_otg_state = 4 \<and> alignof enum_usb_otg_state = 4 \<and> wf_cty enum_usb_otg_state"
  by (simp add: enum_usb_otg_state_def base_types layout_eval
      del: One_nat_def)

lemma enum_usb_dr_mode_layout [layout_simps]:
  "sizeof enum_usb_dr_mode = 4 \<and> alignof enum_usb_dr_mode = 4 \<and> wf_cty enum_usb_dr_mode"
  by (simp add: enum_usb_dr_mode_def base_types layout_eval
      del: One_nat_def)

lemma struct_regulator_bulk_data_layout [layout_simps]:
  "sizeof struct_regulator_bulk_data = 24 \<and> alignof struct_regulator_bulk_data = 8 \<and> wf_cty struct_regulator_bulk_data"
  by (simp add: struct_regulator_bulk_data_def base_types layout_eval
      del: One_nat_def)

lemma enum_dwc2_lx_state_layout [layout_simps]:
  "sizeof enum_dwc2_lx_state = 4 \<and> alignof enum_dwc2_lx_state = 4 \<and> wf_cty enum_dwc2_lx_state"
  by (simp add: enum_dwc2_lx_state_def base_types layout_eval
      del: One_nat_def)

lemma struct_dwc2_gregs_backup_layout [layout_simps]:
  "sizeof struct_dwc2_gregs_backup = 56 \<and> alignof struct_dwc2_gregs_backup = 4 \<and> wf_cty struct_dwc2_gregs_backup"
  by (simp add: struct_dwc2_gregs_backup_def base_types layout_eval u32_def c__u32_def bool_def
      del: One_nat_def)

lemma struct_dwc2_dregs_backup_layout [layout_simps]:
  "sizeof struct_dwc2_dregs_backup = 472 \<and> alignof struct_dwc2_dregs_backup = 4 \<and> wf_cty struct_dwc2_dregs_backup"
  by (simp add: struct_dwc2_dregs_backup_def base_types layout_eval u32_def c__u32_def bool_def
      del: One_nat_def)

lemma struct_dwc2_hregs_backup_layout [layout_simps]:
  "sizeof struct_dwc2_hregs_backup = 412 \<and> alignof struct_dwc2_hregs_backup = 4 \<and> wf_cty struct_dwc2_hregs_backup"
  by (simp add: struct_dwc2_hregs_backup_def base_types layout_eval u32_def c__u32_def bool_def
      del: One_nat_def)

lemma union_dwc2_hcd_internal_flags_layout [layout_simps]:
  "sizeof union_dwc2_hcd_internal_flags = 4 \<and> alignof union_dwc2_hcd_internal_flags = 4 \<and> wf_cty union_dwc2_hcd_internal_flags"
  by (simp add: union_dwc2_hcd_internal_flags_def base_types layout_eval u32_def c__u32_def
      del: One_nat_def)

lemma struct_dwc2_hsotg_layout [layout_simps]:
  "sizeof struct_dwc2_hsotg = 2192 \<and> alignof struct_dwc2_hsotg = 8 \<and> wf_cty struct_dwc2_hsotg"
  by (simp add: struct_dwc2_hsotg_def base_types layout_eval struct_dwc2_hw_params_layout struct_dwc2_core_params_layout
      enum_usb_otg_state_layout enum_usb_dr_mode_layout bool_def u16_def c__u16_def
      struct_regulator_bulk_data_layout spinlock_t_def struct_spinlock_layout struct_work_struct_layout
      struct_timer_list_layout enum_dwc2_lx_state_layout struct_dwc2_gregs_backup_layout
      struct_dwc2_dregs_backup_layout struct_dwc2_hregs_backup_layout
      union_dwc2_hcd_internal_flags_layout struct_list_head_layout dma_addr_t_def u64_def c__u64_def
      struct_delayed_work_layout u8_def c__u8_def u32_def c__u32_def
      del: One_nat_def)

lemma struct_dwc2_hs_transfer_time_layout [layout_simps]:
  "sizeof struct_dwc2_hs_transfer_time = 8 \<and> alignof struct_dwc2_hs_transfer_time = 4 \<and> wf_cty struct_dwc2_hs_transfer_time"
  by (simp add: struct_dwc2_hs_transfer_time_def base_types layout_eval u32_def c__u32_def u16_def c__u16_def
      del: One_nat_def)

lemma struct_dwc2_qh_layout [layout_simps]:
  "sizeof struct_dwc2_qh = 320 \<and> alignof struct_dwc2_qh = 8 \<and> wf_cty struct_dwc2_qh"
  by (simp add: struct_dwc2_qh_def base_types layout_eval u8_def c__u8_def u16_def c__u16_def s16_def c__s16_def
      struct_dwc2_hs_transfer_time_layout u32_def c__u32_def dma_addr_t_def u64_def c__u64_def
      struct_list_head_layout struct_timer_list_layout struct_hrtimer_layout
      del: One_nat_def)

lemma enum_uart_iotype_layout [layout_simps]:
  "sizeof enum_uart_iotype = 4 \<and> alignof enum_uart_iotype = 4 \<and> wf_cty enum_uart_iotype"
  by (simp add: enum_uart_iotype_def base_types layout_eval
      del: One_nat_def)

lemma struct_uart_icount_layout [layout_simps]:
  "sizeof struct_uart_icount = 44 \<and> alignof struct_uart_icount = 4 \<and> wf_cty struct_uart_icount"
  by (simp add: struct_uart_icount_def base_types layout_eval c__u32_def
      del: One_nat_def)

lemma struct_serial_rs485_layout [layout_simps]:
  "sizeof struct_serial_rs485 = 32 \<and> alignof struct_serial_rs485 = 4 \<and> wf_cty struct_serial_rs485"
  by (simp add: struct_serial_rs485_def base_types layout_eval c__u32_def c__u8_def
      del: One_nat_def)

lemma struct_serial_iso7816_layout [layout_simps]:
  "sizeof struct_serial_iso7816 = 40 \<and> alignof struct_serial_iso7816 = 4 \<and> wf_cty struct_serial_iso7816"
  by (simp add: struct_serial_iso7816_def base_types layout_eval c__u32_def
      del: One_nat_def)

lemma struct_uart_port_layout [layout_simps]:
  "sizeof struct_uart_port = 528 \<and> alignof struct_uart_port = 8 \<and> wf_cty struct_uart_port"
  by (simp add: struct_uart_port_def base_types layout_eval spinlock_t_def struct_spinlock_layout enum_uart_iotype_layout
      struct_uart_icount_layout upf_t_def u64_def c__u64_def upstat_t_def bool_def resource_size_t_def
      phys_addr_t_def u8_def c__u8_def struct_serial_rs485_layout struct_serial_iso7816_layout
      del: One_nat_def)

lemma struct_edac_device_counter_layout [layout_simps]:
  "sizeof struct_edac_device_counter = 8 \<and> alignof struct_edac_device_counter = 4 \<and> wf_cty struct_edac_device_counter"
  by (simp add: struct_edac_device_counter_def base_types layout_eval u32_def c__u32_def
      del: One_nat_def)

lemma struct_edac_device_ctl_info_layout [layout_simps]:
  "sizeof struct_edac_device_ctl_info = 352 \<and> alignof struct_edac_device_ctl_info = 8 \<and> wf_cty struct_edac_device_ctl_info"
  by (simp add: struct_edac_device_ctl_info_def base_types layout_eval struct_list_head_layout struct_delayed_work_layout
      u32_def c__u32_def struct_edac_device_counter_layout struct_kobject_layout
      del: One_nat_def)

lemma struct_edac_mem_repair_ops_layout [layout_simps]:
  "sizeof struct_edac_mem_repair_ops = 232 \<and> alignof struct_edac_mem_repair_ops = 8 \<and> wf_cty struct_edac_mem_repair_ops"
  by (simp add: struct_edac_mem_repair_ops_def base_types layout_eval
      del: One_nat_def)

lemma struct_efi_memory_map_layout [layout_simps]:
  "sizeof struct_efi_memory_map = 56 \<and> alignof struct_efi_memory_map = 8 \<and> wf_cty struct_efi_memory_map"
  by (simp add: struct_efi_memory_map_def base_types layout_eval phys_addr_t_def u64_def c__u64_def
      del: One_nat_def)

lemma struct_efi_layout [layout_simps]:
  "sizeof struct_efi = 280 \<and> alignof struct_efi = 8 \<and> wf_cty struct_efi"
  by (simp add: struct_efi_def base_types layout_eval struct_efi_memory_map_layout
      del: One_nat_def)

lemma union_efi_rts_args_layout [layout_simps]:
  "sizeof union_efi_rts_args = 40 \<and> alignof union_efi_rts_args = 8 \<and> wf_cty union_efi_rts_args"
  by (simp add: union_efi_rts_args_def base_types layout_eval efi_bool_t_def u8_def c__u8_def u32_def c__u32_def u64_def
      c__u64_def
      del: One_nat_def)

lemma enum_ehci_hrtimer_event_layout [layout_simps]:
  "sizeof enum_ehci_hrtimer_event = 4 \<and> alignof enum_ehci_hrtimer_event = 4 \<and> wf_cty enum_ehci_hrtimer_event"
  by (simp add: enum_ehci_hrtimer_event_def base_types layout_eval
      del: One_nat_def)

lemma enum_ehci_rh_state_layout [layout_simps]:
  "sizeof enum_ehci_rh_state = 4 \<and> alignof enum_ehci_rh_state = 4 \<and> wf_cty enum_ehci_rh_state"
  by (simp add: enum_ehci_rh_state_def base_types layout_eval
      del: One_nat_def)

lemma struct_ehci_stats_layout [layout_simps]:
  "sizeof struct_ehci_stats = 48 \<and> alignof struct_ehci_stats = 8 \<and> wf_cty struct_ehci_stats"
  by (simp add: struct_ehci_stats_def base_types layout_eval
      del: One_nat_def)

lemma struct_ehci_hcd_layout [layout_simps]:
  "sizeof struct_ehci_hcd = 912 \<and> alignof struct_ehci_hcd = 8 \<and> wf_cty struct_ehci_hcd"
  by (simp add: struct_ehci_hcd_def base_types layout_eval enum_ehci_hrtimer_event_layout ktime_t_def s64_def c__s64_def
      struct_hrtimer_layout c__u32_def spinlock_t_def struct_spinlock_layout enum_ehci_rh_state_layout
      bool_def struct_list_head_layout c__le32_def dma_addr_t_def u64_def c__u64_def u32_def u8_def
      c__u8_def struct_ehci_stats_layout
      del: One_nat_def)

lemma struct_ehci_regs_layout [layout_simps]:
  "sizeof struct_ehci_regs = 204 \<and> alignof struct_ehci_regs = 4 \<and> wf_cty struct_ehci_regs"
  by (simp add: struct_ehci_regs_def base_types layout_eval u32_def c__u32_def
      del: One_nat_def)

lemma struct_touchscreen_properties_layout [layout_simps]:
  "sizeof struct_touchscreen_properties = 12 \<and> alignof struct_touchscreen_properties = 4 \<and> wf_cty struct_touchscreen_properties"
  by (simp add: struct_touchscreen_properties_def base_types layout_eval bool_def
      del: One_nat_def)

lemma enum_elants_state_layout [layout_simps]:
  "sizeof enum_elants_state = 4 \<and> alignof enum_elants_state = 4 \<and> wf_cty enum_elants_state"
  by (simp add: enum_elants_state_def base_types layout_eval
      del: One_nat_def)

lemma enum_elants_chip_id_layout [layout_simps]:
  "sizeof enum_elants_chip_id = 4 \<and> alignof enum_elants_chip_id = 4 \<and> wf_cty enum_elants_chip_id"
  by (simp add: enum_elants_chip_id_def base_types layout_eval
      del: One_nat_def)

lemma enum_elants_iap_mode_layout [layout_simps]:
  "sizeof enum_elants_iap_mode = 4 \<and> alignof enum_elants_iap_mode = 4 \<and> wf_cty enum_elants_iap_mode"
  by (simp add: enum_elants_iap_mode_def base_types layout_eval
      del: One_nat_def)

lemma struct_elants_data_layout [layout_simps]:
  "sizeof struct_elants_data = 384 \<and> alignof struct_elants_data = 8 \<and> wf_cty struct_elants_data"
  by (simp add: struct_elants_data_def base_types layout_eval u16_def c__u16_def u8_def c__u8_def
      struct_touchscreen_properties_layout enum_elants_state_layout enum_elants_chip_id_layout
      enum_elants_iap_mode_layout struct_mutex_layout struct_completion_layout bool_def
      del: One_nat_def)

lemma struct_insn_field_layout [layout_simps]:
  "sizeof struct_insn_field = 8 \<and> alignof struct_insn_field = 4 \<and> wf_cty struct_insn_field"
  by (simp add: struct_insn_field_def base_types layout_eval insn_value_t_def insn_byte_t_def
      del: One_nat_def)

lemma struct_insn_layout [layout_simps]:
  "sizeof struct_insn = 112 \<and> alignof struct_insn = 8 \<and> wf_cty struct_insn"
  by (simp add: struct_insn_def base_types layout_eval struct_insn_field_layout insn_attr_t_def
      del: One_nat_def)

lemma enum_ethtool_mac_stats_src_layout [layout_simps]:
  "sizeof enum_ethtool_mac_stats_src = 4 \<and> alignof enum_ethtool_mac_stats_src = 4 \<and> wf_cty enum_ethtool_mac_stats_src"
  by (simp add: enum_ethtool_mac_stats_src_def base_types layout_eval
      del: One_nat_def)

lemma struct_ethtool_eth_mac_stats_layout [layout_simps]:
  "sizeof struct_ethtool_eth_mac_stats = 184 \<and> alignof struct_ethtool_eth_mac_stats = 8 \<and> wf_cty struct_ethtool_eth_mac_stats"
  by (simp add: struct_ethtool_eth_mac_stats_def base_types layout_eval enum_ethtool_mac_stats_src_layout u64_def
      c__u64_def
      del: One_nat_def)

lemma struct_ext4_free_extent_layout [layout_simps]:
  "sizeof struct_ext4_free_extent = 16 \<and> alignof struct_ext4_free_extent = 4 \<and> wf_cty struct_ext4_free_extent"
  by (simp add: struct_ext4_free_extent_def base_types layout_eval ext4_lblk_t_def c__u32_def ext4_grpblk_t_def
      ext4_group_t_def
      del: One_nat_def)

lemma struct_ext4_allocation_context_layout [layout_simps]:
  "sizeof struct_ext4_allocation_context = 168 \<and> alignof struct_ext4_allocation_context = 8 \<and> wf_cty struct_ext4_allocation_context"
  by (simp add: struct_ext4_allocation_context_def base_types layout_eval struct_ext4_free_extent_layout
      ext4_grpblk_t_def ext4_group_t_def c__u32_def c__u16_def c__u8_def
      del: One_nat_def)

lemma struct_fscrypt_dummy_policy_layout [layout_simps]:
  "sizeof struct_fscrypt_dummy_policy = 8 \<and> alignof struct_fscrypt_dummy_policy = 8 \<and> wf_cty struct_fscrypt_dummy_policy"
  by (simp add: struct_fscrypt_dummy_policy_def base_types layout_eval
      del: One_nat_def)

lemma struct_ext4_fs_context_layout [layout_simps]:
  "sizeof struct_ext4_fs_context = 152 \<and> alignof struct_ext4_fs_context = 8 \<and> wf_cty struct_ext4_fs_context"
  by (simp add: struct_ext4_fs_context_def base_types layout_eval struct_fscrypt_dummy_policy_layout u32_def c__u32_def
      kuid_t_layout kgid_t_layout ext4_fsblk_t_def
      del: One_nat_def)

lemma struct_ext4_group_desc_layout [layout_simps]:
  "sizeof struct_ext4_group_desc = 64 \<and> alignof struct_ext4_group_desc = 4 \<and> wf_cty struct_ext4_group_desc"
  by (simp add: struct_ext4_group_desc_def base_types layout_eval c__le32_def c__u32_def c__le16_def c__u16_def
      del: One_nat_def)

lemma struct_ext4_inode_layout [layout_simps]:
  "sizeof struct_ext4_inode = 160 \<and> alignof struct_ext4_inode = 4 \<and> wf_cty struct_ext4_inode"
  by (simp add: struct_ext4_inode_def base_types layout_eval c__le16_def c__u16_def c__le32_def c__u32_def
      del: One_nat_def)

lemma struct_ext4_es_tree_layout [layout_simps]:
  "sizeof struct_ext4_es_tree = 16 \<and> alignof struct_ext4_es_tree = 8 \<and> wf_cty struct_ext4_es_tree"
  by (simp add: struct_ext4_es_tree_def base_types layout_eval struct_rb_root_layout
      del: One_nat_def)

lemma struct_ext4_pending_tree_layout [layout_simps]:
  "sizeof struct_ext4_pending_tree = 8 \<and> alignof struct_ext4_pending_tree = 8 \<and> wf_cty struct_ext4_pending_tree"
  by (simp add: struct_ext4_pending_tree_def base_types layout_eval struct_rb_root_layout
      del: One_nat_def)

lemma kprojid_t_layout [layout_simps]:
  "sizeof kprojid_t = 4 \<and> alignof kprojid_t = 4 \<and> wf_cty kprojid_t"
  by (simp add: kprojid_t_def base_types layout_eval projid_t_def c__kernel_uid32_t_def
      del: One_nat_def)

lemma struct_ext4_inode_info_layout [layout_simps]:
  "sizeof struct_ext4_inode_info = 1128 \<and> alignof struct_ext4_inode_info = 8 \<and> wf_cty struct_ext4_inode_info"
  by (simp add: struct_ext4_inode_info_def base_types layout_eval c__le32_def c__u32_def ext4_fsblk_t_def
      ext4_group_t_def ext4_lblk_t_def struct_rw_semaphore_layout struct_list_head_layout spinlock_t_def
      struct_spinlock_layout wait_queue_head_t_def struct_wait_queue_head_layout loff_t_def
      c__kernel_loff_t_def struct_inode_layout struct_timespec64_layout atomic_t_layout
      struct_rb_root_layout rwlock_t_def struct_rwlock_layout struct_ext4_es_tree_layout u64_def
      c__u64_def struct_ext4_pending_tree_layout c__u16_def u16_def qsize_t_def struct_work_struct_layout
      tid_t_def kprojid_t_layout
      del: One_nat_def)

lemma struct_ext4_orphan_info_layout [layout_simps]:
  "sizeof struct_ext4_orphan_info = 16 \<and> alignof struct_ext4_orphan_info = 8 \<and> wf_cty struct_ext4_orphan_info"
  by (simp add: struct_ext4_orphan_info_def base_types layout_eval c__u32_def
      del: One_nat_def)

lemma struct_ext4_es_stats_layout [layout_simps]:
  "sizeof struct_ext4_es_stats = 184 \<and> alignof struct_ext4_es_stats = 8 \<and> wf_cty struct_ext4_es_stats"
  by (simp add: struct_ext4_es_stats_def base_types layout_eval struct_percpu_counter_layout u64_def c__u64_def
      del: One_nat_def)

lemma struct_jbd2_buffer_trigger_type_layout [layout_simps]:
  "sizeof struct_jbd2_buffer_trigger_type = 16 \<and> alignof struct_jbd2_buffer_trigger_type = 8 \<and> wf_cty struct_jbd2_buffer_trigger_type"
  by (simp add: struct_jbd2_buffer_trigger_type_def base_types layout_eval
      del: One_nat_def)

lemma struct_ext4_journal_trigger_layout [layout_simps]:
  "sizeof struct_ext4_journal_trigger = 24 \<and> alignof struct_ext4_journal_trigger = 8 \<and> wf_cty struct_ext4_journal_trigger"
  by (simp add: struct_ext4_journal_trigger_def base_types layout_eval struct_jbd2_buffer_trigger_type_layout
      del: One_nat_def)

lemma struct_ext4_fc_stats_layout [layout_simps]:
  "sizeof struct_ext4_fc_stats = 104 \<and> alignof struct_ext4_fc_stats = 8 \<and> wf_cty struct_ext4_fc_stats"
  by (simp add: struct_ext4_fc_stats_def base_types layout_eval u64_def c__u64_def
      del: One_nat_def)

lemma struct_ext4_fc_replay_state_layout [layout_simps]:
  "sizeof struct_ext4_fc_replay_state = 64 \<and> alignof struct_ext4_fc_replay_state = 8 \<and> wf_cty struct_ext4_fc_replay_state"
  by (simp add: struct_ext4_fc_replay_state_def base_types layout_eval
      del: One_nat_def)

lemma struct_ext4_sb_info_layout [layout_simps]:
  "sizeof struct_ext4_sb_info = 2304 \<and> alignof struct_ext4_sb_info = 8 \<and> wf_cty struct_ext4_sb_info"
  by (simp add: struct_ext4_sb_info_def base_types layout_eval ext4_group_t_def loff_t_def c__kernel_loff_t_def
      ext4_fsblk_t_def atomic64_t_layout kuid_t_layout kgid_t_layout u32_def c__u32_def
      struct_percpu_counter_layout struct_kobject_layout struct_completion_layout struct_mutex_layout
      struct_list_head_layout struct_ext4_orphan_info_layout spinlock_t_def struct_spinlock_layout
      atomic_t_layout struct_work_struct_layout u64_def c__u64_def struct_timer_list_layout u16_def
      c__u16_def struct_ext4_es_stats_layout struct_ext4_journal_trigger_layout
      struct_ratelimit_state_layout struct_fscrypt_dummy_policy_layout struct_percpu_rw_semaphore_layout
      errseq_t_def time64_t_def c__s64_def struct_ext4_fc_stats_layout tid_t_def
      struct_ext4_fc_replay_state_layout
      del: One_nat_def)

lemma struct_ext4_super_block_layout [layout_simps]:
  "sizeof struct_ext4_super_block = 1024 \<and> alignof struct_ext4_super_block = 8 \<and> wf_cty struct_ext4_super_block"
  by (simp add: struct_ext4_super_block_def base_types layout_eval c__le32_def c__u32_def c__le16_def c__u16_def
      c__u8_def c__le64_def c__u64_def
      del: One_nat_def)

lemma struct_ext4_tune_sb_params_layout [layout_simps]:
  "sizeof struct_ext4_tune_sb_params = 232 \<and> alignof struct_ext4_tune_sb_params = 8 \<and> wf_cty struct_ext4_tune_sb_params"
  by (simp add: struct_ext4_tune_sb_params_def base_types layout_eval c__u32_def c__u16_def c__u64_def c__u8_def
      del: One_nat_def)

lemma struct_fat_boot_sector_layout [layout_simps]:
  "sizeof struct_fat_boot_sector = 92 \<and> alignof struct_fat_boot_sector = 4 \<and> wf_cty struct_fat_boot_sector"
  by (simp add: struct_fat_boot_sector_def base_types layout_eval c__u8_def c__le16_def c__u16_def c__le32_def c__u32_def
      del: One_nat_def)

lemma struct_fat_mount_options_layout [layout_simps]:
  "sizeof struct_fat_mount_options = 48 \<and> alignof struct_fat_mount_options = 8 \<and> wf_cty struct_fat_mount_options"
  by (simp add: struct_fat_mount_options_def base_types layout_eval kuid_t_layout kgid_t_layout
      del: One_nat_def)

lemma struct_fb_cvt_data_layout [layout_simps]:
  "sizeof struct_fb_cvt_data = 92 \<and> alignof struct_fb_cvt_data = 4 \<and> wf_cty struct_fb_cvt_data"
  by (simp add: struct_fb_cvt_data_def base_types layout_eval u32_def c__u32_def
      del: One_nat_def)

lemma struct_fib_kuid_range_layout [layout_simps]:
  "sizeof struct_fib_kuid_range = 8 \<and> alignof struct_fib_kuid_range = 4 \<and> wf_cty struct_fib_kuid_range"
  by (simp add: struct_fib_kuid_range_def base_types layout_eval kuid_t_layout
      del: One_nat_def)

lemma struct_fib_rule_port_range_layout [layout_simps]:
  "sizeof struct_fib_rule_port_range = 4 \<and> alignof struct_fib_rule_port_range = 2 \<and> wf_cty struct_fib_rule_port_range"
  by (simp add: struct_fib_rule_port_range_def base_types layout_eval c__u16_def
      del: One_nat_def)

lemma struct_fib_rule_layout [layout_simps]:
  "sizeof struct_fib_rule = 160 \<and> alignof struct_fib_rule = 8 \<and> wf_cty struct_fib_rule"
  by (simp add: struct_fib_rule_def base_types layout_eval struct_list_head_layout u32_def c__u32_def u8_def c__u8_def
      c__be64_def c__u64_def refcount_t_def struct_refcount_struct_layout struct_fib_kuid_range_layout
      struct_fib_rule_port_range_layout u16_def c__u16_def struct_callback_head_layout
      del: One_nat_def)

lemma struct_nl_info_layout [layout_simps]:
  "sizeof struct_nl_info = 24 \<and> alignof struct_nl_info = 8 \<and> wf_cty struct_nl_info"
  by (simp add: struct_nl_info_def base_types layout_eval u32_def c__u32_def u8_def c__u8_def
      del: One_nat_def)

lemma struct_fib6_config_layout [layout_simps]:
  "sizeof struct_fib6_config = 176 \<and> alignof struct_fib6_config = 8 \<and> wf_cty struct_fib6_config"
  by (simp add: struct_fib6_config_def base_types layout_eval u32_def c__u32_def u16_def c__u16_def
      struct_in6_addr_layout struct_nl_info_layout bool_def
      del: One_nat_def)

lemma struct_fib_config_layout [layout_simps]:
  "sizeof struct_fib_config = 128 \<and> alignof struct_fib_config = 8 \<and> wf_cty struct_fib_config"
  by (simp add: struct_fib_config_def base_types layout_eval u8_def c__u8_def dscp_t_def u32_def c__u32_def c__be32_def
      struct_in6_addr_layout struct_nl_info_layout u16_def c__u16_def
      del: One_nat_def)

lemma struct_fid_layout [layout_simps]:
  "sizeof struct_fid = 20 \<and> alignof struct_fid = 4 \<and> wf_cty struct_fid"
  by (simp add: struct_fid_def base_types layout_eval u32_def c__u32_def u64_def c__u64_def u16_def c__u16_def
      del: One_nat_def)

lemma enum_flow_action_hw_stats_layout [layout_simps]:
  "sizeof enum_flow_action_hw_stats = 4 \<and> alignof enum_flow_action_hw_stats = 4 \<and> wf_cty enum_flow_action_hw_stats"
  by (simp add: enum_flow_action_hw_stats_def base_types layout_eval
      del: One_nat_def)

lemma enum_flow_action_mangle_base_layout [layout_simps]:
  "sizeof enum_flow_action_mangle_base = 4 \<and> alignof enum_flow_action_mangle_base = 4 \<and> wf_cty enum_flow_action_mangle_base"
  by (simp add: enum_flow_action_mangle_base_def base_types layout_eval
      del: One_nat_def)

lemma struct_flow_action_police_layout [layout_simps]:
  "sizeof struct_flow_action_police = 72 \<and> alignof struct_flow_action_police = 8 \<and> wf_cty struct_flow_action_police"
  by (simp add: struct_flow_action_police_def base_types layout_eval u32_def c__u32_def u64_def c__u64_def u16_def
      c__u16_def enum_flow_action_id_layout
      del: One_nat_def)

lemma struct_flow_action_entry_layout [layout_simps]:
  "sizeof struct_flow_action_entry = 128 \<and> alignof struct_flow_action_entry = 8 \<and> wf_cty struct_flow_action_entry"
  by (simp add: struct_flow_action_entry_def base_types layout_eval enum_flow_action_id_layout u32_def c__u32_def u64_def
      c__u64_def enum_flow_action_hw_stats_layout action_destr_def u16_def c__u16_def c__be16_def u8_def
      c__u8_def enum_flow_action_mangle_base_layout bool_def struct_flow_action_police_layout s32_def
      c__s32_def
      del: One_nat_def)

lemma struct_fs_disk_quota_layout [layout_simps]:
  "sizeof struct_fs_disk_quota = 112 \<and> alignof struct_fs_disk_quota = 8 \<and> wf_cty struct_fs_disk_quota"
  by (simp add: struct_fs_disk_quota_def base_types layout_eval c__s8_def c__u16_def c__u32_def c__u64_def c__s32_def
      c__s16_def
      del: One_nat_def)

lemma struct_seq_buf_layout [layout_simps]:
  "sizeof struct_seq_buf = 24 \<and> alignof struct_seq_buf = 8 \<and> wf_cty struct_seq_buf"
  by (simp add: struct_seq_buf_def base_types layout_eval size_t_def c__kernel_size_t_def c__kernel_ulong_t_def
      del: One_nat_def)

lemma struct_trace_seq_layout [layout_simps]:
  "sizeof struct_trace_seq = 8192 \<and> alignof struct_trace_seq = 8 \<and> wf_cty struct_trace_seq"
  by (simp add: struct_trace_seq_def base_types layout_eval struct_seq_buf_layout size_t_def c__kernel_size_t_def
      c__kernel_ulong_t_def
      del: One_nat_def)

lemma struct_trace_iterator_layout [layout_simps]:
  "sizeof struct_trace_iterator = 16576 \<and> alignof struct_trace_iterator = 8 \<and> wf_cty struct_trace_iterator"
  by (simp add: struct_trace_iterator_def base_types layout_eval struct_mutex_layout atomic_t_layout
      struct_trace_seq_layout cpumask_var_t_def bool_def u64_def c__u64_def loff_t_def
      c__kernel_loff_t_def
      del: One_nat_def)

lemma struct_fuse_in_arg_layout [layout_simps]:
  "sizeof struct_fuse_in_arg = 16 \<and> alignof struct_fuse_in_arg = 8 \<and> wf_cty struct_fuse_in_arg"
  by (simp add: struct_fuse_in_arg_def base_types layout_eval
      del: One_nat_def)

lemma struct_fuse_arg_layout [layout_simps]:
  "sizeof struct_fuse_arg = 16 \<and> alignof struct_fuse_arg = 8 \<and> wf_cty struct_fuse_arg"
  by (simp add: struct_fuse_arg_def base_types layout_eval
      del: One_nat_def)

lemma struct_fuse_args_layout [layout_simps]:
  "sizeof struct_fuse_args = 136 \<and> alignof struct_fuse_args = 8 \<and> wf_cty struct_fuse_args"
  by (simp add: struct_fuse_args_def base_types layout_eval uint64_t_def u64_def c__u64_def uint32_t_def u32_def
      c__u32_def uint8_t_def u8_def c__u8_def bool_def struct_fuse_in_arg_layout struct_fuse_arg_layout
      del: One_nat_def)

lemma struct_fuse_forget_one_layout [layout_simps]:
  "sizeof struct_fuse_forget_one = 16 \<and> alignof struct_fuse_forget_one = 8 \<and> wf_cty struct_fuse_forget_one"
  by (simp add: struct_fuse_forget_one_def base_types layout_eval uint64_t_def u64_def c__u64_def
      del: One_nat_def)

lemma struct_fuse_forget_link_layout [layout_simps]:
  "sizeof struct_fuse_forget_link = 24 \<and> alignof struct_fuse_forget_link = 8 \<and> wf_cty struct_fuse_forget_link"
  by (simp add: struct_fuse_forget_link_def base_types layout_eval struct_fuse_forget_one_layout
      del: One_nat_def)

lemma struct_fuse_iqueue_layout [layout_simps]:
  "sizeof struct_fuse_iqueue = 136 \<and> alignof struct_fuse_iqueue = 8 \<and> wf_cty struct_fuse_iqueue"
  by (simp add: struct_fuse_iqueue_def base_types layout_eval spinlock_t_def struct_spinlock_layout wait_queue_head_t_def
      struct_wait_queue_head_layout u64_def c__u64_def struct_list_head_layout
      struct_fuse_forget_link_layout
      del: One_nat_def)

lemma enum_fuse_dax_mode_layout [layout_simps]:
  "sizeof enum_fuse_dax_mode = 4 \<and> alignof enum_fuse_dax_mode = 4 \<and> wf_cty enum_fuse_dax_mode"
  by (simp add: enum_fuse_dax_mode_def base_types layout_eval
      del: One_nat_def)

lemma struct_fuse_conn_layout [layout_simps]:
  "sizeof struct_fuse_conn = 656 \<and> alignof struct_fuse_conn = 8 \<and> wf_cty struct_fuse_conn"
  by (simp add: struct_fuse_conn_def base_types layout_eval spinlock_t_def struct_spinlock_layout refcount_t_def
      struct_refcount_struct_layout atomic_t_layout struct_work_struct_layout struct_callback_head_layout
      kuid_t_layout kgid_t_layout struct_fuse_iqueue_layout atomic64_t_layout struct_rb_root_layout
      struct_list_head_layout wait_queue_head_t_def struct_wait_queue_head_layout bool_def dev_t_def
      c__kernel_dev_t_def u32_def c__u32_def struct_rw_semaphore_layout enum_fuse_dax_mode_layout
      struct_idr_layout struct_delayed_work_layout
      del: One_nat_def)

lemma struct_fuse_file_layout [layout_simps]:
  "sizeof struct_fuse_file = 168 \<and> alignof struct_fuse_file = 8 \<and> wf_cty struct_fuse_file"
  by (simp add: struct_fuse_file_def base_types layout_eval u64_def c__u64_def refcount_t_def
      struct_refcount_struct_layout u32_def c__u32_def struct_list_head_layout loff_t_def
      c__kernel_loff_t_def struct_rb_node_layout wait_queue_head_t_def struct_wait_queue_head_layout
      bool_def
      del: One_nat_def)

lemma struct_fuse_inode_layout [layout_simps]:
  "sizeof struct_fuse_inode = 848 \<and> alignof struct_fuse_inode = 8 \<and> wf_cty struct_fuse_inode"
  by (simp add: struct_fuse_inode_def base_types layout_eval struct_inode_layout u64_def c__u64_def u32_def c__u32_def
      umode_t_def struct_timespec64_layout struct_list_head_layout wait_queue_head_t_def
      struct_wait_queue_head_layout bool_def loff_t_def c__kernel_loff_t_def spinlock_t_def
      struct_spinlock_layout struct_mutex_layout u8_def c__u8_def
      del: One_nat_def)

lemma enum_gpd_status_layout [layout_simps]:
  "sizeof enum_gpd_status = 4 \<and> alignof enum_gpd_status = 4 \<and> wf_cty enum_gpd_status"
  by (simp add: enum_gpd_status_def base_types layout_eval
      del: One_nat_def)

lemma enum_genpd_sync_state_layout [layout_simps]:
  "sizeof enum_genpd_sync_state = 4 \<and> alignof enum_genpd_sync_state = 4 \<and> wf_cty enum_genpd_sync_state"
  by (simp add: enum_genpd_sync_state_def base_types layout_eval
      del: One_nat_def)

lemma struct_gpd_dev_ops_layout [layout_simps]:
  "sizeof struct_gpd_dev_ops = 16 \<and> alignof struct_gpd_dev_ops = 8 \<and> wf_cty struct_gpd_dev_ops"
  by (simp add: struct_gpd_dev_ops_def base_types layout_eval
      del: One_nat_def)

lemma struct_generic_pm_domain_layout [layout_simps]:
  "sizeof struct_generic_pm_domain = 1400 \<and> alignof struct_generic_pm_domain = 8 \<and> wf_cty struct_generic_pm_domain"
  by (simp add: struct_generic_pm_domain_def base_types layout_eval struct_device_layout struct_dev_pm_domain_layout
      struct_list_head_layout struct_work_struct_layout bool_def atomic_t_layout enum_gpd_status_layout
      cpumask_var_t_def enum_genpd_sync_state_layout struct_raw_notifier_head_layout
      struct_gpd_dev_ops_layout u64_def c__u64_def struct_mutex_layout spinlock_t_def
      struct_spinlock_layout raw_spinlock_t_def struct_raw_spinlock_layout
      del: One_nat_def)

lemma struct_genl_family_layout [layout_simps]:
  "sizeof struct_genl_family = 160 \<and> alignof struct_genl_family = 8 \<and> wf_cty struct_genl_family"
  by (simp add: struct_genl_family_def base_types layout_eval u8_def c__u8_def size_t_def c__kernel_size_t_def
      c__kernel_ulong_t_def
      del: One_nat_def)

lemma struct_ghcb_save_area_layout [layout_simps]:
  "sizeof struct_ghcb_save_area = 1032 \<and> alignof struct_ghcb_save_area = 8 \<and> wf_cty struct_ghcb_save_area"
  by (simp add: struct_ghcb_save_area_def base_types layout_eval u8_def c__u8_def u64_def c__u64_def
      del: One_nat_def)

lemma struct_hc_driver_layout [layout_simps]:
  "sizeof struct_hc_driver = 376 \<and> alignof struct_hc_driver = 8 \<and> wf_cty struct_hc_driver"
  by (simp add: struct_hc_driver_def base_types layout_eval size_t_def c__kernel_size_t_def c__kernel_ulong_t_def
      del: One_nat_def)

end
