(* ===== verification/KernelReach2d.thy ===== *)
theory KernelReach2d
  imports KernelReach2a
begin

text \<open>
  Types of \<^verbatim>\<open>bpf/vmlinux.h\<close> that are two dereferences away from the objects the program and its loading
  touch, with every type they hold by value (part 4 of 4).
\<close>

section \<open>Types\<close>

definition struct_rcu_segcblist :: cty where
  "struct_rcu_segcblist = CStruct ''rcu_segcblist'' False
     [Field ''head'' (CPtr ''struct callback_head''),
      Field ''tails'' (CArr 4 (CPtr ''struct callback_head *'')),
      Field ''gp_seq'' (CArr 4 long_unsigned_int),
      Field ''len'' atomic_long_t,
      Field ''seglen'' (CArr 4 c_long),
      Field ''flags'' u8]"

definition struct_srcu_data :: cty where
  "struct_srcu_data = CStruct ''srcu_data'' False
     [Field ''srcu_ctrs'' (CArr 2 struct_srcu_ctr),
      Field ''srcu_reader_flavor'' c_int,
      BitField [] c_long 64,
      BitField [] c_long 64,
      BitField [] c_long 64,
      Field ''lock'' raw_spinlock_t,
      Field ''srcu_cblist'' struct_rcu_segcblist,
      Field ''srcu_gp_seq_needed'' long_unsigned_int,
      Field ''srcu_gp_seq_needed_exp'' long_unsigned_int,
      Field ''srcu_cblist_invoking'' bool,
      Field ''delay_work'' struct_timer_list,
      Field ''work'' struct_work_struct,
      Field ''srcu_barrier_head'' struct_callback_head,
      Field ''srcu_ec_head'' struct_callback_head,
      Field ''srcu_ec_state'' c_int,
      Field ''mynode'' (CPtr ''struct srcu_node''),
      Field ''grpmask'' long_unsigned_int,
      Field ''cpu'' c_int,
      Field ''ssp'' (CPtr ''struct srcu_struct''),
      BitField [] c_long 64,
      BitField [] c_long 64,
      BitField [] c_long 64]"

definition struct_srcu_usage :: cty where
  "struct_srcu_usage = CStruct ''srcu_usage'' False
     [Field ''node'' (CPtr ''struct srcu_node''),
      Field ''level'' (CArr 4 (CPtr ''struct srcu_node'')),
      Field ''srcu_size_state'' c_int,
      Field ''srcu_cb_mutex'' struct_mutex,
      Field ''lock'' raw_spinlock_t,
      Field ''srcu_gp_mutex'' struct_mutex,
      Field ''srcu_gp_seq'' long_unsigned_int,
      Field ''srcu_gp_seq_needed'' long_unsigned_int,
      Field ''srcu_gp_seq_needed_exp'' long_unsigned_int,
      Field ''srcu_gp_start'' long_unsigned_int,
      Field ''srcu_last_gp_end'' long_unsigned_int,
      Field ''srcu_size_jiffies'' long_unsigned_int,
      Field ''srcu_n_lock_retries'' long_unsigned_int,
      Field ''srcu_n_exp_nodelay'' long_unsigned_int,
      Field ''sda_is_static'' bool,
      Field ''srcu_barrier_seq'' long_unsigned_int,
      Field ''srcu_barrier_mutex'' struct_mutex,
      Field ''srcu_barrier_completion'' struct_completion,
      Field ''srcu_barrier_cpu_cnt'' atomic_t,
      Field ''reschedule_jiffies'' long_unsigned_int,
      Field ''reschedule_count'' long_unsigned_int,
      Field ''work'' struct_delayed_work,
      Field ''irq_work'' struct_irq_work,
      Field ''srcu_ssp'' (CPtr ''struct srcu_struct'')]"

definition struct_static_call_mod :: cty where
  "struct_static_call_mod = CStruct ''static_call_mod'' False
     [Field ''next'' (CPtr ''struct static_call_mod''),
      Field ''mod'' (CPtr ''struct module''),
      Field ''sites'' (CPtr ''struct static_call_site'')]"

definition struct_static_key_mod :: cty where
  "struct_static_key_mod = CStruct ''static_key_mod'' False
     [Field ''next'' (CPtr ''struct static_key_mod''),
      Field ''entries'' (CPtr ''struct jump_entry''),
      Field ''mod'' (CPtr ''struct module'')]"

definition struct_sysfs_ops :: cty where
  "struct_sysfs_ops = CStruct ''sysfs_ops'' False
     [Field ''show'' (CPtr ''ssize_t (struct kobject *, struct attribute *, char *)''),
      Field ''store'' (CPtr ''ssize_t (struct kobject *, struct attribute *, const char *, size_t)'')]"

definition struct_tcp_congestion_ops :: cty where
  "struct_tcp_congestion_ops = CStruct ''tcp_congestion_ops'' False
     [Field ''cong_avoid'' (CPtr ''void (struct sock *, u32, u32)''),
      Field ''cong_control'' (CPtr ''void (struct sock *, u32, int, const struct rate_sample *)''),
      Field ''ssthresh'' (CPtr ''u32 (struct sock *)''),
      Field ''set_state'' (CPtr ''void (struct sock *, u8)''),
      Field ''cwnd_event'' (CPtr ''void (struct sock *, enum tcp_ca_event)''),
      Field ''in_ack_event'' (CPtr ''void (struct sock *, u32)''),
      Field ''pkts_acked'' (CPtr ''void (struct sock *, const struct ack_sample *)''),
      Field ''min_tso_segs'' (CPtr ''u32 (struct sock *)''),
      Field ''undo_cwnd'' (CPtr ''u32 (struct sock *)''),
      Field ''sndbuf_expand'' (CPtr ''u32 (struct sock *)''),
      Field ''get_info'' (CPtr ''size_t (struct sock *, u32, int *, union tcp_cc_info *)''),
      Field ''name'' (CArr 16 c_char),
      Field ''owner'' (CPtr ''struct module''),
      Field ''list'' struct_list_head,
      Field ''key'' u32,
      Field ''flags'' u32,
      Field ''init'' (CPtr ''void (struct sock *)''),
      Field ''release'' (CPtr ''void (struct sock *)''),
      BitField [] c_long 64,
      BitField [] c_long 64,
      BitField [] c_long 64,
      BitField [] c_long 64,
      BitField [] c_long 64]"

definition struct_tcp_fastopen_context :: cty where
  "struct_tcp_fastopen_context = CStruct ''tcp_fastopen_context'' False
     [Field ''key'' (CArr 2 siphash_key_t),
      Field ''num'' c_int,
      Field ''rcu'' struct_callback_head]"

definition struct_tcp_mib :: cty where
  "struct_tcp_mib = CStruct ''tcp_mib'' False
     [Field ''mibs'' (CArr 16 long_unsigned_int)]"

definition struct_thermal_cooling_device :: cty where
  "struct_thermal_cooling_device = CStruct ''thermal_cooling_device'' False
     [Field ''id'' c_int,
      Field ''type'' (CPtr ''const char''),
      Field ''max_state'' long_unsigned_int,
      Field ''device'' struct_device,
      Field ''np'' (CPtr ''struct device_node''),
      Field ''devdata'' (CPtr ''void''),
      Field ''stats'' (CPtr ''void''),
      Field ''ops'' (CPtr ''const struct thermal_cooling_device_ops''),
      Field ''updated'' bool,
      Field ''lock'' struct_mutex,
      Field ''thermal_instances'' struct_list_head,
      Field ''node'' struct_list_head]"

definition struct_timens_offsets :: cty where
  "struct_timens_offsets = CStruct ''timens_offsets'' False
     [Field ''monotonic'' struct_timespec64,
      Field ''boottime'' struct_timespec64]"

definition struct_time_namespace :: cty where
  "struct_time_namespace = CStruct ''time_namespace'' False
     [Field ''user_ns'' (CPtr ''struct user_namespace''),
      Field ''ucounts'' (CPtr ''struct ucounts''),
      BitField [] c_long 64,
      BitField [] c_long 64,
      BitField [] c_long 64,
      BitField [] c_long 64,
      BitField [] c_long 64,
      BitField [] c_long 64,
      Field ''ns'' struct_ns_common,
      Field ''offsets'' struct_timens_offsets,
      Field ''vvar_page'' (CPtr ''struct page''),
      Field ''frozen_offsets'' bool,
      BitField [] c_long 64,
      BitField [] c_long 64]"

definition struct_trace_event_fields :: cty where
  "struct_trace_event_fields = CStruct ''trace_event_fields'' False
     [Field ''type'' (CPtr ''const char''),
      Field [] (CUnion [] False
        [Field [] (CStruct [] False
           [Field ''name'' (CPtr ''const char''),
            Field ''size'' c_int,
            Field ''align'' c_int,
            BitField ''is_signed'' unsigned_int 1,
            BitField ''needs_test'' unsigned_int 1,
            Field ''filter_type'' c_int,
            Field ''len'' c_int]),
         Field ''define_fields'' (CPtr ''int (struct trace_event_call *)'')])]"

definition struct_tracepoint_ext :: cty where
  "struct_tracepoint_ext = CStruct ''tracepoint_ext'' False
     [Field ''regfunc'' (CPtr ''int (void)''),
      Field ''unregfunc'' (CPtr ''void (void)''),
      BitField ''faultable'' unsigned_int 1]"

definition struct_tracepoint_func :: cty where
  "struct_tracepoint_func = CStruct ''tracepoint_func'' False
     [Field ''func'' (CPtr ''void''),
      Field ''data'' (CPtr ''void''),
      Field ''prio'' c_int]"

definition struct_tsm_dev :: cty where
  "struct_tsm_dev = CStruct ''tsm_dev'' False
     [Field ''dev'' struct_device,
      Field ''id'' c_int,
      Field ''pci_ops'' (CPtr ''const struct pci_tsm_ops'')]"

definition enum_tty_driver_type :: cty where
  "enum_tty_driver_type = CEnum 4
     [(''TTY_DRIVER_TYPE_SYSTEM'', 0), (''TTY_DRIVER_TYPE_CONSOLE'', 1),
      (''TTY_DRIVER_TYPE_SERIAL'', 2), (''TTY_DRIVER_TYPE_PTY'', 3),
      (''TTY_DRIVER_TYPE_SCC'', 4), (''TTY_DRIVER_TYPE_SYSCONS'', 5)]"

definition enum_tty_driver_subtype :: cty where
  "enum_tty_driver_subtype = CEnum 4
     [(''SYSTEM_TYPE_TTY'', 1), (''SYSTEM_TYPE_CONSOLE'', 2), (''SYSTEM_TYPE_SYSCONS'', 3),
      (''SYSTEM_TYPE_SYSPTMX'', 4), (''PTY_TYPE_MASTER'', 1), (''PTY_TYPE_SLAVE'', 2),
      (''SERIAL_TYPE_NORMAL'', 1)]"

definition struct_tty_driver :: cty where
  "struct_tty_driver = CStruct ''tty_driver'' False
     [Field ''kref'' struct_kref,
      Field ''cdevs'' (CPtr ''struct cdev *''),
      Field ''owner'' (CPtr ''struct module''),
      Field ''driver_name'' (CPtr ''const char''),
      Field ''name'' (CPtr ''const char''),
      Field ''name_base'' c_int,
      Field ''major'' c_int,
      Field ''minor_start'' c_int,
      Field ''num'' unsigned_int,
      Field ''type'' enum_tty_driver_type,
      Field ''subtype'' enum_tty_driver_subtype,
      Field ''init_termios'' struct_ktermios,
      Field ''flags'' long_unsigned_int,
      Field ''proc_entry'' (CPtr ''struct proc_dir_entry''),
      Field ''other'' (CPtr ''struct tty_driver''),
      Field ''ttys'' (CPtr ''struct tty_struct *''),
      Field ''ports'' (CPtr ''struct tty_port *''),
      Field ''termios'' (CPtr ''struct ktermios *''),
      Field ''driver_state'' (CPtr ''void''),
      Field ''ops'' (CPtr ''const struct tty_operations''),
      Field ''tty_drivers'' struct_list_head]"

definition struct_tty_ldisc :: cty where
  "struct_tty_ldisc = CStruct ''tty_ldisc'' False
     [Field ''ops'' (CPtr ''struct tty_ldisc_ops''),
      Field ''tty'' (CPtr ''struct tty_struct'')]"

definition struct_tty_operations :: cty where
  "struct_tty_operations = CStruct ''tty_operations'' False
     [Field ''lookup'' (CPtr ''struct tty_struct * (struct tty_driver *, struct file *, int)''),
      Field ''install'' (CPtr ''int (struct tty_driver *, struct tty_struct *)''),
      Field ''remove'' (CPtr ''void (struct tty_driver *, struct tty_struct *)''),
      Field ''open'' (CPtr ''int (struct tty_struct *, struct file *)''),
      Field ''close'' (CPtr ''void (struct tty_struct *, struct file *)''),
      Field ''shutdown'' (CPtr ''void (struct tty_struct *)''),
      Field ''cleanup'' (CPtr ''void (struct tty_struct *)''),
      Field ''write'' (CPtr ''ssize_t (struct tty_struct *, const u8 *, size_t)''),
      Field ''put_char'' (CPtr ''int (struct tty_struct *, u8)''),
      Field ''flush_chars'' (CPtr ''void (struct tty_struct *)''),
      Field ''write_room'' (CPtr ''unsigned int (struct tty_struct *)''),
      Field ''chars_in_buffer'' (CPtr ''unsigned int (struct tty_struct *)''),
      Field ''ioctl'' (CPtr ''int (struct tty_struct *, unsigned int, long unsigned int)''),
      Field ''compat_ioctl'' (CPtr ''long int (struct tty_struct *, unsigned int, long unsigned int)''),
      Field ''set_termios'' (CPtr ''void (struct tty_struct *, const struct ktermios *)''),
      Field ''throttle'' (CPtr ''void (struct tty_struct *)''),
      Field ''unthrottle'' (CPtr ''void (struct tty_struct *)''),
      Field ''stop'' (CPtr ''void (struct tty_struct *)''),
      Field ''start'' (CPtr ''void (struct tty_struct *)''),
      Field ''hangup'' (CPtr ''void (struct tty_struct *)''),
      Field ''break_ctl'' (CPtr ''int (struct tty_struct *, int)''),
      Field ''flush_buffer'' (CPtr ''void (struct tty_struct *)''),
      Field ''ldisc_ok'' (CPtr ''int (struct tty_struct *, int)''),
      Field ''set_ldisc'' (CPtr ''void (struct tty_struct *)''),
      Field ''wait_until_sent'' (CPtr ''void (struct tty_struct *, int)''),
      Field ''send_xchar'' (CPtr ''void (struct tty_struct *, u8)''),
      Field ''tiocmget'' (CPtr ''int (struct tty_struct *)''),
      Field ''tiocmset'' (CPtr ''int (struct tty_struct *, unsigned int, unsigned int)''),
      Field ''resize'' (CPtr ''int (struct tty_struct *, struct winsize *)''),
      Field ''get_icount'' (CPtr ''int (struct tty_struct *, struct serial_icounter_struct *)''),
      Field ''get_serial'' (CPtr ''int (struct tty_struct *, struct serial_struct *)''),
      Field ''set_serial'' (CPtr ''int (struct tty_struct *, struct serial_struct *)''),
      Field ''show_fdinfo'' (CPtr ''void (struct tty_struct *, struct seq_file *)''),
      Field ''poll_init'' (CPtr ''int (struct tty_driver *, int, char *)''),
      Field ''poll_get_char'' (CPtr ''int (struct tty_driver *, int)''),
      Field ''poll_put_char'' (CPtr ''void (struct tty_driver *, int, char)''),
      Field ''proc_show'' (CPtr ''int (struct seq_file *, void *)'')]"

definition struct_tty_buffer :: cty where
  "struct_tty_buffer = CStruct ''tty_buffer'' False
     [Field [] (CUnion [] False
        [Field ''next'' (CPtr ''struct tty_buffer''),
         Field ''free'' struct_llist_node]),
      Field ''used'' unsigned_int,
      Field ''size'' unsigned_int,
      Field ''commit'' unsigned_int,
      Field ''lookahead'' unsigned_int,
      Field ''read'' unsigned_int,
      Field ''flags'' bool,
      BitField [] c_long 0,
      Field ''data'' (CArr 0 u8)]"

definition struct_tty_bufhead :: cty where
  "struct_tty_bufhead = CStruct ''tty_bufhead'' False
     [Field ''head'' (CPtr ''struct tty_buffer''),
      Field ''work'' struct_work_struct,
      Field ''lock'' struct_mutex,
      Field ''priority'' atomic_t,
      Field ''sentinel'' struct_tty_buffer,
      Field ''free'' struct_llist_head,
      Field ''mem_used'' atomic_t,
      Field ''mem_limit'' c_int,
      Field ''tail'' (CPtr ''struct tty_buffer'')]"

definition struct___kfifo :: cty where
  "struct___kfifo = CStruct ''__kfifo'' False
     [Field ''in'' unsigned_int,
      Field ''out'' unsigned_int,
      Field ''mask'' unsigned_int,
      Field ''esize'' unsigned_int,
      Field ''data'' (CPtr ''void'')]"

definition struct_tty_port :: cty where
  "struct_tty_port = CStruct ''tty_port'' False
     [Field ''buf'' struct_tty_bufhead,
      Field ''tty'' (CPtr ''struct tty_struct''),
      Field ''itty'' (CPtr ''struct tty_struct''),
      Field ''ops'' (CPtr ''const struct tty_port_operations''),
      Field ''client_ops'' (CPtr ''const struct tty_port_client_operations''),
      Field ''lock'' spinlock_t,
      Field ''blocked_open'' c_int,
      Field ''count'' c_int,
      Field ''open_wait'' wait_queue_head_t,
      Field ''delta_msr_wait'' wait_queue_head_t,
      Field ''flags'' long_unsigned_int,
      Field ''iflags'' long_unsigned_int,
      BitField ''console'' unsigned_char 1,
      Field ''mutex'' struct_mutex,
      Field ''buf_mutex'' struct_mutex,
      Field ''xmit_buf'' (CPtr ''u8''),
      Field ''xmit_fifo'' (CStruct [] False
        [Field [] (CUnion [] False
           [Field ''kfifo'' struct___kfifo,
            Field ''type'' (CPtr ''u8''),
            Field ''const_type'' (CPtr ''const u8''),
            Field ''rectype'' (CPtr ''char[0]''),
            Field ''ptr'' (CPtr ''u8''),
            Field ''ptr_const'' (CPtr ''const u8'')]),
         Field ''buf'' (CArr 0 u8)]),
      Field ''close_delay'' unsigned_int,
      Field ''closing_wait'' unsigned_int,
      Field ''drain_delay'' c_int,
      Field ''kref'' struct_kref,
      Field ''client_data'' (CPtr ''void'')]"

definition struct_udp_mib :: cty where
  "struct_udp_mib = CStruct ''udp_mib'' False
     [Field ''mibs'' (CArr 10 long_unsigned_int)]"

definition struct_udp_table :: cty where
  "struct_udp_table = CStruct ''udp_table'' False
     [Field ''hash'' (CPtr ''struct udp_hslot''),
      Field ''hash2'' (CPtr ''struct udp_hslot_main''),
      Field ''hash4'' (CPtr ''struct udp_hslot''),
      Field ''mask'' unsigned_int,
      Field ''log'' unsigned_int]"

definition struct_uevent_sock :: cty where
  "struct_uevent_sock = CStruct ''uevent_sock'' False
     [Field ''list'' struct_list_head,
      Field ''sk'' (CPtr ''struct sock'')]"

definition struct_uprobe :: cty where
  "struct_uprobe = CStruct ''uprobe'' False
     [Field ''rb_node'' struct_rb_node,
      Field ''ref'' refcount_t,
      Field ''register_rwsem'' struct_rw_semaphore,
      Field ''consumer_rwsem'' struct_rw_semaphore,
      Field ''pending_list'' struct_list_head,
      Field ''consumers'' struct_list_head,
      Field ''inode'' (CPtr ''struct inode''),
      Field [] (CUnion [] False
        [Field ''rcu'' struct_callback_head,
         Field ''work'' struct_work_struct]),
      Field ''offset'' loff_t,
      Field ''ref_ctr_offset'' loff_t,
      Field ''flags'' long_unsigned_int,
      Field ''arch'' struct_arch_uprobe]"

definition struct_utf8data :: cty where
  "struct_utf8data = CStruct ''utf8data'' False
     [Field ''maxage'' unsigned_int,
      Field ''offset'' unsigned_int]"

definition struct_utf8data_table :: cty where
  "struct_utf8data_table = CStruct ''utf8data_table'' False
     [Field ''utf8agetab'' (CPtr ''const unsigned int''),
      Field ''utf8agetab_size'' c_int,
      Field ''utf8nfdicfdata'' (CPtr ''const struct utf8data''),
      Field ''utf8nfdicfdata_size'' c_int,
      Field ''utf8nfdidata'' (CPtr ''const struct utf8data''),
      Field ''utf8nfdidata_size'' c_int,
      Field ''utf8data'' (CPtr ''const unsigned char'')]"

definition struct_new_utsname :: cty where
  "struct_new_utsname = CStruct ''new_utsname'' False
     [Field ''sysname'' (CArr 65 c_char),
      Field ''nodename'' (CArr 65 c_char),
      Field ''release'' (CArr 65 c_char),
      Field ''version'' (CArr 65 c_char),
      Field ''machine'' (CArr 65 c_char),
      Field ''domainname'' (CArr 65 c_char)]"

definition struct_uts_namespace :: cty where
  "struct_uts_namespace = CStruct ''uts_namespace'' False
     [Field ''name'' struct_new_utsname,
      Field ''user_ns'' (CPtr ''struct user_namespace''),
      Field ''ucounts'' (CPtr ''struct ucounts''),
      BitField [] c_long 64,
      BitField [] c_long 64,
      BitField [] c_long 64,
      BitField [] c_long 64,
      BitField [] c_long 64,
      Field ''ns'' struct_ns_common]"

definition struct_watch_list :: cty where
  "struct_watch_list = CStruct ''watch_list'' False
     [Field ''rcu'' struct_callback_head,
      Field ''watchers'' struct_hlist_head,
      Field ''release_watch'' (CPtr ''void (struct watch *)''),
      Field ''lock'' spinlock_t]"

definition struct_watch_queue :: cty where
  "struct_watch_queue = CStruct ''watch_queue'' False
     [Field ''rcu'' struct_callback_head,
      Field ''filter'' (CPtr ''struct watch_filter''),
      Field ''pipe'' (CPtr ''struct pipe_inode_info''),
      Field ''watches'' struct_hlist_head,
      Field ''notes'' (CPtr ''struct page *''),
      Field ''notes_bitmap'' (CPtr ''long unsigned int''),
      Field ''usage'' struct_kref,
      Field ''lock'' spinlock_t,
      Field ''nr_notes'' unsigned_int,
      Field ''nr_pages'' unsigned_int]"

definition struct_worker :: cty where
  "struct_worker = CStruct ''worker'' False
     [Field [] (CUnion [] False
        [Field ''entry'' struct_list_head,
         Field ''hentry'' struct_hlist_node]),
      Field ''current_work'' (CPtr ''struct work_struct''),
      Field ''current_func'' work_func_t,
      Field ''current_pwq'' (CPtr ''struct pool_workqueue''),
      Field ''current_at'' u64,
      Field ''current_start'' long_unsigned_int,
      Field ''current_color'' unsigned_int,
      Field ''sleeping'' c_int,
      Field ''last_func'' work_func_t,
      Field ''scheduled'' struct_list_head,
      Field ''task'' (CPtr ''struct task_struct''),
      Field ''pool'' (CPtr ''struct worker_pool''),
      Field ''node'' struct_list_head,
      Field ''last_active'' long_unsigned_int,
      Field ''flags'' unsigned_int,
      Field ''id'' c_int,
      Field ''desc'' (CArr 32 c_char),
      Field ''rescue_wq'' (CPtr ''struct workqueue_struct'')]"

definition enum_wq_affn_scope :: cty where
  "enum_wq_affn_scope = CEnum 4
     [(''WQ_AFFN_DFL'', 0), (''WQ_AFFN_CPU'', 1), (''WQ_AFFN_SMT'', 2), (''WQ_AFFN_CACHE'', 3),
      (''WQ_AFFN_NUMA'', 4), (''WQ_AFFN_SYSTEM'', 5), (''WQ_AFFN_NR_TYPES'', 6)]"

definition struct_workqueue_attrs :: cty where
  "struct_workqueue_attrs = CStruct ''workqueue_attrs'' False
     [Field ''nice'' c_int,
      Field ''cpumask'' cpumask_var_t,
      Field ''__pod_cpumask'' cpumask_var_t,
      Field ''affn_strict'' bool,
      Field ''affn_scope'' enum_wq_affn_scope,
      Field ''ordered'' bool]"

definition struct_wq_device :: cty where
  "struct_wq_device = CStruct ''wq_device'' False
     [Field ''wq'' (CPtr ''struct workqueue_struct''),
      Field ''dev'' struct_device]"

definition struct_wq_flusher :: cty where
  "struct_wq_flusher = CStruct ''wq_flusher'' False
     [Field ''list'' struct_list_head,
      Field ''flush_color'' c_int,
      Field ''done'' struct_completion]"

definition struct_wq_node_nr_active :: cty where
  "struct_wq_node_nr_active = CStruct ''wq_node_nr_active'' False
     [Field ''max'' c_int,
      Field ''nr'' atomic_t,
      Field ''lock'' raw_spinlock_t,
      Field ''pending_pwqs'' struct_list_head]"

definition struct_elf64_shdr :: cty where
  "struct_elf64_shdr = CStruct ''elf64_shdr'' False
     [Field ''sh_name'' Elf64_Word,
      Field ''sh_type'' Elf64_Word,
      Field ''sh_flags'' Elf64_Xword,
      Field ''sh_addr'' Elf64_Addr,
      Field ''sh_offset'' Elf64_Off,
      Field ''sh_size'' Elf64_Xword,
      Field ''sh_link'' Elf64_Word,
      Field ''sh_info'' Elf64_Word,
      Field ''sh_addralign'' Elf64_Xword,
      Field ''sh_entsize'' Elf64_Xword]"

definition Elf64_Shdr :: cty where [layout_simps]:
  "Elf64_Shdr = struct_elf64_shdr"

section \<open>Sizes and alignments\<close>

lemma struct_rcu_segcblist_layout [layout_simps]:
  "sizeof struct_rcu_segcblist = 120 \<and> alignof struct_rcu_segcblist = 8 \<and> wf_cty struct_rcu_segcblist"
  by (simp add: struct_rcu_segcblist_def base_types layout_eval atomic_long_t_def atomic64_t_layout u8_def c__u8_def
      del: One_nat_def)

lemma struct_srcu_data_layout [layout_simps]:
  "sizeof struct_srcu_data = 384 \<and> alignof struct_srcu_data = 8 \<and> wf_cty struct_srcu_data"
  by (simp add: struct_srcu_data_def base_types layout_eval struct_srcu_ctr_layout raw_spinlock_t_def
      struct_raw_spinlock_layout struct_rcu_segcblist_layout bool_def struct_timer_list_layout
      struct_work_struct_layout struct_callback_head_layout
      del: One_nat_def)

lemma struct_srcu_usage_layout [layout_simps]:
  "sizeof struct_srcu_usage = 416 \<and> alignof struct_srcu_usage = 8 \<and> wf_cty struct_srcu_usage"
  by (simp add: struct_srcu_usage_def base_types layout_eval struct_mutex_layout raw_spinlock_t_def
      struct_raw_spinlock_layout bool_def struct_completion_layout atomic_t_layout
      struct_delayed_work_layout struct_irq_work_layout
      del: One_nat_def)

lemma struct_static_call_mod_layout [layout_simps]:
  "sizeof struct_static_call_mod = 24 \<and> alignof struct_static_call_mod = 8 \<and> wf_cty struct_static_call_mod"
  by (simp add: struct_static_call_mod_def base_types layout_eval
      del: One_nat_def)

lemma struct_static_key_mod_layout [layout_simps]:
  "sizeof struct_static_key_mod = 24 \<and> alignof struct_static_key_mod = 8 \<and> wf_cty struct_static_key_mod"
  by (simp add: struct_static_key_mod_def base_types layout_eval
      del: One_nat_def)

lemma struct_sysfs_ops_layout [layout_simps]:
  "sizeof struct_sysfs_ops = 16 \<and> alignof struct_sysfs_ops = 8 \<and> wf_cty struct_sysfs_ops"
  by (simp add: struct_sysfs_ops_def base_types layout_eval
      del: One_nat_def)

lemma struct_tcp_congestion_ops_layout [layout_simps]:
  "sizeof struct_tcp_congestion_ops = 192 \<and> alignof struct_tcp_congestion_ops = 8 \<and> wf_cty struct_tcp_congestion_ops"
  by (simp add: struct_tcp_congestion_ops_def base_types layout_eval struct_list_head_layout u32_def c__u32_def
      del: One_nat_def)

lemma struct_tcp_fastopen_context_layout [layout_simps]:
  "sizeof struct_tcp_fastopen_context = 56 \<and> alignof struct_tcp_fastopen_context = 8 \<and> wf_cty struct_tcp_fastopen_context"
  by (simp add: struct_tcp_fastopen_context_def base_types layout_eval siphash_key_t_layout struct_callback_head_layout
      del: One_nat_def)

lemma struct_tcp_mib_layout [layout_simps]:
  "sizeof struct_tcp_mib = 128 \<and> alignof struct_tcp_mib = 8 \<and> wf_cty struct_tcp_mib"
  by (simp add: struct_tcp_mib_def base_types layout_eval
      del: One_nat_def)

lemma struct_thermal_cooling_device_layout [layout_simps]:
  "sizeof struct_thermal_cooling_device = 936 \<and> alignof struct_thermal_cooling_device = 8 \<and> wf_cty struct_thermal_cooling_device"
  by (simp add: struct_thermal_cooling_device_def base_types layout_eval struct_device_layout bool_def
      struct_mutex_layout struct_list_head_layout
      del: One_nat_def)

lemma struct_timens_offsets_layout [layout_simps]:
  "sizeof struct_timens_offsets = 32 \<and> alignof struct_timens_offsets = 8 \<and> wf_cty struct_timens_offsets"
  by (simp add: struct_timens_offsets_def base_types layout_eval struct_timespec64_layout
      del: One_nat_def)

lemma struct_time_namespace_layout [layout_simps]:
  "sizeof struct_time_namespace = 384 \<and> alignof struct_time_namespace = 8 \<and> wf_cty struct_time_namespace"
  by (simp add: struct_time_namespace_def base_types layout_eval struct_ns_common_layout struct_timens_offsets_layout
      bool_def
      del: One_nat_def)

lemma struct_trace_event_fields_layout [layout_simps]:
  "sizeof struct_trace_event_fields = 40 \<and> alignof struct_trace_event_fields = 8 \<and> wf_cty struct_trace_event_fields"
  by (simp add: struct_trace_event_fields_def base_types layout_eval
      del: One_nat_def)

lemma struct_tracepoint_ext_layout [layout_simps]:
  "sizeof struct_tracepoint_ext = 24 \<and> alignof struct_tracepoint_ext = 8 \<and> wf_cty struct_tracepoint_ext"
  by (simp add: struct_tracepoint_ext_def base_types layout_eval
      del: One_nat_def)

lemma struct_tracepoint_func_layout [layout_simps]:
  "sizeof struct_tracepoint_func = 24 \<and> alignof struct_tracepoint_func = 8 \<and> wf_cty struct_tracepoint_func"
  by (simp add: struct_tracepoint_func_def base_types layout_eval
      del: One_nat_def)

lemma struct_tsm_dev_layout [layout_simps]:
  "sizeof struct_tsm_dev = 824 \<and> alignof struct_tsm_dev = 8 \<and> wf_cty struct_tsm_dev"
  by (simp add: struct_tsm_dev_def base_types layout_eval struct_device_layout
      del: One_nat_def)

lemma enum_tty_driver_type_layout [layout_simps]:
  "sizeof enum_tty_driver_type = 4 \<and> alignof enum_tty_driver_type = 4 \<and> wf_cty enum_tty_driver_type"
  by (simp add: enum_tty_driver_type_def base_types layout_eval
      del: One_nat_def)

lemma enum_tty_driver_subtype_layout [layout_simps]:
  "sizeof enum_tty_driver_subtype = 4 \<and> alignof enum_tty_driver_subtype = 4 \<and> wf_cty enum_tty_driver_subtype"
  by (simp add: enum_tty_driver_subtype_def base_types layout_eval
      del: One_nat_def)

lemma struct_tty_driver_layout [layout_simps]:
  "sizeof struct_tty_driver = 192 \<and> alignof struct_tty_driver = 8 \<and> wf_cty struct_tty_driver"
  by (simp add: struct_tty_driver_def base_types layout_eval struct_kref_layout enum_tty_driver_type_layout
      enum_tty_driver_subtype_layout struct_ktermios_layout struct_list_head_layout
      del: One_nat_def)

lemma struct_tty_ldisc_layout [layout_simps]:
  "sizeof struct_tty_ldisc = 16 \<and> alignof struct_tty_ldisc = 8 \<and> wf_cty struct_tty_ldisc"
  by (simp add: struct_tty_ldisc_def base_types layout_eval
      del: One_nat_def)

lemma struct_tty_operations_layout [layout_simps]:
  "sizeof struct_tty_operations = 296 \<and> alignof struct_tty_operations = 8 \<and> wf_cty struct_tty_operations"
  by (simp add: struct_tty_operations_def base_types layout_eval
      del: One_nat_def)

lemma struct_tty_buffer_layout [layout_simps]:
  "sizeof struct_tty_buffer = 32 \<and> alignof struct_tty_buffer = 8 \<and> wf_cty struct_tty_buffer"
  by (simp add: struct_tty_buffer_def base_types layout_eval struct_llist_node_layout bool_def u8_def c__u8_def
      del: One_nat_def)

lemma struct_tty_bufhead_layout [layout_simps]:
  "sizeof struct_tty_bufhead = 136 \<and> alignof struct_tty_bufhead = 8 \<and> wf_cty struct_tty_bufhead"
  by (simp add: struct_tty_bufhead_def base_types layout_eval struct_work_struct_layout struct_mutex_layout
      atomic_t_layout struct_tty_buffer_layout struct_llist_head_layout
      del: One_nat_def)

lemma struct___kfifo_layout [layout_simps]:
  "sizeof struct___kfifo = 24 \<and> alignof struct___kfifo = 8 \<and> wf_cty struct___kfifo"
  by (simp add: struct___kfifo_def base_types layout_eval
      del: One_nat_def)

lemma struct_tty_port_layout [layout_simps]:
  "sizeof struct_tty_port = 376 \<and> alignof struct_tty_port = 8 \<and> wf_cty struct_tty_port"
  by (simp add: struct_tty_port_def base_types layout_eval struct_tty_bufhead_layout spinlock_t_def
      struct_spinlock_layout wait_queue_head_t_def struct_wait_queue_head_layout struct_mutex_layout
      struct___kfifo_layout u8_def c__u8_def struct_kref_layout
      del: One_nat_def)

lemma struct_udp_mib_layout [layout_simps]:
  "sizeof struct_udp_mib = 80 \<and> alignof struct_udp_mib = 8 \<and> wf_cty struct_udp_mib"
  by (simp add: struct_udp_mib_def base_types layout_eval
      del: One_nat_def)

lemma struct_udp_table_layout [layout_simps]:
  "sizeof struct_udp_table = 32 \<and> alignof struct_udp_table = 8 \<and> wf_cty struct_udp_table"
  by (simp add: struct_udp_table_def base_types layout_eval
      del: One_nat_def)

lemma struct_uevent_sock_layout [layout_simps]:
  "sizeof struct_uevent_sock = 24 \<and> alignof struct_uevent_sock = 8 \<and> wf_cty struct_uevent_sock"
  by (simp add: struct_uevent_sock_def base_types layout_eval struct_list_head_layout
      del: One_nat_def)

lemma struct_uprobe_layout [layout_simps]:
  "sizeof struct_uprobe = 248 \<and> alignof struct_uprobe = 8 \<and> wf_cty struct_uprobe"
  by (simp add: struct_uprobe_def base_types layout_eval struct_rb_node_layout refcount_t_def
      struct_refcount_struct_layout struct_rw_semaphore_layout struct_list_head_layout
      struct_callback_head_layout struct_work_struct_layout loff_t_def c__kernel_loff_t_def
      struct_arch_uprobe_layout
      del: One_nat_def)

lemma struct_utf8data_layout [layout_simps]:
  "sizeof struct_utf8data = 8 \<and> alignof struct_utf8data = 4 \<and> wf_cty struct_utf8data"
  by (simp add: struct_utf8data_def base_types layout_eval
      del: One_nat_def)

lemma struct_utf8data_table_layout [layout_simps]:
  "sizeof struct_utf8data_table = 56 \<and> alignof struct_utf8data_table = 8 \<and> wf_cty struct_utf8data_table"
  by (simp add: struct_utf8data_table_def base_types layout_eval
      del: One_nat_def)

lemma struct_new_utsname_layout [layout_simps]:
  "sizeof struct_new_utsname = 390 \<and> alignof struct_new_utsname = 1 \<and> wf_cty struct_new_utsname"
  by (simp add: struct_new_utsname_def base_types layout_eval
      del: One_nat_def)

lemma struct_uts_namespace_layout [layout_simps]:
  "sizeof struct_uts_namespace = 704 \<and> alignof struct_uts_namespace = 8 \<and> wf_cty struct_uts_namespace"
  by (simp add: struct_uts_namespace_def base_types layout_eval struct_new_utsname_layout struct_ns_common_layout
      del: One_nat_def)

lemma struct_watch_list_layout [layout_simps]:
  "sizeof struct_watch_list = 40 \<and> alignof struct_watch_list = 8 \<and> wf_cty struct_watch_list"
  by (simp add: struct_watch_list_def base_types layout_eval struct_callback_head_layout struct_hlist_head_layout
      spinlock_t_def struct_spinlock_layout
      del: One_nat_def)

lemma struct_watch_queue_layout [layout_simps]:
  "sizeof struct_watch_queue = 72 \<and> alignof struct_watch_queue = 8 \<and> wf_cty struct_watch_queue"
  by (simp add: struct_watch_queue_def base_types layout_eval struct_callback_head_layout struct_hlist_head_layout
      struct_kref_layout spinlock_t_def struct_spinlock_layout
      del: One_nat_def)

lemma struct_worker_layout [layout_simps]:
  "sizeof struct_worker = 176 \<and> alignof struct_worker = 8 \<and> wf_cty struct_worker"
  by (simp add: struct_worker_def base_types layout_eval struct_list_head_layout struct_hlist_node_layout work_func_t_def
      u64_def c__u64_def
      del: One_nat_def)

lemma enum_wq_affn_scope_layout [layout_simps]:
  "sizeof enum_wq_affn_scope = 4 \<and> alignof enum_wq_affn_scope = 4 \<and> wf_cty enum_wq_affn_scope"
  by (simp add: enum_wq_affn_scope_def base_types layout_eval
      del: One_nat_def)

lemma struct_workqueue_attrs_layout [layout_simps]:
  "sizeof struct_workqueue_attrs = 40 \<and> alignof struct_workqueue_attrs = 8 \<and> wf_cty struct_workqueue_attrs"
  by (simp add: struct_workqueue_attrs_def base_types layout_eval cpumask_var_t_def bool_def enum_wq_affn_scope_layout
      del: One_nat_def)

lemma struct_wq_device_layout [layout_simps]:
  "sizeof struct_wq_device = 816 \<and> alignof struct_wq_device = 8 \<and> wf_cty struct_wq_device"
  by (simp add: struct_wq_device_def base_types layout_eval struct_device_layout
      del: One_nat_def)

lemma struct_wq_flusher_layout [layout_simps]:
  "sizeof struct_wq_flusher = 56 \<and> alignof struct_wq_flusher = 8 \<and> wf_cty struct_wq_flusher"
  by (simp add: struct_wq_flusher_def base_types layout_eval struct_list_head_layout struct_completion_layout
      del: One_nat_def)

lemma struct_wq_node_nr_active_layout [layout_simps]:
  "sizeof struct_wq_node_nr_active = 32 \<and> alignof struct_wq_node_nr_active = 8 \<and> wf_cty struct_wq_node_nr_active"
  by (simp add: struct_wq_node_nr_active_def base_types layout_eval atomic_t_layout raw_spinlock_t_def
      struct_raw_spinlock_layout struct_list_head_layout
      del: One_nat_def)

lemma struct_elf64_shdr_layout [layout_simps]:
  "sizeof struct_elf64_shdr = 64 \<and> alignof struct_elf64_shdr = 8 \<and> wf_cty struct_elf64_shdr"
  by (simp add: struct_elf64_shdr_def base_types layout_eval Elf64_Word_def c__u32_def Elf64_Xword_def c__u64_def
      Elf64_Addr_def Elf64_Off_def
      del: One_nat_def)

end
