(* ===== verification/KernelReach4b.thy ===== *)
theory KernelReach4b
  imports KernelReach3b KernelReach3d
begin

text \<open>
  Types of \<^verbatim>\<open>bpf/vmlinux.h\<close> that are four dereferences away from the objects the program and its loading
  touch, with every type they hold by value (part 2 of 2).
\<close>

section \<open>Types\<close>

definition struct_interval_tree_node :: cty where
  "struct_interval_tree_node = CStruct ''interval_tree_node'' False
     [Field ''rb'' struct_rb_node,
      Field ''start'' long_unsigned_int,
      Field ''last'' long_unsigned_int,
      Field ''__subtree_last'' long_unsigned_int]"

definition struct_kvm_arch_memory_slot :: cty where
  "struct_kvm_arch_memory_slot = CStruct ''kvm_arch_memory_slot'' False
     [Field ''rmap'' (CArr 3 (CPtr ''struct kvm_rmap_head'')),
      Field ''lpage_info'' (CArr 2 (CPtr ''struct kvm_lpage_info'')),
      Field ''gfn_write_track'' (CPtr ''short unsigned int'')]"

definition struct_kvm_memory_slot :: cty where
  "struct_kvm_memory_slot = CStruct ''kvm_memory_slot'' False
     [Field ''id_node'' (CArr 2 struct_hlist_node),
      Field ''hva_node'' (CArr 2 struct_interval_tree_node),
      Field ''gfn_node'' (CArr 2 struct_rb_node),
      Field ''base_gfn'' gfn_t,
      Field ''npages'' long_unsigned_int,
      Field ''dirty_bitmap'' (CPtr ''long unsigned int''),
      Field ''arch'' struct_kvm_arch_memory_slot,
      Field ''userspace_addr'' long_unsigned_int,
      Field ''flags'' u32,
      Field ''id'' short_int,
      Field ''as_id'' u16,
      Field ''gmem'' (CStruct [] False
        [Field ''file'' (CPtr ''struct file''),
         Field ''pgoff'' long_unsigned_int])]"

definition enum_kvm_stat_kind :: cty where
  "enum_kvm_stat_kind = CEnum 4
     [(''KVM_STAT_VM'', 0), (''KVM_STAT_VCPU'', 1)]"

definition struct_kvm_stat_data :: cty where
  "struct_kvm_stat_data = CStruct ''kvm_stat_data'' False
     [Field ''kvm'' (CPtr ''struct kvm''),
      Field ''desc'' (CPtr ''const struct kvm_stats_desc''),
      Field ''kind'' enum_kvm_stat_kind]"

definition struct_msr_bitmap_range :: cty where
  "struct_msr_bitmap_range = CStruct ''msr_bitmap_range'' False
     [Field ''flags'' u32,
      Field ''nmsrs'' u32,
      Field ''base'' u32,
      Field ''bitmap'' (CPtr ''long unsigned int'')]"

definition struct_kvm_x86_msr_filter :: cty where
  "struct_kvm_x86_msr_filter = CStruct ''kvm_x86_msr_filter'' False
     [Field ''count'' u8,
      BitField ''default_allow'' bool 1,
      Field ''ranges'' (CArr 16 struct_msr_bitmap_range)]"

definition struct_kvm_x86_pmu_event_filter :: cty where
  "struct_kvm_x86_pmu_event_filter = CStruct ''kvm_x86_pmu_event_filter'' False
     [Field ''action'' c__u32,
      Field ''nevents'' c__u32,
      Field ''fixed_counter_bitmap'' c__u32,
      Field ''flags'' c__u32,
      Field ''nr_includes'' c__u32,
      Field ''nr_excludes'' c__u32,
      Field ''includes'' (CPtr ''__u64''),
      Field ''excludes'' (CPtr ''__u64''),
      Field ''events'' (CArr 0 c__u64)]"

definition struct_mctp_netdev_ops :: cty where
  "struct_mctp_netdev_ops = CStruct ''mctp_netdev_ops'' False
     [Field ''release_flow'' (CPtr ''void (struct mctp_dev *, struct mctp_sk_key *)'')]"

definition struct_memory_tier :: cty where
  "struct_memory_tier = CStruct ''memory_tier'' False
     [Field ''list'' struct_list_head,
      Field ''memory_types'' struct_list_head,
      Field ''adistance_start'' c_int,
      Field ''dev'' struct_device,
      Field ''lower_tier_mask'' nodemask_t]"

definition struct_mdio_bus_stats :: cty where
  "struct_mdio_bus_stats = CStruct ''mdio_bus_stats'' False
     [Field ''transfers'' u64_stats_t,
      Field ''errors'' u64_stats_t,
      Field ''writes'' u64_stats_t,
      Field ''reads'' u64_stats_t,
      Field ''syncp'' struct_u64_stats_sync]"

definition struct_mii_bus :: cty where
  "struct_mii_bus = CStruct ''mii_bus'' False
     [Field ''owner'' (CPtr ''struct module''),
      Field ''name'' (CPtr ''const char''),
      Field ''id'' (CArr 61 c_char),
      Field ''priv'' (CPtr ''void''),
      Field ''read'' (CPtr ''int (struct mii_bus *, int, int)''),
      Field ''write'' (CPtr ''int (struct mii_bus *, int, int, u16)''),
      Field ''read_c45'' (CPtr ''int (struct mii_bus *, int, int, int)''),
      Field ''write_c45'' (CPtr ''int (struct mii_bus *, int, int, int, u16)''),
      Field ''reset'' (CPtr ''int (struct mii_bus *)''),
      Field ''stats'' (CArr 32 struct_mdio_bus_stats),
      Field ''mdio_lock'' struct_mutex,
      Field ''parent'' (CPtr ''struct device''),
      Field ''state'' (CEnum 4 [(''MDIOBUS_ALLOCATED'', 1), (''MDIOBUS_REGISTERED'', 2), (''MDIOBUS_UNREGISTERED'', 3),
         (''MDIOBUS_RELEASED'', 4)]),
      Field ''dev'' struct_device,
      Field ''mdio_map'' (CArr 32 (CPtr ''struct mdio_device'')),
      Field ''phy_mask'' u32,
      Field ''phy_ignore_ta_mask'' u32,
      Field ''irq'' (CArr 32 c_int),
      Field ''reset_delay_us'' c_int,
      Field ''reset_post_delay_us'' c_int,
      Field ''reset_gpiod'' (CPtr ''struct gpio_desc''),
      Field ''shared_lock'' struct_mutex,
      Field ''shared'' (CArr 32 (CPtr ''struct phy_package_shared''))]"

definition struct_mii_timestamper :: cty where
  "struct_mii_timestamper = CStruct ''mii_timestamper'' False
     [Field ''rxtstamp'' (CPtr ''bool (struct mii_timestamper *, struct sk_buff *, int)''),
      Field ''txtstamp'' (CPtr ''void (struct mii_timestamper *, struct sk_buff *, int)''),
      Field ''hwtstamp_set'' (CPtr ''int (struct mii_timestamper *, struct kernel_hwtstamp_config *, struct netlink_ext_ack *)''),
      Field ''hwtstamp_get'' (CPtr ''int (struct mii_timestamper *, struct kernel_hwtstamp_config *)''),
      Field ''link_state'' (CPtr ''void (struct mii_timestamper *, struct phy_device *)''),
      Field ''ts_info'' (CPtr ''int (struct mii_timestamper *, struct kernel_ethtool_ts_info *)''),
      Field ''device'' (CPtr ''struct device'')]"

definition struct_mmu_notifier_ops :: cty where
  "struct_mmu_notifier_ops = CStruct ''mmu_notifier_ops'' False
     [Field ''release'' (CPtr ''void (struct mmu_notifier *, struct mm_struct *)''),
      Field ''clear_flush_young'' (CPtr ''int (struct mmu_notifier *, struct mm_struct *, long unsigned int, long unsigned int)''),
      Field ''clear_young'' (CPtr ''int (struct mmu_notifier *, struct mm_struct *, long unsigned int, long unsigned int)''),
      Field ''test_young'' (CPtr ''int (struct mmu_notifier *, struct mm_struct *, long unsigned int)''),
      Field ''invalidate_range_start'' (CPtr ''int (struct mmu_notifier *, const struct mmu_notifier_range *)''),
      Field ''invalidate_range_end'' (CPtr ''void (struct mmu_notifier *, const struct mmu_notifier_range *)''),
      Field ''arch_invalidate_secondary_tlbs'' (CPtr ''void (struct mmu_notifier *, struct mm_struct *, long unsigned int, long unsigned int)''),
      Field ''alloc_notifier'' (CPtr ''struct mmu_notifier * (struct mm_struct *)''),
      Field ''free_notifier'' (CPtr ''void (struct mmu_notifier *)'')]"

definition struct_x86_msi_addr_lo :: cty where
  "struct_x86_msi_addr_lo = CStruct ''x86_msi_addr_lo'' False
     [Field [] (CUnion [] False
        [Field [] (CStruct [] False
           [BitField ''reserved_0'' u32 2,
            BitField ''dest_mode_logical'' u32 1,
            BitField ''redirect_hint'' u32 1,
            BitField ''reserved_1'' u32 1,
            BitField ''virt_destid_8_14'' u32 7,
            BitField ''destid_0_7'' u32 8,
            BitField ''base_address'' u32 12]),
         Field [] (CStruct [] False
           [BitField ''dmar_reserved_0'' u32 2,
            BitField ''dmar_index_15'' u32 1,
            BitField ''dmar_subhandle_valid'' u32 1,
            BitField ''dmar_format'' u32 1,
            BitField ''dmar_index_0_14'' u32 15,
            BitField ''dmar_base_address'' u32 12])])]"

definition arch_msi_msg_addr_lo_t :: cty where [layout_simps]:
  "arch_msi_msg_addr_lo_t = struct_x86_msi_addr_lo"

definition struct_x86_msi_addr_hi :: cty where
  "struct_x86_msi_addr_hi = CStruct ''x86_msi_addr_hi'' False
     [BitField ''reserved'' u32 8,
      BitField ''destid_8_31'' u32 24]"

definition arch_msi_msg_addr_hi_t :: cty where [layout_simps]:
  "arch_msi_msg_addr_hi_t = struct_x86_msi_addr_hi"

definition struct_x86_msi_data :: cty where
  "struct_x86_msi_data = CStruct ''x86_msi_data'' False
     [Field [] (CUnion [] False
        [Field [] (CStruct [] False
           [BitField ''vector'' u32 8,
            BitField ''delivery_mode'' u32 3,
            BitField ''dest_mode_logical'' u32 1,
            BitField ''reserved'' u32 2,
            BitField ''active_low'' u32 1,
            BitField ''is_level'' u32 1]),
         Field ''dmar_subhandle'' u32])]"

definition arch_msi_msg_data_t :: cty where [layout_simps]:
  "arch_msi_msg_data_t = struct_x86_msi_data"

definition struct_msi_msg :: cty where
  "struct_msi_msg = CStruct ''msi_msg'' False
     [Field [] (CUnion [] False
        [Field ''address_lo'' u32,
         Field ''arch_addr_lo'' arch_msi_msg_addr_lo_t]),
      Field [] (CUnion [] False
        [Field ''address_hi'' u32,
         Field ''arch_addr_hi'' arch_msi_msg_addr_hi_t]),
      Field [] (CUnion [] False
        [Field ''data'' u32,
         Field ''arch_data'' arch_msi_msg_data_t])]"

definition struct_pci_msi_desc :: cty where
  "struct_pci_msi_desc = CStruct ''pci_msi_desc'' False
     [Field [] (CUnion [] False
        [Field ''msi_mask'' u32,
         Field ''msix_ctrl'' u32]),
      Field ''msi_attrib'' (CStruct [] False
        [BitField ''is_msix'' u8 1,
         BitField ''multiple'' u8 3,
         BitField ''multi_cap'' u8 3,
         BitField ''can_mask'' u8 1,
         BitField ''is_64'' u8 1,
         BitField ''is_virtual'' u8 1,
         Field ''default_irq'' unsigned_int]),
      Field [] (CUnion [] False
        [Field ''mask_pos'' u8,
         Field ''mask_base'' (CPtr ''void'')])]"

definition union_msi_domain_cookie :: cty where
  "union_msi_domain_cookie = CUnion ''msi_domain_cookie'' False
     [Field ''value'' u64,
      Field ''ptr'' (CPtr ''void''),
      Field ''iobase'' (CPtr ''void'')]"

definition union_msi_instance_cookie :: cty where
  "union_msi_instance_cookie = CUnion ''msi_instance_cookie'' False
     [Field ''value'' u64,
      Field ''ptr'' (CPtr ''void'')]"

definition struct_msi_desc_data :: cty where
  "struct_msi_desc_data = CStruct ''msi_desc_data'' False
     [Field ''dcookie'' union_msi_domain_cookie,
      Field ''icookie'' union_msi_instance_cookie]"

definition struct_msi_desc :: cty where
  "struct_msi_desc = CStruct ''msi_desc'' False
     [Field ''irq'' unsigned_int,
      Field ''nvec_used'' unsigned_int,
      Field ''dev'' (CPtr ''struct device''),
      Field ''msg'' struct_msi_msg,
      Field ''affinity'' (CPtr ''struct irq_affinity_desc''),
      Field ''sysfs_attrs'' (CPtr ''struct device_attribute''),
      Field ''write_msi_msg'' (CPtr ''void (struct msi_desc *, void *)''),
      Field ''write_msi_msg_data'' (CPtr ''void''),
      Field ''msi_index'' u16,
      Field [] (CUnion [] False
        [Field ''pci'' struct_pci_msi_desc,
         Field ''data'' struct_msi_desc_data])]"

definition struct_neigh_parms :: cty where
  "struct_neigh_parms = CStruct ''neigh_parms'' False
     [Field ''net'' possible_net_t,
      Field ''dev'' (CPtr ''struct net_device''),
      Field ''dev_tracker'' netdevice_tracker,
      Field ''list'' struct_list_head,
      Field ''neigh_setup'' (CPtr ''int (struct neighbour *)''),
      Field ''tbl'' (CPtr ''struct neigh_table''),
      Field ''sysctl_table'' (CPtr ''void''),
      Field ''dead'' c_int,
      Field ''refcnt'' refcount_t,
      Field ''callback_head'' struct_callback_head,
      Field ''reachable_time'' c_int,
      Field ''qlen'' u32,
      Field ''data'' (CArr 14 c_int),
      Field ''data_state'' (CArr 1 long_unsigned_int)]"

definition struct_net_rate_estimator :: cty where
  "struct_net_rate_estimator = CStruct ''net_rate_estimator'' False
     [Field ''bstats'' (CPtr ''struct gnet_stats_basic_sync''),
      Field ''stats_lock'' (CPtr ''spinlock_t''),
      Field ''running'' bool,
      Field ''cpu_bstats'' (CPtr ''struct gnet_stats_basic_sync''),
      Field ''ewma_log'' u8,
      Field ''intvl_log'' u8,
      Field ''seq'' seqcount_t,
      Field ''last_packets'' u64,
      Field ''last_bytes'' u64,
      Field ''avpps'' u64,
      Field ''avbps'' u64,
      Field ''next_jiffies'' long_unsigned_int,
      Field ''timer'' struct_timer_list,
      Field ''rcu'' struct_callback_head]"

definition struct_net_shaper_ops :: cty where
  "struct_net_shaper_ops = CStruct ''net_shaper_ops'' False
     [Field ''group'' (CPtr ''int (struct net_shaper_binding *, int, const struct net_shaper *, const struct net_shaper *, struct netlink_ext_ack *)''),
      Field ''set'' (CPtr ''int (struct net_shaper_binding *, const struct net_shaper *, struct netlink_ext_ack *)''),
      Field ''delete'' (CPtr ''int (struct net_shaper_binding *, const struct net_shaper_handle *, struct netlink_ext_ack *)''),
      Field ''capabilities'' (CPtr ''void (struct net_shaper_binding *, enum net_shaper_scope, long unsigned int *)'')]"

definition enum_nfs4_change_attr_type :: cty where
  "enum_nfs4_change_attr_type = CEnum 4
     [(''NFS4_CHANGE_TYPE_IS_MONOTONIC_INCR'', 0), (''NFS4_CHANGE_TYPE_IS_VERSION_COUNTER'', 1),
      (''NFS4_CHANGE_TYPE_IS_VERSION_COUNTER_NOPNFS'', 2),
      (''NFS4_CHANGE_TYPE_IS_TIME_METADATA'', 3), (''NFS4_CHANGE_TYPE_IS_UNDEFINED'', 4)]"

definition struct_nfs_fsid :: cty where
  "struct_nfs_fsid = CStruct ''nfs_fsid'' False
     [Field ''major'' uint64_t,
      Field ''minor'' uint64_t]"

definition rpc_authflavor_t :: cty where [layout_simps]:
  "rpc_authflavor_t = u32"

definition struct_nfs_auth_info :: cty where
  "struct_nfs_auth_info = CStruct ''nfs_auth_info'' False
     [Field ''flavor_len'' unsigned_int,
      Field ''flavors'' (CArr 12 rpc_authflavor_t)]"

definition struct_nfs_server :: cty where
  "struct_nfs_server = CStruct ''nfs_server'' False
     [Field ''nfs_client'' (CPtr ''struct nfs_client''),
      Field ''client_link'' struct_list_head,
      Field ''master_link'' struct_list_head,
      Field ''client'' (CPtr ''struct rpc_clnt''),
      Field ''client_acl'' (CPtr ''struct rpc_clnt''),
      Field ''nlm_host'' (CPtr ''struct nlm_host''),
      Field ''io_stats'' (CPtr ''struct nfs_iostats''),
      Field ''write_congestion_wait'' wait_queue_head_t,
      Field ''writeback'' atomic_long_t,
      Field ''write_congested'' unsigned_int,
      Field ''flags'' unsigned_int,
      Field ''automount_inherit'' unsigned_int,
      Field ''caps'' unsigned_int,
      Field ''fattr_valid'' c__u64,
      Field ''rsize'' unsigned_int,
      Field ''rpages'' unsigned_int,
      Field ''wsize'' unsigned_int,
      Field ''wtmult'' unsigned_int,
      Field ''dtsize'' unsigned_int,
      Field ''port'' short_unsigned_int,
      Field ''bsize'' unsigned_int,
      Field ''gxasize'' unsigned_int,
      Field ''sxasize'' unsigned_int,
      Field ''lxasize'' unsigned_int,
      Field ''acregmin'' unsigned_int,
      Field ''acregmax'' unsigned_int,
      Field ''acdirmin'' unsigned_int,
      Field ''acdirmax'' unsigned_int,
      Field ''namelen'' unsigned_int,
      Field ''options'' unsigned_int,
      Field ''clone_blksize'' unsigned_int,
      Field ''change_attr_type'' enum_nfs4_change_attr_type,
      Field ''fsid'' struct_nfs_fsid,
      Field ''s_sysfs_id'' c_int,
      Field ''maxfilesize'' c__u64,
      Field ''mount_time'' long_unsigned_int,
      Field ''super'' (CPtr ''struct super_block''),
      Field ''s_dev'' dev_t,
      Field ''auth_info'' struct_nfs_auth_info,
      Field ''fscache'' (CPtr ''struct fscache_volume''),
      Field ''fscache_uniq'' (CPtr ''char''),
      Field ''fh_expire_type'' u32,
      Field ''pnfs_blksize'' u32,
      Field ''attr_bitmask'' (CArr 3 u32),
      Field ''attr_bitmask_nl'' (CArr 3 u32),
      Field ''exclcreat_bitmask'' (CArr 3 u32),
      Field ''cache_consistency_bitmask'' (CArr 3 u32),
      Field ''acl_bitmask'' u32,
      Field ''pnfs_curr_ld'' (CPtr ''struct pnfs_layoutdriver_type''),
      Field ''roc_rpcwaitq'' struct_rpc_wait_queue,
      Field ''state_owners'' struct_rb_root,
      Field ''owner_ctr'' atomic64_t,
      Field ''state_owners_lru'' struct_list_head,
      Field ''layouts'' struct_list_head,
      Field ''delegations'' struct_list_head,
      Field ''delegations_lock'' spinlock_t,
      Field ''delegations_return'' struct_list_head,
      Field ''delegations_lru'' struct_list_head,
      Field ''delegations_delayed'' struct_list_head,
      Field ''nr_active_delegations'' atomic_long_t,
      Field ''delegation_hash_mask'' unsigned_int,
      Field ''delegation_hash_table'' (CPtr ''struct hlist_head''),
      Field ''ss_copies'' struct_list_head,
      Field ''ss_src_copies'' struct_list_head,
      Field ''delegation_flags'' long_unsigned_int,
      Field ''delegation_gen'' long_unsigned_int,
      Field ''mig_gen'' long_unsigned_int,
      Field ''mig_status'' long_unsigned_int,
      Field ''destroy'' (CPtr ''void (struct nfs_server *)''),
      Field ''active'' atomic_t,
      Field ''mountd_address'' struct___kernel_sockaddr_storage,
      Field ''mountd_addrlen'' size_t,
      Field ''mountd_version'' u32,
      Field ''mountd_port'' short_unsigned_int,
      Field ''mountd_protocol'' short_unsigned_int,
      Field ''uoc_rpcwaitq'' struct_rpc_wait_queue,
      Field ''read_hdrsize'' unsigned_int,
      Field ''cred'' (CPtr ''const struct cred''),
      Field ''has_sec_mnt_opts'' bool,
      Field ''kobj'' struct_kobject,
      Field ''rcu'' struct_callback_head]"

definition struct_nh_grp_entry :: cty where
  "struct_nh_grp_entry = CStruct ''nh_grp_entry'' False
     [Field ''nh'' (CPtr ''struct nexthop''),
      Field ''stats'' (CPtr ''struct nh_grp_entry_stats''),
      Field ''weight'' u16,
      Field [] (CUnion [] False
        [Field ''hthr'' (CStruct [] False
           [Field ''upper_bound'' atomic_t]),
         Field ''res'' (CStruct [] False
           [Field ''uw_nh_entry'' struct_list_head,
            Field ''count_buckets'' u16,
            Field ''wants_buckets'' u16])]),
      Field ''nh_list'' struct_list_head,
      Field ''nh_parent'' (CPtr ''struct nexthop''),
      Field ''packets_hw'' u64]"

definition struct_nh_group :: cty where
  "struct_nh_group = CStruct ''nh_group'' False
     [Field ''spare'' (CPtr ''struct nh_group''),
      Field ''num_nh'' u16,
      Field ''is_multipath'' bool,
      Field ''hash_threshold'' bool,
      Field ''resilient'' bool,
      Field ''fdb_nh'' bool,
      Field ''has_v4'' bool,
      Field ''hw_stats'' bool,
      Field ''res_table'' (CPtr ''struct nh_res_table''),
      Field ''nh_entries'' (CArr 0 struct_nh_grp_entry)]"

definition struct_fib_nh :: cty where
  "struct_fib_nh = CStruct ''fib_nh'' False
     [Field ''nh_common'' struct_fib_nh_common,
      Field ''nh_hash'' struct_hlist_node,
      Field ''nh_parent'' (CPtr ''struct fib_info''),
      Field ''nh_tclassid'' c__u32,
      Field ''nh_saddr'' c__be32,
      Field ''nh_saddr_genid'' c_int]"

definition struct_nh_info :: cty where
  "struct_nh_info = CStruct ''nh_info'' False
     [Field ''dev_hash'' struct_hlist_node,
      Field ''nh_parent'' (CPtr ''struct nexthop''),
      Field ''family'' u8,
      Field ''reject_nh'' bool,
      Field ''fdb_nh'' bool,
      Field [] (CUnion [] False
        [Field ''fib_nhc'' struct_fib_nh_common,
         Field ''fib_nh'' struct_fib_nh,
         Field ''fib6_nh'' struct_fib6_nh])]"

definition struct_nla_policy :: cty where
  "struct_nla_policy = CStruct ''nla_policy'' False
     [Field ''type'' u8,
      Field ''validation_type'' u8,
      Field ''len'' u16,
      Field [] (CUnion [] False
        [Field ''strict_start_type'' u16,
         Field ''bitfield32_valid'' u32,
         Field ''mask'' u32,
         Field ''reject_message'' (CPtr ''const char''),
         Field ''nested_policy'' (CPtr ''const struct nla_policy''),
         Field ''range'' (CPtr ''const struct netlink_range_validation''),
         Field ''range_signed'' (CPtr ''const struct netlink_range_validation_signed''),
         Field [] (CStruct [] False
           [Field ''min'' s16,
            Field ''max'' s16]),
         Field ''validate'' (CPtr ''int (const struct nlattr *, struct netlink_ext_ack *)'')])]"

definition struct_nlattr :: cty where
  "struct_nlattr = CStruct ''nlattr'' False
     [Field ''nla_len'' c__u16,
      Field ''nla_type'' c__u16]"

definition struct_per_cpu_nodestat :: cty where
  "struct_per_cpu_nodestat = CStruct ''per_cpu_nodestat'' False
     [Field ''stat_threshold'' s8,
      Field ''vm_node_stat_diff'' (CArr 51 s8)]"

definition struct_per_cpu_pages :: cty where
  "struct_per_cpu_pages = CStruct ''per_cpu_pages'' False
     [Field ''lock'' spinlock_t,
      Field ''count'' c_int,
      Field ''high'' c_int,
      Field ''high_min'' c_int,
      Field ''high_max'' c_int,
      Field ''batch'' c_int,
      Field ''flags'' u8,
      Field ''alloc_factor'' u8,
      Field ''expire'' u8,
      Field ''free_count'' short_int,
      Field ''lists'' (CArr 14 struct_list_head)]"

definition struct_per_cpu_zonestat :: cty where
  "struct_per_cpu_zonestat = CStruct ''per_cpu_zonestat'' False
     [Field ''vm_stat_diff'' (CArr 12 s8),
      Field ''stat_threshold'' s8,
      Field ''vm_numa_event'' (CArr 6 long_unsigned_int)]"

definition struct_mdio_driver_common :: cty where
  "struct_mdio_driver_common = CStruct ''mdio_driver_common'' False
     [Field ''driver'' struct_device_driver,
      Field ''flags'' c_int]"

definition struct_phy_driver :: cty where
  "struct_phy_driver = CStruct ''phy_driver'' False
     [Field ''mdiodrv'' struct_mdio_driver_common,
      Field ''phy_id'' u32,
      Field ''name'' (CPtr ''char''),
      Field ''phy_id_mask'' u32,
      Field ''features'' (CPtr ''const long unsigned int''),
      Field ''flags'' u32,
      Field ''driver_data'' (CPtr ''const void''),
      Field ''soft_reset'' (CPtr ''int (struct phy_device *)''),
      Field ''config_init'' (CPtr ''int (struct phy_device *)''),
      Field ''probe'' (CPtr ''int (struct phy_device *)''),
      Field ''get_features'' (CPtr ''int (struct phy_device *)''),
      Field ''inband_caps'' (CPtr ''unsigned int (struct phy_device *, phy_interface_t)''),
      Field ''config_inband'' (CPtr ''int (struct phy_device *, unsigned int)''),
      Field ''get_rate_matching'' (CPtr ''int (struct phy_device *, phy_interface_t)''),
      Field ''suspend'' (CPtr ''int (struct phy_device *)''),
      Field ''resume'' (CPtr ''int (struct phy_device *)''),
      Field ''config_aneg'' (CPtr ''int (struct phy_device *)''),
      Field ''aneg_done'' (CPtr ''int (struct phy_device *)''),
      Field ''read_status'' (CPtr ''int (struct phy_device *)''),
      Field ''config_intr'' (CPtr ''int (struct phy_device *)''),
      Field ''handle_interrupt'' (CPtr ''irqreturn_t (struct phy_device *)''),
      Field ''remove'' (CPtr ''void (struct phy_device *)''),
      Field ''match_phy_device'' (CPtr ''int (struct phy_device *, const struct phy_driver *)''),
      Field ''set_wol'' (CPtr ''int (struct phy_device *, struct ethtool_wolinfo *)''),
      Field ''get_wol'' (CPtr ''void (struct phy_device *, struct ethtool_wolinfo *)''),
      Field ''link_change_notify'' (CPtr ''void (struct phy_device *)''),
      Field ''read_mmd'' (CPtr ''int (struct phy_device *, int, u16)''),
      Field ''write_mmd'' (CPtr ''int (struct phy_device *, int, u16, u16)''),
      Field ''read_page'' (CPtr ''int (struct phy_device *)''),
      Field ''write_page'' (CPtr ''int (struct phy_device *, int)''),
      Field ''module_info'' (CPtr ''int (struct phy_device *, struct ethtool_modinfo *)''),
      Field ''module_eeprom'' (CPtr ''int (struct phy_device *, struct ethtool_eeprom *, u8 *)''),
      Field ''cable_test_start'' (CPtr ''int (struct phy_device *)''),
      Field ''cable_test_tdr_start'' (CPtr ''int (struct phy_device *, const struct phy_tdr_config *)''),
      Field ''cable_test_get_status'' (CPtr ''int (struct phy_device *, bool *)''),
      Field ''get_phy_stats'' (CPtr ''void (struct phy_device *, struct ethtool_eth_phy_stats *, struct ethtool_phy_stats *)''),
      Field ''get_link_stats'' (CPtr ''void (struct phy_device *, struct ethtool_link_ext_stats *)''),
      Field ''update_stats'' (CPtr ''int (struct phy_device *)''),
      Field ''get_sset_count'' (CPtr ''int (struct phy_device *)''),
      Field ''get_strings'' (CPtr ''void (struct phy_device *, u8 *)''),
      Field ''get_stats'' (CPtr ''void (struct phy_device *, struct ethtool_stats *, u64 *)''),
      Field ''get_tunable'' (CPtr ''int (struct phy_device *, struct ethtool_tunable *, void *)''),
      Field ''set_tunable'' (CPtr ''int (struct phy_device *, struct ethtool_tunable *, const void *)''),
      Field ''set_loopback'' (CPtr ''int (struct phy_device *, bool, int)''),
      Field ''get_sqi'' (CPtr ''int (struct phy_device *)''),
      Field ''get_sqi_max'' (CPtr ''int (struct phy_device *)''),
      Field ''get_mse_capability'' (CPtr ''int (struct phy_device *, struct phy_mse_capability *)''),
      Field ''get_mse_snapshot'' (CPtr ''int (struct phy_device *, enum phy_mse_channel, struct phy_mse_snapshot *)''),
      Field ''get_plca_cfg'' (CPtr ''int (struct phy_device *, struct phy_plca_cfg *)''),
      Field ''set_plca_cfg'' (CPtr ''int (struct phy_device *, const struct phy_plca_cfg *)''),
      Field ''get_plca_status'' (CPtr ''int (struct phy_device *, struct phy_plca_status *)''),
      Field ''led_brightness_set'' (CPtr ''int (struct phy_device *, u8, enum led_brightness)''),
      Field ''led_blink_set'' (CPtr ''int (struct phy_device *, u8, long unsigned int *, long unsigned int *)''),
      Field ''led_hw_is_supported'' (CPtr ''int (struct phy_device *, u8, long unsigned int)''),
      Field ''led_hw_control_set'' (CPtr ''int (struct phy_device *, u8, long unsigned int)''),
      Field ''led_hw_control_get'' (CPtr ''int (struct phy_device *, u8, long unsigned int *)''),
      Field ''led_polarity_set'' (CPtr ''int (struct phy_device *, int, long unsigned int)''),
      Field ''get_next_update_time'' (CPtr ''unsigned int (struct phy_device *)''),
      Field ''attach_mii_port'' (CPtr ''int (struct phy_device *, struct phy_port *)''),
      Field ''attach_mdi_port'' (CPtr ''int (struct phy_device *, struct phy_port *)'')]"

definition struct_phy_led_trigger :: cty where
  "struct_phy_led_trigger = CStruct ''phy_led_trigger'' False
     [Field ''trigger'' struct_led_trigger,
      Field ''name'' (CArr 76 c_char),
      Field ''speed'' unsigned_int]"

definition enum_dev_prop_type :: cty where
  "enum_dev_prop_type = CEnum 4
     [(''DEV_PROP_U8'', 0), (''DEV_PROP_U16'', 1), (''DEV_PROP_U32'', 2), (''DEV_PROP_U64'', 3),
      (''DEV_PROP_STRING'', 4), (''DEV_PROP_REF'', 5)]"

definition struct_property_entry :: cty where
  "struct_property_entry = CStruct ''property_entry'' False
     [Field ''name'' (CPtr ''const char''),
      Field ''length'' size_t,
      Field ''is_inline'' bool,
      Field ''type'' enum_dev_prop_type,
      Field [] (CUnion [] False
        [Field ''pointer'' (CPtr ''const void''),
         Field ''value'' (CUnion [] False
           [Field ''u8_data'' (CArr 8 u8),
            Field ''u16_data'' (CArr 4 u16),
            Field ''u32_data'' (CArr 2 u32),
            Field ''u64_data'' (CArr 1 u64),
            Field ''str'' (CArr 1 (CPtr ''const char''))])])]"

definition struct_proto_ops :: cty where
  "struct_proto_ops = CStruct ''proto_ops'' False
     [Field ''family'' c_int,
      Field ''owner'' (CPtr ''struct module''),
      Field ''release'' (CPtr ''int (struct socket *)''),
      Field ''bind'' (CPtr ''int (struct socket *, struct sockaddr_unsized *, int)''),
      Field ''connect'' (CPtr ''int (struct socket *, struct sockaddr_unsized *, int, int)''),
      Field ''socketpair'' (CPtr ''int (struct socket *, struct socket *)''),
      Field ''accept'' (CPtr ''int (struct socket *, struct socket *, struct proto_accept_arg *)''),
      Field ''getname'' (CPtr ''int (struct socket *, struct sockaddr *, int)''),
      Field ''poll'' (CPtr ''__poll_t (struct file *, struct socket *, struct poll_table_struct *)''),
      Field ''ioctl'' (CPtr ''int (struct socket *, unsigned int, long unsigned int)''),
      Field ''compat_ioctl'' (CPtr ''int (struct socket *, unsigned int, long unsigned int)''),
      Field ''gettstamp'' (CPtr ''int (struct socket *, void *, bool, bool)''),
      Field ''listen'' (CPtr ''int (struct socket *, int)''),
      Field ''shutdown'' (CPtr ''int (struct socket *, int)''),
      Field ''setsockopt'' (CPtr ''int (struct socket *, int, int, sockptr_t, unsigned int)''),
      Field ''getsockopt'' (CPtr ''int (struct socket *, int, int, char *, int *)''),
      Field ''show_fdinfo'' (CPtr ''void (struct seq_file *, struct socket *)''),
      Field ''sendmsg'' (CPtr ''int (struct socket *, struct msghdr *, size_t)''),
      Field ''recvmsg'' (CPtr ''int (struct socket *, struct msghdr *, size_t, int)''),
      Field ''mmap'' (CPtr ''int (struct file *, struct socket *, struct vm_area_struct *)''),
      Field ''splice_read'' (CPtr ''ssize_t (struct socket *, loff_t *, struct pipe_inode_info *, size_t, unsigned int)''),
      Field ''splice_eof'' (CPtr ''void (struct socket *)''),
      Field ''set_peek_off'' (CPtr ''int (struct sock *, int)''),
      Field ''peek_len'' (CPtr ''int (struct socket *)''),
      Field ''read_sock'' (CPtr ''int (struct sock *, read_descriptor_t *, sk_read_actor_t)''),
      Field ''read_skb'' (CPtr ''int (struct sock *, skb_read_actor_t)''),
      Field ''sendmsg_locked'' (CPtr ''int (struct sock *, struct msghdr *, size_t)''),
      Field ''set_rcvlowat'' (CPtr ''int (struct sock *, int)'')]"

definition struct_pse_control :: cty where
  "struct_pse_control = CStruct ''pse_control'' False
     [Field ''pcdev'' (CPtr ''struct pse_controller_dev''),
      Field ''ps'' (CPtr ''struct regulator''),
      Field ''list'' struct_list_head,
      Field ''id'' unsigned_int,
      Field ''refcnt'' struct_kref,
      Field ''attached_phydev'' (CPtr ''struct phy_device'')]"

definition struct_psp_dev_caps :: cty where
  "struct_psp_dev_caps = CStruct ''psp_dev_caps'' False
     [Field ''versions'' u32,
      Field ''assoc_drv_spc'' u32]"

definition struct_psp_dev_ops :: cty where
  "struct_psp_dev_ops = CStruct ''psp_dev_ops'' False
     [Field ''set_config'' (CPtr ''int (struct psp_dev *, struct psp_dev_config *, struct netlink_ext_ack *)''),
      Field ''key_rotate'' (CPtr ''int (struct psp_dev *, struct netlink_ext_ack *)''),
      Field ''rx_spi_alloc'' (CPtr ''int (struct psp_dev *, u32, struct psp_key_parsed *, struct netlink_ext_ack *)''),
      Field ''tx_key_add'' (CPtr ''int (struct psp_dev *, struct psp_assoc *, struct netlink_ext_ack *)''),
      Field ''tx_key_del'' (CPtr ''void (struct psp_dev *, struct psp_assoc *)''),
      Field ''get_stats'' (CPtr ''void (struct psp_dev *, struct psp_dev_stats *)'')]"

definition struct_tc_sizespec :: cty where
  "struct_tc_sizespec = CStruct ''tc_sizespec'' False
     [Field ''cell_log'' unsigned_char,
      Field ''size_log'' unsigned_char,
      Field ''cell_align'' short_int,
      Field ''overhead'' c_int,
      Field ''linklayer'' unsigned_int,
      Field ''mpu'' unsigned_int,
      Field ''mtu'' unsigned_int,
      Field ''tsize'' unsigned_int]"

definition struct_qdisc_size_table :: cty where
  "struct_qdisc_size_table = CStruct ''qdisc_size_table'' False
     [Field ''rcu'' struct_callback_head,
      Field ''list'' struct_list_head,
      Field ''szopts'' struct_tc_sizespec,
      Field ''refcnt'' c_int,
      Field ''data'' (CArr 0 u16)]"

definition struct_raw_hashinfo :: cty where
  "struct_raw_hashinfo = CStruct ''raw_hashinfo'' False
     [Field ''lock'' spinlock_t,
      BitField [] c_long 64,
      BitField [] c_long 64,
      BitField [] c_long 64,
      BitField [] c_long 64,
      BitField [] c_long 64,
      BitField [] c_long 64,
      BitField [] c_long 64,
      Field ''ht'' (CArr 256 struct_hlist_head)]"

definition regex_match_func :: cty where [layout_simps]:
  "regex_match_func = CPtr ''int (char *, struct regex *, int)''"

definition struct_regex :: cty where
  "struct_regex = CStruct ''regex'' False
     [Field ''pattern'' (CArr 256 c_char),
      Field ''len'' c_int,
      Field ''field_len'' c_int,
      Field ''match'' regex_match_func]"

definition regmap_lock :: cty where [layout_simps]:
  "regmap_lock = CPtr ''void (void *)''"

definition regmap_unlock :: cty where [layout_simps]:
  "regmap_unlock = CPtr ''void (void *)''"

definition struct_regmap_format :: cty where
  "struct_regmap_format = CStruct ''regmap_format'' False
     [Field ''buf_size'' size_t,
      Field ''reg_bytes'' size_t,
      Field ''pad_bytes'' size_t,
      Field ''val_bytes'' size_t,
      Field ''reg_shift'' s8,
      Field ''format_write'' (CPtr ''void (struct regmap *, unsigned int, unsigned int)''),
      Field ''format_reg'' (CPtr ''void (void *, unsigned int, unsigned int)''),
      Field ''format_val'' (CPtr ''void (void *, unsigned int, unsigned int)''),
      Field ''parse_val'' (CPtr ''unsigned int (const void *)''),
      Field ''parse_inplace'' (CPtr ''void (void *)'')]"

definition enum_regcache_type :: cty where
  "enum_regcache_type = CEnum 4
     [(''REGCACHE_NONE'', 0), (''REGCACHE_RBTREE'', 1), (''REGCACHE_FLAT'', 2),
      (''REGCACHE_MAPLE'', 3), (''REGCACHE_FLAT_S'', 4)]"

definition struct_regmap :: cty where
  "struct_regmap = CStruct ''regmap'' False
     [Field [] (CUnion [] False
        [Field ''mutex'' struct_mutex,
         Field [] (CStruct [] False
           [Field ''spinlock'' spinlock_t,
            Field ''spinlock_flags'' long_unsigned_int]),
         Field [] (CStruct [] False
           [Field ''raw_spinlock'' raw_spinlock_t,
            Field ''raw_spinlock_flags'' long_unsigned_int])]),
      Field ''lock_key'' (CPtr ''struct lock_class_key''),
      Field ''lock'' regmap_lock,
      Field ''unlock'' regmap_unlock,
      Field ''lock_arg'' (CPtr ''void''),
      Field ''alloc_flags'' gfp_t,
      Field ''reg_base'' unsigned_int,
      Field ''dev'' (CPtr ''struct device''),
      Field ''work_buf'' (CPtr ''void''),
      Field ''format'' struct_regmap_format,
      Field ''bus'' (CPtr ''const struct regmap_bus''),
      Field ''bus_context'' (CPtr ''void''),
      Field ''name'' (CPtr ''const char''),
      Field ''async_lock'' spinlock_t,
      Field ''async_waitq'' wait_queue_head_t,
      Field ''async_list'' struct_list_head,
      Field ''async_free'' struct_list_head,
      Field ''async_ret'' c_int,
      Field ''async'' bool,
      Field ''debugfs_disable'' bool,
      Field ''debugfs'' (CPtr ''struct dentry''),
      Field ''debugfs_name'' (CPtr ''const char''),
      Field ''debugfs_reg_len'' unsigned_int,
      Field ''debugfs_val_len'' unsigned_int,
      Field ''debugfs_tot_len'' unsigned_int,
      Field ''debugfs_off_cache'' struct_list_head,
      Field ''cache_lock'' struct_mutex,
      Field ''max_register'' unsigned_int,
      Field ''max_register_is_set'' bool,
      Field ''writeable_reg'' (CPtr ''bool (struct device *, unsigned int)''),
      Field ''readable_reg'' (CPtr ''bool (struct device *, unsigned int)''),
      Field ''volatile_reg'' (CPtr ''bool (struct device *, unsigned int)''),
      Field ''precious_reg'' (CPtr ''bool (struct device *, unsigned int)''),
      Field ''writeable_noinc_reg'' (CPtr ''bool (struct device *, unsigned int)''),
      Field ''readable_noinc_reg'' (CPtr ''bool (struct device *, unsigned int)''),
      Field ''wr_table'' (CPtr ''const struct regmap_access_table''),
      Field ''rd_table'' (CPtr ''const struct regmap_access_table''),
      Field ''volatile_table'' (CPtr ''const struct regmap_access_table''),
      Field ''precious_table'' (CPtr ''const struct regmap_access_table''),
      Field ''wr_noinc_table'' (CPtr ''const struct regmap_access_table''),
      Field ''rd_noinc_table'' (CPtr ''const struct regmap_access_table''),
      Field ''reg_read'' (CPtr ''int (void *, unsigned int, unsigned int *)''),
      Field ''reg_write'' (CPtr ''int (void *, unsigned int, unsigned int)''),
      Field ''reg_update_bits'' (CPtr ''int (void *, unsigned int, unsigned int, unsigned int)''),
      Field ''read'' (CPtr ''int (void *, const void *, size_t, void *, size_t)''),
      Field ''write'' (CPtr ''int (void *, const void *, size_t)''),
      Field ''reg_default_cb'' (CPtr ''int (struct device *, unsigned int, unsigned int *)''),
      Field ''read_flag_mask'' long_unsigned_int,
      Field ''write_flag_mask'' long_unsigned_int,
      Field ''reg_shift'' c_int,
      Field ''reg_stride'' c_int,
      Field ''reg_stride_order'' c_int,
      Field ''defer_caching'' bool,
      Field ''force_write_field'' bool,
      Field ''cache_ops'' (CPtr ''const struct regcache_ops''),
      Field ''cache_type'' enum_regcache_type,
      Field ''cache_size_raw'' unsigned_int,
      Field ''cache_word_size'' unsigned_int,
      Field ''num_reg_defaults'' unsigned_int,
      Field ''num_reg_defaults_raw'' unsigned_int,
      Field ''cache_only'' bool,
      Field ''cache_bypass'' bool,
      Field ''cache_free'' bool,
      Field ''reg_defaults'' (CPtr ''struct reg_default''),
      Field ''reg_defaults_raw'' (CPtr ''const void''),
      Field ''cache'' (CPtr ''void''),
      Field ''cache_dirty'' bool,
      Field ''no_sync_defaults'' bool,
      Field ''patch'' (CPtr ''struct reg_sequence''),
      Field ''patch_regs'' c_int,
      Field ''can_sleep'' bool,
      Field ''use_single_read'' bool,
      Field ''use_single_write'' bool,
      Field ''can_multi_write'' bool,
      Field ''max_raw_read'' size_t,
      Field ''max_raw_write'' size_t,
      Field ''range_tree'' struct_rb_root,
      Field ''selector_work_buf'' (CPtr ''void''),
      Field ''hwlock'' (CPtr ''struct hwspinlock'')]"

definition struct_regulator_state :: cty where
  "struct_regulator_state = CStruct ''regulator_state'' False
     [Field ''uV'' c_int,
      Field ''min_uV'' c_int,
      Field ''max_uV'' c_int,
      Field ''mode'' unsigned_int,
      Field ''enabled'' c_int,
      Field ''changeable'' bool]"

definition struct_notification_limit :: cty where
  "struct_notification_limit = CStruct ''notification_limit'' False
     [Field ''prot'' c_int,
      Field ''err'' c_int,
      Field ''warn'' c_int]"

definition suspend_state_t :: cty where [layout_simps]:
  "suspend_state_t = c_int"

definition struct_regulation_constraints :: cty where
  "struct_regulation_constraints = CStruct ''regulation_constraints'' False
     [Field ''name'' (CPtr ''const char''),
      Field ''min_uV'' c_int,
      Field ''max_uV'' c_int,
      Field ''uV_offset'' c_int,
      Field ''min_uA'' c_int,
      Field ''max_uA'' c_int,
      Field ''ilim_uA'' c_int,
      Field ''pw_budget_mW'' c_int,
      Field ''system_load'' c_int,
      Field ''max_spread'' (CPtr ''u32''),
      Field ''max_uV_step'' c_int,
      Field ''valid_modes_mask'' unsigned_int,
      Field ''valid_ops_mask'' unsigned_int,
      Field ''input_uV'' c_int,
      Field ''state_disk'' struct_regulator_state,
      Field ''state_mem'' struct_regulator_state,
      Field ''state_standby'' struct_regulator_state,
      Field ''over_curr_limits'' struct_notification_limit,
      Field ''over_voltage_limits'' struct_notification_limit,
      Field ''under_voltage_limits'' struct_notification_limit,
      Field ''temp_limits'' struct_notification_limit,
      Field ''initial_state'' suspend_state_t,
      Field ''initial_mode'' unsigned_int,
      Field ''ramp_delay'' unsigned_int,
      Field ''settling_time'' unsigned_int,
      Field ''settling_time_up'' unsigned_int,
      Field ''settling_time_down'' unsigned_int,
      Field ''enable_time'' unsigned_int,
      Field ''uv_less_critical_window_ms'' unsigned_int,
      Field ''active_discharge'' unsigned_int,
      BitField ''always_on'' unsigned_int 1,
      BitField ''boot_on'' unsigned_int 1,
      BitField ''apply_uV'' unsigned_int 1,
      BitField ''ramp_disable'' unsigned_int 1,
      BitField ''soft_start'' unsigned_int 1,
      BitField ''pull_down'' unsigned_int 1,
      BitField ''system_critical'' unsigned_int 1,
      BitField ''over_current_protection'' unsigned_int 1,
      BitField ''over_current_detection'' unsigned_int 1,
      BitField ''over_voltage_detection'' unsigned_int 1,
      BitField ''under_voltage_detection'' unsigned_int 1,
      BitField ''over_temp_detection'' unsigned_int 1]"

definition struct_regulator_coupler :: cty where
  "struct_regulator_coupler = CStruct ''regulator_coupler'' False
     [Field ''list'' struct_list_head,
      Field ''attach_regulator'' (CPtr ''int (struct regulator_coupler *, struct regulator_dev *)''),
      Field ''detach_regulator'' (CPtr ''int (struct regulator_coupler *, struct regulator_dev *)''),
      Field ''balance_voltage'' (CPtr ''int (struct regulator_coupler *, struct regulator_dev *, suspend_state_t)'')]"

definition enum_regulator_type :: cty where
  "enum_regulator_type = CEnum 4
     [(''REGULATOR_VOLTAGE'', 0), (''REGULATOR_CURRENT'', 1)]"

definition struct_regulator_desc :: cty where
  "struct_regulator_desc = CStruct ''regulator_desc'' False
     [Field ''name'' (CPtr ''const char''),
      Field ''supply_name'' (CPtr ''const char''),
      Field ''of_match'' (CPtr ''const char''),
      Field ''of_match_full_name'' bool,
      Field ''regulators_node'' (CPtr ''const char''),
      Field ''of_parse_cb'' (CPtr ''int (struct device_node *, const struct regulator_desc *, struct regulator_config *)''),
      Field ''init_cb'' (CPtr ''int (struct regulator_dev *, struct regulator_config *)''),
      Field ''id'' c_int,
      BitField ''continuous_voltage_range'' unsigned_int 1,
      Field ''n_voltages'' unsigned_int,
      Field ''n_current_limits'' unsigned_int,
      Field ''ops'' (CPtr ''const struct regulator_ops''),
      Field ''irq'' c_int,
      Field ''type'' enum_regulator_type,
      Field ''owner'' (CPtr ''struct module''),
      Field ''min_uV'' unsigned_int,
      Field ''uV_step'' unsigned_int,
      Field ''linear_min_sel'' unsigned_int,
      Field ''fixed_uV'' c_int,
      Field ''ramp_delay'' unsigned_int,
      Field ''min_dropout_uV'' c_int,
      Field ''linear_ranges'' (CPtr ''const struct linear_range''),
      Field ''linear_range_selectors_bitfield'' (CPtr ''const unsigned int''),
      Field ''n_linear_ranges'' c_int,
      Field ''volt_table'' (CPtr ''const unsigned int''),
      Field ''curr_table'' (CPtr ''const unsigned int''),
      Field ''vsel_range_reg'' unsigned_int,
      Field ''vsel_range_mask'' unsigned_int,
      Field ''range_applied_by_vsel'' bool,
      Field ''vsel_reg'' unsigned_int,
      Field ''vsel_mask'' unsigned_int,
      Field ''vsel_step'' unsigned_int,
      Field ''csel_reg'' unsigned_int,
      Field ''csel_mask'' unsigned_int,
      Field ''apply_reg'' unsigned_int,
      Field ''apply_bit'' unsigned_int,
      Field ''enable_reg'' unsigned_int,
      Field ''enable_mask'' unsigned_int,
      Field ''enable_val'' unsigned_int,
      Field ''disable_val'' unsigned_int,
      Field ''enable_is_inverted'' bool,
      Field ''bypass_reg'' unsigned_int,
      Field ''bypass_mask'' unsigned_int,
      Field ''bypass_val_on'' unsigned_int,
      Field ''bypass_val_off'' unsigned_int,
      Field ''active_discharge_on'' unsigned_int,
      Field ''active_discharge_off'' unsigned_int,
      Field ''active_discharge_mask'' unsigned_int,
      Field ''active_discharge_reg'' unsigned_int,
      Field ''soft_start_reg'' unsigned_int,
      Field ''soft_start_mask'' unsigned_int,
      Field ''soft_start_val_on'' unsigned_int,
      Field ''pull_down_reg'' unsigned_int,
      Field ''pull_down_mask'' unsigned_int,
      Field ''pull_down_val_on'' unsigned_int,
      Field ''ramp_reg'' unsigned_int,
      Field ''ramp_mask'' unsigned_int,
      Field ''ramp_delay_table'' (CPtr ''const unsigned int''),
      Field ''n_ramp_values'' unsigned_int,
      Field ''enable_time'' unsigned_int,
      Field ''off_on_delay'' unsigned_int,
      Field ''poll_enabled_time'' unsigned_int,
      Field ''of_map_mode'' (CPtr ''unsigned int (unsigned int)'')]"

definition struct_regulator_enable_gpio :: cty where
  "struct_regulator_enable_gpio = CStruct ''regulator_enable_gpio'' False
     [Field ''list'' struct_list_head,
      Field ''gpiod'' (CPtr ''struct gpio_desc''),
      Field ''enable_count'' u32,
      Field ''request_count'' u32]"

definition struct_request_sock_ops :: cty where
  "struct_request_sock_ops = CStruct ''request_sock_ops'' False
     [Field ''family'' c_int,
      Field ''obj_size'' unsigned_int,
      Field ''slab'' (CPtr ''struct kmem_cache''),
      Field ''slab_name'' (CPtr ''char''),
      Field ''send_ack'' (CPtr ''void (const struct sock *, struct sk_buff *, struct request_sock *)''),
      Field ''send_reset'' (CPtr ''void (const struct sock *, struct sk_buff *, enum sk_rst_reason)''),
      Field ''destructor'' (CPtr ''void (struct request_sock *)'')]"

definition struct_reset_control :: cty where
  "struct_reset_control = CStruct ''reset_control'' False
     [Field ''rcdev'' (CPtr ''struct reset_controller_dev''),
      Field ''list'' struct_list_head,
      Field ''id'' unsigned_int,
      Field ''refcnt'' struct_kref,
      Field ''acquired'' bool,
      Field ''shared'' bool,
      Field ''array'' bool,
      Field ''deassert_count'' atomic_t,
      Field ''triggered_count'' atomic_t]"

definition struct_rhash_lock_head :: cty where
  "struct_rhash_lock_head = CStruct ''rhash_lock_head'' False
     []"

definition struct_rps_dev_flow :: cty where
  "struct_rps_dev_flow = CStruct ''rps_dev_flow'' False
     [Field ''cpu'' u16,
      Field ''filter'' u16,
      Field ''last_qtail'' unsigned_int,
      Field ''hash'' u32]"

definition struct_rps_dev_flow_table :: cty where
  "struct_rps_dev_flow_table = CStruct ''rps_dev_flow_table'' False
     [Field ''log'' u8,
      Field ''rcu'' struct_callback_head,
      Field ''flows'' (CArr 0 struct_rps_dev_flow)]"

definition struct_rps_map :: cty where
  "struct_rps_map = CStruct ''rps_map'' False
     [Field ''len'' unsigned_int,
      Field ''rcu'' struct_callback_head,
      Field ''cpus'' (CArr 0 u16)]"

definition struct_sched_group_capacity :: cty where
  "struct_sched_group_capacity = CStruct ''sched_group_capacity'' False
     [Field ''ref'' atomic_t,
      Field ''capacity'' long_unsigned_int,
      Field ''min_capacity'' long_unsigned_int,
      Field ''max_capacity'' long_unsigned_int,
      Field ''next_update'' long_unsigned_int,
      Field ''imbalance'' c_int,
      Field ''id'' c_int,
      Field ''cpumask'' (CArr 0 long_unsigned_int)]"

definition struct_sfp_socket_ops :: cty where
  "struct_sfp_socket_ops = CStruct ''sfp_socket_ops'' False
     [Field ''attach'' (CPtr ''void (struct sfp *)''),
      Field ''detach'' (CPtr ''void (struct sfp *)''),
      Field ''start'' (CPtr ''void (struct sfp *)''),
      Field ''stop'' (CPtr ''void (struct sfp *)''),
      Field ''set_signal_rate'' (CPtr ''void (struct sfp *, unsigned int)''),
      Field ''module_info'' (CPtr ''int (struct sfp *, struct ethtool_modinfo *)''),
      Field ''module_eeprom'' (CPtr ''int (struct sfp *, struct ethtool_eeprom *, u8 *)''),
      Field ''module_eeprom_by_page'' (CPtr ''int (struct sfp *, const struct ethtool_module_eeprom *, struct netlink_ext_ack *)'')]"

definition struct_sfp_upstream_ops :: cty where
  "struct_sfp_upstream_ops = CStruct ''sfp_upstream_ops'' False
     [Field ''attach'' (CPtr ''void (void *, struct sfp_bus *)''),
      Field ''detach'' (CPtr ''void (void *, struct sfp_bus *)''),
      Field ''module_insert'' (CPtr ''int (void *, const struct sfp_eeprom_id *)''),
      Field ''module_remove'' (CPtr ''void (void *)''),
      Field ''module_start'' (CPtr ''int (void *)''),
      Field ''module_stop'' (CPtr ''void (void *)''),
      Field ''link_down'' (CPtr ''void (void *)''),
      Field ''link_up'' (CPtr ''void (void *)''),
      Field ''connect_phy'' (CPtr ''int (void *, struct phy_device *)''),
      Field ''disconnect_phy'' (CPtr ''void (void *, struct phy_device *)'')]"

definition struct_shrinker_info_unit :: cty where
  "struct_shrinker_info_unit = CStruct ''shrinker_info_unit'' False
     [Field ''nr_deferred'' (CArr 64 atomic_long_t),
      Field ''map'' (CArr 1 long_unsigned_int)]"

definition struct_smc_hashinfo :: cty where
  "struct_smc_hashinfo = CStruct ''smc_hashinfo'' False
     [Field ''lock'' rwlock_t,
      Field ''ht'' struct_hlist_head]"

definition struct_timewait_sock_ops :: cty where
  "struct_timewait_sock_ops = CStruct ''timewait_sock_ops'' False
     [Field ''twsk_slab'' (CPtr ''struct kmem_cache''),
      Field ''twsk_slab_name'' (CPtr ''char''),
      Field ''twsk_obj_size'' unsigned_int]"

definition struct_udp_tunnel_nic_shared :: cty where
  "struct_udp_tunnel_nic_shared = CStruct ''udp_tunnel_nic_shared'' False
     [Field ''udp_tunnel_nic_info'' (CPtr ''struct udp_tunnel_nic''),
      Field ''devices'' struct_list_head]"

definition struct_vhost_task :: cty where
  "struct_vhost_task = CStruct ''vhost_task'' False
     [Field ''fn'' (CPtr ''bool (void *)''),
      Field ''handle_sigkill'' (CPtr ''void (void *)''),
      Field ''data'' (CPtr ''void''),
      Field ''exited'' struct_completion,
      Field ''flags'' long_unsigned_int,
      Field ''task'' (CPtr ''struct task_struct''),
      Field ''exit_mutex'' struct_mutex]"

definition enum_cfg80211_signal_type :: cty where
  "enum_cfg80211_signal_type = CEnum 4
     [(''CFG80211_SIGNAL_TYPE_NONE'', 0), (''CFG80211_SIGNAL_TYPE_MBM'', 1),
      (''CFG80211_SIGNAL_TYPE_UNSPEC'', 2)]"

definition struct_wiphy_nan_capa :: cty where
  "struct_wiphy_nan_capa = CStruct ''wiphy_nan_capa'' False
     [Field ''flags'' u32,
      Field ''op_mode'' u8,
      Field ''n_antennas'' u8,
      Field ''max_channel_switch_time'' u16,
      Field ''dev_capabilities'' u8]"

definition struct_wiphy :: cty where
  "struct_wiphy = CStruct ''wiphy'' False
     [Field ''mtx'' struct_mutex,
      Field ''perm_addr'' (CArr 6 u8),
      Field ''addr_mask'' (CArr 6 u8),
      Field ''addresses'' (CPtr ''struct mac_address''),
      Field ''mgmt_stypes'' (CPtr ''const struct ieee80211_txrx_stypes''),
      Field ''iface_combinations'' (CPtr ''const struct ieee80211_iface_combination''),
      Field ''n_iface_combinations'' c_int,
      Field ''software_iftypes'' u16,
      Field ''n_addresses'' u16,
      Field ''interface_modes'' u16,
      Field ''max_acl_mac_addrs'' u16,
      Field ''flags'' u32,
      Field ''regulatory_flags'' u32,
      Field ''features'' u32,
      Field ''ext_features'' (CArr 9 u8),
      Field ''ap_sme_capa'' u32,
      Field ''signal_type'' enum_cfg80211_signal_type,
      Field ''bss_priv_size'' c_int,
      Field ''max_scan_ssids'' u8,
      Field ''max_sched_scan_reqs'' u8,
      Field ''max_sched_scan_ssids'' u8,
      Field ''max_match_sets'' u8,
      Field ''max_scan_ie_len'' u16,
      Field ''max_sched_scan_ie_len'' u16,
      Field ''max_sched_scan_plans'' u32,
      Field ''max_sched_scan_plan_interval'' u32,
      Field ''max_sched_scan_plan_iterations'' u32,
      Field ''n_cipher_suites'' c_int,
      Field ''cipher_suites'' (CPtr ''const u32''),
      Field ''n_akm_suites'' c_int,
      Field ''akm_suites'' (CPtr ''const u32''),
      Field ''iftype_akm_suites'' (CPtr ''const struct wiphy_iftype_akm_suites''),
      Field ''num_iftype_akm_suites'' unsigned_int,
      Field ''retry_short'' u8,
      Field ''retry_long'' u8,
      Field ''frag_threshold'' u32,
      Field ''rts_threshold'' u32,
      Field ''coverage_class'' u8,
      Field ''fw_version'' (CArr 32 c_char),
      Field ''hw_version'' u32,
      Field ''wowlan'' (CPtr ''const struct wiphy_wowlan_support''),
      Field ''wowlan_config'' (CPtr ''struct cfg80211_wowlan''),
      Field ''max_remain_on_channel_duration'' u16,
      Field ''max_num_pmkids'' u8,
      Field ''available_antennas_tx'' u32,
      Field ''available_antennas_rx'' u32,
      Field ''probe_resp_offload'' u32,
      Field ''extended_capabilities'' (CPtr ''const u8''),
      Field ''extended_capabilities_mask'' (CPtr ''const u8''),
      Field ''extended_capabilities_len'' u8,
      Field ''iftype_ext_capab'' (CPtr ''const struct wiphy_iftype_ext_capab''),
      Field ''num_iftype_ext_capab'' unsigned_int,
      Field ''privid'' (CPtr ''const void''),
      Field ''bands'' (CArr 6 (CPtr ''struct ieee80211_supported_band'')),
      Field ''reg_notifier'' (CPtr ''void (struct wiphy *, struct regulatory_request *)''),
      Field ''radio_cfg'' (CPtr ''struct wiphy_radio_cfg''),
      Field ''regd'' (CPtr ''const struct ieee80211_regdomain''),
      Field ''dev'' struct_device,
      Field ''registered'' bool,
      Field ''debugfsdir'' (CPtr ''struct dentry''),
      Field ''ht_capa_mod_mask'' (CPtr ''const struct ieee80211_ht_cap''),
      Field ''vht_capa_mod_mask'' (CPtr ''const struct ieee80211_vht_cap''),
      Field ''wdev_list'' struct_list_head,
      Field ''_net'' possible_net_t,
      Field ''wext'' (CPtr ''const struct iw_handler_def''),
      Field ''coalesce'' (CPtr ''const struct wiphy_coalesce_support''),
      Field ''vendor_commands'' (CPtr ''const struct wiphy_vendor_command''),
      Field ''vendor_events'' (CPtr ''const struct nl80211_vendor_cmd_info''),
      Field ''n_vendor_commands'' c_int,
      Field ''n_vendor_events'' c_int,
      Field ''max_ap_assoc_sta'' u16,
      Field ''max_num_csa_counters'' u8,
      Field ''bss_param_support'' u32,
      Field ''bss_select_support'' u32,
      Field ''nan_supported_bands'' u8,
      Field ''nan_capa'' struct_wiphy_nan_capa,
      Field ''txq_limit'' u32,
      Field ''txq_memory_limit'' u32,
      Field ''txq_quantum'' u32,
      Field ''tx_queue_len'' long_unsigned_int,
      BitField ''support_mbssid'' u8 1,
      BitField ''support_only_he_mbssid'' u8 1,
      Field ''pmsr_capa'' (CPtr ''const struct cfg80211_pmsr_capabilities''),
      Field ''tid_config_support'' (CStruct [] False
        [Field ''peer'' u64,
         Field ''vif'' u64,
         Field ''max_retry'' u8]),
      Field ''max_data_retry_count'' u8,
      Field ''sar_capa'' (CPtr ''const struct cfg80211_sar_capa''),
      Field ''rfkill'' (CPtr ''struct rfkill''),
      Field ''mbssid_max_interfaces'' u8,
      Field ''ema_max_profile_periodicity'' u8,
      Field ''max_num_akm_suites'' u16,
      Field ''hw_timestamp_max_peers'' u16,
      Field ''n_radio'' c_int,
      Field ''radio'' (CPtr ''const struct wiphy_radio''),
      BitField [] c_long 64,
      BitField [] c_long 64,
      Field ''priv'' (CArr 0 c_char)]"

definition struct_wpan_dev_header_ops :: cty where
  "struct_wpan_dev_header_ops = CStruct ''wpan_dev_header_ops'' False
     [Field ''create'' (CPtr ''int (struct sk_buff *, struct net_device *, const struct ieee802154_addr *, const struct ieee802154_addr *, unsigned int)'')]"

definition enum_nl802154_supported_bool_states :: cty where
  "enum_nl802154_supported_bool_states = CEnum 4
     [(''NL802154_SUPPORTED_BOOL_FALSE'', 0), (''NL802154_SUPPORTED_BOOL_TRUE'', 1),
      (''__NL802154_SUPPORTED_BOOL_INVALD'', 2), (''NL802154_SUPPORTED_BOOL_BOTH'', 3),
      (''__NL802154_SUPPORTED_BOOL_AFTER_LAST'', 4), (''NL802154_SUPPORTED_BOOL_MAX'', 3)]"

definition struct_wpan_phy_supported :: cty where
  "struct_wpan_phy_supported = CStruct ''wpan_phy_supported'' False
     [Field ''channels'' (CArr 32 u32),
      Field ''cca_modes'' u32,
      Field ''cca_opts'' u32,
      Field ''iftypes'' u32,
      Field ''lbt'' enum_nl802154_supported_bool_states,
      Field ''min_minbe'' u8,
      Field ''max_minbe'' u8,
      Field ''min_maxbe'' u8,
      Field ''max_maxbe'' u8,
      Field ''min_csma_backoffs'' u8,
      Field ''max_csma_backoffs'' u8,
      Field ''min_frame_retries'' s8,
      Field ''max_frame_retries'' s8,
      Field ''tx_powers_size'' size_t,
      Field ''cca_ed_levels_size'' size_t,
      Field ''tx_powers'' (CPtr ''const s32''),
      Field ''cca_ed_levels'' (CPtr ''const s32'')]"

definition enum_nl802154_cca_modes :: cty where
  "enum_nl802154_cca_modes = CEnum 4
     [(''__NL802154_CCA_INVALID'', 0), (''NL802154_CCA_ENERGY'', 1),
      (''NL802154_CCA_CARRIER'', 2), (''NL802154_CCA_ENERGY_CARRIER'', 3),
      (''NL802154_CCA_ALOHA'', 4), (''NL802154_CCA_UWB_SHR'', 5),
      (''NL802154_CCA_UWB_MULTIPLEXED'', 6), (''__NL802154_CCA_ATTR_AFTER_LAST'', 7),
      (''NL802154_CCA_ATTR_MAX'', 6)]"

definition enum_nl802154_cca_opts :: cty where
  "enum_nl802154_cca_opts = CEnum 4
     [(''NL802154_CCA_OPT_ENERGY_CARRIER_AND'', 0), (''NL802154_CCA_OPT_ENERGY_CARRIER_OR'', 1),
      (''__NL802154_CCA_OPT_ATTR_AFTER_LAST'', 2), (''NL802154_CCA_OPT_ATTR_MAX'', 1)]"

definition struct_wpan_phy_cca :: cty where
  "struct_wpan_phy_cca = CStruct ''wpan_phy_cca'' False
     [Field ''mode'' enum_nl802154_cca_modes,
      Field ''opt'' enum_nl802154_cca_opts]"

definition enum_ieee802154_filtering_level :: cty where
  "enum_ieee802154_filtering_level = CEnum 4
     [(''IEEE802154_FILTERING_NONE'', 0), (''IEEE802154_FILTERING_1_FCS'', 1),
      (''IEEE802154_FILTERING_2_PROMISCUOUS'', 2), (''IEEE802154_FILTERING_3_SCAN'', 3),
      (''IEEE802154_FILTERING_4_FRAME_FIELDS'', 4)]"

definition struct_wpan_phy :: cty where
  "struct_wpan_phy = CStruct ''wpan_phy'' False
     [Field ''privid'' (CPtr ''const void''),
      Field ''flags'' long_unsigned_int,
      Field ''current_channel'' u8,
      Field ''current_page'' u8,
      Field ''supported'' struct_wpan_phy_supported,
      Field ''transmit_power'' s32,
      Field ''cca'' struct_wpan_phy_cca,
      Field ''perm_extended_addr'' c__le64,
      Field ''cca_ed_level'' s32,
      Field ''symbol_duration'' u32,
      Field ''lifs_period'' u16,
      Field ''sifs_period'' u16,
      Field ''dev'' struct_device,
      Field ''_net'' possible_net_t,
      Field ''queue_lock'' spinlock_t,
      Field ''ongoing_txs'' atomic_t,
      Field ''hold_txs'' atomic_t,
      Field ''sync_txq'' wait_queue_head_t,
      Field ''filtering'' enum_ieee802154_filtering_level,
      BitField [] c_long 64,
      Field ''priv'' (CArr 0 c_char)]"

definition enum_xdp_mem_type :: cty where
  "enum_xdp_mem_type = CEnum 4
     [(''MEM_TYPE_PAGE_SHARED'', 0), (''MEM_TYPE_PAGE_ORDER0'', 1), (''MEM_TYPE_PAGE_POOL'', 2),
      (''MEM_TYPE_XSK_BUFF_POOL'', 3), (''MEM_TYPE_MAX'', 4)]"

definition struct_xdp_frame :: cty where
  "struct_xdp_frame = CStruct ''xdp_frame'' False
     [Field ''data'' (CPtr ''void''),
      Field ''len'' u32,
      Field ''headroom'' u32,
      Field ''metasize'' u32,
      BitField ''mem_type'' enum_xdp_mem_type 32,
      Field ''dev_rx'' (CPtr ''struct net_device''),
      Field ''frame_sz'' u32,
      Field ''flags'' u32]"

definition struct_xfrm_address_filter :: cty where
  "struct_xfrm_address_filter = CStruct ''xfrm_address_filter'' False
     [Field ''saddr'' xfrm_address_t,
      Field ''daddr'' xfrm_address_t,
      Field ''family'' c__u16,
      Field ''splen'' c__u8,
      Field ''dplen'' c__u8]"

definition struct_xfrm_algo :: cty where
  "struct_xfrm_algo = CStruct ''xfrm_algo'' False
     [Field ''alg_name'' (CArr 64 c_char),
      Field ''alg_key_len'' unsigned_int,
      Field ''alg_key'' (CArr 0 c_char)]"

definition struct_xfrm_algo_aead :: cty where
  "struct_xfrm_algo_aead = CStruct ''xfrm_algo_aead'' False
     [Field ''alg_name'' (CArr 64 c_char),
      Field ''alg_key_len'' unsigned_int,
      Field ''alg_icv_len'' unsigned_int,
      Field ''alg_key'' (CArr 0 c_char)]"

definition struct_xfrm_algo_auth :: cty where
  "struct_xfrm_algo_auth = CStruct ''xfrm_algo_auth'' False
     [Field ''alg_name'' (CArr 64 c_char),
      Field ''alg_key_len'' unsigned_int,
      Field ''alg_trunc_len'' unsigned_int,
      Field ''alg_key'' (CArr 0 c_char)]"

definition struct_xfrm_encap_tmpl :: cty where
  "struct_xfrm_encap_tmpl = CStruct ''xfrm_encap_tmpl'' False
     [Field ''encap_type'' c__u16,
      Field ''encap_sport'' c__be16,
      Field ''encap_dport'' c__be16,
      Field ''encap_oa'' xfrm_address_t]"

definition struct_xfrm_mode_cbs :: cty where
  "struct_xfrm_mode_cbs = CStruct ''xfrm_mode_cbs'' False
     [Field ''owner'' (CPtr ''struct module''),
      Field ''init_state'' (CPtr ''int (struct xfrm_state *)''),
      Field ''clone_state'' (CPtr ''int (struct xfrm_state *, struct xfrm_state *)''),
      Field ''destroy_state'' (CPtr ''void (struct xfrm_state *)''),
      Field ''user_init'' (CPtr ''int (struct net *, struct xfrm_state *, struct nlattr **, struct netlink_ext_ack *)''),
      Field ''copy_to_user'' (CPtr ''int (struct xfrm_state *, struct sk_buff *)''),
      Field ''sa_len'' (CPtr ''unsigned int (const struct xfrm_state *)''),
      Field ''get_inner_mtu'' (CPtr ''u32 (struct xfrm_state *, int)''),
      Field ''input'' (CPtr ''int (struct xfrm_state *, struct sk_buff *)''),
      Field ''output'' (CPtr ''int (struct net *, struct sock *, struct sk_buff *)''),
      Field ''prepare_output'' (CPtr ''int (struct xfrm_state *, struct sk_buff *)'')]"

definition struct_xfrm_replay_state_esn :: cty where
  "struct_xfrm_replay_state_esn = CStruct ''xfrm_replay_state_esn'' False
     [Field ''bmp_len'' unsigned_int,
      Field ''oseq'' c__u32,
      Field ''seq'' c__u32,
      Field ''oseq_hi'' c__u32,
      Field ''seq_hi'' c__u32,
      Field ''replay_window'' c__u32,
      Field ''bmp'' (CArr 0 c__u32)]"

definition struct_xfrm_sec_ctx :: cty where
  "struct_xfrm_sec_ctx = CStruct ''xfrm_sec_ctx'' False
     [Field ''ctx_doi'' c__u8,
      Field ''ctx_alg'' c__u8,
      Field ''ctx_len'' c__u16,
      Field ''ctx_sid'' c__u32,
      Field ''ctx_str'' (CArr 0 c_char)]"

definition struct_xfrm_type :: cty where
  "struct_xfrm_type = CStruct ''xfrm_type'' False
     [Field ''owner'' (CPtr ''struct module''),
      Field ''proto'' u8,
      Field ''flags'' u8,
      Field ''init_state'' (CPtr ''int (struct xfrm_state *, struct netlink_ext_ack *)''),
      Field ''destructor'' (CPtr ''void (struct xfrm_state *)''),
      Field ''input'' (CPtr ''int (struct xfrm_state *, struct sk_buff *)''),
      Field ''output'' (CPtr ''int (struct xfrm_state *, struct sk_buff *)''),
      Field ''reject'' (CPtr ''int (struct xfrm_state *, struct sk_buff *, const struct flowi *)'')]"

definition struct_xfrm_type_offload :: cty where
  "struct_xfrm_type_offload = CStruct ''xfrm_type_offload'' False
     [Field ''owner'' (CPtr ''struct module''),
      Field ''proto'' u8,
      Field ''encap'' (CPtr ''void (struct xfrm_state *, struct sk_buff *)''),
      Field ''input_tail'' (CPtr ''int (struct xfrm_state *, struct sk_buff *)''),
      Field ''xmit'' (CPtr ''int (struct xfrm_state *, struct sk_buff *, netdev_features_t)'')]"

definition struct_xps_map :: cty where
  "struct_xps_map = CStruct ''xps_map'' False
     [Field ''len'' unsigned_int,
      Field ''alloc_len'' unsigned_int,
      Field ''rcu'' struct_callback_head,
      Field ''queues'' (CArr 0 u16)]"

definition struct_xsk_buff_pool :: cty where
  "struct_xsk_buff_pool = CStruct ''xsk_buff_pool'' False
     [Field ''dev'' (CPtr ''struct device''),
      Field ''netdev'' (CPtr ''struct net_device''),
      Field ''xsk_tx_list'' struct_list_head,
      Field ''xsk_tx_list_lock'' spinlock_t,
      Field ''users'' refcount_t,
      Field ''umem'' (CPtr ''struct xdp_umem''),
      Field ''work'' struct_work_struct,
      Field ''rx_lock'' spinlock_t,
      Field ''free_list'' struct_list_head,
      Field ''xskb_list'' struct_list_head,
      Field ''heads_cnt'' u32,
      Field ''queue_id'' u16,
      Field ''fq'' (CPtr ''struct xsk_queue''),
      Field ''cq'' (CPtr ''struct xsk_queue''),
      Field ''dma_pages'' (CPtr ''dma_addr_t''),
      Field ''heads'' (CPtr ''struct xdp_buff_xsk''),
      Field ''tx_descs'' (CPtr ''struct xdp_desc''),
      Field ''chunk_mask'' u64,
      Field ''addrs_cnt'' u64,
      Field ''free_list_cnt'' u32,
      Field ''dma_pages_cnt'' u32,
      Field ''free_heads_cnt'' u32,
      Field ''headroom'' u32,
      Field ''chunk_size'' u32,
      Field ''chunk_shift'' u32,
      Field ''frame_len'' u32,
      Field ''xdp_zc_max_segs'' u32,
      Field ''tx_metadata_len'' u8,
      Field ''cached_need_wakeup'' u8,
      Field ''uses_need_wakeup'' bool,
      Field ''unaligned'' bool,
      Field ''tx_sw_csum'' bool,
      Field ''addrs'' (CPtr ''void''),
      Field ''cq_prod_lock'' spinlock_t,
      Field ''free_heads'' (CArr 0 (CPtr ''struct xdp_buff_xsk'')),
      BitField [] c_long 64,
      BitField [] c_long 64]"

definition iw_handler :: cty where [layout_simps]:
  "iw_handler = CPtr ''int (struct net_device *, struct iw_request_info *, union iwreq_data *, char *)''"

definition u_char :: cty where [layout_simps]:
  "u_char = unsigned_char"

section \<open>Sizes and alignments\<close>

lemma struct_interval_tree_node_layout [layout_simps]:
  "sizeof struct_interval_tree_node = 48 \<and> alignof struct_interval_tree_node = 8 \<and> wf_cty struct_interval_tree_node"
  by (simp add: struct_interval_tree_node_def base_types layout_eval struct_rb_node_layout
      del: One_nat_def)

lemma struct_kvm_arch_memory_slot_layout [layout_simps]:
  "sizeof struct_kvm_arch_memory_slot = 48 \<and> alignof struct_kvm_arch_memory_slot = 8 \<and> wf_cty struct_kvm_arch_memory_slot"
  by (simp add: struct_kvm_arch_memory_slot_def base_types layout_eval
      del: One_nat_def)

lemma struct_kvm_memory_slot_layout [layout_simps]:
  "sizeof struct_kvm_memory_slot = 280 \<and> alignof struct_kvm_memory_slot = 8 \<and> wf_cty struct_kvm_memory_slot"
  by (simp add: struct_kvm_memory_slot_def base_types layout_eval struct_hlist_node_layout
      struct_interval_tree_node_layout struct_rb_node_layout gfn_t_def u64_def c__u64_def
      struct_kvm_arch_memory_slot_layout u32_def c__u32_def u16_def c__u16_def
      del: One_nat_def)

lemma enum_kvm_stat_kind_layout [layout_simps]:
  "sizeof enum_kvm_stat_kind = 4 \<and> alignof enum_kvm_stat_kind = 4 \<and> wf_cty enum_kvm_stat_kind"
  by (simp add: enum_kvm_stat_kind_def base_types layout_eval
      del: One_nat_def)

lemma struct_kvm_stat_data_layout [layout_simps]:
  "sizeof struct_kvm_stat_data = 24 \<and> alignof struct_kvm_stat_data = 8 \<and> wf_cty struct_kvm_stat_data"
  by (simp add: struct_kvm_stat_data_def base_types layout_eval enum_kvm_stat_kind_layout
      del: One_nat_def)

lemma struct_msr_bitmap_range_layout [layout_simps]:
  "sizeof struct_msr_bitmap_range = 24 \<and> alignof struct_msr_bitmap_range = 8 \<and> wf_cty struct_msr_bitmap_range"
  by (simp add: struct_msr_bitmap_range_def base_types layout_eval u32_def c__u32_def
      del: One_nat_def)

lemma struct_kvm_x86_msr_filter_layout [layout_simps]:
  "sizeof struct_kvm_x86_msr_filter = 392 \<and> alignof struct_kvm_x86_msr_filter = 8 \<and> wf_cty struct_kvm_x86_msr_filter"
  by (simp add: struct_kvm_x86_msr_filter_def base_types layout_eval u8_def c__u8_def bool_def
      struct_msr_bitmap_range_layout
      del: One_nat_def)

lemma struct_kvm_x86_pmu_event_filter_layout [layout_simps]:
  "sizeof struct_kvm_x86_pmu_event_filter = 40 \<and> alignof struct_kvm_x86_pmu_event_filter = 8 \<and> wf_cty struct_kvm_x86_pmu_event_filter"
  by (simp add: struct_kvm_x86_pmu_event_filter_def base_types layout_eval c__u32_def c__u64_def
      del: One_nat_def)

lemma struct_mctp_netdev_ops_layout [layout_simps]:
  "sizeof struct_mctp_netdev_ops = 8 \<and> alignof struct_mctp_netdev_ops = 8 \<and> wf_cty struct_mctp_netdev_ops"
  by (simp add: struct_mctp_netdev_ops_def base_types layout_eval
      del: One_nat_def)

lemma struct_memory_tier_layout [layout_simps]:
  "sizeof struct_memory_tier = 976 \<and> alignof struct_memory_tier = 8 \<and> wf_cty struct_memory_tier"
  by (simp add: struct_memory_tier_def base_types layout_eval struct_list_head_layout struct_device_layout
      nodemask_t_layout
      del: One_nat_def)

lemma struct_mdio_bus_stats_layout [layout_simps]:
  "sizeof struct_mdio_bus_stats = 32 \<and> alignof struct_mdio_bus_stats = 8 \<and> wf_cty struct_mdio_bus_stats"
  by (simp add: struct_mdio_bus_stats_def base_types layout_eval u64_stats_t_layout struct_u64_stats_sync_layout
      del: One_nat_def)

lemma struct_mii_bus_layout [layout_simps]:
  "sizeof struct_mii_bus = 2704 \<and> alignof struct_mii_bus = 8 \<and> wf_cty struct_mii_bus"
  by (simp add: struct_mii_bus_def base_types layout_eval struct_mdio_bus_stats_layout struct_mutex_layout
      struct_device_layout u32_def c__u32_def
      del: One_nat_def)

lemma struct_mii_timestamper_layout [layout_simps]:
  "sizeof struct_mii_timestamper = 56 \<and> alignof struct_mii_timestamper = 8 \<and> wf_cty struct_mii_timestamper"
  by (simp add: struct_mii_timestamper_def base_types layout_eval
      del: One_nat_def)

lemma struct_mmu_notifier_ops_layout [layout_simps]:
  "sizeof struct_mmu_notifier_ops = 72 \<and> alignof struct_mmu_notifier_ops = 8 \<and> wf_cty struct_mmu_notifier_ops"
  by (simp add: struct_mmu_notifier_ops_def base_types layout_eval
      del: One_nat_def)

lemma struct_x86_msi_addr_lo_layout [layout_simps]:
  "sizeof struct_x86_msi_addr_lo = 4 \<and> alignof struct_x86_msi_addr_lo = 4 \<and> wf_cty struct_x86_msi_addr_lo"
  by (simp add: struct_x86_msi_addr_lo_def base_types layout_eval u32_def c__u32_def
      del: One_nat_def)

lemma struct_x86_msi_addr_hi_layout [layout_simps]:
  "sizeof struct_x86_msi_addr_hi = 4 \<and> alignof struct_x86_msi_addr_hi = 4 \<and> wf_cty struct_x86_msi_addr_hi"
  by (simp add: struct_x86_msi_addr_hi_def base_types layout_eval u32_def c__u32_def
      del: One_nat_def)

lemma struct_x86_msi_data_layout [layout_simps]:
  "sizeof struct_x86_msi_data = 4 \<and> alignof struct_x86_msi_data = 4 \<and> wf_cty struct_x86_msi_data"
  by (simp add: struct_x86_msi_data_def base_types layout_eval u32_def c__u32_def
      del: One_nat_def)

lemma struct_msi_msg_layout [layout_simps]:
  "sizeof struct_msi_msg = 12 \<and> alignof struct_msi_msg = 4 \<and> wf_cty struct_msi_msg"
  by (simp add: struct_msi_msg_def base_types layout_eval u32_def c__u32_def arch_msi_msg_addr_lo_t_def
      struct_x86_msi_addr_lo_layout arch_msi_msg_addr_hi_t_def struct_x86_msi_addr_hi_layout
      arch_msi_msg_data_t_def struct_x86_msi_data_layout
      del: One_nat_def)

lemma struct_pci_msi_desc_layout [layout_simps]:
  "sizeof struct_pci_msi_desc = 24 \<and> alignof struct_pci_msi_desc = 8 \<and> wf_cty struct_pci_msi_desc"
  by (simp add: struct_pci_msi_desc_def base_types layout_eval u32_def c__u32_def u8_def c__u8_def
      del: One_nat_def)

lemma union_msi_domain_cookie_layout [layout_simps]:
  "sizeof union_msi_domain_cookie = 8 \<and> alignof union_msi_domain_cookie = 8 \<and> wf_cty union_msi_domain_cookie"
  by (simp add: union_msi_domain_cookie_def base_types layout_eval u64_def c__u64_def
      del: One_nat_def)

lemma union_msi_instance_cookie_layout [layout_simps]:
  "sizeof union_msi_instance_cookie = 8 \<and> alignof union_msi_instance_cookie = 8 \<and> wf_cty union_msi_instance_cookie"
  by (simp add: union_msi_instance_cookie_def base_types layout_eval u64_def c__u64_def
      del: One_nat_def)

lemma struct_msi_desc_data_layout [layout_simps]:
  "sizeof struct_msi_desc_data = 16 \<and> alignof struct_msi_desc_data = 8 \<and> wf_cty struct_msi_desc_data"
  by (simp add: struct_msi_desc_data_def base_types layout_eval union_msi_domain_cookie_layout
      union_msi_instance_cookie_layout
      del: One_nat_def)

lemma struct_msi_desc_layout [layout_simps]:
  "sizeof struct_msi_desc = 96 \<and> alignof struct_msi_desc = 8 \<and> wf_cty struct_msi_desc"
  by (simp add: struct_msi_desc_def base_types layout_eval struct_msi_msg_layout u16_def c__u16_def
      struct_pci_msi_desc_layout struct_msi_desc_data_layout
      del: One_nat_def)

lemma struct_neigh_parms_layout [layout_simps]:
  "sizeof struct_neigh_parms = 152 \<and> alignof struct_neigh_parms = 8 \<and> wf_cty struct_neigh_parms"
  by (simp add: struct_neigh_parms_def base_types layout_eval possible_net_t_layout netdevice_tracker_layout
      struct_list_head_layout refcount_t_def struct_refcount_struct_layout struct_callback_head_layout
      u32_def c__u32_def
      del: One_nat_def)

lemma struct_net_rate_estimator_layout [layout_simps]:
  "sizeof struct_net_rate_estimator = 136 \<and> alignof struct_net_rate_estimator = 8 \<and> wf_cty struct_net_rate_estimator"
  by (simp add: struct_net_rate_estimator_def base_types layout_eval bool_def u8_def c__u8_def seqcount_t_def
      struct_seqcount_layout u64_def c__u64_def struct_timer_list_layout struct_callback_head_layout
      del: One_nat_def)

lemma struct_net_shaper_ops_layout [layout_simps]:
  "sizeof struct_net_shaper_ops = 32 \<and> alignof struct_net_shaper_ops = 8 \<and> wf_cty struct_net_shaper_ops"
  by (simp add: struct_net_shaper_ops_def base_types layout_eval
      del: One_nat_def)

lemma enum_nfs4_change_attr_type_layout [layout_simps]:
  "sizeof enum_nfs4_change_attr_type = 4 \<and> alignof enum_nfs4_change_attr_type = 4 \<and> wf_cty enum_nfs4_change_attr_type"
  by (simp add: enum_nfs4_change_attr_type_def base_types layout_eval
      del: One_nat_def)

lemma struct_nfs_fsid_layout [layout_simps]:
  "sizeof struct_nfs_fsid = 16 \<and> alignof struct_nfs_fsid = 8 \<and> wf_cty struct_nfs_fsid"
  by (simp add: struct_nfs_fsid_def base_types layout_eval uint64_t_def u64_def c__u64_def
      del: One_nat_def)

lemma struct_nfs_auth_info_layout [layout_simps]:
  "sizeof struct_nfs_auth_info = 52 \<and> alignof struct_nfs_auth_info = 4 \<and> wf_cty struct_nfs_auth_info"
  by (simp add: struct_nfs_auth_info_def base_types layout_eval rpc_authflavor_t_def u32_def c__u32_def
      del: One_nat_def)

lemma struct_nfs_server_layout [layout_simps]:
  "sizeof struct_nfs_server = 1264 \<and> alignof struct_nfs_server = 8 \<and> wf_cty struct_nfs_server"
  by (simp add: struct_nfs_server_def base_types layout_eval struct_list_head_layout wait_queue_head_t_def
      struct_wait_queue_head_layout atomic_long_t_def atomic64_t_layout c__u64_def
      enum_nfs4_change_attr_type_layout struct_nfs_fsid_layout dev_t_def c__kernel_dev_t_def u32_def
      c__u32_def struct_nfs_auth_info_layout struct_rpc_wait_queue_layout struct_rb_root_layout
      spinlock_t_def struct_spinlock_layout atomic_t_layout struct___kernel_sockaddr_storage_layout
      size_t_def c__kernel_size_t_def c__kernel_ulong_t_def bool_def struct_kobject_layout
      struct_callback_head_layout
      del: One_nat_def)

lemma struct_nh_grp_entry_layout [layout_simps]:
  "sizeof struct_nh_grp_entry = 80 \<and> alignof struct_nh_grp_entry = 8 \<and> wf_cty struct_nh_grp_entry"
  by (simp add: struct_nh_grp_entry_def base_types layout_eval u16_def c__u16_def atomic_t_layout struct_list_head_layout
      u64_def c__u64_def
      del: One_nat_def)

lemma struct_nh_group_layout [layout_simps]:
  "sizeof struct_nh_group = 24 \<and> alignof struct_nh_group = 8 \<and> wf_cty struct_nh_group"
  by (simp add: struct_nh_group_def base_types layout_eval u16_def c__u16_def bool_def struct_nh_grp_entry_layout
      del: One_nat_def)

lemma struct_fib_nh_layout [layout_simps]:
  "sizeof struct_fib_nh = 112 \<and> alignof struct_fib_nh = 8 \<and> wf_cty struct_fib_nh"
  by (simp add: struct_fib_nh_def base_types layout_eval struct_fib_nh_common_layout struct_hlist_node_layout c__u32_def
      c__be32_def
      del: One_nat_def)

lemma struct_nh_info_layout [layout_simps]:
  "sizeof struct_nh_info = 144 \<and> alignof struct_nh_info = 8 \<and> wf_cty struct_nh_info"
  by (simp add: struct_nh_info_def base_types layout_eval struct_hlist_node_layout u8_def c__u8_def bool_def
      struct_fib_nh_common_layout struct_fib_nh_layout struct_fib6_nh_layout
      del: One_nat_def)

lemma struct_nla_policy_layout [layout_simps]:
  "sizeof struct_nla_policy = 16 \<and> alignof struct_nla_policy = 8 \<and> wf_cty struct_nla_policy"
  by (simp add: struct_nla_policy_def base_types layout_eval u8_def c__u8_def u16_def c__u16_def u32_def c__u32_def
      s16_def c__s16_def
      del: One_nat_def)

lemma struct_nlattr_layout [layout_simps]:
  "sizeof struct_nlattr = 4 \<and> alignof struct_nlattr = 2 \<and> wf_cty struct_nlattr"
  by (simp add: struct_nlattr_def base_types layout_eval c__u16_def
      del: One_nat_def)

lemma struct_per_cpu_nodestat_layout [layout_simps]:
  "sizeof struct_per_cpu_nodestat = 52 \<and> alignof struct_per_cpu_nodestat = 1 \<and> wf_cty struct_per_cpu_nodestat"
  by (simp add: struct_per_cpu_nodestat_def base_types layout_eval s8_def c__s8_def
      del: One_nat_def)

lemma struct_per_cpu_pages_layout [layout_simps]:
  "sizeof struct_per_cpu_pages = 256 \<and> alignof struct_per_cpu_pages = 8 \<and> wf_cty struct_per_cpu_pages"
  by (simp add: struct_per_cpu_pages_def base_types layout_eval spinlock_t_def struct_spinlock_layout u8_def c__u8_def
      struct_list_head_layout
      del: One_nat_def)

lemma struct_per_cpu_zonestat_layout [layout_simps]:
  "sizeof struct_per_cpu_zonestat = 64 \<and> alignof struct_per_cpu_zonestat = 8 \<and> wf_cty struct_per_cpu_zonestat"
  by (simp add: struct_per_cpu_zonestat_def base_types layout_eval s8_def c__s8_def
      del: One_nat_def)

lemma struct_mdio_driver_common_layout [layout_simps]:
  "sizeof struct_mdio_driver_common = 160 \<and> alignof struct_mdio_driver_common = 8 \<and> wf_cty struct_mdio_driver_common"
  by (simp add: struct_mdio_driver_common_def base_types layout_eval struct_device_driver_layout
      del: One_nat_def)

lemma struct_phy_driver_layout [layout_simps]:
  "sizeof struct_phy_driver = 632 \<and> alignof struct_phy_driver = 8 \<and> wf_cty struct_phy_driver"
  by (simp add: struct_phy_driver_def base_types layout_eval struct_mdio_driver_common_layout u32_def c__u32_def
      del: One_nat_def)

lemma struct_phy_led_trigger_layout [layout_simps]:
  "sizeof struct_phy_led_trigger = 168 \<and> alignof struct_phy_led_trigger = 8 \<and> wf_cty struct_phy_led_trigger"
  by (simp add: struct_phy_led_trigger_def base_types layout_eval struct_led_trigger_layout
      del: One_nat_def)

lemma enum_dev_prop_type_layout [layout_simps]:
  "sizeof enum_dev_prop_type = 4 \<and> alignof enum_dev_prop_type = 4 \<and> wf_cty enum_dev_prop_type"
  by (simp add: enum_dev_prop_type_def base_types layout_eval
      del: One_nat_def)

lemma struct_property_entry_layout [layout_simps]:
  "sizeof struct_property_entry = 32 \<and> alignof struct_property_entry = 8 \<and> wf_cty struct_property_entry"
  by (simp add: struct_property_entry_def base_types layout_eval size_t_def c__kernel_size_t_def c__kernel_ulong_t_def
      bool_def enum_dev_prop_type_layout u8_def c__u8_def u16_def c__u16_def u32_def c__u32_def u64_def
      c__u64_def
      del: One_nat_def)

lemma struct_proto_ops_layout [layout_simps]:
  "sizeof struct_proto_ops = 224 \<and> alignof struct_proto_ops = 8 \<and> wf_cty struct_proto_ops"
  by (simp add: struct_proto_ops_def base_types layout_eval
      del: One_nat_def)

lemma struct_pse_control_layout [layout_simps]:
  "sizeof struct_pse_control = 48 \<and> alignof struct_pse_control = 8 \<and> wf_cty struct_pse_control"
  by (simp add: struct_pse_control_def base_types layout_eval struct_list_head_layout struct_kref_layout
      del: One_nat_def)

lemma struct_psp_dev_caps_layout [layout_simps]:
  "sizeof struct_psp_dev_caps = 8 \<and> alignof struct_psp_dev_caps = 4 \<and> wf_cty struct_psp_dev_caps"
  by (simp add: struct_psp_dev_caps_def base_types layout_eval u32_def c__u32_def
      del: One_nat_def)

lemma struct_psp_dev_ops_layout [layout_simps]:
  "sizeof struct_psp_dev_ops = 48 \<and> alignof struct_psp_dev_ops = 8 \<and> wf_cty struct_psp_dev_ops"
  by (simp add: struct_psp_dev_ops_def base_types layout_eval
      del: One_nat_def)

lemma struct_tc_sizespec_layout [layout_simps]:
  "sizeof struct_tc_sizespec = 24 \<and> alignof struct_tc_sizespec = 4 \<and> wf_cty struct_tc_sizespec"
  by (simp add: struct_tc_sizespec_def base_types layout_eval
      del: One_nat_def)

lemma struct_qdisc_size_table_layout [layout_simps]:
  "sizeof struct_qdisc_size_table = 64 \<and> alignof struct_qdisc_size_table = 8 \<and> wf_cty struct_qdisc_size_table"
  by (simp add: struct_qdisc_size_table_def base_types layout_eval struct_callback_head_layout struct_list_head_layout
      struct_tc_sizespec_layout u16_def c__u16_def
      del: One_nat_def)

lemma struct_raw_hashinfo_layout [layout_simps]:
  "sizeof struct_raw_hashinfo = 2112 \<and> alignof struct_raw_hashinfo = 8 \<and> wf_cty struct_raw_hashinfo"
  by (simp add: struct_raw_hashinfo_def base_types layout_eval spinlock_t_def struct_spinlock_layout
      struct_hlist_head_layout
      del: One_nat_def)

lemma struct_regex_layout [layout_simps]:
  "sizeof struct_regex = 272 \<and> alignof struct_regex = 8 \<and> wf_cty struct_regex"
  by (simp add: struct_regex_def base_types layout_eval regex_match_func_def
      del: One_nat_def)

lemma struct_regmap_format_layout [layout_simps]:
  "sizeof struct_regmap_format = 80 \<and> alignof struct_regmap_format = 8 \<and> wf_cty struct_regmap_format"
  by (simp add: struct_regmap_format_def base_types layout_eval size_t_def c__kernel_size_t_def c__kernel_ulong_t_def
      s8_def c__s8_def
      del: One_nat_def)

lemma enum_regcache_type_layout [layout_simps]:
  "sizeof enum_regcache_type = 4 \<and> alignof enum_regcache_type = 4 \<and> wf_cty enum_regcache_type"
  by (simp add: enum_regcache_type_def base_types layout_eval
      del: One_nat_def)

lemma struct_regmap_layout [layout_simps]:
  "sizeof struct_regmap = 648 \<and> alignof struct_regmap = 8 \<and> wf_cty struct_regmap"
  by (simp add: struct_regmap_def base_types layout_eval struct_mutex_layout spinlock_t_def struct_spinlock_layout
      raw_spinlock_t_def struct_raw_spinlock_layout regmap_lock_def regmap_unlock_def gfp_t_def
      struct_regmap_format_layout wait_queue_head_t_def struct_wait_queue_head_layout
      struct_list_head_layout bool_def enum_regcache_type_layout size_t_def c__kernel_size_t_def
      c__kernel_ulong_t_def struct_rb_root_layout
      del: One_nat_def)

lemma struct_regulator_state_layout [layout_simps]:
  "sizeof struct_regulator_state = 24 \<and> alignof struct_regulator_state = 4 \<and> wf_cty struct_regulator_state"
  by (simp add: struct_regulator_state_def base_types layout_eval bool_def
      del: One_nat_def)

lemma struct_notification_limit_layout [layout_simps]:
  "sizeof struct_notification_limit = 12 \<and> alignof struct_notification_limit = 4 \<and> wf_cty struct_notification_limit"
  by (simp add: struct_notification_limit_def base_types layout_eval
      del: One_nat_def)

lemma struct_regulation_constraints_layout [layout_simps]:
  "sizeof struct_regulation_constraints = 224 \<and> alignof struct_regulation_constraints = 8 \<and> wf_cty struct_regulation_constraints"
  by (simp add: struct_regulation_constraints_def base_types layout_eval struct_regulator_state_layout
      struct_notification_limit_layout suspend_state_t_def
      del: One_nat_def)

lemma struct_regulator_coupler_layout [layout_simps]:
  "sizeof struct_regulator_coupler = 40 \<and> alignof struct_regulator_coupler = 8 \<and> wf_cty struct_regulator_coupler"
  by (simp add: struct_regulator_coupler_def base_types layout_eval struct_list_head_layout
      del: One_nat_def)

lemma enum_regulator_type_layout [layout_simps]:
  "sizeof enum_regulator_type = 4 \<and> alignof enum_regulator_type = 4 \<and> wf_cty enum_regulator_type"
  by (simp add: enum_regulator_type_def base_types layout_eval
      del: One_nat_def)

lemma struct_regulator_desc_layout [layout_simps]:
  "sizeof struct_regulator_desc = 320 \<and> alignof struct_regulator_desc = 8 \<and> wf_cty struct_regulator_desc"
  by (simp add: struct_regulator_desc_def base_types layout_eval bool_def enum_regulator_type_layout
      del: One_nat_def)

lemma struct_regulator_enable_gpio_layout [layout_simps]:
  "sizeof struct_regulator_enable_gpio = 32 \<and> alignof struct_regulator_enable_gpio = 8 \<and> wf_cty struct_regulator_enable_gpio"
  by (simp add: struct_regulator_enable_gpio_def base_types layout_eval struct_list_head_layout u32_def c__u32_def
      del: One_nat_def)

lemma struct_request_sock_ops_layout [layout_simps]:
  "sizeof struct_request_sock_ops = 48 \<and> alignof struct_request_sock_ops = 8 \<and> wf_cty struct_request_sock_ops"
  by (simp add: struct_request_sock_ops_def base_types layout_eval
      del: One_nat_def)

lemma struct_reset_control_layout [layout_simps]:
  "sizeof struct_reset_control = 48 \<and> alignof struct_reset_control = 8 \<and> wf_cty struct_reset_control"
  by (simp add: struct_reset_control_def base_types layout_eval struct_list_head_layout struct_kref_layout bool_def
      atomic_t_layout
      del: One_nat_def)

lemma struct_rhash_lock_head_layout [layout_simps]:
  "sizeof struct_rhash_lock_head = 0 \<and> alignof struct_rhash_lock_head = 1 \<and> wf_cty struct_rhash_lock_head"
  by (simp add: struct_rhash_lock_head_def base_types layout_eval
      del: One_nat_def)

lemma struct_rps_dev_flow_layout [layout_simps]:
  "sizeof struct_rps_dev_flow = 12 \<and> alignof struct_rps_dev_flow = 4 \<and> wf_cty struct_rps_dev_flow"
  by (simp add: struct_rps_dev_flow_def base_types layout_eval u16_def c__u16_def u32_def c__u32_def
      del: One_nat_def)

lemma struct_rps_dev_flow_table_layout [layout_simps]:
  "sizeof struct_rps_dev_flow_table = 24 \<and> alignof struct_rps_dev_flow_table = 8 \<and> wf_cty struct_rps_dev_flow_table"
  by (simp add: struct_rps_dev_flow_table_def base_types layout_eval u8_def c__u8_def struct_callback_head_layout
      struct_rps_dev_flow_layout
      del: One_nat_def)

lemma struct_rps_map_layout [layout_simps]:
  "sizeof struct_rps_map = 24 \<and> alignof struct_rps_map = 8 \<and> wf_cty struct_rps_map"
  by (simp add: struct_rps_map_def base_types layout_eval struct_callback_head_layout u16_def c__u16_def
      del: One_nat_def)

lemma struct_sched_group_capacity_layout [layout_simps]:
  "sizeof struct_sched_group_capacity = 48 \<and> alignof struct_sched_group_capacity = 8 \<and> wf_cty struct_sched_group_capacity"
  by (simp add: struct_sched_group_capacity_def base_types layout_eval atomic_t_layout
      del: One_nat_def)

lemma struct_sfp_socket_ops_layout [layout_simps]:
  "sizeof struct_sfp_socket_ops = 64 \<and> alignof struct_sfp_socket_ops = 8 \<and> wf_cty struct_sfp_socket_ops"
  by (simp add: struct_sfp_socket_ops_def base_types layout_eval
      del: One_nat_def)

lemma struct_sfp_upstream_ops_layout [layout_simps]:
  "sizeof struct_sfp_upstream_ops = 80 \<and> alignof struct_sfp_upstream_ops = 8 \<and> wf_cty struct_sfp_upstream_ops"
  by (simp add: struct_sfp_upstream_ops_def base_types layout_eval
      del: One_nat_def)

lemma struct_shrinker_info_unit_layout [layout_simps]:
  "sizeof struct_shrinker_info_unit = 520 \<and> alignof struct_shrinker_info_unit = 8 \<and> wf_cty struct_shrinker_info_unit"
  by (simp add: struct_shrinker_info_unit_def base_types layout_eval atomic_long_t_def atomic64_t_layout
      del: One_nat_def)

lemma struct_smc_hashinfo_layout [layout_simps]:
  "sizeof struct_smc_hashinfo = 16 \<and> alignof struct_smc_hashinfo = 8 \<and> wf_cty struct_smc_hashinfo"
  by (simp add: struct_smc_hashinfo_def base_types layout_eval rwlock_t_def struct_rwlock_layout struct_hlist_head_layout
      del: One_nat_def)

lemma struct_timewait_sock_ops_layout [layout_simps]:
  "sizeof struct_timewait_sock_ops = 24 \<and> alignof struct_timewait_sock_ops = 8 \<and> wf_cty struct_timewait_sock_ops"
  by (simp add: struct_timewait_sock_ops_def base_types layout_eval
      del: One_nat_def)

lemma struct_udp_tunnel_nic_shared_layout [layout_simps]:
  "sizeof struct_udp_tunnel_nic_shared = 24 \<and> alignof struct_udp_tunnel_nic_shared = 8 \<and> wf_cty struct_udp_tunnel_nic_shared"
  by (simp add: struct_udp_tunnel_nic_shared_def base_types layout_eval struct_list_head_layout
      del: One_nat_def)

lemma struct_vhost_task_layout [layout_simps]:
  "sizeof struct_vhost_task = 104 \<and> alignof struct_vhost_task = 8 \<and> wf_cty struct_vhost_task"
  by (simp add: struct_vhost_task_def base_types layout_eval struct_completion_layout struct_mutex_layout
      del: One_nat_def)

lemma enum_cfg80211_signal_type_layout [layout_simps]:
  "sizeof enum_cfg80211_signal_type = 4 \<and> alignof enum_cfg80211_signal_type = 4 \<and> wf_cty enum_cfg80211_signal_type"
  by (simp add: enum_cfg80211_signal_type_def base_types layout_eval
      del: One_nat_def)

lemma struct_wiphy_nan_capa_layout [layout_simps]:
  "sizeof struct_wiphy_nan_capa = 12 \<and> alignof struct_wiphy_nan_capa = 4 \<and> wf_cty struct_wiphy_nan_capa"
  by (simp add: struct_wiphy_nan_capa_def base_types layout_eval u32_def c__u32_def u8_def c__u8_def u16_def c__u16_def
      del: One_nat_def)

lemma struct_wiphy_layout [layout_simps]:
  "sizeof struct_wiphy = 1440 \<and> alignof struct_wiphy = 8 \<and> wf_cty struct_wiphy"
  by (simp add: struct_wiphy_def base_types layout_eval struct_mutex_layout u8_def c__u8_def u16_def c__u16_def u32_def
      c__u32_def enum_cfg80211_signal_type_layout struct_device_layout bool_def struct_list_head_layout
      possible_net_t_layout struct_wiphy_nan_capa_layout u64_def c__u64_def
      del: One_nat_def)

lemma struct_wpan_dev_header_ops_layout [layout_simps]:
  "sizeof struct_wpan_dev_header_ops = 8 \<and> alignof struct_wpan_dev_header_ops = 8 \<and> wf_cty struct_wpan_dev_header_ops"
  by (simp add: struct_wpan_dev_header_ops_def base_types layout_eval
      del: One_nat_def)

lemma enum_nl802154_supported_bool_states_layout [layout_simps]:
  "sizeof enum_nl802154_supported_bool_states = 4 \<and> alignof enum_nl802154_supported_bool_states = 4 \<and> wf_cty enum_nl802154_supported_bool_states"
  by (simp add: enum_nl802154_supported_bool_states_def base_types layout_eval
      del: One_nat_def)

lemma struct_wpan_phy_supported_layout [layout_simps]:
  "sizeof struct_wpan_phy_supported = 184 \<and> alignof struct_wpan_phy_supported = 8 \<and> wf_cty struct_wpan_phy_supported"
  by (simp add: struct_wpan_phy_supported_def base_types layout_eval u32_def c__u32_def
      enum_nl802154_supported_bool_states_layout u8_def c__u8_def s8_def c__s8_def size_t_def
      c__kernel_size_t_def c__kernel_ulong_t_def
      del: One_nat_def)

lemma enum_nl802154_cca_modes_layout [layout_simps]:
  "sizeof enum_nl802154_cca_modes = 4 \<and> alignof enum_nl802154_cca_modes = 4 \<and> wf_cty enum_nl802154_cca_modes"
  by (simp add: enum_nl802154_cca_modes_def base_types layout_eval
      del: One_nat_def)

lemma enum_nl802154_cca_opts_layout [layout_simps]:
  "sizeof enum_nl802154_cca_opts = 4 \<and> alignof enum_nl802154_cca_opts = 4 \<and> wf_cty enum_nl802154_cca_opts"
  by (simp add: enum_nl802154_cca_opts_def base_types layout_eval
      del: One_nat_def)

lemma struct_wpan_phy_cca_layout [layout_simps]:
  "sizeof struct_wpan_phy_cca = 8 \<and> alignof struct_wpan_phy_cca = 4 \<and> wf_cty struct_wpan_phy_cca"
  by (simp add: struct_wpan_phy_cca_def base_types layout_eval enum_nl802154_cca_modes_layout
      enum_nl802154_cca_opts_layout
      del: One_nat_def)

lemma enum_ieee802154_filtering_level_layout [layout_simps]:
  "sizeof enum_ieee802154_filtering_level = 4 \<and> alignof enum_ieee802154_filtering_level = 4 \<and> wf_cty enum_ieee802154_filtering_level"
  by (simp add: enum_ieee802154_filtering_level_def base_types layout_eval
      del: One_nat_def)

lemma struct_wpan_phy_layout [layout_simps]:
  "sizeof struct_wpan_phy = 1120 \<and> alignof struct_wpan_phy = 8 \<and> wf_cty struct_wpan_phy"
  by (simp add: struct_wpan_phy_def base_types layout_eval u8_def c__u8_def struct_wpan_phy_supported_layout s32_def
      c__s32_def struct_wpan_phy_cca_layout c__le64_def c__u64_def u32_def c__u32_def u16_def c__u16_def
      struct_device_layout possible_net_t_layout spinlock_t_def struct_spinlock_layout atomic_t_layout
      wait_queue_head_t_def struct_wait_queue_head_layout enum_ieee802154_filtering_level_layout
      del: One_nat_def)

lemma enum_xdp_mem_type_layout [layout_simps]:
  "sizeof enum_xdp_mem_type = 4 \<and> alignof enum_xdp_mem_type = 4 \<and> wf_cty enum_xdp_mem_type"
  by (simp add: enum_xdp_mem_type_def base_types layout_eval
      del: One_nat_def)

lemma struct_xdp_frame_layout [layout_simps]:
  "sizeof struct_xdp_frame = 40 \<and> alignof struct_xdp_frame = 8 \<and> wf_cty struct_xdp_frame"
  by (simp add: struct_xdp_frame_def base_types layout_eval u32_def c__u32_def enum_xdp_mem_type_layout
      enum_xdp_mem_type_def
      del: One_nat_def)

lemma struct_xfrm_address_filter_layout [layout_simps]:
  "sizeof struct_xfrm_address_filter = 36 \<and> alignof struct_xfrm_address_filter = 4 \<and> wf_cty struct_xfrm_address_filter"
  by (simp add: struct_xfrm_address_filter_def base_types layout_eval xfrm_address_t_layout c__u16_def c__u8_def
      del: One_nat_def)

lemma struct_xfrm_algo_layout [layout_simps]:
  "sizeof struct_xfrm_algo = 68 \<and> alignof struct_xfrm_algo = 4 \<and> wf_cty struct_xfrm_algo"
  by (simp add: struct_xfrm_algo_def base_types layout_eval
      del: One_nat_def)

lemma struct_xfrm_algo_aead_layout [layout_simps]:
  "sizeof struct_xfrm_algo_aead = 72 \<and> alignof struct_xfrm_algo_aead = 4 \<and> wf_cty struct_xfrm_algo_aead"
  by (simp add: struct_xfrm_algo_aead_def base_types layout_eval
      del: One_nat_def)

lemma struct_xfrm_algo_auth_layout [layout_simps]:
  "sizeof struct_xfrm_algo_auth = 72 \<and> alignof struct_xfrm_algo_auth = 4 \<and> wf_cty struct_xfrm_algo_auth"
  by (simp add: struct_xfrm_algo_auth_def base_types layout_eval
      del: One_nat_def)

lemma struct_xfrm_encap_tmpl_layout [layout_simps]:
  "sizeof struct_xfrm_encap_tmpl = 24 \<and> alignof struct_xfrm_encap_tmpl = 4 \<and> wf_cty struct_xfrm_encap_tmpl"
  by (simp add: struct_xfrm_encap_tmpl_def base_types layout_eval c__u16_def c__be16_def xfrm_address_t_layout
      del: One_nat_def)

lemma struct_xfrm_mode_cbs_layout [layout_simps]:
  "sizeof struct_xfrm_mode_cbs = 88 \<and> alignof struct_xfrm_mode_cbs = 8 \<and> wf_cty struct_xfrm_mode_cbs"
  by (simp add: struct_xfrm_mode_cbs_def base_types layout_eval
      del: One_nat_def)

lemma struct_xfrm_replay_state_esn_layout [layout_simps]:
  "sizeof struct_xfrm_replay_state_esn = 24 \<and> alignof struct_xfrm_replay_state_esn = 4 \<and> wf_cty struct_xfrm_replay_state_esn"
  by (simp add: struct_xfrm_replay_state_esn_def base_types layout_eval c__u32_def
      del: One_nat_def)

lemma struct_xfrm_sec_ctx_layout [layout_simps]:
  "sizeof struct_xfrm_sec_ctx = 8 \<and> alignof struct_xfrm_sec_ctx = 4 \<and> wf_cty struct_xfrm_sec_ctx"
  by (simp add: struct_xfrm_sec_ctx_def base_types layout_eval c__u8_def c__u16_def c__u32_def
      del: One_nat_def)

lemma struct_xfrm_type_layout [layout_simps]:
  "sizeof struct_xfrm_type = 56 \<and> alignof struct_xfrm_type = 8 \<and> wf_cty struct_xfrm_type"
  by (simp add: struct_xfrm_type_def base_types layout_eval u8_def c__u8_def
      del: One_nat_def)

lemma struct_xfrm_type_offload_layout [layout_simps]:
  "sizeof struct_xfrm_type_offload = 40 \<and> alignof struct_xfrm_type_offload = 8 \<and> wf_cty struct_xfrm_type_offload"
  by (simp add: struct_xfrm_type_offload_def base_types layout_eval u8_def c__u8_def
      del: One_nat_def)

lemma struct_xps_map_layout [layout_simps]:
  "sizeof struct_xps_map = 24 \<and> alignof struct_xps_map = 8 \<and> wf_cty struct_xps_map"
  by (simp add: struct_xps_map_def base_types layout_eval struct_callback_head_layout u16_def c__u16_def
      del: One_nat_def)

lemma struct_xsk_buff_pool_layout [layout_simps]:
  "sizeof struct_xsk_buff_pool = 256 \<and> alignof struct_xsk_buff_pool = 8 \<and> wf_cty struct_xsk_buff_pool"
  by (simp add: struct_xsk_buff_pool_def base_types layout_eval struct_list_head_layout spinlock_t_def
      struct_spinlock_layout refcount_t_def struct_refcount_struct_layout struct_work_struct_layout
      u32_def c__u32_def u16_def c__u16_def u64_def c__u64_def u8_def c__u8_def bool_def
      del: One_nat_def)

end
