(* ===== verification/KernelReach5a.thy ===== *)
theory KernelReach5a
  imports KernelReach2d KernelReach3c KernelReach4b
begin

text \<open>
  Types of \<^verbatim>\<open>bpf/vmlinux.h\<close> that are five and more dereferences away from the objects the program and its loading
  touch, with every type they hold by value (part 1 of 2).
\<close>

section \<open>Types\<close>

definition struct_Qdisc_class_ops :: cty where
  "struct_Qdisc_class_ops = CStruct ''Qdisc_class_ops'' False
     [Field ''flags'' unsigned_int,
      Field ''select_queue'' (CPtr ''struct netdev_queue * (struct Qdisc *, struct tcmsg *)''),
      Field ''graft'' (CPtr ''int (struct Qdisc *, long unsigned int, struct Qdisc *, struct Qdisc **, struct netlink_ext_ack *)''),
      Field ''leaf'' (CPtr ''struct Qdisc * (struct Qdisc *, long unsigned int)''),
      Field ''qlen_notify'' (CPtr ''void (struct Qdisc *, long unsigned int)''),
      Field ''find'' (CPtr ''long unsigned int (struct Qdisc *, u32)''),
      Field ''change'' (CPtr ''int (struct Qdisc *, u32, u32, struct nlattr **, long unsigned int *, struct netlink_ext_ack *)''),
      Field ''delete'' (CPtr ''int (struct Qdisc *, long unsigned int, struct netlink_ext_ack *)''),
      Field ''walk'' (CPtr ''void (struct Qdisc *, struct qdisc_walker *)''),
      Field ''tcf_block'' (CPtr ''struct tcf_block * (struct Qdisc *, long unsigned int, struct netlink_ext_ack *)''),
      Field ''bind_tcf'' (CPtr ''long unsigned int (struct Qdisc *, long unsigned int, u32)''),
      Field ''unbind_tcf'' (CPtr ''void (struct Qdisc *, long unsigned int)''),
      Field ''dump'' (CPtr ''int (struct Qdisc *, long unsigned int, struct sk_buff *, struct tcmsg *)''),
      Field ''dump_stats'' (CPtr ''int (struct Qdisc *, long unsigned int, struct gnet_dump *)'')]"

definition struct_aa_dfa :: cty where
  "struct_aa_dfa = CStruct ''aa_dfa'' False
     [Field ''count'' struct_kref,
      Field ''flags'' u16,
      Field ''max_oob'' u32,
      Field ''tables'' (CArr 8 (CPtr ''struct table_header''))]"

definition struct_aa_perms :: cty where
  "struct_aa_perms = CStruct ''aa_perms'' False
     [Field ''allow'' u32,
      Field ''deny'' u32,
      Field ''subtree'' u32,
      Field ''cond'' u32,
      Field ''kill'' u32,
      Field ''complain'' u32,
      Field ''prompt'' u32,
      Field ''audit'' u32,
      Field ''quiet'' u32,
      Field ''hide'' u32,
      Field ''xindex'' u32,
      Field ''tag'' u32,
      Field ''label'' u32]"

definition struct_aa_str_table_ent :: cty where
  "struct_aa_str_table_ent = CStruct ''aa_str_table_ent'' False
     [Field ''count'' c_int,
      Field ''size'' c_int,
      Field ''strs'' (CPtr ''char'')]"

definition struct_aa_tags_header :: cty where
  "struct_aa_tags_header = CStruct ''aa_tags_header'' False
     [Field ''mask'' u32,
      Field ''count'' u32,
      Field ''size'' u32,
      Field ''tags'' u32]"

definition struct_cfg80211_pmsr_capabilities :: cty where
  "struct_cfg80211_pmsr_capabilities = CStruct ''cfg80211_pmsr_capabilities'' False
     [Field ''max_peers'' unsigned_int,
      BitField ''report_ap_tsf'' u8 1,
      BitField ''randomize_mac_addr'' u8 1,
      Field ''ftm'' (CStruct [] False
        [Field ''preambles'' u32,
         Field ''bandwidths'' u32,
         Field ''max_bursts_exponent'' s8,
         Field ''max_ftms_per_burst'' u8,
         BitField ''supported'' u8 1,
         BitField ''asap'' u8 1,
         BitField ''non_asap'' u8 1,
         BitField ''request_lci'' u8 1,
         BitField ''request_civicloc'' u8 1,
         BitField ''trigger_based'' u8 1,
         BitField ''non_trigger_based'' u8 1,
         BitField ''support_6ghz'' u8 1,
         Field ''max_tx_ltf_rep'' u8,
         Field ''max_rx_ltf_rep'' u8,
         Field ''max_tx_sts'' u8,
         Field ''max_rx_sts'' u8,
         Field ''max_total_ltf_tx'' u8,
         Field ''max_total_ltf_rx'' u8,
         BitField ''support_rsta'' u8 1])]"

definition enum_nl80211_sar_type :: cty where
  "enum_nl80211_sar_type = CEnum 4
     [(''NL80211_SAR_TYPE_POWER'', 0), (''NUM_NL80211_SAR_TYPE'', 1)]"

definition struct_cfg80211_sar_capa :: cty where
  "struct_cfg80211_sar_capa = CStruct ''cfg80211_sar_capa'' False
     [Field ''type'' enum_nl80211_sar_type,
      Field ''num_freq_ranges'' u32,
      Field ''freq_ranges'' (CPtr ''const struct cfg80211_sar_freq_ranges'')]"

definition struct_cfg80211_wowlan :: cty where
  "struct_cfg80211_wowlan = CStruct ''cfg80211_wowlan'' False
     [Field ''any'' bool,
      Field ''disconnect'' bool,
      Field ''magic_pkt'' bool,
      Field ''gtk_rekey_failure'' bool,
      Field ''eap_identity_req'' bool,
      Field ''four_way_handshake'' bool,
      Field ''rfkill_release'' bool,
      Field ''patterns'' (CPtr ''struct cfg80211_pkt_pattern''),
      Field ''tcp'' (CPtr ''struct cfg80211_wowlan_tcp''),
      Field ''n_patterns'' c_int,
      Field ''nd_config'' (CPtr ''struct cfg80211_sched_scan_request'')]"

definition struct_devlink_dpipe_headers :: cty where
  "struct_devlink_dpipe_headers = CStruct ''devlink_dpipe_headers'' False
     [Field ''headers'' (CPtr ''struct devlink_dpipe_header *''),
      Field ''headers_count'' unsigned_int]"

definition struct_devlink_linecard_ops :: cty where
  "struct_devlink_linecard_ops = CStruct ''devlink_linecard_ops'' False
     [Field ''provision'' (CPtr ''int (struct devlink_linecard *, void *, const char *, const void *, struct netlink_ext_ack *)''),
      Field ''unprovision'' (CPtr ''int (struct devlink_linecard *, void *, struct netlink_ext_ack *)''),
      Field ''same_provision'' (CPtr ''bool (struct devlink_linecard *, void *, const char *, const void *)''),
      Field ''types_count'' (CPtr ''unsigned int (struct devlink_linecard *, void *)''),
      Field ''types_get'' (CPtr ''void (struct devlink_linecard *, void *, unsigned int, const char **, const void **)'')]"

definition struct_devlink_linecard_type :: cty where
  "struct_devlink_linecard_type = CStruct ''devlink_linecard_type'' False
     [Field ''type'' (CPtr ''const char''),
      Field ''priv'' (CPtr ''const void'')]"

definition struct_devlink_ops :: cty where
  "struct_devlink_ops = CStruct ''devlink_ops'' False
     [Field ''supported_flash_update_params'' u32,
      Field ''reload_actions'' long_unsigned_int,
      Field ''reload_limits'' long_unsigned_int,
      Field ''reload_down'' (CPtr ''int (struct devlink *, bool, enum devlink_reload_action, enum devlink_reload_limit, struct netlink_ext_ack *)''),
      Field ''reload_up'' (CPtr ''int (struct devlink *, enum devlink_reload_action, enum devlink_reload_limit, u32 *, struct netlink_ext_ack *)''),
      Field ''sb_pool_get'' (CPtr ''int (struct devlink *, unsigned int, u16, struct devlink_sb_pool_info *)''),
      Field ''sb_pool_set'' (CPtr ''int (struct devlink *, unsigned int, u16, u32, enum devlink_sb_threshold_type, struct netlink_ext_ack *)''),
      Field ''sb_port_pool_get'' (CPtr ''int (struct devlink_port *, unsigned int, u16, u32 *)''),
      Field ''sb_port_pool_set'' (CPtr ''int (struct devlink_port *, unsigned int, u16, u32, struct netlink_ext_ack *)''),
      Field ''sb_tc_pool_bind_get'' (CPtr ''int (struct devlink_port *, unsigned int, u16, enum devlink_sb_pool_type, u16 *, u32 *)''),
      Field ''sb_tc_pool_bind_set'' (CPtr ''int (struct devlink_port *, unsigned int, u16, enum devlink_sb_pool_type, u16, u32, struct netlink_ext_ack *)''),
      Field ''sb_occ_snapshot'' (CPtr ''int (struct devlink *, unsigned int)''),
      Field ''sb_occ_max_clear'' (CPtr ''int (struct devlink *, unsigned int)''),
      Field ''sb_occ_port_pool_get'' (CPtr ''int (struct devlink_port *, unsigned int, u16, u32 *, u32 *)''),
      Field ''sb_occ_tc_port_bind_get'' (CPtr ''int (struct devlink_port *, unsigned int, u16, enum devlink_sb_pool_type, u32 *, u32 *)''),
      Field ''eswitch_mode_get'' (CPtr ''int (struct devlink *, u16 *)''),
      Field ''eswitch_mode_set'' (CPtr ''int (struct devlink *, u16, struct netlink_ext_ack *)''),
      Field ''eswitch_inline_mode_get'' (CPtr ''int (struct devlink *, u8 *)''),
      Field ''eswitch_inline_mode_set'' (CPtr ''int (struct devlink *, u8, struct netlink_ext_ack *)''),
      Field ''eswitch_encap_mode_get'' (CPtr ''int (struct devlink *, enum devlink_eswitch_encap_mode *)''),
      Field ''eswitch_encap_mode_set'' (CPtr ''int (struct devlink *, enum devlink_eswitch_encap_mode, struct netlink_ext_ack *)''),
      Field ''info_get'' (CPtr ''int (struct devlink *, struct devlink_info_req *, struct netlink_ext_ack *)''),
      Field ''flash_update'' (CPtr ''int (struct devlink *, struct devlink_flash_update_params *, struct netlink_ext_ack *)''),
      Field ''trap_init'' (CPtr ''int (struct devlink *, const struct devlink_trap *, void *)''),
      Field ''trap_fini'' (CPtr ''void (struct devlink *, const struct devlink_trap *, void *)''),
      Field ''trap_action_set'' (CPtr ''int (struct devlink *, const struct devlink_trap *, enum devlink_trap_action, struct netlink_ext_ack *)''),
      Field ''trap_group_init'' (CPtr ''int (struct devlink *, const struct devlink_trap_group *)''),
      Field ''trap_group_set'' (CPtr ''int (struct devlink *, const struct devlink_trap_group *, const struct devlink_trap_policer *, struct netlink_ext_ack *)''),
      Field ''trap_group_action_set'' (CPtr ''int (struct devlink *, const struct devlink_trap_group *, enum devlink_trap_action, struct netlink_ext_ack *)''),
      Field ''trap_drop_counter_get'' (CPtr ''int (struct devlink *, const struct devlink_trap *, u64 *)''),
      Field ''trap_policer_init'' (CPtr ''int (struct devlink *, const struct devlink_trap_policer *)''),
      Field ''trap_policer_fini'' (CPtr ''void (struct devlink *, const struct devlink_trap_policer *)''),
      Field ''trap_policer_set'' (CPtr ''int (struct devlink *, const struct devlink_trap_policer *, u64, u64, struct netlink_ext_ack *)''),
      Field ''trap_policer_counter_get'' (CPtr ''int (struct devlink *, const struct devlink_trap_policer *, u64 *)''),
      Field ''port_new'' (CPtr ''int (struct devlink *, const struct devlink_port_new_attrs *, struct netlink_ext_ack *, struct devlink_port **)''),
      Field ''rate_leaf_tx_share_set'' (CPtr ''int (struct devlink_rate *, void *, u64, struct netlink_ext_ack *)''),
      Field ''rate_leaf_tx_max_set'' (CPtr ''int (struct devlink_rate *, void *, u64, struct netlink_ext_ack *)''),
      Field ''rate_leaf_tx_priority_set'' (CPtr ''int (struct devlink_rate *, void *, u32, struct netlink_ext_ack *)''),
      Field ''rate_leaf_tx_weight_set'' (CPtr ''int (struct devlink_rate *, void *, u32, struct netlink_ext_ack *)''),
      Field ''rate_leaf_tc_bw_set'' (CPtr ''int (struct devlink_rate *, void *, u32 *, struct netlink_ext_ack *)''),
      Field ''rate_node_tx_share_set'' (CPtr ''int (struct devlink_rate *, void *, u64, struct netlink_ext_ack *)''),
      Field ''rate_node_tx_max_set'' (CPtr ''int (struct devlink_rate *, void *, u64, struct netlink_ext_ack *)''),
      Field ''rate_node_tx_priority_set'' (CPtr ''int (struct devlink_rate *, void *, u32, struct netlink_ext_ack *)''),
      Field ''rate_node_tx_weight_set'' (CPtr ''int (struct devlink_rate *, void *, u32, struct netlink_ext_ack *)''),
      Field ''rate_node_tc_bw_set'' (CPtr ''int (struct devlink_rate *, void *, u32 *, struct netlink_ext_ack *)''),
      Field ''rate_node_new'' (CPtr ''int (struct devlink_rate *, void **, struct netlink_ext_ack *)''),
      Field ''rate_node_del'' (CPtr ''int (struct devlink_rate *, void *, struct netlink_ext_ack *)''),
      Field ''rate_leaf_parent_set'' (CPtr ''int (struct devlink_rate *, struct devlink_rate *, void *, void *, struct netlink_ext_ack *)''),
      Field ''rate_node_parent_set'' (CPtr ''int (struct devlink_rate *, struct devlink_rate *, void *, void *, struct netlink_ext_ack *)''),
      Field ''selftest_check'' (CPtr ''bool (struct devlink *, unsigned int, struct netlink_ext_ack *)''),
      Field ''selftest_run'' (CPtr ''enum devlink_selftest_status (struct devlink *, unsigned int, struct netlink_ext_ack *)'')]"

definition struct_devlink_rel :: cty where
  "struct_devlink_rel = CStruct ''devlink_rel'' False
     [Field ''index'' u32,
      Field ''refcount'' refcount_t,
      Field ''devlink_index'' u32,
      Field ''nested_in'' (CStruct [] False
        [Field ''devlink_index'' u32,
         Field ''obj_index'' u32,
         Field ''notify_cb'' (CPtr ''devlink_rel_notify_cb_t''),
         Field ''cleanup_cb'' (CPtr ''devlink_rel_cleanup_cb_t''),
         Field ''notify_work'' struct_delayed_work])]"

definition struct_dsa_chip_data :: cty where
  "struct_dsa_chip_data = CStruct ''dsa_chip_data'' False
     [Field ''host_dev'' (CPtr ''struct device''),
      Field ''sw_addr'' c_int,
      Field ''netdev'' (CArr 12 (CPtr ''struct device'')),
      Field ''eeprom_len'' c_int,
      Field ''of_node'' (CPtr ''struct device_node''),
      Field ''port_names'' (CArr 12 (CPtr ''char'')),
      Field ''port_dn'' (CArr 12 (CPtr ''struct device_node'')),
      Field ''rtable'' (CArr 4 s8)]"

definition struct_dsa_platform_data :: cty where
  "struct_dsa_platform_data = CStruct ''dsa_platform_data'' False
     [Field ''netdev'' (CPtr ''struct device''),
      Field ''of_netdev'' (CPtr ''struct net_device''),
      Field ''nr_chips'' c_int,
      Field ''chip'' (CPtr ''struct dsa_chip_data'')]"

definition struct_dsa_switch_ops :: cty where
  "struct_dsa_switch_ops = CStruct ''dsa_switch_ops'' False
     [Field ''get_tag_protocol'' (CPtr ''enum dsa_tag_protocol (struct dsa_switch *, int, enum dsa_tag_protocol)''),
      Field ''change_tag_protocol'' (CPtr ''int (struct dsa_switch *, enum dsa_tag_protocol)''),
      Field ''connect_tag_protocol'' (CPtr ''int (struct dsa_switch *, enum dsa_tag_protocol)''),
      Field ''port_change_conduit'' (CPtr ''int (struct dsa_switch *, int, struct net_device *, struct netlink_ext_ack *)''),
      Field ''setup'' (CPtr ''int (struct dsa_switch *)''),
      Field ''teardown'' (CPtr ''void (struct dsa_switch *)''),
      Field ''port_setup'' (CPtr ''int (struct dsa_switch *, int)''),
      Field ''port_teardown'' (CPtr ''void (struct dsa_switch *, int)''),
      Field ''get_phy_flags'' (CPtr ''u32 (struct dsa_switch *, int)''),
      Field ''phy_read'' (CPtr ''int (struct dsa_switch *, int, int)''),
      Field ''phy_write'' (CPtr ''int (struct dsa_switch *, int, int, u16)''),
      Field ''phylink_get_caps'' (CPtr ''void (struct dsa_switch *, int, struct phylink_config *)''),
      Field ''phylink_fixed_state'' (CPtr ''void (struct dsa_switch *, int, struct phylink_link_state *)''),
      Field ''get_strings'' (CPtr ''void (struct dsa_switch *, int, u32, uint8_t *)''),
      Field ''get_ethtool_stats'' (CPtr ''void (struct dsa_switch *, int, uint64_t *)''),
      Field ''get_sset_count'' (CPtr ''int (struct dsa_switch *, int, int)''),
      Field ''get_ethtool_phy_stats'' (CPtr ''void (struct dsa_switch *, int, uint64_t *)''),
      Field ''get_eth_phy_stats'' (CPtr ''void (struct dsa_switch *, int, struct ethtool_eth_phy_stats *)''),
      Field ''get_eth_mac_stats'' (CPtr ''void (struct dsa_switch *, int, struct ethtool_eth_mac_stats *)''),
      Field ''get_eth_ctrl_stats'' (CPtr ''void (struct dsa_switch *, int, struct ethtool_eth_ctrl_stats *)''),
      Field ''get_rmon_stats'' (CPtr ''void (struct dsa_switch *, int, struct ethtool_rmon_stats *, const struct ethtool_rmon_hist_range **)''),
      Field ''get_ts_stats'' (CPtr ''void (struct dsa_switch *, int, struct ethtool_ts_stats *)''),
      Field ''get_stats64'' (CPtr ''void (struct dsa_switch *, int, struct rtnl_link_stats64 *)''),
      Field ''get_pause_stats'' (CPtr ''void (struct dsa_switch *, int, struct ethtool_pause_stats *)''),
      Field ''self_test'' (CPtr ''void (struct dsa_switch *, int, struct ethtool_test *, u64 *)''),
      Field ''get_wol'' (CPtr ''void (struct dsa_switch *, int, struct ethtool_wolinfo *)''),
      Field ''set_wol'' (CPtr ''int (struct dsa_switch *, int, struct ethtool_wolinfo *)''),
      Field ''get_ts_info'' (CPtr ''int (struct dsa_switch *, int, struct kernel_ethtool_ts_info *)''),
      Field ''get_mm'' (CPtr ''int (struct dsa_switch *, int, struct ethtool_mm_state *)''),
      Field ''set_mm'' (CPtr ''int (struct dsa_switch *, int, struct ethtool_mm_cfg *, struct netlink_ext_ack *)''),
      Field ''get_mm_stats'' (CPtr ''void (struct dsa_switch *, int, struct ethtool_mm_stats *)''),
      Field ''port_get_default_prio'' (CPtr ''int (struct dsa_switch *, int)''),
      Field ''port_set_default_prio'' (CPtr ''int (struct dsa_switch *, int, u8)''),
      Field ''port_get_dscp_prio'' (CPtr ''int (struct dsa_switch *, int, u8)''),
      Field ''port_add_dscp_prio'' (CPtr ''int (struct dsa_switch *, int, u8, u8)''),
      Field ''port_del_dscp_prio'' (CPtr ''int (struct dsa_switch *, int, u8, u8)''),
      Field ''port_set_apptrust'' (CPtr ''int (struct dsa_switch *, int, const u8 *, int)''),
      Field ''port_get_apptrust'' (CPtr ''int (struct dsa_switch *, int, u8 *, int *)''),
      Field ''suspend'' (CPtr ''int (struct dsa_switch *)''),
      Field ''resume'' (CPtr ''int (struct dsa_switch *)''),
      Field ''port_enable'' (CPtr ''int (struct dsa_switch *, int, struct phy_device *)''),
      Field ''port_disable'' (CPtr ''void (struct dsa_switch *, int)''),
      Field ''port_set_mac_address'' (CPtr ''int (struct dsa_switch *, int, const unsigned char *)''),
      Field ''preferred_default_local_cpu_port'' (CPtr ''struct dsa_port * (struct dsa_switch *)''),
      Field ''support_eee'' (CPtr ''bool (struct dsa_switch *, int)''),
      Field ''set_mac_eee'' (CPtr ''int (struct dsa_switch *, int, struct ethtool_keee *)''),
      Field ''get_eeprom_len'' (CPtr ''int (struct dsa_switch *)''),
      Field ''get_eeprom'' (CPtr ''int (struct dsa_switch *, struct ethtool_eeprom *, u8 *)''),
      Field ''set_eeprom'' (CPtr ''int (struct dsa_switch *, struct ethtool_eeprom *, u8 *)''),
      Field ''get_regs_len'' (CPtr ''int (struct dsa_switch *, int)''),
      Field ''get_regs'' (CPtr ''void (struct dsa_switch *, int, struct ethtool_regs *, void *)''),
      Field ''port_prechangeupper'' (CPtr ''int (struct dsa_switch *, int, struct netdev_notifier_changeupper_info *)''),
      Field ''set_ageing_time'' (CPtr ''int (struct dsa_switch *, unsigned int)''),
      Field ''port_bridge_join'' (CPtr ''int (struct dsa_switch *, int, struct dsa_bridge, bool *, struct netlink_ext_ack *)''),
      Field ''port_bridge_leave'' (CPtr ''void (struct dsa_switch *, int, struct dsa_bridge)''),
      Field ''port_stp_state_set'' (CPtr ''void (struct dsa_switch *, int, u8)''),
      Field ''port_mst_state_set'' (CPtr ''int (struct dsa_switch *, int, const struct switchdev_mst_state *)''),
      Field ''port_fast_age'' (CPtr ''void (struct dsa_switch *, int)''),
      Field ''port_vlan_fast_age'' (CPtr ''int (struct dsa_switch *, int, u16)''),
      Field ''port_pre_bridge_flags'' (CPtr ''int (struct dsa_switch *, int, struct switchdev_brport_flags, struct netlink_ext_ack *)''),
      Field ''port_bridge_flags'' (CPtr ''int (struct dsa_switch *, int, struct switchdev_brport_flags, struct netlink_ext_ack *)''),
      Field ''port_set_host_flood'' (CPtr ''void (struct dsa_switch *, int, bool, bool)''),
      Field ''port_vlan_filtering'' (CPtr ''int (struct dsa_switch *, int, bool, struct netlink_ext_ack *)''),
      Field ''port_vlan_add'' (CPtr ''int (struct dsa_switch *, int, const struct switchdev_obj_port_vlan *, struct netlink_ext_ack *)''),
      Field ''port_vlan_del'' (CPtr ''int (struct dsa_switch *, int, const struct switchdev_obj_port_vlan *)''),
      Field ''vlan_msti_set'' (CPtr ''int (struct dsa_switch *, struct dsa_bridge, const struct switchdev_vlan_msti *)''),
      Field ''port_fdb_add'' (CPtr ''int (struct dsa_switch *, int, const unsigned char *, u16, struct dsa_db)''),
      Field ''port_fdb_del'' (CPtr ''int (struct dsa_switch *, int, const unsigned char *, u16, struct dsa_db)''),
      Field ''port_fdb_dump'' (CPtr ''int (struct dsa_switch *, int, dsa_fdb_dump_cb_t *, void *)''),
      Field ''lag_fdb_add'' (CPtr ''int (struct dsa_switch *, struct dsa_lag, const unsigned char *, u16, struct dsa_db)''),
      Field ''lag_fdb_del'' (CPtr ''int (struct dsa_switch *, struct dsa_lag, const unsigned char *, u16, struct dsa_db)''),
      Field ''port_mdb_add'' (CPtr ''int (struct dsa_switch *, int, const struct switchdev_obj_port_mdb *, struct dsa_db)''),
      Field ''port_mdb_del'' (CPtr ''int (struct dsa_switch *, int, const struct switchdev_obj_port_mdb *, struct dsa_db)''),
      Field ''get_rxnfc'' (CPtr ''int (struct dsa_switch *, int, struct ethtool_rxnfc *, u32 *)''),
      Field ''set_rxnfc'' (CPtr ''int (struct dsa_switch *, int, struct ethtool_rxnfc *)''),
      Field ''cls_flower_add'' (CPtr ''int (struct dsa_switch *, int, struct flow_cls_offload *, bool)''),
      Field ''cls_flower_del'' (CPtr ''int (struct dsa_switch *, int, struct flow_cls_offload *, bool)''),
      Field ''cls_flower_stats'' (CPtr ''int (struct dsa_switch *, int, struct flow_cls_offload *, bool)''),
      Field ''port_mirror_add'' (CPtr ''int (struct dsa_switch *, int, struct dsa_mall_mirror_tc_entry *, bool, struct netlink_ext_ack *)''),
      Field ''port_mirror_del'' (CPtr ''void (struct dsa_switch *, int, struct dsa_mall_mirror_tc_entry *)''),
      Field ''port_policer_add'' (CPtr ''int (struct dsa_switch *, int, const struct flow_action_police *)''),
      Field ''port_policer_del'' (CPtr ''void (struct dsa_switch *, int)''),
      Field ''port_setup_tc'' (CPtr ''int (struct dsa_switch *, int, enum tc_setup_type, void *)''),
      Field ''crosschip_bridge_join'' (CPtr ''int (struct dsa_switch *, int, int, int, struct dsa_bridge, struct netlink_ext_ack *)''),
      Field ''crosschip_bridge_leave'' (CPtr ''void (struct dsa_switch *, int, int, int, struct dsa_bridge)''),
      Field ''crosschip_lag_change'' (CPtr ''int (struct dsa_switch *, int, int)''),
      Field ''crosschip_lag_join'' (CPtr ''int (struct dsa_switch *, int, int, struct dsa_lag, struct netdev_lag_upper_info *, struct netlink_ext_ack *)''),
      Field ''crosschip_lag_leave'' (CPtr ''int (struct dsa_switch *, int, int, struct dsa_lag)''),
      Field ''port_hwtstamp_get'' (CPtr ''int (struct dsa_switch *, int, struct kernel_hwtstamp_config *)''),
      Field ''port_hwtstamp_set'' (CPtr ''int (struct dsa_switch *, int, struct kernel_hwtstamp_config *, struct netlink_ext_ack *)''),
      Field ''port_txtstamp'' (CPtr ''void (struct dsa_switch *, int, struct sk_buff *)''),
      Field ''port_rxtstamp'' (CPtr ''bool (struct dsa_switch *, int, struct sk_buff *, unsigned int)''),
      Field ''devlink_param_get'' (CPtr ''int (struct dsa_switch *, u32, struct devlink_param_gset_ctx *)''),
      Field ''devlink_param_set'' (CPtr ''int (struct dsa_switch *, u32, struct devlink_param_gset_ctx *)''),
      Field ''devlink_info_get'' (CPtr ''int (struct dsa_switch *, struct devlink_info_req *, struct netlink_ext_ack *)''),
      Field ''devlink_sb_pool_get'' (CPtr ''int (struct dsa_switch *, unsigned int, u16, struct devlink_sb_pool_info *)''),
      Field ''devlink_sb_pool_set'' (CPtr ''int (struct dsa_switch *, unsigned int, u16, u32, enum devlink_sb_threshold_type, struct netlink_ext_ack *)''),
      Field ''devlink_sb_port_pool_get'' (CPtr ''int (struct dsa_switch *, int, unsigned int, u16, u32 *)''),
      Field ''devlink_sb_port_pool_set'' (CPtr ''int (struct dsa_switch *, int, unsigned int, u16, u32, struct netlink_ext_ack *)''),
      Field ''devlink_sb_tc_pool_bind_get'' (CPtr ''int (struct dsa_switch *, int, unsigned int, u16, enum devlink_sb_pool_type, u16 *, u32 *)''),
      Field ''devlink_sb_tc_pool_bind_set'' (CPtr ''int (struct dsa_switch *, int, unsigned int, u16, enum devlink_sb_pool_type, u16, u32, struct netlink_ext_ack *)''),
      Field ''devlink_sb_occ_snapshot'' (CPtr ''int (struct dsa_switch *, unsigned int)''),
      Field ''devlink_sb_occ_max_clear'' (CPtr ''int (struct dsa_switch *, unsigned int)''),
      Field ''devlink_sb_occ_port_pool_get'' (CPtr ''int (struct dsa_switch *, int, unsigned int, u16, u32 *, u32 *)''),
      Field ''devlink_sb_occ_tc_port_bind_get'' (CPtr ''int (struct dsa_switch *, int, unsigned int, u16, enum devlink_sb_pool_type, u32 *, u32 *)''),
      Field ''port_change_mtu'' (CPtr ''int (struct dsa_switch *, int, int)''),
      Field ''port_max_mtu'' (CPtr ''int (struct dsa_switch *, int)''),
      Field ''port_lag_change'' (CPtr ''int (struct dsa_switch *, int)''),
      Field ''port_lag_join'' (CPtr ''int (struct dsa_switch *, int, struct dsa_lag, struct netdev_lag_upper_info *, struct netlink_ext_ack *)''),
      Field ''port_lag_leave'' (CPtr ''int (struct dsa_switch *, int, struct dsa_lag)''),
      Field ''port_hsr_join'' (CPtr ''int (struct dsa_switch *, int, struct net_device *, struct netlink_ext_ack *)''),
      Field ''port_hsr_leave'' (CPtr ''int (struct dsa_switch *, int, struct net_device *)''),
      Field ''port_mrp_add'' (CPtr ''int (struct dsa_switch *, int, const struct switchdev_obj_mrp *)''),
      Field ''port_mrp_del'' (CPtr ''int (struct dsa_switch *, int, const struct switchdev_obj_mrp *)''),
      Field ''port_mrp_add_ring_role'' (CPtr ''int (struct dsa_switch *, int, const struct switchdev_obj_ring_role_mrp *)''),
      Field ''port_mrp_del_ring_role'' (CPtr ''int (struct dsa_switch *, int, const struct switchdev_obj_ring_role_mrp *)''),
      Field ''tag_8021q_vlan_add'' (CPtr ''int (struct dsa_switch *, int, u16, u16)''),
      Field ''tag_8021q_vlan_del'' (CPtr ''int (struct dsa_switch *, int, u16)''),
      Field ''conduit_state_change'' (CPtr ''void (struct dsa_switch *, const struct net_device *, bool)'')]"

definition struct_fib_info :: cty where
  "struct_fib_info = CStruct ''fib_info'' False
     [Field ''fib_hash'' struct_hlist_node,
      Field ''fib_lhash'' struct_hlist_node,
      Field ''nh_list'' struct_list_head,
      Field ''fib_net'' (CPtr ''struct net''),
      Field ''fib_treeref'' refcount_t,
      Field ''fib_clntref'' refcount_t,
      Field ''fib_flags'' unsigned_int,
      Field ''fib_dead'' unsigned_char,
      Field ''fib_protocol'' unsigned_char,
      Field ''fib_scope'' unsigned_char,
      Field ''fib_type'' unsigned_char,
      Field ''fib_prefsrc'' c__be32,
      Field ''fib_tb_id'' u32,
      Field ''fib_priority'' u32,
      Field ''fib_metrics'' (CPtr ''struct dst_metrics''),
      Field ''fib_nhs'' c_int,
      Field ''fib_nh_is_v6'' bool,
      Field ''nh_updated'' bool,
      Field ''pfsrc_removed'' bool,
      Field ''nh'' (CPtr ''struct nexthop''),
      Field ''rcu'' struct_callback_head,
      Field ''fib_nh'' (CArr 0 struct_fib_nh)]"

definition enum_fsnotify_group_prio :: cty where
  "enum_fsnotify_group_prio = CEnum 4
     [(''FSNOTIFY_PRIO_NORMAL'', 0), (''FSNOTIFY_PRIO_CONTENT'', 1),
      (''FSNOTIFY_PRIO_PRE_CONTENT'', 2), (''__FSNOTIFY_PRIO_NUM'', 3)]"

definition struct_inotify_group_private_data :: cty where
  "struct_inotify_group_private_data = CStruct ''inotify_group_private_data'' False
     [Field ''idr_lock'' spinlock_t,
      Field ''idr'' struct_idr,
      Field ''ucounts'' (CPtr ''struct ucounts'')]"

definition struct_fanotify_group_private_data :: cty where
  "struct_fanotify_group_private_data = CStruct ''fanotify_group_private_data'' False
     [Field ''merge_hash'' (CPtr ''struct hlist_head''),
      Field ''access_list'' struct_list_head,
      Field ''access_waitq'' wait_queue_head_t,
      Field ''flags'' c_int,
      Field ''f_flags'' c_int,
      Field ''ucounts'' (CPtr ''struct ucounts''),
      Field ''error_events_pool'' mempool_t,
      Field ''perm_grp_list'' struct_list_head]"

definition struct_fsnotify_group :: cty where
  "struct_fsnotify_group = CStruct ''fsnotify_group'' False
     [Field ''ops'' (CPtr ''const struct fsnotify_ops''),
      Field ''refcnt'' refcount_t,
      Field ''notification_lock'' spinlock_t,
      Field ''notification_list'' struct_list_head,
      Field ''notification_waitq'' wait_queue_head_t,
      Field ''q_len'' unsigned_int,
      Field ''max_events'' unsigned_int,
      Field ''priority'' enum_fsnotify_group_prio,
      Field ''shutdown'' bool,
      Field ''flags'' c_int,
      Field ''owner_flags'' unsigned_int,
      Field ''mark_mutex'' struct_mutex,
      Field ''user_waits'' atomic_t,
      Field ''marks_list'' struct_list_head,
      Field ''fsn_fa'' (CPtr ''struct fasync_struct''),
      Field ''overflow_event'' (CPtr ''struct fsnotify_event''),
      Field ''memcg'' (CPtr ''struct mem_cgroup''),
      Field ''user_ns'' (CPtr ''struct user_namespace''),
      Field [] (CUnion [] False
        [Field ''private'' (CPtr ''void''),
         Field ''inotify_data'' struct_inotify_group_private_data,
         Field ''fanotify_data'' struct_fanotify_group_private_data])]"

definition struct_gpio_irq_chip :: cty where
  "struct_gpio_irq_chip = CStruct ''gpio_irq_chip'' False
     [Field ''chip'' (CPtr ''struct irq_chip''),
      Field ''domain'' (CPtr ''struct irq_domain''),
      Field ''fwnode'' (CPtr ''struct fwnode_handle''),
      Field ''parent_domain'' (CPtr ''struct irq_domain''),
      Field ''child_to_parent_hwirq'' (CPtr ''int (struct gpio_chip *, unsigned int, unsigned int, unsigned int *, unsigned int *)''),
      Field ''populate_parent_alloc_arg'' (CPtr ''int (struct gpio_chip *, union gpio_irq_fwspec *, unsigned int, unsigned int)''),
      Field ''child_offset_to_irq'' (CPtr ''unsigned int (struct gpio_chip *, unsigned int)''),
      Field ''child_irq_domain_ops'' struct_irq_domain_ops,
      Field ''handler'' irq_flow_handler_t,
      Field ''default_type'' unsigned_int,
      Field ''lock_key'' (CPtr ''struct lock_class_key''),
      Field ''request_key'' (CPtr ''struct lock_class_key''),
      Field ''parent_handler'' irq_flow_handler_t,
      Field [] (CUnion [] False
        [Field ''parent_handler_data'' (CPtr ''void''),
         Field ''parent_handler_data_array'' (CPtr ''void *'')]),
      Field ''num_parents'' unsigned_int,
      Field ''parents'' (CPtr ''unsigned int''),
      Field ''map'' (CPtr ''unsigned int''),
      Field ''threaded'' bool,
      Field ''per_parent_data'' bool,
      Field ''initialized'' bool,
      Field ''domain_is_allocated_externally'' bool,
      Field ''init_hw'' (CPtr ''int (struct gpio_chip *)''),
      Field ''init_valid_mask'' (CPtr ''void (struct gpio_chip *, long unsigned int *, unsigned int)''),
      Field ''valid_mask'' (CPtr ''long unsigned int''),
      Field ''first'' unsigned_int,
      Field ''irq_enable'' (CPtr ''void (struct irq_data *)''),
      Field ''irq_disable'' (CPtr ''void (struct irq_data *)''),
      Field ''irq_unmask'' (CPtr ''void (struct irq_data *)''),
      Field ''irq_mask'' (CPtr ''void (struct irq_data *)'')]"

definition struct_gpio_chip :: cty where
  "struct_gpio_chip = CStruct ''gpio_chip'' False
     [Field ''label'' (CPtr ''const char''),
      Field ''gpiodev'' (CPtr ''struct gpio_device''),
      Field ''parent'' (CPtr ''struct device''),
      Field ''fwnode'' (CPtr ''struct fwnode_handle''),
      Field ''owner'' (CPtr ''struct module''),
      Field ''request'' (CPtr ''int (struct gpio_chip *, unsigned int)''),
      Field ''free'' (CPtr ''void (struct gpio_chip *, unsigned int)''),
      Field ''get_direction'' (CPtr ''int (struct gpio_chip *, unsigned int)''),
      Field ''direction_input'' (CPtr ''int (struct gpio_chip *, unsigned int)''),
      Field ''direction_output'' (CPtr ''int (struct gpio_chip *, unsigned int, int)''),
      Field ''get'' (CPtr ''int (struct gpio_chip *, unsigned int)''),
      Field ''get_multiple'' (CPtr ''int (struct gpio_chip *, long unsigned int *, long unsigned int *)''),
      Field ''set'' (CPtr ''int (struct gpio_chip *, unsigned int, int)''),
      Field ''set_multiple'' (CPtr ''int (struct gpio_chip *, long unsigned int *, long unsigned int *)''),
      Field ''set_config'' (CPtr ''int (struct gpio_chip *, unsigned int, long unsigned int)''),
      Field ''to_irq'' (CPtr ''int (struct gpio_chip *, unsigned int)''),
      Field ''dbg_show'' (CPtr ''void (struct seq_file *, struct gpio_chip *)''),
      Field ''init_valid_mask'' (CPtr ''int (struct gpio_chip *, long unsigned int *, unsigned int)''),
      Field ''add_pin_ranges'' (CPtr ''int (struct gpio_chip *)''),
      Field ''en_hw_timestamp'' (CPtr ''int (struct gpio_chip *, u32, long unsigned int)''),
      Field ''dis_hw_timestamp'' (CPtr ''int (struct gpio_chip *, u32, long unsigned int)''),
      Field ''base'' c_int,
      Field ''ngpio'' u16,
      Field ''offset'' u16,
      Field ''names'' (CPtr ''const char *''),
      Field ''can_sleep'' bool,
      Field ''irq'' struct_gpio_irq_chip]"

definition struct_hwspinlock :: cty where
  "struct_hwspinlock = CStruct ''hwspinlock'' False
     [Field ''bank'' (CPtr ''struct hwspinlock_device''),
      Field ''lock'' spinlock_t,
      Field ''priv'' (CPtr ''void'')]"

definition struct_ib_port_immutable :: cty where
  "struct_ib_port_immutable = CStruct ''ib_port_immutable'' False
     [Field ''pkey_tbl_len'' c_int,
      Field ''gid_tbl_len'' c_int,
      Field ''core_cap_flags'' u32,
      Field ''max_mad_size'' u32]"

definition enum_ib_port_state :: cty where
  "enum_ib_port_state = CEnum 4
     [(''IB_PORT_NOP'', 0), (''IB_PORT_DOWN'', 1), (''IB_PORT_INIT'', 2),
      (''IB_PORT_ARMED'', 3), (''IB_PORT_ACTIVE'', 4), (''IB_PORT_ACTIVE_DEFER'', 5)]"

definition struct_ib_port_cache :: cty where
  "struct_ib_port_cache = CStruct ''ib_port_cache'' False
     [Field ''subnet_prefix'' u64,
      Field ''pkey'' (CPtr ''struct ib_pkey_cache''),
      Field ''gid'' (CPtr ''struct ib_gid_table''),
      Field ''lmc'' u8,
      Field ''port_state'' enum_ib_port_state,
      Field ''last_port_state'' enum_ib_port_state]"

definition enum_rdma_nl_counter_mode :: cty where
  "enum_rdma_nl_counter_mode = CEnum 4
     [(''RDMA_COUNTER_MODE_NONE'', 0), (''RDMA_COUNTER_MODE_AUTO'', 1),
      (''RDMA_COUNTER_MODE_MANUAL'', 2), (''RDMA_COUNTER_MODE_MAX'', 3)]"

definition enum_rdma_nl_counter_mask :: cty where
  "enum_rdma_nl_counter_mask = CEnum 4
     [(''RDMA_COUNTER_MASK_QP_TYPE'', 1), (''RDMA_COUNTER_MASK_PID'', 2)]"

definition struct_auto_mode_param :: cty where
  "struct_auto_mode_param = CStruct ''auto_mode_param'' False
     [Field ''qp_type'' c_int]"

definition struct_rdma_counter_mode :: cty where
  "struct_rdma_counter_mode = CStruct ''rdma_counter_mode'' False
     [Field ''mode'' enum_rdma_nl_counter_mode,
      Field ''mask'' enum_rdma_nl_counter_mask,
      Field ''param'' struct_auto_mode_param,
      Field ''bind_opcnt'' bool]"

definition struct_rdma_port_counter :: cty where
  "struct_rdma_port_counter = CStruct ''rdma_port_counter'' False
     [Field ''mode'' struct_rdma_counter_mode,
      Field ''hstats'' (CPtr ''struct rdma_hw_stats''),
      Field ''num_counters'' unsigned_int,
      Field ''lock'' struct_mutex]"

definition struct_ib_port_data :: cty where
  "struct_ib_port_data = CStruct ''ib_port_data'' False
     [Field ''ib_dev'' (CPtr ''struct ib_device''),
      Field ''immutable'' struct_ib_port_immutable,
      Field ''pkey_list_lock'' spinlock_t,
      Field ''netdev_lock'' spinlock_t,
      Field ''pkey_list'' struct_list_head,
      Field ''cache'' struct_ib_port_cache,
      Field ''netdev'' (CPtr ''struct net_device''),
      Field ''netdev_tracker'' netdevice_tracker,
      Field ''ndev_hash_link'' struct_hlist_node,
      Field ''port_counter'' struct_rdma_port_counter,
      Field ''sysfs'' (CPtr ''struct ib_port'')]"

definition struct_ieee80211_iface_combination :: cty where
  "struct_ieee80211_iface_combination = CStruct ''ieee80211_iface_combination'' False
     [Field ''limits'' (CPtr ''const struct ieee80211_iface_limit''),
      Field ''num_different_channels'' u32,
      Field ''max_interfaces'' u16,
      Field ''n_limits'' u8,
      Field ''beacon_int_infra_match'' bool,
      Field ''radar_detect_widths'' u8,
      Field ''radar_detect_regions'' u8,
      Field ''beacon_int_min_gcd'' u32]"

definition enum_nl80211_dfs_regions :: cty where
  "enum_nl80211_dfs_regions = CEnum 4
     [(''NL80211_DFS_UNSET'', 0), (''NL80211_DFS_FCC'', 1), (''NL80211_DFS_ETSI'', 2),
      (''NL80211_DFS_JP'', 3)]"

definition struct_ieee80211_freq_range :: cty where
  "struct_ieee80211_freq_range = CStruct ''ieee80211_freq_range'' False
     [Field ''start_freq_khz'' u32,
      Field ''end_freq_khz'' u32,
      Field ''max_bandwidth_khz'' u32]"

definition struct_ieee80211_power_rule :: cty where
  "struct_ieee80211_power_rule = CStruct ''ieee80211_power_rule'' False
     [Field ''max_antenna_gain'' u32,
      Field ''max_eirp'' u32]"

definition struct_ieee80211_wmm_ac :: cty where
  "struct_ieee80211_wmm_ac = CStruct ''ieee80211_wmm_ac'' False
     [Field ''cw_min'' u16,
      Field ''cw_max'' u16,
      Field ''cot'' u16,
      Field ''aifsn'' u8]"

definition struct_ieee80211_wmm_rule :: cty where
  "struct_ieee80211_wmm_rule = CStruct ''ieee80211_wmm_rule'' False
     [Field ''client'' (CArr 4 struct_ieee80211_wmm_ac),
      Field ''ap'' (CArr 4 struct_ieee80211_wmm_ac)]"

definition struct_ieee80211_reg_rule :: cty where
  "struct_ieee80211_reg_rule = CStruct ''ieee80211_reg_rule'' False
     [Field ''freq_range'' struct_ieee80211_freq_range,
      Field ''power_rule'' struct_ieee80211_power_rule,
      Field ''wmm_rule'' struct_ieee80211_wmm_rule,
      Field ''flags'' u32,
      Field ''dfs_cac_ms'' u32,
      Field ''has_wmm'' bool,
      Field ''psd'' s8]"

definition struct_ieee80211_regdomain :: cty where
  "struct_ieee80211_regdomain = CStruct ''ieee80211_regdomain'' False
     [Field ''callback_head'' struct_callback_head,
      Field ''n_reg_rules'' u32,
      Field ''alpha2'' (CArr 3 c_char),
      Field ''dfs_region'' enum_nl80211_dfs_regions,
      Field ''reg_rules'' (CArr 0 struct_ieee80211_reg_rule)]"

definition struct_ieee80211_sta_ht_cap :: cty where
  "struct_ieee80211_sta_ht_cap = CStruct ''ieee80211_sta_ht_cap'' True
     [Field ''cap'' u16,
      Field ''ht_supported'' bool,
      Field ''ampdu_factor'' u8,
      Field ''ampdu_density'' u8,
      Field ''mcs'' struct_ieee80211_mcs_info,
      BitField [] short_int 0]"

definition struct_ieee80211_sta_vht_cap :: cty where
  "struct_ieee80211_sta_vht_cap = CStruct ''ieee80211_sta_vht_cap'' False
     [Field ''vht_supported'' bool,
      Field ''cap'' u32,
      Field ''vht_mcs'' struct_ieee80211_vht_mcs_info]"

definition struct_ieee80211_sta_s1g_cap :: cty where
  "struct_ieee80211_sta_s1g_cap = CStruct ''ieee80211_sta_s1g_cap'' False
     [Field ''s1g'' bool,
      Field ''cap'' (CArr 10 u8),
      Field ''nss_mcs'' (CArr 5 u8)]"

definition struct_ieee80211_supported_band :: cty where
  "struct_ieee80211_supported_band = CStruct ''ieee80211_supported_band'' False
     [Field ''channels'' (CPtr ''struct ieee80211_channel''),
      Field ''bitrates'' (CPtr ''struct ieee80211_rate''),
      Field ''band'' enum_nl80211_band,
      Field ''n_channels'' c_int,
      Field ''n_bitrates'' c_int,
      Field ''ht_cap'' struct_ieee80211_sta_ht_cap,
      Field ''vht_cap'' struct_ieee80211_sta_vht_cap,
      Field ''s1g_cap'' struct_ieee80211_sta_s1g_cap,
      Field ''edmg_cap'' struct_ieee80211_edmg,
      Field ''n_iftype_data'' u16,
      Field ''iftype_data'' (CPtr ''const struct ieee80211_sband_iftype_data'')]"

definition struct_ieee80211_txrx_stypes :: cty where
  "struct_ieee80211_txrx_stypes = CStruct ''ieee80211_txrx_stypes'' False
     [Field ''tx'' u16,
      Field ''rx'' u16]"

definition struct_io_pagetable :: cty where
  "struct_io_pagetable = CStruct ''io_pagetable'' False
     [Field ''domains_rwsem'' struct_rw_semaphore,
      Field ''domains'' struct_xarray,
      Field ''access_list'' struct_xarray,
      Field ''next_domain_id'' unsigned_int,
      Field ''iova_rwsem'' struct_rw_semaphore,
      Field ''area_itree'' struct_rb_root_cached,
      Field ''allowed_itree'' struct_rb_root_cached,
      Field ''reserved_itree'' struct_rb_root_cached,
      Field ''disable_large_pages'' u8,
      Field ''iova_alignment'' long_unsigned_int]"

definition struct_iommufd_ioas :: cty where
  "struct_iommufd_ioas = CStruct ''iommufd_ioas'' False
     [Field ''obj'' struct_iommufd_object,
      Field ''iopt'' struct_io_pagetable,
      Field ''mutex'' struct_mutex,
      Field ''hwpt_list'' struct_list_head]"

definition struct_ip6_sf_list :: cty where
  "struct_ip6_sf_list = CStruct ''ip6_sf_list'' False
     [Field ''sf_next'' (CPtr ''struct ip6_sf_list''),
      Field ''sf_addr'' struct_in6_addr,
      Field ''sf_count'' (CArr 2 long_unsigned_int),
      Field ''sf_gsresp'' unsigned_char,
      Field ''sf_oldin'' unsigned_char,
      Field ''sf_crcount'' unsigned_char,
      Field ''rcu'' struct_callback_head]"

definition struct_ip_sf_list :: cty where
  "struct_ip_sf_list = CStruct ''ip_sf_list'' False
     [Field ''sf_next'' (CPtr ''struct ip_sf_list''),
      Field ''sf_count'' (CArr 2 long_unsigned_int),
      Field ''sf_inaddr'' c__be32,
      Field ''sf_gsresp'' unsigned_char,
      Field ''sf_oldin'' unsigned_char,
      Field ''sf_crcount'' unsigned_char]"

definition struct_irq_affinity_desc :: cty where
  "struct_irq_affinity_desc = CStruct ''irq_affinity_desc'' False
     [Field ''mask'' struct_cpumask,
      BitField ''is_managed'' unsigned_int 1]"

definition struct_kvm_lpage_info :: cty where
  "struct_kvm_lpage_info = CStruct ''kvm_lpage_info'' False
     [Field ''disallow_lpage'' c_int]"

definition struct_kvm_rmap_head :: cty where
  "struct_kvm_rmap_head = CStruct ''kvm_rmap_head'' False
     [Field ''val'' atomic_long_t]"

definition struct_kvm_stats_desc :: cty where
  "struct_kvm_stats_desc = CStruct ''kvm_stats_desc'' False
     [Field ''flags'' c__u32,
      Field ''exponent'' c__s16,
      Field ''size'' c__u16,
      Field ''offset'' c__u32,
      Field ''bucket_size'' c__u32,
      Field ''name'' (CArr 48 c_char)]"

definition struct_linear_range :: cty where
  "struct_linear_range = CStruct ''linear_range'' False
     [Field ''min'' unsigned_int,
      Field ''min_sel'' unsigned_int,
      Field ''max_sel'' unsigned_int,
      Field ''step'' unsigned_int]"

definition struct_mac_address :: cty where
  "struct_mac_address = CStruct ''mac_address'' False
     [Field ''addr'' (CArr 6 u8)]"

definition struct_neigh_table :: cty where
  "struct_neigh_table = CStruct ''neigh_table'' False
     [Field ''family'' c_int,
      Field ''entry_size'' unsigned_int,
      Field ''key_len'' unsigned_int,
      Field ''protocol'' c__be16,
      Field ''hash'' (CPtr ''__u32 (const void *, const struct net_device *, __u32 *)''),
      Field ''key_eq'' (CPtr ''bool (const struct neighbour *, const void *)''),
      Field ''constructor'' (CPtr ''int (struct neighbour *)''),
      Field ''pconstructor'' (CPtr ''int (struct pneigh_entry *)''),
      Field ''pdestructor'' (CPtr ''void (struct pneigh_entry *)''),
      Field ''proxy_redo'' (CPtr ''void (struct sk_buff *)''),
      Field ''is_multicast'' (CPtr ''int (const void *)''),
      Field ''allow_add'' (CPtr ''bool (const struct net_device *, struct netlink_ext_ack *)''),
      Field ''id'' (CPtr ''char''),
      Field ''parms'' struct_neigh_parms,
      Field ''parms_list'' struct_list_head,
      Field ''gc_interval'' c_int,
      Field ''gc_thresh1'' c_int,
      Field ''gc_thresh2'' c_int,
      Field ''gc_thresh3'' c_int,
      Field ''last_flush'' long_unsigned_int,
      Field ''gc_work'' struct_delayed_work,
      Field ''managed_work'' struct_delayed_work,
      Field ''proxy_timer'' struct_timer_list,
      Field ''proxy_queue'' struct_sk_buff_head,
      Field ''entries'' atomic_t,
      Field ''gc_entries'' atomic_t,
      Field ''gc_list'' struct_list_head,
      Field ''managed_list'' struct_list_head,
      Field ''lock'' spinlock_t,
      Field ''last_rand'' long_unsigned_int,
      Field ''stats'' (CPtr ''struct neigh_statistics''),
      Field ''nht'' (CPtr ''struct neigh_hash_table''),
      Field ''phash_lock'' struct_mutex,
      Field ''phash_buckets'' (CPtr ''struct pneigh_entry *'')]"

definition struct_netlink_range_validation :: cty where
  "struct_netlink_range_validation = CStruct ''netlink_range_validation'' False
     [Field ''min'' u64,
      Field ''max'' u64]"

definition struct_netlink_range_validation_signed :: cty where
  "struct_netlink_range_validation_signed = CStruct ''netlink_range_validation_signed'' False
     [Field ''min'' s64,
      Field ''max'' s64]"

definition enum_xprtsec_policies :: cty where
  "enum_xprtsec_policies = CEnum 4
     [(''RPC_XPRTSEC_NONE'', 0), (''RPC_XPRTSEC_TLS_ANON'', 1), (''RPC_XPRTSEC_TLS_X509'', 2)]"

definition struct_xprtsec_parms :: cty where
  "struct_xprtsec_parms = CStruct ''xprtsec_parms'' False
     [Field ''policy'' enum_xprtsec_policies,
      Field ''cert_serial'' key_serial_t,
      Field ''privkey_serial'' key_serial_t]"

definition nfs4_verifier :: cty where
  "nfs4_verifier = CStruct [] False
      [Field ''data'' (CArr 8 c_char)]"

definition struct_nfs_client :: cty where
  "struct_nfs_client = CStruct ''nfs_client'' False
     [Field ''cl_count'' refcount_t,
      Field ''cl_mds_count'' atomic_t,
      Field ''cl_cons_state'' c_int,
      Field ''cl_res_state'' long_unsigned_int,
      Field ''cl_flags'' long_unsigned_int,
      Field ''cl_addr'' struct___kernel_sockaddr_storage,
      Field ''cl_addrlen'' size_t,
      Field ''cl_hostname'' (CPtr ''char''),
      Field ''cl_acceptor'' (CPtr ''char''),
      Field ''cl_share_link'' struct_list_head,
      Field ''cl_superblocks'' struct_list_head,
      Field ''cl_rpcclient'' (CPtr ''struct rpc_clnt''),
      Field ''rpc_ops'' (CPtr ''const struct nfs_rpc_ops''),
      Field ''cl_proto'' c_int,
      Field ''cl_nfs_mod'' (CPtr ''struct nfs_subversion''),
      Field ''cl_minorversion'' u32,
      Field ''cl_nconnect'' unsigned_int,
      Field ''cl_max_connect'' unsigned_int,
      Field ''cl_principal'' (CPtr ''const char''),
      Field ''cl_xprtsec'' struct_xprtsec_parms,
      Field ''cl_ds_clients'' struct_list_head,
      Field ''cl_clientid'' u64,
      Field ''cl_confirm'' nfs4_verifier,
      Field ''cl_state'' long_unsigned_int,
      Field ''cl_lock'' spinlock_t,
      Field ''cl_lease_time'' long_unsigned_int,
      Field ''cl_last_renewal'' long_unsigned_int,
      Field ''cl_renewd'' struct_delayed_work,
      Field ''cl_rpcwaitq'' struct_rpc_wait_queue,
      Field ''cl_idmap'' (CPtr ''struct idmap''),
      Field ''cl_owner_id'' (CPtr ''const char''),
      Field ''cl_cb_ident'' u32,
      Field ''cl_mvops'' (CPtr ''const struct nfs4_minor_version_ops''),
      Field ''cl_mig_gen'' long_unsigned_int,
      Field ''cl_slot_tbl'' (CPtr ''struct nfs4_slot_table''),
      Field ''cl_seqid'' u32,
      Field ''cl_exchange_flags'' u32,
      Field ''cl_session'' (CPtr ''struct nfs4_session''),
      Field ''cl_preserve_clid'' bool,
      Field ''cl_serverowner'' (CPtr ''struct nfs41_server_owner''),
      Field ''cl_serverscope'' (CPtr ''struct nfs41_server_scope''),
      Field ''cl_implid'' (CPtr ''struct nfs41_impl_id''),
      Field ''cl_sp4_flags'' long_unsigned_int,
      Field ''cl_lock_waitq'' wait_queue_head_t,
      Field ''cl_ipaddr'' (CArr 48 c_char),
      Field ''cl_net'' (CPtr ''struct net''),
      Field ''cl_ns_tracker'' netns_tracker,
      Field ''pending_cb_stateids'' struct_list_head,
      Field ''rcu'' struct_callback_head]"

definition struct_nh_grp_entry_stats :: cty where
  "struct_nh_grp_entry_stats = CStruct ''nh_grp_entry_stats'' False
     [Field ''packets'' u64_stats_t,
      Field ''syncp'' struct_u64_stats_sync]"

definition struct_nh_res_bucket :: cty where
  "struct_nh_res_bucket = CStruct ''nh_res_bucket'' False
     [Field ''nh_entry'' (CPtr ''struct nh_grp_entry''),
      Field ''used_time'' atomic_long_t,
      Field ''migrated_time'' long_unsigned_int,
      Field ''occupied'' bool,
      Field ''nh_flags'' u8]"

definition struct_nh_res_table :: cty where
  "struct_nh_res_table = CStruct ''nh_res_table'' False
     [Field ''net'' (CPtr ''struct net''),
      Field ''nhg_id'' u32,
      Field ''upkeep_dw'' struct_delayed_work,
      Field ''uw_nh_entries'' struct_list_head,
      Field ''unbalanced_since'' long_unsigned_int,
      Field ''idle_timer'' u32,
      Field ''unbalanced_timer'' u32,
      Field ''num_nh_buckets'' u16,
      Field ''nh_buckets'' (CArr 0 struct_nh_res_bucket)]"

definition struct_nl80211_vendor_cmd_info :: cty where
  "struct_nl80211_vendor_cmd_info = CStruct ''nl80211_vendor_cmd_info'' False
     [Field ''vendor_id'' c__u32,
      Field ''subcmd'' c__u32]"

definition struct_phylink_mac_ops :: cty where
  "struct_phylink_mac_ops = CStruct ''phylink_mac_ops'' False
     [Field ''mac_get_caps'' (CPtr ''long unsigned int (struct phylink_config *, phy_interface_t)''),
      Field ''mac_select_pcs'' (CPtr ''struct phylink_pcs * (struct phylink_config *, phy_interface_t)''),
      Field ''mac_prepare'' (CPtr ''int (struct phylink_config *, unsigned int, phy_interface_t)''),
      Field ''mac_config'' (CPtr ''void (struct phylink_config *, unsigned int, const struct phylink_link_state *)''),
      Field ''mac_finish'' (CPtr ''int (struct phylink_config *, unsigned int, phy_interface_t)''),
      Field ''mac_link_down'' (CPtr ''void (struct phylink_config *, unsigned int, phy_interface_t)''),
      Field ''mac_link_up'' (CPtr ''void (struct phylink_config *, struct phy_device *, unsigned int, phy_interface_t, int, int, bool, bool)''),
      Field ''mac_disable_tx_lpi'' (CPtr ''void (struct phylink_config *)''),
      Field ''mac_enable_tx_lpi'' (CPtr ''int (struct phylink_config *, u32, bool)''),
      Field ''mac_wol_set'' (CPtr ''int (struct phylink_config *, u32, const u8 *)'')]"

definition enum_ethtool_pse_types :: cty where
  "enum_ethtool_pse_types = CEnum 4
     [(''ETHTOOL_PSE_UNKNOWN'', 1), (''ETHTOOL_PSE_PODL'', 2), (''ETHTOOL_PSE_C33'', 4)]"

definition struct_pse_ntf :: cty where
  "struct_pse_ntf = CStruct ''pse_ntf'' False
     [Field ''id'' c_int,
      Field ''notifs'' long_unsigned_int]"

definition struct_pse_controller_dev :: cty where
  "struct_pse_controller_dev = CStruct ''pse_controller_dev'' False
     [Field ''ops'' (CPtr ''const struct pse_controller_ops''),
      Field ''owner'' (CPtr ''struct module''),
      Field ''list'' struct_list_head,
      Field ''pse_control_head'' struct_list_head,
      Field ''dev'' (CPtr ''struct device''),
      Field ''of_pse_n_cells'' c_int,
      Field ''nr_lines'' unsigned_int,
      Field ''lock'' struct_mutex,
      Field ''types'' enum_ethtool_pse_types,
      Field ''pi'' (CPtr ''struct pse_pi''),
      Field ''no_of_pse_pi'' bool,
      Field ''irq'' c_int,
      Field ''pis_prio_max'' unsigned_int,
      Field ''supp_budget_eval_strategies'' u32,
      Field ''ntf_work'' struct_work_struct,
      Field ''ntf_fifo'' (CStruct [] False
        [Field [] (CUnion [] False
           [Field ''kfifo'' struct___kfifo,
            Field ''type'' (CPtr ''struct pse_ntf''),
            Field ''const_type'' (CPtr ''const struct pse_ntf''),
            Field ''rectype'' (CPtr ''char[0]''),
            Field ''ptr'' (CPtr ''struct pse_ntf''),
            Field ''ptr_const'' (CPtr ''const struct pse_ntf'')]),
         Field ''buf'' (CArr 0 struct_pse_ntf)]),
      Field ''ntf_fifo_lock'' spinlock_t]"

definition struct_rdma_link_ops :: cty where
  "struct_rdma_link_ops = CStruct ''rdma_link_ops'' False
     [Field ''list'' struct_list_head,
      Field ''type'' (CPtr ''const char''),
      Field ''newlink'' (CPtr ''int (const char *, struct net_device *)'')]"

definition struct_reg_default :: cty where
  "struct_reg_default = CStruct ''reg_default'' False
     [Field ''reg'' unsigned_int,
      Field ''def'' unsigned_int]"

definition struct_reg_sequence :: cty where
  "struct_reg_sequence = CStruct ''reg_sequence'' False
     [Field ''reg'' unsigned_int,
      Field ''def'' unsigned_int,
      Field ''delay_us'' unsigned_int]"

definition struct_regcache_ops :: cty where
  "struct_regcache_ops = CStruct ''regcache_ops'' False
     [Field ''name'' (CPtr ''const char''),
      Field ''type'' enum_regcache_type,
      Field ''init'' (CPtr ''int (struct regmap *)''),
      Field ''exit'' (CPtr ''int (struct regmap *)''),
      Field ''populate'' (CPtr ''int (struct regmap *)''),
      Field ''debugfs_init'' (CPtr ''void (struct regmap *)''),
      Field ''read'' (CPtr ''int (struct regmap *, unsigned int, unsigned int *)''),
      Field ''write'' (CPtr ''int (struct regmap *, unsigned int, unsigned int)''),
      Field ''sync'' (CPtr ''int (struct regmap *, unsigned int, unsigned int)''),
      Field ''drop'' (CPtr ''int (struct regmap *, unsigned int, unsigned int)'')]"

definition struct_regmap_access_table :: cty where
  "struct_regmap_access_table = CStruct ''regmap_access_table'' False
     [Field ''yes_ranges'' (CPtr ''const struct regmap_range''),
      Field ''n_yes_ranges'' unsigned_int,
      Field ''no_ranges'' (CPtr ''const struct regmap_range''),
      Field ''n_no_ranges'' unsigned_int]"

definition regmap_hw_write :: cty where [layout_simps]:
  "regmap_hw_write = CPtr ''int (void *, const void *, size_t)''"

definition regmap_hw_gather_write :: cty where [layout_simps]:
  "regmap_hw_gather_write = CPtr ''int (void *, const void *, size_t, const void *, size_t)''"

definition regmap_hw_async_write :: cty where [layout_simps]:
  "regmap_hw_async_write = CPtr ''int (void *, const void *, size_t, const void *, size_t, struct regmap_async *)''"

definition regmap_hw_reg_write :: cty where [layout_simps]:
  "regmap_hw_reg_write = CPtr ''int (void *, unsigned int, unsigned int)''"

definition regmap_hw_reg_noinc_write :: cty where [layout_simps]:
  "regmap_hw_reg_noinc_write = CPtr ''int (void *, unsigned int, const void *, size_t)''"

definition regmap_hw_reg_update_bits :: cty where [layout_simps]:
  "regmap_hw_reg_update_bits = CPtr ''int (void *, unsigned int, unsigned int, unsigned int)''"

definition regmap_hw_read :: cty where [layout_simps]:
  "regmap_hw_read = CPtr ''int (void *, const void *, size_t, void *, size_t)''"

definition regmap_hw_reg_read :: cty where [layout_simps]:
  "regmap_hw_reg_read = CPtr ''int (void *, unsigned int, unsigned int *)''"

definition regmap_hw_reg_noinc_read :: cty where [layout_simps]:
  "regmap_hw_reg_noinc_read = CPtr ''int (void *, unsigned int, void *, size_t)''"

definition regmap_hw_free_context :: cty where [layout_simps]:
  "regmap_hw_free_context = CPtr ''void (void *)''"

definition regmap_hw_async_alloc :: cty where [layout_simps]:
  "regmap_hw_async_alloc = CPtr ''struct regmap_async * (void)''"

definition enum_regmap_endian :: cty where
  "enum_regmap_endian = CEnum 4
     [(''REGMAP_ENDIAN_DEFAULT'', 0), (''REGMAP_ENDIAN_BIG'', 1), (''REGMAP_ENDIAN_LITTLE'', 2),
      (''REGMAP_ENDIAN_NATIVE'', 3)]"

definition struct_regmap_bus :: cty where
  "struct_regmap_bus = CStruct ''regmap_bus'' False
     [Field ''fast_io'' bool,
      Field ''free_on_exit'' bool,
      Field ''write'' regmap_hw_write,
      Field ''gather_write'' regmap_hw_gather_write,
      Field ''async_write'' regmap_hw_async_write,
      Field ''reg_write'' regmap_hw_reg_write,
      Field ''reg_noinc_write'' regmap_hw_reg_noinc_write,
      Field ''reg_update_bits'' regmap_hw_reg_update_bits,
      Field ''read'' regmap_hw_read,
      Field ''reg_read'' regmap_hw_reg_read,
      Field ''reg_noinc_read'' regmap_hw_reg_noinc_read,
      Field ''free_context'' regmap_hw_free_context,
      Field ''async_alloc'' regmap_hw_async_alloc,
      Field ''read_flag_mask'' u8,
      Field ''reg_format_endian_default'' enum_regmap_endian,
      Field ''val_format_endian_default'' enum_regmap_endian,
      Field ''max_raw_read'' size_t,
      Field ''max_raw_write'' size_t]"

definition struct_regulator_ops :: cty where
  "struct_regulator_ops = CStruct ''regulator_ops'' False
     [Field ''list_voltage'' (CPtr ''int (struct regulator_dev *, unsigned int)''),
      Field ''set_voltage'' (CPtr ''int (struct regulator_dev *, int, int, unsigned int *)''),
      Field ''map_voltage'' (CPtr ''int (struct regulator_dev *, int, int)''),
      Field ''set_voltage_sel'' (CPtr ''int (struct regulator_dev *, unsigned int)''),
      Field ''get_voltage'' (CPtr ''int (struct regulator_dev *)''),
      Field ''get_voltage_sel'' (CPtr ''int (struct regulator_dev *)''),
      Field ''set_current_limit'' (CPtr ''int (struct regulator_dev *, int, int)''),
      Field ''get_current_limit'' (CPtr ''int (struct regulator_dev *)''),
      Field ''set_input_current_limit'' (CPtr ''int (struct regulator_dev *, int)''),
      Field ''set_over_current_protection'' (CPtr ''int (struct regulator_dev *, int, int, bool)''),
      Field ''set_over_voltage_protection'' (CPtr ''int (struct regulator_dev *, int, int, bool)''),
      Field ''set_under_voltage_protection'' (CPtr ''int (struct regulator_dev *, int, int, bool)''),
      Field ''set_thermal_protection'' (CPtr ''int (struct regulator_dev *, int, int, bool)''),
      Field ''set_active_discharge'' (CPtr ''int (struct regulator_dev *, bool)''),
      Field ''enable'' (CPtr ''int (struct regulator_dev *)''),
      Field ''disable'' (CPtr ''int (struct regulator_dev *)''),
      Field ''is_enabled'' (CPtr ''int (struct regulator_dev *)''),
      Field ''set_mode'' (CPtr ''int (struct regulator_dev *, unsigned int)''),
      Field ''get_mode'' (CPtr ''unsigned int (struct regulator_dev *)''),
      Field ''get_error_flags'' (CPtr ''int (struct regulator_dev *, unsigned int *)''),
      Field ''enable_time'' (CPtr ''int (struct regulator_dev *)''),
      Field ''set_ramp_delay'' (CPtr ''int (struct regulator_dev *, int)''),
      Field ''set_voltage_time'' (CPtr ''int (struct regulator_dev *, int, int)''),
      Field ''set_voltage_time_sel'' (CPtr ''int (struct regulator_dev *, unsigned int, unsigned int)''),
      Field ''set_soft_start'' (CPtr ''int (struct regulator_dev *)''),
      Field ''get_status'' (CPtr ''int (struct regulator_dev *)''),
      Field ''get_optimum_mode'' (CPtr ''unsigned int (struct regulator_dev *, int, int, int)''),
      Field ''set_load'' (CPtr ''int (struct regulator_dev *, int)''),
      Field ''set_bypass'' (CPtr ''int (struct regulator_dev *, bool)''),
      Field ''get_bypass'' (CPtr ''int (struct regulator_dev *, bool *)''),
      Field ''set_suspend_voltage'' (CPtr ''int (struct regulator_dev *, int)''),
      Field ''set_suspend_enable'' (CPtr ''int (struct regulator_dev *)''),
      Field ''set_suspend_disable'' (CPtr ''int (struct regulator_dev *)''),
      Field ''set_suspend_mode'' (CPtr ''int (struct regulator_dev *, unsigned int)''),
      Field ''resume'' (CPtr ''int (struct regulator_dev *)''),
      Field ''set_pull_down'' (CPtr ''int (struct regulator_dev *)'')]"

definition struct_reset_controller_dev :: cty where
  "struct_reset_controller_dev = CStruct ''reset_controller_dev'' False
     [Field ''ops'' (CPtr ''const struct reset_control_ops''),
      Field ''owner'' (CPtr ''struct module''),
      Field ''list'' struct_list_head,
      Field ''reset_control_head'' struct_list_head,
      Field ''dev'' (CPtr ''struct device''),
      Field ''of_node'' (CPtr ''struct device_node''),
      Field ''of_args'' (CPtr ''const struct of_phandle_args''),
      Field ''of_reset_n_cells'' c_int,
      Field ''of_xlate'' (CPtr ''int (struct reset_controller_dev *, const struct of_phandle_args *)''),
      Field ''nr_resets'' unsigned_int]"

definition enum_rfkill_type :: cty where
  "enum_rfkill_type = CEnum 4
     [(''RFKILL_TYPE_ALL'', 0), (''RFKILL_TYPE_WLAN'', 1), (''RFKILL_TYPE_BLUETOOTH'', 2),
      (''RFKILL_TYPE_UWB'', 3), (''RFKILL_TYPE_WIMAX'', 4), (''RFKILL_TYPE_WWAN'', 5),
      (''RFKILL_TYPE_GPS'', 6), (''RFKILL_TYPE_FM'', 7), (''RFKILL_TYPE_NFC'', 8),
      (''NUM_RFKILL_TYPES'', 9)]"

definition struct_rfkill :: cty where
  "struct_rfkill = CStruct ''rfkill'' False
     [Field ''lock'' spinlock_t,
      Field ''type'' enum_rfkill_type,
      Field ''state'' long_unsigned_int,
      Field ''hard_block_reasons'' long_unsigned_int,
      Field ''idx'' u32,
      Field ''registered'' bool,
      Field ''persistent'' bool,
      Field ''polling_paused'' bool,
      Field ''suspended'' bool,
      Field ''need_sync'' bool,
      Field ''ops'' (CPtr ''const struct rfkill_ops''),
      Field ''data'' (CPtr ''void''),
      Field ''led_trigger'' struct_led_trigger,
      Field ''ledtrigname'' (CPtr ''const char''),
      Field ''dev'' struct_device,
      Field ''node'' struct_list_head,
      Field ''poll_work'' struct_delayed_work,
      Field ''uevent_work'' struct_work_struct,
      Field ''sync_work'' struct_work_struct,
      Field ''name'' (CArr 0 c_char)]"

definition struct_rpc_pipe_dir_head :: cty where
  "struct_rpc_pipe_dir_head = CStruct ''rpc_pipe_dir_head'' False
     [Field ''pdh_entries'' struct_list_head,
      Field ''pdh_dentry'' (CPtr ''struct dentry'')]"

definition struct_rpc_rtt :: cty where
  "struct_rpc_rtt = CStruct ''rpc_rtt'' False
     [Field ''timeo'' long_unsigned_int,
      Field ''srtt'' (CArr 5 long_unsigned_int),
      Field ''sdrtt'' (CArr 5 long_unsigned_int),
      Field ''ntimeouts'' (CArr 5 c_int)]"

section \<open>Sizes and alignments\<close>

lemma struct_Qdisc_class_ops_layout [layout_simps]:
  "sizeof struct_Qdisc_class_ops = 112 \<and> alignof struct_Qdisc_class_ops = 8 \<and> wf_cty struct_Qdisc_class_ops"
  by (simp add: struct_Qdisc_class_ops_def base_types layout_eval
      del: One_nat_def)

lemma struct_aa_dfa_layout [layout_simps]:
  "sizeof struct_aa_dfa = 80 \<and> alignof struct_aa_dfa = 8 \<and> wf_cty struct_aa_dfa"
  by (simp add: struct_aa_dfa_def base_types layout_eval struct_kref_layout u16_def c__u16_def u32_def c__u32_def
      del: One_nat_def)

lemma struct_aa_perms_layout [layout_simps]:
  "sizeof struct_aa_perms = 52 \<and> alignof struct_aa_perms = 4 \<and> wf_cty struct_aa_perms"
  by (simp add: struct_aa_perms_def base_types layout_eval u32_def c__u32_def
      del: One_nat_def)

lemma struct_aa_str_table_ent_layout [layout_simps]:
  "sizeof struct_aa_str_table_ent = 16 \<and> alignof struct_aa_str_table_ent = 8 \<and> wf_cty struct_aa_str_table_ent"
  by (simp add: struct_aa_str_table_ent_def base_types layout_eval
      del: One_nat_def)

lemma struct_aa_tags_header_layout [layout_simps]:
  "sizeof struct_aa_tags_header = 16 \<and> alignof struct_aa_tags_header = 4 \<and> wf_cty struct_aa_tags_header"
  by (simp add: struct_aa_tags_header_def base_types layout_eval u32_def c__u32_def
      del: One_nat_def)

lemma struct_cfg80211_pmsr_capabilities_layout [layout_simps]:
  "sizeof struct_cfg80211_pmsr_capabilities = 28 \<and> alignof struct_cfg80211_pmsr_capabilities = 4 \<and> wf_cty struct_cfg80211_pmsr_capabilities"
  by (simp add: struct_cfg80211_pmsr_capabilities_def base_types layout_eval u8_def c__u8_def u32_def c__u32_def s8_def
      c__s8_def
      del: One_nat_def)

lemma enum_nl80211_sar_type_layout [layout_simps]:
  "sizeof enum_nl80211_sar_type = 4 \<and> alignof enum_nl80211_sar_type = 4 \<and> wf_cty enum_nl80211_sar_type"
  by (simp add: enum_nl80211_sar_type_def base_types layout_eval
      del: One_nat_def)

lemma struct_cfg80211_sar_capa_layout [layout_simps]:
  "sizeof struct_cfg80211_sar_capa = 16 \<and> alignof struct_cfg80211_sar_capa = 8 \<and> wf_cty struct_cfg80211_sar_capa"
  by (simp add: struct_cfg80211_sar_capa_def base_types layout_eval enum_nl80211_sar_type_layout u32_def c__u32_def
      del: One_nat_def)

lemma struct_cfg80211_wowlan_layout [layout_simps]:
  "sizeof struct_cfg80211_wowlan = 40 \<and> alignof struct_cfg80211_wowlan = 8 \<and> wf_cty struct_cfg80211_wowlan"
  by (simp add: struct_cfg80211_wowlan_def base_types layout_eval bool_def
      del: One_nat_def)

lemma struct_devlink_dpipe_headers_layout [layout_simps]:
  "sizeof struct_devlink_dpipe_headers = 16 \<and> alignof struct_devlink_dpipe_headers = 8 \<and> wf_cty struct_devlink_dpipe_headers"
  by (simp add: struct_devlink_dpipe_headers_def base_types layout_eval
      del: One_nat_def)

lemma struct_devlink_linecard_ops_layout [layout_simps]:
  "sizeof struct_devlink_linecard_ops = 40 \<and> alignof struct_devlink_linecard_ops = 8 \<and> wf_cty struct_devlink_linecard_ops"
  by (simp add: struct_devlink_linecard_ops_def base_types layout_eval
      del: One_nat_def)

lemma struct_devlink_linecard_type_layout [layout_simps]:
  "sizeof struct_devlink_linecard_type = 16 \<and> alignof struct_devlink_linecard_type = 8 \<and> wf_cty struct_devlink_linecard_type"
  by (simp add: struct_devlink_linecard_type_def base_types layout_eval
      del: One_nat_def)

lemma struct_devlink_ops_layout [layout_simps]:
  "sizeof struct_devlink_ops = 408 \<and> alignof struct_devlink_ops = 8 \<and> wf_cty struct_devlink_ops"
  by (simp add: struct_devlink_ops_def base_types layout_eval u32_def c__u32_def
      del: One_nat_def)

lemma struct_devlink_rel_layout [layout_simps]:
  "sizeof struct_devlink_rel = 128 \<and> alignof struct_devlink_rel = 8 \<and> wf_cty struct_devlink_rel"
  by (simp add: struct_devlink_rel_def base_types layout_eval u32_def c__u32_def refcount_t_def
      struct_refcount_struct_layout struct_delayed_work_layout
      del: One_nat_def)

lemma struct_dsa_chip_data_layout [layout_simps]:
  "sizeof struct_dsa_chip_data = 328 \<and> alignof struct_dsa_chip_data = 8 \<and> wf_cty struct_dsa_chip_data"
  by (simp add: struct_dsa_chip_data_def base_types layout_eval s8_def c__s8_def
      del: One_nat_def)

lemma struct_dsa_platform_data_layout [layout_simps]:
  "sizeof struct_dsa_platform_data = 32 \<and> alignof struct_dsa_platform_data = 8 \<and> wf_cty struct_dsa_platform_data"
  by (simp add: struct_dsa_platform_data_def base_types layout_eval
      del: One_nat_def)

lemma struct_dsa_switch_ops_layout [layout_simps]:
  "sizeof struct_dsa_switch_ops = 952 \<and> alignof struct_dsa_switch_ops = 8 \<and> wf_cty struct_dsa_switch_ops"
  by (simp add: struct_dsa_switch_ops_def base_types layout_eval
      del: One_nat_def)

lemma struct_fib_info_layout [layout_simps]:
  "sizeof struct_fib_info = 128 \<and> alignof struct_fib_info = 8 \<and> wf_cty struct_fib_info"
  by (simp add: struct_fib_info_def base_types layout_eval struct_hlist_node_layout struct_list_head_layout
      refcount_t_def struct_refcount_struct_layout c__be32_def c__u32_def u32_def bool_def
      struct_callback_head_layout struct_fib_nh_layout
      del: One_nat_def)

lemma enum_fsnotify_group_prio_layout [layout_simps]:
  "sizeof enum_fsnotify_group_prio = 4 \<and> alignof enum_fsnotify_group_prio = 4 \<and> wf_cty enum_fsnotify_group_prio"
  by (simp add: enum_fsnotify_group_prio_def base_types layout_eval
      del: One_nat_def)

lemma struct_inotify_group_private_data_layout [layout_simps]:
  "sizeof struct_inotify_group_private_data = 40 \<and> alignof struct_inotify_group_private_data = 8 \<and> wf_cty struct_inotify_group_private_data"
  by (simp add: struct_inotify_group_private_data_def base_types layout_eval spinlock_t_def struct_spinlock_layout
      struct_idr_layout
      del: One_nat_def)

lemma struct_fanotify_group_private_data_layout [layout_simps]:
  "sizeof struct_fanotify_group_private_data = 152 \<and> alignof struct_fanotify_group_private_data = 8 \<and> wf_cty struct_fanotify_group_private_data"
  by (simp add: struct_fanotify_group_private_data_def base_types layout_eval struct_list_head_layout
      wait_queue_head_t_def struct_wait_queue_head_layout mempool_t_def struct_mempool_layout
      del: One_nat_def)

lemma struct_fsnotify_group_layout [layout_simps]:
  "sizeof struct_fsnotify_group = 320 \<and> alignof struct_fsnotify_group = 8 \<and> wf_cty struct_fsnotify_group"
  by (simp add: struct_fsnotify_group_def base_types layout_eval refcount_t_def struct_refcount_struct_layout
      spinlock_t_def struct_spinlock_layout struct_list_head_layout wait_queue_head_t_def
      struct_wait_queue_head_layout enum_fsnotify_group_prio_layout bool_def struct_mutex_layout
      atomic_t_layout struct_inotify_group_private_data_layout struct_fanotify_group_private_data_layout
      del: One_nat_def)

lemma struct_gpio_irq_chip_layout [layout_simps]:
  "sizeof struct_gpio_irq_chip = 288 \<and> alignof struct_gpio_irq_chip = 8 \<and> wf_cty struct_gpio_irq_chip"
  by (simp add: struct_gpio_irq_chip_def base_types layout_eval struct_irq_domain_ops_layout irq_flow_handler_t_def
      bool_def
      del: One_nat_def)

lemma struct_gpio_chip_layout [layout_simps]:
  "sizeof struct_gpio_chip = 480 \<and> alignof struct_gpio_chip = 8 \<and> wf_cty struct_gpio_chip"
  by (simp add: struct_gpio_chip_def base_types layout_eval u16_def c__u16_def bool_def struct_gpio_irq_chip_layout
      del: One_nat_def)

lemma struct_hwspinlock_layout [layout_simps]:
  "sizeof struct_hwspinlock = 24 \<and> alignof struct_hwspinlock = 8 \<and> wf_cty struct_hwspinlock"
  by (simp add: struct_hwspinlock_def base_types layout_eval spinlock_t_def struct_spinlock_layout
      del: One_nat_def)

lemma struct_ib_port_immutable_layout [layout_simps]:
  "sizeof struct_ib_port_immutable = 16 \<and> alignof struct_ib_port_immutable = 4 \<and> wf_cty struct_ib_port_immutable"
  by (simp add: struct_ib_port_immutable_def base_types layout_eval u32_def c__u32_def
      del: One_nat_def)

lemma enum_ib_port_state_layout [layout_simps]:
  "sizeof enum_ib_port_state = 4 \<and> alignof enum_ib_port_state = 4 \<and> wf_cty enum_ib_port_state"
  by (simp add: enum_ib_port_state_def base_types layout_eval
      del: One_nat_def)

lemma struct_ib_port_cache_layout [layout_simps]:
  "sizeof struct_ib_port_cache = 40 \<and> alignof struct_ib_port_cache = 8 \<and> wf_cty struct_ib_port_cache"
  by (simp add: struct_ib_port_cache_def base_types layout_eval u64_def c__u64_def u8_def c__u8_def
      enum_ib_port_state_layout
      del: One_nat_def)

lemma enum_rdma_nl_counter_mode_layout [layout_simps]:
  "sizeof enum_rdma_nl_counter_mode = 4 \<and> alignof enum_rdma_nl_counter_mode = 4 \<and> wf_cty enum_rdma_nl_counter_mode"
  by (simp add: enum_rdma_nl_counter_mode_def base_types layout_eval
      del: One_nat_def)

lemma enum_rdma_nl_counter_mask_layout [layout_simps]:
  "sizeof enum_rdma_nl_counter_mask = 4 \<and> alignof enum_rdma_nl_counter_mask = 4 \<and> wf_cty enum_rdma_nl_counter_mask"
  by (simp add: enum_rdma_nl_counter_mask_def base_types layout_eval
      del: One_nat_def)

lemma struct_auto_mode_param_layout [layout_simps]:
  "sizeof struct_auto_mode_param = 4 \<and> alignof struct_auto_mode_param = 4 \<and> wf_cty struct_auto_mode_param"
  by (simp add: struct_auto_mode_param_def base_types layout_eval
      del: One_nat_def)

lemma struct_rdma_counter_mode_layout [layout_simps]:
  "sizeof struct_rdma_counter_mode = 16 \<and> alignof struct_rdma_counter_mode = 4 \<and> wf_cty struct_rdma_counter_mode"
  by (simp add: struct_rdma_counter_mode_def base_types layout_eval enum_rdma_nl_counter_mode_layout
      enum_rdma_nl_counter_mask_layout struct_auto_mode_param_layout bool_def
      del: One_nat_def)

lemma struct_rdma_port_counter_layout [layout_simps]:
  "sizeof struct_rdma_port_counter = 64 \<and> alignof struct_rdma_port_counter = 8 \<and> wf_cty struct_rdma_port_counter"
  by (simp add: struct_rdma_port_counter_def base_types layout_eval struct_rdma_counter_mode_layout struct_mutex_layout
      del: One_nat_def)

lemma struct_ib_port_data_layout [layout_simps]:
  "sizeof struct_ib_port_data = 184 \<and> alignof struct_ib_port_data = 8 \<and> wf_cty struct_ib_port_data"
  by (simp add: struct_ib_port_data_def base_types layout_eval struct_ib_port_immutable_layout spinlock_t_def
      struct_spinlock_layout struct_list_head_layout struct_ib_port_cache_layout netdevice_tracker_layout
      struct_hlist_node_layout struct_rdma_port_counter_layout
      del: One_nat_def)

lemma struct_ieee80211_iface_combination_layout [layout_simps]:
  "sizeof struct_ieee80211_iface_combination = 24 \<and> alignof struct_ieee80211_iface_combination = 8 \<and> wf_cty struct_ieee80211_iface_combination"
  by (simp add: struct_ieee80211_iface_combination_def base_types layout_eval u32_def c__u32_def u16_def c__u16_def
      u8_def c__u8_def bool_def
      del: One_nat_def)

lemma enum_nl80211_dfs_regions_layout [layout_simps]:
  "sizeof enum_nl80211_dfs_regions = 4 \<and> alignof enum_nl80211_dfs_regions = 4 \<and> wf_cty enum_nl80211_dfs_regions"
  by (simp add: enum_nl80211_dfs_regions_def base_types layout_eval
      del: One_nat_def)

lemma struct_ieee80211_freq_range_layout [layout_simps]:
  "sizeof struct_ieee80211_freq_range = 12 \<and> alignof struct_ieee80211_freq_range = 4 \<and> wf_cty struct_ieee80211_freq_range"
  by (simp add: struct_ieee80211_freq_range_def base_types layout_eval u32_def c__u32_def
      del: One_nat_def)

lemma struct_ieee80211_power_rule_layout [layout_simps]:
  "sizeof struct_ieee80211_power_rule = 8 \<and> alignof struct_ieee80211_power_rule = 4 \<and> wf_cty struct_ieee80211_power_rule"
  by (simp add: struct_ieee80211_power_rule_def base_types layout_eval u32_def c__u32_def
      del: One_nat_def)

lemma struct_ieee80211_wmm_ac_layout [layout_simps]:
  "sizeof struct_ieee80211_wmm_ac = 8 \<and> alignof struct_ieee80211_wmm_ac = 2 \<and> wf_cty struct_ieee80211_wmm_ac"
  by (simp add: struct_ieee80211_wmm_ac_def base_types layout_eval u16_def c__u16_def u8_def c__u8_def
      del: One_nat_def)

lemma struct_ieee80211_wmm_rule_layout [layout_simps]:
  "sizeof struct_ieee80211_wmm_rule = 64 \<and> alignof struct_ieee80211_wmm_rule = 2 \<and> wf_cty struct_ieee80211_wmm_rule"
  by (simp add: struct_ieee80211_wmm_rule_def base_types layout_eval struct_ieee80211_wmm_ac_layout
      del: One_nat_def)

lemma struct_ieee80211_reg_rule_layout [layout_simps]:
  "sizeof struct_ieee80211_reg_rule = 96 \<and> alignof struct_ieee80211_reg_rule = 4 \<and> wf_cty struct_ieee80211_reg_rule"
  by (simp add: struct_ieee80211_reg_rule_def base_types layout_eval struct_ieee80211_freq_range_layout
      struct_ieee80211_power_rule_layout struct_ieee80211_wmm_rule_layout u32_def c__u32_def bool_def
      s8_def c__s8_def
      del: One_nat_def)

lemma struct_ieee80211_regdomain_layout [layout_simps]:
  "sizeof struct_ieee80211_regdomain = 32 \<and> alignof struct_ieee80211_regdomain = 8 \<and> wf_cty struct_ieee80211_regdomain"
  by (simp add: struct_ieee80211_regdomain_def base_types layout_eval struct_callback_head_layout u32_def c__u32_def
      enum_nl80211_dfs_regions_layout struct_ieee80211_reg_rule_layout
      del: One_nat_def)

lemma struct_ieee80211_sta_ht_cap_layout [layout_simps]:
  "sizeof struct_ieee80211_sta_ht_cap = 22 \<and> alignof struct_ieee80211_sta_ht_cap = 1 \<and> wf_cty struct_ieee80211_sta_ht_cap"
  by (simp add: struct_ieee80211_sta_ht_cap_def base_types layout_eval u16_def c__u16_def bool_def u8_def c__u8_def
      struct_ieee80211_mcs_info_layout
      del: One_nat_def)

lemma struct_ieee80211_sta_vht_cap_layout [layout_simps]:
  "sizeof struct_ieee80211_sta_vht_cap = 16 \<and> alignof struct_ieee80211_sta_vht_cap = 4 \<and> wf_cty struct_ieee80211_sta_vht_cap"
  by (simp add: struct_ieee80211_sta_vht_cap_def base_types layout_eval bool_def u32_def c__u32_def
      struct_ieee80211_vht_mcs_info_layout
      del: One_nat_def)

lemma struct_ieee80211_sta_s1g_cap_layout [layout_simps]:
  "sizeof struct_ieee80211_sta_s1g_cap = 16 \<and> alignof struct_ieee80211_sta_s1g_cap = 1 \<and> wf_cty struct_ieee80211_sta_s1g_cap"
  by (simp add: struct_ieee80211_sta_s1g_cap_def base_types layout_eval bool_def u8_def c__u8_def
      del: One_nat_def)

lemma struct_ieee80211_supported_band_layout [layout_simps]:
  "sizeof struct_ieee80211_supported_band = 104 \<and> alignof struct_ieee80211_supported_band = 8 \<and> wf_cty struct_ieee80211_supported_band"
  by (simp add: struct_ieee80211_supported_band_def base_types layout_eval enum_nl80211_band_layout
      struct_ieee80211_sta_ht_cap_layout struct_ieee80211_sta_vht_cap_layout
      struct_ieee80211_sta_s1g_cap_layout struct_ieee80211_edmg_layout u16_def c__u16_def
      del: One_nat_def)

lemma struct_ieee80211_txrx_stypes_layout [layout_simps]:
  "sizeof struct_ieee80211_txrx_stypes = 4 \<and> alignof struct_ieee80211_txrx_stypes = 2 \<and> wf_cty struct_ieee80211_txrx_stypes"
  by (simp add: struct_ieee80211_txrx_stypes_def base_types layout_eval u16_def c__u16_def
      del: One_nat_def)

lemma struct_io_pagetable_layout [layout_simps]:
  "sizeof struct_io_pagetable = 184 \<and> alignof struct_io_pagetable = 8 \<and> wf_cty struct_io_pagetable"
  by (simp add: struct_io_pagetable_def base_types layout_eval struct_rw_semaphore_layout struct_xarray_layout
      struct_rb_root_cached_layout u8_def c__u8_def
      del: One_nat_def)

lemma struct_iommufd_ioas_layout [layout_simps]:
  "sizeof struct_iommufd_ioas = 248 \<and> alignof struct_iommufd_ioas = 8 \<and> wf_cty struct_iommufd_ioas"
  by (simp add: struct_iommufd_ioas_def base_types layout_eval struct_iommufd_object_layout struct_io_pagetable_layout
      struct_mutex_layout struct_list_head_layout
      del: One_nat_def)

lemma struct_ip6_sf_list_layout [layout_simps]:
  "sizeof struct_ip6_sf_list = 64 \<and> alignof struct_ip6_sf_list = 8 \<and> wf_cty struct_ip6_sf_list"
  by (simp add: struct_ip6_sf_list_def base_types layout_eval struct_in6_addr_layout struct_callback_head_layout
      del: One_nat_def)

lemma struct_ip_sf_list_layout [layout_simps]:
  "sizeof struct_ip_sf_list = 32 \<and> alignof struct_ip_sf_list = 8 \<and> wf_cty struct_ip_sf_list"
  by (simp add: struct_ip_sf_list_def base_types layout_eval c__be32_def c__u32_def
      del: One_nat_def)

lemma struct_irq_affinity_desc_layout [layout_simps]:
  "sizeof struct_irq_affinity_desc = 1032 \<and> alignof struct_irq_affinity_desc = 8 \<and> wf_cty struct_irq_affinity_desc"
  by (simp add: struct_irq_affinity_desc_def base_types layout_eval struct_cpumask_layout
      del: One_nat_def)

lemma struct_kvm_lpage_info_layout [layout_simps]:
  "sizeof struct_kvm_lpage_info = 4 \<and> alignof struct_kvm_lpage_info = 4 \<and> wf_cty struct_kvm_lpage_info"
  by (simp add: struct_kvm_lpage_info_def base_types layout_eval
      del: One_nat_def)

lemma struct_kvm_rmap_head_layout [layout_simps]:
  "sizeof struct_kvm_rmap_head = 8 \<and> alignof struct_kvm_rmap_head = 8 \<and> wf_cty struct_kvm_rmap_head"
  by (simp add: struct_kvm_rmap_head_def base_types layout_eval atomic_long_t_def atomic64_t_layout
      del: One_nat_def)

lemma struct_kvm_stats_desc_layout [layout_simps]:
  "sizeof struct_kvm_stats_desc = 64 \<and> alignof struct_kvm_stats_desc = 4 \<and> wf_cty struct_kvm_stats_desc"
  by (simp add: struct_kvm_stats_desc_def base_types layout_eval c__u32_def c__s16_def c__u16_def
      del: One_nat_def)

lemma struct_linear_range_layout [layout_simps]:
  "sizeof struct_linear_range = 16 \<and> alignof struct_linear_range = 4 \<and> wf_cty struct_linear_range"
  by (simp add: struct_linear_range_def base_types layout_eval
      del: One_nat_def)

lemma struct_mac_address_layout [layout_simps]:
  "sizeof struct_mac_address = 6 \<and> alignof struct_mac_address = 1 \<and> wf_cty struct_mac_address"
  by (simp add: struct_mac_address_def base_types layout_eval u8_def c__u8_def
      del: One_nat_def)

lemma struct_neigh_table_layout [layout_simps]:
  "sizeof struct_neigh_table = 632 \<and> alignof struct_neigh_table = 8 \<and> wf_cty struct_neigh_table"
  by (simp add: struct_neigh_table_def base_types layout_eval c__be16_def c__u16_def struct_neigh_parms_layout
      struct_list_head_layout struct_delayed_work_layout struct_timer_list_layout
      struct_sk_buff_head_layout atomic_t_layout spinlock_t_def struct_spinlock_layout
      struct_mutex_layout
      del: One_nat_def)

lemma struct_netlink_range_validation_layout [layout_simps]:
  "sizeof struct_netlink_range_validation = 16 \<and> alignof struct_netlink_range_validation = 8 \<and> wf_cty struct_netlink_range_validation"
  by (simp add: struct_netlink_range_validation_def base_types layout_eval u64_def c__u64_def
      del: One_nat_def)

lemma struct_netlink_range_validation_signed_layout [layout_simps]:
  "sizeof struct_netlink_range_validation_signed = 16 \<and> alignof struct_netlink_range_validation_signed = 8 \<and> wf_cty struct_netlink_range_validation_signed"
  by (simp add: struct_netlink_range_validation_signed_def base_types layout_eval s64_def c__s64_def
      del: One_nat_def)

lemma enum_xprtsec_policies_layout [layout_simps]:
  "sizeof enum_xprtsec_policies = 4 \<and> alignof enum_xprtsec_policies = 4 \<and> wf_cty enum_xprtsec_policies"
  by (simp add: enum_xprtsec_policies_def base_types layout_eval
      del: One_nat_def)

lemma struct_xprtsec_parms_layout [layout_simps]:
  "sizeof struct_xprtsec_parms = 12 \<and> alignof struct_xprtsec_parms = 4 \<and> wf_cty struct_xprtsec_parms"
  by (simp add: struct_xprtsec_parms_def base_types layout_eval enum_xprtsec_policies_layout key_serial_t_def int32_t_def
      s32_def c__s32_def
      del: One_nat_def)

lemma nfs4_verifier_layout [layout_simps]:
  "sizeof nfs4_verifier = 8 \<and> alignof nfs4_verifier = 1 \<and> wf_cty nfs4_verifier"
  by (simp add: nfs4_verifier_def base_types layout_eval
      del: One_nat_def)

lemma struct_nfs_client_layout [layout_simps]:
  "sizeof struct_nfs_client = 856 \<and> alignof struct_nfs_client = 8 \<and> wf_cty struct_nfs_client"
  by (simp add: struct_nfs_client_def base_types layout_eval refcount_t_def struct_refcount_struct_layout atomic_t_layout
      struct___kernel_sockaddr_storage_layout size_t_def c__kernel_size_t_def c__kernel_ulong_t_def
      struct_list_head_layout u32_def c__u32_def struct_xprtsec_parms_layout u64_def c__u64_def
      nfs4_verifier_layout spinlock_t_def struct_spinlock_layout struct_delayed_work_layout
      struct_rpc_wait_queue_layout bool_def wait_queue_head_t_def struct_wait_queue_head_layout
      netns_tracker_layout struct_callback_head_layout
      del: One_nat_def)

lemma struct_nh_grp_entry_stats_layout [layout_simps]:
  "sizeof struct_nh_grp_entry_stats = 8 \<and> alignof struct_nh_grp_entry_stats = 8 \<and> wf_cty struct_nh_grp_entry_stats"
  by (simp add: struct_nh_grp_entry_stats_def base_types layout_eval u64_stats_t_layout struct_u64_stats_sync_layout
      del: One_nat_def)

lemma struct_nh_res_bucket_layout [layout_simps]:
  "sizeof struct_nh_res_bucket = 32 \<and> alignof struct_nh_res_bucket = 8 \<and> wf_cty struct_nh_res_bucket"
  by (simp add: struct_nh_res_bucket_def base_types layout_eval atomic_long_t_def atomic64_t_layout bool_def u8_def
      c__u8_def
      del: One_nat_def)

lemma struct_nh_res_table_layout [layout_simps]:
  "sizeof struct_nh_res_table = 144 \<and> alignof struct_nh_res_table = 8 \<and> wf_cty struct_nh_res_table"
  by (simp add: struct_nh_res_table_def base_types layout_eval u32_def c__u32_def struct_delayed_work_layout
      struct_list_head_layout u16_def c__u16_def struct_nh_res_bucket_layout
      del: One_nat_def)

lemma struct_nl80211_vendor_cmd_info_layout [layout_simps]:
  "sizeof struct_nl80211_vendor_cmd_info = 8 \<and> alignof struct_nl80211_vendor_cmd_info = 4 \<and> wf_cty struct_nl80211_vendor_cmd_info"
  by (simp add: struct_nl80211_vendor_cmd_info_def base_types layout_eval c__u32_def
      del: One_nat_def)

lemma struct_phylink_mac_ops_layout [layout_simps]:
  "sizeof struct_phylink_mac_ops = 80 \<and> alignof struct_phylink_mac_ops = 8 \<and> wf_cty struct_phylink_mac_ops"
  by (simp add: struct_phylink_mac_ops_def base_types layout_eval
      del: One_nat_def)

lemma enum_ethtool_pse_types_layout [layout_simps]:
  "sizeof enum_ethtool_pse_types = 4 \<and> alignof enum_ethtool_pse_types = 4 \<and> wf_cty enum_ethtool_pse_types"
  by (simp add: enum_ethtool_pse_types_def base_types layout_eval
      del: One_nat_def)

lemma struct_pse_ntf_layout [layout_simps]:
  "sizeof struct_pse_ntf = 16 \<and> alignof struct_pse_ntf = 8 \<and> wf_cty struct_pse_ntf"
  by (simp add: struct_pse_ntf_def base_types layout_eval
      del: One_nat_def)

lemma struct_pse_controller_dev_layout [layout_simps]:
  "sizeof struct_pse_controller_dev = 192 \<and> alignof struct_pse_controller_dev = 8 \<and> wf_cty struct_pse_controller_dev"
  by (simp add: struct_pse_controller_dev_def base_types layout_eval struct_list_head_layout struct_mutex_layout
      enum_ethtool_pse_types_layout bool_def u32_def c__u32_def struct_work_struct_layout
      struct___kfifo_layout struct_pse_ntf_layout spinlock_t_def struct_spinlock_layout
      del: One_nat_def)

lemma struct_rdma_link_ops_layout [layout_simps]:
  "sizeof struct_rdma_link_ops = 32 \<and> alignof struct_rdma_link_ops = 8 \<and> wf_cty struct_rdma_link_ops"
  by (simp add: struct_rdma_link_ops_def base_types layout_eval struct_list_head_layout
      del: One_nat_def)

lemma struct_reg_default_layout [layout_simps]:
  "sizeof struct_reg_default = 8 \<and> alignof struct_reg_default = 4 \<and> wf_cty struct_reg_default"
  by (simp add: struct_reg_default_def base_types layout_eval
      del: One_nat_def)

lemma struct_reg_sequence_layout [layout_simps]:
  "sizeof struct_reg_sequence = 12 \<and> alignof struct_reg_sequence = 4 \<and> wf_cty struct_reg_sequence"
  by (simp add: struct_reg_sequence_def base_types layout_eval
      del: One_nat_def)

lemma struct_regcache_ops_layout [layout_simps]:
  "sizeof struct_regcache_ops = 80 \<and> alignof struct_regcache_ops = 8 \<and> wf_cty struct_regcache_ops"
  by (simp add: struct_regcache_ops_def base_types layout_eval enum_regcache_type_layout
      del: One_nat_def)

lemma struct_regmap_access_table_layout [layout_simps]:
  "sizeof struct_regmap_access_table = 32 \<and> alignof struct_regmap_access_table = 8 \<and> wf_cty struct_regmap_access_table"
  by (simp add: struct_regmap_access_table_def base_types layout_eval
      del: One_nat_def)

lemma enum_regmap_endian_layout [layout_simps]:
  "sizeof enum_regmap_endian = 4 \<and> alignof enum_regmap_endian = 4 \<and> wf_cty enum_regmap_endian"
  by (simp add: enum_regmap_endian_def base_types layout_eval
      del: One_nat_def)

lemma struct_regmap_bus_layout [layout_simps]:
  "sizeof struct_regmap_bus = 128 \<and> alignof struct_regmap_bus = 8 \<and> wf_cty struct_regmap_bus"
  by (simp add: struct_regmap_bus_def base_types layout_eval bool_def regmap_hw_write_def regmap_hw_gather_write_def
      regmap_hw_async_write_def regmap_hw_reg_write_def regmap_hw_reg_noinc_write_def
      regmap_hw_reg_update_bits_def regmap_hw_read_def regmap_hw_reg_read_def
      regmap_hw_reg_noinc_read_def regmap_hw_free_context_def regmap_hw_async_alloc_def u8_def c__u8_def
      enum_regmap_endian_layout size_t_def c__kernel_size_t_def c__kernel_ulong_t_def
      del: One_nat_def)

lemma struct_regulator_ops_layout [layout_simps]:
  "sizeof struct_regulator_ops = 288 \<and> alignof struct_regulator_ops = 8 \<and> wf_cty struct_regulator_ops"
  by (simp add: struct_regulator_ops_def base_types layout_eval
      del: One_nat_def)

lemma struct_reset_controller_dev_layout [layout_simps]:
  "sizeof struct_reset_controller_dev = 96 \<and> alignof struct_reset_controller_dev = 8 \<and> wf_cty struct_reset_controller_dev"
  by (simp add: struct_reset_controller_dev_def base_types layout_eval struct_list_head_layout
      del: One_nat_def)

lemma enum_rfkill_type_layout [layout_simps]:
  "sizeof enum_rfkill_type = 4 \<and> alignof enum_rfkill_type = 4 \<and> wf_cty enum_rfkill_type"
  by (simp add: enum_rfkill_type_def base_types layout_eval
      del: One_nat_def)

lemma struct_rfkill_layout [layout_simps]:
  "sizeof struct_rfkill = 1128 \<and> alignof struct_rfkill = 8 \<and> wf_cty struct_rfkill"
  by (simp add: struct_rfkill_def base_types layout_eval spinlock_t_def struct_spinlock_layout enum_rfkill_type_layout
      u32_def c__u32_def bool_def struct_led_trigger_layout struct_device_layout struct_list_head_layout
      struct_delayed_work_layout struct_work_struct_layout
      del: One_nat_def)

lemma struct_rpc_pipe_dir_head_layout [layout_simps]:
  "sizeof struct_rpc_pipe_dir_head = 24 \<and> alignof struct_rpc_pipe_dir_head = 8 \<and> wf_cty struct_rpc_pipe_dir_head"
  by (simp add: struct_rpc_pipe_dir_head_def base_types layout_eval struct_list_head_layout
      del: One_nat_def)

lemma struct_rpc_rtt_layout [layout_simps]:
  "sizeof struct_rpc_rtt = 112 \<and> alignof struct_rpc_rtt = 8 \<and> wf_cty struct_rpc_rtt"
  by (simp add: struct_rpc_rtt_def base_types layout_eval
      del: One_nat_def)

end
