(* ===== verification/KernelReach5b.thy ===== *)
theory KernelReach5b
  imports KernelReach5a
begin

text \<open>
  Types of \<^verbatim>\<open>bpf/vmlinux.h\<close> that are five and more dereferences away from the objects the program and its loading
  touch, with every type they hold by value (part 2 of 2).
\<close>

section \<open>Types\<close>

definition struct_rpc_timeout :: cty where
  "struct_rpc_timeout = CStruct ''rpc_timeout'' False
     [Field ''to_initval'' long_unsigned_int,
      Field ''to_maxval'' long_unsigned_int,
      Field ''to_increment'' long_unsigned_int,
      Field ''to_retries'' unsigned_int,
      Field ''to_exponential'' unsigned_char]"

definition struct_rpc_xprt_iter :: cty where
  "struct_rpc_xprt_iter = CStruct ''rpc_xprt_iter'' False
     [Field ''xpi_xpswitch'' (CPtr ''struct rpc_xprt_switch''),
      Field ''xpi_cursor'' (CPtr ''struct rpc_xprt''),
      Field ''xpi_ops'' (CPtr ''const struct rpc_xprt_iter_ops'')]"

definition struct_rpc_clnt :: cty where
  "struct_rpc_clnt = CStruct ''rpc_clnt'' False
     [Field ''cl_count'' refcount_t,
      Field ''cl_clid'' unsigned_int,
      Field ''cl_clients'' struct_list_head,
      Field ''cl_tasks'' struct_list_head,
      Field ''cl_pid'' atomic_t,
      Field ''cl_lock'' spinlock_t,
      Field ''cl_xprt'' (CPtr ''struct rpc_xprt''),
      Field ''cl_procinfo'' (CPtr ''const struct rpc_procinfo''),
      Field ''cl_prog'' u32,
      Field ''cl_vers'' u32,
      Field ''cl_maxproc'' u32,
      Field ''cl_auth'' (CPtr ''struct rpc_auth''),
      Field ''cl_stats'' (CPtr ''struct rpc_stat''),
      Field ''cl_metrics'' (CPtr ''struct rpc_iostats''),
      BitField ''cl_softrtry'' unsigned_int 1,
      BitField ''cl_softerr'' unsigned_int 1,
      BitField ''cl_discrtry'' unsigned_int 1,
      BitField ''cl_noretranstimeo'' unsigned_int 1,
      BitField ''cl_autobind'' unsigned_int 1,
      BitField ''cl_chatty'' unsigned_int 1,
      BitField ''cl_shutdown'' unsigned_int 1,
      BitField ''cl_netunreach_fatal'' unsigned_int 1,
      Field ''cl_xprtsec'' struct_xprtsec_parms,
      Field ''cl_rtt'' (CPtr ''struct rpc_rtt''),
      Field ''cl_timeout'' (CPtr ''const struct rpc_timeout''),
      Field ''cl_swapper'' atomic_t,
      Field ''cl_nodelen'' c_int,
      Field ''cl_nodename'' (CArr 65 c_char),
      Field ''cl_pipedir_objects'' struct_rpc_pipe_dir_head,
      Field ''cl_parent'' (CPtr ''struct rpc_clnt''),
      Field ''cl_rtt_default'' struct_rpc_rtt,
      Field ''cl_timeout_default'' struct_rpc_timeout,
      Field ''cl_program'' (CPtr ''const struct rpc_program''),
      Field ''cl_principal'' (CPtr ''const char''),
      Field ''cl_debugfs'' (CPtr ''struct dentry''),
      Field ''cl_sysfs'' (CPtr ''struct rpc_sysfs_client''),
      Field [] (CUnion [] False
        [Field ''cl_xpi'' struct_rpc_xprt_iter,
         Field ''cl_work'' struct_work_struct]),
      Field ''cl_cred'' (CPtr ''const struct cred''),
      Field ''cl_max_connect'' unsigned_int,
      Field ''pipefs_sb'' (CPtr ''struct super_block''),
      Field ''cl_task_count'' atomic_t]"

definition struct_wiphy_coalesce_support :: cty where
  "struct_wiphy_coalesce_support = CStruct ''wiphy_coalesce_support'' False
     [Field ''n_rules'' c_int,
      Field ''max_delay'' c_int,
      Field ''n_patterns'' c_int,
      Field ''pattern_max_len'' c_int,
      Field ''pattern_min_len'' c_int,
      Field ''max_pkt_offset'' c_int]"

definition struct_wiphy_iftype_akm_suites :: cty where
  "struct_wiphy_iftype_akm_suites = CStruct ''wiphy_iftype_akm_suites'' False
     [Field ''iftypes_mask'' u16,
      Field ''akm_suites'' (CPtr ''const u32''),
      Field ''n_akm_suites'' c_int]"

definition struct_wiphy_iftype_ext_capab :: cty where
  "struct_wiphy_iftype_ext_capab = CStruct ''wiphy_iftype_ext_capab'' False
     [Field ''iftype'' enum_nl80211_iftype,
      Field ''extended_capabilities'' (CPtr ''const u8''),
      Field ''extended_capabilities_mask'' (CPtr ''const u8''),
      Field ''extended_capabilities_len'' u8,
      Field ''eml_capabilities'' u16,
      Field ''mld_capa_and_ops'' u16]"

definition struct_wiphy_radio :: cty where
  "struct_wiphy_radio = CStruct ''wiphy_radio'' False
     [Field ''freq_range'' (CPtr ''const struct wiphy_radio_freq_range''),
      Field ''n_freq_range'' c_int,
      Field ''iface_combinations'' (CPtr ''const struct ieee80211_iface_combination''),
      Field ''n_iface_combinations'' c_int,
      Field ''antenna_mask'' u32]"

definition struct_wiphy_radio_cfg :: cty where
  "struct_wiphy_radio_cfg = CStruct ''wiphy_radio_cfg'' False
     [Field ''rts_threshold'' u32,
      Field ''radio_debugfsdir'' (CPtr ''struct dentry'')]"

definition struct_wiphy_vendor_command :: cty where
  "struct_wiphy_vendor_command = CStruct ''wiphy_vendor_command'' False
     [Field ''info'' struct_nl80211_vendor_cmd_info,
      Field ''flags'' u32,
      Field ''doit'' (CPtr ''int (struct wiphy *, struct wireless_dev *, const void *, int)''),
      Field ''dumpit'' (CPtr ''int (struct wiphy *, struct wireless_dev *, struct sk_buff *, const void *, int, long unsigned int *)''),
      Field ''policy'' (CPtr ''const struct nla_policy''),
      Field ''maxattr'' unsigned_int]"

definition struct_wiphy_wowlan_support :: cty where
  "struct_wiphy_wowlan_support = CStruct ''wiphy_wowlan_support'' False
     [Field ''flags'' u32,
      Field ''n_patterns'' c_int,
      Field ''pattern_max_len'' c_int,
      Field ''pattern_min_len'' c_int,
      Field ''max_pkt_offset'' c_int,
      Field ''max_nd_match_sets'' c_int,
      Field ''tcp'' (CPtr ''const struct wiphy_wowlan_tcp_support'')]"

definition struct_xdp_buff :: cty where
  "struct_xdp_buff = CStruct ''xdp_buff'' False
     [Field ''data'' (CPtr ''void''),
      Field ''data_end'' (CPtr ''void''),
      Field ''data_meta'' (CPtr ''void''),
      Field ''data_hard_start'' (CPtr ''void''),
      Field ''rxq'' (CPtr ''struct xdp_rxq_info''),
      Field ''txq'' (CPtr ''struct xdp_txq_info''),
      Field [] (CUnion [] False
        [Field [] (CStruct [] False
           [Field ''frame_sz'' u32,
            Field ''flags'' u32]),
         Field ''frame_sz_flags_init'' u64])]"

definition struct_xdp_buff_xsk :: cty where
  "struct_xdp_buff_xsk = CStruct ''xdp_buff_xsk'' False
     [Field ''xdp'' struct_xdp_buff,
      Field ''cb'' (CArr 24 u8),
      Field ''dma'' dma_addr_t,
      Field ''frame_dma'' dma_addr_t,
      Field ''pool'' (CPtr ''struct xsk_buff_pool''),
      Field ''list_node'' struct_list_head,
      BitField [] c_long 64]"

definition struct_xdp_desc :: cty where
  "struct_xdp_desc = CStruct ''xdp_desc'' False
     [Field ''addr'' c__u64,
      Field ''len'' c__u32,
      Field ''options'' c__u32]"

definition struct_xdp_umem :: cty where
  "struct_xdp_umem = CStruct ''xdp_umem'' False
     [Field ''addrs'' (CPtr ''void''),
      Field ''size'' u64,
      Field ''headroom'' u32,
      Field ''chunk_size'' u32,
      Field ''chunks'' u32,
      Field ''npgs'' u32,
      Field ''user'' (CPtr ''struct user_struct''),
      Field ''users'' refcount_t,
      Field ''flags'' u8,
      Field ''tx_metadata_len'' u8,
      Field ''zc'' bool,
      Field ''pgs'' (CPtr ''struct page *''),
      Field ''id'' c_int,
      Field ''xsk_dma_list'' struct_list_head,
      Field ''work'' struct_work_struct]"

definition struct_xsk_queue :: cty where
  "struct_xsk_queue = CStruct ''xsk_queue'' False
     [Field ''ring_mask'' u32,
      Field ''nentries'' u32,
      Field ''cached_prod'' u32,
      Field ''cached_cons'' u32,
      Field ''ring'' (CPtr ''struct xdp_ring''),
      Field ''invalid_descs'' u64,
      Field ''queue_empty_descs'' u64,
      Field ''ring_vmalloc_size'' size_t,
      Field ''cq_cached_prod_lock'' spinlock_t]"

definition struct_cfg80211_pkt_pattern :: cty where
  "struct_cfg80211_pkt_pattern = CStruct ''cfg80211_pkt_pattern'' False
     [Field ''mask'' (CPtr ''const u8''),
      Field ''pattern'' (CPtr ''const u8''),
      Field ''pattern_len'' c_int,
      Field ''pkt_offset'' c_int]"

definition struct_cfg80211_sar_freq_ranges :: cty where
  "struct_cfg80211_sar_freq_ranges = CStruct ''cfg80211_sar_freq_ranges'' False
     [Field ''start_freq'' u32,
      Field ''end_freq'' u32]"

definition struct_cfg80211_sched_scan_request :: cty where
  "struct_cfg80211_sched_scan_request = CStruct ''cfg80211_sched_scan_request'' False
     [Field ''reqid'' u64,
      Field ''ssids'' (CPtr ''struct cfg80211_ssid''),
      Field ''n_ssids'' c_int,
      Field ''n_channels'' u32,
      Field ''ie'' (CPtr ''const u8''),
      Field ''ie_len'' size_t,
      Field ''flags'' u32,
      Field ''match_sets'' (CPtr ''struct cfg80211_match_set''),
      Field ''n_match_sets'' c_int,
      Field ''min_rssi_thold'' s32,
      Field ''delay'' u32,
      Field ''scan_plans'' (CPtr ''struct cfg80211_sched_scan_plan''),
      Field ''n_scan_plans'' c_int,
      Field ''mac_addr'' (CArr 6 u8),
      Field ''mac_addr_mask'' (CArr 6 u8),
      Field ''relative_rssi_set'' bool,
      Field ''relative_rssi'' s8,
      Field ''rssi_adjust'' struct_cfg80211_bss_select_adjust,
      Field ''wiphy'' (CPtr ''struct wiphy''),
      Field ''dev'' (CPtr ''struct net_device''),
      Field ''scan_start'' long_unsigned_int,
      Field ''report_results'' bool,
      Field ''callback_head'' struct_callback_head,
      Field ''owner_nlportid'' u32,
      Field ''nl_owner_dead'' bool,
      Field ''list'' struct_list_head,
      Field ''channels'' (CArr 0 (CPtr ''struct ieee80211_channel''))]"

definition struct_nl80211_wowlan_tcp_data_seq :: cty where
  "struct_nl80211_wowlan_tcp_data_seq = CStruct ''nl80211_wowlan_tcp_data_seq'' False
     [Field ''start'' c__u32,
      Field ''offset'' c__u32,
      Field ''len'' c__u32]"

definition struct_nl80211_wowlan_tcp_data_token :: cty where
  "struct_nl80211_wowlan_tcp_data_token = CStruct ''nl80211_wowlan_tcp_data_token'' False
     [Field ''offset'' c__u32,
      Field ''len'' c__u32,
      Field ''token_stream'' (CArr 0 c__u8)]"

definition struct_cfg80211_wowlan_tcp :: cty where
  "struct_cfg80211_wowlan_tcp = CStruct ''cfg80211_wowlan_tcp'' False
     [Field ''sock'' (CPtr ''struct socket''),
      Field ''src'' c__be32,
      Field ''dst'' c__be32,
      Field ''src_port'' u16,
      Field ''dst_port'' u16,
      Field ''dst_mac'' (CArr 6 u8),
      Field ''payload_len'' c_int,
      Field ''payload'' (CPtr ''const u8''),
      Field ''payload_seq'' struct_nl80211_wowlan_tcp_data_seq,
      Field ''data_interval'' u32,
      Field ''wake_len'' u32,
      Field ''wake_data'' (CPtr ''const u8''),
      Field ''wake_mask'' (CPtr ''const u8''),
      Field ''tokens_size'' u32,
      Field ''payload_tok'' struct_nl80211_wowlan_tcp_data_token]"

definition struct_devlink_dpipe_header :: cty where
  "struct_devlink_dpipe_header = CStruct ''devlink_dpipe_header'' False
     [Field ''name'' (CPtr ''const char''),
      Field ''id'' unsigned_int,
      Field ''fields'' (CPtr ''struct devlink_dpipe_field''),
      Field ''fields_count'' unsigned_int,
      Field ''global'' bool]"

definition struct_fsnotify_event :: cty where
  "struct_fsnotify_event = CStruct ''fsnotify_event'' False
     [Field ''list'' struct_list_head]"

definition struct_fsnotify_ops :: cty where
  "struct_fsnotify_ops = CStruct ''fsnotify_ops'' False
     [Field ''handle_event'' (CPtr ''int (struct fsnotify_group *, u32, const void *, int, struct inode *, const struct qstr *, u32, struct fsnotify_iter_info *)''),
      Field ''handle_inode_event'' (CPtr ''int (struct fsnotify_mark *, u32, struct inode *, struct inode *, const struct qstr *, u32)''),
      Field ''free_group_priv'' (CPtr ''void (struct fsnotify_group *)''),
      Field ''freeing_mark'' (CPtr ''void (struct fsnotify_mark *, struct fsnotify_group *)''),
      Field ''free_event'' (CPtr ''void (struct fsnotify_group *, struct fsnotify_event *)''),
      Field ''free_mark'' (CPtr ''void (struct fsnotify_mark *)'')]"

definition struct_hwspinlock_device :: cty where
  "struct_hwspinlock_device = CStruct ''hwspinlock_device'' False
     [Field ''dev'' (CPtr ''struct device''),
      Field ''ops'' (CPtr ''const struct hwspinlock_ops''),
      Field ''base_id'' c_int,
      Field ''num_locks'' c_int,
      Field ''lock'' (CArr 0 struct_hwspinlock)]"

definition struct_ieee80211_iface_limit :: cty where
  "struct_ieee80211_iface_limit = CStruct ''ieee80211_iface_limit'' False
     [Field ''max'' u16,
      Field ''types'' u16]"

definition struct_ieee80211_rate :: cty where
  "struct_ieee80211_rate = CStruct ''ieee80211_rate'' False
     [Field ''flags'' u32,
      Field ''bitrate'' u16,
      Field ''hw_value'' u16,
      Field ''hw_value_short'' u16]"

definition struct_ieee80211_he_cap_elem :: cty where
  "struct_ieee80211_he_cap_elem = CStruct ''ieee80211_he_cap_elem'' False
     [Field ''mac_cap_info'' (CArr 6 u8),
      Field ''phy_cap_info'' (CArr 11 u8)]"

definition struct_ieee80211_he_mcs_nss_supp :: cty where
  "struct_ieee80211_he_mcs_nss_supp = CStruct ''ieee80211_he_mcs_nss_supp'' False
     [Field ''rx_mcs_80'' c__le16,
      Field ''tx_mcs_80'' c__le16,
      Field ''rx_mcs_160'' c__le16,
      Field ''tx_mcs_160'' c__le16,
      Field ''rx_mcs_80p80'' c__le16,
      Field ''tx_mcs_80p80'' c__le16]"

definition struct_ieee80211_sta_he_cap :: cty where
  "struct_ieee80211_sta_he_cap = CStruct ''ieee80211_sta_he_cap'' True
     [Field ''has_he'' bool,
      Field ''he_cap_elem'' struct_ieee80211_he_cap_elem,
      Field ''he_mcs_nss_supp'' struct_ieee80211_he_mcs_nss_supp,
      Field ''ppe_thres'' (CArr 25 u8)]"

definition struct_ieee80211_he_6ghz_capa :: cty where
  "struct_ieee80211_he_6ghz_capa = CStruct ''ieee80211_he_6ghz_capa'' False
     [Field ''capa'' c__le16]"

definition struct_ieee80211_eht_cap_elem_fixed :: cty where
  "struct_ieee80211_eht_cap_elem_fixed = CStruct ''ieee80211_eht_cap_elem_fixed'' False
     [Field ''mac_cap_info'' (CArr 2 u8),
      Field ''phy_cap_info'' (CArr 9 u8)]"

definition struct_ieee80211_eht_mcs_nss_supp_20mhz_only :: cty where
  "struct_ieee80211_eht_mcs_nss_supp_20mhz_only = CStruct ''ieee80211_eht_mcs_nss_supp_20mhz_only'' False
     [Field [] (CUnion [] False
        [Field [] (CStruct [] False
           [Field ''rx_tx_mcs7_max_nss'' u8,
            Field ''rx_tx_mcs9_max_nss'' u8,
            Field ''rx_tx_mcs11_max_nss'' u8,
            Field ''rx_tx_mcs13_max_nss'' u8]),
         Field ''rx_tx_max_nss'' (CArr 4 u8)])]"

definition struct_ieee80211_eht_mcs_nss_supp_bw :: cty where
  "struct_ieee80211_eht_mcs_nss_supp_bw = CStruct ''ieee80211_eht_mcs_nss_supp_bw'' False
     [Field [] (CUnion [] False
        [Field [] (CStruct [] False
           [Field ''rx_tx_mcs9_max_nss'' u8,
            Field ''rx_tx_mcs11_max_nss'' u8,
            Field ''rx_tx_mcs13_max_nss'' u8]),
         Field ''rx_tx_max_nss'' (CArr 3 u8)])]"

definition struct_ieee80211_eht_mcs_nss_supp :: cty where
  "struct_ieee80211_eht_mcs_nss_supp = CStruct ''ieee80211_eht_mcs_nss_supp'' False
     [Field [] (CUnion [] False
        [Field ''only_20mhz'' struct_ieee80211_eht_mcs_nss_supp_20mhz_only,
         Field ''bw'' (CStruct [] False
           [Field ''_80'' struct_ieee80211_eht_mcs_nss_supp_bw,
            Field ''_160'' struct_ieee80211_eht_mcs_nss_supp_bw,
            Field ''_320'' struct_ieee80211_eht_mcs_nss_supp_bw])])]"

definition struct_ieee80211_sta_eht_cap :: cty where
  "struct_ieee80211_sta_eht_cap = CStruct ''ieee80211_sta_eht_cap'' False
     [Field ''has_eht'' bool,
      Field ''eht_cap_elem'' struct_ieee80211_eht_cap_elem_fixed,
      Field ''eht_mcs_nss_supp'' struct_ieee80211_eht_mcs_nss_supp,
      Field ''eht_ppe_thres'' (CArr 32 u8)]"

definition struct_ieee80211_uhr_cap_mac :: cty where
  "struct_ieee80211_uhr_cap_mac = CStruct ''ieee80211_uhr_cap_mac'' False
     [Field ''mac_cap'' (CArr 5 u8)]"

definition struct_ieee80211_uhr_cap_phy :: cty where
  "struct_ieee80211_uhr_cap_phy = CStruct ''ieee80211_uhr_cap_phy'' False
     [Field ''cap'' u8]"

definition struct_ieee80211_sta_uhr_cap :: cty where
  "struct_ieee80211_sta_uhr_cap = CStruct ''ieee80211_sta_uhr_cap'' False
     [Field ''has_uhr'' bool,
      Field ''mac'' struct_ieee80211_uhr_cap_mac,
      Field ''phy'' struct_ieee80211_uhr_cap_phy]"

definition struct_ieee80211_sband_iftype_data :: cty where
  "struct_ieee80211_sband_iftype_data = CStruct ''ieee80211_sband_iftype_data'' True
     [Field ''types_mask'' u16,
      Field ''he_cap'' struct_ieee80211_sta_he_cap,
      Field ''he_6ghz_capa'' struct_ieee80211_he_6ghz_capa,
      Field ''eht_cap'' struct_ieee80211_sta_eht_cap,
      Field ''uhr_cap'' struct_ieee80211_sta_uhr_cap,
      BitField [] c_long 0,
      Field ''vendor_elems'' (CStruct [] False
        [Field ''data'' (CPtr ''const u8''),
         Field ''len'' unsigned_int])]"

definition struct_neigh_hash_table :: cty where
  "struct_neigh_hash_table = CStruct ''neigh_hash_table'' False
     [Field ''hash_heads'' (CPtr ''struct hlist_head''),
      Field ''hash_shift'' unsigned_int,
      Field ''hash_rnd'' (CArr 4 c__u32),
      Field ''rcu'' struct_callback_head]"

definition struct_neigh_statistics :: cty where
  "struct_neigh_statistics = CStruct ''neigh_statistics'' False
     [Field ''allocs'' long_unsigned_int,
      Field ''destroys'' long_unsigned_int,
      Field ''hash_grows'' long_unsigned_int,
      Field ''res_failed'' long_unsigned_int,
      Field ''lookups'' long_unsigned_int,
      Field ''hits'' long_unsigned_int,
      Field ''rcv_probes_mcast'' long_unsigned_int,
      Field ''rcv_probes_ucast'' long_unsigned_int,
      Field ''periodic_gc_runs'' long_unsigned_int,
      Field ''forced_gc_runs'' long_unsigned_int,
      Field ''unres_discards'' long_unsigned_int,
      Field ''table_fulls'' long_unsigned_int]"

definition int64_t :: cty where [layout_simps]:
  "int64_t = s64"

definition struct_nfstime4 :: cty where
  "struct_nfstime4 = CStruct ''nfstime4'' False
     [Field ''seconds'' int64_t,
      Field ''nseconds'' uint32_t]"

definition struct_nfs41_impl_id :: cty where
  "struct_nfs41_impl_id = CStruct ''nfs41_impl_id'' False
     [Field ''domain'' (CArr 1025 c_char),
      Field ''name'' (CArr 1025 c_char),
      Field ''date'' struct_nfstime4]"

definition struct_nfs41_server_owner :: cty where
  "struct_nfs41_server_owner = CStruct ''nfs41_server_owner'' False
     [Field ''minor_id'' uint64_t,
      Field ''major_id_sz'' uint32_t,
      Field ''major_id'' (CArr 1024 c_char)]"

definition struct_nfs41_server_scope :: cty where
  "struct_nfs41_server_scope = CStruct ''nfs41_server_scope'' False
     [Field ''server_scope_sz'' uint32_t,
      Field ''server_scope'' (CArr 1024 c_char)]"

definition struct_nfs4_minor_version_ops :: cty where
  "struct_nfs4_minor_version_ops = CStruct ''nfs4_minor_version_ops'' False
     [Field ''minor_version'' u32,
      Field ''init_caps'' unsigned_int,
      Field ''init_client'' (CPtr ''int (struct nfs_client *)''),
      Field ''shutdown_client'' (CPtr ''void (struct nfs_client *)''),
      Field ''match_stateid'' (CPtr ''bool (const nfs4_stateid *, const nfs4_stateid *)''),
      Field ''find_root_sec'' (CPtr ''int (struct nfs_server *, struct nfs_fh *, struct nfs_fattr *)''),
      Field ''free_lock_state'' (CPtr ''void (struct nfs_server *, struct nfs4_lock_state *)''),
      Field ''test_and_free_expired'' (CPtr ''int (struct nfs_server *, nfs4_stateid *, const struct cred *)''),
      Field ''alloc_seqid'' (CPtr ''struct nfs_seqid * (struct nfs_seqid_counter *, gfp_t)''),
      Field ''session_trunk'' (CPtr ''void (struct rpc_clnt *, struct rpc_xprt *, void *)''),
      Field ''call_sync_ops'' (CPtr ''const struct rpc_call_ops''),
      Field ''sequence_slot_ops'' (CPtr ''const struct nfs4_sequence_slot_ops''),
      Field ''reboot_recovery_ops'' (CPtr ''const struct nfs4_state_recovery_ops''),
      Field ''nograce_recovery_ops'' (CPtr ''const struct nfs4_state_recovery_ops''),
      Field ''state_renewal_ops'' (CPtr ''const struct nfs4_state_maintenance_ops''),
      Field ''mig_recovery_ops'' (CPtr ''const struct nfs4_mig_recovery_ops'')]"

definition struct_nfs_rpc_ops :: cty where
  "struct_nfs_rpc_ops = CStruct ''nfs_rpc_ops'' False
     [Field ''version'' u32,
      Field ''dentry_ops'' (CPtr ''const struct dentry_operations''),
      Field ''dir_inode_ops'' (CPtr ''const struct inode_operations''),
      Field ''file_inode_ops'' (CPtr ''const struct inode_operations''),
      Field ''file_ops'' (CPtr ''const struct file_operations''),
      Field ''nlmclnt_ops'' (CPtr ''const struct nlmclnt_operations''),
      Field ''getroot'' (CPtr ''int (struct nfs_server *, struct nfs_fh *, struct nfs_fsinfo *)''),
      Field ''submount'' (CPtr ''int (struct fs_context *, struct nfs_server *)''),
      Field ''try_get_tree'' (CPtr ''int (struct fs_context *)''),
      Field ''getattr'' (CPtr ''int (struct nfs_server *, struct nfs_fh *, struct nfs_fattr *, struct inode *)''),
      Field ''setattr'' (CPtr ''int (struct dentry *, struct nfs_fattr *, struct iattr *)''),
      Field ''lookup'' (CPtr ''int (struct inode *, struct dentry *, const struct qstr *, struct nfs_fh *, struct nfs_fattr *)''),
      Field ''lookupp'' (CPtr ''int (struct inode *, struct nfs_fh *, struct nfs_fattr *)''),
      Field ''access'' (CPtr ''int (struct inode *, struct nfs_access_entry *, const struct cred *)''),
      Field ''readlink'' (CPtr ''int (struct inode *, struct page *, unsigned int, unsigned int)''),
      Field ''create'' (CPtr ''int (struct inode *, struct dentry *, struct iattr *, int)''),
      Field ''remove'' (CPtr ''int (struct inode *, struct dentry *)''),
      Field ''unlink_setup'' (CPtr ''void (struct rpc_message *, struct dentry *, struct inode *)''),
      Field ''unlink_rpc_prepare'' (CPtr ''void (struct rpc_task *, struct nfs_unlinkdata *)''),
      Field ''unlink_done'' (CPtr ''int (struct rpc_task *, struct inode *)''),
      Field ''rename_setup'' (CPtr ''void (struct rpc_message *, struct dentry *, struct dentry *, struct inode *)''),
      Field ''rename_rpc_prepare'' (CPtr ''void (struct rpc_task *, struct nfs_renamedata *)''),
      Field ''rename_done'' (CPtr ''int (struct rpc_task *, struct inode *, struct inode *)''),
      Field ''link'' (CPtr ''int (struct inode *, struct inode *, const struct qstr *)''),
      Field ''symlink'' (CPtr ''int (struct inode *, struct dentry *, struct folio *, unsigned int, struct iattr *)''),
      Field ''mkdir'' (CPtr ''struct dentry * (struct inode *, struct dentry *, struct iattr *)''),
      Field ''rmdir'' (CPtr ''int (struct inode *, const struct qstr *)''),
      Field ''readdir'' (CPtr ''int (struct nfs_readdir_arg *, struct nfs_readdir_res *)''),
      Field ''mknod'' (CPtr ''int (struct inode *, struct dentry *, struct iattr *, dev_t)''),
      Field ''statfs'' (CPtr ''int (struct nfs_server *, struct nfs_fh *, struct nfs_fsstat *)''),
      Field ''fsinfo'' (CPtr ''int (struct nfs_server *, struct nfs_fh *, struct nfs_fsinfo *)''),
      Field ''pathconf'' (CPtr ''int (struct nfs_server *, struct nfs_fh *, struct nfs_pathconf *)''),
      Field ''set_capabilities'' (CPtr ''int (struct nfs_server *, struct nfs_fh *)''),
      Field ''decode_dirent'' (CPtr ''int (struct xdr_stream *, struct nfs_entry *, bool)''),
      Field ''pgio_rpc_prepare'' (CPtr ''int (struct rpc_task *, struct nfs_pgio_header *)''),
      Field ''read_setup'' (CPtr ''void (struct nfs_pgio_header *, struct rpc_message *)''),
      Field ''read_done'' (CPtr ''int (struct rpc_task *, struct nfs_pgio_header *)''),
      Field ''write_setup'' (CPtr ''void (struct nfs_pgio_header *, struct rpc_message *, struct rpc_clnt **)''),
      Field ''write_done'' (CPtr ''int (struct rpc_task *, struct nfs_pgio_header *)''),
      Field ''commit_setup'' (CPtr ''void (struct nfs_commit_data *, struct rpc_message *, struct rpc_clnt **)''),
      Field ''commit_rpc_prepare'' (CPtr ''void (struct rpc_task *, struct nfs_commit_data *)''),
      Field ''commit_done'' (CPtr ''int (struct rpc_task *, struct nfs_commit_data *)''),
      Field ''lock'' (CPtr ''int (struct file *, int, struct file_lock *)''),
      Field ''lock_check_bounds'' (CPtr ''int (const struct file_lock *)''),
      Field ''clear_acl_cache'' (CPtr ''void (struct inode *)''),
      Field ''close_context'' (CPtr ''void (struct nfs_open_context *, int)''),
      Field ''open_context'' (CPtr ''struct inode * (struct inode *, struct nfs_open_context *, int, struct iattr *, int *)''),
      Field ''have_delegation'' (CPtr ''int (struct inode *, fmode_t, int)''),
      Field ''return_delegation'' (CPtr ''void (struct inode *)''),
      Field ''alloc_client'' (CPtr ''struct nfs_client * (const struct nfs_client_initdata *)''),
      Field ''init_client'' (CPtr ''struct nfs_client * (struct nfs_client *, const struct nfs_client_initdata *)''),
      Field ''free_client'' (CPtr ''void (struct nfs_client *)''),
      Field ''create_server'' (CPtr ''struct nfs_server * (struct fs_context *)''),
      Field ''clone_server'' (CPtr ''struct nfs_server * (struct nfs_server *, struct nfs_fh *, struct nfs_fattr *, rpc_authflavor_t)''),
      Field ''discover_trunking'' (CPtr ''int (struct nfs_server *, struct nfs_fh *)''),
      Field ''enable_swap'' (CPtr ''void (struct inode *)''),
      Field ''disable_swap'' (CPtr ''void (struct inode *)'')]"

definition struct_of_phandle_args :: cty where
  "struct_of_phandle_args = CStruct ''of_phandle_args'' False
     [Field ''np'' (CPtr ''struct device_node''),
      Field ''args_count'' c_int,
      Field ''args'' (CArr 16 uint32_t)]"

definition struct_pneigh_entry :: cty where
  "struct_pneigh_entry = CStruct ''pneigh_entry'' False
     [Field ''next'' (CPtr ''struct pneigh_entry''),
      Field ''net'' possible_net_t,
      Field ''dev'' (CPtr ''struct net_device''),
      Field ''dev_tracker'' netdevice_tracker,
      Field [] (CUnion [] False
        [Field ''free_node'' struct_list_head,
         Field ''rcu'' struct_callback_head]),
      Field ''flags'' u32,
      Field ''protocol'' u8,
      Field ''permanent'' bool,
      Field ''key'' (CArr 0 u32)]"

definition struct_pse_controller_ops :: cty where
  "struct_pse_controller_ops = CStruct ''pse_controller_ops'' False
     [Field ''setup_pi_matrix'' (CPtr ''int (struct pse_controller_dev *)''),
      Field ''pi_get_admin_state'' (CPtr ''int (struct pse_controller_dev *, int, struct pse_admin_state *)''),
      Field ''pi_get_pw_status'' (CPtr ''int (struct pse_controller_dev *, int, struct pse_pw_status *)''),
      Field ''pi_get_ext_state'' (CPtr ''int (struct pse_controller_dev *, int, struct pse_ext_state_info *)''),
      Field ''pi_get_pw_class'' (CPtr ''int (struct pse_controller_dev *, int)''),
      Field ''pi_get_actual_pw'' (CPtr ''int (struct pse_controller_dev *, int)''),
      Field ''pi_enable'' (CPtr ''int (struct pse_controller_dev *, int)''),
      Field ''pi_disable'' (CPtr ''int (struct pse_controller_dev *, int)''),
      Field ''pi_get_voltage'' (CPtr ''int (struct pse_controller_dev *, int)''),
      Field ''pi_get_pw_limit'' (CPtr ''int (struct pse_controller_dev *, int)''),
      Field ''pi_set_pw_limit'' (CPtr ''int (struct pse_controller_dev *, int, int)''),
      Field ''pi_get_pw_limit_ranges'' (CPtr ''int (struct pse_controller_dev *, int, struct pse_pw_limit_ranges *)''),
      Field ''pi_get_prio'' (CPtr ''int (struct pse_controller_dev *, int)''),
      Field ''pi_set_prio'' (CPtr ''int (struct pse_controller_dev *, int, unsigned int)''),
      Field ''pi_get_pw_req'' (CPtr ''int (struct pse_controller_dev *, int)'')]"

definition enum_pse_pi_pairset_pinout :: cty where
  "enum_pse_pi_pairset_pinout = CEnum 4
     [(''ALTERNATIVE_A'', 0), (''ALTERNATIVE_B'', 1)]"

definition struct_pse_pi_pairset :: cty where
  "struct_pse_pi_pairset = CStruct ''pse_pi_pairset'' False
     [Field ''pinout'' enum_pse_pi_pairset_pinout,
      Field ''np'' (CPtr ''struct device_node'')]"

definition struct_pse_pi :: cty where
  "struct_pse_pi = CStruct ''pse_pi'' False
     [Field ''pairset'' (CArr 2 struct_pse_pi_pairset),
      Field ''np'' (CPtr ''struct device_node''),
      Field ''rdev'' (CPtr ''struct regulator_dev''),
      Field ''admin_state_enabled'' bool,
      Field ''pw_d'' (CPtr ''struct pse_power_domain''),
      Field ''prio'' c_int,
      Field ''isr_pd_detected'' bool,
      Field ''pw_allocated_mW'' c_int]"

definition struct_rdma_hw_stats :: cty where
  "struct_rdma_hw_stats = CStruct ''rdma_hw_stats'' False
     [Field ''lock'' struct_mutex,
      Field ''timestamp'' long_unsigned_int,
      Field ''lifespan'' long_unsigned_int,
      Field ''descs'' (CPtr ''const struct rdma_stat_desc''),
      Field ''is_disabled'' (CPtr ''long unsigned int''),
      Field ''num_counters'' c_int,
      Field ''value'' (CArr 0 u64)]"

definition struct_regmap_range :: cty where
  "struct_regmap_range = CStruct ''regmap_range'' False
     [Field ''range_min'' unsigned_int,
      Field ''range_max'' unsigned_int]"

definition struct_reset_control_ops :: cty where
  "struct_reset_control_ops = CStruct ''reset_control_ops'' False
     [Field ''reset'' (CPtr ''int (struct reset_controller_dev *, long unsigned int)''),
      Field ''assert'' (CPtr ''int (struct reset_controller_dev *, long unsigned int)''),
      Field ''deassert'' (CPtr ''int (struct reset_controller_dev *, long unsigned int)''),
      Field ''status'' (CPtr ''int (struct reset_controller_dev *, long unsigned int)'')]"

definition struct_rfkill_ops :: cty where
  "struct_rfkill_ops = CStruct ''rfkill_ops'' False
     [Field ''poll'' (CPtr ''void (struct rfkill *, void *)''),
      Field ''query'' (CPtr ''void (struct rfkill *, void *)''),
      Field ''set_block'' (CPtr ''int (void *, bool)'')]"

definition struct_rpc_auth :: cty where
  "struct_rpc_auth = CStruct ''rpc_auth'' False
     [Field ''au_cslack'' unsigned_int,
      Field ''au_rslack'' unsigned_int,
      Field ''au_verfsize'' unsigned_int,
      Field ''au_ralign'' unsigned_int,
      Field ''au_flags'' long_unsigned_int,
      Field ''au_ops'' (CPtr ''const struct rpc_authops''),
      Field ''au_flavor'' rpc_authflavor_t,
      Field ''au_count'' refcount_t,
      Field ''au_credcache'' (CPtr ''struct rpc_cred_cache'')]"

definition kxdreproc_t :: cty where [layout_simps]:
  "kxdreproc_t = CPtr ''void (struct rpc_rqst *, struct xdr_stream *, const void *)''"

definition kxdrdproc_t :: cty where [layout_simps]:
  "kxdrdproc_t = CPtr ''int (struct rpc_rqst *, struct xdr_stream *, void *)''"

definition struct_rpc_procinfo :: cty where
  "struct_rpc_procinfo = CStruct ''rpc_procinfo'' False
     [Field ''p_proc'' u32,
      Field ''p_encode'' kxdreproc_t,
      Field ''p_decode'' kxdrdproc_t,
      Field ''p_arglen'' unsigned_int,
      Field ''p_replen'' unsigned_int,
      Field ''p_timer'' unsigned_int,
      Field ''p_statidx'' u32,
      Field ''p_name'' (CPtr ''const char'')]"

definition struct_rpc_program :: cty where
  "struct_rpc_program = CStruct ''rpc_program'' False
     [Field ''name'' (CPtr ''const char''),
      Field ''number'' u32,
      Field ''nrvers'' unsigned_int,
      Field ''version'' (CPtr ''const struct rpc_version *''),
      Field ''stats'' (CPtr ''struct rpc_stat''),
      Field ''pipe_dir_name'' (CPtr ''const char'')]"

definition struct_rpc_stat :: cty where
  "struct_rpc_stat = CStruct ''rpc_stat'' False
     [Field ''program'' (CPtr ''const struct rpc_program''),
      Field ''netcnt'' unsigned_int,
      Field ''netudpcnt'' unsigned_int,
      Field ''nettcpcnt'' unsigned_int,
      Field ''nettcpconn'' unsigned_int,
      Field ''netreconn'' unsigned_int,
      Field ''rpccnt'' unsigned_int,
      Field ''rpcretrans'' unsigned_int,
      Field ''rpcauthrefresh'' unsigned_int,
      Field ''rpcgarbage'' unsigned_int]"

definition struct_rpc_sysfs_client :: cty where
  "struct_rpc_sysfs_client = CStruct ''rpc_sysfs_client'' False
     [Field ''kobject'' struct_kobject,
      Field ''net'' (CPtr ''struct net''),
      Field ''clnt'' (CPtr ''struct rpc_clnt''),
      Field ''xprt_switch'' (CPtr ''struct rpc_xprt_switch'')]"

definition struct_rpc_xprt :: cty where
  "struct_rpc_xprt = CStruct ''rpc_xprt'' False
     [Field ''kref'' struct_kref,
      Field ''ops'' (CPtr ''const struct rpc_xprt_ops''),
      Field ''id'' unsigned_int,
      Field ''timeout'' (CPtr ''const struct rpc_timeout''),
      Field ''addr'' struct___kernel_sockaddr_storage,
      Field ''addrlen'' size_t,
      Field ''prot'' c_int,
      Field ''cong'' long_unsigned_int,
      Field ''cwnd'' long_unsigned_int,
      Field ''max_payload'' size_t,
      Field ''binding'' struct_rpc_wait_queue,
      Field ''sending'' struct_rpc_wait_queue,
      Field ''pending'' struct_rpc_wait_queue,
      Field ''backlog'' struct_rpc_wait_queue,
      Field ''free'' struct_list_head,
      Field ''max_reqs'' unsigned_int,
      Field ''min_reqs'' unsigned_int,
      Field ''num_reqs'' unsigned_int,
      Field ''state'' long_unsigned_int,
      BitField ''resvport'' unsigned_char 1,
      BitField ''reuseport'' unsigned_char 1,
      Field ''swapper'' atomic_t,
      Field ''bind_index'' unsigned_int,
      Field ''xprt_switch'' struct_list_head,
      Field ''bind_timeout'' long_unsigned_int,
      Field ''reestablish_timeout'' long_unsigned_int,
      Field ''xprtsec'' struct_xprtsec_parms,
      Field ''connect_cookie'' unsigned_int,
      Field ''task_cleanup'' struct_work_struct,
      Field ''timer'' struct_timer_list,
      Field ''last_used'' long_unsigned_int,
      Field ''idle_timeout'' long_unsigned_int,
      Field ''connect_timeout'' long_unsigned_int,
      Field ''max_reconnect_timeout'' long_unsigned_int,
      Field ''queuelen'' atomic_long_t,
      Field ''transport_lock'' spinlock_t,
      Field ''reserve_lock'' spinlock_t,
      Field ''queue_lock'' spinlock_t,
      Field ''xid'' u32,
      Field ''snd_task'' (CPtr ''struct rpc_task''),
      Field ''xmit_queue'' struct_list_head,
      Field ''xmit_queuelen'' atomic_long_t,
      Field ''bc_xprt'' (CPtr ''struct svc_xprt''),
      Field ''bc_serv'' (CPtr ''struct svc_serv''),
      Field ''bc_alloc_max'' unsigned_int,
      Field ''bc_alloc_count'' unsigned_int,
      Field ''bc_slot_count'' atomic_t,
      Field ''bc_pa_lock'' spinlock_t,
      Field ''bc_pa_list'' struct_list_head,
      Field ''recv_queue'' struct_rb_root,
      Field ''stat'' (CStruct [] False
        [Field ''bind_count'' long_unsigned_int,
         Field ''connect_count'' long_unsigned_int,
         Field ''connect_start'' long_unsigned_int,
         Field ''connect_time'' long_unsigned_int,
         Field ''sends'' long_unsigned_int,
         Field ''recvs'' long_unsigned_int,
         Field ''bad_xids'' long_unsigned_int,
         Field ''max_slots'' long_unsigned_int,
         Field ''req_u'' long_long_unsigned_int,
         Field ''bklog_u'' long_long_unsigned_int,
         Field ''sending_u'' long_long_unsigned_int,
         Field ''pending_u'' long_long_unsigned_int]),
      Field ''xprt_net'' (CPtr ''struct net''),
      Field ''ns_tracker'' netns_tracker,
      Field ''servername'' (CPtr ''const char''),
      Field ''address_strings'' (CArr 6 (CPtr ''const char'')),
      Field ''debugfs'' (CPtr ''struct dentry''),
      Field ''rcu'' struct_callback_head,
      Field ''xprt_class'' (CPtr ''const struct xprt_class''),
      Field ''xprt_sysfs'' (CPtr ''struct rpc_sysfs_xprt''),
      Field ''main'' bool]"

definition struct_rpc_xprt_iter_ops :: cty where
  "struct_rpc_xprt_iter_ops = CStruct ''rpc_xprt_iter_ops'' False
     [Field ''xpi_rewind'' (CPtr ''void (struct rpc_xprt_iter *)''),
      Field ''xpi_xprt'' (CPtr ''struct rpc_xprt * (struct rpc_xprt_iter *)''),
      Field ''xpi_next'' (CPtr ''struct rpc_xprt * (struct rpc_xprt_iter *)'')]"

definition struct_rpc_xprt_switch :: cty where
  "struct_rpc_xprt_switch = CStruct ''rpc_xprt_switch'' False
     [Field ''xps_lock'' spinlock_t,
      Field ''xps_kref'' struct_kref,
      Field ''xps_id'' unsigned_int,
      Field ''xps_nxprts'' unsigned_int,
      Field ''xps_nactive'' unsigned_int,
      Field ''xps_nunique_destaddr_xprts'' unsigned_int,
      Field ''xps_queuelen'' atomic_long_t,
      Field ''xps_xprt_list'' struct_list_head,
      Field ''xps_net'' (CPtr ''struct net''),
      Field ''xps_iter_ops'' (CPtr ''const struct rpc_xprt_iter_ops''),
      Field ''xps_sysfs'' (CPtr ''struct rpc_sysfs_xprt_switch''),
      Field ''xps_rcu'' struct_callback_head]"

definition struct_table_header :: cty where
  "struct_table_header = CStruct ''table_header'' False
     [Field ''td_id'' u16,
      Field ''td_flags'' u16,
      Field ''td_hilen'' u32,
      Field ''td_lolen'' u32,
      Field ''td_data'' (CArr 0 c_char)]"

definition struct_wiphy_radio_freq_range :: cty where
  "struct_wiphy_radio_freq_range = CStruct ''wiphy_radio_freq_range'' False
     [Field ''start_freq'' u32,
      Field ''end_freq'' u32]"

definition struct_wiphy_wowlan_tcp_support :: cty where
  "struct_wiphy_wowlan_tcp_support = CStruct ''wiphy_wowlan_tcp_support'' False
     [Field ''tok'' (CPtr ''const struct nl80211_wowlan_tcp_data_token_feature''),
      Field ''data_payload_max'' u32,
      Field ''data_interval_max'' u32,
      Field ''wake_payload_max'' u32,
      Field ''seq'' bool]"

definition struct_xdp_ring :: cty where
  "struct_xdp_ring = CStruct ''xdp_ring'' False
     [Field ''producer'' u32,
      BitField [] c_long 64,
      BitField [] c_long 64,
      BitField [] c_long 64,
      BitField [] c_long 64,
      BitField [] c_long 64,
      BitField [] c_long 64,
      BitField [] c_long 64,
      Field ''pad1'' u32,
      BitField [] c_long 64,
      BitField [] c_long 64,
      BitField [] c_long 64,
      BitField [] c_long 64,
      BitField [] c_long 64,
      BitField [] c_long 64,
      BitField [] c_long 64,
      Field ''consumer'' u32,
      BitField [] c_long 64,
      BitField [] c_long 64,
      BitField [] c_long 64,
      BitField [] c_long 64,
      BitField [] c_long 64,
      BitField [] c_long 64,
      BitField [] c_long 64,
      Field ''pad2'' u32,
      Field ''flags'' u32,
      BitField [] c_long 64,
      BitField [] c_long 64,
      BitField [] c_long 64,
      BitField [] c_long 64,
      BitField [] c_long 64,
      BitField [] c_long 64,
      BitField [] c_long 64,
      Field ''pad3'' u32,
      BitField [] c_long 64,
      BitField [] c_long 64,
      BitField [] c_long 64,
      BitField [] c_long 64,
      BitField [] c_long 64,
      BitField [] c_long 64,
      BitField [] c_long 64]"

definition struct_xdp_txq_info :: cty where
  "struct_xdp_txq_info = CStruct ''xdp_txq_info'' False
     [Field ''dev'' (CPtr ''struct net_device'')]"

definition struct_cfg80211_ssid :: cty where
  "struct_cfg80211_ssid = CStruct ''cfg80211_ssid'' False
     [Field ''ssid'' (CArr 32 u8),
      Field ''ssid_len'' u8]"

definition struct_cfg80211_match_set :: cty where
  "struct_cfg80211_match_set = CStruct ''cfg80211_match_set'' False
     [Field ''ssid'' struct_cfg80211_ssid,
      Field ''bssid'' (CArr 6 u8),
      Field ''rssi_thold'' s32]"

definition struct_cfg80211_sched_scan_plan :: cty where
  "struct_cfg80211_sched_scan_plan = CStruct ''cfg80211_sched_scan_plan'' False
     [Field ''interval'' u32,
      Field ''iterations'' u32]"

definition enum_devlink_dpipe_field_mapping_type :: cty where
  "enum_devlink_dpipe_field_mapping_type = CEnum 4
     [(''DEVLINK_DPIPE_FIELD_MAPPING_TYPE_NONE'', 0),
      (''DEVLINK_DPIPE_FIELD_MAPPING_TYPE_IFINDEX'', 1)]"

definition struct_devlink_dpipe_field :: cty where
  "struct_devlink_dpipe_field = CStruct ''devlink_dpipe_field'' False
     [Field ''name'' (CPtr ''const char''),
      Field ''id'' unsigned_int,
      Field ''bitwidth'' unsigned_int,
      Field ''mapping_type'' enum_devlink_dpipe_field_mapping_type]"

definition struct_hwspinlock_ops :: cty where
  "struct_hwspinlock_ops = CStruct ''hwspinlock_ops'' False
     [Field ''trylock'' (CPtr ''int (struct hwspinlock *)''),
      Field ''unlock'' (CPtr ''void (struct hwspinlock *)''),
      Field ''bust'' (CPtr ''int (struct hwspinlock *, unsigned int)''),
      Field ''relax'' (CPtr ''void (struct hwspinlock *)'')]"

definition struct_nfs4_mig_recovery_ops :: cty where
  "struct_nfs4_mig_recovery_ops = CStruct ''nfs4_mig_recovery_ops'' False
     [Field ''get_locations'' (CPtr ''int (struct nfs_server *, struct nfs_fh *, struct nfs4_fs_locations *, struct page *, const struct cred *)''),
      Field ''fsid_present'' (CPtr ''int (struct inode *, const struct cred *)'')]"

definition struct_nfs4_sequence_slot_ops :: cty where
  "struct_nfs4_sequence_slot_ops = CStruct ''nfs4_sequence_slot_ops'' False
     [Field ''process'' (CPtr ''int (struct rpc_task *, struct nfs4_sequence_res *)''),
      Field ''done'' (CPtr ''int (struct rpc_task *, struct nfs4_sequence_res *)''),
      Field ''free_slot'' (CPtr ''void (struct nfs4_sequence_res *)'')]"

definition struct_nfs4_state_maintenance_ops :: cty where
  "struct_nfs4_state_maintenance_ops = CStruct ''nfs4_state_maintenance_ops'' False
     [Field ''sched_state_renewal'' (CPtr ''int (struct nfs_client *, const struct cred *, unsigned int)''),
      Field ''get_state_renewal_cred'' (CPtr ''const struct cred * (struct nfs_client *)''),
      Field ''renew_lease'' (CPtr ''int (struct nfs_client *, const struct cred *)'')]"

definition struct_nfs4_state_recovery_ops :: cty where
  "struct_nfs4_state_recovery_ops = CStruct ''nfs4_state_recovery_ops'' False
     [Field ''owner_flag_bit'' c_int,
      Field ''state_flag_bit'' c_int,
      Field ''recover_open'' (CPtr ''int (struct nfs4_state_owner *, struct nfs4_state *)''),
      Field ''recover_lock'' (CPtr ''int (struct nfs4_state *, struct file_lock *)''),
      Field ''establish_clid'' (CPtr ''int (struct nfs_client *, const struct cred *)''),
      Field ''reclaim_complete'' (CPtr ''int (struct nfs_client *, const struct cred *)''),
      Field ''detect_trunking'' (CPtr ''int (struct nfs_client *, struct nfs_client **, const struct cred *)'')]"

definition struct_nl80211_wowlan_tcp_data_token_feature :: cty where
  "struct_nl80211_wowlan_tcp_data_token_feature = CStruct ''nl80211_wowlan_tcp_data_token_feature'' False
     [Field ''min_len'' c__u32,
      Field ''max_len'' c__u32,
      Field ''bufsize'' c__u32]"

definition struct_pse_power_domain :: cty where
  "struct_pse_power_domain = CStruct ''pse_power_domain'' False
     [Field ''id'' c_int,
      Field ''supply'' (CPtr ''struct regulator''),
      Field ''refcnt'' struct_kref,
      Field ''budget_eval_strategy'' u32]"

definition struct_rdma_stat_desc :: cty where
  "struct_rdma_stat_desc = CStruct ''rdma_stat_desc'' False
     [Field ''name'' (CPtr ''const char''),
      Field ''flags'' unsigned_int,
      Field ''priv'' (CPtr ''const void'')]"

definition struct_rpc_authops :: cty where
  "struct_rpc_authops = CStruct ''rpc_authops'' False
     [Field ''owner'' (CPtr ''struct module''),
      Field ''au_flavor'' rpc_authflavor_t,
      Field ''au_name'' (CPtr ''char''),
      Field ''create'' (CPtr ''struct rpc_auth * (const struct rpc_auth_create_args *, struct rpc_clnt *)''),
      Field ''destroy'' (CPtr ''void (struct rpc_auth *)''),
      Field ''hash_cred'' (CPtr ''int (struct auth_cred *, unsigned int)''),
      Field ''lookup_cred'' (CPtr ''struct rpc_cred * (struct rpc_auth *, struct auth_cred *, int)''),
      Field ''crcreate'' (CPtr ''struct rpc_cred * (struct rpc_auth *, struct auth_cred *, int, gfp_t)''),
      Field ''info2flavor'' (CPtr ''rpc_authflavor_t (struct rpcsec_gss_info *)''),
      Field ''flavor2info'' (CPtr ''int (rpc_authflavor_t, struct rpcsec_gss_info *)''),
      Field ''key_timeout'' (CPtr ''int (struct rpc_auth *, struct rpc_cred *)''),
      Field ''ping'' (CPtr ''int (struct rpc_clnt *)'')]"

definition struct_rpc_call_ops :: cty where
  "struct_rpc_call_ops = CStruct ''rpc_call_ops'' False
     [Field ''rpc_call_prepare'' (CPtr ''void (struct rpc_task *, void *)''),
      Field ''rpc_call_done'' (CPtr ''void (struct rpc_task *, void *)''),
      Field ''rpc_count_stats'' (CPtr ''void (struct rpc_task *, void *)''),
      Field ''rpc_release'' (CPtr ''void (void *)'')]"

definition struct_rpc_wait :: cty where
  "struct_rpc_wait = CStruct ''rpc_wait'' False
     [Field ''list'' struct_list_head,
      Field ''links'' struct_list_head,
      Field ''timer_list'' struct_list_head]"

definition struct_rpc_message :: cty where
  "struct_rpc_message = CStruct ''rpc_message'' False
     [Field ''rpc_proc'' (CPtr ''const struct rpc_procinfo''),
      Field ''rpc_argp'' (CPtr ''void''),
      Field ''rpc_resp'' (CPtr ''void''),
      Field ''rpc_cred'' (CPtr ''const struct cred'')]"

definition struct_rpc_task :: cty where
  "struct_rpc_task = CStruct ''rpc_task'' False
     [Field ''tk_count'' atomic_t,
      Field ''tk_status'' c_int,
      Field ''tk_task'' struct_list_head,
      Field ''tk_callback'' (CPtr ''void (struct rpc_task *)''),
      Field ''tk_action'' (CPtr ''void (struct rpc_task *)''),
      Field ''tk_timeout'' long_unsigned_int,
      Field ''tk_runstate'' long_unsigned_int,
      Field ''tk_waitqueue'' (CPtr ''struct rpc_wait_queue''),
      Field ''u'' (CUnion [] False
        [Field ''tk_work'' struct_work_struct,
         Field ''tk_wait'' struct_rpc_wait]),
      Field ''tk_msg'' struct_rpc_message,
      Field ''tk_calldata'' (CPtr ''void''),
      Field ''tk_ops'' (CPtr ''const struct rpc_call_ops''),
      Field ''tk_client'' (CPtr ''struct rpc_clnt''),
      Field ''tk_xprt'' (CPtr ''struct rpc_xprt''),
      Field ''tk_op_cred'' (CPtr ''struct rpc_cred''),
      Field ''tk_rqstp'' (CPtr ''struct rpc_rqst''),
      Field ''tk_workqueue'' (CPtr ''struct workqueue_struct''),
      Field ''tk_start'' ktime_t,
      Field ''tk_owner'' pid_t,
      Field ''tk_rpc_status'' c_int,
      Field ''tk_flags'' short_unsigned_int,
      Field ''tk_timeouts'' short_unsigned_int,
      Field ''tk_pid'' short_unsigned_int,
      BitField ''tk_priority'' unsigned_char 2,
      BitField ''tk_garb_retry'' unsigned_char 2,
      BitField ''tk_cred_retry'' unsigned_char 2]"

definition struct_rpc_version :: cty where
  "struct_rpc_version = CStruct ''rpc_version'' False
     [Field ''number'' u32,
      Field ''nrprocs'' unsigned_int,
      Field ''procs'' (CPtr ''const struct rpc_procinfo''),
      Field ''counts'' (CPtr ''unsigned int'')]"

definition struct_rpc_xprt_ops :: cty where
  "struct_rpc_xprt_ops = CStruct ''rpc_xprt_ops'' False
     [Field ''set_buffer_size'' (CPtr ''void (struct rpc_xprt *, size_t, size_t)''),
      Field ''reserve_xprt'' (CPtr ''int (struct rpc_xprt *, struct rpc_task *)''),
      Field ''release_xprt'' (CPtr ''void (struct rpc_xprt *, struct rpc_task *)''),
      Field ''alloc_slot'' (CPtr ''void (struct rpc_xprt *, struct rpc_task *)''),
      Field ''free_slot'' (CPtr ''void (struct rpc_xprt *, struct rpc_rqst *)''),
      Field ''rpcbind'' (CPtr ''void (struct rpc_task *)''),
      Field ''set_port'' (CPtr ''void (struct rpc_xprt *, short unsigned int)''),
      Field ''connect'' (CPtr ''void (struct rpc_xprt *, struct rpc_task *)''),
      Field ''get_srcaddr'' (CPtr ''int (struct rpc_xprt *, char *, size_t)''),
      Field ''get_srcport'' (CPtr ''short unsigned int (struct rpc_xprt *)''),
      Field ''buf_alloc'' (CPtr ''int (struct rpc_task *)''),
      Field ''buf_free'' (CPtr ''void (struct rpc_task *)''),
      Field ''prepare_request'' (CPtr ''int (struct rpc_rqst *, struct xdr_buf *)''),
      Field ''send_request'' (CPtr ''int (struct rpc_rqst *)''),
      Field ''abort_send_request'' (CPtr ''void (struct rpc_rqst *)''),
      Field ''wait_for_reply_request'' (CPtr ''void (struct rpc_task *)''),
      Field ''timer'' (CPtr ''void (struct rpc_xprt *, struct rpc_task *)''),
      Field ''release_request'' (CPtr ''void (struct rpc_task *)''),
      Field ''close'' (CPtr ''void (struct rpc_xprt *)''),
      Field ''destroy'' (CPtr ''void (struct rpc_xprt *)''),
      Field ''set_connect_timeout'' (CPtr ''void (struct rpc_xprt *, long unsigned int, long unsigned int)''),
      Field ''print_stats'' (CPtr ''void (struct rpc_xprt *, struct seq_file *)''),
      Field ''enable_swap'' (CPtr ''int (struct rpc_xprt *)''),
      Field ''disable_swap'' (CPtr ''void (struct rpc_xprt *)''),
      Field ''inject_disconnect'' (CPtr ''void (struct rpc_xprt *)''),
      Field ''bc_setup'' (CPtr ''int (struct rpc_xprt *, unsigned int)''),
      Field ''bc_maxpayload'' (CPtr ''size_t (struct rpc_xprt *)''),
      Field ''bc_num_slots'' (CPtr ''unsigned int (struct rpc_xprt *)''),
      Field ''bc_free_rqst'' (CPtr ''void (struct rpc_rqst *)''),
      Field ''bc_destroy'' (CPtr ''void (struct rpc_xprt *, unsigned int)'')]"

definition struct_lwq :: cty where
  "struct_lwq = CStruct ''lwq'' False
     [Field ''lock'' spinlock_t,
      Field ''ready'' (CPtr ''struct llist_node''),
      Field ''new'' struct_llist_head]"

definition struct_svc_serv :: cty where
  "struct_svc_serv = CStruct ''svc_serv'' False
     [Field ''sv_programs'' (CPtr ''struct svc_program''),
      Field ''sv_stats'' (CPtr ''struct svc_stat''),
      Field ''sv_lock'' spinlock_t,
      Field ''sv_nprogs'' unsigned_int,
      Field ''sv_nrthreads'' unsigned_int,
      Field ''sv_max_payload'' unsigned_int,
      Field ''sv_max_mesg'' unsigned_int,
      Field ''sv_xdrsize'' unsigned_int,
      Field ''sv_permsocks'' struct_list_head,
      Field ''sv_tempsocks'' struct_list_head,
      Field ''sv_tmpcnt'' c_int,
      Field ''sv_temptimer'' struct_timer_list,
      Field ''sv_name'' (CPtr ''char''),
      Field ''sv_nrpools'' unsigned_int,
      Field ''sv_is_pooled'' bool,
      Field ''sv_pools'' (CPtr ''struct svc_pool''),
      Field ''sv_threadfn'' (CPtr ''int (void *)''),
      Field ''sv_cb_list'' struct_lwq,
      Field ''sv_bc_enabled'' bool]"

definition struct_xprt_class :: cty where
  "struct_xprt_class = CStruct ''xprt_class'' False
     [Field ''list'' struct_list_head,
      Field ''ident'' c_int,
      Field ''setup'' (CPtr ''struct rpc_xprt * (struct xprt_create *)''),
      Field ''owner'' (CPtr ''struct module''),
      Field ''name'' (CArr 32 c_char),
      Field ''netid'' (CArr 0 (CPtr ''const char''))]"

definition struct_rpc_cred :: cty where
  "struct_rpc_cred = CStruct ''rpc_cred'' False
     [Field ''cr_hash'' struct_hlist_node,
      Field ''cr_lru'' struct_list_head,
      Field ''cr_rcu'' struct_callback_head,
      Field ''cr_auth'' (CPtr ''struct rpc_auth''),
      Field ''cr_ops'' (CPtr ''const struct rpc_credops''),
      Field ''cr_expire'' long_unsigned_int,
      Field ''cr_flags'' long_unsigned_int,
      Field ''cr_count'' refcount_t,
      Field ''cr_cred'' (CPtr ''const struct cred'')]"

definition struct_xdr_buf :: cty where
  "struct_xdr_buf = CStruct ''xdr_buf'' False
     [Field ''head'' (CArr 1 struct_kvec),
      Field ''tail'' (CArr 1 struct_kvec),
      Field ''bvec'' (CPtr ''struct bio_vec''),
      Field ''pages'' (CPtr ''struct page *''),
      Field ''page_base'' unsigned_int,
      Field ''page_len'' unsigned_int,
      Field ''flags'' unsigned_int,
      Field ''buflen'' unsigned_int,
      Field ''len'' unsigned_int]"

definition struct_lwq_node :: cty where
  "struct_lwq_node = CStruct ''lwq_node'' False
     [Field ''node'' struct_llist_node]"

definition struct_rpc_rqst :: cty where
  "struct_rpc_rqst = CStruct ''rpc_rqst'' False
     [Field ''rq_xprt'' (CPtr ''struct rpc_xprt''),
      Field ''rq_snd_buf'' struct_xdr_buf,
      Field ''rq_rcv_buf'' struct_xdr_buf,
      Field ''rq_task'' (CPtr ''struct rpc_task''),
      Field ''rq_cred'' (CPtr ''struct rpc_cred''),
      Field ''rq_xid'' c__be32,
      Field ''rq_cong'' c_int,
      Field ''rq_seqnos'' (CArr 3 u32),
      Field ''rq_seqno_count'' unsigned_int,
      Field ''rq_enc_pages_num'' c_int,
      Field ''rq_enc_pages'' (CPtr ''struct page *''),
      Field ''rq_release_snd_buf'' (CPtr ''void (struct rpc_rqst *)''),
      Field [] (CUnion [] False
        [Field ''rq_list'' struct_list_head,
         Field ''rq_recv'' struct_rb_node]),
      Field ''rq_xmit'' struct_list_head,
      Field ''rq_xmit2'' struct_list_head,
      Field ''rq_buffer'' (CPtr ''void''),
      Field ''rq_callsize'' size_t,
      Field ''rq_rbuffer'' (CPtr ''void''),
      Field ''rq_rcvsize'' size_t,
      Field ''rq_xmit_bytes_sent'' size_t,
      Field ''rq_reply_bytes_recvd'' size_t,
      Field ''rq_private_buf'' struct_xdr_buf,
      Field ''rq_majortimeo'' long_unsigned_int,
      Field ''rq_minortimeo'' long_unsigned_int,
      Field ''rq_timeout'' long_unsigned_int,
      Field ''rq_rtt'' ktime_t,
      Field ''rq_retries'' unsigned_int,
      Field ''rq_connect_cookie'' unsigned_int,
      Field ''rq_pin'' atomic_t,
      Field ''rq_bytes_sent'' u32,
      Field ''rq_xtime'' ktime_t,
      Field ''rq_ntrans'' c_int,
      Field ''rq_bc_list'' struct_lwq_node,
      Field ''rq_bc_pa_state'' long_unsigned_int,
      Field ''rq_bc_pa_list'' struct_list_head]"

definition struct_svc_pool :: cty where
  "struct_svc_pool = CStruct ''svc_pool'' False
     [Field ''sp_id'' unsigned_int,
      Field ''sp_nrthreads'' unsigned_int,
      Field ''sp_nrthrmin'' unsigned_int,
      Field ''sp_nrthrmax'' unsigned_int,
      Field ''sp_xprts'' struct_lwq,
      Field ''sp_all_threads'' struct_list_head,
      Field ''sp_idle_threads'' struct_llist_head,
      Field ''sp_messages_arrived'' struct_percpu_counter,
      Field ''sp_sockets_queued'' struct_percpu_counter,
      Field ''sp_threads_woken'' struct_percpu_counter,
      Field ''sp_flags'' long_unsigned_int]"

definition struct_svc_program :: cty where
  "struct_svc_program = CStruct ''svc_program'' False
     [Field ''pg_prog'' u32,
      Field ''pg_lovers'' unsigned_int,
      Field ''pg_hivers'' unsigned_int,
      Field ''pg_nvers'' unsigned_int,
      Field ''pg_vers'' (CPtr ''const struct svc_version *''),
      Field ''pg_name'' (CPtr ''char''),
      Field ''pg_class'' (CPtr ''char''),
      Field ''pg_authenticate'' (CPtr ''enum svc_auth_status (struct svc_rqst *)''),
      Field ''pg_init_request'' (CPtr ''__be32 (struct svc_rqst *, const struct svc_program *, struct svc_process_info *)''),
      Field ''pg_rpcbind_set'' (CPtr ''int (struct net *, const struct svc_program *, u32, int, short unsigned int, short unsigned int)'')]"

definition struct_svc_stat :: cty where
  "struct_svc_stat = CStruct ''svc_stat'' False
     [Field ''program'' (CPtr ''struct svc_program''),
      Field ''netcnt'' unsigned_int,
      Field ''netudpcnt'' unsigned_int,
      Field ''nettcpcnt'' unsigned_int,
      Field ''nettcpconn'' unsigned_int,
      Field ''rpccnt'' unsigned_int,
      Field ''rpcbadfmt'' unsigned_int,
      Field ''rpcbadauth'' unsigned_int,
      Field ''rpcbadclnt'' unsigned_int]"

definition struct_rpc_credops :: cty where
  "struct_rpc_credops = CStruct ''rpc_credops'' False
     [Field ''cr_name'' (CPtr ''const char''),
      Field ''cr_init'' (CPtr ''int (struct rpc_auth *, struct rpc_cred *)''),
      Field ''crdestroy'' (CPtr ''void (struct rpc_cred *)''),
      Field ''crmatch'' (CPtr ''int (struct auth_cred *, struct rpc_cred *, int)''),
      Field ''crmarshal'' (CPtr ''int (struct rpc_task *, struct xdr_stream *)''),
      Field ''crrefresh'' (CPtr ''int (struct rpc_task *)''),
      Field ''crvalidate'' (CPtr ''int (struct rpc_task *, struct xdr_stream *)''),
      Field ''crwrap_req'' (CPtr ''int (struct rpc_task *, struct xdr_stream *)''),
      Field ''crunwrap_resp'' (CPtr ''int (struct rpc_task *, struct xdr_stream *)''),
      Field ''crkey_timeout'' (CPtr ''int (struct rpc_cred *)''),
      Field ''crstringify_acceptor'' (CPtr ''char * (struct rpc_cred *)''),
      Field ''crneed_reencode'' (CPtr ''bool (struct rpc_task *)'')]"

definition struct_svc_version :: cty where
  "struct_svc_version = CStruct ''svc_version'' False
     [Field ''vs_vers'' u32,
      Field ''vs_nproc'' u32,
      Field ''vs_proc'' (CPtr ''const struct svc_procedure''),
      Field ''vs_count'' (CPtr ''long unsigned int''),
      Field ''vs_xdrsize'' u32,
      Field ''vs_hidden'' bool,
      Field ''vs_rpcb_optnl'' bool,
      Field ''vs_need_cong_ctrl'' bool,
      Field ''vs_dispatch'' (CPtr ''int (struct svc_rqst *)'')]"

definition struct_svc_procedure :: cty where
  "struct_svc_procedure = CStruct ''svc_procedure'' False
     [Field ''pc_func'' (CPtr ''__be32 (struct svc_rqst *)''),
      Field ''pc_decode'' (CPtr ''bool (struct svc_rqst *, struct xdr_stream *)''),
      Field ''pc_encode'' (CPtr ''bool (struct svc_rqst *, struct xdr_stream *)''),
      Field ''pc_release'' (CPtr ''void (struct svc_rqst *)''),
      Field ''pc_argsize'' unsigned_int,
      Field ''pc_argzero'' unsigned_int,
      Field ''pc_ressize'' unsigned_int,
      Field ''pc_cachetype'' unsigned_int,
      Field ''pc_xdrressize'' unsigned_int,
      Field ''pc_name'' (CPtr ''const char'')]"

section \<open>Sizes and alignments\<close>

lemma struct_rpc_timeout_layout [layout_simps]:
  "sizeof struct_rpc_timeout = 32 \<and> alignof struct_rpc_timeout = 8 \<and> wf_cty struct_rpc_timeout"
  by (simp add: struct_rpc_timeout_def base_types layout_eval
      del: One_nat_def)

lemma struct_rpc_xprt_iter_layout [layout_simps]:
  "sizeof struct_rpc_xprt_iter = 24 \<and> alignof struct_rpc_xprt_iter = 8 \<and> wf_cty struct_rpc_xprt_iter"
  by (simp add: struct_rpc_xprt_iter_def base_types layout_eval
      del: One_nat_def)

lemma struct_rpc_clnt_layout [layout_simps]:
  "sizeof struct_rpc_clnt = 488 \<and> alignof struct_rpc_clnt = 8 \<and> wf_cty struct_rpc_clnt"
  by (simp add: struct_rpc_clnt_def base_types layout_eval refcount_t_def struct_refcount_struct_layout
      struct_list_head_layout atomic_t_layout spinlock_t_def struct_spinlock_layout u32_def c__u32_def
      struct_xprtsec_parms_layout struct_rpc_pipe_dir_head_layout struct_rpc_rtt_layout
      struct_rpc_timeout_layout struct_rpc_xprt_iter_layout struct_work_struct_layout
      del: One_nat_def)

lemma struct_wiphy_coalesce_support_layout [layout_simps]:
  "sizeof struct_wiphy_coalesce_support = 24 \<and> alignof struct_wiphy_coalesce_support = 4 \<and> wf_cty struct_wiphy_coalesce_support"
  by (simp add: struct_wiphy_coalesce_support_def base_types layout_eval
      del: One_nat_def)

lemma struct_wiphy_iftype_akm_suites_layout [layout_simps]:
  "sizeof struct_wiphy_iftype_akm_suites = 24 \<and> alignof struct_wiphy_iftype_akm_suites = 8 \<and> wf_cty struct_wiphy_iftype_akm_suites"
  by (simp add: struct_wiphy_iftype_akm_suites_def base_types layout_eval u16_def c__u16_def
      del: One_nat_def)

lemma struct_wiphy_iftype_ext_capab_layout [layout_simps]:
  "sizeof struct_wiphy_iftype_ext_capab = 32 \<and> alignof struct_wiphy_iftype_ext_capab = 8 \<and> wf_cty struct_wiphy_iftype_ext_capab"
  by (simp add: struct_wiphy_iftype_ext_capab_def base_types layout_eval enum_nl80211_iftype_layout u8_def c__u8_def
      u16_def c__u16_def
      del: One_nat_def)

lemma struct_wiphy_radio_layout [layout_simps]:
  "sizeof struct_wiphy_radio = 32 \<and> alignof struct_wiphy_radio = 8 \<and> wf_cty struct_wiphy_radio"
  by (simp add: struct_wiphy_radio_def base_types layout_eval u32_def c__u32_def
      del: One_nat_def)

lemma struct_wiphy_radio_cfg_layout [layout_simps]:
  "sizeof struct_wiphy_radio_cfg = 16 \<and> alignof struct_wiphy_radio_cfg = 8 \<and> wf_cty struct_wiphy_radio_cfg"
  by (simp add: struct_wiphy_radio_cfg_def base_types layout_eval u32_def c__u32_def
      del: One_nat_def)

lemma struct_wiphy_vendor_command_layout [layout_simps]:
  "sizeof struct_wiphy_vendor_command = 48 \<and> alignof struct_wiphy_vendor_command = 8 \<and> wf_cty struct_wiphy_vendor_command"
  by (simp add: struct_wiphy_vendor_command_def base_types layout_eval struct_nl80211_vendor_cmd_info_layout u32_def
      c__u32_def
      del: One_nat_def)

lemma struct_wiphy_wowlan_support_layout [layout_simps]:
  "sizeof struct_wiphy_wowlan_support = 32 \<and> alignof struct_wiphy_wowlan_support = 8 \<and> wf_cty struct_wiphy_wowlan_support"
  by (simp add: struct_wiphy_wowlan_support_def base_types layout_eval u32_def c__u32_def
      del: One_nat_def)

lemma struct_xdp_buff_layout [layout_simps]:
  "sizeof struct_xdp_buff = 56 \<and> alignof struct_xdp_buff = 8 \<and> wf_cty struct_xdp_buff"
  by (simp add: struct_xdp_buff_def base_types layout_eval u32_def c__u32_def u64_def c__u64_def
      del: One_nat_def)

lemma struct_xdp_buff_xsk_layout [layout_simps]:
  "sizeof struct_xdp_buff_xsk = 128 \<and> alignof struct_xdp_buff_xsk = 8 \<and> wf_cty struct_xdp_buff_xsk"
  by (simp add: struct_xdp_buff_xsk_def base_types layout_eval struct_xdp_buff_layout u8_def c__u8_def dma_addr_t_def
      u64_def c__u64_def struct_list_head_layout
      del: One_nat_def)

lemma struct_xdp_desc_layout [layout_simps]:
  "sizeof struct_xdp_desc = 16 \<and> alignof struct_xdp_desc = 8 \<and> wf_cty struct_xdp_desc"
  by (simp add: struct_xdp_desc_def base_types layout_eval c__u64_def c__u32_def
      del: One_nat_def)

lemma struct_xdp_umem_layout [layout_simps]:
  "sizeof struct_xdp_umem = 112 \<and> alignof struct_xdp_umem = 8 \<and> wf_cty struct_xdp_umem"
  by (simp add: struct_xdp_umem_def base_types layout_eval u64_def c__u64_def u32_def c__u32_def refcount_t_def
      struct_refcount_struct_layout u8_def c__u8_def bool_def struct_list_head_layout
      struct_work_struct_layout
      del: One_nat_def)

lemma struct_xsk_queue_layout [layout_simps]:
  "sizeof struct_xsk_queue = 56 \<and> alignof struct_xsk_queue = 8 \<and> wf_cty struct_xsk_queue"
  by (simp add: struct_xsk_queue_def base_types layout_eval u32_def c__u32_def u64_def c__u64_def size_t_def
      c__kernel_size_t_def c__kernel_ulong_t_def spinlock_t_def struct_spinlock_layout
      del: One_nat_def)

lemma struct_cfg80211_pkt_pattern_layout [layout_simps]:
  "sizeof struct_cfg80211_pkt_pattern = 24 \<and> alignof struct_cfg80211_pkt_pattern = 8 \<and> wf_cty struct_cfg80211_pkt_pattern"
  by (simp add: struct_cfg80211_pkt_pattern_def base_types layout_eval
      del: One_nat_def)

lemma struct_cfg80211_sar_freq_ranges_layout [layout_simps]:
  "sizeof struct_cfg80211_sar_freq_ranges = 8 \<and> alignof struct_cfg80211_sar_freq_ranges = 4 \<and> wf_cty struct_cfg80211_sar_freq_ranges"
  by (simp add: struct_cfg80211_sar_freq_ranges_def base_types layout_eval u32_def c__u32_def
      del: One_nat_def)

lemma struct_cfg80211_sched_scan_request_layout [layout_simps]:
  "sizeof struct_cfg80211_sched_scan_request = 184 \<and> alignof struct_cfg80211_sched_scan_request = 8 \<and> wf_cty struct_cfg80211_sched_scan_request"
  by (simp add: struct_cfg80211_sched_scan_request_def base_types layout_eval u64_def c__u64_def u32_def c__u32_def
      size_t_def c__kernel_size_t_def c__kernel_ulong_t_def s32_def c__s32_def u8_def c__u8_def bool_def
      s8_def c__s8_def struct_cfg80211_bss_select_adjust_layout struct_callback_head_layout
      struct_list_head_layout
      del: One_nat_def)

lemma struct_nl80211_wowlan_tcp_data_seq_layout [layout_simps]:
  "sizeof struct_nl80211_wowlan_tcp_data_seq = 12 \<and> alignof struct_nl80211_wowlan_tcp_data_seq = 4 \<and> wf_cty struct_nl80211_wowlan_tcp_data_seq"
  by (simp add: struct_nl80211_wowlan_tcp_data_seq_def base_types layout_eval c__u32_def
      del: One_nat_def)

lemma struct_nl80211_wowlan_tcp_data_token_layout [layout_simps]:
  "sizeof struct_nl80211_wowlan_tcp_data_token = 8 \<and> alignof struct_nl80211_wowlan_tcp_data_token = 4 \<and> wf_cty struct_nl80211_wowlan_tcp_data_token"
  by (simp add: struct_nl80211_wowlan_tcp_data_token_def base_types layout_eval c__u32_def c__u8_def
      del: One_nat_def)

lemma struct_cfg80211_wowlan_tcp_layout [layout_simps]:
  "sizeof struct_cfg80211_wowlan_tcp = 96 \<and> alignof struct_cfg80211_wowlan_tcp = 8 \<and> wf_cty struct_cfg80211_wowlan_tcp"
  by (simp add: struct_cfg80211_wowlan_tcp_def base_types layout_eval c__be32_def c__u32_def u16_def c__u16_def u8_def
      c__u8_def struct_nl80211_wowlan_tcp_data_seq_layout u32_def
      struct_nl80211_wowlan_tcp_data_token_layout
      del: One_nat_def)

lemma struct_devlink_dpipe_header_layout [layout_simps]:
  "sizeof struct_devlink_dpipe_header = 32 \<and> alignof struct_devlink_dpipe_header = 8 \<and> wf_cty struct_devlink_dpipe_header"
  by (simp add: struct_devlink_dpipe_header_def base_types layout_eval bool_def
      del: One_nat_def)

lemma struct_fsnotify_event_layout [layout_simps]:
  "sizeof struct_fsnotify_event = 16 \<and> alignof struct_fsnotify_event = 8 \<and> wf_cty struct_fsnotify_event"
  by (simp add: struct_fsnotify_event_def base_types layout_eval struct_list_head_layout
      del: One_nat_def)

lemma struct_fsnotify_ops_layout [layout_simps]:
  "sizeof struct_fsnotify_ops = 48 \<and> alignof struct_fsnotify_ops = 8 \<and> wf_cty struct_fsnotify_ops"
  by (simp add: struct_fsnotify_ops_def base_types layout_eval
      del: One_nat_def)

lemma struct_hwspinlock_device_layout [layout_simps]:
  "sizeof struct_hwspinlock_device = 24 \<and> alignof struct_hwspinlock_device = 8 \<and> wf_cty struct_hwspinlock_device"
  by (simp add: struct_hwspinlock_device_def base_types layout_eval struct_hwspinlock_layout
      del: One_nat_def)

lemma struct_ieee80211_iface_limit_layout [layout_simps]:
  "sizeof struct_ieee80211_iface_limit = 4 \<and> alignof struct_ieee80211_iface_limit = 2 \<and> wf_cty struct_ieee80211_iface_limit"
  by (simp add: struct_ieee80211_iface_limit_def base_types layout_eval u16_def c__u16_def
      del: One_nat_def)

lemma struct_ieee80211_rate_layout [layout_simps]:
  "sizeof struct_ieee80211_rate = 12 \<and> alignof struct_ieee80211_rate = 4 \<and> wf_cty struct_ieee80211_rate"
  by (simp add: struct_ieee80211_rate_def base_types layout_eval u32_def c__u32_def u16_def c__u16_def
      del: One_nat_def)

lemma struct_ieee80211_he_cap_elem_layout [layout_simps]:
  "sizeof struct_ieee80211_he_cap_elem = 17 \<and> alignof struct_ieee80211_he_cap_elem = 1 \<and> wf_cty struct_ieee80211_he_cap_elem"
  by (simp add: struct_ieee80211_he_cap_elem_def base_types layout_eval u8_def c__u8_def
      del: One_nat_def)

lemma struct_ieee80211_he_mcs_nss_supp_layout [layout_simps]:
  "sizeof struct_ieee80211_he_mcs_nss_supp = 12 \<and> alignof struct_ieee80211_he_mcs_nss_supp = 2 \<and> wf_cty struct_ieee80211_he_mcs_nss_supp"
  by (simp add: struct_ieee80211_he_mcs_nss_supp_def base_types layout_eval c__le16_def c__u16_def
      del: One_nat_def)

lemma struct_ieee80211_sta_he_cap_layout [layout_simps]:
  "sizeof struct_ieee80211_sta_he_cap = 55 \<and> alignof struct_ieee80211_sta_he_cap = 1 \<and> wf_cty struct_ieee80211_sta_he_cap"
  by (simp add: struct_ieee80211_sta_he_cap_def base_types layout_eval bool_def struct_ieee80211_he_cap_elem_layout
      struct_ieee80211_he_mcs_nss_supp_layout u8_def c__u8_def
      del: One_nat_def)

lemma struct_ieee80211_he_6ghz_capa_layout [layout_simps]:
  "sizeof struct_ieee80211_he_6ghz_capa = 2 \<and> alignof struct_ieee80211_he_6ghz_capa = 2 \<and> wf_cty struct_ieee80211_he_6ghz_capa"
  by (simp add: struct_ieee80211_he_6ghz_capa_def base_types layout_eval c__le16_def c__u16_def
      del: One_nat_def)

lemma struct_ieee80211_eht_cap_elem_fixed_layout [layout_simps]:
  "sizeof struct_ieee80211_eht_cap_elem_fixed = 11 \<and> alignof struct_ieee80211_eht_cap_elem_fixed = 1 \<and> wf_cty struct_ieee80211_eht_cap_elem_fixed"
  by (simp add: struct_ieee80211_eht_cap_elem_fixed_def base_types layout_eval u8_def c__u8_def
      del: One_nat_def)

lemma struct_ieee80211_eht_mcs_nss_supp_20mhz_only_layout [layout_simps]:
  "sizeof struct_ieee80211_eht_mcs_nss_supp_20mhz_only = 4 \<and> alignof struct_ieee80211_eht_mcs_nss_supp_20mhz_only = 1 \<and> wf_cty struct_ieee80211_eht_mcs_nss_supp_20mhz_only"
  by (simp add: struct_ieee80211_eht_mcs_nss_supp_20mhz_only_def base_types layout_eval u8_def c__u8_def
      del: One_nat_def)

lemma struct_ieee80211_eht_mcs_nss_supp_bw_layout [layout_simps]:
  "sizeof struct_ieee80211_eht_mcs_nss_supp_bw = 3 \<and> alignof struct_ieee80211_eht_mcs_nss_supp_bw = 1 \<and> wf_cty struct_ieee80211_eht_mcs_nss_supp_bw"
  by (simp add: struct_ieee80211_eht_mcs_nss_supp_bw_def base_types layout_eval u8_def c__u8_def
      del: One_nat_def)

lemma struct_ieee80211_eht_mcs_nss_supp_layout [layout_simps]:
  "sizeof struct_ieee80211_eht_mcs_nss_supp = 9 \<and> alignof struct_ieee80211_eht_mcs_nss_supp = 1 \<and> wf_cty struct_ieee80211_eht_mcs_nss_supp"
  by (simp add: struct_ieee80211_eht_mcs_nss_supp_def base_types layout_eval
      struct_ieee80211_eht_mcs_nss_supp_20mhz_only_layout struct_ieee80211_eht_mcs_nss_supp_bw_layout
      del: One_nat_def)

lemma struct_ieee80211_sta_eht_cap_layout [layout_simps]:
  "sizeof struct_ieee80211_sta_eht_cap = 53 \<and> alignof struct_ieee80211_sta_eht_cap = 1 \<and> wf_cty struct_ieee80211_sta_eht_cap"
  by (simp add: struct_ieee80211_sta_eht_cap_def base_types layout_eval bool_def
      struct_ieee80211_eht_cap_elem_fixed_layout struct_ieee80211_eht_mcs_nss_supp_layout u8_def
      c__u8_def
      del: One_nat_def)

lemma struct_ieee80211_uhr_cap_mac_layout [layout_simps]:
  "sizeof struct_ieee80211_uhr_cap_mac = 5 \<and> alignof struct_ieee80211_uhr_cap_mac = 1 \<and> wf_cty struct_ieee80211_uhr_cap_mac"
  by (simp add: struct_ieee80211_uhr_cap_mac_def base_types layout_eval u8_def c__u8_def
      del: One_nat_def)

lemma struct_ieee80211_uhr_cap_phy_layout [layout_simps]:
  "sizeof struct_ieee80211_uhr_cap_phy = 1 \<and> alignof struct_ieee80211_uhr_cap_phy = 1 \<and> wf_cty struct_ieee80211_uhr_cap_phy"
  by (simp add: struct_ieee80211_uhr_cap_phy_def base_types layout_eval u8_def c__u8_def
      del: One_nat_def)

lemma struct_ieee80211_sta_uhr_cap_layout [layout_simps]:
  "sizeof struct_ieee80211_sta_uhr_cap = 7 \<and> alignof struct_ieee80211_sta_uhr_cap = 1 \<and> wf_cty struct_ieee80211_sta_uhr_cap"
  by (simp add: struct_ieee80211_sta_uhr_cap_def base_types layout_eval bool_def struct_ieee80211_uhr_cap_mac_layout
      struct_ieee80211_uhr_cap_phy_layout
      del: One_nat_def)

lemma struct_ieee80211_sband_iftype_data_layout [layout_simps]:
  "sizeof struct_ieee80211_sband_iftype_data = 136 \<and> alignof struct_ieee80211_sband_iftype_data = 1 \<and> wf_cty struct_ieee80211_sband_iftype_data"
  by (simp add: struct_ieee80211_sband_iftype_data_def base_types layout_eval u16_def c__u16_def
      struct_ieee80211_sta_he_cap_layout struct_ieee80211_he_6ghz_capa_layout
      struct_ieee80211_sta_eht_cap_layout struct_ieee80211_sta_uhr_cap_layout
      del: One_nat_def)

lemma struct_neigh_hash_table_layout [layout_simps]:
  "sizeof struct_neigh_hash_table = 48 \<and> alignof struct_neigh_hash_table = 8 \<and> wf_cty struct_neigh_hash_table"
  by (simp add: struct_neigh_hash_table_def base_types layout_eval c__u32_def struct_callback_head_layout
      del: One_nat_def)

lemma struct_neigh_statistics_layout [layout_simps]:
  "sizeof struct_neigh_statistics = 96 \<and> alignof struct_neigh_statistics = 8 \<and> wf_cty struct_neigh_statistics"
  by (simp add: struct_neigh_statistics_def base_types layout_eval
      del: One_nat_def)

lemma struct_nfstime4_layout [layout_simps]:
  "sizeof struct_nfstime4 = 16 \<and> alignof struct_nfstime4 = 8 \<and> wf_cty struct_nfstime4"
  by (simp add: struct_nfstime4_def base_types layout_eval int64_t_def s64_def c__s64_def uint32_t_def u32_def c__u32_def
      del: One_nat_def)

lemma struct_nfs41_impl_id_layout [layout_simps]:
  "sizeof struct_nfs41_impl_id = 2072 \<and> alignof struct_nfs41_impl_id = 8 \<and> wf_cty struct_nfs41_impl_id"
  by (simp add: struct_nfs41_impl_id_def base_types layout_eval struct_nfstime4_layout
      del: One_nat_def)

lemma struct_nfs41_server_owner_layout [layout_simps]:
  "sizeof struct_nfs41_server_owner = 1040 \<and> alignof struct_nfs41_server_owner = 8 \<and> wf_cty struct_nfs41_server_owner"
  by (simp add: struct_nfs41_server_owner_def base_types layout_eval uint64_t_def u64_def c__u64_def uint32_t_def u32_def
      c__u32_def
      del: One_nat_def)

lemma struct_nfs41_server_scope_layout [layout_simps]:
  "sizeof struct_nfs41_server_scope = 1028 \<and> alignof struct_nfs41_server_scope = 4 \<and> wf_cty struct_nfs41_server_scope"
  by (simp add: struct_nfs41_server_scope_def base_types layout_eval uint32_t_def u32_def c__u32_def
      del: One_nat_def)

lemma struct_nfs4_minor_version_ops_layout [layout_simps]:
  "sizeof struct_nfs4_minor_version_ops = 120 \<and> alignof struct_nfs4_minor_version_ops = 8 \<and> wf_cty struct_nfs4_minor_version_ops"
  by (simp add: struct_nfs4_minor_version_ops_def base_types layout_eval u32_def c__u32_def
      del: One_nat_def)

lemma struct_nfs_rpc_ops_layout [layout_simps]:
  "sizeof struct_nfs_rpc_ops = 456 \<and> alignof struct_nfs_rpc_ops = 8 \<and> wf_cty struct_nfs_rpc_ops"
  by (simp add: struct_nfs_rpc_ops_def base_types layout_eval u32_def c__u32_def
      del: One_nat_def)

lemma struct_of_phandle_args_layout [layout_simps]:
  "sizeof struct_of_phandle_args = 80 \<and> alignof struct_of_phandle_args = 8 \<and> wf_cty struct_of_phandle_args"
  by (simp add: struct_of_phandle_args_def base_types layout_eval uint32_t_def u32_def c__u32_def
      del: One_nat_def)

lemma struct_pneigh_entry_layout [layout_simps]:
  "sizeof struct_pneigh_entry = 48 \<and> alignof struct_pneigh_entry = 8 \<and> wf_cty struct_pneigh_entry"
  by (simp add: struct_pneigh_entry_def base_types layout_eval possible_net_t_layout netdevice_tracker_layout
      struct_list_head_layout struct_callback_head_layout u32_def c__u32_def u8_def c__u8_def bool_def
      del: One_nat_def)

lemma struct_pse_controller_ops_layout [layout_simps]:
  "sizeof struct_pse_controller_ops = 120 \<and> alignof struct_pse_controller_ops = 8 \<and> wf_cty struct_pse_controller_ops"
  by (simp add: struct_pse_controller_ops_def base_types layout_eval
      del: One_nat_def)

lemma enum_pse_pi_pairset_pinout_layout [layout_simps]:
  "sizeof enum_pse_pi_pairset_pinout = 4 \<and> alignof enum_pse_pi_pairset_pinout = 4 \<and> wf_cty enum_pse_pi_pairset_pinout"
  by (simp add: enum_pse_pi_pairset_pinout_def base_types layout_eval
      del: One_nat_def)

lemma struct_pse_pi_pairset_layout [layout_simps]:
  "sizeof struct_pse_pi_pairset = 16 \<and> alignof struct_pse_pi_pairset = 8 \<and> wf_cty struct_pse_pi_pairset"
  by (simp add: struct_pse_pi_pairset_def base_types layout_eval enum_pse_pi_pairset_pinout_layout
      del: One_nat_def)

lemma struct_pse_pi_layout [layout_simps]:
  "sizeof struct_pse_pi = 80 \<and> alignof struct_pse_pi = 8 \<and> wf_cty struct_pse_pi"
  by (simp add: struct_pse_pi_def base_types layout_eval struct_pse_pi_pairset_layout bool_def
      del: One_nat_def)

lemma struct_rdma_hw_stats_layout [layout_simps]:
  "sizeof struct_rdma_hw_stats = 72 \<and> alignof struct_rdma_hw_stats = 8 \<and> wf_cty struct_rdma_hw_stats"
  by (simp add: struct_rdma_hw_stats_def base_types layout_eval struct_mutex_layout u64_def c__u64_def
      del: One_nat_def)

lemma struct_regmap_range_layout [layout_simps]:
  "sizeof struct_regmap_range = 8 \<and> alignof struct_regmap_range = 4 \<and> wf_cty struct_regmap_range"
  by (simp add: struct_regmap_range_def base_types layout_eval
      del: One_nat_def)

lemma struct_reset_control_ops_layout [layout_simps]:
  "sizeof struct_reset_control_ops = 32 \<and> alignof struct_reset_control_ops = 8 \<and> wf_cty struct_reset_control_ops"
  by (simp add: struct_reset_control_ops_def base_types layout_eval
      del: One_nat_def)

lemma struct_rfkill_ops_layout [layout_simps]:
  "sizeof struct_rfkill_ops = 24 \<and> alignof struct_rfkill_ops = 8 \<and> wf_cty struct_rfkill_ops"
  by (simp add: struct_rfkill_ops_def base_types layout_eval
      del: One_nat_def)

lemma struct_rpc_auth_layout [layout_simps]:
  "sizeof struct_rpc_auth = 48 \<and> alignof struct_rpc_auth = 8 \<and> wf_cty struct_rpc_auth"
  by (simp add: struct_rpc_auth_def base_types layout_eval rpc_authflavor_t_def u32_def c__u32_def refcount_t_def
      struct_refcount_struct_layout
      del: One_nat_def)

lemma struct_rpc_procinfo_layout [layout_simps]:
  "sizeof struct_rpc_procinfo = 48 \<and> alignof struct_rpc_procinfo = 8 \<and> wf_cty struct_rpc_procinfo"
  by (simp add: struct_rpc_procinfo_def base_types layout_eval u32_def c__u32_def kxdreproc_t_def kxdrdproc_t_def
      del: One_nat_def)

lemma struct_rpc_program_layout [layout_simps]:
  "sizeof struct_rpc_program = 40 \<and> alignof struct_rpc_program = 8 \<and> wf_cty struct_rpc_program"
  by (simp add: struct_rpc_program_def base_types layout_eval u32_def c__u32_def
      del: One_nat_def)

lemma struct_rpc_stat_layout [layout_simps]:
  "sizeof struct_rpc_stat = 48 \<and> alignof struct_rpc_stat = 8 \<and> wf_cty struct_rpc_stat"
  by (simp add: struct_rpc_stat_def base_types layout_eval
      del: One_nat_def)

lemma struct_rpc_sysfs_client_layout [layout_simps]:
  "sizeof struct_rpc_sysfs_client = 88 \<and> alignof struct_rpc_sysfs_client = 8 \<and> wf_cty struct_rpc_sysfs_client"
  by (simp add: struct_rpc_sysfs_client_def base_types layout_eval struct_kobject_layout
      del: One_nat_def)

lemma struct_rpc_xprt_layout [layout_simps]:
  "sizeof struct_rpc_xprt = 1528 \<and> alignof struct_rpc_xprt = 8 \<and> wf_cty struct_rpc_xprt"
  by (simp add: struct_rpc_xprt_def base_types layout_eval struct_kref_layout struct___kernel_sockaddr_storage_layout
      size_t_def c__kernel_size_t_def c__kernel_ulong_t_def struct_rpc_wait_queue_layout
      struct_list_head_layout atomic_t_layout struct_xprtsec_parms_layout struct_work_struct_layout
      struct_timer_list_layout atomic_long_t_def atomic64_t_layout spinlock_t_def struct_spinlock_layout
      u32_def c__u32_def struct_rb_root_layout netns_tracker_layout struct_callback_head_layout bool_def
      del: One_nat_def)

lemma struct_rpc_xprt_iter_ops_layout [layout_simps]:
  "sizeof struct_rpc_xprt_iter_ops = 24 \<and> alignof struct_rpc_xprt_iter_ops = 8 \<and> wf_cty struct_rpc_xprt_iter_ops"
  by (simp add: struct_rpc_xprt_iter_ops_def base_types layout_eval
      del: One_nat_def)

lemma struct_rpc_xprt_switch_layout [layout_simps]:
  "sizeof struct_rpc_xprt_switch = 88 \<and> alignof struct_rpc_xprt_switch = 8 \<and> wf_cty struct_rpc_xprt_switch"
  by (simp add: struct_rpc_xprt_switch_def base_types layout_eval spinlock_t_def struct_spinlock_layout
      struct_kref_layout atomic_long_t_def atomic64_t_layout struct_list_head_layout
      struct_callback_head_layout
      del: One_nat_def)

lemma struct_table_header_layout [layout_simps]:
  "sizeof struct_table_header = 12 \<and> alignof struct_table_header = 4 \<and> wf_cty struct_table_header"
  by (simp add: struct_table_header_def base_types layout_eval u16_def c__u16_def u32_def c__u32_def
      del: One_nat_def)

lemma struct_wiphy_radio_freq_range_layout [layout_simps]:
  "sizeof struct_wiphy_radio_freq_range = 8 \<and> alignof struct_wiphy_radio_freq_range = 4 \<and> wf_cty struct_wiphy_radio_freq_range"
  by (simp add: struct_wiphy_radio_freq_range_def base_types layout_eval u32_def c__u32_def
      del: One_nat_def)

lemma struct_wiphy_wowlan_tcp_support_layout [layout_simps]:
  "sizeof struct_wiphy_wowlan_tcp_support = 24 \<and> alignof struct_wiphy_wowlan_tcp_support = 8 \<and> wf_cty struct_wiphy_wowlan_tcp_support"
  by (simp add: struct_wiphy_wowlan_tcp_support_def base_types layout_eval u32_def c__u32_def bool_def
      del: One_nat_def)

lemma struct_xdp_ring_layout [layout_simps]:
  "sizeof struct_xdp_ring = 320 \<and> alignof struct_xdp_ring = 4 \<and> wf_cty struct_xdp_ring"
  by (simp add: struct_xdp_ring_def base_types layout_eval u32_def c__u32_def
      del: One_nat_def)

lemma struct_xdp_txq_info_layout [layout_simps]:
  "sizeof struct_xdp_txq_info = 8 \<and> alignof struct_xdp_txq_info = 8 \<and> wf_cty struct_xdp_txq_info"
  by (simp add: struct_xdp_txq_info_def base_types layout_eval
      del: One_nat_def)

lemma struct_cfg80211_ssid_layout [layout_simps]:
  "sizeof struct_cfg80211_ssid = 33 \<and> alignof struct_cfg80211_ssid = 1 \<and> wf_cty struct_cfg80211_ssid"
  by (simp add: struct_cfg80211_ssid_def base_types layout_eval u8_def c__u8_def
      del: One_nat_def)

lemma struct_cfg80211_match_set_layout [layout_simps]:
  "sizeof struct_cfg80211_match_set = 44 \<and> alignof struct_cfg80211_match_set = 4 \<and> wf_cty struct_cfg80211_match_set"
  by (simp add: struct_cfg80211_match_set_def base_types layout_eval struct_cfg80211_ssid_layout u8_def c__u8_def s32_def
      c__s32_def
      del: One_nat_def)

lemma struct_cfg80211_sched_scan_plan_layout [layout_simps]:
  "sizeof struct_cfg80211_sched_scan_plan = 8 \<and> alignof struct_cfg80211_sched_scan_plan = 4 \<and> wf_cty struct_cfg80211_sched_scan_plan"
  by (simp add: struct_cfg80211_sched_scan_plan_def base_types layout_eval u32_def c__u32_def
      del: One_nat_def)

lemma enum_devlink_dpipe_field_mapping_type_layout [layout_simps]:
  "sizeof enum_devlink_dpipe_field_mapping_type = 4 \<and> alignof enum_devlink_dpipe_field_mapping_type = 4 \<and> wf_cty enum_devlink_dpipe_field_mapping_type"
  by (simp add: enum_devlink_dpipe_field_mapping_type_def base_types layout_eval
      del: One_nat_def)

lemma struct_devlink_dpipe_field_layout [layout_simps]:
  "sizeof struct_devlink_dpipe_field = 24 \<and> alignof struct_devlink_dpipe_field = 8 \<and> wf_cty struct_devlink_dpipe_field"
  by (simp add: struct_devlink_dpipe_field_def base_types layout_eval enum_devlink_dpipe_field_mapping_type_layout
      del: One_nat_def)

lemma struct_hwspinlock_ops_layout [layout_simps]:
  "sizeof struct_hwspinlock_ops = 32 \<and> alignof struct_hwspinlock_ops = 8 \<and> wf_cty struct_hwspinlock_ops"
  by (simp add: struct_hwspinlock_ops_def base_types layout_eval
      del: One_nat_def)

lemma struct_nfs4_mig_recovery_ops_layout [layout_simps]:
  "sizeof struct_nfs4_mig_recovery_ops = 16 \<and> alignof struct_nfs4_mig_recovery_ops = 8 \<and> wf_cty struct_nfs4_mig_recovery_ops"
  by (simp add: struct_nfs4_mig_recovery_ops_def base_types layout_eval
      del: One_nat_def)

lemma struct_nfs4_sequence_slot_ops_layout [layout_simps]:
  "sizeof struct_nfs4_sequence_slot_ops = 24 \<and> alignof struct_nfs4_sequence_slot_ops = 8 \<and> wf_cty struct_nfs4_sequence_slot_ops"
  by (simp add: struct_nfs4_sequence_slot_ops_def base_types layout_eval
      del: One_nat_def)

lemma struct_nfs4_state_maintenance_ops_layout [layout_simps]:
  "sizeof struct_nfs4_state_maintenance_ops = 24 \<and> alignof struct_nfs4_state_maintenance_ops = 8 \<and> wf_cty struct_nfs4_state_maintenance_ops"
  by (simp add: struct_nfs4_state_maintenance_ops_def base_types layout_eval
      del: One_nat_def)

lemma struct_nfs4_state_recovery_ops_layout [layout_simps]:
  "sizeof struct_nfs4_state_recovery_ops = 48 \<and> alignof struct_nfs4_state_recovery_ops = 8 \<and> wf_cty struct_nfs4_state_recovery_ops"
  by (simp add: struct_nfs4_state_recovery_ops_def base_types layout_eval
      del: One_nat_def)

lemma struct_nl80211_wowlan_tcp_data_token_feature_layout [layout_simps]:
  "sizeof struct_nl80211_wowlan_tcp_data_token_feature = 12 \<and> alignof struct_nl80211_wowlan_tcp_data_token_feature = 4 \<and> wf_cty struct_nl80211_wowlan_tcp_data_token_feature"
  by (simp add: struct_nl80211_wowlan_tcp_data_token_feature_def base_types layout_eval c__u32_def
      del: One_nat_def)

lemma struct_pse_power_domain_layout [layout_simps]:
  "sizeof struct_pse_power_domain = 24 \<and> alignof struct_pse_power_domain = 8 \<and> wf_cty struct_pse_power_domain"
  by (simp add: struct_pse_power_domain_def base_types layout_eval struct_kref_layout u32_def c__u32_def
      del: One_nat_def)

lemma struct_rdma_stat_desc_layout [layout_simps]:
  "sizeof struct_rdma_stat_desc = 24 \<and> alignof struct_rdma_stat_desc = 8 \<and> wf_cty struct_rdma_stat_desc"
  by (simp add: struct_rdma_stat_desc_def base_types layout_eval
      del: One_nat_def)

lemma struct_rpc_authops_layout [layout_simps]:
  "sizeof struct_rpc_authops = 96 \<and> alignof struct_rpc_authops = 8 \<and> wf_cty struct_rpc_authops"
  by (simp add: struct_rpc_authops_def base_types layout_eval rpc_authflavor_t_def u32_def c__u32_def
      del: One_nat_def)

lemma struct_rpc_call_ops_layout [layout_simps]:
  "sizeof struct_rpc_call_ops = 32 \<and> alignof struct_rpc_call_ops = 8 \<and> wf_cty struct_rpc_call_ops"
  by (simp add: struct_rpc_call_ops_def base_types layout_eval
      del: One_nat_def)

lemma struct_rpc_wait_layout [layout_simps]:
  "sizeof struct_rpc_wait = 48 \<and> alignof struct_rpc_wait = 8 \<and> wf_cty struct_rpc_wait"
  by (simp add: struct_rpc_wait_def base_types layout_eval struct_list_head_layout
      del: One_nat_def)

lemma struct_rpc_message_layout [layout_simps]:
  "sizeof struct_rpc_message = 32 \<and> alignof struct_rpc_message = 8 \<and> wf_cty struct_rpc_message"
  by (simp add: struct_rpc_message_def base_types layout_eval
      del: One_nat_def)

lemma struct_rpc_task_layout [layout_simps]:
  "sizeof struct_rpc_task = 224 \<and> alignof struct_rpc_task = 8 \<and> wf_cty struct_rpc_task"
  by (simp add: struct_rpc_task_def base_types layout_eval atomic_t_layout struct_list_head_layout
      struct_work_struct_layout struct_rpc_wait_layout struct_rpc_message_layout ktime_t_def s64_def
      c__s64_def pid_t_def c__kernel_pid_t_def
      del: One_nat_def)

lemma struct_rpc_version_layout [layout_simps]:
  "sizeof struct_rpc_version = 24 \<and> alignof struct_rpc_version = 8 \<and> wf_cty struct_rpc_version"
  by (simp add: struct_rpc_version_def base_types layout_eval u32_def c__u32_def
      del: One_nat_def)

lemma struct_rpc_xprt_ops_layout [layout_simps]:
  "sizeof struct_rpc_xprt_ops = 240 \<and> alignof struct_rpc_xprt_ops = 8 \<and> wf_cty struct_rpc_xprt_ops"
  by (simp add: struct_rpc_xprt_ops_def base_types layout_eval
      del: One_nat_def)

lemma struct_lwq_layout [layout_simps]:
  "sizeof struct_lwq = 24 \<and> alignof struct_lwq = 8 \<and> wf_cty struct_lwq"
  by (simp add: struct_lwq_def base_types layout_eval spinlock_t_def struct_spinlock_layout struct_llist_head_layout
      del: One_nat_def)

lemma struct_svc_serv_layout [layout_simps]:
  "sizeof struct_svc_serv = 184 \<and> alignof struct_svc_serv = 8 \<and> wf_cty struct_svc_serv"
  by (simp add: struct_svc_serv_def base_types layout_eval spinlock_t_def struct_spinlock_layout struct_list_head_layout
      struct_timer_list_layout bool_def struct_lwq_layout
      del: One_nat_def)

lemma struct_xprt_class_layout [layout_simps]:
  "sizeof struct_xprt_class = 72 \<and> alignof struct_xprt_class = 8 \<and> wf_cty struct_xprt_class"
  by (simp add: struct_xprt_class_def base_types layout_eval struct_list_head_layout
      del: One_nat_def)

lemma struct_rpc_cred_layout [layout_simps]:
  "sizeof struct_rpc_cred = 96 \<and> alignof struct_rpc_cred = 8 \<and> wf_cty struct_rpc_cred"
  by (simp add: struct_rpc_cred_def base_types layout_eval struct_hlist_node_layout struct_list_head_layout
      struct_callback_head_layout refcount_t_def struct_refcount_struct_layout
      del: One_nat_def)

lemma struct_xdr_buf_layout [layout_simps]:
  "sizeof struct_xdr_buf = 72 \<and> alignof struct_xdr_buf = 8 \<and> wf_cty struct_xdr_buf"
  by (simp add: struct_xdr_buf_def base_types layout_eval struct_kvec_layout
      del: One_nat_def)

lemma struct_lwq_node_layout [layout_simps]:
  "sizeof struct_lwq_node = 8 \<and> alignof struct_lwq_node = 8 \<and> wf_cty struct_lwq_node"
  by (simp add: struct_lwq_node_def base_types layout_eval struct_llist_node_layout
      del: One_nat_def)

lemma struct_rpc_rqst_layout [layout_simps]:
  "sizeof struct_rpc_rqst = 488 \<and> alignof struct_rpc_rqst = 8 \<and> wf_cty struct_rpc_rqst"
  by (simp add: struct_rpc_rqst_def base_types layout_eval struct_xdr_buf_layout c__be32_def c__u32_def u32_def
      struct_list_head_layout struct_rb_node_layout size_t_def c__kernel_size_t_def c__kernel_ulong_t_def
      ktime_t_def s64_def c__s64_def atomic_t_layout struct_lwq_node_layout
      del: One_nat_def)

lemma struct_svc_pool_layout [layout_simps]:
  "sizeof struct_svc_pool = 192 \<and> alignof struct_svc_pool = 8 \<and> wf_cty struct_svc_pool"
  by (simp add: struct_svc_pool_def base_types layout_eval struct_lwq_layout struct_list_head_layout
      struct_llist_head_layout struct_percpu_counter_layout
      del: One_nat_def)

lemma struct_svc_program_layout [layout_simps]:
  "sizeof struct_svc_program = 64 \<and> alignof struct_svc_program = 8 \<and> wf_cty struct_svc_program"
  by (simp add: struct_svc_program_def base_types layout_eval u32_def c__u32_def
      del: One_nat_def)

lemma struct_svc_stat_layout [layout_simps]:
  "sizeof struct_svc_stat = 40 \<and> alignof struct_svc_stat = 8 \<and> wf_cty struct_svc_stat"
  by (simp add: struct_svc_stat_def base_types layout_eval
      del: One_nat_def)

lemma struct_rpc_credops_layout [layout_simps]:
  "sizeof struct_rpc_credops = 96 \<and> alignof struct_rpc_credops = 8 \<and> wf_cty struct_rpc_credops"
  by (simp add: struct_rpc_credops_def base_types layout_eval
      del: One_nat_def)

lemma struct_svc_version_layout [layout_simps]:
  "sizeof struct_svc_version = 40 \<and> alignof struct_svc_version = 8 \<and> wf_cty struct_svc_version"
  by (simp add: struct_svc_version_def base_types layout_eval u32_def c__u32_def bool_def
      del: One_nat_def)

lemma struct_svc_procedure_layout [layout_simps]:
  "sizeof struct_svc_procedure = 64 \<and> alignof struct_svc_procedure = 8 \<and> wf_cty struct_svc_procedure"
  by (simp add: struct_svc_procedure_def base_types layout_eval
      del: One_nat_def)

end
