(* ===== verification/KernelSubBpf.thy ===== *)
theory KernelSubBpf
  imports KernelHelpers1 KernelReach5b
begin

text \<open>
  The other types of \<^verbatim>\<open>bpf/vmlinux.h\<close> that belong to the BPF subsystem and BTF, with every type they hold by value.
\<close>

section \<open>Types\<close>

definition enum_bpf_cmd :: cty where
  "enum_bpf_cmd = CEnum 4
     [(''BPF_MAP_CREATE'', 0), (''BPF_MAP_LOOKUP_ELEM'', 1), (''BPF_MAP_UPDATE_ELEM'', 2),
      (''BPF_MAP_DELETE_ELEM'', 3), (''BPF_MAP_GET_NEXT_KEY'', 4), (''BPF_PROG_LOAD'', 5),
      (''BPF_OBJ_PIN'', 6), (''BPF_OBJ_GET'', 7), (''BPF_PROG_ATTACH'', 8),
      (''BPF_PROG_DETACH'', 9), (''BPF_PROG_TEST_RUN'', 10), (''BPF_PROG_RUN'', 10),
      (''BPF_PROG_GET_NEXT_ID'', 11), (''BPF_MAP_GET_NEXT_ID'', 12),
      (''BPF_PROG_GET_FD_BY_ID'', 13), (''BPF_MAP_GET_FD_BY_ID'', 14),
      (''BPF_OBJ_GET_INFO_BY_FD'', 15), (''BPF_PROG_QUERY'', 16),
      (''BPF_RAW_TRACEPOINT_OPEN'', 17), (''BPF_BTF_LOAD'', 18), (''BPF_BTF_GET_FD_BY_ID'', 19),
      (''BPF_TASK_FD_QUERY'', 20), (''BPF_MAP_LOOKUP_AND_DELETE_ELEM'', 21),
      (''BPF_MAP_FREEZE'', 22), (''BPF_BTF_GET_NEXT_ID'', 23), (''BPF_MAP_LOOKUP_BATCH'', 24),
      (''BPF_MAP_LOOKUP_AND_DELETE_BATCH'', 25), (''BPF_MAP_UPDATE_BATCH'', 26),
      (''BPF_MAP_DELETE_BATCH'', 27), (''BPF_LINK_CREATE'', 28), (''BPF_LINK_UPDATE'', 29),
      (''BPF_LINK_GET_FD_BY_ID'', 30), (''BPF_LINK_GET_NEXT_ID'', 31),
      (''BPF_ENABLE_STATS'', 32), (''BPF_ITER_CREATE'', 33), (''BPF_LINK_DETACH'', 34),
      (''BPF_PROG_BIND_MAP'', 35), (''BPF_TOKEN_CREATE'', 36),
      (''BPF_PROG_STREAM_READ_BY_FD'', 37), (''BPF_PROG_ASSOC_STRUCT_OPS'', 38),
      (''__MAX_BPF_CMD'', 39)]"

definition enum_bpf_core_relo_kind :: cty where
  "enum_bpf_core_relo_kind = CEnum 4
     [(''BPF_CORE_FIELD_BYTE_OFFSET'', 0), (''BPF_CORE_FIELD_BYTE_SIZE'', 1),
      (''BPF_CORE_FIELD_EXISTS'', 2), (''BPF_CORE_FIELD_SIGNED'', 3),
      (''BPF_CORE_FIELD_LSHIFT_U64'', 4), (''BPF_CORE_FIELD_RSHIFT_U64'', 5),
      (''BPF_CORE_TYPE_ID_LOCAL'', 6), (''BPF_CORE_TYPE_ID_TARGET'', 7),
      (''BPF_CORE_TYPE_EXISTS'', 8), (''BPF_CORE_TYPE_SIZE'', 9),
      (''BPF_CORE_ENUMVAL_EXISTS'', 10), (''BPF_CORE_ENUMVAL_VALUE'', 11),
      (''BPF_CORE_TYPE_MATCHES'', 12)]"

definition enum_bpf_func_id :: cty where
  "enum_bpf_func_id = CEnum 4
     [(''BPF_FUNC_unspec'', 0), (''BPF_FUNC_map_lookup_elem'', 1),
      (''BPF_FUNC_map_update_elem'', 2), (''BPF_FUNC_map_delete_elem'', 3),
      (''BPF_FUNC_probe_read'', 4), (''BPF_FUNC_ktime_get_ns'', 5),
      (''BPF_FUNC_trace_printk'', 6), (''BPF_FUNC_get_prandom_u32'', 7),
      (''BPF_FUNC_get_smp_processor_id'', 8), (''BPF_FUNC_skb_store_bytes'', 9),
      (''BPF_FUNC_l3_csum_replace'', 10), (''BPF_FUNC_l4_csum_replace'', 11),
      (''BPF_FUNC_tail_call'', 12), (''BPF_FUNC_clone_redirect'', 13),
      (''BPF_FUNC_get_current_pid_tgid'', 14), (''BPF_FUNC_get_current_uid_gid'', 15),
      (''BPF_FUNC_get_current_comm'', 16), (''BPF_FUNC_get_cgroup_classid'', 17),
      (''BPF_FUNC_skb_vlan_push'', 18), (''BPF_FUNC_skb_vlan_pop'', 19),
      (''BPF_FUNC_skb_get_tunnel_key'', 20), (''BPF_FUNC_skb_set_tunnel_key'', 21),
      (''BPF_FUNC_perf_event_read'', 22), (''BPF_FUNC_redirect'', 23),
      (''BPF_FUNC_get_route_realm'', 24), (''BPF_FUNC_perf_event_output'', 25),
      (''BPF_FUNC_skb_load_bytes'', 26), (''BPF_FUNC_get_stackid'', 27),
      (''BPF_FUNC_csum_diff'', 28), (''BPF_FUNC_skb_get_tunnel_opt'', 29),
      (''BPF_FUNC_skb_set_tunnel_opt'', 30), (''BPF_FUNC_skb_change_proto'', 31),
      (''BPF_FUNC_skb_change_type'', 32), (''BPF_FUNC_skb_under_cgroup'', 33),
      (''BPF_FUNC_get_hash_recalc'', 34), (''BPF_FUNC_get_current_task'', 35),
      (''BPF_FUNC_probe_write_user'', 36), (''BPF_FUNC_current_task_under_cgroup'', 37),
      (''BPF_FUNC_skb_change_tail'', 38), (''BPF_FUNC_skb_pull_data'', 39),
      (''BPF_FUNC_csum_update'', 40), (''BPF_FUNC_set_hash_invalid'', 41),
      (''BPF_FUNC_get_numa_node_id'', 42), (''BPF_FUNC_skb_change_head'', 43),
      (''BPF_FUNC_xdp_adjust_head'', 44), (''BPF_FUNC_probe_read_str'', 45),
      (''BPF_FUNC_get_socket_cookie'', 46), (''BPF_FUNC_get_socket_uid'', 47),
      (''BPF_FUNC_set_hash'', 48), (''BPF_FUNC_setsockopt'', 49),
      (''BPF_FUNC_skb_adjust_room'', 50), (''BPF_FUNC_redirect_map'', 51),
      (''BPF_FUNC_sk_redirect_map'', 52), (''BPF_FUNC_sock_map_update'', 53),
      (''BPF_FUNC_xdp_adjust_meta'', 54), (''BPF_FUNC_perf_event_read_value'', 55),
      (''BPF_FUNC_perf_prog_read_value'', 56), (''BPF_FUNC_getsockopt'', 57),
      (''BPF_FUNC_override_return'', 58), (''BPF_FUNC_sock_ops_cb_flags_set'', 59),
      (''BPF_FUNC_msg_redirect_map'', 60), (''BPF_FUNC_msg_apply_bytes'', 61),
      (''BPF_FUNC_msg_cork_bytes'', 62), (''BPF_FUNC_msg_pull_data'', 63),
      (''BPF_FUNC_bind'', 64), (''BPF_FUNC_xdp_adjust_tail'', 65),
      (''BPF_FUNC_skb_get_xfrm_state'', 66), (''BPF_FUNC_get_stack'', 67),
      (''BPF_FUNC_skb_load_bytes_relative'', 68), (''BPF_FUNC_fib_lookup'', 69),
      (''BPF_FUNC_sock_hash_update'', 70), (''BPF_FUNC_msg_redirect_hash'', 71),
      (''BPF_FUNC_sk_redirect_hash'', 72), (''BPF_FUNC_lwt_push_encap'', 73),
      (''BPF_FUNC_lwt_seg6_store_bytes'', 74), (''BPF_FUNC_lwt_seg6_adjust_srh'', 75),
      (''BPF_FUNC_lwt_seg6_action'', 76), (''BPF_FUNC_rc_repeat'', 77),
      (''BPF_FUNC_rc_keydown'', 78), (''BPF_FUNC_skb_cgroup_id'', 79),
      (''BPF_FUNC_get_current_cgroup_id'', 80), (''BPF_FUNC_get_local_storage'', 81),
      (''BPF_FUNC_sk_select_reuseport'', 82), (''BPF_FUNC_skb_ancestor_cgroup_id'', 83),
      (''BPF_FUNC_sk_lookup_tcp'', 84), (''BPF_FUNC_sk_lookup_udp'', 85),
      (''BPF_FUNC_sk_release'', 86), (''BPF_FUNC_map_push_elem'', 87),
      (''BPF_FUNC_map_pop_elem'', 88), (''BPF_FUNC_map_peek_elem'', 89),
      (''BPF_FUNC_msg_push_data'', 90), (''BPF_FUNC_msg_pop_data'', 91),
      (''BPF_FUNC_rc_pointer_rel'', 92), (''BPF_FUNC_spin_lock'', 93),
      (''BPF_FUNC_spin_unlock'', 94), (''BPF_FUNC_sk_fullsock'', 95),
      (''BPF_FUNC_tcp_sock'', 96), (''BPF_FUNC_skb_ecn_set_ce'', 97),
      (''BPF_FUNC_get_listener_sock'', 98), (''BPF_FUNC_skc_lookup_tcp'', 99),
      (''BPF_FUNC_tcp_check_syncookie'', 100), (''BPF_FUNC_sysctl_get_name'', 101),
      (''BPF_FUNC_sysctl_get_current_value'', 102), (''BPF_FUNC_sysctl_get_new_value'', 103),
      (''BPF_FUNC_sysctl_set_new_value'', 104), (''BPF_FUNC_strtol'', 105),
      (''BPF_FUNC_strtoul'', 106), (''BPF_FUNC_sk_storage_get'', 107),
      (''BPF_FUNC_sk_storage_delete'', 108), (''BPF_FUNC_send_signal'', 109),
      (''BPF_FUNC_tcp_gen_syncookie'', 110), (''BPF_FUNC_skb_output'', 111),
      (''BPF_FUNC_probe_read_user'', 112), (''BPF_FUNC_probe_read_kernel'', 113),
      (''BPF_FUNC_probe_read_user_str'', 114), (''BPF_FUNC_probe_read_kernel_str'', 115),
      (''BPF_FUNC_tcp_send_ack'', 116), (''BPF_FUNC_send_signal_thread'', 117),
      (''BPF_FUNC_jiffies64'', 118), (''BPF_FUNC_read_branch_records'', 119),
      (''BPF_FUNC_get_ns_current_pid_tgid'', 120), (''BPF_FUNC_xdp_output'', 121),
      (''BPF_FUNC_get_netns_cookie'', 122), (''BPF_FUNC_get_current_ancestor_cgroup_id'', 123),
      (''BPF_FUNC_sk_assign'', 124), (''BPF_FUNC_ktime_get_boot_ns'', 125),
      (''BPF_FUNC_seq_printf'', 126), (''BPF_FUNC_seq_write'', 127),
      (''BPF_FUNC_sk_cgroup_id'', 128), (''BPF_FUNC_sk_ancestor_cgroup_id'', 129),
      (''BPF_FUNC_ringbuf_output'', 130), (''BPF_FUNC_ringbuf_reserve'', 131),
      (''BPF_FUNC_ringbuf_submit'', 132), (''BPF_FUNC_ringbuf_discard'', 133),
      (''BPF_FUNC_ringbuf_query'', 134), (''BPF_FUNC_csum_level'', 135),
      (''BPF_FUNC_skc_to_tcp6_sock'', 136), (''BPF_FUNC_skc_to_tcp_sock'', 137),
      (''BPF_FUNC_skc_to_tcp_timewait_sock'', 138), (''BPF_FUNC_skc_to_tcp_request_sock'', 139),
      (''BPF_FUNC_skc_to_udp6_sock'', 140), (''BPF_FUNC_get_task_stack'', 141),
      (''BPF_FUNC_load_hdr_opt'', 142), (''BPF_FUNC_store_hdr_opt'', 143),
      (''BPF_FUNC_reserve_hdr_opt'', 144), (''BPF_FUNC_inode_storage_get'', 145),
      (''BPF_FUNC_inode_storage_delete'', 146), (''BPF_FUNC_d_path'', 147),
      (''BPF_FUNC_copy_from_user'', 148), (''BPF_FUNC_snprintf_btf'', 149),
      (''BPF_FUNC_seq_printf_btf'', 150), (''BPF_FUNC_skb_cgroup_classid'', 151),
      (''BPF_FUNC_redirect_neigh'', 152), (''BPF_FUNC_per_cpu_ptr'', 153),
      (''BPF_FUNC_this_cpu_ptr'', 154), (''BPF_FUNC_redirect_peer'', 155),
      (''BPF_FUNC_task_storage_get'', 156), (''BPF_FUNC_task_storage_delete'', 157),
      (''BPF_FUNC_get_current_task_btf'', 158), (''BPF_FUNC_bprm_opts_set'', 159),
      (''BPF_FUNC_ktime_get_coarse_ns'', 160), (''BPF_FUNC_ima_inode_hash'', 161),
      (''BPF_FUNC_sock_from_file'', 162), (''BPF_FUNC_check_mtu'', 163),
      (''BPF_FUNC_for_each_map_elem'', 164), (''BPF_FUNC_snprintf'', 165),
      (''BPF_FUNC_sys_bpf'', 166), (''BPF_FUNC_btf_find_by_name_kind'', 167),
      (''BPF_FUNC_sys_close'', 168), (''BPF_FUNC_timer_init'', 169),
      (''BPF_FUNC_timer_set_callback'', 170), (''BPF_FUNC_timer_start'', 171),
      (''BPF_FUNC_timer_cancel'', 172), (''BPF_FUNC_get_func_ip'', 173),
      (''BPF_FUNC_get_attach_cookie'', 174), (''BPF_FUNC_task_pt_regs'', 175),
      (''BPF_FUNC_get_branch_snapshot'', 176), (''BPF_FUNC_trace_vprintk'', 177),
      (''BPF_FUNC_skc_to_unix_sock'', 178), (''BPF_FUNC_kallsyms_lookup_name'', 179),
      (''BPF_FUNC_find_vma'', 180), (''BPF_FUNC_loop'', 181), (''BPF_FUNC_strncmp'', 182),
      (''BPF_FUNC_get_func_arg'', 183), (''BPF_FUNC_get_func_ret'', 184),
      (''BPF_FUNC_get_func_arg_cnt'', 185), (''BPF_FUNC_get_retval'', 186),
      (''BPF_FUNC_set_retval'', 187), (''BPF_FUNC_xdp_get_buff_len'', 188),
      (''BPF_FUNC_xdp_load_bytes'', 189), (''BPF_FUNC_xdp_store_bytes'', 190),
      (''BPF_FUNC_copy_from_user_task'', 191), (''BPF_FUNC_skb_set_tstamp'', 192),
      (''BPF_FUNC_ima_file_hash'', 193), (''BPF_FUNC_kptr_xchg'', 194),
      (''BPF_FUNC_map_lookup_percpu_elem'', 195), (''BPF_FUNC_skc_to_mptcp_sock'', 196),
      (''BPF_FUNC_dynptr_from_mem'', 197), (''BPF_FUNC_ringbuf_reserve_dynptr'', 198),
      (''BPF_FUNC_ringbuf_submit_dynptr'', 199), (''BPF_FUNC_ringbuf_discard_dynptr'', 200),
      (''BPF_FUNC_dynptr_read'', 201), (''BPF_FUNC_dynptr_write'', 202),
      (''BPF_FUNC_dynptr_data'', 203), (''BPF_FUNC_tcp_raw_gen_syncookie_ipv4'', 204),
      (''BPF_FUNC_tcp_raw_gen_syncookie_ipv6'', 205),
      (''BPF_FUNC_tcp_raw_check_syncookie_ipv4'', 206),
      (''BPF_FUNC_tcp_raw_check_syncookie_ipv6'', 207), (''BPF_FUNC_ktime_get_tai_ns'', 208),
      (''BPF_FUNC_user_ringbuf_drain'', 209), (''BPF_FUNC_cgrp_storage_get'', 210),
      (''BPF_FUNC_cgrp_storage_delete'', 211), (''__BPF_FUNC_MAX_ID'', 212)]"

definition enum_bpf_lru_list_type :: cty where
  "enum_bpf_lru_list_type = CEnum 4
     [(''BPF_LRU_LIST_T_ACTIVE'', 0), (''BPF_LRU_LIST_T_INACTIVE'', 1),
      (''BPF_LRU_LIST_T_FREE'', 2), (''BPF_LRU_LOCAL_LIST_T_FREE'', 3),
      (''BPF_LRU_LOCAL_LIST_T_PENDING'', 4)]"

definition enum_bpf_netdev_command :: cty where
  "enum_bpf_netdev_command = CEnum 4
     [(''XDP_SETUP_PROG'', 0), (''XDP_SETUP_PROG_HW'', 1), (''BPF_OFFLOAD_MAP_ALLOC'', 2),
      (''BPF_OFFLOAD_MAP_FREE'', 3), (''XDP_SETUP_XSK_POOL'', 4)]"

definition enum_bpf_perf_event_type :: cty where
  "enum_bpf_perf_event_type = CEnum 4
     [(''BPF_PERF_EVENT_UNSPEC'', 0), (''BPF_PERF_EVENT_UPROBE'', 1),
      (''BPF_PERF_EVENT_URETPROBE'', 2), (''BPF_PERF_EVENT_KPROBE'', 3),
      (''BPF_PERF_EVENT_KRETPROBE'', 4), (''BPF_PERF_EVENT_TRACEPOINT'', 5),
      (''BPF_PERF_EVENT_EVENT'', 6)]"

definition enum_bpf_ret_code :: cty where
  "enum_bpf_ret_code = CEnum 4
     [(''BPF_OK'', 0), (''BPF_DROP'', 2), (''BPF_REDIRECT'', 7), (''BPF_LWT_REROUTE'', 128),
      (''BPF_FLOW_DISSECTOR_CONTINUE'', 129)]"

definition enum_bpf_stack_slot_type :: cty where
  "enum_bpf_stack_slot_type = CEnum 4
     [(''STACK_INVALID'', 0), (''STACK_SPILL'', 1), (''STACK_MISC'', 2), (''STACK_ZERO'', 3),
      (''STACK_DYNPTR'', 4), (''STACK_ITER'', 5), (''STACK_IRQ_FLAG'', 6)]"

definition enum_bpf_task_fd_type :: cty where
  "enum_bpf_task_fd_type = CEnum 4
     [(''BPF_FD_TYPE_RAW_TRACEPOINT'', 0), (''BPF_FD_TYPE_TRACEPOINT'', 1),
      (''BPF_FD_TYPE_KPROBE'', 2), (''BPF_FD_TYPE_KRETPROBE'', 3), (''BPF_FD_TYPE_UPROBE'', 4),
      (''BPF_FD_TYPE_URETPROBE'', 5)]"

definition enum_bpf_task_work_state :: cty where
  "enum_bpf_task_work_state = CEnum 4
     [(''BPF_TW_STANDBY'', 0), (''BPF_TW_PENDING'', 1), (''BPF_TW_SCHEDULING'', 2),
      (''BPF_TW_SCHEDULED'', 3), (''BPF_TW_RUNNING'', 4), (''BPF_TW_FREED'', 5)]"

definition enum_bpf_tramp_prog_type :: cty where
  "enum_bpf_tramp_prog_type = CEnum 4
     [(''BPF_TRAMP_FENTRY'', 0), (''BPF_TRAMP_FEXIT'', 1), (''BPF_TRAMP_MODIFY_RETURN'', 2),
      (''BPF_TRAMP_MAX'', 3), (''BPF_TRAMP_REPLACE'', 4), (''BPF_TRAMP_FSESSION'', 5)]"

definition enum_bpf_type_flag :: cty where
  "enum_bpf_type_flag = CEnum 4
     [(''PTR_MAYBE_NULL'', 256), (''MEM_RDONLY'', 512), (''MEM_RINGBUF'', 1024),
      (''MEM_USER'', 2048), (''MEM_PERCPU'', 4096), (''OBJ_RELEASE'', 8192),
      (''PTR_UNTRUSTED'', 16384), (''MEM_UNINIT'', 32768), (''DYNPTR_TYPE_LOCAL'', 65536),
      (''DYNPTR_TYPE_RINGBUF'', 131072), (''MEM_FIXED_SIZE'', 262144), (''MEM_ALLOC'', 524288),
      (''PTR_TRUSTED'', 1048576), (''MEM_RCU'', 2097152), (''NON_OWN_REF'', 4194304),
      (''DYNPTR_TYPE_SKB'', 8388608), (''DYNPTR_TYPE_XDP'', 16777216),
      (''MEM_ALIGNED'', 33554432), (''MEM_WRITE'', 67108864),
      (''DYNPTR_TYPE_SKB_META'', 134217728), (''DYNPTR_TYPE_FILE'', 268435456),
      (''__BPF_TYPE_FLAG_MAX'', 268435457), (''__BPF_TYPE_LAST_FLAG'', 268435456)]"

definition enum_btf_arg_tag :: cty where
  "enum_btf_arg_tag = CEnum 4
     [(''ARG_TAG_CTX'', 1), (''ARG_TAG_NONNULL'', 2), (''ARG_TAG_TRUSTED'', 4),
      (''ARG_TAG_UNTRUSTED'', 8), (''ARG_TAG_NULLABLE'', 16), (''ARG_TAG_ARENA'', 32)]"

definition enum_btf_kfunc_hook :: cty where
  "enum_btf_kfunc_hook = CEnum 4
     [(''BTF_KFUNC_HOOK_COMMON'', 0), (''BTF_KFUNC_HOOK_XDP'', 1), (''BTF_KFUNC_HOOK_TC'', 2),
      (''BTF_KFUNC_HOOK_STRUCT_OPS'', 3), (''BTF_KFUNC_HOOK_TRACING'', 4),
      (''BTF_KFUNC_HOOK_SYSCALL'', 5), (''BTF_KFUNC_HOOK_FMODRET'', 6),
      (''BTF_KFUNC_HOOK_CGROUP'', 7), (''BTF_KFUNC_HOOK_SCHED_ACT'', 8),
      (''BTF_KFUNC_HOOK_SK_SKB'', 9), (''BTF_KFUNC_HOOK_SOCKET_FILTER'', 10),
      (''BTF_KFUNC_HOOK_LWT'', 11), (''BTF_KFUNC_HOOK_NETFILTER'', 12),
      (''BTF_KFUNC_HOOK_KPROBE'', 13), (''BTF_KFUNC_HOOK_MAX'', 14)]"

definition enum_cgroup_bpf_attach_type :: cty where
  "enum_cgroup_bpf_attach_type = CEnum 4
     [(''CGROUP_BPF_ATTACH_TYPE_INVALID'', (- 1)), (''CGROUP_INET_INGRESS'', 0),
      (''CGROUP_INET_EGRESS'', 1), (''CGROUP_INET_SOCK_CREATE'', 2), (''CGROUP_SOCK_OPS'', 3),
      (''CGROUP_DEVICE'', 4), (''CGROUP_INET4_BIND'', 5), (''CGROUP_INET6_BIND'', 6),
      (''CGROUP_INET4_CONNECT'', 7), (''CGROUP_INET6_CONNECT'', 8),
      (''CGROUP_UNIX_CONNECT'', 9), (''CGROUP_INET4_POST_BIND'', 10),
      (''CGROUP_INET6_POST_BIND'', 11), (''CGROUP_UDP4_SENDMSG'', 12),
      (''CGROUP_UDP6_SENDMSG'', 13), (''CGROUP_UNIX_SENDMSG'', 14), (''CGROUP_SYSCTL'', 15),
      (''CGROUP_UDP4_RECVMSG'', 16), (''CGROUP_UDP6_RECVMSG'', 17),
      (''CGROUP_UNIX_RECVMSG'', 18), (''CGROUP_GETSOCKOPT'', 19), (''CGROUP_SETSOCKOPT'', 20),
      (''CGROUP_INET4_GETPEERNAME'', 21), (''CGROUP_INET6_GETPEERNAME'', 22),
      (''CGROUP_UNIX_GETPEERNAME'', 23), (''CGROUP_INET4_GETSOCKNAME'', 24),
      (''CGROUP_INET6_GETSOCKNAME'', 25), (''CGROUP_UNIX_GETSOCKNAME'', 26),
      (''CGROUP_INET_SOCK_RELEASE'', 27), (''CGROUP_LSM_START'', 28), (''CGROUP_LSM_END'', 37),
      (''MAX_CGROUP_BPF_ATTACH_TYPE'', 38)]"

definition enum_bpf_async_type :: cty where
  "enum_bpf_async_type = CEnum 4
     [(''BPF_ASYNC_TYPE_TIMER'', 0), (''BPF_ASYNC_TYPE_WQ'', 1)]"

definition struct_bpf_async_cb :: cty where
  "struct_bpf_async_cb = CStruct ''bpf_async_cb'' False
     [Field ''map'' (CPtr ''struct bpf_map''),
      Field ''prog'' (CPtr ''struct bpf_prog''),
      Field ''callback_fn'' (CPtr ''void''),
      Field ''value'' (CPtr ''void''),
      Field ''rcu'' struct_callback_head,
      Field ''flags'' u64,
      Field ''worker'' struct_irq_work,
      Field ''refcnt'' refcount_t,
      Field ''type'' enum_bpf_async_type,
      Field ''async_cmds'' struct_llist_head]"

definition struct_bpf_async_kern :: cty where
  "struct_bpf_async_kern = CStruct ''bpf_async_kern'' False
     [Field [] (CUnion [] False
        [Field ''cb'' (CPtr ''struct bpf_async_cb''),
         Field ''timer'' (CPtr ''struct bpf_hrtimer''),
         Field ''work'' (CPtr ''struct bpf_work'')])]"

definition struct_bpf_attach_target_info :: cty where
  "struct_bpf_attach_target_info = CStruct ''bpf_attach_target_info'' False
     [Field ''fmodel'' struct_btf_func_model,
      Field ''tgt_addr'' c_long,
      Field ''tgt_mod'' (CPtr ''struct module''),
      Field ''tgt_name'' (CPtr ''const char''),
      Field ''tgt_type'' (CPtr ''const struct btf_type'')]"

definition struct_bpf_bloom_filter :: cty where
  "struct_bpf_bloom_filter = CStruct ''bpf_bloom_filter'' False
     [Field ''map'' struct_bpf_map,
      Field ''bitset_mask'' u32,
      Field ''hash_seed'' u32,
      Field ''nr_hash_funcs'' u32,
      Field ''bitset'' (CArr 0 long_unsigned_int)]"

definition struct_bpf_map_desc :: cty where
  "struct_bpf_map_desc = CStruct ''bpf_map_desc'' False
     [Field ''ptr'' (CPtr ''struct bpf_map''),
      Field ''uid'' c_int]"

definition struct_bpf_call_arg_meta :: cty where
  "struct_bpf_call_arg_meta = CStruct ''bpf_call_arg_meta'' False
     [Field ''map'' struct_bpf_map_desc,
      Field ''raw_mode'' bool,
      Field ''pkt_access'' bool,
      Field ''release_regno'' u8,
      Field ''regno'' c_int,
      Field ''access_size'' c_int,
      Field ''mem_size'' c_int,
      Field ''msize_max_value'' u64,
      Field ''ref_obj_id'' c_int,
      Field ''dynptr_id'' c_int,
      Field ''func_id'' c_int,
      Field ''btf'' (CPtr ''struct btf''),
      Field ''btf_id'' u32,
      Field ''ret_btf'' (CPtr ''struct btf''),
      Field ''ret_btf_id'' u32,
      Field ''subprogno'' u32,
      Field ''kptr_field'' (CPtr ''struct btf_field''),
      Field ''const_map_key'' s64]"

definition struct_bpf_cand_cache :: cty where
  "struct_bpf_cand_cache = CStruct ''bpf_cand_cache'' False
     [Field ''name'' (CPtr ''const char''),
      Field ''name_len'' u32,
      Field ''kind'' u16,
      Field ''cnt'' u16,
      Field ''cands'' (CArr 0 (CStruct [] False
        [Field ''btf'' (CPtr ''const struct btf''),
         Field ''id'' u32]))]"

definition struct_bpf_core_relo_res :: cty where
  "struct_bpf_core_relo_res = CStruct ''bpf_core_relo_res'' False
     [Field ''orig_val'' c__u64,
      Field ''new_val'' c__u64,
      Field ''poison'' bool,
      Field ''validate'' bool,
      Field ''fail_memsz_adjust'' bool,
      Field ''orig_sz'' c__u32,
      Field ''orig_type_id'' c__u32,
      Field ''new_sz'' c__u32,
      Field ''new_type_id'' c__u32]"

definition struct_bpf_core_accessor :: cty where
  "struct_bpf_core_accessor = CStruct ''bpf_core_accessor'' False
     [Field ''type_id'' c__u32,
      Field ''idx'' c__u32,
      Field ''name'' (CPtr ''const char'')]"

definition struct_bpf_core_spec :: cty where
  "struct_bpf_core_spec = CStruct ''bpf_core_spec'' False
     [Field ''btf'' (CPtr ''const struct btf''),
      Field ''spec'' (CArr 64 struct_bpf_core_accessor),
      Field ''root_type_id'' c__u32,
      Field ''relo_kind'' enum_bpf_core_relo_kind,
      Field ''len'' c_int,
      Field ''raw_spec'' (CArr 64 c_int),
      Field ''raw_len'' c_int,
      Field ''bit_offset'' c__u32]"

definition struct_bpf_cpumap_val :: cty where
  "struct_bpf_cpumap_val = CStruct ''bpf_cpumap_val'' False
     [Field ''qsize'' c__u32,
      Field ''bpf_prog'' (CUnion [] False
        [Field ''fd'' c_int,
         Field ''id'' c__u32])]"

definition struct_bpf_cpu_map_entry :: cty where
  "struct_bpf_cpu_map_entry = CStruct ''bpf_cpu_map_entry'' False
     [Field ''cpu'' u32,
      Field ''map_id'' c_int,
      Field ''bulkq'' (CPtr ''struct xdp_bulk_queue''),
      Field ''queue'' (CPtr ''struct ptr_ring''),
      Field ''kthread'' (CPtr ''struct task_struct''),
      Field ''value'' struct_bpf_cpumap_val,
      Field ''prog'' (CPtr ''struct bpf_prog''),
      Field ''gro'' struct_gro_node,
      Field ''kthread_running'' struct_completion,
      Field ''free_work'' struct_rcu_work]"

definition struct_bpf_crypto_ctx :: cty where
  "struct_bpf_crypto_ctx = CStruct ''bpf_crypto_ctx'' False
     [Field ''type'' (CPtr ''const struct bpf_crypto_type''),
      Field ''tfm'' (CPtr ''void''),
      Field ''siv_len'' u32,
      Field ''rcu'' struct_callback_head,
      Field ''usage'' refcount_t]"

definition struct_bpf_crypto_params :: cty where
  "struct_bpf_crypto_params = CStruct ''bpf_crypto_params'' False
     [Field ''type'' (CArr 14 c_char),
      Field ''reserved'' (CArr 2 u8),
      Field ''algo'' (CArr 128 c_char),
      Field ''key'' (CArr 256 u8),
      Field ''key_len'' u32,
      Field ''authsize'' u32]"

definition struct_bpf_crypto_type :: cty where
  "struct_bpf_crypto_type = CStruct ''bpf_crypto_type'' False
     [Field ''alloc_tfm'' (CPtr ''void * (const char *)''),
      Field ''free_tfm'' (CPtr ''void (void *)''),
      Field ''has_algo'' (CPtr ''int (const char *)''),
      Field ''setkey'' (CPtr ''int (void *, const u8 *, unsigned int)''),
      Field ''setauthsize'' (CPtr ''int (void *, unsigned int)''),
      Field ''encrypt'' (CPtr ''int (void *, const u8 *, u8 *, unsigned int, u8 *)''),
      Field ''decrypt'' (CPtr ''int (void *, const u8 *, u8 *, unsigned int, u8 *)''),
      Field ''ivsize'' (CPtr ''unsigned int (void *)''),
      Field ''statesize'' (CPtr ''unsigned int (void *)''),
      Field ''get_flags'' (CPtr ''u32 (void *)''),
      Field ''owner'' (CPtr ''struct module''),
      Field ''name'' (CArr 14 c_char)]"

definition struct_bpf_sock_addr_kern :: cty where
  "struct_bpf_sock_addr_kern = CStruct ''bpf_sock_addr_kern'' False
     [Field ''sk'' (CPtr ''struct sock''),
      Field ''uaddr'' (CPtr ''struct sockaddr_unsized''),
      Field ''tmp_reg'' u64,
      Field ''t_ctx'' (CPtr ''void''),
      Field ''uaddrlen'' u32]"

definition struct_bpf_sock_ops_kern :: cty where
  "struct_bpf_sock_ops_kern = CStruct ''bpf_sock_ops_kern'' False
     [Field ''sk'' (CPtr ''struct sock''),
      Field [] (CUnion [] False
        [Field ''args'' (CArr 4 u32),
         Field ''reply'' u32,
         Field ''replylong'' (CArr 4 u32)]),
      Field ''syn_skb'' (CPtr ''struct sk_buff''),
      Field ''skb'' (CPtr ''struct sk_buff''),
      Field ''skb_data_end'' (CPtr ''void''),
      Field ''op'' u8,
      Field ''is_fullsock'' u8,
      Field ''is_locked_tcp_sock'' u8,
      Field ''remaining_opt_len'' u8,
      Field ''temp'' u64]"

definition struct_bpf_sysctl_kern :: cty where
  "struct_bpf_sysctl_kern = CStruct ''bpf_sysctl_kern'' False
     [Field ''head'' (CPtr ''struct ctl_table_header''),
      Field ''table'' (CPtr ''const struct ctl_table''),
      Field ''cur_val'' (CPtr ''void''),
      Field ''cur_len'' size_t,
      Field ''new_val'' (CPtr ''void''),
      Field ''new_len'' size_t,
      Field ''new_updated'' c_int,
      Field ''write'' c_int,
      Field ''ppos'' (CPtr ''loff_t''),
      Field ''tmp_reg'' u64]"

definition struct_bpf_sockopt :: cty where
  "struct_bpf_sockopt = CStruct ''bpf_sockopt'' False
     [Field [] (CUnion [] False
        [Field ''sk'' (CPtr ''struct bpf_sock'')]),
      Field [] (CUnion [] False
        [Field ''optval'' (CPtr ''void'')]),
      Field [] (CUnion [] False
        [Field ''optval_end'' (CPtr ''void'')]),
      Field ''level'' c__s32,
      Field ''optname'' c__s32,
      Field ''optlen'' c__s32,
      Field ''retval'' c__s32]"

definition struct_bpf_sockopt_kern :: cty where
  "struct_bpf_sockopt_kern = CStruct ''bpf_sockopt_kern'' False
     [Field ''sk'' (CPtr ''struct sock''),
      Field ''optval'' (CPtr ''u8''),
      Field ''optval_end'' (CPtr ''u8''),
      Field ''level'' s32,
      Field ''optname'' s32,
      Field ''optlen'' s32,
      Field ''current_task'' (CPtr ''struct task_struct''),
      Field ''tmp_reg'' u64]"

definition struct_bpf_sk_lookup_kern :: cty where
  "struct_bpf_sk_lookup_kern = CStruct ''bpf_sk_lookup_kern'' False
     [Field ''family'' u16,
      Field ''protocol'' u16,
      Field ''sport'' c__be16,
      Field ''dport'' u16,
      Field ''v4'' (CStruct [] False
        [Field ''saddr'' c__be32,
         Field ''daddr'' c__be32]),
      Field ''v6'' (CStruct [] False
        [Field ''saddr'' (CPtr ''const struct in6_addr''),
         Field ''daddr'' (CPtr ''const struct in6_addr'')]),
      Field ''selected_sk'' (CPtr ''struct sock''),
      Field ''ingress_ifindex'' u32,
      Field ''no_reuseport'' bool]"

definition struct_scatterlist :: cty where
  "struct_scatterlist = CStruct ''scatterlist'' False
     [Field ''page_link'' long_unsigned_int,
      Field ''offset'' unsigned_int,
      Field ''length'' unsigned_int,
      Field ''dma_address'' dma_addr_t,
      Field ''dma_length'' unsigned_int,
      Field ''dma_flags'' unsigned_int]"

definition struct_sk_msg_sg :: cty where
  "struct_sk_msg_sg = CStruct ''sk_msg_sg'' False
     [Field ''start'' u32,
      Field ''curr'' u32,
      Field ''end'' u32,
      Field ''size'' u32,
      Field ''copybreak'' u32,
      Field ''copy'' (CArr 1 long_unsigned_int),
      Field ''data'' (CArr 19 struct_scatterlist)]"

definition struct_sk_msg :: cty where
  "struct_sk_msg = CStruct ''sk_msg'' False
     [Field ''sg'' struct_sk_msg_sg,
      Field ''data'' (CPtr ''void''),
      Field ''data_end'' (CPtr ''void''),
      Field ''apply_bytes'' u32,
      Field ''cork_bytes'' u32,
      Field ''flags'' u32,
      Field ''skb'' (CPtr ''struct sk_buff''),
      Field ''sk_redir'' (CPtr ''struct sock''),
      Field ''sk'' (CPtr ''struct sock''),
      Field ''list'' struct_list_head]"

definition struct_bpf_flow_dissector :: cty where
  "struct_bpf_flow_dissector = CStruct ''bpf_flow_dissector'' False
     [Field ''flow_keys'' (CPtr ''struct bpf_flow_keys''),
      Field ''skb'' (CPtr ''const struct sk_buff''),
      Field ''data'' (CPtr ''const void''),
      Field ''data_end'' (CPtr ''const void'')]"

definition struct_bpf_perf_event_data_kern :: cty where
  "struct_bpf_perf_event_data_kern = CStruct ''bpf_perf_event_data_kern'' False
     [Field ''regs'' (CPtr ''bpf_user_pt_regs_t''),
      Field ''data'' (CPtr ''struct perf_sample_data''),
      Field ''event'' (CPtr ''struct perf_event'')]"

definition struct_bpf_cgroup_dev_ctx :: cty where
  "struct_bpf_cgroup_dev_ctx = CStruct ''bpf_cgroup_dev_ctx'' False
     [Field ''access_type'' c__u32,
      Field ''major'' c__u32,
      Field ''minor'' c__u32]"

definition struct_sk_reuseport_kern :: cty where
  "struct_sk_reuseport_kern = CStruct ''sk_reuseport_kern'' False
     [Field ''skb'' (CPtr ''struct sk_buff''),
      Field ''sk'' (CPtr ''struct sock''),
      Field ''selected_sk'' (CPtr ''struct sock''),
      Field ''migrating_sk'' (CPtr ''struct sock''),
      Field ''data_end'' (CPtr ''void''),
      Field ''hash'' u32,
      Field ''reuseport_id'' u32,
      Field ''bind_inany'' bool]"

definition struct_bpf_nf_ctx :: cty where
  "struct_bpf_nf_ctx = CStruct ''bpf_nf_ctx'' False
     [Field ''state'' (CPtr ''const struct nf_hook_state''),
      Field ''skb'' (CPtr ''struct sk_buff'')]"

definition struct_bpf_ctx_convert :: cty where
  "struct_bpf_ctx_convert = CStruct ''bpf_ctx_convert'' False
     [Field ''BPF_PROG_TYPE_SOCKET_FILTER_prog'' struct___sk_buff,
      Field ''BPF_PROG_TYPE_SOCKET_FILTER_kern'' struct_sk_buff,
      Field ''BPF_PROG_TYPE_SCHED_CLS_prog'' struct___sk_buff,
      Field ''BPF_PROG_TYPE_SCHED_CLS_kern'' struct_sk_buff,
      Field ''BPF_PROG_TYPE_SCHED_ACT_prog'' struct___sk_buff,
      Field ''BPF_PROG_TYPE_SCHED_ACT_kern'' struct_sk_buff,
      Field ''BPF_PROG_TYPE_XDP_prog'' struct_xdp_md,
      Field ''BPF_PROG_TYPE_XDP_kern'' struct_xdp_buff,
      Field ''BPF_PROG_TYPE_CGROUP_SKB_prog'' struct___sk_buff,
      Field ''BPF_PROG_TYPE_CGROUP_SKB_kern'' struct_sk_buff,
      Field ''BPF_PROG_TYPE_CGROUP_SOCK_prog'' struct_bpf_sock,
      Field ''BPF_PROG_TYPE_CGROUP_SOCK_kern'' struct_sock,
      Field ''BPF_PROG_TYPE_CGROUP_SOCK_ADDR_prog'' struct_bpf_sock_addr,
      Field ''BPF_PROG_TYPE_CGROUP_SOCK_ADDR_kern'' struct_bpf_sock_addr_kern,
      Field ''BPF_PROG_TYPE_LWT_IN_prog'' struct___sk_buff,
      Field ''BPF_PROG_TYPE_LWT_IN_kern'' struct_sk_buff,
      Field ''BPF_PROG_TYPE_LWT_OUT_prog'' struct___sk_buff,
      Field ''BPF_PROG_TYPE_LWT_OUT_kern'' struct_sk_buff,
      Field ''BPF_PROG_TYPE_LWT_XMIT_prog'' struct___sk_buff,
      Field ''BPF_PROG_TYPE_LWT_XMIT_kern'' struct_sk_buff,
      Field ''BPF_PROG_TYPE_LWT_SEG6LOCAL_prog'' struct___sk_buff,
      Field ''BPF_PROG_TYPE_LWT_SEG6LOCAL_kern'' struct_sk_buff,
      Field ''BPF_PROG_TYPE_SOCK_OPS_prog'' struct_bpf_sock_ops,
      Field ''BPF_PROG_TYPE_SOCK_OPS_kern'' struct_bpf_sock_ops_kern,
      Field ''BPF_PROG_TYPE_SK_SKB_prog'' struct___sk_buff,
      Field ''BPF_PROG_TYPE_SK_SKB_kern'' struct_sk_buff,
      Field ''BPF_PROG_TYPE_SK_MSG_prog'' struct_sk_msg_md,
      Field ''BPF_PROG_TYPE_SK_MSG_kern'' struct_sk_msg,
      Field ''BPF_PROG_TYPE_FLOW_DISSECTOR_prog'' struct___sk_buff,
      Field ''BPF_PROG_TYPE_FLOW_DISSECTOR_kern'' struct_bpf_flow_dissector,
      Field ''BPF_PROG_TYPE_KPROBE_prog'' bpf_user_pt_regs_t,
      Field ''BPF_PROG_TYPE_KPROBE_kern'' struct_pt_regs,
      Field ''BPF_PROG_TYPE_TRACEPOINT_prog'' c__u64,
      Field ''BPF_PROG_TYPE_TRACEPOINT_kern'' u64,
      Field ''BPF_PROG_TYPE_PERF_EVENT_prog'' struct_bpf_perf_event_data,
      Field ''BPF_PROG_TYPE_PERF_EVENT_kern'' struct_bpf_perf_event_data_kern,
      Field ''BPF_PROG_TYPE_RAW_TRACEPOINT_prog'' struct_bpf_raw_tracepoint_args,
      Field ''BPF_PROG_TYPE_RAW_TRACEPOINT_kern'' u64,
      Field ''BPF_PROG_TYPE_RAW_TRACEPOINT_WRITABLE_prog'' struct_bpf_raw_tracepoint_args,
      Field ''BPF_PROG_TYPE_RAW_TRACEPOINT_WRITABLE_kern'' u64,
      Field ''BPF_PROG_TYPE_TRACING_prog'' (CPtr ''void''),
      Field ''BPF_PROG_TYPE_TRACING_kern'' (CPtr ''void''),
      Field ''BPF_PROG_TYPE_CGROUP_DEVICE_prog'' struct_bpf_cgroup_dev_ctx,
      Field ''BPF_PROG_TYPE_CGROUP_DEVICE_kern'' struct_bpf_cgroup_dev_ctx,
      Field ''BPF_PROG_TYPE_CGROUP_SYSCTL_prog'' struct_bpf_sysctl,
      Field ''BPF_PROG_TYPE_CGROUP_SYSCTL_kern'' struct_bpf_sysctl_kern,
      Field ''BPF_PROG_TYPE_CGROUP_SOCKOPT_prog'' struct_bpf_sockopt,
      Field ''BPF_PROG_TYPE_CGROUP_SOCKOPT_kern'' struct_bpf_sockopt_kern,
      Field ''BPF_PROG_TYPE_SK_REUSEPORT_prog'' struct_sk_reuseport_md,
      Field ''BPF_PROG_TYPE_SK_REUSEPORT_kern'' struct_sk_reuseport_kern,
      Field ''BPF_PROG_TYPE_SK_LOOKUP_prog'' struct_bpf_sk_lookup,
      Field ''BPF_PROG_TYPE_SK_LOOKUP_kern'' struct_bpf_sk_lookup_kern,
      Field ''BPF_PROG_TYPE_STRUCT_OPS_prog'' (CPtr ''void''),
      Field ''BPF_PROG_TYPE_STRUCT_OPS_kern'' (CPtr ''void''),
      Field ''BPF_PROG_TYPE_EXT_prog'' (CPtr ''void''),
      Field ''BPF_PROG_TYPE_EXT_kern'' (CPtr ''void''),
      Field ''BPF_PROG_TYPE_LSM_prog'' (CPtr ''void''),
      Field ''BPF_PROG_TYPE_LSM_kern'' (CPtr ''void''),
      Field ''BPF_PROG_TYPE_SYSCALL_prog'' (CPtr ''void''),
      Field ''BPF_PROG_TYPE_SYSCALL_kern'' (CPtr ''void''),
      Field ''BPF_PROG_TYPE_NETFILTER_prog'' struct_bpf_nf_ctx,
      Field ''BPF_PROG_TYPE_NETFILTER_kern'' struct_bpf_nf_ctx]"

definition struct_bpf_devmap_val :: cty where
  "struct_bpf_devmap_val = CStruct ''bpf_devmap_val'' False
     [Field ''ifindex'' c__u32,
      Field ''bpf_prog'' (CUnion [] False
        [Field ''fd'' c_int,
         Field ''id'' c__u32])]"

definition struct_bpf_dtab :: cty where
  "struct_bpf_dtab = CStruct ''bpf_dtab'' False
     [Field ''map'' struct_bpf_map,
      Field ''netdev_map'' (CPtr ''struct bpf_dtab_netdev *''),
      Field ''list'' struct_list_head,
      Field ''dev_index_head'' (CPtr ''struct hlist_head''),
      Field ''index_lock'' spinlock_t,
      Field ''items'' unsigned_int,
      Field ''n_buckets'' u32]"

definition struct_bpf_dtab_netdev :: cty where
  "struct_bpf_dtab_netdev = CStruct ''bpf_dtab_netdev'' False
     [Field ''dev'' (CPtr ''struct net_device''),
      Field ''index_hlist'' struct_hlist_node,
      Field ''xdp_prog'' (CPtr ''struct bpf_prog''),
      Field ''rcu'' struct_callback_head,
      Field ''idx'' unsigned_int,
      Field ''val'' struct_bpf_devmap_val]"

definition struct_bpf_insn_access_aux :: cty where
  "struct_bpf_insn_access_aux = CStruct ''bpf_insn_access_aux'' False
     [Field ''reg_type'' enum_bpf_reg_type,
      Field ''is_ldsx'' bool,
      Field [] (CUnion [] False
        [Field ''ctx_field_size'' c_int,
         Field [] (CStruct [] False
           [Field ''btf'' (CPtr ''struct btf''),
            Field ''btf_id'' u32,
            Field ''ref_obj_id'' u32])]),
      Field ''log'' (CPtr ''struct bpf_verifier_log''),
      Field ''is_retval'' bool]"

definition struct_bpf_insn_array_value :: cty where
  "struct_bpf_insn_array_value = CStruct ''bpf_insn_array_value'' False
     [Field ''orig_off'' c__u32,
      Field ''xlated_off'' c__u32,
      Field ''jitted_off'' c__u32,
      BitField [] c_long 0]"

definition struct_bpf_insn_array :: cty where
  "struct_bpf_insn_array = CStruct ''bpf_insn_array'' False
     [Field ''map'' struct_bpf_map,
      Field ''used'' atomic_t,
      Field ''ips'' (CPtr ''long int''),
      Field [] (CStruct [] False
        [Field ''__empty_values'' (CStruct [] False
           []),
         Field ''values'' (CArr 0 struct_bpf_insn_array_value)])]"

definition struct_bpf_iter__bpf_link :: cty where
  "struct_bpf_iter__bpf_link = CStruct ''bpf_iter__bpf_link'' False
     [Field [] (CUnion [] False
        [Field ''meta'' (CPtr ''struct bpf_iter_meta'')]),
      Field [] (CUnion [] False
        [Field ''link'' (CPtr ''struct bpf_link'')])]"

definition struct_bpf_iter__bpf_map :: cty where
  "struct_bpf_iter__bpf_map = CStruct ''bpf_iter__bpf_map'' False
     [Field [] (CUnion [] False
        [Field ''meta'' (CPtr ''struct bpf_iter_meta'')]),
      Field [] (CUnion [] False
        [Field ''map'' (CPtr ''struct bpf_map'')])]"

definition struct_bpf_iter__bpf_map_elem :: cty where
  "struct_bpf_iter__bpf_map_elem = CStruct ''bpf_iter__bpf_map_elem'' False
     [Field [] (CUnion [] False
        [Field ''meta'' (CPtr ''struct bpf_iter_meta'')]),
      Field [] (CUnion [] False
        [Field ''map'' (CPtr ''struct bpf_map'')]),
      Field [] (CUnion [] False
        [Field ''key'' (CPtr ''void'')]),
      Field [] (CUnion [] False
        [Field ''value'' (CPtr ''void'')])]"

definition struct_bpf_iter__bpf_prog :: cty where
  "struct_bpf_iter__bpf_prog = CStruct ''bpf_iter__bpf_prog'' False
     [Field [] (CUnion [] False
        [Field ''meta'' (CPtr ''struct bpf_iter_meta'')]),
      Field [] (CUnion [] False
        [Field ''prog'' (CPtr ''struct bpf_prog'')])]"

definition struct_bpf_iter__bpf_sk_storage_map :: cty where
  "struct_bpf_iter__bpf_sk_storage_map = CStruct ''bpf_iter__bpf_sk_storage_map'' False
     [Field [] (CUnion [] False
        [Field ''meta'' (CPtr ''struct bpf_iter_meta'')]),
      Field [] (CUnion [] False
        [Field ''map'' (CPtr ''struct bpf_map'')]),
      Field [] (CUnion [] False
        [Field ''sk'' (CPtr ''struct sock'')]),
      Field [] (CUnion [] False
        [Field ''value'' (CPtr ''void'')])]"

definition struct_bpf_iter__cgroup :: cty where
  "struct_bpf_iter__cgroup = CStruct ''bpf_iter__cgroup'' False
     [Field [] (CUnion [] False
        [Field ''meta'' (CPtr ''struct bpf_iter_meta'')]),
      Field [] (CUnion [] False
        [Field ''cgroup'' (CPtr ''struct cgroup'')])]"

definition struct_bpf_iter__dmabuf :: cty where
  "struct_bpf_iter__dmabuf = CStruct ''bpf_iter__dmabuf'' False
     [Field [] (CUnion [] False
        [Field ''meta'' (CPtr ''struct bpf_iter_meta'')]),
      Field [] (CUnion [] False
        [Field ''dmabuf'' (CPtr ''struct dma_buf'')])]"

definition struct_bpf_iter__ipv6_route :: cty where
  "struct_bpf_iter__ipv6_route = CStruct ''bpf_iter__ipv6_route'' False
     [Field [] (CUnion [] False
        [Field ''meta'' (CPtr ''struct bpf_iter_meta'')]),
      Field [] (CUnion [] False
        [Field ''rt'' (CPtr ''struct fib6_info'')])]"

definition struct_bpf_iter__kmem_cache :: cty where
  "struct_bpf_iter__kmem_cache = CStruct ''bpf_iter__kmem_cache'' False
     [Field [] (CUnion [] False
        [Field ''meta'' (CPtr ''struct bpf_iter_meta'')]),
      Field [] (CUnion [] False
        [Field ''s'' (CPtr ''struct kmem_cache'')])]"

definition struct_bpf_iter__ksym :: cty where
  "struct_bpf_iter__ksym = CStruct ''bpf_iter__ksym'' False
     [Field [] (CUnion [] False
        [Field ''meta'' (CPtr ''struct bpf_iter_meta'')]),
      Field [] (CUnion [] False
        [Field ''ksym'' (CPtr ''struct kallsym_iter'')])]"

definition struct_bpf_iter__netlink :: cty where
  "struct_bpf_iter__netlink = CStruct ''bpf_iter__netlink'' False
     [Field [] (CUnion [] False
        [Field ''meta'' (CPtr ''struct bpf_iter_meta'')]),
      Field [] (CUnion [] False
        [Field ''sk'' (CPtr ''struct netlink_sock'')])]"

definition struct_bpf_iter__sockmap :: cty where
  "struct_bpf_iter__sockmap = CStruct ''bpf_iter__sockmap'' False
     [Field [] (CUnion [] False
        [Field ''meta'' (CPtr ''struct bpf_iter_meta'')]),
      Field [] (CUnion [] False
        [Field ''map'' (CPtr ''struct bpf_map'')]),
      Field [] (CUnion [] False
        [Field ''key'' (CPtr ''void'')]),
      Field [] (CUnion [] False
        [Field ''sk'' (CPtr ''struct sock'')])]"

definition struct_bpf_iter__task :: cty where
  "struct_bpf_iter__task = CStruct ''bpf_iter__task'' False
     [Field [] (CUnion [] False
        [Field ''meta'' (CPtr ''struct bpf_iter_meta'')]),
      Field [] (CUnion [] False
        [Field ''task'' (CPtr ''struct task_struct'')])]"

definition struct_bpf_iter__task_file :: cty where
  "struct_bpf_iter__task_file = CStruct ''bpf_iter__task_file'' False
     [Field [] (CUnion [] False
        [Field ''meta'' (CPtr ''struct bpf_iter_meta'')]),
      Field [] (CUnion [] False
        [Field ''task'' (CPtr ''struct task_struct'')]),
      Field ''fd'' u32,
      Field [] (CUnion [] False
        [Field ''file'' (CPtr ''struct file'')])]"

definition struct_bpf_iter__task_vma :: cty where
  "struct_bpf_iter__task_vma = CStruct ''bpf_iter__task_vma'' False
     [Field [] (CUnion [] False
        [Field ''meta'' (CPtr ''struct bpf_iter_meta'')]),
      Field [] (CUnion [] False
        [Field ''task'' (CPtr ''struct task_struct'')]),
      Field [] (CUnion [] False
        [Field ''vma'' (CPtr ''struct vm_area_struct'')])]"

definition struct_bpf_iter__tcp :: cty where
  "struct_bpf_iter__tcp = CStruct ''bpf_iter__tcp'' False
     [Field [] (CUnion [] False
        [Field ''meta'' (CPtr ''struct bpf_iter_meta'')]),
      Field [] (CUnion [] False
        [Field ''sk_common'' (CPtr ''struct sock_common'')]),
      Field ''uid'' uid_t]"

definition struct_bpf_iter__udp :: cty where
  "struct_bpf_iter__udp = CStruct ''bpf_iter__udp'' False
     [Field [] (CUnion [] False
        [Field ''meta'' (CPtr ''struct bpf_iter_meta'')]),
      Field [] (CUnion [] False
        [Field ''udp_sk'' (CPtr ''struct udp_sock'')]),
      Field ''uid'' uid_t,
      BitField [] c_long 0,
      Field ''bucket'' c_int]"

definition struct_bpf_iter__unix :: cty where
  "struct_bpf_iter__unix = CStruct ''bpf_iter__unix'' False
     [Field [] (CUnion [] False
        [Field ''meta'' (CPtr ''struct bpf_iter_meta'')]),
      Field [] (CUnion [] False
        [Field ''unix_sk'' (CPtr ''struct unix_sock'')]),
      Field ''uid'' uid_t]"

definition enum_bpf_iter_task_type :: cty where
  "enum_bpf_iter_task_type = CEnum 4
     [(''BPF_TASK_ITER_ALL'', 0), (''BPF_TASK_ITER_TID'', 1), (''BPF_TASK_ITER_TGID'', 2)]"

definition struct_bpf_iter_aux_info :: cty where
  "struct_bpf_iter_aux_info = CStruct ''bpf_iter_aux_info'' False
     [Field ''map'' (CPtr ''struct bpf_map''),
      Field ''cgroup'' (CStruct [] False
        [Field ''start'' (CPtr ''struct cgroup''),
         Field ''order'' enum_bpf_cgroup_iter_order]),
      Field ''task'' (CStruct [] False
        [Field ''type'' enum_bpf_iter_task_type,
         Field ''pid'' u32])]"

definition struct_bpf_iter_bits_kern :: cty where
  "struct_bpf_iter_bits_kern = CStruct ''bpf_iter_bits_kern'' False
     [Field [] (CUnion [] False
        [Field ''bits'' (CPtr ''__u64''),
         Field ''bits_copy'' c__u64]),
      Field ''nr_bits'' c_int,
      Field ''bit'' c_int]"

definition struct_bpf_iter_meta :: cty where
  "struct_bpf_iter_meta = CStruct ''bpf_iter_meta'' False
     [Field [] (CUnion [] False
        [Field ''seq'' (CPtr ''struct seq_file'')]),
      Field ''session_id'' u64,
      Field ''seq_num'' u64]"

definition struct_bpf_iter_priv_data :: cty where
  "struct_bpf_iter_priv_data = CStruct ''bpf_iter_priv_data'' False
     [Field ''tinfo'' (CPtr ''struct bpf_iter_target_info''),
      Field ''seq_info'' (CPtr ''const struct bpf_iter_seq_info''),
      Field ''prog'' (CPtr ''struct bpf_prog''),
      Field ''session_id'' u64,
      Field ''seq_num'' u64,
      Field ''done_stop'' bool,
      BitField [] c_long 0,
      Field ''target_private'' (CArr 0 u8)]"

definition bpf_iter_attach_target_t :: cty where [layout_simps]:
  "bpf_iter_attach_target_t = CPtr ''int (struct bpf_prog *, union bpf_iter_link_info *, struct bpf_iter_aux_info *)''"

definition bpf_iter_detach_target_t :: cty where [layout_simps]:
  "bpf_iter_detach_target_t = CPtr ''void (struct bpf_iter_aux_info *)''"

definition bpf_iter_show_fdinfo_t :: cty where [layout_simps]:
  "bpf_iter_show_fdinfo_t = CPtr ''void (const struct bpf_iter_aux_info *, struct seq_file *)''"

definition bpf_iter_fill_link_info_t :: cty where [layout_simps]:
  "bpf_iter_fill_link_info_t = CPtr ''int (const struct bpf_iter_aux_info *, struct bpf_link_info *)''"

definition bpf_iter_get_func_proto_t :: cty where [layout_simps]:
  "bpf_iter_get_func_proto_t = CPtr ''const struct bpf_func_proto * (enum bpf_func_id, const struct bpf_prog *)''"

definition struct_bpf_iter_reg :: cty where
  "struct_bpf_iter_reg = CStruct ''bpf_iter_reg'' False
     [Field ''target'' (CPtr ''const char''),
      Field ''attach_target'' bpf_iter_attach_target_t,
      Field ''detach_target'' bpf_iter_detach_target_t,
      Field ''show_fdinfo'' bpf_iter_show_fdinfo_t,
      Field ''fill_link_info'' bpf_iter_fill_link_info_t,
      Field ''get_func_proto'' bpf_iter_get_func_proto_t,
      Field ''ctx_arg_info_size'' u32,
      Field ''feature'' u32,
      Field ''ctx_arg_info'' (CArr 2 struct_bpf_ctx_arg_aux),
      Field ''seq_info'' (CPtr ''const struct bpf_iter_seq_info'')]"

definition struct_bpf_iter_seq_hash_map_info :: cty where
  "struct_bpf_iter_seq_hash_map_info = CStruct ''bpf_iter_seq_hash_map_info'' False
     [Field ''map'' (CPtr ''struct bpf_map''),
      Field ''htab'' (CPtr ''struct bpf_htab''),
      Field ''percpu_value_buf'' (CPtr ''void''),
      Field ''bucket_id'' u32,
      Field ''skip_elems'' u32]"

definition struct_bpf_iter_seq_task_common :: cty where
  "struct_bpf_iter_seq_task_common = CStruct ''bpf_iter_seq_task_common'' False
     [Field ''ns'' (CPtr ''struct pid_namespace''),
      Field ''type'' enum_bpf_iter_task_type,
      Field ''pid'' u32,
      Field ''pid_visiting'' u32]"

definition struct_bpf_iter_seq_task_vma_info :: cty where
  "struct_bpf_iter_seq_task_vma_info = CStruct ''bpf_iter_seq_task_vma_info'' False
     [Field ''common'' struct_bpf_iter_seq_task_common,
      Field ''task'' (CPtr ''struct task_struct''),
      Field ''mm'' (CPtr ''struct mm_struct''),
      Field ''vma'' (CPtr ''struct vm_area_struct''),
      Field ''tid'' u32,
      Field ''prev_vm_start'' long_unsigned_int,
      Field ''prev_vm_end'' long_unsigned_int]"

definition struct_bpf_iter_task_vma_kern_data :: cty where
  "struct_bpf_iter_task_vma_kern_data = CStruct ''bpf_iter_task_vma_kern_data'' False
     [Field ''task'' (CPtr ''struct task_struct''),
      Field ''mm'' (CPtr ''struct mm_struct''),
      BitField [] c_long 64,
      BitField [] c_long 64,
      BitField [] c_long 64,
      BitField [] c_long 64,
      BitField [] c_long 64,
      BitField [] c_long 64,
      Field ''snapshot'' struct_vm_area_struct,
      Field ''next_addr'' u64,
      BitField [] c_long 64,
      BitField [] c_long 64,
      BitField [] c_long 64,
      BitField [] c_long 64,
      BitField [] c_long 64,
      BitField [] c_long 64,
      BitField [] c_long 64]"

definition struct_bpf_kfunc_call_arg_meta :: cty where
  "struct_bpf_kfunc_call_arg_meta = CStruct ''bpf_kfunc_call_arg_meta'' False
     [Field ''btf'' (CPtr ''struct btf''),
      Field ''func_id'' u32,
      Field ''kfunc_flags'' u32,
      Field ''func_proto'' (CPtr ''const struct btf_type''),
      Field ''func_name'' (CPtr ''const char''),
      Field ''ref_obj_id'' u32,
      Field ''release_regno'' u8,
      Field ''r0_rdonly'' bool,
      Field ''ret_btf_id'' u32,
      Field ''r0_size'' u64,
      Field ''subprogno'' u32,
      Field ''arg_constant'' (CStruct [] False
        [Field ''value'' u64,
         Field ''found'' bool]),
      Field ''arg_btf'' (CPtr ''struct btf''),
      Field ''arg_btf_id'' u32,
      Field ''arg_owning_ref'' bool,
      Field ''arg_prog'' bool,
      Field ''arg_list_head'' (CStruct [] False
        [Field ''field'' (CPtr ''struct btf_field'')]),
      Field ''arg_rbtree_root'' (CStruct [] False
        [Field ''field'' (CPtr ''struct btf_field'')]),
      Field ''initialized_dynptr'' (CStruct [] False
        [Field ''type'' enum_bpf_dynptr_type,
         Field ''id'' u32,
         Field ''ref_obj_id'' u32]),
      Field ''iter'' (CStruct [] False
        [Field ''spi'' u8,
         Field ''frameno'' u8]),
      Field ''map'' struct_bpf_map_desc,
      Field ''mem_size'' u64]"

definition struct_bpf_kfunc_meta :: cty where
  "struct_bpf_kfunc_meta = CStruct ''bpf_kfunc_meta'' False
     [Field ''btf'' (CPtr ''struct btf''),
      Field ''proto'' (CPtr ''const struct btf_type''),
      Field ''name'' (CPtr ''const char''),
      Field ''flags'' (CPtr ''const u32''),
      Field ''id'' s32]"

definition fprobe_entry_cb :: cty where [layout_simps]:
  "fprobe_entry_cb = CPtr ''int (struct fprobe *, long unsigned int, long unsigned int, struct ftrace_regs *, void *)''"

definition fprobe_exit_cb :: cty where [layout_simps]:
  "fprobe_exit_cb = CPtr ''void (struct fprobe *, long unsigned int, long unsigned int, struct ftrace_regs *, void *)''"

definition struct_fprobe :: cty where
  "struct_fprobe = CStruct ''fprobe'' False
     [Field ''nmissed'' long_unsigned_int,
      Field ''flags'' unsigned_int,
      Field ''entry_data_size'' size_t,
      Field ''entry_handler'' fprobe_entry_cb,
      Field ''exit_handler'' fprobe_exit_cb,
      Field ''hlist_array'' (CPtr ''struct fprobe_hlist'')]"

definition struct_bpf_kprobe_multi_link :: cty where
  "struct_bpf_kprobe_multi_link = CStruct ''bpf_kprobe_multi_link'' False
     [Field ''link'' struct_bpf_link,
      Field ''fp'' struct_fprobe,
      Field ''addrs'' (CPtr ''long unsigned int''),
      Field ''cookies'' (CPtr ''u64''),
      Field ''cnt'' u32,
      Field ''mods_cnt'' u32,
      Field ''mods'' (CPtr ''struct module *'')]"

definition struct_bpf_local_storage_elem :: cty where
  "struct_bpf_local_storage_elem = CStruct ''bpf_local_storage_elem'' False
     [Field ''map_node'' struct_hlist_node,
      Field ''snode'' struct_hlist_node,
      Field ''local_storage'' (CPtr ''struct bpf_local_storage''),
      Field [] (CUnion [] False
        [Field ''rcu'' struct_callback_head,
         Field ''free_node'' struct_hlist_node]),
      Field ''state'' atomic_t,
      Field ''use_kmalloc_nolock'' bool,
      Field ''sdata'' struct_bpf_local_storage_data,
      BitField [] c_long 64,
      BitField [] c_long 64,
      BitField [] c_long 64,
      BitField [] c_long 64,
      BitField [] c_long 64,
      BitField [] c_long 64,
      BitField [] c_long 64]"

definition struct_bpf_lpm_trie_key_hdr :: cty where
  "struct_bpf_lpm_trie_key_hdr = CStruct ''bpf_lpm_trie_key_hdr'' False
     [Field ''prefixlen'' c__u32]"

definition struct_bpf_lpm_trie_key_u8 :: cty where
  "struct_bpf_lpm_trie_key_u8 = CStruct ''bpf_lpm_trie_key_u8'' False
     [Field [] (CUnion [] False
        [Field ''hdr'' struct_bpf_lpm_trie_key_hdr,
         Field ''prefixlen'' c__u32]),
      Field ''data'' (CArr 0 c__u8)]"

definition struct_bpf_mount_opts :: cty where
  "struct_bpf_mount_opts = CStruct ''bpf_mount_opts'' False
     [Field ''uid'' kuid_t,
      Field ''gid'' kgid_t,
      Field ''mode'' umode_t,
      Field ''delegate_cmds'' u64,
      Field ''delegate_maps'' u64,
      Field ''delegate_progs'' u64,
      Field ''delegate_attachs'' u64]"

definition enum_nf_hook_ops_type :: cty where
  "enum_nf_hook_ops_type = CEnum 4
     [(''NF_HOOK_OP_UNDEFINED'', 0), (''NF_HOOK_OP_NF_TABLES'', 1), (''NF_HOOK_OP_BPF'', 2),
      (''NF_HOOK_OP_NFT_FT'', 3)]"

definition struct_nf_hook_ops :: cty where
  "struct_nf_hook_ops = CStruct ''nf_hook_ops'' False
     [Field ''list'' struct_list_head,
      Field ''rcu'' struct_callback_head,
      Field ''hook'' (CPtr ''nf_hookfn''),
      Field ''dev'' (CPtr ''struct net_device''),
      Field ''priv'' (CPtr ''void''),
      Field ''pf'' u8,
      BitField ''hook_ops_type'' enum_nf_hook_ops_type 8,
      Field ''hooknum'' unsigned_int,
      Field ''priority'' c_int]"

definition struct_bpf_nf_link :: cty where
  "struct_bpf_nf_link = CStruct ''bpf_nf_link'' False
     [Field ''link'' struct_bpf_link,
      Field ''hook_ops'' struct_nf_hook_ops,
      Field ''ns_tracker'' netns_tracker,
      Field ''net'' (CPtr ''struct net''),
      Field ''dead'' u32,
      Field ''defrag_hook'' (CPtr ''const struct nf_defrag_hook'')]"

definition struct_bpf_offload_netdev :: cty where
  "struct_bpf_offload_netdev = CStruct ''bpf_offload_netdev'' False
     [Field ''l'' struct_rhash_head,
      Field ''netdev'' (CPtr ''struct net_device''),
      Field ''offdev'' (CPtr ''struct bpf_offload_dev''),
      Field ''progs'' struct_list_head,
      Field ''maps'' struct_list_head,
      Field ''offdev_netdevs'' struct_list_head]"

definition struct_bpf_offloaded_map :: cty where
  "struct_bpf_offloaded_map = CStruct ''bpf_offloaded_map'' False
     [Field ''map'' struct_bpf_map,
      Field ''netdev'' (CPtr ''struct net_device''),
      Field ''dev_ops'' (CPtr ''const struct bpf_map_dev_ops''),
      Field ''dev_priv'' (CPtr ''void''),
      Field ''offloads'' struct_list_head]"

definition struct_bpf_prog_list :: cty where
  "struct_bpf_prog_list = CStruct ''bpf_prog_list'' False
     [Field ''node'' struct_hlist_node,
      Field ''prog'' (CPtr ''struct bpf_prog''),
      Field ''link'' (CPtr ''struct bpf_cgroup_link''),
      Field ''storage'' (CArr 2 (CPtr ''struct bpf_cgroup_storage'')),
      Field ''flags'' u32]"

definition struct_bpf_queue_stack :: cty where
  "struct_bpf_queue_stack = CStruct ''bpf_queue_stack'' False
     [Field ''map'' struct_bpf_map,
      Field ''lock'' rqspinlock_t,
      Field ''head'' u32,
      Field ''tail'' u32,
      Field ''size'' u32,
      Field ''elements'' (CArr 0 c_char)]"

definition struct_sk_psock_progs :: cty where
  "struct_sk_psock_progs = CStruct ''sk_psock_progs'' False
     [Field ''msg_parser'' (CPtr ''struct bpf_prog''),
      Field ''stream_parser'' (CPtr ''struct bpf_prog''),
      Field ''stream_verdict'' (CPtr ''struct bpf_prog''),
      Field ''skb_verdict'' (CPtr ''struct bpf_prog''),
      Field ''msg_parser_link'' (CPtr ''struct bpf_link''),
      Field ''stream_parser_link'' (CPtr ''struct bpf_link''),
      Field ''stream_verdict_link'' (CPtr ''struct bpf_link''),
      Field ''skb_verdict_link'' (CPtr ''struct bpf_link'')]"

definition struct_bpf_shtab :: cty where
  "struct_bpf_shtab = CStruct ''bpf_shtab'' False
     [Field ''map'' struct_bpf_map,
      Field ''buckets'' (CPtr ''struct bpf_shtab_bucket''),
      Field ''buckets_num'' u32,
      Field ''elem_size'' u32,
      Field ''progs'' struct_sk_psock_progs,
      Field ''count'' atomic_t]"

definition struct_bpf_shtab_elem :: cty where
  "struct_bpf_shtab_elem = CStruct ''bpf_shtab_elem'' False
     [Field ''rcu'' struct_callback_head,
      Field ''hash'' u32,
      Field ''sk'' (CPtr ''struct sock''),
      Field ''node'' struct_hlist_node,
      Field ''key'' (CArr 0 u8)]"

definition struct_bpf_stack_build_id :: cty where
  "struct_bpf_stack_build_id = CStruct ''bpf_stack_build_id'' False
     [Field ''status'' c__s32,
      Field ''build_id'' (CArr 20 unsigned_char),
      Field [] (CUnion [] False
        [Field ''offset'' c__u64,
         Field ''ip'' c__u64])]"

definition struct_bpf_stack_map :: cty where
  "struct_bpf_stack_map = CStruct ''bpf_stack_map'' False
     [Field ''map'' struct_bpf_map,
      Field ''elems'' (CPtr ''void''),
      Field ''freelist'' struct_pcpu_freelist,
      Field ''n_buckets'' u32,
      Field ''buckets'' (CArr 0 (CPtr ''struct stack_map_bucket''))]"

definition enum_bpf_struct_ops_state :: cty where
  "enum_bpf_struct_ops_state = CEnum 4
     [(''BPF_STRUCT_OPS_STATE_INIT'', 0), (''BPF_STRUCT_OPS_STATE_INUSE'', 1),
      (''BPF_STRUCT_OPS_STATE_TOBEFREE'', 2), (''BPF_STRUCT_OPS_STATE_READY'', 3)]"

definition struct_bpf_struct_ops_common_value :: cty where
  "struct_bpf_struct_ops_common_value = CStruct ''bpf_struct_ops_common_value'' False
     [Field ''refcnt'' refcount_t,
      Field ''state'' enum_bpf_struct_ops_state]"

definition struct_bpf_struct_ops_Qdisc_ops :: cty where
  "struct_bpf_struct_ops_Qdisc_ops = CStruct ''bpf_struct_ops_Qdisc_ops'' False
     [Field ''common'' struct_bpf_struct_ops_common_value,
      BitField [] c_long 64,
      BitField [] c_long 64,
      BitField [] c_long 64,
      BitField [] c_long 64,
      BitField [] c_long 64,
      BitField [] c_long 64,
      BitField [] c_long 64,
      Field ''data'' struct_Qdisc_ops,
      BitField [] c_long 64,
      BitField [] c_long 64]"

definition struct_bpf_dummy_ops :: cty where
  "struct_bpf_dummy_ops = CStruct ''bpf_dummy_ops'' False
     [Field ''test_1'' (CPtr ''int (struct bpf_dummy_ops_state *)''),
      Field ''test_2'' (CPtr ''int (struct bpf_dummy_ops_state *, int, short unsigned int, char, long unsigned int)''),
      Field ''test_sleepable'' (CPtr ''int (struct bpf_dummy_ops_state *)'')]"

definition struct_bpf_struct_ops_bpf_dummy_ops :: cty where
  "struct_bpf_struct_ops_bpf_dummy_ops = CStruct ''bpf_struct_ops_bpf_dummy_ops'' False
     [Field ''common'' struct_bpf_struct_ops_common_value,
      BitField [] c_long 64,
      BitField [] c_long 64,
      BitField [] c_long 64,
      BitField [] c_long 64,
      BitField [] c_long 64,
      BitField [] c_long 64,
      BitField [] c_long 64,
      Field ''data'' struct_bpf_dummy_ops,
      BitField [] c_long 64,
      BitField [] c_long 64,
      BitField [] c_long 64,
      BitField [] c_long 64,
      BitField [] c_long 64]"

definition struct_hid_bpf_ops :: cty where
  "struct_hid_bpf_ops = CStruct ''hid_bpf_ops'' False
     [Field ''hid_id'' c_int,
      Field ''flags'' u32,
      Field ''list'' struct_list_head,
      Field ''hid_device_event'' (CPtr ''int (struct hid_bpf_ctx *, enum hid_report_type, u64)''),
      Field ''hid_rdesc_fixup'' (CPtr ''int (struct hid_bpf_ctx *)''),
      Field ''hid_hw_request'' (CPtr ''int (struct hid_bpf_ctx *, unsigned char, enum hid_report_type, enum hid_class_request, u64)''),
      Field ''hid_hw_output_report'' (CPtr ''int (struct hid_bpf_ctx *, u64)''),
      Field ''hdev'' (CPtr ''struct hid_device'')]"

definition struct_bpf_struct_ops_hid_bpf_ops :: cty where
  "struct_bpf_struct_ops_hid_bpf_ops = CStruct ''bpf_struct_ops_hid_bpf_ops'' False
     [Field ''common'' struct_bpf_struct_ops_common_value,
      BitField [] c_long 64,
      BitField [] c_long 64,
      BitField [] c_long 64,
      BitField [] c_long 64,
      BitField [] c_long 64,
      BitField [] c_long 64,
      BitField [] c_long 64,
      Field ''data'' struct_hid_bpf_ops]"

definition struct_bpf_struct_ops_value :: cty where
  "struct_bpf_struct_ops_value = CStruct ''bpf_struct_ops_value'' False
     [Field ''common'' struct_bpf_struct_ops_common_value,
      BitField [] c_long 64,
      BitField [] c_long 64,
      BitField [] c_long 64,
      BitField [] c_long 64,
      BitField [] c_long 64,
      BitField [] c_long 64,
      BitField [] c_long 64,
      Field ''data'' (CArr 0 c_char)]"

definition struct_bpf_struct_ops_map :: cty where
  "struct_bpf_struct_ops_map = CStruct ''bpf_struct_ops_map'' False
     [Field ''map'' struct_bpf_map,
      Field ''st_ops_desc'' (CPtr ''const struct bpf_struct_ops_desc''),
      Field ''lock'' struct_mutex,
      Field ''links'' (CPtr ''struct bpf_link *''),
      Field ''ksyms'' (CPtr ''struct bpf_ksym *''),
      Field ''funcs_cnt'' u32,
      Field ''image_pages_cnt'' u32,
      Field ''image_pages'' (CArr 8 (CPtr ''void'')),
      Field ''btf'' (CPtr ''struct btf''),
      Field ''uvalue'' (CPtr ''struct bpf_struct_ops_value''),
      BitField [] c_long 64,
      BitField [] c_long 64,
      Field ''kvalue'' struct_bpf_struct_ops_value]"

definition struct_sched_ext_ops :: cty where
  "struct_sched_ext_ops = CStruct ''sched_ext_ops'' False
     [Field ''select_cpu'' (CPtr ''s32 (struct task_struct *, s32, u64)''),
      Field ''enqueue'' (CPtr ''void (struct task_struct *, u64)''),
      Field ''dequeue'' (CPtr ''void (struct task_struct *, u64)''),
      Field ''dispatch'' (CPtr ''void (s32, struct task_struct *)''),
      Field ''tick'' (CPtr ''void (struct task_struct *)''),
      Field ''runnable'' (CPtr ''void (struct task_struct *, u64)''),
      Field ''running'' (CPtr ''void (struct task_struct *)''),
      Field ''stopping'' (CPtr ''void (struct task_struct *, bool)''),
      Field ''quiescent'' (CPtr ''void (struct task_struct *, u64)''),
      Field ''yield'' (CPtr ''bool (struct task_struct *, struct task_struct *)''),
      Field ''core_sched_before'' (CPtr ''bool (struct task_struct *, struct task_struct *)''),
      Field ''set_weight'' (CPtr ''void (struct task_struct *, u32)''),
      Field ''set_cpumask'' (CPtr ''void (struct task_struct *, const struct cpumask *)''),
      Field ''update_idle'' (CPtr ''void (s32, bool)''),
      Field ''cpu_acquire'' (CPtr ''void (s32, struct scx_cpu_acquire_args *)''),
      Field ''cpu_release'' (CPtr ''void (s32, struct scx_cpu_release_args *)''),
      Field ''init_task'' (CPtr ''s32 (struct task_struct *, struct scx_init_task_args *)''),
      Field ''exit_task'' (CPtr ''void (struct task_struct *, struct scx_exit_task_args *)''),
      Field ''enable'' (CPtr ''void (struct task_struct *)''),
      Field ''disable'' (CPtr ''void (struct task_struct *)''),
      Field ''dump'' (CPtr ''void (struct scx_dump_ctx *)''),
      Field ''dump_cpu'' (CPtr ''void (struct scx_dump_ctx *, s32, bool)''),
      Field ''dump_task'' (CPtr ''void (struct scx_dump_ctx *, struct task_struct *)''),
      Field ''cgroup_init'' (CPtr ''s32 (struct cgroup *, struct scx_cgroup_init_args *)''),
      Field ''cgroup_exit'' (CPtr ''void (struct cgroup *)''),
      Field ''cgroup_prep_move'' (CPtr ''s32 (struct task_struct *, struct cgroup *, struct cgroup *)''),
      Field ''cgroup_move'' (CPtr ''void (struct task_struct *, struct cgroup *, struct cgroup *)''),
      Field ''cgroup_cancel_move'' (CPtr ''void (struct task_struct *, struct cgroup *, struct cgroup *)''),
      Field ''cgroup_set_weight'' (CPtr ''void (struct cgroup *, u32)''),
      Field ''cgroup_set_bandwidth'' (CPtr ''void (struct cgroup *, u64, u64, u64)''),
      Field ''cgroup_set_idle'' (CPtr ''void (struct cgroup *, bool)''),
      Field ''cpu_online'' (CPtr ''void (s32)''),
      Field ''cpu_offline'' (CPtr ''void (s32)''),
      Field ''init'' (CPtr ''s32 (void)''),
      Field ''exit'' (CPtr ''void (struct scx_exit_info *)''),
      Field ''dispatch_max_batch'' u32,
      Field ''flags'' u64,
      Field ''timeout_ms'' u32,
      Field ''exit_dump_len'' u32,
      Field ''hotplug_seq'' u64,
      Field ''name'' (CArr 128 c_char),
      Field ''priv'' (CPtr ''void'')]"

definition struct_bpf_struct_ops_sched_ext_ops :: cty where
  "struct_bpf_struct_ops_sched_ext_ops = CStruct ''bpf_struct_ops_sched_ext_ops'' False
     [Field ''common'' struct_bpf_struct_ops_common_value,
      BitField [] c_long 64,
      BitField [] c_long 64,
      BitField [] c_long 64,
      BitField [] c_long 64,
      BitField [] c_long 64,
      BitField [] c_long 64,
      BitField [] c_long 64,
      Field ''data'' struct_sched_ext_ops]"

definition struct_bpf_struct_ops_tcp_congestion_ops :: cty where
  "struct_bpf_struct_ops_tcp_congestion_ops = CStruct ''bpf_struct_ops_tcp_congestion_ops'' False
     [Field ''common'' struct_bpf_struct_ops_common_value,
      BitField [] c_long 64,
      BitField [] c_long 64,
      BitField [] c_long 64,
      BitField [] c_long 64,
      BitField [] c_long 64,
      BitField [] c_long 64,
      BitField [] c_long 64,
      Field ''data'' struct_tcp_congestion_ops]"

definition bpf_task_work_callback_t :: cty where [layout_simps]:
  "bpf_task_work_callback_t = CPtr ''int (struct bpf_map *, void *, void *)''"

definition struct_bpf_task_work_ctx :: cty where
  "struct_bpf_task_work_ctx = CStruct ''bpf_task_work_ctx'' False
     [Field ''state'' enum_bpf_task_work_state,
      Field ''refcnt'' refcount_t,
      Field ''work'' struct_callback_head,
      Field ''irq_work'' struct_irq_work,
      Field ''prog'' (CPtr ''struct bpf_prog''),
      Field ''task'' (CPtr ''struct task_struct''),
      Field ''map'' (CPtr ''struct bpf_map''),
      Field ''map_val'' (CPtr ''void''),
      Field ''mode'' enum_task_work_notify_mode,
      Field ''callback_fn'' bpf_task_work_callback_t,
      Field ''rcu'' struct_callback_head]"

definition struct_seq_net_private :: cty where
  "struct_seq_net_private = CStruct ''seq_net_private'' False
     [Field ''net'' (CPtr ''struct net''),
      Field ''ns_tracker'' netns_tracker]"

definition enum_tcp_seq_states :: cty where
  "enum_tcp_seq_states = CEnum 4
     [(''TCP_SEQ_STATE_LISTENING'', 0), (''TCP_SEQ_STATE_ESTABLISHED'', 1)]"

definition struct_tcp_iter_state :: cty where
  "struct_tcp_iter_state = CStruct ''tcp_iter_state'' False
     [Field ''p'' struct_seq_net_private,
      Field ''state'' enum_tcp_seq_states,
      Field ''syn_wait_sk'' (CPtr ''struct sock''),
      Field ''bucket'' c_int,
      Field ''offset'' c_int,
      Field ''sbucket'' c_int,
      Field ''num'' c_int,
      Field ''last_pos'' loff_t]"

definition struct_bpf_tcp_iter_state :: cty where
  "struct_bpf_tcp_iter_state = CStruct ''bpf_tcp_iter_state'' False
     [Field ''state'' struct_tcp_iter_state,
      Field ''cur_sk'' unsigned_int,
      Field ''end_sk'' unsigned_int,
      Field ''max_sk'' unsigned_int,
      Field ''batch'' (CPtr ''union bpf_tcp_iter_batch_item'')]"

definition struct_bpf_tcp_req_attrs :: cty where
  "struct_bpf_tcp_req_attrs = CStruct ''bpf_tcp_req_attrs'' False
     [Field ''rcv_tsval'' u32,
      Field ''rcv_tsecr'' u32,
      Field ''mss'' u16,
      Field ''rcv_wscale'' u8,
      Field ''snd_wscale'' u8,
      Field ''ecn_ok'' u8,
      Field ''wscale_ok'' u8,
      Field ''sack_ok'' u8,
      Field ''tstamp_ok'' u8,
      Field ''usec_ts_ok'' u8,
      Field ''reserved'' (CArr 3 u8)]"

definition struct_udp_iter_state :: cty where
  "struct_udp_iter_state = CStruct ''udp_iter_state'' False
     [Field ''p'' struct_seq_net_private,
      Field ''bucket'' c_int]"

definition struct_bpf_udp_iter_state :: cty where
  "struct_bpf_udp_iter_state = CStruct ''bpf_udp_iter_state'' False
     [Field ''state'' struct_udp_iter_state,
      Field ''cur_sk'' unsigned_int,
      Field ''end_sk'' unsigned_int,
      Field ''max_sk'' unsigned_int,
      Field ''batch'' (CPtr ''union bpf_udp_iter_batch_item'')]"

definition struct_bpf_unix_iter_state :: cty where
  "struct_bpf_unix_iter_state = CStruct ''bpf_unix_iter_state'' False
     [Field ''p'' struct_seq_net_private,
      Field ''cur_sk'' unsigned_int,
      Field ''end_sk'' unsigned_int,
      Field ''max_sk'' unsigned_int,
      Field ''batch'' (CPtr ''struct sock *''),
      Field ''st_bucket_done'' bool]"

definition struct_uprobe_consumer :: cty where
  "struct_uprobe_consumer = CStruct ''uprobe_consumer'' False
     [Field ''handler'' (CPtr ''int (struct uprobe_consumer *, struct pt_regs *, __u64 *)''),
      Field ''ret_handler'' (CPtr ''int (struct uprobe_consumer *, long unsigned int, struct pt_regs *, __u64 *)''),
      Field ''filter'' (CPtr ''bool (struct uprobe_consumer *, struct mm_struct *)''),
      Field ''cons_node'' struct_list_head,
      Field ''id'' c__u64]"

definition struct_bpf_uprobe :: cty where
  "struct_bpf_uprobe = CStruct ''bpf_uprobe'' False
     [Field ''link'' (CPtr ''struct bpf_uprobe_multi_link''),
      Field ''offset'' loff_t,
      Field ''ref_ctr_offset'' long_unsigned_int,
      Field ''cookie'' u64,
      Field ''uprobe'' (CPtr ''struct uprobe''),
      Field ''consumer'' struct_uprobe_consumer,
      Field ''session'' bool]"

definition struct_bpf_uprobe_multi_link :: cty where
  "struct_bpf_uprobe_multi_link = CStruct ''bpf_uprobe_multi_link'' False
     [Field ''path'' struct_path,
      Field ''link'' struct_bpf_link,
      Field ''cnt'' u32,
      Field ''uprobes'' (CPtr ''struct bpf_uprobe''),
      Field ''task'' (CPtr ''struct task_struct'')]"

definition struct_bpf_verifier_state_list :: cty where
  "struct_bpf_verifier_state_list = CStruct ''bpf_verifier_state_list'' False
     [Field ''state'' struct_bpf_verifier_state,
      Field ''node'' struct_list_head,
      Field ''miss_cnt'' u32,
      BitField ''hit_cnt'' u32 31,
      BitField ''in_free_list'' u32 1]"

definition struct_bpf_xfrm_state_opts :: cty where
  "struct_bpf_xfrm_state_opts = CStruct ''bpf_xfrm_state_opts'' False
     [Field ''error'' s32,
      Field ''netns_id'' s32,
      Field ''mark'' u32,
      Field ''daddr'' xfrm_address_t,
      Field ''spi'' c__be32,
      Field ''proto'' u8,
      Field ''family'' u16]"

definition struct_bpffs_btf_enums :: cty where
  "struct_bpffs_btf_enums = CStruct ''bpffs_btf_enums'' False
     [Field ''btf'' (CPtr ''const struct btf''),
      Field ''cmd_t'' (CPtr ''const struct btf_type''),
      Field ''map_t'' (CPtr ''const struct btf_type''),
      Field ''prog_t'' (CPtr ''const struct btf_type''),
      Field ''attach_t'' (CPtr ''const struct btf_type'')]"

definition struct_btf_field_desc :: cty where
  "struct_btf_field_desc = CStruct ''btf_field_desc'' False
     [Field ''t_off_cnt'' c_int,
      Field ''t_offs'' (CArr 2 c_int),
      Field ''m_sz'' c_int,
      Field ''m_off_cnt'' c_int,
      Field ''m_offs'' (CArr 1 c_int)]"

definition struct_btf_field_info :: cty where
  "struct_btf_field_info = CStruct ''btf_field_info'' False
     [Field ''type'' enum_btf_field_type,
      Field ''off'' u32,
      Field [] (CUnion [] False
        [Field ''kptr'' (CStruct [] False
           [Field ''type_id'' u32]),
         Field ''graph_root'' (CStruct [] False
           [Field ''node_name'' (CPtr ''const char''),
            Field ''value_btf_id'' u32])])]"

definition struct_btf_field_iter :: cty where
  "struct_btf_field_iter = CStruct ''btf_field_iter'' False
     [Field ''desc'' struct_btf_field_desc,
      Field ''p'' (CPtr ''void''),
      Field ''m_idx'' c_int,
      Field ''off_idx'' c_int,
      Field ''vlen'' c_int]"

definition struct_btf_kind_operations :: cty where
  "struct_btf_kind_operations = CStruct ''btf_kind_operations'' False
     [Field ''check_meta'' (CPtr ''s32 (struct btf_verifier_env *, const struct btf_type *, u32)''),
      Field ''resolve'' (CPtr ''int (struct btf_verifier_env *, const struct resolve_vertex *)''),
      Field ''check_member'' (CPtr ''int (struct btf_verifier_env *, const struct btf_type *, const struct btf_member *, const struct btf_type *)''),
      Field ''check_kflag_member'' (CPtr ''int (struct btf_verifier_env *, const struct btf_type *, const struct btf_member *, const struct btf_type *)''),
      Field ''log_details'' (CPtr ''void (struct btf_verifier_env *, const struct btf_type *)''),
      Field ''show'' (CPtr ''void (const struct btf *, const struct btf_type *, u32, void *, u8, struct btf_show *)'')]"

definition struct_btf_module :: cty where
  "struct_btf_module = CStruct ''btf_module'' False
     [Field ''list'' struct_list_head,
      Field ''module'' (CPtr ''struct module''),
      Field ''btf'' (CPtr ''struct btf''),
      Field ''sysfs_attr'' (CPtr ''struct bin_attribute''),
      Field ''flags'' c_int]"

definition struct_btf_relocate :: cty where
  "struct_btf_relocate = CStruct ''btf_relocate'' False
     [Field ''btf'' (CPtr ''struct btf''),
      Field ''base_btf'' (CPtr ''const struct btf''),
      Field ''dist_base_btf'' (CPtr ''const struct btf''),
      Field ''nr_base_types'' unsigned_int,
      Field ''nr_split_types'' unsigned_int,
      Field ''nr_dist_base_types'' unsigned_int,
      Field ''dist_str_len'' c_int,
      Field ''base_str_len'' c_int,
      Field ''id_map'' (CPtr ''__u32''),
      Field ''str_map'' (CPtr ''__u32'')]"

definition struct_btf_show :: cty where
  "struct_btf_show = CStruct ''btf_show'' False
     [Field ''flags'' u64,
      Field ''target'' (CPtr ''void''),
      Field ''showfn'' (CPtr ''void (struct btf_show *, const char *, struct __va_list_tag *)''),
      Field ''btf'' (CPtr ''const struct btf''),
      Field ''state'' (CStruct [] False
        [Field ''depth'' u8,
         Field ''depth_to_show'' u8,
         Field ''depth_check'' u8,
         BitField ''array_member'' u8 1,
         BitField ''array_terminated'' u8 1,
         Field ''array_encoding'' u16,
         Field ''type_id'' u32,
         Field ''status'' c_int,
         Field ''type'' (CPtr ''const struct btf_type''),
         Field ''member'' (CPtr ''const struct btf_member''),
         Field ''name'' (CArr 80 c_char)]),
      Field ''obj'' (CStruct [] False
        [Field ''size'' u32,
         Field ''head'' (CPtr ''void''),
         Field ''data'' (CPtr ''void''),
         Field ''safe'' (CArr 32 u8)])]"

definition struct_resolve_vertex :: cty where
  "struct_resolve_vertex = CStruct ''resolve_vertex'' False
     [Field ''t'' (CPtr ''const struct btf_type''),
      Field ''type_id'' u32,
      Field ''next_member'' u16]"

definition enum_verifier_phase :: cty where
  "enum_verifier_phase = CEnum 4
     [(''CHECK_META'', 0), (''CHECK_TYPE'', 1)]"

definition enum_resolve_mode :: cty where
  "enum_resolve_mode = CEnum 4
     [(''RESOLVE_TBD'', 0), (''RESOLVE_PTR'', 1), (''RESOLVE_STRUCT_OR_ARRAY'', 2)]"

definition struct_btf_verifier_env :: cty where
  "struct_btf_verifier_env = CStruct ''btf_verifier_env'' False
     [Field ''btf'' (CPtr ''struct btf''),
      Field ''visit_states'' (CPtr ''u8''),
      Field ''stack'' (CArr 32 struct_resolve_vertex),
      Field ''log'' struct_bpf_verifier_log,
      Field ''log_type_id'' u32,
      Field ''top_stack'' u32,
      Field ''phase'' enum_verifier_phase,
      Field ''resolve_mode'' enum_resolve_mode]"

definition struct_hid_bpf :: cty where
  "struct_hid_bpf = CStruct ''hid_bpf'' False
     [Field ''device_data'' (CPtr ''u8''),
      Field ''allocated_data'' u32,
      Field ''destroyed'' bool,
      Field ''rdesc_ops'' (CPtr ''struct hid_bpf_ops''),
      Field ''prog_list'' struct_list_head,
      Field ''prog_list_lock'' struct_mutex,
      Field ''srcu'' struct_srcu_struct]"

definition struct_hid_bpf_ctx :: cty where
  "struct_hid_bpf_ctx = CStruct ''hid_bpf_ctx'' False
     [Field ''hid'' (CPtr ''struct hid_device''),
      Field ''allocated_size'' c__u32,
      Field [] (CUnion [] False
        [Field ''retval'' c__s32,
         Field ''size'' c__s32])]"

definition struct_io_uring_bpf_filter :: cty where
  "struct_io_uring_bpf_filter = CStruct ''io_uring_bpf_filter'' False
     [Field ''opcode'' c__u32,
      Field ''flags'' c__u32,
      Field ''filter_len'' c__u32,
      Field ''pdu_size'' c__u8,
      Field ''resv'' (CArr 3 c__u8),
      Field ''filter_ptr'' c__u64,
      Field ''resv2'' (CArr 5 c__u64)]"

definition struct_io_uring_bpf :: cty where
  "struct_io_uring_bpf = CStruct ''io_uring_bpf'' False
     [Field ''cmd_type'' c__u16,
      Field ''cmd_flags'' c__u16,
      Field ''resv'' c__u32,
      Field [] (CUnion [] False
        [Field ''filter'' struct_io_uring_bpf_filter])]"

definition struct_io_uring_bpf_ctx :: cty where
  "struct_io_uring_bpf_ctx = CStruct ''io_uring_bpf_ctx'' False
     [Field ''user_data'' c__u64,
      Field ''opcode'' c__u8,
      Field ''sqe_flags'' c__u8,
      Field ''pdu_size'' c__u8,
      Field ''pad'' (CArr 5 c__u8),
      Field [] (CUnion [] False
        [Field ''socket'' (CStruct [] False
           [Field ''family'' c__u32,
            Field ''type'' c__u32,
            Field ''protocol'' c__u32]),
         Field ''open'' (CStruct [] False
           [Field ''flags'' c__u64,
            Field ''mode'' c__u64,
            Field ''resolve'' c__u64])])]"

definition struct_ipv6_bpf_stub :: cty where
  "struct_ipv6_bpf_stub = CStruct ''ipv6_bpf_stub'' False
     [Field ''inet6_bind'' (CPtr ''int (struct sock *, struct sockaddr_unsized *, int, u32)''),
      Field ''udp6_lib_lookup'' (CPtr ''struct sock * (const struct net *, const struct in6_addr *, __be16, const struct in6_addr *, __be16, int, int, struct udp_table *, struct sk_buff *)''),
      Field ''ipv6_setsockopt'' (CPtr ''int (struct sock *, int, int, sockptr_t, unsigned int)''),
      Field ''ipv6_getsockopt'' (CPtr ''int (struct sock *, int, int, sockptr_t, sockptr_t)''),
      Field ''ipv6_dev_get_saddr'' (CPtr ''int (struct net *, const struct net_device *, const struct in6_addr *, unsigned int, struct in6_addr *)'')]"

definition struct_netdev_bpf :: cty where
  "struct_netdev_bpf = CStruct ''netdev_bpf'' False
     [Field ''command'' enum_bpf_netdev_command,
      Field [] (CUnion [] False
        [Field [] (CStruct [] False
           [Field ''flags'' u32,
            Field ''prog'' (CPtr ''struct bpf_prog''),
            Field ''extack'' (CPtr ''struct netlink_ext_ack'')]),
         Field [] (CStruct [] False
           [Field ''offmap'' (CPtr ''struct bpf_offloaded_map'')]),
         Field ''xsk'' (CStruct [] False
           [Field ''pool'' (CPtr ''struct xsk_buff_pool''),
            Field ''queue_id'' u16])])]"

definition struct_perf_event_header :: cty where
  "struct_perf_event_header = CStruct ''perf_event_header'' False
     [Field ''type'' c__u32,
      Field ''misc'' c__u16,
      Field ''size'' c__u16]"

definition struct_perf_bpf_event :: cty where
  "struct_perf_bpf_event = CStruct ''perf_bpf_event'' False
     [Field ''prog'' (CPtr ''struct bpf_prog''),
      Field ''event_id'' (CStruct [] False
        [Field ''header'' struct_perf_event_header,
         Field ''type'' u16,
         Field ''flags'' u16,
         Field ''id'' u32,
         Field ''tag'' (CArr 8 u8)])]"

section \<open>Sizes and alignments\<close>

lemma enum_bpf_cmd_layout [layout_simps]:
  "sizeof enum_bpf_cmd = 4 \<and> alignof enum_bpf_cmd = 4 \<and> wf_cty enum_bpf_cmd"
  by (simp add: enum_bpf_cmd_def base_types layout_eval
      del: One_nat_def)

lemma enum_bpf_core_relo_kind_layout [layout_simps]:
  "sizeof enum_bpf_core_relo_kind = 4 \<and> alignof enum_bpf_core_relo_kind = 4 \<and> wf_cty enum_bpf_core_relo_kind"
  by (simp add: enum_bpf_core_relo_kind_def base_types layout_eval
      del: One_nat_def)

lemma enum_bpf_func_id_layout [layout_simps]:
  "sizeof enum_bpf_func_id = 4 \<and> alignof enum_bpf_func_id = 4 \<and> wf_cty enum_bpf_func_id"
  by (simp add: enum_bpf_func_id_def base_types layout_eval
      del: One_nat_def)

lemma enum_bpf_lru_list_type_layout [layout_simps]:
  "sizeof enum_bpf_lru_list_type = 4 \<and> alignof enum_bpf_lru_list_type = 4 \<and> wf_cty enum_bpf_lru_list_type"
  by (simp add: enum_bpf_lru_list_type_def base_types layout_eval
      del: One_nat_def)

lemma enum_bpf_netdev_command_layout [layout_simps]:
  "sizeof enum_bpf_netdev_command = 4 \<and> alignof enum_bpf_netdev_command = 4 \<and> wf_cty enum_bpf_netdev_command"
  by (simp add: enum_bpf_netdev_command_def base_types layout_eval
      del: One_nat_def)

lemma enum_bpf_perf_event_type_layout [layout_simps]:
  "sizeof enum_bpf_perf_event_type = 4 \<and> alignof enum_bpf_perf_event_type = 4 \<and> wf_cty enum_bpf_perf_event_type"
  by (simp add: enum_bpf_perf_event_type_def base_types layout_eval
      del: One_nat_def)

lemma enum_bpf_ret_code_layout [layout_simps]:
  "sizeof enum_bpf_ret_code = 4 \<and> alignof enum_bpf_ret_code = 4 \<and> wf_cty enum_bpf_ret_code"
  by (simp add: enum_bpf_ret_code_def base_types layout_eval
      del: One_nat_def)

lemma enum_bpf_stack_slot_type_layout [layout_simps]:
  "sizeof enum_bpf_stack_slot_type = 4 \<and> alignof enum_bpf_stack_slot_type = 4 \<and> wf_cty enum_bpf_stack_slot_type"
  by (simp add: enum_bpf_stack_slot_type_def base_types layout_eval
      del: One_nat_def)

lemma enum_bpf_task_fd_type_layout [layout_simps]:
  "sizeof enum_bpf_task_fd_type = 4 \<and> alignof enum_bpf_task_fd_type = 4 \<and> wf_cty enum_bpf_task_fd_type"
  by (simp add: enum_bpf_task_fd_type_def base_types layout_eval
      del: One_nat_def)

lemma enum_bpf_task_work_state_layout [layout_simps]:
  "sizeof enum_bpf_task_work_state = 4 \<and> alignof enum_bpf_task_work_state = 4 \<and> wf_cty enum_bpf_task_work_state"
  by (simp add: enum_bpf_task_work_state_def base_types layout_eval
      del: One_nat_def)

lemma enum_bpf_tramp_prog_type_layout [layout_simps]:
  "sizeof enum_bpf_tramp_prog_type = 4 \<and> alignof enum_bpf_tramp_prog_type = 4 \<and> wf_cty enum_bpf_tramp_prog_type"
  by (simp add: enum_bpf_tramp_prog_type_def base_types layout_eval
      del: One_nat_def)

lemma enum_bpf_type_flag_layout [layout_simps]:
  "sizeof enum_bpf_type_flag = 4 \<and> alignof enum_bpf_type_flag = 4 \<and> wf_cty enum_bpf_type_flag"
  by (simp add: enum_bpf_type_flag_def base_types layout_eval
      del: One_nat_def)

lemma enum_btf_arg_tag_layout [layout_simps]:
  "sizeof enum_btf_arg_tag = 4 \<and> alignof enum_btf_arg_tag = 4 \<and> wf_cty enum_btf_arg_tag"
  by (simp add: enum_btf_arg_tag_def base_types layout_eval
      del: One_nat_def)

lemma enum_btf_kfunc_hook_layout [layout_simps]:
  "sizeof enum_btf_kfunc_hook = 4 \<and> alignof enum_btf_kfunc_hook = 4 \<and> wf_cty enum_btf_kfunc_hook"
  by (simp add: enum_btf_kfunc_hook_def base_types layout_eval
      del: One_nat_def)

lemma enum_cgroup_bpf_attach_type_layout [layout_simps]:
  "sizeof enum_cgroup_bpf_attach_type = 4 \<and> alignof enum_cgroup_bpf_attach_type = 4 \<and> wf_cty enum_cgroup_bpf_attach_type"
  by (simp add: enum_cgroup_bpf_attach_type_def base_types layout_eval
      del: One_nat_def)

lemma enum_bpf_async_type_layout [layout_simps]:
  "sizeof enum_bpf_async_type = 4 \<and> alignof enum_bpf_async_type = 4 \<and> wf_cty enum_bpf_async_type"
  by (simp add: enum_bpf_async_type_def base_types layout_eval
      del: One_nat_def)

lemma struct_bpf_async_cb_layout [layout_simps]:
  "sizeof struct_bpf_async_cb = 104 \<and> alignof struct_bpf_async_cb = 8 \<and> wf_cty struct_bpf_async_cb"
  by (simp add: struct_bpf_async_cb_def base_types layout_eval struct_callback_head_layout u64_def c__u64_def
      struct_irq_work_layout refcount_t_def struct_refcount_struct_layout enum_bpf_async_type_layout
      struct_llist_head_layout
      del: One_nat_def)

lemma struct_bpf_async_kern_layout [layout_simps]:
  "sizeof struct_bpf_async_kern = 8 \<and> alignof struct_bpf_async_kern = 8 \<and> wf_cty struct_bpf_async_kern"
  by (simp add: struct_bpf_async_kern_def base_types layout_eval
      del: One_nat_def)

lemma struct_bpf_attach_target_info_layout [layout_simps]:
  "sizeof struct_bpf_attach_target_info = 64 \<and> alignof struct_bpf_attach_target_info = 8 \<and> wf_cty struct_bpf_attach_target_info"
  by (simp add: struct_bpf_attach_target_info_def base_types layout_eval struct_btf_func_model_layout
      del: One_nat_def)

lemma struct_bpf_bloom_filter_layout [layout_simps]:
  "sizeof struct_bpf_bloom_filter = 304 \<and> alignof struct_bpf_bloom_filter = 8 \<and> wf_cty struct_bpf_bloom_filter"
  by (simp add: struct_bpf_bloom_filter_def base_types layout_eval struct_bpf_map_layout u32_def c__u32_def
      del: One_nat_def)

lemma struct_bpf_map_desc_layout [layout_simps]:
  "sizeof struct_bpf_map_desc = 16 \<and> alignof struct_bpf_map_desc = 8 \<and> wf_cty struct_bpf_map_desc"
  by (simp add: struct_bpf_map_desc_def base_types layout_eval
      del: One_nat_def)

lemma struct_bpf_call_arg_meta_layout [layout_simps]:
  "sizeof struct_bpf_call_arg_meta = 104 \<and> alignof struct_bpf_call_arg_meta = 8 \<and> wf_cty struct_bpf_call_arg_meta"
  by (simp add: struct_bpf_call_arg_meta_def base_types layout_eval struct_bpf_map_desc_layout bool_def u8_def c__u8_def
      u64_def c__u64_def u32_def c__u32_def s64_def c__s64_def
      del: One_nat_def)

lemma struct_bpf_cand_cache_layout [layout_simps]:
  "sizeof struct_bpf_cand_cache = 16 \<and> alignof struct_bpf_cand_cache = 8 \<and> wf_cty struct_bpf_cand_cache"
  by (simp add: struct_bpf_cand_cache_def base_types layout_eval u32_def c__u32_def u16_def c__u16_def
      del: One_nat_def)

lemma struct_bpf_core_relo_res_layout [layout_simps]:
  "sizeof struct_bpf_core_relo_res = 40 \<and> alignof struct_bpf_core_relo_res = 8 \<and> wf_cty struct_bpf_core_relo_res"
  by (simp add: struct_bpf_core_relo_res_def base_types layout_eval c__u64_def bool_def c__u32_def
      del: One_nat_def)

lemma struct_bpf_core_accessor_layout [layout_simps]:
  "sizeof struct_bpf_core_accessor = 16 \<and> alignof struct_bpf_core_accessor = 8 \<and> wf_cty struct_bpf_core_accessor"
  by (simp add: struct_bpf_core_accessor_def base_types layout_eval c__u32_def
      del: One_nat_def)

lemma struct_bpf_core_spec_layout [layout_simps]:
  "sizeof struct_bpf_core_spec = 1312 \<and> alignof struct_bpf_core_spec = 8 \<and> wf_cty struct_bpf_core_spec"
  by (simp add: struct_bpf_core_spec_def base_types layout_eval struct_bpf_core_accessor_layout c__u32_def
      enum_bpf_core_relo_kind_layout
      del: One_nat_def)

lemma struct_bpf_cpumap_val_layout [layout_simps]:
  "sizeof struct_bpf_cpumap_val = 8 \<and> alignof struct_bpf_cpumap_val = 4 \<and> wf_cty struct_bpf_cpumap_val"
  by (simp add: struct_bpf_cpumap_val_def base_types layout_eval c__u32_def
      del: One_nat_def)

lemma struct_bpf_cpu_map_entry_layout [layout_simps]:
  "sizeof struct_bpf_cpu_map_entry = 360 \<and> alignof struct_bpf_cpu_map_entry = 8 \<and> wf_cty struct_bpf_cpu_map_entry"
  by (simp add: struct_bpf_cpu_map_entry_def base_types layout_eval u32_def c__u32_def struct_bpf_cpumap_val_layout
      struct_gro_node_layout struct_completion_layout struct_rcu_work_layout
      del: One_nat_def)

lemma struct_bpf_crypto_ctx_layout [layout_simps]:
  "sizeof struct_bpf_crypto_ctx = 48 \<and> alignof struct_bpf_crypto_ctx = 8 \<and> wf_cty struct_bpf_crypto_ctx"
  by (simp add: struct_bpf_crypto_ctx_def base_types layout_eval u32_def c__u32_def struct_callback_head_layout
      refcount_t_def struct_refcount_struct_layout
      del: One_nat_def)

lemma struct_bpf_crypto_params_layout [layout_simps]:
  "sizeof struct_bpf_crypto_params = 408 \<and> alignof struct_bpf_crypto_params = 4 \<and> wf_cty struct_bpf_crypto_params"
  by (simp add: struct_bpf_crypto_params_def base_types layout_eval u8_def c__u8_def u32_def c__u32_def
      del: One_nat_def)

lemma struct_bpf_crypto_type_layout [layout_simps]:
  "sizeof struct_bpf_crypto_type = 104 \<and> alignof struct_bpf_crypto_type = 8 \<and> wf_cty struct_bpf_crypto_type"
  by (simp add: struct_bpf_crypto_type_def base_types layout_eval
      del: One_nat_def)

lemma struct_bpf_sock_addr_kern_layout [layout_simps]:
  "sizeof struct_bpf_sock_addr_kern = 40 \<and> alignof struct_bpf_sock_addr_kern = 8 \<and> wf_cty struct_bpf_sock_addr_kern"
  by (simp add: struct_bpf_sock_addr_kern_def base_types layout_eval u64_def c__u64_def u32_def c__u32_def
      del: One_nat_def)

lemma struct_bpf_sock_ops_kern_layout [layout_simps]:
  "sizeof struct_bpf_sock_ops_kern = 64 \<and> alignof struct_bpf_sock_ops_kern = 8 \<and> wf_cty struct_bpf_sock_ops_kern"
  by (simp add: struct_bpf_sock_ops_kern_def base_types layout_eval u32_def c__u32_def u8_def c__u8_def u64_def
      c__u64_def
      del: One_nat_def)

lemma struct_bpf_sysctl_kern_layout [layout_simps]:
  "sizeof struct_bpf_sysctl_kern = 72 \<and> alignof struct_bpf_sysctl_kern = 8 \<and> wf_cty struct_bpf_sysctl_kern"
  by (simp add: struct_bpf_sysctl_kern_def base_types layout_eval size_t_def c__kernel_size_t_def c__kernel_ulong_t_def
      u64_def c__u64_def
      del: One_nat_def)

lemma struct_bpf_sockopt_layout [layout_simps]:
  "sizeof struct_bpf_sockopt = 40 \<and> alignof struct_bpf_sockopt = 8 \<and> wf_cty struct_bpf_sockopt"
  by (simp add: struct_bpf_sockopt_def base_types layout_eval c__s32_def
      del: One_nat_def)

lemma struct_bpf_sockopt_kern_layout [layout_simps]:
  "sizeof struct_bpf_sockopt_kern = 56 \<and> alignof struct_bpf_sockopt_kern = 8 \<and> wf_cty struct_bpf_sockopt_kern"
  by (simp add: struct_bpf_sockopt_kern_def base_types layout_eval s32_def c__s32_def u64_def c__u64_def
      del: One_nat_def)

lemma struct_bpf_sk_lookup_kern_layout [layout_simps]:
  "sizeof struct_bpf_sk_lookup_kern = 48 \<and> alignof struct_bpf_sk_lookup_kern = 8 \<and> wf_cty struct_bpf_sk_lookup_kern"
  by (simp add: struct_bpf_sk_lookup_kern_def base_types layout_eval u16_def c__u16_def c__be16_def c__be32_def
      c__u32_def u32_def bool_def
      del: One_nat_def)

lemma struct_scatterlist_layout [layout_simps]:
  "sizeof struct_scatterlist = 32 \<and> alignof struct_scatterlist = 8 \<and> wf_cty struct_scatterlist"
  by (simp add: struct_scatterlist_def base_types layout_eval dma_addr_t_def u64_def c__u64_def
      del: One_nat_def)

lemma struct_sk_msg_sg_layout [layout_simps]:
  "sizeof struct_sk_msg_sg = 640 \<and> alignof struct_sk_msg_sg = 8 \<and> wf_cty struct_sk_msg_sg"
  by (simp add: struct_sk_msg_sg_def base_types layout_eval u32_def c__u32_def struct_scatterlist_layout
      del: One_nat_def)

lemma struct_sk_msg_layout [layout_simps]:
  "sizeof struct_sk_msg = 712 \<and> alignof struct_sk_msg = 8 \<and> wf_cty struct_sk_msg"
  by (simp add: struct_sk_msg_def base_types layout_eval struct_sk_msg_sg_layout u32_def c__u32_def
      struct_list_head_layout
      del: One_nat_def)

lemma struct_bpf_flow_dissector_layout [layout_simps]:
  "sizeof struct_bpf_flow_dissector = 32 \<and> alignof struct_bpf_flow_dissector = 8 \<and> wf_cty struct_bpf_flow_dissector"
  by (simp add: struct_bpf_flow_dissector_def base_types layout_eval
      del: One_nat_def)

lemma struct_bpf_perf_event_data_kern_layout [layout_simps]:
  "sizeof struct_bpf_perf_event_data_kern = 24 \<and> alignof struct_bpf_perf_event_data_kern = 8 \<and> wf_cty struct_bpf_perf_event_data_kern"
  by (simp add: struct_bpf_perf_event_data_kern_def base_types layout_eval
      del: One_nat_def)

lemma struct_bpf_cgroup_dev_ctx_layout [layout_simps]:
  "sizeof struct_bpf_cgroup_dev_ctx = 12 \<and> alignof struct_bpf_cgroup_dev_ctx = 4 \<and> wf_cty struct_bpf_cgroup_dev_ctx"
  by (simp add: struct_bpf_cgroup_dev_ctx_def base_types layout_eval c__u32_def
      del: One_nat_def)

lemma struct_sk_reuseport_kern_layout [layout_simps]:
  "sizeof struct_sk_reuseport_kern = 56 \<and> alignof struct_sk_reuseport_kern = 8 \<and> wf_cty struct_sk_reuseport_kern"
  by (simp add: struct_sk_reuseport_kern_def base_types layout_eval u32_def c__u32_def bool_def
      del: One_nat_def)

lemma struct_bpf_nf_ctx_layout [layout_simps]:
  "sizeof struct_bpf_nf_ctx = 16 \<and> alignof struct_bpf_nf_ctx = 8 \<and> wf_cty struct_bpf_nf_ctx"
  by (simp add: struct_bpf_nf_ctx_def base_types layout_eval
      del: One_nat_def)

lemma struct_bpf_ctx_convert_layout [layout_simps]:
  "sizeof struct_bpf_ctx_convert = 7320 \<and> alignof struct_bpf_ctx_convert = 8 \<and> wf_cty struct_bpf_ctx_convert"
  by (simp add: struct_bpf_ctx_convert_def base_types layout_eval struct___sk_buff_layout struct_sk_buff_layout
      struct_xdp_md_layout struct_xdp_buff_layout struct_bpf_sock_layout struct_sock_layout
      struct_bpf_sock_addr_layout struct_bpf_sock_addr_kern_layout struct_bpf_sock_ops_layout
      struct_bpf_sock_ops_kern_layout struct_sk_msg_md_layout struct_sk_msg_layout
      struct_bpf_flow_dissector_layout bpf_user_pt_regs_t_def struct_pt_regs_layout c__u64_def u64_def
      struct_bpf_perf_event_data_layout struct_bpf_perf_event_data_kern_layout
      struct_bpf_raw_tracepoint_args_layout struct_bpf_cgroup_dev_ctx_layout struct_bpf_sysctl_layout
      struct_bpf_sysctl_kern_layout struct_bpf_sockopt_layout struct_bpf_sockopt_kern_layout
      struct_sk_reuseport_md_layout struct_sk_reuseport_kern_layout struct_bpf_sk_lookup_layout
      struct_bpf_sk_lookup_kern_layout struct_bpf_nf_ctx_layout
      del: One_nat_def)

lemma struct_bpf_devmap_val_layout [layout_simps]:
  "sizeof struct_bpf_devmap_val = 8 \<and> alignof struct_bpf_devmap_val = 4 \<and> wf_cty struct_bpf_devmap_val"
  by (simp add: struct_bpf_devmap_val_def base_types layout_eval c__u32_def
      del: One_nat_def)

lemma struct_bpf_dtab_layout [layout_simps]:
  "sizeof struct_bpf_dtab = 336 \<and> alignof struct_bpf_dtab = 8 \<and> wf_cty struct_bpf_dtab"
  by (simp add: struct_bpf_dtab_def base_types layout_eval struct_bpf_map_layout struct_list_head_layout spinlock_t_def
      struct_spinlock_layout u32_def c__u32_def
      del: One_nat_def)

lemma struct_bpf_dtab_netdev_layout [layout_simps]:
  "sizeof struct_bpf_dtab_netdev = 64 \<and> alignof struct_bpf_dtab_netdev = 8 \<and> wf_cty struct_bpf_dtab_netdev"
  by (simp add: struct_bpf_dtab_netdev_def base_types layout_eval struct_hlist_node_layout struct_callback_head_layout
      struct_bpf_devmap_val_layout
      del: One_nat_def)

lemma struct_bpf_insn_access_aux_layout [layout_simps]:
  "sizeof struct_bpf_insn_access_aux = 40 \<and> alignof struct_bpf_insn_access_aux = 8 \<and> wf_cty struct_bpf_insn_access_aux"
  by (simp add: struct_bpf_insn_access_aux_def base_types layout_eval enum_bpf_reg_type_layout bool_def u32_def
      c__u32_def
      del: One_nat_def)

lemma struct_bpf_insn_array_value_layout [layout_simps]:
  "sizeof struct_bpf_insn_array_value = 16 \<and> alignof struct_bpf_insn_array_value = 4 \<and> wf_cty struct_bpf_insn_array_value"
  by (simp add: struct_bpf_insn_array_value_def base_types layout_eval c__u32_def
      del: One_nat_def)

lemma struct_bpf_insn_array_layout [layout_simps]:
  "sizeof struct_bpf_insn_array = 304 \<and> alignof struct_bpf_insn_array = 8 \<and> wf_cty struct_bpf_insn_array"
  by (simp add: struct_bpf_insn_array_def base_types layout_eval struct_bpf_map_layout atomic_t_layout
      struct_bpf_insn_array_value_layout
      del: One_nat_def)

lemma struct_bpf_iter__bpf_link_layout [layout_simps]:
  "sizeof struct_bpf_iter__bpf_link = 16 \<and> alignof struct_bpf_iter__bpf_link = 8 \<and> wf_cty struct_bpf_iter__bpf_link"
  by (simp add: struct_bpf_iter__bpf_link_def base_types layout_eval
      del: One_nat_def)

lemma struct_bpf_iter__bpf_map_layout [layout_simps]:
  "sizeof struct_bpf_iter__bpf_map = 16 \<and> alignof struct_bpf_iter__bpf_map = 8 \<and> wf_cty struct_bpf_iter__bpf_map"
  by (simp add: struct_bpf_iter__bpf_map_def base_types layout_eval
      del: One_nat_def)

lemma struct_bpf_iter__bpf_map_elem_layout [layout_simps]:
  "sizeof struct_bpf_iter__bpf_map_elem = 32 \<and> alignof struct_bpf_iter__bpf_map_elem = 8 \<and> wf_cty struct_bpf_iter__bpf_map_elem"
  by (simp add: struct_bpf_iter__bpf_map_elem_def base_types layout_eval
      del: One_nat_def)

lemma struct_bpf_iter__bpf_prog_layout [layout_simps]:
  "sizeof struct_bpf_iter__bpf_prog = 16 \<and> alignof struct_bpf_iter__bpf_prog = 8 \<and> wf_cty struct_bpf_iter__bpf_prog"
  by (simp add: struct_bpf_iter__bpf_prog_def base_types layout_eval
      del: One_nat_def)

lemma struct_bpf_iter__bpf_sk_storage_map_layout [layout_simps]:
  "sizeof struct_bpf_iter__bpf_sk_storage_map = 32 \<and> alignof struct_bpf_iter__bpf_sk_storage_map = 8 \<and> wf_cty struct_bpf_iter__bpf_sk_storage_map"
  by (simp add: struct_bpf_iter__bpf_sk_storage_map_def base_types layout_eval
      del: One_nat_def)

lemma struct_bpf_iter__cgroup_layout [layout_simps]:
  "sizeof struct_bpf_iter__cgroup = 16 \<and> alignof struct_bpf_iter__cgroup = 8 \<and> wf_cty struct_bpf_iter__cgroup"
  by (simp add: struct_bpf_iter__cgroup_def base_types layout_eval
      del: One_nat_def)

lemma struct_bpf_iter__dmabuf_layout [layout_simps]:
  "sizeof struct_bpf_iter__dmabuf = 16 \<and> alignof struct_bpf_iter__dmabuf = 8 \<and> wf_cty struct_bpf_iter__dmabuf"
  by (simp add: struct_bpf_iter__dmabuf_def base_types layout_eval
      del: One_nat_def)

lemma struct_bpf_iter__ipv6_route_layout [layout_simps]:
  "sizeof struct_bpf_iter__ipv6_route = 16 \<and> alignof struct_bpf_iter__ipv6_route = 8 \<and> wf_cty struct_bpf_iter__ipv6_route"
  by (simp add: struct_bpf_iter__ipv6_route_def base_types layout_eval
      del: One_nat_def)

lemma struct_bpf_iter__kmem_cache_layout [layout_simps]:
  "sizeof struct_bpf_iter__kmem_cache = 16 \<and> alignof struct_bpf_iter__kmem_cache = 8 \<and> wf_cty struct_bpf_iter__kmem_cache"
  by (simp add: struct_bpf_iter__kmem_cache_def base_types layout_eval
      del: One_nat_def)

lemma struct_bpf_iter__ksym_layout [layout_simps]:
  "sizeof struct_bpf_iter__ksym = 16 \<and> alignof struct_bpf_iter__ksym = 8 \<and> wf_cty struct_bpf_iter__ksym"
  by (simp add: struct_bpf_iter__ksym_def base_types layout_eval
      del: One_nat_def)

lemma struct_bpf_iter__netlink_layout [layout_simps]:
  "sizeof struct_bpf_iter__netlink = 16 \<and> alignof struct_bpf_iter__netlink = 8 \<and> wf_cty struct_bpf_iter__netlink"
  by (simp add: struct_bpf_iter__netlink_def base_types layout_eval
      del: One_nat_def)

lemma struct_bpf_iter__sockmap_layout [layout_simps]:
  "sizeof struct_bpf_iter__sockmap = 32 \<and> alignof struct_bpf_iter__sockmap = 8 \<and> wf_cty struct_bpf_iter__sockmap"
  by (simp add: struct_bpf_iter__sockmap_def base_types layout_eval
      del: One_nat_def)

lemma struct_bpf_iter__task_layout [layout_simps]:
  "sizeof struct_bpf_iter__task = 16 \<and> alignof struct_bpf_iter__task = 8 \<and> wf_cty struct_bpf_iter__task"
  by (simp add: struct_bpf_iter__task_def base_types layout_eval
      del: One_nat_def)

lemma struct_bpf_iter__task_file_layout [layout_simps]:
  "sizeof struct_bpf_iter__task_file = 32 \<and> alignof struct_bpf_iter__task_file = 8 \<and> wf_cty struct_bpf_iter__task_file"
  by (simp add: struct_bpf_iter__task_file_def base_types layout_eval u32_def c__u32_def
      del: One_nat_def)

lemma struct_bpf_iter__task_vma_layout [layout_simps]:
  "sizeof struct_bpf_iter__task_vma = 24 \<and> alignof struct_bpf_iter__task_vma = 8 \<and> wf_cty struct_bpf_iter__task_vma"
  by (simp add: struct_bpf_iter__task_vma_def base_types layout_eval
      del: One_nat_def)

lemma struct_bpf_iter__tcp_layout [layout_simps]:
  "sizeof struct_bpf_iter__tcp = 24 \<and> alignof struct_bpf_iter__tcp = 8 \<and> wf_cty struct_bpf_iter__tcp"
  by (simp add: struct_bpf_iter__tcp_def base_types layout_eval uid_t_def c__kernel_uid32_t_def
      del: One_nat_def)

lemma struct_bpf_iter__udp_layout [layout_simps]:
  "sizeof struct_bpf_iter__udp = 32 \<and> alignof struct_bpf_iter__udp = 8 \<and> wf_cty struct_bpf_iter__udp"
  by (simp add: struct_bpf_iter__udp_def base_types layout_eval uid_t_def c__kernel_uid32_t_def
      del: One_nat_def)

lemma struct_bpf_iter__unix_layout [layout_simps]:
  "sizeof struct_bpf_iter__unix = 24 \<and> alignof struct_bpf_iter__unix = 8 \<and> wf_cty struct_bpf_iter__unix"
  by (simp add: struct_bpf_iter__unix_def base_types layout_eval uid_t_def c__kernel_uid32_t_def
      del: One_nat_def)

lemma enum_bpf_iter_task_type_layout [layout_simps]:
  "sizeof enum_bpf_iter_task_type = 4 \<and> alignof enum_bpf_iter_task_type = 4 \<and> wf_cty enum_bpf_iter_task_type"
  by (simp add: enum_bpf_iter_task_type_def base_types layout_eval
      del: One_nat_def)

lemma struct_bpf_iter_aux_info_layout [layout_simps]:
  "sizeof struct_bpf_iter_aux_info = 32 \<and> alignof struct_bpf_iter_aux_info = 8 \<and> wf_cty struct_bpf_iter_aux_info"
  by (simp add: struct_bpf_iter_aux_info_def base_types layout_eval enum_bpf_cgroup_iter_order_layout
      enum_bpf_iter_task_type_layout u32_def c__u32_def
      del: One_nat_def)

lemma struct_bpf_iter_bits_kern_layout [layout_simps]:
  "sizeof struct_bpf_iter_bits_kern = 16 \<and> alignof struct_bpf_iter_bits_kern = 8 \<and> wf_cty struct_bpf_iter_bits_kern"
  by (simp add: struct_bpf_iter_bits_kern_def base_types layout_eval c__u64_def
      del: One_nat_def)

lemma struct_bpf_iter_meta_layout [layout_simps]:
  "sizeof struct_bpf_iter_meta = 24 \<and> alignof struct_bpf_iter_meta = 8 \<and> wf_cty struct_bpf_iter_meta"
  by (simp add: struct_bpf_iter_meta_def base_types layout_eval u64_def c__u64_def
      del: One_nat_def)

lemma struct_bpf_iter_priv_data_layout [layout_simps]:
  "sizeof struct_bpf_iter_priv_data = 48 \<and> alignof struct_bpf_iter_priv_data = 8 \<and> wf_cty struct_bpf_iter_priv_data"
  by (simp add: struct_bpf_iter_priv_data_def base_types layout_eval u64_def c__u64_def bool_def u8_def c__u8_def
      del: One_nat_def)

lemma struct_bpf_iter_reg_layout [layout_simps]:
  "sizeof struct_bpf_iter_reg = 128 \<and> alignof struct_bpf_iter_reg = 8 \<and> wf_cty struct_bpf_iter_reg"
  by (simp add: struct_bpf_iter_reg_def base_types layout_eval bpf_iter_attach_target_t_def bpf_iter_detach_target_t_def
      bpf_iter_show_fdinfo_t_def bpf_iter_fill_link_info_t_def bpf_iter_get_func_proto_t_def u32_def
      c__u32_def struct_bpf_ctx_arg_aux_layout
      del: One_nat_def)

lemma struct_bpf_iter_seq_hash_map_info_layout [layout_simps]:
  "sizeof struct_bpf_iter_seq_hash_map_info = 32 \<and> alignof struct_bpf_iter_seq_hash_map_info = 8 \<and> wf_cty struct_bpf_iter_seq_hash_map_info"
  by (simp add: struct_bpf_iter_seq_hash_map_info_def base_types layout_eval u32_def c__u32_def
      del: One_nat_def)

lemma struct_bpf_iter_seq_task_common_layout [layout_simps]:
  "sizeof struct_bpf_iter_seq_task_common = 24 \<and> alignof struct_bpf_iter_seq_task_common = 8 \<and> wf_cty struct_bpf_iter_seq_task_common"
  by (simp add: struct_bpf_iter_seq_task_common_def base_types layout_eval enum_bpf_iter_task_type_layout u32_def
      c__u32_def
      del: One_nat_def)

lemma struct_bpf_iter_seq_task_vma_info_layout [layout_simps]:
  "sizeof struct_bpf_iter_seq_task_vma_info = 72 \<and> alignof struct_bpf_iter_seq_task_vma_info = 8 \<and> wf_cty struct_bpf_iter_seq_task_vma_info"
  by (simp add: struct_bpf_iter_seq_task_vma_info_def base_types layout_eval struct_bpf_iter_seq_task_common_layout
      u32_def c__u32_def
      del: One_nat_def)

lemma struct_bpf_iter_task_vma_kern_data_layout [layout_simps]:
  "sizeof struct_bpf_iter_task_vma_kern_data = 320 \<and> alignof struct_bpf_iter_task_vma_kern_data = 8 \<and> wf_cty struct_bpf_iter_task_vma_kern_data"
  by (simp add: struct_bpf_iter_task_vma_kern_data_def base_types layout_eval struct_vm_area_struct_layout u64_def
      c__u64_def
      del: One_nat_def)

lemma struct_bpf_kfunc_call_arg_meta_layout [layout_simps]:
  "sizeof struct_bpf_kfunc_call_arg_meta = 152 \<and> alignof struct_bpf_kfunc_call_arg_meta = 8 \<and> wf_cty struct_bpf_kfunc_call_arg_meta"
  by (simp add: struct_bpf_kfunc_call_arg_meta_def base_types layout_eval u32_def c__u32_def u8_def c__u8_def bool_def
      u64_def c__u64_def enum_bpf_dynptr_type_layout struct_bpf_map_desc_layout
      del: One_nat_def)

lemma struct_bpf_kfunc_meta_layout [layout_simps]:
  "sizeof struct_bpf_kfunc_meta = 40 \<and> alignof struct_bpf_kfunc_meta = 8 \<and> wf_cty struct_bpf_kfunc_meta"
  by (simp add: struct_bpf_kfunc_meta_def base_types layout_eval s32_def c__s32_def
      del: One_nat_def)

lemma struct_fprobe_layout [layout_simps]:
  "sizeof struct_fprobe = 48 \<and> alignof struct_fprobe = 8 \<and> wf_cty struct_fprobe"
  by (simp add: struct_fprobe_def base_types layout_eval size_t_def c__kernel_size_t_def c__kernel_ulong_t_def
      fprobe_entry_cb_def fprobe_exit_cb_def
      del: One_nat_def)

lemma struct_bpf_kprobe_multi_link_layout [layout_simps]:
  "sizeof struct_bpf_kprobe_multi_link = 160 \<and> alignof struct_bpf_kprobe_multi_link = 8 \<and> wf_cty struct_bpf_kprobe_multi_link"
  by (simp add: struct_bpf_kprobe_multi_link_def base_types layout_eval struct_bpf_link_layout struct_fprobe_layout
      u32_def c__u32_def
      del: One_nat_def)

lemma struct_bpf_local_storage_elem_layout [layout_simps]:
  "sizeof struct_bpf_local_storage_elem = 128 \<and> alignof struct_bpf_local_storage_elem = 8 \<and> wf_cty struct_bpf_local_storage_elem"
  by (simp add: struct_bpf_local_storage_elem_def base_types layout_eval struct_hlist_node_layout
      struct_callback_head_layout atomic_t_layout bool_def struct_bpf_local_storage_data_layout
      del: One_nat_def)

lemma struct_bpf_lpm_trie_key_hdr_layout [layout_simps]:
  "sizeof struct_bpf_lpm_trie_key_hdr = 4 \<and> alignof struct_bpf_lpm_trie_key_hdr = 4 \<and> wf_cty struct_bpf_lpm_trie_key_hdr"
  by (simp add: struct_bpf_lpm_trie_key_hdr_def base_types layout_eval c__u32_def
      del: One_nat_def)

lemma struct_bpf_lpm_trie_key_u8_layout [layout_simps]:
  "sizeof struct_bpf_lpm_trie_key_u8 = 4 \<and> alignof struct_bpf_lpm_trie_key_u8 = 4 \<and> wf_cty struct_bpf_lpm_trie_key_u8"
  by (simp add: struct_bpf_lpm_trie_key_u8_def base_types layout_eval struct_bpf_lpm_trie_key_hdr_layout c__u32_def
      c__u8_def
      del: One_nat_def)

lemma struct_bpf_mount_opts_layout [layout_simps]:
  "sizeof struct_bpf_mount_opts = 48 \<and> alignof struct_bpf_mount_opts = 8 \<and> wf_cty struct_bpf_mount_opts"
  by (simp add: struct_bpf_mount_opts_def base_types layout_eval kuid_t_layout kgid_t_layout umode_t_def u64_def
      c__u64_def
      del: One_nat_def)

lemma enum_nf_hook_ops_type_layout [layout_simps]:
  "sizeof enum_nf_hook_ops_type = 4 \<and> alignof enum_nf_hook_ops_type = 4 \<and> wf_cty enum_nf_hook_ops_type"
  by (simp add: enum_nf_hook_ops_type_def base_types layout_eval
      del: One_nat_def)

lemma struct_nf_hook_ops_layout [layout_simps]:
  "sizeof struct_nf_hook_ops = 72 \<and> alignof struct_nf_hook_ops = 8 \<and> wf_cty struct_nf_hook_ops"
  by (simp add: struct_nf_hook_ops_def base_types layout_eval struct_list_head_layout struct_callback_head_layout u8_def
      c__u8_def enum_nf_hook_ops_type_layout enum_nf_hook_ops_type_def
      del: One_nat_def)

lemma struct_bpf_nf_link_layout [layout_simps]:
  "sizeof struct_bpf_nf_link = 176 \<and> alignof struct_bpf_nf_link = 8 \<and> wf_cty struct_bpf_nf_link"
  by (simp add: struct_bpf_nf_link_def base_types layout_eval struct_bpf_link_layout struct_nf_hook_ops_layout
      netns_tracker_layout u32_def c__u32_def
      del: One_nat_def)

lemma struct_bpf_offload_netdev_layout [layout_simps]:
  "sizeof struct_bpf_offload_netdev = 72 \<and> alignof struct_bpf_offload_netdev = 8 \<and> wf_cty struct_bpf_offload_netdev"
  by (simp add: struct_bpf_offload_netdev_def base_types layout_eval struct_rhash_head_layout struct_list_head_layout
      del: One_nat_def)

lemma struct_bpf_offloaded_map_layout [layout_simps]:
  "sizeof struct_bpf_offloaded_map = 328 \<and> alignof struct_bpf_offloaded_map = 8 \<and> wf_cty struct_bpf_offloaded_map"
  by (simp add: struct_bpf_offloaded_map_def base_types layout_eval struct_bpf_map_layout struct_list_head_layout
      del: One_nat_def)

lemma struct_bpf_prog_list_layout [layout_simps]:
  "sizeof struct_bpf_prog_list = 56 \<and> alignof struct_bpf_prog_list = 8 \<and> wf_cty struct_bpf_prog_list"
  by (simp add: struct_bpf_prog_list_def base_types layout_eval struct_hlist_node_layout u32_def c__u32_def
      del: One_nat_def)

lemma struct_bpf_queue_stack_layout [layout_simps]:
  "sizeof struct_bpf_queue_stack = 304 \<and> alignof struct_bpf_queue_stack = 8 \<and> wf_cty struct_bpf_queue_stack"
  by (simp add: struct_bpf_queue_stack_def base_types layout_eval struct_bpf_map_layout rqspinlock_t_def
      struct_qspinlock_layout u32_def c__u32_def
      del: One_nat_def)

lemma struct_sk_psock_progs_layout [layout_simps]:
  "sizeof struct_sk_psock_progs = 64 \<and> alignof struct_sk_psock_progs = 8 \<and> wf_cty struct_sk_psock_progs"
  by (simp add: struct_sk_psock_progs_def base_types layout_eval
      del: One_nat_def)

lemma struct_bpf_shtab_layout [layout_simps]:
  "sizeof struct_bpf_shtab = 376 \<and> alignof struct_bpf_shtab = 8 \<and> wf_cty struct_bpf_shtab"
  by (simp add: struct_bpf_shtab_def base_types layout_eval struct_bpf_map_layout u32_def c__u32_def
      struct_sk_psock_progs_layout atomic_t_layout
      del: One_nat_def)

lemma struct_bpf_shtab_elem_layout [layout_simps]:
  "sizeof struct_bpf_shtab_elem = 48 \<and> alignof struct_bpf_shtab_elem = 8 \<and> wf_cty struct_bpf_shtab_elem"
  by (simp add: struct_bpf_shtab_elem_def base_types layout_eval struct_callback_head_layout u32_def c__u32_def
      struct_hlist_node_layout u8_def c__u8_def
      del: One_nat_def)

lemma struct_bpf_stack_build_id_layout [layout_simps]:
  "sizeof struct_bpf_stack_build_id = 32 \<and> alignof struct_bpf_stack_build_id = 8 \<and> wf_cty struct_bpf_stack_build_id"
  by (simp add: struct_bpf_stack_build_id_def base_types layout_eval c__s32_def c__u64_def
      del: One_nat_def)

lemma struct_bpf_stack_map_layout [layout_simps]:
  "sizeof struct_bpf_stack_map = 312 \<and> alignof struct_bpf_stack_map = 8 \<and> wf_cty struct_bpf_stack_map"
  by (simp add: struct_bpf_stack_map_def base_types layout_eval struct_bpf_map_layout struct_pcpu_freelist_layout u32_def
      c__u32_def
      del: One_nat_def)

lemma enum_bpf_struct_ops_state_layout [layout_simps]:
  "sizeof enum_bpf_struct_ops_state = 4 \<and> alignof enum_bpf_struct_ops_state = 4 \<and> wf_cty enum_bpf_struct_ops_state"
  by (simp add: enum_bpf_struct_ops_state_def base_types layout_eval
      del: One_nat_def)

lemma struct_bpf_struct_ops_common_value_layout [layout_simps]:
  "sizeof struct_bpf_struct_ops_common_value = 8 \<and> alignof struct_bpf_struct_ops_common_value = 4 \<and> wf_cty struct_bpf_struct_ops_common_value"
  by (simp add: struct_bpf_struct_ops_common_value_def base_types layout_eval refcount_t_def
      struct_refcount_struct_layout enum_bpf_struct_ops_state_layout
      del: One_nat_def)

lemma struct_bpf_struct_ops_Qdisc_ops_layout [layout_simps]:
  "sizeof struct_bpf_struct_ops_Qdisc_ops = 256 \<and> alignof struct_bpf_struct_ops_Qdisc_ops = 8 \<and> wf_cty struct_bpf_struct_ops_Qdisc_ops"
  by (simp add: struct_bpf_struct_ops_Qdisc_ops_def base_types layout_eval struct_bpf_struct_ops_common_value_layout
      struct_Qdisc_ops_layout
      del: One_nat_def)

lemma struct_bpf_dummy_ops_layout [layout_simps]:
  "sizeof struct_bpf_dummy_ops = 24 \<and> alignof struct_bpf_dummy_ops = 8 \<and> wf_cty struct_bpf_dummy_ops"
  by (simp add: struct_bpf_dummy_ops_def base_types layout_eval
      del: One_nat_def)

lemma struct_bpf_struct_ops_bpf_dummy_ops_layout [layout_simps]:
  "sizeof struct_bpf_struct_ops_bpf_dummy_ops = 128 \<and> alignof struct_bpf_struct_ops_bpf_dummy_ops = 8 \<and> wf_cty struct_bpf_struct_ops_bpf_dummy_ops"
  by (simp add: struct_bpf_struct_ops_bpf_dummy_ops_def base_types layout_eval struct_bpf_struct_ops_common_value_layout
      struct_bpf_dummy_ops_layout
      del: One_nat_def)

lemma struct_hid_bpf_ops_layout [layout_simps]:
  "sizeof struct_hid_bpf_ops = 64 \<and> alignof struct_hid_bpf_ops = 8 \<and> wf_cty struct_hid_bpf_ops"
  by (simp add: struct_hid_bpf_ops_def base_types layout_eval u32_def c__u32_def struct_list_head_layout
      del: One_nat_def)

lemma struct_bpf_struct_ops_hid_bpf_ops_layout [layout_simps]:
  "sizeof struct_bpf_struct_ops_hid_bpf_ops = 128 \<and> alignof struct_bpf_struct_ops_hid_bpf_ops = 8 \<and> wf_cty struct_bpf_struct_ops_hid_bpf_ops"
  by (simp add: struct_bpf_struct_ops_hid_bpf_ops_def base_types layout_eval struct_bpf_struct_ops_common_value_layout
      struct_hid_bpf_ops_layout
      del: One_nat_def)

lemma struct_bpf_struct_ops_value_layout [layout_simps]:
  "sizeof struct_bpf_struct_ops_value = 64 \<and> alignof struct_bpf_struct_ops_value = 4 \<and> wf_cty struct_bpf_struct_ops_value"
  by (simp add: struct_bpf_struct_ops_value_def base_types layout_eval struct_bpf_struct_ops_common_value_layout
      del: One_nat_def)

lemma struct_bpf_struct_ops_map_layout [layout_simps]:
  "sizeof struct_bpf_struct_ops_map = 512 \<and> alignof struct_bpf_struct_ops_map = 8 \<and> wf_cty struct_bpf_struct_ops_map"
  by (simp add: struct_bpf_struct_ops_map_def base_types layout_eval struct_bpf_map_layout struct_mutex_layout u32_def
      c__u32_def struct_bpf_struct_ops_value_layout
      del: One_nat_def)

lemma struct_sched_ext_ops_layout [layout_simps]:
  "sizeof struct_sched_ext_ops = 448 \<and> alignof struct_sched_ext_ops = 8 \<and> wf_cty struct_sched_ext_ops"
  by (simp add: struct_sched_ext_ops_def base_types layout_eval u32_def c__u32_def u64_def c__u64_def
      del: One_nat_def)

lemma struct_bpf_struct_ops_sched_ext_ops_layout [layout_simps]:
  "sizeof struct_bpf_struct_ops_sched_ext_ops = 512 \<and> alignof struct_bpf_struct_ops_sched_ext_ops = 8 \<and> wf_cty struct_bpf_struct_ops_sched_ext_ops"
  by (simp add: struct_bpf_struct_ops_sched_ext_ops_def base_types layout_eval struct_bpf_struct_ops_common_value_layout
      struct_sched_ext_ops_layout
      del: One_nat_def)

lemma struct_bpf_struct_ops_tcp_congestion_ops_layout [layout_simps]:
  "sizeof struct_bpf_struct_ops_tcp_congestion_ops = 256 \<and> alignof struct_bpf_struct_ops_tcp_congestion_ops = 8 \<and> wf_cty struct_bpf_struct_ops_tcp_congestion_ops"
  by (simp add: struct_bpf_struct_ops_tcp_congestion_ops_def base_types layout_eval
      struct_bpf_struct_ops_common_value_layout struct_tcp_congestion_ops_layout
      del: One_nat_def)

lemma struct_bpf_task_work_ctx_layout [layout_simps]:
  "sizeof struct_bpf_task_work_ctx = 120 \<and> alignof struct_bpf_task_work_ctx = 8 \<and> wf_cty struct_bpf_task_work_ctx"
  by (simp add: struct_bpf_task_work_ctx_def base_types layout_eval enum_bpf_task_work_state_layout refcount_t_def
      struct_refcount_struct_layout struct_callback_head_layout struct_irq_work_layout
      enum_task_work_notify_mode_layout bpf_task_work_callback_t_def
      del: One_nat_def)

lemma struct_seq_net_private_layout [layout_simps]:
  "sizeof struct_seq_net_private = 8 \<and> alignof struct_seq_net_private = 8 \<and> wf_cty struct_seq_net_private"
  by (simp add: struct_seq_net_private_def base_types layout_eval netns_tracker_layout
      del: One_nat_def)

lemma enum_tcp_seq_states_layout [layout_simps]:
  "sizeof enum_tcp_seq_states = 4 \<and> alignof enum_tcp_seq_states = 4 \<and> wf_cty enum_tcp_seq_states"
  by (simp add: enum_tcp_seq_states_def base_types layout_eval
      del: One_nat_def)

lemma struct_tcp_iter_state_layout [layout_simps]:
  "sizeof struct_tcp_iter_state = 48 \<and> alignof struct_tcp_iter_state = 8 \<and> wf_cty struct_tcp_iter_state"
  by (simp add: struct_tcp_iter_state_def base_types layout_eval struct_seq_net_private_layout enum_tcp_seq_states_layout
      loff_t_def c__kernel_loff_t_def
      del: One_nat_def)

lemma struct_bpf_tcp_iter_state_layout [layout_simps]:
  "sizeof struct_bpf_tcp_iter_state = 72 \<and> alignof struct_bpf_tcp_iter_state = 8 \<and> wf_cty struct_bpf_tcp_iter_state"
  by (simp add: struct_bpf_tcp_iter_state_def base_types layout_eval struct_tcp_iter_state_layout
      del: One_nat_def)

lemma struct_bpf_tcp_req_attrs_layout [layout_simps]:
  "sizeof struct_bpf_tcp_req_attrs = 20 \<and> alignof struct_bpf_tcp_req_attrs = 4 \<and> wf_cty struct_bpf_tcp_req_attrs"
  by (simp add: struct_bpf_tcp_req_attrs_def base_types layout_eval u32_def c__u32_def u16_def c__u16_def u8_def
      c__u8_def
      del: One_nat_def)

lemma struct_udp_iter_state_layout [layout_simps]:
  "sizeof struct_udp_iter_state = 16 \<and> alignof struct_udp_iter_state = 8 \<and> wf_cty struct_udp_iter_state"
  by (simp add: struct_udp_iter_state_def base_types layout_eval struct_seq_net_private_layout
      del: One_nat_def)

lemma struct_bpf_udp_iter_state_layout [layout_simps]:
  "sizeof struct_bpf_udp_iter_state = 40 \<and> alignof struct_bpf_udp_iter_state = 8 \<and> wf_cty struct_bpf_udp_iter_state"
  by (simp add: struct_bpf_udp_iter_state_def base_types layout_eval struct_udp_iter_state_layout
      del: One_nat_def)

lemma struct_bpf_unix_iter_state_layout [layout_simps]:
  "sizeof struct_bpf_unix_iter_state = 40 \<and> alignof struct_bpf_unix_iter_state = 8 \<and> wf_cty struct_bpf_unix_iter_state"
  by (simp add: struct_bpf_unix_iter_state_def base_types layout_eval struct_seq_net_private_layout bool_def
      del: One_nat_def)

lemma struct_uprobe_consumer_layout [layout_simps]:
  "sizeof struct_uprobe_consumer = 48 \<and> alignof struct_uprobe_consumer = 8 \<and> wf_cty struct_uprobe_consumer"
  by (simp add: struct_uprobe_consumer_def base_types layout_eval struct_list_head_layout c__u64_def
      del: One_nat_def)

lemma struct_bpf_uprobe_layout [layout_simps]:
  "sizeof struct_bpf_uprobe = 96 \<and> alignof struct_bpf_uprobe = 8 \<and> wf_cty struct_bpf_uprobe"
  by (simp add: struct_bpf_uprobe_def base_types layout_eval loff_t_def c__kernel_loff_t_def u64_def c__u64_def
      struct_uprobe_consumer_layout bool_def
      del: One_nat_def)

lemma struct_bpf_uprobe_multi_link_layout [layout_simps]:
  "sizeof struct_bpf_uprobe_multi_link = 120 \<and> alignof struct_bpf_uprobe_multi_link = 8 \<and> wf_cty struct_bpf_uprobe_multi_link"
  by (simp add: struct_bpf_uprobe_multi_link_def base_types layout_eval struct_path_layout struct_bpf_link_layout u32_def
      c__u32_def
      del: One_nat_def)

lemma struct_bpf_verifier_state_list_layout [layout_simps]:
  "sizeof struct_bpf_verifier_state_list = 192 \<and> alignof struct_bpf_verifier_state_list = 8 \<and> wf_cty struct_bpf_verifier_state_list"
  by (simp add: struct_bpf_verifier_state_list_def base_types layout_eval struct_bpf_verifier_state_layout
      struct_list_head_layout u32_def c__u32_def
      del: One_nat_def)

lemma struct_bpf_xfrm_state_opts_layout [layout_simps]:
  "sizeof struct_bpf_xfrm_state_opts = 36 \<and> alignof struct_bpf_xfrm_state_opts = 4 \<and> wf_cty struct_bpf_xfrm_state_opts"
  by (simp add: struct_bpf_xfrm_state_opts_def base_types layout_eval s32_def c__s32_def u32_def c__u32_def
      xfrm_address_t_layout c__be32_def u8_def c__u8_def u16_def c__u16_def
      del: One_nat_def)

lemma struct_bpffs_btf_enums_layout [layout_simps]:
  "sizeof struct_bpffs_btf_enums = 40 \<and> alignof struct_bpffs_btf_enums = 8 \<and> wf_cty struct_bpffs_btf_enums"
  by (simp add: struct_bpffs_btf_enums_def base_types layout_eval
      del: One_nat_def)

lemma struct_btf_field_desc_layout [layout_simps]:
  "sizeof struct_btf_field_desc = 24 \<and> alignof struct_btf_field_desc = 4 \<and> wf_cty struct_btf_field_desc"
  by (simp add: struct_btf_field_desc_def base_types layout_eval
      del: One_nat_def)

lemma struct_btf_field_info_layout [layout_simps]:
  "sizeof struct_btf_field_info = 24 \<and> alignof struct_btf_field_info = 8 \<and> wf_cty struct_btf_field_info"
  by (simp add: struct_btf_field_info_def base_types layout_eval enum_btf_field_type_layout u32_def c__u32_def
      del: One_nat_def)

lemma struct_btf_field_iter_layout [layout_simps]:
  "sizeof struct_btf_field_iter = 48 \<and> alignof struct_btf_field_iter = 8 \<and> wf_cty struct_btf_field_iter"
  by (simp add: struct_btf_field_iter_def base_types layout_eval struct_btf_field_desc_layout
      del: One_nat_def)

lemma struct_btf_kind_operations_layout [layout_simps]:
  "sizeof struct_btf_kind_operations = 48 \<and> alignof struct_btf_kind_operations = 8 \<and> wf_cty struct_btf_kind_operations"
  by (simp add: struct_btf_kind_operations_def base_types layout_eval
      del: One_nat_def)

lemma struct_btf_module_layout [layout_simps]:
  "sizeof struct_btf_module = 48 \<and> alignof struct_btf_module = 8 \<and> wf_cty struct_btf_module"
  by (simp add: struct_btf_module_def base_types layout_eval struct_list_head_layout
      del: One_nat_def)

lemma struct_btf_relocate_layout [layout_simps]:
  "sizeof struct_btf_relocate = 64 \<and> alignof struct_btf_relocate = 8 \<and> wf_cty struct_btf_relocate"
  by (simp add: struct_btf_relocate_def base_types layout_eval
      del: One_nat_def)

lemma struct_btf_show_layout [layout_simps]:
  "sizeof struct_btf_show = 200 \<and> alignof struct_btf_show = 8 \<and> wf_cty struct_btf_show"
  by (simp add: struct_btf_show_def base_types layout_eval u64_def c__u64_def u8_def c__u8_def u16_def c__u16_def u32_def
      c__u32_def
      del: One_nat_def)

lemma struct_resolve_vertex_layout [layout_simps]:
  "sizeof struct_resolve_vertex = 16 \<and> alignof struct_resolve_vertex = 8 \<and> wf_cty struct_resolve_vertex"
  by (simp add: struct_resolve_vertex_def base_types layout_eval u32_def c__u32_def u16_def c__u16_def
      del: One_nat_def)

lemma enum_verifier_phase_layout [layout_simps]:
  "sizeof enum_verifier_phase = 4 \<and> alignof enum_verifier_phase = 4 \<and> wf_cty enum_verifier_phase"
  by (simp add: enum_verifier_phase_def base_types layout_eval
      del: One_nat_def)

lemma enum_resolve_mode_layout [layout_simps]:
  "sizeof enum_resolve_mode = 4 \<and> alignof enum_resolve_mode = 4 \<and> wf_cty enum_resolve_mode"
  by (simp add: enum_resolve_mode_def base_types layout_eval
      del: One_nat_def)

lemma struct_btf_verifier_env_layout [layout_simps]:
  "sizeof struct_btf_verifier_env = 1608 \<and> alignof struct_btf_verifier_env = 8 \<and> wf_cty struct_btf_verifier_env"
  by (simp add: struct_btf_verifier_env_def base_types layout_eval struct_resolve_vertex_layout
      struct_bpf_verifier_log_layout u32_def c__u32_def enum_verifier_phase_layout
      enum_resolve_mode_layout
      del: One_nat_def)

lemma struct_hid_bpf_layout [layout_simps]:
  "sizeof struct_hid_bpf = 104 \<and> alignof struct_hid_bpf = 8 \<and> wf_cty struct_hid_bpf"
  by (simp add: struct_hid_bpf_def base_types layout_eval u32_def c__u32_def bool_def struct_list_head_layout
      struct_mutex_layout struct_srcu_struct_layout
      del: One_nat_def)

lemma struct_hid_bpf_ctx_layout [layout_simps]:
  "sizeof struct_hid_bpf_ctx = 16 \<and> alignof struct_hid_bpf_ctx = 8 \<and> wf_cty struct_hid_bpf_ctx"
  by (simp add: struct_hid_bpf_ctx_def base_types layout_eval c__u32_def c__s32_def
      del: One_nat_def)

lemma struct_io_uring_bpf_filter_layout [layout_simps]:
  "sizeof struct_io_uring_bpf_filter = 64 \<and> alignof struct_io_uring_bpf_filter = 8 \<and> wf_cty struct_io_uring_bpf_filter"
  by (simp add: struct_io_uring_bpf_filter_def base_types layout_eval c__u32_def c__u8_def c__u64_def
      del: One_nat_def)

lemma struct_io_uring_bpf_layout [layout_simps]:
  "sizeof struct_io_uring_bpf = 72 \<and> alignof struct_io_uring_bpf = 8 \<and> wf_cty struct_io_uring_bpf"
  by (simp add: struct_io_uring_bpf_def base_types layout_eval c__u16_def c__u32_def struct_io_uring_bpf_filter_layout
      del: One_nat_def)

lemma struct_io_uring_bpf_ctx_layout [layout_simps]:
  "sizeof struct_io_uring_bpf_ctx = 40 \<and> alignof struct_io_uring_bpf_ctx = 8 \<and> wf_cty struct_io_uring_bpf_ctx"
  by (simp add: struct_io_uring_bpf_ctx_def base_types layout_eval c__u64_def c__u8_def c__u32_def
      del: One_nat_def)

lemma struct_ipv6_bpf_stub_layout [layout_simps]:
  "sizeof struct_ipv6_bpf_stub = 40 \<and> alignof struct_ipv6_bpf_stub = 8 \<and> wf_cty struct_ipv6_bpf_stub"
  by (simp add: struct_ipv6_bpf_stub_def base_types layout_eval
      del: One_nat_def)

lemma struct_netdev_bpf_layout [layout_simps]:
  "sizeof struct_netdev_bpf = 32 \<and> alignof struct_netdev_bpf = 8 \<and> wf_cty struct_netdev_bpf"
  by (simp add: struct_netdev_bpf_def base_types layout_eval enum_bpf_netdev_command_layout u32_def c__u32_def u16_def
      c__u16_def
      del: One_nat_def)

lemma struct_perf_event_header_layout [layout_simps]:
  "sizeof struct_perf_event_header = 8 \<and> alignof struct_perf_event_header = 4 \<and> wf_cty struct_perf_event_header"
  by (simp add: struct_perf_event_header_def base_types layout_eval c__u32_def c__u16_def
      del: One_nat_def)

lemma struct_perf_bpf_event_layout [layout_simps]:
  "sizeof struct_perf_bpf_event = 32 \<and> alignof struct_perf_bpf_event = 8 \<and> wf_cty struct_perf_bpf_event"
  by (simp add: struct_perf_bpf_event_def base_types layout_eval struct_perf_event_header_layout u16_def c__u16_def
      u32_def c__u32_def u8_def c__u8_def
      del: One_nat_def)

end
