(* ===== verification/KernelMmRefs.thy ===== *)
theory KernelMmRefs
  imports KernelTaskRefs2
begin

text \<open>
  Types of \<^verbatim>\<open>bpf/vmlinux.h\<close> that the objects of \<open>KernelMm\<close> (address spaces and pages) point to, one
  dereference away, with every type they hold by value.
\<close>

section \<open>Types\<close>

definition struct_anon_vma :: cty where
  "struct_anon_vma = CStruct ''anon_vma'' False
     [Field ''root'' (CPtr ''struct anon_vma''),
      Field ''rwsem'' struct_rw_semaphore,
      Field ''refcount'' atomic_t,
      Field ''num_children'' long_unsigned_int,
      Field ''num_active_vmas'' long_unsigned_int,
      Field ''parent'' (CPtr ''struct anon_vma''),
      Field ''rb_root'' struct_rb_root_cached]"

definition struct_anon_vma_name :: cty where
  "struct_anon_vma_name = CStruct ''anon_vma_name'' False
     [Field ''kref'' struct_kref,
      Field ''name'' (CArr 0 c_char)]"

definition struct_vmem_altmap :: cty where
  "struct_vmem_altmap = CStruct ''vmem_altmap'' False
     [Field ''base_pfn'' long_unsigned_int,
      Field ''end_pfn'' long_unsigned_int,
      Field ''reserve'' long_unsigned_int,
      Field ''free'' long_unsigned_int,
      Field ''align'' long_unsigned_int,
      Field ''alloc'' long_unsigned_int]"

definition enum_memory_type :: cty where
  "enum_memory_type = CEnum 4
     [(''MEMORY_DEVICE_PRIVATE'', 1), (''MEMORY_DEVICE_COHERENT'', 2),
      (''MEMORY_DEVICE_FS_DAX'', 3), (''MEMORY_DEVICE_GENERIC'', 4),
      (''MEMORY_DEVICE_PCI_P2PDMA'', 5)]"

definition struct_range :: cty where
  "struct_range = CStruct ''range'' False
     [Field ''start'' u64,
      Field ''end'' u64]"

definition struct_dev_pagemap :: cty where
  "struct_dev_pagemap = CStruct ''dev_pagemap'' False
     [Field ''altmap'' struct_vmem_altmap,
      Field ''ref'' struct_percpu_ref,
      Field ''done'' struct_completion,
      Field ''type'' enum_memory_type,
      Field ''flags'' unsigned_int,
      Field ''vmemmap_shift'' long_unsigned_int,
      Field ''ops'' (CPtr ''const struct dev_pagemap_ops''),
      Field ''owner'' (CPtr ''void''),
      Field ''nr_range'' c_int,
      Field [] (CUnion [] False
        [Field ''range'' struct_range,
         Field [] (CStruct [] False
           [Field ''__empty_ranges'' (CStruct [] False
              []),
            Field ''ranges'' (CArr 0 struct_range)])])]"

definition struct_futex_hash_bucket :: cty where
  "struct_futex_hash_bucket = CStruct ''futex_hash_bucket'' False
     [Field ''waiters'' atomic_t,
      Field ''lock'' spinlock_t,
      Field ''chain'' struct_plist_head,
      Field ''priv'' (CPtr ''struct futex_private_hash''),
      BitField [] c_long 64,
      BitField [] c_long 64,
      BitField [] c_long 64,
      BitField [] c_long 64]"

definition struct_futex_private_hash :: cty where
  "struct_futex_private_hash = CStruct ''futex_private_hash'' False
     [Field ''state'' c_int,
      Field ''hash_mask'' unsigned_int,
      Field ''rcu'' struct_callback_head,
      Field ''mm'' (CPtr ''void''),
      Field ''custom'' bool,
      BitField [] c_long 64,
      BitField [] c_long 64,
      BitField [] c_long 64,
      Field ''queues'' (CArr 0 struct_futex_hash_bucket)]"

definition struct_iommu_mm_data :: cty where
  "struct_iommu_mm_data = CStruct ''iommu_mm_data'' False
     [Field ''pasid'' u32,
      Field ''mm'' (CPtr ''struct mm_struct''),
      Field ''sva_domains'' struct_list_head,
      Field ''mm_list_elm'' struct_list_head]"

definition struct_kioctx_table :: cty where
  "struct_kioctx_table = CStruct ''kioctx_table'' False
     [Field ''rcu'' struct_callback_head,
      Field ''nr'' unsigned_int,
      Field ''table'' (CArr 0 (CPtr ''struct kioctx''))]"

definition struct_ldt_struct :: cty where
  "struct_ldt_struct = CStruct ''ldt_struct'' False
     [Field ''entries'' (CPtr ''struct desc_struct''),
      Field ''nr_entries'' unsigned_int,
      Field ''slot'' c_int]"

definition struct_linux_binfmt :: cty where
  "struct_linux_binfmt = CStruct ''linux_binfmt'' False
     [Field ''lh'' struct_list_head,
      Field ''module'' (CPtr ''struct module''),
      Field ''load_binary'' (CPtr ''int (struct linux_binprm *)''),
      Field ''core_dump'' (CPtr ''int (struct coredump_params *)''),
      Field ''min_coredump'' long_unsigned_int]"

definition struct_mm_cid_pcpu :: cty where
  "struct_mm_cid_pcpu = CStruct ''mm_cid_pcpu'' False
     [Field ''cid'' unsigned_int,
      BitField [] c_long 64,
      BitField [] c_long 64,
      BitField [] c_long 64,
      BitField [] c_long 64,
      BitField [] c_long 64,
      BitField [] c_long 64,
      BitField [] c_long 64]"

definition struct_mmu_notifier_subscriptions :: cty where
  "struct_mmu_notifier_subscriptions = CStruct ''mmu_notifier_subscriptions'' False
     [Field ''list'' struct_hlist_head,
      Field ''has_itree'' bool,
      Field ''lock'' spinlock_t,
      Field ''invalidate_seq'' long_unsigned_int,
      Field ''active_invalidate_ranges'' long_unsigned_int,
      Field ''itree'' struct_rb_root_cached,
      Field ''wq'' wait_queue_head_t,
      Field ''deferred_list'' struct_hlist_head]"

definition enum_dma_data_direction :: cty where
  "enum_dma_data_direction = CEnum 4
     [(''DMA_BIDIRECTIONAL'', 0), (''DMA_TO_DEVICE'', 1), (''DMA_FROM_DEVICE'', 2),
      (''DMA_NONE'', 3)]"

definition struct_page_pool_params_fast :: cty where
  "struct_page_pool_params_fast = CStruct ''page_pool_params_fast'' False
     [Field ''order'' unsigned_int,
      Field ''pool_size'' unsigned_int,
      Field ''nid'' c_int,
      Field ''dev'' (CPtr ''struct device''),
      Field ''napi'' (CPtr ''struct napi_struct''),
      Field ''dma_dir'' enum_dma_data_direction,
      Field ''max_len'' unsigned_int,
      Field ''offset'' unsigned_int]"

definition netmem_ref :: cty where [layout_simps]:
  "netmem_ref = long_unsigned_int"

definition struct_page_pool_alloc_stats :: cty where
  "struct_page_pool_alloc_stats = CStruct ''page_pool_alloc_stats'' False
     [Field ''fast'' u64,
      Field ''slow'' u64,
      Field ''slow_high_order'' u64,
      Field ''empty'' u64,
      Field ''refill'' u64,
      Field ''waive'' u64]"

definition struct_pp_alloc_cache :: cty where
  "struct_pp_alloc_cache = CStruct ''pp_alloc_cache'' False
     [Field ''count'' u32,
      Field ''cache'' (CArr 128 netmem_ref)]"

definition struct_ptr_ring :: cty where
  "struct_ptr_ring = CStruct ''ptr_ring'' False
     [Field ''producer'' c_int,
      Field ''producer_lock'' spinlock_t,
      BitField [] c_long 64,
      BitField [] c_long 64,
      BitField [] c_long 64,
      BitField [] c_long 64,
      BitField [] c_long 64,
      BitField [] c_long 64,
      BitField [] c_long 64,
      Field ''consumer_head'' c_int,
      Field ''consumer_tail'' c_int,
      Field ''consumer_lock'' spinlock_t,
      BitField [] c_long 64,
      BitField [] c_long 64,
      BitField [] c_long 64,
      BitField [] c_long 64,
      BitField [] c_long 64,
      BitField [] c_long 64,
      Field ''size'' c_int,
      Field ''batch'' c_int,
      Field ''queue'' (CPtr ''void *''),
      BitField [] c_long 64,
      BitField [] c_long 64,
      BitField [] c_long 64,
      BitField [] c_long 64,
      BitField [] c_long 64,
      BitField [] c_long 64]"

definition struct_page_pool_params_slow :: cty where
  "struct_page_pool_params_slow = CStruct ''page_pool_params_slow'' False
     [Field ''netdev'' (CPtr ''struct net_device''),
      Field ''queue_idx'' unsigned_int,
      Field ''flags'' unsigned_int,
      Field ''init_callback'' (CPtr ''void (netmem_ref, void *)''),
      Field ''init_arg'' (CPtr ''void'')]"

definition struct_page_pool :: cty where
  "struct_page_pool = CStruct ''page_pool'' False
     [Field ''p'' struct_page_pool_params_fast,
      Field ''cpuid'' c_int,
      Field ''pages_state_hold_cnt'' u32,
      BitField ''has_init_callback'' bool 1,
      BitField ''dma_map'' bool 1,
      BitField ''dma_sync'' bool 1,
      BitField ''dma_sync_for_cpu'' bool 1,
      BitField ''system'' bool 1,
      BitField [] c_long 0,
      Field ''__cacheline_group_begin__frag'' (CArr 0 c__u8),
      Field ''frag_users'' c_long,
      Field ''frag_page'' netmem_ref,
      Field ''frag_offset'' unsigned_int,
      BitField [] c_long 0,
      Field ''__cacheline_group_end__frag'' (CArr 0 c__u8),
      BitField [] c_long 64,
      Field ''__cacheline_group_pad__frag'' (CStruct [] False
        []),
      Field ''release_dw'' struct_delayed_work,
      Field ''disconnect'' (CPtr ''void (void *)''),
      Field ''defer_start'' long_unsigned_int,
      Field ''defer_warn'' long_unsigned_int,
      Field ''alloc_stats'' struct_page_pool_alloc_stats,
      Field ''xdp_mem_id'' u32,
      BitField [] c_long 64,
      BitField [] c_long 64,
      BitField [] c_long 64,
      BitField [] c_long 64,
      BitField [] c_long 64,
      BitField [] c_long 64,
      BitField [] c_long 64,
      Field ''alloc'' struct_pp_alloc_cache,
      BitField [] c_long 64,
      BitField [] c_long 64,
      BitField [] c_long 64,
      BitField [] c_long 64,
      BitField [] c_long 64,
      BitField [] c_long 64,
      BitField [] c_long 64,
      Field ''ring'' struct_ptr_ring,
      Field ''mp_priv'' (CPtr ''void''),
      Field ''mp_ops'' (CPtr ''const struct memory_provider_ops''),
      Field ''dma_mapped'' struct_xarray,
      Field ''recycle_stats'' (CPtr ''struct page_pool_recycle_stats''),
      Field ''pages_state_release_cnt'' atomic_t,
      Field ''user_cnt'' refcount_t,
      Field ''destroy_cnt'' u64,
      Field ''slow'' struct_page_pool_params_slow,
      Field ''user'' (CStruct [] False
        [Field ''list'' struct_hlist_node,
         Field ''detach_time'' ktime_t,
         Field ''id'' u32]),
      BitField [] c_long 64]"

definition struct_pfnmap_track_ctx :: cty where
  "struct_pfnmap_track_ctx = CStruct ''pfnmap_track_ctx'' False
     [Field ''kref'' struct_kref,
      Field ''pfn'' long_unsigned_int,
      Field ''size'' long_unsigned_int]"

definition struct_userfaultfd_ctx :: cty where
  "struct_userfaultfd_ctx = CStruct ''userfaultfd_ctx'' False
     [Field ''fault_pending_wqh'' wait_queue_head_t,
      Field ''fault_wqh'' wait_queue_head_t,
      Field ''fd_wqh'' wait_queue_head_t,
      Field ''event_wqh'' wait_queue_head_t,
      Field ''refile_seq'' seqcount_spinlock_t,
      Field ''refcount'' refcount_t,
      Field ''flags'' unsigned_int,
      Field ''features'' unsigned_int,
      Field ''released'' bool,
      Field ''map_changing_lock'' struct_rw_semaphore,
      Field ''mmap_changing'' atomic_t,
      Field ''mm'' (CPtr ''struct mm_struct'')]"

definition struct_vdso_image :: cty where
  "struct_vdso_image = CStruct ''vdso_image'' False
     [Field ''data'' (CPtr ''void''),
      Field ''size'' long_unsigned_int,
      Field ''alt'' long_unsigned_int,
      Field ''alt_len'' long_unsigned_int,
      Field ''extable_base'' long_unsigned_int,
      Field ''extable_len'' long_unsigned_int,
      Field ''extable'' (CPtr ''const void''),
      Field ''sym___kernel_sigreturn'' c_long,
      Field ''sym___kernel_rt_sigreturn'' c_long,
      Field ''sym___kernel_vsyscall'' c_long,
      Field ''sym_int80_landing_pad'' c_long,
      Field ''sym_vdso32_sigreturn_landing_pad'' c_long,
      Field ''sym_vdso32_rt_sigreturn_landing_pad'' c_long]"

definition struct_vma_numab_state :: cty where
  "struct_vma_numab_state = CStruct ''vma_numab_state'' False
     [Field ''next_scan'' long_unsigned_int,
      Field ''pids_active_reset'' long_unsigned_int,
      Field ''pids_active'' (CArr 2 long_unsigned_int),
      Field ''start_scan_seq'' c_int,
      Field ''prev_scan_seq'' c_int]"

definition struct_xol_area :: cty where
  "struct_xol_area = CStruct ''xol_area'' False
     [Field ''wq'' wait_queue_head_t,
      Field ''bitmap'' (CPtr ''long unsigned int''),
      Field ''page'' (CPtr ''struct page''),
      Field ''vaddr'' long_unsigned_int]"

definition pgdval_t :: cty where [layout_simps]:
  "pgdval_t = long_unsigned_int"

definition pgd_t :: cty where
  "pgd_t = CStruct [] False
      [Field ''pgd'' pgdval_t]"

definition pudval_t :: cty where [layout_simps]:
  "pudval_t = long_unsigned_int"

definition pud_t :: cty where
  "pud_t = CStruct [] False
      [Field ''pud'' pudval_t]"

section \<open>Sizes and alignments\<close>

lemma struct_anon_vma_layout [layout_simps]:
  "sizeof struct_anon_vma = 96 \<and> alignof struct_anon_vma = 8 \<and> wf_cty struct_anon_vma"
  by (simp add: struct_anon_vma_def base_types layout_eval struct_rw_semaphore_layout atomic_t_layout
      struct_rb_root_cached_layout
      del: One_nat_def)

lemma struct_anon_vma_name_layout [layout_simps]:
  "sizeof struct_anon_vma_name = 4 \<and> alignof struct_anon_vma_name = 4 \<and> wf_cty struct_anon_vma_name"
  by (simp add: struct_anon_vma_name_def base_types layout_eval struct_kref_layout
      del: One_nat_def)

lemma struct_vmem_altmap_layout [layout_simps]:
  "sizeof struct_vmem_altmap = 48 \<and> alignof struct_vmem_altmap = 8 \<and> wf_cty struct_vmem_altmap"
  by (simp add: struct_vmem_altmap_def base_types layout_eval
      del: One_nat_def)

lemma enum_memory_type_layout [layout_simps]:
  "sizeof enum_memory_type = 4 \<and> alignof enum_memory_type = 4 \<and> wf_cty enum_memory_type"
  by (simp add: enum_memory_type_def base_types layout_eval
      del: One_nat_def)

lemma struct_range_layout [layout_simps]:
  "sizeof struct_range = 16 \<and> alignof struct_range = 8 \<and> wf_cty struct_range"
  by (simp add: struct_range_def base_types layout_eval u64_def c__u64_def
      del: One_nat_def)

lemma struct_dev_pagemap_layout [layout_simps]:
  "sizeof struct_dev_pagemap = 152 \<and> alignof struct_dev_pagemap = 8 \<and> wf_cty struct_dev_pagemap"
  by (simp add: struct_dev_pagemap_def base_types layout_eval struct_vmem_altmap_layout struct_percpu_ref_layout
      struct_completion_layout enum_memory_type_layout struct_range_layout
      del: One_nat_def)

lemma struct_futex_hash_bucket_layout [layout_simps]:
  "sizeof struct_futex_hash_bucket = 64 \<and> alignof struct_futex_hash_bucket = 8 \<and> wf_cty struct_futex_hash_bucket"
  by (simp add: struct_futex_hash_bucket_def base_types layout_eval atomic_t_layout spinlock_t_def struct_spinlock_layout
      struct_plist_head_layout
      del: One_nat_def)

lemma struct_futex_private_hash_layout [layout_simps]:
  "sizeof struct_futex_private_hash = 64 \<and> alignof struct_futex_private_hash = 8 \<and> wf_cty struct_futex_private_hash"
  by (simp add: struct_futex_private_hash_def base_types layout_eval struct_callback_head_layout bool_def
      struct_futex_hash_bucket_layout
      del: One_nat_def)

lemma struct_iommu_mm_data_layout [layout_simps]:
  "sizeof struct_iommu_mm_data = 48 \<and> alignof struct_iommu_mm_data = 8 \<and> wf_cty struct_iommu_mm_data"
  by (simp add: struct_iommu_mm_data_def base_types layout_eval u32_def c__u32_def struct_list_head_layout
      del: One_nat_def)

lemma struct_kioctx_table_layout [layout_simps]:
  "sizeof struct_kioctx_table = 24 \<and> alignof struct_kioctx_table = 8 \<and> wf_cty struct_kioctx_table"
  by (simp add: struct_kioctx_table_def base_types layout_eval struct_callback_head_layout
      del: One_nat_def)

lemma struct_ldt_struct_layout [layout_simps]:
  "sizeof struct_ldt_struct = 16 \<and> alignof struct_ldt_struct = 8 \<and> wf_cty struct_ldt_struct"
  by (simp add: struct_ldt_struct_def base_types layout_eval
      del: One_nat_def)

lemma struct_linux_binfmt_layout [layout_simps]:
  "sizeof struct_linux_binfmt = 48 \<and> alignof struct_linux_binfmt = 8 \<and> wf_cty struct_linux_binfmt"
  by (simp add: struct_linux_binfmt_def base_types layout_eval struct_list_head_layout
      del: One_nat_def)

lemma struct_mm_cid_pcpu_layout [layout_simps]:
  "sizeof struct_mm_cid_pcpu = 64 \<and> alignof struct_mm_cid_pcpu = 4 \<and> wf_cty struct_mm_cid_pcpu"
  by (simp add: struct_mm_cid_pcpu_def base_types layout_eval
      del: One_nat_def)

lemma struct_mmu_notifier_subscriptions_layout [layout_simps]:
  "sizeof struct_mmu_notifier_subscriptions = 80 \<and> alignof struct_mmu_notifier_subscriptions = 8 \<and> wf_cty struct_mmu_notifier_subscriptions"
  by (simp add: struct_mmu_notifier_subscriptions_def base_types layout_eval struct_hlist_head_layout bool_def
      spinlock_t_def struct_spinlock_layout struct_rb_root_cached_layout wait_queue_head_t_def
      struct_wait_queue_head_layout
      del: One_nat_def)

lemma enum_dma_data_direction_layout [layout_simps]:
  "sizeof enum_dma_data_direction = 4 \<and> alignof enum_dma_data_direction = 4 \<and> wf_cty enum_dma_data_direction"
  by (simp add: enum_dma_data_direction_def base_types layout_eval
      del: One_nat_def)

lemma struct_page_pool_params_fast_layout [layout_simps]:
  "sizeof struct_page_pool_params_fast = 48 \<and> alignof struct_page_pool_params_fast = 8 \<and> wf_cty struct_page_pool_params_fast"
  by (simp add: struct_page_pool_params_fast_def base_types layout_eval enum_dma_data_direction_layout
      del: One_nat_def)

lemma struct_page_pool_alloc_stats_layout [layout_simps]:
  "sizeof struct_page_pool_alloc_stats = 48 \<and> alignof struct_page_pool_alloc_stats = 8 \<and> wf_cty struct_page_pool_alloc_stats"
  by (simp add: struct_page_pool_alloc_stats_def base_types layout_eval u64_def c__u64_def
      del: One_nat_def)

lemma struct_pp_alloc_cache_layout [layout_simps]:
  "sizeof struct_pp_alloc_cache = 1032 \<and> alignof struct_pp_alloc_cache = 8 \<and> wf_cty struct_pp_alloc_cache"
  by (simp add: struct_pp_alloc_cache_def base_types layout_eval u32_def c__u32_def netmem_ref_def
      del: One_nat_def)

lemma struct_ptr_ring_layout [layout_simps]:
  "sizeof struct_ptr_ring = 192 \<and> alignof struct_ptr_ring = 8 \<and> wf_cty struct_ptr_ring"
  by (simp add: struct_ptr_ring_def base_types layout_eval spinlock_t_def struct_spinlock_layout
      del: One_nat_def)

lemma struct_page_pool_params_slow_layout [layout_simps]:
  "sizeof struct_page_pool_params_slow = 32 \<and> alignof struct_page_pool_params_slow = 8 \<and> wf_cty struct_page_pool_params_slow"
  by (simp add: struct_page_pool_params_slow_def base_types layout_eval
      del: One_nat_def)

lemma struct_page_pool_layout [layout_simps]:
  "sizeof struct_page_pool = 1728 \<and> alignof struct_page_pool = 8 \<and> wf_cty struct_page_pool"
  by (simp add: struct_page_pool_def base_types layout_eval struct_page_pool_params_fast_layout u32_def c__u32_def
      bool_def c__u8_def netmem_ref_def struct_delayed_work_layout struct_page_pool_alloc_stats_layout
      struct_pp_alloc_cache_layout struct_ptr_ring_layout struct_xarray_layout atomic_t_layout
      refcount_t_def struct_refcount_struct_layout u64_def c__u64_def struct_page_pool_params_slow_layout
      struct_hlist_node_layout ktime_t_def s64_def c__s64_def
      del: One_nat_def)

lemma struct_pfnmap_track_ctx_layout [layout_simps]:
  "sizeof struct_pfnmap_track_ctx = 24 \<and> alignof struct_pfnmap_track_ctx = 8 \<and> wf_cty struct_pfnmap_track_ctx"
  by (simp add: struct_pfnmap_track_ctx_def base_types layout_eval struct_kref_layout
      del: One_nat_def)

lemma struct_userfaultfd_ctx_layout [layout_simps]:
  "sizeof struct_userfaultfd_ctx = 176 \<and> alignof struct_userfaultfd_ctx = 8 \<and> wf_cty struct_userfaultfd_ctx"
  by (simp add: struct_userfaultfd_ctx_def base_types layout_eval wait_queue_head_t_def struct_wait_queue_head_layout
      seqcount_spinlock_t_def struct_seqcount_spinlock_layout refcount_t_def
      struct_refcount_struct_layout bool_def struct_rw_semaphore_layout atomic_t_layout
      del: One_nat_def)

lemma struct_vdso_image_layout [layout_simps]:
  "sizeof struct_vdso_image = 104 \<and> alignof struct_vdso_image = 8 \<and> wf_cty struct_vdso_image"
  by (simp add: struct_vdso_image_def base_types layout_eval
      del: One_nat_def)

lemma struct_vma_numab_state_layout [layout_simps]:
  "sizeof struct_vma_numab_state = 40 \<and> alignof struct_vma_numab_state = 8 \<and> wf_cty struct_vma_numab_state"
  by (simp add: struct_vma_numab_state_def base_types layout_eval
      del: One_nat_def)

lemma struct_xol_area_layout [layout_simps]:
  "sizeof struct_xol_area = 48 \<and> alignof struct_xol_area = 8 \<and> wf_cty struct_xol_area"
  by (simp add: struct_xol_area_def base_types layout_eval wait_queue_head_t_def struct_wait_queue_head_layout
      del: One_nat_def)

lemma pgd_t_layout [layout_simps]:
  "sizeof pgd_t = 8 \<and> alignof pgd_t = 8 \<and> wf_cty pgd_t"
  by (simp add: pgd_t_def base_types layout_eval pgdval_t_def
      del: One_nat_def)

lemma pud_t_layout [layout_simps]:
  "sizeof pud_t = 8 \<and> alignof pud_t = 8 \<and> wf_cty pud_t"
  by (simp add: pud_t_def base_types layout_eval pudval_t_def
      del: One_nat_def)

end
