(* ===== verification/KernelSubDma.thy ===== *)
theory KernelSubDma
  imports KernelMmRefs KernelReach4a KernelReach5a
begin

text \<open>
  The other types of \<^verbatim>\<open>bpf/vmlinux.h\<close> that belong to DMA and shared buffers, with every type they hold by value.
\<close>

section \<open>Types\<close>

definition enum_acpi_dmar_scope_type :: cty where
  "enum_acpi_dmar_scope_type = CEnum 4
     [(''ACPI_DMAR_SCOPE_TYPE_NOT_USED'', 0), (''ACPI_DMAR_SCOPE_TYPE_ENDPOINT'', 1),
      (''ACPI_DMAR_SCOPE_TYPE_BRIDGE'', 2), (''ACPI_DMAR_SCOPE_TYPE_IOAPIC'', 3),
      (''ACPI_DMAR_SCOPE_TYPE_HPET'', 4), (''ACPI_DMAR_SCOPE_TYPE_NAMESPACE'', 5),
      (''ACPI_DMAR_SCOPE_TYPE_RESERVED'', 6)]"

definition enum_acpi_dmar_type :: cty where
  "enum_acpi_dmar_type = CEnum 4
     [(''ACPI_DMAR_TYPE_HARDWARE_UNIT'', 0), (''ACPI_DMAR_TYPE_RESERVED_MEMORY'', 1),
      (''ACPI_DMAR_TYPE_ROOT_ATS'', 2), (''ACPI_DMAR_TYPE_HARDWARE_AFFINITY'', 3),
      (''ACPI_DMAR_TYPE_NAMESPACE'', 4), (''ACPI_DMAR_TYPE_SATC'', 5),
      (''ACPI_DMAR_TYPE_SIDP'', 6), (''ACPI_DMAR_TYPE_RESERVED'', 7)]"

definition enum_dma_ctrl_flags :: cty where
  "enum_dma_ctrl_flags = CEnum 4
     [(''DMA_PREP_INTERRUPT'', 1), (''DMA_CTRL_ACK'', 2), (''DMA_PREP_PQ_DISABLE_P'', 4),
      (''DMA_PREP_PQ_DISABLE_Q'', 8), (''DMA_PREP_CONTINUE'', 16), (''DMA_PREP_FENCE'', 32),
      (''DMA_CTRL_REUSE'', 64), (''DMA_PREP_CMD'', 128), (''DMA_PREP_REPEAT'', 256),
      (''DMA_PREP_LOAD_EOT'', 512)]"

definition enum_dma_fence_flag_bits :: cty where
  "enum_dma_fence_flag_bits = CEnum 4
     [(''DMA_FENCE_FLAG_SEQNO64_BIT'', 0), (''DMA_FENCE_FLAG_SIGNALED_BIT'', 1),
      (''DMA_FENCE_FLAG_TIMESTAMP_BIT'', 2), (''DMA_FENCE_FLAG_ENABLE_SIGNAL_BIT'', 3),
      (''DMA_FENCE_FLAG_USER_BITS'', 4)]"

definition enum_dma_slave_buswidth :: cty where
  "enum_dma_slave_buswidth = CEnum 4
     [(''DMA_SLAVE_BUSWIDTH_UNDEFINED'', 0), (''DMA_SLAVE_BUSWIDTH_1_BYTE'', 1),
      (''DMA_SLAVE_BUSWIDTH_2_BYTES'', 2), (''DMA_SLAVE_BUSWIDTH_3_BYTES'', 3),
      (''DMA_SLAVE_BUSWIDTH_4_BYTES'', 4), (''DMA_SLAVE_BUSWIDTH_8_BYTES'', 8),
      (''DMA_SLAVE_BUSWIDTH_16_BYTES'', 16), (''DMA_SLAVE_BUSWIDTH_32_BYTES'', 32),
      (''DMA_SLAVE_BUSWIDTH_64_BYTES'', 64), (''DMA_SLAVE_BUSWIDTH_128_BYTES'', 128)]"

definition enum_dma_status :: cty where
  "enum_dma_status = CEnum 4
     [(''DMA_COMPLETE'', 0), (''DMA_IN_PROGRESS'', 1), (''DMA_PAUSED'', 2), (''DMA_ERROR'', 3),
      (''DMA_OUT_OF_ORDER'', 4)]"

definition enum_dma_transaction_type :: cty where
  "enum_dma_transaction_type = CEnum 4
     [(''DMA_MEMCPY'', 0), (''DMA_XOR'', 1), (''DMA_PQ'', 2), (''DMA_XOR_VAL'', 3),
      (''DMA_PQ_VAL'', 4), (''DMA_MEMSET'', 5), (''DMA_MEMSET_SG'', 6), (''DMA_INTERRUPT'', 7),
      (''DMA_PRIVATE'', 8), (''DMA_ASYNC_TX'', 9), (''DMA_SLAVE'', 10), (''DMA_CYCLIC'', 11),
      (''DMA_INTERLEAVE'', 12), (''DMA_COMPLETION_NO_ORDER'', 13), (''DMA_REPEAT'', 14),
      (''DMA_LOAD_EOT'', 15), (''DMA_TX_TYPE_END'', 16)]"

definition enum_dma_transfer_direction :: cty where
  "enum_dma_transfer_direction = CEnum 4
     [(''DMA_MEM_TO_MEM'', 0), (''DMA_MEM_TO_DEV'', 1), (''DMA_DEV_TO_MEM'', 2),
      (''DMA_DEV_TO_DEV'', 3), (''DMA_TRANS_NONE'', 4)]"

definition enum_dmaengine_alignment :: cty where
  "enum_dmaengine_alignment = CEnum 4
     [(''DMAENGINE_ALIGN_1_BYTE'', 0), (''DMAENGINE_ALIGN_2_BYTES'', 1),
      (''DMAENGINE_ALIGN_4_BYTES'', 2), (''DMAENGINE_ALIGN_8_BYTES'', 3),
      (''DMAENGINE_ALIGN_16_BYTES'', 4), (''DMAENGINE_ALIGN_32_BYTES'', 5),
      (''DMAENGINE_ALIGN_64_BYTES'', 6), (''DMAENGINE_ALIGN_128_BYTES'', 7),
      (''DMAENGINE_ALIGN_256_BYTES'', 8)]"

definition enum_pci_p2pdma_map_type :: cty where
  "enum_pci_p2pdma_map_type = CEnum 4
     [(''PCI_P2PDMA_MAP_UNKNOWN'', 0), (''PCI_P2PDMA_MAP_NONE'', 1),
      (''PCI_P2PDMA_MAP_NOT_SUPPORTED'', 2), (''PCI_P2PDMA_MAP_BUS_ADDR'', 3),
      (''PCI_P2PDMA_MAP_THRU_HOST_BRIDGE'', 4)]"

definition enum_rdma_restrack_type :: cty where
  "enum_rdma_restrack_type = CEnum 4
     [(''RDMA_RESTRACK_PD'', 0), (''RDMA_RESTRACK_CQ'', 1), (''RDMA_RESTRACK_QP'', 2),
      (''RDMA_RESTRACK_CM_ID'', 3), (''RDMA_RESTRACK_MR'', 4), (''RDMA_RESTRACK_CTX'', 5),
      (''RDMA_RESTRACK_COUNTER'', 6), (''RDMA_RESTRACK_SRQ'', 7), (''RDMA_RESTRACK_DMAH'', 8),
      (''RDMA_RESTRACK_MAX'', 9)]"

definition struct_acpi_dma :: cty where
  "struct_acpi_dma = CStruct ''acpi_dma'' False
     [Field ''dma_controllers'' struct_list_head,
      Field ''dev'' (CPtr ''struct device''),
      Field ''acpi_dma_xlate'' (CPtr ''struct dma_chan * (struct acpi_dma_spec *, struct acpi_dma *)''),
      Field ''data'' (CPtr ''void''),
      Field ''base_request_line'' short_unsigned_int,
      Field ''end_request_line'' short_unsigned_int]"

definition struct_acpi_dmar_header :: cty where
  "struct_acpi_dmar_header = CStruct ''acpi_dmar_header'' False
     [Field ''type'' u16,
      Field ''length'' u16]"

definition struct_acpi_dmar_andd :: cty where
  "struct_acpi_dmar_andd = CStruct ''acpi_dmar_andd'' True
     [Field ''header'' struct_acpi_dmar_header,
      Field ''reserved'' (CArr 3 u8),
      Field ''device_number'' u8,
      Field [] (CUnion [] False
        [Field ''__pad'' c_char,
         Field [] (CStruct [] False
           [Field ''__Empty_device_name'' (CStruct [] False
              []),
            Field ''device_name'' (CArr 0 c_char)])])]"

definition struct_acpi_dmar_device_scope :: cty where
  "struct_acpi_dmar_device_scope = CStruct ''acpi_dmar_device_scope'' False
     [Field ''entry_type'' u8,
      Field ''length'' u8,
      Field ''flags'' u8,
      Field ''reserved'' u8,
      Field ''enumeration_id'' u8,
      Field ''bus'' u8]"

definition struct_acpi_dmar_hardware_unit :: cty where
  "struct_acpi_dmar_hardware_unit = CStruct ''acpi_dmar_hardware_unit'' False
     [Field ''header'' struct_acpi_dmar_header,
      Field ''flags'' u8,
      Field ''size'' u8,
      Field ''segment'' u16,
      Field ''address'' u64]"

definition struct_acpi_dmar_reserved_memory :: cty where
  "struct_acpi_dmar_reserved_memory = CStruct ''acpi_dmar_reserved_memory'' False
     [Field ''header'' struct_acpi_dmar_header,
      Field ''reserved'' u16,
      Field ''segment'' u16,
      Field ''base_address'' u64,
      Field ''end_address'' u64]"

definition struct_acpi_resource_dma :: cty where
  "struct_acpi_resource_dma = CStruct ''acpi_resource_dma'' False
     [Field ''type'' u8,
      Field ''bus_master'' u8,
      Field ''transfer'' u8,
      Field ''channel_count'' u8,
      Field [] (CUnion [] False
        [Field ''channel'' u8,
         Field [] (CStruct [] False
           [Field ''__Empty_channels'' (CStruct [] False
              []),
            Field ''channels'' (CArr 0 u8)])])]"

definition struct_pci_p2pdma_map_state :: cty where
  "struct_pci_p2pdma_map_state = CStruct ''pci_p2pdma_map_state'' False
     [Field ''mem'' (CPtr ''struct p2pdma_provider''),
      Field ''map'' enum_pci_p2pdma_map_type]"

definition struct_blk_map_iter :: cty where
  "struct_blk_map_iter = CStruct ''blk_map_iter'' False
     [Field ''iter'' struct_bvec_iter,
      Field ''bio'' (CPtr ''struct bio''),
      Field ''bvecs'' (CPtr ''struct bio_vec''),
      Field ''is_integrity'' bool]"

definition struct_blk_dma_iter :: cty where
  "struct_blk_dma_iter = CStruct ''blk_dma_iter'' False
     [Field ''addr'' dma_addr_t,
      Field ''len'' u32,
      Field ''p2pdma'' struct_pci_p2pdma_map_state,
      Field ''status'' blk_status_t,
      Field ''iter'' struct_blk_map_iter]"

definition dma_cookie_t :: cty where [layout_simps]:
  "dma_cookie_t = s32"

definition dma_async_tx_callback :: cty where [layout_simps]:
  "dma_async_tx_callback = CPtr ''void (void *)''"

definition dma_async_tx_callback_result :: cty where [layout_simps]:
  "dma_async_tx_callback_result = CPtr ''void (void *, const struct dmaengine_result *)''"

definition enum_dma_desc_metadata_mode :: cty where
  "enum_dma_desc_metadata_mode = CEnum 4
     [(''DESC_METADATA_NONE'', 0), (''DESC_METADATA_CLIENT'', 1), (''DESC_METADATA_ENGINE'', 2)]"

definition struct_dma_async_tx_descriptor :: cty where
  "struct_dma_async_tx_descriptor = CStruct ''dma_async_tx_descriptor'' False
     [Field ''cookie'' dma_cookie_t,
      Field ''flags'' enum_dma_ctrl_flags,
      Field ''phys'' dma_addr_t,
      Field ''chan'' (CPtr ''struct dma_chan''),
      Field ''tx_submit'' (CPtr ''dma_cookie_t (struct dma_async_tx_descriptor *)''),
      Field ''desc_free'' (CPtr ''int (struct dma_async_tx_descriptor *)''),
      Field ''callback'' dma_async_tx_callback,
      Field ''callback_result'' dma_async_tx_callback_result,
      Field ''callback_param'' (CPtr ''void''),
      Field ''unmap'' (CPtr ''struct dmaengine_unmap_data''),
      Field ''desc_metadata_mode'' enum_dma_desc_metadata_mode,
      Field ''metadata_ops'' (CPtr ''struct dma_descriptor_metadata_ops'')]"

definition struct_dma_buf_export_info :: cty where
  "struct_dma_buf_export_info = CStruct ''dma_buf_export_info'' False
     [Field ''exp_name'' (CPtr ''const char''),
      Field ''owner'' (CPtr ''struct module''),
      Field ''ops'' (CPtr ''const struct dma_buf_ops''),
      Field ''size'' size_t,
      Field ''flags'' c_int,
      Field ''resv'' (CPtr ''struct dma_resv''),
      Field ''priv'' (CPtr ''void'')]"

definition struct_dma_chan :: cty where
  "struct_dma_chan = CStruct ''dma_chan'' False
     [Field ''device'' (CPtr ''struct dma_device''),
      Field ''slave'' (CPtr ''struct device''),
      Field ''cookie'' dma_cookie_t,
      Field ''completed_cookie'' dma_cookie_t,
      Field ''chan_id'' c_int,
      Field ''dev'' (CPtr ''struct dma_chan_dev''),
      Field ''name'' (CPtr ''const char''),
      Field ''dbg_client_name'' (CPtr ''char''),
      Field ''device_node'' struct_list_head,
      Field ''local'' (CPtr ''struct dma_chan_percpu''),
      Field ''client_count'' c_int,
      Field ''table_count'' c_int,
      Field ''router'' (CPtr ''struct dma_router''),
      Field ''route_data'' (CPtr ''void''),
      Field ''private'' (CPtr ''void'')]"

definition dma_filter_fn :: cty where [layout_simps]:
  "dma_filter_fn = CPtr ''bool (struct dma_chan *, void *)''"

definition struct_dma_filter :: cty where
  "struct_dma_filter = CStruct ''dma_filter'' False
     [Field ''fn'' dma_filter_fn,
      Field ''mapcnt'' c_int,
      Field ''map'' (CPtr ''const struct dma_slave_map'')]"

definition dma_cap_mask_t :: cty where
  "dma_cap_mask_t = CStruct [] False
      [Field ''bits'' (CArr 1 long_unsigned_int)]"

definition enum_dma_residue_granularity :: cty where
  "enum_dma_residue_granularity = CEnum 4
     [(''DMA_RESIDUE_GRANULARITY_DESCRIPTOR'', 0), (''DMA_RESIDUE_GRANULARITY_SEGMENT'', 1),
      (''DMA_RESIDUE_GRANULARITY_BURST'', 2)]"

definition struct_dma_device :: cty where
  "struct_dma_device = CStruct ''dma_device'' False
     [Field ''ref'' struct_kref,
      Field ''chancnt'' unsigned_int,
      Field ''privatecnt'' unsigned_int,
      Field ''channels'' struct_list_head,
      Field ''global_node'' struct_list_head,
      Field ''filter'' struct_dma_filter,
      Field ''cap_mask'' dma_cap_mask_t,
      Field ''desc_metadata_modes'' enum_dma_desc_metadata_mode,
      Field ''max_xor'' short_unsigned_int,
      Field ''max_pq'' short_unsigned_int,
      Field ''copy_align'' enum_dmaengine_alignment,
      Field ''xor_align'' enum_dmaengine_alignment,
      Field ''pq_align'' enum_dmaengine_alignment,
      Field ''fill_align'' enum_dmaengine_alignment,
      Field ''dev_id'' c_int,
      Field ''dev'' (CPtr ''struct device''),
      Field ''owner'' (CPtr ''struct module''),
      Field ''chan_ida'' struct_ida,
      Field ''src_addr_widths'' u32,
      Field ''dst_addr_widths'' u32,
      Field ''directions'' u32,
      Field ''min_burst'' u32,
      Field ''max_burst'' u32,
      Field ''max_sg_burst'' u32,
      Field ''descriptor_reuse'' bool,
      Field ''residue_granularity'' enum_dma_residue_granularity,
      Field ''device_alloc_chan_resources'' (CPtr ''int (struct dma_chan *)''),
      Field ''device_router_config'' (CPtr ''int (struct dma_chan *)''),
      Field ''device_free_chan_resources'' (CPtr ''void (struct dma_chan *)''),
      Field ''device_prep_dma_memcpy'' (CPtr ''struct dma_async_tx_descriptor * (struct dma_chan *, dma_addr_t, dma_addr_t, size_t, long unsigned int)''),
      Field ''device_prep_dma_xor'' (CPtr ''struct dma_async_tx_descriptor * (struct dma_chan *, dma_addr_t, dma_addr_t *, unsigned int, size_t, long unsigned int)''),
      Field ''device_prep_dma_xor_val'' (CPtr ''struct dma_async_tx_descriptor * (struct dma_chan *, dma_addr_t *, unsigned int, size_t, enum sum_check_flags *, long unsigned int)''),
      Field ''device_prep_dma_pq'' (CPtr ''struct dma_async_tx_descriptor * (struct dma_chan *, dma_addr_t *, dma_addr_t *, unsigned int, const unsigned char *, size_t, long unsigned int)''),
      Field ''device_prep_dma_pq_val'' (CPtr ''struct dma_async_tx_descriptor * (struct dma_chan *, dma_addr_t *, dma_addr_t *, unsigned int, const unsigned char *, size_t, enum sum_check_flags *, long unsigned int)''),
      Field ''device_prep_dma_memset'' (CPtr ''struct dma_async_tx_descriptor * (struct dma_chan *, dma_addr_t, int, size_t, long unsigned int)''),
      Field ''device_prep_dma_memset_sg'' (CPtr ''struct dma_async_tx_descriptor * (struct dma_chan *, struct scatterlist *, unsigned int, int, long unsigned int)''),
      Field ''device_prep_dma_interrupt'' (CPtr ''struct dma_async_tx_descriptor * (struct dma_chan *, long unsigned int)''),
      Field ''device_prep_peripheral_dma_vec'' (CPtr ''struct dma_async_tx_descriptor * (struct dma_chan *, const struct dma_vec *, size_t, enum dma_transfer_direction, long unsigned int)''),
      Field ''device_prep_slave_sg'' (CPtr ''struct dma_async_tx_descriptor * (struct dma_chan *, struct scatterlist *, unsigned int, enum dma_transfer_direction, long unsigned int, void *)''),
      Field ''device_prep_dma_cyclic'' (CPtr ''struct dma_async_tx_descriptor * (struct dma_chan *, dma_addr_t, size_t, size_t, enum dma_transfer_direction, long unsigned int)''),
      Field ''device_prep_interleaved_dma'' (CPtr ''struct dma_async_tx_descriptor * (struct dma_chan *, struct dma_interleaved_template *, long unsigned int)''),
      Field ''device_caps'' (CPtr ''void (struct dma_chan *, struct dma_slave_caps *)''),
      Field ''device_config'' (CPtr ''int (struct dma_chan *, struct dma_slave_config *)''),
      Field ''device_pause'' (CPtr ''int (struct dma_chan *)''),
      Field ''device_resume'' (CPtr ''int (struct dma_chan *)''),
      Field ''device_terminate_all'' (CPtr ''int (struct dma_chan *)''),
      Field ''device_synchronize'' (CPtr ''void (struct dma_chan *)''),
      Field ''device_tx_status'' (CPtr ''enum dma_status (struct dma_chan *, dma_cookie_t, struct dma_tx_state *)''),
      Field ''device_issue_pending'' (CPtr ''void (struct dma_chan *)''),
      Field ''device_release'' (CPtr ''void (struct dma_device *)''),
      Field ''dbg_summary_show'' (CPtr ''void (struct seq_file *, struct dma_device *)''),
      Field ''dbg_dev_root'' (CPtr ''struct dentry'')]"

definition struct_dma_fence_array_cb :: cty where
  "struct_dma_fence_array_cb = CStruct ''dma_fence_array_cb'' False
     [Field ''cb'' struct_dma_fence_cb,
      Field ''array'' (CPtr ''struct dma_fence_array'')]"

definition struct_dma_fence_array :: cty where
  "struct_dma_fence_array = CStruct ''dma_fence_array'' False
     [Field ''base'' struct_dma_fence,
      Field ''lock'' spinlock_t,
      Field ''num_fences'' unsigned_int,
      Field ''num_pending'' atomic_t,
      Field ''fences'' (CPtr ''struct dma_fence *''),
      Field ''work'' struct_irq_work,
      Field ''callbacks'' (CArr 0 struct_dma_fence_array_cb)]"

definition struct_dma_fence_chain :: cty where
  "struct_dma_fence_chain = CStruct ''dma_fence_chain'' False
     [Field ''base'' struct_dma_fence,
      Field ''prev'' (CPtr ''struct dma_fence''),
      Field ''prev_seqno'' u64,
      Field ''fence'' (CPtr ''struct dma_fence''),
      Field [] (CUnion [] False
        [Field ''cb'' struct_dma_fence_cb,
         Field ''work'' struct_irq_work]),
      Field ''lock'' spinlock_t]"

definition struct_dma_heap :: cty where
  "struct_dma_heap = CStruct ''dma_heap'' False
     [Field ''name'' (CPtr ''const char''),
      Field ''ops'' (CPtr ''const struct dma_heap_ops''),
      Field ''priv'' (CPtr ''void''),
      Field ''heap_devt'' dev_t,
      Field ''list'' struct_list_head,
      Field ''heap_cdev'' struct_cdev]"

definition struct_data_chunk :: cty where
  "struct_data_chunk = CStruct ''data_chunk'' False
     [Field ''size'' size_t,
      Field ''icg'' size_t,
      Field ''dst_icg'' size_t,
      Field ''src_icg'' size_t]"

definition struct_dma_interleaved_template :: cty where
  "struct_dma_interleaved_template = CStruct ''dma_interleaved_template'' False
     [Field ''src_start'' dma_addr_t,
      Field ''dst_start'' dma_addr_t,
      Field ''dir'' enum_dma_transfer_direction,
      Field ''src_inc'' bool,
      Field ''dst_inc'' bool,
      Field ''src_sgl'' bool,
      Field ''dst_sgl'' bool,
      Field ''numf'' size_t,
      Field ''frame_size'' size_t,
      Field ''sgl'' (CArr 0 struct_data_chunk)]"

definition struct_dma_pool :: cty where
  "struct_dma_pool = CStruct ''dma_pool'' False
     [Field ''page_list'' struct_list_head,
      Field ''lock'' spinlock_t,
      Field ''next_block'' (CPtr ''struct dma_block''),
      Field ''nr_blocks'' size_t,
      Field ''nr_active'' size_t,
      Field ''nr_pages'' size_t,
      Field ''dev'' (CPtr ''struct device''),
      Field ''size'' unsigned_int,
      Field ''allocation'' unsigned_int,
      Field ''boundary'' unsigned_int,
      Field ''node'' c_int,
      Field ''name'' (CArr 32 c_char),
      Field ''pools'' struct_list_head]"

definition enum_dma_resv_usage :: cty where
  "enum_dma_resv_usage = CEnum 4
     [(''DMA_RESV_USAGE_KERNEL'', 0), (''DMA_RESV_USAGE_WRITE'', 1),
      (''DMA_RESV_USAGE_READ'', 2), (''DMA_RESV_USAGE_BOOKKEEP'', 3)]"

definition struct_dma_resv_iter :: cty where
  "struct_dma_resv_iter = CStruct ''dma_resv_iter'' False
     [Field ''obj'' (CPtr ''struct dma_resv''),
      Field ''usage'' enum_dma_resv_usage,
      Field ''fence'' (CPtr ''struct dma_fence''),
      Field ''fence_usage'' enum_dma_resv_usage,
      Field ''index'' unsigned_int,
      Field ''fences'' (CPtr ''struct dma_resv_list''),
      Field ''num_fences'' unsigned_int,
      Field ''is_restarted'' bool]"

definition struct_dma_slave_caps :: cty where
  "struct_dma_slave_caps = CStruct ''dma_slave_caps'' False
     [Field ''src_addr_widths'' u32,
      Field ''dst_addr_widths'' u32,
      Field ''directions'' u32,
      Field ''min_burst'' u32,
      Field ''max_burst'' u32,
      Field ''max_sg_burst'' u32,
      Field ''cmd_pause'' bool,
      Field ''cmd_resume'' bool,
      Field ''cmd_terminate'' bool,
      Field ''residue_granularity'' enum_dma_residue_granularity,
      Field ''descriptor_reuse'' bool]"

definition struct_dma_slave_config :: cty where
  "struct_dma_slave_config = CStruct ''dma_slave_config'' False
     [Field ''direction'' enum_dma_transfer_direction,
      Field ''src_addr'' phys_addr_t,
      Field ''dst_addr'' phys_addr_t,
      Field ''src_addr_width'' enum_dma_slave_buswidth,
      Field ''dst_addr_width'' enum_dma_slave_buswidth,
      Field ''src_maxburst'' u32,
      Field ''dst_maxburst'' u32,
      Field ''src_port_window_size'' u32,
      Field ''dst_port_window_size'' u32,
      Field ''device_fc'' bool,
      Field ''peripheral_config'' (CPtr ''void''),
      Field ''peripheral_size'' size_t]"

definition struct_dmabuf_cmsg :: cty where
  "struct_dmabuf_cmsg = CStruct ''dmabuf_cmsg'' False
     [Field ''frag_offset'' c__u64,
      Field ''frag_size'' c__u32,
      Field ''frag_token'' c__u32,
      Field ''dmabuf_id'' c__u32,
      Field ''flags'' c__u32]"

definition struct_dmaengine_unmap_data :: cty where
  "struct_dmaengine_unmap_data = CStruct ''dmaengine_unmap_data'' False
     [Field ''map_cnt'' u16,
      Field ''to_cnt'' u8,
      Field ''from_cnt'' u8,
      Field ''bidi_cnt'' u8,
      Field ''dev'' (CPtr ''struct device''),
      Field ''kref'' struct_kref,
      Field ''len'' size_t,
      Field ''addr'' (CArr 0 dma_addr_t)]"

definition struct_dmar_atsr_unit :: cty where
  "struct_dmar_atsr_unit = CStruct ''dmar_atsr_unit'' False
     [Field ''list'' struct_list_head,
      Field ''hdr'' (CPtr ''struct acpi_dmar_header''),
      Field ''devices'' (CPtr ''struct dmar_dev_scope''),
      Field ''devices_cnt'' c_int,
      BitField ''include_all'' u8 1]"

definition struct_pt_iommu :: cty where
  "struct_pt_iommu = CStruct ''pt_iommu'' False
     [Field ''domain'' struct_iommu_domain,
      Field ''ops'' (CPtr ''const struct pt_iommu_ops''),
      Field ''driver_ops'' (CPtr ''const struct pt_iommu_driver_ops''),
      Field ''nid'' c_int,
      Field ''iommu_device'' (CPtr ''struct device'')]"

definition uintptr_t :: cty where [layout_simps]:
  "uintptr_t = long_unsigned_int"

definition struct_pt_common :: cty where
  "struct_pt_common = CStruct ''pt_common'' False
     [Field ''top_of_table'' uintptr_t,
      Field ''max_oasz_lg2'' u8,
      Field ''max_vasz_lg2'' u8,
      Field ''features'' unsigned_int]"

definition struct_pt_x86_64 :: cty where
  "struct_pt_x86_64 = CStruct ''pt_x86_64'' False
     [Field ''common'' struct_pt_common]"

definition struct_pt_iommu_x86_64 :: cty where
  "struct_pt_iommu_x86_64 = CStruct ''pt_iommu_x86_64'' False
     [Field ''iommu'' struct_pt_iommu,
      Field ''x86_64_pt'' struct_pt_x86_64]"

definition struct_pt_vtdss :: cty where
  "struct_pt_vtdss = CStruct ''pt_vtdss'' False
     [Field ''common'' struct_pt_common]"

definition struct_pt_iommu_vtdss :: cty where
  "struct_pt_iommu_vtdss = CStruct ''pt_iommu_vtdss'' False
     [Field ''iommu'' struct_pt_iommu,
      Field ''vtdss_pt'' struct_pt_vtdss]"

definition struct_iommu_hwpt_vtd_s1 :: cty where
  "struct_iommu_hwpt_vtd_s1 = CStruct ''iommu_hwpt_vtd_s1'' False
     [Field ''flags'' c__u64,
      Field ''pgtbl_addr'' c__u64,
      Field ''addr_width'' c__u32,
      Field ''__reserved'' c__u32]"

definition struct_dmar_domain :: cty where
  "struct_dmar_domain = CStruct ''dmar_domain'' False
     [Field [] (CUnion [] False
        [Field ''domain'' struct_iommu_domain,
         Field ''iommu'' struct_pt_iommu,
         Field ''fspt'' struct_pt_iommu_x86_64,
         Field ''sspt'' struct_pt_iommu_vtdss]),
      Field ''iommu_array'' struct_xarray,
      BitField ''force_snooping'' u8 1,
      BitField ''dirty_tracking'' u8 1,
      BitField ''nested_parent'' u8 1,
      BitField ''iotlb_sync_map'' u8 1,
      Field ''lock'' spinlock_t,
      Field ''devices'' struct_list_head,
      Field ''dev_pasids'' struct_list_head,
      Field ''cache_lock'' spinlock_t,
      Field ''cache_tags'' struct_list_head,
      Field ''qi_batch'' (CPtr ''struct qi_batch''),
      Field [] (CUnion [] False
        [Field [] (CStruct [] False
           [Field ''s1_lock'' spinlock_t,
            Field ''s1_domains'' struct_list_head]),
         Field [] (CStruct [] False
           [Field ''s2_domain'' (CPtr ''struct dmar_domain''),
            Field ''s1_cfg'' struct_iommu_hwpt_vtd_s1,
            Field ''s2_link'' struct_list_head]),
         Field [] (CStruct [] False
           [Field ''notifier'' struct_mmu_notifier])])]"

definition struct_dmar_drhd_unit :: cty where
  "struct_dmar_drhd_unit = CStruct ''dmar_drhd_unit'' False
     [Field ''list'' struct_list_head,
      Field ''hdr'' (CPtr ''struct acpi_dmar_header''),
      Field ''reg_base_addr'' u64,
      Field ''reg_size'' long_unsigned_int,
      Field ''devices'' (CPtr ''struct dmar_dev_scope''),
      Field ''devices_cnt'' c_int,
      Field ''segment'' u16,
      BitField ''ignored'' u8 1,
      BitField ''include_all'' u8 1,
      BitField ''gfx_dedicated'' u8 1,
      Field ''iommu'' (CPtr ''struct intel_iommu'')]"

definition struct_dmar_pci_path :: cty where
  "struct_dmar_pci_path = CStruct ''dmar_pci_path'' False
     [Field ''bus'' u8,
      Field ''device'' u8,
      Field ''function'' u8]"

definition struct_dmar_pci_notify_info :: cty where
  "struct_dmar_pci_notify_info = CStruct ''dmar_pci_notify_info'' False
     [Field ''dev'' (CPtr ''struct pci_dev''),
      Field ''event'' long_unsigned_int,
      Field ''bus'' c_int,
      Field ''seg'' u16,
      Field ''level'' u16,
      Field ''path'' (CArr 0 struct_dmar_pci_path)]"

definition struct_dmar_rmrr_unit :: cty where
  "struct_dmar_rmrr_unit = CStruct ''dmar_rmrr_unit'' False
     [Field ''list'' struct_list_head,
      Field ''hdr'' (CPtr ''struct acpi_dmar_header''),
      Field ''base_address'' u64,
      Field ''end_address'' u64,
      Field ''devices'' (CPtr ''struct dmar_dev_scope''),
      Field ''devices_cnt'' c_int]"

definition struct_dmar_satc_unit :: cty where
  "struct_dmar_satc_unit = CStruct ''dmar_satc_unit'' False
     [Field ''list'' struct_list_head,
      Field ''hdr'' (CPtr ''struct acpi_dmar_header''),
      Field ''devices'' (CPtr ''struct dmar_dev_scope''),
      Field ''iommu'' (CPtr ''struct intel_iommu''),
      Field ''devices_cnt'' c_int,
      BitField ''atc_required'' u8 1]"

definition struct_uart_8250_dma :: cty where
  "struct_uart_8250_dma = CStruct ''uart_8250_dma'' False
     [Field ''tx_dma'' (CPtr ''int (struct uart_8250_port *)''),
      Field ''rx_dma'' (CPtr ''int (struct uart_8250_port *)''),
      Field ''prepare_tx_dma'' (CPtr ''void (struct uart_8250_port *)''),
      Field ''prepare_rx_dma'' (CPtr ''void (struct uart_8250_port *)''),
      Field ''fn'' dma_filter_fn,
      Field ''rx_param'' (CPtr ''void''),
      Field ''tx_param'' (CPtr ''void''),
      Field ''rxconf'' struct_dma_slave_config,
      Field ''txconf'' struct_dma_slave_config,
      Field ''rxchan'' (CPtr ''struct dma_chan''),
      Field ''txchan'' (CPtr ''struct dma_chan''),
      Field ''rx_dma_addr'' phys_addr_t,
      Field ''tx_dma_addr'' phys_addr_t,
      Field ''rx_addr'' dma_addr_t,
      Field ''tx_addr'' dma_addr_t,
      Field ''rx_cookie'' dma_cookie_t,
      Field ''tx_cookie'' dma_cookie_t,
      Field ''rx_buf'' (CPtr ''void''),
      Field ''rx_size'' size_t,
      Field ''tx_size'' size_t,
      Field ''tx_running'' unsigned_char,
      Field ''tx_err'' unsigned_char,
      Field ''rx_running'' unsigned_char]"

definition struct_dw_edma_region :: cty where
  "struct_dw_edma_region = CStruct ''dw_edma_region'' False
     [Field ''paddr'' u64,
      Field ''vaddr'' (CUnion [] False
        [Field ''mem'' (CPtr ''void''),
         Field ''io'' (CPtr ''void'')]),
      Field ''sz'' size_t]"

definition enum_dw_edma_map_format :: cty where
  "enum_dw_edma_map_format = CEnum 4
     [(''EDMA_MF_EDMA_LEGACY'', 0), (''EDMA_MF_EDMA_UNROLL'', 1), (''EDMA_MF_HDMA_COMPAT'', 5),
      (''EDMA_MF_HDMA_NATIVE'', 7)]"

definition struct_dw_edma_chip :: cty where
  "struct_dw_edma_chip = CStruct ''dw_edma_chip'' False
     [Field ''dev'' (CPtr ''struct device''),
      Field ''nr_irqs'' c_int,
      Field ''ops'' (CPtr ''const struct dw_edma_plat_ops''),
      Field ''flags'' u32,
      Field ''reg_base'' (CPtr ''void''),
      Field ''ll_wr_cnt'' u16,
      Field ''ll_rd_cnt'' u16,
      Field ''ll_region_wr'' (CArr 8 struct_dw_edma_region),
      Field ''ll_region_rd'' (CArr 8 struct_dw_edma_region),
      Field ''dt_region_wr'' (CArr 8 struct_dw_edma_region),
      Field ''dt_region_rd'' (CArr 8 struct_dw_edma_region),
      Field ''mf'' enum_dw_edma_map_format,
      Field ''dw'' (CPtr ''struct dw_edma'')]"

definition struct_gnttab_dma_alloc_args :: cty where
  "struct_gnttab_dma_alloc_args = CStruct ''gnttab_dma_alloc_args'' False
     [Field ''dev'' (CPtr ''struct device''),
      Field ''coherent'' bool,
      Field ''nr_pages'' c_int,
      Field ''pages'' (CPtr ''struct page *''),
      Field ''frames'' (CPtr ''xen_pfn_t''),
      Field ''vaddr'' (CPtr ''void''),
      Field ''dev_bus_addr'' dma_addr_t]"

definition struct_tasklet_struct :: cty where
  "struct_tasklet_struct = CStruct ''tasklet_struct'' False
     [Field ''next'' (CPtr ''struct tasklet_struct''),
      Field ''state'' long_unsigned_int,
      Field ''count'' atomic_t,
      Field ''use_callback'' bool,
      Field [] (CUnion [] False
        [Field ''func'' (CPtr ''void (long unsigned int)''),
         Field ''callback'' (CPtr ''void (struct tasklet_struct *)'')]),
      Field ''data'' long_unsigned_int]"

definition struct_virt_dma_chan :: cty where
  "struct_virt_dma_chan = CStruct ''virt_dma_chan'' False
     [Field ''chan'' struct_dma_chan,
      Field ''task'' struct_tasklet_struct,
      Field ''desc_free'' (CPtr ''void (struct virt_dma_desc *)''),
      Field ''lock'' spinlock_t,
      Field ''desc_allocated'' struct_list_head,
      Field ''desc_submitted'' struct_list_head,
      Field ''desc_issued'' struct_list_head,
      Field ''desc_completed'' struct_list_head,
      Field ''desc_terminated'' struct_list_head,
      Field ''cyclic'' (CPtr ''struct virt_dma_desc'')]"

definition struct_hsu_dma_chan :: cty where
  "struct_hsu_dma_chan = CStruct ''hsu_dma_chan'' False
     [Field ''vchan'' struct_virt_dma_chan,
      Field ''reg'' (CPtr ''void''),
      Field ''direction'' enum_dma_transfer_direction,
      Field ''config'' struct_dma_slave_config,
      Field ''desc'' (CPtr ''struct hsu_dma_desc'')]"

definition struct_hsu_dma_chip :: cty where
  "struct_hsu_dma_chip = CStruct ''hsu_dma_chip'' False
     [Field ''dev'' (CPtr ''struct device''),
      Field ''irq'' c_int,
      Field ''regs'' (CPtr ''void''),
      Field ''length'' unsigned_int,
      Field ''offset'' unsigned_int,
      Field ''hsu'' (CPtr ''struct hsu_dma'')]"

definition enum_dmaengine_tx_result :: cty where
  "enum_dmaengine_tx_result = CEnum 4
     [(''DMA_TRANS_NOERROR'', 0), (''DMA_TRANS_READ_FAILED'', 1),
      (''DMA_TRANS_WRITE_FAILED'', 2), (''DMA_TRANS_ABORTED'', 3)]"

definition struct_dmaengine_result :: cty where
  "struct_dmaengine_result = CStruct ''dmaengine_result'' False
     [Field ''result'' enum_dmaengine_tx_result,
      Field ''residue'' u32]"

definition struct_virt_dma_desc :: cty where
  "struct_virt_dma_desc = CStruct ''virt_dma_desc'' False
     [Field ''tx'' struct_dma_async_tx_descriptor,
      Field ''tx_result'' struct_dmaengine_result,
      Field ''node'' struct_list_head]"

definition struct_hsu_dma_desc :: cty where
  "struct_hsu_dma_desc = CStruct ''hsu_dma_desc'' False
     [Field ''vdesc'' struct_virt_dma_desc,
      Field ''direction'' enum_dma_transfer_direction,
      Field ''sg'' (CPtr ''struct hsu_dma_sg''),
      Field ''nents'' unsigned_int,
      Field ''length'' size_t,
      Field ''active'' unsigned_int,
      Field ''status'' enum_dma_status]"

definition struct_rdma_restrack_entry :: cty where
  "struct_rdma_restrack_entry = CStruct ''rdma_restrack_entry'' False
     [Field ''valid'' bool,
      BitField ''no_track'' u8 1,
      Field ''kref'' struct_kref,
      Field ''comp'' struct_completion,
      Field ''task'' (CPtr ''struct task_struct''),
      Field ''kern_name'' (CPtr ''const char''),
      Field ''type'' enum_rdma_restrack_type,
      Field ''user'' bool,
      Field ''id'' u32]"

definition enum_tph_mem_type :: cty where
  "enum_tph_mem_type = CEnum 4
     [(''TPH_MEM_TYPE_VM'', 0), (''TPH_MEM_TYPE_PM'', 1)]"

definition struct_ib_dmah :: cty where
  "struct_ib_dmah = CStruct ''ib_dmah'' False
     [Field ''device'' (CPtr ''struct ib_device''),
      Field ''uobject'' (CPtr ''struct ib_uobject''),
      Field ''res'' struct_rdma_restrack_entry,
      Field ''cpu_id'' u32,
      Field ''mem_type'' enum_tph_mem_type,
      Field ''usecnt'' atomic_t,
      Field ''ph'' u8,
      Field ''valid_fields'' u8]"

definition union_ib_gid :: cty where
  "union_ib_gid = CUnion ''ib_gid'' False
     [Field ''raw'' (CArr 16 u8),
      Field ''global'' (CStruct [] False
        [Field ''subnet_prefix'' c__be64,
         Field ''interface_id'' c__be64])]"

definition struct_ib_global_route :: cty where
  "struct_ib_global_route = CStruct ''ib_global_route'' False
     [Field ''sgid_attr'' (CPtr ''const struct ib_gid_attr''),
      Field ''dgid'' union_ib_gid,
      Field ''flow_label'' u32,
      Field ''sgid_index'' u8,
      Field ''hop_limit'' u8,
      Field ''traffic_class'' u8]"

definition enum_rdma_ah_attr_type :: cty where
  "enum_rdma_ah_attr_type = CEnum 4
     [(''RDMA_AH_ATTR_TYPE_UNDEFINED'', 0), (''RDMA_AH_ATTR_TYPE_IB'', 1),
      (''RDMA_AH_ATTR_TYPE_ROCE'', 2), (''RDMA_AH_ATTR_TYPE_OPA'', 3)]"

definition struct_ib_ah_attr :: cty where
  "struct_ib_ah_attr = CStruct ''ib_ah_attr'' False
     [Field ''dlid'' u16,
      Field ''src_path_bits'' u8]"

definition struct_roce_ah_attr :: cty where
  "struct_roce_ah_attr = CStruct ''roce_ah_attr'' False
     [Field ''dmac'' (CArr 6 u8)]"

definition struct_opa_ah_attr :: cty where
  "struct_opa_ah_attr = CStruct ''opa_ah_attr'' False
     [Field ''dlid'' u32,
      Field ''src_path_bits'' u8,
      Field ''make_grd'' bool]"

definition struct_rdma_ah_attr :: cty where
  "struct_rdma_ah_attr = CStruct ''rdma_ah_attr'' False
     [Field ''grh'' struct_ib_global_route,
      Field ''sl'' u8,
      Field ''static_rate'' u8,
      Field ''port_num'' u32,
      Field ''ah_flags'' u8,
      Field ''type'' enum_rdma_ah_attr_type,
      Field [] (CUnion [] False
        [Field ''ib'' struct_ib_ah_attr,
         Field ''roce'' struct_roce_ah_attr,
         Field ''opa'' struct_opa_ah_attr])]"

definition enum_ldma_chan_on_off :: cty where
  "enum_ldma_chan_on_off = CEnum 4
     [(''DMA_CH_OFF'', 0), (''DMA_CH_ON'', 1)]"

definition struct_ldma_chan :: cty where
  "struct_ldma_chan = CStruct ''ldma_chan'' False
     [Field ''vchan'' struct_virt_dma_chan,
      Field ''port'' (CPtr ''struct ldma_port''),
      Field ''name'' (CArr 8 c_char),
      Field ''nr'' c_int,
      Field ''flags'' u32,
      Field ''onoff'' enum_ldma_chan_on_off,
      Field ''desc_phys'' dma_addr_t,
      Field ''desc_base'' (CPtr ''void''),
      Field ''desc_cnt'' u32,
      Field ''rst'' c_int,
      Field ''hdrm_len'' u32,
      Field ''hdrm_csum'' bool,
      Field ''boff_len'' u32,
      Field ''data_endian'' u32,
      Field ''desc_endian'' u32,
      Field ''pden'' bool,
      Field ''desc_rx_np'' bool,
      Field ''data_endian_en'' bool,
      Field ''desc_endian_en'' bool,
      Field ''abc_en'' bool,
      Field ''desc_init'' bool,
      Field ''desc_pool'' (CPtr ''struct dma_pool''),
      Field ''desc_num'' u32,
      Field ''ds'' (CPtr ''struct dw2_desc_sw''),
      Field ''work'' struct_work_struct,
      Field ''config'' struct_dma_slave_config]"

definition struct_ldma_dev :: cty where
  "struct_ldma_dev = CStruct ''ldma_dev'' False
     [Field ''dev'' (CPtr ''struct device''),
      Field ''base'' (CPtr ''void''),
      Field ''rst'' (CPtr ''struct reset_control''),
      Field ''core_clk'' (CPtr ''struct clk''),
      Field ''dma_dev'' struct_dma_device,
      Field ''ver'' u32,
      Field ''irq'' c_int,
      Field ''ports'' (CPtr ''struct ldma_port''),
      Field ''chans'' (CPtr ''struct ldma_chan''),
      Field ''dev_lock'' spinlock_t,
      Field ''chan_nrs'' u32,
      Field ''port_nrs'' u32,
      Field ''channels_mask'' u32,
      Field ''flags'' u32,
      Field ''pollcnt'' u32,
      Field ''inst'' (CPtr ''const struct ldma_inst_data''),
      Field ''wq'' (CPtr ''struct workqueue_struct'')]"

definition struct_ldma_inst_data :: cty where
  "struct_ldma_inst_data = CStruct ''ldma_inst_data'' False
     [Field ''desc_in_sram'' bool,
      Field ''chan_fc'' bool,
      Field ''desc_fod'' bool,
      Field ''valid_desc_fetch_ack'' bool,
      Field ''orrc'' u32,
      Field ''name'' (CPtr ''const char''),
      Field ''type'' u32]"

definition struct_ldma_port :: cty where
  "struct_ldma_port = CStruct ''ldma_port'' False
     [Field ''ldev'' (CPtr ''struct ldma_dev''),
      Field ''portid'' u32,
      Field ''rxbl'' u32,
      Field ''txbl'' u32,
      Field ''rxendi'' u32,
      Field ''txendi'' u32,
      Field ''pkt_drop'' u32]"

definition struct_net_devmem_dmabuf_binding :: cty where
  "struct_net_devmem_dmabuf_binding = CStruct ''net_devmem_dmabuf_binding'' False
     [Field ''dmabuf'' (CPtr ''struct dma_buf''),
      Field ''attachment'' (CPtr ''struct dma_buf_attachment''),
      Field ''sgt'' (CPtr ''struct sg_table''),
      Field ''dev'' (CPtr ''struct net_device''),
      Field ''chunk_pool'' (CPtr ''struct gen_pool''),
      Field ''lock'' struct_mutex,
      Field ''ref'' struct_percpu_ref,
      Field ''list'' struct_list_head,
      Field ''bound_rxqs'' struct_xarray,
      Field ''id'' u32,
      Field ''direction'' enum_dma_data_direction,
      Field ''tx_vec'' (CPtr ''struct net_iov *''),
      Field ''unbind_w'' struct_work_struct]"

definition struct_of_dma :: cty where
  "struct_of_dma = CStruct ''of_dma'' False
     [Field ''of_dma_controllers'' struct_list_head,
      Field ''of_node'' (CPtr ''struct device_node''),
      Field ''of_dma_xlate'' (CPtr ''struct dma_chan * (struct of_phandle_args *, struct of_dma *)''),
      Field ''of_dma_route_allocate'' (CPtr ''void * (struct of_phandle_args *, struct of_dma *)''),
      Field ''dma_router'' (CPtr ''struct dma_router''),
      Field ''of_dma_data'' (CPtr ''void'')]"

definition struct_pci_p2pdma_whitelist_entry :: cty where
  "struct_pci_p2pdma_whitelist_entry = CStruct ''pci_p2pdma_whitelist_entry'' False
     [Field ''vendor'' short_unsigned_int,
      Field ''device'' short_unsigned_int,
      Field ''flags'' (CEnum 4 [(''REQ_SAME_HOST_BRIDGE'', 1)])]"

definition struct_rdma_counter :: cty where
  "struct_rdma_counter = CStruct ''rdma_counter'' False
     [Field ''res'' struct_rdma_restrack_entry,
      Field ''device'' (CPtr ''struct ib_device''),
      Field ''id'' uint32_t,
      Field ''kref'' struct_kref,
      Field ''mode'' struct_rdma_counter_mode,
      Field ''lock'' struct_mutex,
      Field ''stats'' (CPtr ''struct rdma_hw_stats''),
      Field ''port'' u32]"

definition struct_rdma_netdev_alloc_params :: cty where
  "struct_rdma_netdev_alloc_params = CStruct ''rdma_netdev_alloc_params'' False
     [Field ''sizeof_priv'' size_t,
      Field ''txqs'' unsigned_int,
      Field ''rxqs'' unsigned_int,
      Field ''param'' (CPtr ''void''),
      Field ''initialize_rdma_netdev'' (CPtr ''int (struct ib_device *, u32, struct net_device *, void *)'')]"

definition struct_rdma_user_mmap_entry :: cty where
  "struct_rdma_user_mmap_entry = CStruct ''rdma_user_mmap_entry'' False
     [Field ''ref'' struct_kref,
      Field ''ucontext'' (CPtr ''struct ib_ucontext''),
      Field ''start_pgoff'' long_unsigned_int,
      Field ''npages'' size_t,
      Field ''driver_removed'' bool,
      Field ''dmabufs_lock'' struct_mutex,
      Field ''dmabufs'' struct_list_head]"

definition struct_rdmacg_resource :: cty where
  "struct_rdmacg_resource = CStruct ''rdmacg_resource'' False
     [Field ''max'' c_int,
      Field ''usage'' c_int]"

definition struct_rdmacg_resource_pool :: cty where
  "struct_rdmacg_resource_pool = CStruct ''rdmacg_resource_pool'' False
     [Field ''device'' (CPtr ''struct rdmacg_device''),
      Field ''resources'' (CArr 2 struct_rdmacg_resource),
      Field ''cg_node'' struct_list_head,
      Field ''dev_node'' struct_list_head,
      Field ''usage_sum'' u64,
      Field ''num_max_cnt'' c_int]"

definition enum_rio_write_type :: cty where
  "enum_rio_write_type = CEnum 4
     [(''RDW_DEFAULT'', 0), (''RDW_ALL_NWRITE'', 1), (''RDW_ALL_NWRITE_R'', 2),
      (''RDW_LAST_NWRITE_R'', 3)]"

definition struct_rio_dma_data :: cty where
  "struct_rio_dma_data = CStruct ''rio_dma_data'' False
     [Field ''sg'' (CPtr ''struct scatterlist''),
      Field ''sg_len'' unsigned_int,
      Field ''rio_addr'' u64,
      Field ''rio_addr_u'' u8,
      Field ''wr_type'' enum_rio_write_type]"

definition struct_udmabuf :: cty where
  "struct_udmabuf = CStruct ''udmabuf'' False
     [Field ''pagecount'' long_unsigned_int,
      Field ''folios'' (CPtr ''struct folio *''),
      Field ''nr_pinned'' long_unsigned_int,
      Field ''pinned_folios'' (CPtr ''struct folio *''),
      Field ''sg'' (CPtr ''struct sg_table''),
      Field ''device'' (CPtr ''struct miscdevice''),
      Field ''offsets'' (CPtr ''long unsigned int'')]"

definition struct_vme_dma_resource :: cty where
  "struct_vme_dma_resource = CStruct ''vme_dma_resource'' False
     [Field ''list'' struct_list_head,
      Field ''parent'' (CPtr ''struct vme_bridge''),
      Field ''mtx'' struct_mutex,
      Field ''locked'' c_int,
      Field ''number'' c_int,
      Field ''pending'' struct_list_head,
      Field ''running'' struct_list_head,
      Field ''route_attr'' u32]"

definition struct_xsk_dma_map :: cty where
  "struct_xsk_dma_map = CStruct ''xsk_dma_map'' False
     [Field ''dma_pages'' (CPtr ''dma_addr_t''),
      Field ''dev'' (CPtr ''struct device''),
      Field ''netdev'' (CPtr ''struct net_device''),
      Field ''users'' refcount_t,
      Field ''list'' struct_list_head,
      Field ''dma_pages_cnt'' u32]"

section \<open>Sizes and alignments\<close>

lemma enum_acpi_dmar_scope_type_layout [layout_simps]:
  "sizeof enum_acpi_dmar_scope_type = 4 \<and> alignof enum_acpi_dmar_scope_type = 4 \<and> wf_cty enum_acpi_dmar_scope_type"
  by (simp add: enum_acpi_dmar_scope_type_def base_types layout_eval
      del: One_nat_def)

lemma enum_acpi_dmar_type_layout [layout_simps]:
  "sizeof enum_acpi_dmar_type = 4 \<and> alignof enum_acpi_dmar_type = 4 \<and> wf_cty enum_acpi_dmar_type"
  by (simp add: enum_acpi_dmar_type_def base_types layout_eval
      del: One_nat_def)

lemma enum_dma_ctrl_flags_layout [layout_simps]:
  "sizeof enum_dma_ctrl_flags = 4 \<and> alignof enum_dma_ctrl_flags = 4 \<and> wf_cty enum_dma_ctrl_flags"
  by (simp add: enum_dma_ctrl_flags_def base_types layout_eval
      del: One_nat_def)

lemma enum_dma_fence_flag_bits_layout [layout_simps]:
  "sizeof enum_dma_fence_flag_bits = 4 \<and> alignof enum_dma_fence_flag_bits = 4 \<and> wf_cty enum_dma_fence_flag_bits"
  by (simp add: enum_dma_fence_flag_bits_def base_types layout_eval
      del: One_nat_def)

lemma enum_dma_slave_buswidth_layout [layout_simps]:
  "sizeof enum_dma_slave_buswidth = 4 \<and> alignof enum_dma_slave_buswidth = 4 \<and> wf_cty enum_dma_slave_buswidth"
  by (simp add: enum_dma_slave_buswidth_def base_types layout_eval
      del: One_nat_def)

lemma enum_dma_status_layout [layout_simps]:
  "sizeof enum_dma_status = 4 \<and> alignof enum_dma_status = 4 \<and> wf_cty enum_dma_status"
  by (simp add: enum_dma_status_def base_types layout_eval
      del: One_nat_def)

lemma enum_dma_transaction_type_layout [layout_simps]:
  "sizeof enum_dma_transaction_type = 4 \<and> alignof enum_dma_transaction_type = 4 \<and> wf_cty enum_dma_transaction_type"
  by (simp add: enum_dma_transaction_type_def base_types layout_eval
      del: One_nat_def)

lemma enum_dma_transfer_direction_layout [layout_simps]:
  "sizeof enum_dma_transfer_direction = 4 \<and> alignof enum_dma_transfer_direction = 4 \<and> wf_cty enum_dma_transfer_direction"
  by (simp add: enum_dma_transfer_direction_def base_types layout_eval
      del: One_nat_def)

lemma enum_dmaengine_alignment_layout [layout_simps]:
  "sizeof enum_dmaengine_alignment = 4 \<and> alignof enum_dmaengine_alignment = 4 \<and> wf_cty enum_dmaengine_alignment"
  by (simp add: enum_dmaengine_alignment_def base_types layout_eval
      del: One_nat_def)

lemma enum_pci_p2pdma_map_type_layout [layout_simps]:
  "sizeof enum_pci_p2pdma_map_type = 4 \<and> alignof enum_pci_p2pdma_map_type = 4 \<and> wf_cty enum_pci_p2pdma_map_type"
  by (simp add: enum_pci_p2pdma_map_type_def base_types layout_eval
      del: One_nat_def)

lemma enum_rdma_restrack_type_layout [layout_simps]:
  "sizeof enum_rdma_restrack_type = 4 \<and> alignof enum_rdma_restrack_type = 4 \<and> wf_cty enum_rdma_restrack_type"
  by (simp add: enum_rdma_restrack_type_def base_types layout_eval
      del: One_nat_def)

lemma struct_acpi_dma_layout [layout_simps]:
  "sizeof struct_acpi_dma = 48 \<and> alignof struct_acpi_dma = 8 \<and> wf_cty struct_acpi_dma"
  by (simp add: struct_acpi_dma_def base_types layout_eval struct_list_head_layout
      del: One_nat_def)

lemma struct_acpi_dmar_header_layout [layout_simps]:
  "sizeof struct_acpi_dmar_header = 4 \<and> alignof struct_acpi_dmar_header = 2 \<and> wf_cty struct_acpi_dmar_header"
  by (simp add: struct_acpi_dmar_header_def base_types layout_eval u16_def c__u16_def
      del: One_nat_def)

lemma struct_acpi_dmar_andd_layout [layout_simps]:
  "sizeof struct_acpi_dmar_andd = 9 \<and> alignof struct_acpi_dmar_andd = 1 \<and> wf_cty struct_acpi_dmar_andd"
  by (simp add: struct_acpi_dmar_andd_def base_types layout_eval struct_acpi_dmar_header_layout u8_def c__u8_def
      del: One_nat_def)

lemma struct_acpi_dmar_device_scope_layout [layout_simps]:
  "sizeof struct_acpi_dmar_device_scope = 6 \<and> alignof struct_acpi_dmar_device_scope = 1 \<and> wf_cty struct_acpi_dmar_device_scope"
  by (simp add: struct_acpi_dmar_device_scope_def base_types layout_eval u8_def c__u8_def
      del: One_nat_def)

lemma struct_acpi_dmar_hardware_unit_layout [layout_simps]:
  "sizeof struct_acpi_dmar_hardware_unit = 16 \<and> alignof struct_acpi_dmar_hardware_unit = 8 \<and> wf_cty struct_acpi_dmar_hardware_unit"
  by (simp add: struct_acpi_dmar_hardware_unit_def base_types layout_eval struct_acpi_dmar_header_layout u8_def c__u8_def
      u16_def c__u16_def u64_def c__u64_def
      del: One_nat_def)

lemma struct_acpi_dmar_reserved_memory_layout [layout_simps]:
  "sizeof struct_acpi_dmar_reserved_memory = 24 \<and> alignof struct_acpi_dmar_reserved_memory = 8 \<and> wf_cty struct_acpi_dmar_reserved_memory"
  by (simp add: struct_acpi_dmar_reserved_memory_def base_types layout_eval struct_acpi_dmar_header_layout u16_def
      c__u16_def u64_def c__u64_def
      del: One_nat_def)

lemma struct_acpi_resource_dma_layout [layout_simps]:
  "sizeof struct_acpi_resource_dma = 5 \<and> alignof struct_acpi_resource_dma = 1 \<and> wf_cty struct_acpi_resource_dma"
  by (simp add: struct_acpi_resource_dma_def base_types layout_eval u8_def c__u8_def
      del: One_nat_def)

lemma struct_pci_p2pdma_map_state_layout [layout_simps]:
  "sizeof struct_pci_p2pdma_map_state = 16 \<and> alignof struct_pci_p2pdma_map_state = 8 \<and> wf_cty struct_pci_p2pdma_map_state"
  by (simp add: struct_pci_p2pdma_map_state_def base_types layout_eval enum_pci_p2pdma_map_type_layout
      del: One_nat_def)

lemma struct_blk_map_iter_layout [layout_simps]:
  "sizeof struct_blk_map_iter = 48 \<and> alignof struct_blk_map_iter = 8 \<and> wf_cty struct_blk_map_iter"
  by (simp add: struct_blk_map_iter_def base_types layout_eval struct_bvec_iter_layout bool_def
      del: One_nat_def)

lemma struct_blk_dma_iter_layout [layout_simps]:
  "sizeof struct_blk_dma_iter = 88 \<and> alignof struct_blk_dma_iter = 8 \<and> wf_cty struct_blk_dma_iter"
  by (simp add: struct_blk_dma_iter_def base_types layout_eval dma_addr_t_def u64_def c__u64_def u32_def c__u32_def
      struct_pci_p2pdma_map_state_layout blk_status_t_def u8_def c__u8_def struct_blk_map_iter_layout
      del: One_nat_def)

lemma enum_dma_desc_metadata_mode_layout [layout_simps]:
  "sizeof enum_dma_desc_metadata_mode = 4 \<and> alignof enum_dma_desc_metadata_mode = 4 \<and> wf_cty enum_dma_desc_metadata_mode"
  by (simp add: enum_dma_desc_metadata_mode_def base_types layout_eval
      del: One_nat_def)

lemma struct_dma_async_tx_descriptor_layout [layout_simps]:
  "sizeof struct_dma_async_tx_descriptor = 88 \<and> alignof struct_dma_async_tx_descriptor = 8 \<and> wf_cty struct_dma_async_tx_descriptor"
  by (simp add: struct_dma_async_tx_descriptor_def base_types layout_eval dma_cookie_t_def s32_def c__s32_def
      enum_dma_ctrl_flags_layout dma_addr_t_def u64_def c__u64_def dma_async_tx_callback_def
      dma_async_tx_callback_result_def enum_dma_desc_metadata_mode_layout
      del: One_nat_def)

lemma struct_dma_buf_export_info_layout [layout_simps]:
  "sizeof struct_dma_buf_export_info = 56 \<and> alignof struct_dma_buf_export_info = 8 \<and> wf_cty struct_dma_buf_export_info"
  by (simp add: struct_dma_buf_export_info_def base_types layout_eval size_t_def c__kernel_size_t_def
      c__kernel_ulong_t_def
      del: One_nat_def)

lemma struct_dma_chan_layout [layout_simps]:
  "sizeof struct_dma_chan = 112 \<and> alignof struct_dma_chan = 8 \<and> wf_cty struct_dma_chan"
  by (simp add: struct_dma_chan_def base_types layout_eval dma_cookie_t_def s32_def c__s32_def struct_list_head_layout
      del: One_nat_def)

lemma struct_dma_filter_layout [layout_simps]:
  "sizeof struct_dma_filter = 24 \<and> alignof struct_dma_filter = 8 \<and> wf_cty struct_dma_filter"
  by (simp add: struct_dma_filter_def base_types layout_eval dma_filter_fn_def
      del: One_nat_def)

lemma dma_cap_mask_t_layout [layout_simps]:
  "sizeof dma_cap_mask_t = 8 \<and> alignof dma_cap_mask_t = 8 \<and> wf_cty dma_cap_mask_t"
  by (simp add: dma_cap_mask_t_def base_types layout_eval
      del: One_nat_def)

lemma enum_dma_residue_granularity_layout [layout_simps]:
  "sizeof enum_dma_residue_granularity = 4 \<and> alignof enum_dma_residue_granularity = 4 \<and> wf_cty enum_dma_residue_granularity"
  by (simp add: enum_dma_residue_granularity_def base_types layout_eval
      del: One_nat_def)

lemma struct_dma_device_layout [layout_simps]:
  "sizeof struct_dma_device = 384 \<and> alignof struct_dma_device = 8 \<and> wf_cty struct_dma_device"
  by (simp add: struct_dma_device_def base_types layout_eval struct_kref_layout struct_list_head_layout
      struct_dma_filter_layout dma_cap_mask_t_layout enum_dma_desc_metadata_mode_layout
      enum_dmaengine_alignment_layout struct_ida_layout u32_def c__u32_def bool_def
      enum_dma_residue_granularity_layout
      del: One_nat_def)

lemma struct_dma_fence_array_cb_layout [layout_simps]:
  "sizeof struct_dma_fence_array_cb = 32 \<and> alignof struct_dma_fence_array_cb = 8 \<and> wf_cty struct_dma_fence_array_cb"
  by (simp add: struct_dma_fence_array_cb_def base_types layout_eval struct_dma_fence_cb_layout
      del: One_nat_def)

lemma struct_dma_fence_array_layout [layout_simps]:
  "sizeof struct_dma_fence_array = 120 \<and> alignof struct_dma_fence_array = 8 \<and> wf_cty struct_dma_fence_array"
  by (simp add: struct_dma_fence_array_def base_types layout_eval struct_dma_fence_layout spinlock_t_def
      struct_spinlock_layout atomic_t_layout struct_irq_work_layout struct_dma_fence_array_cb_layout
      del: One_nat_def)

lemma struct_dma_fence_chain_layout [layout_simps]:
  "sizeof struct_dma_fence_chain = 128 \<and> alignof struct_dma_fence_chain = 8 \<and> wf_cty struct_dma_fence_chain"
  by (simp add: struct_dma_fence_chain_def base_types layout_eval struct_dma_fence_layout u64_def c__u64_def
      struct_dma_fence_cb_layout struct_irq_work_layout spinlock_t_def struct_spinlock_layout
      del: One_nat_def)

lemma struct_dma_heap_layout [layout_simps]:
  "sizeof struct_dma_heap = 152 \<and> alignof struct_dma_heap = 8 \<and> wf_cty struct_dma_heap"
  by (simp add: struct_dma_heap_def base_types layout_eval dev_t_def c__kernel_dev_t_def u32_def c__u32_def
      struct_list_head_layout struct_cdev_layout
      del: One_nat_def)

lemma struct_data_chunk_layout [layout_simps]:
  "sizeof struct_data_chunk = 32 \<and> alignof struct_data_chunk = 8 \<and> wf_cty struct_data_chunk"
  by (simp add: struct_data_chunk_def base_types layout_eval size_t_def c__kernel_size_t_def c__kernel_ulong_t_def
      del: One_nat_def)

lemma struct_dma_interleaved_template_layout [layout_simps]:
  "sizeof struct_dma_interleaved_template = 40 \<and> alignof struct_dma_interleaved_template = 8 \<and> wf_cty struct_dma_interleaved_template"
  by (simp add: struct_dma_interleaved_template_def base_types layout_eval dma_addr_t_def u64_def c__u64_def
      enum_dma_transfer_direction_layout bool_def size_t_def c__kernel_size_t_def c__kernel_ulong_t_def
      struct_data_chunk_layout
      del: One_nat_def)

lemma struct_dma_pool_layout [layout_simps]:
  "sizeof struct_dma_pool = 128 \<and> alignof struct_dma_pool = 8 \<and> wf_cty struct_dma_pool"
  by (simp add: struct_dma_pool_def base_types layout_eval struct_list_head_layout spinlock_t_def struct_spinlock_layout
      size_t_def c__kernel_size_t_def c__kernel_ulong_t_def
      del: One_nat_def)

lemma enum_dma_resv_usage_layout [layout_simps]:
  "sizeof enum_dma_resv_usage = 4 \<and> alignof enum_dma_resv_usage = 4 \<and> wf_cty enum_dma_resv_usage"
  by (simp add: enum_dma_resv_usage_def base_types layout_eval
      del: One_nat_def)

lemma struct_dma_resv_iter_layout [layout_simps]:
  "sizeof struct_dma_resv_iter = 48 \<and> alignof struct_dma_resv_iter = 8 \<and> wf_cty struct_dma_resv_iter"
  by (simp add: struct_dma_resv_iter_def base_types layout_eval enum_dma_resv_usage_layout bool_def
      del: One_nat_def)

lemma struct_dma_slave_caps_layout [layout_simps]:
  "sizeof struct_dma_slave_caps = 36 \<and> alignof struct_dma_slave_caps = 4 \<and> wf_cty struct_dma_slave_caps"
  by (simp add: struct_dma_slave_caps_def base_types layout_eval u32_def c__u32_def bool_def
      enum_dma_residue_granularity_layout
      del: One_nat_def)

lemma struct_dma_slave_config_layout [layout_simps]:
  "sizeof struct_dma_slave_config = 72 \<and> alignof struct_dma_slave_config = 8 \<and> wf_cty struct_dma_slave_config"
  by (simp add: struct_dma_slave_config_def base_types layout_eval enum_dma_transfer_direction_layout phys_addr_t_def
      u64_def c__u64_def enum_dma_slave_buswidth_layout u32_def c__u32_def bool_def size_t_def
      c__kernel_size_t_def c__kernel_ulong_t_def
      del: One_nat_def)

lemma struct_dmabuf_cmsg_layout [layout_simps]:
  "sizeof struct_dmabuf_cmsg = 24 \<and> alignof struct_dmabuf_cmsg = 8 \<and> wf_cty struct_dmabuf_cmsg"
  by (simp add: struct_dmabuf_cmsg_def base_types layout_eval c__u64_def c__u32_def
      del: One_nat_def)

lemma struct_dmaengine_unmap_data_layout [layout_simps]:
  "sizeof struct_dmaengine_unmap_data = 32 \<and> alignof struct_dmaengine_unmap_data = 8 \<and> wf_cty struct_dmaengine_unmap_data"
  by (simp add: struct_dmaengine_unmap_data_def base_types layout_eval u16_def c__u16_def u8_def c__u8_def
      struct_kref_layout size_t_def c__kernel_size_t_def c__kernel_ulong_t_def dma_addr_t_def u64_def
      c__u64_def
      del: One_nat_def)

lemma struct_dmar_atsr_unit_layout [layout_simps]:
  "sizeof struct_dmar_atsr_unit = 40 \<and> alignof struct_dmar_atsr_unit = 8 \<and> wf_cty struct_dmar_atsr_unit"
  by (simp add: struct_dmar_atsr_unit_def base_types layout_eval struct_list_head_layout u8_def c__u8_def
      del: One_nat_def)

lemma struct_pt_iommu_layout [layout_simps]:
  "sizeof struct_pt_iommu = 144 \<and> alignof struct_pt_iommu = 8 \<and> wf_cty struct_pt_iommu"
  by (simp add: struct_pt_iommu_def base_types layout_eval struct_iommu_domain_layout
      del: One_nat_def)

lemma struct_pt_common_layout [layout_simps]:
  "sizeof struct_pt_common = 16 \<and> alignof struct_pt_common = 8 \<and> wf_cty struct_pt_common"
  by (simp add: struct_pt_common_def base_types layout_eval uintptr_t_def u8_def c__u8_def
      del: One_nat_def)

lemma struct_pt_x86_64_layout [layout_simps]:
  "sizeof struct_pt_x86_64 = 16 \<and> alignof struct_pt_x86_64 = 8 \<and> wf_cty struct_pt_x86_64"
  by (simp add: struct_pt_x86_64_def base_types layout_eval struct_pt_common_layout
      del: One_nat_def)

lemma struct_pt_iommu_x86_64_layout [layout_simps]:
  "sizeof struct_pt_iommu_x86_64 = 160 \<and> alignof struct_pt_iommu_x86_64 = 8 \<and> wf_cty struct_pt_iommu_x86_64"
  by (simp add: struct_pt_iommu_x86_64_def base_types layout_eval struct_pt_iommu_layout struct_pt_x86_64_layout
      del: One_nat_def)

lemma struct_pt_vtdss_layout [layout_simps]:
  "sizeof struct_pt_vtdss = 16 \<and> alignof struct_pt_vtdss = 8 \<and> wf_cty struct_pt_vtdss"
  by (simp add: struct_pt_vtdss_def base_types layout_eval struct_pt_common_layout
      del: One_nat_def)

lemma struct_pt_iommu_vtdss_layout [layout_simps]:
  "sizeof struct_pt_iommu_vtdss = 160 \<and> alignof struct_pt_iommu_vtdss = 8 \<and> wf_cty struct_pt_iommu_vtdss"
  by (simp add: struct_pt_iommu_vtdss_def base_types layout_eval struct_pt_iommu_layout struct_pt_vtdss_layout
      del: One_nat_def)

lemma struct_iommu_hwpt_vtd_s1_layout [layout_simps]:
  "sizeof struct_iommu_hwpt_vtd_s1 = 24 \<and> alignof struct_iommu_hwpt_vtd_s1 = 8 \<and> wf_cty struct_iommu_hwpt_vtd_s1"
  by (simp add: struct_iommu_hwpt_vtd_s1_def base_types layout_eval c__u64_def c__u32_def
      del: One_nat_def)

lemma struct_dmar_domain_layout [layout_simps]:
  "sizeof struct_dmar_domain = 304 \<and> alignof struct_dmar_domain = 8 \<and> wf_cty struct_dmar_domain"
  by (simp add: struct_dmar_domain_def base_types layout_eval struct_iommu_domain_layout struct_pt_iommu_layout
      struct_pt_iommu_x86_64_layout struct_pt_iommu_vtdss_layout struct_xarray_layout u8_def c__u8_def
      spinlock_t_def struct_spinlock_layout struct_list_head_layout struct_iommu_hwpt_vtd_s1_layout
      struct_mmu_notifier_layout
      del: One_nat_def)

lemma struct_dmar_drhd_unit_layout [layout_simps]:
  "sizeof struct_dmar_drhd_unit = 64 \<and> alignof struct_dmar_drhd_unit = 8 \<and> wf_cty struct_dmar_drhd_unit"
  by (simp add: struct_dmar_drhd_unit_def base_types layout_eval struct_list_head_layout u64_def c__u64_def u16_def
      c__u16_def u8_def c__u8_def
      del: One_nat_def)

lemma struct_dmar_pci_path_layout [layout_simps]:
  "sizeof struct_dmar_pci_path = 3 \<and> alignof struct_dmar_pci_path = 1 \<and> wf_cty struct_dmar_pci_path"
  by (simp add: struct_dmar_pci_path_def base_types layout_eval u8_def c__u8_def
      del: One_nat_def)

lemma struct_dmar_pci_notify_info_layout [layout_simps]:
  "sizeof struct_dmar_pci_notify_info = 24 \<and> alignof struct_dmar_pci_notify_info = 8 \<and> wf_cty struct_dmar_pci_notify_info"
  by (simp add: struct_dmar_pci_notify_info_def base_types layout_eval u16_def c__u16_def struct_dmar_pci_path_layout
      del: One_nat_def)

lemma struct_dmar_rmrr_unit_layout [layout_simps]:
  "sizeof struct_dmar_rmrr_unit = 56 \<and> alignof struct_dmar_rmrr_unit = 8 \<and> wf_cty struct_dmar_rmrr_unit"
  by (simp add: struct_dmar_rmrr_unit_def base_types layout_eval struct_list_head_layout u64_def c__u64_def
      del: One_nat_def)

lemma struct_dmar_satc_unit_layout [layout_simps]:
  "sizeof struct_dmar_satc_unit = 48 \<and> alignof struct_dmar_satc_unit = 8 \<and> wf_cty struct_dmar_satc_unit"
  by (simp add: struct_dmar_satc_unit_def base_types layout_eval struct_list_head_layout u8_def c__u8_def
      del: One_nat_def)

lemma struct_uart_8250_dma_layout [layout_simps]:
  "sizeof struct_uart_8250_dma = 288 \<and> alignof struct_uart_8250_dma = 8 \<and> wf_cty struct_uart_8250_dma"
  by (simp add: struct_uart_8250_dma_def base_types layout_eval dma_filter_fn_def struct_dma_slave_config_layout
      phys_addr_t_def u64_def c__u64_def dma_addr_t_def dma_cookie_t_def s32_def c__s32_def size_t_def
      c__kernel_size_t_def c__kernel_ulong_t_def
      del: One_nat_def)

lemma struct_dw_edma_region_layout [layout_simps]:
  "sizeof struct_dw_edma_region = 24 \<and> alignof struct_dw_edma_region = 8 \<and> wf_cty struct_dw_edma_region"
  by (simp add: struct_dw_edma_region_def base_types layout_eval u64_def c__u64_def size_t_def c__kernel_size_t_def
      c__kernel_ulong_t_def
      del: One_nat_def)

lemma enum_dw_edma_map_format_layout [layout_simps]:
  "sizeof enum_dw_edma_map_format = 4 \<and> alignof enum_dw_edma_map_format = 4 \<and> wf_cty enum_dw_edma_map_format"
  by (simp add: enum_dw_edma_map_format_def base_types layout_eval
      del: One_nat_def)

lemma struct_dw_edma_chip_layout [layout_simps]:
  "sizeof struct_dw_edma_chip = 832 \<and> alignof struct_dw_edma_chip = 8 \<and> wf_cty struct_dw_edma_chip"
  by (simp add: struct_dw_edma_chip_def base_types layout_eval u32_def c__u32_def u16_def c__u16_def
      struct_dw_edma_region_layout enum_dw_edma_map_format_layout
      del: One_nat_def)

lemma struct_gnttab_dma_alloc_args_layout [layout_simps]:
  "sizeof struct_gnttab_dma_alloc_args = 48 \<and> alignof struct_gnttab_dma_alloc_args = 8 \<and> wf_cty struct_gnttab_dma_alloc_args"
  by (simp add: struct_gnttab_dma_alloc_args_def base_types layout_eval bool_def dma_addr_t_def u64_def c__u64_def
      del: One_nat_def)

lemma struct_tasklet_struct_layout [layout_simps]:
  "sizeof struct_tasklet_struct = 40 \<and> alignof struct_tasklet_struct = 8 \<and> wf_cty struct_tasklet_struct"
  by (simp add: struct_tasklet_struct_def base_types layout_eval atomic_t_layout bool_def
      del: One_nat_def)

lemma struct_virt_dma_chan_layout [layout_simps]:
  "sizeof struct_virt_dma_chan = 256 \<and> alignof struct_virt_dma_chan = 8 \<and> wf_cty struct_virt_dma_chan"
  by (simp add: struct_virt_dma_chan_def base_types layout_eval struct_dma_chan_layout struct_tasklet_struct_layout
      spinlock_t_def struct_spinlock_layout struct_list_head_layout
      del: One_nat_def)

lemma struct_hsu_dma_chan_layout [layout_simps]:
  "sizeof struct_hsu_dma_chan = 352 \<and> alignof struct_hsu_dma_chan = 8 \<and> wf_cty struct_hsu_dma_chan"
  by (simp add: struct_hsu_dma_chan_def base_types layout_eval struct_virt_dma_chan_layout
      enum_dma_transfer_direction_layout struct_dma_slave_config_layout
      del: One_nat_def)

lemma struct_hsu_dma_chip_layout [layout_simps]:
  "sizeof struct_hsu_dma_chip = 40 \<and> alignof struct_hsu_dma_chip = 8 \<and> wf_cty struct_hsu_dma_chip"
  by (simp add: struct_hsu_dma_chip_def base_types layout_eval
      del: One_nat_def)

lemma enum_dmaengine_tx_result_layout [layout_simps]:
  "sizeof enum_dmaengine_tx_result = 4 \<and> alignof enum_dmaengine_tx_result = 4 \<and> wf_cty enum_dmaengine_tx_result"
  by (simp add: enum_dmaengine_tx_result_def base_types layout_eval
      del: One_nat_def)

lemma struct_dmaengine_result_layout [layout_simps]:
  "sizeof struct_dmaengine_result = 8 \<and> alignof struct_dmaengine_result = 4 \<and> wf_cty struct_dmaengine_result"
  by (simp add: struct_dmaengine_result_def base_types layout_eval enum_dmaengine_tx_result_layout u32_def c__u32_def
      del: One_nat_def)

lemma struct_virt_dma_desc_layout [layout_simps]:
  "sizeof struct_virt_dma_desc = 112 \<and> alignof struct_virt_dma_desc = 8 \<and> wf_cty struct_virt_dma_desc"
  by (simp add: struct_virt_dma_desc_def base_types layout_eval struct_dma_async_tx_descriptor_layout
      struct_dmaengine_result_layout struct_list_head_layout
      del: One_nat_def)

lemma struct_hsu_dma_desc_layout [layout_simps]:
  "sizeof struct_hsu_dma_desc = 152 \<and> alignof struct_hsu_dma_desc = 8 \<and> wf_cty struct_hsu_dma_desc"
  by (simp add: struct_hsu_dma_desc_def base_types layout_eval struct_virt_dma_desc_layout
      enum_dma_transfer_direction_layout size_t_def c__kernel_size_t_def c__kernel_ulong_t_def
      enum_dma_status_layout
      del: One_nat_def)

lemma struct_rdma_restrack_entry_layout [layout_simps]:
  "sizeof struct_rdma_restrack_entry = 72 \<and> alignof struct_rdma_restrack_entry = 8 \<and> wf_cty struct_rdma_restrack_entry"
  by (simp add: struct_rdma_restrack_entry_def base_types layout_eval bool_def u8_def c__u8_def struct_kref_layout
      struct_completion_layout enum_rdma_restrack_type_layout u32_def c__u32_def
      del: One_nat_def)

lemma enum_tph_mem_type_layout [layout_simps]:
  "sizeof enum_tph_mem_type = 4 \<and> alignof enum_tph_mem_type = 4 \<and> wf_cty enum_tph_mem_type"
  by (simp add: enum_tph_mem_type_def base_types layout_eval
      del: One_nat_def)

lemma struct_ib_dmah_layout [layout_simps]:
  "sizeof struct_ib_dmah = 104 \<and> alignof struct_ib_dmah = 8 \<and> wf_cty struct_ib_dmah"
  by (simp add: struct_ib_dmah_def base_types layout_eval struct_rdma_restrack_entry_layout u32_def c__u32_def
      enum_tph_mem_type_layout atomic_t_layout u8_def c__u8_def
      del: One_nat_def)

lemma union_ib_gid_layout [layout_simps]:
  "sizeof union_ib_gid = 16 \<and> alignof union_ib_gid = 8 \<and> wf_cty union_ib_gid"
  by (simp add: union_ib_gid_def base_types layout_eval u8_def c__u8_def c__be64_def c__u64_def
      del: One_nat_def)

lemma struct_ib_global_route_layout [layout_simps]:
  "sizeof struct_ib_global_route = 32 \<and> alignof struct_ib_global_route = 8 \<and> wf_cty struct_ib_global_route"
  by (simp add: struct_ib_global_route_def base_types layout_eval union_ib_gid_layout u32_def c__u32_def u8_def c__u8_def
      del: One_nat_def)

lemma enum_rdma_ah_attr_type_layout [layout_simps]:
  "sizeof enum_rdma_ah_attr_type = 4 \<and> alignof enum_rdma_ah_attr_type = 4 \<and> wf_cty enum_rdma_ah_attr_type"
  by (simp add: enum_rdma_ah_attr_type_def base_types layout_eval
      del: One_nat_def)

lemma struct_ib_ah_attr_layout [layout_simps]:
  "sizeof struct_ib_ah_attr = 4 \<and> alignof struct_ib_ah_attr = 2 \<and> wf_cty struct_ib_ah_attr"
  by (simp add: struct_ib_ah_attr_def base_types layout_eval u16_def c__u16_def u8_def c__u8_def
      del: One_nat_def)

lemma struct_roce_ah_attr_layout [layout_simps]:
  "sizeof struct_roce_ah_attr = 6 \<and> alignof struct_roce_ah_attr = 1 \<and> wf_cty struct_roce_ah_attr"
  by (simp add: struct_roce_ah_attr_def base_types layout_eval u8_def c__u8_def
      del: One_nat_def)

lemma struct_opa_ah_attr_layout [layout_simps]:
  "sizeof struct_opa_ah_attr = 8 \<and> alignof struct_opa_ah_attr = 4 \<and> wf_cty struct_opa_ah_attr"
  by (simp add: struct_opa_ah_attr_def base_types layout_eval u32_def c__u32_def u8_def c__u8_def bool_def
      del: One_nat_def)

lemma struct_rdma_ah_attr_layout [layout_simps]:
  "sizeof struct_rdma_ah_attr = 56 \<and> alignof struct_rdma_ah_attr = 8 \<and> wf_cty struct_rdma_ah_attr"
  by (simp add: struct_rdma_ah_attr_def base_types layout_eval struct_ib_global_route_layout u8_def c__u8_def u32_def
      c__u32_def enum_rdma_ah_attr_type_layout struct_ib_ah_attr_layout struct_roce_ah_attr_layout
      struct_opa_ah_attr_layout
      del: One_nat_def)

lemma enum_ldma_chan_on_off_layout [layout_simps]:
  "sizeof enum_ldma_chan_on_off = 4 \<and> alignof enum_ldma_chan_on_off = 4 \<and> wf_cty enum_ldma_chan_on_off"
  by (simp add: enum_ldma_chan_on_off_def base_types layout_eval
      del: One_nat_def)

lemma struct_ldma_chan_layout [layout_simps]:
  "sizeof struct_ldma_chan = 472 \<and> alignof struct_ldma_chan = 8 \<and> wf_cty struct_ldma_chan"
  by (simp add: struct_ldma_chan_def base_types layout_eval struct_virt_dma_chan_layout u32_def c__u32_def
      enum_ldma_chan_on_off_layout dma_addr_t_def u64_def c__u64_def bool_def struct_work_struct_layout
      struct_dma_slave_config_layout
      del: One_nat_def)

lemma struct_ldma_dev_layout [layout_simps]:
  "sizeof struct_ldma_dev = 480 \<and> alignof struct_ldma_dev = 8 \<and> wf_cty struct_ldma_dev"
  by (simp add: struct_ldma_dev_def base_types layout_eval struct_dma_device_layout u32_def c__u32_def spinlock_t_def
      struct_spinlock_layout
      del: One_nat_def)

lemma struct_ldma_inst_data_layout [layout_simps]:
  "sizeof struct_ldma_inst_data = 24 \<and> alignof struct_ldma_inst_data = 8 \<and> wf_cty struct_ldma_inst_data"
  by (simp add: struct_ldma_inst_data_def base_types layout_eval bool_def u32_def c__u32_def
      del: One_nat_def)

lemma struct_ldma_port_layout [layout_simps]:
  "sizeof struct_ldma_port = 32 \<and> alignof struct_ldma_port = 8 \<and> wf_cty struct_ldma_port"
  by (simp add: struct_ldma_port_def base_types layout_eval u32_def c__u32_def
      del: One_nat_def)

lemma struct_net_devmem_dmabuf_binding_layout [layout_simps]:
  "sizeof struct_net_devmem_dmabuf_binding = 168 \<and> alignof struct_net_devmem_dmabuf_binding = 8 \<and> wf_cty struct_net_devmem_dmabuf_binding"
  by (simp add: struct_net_devmem_dmabuf_binding_def base_types layout_eval struct_mutex_layout struct_percpu_ref_layout
      struct_list_head_layout struct_xarray_layout u32_def c__u32_def enum_dma_data_direction_layout
      struct_work_struct_layout
      del: One_nat_def)

lemma struct_of_dma_layout [layout_simps]:
  "sizeof struct_of_dma = 56 \<and> alignof struct_of_dma = 8 \<and> wf_cty struct_of_dma"
  by (simp add: struct_of_dma_def base_types layout_eval struct_list_head_layout
      del: One_nat_def)

lemma struct_pci_p2pdma_whitelist_entry_layout [layout_simps]:
  "sizeof struct_pci_p2pdma_whitelist_entry = 8 \<and> alignof struct_pci_p2pdma_whitelist_entry = 4 \<and> wf_cty struct_pci_p2pdma_whitelist_entry"
  by (simp add: struct_pci_p2pdma_whitelist_entry_def base_types layout_eval
      del: One_nat_def)

lemma struct_rdma_counter_layout [layout_simps]:
  "sizeof struct_rdma_counter = 152 \<and> alignof struct_rdma_counter = 8 \<and> wf_cty struct_rdma_counter"
  by (simp add: struct_rdma_counter_def base_types layout_eval struct_rdma_restrack_entry_layout uint32_t_def u32_def
      c__u32_def struct_kref_layout struct_rdma_counter_mode_layout struct_mutex_layout
      del: One_nat_def)

lemma struct_rdma_netdev_alloc_params_layout [layout_simps]:
  "sizeof struct_rdma_netdev_alloc_params = 32 \<and> alignof struct_rdma_netdev_alloc_params = 8 \<and> wf_cty struct_rdma_netdev_alloc_params"
  by (simp add: struct_rdma_netdev_alloc_params_def base_types layout_eval size_t_def c__kernel_size_t_def
      c__kernel_ulong_t_def
      del: One_nat_def)

lemma struct_rdma_user_mmap_entry_layout [layout_simps]:
  "sizeof struct_rdma_user_mmap_entry = 88 \<and> alignof struct_rdma_user_mmap_entry = 8 \<and> wf_cty struct_rdma_user_mmap_entry"
  by (simp add: struct_rdma_user_mmap_entry_def base_types layout_eval struct_kref_layout size_t_def c__kernel_size_t_def
      c__kernel_ulong_t_def bool_def struct_mutex_layout struct_list_head_layout
      del: One_nat_def)

lemma struct_rdmacg_resource_layout [layout_simps]:
  "sizeof struct_rdmacg_resource = 8 \<and> alignof struct_rdmacg_resource = 4 \<and> wf_cty struct_rdmacg_resource"
  by (simp add: struct_rdmacg_resource_def base_types layout_eval
      del: One_nat_def)

lemma struct_rdmacg_resource_pool_layout [layout_simps]:
  "sizeof struct_rdmacg_resource_pool = 72 \<and> alignof struct_rdmacg_resource_pool = 8 \<and> wf_cty struct_rdmacg_resource_pool"
  by (simp add: struct_rdmacg_resource_pool_def base_types layout_eval struct_rdmacg_resource_layout
      struct_list_head_layout u64_def c__u64_def
      del: One_nat_def)

lemma enum_rio_write_type_layout [layout_simps]:
  "sizeof enum_rio_write_type = 4 \<and> alignof enum_rio_write_type = 4 \<and> wf_cty enum_rio_write_type"
  by (simp add: enum_rio_write_type_def base_types layout_eval
      del: One_nat_def)

lemma struct_rio_dma_data_layout [layout_simps]:
  "sizeof struct_rio_dma_data = 32 \<and> alignof struct_rio_dma_data = 8 \<and> wf_cty struct_rio_dma_data"
  by (simp add: struct_rio_dma_data_def base_types layout_eval u64_def c__u64_def u8_def c__u8_def
      enum_rio_write_type_layout
      del: One_nat_def)

lemma struct_udmabuf_layout [layout_simps]:
  "sizeof struct_udmabuf = 56 \<and> alignof struct_udmabuf = 8 \<and> wf_cty struct_udmabuf"
  by (simp add: struct_udmabuf_def base_types layout_eval
      del: One_nat_def)

lemma struct_vme_dma_resource_layout [layout_simps]:
  "sizeof struct_vme_dma_resource = 104 \<and> alignof struct_vme_dma_resource = 8 \<and> wf_cty struct_vme_dma_resource"
  by (simp add: struct_vme_dma_resource_def base_types layout_eval struct_list_head_layout struct_mutex_layout u32_def
      c__u32_def
      del: One_nat_def)

lemma struct_xsk_dma_map_layout [layout_simps]:
  "sizeof struct_xsk_dma_map = 56 \<and> alignof struct_xsk_dma_map = 8 \<and> wf_cty struct_xsk_dma_map"
  by (simp add: struct_xsk_dma_map_def base_types layout_eval refcount_t_def struct_refcount_struct_layout
      struct_list_head_layout u32_def c__u32_def
      del: One_nat_def)

end
