(* ===== verification/KernelSubPci.thy ===== *)
theory KernelSubPci
  imports KernelSubDma
begin

text \<open>
  The other types of \<^verbatim>\<open>bpf/vmlinux.h\<close> that belong to PCI, with every type they hold by value.
\<close>

section \<open>Types\<close>

definition enum_dw_pcie_core_clk :: cty where
  "enum_dw_pcie_core_clk = CEnum 4
     [(''DW_PCIE_PIPE_CLK'', 0), (''DW_PCIE_CORE_CLK'', 1), (''DW_PCIE_AUX_CLK'', 2),
      (''DW_PCIE_REF_CLK'', 3), (''DW_PCIE_NUM_CORE_CLKS'', 4)]"

definition enum_dw_pcie_core_rst :: cty where
  "enum_dw_pcie_core_rst = CEnum 4
     [(''DW_PCIE_NON_STICKY_RST'', 0), (''DW_PCIE_STICKY_RST'', 1), (''DW_PCIE_CORE_RST'', 2),
      (''DW_PCIE_PIPE_RST'', 3), (''DW_PCIE_PHY_RST'', 4), (''DW_PCIE_HOT_RST'', 5),
      (''DW_PCIE_PWR_RST'', 6), (''DW_PCIE_NUM_CORE_RSTS'', 7)]"

definition enum_dw_pcie_ltssm :: cty where
  "enum_dw_pcie_ltssm = CEnum 4
     [(''DW_PCIE_LTSSM_DETECT_QUIET'', 0), (''DW_PCIE_LTSSM_DETECT_ACT'', 1),
      (''DW_PCIE_LTSSM_POLL_ACTIVE'', 2), (''DW_PCIE_LTSSM_POLL_COMPLIANCE'', 3),
      (''DW_PCIE_LTSSM_POLL_CONFIG'', 4), (''DW_PCIE_LTSSM_PRE_DETECT_QUIET'', 5),
      (''DW_PCIE_LTSSM_DETECT_WAIT'', 6), (''DW_PCIE_LTSSM_CFG_LINKWD_START'', 7),
      (''DW_PCIE_LTSSM_CFG_LINKWD_ACEPT'', 8), (''DW_PCIE_LTSSM_CFG_LANENUM_WAI'', 9),
      (''DW_PCIE_LTSSM_CFG_LANENUM_ACEPT'', 10), (''DW_PCIE_LTSSM_CFG_COMPLETE'', 11),
      (''DW_PCIE_LTSSM_CFG_IDLE'', 12), (''DW_PCIE_LTSSM_RCVRY_LOCK'', 13),
      (''DW_PCIE_LTSSM_RCVRY_SPEED'', 14), (''DW_PCIE_LTSSM_RCVRY_RCVRCFG'', 15),
      (''DW_PCIE_LTSSM_RCVRY_IDLE'', 16), (''DW_PCIE_LTSSM_L0'', 17),
      (''DW_PCIE_LTSSM_L0S'', 18), (''DW_PCIE_LTSSM_L123_SEND_EIDLE'', 19),
      (''DW_PCIE_LTSSM_L1_IDLE'', 20), (''DW_PCIE_LTSSM_L2_IDLE'', 21),
      (''DW_PCIE_LTSSM_L2_WAKE'', 22), (''DW_PCIE_LTSSM_DISABLED_ENTRY'', 23),
      (''DW_PCIE_LTSSM_DISABLED_IDLE'', 24), (''DW_PCIE_LTSSM_DISABLED'', 25),
      (''DW_PCIE_LTSSM_LPBK_ENTRY'', 26), (''DW_PCIE_LTSSM_LPBK_ACTIVE'', 27),
      (''DW_PCIE_LTSSM_LPBK_EXIT'', 28), (''DW_PCIE_LTSSM_LPBK_EXIT_TIMEOUT'', 29),
      (''DW_PCIE_LTSSM_HOT_RESET_ENTRY'', 30), (''DW_PCIE_LTSSM_HOT_RESET'', 31),
      (''DW_PCIE_LTSSM_RCVRY_EQ0'', 32), (''DW_PCIE_LTSSM_RCVRY_EQ1'', 33),
      (''DW_PCIE_LTSSM_RCVRY_EQ2'', 34), (''DW_PCIE_LTSSM_RCVRY_EQ3'', 35),
      (''DW_PCIE_LTSSM_L1_1'', 321), (''DW_PCIE_LTSSM_L1_2'', 322),
      (''DW_PCIE_LTSSM_UNKNOWN'', 4294967295)]"

definition enum_pci_barno :: cty where
  "enum_pci_barno = CEnum 4
     [(''NO_BAR'', (- 1)), (''BAR_0'', 0), (''BAR_1'', 1), (''BAR_2'', 2), (''BAR_3'', 3),
      (''BAR_4'', 4), (''BAR_5'', 5)]"

definition enum_pci_board_num_t :: cty where
  "enum_pci_board_num_t = CEnum 4
     [(''pbn_default'', 0), (''pbn_b0_1_115200'', 1), (''pbn_b0_2_115200'', 2),
      (''pbn_b0_4_115200'', 3), (''pbn_b0_5_115200'', 4), (''pbn_b0_8_115200'', 5),
      (''pbn_b0_1_921600'', 6), (''pbn_b0_2_921600'', 7), (''pbn_b0_4_921600'', 8),
      (''pbn_b0_2_1130000'', 9), (''pbn_b0_4_1152000'', 10), (''pbn_b0_4_1250000'', 11),
      (''pbn_b0_2_1843200'', 12), (''pbn_b0_4_1843200'', 13), (''pbn_b0_1_15625000'', 14),
      (''pbn_b0_bt_1_115200'', 15), (''pbn_b0_bt_2_115200'', 16), (''pbn_b0_bt_4_115200'', 17),
      (''pbn_b0_bt_8_115200'', 18), (''pbn_b0_bt_1_460800'', 19), (''pbn_b0_bt_2_460800'', 20),
      (''pbn_b0_bt_4_460800'', 21), (''pbn_b0_bt_1_921600'', 22), (''pbn_b0_bt_2_921600'', 23),
      (''pbn_b0_bt_4_921600'', 24), (''pbn_b0_bt_8_921600'', 25), (''pbn_b1_1_115200'', 26),
      (''pbn_b1_2_115200'', 27), (''pbn_b1_4_115200'', 28), (''pbn_b1_8_115200'', 29),
      (''pbn_b1_16_115200'', 30), (''pbn_b1_1_921600'', 31), (''pbn_b1_2_921600'', 32),
      (''pbn_b1_4_921600'', 33), (''pbn_b1_8_921600'', 34), (''pbn_b1_2_1250000'', 35),
      (''pbn_b1_bt_1_115200'', 36), (''pbn_b1_bt_2_115200'', 37), (''pbn_b1_bt_4_115200'', 38),
      (''pbn_b1_bt_2_921600'', 39), (''pbn_b1_1_1382400'', 40), (''pbn_b1_2_1382400'', 41),
      (''pbn_b1_4_1382400'', 42), (''pbn_b1_8_1382400'', 43), (''pbn_b2_1_115200'', 44),
      (''pbn_b2_2_115200'', 45), (''pbn_b2_4_115200'', 46), (''pbn_b2_8_115200'', 47),
      (''pbn_b2_1_460800'', 48), (''pbn_b2_4_460800'', 49), (''pbn_b2_8_460800'', 50),
      (''pbn_b2_16_460800'', 51), (''pbn_b2_1_921600'', 52), (''pbn_b2_4_921600'', 53),
      (''pbn_b2_8_921600'', 54), (''pbn_b2_8_1152000'', 55), (''pbn_b2_bt_1_115200'', 56),
      (''pbn_b2_bt_2_115200'', 57), (''pbn_b2_bt_4_115200'', 58), (''pbn_b2_bt_2_921600'', 59),
      (''pbn_b2_bt_4_921600'', 60), (''pbn_b3_2_115200'', 61), (''pbn_b3_4_115200'', 62),
      (''pbn_b3_8_115200'', 63), (''pbn_b4_bt_2_921600'', 64), (''pbn_b4_bt_4_921600'', 65),
      (''pbn_b4_bt_8_921600'', 66), (''pbn_panacom'', 67), (''pbn_panacom2'', 68),
      (''pbn_panacom4'', 69), (''pbn_plx_romulus'', 70), (''pbn_oxsemi'', 71),
      (''pbn_oxsemi_1_15625000'', 72), (''pbn_oxsemi_2_15625000'', 73),
      (''pbn_oxsemi_4_15625000'', 74), (''pbn_oxsemi_8_15625000'', 75),
      (''pbn_intel_i960'', 76), (''pbn_sgi_ioc3'', 77), (''pbn_computone_4'', 78),
      (''pbn_computone_6'', 79), (''pbn_computone_8'', 80), (''pbn_sbsxrsio'', 81),
      (''pbn_pasemi_1682M'', 82), (''pbn_ni8430_2'', 83), (''pbn_ni8430_4'', 84),
      (''pbn_ni8430_8'', 85), (''pbn_ni8430_16'', 86), (''pbn_ADDIDATA_PCIe_1_3906250'', 87),
      (''pbn_ADDIDATA_PCIe_2_3906250'', 88), (''pbn_ADDIDATA_PCIe_4_3906250'', 89),
      (''pbn_ADDIDATA_PCIe_8_3906250'', 90), (''pbn_ce4100_1_115200'', 91),
      (''pbn_omegapci'', 92), (''pbn_NETMOS9900_2s_115200'', 93), (''pbn_brcm_trumanage'', 94),
      (''pbn_fintek_4'', 95), (''pbn_fintek_8'', 96), (''pbn_fintek_12'', 97),
      (''pbn_fintek_F81504A'', 98), (''pbn_fintek_F81508A'', 99), (''pbn_fintek_F81512A'', 100),
      (''pbn_wch382_2'', 101), (''pbn_wch384_4'', 102), (''pbn_wch384_8'', 103),
      (''pbn_sunix_pci_1s'', 104), (''pbn_sunix_pci_2s'', 105), (''pbn_sunix_pci_4s'', 106),
      (''pbn_sunix_pci_8s'', 107), (''pbn_sunix_pci_16s'', 108), (''pbn_titan_1_4000000'', 109),
      (''pbn_titan_2_4000000'', 110), (''pbn_titan_4_4000000'', 111),
      (''pbn_titan_8_4000000'', 112), (''pbn_moxa_2'', 113), (''pbn_moxa_4'', 114),
      (''pbn_moxa_8'', 115)]"

definition enum_pci_bus_speed :: cty where
  "enum_pci_bus_speed = CEnum 4
     [(''PCI_SPEED_33MHz'', 0), (''PCI_SPEED_66MHz'', 1), (''PCI_SPEED_66MHz_PCIX'', 2),
      (''PCI_SPEED_100MHz_PCIX'', 3), (''PCI_SPEED_133MHz_PCIX'', 4),
      (''PCI_SPEED_66MHz_PCIX_ECC'', 5), (''PCI_SPEED_100MHz_PCIX_ECC'', 6),
      (''PCI_SPEED_133MHz_PCIX_ECC'', 7), (''PCI_SPEED_66MHz_PCIX_266'', 9),
      (''PCI_SPEED_100MHz_PCIX_266'', 10), (''PCI_SPEED_133MHz_PCIX_266'', 11),
      (''AGP_UNKNOWN'', 12), (''AGP_1X'', 13), (''AGP_2X'', 14), (''AGP_4X'', 15),
      (''AGP_8X'', 16), (''PCI_SPEED_66MHz_PCIX_533'', 17), (''PCI_SPEED_100MHz_PCIX_533'', 18),
      (''PCI_SPEED_133MHz_PCIX_533'', 19), (''PCIE_SPEED_2_5GT'', 20),
      (''PCIE_SPEED_5_0GT'', 21), (''PCIE_SPEED_8_0GT'', 22), (''PCIE_SPEED_16_0GT'', 23),
      (''PCIE_SPEED_32_0GT'', 24), (''PCIE_SPEED_64_0GT'', 25), (''PCI_SPEED_UNKNOWN'', 255)]"

definition enum_pci_dev_flags :: cty where
  "enum_pci_dev_flags = CEnum 4
     [(''PCI_DEV_FLAGS_MSI_INTX_DISABLE_BUG'', 1), (''PCI_DEV_FLAGS_NO_D3'', 2),
      (''PCI_DEV_FLAGS_ASSIGNED'', 4), (''PCI_DEV_FLAGS_ACS_ENABLED_QUIRK'', 8),
      (''PCI_DEV_FLAG_PCIE_BRIDGE_ALIAS'', 32), (''PCI_DEV_FLAGS_NO_BUS_RESET'', 64),
      (''PCI_DEV_FLAGS_NO_PM_RESET'', 128), (''PCI_DEV_FLAGS_VPD_REF_F0'', 256),
      (''PCI_DEV_FLAGS_BRIDGE_XLATE_ROOT'', 512), (''PCI_DEV_FLAGS_NO_FLR_RESET'', 1024),
      (''PCI_DEV_FLAGS_NO_RELAXED_ORDERING'', 2048), (''PCI_DEV_FLAGS_HAS_MSI_MASKING'', 4096),
      (''PCI_DEV_FLAGS_MSIX_TOUCH_ENTRY_DATA_FIRST'', 8192),
      (''PCI_DEV_FLAGS_PCI_BRIDGE_NO_ALIAS'', 16384)]"

definition enum_pci_ers_result :: cty where
  "enum_pci_ers_result = CEnum 4
     [(''PCI_ERS_RESULT_NONE'', 1), (''PCI_ERS_RESULT_CAN_RECOVER'', 2),
      (''PCI_ERS_RESULT_NEED_RESET'', 3), (''PCI_ERS_RESULT_DISCONNECT'', 4),
      (''PCI_ERS_RESULT_RECOVERED'', 5), (''PCI_ERS_RESULT_NO_AER_DRIVER'', 6)]"

definition enum_pci_fixup_pass :: cty where
  "enum_pci_fixup_pass = CEnum 4
     [(''pci_fixup_early'', 0), (''pci_fixup_header'', 1), (''pci_fixup_final'', 2),
      (''pci_fixup_enable'', 3), (''pci_fixup_resume'', 4), (''pci_fixup_suspend'', 5),
      (''pci_fixup_resume_early'', 6), (''pci_fixup_suspend_late'', 7)]"

definition enum_pci_interrupt_pin :: cty where
  "enum_pci_interrupt_pin = CEnum 4
     [(''PCI_INTERRUPT_UNKNOWN'', 0), (''PCI_INTERRUPT_INTA'', 1), (''PCI_INTERRUPT_INTB'', 2),
      (''PCI_INTERRUPT_INTC'', 3), (''PCI_INTERRUPT_INTD'', 4)]"

definition enum_pcie_bus_config_types :: cty where
  "enum_pcie_bus_config_types = CEnum 4
     [(''PCIE_BUS_TUNE_OFF'', 0), (''PCIE_BUS_DEFAULT'', 1), (''PCIE_BUS_SAFE'', 2),
      (''PCIE_BUS_PERFORMANCE'', 3), (''PCIE_BUS_PEER2PEER'', 4)]"

definition enum_pcie_link_change_reason :: cty where
  "enum_pcie_link_change_reason = CEnum 4
     [(''PCIE_LINK_RETRAIN'', 0), (''PCIE_ADD_BUS'', 1), (''PCIE_BWCTRL_ENABLE'', 2),
      (''PCIE_BWCTRL_IRQ'', 3), (''PCIE_HOTPLUG'', 4)]"

definition enum_pcie_link_width :: cty where
  "enum_pcie_link_width = CEnum 4
     [(''PCIE_LNK_WIDTH_RESRV'', 0), (''PCIE_LNK_X1'', 1), (''PCIE_LNK_X2'', 2),
      (''PCIE_LNK_X4'', 4), (''PCIE_LNK_X8'', 8), (''PCIE_LNK_X12'', 12),
      (''PCIE_LNK_X16'', 16), (''PCIE_LNK_X32'', 32), (''PCIE_LNK_WIDTH_UNKNOWN'', 255)]"

definition acpi_handle :: cty where [layout_simps]:
  "acpi_handle = CPtr ''void''"

definition struct_acpi_pci_ioapic :: cty where
  "struct_acpi_pci_ioapic = CStruct ''acpi_pci_ioapic'' False
     [Field ''root_handle'' acpi_handle,
      Field ''handle'' acpi_handle,
      Field ''gsi_base'' u32,
      Field ''res'' struct_resource,
      Field ''pdev'' (CPtr ''struct pci_dev''),
      Field ''list'' struct_list_head]"

definition struct_acpi_pci_link_irq :: cty where
  "struct_acpi_pci_link_irq = CStruct ''acpi_pci_link_irq'' False
     [Field ''active'' u32,
      Field ''triggering'' u8,
      Field ''polarity'' u8,
      Field ''resource_type'' u8,
      Field ''possible_count'' u8,
      Field ''possible'' (CArr 16 u32),
      BitField ''initialized'' u8 1,
      BitField ''reserved'' u8 7]"

definition struct_acpi_pci_root :: cty where
  "struct_acpi_pci_root = CStruct ''acpi_pci_root'' False
     [Field ''device'' (CPtr ''struct acpi_device''),
      Field ''bus'' (CPtr ''struct pci_bus''),
      Field ''segment'' u16,
      Field ''bridge_type'' c_int,
      Field ''secondary'' struct_resource,
      Field ''osc_support_set'' u32,
      Field ''osc_control_set'' u32,
      Field ''osc_ext_support_set'' u32,
      Field ''osc_ext_control_set'' u32,
      Field ''mcfg_addr'' phys_addr_t]"

definition struct_acpi_pci_root_info :: cty where
  "struct_acpi_pci_root_info = CStruct ''acpi_pci_root_info'' False
     [Field ''root'' (CPtr ''struct acpi_pci_root''),
      Field ''bridge'' (CPtr ''struct acpi_device''),
      Field ''ops'' (CPtr ''struct acpi_pci_root_ops''),
      Field ''resources'' struct_list_head,
      Field ''name'' (CArr 16 c_char)]"

definition struct_acpi_pci_routing_table :: cty where
  "struct_acpi_pci_routing_table = CStruct ''acpi_pci_routing_table'' False
     [Field ''length'' u32,
      Field ''pin'' u32,
      Field ''address'' u64,
      Field ''source_index'' u32,
      Field [] (CUnion [] False
        [Field ''pad'' (CArr 4 c_char),
         Field [] (CStruct [] False
           [Field ''__Empty_source'' (CStruct [] False
              []),
            Field ''source'' (CArr 0 c_char)])])]"

definition struct_acpi_viot_header :: cty where
  "struct_acpi_viot_header = CStruct ''acpi_viot_header'' False
     [Field ''type'' u8,
      Field ''reserved'' u8,
      Field ''length'' u16]"

definition struct_acpi_viot_pci_range :: cty where
  "struct_acpi_viot_pci_range = CStruct ''acpi_viot_pci_range'' False
     [Field ''header'' struct_acpi_viot_header,
      Field ''endpoint_start'' u32,
      Field ''segment_start'' u16,
      Field ''segment_end'' u16,
      Field ''bdf_start'' u16,
      Field ''bdf_end'' u16,
      Field ''output_node'' u16,
      Field ''reserved'' (CArr 6 u8)]"

definition struct_pcie_tlp_log :: cty where
  "struct_pcie_tlp_log = CStruct ''pcie_tlp_log'' False
     [Field [] (CUnion [] False
        [Field ''dw'' (CArr 14 u32),
         Field [] (CStruct [] False
           [Field ''_do_not_use'' (CArr 4 u32),
            Field ''prefix'' (CArr 4 u32)])]),
      Field ''header_len'' u8,
      Field ''flit'' bool]"

definition struct_amd_iommu_pci_seg :: cty where
  "struct_amd_iommu_pci_seg = CStruct ''amd_iommu_pci_seg'' False
     [Field ''list'' struct_list_head,
      Field ''dev_data_list'' struct_llist_head,
      Field ''id'' u16,
      Field ''last_bdf'' u16,
      Field ''dev_table_size'' u32,
      Field ''dev_table'' (CPtr ''struct dev_table_entry''),
      Field ''rlookup_table'' (CPtr ''struct amd_iommu *''),
      Field ''irq_lookup_table'' (CPtr ''struct irq_remap_table *''),
      Field ''old_dev_tbl_cpy'' (CPtr ''struct dev_table_entry''),
      Field ''alias_table'' (CPtr ''u16''),
      Field ''unity_map'' struct_list_head]"

definition struct_cpci_hp_controller :: cty where
  "struct_cpci_hp_controller = CStruct ''cpci_hp_controller'' False
     [Field ''irq'' unsigned_int,
      Field ''irq_flags'' long_unsigned_int,
      Field ''devname'' (CPtr ''char''),
      Field ''dev_id'' (CPtr ''void''),
      Field ''name'' (CPtr ''char''),
      Field ''ops'' (CPtr ''struct cpci_hp_controller_ops'')]"

definition struct_cper_sec_pcie :: cty where
  "struct_cper_sec_pcie = CStruct ''cper_sec_pcie'' False
     [Field ''validation_bits'' u64,
      Field ''port_type'' u32,
      Field ''version'' (CStruct [] False
        [Field ''minor'' u8,
         Field ''major'' u8,
         Field ''reserved'' (CArr 2 u8)]),
      Field ''command'' u16,
      Field ''status'' u16,
      Field ''reserved'' u32,
      Field ''device_id'' (CStruct [] True
        [Field ''vendor_id'' u16,
         Field ''device_id'' u16,
         Field ''class_code'' (CArr 3 u8),
         Field ''function'' u8,
         Field ''device'' u8,
         Field ''segment'' u16,
         Field ''bus'' u8,
         Field ''secondary_bus'' u8,
         Field ''slot'' u16,
         Field ''reserved'' u8]),
      Field ''serial_number'' (CStruct [] False
        [Field ''lower'' u32,
         Field ''upper'' u32]),
      Field ''bridge'' (CStruct [] False
        [Field ''secondary_status'' u16,
         Field ''control'' u16]),
      Field ''capability'' (CArr 60 u8),
      Field ''aer_info'' (CArr 96 u8)]"

definition struct_pci_eq_presets :: cty where
  "struct_pci_eq_presets = CStruct ''pci_eq_presets'' False
     [Field ''eq_presets_8gts'' (CArr 16 u16),
      Field ''eq_presets_Ngts'' (CArr 48 u8)]"

definition struct_dw_pcie_rp :: cty where
  "struct_dw_pcie_rp = CStruct ''dw_pcie_rp'' False
     [BitField ''use_imsi_rx'' bool 1,
      BitField ''keep_rp_msi_en'' bool 1,
      BitField ''cfg0_io_shared'' bool 1,
      Field ''cfg0_base'' u64,
      Field ''va_cfg0_base'' (CPtr ''void''),
      Field ''cfg0_size'' u32,
      Field ''io_base'' resource_size_t,
      Field ''io_bus_addr'' phys_addr_t,
      Field ''io_size'' u32,
      Field ''irq'' c_int,
      Field ''ops'' (CPtr ''const struct dw_pcie_host_ops''),
      Field ''msi_irq'' (CArr 8 c_int),
      Field ''irq_domain'' (CPtr ''struct irq_domain''),
      Field ''msi_data'' dma_addr_t,
      Field ''msi_irq_chip'' (CPtr ''struct irq_chip''),
      Field ''num_vectors'' u32,
      Field ''irq_mask'' (CArr 8 u32),
      Field ''bridge'' (CPtr ''struct pci_host_bridge''),
      Field ''lock'' raw_spinlock_t,
      Field ''msi_irq_in_use'' (CArr 4 long_unsigned_int),
      Field ''use_atu_msg'' bool,
      Field ''msg_atu_index'' c_int,
      Field ''msg_res'' (CPtr ''struct resource''),
      Field ''presets'' struct_pci_eq_presets,
      Field ''cfg'' (CPtr ''struct pci_config_window''),
      Field ''ecam_enabled'' bool,
      Field ''native_ecam'' bool,
      Field ''skip_l23_ready'' bool]"

definition struct_dw_pcie_ep :: cty where
  "struct_dw_pcie_ep = CStruct ''dw_pcie_ep'' False
     [Field ''epc'' (CPtr ''struct pci_epc''),
      Field ''func_list'' struct_list_head,
      Field ''ops'' (CPtr ''const struct dw_pcie_ep_ops''),
      Field ''phys_base'' phys_addr_t,
      Field ''addr_size'' size_t,
      Field ''page_size'' size_t,
      Field ''outbound_addr'' (CPtr ''phys_addr_t''),
      Field ''ib_window_map'' (CPtr ''long unsigned int''),
      Field ''ob_window_map'' (CPtr ''long unsigned int''),
      Field ''msi_mem'' (CPtr ''void''),
      Field ''msi_mem_phys'' phys_addr_t,
      Field ''msi_iatu_mapped'' bool,
      Field ''msi_msg_addr'' u64,
      Field ''msi_map_size'' size_t]"

definition struct_clk_bulk_data :: cty where
  "struct_clk_bulk_data = CStruct ''clk_bulk_data'' False
     [Field ''id'' (CPtr ''const char''),
      Field ''clk'' (CPtr ''struct clk'')]"

definition struct_reset_control_bulk_data :: cty where
  "struct_reset_control_bulk_data = CStruct ''reset_control_bulk_data'' False
     [Field ''id'' (CPtr ''const char''),
      Field ''rstc'' (CPtr ''struct reset_control'')]"

definition enum_dw_pcie_device_mode :: cty where
  "enum_dw_pcie_device_mode = CEnum 4
     [(''DW_PCIE_UNKNOWN_TYPE'', 0), (''DW_PCIE_EP_TYPE'', 1), (''DW_PCIE_LEG_EP_TYPE'', 2),
      (''DW_PCIE_RC_TYPE'', 3)]"

definition struct_dw_pcie :: cty where
  "struct_dw_pcie = CStruct ''dw_pcie'' False
     [Field ''dev'' (CPtr ''struct device''),
      Field ''dbi_base'' (CPtr ''void''),
      Field ''dbi_phys_addr'' resource_size_t,
      Field ''dbi_base2'' (CPtr ''void''),
      Field ''atu_base'' (CPtr ''void''),
      Field ''elbi_base'' (CPtr ''void''),
      Field ''atu_phys_addr'' resource_size_t,
      Field ''atu_size'' size_t,
      Field ''parent_bus_offset'' resource_size_t,
      Field ''num_ib_windows'' u32,
      Field ''num_ob_windows'' u32,
      Field ''region_align'' u32,
      Field ''region_limit'' u64,
      Field ''pp'' struct_dw_pcie_rp,
      Field ''ep'' struct_dw_pcie_ep,
      Field ''ops'' (CPtr ''const struct dw_pcie_ops''),
      Field ''version'' u32,
      Field ''type'' u32,
      Field ''caps'' long_unsigned_int,
      Field ''num_lanes'' c_int,
      Field ''max_link_speed'' c_int,
      Field ''n_fts'' (CArr 2 u8),
      Field ''edma'' struct_dw_edma_chip,
      Field ''l1ss_support'' bool,
      Field ''app_clks'' (CArr 3 struct_clk_bulk_data),
      Field ''core_clks'' (CArr 4 struct_clk_bulk_data),
      Field ''app_rsts'' (CArr 3 struct_reset_control_bulk_data),
      Field ''core_rsts'' (CArr 7 struct_reset_control_bulk_data),
      Field ''pe_rst'' (CPtr ''struct gpio_desc''),
      Field ''suspended'' bool,
      Field ''debugfs'' (CPtr ''struct debugfs_info''),
      Field ''mode'' enum_dw_pcie_device_mode,
      Field ''ptm_vsec_offset'' u16,
      Field ''ptm_debugfs'' (CPtr ''struct pci_ptm_debugfs''),
      Field ''use_parent_dt_ranges'' bool]"

definition struct_dw_pcie_ep_func :: cty where
  "struct_dw_pcie_ep_func = CStruct ''dw_pcie_ep_func'' False
     [Field ''list'' struct_list_head,
      Field ''func_no'' u8,
      Field ''msi_cap'' u8,
      Field ''msix_cap'' u8,
      Field ''bar_to_atu'' (CArr 6 u8),
      Field ''epf_bar'' (CArr 6 (CPtr ''struct pci_epf_bar'')),
      Field ''ib_atu_indexes'' (CArr 6 (CPtr ''u32'')),
      Field ''num_ib_atu_indexes'' (CArr 6 unsigned_int)]"

definition struct_dw_pcie_ep_ops :: cty where
  "struct_dw_pcie_ep_ops = CStruct ''dw_pcie_ep_ops'' False
     [Field ''pre_init'' (CPtr ''void (struct dw_pcie_ep *)''),
      Field ''init'' (CPtr ''void (struct dw_pcie_ep *)''),
      Field ''raise_irq'' (CPtr ''int (struct dw_pcie_ep *, u8, unsigned int, u16)''),
      Field ''get_features'' (CPtr ''const struct pci_epc_features * (struct dw_pcie_ep *)''),
      Field ''get_dbi_offset'' (CPtr ''unsigned int (struct dw_pcie_ep *, u8)''),
      Field ''get_dbi2_offset'' (CPtr ''unsigned int (struct dw_pcie_ep *, u8)'')]"

definition struct_dw_pcie_host_ops :: cty where
  "struct_dw_pcie_host_ops = CStruct ''dw_pcie_host_ops'' False
     [Field ''init'' (CPtr ''int (struct dw_pcie_rp *)''),
      Field ''deinit'' (CPtr ''void (struct dw_pcie_rp *)''),
      Field ''post_init'' (CPtr ''void (struct dw_pcie_rp *)''),
      Field ''msi_init'' (CPtr ''int (struct dw_pcie_rp *)''),
      Field ''pme_turn_off'' (CPtr ''void (struct dw_pcie_rp *)'')]"

definition struct_dw_pcie_ob_atu_cfg :: cty where
  "struct_dw_pcie_ob_atu_cfg = CStruct ''dw_pcie_ob_atu_cfg'' False
     [Field ''index'' c_int,
      Field ''type'' c_int,
      Field ''func_no'' u8,
      Field ''code'' u8,
      Field ''routing'' u8,
      Field ''ctrl2'' u32,
      Field ''parent_bus_addr'' u64,
      Field ''pci_addr'' u64,
      Field ''size'' u64]"

definition struct_dw_pcie_ops :: cty where
  "struct_dw_pcie_ops = CStruct ''dw_pcie_ops'' False
     [Field ''cpu_addr_fixup'' (CPtr ''u64 (struct dw_pcie *, u64)''),
      Field ''read_dbi'' (CPtr ''u32 (struct dw_pcie *, void *, u32, size_t)''),
      Field ''write_dbi'' (CPtr ''void (struct dw_pcie *, void *, u32, size_t, u32)''),
      Field ''write_dbi2'' (CPtr ''void (struct dw_pcie *, void *, u32, size_t, u32)''),
      Field ''link_up'' (CPtr ''bool (struct dw_pcie *)''),
      Field ''get_ltssm'' (CPtr ''enum dw_pcie_ltssm (struct dw_pcie *)''),
      Field ''start_link'' (CPtr ''int (struct dw_pcie *)''),
      Field ''stop_link'' (CPtr ''void (struct dw_pcie *)'')]"

definition struct_edac_pci_counter :: cty where
  "struct_edac_pci_counter = CStruct ''edac_pci_counter'' False
     [Field ''pe_count'' atomic_t,
      Field ''npe_count'' atomic_t]"

definition struct_edac_pci_ctl_info :: cty where
  "struct_edac_pci_ctl_info = CStruct ''edac_pci_ctl_info'' False
     [Field ''link'' struct_list_head,
      Field ''pci_idx'' c_int,
      Field ''op_state'' c_int,
      Field ''work'' struct_delayed_work,
      Field ''edac_check'' (CPtr ''void (struct edac_pci_ctl_info *)''),
      Field ''dev'' (CPtr ''struct device''),
      Field ''mod_name'' (CPtr ''const char''),
      Field ''ctl_name'' (CPtr ''const char''),
      Field ''dev_name'' (CPtr ''const char''),
      Field ''pvt_info'' (CPtr ''void''),
      Field ''start_time'' long_unsigned_int,
      Field ''name'' (CArr 32 c_char),
      Field ''counters'' struct_edac_pci_counter,
      Field ''kobj'' struct_kobject]"

definition union_hv_pci_bdf :: cty where
  "union_hv_pci_bdf = CUnion ''hv_pci_bdf'' False
     [Field ''as_uint16'' u16,
      Field [] (CStruct [] False
        [BitField ''function'' u8 3,
         BitField ''device'' u8 5,
         Field ''bus'' u8])]"

definition union_hv_pci_bus_range :: cty where
  "union_hv_pci_bus_range = CUnion ''hv_pci_bus_range'' False
     [Field ''as_uint16'' u16,
      Field [] (CStruct [] False
        [Field ''subordinate_bus'' u8,
         Field ''secondary_bus'' u8])]"

definition struct_of_pci_range :: cty where
  "struct_of_pci_range = CStruct ''of_pci_range'' False
     [Field [] (CUnion [] False
        [Field ''pci_addr'' u64,
         Field ''bus_addr'' u64]),
      Field ''cpu_addr'' u64,
      Field ''parent_bus_addr'' u64,
      Field ''size'' u64,
      Field ''flags'' u32]"

definition struct_of_pci_range_parser :: cty where
  "struct_of_pci_range_parser = CStruct ''of_pci_range_parser'' False
     [Field ''node'' (CPtr ''struct device_node''),
      Field ''bus'' (CPtr ''const struct of_bus''),
      Field ''range'' (CPtr ''const __be32''),
      Field ''end'' (CPtr ''const __be32''),
      Field ''na'' c_int,
      Field ''ns'' c_int,
      Field ''pna'' c_int,
      Field ''dma'' bool]"

definition struct_pci_config_window :: cty where
  "struct_pci_config_window = CStruct ''pci_config_window'' False
     [Field ''res'' struct_resource,
      Field ''busr'' struct_resource,
      Field ''bus_shift'' unsigned_int,
      Field ''priv'' (CPtr ''void''),
      Field ''ops'' (CPtr ''const struct pci_ecam_ops''),
      Field [] (CUnion [] False
        [Field ''win'' (CPtr ''void''),
         Field ''winp'' (CPtr ''void *'')]),
      Field ''parent'' (CPtr ''struct device'')]"

definition struct_pci_dev_resource :: cty where
  "struct_pci_dev_resource = CStruct ''pci_dev_resource'' False
     [Field ''list'' struct_list_head,
      Field ''res'' (CPtr ''struct resource''),
      Field ''dev'' (CPtr ''struct pci_dev''),
      Field ''start'' resource_size_t,
      Field ''end'' resource_size_t,
      Field ''add_size'' resource_size_t,
      Field ''min_align'' resource_size_t,
      Field ''flags'' long_unsigned_int]"

definition struct_pci_doe_mb :: cty where
  "struct_pci_doe_mb = CStruct ''pci_doe_mb'' False
     [Field ''pdev'' (CPtr ''struct pci_dev''),
      Field ''cap_offset'' u16,
      Field ''feats'' struct_xarray,
      Field ''wq'' wait_queue_head_t,
      Field ''work_queue'' (CPtr ''struct workqueue_struct''),
      Field ''flags'' long_unsigned_int,
      Field ''sysfs_attrs'' (CPtr ''struct device_attribute'')]"

definition struct_pci_doe_feature :: cty where
  "struct_pci_doe_feature = CStruct ''pci_doe_feature'' False
     [Field ''vid'' u16,
      Field ''type'' u8]"

definition struct_pci_doe_task :: cty where
  "struct_pci_doe_task = CStruct ''pci_doe_task'' False
     [Field ''feat'' struct_pci_doe_feature,
      Field ''request_pl'' (CPtr ''const __le32''),
      Field ''request_pl_sz'' size_t,
      Field ''response_pl'' (CPtr ''__le32''),
      Field ''response_pl_sz'' size_t,
      Field ''rv'' c_int,
      Field ''complete'' (CPtr ''void (struct pci_doe_task *)''),
      Field ''private'' (CPtr ''void''),
      Field ''work'' struct_work_struct,
      Field ''doe_mb'' (CPtr ''struct pci_doe_mb'')]"

definition struct_pci_ecam_ops :: cty where
  "struct_pci_ecam_ops = CStruct ''pci_ecam_ops'' False
     [Field ''bus_shift'' unsigned_int,
      Field ''pci_ops'' struct_pci_ops,
      Field ''init'' (CPtr ''int (struct pci_config_window *)''),
      Field ''enable_device'' (CPtr ''int (struct pci_host_bridge *, struct pci_dev *)''),
      Field ''disable_device'' (CPtr ''void (struct pci_host_bridge *, struct pci_dev *)'')]"

definition struct_pci_epc :: cty where
  "struct_pci_epc = CStruct ''pci_epc'' False
     [Field ''dev'' struct_device,
      Field ''pci_epf'' struct_list_head,
      Field ''list_lock'' struct_mutex,
      Field ''ops'' (CPtr ''const struct pci_epc_ops''),
      Field ''windows'' (CPtr ''struct pci_epc_mem *''),
      Field ''mem'' (CPtr ''struct pci_epc_mem''),
      Field ''num_windows'' unsigned_int,
      Field ''max_functions'' u8,
      Field ''max_vfs'' (CPtr ''u8''),
      Field ''group'' (CPtr ''struct config_group''),
      Field ''lock'' struct_mutex,
      Field ''function_num_map'' long_unsigned_int,
      Field ''domain_nr'' c_int,
      Field ''init_complete'' bool]"

definition struct_pci_epc_event_ops :: cty where
  "struct_pci_epc_event_ops = CStruct ''pci_epc_event_ops'' False
     [Field ''epc_init'' (CPtr ''int (struct pci_epf *)''),
      Field ''epc_deinit'' (CPtr ''void (struct pci_epf *)''),
      Field ''link_up'' (CPtr ''int (struct pci_epf *)''),
      Field ''link_down'' (CPtr ''int (struct pci_epf *)''),
      Field ''bus_master_enable'' (CPtr ''int (struct pci_epf *)'')]"

definition enum_pci_epc_bar_type :: cty where
  "enum_pci_epc_bar_type = CEnum 4
     [(''BAR_PROGRAMMABLE'', 0), (''BAR_FIXED'', 1), (''BAR_RESIZABLE'', 2),
      (''BAR_RESERVED'', 3)]"

definition struct_pci_epc_bar_desc :: cty where
  "struct_pci_epc_bar_desc = CStruct ''pci_epc_bar_desc'' False
     [Field ''type'' enum_pci_epc_bar_type,
      Field ''fixed_size'' u64,
      Field ''only_64bit'' bool]"

definition struct_pci_epc_features :: cty where
  "struct_pci_epc_features = CStruct ''pci_epc_features'' False
     [BitField ''linkup_notifier'' unsigned_int 1,
      BitField ''dynamic_inbound_mapping'' unsigned_int 1,
      BitField ''subrange_mapping'' unsigned_int 1,
      BitField ''msi_capable'' unsigned_int 1,
      BitField ''msix_capable'' unsigned_int 1,
      BitField ''intx_capable'' unsigned_int 1,
      Field ''bar'' (CArr 6 struct_pci_epc_bar_desc),
      Field ''align'' size_t]"

definition struct_pci_epc_map :: cty where
  "struct_pci_epc_map = CStruct ''pci_epc_map'' False
     [Field ''pci_addr'' u64,
      Field ''pci_size'' size_t,
      Field ''map_pci_addr'' u64,
      Field ''map_size'' size_t,
      Field ''phys_base'' phys_addr_t,
      Field ''phys_addr'' phys_addr_t,
      Field ''virt_base'' (CPtr ''void''),
      Field ''virt_addr'' (CPtr ''void'')]"

definition struct_pci_epc_ops :: cty where
  "struct_pci_epc_ops = CStruct ''pci_epc_ops'' False
     [Field ''write_header'' (CPtr ''int (struct pci_epc *, u8, u8, struct pci_epf_header *)''),
      Field ''set_bar'' (CPtr ''int (struct pci_epc *, u8, u8, struct pci_epf_bar *)''),
      Field ''clear_bar'' (CPtr ''void (struct pci_epc *, u8, u8, struct pci_epf_bar *)''),
      Field ''align_addr'' (CPtr ''u64 (struct pci_epc *, u64, size_t *, size_t *)''),
      Field ''map_addr'' (CPtr ''int (struct pci_epc *, u8, u8, phys_addr_t, u64, size_t)''),
      Field ''unmap_addr'' (CPtr ''void (struct pci_epc *, u8, u8, phys_addr_t)''),
      Field ''set_msi'' (CPtr ''int (struct pci_epc *, u8, u8, u8)''),
      Field ''get_msi'' (CPtr ''int (struct pci_epc *, u8, u8)''),
      Field ''set_msix'' (CPtr ''int (struct pci_epc *, u8, u8, u16, enum pci_barno, u32)''),
      Field ''get_msix'' (CPtr ''int (struct pci_epc *, u8, u8)''),
      Field ''raise_irq'' (CPtr ''int (struct pci_epc *, u8, u8, unsigned int, u16)''),
      Field ''map_msi_irq'' (CPtr ''int (struct pci_epc *, u8, u8, phys_addr_t, u8, u32, u32 *, u32 *)''),
      Field ''start'' (CPtr ''int (struct pci_epc *)''),
      Field ''stop'' (CPtr ''void (struct pci_epc *)''),
      Field ''get_features'' (CPtr ''const struct pci_epc_features * (struct pci_epc *, u8, u8)''),
      Field ''owner'' (CPtr ''struct module'')]"

definition struct_pci_epf_bar :: cty where
  "struct_pci_epf_bar = CStruct ''pci_epf_bar'' False
     [Field ''phys_addr'' dma_addr_t,
      Field ''addr'' (CPtr ''void''),
      Field ''size'' size_t,
      Field ''mem_size'' size_t,
      Field ''barno'' enum_pci_barno,
      Field ''flags'' c_int,
      Field ''num_submap'' unsigned_int,
      Field ''submap'' (CPtr ''struct pci_epf_bar_submap'')]"

definition struct_pci_epf :: cty where
  "struct_pci_epf = CStruct ''pci_epf'' False
     [Field ''dev'' struct_device,
      Field ''name'' (CPtr ''const char''),
      Field ''header'' (CPtr ''struct pci_epf_header''),
      Field ''bar'' (CArr 6 struct_pci_epf_bar),
      Field ''msi_interrupts'' u8,
      Field ''msix_interrupts'' u16,
      Field ''func_no'' u8,
      Field ''vfunc_no'' u8,
      Field ''epc'' (CPtr ''struct pci_epc''),
      Field ''epf_pf'' (CPtr ''struct pci_epf''),
      Field ''driver'' (CPtr ''struct pci_epf_driver''),
      Field ''id'' (CPtr ''const struct pci_epf_device_id''),
      Field ''list'' struct_list_head,
      Field ''lock'' struct_mutex,
      Field ''sec_epc'' (CPtr ''struct pci_epc''),
      Field ''sec_epc_list'' struct_list_head,
      Field ''sec_epc_bar'' (CArr 6 struct_pci_epf_bar),
      Field ''sec_epc_func_no'' u8,
      Field ''group'' (CPtr ''struct config_group''),
      Field ''is_bound'' unsigned_int,
      Field ''is_vf'' unsigned_int,
      Field ''vfunction_num_map'' long_unsigned_int,
      Field ''pci_vepf'' struct_list_head,
      Field ''event_ops'' (CPtr ''const struct pci_epc_event_ops''),
      Field ''db_msg'' (CPtr ''struct pci_epf_doorbell_msg''),
      Field ''num_db'' u16]"

definition struct_pci_epf_driver :: cty where
  "struct_pci_epf_driver = CStruct ''pci_epf_driver'' False
     [Field ''probe'' (CPtr ''int (struct pci_epf *, const struct pci_epf_device_id *)''),
      Field ''remove'' (CPtr ''void (struct pci_epf *)''),
      Field ''driver'' struct_device_driver,
      Field ''ops'' (CPtr ''const struct pci_epf_ops''),
      Field ''owner'' (CPtr ''struct module''),
      Field ''epf_group'' struct_list_head,
      Field ''id_table'' (CPtr ''const struct pci_epf_device_id'')]"

definition struct_config_item :: cty where
  "struct_config_item = CStruct ''config_item'' False
     [Field ''ci_name'' (CPtr ''char''),
      Field ''ci_namebuf'' (CArr 20 c_char),
      Field ''ci_kref'' struct_kref,
      Field ''ci_entry'' struct_list_head,
      Field ''ci_parent'' (CPtr ''struct config_item''),
      Field ''ci_group'' (CPtr ''struct config_group''),
      Field ''ci_type'' (CPtr ''const struct config_item_type''),
      Field ''ci_dentry'' (CPtr ''struct dentry'')]"

definition struct_config_group :: cty where
  "struct_config_group = CStruct ''config_group'' False
     [Field ''cg_item'' struct_config_item,
      Field ''cg_children'' struct_list_head,
      Field ''cg_subsys'' (CPtr ''struct configfs_subsystem''),
      Field ''default_groups'' struct_list_head,
      Field ''group_entry'' struct_list_head]"

definition struct_pci_epf_group :: cty where
  "struct_pci_epf_group = CStruct ''pci_epf_group'' False
     [Field ''group'' struct_config_group,
      Field ''primary_epc_group'' struct_config_group,
      Field ''secondary_epc_group'' struct_config_group,
      Field ''epf'' (CPtr ''struct pci_epf''),
      Field ''index'' c_int]"

definition struct_pci_epf_header :: cty where
  "struct_pci_epf_header = CStruct ''pci_epf_header'' False
     [Field ''vendorid'' u16,
      Field ''deviceid'' u16,
      Field ''revid'' u8,
      Field ''progif_code'' u8,
      Field ''subclass_code'' u8,
      Field ''baseclass_code'' u8,
      Field ''cache_line_size'' u8,
      Field ''subsys_vendor_id'' u16,
      Field ''subsys_id'' u16,
      Field ''interrupt_pin'' enum_pci_interrupt_pin]"

definition struct_pci_fixup :: cty where
  "struct_pci_fixup = CStruct ''pci_fixup'' False
     [Field ''vendor'' u16,
      Field ''device'' u16,
      Field ''class'' u32,
      Field ''class_shift'' unsigned_int,
      Field ''hook_offset'' c_int]"

definition struct_pci_host_bridge :: cty where
  "struct_pci_host_bridge = CStruct ''pci_host_bridge'' False
     [Field ''dev'' struct_device,
      Field ''bus'' (CPtr ''struct pci_bus''),
      Field ''ops'' (CPtr ''struct pci_ops''),
      Field ''child_ops'' (CPtr ''struct pci_ops''),
      Field ''sysdata'' (CPtr ''void''),
      Field ''busnr'' c_int,
      Field ''domain_nr'' c_int,
      Field ''windows'' struct_list_head,
      Field ''dma_ranges'' struct_list_head,
      Field ''nr_ide_streams'' u16,
      Field ''ide_stream_ida'' struct_ida,
      Field ''ide_stream_ids_ida'' struct_ida,
      Field ''swizzle_irq'' (CPtr ''u8 (struct pci_dev *, u8 *)''),
      Field ''map_irq'' (CPtr ''int (const struct pci_dev *, u8, u8)''),
      Field ''release_fn'' (CPtr ''void (struct pci_host_bridge *)''),
      Field ''enable_device'' (CPtr ''int (struct pci_host_bridge *, struct pci_dev *)''),
      Field ''disable_device'' (CPtr ''void (struct pci_host_bridge *, struct pci_dev *)''),
      Field ''release_data'' (CPtr ''void''),
      BitField ''ignore_reset_delay'' unsigned_int 1,
      BitField ''no_ext_tags'' unsigned_int 1,
      BitField ''no_inc_mrrs'' unsigned_int 1,
      BitField ''native_aer'' unsigned_int 1,
      BitField ''native_pcie_hotplug'' unsigned_int 1,
      BitField ''native_shpc_hotplug'' unsigned_int 1,
      BitField ''native_pme'' unsigned_int 1,
      BitField ''native_ltr'' unsigned_int 1,
      BitField ''native_dpc'' unsigned_int 1,
      BitField ''native_cxl_error'' unsigned_int 1,
      BitField ''preserve_config'' unsigned_int 1,
      BitField ''size_windows'' unsigned_int 1,
      BitField ''msi_domain'' unsigned_int 1,
      Field ''align_resource'' (CPtr ''resource_size_t (struct pci_dev *, const struct resource *, resource_size_t, resource_size_t, resource_size_t)''),
      BitField [] c_long 64,
      BitField [] c_long 64,
      BitField [] c_long 64,
      BitField [] c_long 64,
      BitField [] c_long 64,
      Field ''private'' (CArr 0 long_unsigned_int)]"

definition pci_bus_addr_t :: cty where [layout_simps]:
  "pci_bus_addr_t = u64"

definition struct_pci_bus_region :: cty where
  "struct_pci_bus_region = CStruct ''pci_bus_region'' False
     [Field ''start'' pci_bus_addr_t,
      Field ''end'' pci_bus_addr_t]"

definition struct_pci_ide_partner :: cty where
  "struct_pci_ide_partner = CStruct ''pci_ide_partner'' False
     [Field ''rid_start'' u16,
      Field ''rid_end'' u16,
      Field ''stream_index'' u8,
      Field ''mem_assoc'' struct_pci_bus_region,
      Field ''pref_assoc'' struct_pci_bus_region,
      BitField ''default_stream'' unsigned_int 1,
      BitField ''setup'' unsigned_int 1,
      BitField ''enable'' unsigned_int 1]"

definition struct_pci_ide :: cty where
  "struct_pci_ide = CStruct ''pci_ide'' False
     [Field ''pdev'' (CPtr ''struct pci_dev''),
      Field ''partner'' (CArr 2 struct_pci_ide_partner),
      Field ''host_bridge_stream'' u8,
      Field ''stream_id'' c_int,
      Field ''name'' (CPtr ''const char'')]"

definition struct_pci_ide_regs :: cty where
  "struct_pci_ide_regs = CStruct ''pci_ide_regs'' False
     [Field ''rid1'' u32,
      Field ''rid2'' u32,
      Field ''addr'' (CArr 2 (CStruct [] False
        [Field ''assoc1'' u32,
         Field ''assoc2'' u32,
         Field ''assoc3'' u32])),
      Field ''nr_addr'' c_int]"

definition struct_pci_mmcfg_hostbridge_probe :: cty where
  "struct_pci_mmcfg_hostbridge_probe = CStruct ''pci_mmcfg_hostbridge_probe'' False
     [Field ''bus'' u32,
      Field ''devfn'' u32,
      Field ''vendor'' u32,
      Field ''device'' u32,
      Field ''probe'' (CPtr ''const char * (void)'')]"

definition struct_pci_mmcfg_region :: cty where
  "struct_pci_mmcfg_region = CStruct ''pci_mmcfg_region'' False
     [Field ''list'' struct_list_head,
      Field ''res'' struct_resource,
      Field ''address'' u64,
      Field ''virt'' (CPtr ''char''),
      Field ''segment'' u16,
      Field ''start_bus'' u8,
      Field ''end_bus'' u8,
      Field ''name'' (CArr 30 c_char)]"

definition struct_pci_root_info :: cty where
  "struct_pci_root_info = CStruct ''pci_root_info'' False
     [Field ''list'' struct_list_head,
      Field ''name'' (CArr 12 c_char),
      Field ''resources'' struct_list_head,
      Field ''busn'' struct_resource,
      Field ''node'' c_int,
      Field ''link'' c_int]"

definition struct_pci_sysdata :: cty where
  "struct_pci_sysdata = CStruct ''pci_sysdata'' False
     [Field ''domain'' c_int,
      Field ''node'' c_int,
      Field ''companion'' (CPtr ''struct acpi_device''),
      Field ''iommu'' (CPtr ''void''),
      Field ''fwnode'' (CPtr ''void''),
      Field ''vmd_dev'' (CPtr ''struct pci_dev'')]"

definition struct_pci_root_info___2 :: cty where
  "struct_pci_root_info___2 = CStruct ''pci_root_info___2'' False
     [Field ''common'' struct_acpi_pci_root_info,
      Field ''sd'' struct_pci_sysdata,
      Field ''mcfg_added'' bool,
      Field ''start_bus'' u8,
      Field ''end_bus'' u8]"

definition struct_pci_serial_quirk :: cty where
  "struct_pci_serial_quirk = CStruct ''pci_serial_quirk'' False
     [Field ''vendor'' u32,
      Field ''device'' u32,
      Field ''subvendor'' u32,
      Field ''subdevice'' u32,
      Field ''probe'' (CPtr ''int (struct pci_dev *)''),
      Field ''init'' (CPtr ''int (struct pci_dev *)''),
      Field ''setup'' (CPtr ''int (struct serial_private *, const struct pciserial_board *, struct uart_8250_port *, int)''),
      Field ''exit'' (CPtr ''void (struct pci_dev *)'')]"

definition struct_setup_data :: cty where
  "struct_setup_data = CStruct ''setup_data'' False
     [Field ''next'' c__u64,
      Field ''type'' c__u32,
      Field ''len'' c__u32,
      Field ''data'' (CArr 0 c__u8)]"

definition struct_pci_setup_rom :: cty where
  "struct_pci_setup_rom = CStruct ''pci_setup_rom'' False
     [Field ''data'' struct_setup_data,
      Field ''vendor'' uint16_t,
      Field ''devid'' uint16_t,
      Field ''pcilen'' uint64_t,
      Field ''segment'' long_unsigned_int,
      Field ''bus'' long_unsigned_int,
      Field ''device'' long_unsigned_int,
      Field ''function'' long_unsigned_int,
      Field ''romdata'' (CArr 0 uint8_t)]"

definition struct_pcie_device :: cty where
  "struct_pcie_device = CStruct ''pcie_device'' False
     [Field ''irq'' c_int,
      Field ''port'' (CPtr ''struct pci_dev''),
      Field ''service'' u32,
      Field ''priv_data'' (CPtr ''void''),
      Field ''device'' struct_device]"

definition struct_pcie_port_service_driver :: cty where
  "struct_pcie_port_service_driver = CStruct ''pcie_port_service_driver'' False
     [Field ''name'' (CPtr ''const char''),
      Field ''probe'' (CPtr ''int (struct pcie_device *)''),
      Field ''remove'' (CPtr ''void (struct pcie_device *)''),
      Field ''suspend'' (CPtr ''int (struct pcie_device *)''),
      Field ''resume_noirq'' (CPtr ''int (struct pcie_device *)''),
      Field ''resume'' (CPtr ''int (struct pcie_device *)''),
      Field ''runtime_suspend'' (CPtr ''int (struct pcie_device *)''),
      Field ''runtime_resume'' (CPtr ''int (struct pcie_device *)''),
      Field ''slot_reset'' (CPtr ''int (struct pcie_device *)''),
      Field ''port_type'' c_int,
      Field ''service'' u32,
      Field ''driver'' struct_device_driver]"

definition struct_pcie_ptm_ops :: cty where
  "struct_pcie_ptm_ops = CStruct ''pcie_ptm_ops'' False
     [Field ''check_capability'' (CPtr ''int (void *)''),
      Field ''context_update_write'' (CPtr ''int (void *, u8)''),
      Field ''context_update_read'' (CPtr ''int (void *, u8 *)''),
      Field ''context_valid_write'' (CPtr ''int (void *, bool)''),
      Field ''context_valid_read'' (CPtr ''int (void *, bool *)''),
      Field ''local_clock_read'' (CPtr ''int (void *, u64 *)''),
      Field ''master_clock_read'' (CPtr ''int (void *, u64 *)''),
      Field ''t1_read'' (CPtr ''int (void *, u64 *)''),
      Field ''t2_read'' (CPtr ''int (void *, u64 *)''),
      Field ''t3_read'' (CPtr ''int (void *, u64 *)''),
      Field ''t4_read'' (CPtr ''int (void *, u64 *)''),
      Field ''context_update_visible'' (CPtr ''bool (void *)''),
      Field ''context_valid_visible'' (CPtr ''bool (void *)''),
      Field ''local_clock_visible'' (CPtr ''bool (void *)''),
      Field ''master_clock_visible'' (CPtr ''bool (void *)''),
      Field ''t1_visible'' (CPtr ''bool (void *)''),
      Field ''t2_visible'' (CPtr ''bool (void *)''),
      Field ''t3_visible'' (CPtr ''bool (void *)''),
      Field ''t4_visible'' (CPtr ''bool (void *)'')]"

definition enum_pcim_addr_devres_type :: cty where
  "enum_pcim_addr_devres_type = CEnum 4
     [(''PCIM_ADDR_DEVRES_TYPE_INVALID'', 0), (''PCIM_ADDR_DEVRES_TYPE_REGION'', 1),
      (''PCIM_ADDR_DEVRES_TYPE_REGION_MAPPING'', 2), (''PCIM_ADDR_DEVRES_TYPE_MAPPING'', 3)]"

definition struct_pcim_addr_devres :: cty where
  "struct_pcim_addr_devres = CStruct ''pcim_addr_devres'' False
     [Field ''type'' enum_pcim_addr_devres_type,
      Field ''baseaddr'' (CPtr ''void''),
      Field ''offset'' long_unsigned_int,
      Field ''len'' long_unsigned_int,
      Field ''bar'' c_int]"

definition struct_pciserial_board :: cty where
  "struct_pciserial_board = CStruct ''pciserial_board'' False
     [Field ''flags'' unsigned_int,
      Field ''num_ports'' unsigned_int,
      Field ''base_baud'' unsigned_int,
      Field ''uart_offset'' unsigned_int,
      Field ''reg_shift'' unsigned_int,
      Field ''first_offset'' unsigned_int]"

definition struct_physdev_manage_pci_ext :: cty where
  "struct_physdev_manage_pci_ext = CStruct ''physdev_manage_pci_ext'' False
     [Field ''bus'' uint8_t,
      Field ''devfn'' uint8_t,
      Field ''is_extfn'' unsigned_int,
      Field ''is_virtfn'' unsigned_int,
      Field ''physfn'' (CStruct [] False
        [Field ''bus'' uint8_t,
         Field ''devfn'' uint8_t])]"

definition struct_physdev_pci_device_add :: cty where
  "struct_physdev_pci_device_add = CStruct ''physdev_pci_device_add'' False
     [Field ''seg'' uint16_t,
      Field ''bus'' uint8_t,
      Field ''devfn'' uint8_t,
      Field ''flags'' uint32_t,
      Field ''physfn'' (CStruct [] False
        [Field ''bus'' uint8_t,
         Field ''devfn'' uint8_t]),
      Field ''optarr'' (CArr 0 uint32_t)]"

definition struct_physdev_pci_mmcfg_reserved :: cty where
  "struct_physdev_pci_mmcfg_reserved = CStruct ''physdev_pci_mmcfg_reserved'' False
     [Field ''address'' uint64_t,
      Field ''segment'' uint16_t,
      Field ''start_bus'' uint8_t,
      Field ''end_bus'' uint8_t,
      Field ''flags'' uint32_t]"

definition struct_virtio_pci_admin_vq :: cty where
  "struct_virtio_pci_admin_vq = CStruct ''virtio_pci_admin_vq'' False
     [Field ''info'' (CPtr ''struct virtio_pci_vq_info''),
      Field ''lock'' spinlock_t,
      Field ''supported_cmds'' u64,
      Field ''supported_caps'' u64,
      Field ''max_dev_parts_objects'' u8,
      Field ''dev_parts_ida'' struct_ida,
      Field ''name'' (CArr 10 c_char),
      Field ''vq_index'' u16]"

definition struct_virtio_pci_common_cfg :: cty where
  "struct_virtio_pci_common_cfg = CStruct ''virtio_pci_common_cfg'' False
     [Field ''device_feature_select'' c__le32,
      Field ''device_feature'' c__le32,
      Field ''guest_feature_select'' c__le32,
      Field ''guest_feature'' c__le32,
      Field ''msix_config'' c__le16,
      Field ''num_queues'' c__le16,
      Field ''device_status'' c__u8,
      Field ''config_generation'' c__u8,
      Field ''queue_select'' c__le16,
      Field ''queue_size'' c__le16,
      Field ''queue_msix_vector'' c__le16,
      Field ''queue_enable'' c__le16,
      Field ''queue_notify_off'' c__le16,
      Field ''queue_desc_lo'' c__le32,
      Field ''queue_desc_hi'' c__le32,
      Field ''queue_avail_lo'' c__le32,
      Field ''queue_avail_hi'' c__le32,
      Field ''queue_used_lo'' c__le32,
      Field ''queue_used_hi'' c__le32]"

definition struct_virtio_device_id :: cty where
  "struct_virtio_device_id = CStruct ''virtio_device_id'' False
     [Field ''device'' c__u32,
      Field ''vendor'' c__u32]"

definition struct_virtio_pci_modern_device :: cty where
  "struct_virtio_pci_modern_device = CStruct ''virtio_pci_modern_device'' False
     [Field ''pci_dev'' (CPtr ''struct pci_dev''),
      Field ''common'' (CPtr ''struct virtio_pci_common_cfg''),
      Field ''device'' (CPtr ''void''),
      Field ''notify_base'' (CPtr ''void''),
      Field ''notify_pa'' resource_size_t,
      Field ''isr'' (CPtr ''u8''),
      Field ''notify_len'' size_t,
      Field ''device_len'' size_t,
      Field ''common_len'' size_t,
      Field ''notify_map_cap'' c_int,
      Field ''notify_offset_multiplier'' u32,
      Field ''modern_bars'' c_int,
      Field ''id'' struct_virtio_device_id,
      Field ''device_id_check'' (CPtr ''int (struct pci_dev *)''),
      Field ''dma_mask'' u64]"

definition union_virtio_map :: cty where
  "union_virtio_map = CUnion ''virtio_map'' False
     [Field ''dma_dev'' (CPtr ''struct device''),
      Field ''group'' (CPtr ''struct vduse_vq_group'')]"

definition struct_virtio_device :: cty where
  "struct_virtio_device = CStruct ''virtio_device'' False
     [Field ''index'' c_int,
      Field ''failed'' bool,
      Field ''config_core_enabled'' bool,
      Field ''config_driver_disabled'' bool,
      Field ''config_change_pending'' bool,
      Field ''config_lock'' spinlock_t,
      Field ''vqs_list_lock'' spinlock_t,
      Field ''dev'' struct_device,
      Field ''id'' struct_virtio_device_id,
      Field ''config'' (CPtr ''const struct virtio_config_ops''),
      Field ''vringh_config'' (CPtr ''const struct vringh_config_ops''),
      Field ''map'' (CPtr ''const struct virtio_map_ops''),
      Field ''vqs'' struct_list_head,
      Field [] (CUnion [] False
        [Field ''features'' u64,
         Field ''features_array'' (CArr 2 u64)]),
      Field ''priv'' (CPtr ''void''),
      Field ''vmap'' union_virtio_map]"

definition struct_virtio_pci_legacy_device :: cty where
  "struct_virtio_pci_legacy_device = CStruct ''virtio_pci_legacy_device'' False
     [Field ''pci_dev'' (CPtr ''struct pci_dev''),
      Field ''isr'' (CPtr ''u8''),
      Field ''ioaddr'' (CPtr ''void''),
      Field ''id'' struct_virtio_device_id]"

definition struct_virtio_pci_device :: cty where
  "struct_virtio_pci_device = CStruct ''virtio_pci_device'' False
     [Field ''vdev'' struct_virtio_device,
      Field ''pci_dev'' (CPtr ''struct pci_dev''),
      Field [] (CUnion [] False
        [Field ''ldev'' struct_virtio_pci_legacy_device,
         Field ''mdev'' struct_virtio_pci_modern_device]),
      Field ''is_legacy'' bool,
      Field ''isr'' (CPtr ''u8''),
      Field ''lock'' spinlock_t,
      Field ''virtqueues'' struct_list_head,
      Field ''slow_virtqueues'' struct_list_head,
      Field ''vqs'' (CPtr ''struct virtio_pci_vq_info *''),
      Field ''admin_vq'' struct_virtio_pci_admin_vq,
      Field ''msix_enabled'' c_int,
      Field ''intx_enabled'' c_int,
      Field ''msix_affinity_masks'' (CPtr ''cpumask_var_t''),
      Field ''msix_names'' (CPtr ''char[256]''),
      Field ''msix_vectors'' unsigned_int,
      Field ''msix_used_vectors'' unsigned_int,
      Field ''per_vq_vectors'' bool,
      Field ''setup_vq'' (CPtr ''struct virtqueue * (struct virtio_pci_device *, struct virtio_pci_vq_info *, unsigned int, void(*)(struct virtqueue *), const char *, bool, u16)''),
      Field ''del_vq'' (CPtr ''void (struct virtio_pci_vq_info *)''),
      Field ''config_vector'' (CPtr ''u16 (struct virtio_pci_device *, u16)''),
      Field ''avq_index'' (CPtr ''int (struct virtio_device *, u16 *, u16 *)'')]"

definition struct_virtio_pci_modern_common_cfg :: cty where
  "struct_virtio_pci_modern_common_cfg = CStruct ''virtio_pci_modern_common_cfg'' False
     [Field ''cfg'' struct_virtio_pci_common_cfg,
      Field ''queue_notify_data'' c__le16,
      Field ''queue_reset'' c__le16,
      Field ''admin_queue_index'' c__le16,
      Field ''admin_queue_num'' c__le16]"

section \<open>Sizes and alignments\<close>

lemma enum_dw_pcie_core_clk_layout [layout_simps]:
  "sizeof enum_dw_pcie_core_clk = 4 \<and> alignof enum_dw_pcie_core_clk = 4 \<and> wf_cty enum_dw_pcie_core_clk"
  by (simp add: enum_dw_pcie_core_clk_def base_types layout_eval
      del: One_nat_def)

lemma enum_dw_pcie_core_rst_layout [layout_simps]:
  "sizeof enum_dw_pcie_core_rst = 4 \<and> alignof enum_dw_pcie_core_rst = 4 \<and> wf_cty enum_dw_pcie_core_rst"
  by (simp add: enum_dw_pcie_core_rst_def base_types layout_eval
      del: One_nat_def)

lemma enum_dw_pcie_ltssm_layout [layout_simps]:
  "sizeof enum_dw_pcie_ltssm = 4 \<and> alignof enum_dw_pcie_ltssm = 4 \<and> wf_cty enum_dw_pcie_ltssm"
  by (simp add: enum_dw_pcie_ltssm_def base_types layout_eval
      del: One_nat_def)

lemma enum_pci_barno_layout [layout_simps]:
  "sizeof enum_pci_barno = 4 \<and> alignof enum_pci_barno = 4 \<and> wf_cty enum_pci_barno"
  by (simp add: enum_pci_barno_def base_types layout_eval
      del: One_nat_def)

lemma enum_pci_board_num_t_layout [layout_simps]:
  "sizeof enum_pci_board_num_t = 4 \<and> alignof enum_pci_board_num_t = 4 \<and> wf_cty enum_pci_board_num_t"
  by (simp add: enum_pci_board_num_t_def base_types layout_eval
      del: One_nat_def)

lemma enum_pci_bus_speed_layout [layout_simps]:
  "sizeof enum_pci_bus_speed = 4 \<and> alignof enum_pci_bus_speed = 4 \<and> wf_cty enum_pci_bus_speed"
  by (simp add: enum_pci_bus_speed_def base_types layout_eval
      del: One_nat_def)

lemma enum_pci_dev_flags_layout [layout_simps]:
  "sizeof enum_pci_dev_flags = 4 \<and> alignof enum_pci_dev_flags = 4 \<and> wf_cty enum_pci_dev_flags"
  by (simp add: enum_pci_dev_flags_def base_types layout_eval
      del: One_nat_def)

lemma enum_pci_ers_result_layout [layout_simps]:
  "sizeof enum_pci_ers_result = 4 \<and> alignof enum_pci_ers_result = 4 \<and> wf_cty enum_pci_ers_result"
  by (simp add: enum_pci_ers_result_def base_types layout_eval
      del: One_nat_def)

lemma enum_pci_fixup_pass_layout [layout_simps]:
  "sizeof enum_pci_fixup_pass = 4 \<and> alignof enum_pci_fixup_pass = 4 \<and> wf_cty enum_pci_fixup_pass"
  by (simp add: enum_pci_fixup_pass_def base_types layout_eval
      del: One_nat_def)

lemma enum_pci_interrupt_pin_layout [layout_simps]:
  "sizeof enum_pci_interrupt_pin = 4 \<and> alignof enum_pci_interrupt_pin = 4 \<and> wf_cty enum_pci_interrupt_pin"
  by (simp add: enum_pci_interrupt_pin_def base_types layout_eval
      del: One_nat_def)

lemma enum_pcie_bus_config_types_layout [layout_simps]:
  "sizeof enum_pcie_bus_config_types = 4 \<and> alignof enum_pcie_bus_config_types = 4 \<and> wf_cty enum_pcie_bus_config_types"
  by (simp add: enum_pcie_bus_config_types_def base_types layout_eval
      del: One_nat_def)

lemma enum_pcie_link_change_reason_layout [layout_simps]:
  "sizeof enum_pcie_link_change_reason = 4 \<and> alignof enum_pcie_link_change_reason = 4 \<and> wf_cty enum_pcie_link_change_reason"
  by (simp add: enum_pcie_link_change_reason_def base_types layout_eval
      del: One_nat_def)

lemma enum_pcie_link_width_layout [layout_simps]:
  "sizeof enum_pcie_link_width = 4 \<and> alignof enum_pcie_link_width = 4 \<and> wf_cty enum_pcie_link_width"
  by (simp add: enum_pcie_link_width_def base_types layout_eval
      del: One_nat_def)

lemma struct_acpi_pci_ioapic_layout [layout_simps]:
  "sizeof struct_acpi_pci_ioapic = 112 \<and> alignof struct_acpi_pci_ioapic = 8 \<and> wf_cty struct_acpi_pci_ioapic"
  by (simp add: struct_acpi_pci_ioapic_def base_types layout_eval acpi_handle_def u32_def c__u32_def
      struct_resource_layout struct_list_head_layout
      del: One_nat_def)

lemma struct_acpi_pci_link_irq_layout [layout_simps]:
  "sizeof struct_acpi_pci_link_irq = 76 \<and> alignof struct_acpi_pci_link_irq = 4 \<and> wf_cty struct_acpi_pci_link_irq"
  by (simp add: struct_acpi_pci_link_irq_def base_types layout_eval u32_def c__u32_def u8_def c__u8_def
      del: One_nat_def)

lemma struct_acpi_pci_root_layout [layout_simps]:
  "sizeof struct_acpi_pci_root = 112 \<and> alignof struct_acpi_pci_root = 8 \<and> wf_cty struct_acpi_pci_root"
  by (simp add: struct_acpi_pci_root_def base_types layout_eval u16_def c__u16_def struct_resource_layout u32_def
      c__u32_def phys_addr_t_def u64_def c__u64_def
      del: One_nat_def)

lemma struct_acpi_pci_root_info_layout [layout_simps]:
  "sizeof struct_acpi_pci_root_info = 56 \<and> alignof struct_acpi_pci_root_info = 8 \<and> wf_cty struct_acpi_pci_root_info"
  by (simp add: struct_acpi_pci_root_info_def base_types layout_eval struct_list_head_layout
      del: One_nat_def)

lemma struct_acpi_pci_routing_table_layout [layout_simps]:
  "sizeof struct_acpi_pci_routing_table = 24 \<and> alignof struct_acpi_pci_routing_table = 8 \<and> wf_cty struct_acpi_pci_routing_table"
  by (simp add: struct_acpi_pci_routing_table_def base_types layout_eval u32_def c__u32_def u64_def c__u64_def
      del: One_nat_def)

lemma struct_acpi_viot_header_layout [layout_simps]:
  "sizeof struct_acpi_viot_header = 4 \<and> alignof struct_acpi_viot_header = 2 \<and> wf_cty struct_acpi_viot_header"
  by (simp add: struct_acpi_viot_header_def base_types layout_eval u8_def c__u8_def u16_def c__u16_def
      del: One_nat_def)

lemma struct_acpi_viot_pci_range_layout [layout_simps]:
  "sizeof struct_acpi_viot_pci_range = 24 \<and> alignof struct_acpi_viot_pci_range = 4 \<and> wf_cty struct_acpi_viot_pci_range"
  by (simp add: struct_acpi_viot_pci_range_def base_types layout_eval struct_acpi_viot_header_layout u32_def c__u32_def
      u16_def c__u16_def u8_def c__u8_def
      del: One_nat_def)

lemma struct_pcie_tlp_log_layout [layout_simps]:
  "sizeof struct_pcie_tlp_log = 60 \<and> alignof struct_pcie_tlp_log = 4 \<and> wf_cty struct_pcie_tlp_log"
  by (simp add: struct_pcie_tlp_log_def base_types layout_eval u32_def c__u32_def u8_def c__u8_def bool_def
      del: One_nat_def)

lemma struct_amd_iommu_pci_seg_layout [layout_simps]:
  "sizeof struct_amd_iommu_pci_seg = 88 \<and> alignof struct_amd_iommu_pci_seg = 8 \<and> wf_cty struct_amd_iommu_pci_seg"
  by (simp add: struct_amd_iommu_pci_seg_def base_types layout_eval struct_list_head_layout struct_llist_head_layout
      u16_def c__u16_def u32_def c__u32_def
      del: One_nat_def)

lemma struct_cpci_hp_controller_layout [layout_simps]:
  "sizeof struct_cpci_hp_controller = 48 \<and> alignof struct_cpci_hp_controller = 8 \<and> wf_cty struct_cpci_hp_controller"
  by (simp add: struct_cpci_hp_controller_def base_types layout_eval
      del: One_nat_def)

lemma struct_cper_sec_pcie_layout [layout_simps]:
  "sizeof struct_cper_sec_pcie = 208 \<and> alignof struct_cper_sec_pcie = 8 \<and> wf_cty struct_cper_sec_pcie"
  by (simp add: struct_cper_sec_pcie_def base_types layout_eval u64_def c__u64_def u32_def c__u32_def u8_def c__u8_def
      u16_def c__u16_def
      del: One_nat_def)

lemma struct_pci_eq_presets_layout [layout_simps]:
  "sizeof struct_pci_eq_presets = 80 \<and> alignof struct_pci_eq_presets = 2 \<and> wf_cty struct_pci_eq_presets"
  by (simp add: struct_pci_eq_presets_def base_types layout_eval u16_def c__u16_def u8_def c__u8_def
      del: One_nat_def)

lemma struct_dw_pcie_rp_layout [layout_simps]:
  "sizeof struct_dw_pcie_rp = 320 \<and> alignof struct_dw_pcie_rp = 8 \<and> wf_cty struct_dw_pcie_rp"
  by (simp add: struct_dw_pcie_rp_def base_types layout_eval bool_def u64_def c__u64_def u32_def c__u32_def
      resource_size_t_def phys_addr_t_def dma_addr_t_def raw_spinlock_t_def struct_raw_spinlock_layout
      struct_pci_eq_presets_layout
      del: One_nat_def)

lemma struct_dw_pcie_ep_layout [layout_simps]:
  "sizeof struct_dw_pcie_ep = 120 \<and> alignof struct_dw_pcie_ep = 8 \<and> wf_cty struct_dw_pcie_ep"
  by (simp add: struct_dw_pcie_ep_def base_types layout_eval struct_list_head_layout phys_addr_t_def u64_def c__u64_def
      size_t_def c__kernel_size_t_def c__kernel_ulong_t_def bool_def
      del: One_nat_def)

lemma struct_clk_bulk_data_layout [layout_simps]:
  "sizeof struct_clk_bulk_data = 16 \<and> alignof struct_clk_bulk_data = 8 \<and> wf_cty struct_clk_bulk_data"
  by (simp add: struct_clk_bulk_data_def base_types layout_eval
      del: One_nat_def)

lemma struct_reset_control_bulk_data_layout [layout_simps]:
  "sizeof struct_reset_control_bulk_data = 16 \<and> alignof struct_reset_control_bulk_data = 8 \<and> wf_cty struct_reset_control_bulk_data"
  by (simp add: struct_reset_control_bulk_data_def base_types layout_eval
      del: One_nat_def)

lemma enum_dw_pcie_device_mode_layout [layout_simps]:
  "sizeof enum_dw_pcie_device_mode = 4 \<and> alignof enum_dw_pcie_device_mode = 4 \<and> wf_cty enum_dw_pcie_device_mode"
  by (simp add: enum_dw_pcie_device_mode_def base_types layout_eval
      del: One_nat_def)

lemma struct_dw_pcie_layout [layout_simps]:
  "sizeof struct_dw_pcie = 1736 \<and> alignof struct_dw_pcie = 8 \<and> wf_cty struct_dw_pcie"
  by (simp add: struct_dw_pcie_def base_types layout_eval resource_size_t_def phys_addr_t_def u64_def c__u64_def
      size_t_def c__kernel_size_t_def c__kernel_ulong_t_def u32_def c__u32_def struct_dw_pcie_rp_layout
      struct_dw_pcie_ep_layout u8_def c__u8_def struct_dw_edma_chip_layout bool_def
      struct_clk_bulk_data_layout struct_reset_control_bulk_data_layout enum_dw_pcie_device_mode_layout
      u16_def c__u16_def
      del: One_nat_def)

lemma struct_dw_pcie_ep_func_layout [layout_simps]:
  "sizeof struct_dw_pcie_ep_func = 152 \<and> alignof struct_dw_pcie_ep_func = 8 \<and> wf_cty struct_dw_pcie_ep_func"
  by (simp add: struct_dw_pcie_ep_func_def base_types layout_eval struct_list_head_layout u8_def c__u8_def
      del: One_nat_def)

lemma struct_dw_pcie_ep_ops_layout [layout_simps]:
  "sizeof struct_dw_pcie_ep_ops = 48 \<and> alignof struct_dw_pcie_ep_ops = 8 \<and> wf_cty struct_dw_pcie_ep_ops"
  by (simp add: struct_dw_pcie_ep_ops_def base_types layout_eval
      del: One_nat_def)

lemma struct_dw_pcie_host_ops_layout [layout_simps]:
  "sizeof struct_dw_pcie_host_ops = 40 \<and> alignof struct_dw_pcie_host_ops = 8 \<and> wf_cty struct_dw_pcie_host_ops"
  by (simp add: struct_dw_pcie_host_ops_def base_types layout_eval
      del: One_nat_def)

lemma struct_dw_pcie_ob_atu_cfg_layout [layout_simps]:
  "sizeof struct_dw_pcie_ob_atu_cfg = 40 \<and> alignof struct_dw_pcie_ob_atu_cfg = 8 \<and> wf_cty struct_dw_pcie_ob_atu_cfg"
  by (simp add: struct_dw_pcie_ob_atu_cfg_def base_types layout_eval u8_def c__u8_def u32_def c__u32_def u64_def
      c__u64_def
      del: One_nat_def)

lemma struct_dw_pcie_ops_layout [layout_simps]:
  "sizeof struct_dw_pcie_ops = 64 \<and> alignof struct_dw_pcie_ops = 8 \<and> wf_cty struct_dw_pcie_ops"
  by (simp add: struct_dw_pcie_ops_def base_types layout_eval
      del: One_nat_def)

lemma struct_edac_pci_counter_layout [layout_simps]:
  "sizeof struct_edac_pci_counter = 8 \<and> alignof struct_edac_pci_counter = 4 \<and> wf_cty struct_edac_pci_counter"
  by (simp add: struct_edac_pci_counter_def base_types layout_eval atomic_t_layout
      del: One_nat_def)

lemma struct_edac_pci_ctl_info_layout [layout_simps]:
  "sizeof struct_edac_pci_ctl_info = 272 \<and> alignof struct_edac_pci_ctl_info = 8 \<and> wf_cty struct_edac_pci_ctl_info"
  by (simp add: struct_edac_pci_ctl_info_def base_types layout_eval struct_list_head_layout struct_delayed_work_layout
      struct_edac_pci_counter_layout struct_kobject_layout
      del: One_nat_def)

lemma union_hv_pci_bdf_layout [layout_simps]:
  "sizeof union_hv_pci_bdf = 2 \<and> alignof union_hv_pci_bdf = 2 \<and> wf_cty union_hv_pci_bdf"
  by (simp add: union_hv_pci_bdf_def base_types layout_eval u16_def c__u16_def u8_def c__u8_def
      del: One_nat_def)

lemma union_hv_pci_bus_range_layout [layout_simps]:
  "sizeof union_hv_pci_bus_range = 2 \<and> alignof union_hv_pci_bus_range = 2 \<and> wf_cty union_hv_pci_bus_range"
  by (simp add: union_hv_pci_bus_range_def base_types layout_eval u16_def c__u16_def u8_def c__u8_def
      del: One_nat_def)

lemma struct_of_pci_range_layout [layout_simps]:
  "sizeof struct_of_pci_range = 40 \<and> alignof struct_of_pci_range = 8 \<and> wf_cty struct_of_pci_range"
  by (simp add: struct_of_pci_range_def base_types layout_eval u64_def c__u64_def u32_def c__u32_def
      del: One_nat_def)

lemma struct_of_pci_range_parser_layout [layout_simps]:
  "sizeof struct_of_pci_range_parser = 48 \<and> alignof struct_of_pci_range_parser = 8 \<and> wf_cty struct_of_pci_range_parser"
  by (simp add: struct_of_pci_range_parser_def base_types layout_eval bool_def
      del: One_nat_def)

lemma struct_pci_config_window_layout [layout_simps]:
  "sizeof struct_pci_config_window = 168 \<and> alignof struct_pci_config_window = 8 \<and> wf_cty struct_pci_config_window"
  by (simp add: struct_pci_config_window_def base_types layout_eval struct_resource_layout
      del: One_nat_def)

lemma struct_pci_dev_resource_layout [layout_simps]:
  "sizeof struct_pci_dev_resource = 72 \<and> alignof struct_pci_dev_resource = 8 \<and> wf_cty struct_pci_dev_resource"
  by (simp add: struct_pci_dev_resource_def base_types layout_eval struct_list_head_layout resource_size_t_def
      phys_addr_t_def u64_def c__u64_def
      del: One_nat_def)

lemma struct_pci_doe_mb_layout [layout_simps]:
  "sizeof struct_pci_doe_mb = 80 \<and> alignof struct_pci_doe_mb = 8 \<and> wf_cty struct_pci_doe_mb"
  by (simp add: struct_pci_doe_mb_def base_types layout_eval u16_def c__u16_def struct_xarray_layout
      wait_queue_head_t_def struct_wait_queue_head_layout
      del: One_nat_def)

lemma struct_pci_doe_feature_layout [layout_simps]:
  "sizeof struct_pci_doe_feature = 4 \<and> alignof struct_pci_doe_feature = 2 \<and> wf_cty struct_pci_doe_feature"
  by (simp add: struct_pci_doe_feature_def base_types layout_eval u16_def c__u16_def u8_def c__u8_def
      del: One_nat_def)

lemma struct_pci_doe_task_layout [layout_simps]:
  "sizeof struct_pci_doe_task = 104 \<and> alignof struct_pci_doe_task = 8 \<and> wf_cty struct_pci_doe_task"
  by (simp add: struct_pci_doe_task_def base_types layout_eval struct_pci_doe_feature_layout size_t_def
      c__kernel_size_t_def c__kernel_ulong_t_def struct_work_struct_layout
      del: One_nat_def)

lemma struct_pci_ecam_ops_layout [layout_simps]:
  "sizeof struct_pci_ecam_ops = 72 \<and> alignof struct_pci_ecam_ops = 8 \<and> wf_cty struct_pci_ecam_ops"
  by (simp add: struct_pci_ecam_ops_def base_types layout_eval struct_pci_ops_layout
      del: One_nat_def)

lemma struct_pci_epc_layout [layout_simps]:
  "sizeof struct_pci_epc = 952 \<and> alignof struct_pci_epc = 8 \<and> wf_cty struct_pci_epc"
  by (simp add: struct_pci_epc_def base_types layout_eval struct_device_layout struct_list_head_layout
      struct_mutex_layout u8_def c__u8_def bool_def
      del: One_nat_def)

lemma struct_pci_epc_event_ops_layout [layout_simps]:
  "sizeof struct_pci_epc_event_ops = 40 \<and> alignof struct_pci_epc_event_ops = 8 \<and> wf_cty struct_pci_epc_event_ops"
  by (simp add: struct_pci_epc_event_ops_def base_types layout_eval
      del: One_nat_def)

lemma enum_pci_epc_bar_type_layout [layout_simps]:
  "sizeof enum_pci_epc_bar_type = 4 \<and> alignof enum_pci_epc_bar_type = 4 \<and> wf_cty enum_pci_epc_bar_type"
  by (simp add: enum_pci_epc_bar_type_def base_types layout_eval
      del: One_nat_def)

lemma struct_pci_epc_bar_desc_layout [layout_simps]:
  "sizeof struct_pci_epc_bar_desc = 24 \<and> alignof struct_pci_epc_bar_desc = 8 \<and> wf_cty struct_pci_epc_bar_desc"
  by (simp add: struct_pci_epc_bar_desc_def base_types layout_eval enum_pci_epc_bar_type_layout u64_def c__u64_def
      bool_def
      del: One_nat_def)

lemma struct_pci_epc_features_layout [layout_simps]:
  "sizeof struct_pci_epc_features = 160 \<and> alignof struct_pci_epc_features = 8 \<and> wf_cty struct_pci_epc_features"
  by (simp add: struct_pci_epc_features_def base_types layout_eval struct_pci_epc_bar_desc_layout size_t_def
      c__kernel_size_t_def c__kernel_ulong_t_def
      del: One_nat_def)

lemma struct_pci_epc_map_layout [layout_simps]:
  "sizeof struct_pci_epc_map = 64 \<and> alignof struct_pci_epc_map = 8 \<and> wf_cty struct_pci_epc_map"
  by (simp add: struct_pci_epc_map_def base_types layout_eval u64_def c__u64_def size_t_def c__kernel_size_t_def
      c__kernel_ulong_t_def phys_addr_t_def
      del: One_nat_def)

lemma struct_pci_epc_ops_layout [layout_simps]:
  "sizeof struct_pci_epc_ops = 128 \<and> alignof struct_pci_epc_ops = 8 \<and> wf_cty struct_pci_epc_ops"
  by (simp add: struct_pci_epc_ops_def base_types layout_eval
      del: One_nat_def)

lemma struct_pci_epf_bar_layout [layout_simps]:
  "sizeof struct_pci_epf_bar = 56 \<and> alignof struct_pci_epf_bar = 8 \<and> wf_cty struct_pci_epf_bar"
  by (simp add: struct_pci_epf_bar_def base_types layout_eval dma_addr_t_def u64_def c__u64_def size_t_def
      c__kernel_size_t_def c__kernel_ulong_t_def enum_pci_barno_layout
      del: One_nat_def)

lemma struct_pci_epf_layout [layout_simps]:
  "sizeof struct_pci_epf = 1680 \<and> alignof struct_pci_epf = 8 \<and> wf_cty struct_pci_epf"
  by (simp add: struct_pci_epf_def base_types layout_eval struct_device_layout struct_pci_epf_bar_layout u8_def c__u8_def
      u16_def c__u16_def struct_list_head_layout struct_mutex_layout
      del: One_nat_def)

lemma struct_pci_epf_driver_layout [layout_simps]:
  "sizeof struct_pci_epf_driver = 208 \<and> alignof struct_pci_epf_driver = 8 \<and> wf_cty struct_pci_epf_driver"
  by (simp add: struct_pci_epf_driver_def base_types layout_eval struct_device_driver_layout struct_list_head_layout
      del: One_nat_def)

lemma struct_config_item_layout [layout_simps]:
  "sizeof struct_config_item = 80 \<and> alignof struct_config_item = 8 \<and> wf_cty struct_config_item"
  by (simp add: struct_config_item_def base_types layout_eval struct_kref_layout struct_list_head_layout
      del: One_nat_def)

lemma struct_config_group_layout [layout_simps]:
  "sizeof struct_config_group = 136 \<and> alignof struct_config_group = 8 \<and> wf_cty struct_config_group"
  by (simp add: struct_config_group_def base_types layout_eval struct_config_item_layout struct_list_head_layout
      del: One_nat_def)

lemma struct_pci_epf_group_layout [layout_simps]:
  "sizeof struct_pci_epf_group = 424 \<and> alignof struct_pci_epf_group = 8 \<and> wf_cty struct_pci_epf_group"
  by (simp add: struct_pci_epf_group_def base_types layout_eval struct_config_group_layout
      del: One_nat_def)

lemma struct_pci_epf_header_layout [layout_simps]:
  "sizeof struct_pci_epf_header = 20 \<and> alignof struct_pci_epf_header = 4 \<and> wf_cty struct_pci_epf_header"
  by (simp add: struct_pci_epf_header_def base_types layout_eval u16_def c__u16_def u8_def c__u8_def
      enum_pci_interrupt_pin_layout
      del: One_nat_def)

lemma struct_pci_fixup_layout [layout_simps]:
  "sizeof struct_pci_fixup = 16 \<and> alignof struct_pci_fixup = 4 \<and> wf_cty struct_pci_fixup"
  by (simp add: struct_pci_fixup_def base_types layout_eval u16_def c__u16_def u32_def c__u32_def
      del: One_nat_def)

lemma struct_pci_host_bridge_layout [layout_simps]:
  "sizeof struct_pci_host_bridge = 1024 \<and> alignof struct_pci_host_bridge = 8 \<and> wf_cty struct_pci_host_bridge"
  by (simp add: struct_pci_host_bridge_def base_types layout_eval struct_device_layout struct_list_head_layout u16_def
      c__u16_def struct_ida_layout
      del: One_nat_def)

lemma struct_pci_bus_region_layout [layout_simps]:
  "sizeof struct_pci_bus_region = 16 \<and> alignof struct_pci_bus_region = 8 \<and> wf_cty struct_pci_bus_region"
  by (simp add: struct_pci_bus_region_def base_types layout_eval pci_bus_addr_t_def u64_def c__u64_def
      del: One_nat_def)

lemma struct_pci_ide_partner_layout [layout_simps]:
  "sizeof struct_pci_ide_partner = 48 \<and> alignof struct_pci_ide_partner = 8 \<and> wf_cty struct_pci_ide_partner"
  by (simp add: struct_pci_ide_partner_def base_types layout_eval u16_def c__u16_def u8_def c__u8_def
      struct_pci_bus_region_layout
      del: One_nat_def)

lemma struct_pci_ide_layout [layout_simps]:
  "sizeof struct_pci_ide = 120 \<and> alignof struct_pci_ide = 8 \<and> wf_cty struct_pci_ide"
  by (simp add: struct_pci_ide_def base_types layout_eval struct_pci_ide_partner_layout u8_def c__u8_def
      del: One_nat_def)

lemma struct_pci_ide_regs_layout [layout_simps]:
  "sizeof struct_pci_ide_regs = 36 \<and> alignof struct_pci_ide_regs = 4 \<and> wf_cty struct_pci_ide_regs"
  by (simp add: struct_pci_ide_regs_def base_types layout_eval u32_def c__u32_def
      del: One_nat_def)

lemma struct_pci_mmcfg_hostbridge_probe_layout [layout_simps]:
  "sizeof struct_pci_mmcfg_hostbridge_probe = 24 \<and> alignof struct_pci_mmcfg_hostbridge_probe = 8 \<and> wf_cty struct_pci_mmcfg_hostbridge_probe"
  by (simp add: struct_pci_mmcfg_hostbridge_probe_def base_types layout_eval u32_def c__u32_def
      del: One_nat_def)

lemma struct_pci_mmcfg_region_layout [layout_simps]:
  "sizeof struct_pci_mmcfg_region = 136 \<and> alignof struct_pci_mmcfg_region = 8 \<and> wf_cty struct_pci_mmcfg_region"
  by (simp add: struct_pci_mmcfg_region_def base_types layout_eval struct_list_head_layout struct_resource_layout u64_def
      c__u64_def u16_def c__u16_def u8_def c__u8_def
      del: One_nat_def)

lemma struct_pci_root_info_layout [layout_simps]:
  "sizeof struct_pci_root_info = 120 \<and> alignof struct_pci_root_info = 8 \<and> wf_cty struct_pci_root_info"
  by (simp add: struct_pci_root_info_def base_types layout_eval struct_list_head_layout struct_resource_layout
      del: One_nat_def)

lemma struct_pci_sysdata_layout [layout_simps]:
  "sizeof struct_pci_sysdata = 40 \<and> alignof struct_pci_sysdata = 8 \<and> wf_cty struct_pci_sysdata"
  by (simp add: struct_pci_sysdata_def base_types layout_eval
      del: One_nat_def)

lemma struct_pci_root_info___2_layout [layout_simps]:
  "sizeof struct_pci_root_info___2 = 104 \<and> alignof struct_pci_root_info___2 = 8 \<and> wf_cty struct_pci_root_info___2"
  by (simp add: struct_pci_root_info___2_def base_types layout_eval struct_acpi_pci_root_info_layout
      struct_pci_sysdata_layout bool_def u8_def c__u8_def
      del: One_nat_def)

lemma struct_pci_serial_quirk_layout [layout_simps]:
  "sizeof struct_pci_serial_quirk = 48 \<and> alignof struct_pci_serial_quirk = 8 \<and> wf_cty struct_pci_serial_quirk"
  by (simp add: struct_pci_serial_quirk_def base_types layout_eval u32_def c__u32_def
      del: One_nat_def)

lemma struct_setup_data_layout [layout_simps]:
  "sizeof struct_setup_data = 16 \<and> alignof struct_setup_data = 8 \<and> wf_cty struct_setup_data"
  by (simp add: struct_setup_data_def base_types layout_eval c__u64_def c__u32_def c__u8_def
      del: One_nat_def)

lemma struct_pci_setup_rom_layout [layout_simps]:
  "sizeof struct_pci_setup_rom = 64 \<and> alignof struct_pci_setup_rom = 8 \<and> wf_cty struct_pci_setup_rom"
  by (simp add: struct_pci_setup_rom_def base_types layout_eval struct_setup_data_layout uint16_t_def u16_def c__u16_def
      uint64_t_def u64_def c__u64_def uint8_t_def u8_def c__u8_def
      del: One_nat_def)

lemma struct_pcie_device_layout [layout_simps]:
  "sizeof struct_pcie_device = 840 \<and> alignof struct_pcie_device = 8 \<and> wf_cty struct_pcie_device"
  by (simp add: struct_pcie_device_def base_types layout_eval u32_def c__u32_def struct_device_layout
      del: One_nat_def)

lemma struct_pcie_port_service_driver_layout [layout_simps]:
  "sizeof struct_pcie_port_service_driver = 232 \<and> alignof struct_pcie_port_service_driver = 8 \<and> wf_cty struct_pcie_port_service_driver"
  by (simp add: struct_pcie_port_service_driver_def base_types layout_eval u32_def c__u32_def struct_device_driver_layout
      del: One_nat_def)

lemma struct_pcie_ptm_ops_layout [layout_simps]:
  "sizeof struct_pcie_ptm_ops = 152 \<and> alignof struct_pcie_ptm_ops = 8 \<and> wf_cty struct_pcie_ptm_ops"
  by (simp add: struct_pcie_ptm_ops_def base_types layout_eval
      del: One_nat_def)

lemma enum_pcim_addr_devres_type_layout [layout_simps]:
  "sizeof enum_pcim_addr_devres_type = 4 \<and> alignof enum_pcim_addr_devres_type = 4 \<and> wf_cty enum_pcim_addr_devres_type"
  by (simp add: enum_pcim_addr_devres_type_def base_types layout_eval
      del: One_nat_def)

lemma struct_pcim_addr_devres_layout [layout_simps]:
  "sizeof struct_pcim_addr_devres = 40 \<and> alignof struct_pcim_addr_devres = 8 \<and> wf_cty struct_pcim_addr_devres"
  by (simp add: struct_pcim_addr_devres_def base_types layout_eval enum_pcim_addr_devres_type_layout
      del: One_nat_def)

lemma struct_pciserial_board_layout [layout_simps]:
  "sizeof struct_pciserial_board = 24 \<and> alignof struct_pciserial_board = 4 \<and> wf_cty struct_pciserial_board"
  by (simp add: struct_pciserial_board_def base_types layout_eval
      del: One_nat_def)

lemma struct_physdev_manage_pci_ext_layout [layout_simps]:
  "sizeof struct_physdev_manage_pci_ext = 16 \<and> alignof struct_physdev_manage_pci_ext = 4 \<and> wf_cty struct_physdev_manage_pci_ext"
  by (simp add: struct_physdev_manage_pci_ext_def base_types layout_eval uint8_t_def u8_def c__u8_def
      del: One_nat_def)

lemma struct_physdev_pci_device_add_layout [layout_simps]:
  "sizeof struct_physdev_pci_device_add = 12 \<and> alignof struct_physdev_pci_device_add = 4 \<and> wf_cty struct_physdev_pci_device_add"
  by (simp add: struct_physdev_pci_device_add_def base_types layout_eval uint16_t_def u16_def c__u16_def uint8_t_def
      u8_def c__u8_def uint32_t_def u32_def c__u32_def
      del: One_nat_def)

lemma struct_physdev_pci_mmcfg_reserved_layout [layout_simps]:
  "sizeof struct_physdev_pci_mmcfg_reserved = 16 \<and> alignof struct_physdev_pci_mmcfg_reserved = 8 \<and> wf_cty struct_physdev_pci_mmcfg_reserved"
  by (simp add: struct_physdev_pci_mmcfg_reserved_def base_types layout_eval uint64_t_def u64_def c__u64_def uint16_t_def
      u16_def c__u16_def uint8_t_def u8_def c__u8_def uint32_t_def u32_def c__u32_def
      del: One_nat_def)

lemma struct_virtio_pci_admin_vq_layout [layout_simps]:
  "sizeof struct_virtio_pci_admin_vq = 72 \<and> alignof struct_virtio_pci_admin_vq = 8 \<and> wf_cty struct_virtio_pci_admin_vq"
  by (simp add: struct_virtio_pci_admin_vq_def base_types layout_eval spinlock_t_def struct_spinlock_layout u64_def
      c__u64_def u8_def c__u8_def struct_ida_layout u16_def c__u16_def
      del: One_nat_def)

lemma struct_virtio_pci_common_cfg_layout [layout_simps]:
  "sizeof struct_virtio_pci_common_cfg = 56 \<and> alignof struct_virtio_pci_common_cfg = 4 \<and> wf_cty struct_virtio_pci_common_cfg"
  by (simp add: struct_virtio_pci_common_cfg_def base_types layout_eval c__le32_def c__u32_def c__le16_def c__u16_def
      c__u8_def
      del: One_nat_def)

lemma struct_virtio_device_id_layout [layout_simps]:
  "sizeof struct_virtio_device_id = 8 \<and> alignof struct_virtio_device_id = 4 \<and> wf_cty struct_virtio_device_id"
  by (simp add: struct_virtio_device_id_def base_types layout_eval c__u32_def
      del: One_nat_def)

lemma struct_virtio_pci_modern_device_layout [layout_simps]:
  "sizeof struct_virtio_pci_modern_device = 112 \<and> alignof struct_virtio_pci_modern_device = 8 \<and> wf_cty struct_virtio_pci_modern_device"
  by (simp add: struct_virtio_pci_modern_device_def base_types layout_eval resource_size_t_def phys_addr_t_def u64_def
      c__u64_def size_t_def c__kernel_size_t_def c__kernel_ulong_t_def u32_def c__u32_def
      struct_virtio_device_id_layout
      del: One_nat_def)

lemma union_virtio_map_layout [layout_simps]:
  "sizeof union_virtio_map = 8 \<and> alignof union_virtio_map = 8 \<and> wf_cty union_virtio_map"
  by (simp add: union_virtio_map_def base_types layout_eval
      del: One_nat_def)

lemma struct_virtio_device_layout [layout_simps]:
  "sizeof struct_virtio_device = 904 \<and> alignof struct_virtio_device = 8 \<and> wf_cty struct_virtio_device"
  by (simp add: struct_virtio_device_def base_types layout_eval bool_def spinlock_t_def struct_spinlock_layout
      struct_device_layout struct_virtio_device_id_layout struct_list_head_layout u64_def c__u64_def
      union_virtio_map_layout
      del: One_nat_def)

lemma struct_virtio_pci_legacy_device_layout [layout_simps]:
  "sizeof struct_virtio_pci_legacy_device = 32 \<and> alignof struct_virtio_pci_legacy_device = 8 \<and> wf_cty struct_virtio_pci_legacy_device"
  by (simp add: struct_virtio_pci_legacy_device_def base_types layout_eval struct_virtio_device_id_layout
      del: One_nat_def)

lemma struct_virtio_pci_device_layout [layout_simps]:
  "sizeof struct_virtio_pci_device = 1232 \<and> alignof struct_virtio_pci_device = 8 \<and> wf_cty struct_virtio_pci_device"
  by (simp add: struct_virtio_pci_device_def base_types layout_eval struct_virtio_device_layout
      struct_virtio_pci_legacy_device_layout struct_virtio_pci_modern_device_layout bool_def
      spinlock_t_def struct_spinlock_layout struct_list_head_layout struct_virtio_pci_admin_vq_layout
      del: One_nat_def)

lemma struct_virtio_pci_modern_common_cfg_layout [layout_simps]:
  "sizeof struct_virtio_pci_modern_common_cfg = 64 \<and> alignof struct_virtio_pci_modern_common_cfg = 4 \<and> wf_cty struct_virtio_pci_modern_common_cfg"
  by (simp add: struct_virtio_pci_modern_common_cfg_def base_types layout_eval struct_virtio_pci_common_cfg_layout
      c__le16_def c__u16_def
      del: One_nat_def)

end
