(* ===== verification/KernelLargef.thy ===== *)
theory KernelLargef
  imports KernelHelpers2 KernelLargee KernelSubBpf KernelSubPci
begin

text \<open>
  Types of other subsystems in \<^verbatim>\<open>bpf/vmlinux.h\<close>: those that take 25 lines and more there, with every type they
  hold by value (part 6 of 10).
\<close>

section \<open>Types\<close>

definition enum_hid_type :: cty where
  "enum_hid_type = CEnum 4
     [(''HID_TYPE_OTHER'', 0), (''HID_TYPE_USBMOUSE'', 1), (''HID_TYPE_USBNONE'', 2)]"

definition struct_hid_report_enum :: cty where
  "struct_hid_report_enum = CStruct ''hid_report_enum'' False
     [Field ''numbered'' unsigned_int,
      Field ''report_list'' struct_list_head,
      Field ''report_id_hash'' (CArr 256 (CPtr ''struct hid_report''))]"

definition enum_hid_battery_status :: cty where
  "enum_hid_battery_status = CEnum 4
     [(''HID_BATTERY_UNKNOWN'', 0), (''HID_BATTERY_QUERIED'', 1), (''HID_BATTERY_REPORTED'', 2)]"

definition struct_hid_device :: cty where
  "struct_hid_device = CStruct ''hid_device'' False
     [Field ''dev_rdesc'' (CPtr ''const __u8''),
      Field ''bpf_rdesc'' (CPtr ''const __u8''),
      Field ''rdesc'' (CPtr ''const __u8''),
      Field ''dev_rsize'' unsigned_int,
      Field ''bpf_rsize'' unsigned_int,
      Field ''rsize'' unsigned_int,
      Field ''collection_size'' unsigned_int,
      Field ''collection'' (CPtr ''struct hid_collection''),
      Field ''maxcollection'' unsigned_int,
      Field ''maxapplication'' unsigned_int,
      Field ''bus'' c__u16,
      Field ''group'' c__u16,
      Field ''vendor'' c__u32,
      Field ''product'' c__u32,
      Field ''version'' c__u32,
      Field ''type'' enum_hid_type,
      Field ''country'' unsigned_int,
      Field ''report_enum'' (CArr 3 struct_hid_report_enum),
      Field ''led_work'' struct_work_struct,
      Field ''driver_input_lock'' struct_semaphore,
      Field ''dev'' struct_device,
      Field ''driver'' (CPtr ''struct hid_driver''),
      Field ''devres_group_id'' (CPtr ''void''),
      Field ''ll_driver'' (CPtr ''const struct hid_ll_driver''),
      Field ''ll_open_lock'' struct_mutex,
      Field ''ll_open_count'' unsigned_int,
      Field ''battery'' (CPtr ''struct power_supply''),
      Field ''battery_capacity'' c__s32,
      Field ''battery_min'' c__s32,
      Field ''battery_max'' c__s32,
      Field ''battery_report_type'' c__s32,
      Field ''battery_report_id'' c__s32,
      Field ''battery_charge_status'' c__s32,
      Field ''battery_status'' enum_hid_battery_status,
      Field ''battery_avoid_query'' bool,
      Field ''battery_present'' bool,
      Field ''battery_ratelimit_time'' ktime_t,
      Field ''status'' long_unsigned_int,
      Field ''claimed'' unsigned_int,
      Field ''quirks'' unsigned_int,
      Field ''initial_quirks'' unsigned_int,
      Field ''io_started'' bool,
      Field ''inputs'' struct_list_head,
      Field ''hiddev'' (CPtr ''void''),
      Field ''hidraw'' (CPtr ''void''),
      Field ''name'' (CArr 128 c_char),
      Field ''phys'' (CArr 64 c_char),
      Field ''uniq'' (CArr 64 c_char),
      Field ''driver_data'' (CPtr ''void''),
      Field ''ff_init'' (CPtr ''int (struct hid_device *)''),
      Field ''hiddev_connect'' (CPtr ''int (struct hid_device *, unsigned int)''),
      Field ''hiddev_disconnect'' (CPtr ''void (struct hid_device *)''),
      Field ''hiddev_hid_event'' (CPtr ''void (struct hid_device *, struct hid_field *, struct hid_usage *, __s32)''),
      Field ''hiddev_report_event'' (CPtr ''void (struct hid_device *, struct hid_report *)''),
      Field ''debug'' short_unsigned_int,
      Field ''debug_dir'' (CPtr ''struct dentry''),
      Field ''debug_rdesc'' (CPtr ''struct dentry''),
      Field ''debug_events'' (CPtr ''struct dentry''),
      Field ''debug_list'' struct_list_head,
      Field ''debug_list_lock'' spinlock_t,
      Field ''debug_wait'' wait_queue_head_t,
      Field ''ref'' struct_kref,
      Field ''id'' unsigned_int,
      Field ''bpf'' struct_hid_bpf]"

definition struct_hid_driver :: cty where
  "struct_hid_driver = CStruct ''hid_driver'' False
     [Field ''name'' (CPtr ''const char''),
      Field ''id_table'' (CPtr ''const struct hid_device_id''),
      Field ''dyn_list'' struct_list_head,
      Field ''dyn_lock'' spinlock_t,
      Field ''match'' (CPtr ''bool (struct hid_device *, bool)''),
      Field ''probe'' (CPtr ''int (struct hid_device *, const struct hid_device_id *)''),
      Field ''remove'' (CPtr ''void (struct hid_device *)''),
      Field ''report_table'' (CPtr ''const struct hid_report_id''),
      Field ''raw_event'' (CPtr ''int (struct hid_device *, struct hid_report *, u8 *, int)''),
      Field ''usage_table'' (CPtr ''const struct hid_usage_id''),
      Field ''event'' (CPtr ''int (struct hid_device *, struct hid_field *, struct hid_usage *, __s32)''),
      Field ''report'' (CPtr ''void (struct hid_device *, struct hid_report *)''),
      Field ''report_fixup'' (CPtr ''const __u8 * (struct hid_device *, __u8 *, unsigned int *)''),
      Field ''input_mapping'' (CPtr ''int (struct hid_device *, struct hid_input *, struct hid_field *, struct hid_usage *, long unsigned int **, int *)''),
      Field ''input_mapped'' (CPtr ''int (struct hid_device *, struct hid_input *, struct hid_field *, struct hid_usage *, long unsigned int **, int *)''),
      Field ''input_configured'' (CPtr ''int (struct hid_device *, struct hid_input *)''),
      Field ''feature_mapping'' (CPtr ''void (struct hid_device *, struct hid_field *, struct hid_usage *)''),
      Field ''suspend'' (CPtr ''int (struct hid_device *, pm_message_t)''),
      Field ''resume'' (CPtr ''int (struct hid_device *)''),
      Field ''reset_resume'' (CPtr ''int (struct hid_device *)''),
      Field ''on_hid_hw_open'' (CPtr ''void (struct hid_device *)''),
      Field ''on_hid_hw_close'' (CPtr ''void (struct hid_device *)''),
      Field ''driver'' struct_device_driver]"

definition struct_hid_field :: cty where
  "struct_hid_field = CStruct ''hid_field'' False
     [Field ''physical'' unsigned_int,
      Field ''logical'' unsigned_int,
      Field ''application'' unsigned_int,
      Field ''usage'' (CPtr ''struct hid_usage''),
      Field ''maxusage'' unsigned_int,
      Field ''flags'' unsigned_int,
      Field ''report_offset'' unsigned_int,
      Field ''report_size'' unsigned_int,
      Field ''report_count'' unsigned_int,
      Field ''report_type'' unsigned_int,
      Field ''value'' (CPtr ''__s32''),
      Field ''new_value'' (CPtr ''__s32''),
      Field ''usages_priorities'' (CPtr ''__s32''),
      Field ''logical_minimum'' c__s32,
      Field ''logical_maximum'' c__s32,
      Field ''physical_minimum'' c__s32,
      Field ''physical_maximum'' c__s32,
      Field ''unit_exponent'' c__s32,
      Field ''unit'' unsigned_int,
      Field ''ignored'' bool,
      Field ''report'' (CPtr ''struct hid_report''),
      Field ''index'' unsigned_int,
      Field ''hidinput'' (CPtr ''struct hid_input''),
      Field ''dpad'' c__u16,
      Field ''slot_idx'' unsigned_int]"

definition struct_tracing_map_sort_key :: cty where
  "struct_tracing_map_sort_key = CStruct ''tracing_map_sort_key'' False
     [Field ''field_idx'' unsigned_int,
      Field ''descending'' bool]"

definition struct_hist_trigger_data :: cty where
  "struct_hist_trigger_data = CStruct ''hist_trigger_data'' False
     [Field ''fields'' (CArr 22 (CPtr ''struct hist_field'')),
      Field ''n_vals'' unsigned_int,
      Field ''n_keys'' unsigned_int,
      Field ''n_fields'' unsigned_int,
      Field ''n_vars'' unsigned_int,
      Field ''n_var_str'' unsigned_int,
      Field ''key_size'' unsigned_int,
      Field ''sort_keys'' (CArr 2 struct_tracing_map_sort_key),
      Field ''n_sort_keys'' unsigned_int,
      Field ''event_file'' (CPtr ''struct trace_event_file''),
      Field ''attrs'' (CPtr ''struct hist_trigger_attrs''),
      Field ''map'' (CPtr ''struct tracing_map''),
      Field ''enable_timestamps'' bool,
      Field ''remove'' bool,
      Field ''var_refs'' (CArr 16 (CPtr ''struct hist_field'')),
      Field ''n_var_refs'' unsigned_int,
      Field ''actions'' (CArr 8 (CPtr ''struct action_data'')),
      Field ''n_actions'' unsigned_int,
      Field ''field_vars'' (CArr 64 (CPtr ''struct field_var'')),
      Field ''n_field_vars'' unsigned_int,
      Field ''n_field_var_str'' unsigned_int,
      Field ''field_var_hists'' (CArr 64 (CPtr ''struct field_var_hist'')),
      Field ''n_field_var_hists'' unsigned_int,
      Field ''save_vars'' (CArr 64 (CPtr ''struct field_var'')),
      Field ''n_save_vars'' unsigned_int,
      Field ''n_save_var_str'' unsigned_int]"

definition hv_pci_rid :: cty where [layout_simps]:
  "hv_pci_rid = u16"

definition hv_pci_segment :: cty where [layout_simps]:
  "hv_pci_segment = u16"

definition union_hv_device_id :: cty where
  "union_hv_device_id = CUnion ''hv_device_id'' False
     [Field ''as_uint64'' u64,
      Field [] (CStruct [] False
        [BitField ''reserved0'' u64 62,
         BitField ''device_type'' u64 2]),
      Field ''logical'' (CStruct [] False
        [BitField ''id'' u64 62,
         BitField ''device_type'' u64 2]),
      Field ''pci'' (CStruct [] False
        [Field [] (CUnion [] False
           [Field ''rid'' hv_pci_rid,
            Field ''bdf'' union_hv_pci_bdf]),
         Field ''segment'' hv_pci_segment,
         Field ''shadow_bus_range'' union_hv_pci_bus_range,
         BitField ''phantom_function_bits'' u16 2,
         BitField ''source_shadow'' u16 1,
         BitField ''rsvdz0'' u16 11,
         BitField ''device_type'' u16 2]),
      Field ''ioapic'' (CStruct [] False
        [Field ''ioapic_id'' u8,
         Field ''rsvdz0'' u8,
         Field ''rsvdz1'' u16,
         Field ''rsvdz2'' u16,
         BitField ''rsvdz3'' u16 14,
         BitField ''device_type'' u16 2]),
      Field ''acpi'' (CStruct [] False
        [Field ''input_mapping_base'' u32,
         BitField ''input_mapping_count'' u32 30,
         BitField ''device_type'' u32 2])]"

definition struct_ghcb :: cty where
  "struct_ghcb = CStruct ''ghcb'' False
     [Field ''save'' struct_ghcb_save_area,
      Field ''reserved_save'' (CArr 1016 u8),
      Field ''shared_buffer'' (CArr 2032 u8),
      Field ''reserved_0xff0'' (CArr 10 u8),
      Field ''protocol_version'' u16,
      Field ''ghcb_usage'' u32]"

definition union_hv_ghcb :: cty where
  "union_hv_ghcb = CUnion ''hv_ghcb'' False
     [Field ''ghcb'' struct_ghcb,
      Field ''hypercall'' (CStruct [] False
        [Field ''hypercalldata'' (CArr 509 u64),
         Field ''outputgpa'' u64,
         Field [] (CUnion [] False
           [Field ''hypercallinput'' (CUnion [] False
              [Field [] (CStruct [] False
                 [BitField ''callcode'' u32 16,
                  BitField ''isfast'' u32 1,
                  BitField ''reserved1'' u32 14,
                  BitField ''isnested'' u32 1,
                  BitField ''countofelements'' u32 12,
                  BitField ''reserved2'' u32 4,
                  BitField ''repstartindex'' u32 12,
                  BitField ''reserved3'' u32 4]),
               Field ''asuint64'' u64]),
            Field ''hypercalloutput'' (CUnion [] False
              [Field [] (CStruct [] False
                 [Field ''callstatus'' u16,
                  Field ''reserved1'' u16,
                  BitField ''elementsprocessed'' u32 12,
                  BitField ''reserved2'' u32 20]),
               Field ''asunit64'' u64])]),
         Field ''reserved2'' u64])]"

definition struct_user_regs_struct32 :: cty where
  "struct_user_regs_struct32 = CStruct ''user_regs_struct32'' False
     [Field ''ebx'' c__u32,
      Field ''ecx'' c__u32,
      Field ''edx'' c__u32,
      Field ''esi'' c__u32,
      Field ''edi'' c__u32,
      Field ''ebp'' c__u32,
      Field ''eax'' c__u32,
      Field ''ds'' short_unsigned_int,
      Field ''__ds'' short_unsigned_int,
      Field ''es'' short_unsigned_int,
      Field ''__es'' short_unsigned_int,
      Field ''fs'' short_unsigned_int,
      Field ''__fs'' short_unsigned_int,
      Field ''gs'' short_unsigned_int,
      Field ''__gs'' short_unsigned_int,
      Field ''orig_eax'' c__u32,
      Field ''eip'' c__u32,
      Field ''cs'' short_unsigned_int,
      Field ''__cs'' short_unsigned_int,
      Field ''eflags'' c__u32,
      Field ''esp'' c__u32,
      Field ''ss'' short_unsigned_int,
      Field ''__ss'' short_unsigned_int]"

definition enum_ib_mtu :: cty where
  "enum_ib_mtu = CEnum 4
     [(''IB_MTU_256'', 1), (''IB_MTU_512'', 2), (''IB_MTU_1024'', 3), (''IB_MTU_2048'', 4),
      (''IB_MTU_4096'', 5)]"

definition struct_ib_port_attr :: cty where
  "struct_ib_port_attr = CStruct ''ib_port_attr'' False
     [Field ''subnet_prefix'' u64,
      Field ''state'' enum_ib_port_state,
      Field ''max_mtu'' enum_ib_mtu,
      Field ''active_mtu'' enum_ib_mtu,
      Field ''phys_mtu'' u32,
      Field ''gid_tbl_len'' c_int,
      BitField ''ip_gids'' unsigned_int 1,
      Field ''port_cap_flags'' u32,
      Field ''max_msg_sz'' u32,
      Field ''bad_pkey_cntr'' u32,
      Field ''qkey_viol_cntr'' u32,
      Field ''pkey_tbl_len'' u16,
      Field ''sm_lid'' u32,
      Field ''lid'' u32,
      Field ''lmc'' u8,
      Field ''max_vl_num'' u8,
      Field ''sm_sl'' u8,
      Field ''subnet_timeout'' u8,
      Field ''init_type_reply'' u8,
      Field ''active_width'' u8,
      Field ''active_speed'' u16,
      Field ''phys_state'' u8,
      Field ''port_cap_flags2'' u16]"

definition enum_ib_qp_type :: cty where
  "enum_ib_qp_type = CEnum 4
     [(''IB_QPT_SMI'', 0), (''IB_QPT_GSI'', 1), (''IB_QPT_RC'', 2), (''IB_QPT_UC'', 3),
      (''IB_QPT_UD'', 4), (''IB_QPT_RAW_IPV6'', 5), (''IB_QPT_RAW_ETHERTYPE'', 6),
      (''IB_QPT_RAW_PACKET'', 8), (''IB_QPT_XRC_INI'', 9), (''IB_QPT_XRC_TGT'', 10),
      (''IB_QPT_MAX'', 11), (''IB_QPT_DRIVER'', 255), (''IB_QPT_RESERVED1'', 4096),
      (''IB_QPT_RESERVED2'', 4097), (''IB_QPT_RESERVED3'', 4098), (''IB_QPT_RESERVED4'', 4099),
      (''IB_QPT_RESERVED5'', 4100), (''IB_QPT_RESERVED6'', 4101), (''IB_QPT_RESERVED7'', 4102),
      (''IB_QPT_RESERVED8'', 4103), (''IB_QPT_RESERVED9'', 4104), (''IB_QPT_RESERVED10'', 4105)]"

definition struct_ib_qp :: cty where
  "struct_ib_qp = CStruct ''ib_qp'' False
     [Field ''device'' (CPtr ''struct ib_device''),
      Field ''pd'' (CPtr ''struct ib_pd''),
      Field ''send_cq'' (CPtr ''struct ib_cq''),
      Field ''recv_cq'' (CPtr ''struct ib_cq''),
      Field ''mr_lock'' spinlock_t,
      Field ''mrs_used'' c_int,
      Field ''rdma_mrs'' struct_list_head,
      Field ''sig_mrs'' struct_list_head,
      Field ''srq'' (CPtr ''struct ib_srq''),
      Field ''srq_completion'' struct_completion,
      Field ''xrcd'' (CPtr ''struct ib_xrcd''),
      Field ''xrcd_list'' struct_list_head,
      Field ''usecnt'' atomic_t,
      Field ''open_list'' struct_list_head,
      Field ''real_qp'' (CPtr ''struct ib_qp''),
      Field ''uobject'' (CPtr ''struct ib_uqp_object''),
      Field ''event_handler'' (CPtr ''void (struct ib_event *, void *)''),
      Field ''registered_event_handler'' (CPtr ''void (struct ib_event *, void *)''),
      Field ''qp_context'' (CPtr ''void''),
      Field ''av_sgid_attr'' (CPtr ''const struct ib_gid_attr''),
      Field ''alt_path_sgid_attr'' (CPtr ''const struct ib_gid_attr''),
      Field ''qp_num'' u32,
      Field ''max_write_sge'' u32,
      Field ''max_read_sge'' u32,
      Field ''qp_type'' enum_ib_qp_type,
      Field ''rwq_ind_tbl'' (CPtr ''struct ib_rwq_ind_table''),
      Field ''qp_sec'' (CPtr ''struct ib_qp_security''),
      Field ''port'' u32,
      Field ''integrity_en'' bool,
      Field ''res'' struct_rdma_restrack_entry,
      Field ''counter'' (CPtr ''struct rdma_counter'')]"

definition enum_ib_qp_state :: cty where
  "enum_ib_qp_state = CEnum 4
     [(''IB_QPS_RESET'', 0), (''IB_QPS_INIT'', 1), (''IB_QPS_RTR'', 2), (''IB_QPS_RTS'', 3),
      (''IB_QPS_SQD'', 4), (''IB_QPS_SQE'', 5), (''IB_QPS_ERR'', 6)]"

definition enum_ib_mig_state :: cty where
  "enum_ib_mig_state = CEnum 4
     [(''IB_MIG_MIGRATED'', 0), (''IB_MIG_REARM'', 1), (''IB_MIG_ARMED'', 2)]"

definition struct_ib_qp_cap :: cty where
  "struct_ib_qp_cap = CStruct ''ib_qp_cap'' False
     [Field ''max_send_wr'' u32,
      Field ''max_recv_wr'' u32,
      Field ''max_send_sge'' u32,
      Field ''max_recv_sge'' u32,
      Field ''max_inline_data'' u32,
      Field ''max_rdma_ctxs'' u32]"

definition struct_ib_qp_attr :: cty where
  "struct_ib_qp_attr = CStruct ''ib_qp_attr'' False
     [Field ''qp_state'' enum_ib_qp_state,
      Field ''cur_qp_state'' enum_ib_qp_state,
      Field ''path_mtu'' enum_ib_mtu,
      Field ''path_mig_state'' enum_ib_mig_state,
      Field ''qkey'' u32,
      Field ''rq_psn'' u32,
      Field ''sq_psn'' u32,
      Field ''dest_qp_num'' u32,
      Field ''qp_access_flags'' c_int,
      Field ''cap'' struct_ib_qp_cap,
      Field ''ah_attr'' struct_rdma_ah_attr,
      Field ''alt_ah_attr'' struct_rdma_ah_attr,
      Field ''pkey_index'' u16,
      Field ''alt_pkey_index'' u16,
      Field ''en_sqd_async_notify'' u8,
      Field ''sq_draining'' u8,
      Field ''max_rd_atomic'' u8,
      Field ''max_dest_rd_atomic'' u8,
      Field ''min_rnr_timer'' u8,
      Field ''port_num'' u32,
      Field ''timeout'' u8,
      Field ''retry_cnt'' u8,
      Field ''rnr_retry'' u8,
      Field ''alt_port_num'' u32,
      Field ''alt_timeout'' u8,
      Field ''rate_limit'' u32,
      Field ''xmit_slave'' (CPtr ''struct net_device'')]"

definition enum_ib_wc_status :: cty where
  "enum_ib_wc_status = CEnum 4
     [(''IB_WC_SUCCESS'', 0), (''IB_WC_LOC_LEN_ERR'', 1), (''IB_WC_LOC_QP_OP_ERR'', 2),
      (''IB_WC_LOC_EEC_OP_ERR'', 3), (''IB_WC_LOC_PROT_ERR'', 4), (''IB_WC_WR_FLUSH_ERR'', 5),
      (''IB_WC_MW_BIND_ERR'', 6), (''IB_WC_BAD_RESP_ERR'', 7), (''IB_WC_LOC_ACCESS_ERR'', 8),
      (''IB_WC_REM_INV_REQ_ERR'', 9), (''IB_WC_REM_ACCESS_ERR'', 10),
      (''IB_WC_REM_OP_ERR'', 11), (''IB_WC_RETRY_EXC_ERR'', 12),
      (''IB_WC_RNR_RETRY_EXC_ERR'', 13), (''IB_WC_LOC_RDD_VIOL_ERR'', 14),
      (''IB_WC_REM_INV_RD_REQ_ERR'', 15), (''IB_WC_REM_ABORT_ERR'', 16),
      (''IB_WC_INV_EECN_ERR'', 17), (''IB_WC_INV_EEC_STATE_ERR'', 18),
      (''IB_WC_FATAL_ERR'', 19), (''IB_WC_RESP_TIMEOUT_ERR'', 20), (''IB_WC_GENERAL_ERR'', 21)]"

definition enum_ib_wc_opcode :: cty where
  "enum_ib_wc_opcode = CEnum 4
     [(''IB_WC_SEND'', 0), (''IB_WC_RDMA_WRITE'', 1), (''IB_WC_RDMA_READ'', 2),
      (''IB_WC_COMP_SWAP'', 3), (''IB_WC_FETCH_ADD'', 4), (''IB_WC_BIND_MW'', 5),
      (''IB_WC_LOCAL_INV'', 6), (''IB_WC_LSO'', 7), (''IB_WC_ATOMIC_WRITE'', 9),
      (''IB_WC_REG_MR'', 10), (''IB_WC_MASKED_COMP_SWAP'', 11),
      (''IB_WC_MASKED_FETCH_ADD'', 12), (''IB_WC_FLUSH'', 8), (''IB_WC_RECV'', 128),
      (''IB_WC_RECV_RDMA_WITH_IMM'', 129)]"

definition struct_ib_wc :: cty where
  "struct_ib_wc = CStruct ''ib_wc'' False
     [Field [] (CUnion [] False
        [Field ''wr_id'' u64,
         Field ''wr_cqe'' (CPtr ''struct ib_cqe'')]),
      Field ''status'' enum_ib_wc_status,
      Field ''opcode'' enum_ib_wc_opcode,
      Field ''vendor_err'' u32,
      Field ''byte_len'' u32,
      Field ''qp'' (CPtr ''struct ib_qp''),
      Field ''ex'' (CUnion [] False
        [Field ''imm_data'' c__be32,
         Field ''invalidate_rkey'' u32]),
      Field ''src_qp'' u32,
      Field ''slid'' u32,
      Field ''wc_flags'' c_int,
      Field ''pkey_index'' u16,
      Field ''sl'' u8,
      Field ''dlid_path_bits'' u8,
      Field ''port_num'' u32,
      Field ''smac'' (CArr 6 u8),
      Field ''vlan_id'' u16,
      Field ''network_hdr_type'' u8]"

definition union_ibs_op_data3 :: cty where
  "union_ibs_op_data3 = CUnion ''ibs_op_data3'' False
     [Field ''val'' c__u64,
      Field [] (CStruct [] False
        [BitField ''ld_op'' c__u64 1,
         BitField ''st_op'' c__u64 1,
         BitField ''dc_l1tlb_miss'' c__u64 1,
         BitField ''dc_l2tlb_miss'' c__u64 1,
         BitField ''dc_l1tlb_hit_2m'' c__u64 1,
         BitField ''dc_l1tlb_hit_1g'' c__u64 1,
         BitField ''dc_l2tlb_hit_2m'' c__u64 1,
         BitField ''dc_miss'' c__u64 1,
         BitField ''dc_mis_acc'' c__u64 1,
         BitField ''reserved'' c__u64 4,
         BitField ''dc_wc_mem_acc'' c__u64 1,
         BitField ''dc_uc_mem_acc'' c__u64 1,
         BitField ''dc_locked_op'' c__u64 1,
         BitField ''dc_miss_no_mab_alloc'' c__u64 1,
         BitField ''dc_lin_addr_valid'' c__u64 1,
         BitField ''dc_phy_addr_valid'' c__u64 1,
         BitField ''dc_l2_tlb_hit_1g'' c__u64 1,
         BitField ''l2_miss'' c__u64 1,
         BitField ''sw_pf'' c__u64 1,
         BitField ''op_mem_width'' c__u64 4,
         BitField ''op_dc_miss_open_mem_reqs'' c__u64 6,
         BitField ''dc_miss_lat'' c__u64 16,
         BitField ''tlb_refill_lat'' c__u64 16])]"

definition enum_ima_hooks :: cty where
  "enum_ima_hooks = CEnum 4
     [(''NONE___2'', 0), (''FILE_CHECK'', 1), (''MMAP_CHECK'', 2), (''MMAP_CHECK_REQPROT'', 3),
      (''BPRM_CHECK'', 4), (''CREDS_CHECK'', 5), (''POST_SETATTR'', 6), (''MODULE_CHECK'', 7),
      (''FIRMWARE_CHECK'', 8), (''KEXEC_KERNEL_CHECK'', 9), (''KEXEC_INITRAMFS_CHECK'', 10),
      (''POLICY_CHECK'', 11), (''KEXEC_CMDLINE'', 12), (''KEY_CHECK'', 13),
      (''CRITICAL_DATA'', 14), (''SETXATTR_CHECK'', 15), (''MAX_CHECK'', 16)]"

definition struct_ima_rule_entry :: cty where
  "struct_ima_rule_entry = CStruct ''ima_rule_entry'' False
     [Field ''list'' struct_list_head,
      Field ''action'' c_int,
      Field ''flags'' unsigned_int,
      Field ''func'' enum_ima_hooks,
      Field ''mask'' c_int,
      Field ''fsmagic'' long_unsigned_int,
      Field ''fsuuid'' uuid_t,
      Field ''uid'' kuid_t,
      Field ''gid'' kgid_t,
      Field ''fowner'' kuid_t,
      Field ''fgroup'' kgid_t,
      Field ''uid_op'' (CPtr ''bool (kuid_t, kuid_t)''),
      Field ''gid_op'' (CPtr ''bool (kgid_t, kgid_t)''),
      Field ''fowner_op'' (CPtr ''bool (vfsuid_t, kuid_t)''),
      Field ''fgroup_op'' (CPtr ''bool (vfsgid_t, kgid_t)''),
      Field ''pcr'' c_int,
      Field ''allowed_algos'' unsigned_int,
      Field ''lsm'' (CArr 6 (CStruct [] False
        [Field ''rule'' (CPtr ''void''),
         Field ''args_p'' (CPtr ''char''),
         Field ''type'' c_int])),
      Field ''fsname'' (CPtr ''char''),
      Field ''fs_subtype'' (CPtr ''char''),
      Field ''keyrings'' (CPtr ''struct ima_rule_opt_list''),
      Field ''label'' (CPtr ''struct ima_rule_opt_list''),
      Field ''template'' (CPtr ''struct ima_template_desc'')]"

definition struct_inet6_ifaddr :: cty where
  "struct_inet6_ifaddr = CStruct ''inet6_ifaddr'' False
     [Field ''addr'' struct_in6_addr,
      Field ''prefix_len'' c__u32,
      Field ''rt_priority'' c__u32,
      Field ''valid_lft'' c__u32,
      Field ''prefered_lft'' c__u32,
      Field ''refcnt'' refcount_t,
      Field ''lock'' spinlock_t,
      Field ''state'' c_int,
      Field ''flags'' c__u32,
      Field ''dad_probes'' c__u8,
      Field ''stable_privacy_retry'' c__u8,
      Field ''scope'' c__u16,
      Field ''dad_nonce'' c__u64,
      Field ''cstamp'' long_unsigned_int,
      Field ''tstamp'' long_unsigned_int,
      Field ''dad_work'' struct_delayed_work,
      Field ''idev'' (CPtr ''struct inet6_dev''),
      Field ''rt'' (CPtr ''struct fib6_info''),
      Field ''addr_lst'' struct_hlist_node,
      Field ''if_list'' struct_list_head,
      Field ''if_list_aux'' struct_list_head,
      Field ''tmp_list'' struct_list_head,
      Field ''ifpub'' (CPtr ''struct inet6_ifaddr''),
      Field ''regen_count'' c_int,
      Field ''tokenized'' bool,
      Field ''ifa_proto'' u8,
      Field ''rcu'' struct_callback_head,
      Field ''peer_addr'' struct_in6_addr]"

definition inflate_mode :: cty where
  "inflate_mode = CEnum 4 [(''HEAD'', 0), (''FLAGS'', 1), (''TIME'', 2), (''OS'', 3), (''EXLEN'', 4), (''EXTRA'', 5),
         (''NAME'', 6), (''COMMENT'', 7), (''HCRC'', 8), (''DICTID'', 9), (''DICT'', 10),
         (''TYPE'', 11), (''TYPEDO'', 12), (''STORED'', 13), (''COPY'', 14), (''TABLE'', 15),
         (''LENLENS'', 16), (''CODELENS'', 17), (''LEN'', 18), (''LENEXT'', 19), (''DIST'', 20),
         (''DISTEXT'', 21), (''MATCH'', 22), (''LIT'', 23), (''CHECK'', 24), (''LENGTH'', 25),
         (''DONE'', 26), (''BAD'', 27), (''MEM'', 28), (''SYNC'', 29)]"

definition code :: cty where
  "code = CStruct [] False
      [Field ''op'' unsigned_char,
       Field ''bits'' unsigned_char,
       Field ''val'' short_unsigned_int]"

definition struct_inflate_state :: cty where
  "struct_inflate_state = CStruct ''inflate_state'' False
     [Field ''mode'' inflate_mode,
      Field ''last'' c_int,
      Field ''wrap'' c_int,
      Field ''havedict'' c_int,
      Field ''flags'' c_int,
      Field ''dmax'' unsigned_int,
      Field ''check'' long_unsigned_int,
      Field ''total'' long_unsigned_int,
      Field ''wbits'' unsigned_int,
      Field ''wsize'' unsigned_int,
      Field ''whave'' unsigned_int,
      Field ''write'' unsigned_int,
      Field ''window'' (CPtr ''unsigned char''),
      Field ''hold'' long_unsigned_int,
      Field ''bits'' unsigned_int,
      Field ''length'' unsigned_int,
      Field ''offset'' unsigned_int,
      Field ''extra'' unsigned_int,
      Field ''lencode'' (CPtr ''const code''),
      Field ''distcode'' (CPtr ''const code''),
      Field ''lenbits'' unsigned_int,
      Field ''distbits'' unsigned_int,
      Field ''ncode'' unsigned_int,
      Field ''nlen'' unsigned_int,
      Field ''ndist'' unsigned_int,
      Field ''have'' unsigned_int,
      Field ''next'' (CPtr ''code''),
      Field ''lens'' (CArr 320 short_unsigned_int),
      Field ''work'' (CArr 288 short_unsigned_int),
      Field ''codes'' (CArr 2048 code)]"

definition struct_input_id :: cty where
  "struct_input_id = CStruct ''input_id'' False
     [Field ''bustype'' c__u16,
      Field ''vendor'' c__u16,
      Field ''product'' c__u16,
      Field ''version'' c__u16]"

definition struct_input_dev :: cty where
  "struct_input_dev = CStruct ''input_dev'' False
     [Field ''name'' (CPtr ''const char''),
      Field ''phys'' (CPtr ''const char''),
      Field ''uniq'' (CPtr ''const char''),
      Field ''id'' struct_input_id,
      Field ''propbit'' (CArr 1 long_unsigned_int),
      Field ''evbit'' (CArr 1 long_unsigned_int),
      Field ''keybit'' (CArr 12 long_unsigned_int),
      Field ''relbit'' (CArr 1 long_unsigned_int),
      Field ''absbit'' (CArr 1 long_unsigned_int),
      Field ''mscbit'' (CArr 1 long_unsigned_int),
      Field ''ledbit'' (CArr 1 long_unsigned_int),
      Field ''sndbit'' (CArr 1 long_unsigned_int),
      Field ''ffbit'' (CArr 2 long_unsigned_int),
      Field ''swbit'' (CArr 1 long_unsigned_int),
      Field ''hint_events_per_packet'' unsigned_int,
      Field ''keycodemax'' unsigned_int,
      Field ''keycodesize'' unsigned_int,
      Field ''keycode'' (CPtr ''void''),
      Field ''setkeycode'' (CPtr ''int (struct input_dev *, const struct input_keymap_entry *, unsigned int *)''),
      Field ''getkeycode'' (CPtr ''int (struct input_dev *, struct input_keymap_entry *)''),
      Field ''ff'' (CPtr ''struct ff_device''),
      Field ''poller'' (CPtr ''struct input_dev_poller''),
      Field ''repeat_key'' unsigned_int,
      Field ''timer'' struct_timer_list,
      Field ''rep'' (CArr 2 c_int),
      Field ''mt'' (CPtr ''struct input_mt''),
      Field ''absinfo'' (CPtr ''struct input_absinfo''),
      Field ''key'' (CArr 12 long_unsigned_int),
      Field ''led'' (CArr 1 long_unsigned_int),
      Field ''snd'' (CArr 1 long_unsigned_int),
      Field ''sw'' (CArr 1 long_unsigned_int),
      Field ''open'' (CPtr ''int (struct input_dev *)''),
      Field ''close'' (CPtr ''void (struct input_dev *)''),
      Field ''flush'' (CPtr ''int (struct input_dev *, struct file *)''),
      Field ''event'' (CPtr ''int (struct input_dev *, unsigned int, unsigned int, int)''),
      Field ''grab'' (CPtr ''struct input_handle''),
      Field ''event_lock'' spinlock_t,
      Field ''mutex'' struct_mutex,
      Field ''users'' unsigned_int,
      Field ''going_away'' bool,
      Field ''dev'' struct_device,
      Field ''h_list'' struct_list_head,
      Field ''node'' struct_list_head,
      Field ''num_vals'' unsigned_int,
      Field ''max_vals'' unsigned_int,
      Field ''vals'' (CPtr ''struct input_value''),
      Field ''devres_managed'' bool,
      Field ''timestamp'' (CArr 3 ktime_t),
      Field ''inhibited'' bool]"

definition struct_iou_vec :: cty where
  "struct_iou_vec = CStruct ''iou_vec'' False
     [Field [] (CUnion [] False
        [Field ''iovec'' (CPtr ''struct iovec''),
         Field ''bvec'' (CPtr ''struct bio_vec'')]),
      Field ''nr'' unsigned_int]"

definition struct_iov_iter_state :: cty where
  "struct_iov_iter_state = CStruct ''iov_iter_state'' False
     [Field ''iov_offset'' size_t,
      Field ''count'' size_t,
      Field ''nr_segs'' long_unsigned_int]"

definition uio_meta_flags_t :: cty where [layout_simps]:
  "uio_meta_flags_t = c__u16"

definition struct_uio_meta :: cty where
  "struct_uio_meta = CStruct ''uio_meta'' False
     [Field ''flags'' uio_meta_flags_t,
      Field ''app_tag'' u16,
      Field ''seed'' u64,
      Field ''iter'' struct_iov_iter]"

definition struct_io_meta_state :: cty where
  "struct_io_meta_state = CStruct ''io_meta_state'' False
     [Field ''seed'' u32,
      Field ''iter_meta'' struct_iov_iter_state]"

definition struct_io_async_rw :: cty where
  "struct_io_async_rw = CStruct ''io_async_rw'' False
     [Field ''vec'' struct_iou_vec,
      Field ''bytes_done'' size_t,
      Field [] (CUnion [] False
        [Field [] (CStruct [] False
           [Field ''iter'' struct_iov_iter,
            Field ''iter_state'' struct_iov_iter_state,
            Field ''fast_iov'' struct_iovec,
            Field ''buf_group'' unsigned_int,
            Field [] (CUnion [] False
              [Field ''wpq'' struct_wait_page_queue,
               Field [] (CStruct [] False
                 [Field ''meta'' struct_uio_meta,
                  Field ''meta_state'' struct_io_meta_state])])]),
         Field ''clear'' (CStruct [] False
           [Field ''iter'' struct_iov_iter,
            Field ''iter_state'' struct_iov_iter_state,
            Field ''fast_iov'' struct_iovec,
            Field ''buf_group'' unsigned_int,
            Field [] (CUnion [] False
              [Field ''wpq'' struct_wait_page_queue,
               Field [] (CStruct [] False
                 [Field ''meta'' struct_uio_meta,
                  Field ''meta_state'' struct_io_meta_state])])])])]"

definition struct_ioam6_trace_hdr :: cty where
  "struct_ioam6_trace_hdr = CStruct ''ioam6_trace_hdr'' False
     [Field ''namespace_id'' c__be16,
      BitField [] c_char 2,
      BitField ''overflow'' c__u8 1,
      BitField ''nodelen'' c__u8 5,
      BitField ''remlen'' c__u8 7,
      Field [] (CUnion [] False
        [Field ''type_be32'' c__be32,
         Field ''type'' (CStruct [] False
           [BitField ''bit7'' c__u32 1,
            BitField ''bit6'' c__u32 1,
            BitField ''bit5'' c__u32 1,
            BitField ''bit4'' c__u32 1,
            BitField ''bit3'' c__u32 1,
            BitField ''bit2'' c__u32 1,
            BitField ''bit1'' c__u32 1,
            BitField ''bit0'' c__u32 1,
            BitField ''bit15'' c__u32 1,
            BitField ''bit14'' c__u32 1,
            BitField ''bit13'' c__u32 1,
            BitField ''bit12'' c__u32 1,
            BitField ''bit11'' c__u32 1,
            BitField ''bit10'' c__u32 1,
            BitField ''bit9'' c__u32 1,
            BitField ''bit8'' c__u32 1,
            BitField ''bit23'' c__u32 1,
            BitField ''bit22'' c__u32 1,
            BitField ''bit21'' c__u32 1,
            BitField ''bit20'' c__u32 1,
            BitField ''bit19'' c__u32 1,
            BitField ''bit18'' c__u32 1,
            BitField ''bit17'' c__u32 1,
            BitField ''bit16'' c__u32 1])]),
      Field ''data'' (CArr 0 c__u8)]"

definition struct_ioc_params :: cty where
  "struct_ioc_params = CStruct ''ioc_params'' False
     [Field ''qos'' (CArr 6 u32),
      Field ''i_lcoefs'' (CArr 6 u64),
      Field ''lcoefs'' (CArr 6 u64),
      Field ''too_fast_vrate_pct'' u32,
      Field ''too_slow_vrate_pct'' u32]"

definition struct_ioc_margins :: cty where
  "struct_ioc_margins = CStruct ''ioc_margins'' False
     [Field ''min'' s64,
      Field ''low'' s64,
      Field ''target'' s64]"

definition enum_ioc_running :: cty where
  "enum_ioc_running = CEnum 4
     [(''IOC_IDLE'', 0), (''IOC_RUNNING'', 1), (''IOC_STOP'', 2)]"

definition struct_ioc :: cty where
  "struct_ioc = CStruct ''ioc'' False
     [Field ''rqos'' struct_rq_qos,
      Field ''enabled'' bool,
      Field ''params'' struct_ioc_params,
      Field ''margins'' struct_ioc_margins,
      Field ''period_us'' u32,
      Field ''timer_slack_ns'' u32,
      Field ''vrate_min'' u64,
      Field ''vrate_max'' u64,
      Field ''lock'' spinlock_t,
      Field ''timer'' struct_timer_list,
      Field ''active_iocgs'' struct_list_head,
      Field ''pcpu_stat'' (CPtr ''struct ioc_pcpu_stat''),
      Field ''running'' enum_ioc_running,
      Field ''vtime_rate'' atomic64_t,
      Field ''vtime_base_rate'' u64,
      Field ''vtime_err'' s64,
      Field ''period_seqcount'' seqcount_spinlock_t,
      Field ''period_at'' u64,
      Field ''period_at_vtime'' u64,
      Field ''cur_period'' atomic64_t,
      Field ''busy_level'' c_int,
      Field ''weights_updated'' bool,
      Field ''hweight_gen'' atomic_t,
      Field ''dfgv_period_at'' u64,
      Field ''dfgv_period_rem'' u64,
      Field ''dfgv_usage_us_sum'' u64,
      Field ''autop_too_fast_at'' u64,
      Field ''autop_too_slow_at'' u64,
      Field ''autop_idx'' c_int,
      BitField ''user_qos_params'' bool 1,
      BitField ''user_cost_model'' bool 1]"

definition struct_iocg_stat :: cty where
  "struct_iocg_stat = CStruct ''iocg_stat'' False
     [Field ''usage_us'' u64,
      Field ''wait_us'' u64,
      Field ''indebt_us'' u64,
      Field ''indelay_us'' u64]"

definition struct_ioc_gq :: cty where
  "struct_ioc_gq = CStruct ''ioc_gq'' False
     [Field ''pd'' struct_blkg_policy_data,
      Field ''ioc'' (CPtr ''struct ioc''),
      Field ''cfg_weight'' u32,
      Field ''weight'' u32,
      Field ''active'' u32,
      Field ''inuse'' u32,
      Field ''last_inuse'' u32,
      Field ''saved_margin'' s64,
      Field ''cursor'' sector_t,
      Field ''vtime'' atomic64_t,
      Field ''done_vtime'' atomic64_t,
      Field ''abs_vdebt'' u64,
      Field ''delay'' u64,
      Field ''delay_at'' u64,
      Field ''active_period'' atomic64_t,
      Field ''active_list'' struct_list_head,
      Field ''child_active_sum'' u64,
      Field ''child_inuse_sum'' u64,
      Field ''child_adjusted_sum'' u64,
      Field ''hweight_gen'' c_int,
      Field ''hweight_active'' u32,
      Field ''hweight_inuse'' u32,
      Field ''hweight_donating'' u32,
      Field ''hweight_after_donation'' u32,
      Field ''walk_list'' struct_list_head,
      Field ''surplus_list'' struct_list_head,
      Field ''waitq'' struct_wait_queue_head,
      Field ''waitq_timer'' struct_hrtimer,
      Field ''activated_at'' u64,
      Field ''pcpu_stat'' (CPtr ''struct iocg_pcpu_stat''),
      Field ''stat'' struct_iocg_stat,
      Field ''last_stat'' struct_iocg_stat,
      Field ''last_stat_abs_vusage'' u64,
      Field ''usage_delta_us'' u64,
      Field ''wait_since'' u64,
      Field ''indebt_since'' u64,
      Field ''indelay_since'' u64,
      Field ''level'' c_int,
      Field ''ancestors'' (CArr 0 (CPtr ''struct ioc_gq''))]"

definition struct_dst_cache :: cty where
  "struct_dst_cache = CStruct ''dst_cache'' False
     [Field ''cache'' (CPtr ''struct dst_cache_pcpu''),
      Field ''reset_ts'' long_unsigned_int]"

definition struct_ip_tunnel_parm_kern :: cty where
  "struct_ip_tunnel_parm_kern = CStruct ''ip_tunnel_parm_kern'' False
     [Field ''name'' (CArr 16 c_char),
      Field ''i_flags'' (CArr 1 long_unsigned_int),
      Field ''o_flags'' (CArr 1 long_unsigned_int),
      Field ''i_key'' c__be32,
      Field ''o_key'' c__be32,
      Field ''link'' c_int,
      Field ''iph'' struct_iphdr]"

definition struct_ip_tunnel_encap :: cty where
  "struct_ip_tunnel_encap = CStruct ''ip_tunnel_encap'' False
     [Field ''type'' u16,
      Field ''flags'' u16,
      Field ''sport'' c__be16,
      Field ''dport'' c__be16]"

definition struct_ip_tunnel_6rd_parm :: cty where
  "struct_ip_tunnel_6rd_parm = CStruct ''ip_tunnel_6rd_parm'' False
     [Field ''prefix'' struct_in6_addr,
      Field ''relay_prefix'' c__be32,
      Field ''prefixlen'' u16,
      Field ''relay_prefixlen'' u16]"

definition struct_ip_tunnel_fan :: cty where
  "struct_ip_tunnel_fan = CStruct ''ip_tunnel_fan'' False
     [Field ''fan_maps'' struct_list_head]"

definition struct_gro_cells :: cty where
  "struct_gro_cells = CStruct ''gro_cells'' False
     [Field ''cells'' (CPtr ''struct gro_cell'')]"

definition struct_ip_tunnel :: cty where
  "struct_ip_tunnel = CStruct ''ip_tunnel'' False
     [Field ''next'' (CPtr ''struct ip_tunnel''),
      Field ''hash_node'' struct_hlist_node,
      Field ''dev'' (CPtr ''struct net_device''),
      Field ''dev_tracker'' netdevice_tracker,
      Field ''net'' (CPtr ''struct net''),
      Field ''err_time'' long_unsigned_int,
      Field ''err_count'' c_int,
      Field ''i_seqno'' u32,
      Field ''o_seqno'' atomic_t,
      Field ''tun_hlen'' c_int,
      Field ''index'' u32,
      Field ''erspan_ver'' u8,
      Field ''dir'' u8,
      Field ''hwid'' u16,
      Field ''dst_cache'' struct_dst_cache,
      Field ''parms'' struct_ip_tunnel_parm_kern,
      Field ''mlink'' c_int,
      Field ''encap_hlen'' c_int,
      Field ''hlen'' c_int,
      Field ''encap'' struct_ip_tunnel_encap,
      Field ''ip6rd'' struct_ip_tunnel_6rd_parm,
      Field ''prl'' (CPtr ''struct ip_tunnel_prl_entry''),
      Field ''prl_count'' unsigned_int,
      Field ''fan'' struct_ip_tunnel_fan,
      Field ''ip_tnl_net_id'' unsigned_int,
      Field ''gro_cells'' struct_gro_cells,
      Field ''fwmark'' c__u32,
      Field ''collect_md'' bool,
      Field ''ignore_df'' bool]"

definition struct_ipv6_stub :: cty where
  "struct_ipv6_stub = CStruct ''ipv6_stub'' False
     [Field ''ipv6_sock_mc_join'' (CPtr ''int (struct sock *, int, const struct in6_addr *)''),
      Field ''ipv6_sock_mc_drop'' (CPtr ''int (struct sock *, int, const struct in6_addr *)''),
      Field ''ipv6_dst_lookup_flow'' (CPtr ''struct dst_entry * (struct net *, const struct sock *, struct flowi6 *, const struct in6_addr *)''),
      Field ''ipv6_route_input'' (CPtr ''int (struct sk_buff *)''),
      Field ''fib6_get_table'' (CPtr ''struct fib6_table * (struct net *, u32)''),
      Field ''fib6_lookup'' (CPtr ''int (struct net *, int, struct flowi6 *, struct fib6_result *, int)''),
      Field ''fib6_table_lookup'' (CPtr ''int (struct net *, struct fib6_table *, int, struct flowi6 *, struct fib6_result *, int)''),
      Field ''fib6_select_path'' (CPtr ''void (const struct net *, struct fib6_result *, struct flowi6 *, int, bool, const struct sk_buff *, int)''),
      Field ''ip6_mtu_from_fib6'' (CPtr ''u32 (const struct fib6_result *, const struct in6_addr *, const struct in6_addr *)''),
      Field ''fib6_nh_init'' (CPtr ''int (struct net *, struct fib6_nh *, struct fib6_config *, gfp_t, struct netlink_ext_ack *)''),
      Field ''fib6_nh_release'' (CPtr ''void (struct fib6_nh *)''),
      Field ''fib6_nh_release_dsts'' (CPtr ''void (struct fib6_nh *)''),
      Field ''fib6_update_sernum'' (CPtr ''void (struct net *, struct fib6_info *)''),
      Field ''ip6_del_rt'' (CPtr ''int (struct net *, struct fib6_info *, bool)''),
      Field ''fib6_rt_update'' (CPtr ''void (struct net *, struct fib6_info *, struct nl_info *)''),
      Field ''udpv6_encap_enable'' (CPtr ''void (void)''),
      Field ''ndisc_send_na'' (CPtr ''void (struct net_device *, const struct in6_addr *, const struct in6_addr *, bool, bool, bool, bool)''),
      Field ''xfrm6_local_rxpmtu'' (CPtr ''void (struct sk_buff *, u32)''),
      Field ''xfrm6_udp_encap_rcv'' (CPtr ''int (struct sock *, struct sk_buff *)''),
      Field ''xfrm6_gro_udp_encap_rcv'' (CPtr ''struct sk_buff * (struct sock *, struct list_head *, struct sk_buff *)''),
      Field ''xfrm6_rcv_encap'' (CPtr ''int (struct sk_buff *, int, __be32, int)''),
      Field ''nd_tbl'' (CPtr ''struct neigh_table''),
      Field ''ipv6_fragment'' (CPtr ''int (struct net *, struct sock *, struct sk_buff *, int(*)(struct net *, struct sock *, struct sk_buff *))''),
      Field ''ipv6_dev_find'' (CPtr ''struct net_device * (struct net *, const struct in6_addr *, struct net_device *)''),
      Field ''ip6_xmit'' (CPtr ''int (const struct sock *, struct sk_buff *, struct flowi6 *, __u32, struct ipv6_txoptions *, int, u32)'')]"

definition struct_irq_redirect :: cty where
  "struct_irq_redirect = CStruct ''irq_redirect'' False
     [Field ''work'' struct_irq_work,
      Field ''target_cpu'' unsigned_int]"

definition struct_irq_desc :: cty where
  "struct_irq_desc = CStruct ''irq_desc'' False
     [Field ''irq_common_data'' struct_irq_common_data,
      Field ''irq_data'' struct_irq_data,
      Field ''kstat_irqs'' (CPtr ''struct irqstat''),
      Field ''handle_irq'' irq_flow_handler_t,
      Field ''action'' (CPtr ''struct irqaction''),
      Field ''status_use_accessors'' unsigned_int,
      Field ''core_internal_state__do_not_mess_with_it'' unsigned_int,
      Field ''depth'' unsigned_int,
      Field ''wake_depth'' unsigned_int,
      Field ''tot_count'' unsigned_int,
      Field ''irq_count'' unsigned_int,
      Field ''last_unhandled'' long_unsigned_int,
      Field ''irqs_unhandled'' unsigned_int,
      Field ''threads_handled'' atomic_t,
      Field ''threads_handled_last'' c_int,
      Field ''lock'' raw_spinlock_t,
      Field ''percpu_enabled'' (CPtr ''struct cpumask''),
      Field ''redirect'' struct_irq_redirect,
      Field ''affinity_hint'' (CPtr ''const struct cpumask''),
      Field ''affinity_notify'' (CPtr ''struct irq_affinity_notify''),
      Field ''pending_mask'' cpumask_var_t,
      Field ''threads_oneshot'' long_unsigned_int,
      Field ''threads_active'' atomic_t,
      Field ''wait_for_threads'' wait_queue_head_t,
      Field ''nr_actions'' unsigned_int,
      Field ''no_suspend_depth'' unsigned_int,
      Field ''cond_suspend_depth'' unsigned_int,
      Field ''force_resume_depth'' unsigned_int,
      Field ''dir'' (CPtr ''struct proc_dir_entry''),
      Field ''rcu'' struct_callback_head,
      Field ''kobj'' struct_kobject,
      Field ''request_mutex'' struct_mutex,
      Field ''parent_irq'' c_int,
      Field ''owner'' (CPtr ''struct module''),
      Field ''name'' (CPtr ''const char''),
      Field ''resend_node'' struct_hlist_node,
      BitField [] c_long 64,
      BitField [] c_long 64,
      BitField [] c_long 64,
      BitField [] c_long 64,
      BitField [] c_long 64,
      BitField [] c_long 64,
      BitField [] c_long 64]"

definition evtchn_port_t :: cty where [layout_simps]:
  "evtchn_port_t = uint32_t"

definition enum_ipi_vector :: cty where
  "enum_ipi_vector = CEnum 4
     [(''XEN_RESCHEDULE_VECTOR'', 0), (''XEN_CALL_FUNCTION_VECTOR'', 1),
      (''XEN_CALL_FUNCTION_SINGLE_VECTOR'', 2), (''XEN_SPIN_UNLOCK_VECTOR'', 3),
      (''XEN_IRQ_WORK_VECTOR'', 4), (''XEN_NMI_VECTOR'', 5), (''XEN_NR_IPIS'', 6)]"

definition struct_irq_info___2 :: cty where
  "struct_irq_info___2 = CStruct ''irq_info___2'' False
     [Field ''list'' struct_list_head,
      Field ''eoi_list'' struct_list_head,
      Field ''rwork'' struct_rcu_work,
      Field ''refcnt'' short_int,
      Field ''spurious_cnt'' u8,
      Field ''is_accounted'' u8,
      Field ''type'' short_int,
      Field ''mask_reason'' u8,
      Field ''is_active'' u8,
      Field ''irq'' unsigned_int,
      Field ''evtchn'' evtchn_port_t,
      Field ''cpu'' short_unsigned_int,
      Field ''eoi_cpu'' short_unsigned_int,
      Field ''irq_epoch'' unsigned_int,
      Field ''eoi_time'' u64,
      Field ''lock'' raw_spinlock_t,
      Field ''is_static'' bool,
      Field ''u'' (CUnion [] False
        [Field ''virq'' short_unsigned_int,
         Field ''ipi'' enum_ipi_vector,
         Field ''pirq'' (CStruct [] False
           [Field ''pirq'' short_unsigned_int,
            Field ''gsi'' short_unsigned_int,
            Field ''vector'' unsigned_char,
            Field ''flags'' unsigned_char,
            Field ''domid'' uint16_t]),
         Field ''interdomain'' (CPtr ''struct xenbus_device'')])]"

definition struct_transaction_run_stats_s :: cty where
  "struct_transaction_run_stats_s = CStruct ''transaction_run_stats_s'' False
     [Field ''rs_wait'' long_unsigned_int,
      Field ''rs_request_delay'' long_unsigned_int,
      Field ''rs_running'' long_unsigned_int,
      Field ''rs_locked'' long_unsigned_int,
      Field ''rs_flushing'' long_unsigned_int,
      Field ''rs_logging'' long_unsigned_int,
      Field ''rs_handle_count'' c__u32,
      Field ''rs_blocks'' c__u32,
      Field ''rs_blocks_logged'' c__u32]"

definition struct_transaction_stats_s :: cty where
  "struct_transaction_stats_s = CStruct ''transaction_stats_s'' False
     [Field ''ts_tid'' long_unsigned_int,
      Field ''ts_requested'' long_unsigned_int,
      Field ''run'' struct_transaction_run_stats_s]"

definition struct_journal_s :: cty where
  "struct_journal_s = CStruct ''journal_s'' False
     [Field ''j_flags'' long_unsigned_int,
      Field ''j_errno'' c_int,
      Field ''j_abort_mutex'' struct_mutex,
      Field ''j_sb_buffer'' (CPtr ''struct buffer_head''),
      Field ''j_superblock'' (CPtr ''journal_superblock_t''),
      Field ''j_state_lock'' rwlock_t,
      Field ''j_barrier_count'' c_int,
      Field ''j_barrier'' struct_mutex,
      Field ''j_running_transaction'' (CPtr ''transaction_t''),
      Field ''j_committing_transaction'' (CPtr ''transaction_t''),
      Field ''j_checkpoint_transactions'' (CPtr ''transaction_t''),
      Field ''j_wait_transaction_locked'' wait_queue_head_t,
      Field ''j_wait_done_commit'' wait_queue_head_t,
      Field ''j_wait_commit'' wait_queue_head_t,
      Field ''j_wait_updates'' wait_queue_head_t,
      Field ''j_wait_reserved'' wait_queue_head_t,
      Field ''j_fc_wait'' wait_queue_head_t,
      Field ''j_checkpoint_mutex'' struct_mutex,
      Field ''j_chkpt_bhs'' (CArr 64 (CPtr ''struct buffer_head'')),
      Field ''j_shrinker'' (CPtr ''struct shrinker''),
      Field ''j_checkpoint_jh_count'' struct_percpu_counter,
      Field ''j_shrink_transaction'' (CPtr ''transaction_t''),
      Field ''j_head'' long_unsigned_int,
      Field ''j_tail'' long_unsigned_int,
      Field ''j_free'' long_unsigned_int,
      Field ''j_first'' long_unsigned_int,
      Field ''j_last'' long_unsigned_int,
      Field ''j_fc_first'' long_unsigned_int,
      Field ''j_fc_off'' long_unsigned_int,
      Field ''j_fc_last'' long_unsigned_int,
      Field ''j_dev'' (CPtr ''struct block_device''),
      Field ''j_blocksize'' c_int,
      Field ''j_blk_offset'' long_long_unsigned_int,
      Field ''j_devname'' (CArr 56 c_char),
      Field ''j_fs_dev'' (CPtr ''struct block_device''),
      Field ''j_fs_dev_wb_err'' errseq_t,
      Field ''j_total_len'' unsigned_int,
      Field ''j_reserved_credits'' atomic_t,
      Field ''j_list_lock'' spinlock_t,
      Field ''j_inode'' (CPtr ''struct inode''),
      Field ''j_tail_sequence'' tid_t,
      Field ''j_transaction_sequence'' tid_t,
      Field ''j_commit_sequence'' tid_t,
      Field ''j_commit_request'' tid_t,
      Field ''j_uuid'' (CArr 16 c__u8),
      Field ''j_task'' (CPtr ''struct task_struct''),
      Field ''j_max_transaction_buffers'' c_int,
      Field ''j_revoke_records_per_block'' c_int,
      Field ''j_transaction_overhead_buffers'' c_int,
      Field ''j_commit_interval'' long_unsigned_int,
      Field ''j_commit_timer'' struct_timer_list,
      Field ''j_revoke_lock'' spinlock_t,
      Field ''j_revoke'' (CPtr ''struct jbd2_revoke_table_s''),
      Field ''j_revoke_table'' (CArr 2 (CPtr ''struct jbd2_revoke_table_s'')),
      Field ''j_wbuf'' (CPtr ''struct buffer_head *''),
      Field ''j_fc_wbuf'' (CPtr ''struct buffer_head *''),
      Field ''j_wbufsize'' c_int,
      Field ''j_fc_wbufsize'' c_int,
      Field ''j_last_sync_writer'' pid_t,
      Field ''j_average_commit_time'' u64,
      Field ''j_min_batch_time'' u32,
      Field ''j_max_batch_time'' u32,
      Field ''j_commit_callback'' (CPtr ''void (journal_t *, transaction_t *)''),
      Field ''j_submit_inode_data_buffers'' (CPtr ''int (struct jbd2_inode *)''),
      Field ''j_finish_inode_data_buffers'' (CPtr ''int (struct jbd2_inode *)''),
      Field ''j_history_lock'' spinlock_t,
      Field ''j_proc_entry'' (CPtr ''struct proc_dir_entry''),
      Field ''j_stats'' struct_transaction_stats_s,
      Field ''j_failed_commit'' unsigned_int,
      Field ''j_private'' (CPtr ''void''),
      Field ''j_csum_seed'' c__u32,
      Field ''jbd2_trans_commit_key'' struct_lock_class_key,
      Field ''j_fc_cleanup_callback'' (CPtr ''void (struct journal_s *, int, tid_t)''),
      Field ''j_fc_replay_callback'' (CPtr ''int (struct journal_s *, struct buffer_head *, enum passtype, int, tid_t)''),
      Field ''j_bmap'' (CPtr ''int (struct journal_s *, sector_t *)'')]"

definition timer_t :: cty where [layout_simps]:
  "timer_t = c__kernel_timer_t"

definition struct_sigqueue :: cty where
  "struct_sigqueue = CStruct ''sigqueue'' False
     [Field ''list'' struct_list_head,
      Field ''flags'' c_int,
      Field ''info'' kernel_siginfo_t,
      Field ''ucounts'' (CPtr ''struct ucounts'')]"

definition struct_cpu_timer :: cty where
  "struct_cpu_timer = CStruct ''cpu_timer'' False
     [Field ''node'' struct_timerqueue_node,
      Field ''head'' (CPtr ''struct timerqueue_head''),
      Field ''pid'' (CPtr ''struct pid''),
      Field ''elist'' struct_list_head,
      Field ''firing'' bool,
      Field ''nanosleep'' bool,
      Field ''handling'' (CPtr ''struct task_struct'')]"

definition enum_alarmtimer_type :: cty where
  "enum_alarmtimer_type = CEnum 4
     [(''ALARM_REALTIME'', 0), (''ALARM_BOOTTIME'', 1), (''ALARM_NUMTYPE'', 2),
      (''ALARM_REALTIME_FREEZER'', 3), (''ALARM_BOOTTIME_FREEZER'', 4)]"

definition struct_alarm :: cty where
  "struct_alarm = CStruct ''alarm'' False
     [Field ''node'' struct_timerqueue_node,
      Field ''timer'' struct_hrtimer,
      Field ''function'' (CPtr ''void (struct alarm *, ktime_t)''),
      Field ''type'' enum_alarmtimer_type,
      Field ''state'' c_int,
      Field ''data'' (CPtr ''void'')]"

definition struct_k_itimer :: cty where
  "struct_k_itimer = CStruct ''k_itimer'' False
     [Field ''t_hash'' struct_hlist_node,
      Field ''list'' struct_hlist_node,
      Field ''it_id'' timer_t,
      Field ''it_clock'' clockid_t,
      Field ''it_sigev_notify'' c_int,
      Field ''it_pid_type'' enum_pid_type,
      Field ''it_signal'' (CPtr ''struct signal_struct''),
      Field ''kclock'' (CPtr ''const struct k_clock''),
      Field ''it_lock'' spinlock_t,
      Field ''it_status'' c_int,
      Field ''it_sig_periodic'' bool,
      Field ''it_overrun'' s64,
      Field ''it_overrun_last'' s64,
      Field ''it_signal_seq'' unsigned_int,
      Field ''it_sigqueue_seq'' unsigned_int,
      Field ''it_interval'' ktime_t,
      Field ''ignored_list'' struct_hlist_node,
      Field [] (CUnion [] False
        [Field ''it_pid'' (CPtr ''struct pid''),
         Field ''it_process'' (CPtr ''struct task_struct'')]),
      Field ''sigq'' struct_sigqueue,
      Field ''rcuref'' rcuref_t,
      Field ''it'' (CUnion [] False
        [Field ''real'' (CStruct [] False
           [Field ''timer'' struct_hrtimer]),
         Field ''cpu'' struct_cpu_timer,
         Field ''alarm'' (CStruct [] False
           [Field ''alarmtimer'' struct_alarm])]),
      Field ''rcu'' struct_callback_head,
      BitField [] c_long 64,
      BitField [] c_long 64,
      BitField [] c_long 64]"

definition kimage_entry_t :: cty where [layout_simps]:
  "kimage_entry_t = long_unsigned_int"

definition struct_kexec_segment :: cty where
  "struct_kexec_segment = CStruct ''kexec_segment'' False
     [Field [] (CUnion [] False
        [Field ''buf'' (CPtr ''void''),
         Field ''kbuf'' (CPtr ''void'')]),
      Field ''bufsz'' size_t,
      Field ''mem'' long_unsigned_int,
      Field ''memsz'' size_t]"

definition struct_kimage_arch :: cty where
  "struct_kimage_arch = CStruct ''kimage_arch'' False
     [Field ''pgd'' (CPtr ''pgd_t''),
      Field ''p4d'' (CPtr ''p4d_t''),
      Field ''pud'' (CPtr ''pud_t''),
      Field ''pmd'' (CPtr ''pmd_t''),
      Field ''pte'' (CPtr ''pte_t'')]"

definition struct_purgatory_info :: cty where
  "struct_purgatory_info = CStruct ''purgatory_info'' False
     [Field ''ehdr'' (CPtr ''const Elf64_Ehdr''),
      Field ''sechdrs'' (CPtr ''Elf64_Shdr''),
      Field ''purgatory_buf'' (CPtr ''void'')]"

definition struct_kimage :: cty where
  "struct_kimage = CStruct ''kimage'' False
     [Field ''head'' kimage_entry_t,
      Field ''entry'' (CPtr ''kimage_entry_t''),
      Field ''last_entry'' (CPtr ''kimage_entry_t''),
      Field ''start'' long_unsigned_int,
      Field ''control_code_page'' (CPtr ''struct page''),
      Field ''swap_page'' (CPtr ''struct page''),
      Field ''vmcoreinfo_data_copy'' (CPtr ''void''),
      Field ''nr_segments'' long_unsigned_int,
      Field ''segment'' (CArr 16 struct_kexec_segment),
      Field ''segment_cma'' (CArr 16 (CPtr ''struct page'')),
      Field ''control_pages'' struct_list_head,
      Field ''dest_pages'' struct_list_head,
      Field ''unusable_pages'' struct_list_head,
      Field ''control_page'' long_unsigned_int,
      BitField ''type'' unsigned_int 1,
      BitField ''preserve_context'' unsigned_int 1,
      BitField ''file_mode'' unsigned_int 1,
      BitField ''hotplug_support'' unsigned_int 1,
      BitField ''no_cma'' unsigned_int 1,
      Field ''arch'' struct_kimage_arch,
      Field ''kernel_buf'' (CPtr ''void''),
      Field ''kernel_buf_len'' long_unsigned_int,
      Field ''initrd_buf'' (CPtr ''void''),
      Field ''initrd_buf_len'' long_unsigned_int,
      Field ''cmdline_buf'' (CPtr ''char''),
      Field ''cmdline_buf_len'' long_unsigned_int,
      Field ''fops'' (CPtr ''const struct kexec_file_ops''),
      Field ''image_loader_data'' (CPtr ''void''),
      Field ''purgatory_info'' struct_purgatory_info,
      Field ''force_dtb'' bool,
      Field ''hp_action'' c_int,
      Field ''elfcorehdr_index'' c_int,
      Field ''elfcorehdr_updated'' bool,
      Field ''ima_buffer'' (CPtr ''void''),
      Field ''ima_buffer_addr'' phys_addr_t,
      Field ''ima_buffer_size'' size_t,
      Field ''ima_segment_index'' long_unsigned_int,
      Field ''is_ima_segment_index_set'' bool,
      Field ''kho'' (CStruct [] False
        [Field ''scratch'' (CPtr ''struct kexec_segment''),
         Field ''fdt'' phys_addr_t]),
      Field ''elf_headers'' (CPtr ''void''),
      Field ''elf_headers_sz'' long_unsigned_int,
      Field ''elf_load_addr'' long_unsigned_int,
      Field ''dm_crypt_keys_addr'' long_unsigned_int,
      Field ''dm_crypt_keys_sz'' long_unsigned_int]"

definition struct_statmount :: cty where
  "struct_statmount = CStruct ''statmount'' False
     [Field ''size'' c__u32,
      Field ''mnt_opts'' c__u32,
      Field ''mask'' c__u64,
      Field ''sb_dev_major'' c__u32,
      Field ''sb_dev_minor'' c__u32,
      Field ''sb_magic'' c__u64,
      Field ''sb_flags'' c__u32,
      Field ''fs_type'' c__u32,
      Field ''mnt_id'' c__u64,
      Field ''mnt_parent_id'' c__u64,
      Field ''mnt_id_old'' c__u32,
      Field ''mnt_parent_id_old'' c__u32,
      Field ''mnt_attr'' c__u64,
      Field ''mnt_propagation'' c__u64,
      Field ''mnt_peer_group'' c__u64,
      Field ''mnt_master'' c__u64,
      Field ''propagate_from'' c__u64,
      Field ''mnt_root'' c__u32,
      Field ''mnt_point'' c__u32,
      Field ''mnt_ns_id'' c__u64,
      Field ''fs_subtype'' c__u32,
      Field ''sb_source'' c__u32,
      Field ''opt_num'' c__u32,
      Field ''opt_array'' c__u32,
      Field ''opt_sec_num'' c__u32,
      Field ''opt_sec_array'' c__u32,
      Field ''supported_mask'' c__u64,
      Field ''mnt_uidmap_num'' c__u32,
      Field ''mnt_uidmap'' c__u32,
      Field ''mnt_gidmap_num'' c__u32,
      Field ''mnt_gidmap'' c__u32,
      Field ''__spare2'' (CArr 43 c__u64),
      Field ''str'' (CArr 0 c_char)]"

definition struct_kvm_hyperv_exit :: cty where
  "struct_kvm_hyperv_exit = CStruct ''kvm_hyperv_exit'' False
     [Field ''type'' c__u32,
      Field ''pad1'' c__u32,
      Field ''u'' (CUnion [] False
        [Field ''synic'' (CStruct [] False
           [Field ''msr'' c__u32,
            Field ''pad2'' c__u32,
            Field ''control'' c__u64,
            Field ''evt_page'' c__u64,
            Field ''msg_page'' c__u64]),
         Field ''hcall'' (CStruct [] False
           [Field ''input'' c__u64,
            Field ''result'' c__u64,
            Field ''params'' (CArr 2 c__u64)]),
         Field ''syndbg'' (CStruct [] False
           [Field ''msr'' c__u32,
            Field ''pad2'' c__u32,
            Field ''control'' c__u64,
            Field ''status'' c__u64,
            Field ''send_page'' c__u64,
            Field ''recv_page'' c__u64,
            Field ''pending_page'' c__u64])])]"

definition enum_pmc_type :: cty where
  "enum_pmc_type = CEnum 4
     [(''KVM_PMC_GP'', 0), (''KVM_PMC_FIXED'', 1)]"

definition struct_kvm_pmc :: cty where
  "struct_kvm_pmc = CStruct ''kvm_pmc'' False
     [Field ''type'' enum_pmc_type,
      Field ''idx'' u8,
      Field ''is_paused'' bool,
      Field ''intr'' bool,
      Field ''counter'' u64,
      Field ''emulated_counter'' u64,
      Field ''eventsel'' u64,
      Field ''eventsel_hw'' u64,
      Field ''perf_event'' (CPtr ''struct perf_event''),
      Field ''vcpu'' (CPtr ''struct kvm_vcpu''),
      Field ''current_config'' u64]"

definition struct_kvm_pmu :: cty where
  "struct_kvm_pmu = CStruct ''kvm_pmu'' False
     [Field ''version'' u8,
      Field ''nr_arch_gp_counters'' unsigned_int,
      Field ''nr_arch_fixed_counters'' unsigned_int,
      Field ''available_event_types'' unsigned_int,
      Field ''fixed_ctr_ctrl'' u64,
      Field ''fixed_ctr_ctrl_hw'' u64,
      Field ''fixed_ctr_ctrl_rsvd'' u64,
      Field ''global_ctrl'' u64,
      Field ''global_status'' u64,
      Field ''counter_bitmask'' (CArr 2 u64),
      Field ''global_ctrl_rsvd'' u64,
      Field ''global_status_rsvd'' u64,
      Field ''reserved_bits'' u64,
      Field ''raw_event_mask'' u64,
      Field ''gp_counters'' (CArr 8 struct_kvm_pmc),
      Field ''fixed_counters'' (CArr 3 struct_kvm_pmc),
      Field [] (CUnion [] False
        [Field ''reprogram_pmi'' (CArr 1 long_unsigned_int),
         Field ''__reprogram_pmi'' atomic64_t]),
      Field ''all_valid_pmc_idx'' (CArr 1 long_unsigned_int),
      Field ''pmc_in_use'' (CArr 1 long_unsigned_int),
      Field ''pmc_counting_instructions'' (CArr 1 long_unsigned_int),
      Field ''pmc_counting_branches'' (CArr 1 long_unsigned_int),
      Field ''ds_area'' u64,
      Field ''pebs_enable'' u64,
      Field ''pebs_enable_rsvd'' u64,
      Field ''pebs_data_cfg'' u64,
      Field ''pebs_data_cfg_rsvd'' u64,
      Field ''host_cross_mapped_mask'' u64,
      Field ''need_cleanup'' bool,
      Field ''event_count'' u8]"

definition struct_kvm_vcpu_events :: cty where
  "struct_kvm_vcpu_events = CStruct ''kvm_vcpu_events'' False
     [Field ''exception'' (CStruct [] False
        [Field ''injected'' c__u8,
         Field ''nr'' c__u8,
         Field ''has_error_code'' c__u8,
         Field ''pending'' c__u8,
         Field ''error_code'' c__u32]),
      Field ''interrupt'' (CStruct [] False
        [Field ''injected'' c__u8,
         Field ''nr'' c__u8,
         Field ''soft'' c__u8,
         Field ''shadow'' c__u8]),
      Field ''nmi'' (CStruct [] False
        [Field ''injected'' c__u8,
         Field ''pending'' c__u8,
         Field ''masked'' c__u8,
         Field ''pad'' c__u8]),
      Field ''sipi_vector'' c__u32,
      Field ''flags'' c__u32,
      Field ''smi'' (CStruct [] False
        [Field ''smm'' c__u8,
         Field ''pending'' c__u8,
         Field ''smm_inside_nmi'' c__u8,
         Field ''latched_init'' c__u8]),
      Field ''triple_fault'' (CStruct [] False
        [Field ''pending'' c__u8]),
      Field ''reserved'' (CArr 26 c__u8),
      Field ''exception_has_payload'' c__u8,
      Field ''exception_payload'' c__u64]"

definition struct_kvm_debug_exit_arch :: cty where
  "struct_kvm_debug_exit_arch = CStruct ''kvm_debug_exit_arch'' False
     [Field ''exception'' c__u32,
      Field ''pad'' c__u32,
      Field ''pc'' c__u64,
      Field ''dr6'' c__u64,
      Field ''dr7'' c__u64]"

definition struct_kvm_xen_exit :: cty where
  "struct_kvm_xen_exit = CStruct ''kvm_xen_exit'' False
     [Field ''type'' c__u32,
      Field ''u'' (CUnion [] False
        [Field ''hcall'' (CStruct [] False
           [Field ''longmode'' c__u32,
            Field ''cpl'' c__u32,
            Field ''input'' c__u64,
            Field ''result'' c__u64,
            Field ''params'' (CArr 6 c__u64)])])]"

definition struct_kvm_exit_snp_req_certs :: cty where
  "struct_kvm_exit_snp_req_certs = CStruct ''kvm_exit_snp_req_certs'' False
     [Field ''gpa'' c__u64,
      Field ''npages'' c__u64,
      Field ''ret'' c__u64]"

definition struct_kvm_regs :: cty where
  "struct_kvm_regs = CStruct ''kvm_regs'' False
     [Field ''rax'' c__u64,
      Field ''rbx'' c__u64,
      Field ''rcx'' c__u64,
      Field ''rdx'' c__u64,
      Field ''rsi'' c__u64,
      Field ''rdi'' c__u64,
      Field ''rsp'' c__u64,
      Field ''rbp'' c__u64,
      Field ''r8'' c__u64,
      Field ''r9'' c__u64,
      Field ''r10'' c__u64,
      Field ''r11'' c__u64,
      Field ''r12'' c__u64,
      Field ''r13'' c__u64,
      Field ''r14'' c__u64,
      Field ''r15'' c__u64,
      Field ''rip'' c__u64,
      Field ''rflags'' c__u64]"

definition struct_kvm_segment :: cty where
  "struct_kvm_segment = CStruct ''kvm_segment'' False
     [Field ''base'' c__u64,
      Field ''limit'' c__u32,
      Field ''selector'' c__u16,
      Field ''type'' c__u8,
      Field ''present'' c__u8,
      Field ''dpl'' c__u8,
      Field ''db'' c__u8,
      Field ''s'' c__u8,
      Field ''l'' c__u8,
      Field ''g'' c__u8,
      Field ''avl'' c__u8,
      Field ''unusable'' c__u8,
      Field ''padding'' c__u8]"

definition struct_kvm_dtable :: cty where
  "struct_kvm_dtable = CStruct ''kvm_dtable'' False
     [Field ''base'' c__u64,
      Field ''limit'' c__u16,
      Field ''padding'' (CArr 3 c__u16)]"

definition struct_kvm_sregs :: cty where
  "struct_kvm_sregs = CStruct ''kvm_sregs'' False
     [Field ''cs'' struct_kvm_segment,
      Field ''ds'' struct_kvm_segment,
      Field ''es'' struct_kvm_segment,
      Field ''fs'' struct_kvm_segment,
      Field ''gs'' struct_kvm_segment,
      Field ''ss'' struct_kvm_segment,
      Field ''tr'' struct_kvm_segment,
      Field ''ldt'' struct_kvm_segment,
      Field ''gdt'' struct_kvm_dtable,
      Field ''idt'' struct_kvm_dtable,
      Field ''cr0'' c__u64,
      Field ''cr2'' c__u64,
      Field ''cr3'' c__u64,
      Field ''cr4'' c__u64,
      Field ''cr8'' c__u64,
      Field ''efer'' c__u64,
      Field ''apic_base'' c__u64,
      Field ''interrupt_bitmap'' (CArr 4 c__u64)]"

definition struct_kvm_sync_regs :: cty where
  "struct_kvm_sync_regs = CStruct ''kvm_sync_regs'' False
     [Field ''regs'' struct_kvm_regs,
      Field ''sregs'' struct_kvm_sregs,
      Field ''events'' struct_kvm_vcpu_events]"

definition struct_kvm_run :: cty where
  "struct_kvm_run = CStruct ''kvm_run'' False
     [Field ''request_interrupt_window'' c__u8,
      Field ''immediate_exit__unsafe'' c__u8,
      Field ''padding1'' (CArr 6 c__u8),
      Field ''exit_reason'' c__u32,
      Field ''ready_for_interrupt_injection'' c__u8,
      Field ''if_flag'' c__u8,
      Field ''flags'' c__u16,
      Field ''cr8'' c__u64,
      Field ''apic_base'' c__u64,
      Field [] (CUnion [] False
        [Field ''hw'' (CStruct [] False
           [Field ''hardware_exit_reason'' c__u64]),
         Field ''fail_entry'' (CStruct [] False
           [Field ''hardware_entry_failure_reason'' c__u64,
            Field ''cpu'' c__u32]),
         Field ''ex'' (CStruct [] False
           [Field ''exception'' c__u32,
            Field ''error_code'' c__u32]),
         Field ''io'' (CStruct [] False
           [Field ''direction'' c__u8,
            Field ''size'' c__u8,
            Field ''port'' c__u16,
            Field ''count'' c__u32,
            Field ''data_offset'' c__u64]),
         Field ''debug'' (CStruct [] False
           [Field ''arch'' struct_kvm_debug_exit_arch]),
         Field ''mmio'' (CStruct [] False
           [Field ''phys_addr'' c__u64,
            Field ''data'' (CArr 8 c__u8),
            Field ''len'' c__u32,
            Field ''is_write'' c__u8]),
         Field ''iocsr_io'' (CStruct [] False
           [Field ''phys_addr'' c__u64,
            Field ''data'' (CArr 8 c__u8),
            Field ''len'' c__u32,
            Field ''is_write'' c__u8]),
         Field ''hypercall'' (CStruct [] False
           [Field ''nr'' c__u64,
            Field ''args'' (CArr 6 c__u64),
            Field ''ret'' c__u64,
            Field [] (CUnion [] False
              [Field ''flags'' c__u64])]),
         Field ''tpr_access'' (CStruct [] False
           [Field ''rip'' c__u64,
            Field ''is_write'' c__u32,
            Field ''pad'' c__u32]),
         Field ''s390_sieic'' (CStruct [] False
           [Field ''icptcode'' c__u8,
            Field ''ipa'' c__u16,
            Field ''ipb'' c__u32]),
         Field ''s390_reset_flags'' c__u64,
         Field ''s390_ucontrol'' (CStruct [] False
           [Field ''trans_exc_code'' c__u64,
            Field ''pgm_code'' c__u32]),
         Field ''dcr'' (CStruct [] False
           [Field ''dcrn'' c__u32,
            Field ''data'' c__u32,
            Field ''is_write'' c__u8]),
         Field ''internal'' (CStruct [] False
           [Field ''suberror'' c__u32,
            Field ''ndata'' c__u32,
            Field ''data'' (CArr 16 c__u64)]),
         Field ''emulation_failure'' (CStruct [] False
           [Field ''suberror'' c__u32,
            Field ''ndata'' c__u32,
            Field ''flags'' c__u64,
            Field [] (CUnion [] False
              [Field [] (CStruct [] False
                 [Field ''insn_size'' c__u8,
                  Field ''insn_bytes'' (CArr 15 c__u8)])])]),
         Field ''osi'' (CStruct [] False
           [Field ''gprs'' (CArr 32 c__u64)]),
         Field ''papr_hcall'' (CStruct [] False
           [Field ''nr'' c__u64,
            Field ''ret'' c__u64,
            Field ''args'' (CArr 9 c__u64)]),
         Field ''s390_tsch'' (CStruct [] False
           [Field ''subchannel_id'' c__u16,
            Field ''subchannel_nr'' c__u16,
            Field ''io_int_parm'' c__u32,
            Field ''io_int_word'' c__u32,
            Field ''ipb'' c__u32,
            Field ''dequeued'' c__u8]),
         Field ''epr'' (CStruct [] False
           [Field ''epr'' c__u32]),
         Field ''system_event'' (CStruct [] False
           [Field ''type'' c__u32,
            Field ''ndata'' c__u32,
            Field [] (CUnion [] False
              [Field ''data'' (CArr 16 c__u64)])]),
         Field ''s390_stsi'' (CStruct [] False
           [Field ''addr'' c__u64,
            Field ''ar'' c__u8,
            Field ''reserved'' c__u8,
            Field ''fc'' c__u8,
            Field ''sel1'' c__u8,
            Field ''sel2'' c__u16]),
         Field ''eoi'' (CStruct [] False
           [Field ''vector'' c__u8]),
         Field ''hyperv'' struct_kvm_hyperv_exit,
         Field ''arm_nisv'' (CStruct [] False
           [Field ''esr_iss'' c__u64,
            Field ''fault_ipa'' c__u64]),
         Field ''msr'' (CStruct [] False
           [Field ''error'' c__u8,
            Field ''pad'' (CArr 7 c__u8),
            Field ''reason'' c__u32,
            Field ''index'' c__u32,
            Field ''data'' c__u64]),
         Field ''xen'' struct_kvm_xen_exit,
         Field ''riscv_sbi'' (CStruct [] False
           [Field ''extension_id'' long_unsigned_int,
            Field ''function_id'' long_unsigned_int,
            Field ''args'' (CArr 6 long_unsigned_int),
            Field ''ret'' (CArr 2 long_unsigned_int)]),
         Field ''riscv_csr'' (CStruct [] False
           [Field ''csr_num'' long_unsigned_int,
            Field ''new_value'' long_unsigned_int,
            Field ''write_mask'' long_unsigned_int,
            Field ''ret_value'' long_unsigned_int]),
         Field ''notify'' (CStruct [] False
           [Field ''flags'' c__u32]),
         Field ''memory_fault'' (CStruct [] False
           [Field ''flags'' c__u64,
            Field ''gpa'' c__u64,
            Field ''size'' c__u64]),
         Field ''tdx'' (CStruct [] False
           [Field ''flags'' c__u64,
            Field ''nr'' c__u64,
            Field [] (CUnion [] False
              [Field ''unknown'' (CStruct [] False
                 [Field ''ret'' c__u64,
                  Field ''data'' (CArr 5 c__u64)]),
               Field ''get_quote'' (CStruct [] False
                 [Field ''ret'' c__u64,
                  Field ''gpa'' c__u64,
                  Field ''size'' c__u64]),
               Field ''get_tdvmcall_info'' (CStruct [] False
                 [Field ''ret'' c__u64,
                  Field ''leaf'' c__u64,
                  Field ''r11'' c__u64,
                  Field ''r12'' c__u64,
                  Field ''r13'' c__u64,
                  Field ''r14'' c__u64]),
               Field ''setup_event_notify'' (CStruct [] False
                 [Field ''ret'' c__u64,
                  Field ''vector'' c__u64])])]),
         Field ''arm_sea'' (CStruct [] False
           [Field ''flags'' c__u64,
            Field ''esr'' c__u64,
            Field ''gva'' c__u64,
            Field ''gpa'' c__u64]),
         Field ''snp_req_certs'' struct_kvm_exit_snp_req_certs,
         Field ''padding'' (CArr 256 c_char)]),
      Field ''kvm_valid_regs'' c__u64,
      Field ''kvm_dirty_regs'' c__u64,
      Field ''s'' (CUnion [] False
        [Field ''regs'' struct_kvm_sync_regs,
         Field ''padding'' (CArr 2048 c_char)])]"

definition struct_kvm_mmu_root_info :: cty where
  "struct_kvm_mmu_root_info = CStruct ''kvm_mmu_root_info'' False
     [Field ''pgd'' gpa_t,
      Field ''hpa'' hpa_t]"

definition union_kvm_mmu_page_role :: cty where
  "union_kvm_mmu_page_role = CUnion ''kvm_mmu_page_role'' False
     [Field ''word'' u32,
      Field [] (CStruct [] False
        [BitField ''level'' unsigned_int 4,
         BitField ''has_4_byte_gpte'' unsigned_int 1,
         BitField ''quadrant'' unsigned_int 2,
         BitField ''direct'' unsigned_int 1,
         BitField ''access'' unsigned_int 3,
         BitField ''invalid'' unsigned_int 1,
         BitField ''efer_nx'' unsigned_int 1,
         BitField ''cr0_wp'' unsigned_int 1,
         BitField ''smep_andnot_wp'' unsigned_int 1,
         BitField ''smap_andnot_wp'' unsigned_int 1,
         BitField ''ad_disabled'' unsigned_int 1,
         BitField ''guest_mode'' unsigned_int 1,
         BitField ''passthrough'' unsigned_int 1,
         BitField ''is_mirror'' unsigned_int 1,
         BitField [] c_char 4,
         BitField ''smm'' unsigned_int 8])]"

definition union_kvm_mmu_extended_role :: cty where
  "union_kvm_mmu_extended_role = CUnion ''kvm_mmu_extended_role'' False
     [Field ''word'' u32,
      Field [] (CStruct [] False
        [BitField ''valid'' unsigned_int 1,
         BitField ''execonly'' unsigned_int 1,
         BitField ''cr4_pse'' unsigned_int 1,
         BitField ''cr4_pke'' unsigned_int 1,
         BitField ''cr4_smap'' unsigned_int 1,
         BitField ''cr4_smep'' unsigned_int 1,
         BitField ''cr4_la57'' unsigned_int 1,
         BitField ''efer_lma'' unsigned_int 1])]"

definition union_kvm_cpu_role :: cty where
  "union_kvm_cpu_role = CUnion ''kvm_cpu_role'' False
     [Field ''as_u64'' u64,
      Field [] (CStruct [] False
        [Field ''base'' union_kvm_mmu_page_role,
         Field ''ext'' union_kvm_mmu_extended_role])]"

definition struct_rsvd_bits_validate :: cty where
  "struct_rsvd_bits_validate = CStruct ''rsvd_bits_validate'' False
     [Field ''rsvd_bits_mask'' (CArr 10 u64),
      Field ''bad_mt_xwr'' u64]"

definition struct_kvm_mmu :: cty where
  "struct_kvm_mmu = CStruct ''kvm_mmu'' False
     [Field ''get_guest_pgd'' (CPtr ''long unsigned int (struct kvm_vcpu *)''),
      Field ''get_pdptr'' (CPtr ''u64 (struct kvm_vcpu *, int)''),
      Field ''page_fault'' (CPtr ''int (struct kvm_vcpu *, struct kvm_page_fault *)''),
      Field ''inject_page_fault'' (CPtr ''void (struct kvm_vcpu *, struct x86_exception *)''),
      Field ''gva_to_gpa'' (CPtr ''gpa_t (struct kvm_vcpu *, struct kvm_mmu *, gpa_t, u64, struct x86_exception *)''),
      Field ''sync_spte'' (CPtr ''int (struct kvm_vcpu *, struct kvm_mmu_page *, int)''),
      Field ''root'' struct_kvm_mmu_root_info,
      Field ''mirror_root_hpa'' hpa_t,
      Field ''cpu_role'' union_kvm_cpu_role,
      Field ''root_role'' union_kvm_mmu_page_role,
      Field ''pkru_mask'' u32,
      Field ''prev_roots'' (CArr 3 struct_kvm_mmu_root_info),
      Field ''permissions'' (CArr 16 u8),
      Field ''pae_root'' (CPtr ''u64''),
      Field ''pml4_root'' (CPtr ''u64''),
      Field ''pml5_root'' (CPtr ''u64''),
      Field ''shadow_zero_check'' struct_rsvd_bits_validate,
      Field ''guest_rsvd_check'' struct_rsvd_bits_validate,
      Field ''pdptrs'' (CArr 4 u64)]"

definition struct_fpu_guest :: cty where
  "struct_fpu_guest = CStruct ''fpu_guest'' False
     [Field ''xfeatures'' u64,
      Field ''xfd_err'' u64,
      Field ''uabi_size'' unsigned_int,
      Field ''fpstate'' (CPtr ''struct fpstate'')]"

definition struct_kvm_pio_request :: cty where
  "struct_kvm_pio_request = CStruct ''kvm_pio_request'' False
     [Field ''count'' long_unsigned_int,
      Field ''in'' c_int,
      Field ''port'' c_int,
      Field ''size'' c_int]"

definition struct_kvm_queued_exception :: cty where
  "struct_kvm_queued_exception = CStruct ''kvm_queued_exception'' False
     [Field ''pending'' bool,
      Field ''injected'' bool,
      Field ''has_error_code'' bool,
      Field ''vector'' u8,
      Field ''error_code'' u32,
      Field ''payload'' long_unsigned_int,
      Field ''has_payload'' bool]"

definition struct_kvm_queued_interrupt :: cty where
  "struct_kvm_queued_interrupt = CStruct ''kvm_queued_interrupt'' False
     [Field ''injected'' bool,
      Field ''soft'' bool,
      Field ''nr'' u8]"

definition struct_gfn_to_hva_cache :: cty where
  "struct_gfn_to_hva_cache = CStruct ''gfn_to_hva_cache'' False
     [Field ''generation'' u64,
      Field ''gpa'' gpa_t,
      Field ''hva'' long_unsigned_int,
      Field ''len'' long_unsigned_int,
      Field ''memslot'' (CPtr ''struct kvm_memory_slot'')]"

definition struct_kvm_mtrr :: cty where
  "struct_kvm_mtrr = CStruct ''kvm_mtrr'' False
     [Field ''var'' (CArr 16 u64),
      Field ''fixed_64k'' u64,
      Field ''fixed_16k'' (CArr 2 u64),
      Field ''fixed_4k'' (CArr 8 u64),
      Field ''deftype'' u64]"

definition struct_kvm_hypervisor_cpuid :: cty where
  "struct_kvm_hypervisor_cpuid = CStruct ''kvm_hypervisor_cpuid'' False
     [Field ''base'' u32,
      Field ''limit'' u32]"

definition struct_kvm_vcpu_xen :: cty where
  "struct_kvm_vcpu_xen = CStruct ''kvm_vcpu_xen'' False
     [Field ''hypercall_rip'' u64,
      Field ''current_runstate'' u32,
      Field ''upcall_vector'' u8,
      Field ''vcpu_info_cache'' struct_gfn_to_pfn_cache,
      Field ''vcpu_time_info_cache'' struct_gfn_to_pfn_cache,
      Field ''runstate_cache'' struct_gfn_to_pfn_cache,
      Field ''runstate2_cache'' struct_gfn_to_pfn_cache,
      Field ''last_steal'' u64,
      Field ''runstate_entry_time'' u64,
      Field ''runstate_times'' (CArr 4 u64),
      Field ''evtchn_pending_sel'' long_unsigned_int,
      Field ''vcpu_id'' u32,
      Field ''timer_virq'' u32,
      Field ''timer_expires'' u64,
      Field ''timer_pending'' atomic_t,
      Field ''timer'' struct_hrtimer,
      Field ''poll_evtchn'' c_int,
      Field ''poll_timer'' struct_timer_list,
      Field ''cpuid'' struct_kvm_hypervisor_cpuid]"

definition struct_kvm_vcpu_arch :: cty where
  "struct_kvm_vcpu_arch = CStruct ''kvm_vcpu_arch'' False
     [Field ''regs'' (CArr 17 long_unsigned_int),
      Field ''regs_avail'' u32,
      Field ''regs_dirty'' u32,
      Field ''cr0'' long_unsigned_int,
      Field ''cr0_guest_owned_bits'' long_unsigned_int,
      Field ''cr2'' long_unsigned_int,
      Field ''cr3'' long_unsigned_int,
      Field ''cr4'' long_unsigned_int,
      Field ''cr4_guest_owned_bits'' long_unsigned_int,
      Field ''cr4_guest_rsvd_bits'' long_unsigned_int,
      Field ''cr8'' long_unsigned_int,
      Field ''host_pkru'' u32,
      Field ''pkru'' u32,
      Field ''hflags'' u32,
      Field ''efer'' u64,
      Field ''host_debugctl'' u64,
      Field ''apic_base'' u64,
      Field ''apic'' (CPtr ''struct kvm_lapic''),
      Field ''load_eoi_exitmap_pending'' bool,
      Field ''ioapic_handled_vectors'' (CArr 4 long_unsigned_int),
      Field ''apic_attention'' long_unsigned_int,
      Field ''apic_arb_prio'' int32_t,
      Field ''mp_state'' c_int,
      Field ''ia32_misc_enable_msr'' u64,
      Field ''smbase'' u64,
      Field ''smi_count'' u64,
      Field ''at_instruction_boundary'' bool,
      Field ''tpr_access_reporting'' bool,
      Field ''xfd_no_write_intercept'' bool,
      Field ''microcode_version'' u64,
      Field ''arch_capabilities'' u64,
      Field ''perf_capabilities'' u64,
      Field ''mmu'' (CPtr ''struct kvm_mmu''),
      Field ''root_mmu'' struct_kvm_mmu,
      Field ''guest_mmu'' struct_kvm_mmu,
      Field ''nested_mmu'' struct_kvm_mmu,
      Field ''walk_mmu'' (CPtr ''struct kvm_mmu''),
      Field ''mmu_pte_list_desc_cache'' struct_kvm_mmu_memory_cache,
      Field ''mmu_shadow_page_cache'' struct_kvm_mmu_memory_cache,
      Field ''mmu_shadowed_info_cache'' struct_kvm_mmu_memory_cache,
      Field ''mmu_page_header_cache'' struct_kvm_mmu_memory_cache,
      Field ''mmu_external_spt_cache'' struct_kvm_mmu_memory_cache,
      Field ''guest_fpu'' struct_fpu_guest,
      Field ''xcr0'' u64,
      Field ''guest_supported_xcr0'' u64,
      Field ''ia32_xss'' u64,
      Field ''guest_supported_xss'' u64,
      Field ''pio'' struct_kvm_pio_request,
      Field ''pio_data'' (CPtr ''void''),
      Field ''sev_pio_data'' (CPtr ''void''),
      Field ''sev_pio_count'' unsigned_int,
      Field ''event_exit_inst_len'' u8,
      Field ''exception_from_userspace'' bool,
      Field ''exception'' struct_kvm_queued_exception,
      Field ''exception_vmexit'' struct_kvm_queued_exception,
      Field ''interrupt'' struct_kvm_queued_interrupt,
      Field ''halt_request'' c_int,
      Field ''cpuid_nent'' c_int,
      Field ''cpuid_entries'' (CPtr ''struct kvm_cpuid_entry2''),
      Field ''cpuid_dynamic_bits_dirty'' bool,
      Field ''is_amd_compatible'' bool,
      Field ''cpu_caps'' (CArr 32 u32),
      Field ''reserved_gpa_bits'' u64,
      Field ''maxphyaddr'' c_int,
      Field ''emulate_ctxt'' (CPtr ''struct x86_emulate_ctxt''),
      Field ''emulate_regs_need_sync_to_vcpu'' bool,
      Field ''emulate_regs_need_sync_from_vcpu'' bool,
      Field ''complete_userspace_io'' (CPtr ''int (struct kvm_vcpu *)''),
      Field ''cui_linear_rip'' long_unsigned_int,
      Field ''cui_rdmsr_imm_reg'' c_int,
      Field ''time'' gpa_t,
      Field ''pvclock_tsc_shift'' s8,
      Field ''pvclock_tsc_mul'' u32,
      Field ''hw_tsc_khz'' unsigned_int,
      Field ''pv_time'' struct_gfn_to_pfn_cache,
      Field ''pvclock_set_guest_stopped_request'' bool,
      Field ''st'' (CStruct [] False
        [Field ''preempted'' u8,
         Field ''msr_val'' u64,
         Field ''last_steal'' u64,
         Field ''cache'' struct_gfn_to_hva_cache]),
      Field ''l1_tsc_offset'' u64,
      Field ''tsc_offset'' u64,
      Field ''last_guest_tsc'' u64,
      Field ''last_host_tsc'' u64,
      Field ''tsc_offset_adjustment'' u64,
      Field ''this_tsc_nsec'' u64,
      Field ''this_tsc_write'' u64,
      Field ''this_tsc_generation'' u64,
      Field ''tsc_catchup'' bool,
      Field ''tsc_always_catchup'' bool,
      Field ''virtual_tsc_shift'' s8,
      Field ''virtual_tsc_mult'' u32,
      Field ''virtual_tsc_khz'' u32,
      Field ''ia32_tsc_adjust_msr'' s64,
      Field ''msr_ia32_power_ctl'' u64,
      Field ''l1_tsc_scaling_ratio'' u64,
      Field ''tsc_scaling_ratio'' u64,
      Field ''nmi_queued'' atomic_t,
      Field ''nmi_pending'' unsigned_int,
      Field ''nmi_injected'' bool,
      Field ''smi_pending'' bool,
      Field ''handling_intr_from_guest'' u8,
      Field ''mtrr_state'' struct_kvm_mtrr,
      Field ''pat'' u64,
      Field ''switch_db_regs'' unsigned_int,
      Field ''db'' (CArr 4 long_unsigned_int),
      Field ''dr6'' long_unsigned_int,
      Field ''dr7'' long_unsigned_int,
      Field ''eff_db'' (CArr 4 long_unsigned_int),
      Field ''guest_debug_dr7'' long_unsigned_int,
      Field ''msr_platform_info'' u64,
      Field ''msr_misc_features_enables'' u64,
      Field ''mcg_cap'' u64,
      Field ''mcg_status'' u64,
      Field ''mcg_ctl'' u64,
      Field ''mcg_ext_ctl'' u64,
      Field ''mce_banks'' (CPtr ''u64''),
      Field ''mci_ctl2_banks'' (CPtr ''u64''),
      Field ''mmio_gva'' u64,
      Field ''mmio_access'' unsigned_int,
      Field ''mmio_gfn'' gfn_t,
      Field ''mmio_gen'' u64,
      Field ''pmu'' struct_kvm_pmu,
      Field ''singlestep_rip'' long_unsigned_int,
      Field ''hyperv_enabled'' bool,
      Field ''hyperv'' (CPtr ''struct kvm_vcpu_hv''),
      Field ''xen'' struct_kvm_vcpu_xen,
      Field ''wbinvd_dirty_mask'' cpumask_var_t,
      Field ''last_retry_eip'' long_unsigned_int,
      Field ''last_retry_addr'' long_unsigned_int,
      Field ''apf'' (CStruct [] False
        [Field ''halted'' bool,
         Field ''gfns'' (CArr 64 gfn_t),
         Field ''data'' struct_gfn_to_hva_cache,
         Field ''msr_en_val'' u64,
         Field ''msr_int_val'' u64,
         Field ''vec'' u16,
         Field ''id'' u32,
         Field ''host_apf_flags'' u32,
         Field ''send_always'' bool,
         Field ''delivery_as_pf_vmexit'' bool,
         Field ''pageready_pending'' bool]),
      Field ''osvw'' (CStruct [] False
        [Field ''length'' u64,
         Field ''status'' u64]),
      Field ''pv_eoi'' (CStruct [] False
        [Field ''msr_val'' u64,
         Field ''data'' struct_gfn_to_hva_cache]),
      Field ''msr_kvm_poll_control'' u64,
      Field ''pv'' (CStruct [] False
        [Field ''pv_unhalted'' bool]),
      Field ''pending_ioapic_eoi'' c_int,
      Field ''pending_external_vector'' c_int,
      Field ''highest_stale_pending_ioapic_eoi'' c_int,
      Field ''preempted_in_kernel'' bool,
      Field ''last_vmentry_cpu'' c_int,
      Field ''msr_hwcr'' u64,
      Field ''pv_cpuid'' (CStruct [] False
        [Field ''features'' u32,
         Field ''enforce'' bool]),
      Field ''guest_state_protected'' bool,
      Field ''guest_tsc_protected'' bool,
      Field ''pdptrs_from_userspace'' bool,
      Field ''hv_root_tdp'' hpa_t]"

definition struct_kvm_vcpu_stat_generic :: cty where
  "struct_kvm_vcpu_stat_generic = CStruct ''kvm_vcpu_stat_generic'' False
     [Field ''halt_successful_poll'' u64,
      Field ''halt_attempted_poll'' u64,
      Field ''halt_poll_invalid'' u64,
      Field ''halt_wakeup'' u64,
      Field ''halt_poll_success_ns'' u64,
      Field ''halt_poll_fail_ns'' u64,
      Field ''halt_wait_ns'' u64,
      Field ''halt_poll_success_hist'' (CArr 32 u64),
      Field ''halt_poll_fail_hist'' (CArr 32 u64),
      Field ''halt_wait_hist'' (CArr 32 u64),
      Field ''blocking'' u64]"

definition struct_kvm_vcpu_stat :: cty where
  "struct_kvm_vcpu_stat = CStruct ''kvm_vcpu_stat'' False
     [Field ''generic'' struct_kvm_vcpu_stat_generic,
      Field ''pf_taken'' u64,
      Field ''pf_fixed'' u64,
      Field ''pf_emulate'' u64,
      Field ''pf_spurious'' u64,
      Field ''pf_fast'' u64,
      Field ''pf_mmio_spte_created'' u64,
      Field ''pf_guest'' u64,
      Field ''tlb_flush'' u64,
      Field ''invlpg'' u64,
      Field ''exits'' u64,
      Field ''io_exits'' u64,
      Field ''mmio_exits'' u64,
      Field ''signal_exits'' u64,
      Field ''irq_window_exits'' u64,
      Field ''nmi_window_exits'' u64,
      Field ''l1d_flush'' u64,
      Field ''halt_exits'' u64,
      Field ''request_irq_exits'' u64,
      Field ''irq_exits'' u64,
      Field ''host_state_reload'' u64,
      Field ''fpu_reload'' u64,
      Field ''insn_emulation'' u64,
      Field ''insn_emulation_fail'' u64,
      Field ''hypercalls'' u64,
      Field ''irq_injections'' u64,
      Field ''nmi_injections'' u64,
      Field ''req_event'' u64,
      Field ''nested_run'' u64,
      Field ''directed_yield_attempted'' u64,
      Field ''directed_yield_successful'' u64,
      Field ''preemption_reported'' u64,
      Field ''preemption_other'' u64,
      Field ''guest_mode'' u64,
      Field ''notify_window_exits'' u64]"

definition struct_preempt_notifier :: cty where
  "struct_preempt_notifier = CStruct ''preempt_notifier'' False
     [Field ''link'' struct_hlist_node,
      Field ''ops'' (CPtr ''struct preempt_ops'')]"

definition struct_kvm_mmio_fragment :: cty where
  "struct_kvm_mmio_fragment = CStruct ''kvm_mmio_fragment'' False
     [Field ''gpa'' gpa_t,
      Field ''data'' (CPtr ''void''),
      Field ''val'' u64,
      Field ''len'' unsigned_int]"

definition struct_kvm_dirty_ring :: cty where
  "struct_kvm_dirty_ring = CStruct ''kvm_dirty_ring'' False
     [Field ''dirty_index'' u32,
      Field ''reset_index'' u32,
      Field ''size'' u32,
      Field ''soft_limit'' u32,
      Field ''dirty_gfns'' (CPtr ''struct kvm_dirty_gfn''),
      Field ''index'' c_int]"

definition struct_kvm_vcpu :: cty where
  "struct_kvm_vcpu = CStruct ''kvm_vcpu'' False
     [Field ''kvm'' (CPtr ''struct kvm''),
      Field ''preempt_notifier'' struct_preempt_notifier,
      Field ''cpu'' c_int,
      Field ''vcpu_id'' c_int,
      Field ''vcpu_idx'' c_int,
      Field ''____srcu_idx'' c_int,
      Field ''mode'' c_int,
      Field ''requests'' u64,
      Field ''guest_debug'' long_unsigned_int,
      Field ''mutex'' struct_mutex,
      Field ''run'' (CPtr ''struct kvm_run''),
      Field ''wait'' struct_rcuwait,
      Field ''pid'' (CPtr ''struct pid''),
      Field ''pid_lock'' rwlock_t,
      Field ''sigset_active'' c_int,
      Field ''sigset'' sigset_t,
      Field ''halt_poll_ns'' unsigned_int,
      Field ''valid_wakeup'' bool,
      Field ''mmio_needed'' c_int,
      Field ''mmio_read_completed'' c_int,
      Field ''mmio_is_write'' c_int,
      Field ''mmio_cur_fragment'' c_int,
      Field ''mmio_nr_fragments'' c_int,
      Field ''mmio_fragments'' (CArr 2 struct_kvm_mmio_fragment),
      Field ''async_pf'' (CStruct [] False
        [Field ''queued'' u32,
         Field ''queue'' struct_list_head,
         Field ''done'' struct_list_head,
         Field ''lock'' spinlock_t]),
      Field ''spin_loop'' (CStruct [] False
        [Field ''in_spin_loop'' bool,
         Field ''dy_eligible'' bool]),
      Field ''wants_to_run'' bool,
      Field ''preempted'' bool,
      Field ''ready'' bool,
      Field ''scheduled_out'' bool,
      Field ''arch'' struct_kvm_vcpu_arch,
      Field ''stat'' struct_kvm_vcpu_stat,
      Field ''stats_id'' (CArr 48 c_char),
      Field ''dirty_ring'' struct_kvm_dirty_ring,
      Field ''last_used_slot'' (CPtr ''struct kvm_memory_slot''),
      Field ''last_used_slot_gen'' u64]"

definition struct_kvm_vcpu_hv_synic :: cty where
  "struct_kvm_vcpu_hv_synic = CStruct ''kvm_vcpu_hv_synic'' False
     [Field ''version'' u64,
      Field ''control'' u64,
      Field ''msg_page'' u64,
      Field ''evt_page'' u64,
      Field ''sint'' (CArr 16 atomic64_t),
      Field ''sint_to_gsi'' (CArr 16 atomic_t),
      Field ''auto_eoi_bitmap'' (CArr 4 long_unsigned_int),
      Field ''vec_bitmap'' (CArr 4 long_unsigned_int),
      Field ''active'' bool,
      Field ''dont_zero_synic_pages'' bool]"

definition union_hv_stimer_config :: cty where
  "union_hv_stimer_config = CUnion ''hv_stimer_config'' False
     [Field ''as_uint64'' u64,
      Field [] (CStruct [] False
        [BitField ''enable'' u64 1,
         BitField ''periodic'' u64 1,
         BitField ''lazy'' u64 1,
         BitField ''auto_enable'' u64 1,
         BitField ''apic_vector'' u64 8,
         BitField ''direct_mode'' u64 1,
         BitField ''reserved_z0'' u64 3,
         BitField ''sintx'' u64 4,
         BitField ''reserved_z1'' u64 44])]"

definition union_hv_message_flags :: cty where
  "union_hv_message_flags = CUnion ''hv_message_flags'' False
     [Field ''asu8'' u8,
      Field [] (CStruct [] False
        [BitField ''msg_pending'' u8 1,
         BitField ''reserved'' u8 7])]"

definition union_hv_port_id :: cty where
  "union_hv_port_id = CUnion ''hv_port_id'' False
     [Field ''asu32'' u32,
      Field ''u'' (CStruct [] False
        [BitField ''id'' u32 24,
         BitField ''reserved'' u32 8])]"

definition struct_hv_message_header :: cty where
  "struct_hv_message_header = CStruct ''hv_message_header'' False
     [Field ''message_type'' u32,
      Field ''payload_size'' u8,
      Field ''message_flags'' union_hv_message_flags,
      Field ''reserved'' (CArr 2 u8),
      Field [] (CUnion [] False
        [Field ''sender'' u64,
         Field ''port'' union_hv_port_id])]"

definition struct_hv_message :: cty where
  "struct_hv_message = CStruct ''hv_message'' False
     [Field ''header'' struct_hv_message_header,
      Field ''u'' (CUnion [] False
        [Field ''payload'' (CArr 30 u64)])]"

definition struct_kvm_vcpu_hv_stimer :: cty where
  "struct_kvm_vcpu_hv_stimer = CStruct ''kvm_vcpu_hv_stimer'' False
     [Field ''timer'' struct_hrtimer,
      Field ''index'' c_int,
      Field ''config'' union_hv_stimer_config,
      Field ''count'' u64,
      Field ''exp_time'' u64,
      Field ''msg'' struct_hv_message,
      Field ''msg_pending'' bool]"

definition struct_kvm_vcpu_hv_tlb_flush_fifo :: cty where
  "struct_kvm_vcpu_hv_tlb_flush_fifo = CStruct ''kvm_vcpu_hv_tlb_flush_fifo'' False
     [Field ''write_lock'' spinlock_t,
      Field ''entries'' (CStruct [] False
        [Field [] (CUnion [] False
           [Field ''kfifo'' struct___kfifo,
            Field ''type'' (CPtr ''u64''),
            Field ''const_type'' (CPtr ''const u64''),
            Field ''rectype'' (CPtr ''char[0]''),
            Field ''ptr'' (CPtr ''u64''),
            Field ''ptr_const'' (CPtr ''const u64'')]),
         Field ''buf'' (CArr 16 u64)])]"

definition struct_hv_nested_enlightenments_control :: cty where
  "struct_hv_nested_enlightenments_control = CStruct ''hv_nested_enlightenments_control'' False
     [Field ''features'' (CStruct [] False
        [BitField ''directhypercall'' u32 1,
         BitField ''reserved'' u32 31]),
      Field ''hypercall_controls'' (CStruct [] False
        [BitField ''inter_partition_comm'' u32 1,
         BitField ''reserved'' u32 31])]"

definition struct_hv_vp_assist_page :: cty where
  "struct_hv_vp_assist_page = CStruct ''hv_vp_assist_page'' False
     [Field ''apic_assist'' u32,
      Field ''reserved1'' u32,
      Field ''vtl_entry_reason'' u32,
      Field ''vtl_reserved'' u32,
      Field ''vtl_ret_x64rax'' u64,
      Field ''vtl_ret_x64rcx'' u64,
      Field ''nested_control'' struct_hv_nested_enlightenments_control,
      Field ''enlighten_vmentry'' u8,
      Field ''reserved2'' (CArr 7 u8),
      Field ''current_nested_vmcs'' u64,
      Field ''synthetic_time_unhalted_timer_expired'' u8,
      Field ''reserved3'' (CArr 7 u8),
      Field ''virtualization_fault_information'' (CArr 40 u8),
      Field ''reserved4'' (CArr 8 u8),
      Field ''intercept_message'' (CArr 256 u8),
      Field ''vtl_ret_actions'' (CArr 256 u8)]"

definition struct_kvm_vcpu_hv :: cty where
  "struct_kvm_vcpu_hv = CStruct ''kvm_vcpu_hv'' False
     [Field ''vcpu'' (CPtr ''struct kvm_vcpu''),
      Field ''vp_index'' u32,
      Field ''hv_vapic'' u64,
      Field ''runtime_offset'' s64,
      Field ''synic'' struct_kvm_vcpu_hv_synic,
      Field ''exit'' struct_kvm_hyperv_exit,
      Field ''stimer'' (CArr 4 struct_kvm_vcpu_hv_stimer),
      Field ''stimer_pending_bitmap'' (CArr 1 long_unsigned_int),
      Field ''enforce_cpuid'' bool,
      Field ''cpuid_cache'' (CStruct [] False
        [Field ''features_eax'' u32,
         Field ''features_ebx'' u32,
         Field ''features_edx'' u32,
         Field ''enlightenments_eax'' u32,
         Field ''enlightenments_ebx'' u32,
         Field ''syndbg_cap_eax'' u32,
         Field ''nested_eax'' u32,
         Field ''nested_ebx'' u32]),
      Field ''tlb_flush_fifo'' (CArr 2 struct_kvm_vcpu_hv_tlb_flush_fifo),
      Field ''sparse_banks'' (CArr 64 u64),
      Field ''vcpu_mask'' (CArr 64 long_unsigned_int),
      Field ''vp_assist_page'' struct_hv_vp_assist_page,
      Field ''nested'' (CStruct [] False
        [Field ''pa_page_gpa'' u64,
         Field ''vm_id'' u64,
         Field ''vp_id'' u32])]"

definition struct_kvm_x86_ops :: cty where
  "struct_kvm_x86_ops = CStruct ''kvm_x86_ops'' False
     [Field ''name'' (CPtr ''const char''),
      Field ''check_processor_compatibility'' (CPtr ''int (void)''),
      Field ''enable_virtualization_cpu'' (CPtr ''int (void)''),
      Field ''disable_virtualization_cpu'' (CPtr ''void (void)''),
      Field ''emergency_disable_virtualization_cpu'' (CPtr ''cpu_emergency_virt_cb''),
      Field ''hardware_unsetup'' (CPtr ''void (void)''),
      Field ''has_emulated_msr'' (CPtr ''bool (struct kvm *, u32)''),
      Field ''vcpu_after_set_cpuid'' (CPtr ''void (struct kvm_vcpu *)''),
      Field ''vm_size'' unsigned_int,
      Field ''vm_init'' (CPtr ''int (struct kvm *)''),
      Field ''vm_destroy'' (CPtr ''void (struct kvm *)''),
      Field ''vm_pre_destroy'' (CPtr ''void (struct kvm *)''),
      Field ''vcpu_precreate'' (CPtr ''int (struct kvm *)''),
      Field ''vcpu_create'' (CPtr ''int (struct kvm_vcpu *)''),
      Field ''vcpu_free'' (CPtr ''void (struct kvm_vcpu *)''),
      Field ''vcpu_reset'' (CPtr ''void (struct kvm_vcpu *, bool)''),
      Field ''prepare_switch_to_guest'' (CPtr ''void (struct kvm_vcpu *)''),
      Field ''vcpu_load'' (CPtr ''void (struct kvm_vcpu *, int)''),
      Field ''vcpu_put'' (CPtr ''void (struct kvm_vcpu *)''),
      Field ''HOST_OWNED_DEBUGCTL'' u64,
      Field ''update_exception_bitmap'' (CPtr ''void (struct kvm_vcpu *)''),
      Field ''get_msr'' (CPtr ''int (struct kvm_vcpu *, struct msr_data *)''),
      Field ''set_msr'' (CPtr ''int (struct kvm_vcpu *, struct msr_data *)''),
      Field ''get_segment_base'' (CPtr ''u64 (struct kvm_vcpu *, int)''),
      Field ''get_segment'' (CPtr ''void (struct kvm_vcpu *, struct kvm_segment *, int)''),
      Field ''get_cpl'' (CPtr ''int (struct kvm_vcpu *)''),
      Field ''get_cpl_no_cache'' (CPtr ''int (struct kvm_vcpu *)''),
      Field ''set_segment'' (CPtr ''void (struct kvm_vcpu *, struct kvm_segment *, int)''),
      Field ''get_cs_db_l_bits'' (CPtr ''void (struct kvm_vcpu *, int *, int *)''),
      Field ''is_valid_cr0'' (CPtr ''bool (struct kvm_vcpu *, long unsigned int)''),
      Field ''set_cr0'' (CPtr ''void (struct kvm_vcpu *, long unsigned int)''),
      Field ''post_set_cr3'' (CPtr ''void (struct kvm_vcpu *, long unsigned int)''),
      Field ''is_valid_cr4'' (CPtr ''bool (struct kvm_vcpu *, long unsigned int)''),
      Field ''set_cr4'' (CPtr ''void (struct kvm_vcpu *, long unsigned int)''),
      Field ''set_efer'' (CPtr ''int (struct kvm_vcpu *, u64)''),
      Field ''get_idt'' (CPtr ''void (struct kvm_vcpu *, struct desc_ptr *)''),
      Field ''set_idt'' (CPtr ''void (struct kvm_vcpu *, struct desc_ptr *)''),
      Field ''get_gdt'' (CPtr ''void (struct kvm_vcpu *, struct desc_ptr *)''),
      Field ''set_gdt'' (CPtr ''void (struct kvm_vcpu *, struct desc_ptr *)''),
      Field ''sync_dirty_debug_regs'' (CPtr ''void (struct kvm_vcpu *)''),
      Field ''set_dr7'' (CPtr ''void (struct kvm_vcpu *, long unsigned int)''),
      Field ''cache_reg'' (CPtr ''void (struct kvm_vcpu *, enum kvm_reg)''),
      Field ''get_rflags'' (CPtr ''long unsigned int (struct kvm_vcpu *)''),
      Field ''set_rflags'' (CPtr ''void (struct kvm_vcpu *, long unsigned int)''),
      Field ''get_if_flag'' (CPtr ''bool (struct kvm_vcpu *)''),
      Field ''flush_tlb_all'' (CPtr ''void (struct kvm_vcpu *)''),
      Field ''flush_tlb_current'' (CPtr ''void (struct kvm_vcpu *)''),
      Field ''flush_remote_tlbs'' (CPtr ''int (struct kvm *)''),
      Field ''flush_remote_tlbs_range'' (CPtr ''int (struct kvm *, gfn_t, gfn_t)''),
      Field ''flush_tlb_gva'' (CPtr ''void (struct kvm_vcpu *, gva_t)''),
      Field ''flush_tlb_guest'' (CPtr ''void (struct kvm_vcpu *)''),
      Field ''vcpu_pre_run'' (CPtr ''int (struct kvm_vcpu *)''),
      Field ''vcpu_run'' (CPtr ''enum exit_fastpath_completion (struct kvm_vcpu *, u64)''),
      Field ''handle_exit'' (CPtr ''int (struct kvm_vcpu *, enum exit_fastpath_completion)''),
      Field ''skip_emulated_instruction'' (CPtr ''int (struct kvm_vcpu *)''),
      Field ''update_emulated_instruction'' (CPtr ''void (struct kvm_vcpu *)''),
      Field ''set_interrupt_shadow'' (CPtr ''void (struct kvm_vcpu *, int)''),
      Field ''get_interrupt_shadow'' (CPtr ''u32 (struct kvm_vcpu *)''),
      Field ''patch_hypercall'' (CPtr ''void (struct kvm_vcpu *, unsigned char *)''),
      Field ''inject_irq'' (CPtr ''void (struct kvm_vcpu *, bool)''),
      Field ''inject_nmi'' (CPtr ''void (struct kvm_vcpu *)''),
      Field ''inject_exception'' (CPtr ''void (struct kvm_vcpu *)''),
      Field ''cancel_injection'' (CPtr ''void (struct kvm_vcpu *)''),
      Field ''interrupt_allowed'' (CPtr ''int (struct kvm_vcpu *, bool)''),
      Field ''nmi_allowed'' (CPtr ''int (struct kvm_vcpu *, bool)''),
      Field ''get_nmi_mask'' (CPtr ''bool (struct kvm_vcpu *)''),
      Field ''set_nmi_mask'' (CPtr ''void (struct kvm_vcpu *, bool)''),
      Field ''is_vnmi_pending'' (CPtr ''bool (struct kvm_vcpu *)''),
      Field ''set_vnmi_pending'' (CPtr ''bool (struct kvm_vcpu *)''),
      Field ''enable_nmi_window'' (CPtr ''void (struct kvm_vcpu *)''),
      Field ''enable_irq_window'' (CPtr ''void (struct kvm_vcpu *)''),
      Field ''update_cr8_intercept'' (CPtr ''void (struct kvm_vcpu *, int, int)''),
      Field ''x2apic_icr_is_split'' bool,
      Field ''required_apicv_inhibits'' long_unsigned_int,
      Field ''allow_apicv_in_x2apic_without_x2apic_virtualization'' bool,
      Field ''refresh_apicv_exec_ctrl'' (CPtr ''void (struct kvm_vcpu *)''),
      Field ''hwapic_isr_update'' (CPtr ''void (struct kvm_vcpu *, int)''),
      Field ''load_eoi_exitmap'' (CPtr ''void (struct kvm_vcpu *, u64 *)''),
      Field ''set_virtual_apic_mode'' (CPtr ''void (struct kvm_vcpu *)''),
      Field ''set_apic_access_page_addr'' (CPtr ''void (struct kvm_vcpu *)''),
      Field ''deliver_interrupt'' (CPtr ''void (struct kvm_lapic *, int, int, int)''),
      Field ''sync_pir_to_irr'' (CPtr ''int (struct kvm_vcpu *)''),
      Field ''set_tss_addr'' (CPtr ''int (struct kvm *, unsigned int)''),
      Field ''set_identity_map_addr'' (CPtr ''int (struct kvm *, u64)''),
      Field ''get_mt_mask'' (CPtr ''u8 (struct kvm_vcpu *, gfn_t, bool)''),
      Field ''load_mmu_pgd'' (CPtr ''void (struct kvm_vcpu *, hpa_t, int)''),
      Field ''link_external_spt'' (CPtr ''int (struct kvm *, gfn_t, enum pg_level, void *)''),
      Field ''set_external_spte'' (CPtr ''int (struct kvm *, gfn_t, enum pg_level, u64)''),
      Field ''free_external_spt'' (CPtr ''int (struct kvm *, gfn_t, enum pg_level, void *)''),
      Field ''remove_external_spte'' (CPtr ''void (struct kvm *, gfn_t, enum pg_level, u64)''),
      Field ''has_wbinvd_exit'' (CPtr ''bool (void)''),
      Field ''get_l2_tsc_offset'' (CPtr ''u64 (struct kvm_vcpu *)''),
      Field ''get_l2_tsc_multiplier'' (CPtr ''u64 (struct kvm_vcpu *)''),
      Field ''write_tsc_offset'' (CPtr ''void (struct kvm_vcpu *)''),
      Field ''write_tsc_multiplier'' (CPtr ''void (struct kvm_vcpu *)''),
      Field ''get_exit_info'' (CPtr ''void (struct kvm_vcpu *, u32 *, u64 *, u64 *, u32 *, u32 *)''),
      Field ''get_entry_info'' (CPtr ''void (struct kvm_vcpu *, u32 *, u32 *)''),
      Field ''check_intercept'' (CPtr ''int (struct kvm_vcpu *, struct x86_instruction_info *, enum x86_intercept_stage, struct x86_exception *)''),
      Field ''handle_exit_irqoff'' (CPtr ''void (struct kvm_vcpu *)''),
      Field ''update_cpu_dirty_logging'' (CPtr ''void (struct kvm_vcpu *)''),
      Field ''nested_ops'' (CPtr ''const struct kvm_x86_nested_ops''),
      Field ''vcpu_blocking'' (CPtr ''void (struct kvm_vcpu *)''),
      Field ''vcpu_unblocking'' (CPtr ''void (struct kvm_vcpu *)''),
      Field ''pi_update_irte'' (CPtr ''int (struct kvm_kernel_irqfd *, struct kvm *, unsigned int, uint32_t, struct kvm_vcpu *, u32)''),
      Field ''pi_start_bypass'' (CPtr ''void (struct kvm *)''),
      Field ''apicv_pre_state_restore'' (CPtr ''void (struct kvm_vcpu *)''),
      Field ''apicv_post_state_restore'' (CPtr ''void (struct kvm_vcpu *)''),
      Field ''dy_apicv_has_pending_interrupt'' (CPtr ''bool (struct kvm_vcpu *)''),
      Field ''protected_apic_has_interrupt'' (CPtr ''bool (struct kvm_vcpu *)''),
      Field ''set_hv_timer'' (CPtr ''int (struct kvm_vcpu *, u64, bool *)''),
      Field ''cancel_hv_timer'' (CPtr ''void (struct kvm_vcpu *)''),
      Field ''setup_mce'' (CPtr ''void (struct kvm_vcpu *)''),
      Field ''smi_allowed'' (CPtr ''int (struct kvm_vcpu *, bool)''),
      Field ''enter_smm'' (CPtr ''int (struct kvm_vcpu *, union kvm_smram *)''),
      Field ''leave_smm'' (CPtr ''int (struct kvm_vcpu *, const union kvm_smram *)''),
      Field ''enable_smi_window'' (CPtr ''void (struct kvm_vcpu *)''),
      Field ''dev_get_attr'' (CPtr ''int (u32, u64, u64 *)''),
      Field ''mem_enc_ioctl'' (CPtr ''int (struct kvm *, void *)''),
      Field ''vcpu_mem_enc_ioctl'' (CPtr ''int (struct kvm_vcpu *, void *)''),
      Field ''vcpu_mem_enc_unlocked_ioctl'' (CPtr ''int (struct kvm_vcpu *, void *)''),
      Field ''mem_enc_register_region'' (CPtr ''int (struct kvm *, struct kvm_enc_region *)''),
      Field ''mem_enc_unregister_region'' (CPtr ''int (struct kvm *, struct kvm_enc_region *)''),
      Field ''vm_copy_enc_context_from'' (CPtr ''int (struct kvm *, unsigned int)''),
      Field ''vm_move_enc_context_from'' (CPtr ''int (struct kvm *, unsigned int)''),
      Field ''guest_memory_reclaimed'' (CPtr ''void (struct kvm *)''),
      Field ''get_feature_msr'' (CPtr ''int (u32, u64 *)''),
      Field ''check_emulate_instruction'' (CPtr ''int (struct kvm_vcpu *, int, void *, int)''),
      Field ''apic_init_signal_blocked'' (CPtr ''bool (struct kvm_vcpu *)''),
      Field ''enable_l2_tlb_flush'' (CPtr ''int (struct kvm_vcpu *)''),
      Field ''migrate_timers'' (CPtr ''void (struct kvm_vcpu *)''),
      Field ''recalc_intercepts'' (CPtr ''void (struct kvm_vcpu *)''),
      Field ''complete_emulated_msr'' (CPtr ''int (struct kvm_vcpu *, int)''),
      Field ''vcpu_deliver_sipi_vector'' (CPtr ''void (struct kvm_vcpu *, u8)''),
      Field ''vcpu_get_apicv_inhibit_reasons'' (CPtr ''long unsigned int (struct kvm_vcpu *)''),
      Field ''get_untagged_addr'' (CPtr ''gva_t (struct kvm_vcpu *, gva_t, unsigned int)''),
      Field ''alloc_apic_backing_page'' (CPtr ''void * (struct kvm_vcpu *)''),
      Field ''gmem_prepare'' (CPtr ''int (struct kvm *, kvm_pfn_t, gfn_t, int)''),
      Field ''gmem_invalidate'' (CPtr ''void (kvm_pfn_t, kvm_pfn_t)''),
      Field ''gmem_max_mapping_level'' (CPtr ''int (struct kvm *, kvm_pfn_t, bool)'')]"

section \<open>Sizes and alignments\<close>

lemma enum_hid_type_layout [layout_simps]:
  "sizeof enum_hid_type = 4 \<and> alignof enum_hid_type = 4 \<and> wf_cty enum_hid_type"
  by (simp add: enum_hid_type_def base_types layout_eval
      del: One_nat_def)

lemma struct_hid_report_enum_layout [layout_simps]:
  "sizeof struct_hid_report_enum = 2072 \<and> alignof struct_hid_report_enum = 8 \<and> wf_cty struct_hid_report_enum"
  by (simp add: struct_hid_report_enum_def base_types layout_eval struct_list_head_layout
      del: One_nat_def)

lemma enum_hid_battery_status_layout [layout_simps]:
  "sizeof enum_hid_battery_status = 4 \<and> alignof enum_hid_battery_status = 4 \<and> wf_cty enum_hid_battery_status"
  by (simp add: enum_hid_battery_status_def base_types layout_eval
      del: One_nat_def)

lemma struct_hid_device_layout [layout_simps]:
  "sizeof struct_hid_device = 7832 \<and> alignof struct_hid_device = 8 \<and> wf_cty struct_hid_device"
  by (simp add: struct_hid_device_def base_types layout_eval c__u16_def c__u32_def enum_hid_type_layout
      struct_hid_report_enum_layout struct_work_struct_layout struct_semaphore_layout
      struct_device_layout struct_mutex_layout c__s32_def enum_hid_battery_status_layout bool_def
      ktime_t_def s64_def c__s64_def struct_list_head_layout spinlock_t_def struct_spinlock_layout
      wait_queue_head_t_def struct_wait_queue_head_layout struct_kref_layout struct_hid_bpf_layout
      del: One_nat_def)

lemma struct_hid_driver_layout [layout_simps]:
  "sizeof struct_hid_driver = 336 \<and> alignof struct_hid_driver = 8 \<and> wf_cty struct_hid_driver"
  by (simp add: struct_hid_driver_def base_types layout_eval struct_list_head_layout spinlock_t_def
      struct_spinlock_layout struct_device_driver_layout
      del: One_nat_def)

lemma struct_hid_field_layout [layout_simps]:
  "sizeof struct_hid_field = 136 \<and> alignof struct_hid_field = 8 \<and> wf_cty struct_hid_field"
  by (simp add: struct_hid_field_def base_types layout_eval c__s32_def bool_def c__u16_def
      del: One_nat_def)

lemma struct_tracing_map_sort_key_layout [layout_simps]:
  "sizeof struct_tracing_map_sort_key = 8 \<and> alignof struct_tracing_map_sort_key = 4 \<and> wf_cty struct_tracing_map_sort_key"
  by (simp add: struct_tracing_map_sort_key_def base_types layout_eval bool_def
      del: One_nat_def)

lemma struct_hist_trigger_data_layout [layout_simps]:
  "sizeof struct_hist_trigger_data = 2024 \<and> alignof struct_hist_trigger_data = 8 \<and> wf_cty struct_hist_trigger_data"
  by (simp add: struct_hist_trigger_data_def base_types layout_eval struct_tracing_map_sort_key_layout bool_def
      del: One_nat_def)

lemma union_hv_device_id_layout [layout_simps]:
  "sizeof union_hv_device_id = 8 \<and> alignof union_hv_device_id = 8 \<and> wf_cty union_hv_device_id"
  by (simp add: union_hv_device_id_def base_types layout_eval u64_def c__u64_def hv_pci_rid_def u16_def c__u16_def
      union_hv_pci_bdf_layout hv_pci_segment_def union_hv_pci_bus_range_layout u8_def c__u8_def u32_def
      c__u32_def
      del: One_nat_def)

lemma struct_ghcb_layout [layout_simps]:
  "sizeof struct_ghcb = 4096 \<and> alignof struct_ghcb = 8 \<and> wf_cty struct_ghcb"
  by (simp add: struct_ghcb_def base_types layout_eval struct_ghcb_save_area_layout u8_def c__u8_def u16_def c__u16_def
      u32_def c__u32_def
      del: One_nat_def)

lemma union_hv_ghcb_layout [layout_simps]:
  "sizeof union_hv_ghcb = 4096 \<and> alignof union_hv_ghcb = 8 \<and> wf_cty union_hv_ghcb"
  by (simp add: union_hv_ghcb_def base_types layout_eval struct_ghcb_layout u64_def c__u64_def u32_def c__u32_def u16_def
      c__u16_def
      del: One_nat_def)

lemma struct_user_regs_struct32_layout [layout_simps]:
  "sizeof struct_user_regs_struct32 = 68 \<and> alignof struct_user_regs_struct32 = 4 \<and> wf_cty struct_user_regs_struct32"
  by (simp add: struct_user_regs_struct32_def base_types layout_eval c__u32_def
      del: One_nat_def)

lemma enum_ib_mtu_layout [layout_simps]:
  "sizeof enum_ib_mtu = 4 \<and> alignof enum_ib_mtu = 4 \<and> wf_cty enum_ib_mtu"
  by (simp add: enum_ib_mtu_def base_types layout_eval
      del: One_nat_def)

lemma struct_ib_port_attr_layout [layout_simps]:
  "sizeof struct_ib_port_attr = 72 \<and> alignof struct_ib_port_attr = 8 \<and> wf_cty struct_ib_port_attr"
  by (simp add: struct_ib_port_attr_def base_types layout_eval u64_def c__u64_def enum_ib_port_state_layout
      enum_ib_mtu_layout u32_def c__u32_def u16_def c__u16_def u8_def c__u8_def
      del: One_nat_def)

lemma enum_ib_qp_type_layout [layout_simps]:
  "sizeof enum_ib_qp_type = 4 \<and> alignof enum_ib_qp_type = 4 \<and> wf_cty enum_ib_qp_type"
  by (simp add: enum_ib_qp_type_def base_types layout_eval
      del: One_nat_def)

lemma struct_ib_qp_layout [layout_simps]:
  "sizeof struct_ib_qp = 336 \<and> alignof struct_ib_qp = 8 \<and> wf_cty struct_ib_qp"
  by (simp add: struct_ib_qp_def base_types layout_eval spinlock_t_def struct_spinlock_layout struct_list_head_layout
      struct_completion_layout atomic_t_layout u32_def c__u32_def enum_ib_qp_type_layout bool_def
      struct_rdma_restrack_entry_layout
      del: One_nat_def)

lemma enum_ib_qp_state_layout [layout_simps]:
  "sizeof enum_ib_qp_state = 4 \<and> alignof enum_ib_qp_state = 4 \<and> wf_cty enum_ib_qp_state"
  by (simp add: enum_ib_qp_state_def base_types layout_eval
      del: One_nat_def)

lemma enum_ib_mig_state_layout [layout_simps]:
  "sizeof enum_ib_mig_state = 4 \<and> alignof enum_ib_mig_state = 4 \<and> wf_cty enum_ib_mig_state"
  by (simp add: enum_ib_mig_state_def base_types layout_eval
      del: One_nat_def)

lemma struct_ib_qp_cap_layout [layout_simps]:
  "sizeof struct_ib_qp_cap = 24 \<and> alignof struct_ib_qp_cap = 4 \<and> wf_cty struct_ib_qp_cap"
  by (simp add: struct_ib_qp_cap_def base_types layout_eval u32_def c__u32_def
      del: One_nat_def)

lemma struct_ib_qp_attr_layout [layout_simps]:
  "sizeof struct_ib_qp_attr = 216 \<and> alignof struct_ib_qp_attr = 8 \<and> wf_cty struct_ib_qp_attr"
  by (simp add: struct_ib_qp_attr_def base_types layout_eval enum_ib_qp_state_layout enum_ib_mtu_layout
      enum_ib_mig_state_layout u32_def c__u32_def struct_ib_qp_cap_layout struct_rdma_ah_attr_layout
      u16_def c__u16_def u8_def c__u8_def
      del: One_nat_def)

lemma enum_ib_wc_status_layout [layout_simps]:
  "sizeof enum_ib_wc_status = 4 \<and> alignof enum_ib_wc_status = 4 \<and> wf_cty enum_ib_wc_status"
  by (simp add: enum_ib_wc_status_def base_types layout_eval
      del: One_nat_def)

lemma enum_ib_wc_opcode_layout [layout_simps]:
  "sizeof enum_ib_wc_opcode = 4 \<and> alignof enum_ib_wc_opcode = 4 \<and> wf_cty enum_ib_wc_opcode"
  by (simp add: enum_ib_wc_opcode_def base_types layout_eval
      del: One_nat_def)

lemma struct_ib_wc_layout [layout_simps]:
  "sizeof struct_ib_wc = 72 \<and> alignof struct_ib_wc = 8 \<and> wf_cty struct_ib_wc"
  by (simp add: struct_ib_wc_def base_types layout_eval u64_def c__u64_def enum_ib_wc_status_layout
      enum_ib_wc_opcode_layout u32_def c__u32_def c__be32_def u16_def c__u16_def u8_def c__u8_def
      del: One_nat_def)

lemma union_ibs_op_data3_layout [layout_simps]:
  "sizeof union_ibs_op_data3 = 8 \<and> alignof union_ibs_op_data3 = 8 \<and> wf_cty union_ibs_op_data3"
  by (simp add: union_ibs_op_data3_def base_types layout_eval c__u64_def
      del: One_nat_def)

lemma enum_ima_hooks_layout [layout_simps]:
  "sizeof enum_ima_hooks = 4 \<and> alignof enum_ima_hooks = 4 \<and> wf_cty enum_ima_hooks"
  by (simp add: enum_ima_hooks_def base_types layout_eval
      del: One_nat_def)

lemma struct_ima_rule_entry_layout [layout_simps]:
  "sizeof struct_ima_rule_entry = 296 \<and> alignof struct_ima_rule_entry = 8 \<and> wf_cty struct_ima_rule_entry"
  by (simp add: struct_ima_rule_entry_def base_types layout_eval struct_list_head_layout enum_ima_hooks_layout
      uuid_t_layout kuid_t_layout kgid_t_layout
      del: One_nat_def)

lemma struct_inet6_ifaddr_layout [layout_simps]:
  "sizeof struct_inet6_ifaddr = 296 \<and> alignof struct_inet6_ifaddr = 8 \<and> wf_cty struct_inet6_ifaddr"
  by (simp add: struct_inet6_ifaddr_def base_types layout_eval struct_in6_addr_layout c__u32_def refcount_t_def
      struct_refcount_struct_layout spinlock_t_def struct_spinlock_layout c__u8_def c__u16_def c__u64_def
      struct_delayed_work_layout struct_hlist_node_layout struct_list_head_layout bool_def u8_def
      struct_callback_head_layout
      del: One_nat_def)

lemma inflate_mode_layout [layout_simps]:
  "sizeof inflate_mode = 4 \<and> alignof inflate_mode = 4 \<and> wf_cty inflate_mode"
  by (simp add: inflate_mode_def base_types layout_eval
      del: One_nat_def)

lemma code_layout [layout_simps]:
  "sizeof code = 4 \<and> alignof code = 2 \<and> wf_cty code"
  by (simp add: code_def base_types layout_eval
      del: One_nat_def)

lemma struct_inflate_state_layout [layout_simps]:
  "sizeof struct_inflate_state = 9544 \<and> alignof struct_inflate_state = 8 \<and> wf_cty struct_inflate_state"
  by (simp add: struct_inflate_state_def base_types layout_eval inflate_mode_layout code_layout
      del: One_nat_def)

lemma struct_input_id_layout [layout_simps]:
  "sizeof struct_input_id = 8 \<and> alignof struct_input_id = 2 \<and> wf_cty struct_input_id"
  by (simp add: struct_input_id_def base_types layout_eval c__u16_def
      del: One_nat_def)

lemma struct_input_dev_layout [layout_simps]:
  "sizeof struct_input_dev = 1440 \<and> alignof struct_input_dev = 8 \<and> wf_cty struct_input_dev"
  by (simp add: struct_input_dev_def base_types layout_eval struct_input_id_layout struct_timer_list_layout
      spinlock_t_def struct_spinlock_layout struct_mutex_layout bool_def struct_device_layout
      struct_list_head_layout ktime_t_def s64_def c__s64_def
      del: One_nat_def)

lemma struct_iou_vec_layout [layout_simps]:
  "sizeof struct_iou_vec = 16 \<and> alignof struct_iou_vec = 8 \<and> wf_cty struct_iou_vec"
  by (simp add: struct_iou_vec_def base_types layout_eval
      del: One_nat_def)

lemma struct_iov_iter_state_layout [layout_simps]:
  "sizeof struct_iov_iter_state = 24 \<and> alignof struct_iov_iter_state = 8 \<and> wf_cty struct_iov_iter_state"
  by (simp add: struct_iov_iter_state_def base_types layout_eval size_t_def c__kernel_size_t_def c__kernel_ulong_t_def
      del: One_nat_def)

lemma struct_uio_meta_layout [layout_simps]:
  "sizeof struct_uio_meta = 56 \<and> alignof struct_uio_meta = 8 \<and> wf_cty struct_uio_meta"
  by (simp add: struct_uio_meta_def base_types layout_eval uio_meta_flags_t_def c__u16_def u16_def u64_def c__u64_def
      struct_iov_iter_layout
      del: One_nat_def)

lemma struct_io_meta_state_layout [layout_simps]:
  "sizeof struct_io_meta_state = 32 \<and> alignof struct_io_meta_state = 8 \<and> wf_cty struct_io_meta_state"
  by (simp add: struct_io_meta_state_def base_types layout_eval u32_def c__u32_def struct_iov_iter_state_layout
      del: One_nat_def)

lemma struct_io_async_rw_layout [layout_simps]:
  "sizeof struct_io_async_rw = 200 \<and> alignof struct_io_async_rw = 8 \<and> wf_cty struct_io_async_rw"
  by (simp add: struct_io_async_rw_def base_types layout_eval struct_iou_vec_layout size_t_def c__kernel_size_t_def
      c__kernel_ulong_t_def struct_iov_iter_layout struct_iov_iter_state_layout struct_iovec_layout
      struct_wait_page_queue_layout struct_uio_meta_layout struct_io_meta_state_layout
      del: One_nat_def)

lemma struct_ioam6_trace_hdr_layout [layout_simps]:
  "sizeof struct_ioam6_trace_hdr = 8 \<and> alignof struct_ioam6_trace_hdr = 4 \<and> wf_cty struct_ioam6_trace_hdr"
  by (simp add: struct_ioam6_trace_hdr_def base_types layout_eval c__be16_def c__u16_def c__u8_def c__be32_def c__u32_def
      del: One_nat_def)

lemma struct_ioc_params_layout [layout_simps]:
  "sizeof struct_ioc_params = 128 \<and> alignof struct_ioc_params = 8 \<and> wf_cty struct_ioc_params"
  by (simp add: struct_ioc_params_def base_types layout_eval u32_def c__u32_def u64_def c__u64_def
      del: One_nat_def)

lemma struct_ioc_margins_layout [layout_simps]:
  "sizeof struct_ioc_margins = 24 \<and> alignof struct_ioc_margins = 8 \<and> wf_cty struct_ioc_margins"
  by (simp add: struct_ioc_margins_def base_types layout_eval s64_def c__s64_def
      del: One_nat_def)

lemma enum_ioc_running_layout [layout_simps]:
  "sizeof enum_ioc_running = 4 \<and> alignof enum_ioc_running = 4 \<and> wf_cty enum_ioc_running"
  by (simp add: enum_ioc_running_def base_types layout_eval
      del: One_nat_def)

lemma struct_ioc_layout [layout_simps]:
  "sizeof struct_ioc = 424 \<and> alignof struct_ioc = 8 \<and> wf_cty struct_ioc"
  by (simp add: struct_ioc_def base_types layout_eval struct_rq_qos_layout bool_def struct_ioc_params_layout
      struct_ioc_margins_layout u32_def c__u32_def u64_def c__u64_def spinlock_t_def
      struct_spinlock_layout struct_timer_list_layout struct_list_head_layout enum_ioc_running_layout
      atomic64_t_layout s64_def c__s64_def seqcount_spinlock_t_def struct_seqcount_spinlock_layout
      atomic_t_layout
      del: One_nat_def)

lemma struct_iocg_stat_layout [layout_simps]:
  "sizeof struct_iocg_stat = 32 \<and> alignof struct_iocg_stat = 8 \<and> wf_cty struct_iocg_stat"
  by (simp add: struct_iocg_stat_def base_types layout_eval u64_def c__u64_def
      del: One_nat_def)

lemma struct_ioc_gq_layout [layout_simps]:
  "sizeof struct_ioc_gq = 424 \<and> alignof struct_ioc_gq = 8 \<and> wf_cty struct_ioc_gq"
  by (simp add: struct_ioc_gq_def base_types layout_eval struct_blkg_policy_data_layout u32_def c__u32_def s64_def
      c__s64_def sector_t_def u64_def c__u64_def atomic64_t_layout struct_list_head_layout
      struct_wait_queue_head_layout struct_hrtimer_layout struct_iocg_stat_layout
      del: One_nat_def)

lemma struct_dst_cache_layout [layout_simps]:
  "sizeof struct_dst_cache = 16 \<and> alignof struct_dst_cache = 8 \<and> wf_cty struct_dst_cache"
  by (simp add: struct_dst_cache_def base_types layout_eval
      del: One_nat_def)

lemma struct_ip_tunnel_parm_kern_layout [layout_simps]:
  "sizeof struct_ip_tunnel_parm_kern = 64 \<and> alignof struct_ip_tunnel_parm_kern = 8 \<and> wf_cty struct_ip_tunnel_parm_kern"
  by (simp add: struct_ip_tunnel_parm_kern_def base_types layout_eval c__be32_def c__u32_def struct_iphdr_layout
      del: One_nat_def)

lemma struct_ip_tunnel_encap_layout [layout_simps]:
  "sizeof struct_ip_tunnel_encap = 8 \<and> alignof struct_ip_tunnel_encap = 2 \<and> wf_cty struct_ip_tunnel_encap"
  by (simp add: struct_ip_tunnel_encap_def base_types layout_eval u16_def c__u16_def c__be16_def
      del: One_nat_def)

lemma struct_ip_tunnel_6rd_parm_layout [layout_simps]:
  "sizeof struct_ip_tunnel_6rd_parm = 24 \<and> alignof struct_ip_tunnel_6rd_parm = 4 \<and> wf_cty struct_ip_tunnel_6rd_parm"
  by (simp add: struct_ip_tunnel_6rd_parm_def base_types layout_eval struct_in6_addr_layout c__be32_def c__u32_def
      u16_def c__u16_def
      del: One_nat_def)

lemma struct_ip_tunnel_fan_layout [layout_simps]:
  "sizeof struct_ip_tunnel_fan = 16 \<and> alignof struct_ip_tunnel_fan = 8 \<and> wf_cty struct_ip_tunnel_fan"
  by (simp add: struct_ip_tunnel_fan_def base_types layout_eval struct_list_head_layout
      del: One_nat_def)

lemma struct_gro_cells_layout [layout_simps]:
  "sizeof struct_gro_cells = 8 \<and> alignof struct_gro_cells = 8 \<and> wf_cty struct_gro_cells"
  by (simp add: struct_gro_cells_def base_types layout_eval
      del: One_nat_def)

lemma struct_ip_tunnel_layout [layout_simps]:
  "sizeof struct_ip_tunnel = 256 \<and> alignof struct_ip_tunnel = 8 \<and> wf_cty struct_ip_tunnel"
  by (simp add: struct_ip_tunnel_def base_types layout_eval struct_hlist_node_layout netdevice_tracker_layout u32_def
      c__u32_def atomic_t_layout u8_def c__u8_def u16_def c__u16_def struct_dst_cache_layout
      struct_ip_tunnel_parm_kern_layout struct_ip_tunnel_encap_layout struct_ip_tunnel_6rd_parm_layout
      struct_ip_tunnel_fan_layout struct_gro_cells_layout bool_def
      del: One_nat_def)

lemma struct_ipv6_stub_layout [layout_simps]:
  "sizeof struct_ipv6_stub = 200 \<and> alignof struct_ipv6_stub = 8 \<and> wf_cty struct_ipv6_stub"
  by (simp add: struct_ipv6_stub_def base_types layout_eval
      del: One_nat_def)

lemma struct_irq_redirect_layout [layout_simps]:
  "sizeof struct_irq_redirect = 40 \<and> alignof struct_irq_redirect = 8 \<and> wf_cty struct_irq_redirect"
  by (simp add: struct_irq_redirect_def base_types layout_eval struct_irq_work_layout
      del: One_nat_def)

lemma struct_irq_desc_layout [layout_simps]:
  "sizeof struct_irq_desc = 512 \<and> alignof struct_irq_desc = 8 \<and> wf_cty struct_irq_desc"
  by (simp add: struct_irq_desc_def base_types layout_eval struct_irq_common_data_layout struct_irq_data_layout
      irq_flow_handler_t_def atomic_t_layout raw_spinlock_t_def struct_raw_spinlock_layout
      struct_irq_redirect_layout cpumask_var_t_def wait_queue_head_t_def struct_wait_queue_head_layout
      struct_callback_head_layout struct_kobject_layout struct_mutex_layout struct_hlist_node_layout
      del: One_nat_def)

lemma enum_ipi_vector_layout [layout_simps]:
  "sizeof enum_ipi_vector = 4 \<and> alignof enum_ipi_vector = 4 \<and> wf_cty enum_ipi_vector"
  by (simp add: enum_ipi_vector_def base_types layout_eval
      del: One_nat_def)

lemma struct_irq_info___2_layout [layout_simps]:
  "sizeof struct_irq_info___2 = 136 \<and> alignof struct_irq_info___2 = 8 \<and> wf_cty struct_irq_info___2"
  by (simp add: struct_irq_info___2_def base_types layout_eval struct_list_head_layout struct_rcu_work_layout u8_def
      c__u8_def evtchn_port_t_def uint32_t_def u32_def c__u32_def u64_def c__u64_def raw_spinlock_t_def
      struct_raw_spinlock_layout bool_def enum_ipi_vector_layout uint16_t_def u16_def c__u16_def
      del: One_nat_def)

lemma struct_transaction_run_stats_s_layout [layout_simps]:
  "sizeof struct_transaction_run_stats_s = 64 \<and> alignof struct_transaction_run_stats_s = 8 \<and> wf_cty struct_transaction_run_stats_s"
  by (simp add: struct_transaction_run_stats_s_def base_types layout_eval c__u32_def
      del: One_nat_def)

lemma struct_transaction_stats_s_layout [layout_simps]:
  "sizeof struct_transaction_stats_s = 80 \<and> alignof struct_transaction_stats_s = 8 \<and> wf_cty struct_transaction_stats_s"
  by (simp add: struct_transaction_stats_s_def base_types layout_eval struct_transaction_run_stats_s_layout
      del: One_nat_def)

lemma struct_journal_s_layout [layout_simps]:
  "sizeof struct_journal_s = 1408 \<and> alignof struct_journal_s = 8 \<and> wf_cty struct_journal_s"
  by (simp add: struct_journal_s_def base_types layout_eval struct_mutex_layout rwlock_t_def struct_rwlock_layout
      wait_queue_head_t_def struct_wait_queue_head_layout struct_percpu_counter_layout errseq_t_def
      u32_def c__u32_def atomic_t_layout spinlock_t_def struct_spinlock_layout tid_t_def c__u8_def
      struct_timer_list_layout pid_t_def c__kernel_pid_t_def u64_def c__u64_def
      struct_transaction_stats_s_layout struct_lock_class_key_layout
      del: One_nat_def)

lemma struct_sigqueue_layout [layout_simps]:
  "sizeof struct_sigqueue = 80 \<and> alignof struct_sigqueue = 8 \<and> wf_cty struct_sigqueue"
  by (simp add: struct_sigqueue_def base_types layout_eval struct_list_head_layout kernel_siginfo_t_def
      struct_kernel_siginfo_layout
      del: One_nat_def)

lemma struct_cpu_timer_layout [layout_simps]:
  "sizeof struct_cpu_timer = 80 \<and> alignof struct_cpu_timer = 8 \<and> wf_cty struct_cpu_timer"
  by (simp add: struct_cpu_timer_def base_types layout_eval struct_timerqueue_node_layout struct_list_head_layout
      bool_def
      del: One_nat_def)

lemma enum_alarmtimer_type_layout [layout_simps]:
  "sizeof enum_alarmtimer_type = 4 \<and> alignof enum_alarmtimer_type = 4 \<and> wf_cty enum_alarmtimer_type"
  by (simp add: enum_alarmtimer_type_def base_types layout_eval
      del: One_nat_def)

lemma struct_alarm_layout [layout_simps]:
  "sizeof struct_alarm = 120 \<and> alignof struct_alarm = 8 \<and> wf_cty struct_alarm"
  by (simp add: struct_alarm_def base_types layout_eval struct_timerqueue_node_layout struct_hrtimer_layout
      enum_alarmtimer_type_layout
      del: One_nat_def)

lemma struct_k_itimer_layout [layout_simps]:
  "sizeof struct_k_itimer = 384 \<and> alignof struct_k_itimer = 8 \<and> wf_cty struct_k_itimer"
  by (simp add: struct_k_itimer_def base_types layout_eval struct_hlist_node_layout timer_t_def c__kernel_timer_t_def
      clockid_t_def c__kernel_clockid_t_def enum_pid_type_layout spinlock_t_def struct_spinlock_layout
      bool_def s64_def c__s64_def ktime_t_def struct_sigqueue_layout rcuref_t_layout
      struct_hrtimer_layout struct_cpu_timer_layout struct_alarm_layout struct_callback_head_layout
      del: One_nat_def)

lemma struct_kexec_segment_layout [layout_simps]:
  "sizeof struct_kexec_segment = 32 \<and> alignof struct_kexec_segment = 8 \<and> wf_cty struct_kexec_segment"
  by (simp add: struct_kexec_segment_def base_types layout_eval size_t_def c__kernel_size_t_def c__kernel_ulong_t_def
      del: One_nat_def)

lemma struct_kimage_arch_layout [layout_simps]:
  "sizeof struct_kimage_arch = 40 \<and> alignof struct_kimage_arch = 8 \<and> wf_cty struct_kimage_arch"
  by (simp add: struct_kimage_arch_def base_types layout_eval
      del: One_nat_def)

lemma struct_purgatory_info_layout [layout_simps]:
  "sizeof struct_purgatory_info = 24 \<and> alignof struct_purgatory_info = 8 \<and> wf_cty struct_purgatory_info"
  by (simp add: struct_purgatory_info_def base_types layout_eval
      del: One_nat_def)

lemma struct_kimage_layout [layout_simps]:
  "sizeof struct_kimage = 1008 \<and> alignof struct_kimage = 8 \<and> wf_cty struct_kimage"
  by (simp add: struct_kimage_def base_types layout_eval kimage_entry_t_def struct_kexec_segment_layout
      struct_list_head_layout struct_kimage_arch_layout struct_purgatory_info_layout bool_def
      phys_addr_t_def u64_def c__u64_def size_t_def c__kernel_size_t_def c__kernel_ulong_t_def
      del: One_nat_def)

lemma struct_statmount_layout [layout_simps]:
  "sizeof struct_statmount = 512 \<and> alignof struct_statmount = 8 \<and> wf_cty struct_statmount"
  by (simp add: struct_statmount_def base_types layout_eval c__u32_def c__u64_def
      del: One_nat_def)

lemma struct_kvm_hyperv_exit_layout [layout_simps]:
  "sizeof struct_kvm_hyperv_exit = 56 \<and> alignof struct_kvm_hyperv_exit = 8 \<and> wf_cty struct_kvm_hyperv_exit"
  by (simp add: struct_kvm_hyperv_exit_def base_types layout_eval c__u32_def c__u64_def
      del: One_nat_def)

lemma enum_pmc_type_layout [layout_simps]:
  "sizeof enum_pmc_type = 4 \<and> alignof enum_pmc_type = 4 \<and> wf_cty enum_pmc_type"
  by (simp add: enum_pmc_type_def base_types layout_eval
      del: One_nat_def)

lemma struct_kvm_pmc_layout [layout_simps]:
  "sizeof struct_kvm_pmc = 64 \<and> alignof struct_kvm_pmc = 8 \<and> wf_cty struct_kvm_pmc"
  by (simp add: struct_kvm_pmc_def base_types layout_eval enum_pmc_type_layout u8_def c__u8_def bool_def u64_def
      c__u64_def
      del: One_nat_def)

lemma struct_kvm_pmu_layout [layout_simps]:
  "sizeof struct_kvm_pmu = 904 \<and> alignof struct_kvm_pmu = 8 \<and> wf_cty struct_kvm_pmu"
  by (simp add: struct_kvm_pmu_def base_types layout_eval u8_def c__u8_def u64_def c__u64_def struct_kvm_pmc_layout
      atomic64_t_layout bool_def
      del: One_nat_def)

lemma struct_kvm_vcpu_events_layout [layout_simps]:
  "sizeof struct_kvm_vcpu_events = 64 \<and> alignof struct_kvm_vcpu_events = 8 \<and> wf_cty struct_kvm_vcpu_events"
  by (simp add: struct_kvm_vcpu_events_def base_types layout_eval c__u8_def c__u32_def c__u64_def
      del: One_nat_def)

lemma struct_kvm_debug_exit_arch_layout [layout_simps]:
  "sizeof struct_kvm_debug_exit_arch = 32 \<and> alignof struct_kvm_debug_exit_arch = 8 \<and> wf_cty struct_kvm_debug_exit_arch"
  by (simp add: struct_kvm_debug_exit_arch_def base_types layout_eval c__u32_def c__u64_def
      del: One_nat_def)

lemma struct_kvm_xen_exit_layout [layout_simps]:
  "sizeof struct_kvm_xen_exit = 80 \<and> alignof struct_kvm_xen_exit = 8 \<and> wf_cty struct_kvm_xen_exit"
  by (simp add: struct_kvm_xen_exit_def base_types layout_eval c__u32_def c__u64_def
      del: One_nat_def)

lemma struct_kvm_exit_snp_req_certs_layout [layout_simps]:
  "sizeof struct_kvm_exit_snp_req_certs = 24 \<and> alignof struct_kvm_exit_snp_req_certs = 8 \<and> wf_cty struct_kvm_exit_snp_req_certs"
  by (simp add: struct_kvm_exit_snp_req_certs_def base_types layout_eval c__u64_def
      del: One_nat_def)

lemma struct_kvm_regs_layout [layout_simps]:
  "sizeof struct_kvm_regs = 144 \<and> alignof struct_kvm_regs = 8 \<and> wf_cty struct_kvm_regs"
  by (simp add: struct_kvm_regs_def base_types layout_eval c__u64_def
      del: One_nat_def)

lemma struct_kvm_segment_layout [layout_simps]:
  "sizeof struct_kvm_segment = 24 \<and> alignof struct_kvm_segment = 8 \<and> wf_cty struct_kvm_segment"
  by (simp add: struct_kvm_segment_def base_types layout_eval c__u64_def c__u32_def c__u16_def c__u8_def
      del: One_nat_def)

lemma struct_kvm_dtable_layout [layout_simps]:
  "sizeof struct_kvm_dtable = 16 \<and> alignof struct_kvm_dtable = 8 \<and> wf_cty struct_kvm_dtable"
  by (simp add: struct_kvm_dtable_def base_types layout_eval c__u64_def c__u16_def
      del: One_nat_def)

lemma struct_kvm_sregs_layout [layout_simps]:
  "sizeof struct_kvm_sregs = 312 \<and> alignof struct_kvm_sregs = 8 \<and> wf_cty struct_kvm_sregs"
  by (simp add: struct_kvm_sregs_def base_types layout_eval struct_kvm_segment_layout struct_kvm_dtable_layout c__u64_def
      del: One_nat_def)

lemma struct_kvm_sync_regs_layout [layout_simps]:
  "sizeof struct_kvm_sync_regs = 520 \<and> alignof struct_kvm_sync_regs = 8 \<and> wf_cty struct_kvm_sync_regs"
  by (simp add: struct_kvm_sync_regs_def base_types layout_eval struct_kvm_regs_layout struct_kvm_sregs_layout
      struct_kvm_vcpu_events_layout
      del: One_nat_def)

lemma struct_kvm_run_layout [layout_simps]:
  "sizeof struct_kvm_run = 2352 \<and> alignof struct_kvm_run = 8 \<and> wf_cty struct_kvm_run"
  by (simp add: struct_kvm_run_def base_types layout_eval c__u8_def c__u32_def c__u16_def c__u64_def
      struct_kvm_debug_exit_arch_layout struct_kvm_hyperv_exit_layout struct_kvm_xen_exit_layout
      struct_kvm_exit_snp_req_certs_layout struct_kvm_sync_regs_layout
      del: One_nat_def)

lemma struct_kvm_mmu_root_info_layout [layout_simps]:
  "sizeof struct_kvm_mmu_root_info = 16 \<and> alignof struct_kvm_mmu_root_info = 8 \<and> wf_cty struct_kvm_mmu_root_info"
  by (simp add: struct_kvm_mmu_root_info_def base_types layout_eval gpa_t_def u64_def c__u64_def hpa_t_def
      del: One_nat_def)

lemma union_kvm_mmu_page_role_layout [layout_simps]:
  "sizeof union_kvm_mmu_page_role = 4 \<and> alignof union_kvm_mmu_page_role = 4 \<and> wf_cty union_kvm_mmu_page_role"
  by (simp add: union_kvm_mmu_page_role_def base_types layout_eval u32_def c__u32_def
      del: One_nat_def)

lemma union_kvm_mmu_extended_role_layout [layout_simps]:
  "sizeof union_kvm_mmu_extended_role = 4 \<and> alignof union_kvm_mmu_extended_role = 4 \<and> wf_cty union_kvm_mmu_extended_role"
  by (simp add: union_kvm_mmu_extended_role_def base_types layout_eval u32_def c__u32_def
      del: One_nat_def)

lemma union_kvm_cpu_role_layout [layout_simps]:
  "sizeof union_kvm_cpu_role = 8 \<and> alignof union_kvm_cpu_role = 8 \<and> wf_cty union_kvm_cpu_role"
  by (simp add: union_kvm_cpu_role_def base_types layout_eval u64_def c__u64_def union_kvm_mmu_page_role_layout
      union_kvm_mmu_extended_role_layout
      del: One_nat_def)

lemma struct_rsvd_bits_validate_layout [layout_simps]:
  "sizeof struct_rsvd_bits_validate = 88 \<and> alignof struct_rsvd_bits_validate = 8 \<and> wf_cty struct_rsvd_bits_validate"
  by (simp add: struct_rsvd_bits_validate_def base_types layout_eval u64_def c__u64_def
      del: One_nat_def)

lemma struct_kvm_mmu_layout [layout_simps]:
  "sizeof struct_kvm_mmu = 384 \<and> alignof struct_kvm_mmu = 8 \<and> wf_cty struct_kvm_mmu"
  by (simp add: struct_kvm_mmu_def base_types layout_eval struct_kvm_mmu_root_info_layout hpa_t_def u64_def c__u64_def
      union_kvm_cpu_role_layout union_kvm_mmu_page_role_layout u32_def c__u32_def u8_def c__u8_def
      struct_rsvd_bits_validate_layout
      del: One_nat_def)

lemma struct_fpu_guest_layout [layout_simps]:
  "sizeof struct_fpu_guest = 32 \<and> alignof struct_fpu_guest = 8 \<and> wf_cty struct_fpu_guest"
  by (simp add: struct_fpu_guest_def base_types layout_eval u64_def c__u64_def
      del: One_nat_def)

lemma struct_kvm_pio_request_layout [layout_simps]:
  "sizeof struct_kvm_pio_request = 24 \<and> alignof struct_kvm_pio_request = 8 \<and> wf_cty struct_kvm_pio_request"
  by (simp add: struct_kvm_pio_request_def base_types layout_eval
      del: One_nat_def)

lemma struct_kvm_queued_exception_layout [layout_simps]:
  "sizeof struct_kvm_queued_exception = 24 \<and> alignof struct_kvm_queued_exception = 8 \<and> wf_cty struct_kvm_queued_exception"
  by (simp add: struct_kvm_queued_exception_def base_types layout_eval bool_def u8_def c__u8_def u32_def c__u32_def
      del: One_nat_def)

lemma struct_kvm_queued_interrupt_layout [layout_simps]:
  "sizeof struct_kvm_queued_interrupt = 3 \<and> alignof struct_kvm_queued_interrupt = 1 \<and> wf_cty struct_kvm_queued_interrupt"
  by (simp add: struct_kvm_queued_interrupt_def base_types layout_eval bool_def u8_def c__u8_def
      del: One_nat_def)

lemma struct_gfn_to_hva_cache_layout [layout_simps]:
  "sizeof struct_gfn_to_hva_cache = 40 \<and> alignof struct_gfn_to_hva_cache = 8 \<and> wf_cty struct_gfn_to_hva_cache"
  by (simp add: struct_gfn_to_hva_cache_def base_types layout_eval u64_def c__u64_def gpa_t_def
      del: One_nat_def)

lemma struct_kvm_mtrr_layout [layout_simps]:
  "sizeof struct_kvm_mtrr = 224 \<and> alignof struct_kvm_mtrr = 8 \<and> wf_cty struct_kvm_mtrr"
  by (simp add: struct_kvm_mtrr_def base_types layout_eval u64_def c__u64_def
      del: One_nat_def)

lemma struct_kvm_hypervisor_cpuid_layout [layout_simps]:
  "sizeof struct_kvm_hypervisor_cpuid = 8 \<and> alignof struct_kvm_hypervisor_cpuid = 4 \<and> wf_cty struct_kvm_hypervisor_cpuid"
  by (simp add: struct_kvm_hypervisor_cpuid_def base_types layout_eval u32_def c__u32_def
      del: One_nat_def)

lemma struct_kvm_vcpu_xen_layout [layout_simps]:
  "sizeof struct_kvm_vcpu_xen = 696 \<and> alignof struct_kvm_vcpu_xen = 8 \<and> wf_cty struct_kvm_vcpu_xen"
  by (simp add: struct_kvm_vcpu_xen_def base_types layout_eval u64_def c__u64_def u32_def c__u32_def u8_def c__u8_def
      struct_gfn_to_pfn_cache_layout atomic_t_layout struct_hrtimer_layout struct_timer_list_layout
      struct_kvm_hypervisor_cpuid_layout
      del: One_nat_def)

lemma struct_kvm_vcpu_arch_layout [layout_simps]:
  "sizeof struct_kvm_vcpu_arch = 5248 \<and> alignof struct_kvm_vcpu_arch = 8 \<and> wf_cty struct_kvm_vcpu_arch"
  by (simp add: struct_kvm_vcpu_arch_def base_types layout_eval u32_def c__u32_def u64_def c__u64_def bool_def
      int32_t_def s32_def c__s32_def struct_kvm_mmu_layout struct_kvm_mmu_memory_cache_layout
      struct_fpu_guest_layout struct_kvm_pio_request_layout u8_def c__u8_def
      struct_kvm_queued_exception_layout struct_kvm_queued_interrupt_layout gpa_t_def s8_def c__s8_def
      struct_gfn_to_pfn_cache_layout struct_gfn_to_hva_cache_layout s64_def c__s64_def atomic_t_layout
      struct_kvm_mtrr_layout gfn_t_def struct_kvm_pmu_layout struct_kvm_vcpu_xen_layout cpumask_var_t_def
      u16_def c__u16_def hpa_t_def
      del: One_nat_def)

lemma struct_kvm_vcpu_stat_generic_layout [layout_simps]:
  "sizeof struct_kvm_vcpu_stat_generic = 832 \<and> alignof struct_kvm_vcpu_stat_generic = 8 \<and> wf_cty struct_kvm_vcpu_stat_generic"
  by (simp add: struct_kvm_vcpu_stat_generic_def base_types layout_eval u64_def c__u64_def
      del: One_nat_def)

lemma struct_kvm_vcpu_stat_layout [layout_simps]:
  "sizeof struct_kvm_vcpu_stat = 1104 \<and> alignof struct_kvm_vcpu_stat = 8 \<and> wf_cty struct_kvm_vcpu_stat"
  by (simp add: struct_kvm_vcpu_stat_def base_types layout_eval struct_kvm_vcpu_stat_generic_layout u64_def c__u64_def
      del: One_nat_def)

lemma struct_preempt_notifier_layout [layout_simps]:
  "sizeof struct_preempt_notifier = 24 \<and> alignof struct_preempt_notifier = 8 \<and> wf_cty struct_preempt_notifier"
  by (simp add: struct_preempt_notifier_def base_types layout_eval struct_hlist_node_layout
      del: One_nat_def)

lemma struct_kvm_mmio_fragment_layout [layout_simps]:
  "sizeof struct_kvm_mmio_fragment = 32 \<and> alignof struct_kvm_mmio_fragment = 8 \<and> wf_cty struct_kvm_mmio_fragment"
  by (simp add: struct_kvm_mmio_fragment_def base_types layout_eval gpa_t_def u64_def c__u64_def
      del: One_nat_def)

lemma struct_kvm_dirty_ring_layout [layout_simps]:
  "sizeof struct_kvm_dirty_ring = 32 \<and> alignof struct_kvm_dirty_ring = 8 \<and> wf_cty struct_kvm_dirty_ring"
  by (simp add: struct_kvm_dirty_ring_def base_types layout_eval u32_def c__u32_def
      del: One_nat_def)

lemma struct_kvm_vcpu_layout [layout_simps]:
  "sizeof struct_kvm_vcpu = 6752 \<and> alignof struct_kvm_vcpu = 8 \<and> wf_cty struct_kvm_vcpu"
  by (simp add: struct_kvm_vcpu_def base_types layout_eval struct_preempt_notifier_layout u64_def c__u64_def
      struct_mutex_layout struct_rcuwait_layout rwlock_t_def struct_rwlock_layout sigset_t_layout
      bool_def struct_kvm_mmio_fragment_layout u32_def c__u32_def struct_list_head_layout spinlock_t_def
      struct_spinlock_layout struct_kvm_vcpu_arch_layout struct_kvm_vcpu_stat_layout
      struct_kvm_dirty_ring_layout
      del: One_nat_def)

lemma struct_kvm_vcpu_hv_synic_layout [layout_simps]:
  "sizeof struct_kvm_vcpu_hv_synic = 296 \<and> alignof struct_kvm_vcpu_hv_synic = 8 \<and> wf_cty struct_kvm_vcpu_hv_synic"
  by (simp add: struct_kvm_vcpu_hv_synic_def base_types layout_eval u64_def c__u64_def atomic64_t_layout atomic_t_layout
      bool_def
      del: One_nat_def)

lemma union_hv_stimer_config_layout [layout_simps]:
  "sizeof union_hv_stimer_config = 8 \<and> alignof union_hv_stimer_config = 8 \<and> wf_cty union_hv_stimer_config"
  by (simp add: union_hv_stimer_config_def base_types layout_eval u64_def c__u64_def
      del: One_nat_def)

lemma union_hv_message_flags_layout [layout_simps]:
  "sizeof union_hv_message_flags = 1 \<and> alignof union_hv_message_flags = 1 \<and> wf_cty union_hv_message_flags"
  by (simp add: union_hv_message_flags_def base_types layout_eval u8_def c__u8_def
      del: One_nat_def)

lemma union_hv_port_id_layout [layout_simps]:
  "sizeof union_hv_port_id = 4 \<and> alignof union_hv_port_id = 4 \<and> wf_cty union_hv_port_id"
  by (simp add: union_hv_port_id_def base_types layout_eval u32_def c__u32_def
      del: One_nat_def)

lemma struct_hv_message_header_layout [layout_simps]:
  "sizeof struct_hv_message_header = 16 \<and> alignof struct_hv_message_header = 8 \<and> wf_cty struct_hv_message_header"
  by (simp add: struct_hv_message_header_def base_types layout_eval u32_def c__u32_def u8_def c__u8_def
      union_hv_message_flags_layout u64_def c__u64_def union_hv_port_id_layout
      del: One_nat_def)

lemma struct_hv_message_layout [layout_simps]:
  "sizeof struct_hv_message = 256 \<and> alignof struct_hv_message = 8 \<and> wf_cty struct_hv_message"
  by (simp add: struct_hv_message_def base_types layout_eval struct_hv_message_header_layout u64_def c__u64_def
      del: One_nat_def)

lemma struct_kvm_vcpu_hv_stimer_layout [layout_simps]:
  "sizeof struct_kvm_vcpu_hv_stimer = 360 \<and> alignof struct_kvm_vcpu_hv_stimer = 8 \<and> wf_cty struct_kvm_vcpu_hv_stimer"
  by (simp add: struct_kvm_vcpu_hv_stimer_def base_types layout_eval struct_hrtimer_layout union_hv_stimer_config_layout
      u64_def c__u64_def struct_hv_message_layout bool_def
      del: One_nat_def)

lemma struct_kvm_vcpu_hv_tlb_flush_fifo_layout [layout_simps]:
  "sizeof struct_kvm_vcpu_hv_tlb_flush_fifo = 160 \<and> alignof struct_kvm_vcpu_hv_tlb_flush_fifo = 8 \<and> wf_cty struct_kvm_vcpu_hv_tlb_flush_fifo"
  by (simp add: struct_kvm_vcpu_hv_tlb_flush_fifo_def base_types layout_eval spinlock_t_def struct_spinlock_layout
      struct___kfifo_layout u64_def c__u64_def
      del: One_nat_def)

lemma struct_hv_nested_enlightenments_control_layout [layout_simps]:
  "sizeof struct_hv_nested_enlightenments_control = 8 \<and> alignof struct_hv_nested_enlightenments_control = 4 \<and> wf_cty struct_hv_nested_enlightenments_control"
  by (simp add: struct_hv_nested_enlightenments_control_def base_types layout_eval u32_def c__u32_def
      del: One_nat_def)

lemma struct_hv_vp_assist_page_layout [layout_simps]:
  "sizeof struct_hv_vp_assist_page = 624 \<and> alignof struct_hv_vp_assist_page = 8 \<and> wf_cty struct_hv_vp_assist_page"
  by (simp add: struct_hv_vp_assist_page_def base_types layout_eval u32_def c__u32_def u64_def c__u64_def
      struct_hv_nested_enlightenments_control_layout u8_def c__u8_def
      del: One_nat_def)

lemma struct_kvm_vcpu_hv_layout [layout_simps]:
  "sizeof struct_kvm_vcpu_hv = 3864 \<and> alignof struct_kvm_vcpu_hv = 8 \<and> wf_cty struct_kvm_vcpu_hv"
  by (simp add: struct_kvm_vcpu_hv_def base_types layout_eval u32_def c__u32_def u64_def c__u64_def s64_def c__s64_def
      struct_kvm_vcpu_hv_synic_layout struct_kvm_hyperv_exit_layout struct_kvm_vcpu_hv_stimer_layout
      bool_def struct_kvm_vcpu_hv_tlb_flush_fifo_layout struct_hv_vp_assist_page_layout
      del: One_nat_def)

lemma struct_kvm_x86_ops_layout [layout_simps]:
  "sizeof struct_kvm_x86_ops = 1112 \<and> alignof struct_kvm_x86_ops = 8 \<and> wf_cty struct_kvm_x86_ops"
  by (simp add: struct_kvm_x86_ops_def base_types layout_eval u64_def c__u64_def bool_def
      del: One_nat_def)

end
