(* ===== verification/KernelLargec.thy ===== *)
theory KernelLargec
  imports KernelSubPci
begin

text \<open>
  Types of other subsystems in \<^verbatim>\<open>bpf/vmlinux.h\<close>: those that take 25 lines and more there, with every type they
  hold by value (part 3 of 10).
\<close>

section \<open>Types\<close>

definition enum_xsd_sockmsg_type :: cty where
  "enum_xsd_sockmsg_type = CEnum 4
     [(''XS_CONTROL'', 0), (''XS_DIRECTORY'', 1), (''XS_READ'', 2), (''XS_GET_PERMS'', 3),
      (''XS_WATCH'', 4), (''XS_UNWATCH'', 5), (''XS_TRANSACTION_START'', 6),
      (''XS_TRANSACTION_END'', 7), (''XS_INTRODUCE'', 8), (''XS_RELEASE'', 9),
      (''XS_GET_DOMAIN_PATH'', 10), (''XS_WRITE'', 11), (''XS_MKDIR'', 12), (''XS_RM'', 13),
      (''XS_SET_PERMS'', 14), (''XS_WATCH_EVENT'', 15), (''XS_ERROR'', 16),
      (''XS_IS_DOMAIN_INTRODUCED'', 17), (''XS_RESUME'', 18), (''XS_SET_TARGET'', 19),
      (''XS_RESET_WATCHES'', 21), (''XS_DIRECTORY_PART'', 22), (''XS_TYPE_COUNT'', 23),
      (''XS_INVALID'', 65535)]"

definition struct_IO_APIC_route_entry :: cty where
  "struct_IO_APIC_route_entry = CStruct ''IO_APIC_route_entry'' False
     [Field [] (CUnion [] False
        [Field [] (CStruct [] False
           [BitField ''vector'' u64 8,
            BitField ''delivery_mode'' u64 3,
            BitField ''dest_mode_logical'' u64 1,
            BitField ''delivery_status'' u64 1,
            BitField ''active_low'' u64 1,
            BitField ''irr'' u64 1,
            BitField ''is_level'' u64 1,
            BitField ''masked'' u64 1,
            BitField ''reserved_0'' u64 15,
            BitField ''reserved_1'' u64 17,
            BitField ''virt_destid_8_14'' u64 7,
            BitField ''destid_0_7'' u64 8]),
         Field [] (CStruct [] False
           [BitField ''ir_shared_0'' u64 8,
            BitField ''ir_zero'' u64 3,
            BitField ''ir_index_15'' u64 1,
            BitField ''ir_shared_1'' u64 5,
            BitField ''ir_reserved_0'' u64 31,
            BitField ''ir_format'' u64 1,
            BitField ''ir_index_0_14'' u64 15]),
         Field [] (CStruct [] False
           [BitField ''w1'' u64 32,
            BitField ''w2'' u64 32])])]"

definition struct_RigidDiskBlock :: cty where
  "struct_RigidDiskBlock = CStruct ''RigidDiskBlock'' False
     [Field ''rdb_ID'' c__be32,
      Field ''rdb_SummedLongs'' c__be32,
      Field ''rdb_ChkSum'' c__be32,
      Field ''rdb_HostID'' c__be32,
      Field ''rdb_BlockBytes'' c__be32,
      Field ''rdb_Flags'' c__be32,
      Field ''rdb_BadBlockList'' c__be32,
      Field ''rdb_PartitionList'' c__be32,
      Field ''rdb_FileSysHeaderList'' c__be32,
      Field ''rdb_DriveInit'' c__be32,
      Field ''rdb_Reserved1'' (CArr 6 c__be32),
      Field ''rdb_Cylinders'' c__be32,
      Field ''rdb_Sectors'' c__be32,
      Field ''rdb_Heads'' c__be32,
      Field ''rdb_Interleave'' c__be32,
      Field ''rdb_Park'' c__be32,
      Field ''rdb_Reserved2'' (CArr 3 c__be32),
      Field ''rdb_WritePreComp'' c__be32,
      Field ''rdb_ReducedWrite'' c__be32,
      Field ''rdb_StepRate'' c__be32,
      Field ''rdb_Reserved3'' (CArr 5 c__be32),
      Field ''rdb_RDBBlocksLo'' c__be32,
      Field ''rdb_RDBBlocksHi'' c__be32,
      Field ''rdb_LoCylinder'' c__be32,
      Field ''rdb_HiCylinder'' c__be32,
      Field ''rdb_CylBlocks'' c__be32,
      Field ''rdb_AutoParkSeconds'' c__be32,
      Field ''rdb_HighRDSKBlock'' c__be32,
      Field ''rdb_Reserved4'' c__be32,
      Field ''rdb_DiskVendor'' (CArr 8 c_char),
      Field ''rdb_DiskProduct'' (CArr 16 c_char),
      Field ''rdb_DiskRevision'' (CArr 4 c_char),
      Field ''rdb_ControllerVendor'' (CArr 8 c_char),
      Field ''rdb_ControllerProduct'' (CArr 16 c_char),
      Field ''rdb_ControllerRevision'' (CArr 4 c_char),
      Field ''rdb_Reserved5'' (CArr 10 c__be32)]"

definition enum_scsi_host_state :: cty where
  "enum_scsi_host_state = CEnum 4
     [(''SHOST_CREATED'', 1), (''SHOST_RUNNING'', 2), (''SHOST_CANCEL'', 3), (''SHOST_DEL'', 4),
      (''SHOST_RECOVERY'', 5), (''SHOST_CANCEL_RECOVERY'', 6), (''SHOST_DEL_RECOVERY'', 7)]"

definition struct_Scsi_Host :: cty where
  "struct_Scsi_Host = CStruct ''Scsi_Host'' False
     [Field ''__devices'' struct_list_head,
      Field ''__targets'' struct_list_head,
      Field ''starved_list'' struct_list_head,
      Field ''default_lock'' spinlock_t,
      Field ''host_lock'' (CPtr ''spinlock_t''),
      Field ''scan_mutex'' struct_mutex,
      Field ''eh_abort_list'' struct_list_head,
      Field ''eh_cmd_q'' struct_list_head,
      Field ''ehandler'' (CPtr ''struct task_struct''),
      Field ''eh_action'' (CPtr ''struct completion''),
      Field ''host_wait'' wait_queue_head_t,
      Field ''hostt'' (CPtr ''const struct scsi_host_template''),
      Field ''transportt'' (CPtr ''struct scsi_transport_template''),
      Field ''tagset_refcnt'' struct_kref,
      Field ''tagset_freed'' struct_completion,
      Field ''tag_set'' struct_blk_mq_tag_set,
      Field ''host_blocked'' atomic_t,
      Field ''host_failed'' unsigned_int,
      Field ''host_eh_scheduled'' unsigned_int,
      Field ''host_no'' unsigned_int,
      Field ''eh_deadline'' c_int,
      Field ''last_reset'' long_unsigned_int,
      Field ''max_channel'' unsigned_int,
      Field ''max_id'' unsigned_int,
      Field ''max_lun'' u64,
      Field ''unique_id'' unsigned_int,
      Field ''max_cmd_len'' short_unsigned_int,
      Field ''this_id'' c_int,
      Field ''can_queue'' c_int,
      Field ''nr_reserved_cmds'' unsigned_int,
      Field ''cmd_per_lun'' short_int,
      Field ''sg_tablesize'' short_unsigned_int,
      Field ''sg_prot_tablesize'' short_unsigned_int,
      Field ''max_sectors'' unsigned_int,
      Field ''opt_sectors'' unsigned_int,
      Field ''max_segment_size'' unsigned_int,
      Field ''dma_alignment'' unsigned_int,
      Field ''dma_boundary'' long_unsigned_int,
      Field ''virt_boundary_mask'' long_unsigned_int,
      Field ''nr_hw_queues'' unsigned_int,
      Field ''nr_maps'' unsigned_int,
      BitField ''active_mode'' unsigned_int 2,
      BitField ''host_self_blocked'' unsigned_int 1,
      BitField ''reverse_ordering'' unsigned_int 1,
      BitField ''tmf_in_progress'' unsigned_int 1,
      BitField ''async_scan'' unsigned_int 1,
      BitField ''eh_noresume'' unsigned_int 1,
      BitField ''no_write_same'' unsigned_int 1,
      BitField ''host_tagset'' unsigned_int 1,
      BitField ''queuecommand_may_block'' unsigned_int 1,
      BitField ''short_inquiry'' unsigned_int 1,
      BitField ''no_scsi2_lun_in_cdb'' unsigned_int 1,
      Field ''work_q'' (CPtr ''struct workqueue_struct''),
      Field ''tmf_work_q'' (CPtr ''struct workqueue_struct''),
      Field ''max_host_blocked'' unsigned_int,
      Field ''prot_capabilities'' unsigned_int,
      Field ''prot_guard_type'' unsigned_char,
      Field ''base'' long_unsigned_int,
      Field ''io_port'' long_unsigned_int,
      Field ''n_io_port'' unsigned_char,
      Field ''dma_channel'' unsigned_char,
      Field ''irq'' unsigned_int,
      Field ''shost_state'' enum_scsi_host_state,
      Field ''shost_gendev'' struct_device,
      Field ''shost_dev'' struct_device,
      Field ''pseudo_sdev'' (CPtr ''struct scsi_device''),
      Field ''shost_data'' (CPtr ''void''),
      Field ''dma_dev'' (CPtr ''struct device''),
      Field ''rpm_autosuspend_delay'' c_int,
      Field ''hostdata'' (CArr 0 long_unsigned_int)]"

definition ZSTD_format_e :: cty where
  "ZSTD_format_e = CEnum 4 [(''ZSTD_f_zstd1'', 0), (''ZSTD_f_zstd1_magicless'', 1)]"

definition ZSTD_strategy :: cty where
  "ZSTD_strategy = CEnum 4 [(''ZSTD_fast'', 1), (''ZSTD_dfast'', 2), (''ZSTD_greedy'', 3), (''ZSTD_lazy'', 4),
         (''ZSTD_lazy2'', 5), (''ZSTD_btlazy2'', 6), (''ZSTD_btopt'', 7), (''ZSTD_btultra'', 8),
         (''ZSTD_btultra2'', 9)]"

definition ZSTD_compressionParameters :: cty where
  "ZSTD_compressionParameters = CStruct [] False
      [Field ''windowLog'' unsigned_int,
       Field ''chainLog'' unsigned_int,
       Field ''hashLog'' unsigned_int,
       Field ''searchLog'' unsigned_int,
       Field ''minMatch'' unsigned_int,
       Field ''targetLength'' unsigned_int,
       Field ''strategy'' ZSTD_strategy]"

definition ZSTD_frameParameters :: cty where
  "ZSTD_frameParameters = CStruct [] False
      [Field ''contentSizeFlag'' c_int,
       Field ''checksumFlag'' c_int,
       Field ''noDictIDFlag'' c_int]"

definition ZSTD_dictAttachPref_e :: cty where
  "ZSTD_dictAttachPref_e = CEnum 4 [(''ZSTD_dictDefaultAttach'', 0), (''ZSTD_dictForceAttach'', 1),
         (''ZSTD_dictForceCopy'', 2), (''ZSTD_dictForceLoad'', 3)]"

definition ZSTD_ParamSwitch_e :: cty where
  "ZSTD_ParamSwitch_e = CEnum 4 [(''ZSTD_ps_auto'', 0), (''ZSTD_ps_enable'', 1), (''ZSTD_ps_disable'', 2)]"

definition U32 :: cty where [layout_simps]:
  "U32 = uint32_t"

definition ldmParams_t :: cty where
  "ldmParams_t = CStruct [] False
      [Field ''enableLdm'' ZSTD_ParamSwitch_e,
       Field ''hashLog'' U32,
       Field ''bucketSizeLog'' U32,
       Field ''minMatchLength'' U32,
       Field ''hashRateLog'' U32,
       Field ''windowLog'' U32]"

definition ZSTD_bufferMode_e :: cty where
  "ZSTD_bufferMode_e = CEnum 4 [(''ZSTD_bm_buffered'', 0), (''ZSTD_bm_stable'', 1)]"

definition ZSTD_SequenceFormat_e :: cty where
  "ZSTD_SequenceFormat_e = CEnum 4 [(''ZSTD_sf_noBlockDelimiters'', 0), (''ZSTD_sf_explicitBlockDelimiters'', 1)]"

definition ZSTD_allocFunction :: cty where [layout_simps]:
  "ZSTD_allocFunction = CPtr ''void * (void *, size_t)''"

definition ZSTD_freeFunction :: cty where [layout_simps]:
  "ZSTD_freeFunction = CPtr ''void (void *, void *)''"

definition ZSTD_customMem :: cty where
  "ZSTD_customMem = CStruct [] False
      [Field ''customAlloc'' ZSTD_allocFunction,
       Field ''customFree'' ZSTD_freeFunction,
       Field ''opaque'' (CPtr ''void'')]"

definition ZSTD_sequenceProducer_F :: cty where [layout_simps]:
  "ZSTD_sequenceProducer_F = CPtr ''size_t (void *, ZSTD_Sequence *, size_t, const void *, size_t, const void *, size_t, int, size_t)''"

definition struct_ZSTD_CCtx_params_s :: cty where
  "struct_ZSTD_CCtx_params_s = CStruct ''ZSTD_CCtx_params_s'' False
     [Field ''format'' ZSTD_format_e,
      Field ''cParams'' ZSTD_compressionParameters,
      Field ''fParams'' ZSTD_frameParameters,
      Field ''compressionLevel'' c_int,
      Field ''forceWindow'' c_int,
      Field ''targetCBlockSize'' size_t,
      Field ''srcSizeHint'' c_int,
      Field ''attachDictPref'' ZSTD_dictAttachPref_e,
      Field ''literalCompressionMode'' ZSTD_ParamSwitch_e,
      Field ''nbWorkers'' c_int,
      Field ''jobSize'' size_t,
      Field ''overlapLog'' c_int,
      Field ''rsyncable'' c_int,
      Field ''ldmParams'' ldmParams_t,
      Field ''enableDedicatedDictSearch'' c_int,
      Field ''inBufferMode'' ZSTD_bufferMode_e,
      Field ''outBufferMode'' ZSTD_bufferMode_e,
      Field ''blockDelimiters'' ZSTD_SequenceFormat_e,
      Field ''validateSequences'' c_int,
      Field ''postBlockSplitter'' ZSTD_ParamSwitch_e,
      Field ''preBlockSplitter_level'' c_int,
      Field ''maxBlockSize'' size_t,
      Field ''useRowMatchFinder'' ZSTD_ParamSwitch_e,
      Field ''deterministicRefPrefix'' c_int,
      Field ''customMem'' ZSTD_customMem,
      Field ''prefetchCDictTables'' ZSTD_ParamSwitch_e,
      Field ''enableMatchFinderFallback'' c_int,
      Field ''extSeqProdState'' (CPtr ''void''),
      Field ''extSeqProdFunc'' ZSTD_sequenceProducer_F,
      Field ''searchForExternalRepcodes'' ZSTD_ParamSwitch_e]"

definition ZSTD_compressionStage_e :: cty where
  "ZSTD_compressionStage_e = CEnum 4 [(''ZSTDcs_created'', 0), (''ZSTDcs_init'', 1), (''ZSTDcs_ongoing'', 2),
         (''ZSTDcs_ending'', 3)]"

definition ZSTD_CCtx_params :: cty where [layout_simps]:
  "ZSTD_CCtx_params = struct_ZSTD_CCtx_params_s"

definition BYTE :: cty where [layout_simps]:
  "BYTE = uint8_t"

definition ZSTD_cwksp_alloc_phase_e :: cty where
  "ZSTD_cwksp_alloc_phase_e = CEnum 4 [(''ZSTD_cwksp_alloc_objects'', 0), (''ZSTD_cwksp_alloc_aligned_init_once'', 1),
         (''ZSTD_cwksp_alloc_aligned'', 2), (''ZSTD_cwksp_alloc_buffers'', 3)]"

definition ZSTD_cwksp_static_alloc_e :: cty where
  "ZSTD_cwksp_static_alloc_e = CEnum 4 [(''ZSTD_cwksp_dynamic_alloc'', 0), (''ZSTD_cwksp_static_alloc'', 1)]"

definition ZSTD_cwksp :: cty where
  "ZSTD_cwksp = CStruct [] False
      [Field ''workspace'' (CPtr ''void''),
       Field ''workspaceEnd'' (CPtr ''void''),
       Field ''objectEnd'' (CPtr ''void''),
       Field ''tableEnd'' (CPtr ''void''),
       Field ''tableValidEnd'' (CPtr ''void''),
       Field ''allocStart'' (CPtr ''void''),
       Field ''initOnceStart'' (CPtr ''void''),
       Field ''allocFailed'' BYTE,
       Field ''workspaceOversizedDuration'' c_int,
       Field ''phase'' ZSTD_cwksp_alloc_phase_e,
       Field ''isStatic'' ZSTD_cwksp_static_alloc_e]"

definition struct_xxh64_state :: cty where
  "struct_xxh64_state = CStruct ''xxh64_state'' False
     [Field ''total_len'' uint64_t,
      Field ''v1'' uint64_t,
      Field ''v2'' uint64_t,
      Field ''v3'' uint64_t,
      Field ''v4'' uint64_t,
      Field ''mem64'' (CArr 4 uint64_t),
      Field ''memsize'' uint32_t]"

definition SeqCollector :: cty where
  "SeqCollector = CStruct [] False
      [Field ''collectSequences'' c_int,
       Field ''seqStart'' (CPtr ''ZSTD_Sequence''),
       Field ''seqIndex'' size_t,
       Field ''maxSequences'' size_t]"

definition ZSTD_longLengthType_e :: cty where
  "ZSTD_longLengthType_e = CEnum 4 [(''ZSTD_llt_none'', 0), (''ZSTD_llt_literalLength'', 1), (''ZSTD_llt_matchLength'', 2)]"

definition SeqStore_t :: cty where
  "SeqStore_t = CStruct [] False
      [Field ''sequencesStart'' (CPtr ''SeqDef''),
       Field ''sequences'' (CPtr ''SeqDef''),
       Field ''litStart'' (CPtr ''BYTE''),
       Field ''lit'' (CPtr ''BYTE''),
       Field ''llCode'' (CPtr ''BYTE''),
       Field ''mlCode'' (CPtr ''BYTE''),
       Field ''ofCode'' (CPtr ''BYTE''),
       Field ''maxNbSeq'' size_t,
       Field ''maxNbLit'' size_t,
       Field ''longLengthType'' ZSTD_longLengthType_e,
       Field ''longLengthPos'' U32]"

definition ZSTD_window_t :: cty where
  "ZSTD_window_t = CStruct [] False
      [Field ''nextSrc'' (CPtr ''const BYTE''),
       Field ''base'' (CPtr ''const BYTE''),
       Field ''dictBase'' (CPtr ''const BYTE''),
       Field ''dictLimit'' U32,
       Field ''lowLimit'' U32,
       Field ''nbOverflowCorrections'' U32]"

definition ldmMatchCandidate_t :: cty where
  "ldmMatchCandidate_t = CStruct [] False
      [Field ''split'' (CPtr ''const BYTE''),
       Field ''hash'' U32,
       Field ''checksum'' U32,
       Field ''bucket'' (CPtr ''ldmEntry_t'')]"

definition ldmState_t :: cty where
  "ldmState_t = CStruct [] False
      [Field ''window'' ZSTD_window_t,
       Field ''hashTable'' (CPtr ''ldmEntry_t''),
       Field ''loadedDictEnd'' U32,
       Field ''bucketOffsets'' (CPtr ''BYTE''),
       Field ''splitIndices'' (CArr 64 size_t),
       Field ''matchCandidates'' (CArr 64 ldmMatchCandidate_t)]"

definition RawSeqStore_t :: cty where
  "RawSeqStore_t = CStruct [] False
      [Field ''seq'' (CPtr ''rawSeq''),
       Field ''pos'' size_t,
       Field ''posInSequence'' size_t,
       Field ''size'' size_t,
       Field ''capacity'' size_t]"

definition U64 :: cty where [layout_simps]:
  "U64 = uint64_t"

definition ZSTD_OptPrice_e :: cty where
  "ZSTD_OptPrice_e = CEnum 4 [(''zop_dynamic'', 0), (''zop_predef'', 1)]"

definition optState_t :: cty where
  "optState_t = CStruct [] False
      [Field ''litFreq'' (CPtr ''unsigned int''),
       Field ''litLengthFreq'' (CPtr ''unsigned int''),
       Field ''matchLengthFreq'' (CPtr ''unsigned int''),
       Field ''offCodeFreq'' (CPtr ''unsigned int''),
       Field ''matchTable'' (CPtr ''ZSTD_match_t''),
       Field ''priceTable'' (CPtr ''ZSTD_optimal_t''),
       Field ''litSum'' U32,
       Field ''litLengthSum'' U32,
       Field ''matchLengthSum'' U32,
       Field ''offCodeSum'' U32,
       Field ''litSumBasePrice'' U32,
       Field ''litLengthSumBasePrice'' U32,
       Field ''matchLengthSumBasePrice'' U32,
       Field ''offCodeSumBasePrice'' U32,
       Field ''priceType'' ZSTD_OptPrice_e,
       Field ''symbolCosts'' (CPtr ''const ZSTD_entropyCTables_t''),
       Field ''literalCompressionMode'' ZSTD_ParamSwitch_e]"

definition struct_ZSTD_MatchState_t :: cty where
  "struct_ZSTD_MatchState_t = CStruct ''ZSTD_MatchState_t'' False
     [Field ''window'' ZSTD_window_t,
      Field ''loadedDictEnd'' U32,
      Field ''nextToUpdate'' U32,
      Field ''hashLog3'' U32,
      Field ''rowHashLog'' U32,
      Field ''tagTable'' (CPtr ''BYTE''),
      Field ''hashCache'' (CArr 8 U32),
      Field ''hashSalt'' U64,
      Field ''hashSaltEntropy'' U32,
      Field ''hashTable'' (CPtr ''U32''),
      Field ''hashTable3'' (CPtr ''U32''),
      Field ''chainTable'' (CPtr ''U32''),
      Field ''forceNonContiguous'' c_int,
      Field ''dedicatedDictSearch'' c_int,
      Field ''opt'' optState_t,
      Field ''dictMatchState'' (CPtr ''const ZSTD_MatchState_t''),
      Field ''cParams'' ZSTD_compressionParameters,
      Field ''ldmSeqStore'' (CPtr ''const RawSeqStore_t''),
      Field ''prefetchCDictTables'' c_int,
      Field ''lazySkipping'' c_int]"

definition ZSTD_MatchState_t :: cty where [layout_simps]:
  "ZSTD_MatchState_t = struct_ZSTD_MatchState_t"

definition ZSTD_blockState_t :: cty where
  "ZSTD_blockState_t = CStruct [] False
      [Field ''prevCBlock'' (CPtr ''ZSTD_compressedBlockState_t''),
       Field ''nextCBlock'' (CPtr ''ZSTD_compressedBlockState_t''),
       Field ''matchState'' ZSTD_MatchState_t]"

definition ZSTD_buffered_policy_e :: cty where
  "ZSTD_buffered_policy_e = CEnum 4 [(''ZSTDb_not_buffered'', 0), (''ZSTDb_buffered'', 1)]"

definition ZSTD_cStreamStage :: cty where
  "ZSTD_cStreamStage = CEnum 4 [(''zcss_init'', 0), (''zcss_load'', 1), (''zcss_flush'', 2)]"

definition struct_ZSTD_inBuffer_s :: cty where
  "struct_ZSTD_inBuffer_s = CStruct ''ZSTD_inBuffer_s'' False
     [Field ''src'' (CPtr ''const void''),
      Field ''size'' size_t,
      Field ''pos'' size_t]"

definition ZSTD_inBuffer :: cty where [layout_simps]:
  "ZSTD_inBuffer = struct_ZSTD_inBuffer_s"

definition ZSTD_dictContentType_e :: cty where
  "ZSTD_dictContentType_e = CEnum 4 [(''ZSTD_dct_auto'', 0), (''ZSTD_dct_rawContent'', 1), (''ZSTD_dct_fullDict'', 2)]"

definition ZSTD_localDict :: cty where
  "ZSTD_localDict = CStruct [] False
      [Field ''dictBuffer'' (CPtr ''void''),
       Field ''dict'' (CPtr ''const void''),
       Field ''dictSize'' size_t,
       Field ''dictContentType'' ZSTD_dictContentType_e,
       Field ''cdict'' (CPtr ''ZSTD_CDict'')]"

definition struct_ZSTD_prefixDict_s :: cty where
  "struct_ZSTD_prefixDict_s = CStruct ''ZSTD_prefixDict_s'' False
     [Field ''dict'' (CPtr ''const void''),
      Field ''dictSize'' size_t,
      Field ''dictContentType'' ZSTD_dictContentType_e]"

definition ZSTD_prefixDict :: cty where [layout_simps]:
  "ZSTD_prefixDict = struct_ZSTD_prefixDict_s"

definition SymbolEncodingType_e :: cty where
  "SymbolEncodingType_e = CEnum 4 [(''set_basic'', 0), (''set_rle'', 1), (''set_compressed'', 2), (''set_repeat'', 3)]"

definition ZSTD_hufCTablesMetadata_t :: cty where
  "ZSTD_hufCTablesMetadata_t = CStruct [] False
      [Field ''hType'' SymbolEncodingType_e,
       Field ''hufDesBuffer'' (CArr 128 BYTE),
       Field ''hufDesSize'' size_t]"

definition ZSTD_fseCTablesMetadata_t :: cty where
  "ZSTD_fseCTablesMetadata_t = CStruct [] False
      [Field ''llType'' SymbolEncodingType_e,
       Field ''ofType'' SymbolEncodingType_e,
       Field ''mlType'' SymbolEncodingType_e,
       Field ''fseTablesBuffer'' (CArr 133 BYTE),
       Field ''fseTablesSize'' size_t,
       Field ''lastCountSize'' size_t]"

definition ZSTD_entropyCTablesMetadata_t :: cty where
  "ZSTD_entropyCTablesMetadata_t = CStruct [] False
      [Field ''hufMetadata'' ZSTD_hufCTablesMetadata_t,
       Field ''fseMetadata'' ZSTD_fseCTablesMetadata_t]"

definition ZSTD_blockSplitCtx :: cty where
  "ZSTD_blockSplitCtx = CStruct [] False
      [Field ''fullSeqStoreChunk'' SeqStore_t,
       Field ''firstHalfSeqStore'' SeqStore_t,
       Field ''secondHalfSeqStore'' SeqStore_t,
       Field ''currSeqStore'' SeqStore_t,
       Field ''nextSeqStore'' SeqStore_t,
       Field ''partitions'' (CArr 196 U32),
       Field ''entropyMetadata'' ZSTD_entropyCTablesMetadata_t]"

definition struct_ZSTD_CCtx_s :: cty where
  "struct_ZSTD_CCtx_s = CStruct ''ZSTD_CCtx_s'' False
     [Field ''stage'' ZSTD_compressionStage_e,
      Field ''cParamsChanged'' c_int,
      Field ''bmi2'' c_int,
      Field ''requestedParams'' ZSTD_CCtx_params,
      Field ''appliedParams'' ZSTD_CCtx_params,
      Field ''simpleApiParams'' ZSTD_CCtx_params,
      Field ''dictID'' U32,
      Field ''dictContentSize'' size_t,
      Field ''workspace'' ZSTD_cwksp,
      Field ''blockSizeMax'' size_t,
      Field ''pledgedSrcSizePlusOne'' long_long_unsigned_int,
      Field ''consumedSrcSize'' long_long_unsigned_int,
      Field ''producedCSize'' long_long_unsigned_int,
      Field ''xxhState'' struct_xxh64_state,
      Field ''customMem'' ZSTD_customMem,
      Field ''pool'' (CPtr ''ZSTD_threadPool''),
      Field ''staticSize'' size_t,
      Field ''seqCollector'' SeqCollector,
      Field ''isFirstBlock'' c_int,
      Field ''initialized'' c_int,
      Field ''seqStore'' SeqStore_t,
      Field ''ldmState'' ldmState_t,
      Field ''ldmSequences'' (CPtr ''rawSeq''),
      Field ''maxNbLdmSequences'' size_t,
      Field ''externSeqStore'' RawSeqStore_t,
      Field ''blockState'' ZSTD_blockState_t,
      Field ''tmpWorkspace'' (CPtr ''void''),
      Field ''tmpWkspSize'' size_t,
      Field ''bufferedPolicy'' ZSTD_buffered_policy_e,
      Field ''inBuff'' (CPtr ''char''),
      Field ''inBuffSize'' size_t,
      Field ''inToCompress'' size_t,
      Field ''inBuffPos'' size_t,
      Field ''inBuffTarget'' size_t,
      Field ''outBuff'' (CPtr ''char''),
      Field ''outBuffSize'' size_t,
      Field ''outBuffContentSize'' size_t,
      Field ''outBuffFlushedSize'' size_t,
      Field ''streamStage'' ZSTD_cStreamStage,
      Field ''frameEnded'' U32,
      Field ''expectedInBuffer'' ZSTD_inBuffer,
      Field ''stableIn_notConsumed'' size_t,
      Field ''expectedOutBufferSize'' size_t,
      Field ''localDict'' ZSTD_localDict,
      Field ''cdict'' (CPtr ''const ZSTD_CDict''),
      Field ''prefixDict'' ZSTD_prefixDict,
      Field ''blockSplitCtx'' ZSTD_blockSplitCtx,
      Field ''extSeqBuf'' (CPtr ''ZSTD_Sequence''),
      Field ''extSeqBufCapacity'' size_t]"

definition U16 :: cty where [layout_simps]:
  "U16 = uint16_t"

definition ZSTD_seqSymbol :: cty where
  "ZSTD_seqSymbol = CStruct [] False
      [Field ''nextState'' U16,
       Field ''nbAdditionalBits'' BYTE,
       Field ''nbBits'' BYTE,
       Field ''baseValue'' U32]"

definition HUF_DTable :: cty where [layout_simps]:
  "HUF_DTable = U32"

definition ZSTD_entropyDTables_t :: cty where
  "ZSTD_entropyDTables_t = CStruct [] False
      [Field ''LLTable'' (CArr 513 ZSTD_seqSymbol),
       Field ''OFTable'' (CArr 257 ZSTD_seqSymbol),
       Field ''MLTable'' (CArr 513 ZSTD_seqSymbol),
       Field ''hufTable'' (CArr 4097 HUF_DTable),
       Field ''rep'' (CArr 3 U32),
       Field ''workspace'' (CArr 157 U32)]"

definition ZSTD_FrameType_e :: cty where
  "ZSTD_FrameType_e = CEnum 4 [(''ZSTD_frame'', 0), (''ZSTD_skippableFrame'', 1)]"

definition ZSTD_FrameHeader :: cty where
  "ZSTD_FrameHeader = CStruct [] False
      [Field ''frameContentSize'' long_long_unsigned_int,
       Field ''windowSize'' long_long_unsigned_int,
       Field ''blockSizeMax'' unsigned_int,
       Field ''frameType'' ZSTD_FrameType_e,
       Field ''headerSize'' unsigned_int,
       Field ''dictID'' unsigned_int,
       Field ''checksumFlag'' unsigned_int,
       Field ''_reserved1'' unsigned_int,
       Field ''_reserved2'' unsigned_int]"

definition blockType_e :: cty where
  "blockType_e = CEnum 4 [(''bt_raw'', 0), (''bt_rle'', 1), (''bt_compressed'', 2), (''bt_reserved'', 3)]"

definition ZSTD_dStage :: cty where
  "ZSTD_dStage = CEnum 4 [(''ZSTDds_getFrameHeaderSize'', 0), (''ZSTDds_decodeFrameHeader'', 1),
         (''ZSTDds_decodeBlockHeader'', 2), (''ZSTDds_decompressBlock'', 3),
         (''ZSTDds_decompressLastBlock'', 4), (''ZSTDds_checkChecksum'', 5),
         (''ZSTDds_decodeSkippableHeader'', 6), (''ZSTDds_skipFrame'', 7)]"

definition ZSTD_forceIgnoreChecksum_e :: cty where
  "ZSTD_forceIgnoreChecksum_e = CEnum 4 [(''ZSTD_d_validateChecksum'', 0), (''ZSTD_d_ignoreChecksum'', 1)]"

definition ZSTD_dictUses_e :: cty where
  "ZSTD_dictUses_e = CEnum 4 [(''ZSTD_use_indefinitely'', (- 1)), (''ZSTD_dont_use'', 0), (''ZSTD_use_once'', 1)]"

definition ZSTD_refMultipleDDicts_e :: cty where
  "ZSTD_refMultipleDDicts_e = CEnum 4 [(''ZSTD_rmd_refSingleDDict'', 0), (''ZSTD_rmd_refMultipleDDicts'', 1)]"

definition ZSTD_dStreamStage :: cty where
  "ZSTD_dStreamStage = CEnum 4 [(''zdss_init'', 0), (''zdss_loadHeader'', 1), (''zdss_read'', 2), (''zdss_load'', 3),
         (''zdss_flush'', 4)]"

definition struct_ZSTD_outBuffer_s :: cty where
  "struct_ZSTD_outBuffer_s = CStruct ''ZSTD_outBuffer_s'' False
     [Field ''dst'' (CPtr ''void''),
      Field ''size'' size_t,
      Field ''pos'' size_t]"

definition ZSTD_outBuffer :: cty where [layout_simps]:
  "ZSTD_outBuffer = struct_ZSTD_outBuffer_s"

definition ZSTD_litLocation_e :: cty where
  "ZSTD_litLocation_e = CEnum 4 [(''ZSTD_not_in_dst'', 0), (''ZSTD_in_dst'', 1), (''ZSTD_split'', 2)]"

definition struct_ZSTD_DCtx_s :: cty where
  "struct_ZSTD_DCtx_s = CStruct ''ZSTD_DCtx_s'' False
     [Field ''LLTptr'' (CPtr ''const ZSTD_seqSymbol''),
      Field ''MLTptr'' (CPtr ''const ZSTD_seqSymbol''),
      Field ''OFTptr'' (CPtr ''const ZSTD_seqSymbol''),
      Field ''HUFptr'' (CPtr ''const HUF_DTable''),
      Field ''entropy'' ZSTD_entropyDTables_t,
      Field ''workspace'' (CArr 640 U32),
      Field ''previousDstEnd'' (CPtr ''const void''),
      Field ''prefixStart'' (CPtr ''const void''),
      Field ''virtualStart'' (CPtr ''const void''),
      Field ''dictEnd'' (CPtr ''const void''),
      Field ''expected'' size_t,
      Field ''fParams'' ZSTD_FrameHeader,
      Field ''processedCSize'' U64,
      Field ''decodedSize'' U64,
      Field ''bType'' blockType_e,
      Field ''stage'' ZSTD_dStage,
      Field ''litEntropy'' U32,
      Field ''fseEntropy'' U32,
      Field ''xxhState'' struct_xxh64_state,
      Field ''headerSize'' size_t,
      Field ''format'' ZSTD_format_e,
      Field ''forceIgnoreChecksum'' ZSTD_forceIgnoreChecksum_e,
      Field ''validateChecksum'' U32,
      Field ''litPtr'' (CPtr ''const BYTE''),
      Field ''customMem'' ZSTD_customMem,
      Field ''litSize'' size_t,
      Field ''rleSize'' size_t,
      Field ''staticSize'' size_t,
      Field ''isFrameDecompression'' c_int,
      Field ''bmi2'' c_int,
      Field ''ddictLocal'' (CPtr ''ZSTD_DDict''),
      Field ''ddict'' (CPtr ''const ZSTD_DDict''),
      Field ''dictID'' U32,
      Field ''ddictIsCold'' c_int,
      Field ''dictUses'' ZSTD_dictUses_e,
      Field ''ddictSet'' (CPtr ''ZSTD_DDictHashSet''),
      Field ''refMultipleDDicts'' ZSTD_refMultipleDDicts_e,
      Field ''disableHufAsm'' c_int,
      Field ''maxBlockSizeParam'' c_int,
      Field ''streamStage'' ZSTD_dStreamStage,
      Field ''inBuff'' (CPtr ''char''),
      Field ''inBuffSize'' size_t,
      Field ''inPos'' size_t,
      Field ''maxWindowSize'' size_t,
      Field ''outBuff'' (CPtr ''char''),
      Field ''outBuffSize'' size_t,
      Field ''outStart'' size_t,
      Field ''outEnd'' size_t,
      Field ''lhSize'' size_t,
      Field ''hostageByte'' U32,
      Field ''noForwardProgress'' c_int,
      Field ''outBufferMode'' ZSTD_bufferMode_e,
      Field ''expectedOutBuffer'' ZSTD_outBuffer,
      Field ''litBuffer'' (CPtr ''BYTE''),
      Field ''litBufferEnd'' (CPtr ''const BYTE''),
      Field ''litBufferLocation'' ZSTD_litLocation_e,
      Field ''litExtraBuffer'' (CArr 65568 BYTE),
      Field ''headerBuffer'' (CArr 18 BYTE),
      Field ''oversizedDuration'' size_t]"

definition struct___kernel_timex_timeval :: cty where
  "struct___kernel_timex_timeval = CStruct ''__kernel_timex_timeval'' False
     [Field ''tv_sec'' c__kernel_time64_t,
      Field ''tv_usec'' long_long_int]"

definition struct___kernel_timex :: cty where
  "struct___kernel_timex = CStruct ''__kernel_timex'' False
     [Field ''modes'' unsigned_int,
      Field ''offset'' long_long_int,
      Field ''freq'' long_long_int,
      Field ''maxerror'' long_long_int,
      Field ''esterror'' long_long_int,
      Field ''status'' c_int,
      Field ''constant'' long_long_int,
      Field ''precision'' long_long_int,
      Field ''tolerance'' long_long_int,
      Field ''time'' struct___kernel_timex_timeval,
      Field ''tick'' long_long_int,
      Field ''ppsfreq'' long_long_int,
      Field ''jitter'' long_long_int,
      Field ''shift'' c_int,
      Field ''stabil'' long_long_int,
      Field ''jitcnt'' long_long_int,
      Field ''calcnt'' long_long_int,
      Field ''errcnt'' long_long_int,
      Field ''stbcnt'' long_long_int,
      Field ''tai'' c_int,
      BitField [] c_long 64,
      BitField [] c_long 64,
      BitField [] c_long 64,
      BitField [] c_long 64,
      BitField [] c_long 64]"

definition struct__fpreg :: cty where
  "struct__fpreg = CStruct ''_fpreg'' False
     [Field ''significand'' (CArr 4 c__u16),
      Field ''exponent'' c__u16]"

definition struct__fpxreg :: cty where
  "struct__fpxreg = CStruct ''_fpxreg'' False
     [Field ''significand'' (CArr 4 c__u16),
      Field ''exponent'' c__u16,
      Field ''padding'' (CArr 3 c__u16)]"

definition struct__xmmreg :: cty where
  "struct__xmmreg = CStruct ''_xmmreg'' False
     [Field ''element'' (CArr 4 c__u32)]"

definition struct__fpx_sw_bytes :: cty where
  "struct__fpx_sw_bytes = CStruct ''_fpx_sw_bytes'' False
     [Field ''magic1'' c__u32,
      Field ''extended_size'' c__u32,
      Field ''xfeatures'' c__u64,
      Field ''xstate_size'' c__u32,
      Field ''padding'' (CArr 7 c__u32)]"

definition struct__fpstate_32 :: cty where
  "struct__fpstate_32 = CStruct ''_fpstate_32'' False
     [Field ''cw'' c__u32,
      Field ''sw'' c__u32,
      Field ''tag'' c__u32,
      Field ''ipoff'' c__u32,
      Field ''cssel'' c__u32,
      Field ''dataoff'' c__u32,
      Field ''datasel'' c__u32,
      Field ''_st'' (CArr 8 struct__fpreg),
      Field ''status'' c__u16,
      Field ''magic'' c__u16,
      Field ''_fxsr_env'' (CArr 6 c__u32),
      Field ''mxcsr'' c__u32,
      Field ''reserved'' c__u32,
      Field ''_fxsr_st'' (CArr 8 struct__fpxreg),
      Field ''_xmm'' (CArr 8 struct__xmmreg),
      Field [] (CUnion [] False
        [Field ''padding1'' (CArr 44 c__u32),
         Field ''padding'' (CArr 44 c__u32)]),
      Field [] (CUnion [] False
        [Field ''padding2'' (CArr 12 c__u32),
         Field ''sw_reserved'' struct__fpx_sw_bytes])]"

definition struct_common_audit_data :: cty where
  "struct_common_audit_data = CStruct ''common_audit_data'' False
     [Field ''type'' c_char,
      Field ''u'' (CUnion [] False
        [Field ''path'' struct_path,
         Field ''dentry'' (CPtr ''struct dentry''),
         Field ''inode'' (CPtr ''struct inode''),
         Field ''net'' (CPtr ''struct lsm_network_audit''),
         Field ''cap'' c_int,
         Field ''ipc_id'' c_int,
         Field ''tsk'' (CPtr ''struct task_struct''),
         Field ''key_struct'' (CStruct [] False
           [Field ''key'' key_serial_t,
            Field ''key_desc'' (CPtr ''char'')]),
         Field ''kmod_name'' (CPtr ''char''),
         Field ''op'' (CPtr ''struct lsm_ioctlop_audit''),
         Field ''file'' (CPtr ''const struct file''),
         Field ''ibpkey'' (CPtr ''struct lsm_ibpkey_audit''),
         Field ''ibendport'' (CPtr ''struct lsm_ibendport_audit''),
         Field ''reason'' c_int,
         Field ''anonclass'' (CPtr ''const char''),
         Field ''nlmsg_type'' u16]),
      Field [] (CUnion [] False
        [Field ''smack_audit_data'' (CPtr ''struct smack_audit_data''),
         Field ''selinux_audit_data'' (CPtr ''struct selinux_audit_data''),
         Field ''apparmor_audit_data'' (CPtr ''struct apparmor_audit_data'')])]"

definition struct_apparmor_audit_data :: cty where
  "struct_apparmor_audit_data = CStruct ''apparmor_audit_data'' False
     [Field ''flags'' u32,
      Field ''error'' c_int,
      Field ''type'' c_int,
      Field ''class'' u16,
      Field ''op'' (CPtr ''const char''),
      Field ''subj_cred'' (CPtr ''const struct cred''),
      Field ''subj_label'' (CPtr ''struct aa_label''),
      Field ''name'' (CPtr ''const char''),
      Field ''info'' (CPtr ''const char''),
      Field ''request'' u32,
      Field ''denied'' u32,
      Field ''tags'' u32,
      Field ''subjtsk'' (CPtr ''struct task_struct''),
      Field [] (CUnion [] False
        [Field [] (CStruct [] False
           [Field ''peer'' (CPtr ''struct aa_label''),
            Field [] (CUnion [] False
              [Field ''fs'' (CStruct [] False
                 [Field ''target'' (CPtr ''const char''),
                  Field ''ouid'' kuid_t]),
               Field ''rlim'' (CStruct [] False
                 [Field ''rlim'' c_int,
                  Field ''max'' long_unsigned_int]),
               Field [] (CStruct [] False
                 [Field ''signal'' c_int,
                  Field ''unmappedsig'' c_int]),
               Field ''net'' (CStruct [] False
                 [Field ''type'' c_int,
                  Field ''protocol'' c_int,
                  Field ''addr'' (CPtr ''void''),
                  Field ''addrlen'' c_int,
                  Field ''peer'' (CStruct [] False
                    [Field ''addr'' (CPtr ''void''),
                     Field ''addrlen'' c_int])]),
               Field ''ns'' (CStruct [] False
                 [Field ''target'' (CPtr ''const char'')]),
               Field ''mq'' (CStruct [] False
                 [Field ''ouid'' kuid_t])])]),
         Field ''iface'' (CStruct [] False
           [Field ''profile'' (CPtr ''struct aa_profile''),
            Field ''ns'' (CPtr ''const char''),
            Field ''pos'' c_long]),
         Field ''mnt'' (CStruct [] False
           [Field ''src_name'' (CPtr ''const char''),
            Field ''type'' (CPtr ''const char''),
            Field ''trans'' (CPtr ''const char''),
            Field ''data'' (CPtr ''const char''),
            Field ''flags'' long_unsigned_int]),
         Field ''uring'' (CStruct [] False
           [Field ''target'' (CPtr ''struct aa_label'')])]),
      Field ''common'' struct_common_audit_data]"

definition enum_power_supply_type :: cty where
  "enum_power_supply_type = CEnum 4
     [(''POWER_SUPPLY_TYPE_UNKNOWN'', 0), (''POWER_SUPPLY_TYPE_BATTERY'', 1),
      (''POWER_SUPPLY_TYPE_UPS'', 2), (''POWER_SUPPLY_TYPE_MAINS'', 3),
      (''POWER_SUPPLY_TYPE_USB'', 4), (''POWER_SUPPLY_TYPE_USB_DCP'', 5),
      (''POWER_SUPPLY_TYPE_USB_CDP'', 6), (''POWER_SUPPLY_TYPE_USB_ACA'', 7),
      (''POWER_SUPPLY_TYPE_USB_TYPE_C'', 8), (''POWER_SUPPLY_TYPE_USB_PD'', 9),
      (''POWER_SUPPLY_TYPE_USB_PD_DRP'', 10), (''POWER_SUPPLY_TYPE_APPLE_BRICK_ID'', 11),
      (''POWER_SUPPLY_TYPE_WIRELESS'', 12)]"

definition struct_power_supply_desc :: cty where
  "struct_power_supply_desc = CStruct ''power_supply_desc'' False
     [Field ''name'' (CPtr ''const char''),
      Field ''type'' enum_power_supply_type,
      Field ''charge_behaviours'' u8,
      Field ''charge_types'' u32,
      Field ''usb_types'' u32,
      Field ''properties'' (CPtr ''const enum power_supply_property''),
      Field ''num_properties'' size_t,
      Field ''get_property'' (CPtr ''int (struct power_supply *, enum power_supply_property, union power_supply_propval *)''),
      Field ''set_property'' (CPtr ''int (struct power_supply *, enum power_supply_property, const union power_supply_propval *)''),
      Field ''property_is_writeable'' (CPtr ''int (struct power_supply *, enum power_supply_property)''),
      Field ''external_power_changed'' (CPtr ''void (struct power_supply *)''),
      Field ''no_thermal'' bool,
      Field ''use_for_apm'' c_int]"

definition struct_acpi_battery :: cty where
  "struct_acpi_battery = CStruct ''acpi_battery'' False
     [Field ''update_lock'' struct_mutex,
      Field ''bat'' (CPtr ''struct power_supply''),
      Field ''bat_desc'' struct_power_supply_desc,
      Field ''device'' (CPtr ''struct acpi_device''),
      Field ''phys_dev'' (CPtr ''struct device''),
      Field ''pm_nb'' struct_notifier_block,
      Field ''list'' struct_list_head,
      Field ''update_time'' long_unsigned_int,
      Field ''revision'' c_int,
      Field ''rate_now'' c_int,
      Field ''capacity_now'' c_int,
      Field ''voltage_now'' c_int,
      Field ''design_capacity'' c_int,
      Field ''full_charge_capacity'' c_int,
      Field ''technology'' c_int,
      Field ''design_voltage'' c_int,
      Field ''design_capacity_warning'' c_int,
      Field ''design_capacity_low'' c_int,
      Field ''cycle_count'' c_int,
      Field ''measurement_accuracy'' c_int,
      Field ''max_sampling_time'' c_int,
      Field ''min_sampling_time'' c_int,
      Field ''max_averaging_interval'' c_int,
      Field ''min_averaging_interval'' c_int,
      Field ''capacity_granularity_1'' c_int,
      Field ''capacity_granularity_2'' c_int,
      Field ''alarm'' c_int,
      Field ''model_number'' (CArr 64 c_char),
      Field ''serial_number'' (CArr 64 c_char),
      Field ''type'' (CArr 64 c_char),
      Field ''oem_info'' (CArr 64 c_char),
      Field ''state'' c_int,
      Field ''power_unit'' c_int,
      Field ''flags'' long_unsigned_int]"

definition struct_acpi_object_common :: cty where
  "struct_acpi_object_common = CStruct ''acpi_object_common'' False
     [Field ''next_object'' (CPtr ''union acpi_operand_object''),
      Field ''descriptor_type'' u8,
      Field ''type'' u8,
      Field ''reference_count'' u16,
      Field ''flags'' u8]"

definition struct_acpi_object_integer :: cty where
  "struct_acpi_object_integer = CStruct ''acpi_object_integer'' False
     [Field ''next_object'' (CPtr ''union acpi_operand_object''),
      Field ''descriptor_type'' u8,
      Field ''type'' u8,
      Field ''reference_count'' u16,
      Field ''flags'' u8,
      Field ''fill'' (CArr 3 u8),
      Field ''value'' u64]"

definition struct_acpi_object_string :: cty where
  "struct_acpi_object_string = CStruct ''acpi_object_string'' False
     [Field ''next_object'' (CPtr ''union acpi_operand_object''),
      Field ''descriptor_type'' u8,
      Field ''type'' u8,
      Field ''reference_count'' u16,
      Field ''flags'' u8,
      Field ''pointer'' (CPtr ''char''),
      Field ''length'' u32]"

definition struct_acpi_object_buffer :: cty where
  "struct_acpi_object_buffer = CStruct ''acpi_object_buffer'' False
     [Field ''next_object'' (CPtr ''union acpi_operand_object''),
      Field ''descriptor_type'' u8,
      Field ''type'' u8,
      Field ''reference_count'' u16,
      Field ''flags'' u8,
      Field ''pointer'' (CPtr ''u8''),
      Field ''length'' u32,
      Field ''aml_length'' u32,
      Field ''aml_start'' (CPtr ''u8''),
      Field ''node'' (CPtr ''struct acpi_namespace_node'')]"

definition struct_acpi_object_package :: cty where
  "struct_acpi_object_package = CStruct ''acpi_object_package'' False
     [Field ''next_object'' (CPtr ''union acpi_operand_object''),
      Field ''descriptor_type'' u8,
      Field ''type'' u8,
      Field ''reference_count'' u16,
      Field ''flags'' u8,
      Field ''node'' (CPtr ''struct acpi_namespace_node''),
      Field ''elements'' (CPtr ''union acpi_operand_object *''),
      Field ''aml_start'' (CPtr ''u8''),
      Field ''aml_length'' u32,
      Field ''count'' u32]"

definition struct_acpi_object_event :: cty where
  "struct_acpi_object_event = CStruct ''acpi_object_event'' False
     [Field ''next_object'' (CPtr ''union acpi_operand_object''),
      Field ''descriptor_type'' u8,
      Field ''type'' u8,
      Field ''reference_count'' u16,
      Field ''flags'' u8,
      Field ''os_semaphore'' (CPtr ''void'')]"

definition acpi_internal_method :: cty where [layout_simps]:
  "acpi_internal_method = CPtr ''acpi_status (struct acpi_walk_state *)''"

definition acpi_owner_id :: cty where [layout_simps]:
  "acpi_owner_id = u16"

definition struct_acpi_object_method :: cty where
  "struct_acpi_object_method = CStruct ''acpi_object_method'' False
     [Field ''next_object'' (CPtr ''union acpi_operand_object''),
      Field ''descriptor_type'' u8,
      Field ''type'' u8,
      Field ''reference_count'' u16,
      Field ''flags'' u8,
      Field ''info_flags'' u8,
      Field ''param_count'' u8,
      Field ''sync_level'' u8,
      Field ''mutex'' (CPtr ''union acpi_operand_object''),
      Field ''node'' (CPtr ''union acpi_operand_object''),
      Field ''aml_start'' (CPtr ''u8''),
      Field ''dispatch'' (CUnion [] False
        [Field ''implementation'' acpi_internal_method,
         Field ''handler'' (CPtr ''union acpi_operand_object'')]),
      Field ''aml_length'' u32,
      Field ''owner_id'' acpi_owner_id,
      Field ''thread_count'' u8]"

definition struct_acpi_object_mutex :: cty where
  "struct_acpi_object_mutex = CStruct ''acpi_object_mutex'' False
     [Field ''next_object'' (CPtr ''union acpi_operand_object''),
      Field ''descriptor_type'' u8,
      Field ''type'' u8,
      Field ''reference_count'' u16,
      Field ''flags'' u8,
      Field ''sync_level'' u8,
      Field ''acquisition_depth'' u16,
      Field ''os_mutex'' (CPtr ''void''),
      Field ''thread_id'' u64,
      Field ''owner_thread'' (CPtr ''struct acpi_thread_state''),
      Field ''prev'' (CPtr ''union acpi_operand_object''),
      Field ''next'' (CPtr ''union acpi_operand_object''),
      Field ''node'' (CPtr ''struct acpi_namespace_node''),
      Field ''original_sync_level'' u8]"

definition acpi_physical_address :: cty where [layout_simps]:
  "acpi_physical_address = u64"

definition struct_acpi_object_region :: cty where
  "struct_acpi_object_region = CStruct ''acpi_object_region'' False
     [Field ''next_object'' (CPtr ''union acpi_operand_object''),
      Field ''descriptor_type'' u8,
      Field ''type'' u8,
      Field ''reference_count'' u16,
      Field ''flags'' u8,
      Field ''space_id'' u8,
      Field ''node'' (CPtr ''struct acpi_namespace_node''),
      Field ''handler'' (CPtr ''union acpi_operand_object''),
      Field ''next'' (CPtr ''union acpi_operand_object''),
      Field ''address'' acpi_physical_address,
      Field ''length'' u32,
      Field ''pointer'' (CPtr ''void'')]"

definition struct_acpi_object_notify_common :: cty where
  "struct_acpi_object_notify_common = CStruct ''acpi_object_notify_common'' False
     [Field ''next_object'' (CPtr ''union acpi_operand_object''),
      Field ''descriptor_type'' u8,
      Field ''type'' u8,
      Field ''reference_count'' u16,
      Field ''flags'' u8,
      Field ''notify_list'' (CArr 2 (CPtr ''union acpi_operand_object'')),
      Field ''handler'' (CPtr ''union acpi_operand_object'')]"

definition struct_acpi_object_device :: cty where
  "struct_acpi_object_device = CStruct ''acpi_object_device'' False
     [Field ''next_object'' (CPtr ''union acpi_operand_object''),
      Field ''descriptor_type'' u8,
      Field ''type'' u8,
      Field ''reference_count'' u16,
      Field ''flags'' u8,
      Field ''notify_list'' (CArr 2 (CPtr ''union acpi_operand_object'')),
      Field ''handler'' (CPtr ''union acpi_operand_object''),
      Field ''gpe_block'' (CPtr ''struct acpi_gpe_block_info'')]"

definition struct_acpi_object_power_resource :: cty where
  "struct_acpi_object_power_resource = CStruct ''acpi_object_power_resource'' False
     [Field ''next_object'' (CPtr ''union acpi_operand_object''),
      Field ''descriptor_type'' u8,
      Field ''type'' u8,
      Field ''reference_count'' u16,
      Field ''flags'' u8,
      Field ''notify_list'' (CArr 2 (CPtr ''union acpi_operand_object'')),
      Field ''handler'' (CPtr ''union acpi_operand_object''),
      Field ''system_level'' u32,
      Field ''resource_order'' u32]"

definition acpi_io_address :: cty where [layout_simps]:
  "acpi_io_address = u64"

definition struct_acpi_object_processor :: cty where
  "struct_acpi_object_processor = CStruct ''acpi_object_processor'' False
     [Field ''next_object'' (CPtr ''union acpi_operand_object''),
      Field ''descriptor_type'' u8,
      Field ''type'' u8,
      Field ''reference_count'' u16,
      Field ''flags'' u8,
      Field ''proc_id'' u8,
      Field ''length'' u8,
      Field ''notify_list'' (CArr 2 (CPtr ''union acpi_operand_object'')),
      Field ''handler'' (CPtr ''union acpi_operand_object''),
      Field ''address'' acpi_io_address]"

definition struct_acpi_object_thermal_zone :: cty where
  "struct_acpi_object_thermal_zone = CStruct ''acpi_object_thermal_zone'' False
     [Field ''next_object'' (CPtr ''union acpi_operand_object''),
      Field ''descriptor_type'' u8,
      Field ''type'' u8,
      Field ''reference_count'' u16,
      Field ''flags'' u8,
      Field ''notify_list'' (CArr 2 (CPtr ''union acpi_operand_object'')),
      Field ''handler'' (CPtr ''union acpi_operand_object'')]"

definition struct_acpi_object_field_common :: cty where
  "struct_acpi_object_field_common = CStruct ''acpi_object_field_common'' False
     [Field ''next_object'' (CPtr ''union acpi_operand_object''),
      Field ''descriptor_type'' u8,
      Field ''type'' u8,
      Field ''reference_count'' u16,
      Field ''flags'' u8,
      Field ''field_flags'' u8,
      Field ''attribute'' u8,
      Field ''access_byte_width'' u8,
      Field ''node'' (CPtr ''struct acpi_namespace_node''),
      Field ''bit_length'' u32,
      Field ''base_byte_offset'' u32,
      Field ''value'' u32,
      Field ''start_field_bit_offset'' u8,
      Field ''access_length'' u8,
      Field ''region_obj'' (CPtr ''union acpi_operand_object'')]"

definition struct_acpi_object_region_field :: cty where
  "struct_acpi_object_region_field = CStruct ''acpi_object_region_field'' False
     [Field ''next_object'' (CPtr ''union acpi_operand_object''),
      Field ''descriptor_type'' u8,
      Field ''type'' u8,
      Field ''reference_count'' u16,
      Field ''flags'' u8,
      Field ''field_flags'' u8,
      Field ''attribute'' u8,
      Field ''access_byte_width'' u8,
      Field ''node'' (CPtr ''struct acpi_namespace_node''),
      Field ''bit_length'' u32,
      Field ''base_byte_offset'' u32,
      Field ''value'' u32,
      Field ''start_field_bit_offset'' u8,
      Field ''access_length'' u8,
      Field ''resource_length'' u16,
      Field ''region_obj'' (CPtr ''union acpi_operand_object''),
      Field ''resource_buffer'' (CPtr ''u8''),
      Field ''pin_number_index'' u16,
      Field ''internal_pcc_buffer'' (CPtr ''u8'')]"

definition struct_acpi_object_buffer_field :: cty where
  "struct_acpi_object_buffer_field = CStruct ''acpi_object_buffer_field'' False
     [Field ''next_object'' (CPtr ''union acpi_operand_object''),
      Field ''descriptor_type'' u8,
      Field ''type'' u8,
      Field ''reference_count'' u16,
      Field ''flags'' u8,
      Field ''field_flags'' u8,
      Field ''attribute'' u8,
      Field ''access_byte_width'' u8,
      Field ''node'' (CPtr ''struct acpi_namespace_node''),
      Field ''bit_length'' u32,
      Field ''base_byte_offset'' u32,
      Field ''value'' u32,
      Field ''start_field_bit_offset'' u8,
      Field ''access_length'' u8,
      Field ''is_create_field'' u8,
      Field ''buffer_obj'' (CPtr ''union acpi_operand_object'')]"

definition struct_acpi_object_bank_field :: cty where
  "struct_acpi_object_bank_field = CStruct ''acpi_object_bank_field'' False
     [Field ''next_object'' (CPtr ''union acpi_operand_object''),
      Field ''descriptor_type'' u8,
      Field ''type'' u8,
      Field ''reference_count'' u16,
      Field ''flags'' u8,
      Field ''field_flags'' u8,
      Field ''attribute'' u8,
      Field ''access_byte_width'' u8,
      Field ''node'' (CPtr ''struct acpi_namespace_node''),
      Field ''bit_length'' u32,
      Field ''base_byte_offset'' u32,
      Field ''value'' u32,
      Field ''start_field_bit_offset'' u8,
      Field ''access_length'' u8,
      Field ''region_obj'' (CPtr ''union acpi_operand_object''),
      Field ''bank_obj'' (CPtr ''union acpi_operand_object'')]"

definition struct_acpi_object_index_field :: cty where
  "struct_acpi_object_index_field = CStruct ''acpi_object_index_field'' False
     [Field ''next_object'' (CPtr ''union acpi_operand_object''),
      Field ''descriptor_type'' u8,
      Field ''type'' u8,
      Field ''reference_count'' u16,
      Field ''flags'' u8,
      Field ''field_flags'' u8,
      Field ''attribute'' u8,
      Field ''access_byte_width'' u8,
      Field ''node'' (CPtr ''struct acpi_namespace_node''),
      Field ''bit_length'' u32,
      Field ''base_byte_offset'' u32,
      Field ''value'' u32,
      Field ''start_field_bit_offset'' u8,
      Field ''access_length'' u8,
      Field ''index_obj'' (CPtr ''union acpi_operand_object''),
      Field ''data_obj'' (CPtr ''union acpi_operand_object'')]"

definition acpi_notify_handler :: cty where [layout_simps]:
  "acpi_notify_handler = CPtr ''void (acpi_handle, u32, void *)''"

definition struct_acpi_object_notify_handler :: cty where
  "struct_acpi_object_notify_handler = CStruct ''acpi_object_notify_handler'' False
     [Field ''next_object'' (CPtr ''union acpi_operand_object''),
      Field ''descriptor_type'' u8,
      Field ''type'' u8,
      Field ''reference_count'' u16,
      Field ''flags'' u8,
      Field ''node'' (CPtr ''struct acpi_namespace_node''),
      Field ''handler_type'' u32,
      Field ''handler'' acpi_notify_handler,
      Field ''context'' (CPtr ''void''),
      Field ''next'' (CArr 2 (CPtr ''union acpi_operand_object''))]"

definition acpi_adr_space_handler :: cty where [layout_simps]:
  "acpi_adr_space_handler = CPtr ''acpi_status (u32, acpi_physical_address, u32, u64 *, void *, void *)''"

definition acpi_adr_space_setup :: cty where [layout_simps]:
  "acpi_adr_space_setup = CPtr ''acpi_status (acpi_handle, u32, void *, void **)''"

definition struct_acpi_object_addr_handler :: cty where
  "struct_acpi_object_addr_handler = CStruct ''acpi_object_addr_handler'' False
     [Field ''next_object'' (CPtr ''union acpi_operand_object''),
      Field ''descriptor_type'' u8,
      Field ''type'' u8,
      Field ''reference_count'' u16,
      Field ''flags'' u8,
      Field ''space_id'' u8,
      Field ''handler_flags'' u8,
      Field ''handler'' acpi_adr_space_handler,
      Field ''node'' (CPtr ''struct acpi_namespace_node''),
      Field ''context'' (CPtr ''void''),
      Field ''context_mutex'' (CPtr ''void''),
      Field ''setup'' acpi_adr_space_setup,
      Field ''region_list'' (CPtr ''union acpi_operand_object''),
      Field ''next'' (CPtr ''union acpi_operand_object'')]"

definition struct_acpi_object_reference :: cty where
  "struct_acpi_object_reference = CStruct ''acpi_object_reference'' False
     [Field ''next_object'' (CPtr ''union acpi_operand_object''),
      Field ''descriptor_type'' u8,
      Field ''type'' u8,
      Field ''reference_count'' u16,
      Field ''flags'' u8,
      Field ''class'' u8,
      Field ''target_type'' u8,
      Field ''resolved'' u8,
      Field ''object'' (CPtr ''void''),
      Field ''node'' (CPtr ''struct acpi_namespace_node''),
      Field ''where'' (CPtr ''union acpi_operand_object *''),
      Field ''index_pointer'' (CPtr ''u8''),
      Field ''aml'' (CPtr ''u8''),
      Field ''value'' u32]"

definition struct_acpi_object_extra :: cty where
  "struct_acpi_object_extra = CStruct ''acpi_object_extra'' False
     [Field ''next_object'' (CPtr ''union acpi_operand_object''),
      Field ''descriptor_type'' u8,
      Field ''type'' u8,
      Field ''reference_count'' u16,
      Field ''flags'' u8,
      Field ''method_REG'' (CPtr ''struct acpi_namespace_node''),
      Field ''scope_node'' (CPtr ''struct acpi_namespace_node''),
      Field ''region_context'' (CPtr ''void''),
      Field ''aml_start'' (CPtr ''u8''),
      Field ''aml_length'' u32]"

definition acpi_object_handler :: cty where [layout_simps]:
  "acpi_object_handler = CPtr ''void (acpi_handle, void *)''"

definition struct_acpi_object_data :: cty where
  "struct_acpi_object_data = CStruct ''acpi_object_data'' False
     [Field ''next_object'' (CPtr ''union acpi_operand_object''),
      Field ''descriptor_type'' u8,
      Field ''type'' u8,
      Field ''reference_count'' u16,
      Field ''flags'' u8,
      Field ''handler'' acpi_object_handler,
      Field ''pointer'' (CPtr ''void'')]"

definition struct_acpi_object_cache_list :: cty where
  "struct_acpi_object_cache_list = CStruct ''acpi_object_cache_list'' False
     [Field ''next_object'' (CPtr ''union acpi_operand_object''),
      Field ''descriptor_type'' u8,
      Field ''type'' u8,
      Field ''reference_count'' u16,
      Field ''flags'' u8,
      Field ''next'' (CPtr ''union acpi_operand_object'')]"

definition union_acpi_name_union :: cty where
  "union_acpi_name_union = CUnion ''acpi_name_union'' False
     [Field ''integer'' u32,
      Field ''ascii'' (CArr 4 c_char)]"

definition struct_acpi_namespace_node :: cty where
  "struct_acpi_namespace_node = CStruct ''acpi_namespace_node'' False
     [Field ''object'' (CPtr ''union acpi_operand_object''),
      Field ''descriptor_type'' u8,
      Field ''type'' u8,
      Field ''flags'' u16,
      Field ''name'' union_acpi_name_union,
      Field ''parent'' (CPtr ''struct acpi_namespace_node''),
      Field ''child'' (CPtr ''struct acpi_namespace_node''),
      Field ''peer'' (CPtr ''struct acpi_namespace_node''),
      Field ''owner_id'' acpi_owner_id]"

definition union_acpi_operand_object :: cty where
  "union_acpi_operand_object = CUnion ''acpi_operand_object'' False
     [Field ''common'' struct_acpi_object_common,
      Field ''integer'' struct_acpi_object_integer,
      Field ''string'' struct_acpi_object_string,
      Field ''buffer'' struct_acpi_object_buffer,
      Field ''package'' struct_acpi_object_package,
      Field ''event'' struct_acpi_object_event,
      Field ''method'' struct_acpi_object_method,
      Field ''mutex'' struct_acpi_object_mutex,
      Field ''region'' struct_acpi_object_region,
      Field ''common_notify'' struct_acpi_object_notify_common,
      Field ''device'' struct_acpi_object_device,
      Field ''power_resource'' struct_acpi_object_power_resource,
      Field ''processor'' struct_acpi_object_processor,
      Field ''thermal_zone'' struct_acpi_object_thermal_zone,
      Field ''common_field'' struct_acpi_object_field_common,
      Field ''field'' struct_acpi_object_region_field,
      Field ''buffer_field'' struct_acpi_object_buffer_field,
      Field ''bank_field'' struct_acpi_object_bank_field,
      Field ''index_field'' struct_acpi_object_index_field,
      Field ''notify'' struct_acpi_object_notify_handler,
      Field ''address_space'' struct_acpi_object_addr_handler,
      Field ''reference'' struct_acpi_object_reference,
      Field ''extra'' struct_acpi_object_extra,
      Field ''data'' struct_acpi_object_data,
      Field ''cache'' struct_acpi_object_cache_list,
      Field ''node'' struct_acpi_namespace_node]"

definition union_acpi_parse_value :: cty where
  "union_acpi_parse_value = CUnion ''acpi_parse_value'' False
     [Field ''integer'' u64,
      Field ''size'' u32,
      Field ''string'' (CPtr ''char''),
      Field ''buffer'' (CPtr ''u8''),
      Field ''name'' (CPtr ''char''),
      Field ''arg'' (CPtr ''union acpi_parse_object'')]"

definition struct_acpi_parse_obj_asl :: cty where
  "struct_acpi_parse_obj_asl = CStruct ''acpi_parse_obj_asl'' False
     [Field ''parent'' (CPtr ''union acpi_parse_object''),
      Field ''descriptor_type'' u8,
      Field ''flags'' u8,
      Field ''aml_opcode'' u16,
      Field ''aml'' (CPtr ''u8''),
      Field ''next'' (CPtr ''union acpi_parse_object''),
      Field ''node'' (CPtr ''struct acpi_namespace_node''),
      Field ''value'' union_acpi_parse_value,
      Field ''arg_list_length'' u8,
      Field ''disasm_flags'' u16,
      Field ''disasm_opcode'' u8,
      Field ''operator_symbol'' (CPtr ''char''),
      Field ''aml_op_name'' (CArr 16 c_char),
      Field ''child'' (CPtr ''union acpi_parse_object''),
      Field ''parent_method'' (CPtr ''union acpi_parse_object''),
      Field ''filename'' (CPtr ''char''),
      Field ''file_changed'' u8,
      Field ''parent_filename'' (CPtr ''char''),
      Field ''external_name'' (CPtr ''char''),
      Field ''namepath'' (CPtr ''char''),
      Field ''name_seg'' (CArr 4 c_char),
      Field ''extra_value'' u32,
      Field ''column'' u32,
      Field ''line_number'' u32,
      Field ''logical_line_number'' u32,
      Field ''logical_byte_offset'' u32,
      Field ''end_line'' u32,
      Field ''end_logical_line'' u32,
      Field ''acpi_btype'' u32,
      Field ''aml_length'' u32,
      Field ''aml_subtree_length'' u32,
      Field ''final_aml_length'' u32,
      Field ''final_aml_offset'' u32,
      Field ''compile_flags'' u32,
      Field ''parse_opcode'' u16,
      Field ''aml_opcode_length'' u8,
      Field ''aml_pkg_len_bytes'' u8,
      Field ''extra'' u8,
      Field ''parse_op_name'' (CArr 20 c_char)]"

definition struct_acpi_device_status :: cty where
  "struct_acpi_device_status = CStruct ''acpi_device_status'' False
     [BitField ''present'' u32 1,
      BitField ''enabled'' u32 1,
      BitField ''show_in_ui'' u32 1,
      BitField ''functional'' u32 1,
      BitField ''battery_present'' u32 1,
      BitField ''reserved'' u32 27]"

definition struct_acpi_device_flags :: cty where
  "struct_acpi_device_flags = CStruct ''acpi_device_flags'' False
     [BitField ''dynamic_status'' u32 1,
      BitField ''removable'' u32 1,
      BitField ''ejectable'' u32 1,
      BitField ''power_manageable'' u32 1,
      BitField ''match_driver'' u32 1,
      BitField ''initialized'' u32 1,
      BitField ''visited'' u32 1,
      BitField ''hotplug_notify'' u32 1,
      BitField ''is_dock_station'' u32 1,
      BitField ''of_compatible_ok'' u32 1,
      BitField ''coherent_dma'' u32 1,
      BitField ''cca_seen'' u32 1,
      BitField ''enumeration_by_parent'' u32 1,
      BitField ''honor_deps'' u32 1,
      BitField ''reserved'' u32 18]"

definition acpi_bus_id :: cty where [layout_simps]:
  "acpi_bus_id = CArr 8 c_char"

definition struct_acpi_pnp_type :: cty where
  "struct_acpi_pnp_type = CStruct ''acpi_pnp_type'' False
     [BitField ''hardware_id'' u32 1,
      BitField ''bus_address'' u32 1,
      BitField ''platform_id'' u32 1,
      BitField ''backlight'' u32 1,
      BitField ''reserved'' u32 28]"

definition acpi_bus_address :: cty where [layout_simps]:
  "acpi_bus_address = u64"

definition acpi_device_name :: cty where [layout_simps]:
  "acpi_device_name = CArr 40 c_char"

definition acpi_device_class :: cty where [layout_simps]:
  "acpi_device_class = CArr 20 c_char"

definition struct_acpi_device_pnp :: cty where
  "struct_acpi_device_pnp = CStruct ''acpi_device_pnp'' False
     [Field ''bus_id'' acpi_bus_id,
      Field ''instance_no'' c_int,
      Field ''type'' struct_acpi_pnp_type,
      Field ''bus_address'' acpi_bus_address,
      Field ''unique_id'' (CPtr ''char''),
      Field ''ids'' struct_list_head,
      Field ''device_name'' acpi_device_name,
      Field ''device_class'' acpi_device_class]"

definition struct_acpi_device_power_flags :: cty where
  "struct_acpi_device_power_flags = CStruct ''acpi_device_power_flags'' False
     [BitField ''explicit_get'' u32 1,
      BitField ''power_resources'' u32 1,
      BitField ''inrush_current'' u32 1,
      BitField ''power_removed'' u32 1,
      BitField ''ignore_parent'' u32 1,
      BitField ''dsw_present'' u32 1,
      BitField ''reserved'' u32 26]"

definition struct_acpi_device_power_state :: cty where
  "struct_acpi_device_power_state = CStruct ''acpi_device_power_state'' False
     [Field ''resources'' struct_list_head,
      Field ''flags'' (CStruct [] False
        [BitField ''valid'' u8 1,
         BitField ''explicit_set'' u8 1,
         BitField ''reserved'' u8 6]),
      Field ''power'' c_int,
      Field ''latency'' c_int]"

definition struct_acpi_device_power :: cty where
  "struct_acpi_device_power = CStruct ''acpi_device_power'' False
     [Field ''state'' c_int,
      Field ''flags'' struct_acpi_device_power_flags,
      Field ''states'' (CArr 5 struct_acpi_device_power_state),
      Field ''state_for_enumeration'' u8]"

definition struct_acpi_device_wakeup_flags :: cty where
  "struct_acpi_device_wakeup_flags = CStruct ''acpi_device_wakeup_flags'' False
     [BitField ''valid'' u8 1,
      BitField ''notifier_present'' u8 1]"

definition struct_acpi_device_wakeup_context :: cty where
  "struct_acpi_device_wakeup_context = CStruct ''acpi_device_wakeup_context'' False
     [Field ''func'' (CPtr ''void (struct acpi_device_wakeup_context *)''),
      Field ''dev'' (CPtr ''struct device'')]"

definition struct_acpi_device_wakeup :: cty where
  "struct_acpi_device_wakeup = CStruct ''acpi_device_wakeup'' False
     [Field ''gpe_device'' acpi_handle,
      Field ''gpe_number'' u64,
      Field ''sleep_state'' u64,
      Field ''resources'' struct_list_head,
      Field ''flags'' struct_acpi_device_wakeup_flags,
      Field ''context'' struct_acpi_device_wakeup_context,
      Field ''ws'' (CPtr ''struct wakeup_source''),
      Field ''prepare_count'' c_int,
      Field ''enable_count'' c_int]"

definition struct_acpi_device_perf_flags :: cty where
  "struct_acpi_device_perf_flags = CStruct ''acpi_device_perf_flags'' False
     [BitField ''reserved'' u8 8]"

definition struct_acpi_device_perf :: cty where
  "struct_acpi_device_perf = CStruct ''acpi_device_perf'' False
     [Field ''state'' c_int,
      Field ''flags'' struct_acpi_device_perf_flags,
      Field ''state_count'' c_int,
      Field ''states'' (CPtr ''struct acpi_device_perf_state'')]"

definition struct_acpi_device_dir :: cty where
  "struct_acpi_device_dir = CStruct ''acpi_device_dir'' False
     [Field ''entry'' (CPtr ''struct proc_dir_entry'')]"

definition struct_acpi_device_data :: cty where
  "struct_acpi_device_data = CStruct ''acpi_device_data'' False
     [Field ''pointer'' (CPtr ''const union acpi_object''),
      Field ''properties'' struct_list_head,
      Field ''of_compatible'' (CPtr ''const union acpi_object''),
      Field ''subnodes'' struct_list_head]"

definition struct_acpi_device :: cty where
  "struct_acpi_device = CStruct ''acpi_device'' False
     [Field ''pld_crc'' u32,
      Field ''device_type'' c_int,
      Field ''handle'' acpi_handle,
      Field ''fwnode'' struct_fwnode_handle,
      Field ''wakeup_list'' struct_list_head,
      Field ''del_list'' struct_list_head,
      Field ''status'' struct_acpi_device_status,
      Field ''flags'' struct_acpi_device_flags,
      Field ''pnp'' struct_acpi_device_pnp,
      Field ''power'' struct_acpi_device_power,
      Field ''wakeup'' struct_acpi_device_wakeup,
      Field ''performance'' struct_acpi_device_perf,
      Field ''dir'' struct_acpi_device_dir,
      Field ''data'' struct_acpi_device_data,
      Field ''handler'' (CPtr ''struct acpi_scan_handler''),
      Field ''hp'' (CPtr ''struct acpi_hotplug_context''),
      Field ''swnodes'' (CPtr ''struct acpi_device_software_nodes''),
      Field ''driver_gpios'' (CPtr ''const struct acpi_gpio_mapping''),
      Field ''driver_data'' (CPtr ''void''),
      Field ''dev'' struct_device,
      Field ''physical_node_count'' unsigned_int,
      Field ''dep_unmet'' unsigned_int,
      Field ''physical_node_list'' struct_list_head,
      Field ''physical_node_lock'' struct_mutex,
      Field ''remove'' (CPtr ''void (struct acpi_device *)'')]"

definition acpi_object_type :: cty where [layout_simps]:
  "acpi_object_type = u32"

definition union_acpi_object :: cty where
  "union_acpi_object = CUnion ''acpi_object'' False
     [Field ''type'' acpi_object_type,
      Field ''integer'' (CStruct [] False
        [Field ''type'' acpi_object_type,
         Field ''value'' u64]),
      Field ''string'' (CStruct [] False
        [Field ''type'' acpi_object_type,
         Field ''length'' u32,
         Field ''pointer'' (CPtr ''char'')]),
      Field ''buffer'' (CStruct [] False
        [Field ''type'' acpi_object_type,
         Field ''length'' u32,
         Field ''pointer'' (CPtr ''u8'')]),
      Field ''package'' (CStruct [] False
        [Field ''type'' acpi_object_type,
         Field ''count'' u32,
         Field ''elements'' (CPtr ''union acpi_object'')]),
      Field ''reference'' (CStruct [] False
        [Field ''type'' acpi_object_type,
         Field ''actual_type'' acpi_object_type,
         Field ''handle'' acpi_handle]),
      Field ''processor'' (CStruct [] False
        [Field ''type'' acpi_object_type,
         Field ''proc_id'' u32,
         Field ''pblk_address'' acpi_io_address,
         Field ''pblk_length'' u32]),
      Field ''power_resource'' (CStruct [] False
        [Field ''type'' acpi_object_type,
         Field ''system_level'' u32,
         Field ''resource_order'' u32])]"

definition struct_acpi_subtable_header :: cty where
  "struct_acpi_subtable_header = CStruct ''acpi_subtable_header'' False
     [Field ''type'' u8,
      Field ''length'' u8]"

definition struct_acpi_generic_address :: cty where
  "struct_acpi_generic_address = CStruct ''acpi_generic_address'' True
     [Field ''space_id'' u8,
      Field ''bit_width'' u8,
      Field ''bit_offset'' u8,
      Field ''access_width'' u8,
      Field ''address'' u64]"

definition struct_acpi_pcct_ext_pcc_master :: cty where
  "struct_acpi_pcct_ext_pcc_master = CStruct ''acpi_pcct_ext_pcc_master'' True
     [Field ''header'' struct_acpi_subtable_header,
      Field ''platform_interrupt'' u32,
      Field ''flags'' u8,
      Field ''reserved1'' u8,
      Field ''base_address'' u64,
      Field ''length'' u32,
      Field ''doorbell_register'' struct_acpi_generic_address,
      Field ''preserve_mask'' u64,
      Field ''write_mask'' u64,
      Field ''latency'' u32,
      Field ''max_access_rate'' u32,
      Field ''min_turnaround_time'' u32,
      Field ''platform_ack_register'' struct_acpi_generic_address,
      Field ''ack_preserve_mask'' u64,
      Field ''ack_set_mask'' u64,
      Field ''reserved2'' u64,
      Field ''cmd_complete_register'' struct_acpi_generic_address,
      Field ''cmd_complete_mask'' u64,
      Field ''cmd_update_register'' struct_acpi_generic_address,
      Field ''cmd_update_preserve_mask'' u64,
      Field ''cmd_update_set_mask'' u64,
      Field ''error_status_register'' struct_acpi_generic_address,
      Field ''error_status_mask'' u64]"

definition struct_acpi_pcct_ext_pcc_slave :: cty where
  "struct_acpi_pcct_ext_pcc_slave = CStruct ''acpi_pcct_ext_pcc_slave'' True
     [Field ''header'' struct_acpi_subtable_header,
      Field ''platform_interrupt'' u32,
      Field ''flags'' u8,
      Field ''reserved1'' u8,
      Field ''base_address'' u64,
      Field ''length'' u32,
      Field ''doorbell_register'' struct_acpi_generic_address,
      Field ''preserve_mask'' u64,
      Field ''write_mask'' u64,
      Field ''latency'' u32,
      Field ''max_access_rate'' u32,
      Field ''min_turnaround_time'' u32,
      Field ''platform_ack_register'' struct_acpi_generic_address,
      Field ''ack_preserve_mask'' u64,
      Field ''ack_set_mask'' u64,
      Field ''reserved2'' u64,
      Field ''cmd_complete_register'' struct_acpi_generic_address,
      Field ''cmd_complete_mask'' u64,
      Field ''cmd_update_register'' struct_acpi_generic_address,
      Field ''cmd_update_preserve_mask'' u64,
      Field ''cmd_update_set_mask'' u64,
      Field ''error_status_register'' struct_acpi_generic_address,
      Field ''error_status_mask'' u64]"

definition struct_acpi_pld_info :: cty where
  "struct_acpi_pld_info = CStruct ''acpi_pld_info'' False
     [Field ''revision'' u8,
      Field ''ignore_color'' u8,
      Field ''red'' u8,
      Field ''green'' u8,
      Field ''blue'' u8,
      Field ''width'' u16,
      Field ''height'' u16,
      Field ''user_visible'' u8,
      Field ''dock'' u8,
      Field ''lid'' u8,
      Field ''panel'' u8,
      Field ''vertical_position'' u8,
      Field ''horizontal_position'' u8,
      Field ''shape'' u8,
      Field ''group_orientation'' u8,
      Field ''group_token'' u8,
      Field ''group_position'' u8,
      Field ''bay'' u8,
      Field ''ejectable'' u8,
      Field ''ospm_eject_required'' u8,
      Field ''cabinet_number'' u8,
      Field ''card_cage_number'' u8,
      Field ''reference'' u8,
      Field ''rotation'' u8,
      Field ''order'' u8,
      Field ''reserved'' u8,
      Field ''vertical_offset'' u16,
      Field ''horizontal_offset'' u16]"

definition struct_acpi_resource_irq :: cty where
  "struct_acpi_resource_irq = CStruct ''acpi_resource_irq'' False
     [Field ''descriptor_length'' u8,
      Field ''triggering'' u8,
      Field ''polarity'' u8,
      Field ''shareable'' u8,
      Field ''wake_capable'' u8,
      Field ''interrupt_count'' u8,
      Field [] (CUnion [] False
        [Field ''interrupt'' u8,
         Field [] (CStruct [] False
           [Field ''__Empty_interrupts'' (CStruct [] False
              []),
            Field ''interrupts'' (CArr 0 u8)])])]"

definition struct_acpi_resource_start_dependent :: cty where
  "struct_acpi_resource_start_dependent = CStruct ''acpi_resource_start_dependent'' False
     [Field ''descriptor_length'' u8,
      Field ''compatibility_priority'' u8,
      Field ''performance_robustness'' u8]"

definition struct_acpi_resource_io :: cty where
  "struct_acpi_resource_io = CStruct ''acpi_resource_io'' True
     [Field ''io_decode'' u8,
      Field ''alignment'' u8,
      Field ''address_length'' u8,
      Field ''minimum'' u16,
      Field ''maximum'' u16]"

definition struct_acpi_resource_fixed_io :: cty where
  "struct_acpi_resource_fixed_io = CStruct ''acpi_resource_fixed_io'' True
     [Field ''address'' u16,
      Field ''address_length'' u8]"

definition struct_acpi_resource_fixed_dma :: cty where
  "struct_acpi_resource_fixed_dma = CStruct ''acpi_resource_fixed_dma'' True
     [Field ''request_lines'' u16,
      Field ''channels'' u16,
      Field ''width'' u8]"

definition struct_acpi_resource_vendor :: cty where
  "struct_acpi_resource_vendor = CStruct ''acpi_resource_vendor'' False
     [Field ''byte_length'' u16,
      Field ''byte_data'' (CArr 0 u8)]"

definition struct_acpi_resource_vendor_typed :: cty where
  "struct_acpi_resource_vendor_typed = CStruct ''acpi_resource_vendor_typed'' True
     [Field ''byte_length'' u16,
      Field ''uuid_subtype'' u8,
      Field ''uuid'' (CArr 16 u8),
      Field ''byte_data'' (CArr 0 u8)]"

definition struct_acpi_resource_end_tag :: cty where
  "struct_acpi_resource_end_tag = CStruct ''acpi_resource_end_tag'' False
     [Field ''checksum'' u8]"

definition struct_acpi_resource_memory24 :: cty where
  "struct_acpi_resource_memory24 = CStruct ''acpi_resource_memory24'' True
     [Field ''write_protect'' u8,
      Field ''minimum'' u16,
      Field ''maximum'' u16,
      Field ''alignment'' u16,
      Field ''address_length'' u16]"

definition struct_acpi_resource_memory32 :: cty where
  "struct_acpi_resource_memory32 = CStruct ''acpi_resource_memory32'' True
     [Field ''write_protect'' u8,
      Field ''minimum'' u32,
      Field ''maximum'' u32,
      Field ''alignment'' u32,
      Field ''address_length'' u32]"

definition struct_acpi_resource_fixed_memory32 :: cty where
  "struct_acpi_resource_fixed_memory32 = CStruct ''acpi_resource_fixed_memory32'' True
     [Field ''write_protect'' u8,
      Field ''address'' u32,
      Field ''address_length'' u32]"

definition struct_acpi_memory_attribute :: cty where
  "struct_acpi_memory_attribute = CStruct ''acpi_memory_attribute'' False
     [Field ''write_protect'' u8,
      Field ''caching'' u8,
      Field ''range_type'' u8,
      Field ''translation'' u8]"

definition struct_acpi_io_attribute :: cty where
  "struct_acpi_io_attribute = CStruct ''acpi_io_attribute'' False
     [Field ''range_type'' u8,
      Field ''translation'' u8,
      Field ''translation_type'' u8,
      Field ''reserved1'' u8]"

definition union_acpi_resource_attribute :: cty where
  "union_acpi_resource_attribute = CUnion ''acpi_resource_attribute'' False
     [Field ''mem'' struct_acpi_memory_attribute,
      Field ''io'' struct_acpi_io_attribute,
      Field ''type_specific'' u8]"

definition struct_acpi_address16_attribute :: cty where
  "struct_acpi_address16_attribute = CStruct ''acpi_address16_attribute'' False
     [Field ''granularity'' u16,
      Field ''minimum'' u16,
      Field ''maximum'' u16,
      Field ''translation_offset'' u16,
      Field ''address_length'' u16]"

definition struct_acpi_resource_source :: cty where
  "struct_acpi_resource_source = CStruct ''acpi_resource_source'' True
     [Field ''index'' u8,
      Field ''string_length'' u16,
      Field ''string_ptr'' (CPtr ''char'')]"

definition struct_acpi_resource_address16 :: cty where
  "struct_acpi_resource_address16 = CStruct ''acpi_resource_address16'' True
     [Field ''resource_type'' u8,
      Field ''producer_consumer'' u8,
      Field ''decode'' u8,
      Field ''min_address_fixed'' u8,
      Field ''max_address_fixed'' u8,
      Field ''info'' union_acpi_resource_attribute,
      Field ''address'' struct_acpi_address16_attribute,
      Field ''resource_source'' struct_acpi_resource_source]"

definition struct_acpi_address32_attribute :: cty where
  "struct_acpi_address32_attribute = CStruct ''acpi_address32_attribute'' False
     [Field ''granularity'' u32,
      Field ''minimum'' u32,
      Field ''maximum'' u32,
      Field ''translation_offset'' u32,
      Field ''address_length'' u32]"

definition struct_acpi_resource_address32 :: cty where
  "struct_acpi_resource_address32 = CStruct ''acpi_resource_address32'' True
     [Field ''resource_type'' u8,
      Field ''producer_consumer'' u8,
      Field ''decode'' u8,
      Field ''min_address_fixed'' u8,
      Field ''max_address_fixed'' u8,
      Field ''info'' union_acpi_resource_attribute,
      Field ''address'' struct_acpi_address32_attribute,
      Field ''resource_source'' struct_acpi_resource_source]"

definition struct_acpi_address64_attribute :: cty where
  "struct_acpi_address64_attribute = CStruct ''acpi_address64_attribute'' False
     [Field ''granularity'' u64,
      Field ''minimum'' u64,
      Field ''maximum'' u64,
      Field ''translation_offset'' u64,
      Field ''address_length'' u64]"

definition struct_acpi_resource_address64 :: cty where
  "struct_acpi_resource_address64 = CStruct ''acpi_resource_address64'' True
     [Field ''resource_type'' u8,
      Field ''producer_consumer'' u8,
      Field ''decode'' u8,
      Field ''min_address_fixed'' u8,
      Field ''max_address_fixed'' u8,
      Field ''info'' union_acpi_resource_attribute,
      Field ''address'' struct_acpi_address64_attribute,
      Field ''resource_source'' struct_acpi_resource_source]"

definition struct_acpi_resource_extended_address64 :: cty where
  "struct_acpi_resource_extended_address64 = CStruct ''acpi_resource_extended_address64'' True
     [Field ''resource_type'' u8,
      Field ''producer_consumer'' u8,
      Field ''decode'' u8,
      Field ''min_address_fixed'' u8,
      Field ''max_address_fixed'' u8,
      Field ''info'' union_acpi_resource_attribute,
      Field ''revision_ID'' u8,
      Field ''address'' struct_acpi_address64_attribute,
      Field ''type_specific'' u64]"

definition struct_acpi_resource_extended_irq :: cty where
  "struct_acpi_resource_extended_irq = CStruct ''acpi_resource_extended_irq'' True
     [Field ''producer_consumer'' u8,
      Field ''triggering'' u8,
      Field ''polarity'' u8,
      Field ''shareable'' u8,
      Field ''wake_capable'' u8,
      Field ''interrupt_count'' u8,
      Field ''resource_source'' struct_acpi_resource_source,
      Field [] (CUnion [] False
        [Field ''interrupt'' u32,
         Field [] (CStruct [] False
           [Field ''__Empty_interrupts'' (CStruct [] False
              []),
            Field ''interrupts'' (CArr 0 u32)])])]"

definition struct_acpi_resource_generic_register :: cty where
  "struct_acpi_resource_generic_register = CStruct ''acpi_resource_generic_register'' True
     [Field ''space_id'' u8,
      Field ''bit_width'' u8,
      Field ''bit_offset'' u8,
      Field ''access_size'' u8,
      Field ''address'' u64]"

definition struct_acpi_resource_gpio :: cty where
  "struct_acpi_resource_gpio = CStruct ''acpi_resource_gpio'' True
     [Field ''revision_id'' u8,
      Field ''connection_type'' u8,
      Field ''producer_consumer'' u8,
      Field ''pin_config'' u8,
      Field ''shareable'' u8,
      Field ''wake_capable'' u8,
      Field ''io_restriction'' u8,
      Field ''triggering'' u8,
      Field ''polarity'' u8,
      Field ''drive_strength'' u16,
      Field ''debounce_timeout'' u16,
      Field ''pin_table_length'' u16,
      Field ''vendor_length'' u16,
      Field ''resource_source'' struct_acpi_resource_source,
      Field ''pin_table'' (CPtr ''u16''),
      Field ''vendor_data'' (CPtr ''u8'')]"

definition struct_acpi_resource_i2c_serialbus :: cty where
  "struct_acpi_resource_i2c_serialbus = CStruct ''acpi_resource_i2c_serialbus'' True
     [Field ''revision_id'' u8,
      Field ''type'' u8,
      Field ''producer_consumer'' u8,
      Field ''slave_mode'' u8,
      Field ''connection_sharing'' u8,
      Field ''type_revision_id'' u8,
      Field ''type_data_length'' u16,
      Field ''vendor_length'' u16,
      Field ''resource_source'' struct_acpi_resource_source,
      Field ''vendor_data'' (CPtr ''u8''),
      Field ''access_mode'' u8,
      Field ''slave_address'' u16,
      Field ''connection_speed'' u32]"

definition struct_acpi_resource_spi_serialbus :: cty where
  "struct_acpi_resource_spi_serialbus = CStruct ''acpi_resource_spi_serialbus'' True
     [Field ''revision_id'' u8,
      Field ''type'' u8,
      Field ''producer_consumer'' u8,
      Field ''slave_mode'' u8,
      Field ''connection_sharing'' u8,
      Field ''type_revision_id'' u8,
      Field ''type_data_length'' u16,
      Field ''vendor_length'' u16,
      Field ''resource_source'' struct_acpi_resource_source,
      Field ''vendor_data'' (CPtr ''u8''),
      Field ''wire_mode'' u8,
      Field ''device_polarity'' u8,
      Field ''data_bit_length'' u8,
      Field ''clock_phase'' u8,
      Field ''clock_polarity'' u8,
      Field ''device_selection'' u16,
      Field ''connection_speed'' u32]"

definition struct_acpi_resource_uart_serialbus :: cty where
  "struct_acpi_resource_uart_serialbus = CStruct ''acpi_resource_uart_serialbus'' True
     [Field ''revision_id'' u8,
      Field ''type'' u8,
      Field ''producer_consumer'' u8,
      Field ''slave_mode'' u8,
      Field ''connection_sharing'' u8,
      Field ''type_revision_id'' u8,
      Field ''type_data_length'' u16,
      Field ''vendor_length'' u16,
      Field ''resource_source'' struct_acpi_resource_source,
      Field ''vendor_data'' (CPtr ''u8''),
      Field ''endian'' u8,
      Field ''data_bits'' u8,
      Field ''stop_bits'' u8,
      Field ''flow_control'' u8,
      Field ''parity'' u8,
      Field ''lines_enabled'' u8,
      Field ''rx_fifo_size'' u16,
      Field ''tx_fifo_size'' u16,
      Field ''default_baud_rate'' u32]"

definition struct_acpi_resource_csi2_serialbus :: cty where
  "struct_acpi_resource_csi2_serialbus = CStruct ''acpi_resource_csi2_serialbus'' True
     [Field ''revision_id'' u8,
      Field ''type'' u8,
      Field ''producer_consumer'' u8,
      Field ''slave_mode'' u8,
      Field ''connection_sharing'' u8,
      Field ''type_revision_id'' u8,
      Field ''type_data_length'' u16,
      Field ''vendor_length'' u16,
      Field ''resource_source'' struct_acpi_resource_source,
      Field ''vendor_data'' (CPtr ''u8''),
      Field ''local_port_instance'' u8,
      Field ''phy_type'' u8]"

definition struct_acpi_resource_common_serialbus :: cty where
  "struct_acpi_resource_common_serialbus = CStruct ''acpi_resource_common_serialbus'' True
     [Field ''revision_id'' u8,
      Field ''type'' u8,
      Field ''producer_consumer'' u8,
      Field ''slave_mode'' u8,
      Field ''connection_sharing'' u8,
      Field ''type_revision_id'' u8,
      Field ''type_data_length'' u16,
      Field ''vendor_length'' u16,
      Field ''resource_source'' struct_acpi_resource_source,
      Field ''vendor_data'' (CPtr ''u8'')]"

definition struct_acpi_resource_pin_function :: cty where
  "struct_acpi_resource_pin_function = CStruct ''acpi_resource_pin_function'' True
     [Field ''revision_id'' u8,
      Field ''pin_config'' u8,
      Field ''shareable'' u8,
      Field ''function_number'' u16,
      Field ''pin_table_length'' u16,
      Field ''vendor_length'' u16,
      Field ''resource_source'' struct_acpi_resource_source,
      Field ''pin_table'' (CPtr ''u16''),
      Field ''vendor_data'' (CPtr ''u8'')]"

definition struct_acpi_resource_pin_config :: cty where
  "struct_acpi_resource_pin_config = CStruct ''acpi_resource_pin_config'' True
     [Field ''revision_id'' u8,
      Field ''producer_consumer'' u8,
      Field ''shareable'' u8,
      Field ''pin_config_type'' u8,
      Field ''pin_config_value'' u32,
      Field ''pin_table_length'' u16,
      Field ''vendor_length'' u16,
      Field ''resource_source'' struct_acpi_resource_source,
      Field ''pin_table'' (CPtr ''u16''),
      Field ''vendor_data'' (CPtr ''u8'')]"

definition struct_acpi_resource_label :: cty where
  "struct_acpi_resource_label = CStruct ''acpi_resource_label'' True
     [Field ''string_length'' u16,
      Field ''string_ptr'' (CPtr ''char'')]"

definition struct_acpi_resource_pin_group :: cty where
  "struct_acpi_resource_pin_group = CStruct ''acpi_resource_pin_group'' True
     [Field ''revision_id'' u8,
      Field ''producer_consumer'' u8,
      Field ''pin_table_length'' u16,
      Field ''vendor_length'' u16,
      Field ''pin_table'' (CPtr ''u16''),
      Field ''resource_label'' struct_acpi_resource_label,
      Field ''vendor_data'' (CPtr ''u8'')]"

definition struct_acpi_resource_pin_group_function :: cty where
  "struct_acpi_resource_pin_group_function = CStruct ''acpi_resource_pin_group_function'' True
     [Field ''revision_id'' u8,
      Field ''producer_consumer'' u8,
      Field ''shareable'' u8,
      Field ''function_number'' u16,
      Field ''vendor_length'' u16,
      Field ''resource_source'' struct_acpi_resource_source,
      Field ''resource_source_label'' struct_acpi_resource_label,
      Field ''vendor_data'' (CPtr ''u8'')]"

definition struct_acpi_resource_pin_group_config :: cty where
  "struct_acpi_resource_pin_group_config = CStruct ''acpi_resource_pin_group_config'' True
     [Field ''revision_id'' u8,
      Field ''producer_consumer'' u8,
      Field ''shareable'' u8,
      Field ''pin_config_type'' u8,
      Field ''pin_config_value'' u32,
      Field ''vendor_length'' u16,
      Field ''resource_source'' struct_acpi_resource_source,
      Field ''resource_source_label'' struct_acpi_resource_label,
      Field ''vendor_data'' (CPtr ''u8'')]"

definition struct_acpi_resource_clock_input :: cty where
  "struct_acpi_resource_clock_input = CStruct ''acpi_resource_clock_input'' True
     [Field ''revision_id'' u8,
      Field ''mode'' u8,
      Field ''scale'' u8,
      Field ''frequency_divisor'' u16,
      Field ''frequency_numerator'' u32,
      Field ''resource_source'' struct_acpi_resource_source]"

definition struct_acpi_resource_address :: cty where
  "struct_acpi_resource_address = CStruct ''acpi_resource_address'' False
     [Field ''resource_type'' u8,
      Field ''producer_consumer'' u8,
      Field ''decode'' u8,
      Field ''min_address_fixed'' u8,
      Field ''max_address_fixed'' u8,
      Field ''info'' union_acpi_resource_attribute]"

definition union_acpi_resource_data :: cty where
  "union_acpi_resource_data = CUnion ''acpi_resource_data'' False
     [Field ''irq'' struct_acpi_resource_irq,
      Field ''dma'' struct_acpi_resource_dma,
      Field ''start_dpf'' struct_acpi_resource_start_dependent,
      Field ''io'' struct_acpi_resource_io,
      Field ''fixed_io'' struct_acpi_resource_fixed_io,
      Field ''fixed_dma'' struct_acpi_resource_fixed_dma,
      Field ''vendor'' struct_acpi_resource_vendor,
      Field ''vendor_typed'' struct_acpi_resource_vendor_typed,
      Field ''end_tag'' struct_acpi_resource_end_tag,
      Field ''memory24'' struct_acpi_resource_memory24,
      Field ''memory32'' struct_acpi_resource_memory32,
      Field ''fixed_memory32'' struct_acpi_resource_fixed_memory32,
      Field ''address16'' struct_acpi_resource_address16,
      Field ''address32'' struct_acpi_resource_address32,
      Field ''address64'' struct_acpi_resource_address64,
      Field ''ext_address64'' struct_acpi_resource_extended_address64,
      Field ''extended_irq'' struct_acpi_resource_extended_irq,
      Field ''generic_reg'' struct_acpi_resource_generic_register,
      Field ''gpio'' struct_acpi_resource_gpio,
      Field ''i2c_serial_bus'' struct_acpi_resource_i2c_serialbus,
      Field ''spi_serial_bus'' struct_acpi_resource_spi_serialbus,
      Field ''uart_serial_bus'' struct_acpi_resource_uart_serialbus,
      Field ''csi2_serial_bus'' struct_acpi_resource_csi2_serialbus,
      Field ''common_serial_bus'' struct_acpi_resource_common_serialbus,
      Field ''pin_function'' struct_acpi_resource_pin_function,
      Field ''pin_config'' struct_acpi_resource_pin_config,
      Field ''pin_group'' struct_acpi_resource_pin_group,
      Field ''pin_group_function'' struct_acpi_resource_pin_group_function,
      Field ''pin_group_config'' struct_acpi_resource_pin_group_config,
      Field ''clock_input'' struct_acpi_resource_clock_input,
      Field ''address'' struct_acpi_resource_address]"

definition struct_acpi_table_header :: cty where
  "struct_acpi_table_header = CStruct ''acpi_table_header'' False
     [Field ''signature'' (CArr 4 c_char),
      Field ''length'' u32,
      Field ''revision'' u8,
      Field ''checksum'' u8,
      Field ''oem_id'' (CArr 6 c_char),
      Field ''oem_table_id'' (CArr 8 c_char),
      Field ''oem_revision'' u32,
      Field ''asl_compiler_id'' (CArr 4 c_char),
      Field ''asl_compiler_revision'' u32]"

definition struct_acpi_table_fadt :: cty where
  "struct_acpi_table_fadt = CStruct ''acpi_table_fadt'' True
     [Field ''header'' struct_acpi_table_header,
      Field ''facs'' u32,
      Field ''dsdt'' u32,
      Field ''model'' u8,
      Field ''preferred_profile'' u8,
      Field ''sci_interrupt'' u16,
      Field ''smi_command'' u32,
      Field ''acpi_enable'' u8,
      Field ''acpi_disable'' u8,
      Field ''s4_bios_request'' u8,
      Field ''pstate_control'' u8,
      Field ''pm1a_event_block'' u32,
      Field ''pm1b_event_block'' u32,
      Field ''pm1a_control_block'' u32,
      Field ''pm1b_control_block'' u32,
      Field ''pm2_control_block'' u32,
      Field ''pm_timer_block'' u32,
      Field ''gpe0_block'' u32,
      Field ''gpe1_block'' u32,
      Field ''pm1_event_length'' u8,
      Field ''pm1_control_length'' u8,
      Field ''pm2_control_length'' u8,
      Field ''pm_timer_length'' u8,
      Field ''gpe0_block_length'' u8,
      Field ''gpe1_block_length'' u8,
      Field ''gpe1_base'' u8,
      Field ''cst_control'' u8,
      Field ''c2_latency'' u16,
      Field ''c3_latency'' u16,
      Field ''flush_size'' u16,
      Field ''flush_stride'' u16,
      Field ''duty_offset'' u8,
      Field ''duty_width'' u8,
      Field ''day_alarm'' u8,
      Field ''month_alarm'' u8,
      Field ''century'' u8,
      Field ''boot_flags'' u16,
      Field ''reserved'' u8,
      Field ''flags'' u32,
      Field ''reset_register'' struct_acpi_generic_address,
      Field ''reset_value'' u8,
      Field ''arm_boot_flags'' u16,
      Field ''minor_revision'' u8,
      Field ''Xfacs'' u64,
      Field ''Xdsdt'' u64,
      Field ''xpm1a_event_block'' struct_acpi_generic_address,
      Field ''xpm1b_event_block'' struct_acpi_generic_address,
      Field ''xpm1a_control_block'' struct_acpi_generic_address,
      Field ''xpm1b_control_block'' struct_acpi_generic_address,
      Field ''xpm2_control_block'' struct_acpi_generic_address,
      Field ''xpm_timer_block'' struct_acpi_generic_address,
      Field ''xgpe0_block'' struct_acpi_generic_address,
      Field ''xgpe1_block'' struct_acpi_generic_address,
      Field ''sleep_control'' struct_acpi_generic_address,
      Field ''sleep_status'' struct_acpi_generic_address,
      Field ''hypervisor_id'' u64]"

definition struct_acpi_table_spcr :: cty where
  "struct_acpi_table_spcr = CStruct ''acpi_table_spcr'' True
     [Field ''header'' struct_acpi_table_header,
      Field ''interface_type'' u8,
      Field ''reserved'' (CArr 3 u8),
      Field ''serial_port'' struct_acpi_generic_address,
      Field ''interrupt_type'' u8,
      Field ''pc_interrupt'' u8,
      Field ''interrupt'' u32,
      Field ''baud_rate'' u8,
      Field ''parity'' u8,
      Field ''stop_bits'' u8,
      Field ''flow_control'' u8,
      Field ''terminal_type'' u8,
      Field ''language'' u8,
      Field ''pci_device_id'' u16,
      Field ''pci_vendor_id'' u16,
      Field ''pci_bus'' u8,
      Field ''pci_device'' u8,
      Field ''pci_function'' u8,
      Field ''pci_flags'' u32,
      Field ''pci_segment'' u8,
      Field ''uart_clk_freq'' u32,
      Field ''precise_baudrate'' u32,
      Field ''name_space_string_length'' u16,
      Field ''name_space_string_offset'' u16,
      Field ''name_space_string'' (CArr 0 c_char)]"

definition struct_acpi_parse_state :: cty where
  "struct_acpi_parse_state = CStruct ''acpi_parse_state'' False
     [Field ''aml_start'' (CPtr ''u8''),
      Field ''aml'' (CPtr ''u8''),
      Field ''aml_end'' (CPtr ''u8''),
      Field ''pkg_start'' (CPtr ''u8''),
      Field ''pkg_end'' (CPtr ''u8''),
      Field ''start_op'' (CPtr ''union acpi_parse_object''),
      Field ''start_node'' (CPtr ''struct acpi_namespace_node''),
      Field ''scope'' (CPtr ''union acpi_generic_state''),
      Field ''start_scope'' (CPtr ''union acpi_parse_object''),
      Field ''aml_size'' u32]"

definition acpi_parse_downwards :: cty where [layout_simps]:
  "acpi_parse_downwards = CPtr ''acpi_status (struct acpi_walk_state *, union acpi_parse_object **)''"

definition acpi_parse_upwards :: cty where [layout_simps]:
  "acpi_parse_upwards = CPtr ''acpi_status (struct acpi_walk_state *)''"

definition struct_acpi_walk_state :: cty where
  "struct_acpi_walk_state = CStruct ''acpi_walk_state'' False
     [Field ''next'' (CPtr ''struct acpi_walk_state''),
      Field ''descriptor_type'' u8,
      Field ''walk_type'' u8,
      Field ''opcode'' u16,
      Field ''next_op_info'' u8,
      Field ''num_operands'' u8,
      Field ''operand_index'' u8,
      Field ''owner_id'' acpi_owner_id,
      Field ''last_predicate'' u8,
      Field ''current_result'' u8,
      Field ''return_used'' u8,
      Field ''scope_depth'' u8,
      Field ''pass_number'' u8,
      Field ''namespace_override'' u8,
      Field ''result_size'' u8,
      Field ''result_count'' u8,
      Field ''aml'' (CPtr ''u8''),
      Field ''arg_types'' u32,
      Field ''method_breakpoint'' u32,
      Field ''user_breakpoint'' u32,
      Field ''parse_flags'' u32,
      Field ''parser_state'' struct_acpi_parse_state,
      Field ''prev_arg_types'' u32,
      Field ''arg_count'' u32,
      Field ''method_nesting_depth'' u16,
      Field ''method_is_nested'' u8,
      Field ''arguments'' (CArr 7 struct_acpi_namespace_node),
      Field ''local_variables'' (CArr 8 struct_acpi_namespace_node),
      Field ''operands'' (CArr 9 (CPtr ''union acpi_operand_object'')),
      Field ''params'' (CPtr ''union acpi_operand_object *''),
      Field ''aml_last_while'' (CPtr ''u8''),
      Field ''caller_return_desc'' (CPtr ''union acpi_operand_object *''),
      Field ''control_state'' (CPtr ''union acpi_generic_state''),
      Field ''deferred_node'' (CPtr ''struct acpi_namespace_node''),
      Field ''implicit_return_obj'' (CPtr ''union acpi_operand_object''),
      Field ''method_call_node'' (CPtr ''struct acpi_namespace_node''),
      Field ''method_call_op'' (CPtr ''union acpi_parse_object''),
      Field ''method_desc'' (CPtr ''union acpi_operand_object''),
      Field ''method_node'' (CPtr ''struct acpi_namespace_node''),
      Field ''method_pathname'' (CPtr ''char''),
      Field ''op'' (CPtr ''union acpi_parse_object''),
      Field ''op_info'' (CPtr ''const struct acpi_opcode_info''),
      Field ''origin'' (CPtr ''union acpi_parse_object''),
      Field ''result_obj'' (CPtr ''union acpi_operand_object''),
      Field ''results'' (CPtr ''union acpi_generic_state''),
      Field ''return_desc'' (CPtr ''union acpi_operand_object''),
      Field ''scope_info'' (CPtr ''union acpi_generic_state''),
      Field ''prev_op'' (CPtr ''union acpi_parse_object''),
      Field ''next_op'' (CPtr ''union acpi_parse_object''),
      Field ''thread'' (CPtr ''struct acpi_thread_state''),
      Field ''descending_callback'' acpi_parse_downwards,
      Field ''ascending_callback'' acpi_parse_upwards]"

definition enum_handler_id :: cty where
  "enum_handler_id = CEnum 4
     [(''HANDLER_ONMATCH'', 1), (''HANDLER_ONMAX'', 2), (''HANDLER_ONCHANGE'', 3)]"

definition enum_action_id :: cty where
  "enum_action_id = CEnum 4
     [(''ACTION_SAVE'', 1), (''ACTION_TRACE'', 2), (''ACTION_SNAPSHOT'', 3)]"

definition action_fn_t :: cty where [layout_simps]:
  "action_fn_t = CPtr ''void (struct hist_trigger_data *, struct tracing_map_elt *, struct trace_buffer *, void *, struct ring_buffer_event *, void *, struct action_data *, u64 *)''"

definition check_track_val_fn_t :: cty where [layout_simps]:
  "check_track_val_fn_t = CPtr ''bool (u64, u64)''"

definition struct_action_data :: cty where
  "struct_action_data = CStruct ''action_data'' False
     [Field ''handler'' enum_handler_id,
      Field ''action'' enum_action_id,
      Field ''action_name'' (CPtr ''char''),
      Field ''fn'' action_fn_t,
      Field ''n_params'' unsigned_int,
      Field ''params'' (CArr 64 (CPtr ''char'')),
      Field ''var_ref_idx'' (CArr 64 unsigned_int),
      Field ''synth_event'' (CPtr ''struct synth_event''),
      Field ''use_trace_keyword'' bool,
      Field ''synth_event_name'' (CPtr ''char''),
      Field [] (CUnion [] False
        [Field ''match_data'' (CStruct [] False
           [Field ''event'' (CPtr ''char''),
            Field ''event_system'' (CPtr ''char'')]),
         Field ''track_data'' (CStruct [] False
           [Field ''var_str'' (CPtr ''char''),
            Field ''var_ref'' (CPtr ''struct hist_field''),
            Field ''track_var'' (CPtr ''struct hist_field''),
            Field ''check_val'' check_track_val_fn_t,
            Field ''save_data'' action_fn_t])])]"

definition struct_agp_bridge_data :: cty where
  "struct_agp_bridge_data = CStruct ''agp_bridge_data'' False
     [Field ''version'' (CPtr ''const struct agp_version''),
      Field ''driver'' (CPtr ''const struct agp_bridge_driver''),
      Field ''vm_ops'' (CPtr ''const struct vm_operations_struct''),
      Field ''previous_size'' (CPtr ''void''),
      Field ''current_size'' (CPtr ''void''),
      Field ''dev_private_data'' (CPtr ''void''),
      Field ''dev'' (CPtr ''struct pci_dev''),
      Field ''gatt_table'' (CPtr ''u32''),
      Field ''gatt_table_real'' (CPtr ''u32''),
      Field ''scratch_page'' long_unsigned_int,
      Field ''scratch_page_page'' (CPtr ''struct page''),
      Field ''scratch_page_dma'' dma_addr_t,
      Field ''gart_bus_addr'' long_unsigned_int,
      Field ''gatt_bus_addr'' long_unsigned_int,
      Field ''mode'' u32,
      Field ''key_list'' (CPtr ''long unsigned int''),
      Field ''current_memory_agp'' atomic_t,
      Field ''agp_in_use'' atomic_t,
      Field ''max_memory_agp'' c_int,
      Field ''aperture_size_idx'' c_int,
      Field ''capndx'' c_int,
      Field ''flags'' c_int,
      Field ''major_version'' c_char,
      Field ''minor_version'' c_char,
      Field ''list'' struct_list_head,
      Field ''apbase_config'' u32,
      Field ''mapped_list'' struct_list_head,
      Field ''mapped_lock'' spinlock_t]"

definition enum_aper_size_type :: cty where
  "enum_aper_size_type = CEnum 4
     [(''U8_APER_SIZE'', 0), (''U16_APER_SIZE'', 1), (''U32_APER_SIZE'', 2),
      (''LVL2_APER_SIZE'', 3), (''FIXED_APER_SIZE'', 4)]"

definition struct_agp_bridge_driver :: cty where
  "struct_agp_bridge_driver = CStruct ''agp_bridge_driver'' False
     [Field ''owner'' (CPtr ''struct module''),
      Field ''aperture_sizes'' (CPtr ''const void''),
      Field ''num_aperture_sizes'' c_int,
      Field ''size_type'' enum_aper_size_type,
      Field ''cant_use_aperture'' bool,
      Field ''needs_scratch_page'' bool,
      Field ''masks'' (CPtr ''const struct gatt_mask''),
      Field ''fetch_size'' (CPtr ''int (void)''),
      Field ''configure'' (CPtr ''int (void)''),
      Field ''agp_enable'' (CPtr ''void (struct agp_bridge_data *, u32)''),
      Field ''cleanup'' (CPtr ''void (void)''),
      Field ''tlb_flush'' (CPtr ''void (struct agp_memory *)''),
      Field ''mask_memory'' (CPtr ''long unsigned int (struct agp_bridge_data *, dma_addr_t, int)''),
      Field ''cache_flush'' (CPtr ''void (void)''),
      Field ''create_gatt_table'' (CPtr ''int (struct agp_bridge_data *)''),
      Field ''free_gatt_table'' (CPtr ''int (struct agp_bridge_data *)''),
      Field ''insert_memory'' (CPtr ''int (struct agp_memory *, off_t, int)''),
      Field ''remove_memory'' (CPtr ''int (struct agp_memory *, off_t, int)''),
      Field ''alloc_by_type'' (CPtr ''struct agp_memory * (size_t, int)''),
      Field ''free_by_type'' (CPtr ''void (struct agp_memory *)''),
      Field ''agp_alloc_page'' (CPtr ''struct page * (struct agp_bridge_data *)''),
      Field ''agp_alloc_pages'' (CPtr ''int (struct agp_bridge_data *, struct agp_memory *, size_t)''),
      Field ''agp_destroy_page'' (CPtr ''void (struct page *, int)''),
      Field ''agp_destroy_pages'' (CPtr ''void (struct agp_memory *)''),
      Field ''agp_type_to_mask_type'' (CPtr ''int (struct agp_bridge_data *, int)'')]"

definition struct_amd_iommu :: cty where
  "struct_amd_iommu = CStruct ''amd_iommu'' False
     [Field ''list'' struct_list_head,
      Field ''index'' c_int,
      Field ''lock'' raw_spinlock_t,
      Field ''dev'' (CPtr ''struct pci_dev''),
      Field ''root_pdev'' (CPtr ''struct pci_dev''),
      Field ''mmio_phys'' u64,
      Field ''mmio_phys_end'' u64,
      Field ''mmio_base'' (CPtr ''u8''),
      Field ''cap'' u32,
      Field ''acpi_flags'' u8,
      Field ''features'' u64,
      Field ''features2'' u64,
      Field ''devid'' u16,
      Field ''cap_ptr'' u16,
      Field ''pci_seg'' (CPtr ''struct amd_iommu_pci_seg''),
      Field ''exclusion_start'' u64,
      Field ''exclusion_length'' u64,
      Field ''cmd_buf'' (CPtr ''u8''),
      Field ''cmd_buf_head'' u32,
      Field ''cmd_buf_tail'' u32,
      Field ''evt_buf'' (CPtr ''u8''),
      Field ''evt_irq_name'' (CArr 16 unsigned_char),
      Field ''ppr_log'' (CPtr ''u8''),
      Field ''ppr_irq_name'' (CArr 16 unsigned_char),
      Field ''ga_log'' (CPtr ''u8''),
      Field ''ga_irq_name'' (CArr 16 unsigned_char),
      Field ''ga_log_tail'' (CPtr ''u8''),
      Field ''int_enabled'' bool,
      Field ''need_sync'' bool,
      Field ''irtcachedis_enabled'' bool,
      Field ''iommu'' struct_iommu_device,
      Field ''stored_addr_lo'' u32,
      Field ''stored_addr_hi'' u32,
      Field ''stored_l1'' (CArr 108 u32),
      Field ''stored_l2'' (CArr 131 u32),
      Field ''max_banks'' u8,
      Field ''max_counters'' u8,
      Field ''ir_domain'' (CPtr ''struct irq_domain''),
      Field ''irte_ops'' (CPtr ''struct amd_irte_ops''),
      Field ''flags'' u32,
      Field ''cmd_sem'' (CPtr ''volatile u64''),
      Field ''cmd_sem_val'' u64,
      Field ''cmd_sem_paddr'' u64,
      Field ''iopf_queue'' (CPtr ''struct iopf_queue''),
      Field ''iopfq_name'' (CArr 32 unsigned_char)]"

definition struct_aml_resource_small_header :: cty where
  "struct_aml_resource_small_header = CStruct ''aml_resource_small_header'' False
     [Field ''descriptor_type'' u8]"

definition struct_aml_resource_large_header :: cty where
  "struct_aml_resource_large_header = CStruct ''aml_resource_large_header'' True
     [Field ''descriptor_type'' u8,
      Field ''resource_length'' u16]"

definition struct_aml_resource_irq :: cty where
  "struct_aml_resource_irq = CStruct ''aml_resource_irq'' True
     [Field ''descriptor_type'' u8,
      Field ''irq_mask'' u16,
      Field ''flags'' u8]"

section \<open>Sizes and alignments\<close>

lemma enum_xsd_sockmsg_type_layout [layout_simps]:
  "sizeof enum_xsd_sockmsg_type = 4 \<and> alignof enum_xsd_sockmsg_type = 4 \<and> wf_cty enum_xsd_sockmsg_type"
  by (simp add: enum_xsd_sockmsg_type_def base_types layout_eval
      del: One_nat_def)

lemma struct_IO_APIC_route_entry_layout [layout_simps]:
  "sizeof struct_IO_APIC_route_entry = 8 \<and> alignof struct_IO_APIC_route_entry = 8 \<and> wf_cty struct_IO_APIC_route_entry"
  by (simp add: struct_IO_APIC_route_entry_def base_types layout_eval u64_def c__u64_def
      del: One_nat_def)

lemma struct_RigidDiskBlock_layout [layout_simps]:
  "sizeof struct_RigidDiskBlock = 256 \<and> alignof struct_RigidDiskBlock = 4 \<and> wf_cty struct_RigidDiskBlock"
  by (simp add: struct_RigidDiskBlock_def base_types layout_eval c__be32_def c__u32_def
      del: One_nat_def)

lemma enum_scsi_host_state_layout [layout_simps]:
  "sizeof enum_scsi_host_state = 4 \<and> alignof enum_scsi_host_state = 4 \<and> wf_cty enum_scsi_host_state"
  by (simp add: enum_scsi_host_state_def base_types layout_eval
      del: One_nat_def)

lemma struct_Scsi_Host_layout [layout_simps]:
  "sizeof struct_Scsi_Host = 2304 \<and> alignof struct_Scsi_Host = 8 \<and> wf_cty struct_Scsi_Host"
  by (simp add: struct_Scsi_Host_def base_types layout_eval struct_list_head_layout spinlock_t_def struct_spinlock_layout
      struct_mutex_layout wait_queue_head_t_def struct_wait_queue_head_layout struct_kref_layout
      struct_completion_layout struct_blk_mq_tag_set_layout atomic_t_layout u64_def c__u64_def
      enum_scsi_host_state_layout struct_device_layout
      del: One_nat_def)

lemma ZSTD_format_e_layout [layout_simps]:
  "sizeof ZSTD_format_e = 4 \<and> alignof ZSTD_format_e = 4 \<and> wf_cty ZSTD_format_e"
  by (simp add: ZSTD_format_e_def base_types layout_eval
      del: One_nat_def)

lemma ZSTD_strategy_layout [layout_simps]:
  "sizeof ZSTD_strategy = 4 \<and> alignof ZSTD_strategy = 4 \<and> wf_cty ZSTD_strategy"
  by (simp add: ZSTD_strategy_def base_types layout_eval
      del: One_nat_def)

lemma ZSTD_compressionParameters_layout [layout_simps]:
  "sizeof ZSTD_compressionParameters = 28 \<and> alignof ZSTD_compressionParameters = 4 \<and> wf_cty ZSTD_compressionParameters"
  by (simp add: ZSTD_compressionParameters_def base_types layout_eval ZSTD_strategy_layout
      del: One_nat_def)

lemma ZSTD_frameParameters_layout [layout_simps]:
  "sizeof ZSTD_frameParameters = 12 \<and> alignof ZSTD_frameParameters = 4 \<and> wf_cty ZSTD_frameParameters"
  by (simp add: ZSTD_frameParameters_def base_types layout_eval
      del: One_nat_def)

lemma ZSTD_dictAttachPref_e_layout [layout_simps]:
  "sizeof ZSTD_dictAttachPref_e = 4 \<and> alignof ZSTD_dictAttachPref_e = 4 \<and> wf_cty ZSTD_dictAttachPref_e"
  by (simp add: ZSTD_dictAttachPref_e_def base_types layout_eval
      del: One_nat_def)

lemma ZSTD_ParamSwitch_e_layout [layout_simps]:
  "sizeof ZSTD_ParamSwitch_e = 4 \<and> alignof ZSTD_ParamSwitch_e = 4 \<and> wf_cty ZSTD_ParamSwitch_e"
  by (simp add: ZSTD_ParamSwitch_e_def base_types layout_eval
      del: One_nat_def)

lemma ldmParams_t_layout [layout_simps]:
  "sizeof ldmParams_t = 24 \<and> alignof ldmParams_t = 4 \<and> wf_cty ldmParams_t"
  by (simp add: ldmParams_t_def base_types layout_eval ZSTD_ParamSwitch_e_layout U32_def uint32_t_def u32_def c__u32_def
      del: One_nat_def)

lemma ZSTD_bufferMode_e_layout [layout_simps]:
  "sizeof ZSTD_bufferMode_e = 4 \<and> alignof ZSTD_bufferMode_e = 4 \<and> wf_cty ZSTD_bufferMode_e"
  by (simp add: ZSTD_bufferMode_e_def base_types layout_eval
      del: One_nat_def)

lemma ZSTD_SequenceFormat_e_layout [layout_simps]:
  "sizeof ZSTD_SequenceFormat_e = 4 \<and> alignof ZSTD_SequenceFormat_e = 4 \<and> wf_cty ZSTD_SequenceFormat_e"
  by (simp add: ZSTD_SequenceFormat_e_def base_types layout_eval
      del: One_nat_def)

lemma ZSTD_customMem_layout [layout_simps]:
  "sizeof ZSTD_customMem = 24 \<and> alignof ZSTD_customMem = 8 \<and> wf_cty ZSTD_customMem"
  by (simp add: ZSTD_customMem_def base_types layout_eval ZSTD_allocFunction_def ZSTD_freeFunction_def
      del: One_nat_def)

lemma struct_ZSTD_CCtx_params_s_layout [layout_simps]:
  "sizeof struct_ZSTD_CCtx_params_s = 224 \<and> alignof struct_ZSTD_CCtx_params_s = 8 \<and> wf_cty struct_ZSTD_CCtx_params_s"
  by (simp add: struct_ZSTD_CCtx_params_s_def base_types layout_eval ZSTD_format_e_layout
      ZSTD_compressionParameters_layout ZSTD_frameParameters_layout size_t_def c__kernel_size_t_def
      c__kernel_ulong_t_def ZSTD_dictAttachPref_e_layout ZSTD_ParamSwitch_e_layout ldmParams_t_layout
      ZSTD_bufferMode_e_layout ZSTD_SequenceFormat_e_layout ZSTD_customMem_layout
      ZSTD_sequenceProducer_F_def
      del: One_nat_def)

lemma ZSTD_compressionStage_e_layout [layout_simps]:
  "sizeof ZSTD_compressionStage_e = 4 \<and> alignof ZSTD_compressionStage_e = 4 \<and> wf_cty ZSTD_compressionStage_e"
  by (simp add: ZSTD_compressionStage_e_def base_types layout_eval
      del: One_nat_def)

lemma ZSTD_cwksp_alloc_phase_e_layout [layout_simps]:
  "sizeof ZSTD_cwksp_alloc_phase_e = 4 \<and> alignof ZSTD_cwksp_alloc_phase_e = 4 \<and> wf_cty ZSTD_cwksp_alloc_phase_e"
  by (simp add: ZSTD_cwksp_alloc_phase_e_def base_types layout_eval
      del: One_nat_def)

lemma ZSTD_cwksp_static_alloc_e_layout [layout_simps]:
  "sizeof ZSTD_cwksp_static_alloc_e = 4 \<and> alignof ZSTD_cwksp_static_alloc_e = 4 \<and> wf_cty ZSTD_cwksp_static_alloc_e"
  by (simp add: ZSTD_cwksp_static_alloc_e_def base_types layout_eval
      del: One_nat_def)

lemma ZSTD_cwksp_layout [layout_simps]:
  "sizeof ZSTD_cwksp = 72 \<and> alignof ZSTD_cwksp = 8 \<and> wf_cty ZSTD_cwksp"
  by (simp add: ZSTD_cwksp_def base_types layout_eval BYTE_def uint8_t_def u8_def c__u8_def
      ZSTD_cwksp_alloc_phase_e_layout ZSTD_cwksp_static_alloc_e_layout
      del: One_nat_def)

lemma struct_xxh64_state_layout [layout_simps]:
  "sizeof struct_xxh64_state = 80 \<and> alignof struct_xxh64_state = 8 \<and> wf_cty struct_xxh64_state"
  by (simp add: struct_xxh64_state_def base_types layout_eval uint64_t_def u64_def c__u64_def uint32_t_def u32_def
      c__u32_def
      del: One_nat_def)

lemma SeqCollector_layout [layout_simps]:
  "sizeof SeqCollector = 32 \<and> alignof SeqCollector = 8 \<and> wf_cty SeqCollector"
  by (simp add: SeqCollector_def base_types layout_eval size_t_def c__kernel_size_t_def c__kernel_ulong_t_def
      del: One_nat_def)

lemma ZSTD_longLengthType_e_layout [layout_simps]:
  "sizeof ZSTD_longLengthType_e = 4 \<and> alignof ZSTD_longLengthType_e = 4 \<and> wf_cty ZSTD_longLengthType_e"
  by (simp add: ZSTD_longLengthType_e_def base_types layout_eval
      del: One_nat_def)

lemma SeqStore_t_layout [layout_simps]:
  "sizeof SeqStore_t = 80 \<and> alignof SeqStore_t = 8 \<and> wf_cty SeqStore_t"
  by (simp add: SeqStore_t_def base_types layout_eval size_t_def c__kernel_size_t_def c__kernel_ulong_t_def
      ZSTD_longLengthType_e_layout U32_def uint32_t_def u32_def c__u32_def
      del: One_nat_def)

lemma ZSTD_window_t_layout [layout_simps]:
  "sizeof ZSTD_window_t = 40 \<and> alignof ZSTD_window_t = 8 \<and> wf_cty ZSTD_window_t"
  by (simp add: ZSTD_window_t_def base_types layout_eval U32_def uint32_t_def u32_def c__u32_def
      del: One_nat_def)

lemma ldmMatchCandidate_t_layout [layout_simps]:
  "sizeof ldmMatchCandidate_t = 24 \<and> alignof ldmMatchCandidate_t = 8 \<and> wf_cty ldmMatchCandidate_t"
  by (simp add: ldmMatchCandidate_t_def base_types layout_eval U32_def uint32_t_def u32_def c__u32_def
      del: One_nat_def)

lemma ldmState_t_layout [layout_simps]:
  "sizeof ldmState_t = 2112 \<and> alignof ldmState_t = 8 \<and> wf_cty ldmState_t"
  by (simp add: ldmState_t_def base_types layout_eval ZSTD_window_t_layout U32_def uint32_t_def u32_def c__u32_def
      size_t_def c__kernel_size_t_def c__kernel_ulong_t_def ldmMatchCandidate_t_layout
      del: One_nat_def)

lemma RawSeqStore_t_layout [layout_simps]:
  "sizeof RawSeqStore_t = 40 \<and> alignof RawSeqStore_t = 8 \<and> wf_cty RawSeqStore_t"
  by (simp add: RawSeqStore_t_def base_types layout_eval size_t_def c__kernel_size_t_def c__kernel_ulong_t_def
      del: One_nat_def)

lemma ZSTD_OptPrice_e_layout [layout_simps]:
  "sizeof ZSTD_OptPrice_e = 4 \<and> alignof ZSTD_OptPrice_e = 4 \<and> wf_cty ZSTD_OptPrice_e"
  by (simp add: ZSTD_OptPrice_e_def base_types layout_eval
      del: One_nat_def)

lemma optState_t_layout [layout_simps]:
  "sizeof optState_t = 104 \<and> alignof optState_t = 8 \<and> wf_cty optState_t"
  by (simp add: optState_t_def base_types layout_eval U32_def uint32_t_def u32_def c__u32_def ZSTD_OptPrice_e_layout
      ZSTD_ParamSwitch_e_layout
      del: One_nat_def)

lemma struct_ZSTD_MatchState_t_layout [layout_simps]:
  "sizeof struct_ZSTD_MatchState_t = 304 \<and> alignof struct_ZSTD_MatchState_t = 8 \<and> wf_cty struct_ZSTD_MatchState_t"
  by (simp add: struct_ZSTD_MatchState_t_def base_types layout_eval ZSTD_window_t_layout U32_def uint32_t_def u32_def
      c__u32_def U64_def uint64_t_def u64_def c__u64_def optState_t_layout
      ZSTD_compressionParameters_layout
      del: One_nat_def)

lemma ZSTD_blockState_t_layout [layout_simps]:
  "sizeof ZSTD_blockState_t = 320 \<and> alignof ZSTD_blockState_t = 8 \<and> wf_cty ZSTD_blockState_t"
  by (simp add: ZSTD_blockState_t_def base_types layout_eval ZSTD_MatchState_t_def struct_ZSTD_MatchState_t_layout
      del: One_nat_def)

lemma ZSTD_buffered_policy_e_layout [layout_simps]:
  "sizeof ZSTD_buffered_policy_e = 4 \<and> alignof ZSTD_buffered_policy_e = 4 \<and> wf_cty ZSTD_buffered_policy_e"
  by (simp add: ZSTD_buffered_policy_e_def base_types layout_eval
      del: One_nat_def)

lemma ZSTD_cStreamStage_layout [layout_simps]:
  "sizeof ZSTD_cStreamStage = 4 \<and> alignof ZSTD_cStreamStage = 4 \<and> wf_cty ZSTD_cStreamStage"
  by (simp add: ZSTD_cStreamStage_def base_types layout_eval
      del: One_nat_def)

lemma struct_ZSTD_inBuffer_s_layout [layout_simps]:
  "sizeof struct_ZSTD_inBuffer_s = 24 \<and> alignof struct_ZSTD_inBuffer_s = 8 \<and> wf_cty struct_ZSTD_inBuffer_s"
  by (simp add: struct_ZSTD_inBuffer_s_def base_types layout_eval size_t_def c__kernel_size_t_def c__kernel_ulong_t_def
      del: One_nat_def)

lemma ZSTD_dictContentType_e_layout [layout_simps]:
  "sizeof ZSTD_dictContentType_e = 4 \<and> alignof ZSTD_dictContentType_e = 4 \<and> wf_cty ZSTD_dictContentType_e"
  by (simp add: ZSTD_dictContentType_e_def base_types layout_eval
      del: One_nat_def)

lemma ZSTD_localDict_layout [layout_simps]:
  "sizeof ZSTD_localDict = 40 \<and> alignof ZSTD_localDict = 8 \<and> wf_cty ZSTD_localDict"
  by (simp add: ZSTD_localDict_def base_types layout_eval size_t_def c__kernel_size_t_def c__kernel_ulong_t_def
      ZSTD_dictContentType_e_layout
      del: One_nat_def)

lemma struct_ZSTD_prefixDict_s_layout [layout_simps]:
  "sizeof struct_ZSTD_prefixDict_s = 24 \<and> alignof struct_ZSTD_prefixDict_s = 8 \<and> wf_cty struct_ZSTD_prefixDict_s"
  by (simp add: struct_ZSTD_prefixDict_s_def base_types layout_eval size_t_def c__kernel_size_t_def c__kernel_ulong_t_def
      ZSTD_dictContentType_e_layout
      del: One_nat_def)

lemma SymbolEncodingType_e_layout [layout_simps]:
  "sizeof SymbolEncodingType_e = 4 \<and> alignof SymbolEncodingType_e = 4 \<and> wf_cty SymbolEncodingType_e"
  by (simp add: SymbolEncodingType_e_def base_types layout_eval
      del: One_nat_def)

lemma ZSTD_hufCTablesMetadata_t_layout [layout_simps]:
  "sizeof ZSTD_hufCTablesMetadata_t = 144 \<and> alignof ZSTD_hufCTablesMetadata_t = 8 \<and> wf_cty ZSTD_hufCTablesMetadata_t"
  by (simp add: ZSTD_hufCTablesMetadata_t_def base_types layout_eval SymbolEncodingType_e_layout BYTE_def uint8_t_def
      u8_def c__u8_def size_t_def c__kernel_size_t_def c__kernel_ulong_t_def
      del: One_nat_def)

lemma ZSTD_fseCTablesMetadata_t_layout [layout_simps]:
  "sizeof ZSTD_fseCTablesMetadata_t = 168 \<and> alignof ZSTD_fseCTablesMetadata_t = 8 \<and> wf_cty ZSTD_fseCTablesMetadata_t"
  by (simp add: ZSTD_fseCTablesMetadata_t_def base_types layout_eval SymbolEncodingType_e_layout BYTE_def uint8_t_def
      u8_def c__u8_def size_t_def c__kernel_size_t_def c__kernel_ulong_t_def
      del: One_nat_def)

lemma ZSTD_entropyCTablesMetadata_t_layout [layout_simps]:
  "sizeof ZSTD_entropyCTablesMetadata_t = 312 \<and> alignof ZSTD_entropyCTablesMetadata_t = 8 \<and> wf_cty ZSTD_entropyCTablesMetadata_t"
  by (simp add: ZSTD_entropyCTablesMetadata_t_def base_types layout_eval ZSTD_hufCTablesMetadata_t_layout
      ZSTD_fseCTablesMetadata_t_layout
      del: One_nat_def)

lemma ZSTD_blockSplitCtx_layout [layout_simps]:
  "sizeof ZSTD_blockSplitCtx = 1496 \<and> alignof ZSTD_blockSplitCtx = 8 \<and> wf_cty ZSTD_blockSplitCtx"
  by (simp add: ZSTD_blockSplitCtx_def base_types layout_eval SeqStore_t_layout U32_def uint32_t_def u32_def c__u32_def
      ZSTD_entropyCTablesMetadata_t_layout
      del: One_nat_def)

lemma struct_ZSTD_CCtx_s_layout [layout_simps]:
  "sizeof struct_ZSTD_CCtx_s = 5264 \<and> alignof struct_ZSTD_CCtx_s = 8 \<and> wf_cty struct_ZSTD_CCtx_s"
  by (simp add: struct_ZSTD_CCtx_s_def base_types layout_eval ZSTD_compressionStage_e_layout ZSTD_CCtx_params_def
      struct_ZSTD_CCtx_params_s_layout U32_def uint32_t_def u32_def c__u32_def size_t_def
      c__kernel_size_t_def c__kernel_ulong_t_def ZSTD_cwksp_layout struct_xxh64_state_layout
      ZSTD_customMem_layout SeqCollector_layout SeqStore_t_layout ldmState_t_layout RawSeqStore_t_layout
      ZSTD_blockState_t_layout ZSTD_buffered_policy_e_layout ZSTD_cStreamStage_layout ZSTD_inBuffer_def
      struct_ZSTD_inBuffer_s_layout ZSTD_localDict_layout ZSTD_prefixDict_def
      struct_ZSTD_prefixDict_s_layout ZSTD_blockSplitCtx_layout
      del: One_nat_def)

lemma ZSTD_seqSymbol_layout [layout_simps]:
  "sizeof ZSTD_seqSymbol = 8 \<and> alignof ZSTD_seqSymbol = 4 \<and> wf_cty ZSTD_seqSymbol"
  by (simp add: ZSTD_seqSymbol_def base_types layout_eval U16_def uint16_t_def u16_def c__u16_def BYTE_def uint8_t_def
      u8_def c__u8_def U32_def uint32_t_def u32_def c__u32_def
      del: One_nat_def)

lemma ZSTD_entropyDTables_t_layout [layout_simps]:
  "sizeof ZSTD_entropyDTables_t = 27292 \<and> alignof ZSTD_entropyDTables_t = 4 \<and> wf_cty ZSTD_entropyDTables_t"
  by (simp add: ZSTD_entropyDTables_t_def base_types layout_eval ZSTD_seqSymbol_layout HUF_DTable_def U32_def
      uint32_t_def u32_def c__u32_def
      del: One_nat_def)

lemma ZSTD_FrameType_e_layout [layout_simps]:
  "sizeof ZSTD_FrameType_e = 4 \<and> alignof ZSTD_FrameType_e = 4 \<and> wf_cty ZSTD_FrameType_e"
  by (simp add: ZSTD_FrameType_e_def base_types layout_eval
      del: One_nat_def)

lemma ZSTD_FrameHeader_layout [layout_simps]:
  "sizeof ZSTD_FrameHeader = 48 \<and> alignof ZSTD_FrameHeader = 8 \<and> wf_cty ZSTD_FrameHeader"
  by (simp add: ZSTD_FrameHeader_def base_types layout_eval ZSTD_FrameType_e_layout
      del: One_nat_def)

lemma blockType_e_layout [layout_simps]:
  "sizeof blockType_e = 4 \<and> alignof blockType_e = 4 \<and> wf_cty blockType_e"
  by (simp add: blockType_e_def base_types layout_eval
      del: One_nat_def)

lemma ZSTD_dStage_layout [layout_simps]:
  "sizeof ZSTD_dStage = 4 \<and> alignof ZSTD_dStage = 4 \<and> wf_cty ZSTD_dStage"
  by (simp add: ZSTD_dStage_def base_types layout_eval
      del: One_nat_def)

lemma ZSTD_forceIgnoreChecksum_e_layout [layout_simps]:
  "sizeof ZSTD_forceIgnoreChecksum_e = 4 \<and> alignof ZSTD_forceIgnoreChecksum_e = 4 \<and> wf_cty ZSTD_forceIgnoreChecksum_e"
  by (simp add: ZSTD_forceIgnoreChecksum_e_def base_types layout_eval
      del: One_nat_def)

lemma ZSTD_dictUses_e_layout [layout_simps]:
  "sizeof ZSTD_dictUses_e = 4 \<and> alignof ZSTD_dictUses_e = 4 \<and> wf_cty ZSTD_dictUses_e"
  by (simp add: ZSTD_dictUses_e_def base_types layout_eval
      del: One_nat_def)

lemma ZSTD_refMultipleDDicts_e_layout [layout_simps]:
  "sizeof ZSTD_refMultipleDDicts_e = 4 \<and> alignof ZSTD_refMultipleDDicts_e = 4 \<and> wf_cty ZSTD_refMultipleDDicts_e"
  by (simp add: ZSTD_refMultipleDDicts_e_def base_types layout_eval
      del: One_nat_def)

lemma ZSTD_dStreamStage_layout [layout_simps]:
  "sizeof ZSTD_dStreamStage = 4 \<and> alignof ZSTD_dStreamStage = 4 \<and> wf_cty ZSTD_dStreamStage"
  by (simp add: ZSTD_dStreamStage_def base_types layout_eval
      del: One_nat_def)

lemma struct_ZSTD_outBuffer_s_layout [layout_simps]:
  "sizeof struct_ZSTD_outBuffer_s = 24 \<and> alignof struct_ZSTD_outBuffer_s = 8 \<and> wf_cty struct_ZSTD_outBuffer_s"
  by (simp add: struct_ZSTD_outBuffer_s_def base_types layout_eval size_t_def c__kernel_size_t_def c__kernel_ulong_t_def
      del: One_nat_def)

lemma ZSTD_litLocation_e_layout [layout_simps]:
  "sizeof ZSTD_litLocation_e = 4 \<and> alignof ZSTD_litLocation_e = 4 \<and> wf_cty ZSTD_litLocation_e"
  by (simp add: ZSTD_litLocation_e_def base_types layout_eval
      del: One_nat_def)

lemma struct_ZSTD_DCtx_s_layout [layout_simps]:
  "sizeof struct_ZSTD_DCtx_s = 95960 \<and> alignof struct_ZSTD_DCtx_s = 8 \<and> wf_cty struct_ZSTD_DCtx_s"
  by (simp add: struct_ZSTD_DCtx_s_def base_types layout_eval ZSTD_entropyDTables_t_layout U32_def uint32_t_def u32_def
      c__u32_def size_t_def c__kernel_size_t_def c__kernel_ulong_t_def ZSTD_FrameHeader_layout U64_def
      uint64_t_def u64_def c__u64_def blockType_e_layout ZSTD_dStage_layout struct_xxh64_state_layout
      ZSTD_format_e_layout ZSTD_forceIgnoreChecksum_e_layout ZSTD_customMem_layout ZSTD_dictUses_e_layout
      ZSTD_refMultipleDDicts_e_layout ZSTD_dStreamStage_layout ZSTD_bufferMode_e_layout
      ZSTD_outBuffer_def struct_ZSTD_outBuffer_s_layout ZSTD_litLocation_e_layout BYTE_def uint8_t_def
      u8_def c__u8_def
      del: One_nat_def)

lemma struct___kernel_timex_timeval_layout [layout_simps]:
  "sizeof struct___kernel_timex_timeval = 16 \<and> alignof struct___kernel_timex_timeval = 8 \<and> wf_cty struct___kernel_timex_timeval"
  by (simp add: struct___kernel_timex_timeval_def base_types layout_eval c__kernel_time64_t_def
      del: One_nat_def)

lemma struct___kernel_timex_layout [layout_simps]:
  "sizeof struct___kernel_timex = 208 \<and> alignof struct___kernel_timex = 8 \<and> wf_cty struct___kernel_timex"
  by (simp add: struct___kernel_timex_def base_types layout_eval struct___kernel_timex_timeval_layout
      del: One_nat_def)

lemma struct__fpreg_layout [layout_simps]:
  "sizeof struct__fpreg = 10 \<and> alignof struct__fpreg = 2 \<and> wf_cty struct__fpreg"
  by (simp add: struct__fpreg_def base_types layout_eval c__u16_def
      del: One_nat_def)

lemma struct__fpxreg_layout [layout_simps]:
  "sizeof struct__fpxreg = 16 \<and> alignof struct__fpxreg = 2 \<and> wf_cty struct__fpxreg"
  by (simp add: struct__fpxreg_def base_types layout_eval c__u16_def
      del: One_nat_def)

lemma struct__xmmreg_layout [layout_simps]:
  "sizeof struct__xmmreg = 16 \<and> alignof struct__xmmreg = 4 \<and> wf_cty struct__xmmreg"
  by (simp add: struct__xmmreg_def base_types layout_eval c__u32_def
      del: One_nat_def)

lemma struct__fpx_sw_bytes_layout [layout_simps]:
  "sizeof struct__fpx_sw_bytes = 48 \<and> alignof struct__fpx_sw_bytes = 8 \<and> wf_cty struct__fpx_sw_bytes"
  by (simp add: struct__fpx_sw_bytes_def base_types layout_eval c__u32_def c__u64_def
      del: One_nat_def)

lemma struct__fpstate_32_layout [layout_simps]:
  "sizeof struct__fpstate_32 = 624 \<and> alignof struct__fpstate_32 = 8 \<and> wf_cty struct__fpstate_32"
  by (simp add: struct__fpstate_32_def base_types layout_eval c__u32_def struct__fpreg_layout c__u16_def
      struct__fpxreg_layout struct__xmmreg_layout struct__fpx_sw_bytes_layout
      del: One_nat_def)

lemma struct_common_audit_data_layout [layout_simps]:
  "sizeof struct_common_audit_data = 32 \<and> alignof struct_common_audit_data = 8 \<and> wf_cty struct_common_audit_data"
  by (simp add: struct_common_audit_data_def base_types layout_eval struct_path_layout key_serial_t_def int32_t_def
      s32_def c__s32_def u16_def c__u16_def
      del: One_nat_def)

lemma struct_apparmor_audit_data_layout [layout_simps]:
  "sizeof struct_apparmor_audit_data = 160 \<and> alignof struct_apparmor_audit_data = 8 \<and> wf_cty struct_apparmor_audit_data"
  by (simp add: struct_apparmor_audit_data_def base_types layout_eval u32_def c__u32_def u16_def c__u16_def kuid_t_layout
      struct_common_audit_data_layout
      del: One_nat_def)

lemma enum_power_supply_type_layout [layout_simps]:
  "sizeof enum_power_supply_type = 4 \<and> alignof enum_power_supply_type = 4 \<and> wf_cty enum_power_supply_type"
  by (simp add: enum_power_supply_type_def base_types layout_eval
      del: One_nat_def)

lemma struct_power_supply_desc_layout [layout_simps]:
  "sizeof struct_power_supply_desc = 80 \<and> alignof struct_power_supply_desc = 8 \<and> wf_cty struct_power_supply_desc"
  by (simp add: struct_power_supply_desc_def base_types layout_eval enum_power_supply_type_layout u8_def c__u8_def
      u32_def c__u32_def size_t_def c__kernel_size_t_def c__kernel_ulong_t_def bool_def
      del: One_nat_def)

lemma struct_acpi_battery_layout [layout_simps]:
  "sizeof struct_acpi_battery = 536 \<and> alignof struct_acpi_battery = 8 \<and> wf_cty struct_acpi_battery"
  by (simp add: struct_acpi_battery_def base_types layout_eval struct_mutex_layout struct_power_supply_desc_layout
      struct_notifier_block_layout struct_list_head_layout
      del: One_nat_def)

lemma struct_acpi_object_common_layout [layout_simps]:
  "sizeof struct_acpi_object_common = 16 \<and> alignof struct_acpi_object_common = 8 \<and> wf_cty struct_acpi_object_common"
  by (simp add: struct_acpi_object_common_def base_types layout_eval u8_def c__u8_def u16_def c__u16_def
      del: One_nat_def)

lemma struct_acpi_object_integer_layout [layout_simps]:
  "sizeof struct_acpi_object_integer = 24 \<and> alignof struct_acpi_object_integer = 8 \<and> wf_cty struct_acpi_object_integer"
  by (simp add: struct_acpi_object_integer_def base_types layout_eval u8_def c__u8_def u16_def c__u16_def u64_def
      c__u64_def
      del: One_nat_def)

lemma struct_acpi_object_string_layout [layout_simps]:
  "sizeof struct_acpi_object_string = 32 \<and> alignof struct_acpi_object_string = 8 \<and> wf_cty struct_acpi_object_string"
  by (simp add: struct_acpi_object_string_def base_types layout_eval u8_def c__u8_def u16_def c__u16_def u32_def
      c__u32_def
      del: One_nat_def)

lemma struct_acpi_object_buffer_layout [layout_simps]:
  "sizeof struct_acpi_object_buffer = 48 \<and> alignof struct_acpi_object_buffer = 8 \<and> wf_cty struct_acpi_object_buffer"
  by (simp add: struct_acpi_object_buffer_def base_types layout_eval u8_def c__u8_def u16_def c__u16_def u32_def
      c__u32_def
      del: One_nat_def)

lemma struct_acpi_object_package_layout [layout_simps]:
  "sizeof struct_acpi_object_package = 48 \<and> alignof struct_acpi_object_package = 8 \<and> wf_cty struct_acpi_object_package"
  by (simp add: struct_acpi_object_package_def base_types layout_eval u8_def c__u8_def u16_def c__u16_def u32_def
      c__u32_def
      del: One_nat_def)

lemma struct_acpi_object_event_layout [layout_simps]:
  "sizeof struct_acpi_object_event = 24 \<and> alignof struct_acpi_object_event = 8 \<and> wf_cty struct_acpi_object_event"
  by (simp add: struct_acpi_object_event_def base_types layout_eval u8_def c__u8_def u16_def c__u16_def
      del: One_nat_def)

lemma struct_acpi_object_method_layout [layout_simps]:
  "sizeof struct_acpi_object_method = 56 \<and> alignof struct_acpi_object_method = 8 \<and> wf_cty struct_acpi_object_method"
  by (simp add: struct_acpi_object_method_def base_types layout_eval u8_def c__u8_def u16_def c__u16_def
      acpi_internal_method_def u32_def c__u32_def acpi_owner_id_def
      del: One_nat_def)

lemma struct_acpi_object_mutex_layout [layout_simps]:
  "sizeof struct_acpi_object_mutex = 72 \<and> alignof struct_acpi_object_mutex = 8 \<and> wf_cty struct_acpi_object_mutex"
  by (simp add: struct_acpi_object_mutex_def base_types layout_eval u8_def c__u8_def u16_def c__u16_def u64_def
      c__u64_def
      del: One_nat_def)

lemma struct_acpi_object_region_layout [layout_simps]:
  "sizeof struct_acpi_object_region = 64 \<and> alignof struct_acpi_object_region = 8 \<and> wf_cty struct_acpi_object_region"
  by (simp add: struct_acpi_object_region_def base_types layout_eval u8_def c__u8_def u16_def c__u16_def
      acpi_physical_address_def u64_def c__u64_def u32_def c__u32_def
      del: One_nat_def)

lemma struct_acpi_object_notify_common_layout [layout_simps]:
  "sizeof struct_acpi_object_notify_common = 40 \<and> alignof struct_acpi_object_notify_common = 8 \<and> wf_cty struct_acpi_object_notify_common"
  by (simp add: struct_acpi_object_notify_common_def base_types layout_eval u8_def c__u8_def u16_def c__u16_def
      del: One_nat_def)

lemma struct_acpi_object_device_layout [layout_simps]:
  "sizeof struct_acpi_object_device = 48 \<and> alignof struct_acpi_object_device = 8 \<and> wf_cty struct_acpi_object_device"
  by (simp add: struct_acpi_object_device_def base_types layout_eval u8_def c__u8_def u16_def c__u16_def
      del: One_nat_def)

lemma struct_acpi_object_power_resource_layout [layout_simps]:
  "sizeof struct_acpi_object_power_resource = 48 \<and> alignof struct_acpi_object_power_resource = 8 \<and> wf_cty struct_acpi_object_power_resource"
  by (simp add: struct_acpi_object_power_resource_def base_types layout_eval u8_def c__u8_def u16_def c__u16_def u32_def
      c__u32_def
      del: One_nat_def)

lemma struct_acpi_object_processor_layout [layout_simps]:
  "sizeof struct_acpi_object_processor = 48 \<and> alignof struct_acpi_object_processor = 8 \<and> wf_cty struct_acpi_object_processor"
  by (simp add: struct_acpi_object_processor_def base_types layout_eval u8_def c__u8_def u16_def c__u16_def
      acpi_io_address_def u64_def c__u64_def
      del: One_nat_def)

lemma struct_acpi_object_thermal_zone_layout [layout_simps]:
  "sizeof struct_acpi_object_thermal_zone = 40 \<and> alignof struct_acpi_object_thermal_zone = 8 \<and> wf_cty struct_acpi_object_thermal_zone"
  by (simp add: struct_acpi_object_thermal_zone_def base_types layout_eval u8_def c__u8_def u16_def c__u16_def
      del: One_nat_def)

lemma struct_acpi_object_field_common_layout [layout_simps]:
  "sizeof struct_acpi_object_field_common = 48 \<and> alignof struct_acpi_object_field_common = 8 \<and> wf_cty struct_acpi_object_field_common"
  by (simp add: struct_acpi_object_field_common_def base_types layout_eval u8_def c__u8_def u16_def c__u16_def u32_def
      c__u32_def
      del: One_nat_def)

lemma struct_acpi_object_region_field_layout [layout_simps]:
  "sizeof struct_acpi_object_region_field = 72 \<and> alignof struct_acpi_object_region_field = 8 \<and> wf_cty struct_acpi_object_region_field"
  by (simp add: struct_acpi_object_region_field_def base_types layout_eval u8_def c__u8_def u16_def c__u16_def u32_def
      c__u32_def
      del: One_nat_def)

lemma struct_acpi_object_buffer_field_layout [layout_simps]:
  "sizeof struct_acpi_object_buffer_field = 48 \<and> alignof struct_acpi_object_buffer_field = 8 \<and> wf_cty struct_acpi_object_buffer_field"
  by (simp add: struct_acpi_object_buffer_field_def base_types layout_eval u8_def c__u8_def u16_def c__u16_def u32_def
      c__u32_def
      del: One_nat_def)

lemma struct_acpi_object_bank_field_layout [layout_simps]:
  "sizeof struct_acpi_object_bank_field = 56 \<and> alignof struct_acpi_object_bank_field = 8 \<and> wf_cty struct_acpi_object_bank_field"
  by (simp add: struct_acpi_object_bank_field_def base_types layout_eval u8_def c__u8_def u16_def c__u16_def u32_def
      c__u32_def
      del: One_nat_def)

lemma struct_acpi_object_index_field_layout [layout_simps]:
  "sizeof struct_acpi_object_index_field = 56 \<and> alignof struct_acpi_object_index_field = 8 \<and> wf_cty struct_acpi_object_index_field"
  by (simp add: struct_acpi_object_index_field_def base_types layout_eval u8_def c__u8_def u16_def c__u16_def u32_def
      c__u32_def
      del: One_nat_def)

lemma struct_acpi_object_notify_handler_layout [layout_simps]:
  "sizeof struct_acpi_object_notify_handler = 64 \<and> alignof struct_acpi_object_notify_handler = 8 \<and> wf_cty struct_acpi_object_notify_handler"
  by (simp add: struct_acpi_object_notify_handler_def base_types layout_eval u8_def c__u8_def u16_def c__u16_def u32_def
      c__u32_def acpi_notify_handler_def
      del: One_nat_def)

lemma struct_acpi_object_addr_handler_layout [layout_simps]:
  "sizeof struct_acpi_object_addr_handler = 72 \<and> alignof struct_acpi_object_addr_handler = 8 \<and> wf_cty struct_acpi_object_addr_handler"
  by (simp add: struct_acpi_object_addr_handler_def base_types layout_eval u8_def c__u8_def u16_def c__u16_def
      acpi_adr_space_handler_def acpi_adr_space_setup_def
      del: One_nat_def)

lemma struct_acpi_object_reference_layout [layout_simps]:
  "sizeof struct_acpi_object_reference = 64 \<and> alignof struct_acpi_object_reference = 8 \<and> wf_cty struct_acpi_object_reference"
  by (simp add: struct_acpi_object_reference_def base_types layout_eval u8_def c__u8_def u16_def c__u16_def u32_def
      c__u32_def
      del: One_nat_def)

lemma struct_acpi_object_extra_layout [layout_simps]:
  "sizeof struct_acpi_object_extra = 56 \<and> alignof struct_acpi_object_extra = 8 \<and> wf_cty struct_acpi_object_extra"
  by (simp add: struct_acpi_object_extra_def base_types layout_eval u8_def c__u8_def u16_def c__u16_def u32_def
      c__u32_def
      del: One_nat_def)

lemma struct_acpi_object_data_layout [layout_simps]:
  "sizeof struct_acpi_object_data = 32 \<and> alignof struct_acpi_object_data = 8 \<and> wf_cty struct_acpi_object_data"
  by (simp add: struct_acpi_object_data_def base_types layout_eval u8_def c__u8_def u16_def c__u16_def
      acpi_object_handler_def
      del: One_nat_def)

lemma struct_acpi_object_cache_list_layout [layout_simps]:
  "sizeof struct_acpi_object_cache_list = 24 \<and> alignof struct_acpi_object_cache_list = 8 \<and> wf_cty struct_acpi_object_cache_list"
  by (simp add: struct_acpi_object_cache_list_def base_types layout_eval u8_def c__u8_def u16_def c__u16_def
      del: One_nat_def)

lemma union_acpi_name_union_layout [layout_simps]:
  "sizeof union_acpi_name_union = 4 \<and> alignof union_acpi_name_union = 4 \<and> wf_cty union_acpi_name_union"
  by (simp add: union_acpi_name_union_def base_types layout_eval u32_def c__u32_def
      del: One_nat_def)

lemma struct_acpi_namespace_node_layout [layout_simps]:
  "sizeof struct_acpi_namespace_node = 48 \<and> alignof struct_acpi_namespace_node = 8 \<and> wf_cty struct_acpi_namespace_node"
  by (simp add: struct_acpi_namespace_node_def base_types layout_eval u8_def c__u8_def u16_def c__u16_def
      union_acpi_name_union_layout acpi_owner_id_def
      del: One_nat_def)

lemma union_acpi_operand_object_layout [layout_simps]:
  "sizeof union_acpi_operand_object = 72 \<and> alignof union_acpi_operand_object = 8 \<and> wf_cty union_acpi_operand_object"
  by (simp add: union_acpi_operand_object_def base_types layout_eval struct_acpi_object_common_layout
      struct_acpi_object_integer_layout struct_acpi_object_string_layout struct_acpi_object_buffer_layout
      struct_acpi_object_package_layout struct_acpi_object_event_layout struct_acpi_object_method_layout
      struct_acpi_object_mutex_layout struct_acpi_object_region_layout
      struct_acpi_object_notify_common_layout struct_acpi_object_device_layout
      struct_acpi_object_power_resource_layout struct_acpi_object_processor_layout
      struct_acpi_object_thermal_zone_layout struct_acpi_object_field_common_layout
      struct_acpi_object_region_field_layout struct_acpi_object_buffer_field_layout
      struct_acpi_object_bank_field_layout struct_acpi_object_index_field_layout
      struct_acpi_object_notify_handler_layout struct_acpi_object_addr_handler_layout
      struct_acpi_object_reference_layout struct_acpi_object_extra_layout struct_acpi_object_data_layout
      struct_acpi_object_cache_list_layout struct_acpi_namespace_node_layout
      del: One_nat_def)

lemma union_acpi_parse_value_layout [layout_simps]:
  "sizeof union_acpi_parse_value = 8 \<and> alignof union_acpi_parse_value = 8 \<and> wf_cty union_acpi_parse_value"
  by (simp add: union_acpi_parse_value_def base_types layout_eval u64_def c__u64_def u32_def c__u32_def
      del: One_nat_def)

lemma struct_acpi_parse_obj_asl_layout [layout_simps]:
  "sizeof struct_acpi_parse_obj_asl = 224 \<and> alignof struct_acpi_parse_obj_asl = 8 \<and> wf_cty struct_acpi_parse_obj_asl"
  by (simp add: struct_acpi_parse_obj_asl_def base_types layout_eval u8_def c__u8_def u16_def c__u16_def
      union_acpi_parse_value_layout u32_def c__u32_def
      del: One_nat_def)

lemma struct_acpi_device_status_layout [layout_simps]:
  "sizeof struct_acpi_device_status = 4 \<and> alignof struct_acpi_device_status = 4 \<and> wf_cty struct_acpi_device_status"
  by (simp add: struct_acpi_device_status_def base_types layout_eval u32_def c__u32_def
      del: One_nat_def)

lemma struct_acpi_device_flags_layout [layout_simps]:
  "sizeof struct_acpi_device_flags = 4 \<and> alignof struct_acpi_device_flags = 4 \<and> wf_cty struct_acpi_device_flags"
  by (simp add: struct_acpi_device_flags_def base_types layout_eval u32_def c__u32_def
      del: One_nat_def)

lemma struct_acpi_pnp_type_layout [layout_simps]:
  "sizeof struct_acpi_pnp_type = 4 \<and> alignof struct_acpi_pnp_type = 4 \<and> wf_cty struct_acpi_pnp_type"
  by (simp add: struct_acpi_pnp_type_def base_types layout_eval u32_def c__u32_def
      del: One_nat_def)

lemma struct_acpi_device_pnp_layout [layout_simps]:
  "sizeof struct_acpi_device_pnp = 112 \<and> alignof struct_acpi_device_pnp = 8 \<and> wf_cty struct_acpi_device_pnp"
  by (simp add: struct_acpi_device_pnp_def base_types layout_eval acpi_bus_id_def struct_acpi_pnp_type_layout
      acpi_bus_address_def u64_def c__u64_def struct_list_head_layout acpi_device_name_def
      acpi_device_class_def
      del: One_nat_def)

lemma struct_acpi_device_power_flags_layout [layout_simps]:
  "sizeof struct_acpi_device_power_flags = 4 \<and> alignof struct_acpi_device_power_flags = 4 \<and> wf_cty struct_acpi_device_power_flags"
  by (simp add: struct_acpi_device_power_flags_def base_types layout_eval u32_def c__u32_def
      del: One_nat_def)

lemma struct_acpi_device_power_state_layout [layout_simps]:
  "sizeof struct_acpi_device_power_state = 32 \<and> alignof struct_acpi_device_power_state = 8 \<and> wf_cty struct_acpi_device_power_state"
  by (simp add: struct_acpi_device_power_state_def base_types layout_eval struct_list_head_layout u8_def c__u8_def
      del: One_nat_def)

lemma struct_acpi_device_power_layout [layout_simps]:
  "sizeof struct_acpi_device_power = 176 \<and> alignof struct_acpi_device_power = 8 \<and> wf_cty struct_acpi_device_power"
  by (simp add: struct_acpi_device_power_def base_types layout_eval struct_acpi_device_power_flags_layout
      struct_acpi_device_power_state_layout u8_def c__u8_def
      del: One_nat_def)

lemma struct_acpi_device_wakeup_flags_layout [layout_simps]:
  "sizeof struct_acpi_device_wakeup_flags = 1 \<and> alignof struct_acpi_device_wakeup_flags = 1 \<and> wf_cty struct_acpi_device_wakeup_flags"
  by (simp add: struct_acpi_device_wakeup_flags_def base_types layout_eval u8_def c__u8_def
      del: One_nat_def)

lemma struct_acpi_device_wakeup_context_layout [layout_simps]:
  "sizeof struct_acpi_device_wakeup_context = 16 \<and> alignof struct_acpi_device_wakeup_context = 8 \<and> wf_cty struct_acpi_device_wakeup_context"
  by (simp add: struct_acpi_device_wakeup_context_def base_types layout_eval
      del: One_nat_def)

lemma struct_acpi_device_wakeup_layout [layout_simps]:
  "sizeof struct_acpi_device_wakeup = 80 \<and> alignof struct_acpi_device_wakeup = 8 \<and> wf_cty struct_acpi_device_wakeup"
  by (simp add: struct_acpi_device_wakeup_def base_types layout_eval acpi_handle_def u64_def c__u64_def
      struct_list_head_layout struct_acpi_device_wakeup_flags_layout
      struct_acpi_device_wakeup_context_layout
      del: One_nat_def)

lemma struct_acpi_device_perf_flags_layout [layout_simps]:
  "sizeof struct_acpi_device_perf_flags = 1 \<and> alignof struct_acpi_device_perf_flags = 1 \<and> wf_cty struct_acpi_device_perf_flags"
  by (simp add: struct_acpi_device_perf_flags_def base_types layout_eval u8_def c__u8_def
      del: One_nat_def)

lemma struct_acpi_device_perf_layout [layout_simps]:
  "sizeof struct_acpi_device_perf = 24 \<and> alignof struct_acpi_device_perf = 8 \<and> wf_cty struct_acpi_device_perf"
  by (simp add: struct_acpi_device_perf_def base_types layout_eval struct_acpi_device_perf_flags_layout
      del: One_nat_def)

lemma struct_acpi_device_dir_layout [layout_simps]:
  "sizeof struct_acpi_device_dir = 8 \<and> alignof struct_acpi_device_dir = 8 \<and> wf_cty struct_acpi_device_dir"
  by (simp add: struct_acpi_device_dir_def base_types layout_eval
      del: One_nat_def)

lemma struct_acpi_device_data_layout [layout_simps]:
  "sizeof struct_acpi_device_data = 48 \<and> alignof struct_acpi_device_data = 8 \<and> wf_cty struct_acpi_device_data"
  by (simp add: struct_acpi_device_data_def base_types layout_eval struct_list_head_layout
      del: One_nat_def)

lemma struct_acpi_device_layout [layout_simps]:
  "sizeof struct_acpi_device = 1480 \<and> alignof struct_acpi_device = 8 \<and> wf_cty struct_acpi_device"
  by (simp add: struct_acpi_device_def base_types layout_eval u32_def c__u32_def acpi_handle_def
      struct_fwnode_handle_layout struct_list_head_layout struct_acpi_device_status_layout
      struct_acpi_device_flags_layout struct_acpi_device_pnp_layout struct_acpi_device_power_layout
      struct_acpi_device_wakeup_layout struct_acpi_device_perf_layout struct_acpi_device_dir_layout
      struct_acpi_device_data_layout struct_device_layout struct_mutex_layout
      del: One_nat_def)

lemma union_acpi_object_layout [layout_simps]:
  "sizeof union_acpi_object = 24 \<and> alignof union_acpi_object = 8 \<and> wf_cty union_acpi_object"
  by (simp add: union_acpi_object_def base_types layout_eval acpi_object_type_def u32_def c__u32_def u64_def c__u64_def
      acpi_handle_def acpi_io_address_def
      del: One_nat_def)

lemma struct_acpi_subtable_header_layout [layout_simps]:
  "sizeof struct_acpi_subtable_header = 2 \<and> alignof struct_acpi_subtable_header = 1 \<and> wf_cty struct_acpi_subtable_header"
  by (simp add: struct_acpi_subtable_header_def base_types layout_eval u8_def c__u8_def
      del: One_nat_def)

lemma struct_acpi_generic_address_layout [layout_simps]:
  "sizeof struct_acpi_generic_address = 12 \<and> alignof struct_acpi_generic_address = 1 \<and> wf_cty struct_acpi_generic_address"
  by (simp add: struct_acpi_generic_address_def base_types layout_eval u8_def c__u8_def u64_def c__u64_def
      del: One_nat_def)

lemma struct_acpi_pcct_ext_pcc_master_layout [layout_simps]:
  "sizeof struct_acpi_pcct_ext_pcc_master = 164 \<and> alignof struct_acpi_pcct_ext_pcc_master = 1 \<and> wf_cty struct_acpi_pcct_ext_pcc_master"
  by (simp add: struct_acpi_pcct_ext_pcc_master_def base_types layout_eval struct_acpi_subtable_header_layout u32_def
      c__u32_def u8_def c__u8_def u64_def c__u64_def struct_acpi_generic_address_layout
      del: One_nat_def)

lemma struct_acpi_pcct_ext_pcc_slave_layout [layout_simps]:
  "sizeof struct_acpi_pcct_ext_pcc_slave = 164 \<and> alignof struct_acpi_pcct_ext_pcc_slave = 1 \<and> wf_cty struct_acpi_pcct_ext_pcc_slave"
  by (simp add: struct_acpi_pcct_ext_pcc_slave_def base_types layout_eval struct_acpi_subtable_header_layout u32_def
      c__u32_def u8_def c__u8_def u64_def c__u64_def struct_acpi_generic_address_layout
      del: One_nat_def)

lemma struct_acpi_pld_info_layout [layout_simps]:
  "sizeof struct_acpi_pld_info = 34 \<and> alignof struct_acpi_pld_info = 2 \<and> wf_cty struct_acpi_pld_info"
  by (simp add: struct_acpi_pld_info_def base_types layout_eval u8_def c__u8_def u16_def c__u16_def
      del: One_nat_def)

lemma struct_acpi_resource_irq_layout [layout_simps]:
  "sizeof struct_acpi_resource_irq = 7 \<and> alignof struct_acpi_resource_irq = 1 \<and> wf_cty struct_acpi_resource_irq"
  by (simp add: struct_acpi_resource_irq_def base_types layout_eval u8_def c__u8_def
      del: One_nat_def)

lemma struct_acpi_resource_start_dependent_layout [layout_simps]:
  "sizeof struct_acpi_resource_start_dependent = 3 \<and> alignof struct_acpi_resource_start_dependent = 1 \<and> wf_cty struct_acpi_resource_start_dependent"
  by (simp add: struct_acpi_resource_start_dependent_def base_types layout_eval u8_def c__u8_def
      del: One_nat_def)

lemma struct_acpi_resource_io_layout [layout_simps]:
  "sizeof struct_acpi_resource_io = 7 \<and> alignof struct_acpi_resource_io = 1 \<and> wf_cty struct_acpi_resource_io"
  by (simp add: struct_acpi_resource_io_def base_types layout_eval u8_def c__u8_def u16_def c__u16_def
      del: One_nat_def)

lemma struct_acpi_resource_fixed_io_layout [layout_simps]:
  "sizeof struct_acpi_resource_fixed_io = 3 \<and> alignof struct_acpi_resource_fixed_io = 1 \<and> wf_cty struct_acpi_resource_fixed_io"
  by (simp add: struct_acpi_resource_fixed_io_def base_types layout_eval u16_def c__u16_def u8_def c__u8_def
      del: One_nat_def)

lemma struct_acpi_resource_fixed_dma_layout [layout_simps]:
  "sizeof struct_acpi_resource_fixed_dma = 5 \<and> alignof struct_acpi_resource_fixed_dma = 1 \<and> wf_cty struct_acpi_resource_fixed_dma"
  by (simp add: struct_acpi_resource_fixed_dma_def base_types layout_eval u16_def c__u16_def u8_def c__u8_def
      del: One_nat_def)

lemma struct_acpi_resource_vendor_layout [layout_simps]:
  "sizeof struct_acpi_resource_vendor = 2 \<and> alignof struct_acpi_resource_vendor = 2 \<and> wf_cty struct_acpi_resource_vendor"
  by (simp add: struct_acpi_resource_vendor_def base_types layout_eval u16_def c__u16_def u8_def c__u8_def
      del: One_nat_def)

lemma struct_acpi_resource_vendor_typed_layout [layout_simps]:
  "sizeof struct_acpi_resource_vendor_typed = 19 \<and> alignof struct_acpi_resource_vendor_typed = 1 \<and> wf_cty struct_acpi_resource_vendor_typed"
  by (simp add: struct_acpi_resource_vendor_typed_def base_types layout_eval u16_def c__u16_def u8_def c__u8_def
      del: One_nat_def)

lemma struct_acpi_resource_end_tag_layout [layout_simps]:
  "sizeof struct_acpi_resource_end_tag = 1 \<and> alignof struct_acpi_resource_end_tag = 1 \<and> wf_cty struct_acpi_resource_end_tag"
  by (simp add: struct_acpi_resource_end_tag_def base_types layout_eval u8_def c__u8_def
      del: One_nat_def)

lemma struct_acpi_resource_memory24_layout [layout_simps]:
  "sizeof struct_acpi_resource_memory24 = 9 \<and> alignof struct_acpi_resource_memory24 = 1 \<and> wf_cty struct_acpi_resource_memory24"
  by (simp add: struct_acpi_resource_memory24_def base_types layout_eval u8_def c__u8_def u16_def c__u16_def
      del: One_nat_def)

lemma struct_acpi_resource_memory32_layout [layout_simps]:
  "sizeof struct_acpi_resource_memory32 = 17 \<and> alignof struct_acpi_resource_memory32 = 1 \<and> wf_cty struct_acpi_resource_memory32"
  by (simp add: struct_acpi_resource_memory32_def base_types layout_eval u8_def c__u8_def u32_def c__u32_def
      del: One_nat_def)

lemma struct_acpi_resource_fixed_memory32_layout [layout_simps]:
  "sizeof struct_acpi_resource_fixed_memory32 = 9 \<and> alignof struct_acpi_resource_fixed_memory32 = 1 \<and> wf_cty struct_acpi_resource_fixed_memory32"
  by (simp add: struct_acpi_resource_fixed_memory32_def base_types layout_eval u8_def c__u8_def u32_def c__u32_def
      del: One_nat_def)

lemma struct_acpi_memory_attribute_layout [layout_simps]:
  "sizeof struct_acpi_memory_attribute = 4 \<and> alignof struct_acpi_memory_attribute = 1 \<and> wf_cty struct_acpi_memory_attribute"
  by (simp add: struct_acpi_memory_attribute_def base_types layout_eval u8_def c__u8_def
      del: One_nat_def)

lemma struct_acpi_io_attribute_layout [layout_simps]:
  "sizeof struct_acpi_io_attribute = 4 \<and> alignof struct_acpi_io_attribute = 1 \<and> wf_cty struct_acpi_io_attribute"
  by (simp add: struct_acpi_io_attribute_def base_types layout_eval u8_def c__u8_def
      del: One_nat_def)

lemma union_acpi_resource_attribute_layout [layout_simps]:
  "sizeof union_acpi_resource_attribute = 4 \<and> alignof union_acpi_resource_attribute = 1 \<and> wf_cty union_acpi_resource_attribute"
  by (simp add: union_acpi_resource_attribute_def base_types layout_eval struct_acpi_memory_attribute_layout
      struct_acpi_io_attribute_layout u8_def c__u8_def
      del: One_nat_def)

lemma struct_acpi_address16_attribute_layout [layout_simps]:
  "sizeof struct_acpi_address16_attribute = 10 \<and> alignof struct_acpi_address16_attribute = 2 \<and> wf_cty struct_acpi_address16_attribute"
  by (simp add: struct_acpi_address16_attribute_def base_types layout_eval u16_def c__u16_def
      del: One_nat_def)

lemma struct_acpi_resource_source_layout [layout_simps]:
  "sizeof struct_acpi_resource_source = 11 \<and> alignof struct_acpi_resource_source = 1 \<and> wf_cty struct_acpi_resource_source"
  by (simp add: struct_acpi_resource_source_def base_types layout_eval u8_def c__u8_def u16_def c__u16_def
      del: One_nat_def)

lemma struct_acpi_resource_address16_layout [layout_simps]:
  "sizeof struct_acpi_resource_address16 = 30 \<and> alignof struct_acpi_resource_address16 = 1 \<and> wf_cty struct_acpi_resource_address16"
  by (simp add: struct_acpi_resource_address16_def base_types layout_eval u8_def c__u8_def
      union_acpi_resource_attribute_layout struct_acpi_address16_attribute_layout
      struct_acpi_resource_source_layout
      del: One_nat_def)

lemma struct_acpi_address32_attribute_layout [layout_simps]:
  "sizeof struct_acpi_address32_attribute = 20 \<and> alignof struct_acpi_address32_attribute = 4 \<and> wf_cty struct_acpi_address32_attribute"
  by (simp add: struct_acpi_address32_attribute_def base_types layout_eval u32_def c__u32_def
      del: One_nat_def)

lemma struct_acpi_resource_address32_layout [layout_simps]:
  "sizeof struct_acpi_resource_address32 = 40 \<and> alignof struct_acpi_resource_address32 = 1 \<and> wf_cty struct_acpi_resource_address32"
  by (simp add: struct_acpi_resource_address32_def base_types layout_eval u8_def c__u8_def
      union_acpi_resource_attribute_layout struct_acpi_address32_attribute_layout
      struct_acpi_resource_source_layout
      del: One_nat_def)

lemma struct_acpi_address64_attribute_layout [layout_simps]:
  "sizeof struct_acpi_address64_attribute = 40 \<and> alignof struct_acpi_address64_attribute = 8 \<and> wf_cty struct_acpi_address64_attribute"
  by (simp add: struct_acpi_address64_attribute_def base_types layout_eval u64_def c__u64_def
      del: One_nat_def)

lemma struct_acpi_resource_address64_layout [layout_simps]:
  "sizeof struct_acpi_resource_address64 = 60 \<and> alignof struct_acpi_resource_address64 = 1 \<and> wf_cty struct_acpi_resource_address64"
  by (simp add: struct_acpi_resource_address64_def base_types layout_eval u8_def c__u8_def
      union_acpi_resource_attribute_layout struct_acpi_address64_attribute_layout
      struct_acpi_resource_source_layout
      del: One_nat_def)

lemma struct_acpi_resource_extended_address64_layout [layout_simps]:
  "sizeof struct_acpi_resource_extended_address64 = 58 \<and> alignof struct_acpi_resource_extended_address64 = 1 \<and> wf_cty struct_acpi_resource_extended_address64"
  by (simp add: struct_acpi_resource_extended_address64_def base_types layout_eval u8_def c__u8_def
      union_acpi_resource_attribute_layout struct_acpi_address64_attribute_layout u64_def c__u64_def
      del: One_nat_def)

lemma struct_acpi_resource_extended_irq_layout [layout_simps]:
  "sizeof struct_acpi_resource_extended_irq = 21 \<and> alignof struct_acpi_resource_extended_irq = 1 \<and> wf_cty struct_acpi_resource_extended_irq"
  by (simp add: struct_acpi_resource_extended_irq_def base_types layout_eval u8_def c__u8_def
      struct_acpi_resource_source_layout u32_def c__u32_def
      del: One_nat_def)

lemma struct_acpi_resource_generic_register_layout [layout_simps]:
  "sizeof struct_acpi_resource_generic_register = 12 \<and> alignof struct_acpi_resource_generic_register = 1 \<and> wf_cty struct_acpi_resource_generic_register"
  by (simp add: struct_acpi_resource_generic_register_def base_types layout_eval u8_def c__u8_def u64_def c__u64_def
      del: One_nat_def)

lemma struct_acpi_resource_gpio_layout [layout_simps]:
  "sizeof struct_acpi_resource_gpio = 44 \<and> alignof struct_acpi_resource_gpio = 1 \<and> wf_cty struct_acpi_resource_gpio"
  by (simp add: struct_acpi_resource_gpio_def base_types layout_eval u8_def c__u8_def u16_def c__u16_def
      struct_acpi_resource_source_layout
      del: One_nat_def)

lemma struct_acpi_resource_i2c_serialbus_layout [layout_simps]:
  "sizeof struct_acpi_resource_i2c_serialbus = 36 \<and> alignof struct_acpi_resource_i2c_serialbus = 1 \<and> wf_cty struct_acpi_resource_i2c_serialbus"
  by (simp add: struct_acpi_resource_i2c_serialbus_def base_types layout_eval u8_def c__u8_def u16_def c__u16_def
      struct_acpi_resource_source_layout u32_def c__u32_def
      del: One_nat_def)

lemma struct_acpi_resource_spi_serialbus_layout [layout_simps]:
  "sizeof struct_acpi_resource_spi_serialbus = 40 \<and> alignof struct_acpi_resource_spi_serialbus = 1 \<and> wf_cty struct_acpi_resource_spi_serialbus"
  by (simp add: struct_acpi_resource_spi_serialbus_def base_types layout_eval u8_def c__u8_def u16_def c__u16_def
      struct_acpi_resource_source_layout u32_def c__u32_def
      del: One_nat_def)

lemma struct_acpi_resource_uart_serialbus_layout [layout_simps]:
  "sizeof struct_acpi_resource_uart_serialbus = 43 \<and> alignof struct_acpi_resource_uart_serialbus = 1 \<and> wf_cty struct_acpi_resource_uart_serialbus"
  by (simp add: struct_acpi_resource_uart_serialbus_def base_types layout_eval u8_def c__u8_def u16_def c__u16_def
      struct_acpi_resource_source_layout u32_def c__u32_def
      del: One_nat_def)

lemma struct_acpi_resource_csi2_serialbus_layout [layout_simps]:
  "sizeof struct_acpi_resource_csi2_serialbus = 31 \<and> alignof struct_acpi_resource_csi2_serialbus = 1 \<and> wf_cty struct_acpi_resource_csi2_serialbus"
  by (simp add: struct_acpi_resource_csi2_serialbus_def base_types layout_eval u8_def c__u8_def u16_def c__u16_def
      struct_acpi_resource_source_layout
      del: One_nat_def)

lemma struct_acpi_resource_common_serialbus_layout [layout_simps]:
  "sizeof struct_acpi_resource_common_serialbus = 29 \<and> alignof struct_acpi_resource_common_serialbus = 1 \<and> wf_cty struct_acpi_resource_common_serialbus"
  by (simp add: struct_acpi_resource_common_serialbus_def base_types layout_eval u8_def c__u8_def u16_def c__u16_def
      struct_acpi_resource_source_layout
      del: One_nat_def)

lemma struct_acpi_resource_pin_function_layout [layout_simps]:
  "sizeof struct_acpi_resource_pin_function = 36 \<and> alignof struct_acpi_resource_pin_function = 1 \<and> wf_cty struct_acpi_resource_pin_function"
  by (simp add: struct_acpi_resource_pin_function_def base_types layout_eval u8_def c__u8_def u16_def c__u16_def
      struct_acpi_resource_source_layout
      del: One_nat_def)

lemma struct_acpi_resource_pin_config_layout [layout_simps]:
  "sizeof struct_acpi_resource_pin_config = 39 \<and> alignof struct_acpi_resource_pin_config = 1 \<and> wf_cty struct_acpi_resource_pin_config"
  by (simp add: struct_acpi_resource_pin_config_def base_types layout_eval u8_def c__u8_def u32_def c__u32_def u16_def
      c__u16_def struct_acpi_resource_source_layout
      del: One_nat_def)

lemma struct_acpi_resource_label_layout [layout_simps]:
  "sizeof struct_acpi_resource_label = 10 \<and> alignof struct_acpi_resource_label = 1 \<and> wf_cty struct_acpi_resource_label"
  by (simp add: struct_acpi_resource_label_def base_types layout_eval u16_def c__u16_def
      del: One_nat_def)

lemma struct_acpi_resource_pin_group_layout [layout_simps]:
  "sizeof struct_acpi_resource_pin_group = 32 \<and> alignof struct_acpi_resource_pin_group = 1 \<and> wf_cty struct_acpi_resource_pin_group"
  by (simp add: struct_acpi_resource_pin_group_def base_types layout_eval u8_def c__u8_def u16_def c__u16_def
      struct_acpi_resource_label_layout
      del: One_nat_def)

lemma struct_acpi_resource_pin_group_function_layout [layout_simps]:
  "sizeof struct_acpi_resource_pin_group_function = 36 \<and> alignof struct_acpi_resource_pin_group_function = 1 \<and> wf_cty struct_acpi_resource_pin_group_function"
  by (simp add: struct_acpi_resource_pin_group_function_def base_types layout_eval u8_def c__u8_def u16_def c__u16_def
      struct_acpi_resource_source_layout struct_acpi_resource_label_layout
      del: One_nat_def)

lemma struct_acpi_resource_pin_group_config_layout [layout_simps]:
  "sizeof struct_acpi_resource_pin_group_config = 39 \<and> alignof struct_acpi_resource_pin_group_config = 1 \<and> wf_cty struct_acpi_resource_pin_group_config"
  by (simp add: struct_acpi_resource_pin_group_config_def base_types layout_eval u8_def c__u8_def u32_def c__u32_def
      u16_def c__u16_def struct_acpi_resource_source_layout struct_acpi_resource_label_layout
      del: One_nat_def)

lemma struct_acpi_resource_clock_input_layout [layout_simps]:
  "sizeof struct_acpi_resource_clock_input = 20 \<and> alignof struct_acpi_resource_clock_input = 1 \<and> wf_cty struct_acpi_resource_clock_input"
  by (simp add: struct_acpi_resource_clock_input_def base_types layout_eval u8_def c__u8_def u16_def c__u16_def u32_def
      c__u32_def struct_acpi_resource_source_layout
      del: One_nat_def)

lemma struct_acpi_resource_address_layout [layout_simps]:
  "sizeof struct_acpi_resource_address = 9 \<and> alignof struct_acpi_resource_address = 1 \<and> wf_cty struct_acpi_resource_address"
  by (simp add: struct_acpi_resource_address_def base_types layout_eval u8_def c__u8_def
      union_acpi_resource_attribute_layout
      del: One_nat_def)

lemma union_acpi_resource_data_layout [layout_simps]:
  "sizeof union_acpi_resource_data = 60 \<and> alignof union_acpi_resource_data = 2 \<and> wf_cty union_acpi_resource_data"
  by (simp add: union_acpi_resource_data_def base_types layout_eval struct_acpi_resource_irq_layout
      struct_acpi_resource_dma_layout struct_acpi_resource_start_dependent_layout
      struct_acpi_resource_io_layout struct_acpi_resource_fixed_io_layout
      struct_acpi_resource_fixed_dma_layout struct_acpi_resource_vendor_layout
      struct_acpi_resource_vendor_typed_layout struct_acpi_resource_end_tag_layout
      struct_acpi_resource_memory24_layout struct_acpi_resource_memory32_layout
      struct_acpi_resource_fixed_memory32_layout struct_acpi_resource_address16_layout
      struct_acpi_resource_address32_layout struct_acpi_resource_address64_layout
      struct_acpi_resource_extended_address64_layout struct_acpi_resource_extended_irq_layout
      struct_acpi_resource_generic_register_layout struct_acpi_resource_gpio_layout
      struct_acpi_resource_i2c_serialbus_layout struct_acpi_resource_spi_serialbus_layout
      struct_acpi_resource_uart_serialbus_layout struct_acpi_resource_csi2_serialbus_layout
      struct_acpi_resource_common_serialbus_layout struct_acpi_resource_pin_function_layout
      struct_acpi_resource_pin_config_layout struct_acpi_resource_pin_group_layout
      struct_acpi_resource_pin_group_function_layout struct_acpi_resource_pin_group_config_layout
      struct_acpi_resource_clock_input_layout struct_acpi_resource_address_layout
      del: One_nat_def)

lemma struct_acpi_table_header_layout [layout_simps]:
  "sizeof struct_acpi_table_header = 36 \<and> alignof struct_acpi_table_header = 4 \<and> wf_cty struct_acpi_table_header"
  by (simp add: struct_acpi_table_header_def base_types layout_eval u32_def c__u32_def u8_def c__u8_def
      del: One_nat_def)

lemma struct_acpi_table_fadt_layout [layout_simps]:
  "sizeof struct_acpi_table_fadt = 276 \<and> alignof struct_acpi_table_fadt = 1 \<and> wf_cty struct_acpi_table_fadt"
  by (simp add: struct_acpi_table_fadt_def base_types layout_eval struct_acpi_table_header_layout u32_def c__u32_def
      u8_def c__u8_def u16_def c__u16_def struct_acpi_generic_address_layout u64_def c__u64_def
      del: One_nat_def)

lemma struct_acpi_table_spcr_layout [layout_simps]:
  "sizeof struct_acpi_table_spcr = 88 \<and> alignof struct_acpi_table_spcr = 1 \<and> wf_cty struct_acpi_table_spcr"
  by (simp add: struct_acpi_table_spcr_def base_types layout_eval struct_acpi_table_header_layout u8_def c__u8_def
      struct_acpi_generic_address_layout u32_def c__u32_def u16_def c__u16_def
      del: One_nat_def)

lemma struct_acpi_parse_state_layout [layout_simps]:
  "sizeof struct_acpi_parse_state = 80 \<and> alignof struct_acpi_parse_state = 8 \<and> wf_cty struct_acpi_parse_state"
  by (simp add: struct_acpi_parse_state_def base_types layout_eval u32_def c__u32_def
      del: One_nat_def)

lemma struct_acpi_walk_state_layout [layout_simps]:
  "sizeof struct_acpi_walk_state = 1128 \<and> alignof struct_acpi_walk_state = 8 \<and> wf_cty struct_acpi_walk_state"
  by (simp add: struct_acpi_walk_state_def base_types layout_eval u8_def c__u8_def u16_def c__u16_def acpi_owner_id_def
      u32_def c__u32_def struct_acpi_parse_state_layout struct_acpi_namespace_node_layout
      acpi_parse_downwards_def acpi_parse_upwards_def
      del: One_nat_def)

lemma enum_handler_id_layout [layout_simps]:
  "sizeof enum_handler_id = 4 \<and> alignof enum_handler_id = 4 \<and> wf_cty enum_handler_id"
  by (simp add: enum_handler_id_def base_types layout_eval
      del: One_nat_def)

lemma enum_action_id_layout [layout_simps]:
  "sizeof enum_action_id = 4 \<and> alignof enum_action_id = 4 \<and> wf_cty enum_action_id"
  by (simp add: enum_action_id_def base_types layout_eval
      del: One_nat_def)

lemma struct_action_data_layout [layout_simps]:
  "sizeof struct_action_data = 864 \<and> alignof struct_action_data = 8 \<and> wf_cty struct_action_data"
  by (simp add: struct_action_data_def base_types layout_eval enum_handler_id_layout enum_action_id_layout
      action_fn_t_def bool_def check_track_val_fn_t_def
      del: One_nat_def)

lemma struct_agp_bridge_data_layout [layout_simps]:
  "sizeof struct_agp_bridge_data = 208 \<and> alignof struct_agp_bridge_data = 8 \<and> wf_cty struct_agp_bridge_data"
  by (simp add: struct_agp_bridge_data_def base_types layout_eval dma_addr_t_def u64_def c__u64_def u32_def c__u32_def
      atomic_t_layout struct_list_head_layout spinlock_t_def struct_spinlock_layout
      del: One_nat_def)

lemma enum_aper_size_type_layout [layout_simps]:
  "sizeof enum_aper_size_type = 4 \<and> alignof enum_aper_size_type = 4 \<and> wf_cty enum_aper_size_type"
  by (simp add: enum_aper_size_type_def base_types layout_eval
      del: One_nat_def)

lemma struct_agp_bridge_driver_layout [layout_simps]:
  "sizeof struct_agp_bridge_driver = 184 \<and> alignof struct_agp_bridge_driver = 8 \<and> wf_cty struct_agp_bridge_driver"
  by (simp add: struct_agp_bridge_driver_def base_types layout_eval enum_aper_size_type_layout bool_def
      del: One_nat_def)

lemma struct_amd_iommu_layout [layout_simps]:
  "sizeof struct_amd_iommu = 1336 \<and> alignof struct_amd_iommu = 8 \<and> wf_cty struct_amd_iommu"
  by (simp add: struct_amd_iommu_def base_types layout_eval struct_list_head_layout raw_spinlock_t_def
      struct_raw_spinlock_layout u64_def c__u64_def u32_def c__u32_def u8_def c__u8_def u16_def
      c__u16_def bool_def struct_iommu_device_layout
      del: One_nat_def)

lemma struct_aml_resource_small_header_layout [layout_simps]:
  "sizeof struct_aml_resource_small_header = 1 \<and> alignof struct_aml_resource_small_header = 1 \<and> wf_cty struct_aml_resource_small_header"
  by (simp add: struct_aml_resource_small_header_def base_types layout_eval u8_def c__u8_def
      del: One_nat_def)

lemma struct_aml_resource_large_header_layout [layout_simps]:
  "sizeof struct_aml_resource_large_header = 3 \<and> alignof struct_aml_resource_large_header = 1 \<and> wf_cty struct_aml_resource_large_header"
  by (simp add: struct_aml_resource_large_header_def base_types layout_eval u8_def c__u8_def u16_def c__u16_def
      del: One_nat_def)

lemma struct_aml_resource_irq_layout [layout_simps]:
  "sizeof struct_aml_resource_irq = 4 \<and> alignof struct_aml_resource_irq = 1 \<and> wf_cty struct_aml_resource_irq"
  by (simp add: struct_aml_resource_irq_def base_types layout_eval u8_def c__u8_def u16_def c__u16_def
      del: One_nat_def)

end
