(* ===== verification/KernelSubRun.thy ===== *)
theory KernelSubRun
  imports KernelSubBpf
begin

text \<open>
  The other types of \<^verbatim>\<open>bpf/vmlinux.h\<close> that belong to control groups, perf events, modules and sysfs, with every type they hold by value.
\<close>

section \<open>Types\<close>

definition enum_cgroup1_param :: cty where
  "enum_cgroup1_param = CEnum 4
     [(''Opt_all'', 0), (''Opt_clone_children'', 1), (''Opt_cpuset_v2_mode'', 2),
      (''Opt_name'', 3), (''Opt_none'', 4), (''Opt_noprefix'', 5), (''Opt_release_agent'', 6),
      (''Opt_xattr'', 7), (''Opt_favordynmods'', 8), (''Opt_nofavordynmods'', 9)]"

definition enum_cgroup2_param :: cty where
  "enum_cgroup2_param = CEnum 4
     [(''Opt_nsdelegate'', 0), (''Opt_favordynmods___2'', 1), (''Opt_memory_localevents'', 2),
      (''Opt_memory_recursiveprot'', 3), (''Opt_memory_hugetlb_accounting'', 4),
      (''Opt_pids_localevents'', 5), (''nr__cgroup2_params'', 6)]"

definition enum_cgroup_subsys_id :: cty where
  "enum_cgroup_subsys_id = CEnum 4
     [(''cpuset_cgrp_id'', 0), (''cpu_cgrp_id'', 1), (''cpuacct_cgrp_id'', 2),
      (''io_cgrp_id'', 3), (''memory_cgrp_id'', 4), (''devices_cgrp_id'', 5),
      (''freezer_cgrp_id'', 6), (''net_cls_cgrp_id'', 7), (''perf_event_cgrp_id'', 8),
      (''net_prio_cgrp_id'', 9), (''hugetlb_cgrp_id'', 10), (''pids_cgrp_id'', 11),
      (''rdma_cgrp_id'', 12), (''misc_cgrp_id'', 13), (''dmem_cgrp_id'', 14),
      (''CGROUP_SUBSYS_COUNT'', 15)]"

definition enum_energy_perf_value_index :: cty where
  "enum_energy_perf_value_index = CEnum 4
     [(''EPB_INDEX_PERFORMANCE'', 0), (''EPB_INDEX_BALANCE_PERFORMANCE'', 1),
      (''EPB_INDEX_NORMAL'', 2), (''EPB_INDEX_BALANCE_POWERSAVE'', 3),
      (''EPB_INDEX_POWERSAVE'', 4)]"

definition enum_energy_perf_value_index___2 :: cty where
  "enum_energy_perf_value_index___2 = CEnum 4
     [(''EPP_INDEX_DEFAULT'', 0), (''EPP_INDEX_PERFORMANCE'', 1),
      (''EPP_INDEX_BALANCE_PERFORMANCE'', 2), (''EPP_INDEX_BALANCE_POWERSAVE'', 3),
      (''EPP_INDEX_POWERSAVE'', 4)]"

definition enum_energy_perf_value_index___3 :: cty where
  "enum_energy_perf_value_index___3 = CEnum 4
     [(''EPP_INDEX_DEFAULT___2'', 0), (''EPP_INDEX_PERFORMANCE___2'', 1),
      (''EPP_INDEX_BALANCE_PERFORMANCE___2'', 2), (''EPP_INDEX_BALANCE_POWERSAVE___2'', 3),
      (''EPP_INDEX_POWERSAVE___2'', 4), (''EPP_INDEX_MAX'', 5)]"

definition enum_kobject_action :: cty where
  "enum_kobject_action = CEnum 4
     [(''KOBJ_ADD'', 0), (''KOBJ_REMOVE'', 1), (''KOBJ_CHANGE'', 2), (''KOBJ_MOVE'', 3),
      (''KOBJ_ONLINE'', 4), (''KOBJ_OFFLINE'', 5), (''KOBJ_BIND'', 6), (''KOBJ_UNBIND'', 7)]"

definition enum_md_submodule_id :: cty where
  "enum_md_submodule_id = CEnum 4
     [(''ID_LINEAR'', (- 1)), (''ID_RAID0'', 0), (''ID_RAID1'', 1), (''ID_RAID4'', 4),
      (''ID_RAID5'', 5), (''ID_RAID6'', 6), (''ID_RAID10'', 10), (''ID_CLUSTER'', 11),
      (''ID_BITMAP'', 12), (''ID_LLBITMAP'', 13), (''ID_BITMAP_NONE'', 14)]"

definition enum_perf_branch_sample_type :: cty where
  "enum_perf_branch_sample_type = CEnum 4
     [(''PERF_SAMPLE_BRANCH_USER'', 1), (''PERF_SAMPLE_BRANCH_KERNEL'', 2),
      (''PERF_SAMPLE_BRANCH_HV'', 4), (''PERF_SAMPLE_BRANCH_ANY'', 8),
      (''PERF_SAMPLE_BRANCH_ANY_CALL'', 16), (''PERF_SAMPLE_BRANCH_ANY_RETURN'', 32),
      (''PERF_SAMPLE_BRANCH_IND_CALL'', 64), (''PERF_SAMPLE_BRANCH_ABORT_TX'', 128),
      (''PERF_SAMPLE_BRANCH_IN_TX'', 256), (''PERF_SAMPLE_BRANCH_NO_TX'', 512),
      (''PERF_SAMPLE_BRANCH_COND'', 1024), (''PERF_SAMPLE_BRANCH_CALL_STACK'', 2048),
      (''PERF_SAMPLE_BRANCH_IND_JUMP'', 4096), (''PERF_SAMPLE_BRANCH_CALL'', 8192),
      (''PERF_SAMPLE_BRANCH_NO_FLAGS'', 16384), (''PERF_SAMPLE_BRANCH_NO_CYCLES'', 32768),
      (''PERF_SAMPLE_BRANCH_TYPE_SAVE'', 65536), (''PERF_SAMPLE_BRANCH_HW_INDEX'', 131072),
      (''PERF_SAMPLE_BRANCH_PRIV_SAVE'', 262144), (''PERF_SAMPLE_BRANCH_COUNTERS'', 524288),
      (''PERF_SAMPLE_BRANCH_MAX'', 1048576)]"

definition enum_perf_branch_sample_type_shift :: cty where
  "enum_perf_branch_sample_type_shift = CEnum 4
     [(''PERF_SAMPLE_BRANCH_USER_SHIFT'', 0), (''PERF_SAMPLE_BRANCH_KERNEL_SHIFT'', 1),
      (''PERF_SAMPLE_BRANCH_HV_SHIFT'', 2), (''PERF_SAMPLE_BRANCH_ANY_SHIFT'', 3),
      (''PERF_SAMPLE_BRANCH_ANY_CALL_SHIFT'', 4), (''PERF_SAMPLE_BRANCH_ANY_RETURN_SHIFT'', 5),
      (''PERF_SAMPLE_BRANCH_IND_CALL_SHIFT'', 6), (''PERF_SAMPLE_BRANCH_ABORT_TX_SHIFT'', 7),
      (''PERF_SAMPLE_BRANCH_IN_TX_SHIFT'', 8), (''PERF_SAMPLE_BRANCH_NO_TX_SHIFT'', 9),
      (''PERF_SAMPLE_BRANCH_COND_SHIFT'', 10), (''PERF_SAMPLE_BRANCH_CALL_STACK_SHIFT'', 11),
      (''PERF_SAMPLE_BRANCH_IND_JUMP_SHIFT'', 12), (''PERF_SAMPLE_BRANCH_CALL_SHIFT'', 13),
      (''PERF_SAMPLE_BRANCH_NO_FLAGS_SHIFT'', 14), (''PERF_SAMPLE_BRANCH_NO_CYCLES_SHIFT'', 15),
      (''PERF_SAMPLE_BRANCH_TYPE_SAVE_SHIFT'', 16), (''PERF_SAMPLE_BRANCH_HW_INDEX_SHIFT'', 17),
      (''PERF_SAMPLE_BRANCH_PRIV_SAVE_SHIFT'', 18), (''PERF_SAMPLE_BRANCH_COUNTERS_SHIFT'', 19),
      (''PERF_SAMPLE_BRANCH_MAX_SHIFT'', 20)]"

definition enum_perf_callchain_context :: cty where
  "enum_perf_callchain_context = CEnum 8
     [(''PERF_CONTEXT_HV'', 18446744073709551584),
      (''PERF_CONTEXT_KERNEL'', 18446744073709551488),
      (''PERF_CONTEXT_USER'', 18446744073709551104),
      (''PERF_CONTEXT_USER_DEFERRED'', 18446744073709550976),
      (''PERF_CONTEXT_GUEST'', 18446744073709549568),
      (''PERF_CONTEXT_GUEST_KERNEL'', 18446744073709549440),
      (''PERF_CONTEXT_GUEST_USER'', 18446744073709549056),
      (''PERF_CONTEXT_MAX'', 18446744073709547521)]"

definition enum_perf_event_read_format :: cty where
  "enum_perf_event_read_format = CEnum 4
     [(''PERF_FORMAT_TOTAL_TIME_ENABLED'', 1), (''PERF_FORMAT_TOTAL_TIME_RUNNING'', 2),
      (''PERF_FORMAT_ID'', 4), (''PERF_FORMAT_GROUP'', 8), (''PERF_FORMAT_LOST'', 16),
      (''PERF_FORMAT_MAX'', 32)]"

definition enum_perf_event_sample_format :: cty where
  "enum_perf_event_sample_format = CEnum 4
     [(''PERF_SAMPLE_IP'', 1), (''PERF_SAMPLE_TID'', 2), (''PERF_SAMPLE_TIME'', 4),
      (''PERF_SAMPLE_ADDR'', 8), (''PERF_SAMPLE_READ'', 16), (''PERF_SAMPLE_CALLCHAIN'', 32),
      (''PERF_SAMPLE_ID'', 64), (''PERF_SAMPLE_CPU'', 128), (''PERF_SAMPLE_PERIOD'', 256),
      (''PERF_SAMPLE_STREAM_ID'', 512), (''PERF_SAMPLE_RAW'', 1024),
      (''PERF_SAMPLE_BRANCH_STACK'', 2048), (''PERF_SAMPLE_REGS_USER'', 4096),
      (''PERF_SAMPLE_STACK_USER'', 8192), (''PERF_SAMPLE_WEIGHT'', 16384),
      (''PERF_SAMPLE_DATA_SRC'', 32768), (''PERF_SAMPLE_IDENTIFIER'', 65536),
      (''PERF_SAMPLE_TRANSACTION'', 131072), (''PERF_SAMPLE_REGS_INTR'', 262144),
      (''PERF_SAMPLE_PHYS_ADDR'', 524288), (''PERF_SAMPLE_AUX'', 1048576),
      (''PERF_SAMPLE_CGROUP'', 2097152), (''PERF_SAMPLE_DATA_PAGE_SIZE'', 4194304),
      (''PERF_SAMPLE_CODE_PAGE_SIZE'', 8388608), (''PERF_SAMPLE_WEIGHT_STRUCT'', 16777216),
      (''PERF_SAMPLE_MAX'', 33554432)]"

definition enum_perf_event_type :: cty where
  "enum_perf_event_type = CEnum 4
     [(''PERF_RECORD_MMAP'', 1), (''PERF_RECORD_LOST'', 2), (''PERF_RECORD_COMM'', 3),
      (''PERF_RECORD_EXIT'', 4), (''PERF_RECORD_THROTTLE'', 5), (''PERF_RECORD_UNTHROTTLE'', 6),
      (''PERF_RECORD_FORK'', 7), (''PERF_RECORD_READ'', 8), (''PERF_RECORD_SAMPLE'', 9),
      (''PERF_RECORD_MMAP2'', 10), (''PERF_RECORD_AUX'', 11),
      (''PERF_RECORD_ITRACE_START'', 12), (''PERF_RECORD_LOST_SAMPLES'', 13),
      (''PERF_RECORD_SWITCH'', 14), (''PERF_RECORD_SWITCH_CPU_WIDE'', 15),
      (''PERF_RECORD_NAMESPACES'', 16), (''PERF_RECORD_KSYMBOL'', 17),
      (''PERF_RECORD_BPF_EVENT'', 18), (''PERF_RECORD_CGROUP'', 19),
      (''PERF_RECORD_TEXT_POKE'', 20), (''PERF_RECORD_AUX_OUTPUT_HW_ID'', 21),
      (''PERF_RECORD_CALLCHAIN_DEFERRED'', 22), (''PERF_RECORD_MAX'', 23)]"

definition enum_perf_event_x86_regs :: cty where
  "enum_perf_event_x86_regs = CEnum 4
     [(''PERF_REG_X86_AX'', 0), (''PERF_REG_X86_BX'', 1), (''PERF_REG_X86_CX'', 2),
      (''PERF_REG_X86_DX'', 3), (''PERF_REG_X86_SI'', 4), (''PERF_REG_X86_DI'', 5),
      (''PERF_REG_X86_BP'', 6), (''PERF_REG_X86_SP'', 7), (''PERF_REG_X86_IP'', 8),
      (''PERF_REG_X86_FLAGS'', 9), (''PERF_REG_X86_CS'', 10), (''PERF_REG_X86_SS'', 11),
      (''PERF_REG_X86_DS'', 12), (''PERF_REG_X86_ES'', 13), (''PERF_REG_X86_FS'', 14),
      (''PERF_REG_X86_GS'', 15), (''PERF_REG_X86_R8'', 16), (''PERF_REG_X86_R9'', 17),
      (''PERF_REG_X86_R10'', 18), (''PERF_REG_X86_R11'', 19), (''PERF_REG_X86_R12'', 20),
      (''PERF_REG_X86_R13'', 21), (''PERF_REG_X86_R14'', 22), (''PERF_REG_X86_R15'', 23),
      (''PERF_REG_X86_32_MAX'', 16), (''PERF_REG_X86_64_MAX'', 24), (''PERF_REG_X86_XMM0'', 32),
      (''PERF_REG_X86_XMM1'', 34), (''PERF_REG_X86_XMM2'', 36), (''PERF_REG_X86_XMM3'', 38),
      (''PERF_REG_X86_XMM4'', 40), (''PERF_REG_X86_XMM5'', 42), (''PERF_REG_X86_XMM6'', 44),
      (''PERF_REG_X86_XMM7'', 46), (''PERF_REG_X86_XMM8'', 48), (''PERF_REG_X86_XMM9'', 50),
      (''PERF_REG_X86_XMM10'', 52), (''PERF_REG_X86_XMM11'', 54), (''PERF_REG_X86_XMM12'', 56),
      (''PERF_REG_X86_XMM13'', 58), (''PERF_REG_X86_XMM14'', 60), (''PERF_REG_X86_XMM15'', 62),
      (''PERF_REG_X86_XMM_MAX'', 64)]"

definition enum_perf_hw_cache_id :: cty where
  "enum_perf_hw_cache_id = CEnum 4
     [(''PERF_COUNT_HW_CACHE_L1D'', 0), (''PERF_COUNT_HW_CACHE_L1I'', 1),
      (''PERF_COUNT_HW_CACHE_LL'', 2), (''PERF_COUNT_HW_CACHE_DTLB'', 3),
      (''PERF_COUNT_HW_CACHE_ITLB'', 4), (''PERF_COUNT_HW_CACHE_BPU'', 5),
      (''PERF_COUNT_HW_CACHE_NODE'', 6), (''PERF_COUNT_HW_CACHE_MAX'', 7)]"

definition enum_perf_hw_id :: cty where
  "enum_perf_hw_id = CEnum 4
     [(''PERF_COUNT_HW_CPU_CYCLES'', 0), (''PERF_COUNT_HW_INSTRUCTIONS'', 1),
      (''PERF_COUNT_HW_CACHE_REFERENCES'', 2), (''PERF_COUNT_HW_CACHE_MISSES'', 3),
      (''PERF_COUNT_HW_BRANCH_INSTRUCTIONS'', 4), (''PERF_COUNT_HW_BRANCH_MISSES'', 5),
      (''PERF_COUNT_HW_BUS_CYCLES'', 6), (''PERF_COUNT_HW_STALLED_CYCLES_FRONTEND'', 7),
      (''PERF_COUNT_HW_STALLED_CYCLES_BACKEND'', 8), (''PERF_COUNT_HW_REF_CPU_CYCLES'', 9),
      (''PERF_COUNT_HW_MAX'', 10)]"

definition enum_perf_msr_id :: cty where
  "enum_perf_msr_id = CEnum 4
     [(''PERF_MSR_TSC'', 0), (''PERF_MSR_APERF'', 1), (''PERF_MSR_MPERF'', 2),
      (''PERF_MSR_PPERF'', 3), (''PERF_MSR_SMI'', 4), (''PERF_MSR_PTSC'', 5),
      (''PERF_MSR_IRPERF'', 6), (''PERF_MSR_THERM'', 7), (''PERF_MSR_EVENT_MAX'', 8)]"

definition enum_perf_pmu_scope :: cty where
  "enum_perf_pmu_scope = CEnum 4
     [(''PERF_PMU_SCOPE_NONE'', 0), (''PERF_PMU_SCOPE_CORE'', 1), (''PERF_PMU_SCOPE_DIE'', 2),
      (''PERF_PMU_SCOPE_CLUSTER'', 3), (''PERF_PMU_SCOPE_PKG'', 4),
      (''PERF_PMU_SCOPE_SYS_WIDE'', 5), (''PERF_PMU_MAX_SCOPE'', 6)]"

definition enum_perf_snb_uncore_imc_freerunning_types :: cty where
  "enum_perf_snb_uncore_imc_freerunning_types = CEnum 4
     [(''SNB_PCI_UNCORE_IMC_DATA_READS'', 0), (''SNB_PCI_UNCORE_IMC_DATA_WRITES'', 1),
      (''SNB_PCI_UNCORE_IMC_GT_REQUESTS'', 2), (''SNB_PCI_UNCORE_IMC_IA_REQUESTS'', 3),
      (''SNB_PCI_UNCORE_IMC_IO_REQUESTS'', 4), (''SNB_PCI_UNCORE_IMC_FREERUNNING_TYPE_MAX'', 5)]"

definition enum_perf_sw_ids :: cty where
  "enum_perf_sw_ids = CEnum 4
     [(''PERF_COUNT_SW_CPU_CLOCK'', 0), (''PERF_COUNT_SW_TASK_CLOCK'', 1),
      (''PERF_COUNT_SW_PAGE_FAULTS'', 2), (''PERF_COUNT_SW_CONTEXT_SWITCHES'', 3),
      (''PERF_COUNT_SW_CPU_MIGRATIONS'', 4), (''PERF_COUNT_SW_PAGE_FAULTS_MIN'', 5),
      (''PERF_COUNT_SW_PAGE_FAULTS_MAJ'', 6), (''PERF_COUNT_SW_ALIGNMENT_FAULTS'', 7),
      (''PERF_COUNT_SW_EMULATION_FAULTS'', 8), (''PERF_COUNT_SW_DUMMY'', 9),
      (''PERF_COUNT_SW_BPF_OUTPUT'', 10), (''PERF_COUNT_SW_CGROUP_SWITCHES'', 11),
      (''PERF_COUNT_SW_MAX'', 12)]"

definition enum_perf_type_id :: cty where
  "enum_perf_type_id = CEnum 4
     [(''PERF_TYPE_HARDWARE'', 0), (''PERF_TYPE_SOFTWARE'', 1), (''PERF_TYPE_TRACEPOINT'', 2),
      (''PERF_TYPE_HW_CACHE'', 3), (''PERF_TYPE_RAW'', 4), (''PERF_TYPE_BREAKPOINT'', 5),
      (''PERF_TYPE_MAX'', 6)]"

definition enum_perf_uncore_dmr_iio_freerunning_type_id :: cty where
  "enum_perf_uncore_dmr_iio_freerunning_type_id = CEnum 4
     [(''DMR_ITC_INB_DATA_BW'', 0), (''DMR_ITC_BW_IN'', 1), (''DMR_OTC_BW_OUT'', 2),
      (''DMR_OTC_CLOCK_TICKS'', 3), (''DMR_IIO_FREERUNNING_TYPE_MAX'', 4)]"

definition enum_twl4030_module_ids :: cty where
  "enum_twl4030_module_ids = CEnum 4
     [(''TWL4030_MODULE_AUDIO_VOICE'', 9), (''TWL4030_MODULE_GPIO'', 10),
      (''TWL4030_MODULE_INTBR'', 11), (''TWL4030_MODULE_TEST'', 12),
      (''TWL4030_MODULE_KEYPAD'', 13), (''TWL4030_MODULE_MADC'', 14),
      (''TWL4030_MODULE_INTERRUPTS'', 15), (''TWL4030_MODULE_PRECHARGE'', 16),
      (''TWL4030_MODULE_BACKUP'', 17), (''TWL4030_MODULE_INT'', 18),
      (''TWL5031_MODULE_ACCESSORY'', 19), (''TWL5031_MODULE_INTERRUPTS'', 20),
      (''TWL4030_MODULE_LAST'', 21)]"

definition enum_twl6030_module_ids :: cty where
  "enum_twl6030_module_ids = CEnum 4
     [(''TWL6030_MODULE_ID0'', 9), (''TWL6030_MODULE_ID1'', 10), (''TWL6030_MODULE_ID2'', 11),
      (''TWL6030_MODULE_GPADC'', 12), (''TWL6030_MODULE_GASGAUGE'', 13),
      (''TWL6032_MODULE_CHARGE'', 14), (''TWL6030_MODULE_LAST'', 15)]"

definition enum_twl_module_ids :: cty where
  "enum_twl_module_ids = CEnum 4
     [(''TWL_MODULE_USB'', 0), (''TWL_MODULE_PIH'', 1), (''TWL_MODULE_MAIN_CHARGE'', 2),
      (''TWL_MODULE_PM_MASTER'', 3), (''TWL_MODULE_PM_RECEIVER'', 4), (''TWL_MODULE_RTC'', 5),
      (''TWL_MODULE_PWM'', 6), (''TWL_MODULE_LED'', 7), (''TWL_MODULE_SECURED_REG'', 8),
      (''TWL_MODULE_LAST'', 9)]"

definition struct_acpi_device_perf_state :: cty where
  "struct_acpi_device_perf_state = CStruct ''acpi_device_perf_state'' False
     [Field ''flags'' (CStruct [] False
        [BitField ''valid'' u8 1,
         BitField ''reserved'' u8 7]),
      Field ''power'' u8,
      Field ''performance'' u8,
      Field ''latency'' c_int]"

definition struct_acpi_prmt_module_info :: cty where
  "struct_acpi_prmt_module_info = CStruct ''acpi_prmt_module_info'' True
     [Field ''revision'' u16,
      Field ''length'' u16,
      Field ''module_guid'' (CArr 16 u8),
      Field ''major_rev'' u16,
      Field ''minor_rev'' u16,
      Field ''handler_info_count'' u16,
      Field ''handler_info_offset'' u32,
      Field ''mmio_list_pointer'' u64]"

definition struct_acpi_pct_register :: cty where
  "struct_acpi_pct_register = CStruct ''acpi_pct_register'' True
     [Field ''descriptor'' u8,
      Field ''length'' u16,
      Field ''space_id'' u8,
      Field ''bit_width'' u8,
      Field ''bit_offset'' u8,
      Field ''reserved'' u8,
      Field ''address'' u64]"

definition struct_acpi_psd_package :: cty where
  "struct_acpi_psd_package = CStruct ''acpi_psd_package'' False
     [Field ''num_entries'' u64,
      Field ''revision'' u64,
      Field ''domain'' u64,
      Field ''coord_type'' u64,
      Field ''num_processors'' u64]"

definition struct_acpi_processor_performance :: cty where
  "struct_acpi_processor_performance = CStruct ''acpi_processor_performance'' False
     [Field ''state'' unsigned_int,
      Field ''platform_limit'' unsigned_int,
      Field ''control_register'' struct_acpi_pct_register,
      Field ''status_register'' struct_acpi_pct_register,
      Field ''state_count'' unsigned_int,
      Field ''states'' (CPtr ''struct acpi_processor_px''),
      Field ''domain_info'' struct_acpi_psd_package,
      Field ''shared_cpu_map'' cpumask_var_t,
      Field ''shared_type'' unsigned_int]"

definition union_perf_cached :: cty where
  "union_perf_cached = CUnion ''perf_cached'' False
     [Field [] (CStruct [] False
        [Field ''highest_perf'' u8,
         Field ''nominal_perf'' u8,
         Field ''lowest_nonlinear_perf'' u8,
         Field ''lowest_perf'' u8,
         Field ''min_limit_perf'' u8,
         Field ''max_limit_perf'' u8,
         Field ''bios_min_perf'' u8]),
      Field ''val'' u64]"

definition struct_aperfmperf :: cty where
  "struct_aperfmperf = CStruct ''aperfmperf'' False
     [Field ''seq'' seqcount_t,
      Field ''last_update'' long_unsigned_int,
      Field ''acnt'' u64,
      Field ''mcnt'' u64,
      Field ''aperf'' u64,
      Field ''mperf'' u64]"

definition struct_fpdt_record_header :: cty where
  "struct_fpdt_record_header = CStruct ''fpdt_record_header'' False
     [Field ''type'' u16,
      Field ''length'' u8,
      Field ''revision'' u8]"

definition struct_boot_performance_record :: cty where
  "struct_boot_performance_record = CStruct ''boot_performance_record'' False
     [Field ''header'' struct_fpdt_record_header,
      Field ''reserved'' u32,
      Field ''firmware_start'' u64,
      Field ''bootloader_load'' u64,
      Field ''bootloader_launch'' u64,
      Field ''exitbootservice_start'' u64,
      Field ''exitbootservice_end'' u64]"

definition union_perf_sample_weight :: cty where
  "union_perf_sample_weight = CUnion ''perf_sample_weight'' False
     [Field ''full'' c__u64,
      Field [] (CStruct [] False
        [Field ''var1_dw'' c__u32,
         Field ''var2_w'' c__u16,
         Field ''var3_w'' c__u16])]"

definition union_perf_mem_data_src :: cty where
  "union_perf_mem_data_src = CUnion ''perf_mem_data_src'' False
     [Field ''val'' c__u64,
      Field [] (CStruct [] False
        [BitField ''mem_op'' c__u64 5,
         BitField ''mem_lvl'' c__u64 14,
         BitField ''mem_snoop'' c__u64 5,
         BitField ''mem_lock'' c__u64 2,
         BitField ''mem_dtlb'' c__u64 7,
         BitField ''mem_lvl_num'' c__u64 4,
         BitField ''mem_remote'' c__u64 1,
         BitField ''mem_snoopx'' c__u64 2,
         BitField ''mem_blk'' c__u64 3,
         BitField ''mem_hops'' c__u64 3,
         BitField ''mem_region'' c__u64 5,
         BitField ''mem_rsvd'' c__u64 13])]"

definition struct_perf_regs :: cty where
  "struct_perf_regs = CStruct ''perf_regs'' False
     [Field ''abi'' c__u64,
      Field ''regs'' (CPtr ''struct pt_regs'')]"

definition struct_perf_sample_data :: cty where
  "struct_perf_sample_data = CStruct ''perf_sample_data'' False
     [Field ''sample_flags'' u64,
      Field ''period'' u64,
      Field ''dyn_size'' u64,
      Field ''type'' u64,
      Field ''tid_entry'' (CStruct [] False
        [Field ''pid'' u32,
         Field ''tid'' u32]),
      Field ''time'' u64,
      Field ''id'' u64,
      Field ''cpu_entry'' (CStruct [] False
        [Field ''cpu'' u32,
         Field ''reserved'' u32]),
      Field ''ip'' u64,
      Field ''callchain'' (CPtr ''struct perf_callchain_entry''),
      Field ''raw'' (CPtr ''struct perf_raw_record''),
      Field ''br_stack'' (CPtr ''struct perf_branch_stack''),
      Field ''br_stack_cntr'' (CPtr ''u64''),
      Field ''weight'' union_perf_sample_weight,
      Field ''data_src'' union_perf_mem_data_src,
      Field ''txn'' u64,
      Field ''regs_user'' struct_perf_regs,
      Field ''regs_intr'' struct_perf_regs,
      Field ''stack_user_size'' u64,
      Field ''stream_id'' u64,
      Field ''cgroup'' u64,
      Field ''addr'' u64,
      Field ''phys_addr'' u64,
      Field ''data_page_size'' u64,
      Field ''code_page_size'' u64,
      Field ''aux_size'' u64,
      BitField [] c_long 64,
      BitField [] c_long 64,
      BitField [] c_long 64,
      BitField [] c_long 64]"

definition struct_perf_output_handle :: cty where
  "struct_perf_output_handle = CStruct ''perf_output_handle'' False
     [Field ''event'' (CPtr ''struct perf_event''),
      Field ''rb'' (CPtr ''struct perf_buffer''),
      Field ''wakeup'' long_unsigned_int,
      Field ''size'' long_unsigned_int,
      Field [] (CUnion [] False
        [Field ''flags'' u64,
         Field ''aux_flags'' u64,
         Field [] (CStruct [] False
           [BitField ''skip_read'' u64 1])]),
      Field [] (CUnion [] False
        [Field ''addr'' (CPtr ''void''),
         Field ''head'' long_unsigned_int]),
      Field ''page'' c_int]"

definition struct_css_task_iter :: cty where
  "struct_css_task_iter = CStruct ''css_task_iter'' False
     [Field ''ss'' (CPtr ''struct cgroup_subsys''),
      Field ''flags'' unsigned_int,
      Field ''cset_pos'' (CPtr ''struct list_head''),
      Field ''cset_head'' (CPtr ''struct list_head''),
      Field ''tcset_pos'' (CPtr ''struct list_head''),
      Field ''tcset_head'' (CPtr ''struct list_head''),
      Field ''task_pos'' (CPtr ''struct list_head''),
      Field ''cur_tasks_head'' (CPtr ''struct list_head''),
      Field ''cur_cset'' (CPtr ''struct css_set''),
      Field ''cur_dcset'' (CPtr ''struct css_set''),
      Field ''cur_task'' (CPtr ''struct task_struct''),
      Field ''iters_node'' struct_list_head]"

definition struct_cgroup_of_peak :: cty where
  "struct_cgroup_of_peak = CStruct ''cgroup_of_peak'' False
     [Field ''value'' long_unsigned_int,
      Field ''list'' struct_list_head]"

definition struct_cgroup_file_ctx :: cty where
  "struct_cgroup_file_ctx = CStruct ''cgroup_file_ctx'' False
     [Field ''ns'' (CPtr ''struct cgroup_namespace''),
      Field ''psi'' (CStruct [] False
        [Field ''trigger'' (CPtr ''void'')]),
      Field ''procs'' (CStruct [] False
        [Field ''started'' bool,
         Field ''iter'' struct_css_task_iter]),
      Field ''procs1'' (CStruct [] False
        [Field ''pidlist'' (CPtr ''struct cgroup_pidlist'')]),
      Field ''peak'' struct_cgroup_of_peak]"

definition struct_kernfs_fs_context :: cty where
  "struct_kernfs_fs_context = CStruct ''kernfs_fs_context'' False
     [Field ''root'' (CPtr ''struct kernfs_root''),
      Field ''ns_tag'' (CPtr ''struct ns_common''),
      Field ''magic'' long_unsigned_int,
      Field ''new_sb_created'' bool]"

definition struct_cgroup_fs_context :: cty where
  "struct_cgroup_fs_context = CStruct ''cgroup_fs_context'' False
     [Field ''kfc'' struct_kernfs_fs_context,
      Field ''root'' (CPtr ''struct cgroup_root''),
      Field ''ns'' (CPtr ''struct cgroup_namespace''),
      Field ''flags'' unsigned_int,
      Field ''cpuset_clone_children'' bool,
      Field ''none'' bool,
      Field ''all_ss'' bool,
      Field ''subsys_mask'' u32,
      Field ''name'' (CPtr ''char''),
      Field ''release_agent'' (CPtr ''char'')]"

definition struct_cgroup_taskset :: cty where
  "struct_cgroup_taskset = CStruct ''cgroup_taskset'' False
     [Field ''src_csets'' struct_list_head,
      Field ''dst_csets'' struct_list_head,
      Field ''nr_tasks'' c_int,
      Field ''ssid'' c_int,
      Field ''csets'' (CPtr ''struct list_head''),
      Field ''cur_cset'' (CPtr ''struct css_set''),
      Field ''cur_task'' (CPtr ''struct task_struct'')]"

definition enum_cgroup_filetype :: cty where
  "enum_cgroup_filetype = CEnum 4
     [(''CGROUP_FILE_PROCS'', 0), (''CGROUP_FILE_TASKS'', 1)]"

definition struct_cgroup_pidlist :: cty where
  "struct_cgroup_pidlist = CStruct ''cgroup_pidlist'' False
     [Field ''key'' (CStruct [] False
        [Field ''type'' enum_cgroup_filetype,
         Field ''ns'' (CPtr ''struct pid_namespace'')]),
      Field ''list'' (CPtr ''pid_t''),
      Field ''length'' c_int,
      Field ''links'' struct_list_head,
      Field ''owner'' (CPtr ''struct cgroup''),
      Field ''destroy_dwork'' struct_delayed_work]"

definition struct_cgroupstats :: cty where
  "struct_cgroupstats = CStruct ''cgroupstats'' False
     [Field ''nr_sleeping'' c__u64,
      Field ''nr_running'' c__u64,
      Field ''nr_stopped'' c__u64,
      Field ''nr_uninterruptible'' c__u64,
      Field ''nr_io_wait'' c__u64]"

definition struct_cppc_perf_caps :: cty where
  "struct_cppc_perf_caps = CStruct ''cppc_perf_caps'' False
     [Field ''guaranteed_perf'' u32,
      Field ''highest_perf'' u32,
      Field ''nominal_perf'' u32,
      Field ''lowest_perf'' u32,
      Field ''lowest_nonlinear_perf'' u32,
      Field ''lowest_freq'' u32,
      Field ''nominal_freq'' u32]"

definition struct_cppc_perf_ctrls :: cty where
  "struct_cppc_perf_ctrls = CStruct ''cppc_perf_ctrls'' False
     [Field ''max_perf'' u32,
      Field ''min_perf'' u32,
      Field ''desired_perf'' u32,
      Field ''energy_perf'' u32,
      Field ''auto_sel'' bool]"

definition struct_perf_branch_entry :: cty where
  "struct_perf_branch_entry = CStruct ''perf_branch_entry'' False
     [Field ''from'' c__u64,
      Field ''to'' c__u64,
      BitField ''mispred'' c__u64 1,
      BitField ''predicted'' c__u64 1,
      BitField ''in_tx'' c__u64 1,
      BitField ''abort'' c__u64 1,
      BitField ''cycles'' c__u64 16,
      BitField ''type'' c__u64 4,
      BitField ''spec'' c__u64 2,
      BitField ''new_type'' c__u64 4,
      BitField ''priv'' c__u64 3,
      BitField ''reserved'' c__u64 31]"

definition struct_cpuidle_state_kobj :: cty where
  "struct_cpuidle_state_kobj = CStruct ''cpuidle_state_kobj'' False
     [Field ''state'' (CPtr ''struct cpuidle_state''),
      Field ''state_usage'' (CPtr ''struct cpuidle_state_usage''),
      Field ''kobj_unregister'' struct_completion,
      Field ''kobj'' struct_kobject,
      Field ''device'' (CPtr ''struct cpuidle_device'')]"

definition struct_cxl_event_record_hdr :: cty where
  "struct_cxl_event_record_hdr = CStruct ''cxl_event_record_hdr'' False
     [Field ''length'' u8,
      Field ''flags'' (CArr 3 u8),
      Field ''handle'' c__le16,
      Field ''related_handle'' c__le16,
      Field ''timestamp'' c__le64,
      Field ''maint_op_class'' u8,
      Field ''maint_op_sub_class'' u8,
      Field ''ld_id'' c__le16,
      Field ''head_id'' u8,
      Field ''reserved'' (CArr 11 u8)]"

definition struct_cxl_get_health_info :: cty where
  "struct_cxl_get_health_info = CStruct ''cxl_get_health_info'' False
     [Field ''health_status'' u8,
      Field ''media_status'' u8,
      Field ''add_status'' u8,
      Field ''life_used'' u8,
      Field ''device_temp'' (CArr 2 u8),
      Field ''dirty_shutdown_cnt'' (CArr 4 u8),
      Field ''cor_vol_err_cnt'' (CArr 4 u8),
      Field ''cor_per_err_cnt'' (CArr 4 u8)]"

definition struct_cxl_event_mem_module :: cty where
  "struct_cxl_event_mem_module = CStruct ''cxl_event_mem_module'' False
     [Field ''hdr'' struct_cxl_event_record_hdr,
      Field ''event_type'' u8,
      Field ''info'' struct_cxl_get_health_info,
      Field ''validity_flags'' (CArr 2 u8),
      Field ''component_id'' (CArr 16 u8),
      Field ''event_sub_type'' u8,
      Field ''reserved'' (CArr 42 u8)]"

definition struct_kobj_uevent_env :: cty where
  "struct_kobj_uevent_env = CStruct ''kobj_uevent_env'' False
     [Field ''argv'' (CArr 3 (CPtr ''char'')),
      Field ''envp'' (CArr 64 (CPtr ''char'')),
      Field ''envp_idx'' c_int,
      Field ''buf'' (CArr 2048 c_char),
      Field ''buflen'' c_int]"

definition struct_dm_uevent :: cty where
  "struct_dm_uevent = CStruct ''dm_uevent'' False
     [Field ''md'' (CPtr ''struct mapped_device''),
      Field ''action'' enum_kobject_action,
      Field ''ku_env'' struct_kobj_uevent_env,
      Field ''elist'' struct_list_head,
      Field ''name'' (CArr 128 c_char),
      Field ''uuid'' (CArr 129 c_char)]"

definition struct_dmem_cgroup_pool_state :: cty where
  "struct_dmem_cgroup_pool_state = CStruct ''dmem_cgroup_pool_state'' False
     [Field ''region'' (CPtr ''struct dmem_cgroup_region''),
      Field ''cs'' (CPtr ''struct dmemcg_state''),
      Field ''css_node'' struct_list_head,
      Field ''region_node'' struct_list_head,
      Field ''rcu'' struct_callback_head,
      Field ''cnt'' struct_page_counter,
      Field ''parent'' (CPtr ''struct dmem_cgroup_pool_state''),
      Field ''ref'' refcount_t,
      Field ''inited'' bool,
      BitField [] c_long 64,
      BitField [] c_long 64,
      BitField [] c_long 64,
      BitField [] c_long 64,
      BitField [] c_long 64,
      BitField [] c_long 64]"

definition struct_dmem_cgroup_region :: cty where
  "struct_dmem_cgroup_region = CStruct ''dmem_cgroup_region'' False
     [Field ''ref'' struct_kref,
      Field ''rcu'' struct_callback_head,
      Field ''region_node'' struct_list_head,
      Field ''pools'' struct_list_head,
      Field ''size'' u64,
      Field ''name'' (CPtr ''char''),
      Field ''unregistered'' bool]"

definition struct_ethtool_module_eeprom :: cty where
  "struct_ethtool_module_eeprom = CStruct ''ethtool_module_eeprom'' False
     [Field ''offset'' u32,
      Field ''length'' u32,
      Field ''page'' u8,
      Field ''bank'' u8,
      Field ''i2c_address'' u8,
      Field ''data'' (CPtr ''u8'')]"

definition struct_fw_sysfs :: cty where
  "struct_fw_sysfs = CStruct ''fw_sysfs'' False
     [Field ''nowait'' bool,
      Field ''dev'' struct_device,
      Field ''fw_priv'' (CPtr ''struct fw_priv''),
      Field ''fw'' (CPtr ''struct firmware''),
      Field ''fw_upload_priv'' (CPtr ''void'')]"

definition struct_hugetlb_cgroup :: cty where
  "struct_hugetlb_cgroup = CStruct ''hugetlb_cgroup'' False
     [Field ''css'' struct_cgroup_subsys_state,
      BitField [] c_long 64,
      BitField [] c_long 64,
      BitField [] c_long 64,
      BitField [] c_long 64,
      BitField [] c_long 64,
      BitField [] c_long 64,
      Field ''hugepage'' (CArr 2 struct_page_counter),
      Field ''rsvd_hugepage'' (CArr 2 struct_page_counter),
      Field ''events'' (CArr 2 atomic_long_t),
      Field ''events_local'' (CArr 2 atomic_long_t),
      Field ''events_file'' (CArr 2 struct_cgroup_file),
      Field ''events_local_file'' (CArr 2 struct_cgroup_file),
      Field ''nodeinfo'' (CArr 0 (CPtr ''struct hugetlb_cgroup_per_node''))]"

definition struct_hyp_sysfs_attr :: cty where
  "struct_hyp_sysfs_attr = CStruct ''hyp_sysfs_attr'' False
     [Field ''attr'' struct_attribute,
      Field ''show'' (CPtr ''ssize_t (struct hyp_sysfs_attr *, char *)''),
      Field ''store'' (CPtr ''ssize_t (struct hyp_sysfs_attr *, const char *, size_t)''),
      Field [] (CUnion [] False
        [Field ''hyp_attr_data'' (CPtr ''void''),
         Field ''hyp_attr_value'' long_unsigned_int])]"

definition struct_module_signature :: cty where
  "struct_module_signature = CStruct ''module_signature'' False
     [Field ''algo'' u8,
      Field ''hash'' u8,
      Field ''id_type'' u8,
      Field ''signer_len'' u8,
      Field ''key_id_len'' u8,
      Field ''__pad'' (CArr 3 u8),
      Field ''sig_len'' c__be32]"

definition enum_perf_addr_filter_action_t :: cty where
  "enum_perf_addr_filter_action_t = CEnum 4
     [(''PERF_ADDR_FILTER_ACTION_STOP'', 0), (''PERF_ADDR_FILTER_ACTION_START'', 1),
      (''PERF_ADDR_FILTER_ACTION_FILTER'', 2)]"

definition struct_perf_addr_filter :: cty where
  "struct_perf_addr_filter = CStruct ''perf_addr_filter'' False
     [Field ''entry'' struct_list_head,
      Field ''path'' struct_path,
      Field ''offset'' long_unsigned_int,
      Field ''size'' long_unsigned_int,
      Field ''action'' enum_perf_addr_filter_action_t]"

definition struct_perf_amd_iommu :: cty where
  "struct_perf_amd_iommu = CStruct ''perf_amd_iommu'' False
     [Field ''list'' struct_list_head,
      Field ''pmu'' struct_pmu,
      Field ''iommu'' (CPtr ''struct amd_iommu''),
      Field ''name'' (CArr 24 c_char),
      Field ''max_banks'' u8,
      Field ''max_counters'' u8,
      Field ''cntr_assign_mask'' u64,
      Field ''lock'' raw_spinlock_t]"

definition struct_perf_callchain_deferred_event :: cty where
  "struct_perf_callchain_deferred_event = CStruct ''perf_callchain_deferred_event'' False
     [Field ''trace'' (CPtr ''struct unwind_stacktrace''),
      Field ''event'' (CStruct [] False
        [Field ''header'' struct_perf_event_header,
         Field ''cookie'' u64,
         Field ''nr'' u64,
         Field ''ips'' (CArr 0 u64)])]"

definition struct_perf_callchain_entry_ctx :: cty where
  "struct_perf_callchain_entry_ctx = CStruct ''perf_callchain_entry_ctx'' False
     [Field ''entry'' (CPtr ''struct perf_callchain_entry''),
      Field ''max_stack'' u32,
      Field ''nr'' u32,
      Field ''contexts'' short_int,
      Field ''contexts_maxed'' bool]"

definition union_perf_capabilities :: cty where
  "union_perf_capabilities = CUnion ''perf_capabilities'' False
     [Field [] (CStruct [] False
        [BitField ''lbr_format'' u64 6,
         BitField ''pebs_trap'' u64 1,
         BitField ''pebs_arch_reg'' u64 1,
         BitField ''pebs_format'' u64 4,
         BitField ''smm_freeze'' u64 1,
         BitField ''full_width_write'' u64 1,
         BitField ''pebs_baseline'' u64 1,
         BitField ''perf_metrics'' u64 1,
         BitField ''pebs_output_pt_available'' u64 1,
         BitField ''pebs_timing_info'' u64 1,
         BitField ''anythread_deprecated'' u64 1,
         BitField ''rdpmc_metrics_clear'' u64 1]),
      Field ''capabilities'' u64]"

definition struct_perf_cgroup_event :: cty where
  "struct_perf_cgroup_event = CStruct ''perf_cgroup_event'' False
     [Field ''path'' (CPtr ''char''),
      Field ''path_size'' c_int,
      Field ''event_id'' (CStruct [] False
        [Field ''header'' struct_perf_event_header,
         Field ''id'' u64,
         Field ''path'' (CArr 0 c_char)])]"

definition struct_perf_comm_event :: cty where
  "struct_perf_comm_event = CStruct ''perf_comm_event'' False
     [Field ''task'' (CPtr ''struct task_struct''),
      Field ''comm'' (CPtr ''char''),
      Field ''comm_size'' c_int,
      Field ''event_id'' (CStruct [] False
        [Field ''header'' struct_perf_event_header,
         Field ''pid'' u32,
         Field ''tid'' u32])]"

definition struct_perf_cpu_context :: cty where
  "struct_perf_cpu_context = CStruct ''perf_cpu_context'' False
     [Field ''ctx'' struct_perf_event_context,
      Field ''task_ctx'' (CPtr ''struct perf_event_context''),
      Field ''online'' c_int,
      Field ''cgrp'' (CPtr ''struct perf_cgroup''),
      Field ''heap_size'' c_int,
      Field ''heap'' (CPtr ''struct perf_event *''),
      Field ''heap_default'' (CArr 2 (CPtr ''struct perf_event''))]"

definition struct_perf_ibs :: cty where
  "struct_perf_ibs = CStruct ''perf_ibs'' False
     [Field ''pmu'' struct_pmu,
      Field ''msr'' unsigned_int,
      Field ''config_mask'' u64,
      Field ''cnt_mask'' u64,
      Field ''enable_mask'' u64,
      Field ''valid_mask'' u64,
      Field ''min_period'' u16,
      Field ''max_period'' u64,
      Field ''offset_mask'' (CArr 1 long_unsigned_int),
      Field ''offset_max'' c_int,
      BitField ''fetch_count_reset_broken'' unsigned_int 1,
      BitField ''fetch_ignore_if_zero_rip'' unsigned_int 1,
      Field ''pcpu'' (CPtr ''struct cpu_perf_ibs''),
      Field ''get_count'' (CPtr ''u64 (u64)'')]"

definition struct_perf_ibs_data :: cty where
  "struct_perf_ibs_data = CStruct ''perf_ibs_data'' False
     [Field ''size'' u32,
      Field [] (CUnion [] False
        [Field ''data'' (CArr 0 u32),
         Field ''caps'' u32]),
      Field ''regs'' (CArr 8 u64)]"

definition struct_perf_ksymbol_event :: cty where
  "struct_perf_ksymbol_event = CStruct ''perf_ksymbol_event'' False
     [Field ''name'' (CPtr ''const char''),
      Field ''name_len'' c_int,
      Field ''event_id'' (CStruct [] False
        [Field ''header'' struct_perf_event_header,
         Field ''addr'' u64,
         Field ''len'' u32,
         Field ''ksym_type'' u16,
         Field ''flags'' u16])]"

definition struct_perf_mmap_event :: cty where
  "struct_perf_mmap_event = CStruct ''perf_mmap_event'' False
     [Field ''vma'' (CPtr ''struct vm_area_struct''),
      Field ''file_name'' (CPtr ''const char''),
      Field ''file_size'' c_int,
      Field ''maj'' c_int,
      Field ''min'' c_int,
      Field ''ino'' u64,
      Field ''ino_generation'' u64,
      Field ''prot'' u32,
      Field ''flags'' u32,
      Field ''build_id'' (CArr 20 u8),
      Field ''build_id_size'' u32,
      Field ''event_id'' (CStruct [] False
        [Field ''header'' struct_perf_event_header,
         Field ''pid'' u32,
         Field ''tid'' u32,
         Field ''start'' u64,
         Field ''len'' u64,
         Field ''pgoff'' u64])]"

definition struct_perf_msr :: cty where
  "struct_perf_msr = CStruct ''perf_msr'' False
     [Field ''msr'' u64,
      Field ''grp'' (CPtr ''struct attribute_group''),
      Field ''test'' (CPtr ''bool (int, void *)''),
      Field ''no_check'' bool,
      Field ''mask'' u64]"

definition struct_perf_ns_link_info :: cty where
  "struct_perf_ns_link_info = CStruct ''perf_ns_link_info'' False
     [Field ''dev'' c__u64,
      Field ''ino'' c__u64]"

definition struct_perf_namespaces_event :: cty where
  "struct_perf_namespaces_event = CStruct ''perf_namespaces_event'' False
     [Field ''task'' (CPtr ''struct task_struct''),
      Field ''event_id'' (CStruct [] False
        [Field ''header'' struct_perf_event_header,
         Field ''pid'' u32,
         Field ''tid'' u32,
         Field ''nr_namespaces'' u64,
         Field ''link_info'' (CArr 7 struct_perf_ns_link_info)])]"

definition perf_copy_f :: cty where [layout_simps]:
  "perf_copy_f = CPtr ''long unsigned int (void *, const void *, long unsigned int, long unsigned int)''"

definition struct_perf_raw_frag :: cty where
  "struct_perf_raw_frag = CStruct ''perf_raw_frag'' True
     [Field [] (CUnion [] False
        [Field ''next'' (CPtr ''struct perf_raw_frag''),
         Field ''pad'' long_unsigned_int]),
      Field ''copy'' perf_copy_f,
      Field ''data'' (CPtr ''void''),
      Field ''size'' u32]"

definition struct_sched_state :: cty where
  "struct_sched_state = CStruct ''sched_state'' False
     [Field ''weight'' c_int,
      Field ''event'' c_int,
      Field ''counter'' c_int,
      Field ''unassigned'' c_int,
      Field ''nr_gp'' c_int,
      Field ''used'' u64]"

definition struct_perf_sched :: cty where
  "struct_perf_sched = CStruct ''perf_sched'' False
     [Field ''max_weight'' c_int,
      Field ''max_events'' c_int,
      Field ''max_gp'' c_int,
      Field ''saved_states'' c_int,
      Field ''constraints'' (CPtr ''struct event_constraint *''),
      Field ''state'' struct_sched_state,
      Field ''saved'' (CArr 2 struct_sched_state)]"

definition struct_perf_switch_event :: cty where
  "struct_perf_switch_event = CStruct ''perf_switch_event'' False
     [Field ''task'' (CPtr ''struct task_struct''),
      Field ''next_prev'' (CPtr ''struct task_struct''),
      Field ''event_id'' (CStruct [] False
        [Field ''header'' struct_perf_event_header,
         Field ''next_prev_pid'' u32,
         Field ''next_prev_tid'' u32])]"

definition struct_perf_task_event :: cty where
  "struct_perf_task_event = CStruct ''perf_task_event'' False
     [Field ''task'' (CPtr ''struct task_struct''),
      Field ''task_ctx'' (CPtr ''struct perf_event_context''),
      Field ''event_id'' (CStruct [] False
        [Field ''header'' struct_perf_event_header,
         Field ''pid'' u32,
         Field ''ppid'' u32,
         Field ''tid'' u32,
         Field ''ptid'' u32,
         Field ''time'' u64])]"

definition struct_perf_text_poke_event :: cty where
  "struct_perf_text_poke_event = CStruct ''perf_text_poke_event'' False
     [Field ''old_bytes'' (CPtr ''const void''),
      Field ''new_bytes'' (CPtr ''const void''),
      Field ''pad'' size_t,
      Field ''old_len'' u16,
      Field ''new_len'' u16,
      Field ''event_id'' (CStruct [] False
        [Field ''header'' struct_perf_event_header,
         Field ''addr'' u64])]"

definition struct_pids_cgroup :: cty where
  "struct_pids_cgroup = CStruct ''pids_cgroup'' False
     [Field ''css'' struct_cgroup_subsys_state,
      Field ''counter'' atomic64_t,
      Field ''limit'' atomic64_t,
      Field ''watermark'' int64_t,
      Field ''events_file'' struct_cgroup_file,
      Field ''events_local_file'' struct_cgroup_file,
      Field ''events'' (CArr 2 atomic64_t),
      Field ''events_local'' (CArr 2 atomic64_t)]"

definition guid_t :: cty where
  "guid_t = CStruct [] False
      [Field ''b'' (CArr 16 c__u8)]"

definition efi_guid_t :: cty where [layout_simps]:
  "efi_guid_t = guid_t"

definition struct_prm_handler_info :: cty where
  "struct_prm_handler_info = CStruct ''prm_handler_info'' False
     [Field ''guid'' efi_guid_t,
      Field ''handler_addr'' (CPtr ''efi_status_t (u64, void *)''),
      Field ''static_data_buffer_addr'' u64,
      Field ''acpi_param_buffer_addr'' u64,
      Field ''handler_list'' struct_list_head]"

definition struct_prm_module_info :: cty where
  "struct_prm_module_info = CStruct ''prm_module_info'' False
     [Field ''guid'' guid_t,
      Field ''major_rev'' u16,
      Field ''minor_rev'' u16,
      Field ''handler_count'' u16,
      Field ''mmio_info'' (CPtr ''struct prm_mmio_info''),
      Field ''updatable'' bool,
      Field ''module_list'' struct_list_head,
      Field ''handlers'' (CArr 0 struct_prm_handler_info)]"

definition struct_queue_sysfs_entry :: cty where
  "struct_queue_sysfs_entry = CStruct ''queue_sysfs_entry'' False
     [Field ''attr'' struct_attribute,
      Field ''show'' (CPtr ''ssize_t (struct gendisk *, char *)''),
      Field ''show_limit'' (CPtr ''ssize_t (struct gendisk *, char *)''),
      Field ''store'' (CPtr ''ssize_t (struct gendisk *, const char *, size_t)''),
      Field ''store_limit'' (CPtr ''int (struct gendisk *, const char *, size_t, struct queue_limits *)'')]"

definition struct_smp_alt_module :: cty where
  "struct_smp_alt_module = CStruct ''smp_alt_module'' False
     [Field ''mod'' (CPtr ''struct module''),
      Field ''name'' (CPtr ''char''),
      Field ''locks'' (CPtr ''const s32''),
      Field ''locks_end'' (CPtr ''const s32''),
      Field ''text'' (CPtr ''u8''),
      Field ''text_end'' (CPtr ''u8''),
      Field ''next'' struct_list_head]"

definition struct_tdx_module_args :: cty where
  "struct_tdx_module_args = CStruct ''tdx_module_args'' False
     [Field ''rcx'' u64,
      Field ''rdx'' u64,
      Field ''r8'' u64,
      Field ''r9'' u64,
      Field ''r10'' u64,
      Field ''r11'' u64,
      Field ''r12'' u64,
      Field ''r13'' u64,
      Field ''r14'' u64,
      Field ''r15'' u64,
      Field ''rbx'' u64,
      Field ''rdi'' u64,
      Field ''rsi'' u64]"

definition struct_x86_perf_task_context_opt :: cty where
  "struct_x86_perf_task_context_opt = CStruct ''x86_perf_task_context_opt'' False
     [Field ''lbr_callstack_users'' c_int,
      Field ''lbr_stack_state'' c_int,
      Field ''log_id'' c_int]"

definition struct_lbr_entry :: cty where
  "struct_lbr_entry = CStruct ''lbr_entry'' False
     [Field ''from'' u64,
      Field ''to'' u64,
      Field ''info'' u64]"

definition struct_x86_perf_task_context :: cty where
  "struct_x86_perf_task_context = CStruct ''x86_perf_task_context'' False
     [Field ''lbr_sel'' u64,
      Field ''tos'' c_int,
      Field ''valid_lbrs'' c_int,
      Field ''opt'' struct_x86_perf_task_context_opt,
      Field ''lbr'' (CArr 32 struct_lbr_entry)]"

definition struct_fxregs_state :: cty where
  "struct_fxregs_state = CStruct ''fxregs_state'' False
     [Field ''cwd'' u16,
      Field ''swd'' u16,
      Field ''twd'' u16,
      Field ''fop'' u16,
      Field [] (CUnion [] False
        [Field [] (CStruct [] False
           [Field ''rip'' u64,
            Field ''rdp'' u64]),
         Field [] (CStruct [] False
           [Field ''fip'' u32,
            Field ''fcs'' u32,
            Field ''foo'' u32,
            Field ''fos'' u32])]),
      Field ''mxcsr'' u32,
      Field ''mxcsr_mask'' u32,
      Field ''st_space'' (CArr 32 u32),
      Field ''xmm_space'' (CArr 64 u32),
      Field ''padding'' (CArr 12 u32),
      Field [] (CUnion [] False
        [Field ''padding1'' (CArr 12 u32),
         Field ''sw_reserved'' (CArr 12 u32)])]"

definition struct_xstate_header :: cty where
  "struct_xstate_header = CStruct ''xstate_header'' False
     [Field ''xfeatures'' u64,
      Field ''xcomp_bv'' u64,
      Field ''reserved'' (CArr 6 u64)]"

definition struct_xregs_state :: cty where
  "struct_xregs_state = CStruct ''xregs_state'' False
     [Field ''i387'' struct_fxregs_state,
      Field ''header'' struct_xstate_header,
      Field ''extended_state_area'' (CArr 0 u8)]"

definition struct_arch_lbr_state :: cty where
  "struct_arch_lbr_state = CStruct ''arch_lbr_state'' False
     [Field ''lbr_ctl'' u64,
      Field ''lbr_depth'' u64,
      Field ''ler_from'' u64,
      Field ''ler_to'' u64,
      Field ''ler_info'' u64,
      Field ''entries'' (CArr 0 struct_lbr_entry)]"

definition struct_x86_perf_task_context_arch_lbr_xsave :: cty where
  "struct_x86_perf_task_context_arch_lbr_xsave = CStruct ''x86_perf_task_context_arch_lbr_xsave'' False
     [Field ''opt'' struct_x86_perf_task_context_opt,
      BitField [] c_long 64,
      BitField [] c_long 64,
      BitField [] c_long 64,
      BitField [] c_long 64,
      BitField [] c_long 64,
      BitField [] c_long 64,
      Field [] (CUnion [] False
        [Field ''xsave'' struct_xregs_state,
         Field [] (CStruct [] False
           [Field ''i387'' struct_fxregs_state,
            Field ''header'' struct_xstate_header,
            Field ''lbr'' struct_arch_lbr_state,
            BitField [] c_long 64,
            BitField [] c_long 64,
            BitField [] c_long 64])])]"

definition struct_xen_pct_register :: cty where
  "struct_xen_pct_register = CStruct ''xen_pct_register'' False
     [Field ''descriptor'' uint8_t,
      Field ''length'' uint16_t,
      Field ''space_id'' uint8_t,
      Field ''bit_width'' uint8_t,
      Field ''bit_offset'' uint8_t,
      Field ''reserved'' uint8_t,
      Field ''address'' uint64_t]"

definition c__guest_handle_xen_processor_px :: cty where [layout_simps]:
  "c__guest_handle_xen_processor_px = CPtr ''struct xen_processor_px''"

definition struct_xen_psd_package :: cty where
  "struct_xen_psd_package = CStruct ''xen_psd_package'' False
     [Field ''num_entries'' uint64_t,
      Field ''revision'' uint64_t,
      Field ''domain'' uint64_t,
      Field ''coord_type'' uint64_t,
      Field ''num_processors'' uint64_t]"

definition struct_xen_processor_performance :: cty where
  "struct_xen_processor_performance = CStruct ''xen_processor_performance'' False
     [Field ''flags'' uint32_t,
      Field ''platform_limit'' uint32_t,
      Field ''control_register'' struct_xen_pct_register,
      Field ''status_register'' struct_xen_pct_register,
      Field ''state_count'' uint32_t,
      Field ''states'' c__guest_handle_xen_processor_px,
      Field ''domain_info'' struct_xen_psd_package,
      Field ''shared_type'' uint32_t]"

section \<open>Sizes and alignments\<close>

lemma enum_cgroup1_param_layout [layout_simps]:
  "sizeof enum_cgroup1_param = 4 \<and> alignof enum_cgroup1_param = 4 \<and> wf_cty enum_cgroup1_param"
  by (simp add: enum_cgroup1_param_def base_types layout_eval
      del: One_nat_def)

lemma enum_cgroup2_param_layout [layout_simps]:
  "sizeof enum_cgroup2_param = 4 \<and> alignof enum_cgroup2_param = 4 \<and> wf_cty enum_cgroup2_param"
  by (simp add: enum_cgroup2_param_def base_types layout_eval
      del: One_nat_def)

lemma enum_cgroup_subsys_id_layout [layout_simps]:
  "sizeof enum_cgroup_subsys_id = 4 \<and> alignof enum_cgroup_subsys_id = 4 \<and> wf_cty enum_cgroup_subsys_id"
  by (simp add: enum_cgroup_subsys_id_def base_types layout_eval
      del: One_nat_def)

lemma enum_energy_perf_value_index_layout [layout_simps]:
  "sizeof enum_energy_perf_value_index = 4 \<and> alignof enum_energy_perf_value_index = 4 \<and> wf_cty enum_energy_perf_value_index"
  by (simp add: enum_energy_perf_value_index_def base_types layout_eval
      del: One_nat_def)

lemma enum_energy_perf_value_index___2_layout [layout_simps]:
  "sizeof enum_energy_perf_value_index___2 = 4 \<and> alignof enum_energy_perf_value_index___2 = 4 \<and> wf_cty enum_energy_perf_value_index___2"
  by (simp add: enum_energy_perf_value_index___2_def base_types layout_eval
      del: One_nat_def)

lemma enum_energy_perf_value_index___3_layout [layout_simps]:
  "sizeof enum_energy_perf_value_index___3 = 4 \<and> alignof enum_energy_perf_value_index___3 = 4 \<and> wf_cty enum_energy_perf_value_index___3"
  by (simp add: enum_energy_perf_value_index___3_def base_types layout_eval
      del: One_nat_def)

lemma enum_kobject_action_layout [layout_simps]:
  "sizeof enum_kobject_action = 4 \<and> alignof enum_kobject_action = 4 \<and> wf_cty enum_kobject_action"
  by (simp add: enum_kobject_action_def base_types layout_eval
      del: One_nat_def)

lemma enum_md_submodule_id_layout [layout_simps]:
  "sizeof enum_md_submodule_id = 4 \<and> alignof enum_md_submodule_id = 4 \<and> wf_cty enum_md_submodule_id"
  by (simp add: enum_md_submodule_id_def base_types layout_eval
      del: One_nat_def)

lemma enum_perf_branch_sample_type_layout [layout_simps]:
  "sizeof enum_perf_branch_sample_type = 4 \<and> alignof enum_perf_branch_sample_type = 4 \<and> wf_cty enum_perf_branch_sample_type"
  by (simp add: enum_perf_branch_sample_type_def base_types layout_eval
      del: One_nat_def)

lemma enum_perf_branch_sample_type_shift_layout [layout_simps]:
  "sizeof enum_perf_branch_sample_type_shift = 4 \<and> alignof enum_perf_branch_sample_type_shift = 4 \<and> wf_cty enum_perf_branch_sample_type_shift"
  by (simp add: enum_perf_branch_sample_type_shift_def base_types layout_eval
      del: One_nat_def)

lemma enum_perf_callchain_context_layout [layout_simps]:
  "sizeof enum_perf_callchain_context = 8 \<and> alignof enum_perf_callchain_context = 8 \<and> wf_cty enum_perf_callchain_context"
  by (simp add: enum_perf_callchain_context_def base_types layout_eval
      del: One_nat_def)

lemma enum_perf_event_read_format_layout [layout_simps]:
  "sizeof enum_perf_event_read_format = 4 \<and> alignof enum_perf_event_read_format = 4 \<and> wf_cty enum_perf_event_read_format"
  by (simp add: enum_perf_event_read_format_def base_types layout_eval
      del: One_nat_def)

lemma enum_perf_event_sample_format_layout [layout_simps]:
  "sizeof enum_perf_event_sample_format = 4 \<and> alignof enum_perf_event_sample_format = 4 \<and> wf_cty enum_perf_event_sample_format"
  by (simp add: enum_perf_event_sample_format_def base_types layout_eval
      del: One_nat_def)

lemma enum_perf_event_type_layout [layout_simps]:
  "sizeof enum_perf_event_type = 4 \<and> alignof enum_perf_event_type = 4 \<and> wf_cty enum_perf_event_type"
  by (simp add: enum_perf_event_type_def base_types layout_eval
      del: One_nat_def)

lemma enum_perf_event_x86_regs_layout [layout_simps]:
  "sizeof enum_perf_event_x86_regs = 4 \<and> alignof enum_perf_event_x86_regs = 4 \<and> wf_cty enum_perf_event_x86_regs"
  by (simp add: enum_perf_event_x86_regs_def base_types layout_eval
      del: One_nat_def)

lemma enum_perf_hw_cache_id_layout [layout_simps]:
  "sizeof enum_perf_hw_cache_id = 4 \<and> alignof enum_perf_hw_cache_id = 4 \<and> wf_cty enum_perf_hw_cache_id"
  by (simp add: enum_perf_hw_cache_id_def base_types layout_eval
      del: One_nat_def)

lemma enum_perf_hw_id_layout [layout_simps]:
  "sizeof enum_perf_hw_id = 4 \<and> alignof enum_perf_hw_id = 4 \<and> wf_cty enum_perf_hw_id"
  by (simp add: enum_perf_hw_id_def base_types layout_eval
      del: One_nat_def)

lemma enum_perf_msr_id_layout [layout_simps]:
  "sizeof enum_perf_msr_id = 4 \<and> alignof enum_perf_msr_id = 4 \<and> wf_cty enum_perf_msr_id"
  by (simp add: enum_perf_msr_id_def base_types layout_eval
      del: One_nat_def)

lemma enum_perf_pmu_scope_layout [layout_simps]:
  "sizeof enum_perf_pmu_scope = 4 \<and> alignof enum_perf_pmu_scope = 4 \<and> wf_cty enum_perf_pmu_scope"
  by (simp add: enum_perf_pmu_scope_def base_types layout_eval
      del: One_nat_def)

lemma enum_perf_snb_uncore_imc_freerunning_types_layout [layout_simps]:
  "sizeof enum_perf_snb_uncore_imc_freerunning_types = 4 \<and> alignof enum_perf_snb_uncore_imc_freerunning_types = 4 \<and> wf_cty enum_perf_snb_uncore_imc_freerunning_types"
  by (simp add: enum_perf_snb_uncore_imc_freerunning_types_def base_types layout_eval
      del: One_nat_def)

lemma enum_perf_sw_ids_layout [layout_simps]:
  "sizeof enum_perf_sw_ids = 4 \<and> alignof enum_perf_sw_ids = 4 \<and> wf_cty enum_perf_sw_ids"
  by (simp add: enum_perf_sw_ids_def base_types layout_eval
      del: One_nat_def)

lemma enum_perf_type_id_layout [layout_simps]:
  "sizeof enum_perf_type_id = 4 \<and> alignof enum_perf_type_id = 4 \<and> wf_cty enum_perf_type_id"
  by (simp add: enum_perf_type_id_def base_types layout_eval
      del: One_nat_def)

lemma enum_perf_uncore_dmr_iio_freerunning_type_id_layout [layout_simps]:
  "sizeof enum_perf_uncore_dmr_iio_freerunning_type_id = 4 \<and> alignof enum_perf_uncore_dmr_iio_freerunning_type_id = 4 \<and> wf_cty enum_perf_uncore_dmr_iio_freerunning_type_id"
  by (simp add: enum_perf_uncore_dmr_iio_freerunning_type_id_def base_types layout_eval
      del: One_nat_def)

lemma enum_twl4030_module_ids_layout [layout_simps]:
  "sizeof enum_twl4030_module_ids = 4 \<and> alignof enum_twl4030_module_ids = 4 \<and> wf_cty enum_twl4030_module_ids"
  by (simp add: enum_twl4030_module_ids_def base_types layout_eval
      del: One_nat_def)

lemma enum_twl6030_module_ids_layout [layout_simps]:
  "sizeof enum_twl6030_module_ids = 4 \<and> alignof enum_twl6030_module_ids = 4 \<and> wf_cty enum_twl6030_module_ids"
  by (simp add: enum_twl6030_module_ids_def base_types layout_eval
      del: One_nat_def)

lemma enum_twl_module_ids_layout [layout_simps]:
  "sizeof enum_twl_module_ids = 4 \<and> alignof enum_twl_module_ids = 4 \<and> wf_cty enum_twl_module_ids"
  by (simp add: enum_twl_module_ids_def base_types layout_eval
      del: One_nat_def)

lemma struct_acpi_device_perf_state_layout [layout_simps]:
  "sizeof struct_acpi_device_perf_state = 8 \<and> alignof struct_acpi_device_perf_state = 4 \<and> wf_cty struct_acpi_device_perf_state"
  by (simp add: struct_acpi_device_perf_state_def base_types layout_eval u8_def c__u8_def
      del: One_nat_def)

lemma struct_acpi_prmt_module_info_layout [layout_simps]:
  "sizeof struct_acpi_prmt_module_info = 38 \<and> alignof struct_acpi_prmt_module_info = 1 \<and> wf_cty struct_acpi_prmt_module_info"
  by (simp add: struct_acpi_prmt_module_info_def base_types layout_eval u16_def c__u16_def u8_def c__u8_def u32_def
      c__u32_def u64_def c__u64_def
      del: One_nat_def)

lemma struct_acpi_pct_register_layout [layout_simps]:
  "sizeof struct_acpi_pct_register = 15 \<and> alignof struct_acpi_pct_register = 1 \<and> wf_cty struct_acpi_pct_register"
  by (simp add: struct_acpi_pct_register_def base_types layout_eval u8_def c__u8_def u16_def c__u16_def u64_def
      c__u64_def
      del: One_nat_def)

lemma struct_acpi_psd_package_layout [layout_simps]:
  "sizeof struct_acpi_psd_package = 40 \<and> alignof struct_acpi_psd_package = 8 \<and> wf_cty struct_acpi_psd_package"
  by (simp add: struct_acpi_psd_package_def base_types layout_eval u64_def c__u64_def
      del: One_nat_def)

lemma struct_acpi_processor_performance_layout [layout_simps]:
  "sizeof struct_acpi_processor_performance = 112 \<and> alignof struct_acpi_processor_performance = 8 \<and> wf_cty struct_acpi_processor_performance"
  by (simp add: struct_acpi_processor_performance_def base_types layout_eval struct_acpi_pct_register_layout
      struct_acpi_psd_package_layout cpumask_var_t_def
      del: One_nat_def)

lemma union_perf_cached_layout [layout_simps]:
  "sizeof union_perf_cached = 8 \<and> alignof union_perf_cached = 8 \<and> wf_cty union_perf_cached"
  by (simp add: union_perf_cached_def base_types layout_eval u8_def c__u8_def u64_def c__u64_def
      del: One_nat_def)

lemma struct_aperfmperf_layout [layout_simps]:
  "sizeof struct_aperfmperf = 48 \<and> alignof struct_aperfmperf = 8 \<and> wf_cty struct_aperfmperf"
  by (simp add: struct_aperfmperf_def base_types layout_eval seqcount_t_def struct_seqcount_layout u64_def c__u64_def
      del: One_nat_def)

lemma struct_fpdt_record_header_layout [layout_simps]:
  "sizeof struct_fpdt_record_header = 4 \<and> alignof struct_fpdt_record_header = 2 \<and> wf_cty struct_fpdt_record_header"
  by (simp add: struct_fpdt_record_header_def base_types layout_eval u16_def c__u16_def u8_def c__u8_def
      del: One_nat_def)

lemma struct_boot_performance_record_layout [layout_simps]:
  "sizeof struct_boot_performance_record = 48 \<and> alignof struct_boot_performance_record = 8 \<and> wf_cty struct_boot_performance_record"
  by (simp add: struct_boot_performance_record_def base_types layout_eval struct_fpdt_record_header_layout u32_def
      c__u32_def u64_def c__u64_def
      del: One_nat_def)

lemma union_perf_sample_weight_layout [layout_simps]:
  "sizeof union_perf_sample_weight = 8 \<and> alignof union_perf_sample_weight = 8 \<and> wf_cty union_perf_sample_weight"
  by (simp add: union_perf_sample_weight_def base_types layout_eval c__u64_def c__u32_def c__u16_def
      del: One_nat_def)

lemma union_perf_mem_data_src_layout [layout_simps]:
  "sizeof union_perf_mem_data_src = 8 \<and> alignof union_perf_mem_data_src = 8 \<and> wf_cty union_perf_mem_data_src"
  by (simp add: union_perf_mem_data_src_def base_types layout_eval c__u64_def
      del: One_nat_def)

lemma struct_perf_regs_layout [layout_simps]:
  "sizeof struct_perf_regs = 16 \<and> alignof struct_perf_regs = 8 \<and> wf_cty struct_perf_regs"
  by (simp add: struct_perf_regs_def base_types layout_eval c__u64_def
      del: One_nat_def)

lemma struct_perf_sample_data_layout [layout_simps]:
  "sizeof struct_perf_sample_data = 256 \<and> alignof struct_perf_sample_data = 8 \<and> wf_cty struct_perf_sample_data"
  by (simp add: struct_perf_sample_data_def base_types layout_eval u64_def c__u64_def u32_def c__u32_def
      union_perf_sample_weight_layout union_perf_mem_data_src_layout struct_perf_regs_layout
      del: One_nat_def)

lemma struct_perf_output_handle_layout [layout_simps]:
  "sizeof struct_perf_output_handle = 56 \<and> alignof struct_perf_output_handle = 8 \<and> wf_cty struct_perf_output_handle"
  by (simp add: struct_perf_output_handle_def base_types layout_eval u64_def c__u64_def
      del: One_nat_def)

lemma struct_css_task_iter_layout [layout_simps]:
  "sizeof struct_css_task_iter = 104 \<and> alignof struct_css_task_iter = 8 \<and> wf_cty struct_css_task_iter"
  by (simp add: struct_css_task_iter_def base_types layout_eval struct_list_head_layout
      del: One_nat_def)

lemma struct_cgroup_of_peak_layout [layout_simps]:
  "sizeof struct_cgroup_of_peak = 24 \<and> alignof struct_cgroup_of_peak = 8 \<and> wf_cty struct_cgroup_of_peak"
  by (simp add: struct_cgroup_of_peak_def base_types layout_eval struct_list_head_layout
      del: One_nat_def)

lemma struct_cgroup_file_ctx_layout [layout_simps]:
  "sizeof struct_cgroup_file_ctx = 160 \<and> alignof struct_cgroup_file_ctx = 8 \<and> wf_cty struct_cgroup_file_ctx"
  by (simp add: struct_cgroup_file_ctx_def base_types layout_eval bool_def struct_css_task_iter_layout
      struct_cgroup_of_peak_layout
      del: One_nat_def)

lemma struct_kernfs_fs_context_layout [layout_simps]:
  "sizeof struct_kernfs_fs_context = 32 \<and> alignof struct_kernfs_fs_context = 8 \<and> wf_cty struct_kernfs_fs_context"
  by (simp add: struct_kernfs_fs_context_def base_types layout_eval bool_def
      del: One_nat_def)

lemma struct_cgroup_fs_context_layout [layout_simps]:
  "sizeof struct_cgroup_fs_context = 80 \<and> alignof struct_cgroup_fs_context = 8 \<and> wf_cty struct_cgroup_fs_context"
  by (simp add: struct_cgroup_fs_context_def base_types layout_eval struct_kernfs_fs_context_layout bool_def u32_def
      c__u32_def
      del: One_nat_def)

lemma struct_cgroup_taskset_layout [layout_simps]:
  "sizeof struct_cgroup_taskset = 64 \<and> alignof struct_cgroup_taskset = 8 \<and> wf_cty struct_cgroup_taskset"
  by (simp add: struct_cgroup_taskset_def base_types layout_eval struct_list_head_layout
      del: One_nat_def)

lemma enum_cgroup_filetype_layout [layout_simps]:
  "sizeof enum_cgroup_filetype = 4 \<and> alignof enum_cgroup_filetype = 4 \<and> wf_cty enum_cgroup_filetype"
  by (simp add: enum_cgroup_filetype_def base_types layout_eval
      del: One_nat_def)

lemma struct_cgroup_pidlist_layout [layout_simps]:
  "sizeof struct_cgroup_pidlist = 144 \<and> alignof struct_cgroup_pidlist = 8 \<and> wf_cty struct_cgroup_pidlist"
  by (simp add: struct_cgroup_pidlist_def base_types layout_eval enum_cgroup_filetype_layout struct_list_head_layout
      struct_delayed_work_layout
      del: One_nat_def)

lemma struct_cgroupstats_layout [layout_simps]:
  "sizeof struct_cgroupstats = 40 \<and> alignof struct_cgroupstats = 8 \<and> wf_cty struct_cgroupstats"
  by (simp add: struct_cgroupstats_def base_types layout_eval c__u64_def
      del: One_nat_def)

lemma struct_cppc_perf_caps_layout [layout_simps]:
  "sizeof struct_cppc_perf_caps = 28 \<and> alignof struct_cppc_perf_caps = 4 \<and> wf_cty struct_cppc_perf_caps"
  by (simp add: struct_cppc_perf_caps_def base_types layout_eval u32_def c__u32_def
      del: One_nat_def)

lemma struct_cppc_perf_ctrls_layout [layout_simps]:
  "sizeof struct_cppc_perf_ctrls = 20 \<and> alignof struct_cppc_perf_ctrls = 4 \<and> wf_cty struct_cppc_perf_ctrls"
  by (simp add: struct_cppc_perf_ctrls_def base_types layout_eval u32_def c__u32_def bool_def
      del: One_nat_def)

lemma struct_perf_branch_entry_layout [layout_simps]:
  "sizeof struct_perf_branch_entry = 24 \<and> alignof struct_perf_branch_entry = 8 \<and> wf_cty struct_perf_branch_entry"
  by (simp add: struct_perf_branch_entry_def base_types layout_eval c__u64_def
      del: One_nat_def)

lemma struct_cpuidle_state_kobj_layout [layout_simps]:
  "sizeof struct_cpuidle_state_kobj = 120 \<and> alignof struct_cpuidle_state_kobj = 8 \<and> wf_cty struct_cpuidle_state_kobj"
  by (simp add: struct_cpuidle_state_kobj_def base_types layout_eval struct_completion_layout struct_kobject_layout
      del: One_nat_def)

lemma struct_cxl_event_record_hdr_layout [layout_simps]:
  "sizeof struct_cxl_event_record_hdr = 32 \<and> alignof struct_cxl_event_record_hdr = 8 \<and> wf_cty struct_cxl_event_record_hdr"
  by (simp add: struct_cxl_event_record_hdr_def base_types layout_eval u8_def c__u8_def c__le16_def c__u16_def
      c__le64_def c__u64_def
      del: One_nat_def)

lemma struct_cxl_get_health_info_layout [layout_simps]:
  "sizeof struct_cxl_get_health_info = 18 \<and> alignof struct_cxl_get_health_info = 1 \<and> wf_cty struct_cxl_get_health_info"
  by (simp add: struct_cxl_get_health_info_def base_types layout_eval u8_def c__u8_def
      del: One_nat_def)

lemma struct_cxl_event_mem_module_layout [layout_simps]:
  "sizeof struct_cxl_event_mem_module = 112 \<and> alignof struct_cxl_event_mem_module = 8 \<and> wf_cty struct_cxl_event_mem_module"
  by (simp add: struct_cxl_event_mem_module_def base_types layout_eval struct_cxl_event_record_hdr_layout u8_def
      c__u8_def struct_cxl_get_health_info_layout
      del: One_nat_def)

lemma struct_kobj_uevent_env_layout [layout_simps]:
  "sizeof struct_kobj_uevent_env = 2592 \<and> alignof struct_kobj_uevent_env = 8 \<and> wf_cty struct_kobj_uevent_env"
  by (simp add: struct_kobj_uevent_env_def base_types layout_eval
      del: One_nat_def)

lemma struct_dm_uevent_layout [layout_simps]:
  "sizeof struct_dm_uevent = 2888 \<and> alignof struct_dm_uevent = 8 \<and> wf_cty struct_dm_uevent"
  by (simp add: struct_dm_uevent_def base_types layout_eval enum_kobject_action_layout struct_kobj_uevent_env_layout
      struct_list_head_layout
      del: One_nat_def)

lemma struct_dmem_cgroup_pool_state_layout [layout_simps]:
  "sizeof struct_dmem_cgroup_pool_state = 320 \<and> alignof struct_dmem_cgroup_pool_state = 8 \<and> wf_cty struct_dmem_cgroup_pool_state"
  by (simp add: struct_dmem_cgroup_pool_state_def base_types layout_eval struct_list_head_layout
      struct_callback_head_layout struct_page_counter_layout refcount_t_def struct_refcount_struct_layout
      bool_def
      del: One_nat_def)

lemma struct_dmem_cgroup_region_layout [layout_simps]:
  "sizeof struct_dmem_cgroup_region = 80 \<and> alignof struct_dmem_cgroup_region = 8 \<and> wf_cty struct_dmem_cgroup_region"
  by (simp add: struct_dmem_cgroup_region_def base_types layout_eval struct_kref_layout struct_callback_head_layout
      struct_list_head_layout u64_def c__u64_def bool_def
      del: One_nat_def)

lemma struct_ethtool_module_eeprom_layout [layout_simps]:
  "sizeof struct_ethtool_module_eeprom = 24 \<and> alignof struct_ethtool_module_eeprom = 8 \<and> wf_cty struct_ethtool_module_eeprom"
  by (simp add: struct_ethtool_module_eeprom_def base_types layout_eval u32_def c__u32_def u8_def c__u8_def
      del: One_nat_def)

lemma struct_fw_sysfs_layout [layout_simps]:
  "sizeof struct_fw_sysfs = 840 \<and> alignof struct_fw_sysfs = 8 \<and> wf_cty struct_fw_sysfs"
  by (simp add: struct_fw_sysfs_def base_types layout_eval bool_def struct_device_layout
      del: One_nat_def)

lemma struct_hugetlb_cgroup_layout [layout_simps]:
  "sizeof struct_hugetlb_cgroup = 1280 \<and> alignof struct_hugetlb_cgroup = 8 \<and> wf_cty struct_hugetlb_cgroup"
  by (simp add: struct_hugetlb_cgroup_def base_types layout_eval struct_cgroup_subsys_state_layout
      struct_page_counter_layout atomic_long_t_def atomic64_t_layout struct_cgroup_file_layout
      del: One_nat_def)

lemma struct_hyp_sysfs_attr_layout [layout_simps]:
  "sizeof struct_hyp_sysfs_attr = 40 \<and> alignof struct_hyp_sysfs_attr = 8 \<and> wf_cty struct_hyp_sysfs_attr"
  by (simp add: struct_hyp_sysfs_attr_def base_types layout_eval struct_attribute_layout
      del: One_nat_def)

lemma struct_module_signature_layout [layout_simps]:
  "sizeof struct_module_signature = 12 \<and> alignof struct_module_signature = 4 \<and> wf_cty struct_module_signature"
  by (simp add: struct_module_signature_def base_types layout_eval u8_def c__u8_def c__be32_def c__u32_def
      del: One_nat_def)

lemma enum_perf_addr_filter_action_t_layout [layout_simps]:
  "sizeof enum_perf_addr_filter_action_t = 4 \<and> alignof enum_perf_addr_filter_action_t = 4 \<and> wf_cty enum_perf_addr_filter_action_t"
  by (simp add: enum_perf_addr_filter_action_t_def base_types layout_eval
      del: One_nat_def)

lemma struct_perf_addr_filter_layout [layout_simps]:
  "sizeof struct_perf_addr_filter = 56 \<and> alignof struct_perf_addr_filter = 8 \<and> wf_cty struct_perf_addr_filter"
  by (simp add: struct_perf_addr_filter_def base_types layout_eval struct_list_head_layout struct_path_layout
      enum_perf_addr_filter_action_t_layout
      del: One_nat_def)

lemma struct_perf_amd_iommu_layout [layout_simps]:
  "sizeof struct_perf_amd_iommu = 392 \<and> alignof struct_perf_amd_iommu = 8 \<and> wf_cty struct_perf_amd_iommu"
  by (simp add: struct_perf_amd_iommu_def base_types layout_eval struct_list_head_layout struct_pmu_layout u8_def
      c__u8_def u64_def c__u64_def raw_spinlock_t_def struct_raw_spinlock_layout
      del: One_nat_def)

lemma struct_perf_callchain_deferred_event_layout [layout_simps]:
  "sizeof struct_perf_callchain_deferred_event = 32 \<and> alignof struct_perf_callchain_deferred_event = 8 \<and> wf_cty struct_perf_callchain_deferred_event"
  by (simp add: struct_perf_callchain_deferred_event_def base_types layout_eval struct_perf_event_header_layout u64_def
      c__u64_def
      del: One_nat_def)

lemma struct_perf_callchain_entry_ctx_layout [layout_simps]:
  "sizeof struct_perf_callchain_entry_ctx = 24 \<and> alignof struct_perf_callchain_entry_ctx = 8 \<and> wf_cty struct_perf_callchain_entry_ctx"
  by (simp add: struct_perf_callchain_entry_ctx_def base_types layout_eval u32_def c__u32_def bool_def
      del: One_nat_def)

lemma union_perf_capabilities_layout [layout_simps]:
  "sizeof union_perf_capabilities = 8 \<and> alignof union_perf_capabilities = 8 \<and> wf_cty union_perf_capabilities"
  by (simp add: union_perf_capabilities_def base_types layout_eval u64_def c__u64_def
      del: One_nat_def)

lemma struct_perf_cgroup_event_layout [layout_simps]:
  "sizeof struct_perf_cgroup_event = 32 \<and> alignof struct_perf_cgroup_event = 8 \<and> wf_cty struct_perf_cgroup_event"
  by (simp add: struct_perf_cgroup_event_def base_types layout_eval struct_perf_event_header_layout u64_def c__u64_def
      del: One_nat_def)

lemma struct_perf_comm_event_layout [layout_simps]:
  "sizeof struct_perf_comm_event = 40 \<and> alignof struct_perf_comm_event = 8 \<and> wf_cty struct_perf_comm_event"
  by (simp add: struct_perf_comm_event_def base_types layout_eval struct_perf_event_header_layout u32_def c__u32_def
      del: One_nat_def)

lemma struct_perf_cpu_context_layout [layout_simps]:
  "sizeof struct_perf_cpu_context = 304 \<and> alignof struct_perf_cpu_context = 8 \<and> wf_cty struct_perf_cpu_context"
  by (simp add: struct_perf_cpu_context_def base_types layout_eval struct_perf_event_context_layout
      del: One_nat_def)

lemma struct_perf_ibs_layout [layout_simps]:
  "sizeof struct_perf_ibs = 408 \<and> alignof struct_perf_ibs = 8 \<and> wf_cty struct_perf_ibs"
  by (simp add: struct_perf_ibs_def base_types layout_eval struct_pmu_layout u64_def c__u64_def u16_def c__u16_def
      del: One_nat_def)

lemma struct_perf_ibs_data_layout [layout_simps]:
  "sizeof struct_perf_ibs_data = 72 \<and> alignof struct_perf_ibs_data = 8 \<and> wf_cty struct_perf_ibs_data"
  by (simp add: struct_perf_ibs_data_def base_types layout_eval u32_def c__u32_def u64_def c__u64_def
      del: One_nat_def)

lemma struct_perf_ksymbol_event_layout [layout_simps]:
  "sizeof struct_perf_ksymbol_event = 40 \<and> alignof struct_perf_ksymbol_event = 8 \<and> wf_cty struct_perf_ksymbol_event"
  by (simp add: struct_perf_ksymbol_event_def base_types layout_eval struct_perf_event_header_layout u64_def c__u64_def
      u32_def c__u32_def u16_def c__u16_def
      del: One_nat_def)

lemma struct_perf_mmap_event_layout [layout_simps]:
  "sizeof struct_perf_mmap_event = 120 \<and> alignof struct_perf_mmap_event = 8 \<and> wf_cty struct_perf_mmap_event"
  by (simp add: struct_perf_mmap_event_def base_types layout_eval u64_def c__u64_def u32_def c__u32_def u8_def c__u8_def
      struct_perf_event_header_layout
      del: One_nat_def)

lemma struct_perf_msr_layout [layout_simps]:
  "sizeof struct_perf_msr = 40 \<and> alignof struct_perf_msr = 8 \<and> wf_cty struct_perf_msr"
  by (simp add: struct_perf_msr_def base_types layout_eval u64_def c__u64_def bool_def
      del: One_nat_def)

lemma struct_perf_ns_link_info_layout [layout_simps]:
  "sizeof struct_perf_ns_link_info = 16 \<and> alignof struct_perf_ns_link_info = 8 \<and> wf_cty struct_perf_ns_link_info"
  by (simp add: struct_perf_ns_link_info_def base_types layout_eval c__u64_def
      del: One_nat_def)

lemma struct_perf_namespaces_event_layout [layout_simps]:
  "sizeof struct_perf_namespaces_event = 144 \<and> alignof struct_perf_namespaces_event = 8 \<and> wf_cty struct_perf_namespaces_event"
  by (simp add: struct_perf_namespaces_event_def base_types layout_eval struct_perf_event_header_layout u32_def
      c__u32_def u64_def c__u64_def struct_perf_ns_link_info_layout
      del: One_nat_def)

lemma struct_perf_raw_frag_layout [layout_simps]:
  "sizeof struct_perf_raw_frag = 28 \<and> alignof struct_perf_raw_frag = 1 \<and> wf_cty struct_perf_raw_frag"
  by (simp add: struct_perf_raw_frag_def base_types layout_eval perf_copy_f_def u32_def c__u32_def
      del: One_nat_def)

lemma struct_sched_state_layout [layout_simps]:
  "sizeof struct_sched_state = 32 \<and> alignof struct_sched_state = 8 \<and> wf_cty struct_sched_state"
  by (simp add: struct_sched_state_def base_types layout_eval u64_def c__u64_def
      del: One_nat_def)

lemma struct_perf_sched_layout [layout_simps]:
  "sizeof struct_perf_sched = 120 \<and> alignof struct_perf_sched = 8 \<and> wf_cty struct_perf_sched"
  by (simp add: struct_perf_sched_def base_types layout_eval struct_sched_state_layout
      del: One_nat_def)

lemma struct_perf_switch_event_layout [layout_simps]:
  "sizeof struct_perf_switch_event = 32 \<and> alignof struct_perf_switch_event = 8 \<and> wf_cty struct_perf_switch_event"
  by (simp add: struct_perf_switch_event_def base_types layout_eval struct_perf_event_header_layout u32_def c__u32_def
      del: One_nat_def)

lemma struct_perf_task_event_layout [layout_simps]:
  "sizeof struct_perf_task_event = 48 \<and> alignof struct_perf_task_event = 8 \<and> wf_cty struct_perf_task_event"
  by (simp add: struct_perf_task_event_def base_types layout_eval struct_perf_event_header_layout u32_def c__u32_def
      u64_def c__u64_def
      del: One_nat_def)

lemma struct_perf_text_poke_event_layout [layout_simps]:
  "sizeof struct_perf_text_poke_event = 48 \<and> alignof struct_perf_text_poke_event = 8 \<and> wf_cty struct_perf_text_poke_event"
  by (simp add: struct_perf_text_poke_event_def base_types layout_eval size_t_def c__kernel_size_t_def
      c__kernel_ulong_t_def u16_def c__u16_def struct_perf_event_header_layout u64_def c__u64_def
      del: One_nat_def)

lemma struct_pids_cgroup_layout [layout_simps]:
  "sizeof struct_pids_cgroup = 376 \<and> alignof struct_pids_cgroup = 8 \<and> wf_cty struct_pids_cgroup"
  by (simp add: struct_pids_cgroup_def base_types layout_eval struct_cgroup_subsys_state_layout atomic64_t_layout
      int64_t_def s64_def c__s64_def struct_cgroup_file_layout
      del: One_nat_def)

lemma guid_t_layout [layout_simps]:
  "sizeof guid_t = 16 \<and> alignof guid_t = 1 \<and> wf_cty guid_t"
  by (simp add: guid_t_def base_types layout_eval c__u8_def
      del: One_nat_def)

lemma struct_prm_handler_info_layout [layout_simps]:
  "sizeof struct_prm_handler_info = 56 \<and> alignof struct_prm_handler_info = 8 \<and> wf_cty struct_prm_handler_info"
  by (simp add: struct_prm_handler_info_def base_types layout_eval efi_guid_t_def guid_t_layout u64_def c__u64_def
      struct_list_head_layout
      del: One_nat_def)

lemma struct_prm_module_info_layout [layout_simps]:
  "sizeof struct_prm_module_info = 56 \<and> alignof struct_prm_module_info = 8 \<and> wf_cty struct_prm_module_info"
  by (simp add: struct_prm_module_info_def base_types layout_eval guid_t_layout u16_def c__u16_def bool_def
      struct_list_head_layout struct_prm_handler_info_layout
      del: One_nat_def)

lemma struct_queue_sysfs_entry_layout [layout_simps]:
  "sizeof struct_queue_sysfs_entry = 48 \<and> alignof struct_queue_sysfs_entry = 8 \<and> wf_cty struct_queue_sysfs_entry"
  by (simp add: struct_queue_sysfs_entry_def base_types layout_eval struct_attribute_layout
      del: One_nat_def)

lemma struct_smp_alt_module_layout [layout_simps]:
  "sizeof struct_smp_alt_module = 64 \<and> alignof struct_smp_alt_module = 8 \<and> wf_cty struct_smp_alt_module"
  by (simp add: struct_smp_alt_module_def base_types layout_eval struct_list_head_layout
      del: One_nat_def)

lemma struct_tdx_module_args_layout [layout_simps]:
  "sizeof struct_tdx_module_args = 104 \<and> alignof struct_tdx_module_args = 8 \<and> wf_cty struct_tdx_module_args"
  by (simp add: struct_tdx_module_args_def base_types layout_eval u64_def c__u64_def
      del: One_nat_def)

lemma struct_x86_perf_task_context_opt_layout [layout_simps]:
  "sizeof struct_x86_perf_task_context_opt = 12 \<and> alignof struct_x86_perf_task_context_opt = 4 \<and> wf_cty struct_x86_perf_task_context_opt"
  by (simp add: struct_x86_perf_task_context_opt_def base_types layout_eval
      del: One_nat_def)

lemma struct_lbr_entry_layout [layout_simps]:
  "sizeof struct_lbr_entry = 24 \<and> alignof struct_lbr_entry = 8 \<and> wf_cty struct_lbr_entry"
  by (simp add: struct_lbr_entry_def base_types layout_eval u64_def c__u64_def
      del: One_nat_def)

lemma struct_x86_perf_task_context_layout [layout_simps]:
  "sizeof struct_x86_perf_task_context = 800 \<and> alignof struct_x86_perf_task_context = 8 \<and> wf_cty struct_x86_perf_task_context"
  by (simp add: struct_x86_perf_task_context_def base_types layout_eval u64_def c__u64_def
      struct_x86_perf_task_context_opt_layout struct_lbr_entry_layout
      del: One_nat_def)

lemma struct_fxregs_state_layout [layout_simps]:
  "sizeof struct_fxregs_state = 512 \<and> alignof struct_fxregs_state = 8 \<and> wf_cty struct_fxregs_state"
  by (simp add: struct_fxregs_state_def base_types layout_eval u16_def c__u16_def u64_def c__u64_def u32_def c__u32_def
      del: One_nat_def)

lemma struct_xstate_header_layout [layout_simps]:
  "sizeof struct_xstate_header = 64 \<and> alignof struct_xstate_header = 8 \<and> wf_cty struct_xstate_header"
  by (simp add: struct_xstate_header_def base_types layout_eval u64_def c__u64_def
      del: One_nat_def)

lemma struct_xregs_state_layout [layout_simps]:
  "sizeof struct_xregs_state = 576 \<and> alignof struct_xregs_state = 8 \<and> wf_cty struct_xregs_state"
  by (simp add: struct_xregs_state_def base_types layout_eval struct_fxregs_state_layout struct_xstate_header_layout
      u8_def c__u8_def
      del: One_nat_def)

lemma struct_arch_lbr_state_layout [layout_simps]:
  "sizeof struct_arch_lbr_state = 40 \<and> alignof struct_arch_lbr_state = 8 \<and> wf_cty struct_arch_lbr_state"
  by (simp add: struct_arch_lbr_state_def base_types layout_eval u64_def c__u64_def struct_lbr_entry_layout
      del: One_nat_def)

lemma struct_x86_perf_task_context_arch_lbr_xsave_layout [layout_simps]:
  "sizeof struct_x86_perf_task_context_arch_lbr_xsave = 704 \<and> alignof struct_x86_perf_task_context_arch_lbr_xsave = 8 \<and> wf_cty struct_x86_perf_task_context_arch_lbr_xsave"
  by (simp add: struct_x86_perf_task_context_arch_lbr_xsave_def base_types layout_eval
      struct_x86_perf_task_context_opt_layout struct_xregs_state_layout struct_fxregs_state_layout
      struct_xstate_header_layout struct_arch_lbr_state_layout
      del: One_nat_def)

lemma struct_xen_pct_register_layout [layout_simps]:
  "sizeof struct_xen_pct_register = 16 \<and> alignof struct_xen_pct_register = 8 \<and> wf_cty struct_xen_pct_register"
  by (simp add: struct_xen_pct_register_def base_types layout_eval uint8_t_def u8_def c__u8_def uint16_t_def u16_def
      c__u16_def uint64_t_def u64_def c__u64_def
      del: One_nat_def)

lemma struct_xen_psd_package_layout [layout_simps]:
  "sizeof struct_xen_psd_package = 40 \<and> alignof struct_xen_psd_package = 8 \<and> wf_cty struct_xen_psd_package"
  by (simp add: struct_xen_psd_package_def base_types layout_eval uint64_t_def u64_def c__u64_def
      del: One_nat_def)

lemma struct_xen_processor_performance_layout [layout_simps]:
  "sizeof struct_xen_processor_performance = 104 \<and> alignof struct_xen_processor_performance = 8 \<and> wf_cty struct_xen_processor_performance"
  by (simp add: struct_xen_processor_performance_def base_types layout_eval uint32_t_def u32_def c__u32_def
      struct_xen_pct_register_layout c__guest_handle_xen_processor_px_def struct_xen_psd_package_layout
      del: One_nat_def)

end
