(* ===== verification/KernelLarged.thy ===== *)
theory KernelLarged
  imports KernelLargec KernelSubRun
begin

text \<open>
  Types of other subsystems in \<^verbatim>\<open>bpf/vmlinux.h\<close>: those that take 25 lines and more there, with every type they
  hold by value (part 4 of 10).
\<close>

section \<open>Types\<close>

definition struct_aml_resource_dma :: cty where
  "struct_aml_resource_dma = CStruct ''aml_resource_dma'' False
     [Field ''descriptor_type'' u8,
      Field ''dma_channel_mask'' u8,
      Field ''flags'' u8]"

definition struct_aml_resource_start_dependent :: cty where
  "struct_aml_resource_start_dependent = CStruct ''aml_resource_start_dependent'' False
     [Field ''descriptor_type'' u8,
      Field ''flags'' u8]"

definition struct_aml_resource_end_dependent :: cty where
  "struct_aml_resource_end_dependent = CStruct ''aml_resource_end_dependent'' False
     [Field ''descriptor_type'' u8]"

definition struct_aml_resource_io :: cty where
  "struct_aml_resource_io = CStruct ''aml_resource_io'' False
     [Field ''descriptor_type'' u8,
      Field ''flags'' u8,
      Field ''minimum'' u16,
      Field ''maximum'' u16,
      Field ''alignment'' u8,
      Field ''address_length'' u8]"

definition struct_aml_resource_fixed_io :: cty where
  "struct_aml_resource_fixed_io = CStruct ''aml_resource_fixed_io'' True
     [Field ''descriptor_type'' u8,
      Field ''address'' u16,
      Field ''address_length'' u8]"

definition struct_aml_resource_fixed_dma :: cty where
  "struct_aml_resource_fixed_dma = CStruct ''aml_resource_fixed_dma'' True
     [Field ''descriptor_type'' u8,
      Field ''request_lines'' u16,
      Field ''channels'' u16,
      Field ''width'' u8]"

definition struct_aml_resource_vendor_small :: cty where
  "struct_aml_resource_vendor_small = CStruct ''aml_resource_vendor_small'' False
     [Field ''descriptor_type'' u8]"

definition struct_aml_resource_end_tag :: cty where
  "struct_aml_resource_end_tag = CStruct ''aml_resource_end_tag'' False
     [Field ''descriptor_type'' u8,
      Field ''checksum'' u8]"

definition struct_aml_resource_memory24 :: cty where
  "struct_aml_resource_memory24 = CStruct ''aml_resource_memory24'' True
     [Field ''descriptor_type'' u8,
      Field ''resource_length'' u16,
      Field ''flags'' u8,
      Field ''minimum'' u16,
      Field ''maximum'' u16,
      Field ''alignment'' u16,
      Field ''address_length'' u16]"

definition struct_aml_resource_generic_register :: cty where
  "struct_aml_resource_generic_register = CStruct ''aml_resource_generic_register'' True
     [Field ''descriptor_type'' u8,
      Field ''resource_length'' u16,
      Field ''address_space_id'' u8,
      Field ''bit_width'' u8,
      Field ''bit_offset'' u8,
      Field ''access_size'' u8,
      Field ''address'' u64]"

definition struct_aml_resource_vendor_large :: cty where
  "struct_aml_resource_vendor_large = CStruct ''aml_resource_vendor_large'' True
     [Field ''descriptor_type'' u8,
      Field ''resource_length'' u16]"

definition struct_aml_resource_memory32 :: cty where
  "struct_aml_resource_memory32 = CStruct ''aml_resource_memory32'' True
     [Field ''descriptor_type'' u8,
      Field ''resource_length'' u16,
      Field ''flags'' u8,
      Field ''minimum'' u32,
      Field ''maximum'' u32,
      Field ''alignment'' u32,
      Field ''address_length'' u32]"

definition struct_aml_resource_fixed_memory32 :: cty where
  "struct_aml_resource_fixed_memory32 = CStruct ''aml_resource_fixed_memory32'' True
     [Field ''descriptor_type'' u8,
      Field ''resource_length'' u16,
      Field ''flags'' u8,
      Field ''address'' u32,
      Field ''address_length'' u32]"

definition struct_aml_resource_address16 :: cty where
  "struct_aml_resource_address16 = CStruct ''aml_resource_address16'' True
     [Field ''descriptor_type'' u8,
      Field ''resource_length'' u16,
      Field ''resource_type'' u8,
      Field ''flags'' u8,
      Field ''specific_flags'' u8,
      Field ''granularity'' u16,
      Field ''minimum'' u16,
      Field ''maximum'' u16,
      Field ''translation_offset'' u16,
      Field ''address_length'' u16]"

definition struct_aml_resource_address32 :: cty where
  "struct_aml_resource_address32 = CStruct ''aml_resource_address32'' True
     [Field ''descriptor_type'' u8,
      Field ''resource_length'' u16,
      Field ''resource_type'' u8,
      Field ''flags'' u8,
      Field ''specific_flags'' u8,
      Field ''granularity'' u32,
      Field ''minimum'' u32,
      Field ''maximum'' u32,
      Field ''translation_offset'' u32,
      Field ''address_length'' u32]"

definition struct_aml_resource_address64 :: cty where
  "struct_aml_resource_address64 = CStruct ''aml_resource_address64'' True
     [Field ''descriptor_type'' u8,
      Field ''resource_length'' u16,
      Field ''resource_type'' u8,
      Field ''flags'' u8,
      Field ''specific_flags'' u8,
      Field ''granularity'' u64,
      Field ''minimum'' u64,
      Field ''maximum'' u64,
      Field ''translation_offset'' u64,
      Field ''address_length'' u64]"

definition struct_aml_resource_extended_address64 :: cty where
  "struct_aml_resource_extended_address64 = CStruct ''aml_resource_extended_address64'' True
     [Field ''descriptor_type'' u8,
      Field ''resource_length'' u16,
      Field ''resource_type'' u8,
      Field ''flags'' u8,
      Field ''specific_flags'' u8,
      Field ''revision_ID'' u8,
      Field ''reserved'' u8,
      Field ''granularity'' u64,
      Field ''minimum'' u64,
      Field ''maximum'' u64,
      Field ''translation_offset'' u64,
      Field ''address_length'' u64,
      Field ''type_specific'' u64]"

definition struct_aml_resource_extended_irq :: cty where
  "struct_aml_resource_extended_irq = CStruct ''aml_resource_extended_irq'' True
     [Field ''descriptor_type'' u8,
      Field ''resource_length'' u16,
      Field ''flags'' u8,
      Field ''interrupt_count'' u8,
      Field [] (CUnion [] False
        [Field ''interrupt'' u32,
         Field [] (CStruct [] False
           [Field ''__Empty_interrupts'' (CStruct [] False
              []),
            Field ''interrupts'' (CArr 0 u32)])])]"

definition struct_aml_resource_gpio :: cty where
  "struct_aml_resource_gpio = CStruct ''aml_resource_gpio'' True
     [Field ''descriptor_type'' u8,
      Field ''resource_length'' u16,
      Field ''revision_id'' u8,
      Field ''connection_type'' u8,
      Field ''flags'' u16,
      Field ''int_flags'' u16,
      Field ''pin_config'' u8,
      Field ''drive_strength'' u16,
      Field ''debounce_timeout'' u16,
      Field ''pin_table_offset'' u16,
      Field ''res_source_index'' u8,
      Field ''res_source_offset'' u16,
      Field ''vendor_offset'' u16,
      Field ''vendor_length'' u16]"

definition struct_aml_resource_i2c_serialbus :: cty where
  "struct_aml_resource_i2c_serialbus = CStruct ''aml_resource_i2c_serialbus'' True
     [Field ''descriptor_type'' u8,
      Field ''resource_length'' u16,
      Field ''revision_id'' u8,
      Field ''res_source_index'' u8,
      Field ''type'' u8,
      Field ''flags'' u8,
      Field ''type_specific_flags'' u16,
      Field ''type_revision_id'' u8,
      Field ''type_data_length'' u16,
      Field ''connection_speed'' u32,
      Field ''slave_address'' u16]"

definition struct_aml_resource_spi_serialbus :: cty where
  "struct_aml_resource_spi_serialbus = CStruct ''aml_resource_spi_serialbus'' True
     [Field ''descriptor_type'' u8,
      Field ''resource_length'' u16,
      Field ''revision_id'' u8,
      Field ''res_source_index'' u8,
      Field ''type'' u8,
      Field ''flags'' u8,
      Field ''type_specific_flags'' u16,
      Field ''type_revision_id'' u8,
      Field ''type_data_length'' u16,
      Field ''connection_speed'' u32,
      Field ''data_bit_length'' u8,
      Field ''clock_phase'' u8,
      Field ''clock_polarity'' u8,
      Field ''device_selection'' u16]"

definition struct_aml_resource_uart_serialbus :: cty where
  "struct_aml_resource_uart_serialbus = CStruct ''aml_resource_uart_serialbus'' True
     [Field ''descriptor_type'' u8,
      Field ''resource_length'' u16,
      Field ''revision_id'' u8,
      Field ''res_source_index'' u8,
      Field ''type'' u8,
      Field ''flags'' u8,
      Field ''type_specific_flags'' u16,
      Field ''type_revision_id'' u8,
      Field ''type_data_length'' u16,
      Field ''default_baud_rate'' u32,
      Field ''rx_fifo_size'' u16,
      Field ''tx_fifo_size'' u16,
      Field ''parity'' u8,
      Field ''lines_enabled'' u8]"

definition struct_aml_resource_csi2_serialbus :: cty where
  "struct_aml_resource_csi2_serialbus = CStruct ''aml_resource_csi2_serialbus'' True
     [Field ''descriptor_type'' u8,
      Field ''resource_length'' u16,
      Field ''revision_id'' u8,
      Field ''res_source_index'' u8,
      Field ''type'' u8,
      Field ''flags'' u8,
      Field ''type_specific_flags'' u16,
      Field ''type_revision_id'' u8,
      Field ''type_data_length'' u16]"

definition struct_aml_resource_common_serialbus :: cty where
  "struct_aml_resource_common_serialbus = CStruct ''aml_resource_common_serialbus'' True
     [Field ''descriptor_type'' u8,
      Field ''resource_length'' u16,
      Field ''revision_id'' u8,
      Field ''res_source_index'' u8,
      Field ''type'' u8,
      Field ''flags'' u8,
      Field ''type_specific_flags'' u16,
      Field ''type_revision_id'' u8,
      Field ''type_data_length'' u16]"

definition struct_aml_resource_pin_function :: cty where
  "struct_aml_resource_pin_function = CStruct ''aml_resource_pin_function'' True
     [Field ''descriptor_type'' u8,
      Field ''resource_length'' u16,
      Field ''revision_id'' u8,
      Field ''flags'' u16,
      Field ''pin_config'' u8,
      Field ''function_number'' u16,
      Field ''pin_table_offset'' u16,
      Field ''res_source_index'' u8,
      Field ''res_source_offset'' u16,
      Field ''vendor_offset'' u16,
      Field ''vendor_length'' u16]"

definition struct_aml_resource_pin_config :: cty where
  "struct_aml_resource_pin_config = CStruct ''aml_resource_pin_config'' True
     [Field ''descriptor_type'' u8,
      Field ''resource_length'' u16,
      Field ''revision_id'' u8,
      Field ''flags'' u16,
      Field ''pin_config_type'' u8,
      Field ''pin_config_value'' u32,
      Field ''pin_table_offset'' u16,
      Field ''res_source_index'' u8,
      Field ''res_source_offset'' u16,
      Field ''vendor_offset'' u16,
      Field ''vendor_length'' u16]"

definition struct_aml_resource_pin_group :: cty where
  "struct_aml_resource_pin_group = CStruct ''aml_resource_pin_group'' True
     [Field ''descriptor_type'' u8,
      Field ''resource_length'' u16,
      Field ''revision_id'' u8,
      Field ''flags'' u16,
      Field ''pin_table_offset'' u16,
      Field ''label_offset'' u16,
      Field ''vendor_offset'' u16,
      Field ''vendor_length'' u16]"

definition struct_aml_resource_pin_group_function :: cty where
  "struct_aml_resource_pin_group_function = CStruct ''aml_resource_pin_group_function'' True
     [Field ''descriptor_type'' u8,
      Field ''resource_length'' u16,
      Field ''revision_id'' u8,
      Field ''flags'' u16,
      Field ''function_number'' u16,
      Field ''res_source_index'' u8,
      Field ''res_source_offset'' u16,
      Field ''res_source_label_offset'' u16,
      Field ''vendor_offset'' u16,
      Field ''vendor_length'' u16]"

definition struct_aml_resource_pin_group_config :: cty where
  "struct_aml_resource_pin_group_config = CStruct ''aml_resource_pin_group_config'' True
     [Field ''descriptor_type'' u8,
      Field ''resource_length'' u16,
      Field ''revision_id'' u8,
      Field ''flags'' u16,
      Field ''pin_config_type'' u8,
      Field ''pin_config_value'' u32,
      Field ''res_source_index'' u8,
      Field ''res_source_offset'' u16,
      Field ''res_source_label_offset'' u16,
      Field ''vendor_offset'' u16,
      Field ''vendor_length'' u16]"

definition struct_aml_resource_clock_input :: cty where
  "struct_aml_resource_clock_input = CStruct ''aml_resource_clock_input'' True
     [Field ''descriptor_type'' u8,
      Field ''resource_length'' u16,
      Field ''revision_id'' u8,
      Field ''flags'' u16,
      Field ''frequency_divisor'' u16,
      Field ''frequency_numerator'' u32]"

definition struct_aml_resource_address :: cty where
  "struct_aml_resource_address = CStruct ''aml_resource_address'' True
     [Field ''descriptor_type'' u8,
      Field ''resource_length'' u16,
      Field ''resource_type'' u8,
      Field ''flags'' u8,
      Field ''specific_flags'' u8]"

definition union_aml_resource :: cty where
  "union_aml_resource = CUnion ''aml_resource'' False
     [Field ''descriptor_type'' u8,
      Field ''small_header'' struct_aml_resource_small_header,
      Field ''large_header'' struct_aml_resource_large_header,
      Field ''irq'' struct_aml_resource_irq,
      Field ''dma'' struct_aml_resource_dma,
      Field ''start_dpf'' struct_aml_resource_start_dependent,
      Field ''end_dpf'' struct_aml_resource_end_dependent,
      Field ''io'' struct_aml_resource_io,
      Field ''fixed_io'' struct_aml_resource_fixed_io,
      Field ''fixed_dma'' struct_aml_resource_fixed_dma,
      Field ''vendor_small'' struct_aml_resource_vendor_small,
      Field ''end_tag'' struct_aml_resource_end_tag,
      Field ''memory24'' struct_aml_resource_memory24,
      Field ''generic_reg'' struct_aml_resource_generic_register,
      Field ''vendor_large'' struct_aml_resource_vendor_large,
      Field ''memory32'' struct_aml_resource_memory32,
      Field ''fixed_memory32'' struct_aml_resource_fixed_memory32,
      Field ''address16'' struct_aml_resource_address16,
      Field ''address32'' struct_aml_resource_address32,
      Field ''address64'' struct_aml_resource_address64,
      Field ''ext_address64'' struct_aml_resource_extended_address64,
      Field ''extended_irq'' struct_aml_resource_extended_irq,
      Field ''gpio'' struct_aml_resource_gpio,
      Field ''i2c_serial_bus'' struct_aml_resource_i2c_serialbus,
      Field ''spi_serial_bus'' struct_aml_resource_spi_serialbus,
      Field ''uart_serial_bus'' struct_aml_resource_uart_serialbus,
      Field ''csi2_serial_bus'' struct_aml_resource_csi2_serialbus,
      Field ''common_serial_bus'' struct_aml_resource_common_serialbus,
      Field ''pin_function'' struct_aml_resource_pin_function,
      Field ''pin_config'' struct_aml_resource_pin_config,
      Field ''pin_group'' struct_aml_resource_pin_group,
      Field ''pin_group_function'' struct_aml_resource_pin_group_function,
      Field ''pin_group_config'' struct_aml_resource_pin_group_config,
      Field ''clock_input'' struct_aml_resource_clock_input,
      Field ''address'' struct_aml_resource_address,
      Field ''dword_item'' u32,
      Field ''word_item'' u16,
      Field ''byte_item'' u8]"

definition struct_apic :: cty where
  "struct_apic = CStruct ''apic'' False
     [Field ''eoi'' (CPtr ''void (void)''),
      Field ''native_eoi'' (CPtr ''void (void)''),
      Field ''write'' (CPtr ''void (u32, u32)''),
      Field ''read'' (CPtr ''u32 (u32)''),
      Field ''wait_icr_idle'' (CPtr ''void (void)''),
      Field ''safe_wait_icr_idle'' (CPtr ''u32 (void)''),
      Field ''send_IPI'' (CPtr ''void (int, int)''),
      Field ''send_IPI_mask'' (CPtr ''void (const struct cpumask *, int)''),
      Field ''send_IPI_mask_allbutself'' (CPtr ''void (const struct cpumask *, int)''),
      Field ''send_IPI_allbutself'' (CPtr ''void (int)''),
      Field ''send_IPI_all'' (CPtr ''void (int)''),
      Field ''send_IPI_self'' (CPtr ''void (int)''),
      BitField ''disable_esr'' u32 1,
      BitField ''dest_mode_logical'' u32 1,
      BitField ''x2apic_set_max_apicid'' u32 1,
      BitField ''nmi_to_offline_cpu'' u32 1,
      Field ''calc_dest_apicid'' (CPtr ''u32 (unsigned int)''),
      Field ''icr_read'' (CPtr ''u64 (void)''),
      Field ''icr_write'' (CPtr ''void (u32, u32)''),
      Field ''max_apic_id'' u32,
      Field ''probe'' (CPtr ''int (void)''),
      Field ''setup'' (CPtr ''void (void)''),
      Field ''teardown'' (CPtr ''void (void)''),
      Field ''acpi_madt_oem_check'' (CPtr ''int (char *, char *)''),
      Field ''init_apic_ldr'' (CPtr ''void (void)''),
      Field ''cpu_present_to_apicid'' (CPtr ''u32 (int)''),
      Field ''get_apic_id'' (CPtr ''u32 (u32)''),
      Field ''wakeup_secondary_cpu'' (CPtr ''int (u32, long unsigned int, unsigned int)''),
      Field ''wakeup_secondary_cpu_64'' (CPtr ''int (u32, long unsigned int, unsigned int)''),
      Field ''update_vector'' (CPtr ''void (unsigned int, unsigned int, bool)''),
      Field ''name'' (CPtr ''char'')]"

definition struct_arch_pebs_header :: cty where
  "struct_arch_pebs_header = CStruct ''arch_pebs_header'' False
     [Field [] (CUnion [] False
        [Field ''format'' u64,
         Field [] (CStruct [] False
           [BitField ''size'' u64 16,
            BitField ''rsvd'' u64 14,
            BitField ''mode'' u64 1,
            BitField ''cont'' u64 1,
            BitField ''rsvd2'' u64 3,
            BitField ''cntr'' u64 5,
            BitField ''lbr'' u64 2,
            BitField ''rsvd3'' u64 7,
            BitField ''xmm'' u64 1,
            BitField ''ymmh'' u64 1,
            BitField ''rsvd4'' u64 2,
            BitField ''opmask'' u64 1,
            BitField ''zmmh'' u64 1,
            BitField ''h16zmm'' u64 1,
            BitField ''rsvd5'' u64 5,
            BitField ''gpr'' u64 1,
            BitField ''aux'' u64 1,
            BitField ''basic'' u64 1])]),
      Field ''rsvd6'' u64]"

definition struct_assoc_array_edit :: cty where
  "struct_assoc_array_edit = CStruct ''assoc_array_edit'' False
     [Field ''rcu'' struct_callback_head,
      Field ''array'' (CPtr ''struct assoc_array''),
      Field ''ops'' (CPtr ''const struct assoc_array_ops''),
      Field ''ops_for_excised_subtree'' (CPtr ''const struct assoc_array_ops''),
      Field ''leaf'' (CPtr ''struct assoc_array_ptr''),
      Field ''leaf_p'' (CPtr ''struct assoc_array_ptr *''),
      Field ''dead_leaf'' (CPtr ''struct assoc_array_ptr''),
      Field ''new_meta'' (CArr 3 (CPtr ''struct assoc_array_ptr'')),
      Field ''excised_meta'' (CArr 1 (CPtr ''struct assoc_array_ptr'')),
      Field ''excised_subtree'' (CPtr ''struct assoc_array_ptr''),
      Field ''set_backpointers'' (CArr 16 (CPtr ''struct assoc_array_ptr *'')),
      Field ''set_backpointers_to'' (CPtr ''struct assoc_array_ptr''),
      Field ''adjust_count_on'' (CPtr ''struct assoc_array_node''),
      Field ''adjust_count_by'' c_long,
      Field ''set'' (CArr 2 (CStruct [] False
        [Field ''ptr'' (CPtr ''struct assoc_array_ptr *''),
         Field ''to'' (CPtr ''struct assoc_array_ptr'')])),
      Field ''set_parent_slot'' (CArr 1 (CStruct [] False
        [Field ''p'' (CPtr ''u8''),
         Field ''to'' u8])),
      Field ''segment_cache'' (CArr 17 u8)]"

definition struct_ata_ering_entry :: cty where
  "struct_ata_ering_entry = CStruct ''ata_ering_entry'' False
     [Field ''eflags'' unsigned_int,
      Field ''err_mask'' unsigned_int,
      Field ''timestamp'' u64]"

definition struct_ata_ering :: cty where
  "struct_ata_ering = CStruct ''ata_ering'' False
     [Field ''cursor'' c_int,
      Field ''ring'' (CArr 32 struct_ata_ering_entry)]"

definition struct_ata_device :: cty where
  "struct_ata_device = CStruct ''ata_device'' False
     [Field ''link'' (CPtr ''struct ata_link''),
      Field ''devno'' unsigned_int,
      Field ''quirks'' u64,
      Field ''flags'' long_unsigned_int,
      Field ''sdev'' (CPtr ''struct scsi_device''),
      Field ''private_data'' (CPtr ''void''),
      Field ''gtf_cache'' (CPtr ''union acpi_object''),
      Field ''gtf_filter'' unsigned_int,
      Field ''zpodd'' (CPtr ''void''),
      Field ''tdev'' struct_device,
      Field ''n_sectors'' u64,
      Field ''n_native_sectors'' u64,
      Field ''class'' unsigned_int,
      Field ''unpark_deadline'' long_unsigned_int,
      Field ''pio_mode'' u8,
      Field ''dma_mode'' u8,
      Field ''xfer_mode'' u8,
      Field ''xfer_shift'' unsigned_int,
      Field ''multi_count'' unsigned_int,
      Field ''max_sectors'' unsigned_int,
      Field ''cdb_len'' unsigned_int,
      Field ''pio_mask'' unsigned_int,
      Field ''mwdma_mask'' unsigned_int,
      Field ''udma_mask'' unsigned_int,
      Field ''cylinders'' u16,
      Field ''heads'' u16,
      Field ''sectors'' u16,
      BitField [] c_long 64,
      Field [] (CUnion [] False
        [Field ''id'' (CArr 256 u16),
         Field ''gscr'' (CArr 128 u32)]),
      Field ''gp_log_dir'' (CArr 512 u8),
      Field ''devslp_timing'' (CArr 8 u8),
      Field ''ncq_send_recv_cmds'' (CArr 20 u8),
      Field ''ncq_non_data_cmds'' (CArr 64 u8),
      Field ''zac_zoned_cap'' u32,
      Field ''zac_zones_optimal_open'' u32,
      Field ''zac_zones_optimal_nonseq'' u32,
      Field ''zac_zones_max_open'' u32,
      Field ''cpr_log'' (CPtr ''struct ata_cpr_log''),
      Field ''cdl'' (CPtr ''struct ata_cdl''),
      Field ''spdn_cnt'' c_int,
      Field ''ering'' struct_ata_ering,
      BitField [] c_long 64,
      BitField [] c_long 64,
      BitField [] c_long 64,
      BitField [] c_long 64,
      BitField [] c_long 64,
      BitField [] c_long 64,
      Field ''sector_buf'' (CArr 512 u8)]"

definition enum_ata_lpm_policy :: cty where
  "enum_ata_lpm_policy = CEnum 4
     [(''ATA_LPM_UNKNOWN'', 0), (''ATA_LPM_MAX_POWER'', 1), (''ATA_LPM_MED_POWER'', 2),
      (''ATA_LPM_MED_POWER_WITH_DIPM'', 3), (''ATA_LPM_MIN_POWER_WITH_PARTIAL'', 4),
      (''ATA_LPM_MIN_POWER'', 5)]"

definition struct_ata_eh_info :: cty where
  "struct_ata_eh_info = CStruct ''ata_eh_info'' False
     [Field ''dev'' (CPtr ''struct ata_device''),
      Field ''serror'' u32,
      Field ''err_mask'' unsigned_int,
      Field ''action'' unsigned_int,
      Field ''dev_action'' (CArr 2 unsigned_int),
      Field ''flags'' unsigned_int,
      Field ''probe_mask'' unsigned_int,
      Field ''desc'' (CArr 80 c_char),
      Field ''desc_len'' c_int]"

definition struct_ata_eh_context :: cty where
  "struct_ata_eh_context = CStruct ''ata_eh_context'' False
     [Field ''i'' struct_ata_eh_info,
      Field ''tries'' (CArr 2 c_int),
      Field ''cmd_timeout_idx'' (CArr 16 c_int),
      Field ''classes'' (CArr 2 unsigned_int),
      Field ''did_probe_mask'' unsigned_int,
      Field ''unloaded_mask'' unsigned_int,
      Field ''saved_ncq_enabled'' unsigned_int,
      Field ''saved_xfer_mode'' (CArr 2 u8),
      Field ''last_reset'' long_unsigned_int]"

definition struct_ata_link :: cty where
  "struct_ata_link = CStruct ''ata_link'' False
     [Field ''ap'' (CPtr ''struct ata_port''),
      Field ''pmp'' c_int,
      Field ''tdev'' struct_device,
      Field ''active_tag'' unsigned_int,
      Field ''sactive'' u32,
      Field ''flags'' unsigned_int,
      Field ''saved_scontrol'' u32,
      Field ''hw_sata_spd_limit'' unsigned_int,
      Field ''sata_spd_limit'' unsigned_int,
      Field ''sata_spd'' unsigned_int,
      Field ''lpm_policy'' enum_ata_lpm_policy,
      Field ''deferred_qc_work'' struct_work_struct,
      Field ''deferred_qc'' (CPtr ''struct ata_queued_cmd''),
      Field ''eh_info'' struct_ata_eh_info,
      Field ''eh_context'' struct_ata_eh_context,
      BitField [] c_long 64,
      BitField [] c_long 64,
      BitField [] c_long 64,
      BitField [] c_long 64,
      BitField [] c_long 64,
      Field ''device'' (CArr 2 struct_ata_device),
      Field ''last_lpm_change'' long_unsigned_int,
      BitField [] c_long 64,
      BitField [] c_long 64,
      BitField [] c_long 64,
      BitField [] c_long 64,
      BitField [] c_long 64,
      BitField [] c_long 64,
      BitField [] c_long 64]"

definition struct_ata_taskfile :: cty where
  "struct_ata_taskfile = CStruct ''ata_taskfile'' False
     [Field ''flags'' long_unsigned_int,
      Field ''protocol'' u8,
      Field ''ctl'' u8,
      Field ''hob_feature'' u8,
      Field ''hob_nsect'' u8,
      Field ''hob_lbal'' u8,
      Field ''hob_lbam'' u8,
      Field ''hob_lbah'' u8,
      Field [] (CUnion [] False
        [Field ''error'' u8,
         Field ''feature'' u8]),
      Field ''nsect'' u8,
      Field ''lbal'' u8,
      Field ''lbam'' u8,
      Field ''lbah'' u8,
      Field ''device'' u8,
      Field [] (CUnion [] False
        [Field ''status'' u8,
         Field ''command'' u8]),
      Field ''auxiliary'' u32]"

definition ata_qc_cb_t :: cty where [layout_simps]:
  "ata_qc_cb_t = CPtr ''void (struct ata_queued_cmd *)''"

definition struct_ata_queued_cmd :: cty where
  "struct_ata_queued_cmd = CStruct ''ata_queued_cmd'' False
     [Field ''ap'' (CPtr ''struct ata_port''),
      Field ''dev'' (CPtr ''struct ata_device''),
      Field ''scsicmd'' (CPtr ''struct scsi_cmnd''),
      Field ''scsidone'' (CPtr ''void (struct scsi_cmnd *)''),
      Field ''tf'' struct_ata_taskfile,
      Field ''cdb'' (CArr 16 u8),
      Field ''flags'' long_unsigned_int,
      Field ''tag'' unsigned_int,
      Field ''hw_tag'' unsigned_int,
      Field ''n_elem'' unsigned_int,
      Field ''orig_n_elem'' unsigned_int,
      Field ''dma_dir'' c_int,
      Field ''sect_size'' unsigned_int,
      Field ''nbytes'' unsigned_int,
      Field ''extrabytes'' unsigned_int,
      Field ''curbytes'' unsigned_int,
      Field ''sgent'' struct_scatterlist,
      Field ''sg'' (CPtr ''struct scatterlist''),
      Field ''cursg'' (CPtr ''struct scatterlist''),
      Field ''cursg_ofs'' unsigned_int,
      Field ''err_mask'' unsigned_int,
      Field ''result_tf'' struct_ata_taskfile,
      Field ''complete_fn'' ata_qc_cb_t,
      Field ''private_data'' (CPtr ''void''),
      Field ''lldd_task'' (CPtr ''void'')]"

definition struct_ata_ioports :: cty where
  "struct_ata_ioports = CStruct ''ata_ioports'' False
     [Field ''cmd_addr'' (CPtr ''void''),
      Field ''data_addr'' (CPtr ''void''),
      Field ''error_addr'' (CPtr ''void''),
      Field ''feature_addr'' (CPtr ''void''),
      Field ''nsect_addr'' (CPtr ''void''),
      Field ''lbal_addr'' (CPtr ''void''),
      Field ''lbam_addr'' (CPtr ''void''),
      Field ''lbah_addr'' (CPtr ''void''),
      Field ''device_addr'' (CPtr ''void''),
      Field ''status_addr'' (CPtr ''void''),
      Field ''command_addr'' (CPtr ''void''),
      Field ''altstatus_addr'' (CPtr ''void''),
      Field ''ctl_addr'' (CPtr ''void''),
      Field ''bmdma_addr'' (CPtr ''void''),
      Field ''scr_addr'' (CPtr ''void'')]"

definition struct_ata_port_stats :: cty where
  "struct_ata_port_stats = CStruct ''ata_port_stats'' False
     [Field ''unhandled_irq'' long_unsigned_int,
      Field ''idle_irq'' long_unsigned_int,
      Field ''rw_reqbuf'' long_unsigned_int]"

definition async_cookie_t :: cty where [layout_simps]:
  "async_cookie_t = u64"

definition struct_ata_acpi_drive :: cty where
  "struct_ata_acpi_drive = CStruct ''ata_acpi_drive'' False
     [Field ''pio'' u32,
      Field ''dma'' u32]"

definition struct_ata_acpi_gtm :: cty where
  "struct_ata_acpi_gtm = CStruct ''ata_acpi_gtm'' False
     [Field ''drive'' (CArr 2 struct_ata_acpi_drive),
      Field ''flags'' u32]"

definition struct_ata_port :: cty where
  "struct_ata_port = CStruct ''ata_port'' False
     [Field ''scsi_host'' (CPtr ''struct Scsi_Host''),
      Field ''ops'' (CPtr ''struct ata_port_operations''),
      Field ''lock'' (CPtr ''spinlock_t''),
      Field ''flags'' long_unsigned_int,
      Field ''pflags'' unsigned_int,
      Field ''print_id'' unsigned_int,
      Field ''port_no'' unsigned_int,
      Field ''ioaddr'' struct_ata_ioports,
      Field ''ctl'' u8,
      Field ''last_ctl'' u8,
      Field ''sff_pio_task_link'' (CPtr ''struct ata_link''),
      Field ''sff_pio_task'' struct_delayed_work,
      Field ''bmdma_prd'' (CPtr ''struct ata_bmdma_prd''),
      Field ''bmdma_prd_dma'' dma_addr_t,
      Field ''pio_mask'' unsigned_int,
      Field ''mwdma_mask'' unsigned_int,
      Field ''udma_mask'' unsigned_int,
      Field ''cbl'' unsigned_int,
      Field ''qcmd'' (CArr 33 struct_ata_queued_cmd),
      Field ''qc_active'' u64,
      Field ''nr_active_links'' c_int,
      BitField [] c_long 64,
      BitField [] c_long 64,
      Field ''link'' struct_ata_link,
      Field ''slave_link'' (CPtr ''struct ata_link''),
      Field ''nr_pmp_links'' c_int,
      Field ''pmp_link'' (CPtr ''struct ata_link''),
      Field ''excl_link'' (CPtr ''struct ata_link''),
      Field ''stats'' struct_ata_port_stats,
      Field ''host'' (CPtr ''struct ata_host''),
      Field ''dev'' (CPtr ''struct device''),
      Field ''tdev'' struct_device,
      Field ''scsi_scan_mutex'' struct_mutex,
      Field ''hotplug_task'' struct_delayed_work,
      Field ''scsi_rescan_task'' struct_delayed_work,
      Field ''hsm_task_state'' unsigned_int,
      Field ''eh_done_q'' struct_list_head,
      Field ''eh_wait_q'' wait_queue_head_t,
      Field ''eh_tries'' c_int,
      Field ''park_req_pending'' struct_completion,
      Field ''pm_mesg'' pm_message_t,
      Field ''target_lpm_policy'' enum_ata_lpm_policy,
      Field ''fastdrain_timer'' struct_timer_list,
      Field ''fastdrain_cnt'' unsigned_int,
      Field ''cookie'' async_cookie_t,
      Field ''em_message_type'' c_int,
      Field ''private_data'' (CPtr ''void''),
      Field ''__acpi_init_gtm'' struct_ata_acpi_gtm]"

definition ata_prereset_fn_t :: cty where [layout_simps]:
  "ata_prereset_fn_t = CPtr ''int (struct ata_link *, long unsigned int)''"

definition ata_reset_fn_t :: cty where [layout_simps]:
  "ata_reset_fn_t = CPtr ''int (struct ata_link *, unsigned int *, long unsigned int)''"

definition ata_postreset_fn_t :: cty where [layout_simps]:
  "ata_postreset_fn_t = CPtr ''void (struct ata_link *, unsigned int *)''"

definition struct_ata_reset_operations :: cty where
  "struct_ata_reset_operations = CStruct ''ata_reset_operations'' False
     [Field ''prereset'' ata_prereset_fn_t,
      Field ''softreset'' ata_reset_fn_t,
      Field ''hardreset'' ata_reset_fn_t,
      Field ''postreset'' ata_postreset_fn_t]"

definition struct_ata_port_operations :: cty where
  "struct_ata_port_operations = CStruct ''ata_port_operations'' False
     [Field ''qc_defer'' (CPtr ''int (struct ata_queued_cmd *)''),
      Field ''check_atapi_dma'' (CPtr ''int (struct ata_queued_cmd *)''),
      Field ''qc_prep'' (CPtr ''enum ata_completion_errors (struct ata_queued_cmd *)''),
      Field ''qc_issue'' (CPtr ''unsigned int (struct ata_queued_cmd *)''),
      Field ''qc_fill_rtf'' (CPtr ''void (struct ata_queued_cmd *)''),
      Field ''qc_ncq_fill_rtf'' (CPtr ''void (struct ata_port *, u64)''),
      Field ''cable_detect'' (CPtr ''int (struct ata_port *)''),
      Field ''mode_filter'' (CPtr ''unsigned int (struct ata_device *, unsigned int)''),
      Field ''set_piomode'' (CPtr ''void (struct ata_port *, struct ata_device *)''),
      Field ''set_dmamode'' (CPtr ''void (struct ata_port *, struct ata_device *)''),
      Field ''set_mode'' (CPtr ''int (struct ata_link *, struct ata_device **)''),
      Field ''read_id'' (CPtr ''unsigned int (struct ata_device *, struct ata_taskfile *, __le16 *)''),
      Field ''dev_config'' (CPtr ''void (struct ata_device *)''),
      Field ''freeze'' (CPtr ''void (struct ata_port *)''),
      Field ''thaw'' (CPtr ''void (struct ata_port *)''),
      Field ''reset'' struct_ata_reset_operations,
      Field ''pmp_reset'' struct_ata_reset_operations,
      Field ''error_handler'' (CPtr ''void (struct ata_port *)''),
      Field ''lost_interrupt'' (CPtr ''void (struct ata_port *)''),
      Field ''post_internal_cmd'' (CPtr ''void (struct ata_queued_cmd *)''),
      Field ''sched_eh'' (CPtr ''void (struct ata_port *)''),
      Field ''end_eh'' (CPtr ''void (struct ata_port *)''),
      Field ''scr_read'' (CPtr ''int (struct ata_link *, unsigned int, u32 *)''),
      Field ''scr_write'' (CPtr ''int (struct ata_link *, unsigned int, u32)''),
      Field ''pmp_attach'' (CPtr ''void (struct ata_port *)''),
      Field ''pmp_detach'' (CPtr ''void (struct ata_port *)''),
      Field ''set_lpm'' (CPtr ''int (struct ata_link *, enum ata_lpm_policy, unsigned int)''),
      Field ''port_suspend'' (CPtr ''int (struct ata_port *, pm_message_t)''),
      Field ''port_resume'' (CPtr ''int (struct ata_port *)''),
      Field ''port_start'' (CPtr ''int (struct ata_port *)''),
      Field ''port_stop'' (CPtr ''void (struct ata_port *)''),
      Field ''host_stop'' (CPtr ''void (struct ata_host *)''),
      Field ''sff_dev_select'' (CPtr ''void (struct ata_port *, unsigned int)''),
      Field ''sff_set_devctl'' (CPtr ''void (struct ata_port *, u8)''),
      Field ''sff_check_status'' (CPtr ''u8 (struct ata_port *)''),
      Field ''sff_check_altstatus'' (CPtr ''u8 (struct ata_port *)''),
      Field ''sff_tf_load'' (CPtr ''void (struct ata_port *, const struct ata_taskfile *)''),
      Field ''sff_tf_read'' (CPtr ''void (struct ata_port *, struct ata_taskfile *)''),
      Field ''sff_exec_command'' (CPtr ''void (struct ata_port *, const struct ata_taskfile *)''),
      Field ''sff_data_xfer'' (CPtr ''unsigned int (struct ata_queued_cmd *, unsigned char *, unsigned int, int)''),
      Field ''sff_irq_on'' (CPtr ''void (struct ata_port *)''),
      Field ''sff_irq_check'' (CPtr ''bool (struct ata_port *)''),
      Field ''sff_irq_clear'' (CPtr ''void (struct ata_port *)''),
      Field ''sff_drain_fifo'' (CPtr ''void (struct ata_queued_cmd *)''),
      Field ''bmdma_setup'' (CPtr ''void (struct ata_queued_cmd *)''),
      Field ''bmdma_start'' (CPtr ''void (struct ata_queued_cmd *)''),
      Field ''bmdma_stop'' (CPtr ''void (struct ata_queued_cmd *)''),
      Field ''bmdma_status'' (CPtr ''u8 (struct ata_port *)''),
      Field ''em_show'' (CPtr ''ssize_t (struct ata_port *, char *)''),
      Field ''em_store'' (CPtr ''ssize_t (struct ata_port *, const char *, size_t)''),
      Field ''sw_activity_show'' (CPtr ''ssize_t (struct ata_device *, char *)''),
      Field ''sw_activity_store'' (CPtr ''ssize_t (struct ata_device *, enum sw_activity)''),
      Field ''transmit_led_message'' (CPtr ''ssize_t (struct ata_port *, u32, ssize_t)''),
      Field ''inherits'' (CPtr ''const struct ata_port_operations'')]"

definition ps2_pre_receive_handler_t :: cty where [layout_simps]:
  "ps2_pre_receive_handler_t = CPtr ''enum ps2_disposition (struct ps2dev *, u8, unsigned int)''"

definition ps2_receive_handler_t :: cty where [layout_simps]:
  "ps2_receive_handler_t = CPtr ''void (struct ps2dev *, u8)''"

definition struct_ps2dev :: cty where
  "struct_ps2dev = CStruct ''ps2dev'' False
     [Field ''serio'' (CPtr ''struct serio''),
      Field ''cmd_mutex'' struct_mutex,
      Field ''wait'' wait_queue_head_t,
      Field ''flags'' long_unsigned_int,
      Field ''cmdbuf'' (CArr 8 u8),
      Field ''cmdcnt'' u8,
      Field ''nak'' u8,
      Field ''pre_receive_handler'' ps2_pre_receive_handler_t,
      Field ''receive_handler'' ps2_receive_handler_t]"

definition struct_vivaldi_data :: cty where
  "struct_vivaldi_data = CStruct ''vivaldi_data'' False
     [Field ''function_row_physmap'' (CArr 24 u32),
      Field ''num_function_row_keys'' unsigned_int]"

definition struct_atkbd :: cty where
  "struct_atkbd = CStruct ''atkbd'' False
     [Field ''ps2dev'' struct_ps2dev,
      Field ''dev'' (CPtr ''struct input_dev''),
      Field ''name'' (CArr 64 c_char),
      Field ''phys'' (CArr 32 c_char),
      Field ''id'' short_unsigned_int,
      Field ''keycode'' (CArr 512 short_unsigned_int),
      Field ''force_release_mask'' (CArr 8 long_unsigned_int),
      Field ''set'' unsigned_char,
      Field ''translated'' bool,
      Field ''extra'' bool,
      Field ''write'' bool,
      Field ''softrepeat'' bool,
      Field ''softraw'' bool,
      Field ''scroll'' bool,
      Field ''enabled'' bool,
      Field ''emul'' unsigned_char,
      Field ''resend'' bool,
      Field ''release'' bool,
      Field ''xl_bit'' long_unsigned_int,
      Field ''last'' unsigned_int,
      Field ''time'' long_unsigned_int,
      Field ''err_count'' long_unsigned_int,
      Field ''event_work'' struct_delayed_work,
      Field ''event_jiffies'' long_unsigned_int,
      Field ''event_mask'' long_unsigned_int,
      Field ''mutex'' struct_mutex,
      Field ''vdata'' struct_vivaldi_data]"

definition enum_md_submodule_type :: cty where
  "enum_md_submodule_type = CEnum 4
     [(''MD_PERSONALITY'', 0), (''MD_CLUSTER'', 1), (''MD_BITMAP'', 2)]"

definition struct_md_submodule_head :: cty where
  "struct_md_submodule_head = CStruct ''md_submodule_head'' False
     [Field ''type'' enum_md_submodule_type,
      Field ''id'' enum_md_submodule_id,
      Field ''name'' (CPtr ''const char''),
      Field ''owner'' (CPtr ''struct module'')]"

definition struct_bitmap_operations :: cty where
  "struct_bitmap_operations = CStruct ''bitmap_operations'' False
     [Field ''head'' struct_md_submodule_head,
      Field ''enabled'' (CPtr ''bool (void *, bool)''),
      Field ''create'' (CPtr ''int (struct mddev *)''),
      Field ''resize'' (CPtr ''int (struct mddev *, sector_t, int)''),
      Field ''load'' (CPtr ''int (struct mddev *)''),
      Field ''destroy'' (CPtr ''void (struct mddev *)''),
      Field ''flush'' (CPtr ''void (struct mddev *)''),
      Field ''write_all'' (CPtr ''void (struct mddev *)''),
      Field ''dirty_bits'' (CPtr ''void (struct mddev *, long unsigned int, long unsigned int)''),
      Field ''unplug'' (CPtr ''void (struct mddev *, bool)''),
      Field ''daemon_work'' (CPtr ''void (struct mddev *)''),
      Field ''start_behind_write'' (CPtr ''void (struct mddev *)''),
      Field ''end_behind_write'' (CPtr ''void (struct mddev *)''),
      Field ''wait_behind_writes'' (CPtr ''void (struct mddev *)''),
      Field ''start_write'' (CPtr ''md_bitmap_fn''),
      Field ''end_write'' (CPtr ''md_bitmap_fn''),
      Field ''start_discard'' (CPtr ''md_bitmap_fn''),
      Field ''end_discard'' (CPtr ''md_bitmap_fn''),
      Field ''skip_sync_blocks'' (CPtr ''sector_t (struct mddev *, sector_t)''),
      Field ''blocks_synced'' (CPtr ''bool (struct mddev *, sector_t)''),
      Field ''start_sync'' (CPtr ''bool (struct mddev *, sector_t, sector_t *, bool)''),
      Field ''end_sync'' (CPtr ''void (struct mddev *, sector_t, sector_t *)''),
      Field ''cond_end_sync'' (CPtr ''void (struct mddev *, sector_t, bool)''),
      Field ''close_sync'' (CPtr ''void (struct mddev *)''),
      Field ''update_sb'' (CPtr ''void (void *)''),
      Field ''get_stats'' (CPtr ''int (void *, struct md_bitmap_stats *)''),
      Field ''sync_with_cluster'' (CPtr ''void (struct mddev *, sector_t, sector_t, sector_t, sector_t)''),
      Field ''get_from_slot'' (CPtr ''void * (struct mddev *, int)''),
      Field ''copy_from_slot'' (CPtr ''int (struct mddev *, int, sector_t *, sector_t *, bool)''),
      Field ''set_pages'' (CPtr ''void (void *, long unsigned int)''),
      Field ''free'' (CPtr ''void (void *)''),
      Field ''groups'' (CPtr ''const struct attribute_group *'')]"

definition blkif_vdev_t :: cty where [layout_simps]:
  "blkif_vdev_t = uint16_t"

definition enum_blkif_state :: cty where
  "enum_blkif_state = CEnum 4
     [(''BLKIF_STATE_DISCONNECTED'', 0), (''BLKIF_STATE_CONNECTED'', 1),
      (''BLKIF_STATE_SUSPENDED'', 2), (''BLKIF_STATE_ERROR'', 3)]"

definition struct_blkfront_info :: cty where
  "struct_blkfront_info = CStruct ''blkfront_info'' False
     [Field ''mutex'' struct_mutex,
      Field ''xbdev'' (CPtr ''struct xenbus_device''),
      Field ''gd'' (CPtr ''struct gendisk''),
      Field ''sector_size'' u16,
      Field ''physical_sector_size'' unsigned_int,
      Field ''vdisk_info'' long_unsigned_int,
      Field ''vdevice'' c_int,
      Field ''handle'' blkif_vdev_t,
      Field ''connected'' enum_blkif_state,
      Field ''nr_ring_pages'' unsigned_int,
      Field ''rq'' (CPtr ''struct request_queue''),
      BitField ''feature_flush'' unsigned_int 1,
      BitField ''feature_fua'' unsigned_int 1,
      BitField ''feature_discard'' unsigned_int 1,
      BitField ''feature_secdiscard'' unsigned_int 1,
      BitField ''feature_persistent_parm'' unsigned_int 1,
      BitField ''feature_persistent'' unsigned_int 1,
      BitField ''bounce'' unsigned_int 1,
      Field ''discard_granularity'' unsigned_int,
      Field ''discard_alignment'' unsigned_int,
      Field ''max_indirect_segments'' unsigned_int,
      Field ''is_ready'' c_int,
      Field ''tag_set'' struct_blk_mq_tag_set,
      Field ''rinfo'' (CPtr ''struct blkfront_ring_info''),
      Field ''nr_rings'' unsigned_int,
      Field ''rinfo_size'' unsigned_int,
      Field ''requests'' struct_list_head,
      Field ''bio_list'' struct_bio_list,
      Field ''info_list'' struct_list_head]"

definition struct_screen_info :: cty where
  "struct_screen_info = CStruct ''screen_info'' True
     [Field ''orig_x'' c__u8,
      Field ''orig_y'' c__u8,
      Field ''ext_mem_k'' c__u16,
      Field ''orig_video_page'' c__u16,
      Field ''orig_video_mode'' c__u8,
      Field ''orig_video_cols'' c__u8,
      Field ''flags'' c__u8,
      Field ''unused2'' c__u8,
      Field ''orig_video_ega_bx'' c__u16,
      Field ''unused3'' c__u16,
      Field ''orig_video_lines'' c__u8,
      Field ''orig_video_isVGA'' c__u8,
      Field ''orig_video_points'' c__u16,
      Field ''lfb_width'' c__u16,
      Field ''lfb_height'' c__u16,
      Field ''lfb_depth'' c__u16,
      Field ''lfb_base'' c__u32,
      Field ''lfb_size'' c__u32,
      Field ''cl_magic'' c__u16,
      Field ''cl_offset'' c__u16,
      Field ''lfb_linelength'' c__u16,
      Field ''red_size'' c__u8,
      Field ''red_pos'' c__u8,
      Field ''green_size'' c__u8,
      Field ''green_pos'' c__u8,
      Field ''blue_size'' c__u8,
      Field ''blue_pos'' c__u8,
      Field ''rsvd_size'' c__u8,
      Field ''rsvd_pos'' c__u8,
      Field ''vesapm_seg'' c__u16,
      Field ''vesapm_off'' c__u16,
      Field ''pages'' c__u16,
      Field ''vesa_attributes'' c__u16,
      Field ''capabilities'' c__u32,
      Field ''ext_lfb_base'' c__u32,
      Field ''_reserved'' (CArr 2 c__u8)]"

definition struct_setup_header :: cty where
  "struct_setup_header = CStruct ''setup_header'' True
     [Field ''setup_sects'' c__u8,
      Field ''root_flags'' c__u16,
      Field ''syssize'' c__u32,
      Field ''ram_size'' c__u16,
      Field ''vid_mode'' c__u16,
      Field ''root_dev'' c__u16,
      Field ''boot_flag'' c__u16,
      Field ''jump'' c__u16,
      Field ''header'' c__u32,
      Field ''version'' c__u16,
      Field ''realmode_swtch'' c__u32,
      Field ''start_sys_seg'' c__u16,
      Field ''kernel_version'' c__u16,
      Field ''type_of_loader'' c__u8,
      Field ''loadflags'' c__u8,
      Field ''setup_move_size'' c__u16,
      Field ''code32_start'' c__u32,
      Field ''ramdisk_image'' c__u32,
      Field ''ramdisk_size'' c__u32,
      Field ''bootsect_kludge'' c__u32,
      Field ''heap_end_ptr'' c__u16,
      Field ''ext_loader_ver'' c__u8,
      Field ''ext_loader_type'' c__u8,
      Field ''cmd_line_ptr'' c__u32,
      Field ''initrd_addr_max'' c__u32,
      Field ''kernel_alignment'' c__u32,
      Field ''relocatable_kernel'' c__u8,
      Field ''min_alignment'' c__u8,
      Field ''xloadflags'' c__u16,
      Field ''cmdline_size'' c__u32,
      Field ''hardware_subarch'' c__u32,
      Field ''hardware_subarch_data'' c__u64,
      Field ''payload_offset'' c__u32,
      Field ''payload_length'' c__u32,
      Field ''setup_data'' c__u64,
      Field ''pref_address'' c__u64,
      Field ''init_size'' c__u32,
      Field ''handover_offset'' c__u32,
      Field ''kernel_info_offset'' c__u32]"

definition struct_edd_device_params :: cty where
  "struct_edd_device_params = CStruct ''edd_device_params'' True
     [Field ''length'' c__u16,
      Field ''info_flags'' c__u16,
      Field ''num_default_cylinders'' c__u32,
      Field ''num_default_heads'' c__u32,
      Field ''sectors_per_track'' c__u32,
      Field ''number_of_sectors'' c__u64,
      Field ''bytes_per_sector'' c__u16,
      Field ''dpte_ptr'' c__u32,
      Field ''key'' c__u16,
      Field ''device_path_info_length'' c__u8,
      Field ''reserved2'' c__u8,
      Field ''reserved3'' c__u16,
      Field ''host_bus_type'' (CArr 4 c__u8),
      Field ''interface_type'' (CArr 8 c__u8),
      Field ''interface_path'' (CUnion [] False
        [Field ''isa'' (CStruct [] False
           [Field ''base_address'' c__u16,
            Field ''reserved1'' c__u16,
            Field ''reserved2'' c__u32]),
         Field ''pci'' (CStruct [] False
           [Field ''bus'' c__u8,
            Field ''slot'' c__u8,
            Field ''function'' c__u8,
            Field ''channel'' c__u8,
            Field ''reserved'' c__u32]),
         Field ''ibnd'' (CStruct [] False
           [Field ''reserved'' c__u64]),
         Field ''xprs'' (CStruct [] False
           [Field ''reserved'' c__u64]),
         Field ''htpt'' (CStruct [] False
           [Field ''reserved'' c__u64]),
         Field ''unknown'' (CStruct [] False
           [Field ''reserved'' c__u64])]),
      Field ''device_path'' (CUnion [] False
        [Field ''ata'' (CStruct [] False
           [Field ''device'' c__u8,
            Field ''reserved1'' c__u8,
            Field ''reserved2'' c__u16,
            Field ''reserved3'' c__u32,
            Field ''reserved4'' c__u64]),
         Field ''atapi'' (CStruct [] False
           [Field ''device'' c__u8,
            Field ''lun'' c__u8,
            Field ''reserved1'' c__u8,
            Field ''reserved2'' c__u8,
            Field ''reserved3'' c__u32,
            Field ''reserved4'' c__u64]),
         Field ''scsi'' (CStruct [] True
           [Field ''id'' c__u16,
            Field ''lun'' c__u64,
            Field ''reserved1'' c__u16,
            Field ''reserved2'' c__u32]),
         Field ''usb'' (CStruct [] False
           [Field ''serial_number'' c__u64,
            Field ''reserved'' c__u64]),
         Field ''i1394'' (CStruct [] False
           [Field ''eui'' c__u64,
            Field ''reserved'' c__u64]),
         Field ''fibre'' (CStruct [] False
           [Field ''wwid'' c__u64,
            Field ''lun'' c__u64]),
         Field ''i2o'' (CStruct [] False
           [Field ''identity_tag'' c__u64,
            Field ''reserved'' c__u64]),
         Field ''raid'' (CStruct [] False
           [Field ''array_number'' c__u32,
            Field ''reserved1'' c__u32,
            Field ''reserved2'' c__u64]),
         Field ''sata'' (CStruct [] False
           [Field ''device'' c__u8,
            Field ''reserved1'' c__u8,
            Field ''reserved2'' c__u16,
            Field ''reserved3'' c__u32,
            Field ''reserved4'' c__u64]),
         Field ''unknown'' (CStruct [] False
           [Field ''reserved1'' c__u64,
            Field ''reserved2'' c__u64])]),
      Field ''reserved4'' c__u8,
      Field ''checksum'' c__u8]"

definition struct_apm_bios_info :: cty where
  "struct_apm_bios_info = CStruct ''apm_bios_info'' False
     [Field ''version'' c__u16,
      Field ''cseg'' c__u16,
      Field ''offset'' c__u32,
      Field ''cseg_16'' c__u16,
      Field ''dseg'' c__u16,
      Field ''flags'' c__u16,
      Field ''cseg_len'' c__u16,
      Field ''cseg_16_len'' c__u16,
      Field ''dseg_len'' c__u16]"

definition struct_ist_info :: cty where
  "struct_ist_info = CStruct ''ist_info'' False
     [Field ''signature'' c__u32,
      Field ''command'' c__u32,
      Field ''event'' c__u32,
      Field ''perf_level'' c__u32]"

definition struct_sys_desc_table :: cty where
  "struct_sys_desc_table = CStruct ''sys_desc_table'' False
     [Field ''length'' c__u16,
      Field ''table'' (CArr 14 c__u8)]"

definition struct_olpc_ofw_header :: cty where
  "struct_olpc_ofw_header = CStruct ''olpc_ofw_header'' False
     [Field ''ofw_magic'' c__u32,
      Field ''ofw_version'' c__u32,
      Field ''cif_handler'' c__u32,
      Field ''irq_desc_table'' c__u32]"

definition struct_edid_info :: cty where
  "struct_edid_info = CStruct ''edid_info'' False
     [Field ''dummy'' (CArr 128 unsigned_char)]"

definition struct_efi_info :: cty where
  "struct_efi_info = CStruct ''efi_info'' False
     [Field ''efi_loader_signature'' c__u32,
      Field ''efi_systab'' c__u32,
      Field ''efi_memdesc_size'' c__u32,
      Field ''efi_memdesc_version'' c__u32,
      Field ''efi_memmap'' c__u32,
      Field ''efi_memmap_size'' c__u32,
      Field ''efi_systab_hi'' c__u32,
      Field ''efi_memmap_hi'' c__u32]"

definition struct_boot_e820_entry :: cty where
  "struct_boot_e820_entry = CStruct ''boot_e820_entry'' True
     [Field ''addr'' c__u64,
      Field ''size'' c__u64,
      Field ''type'' c__u32]"

definition struct_edd_info :: cty where
  "struct_edd_info = CStruct ''edd_info'' False
     [Field ''device'' c__u8,
      Field ''version'' c__u8,
      Field ''interface_support'' c__u16,
      Field ''legacy_max_cylinder'' c__u16,
      Field ''legacy_max_head'' c__u8,
      Field ''legacy_sectors_per_track'' c__u8,
      Field ''params'' struct_edd_device_params]"

definition struct_boot_params :: cty where
  "struct_boot_params = CStruct ''boot_params'' False
     [Field ''screen_info'' struct_screen_info,
      Field ''apm_bios_info'' struct_apm_bios_info,
      Field ''_pad2'' (CArr 4 c__u8),
      Field ''tboot_addr'' c__u64,
      Field ''ist_info'' struct_ist_info,
      Field ''acpi_rsdp_addr'' c__u64,
      Field ''_pad3'' (CArr 8 c__u8),
      Field ''hd0_info'' (CArr 16 c__u8),
      Field ''hd1_info'' (CArr 16 c__u8),
      Field ''sys_desc_table'' struct_sys_desc_table,
      Field ''olpc_ofw_header'' struct_olpc_ofw_header,
      Field ''ext_ramdisk_image'' c__u32,
      Field ''ext_ramdisk_size'' c__u32,
      Field ''ext_cmd_line_ptr'' c__u32,
      Field ''_pad4'' (CArr 112 c__u8),
      Field ''cc_blob_address'' c__u32,
      Field ''edid_info'' struct_edid_info,
      Field ''efi_info'' struct_efi_info,
      Field ''alt_mem_k'' c__u32,
      Field ''scratch'' c__u32,
      Field ''e820_entries'' c__u8,
      Field ''eddbuf_entries'' c__u8,
      Field ''edd_mbr_sig_buf_entries'' c__u8,
      Field ''kbd_status'' c__u8,
      Field ''secure_boot'' c__u8,
      Field ''_pad5'' (CArr 2 c__u8),
      Field ''sentinel'' c__u8,
      Field ''_pad6'' (CArr 1 c__u8),
      Field ''hdr'' struct_setup_header,
      Field ''_pad7'' (CArr 36 c__u8),
      Field ''edd_mbr_sig_buffer'' (CArr 16 c__u32),
      Field ''e820_table'' (CArr 128 struct_boot_e820_entry),
      Field ''_pad8'' (CArr 48 c__u8),
      Field ''eddbuf'' (CArr 6 struct_edd_info),
      Field ''_pad9'' (CArr 276 c__u8)]"

definition struct_bsd_partition :: cty where
  "struct_bsd_partition = CStruct ''bsd_partition'' False
     [Field ''p_size'' c__le32,
      Field ''p_offset'' c__le32,
      Field ''p_fsize'' c__le32,
      Field ''p_fstype'' c__u8,
      Field ''p_frag'' c__u8,
      Field ''p_cpg'' c__le16]"

definition struct_bsd_disklabel :: cty where
  "struct_bsd_disklabel = CStruct ''bsd_disklabel'' False
     [Field ''d_magic'' c__le32,
      Field ''d_type'' c__s16,
      Field ''d_subtype'' c__s16,
      Field ''d_typename'' (CArr 16 c_char),
      Field ''d_packname'' (CArr 16 c_char),
      Field ''d_secsize'' c__u32,
      Field ''d_nsectors'' c__u32,
      Field ''d_ntracks'' c__u32,
      Field ''d_ncylinders'' c__u32,
      Field ''d_secpercyl'' c__u32,
      Field ''d_secperunit'' c__u32,
      Field ''d_sparespertrack'' c__u16,
      Field ''d_sparespercyl'' c__u16,
      Field ''d_acylinders'' c__u32,
      Field ''d_rpm'' c__u16,
      Field ''d_interleave'' c__u16,
      Field ''d_trackskew'' c__u16,
      Field ''d_cylskew'' c__u16,
      Field ''d_headswitch'' c__u32,
      Field ''d_trkseek'' c__u32,
      Field ''d_flags'' c__u32,
      Field ''d_drivedata'' (CArr 5 c__u32),
      Field ''d_spare'' (CArr 5 c__u32),
      Field ''d_magic2'' c__le32,
      Field ''d_checksum'' c__le16,
      Field ''d_npartitions'' c__le16,
      Field ''d_bbsize'' c__le32,
      Field ''d_sbsize'' c__le32,
      Field ''d_partitions'' (CArr 16 struct_bsd_partition)]"

definition struct_group_data :: cty where
  "struct_group_data = CStruct ''group_data'' False
     [Field ''limit'' (CArr 21 c_int),
      Field ''base'' (CArr 20 c_int),
      Field ''permute'' (CArr 258 c_int),
      Field ''minLen'' c_int,
      Field ''maxLen'' c_int]"

definition struct_bunzip_data :: cty where
  "struct_bunzip_data = CStruct ''bunzip_data'' False
     [Field ''writeCopies'' c_int,
      Field ''writePos'' c_int,
      Field ''writeRunCountdown'' c_int,
      Field ''writeCount'' c_int,
      Field ''writeCurrent'' c_int,
      Field ''fill'' (CPtr ''long int (void *, long unsigned int)''),
      Field ''inbufCount'' c_long,
      Field ''inbufPos'' c_long,
      Field ''inbuf'' (CPtr ''unsigned char''),
      Field ''inbufBitCount'' unsigned_int,
      Field ''inbufBits'' unsigned_int,
      Field ''crc32Table'' (CArr 256 unsigned_int),
      Field ''headerCRC'' unsigned_int,
      Field ''totalCRC'' unsigned_int,
      Field ''writeCRC'' unsigned_int,
      Field ''dbuf'' (CPtr ''unsigned int''),
      Field ''dbufSize'' unsigned_int,
      Field ''selectors'' (CArr 32768 unsigned_char),
      Field ''groups'' (CArr 6 struct_group_data),
      Field ''io_error'' c_int,
      Field ''byteCount'' (CArr 256 c_int),
      Field ''symToByte'' (CArr 256 unsigned_char),
      Field ''mtfSymbol'' (CArr 256 unsigned_char)]"

definition struct_clk_ops :: cty where
  "struct_clk_ops = CStruct ''clk_ops'' False
     [Field ''prepare'' (CPtr ''int (struct clk_hw *)''),
      Field ''unprepare'' (CPtr ''void (struct clk_hw *)''),
      Field ''is_prepared'' (CPtr ''int (struct clk_hw *)''),
      Field ''unprepare_unused'' (CPtr ''void (struct clk_hw *)''),
      Field ''enable'' (CPtr ''int (struct clk_hw *)''),
      Field ''disable'' (CPtr ''void (struct clk_hw *)''),
      Field ''is_enabled'' (CPtr ''int (struct clk_hw *)''),
      Field ''disable_unused'' (CPtr ''void (struct clk_hw *)''),
      Field ''save_context'' (CPtr ''int (struct clk_hw *)''),
      Field ''restore_context'' (CPtr ''void (struct clk_hw *)''),
      Field ''recalc_rate'' (CPtr ''long unsigned int (struct clk_hw *, long unsigned int)''),
      Field ''round_rate'' (CPtr ''long int (struct clk_hw *, long unsigned int, long unsigned int *)''),
      Field ''determine_rate'' (CPtr ''int (struct clk_hw *, struct clk_rate_request *)''),
      Field ''set_parent'' (CPtr ''int (struct clk_hw *, u8)''),
      Field ''get_parent'' (CPtr ''u8 (struct clk_hw *)''),
      Field ''set_rate'' (CPtr ''int (struct clk_hw *, long unsigned int, long unsigned int)''),
      Field ''set_rate_and_parent'' (CPtr ''int (struct clk_hw *, long unsigned int, long unsigned int, u8)''),
      Field ''recalc_accuracy'' (CPtr ''long unsigned int (struct clk_hw *, long unsigned int)''),
      Field ''get_phase'' (CPtr ''int (struct clk_hw *)''),
      Field ''set_phase'' (CPtr ''int (struct clk_hw *, int)''),
      Field ''get_duty_cycle'' (CPtr ''int (struct clk_hw *, struct clk_duty *)''),
      Field ''set_duty_cycle'' (CPtr ''int (struct clk_hw *, struct clk_duty *)''),
      Field ''init'' (CPtr ''int (struct clk_hw *)''),
      Field ''terminate'' (CPtr ''void (struct clk_hw *)''),
      Field ''debug_init'' (CPtr ''void (struct clk_hw *, struct dentry *)'')]"

definition struct_clk_duty :: cty where
  "struct_clk_duty = CStruct ''clk_duty'' False
     [Field ''num'' unsigned_int,
      Field ''den'' unsigned_int]"

definition struct_clk_core :: cty where
  "struct_clk_core = CStruct ''clk_core'' False
     [Field ''name'' (CPtr ''const char''),
      Field ''ops'' (CPtr ''const struct clk_ops''),
      Field ''hw'' (CPtr ''struct clk_hw''),
      Field ''owner'' (CPtr ''struct module''),
      Field ''dev'' (CPtr ''struct device''),
      Field ''rpm_node'' struct_hlist_node,
      Field ''of_node'' (CPtr ''struct device_node''),
      Field ''parent'' (CPtr ''struct clk_core''),
      Field ''parents'' (CPtr ''struct clk_parent_map''),
      Field ''num_parents'' u8,
      Field ''new_parent_index'' u8,
      Field ''rate'' long_unsigned_int,
      Field ''req_rate'' long_unsigned_int,
      Field ''new_rate'' long_unsigned_int,
      Field ''new_parent'' (CPtr ''struct clk_core''),
      Field ''new_child'' (CPtr ''struct clk_core''),
      Field ''flags'' long_unsigned_int,
      Field ''orphan'' bool,
      Field ''rpm_enabled'' bool,
      Field ''enable_count'' unsigned_int,
      Field ''prepare_count'' unsigned_int,
      Field ''protect_count'' unsigned_int,
      Field ''min_rate'' long_unsigned_int,
      Field ''max_rate'' long_unsigned_int,
      Field ''accuracy'' long_unsigned_int,
      Field ''phase'' c_int,
      Field ''duty'' struct_clk_duty,
      Field ''children'' struct_hlist_head,
      Field ''child_node'' struct_hlist_node,
      Field ''hashtable_node'' struct_hlist_node,
      Field ''clks'' struct_hlist_head,
      Field ''notifier_count'' unsigned_int,
      Field ''dentry'' (CPtr ''struct dentry''),
      Field ''debug_node'' struct_hlist_node,
      Field ''ref'' struct_kref]"

definition enum_clock_event_state :: cty where
  "enum_clock_event_state = CEnum 4
     [(''CLOCK_EVT_STATE_DETACHED'', 0), (''CLOCK_EVT_STATE_SHUTDOWN'', 1),
      (''CLOCK_EVT_STATE_PERIODIC'', 2), (''CLOCK_EVT_STATE_ONESHOT'', 3),
      (''CLOCK_EVT_STATE_ONESHOT_STOPPED'', 4)]"

definition struct_clock_event_device :: cty where
  "struct_clock_event_device = CStruct ''clock_event_device'' False
     [Field ''event_handler'' (CPtr ''void (struct clock_event_device *)''),
      Field ''set_next_event'' (CPtr ''int (long unsigned int, struct clock_event_device *)''),
      Field ''set_next_ktime'' (CPtr ''int (ktime_t, struct clock_event_device *)''),
      Field ''next_event'' ktime_t,
      Field ''max_delta_ns'' u64,
      Field ''min_delta_ns'' u64,
      Field ''mult'' u32,
      Field ''shift'' u32,
      Field ''state_use_accessors'' enum_clock_event_state,
      Field ''features'' unsigned_int,
      Field ''next_event_forced'' unsigned_int,
      Field ''retries'' long_unsigned_int,
      Field ''set_state_periodic'' (CPtr ''int (struct clock_event_device *)''),
      Field ''set_state_oneshot'' (CPtr ''int (struct clock_event_device *)''),
      Field ''set_state_oneshot_stopped'' (CPtr ''int (struct clock_event_device *)''),
      Field ''set_state_shutdown'' (CPtr ''int (struct clock_event_device *)''),
      Field ''tick_resume'' (CPtr ''int (struct clock_event_device *)''),
      Field ''broadcast'' (CPtr ''void (const struct cpumask *)''),
      Field ''suspend'' (CPtr ''void (struct clock_event_device *)''),
      Field ''resume'' (CPtr ''void (struct clock_event_device *)''),
      Field ''min_delta_ticks'' long_unsigned_int,
      Field ''max_delta_ticks'' long_unsigned_int,
      Field ''name'' (CPtr ''const char''),
      Field ''rating'' c_int,
      Field ''irq'' c_int,
      Field ''bound_on'' c_int,
      Field ''cpumask'' (CPtr ''const struct cpumask''),
      Field ''list'' struct_list_head,
      Field ''owner'' (CPtr ''struct module''),
      BitField [] c_long 64,
      BitField [] c_long 64,
      BitField [] c_long 64,
      BitField [] c_long 64,
      BitField [] c_long 64]"

definition enum_clocksource_ids :: cty where
  "enum_clocksource_ids = CEnum 4
     [(''CSID_GENERIC'', 0), (''CSID_ARM_ARCH_COUNTER'', 1), (''CSID_S390_TOD'', 2),
      (''CSID_X86_TSC_EARLY'', 3), (''CSID_X86_TSC'', 4), (''CSID_X86_KVM_CLK'', 5),
      (''CSID_X86_ART'', 6), (''CSID_MAX'', 7)]"

definition enum_vdso_clock_mode :: cty where
  "enum_vdso_clock_mode = CEnum 4
     [(''VDSO_CLOCKMODE_NONE'', 0), (''VDSO_CLOCKMODE_TSC'', 1),
      (''VDSO_CLOCKMODE_PVCLOCK'', 2), (''VDSO_CLOCKMODE_HVCLOCK'', 3),
      (''VDSO_CLOCKMODE_MAX'', 4), (''VDSO_CLOCKMODE_TIMENS'', 2147483647)]"

definition struct_clocksource :: cty where
  "struct_clocksource = CStruct ''clocksource'' False
     [Field ''read'' (CPtr ''u64 (struct clocksource *)''),
      Field ''mask'' u64,
      Field ''mult'' u32,
      Field ''shift'' u32,
      Field ''max_idle_ns'' u64,
      Field ''maxadj'' u32,
      Field ''uncertainty_margin'' u32,
      Field ''max_cycles'' u64,
      Field ''max_raw_delta'' u64,
      Field ''name'' (CPtr ''const char''),
      Field ''list'' struct_list_head,
      Field ''freq_khz'' u32,
      Field ''rating'' c_int,
      Field ''id'' enum_clocksource_ids,
      Field ''vdso_clock_mode'' enum_vdso_clock_mode,
      Field ''flags'' long_unsigned_int,
      Field ''base'' (CPtr ''struct clocksource_base''),
      Field ''enable'' (CPtr ''int (struct clocksource *)''),
      Field ''disable'' (CPtr ''void (struct clocksource *)''),
      Field ''suspend'' (CPtr ''void (struct clocksource *)''),
      Field ''resume'' (CPtr ''void (struct clocksource *)''),
      Field ''mark_unstable'' (CPtr ''void (struct clocksource *)''),
      Field ''tick_stable'' (CPtr ''void (struct clocksource *)''),
      Field ''wd_list'' struct_list_head,
      Field ''cs_last'' u64,
      Field ''wd_last'' u64,
      Field ''owner'' (CPtr ''struct module'')]"

definition struct_ethtool_coalesce :: cty where
  "struct_ethtool_coalesce = CStruct ''ethtool_coalesce'' False
     [Field ''cmd'' c__u32,
      Field ''rx_coalesce_usecs'' c__u32,
      Field ''rx_max_coalesced_frames'' c__u32,
      Field ''rx_coalesce_usecs_irq'' c__u32,
      Field ''rx_max_coalesced_frames_irq'' c__u32,
      Field ''tx_coalesce_usecs'' c__u32,
      Field ''tx_max_coalesced_frames'' c__u32,
      Field ''tx_coalesce_usecs_irq'' c__u32,
      Field ''tx_max_coalesced_frames_irq'' c__u32,
      Field ''stats_block_coalesce_usecs'' c__u32,
      Field ''use_adaptive_rx_coalesce'' c__u32,
      Field ''use_adaptive_tx_coalesce'' c__u32,
      Field ''pkt_rate_low'' c__u32,
      Field ''rx_coalesce_usecs_low'' c__u32,
      Field ''rx_max_coalesced_frames_low'' c__u32,
      Field ''tx_coalesce_usecs_low'' c__u32,
      Field ''tx_max_coalesced_frames_low'' c__u32,
      Field ''pkt_rate_high'' c__u32,
      Field ''rx_coalesce_usecs_high'' c__u32,
      Field ''rx_max_coalesced_frames_high'' c__u32,
      Field ''tx_coalesce_usecs_high'' c__u32,
      Field ''tx_max_coalesced_frames_high'' c__u32,
      Field ''rate_sample_interval'' c__u32]"

definition struct_user_regs_struct :: cty where
  "struct_user_regs_struct = CStruct ''user_regs_struct'' False
     [Field ''r15'' long_unsigned_int,
      Field ''r14'' long_unsigned_int,
      Field ''r13'' long_unsigned_int,
      Field ''r12'' long_unsigned_int,
      Field ''bp'' long_unsigned_int,
      Field ''bx'' long_unsigned_int,
      Field ''r11'' long_unsigned_int,
      Field ''r10'' long_unsigned_int,
      Field ''r9'' long_unsigned_int,
      Field ''r8'' long_unsigned_int,
      Field ''ax'' long_unsigned_int,
      Field ''cx'' long_unsigned_int,
      Field ''dx'' long_unsigned_int,
      Field ''si'' long_unsigned_int,
      Field ''di'' long_unsigned_int,
      Field ''orig_ax'' long_unsigned_int,
      Field ''ip'' long_unsigned_int,
      Field ''cs'' long_unsigned_int,
      Field ''flags'' long_unsigned_int,
      Field ''sp'' long_unsigned_int,
      Field ''ss'' long_unsigned_int,
      Field ''fs_base'' long_unsigned_int,
      Field ''gs_base'' long_unsigned_int,
      Field ''ds'' long_unsigned_int,
      Field ''es'' long_unsigned_int,
      Field ''fs'' long_unsigned_int,
      Field ''gs'' long_unsigned_int]"

definition compat_pid_t :: cty where [layout_simps]:
  "compat_pid_t = s32"

definition c__compat_uid32_t :: cty where [layout_simps]:
  "c__compat_uid32_t = u32"

definition compat_timer_t :: cty where [layout_simps]:
  "compat_timer_t = s32"

definition compat_int_t :: cty where [layout_simps]:
  "compat_int_t = s32"

definition union_compat_sigval :: cty where
  "union_compat_sigval = CUnion ''compat_sigval'' False
     [Field ''sival_int'' compat_int_t,
      Field ''sival_ptr'' compat_uptr_t]"

definition compat_sigval_t :: cty where [layout_simps]:
  "compat_sigval_t = union_compat_sigval"

definition compat_clock_t :: cty where [layout_simps]:
  "compat_clock_t = s32"

definition compat_ulong_t :: cty where [layout_simps]:
  "compat_ulong_t = u32"

definition struct_compat_siginfo :: cty where
  "struct_compat_siginfo = CStruct ''compat_siginfo'' False
     [Field ''si_signo'' c_int,
      Field ''si_errno'' c_int,
      Field ''si_code'' c_int,
      Field ''_sifields'' (CUnion [] False
        [Field ''_pad'' (CArr 29 c_int),
         Field ''_kill'' (CStruct [] False
           [Field ''_pid'' compat_pid_t,
            Field ''_uid'' c__compat_uid32_t]),
         Field ''_timer'' (CStruct [] False
           [Field ''_tid'' compat_timer_t,
            Field ''_overrun'' c_int,
            Field ''_sigval'' compat_sigval_t]),
         Field ''_rt'' (CStruct [] False
           [Field ''_pid'' compat_pid_t,
            Field ''_uid'' c__compat_uid32_t,
            Field ''_sigval'' compat_sigval_t]),
         Field ''_sigchld'' (CStruct [] False
           [Field ''_pid'' compat_pid_t,
            Field ''_uid'' c__compat_uid32_t,
            Field ''_status'' c_int,
            Field ''_utime'' compat_clock_t,
            Field ''_stime'' compat_clock_t]),
         Field ''_sigfault'' (CStruct [] False
           [Field ''_addr'' compat_uptr_t,
            Field [] (CUnion [] False
              [Field ''_trapno'' c_int,
               Field ''_addr_lsb'' short_int,
               Field ''_addr_bnd'' (CStruct [] False
                 [Field ''_dummy_bnd'' (CArr 4 c_char),
                  Field ''_lower'' compat_uptr_t,
                  Field ''_upper'' compat_uptr_t]),
               Field ''_addr_pkey'' (CStruct [] False
                 [Field ''_dummy_pkey'' (CArr 4 c_char),
                  Field ''_pkey'' u32]),
               Field ''_perf'' (CStruct [] False
                 [Field ''_data'' compat_ulong_t,
                  Field ''_type'' u32,
                  Field ''_flags'' u32])])]),
         Field ''_sigpoll'' (CStruct [] False
           [Field ''_band'' compat_long_t,
            Field ''_fd'' c_int]),
         Field ''_sigsys'' (CStruct [] False
           [Field ''_call_addr'' compat_uptr_t,
            Field ''_syscall'' c_int,
            Field ''_arch'' unsigned_int])])]"

definition struct_mce :: cty where
  "struct_mce = CStruct ''mce'' False
     [Field ''status'' c__u64,
      Field ''misc'' c__u64,
      Field ''addr'' c__u64,
      Field ''mcgstatus'' c__u64,
      Field ''ip'' c__u64,
      Field ''tsc'' c__u64,
      Field ''time'' c__u64,
      Field ''cpuvendor'' c__u8,
      Field ''inject_flags'' c__u8,
      Field ''severity'' c__u8,
      Field ''pad'' c__u8,
      Field ''cpuid'' c__u32,
      Field ''cs'' c__u8,
      Field ''bank'' c__u8,
      Field ''cpu'' c__u8,
      Field ''finished'' c__u8,
      Field ''extcpu'' c__u32,
      Field ''socketid'' c__u32,
      Field ''apicid'' c__u32,
      Field ''mcgcap'' c__u64,
      Field ''synd'' c__u64,
      Field ''ipid'' c__u64,
      Field ''ppin'' c__u64,
      Field ''microcode'' c__u32,
      Field ''kflags'' c__u64]"

definition struct_perf_branch_stack :: cty where
  "struct_perf_branch_stack = CStruct ''perf_branch_stack'' False
     [Field ''nr'' u64,
      Field ''hw_idx'' u64,
      Field ''entries'' (CArr 0 struct_perf_branch_entry)]"

definition struct_perf_guest_switch_msr :: cty where
  "struct_perf_guest_switch_msr = CStruct ''perf_guest_switch_msr'' False
     [Field ''msr'' unsigned_int,
      Field ''host'' u64,
      Field ''guest'' u64]"

definition struct_cpu_hw_events :: cty where
  "struct_cpu_hw_events = CStruct ''cpu_hw_events'' False
     [Field ''events'' (CArr 64 (CPtr ''struct perf_event'')),
      Field ''active_mask'' (CArr 1 long_unsigned_int),
      Field ''dirty'' (CArr 1 long_unsigned_int),
      Field ''enabled'' c_int,
      Field ''n_events'' c_int,
      Field ''n_added'' c_int,
      Field ''n_txn'' c_int,
      Field ''n_txn_pair'' c_int,
      Field ''n_txn_metric'' c_int,
      Field ''assign'' (CArr 64 c_int),
      Field ''tags'' (CArr 64 u64),
      Field ''event_list'' (CArr 64 (CPtr ''struct perf_event'')),
      Field ''event_constraint'' (CArr 64 (CPtr ''struct event_constraint'')),
      Field ''n_excl'' c_int,
      Field ''n_late_setup'' c_int,
      Field ''txn_flags'' unsigned_int,
      Field ''is_fake'' c_int,
      Field ''ds'' (CPtr ''struct debug_store''),
      Field ''ds_bts_vaddr'' (CPtr ''void''),
      Field ''pebs_vaddr'' (CPtr ''void''),
      Field ''pebs_enabled'' u64,
      Field ''n_pebs'' c_int,
      Field ''n_large_pebs'' c_int,
      Field ''n_pebs_via_pt'' c_int,
      Field ''pebs_output'' c_int,
      Field ''pebs_data_cfg'' u64,
      Field ''active_pebs_data_cfg'' u64,
      Field ''pebs_record_size'' c_int,
      Field ''fixed_ctrl_val'' u64,
      Field ''active_fixed_ctrl_val'' u64,
      Field ''acr_cfg_b'' (CArr 64 u64),
      Field ''acr_cfg_c'' (CArr 64 u64),
      Field ''cfg_c_val'' (CArr 64 u64),
      Field ''lbr_users'' c_int,
      Field ''lbr_pebs_users'' c_int,
      Field ''lbr_stack'' struct_perf_branch_stack,
      Field ''lbr_entries'' (CArr 32 struct_perf_branch_entry),
      Field ''lbr_counters'' (CArr 32 u64),
      Field [] (CUnion [] False
        [Field ''lbr_sel'' (CPtr ''struct er_account''),
         Field ''lbr_ctl'' (CPtr ''struct er_account'')]),
      Field ''br_sel'' u64,
      Field ''last_task_ctx'' (CPtr ''void''),
      Field ''last_log_id'' c_int,
      Field ''lbr_select'' c_int,
      Field ''lbr_xsave'' (CPtr ''void''),
      Field ''intel_ctrl_guest_mask'' u64,
      Field ''intel_ctrl_host_mask'' u64,
      Field ''guest_switch_msrs'' (CArr 64 struct_perf_guest_switch_msr),
      Field ''intel_cp_status'' u64,
      Field ''shared_regs'' (CPtr ''struct intel_shared_regs''),
      Field ''constraint_list'' (CPtr ''struct event_constraint''),
      Field ''excl_cntrs'' (CPtr ''struct intel_excl_cntrs''),
      Field ''excl_thread_id'' c_int,
      Field ''tfa_shadow'' u64,
      Field ''n_metric'' c_int,
      Field ''amd_nb'' (CPtr ''struct amd_nb''),
      Field ''brs_active'' c_int,
      Field ''perf_ctr_virt_mask'' u64,
      Field ''n_pair'' c_int,
      Field ''kfree_on_online'' (CArr 2 (CPtr ''void'')),
      Field ''pmu'' (CPtr ''struct pmu'')]"

definition struct_cpu_user_regs :: cty where
  "struct_cpu_user_regs = CStruct ''cpu_user_regs'' False
     [Field ''r15'' uint64_t,
      Field ''r14'' uint64_t,
      Field ''r13'' uint64_t,
      Field ''r12'' uint64_t,
      Field [] (CUnion [] False
        [Field ''rbp'' uint64_t,
         Field ''ebp'' uint64_t,
         Field ''_ebp'' uint32_t]),
      Field [] (CUnion [] False
        [Field ''rbx'' uint64_t,
         Field ''ebx'' uint64_t,
         Field ''_ebx'' uint32_t]),
      Field ''r11'' uint64_t,
      Field ''r10'' uint64_t,
      Field ''r9'' uint64_t,
      Field ''r8'' uint64_t,
      Field [] (CUnion [] False
        [Field ''rax'' uint64_t,
         Field ''eax'' uint64_t,
         Field ''_eax'' uint32_t]),
      Field [] (CUnion [] False
        [Field ''rcx'' uint64_t,
         Field ''ecx'' uint64_t,
         Field ''_ecx'' uint32_t]),
      Field [] (CUnion [] False
        [Field ''rdx'' uint64_t,
         Field ''edx'' uint64_t,
         Field ''_edx'' uint32_t]),
      Field [] (CUnion [] False
        [Field ''rsi'' uint64_t,
         Field ''esi'' uint64_t,
         Field ''_esi'' uint32_t]),
      Field [] (CUnion [] False
        [Field ''rdi'' uint64_t,
         Field ''edi'' uint64_t,
         Field ''_edi'' uint32_t]),
      Field ''error_code'' uint32_t,
      Field ''entry_vector'' uint32_t,
      Field [] (CUnion [] False
        [Field ''rip'' uint64_t,
         Field ''eip'' uint64_t,
         Field ''_eip'' uint32_t]),
      Field ''cs'' uint16_t,
      Field ''_pad0'' (CArr 1 uint16_t),
      Field ''saved_upcall_mask'' uint8_t,
      Field ''_pad1'' (CArr 3 uint8_t),
      Field [] (CUnion [] False
        [Field ''rflags'' uint64_t,
         Field ''eflags'' uint64_t,
         Field ''_eflags'' uint32_t]),
      Field [] (CUnion [] False
        [Field ''rsp'' uint64_t,
         Field ''esp'' uint64_t,
         Field ''_esp'' uint32_t]),
      Field ''ss'' uint16_t,
      Field ''_pad2'' (CArr 3 uint16_t),
      Field ''es'' uint16_t,
      Field ''_pad3'' (CArr 3 uint16_t),
      Field ''ds'' uint16_t,
      Field ''_pad4'' (CArr 3 uint16_t),
      Field ''fs'' uint16_t,
      Field ''_pad5'' (CArr 3 uint16_t),
      Field ''gs'' uint16_t,
      Field ''_pad6'' (CArr 3 uint16_t)]"

definition struct_update_util_data :: cty where
  "struct_update_util_data = CStruct ''update_util_data'' False
     [Field ''func'' (CPtr ''void (struct update_util_data *, u64, unsigned int)'')]"

definition struct_pstate_data :: cty where
  "struct_pstate_data = CStruct ''pstate_data'' False
     [Field ''current_pstate'' c_int,
      Field ''min_pstate'' c_int,
      Field ''max_pstate'' c_int,
      Field ''max_pstate_physical'' c_int,
      Field ''perf_ctl_scaling'' c_int,
      Field ''scaling'' c_int,
      Field ''turbo_pstate'' c_int,
      Field ''min_freq'' unsigned_int,
      Field ''max_freq'' unsigned_int,
      Field ''turbo_freq'' unsigned_int]"

definition struct_vid_data :: cty where
  "struct_vid_data = CStruct ''vid_data'' False
     [Field ''min'' c_int,
      Field ''max'' c_int,
      Field ''turbo'' c_int,
      Field ''ratio'' int32_t]"

definition struct_sample :: cty where
  "struct_sample = CStruct ''sample'' False
     [Field ''core_avg_perf'' int32_t,
      Field ''busy_scaled'' int32_t,
      Field ''aperf'' u64,
      Field ''mperf'' u64,
      Field ''tsc'' u64,
      Field ''time'' u64]"

definition struct_cpudata :: cty where
  "struct_cpudata = CStruct ''cpudata'' False
     [Field ''cpu'' c_int,
      Field ''policy'' unsigned_int,
      Field ''update_util'' struct_update_util_data,
      Field ''update_util_set'' bool,
      Field ''pstate'' struct_pstate_data,
      Field ''vid'' struct_vid_data,
      Field ''last_update'' u64,
      Field ''last_sample_time'' u64,
      Field ''aperf_mperf_shift'' u64,
      Field ''prev_aperf'' u64,
      Field ''prev_mperf'' u64,
      Field ''prev_tsc'' u64,
      Field ''sample'' struct_sample,
      Field ''min_perf_ratio'' int32_t,
      Field ''max_perf_ratio'' int32_t,
      Field ''acpi_perf_data'' struct_acpi_processor_performance,
      Field ''valid_pss_table'' bool,
      Field ''iowait_boost'' unsigned_int,
      Field ''epp_powersave'' s16,
      Field ''epp_policy'' s16,
      Field ''epp_default'' s16,
      Field ''epp_cached'' s16,
      Field ''hwp_req_cached'' u64,
      Field ''hwp_cap_cached'' u64,
      Field ''last_io_update'' u64,
      Field ''capacity_perf'' unsigned_int,
      Field ''sched_flags'' unsigned_int,
      Field ''hwp_boost_min'' u32,
      Field ''suspended'' bool,
      Field ''pd_registered'' bool,
      Field ''hwp_notify_work'' struct_delayed_work]"

definition struct_cpufreq_driver :: cty where
  "struct_cpufreq_driver = CStruct ''cpufreq_driver'' False
     [Field ''name'' (CArr 16 c_char),
      Field ''flags'' u16,
      Field ''driver_data'' (CPtr ''void''),
      Field ''init'' (CPtr ''int (struct cpufreq_policy *)''),
      Field ''verify'' (CPtr ''int (struct cpufreq_policy_data *)''),
      Field ''setpolicy'' (CPtr ''int (struct cpufreq_policy *)''),
      Field ''target'' (CPtr ''int (struct cpufreq_policy *, unsigned int, unsigned int)''),
      Field ''target_index'' (CPtr ''int (struct cpufreq_policy *, unsigned int)''),
      Field ''fast_switch'' (CPtr ''unsigned int (struct cpufreq_policy *, unsigned int)''),
      Field ''adjust_perf'' (CPtr ''void (struct cpufreq_policy *, long unsigned int, long unsigned int, long unsigned int)''),
      Field ''get_intermediate'' (CPtr ''unsigned int (struct cpufreq_policy *, unsigned int)''),
      Field ''target_intermediate'' (CPtr ''int (struct cpufreq_policy *, unsigned int)''),
      Field ''get'' (CPtr ''unsigned int (unsigned int)''),
      Field ''update_limits'' (CPtr ''void (struct cpufreq_policy *)''),
      Field ''bios_limit'' (CPtr ''int (int, unsigned int *)''),
      Field ''online'' (CPtr ''int (struct cpufreq_policy *)''),
      Field ''offline'' (CPtr ''int (struct cpufreq_policy *)''),
      Field ''exit'' (CPtr ''void (struct cpufreq_policy *)''),
      Field ''suspend'' (CPtr ''int (struct cpufreq_policy *)''),
      Field ''resume'' (CPtr ''int (struct cpufreq_policy *)''),
      Field ''ready'' (CPtr ''void (struct cpufreq_policy *)''),
      Field ''attr'' (CPtr ''struct freq_attr *''),
      Field ''boost_enabled'' bool,
      Field ''set_boost'' (CPtr ''int (struct cpufreq_policy *, int)''),
      Field ''register_em'' (CPtr ''void (struct cpufreq_policy *)'')]"

definition struct_cpufreq_cpuinfo :: cty where
  "struct_cpufreq_cpuinfo = CStruct ''cpufreq_cpuinfo'' False
     [Field ''max_freq'' unsigned_int,
      Field ''min_freq'' unsigned_int,
      Field ''transition_latency'' unsigned_int]"

definition enum_cpufreq_table_sorting :: cty where
  "enum_cpufreq_table_sorting = CEnum 4
     [(''CPUFREQ_TABLE_UNSORTED'', 0), (''CPUFREQ_TABLE_SORTED_ASCENDING'', 1),
      (''CPUFREQ_TABLE_SORTED_DESCENDING'', 2)]"

definition struct_cpufreq_policy :: cty where
  "struct_cpufreq_policy = CStruct ''cpufreq_policy'' False
     [Field ''cpus'' cpumask_var_t,
      Field ''related_cpus'' cpumask_var_t,
      Field ''real_cpus'' cpumask_var_t,
      Field ''shared_type'' unsigned_int,
      Field ''cpu'' unsigned_int,
      Field ''clk'' (CPtr ''struct clk''),
      Field ''cpuinfo'' struct_cpufreq_cpuinfo,
      Field ''min'' unsigned_int,
      Field ''max'' unsigned_int,
      Field ''cur'' unsigned_int,
      Field ''suspend_freq'' unsigned_int,
      Field ''policy'' unsigned_int,
      Field ''last_policy'' unsigned_int,
      Field ''governor'' (CPtr ''struct cpufreq_governor''),
      Field ''governor_data'' (CPtr ''void''),
      Field ''last_governor'' (CArr 16 c_char),
      Field ''update'' struct_work_struct,
      Field ''constraints'' struct_freq_constraints,
      Field ''min_freq_req'' (CPtr ''struct freq_qos_request''),
      Field ''max_freq_req'' (CPtr ''struct freq_qos_request''),
      Field ''freq_table'' (CPtr ''struct cpufreq_frequency_table''),
      Field ''freq_table_sorted'' enum_cpufreq_table_sorting,
      Field ''policy_list'' struct_list_head,
      Field ''kobj'' struct_kobject,
      Field ''kobj_unregister'' struct_completion,
      Field ''rwsem'' struct_rw_semaphore,
      Field ''fast_switch_possible'' bool,
      Field ''fast_switch_enabled'' bool,
      Field ''strict_target'' bool,
      Field ''efficiencies_available'' bool,
      Field ''transition_delay_us'' unsigned_int,
      Field ''dvfs_possible_from_any_cpu'' bool,
      Field ''boost_enabled'' bool,
      Field ''boost_supported'' bool,
      Field ''cached_target_freq'' unsigned_int,
      Field ''cached_resolved_idx'' unsigned_int,
      Field ''transition_ongoing'' bool,
      Field ''transition_lock'' spinlock_t,
      Field ''transition_wait'' wait_queue_head_t,
      Field ''transition_task'' (CPtr ''struct task_struct''),
      Field ''stats'' (CPtr ''struct cpufreq_stats''),
      Field ''driver_data'' (CPtr ''void''),
      Field ''cdev'' (CPtr ''struct thermal_cooling_device''),
      Field ''nb_min'' struct_notifier_block,
      Field ''nb_max'' struct_notifier_block]"

definition struct_cpuinfo_topology :: cty where
  "struct_cpuinfo_topology = CStruct ''cpuinfo_topology'' False
     [Field ''apicid'' u32,
      Field ''initial_apicid'' u32,
      Field ''pkg_id'' u32,
      Field ''die_id'' u32,
      Field ''cu_id'' u32,
      Field ''core_id'' u32,
      Field ''logical_pkg_id'' u32,
      Field ''logical_die_id'' u32,
      Field ''logical_core_id'' u32,
      Field ''amd_node_id'' u32,
      Field ''llc_id'' u32,
      Field ''l2c_id'' u32,
      Field [] (CUnion [] False
        [Field ''cpu_type'' u32,
         Field [] (CStruct [] False
           [BitField ''intel_native_model_id'' u32 24,
            BitField ''intel_type'' u32 8]),
         Field [] (CStruct [] False
           [BitField ''amd_num_processors'' u32 16,
            BitField ''amd_power_eff_ranking'' u32 8,
            BitField ''amd_native_model_id'' u32 4,
            BitField ''amd_type'' u32 4])])]"

definition struct_cpuinfo_x86 :: cty where
  "struct_cpuinfo_x86 = CStruct ''cpuinfo_x86'' False
     [Field [] (CUnion [] False
        [Field [] (CStruct [] False
           [Field ''x86_model'' c__u8,
            Field ''x86'' c__u8,
            Field ''x86_vendor'' c__u8,
            Field ''x86_reserved'' c__u8]),
         Field ''x86_vfm'' c__u32]),
      Field ''x86_stepping'' c__u8,
      Field ''x86_tlbsize'' c_int,
      Field ''vmx_capability'' (CArr 5 c__u32),
      Field ''x86_virt_bits'' c__u8,
      Field ''x86_phys_bits'' c__u8,
      Field ''extended_cpuid_level'' c__u32,
      Field ''cpuid_level'' c_int,
      Field [] (CUnion [] False
        [Field ''x86_capability'' (CArr 24 c__u32),
         Field ''x86_capability_alignment'' long_unsigned_int]),
      Field ''x86_vendor_id'' (CArr 16 c_char),
      Field ''x86_model_id'' (CArr 64 c_char),
      Field ''topo'' struct_cpuinfo_topology,
      Field ''x86_cache_size'' unsigned_int,
      Field ''x86_cache_alignment'' c_int,
      Field ''x86_cache_max_rmid'' c_int,
      Field ''x86_cache_occ_scale'' c_int,
      Field ''x86_cache_mbm_width_offset'' c_int,
      Field ''x86_power'' c_int,
      Field ''loops_per_jiffy'' long_unsigned_int,
      Field ''ppin'' u64,
      Field ''x86_clflush_size'' u16,
      Field ''booted_cores'' u16,
      Field ''cpu_index'' u16,
      Field ''smt_active'' bool,
      Field ''microcode'' u32,
      Field ''x86_cache_bits'' u8,
      BitField ''initialized'' unsigned_int 1]"

definition struct_cxl_cper_sec_prot_err :: cty where
  "struct_cxl_cper_sec_prot_err = CStruct ''cxl_cper_sec_prot_err'' True
     [Field ''valid_bits'' u64,
      Field ''agent_type'' u8,
      Field ''reserved'' (CArr 7 u8),
      Field ''agent_addr'' (CUnion [] False
        [Field ''rcrb_base_addr'' u64,
         Field [] (CStruct [] True
           [Field ''function'' u8,
            Field ''device'' u8,
            Field ''bus'' u8,
            Field ''segment'' u16,
            Field ''reserved_1'' (CArr 3 u8)])]),
      Field ''device_id'' (CStruct [] False
        [Field ''vendor_id'' u16,
         Field ''device_id'' u16,
         Field ''subsystem_vendor_id'' u16,
         Field ''subsystem_id'' u16,
         Field ''class_code'' (CArr 2 u8),
         Field ''slot'' u16,
         Field ''reserved_1'' (CArr 4 u8)]),
      Field ''dev_serial_num'' (CStruct [] False
        [Field ''lower_dw'' u32,
         Field ''upper_dw'' u32]),
      Field ''capability'' (CArr 60 u8),
      Field ''dvsec_len'' u16,
      Field ''err_len'' u16,
      Field ''reserved_2'' (CArr 4 u8)]"

definition z_streamp :: cty where [layout_simps]:
  "z_streamp = CPtr ''z_stream''"

definition ulg :: cty where [layout_simps]:
  "ulg = long_unsigned_int"

definition Byte :: cty where [layout_simps]:
  "Byte = unsigned_char"

definition uInt :: cty where [layout_simps]:
  "uInt = unsigned_int"

definition IPos :: cty where [layout_simps]:
  "IPos = unsigned_int"

definition ush :: cty where [layout_simps]:
  "ush = short_unsigned_int"

definition struct_ct_data_s :: cty where
  "struct_ct_data_s = CStruct ''ct_data_s'' False
     [Field ''fc'' (CUnion [] False
        [Field ''freq'' ush,
         Field ''code'' ush]),
      Field ''dl'' (CUnion [] False
        [Field ''dad'' ush,
         Field ''len'' ush])]"

definition struct_tree_desc_s :: cty where
  "struct_tree_desc_s = CStruct ''tree_desc_s'' False
     [Field ''dyn_tree'' (CPtr ''ct_data''),
      Field ''max_code'' c_int,
      Field ''stat_desc'' (CPtr ''static_tree_desc'')]"

definition uch :: cty where [layout_simps]:
  "uch = unsigned_char"

definition struct_deflate_state :: cty where
  "struct_deflate_state = CStruct ''deflate_state'' False
     [Field ''strm'' z_streamp,
      Field ''status'' c_int,
      Field ''pending_buf'' (CPtr ''Byte''),
      Field ''pending_buf_size'' ulg,
      Field ''pending_out'' (CPtr ''Byte''),
      Field ''pending'' c_int,
      Field ''noheader'' c_int,
      Field ''data_type'' Byte,
      Field ''method'' Byte,
      Field ''last_flush'' c_int,
      Field ''w_size'' uInt,
      Field ''w_bits'' uInt,
      Field ''w_mask'' uInt,
      Field ''window'' (CPtr ''Byte''),
      Field ''window_size'' ulg,
      Field ''prev'' (CPtr ''Pos''),
      Field ''head'' (CPtr ''Pos''),
      Field ''ins_h'' uInt,
      Field ''hash_size'' uInt,
      Field ''hash_bits'' uInt,
      Field ''hash_mask'' uInt,
      Field ''hash_shift'' uInt,
      Field ''block_start'' c_long,
      Field ''match_length'' uInt,
      Field ''prev_match'' IPos,
      Field ''match_available'' c_int,
      Field ''strstart'' uInt,
      Field ''match_start'' uInt,
      Field ''lookahead'' uInt,
      Field ''prev_length'' uInt,
      Field ''max_chain_length'' uInt,
      Field ''max_lazy_match'' uInt,
      Field ''level'' c_int,
      Field ''strategy'' c_int,
      Field ''good_match'' uInt,
      Field ''nice_match'' c_int,
      Field ''dyn_ltree'' (CArr 573 struct_ct_data_s),
      Field ''dyn_dtree'' (CArr 61 struct_ct_data_s),
      Field ''bl_tree'' (CArr 39 struct_ct_data_s),
      Field ''l_desc'' struct_tree_desc_s,
      Field ''d_desc'' struct_tree_desc_s,
      Field ''bl_desc'' struct_tree_desc_s,
      Field ''bl_count'' (CArr 16 ush),
      Field ''heap'' (CArr 573 c_int),
      Field ''heap_len'' c_int,
      Field ''heap_max'' c_int,
      Field ''depth'' (CArr 573 uch),
      Field ''l_buf'' (CPtr ''uch''),
      Field ''lit_bufsize'' uInt,
      Field ''last_lit'' uInt,
      Field ''d_buf'' (CPtr ''ush''),
      Field ''opt_len'' ulg,
      Field ''static_len'' ulg,
      Field ''compressed_len'' ulg,
      Field ''matches'' uInt,
      Field ''last_eob_len'' c_int,
      Field ''bi_buf'' ush,
      Field ''bi_valid'' c_int]"

definition struct_devfreq_dev_status :: cty where
  "struct_devfreq_dev_status = CStruct ''devfreq_dev_status'' False
     [Field ''total_time'' long_unsigned_int,
      Field ''busy_time'' long_unsigned_int,
      Field ''current_frequency'' long_unsigned_int,
      Field ''private_data'' (CPtr ''void'')]"

definition struct_devfreq_stats :: cty where
  "struct_devfreq_stats = CStruct ''devfreq_stats'' False
     [Field ''total_trans'' unsigned_int,
      Field ''trans_table'' (CPtr ''unsigned int''),
      Field ''time_in_state'' (CPtr ''u64''),
      Field ''last_update'' u64]"

definition struct_srcu_notifier_head :: cty where
  "struct_srcu_notifier_head = CStruct ''srcu_notifier_head'' False
     [Field ''mutex'' struct_mutex,
      Field ''srcuu'' struct_srcu_usage,
      Field ''srcu'' struct_srcu_struct,
      Field ''head'' (CPtr ''struct notifier_block'')]"

definition struct_devfreq :: cty where
  "struct_devfreq = CStruct ''devfreq'' False
     [Field ''node'' struct_list_head,
      Field ''lock'' struct_mutex,
      Field ''dev'' struct_device,
      Field ''profile'' (CPtr ''struct devfreq_dev_profile''),
      Field ''governor'' (CPtr ''const struct devfreq_governor''),
      Field ''opp_table'' (CPtr ''struct opp_table''),
      Field ''nb'' struct_notifier_block,
      Field ''work'' struct_delayed_work,
      Field ''freq_table'' (CPtr ''long unsigned int''),
      Field ''max_state'' unsigned_int,
      Field ''previous_freq'' long_unsigned_int,
      Field ''last_status'' struct_devfreq_dev_status,
      Field ''data'' (CPtr ''void''),
      Field ''governor_data'' (CPtr ''void''),
      Field ''user_min_freq_req'' struct_dev_pm_qos_request,
      Field ''user_max_freq_req'' struct_dev_pm_qos_request,
      Field ''scaling_min_freq'' long_unsigned_int,
      Field ''scaling_max_freq'' long_unsigned_int,
      Field ''stop_polling'' bool,
      Field ''suspend_freq'' long_unsigned_int,
      Field ''resume_freq'' long_unsigned_int,
      Field ''suspend_count'' atomic_t,
      Field ''stats'' struct_devfreq_stats,
      Field ''transition_notifier_list'' struct_srcu_notifier_head,
      Field ''cdev'' (CPtr ''struct thermal_cooling_device''),
      Field ''nb_min'' struct_notifier_block,
      Field ''nb_max'' struct_notifier_block]"

definition c__kernel_ssize_t :: cty where [layout_simps]:
  "c__kernel_ssize_t = c__kernel_long_t"

definition ssize_t :: cty where [layout_simps]:
  "ssize_t = c__kernel_ssize_t"

definition struct_dio :: cty where
  "struct_dio = CStruct ''dio'' False
     [Field ''flags'' c_int,
      Field ''opf'' blk_opf_t,
      Field ''bio_disk'' (CPtr ''struct gendisk''),
      Field ''inode'' (CPtr ''struct inode''),
      Field ''i_size'' loff_t,
      Field ''end_io'' (CPtr ''dio_iodone_t''),
      Field ''is_pinned'' bool,
      Field ''private'' (CPtr ''void''),
      Field ''bio_lock'' spinlock_t,
      Field ''page_errors'' c_int,
      Field ''is_async'' c_int,
      Field ''defer_completion'' bool,
      Field ''should_dirty'' bool,
      Field ''io_error'' c_int,
      Field ''refcount'' long_unsigned_int,
      Field ''bio_list'' (CPtr ''struct bio''),
      Field ''waiter'' (CPtr ''struct task_struct''),
      Field ''iocb'' (CPtr ''struct kiocb''),
      Field ''result'' ssize_t,
      Field [] (CUnion [] False
        [Field ''pages'' (CArr 64 (CPtr ''struct page'')),
         Field ''complete_work'' struct_work_struct]),
      BitField [] c_long 64]"

definition struct_dio_submit :: cty where
  "struct_dio_submit = CStruct ''dio_submit'' False
     [Field ''bio'' (CPtr ''struct bio''),
      Field ''blkbits'' unsigned_int,
      Field ''blkfactor'' unsigned_int,
      Field ''start_zero_done'' unsigned_int,
      Field ''pages_in_io'' c_int,
      Field ''block_in_file'' sector_t,
      Field ''blocks_available'' unsigned_int,
      Field ''reap_counter'' c_int,
      Field ''final_block_in_request'' sector_t,
      Field ''boundary'' c_int,
      Field ''get_block'' (CPtr ''get_block_t''),
      Field ''logical_offset_in_bio'' loff_t,
      Field ''final_block_in_bio'' sector_t,
      Field ''next_block_for_io'' sector_t,
      Field ''cur_page'' (CPtr ''struct page''),
      Field ''cur_page_offset'' unsigned_int,
      Field ''cur_page_len'' unsigned_int,
      Field ''cur_page_block'' sector_t,
      Field ''cur_page_fs_offset'' loff_t,
      Field ''iter'' (CPtr ''struct iov_iter''),
      Field ''head'' unsigned_int,
      Field ''tail'' unsigned_int,
      Field ''from'' size_t,
      Field ''to'' size_t]"

definition struct_d_partition :: cty where
  "struct_d_partition = CStruct ''d_partition'' False
     [Field ''p_size'' c__le32,
      Field ''p_offset'' c__le32,
      Field ''p_fsize'' c__le32,
      Field ''p_fstype'' u8,
      Field ''p_frag'' u8,
      Field ''p_cpg'' c__le16]"

definition struct_disklabel :: cty where
  "struct_disklabel = CStruct ''disklabel'' False
     [Field ''d_magic'' c__le32,
      Field ''d_type'' c__le16,
      Field ''d_subtype'' c__le16,
      Field ''d_typename'' (CArr 16 u8),
      Field ''d_packname'' (CArr 16 u8),
      Field ''d_secsize'' c__le32,
      Field ''d_nsectors'' c__le32,
      Field ''d_ntracks'' c__le32,
      Field ''d_ncylinders'' c__le32,
      Field ''d_secpercyl'' c__le32,
      Field ''d_secprtunit'' c__le32,
      Field ''d_sparespertrack'' c__le16,
      Field ''d_sparespercyl'' c__le16,
      Field ''d_acylinders'' c__le32,
      Field ''d_rpm'' c__le16,
      Field ''d_interleave'' c__le16,
      Field ''d_trackskew'' c__le16,
      Field ''d_cylskew'' c__le16,
      Field ''d_headswitch'' c__le32,
      Field ''d_trkseek'' c__le32,
      Field ''d_flags'' c__le32,
      Field ''d_drivedata'' (CArr 5 c__le32),
      Field ''d_spare'' (CArr 5 c__le32),
      Field ''d_magic2'' c__le32,
      Field ''d_checksum'' c__le16,
      Field ''d_npartitions'' c__le16,
      Field ''d_bbsize'' c__le32,
      Field ''d_sbsize'' c__le32,
      Field ''d_partitions'' (CArr 18 struct_d_partition)]"

definition struct_dom0_vga_console_info :: cty where
  "struct_dom0_vga_console_info = CStruct ''dom0_vga_console_info'' False
     [Field ''video_type'' uint8_t,
      Field ''u'' (CUnion [] False
        [Field ''text_mode_3'' (CStruct [] False
           [Field ''font_height'' uint16_t,
            Field ''cursor_x'' uint16_t,
            Field ''cursor_y'' uint16_t,
            Field ''rows'' uint16_t,
            Field ''columns'' uint16_t]),
         Field ''vesa_lfb'' (CStruct [] False
           [Field ''width'' uint16_t,
            Field ''height'' uint16_t,
            Field ''bytes_per_line'' uint16_t,
            Field ''bits_per_pixel'' uint16_t,
            Field ''lfb_base'' uint32_t,
            Field ''lfb_size'' uint32_t,
            Field ''red_pos'' uint8_t,
            Field ''red_size'' uint8_t,
            Field ''green_pos'' uint8_t,
            Field ''green_size'' uint8_t,
            Field ''blue_pos'' uint8_t,
            Field ''blue_size'' uint8_t,
            Field ''rsvd_pos'' uint8_t,
            Field ''rsvd_size'' uint8_t,
            Field ''gbl_caps'' uint32_t,
            Field ''mode_attrs'' uint16_t,
            Field ''pad'' uint16_t,
            Field ''ext_lfb_base'' uint32_t])])]"

definition struct_crypto_wait :: cty where
  "struct_crypto_wait = CStruct ''crypto_wait'' False
     [Field ''completion'' struct_completion,
      Field ''err'' c_int]"

definition enum_drbg_seed_state :: cty where
  "enum_drbg_seed_state = CEnum 4
     [(''DRBG_SEED_STATE_UNSEEDED'', 0), (''DRBG_SEED_STATE_PARTIAL'', 1),
      (''DRBG_SEED_STATE_FULL'', 2)]"

definition struct_drbg_string :: cty where
  "struct_drbg_string = CStruct ''drbg_string'' False
     [Field ''buf'' (CPtr ''const unsigned char''),
      Field ''len'' size_t,
      Field ''list'' struct_list_head]"

definition struct_drbg_state :: cty where
  "struct_drbg_state = CStruct ''drbg_state'' False
     [Field ''drbg_mutex'' struct_mutex,
      Field ''V'' (CPtr ''unsigned char''),
      Field ''Vbuf'' (CPtr ''unsigned char''),
      Field ''C'' (CPtr ''unsigned char''),
      Field ''Cbuf'' (CPtr ''unsigned char''),
      Field ''reseed_ctr'' size_t,
      Field ''reseed_threshold'' size_t,
      Field ''scratchpad'' (CPtr ''unsigned char''),
      Field ''scratchpadbuf'' (CPtr ''unsigned char''),
      Field ''priv_data'' (CPtr ''void''),
      Field ''ctr_handle'' (CPtr ''struct crypto_skcipher''),
      Field ''ctr_req'' (CPtr ''struct skcipher_request''),
      Field ''outscratchpadbuf'' (CPtr ''__u8''),
      Field ''outscratchpad'' (CPtr ''__u8''),
      Field ''ctr_wait'' struct_crypto_wait,
      Field ''sg_in'' struct_scatterlist,
      Field ''sg_out'' struct_scatterlist,
      Field ''seeded'' enum_drbg_seed_state,
      Field ''last_seed_time'' long_unsigned_int,
      Field ''pr'' bool,
      Field ''fips_primed'' bool,
      Field ''prev'' (CPtr ''unsigned char''),
      Field ''jent'' (CPtr ''struct crypto_rng''),
      Field ''d_ops'' (CPtr ''const struct drbg_state_ops''),
      Field ''core'' (CPtr ''const struct drbg_core''),
      Field ''test_data'' struct_drbg_string]"

definition struct_pixel_format :: cty where
  "struct_pixel_format = CStruct ''pixel_format'' False
     [Field ''bits_per_pixel'' unsigned_char,
      Field ''indexed'' bool,
      Field [] (CUnion [] False
        [Field [] (CStruct [] False
           [Field ''alpha'' (CStruct [] False
              [Field ''offset'' unsigned_char,
               Field ''length'' unsigned_char]),
            Field ''red'' (CStruct [] False
              [Field ''offset'' unsigned_char,
               Field ''length'' unsigned_char]),
            Field ''green'' (CStruct [] False
              [Field ''offset'' unsigned_char,
               Field ''length'' unsigned_char]),
            Field ''blue'' (CStruct [] False
              [Field ''offset'' unsigned_char,
               Field ''length'' unsigned_char])]),
         Field ''index'' (CStruct [] False
           [Field ''offset'' unsigned_char,
            Field ''length'' unsigned_char])])]"

definition struct_i2c_timings :: cty where
  "struct_i2c_timings = CStruct ''i2c_timings'' False
     [Field ''bus_freq_hz'' u32,
      Field ''scl_rise_ns'' u32,
      Field ''scl_fall_ns'' u32,
      Field ''scl_int_delay_ns'' u32,
      Field ''sda_fall_ns'' u32,
      Field ''sda_hold_ns'' u32,
      Field ''digital_filter_width_ns'' u32,
      Field ''analog_filter_cutoff_freq_hz'' u32]"

definition struct_dw_i2c_dev :: cty where
  "struct_dw_i2c_dev = CStruct ''dw_i2c_dev'' False
     [Field ''dev'' (CPtr ''struct device''),
      Field ''map'' (CPtr ''struct regmap''),
      Field ''sysmap'' (CPtr ''struct regmap''),
      Field ''base'' (CPtr ''void''),
      Field ''ext'' (CPtr ''void''),
      Field ''cmd_complete'' struct_completion,
      Field ''clk'' (CPtr ''struct clk''),
      Field ''pclk'' (CPtr ''struct clk''),
      Field ''rst'' (CPtr ''struct reset_control''),
      Field ''slave'' (CPtr ''struct i2c_client''),
      Field ''get_clk_rate_khz'' (CPtr ''u32 (struct dw_i2c_dev *)''),
      Field ''cmd_err'' c_int,
      Field ''msgs'' (CPtr ''struct i2c_msg''),
      Field ''msgs_num'' c_int,
      Field ''msg_write_idx'' c_int,
      Field ''tx_buf_len'' u32,
      Field ''tx_buf'' (CPtr ''u8''),
      Field ''msg_read_idx'' c_int,
      Field ''rx_buf_len'' u32,
      Field ''rx_buf'' (CPtr ''u8''),
      Field ''msg_err'' c_int,
      Field ''status'' unsigned_int,
      Field ''abort_source'' unsigned_int,
      Field ''sw_mask'' unsigned_int,
      Field ''irq'' c_int,
      Field ''flags'' u32,
      Field ''adapter'' struct_i2c_adapter,
      Field ''functionality'' u32,
      Field ''master_cfg'' u32,
      Field ''slave_cfg'' u32,
      Field ''tx_fifo_depth'' unsigned_int,
      Field ''rx_fifo_depth'' unsigned_int,
      Field ''rx_outstanding'' c_int,
      Field ''timings'' struct_i2c_timings,
      Field ''sda_hold_time'' u32,
      Field ''ss_hcnt'' u16,
      Field ''ss_lcnt'' u16,
      Field ''fs_hcnt'' u16,
      Field ''fs_lcnt'' u16,
      Field ''fp_hcnt'' u16,
      Field ''fp_lcnt'' u16,
      Field ''hs_hcnt'' u16,
      Field ''hs_lcnt'' u16,
      Field ''acquire_lock'' (CPtr ''int (void)''),
      Field ''release_lock'' (CPtr ''void (void)''),
      Field ''semaphore_idx'' c_int,
      Field ''shared_with_punit'' bool,
      Field ''set_sda_hold_time'' (CPtr ''int (struct dw_i2c_dev *)''),
      Field ''mode'' c_int,
      Field ''rinfo'' struct_i2c_bus_recovery_info,
      Field ''bus_capacitance_pF'' u32,
      Field ''clk_freq_optimized'' bool,
      Field ''emptyfifo_hold_master'' bool]"

section \<open>Sizes and alignments\<close>

lemma struct_aml_resource_dma_layout [layout_simps]:
  "sizeof struct_aml_resource_dma = 3 \<and> alignof struct_aml_resource_dma = 1 \<and> wf_cty struct_aml_resource_dma"
  by (simp add: struct_aml_resource_dma_def base_types layout_eval u8_def c__u8_def
      del: One_nat_def)

lemma struct_aml_resource_start_dependent_layout [layout_simps]:
  "sizeof struct_aml_resource_start_dependent = 2 \<and> alignof struct_aml_resource_start_dependent = 1 \<and> wf_cty struct_aml_resource_start_dependent"
  by (simp add: struct_aml_resource_start_dependent_def base_types layout_eval u8_def c__u8_def
      del: One_nat_def)

lemma struct_aml_resource_end_dependent_layout [layout_simps]:
  "sizeof struct_aml_resource_end_dependent = 1 \<and> alignof struct_aml_resource_end_dependent = 1 \<and> wf_cty struct_aml_resource_end_dependent"
  by (simp add: struct_aml_resource_end_dependent_def base_types layout_eval u8_def c__u8_def
      del: One_nat_def)

lemma struct_aml_resource_io_layout [layout_simps]:
  "sizeof struct_aml_resource_io = 8 \<and> alignof struct_aml_resource_io = 2 \<and> wf_cty struct_aml_resource_io"
  by (simp add: struct_aml_resource_io_def base_types layout_eval u8_def c__u8_def u16_def c__u16_def
      del: One_nat_def)

lemma struct_aml_resource_fixed_io_layout [layout_simps]:
  "sizeof struct_aml_resource_fixed_io = 4 \<and> alignof struct_aml_resource_fixed_io = 1 \<and> wf_cty struct_aml_resource_fixed_io"
  by (simp add: struct_aml_resource_fixed_io_def base_types layout_eval u8_def c__u8_def u16_def c__u16_def
      del: One_nat_def)

lemma struct_aml_resource_fixed_dma_layout [layout_simps]:
  "sizeof struct_aml_resource_fixed_dma = 6 \<and> alignof struct_aml_resource_fixed_dma = 1 \<and> wf_cty struct_aml_resource_fixed_dma"
  by (simp add: struct_aml_resource_fixed_dma_def base_types layout_eval u8_def c__u8_def u16_def c__u16_def
      del: One_nat_def)

lemma struct_aml_resource_vendor_small_layout [layout_simps]:
  "sizeof struct_aml_resource_vendor_small = 1 \<and> alignof struct_aml_resource_vendor_small = 1 \<and> wf_cty struct_aml_resource_vendor_small"
  by (simp add: struct_aml_resource_vendor_small_def base_types layout_eval u8_def c__u8_def
      del: One_nat_def)

lemma struct_aml_resource_end_tag_layout [layout_simps]:
  "sizeof struct_aml_resource_end_tag = 2 \<and> alignof struct_aml_resource_end_tag = 1 \<and> wf_cty struct_aml_resource_end_tag"
  by (simp add: struct_aml_resource_end_tag_def base_types layout_eval u8_def c__u8_def
      del: One_nat_def)

lemma struct_aml_resource_memory24_layout [layout_simps]:
  "sizeof struct_aml_resource_memory24 = 12 \<and> alignof struct_aml_resource_memory24 = 1 \<and> wf_cty struct_aml_resource_memory24"
  by (simp add: struct_aml_resource_memory24_def base_types layout_eval u8_def c__u8_def u16_def c__u16_def
      del: One_nat_def)

lemma struct_aml_resource_generic_register_layout [layout_simps]:
  "sizeof struct_aml_resource_generic_register = 15 \<and> alignof struct_aml_resource_generic_register = 1 \<and> wf_cty struct_aml_resource_generic_register"
  by (simp add: struct_aml_resource_generic_register_def base_types layout_eval u8_def c__u8_def u16_def c__u16_def
      u64_def c__u64_def
      del: One_nat_def)

lemma struct_aml_resource_vendor_large_layout [layout_simps]:
  "sizeof struct_aml_resource_vendor_large = 3 \<and> alignof struct_aml_resource_vendor_large = 1 \<and> wf_cty struct_aml_resource_vendor_large"
  by (simp add: struct_aml_resource_vendor_large_def base_types layout_eval u8_def c__u8_def u16_def c__u16_def
      del: One_nat_def)

lemma struct_aml_resource_memory32_layout [layout_simps]:
  "sizeof struct_aml_resource_memory32 = 20 \<and> alignof struct_aml_resource_memory32 = 1 \<and> wf_cty struct_aml_resource_memory32"
  by (simp add: struct_aml_resource_memory32_def base_types layout_eval u8_def c__u8_def u16_def c__u16_def u32_def
      c__u32_def
      del: One_nat_def)

lemma struct_aml_resource_fixed_memory32_layout [layout_simps]:
  "sizeof struct_aml_resource_fixed_memory32 = 12 \<and> alignof struct_aml_resource_fixed_memory32 = 1 \<and> wf_cty struct_aml_resource_fixed_memory32"
  by (simp add: struct_aml_resource_fixed_memory32_def base_types layout_eval u8_def c__u8_def u16_def c__u16_def u32_def
      c__u32_def
      del: One_nat_def)

lemma struct_aml_resource_address16_layout [layout_simps]:
  "sizeof struct_aml_resource_address16 = 16 \<and> alignof struct_aml_resource_address16 = 1 \<and> wf_cty struct_aml_resource_address16"
  by (simp add: struct_aml_resource_address16_def base_types layout_eval u8_def c__u8_def u16_def c__u16_def
      del: One_nat_def)

lemma struct_aml_resource_address32_layout [layout_simps]:
  "sizeof struct_aml_resource_address32 = 26 \<and> alignof struct_aml_resource_address32 = 1 \<and> wf_cty struct_aml_resource_address32"
  by (simp add: struct_aml_resource_address32_def base_types layout_eval u8_def c__u8_def u16_def c__u16_def u32_def
      c__u32_def
      del: One_nat_def)

lemma struct_aml_resource_address64_layout [layout_simps]:
  "sizeof struct_aml_resource_address64 = 46 \<and> alignof struct_aml_resource_address64 = 1 \<and> wf_cty struct_aml_resource_address64"
  by (simp add: struct_aml_resource_address64_def base_types layout_eval u8_def c__u8_def u16_def c__u16_def u64_def
      c__u64_def
      del: One_nat_def)

lemma struct_aml_resource_extended_address64_layout [layout_simps]:
  "sizeof struct_aml_resource_extended_address64 = 56 \<and> alignof struct_aml_resource_extended_address64 = 1 \<and> wf_cty struct_aml_resource_extended_address64"
  by (simp add: struct_aml_resource_extended_address64_def base_types layout_eval u8_def c__u8_def u16_def c__u16_def
      u64_def c__u64_def
      del: One_nat_def)

lemma struct_aml_resource_extended_irq_layout [layout_simps]:
  "sizeof struct_aml_resource_extended_irq = 9 \<and> alignof struct_aml_resource_extended_irq = 1 \<and> wf_cty struct_aml_resource_extended_irq"
  by (simp add: struct_aml_resource_extended_irq_def base_types layout_eval u8_def c__u8_def u16_def c__u16_def u32_def
      c__u32_def
      del: One_nat_def)

lemma struct_aml_resource_gpio_layout [layout_simps]:
  "sizeof struct_aml_resource_gpio = 23 \<and> alignof struct_aml_resource_gpio = 1 \<and> wf_cty struct_aml_resource_gpio"
  by (simp add: struct_aml_resource_gpio_def base_types layout_eval u8_def c__u8_def u16_def c__u16_def
      del: One_nat_def)

lemma struct_aml_resource_i2c_serialbus_layout [layout_simps]:
  "sizeof struct_aml_resource_i2c_serialbus = 18 \<and> alignof struct_aml_resource_i2c_serialbus = 1 \<and> wf_cty struct_aml_resource_i2c_serialbus"
  by (simp add: struct_aml_resource_i2c_serialbus_def base_types layout_eval u8_def c__u8_def u16_def c__u16_def u32_def
      c__u32_def
      del: One_nat_def)

lemma struct_aml_resource_spi_serialbus_layout [layout_simps]:
  "sizeof struct_aml_resource_spi_serialbus = 21 \<and> alignof struct_aml_resource_spi_serialbus = 1 \<and> wf_cty struct_aml_resource_spi_serialbus"
  by (simp add: struct_aml_resource_spi_serialbus_def base_types layout_eval u8_def c__u8_def u16_def c__u16_def u32_def
      c__u32_def
      del: One_nat_def)

lemma struct_aml_resource_uart_serialbus_layout [layout_simps]:
  "sizeof struct_aml_resource_uart_serialbus = 22 \<and> alignof struct_aml_resource_uart_serialbus = 1 \<and> wf_cty struct_aml_resource_uart_serialbus"
  by (simp add: struct_aml_resource_uart_serialbus_def base_types layout_eval u8_def c__u8_def u16_def c__u16_def u32_def
      c__u32_def
      del: One_nat_def)

lemma struct_aml_resource_csi2_serialbus_layout [layout_simps]:
  "sizeof struct_aml_resource_csi2_serialbus = 12 \<and> alignof struct_aml_resource_csi2_serialbus = 1 \<and> wf_cty struct_aml_resource_csi2_serialbus"
  by (simp add: struct_aml_resource_csi2_serialbus_def base_types layout_eval u8_def c__u8_def u16_def c__u16_def
      del: One_nat_def)

lemma struct_aml_resource_common_serialbus_layout [layout_simps]:
  "sizeof struct_aml_resource_common_serialbus = 12 \<and> alignof struct_aml_resource_common_serialbus = 1 \<and> wf_cty struct_aml_resource_common_serialbus"
  by (simp add: struct_aml_resource_common_serialbus_def base_types layout_eval u8_def c__u8_def u16_def c__u16_def
      del: One_nat_def)

lemma struct_aml_resource_pin_function_layout [layout_simps]:
  "sizeof struct_aml_resource_pin_function = 18 \<and> alignof struct_aml_resource_pin_function = 1 \<and> wf_cty struct_aml_resource_pin_function"
  by (simp add: struct_aml_resource_pin_function_def base_types layout_eval u8_def c__u8_def u16_def c__u16_def
      del: One_nat_def)

lemma struct_aml_resource_pin_config_layout [layout_simps]:
  "sizeof struct_aml_resource_pin_config = 20 \<and> alignof struct_aml_resource_pin_config = 1 \<and> wf_cty struct_aml_resource_pin_config"
  by (simp add: struct_aml_resource_pin_config_def base_types layout_eval u8_def c__u8_def u16_def c__u16_def u32_def
      c__u32_def
      del: One_nat_def)

lemma struct_aml_resource_pin_group_layout [layout_simps]:
  "sizeof struct_aml_resource_pin_group = 14 \<and> alignof struct_aml_resource_pin_group = 1 \<and> wf_cty struct_aml_resource_pin_group"
  by (simp add: struct_aml_resource_pin_group_def base_types layout_eval u8_def c__u8_def u16_def c__u16_def
      del: One_nat_def)

lemma struct_aml_resource_pin_group_function_layout [layout_simps]:
  "sizeof struct_aml_resource_pin_group_function = 17 \<and> alignof struct_aml_resource_pin_group_function = 1 \<and> wf_cty struct_aml_resource_pin_group_function"
  by (simp add: struct_aml_resource_pin_group_function_def base_types layout_eval u8_def c__u8_def u16_def c__u16_def
      del: One_nat_def)

lemma struct_aml_resource_pin_group_config_layout [layout_simps]:
  "sizeof struct_aml_resource_pin_group_config = 20 \<and> alignof struct_aml_resource_pin_group_config = 1 \<and> wf_cty struct_aml_resource_pin_group_config"
  by (simp add: struct_aml_resource_pin_group_config_def base_types layout_eval u8_def c__u8_def u16_def c__u16_def
      u32_def c__u32_def
      del: One_nat_def)

lemma struct_aml_resource_clock_input_layout [layout_simps]:
  "sizeof struct_aml_resource_clock_input = 12 \<and> alignof struct_aml_resource_clock_input = 1 \<and> wf_cty struct_aml_resource_clock_input"
  by (simp add: struct_aml_resource_clock_input_def base_types layout_eval u8_def c__u8_def u16_def c__u16_def u32_def
      c__u32_def
      del: One_nat_def)

lemma struct_aml_resource_address_layout [layout_simps]:
  "sizeof struct_aml_resource_address = 6 \<and> alignof struct_aml_resource_address = 1 \<and> wf_cty struct_aml_resource_address"
  by (simp add: struct_aml_resource_address_def base_types layout_eval u8_def c__u8_def u16_def c__u16_def
      del: One_nat_def)

lemma union_aml_resource_layout [layout_simps]:
  "sizeof union_aml_resource = 56 \<and> alignof union_aml_resource = 4 \<and> wf_cty union_aml_resource"
  by (simp add: union_aml_resource_def base_types layout_eval u8_def c__u8_def struct_aml_resource_small_header_layout
      struct_aml_resource_large_header_layout struct_aml_resource_irq_layout
      struct_aml_resource_dma_layout struct_aml_resource_start_dependent_layout
      struct_aml_resource_end_dependent_layout struct_aml_resource_io_layout
      struct_aml_resource_fixed_io_layout struct_aml_resource_fixed_dma_layout
      struct_aml_resource_vendor_small_layout struct_aml_resource_end_tag_layout
      struct_aml_resource_memory24_layout struct_aml_resource_generic_register_layout
      struct_aml_resource_vendor_large_layout struct_aml_resource_memory32_layout
      struct_aml_resource_fixed_memory32_layout struct_aml_resource_address16_layout
      struct_aml_resource_address32_layout struct_aml_resource_address64_layout
      struct_aml_resource_extended_address64_layout struct_aml_resource_extended_irq_layout
      struct_aml_resource_gpio_layout struct_aml_resource_i2c_serialbus_layout
      struct_aml_resource_spi_serialbus_layout struct_aml_resource_uart_serialbus_layout
      struct_aml_resource_csi2_serialbus_layout struct_aml_resource_common_serialbus_layout
      struct_aml_resource_pin_function_layout struct_aml_resource_pin_config_layout
      struct_aml_resource_pin_group_layout struct_aml_resource_pin_group_function_layout
      struct_aml_resource_pin_group_config_layout struct_aml_resource_clock_input_layout
      struct_aml_resource_address_layout u32_def c__u32_def u16_def c__u16_def
      del: One_nat_def)

lemma struct_apic_layout [layout_simps]:
  "sizeof struct_apic = 224 \<and> alignof struct_apic = 8 \<and> wf_cty struct_apic"
  by (simp add: struct_apic_def base_types layout_eval u32_def c__u32_def
      del: One_nat_def)

lemma struct_arch_pebs_header_layout [layout_simps]:
  "sizeof struct_arch_pebs_header = 16 \<and> alignof struct_arch_pebs_header = 8 \<and> wf_cty struct_arch_pebs_header"
  by (simp add: struct_arch_pebs_header_def base_types layout_eval u64_def c__u64_def
      del: One_nat_def)

lemma struct_assoc_array_edit_layout [layout_simps]:
  "sizeof struct_assoc_array_edit = 328 \<and> alignof struct_assoc_array_edit = 8 \<and> wf_cty struct_assoc_array_edit"
  by (simp add: struct_assoc_array_edit_def base_types layout_eval struct_callback_head_layout u8_def c__u8_def
      del: One_nat_def)

lemma struct_ata_ering_entry_layout [layout_simps]:
  "sizeof struct_ata_ering_entry = 16 \<and> alignof struct_ata_ering_entry = 8 \<and> wf_cty struct_ata_ering_entry"
  by (simp add: struct_ata_ering_entry_def base_types layout_eval u64_def c__u64_def
      del: One_nat_def)

lemma struct_ata_ering_layout [layout_simps]:
  "sizeof struct_ata_ering = 520 \<and> alignof struct_ata_ering = 8 \<and> wf_cty struct_ata_ering"
  by (simp add: struct_ata_ering_def base_types layout_eval struct_ata_ering_entry_layout
      del: One_nat_def)

lemma struct_ata_device_layout [layout_simps]:
  "sizeof struct_ata_device = 3200 \<and> alignof struct_ata_device = 8 \<and> wf_cty struct_ata_device"
  by (simp add: struct_ata_device_def base_types layout_eval u64_def c__u64_def struct_device_layout u8_def c__u8_def
      u16_def c__u16_def u32_def c__u32_def struct_ata_ering_layout
      del: One_nat_def)

lemma enum_ata_lpm_policy_layout [layout_simps]:
  "sizeof enum_ata_lpm_policy = 4 \<and> alignof enum_ata_lpm_policy = 4 \<and> wf_cty enum_ata_lpm_policy"
  by (simp add: enum_ata_lpm_policy_def base_types layout_eval
      del: One_nat_def)

lemma struct_ata_eh_info_layout [layout_simps]:
  "sizeof struct_ata_eh_info = 120 \<and> alignof struct_ata_eh_info = 8 \<and> wf_cty struct_ata_eh_info"
  by (simp add: struct_ata_eh_info_def base_types layout_eval u32_def c__u32_def
      del: One_nat_def)

lemma struct_ata_eh_context_layout [layout_simps]:
  "sizeof struct_ata_eh_context = 224 \<and> alignof struct_ata_eh_context = 8 \<and> wf_cty struct_ata_eh_context"
  by (simp add: struct_ata_eh_context_def base_types layout_eval struct_ata_eh_info_layout u8_def c__u8_def
      del: One_nat_def)

lemma struct_ata_link_layout [layout_simps]:
  "sizeof struct_ata_link = 7744 \<and> alignof struct_ata_link = 8 \<and> wf_cty struct_ata_link"
  by (simp add: struct_ata_link_def base_types layout_eval struct_device_layout u32_def c__u32_def
      enum_ata_lpm_policy_layout struct_work_struct_layout struct_ata_eh_info_layout
      struct_ata_eh_context_layout struct_ata_device_layout
      del: One_nat_def)

lemma struct_ata_taskfile_layout [layout_simps]:
  "sizeof struct_ata_taskfile = 32 \<and> alignof struct_ata_taskfile = 8 \<and> wf_cty struct_ata_taskfile"
  by (simp add: struct_ata_taskfile_def base_types layout_eval u8_def c__u8_def u32_def c__u32_def
      del: One_nat_def)

lemma struct_ata_queued_cmd_layout [layout_simps]:
  "sizeof struct_ata_queued_cmd = 240 \<and> alignof struct_ata_queued_cmd = 8 \<and> wf_cty struct_ata_queued_cmd"
  by (simp add: struct_ata_queued_cmd_def base_types layout_eval struct_ata_taskfile_layout u8_def c__u8_def
      struct_scatterlist_layout ata_qc_cb_t_def
      del: One_nat_def)

lemma struct_ata_ioports_layout [layout_simps]:
  "sizeof struct_ata_ioports = 120 \<and> alignof struct_ata_ioports = 8 \<and> wf_cty struct_ata_ioports"
  by (simp add: struct_ata_ioports_def base_types layout_eval
      del: One_nat_def)

lemma struct_ata_port_stats_layout [layout_simps]:
  "sizeof struct_ata_port_stats = 24 \<and> alignof struct_ata_port_stats = 8 \<and> wf_cty struct_ata_port_stats"
  by (simp add: struct_ata_port_stats_def base_types layout_eval
      del: One_nat_def)

lemma struct_ata_acpi_drive_layout [layout_simps]:
  "sizeof struct_ata_acpi_drive = 8 \<and> alignof struct_ata_acpi_drive = 4 \<and> wf_cty struct_ata_acpi_drive"
  by (simp add: struct_ata_acpi_drive_def base_types layout_eval u32_def c__u32_def
      del: One_nat_def)

lemma struct_ata_acpi_gtm_layout [layout_simps]:
  "sizeof struct_ata_acpi_gtm = 20 \<and> alignof struct_ata_acpi_gtm = 4 \<and> wf_cty struct_ata_acpi_gtm"
  by (simp add: struct_ata_acpi_gtm_def base_types layout_eval struct_ata_acpi_drive_layout u32_def c__u32_def
      del: One_nat_def)

lemma struct_ata_port_layout [layout_simps]:
  "sizeof struct_ata_port = 17280 \<and> alignof struct_ata_port = 8 \<and> wf_cty struct_ata_port"
  by (simp add: struct_ata_port_def base_types layout_eval struct_ata_ioports_layout u8_def c__u8_def
      struct_delayed_work_layout dma_addr_t_def u64_def c__u64_def struct_ata_queued_cmd_layout
      struct_ata_link_layout struct_ata_port_stats_layout struct_device_layout struct_mutex_layout
      struct_list_head_layout wait_queue_head_t_def struct_wait_queue_head_layout
      struct_completion_layout pm_message_t_def struct_pm_message_layout enum_ata_lpm_policy_layout
      struct_timer_list_layout async_cookie_t_def struct_ata_acpi_gtm_layout
      del: One_nat_def)

lemma struct_ata_reset_operations_layout [layout_simps]:
  "sizeof struct_ata_reset_operations = 32 \<and> alignof struct_ata_reset_operations = 8 \<and> wf_cty struct_ata_reset_operations"
  by (simp add: struct_ata_reset_operations_def base_types layout_eval ata_prereset_fn_t_def ata_reset_fn_t_def
      ata_postreset_fn_t_def
      del: One_nat_def)

lemma struct_ata_port_operations_layout [layout_simps]:
  "sizeof struct_ata_port_operations = 480 \<and> alignof struct_ata_port_operations = 8 \<and> wf_cty struct_ata_port_operations"
  by (simp add: struct_ata_port_operations_def base_types layout_eval struct_ata_reset_operations_layout
      del: One_nat_def)

lemma struct_ps2dev_layout [layout_simps]:
  "sizeof struct_ps2dev = 104 \<and> alignof struct_ps2dev = 8 \<and> wf_cty struct_ps2dev"
  by (simp add: struct_ps2dev_def base_types layout_eval struct_mutex_layout wait_queue_head_t_def
      struct_wait_queue_head_layout u8_def c__u8_def ps2_pre_receive_handler_t_def
      ps2_receive_handler_t_def
      del: One_nat_def)

lemma struct_vivaldi_data_layout [layout_simps]:
  "sizeof struct_vivaldi_data = 100 \<and> alignof struct_vivaldi_data = 4 \<and> wf_cty struct_vivaldi_data"
  by (simp add: struct_vivaldi_data_def base_types layout_eval u32_def c__u32_def
      del: One_nat_def)

lemma struct_atkbd_layout [layout_simps]:
  "sizeof struct_atkbd = 1592 \<and> alignof struct_atkbd = 8 \<and> wf_cty struct_atkbd"
  by (simp add: struct_atkbd_def base_types layout_eval struct_ps2dev_layout bool_def struct_delayed_work_layout
      struct_mutex_layout struct_vivaldi_data_layout
      del: One_nat_def)

lemma enum_md_submodule_type_layout [layout_simps]:
  "sizeof enum_md_submodule_type = 4 \<and> alignof enum_md_submodule_type = 4 \<and> wf_cty enum_md_submodule_type"
  by (simp add: enum_md_submodule_type_def base_types layout_eval
      del: One_nat_def)

lemma struct_md_submodule_head_layout [layout_simps]:
  "sizeof struct_md_submodule_head = 24 \<and> alignof struct_md_submodule_head = 8 \<and> wf_cty struct_md_submodule_head"
  by (simp add: struct_md_submodule_head_def base_types layout_eval enum_md_submodule_type_layout
      enum_md_submodule_id_layout
      del: One_nat_def)

lemma struct_bitmap_operations_layout [layout_simps]:
  "sizeof struct_bitmap_operations = 272 \<and> alignof struct_bitmap_operations = 8 \<and> wf_cty struct_bitmap_operations"
  by (simp add: struct_bitmap_operations_def base_types layout_eval struct_md_submodule_head_layout
      del: One_nat_def)

lemma enum_blkif_state_layout [layout_simps]:
  "sizeof enum_blkif_state = 4 \<and> alignof enum_blkif_state = 4 \<and> wf_cty enum_blkif_state"
  by (simp add: enum_blkif_state_def base_types layout_eval
      del: One_nat_def)

lemma struct_blkfront_info_layout [layout_simps]:
  "sizeof struct_blkfront_info = 416 \<and> alignof struct_blkfront_info = 8 \<and> wf_cty struct_blkfront_info"
  by (simp add: struct_blkfront_info_def base_types layout_eval struct_mutex_layout u16_def c__u16_def blkif_vdev_t_def
      uint16_t_def enum_blkif_state_layout struct_blk_mq_tag_set_layout struct_list_head_layout
      struct_bio_list_layout
      del: One_nat_def)

lemma struct_screen_info_layout [layout_simps]:
  "sizeof struct_screen_info = 64 \<and> alignof struct_screen_info = 1 \<and> wf_cty struct_screen_info"
  by (simp add: struct_screen_info_def base_types layout_eval c__u8_def c__u16_def c__u32_def
      del: One_nat_def)

lemma struct_setup_header_layout [layout_simps]:
  "sizeof struct_setup_header = 123 \<and> alignof struct_setup_header = 1 \<and> wf_cty struct_setup_header"
  by (simp add: struct_setup_header_def base_types layout_eval c__u8_def c__u16_def c__u32_def c__u64_def
      del: One_nat_def)

lemma struct_edd_device_params_layout [layout_simps]:
  "sizeof struct_edd_device_params = 74 \<and> alignof struct_edd_device_params = 1 \<and> wf_cty struct_edd_device_params"
  by (simp add: struct_edd_device_params_def base_types layout_eval c__u16_def c__u32_def c__u64_def c__u8_def
      del: One_nat_def)

lemma struct_apm_bios_info_layout [layout_simps]:
  "sizeof struct_apm_bios_info = 20 \<and> alignof struct_apm_bios_info = 4 \<and> wf_cty struct_apm_bios_info"
  by (simp add: struct_apm_bios_info_def base_types layout_eval c__u16_def c__u32_def
      del: One_nat_def)

lemma struct_ist_info_layout [layout_simps]:
  "sizeof struct_ist_info = 16 \<and> alignof struct_ist_info = 4 \<and> wf_cty struct_ist_info"
  by (simp add: struct_ist_info_def base_types layout_eval c__u32_def
      del: One_nat_def)

lemma struct_sys_desc_table_layout [layout_simps]:
  "sizeof struct_sys_desc_table = 16 \<and> alignof struct_sys_desc_table = 2 \<and> wf_cty struct_sys_desc_table"
  by (simp add: struct_sys_desc_table_def base_types layout_eval c__u16_def c__u8_def
      del: One_nat_def)

lemma struct_olpc_ofw_header_layout [layout_simps]:
  "sizeof struct_olpc_ofw_header = 16 \<and> alignof struct_olpc_ofw_header = 4 \<and> wf_cty struct_olpc_ofw_header"
  by (simp add: struct_olpc_ofw_header_def base_types layout_eval c__u32_def
      del: One_nat_def)

lemma struct_edid_info_layout [layout_simps]:
  "sizeof struct_edid_info = 128 \<and> alignof struct_edid_info = 1 \<and> wf_cty struct_edid_info"
  by (simp add: struct_edid_info_def base_types layout_eval
      del: One_nat_def)

lemma struct_efi_info_layout [layout_simps]:
  "sizeof struct_efi_info = 32 \<and> alignof struct_efi_info = 4 \<and> wf_cty struct_efi_info"
  by (simp add: struct_efi_info_def base_types layout_eval c__u32_def
      del: One_nat_def)

lemma struct_boot_e820_entry_layout [layout_simps]:
  "sizeof struct_boot_e820_entry = 20 \<and> alignof struct_boot_e820_entry = 1 \<and> wf_cty struct_boot_e820_entry"
  by (simp add: struct_boot_e820_entry_def base_types layout_eval c__u64_def c__u32_def
      del: One_nat_def)

lemma struct_edd_info_layout [layout_simps]:
  "sizeof struct_edd_info = 82 \<and> alignof struct_edd_info = 2 \<and> wf_cty struct_edd_info"
  by (simp add: struct_edd_info_def base_types layout_eval c__u8_def c__u16_def struct_edd_device_params_layout
      del: One_nat_def)

lemma struct_boot_params_layout [layout_simps]:
  "sizeof struct_boot_params = 4096 \<and> alignof struct_boot_params = 8 \<and> wf_cty struct_boot_params"
  by (simp add: struct_boot_params_def base_types layout_eval struct_screen_info_layout struct_apm_bios_info_layout
      c__u8_def c__u64_def struct_ist_info_layout struct_sys_desc_table_layout
      struct_olpc_ofw_header_layout c__u32_def struct_edid_info_layout struct_efi_info_layout
      struct_setup_header_layout struct_boot_e820_entry_layout struct_edd_info_layout
      del: One_nat_def)

lemma struct_bsd_partition_layout [layout_simps]:
  "sizeof struct_bsd_partition = 16 \<and> alignof struct_bsd_partition = 4 \<and> wf_cty struct_bsd_partition"
  by (simp add: struct_bsd_partition_def base_types layout_eval c__le32_def c__u32_def c__u8_def c__le16_def c__u16_def
      del: One_nat_def)

lemma struct_bsd_disklabel_layout [layout_simps]:
  "sizeof struct_bsd_disklabel = 404 \<and> alignof struct_bsd_disklabel = 4 \<and> wf_cty struct_bsd_disklabel"
  by (simp add: struct_bsd_disklabel_def base_types layout_eval c__le32_def c__u32_def c__s16_def c__u16_def c__le16_def
      struct_bsd_partition_layout
      del: One_nat_def)

lemma struct_group_data_layout [layout_simps]:
  "sizeof struct_group_data = 1204 \<and> alignof struct_group_data = 4 \<and> wf_cty struct_group_data"
  by (simp add: struct_group_data_def base_types layout_eval
      del: One_nat_def)

lemma struct_bunzip_data_layout [layout_simps]:
  "sizeof struct_bunzip_data = 42648 \<and> alignof struct_bunzip_data = 8 \<and> wf_cty struct_bunzip_data"
  by (simp add: struct_bunzip_data_def base_types layout_eval struct_group_data_layout
      del: One_nat_def)

lemma struct_clk_ops_layout [layout_simps]:
  "sizeof struct_clk_ops = 200 \<and> alignof struct_clk_ops = 8 \<and> wf_cty struct_clk_ops"
  by (simp add: struct_clk_ops_def base_types layout_eval
      del: One_nat_def)

lemma struct_clk_duty_layout [layout_simps]:
  "sizeof struct_clk_duty = 8 \<and> alignof struct_clk_duty = 4 \<and> wf_cty struct_clk_duty"
  by (simp add: struct_clk_duty_def base_types layout_eval
      del: One_nat_def)

lemma struct_clk_core_layout [layout_simps]:
  "sizeof struct_clk_core = 280 \<and> alignof struct_clk_core = 8 \<and> wf_cty struct_clk_core"
  by (simp add: struct_clk_core_def base_types layout_eval struct_hlist_node_layout u8_def c__u8_def bool_def
      struct_clk_duty_layout struct_hlist_head_layout struct_kref_layout
      del: One_nat_def)

lemma enum_clock_event_state_layout [layout_simps]:
  "sizeof enum_clock_event_state = 4 \<and> alignof enum_clock_event_state = 4 \<and> wf_cty enum_clock_event_state"
  by (simp add: enum_clock_event_state_def base_types layout_eval
      del: One_nat_def)

lemma struct_clock_event_device_layout [layout_simps]:
  "sizeof struct_clock_event_device = 256 \<and> alignof struct_clock_event_device = 8 \<and> wf_cty struct_clock_event_device"
  by (simp add: struct_clock_event_device_def base_types layout_eval ktime_t_def s64_def c__s64_def u64_def c__u64_def
      u32_def c__u32_def enum_clock_event_state_layout struct_list_head_layout
      del: One_nat_def)

lemma enum_clocksource_ids_layout [layout_simps]:
  "sizeof enum_clocksource_ids = 4 \<and> alignof enum_clocksource_ids = 4 \<and> wf_cty enum_clocksource_ids"
  by (simp add: enum_clocksource_ids_def base_types layout_eval
      del: One_nat_def)

lemma enum_vdso_clock_mode_layout [layout_simps]:
  "sizeof enum_vdso_clock_mode = 4 \<and> alignof enum_vdso_clock_mode = 4 \<and> wf_cty enum_vdso_clock_mode"
  by (simp add: enum_vdso_clock_mode_def base_types layout_eval
      del: One_nat_def)

lemma struct_clocksource_layout [layout_simps]:
  "sizeof struct_clocksource = 200 \<and> alignof struct_clocksource = 8 \<and> wf_cty struct_clocksource"
  by (simp add: struct_clocksource_def base_types layout_eval u64_def c__u64_def u32_def c__u32_def
      struct_list_head_layout enum_clocksource_ids_layout enum_vdso_clock_mode_layout
      del: One_nat_def)

lemma struct_ethtool_coalesce_layout [layout_simps]:
  "sizeof struct_ethtool_coalesce = 92 \<and> alignof struct_ethtool_coalesce = 4 \<and> wf_cty struct_ethtool_coalesce"
  by (simp add: struct_ethtool_coalesce_def base_types layout_eval c__u32_def
      del: One_nat_def)

lemma struct_user_regs_struct_layout [layout_simps]:
  "sizeof struct_user_regs_struct = 216 \<and> alignof struct_user_regs_struct = 8 \<and> wf_cty struct_user_regs_struct"
  by (simp add: struct_user_regs_struct_def base_types layout_eval
      del: One_nat_def)

lemma union_compat_sigval_layout [layout_simps]:
  "sizeof union_compat_sigval = 4 \<and> alignof union_compat_sigval = 4 \<and> wf_cty union_compat_sigval"
  by (simp add: union_compat_sigval_def base_types layout_eval compat_int_t_def s32_def c__s32_def compat_uptr_t_def
      u32_def c__u32_def
      del: One_nat_def)

lemma struct_compat_siginfo_layout [layout_simps]:
  "sizeof struct_compat_siginfo = 128 \<and> alignof struct_compat_siginfo = 4 \<and> wf_cty struct_compat_siginfo"
  by (simp add: struct_compat_siginfo_def base_types layout_eval compat_pid_t_def s32_def c__s32_def
      c__compat_uid32_t_def u32_def c__u32_def compat_timer_t_def compat_sigval_t_def
      union_compat_sigval_layout compat_clock_t_def compat_uptr_t_def compat_ulong_t_def
      compat_long_t_def
      del: One_nat_def)

lemma struct_mce_layout [layout_simps]:
  "sizeof struct_mce = 128 \<and> alignof struct_mce = 8 \<and> wf_cty struct_mce"
  by (simp add: struct_mce_def base_types layout_eval c__u64_def c__u8_def c__u32_def
      del: One_nat_def)

lemma struct_perf_branch_stack_layout [layout_simps]:
  "sizeof struct_perf_branch_stack = 16 \<and> alignof struct_perf_branch_stack = 8 \<and> wf_cty struct_perf_branch_stack"
  by (simp add: struct_perf_branch_stack_def base_types layout_eval u64_def c__u64_def struct_perf_branch_entry_layout
      del: One_nat_def)

lemma struct_perf_guest_switch_msr_layout [layout_simps]:
  "sizeof struct_perf_guest_switch_msr = 24 \<and> alignof struct_perf_guest_switch_msr = 8 \<and> wf_cty struct_perf_guest_switch_msr"
  by (simp add: struct_perf_guest_switch_msr_def base_types layout_eval u64_def c__u64_def
      del: One_nat_def)

lemma struct_cpu_hw_events_layout [layout_simps]:
  "sizeof struct_cpu_hw_events = 6736 \<and> alignof struct_cpu_hw_events = 8 \<and> wf_cty struct_cpu_hw_events"
  by (simp add: struct_cpu_hw_events_def base_types layout_eval u64_def c__u64_def struct_perf_branch_stack_layout
      struct_perf_branch_entry_layout struct_perf_guest_switch_msr_layout
      del: One_nat_def)

lemma struct_cpu_user_regs_layout [layout_simps]:
  "sizeof struct_cpu_user_regs = 200 \<and> alignof struct_cpu_user_regs = 8 \<and> wf_cty struct_cpu_user_regs"
  by (simp add: struct_cpu_user_regs_def base_types layout_eval uint64_t_def u64_def c__u64_def uint32_t_def u32_def
      c__u32_def uint16_t_def u16_def c__u16_def uint8_t_def u8_def c__u8_def
      del: One_nat_def)

lemma struct_update_util_data_layout [layout_simps]:
  "sizeof struct_update_util_data = 8 \<and> alignof struct_update_util_data = 8 \<and> wf_cty struct_update_util_data"
  by (simp add: struct_update_util_data_def base_types layout_eval
      del: One_nat_def)

lemma struct_pstate_data_layout [layout_simps]:
  "sizeof struct_pstate_data = 40 \<and> alignof struct_pstate_data = 4 \<and> wf_cty struct_pstate_data"
  by (simp add: struct_pstate_data_def base_types layout_eval
      del: One_nat_def)

lemma struct_vid_data_layout [layout_simps]:
  "sizeof struct_vid_data = 16 \<and> alignof struct_vid_data = 4 \<and> wf_cty struct_vid_data"
  by (simp add: struct_vid_data_def base_types layout_eval int32_t_def s32_def c__s32_def
      del: One_nat_def)

lemma struct_sample_layout [layout_simps]:
  "sizeof struct_sample = 40 \<and> alignof struct_sample = 8 \<and> wf_cty struct_sample"
  by (simp add: struct_sample_def base_types layout_eval int32_t_def s32_def c__s32_def u64_def c__u64_def
      del: One_nat_def)

lemma struct_cpudata_layout [layout_simps]:
  "sizeof struct_cpudata = 432 \<and> alignof struct_cpudata = 8 \<and> wf_cty struct_cpudata"
  by (simp add: struct_cpudata_def base_types layout_eval struct_update_util_data_layout bool_def
      struct_pstate_data_layout struct_vid_data_layout u64_def c__u64_def struct_sample_layout
      int32_t_def s32_def c__s32_def struct_acpi_processor_performance_layout s16_def c__s16_def u32_def
      c__u32_def struct_delayed_work_layout
      del: One_nat_def)

lemma struct_cpufreq_driver_layout [layout_simps]:
  "sizeof struct_cpufreq_driver = 208 \<and> alignof struct_cpufreq_driver = 8 \<and> wf_cty struct_cpufreq_driver"
  by (simp add: struct_cpufreq_driver_def base_types layout_eval u16_def c__u16_def bool_def
      del: One_nat_def)

lemma struct_cpufreq_cpuinfo_layout [layout_simps]:
  "sizeof struct_cpufreq_cpuinfo = 12 \<and> alignof struct_cpufreq_cpuinfo = 4 \<and> wf_cty struct_cpufreq_cpuinfo"
  by (simp add: struct_cpufreq_cpuinfo_def base_types layout_eval
      del: One_nat_def)

lemma enum_cpufreq_table_sorting_layout [layout_simps]:
  "sizeof enum_cpufreq_table_sorting = 4 \<and> alignof enum_cpufreq_table_sorting = 4 \<and> wf_cty enum_cpufreq_table_sorting"
  by (simp add: enum_cpufreq_table_sorting_def base_types layout_eval
      del: One_nat_def)

lemma struct_cpufreq_policy_layout [layout_simps]:
  "sizeof struct_cpufreq_policy = 640 \<and> alignof struct_cpufreq_policy = 8 \<and> wf_cty struct_cpufreq_policy"
  by (simp add: struct_cpufreq_policy_def base_types layout_eval cpumask_var_t_def struct_cpufreq_cpuinfo_layout
      struct_work_struct_layout struct_freq_constraints_layout enum_cpufreq_table_sorting_layout
      struct_list_head_layout struct_kobject_layout struct_completion_layout struct_rw_semaphore_layout
      bool_def spinlock_t_def struct_spinlock_layout wait_queue_head_t_def struct_wait_queue_head_layout
      struct_notifier_block_layout
      del: One_nat_def)

lemma struct_cpuinfo_topology_layout [layout_simps]:
  "sizeof struct_cpuinfo_topology = 52 \<and> alignof struct_cpuinfo_topology = 4 \<and> wf_cty struct_cpuinfo_topology"
  by (simp add: struct_cpuinfo_topology_def base_types layout_eval u32_def c__u32_def
      del: One_nat_def)

lemma struct_cpuinfo_x86_layout [layout_simps]:
  "sizeof struct_cpuinfo_x86 = 336 \<and> alignof struct_cpuinfo_x86 = 8 \<and> wf_cty struct_cpuinfo_x86"
  by (simp add: struct_cpuinfo_x86_def base_types layout_eval c__u8_def c__u32_def struct_cpuinfo_topology_layout u64_def
      c__u64_def u16_def c__u16_def bool_def u32_def u8_def
      del: One_nat_def)

lemma struct_cxl_cper_sec_prot_err_layout [layout_simps]:
  "sizeof struct_cxl_cper_sec_prot_err = 116 \<and> alignof struct_cxl_cper_sec_prot_err = 1 \<and> wf_cty struct_cxl_cper_sec_prot_err"
  by (simp add: struct_cxl_cper_sec_prot_err_def base_types layout_eval u64_def c__u64_def u8_def c__u8_def u16_def
      c__u16_def u32_def c__u32_def
      del: One_nat_def)

lemma struct_ct_data_s_layout [layout_simps]:
  "sizeof struct_ct_data_s = 4 \<and> alignof struct_ct_data_s = 2 \<and> wf_cty struct_ct_data_s"
  by (simp add: struct_ct_data_s_def base_types layout_eval ush_def
      del: One_nat_def)

lemma struct_tree_desc_s_layout [layout_simps]:
  "sizeof struct_tree_desc_s = 24 \<and> alignof struct_tree_desc_s = 8 \<and> wf_cty struct_tree_desc_s"
  by (simp add: struct_tree_desc_s_def base_types layout_eval
      del: One_nat_def)

lemma struct_deflate_state_layout [layout_simps]:
  "sizeof struct_deflate_state = 5928 \<and> alignof struct_deflate_state = 8 \<and> wf_cty struct_deflate_state"
  by (simp add: struct_deflate_state_def base_types layout_eval z_streamp_def ulg_def Byte_def uInt_def IPos_def
      struct_ct_data_s_layout struct_tree_desc_s_layout ush_def uch_def
      del: One_nat_def)

lemma struct_devfreq_dev_status_layout [layout_simps]:
  "sizeof struct_devfreq_dev_status = 32 \<and> alignof struct_devfreq_dev_status = 8 \<and> wf_cty struct_devfreq_dev_status"
  by (simp add: struct_devfreq_dev_status_def base_types layout_eval
      del: One_nat_def)

lemma struct_devfreq_stats_layout [layout_simps]:
  "sizeof struct_devfreq_stats = 32 \<and> alignof struct_devfreq_stats = 8 \<and> wf_cty struct_devfreq_stats"
  by (simp add: struct_devfreq_stats_def base_types layout_eval u64_def c__u64_def
      del: One_nat_def)

lemma struct_srcu_notifier_head_layout [layout_simps]:
  "sizeof struct_srcu_notifier_head = 488 \<and> alignof struct_srcu_notifier_head = 8 \<and> wf_cty struct_srcu_notifier_head"
  by (simp add: struct_srcu_notifier_head_def base_types layout_eval struct_mutex_layout struct_srcu_usage_layout
      struct_srcu_struct_layout
      del: One_nat_def)

lemma struct_devfreq_layout [layout_simps]:
  "sizeof struct_devfreq = 1832 \<and> alignof struct_devfreq = 8 \<and> wf_cty struct_devfreq"
  by (simp add: struct_devfreq_def base_types layout_eval struct_list_head_layout struct_mutex_layout
      struct_device_layout struct_notifier_block_layout struct_delayed_work_layout
      struct_devfreq_dev_status_layout struct_dev_pm_qos_request_layout bool_def atomic_t_layout
      struct_devfreq_stats_layout struct_srcu_notifier_head_layout
      del: One_nat_def)

lemma struct_dio_layout [layout_simps]:
  "sizeof struct_dio = 640 \<and> alignof struct_dio = 8 \<and> wf_cty struct_dio"
  by (simp add: struct_dio_def base_types layout_eval blk_opf_t_def c__u32_def loff_t_def c__kernel_loff_t_def bool_def
      spinlock_t_def struct_spinlock_layout ssize_t_def c__kernel_ssize_t_def c__kernel_long_t_def
      struct_work_struct_layout
      del: One_nat_def)

lemma struct_dio_submit_layout [layout_simps]:
  "sizeof struct_dio_submit = 152 \<and> alignof struct_dio_submit = 8 \<and> wf_cty struct_dio_submit"
  by (simp add: struct_dio_submit_def base_types layout_eval sector_t_def u64_def c__u64_def loff_t_def
      c__kernel_loff_t_def size_t_def c__kernel_size_t_def c__kernel_ulong_t_def
      del: One_nat_def)

lemma struct_d_partition_layout [layout_simps]:
  "sizeof struct_d_partition = 16 \<and> alignof struct_d_partition = 4 \<and> wf_cty struct_d_partition"
  by (simp add: struct_d_partition_def base_types layout_eval c__le32_def c__u32_def u8_def c__u8_def c__le16_def
      c__u16_def
      del: One_nat_def)

lemma struct_disklabel_layout [layout_simps]:
  "sizeof struct_disklabel = 436 \<and> alignof struct_disklabel = 4 \<and> wf_cty struct_disklabel"
  by (simp add: struct_disklabel_def base_types layout_eval c__le32_def c__u32_def c__le16_def c__u16_def u8_def
      c__u8_def struct_d_partition_layout
      del: One_nat_def)

lemma struct_dom0_vga_console_info_layout [layout_simps]:
  "sizeof struct_dom0_vga_console_info = 40 \<and> alignof struct_dom0_vga_console_info = 4 \<and> wf_cty struct_dom0_vga_console_info"
  by (simp add: struct_dom0_vga_console_info_def base_types layout_eval uint8_t_def u8_def c__u8_def uint16_t_def u16_def
      c__u16_def uint32_t_def u32_def c__u32_def
      del: One_nat_def)

lemma struct_crypto_wait_layout [layout_simps]:
  "sizeof struct_crypto_wait = 40 \<and> alignof struct_crypto_wait = 8 \<and> wf_cty struct_crypto_wait"
  by (simp add: struct_crypto_wait_def base_types layout_eval struct_completion_layout
      del: One_nat_def)

lemma enum_drbg_seed_state_layout [layout_simps]:
  "sizeof enum_drbg_seed_state = 4 \<and> alignof enum_drbg_seed_state = 4 \<and> wf_cty enum_drbg_seed_state"
  by (simp add: enum_drbg_seed_state_def base_types layout_eval
      del: One_nat_def)

lemma struct_drbg_string_layout [layout_simps]:
  "sizeof struct_drbg_string = 32 \<and> alignof struct_drbg_string = 8 \<and> wf_cty struct_drbg_string"
  by (simp add: struct_drbg_string_def base_types layout_eval size_t_def c__kernel_size_t_def c__kernel_ulong_t_def
      struct_list_head_layout
      del: One_nat_def)

lemma struct_drbg_state_layout [layout_simps]:
  "sizeof struct_drbg_state = 328 \<and> alignof struct_drbg_state = 8 \<and> wf_cty struct_drbg_state"
  by (simp add: struct_drbg_state_def base_types layout_eval struct_mutex_layout size_t_def c__kernel_size_t_def
      c__kernel_ulong_t_def struct_crypto_wait_layout struct_scatterlist_layout
      enum_drbg_seed_state_layout bool_def struct_drbg_string_layout
      del: One_nat_def)

lemma struct_pixel_format_layout [layout_simps]:
  "sizeof struct_pixel_format = 10 \<and> alignof struct_pixel_format = 1 \<and> wf_cty struct_pixel_format"
  by (simp add: struct_pixel_format_def base_types layout_eval bool_def
      del: One_nat_def)

lemma struct_i2c_timings_layout [layout_simps]:
  "sizeof struct_i2c_timings = 32 \<and> alignof struct_i2c_timings = 4 \<and> wf_cty struct_i2c_timings"
  by (simp add: struct_i2c_timings_def base_types layout_eval u32_def c__u32_def
      del: One_nat_def)

lemma struct_dw_i2c_dev_layout [layout_simps]:
  "sizeof struct_dw_i2c_dev = 1544 \<and> alignof struct_dw_i2c_dev = 8 \<and> wf_cty struct_dw_i2c_dev"
  by (simp add: struct_dw_i2c_dev_def base_types layout_eval struct_completion_layout u32_def c__u32_def
      struct_i2c_adapter_layout struct_i2c_timings_layout u16_def c__u16_def bool_def
      struct_i2c_bus_recovery_info_layout
      del: One_nat_def)

end
