(* ===== verification/KernelLargeg.thy ===== *)
theory KernelLargeg
  imports KernelLarged KernelLargee
begin

text \<open>
  Types of other subsystems in \<^verbatim>\<open>bpf/vmlinux.h\<close>: those that take 25 lines and more there, with every type they
  hold by value (part 7 of 10).
\<close>

section \<open>Types\<close>

definition struct_load_info :: cty where
  "struct_load_info = CStruct ''load_info'' False
     [Field ''name'' (CPtr ''const char''),
      Field ''mod'' (CPtr ''struct module''),
      Field ''hdr'' (CPtr ''Elf64_Ehdr''),
      Field ''len'' long_unsigned_int,
      Field ''sechdrs'' (CPtr ''Elf64_Shdr''),
      Field ''secstrings'' (CPtr ''char''),
      Field ''strtab'' (CPtr ''char''),
      Field ''symoffs'' long_unsigned_int,
      Field ''stroffs'' long_unsigned_int,
      Field ''init_typeoffs'' long_unsigned_int,
      Field ''core_typeoffs'' long_unsigned_int,
      Field ''sig_ok'' bool,
      Field ''mod_kallsyms_init_off'' long_unsigned_int,
      Field ''pages'' (CPtr ''struct page *''),
      Field ''max_pages'' unsigned_int,
      Field ''used_pages'' unsigned_int,
      Field ''index'' (CStruct [] False
        [Field ''sym'' unsigned_int,
         Field ''str'' unsigned_int,
         Field ''mod'' unsigned_int,
         Field ''vers'' unsigned_int,
         Field ''info'' unsigned_int,
         Field ''pcpu'' unsigned_int,
         Field ''vers_ext_crc'' unsigned_int,
         Field ''vers_ext_name'' unsigned_int])]"

definition struct_loop_device :: cty where
  "struct_loop_device = CStruct ''loop_device'' False
     [Field ''lo_number'' c_int,
      Field ''lo_offset'' loff_t,
      Field ''lo_sizelimit'' loff_t,
      Field ''lo_flags'' c_int,
      Field ''lo_file_name'' (CArr 64 c_char),
      Field ''lo_backing_file'' (CPtr ''struct file''),
      Field ''lo_min_dio_size'' unsigned_int,
      Field ''lo_device'' (CPtr ''struct block_device''),
      Field ''old_gfp_mask'' gfp_t,
      Field ''lo_lock'' spinlock_t,
      Field ''lo_state'' c_int,
      Field ''lo_work_lock'' spinlock_t,
      Field ''workqueue'' (CPtr ''struct workqueue_struct''),
      Field ''rootcg_work'' struct_work_struct,
      Field ''rootcg_cmd_list'' struct_list_head,
      Field ''idle_worker_list'' struct_list_head,
      Field ''worker_tree'' struct_rb_root,
      Field ''timer'' struct_timer_list,
      Field ''sysfs_inited'' bool,
      Field ''lo_queue'' (CPtr ''struct request_queue''),
      Field ''tag_set'' struct_blk_mq_tag_set,
      Field ''lo_disk'' (CPtr ''struct gendisk''),
      Field ''lo_mutex'' struct_mutex,
      Field ''idr_visible'' bool]"

definition struct_lsm_static_call :: cty where
  "struct_lsm_static_call = CStruct ''lsm_static_call'' False
     [Field ''key'' (CPtr ''struct static_call_key''),
      Field ''trampoline'' (CPtr ''void''),
      Field ''hl'' (CPtr ''struct security_hook_list''),
      Field ''active'' (CPtr ''struct static_key_false'')]"

definition struct_lsm_static_calls_table :: cty where
  "struct_lsm_static_calls_table = CStruct ''lsm_static_calls_table'' False
     [Field ''binder_set_context_mgr'' (CArr 13 struct_lsm_static_call),
      Field ''binder_transaction'' (CArr 13 struct_lsm_static_call),
      Field ''binder_transfer_binder'' (CArr 13 struct_lsm_static_call),
      Field ''binder_transfer_file'' (CArr 13 struct_lsm_static_call),
      Field ''ptrace_access_check'' (CArr 13 struct_lsm_static_call),
      Field ''ptrace_traceme'' (CArr 13 struct_lsm_static_call),
      Field ''capget'' (CArr 13 struct_lsm_static_call),
      Field ''capset'' (CArr 13 struct_lsm_static_call),
      Field ''capable'' (CArr 13 struct_lsm_static_call),
      Field ''quotactl'' (CArr 13 struct_lsm_static_call),
      Field ''quota_on'' (CArr 13 struct_lsm_static_call),
      Field ''syslog'' (CArr 13 struct_lsm_static_call),
      Field ''settime'' (CArr 13 struct_lsm_static_call),
      Field ''vm_enough_memory'' (CArr 13 struct_lsm_static_call),
      Field ''bprm_creds_for_exec'' (CArr 13 struct_lsm_static_call),
      Field ''bprm_creds_from_file'' (CArr 13 struct_lsm_static_call),
      Field ''bprm_check_security'' (CArr 13 struct_lsm_static_call),
      Field ''bprm_committing_creds'' (CArr 13 struct_lsm_static_call),
      Field ''bprm_committed_creds'' (CArr 13 struct_lsm_static_call),
      Field ''fs_context_submount'' (CArr 13 struct_lsm_static_call),
      Field ''fs_context_dup'' (CArr 13 struct_lsm_static_call),
      Field ''fs_context_parse_param'' (CArr 13 struct_lsm_static_call),
      Field ''sb_alloc_security'' (CArr 13 struct_lsm_static_call),
      Field ''sb_delete'' (CArr 13 struct_lsm_static_call),
      Field ''sb_free_security'' (CArr 13 struct_lsm_static_call),
      Field ''sb_free_mnt_opts'' (CArr 13 struct_lsm_static_call),
      Field ''sb_eat_lsm_opts'' (CArr 13 struct_lsm_static_call),
      Field ''sb_mnt_opts_compat'' (CArr 13 struct_lsm_static_call),
      Field ''sb_remount'' (CArr 13 struct_lsm_static_call),
      Field ''sb_kern_mount'' (CArr 13 struct_lsm_static_call),
      Field ''sb_show_options'' (CArr 13 struct_lsm_static_call),
      Field ''sb_statfs'' (CArr 13 struct_lsm_static_call),
      Field ''sb_mount'' (CArr 13 struct_lsm_static_call),
      Field ''sb_umount'' (CArr 13 struct_lsm_static_call),
      Field ''sb_pivotroot'' (CArr 13 struct_lsm_static_call),
      Field ''sb_set_mnt_opts'' (CArr 13 struct_lsm_static_call),
      Field ''sb_clone_mnt_opts'' (CArr 13 struct_lsm_static_call),
      Field ''move_mount'' (CArr 13 struct_lsm_static_call),
      Field ''dentry_init_security'' (CArr 13 struct_lsm_static_call),
      Field ''dentry_create_files_as'' (CArr 13 struct_lsm_static_call),
      Field ''path_unlink'' (CArr 13 struct_lsm_static_call),
      Field ''path_mkdir'' (CArr 13 struct_lsm_static_call),
      Field ''path_rmdir'' (CArr 13 struct_lsm_static_call),
      Field ''path_mknod'' (CArr 13 struct_lsm_static_call),
      Field ''path_post_mknod'' (CArr 13 struct_lsm_static_call),
      Field ''path_truncate'' (CArr 13 struct_lsm_static_call),
      Field ''path_symlink'' (CArr 13 struct_lsm_static_call),
      Field ''path_link'' (CArr 13 struct_lsm_static_call),
      Field ''path_rename'' (CArr 13 struct_lsm_static_call),
      Field ''path_chmod'' (CArr 13 struct_lsm_static_call),
      Field ''path_chown'' (CArr 13 struct_lsm_static_call),
      Field ''path_chroot'' (CArr 13 struct_lsm_static_call),
      Field ''path_notify'' (CArr 13 struct_lsm_static_call),
      Field ''inode_alloc_security'' (CArr 13 struct_lsm_static_call),
      Field ''inode_free_security'' (CArr 13 struct_lsm_static_call),
      Field ''inode_free_security_rcu'' (CArr 13 struct_lsm_static_call),
      Field ''inode_init_security'' (CArr 13 struct_lsm_static_call),
      Field ''inode_init_security_anon'' (CArr 13 struct_lsm_static_call),
      Field ''inode_create'' (CArr 13 struct_lsm_static_call),
      Field ''inode_post_create_tmpfile'' (CArr 13 struct_lsm_static_call),
      Field ''inode_link'' (CArr 13 struct_lsm_static_call),
      Field ''inode_unlink'' (CArr 13 struct_lsm_static_call),
      Field ''inode_symlink'' (CArr 13 struct_lsm_static_call),
      Field ''inode_mkdir'' (CArr 13 struct_lsm_static_call),
      Field ''inode_rmdir'' (CArr 13 struct_lsm_static_call),
      Field ''inode_mknod'' (CArr 13 struct_lsm_static_call),
      Field ''inode_rename'' (CArr 13 struct_lsm_static_call),
      Field ''inode_readlink'' (CArr 13 struct_lsm_static_call),
      Field ''inode_follow_link'' (CArr 13 struct_lsm_static_call),
      Field ''inode_permission'' (CArr 13 struct_lsm_static_call),
      Field ''inode_setattr'' (CArr 13 struct_lsm_static_call),
      Field ''inode_post_setattr'' (CArr 13 struct_lsm_static_call),
      Field ''inode_getattr'' (CArr 13 struct_lsm_static_call),
      Field ''inode_xattr_skipcap'' (CArr 13 struct_lsm_static_call),
      Field ''inode_setxattr'' (CArr 13 struct_lsm_static_call),
      Field ''inode_post_setxattr'' (CArr 13 struct_lsm_static_call),
      Field ''inode_getxattr'' (CArr 13 struct_lsm_static_call),
      Field ''inode_listxattr'' (CArr 13 struct_lsm_static_call),
      Field ''inode_removexattr'' (CArr 13 struct_lsm_static_call),
      Field ''inode_post_removexattr'' (CArr 13 struct_lsm_static_call),
      Field ''inode_file_setattr'' (CArr 13 struct_lsm_static_call),
      Field ''inode_file_getattr'' (CArr 13 struct_lsm_static_call),
      Field ''inode_set_acl'' (CArr 13 struct_lsm_static_call),
      Field ''inode_post_set_acl'' (CArr 13 struct_lsm_static_call),
      Field ''inode_get_acl'' (CArr 13 struct_lsm_static_call),
      Field ''inode_remove_acl'' (CArr 13 struct_lsm_static_call),
      Field ''inode_post_remove_acl'' (CArr 13 struct_lsm_static_call),
      Field ''inode_need_killpriv'' (CArr 13 struct_lsm_static_call),
      Field ''inode_killpriv'' (CArr 13 struct_lsm_static_call),
      Field ''inode_getsecurity'' (CArr 13 struct_lsm_static_call),
      Field ''inode_setsecurity'' (CArr 13 struct_lsm_static_call),
      Field ''inode_listsecurity'' (CArr 13 struct_lsm_static_call),
      Field ''inode_getlsmprop'' (CArr 13 struct_lsm_static_call),
      Field ''inode_copy_up'' (CArr 13 struct_lsm_static_call),
      Field ''inode_copy_up_xattr'' (CArr 13 struct_lsm_static_call),
      Field ''inode_setintegrity'' (CArr 13 struct_lsm_static_call),
      Field ''kernfs_init_security'' (CArr 13 struct_lsm_static_call),
      Field ''file_permission'' (CArr 13 struct_lsm_static_call),
      Field ''file_alloc_security'' (CArr 13 struct_lsm_static_call),
      Field ''file_release'' (CArr 13 struct_lsm_static_call),
      Field ''file_free_security'' (CArr 13 struct_lsm_static_call),
      Field ''backing_file_alloc'' (CArr 13 struct_lsm_static_call),
      Field ''backing_file_free'' (CArr 13 struct_lsm_static_call),
      Field ''file_ioctl'' (CArr 13 struct_lsm_static_call),
      Field ''file_ioctl_compat'' (CArr 13 struct_lsm_static_call),
      Field ''mmap_addr'' (CArr 13 struct_lsm_static_call),
      Field ''mmap_file'' (CArr 13 struct_lsm_static_call),
      Field ''mmap_backing_file'' (CArr 13 struct_lsm_static_call),
      Field ''file_mprotect'' (CArr 13 struct_lsm_static_call),
      Field ''file_lock'' (CArr 13 struct_lsm_static_call),
      Field ''file_fcntl'' (CArr 13 struct_lsm_static_call),
      Field ''file_set_fowner'' (CArr 13 struct_lsm_static_call),
      Field ''file_send_sigiotask'' (CArr 13 struct_lsm_static_call),
      Field ''file_receive'' (CArr 13 struct_lsm_static_call),
      Field ''file_open'' (CArr 13 struct_lsm_static_call),
      Field ''file_post_open'' (CArr 13 struct_lsm_static_call),
      Field ''file_truncate'' (CArr 13 struct_lsm_static_call),
      Field ''task_alloc'' (CArr 13 struct_lsm_static_call),
      Field ''task_free'' (CArr 13 struct_lsm_static_call),
      Field ''cred_alloc_blank'' (CArr 13 struct_lsm_static_call),
      Field ''cred_free'' (CArr 13 struct_lsm_static_call),
      Field ''cred_prepare'' (CArr 13 struct_lsm_static_call),
      Field ''cred_transfer'' (CArr 13 struct_lsm_static_call),
      Field ''cred_getsecid'' (CArr 13 struct_lsm_static_call),
      Field ''cred_getlsmprop'' (CArr 13 struct_lsm_static_call),
      Field ''kernel_act_as'' (CArr 13 struct_lsm_static_call),
      Field ''kernel_create_files_as'' (CArr 13 struct_lsm_static_call),
      Field ''kernel_module_request'' (CArr 13 struct_lsm_static_call),
      Field ''kernel_load_data'' (CArr 13 struct_lsm_static_call),
      Field ''kernel_post_load_data'' (CArr 13 struct_lsm_static_call),
      Field ''kernel_read_file'' (CArr 13 struct_lsm_static_call),
      Field ''kernel_post_read_file'' (CArr 13 struct_lsm_static_call),
      Field ''task_fix_setuid'' (CArr 13 struct_lsm_static_call),
      Field ''task_fix_setgid'' (CArr 13 struct_lsm_static_call),
      Field ''task_fix_setgroups'' (CArr 13 struct_lsm_static_call),
      Field ''task_setpgid'' (CArr 13 struct_lsm_static_call),
      Field ''task_getpgid'' (CArr 13 struct_lsm_static_call),
      Field ''task_getsid'' (CArr 13 struct_lsm_static_call),
      Field ''current_getlsmprop_subj'' (CArr 13 struct_lsm_static_call),
      Field ''task_getlsmprop_obj'' (CArr 13 struct_lsm_static_call),
      Field ''task_setnice'' (CArr 13 struct_lsm_static_call),
      Field ''task_setioprio'' (CArr 13 struct_lsm_static_call),
      Field ''task_getioprio'' (CArr 13 struct_lsm_static_call),
      Field ''task_prlimit'' (CArr 13 struct_lsm_static_call),
      Field ''task_setrlimit'' (CArr 13 struct_lsm_static_call),
      Field ''task_setscheduler'' (CArr 13 struct_lsm_static_call),
      Field ''task_getscheduler'' (CArr 13 struct_lsm_static_call),
      Field ''task_movememory'' (CArr 13 struct_lsm_static_call),
      Field ''task_kill'' (CArr 13 struct_lsm_static_call),
      Field ''task_prctl'' (CArr 13 struct_lsm_static_call),
      Field ''task_to_inode'' (CArr 13 struct_lsm_static_call),
      Field ''userns_create'' (CArr 13 struct_lsm_static_call),
      Field ''ipc_permission'' (CArr 13 struct_lsm_static_call),
      Field ''ipc_getlsmprop'' (CArr 13 struct_lsm_static_call),
      Field ''msg_msg_alloc_security'' (CArr 13 struct_lsm_static_call),
      Field ''msg_msg_free_security'' (CArr 13 struct_lsm_static_call),
      Field ''msg_queue_alloc_security'' (CArr 13 struct_lsm_static_call),
      Field ''msg_queue_free_security'' (CArr 13 struct_lsm_static_call),
      Field ''msg_queue_associate'' (CArr 13 struct_lsm_static_call),
      Field ''msg_queue_msgctl'' (CArr 13 struct_lsm_static_call),
      Field ''msg_queue_msgsnd'' (CArr 13 struct_lsm_static_call),
      Field ''msg_queue_msgrcv'' (CArr 13 struct_lsm_static_call),
      Field ''shm_alloc_security'' (CArr 13 struct_lsm_static_call),
      Field ''shm_free_security'' (CArr 13 struct_lsm_static_call),
      Field ''shm_associate'' (CArr 13 struct_lsm_static_call),
      Field ''shm_shmctl'' (CArr 13 struct_lsm_static_call),
      Field ''shm_shmat'' (CArr 13 struct_lsm_static_call),
      Field ''sem_alloc_security'' (CArr 13 struct_lsm_static_call),
      Field ''sem_free_security'' (CArr 13 struct_lsm_static_call),
      Field ''sem_associate'' (CArr 13 struct_lsm_static_call),
      Field ''sem_semctl'' (CArr 13 struct_lsm_static_call),
      Field ''sem_semop'' (CArr 13 struct_lsm_static_call),
      Field ''netlink_send'' (CArr 13 struct_lsm_static_call),
      Field ''d_instantiate'' (CArr 13 struct_lsm_static_call),
      Field ''getselfattr'' (CArr 13 struct_lsm_static_call),
      Field ''setselfattr'' (CArr 13 struct_lsm_static_call),
      Field ''getprocattr'' (CArr 13 struct_lsm_static_call),
      Field ''setprocattr'' (CArr 13 struct_lsm_static_call),
      Field ''ismaclabel'' (CArr 13 struct_lsm_static_call),
      Field ''secid_to_secctx'' (CArr 13 struct_lsm_static_call),
      Field ''lsmprop_to_secctx'' (CArr 13 struct_lsm_static_call),
      Field ''secctx_to_secid'' (CArr 13 struct_lsm_static_call),
      Field ''release_secctx'' (CArr 13 struct_lsm_static_call),
      Field ''inode_invalidate_secctx'' (CArr 13 struct_lsm_static_call),
      Field ''inode_notifysecctx'' (CArr 13 struct_lsm_static_call),
      Field ''inode_setsecctx'' (CArr 13 struct_lsm_static_call),
      Field ''inode_getsecctx'' (CArr 13 struct_lsm_static_call),
      Field ''post_notification'' (CArr 13 struct_lsm_static_call),
      Field ''watch_key'' (CArr 13 struct_lsm_static_call),
      Field ''unix_stream_connect'' (CArr 13 struct_lsm_static_call),
      Field ''unix_may_send'' (CArr 13 struct_lsm_static_call),
      Field ''socket_create'' (CArr 13 struct_lsm_static_call),
      Field ''socket_post_create'' (CArr 13 struct_lsm_static_call),
      Field ''socket_socketpair'' (CArr 13 struct_lsm_static_call),
      Field ''socket_bind'' (CArr 13 struct_lsm_static_call),
      Field ''socket_connect'' (CArr 13 struct_lsm_static_call),
      Field ''socket_listen'' (CArr 13 struct_lsm_static_call),
      Field ''socket_accept'' (CArr 13 struct_lsm_static_call),
      Field ''socket_sendmsg'' (CArr 13 struct_lsm_static_call),
      Field ''socket_recvmsg'' (CArr 13 struct_lsm_static_call),
      Field ''socket_getsockname'' (CArr 13 struct_lsm_static_call),
      Field ''socket_getpeername'' (CArr 13 struct_lsm_static_call),
      Field ''socket_getsockopt'' (CArr 13 struct_lsm_static_call),
      Field ''socket_setsockopt'' (CArr 13 struct_lsm_static_call),
      Field ''socket_shutdown'' (CArr 13 struct_lsm_static_call),
      Field ''socket_sock_rcv_skb'' (CArr 13 struct_lsm_static_call),
      Field ''socket_getpeersec_stream'' (CArr 13 struct_lsm_static_call),
      Field ''socket_getpeersec_dgram'' (CArr 13 struct_lsm_static_call),
      Field ''sk_alloc_security'' (CArr 13 struct_lsm_static_call),
      Field ''sk_free_security'' (CArr 13 struct_lsm_static_call),
      Field ''sk_clone_security'' (CArr 13 struct_lsm_static_call),
      Field ''sk_getsecid'' (CArr 13 struct_lsm_static_call),
      Field ''sock_graft'' (CArr 13 struct_lsm_static_call),
      Field ''inet_conn_request'' (CArr 13 struct_lsm_static_call),
      Field ''inet_csk_clone'' (CArr 13 struct_lsm_static_call),
      Field ''inet_conn_established'' (CArr 13 struct_lsm_static_call),
      Field ''secmark_relabel_packet'' (CArr 13 struct_lsm_static_call),
      Field ''secmark_refcount_inc'' (CArr 13 struct_lsm_static_call),
      Field ''secmark_refcount_dec'' (CArr 13 struct_lsm_static_call),
      Field ''req_classify_flow'' (CArr 13 struct_lsm_static_call),
      Field ''tun_dev_alloc_security'' (CArr 13 struct_lsm_static_call),
      Field ''tun_dev_create'' (CArr 13 struct_lsm_static_call),
      Field ''tun_dev_attach_queue'' (CArr 13 struct_lsm_static_call),
      Field ''tun_dev_attach'' (CArr 13 struct_lsm_static_call),
      Field ''tun_dev_open'' (CArr 13 struct_lsm_static_call),
      Field ''sctp_assoc_request'' (CArr 13 struct_lsm_static_call),
      Field ''sctp_bind_connect'' (CArr 13 struct_lsm_static_call),
      Field ''sctp_sk_clone'' (CArr 13 struct_lsm_static_call),
      Field ''sctp_assoc_established'' (CArr 13 struct_lsm_static_call),
      Field ''mptcp_add_subflow'' (CArr 13 struct_lsm_static_call),
      Field ''ib_pkey_access'' (CArr 13 struct_lsm_static_call),
      Field ''ib_endport_manage_subnet'' (CArr 13 struct_lsm_static_call),
      Field ''ib_alloc_security'' (CArr 13 struct_lsm_static_call),
      Field ''xfrm_policy_alloc_security'' (CArr 13 struct_lsm_static_call),
      Field ''xfrm_policy_clone_security'' (CArr 13 struct_lsm_static_call),
      Field ''xfrm_policy_free_security'' (CArr 13 struct_lsm_static_call),
      Field ''xfrm_policy_delete_security'' (CArr 13 struct_lsm_static_call),
      Field ''xfrm_state_alloc'' (CArr 13 struct_lsm_static_call),
      Field ''xfrm_state_alloc_acquire'' (CArr 13 struct_lsm_static_call),
      Field ''xfrm_state_free_security'' (CArr 13 struct_lsm_static_call),
      Field ''xfrm_state_delete_security'' (CArr 13 struct_lsm_static_call),
      Field ''xfrm_policy_lookup'' (CArr 13 struct_lsm_static_call),
      Field ''xfrm_state_pol_flow_match'' (CArr 13 struct_lsm_static_call),
      Field ''xfrm_decode_session'' (CArr 13 struct_lsm_static_call),
      Field ''key_alloc'' (CArr 13 struct_lsm_static_call),
      Field ''key_permission'' (CArr 13 struct_lsm_static_call),
      Field ''key_getsecurity'' (CArr 13 struct_lsm_static_call),
      Field ''key_post_create_or_update'' (CArr 13 struct_lsm_static_call),
      Field ''audit_rule_init'' (CArr 13 struct_lsm_static_call),
      Field ''audit_rule_known'' (CArr 13 struct_lsm_static_call),
      Field ''audit_rule_match'' (CArr 13 struct_lsm_static_call),
      Field ''audit_rule_free'' (CArr 13 struct_lsm_static_call),
      Field ''bpf'' (CArr 13 struct_lsm_static_call),
      Field ''bpf_map'' (CArr 13 struct_lsm_static_call),
      Field ''bpf_prog'' (CArr 13 struct_lsm_static_call),
      Field ''bpf_map_create'' (CArr 13 struct_lsm_static_call),
      Field ''bpf_map_free'' (CArr 13 struct_lsm_static_call),
      Field ''bpf_prog_load'' (CArr 13 struct_lsm_static_call),
      Field ''bpf_prog_free'' (CArr 13 struct_lsm_static_call),
      Field ''bpf_token_create'' (CArr 13 struct_lsm_static_call),
      Field ''bpf_token_free'' (CArr 13 struct_lsm_static_call),
      Field ''bpf_token_cmd'' (CArr 13 struct_lsm_static_call),
      Field ''bpf_token_capable'' (CArr 13 struct_lsm_static_call),
      Field ''locked_down'' (CArr 13 struct_lsm_static_call),
      Field ''perf_event_open'' (CArr 13 struct_lsm_static_call),
      Field ''perf_event_alloc'' (CArr 13 struct_lsm_static_call),
      Field ''perf_event_read'' (CArr 13 struct_lsm_static_call),
      Field ''perf_event_write'' (CArr 13 struct_lsm_static_call),
      Field ''uring_override_creds'' (CArr 13 struct_lsm_static_call),
      Field ''uring_sqpoll'' (CArr 13 struct_lsm_static_call),
      Field ''uring_cmd'' (CArr 13 struct_lsm_static_call),
      Field ''uring_allowed'' (CArr 13 struct_lsm_static_call),
      Field ''initramfs_populated'' (CArr 13 struct_lsm_static_call),
      Field ''bdev_alloc_security'' (CArr 13 struct_lsm_static_call),
      Field ''bdev_free_security'' (CArr 13 struct_lsm_static_call),
      Field ''bdev_setintegrity'' (CArr 13 struct_lsm_static_call)]"

definition enum_macsec_offload :: cty where
  "enum_macsec_offload = CEnum 4
     [(''MACSEC_OFFLOAD_OFF'', 0), (''MACSEC_OFFLOAD_PHY'', 1), (''MACSEC_OFFLOAD_MAC'', 2),
      (''__MACSEC_OFFLOAD_END'', 3), (''MACSEC_OFFLOAD_MAX'', 2)]"

definition struct_macsec_context :: cty where
  "struct_macsec_context = CStruct ''macsec_context'' False
     [Field [] (CUnion [] False
        [Field ''netdev'' (CPtr ''struct net_device''),
         Field ''phydev'' (CPtr ''struct phy_device'')]),
      Field ''offload'' enum_macsec_offload,
      Field ''secy'' (CPtr ''struct macsec_secy''),
      Field ''rx_sc'' (CPtr ''struct macsec_rx_sc''),
      Field ''sa'' (CStruct [] False
        [Field ''update_pn'' bool,
         Field ''assoc_num'' unsigned_char,
         Field ''key'' (CArr 128 u8),
         Field [] (CUnion [] False
           [Field ''rx_sa'' (CPtr ''struct macsec_rx_sa''),
            Field ''tx_sa'' (CPtr ''struct macsec_tx_sa'')])]),
      Field ''stats'' (CUnion [] False
        [Field ''tx_sc_stats'' (CPtr ''struct macsec_tx_sc_stats''),
         Field ''tx_sa_stats'' (CPtr ''struct macsec_tx_sa_stats''),
         Field ''rx_sc_stats'' (CPtr ''struct macsec_rx_sc_stats''),
         Field ''rx_sa_stats'' (CPtr ''struct macsec_rx_sa_stats''),
         Field ''dev_stats'' (CPtr ''struct macsec_dev_stats'')])]"

definition enum_dm_queue_mode :: cty where
  "enum_dm_queue_mode = CEnum 4
     [(''DM_TYPE_NONE'', 0), (''DM_TYPE_BIO_BASED'', 1), (''DM_TYPE_REQUEST_BASED'', 2),
      (''DM_TYPE_DAX_BIO_BASED'', 3)]"

definition struct_hd_geometry :: cty where
  "struct_hd_geometry = CStruct ''hd_geometry'' False
     [Field ''heads'' unsigned_char,
      Field ''sectors'' unsigned_char,
      Field ''cylinders'' short_unsigned_int,
      Field ''start'' long_unsigned_int]"

definition struct_dm_stats :: cty where
  "struct_dm_stats = CStruct ''dm_stats'' False
     [Field ''mutex'' struct_mutex,
      Field ''list'' struct_list_head,
      Field ''last'' (CPtr ''struct dm_stats_last_position''),
      Field ''precise_timestamps'' bool]"

definition struct_dm_kobject_holder :: cty where
  "struct_dm_kobject_holder = CStruct ''dm_kobject_holder'' False
     [Field ''kobj'' struct_kobject,
      Field ''completion'' struct_completion]"

definition struct_dm_ima_device_table_metadata :: cty where
  "struct_dm_ima_device_table_metadata = CStruct ''dm_ima_device_table_metadata'' False
     [Field ''device_metadata'' (CPtr ''char''),
      Field ''device_metadata_len'' unsigned_int,
      Field ''num_targets'' unsigned_int,
      Field ''hash'' (CPtr ''char''),
      Field ''hash_len'' unsigned_int]"

definition struct_dm_ima_measurements :: cty where
  "struct_dm_ima_measurements = CStruct ''dm_ima_measurements'' False
     [Field ''active_table'' struct_dm_ima_device_table_metadata,
      Field ''inactive_table'' struct_dm_ima_device_table_metadata,
      Field ''dm_version_str_len'' unsigned_int]"

definition struct_mapped_device :: cty where
  "struct_mapped_device = CStruct ''mapped_device'' False
     [Field ''suspend_lock'' struct_mutex,
      Field ''table_devices_lock'' struct_mutex,
      Field ''table_devices'' struct_list_head,
      Field ''map'' (CPtr ''void''),
      Field ''flags'' long_unsigned_int,
      Field ''type_lock'' struct_mutex,
      Field ''type'' enum_dm_queue_mode,
      Field ''numa_node_id'' c_int,
      Field ''queue'' (CPtr ''struct request_queue''),
      Field ''holders'' atomic_t,
      Field ''open_count'' atomic_t,
      Field ''immutable_target'' (CPtr ''struct dm_target''),
      Field ''immutable_target_type'' (CPtr ''struct target_type''),
      Field ''name'' (CArr 16 c_char),
      Field ''disk'' (CPtr ''struct gendisk''),
      Field ''dax_dev'' (CPtr ''struct dax_device''),
      Field ''wait'' wait_queue_head_t,
      Field ''pending_io'' (CPtr ''long unsigned int''),
      Field ''geometry'' struct_hd_geometry,
      Field ''wq'' (CPtr ''struct workqueue_struct''),
      Field ''work'' struct_work_struct,
      Field ''deferred_lock'' spinlock_t,
      Field ''deferred'' struct_bio_list,
      Field ''requeue_work'' struct_work_struct,
      Field ''requeue_list'' (CPtr ''struct dm_io''),
      Field ''interface_ptr'' (CPtr ''void''),
      Field ''eventq'' wait_queue_head_t,
      Field ''event_nr'' atomic_t,
      Field ''uevent_seq'' atomic_t,
      Field ''uevent_list'' struct_list_head,
      Field ''uevent_lock'' spinlock_t,
      BitField ''init_tio_pdu'' bool 1,
      Field ''tag_set'' (CPtr ''struct blk_mq_tag_set''),
      Field ''stats'' struct_dm_stats,
      Field ''internal_suspend_count'' unsigned_int,
      Field ''swap_bios'' c_int,
      Field ''swap_bios_semaphore'' struct_semaphore,
      Field ''swap_bios_lock'' struct_mutex,
      Field ''mempools'' (CPtr ''struct dm_md_mempools''),
      Field ''kobj_holder'' struct_dm_kobject_holder,
      Field ''io_barrier'' struct_srcu_struct,
      Field ''zone_revalidate_map'' (CPtr ''void''),
      Field ''revalidate_map_task'' (CPtr ''struct task_struct''),
      Field ''ima'' struct_dm_ima_measurements]"

definition struct_max8925_platform_data :: cty where
  "struct_max8925_platform_data = CStruct ''max8925_platform_data'' False
     [Field ''backlight'' (CPtr ''struct max8925_backlight_pdata''),
      Field ''touch'' (CPtr ''struct max8925_touch_pdata''),
      Field ''power'' (CPtr ''struct max8925_power_pdata''),
      Field ''sd1'' (CPtr ''struct regulator_init_data''),
      Field ''sd2'' (CPtr ''struct regulator_init_data''),
      Field ''sd3'' (CPtr ''struct regulator_init_data''),
      Field ''ldo1'' (CPtr ''struct regulator_init_data''),
      Field ''ldo2'' (CPtr ''struct regulator_init_data''),
      Field ''ldo3'' (CPtr ''struct regulator_init_data''),
      Field ''ldo4'' (CPtr ''struct regulator_init_data''),
      Field ''ldo5'' (CPtr ''struct regulator_init_data''),
      Field ''ldo6'' (CPtr ''struct regulator_init_data''),
      Field ''ldo7'' (CPtr ''struct regulator_init_data''),
      Field ''ldo8'' (CPtr ''struct regulator_init_data''),
      Field ''ldo9'' (CPtr ''struct regulator_init_data''),
      Field ''ldo10'' (CPtr ''struct regulator_init_data''),
      Field ''ldo11'' (CPtr ''struct regulator_init_data''),
      Field ''ldo12'' (CPtr ''struct regulator_init_data''),
      Field ''ldo13'' (CPtr ''struct regulator_init_data''),
      Field ''ldo14'' (CPtr ''struct regulator_init_data''),
      Field ''ldo15'' (CPtr ''struct regulator_init_data''),
      Field ''ldo16'' (CPtr ''struct regulator_init_data''),
      Field ''ldo17'' (CPtr ''struct regulator_init_data''),
      Field ''ldo18'' (CPtr ''struct regulator_init_data''),
      Field ''ldo19'' (CPtr ''struct regulator_init_data''),
      Field ''ldo20'' (CPtr ''struct regulator_init_data''),
      Field ''irq_base'' c_int,
      Field ''tsc_irq'' c_int]"

definition struct_md_cluster_operations :: cty where
  "struct_md_cluster_operations = CStruct ''md_cluster_operations'' False
     [Field ''head'' struct_md_submodule_head,
      Field ''join'' (CPtr ''int (struct mddev *, int)''),
      Field ''leave'' (CPtr ''int (struct mddev *)''),
      Field ''slot_number'' (CPtr ''int (struct mddev *)''),
      Field ''resync_info_update'' (CPtr ''int (struct mddev *, sector_t, sector_t)''),
      Field ''resync_start_notify'' (CPtr ''int (struct mddev *)''),
      Field ''resync_status_get'' (CPtr ''int (struct mddev *)''),
      Field ''resync_info_get'' (CPtr ''void (struct mddev *, sector_t *, sector_t *)''),
      Field ''metadata_update_start'' (CPtr ''int (struct mddev *)''),
      Field ''metadata_update_finish'' (CPtr ''int (struct mddev *)''),
      Field ''metadata_update_cancel'' (CPtr ''void (struct mddev *)''),
      Field ''resync_start'' (CPtr ''int (struct mddev *)''),
      Field ''resync_finish'' (CPtr ''int (struct mddev *)''),
      Field ''area_resyncing'' (CPtr ''int (struct mddev *, int, sector_t, sector_t)''),
      Field ''add_new_disk'' (CPtr ''int (struct mddev *, struct md_rdev *)''),
      Field ''add_new_disk_cancel'' (CPtr ''void (struct mddev *)''),
      Field ''new_disk_ack'' (CPtr ''int (struct mddev *, bool)''),
      Field ''remove_disk'' (CPtr ''int (struct mddev *, struct md_rdev *)''),
      Field ''load_bitmaps'' (CPtr ''void (struct mddev *, int)''),
      Field ''gather_bitmaps'' (CPtr ''int (struct md_rdev *)''),
      Field ''resize_bitmaps'' (CPtr ''int (struct mddev *, sector_t, sector_t)''),
      Field ''lock_all_bitmaps'' (CPtr ''int (struct mddev *)''),
      Field ''unlock_all_bitmaps'' (CPtr ''void (struct mddev *)''),
      Field ''update_size'' (CPtr ''void (struct mddev *, sector_t)'')]"

definition struct_md_rdev :: cty where
  "struct_md_rdev = CStruct ''md_rdev'' False
     [Field ''same_set'' struct_list_head,
      Field ''sectors'' sector_t,
      Field ''mddev'' (CPtr ''struct mddev''),
      Field ''last_events'' long_unsigned_int,
      Field ''meta_bdev'' (CPtr ''struct block_device''),
      Field ''bdev'' (CPtr ''struct block_device''),
      Field ''bdev_file'' (CPtr ''struct file''),
      Field ''sb_page'' (CPtr ''struct page''),
      Field ''bb_page'' (CPtr ''struct page''),
      Field ''sb_loaded'' c_int,
      Field ''sb_events'' c__u64,
      Field ''data_offset'' sector_t,
      Field ''new_data_offset'' sector_t,
      Field ''sb_start'' sector_t,
      Field ''sb_size'' c_int,
      Field ''preferred_minor'' c_int,
      Field ''kobj'' struct_kobject,
      Field ''flags'' long_unsigned_int,
      Field ''blocked_wait'' wait_queue_head_t,
      Field ''desc_nr'' c_int,
      Field ''raid_disk'' c_int,
      Field ''new_raid_disk'' c_int,
      Field ''saved_raid_disk'' c_int,
      Field [] (CUnion [] False
        [Field ''recovery_offset'' sector_t,
         Field ''journal_tail'' sector_t]),
      Field ''nr_pending'' atomic_t,
      Field ''read_errors'' atomic_t,
      Field ''last_read_error'' time64_t,
      Field ''corrected_errors'' atomic_t,
      Field ''serial'' (CPtr ''struct serial_in_rdev''),
      Field ''sysfs_state'' (CPtr ''struct kernfs_node''),
      Field ''sysfs_unack_badblocks'' (CPtr ''struct kernfs_node''),
      Field ''sysfs_badblocks'' (CPtr ''struct kernfs_node''),
      Field ''badblocks'' struct_badblocks,
      Field ''ppl'' (CStruct [] False
        [Field ''offset'' short_int,
         Field ''size'' unsigned_int,
         Field ''sector'' sector_t])]"

definition enum_sync_action :: cty where
  "enum_sync_action = CEnum 4
     [(''ACTION_RESYNC'', 0), (''ACTION_RECOVER'', 1), (''ACTION_CHECK'', 2),
      (''ACTION_REPAIR'', 3), (''ACTION_RESHAPE'', 4), (''ACTION_FROZEN'', 5),
      (''ACTION_IDLE'', 6), (''NR_SYNC_ACTIONS'', 7)]"

definition struct_mddev :: cty where
  "struct_mddev = CStruct ''mddev'' False
     [Field ''private'' (CPtr ''void''),
      Field ''pers'' (CPtr ''struct md_personality''),
      Field ''unit'' dev_t,
      Field ''md_minor'' c_int,
      Field ''disks'' struct_list_head,
      Field ''flags'' long_unsigned_int,
      Field ''sb_flags'' long_unsigned_int,
      Field ''suspended'' c_int,
      Field ''suspend_mutex'' struct_mutex,
      Field ''active_io'' struct_percpu_ref,
      Field ''ro'' c_int,
      Field ''sysfs_active'' c_int,
      Field ''gendisk'' (CPtr ''struct gendisk''),
      Field ''dm_gendisk'' (CPtr ''struct gendisk''),
      Field ''kobj'' struct_kobject,
      Field ''hold_active'' c_int,
      Field ''major_version'' c_int,
      Field ''minor_version'' c_int,
      Field ''patch_version'' c_int,
      Field ''persistent'' c_int,
      Field ''external'' c_int,
      Field ''metadata_type'' (CArr 17 c_char),
      Field ''chunk_sectors'' c_int,
      Field ''ctime'' time64_t,
      Field ''utime'' time64_t,
      Field ''level'' c_int,
      Field ''layout'' c_int,
      Field ''clevel'' (CArr 16 c_char),
      Field ''raid_disks'' c_int,
      Field ''max_disks'' c_int,
      Field ''dev_sectors'' sector_t,
      Field ''array_sectors'' sector_t,
      Field ''external_size'' c_int,
      Field ''logical_block_size'' unsigned_int,
      Field ''events'' c__u64,
      Field ''can_decrease_events'' c_int,
      Field ''uuid'' (CArr 16 c_char),
      Field ''reshape_position'' sector_t,
      Field ''delta_disks'' c_int,
      Field ''new_level'' c_int,
      Field ''new_layout'' c_int,
      Field ''new_chunk_sectors'' c_int,
      Field ''reshape_backwards'' c_int,
      Field ''thread'' (CPtr ''struct md_thread''),
      Field ''sync_thread'' (CPtr ''struct md_thread''),
      Field ''last_sync_action'' enum_sync_action,
      Field ''curr_resync'' sector_t,
      Field ''curr_resync_completed'' sector_t,
      Field ''resync_mark'' long_unsigned_int,
      Field ''resync_mark_cnt'' sector_t,
      Field ''curr_mark_cnt'' sector_t,
      Field ''resync_max_sectors'' sector_t,
      Field ''resync_mismatches'' atomic64_t,
      Field ''suspend_lo'' sector_t,
      Field ''suspend_hi'' sector_t,
      Field ''sync_speed_min'' c_int,
      Field ''sync_speed_max'' c_int,
      Field ''sync_io_depth'' c_int,
      Field ''parallel_resync'' c_int,
      Field ''ok_start_degraded'' c_int,
      Field ''recovery'' long_unsigned_int,
      Field ''in_sync'' c_int,
      Field ''open_mutex'' struct_mutex,
      Field ''reconfig_mutex'' struct_mutex,
      Field ''active'' atomic_t,
      Field ''openers'' atomic_t,
      Field ''changed'' c_int,
      Field ''degraded'' c_int,
      Field ''normal_io_events'' long_unsigned_int,
      Field ''recovery_active'' atomic_t,
      Field ''recovery_wait'' wait_queue_head_t,
      Field ''resync_offset'' sector_t,
      Field ''resync_min'' sector_t,
      Field ''resync_max'' sector_t,
      Field ''sysfs_state'' (CPtr ''struct kernfs_node''),
      Field ''sysfs_action'' (CPtr ''struct kernfs_node''),
      Field ''sysfs_completed'' (CPtr ''struct kernfs_node''),
      Field ''sysfs_degraded'' (CPtr ''struct kernfs_node''),
      Field ''sysfs_level'' (CPtr ''struct kernfs_node''),
      Field ''del_work'' struct_work_struct,
      Field ''sync_work'' struct_work_struct,
      Field ''lock'' spinlock_t,
      Field ''sb_wait'' wait_queue_head_t,
      Field ''pending_writes'' atomic_t,
      Field ''safemode'' unsigned_int,
      Field ''safemode_delay'' unsigned_int,
      Field ''safemode_timer'' struct_timer_list,
      Field ''writes_pending'' struct_percpu_ref,
      Field ''sync_checkers'' c_int,
      Field ''bitmap_id'' enum_md_submodule_id,
      Field ''bitmap'' (CPtr ''void''),
      Field ''bitmap_ops'' (CPtr ''struct bitmap_operations''),
      Field ''bitmap_info'' (CStruct [] False
        [Field ''file'' (CPtr ''struct file''),
         Field ''offset'' loff_t,
         Field ''space'' long_unsigned_int,
         Field ''default_offset'' loff_t,
         Field ''default_space'' long_unsigned_int,
         Field ''mutex'' struct_mutex,
         Field ''chunksize'' long_unsigned_int,
         Field ''daemon_sleep'' long_unsigned_int,
         Field ''max_write_behind'' long_unsigned_int,
         Field ''external'' c_int,
         Field ''nodes'' c_int,
         Field ''cluster_name'' (CArr 64 c_char)]),
      Field ''max_corr_read_errors'' atomic_t,
      Field ''all_mddevs'' struct_list_head,
      Field ''to_remove'' (CPtr ''const struct attribute_group''),
      Field ''bio_set'' struct_bio_set,
      Field ''sync_set'' struct_bio_set,
      Field ''io_clone_set'' struct_bio_set,
      Field ''event_work'' struct_work_struct,
      Field ''serial_info_pool'' (CPtr ''mempool_t''),
      Field ''sync_super'' (CPtr ''void (struct mddev *, struct md_rdev *)''),
      Field ''cluster_info'' (CPtr ''struct md_cluster_info''),
      Field ''cluster_ops'' (CPtr ''struct md_cluster_operations''),
      Field ''good_device_nr'' unsigned_int,
      Field ''noio_flag'' unsigned_int,
      Field ''deleting'' struct_list_head,
      Field ''sync_seq'' atomic_t]"

definition struct_mdp_superblock_1 :: cty where
  "struct_mdp_superblock_1 = CStruct ''mdp_superblock_1'' False
     [Field ''magic'' c__le32,
      Field ''major_version'' c__le32,
      Field ''feature_map'' c__le32,
      Field ''pad0'' c__le32,
      Field ''set_uuid'' (CArr 16 c__u8),
      Field ''set_name'' (CArr 32 c_char),
      Field ''ctime'' c__le64,
      Field ''level'' c__le32,
      Field ''layout'' c__le32,
      Field ''size'' c__le64,
      Field ''chunksize'' c__le32,
      Field ''raid_disks'' c__le32,
      Field [] (CUnion [] False
        [Field ''bitmap_offset'' c__le32,
         Field ''ppl'' (CStruct [] False
           [Field ''offset'' c__le16,
            Field ''size'' c__le16])]),
      Field ''new_level'' c__le32,
      Field ''reshape_position'' c__le64,
      Field ''delta_disks'' c__le32,
      Field ''new_layout'' c__le32,
      Field ''new_chunk'' c__le32,
      Field ''new_offset'' c__le32,
      Field ''data_offset'' c__le64,
      Field ''data_size'' c__le64,
      Field ''super_offset'' c__le64,
      Field [] (CUnion [] False
        [Field ''recovery_offset'' c__le64,
         Field ''journal_tail'' c__le64]),
      Field ''dev_number'' c__le32,
      Field ''cnt_corrected_read'' c__le32,
      Field ''device_uuid'' (CArr 16 c__u8),
      Field ''devflags'' c__u8,
      Field ''bblog_shift'' c__u8,
      Field ''bblog_size'' c__le16,
      Field ''bblog_offset'' c__le32,
      Field ''utime'' c__le64,
      Field ''events'' c__le64,
      Field ''resync_offset'' c__le64,
      Field ''sb_csum'' c__le32,
      Field ''max_dev'' c__le32,
      Field ''logical_block_size'' c__le32,
      Field ''pad3'' (CArr 28 c__u8),
      Field ''dev_roles'' (CArr 0 c__le16)]"

definition struct_mdp_device_descriptor_s :: cty where
  "struct_mdp_device_descriptor_s = CStruct ''mdp_device_descriptor_s'' False
     [Field ''number'' c__u32,
      Field ''major'' c__u32,
      Field ''minor'' c__u32,
      Field ''raid_disk'' c__u32,
      Field ''state'' c__u32,
      Field ''reserved'' (CArr 27 c__u32)]"

definition mdp_disk_t :: cty where [layout_simps]:
  "mdp_disk_t = struct_mdp_device_descriptor_s"

definition struct_mdp_superblock_s :: cty where
  "struct_mdp_superblock_s = CStruct ''mdp_superblock_s'' False
     [Field ''md_magic'' c__u32,
      Field ''major_version'' c__u32,
      Field ''minor_version'' c__u32,
      Field ''patch_version'' c__u32,
      Field ''gvalid_words'' c__u32,
      Field ''set_uuid0'' c__u32,
      Field ''ctime'' c__u32,
      Field ''level'' c__u32,
      Field ''size'' c__u32,
      Field ''nr_disks'' c__u32,
      Field ''raid_disks'' c__u32,
      Field ''md_minor'' c__u32,
      Field ''not_persistent'' c__u32,
      Field ''set_uuid1'' c__u32,
      Field ''set_uuid2'' c__u32,
      Field ''set_uuid3'' c__u32,
      Field ''gstate_creserved'' (CArr 16 c__u32),
      Field ''utime'' c__u32,
      Field ''state'' c__u32,
      Field ''active_disks'' c__u32,
      Field ''working_disks'' c__u32,
      Field ''failed_disks'' c__u32,
      Field ''spare_disks'' c__u32,
      Field ''sb_csum'' c__u32,
      Field ''events_lo'' c__u32,
      Field ''events_hi'' c__u32,
      Field ''cp_events_lo'' c__u32,
      Field ''cp_events_hi'' c__u32,
      Field ''recovery_cp'' c__u32,
      Field ''reshape_position'' c__u64,
      Field ''new_level'' c__u32,
      Field ''delta_disks'' c__u32,
      Field ''new_layout'' c__u32,
      Field ''new_chunk'' c__u32,
      Field ''gstate_sreserved'' (CArr 14 c__u32),
      Field ''layout'' c__u32,
      Field ''chunk_size'' c__u32,
      Field ''root_pv'' c__u32,
      Field ''root_block'' c__u32,
      Field ''pstate_reserved'' (CArr 60 c__u32),
      Field ''disks'' (CArr 27 mdp_disk_t),
      Field ''reserved'' (CArr 0 c__u32),
      Field ''this_disk'' mdp_disk_t]"

definition enum_scrub_type :: cty where
  "enum_scrub_type = CEnum 4
     [(''SCRUB_UNKNOWN'', 0), (''SCRUB_NONE'', 1), (''SCRUB_SW_PROG'', 2),
      (''SCRUB_SW_SRC'', 3), (''SCRUB_SW_PROG_SRC'', 4), (''SCRUB_SW_TUNABLE'', 5),
      (''SCRUB_HW_PROG'', 6), (''SCRUB_HW_SRC'', 7), (''SCRUB_HW_PROG_SRC'', 8),
      (''SCRUB_HW_TUNABLE'', 9)]"

definition enum_hw_event_mc_err_type :: cty where
  "enum_hw_event_mc_err_type = CEnum 4
     [(''HW_EVENT_ERR_CORRECTED'', 0), (''HW_EVENT_ERR_UNCORRECTED'', 1),
      (''HW_EVENT_ERR_DEFERRED'', 2), (''HW_EVENT_ERR_FATAL'', 3), (''HW_EVENT_ERR_INFO'', 4)]"

definition struct_edac_raw_error_desc :: cty where
  "struct_edac_raw_error_desc = CStruct ''edac_raw_error_desc'' False
     [Field ''location'' (CArr 256 c_char),
      Field ''label'' (CArr 296 c_char),
      Field ''grain'' c_long,
      Field ''error_count'' u16,
      Field ''type'' enum_hw_event_mc_err_type,
      Field ''top_layer'' c_int,
      Field ''mid_layer'' c_int,
      Field ''low_layer'' c_int,
      Field ''page_frame_number'' long_unsigned_int,
      Field ''offset_in_page'' long_unsigned_int,
      Field ''syndrome'' long_unsigned_int,
      Field ''msg'' (CPtr ''const char''),
      Field ''other_detail'' (CPtr ''const char'')]"

definition struct_mem_ctl_info :: cty where
  "struct_mem_ctl_info = CStruct ''mem_ctl_info'' False
     [Field ''dev'' struct_device,
      Field ''bus'' (CPtr ''const struct bus_type''),
      Field ''link'' struct_list_head,
      Field ''owner'' (CPtr ''struct module''),
      Field ''mtype_cap'' long_unsigned_int,
      Field ''edac_ctl_cap'' long_unsigned_int,
      Field ''edac_cap'' long_unsigned_int,
      Field ''scrub_cap'' long_unsigned_int,
      Field ''scrub_mode'' enum_scrub_type,
      Field ''set_sdram_scrub_rate'' (CPtr ''int (struct mem_ctl_info *, u32)''),
      Field ''get_sdram_scrub_rate'' (CPtr ''int (struct mem_ctl_info *)''),
      Field ''edac_check'' (CPtr ''void (struct mem_ctl_info *)''),
      Field ''ctl_page_to_phys'' (CPtr ''long unsigned int (struct mem_ctl_info *, long unsigned int)''),
      Field ''mc_idx'' c_int,
      Field ''csrows'' (CPtr ''struct csrow_info *''),
      Field ''nr_csrows'' unsigned_int,
      Field ''num_cschannel'' unsigned_int,
      Field ''n_layers'' unsigned_int,
      Field ''layers'' (CPtr ''struct edac_mc_layer''),
      Field ''csbased'' bool,
      Field ''tot_dimms'' unsigned_int,
      Field ''dimms'' (CPtr ''struct dimm_info *''),
      Field ''pdev'' (CPtr ''struct device''),
      Field ''mod_name'' (CPtr ''const char''),
      Field ''ctl_name'' (CPtr ''const char''),
      Field ''dev_name'' (CPtr ''const char''),
      Field ''pvt_info'' (CPtr ''void''),
      Field ''start_time'' long_unsigned_int,
      Field ''ce_noinfo_count'' u32,
      Field ''ue_noinfo_count'' u32,
      Field ''ue_mc'' u32,
      Field ''ce_mc'' u32,
      Field ''complete'' struct_completion,
      Field ''mc_driver_sysfs_attributes'' (CPtr ''const struct mcidev_sysfs_attribute''),
      Field ''work'' struct_delayed_work,
      Field ''error_desc'' struct_edac_raw_error_desc,
      Field ''op_state'' c_int,
      Field ''debugfs'' (CPtr ''struct dentry''),
      Field ''fake_inject_layer'' (CArr 3 u8),
      Field ''fake_inject_ue'' bool,
      Field ''fake_inject_count'' u16]"

definition struct_mr_mfc :: cty where
  "struct_mr_mfc = CStruct ''mr_mfc'' False
     [Field ''mnode'' struct_rhlist_head,
      Field ''mfc_parent'' short_unsigned_int,
      Field ''mfc_flags'' c_int,
      Field ''mfc_un'' (CUnion [] False
        [Field ''unres'' (CStruct [] False
           [Field ''expires'' long_unsigned_int,
            Field ''unresolved'' struct_sk_buff_head]),
         Field ''res'' (CStruct [] False
           [Field ''last_assert'' long_unsigned_int,
            Field ''minvif'' c_int,
            Field ''maxvif'' c_int,
            Field ''bytes'' atomic_long_t,
            Field ''pkt'' atomic_long_t,
            Field ''wrong_if'' atomic_long_t,
            Field ''lastuse'' long_unsigned_int,
            Field ''ttls'' (CArr 32 unsigned_char),
            Field ''refcount'' refcount_t])]),
      Field ''list'' struct_list_head,
      Field ''rcu'' struct_callback_head,
      Field ''free'' (CPtr ''void (struct callback_head *)'')]"

definition struct_vma_munmap_struct :: cty where
  "struct_vma_munmap_struct = CStruct ''vma_munmap_struct'' False
     [Field ''vmi'' (CPtr ''struct vma_iterator''),
      Field ''vma'' (CPtr ''struct vm_area_struct''),
      Field ''prev'' (CPtr ''struct vm_area_struct''),
      Field ''next'' (CPtr ''struct vm_area_struct''),
      Field ''uf'' (CPtr ''struct list_head''),
      Field ''start'' long_unsigned_int,
      Field ''end'' long_unsigned_int,
      Field ''unmap_start'' long_unsigned_int,
      Field ''unmap_end'' long_unsigned_int,
      Field ''vma_count'' c_int,
      Field ''unlock'' bool,
      Field ''clear_ptes'' bool,
      Field ''nr_pages'' long_unsigned_int,
      Field ''locked_vm'' long_unsigned_int,
      Field ''nr_accounted'' long_unsigned_int,
      Field ''exec_vm'' long_unsigned_int,
      Field ''stack_vm'' long_unsigned_int,
      Field ''data_vm'' long_unsigned_int]"

definition enum_maple_status :: cty where
  "enum_maple_status = CEnum 4
     [(''ma_active'', 0), (''ma_start'', 1), (''ma_root'', 2), (''ma_none'', 3),
      (''ma_pause'', 4), (''ma_overflow'', 5), (''ma_underflow'', 6), (''ma_error'', 7)]"

definition enum_store_type :: cty where
  "enum_store_type = CEnum 4
     [(''wr_invalid'', 0), (''wr_new_root'', 1), (''wr_store_root'', 2), (''wr_exact_fit'', 3),
      (''wr_spanning_store'', 4), (''wr_split_store'', 5), (''wr_rebalance'', 6),
      (''wr_append'', 7), (''wr_node_store'', 8), (''wr_slot_store'', 9)]"

definition struct_ma_state :: cty where
  "struct_ma_state = CStruct ''ma_state'' False
     [Field ''tree'' (CPtr ''struct maple_tree''),
      Field ''index'' long_unsigned_int,
      Field ''last'' long_unsigned_int,
      Field ''node'' (CPtr ''struct maple_enode''),
      Field ''min'' long_unsigned_int,
      Field ''max'' long_unsigned_int,
      Field ''sheaf'' (CPtr ''struct slab_sheaf''),
      Field ''alloc'' (CPtr ''struct maple_node''),
      Field ''node_request'' long_unsigned_int,
      Field ''status'' enum_maple_status,
      Field ''depth'' unsigned_char,
      Field ''offset'' unsigned_char,
      Field ''mas_flags'' unsigned_char,
      Field ''end'' unsigned_char,
      Field ''store_type'' enum_store_type]"

definition struct_mmap_state :: cty where
  "struct_mmap_state = CStruct ''mmap_state'' False
     [Field ''mm'' (CPtr ''struct mm_struct''),
      Field ''vmi'' (CPtr ''struct vma_iterator''),
      Field ''addr'' long_unsigned_int,
      Field ''end'' long_unsigned_int,
      Field ''pgoff'' long_unsigned_int,
      Field ''pglen'' long_unsigned_int,
      Field [] (CUnion [] False
        [Field ''vm_flags'' vm_flags_t,
         Field ''vma_flags'' vma_flags_t]),
      Field ''file'' (CPtr ''struct file''),
      Field ''page_prot'' pgprot_t,
      Field ''vm_ops'' (CPtr ''const struct vm_operations_struct''),
      Field ''vm_private_data'' (CPtr ''void''),
      Field ''charged'' long_unsigned_int,
      Field ''prev'' (CPtr ''struct vm_area_struct''),
      Field ''next'' (CPtr ''struct vm_area_struct''),
      Field ''vms'' struct_vma_munmap_struct,
      Field ''mas_detach'' struct_ma_state,
      Field ''mt_detach'' struct_maple_tree,
      BitField ''check_ksm_early'' bool 1,
      BitField ''hold_file_rmap_lock'' bool 1,
      BitField ''file_doesnt_need_get'' bool 1]"

definition struct_mmc_ext_csd :: cty where
  "struct_mmc_ext_csd = CStruct ''mmc_ext_csd'' False
     [Field ''rev'' u8,
      Field ''erase_group_def'' u8,
      Field ''sec_feature_support'' u8,
      Field ''rel_sectors'' u8,
      Field ''rel_param'' u8,
      Field ''enhanced_rpmb_supported'' bool,
      Field ''part_config'' u8,
      Field ''cache_ctrl'' u8,
      Field ''rst_n_function'' u8,
      Field ''part_time'' unsigned_int,
      Field ''sa_timeout'' unsigned_int,
      Field ''generic_cmd6_time'' unsigned_int,
      Field ''power_off_longtime'' unsigned_int,
      Field ''power_off_notification'' u8,
      Field ''hs_max_dtr'' unsigned_int,
      Field ''hs200_max_dtr'' unsigned_int,
      Field ''sectors'' unsigned_int,
      Field ''hc_erase_size'' unsigned_int,
      Field ''hc_erase_timeout'' unsigned_int,
      Field ''sec_trim_mult'' unsigned_int,
      Field ''sec_erase_mult'' unsigned_int,
      Field ''trim_timeout'' unsigned_int,
      Field ''partition_setting_completed'' bool,
      Field ''enhanced_area_offset'' long_long_unsigned_int,
      Field ''enhanced_area_size'' unsigned_int,
      Field ''cache_size'' unsigned_int,
      Field ''hpi_en'' bool,
      Field ''hpi'' bool,
      Field ''hpi_cmd'' unsigned_int,
      Field ''bkops'' bool,
      Field ''man_bkops_en'' bool,
      Field ''auto_bkops_en'' bool,
      Field ''data_sector_size'' unsigned_int,
      Field ''data_tag_unit_size'' unsigned_int,
      Field ''boot_ro_lock'' unsigned_int,
      Field ''boot_ro_lockable'' bool,
      Field ''ffu_capable'' bool,
      Field ''cmdq_en'' bool,
      Field ''cmdq_support'' bool,
      Field ''cmdq_depth'' unsigned_int,
      Field ''fwrev'' (CArr 8 u8),
      Field ''raw_exception_status'' u8,
      Field ''raw_partition_support'' u8,
      Field ''raw_rpmb_size_mult'' u8,
      Field ''raw_erased_mem_count'' u8,
      Field ''strobe_support'' u8,
      Field ''raw_ext_csd_structure'' u8,
      Field ''raw_card_type'' u8,
      Field ''raw_driver_strength'' u8,
      Field ''out_of_int_time'' u8,
      Field ''raw_pwr_cl_52_195'' u8,
      Field ''raw_pwr_cl_26_195'' u8,
      Field ''raw_pwr_cl_52_360'' u8,
      Field ''raw_pwr_cl_26_360'' u8,
      Field ''raw_s_a_timeout'' u8,
      Field ''raw_hc_erase_gap_size'' u8,
      Field ''raw_erase_timeout_mult'' u8,
      Field ''raw_hc_erase_grp_size'' u8,
      Field ''raw_boot_mult'' u8,
      Field ''raw_sec_trim_mult'' u8,
      Field ''raw_sec_erase_mult'' u8,
      Field ''raw_sec_feature_support'' u8,
      Field ''raw_trim_mult'' u8,
      Field ''raw_pwr_cl_200_195'' u8,
      Field ''raw_pwr_cl_200_360'' u8,
      Field ''raw_pwr_cl_ddr_52_195'' u8,
      Field ''raw_pwr_cl_ddr_52_360'' u8,
      Field ''raw_pwr_cl_ddr_200_360'' u8,
      Field ''raw_bkops_status'' u8,
      Field ''raw_sectors'' (CArr 4 u8),
      Field ''pre_eol_info'' u8,
      Field ''device_life_time_est_typ_a'' u8,
      Field ''device_life_time_est_typ_b'' u8,
      Field ''feature_support'' unsigned_int]"

definition struct_sd_uhs2_config :: cty where
  "struct_sd_uhs2_config = CStruct ''sd_uhs2_config'' False
     [Field ''node_id'' u32,
      Field ''n_fcu'' u32,
      Field ''maxblk_len'' u32,
      Field ''n_lanes'' u8,
      Field ''dadr_len'' u8,
      Field ''app_type'' u8,
      Field ''phy_minor_rev'' u8,
      Field ''phy_major_rev'' u8,
      Field ''can_hibernate'' u8,
      Field ''n_lss_sync'' u8,
      Field ''n_lss_dir'' u8,
      Field ''link_minor_rev'' u8,
      Field ''link_major_rev'' u8,
      Field ''dev_type'' u8,
      Field ''n_data_gap'' u8,
      Field ''n_fcu_set'' u32,
      Field ''maxblk_len_set'' u32,
      Field ''n_lanes_set'' u8,
      Field ''speed_range_set'' u8,
      Field ''n_lss_sync_set'' u8,
      Field ''n_lss_dir_set'' u8,
      Field ''n_data_gap_set'' u8,
      Field ''max_retry_set'' u8]"

definition struct_mmc_cid :: cty where
  "struct_mmc_cid = CStruct ''mmc_cid'' False
     [Field ''manfid'' unsigned_int,
      Field ''prod_name'' (CArr 8 c_char),
      Field ''prv'' unsigned_char,
      Field ''serial'' unsigned_int,
      Field ''oemid'' short_unsigned_int,
      Field ''year'' short_unsigned_int,
      Field ''hwrev'' unsigned_char,
      Field ''fwrev'' unsigned_char,
      Field ''month'' unsigned_char]"

definition struct_mmc_csd :: cty where
  "struct_mmc_csd = CStruct ''mmc_csd'' False
     [Field ''structure'' unsigned_char,
      Field ''mmca_vsn'' unsigned_char,
      Field ''cmdclass'' short_unsigned_int,
      Field ''taac_clks'' short_unsigned_int,
      Field ''taac_ns'' unsigned_int,
      Field ''c_size'' unsigned_int,
      Field ''r2w_factor'' unsigned_int,
      Field ''max_dtr'' unsigned_int,
      Field ''erase_size'' unsigned_int,
      Field ''wp_grp_size'' unsigned_int,
      Field ''read_blkbits'' unsigned_int,
      Field ''write_blkbits'' unsigned_int,
      Field ''capacity'' sector_t,
      BitField ''read_partial'' unsigned_int 1,
      BitField ''read_misalign'' unsigned_int 1,
      BitField ''write_partial'' unsigned_int 1,
      BitField ''write_misalign'' unsigned_int 1,
      BitField ''dsr_imp'' unsigned_int 1]"

definition struct_sd_scr :: cty where
  "struct_sd_scr = CStruct ''sd_scr'' False
     [Field ''sda_vsn'' unsigned_char,
      Field ''sda_spec3'' unsigned_char,
      Field ''sda_spec4'' unsigned_char,
      Field ''sda_specx'' unsigned_char,
      Field ''bus_widths'' unsigned_char,
      Field ''cmds'' unsigned_char]"

definition struct_sd_ssr :: cty where
  "struct_sd_ssr = CStruct ''sd_ssr'' False
     [Field ''au'' unsigned_int,
      Field ''erase_timeout'' unsigned_int,
      Field ''erase_offset'' unsigned_int]"

definition struct_sd_switch_caps :: cty where
  "struct_sd_switch_caps = CStruct ''sd_switch_caps'' False
     [Field ''hs_max_dtr'' unsigned_int,
      Field ''uhs_max_dtr'' unsigned_int,
      Field ''sd3_bus_mode'' unsigned_int,
      Field ''sd3_drv_type'' unsigned_int,
      Field ''sd3_curr_limit'' unsigned_int]"

definition struct_sd_ext_reg :: cty where
  "struct_sd_ext_reg = CStruct ''sd_ext_reg'' False
     [Field ''fno'' u8,
      Field ''page'' u8,
      Field ''offset'' u16,
      Field ''rev'' u8,
      Field ''feature_enabled'' u8,
      Field ''feature_support'' u8]"

definition struct_sdio_cccr :: cty where
  "struct_sdio_cccr = CStruct ''sdio_cccr'' False
     [Field ''sdio_vsn'' unsigned_int,
      Field ''sd_vsn'' unsigned_int,
      BitField ''multi_block'' unsigned_int 1,
      BitField ''low_speed'' unsigned_int 1,
      BitField ''wide_bus'' unsigned_int 1,
      BitField ''high_power'' unsigned_int 1,
      BitField ''high_speed'' unsigned_int 1,
      BitField ''disable_cd'' unsigned_int 1,
      BitField ''enable_async_irq'' unsigned_int 1]"

definition struct_sdio_cis :: cty where
  "struct_sdio_cis = CStruct ''sdio_cis'' False
     [Field ''vendor'' short_unsigned_int,
      Field ''device'' short_unsigned_int,
      Field ''blksize'' short_unsigned_int,
      Field ''max_dtr'' unsigned_int]"

definition struct_mmc_part :: cty where
  "struct_mmc_part = CStruct ''mmc_part'' False
     [Field ''size'' u64,
      Field ''part_cfg'' unsigned_int,
      Field ''name'' (CArr 20 c_char),
      Field ''force_ro'' bool,
      Field ''area_type'' unsigned_int]"

definition struct_mmc_card :: cty where
  "struct_mmc_card = CStruct ''mmc_card'' False
     [Field ''host'' (CPtr ''struct mmc_host''),
      Field ''dev'' struct_device,
      Field ''ocr'' u32,
      Field ''rca'' unsigned_int,
      Field ''type'' unsigned_int,
      Field ''state'' unsigned_int,
      Field ''quirks'' unsigned_int,
      Field ''quirk_max_rate'' unsigned_int,
      Field ''written_flag'' bool,
      Field ''reenable_cmdq'' bool,
      Field ''erase_size'' unsigned_int,
      Field ''erase_shift'' unsigned_int,
      Field ''pref_erase'' unsigned_int,
      Field ''eg_boundary'' unsigned_int,
      Field ''erase_arg'' unsigned_int,
      Field ''erased_byte'' u8,
      Field ''wp_grp_size'' unsigned_int,
      Field ''raw_cid'' (CArr 4 u32),
      Field ''raw_csd'' (CArr 4 u32),
      Field ''raw_scr'' (CArr 2 u32),
      Field ''raw_ssr'' (CArr 16 u32),
      Field ''cid'' struct_mmc_cid,
      Field ''csd'' struct_mmc_csd,
      Field ''ext_csd'' struct_mmc_ext_csd,
      Field ''scr'' struct_sd_scr,
      Field ''ssr'' struct_sd_ssr,
      Field ''sw_caps'' struct_sd_switch_caps,
      Field ''ext_power'' struct_sd_ext_reg,
      Field ''ext_perf'' struct_sd_ext_reg,
      Field ''uhs2_config'' struct_sd_uhs2_config,
      Field ''sdio_funcs'' unsigned_int,
      Field ''sdio_funcs_probed'' atomic_t,
      Field ''cccr'' struct_sdio_cccr,
      Field ''cis'' struct_sdio_cis,
      Field ''sdio_func'' (CArr 7 (CPtr ''struct sdio_func'')),
      Field ''sdio_single_irq'' (CPtr ''struct sdio_func''),
      Field ''major_rev'' u8,
      Field ''minor_rev'' u8,
      Field ''num_info'' unsigned_int,
      Field ''info'' (CPtr ''const char *''),
      Field ''tuples'' (CPtr ''struct sdio_func_tuple''),
      Field ''sd_bus_speed'' unsigned_int,
      Field ''mmc_avail_type'' unsigned_int,
      Field ''drive_strength'' unsigned_int,
      Field ''debugfs_root'' (CPtr ''struct dentry''),
      Field ''part'' (CArr 7 struct_mmc_part),
      Field ''nr_parts'' unsigned_int,
      Field ''complete_wq'' (CPtr ''struct workqueue_struct'')]"

definition struct_sd_uhs2_caps :: cty where
  "struct_sd_uhs2_caps = CStruct ''sd_uhs2_caps'' False
     [Field ''dap'' u32,
      Field ''gap'' u32,
      Field ''group_desc'' u32,
      Field ''maxblk_len'' u32,
      Field ''n_fcu'' u32,
      Field ''n_lanes'' u8,
      Field ''addr64'' u8,
      Field ''card_type'' u8,
      Field ''phy_rev'' u8,
      Field ''speed_range'' u8,
      Field ''n_lss_sync'' u8,
      Field ''n_lss_dir'' u8,
      Field ''link_rev'' u8,
      Field ''host_type'' u8,
      Field ''n_data_gap'' u8,
      Field ''maxblk_len_set'' u32,
      Field ''n_fcu_set'' u32,
      Field ''n_lanes_set'' u8,
      Field ''n_lss_sync_set'' u8,
      Field ''n_lss_dir_set'' u8,
      Field ''n_data_gap_set'' u8,
      Field ''max_retry_set'' u8]"

definition mmc_pm_flag_t :: cty where [layout_simps]:
  "mmc_pm_flag_t = unsigned_int"

definition struct_mmc_ios :: cty where
  "struct_mmc_ios = CStruct ''mmc_ios'' False
     [Field ''clock'' unsigned_int,
      Field ''vdd'' short_unsigned_int,
      Field ''power_delay_ms'' unsigned_int,
      Field ''bus_mode'' unsigned_char,
      Field ''chip_select'' unsigned_char,
      Field ''power_mode'' unsigned_char,
      Field ''bus_width'' unsigned_char,
      Field ''timing'' unsigned_char,
      Field ''signal_voltage'' unsigned_char,
      Field ''vqmmc2_voltage'' unsigned_char,
      Field ''drv_type'' unsigned_char,
      Field ''enhanced_strobe'' bool]"

definition struct_mmc_ctx :: cty where
  "struct_mmc_ctx = CStruct ''mmc_ctx'' False
     [Field ''task'' (CPtr ''struct task_struct'')]"

definition struct_mmc_slot :: cty where
  "struct_mmc_slot = CStruct ''mmc_slot'' False
     [Field ''cd_irq'' c_int,
      Field ''cd_wake_enabled'' bool,
      Field ''handler_priv'' (CPtr ''void'')]"

definition struct_mmc_supply :: cty where
  "struct_mmc_supply = CStruct ''mmc_supply'' False
     [Field ''vmmc'' (CPtr ''struct regulator''),
      Field ''vqmmc'' (CPtr ''struct regulator''),
      Field ''vqmmc2'' (CPtr ''struct regulator''),
      Field ''vmmc_nb'' struct_notifier_block,
      Field ''uv_work'' struct_work_struct]"

definition struct_mmc_host :: cty where
  "struct_mmc_host = CStruct ''mmc_host'' False
     [Field ''parent'' (CPtr ''struct device''),
      Field ''class_dev'' struct_device,
      Field ''index'' c_int,
      Field ''ops'' (CPtr ''const struct mmc_host_ops''),
      Field ''pwrseq'' (CPtr ''struct mmc_pwrseq''),
      Field ''f_min'' unsigned_int,
      Field ''f_max'' unsigned_int,
      Field ''f_init'' unsigned_int,
      Field ''ocr_avail'' u32,
      Field ''ocr_avail_sdio'' u32,
      Field ''ocr_avail_sd'' u32,
      Field ''ocr_avail_mmc'' u32,
      Field ''ws'' (CPtr ''struct wakeup_source''),
      Field ''max_current_330'' u32,
      Field ''max_current_300'' u32,
      Field ''max_current_180'' u32,
      Field ''caps'' u32,
      Field ''caps2'' u32,
      Field ''uhs2_sd_tran'' bool,
      Field ''uhs2_app_cmd'' bool,
      Field ''uhs2_caps'' struct_sd_uhs2_caps,
      Field ''fixed_drv_type'' c_int,
      Field ''pm_caps'' mmc_pm_flag_t,
      Field ''max_seg_size'' unsigned_int,
      Field ''max_segs'' short_unsigned_int,
      Field ''unused'' short_unsigned_int,
      Field ''max_req_size'' unsigned_int,
      Field ''max_blk_size'' unsigned_int,
      Field ''max_blk_count'' unsigned_int,
      Field ''max_busy_timeout'' unsigned_int,
      Field ''lock'' spinlock_t,
      Field ''ios'' struct_mmc_ios,
      Field ''claimed'' bool,
      BitField ''use_spi_crc'' unsigned_int 1,
      BitField ''doing_init_tune'' unsigned_int 1,
      BitField ''doing_retune'' unsigned_int 1,
      BitField ''retune_crc_disable'' unsigned_int 1,
      BitField ''can_dma_map_merge'' unsigned_int 1,
      BitField ''vqmmc_enabled'' unsigned_int 1,
      BitField ''undervoltage'' unsigned_int 1,
      Field ''rescan_disable'' c_int,
      Field ''rescan_entered'' c_int,
      Field ''can_retune'' bool,
      Field ''retune_now'' bool,
      Field ''retune_paused'' bool,
      Field ''need_retune'' c_int,
      Field ''hold_retune'' c_int,
      Field ''retune_period'' unsigned_int,
      Field ''retune_timer'' struct_timer_list,
      Field ''trigger_card_event'' bool,
      Field ''card'' (CPtr ''struct mmc_card''),
      Field ''wq'' wait_queue_head_t,
      Field ''claimer'' (CPtr ''struct mmc_ctx''),
      Field ''claim_cnt'' c_int,
      Field ''default_ctx'' struct_mmc_ctx,
      Field ''detect'' struct_delayed_work,
      Field ''detect_change'' c_int,
      Field ''slot'' struct_mmc_slot,
      Field ''bus_ops'' (CPtr ''const struct mmc_bus_ops''),
      Field ''sdio_irqs'' unsigned_int,
      Field ''sdio_irq_thread'' (CPtr ''struct task_struct''),
      Field ''sdio_irq_work'' struct_work_struct,
      Field ''sdio_irq_pending'' bool,
      Field ''sdio_irq_thread_abort'' atomic_t,
      Field ''pm_flags'' mmc_pm_flag_t,
      Field ''led'' (CPtr ''struct led_trigger''),
      Field ''regulator_enabled'' bool,
      Field ''supply'' struct_mmc_supply,
      Field ''debugfs_root'' (CPtr ''struct dentry''),
      Field ''ongoing_mrq'' (CPtr ''struct mmc_request''),
      Field ''actual_clock'' unsigned_int,
      Field ''slotno'' unsigned_int,
      Field ''dsr_req'' c_int,
      Field ''dsr'' u32,
      Field ''cqe_ops'' (CPtr ''const struct mmc_cqe_ops''),
      Field ''cqe_private'' (CPtr ''void''),
      Field ''cqe_qdepth'' c_int,
      Field ''cqe_enabled'' bool,
      Field ''cqe_on'' bool,
      Field ''crypto_profile'' struct_blk_crypto_profile,
      Field ''hsq_enabled'' bool,
      Field ''hsq_depth'' c_int,
      Field ''err_stats'' (CArr 15 u32),
      Field ''max_sd_hs_hz'' u32,
      BitField [] c_long 64,
      BitField [] c_long 64,
      BitField [] c_long 64,
      BitField [] c_long 64,
      Field ''private'' (CArr 0 long_unsigned_int)]"

definition struct_mmc_host_ops :: cty where
  "struct_mmc_host_ops = CStruct ''mmc_host_ops'' False
     [Field ''post_req'' (CPtr ''void (struct mmc_host *, struct mmc_request *, int)''),
      Field ''pre_req'' (CPtr ''void (struct mmc_host *, struct mmc_request *)''),
      Field ''request'' (CPtr ''void (struct mmc_host *, struct mmc_request *)''),
      Field ''request_atomic'' (CPtr ''int (struct mmc_host *, struct mmc_request *)''),
      Field ''set_ios'' (CPtr ''void (struct mmc_host *, struct mmc_ios *)''),
      Field ''get_ro'' (CPtr ''int (struct mmc_host *)''),
      Field ''get_cd'' (CPtr ''int (struct mmc_host *)''),
      Field ''enable_sdio_irq'' (CPtr ''void (struct mmc_host *, int)''),
      Field ''ack_sdio_irq'' (CPtr ''void (struct mmc_host *)''),
      Field ''init_card'' (CPtr ''void (struct mmc_host *, struct mmc_card *)''),
      Field ''start_signal_voltage_switch'' (CPtr ''int (struct mmc_host *, struct mmc_ios *)''),
      Field ''card_busy'' (CPtr ''int (struct mmc_host *)''),
      Field ''execute_tuning'' (CPtr ''int (struct mmc_host *, u32)''),
      Field ''prepare_hs400_tuning'' (CPtr ''int (struct mmc_host *, struct mmc_ios *)''),
      Field ''execute_hs400_tuning'' (CPtr ''int (struct mmc_host *, struct mmc_card *)''),
      Field ''prepare_sd_hs_tuning'' (CPtr ''int (struct mmc_host *, struct mmc_card *)''),
      Field ''execute_sd_hs_tuning'' (CPtr ''int (struct mmc_host *, struct mmc_card *)''),
      Field ''hs400_prepare_ddr'' (CPtr ''int (struct mmc_host *)''),
      Field ''hs400_downgrade'' (CPtr ''void (struct mmc_host *)''),
      Field ''hs400_complete'' (CPtr ''void (struct mmc_host *)''),
      Field ''hs400_enhanced_strobe'' (CPtr ''void (struct mmc_host *, struct mmc_ios *)''),
      Field ''select_drive_strength'' (CPtr ''int (struct mmc_card *, unsigned int, int, int, int *)''),
      Field ''card_hw_reset'' (CPtr ''void (struct mmc_host *)''),
      Field ''card_event'' (CPtr ''void (struct mmc_host *)''),
      Field ''multi_io_quirk'' (CPtr ''int (struct mmc_card *, unsigned int, int)''),
      Field ''init_sd_express'' (CPtr ''int (struct mmc_host *, struct mmc_ios *)''),
      Field ''uhs2_control'' (CPtr ''int (struct mmc_host *, enum sd_uhs2_operation)'')]"

definition struct_mptcp_info :: cty where
  "struct_mptcp_info = CStruct ''mptcp_info'' False
     [Field ''mptcpi_subflows'' c__u8,
      Field ''mptcpi_add_addr_signal'' c__u8,
      Field ''mptcpi_add_addr_accepted'' c__u8,
      Field ''mptcpi_subflows_max'' c__u8,
      Field ''mptcpi_add_addr_signal_max'' c__u8,
      Field ''mptcpi_add_addr_accepted_max'' c__u8,
      Field ''mptcpi_flags'' c__u32,
      Field ''mptcpi_token'' c__u32,
      Field ''mptcpi_write_seq'' c__u64,
      Field ''mptcpi_snd_una'' c__u64,
      Field ''mptcpi_rcv_nxt'' c__u64,
      Field ''mptcpi_local_addr_used'' c__u8,
      Field ''mptcpi_local_addr_max'' c__u8,
      Field ''mptcpi_csum_enabled'' c__u8,
      Field ''mptcpi_retransmits'' c__u32,
      Field ''mptcpi_bytes_retrans'' c__u64,
      Field ''mptcpi_bytes_sent'' c__u64,
      Field ''mptcpi_bytes_received'' c__u64,
      Field ''mptcpi_bytes_acked'' c__u64,
      Field ''mptcpi_subflows_total'' c__u8,
      Field ''mptcpi_endp_laminar_max'' c__u8,
      Field ''mptcpi_endp_fullmesh_max'' c__u8,
      Field ''reserved'' c__u8,
      Field ''mptcpi_last_data_sent'' c__u32,
      Field ''mptcpi_last_data_recv'' c__u32,
      Field ''mptcpi_last_ack_recv'' c__u32]"

definition struct_mptcp_options_received :: cty where
  "struct_mptcp_options_received = CStruct ''mptcp_options_received'' False
     [Field ''sndr_key'' u64,
      Field ''rcvr_key'' u64,
      Field ''data_ack'' u64,
      Field ''data_seq'' u64,
      Field ''subflow_seq'' u32,
      Field ''data_len'' u16,
      Field ''csum'' c__sum16,
      Field [] (CUnion [] False
        [Field [] (CStruct [] False
           [Field ''suboptions'' u16,
            BitField ''use_map'' u16 1,
            BitField ''dsn64'' u16 1,
            BitField ''data_fin'' u16 1,
            BitField ''use_ack'' u16 1,
            BitField ''ack64'' u16 1,
            BitField ''mpc_map'' u16 1,
            BitField ''reset_reason'' u16 4,
            BitField ''reset_transient'' u16 1,
            BitField ''echo'' u16 1,
            BitField ''backup'' u16 1,
            BitField ''deny_join_id0'' u16 1,
            BitField ''__unused'' u16 2]),
         Field ''status'' (CStruct [] False
           [Field ''suboptions'' u16,
            BitField ''use_map'' u16 1,
            BitField ''dsn64'' u16 1,
            BitField ''data_fin'' u16 1,
            BitField ''use_ack'' u16 1,
            BitField ''ack64'' u16 1,
            BitField ''mpc_map'' u16 1,
            BitField ''reset_reason'' u16 4,
            BitField ''reset_transient'' u16 1,
            BitField ''echo'' u16 1,
            BitField ''backup'' u16 1,
            BitField ''deny_join_id0'' u16 1,
            BitField ''__unused'' u16 2])]),
      Field ''join_id'' u8,
      Field ''token'' u32,
      Field ''nonce'' u32,
      Field ''thmac'' u64,
      Field ''hmac'' (CArr 20 u8),
      Field ''addr'' struct_mptcp_addr_info,
      Field ''rm_list'' struct_mptcp_rm_list,
      Field ''ahmac'' u64,
      Field ''fail_seq'' u64]"

definition struct_mptcp_ext :: cty where
  "struct_mptcp_ext = CStruct ''mptcp_ext'' False
     [Field [] (CUnion [] False
        [Field ''data_ack'' u64,
         Field ''data_ack32'' u32]),
      Field ''data_seq'' u64,
      Field ''subflow_seq'' u32,
      Field ''data_len'' u16,
      Field ''csum'' c__sum16,
      BitField ''use_map'' u8 1,
      BitField ''dsn64'' u8 1,
      BitField ''data_fin'' u8 1,
      BitField ''use_ack'' u8 1,
      BitField ''ack64'' u8 1,
      BitField ''mpc_map'' u8 1,
      BitField ''frozen'' u8 1,
      BitField ''reset_transient'' u8 1,
      BitField ''reset_reason'' u8 4,
      BitField ''csum_reqd'' u8 1,
      BitField ''infinite_map'' u8 1]"

definition struct_mptcp_out_options :: cty where
  "struct_mptcp_out_options = CStruct ''mptcp_out_options'' False
     [Field ''suboptions'' u16,
      Field ''rm_list'' struct_mptcp_rm_list,
      Field ''join_id'' u8,
      Field ''backup'' u8,
      BitField ''reset_reason'' u8 4,
      BitField ''reset_transient'' u8 1,
      BitField ''csum_reqd'' u8 1,
      BitField ''allow_join_id0'' u8 1,
      Field [] (CUnion [] False
        [Field [] (CStruct [] False
           [Field ''sndr_key'' u64,
            Field ''rcvr_key'' u64,
            Field ''data_seq'' u64,
            Field ''subflow_seq'' u32,
            Field ''data_len'' u16,
            Field ''csum'' c__sum16]),
         Field [] (CStruct [] False
           [Field ''addr'' struct_mptcp_addr_info,
            Field ''ahmac'' u64]),
         Field [] (CStruct [] False
           [Field ''ext_copy'' struct_mptcp_ext,
            Field ''fail_seq'' u64]),
         Field [] (CStruct [] False
           [Field ''nonce'' u32,
            Field ''token'' u32,
            Field ''thmac'' u64,
            Field ''hmac'' (CArr 20 u8)])])]"

definition struct_mptcp_subflow_context :: cty where
  "struct_mptcp_subflow_context = CStruct ''mptcp_subflow_context'' False
     [Field ''node'' struct_list_head,
      Field [] (CUnion [] False
        [Field [] (CStruct [] False
           [Field ''avg_pacing_rate'' long_unsigned_int,
            Field ''local_key'' u64,
            Field ''remote_key'' u64,
            Field ''idsn'' u64,
            Field ''map_seq'' u64,
            Field ''rcv_wnd_sent'' u64,
            Field ''snd_isn'' u32,
            Field ''token'' u32,
            Field ''rel_write_seq'' u32,
            Field ''map_subflow_seq'' u32,
            Field ''ssn_offset'' u32,
            Field ''map_data_len'' u32,
            Field ''map_data_csum'' c__wsum,
            Field ''map_csum_len'' u32,
            Field ''prev_rtt_seq'' u32,
            BitField ''request_mptcp'' u32 1,
            BitField ''request_join'' u32 1,
            BitField ''request_bkup'' u32 1,
            BitField ''mp_capable'' u32 1,
            BitField ''mp_join'' u32 1,
            BitField ''pm_notified'' u32 1,
            BitField ''conn_finished'' u32 1,
            BitField ''map_valid'' u32 1,
            BitField ''map_csum_reqd'' u32 1,
            BitField ''map_data_fin'' u32 1,
            BitField ''mpc_map'' u32 1,
            BitField ''backup'' u32 1,
            BitField ''send_mp_prio'' u32 1,
            BitField ''send_mp_fail'' u32 1,
            BitField ''send_fastclose'' u32 1,
            BitField ''send_infinite_map'' u32 1,
            BitField ''remote_key_valid'' u32 1,
            BitField ''disposable'' u32 1,
            BitField ''closing'' u32 1,
            BitField ''stale'' u32 1,
            BitField ''valid_csum_seen'' u32 1,
            BitField ''is_mptfo'' u32 1,
            BitField ''close_event_done'' u32 1,
            BitField ''mpc_drop'' u32 1,
            BitField ''__unused'' u32 8,
            Field ''data_avail'' bool,
            Field ''scheduled'' bool,
            Field ''pm_listener'' bool,
            Field ''fully_established'' bool,
            Field ''lent_mem_frag'' u32,
            Field ''remote_nonce'' u32,
            Field ''thmac'' u64,
            Field ''local_nonce'' u32,
            Field ''remote_token'' u32,
            Field [] (CUnion [] False
              [Field ''hmac'' (CArr 20 u8),
               Field ''iasn'' u64]),
            Field ''local_id'' s16,
            Field ''remote_id'' u8,
            BitField ''reset_seen'' u8 1,
            BitField ''reset_transient'' u8 1,
            BitField ''reset_reason'' u8 4,
            Field ''stale_count'' u8,
            Field ''subflow_id'' u32,
            Field ''delegated_status'' c_long,
            Field ''fail_tout'' long_unsigned_int]),
         Field ''reset'' (CStruct [] False
           [Field ''avg_pacing_rate'' long_unsigned_int,
            Field ''local_key'' u64,
            Field ''remote_key'' u64,
            Field ''idsn'' u64,
            Field ''map_seq'' u64,
            Field ''rcv_wnd_sent'' u64,
            Field ''snd_isn'' u32,
            Field ''token'' u32,
            Field ''rel_write_seq'' u32,
            Field ''map_subflow_seq'' u32,
            Field ''ssn_offset'' u32,
            Field ''map_data_len'' u32,
            Field ''map_data_csum'' c__wsum,
            Field ''map_csum_len'' u32,
            Field ''prev_rtt_seq'' u32,
            BitField ''request_mptcp'' u32 1,
            BitField ''request_join'' u32 1,
            BitField ''request_bkup'' u32 1,
            BitField ''mp_capable'' u32 1,
            BitField ''mp_join'' u32 1,
            BitField ''pm_notified'' u32 1,
            BitField ''conn_finished'' u32 1,
            BitField ''map_valid'' u32 1,
            BitField ''map_csum_reqd'' u32 1,
            BitField ''map_data_fin'' u32 1,
            BitField ''mpc_map'' u32 1,
            BitField ''backup'' u32 1,
            BitField ''send_mp_prio'' u32 1,
            BitField ''send_mp_fail'' u32 1,
            BitField ''send_fastclose'' u32 1,
            BitField ''send_infinite_map'' u32 1,
            BitField ''remote_key_valid'' u32 1,
            BitField ''disposable'' u32 1,
            BitField ''closing'' u32 1,
            BitField ''stale'' u32 1,
            BitField ''valid_csum_seen'' u32 1,
            BitField ''is_mptfo'' u32 1,
            BitField ''close_event_done'' u32 1,
            BitField ''mpc_drop'' u32 1,
            BitField ''__unused'' u32 8,
            Field ''data_avail'' bool,
            Field ''scheduled'' bool,
            Field ''pm_listener'' bool,
            Field ''fully_established'' bool,
            Field ''lent_mem_frag'' u32,
            Field ''remote_nonce'' u32,
            Field ''thmac'' u64,
            Field ''local_nonce'' u32,
            Field ''remote_token'' u32,
            Field [] (CUnion [] False
              [Field ''hmac'' (CArr 20 u8),
               Field ''iasn'' u64]),
            Field ''local_id'' s16,
            Field ''remote_id'' u8,
            BitField ''reset_seen'' u8 1,
            BitField ''reset_transient'' u8 1,
            BitField ''reset_reason'' u8 4,
            Field ''stale_count'' u8,
            Field ''subflow_id'' u32,
            Field ''delegated_status'' c_long,
            Field ''fail_tout'' long_unsigned_int])]),
      Field ''delegated_node'' struct_list_head,
      Field ''setsockopt_seq'' u32,
      Field ''stale_rcv_tstamp'' u32,
      Field ''cached_sndbuf'' c_int,
      Field ''tcp_sock'' (CPtr ''struct sock''),
      Field ''conn'' (CPtr ''struct sock''),
      Field ''icsk_af_ops'' (CPtr ''const struct inet_connection_sock_af_ops''),
      Field ''tcp_state_change'' (CPtr ''void (struct sock *)''),
      Field ''tcp_error_report'' (CPtr ''void (struct sock *)''),
      Field ''rcu'' struct_callback_head]"

definition struct_ms_hyperv_info :: cty where
  "struct_ms_hyperv_info = CStruct ''ms_hyperv_info'' False
     [Field ''features'' u32,
      Field ''priv_high'' u32,
      Field ''ext_features'' u32,
      Field ''misc_features'' u32,
      Field ''hints'' u32,
      Field ''nested_features'' u32,
      Field ''max_vp_index'' u32,
      Field ''max_lp_index'' u32,
      Field ''vtl'' u8,
      Field [] (CUnion [] False
        [Field ''isolation_config_a'' u32,
         Field [] (CStruct [] False
           [BitField ''paravisor_present'' u32 1,
            BitField ''reserved_a1'' u32 31])]),
      Field [] (CUnion [] False
        [Field ''isolation_config_b'' u32,
         Field [] (CStruct [] False
           [BitField ''cvm_type'' u32 4,
            BitField ''reserved_b1'' u32 1,
            BitField ''shared_gpa_boundary_active'' u32 1,
            BitField ''shared_gpa_boundary_bits'' u32 6,
            BitField ''reserved_b2'' u32 20])]),
      Field ''shared_gpa_boundary'' u64,
      Field ''msi_ext_dest_id'' bool,
      Field ''confidential_vmbus_available'' bool]"

definition struct_msdos_sb_info :: cty where
  "struct_msdos_sb_info = CStruct ''msdos_sb_info'' False
     [Field ''sec_per_clus'' short_unsigned_int,
      Field ''cluster_bits'' short_unsigned_int,
      Field ''cluster_size'' unsigned_int,
      Field ''fats'' unsigned_char,
      Field ''fat_bits'' unsigned_char,
      Field ''fat_start'' short_unsigned_int,
      Field ''fat_length'' long_unsigned_int,
      Field ''dir_start'' long_unsigned_int,
      Field ''dir_entries'' short_unsigned_int,
      Field ''data_start'' long_unsigned_int,
      Field ''max_cluster'' long_unsigned_int,
      Field ''root_cluster'' long_unsigned_int,
      Field ''fsinfo_sector'' long_unsigned_int,
      Field ''fat_lock'' struct_mutex,
      Field ''nfs_build_inode_lock'' struct_mutex,
      Field ''s_lock'' struct_mutex,
      Field ''prev_free'' unsigned_int,
      Field ''free_clusters'' unsigned_int,
      Field ''free_clus_valid'' unsigned_int,
      Field ''options'' struct_fat_mount_options,
      Field ''nls_disk'' (CPtr ''struct nls_table''),
      Field ''nls_io'' (CPtr ''struct nls_table''),
      Field ''dir_ops'' (CPtr ''const void''),
      Field ''dir_per_block'' c_int,
      Field ''dir_per_block_bits'' c_int,
      Field ''vol_id'' unsigned_int,
      Field ''fatent_shift'' c_int,
      Field ''fatent_ops'' (CPtr ''const struct fatent_operations''),
      Field ''fat_inode'' (CPtr ''struct inode''),
      Field ''fsinfo_inode'' (CPtr ''struct inode''),
      Field ''ratelimit'' struct_ratelimit_state,
      Field ''inode_hash_lock'' spinlock_t,
      Field ''inode_hashtable'' (CArr 256 struct_hlist_head),
      Field ''dir_hash_lock'' spinlock_t,
      Field ''dir_hashtable'' (CArr 256 struct_hlist_head),
      Field ''dirty'' unsigned_int,
      Field ''rcu'' struct_callback_head]"

definition struct_n_tty_data :: cty where
  "struct_n_tty_data = CStruct ''n_tty_data'' False
     [Field ''read_head'' size_t,
      Field ''commit_head'' size_t,
      Field ''canon_head'' size_t,
      Field ''echo_head'' size_t,
      Field ''echo_commit'' size_t,
      Field ''echo_mark'' size_t,
      Field ''char_map'' (CArr 4 long_unsigned_int),
      Field ''overrun_time'' long_unsigned_int,
      Field ''num_overrun'' unsigned_int,
      Field ''no_room'' bool,
      BitField ''lnext'' unsigned_char 1,
      BitField ''erasing'' unsigned_char 1,
      BitField ''raw'' unsigned_char 1,
      BitField ''real_raw'' unsigned_char 1,
      BitField ''icanon'' unsigned_char 1,
      BitField ''push'' unsigned_char 1,
      Field ''read_buf'' (CArr 4096 u8),
      Field ''read_flags'' (CArr 64 long_unsigned_int),
      Field ''echo_buf'' (CArr 4096 u8),
      Field ''read_tail'' size_t,
      Field ''line_start'' size_t,
      Field ''lookahead_count'' size_t,
      Field ''column'' unsigned_int,
      Field ''canon_column'' unsigned_int,
      Field ''echo_tail'' size_t,
      Field ''atomic_read_lock'' struct_mutex,
      Field ''output_lock'' struct_mutex]"

definition struct_napi_gro_cb :: cty where
  "struct_napi_gro_cb = CStruct ''napi_gro_cb'' False
     [Field [] (CUnion [] False
        [Field [] (CStruct [] False
           [Field ''frag0'' (CPtr ''void''),
            Field ''frag0_len'' unsigned_int]),
         Field [] (CStruct [] False
           [Field ''last'' (CPtr ''struct sk_buff''),
            Field ''age'' long_unsigned_int])]),
      Field ''data_offset'' c_int,
      Field ''flush'' u16,
      Field ''count'' u16,
      Field ''proto'' u16,
      Field ''pad'' u16,
      Field [] (CUnion [] False
        [Field [] (CStruct [] False
           [Field ''gro_remcsum_start'' u16,
            BitField ''same_flow'' u8 1,
            BitField ''encap_mark'' u8 1,
            BitField ''csum_valid'' u8 1,
            BitField ''csum_cnt'' u8 3,
            BitField ''free'' u8 2,
            BitField ''is_fou'' u8 1,
            BitField ''ip_fixedid'' u8 2,
            BitField ''recursion_counter'' u8 4,
            BitField ''is_flist'' u8 1]),
         Field ''zeroed'' (CStruct [] False
           [Field ''gro_remcsum_start'' u16,
            BitField ''same_flow'' u8 1,
            BitField ''encap_mark'' u8 1,
            BitField ''csum_valid'' u8 1,
            BitField ''csum_cnt'' u8 3,
            BitField ''free'' u8 2,
            BitField ''is_fou'' u8 1,
            BitField ''ip_fixedid'' u8 2,
            BitField ''recursion_counter'' u8 4,
            BitField ''is_flist'' u8 1])]),
      Field ''csum'' c__wsum,
      Field [] (CUnion [] False
        [Field [] (CStruct [] False
           [Field ''network_offset'' u16,
            Field ''inner_network_offset'' u16]),
         Field ''network_offsets'' (CArr 2 u16)])]"

definition struct_ncsi_channel_stats :: cty where
  "struct_ncsi_channel_stats = CStruct ''ncsi_channel_stats'' False
     [Field ''hnc_cnt'' u64,
      Field ''hnc_rx_bytes'' u64,
      Field ''hnc_tx_bytes'' u64,
      Field ''hnc_rx_uc_pkts'' u64,
      Field ''hnc_rx_mc_pkts'' u64,
      Field ''hnc_rx_bc_pkts'' u64,
      Field ''hnc_tx_uc_pkts'' u64,
      Field ''hnc_tx_mc_pkts'' u64,
      Field ''hnc_tx_bc_pkts'' u64,
      Field ''hnc_fcs_err'' u32,
      Field ''hnc_align_err'' u32,
      Field ''hnc_false_carrier'' u32,
      Field ''hnc_runt_pkts'' u32,
      Field ''hnc_jabber_pkts'' u32,
      Field ''hnc_rx_pause_xon'' u32,
      Field ''hnc_rx_pause_xoff'' u32,
      Field ''hnc_tx_pause_xon'' u32,
      Field ''hnc_tx_pause_xoff'' u32,
      Field ''hnc_tx_s_collision'' u32,
      Field ''hnc_tx_m_collision'' u32,
      Field ''hnc_l_collision'' u32,
      Field ''hnc_e_collision'' u32,
      Field ''hnc_rx_ctl_frames'' u32,
      Field ''hnc_rx_64_frames'' u32,
      Field ''hnc_rx_127_frames'' u32,
      Field ''hnc_rx_255_frames'' u32,
      Field ''hnc_rx_511_frames'' u32,
      Field ''hnc_rx_1023_frames'' u32,
      Field ''hnc_rx_1522_frames'' u32,
      Field ''hnc_rx_9022_frames'' u32,
      Field ''hnc_tx_64_frames'' u32,
      Field ''hnc_tx_127_frames'' u32,
      Field ''hnc_tx_255_frames'' u32,
      Field ''hnc_tx_511_frames'' u32,
      Field ''hnc_tx_1023_frames'' u32,
      Field ''hnc_tx_1522_frames'' u32,
      Field ''hnc_tx_9022_frames'' u32,
      Field ''hnc_rx_valid_bytes'' u64,
      Field ''hnc_rx_runt_pkts'' u32,
      Field ''hnc_rx_jabber_pkts'' u32,
      Field ''ncsi_rx_cmds'' u32,
      Field ''ncsi_dropped_cmds'' u32,
      Field ''ncsi_cmd_type_errs'' u32,
      Field ''ncsi_cmd_csum_errs'' u32,
      Field ''ncsi_rx_pkts'' u32,
      Field ''ncsi_tx_pkts'' u32,
      Field ''ncsi_tx_aen_pkts'' u32,
      Field ''pt_tx_pkts'' u32,
      Field ''pt_tx_dropped'' u32,
      Field ''pt_tx_channel_err'' u32,
      Field ''pt_tx_us_err'' u32,
      Field ''pt_rx_pkts'' u32,
      Field ''pt_rx_dropped'' u32,
      Field ''pt_rx_channel_err'' u32,
      Field ''pt_rx_us_err'' u32,
      Field ''pt_rx_os_err'' u32]"

definition struct_ncsi_dev :: cty where
  "struct_ncsi_dev = CStruct ''ncsi_dev'' False
     [Field ''state'' c_int,
      Field ''link_up'' c_int,
      Field ''dev'' (CPtr ''struct net_device''),
      Field ''handler'' (CPtr ''void (struct ncsi_dev *)'')]"

definition struct_nlmsghdr :: cty where
  "struct_nlmsghdr = CStruct ''nlmsghdr'' False
     [Field ''nlmsg_len'' c__u32,
      Field ''nlmsg_type'' c__u16,
      Field ''nlmsg_flags'' c__u16,
      Field ''nlmsg_seq'' c__u32,
      Field ''nlmsg_pid'' c__u32]"

definition struct_ncsi_request :: cty where
  "struct_ncsi_request = CStruct ''ncsi_request'' False
     [Field ''id'' unsigned_char,
      Field ''used'' bool,
      Field ''flags'' unsigned_int,
      Field ''ndp'' (CPtr ''struct ncsi_dev_priv''),
      Field ''cmd'' (CPtr ''struct sk_buff''),
      Field ''rsp'' (CPtr ''struct sk_buff''),
      Field ''timer'' struct_timer_list,
      Field ''enabled'' bool,
      Field ''snd_seq'' u32,
      Field ''snd_portid'' u32,
      Field ''nlhdr'' struct_nlmsghdr]"

definition struct_packet_type :: cty where
  "struct_packet_type = CStruct ''packet_type'' False
     [Field ''type'' c__be16,
      Field ''ignore_outgoing'' bool,
      Field ''dev'' (CPtr ''struct net_device''),
      Field ''dev_tracker'' netdevice_tracker,
      Field ''func'' (CPtr ''int (struct sk_buff *, struct net_device *, struct packet_type *, struct net_device *)''),
      Field ''list_func'' (CPtr ''void (struct list_head *, struct packet_type *, struct net_device *)''),
      Field ''id_match'' (CPtr ''bool (struct packet_type *, struct sock *)''),
      Field ''af_packet_net'' (CPtr ''struct net''),
      Field ''af_packet_priv'' (CPtr ''void''),
      Field ''list'' struct_list_head]"

definition struct_ncsi_dev_priv :: cty where
  "struct_ncsi_dev_priv = CStruct ''ncsi_dev_priv'' False
     [Field ''ndev'' struct_ncsi_dev,
      Field ''flags'' unsigned_int,
      Field ''gma_flag'' unsigned_int,
      Field ''pending_mac'' struct___kernel_sockaddr_storage,
      Field ''lock'' spinlock_t,
      Field ''package_probe_id'' unsigned_int,
      Field ''package_num'' unsigned_int,
      Field ''channel_probe_id'' unsigned_int,
      Field ''packages'' struct_list_head,
      Field ''hot_channel'' (CPtr ''struct ncsi_channel''),
      Field ''requests'' (CArr 256 struct_ncsi_request),
      Field ''request_id'' unsigned_int,
      Field ''pending_req_num'' unsigned_int,
      Field ''active_package'' (CPtr ''struct ncsi_package''),
      Field ''active_channel'' (CPtr ''struct ncsi_channel''),
      Field ''channel_queue'' struct_list_head,
      Field ''work'' struct_work_struct,
      Field ''ptype'' struct_packet_type,
      Field ''node'' struct_list_head,
      Field ''vlan_vids'' struct_list_head,
      Field ''multi_package'' bool,
      Field ''mlx_multi_host'' bool,
      Field ''package_whitelist'' u32,
      Field ''channel_count'' unsigned_char]"

definition struct_ncsi_pkt_hdr :: cty where
  "struct_ncsi_pkt_hdr = CStruct ''ncsi_pkt_hdr'' False
     [Field ''mc_id'' unsigned_char,
      Field ''revision'' unsigned_char,
      Field ''reserved'' unsigned_char,
      Field ''id'' unsigned_char,
      Field ''type'' unsigned_char,
      Field ''channel'' unsigned_char,
      Field ''length'' c__be16,
      Field ''reserved1'' (CArr 2 c__be32)]"

definition struct_ncsi_rsp_pkt_hdr :: cty where
  "struct_ncsi_rsp_pkt_hdr = CStruct ''ncsi_rsp_pkt_hdr'' False
     [Field ''common'' struct_ncsi_pkt_hdr,
      Field ''code'' c__be16,
      Field ''reason'' c__be16]"

definition struct_ncsi_rsp_gcps_pkt :: cty where
  "struct_ncsi_rsp_gcps_pkt = CStruct ''ncsi_rsp_gcps_pkt'' True
     [Field ''rsp'' struct_ncsi_rsp_pkt_hdr,
      Field ''cnt'' c__be64,
      Field ''rx_bytes'' c__be64,
      Field ''tx_bytes'' c__be64,
      Field ''rx_uc_pkts'' c__be64,
      Field ''rx_mc_pkts'' c__be64,
      Field ''rx_bc_pkts'' c__be64,
      Field ''tx_uc_pkts'' c__be64,
      Field ''tx_mc_pkts'' c__be64,
      Field ''tx_bc_pkts'' c__be64,
      Field ''fcs_err'' c__be32,
      Field ''align_err'' c__be32,
      Field ''false_carrier'' c__be32,
      Field ''runt_pkts'' c__be32,
      Field ''jabber_pkts'' c__be32,
      Field ''rx_pause_xon'' c__be32,
      Field ''rx_pause_xoff'' c__be32,
      Field ''tx_pause_xon'' c__be32,
      Field ''tx_pause_xoff'' c__be32,
      Field ''tx_s_collision'' c__be32,
      Field ''tx_m_collision'' c__be32,
      Field ''l_collision'' c__be32,
      Field ''e_collision'' c__be32,
      Field ''rx_ctl_frames'' c__be32,
      Field ''rx_64_frames'' c__be32,
      Field ''rx_127_frames'' c__be32,
      Field ''rx_255_frames'' c__be32,
      Field ''rx_511_frames'' c__be32,
      Field ''rx_1023_frames'' c__be32,
      Field ''rx_1522_frames'' c__be32,
      Field ''rx_9022_frames'' c__be32,
      Field ''tx_64_frames'' c__be32,
      Field ''tx_127_frames'' c__be32,
      Field ''tx_255_frames'' c__be32,
      Field ''tx_511_frames'' c__be32,
      Field ''tx_1023_frames'' c__be32,
      Field ''tx_1522_frames'' c__be32,
      Field ''tx_9022_frames'' c__be32,
      Field ''rx_valid_bytes'' c__be64,
      Field ''rx_runt_pkts'' c__be32,
      Field ''rx_jabber_pkts'' c__be32,
      Field ''checksum'' c__be32]"

definition struct_nd_mapping :: cty where
  "struct_nd_mapping = CStruct ''nd_mapping'' False
     [Field ''nvdimm'' (CPtr ''struct nvdimm''),
      Field ''start'' u64,
      Field ''size'' u64,
      Field ''position'' c_int,
      Field ''labels'' struct_list_head,
      Field ''lock'' struct_mutex,
      Field ''ndd'' (CPtr ''struct nvdimm_drvdata'')]"

definition struct_nd_region :: cty where
  "struct_nd_region = CStruct ''nd_region'' False
     [Field ''dev'' struct_device,
      Field ''ns_ida'' struct_ida,
      Field ''btt_ida'' struct_ida,
      Field ''pfn_ida'' struct_ida,
      Field ''dax_ida'' struct_ida,
      Field ''flags'' long_unsigned_int,
      Field ''ns_seed'' (CPtr ''struct device''),
      Field ''btt_seed'' (CPtr ''struct device''),
      Field ''pfn_seed'' (CPtr ''struct device''),
      Field ''dax_seed'' (CPtr ''struct device''),
      Field ''align'' long_unsigned_int,
      Field ''ndr_mappings'' u16,
      Field ''ndr_size'' u64,
      Field ''ndr_start'' u64,
      Field ''id'' c_int,
      Field ''num_lanes'' c_int,
      Field ''ro'' c_int,
      Field ''numa_node'' c_int,
      Field ''target_node'' c_int,
      Field ''provider_data'' (CPtr ''void''),
      Field ''bb_state'' (CPtr ''struct kernfs_node''),
      Field ''bb'' struct_badblocks,
      Field ''nd_set'' (CPtr ''struct nd_interleave_set''),
      Field ''lane'' (CPtr ''struct nd_percpu_lane''),
      Field ''flush'' (CPtr ''int (struct nd_region *, struct bio *)''),
      Field ''mapping'' (CArr 0 struct_nd_mapping)]"

definition struct_hh_cache :: cty where
  "struct_hh_cache = CStruct ''hh_cache'' False
     [Field ''hh_len'' unsigned_int,
      Field ''hh_lock'' seqlock_t,
      Field ''hh_data'' (CArr 16 long_unsigned_int)]"

definition struct_neighbour :: cty where
  "struct_neighbour = CStruct ''neighbour'' False
     [Field ''hash'' struct_hlist_node,
      Field ''dev_list'' struct_hlist_node,
      Field ''tbl'' (CPtr ''struct neigh_table''),
      Field ''parms'' (CPtr ''struct neigh_parms''),
      Field ''confirmed'' long_unsigned_int,
      Field ''updated'' long_unsigned_int,
      Field ''lock'' rwlock_t,
      Field ''refcnt'' refcount_t,
      Field ''arp_queue_len_bytes'' unsigned_int,
      Field ''arp_queue'' struct_sk_buff_head,
      Field ''timer'' struct_timer_list,
      Field ''used'' long_unsigned_int,
      Field ''probes'' atomic_t,
      Field ''nud_state'' u8,
      Field ''type'' u8,
      Field ''dead'' u8,
      Field ''protocol'' u8,
      Field ''flags'' u32,
      Field ''ha_lock'' seqlock_t,
      BitField [] c_long 0,
      Field ''ha'' (CArr 32 unsigned_char),
      Field ''hh'' struct_hh_cache,
      Field ''output'' (CPtr ''int (struct neighbour *, struct sk_buff *)''),
      Field ''ops'' (CPtr ''const struct neigh_ops''),
      Field ''gc_list'' struct_list_head,
      Field ''managed_list'' struct_list_head,
      Field ''rcu'' struct_callback_head,
      Field ''dev'' (CPtr ''struct net_device''),
      Field ''dev_tracker'' netdevice_tracker,
      Field ''primary_key'' (CArr 0 u8)]"

definition struct_net_aligned_data :: cty where
  "struct_net_aligned_data = CStruct ''net_aligned_data'' False
     [Field ''net_cookie'' atomic64_t,
      BitField [] c_long 64,
      BitField [] c_long 64,
      BitField [] c_long 64,
      BitField [] c_long 64,
      BitField [] c_long 64,
      BitField [] c_long 64,
      BitField [] c_long 64,
      Field ''tcp_memory_allocated'' atomic_long_t,
      BitField [] c_long 64,
      BitField [] c_long 64,
      BitField [] c_long 64,
      BitField [] c_long 64,
      BitField [] c_long 64,
      BitField [] c_long 64,
      BitField [] c_long 64,
      Field ''udp_memory_allocated'' atomic_long_t,
      BitField [] c_long 64,
      BitField [] c_long 64,
      BitField [] c_long 64,
      BitField [] c_long 64,
      BitField [] c_long 64,
      BitField [] c_long 64,
      BitField [] c_long 64]"

definition struct_bridge_mcast_other_query :: cty where
  "struct_bridge_mcast_other_query = CStruct ''bridge_mcast_other_query'' False
     [Field ''timer'' struct_timer_list,
      Field ''delay_timer'' struct_timer_list]"

definition struct_bridge_mcast_own_query :: cty where
  "struct_bridge_mcast_own_query = CStruct ''bridge_mcast_own_query'' False
     [Field ''timer'' struct_timer_list,
      Field ''startup_sent'' u32]"

definition struct_br_ip :: cty where
  "struct_br_ip = CStruct ''br_ip'' False
     [Field ''src'' (CUnion [] False
        [Field ''ip4'' c__be32,
         Field ''ip6'' struct_in6_addr]),
      Field ''dst'' (CUnion [] False
        [Field ''ip4'' c__be32,
         Field ''ip6'' struct_in6_addr,
         Field ''mac_addr'' (CArr 6 unsigned_char)]),
      Field ''proto'' c__be16,
      Field ''vid'' c__u16]"

definition struct_bridge_mcast_querier :: cty where
  "struct_bridge_mcast_querier = CStruct ''bridge_mcast_querier'' False
     [Field ''addr'' struct_br_ip,
      Field ''port_ifidx'' c_int,
      Field ''seq'' seqcount_spinlock_t]"

definition struct_net_bridge_mcast :: cty where
  "struct_net_bridge_mcast = CStruct ''net_bridge_mcast'' False
     [Field ''br'' (CPtr ''struct net_bridge''),
      Field ''vlan'' (CPtr ''struct net_bridge_vlan''),
      Field ''multicast_last_member_count'' u32,
      Field ''multicast_startup_query_count'' u32,
      Field ''multicast_querier'' u8,
      Field ''multicast_igmp_version'' u8,
      Field ''multicast_router'' u8,
      Field ''multicast_mld_version'' u8,
      Field ''multicast_last_member_interval'' long_unsigned_int,
      Field ''multicast_membership_interval'' long_unsigned_int,
      Field ''multicast_querier_interval'' long_unsigned_int,
      Field ''multicast_query_interval'' long_unsigned_int,
      Field ''multicast_query_response_interval'' long_unsigned_int,
      Field ''multicast_startup_query_interval'' long_unsigned_int,
      Field ''ip4_mc_router_list'' struct_hlist_head,
      Field ''ip4_mc_router_timer'' struct_timer_list,
      Field ''ip4_other_query'' struct_bridge_mcast_other_query,
      Field ''ip4_own_query'' struct_bridge_mcast_own_query,
      Field ''ip4_querier'' struct_bridge_mcast_querier,
      Field ''ip6_mc_router_list'' struct_hlist_head,
      Field ''ip6_mc_router_timer'' struct_timer_list,
      Field ''ip6_other_query'' struct_bridge_mcast_other_query,
      Field ''ip6_own_query'' struct_bridge_mcast_own_query,
      Field ''ip6_querier'' struct_bridge_mcast_querier]"

definition struct_bridge_id :: cty where
  "struct_bridge_id = CStruct ''bridge_id'' False
     [Field ''prio'' (CArr 2 unsigned_char),
      Field ''addr'' (CArr 6 unsigned_char)]"

definition bridge_id :: cty where [layout_simps]:
  "bridge_id = struct_bridge_id"

definition struct_net_bridge :: cty where
  "struct_net_bridge = CStruct ''net_bridge'' False
     [Field ''lock'' spinlock_t,
      Field ''hash_lock'' spinlock_t,
      Field ''frame_type_list'' struct_hlist_head,
      Field ''dev'' (CPtr ''struct net_device''),
      Field ''options'' long_unsigned_int,
      Field ''vlan_proto'' c__be16,
      Field ''default_pvid'' u16,
      Field ''vlgrp'' (CPtr ''struct net_bridge_vlan_group''),
      Field ''fdb_hash_tbl'' struct_rhashtable,
      Field ''port_list'' struct_list_head,
      Field [] (CUnion [] False
        [Field ''fake_rtable'' struct_rtable,
         Field ''fake_rt6_info'' struct_rt6_info]),
      Field ''metrics'' (CArr 17 u32),
      Field ''group_fwd_mask'' u16,
      Field ''group_fwd_mask_required'' u16,
      Field ''designated_root'' bridge_id,
      Field ''bridge_id'' bridge_id,
      Field ''topology_change'' unsigned_char,
      Field ''topology_change_detected'' unsigned_char,
      Field ''root_port'' u16,
      Field ''max_age'' long_unsigned_int,
      Field ''hello_time'' long_unsigned_int,
      Field ''forward_delay'' long_unsigned_int,
      Field ''ageing_time'' long_unsigned_int,
      Field ''bridge_max_age'' long_unsigned_int,
      Field ''bridge_hello_time'' long_unsigned_int,
      Field ''bridge_forward_delay'' long_unsigned_int,
      Field ''bridge_ageing_time'' long_unsigned_int,
      Field ''root_path_cost'' u32,
      Field ''group_addr'' (CArr 6 u8),
      Field ''stp_enabled'' (CEnum 4 [(''BR_NO_STP'', 0), (''BR_KERNEL_STP'', 1), (''BR_USER_STP'', 2)]),
      Field ''multicast_ctx'' struct_net_bridge_mcast,
      Field ''mcast_stats'' (CPtr ''struct bridge_mcast_stats''),
      Field ''hash_max'' u32,
      Field ''multicast_lock'' spinlock_t,
      Field ''mdb_hash_tbl'' struct_rhashtable,
      Field ''sg_port_tbl'' struct_rhashtable,
      Field ''mcast_gc_list'' struct_hlist_head,
      Field ''mdb_list'' struct_hlist_head,
      Field ''mcast_gc_work'' struct_work_struct,
      Field ''hello_timer'' struct_timer_list,
      Field ''tcn_timer'' struct_timer_list,
      Field ''topology_change_timer'' struct_timer_list,
      Field ''gc_work'' struct_delayed_work,
      Field ''ifobj'' (CPtr ''struct kobject''),
      Field ''auto_cnt'' u32,
      Field ''fdb_n_learned'' atomic_t,
      Field ''fdb_max_learned'' u32,
      Field ''last_hwdom'' c_int,
      Field ''busy_hwdoms'' long_unsigned_int,
      Field ''fdb_list'' struct_hlist_head,
      Field ''mrp_list'' struct_hlist_head,
      Field ''mep_list'' struct_hlist_head]"

definition port_id :: cty where [layout_simps]:
  "port_id = c__u16"

definition struct_net_bridge_mcast_port :: cty where
  "struct_net_bridge_mcast_port = CStruct ''net_bridge_mcast_port'' False
     [Field ''port'' (CPtr ''struct net_bridge_port''),
      Field ''vlan'' (CPtr ''struct net_bridge_vlan''),
      Field ''ip4_own_query'' struct_bridge_mcast_own_query,
      Field ''ip4_mc_router_timer'' struct_timer_list,
      Field ''ip4_rlist'' struct_hlist_node,
      Field ''ip6_own_query'' struct_bridge_mcast_own_query,
      Field ''ip6_mc_router_timer'' struct_timer_list,
      Field ''ip6_rlist'' struct_hlist_node,
      Field ''multicast_router'' unsigned_char,
      Field ''mdb_n_entries'' u32,
      Field ''mdb_max_entries'' u32]"

definition struct_bridge_stp_xstats :: cty where
  "struct_bridge_stp_xstats = CStruct ''bridge_stp_xstats'' False
     [Field ''transition_blk'' c__u64,
      Field ''transition_fwd'' c__u64,
      Field ''rx_bpdu'' c__u64,
      Field ''tx_bpdu'' c__u64,
      Field ''rx_tcn'' c__u64,
      Field ''tx_tcn'' c__u64]"

definition struct_net_bridge_port :: cty where
  "struct_net_bridge_port = CStruct ''net_bridge_port'' False
     [Field ''br'' (CPtr ''struct net_bridge''),
      Field ''dev'' (CPtr ''struct net_device''),
      Field ''dev_tracker'' netdevice_tracker,
      Field ''list'' struct_list_head,
      Field ''flags'' long_unsigned_int,
      Field ''vlgrp'' (CPtr ''struct net_bridge_vlan_group''),
      Field ''backup_port'' (CPtr ''struct net_bridge_port''),
      Field ''backup_nhid'' u32,
      Field ''priority'' u8,
      Field ''state'' u8,
      Field ''port_no'' u16,
      Field ''topology_change_ack'' unsigned_char,
      Field ''config_pending'' unsigned_char,
      Field ''port_id'' port_id,
      Field ''designated_port'' port_id,
      Field ''designated_root'' bridge_id,
      Field ''designated_bridge'' bridge_id,
      Field ''path_cost'' u32,
      Field ''designated_cost'' u32,
      Field ''designated_age'' long_unsigned_int,
      Field ''forward_delay_timer'' struct_timer_list,
      Field ''hold_timer'' struct_timer_list,
      Field ''message_age_timer'' struct_timer_list,
      Field ''kobj'' struct_kobject,
      Field ''rcu'' struct_callback_head,
      Field ''multicast_ctx'' struct_net_bridge_mcast_port,
      Field ''mcast_stats'' (CPtr ''struct bridge_mcast_stats''),
      Field ''multicast_eht_hosts_limit'' u32,
      Field ''multicast_eht_hosts_cnt'' u32,
      Field ''mglist'' struct_hlist_head,
      Field ''sysfs_name'' (CArr 16 c_char),
      Field ''np'' (CPtr ''struct netpoll''),
      Field ''hwdom'' c_int,
      Field ''offload_count'' c_int,
      Field ''ppid'' struct_netdev_phys_item_id,
      Field ''group_fwd_mask'' u16,
      Field ''backup_redirected_cnt'' u16,
      Field ''stp_xstats'' struct_bridge_stp_xstats]"

definition struct_br_tunnel_info :: cty where
  "struct_br_tunnel_info = CStruct ''br_tunnel_info'' False
     [Field ''tunnel_id'' c__be64,
      Field ''tunnel_dst'' (CPtr ''struct metadata_dst'')]"

definition struct_net_bridge_vlan :: cty where
  "struct_net_bridge_vlan = CStruct ''net_bridge_vlan'' False
     [Field ''vnode'' struct_rhash_head,
      Field ''tnode'' struct_rhash_head,
      Field ''vid'' u16,
      Field ''flags'' u16,
      Field ''priv_flags'' u16,
      Field ''state'' u8,
      Field ''stats'' (CPtr ''struct pcpu_sw_netstats''),
      Field [] (CUnion [] False
        [Field ''br'' (CPtr ''struct net_bridge''),
         Field ''port'' (CPtr ''struct net_bridge_port'')]),
      Field [] (CUnion [] False
        [Field ''refcnt'' refcount_t,
         Field ''brvlan'' (CPtr ''struct net_bridge_vlan'')]),
      Field ''tinfo'' struct_br_tunnel_info,
      Field [] (CUnion [] False
        [Field ''br_mcast_ctx'' struct_net_bridge_mcast,
         Field ''port_mcast_ctx'' struct_net_bridge_mcast_port]),
      Field ''msti'' u16,
      Field ''vlist'' struct_list_head,
      Field ''rcu'' struct_callback_head]"

definition enum_net_device_path_type :: cty where
  "enum_net_device_path_type = CEnum 4
     [(''DEV_PATH_ETHERNET'', 0), (''DEV_PATH_VLAN'', 1), (''DEV_PATH_BRIDGE'', 2),
      (''DEV_PATH_PPPOE'', 3), (''DEV_PATH_DSA'', 4), (''DEV_PATH_MTK_WDMA'', 5),
      (''DEV_PATH_TUN'', 6)]"

definition struct_net_device_path :: cty where
  "struct_net_device_path = CStruct ''net_device_path'' False
     [Field ''type'' enum_net_device_path_type,
      Field ''dev'' (CPtr ''const struct net_device''),
      Field [] (CUnion [] False
        [Field ''encap'' (CStruct [] False
           [Field ''id'' u16,
            Field ''proto'' c__be16,
            Field ''h_dest'' (CArr 6 u8)]),
         Field ''tun'' (CStruct [] False
           [Field [] (CUnion [] False
              [Field ''src_v4'' struct_in_addr,
               Field ''src_v6'' struct_in6_addr]),
            Field [] (CUnion [] False
              [Field ''dst_v4'' struct_in_addr,
               Field ''dst_v6'' struct_in6_addr]),
            Field ''l3_proto'' u8]),
         Field ''bridge'' (CStruct [] False
           [Field ''vlan_mode'' (CEnum 4 [(''DEV_PATH_BR_VLAN_KEEP'', 0), (''DEV_PATH_BR_VLAN_TAG'', 1),
               (''DEV_PATH_BR_VLAN_UNTAG'', 2), (''DEV_PATH_BR_VLAN_UNTAG_HW'', 3)]),
            Field ''vlan_id'' u16,
            Field ''vlan_proto'' c__be16]),
         Field ''dsa'' (CStruct [] False
           [Field ''port'' c_int,
            Field ''proto'' u16]),
         Field ''mtk_wdma'' (CStruct [] False
           [Field ''wdma_idx'' u8,
            Field ''queue'' u8,
            Field ''wcid'' u16,
            Field ''bss'' u8,
            Field ''amsdu'' u8])])]"

definition struct_rtnl_link_stats64 :: cty where
  "struct_rtnl_link_stats64 = CStruct ''rtnl_link_stats64'' False
     [Field ''rx_packets'' c__u64,
      Field ''tx_packets'' c__u64,
      Field ''rx_bytes'' c__u64,
      Field ''tx_bytes'' c__u64,
      Field ''rx_errors'' c__u64,
      Field ''tx_errors'' c__u64,
      Field ''rx_dropped'' c__u64,
      Field ''tx_dropped'' c__u64,
      Field ''multicast'' c__u64,
      Field ''collisions'' c__u64,
      Field ''rx_length_errors'' c__u64,
      Field ''rx_over_errors'' c__u64,
      Field ''rx_crc_errors'' c__u64,
      Field ''rx_frame_errors'' c__u64,
      Field ''rx_fifo_errors'' c__u64,
      Field ''rx_missed_errors'' c__u64,
      Field ''tx_aborted_errors'' c__u64,
      Field ''tx_carrier_errors'' c__u64,
      Field ''tx_fifo_errors'' c__u64,
      Field ''tx_heartbeat_errors'' c__u64,
      Field ''tx_window_errors'' c__u64,
      Field ''rx_compressed'' c__u64,
      Field ''tx_compressed'' c__u64,
      Field ''rx_nohandler'' c__u64,
      Field ''rx_otherhost_dropped'' c__u64]"

definition struct_offload_callbacks :: cty where
  "struct_offload_callbacks = CStruct ''offload_callbacks'' False
     [Field ''gso_segment'' (CPtr ''struct sk_buff * (struct sk_buff *, netdev_features_t)''),
      Field ''gro_receive'' (CPtr ''struct sk_buff * (struct list_head *, struct sk_buff *)''),
      Field ''gro_complete'' (CPtr ''int (struct sk_buff *, int)'')]"

definition struct_packet_offload :: cty where
  "struct_packet_offload = CStruct ''packet_offload'' False
     [Field ''type'' c__be16,
      Field ''priority'' u16,
      Field ''callbacks'' struct_offload_callbacks,
      Field ''list'' struct_list_head]"

definition struct_net_offload :: cty where
  "struct_net_offload = CStruct ''net_offload'' False
     [Field ''callbacks'' struct_offload_callbacks,
      Field ''flags'' unsigned_int,
      Field ''secret'' u32]"

definition struct_net_protocol :: cty where
  "struct_net_protocol = CStruct ''net_protocol'' False
     [Field ''handler'' (CPtr ''int (struct sk_buff *)''),
      Field ''err_handler'' (CPtr ''int (struct sk_buff *, u32)''),
      BitField ''no_policy'' unsigned_int 1,
      BitField ''icmp_strict_tag_validation'' unsigned_int 1,
      Field ''secret'' u32]"

definition struct_inet6_protocol :: cty where
  "struct_inet6_protocol = CStruct ''inet6_protocol'' False
     [Field ''handler'' (CPtr ''int (struct sk_buff *)''),
      Field ''err_handler'' (CPtr ''int (struct sk_buff *, struct inet6_skb_parm *, u8, u8, int, __be32)''),
      Field ''flags'' unsigned_int,
      Field ''secret'' u32]"

definition struct_net_hotdata :: cty where
  "struct_net_hotdata = CStruct ''net_hotdata'' False
     [Field ''ip_packet_offload'' struct_packet_offload,
      Field ''tcpv4_offload'' struct_net_offload,
      Field ''tcp_protocol'' struct_net_protocol,
      Field ''udpv4_offload'' struct_net_offload,
      Field ''udp_protocol'' struct_net_protocol,
      Field ''ipv6_packet_offload'' struct_packet_offload,
      Field ''tcpv6_offload'' struct_net_offload,
      Field ''tcpv6_protocol'' struct_inet6_protocol,
      Field ''udpv6_protocol'' struct_inet6_protocol,
      Field ''udpv6_offload'' struct_net_offload,
      Field ''offload_base'' struct_list_head,
      Field ''skbuff_cache'' (CPtr ''struct kmem_cache''),
      Field ''skbuff_fclone_cache'' (CPtr ''struct kmem_cache''),
      Field ''skb_small_head_cache'' (CPtr ''struct kmem_cache''),
      Field ''rps_sock_flow_table'' (CPtr ''struct rps_sock_flow_table''),
      Field ''rps_cpu_mask'' u32,
      Field ''skb_defer_nodes'' (CPtr ''struct skb_defer_node''),
      Field ''gro_normal_batch'' c_int,
      Field ''netdev_budget'' c_int,
      Field ''netdev_budget_usecs'' c_int,
      Field ''tstamp_prequeue'' c_int,
      Field ''max_backlog'' c_int,
      Field ''qdisc_max_burst'' c_int,
      Field ''dev_tx_weight'' c_int,
      Field ''dev_rx_weight'' c_int,
      Field ''sysctl_max_skb_frags'' c_int,
      Field ''sysctl_skb_defer_max'' c_int,
      Field ''sysctl_mem_pcpu_rsv'' c_int]"

section \<open>Sizes and alignments\<close>

lemma struct_load_info_layout [layout_simps]:
  "sizeof struct_load_info = 152 \<and> alignof struct_load_info = 8 \<and> wf_cty struct_load_info"
  by (simp add: struct_load_info_def base_types layout_eval bool_def
      del: One_nat_def)

lemma struct_loop_device_layout [layout_simps]:
  "sizeof struct_loop_device = 560 \<and> alignof struct_loop_device = 8 \<and> wf_cty struct_loop_device"
  by (simp add: struct_loop_device_def base_types layout_eval loff_t_def c__kernel_loff_t_def gfp_t_def spinlock_t_def
      struct_spinlock_layout struct_work_struct_layout struct_list_head_layout struct_rb_root_layout
      struct_timer_list_layout bool_def struct_blk_mq_tag_set_layout struct_mutex_layout
      del: One_nat_def)

lemma struct_lsm_static_call_layout [layout_simps]:
  "sizeof struct_lsm_static_call = 32 \<and> alignof struct_lsm_static_call = 8 \<and> wf_cty struct_lsm_static_call"
  by (simp add: struct_lsm_static_call_def base_types layout_eval
      del: One_nat_def)

lemma struct_lsm_static_calls_table_layout [layout_simps]:
  "sizeof struct_lsm_static_calls_table = 114816 \<and> alignof struct_lsm_static_calls_table = 8 \<and> wf_cty struct_lsm_static_calls_table"
  by (simp add: struct_lsm_static_calls_table_def base_types layout_eval struct_lsm_static_call_layout
      del: One_nat_def)

lemma enum_macsec_offload_layout [layout_simps]:
  "sizeof enum_macsec_offload = 4 \<and> alignof enum_macsec_offload = 4 \<and> wf_cty enum_macsec_offload"
  by (simp add: enum_macsec_offload_def base_types layout_eval
      del: One_nat_def)

lemma struct_macsec_context_layout [layout_simps]:
  "sizeof struct_macsec_context = 184 \<and> alignof struct_macsec_context = 8 \<and> wf_cty struct_macsec_context"
  by (simp add: struct_macsec_context_def base_types layout_eval enum_macsec_offload_layout bool_def u8_def c__u8_def
      del: One_nat_def)

lemma enum_dm_queue_mode_layout [layout_simps]:
  "sizeof enum_dm_queue_mode = 4 \<and> alignof enum_dm_queue_mode = 4 \<and> wf_cty enum_dm_queue_mode"
  by (simp add: enum_dm_queue_mode_def base_types layout_eval
      del: One_nat_def)

lemma struct_hd_geometry_layout [layout_simps]:
  "sizeof struct_hd_geometry = 16 \<and> alignof struct_hd_geometry = 8 \<and> wf_cty struct_hd_geometry"
  by (simp add: struct_hd_geometry_def base_types layout_eval
      del: One_nat_def)

lemma struct_dm_stats_layout [layout_simps]:
  "sizeof struct_dm_stats = 64 \<and> alignof struct_dm_stats = 8 \<and> wf_cty struct_dm_stats"
  by (simp add: struct_dm_stats_def base_types layout_eval struct_mutex_layout struct_list_head_layout bool_def
      del: One_nat_def)

lemma struct_dm_kobject_holder_layout [layout_simps]:
  "sizeof struct_dm_kobject_holder = 96 \<and> alignof struct_dm_kobject_holder = 8 \<and> wf_cty struct_dm_kobject_holder"
  by (simp add: struct_dm_kobject_holder_def base_types layout_eval struct_kobject_layout struct_completion_layout
      del: One_nat_def)

lemma struct_dm_ima_device_table_metadata_layout [layout_simps]:
  "sizeof struct_dm_ima_device_table_metadata = 32 \<and> alignof struct_dm_ima_device_table_metadata = 8 \<and> wf_cty struct_dm_ima_device_table_metadata"
  by (simp add: struct_dm_ima_device_table_metadata_def base_types layout_eval
      del: One_nat_def)

lemma struct_dm_ima_measurements_layout [layout_simps]:
  "sizeof struct_dm_ima_measurements = 72 \<and> alignof struct_dm_ima_measurements = 8 \<and> wf_cty struct_dm_ima_measurements"
  by (simp add: struct_dm_ima_measurements_def base_types layout_eval struct_dm_ima_device_table_metadata_layout
      del: One_nat_def)

lemma struct_mapped_device_layout [layout_simps]:
  "sizeof struct_mapped_device = 784 \<and> alignof struct_mapped_device = 8 \<and> wf_cty struct_mapped_device"
  by (simp add: struct_mapped_device_def base_types layout_eval struct_mutex_layout struct_list_head_layout
      enum_dm_queue_mode_layout atomic_t_layout wait_queue_head_t_def struct_wait_queue_head_layout
      struct_hd_geometry_layout struct_work_struct_layout spinlock_t_def struct_spinlock_layout
      struct_bio_list_layout bool_def struct_dm_stats_layout struct_semaphore_layout
      struct_dm_kobject_holder_layout struct_srcu_struct_layout struct_dm_ima_measurements_layout
      del: One_nat_def)

lemma struct_max8925_platform_data_layout [layout_simps]:
  "sizeof struct_max8925_platform_data = 216 \<and> alignof struct_max8925_platform_data = 8 \<and> wf_cty struct_max8925_platform_data"
  by (simp add: struct_max8925_platform_data_def base_types layout_eval
      del: One_nat_def)

lemma struct_md_cluster_operations_layout [layout_simps]:
  "sizeof struct_md_cluster_operations = 208 \<and> alignof struct_md_cluster_operations = 8 \<and> wf_cty struct_md_cluster_operations"
  by (simp add: struct_md_cluster_operations_def base_types layout_eval struct_md_submodule_head_layout
      del: One_nat_def)

lemma struct_md_rdev_layout [layout_simps]:
  "sizeof struct_md_rdev = 384 \<and> alignof struct_md_rdev = 8 \<and> wf_cty struct_md_rdev"
  by (simp add: struct_md_rdev_def base_types layout_eval struct_list_head_layout sector_t_def u64_def c__u64_def
      struct_kobject_layout wait_queue_head_t_def struct_wait_queue_head_layout atomic_t_layout
      time64_t_def c__s64_def struct_badblocks_layout
      del: One_nat_def)

lemma enum_sync_action_layout [layout_simps]:
  "sizeof enum_sync_action = 4 \<and> alignof enum_sync_action = 4 \<and> wf_cty enum_sync_action"
  by (simp add: enum_sync_action_def base_types layout_eval
      del: One_nat_def)

lemma struct_mddev_layout [layout_simps]:
  "sizeof struct_mddev = 1936 \<and> alignof struct_mddev = 8 \<and> wf_cty struct_mddev"
  by (simp add: struct_mddev_def base_types layout_eval dev_t_def c__kernel_dev_t_def u32_def c__u32_def
      struct_list_head_layout struct_mutex_layout struct_percpu_ref_layout struct_kobject_layout
      time64_t_def c__s64_def sector_t_def u64_def c__u64_def enum_sync_action_layout atomic64_t_layout
      atomic_t_layout wait_queue_head_t_def struct_wait_queue_head_layout struct_work_struct_layout
      spinlock_t_def struct_spinlock_layout struct_timer_list_layout enum_md_submodule_id_layout
      loff_t_def c__kernel_loff_t_def struct_bio_set_layout
      del: One_nat_def)

lemma struct_mdp_superblock_1_layout [layout_simps]:
  "sizeof struct_mdp_superblock_1 = 256 \<and> alignof struct_mdp_superblock_1 = 8 \<and> wf_cty struct_mdp_superblock_1"
  by (simp add: struct_mdp_superblock_1_def base_types layout_eval c__le32_def c__u32_def c__u8_def c__le64_def
      c__u64_def c__le16_def c__u16_def
      del: One_nat_def)

lemma struct_mdp_device_descriptor_s_layout [layout_simps]:
  "sizeof struct_mdp_device_descriptor_s = 128 \<and> alignof struct_mdp_device_descriptor_s = 4 \<and> wf_cty struct_mdp_device_descriptor_s"
  by (simp add: struct_mdp_device_descriptor_s_def base_types layout_eval c__u32_def
      del: One_nat_def)

lemma struct_mdp_superblock_s_layout [layout_simps]:
  "sizeof struct_mdp_superblock_s = 4096 \<and> alignof struct_mdp_superblock_s = 8 \<and> wf_cty struct_mdp_superblock_s"
  by (simp add: struct_mdp_superblock_s_def base_types layout_eval c__u32_def c__u64_def mdp_disk_t_def
      struct_mdp_device_descriptor_s_layout
      del: One_nat_def)

lemma enum_scrub_type_layout [layout_simps]:
  "sizeof enum_scrub_type = 4 \<and> alignof enum_scrub_type = 4 \<and> wf_cty enum_scrub_type"
  by (simp add: enum_scrub_type_def base_types layout_eval
      del: One_nat_def)

lemma enum_hw_event_mc_err_type_layout [layout_simps]:
  "sizeof enum_hw_event_mc_err_type = 4 \<and> alignof enum_hw_event_mc_err_type = 4 \<and> wf_cty enum_hw_event_mc_err_type"
  by (simp add: enum_hw_event_mc_err_type_def base_types layout_eval
      del: One_nat_def)

lemma struct_edac_raw_error_desc_layout [layout_simps]:
  "sizeof struct_edac_raw_error_desc = 624 \<and> alignof struct_edac_raw_error_desc = 8 \<and> wf_cty struct_edac_raw_error_desc"
  by (simp add: struct_edac_raw_error_desc_def base_types layout_eval u16_def c__u16_def enum_hw_event_mc_err_type_layout
      del: One_nat_def)

lemma struct_mem_ctl_info_layout [layout_simps]:
  "sizeof struct_mem_ctl_info = 1808 \<and> alignof struct_mem_ctl_info = 8 \<and> wf_cty struct_mem_ctl_info"
  by (simp add: struct_mem_ctl_info_def base_types layout_eval struct_device_layout struct_list_head_layout
      enum_scrub_type_layout bool_def u32_def c__u32_def struct_completion_layout
      struct_delayed_work_layout struct_edac_raw_error_desc_layout u8_def c__u8_def u16_def c__u16_def
      del: One_nat_def)

lemma struct_mr_mfc_layout [layout_simps]:
  "sizeof struct_mr_mfc = 152 \<and> alignof struct_mr_mfc = 8 \<and> wf_cty struct_mr_mfc"
  by (simp add: struct_mr_mfc_def base_types layout_eval struct_rhlist_head_layout struct_sk_buff_head_layout
      atomic_long_t_def atomic64_t_layout refcount_t_def struct_refcount_struct_layout
      struct_list_head_layout struct_callback_head_layout
      del: One_nat_def)

lemma struct_vma_munmap_struct_layout [layout_simps]:
  "sizeof struct_vma_munmap_struct = 128 \<and> alignof struct_vma_munmap_struct = 8 \<and> wf_cty struct_vma_munmap_struct"
  by (simp add: struct_vma_munmap_struct_def base_types layout_eval bool_def
      del: One_nat_def)

lemma enum_maple_status_layout [layout_simps]:
  "sizeof enum_maple_status = 4 \<and> alignof enum_maple_status = 4 \<and> wf_cty enum_maple_status"
  by (simp add: enum_maple_status_def base_types layout_eval
      del: One_nat_def)

lemma enum_store_type_layout [layout_simps]:
  "sizeof enum_store_type = 4 \<and> alignof enum_store_type = 4 \<and> wf_cty enum_store_type"
  by (simp add: enum_store_type_def base_types layout_eval
      del: One_nat_def)

lemma struct_ma_state_layout [layout_simps]:
  "sizeof struct_ma_state = 88 \<and> alignof struct_ma_state = 8 \<and> wf_cty struct_ma_state"
  by (simp add: struct_ma_state_def base_types layout_eval enum_maple_status_layout enum_store_type_layout
      del: One_nat_def)

lemma struct_mmap_state_layout [layout_simps]:
  "sizeof struct_mmap_state = 352 \<and> alignof struct_mmap_state = 8 \<and> wf_cty struct_mmap_state"
  by (simp add: struct_mmap_state_def base_types layout_eval vm_flags_t_def vma_flags_t_layout pgprot_t_def
      struct_pgprot_layout struct_vma_munmap_struct_layout struct_ma_state_layout
      struct_maple_tree_layout bool_def
      del: One_nat_def)

lemma struct_mmc_ext_csd_layout [layout_simps]:
  "sizeof struct_mmc_ext_csd = 168 \<and> alignof struct_mmc_ext_csd = 8 \<and> wf_cty struct_mmc_ext_csd"
  by (simp add: struct_mmc_ext_csd_def base_types layout_eval u8_def c__u8_def bool_def
      del: One_nat_def)

lemma struct_sd_uhs2_config_layout [layout_simps]:
  "sizeof struct_sd_uhs2_config = 40 \<and> alignof struct_sd_uhs2_config = 4 \<and> wf_cty struct_sd_uhs2_config"
  by (simp add: struct_sd_uhs2_config_def base_types layout_eval u32_def c__u32_def u8_def c__u8_def
      del: One_nat_def)

lemma struct_mmc_cid_layout [layout_simps]:
  "sizeof struct_mmc_cid = 28 \<and> alignof struct_mmc_cid = 4 \<and> wf_cty struct_mmc_cid"
  by (simp add: struct_mmc_cid_def base_types layout_eval
      del: One_nat_def)

lemma struct_mmc_csd_layout [layout_simps]:
  "sizeof struct_mmc_csd = 56 \<and> alignof struct_mmc_csd = 8 \<and> wf_cty struct_mmc_csd"
  by (simp add: struct_mmc_csd_def base_types layout_eval sector_t_def u64_def c__u64_def
      del: One_nat_def)

lemma struct_sd_scr_layout [layout_simps]:
  "sizeof struct_sd_scr = 6 \<and> alignof struct_sd_scr = 1 \<and> wf_cty struct_sd_scr"
  by (simp add: struct_sd_scr_def base_types layout_eval
      del: One_nat_def)

lemma struct_sd_ssr_layout [layout_simps]:
  "sizeof struct_sd_ssr = 12 \<and> alignof struct_sd_ssr = 4 \<and> wf_cty struct_sd_ssr"
  by (simp add: struct_sd_ssr_def base_types layout_eval
      del: One_nat_def)

lemma struct_sd_switch_caps_layout [layout_simps]:
  "sizeof struct_sd_switch_caps = 20 \<and> alignof struct_sd_switch_caps = 4 \<and> wf_cty struct_sd_switch_caps"
  by (simp add: struct_sd_switch_caps_def base_types layout_eval
      del: One_nat_def)

lemma struct_sd_ext_reg_layout [layout_simps]:
  "sizeof struct_sd_ext_reg = 8 \<and> alignof struct_sd_ext_reg = 2 \<and> wf_cty struct_sd_ext_reg"
  by (simp add: struct_sd_ext_reg_def base_types layout_eval u8_def c__u8_def u16_def c__u16_def
      del: One_nat_def)

lemma struct_sdio_cccr_layout [layout_simps]:
  "sizeof struct_sdio_cccr = 12 \<and> alignof struct_sdio_cccr = 4 \<and> wf_cty struct_sdio_cccr"
  by (simp add: struct_sdio_cccr_def base_types layout_eval
      del: One_nat_def)

lemma struct_sdio_cis_layout [layout_simps]:
  "sizeof struct_sdio_cis = 12 \<and> alignof struct_sdio_cis = 4 \<and> wf_cty struct_sdio_cis"
  by (simp add: struct_sdio_cis_def base_types layout_eval
      del: One_nat_def)

lemma struct_mmc_part_layout [layout_simps]:
  "sizeof struct_mmc_part = 40 \<and> alignof struct_mmc_part = 8 \<and> wf_cty struct_mmc_part"
  by (simp add: struct_mmc_part_def base_types layout_eval u64_def c__u64_def bool_def
      del: One_nat_def)

lemma struct_mmc_card_layout [layout_simps]:
  "sizeof struct_mmc_card = 1768 \<and> alignof struct_mmc_card = 8 \<and> wf_cty struct_mmc_card"
  by (simp add: struct_mmc_card_def base_types layout_eval struct_device_layout u32_def c__u32_def bool_def u8_def
      c__u8_def struct_mmc_cid_layout struct_mmc_csd_layout struct_mmc_ext_csd_layout
      struct_sd_scr_layout struct_sd_ssr_layout struct_sd_switch_caps_layout struct_sd_ext_reg_layout
      struct_sd_uhs2_config_layout atomic_t_layout struct_sdio_cccr_layout struct_sdio_cis_layout
      struct_mmc_part_layout
      del: One_nat_def)

lemma struct_sd_uhs2_caps_layout [layout_simps]:
  "sizeof struct_sd_uhs2_caps = 48 \<and> alignof struct_sd_uhs2_caps = 4 \<and> wf_cty struct_sd_uhs2_caps"
  by (simp add: struct_sd_uhs2_caps_def base_types layout_eval u32_def c__u32_def u8_def c__u8_def
      del: One_nat_def)

lemma struct_mmc_ios_layout [layout_simps]:
  "sizeof struct_mmc_ios = 24 \<and> alignof struct_mmc_ios = 4 \<and> wf_cty struct_mmc_ios"
  by (simp add: struct_mmc_ios_def base_types layout_eval bool_def
      del: One_nat_def)

lemma struct_mmc_ctx_layout [layout_simps]:
  "sizeof struct_mmc_ctx = 8 \<and> alignof struct_mmc_ctx = 8 \<and> wf_cty struct_mmc_ctx"
  by (simp add: struct_mmc_ctx_def base_types layout_eval
      del: One_nat_def)

lemma struct_mmc_slot_layout [layout_simps]:
  "sizeof struct_mmc_slot = 16 \<and> alignof struct_mmc_slot = 8 \<and> wf_cty struct_mmc_slot"
  by (simp add: struct_mmc_slot_def base_types layout_eval bool_def
      del: One_nat_def)

lemma struct_mmc_supply_layout [layout_simps]:
  "sizeof struct_mmc_supply = 80 \<and> alignof struct_mmc_supply = 8 \<and> wf_cty struct_mmc_supply"
  by (simp add: struct_mmc_supply_def base_types layout_eval struct_notifier_block_layout struct_work_struct_layout
      del: One_nat_def)

lemma struct_mmc_host_layout [layout_simps]:
  "sizeof struct_mmc_host = 1792 \<and> alignof struct_mmc_host = 8 \<and> wf_cty struct_mmc_host"
  by (simp add: struct_mmc_host_def base_types layout_eval struct_device_layout u32_def c__u32_def bool_def
      struct_sd_uhs2_caps_layout mmc_pm_flag_t_def spinlock_t_def struct_spinlock_layout
      struct_mmc_ios_layout struct_timer_list_layout wait_queue_head_t_def struct_wait_queue_head_layout
      struct_mmc_ctx_layout struct_delayed_work_layout struct_mmc_slot_layout struct_work_struct_layout
      atomic_t_layout struct_mmc_supply_layout struct_blk_crypto_profile_layout
      del: One_nat_def)

lemma struct_mmc_host_ops_layout [layout_simps]:
  "sizeof struct_mmc_host_ops = 216 \<and> alignof struct_mmc_host_ops = 8 \<and> wf_cty struct_mmc_host_ops"
  by (simp add: struct_mmc_host_ops_def base_types layout_eval
      del: One_nat_def)

lemma struct_mptcp_info_layout [layout_simps]:
  "sizeof struct_mptcp_info = 96 \<and> alignof struct_mptcp_info = 8 \<and> wf_cty struct_mptcp_info"
  by (simp add: struct_mptcp_info_def base_types layout_eval c__u8_def c__u32_def c__u64_def
      del: One_nat_def)

lemma struct_mptcp_options_received_layout [layout_simps]:
  "sizeof struct_mptcp_options_received = 136 \<and> alignof struct_mptcp_options_received = 8 \<and> wf_cty struct_mptcp_options_received"
  by (simp add: struct_mptcp_options_received_def base_types layout_eval u64_def c__u64_def u32_def c__u32_def u16_def
      c__u16_def c__sum16_def u8_def c__u8_def struct_mptcp_addr_info_layout struct_mptcp_rm_list_layout
      del: One_nat_def)

lemma struct_mptcp_ext_layout [layout_simps]:
  "sizeof struct_mptcp_ext = 32 \<and> alignof struct_mptcp_ext = 8 \<and> wf_cty struct_mptcp_ext"
  by (simp add: struct_mptcp_ext_def base_types layout_eval u64_def c__u64_def u32_def c__u32_def u16_def c__u16_def
      c__sum16_def u8_def c__u8_def
      del: One_nat_def)

lemma struct_mptcp_out_options_layout [layout_simps]:
  "sizeof struct_mptcp_out_options = 56 \<and> alignof struct_mptcp_out_options = 8 \<and> wf_cty struct_mptcp_out_options"
  by (simp add: struct_mptcp_out_options_def base_types layout_eval u16_def c__u16_def struct_mptcp_rm_list_layout u8_def
      c__u8_def u64_def c__u64_def u32_def c__u32_def c__sum16_def struct_mptcp_addr_info_layout
      struct_mptcp_ext_layout
      del: One_nat_def)

lemma struct_mptcp_subflow_context_layout [layout_simps]:
  "sizeof struct_mptcp_subflow_context = 280 \<and> alignof struct_mptcp_subflow_context = 8 \<and> wf_cty struct_mptcp_subflow_context"
  by (simp add: struct_mptcp_subflow_context_def base_types layout_eval struct_list_head_layout u64_def c__u64_def
      u32_def c__u32_def c__wsum_def bool_def u8_def c__u8_def s16_def c__s16_def
      struct_callback_head_layout
      del: One_nat_def)

lemma struct_ms_hyperv_info_layout [layout_simps]:
  "sizeof struct_ms_hyperv_info = 64 \<and> alignof struct_ms_hyperv_info = 8 \<and> wf_cty struct_ms_hyperv_info"
  by (simp add: struct_ms_hyperv_info_def base_types layout_eval u32_def c__u32_def u8_def c__u8_def u64_def c__u64_def
      bool_def
      del: One_nat_def)

lemma struct_msdos_sb_info_layout [layout_simps]:
  "sizeof struct_msdos_sb_info = 4464 \<and> alignof struct_msdos_sb_info = 8 \<and> wf_cty struct_msdos_sb_info"
  by (simp add: struct_msdos_sb_info_def base_types layout_eval struct_mutex_layout struct_fat_mount_options_layout
      struct_ratelimit_state_layout spinlock_t_def struct_spinlock_layout struct_hlist_head_layout
      struct_callback_head_layout
      del: One_nat_def)

lemma struct_n_tty_data_layout [layout_simps]:
  "sizeof struct_n_tty_data = 8904 \<and> alignof struct_n_tty_data = 8 \<and> wf_cty struct_n_tty_data"
  by (simp add: struct_n_tty_data_def base_types layout_eval size_t_def c__kernel_size_t_def c__kernel_ulong_t_def
      bool_def u8_def c__u8_def struct_mutex_layout
      del: One_nat_def)

lemma struct_napi_gro_cb_layout [layout_simps]:
  "sizeof struct_napi_gro_cb = 40 \<and> alignof struct_napi_gro_cb = 8 \<and> wf_cty struct_napi_gro_cb"
  by (simp add: struct_napi_gro_cb_def base_types layout_eval u16_def c__u16_def u8_def c__u8_def c__wsum_def c__u32_def
      del: One_nat_def)

lemma struct_ncsi_channel_stats_layout [layout_simps]:
  "sizeof struct_ncsi_channel_stats = 264 \<and> alignof struct_ncsi_channel_stats = 8 \<and> wf_cty struct_ncsi_channel_stats"
  by (simp add: struct_ncsi_channel_stats_def base_types layout_eval u64_def c__u64_def u32_def c__u32_def
      del: One_nat_def)

lemma struct_ncsi_dev_layout [layout_simps]:
  "sizeof struct_ncsi_dev = 24 \<and> alignof struct_ncsi_dev = 8 \<and> wf_cty struct_ncsi_dev"
  by (simp add: struct_ncsi_dev_def base_types layout_eval
      del: One_nat_def)

lemma struct_nlmsghdr_layout [layout_simps]:
  "sizeof struct_nlmsghdr = 16 \<and> alignof struct_nlmsghdr = 4 \<and> wf_cty struct_nlmsghdr"
  by (simp add: struct_nlmsghdr_def base_types layout_eval c__u32_def c__u16_def
      del: One_nat_def)

lemma struct_ncsi_request_layout [layout_simps]:
  "sizeof struct_ncsi_request = 104 \<and> alignof struct_ncsi_request = 8 \<and> wf_cty struct_ncsi_request"
  by (simp add: struct_ncsi_request_def base_types layout_eval bool_def struct_timer_list_layout u32_def c__u32_def
      struct_nlmsghdr_layout
      del: One_nat_def)

lemma struct_packet_type_layout [layout_simps]:
  "sizeof struct_packet_type = 72 \<and> alignof struct_packet_type = 8 \<and> wf_cty struct_packet_type"
  by (simp add: struct_packet_type_def base_types layout_eval c__be16_def c__u16_def bool_def netdevice_tracker_layout
      struct_list_head_layout
      del: One_nat_def)

lemma struct_ncsi_dev_priv_layout [layout_simps]:
  "sizeof struct_ncsi_dev_priv = 27016 \<and> alignof struct_ncsi_dev_priv = 8 \<and> wf_cty struct_ncsi_dev_priv"
  by (simp add: struct_ncsi_dev_priv_def base_types layout_eval struct_ncsi_dev_layout
      struct___kernel_sockaddr_storage_layout spinlock_t_def struct_spinlock_layout
      struct_list_head_layout struct_ncsi_request_layout struct_work_struct_layout
      struct_packet_type_layout bool_def u32_def c__u32_def
      del: One_nat_def)

lemma struct_ncsi_pkt_hdr_layout [layout_simps]:
  "sizeof struct_ncsi_pkt_hdr = 16 \<and> alignof struct_ncsi_pkt_hdr = 4 \<and> wf_cty struct_ncsi_pkt_hdr"
  by (simp add: struct_ncsi_pkt_hdr_def base_types layout_eval c__be16_def c__u16_def c__be32_def c__u32_def
      del: One_nat_def)

lemma struct_ncsi_rsp_pkt_hdr_layout [layout_simps]:
  "sizeof struct_ncsi_rsp_pkt_hdr = 20 \<and> alignof struct_ncsi_rsp_pkt_hdr = 4 \<and> wf_cty struct_ncsi_rsp_pkt_hdr"
  by (simp add: struct_ncsi_rsp_pkt_hdr_def base_types layout_eval struct_ncsi_pkt_hdr_layout c__be16_def c__u16_def
      del: One_nat_def)

lemma struct_ncsi_rsp_gcps_pkt_layout [layout_simps]:
  "sizeof struct_ncsi_rsp_gcps_pkt = 224 \<and> alignof struct_ncsi_rsp_gcps_pkt = 1 \<and> wf_cty struct_ncsi_rsp_gcps_pkt"
  by (simp add: struct_ncsi_rsp_gcps_pkt_def base_types layout_eval struct_ncsi_rsp_pkt_hdr_layout c__be64_def c__u64_def
      c__be32_def c__u32_def
      del: One_nat_def)

lemma struct_nd_mapping_layout [layout_simps]:
  "sizeof struct_nd_mapping = 88 \<and> alignof struct_nd_mapping = 8 \<and> wf_cty struct_nd_mapping"
  by (simp add: struct_nd_mapping_def base_types layout_eval u64_def c__u64_def struct_list_head_layout
      struct_mutex_layout
      del: One_nat_def)

lemma struct_nd_region_layout [layout_simps]:
  "sizeof struct_nd_region = 1072 \<and> alignof struct_nd_region = 8 \<and> wf_cty struct_nd_region"
  by (simp add: struct_nd_region_def base_types layout_eval struct_device_layout struct_ida_layout u16_def c__u16_def
      u64_def c__u64_def struct_badblocks_layout struct_nd_mapping_layout
      del: One_nat_def)

lemma struct_hh_cache_layout [layout_simps]:
  "sizeof struct_hh_cache = 144 \<and> alignof struct_hh_cache = 8 \<and> wf_cty struct_hh_cache"
  by (simp add: struct_hh_cache_def base_types layout_eval seqlock_t_def struct_seqlock_layout
      del: One_nat_def)

lemma struct_neighbour_layout [layout_simps]:
  "sizeof struct_neighbour = 424 \<and> alignof struct_neighbour = 8 \<and> wf_cty struct_neighbour"
  by (simp add: struct_neighbour_def base_types layout_eval struct_hlist_node_layout rwlock_t_def struct_rwlock_layout
      refcount_t_def struct_refcount_struct_layout struct_sk_buff_head_layout struct_timer_list_layout
      atomic_t_layout u8_def c__u8_def u32_def c__u32_def seqlock_t_def struct_seqlock_layout
      struct_hh_cache_layout struct_list_head_layout struct_callback_head_layout netdevice_tracker_layout
      del: One_nat_def)

lemma struct_net_aligned_data_layout [layout_simps]:
  "sizeof struct_net_aligned_data = 192 \<and> alignof struct_net_aligned_data = 8 \<and> wf_cty struct_net_aligned_data"
  by (simp add: struct_net_aligned_data_def base_types layout_eval atomic64_t_layout atomic_long_t_def
      del: One_nat_def)

lemma struct_bridge_mcast_other_query_layout [layout_simps]:
  "sizeof struct_bridge_mcast_other_query = 80 \<and> alignof struct_bridge_mcast_other_query = 8 \<and> wf_cty struct_bridge_mcast_other_query"
  by (simp add: struct_bridge_mcast_other_query_def base_types layout_eval struct_timer_list_layout
      del: One_nat_def)

lemma struct_bridge_mcast_own_query_layout [layout_simps]:
  "sizeof struct_bridge_mcast_own_query = 48 \<and> alignof struct_bridge_mcast_own_query = 8 \<and> wf_cty struct_bridge_mcast_own_query"
  by (simp add: struct_bridge_mcast_own_query_def base_types layout_eval struct_timer_list_layout u32_def c__u32_def
      del: One_nat_def)

lemma struct_br_ip_layout [layout_simps]:
  "sizeof struct_br_ip = 36 \<and> alignof struct_br_ip = 4 \<and> wf_cty struct_br_ip"
  by (simp add: struct_br_ip_def base_types layout_eval c__be32_def c__u32_def struct_in6_addr_layout c__be16_def
      c__u16_def
      del: One_nat_def)

lemma struct_bridge_mcast_querier_layout [layout_simps]:
  "sizeof struct_bridge_mcast_querier = 44 \<and> alignof struct_bridge_mcast_querier = 4 \<and> wf_cty struct_bridge_mcast_querier"
  by (simp add: struct_bridge_mcast_querier_def base_types layout_eval struct_br_ip_layout seqcount_spinlock_t_def
      struct_seqcount_spinlock_layout
      del: One_nat_def)

lemma struct_net_bridge_mcast_layout [layout_simps]:
  "sizeof struct_net_bridge_mcast = 528 \<and> alignof struct_net_bridge_mcast = 8 \<and> wf_cty struct_net_bridge_mcast"
  by (simp add: struct_net_bridge_mcast_def base_types layout_eval u32_def c__u32_def u8_def c__u8_def
      struct_hlist_head_layout struct_timer_list_layout struct_bridge_mcast_other_query_layout
      struct_bridge_mcast_own_query_layout struct_bridge_mcast_querier_layout
      del: One_nat_def)

lemma struct_bridge_id_layout [layout_simps]:
  "sizeof struct_bridge_id = 8 \<and> alignof struct_bridge_id = 1 \<and> wf_cty struct_bridge_id"
  by (simp add: struct_bridge_id_def base_types layout_eval
      del: One_nat_def)

lemma struct_net_bridge_layout [layout_simps]:
  "sizeof struct_net_bridge = 1728 \<and> alignof struct_net_bridge = 8 \<and> wf_cty struct_net_bridge"
  by (simp add: struct_net_bridge_def base_types layout_eval spinlock_t_def struct_spinlock_layout
      struct_hlist_head_layout c__be16_def c__u16_def u16_def struct_rhashtable_layout
      struct_list_head_layout struct_rtable_layout struct_rt6_info_layout u32_def c__u32_def
      bridge_id_def struct_bridge_id_layout u8_def c__u8_def struct_net_bridge_mcast_layout
      struct_work_struct_layout struct_timer_list_layout struct_delayed_work_layout atomic_t_layout
      del: One_nat_def)

lemma struct_net_bridge_mcast_port_layout [layout_simps]:
  "sizeof struct_net_bridge_mcast_port = 240 \<and> alignof struct_net_bridge_mcast_port = 8 \<and> wf_cty struct_net_bridge_mcast_port"
  by (simp add: struct_net_bridge_mcast_port_def base_types layout_eval struct_bridge_mcast_own_query_layout
      struct_timer_list_layout struct_hlist_node_layout u32_def c__u32_def
      del: One_nat_def)

lemma struct_bridge_stp_xstats_layout [layout_simps]:
  "sizeof struct_bridge_stp_xstats = 48 \<and> alignof struct_bridge_stp_xstats = 8 \<and> wf_cty struct_bridge_stp_xstats"
  by (simp add: struct_bridge_stp_xstats_def base_types layout_eval c__u64_def
      del: One_nat_def)

lemma struct_net_bridge_port_layout [layout_simps]:
  "sizeof struct_net_bridge_port = 688 \<and> alignof struct_net_bridge_port = 8 \<and> wf_cty struct_net_bridge_port"
  by (simp add: struct_net_bridge_port_def base_types layout_eval netdevice_tracker_layout struct_list_head_layout
      u32_def c__u32_def u8_def c__u8_def u16_def c__u16_def port_id_def bridge_id_def
      struct_bridge_id_layout struct_timer_list_layout struct_kobject_layout struct_callback_head_layout
      struct_net_bridge_mcast_port_layout struct_hlist_head_layout struct_netdev_phys_item_id_layout
      struct_bridge_stp_xstats_layout
      del: One_nat_def)

lemma struct_br_tunnel_info_layout [layout_simps]:
  "sizeof struct_br_tunnel_info = 16 \<and> alignof struct_br_tunnel_info = 8 \<and> wf_cty struct_br_tunnel_info"
  by (simp add: struct_br_tunnel_info_def base_types layout_eval c__be64_def c__u64_def
      del: One_nat_def)

lemma struct_net_bridge_vlan_layout [layout_simps]:
  "sizeof struct_net_bridge_vlan = 632 \<and> alignof struct_net_bridge_vlan = 8 \<and> wf_cty struct_net_bridge_vlan"
  by (simp add: struct_net_bridge_vlan_def base_types layout_eval struct_rhash_head_layout u16_def c__u16_def u8_def
      c__u8_def refcount_t_def struct_refcount_struct_layout struct_br_tunnel_info_layout
      struct_net_bridge_mcast_layout struct_net_bridge_mcast_port_layout struct_list_head_layout
      struct_callback_head_layout
      del: One_nat_def)

lemma enum_net_device_path_type_layout [layout_simps]:
  "sizeof enum_net_device_path_type = 4 \<and> alignof enum_net_device_path_type = 4 \<and> wf_cty enum_net_device_path_type"
  by (simp add: enum_net_device_path_type_def base_types layout_eval
      del: One_nat_def)

lemma struct_net_device_path_layout [layout_simps]:
  "sizeof struct_net_device_path = 56 \<and> alignof struct_net_device_path = 8 \<and> wf_cty struct_net_device_path"
  by (simp add: struct_net_device_path_def base_types layout_eval enum_net_device_path_type_layout u16_def c__u16_def
      c__be16_def u8_def c__u8_def struct_in_addr_layout struct_in6_addr_layout
      del: One_nat_def)

lemma struct_rtnl_link_stats64_layout [layout_simps]:
  "sizeof struct_rtnl_link_stats64 = 200 \<and> alignof struct_rtnl_link_stats64 = 8 \<and> wf_cty struct_rtnl_link_stats64"
  by (simp add: struct_rtnl_link_stats64_def base_types layout_eval c__u64_def
      del: One_nat_def)

lemma struct_offload_callbacks_layout [layout_simps]:
  "sizeof struct_offload_callbacks = 24 \<and> alignof struct_offload_callbacks = 8 \<and> wf_cty struct_offload_callbacks"
  by (simp add: struct_offload_callbacks_def base_types layout_eval
      del: One_nat_def)

lemma struct_packet_offload_layout [layout_simps]:
  "sizeof struct_packet_offload = 48 \<and> alignof struct_packet_offload = 8 \<and> wf_cty struct_packet_offload"
  by (simp add: struct_packet_offload_def base_types layout_eval c__be16_def c__u16_def u16_def
      struct_offload_callbacks_layout struct_list_head_layout
      del: One_nat_def)

lemma struct_net_offload_layout [layout_simps]:
  "sizeof struct_net_offload = 32 \<and> alignof struct_net_offload = 8 \<and> wf_cty struct_net_offload"
  by (simp add: struct_net_offload_def base_types layout_eval struct_offload_callbacks_layout u32_def c__u32_def
      del: One_nat_def)

lemma struct_net_protocol_layout [layout_simps]:
  "sizeof struct_net_protocol = 24 \<and> alignof struct_net_protocol = 8 \<and> wf_cty struct_net_protocol"
  by (simp add: struct_net_protocol_def base_types layout_eval u32_def c__u32_def
      del: One_nat_def)

lemma struct_inet6_protocol_layout [layout_simps]:
  "sizeof struct_inet6_protocol = 24 \<and> alignof struct_inet6_protocol = 8 \<and> wf_cty struct_inet6_protocol"
  by (simp add: struct_inet6_protocol_def base_types layout_eval u32_def c__u32_def
      del: One_nat_def)

lemma struct_net_hotdata_layout [layout_simps]:
  "sizeof struct_net_hotdata = 432 \<and> alignof struct_net_hotdata = 8 \<and> wf_cty struct_net_hotdata"
  by (simp add: struct_net_hotdata_def base_types layout_eval struct_packet_offload_layout struct_net_offload_layout
      struct_net_protocol_layout struct_inet6_protocol_layout struct_list_head_layout u32_def c__u32_def
      del: One_nat_def)

end
