(* ===== verification/KernelLargeh.thy ===== *)
theory KernelLargeh
  imports KernelLargeg
begin

text \<open>
  Types of other subsystems in \<^verbatim>\<open>bpf/vmlinux.h\<close>: those that take 25 lines and more there, with every type they
  hold by value (part 8 of 10).
\<close>

section \<open>Types\<close>

definition RING_IDX :: cty where [layout_simps]:
  "RING_IDX = unsigned_int"

definition struct_xen_netif_tx_front_ring :: cty where
  "struct_xen_netif_tx_front_ring = CStruct ''xen_netif_tx_front_ring'' False
     [Field ''req_prod_pvt'' RING_IDX,
      Field ''rsp_cons'' RING_IDX,
      Field ''nr_ents'' unsigned_int,
      Field ''sring'' (CPtr ''struct xen_netif_tx_sring'')]"

definition grant_ref_t :: cty where [layout_simps]:
  "grant_ref_t = uint32_t"

definition struct_xen_netif_rx_front_ring :: cty where
  "struct_xen_netif_rx_front_ring = CStruct ''xen_netif_rx_front_ring'' False
     [Field ''req_prod_pvt'' RING_IDX,
      Field ''rsp_cons'' RING_IDX,
      Field ''nr_ents'' unsigned_int,
      Field ''sring'' (CPtr ''struct xen_netif_rx_sring'')]"

definition struct_netfront_queue :: cty where
  "struct_netfront_queue = CStruct ''netfront_queue'' False
     [Field ''id'' unsigned_int,
      Field ''name'' (CArr 22 c_char),
      Field ''info'' (CPtr ''struct netfront_info''),
      Field ''xdp_prog'' (CPtr ''struct bpf_prog''),
      Field ''napi'' struct_napi_struct,
      Field ''tx_evtchn'' unsigned_int,
      Field ''rx_evtchn'' unsigned_int,
      Field ''tx_irq'' unsigned_int,
      Field ''rx_irq'' unsigned_int,
      Field ''tx_irq_name'' (CArr 25 c_char),
      Field ''rx_irq_name'' (CArr 25 c_char),
      Field ''tx_lock'' spinlock_t,
      Field ''tx'' struct_xen_netif_tx_front_ring,
      Field ''tx_ring_ref'' c_int,
      Field ''tx_skbs'' (CArr 256 (CPtr ''struct sk_buff'')),
      Field ''tx_link'' (CArr 256 short_unsigned_int),
      Field ''gref_tx_head'' grant_ref_t,
      Field ''grant_tx_ref'' (CArr 256 grant_ref_t),
      Field ''grant_tx_page'' (CArr 256 (CPtr ''struct page'')),
      Field ''tx_skb_freelist'' unsigned_int,
      Field ''tx_pend_queue'' unsigned_int,
      BitField [] c_long 64,
      BitField [] c_long 64,
      BitField [] c_long 64,
      BitField [] c_long 64,
      BitField [] c_long 64,
      Field ''rx_lock'' spinlock_t,
      Field ''rx'' struct_xen_netif_rx_front_ring,
      Field ''rx_ring_ref'' c_int,
      Field ''rx_refill_timer'' struct_timer_list,
      Field ''rx_skbs'' (CArr 256 (CPtr ''struct sk_buff'')),
      Field ''gref_rx_head'' grant_ref_t,
      Field ''grant_rx_ref'' (CArr 256 grant_ref_t),
      Field ''rx_rsp_unconsumed'' unsigned_int,
      Field ''rx_cons_lock'' spinlock_t,
      Field ''page_pool'' (CPtr ''struct page_pool''),
      BitField [] c_long 64,
      BitField [] c_long 64,
      BitField [] c_long 64,
      Field ''xdp_rxq'' struct_xdp_rxq_info]"

definition struct_xen_netif_extra_info :: cty where
  "struct_xen_netif_extra_info = CStruct ''xen_netif_extra_info'' False
     [Field ''type'' uint8_t,
      Field ''flags'' uint8_t,
      Field ''u'' (CUnion [] False
        [Field ''gso'' (CStruct [] False
           [Field ''size'' uint16_t,
            Field ''type'' uint8_t,
            Field ''pad'' uint8_t,
            Field ''features'' uint16_t]),
         Field ''mcast'' (CStruct [] False
           [Field ''addr'' (CArr 6 uint8_t)]),
         Field ''hash'' (CStruct [] False
           [Field ''type'' uint8_t,
            Field ''algorithm'' uint8_t,
            Field ''value'' (CArr 4 uint8_t)]),
         Field ''xdp'' (CStruct [] False
           [Field ''headroom'' uint16_t,
            Field ''pad'' (CArr 2 uint16_t)]),
         Field ''pad'' (CArr 3 uint16_t)])]"

definition struct_netlink_callback :: cty where
  "struct_netlink_callback = CStruct ''netlink_callback'' False
     [Field ''skb'' (CPtr ''struct sk_buff''),
      Field ''nlh'' (CPtr ''const struct nlmsghdr''),
      Field ''dump'' (CPtr ''int (struct sk_buff *, struct netlink_callback *)''),
      Field ''done'' (CPtr ''int (struct netlink_callback *)''),
      Field ''data'' (CPtr ''void''),
      Field ''module'' (CPtr ''struct module''),
      Field ''extack'' (CPtr ''struct netlink_ext_ack''),
      Field ''family'' u16,
      Field ''answer_flags'' u16,
      Field ''min_dump_alloc'' u32,
      Field ''prev_seq'' unsigned_int,
      Field ''seq'' unsigned_int,
      Field ''flags'' c_int,
      Field ''strict_check'' bool,
      Field [] (CUnion [] False
        [Field ''ctx'' (CArr 48 u8),
         Field ''args'' (CArr 6 c_long)])]"

definition struct_netlink_sock :: cty where
  "struct_netlink_sock = CStruct ''netlink_sock'' False
     [Field ''sk'' struct_sock,
      Field ''flags'' long_unsigned_int,
      Field ''portid'' u32,
      Field ''dst_portid'' u32,
      Field ''dst_group'' u32,
      Field ''subscriptions'' u32,
      Field ''ngroups'' u32,
      Field ''groups'' (CPtr ''long unsigned int''),
      Field ''state'' long_unsigned_int,
      Field ''max_recvmsg_len'' size_t,
      Field ''wait'' wait_queue_head_t,
      Field ''bound'' bool,
      Field ''cb_running'' bool,
      Field ''dump_done_errno'' c_int,
      Field ''cb'' struct_netlink_callback,
      Field ''nl_cb_mutex'' struct_mutex,
      Field ''netlink_rcv'' (CPtr ''void (struct sk_buff *)''),
      Field ''netlink_bind'' (CPtr ''int (struct net *, int)''),
      Field ''netlink_unbind'' (CPtr ''void (struct net *, int)''),
      Field ''netlink_release'' (CPtr ''void (struct sock *, long unsigned int *)''),
      Field ''module'' (CPtr ''struct module''),
      Field ''node'' struct_rhash_head,
      Field ''rcu'' struct_callback_head]"

definition union_nf_inet_addr :: cty where
  "union_nf_inet_addr = CUnion ''nf_inet_addr'' False
     [Field ''all'' (CArr 4 c__u32),
      Field ''ip'' c__be32,
      Field ''ip6'' (CArr 4 c__be32),
      Field ''in'' struct_in_addr,
      Field ''in6'' struct_in6_addr]"

definition union_nf_conntrack_man_proto :: cty where
  "union_nf_conntrack_man_proto = CUnion ''nf_conntrack_man_proto'' False
     [Field ''all'' c__be16,
      Field ''tcp'' (CStruct [] False
        [Field ''port'' c__be16]),
      Field ''udp'' (CStruct [] False
        [Field ''port'' c__be16]),
      Field ''icmp'' (CStruct [] False
        [Field ''id'' c__be16]),
      Field ''dccp'' (CStruct [] False
        [Field ''port'' c__be16]),
      Field ''sctp'' (CStruct [] False
        [Field ''port'' c__be16]),
      Field ''gre'' (CStruct [] False
        [Field ''key'' c__be16])]"

definition u_int16_t :: cty where [layout_simps]:
  "u_int16_t = u16"

definition struct_nf_conntrack_man :: cty where
  "struct_nf_conntrack_man = CStruct ''nf_conntrack_man'' False
     [Field ''u3'' union_nf_inet_addr,
      Field ''u'' union_nf_conntrack_man_proto,
      Field ''l3num'' u_int16_t]"

definition u_int8_t :: cty where [layout_simps]:
  "u_int8_t = u8"

definition struct_nf_conntrack_tuple :: cty where
  "struct_nf_conntrack_tuple = CStruct ''nf_conntrack_tuple'' False
     [Field ''src'' struct_nf_conntrack_man,
      Field ''dst'' (CStruct [] False
        [Field ''u3'' union_nf_inet_addr,
         Field ''u'' (CUnion [] False
           [Field ''all'' c__be16,
            Field ''tcp'' (CStruct [] False
              [Field ''port'' c__be16]),
            Field ''udp'' (CStruct [] False
              [Field ''port'' c__be16]),
            Field ''icmp'' (CStruct [] False
              [Field ''type'' u_int8_t,
               Field ''code'' u_int8_t]),
            Field ''dccp'' (CStruct [] False
              [Field ''port'' c__be16]),
            Field ''sctp'' (CStruct [] False
              [Field ''port'' c__be16]),
            Field ''gre'' (CStruct [] False
              [Field ''key'' c__be16])]),
         Field ''protonum'' u_int8_t,
         Field ''__nfct_hash_offsetend'' (CStruct [] False
           []),
         Field ''dir'' u_int8_t])]"

definition struct_nfs_fattr :: cty where
  "struct_nfs_fattr = CStruct ''nfs_fattr'' False
     [Field ''valid'' c__u64,
      Field ''mode'' umode_t,
      Field ''nlink'' c__u32,
      Field ''uid'' kuid_t,
      Field ''gid'' kgid_t,
      Field ''rdev'' dev_t,
      Field ''size'' c__u64,
      Field ''du'' (CUnion [] False
        [Field ''nfs2'' (CStruct [] False
           [Field ''blocksize'' c__u32,
            Field ''blocks'' c__u32]),
         Field ''nfs3'' (CStruct [] False
           [Field ''used'' c__u64])]),
      Field ''fsid'' struct_nfs_fsid,
      Field ''fileid'' c__u64,
      Field ''mounted_on_fileid'' c__u64,
      Field ''atime'' struct_timespec64,
      Field ''mtime'' struct_timespec64,
      Field ''ctime'' struct_timespec64,
      Field ''btime'' struct_timespec64,
      Field ''change_attr'' c__u64,
      Field ''pre_change_attr'' c__u64,
      Field ''pre_size'' c__u64,
      Field ''pre_mtime'' struct_timespec64,
      Field ''pre_ctime'' struct_timespec64,
      Field ''time_start'' long_unsigned_int,
      Field ''gencount'' long_unsigned_int,
      Field ''owner_name'' (CPtr ''struct nfs4_string''),
      Field ''group_name'' (CPtr ''struct nfs4_string''),
      Field ''mdsthreshold'' (CPtr ''struct nfs4_threshold''),
      Field ''label'' (CPtr ''struct nfs4_label'')]"

definition struct_nfs_write_verifier :: cty where
  "struct_nfs_write_verifier = CStruct ''nfs_write_verifier'' False
     [Field ''data'' (CArr 8 c_char)]"

definition enum_nfs3_stable_how :: cty where
  "enum_nfs3_stable_how = CEnum 4
     [(''NFS_UNSTABLE'', 0), (''NFS_DATA_SYNC'', 1), (''NFS_FILE_SYNC'', 2),
      (''NFS_INVALID_STABLE_HOW'', (- 1))]"

definition struct_nfs_writeverf :: cty where
  "struct_nfs_writeverf = CStruct ''nfs_writeverf'' False
     [Field ''verifier'' struct_nfs_write_verifier,
      Field ''committed'' enum_nfs3_stable_how]"

definition struct_nfs4_sequence_args :: cty where
  "struct_nfs4_sequence_args = CStruct ''nfs4_sequence_args'' False
     [Field ''sa_slot'' (CPtr ''struct nfs4_slot''),
      BitField ''sa_cache_this'' u8 1,
      BitField ''sa_privileged'' u8 1]"

definition struct_nfs_pgio_args :: cty where
  "struct_nfs_pgio_args = CStruct ''nfs_pgio_args'' False
     [Field ''seq_args'' struct_nfs4_sequence_args,
      Field ''fh'' (CPtr ''struct nfs_fh''),
      Field ''context'' (CPtr ''struct nfs_open_context''),
      Field ''lock_context'' (CPtr ''struct nfs_lock_context''),
      Field ''stateid'' nfs4_stateid,
      Field ''offset'' c__u64,
      Field ''count'' c__u32,
      Field ''pgbase'' unsigned_int,
      Field ''pages'' (CPtr ''struct page *''),
      Field [] (CUnion [] False
        [Field ''replen'' unsigned_int,
         Field [] (CStruct [] False
           [Field ''bitmask'' (CPtr ''const u32''),
            Field ''bitmask_store'' (CArr 3 u32),
            Field ''stable'' enum_nfs3_stable_how])])]"

definition struct_nfs4_sequence_res :: cty where
  "struct_nfs4_sequence_res = CStruct ''nfs4_sequence_res'' False
     [Field ''sr_slot_ops'' (CPtr ''const struct nfs4_sequence_slot_ops''),
      Field ''sr_slot'' (CPtr ''struct nfs4_slot''),
      Field ''sr_timestamp'' long_unsigned_int,
      Field ''sr_status'' c_int,
      Field ''sr_status_flags'' u32,
      Field ''sr_highest_slotid'' u32,
      Field ''sr_target_highest_slotid'' u32]"

definition struct_nfs_pgio_res :: cty where
  "struct_nfs_pgio_res = CStruct ''nfs_pgio_res'' False
     [Field ''seq_res'' struct_nfs4_sequence_res,
      Field ''fattr'' (CPtr ''struct nfs_fattr''),
      Field ''count'' c__u64,
      Field ''op_status'' c__u32,
      Field [] (CUnion [] False
        [Field [] (CStruct [] False
           [Field ''replen'' unsigned_int,
            Field ''eof'' c_int,
            Field ''scratch'' (CPtr ''void'')]),
         Field [] (CStruct [] False
           [Field ''verf'' (CPtr ''struct nfs_writeverf''),
            Field ''server'' (CPtr ''const struct nfs_server'')])])]"

definition struct_nfs_page_array :: cty where
  "struct_nfs_page_array = CStruct ''nfs_page_array'' False
     [Field ''pagevec'' (CPtr ''struct page *''),
      Field ''npages'' unsigned_int,
      Field ''page_array'' (CArr 8 (CPtr ''struct page''))]"

definition struct_nfs_pgio_header :: cty where
  "struct_nfs_pgio_header = CStruct ''nfs_pgio_header'' False
     [Field ''inode'' (CPtr ''struct inode''),
      Field ''cred'' (CPtr ''const struct cred''),
      Field ''pages'' struct_list_head,
      Field ''req'' (CPtr ''struct nfs_page''),
      Field ''verf'' struct_nfs_writeverf,
      Field ''rw_mode'' fmode_t,
      Field ''lseg'' (CPtr ''struct pnfs_layout_segment''),
      Field ''io_start'' loff_t,
      Field ''mds_ops'' (CPtr ''const struct rpc_call_ops''),
      Field ''release'' (CPtr ''void (struct nfs_pgio_header *)''),
      Field ''completion_ops'' (CPtr ''const struct nfs_pgio_completion_ops''),
      Field ''rw_ops'' (CPtr ''const struct nfs_rw_ops''),
      Field ''io_completion'' (CPtr ''struct nfs_io_completion''),
      Field ''dreq'' (CPtr ''struct nfs_direct_req''),
      Field ''netfs'' (CPtr ''void''),
      Field ''retrans'' short_unsigned_int,
      Field ''pnfs_error'' c_int,
      Field ''error'' c_int,
      Field ''good_bytes'' unsigned_int,
      Field ''flags'' long_unsigned_int,
      Field ''task'' struct_rpc_task,
      Field ''fattr'' struct_nfs_fattr,
      Field ''args'' struct_nfs_pgio_args,
      Field ''res'' struct_nfs_pgio_res,
      Field ''timestamp'' long_unsigned_int,
      Field ''pgio_done_cb'' (CPtr ''int (struct rpc_task *, struct nfs_pgio_header *)''),
      Field ''mds_offset'' c__u64,
      Field ''page_array'' struct_nfs_page_array,
      Field ''ds_clp'' (CPtr ''struct nfs_client''),
      Field ''ds_commit_idx'' u32,
      Field ''pgio_mirror_idx'' u32]"

definition struct_nh_config :: cty where
  "struct_nh_config = CStruct ''nh_config'' False
     [Field ''nh_id'' u32,
      Field ''nh_family'' u8,
      Field ''nh_protocol'' u8,
      Field ''nh_blackhole'' u8,
      Field ''nh_fdb'' u8,
      Field ''nh_flags'' u32,
      Field ''nh_ifindex'' c_int,
      Field ''dev'' (CPtr ''struct net_device''),
      Field ''gw'' (CUnion [] False
        [Field ''ipv4'' c__be32,
         Field ''ipv6'' struct_in6_addr]),
      Field ''nh_grp'' (CPtr ''struct nlattr''),
      Field ''nh_grp_type'' u16,
      Field ''nh_grp_res_num_buckets'' u16,
      Field ''nh_grp_res_idle_timer'' long_unsigned_int,
      Field ''nh_grp_res_unbalanced_timer'' long_unsigned_int,
      Field ''nh_grp_res_has_num_buckets'' bool,
      Field ''nh_grp_res_has_idle_timer'' bool,
      Field ''nh_grp_res_has_unbalanced_timer'' bool,
      Field ''nh_hw_stats'' bool,
      Field ''nh_encap'' (CPtr ''struct nlattr''),
      Field ''nh_encap_type'' u16,
      Field ''nlflags'' u32,
      Field ''nlinfo'' struct_nl_info]"

definition struct_ntb_ctrl_regs :: cty where
  "struct_ntb_ctrl_regs = CStruct ''ntb_ctrl_regs'' False
     [Field ''partition_status'' u32,
      Field ''partition_op'' u32,
      Field ''partition_ctrl'' u32,
      Field ''bar_setup'' u32,
      Field ''bar_error'' u32,
      Field ''lut_table_entries'' u16,
      Field ''lut_table_offset'' u16,
      Field ''lut_error'' u32,
      Field ''req_id_table_size'' u16,
      Field ''req_id_table_offset'' u16,
      Field ''req_id_error'' u32,
      Field ''reserved1'' (CArr 7 u32),
      Field ''bar_entry'' (CArr 6 (CStruct [] False
        [Field ''ctl'' u32,
         Field ''win_size'' u32,
         Field ''xlate_addr'' u64])),
      Field ''bar_ext_entry'' (CArr 6 (CStruct [] False
        [Field ''win_size'' u32,
         Field ''reserved'' (CArr 3 u32)])),
      Field ''reserved2'' (CArr 192 u32),
      Field ''req_id_table'' (CArr 512 u32),
      Field ''reserved3'' (CArr 256 u32),
      Field ''lut_entry'' (CArr 512 u64)]"

definition enum_nvmem_type :: cty where
  "enum_nvmem_type = CEnum 4
     [(''NVMEM_TYPE_UNKNOWN'', 0), (''NVMEM_TYPE_EEPROM'', 1), (''NVMEM_TYPE_OTP'', 2),
      (''NVMEM_TYPE_BATTERY_BACKED'', 3), (''NVMEM_TYPE_FRAM'', 4)]"

definition nvmem_reg_read_t :: cty where [layout_simps]:
  "nvmem_reg_read_t = CPtr ''int (void *, unsigned int, void *, size_t)''"

definition nvmem_reg_write_t :: cty where [layout_simps]:
  "nvmem_reg_write_t = CPtr ''int (void *, unsigned int, void *, size_t)''"

definition struct_nvmem_config :: cty where
  "struct_nvmem_config = CStruct ''nvmem_config'' False
     [Field ''dev'' (CPtr ''struct device''),
      Field ''name'' (CPtr ''const char''),
      Field ''id'' c_int,
      Field ''owner'' (CPtr ''struct module''),
      Field ''cells'' (CPtr ''const struct nvmem_cell_info''),
      Field ''ncells'' c_int,
      Field ''add_legacy_fixed_of_cells'' bool,
      Field ''fixup_dt_cell_info'' (CPtr ''void (struct nvmem_device *, struct nvmem_cell_info *)''),
      Field ''keepout'' (CPtr ''const struct nvmem_keepout''),
      Field ''nkeepout'' unsigned_int,
      Field ''type'' enum_nvmem_type,
      Field ''read_only'' bool,
      Field ''root_only'' bool,
      Field ''ignore_wp'' bool,
      Field ''layout'' (CPtr ''struct nvmem_layout''),
      Field ''of_node'' (CPtr ''struct device_node''),
      Field ''reg_read'' nvmem_reg_read_t,
      Field ''reg_write'' nvmem_reg_write_t,
      Field ''size'' c_int,
      Field ''word_size'' c_int,
      Field ''stride'' c_int,
      Field ''priv'' (CPtr ''void''),
      Field ''compat'' bool,
      Field ''base_dev'' (CPtr ''struct device'')]"

definition struct_nvmem_device :: cty where
  "struct_nvmem_device = CStruct ''nvmem_device'' False
     [Field ''owner'' (CPtr ''struct module''),
      Field ''dev'' struct_device,
      Field ''node'' struct_list_head,
      Field ''stride'' c_int,
      Field ''word_size'' c_int,
      Field ''id'' c_int,
      Field ''refcnt'' struct_kref,
      Field ''size'' size_t,
      Field ''read_only'' bool,
      Field ''root_only'' bool,
      Field ''flags'' c_int,
      Field ''type'' enum_nvmem_type,
      Field ''eeprom'' struct_bin_attribute,
      Field ''base_dev'' (CPtr ''struct device''),
      Field ''cells'' struct_list_head,
      Field ''fixup_dt_cell_info'' (CPtr ''void (struct nvmem_device *, struct nvmem_cell_info *)''),
      Field ''keepout'' (CPtr ''const struct nvmem_keepout''),
      Field ''nkeepout'' unsigned_int,
      Field ''reg_read'' nvmem_reg_read_t,
      Field ''reg_write'' nvmem_reg_write_t,
      Field ''wp_gpio'' (CPtr ''struct gpio_desc''),
      Field ''layout'' (CPtr ''struct nvmem_layout''),
      Field ''priv'' (CPtr ''void''),
      Field ''sysfs_cells_populated'' bool]"

definition struct_ebitmap :: cty where
  "struct_ebitmap = CStruct ''ebitmap'' False
     [Field ''node'' (CPtr ''struct ebitmap_node''),
      Field ''highbit'' u32]"

definition struct_mls_level :: cty where
  "struct_mls_level = CStruct ''mls_level'' False
     [Field ''sens'' u32,
      Field ''cat'' struct_ebitmap]"

definition struct_mls_range :: cty where
  "struct_mls_range = CStruct ''mls_range'' False
     [Field ''level'' (CArr 2 struct_mls_level)]"

definition struct_context___2 :: cty where
  "struct_context___2 = CStruct ''context___2'' False
     [Field ''user'' u32,
      Field ''role'' u32,
      Field ''type'' u32,
      Field ''len'' u32,
      Field ''range'' struct_mls_range,
      Field ''str'' (CPtr ''char'')]"

definition struct_ocontext :: cty where
  "struct_ocontext = CStruct ''ocontext'' False
     [Field ''u'' (CUnion [] False
        [Field ''name'' (CPtr ''char''),
         Field ''port'' (CStruct [] False
           [Field ''protocol'' u8,
            Field ''low_port'' u16,
            Field ''high_port'' u16]),
         Field ''node'' (CStruct [] False
           [Field ''addr'' u32,
            Field ''mask'' u32]),
         Field ''node6'' (CStruct [] False
           [Field ''addr'' (CArr 4 u32),
            Field ''mask'' (CArr 4 u32)]),
         Field ''ibpkey'' (CStruct [] False
           [Field ''subnet_prefix'' u64,
            Field ''low_pkey'' u16,
            Field ''high_pkey'' u16]),
         Field ''ibendport'' (CStruct [] False
           [Field ''dev_name'' (CPtr ''char''),
            Field ''port'' u8])]),
      Field ''v'' (CUnion [] False
        [Field ''sclass'' u32,
         Field ''behavior'' u32]),
      Field ''context'' (CArr 2 struct_context___2),
      Field ''sid'' (CArr 2 u32),
      Field ''next'' (CPtr ''struct ocontext'')]"

definition enum_ohci_rh_state :: cty where
  "enum_ohci_rh_state = CEnum 4
     [(''OHCI_RH_HALTED'', 0), (''OHCI_RH_SUSPENDED'', 1), (''OHCI_RH_RUNNING'', 2)]"

definition struct_ohci_hcd :: cty where
  "struct_ohci_hcd = CStruct ''ohci_hcd'' False
     [Field ''lock'' spinlock_t,
      Field ''regs'' (CPtr ''struct ohci_regs''),
      Field ''hcca'' (CPtr ''struct ohci_hcca''),
      Field ''hcca_dma'' dma_addr_t,
      Field ''ed_rm_list'' (CPtr ''struct ed''),
      Field ''ed_bulktail'' (CPtr ''struct ed''),
      Field ''ed_controltail'' (CPtr ''struct ed''),
      Field ''periodic'' (CArr 32 (CPtr ''struct ed'')),
      Field ''start_hnp'' (CPtr ''void (struct ohci_hcd *)''),
      Field ''td_cache'' (CPtr ''struct dma_pool''),
      Field ''ed_cache'' (CPtr ''struct dma_pool''),
      Field ''td_hash'' (CArr 64 (CPtr ''struct td'')),
      Field ''dl_start'' (CPtr ''struct td''),
      Field ''dl_end'' (CPtr ''struct td''),
      Field ''pending'' struct_list_head,
      Field ''eds_in_use'' struct_list_head,
      Field ''rh_state'' enum_ohci_rh_state,
      Field ''num_ports'' c_int,
      Field ''load'' (CArr 32 c_int),
      Field ''hc_control'' u32,
      Field ''next_statechange'' long_unsigned_int,
      Field ''fminterval'' u32,
      BitField ''autostop'' unsigned_int 1,
      BitField ''working'' unsigned_int 1,
      BitField ''restart_work'' unsigned_int 1,
      Field ''flags'' long_unsigned_int,
      Field ''prev_frame_no'' unsigned_int,
      Field ''wdh_cnt'' unsigned_int,
      Field ''prev_wdh_cnt'' unsigned_int,
      Field ''prev_donehead'' u32,
      Field ''io_watchdog'' struct_timer_list,
      Field ''nec_work'' struct_work_struct,
      Field ''debug_dir'' (CPtr ''struct dentry''),
      Field ''priv'' (CArr 0 long_unsigned_int)]"

definition struct_old_timeval32 :: cty where
  "struct_old_timeval32 = CStruct ''old_timeval32'' False
     [Field ''tv_sec'' old_time32_t,
      Field ''tv_usec'' s32]"

definition struct_old_timex32 :: cty where
  "struct_old_timex32 = CStruct ''old_timex32'' False
     [Field ''modes'' u32,
      Field ''offset'' s32,
      Field ''freq'' s32,
      Field ''maxerror'' s32,
      Field ''esterror'' s32,
      Field ''status'' s32,
      Field ''constant'' s32,
      Field ''precision'' s32,
      Field ''tolerance'' s32,
      Field ''time'' struct_old_timeval32,
      Field ''tick'' s32,
      Field ''ppsfreq'' s32,
      Field ''jitter'' s32,
      Field ''shift'' s32,
      Field ''stabil'' s32,
      Field ''jitcnt'' s32,
      Field ''calcnt'' s32,
      Field ''errcnt'' s32,
      Field ''stbcnt'' s32,
      Field ''tai'' s32,
      BitField [] c_long 64,
      BitField [] c_long 64,
      BitField [] c_long 64,
      BitField [] c_long 64,
      BitField [] c_long 64]"

definition enum_opp_table_access :: cty where
  "enum_opp_table_access = CEnum 4
     [(''OPP_TABLE_ACCESS_UNKNOWN'', 0), (''OPP_TABLE_ACCESS_EXCLUSIVE'', 1),
      (''OPP_TABLE_ACCESS_SHARED'', 2)]"

definition config_clks_t :: cty where [layout_simps]:
  "config_clks_t = CPtr ''int (struct device *, struct opp_table *, struct dev_pm_opp *, void *, bool)''"

definition config_regulators_t :: cty where [layout_simps]:
  "config_regulators_t = CPtr ''int (struct device *, struct dev_pm_opp *, struct dev_pm_opp *, struct regulator **, unsigned int)''"

definition struct_opp_table :: cty where
  "struct_opp_table = CStruct ''opp_table'' False
     [Field ''node'' struct_list_head,
      Field ''lazy'' struct_list_head,
      Field ''head'' struct_blocking_notifier_head,
      Field ''dev_list'' struct_list_head,
      Field ''opp_list'' struct_list_head,
      Field ''kref'' struct_kref,
      Field ''lock'' struct_mutex,
      Field ''np'' (CPtr ''struct device_node''),
      Field ''clock_latency_ns_max'' long_unsigned_int,
      Field ''voltage_tolerance_v1'' unsigned_int,
      Field ''parsed_static_opps'' unsigned_int,
      Field ''shared_opp'' enum_opp_table_access,
      Field ''current_rate_single_clk'' long_unsigned_int,
      Field ''current_opp'' (CPtr ''struct dev_pm_opp''),
      Field ''suspend_opp'' (CPtr ''struct dev_pm_opp''),
      Field ''required_opp_tables'' (CPtr ''struct opp_table *''),
      Field ''required_devs'' (CPtr ''struct device *''),
      Field ''required_opp_count'' unsigned_int,
      Field ''supported_hw'' (CPtr ''unsigned int''),
      Field ''supported_hw_count'' unsigned_int,
      Field ''prop_name'' (CPtr ''const char''),
      Field ''config_clks'' config_clks_t,
      Field ''clks'' (CPtr ''struct clk *''),
      Field ''clk'' (CPtr ''struct clk''),
      Field ''clk_count'' c_int,
      Field ''config_regulators'' config_regulators_t,
      Field ''regulators'' (CPtr ''struct regulator *''),
      Field ''regulator_count'' c_int,
      Field ''paths'' (CPtr ''struct icc_path *''),
      Field ''path_count'' unsigned_int,
      Field ''enabled'' bool,
      Field ''is_genpd'' bool,
      Field ''dentry'' (CPtr ''struct dentry''),
      Field ''dentry_name'' (CArr 255 c_char)]"

definition struct_packet_fanout :: cty where
  "struct_packet_fanout = CStruct ''packet_fanout'' False
     [Field ''net'' possible_net_t,
      Field ''num_members'' unsigned_int,
      Field ''max_num_members'' u32,
      Field ''id'' u16,
      Field ''type'' u8,
      Field ''flags'' u8,
      Field [] (CUnion [] False
        [Field ''rr_cur'' atomic_t,
         Field ''bpf_prog'' (CPtr ''struct bpf_prog'')]),
      Field ''list'' struct_list_head,
      Field ''lock'' spinlock_t,
      Field ''sk_ref'' refcount_t,
      BitField [] c_long 64,
      Field ''prot_hook'' struct_packet_type,
      Field ''arr'' (CArr 0 (CPtr ''struct sock'')),
      BitField [] c_long 64,
      BitField [] c_long 64,
      BitField [] c_long 64,
      BitField [] c_long 64,
      BitField [] c_long 64,
      BitField [] c_long 64,
      BitField [] c_long 64]"

definition struct_tpacket_stats :: cty where
  "struct_tpacket_stats = CStruct ''tpacket_stats'' False
     [Field ''tp_packets'' unsigned_int,
      Field ''tp_drops'' unsigned_int]"

definition struct_tpacket_stats_v3 :: cty where
  "struct_tpacket_stats_v3 = CStruct ''tpacket_stats_v3'' False
     [Field ''tp_packets'' unsigned_int,
      Field ''tp_drops'' unsigned_int,
      Field ''tp_freeze_q_cnt'' unsigned_int]"

definition union_tpacket_stats_u :: cty where
  "union_tpacket_stats_u = CUnion ''tpacket_stats_u'' False
     [Field ''stats1'' struct_tpacket_stats,
      Field ''stats3'' struct_tpacket_stats_v3]"

definition struct_tpacket_kbdq_core :: cty where
  "struct_tpacket_kbdq_core = CStruct ''tpacket_kbdq_core'' False
     [Field ''pkbdq'' (CPtr ''struct pgv''),
      Field ''feature_req_word'' unsigned_int,
      Field ''hdrlen'' unsigned_int,
      Field ''reset_pending_on_curr_blk'' unsigned_char,
      Field ''kactive_blk_num'' short_unsigned_int,
      Field ''blk_sizeof_priv'' short_unsigned_int,
      Field ''version'' short_unsigned_int,
      Field ''pkblk_start'' (CPtr ''char''),
      Field ''pkblk_end'' (CPtr ''char''),
      Field ''kblk_size'' c_int,
      Field ''max_frame_len'' unsigned_int,
      Field ''knum_blocks'' unsigned_int,
      Field ''knxt_seq_num'' uint64_t,
      Field ''prev'' (CPtr ''char''),
      Field ''nxt_offset'' (CPtr ''char''),
      Field ''skb'' (CPtr ''struct sk_buff''),
      Field ''blk_fill_in_prog_lock'' rwlock_t,
      Field ''interval_ktime'' ktime_t,
      Field ''retire_blk_timer'' struct_hrtimer]"

definition struct_packet_ring_buffer :: cty where
  "struct_packet_ring_buffer = CStruct ''packet_ring_buffer'' False
     [Field ''pg_vec'' (CPtr ''struct pgv''),
      Field ''head'' unsigned_int,
      Field ''frames_per_block'' unsigned_int,
      Field ''frame_size'' unsigned_int,
      Field ''frame_max'' unsigned_int,
      Field ''pg_vec_order'' unsigned_int,
      Field ''pg_vec_pages'' unsigned_int,
      Field ''pg_vec_len'' unsigned_int,
      Field ''pending_refcnt'' (CPtr ''unsigned int''),
      Field [] (CUnion [] False
        [Field ''rx_owner_map'' (CPtr ''long unsigned int''),
         Field ''prb_bdqc'' struct_tpacket_kbdq_core])]"

definition enum_tpacket_versions :: cty where
  "enum_tpacket_versions = CEnum 4
     [(''TPACKET_V1'', 0), (''TPACKET_V2'', 1), (''TPACKET_V3'', 2)]"

definition struct_packet_sock :: cty where
  "struct_packet_sock = CStruct ''packet_sock'' False
     [Field ''sk'' struct_sock,
      Field ''fanout'' (CPtr ''struct packet_fanout''),
      Field ''stats'' union_tpacket_stats_u,
      Field ''rx_ring'' struct_packet_ring_buffer,
      Field ''tx_ring'' struct_packet_ring_buffer,
      Field ''copy_thresh'' c_int,
      Field ''bind_lock'' spinlock_t,
      Field ''pg_vec_lock'' struct_mutex,
      Field ''flags'' long_unsigned_int,
      Field ''ifindex'' c_int,
      Field ''vnet_hdr_sz'' u8,
      Field ''num'' c__be16,
      Field ''rollover'' (CPtr ''struct packet_rollover''),
      Field ''mclist'' (CPtr ''struct packet_mclist''),
      Field ''mapped'' atomic_long_t,
      Field ''tp_version'' enum_tpacket_versions,
      Field ''tp_hdrlen'' unsigned_int,
      Field ''tp_reserve'' unsigned_int,
      Field ''tp_tstamp'' unsigned_int,
      Field ''skb_completion'' struct_completion,
      Field ''cached_dev'' (CPtr ''struct net_device''),
      BitField [] c_long 64,
      Field ''prot_hook'' struct_packet_type,
      BitField [] c_long 64,
      BitField [] c_long 64,
      BitField [] c_long 64,
      BitField [] c_long 64,
      BitField [] c_long 64,
      BitField [] c_long 64,
      BitField [] c_long 64,
      Field ''tp_drops'' atomic_t,
      BitField [] c_long 64,
      BitField [] c_long 64,
      BitField [] c_long 64,
      BitField [] c_long 64,
      BitField [] c_long 64,
      BitField [] c_long 64,
      BitField [] c_long 64]"

definition struct_page_pool_params :: cty where
  "struct_page_pool_params = CStruct ''page_pool_params'' False
     [Field [] (CUnion [] False
        [Field [] (CStruct [] False
           [Field ''order'' unsigned_int,
            Field ''pool_size'' unsigned_int,
            Field ''nid'' c_int,
            Field ''dev'' (CPtr ''struct device''),
            Field ''napi'' (CPtr ''struct napi_struct''),
            Field ''dma_dir'' enum_dma_data_direction,
            Field ''max_len'' unsigned_int,
            Field ''offset'' unsigned_int]),
         Field ''fast'' struct_page_pool_params_fast]),
      Field [] (CUnion [] False
        [Field [] (CStruct [] False
           [Field ''netdev'' (CPtr ''struct net_device''),
            Field ''queue_idx'' unsigned_int,
            Field ''flags'' unsigned_int,
            Field ''init_callback'' (CPtr ''void (netmem_ref, void *)''),
            Field ''init_arg'' (CPtr ''void'')]),
         Field ''slow'' struct_page_pool_params_slow])]"

definition struct_page_req_dsc :: cty where
  "struct_page_req_dsc = CStruct ''page_req_dsc'' False
     [Field [] (CUnion [] False
        [Field [] (CStruct [] False
           [BitField ''type'' u64 8,
            BitField ''pasid_present'' u64 1,
            BitField ''rsvd'' u64 7,
            BitField ''rid'' u64 16,
            BitField ''pasid'' u64 20,
            BitField ''exe_req'' u64 1,
            BitField ''pm_req'' u64 1,
            BitField ''rsvd2'' u64 10]),
         Field ''qw_0'' u64]),
      Field [] (CUnion [] False
        [Field [] (CStruct [] False
           [BitField ''rd_req'' u64 1,
            BitField ''wr_req'' u64 1,
            BitField ''lpig'' u64 1,
            BitField ''prg_index'' u64 9,
            BitField ''addr'' u64 52]),
         Field ''qw_1'' u64]),
      Field ''qw_2'' u64,
      Field ''qw_3'' u64]"

definition struct_pv_cpu_ops :: cty where
  "struct_pv_cpu_ops = CStruct ''pv_cpu_ops'' False
     [Field ''io_delay'' (CPtr ''void (void)''),
      Field ''get_debugreg'' (CPtr ''long unsigned int (int)''),
      Field ''set_debugreg'' (CPtr ''void (int, long unsigned int)''),
      Field ''read_cr0'' (CPtr ''long unsigned int (void)''),
      Field ''write_cr0'' (CPtr ''void (long unsigned int)''),
      Field ''write_cr4'' (CPtr ''void (long unsigned int)''),
      Field ''load_tr_desc'' (CPtr ''void (void)''),
      Field ''load_gdt'' (CPtr ''void (const struct desc_ptr *)''),
      Field ''load_idt'' (CPtr ''void (const struct desc_ptr *)''),
      Field ''set_ldt'' (CPtr ''void (const void *, unsigned int)''),
      Field ''store_tr'' (CPtr ''long unsigned int (void)''),
      Field ''load_tls'' (CPtr ''void (struct thread_struct *, unsigned int)''),
      Field ''load_gs_index'' (CPtr ''void (unsigned int)''),
      Field ''write_ldt_entry'' (CPtr ''void (struct desc_struct *, int, const void *)''),
      Field ''write_gdt_entry'' (CPtr ''void (struct desc_struct *, int, const void *, int)''),
      Field ''write_idt_entry'' (CPtr ''void (gate_desc *, int, const gate_desc *)''),
      Field ''alloc_ldt'' (CPtr ''void (struct desc_struct *, unsigned int)''),
      Field ''free_ldt'' (CPtr ''void (struct desc_struct *, unsigned int)''),
      Field ''load_sp0'' (CPtr ''void (long unsigned int)''),
      Field ''invalidate_io_bitmap'' (CPtr ''void (void)''),
      Field ''update_io_bitmap'' (CPtr ''void (void)''),
      Field ''cpuid'' (CPtr ''void (unsigned int *, unsigned int *, unsigned int *, unsigned int *)''),
      Field ''read_msr'' (CPtr ''u64 (u32)''),
      Field ''write_msr'' (CPtr ''void (u32, u64)''),
      Field ''read_msr_safe'' (CPtr ''int (u32, u64 *)''),
      Field ''write_msr_safe'' (CPtr ''int (u32, u64)''),
      Field ''read_pmc'' (CPtr ''u64 (int)''),
      Field ''start_context_switch'' (CPtr ''void (struct task_struct *)''),
      Field ''end_context_switch'' (CPtr ''void (struct task_struct *)'')]"

definition struct_paravirt_callee_save :: cty where
  "struct_paravirt_callee_save = CStruct ''paravirt_callee_save'' False
     [Field ''func'' (CPtr ''void'')]"

definition struct_pv_lazy_ops :: cty where
  "struct_pv_lazy_ops = CStruct ''pv_lazy_ops'' False
     [Field ''enter'' (CPtr ''void (void)''),
      Field ''leave'' (CPtr ''void (void)''),
      Field ''flush'' (CPtr ''void (void)'')]"

definition struct_pv_mmu_ops :: cty where
  "struct_pv_mmu_ops = CStruct ''pv_mmu_ops'' False
     [Field ''flush_tlb_user'' (CPtr ''void (void)''),
      Field ''flush_tlb_kernel'' (CPtr ''void (void)''),
      Field ''flush_tlb_one_user'' (CPtr ''void (long unsigned int)''),
      Field ''flush_tlb_multi'' (CPtr ''void (const struct cpumask *, const struct flush_tlb_info *)''),
      Field ''exit_mmap'' (CPtr ''void (struct mm_struct *)''),
      Field ''notify_page_enc_status_changed'' (CPtr ''void (long unsigned int, int, bool)''),
      Field ''read_cr2'' struct_paravirt_callee_save,
      Field ''write_cr2'' (CPtr ''void (long unsigned int)''),
      Field ''read_cr3'' (CPtr ''long unsigned int (void)''),
      Field ''write_cr3'' (CPtr ''void (long unsigned int)''),
      Field ''enter_mmap'' (CPtr ''void (struct mm_struct *)''),
      Field ''pgd_alloc'' (CPtr ''int (struct mm_struct *)''),
      Field ''pgd_free'' (CPtr ''void (struct mm_struct *, pgd_t *)''),
      Field ''alloc_pte'' (CPtr ''void (struct mm_struct *, long unsigned int)''),
      Field ''alloc_pmd'' (CPtr ''void (struct mm_struct *, long unsigned int)''),
      Field ''alloc_pud'' (CPtr ''void (struct mm_struct *, long unsigned int)''),
      Field ''alloc_p4d'' (CPtr ''void (struct mm_struct *, long unsigned int)''),
      Field ''release_pte'' (CPtr ''void (long unsigned int)''),
      Field ''release_pmd'' (CPtr ''void (long unsigned int)''),
      Field ''release_pud'' (CPtr ''void (long unsigned int)''),
      Field ''release_p4d'' (CPtr ''void (long unsigned int)''),
      Field ''set_pte'' (CPtr ''void (pte_t *, pte_t)''),
      Field ''set_pmd'' (CPtr ''void (pmd_t *, pmd_t)''),
      Field ''ptep_modify_prot_start'' (CPtr ''pte_t (struct vm_area_struct *, long unsigned int, pte_t *)''),
      Field ''ptep_modify_prot_commit'' (CPtr ''void (struct vm_area_struct *, long unsigned int, pte_t *, pte_t)''),
      Field ''pte_val'' struct_paravirt_callee_save,
      Field ''make_pte'' struct_paravirt_callee_save,
      Field ''pgd_val'' struct_paravirt_callee_save,
      Field ''make_pgd'' struct_paravirt_callee_save,
      Field ''set_pud'' (CPtr ''void (pud_t *, pud_t)''),
      Field ''pmd_val'' struct_paravirt_callee_save,
      Field ''make_pmd'' struct_paravirt_callee_save,
      Field ''pud_val'' struct_paravirt_callee_save,
      Field ''make_pud'' struct_paravirt_callee_save,
      Field ''set_p4d'' (CPtr ''void (p4d_t *, p4d_t)''),
      Field ''p4d_val'' struct_paravirt_callee_save,
      Field ''make_p4d'' struct_paravirt_callee_save,
      Field ''set_pgd'' (CPtr ''void (pgd_t *, pgd_t)''),
      Field ''lazy_mode'' struct_pv_lazy_ops,
      Field ''set_fixmap'' (CPtr ''void (unsigned int, phys_addr_t, pgprot_t)'')]"

definition struct_pcpu_block_md :: cty where
  "struct_pcpu_block_md = CStruct ''pcpu_block_md'' False
     [Field ''scan_hint'' c_int,
      Field ''scan_hint_start'' c_int,
      Field ''contig_hint'' c_int,
      Field ''contig_hint_start'' c_int,
      Field ''left_free'' c_int,
      Field ''right_free'' c_int,
      Field ''first_free'' c_int,
      Field ''nr_bits'' c_int]"

definition struct_pcpu_chunk :: cty where
  "struct_pcpu_chunk = CStruct ''pcpu_chunk'' False
     [Field ''list'' struct_list_head,
      Field ''free_bytes'' c_int,
      Field ''chunk_md'' struct_pcpu_block_md,
      Field ''bound_map'' (CPtr ''long unsigned int''),
      Field ''base_addr'' (CPtr ''void''),
      Field ''alloc_map'' (CPtr ''long unsigned int''),
      Field ''md_blocks'' (CPtr ''struct pcpu_block_md''),
      Field ''data'' (CPtr ''void''),
      Field ''immutable'' bool,
      Field ''isolated'' bool,
      Field ''start_offset'' c_int,
      Field ''end_offset'' c_int,
      Field ''obj_exts'' (CPtr ''struct pcpuobj_ext''),
      Field ''nr_pages'' c_int,
      Field ''nr_populated'' c_int,
      Field ''nr_empty_pop_pages'' c_int,
      Field ''populated'' (CArr 0 long_unsigned_int),
      BitField [] c_long 64,
      BitField [] c_long 64,
      BitField [] c_long 64,
      BitField [] c_long 64,
      BitField [] c_long 64,
      BitField [] c_long 64,
      BitField [] c_long 64]"

definition struct_pe32_opt_hdr :: cty where
  "struct_pe32_opt_hdr = CStruct ''pe32_opt_hdr'' False
     [Field ''magic'' uint16_t,
      Field ''ld_major'' uint8_t,
      Field ''ld_minor'' uint8_t,
      Field ''text_size'' uint32_t,
      Field ''data_size'' uint32_t,
      Field ''bss_size'' uint32_t,
      Field ''entry_point'' uint32_t,
      Field ''code_base'' uint32_t,
      Field ''data_base'' uint32_t,
      Field ''image_base'' uint32_t,
      Field ''section_align'' uint32_t,
      Field ''file_align'' uint32_t,
      Field ''os_major'' uint16_t,
      Field ''os_minor'' uint16_t,
      Field ''image_major'' uint16_t,
      Field ''image_minor'' uint16_t,
      Field ''subsys_major'' uint16_t,
      Field ''subsys_minor'' uint16_t,
      Field ''win32_version'' uint32_t,
      Field ''image_size'' uint32_t,
      Field ''header_size'' uint32_t,
      Field ''csum'' uint32_t,
      Field ''subsys'' uint16_t,
      Field ''dll_flags'' uint16_t,
      Field ''stack_size_req'' uint32_t,
      Field ''stack_size'' uint32_t,
      Field ''heap_size_req'' uint32_t,
      Field ''heap_size'' uint32_t,
      Field ''loader_flags'' uint32_t,
      Field ''data_dirs'' uint32_t]"

definition struct_pe32plus_opt_hdr :: cty where
  "struct_pe32plus_opt_hdr = CStruct ''pe32plus_opt_hdr'' False
     [Field ''magic'' uint16_t,
      Field ''ld_major'' uint8_t,
      Field ''ld_minor'' uint8_t,
      Field ''text_size'' uint32_t,
      Field ''data_size'' uint32_t,
      Field ''bss_size'' uint32_t,
      Field ''entry_point'' uint32_t,
      Field ''code_base'' uint32_t,
      Field ''image_base'' uint64_t,
      Field ''section_align'' uint32_t,
      Field ''file_align'' uint32_t,
      Field ''os_major'' uint16_t,
      Field ''os_minor'' uint16_t,
      Field ''image_major'' uint16_t,
      Field ''image_minor'' uint16_t,
      Field ''subsys_major'' uint16_t,
      Field ''subsys_minor'' uint16_t,
      Field ''win32_version'' uint32_t,
      Field ''image_size'' uint32_t,
      Field ''header_size'' uint32_t,
      Field ''csum'' uint32_t,
      Field ''subsys'' uint16_t,
      Field ''dll_flags'' uint16_t,
      Field ''stack_size_req'' uint64_t,
      Field ''stack_size'' uint64_t,
      Field ''heap_size_req'' uint64_t,
      Field ''heap_size'' uint64_t,
      Field ''loader_flags'' uint32_t,
      Field ''data_dirs'' uint32_t]"

definition struct_pebs_record_skl :: cty where
  "struct_pebs_record_skl = CStruct ''pebs_record_skl'' False
     [Field ''flags'' u64,
      Field ''ip'' u64,
      Field ''ax'' u64,
      Field ''bx'' u64,
      Field ''cx'' u64,
      Field ''dx'' u64,
      Field ''si'' u64,
      Field ''di'' u64,
      Field ''bp'' u64,
      Field ''sp'' u64,
      Field ''r8'' u64,
      Field ''r9'' u64,
      Field ''r10'' u64,
      Field ''r11'' u64,
      Field ''r12'' u64,
      Field ''r13'' u64,
      Field ''r14'' u64,
      Field ''r15'' u64,
      Field ''status'' u64,
      Field ''dla'' u64,
      Field ''dse'' u64,
      Field ''lat'' u64,
      Field ''real_ip'' u64,
      Field ''tsx_tuning'' u64,
      Field ''tsc'' u64]"

definition struct_phy_configure_opts_mipi_dphy :: cty where
  "struct_phy_configure_opts_mipi_dphy = CStruct ''phy_configure_opts_mipi_dphy'' False
     [Field ''clk_miss'' unsigned_int,
      Field ''clk_post'' unsigned_int,
      Field ''clk_pre'' unsigned_int,
      Field ''clk_prepare'' unsigned_int,
      Field ''clk_settle'' unsigned_int,
      Field ''clk_term_en'' unsigned_int,
      Field ''clk_trail'' unsigned_int,
      Field ''clk_zero'' unsigned_int,
      Field ''d_term_en'' unsigned_int,
      Field ''eot'' unsigned_int,
      Field ''hs_exit'' unsigned_int,
      Field ''hs_prepare'' unsigned_int,
      Field ''hs_settle'' unsigned_int,
      Field ''hs_skip'' unsigned_int,
      Field ''hs_trail'' unsigned_int,
      Field ''hs_zero'' unsigned_int,
      Field ''init'' unsigned_int,
      Field ''lpx'' unsigned_int,
      Field ''ta_get'' unsigned_int,
      Field ''ta_go'' unsigned_int,
      Field ''ta_sure'' unsigned_int,
      Field ''wakeup'' unsigned_int,
      Field ''hs_clk_rate'' long_unsigned_int,
      Field ''lp_clk_rate'' long_unsigned_int,
      Field ''lanes'' unsigned_char]"

definition struct_plat_serial8250_port :: cty where
  "struct_plat_serial8250_port = CStruct ''plat_serial8250_port'' False
     [Field ''iobase'' long_unsigned_int,
      Field ''membase'' (CPtr ''void''),
      Field ''mapbase'' resource_size_t,
      Field ''mapsize'' resource_size_t,
      Field ''uartclk'' unsigned_int,
      Field ''irq'' unsigned_int,
      Field ''irqflags'' long_unsigned_int,
      Field ''private_data'' (CPtr ''void''),
      Field ''regshift'' unsigned_char,
      Field ''iotype'' unsigned_char,
      Field ''hub6'' unsigned_char,
      Field ''has_sysrq'' unsigned_char,
      Field ''type'' unsigned_int,
      Field ''flags'' upf_t,
      Field ''bugs'' u16,
      Field ''serial_in'' (CPtr ''u32 (struct uart_port *, unsigned int)''),
      Field ''serial_out'' (CPtr ''void (struct uart_port *, unsigned int, u32)''),
      Field ''dl_read'' (CPtr ''u32 (struct uart_8250_port *)''),
      Field ''dl_write'' (CPtr ''void (struct uart_8250_port *, u32)''),
      Field ''set_termios'' (CPtr ''void (struct uart_port *, struct ktermios *, const struct ktermios *)''),
      Field ''set_ldisc'' (CPtr ''void (struct uart_port *, struct ktermios *)''),
      Field ''get_mctrl'' (CPtr ''unsigned int (struct uart_port *)''),
      Field ''handle_irq'' (CPtr ''int (struct uart_port *)''),
      Field ''pm'' (CPtr ''void (struct uart_port *, unsigned int, unsigned int)''),
      Field ''handle_break'' (CPtr ''void (struct uart_port *)'')]"

definition struct_pm860x_platform_data :: cty where
  "struct_pm860x_platform_data = CStruct ''pm860x_platform_data'' False
     [Field ''backlight'' (CPtr ''struct pm860x_backlight_pdata''),
      Field ''led'' (CPtr ''struct pm860x_led_pdata''),
      Field ''rtc'' (CPtr ''struct pm860x_rtc_pdata''),
      Field ''touch'' (CPtr ''struct pm860x_touch_pdata''),
      Field ''power'' (CPtr ''struct pm860x_power_pdata''),
      Field ''buck1'' (CPtr ''struct regulator_init_data''),
      Field ''buck2'' (CPtr ''struct regulator_init_data''),
      Field ''buck3'' (CPtr ''struct regulator_init_data''),
      Field ''ldo1'' (CPtr ''struct regulator_init_data''),
      Field ''ldo2'' (CPtr ''struct regulator_init_data''),
      Field ''ldo3'' (CPtr ''struct regulator_init_data''),
      Field ''ldo4'' (CPtr ''struct regulator_init_data''),
      Field ''ldo5'' (CPtr ''struct regulator_init_data''),
      Field ''ldo6'' (CPtr ''struct regulator_init_data''),
      Field ''ldo7'' (CPtr ''struct regulator_init_data''),
      Field ''ldo8'' (CPtr ''struct regulator_init_data''),
      Field ''ldo9'' (CPtr ''struct regulator_init_data''),
      Field ''ldo10'' (CPtr ''struct regulator_init_data''),
      Field ''ldo12'' (CPtr ''struct regulator_init_data''),
      Field ''ldo_vibrator'' (CPtr ''struct regulator_init_data''),
      Field ''ldo14'' (CPtr ''struct regulator_init_data''),
      Field ''chg_desc'' (CPtr ''struct charger_desc''),
      Field ''companion_addr'' c_int,
      Field ''i2c_port'' c_int,
      Field ''irq_mode'' c_int,
      Field ''irq_base'' c_int,
      Field ''num_leds'' c_int,
      Field ''num_backlights'' c_int]"

definition struct_hashtab :: cty where
  "struct_hashtab = CStruct ''hashtab'' False
     [Field ''htable'' (CPtr ''struct hashtab_node *''),
      Field ''size'' u32,
      Field ''nel'' u32]"

definition struct_symtab :: cty where
  "struct_symtab = CStruct ''symtab'' False
     [Field ''table'' struct_hashtab,
      Field ''nprim'' u32]"

definition struct_avtab :: cty where
  "struct_avtab = CStruct ''avtab'' False
     [Field ''htable'' (CPtr ''struct avtab_node *''),
      Field ''nel'' u32,
      Field ''nslot'' u32,
      Field ''mask'' u32]"

definition struct_policydb :: cty where
  "struct_policydb = CStruct ''policydb'' False
     [Field ''mls_enabled'' c_int,
      Field ''symtab'' (CArr 8 struct_symtab),
      Field ''sym_val_to_name'' (CArr 8 (CPtr ''char *'')),
      Field ''class_val_to_struct'' (CPtr ''struct class_datum *''),
      Field ''role_val_to_struct'' (CPtr ''struct role_datum *''),
      Field ''user_val_to_struct'' (CPtr ''struct user_datum *''),
      Field ''type_val_to_struct'' (CPtr ''struct type_datum *''),
      Field ''te_avtab'' struct_avtab,
      Field ''role_tr'' struct_hashtab,
      Field ''filename_trans_ttypes'' struct_ebitmap,
      Field ''filename_trans'' struct_hashtab,
      Field ''compat_filename_trans_count'' u32,
      Field ''bool_val_to_struct'' (CPtr ''struct cond_bool_datum *''),
      Field ''te_cond_avtab'' struct_avtab,
      Field ''cond_list'' (CPtr ''struct cond_node''),
      Field ''cond_list_len'' u32,
      Field ''role_allow'' (CPtr ''struct role_allow''),
      Field ''ocontexts'' (CArr 9 (CPtr ''struct ocontext'')),
      Field ''genfs'' (CPtr ''struct genfs''),
      Field ''range_tr'' struct_hashtab,
      Field ''type_attr_map_array'' (CPtr ''struct ebitmap''),
      Field ''policycaps'' struct_ebitmap,
      Field ''permissive_map'' struct_ebitmap,
      Field ''neveraudit_map'' struct_ebitmap,
      Field ''len'' size_t,
      Field ''policyvers'' unsigned_int,
      BitField ''reject_unknown'' unsigned_int 1,
      BitField ''allow_unknown'' unsigned_int 1,
      Field ''process_class'' u16,
      Field ''process_trans_perms'' u32]"

definition struct_power_supply :: cty where
  "struct_power_supply = CStruct ''power_supply'' False
     [Field ''desc'' (CPtr ''const struct power_supply_desc''),
      Field ''supplied_to'' (CPtr ''char *''),
      Field ''num_supplicants'' size_t,
      Field ''supplied_from'' (CPtr ''char *''),
      Field ''num_supplies'' size_t,
      Field ''drv_data'' (CPtr ''void''),
      Field ''dev'' struct_device,
      Field ''changed_work'' struct_work_struct,
      Field ''deferred_register_work'' struct_delayed_work,
      Field ''changed_lock'' spinlock_t,
      Field ''changed'' bool,
      Field ''update_groups'' bool,
      Field ''initialized'' bool,
      Field ''removing'' bool,
      Field ''use_cnt'' atomic_t,
      Field ''battery_info'' (CPtr ''struct power_supply_battery_info''),
      Field ''extensions_sem'' struct_rw_semaphore,
      Field ''extensions'' struct_list_head,
      Field ''tzd'' (CPtr ''struct thermal_zone_device''),
      Field ''tcd'' (CPtr ''struct thermal_cooling_device''),
      Field ''trig'' (CPtr ''struct led_trigger''),
      Field ''charging_trig'' (CPtr ''struct led_trigger''),
      Field ''full_trig'' (CPtr ''struct led_trigger''),
      Field ''charging_blink_full_solid_trig'' (CPtr ''struct led_trigger''),
      Field ''charging_orange_full_green_trig'' (CPtr ''struct led_trigger'')]"

definition struct_power_supply_battery_info :: cty where
  "struct_power_supply_battery_info = CStruct ''power_supply_battery_info'' False
     [Field ''technology'' unsigned_int,
      Field ''energy_full_design_uwh'' c_int,
      Field ''charge_full_design_uah'' c_int,
      Field ''voltage_min_design_uv'' c_int,
      Field ''voltage_max_design_uv'' c_int,
      Field ''tricklecharge_current_ua'' c_int,
      Field ''precharge_current_ua'' c_int,
      Field ''precharge_voltage_max_uv'' c_int,
      Field ''charge_term_current_ua'' c_int,
      Field ''charge_restart_voltage_uv'' c_int,
      Field ''overvoltage_limit_uv'' c_int,
      Field ''constant_charge_current_max_ua'' c_int,
      Field ''constant_charge_voltage_max_uv'' c_int,
      Field ''maintenance_charge'' (CPtr ''const struct power_supply_maintenance_charge_table''),
      Field ''maintenance_charge_size'' c_int,
      Field ''alert_low_temp_charge_current_ua'' c_int,
      Field ''alert_low_temp_charge_voltage_uv'' c_int,
      Field ''alert_high_temp_charge_current_ua'' c_int,
      Field ''alert_high_temp_charge_voltage_uv'' c_int,
      Field ''factory_internal_resistance_uohm'' c_int,
      Field ''factory_internal_resistance_charging_uohm'' c_int,
      Field ''ocv_temp'' (CArr 20 c_int),
      Field ''temp_ambient_alert_min'' c_int,
      Field ''temp_ambient_alert_max'' c_int,
      Field ''temp_alert_min'' c_int,
      Field ''temp_alert_max'' c_int,
      Field ''temp_min'' c_int,
      Field ''temp_max'' c_int,
      Field ''ocv_table'' (CArr 20 (CPtr ''const struct power_supply_battery_ocv_table'')),
      Field ''ocv_table_size'' (CArr 20 c_int),
      Field ''resist_table'' (CPtr ''const struct power_supply_resistance_temp_table''),
      Field ''resist_table_size'' c_int,
      Field ''vbat2ri_discharging'' (CPtr ''const struct power_supply_vbat_ri_table''),
      Field ''vbat2ri_discharging_size'' c_int,
      Field ''vbat2ri_charging'' (CPtr ''const struct power_supply_vbat_ri_table''),
      Field ''vbat2ri_charging_size'' c_int,
      Field ''bti_resistance_ohm'' c_int,
      Field ''bti_resistance_tolerance'' c_int]"

definition struct_ppp_file :: cty where
  "struct_ppp_file = CStruct ''ppp_file'' False
     [Field ''kind'' (CEnum 4 [(''INTERFACE'', 1), (''CHANNEL'', 2)]),
      Field ''xq'' struct_sk_buff_head,
      Field ''rq'' struct_sk_buff_head,
      Field ''rwait'' wait_queue_head_t,
      Field ''refcnt'' refcount_t,
      Field ''hdrlen'' c_int,
      Field ''index'' c_int,
      Field ''dead'' c_int]"

definition enum_NPmode :: cty where
  "enum_NPmode = CEnum 4
     [(''NPMODE_PASS'', 0), (''NPMODE_DROP'', 1), (''NPMODE_ERROR'', 2), (''NPMODE_QUEUE'', 3)]"

definition struct_ppp :: cty where
  "struct_ppp = CStruct ''ppp'' False
     [Field ''file'' struct_ppp_file,
      Field ''owner'' (CPtr ''struct file''),
      Field ''channels'' struct_list_head,
      Field ''n_channels'' c_int,
      Field ''rlock'' spinlock_t,
      Field ''wlock'' spinlock_t,
      Field ''xmit_recursion'' (CPtr ''struct ppp_xmit_recursion''),
      Field ''mru'' c_int,
      Field ''flags'' unsigned_int,
      Field ''xstate'' unsigned_int,
      Field ''rstate'' unsigned_int,
      Field ''debug'' c_int,
      Field ''vj'' (CPtr ''struct slcompress''),
      Field ''npmode'' (CArr 6 enum_NPmode),
      Field ''xmit_pending'' (CPtr ''struct sk_buff''),
      Field ''xcomp'' (CPtr ''struct compressor''),
      Field ''xc_state'' (CPtr ''void''),
      Field ''rcomp'' (CPtr ''struct compressor''),
      Field ''rc_state'' (CPtr ''void''),
      Field ''last_xmit'' long_unsigned_int,
      Field ''last_recv'' long_unsigned_int,
      Field ''dev'' (CPtr ''struct net_device''),
      Field ''closing'' c_int,
      Field ''nxchan'' c_int,
      Field ''nxseq'' u32,
      Field ''mrru'' c_int,
      Field ''nextseq'' u32,
      Field ''minseq'' u32,
      Field ''mrq'' struct_sk_buff_head,
      Field ''pass_filter'' (CPtr ''struct bpf_prog''),
      Field ''active_filter'' (CPtr ''struct bpf_prog''),
      Field ''ppp_net'' (CPtr ''struct net'')]"

definition struct_ptdesc :: cty where
  "struct_ptdesc = CStruct ''ptdesc'' False
     [Field ''pt_flags'' memdesc_flags_t,
      Field [] (CUnion [] False
        [Field ''pt_rcu_head'' struct_callback_head,
         Field ''pt_list'' struct_list_head,
         Field [] (CStruct [] False
           [Field ''_pt_pad_1'' long_unsigned_int,
            Field ''pmd_huge_pte'' pgtable_t])]),
      Field ''__page_mapping'' long_unsigned_int,
      Field [] (CUnion [] False
        [Field ''pt_index'' long_unsigned_int,
         Field ''pt_mm'' (CPtr ''struct mm_struct''),
         Field ''pt_frag_refcount'' atomic_t,
         Field ''pt_share_count'' atomic_t]),
      Field [] (CUnion [] False
        [Field ''_pt_pad_2'' long_unsigned_int,
         Field ''ptl'' spinlock_t]),
      Field ''__page_type'' unsigned_int,
      Field ''__page_refcount'' atomic_t,
      Field ''pt_memcg_data'' long_unsigned_int]"

definition struct_posix_clock_operations :: cty where
  "struct_posix_clock_operations = CStruct ''posix_clock_operations'' False
     [Field ''owner'' (CPtr ''struct module''),
      Field ''clock_adjtime'' (CPtr ''int (struct posix_clock *, struct __kernel_timex *)''),
      Field ''clock_gettime'' (CPtr ''int (struct posix_clock *, struct timespec64 *)''),
      Field ''clock_getres'' (CPtr ''int (struct posix_clock *, struct timespec64 *)''),
      Field ''clock_settime'' (CPtr ''int (struct posix_clock *, const struct timespec64 *)''),
      Field ''ioctl'' (CPtr ''long int (struct posix_clock_context *, unsigned int, long unsigned int)''),
      Field ''open'' (CPtr ''int (struct posix_clock_context *, fmode_t)''),
      Field ''poll'' (CPtr ''__poll_t (struct posix_clock_context *, struct file *, poll_table *)''),
      Field ''release'' (CPtr ''int (struct posix_clock_context *)''),
      Field ''read'' (CPtr ''ssize_t (struct posix_clock_context *, uint, char *, size_t)'')]"

definition struct_posix_clock :: cty where
  "struct_posix_clock = CStruct ''posix_clock'' False
     [Field ''ops'' struct_posix_clock_operations,
      Field ''cdev'' struct_cdev,
      Field ''dev'' (CPtr ''struct device''),
      Field ''rwsem'' struct_rw_semaphore,
      Field ''zombie'' bool]"

definition struct_kthread_delayed_work :: cty where
  "struct_kthread_delayed_work = CStruct ''kthread_delayed_work'' False
     [Field ''work'' struct_kthread_work,
      Field ''timer'' struct_timer_list]"

definition struct_ptp_clock :: cty where
  "struct_ptp_clock = CStruct ''ptp_clock'' False
     [Field ''clock'' struct_posix_clock,
      Field ''dev'' struct_device,
      Field ''info'' (CPtr ''struct ptp_clock_info''),
      Field ''devid'' dev_t,
      Field ''index'' c_int,
      Field ''pps_source'' (CPtr ''struct pps_device''),
      Field ''dialed_frequency'' c_long,
      Field ''tsevqs'' struct_list_head,
      Field ''tsevqs_lock'' spinlock_t,
      Field ''pincfg_mux'' struct_mutex,
      Field ''tsev_wq'' wait_queue_head_t,
      Field ''defunct'' c_int,
      Field ''pin_dev_attr'' (CPtr ''struct device_attribute''),
      Field ''pin_attr'' (CPtr ''struct attribute *''),
      Field ''pin_attr_group'' struct_attribute_group,
      Field ''pin_attr_groups'' (CArr 2 (CPtr ''const struct attribute_group'')),
      Field ''kworker'' (CPtr ''struct kthread_worker''),
      Field ''aux_work'' struct_kthread_delayed_work,
      Field ''max_vclocks'' unsigned_int,
      Field ''n_vclocks'' unsigned_int,
      Field ''vclock_index'' (CPtr ''int''),
      Field ''n_vclocks_mux'' struct_mutex,
      Field ''is_virtual_clock'' bool,
      Field ''has_cycles'' bool,
      Field ''debugfs_root'' (CPtr ''struct dentry'')]"

definition struct_ptp_clock_info :: cty where
  "struct_ptp_clock_info = CStruct ''ptp_clock_info'' False
     [Field ''owner'' (CPtr ''struct module''),
      Field ''name'' (CArr 32 c_char),
      Field ''max_adj'' s32,
      Field ''n_alarm'' c_int,
      Field ''n_ext_ts'' c_int,
      Field ''n_per_out'' c_int,
      Field ''n_pins'' c_int,
      Field ''n_per_lp'' c_int,
      Field ''pps'' c_int,
      Field ''supported_perout_flags'' unsigned_int,
      Field ''supported_extts_flags'' unsigned_int,
      Field ''pin_config'' (CPtr ''struct ptp_pin_desc''),
      Field ''adjfine'' (CPtr ''int (struct ptp_clock_info *, long int)''),
      Field ''adjphase'' (CPtr ''int (struct ptp_clock_info *, s32)''),
      Field ''getmaxphase'' (CPtr ''s32 (struct ptp_clock_info *)''),
      Field ''adjtime'' (CPtr ''int (struct ptp_clock_info *, s64)''),
      Field ''gettime64'' (CPtr ''int (struct ptp_clock_info *, struct timespec64 *)''),
      Field ''gettimex64'' (CPtr ''int (struct ptp_clock_info *, struct timespec64 *, struct ptp_system_timestamp *)''),
      Field ''getcrosststamp'' (CPtr ''int (struct ptp_clock_info *, struct system_device_crosststamp *)''),
      Field ''settime64'' (CPtr ''int (struct ptp_clock_info *, const struct timespec64 *)''),
      Field ''getcycles64'' (CPtr ''int (struct ptp_clock_info *, struct timespec64 *)''),
      Field ''getcyclesx64'' (CPtr ''int (struct ptp_clock_info *, struct timespec64 *, struct ptp_system_timestamp *)''),
      Field ''getcrosscycles'' (CPtr ''int (struct ptp_clock_info *, struct system_device_crosststamp *)''),
      Field ''enable'' (CPtr ''int (struct ptp_clock_info *, struct ptp_clock_request *, int)''),
      Field ''verify'' (CPtr ''int (struct ptp_clock_info *, unsigned int, enum ptp_pin_function, unsigned int)''),
      Field ''do_aux_work'' (CPtr ''long int (struct ptp_clock_info *)''),
      Field ''perout_loopback'' (CPtr ''int (struct ptp_clock_info *, unsigned int, int)'')]"

definition union_rcu_noqs :: cty where
  "union_rcu_noqs = CUnion ''rcu_noqs'' False
     [Field ''b'' (CStruct [] False
        [Field ''norm'' u8,
         Field ''exp'' u8]),
      Field ''s'' u16]"

definition struct_rcu_cblist :: cty where
  "struct_rcu_cblist = CStruct ''rcu_cblist'' False
     [Field ''head'' (CPtr ''struct callback_head''),
      Field ''tail'' (CPtr ''struct callback_head *''),
      Field ''len'' c_long]"

definition struct_rcu_snap_record :: cty where
  "struct_rcu_snap_record = CStruct ''rcu_snap_record'' False
     [Field ''gp_seq'' long_unsigned_int,
      Field ''cputime_irq'' u64,
      Field ''cputime_softirq'' u64,
      Field ''cputime_system'' u64,
      Field ''nr_hardirqs'' u64,
      Field ''nr_softirqs'' unsigned_int,
      Field ''nr_csw'' long_long_unsigned_int,
      Field ''jiffies'' long_unsigned_int]"

definition struct_rcu_data :: cty where
  "struct_rcu_data = CStruct ''rcu_data'' False
     [Field ''gp_seq'' long_unsigned_int,
      Field ''gp_seq_needed'' long_unsigned_int,
      Field ''cpu_no_qs'' union_rcu_noqs,
      Field ''core_needs_qs'' bool,
      Field ''beenonline'' bool,
      Field ''gpwrap'' bool,
      Field ''gpwrap_count'' unsigned_int,
      Field ''cpu_started'' bool,
      Field ''mynode'' (CPtr ''struct rcu_node''),
      Field ''grpmask'' long_unsigned_int,
      Field ''ticks_this_gp'' long_unsigned_int,
      Field ''defer_qs_iw'' struct_irq_work,
      Field ''defer_qs_pending'' c_int,
      Field ''strict_work'' struct_work_struct,
      Field ''cblist'' struct_rcu_segcblist,
      Field ''qlen_last_fqs_check'' c_long,
      Field ''n_cbs_invoked'' long_unsigned_int,
      Field ''n_force_qs_snap'' long_unsigned_int,
      Field ''blimit'' c_long,
      Field ''watching_snap'' c_int,
      Field ''rcu_need_heavy_qs'' bool,
      Field ''rcu_urgent_qs'' bool,
      Field ''rcu_forced_tick'' bool,
      Field ''rcu_forced_tick_exp'' bool,
      Field ''barrier_seq_snap'' long_unsigned_int,
      Field ''barrier_head'' struct_callback_head,
      Field ''exp_watching_snap'' c_int,
      Field ''nocb_cb_wq'' struct_swait_queue_head,
      Field ''nocb_state_wq'' struct_swait_queue_head,
      Field ''nocb_gp_kthread'' (CPtr ''struct task_struct''),
      Field ''nocb_lock'' raw_spinlock_t,
      Field ''nocb_defer_wakeup'' c_int,
      Field ''nocb_timer'' struct_timer_list,
      Field ''nocb_gp_adv_time'' long_unsigned_int,
      Field ''nocb_gp_kthread_mutex'' struct_mutex,
      BitField [] c_long 64,
      BitField [] c_long 64,
      BitField [] c_long 64,
      BitField [] c_long 64,
      BitField [] c_long 64,
      BitField [] c_long 64,
      Field ''nocb_bypass_lock'' raw_spinlock_t,
      Field ''nocb_bypass'' struct_rcu_cblist,
      Field ''nocb_bypass_first'' long_unsigned_int,
      Field ''nocb_nobypass_last'' long_unsigned_int,
      Field ''nocb_nobypass_count'' c_int,
      BitField [] c_long 64,
      Field ''nocb_gp_lock'' raw_spinlock_t,
      Field ''nocb_gp_sleep'' u8,
      Field ''nocb_gp_bypass'' u8,
      Field ''nocb_gp_gp'' u8,
      Field ''nocb_gp_seq'' long_unsigned_int,
      Field ''nocb_gp_loops'' long_unsigned_int,
      Field ''nocb_gp_wq'' struct_swait_queue_head,
      Field ''nocb_cb_sleep'' bool,
      Field ''nocb_cb_kthread'' (CPtr ''struct task_struct''),
      Field ''nocb_head_rdp'' struct_list_head,
      Field ''nocb_entry_rdp'' struct_list_head,
      Field ''nocb_toggling_rdp'' (CPtr ''struct rcu_data''),
      BitField [] c_long 64,
      BitField [] c_long 64,
      BitField [] c_long 64,
      Field ''nocb_gp_rdp'' (CPtr ''struct rcu_data''),
      Field ''rcu_cpu_kthread_task'' (CPtr ''struct task_struct''),
      Field ''rcu_cpu_kthread_status'' unsigned_int,
      Field ''rcu_cpu_has_work'' c_char,
      Field ''rcuc_activity'' long_unsigned_int,
      Field ''softirq_snap'' unsigned_int,
      Field ''rcu_iw'' struct_irq_work,
      Field ''rcu_iw_pending'' bool,
      Field ''rcu_iw_gp_seq'' long_unsigned_int,
      Field ''rcu_ofl_gp_seq'' long_unsigned_int,
      Field ''rcu_ofl_gp_state'' short_int,
      Field ''rcu_onl_gp_seq'' long_unsigned_int,
      Field ''rcu_onl_gp_state'' short_int,
      Field ''last_fqs_resched'' long_unsigned_int,
      Field ''last_sched_clock'' long_unsigned_int,
      Field ''snap_record'' struct_rcu_snap_record,
      Field ''lazy_len'' c_long,
      Field ''cpu'' c_int,
      BitField [] c_long 64,
      BitField [] c_long 64,
      BitField [] c_long 64,
      BitField [] c_long 64,
      BitField [] c_long 64]"

definition struct_sr_wait_node :: cty where
  "struct_sr_wait_node = CStruct ''sr_wait_node'' False
     [Field ''inuse'' atomic_t,
      Field ''node'' struct_llist_node]"

definition struct_rcu_state :: cty where
  "struct_rcu_state = CStruct ''rcu_state'' False
     [Field ''node'' (CArr 521 struct_rcu_node),
      Field ''level'' (CArr 4 (CPtr ''struct rcu_node'')),
      Field ''ncpus'' c_int,
      Field ''n_online_cpus'' c_int,
      BitField [] c_long 64,
      BitField [] c_long 64,
      BitField [] c_long 64,
      Field ''gp_seq'' long_unsigned_int,
      Field ''gp_max'' long_unsigned_int,
      Field ''gp_kthread'' (CPtr ''struct task_struct''),
      Field ''gp_wq'' struct_swait_queue_head,
      Field ''gp_flags'' short_int,
      Field ''gp_state'' short_int,
      Field ''gp_wake_time'' long_unsigned_int,
      Field ''gp_wake_seq'' long_unsigned_int,
      Field ''gp_seq_polled'' long_unsigned_int,
      Field ''gp_seq_polled_snap'' long_unsigned_int,
      Field ''gp_seq_polled_exp_snap'' long_unsigned_int,
      Field ''barrier_mutex'' struct_mutex,
      Field ''barrier_cpu_count'' atomic_t,
      Field ''barrier_completion'' struct_completion,
      Field ''barrier_sequence'' long_unsigned_int,
      Field ''barrier_lock'' raw_spinlock_t,
      Field ''exp_mutex'' struct_mutex,
      Field ''exp_wake_mutex'' struct_mutex,
      Field ''expedited_sequence'' long_unsigned_int,
      Field ''expedited_need_qs'' atomic_t,
      Field ''expedited_wq'' struct_swait_queue_head,
      Field ''ncpus_snap'' c_int,
      Field ''cbovld'' u8,
      Field ''cbovldnext'' u8,
      Field ''jiffies_force_qs'' long_unsigned_int,
      Field ''jiffies_kick_kthreads'' long_unsigned_int,
      Field ''n_force_qs'' long_unsigned_int,
      Field ''gp_start'' long_unsigned_int,
      Field ''gp_end'' long_unsigned_int,
      Field ''gp_activity'' long_unsigned_int,
      Field ''gp_req_activity'' long_unsigned_int,
      Field ''jiffies_stall'' long_unsigned_int,
      Field ''nr_fqs_jiffies_stall'' c_int,
      Field ''jiffies_resched'' long_unsigned_int,
      Field ''n_force_qs_gpstart'' long_unsigned_int,
      Field ''name'' (CPtr ''const char''),
      Field ''abbr'' c_char,
      BitField [] c_long 64,
      BitField [] c_long 64,
      BitField [] c_long 64,
      BitField [] c_long 64,
      BitField [] c_long 64,
      BitField [] c_long 64,
      Field ''ofl_lock'' arch_spinlock_t,
      Field ''srs_next'' struct_llist_head,
      Field ''srs_wait_tail'' (CPtr ''struct llist_node''),
      Field ''srs_done_tail'' (CPtr ''struct llist_node''),
      Field ''srs_wait_nodes'' (CArr 5 struct_sr_wait_node),
      Field ''srs_cleanup_work'' struct_work_struct,
      Field ''srs_cleanups_pending'' atomic_t,
      Field ''nocb_mutex'' struct_mutex,
      Field ''nocb_is_setup'' c_int]"

definition rcu_tasks_gp_func_t :: cty where [layout_simps]:
  "rcu_tasks_gp_func_t = CPtr ''void (struct rcu_tasks *)''"

definition pregp_func_t :: cty where [layout_simps]:
  "pregp_func_t = CPtr ''void (struct list_head *)''"

definition pertask_func_t :: cty where [layout_simps]:
  "pertask_func_t = CPtr ''void (struct task_struct *, struct list_head *)''"

definition postscan_func_t :: cty where [layout_simps]:
  "postscan_func_t = CPtr ''void (struct list_head *)''"

definition holdouts_func_t :: cty where [layout_simps]:
  "holdouts_func_t = CPtr ''void (struct list_head *, bool, bool *)''"

definition postgp_func_t :: cty where [layout_simps]:
  "postgp_func_t = CPtr ''void (struct rcu_tasks *)''"

definition call_rcu_func_t :: cty where [layout_simps]:
  "call_rcu_func_t = CPtr ''void (struct callback_head *, rcu_callback_t)''"

definition struct_rcu_tasks :: cty where
  "struct_rcu_tasks = CStruct ''rcu_tasks'' False
     [Field ''cbs_wait'' struct_rcuwait,
      Field ''cbs_gbl_lock'' raw_spinlock_t,
      Field ''tasks_gp_mutex'' struct_mutex,
      Field ''gp_state'' c_int,
      Field ''gp_sleep'' c_int,
      Field ''init_fract'' c_int,
      Field ''gp_jiffies'' long_unsigned_int,
      Field ''gp_start'' long_unsigned_int,
      Field ''tasks_gp_seq'' long_unsigned_int,
      Field ''n_ipis'' long_unsigned_int,
      Field ''n_ipis_fails'' long_unsigned_int,
      Field ''kthread_ptr'' (CPtr ''struct task_struct''),
      Field ''lazy_jiffies'' long_unsigned_int,
      Field ''gp_func'' rcu_tasks_gp_func_t,
      Field ''pregp_func'' pregp_func_t,
      Field ''pertask_func'' pertask_func_t,
      Field ''postscan_func'' postscan_func_t,
      Field ''holdouts_func'' holdouts_func_t,
      Field ''postgp_func'' postgp_func_t,
      Field ''call_func'' call_rcu_func_t,
      Field ''wait_state'' unsigned_int,
      Field ''rtpcpu'' (CPtr ''struct rcu_tasks_percpu''),
      Field ''rtpcp_array'' (CPtr ''struct rcu_tasks_percpu *''),
      Field ''percpu_enqueue_shift'' c_int,
      Field ''percpu_enqueue_lim'' c_int,
      Field ''percpu_dequeue_lim'' c_int,
      Field ''percpu_dequeue_gpseq'' long_unsigned_int,
      Field ''barrier_q_mutex'' struct_mutex,
      Field ''barrier_q_count'' atomic_t,
      Field ''barrier_q_completion'' struct_completion,
      Field ''barrier_q_seq'' long_unsigned_int,
      Field ''barrier_q_start'' long_unsigned_int,
      Field ''name'' (CPtr ''char''),
      Field ''kname'' (CPtr ''char'')]"

definition struct_virtnet_rq_stats :: cty where
  "struct_virtnet_rq_stats = CStruct ''virtnet_rq_stats'' False
     [Field ''syncp'' struct_u64_stats_sync,
      Field ''packets'' u64_stats_t,
      Field ''bytes'' u64_stats_t,
      Field ''drops'' u64_stats_t,
      Field ''xdp_packets'' u64_stats_t,
      Field ''xdp_tx'' u64_stats_t,
      Field ''xdp_redirects'' u64_stats_t,
      Field ''xdp_drops'' u64_stats_t,
      Field ''kicks'' u64_stats_t]"

definition struct_dim_stats :: cty where
  "struct_dim_stats = CStruct ''dim_stats'' False
     [Field ''ppms'' c_int,
      Field ''bpms'' c_int,
      Field ''epms'' c_int,
      Field ''cpms'' c_int,
      Field ''cpe_ratio'' c_int]"

definition struct_dim_sample :: cty where
  "struct_dim_sample = CStruct ''dim_sample'' False
     [Field ''time'' ktime_t,
      Field ''pkt_ctr'' u32,
      Field ''byte_ctr'' u32,
      Field ''event_ctr'' u16,
      Field ''comp_ctr'' u32]"

definition struct_dim :: cty where
  "struct_dim = CStruct ''dim'' False
     [Field ''state'' u8,
      Field ''prev_stats'' struct_dim_stats,
      Field ''start_sample'' struct_dim_sample,
      Field ''measuring_sample'' struct_dim_sample,
      Field ''work'' struct_work_struct,
      Field ''priv'' (CPtr ''void''),
      Field ''profile_ix'' u8,
      Field ''mode'' u8,
      Field ''tune_state'' u8,
      Field ''steps_right'' u8,
      Field ''steps_left'' u8,
      Field ''tired'' u8]"

definition struct_virtnet_interrupt_coalesce :: cty where
  "struct_virtnet_interrupt_coalesce = CStruct ''virtnet_interrupt_coalesce'' False
     [Field ''max_packets'' u32,
      Field ''max_usecs'' u32]"

definition struct_ewma_pkt_len :: cty where
  "struct_ewma_pkt_len = CStruct ''ewma_pkt_len'' False
     [Field ''internal'' long_unsigned_int]"

definition struct_receive_queue :: cty where
  "struct_receive_queue = CStruct ''receive_queue'' False
     [Field ''vq'' (CPtr ''struct virtqueue''),
      Field ''napi'' struct_napi_struct,
      Field ''xdp_prog'' (CPtr ''struct bpf_prog''),
      Field ''stats'' struct_virtnet_rq_stats,
      Field ''calls'' u16,
      Field ''dim_enabled'' bool,
      Field ''dim_lock'' struct_mutex,
      Field ''dim'' struct_dim,
      Field ''packets_in_napi'' u32,
      Field ''intr_coal'' struct_virtnet_interrupt_coalesce,
      Field ''pages'' (CPtr ''struct page''),
      Field ''mrg_avg_pkt_len'' struct_ewma_pkt_len,
      Field ''alloc_frag'' struct_page_frag,
      Field ''sg'' (CArr 19 struct_scatterlist),
      Field ''min_buf_len'' unsigned_int,
      Field ''name'' (CArr 16 c_char),
      BitField [] c_long 64,
      BitField [] c_long 64,
      BitField [] c_long 64,
      BitField [] c_long 64,
      BitField [] c_long 64,
      BitField [] c_long 64,
      BitField [] c_long 64,
      Field ''xdp_rxq'' struct_xdp_rxq_info,
      Field ''last_dma'' (CPtr ''struct virtnet_rq_dma''),
      Field ''xsk_pool'' (CPtr ''struct xsk_buff_pool''),
      BitField [] c_long 64,
      BitField [] c_long 64,
      BitField [] c_long 64,
      BitField [] c_long 64,
      BitField [] c_long 64,
      BitField [] c_long 64,
      Field ''xsk_rxq_info'' struct_xdp_rxq_info,
      Field ''xsk_buffs'' (CPtr ''struct xdp_buff *''),
      BitField [] c_long 64,
      BitField [] c_long 64,
      BitField [] c_long 64,
      BitField [] c_long 64,
      BitField [] c_long 64,
      BitField [] c_long 64,
      BitField [] c_long 64]"

definition struct_sg_table :: cty where
  "struct_sg_table = CStruct ''sg_table'' False
     [Field ''sgl'' (CPtr ''struct scatterlist''),
      Field ''nents'' unsigned_int,
      Field ''orig_nents'' unsigned_int]"

definition struct_spi_delay :: cty where
  "struct_spi_delay = CStruct ''spi_delay'' False
     [Field ''value'' u16,
      Field ''unit'' u8]"

definition struct_spi_transfer :: cty where
  "struct_spi_transfer = CStruct ''spi_transfer'' False
     [Field ''tx_buf'' (CPtr ''const void''),
      Field ''rx_buf'' (CPtr ''void''),
      Field ''len'' unsigned_int,
      Field ''error'' u16,
      Field ''tx_sg_mapped'' bool,
      Field ''rx_sg_mapped'' bool,
      Field ''tx_sg'' struct_sg_table,
      Field ''rx_sg'' struct_sg_table,
      Field ''tx_dma'' dma_addr_t,
      Field ''rx_dma'' dma_addr_t,
      BitField ''dummy_data'' unsigned_int 1,
      BitField ''cs_off'' unsigned_int 1,
      BitField ''cs_change'' unsigned_int 1,
      BitField ''tx_nbits'' unsigned_int 4,
      BitField ''rx_nbits'' unsigned_int 4,
      BitField ''multi_lane_mode'' unsigned_int 2,
      BitField ''timestamped'' unsigned_int 1,
      Field ''dtr_mode'' bool,
      Field ''bits_per_word'' u8,
      Field ''delay'' struct_spi_delay,
      Field ''cs_change_delay'' struct_spi_delay,
      Field ''word_delay'' struct_spi_delay,
      Field ''speed_hz'' u32,
      Field ''effective_speed_hz'' u32,
      Field ''offload_flags'' unsigned_int,
      Field ''ptp_sts_word_pre'' unsigned_int,
      Field ''ptp_sts_word_post'' unsigned_int,
      Field ''ptp_sts'' (CPtr ''struct ptp_system_timestamp''),
      Field ''transfer_list'' struct_list_head]"

definition struct_regmap_config :: cty where
  "struct_regmap_config = CStruct ''regmap_config'' False
     [Field ''name'' (CPtr ''const char''),
      Field ''reg_bits'' c_int,
      Field ''reg_stride'' c_int,
      Field ''reg_shift'' c_int,
      Field ''reg_base'' unsigned_int,
      Field ''pad_bits'' c_int,
      Field ''val_bits'' c_int,
      Field ''writeable_reg'' (CPtr ''bool (struct device *, unsigned int)''),
      Field ''readable_reg'' (CPtr ''bool (struct device *, unsigned int)''),
      Field ''volatile_reg'' (CPtr ''bool (struct device *, unsigned int)''),
      Field ''precious_reg'' (CPtr ''bool (struct device *, unsigned int)''),
      Field ''writeable_noinc_reg'' (CPtr ''bool (struct device *, unsigned int)''),
      Field ''readable_noinc_reg'' (CPtr ''bool (struct device *, unsigned int)''),
      Field ''reg_read'' (CPtr ''int (void *, unsigned int, unsigned int *)''),
      Field ''reg_write'' (CPtr ''int (void *, unsigned int, unsigned int)''),
      Field ''reg_update_bits'' (CPtr ''int (void *, unsigned int, unsigned int, unsigned int)''),
      Field ''read'' (CPtr ''int (void *, const void *, size_t, void *, size_t)''),
      Field ''write'' (CPtr ''int (void *, const void *, size_t)''),
      Field ''max_raw_read'' size_t,
      Field ''max_raw_write'' size_t,
      Field ''can_sleep'' bool,
      Field ''fast_io'' bool,
      Field ''io_port'' bool,
      Field ''disable_locking'' bool,
      Field ''lock'' regmap_lock,
      Field ''unlock'' regmap_unlock,
      Field ''lock_arg'' (CPtr ''void''),
      Field ''max_register'' unsigned_int,
      Field ''max_register_is_0'' bool,
      Field ''wr_table'' (CPtr ''const struct regmap_access_table''),
      Field ''rd_table'' (CPtr ''const struct regmap_access_table''),
      Field ''volatile_table'' (CPtr ''const struct regmap_access_table''),
      Field ''precious_table'' (CPtr ''const struct regmap_access_table''),
      Field ''wr_noinc_table'' (CPtr ''const struct regmap_access_table''),
      Field ''rd_noinc_table'' (CPtr ''const struct regmap_access_table''),
      Field ''reg_defaults'' (CPtr ''const struct reg_default''),
      Field ''num_reg_defaults'' unsigned_int,
      Field ''reg_default_cb'' (CPtr ''int (struct device *, unsigned int, unsigned int *)''),
      Field ''cache_type'' enum_regcache_type,
      Field ''reg_defaults_raw'' (CPtr ''const void''),
      Field ''num_reg_defaults_raw'' unsigned_int,
      Field ''read_flag_mask'' long_unsigned_int,
      Field ''write_flag_mask'' long_unsigned_int,
      Field ''zero_flag_mask'' bool,
      Field ''use_single_read'' bool,
      Field ''use_single_write'' bool,
      Field ''use_relaxed_mmio'' bool,
      Field ''can_multi_write'' bool,
      Field ''use_hwlock'' bool,
      Field ''use_raw_spinlock'' bool,
      Field ''hwlock_id'' unsigned_int,
      Field ''hwlock_mode'' unsigned_int,
      Field ''reg_format_endian'' enum_regmap_endian,
      Field ''val_format_endian'' enum_regmap_endian,
      Field ''ranges'' (CPtr ''const struct regmap_range_cfg''),
      Field ''num_ranges'' unsigned_int]"

definition struct_regmap_irq_chip :: cty where
  "struct_regmap_irq_chip = CStruct ''regmap_irq_chip'' False
     [Field ''name'' (CPtr ''const char''),
      Field ''domain_suffix'' (CPtr ''const char''),
      Field ''main_status'' unsigned_int,
      Field ''num_main_status_bits'' unsigned_int,
      Field ''sub_reg_offsets'' (CPtr ''const struct regmap_irq_sub_irq_map''),
      Field ''num_main_regs'' c_int,
      Field ''status_base'' unsigned_int,
      Field ''mask_base'' unsigned_int,
      Field ''unmask_base'' unsigned_int,
      Field ''ack_base'' unsigned_int,
      Field ''wake_base'' unsigned_int,
      Field ''config_base'' (CPtr ''const unsigned int''),
      Field ''irq_reg_stride'' unsigned_int,
      BitField ''init_ack_masked'' unsigned_int 1,
      BitField ''mask_unmask_non_inverted'' unsigned_int 1,
      BitField ''use_ack'' unsigned_int 1,
      BitField ''ack_invert'' unsigned_int 1,
      BitField ''clear_ack'' unsigned_int 1,
      BitField ''status_invert'' unsigned_int 1,
      BitField ''status_is_level'' unsigned_int 1,
      BitField ''wake_invert'' unsigned_int 1,
      BitField ''type_in_mask'' unsigned_int 1,
      BitField ''clear_on_unmask'' unsigned_int 1,
      BitField ''runtime_pm'' unsigned_int 1,
      BitField ''no_status'' unsigned_int 1,
      Field ''num_regs'' c_int,
      Field ''irqs'' (CPtr ''const struct regmap_irq''),
      Field ''num_irqs'' c_int,
      Field ''num_config_bases'' c_int,
      Field ''num_config_regs'' c_int,
      Field ''handle_pre_irq'' (CPtr ''int (void *)''),
      Field ''handle_post_irq'' (CPtr ''int (void *)''),
      Field ''handle_mask_sync'' (CPtr ''int (int, unsigned int, unsigned int, void *)''),
      Field ''set_type_config'' (CPtr ''int (unsigned int **, unsigned int, const struct regmap_irq *, int, void *)''),
      Field ''get_irq_reg'' (CPtr ''unsigned int (struct regmap_irq_chip_data *, unsigned int, int)''),
      Field ''irq_drv_data'' (CPtr ''void'')]"

definition struct_rb_time_struct :: cty where
  "struct_rb_time_struct = CStruct ''rb_time_struct'' False
     [Field ''time'' local64_t]"

definition rb_time_t :: cty where [layout_simps]:
  "rb_time_t = struct_rb_time_struct"

definition struct_rb_irq_work :: cty where
  "struct_rb_irq_work = CStruct ''rb_irq_work'' False
     [Field ''work'' struct_irq_work,
      Field ''waiters'' wait_queue_head_t,
      Field ''full_waiters'' wait_queue_head_t,
      Field ''seq'' atomic_t,
      Field ''waiters_pending'' bool,
      Field ''full_waiters_pending'' bool,
      Field ''wakeup_full'' bool]"

definition struct_ring_buffer_per_cpu :: cty where
  "struct_ring_buffer_per_cpu = CStruct ''ring_buffer_per_cpu'' False
     [Field ''cpu'' c_int,
      Field ''record_disabled'' atomic_t,
      Field ''resize_disabled'' atomic_t,
      Field ''buffer'' (CPtr ''struct trace_buffer''),
      Field ''reader_lock'' raw_spinlock_t,
      Field ''lock'' arch_spinlock_t,
      Field ''lock_key'' struct_lock_class_key,
      Field ''free_page'' (CPtr ''struct buffer_data_page''),
      Field ''nr_pages'' long_unsigned_int,
      Field ''current_context'' unsigned_int,
      Field ''pages'' (CPtr ''struct list_head''),
      Field ''cnt'' long_unsigned_int,
      Field ''head_page'' (CPtr ''struct buffer_page''),
      Field ''tail_page'' (CPtr ''struct buffer_page''),
      Field ''commit_page'' (CPtr ''struct buffer_page''),
      Field ''reader_page'' (CPtr ''struct buffer_page''),
      Field ''lost_events'' long_unsigned_int,
      Field ''last_overrun'' long_unsigned_int,
      Field ''nest'' long_unsigned_int,
      Field ''entries_bytes'' local_t,
      Field ''entries'' local_t,
      Field ''overrun'' local_t,
      Field ''commit_overrun'' local_t,
      Field ''dropped_events'' local_t,
      Field ''committing'' local_t,
      Field ''commits'' local_t,
      Field ''pages_touched'' local_t,
      Field ''pages_lost'' local_t,
      Field ''pages_read'' local_t,
      Field ''last_pages_touch'' c_long,
      Field ''shortest_full'' size_t,
      Field ''read'' long_unsigned_int,
      Field ''read_bytes'' long_unsigned_int,
      Field ''write_stamp'' rb_time_t,
      Field ''before_stamp'' rb_time_t,
      Field ''event_stamp'' (CArr 5 u64),
      Field ''read_stamp'' u64,
      Field ''pages_removed'' long_unsigned_int,
      Field ''mapped'' unsigned_int,
      Field ''user_mapped'' unsigned_int,
      Field ''mapping_lock'' struct_mutex,
      Field ''subbuf_ids'' (CPtr ''long unsigned int''),
      Field ''meta_page'' (CPtr ''struct trace_buffer_meta''),
      Field ''ring_meta'' (CPtr ''struct ring_buffer_cpu_meta''),
      Field ''nr_pages_to_update'' c_long,
      Field ''new_pages'' struct_list_head,
      Field ''update_pages_work'' struct_work_struct,
      Field ''update_done'' struct_completion,
      Field ''irq_work'' struct_rb_irq_work]"

definition struct_rio_switch :: cty where
  "struct_rio_switch = CStruct ''rio_switch'' False
     [Field ''node'' struct_list_head,
      Field ''route_table'' (CPtr ''u8''),
      Field ''port_ok'' u32,
      Field ''ops'' (CPtr ''struct rio_switch_ops''),
      Field ''lock'' spinlock_t,
      Field ''nextdev'' (CArr 0 (CPtr ''struct rio_dev''))]"

definition struct_rio_dev :: cty where
  "struct_rio_dev = CStruct ''rio_dev'' False
     [Field ''global_list'' struct_list_head,
      Field ''net_list'' struct_list_head,
      Field ''net'' (CPtr ''struct rio_net''),
      Field ''do_enum'' bool,
      Field ''did'' u16,
      Field ''vid'' u16,
      Field ''device_rev'' u32,
      Field ''asm_did'' u16,
      Field ''asm_vid'' u16,
      Field ''asm_rev'' u16,
      Field ''efptr'' u16,
      Field ''pef'' u32,
      Field ''swpinfo'' u32,
      Field ''src_ops'' u32,
      Field ''dst_ops'' u32,
      Field ''comp_tag'' u32,
      Field ''phys_efptr'' u32,
      Field ''phys_rmap'' u32,
      Field ''em_efptr'' u32,
      Field ''dma_mask'' u64,
      Field ''driver'' (CPtr ''struct rio_driver''),
      Field ''dev'' struct_device,
      Field ''riores'' (CArr 16 struct_resource),
      Field ''pwcback'' (CPtr ''int (struct rio_dev *, union rio_pw_msg *, int)''),
      Field ''destid'' u16,
      Field ''hopcount'' u8,
      Field ''prev'' (CPtr ''struct rio_dev''),
      Field ''state'' atomic_t,
      Field ''rswitch'' (CArr 0 struct_rio_switch)]"

definition struct_rio_msg :: cty where
  "struct_rio_msg = CStruct ''rio_msg'' False
     [Field ''res'' (CPtr ''struct resource''),
      Field ''mcback'' (CPtr ''void (struct rio_mport *, void *, int, int)'')]"

definition struct_rio_mport :: cty where
  "struct_rio_mport = CStruct ''rio_mport'' False
     [Field ''dbells'' struct_list_head,
      Field ''pwrites'' struct_list_head,
      Field ''node'' struct_list_head,
      Field ''nnode'' struct_list_head,
      Field ''net'' (CPtr ''struct rio_net''),
      Field ''lock'' struct_mutex,
      Field ''iores'' struct_resource,
      Field ''riores'' (CArr 16 struct_resource),
      Field ''inb_msg'' (CArr 4 struct_rio_msg),
      Field ''outb_msg'' (CArr 4 struct_rio_msg),
      Field ''host_deviceid'' c_int,
      Field ''ops'' (CPtr ''struct rio_ops''),
      Field ''id'' unsigned_char,
      Field ''index'' unsigned_char,
      Field ''sys_size'' unsigned_int,
      Field ''phys_efptr'' u32,
      Field ''phys_rmap'' u32,
      Field ''name'' (CArr 40 unsigned_char),
      Field ''dev'' struct_device,
      Field ''priv'' (CPtr ''void''),
      Field ''dma'' struct_dma_device,
      Field ''nscan'' (CPtr ''struct rio_scan''),
      Field ''state'' atomic_t,
      Field ''pwe_refcnt'' unsigned_int]"

definition enum_rproc_dump_mechanism :: cty where
  "enum_rproc_dump_mechanism = CEnum 4
     [(''RPROC_COREDUMP_DISABLED'', 0), (''RPROC_COREDUMP_ENABLED'', 1),
      (''RPROC_COREDUMP_INLINE'', 2)]"

definition struct_rproc :: cty where
  "struct_rproc = CStruct ''rproc'' False
     [Field ''node'' struct_list_head,
      Field ''domain'' (CPtr ''struct iommu_domain''),
      Field ''name'' (CPtr ''const char''),
      Field ''firmware'' (CPtr ''const char''),
      Field ''priv'' (CPtr ''void''),
      Field ''ops'' (CPtr ''struct rproc_ops''),
      Field ''dev'' struct_device,
      Field ''power'' atomic_t,
      Field ''state'' unsigned_int,
      Field ''dump_conf'' enum_rproc_dump_mechanism,
      Field ''lock'' struct_mutex,
      Field ''dbg_dir'' (CPtr ''struct dentry''),
      Field ''traces'' struct_list_head,
      Field ''num_traces'' c_int,
      Field ''carveouts'' struct_list_head,
      Field ''mappings'' struct_list_head,
      Field ''bootaddr'' u64,
      Field ''rvdevs'' struct_list_head,
      Field ''subdevs'' struct_list_head,
      Field ''notifyids'' struct_idr,
      Field ''index'' c_int,
      Field ''crash_handler'' struct_work_struct,
      Field ''crash_cnt'' unsigned_int,
      Field ''recovery_disabled'' bool,
      Field ''max_notifyid'' c_int,
      Field ''table_ptr'' (CPtr ''struct resource_table''),
      Field ''clean_table'' (CPtr ''struct resource_table''),
      Field ''cached_table'' (CPtr ''struct resource_table''),
      Field ''table_sz'' size_t,
      Field ''has_iommu'' bool,
      Field ''auto_boot'' bool,
      Field ''sysfs_read_only'' bool,
      Field ''dump_segments'' struct_list_head,
      Field ''nb_vdev'' c_int,
      Field ''elf_class'' u8,
      Field ''elf_machine'' u16,
      Field ''cdev'' struct_cdev,
      Field ''cdev_put_on_release'' bool,
      Field ''features'' (CArr 1 long_unsigned_int)]"

definition struct_sigcontext_64 :: cty where
  "struct_sigcontext_64 = CStruct ''sigcontext_64'' False
     [Field ''r8'' c__u64,
      Field ''r9'' c__u64,
      Field ''r10'' c__u64,
      Field ''r11'' c__u64,
      Field ''r12'' c__u64,
      Field ''r13'' c__u64,
      Field ''r14'' c__u64,
      Field ''r15'' c__u64,
      Field ''di'' c__u64,
      Field ''si'' c__u64,
      Field ''bp'' c__u64,
      Field ''bx'' c__u64,
      Field ''dx'' c__u64,
      Field ''ax'' c__u64,
      Field ''cx'' c__u64,
      Field ''sp'' c__u64,
      Field ''ip'' c__u64,
      Field ''flags'' c__u64,
      Field ''cs'' c__u16,
      Field ''gs'' c__u16,
      Field ''fs'' c__u16,
      Field ''ss'' c__u16,
      Field ''err'' c__u64,
      Field ''trapno'' c__u64,
      Field ''oldmask'' c__u64,
      Field ''cr2'' c__u64,
      Field ''fpstate'' c__u64,
      Field ''reserved1'' (CArr 8 c__u64)]"

definition struct_sigcontext_32 :: cty where
  "struct_sigcontext_32 = CStruct ''sigcontext_32'' False
     [Field ''gs'' c__u16,
      Field ''__gsh'' c__u16,
      Field ''fs'' c__u16,
      Field ''__fsh'' c__u16,
      Field ''es'' c__u16,
      Field ''__esh'' c__u16,
      Field ''ds'' c__u16,
      Field ''__dsh'' c__u16,
      Field ''di'' c__u32,
      Field ''si'' c__u32,
      Field ''bp'' c__u32,
      Field ''sp'' c__u32,
      Field ''bx'' c__u32,
      Field ''dx'' c__u32,
      Field ''cx'' c__u32,
      Field ''ax'' c__u32,
      Field ''trapno'' c__u32,
      Field ''err'' c__u32,
      Field ''ip'' c__u32,
      Field ''cs'' c__u16,
      Field ''__csh'' c__u16,
      Field ''flags'' c__u32,
      Field ''sp_at_signal'' c__u32,
      Field ''ss'' c__u16,
      Field ''__ssh'' c__u16,
      Field ''fpstate'' c__u32,
      Field ''oldmask'' c__u32,
      Field ''cr2'' c__u32]"

definition struct_rtc_timer :: cty where
  "struct_rtc_timer = CStruct ''rtc_timer'' False
     [Field ''node'' struct_timerqueue_node,
      Field ''period'' ktime_t,
      Field ''func'' (CPtr ''void (struct rtc_device *)''),
      Field ''rtc'' (CPtr ''struct rtc_device''),
      Field ''enabled'' c_int]"

definition timeu64_t :: cty where [layout_simps]:
  "timeu64_t = c__u64"

definition struct_rtc_device :: cty where
  "struct_rtc_device = CStruct ''rtc_device'' False
     [Field ''dev'' struct_device,
      Field ''owner'' (CPtr ''struct module''),
      Field ''id'' c_int,
      Field ''ops'' (CPtr ''const struct rtc_class_ops''),
      Field ''ops_lock'' struct_mutex,
      Field ''char_dev'' struct_cdev,
      Field ''flags'' long_unsigned_int,
      Field ''irq_data'' long_unsigned_int,
      Field ''irq_lock'' spinlock_t,
      Field ''irq_queue'' wait_queue_head_t,
      Field ''async_queue'' (CPtr ''struct fasync_struct''),
      Field ''irq_freq'' c_int,
      Field ''max_user_freq'' c_int,
      Field ''timerqueue'' struct_timerqueue_head,
      Field ''aie_timer'' struct_rtc_timer,
      Field ''uie_rtctimer'' struct_rtc_timer,
      Field ''pie_timer'' struct_hrtimer,
      Field ''pie_enabled'' c_int,
      Field ''irqwork'' struct_work_struct,
      Field ''set_offset_nsec'' long_unsigned_int,
      Field ''features'' (CArr 1 long_unsigned_int),
      Field ''range_min'' time64_t,
      Field ''range_max'' timeu64_t,
      Field ''alarm_offset_max'' timeu64_t,
      Field ''start_secs'' time64_t,
      Field ''offset_secs'' time64_t,
      Field ''set_start_time'' bool]"

definition struct_rtnl_link_stats :: cty where
  "struct_rtnl_link_stats = CStruct ''rtnl_link_stats'' False
     [Field ''rx_packets'' c__u32,
      Field ''tx_packets'' c__u32,
      Field ''rx_bytes'' c__u32,
      Field ''tx_bytes'' c__u32,
      Field ''rx_errors'' c__u32,
      Field ''tx_errors'' c__u32,
      Field ''rx_dropped'' c__u32,
      Field ''tx_dropped'' c__u32,
      Field ''multicast'' c__u32,
      Field ''collisions'' c__u32,
      Field ''rx_length_errors'' c__u32,
      Field ''rx_over_errors'' c__u32,
      Field ''rx_crc_errors'' c__u32,
      Field ''rx_frame_errors'' c__u32,
      Field ''rx_fifo_errors'' c__u32,
      Field ''rx_missed_errors'' c__u32,
      Field ''tx_aborted_errors'' c__u32,
      Field ''tx_carrier_errors'' c__u32,
      Field ''tx_fifo_errors'' c__u32,
      Field ''tx_heartbeat_errors'' c__u32,
      Field ''tx_window_errors'' c__u32,
      Field ''rx_compressed'' c__u32,
      Field ''tx_compressed'' c__u32,
      Field ''rx_nohandler'' c__u32]"

definition struct_saved_msrs :: cty where
  "struct_saved_msrs = CStruct ''saved_msrs'' False
     [Field ''num'' unsigned_int,
      Field ''array'' (CPtr ''struct saved_msr'')]"

definition struct_desc_ptr :: cty where
  "struct_desc_ptr = CStruct ''desc_ptr'' True
     [Field ''size'' short_unsigned_int,
      Field ''address'' long_unsigned_int]"

definition struct_saved_context :: cty where
  "struct_saved_context = CStruct ''saved_context'' True
     [Field ''regs'' struct_pt_regs,
      Field ''ds'' u16,
      Field ''es'' u16,
      Field ''fs'' u16,
      Field ''gs'' u16,
      Field ''kernelmode_gs_base'' long_unsigned_int,
      Field ''usermode_gs_base'' long_unsigned_int,
      Field ''fs_base'' long_unsigned_int,
      Field ''cr0'' long_unsigned_int,
      Field ''cr2'' long_unsigned_int,
      Field ''cr3'' long_unsigned_int,
      Field ''cr4'' long_unsigned_int,
      Field ''misc_enable'' u64,
      Field ''saved_msrs'' struct_saved_msrs,
      Field ''efer'' long_unsigned_int,
      Field ''gdt_pad'' u16,
      Field ''gdt_desc'' struct_desc_ptr,
      Field ''idt_pad'' u16,
      Field ''idt'' struct_desc_ptr,
      Field ''ldt'' u16,
      Field ''tss'' u16,
      Field ''tr'' long_unsigned_int,
      Field ''safety'' long_unsigned_int,
      Field ''return_address'' long_unsigned_int,
      Field ''misc_enable_saved'' bool]"

definition struct_scan_control :: cty where
  "struct_scan_control = CStruct ''scan_control'' False
     [Field ''nr_to_reclaim'' long_unsigned_int,
      Field ''nodemask'' (CPtr ''nodemask_t''),
      Field ''target_mem_cgroup'' (CPtr ''struct mem_cgroup''),
      Field ''anon_cost'' long_unsigned_int,
      Field ''file_cost'' long_unsigned_int,
      Field ''proactive_swappiness'' (CPtr ''int''),
      BitField ''may_deactivate'' unsigned_int 2,
      BitField ''force_deactivate'' unsigned_int 1,
      BitField ''skipped_deactivate'' unsigned_int 1,
      BitField ''may_writepage'' unsigned_int 1,
      BitField ''may_unmap'' unsigned_int 1,
      BitField ''may_swap'' unsigned_int 1,
      BitField ''no_cache_trim_mode'' unsigned_int 1,
      BitField ''cache_trim_mode_failed'' unsigned_int 1,
      BitField ''proactive'' unsigned_int 1,
      BitField ''memcg_low_reclaim'' unsigned_int 1,
      BitField ''memcg_low_skipped'' unsigned_int 1,
      BitField ''memcg_full_walk'' unsigned_int 1,
      BitField ''hibernation_mode'' unsigned_int 1,
      BitField ''compaction_ready'' unsigned_int 1,
      BitField ''cache_trim_mode'' unsigned_int 1,
      BitField ''file_is_tiny'' unsigned_int 1,
      BitField ''no_demotion'' unsigned_int 1,
      Field ''order'' s8,
      Field ''priority'' s8,
      Field ''reclaim_idx'' s8,
      Field ''gfp_mask'' gfp_t,
      Field ''nr_scanned'' long_unsigned_int,
      Field ''nr_reclaimed'' long_unsigned_int,
      Field ''nr'' (CStruct [] False
        [Field ''dirty'' unsigned_int,
         Field ''unqueued_dirty'' unsigned_int,
         Field ''congested'' unsigned_int,
         Field ''writeback'' unsigned_int,
         Field ''immediate'' unsigned_int,
         Field ''file_taken'' unsigned_int,
         Field ''taken'' unsigned_int]),
      Field ''reclaim_state'' struct_reclaim_state]"

definition enum_scsi_cmnd_submitter :: cty where
  "enum_scsi_cmnd_submitter = CEnum 1
     [(''SUBMITTED_BY_BLOCK_LAYER'', 0), (''SUBMITTED_BY_SCSI_ERROR_HANDLER'', 1),
      (''SUBMITTED_BY_SCSI_RESET_IOCTL'', 2)]"

definition struct_scsi_data_buffer :: cty where
  "struct_scsi_data_buffer = CStruct ''scsi_data_buffer'' False
     [Field ''table'' struct_sg_table,
      Field ''length'' unsigned_int]"

definition struct_scsi_cmnd :: cty where
  "struct_scsi_cmnd = CStruct ''scsi_cmnd'' False
     [Field ''device'' (CPtr ''struct scsi_device''),
      Field ''eh_entry'' struct_list_head,
      Field ''abort_work'' struct_delayed_work,
      Field ''rcu'' struct_callback_head,
      Field ''eh_eflags'' c_int,
      Field ''budget_token'' c_int,
      Field ''jiffies_at_alloc'' long_unsigned_int,
      Field ''retries'' c_int,
      Field ''allowed'' c_int,
      Field ''prot_op'' unsigned_char,
      Field ''prot_type'' unsigned_char,
      Field ''prot_flags'' unsigned_char,
      Field ''submitter'' enum_scsi_cmnd_submitter,
      Field ''cmd_len'' short_unsigned_int,
      Field ''sc_data_direction'' enum_dma_data_direction,
      Field ''cmnd'' (CArr 32 unsigned_char),
      Field ''sdb'' struct_scsi_data_buffer,
      Field ''prot_sdb'' (CPtr ''struct scsi_data_buffer''),
      Field ''underflow'' unsigned_int,
      Field ''transfersize'' unsigned_int,
      Field ''resid_len'' unsigned_int,
      Field ''sense_len'' unsigned_int,
      Field ''sense_buffer'' (CPtr ''unsigned char''),
      Field ''flags'' c_int,
      Field ''state'' long_unsigned_int,
      Field ''extra_len'' unsigned_int,
      Field ''host_scribble'' (CPtr ''unsigned char''),
      Field ''result'' c_int]"

definition blist_flags_t :: cty where [layout_simps]:
  "blist_flags_t = c__u64"

definition enum_scsi_device_state :: cty where
  "enum_scsi_device_state = CEnum 4
     [(''SDEV_CREATED'', 1), (''SDEV_RUNNING'', 2), (''SDEV_CANCEL'', 3), (''SDEV_DEL'', 4),
      (''SDEV_QUIESCE'', 5), (''SDEV_OFFLINE'', 6), (''SDEV_TRANSPORT_OFFLINE'', 7),
      (''SDEV_BLOCK'', 8), (''SDEV_CREATED_BLOCK'', 9)]"

definition struct_scsi_device :: cty where
  "struct_scsi_device = CStruct ''scsi_device'' False
     [Field ''host'' (CPtr ''struct Scsi_Host''),
      Field ''request_queue'' (CPtr ''struct request_queue''),
      Field ''siblings'' struct_list_head,
      Field ''same_target_siblings'' struct_list_head,
      Field ''budget_map'' struct_sbitmap,
      Field ''device_blocked'' atomic_t,
      Field ''restarts'' atomic_t,
      Field ''list_lock'' spinlock_t,
      Field ''starved_entry'' struct_list_head,
      Field ''queue_depth'' short_unsigned_int,
      Field ''max_queue_depth'' short_unsigned_int,
      Field ''last_queue_full_depth'' short_unsigned_int,
      Field ''last_queue_full_count'' short_unsigned_int,
      Field ''last_queue_full_time'' long_unsigned_int,
      Field ''queue_ramp_up_period'' long_unsigned_int,
      Field ''last_queue_ramp_up'' long_unsigned_int,
      Field ''id'' unsigned_int,
      Field ''channel'' unsigned_int,
      Field ''lun'' u64,
      Field ''manufacturer'' unsigned_int,
      Field ''sector_size'' unsigned_int,
      Field ''hostdata'' (CPtr ''void''),
      Field ''type'' unsigned_char,
      Field ''scsi_level'' c_char,
      Field ''inq_periph_qual'' c_char,
      Field ''inquiry_mutex'' struct_mutex,
      Field ''inquiry_len'' unsigned_char,
      Field ''inquiry'' (CPtr ''unsigned char''),
      Field ''vendor'' (CPtr ''const char''),
      Field ''model'' (CPtr ''const char''),
      Field ''rev'' (CPtr ''const char''),
      Field ''vpd_pg0'' (CPtr ''struct scsi_vpd''),
      Field ''vpd_pg83'' (CPtr ''struct scsi_vpd''),
      Field ''vpd_pg80'' (CPtr ''struct scsi_vpd''),
      Field ''vpd_pg89'' (CPtr ''struct scsi_vpd''),
      Field ''vpd_pgb0'' (CPtr ''struct scsi_vpd''),
      Field ''vpd_pgb1'' (CPtr ''struct scsi_vpd''),
      Field ''vpd_pgb2'' (CPtr ''struct scsi_vpd''),
      Field ''vpd_pgb7'' (CPtr ''struct scsi_vpd''),
      Field ''sdev_target'' (CPtr ''struct scsi_target''),
      Field ''sdev_bflags'' blist_flags_t,
      Field ''eh_timeout'' unsigned_int,
      BitField ''manage_system_start_stop'' unsigned_int 1,
      BitField ''manage_runtime_start_stop'' unsigned_int 1,
      BitField ''manage_shutdown'' unsigned_int 1,
      BitField ''manage_restart'' unsigned_int 1,
      BitField ''force_runtime_start_on_system_start'' unsigned_int 1,
      BitField ''is_ata'' unsigned_int 1,
      BitField ''removable'' unsigned_int 1,
      BitField ''changed'' unsigned_int 1,
      BitField ''busy'' unsigned_int 1,
      BitField ''lockable'' unsigned_int 1,
      BitField ''locked'' unsigned_int 1,
      BitField ''borken'' unsigned_int 1,
      BitField ''disconnect'' unsigned_int 1,
      BitField ''soft_reset'' unsigned_int 1,
      BitField ''sdtr'' unsigned_int 1,
      BitField ''wdtr'' unsigned_int 1,
      BitField ''ppr'' unsigned_int 1,
      BitField ''tagged_supported'' unsigned_int 1,
      BitField ''simple_tags'' unsigned_int 1,
      BitField ''was_reset'' unsigned_int 1,
      BitField ''expecting_cc_ua'' unsigned_int 1,
      BitField ''use_10_for_rw'' unsigned_int 1,
      BitField ''use_10_for_ms'' unsigned_int 1,
      BitField ''set_dbd_for_ms'' unsigned_int 1,
      BitField ''read_before_ms'' unsigned_int 1,
      BitField ''no_report_opcodes'' unsigned_int 1,
      BitField ''no_write_same'' unsigned_int 1,
      BitField ''use_16_for_rw'' unsigned_int 1,
      BitField ''use_16_for_sync'' unsigned_int 1,
      BitField ''skip_ms_page_8'' unsigned_int 1,
      BitField ''skip_ms_page_3f'' unsigned_int 1,
      BitField ''skip_vpd_pages'' unsigned_int 1,
      BitField ''try_vpd_pages'' unsigned_int 1,
      BitField ''use_192_bytes_for_3f'' unsigned_int 1,
      BitField ''no_start_on_add'' unsigned_int 1,
      BitField ''allow_restart'' unsigned_int 1,
      BitField ''start_stop_pwr_cond'' unsigned_int 1,
      BitField ''no_uld_attach'' unsigned_int 1,
      BitField ''select_no_atn'' unsigned_int 1,
      BitField ''fix_capacity'' unsigned_int 1,
      BitField ''guess_capacity'' unsigned_int 1,
      BitField ''retry_hwerror'' unsigned_int 1,
      BitField ''last_sector_bug'' unsigned_int 1,
      BitField ''no_read_disc_info'' unsigned_int 1,
      BitField ''no_read_capacity_16'' unsigned_int 1,
      BitField ''try_rc_10_first'' unsigned_int 1,
      BitField ''security_supported'' unsigned_int 1,
      BitField ''is_visible'' unsigned_int 1,
      BitField ''wce_default_on'' unsigned_int 1,
      BitField ''no_dif'' unsigned_int 1,
      BitField ''broken_fua'' unsigned_int 1,
      BitField ''lun_in_cdb'' unsigned_int 1,
      BitField ''unmap_limit_for_ws'' unsigned_int 1,
      BitField ''rpm_autosuspend'' unsigned_int 1,
      BitField ''ignore_media_change'' unsigned_int 1,
      BitField ''silence_suspend'' unsigned_int 1,
      BitField ''no_vpd_size'' unsigned_int 1,
      BitField ''cdl_supported'' unsigned_int 1,
      BitField ''cdl_enable'' unsigned_int 1,
      Field ''queue_stopped'' unsigned_int,
      Field ''offline_already'' bool,
      Field ''ua_new_media_ctr'' atomic_t,
      Field ''ua_por_ctr'' atomic_t,
      Field ''disk_events_disable_depth'' atomic_t,
      Field ''supported_events'' (CArr 1 long_unsigned_int),
      Field ''pending_events'' (CArr 1 long_unsigned_int),
      Field ''event_list'' struct_list_head,
      Field ''event_work'' struct_work_struct,
      Field ''max_device_blocked'' unsigned_int,
      Field ''iorequest_cnt'' atomic_t,
      Field ''iodone_cnt'' atomic_t,
      Field ''ioerr_cnt'' atomic_t,
      Field ''iotmo_cnt'' atomic_t,
      Field ''sdev_gendev'' struct_device,
      Field ''sdev_dev'' struct_device,
      Field ''requeue_work'' struct_work_struct,
      Field ''handler'' (CPtr ''struct scsi_device_handler''),
      Field ''handler_data'' (CPtr ''void''),
      Field ''dma_drain_len'' size_t,
      Field ''dma_drain_buf'' (CPtr ''void''),
      Field ''sg_timeout'' unsigned_int,
      Field ''sg_reserved_size'' unsigned_int,
      Field ''bsg_dev'' (CPtr ''struct bsg_device''),
      Field ''access_state'' unsigned_char,
      Field ''state_mutex'' struct_mutex,
      Field ''sdev_state'' enum_scsi_device_state,
      Field ''quiesced_by'' (CPtr ''struct task_struct''),
      Field ''sdev_data'' (CArr 0 long_unsigned_int)]"

section \<open>Sizes and alignments\<close>

lemma struct_xen_netif_tx_front_ring_layout [layout_simps]:
  "sizeof struct_xen_netif_tx_front_ring = 24 \<and> alignof struct_xen_netif_tx_front_ring = 8 \<and> wf_cty struct_xen_netif_tx_front_ring"
  by (simp add: struct_xen_netif_tx_front_ring_def base_types layout_eval RING_IDX_def
      del: One_nat_def)

lemma struct_xen_netif_rx_front_ring_layout [layout_simps]:
  "sizeof struct_xen_netif_rx_front_ring = 24 \<and> alignof struct_xen_netif_rx_front_ring = 8 \<and> wf_cty struct_xen_netif_rx_front_ring"
  by (simp add: struct_xen_netif_rx_front_ring_def base_types layout_eval RING_IDX_def
      del: One_nat_def)

lemma struct_netfront_queue_layout [layout_simps]:
  "sizeof struct_netfront_queue = 9600 \<and> alignof struct_netfront_queue = 8 \<and> wf_cty struct_netfront_queue"
  by (simp add: struct_netfront_queue_def base_types layout_eval struct_napi_struct_layout spinlock_t_def
      struct_spinlock_layout struct_xen_netif_tx_front_ring_layout grant_ref_t_def uint32_t_def u32_def
      c__u32_def struct_xen_netif_rx_front_ring_layout struct_timer_list_layout
      struct_xdp_rxq_info_layout
      del: One_nat_def)

lemma struct_xen_netif_extra_info_layout [layout_simps]:
  "sizeof struct_xen_netif_extra_info = 8 \<and> alignof struct_xen_netif_extra_info = 2 \<and> wf_cty struct_xen_netif_extra_info"
  by (simp add: struct_xen_netif_extra_info_def base_types layout_eval uint8_t_def u8_def c__u8_def uint16_t_def u16_def
      c__u16_def
      del: One_nat_def)

lemma struct_netlink_callback_layout [layout_simps]:
  "sizeof struct_netlink_callback = 128 \<and> alignof struct_netlink_callback = 8 \<and> wf_cty struct_netlink_callback"
  by (simp add: struct_netlink_callback_def base_types layout_eval u16_def c__u16_def u32_def c__u32_def bool_def u8_def
      c__u8_def
      del: One_nat_def)

lemma struct_netlink_sock_layout [layout_simps]:
  "sizeof struct_netlink_sock = 1120 \<and> alignof struct_netlink_sock = 8 \<and> wf_cty struct_netlink_sock"
  by (simp add: struct_netlink_sock_def base_types layout_eval struct_sock_layout u32_def c__u32_def size_t_def
      c__kernel_size_t_def c__kernel_ulong_t_def wait_queue_head_t_def struct_wait_queue_head_layout
      bool_def struct_netlink_callback_layout struct_mutex_layout struct_rhash_head_layout
      struct_callback_head_layout
      del: One_nat_def)

lemma union_nf_inet_addr_layout [layout_simps]:
  "sizeof union_nf_inet_addr = 16 \<and> alignof union_nf_inet_addr = 4 \<and> wf_cty union_nf_inet_addr"
  by (simp add: union_nf_inet_addr_def base_types layout_eval c__u32_def c__be32_def struct_in_addr_layout
      struct_in6_addr_layout
      del: One_nat_def)

lemma union_nf_conntrack_man_proto_layout [layout_simps]:
  "sizeof union_nf_conntrack_man_proto = 2 \<and> alignof union_nf_conntrack_man_proto = 2 \<and> wf_cty union_nf_conntrack_man_proto"
  by (simp add: union_nf_conntrack_man_proto_def base_types layout_eval c__be16_def c__u16_def
      del: One_nat_def)

lemma struct_nf_conntrack_man_layout [layout_simps]:
  "sizeof struct_nf_conntrack_man = 20 \<and> alignof struct_nf_conntrack_man = 4 \<and> wf_cty struct_nf_conntrack_man"
  by (simp add: struct_nf_conntrack_man_def base_types layout_eval union_nf_inet_addr_layout
      union_nf_conntrack_man_proto_layout u_int16_t_def u16_def c__u16_def
      del: One_nat_def)

lemma struct_nf_conntrack_tuple_layout [layout_simps]:
  "sizeof struct_nf_conntrack_tuple = 40 \<and> alignof struct_nf_conntrack_tuple = 4 \<and> wf_cty struct_nf_conntrack_tuple"
  by (simp add: struct_nf_conntrack_tuple_def base_types layout_eval struct_nf_conntrack_man_layout
      union_nf_inet_addr_layout c__be16_def c__u16_def u_int8_t_def u8_def c__u8_def
      del: One_nat_def)

lemma struct_nfs_fattr_layout [layout_simps]:
  "sizeof struct_nfs_fattr = 248 \<and> alignof struct_nfs_fattr = 8 \<and> wf_cty struct_nfs_fattr"
  by (simp add: struct_nfs_fattr_def base_types layout_eval c__u64_def umode_t_def c__u32_def kuid_t_layout kgid_t_layout
      dev_t_def c__kernel_dev_t_def u32_def struct_nfs_fsid_layout struct_timespec64_layout
      del: One_nat_def)

lemma struct_nfs_write_verifier_layout [layout_simps]:
  "sizeof struct_nfs_write_verifier = 8 \<and> alignof struct_nfs_write_verifier = 1 \<and> wf_cty struct_nfs_write_verifier"
  by (simp add: struct_nfs_write_verifier_def base_types layout_eval
      del: One_nat_def)

lemma enum_nfs3_stable_how_layout [layout_simps]:
  "sizeof enum_nfs3_stable_how = 4 \<and> alignof enum_nfs3_stable_how = 4 \<and> wf_cty enum_nfs3_stable_how"
  by (simp add: enum_nfs3_stable_how_def base_types layout_eval
      del: One_nat_def)

lemma struct_nfs_writeverf_layout [layout_simps]:
  "sizeof struct_nfs_writeverf = 12 \<and> alignof struct_nfs_writeverf = 4 \<and> wf_cty struct_nfs_writeverf"
  by (simp add: struct_nfs_writeverf_def base_types layout_eval struct_nfs_write_verifier_layout
      enum_nfs3_stable_how_layout
      del: One_nat_def)

lemma struct_nfs4_sequence_args_layout [layout_simps]:
  "sizeof struct_nfs4_sequence_args = 16 \<and> alignof struct_nfs4_sequence_args = 8 \<and> wf_cty struct_nfs4_sequence_args"
  by (simp add: struct_nfs4_sequence_args_def base_types layout_eval u8_def c__u8_def
      del: One_nat_def)

lemma struct_nfs_pgio_args_layout [layout_simps]:
  "sizeof struct_nfs_pgio_args = 112 \<and> alignof struct_nfs_pgio_args = 8 \<and> wf_cty struct_nfs_pgio_args"
  by (simp add: struct_nfs_pgio_args_def base_types layout_eval struct_nfs4_sequence_args_layout nfs4_stateid_def
      struct_nfs4_stateid_struct_layout c__u64_def c__u32_def u32_def enum_nfs3_stable_how_layout
      del: One_nat_def)

lemma struct_nfs4_sequence_res_layout [layout_simps]:
  "sizeof struct_nfs4_sequence_res = 40 \<and> alignof struct_nfs4_sequence_res = 8 \<and> wf_cty struct_nfs4_sequence_res"
  by (simp add: struct_nfs4_sequence_res_def base_types layout_eval u32_def c__u32_def
      del: One_nat_def)

lemma struct_nfs_pgio_res_layout [layout_simps]:
  "sizeof struct_nfs_pgio_res = 80 \<and> alignof struct_nfs_pgio_res = 8 \<and> wf_cty struct_nfs_pgio_res"
  by (simp add: struct_nfs_pgio_res_def base_types layout_eval struct_nfs4_sequence_res_layout c__u64_def c__u32_def
      del: One_nat_def)

lemma struct_nfs_page_array_layout [layout_simps]:
  "sizeof struct_nfs_page_array = 80 \<and> alignof struct_nfs_page_array = 8 \<and> wf_cty struct_nfs_page_array"
  by (simp add: struct_nfs_page_array_def base_types layout_eval
      del: One_nat_def)

lemma struct_nfs_pgio_header_layout [layout_simps]:
  "sizeof struct_nfs_pgio_header = 936 \<and> alignof struct_nfs_pgio_header = 8 \<and> wf_cty struct_nfs_pgio_header"
  by (simp add: struct_nfs_pgio_header_def base_types layout_eval struct_list_head_layout struct_nfs_writeverf_layout
      fmode_t_def loff_t_def c__kernel_loff_t_def struct_rpc_task_layout struct_nfs_fattr_layout
      struct_nfs_pgio_args_layout struct_nfs_pgio_res_layout c__u64_def struct_nfs_page_array_layout
      u32_def c__u32_def
      del: One_nat_def)

lemma struct_nh_config_layout [layout_simps]:
  "sizeof struct_nh_config = 120 \<and> alignof struct_nh_config = 8 \<and> wf_cty struct_nh_config"
  by (simp add: struct_nh_config_def base_types layout_eval u32_def c__u32_def u8_def c__u8_def c__be32_def
      struct_in6_addr_layout u16_def c__u16_def bool_def struct_nl_info_layout
      del: One_nat_def)

lemma struct_ntb_ctrl_regs_layout [layout_simps]:
  "sizeof struct_ntb_ctrl_regs = 8192 \<and> alignof struct_ntb_ctrl_regs = 8 \<and> wf_cty struct_ntb_ctrl_regs"
  by (simp add: struct_ntb_ctrl_regs_def base_types layout_eval u32_def c__u32_def u16_def c__u16_def u64_def c__u64_def
      del: One_nat_def)

lemma enum_nvmem_type_layout [layout_simps]:
  "sizeof enum_nvmem_type = 4 \<and> alignof enum_nvmem_type = 4 \<and> wf_cty enum_nvmem_type"
  by (simp add: enum_nvmem_type_def base_types layout_eval
      del: One_nat_def)

lemma struct_nvmem_config_layout [layout_simps]:
  "sizeof struct_nvmem_config = 152 \<and> alignof struct_nvmem_config = 8 \<and> wf_cty struct_nvmem_config"
  by (simp add: struct_nvmem_config_def base_types layout_eval bool_def enum_nvmem_type_layout nvmem_reg_read_t_def
      nvmem_reg_write_t_def
      del: One_nat_def)

lemma struct_nvmem_device_layout [layout_simps]:
  "sizeof struct_nvmem_device = 1040 \<and> alignof struct_nvmem_device = 8 \<and> wf_cty struct_nvmem_device"
  by (simp add: struct_nvmem_device_def base_types layout_eval struct_device_layout struct_list_head_layout
      struct_kref_layout size_t_def c__kernel_size_t_def c__kernel_ulong_t_def bool_def
      enum_nvmem_type_layout struct_bin_attribute_layout nvmem_reg_read_t_def nvmem_reg_write_t_def
      del: One_nat_def)

lemma struct_ebitmap_layout [layout_simps]:
  "sizeof struct_ebitmap = 16 \<and> alignof struct_ebitmap = 8 \<and> wf_cty struct_ebitmap"
  by (simp add: struct_ebitmap_def base_types layout_eval u32_def c__u32_def
      del: One_nat_def)

lemma struct_mls_level_layout [layout_simps]:
  "sizeof struct_mls_level = 24 \<and> alignof struct_mls_level = 8 \<and> wf_cty struct_mls_level"
  by (simp add: struct_mls_level_def base_types layout_eval u32_def c__u32_def struct_ebitmap_layout
      del: One_nat_def)

lemma struct_mls_range_layout [layout_simps]:
  "sizeof struct_mls_range = 48 \<and> alignof struct_mls_range = 8 \<and> wf_cty struct_mls_range"
  by (simp add: struct_mls_range_def base_types layout_eval struct_mls_level_layout
      del: One_nat_def)

lemma struct_context___2_layout [layout_simps]:
  "sizeof struct_context___2 = 72 \<and> alignof struct_context___2 = 8 \<and> wf_cty struct_context___2"
  by (simp add: struct_context___2_def base_types layout_eval u32_def c__u32_def struct_mls_range_layout
      del: One_nat_def)

lemma struct_ocontext_layout [layout_simps]:
  "sizeof struct_ocontext = 200 \<and> alignof struct_ocontext = 8 \<and> wf_cty struct_ocontext"
  by (simp add: struct_ocontext_def base_types layout_eval u8_def c__u8_def u16_def c__u16_def u32_def c__u32_def u64_def
      c__u64_def struct_context___2_layout
      del: One_nat_def)

lemma enum_ohci_rh_state_layout [layout_simps]:
  "sizeof enum_ohci_rh_state = 4 \<and> alignof enum_ohci_rh_state = 4 \<and> wf_cty enum_ohci_rh_state"
  by (simp add: enum_ohci_rh_state_def base_types layout_eval
      del: One_nat_def)

lemma struct_ohci_hcd_layout [layout_simps]:
  "sizeof struct_ohci_hcd = 1160 \<and> alignof struct_ohci_hcd = 8 \<and> wf_cty struct_ohci_hcd"
  by (simp add: struct_ohci_hcd_def base_types layout_eval spinlock_t_def struct_spinlock_layout dma_addr_t_def u64_def
      c__u64_def struct_list_head_layout enum_ohci_rh_state_layout u32_def c__u32_def
      struct_timer_list_layout struct_work_struct_layout
      del: One_nat_def)

lemma struct_old_timeval32_layout [layout_simps]:
  "sizeof struct_old_timeval32 = 8 \<and> alignof struct_old_timeval32 = 4 \<and> wf_cty struct_old_timeval32"
  by (simp add: struct_old_timeval32_def base_types layout_eval old_time32_t_def s32_def c__s32_def
      del: One_nat_def)

lemma struct_old_timex32_layout [layout_simps]:
  "sizeof struct_old_timex32 = 128 \<and> alignof struct_old_timex32 = 4 \<and> wf_cty struct_old_timex32"
  by (simp add: struct_old_timex32_def base_types layout_eval u32_def c__u32_def s32_def c__s32_def
      struct_old_timeval32_layout
      del: One_nat_def)

lemma enum_opp_table_access_layout [layout_simps]:
  "sizeof enum_opp_table_access = 4 \<and> alignof enum_opp_table_access = 4 \<and> wf_cty enum_opp_table_access"
  by (simp add: enum_opp_table_access_def base_types layout_eval
      del: One_nat_def)

lemma struct_opp_table_layout [layout_simps]:
  "sizeof struct_opp_table = 592 \<and> alignof struct_opp_table = 8 \<and> wf_cty struct_opp_table"
  by (simp add: struct_opp_table_def base_types layout_eval struct_list_head_layout struct_blocking_notifier_head_layout
      struct_kref_layout struct_mutex_layout enum_opp_table_access_layout config_clks_t_def
      config_regulators_t_def bool_def
      del: One_nat_def)

lemma struct_packet_fanout_layout [layout_simps]:
  "sizeof struct_packet_fanout = 192 \<and> alignof struct_packet_fanout = 8 \<and> wf_cty struct_packet_fanout"
  by (simp add: struct_packet_fanout_def base_types layout_eval possible_net_t_layout u32_def c__u32_def u16_def
      c__u16_def u8_def c__u8_def atomic_t_layout struct_list_head_layout spinlock_t_def
      struct_spinlock_layout refcount_t_def struct_refcount_struct_layout struct_packet_type_layout
      del: One_nat_def)

lemma struct_tpacket_stats_layout [layout_simps]:
  "sizeof struct_tpacket_stats = 8 \<and> alignof struct_tpacket_stats = 4 \<and> wf_cty struct_tpacket_stats"
  by (simp add: struct_tpacket_stats_def base_types layout_eval
      del: One_nat_def)

lemma struct_tpacket_stats_v3_layout [layout_simps]:
  "sizeof struct_tpacket_stats_v3 = 12 \<and> alignof struct_tpacket_stats_v3 = 4 \<and> wf_cty struct_tpacket_stats_v3"
  by (simp add: struct_tpacket_stats_v3_def base_types layout_eval
      del: One_nat_def)

lemma union_tpacket_stats_u_layout [layout_simps]:
  "sizeof union_tpacket_stats_u = 12 \<and> alignof union_tpacket_stats_u = 4 \<and> wf_cty union_tpacket_stats_u"
  by (simp add: union_tpacket_stats_u_def base_types layout_eval struct_tpacket_stats_layout
      struct_tpacket_stats_v3_layout
      del: One_nat_def)

lemma struct_tpacket_kbdq_core_layout [layout_simps]:
  "sizeof struct_tpacket_kbdq_core = 168 \<and> alignof struct_tpacket_kbdq_core = 8 \<and> wf_cty struct_tpacket_kbdq_core"
  by (simp add: struct_tpacket_kbdq_core_def base_types layout_eval uint64_t_def u64_def c__u64_def rwlock_t_def
      struct_rwlock_layout ktime_t_def s64_def c__s64_def struct_hrtimer_layout
      del: One_nat_def)

lemma struct_packet_ring_buffer_layout [layout_simps]:
  "sizeof struct_packet_ring_buffer = 216 \<and> alignof struct_packet_ring_buffer = 8 \<and> wf_cty struct_packet_ring_buffer"
  by (simp add: struct_packet_ring_buffer_def base_types layout_eval struct_tpacket_kbdq_core_layout
      del: One_nat_def)

lemma enum_tpacket_versions_layout [layout_simps]:
  "sizeof enum_tpacket_versions = 4 \<and> alignof enum_tpacket_versions = 4 \<and> wf_cty enum_tpacket_versions"
  by (simp add: enum_tpacket_versions_def base_types layout_eval
      del: One_nat_def)

lemma struct_packet_sock_layout [layout_simps]:
  "sizeof struct_packet_sock = 1600 \<and> alignof struct_packet_sock = 8 \<and> wf_cty struct_packet_sock"
  by (simp add: struct_packet_sock_def base_types layout_eval struct_sock_layout union_tpacket_stats_u_layout
      struct_packet_ring_buffer_layout spinlock_t_def struct_spinlock_layout struct_mutex_layout u8_def
      c__u8_def c__be16_def c__u16_def atomic_long_t_def atomic64_t_layout enum_tpacket_versions_layout
      struct_completion_layout struct_packet_type_layout atomic_t_layout
      del: One_nat_def)

lemma struct_page_pool_params_layout [layout_simps]:
  "sizeof struct_page_pool_params = 80 \<and> alignof struct_page_pool_params = 8 \<and> wf_cty struct_page_pool_params"
  by (simp add: struct_page_pool_params_def base_types layout_eval enum_dma_data_direction_layout
      struct_page_pool_params_fast_layout struct_page_pool_params_slow_layout
      del: One_nat_def)

lemma struct_page_req_dsc_layout [layout_simps]:
  "sizeof struct_page_req_dsc = 32 \<and> alignof struct_page_req_dsc = 8 \<and> wf_cty struct_page_req_dsc"
  by (simp add: struct_page_req_dsc_def base_types layout_eval u64_def c__u64_def
      del: One_nat_def)

lemma struct_pv_cpu_ops_layout [layout_simps]:
  "sizeof struct_pv_cpu_ops = 232 \<and> alignof struct_pv_cpu_ops = 8 \<and> wf_cty struct_pv_cpu_ops"
  by (simp add: struct_pv_cpu_ops_def base_types layout_eval
      del: One_nat_def)

lemma struct_paravirt_callee_save_layout [layout_simps]:
  "sizeof struct_paravirt_callee_save = 8 \<and> alignof struct_paravirt_callee_save = 8 \<and> wf_cty struct_paravirt_callee_save"
  by (simp add: struct_paravirt_callee_save_def base_types layout_eval
      del: One_nat_def)

lemma struct_pv_lazy_ops_layout [layout_simps]:
  "sizeof struct_pv_lazy_ops = 24 \<and> alignof struct_pv_lazy_ops = 8 \<and> wf_cty struct_pv_lazy_ops"
  by (simp add: struct_pv_lazy_ops_def base_types layout_eval
      del: One_nat_def)

lemma struct_pv_mmu_ops_layout [layout_simps]:
  "sizeof struct_pv_mmu_ops = 336 \<and> alignof struct_pv_mmu_ops = 8 \<and> wf_cty struct_pv_mmu_ops"
  by (simp add: struct_pv_mmu_ops_def base_types layout_eval struct_paravirt_callee_save_layout struct_pv_lazy_ops_layout
      del: One_nat_def)

lemma struct_pcpu_block_md_layout [layout_simps]:
  "sizeof struct_pcpu_block_md = 32 \<and> alignof struct_pcpu_block_md = 4 \<and> wf_cty struct_pcpu_block_md"
  by (simp add: struct_pcpu_block_md_def base_types layout_eval
      del: One_nat_def)

lemma struct_pcpu_chunk_layout [layout_simps]:
  "sizeof struct_pcpu_chunk = 192 \<and> alignof struct_pcpu_chunk = 8 \<and> wf_cty struct_pcpu_chunk"
  by (simp add: struct_pcpu_chunk_def base_types layout_eval struct_list_head_layout struct_pcpu_block_md_layout bool_def
      del: One_nat_def)

lemma struct_pe32_opt_hdr_layout [layout_simps]:
  "sizeof struct_pe32_opt_hdr = 96 \<and> alignof struct_pe32_opt_hdr = 4 \<and> wf_cty struct_pe32_opt_hdr"
  by (simp add: struct_pe32_opt_hdr_def base_types layout_eval uint16_t_def u16_def c__u16_def uint8_t_def u8_def
      c__u8_def uint32_t_def u32_def c__u32_def
      del: One_nat_def)

lemma struct_pe32plus_opt_hdr_layout [layout_simps]:
  "sizeof struct_pe32plus_opt_hdr = 112 \<and> alignof struct_pe32plus_opt_hdr = 8 \<and> wf_cty struct_pe32plus_opt_hdr"
  by (simp add: struct_pe32plus_opt_hdr_def base_types layout_eval uint16_t_def u16_def c__u16_def uint8_t_def u8_def
      c__u8_def uint32_t_def u32_def c__u32_def uint64_t_def u64_def c__u64_def
      del: One_nat_def)

lemma struct_pebs_record_skl_layout [layout_simps]:
  "sizeof struct_pebs_record_skl = 200 \<and> alignof struct_pebs_record_skl = 8 \<and> wf_cty struct_pebs_record_skl"
  by (simp add: struct_pebs_record_skl_def base_types layout_eval u64_def c__u64_def
      del: One_nat_def)

lemma struct_phy_configure_opts_mipi_dphy_layout [layout_simps]:
  "sizeof struct_phy_configure_opts_mipi_dphy = 112 \<and> alignof struct_phy_configure_opts_mipi_dphy = 8 \<and> wf_cty struct_phy_configure_opts_mipi_dphy"
  by (simp add: struct_phy_configure_opts_mipi_dphy_def base_types layout_eval
      del: One_nat_def)

lemma struct_plat_serial8250_port_layout [layout_simps]:
  "sizeof struct_plat_serial8250_port = 160 \<and> alignof struct_plat_serial8250_port = 8 \<and> wf_cty struct_plat_serial8250_port"
  by (simp add: struct_plat_serial8250_port_def base_types layout_eval resource_size_t_def phys_addr_t_def u64_def
      c__u64_def upf_t_def u16_def c__u16_def
      del: One_nat_def)

lemma struct_pm860x_platform_data_layout [layout_simps]:
  "sizeof struct_pm860x_platform_data = 200 \<and> alignof struct_pm860x_platform_data = 8 \<and> wf_cty struct_pm860x_platform_data"
  by (simp add: struct_pm860x_platform_data_def base_types layout_eval
      del: One_nat_def)

lemma struct_hashtab_layout [layout_simps]:
  "sizeof struct_hashtab = 16 \<and> alignof struct_hashtab = 8 \<and> wf_cty struct_hashtab"
  by (simp add: struct_hashtab_def base_types layout_eval u32_def c__u32_def
      del: One_nat_def)

lemma struct_symtab_layout [layout_simps]:
  "sizeof struct_symtab = 24 \<and> alignof struct_symtab = 8 \<and> wf_cty struct_symtab"
  by (simp add: struct_symtab_def base_types layout_eval struct_hashtab_layout u32_def c__u32_def
      del: One_nat_def)

lemma struct_avtab_layout [layout_simps]:
  "sizeof struct_avtab = 24 \<and> alignof struct_avtab = 8 \<and> wf_cty struct_avtab"
  by (simp add: struct_avtab_def base_types layout_eval u32_def c__u32_def
      del: One_nat_def)

lemma struct_policydb_layout [layout_simps]:
  "sizeof struct_policydb = 608 \<and> alignof struct_policydb = 8 \<and> wf_cty struct_policydb"
  by (simp add: struct_policydb_def base_types layout_eval struct_symtab_layout struct_avtab_layout struct_hashtab_layout
      struct_ebitmap_layout u32_def c__u32_def size_t_def c__kernel_size_t_def c__kernel_ulong_t_def
      u16_def c__u16_def
      del: One_nat_def)

lemma struct_power_supply_layout [layout_simps]:
  "sizeof struct_power_supply = 1112 \<and> alignof struct_power_supply = 8 \<and> wf_cty struct_power_supply"
  by (simp add: struct_power_supply_def base_types layout_eval size_t_def c__kernel_size_t_def c__kernel_ulong_t_def
      struct_device_layout struct_work_struct_layout struct_delayed_work_layout spinlock_t_def
      struct_spinlock_layout bool_def atomic_t_layout struct_rw_semaphore_layout struct_list_head_layout
      del: One_nat_def)

lemma struct_power_supply_battery_info_layout [layout_simps]:
  "sizeof struct_power_supply_battery_info = 496 \<and> alignof struct_power_supply_battery_info = 8 \<and> wf_cty struct_power_supply_battery_info"
  by (simp add: struct_power_supply_battery_info_def base_types layout_eval
      del: One_nat_def)

lemma struct_ppp_file_layout [layout_simps]:
  "sizeof struct_ppp_file = 96 \<and> alignof struct_ppp_file = 8 \<and> wf_cty struct_ppp_file"
  by (simp add: struct_ppp_file_def base_types layout_eval struct_sk_buff_head_layout wait_queue_head_t_def
      struct_wait_queue_head_layout refcount_t_def struct_refcount_struct_layout
      del: One_nat_def)

lemma enum_NPmode_layout [layout_simps]:
  "sizeof enum_NPmode = 4 \<and> alignof enum_NPmode = 4 \<and> wf_cty enum_NPmode"
  by (simp add: enum_NPmode_def base_types layout_eval
      del: One_nat_def)

lemma struct_ppp_layout [layout_simps]:
  "sizeof struct_ppp = 336 \<and> alignof struct_ppp = 8 \<and> wf_cty struct_ppp"
  by (simp add: struct_ppp_def base_types layout_eval struct_ppp_file_layout struct_list_head_layout spinlock_t_def
      struct_spinlock_layout enum_NPmode_layout u32_def c__u32_def struct_sk_buff_head_layout
      del: One_nat_def)

lemma struct_ptdesc_layout [layout_simps]:
  "sizeof struct_ptdesc = 64 \<and> alignof struct_ptdesc = 8 \<and> wf_cty struct_ptdesc"
  by (simp add: struct_ptdesc_def base_types layout_eval memdesc_flags_t_layout struct_callback_head_layout
      struct_list_head_layout pgtable_t_def atomic_t_layout spinlock_t_def struct_spinlock_layout
      del: One_nat_def)

lemma struct_posix_clock_operations_layout [layout_simps]:
  "sizeof struct_posix_clock_operations = 80 \<and> alignof struct_posix_clock_operations = 8 \<and> wf_cty struct_posix_clock_operations"
  by (simp add: struct_posix_clock_operations_def base_types layout_eval
      del: One_nat_def)

lemma struct_posix_clock_layout [layout_simps]:
  "sizeof struct_posix_clock = 240 \<and> alignof struct_posix_clock = 8 \<and> wf_cty struct_posix_clock"
  by (simp add: struct_posix_clock_def base_types layout_eval struct_posix_clock_operations_layout struct_cdev_layout
      struct_rw_semaphore_layout bool_def
      del: One_nat_def)

lemma struct_kthread_delayed_work_layout [layout_simps]:
  "sizeof struct_kthread_delayed_work = 80 \<and> alignof struct_kthread_delayed_work = 8 \<and> wf_cty struct_kthread_delayed_work"
  by (simp add: struct_kthread_delayed_work_def base_types layout_eval struct_kthread_work_layout
      struct_timer_list_layout
      del: One_nat_def)

lemma struct_ptp_clock_layout [layout_simps]:
  "sizeof struct_ptp_clock = 1400 \<and> alignof struct_ptp_clock = 8 \<and> wf_cty struct_ptp_clock"
  by (simp add: struct_ptp_clock_def base_types layout_eval struct_posix_clock_layout struct_device_layout dev_t_def
      c__kernel_dev_t_def u32_def c__u32_def struct_list_head_layout spinlock_t_def
      struct_spinlock_layout struct_mutex_layout wait_queue_head_t_def struct_wait_queue_head_layout
      struct_attribute_group_layout struct_kthread_delayed_work_layout bool_def
      del: One_nat_def)

lemma struct_ptp_clock_info_layout [layout_simps]:
  "sizeof struct_ptp_clock_info = 208 \<and> alignof struct_ptp_clock_info = 8 \<and> wf_cty struct_ptp_clock_info"
  by (simp add: struct_ptp_clock_info_def base_types layout_eval s32_def c__s32_def
      del: One_nat_def)

lemma union_rcu_noqs_layout [layout_simps]:
  "sizeof union_rcu_noqs = 2 \<and> alignof union_rcu_noqs = 2 \<and> wf_cty union_rcu_noqs"
  by (simp add: union_rcu_noqs_def base_types layout_eval u8_def c__u8_def u16_def c__u16_def
      del: One_nat_def)

lemma struct_rcu_cblist_layout [layout_simps]:
  "sizeof struct_rcu_cblist = 24 \<and> alignof struct_rcu_cblist = 8 \<and> wf_cty struct_rcu_cblist"
  by (simp add: struct_rcu_cblist_def base_types layout_eval
      del: One_nat_def)

lemma struct_rcu_snap_record_layout [layout_simps]:
  "sizeof struct_rcu_snap_record = 64 \<and> alignof struct_rcu_snap_record = 8 \<and> wf_cty struct_rcu_snap_record"
  by (simp add: struct_rcu_snap_record_def base_types layout_eval u64_def c__u64_def
      del: One_nat_def)

lemma struct_rcu_data_layout [layout_simps]:
  "sizeof struct_rcu_data = 960 \<and> alignof struct_rcu_data = 8 \<and> wf_cty struct_rcu_data"
  by (simp add: struct_rcu_data_def base_types layout_eval union_rcu_noqs_layout bool_def struct_irq_work_layout
      struct_work_struct_layout struct_rcu_segcblist_layout struct_callback_head_layout
      struct_swait_queue_head_layout raw_spinlock_t_def struct_raw_spinlock_layout
      struct_timer_list_layout struct_mutex_layout struct_rcu_cblist_layout u8_def c__u8_def
      struct_list_head_layout struct_rcu_snap_record_layout
      del: One_nat_def)

lemma struct_sr_wait_node_layout [layout_simps]:
  "sizeof struct_sr_wait_node = 16 \<and> alignof struct_sr_wait_node = 8 \<and> wf_cty struct_sr_wait_node"
  by (simp add: struct_sr_wait_node_def base_types layout_eval atomic_t_layout struct_llist_node_layout
      del: One_nat_def)

lemma struct_rcu_state_layout [layout_simps]:
  "sizeof struct_rcu_state = 367488 \<and> alignof struct_rcu_state = 8 \<and> wf_cty struct_rcu_state"
  by (simp add: struct_rcu_state_def base_types layout_eval struct_rcu_node_layout struct_swait_queue_head_layout
      struct_mutex_layout atomic_t_layout struct_completion_layout raw_spinlock_t_def
      struct_raw_spinlock_layout u8_def c__u8_def arch_spinlock_t_def struct_qspinlock_layout
      struct_llist_head_layout struct_sr_wait_node_layout struct_work_struct_layout
      del: One_nat_def)

lemma struct_rcu_tasks_layout [layout_simps]:
  "sizeof struct_rcu_tasks = 328 \<and> alignof struct_rcu_tasks = 8 \<and> wf_cty struct_rcu_tasks"
  by (simp add: struct_rcu_tasks_def base_types layout_eval struct_rcuwait_layout raw_spinlock_t_def
      struct_raw_spinlock_layout struct_mutex_layout rcu_tasks_gp_func_t_def pregp_func_t_def
      pertask_func_t_def postscan_func_t_def holdouts_func_t_def postgp_func_t_def call_rcu_func_t_def
      atomic_t_layout struct_completion_layout
      del: One_nat_def)

lemma struct_virtnet_rq_stats_layout [layout_simps]:
  "sizeof struct_virtnet_rq_stats = 64 \<and> alignof struct_virtnet_rq_stats = 8 \<and> wf_cty struct_virtnet_rq_stats"
  by (simp add: struct_virtnet_rq_stats_def base_types layout_eval struct_u64_stats_sync_layout u64_stats_t_layout
      del: One_nat_def)

lemma struct_dim_stats_layout [layout_simps]:
  "sizeof struct_dim_stats = 20 \<and> alignof struct_dim_stats = 4 \<and> wf_cty struct_dim_stats"
  by (simp add: struct_dim_stats_def base_types layout_eval
      del: One_nat_def)

lemma struct_dim_sample_layout [layout_simps]:
  "sizeof struct_dim_sample = 24 \<and> alignof struct_dim_sample = 8 \<and> wf_cty struct_dim_sample"
  by (simp add: struct_dim_sample_def base_types layout_eval ktime_t_def s64_def c__s64_def u32_def c__u32_def u16_def
      c__u16_def
      del: One_nat_def)

lemma struct_dim_layout [layout_simps]:
  "sizeof struct_dim = 120 \<and> alignof struct_dim = 8 \<and> wf_cty struct_dim"
  by (simp add: struct_dim_def base_types layout_eval u8_def c__u8_def struct_dim_stats_layout struct_dim_sample_layout
      struct_work_struct_layout
      del: One_nat_def)

lemma struct_virtnet_interrupt_coalesce_layout [layout_simps]:
  "sizeof struct_virtnet_interrupt_coalesce = 8 \<and> alignof struct_virtnet_interrupt_coalesce = 4 \<and> wf_cty struct_virtnet_interrupt_coalesce"
  by (simp add: struct_virtnet_interrupt_coalesce_def base_types layout_eval u32_def c__u32_def
      del: One_nat_def)

lemma struct_ewma_pkt_len_layout [layout_simps]:
  "sizeof struct_ewma_pkt_len = 8 \<and> alignof struct_ewma_pkt_len = 8 \<and> wf_cty struct_ewma_pkt_len"
  by (simp add: struct_ewma_pkt_len_def base_types layout_eval
      del: One_nat_def)

lemma struct_receive_queue_layout [layout_simps]:
  "sizeof struct_receive_queue = 1728 \<and> alignof struct_receive_queue = 8 \<and> wf_cty struct_receive_queue"
  by (simp add: struct_receive_queue_def base_types layout_eval struct_napi_struct_layout struct_virtnet_rq_stats_layout
      u16_def c__u16_def bool_def struct_mutex_layout struct_dim_layout u32_def c__u32_def
      struct_virtnet_interrupt_coalesce_layout struct_ewma_pkt_len_layout struct_page_frag_layout
      struct_scatterlist_layout struct_xdp_rxq_info_layout
      del: One_nat_def)

lemma struct_sg_table_layout [layout_simps]:
  "sizeof struct_sg_table = 16 \<and> alignof struct_sg_table = 8 \<and> wf_cty struct_sg_table"
  by (simp add: struct_sg_table_def base_types layout_eval
      del: One_nat_def)

lemma struct_spi_delay_layout [layout_simps]:
  "sizeof struct_spi_delay = 4 \<and> alignof struct_spi_delay = 2 \<and> wf_cty struct_spi_delay"
  by (simp add: struct_spi_delay_def base_types layout_eval u16_def c__u16_def u8_def c__u8_def
      del: One_nat_def)

lemma struct_spi_transfer_layout [layout_simps]:
  "sizeof struct_spi_transfer = 136 \<and> alignof struct_spi_transfer = 8 \<and> wf_cty struct_spi_transfer"
  by (simp add: struct_spi_transfer_def base_types layout_eval u16_def c__u16_def bool_def struct_sg_table_layout
      dma_addr_t_def u64_def c__u64_def u8_def c__u8_def struct_spi_delay_layout u32_def c__u32_def
      struct_list_head_layout
      del: One_nat_def)

lemma struct_regmap_config_layout [layout_simps]:
  "sizeof struct_regmap_config = 328 \<and> alignof struct_regmap_config = 8 \<and> wf_cty struct_regmap_config"
  by (simp add: struct_regmap_config_def base_types layout_eval size_t_def c__kernel_size_t_def c__kernel_ulong_t_def
      bool_def regmap_lock_def regmap_unlock_def enum_regcache_type_layout enum_regmap_endian_layout
      del: One_nat_def)

lemma struct_regmap_irq_chip_layout [layout_simps]:
  "sizeof struct_regmap_irq_chip = 152 \<and> alignof struct_regmap_irq_chip = 8 \<and> wf_cty struct_regmap_irq_chip"
  by (simp add: struct_regmap_irq_chip_def base_types layout_eval
      del: One_nat_def)

lemma struct_rb_time_struct_layout [layout_simps]:
  "sizeof struct_rb_time_struct = 8 \<and> alignof struct_rb_time_struct = 8 \<and> wf_cty struct_rb_time_struct"
  by (simp add: struct_rb_time_struct_def base_types layout_eval local64_t_layout
      del: One_nat_def)

lemma struct_rb_irq_work_layout [layout_simps]:
  "sizeof struct_rb_irq_work = 88 \<and> alignof struct_rb_irq_work = 8 \<and> wf_cty struct_rb_irq_work"
  by (simp add: struct_rb_irq_work_def base_types layout_eval struct_irq_work_layout wait_queue_head_t_def
      struct_wait_queue_head_layout atomic_t_layout bool_def
      del: One_nat_def)

lemma struct_ring_buffer_per_cpu_layout [layout_simps]:
  "sizeof struct_ring_buffer_per_cpu = 552 \<and> alignof struct_ring_buffer_per_cpu = 8 \<and> wf_cty struct_ring_buffer_per_cpu"
  by (simp add: struct_ring_buffer_per_cpu_def base_types layout_eval atomic_t_layout raw_spinlock_t_def
      struct_raw_spinlock_layout arch_spinlock_t_def struct_qspinlock_layout struct_lock_class_key_layout
      local_t_layout size_t_def c__kernel_size_t_def c__kernel_ulong_t_def rb_time_t_def
      struct_rb_time_struct_layout u64_def c__u64_def struct_mutex_layout struct_list_head_layout
      struct_work_struct_layout struct_completion_layout struct_rb_irq_work_layout
      del: One_nat_def)

lemma struct_rio_switch_layout [layout_simps]:
  "sizeof struct_rio_switch = 48 \<and> alignof struct_rio_switch = 8 \<and> wf_cty struct_rio_switch"
  by (simp add: struct_rio_switch_def base_types layout_eval struct_list_head_layout u32_def c__u32_def spinlock_t_def
      struct_spinlock_layout
      del: One_nat_def)

lemma struct_rio_dev_layout [layout_simps]:
  "sizeof struct_rio_dev = 1976 \<and> alignof struct_rio_dev = 8 \<and> wf_cty struct_rio_dev"
  by (simp add: struct_rio_dev_def base_types layout_eval struct_list_head_layout bool_def u16_def c__u16_def u32_def
      c__u32_def u64_def c__u64_def struct_device_layout struct_resource_layout u8_def c__u8_def
      atomic_t_layout struct_rio_switch_layout
      del: One_nat_def)

lemma struct_rio_msg_layout [layout_simps]:
  "sizeof struct_rio_msg = 16 \<and> alignof struct_rio_msg = 8 \<and> wf_cty struct_rio_msg"
  by (simp add: struct_rio_msg_def base_types layout_eval
      del: One_nat_def)

lemma struct_rio_mport_layout [layout_simps]:
  "sizeof struct_rio_mport = 2608 \<and> alignof struct_rio_mport = 8 \<and> wf_cty struct_rio_mport"
  by (simp add: struct_rio_mport_def base_types layout_eval struct_list_head_layout struct_mutex_layout
      struct_resource_layout struct_rio_msg_layout u32_def c__u32_def struct_device_layout
      struct_dma_device_layout atomic_t_layout
      del: One_nat_def)

lemma enum_rproc_dump_mechanism_layout [layout_simps]:
  "sizeof enum_rproc_dump_mechanism = 4 \<and> alignof enum_rproc_dump_mechanism = 4 \<and> wf_cty enum_rproc_dump_mechanism"
  by (simp add: enum_rproc_dump_mechanism_def base_types layout_eval
      del: One_nat_def)

lemma struct_rproc_layout [layout_simps]:
  "sizeof struct_rproc = 1280 \<and> alignof struct_rproc = 8 \<and> wf_cty struct_rproc"
  by (simp add: struct_rproc_def base_types layout_eval struct_list_head_layout struct_device_layout atomic_t_layout
      enum_rproc_dump_mechanism_layout struct_mutex_layout u64_def c__u64_def struct_idr_layout
      struct_work_struct_layout bool_def size_t_def c__kernel_size_t_def c__kernel_ulong_t_def u8_def
      c__u8_def u16_def c__u16_def struct_cdev_layout
      del: One_nat_def)

lemma struct_sigcontext_64_layout [layout_simps]:
  "sizeof struct_sigcontext_64 = 256 \<and> alignof struct_sigcontext_64 = 8 \<and> wf_cty struct_sigcontext_64"
  by (simp add: struct_sigcontext_64_def base_types layout_eval c__u64_def c__u16_def
      del: One_nat_def)

lemma struct_sigcontext_32_layout [layout_simps]:
  "sizeof struct_sigcontext_32 = 88 \<and> alignof struct_sigcontext_32 = 4 \<and> wf_cty struct_sigcontext_32"
  by (simp add: struct_sigcontext_32_def base_types layout_eval c__u16_def c__u32_def
      del: One_nat_def)

lemma struct_rtc_timer_layout [layout_simps]:
  "sizeof struct_rtc_timer = 64 \<and> alignof struct_rtc_timer = 8 \<and> wf_cty struct_rtc_timer"
  by (simp add: struct_rtc_timer_def base_types layout_eval struct_timerqueue_node_layout ktime_t_def s64_def c__s64_def
      del: One_nat_def)

lemma struct_rtc_device_layout [layout_simps]:
  "sizeof struct_rtc_device = 1344 \<and> alignof struct_rtc_device = 8 \<and> wf_cty struct_rtc_device"
  by (simp add: struct_rtc_device_def base_types layout_eval struct_device_layout struct_mutex_layout struct_cdev_layout
      spinlock_t_def struct_spinlock_layout wait_queue_head_t_def struct_wait_queue_head_layout
      struct_timerqueue_head_layout struct_rtc_timer_layout struct_hrtimer_layout
      struct_work_struct_layout time64_t_def c__s64_def timeu64_t_def c__u64_def bool_def
      del: One_nat_def)

lemma struct_rtnl_link_stats_layout [layout_simps]:
  "sizeof struct_rtnl_link_stats = 96 \<and> alignof struct_rtnl_link_stats = 4 \<and> wf_cty struct_rtnl_link_stats"
  by (simp add: struct_rtnl_link_stats_def base_types layout_eval c__u32_def
      del: One_nat_def)

lemma struct_saved_msrs_layout [layout_simps]:
  "sizeof struct_saved_msrs = 16 \<and> alignof struct_saved_msrs = 8 \<and> wf_cty struct_saved_msrs"
  by (simp add: struct_saved_msrs_def base_types layout_eval
      del: One_nat_def)

lemma struct_desc_ptr_layout [layout_simps]:
  "sizeof struct_desc_ptr = 10 \<and> alignof struct_desc_ptr = 1 \<and> wf_cty struct_desc_ptr"
  by (simp add: struct_desc_ptr_def base_types layout_eval
      del: One_nat_def)

lemma struct_saved_context_layout [layout_simps]:
  "sizeof struct_saved_context = 317 \<and> alignof struct_saved_context = 1 \<and> wf_cty struct_saved_context"
  by (simp add: struct_saved_context_def base_types layout_eval struct_pt_regs_layout u16_def c__u16_def u64_def
      c__u64_def struct_saved_msrs_layout struct_desc_ptr_layout bool_def
      del: One_nat_def)

lemma struct_scan_control_layout [layout_simps]:
  "sizeof struct_scan_control = 128 \<and> alignof struct_scan_control = 8 \<and> wf_cty struct_scan_control"
  by (simp add: struct_scan_control_def base_types layout_eval s8_def c__s8_def gfp_t_def struct_reclaim_state_layout
      del: One_nat_def)

lemma enum_scsi_cmnd_submitter_layout [layout_simps]:
  "sizeof enum_scsi_cmnd_submitter = 1 \<and> alignof enum_scsi_cmnd_submitter = 1 \<and> wf_cty enum_scsi_cmnd_submitter"
  by (simp add: enum_scsi_cmnd_submitter_def base_types layout_eval
      del: One_nat_def)

lemma struct_scsi_data_buffer_layout [layout_simps]:
  "sizeof struct_scsi_data_buffer = 24 \<and> alignof struct_scsi_data_buffer = 8 \<and> wf_cty struct_scsi_data_buffer"
  by (simp add: struct_scsi_data_buffer_def base_types layout_eval struct_sg_table_layout
      del: One_nat_def)

lemma struct_scsi_cmnd_layout [layout_simps]:
  "sizeof struct_scsi_cmnd = 296 \<and> alignof struct_scsi_cmnd = 8 \<and> wf_cty struct_scsi_cmnd"
  by (simp add: struct_scsi_cmnd_def base_types layout_eval struct_list_head_layout struct_delayed_work_layout
      struct_callback_head_layout enum_scsi_cmnd_submitter_layout enum_dma_data_direction_layout
      struct_scsi_data_buffer_layout
      del: One_nat_def)

lemma enum_scsi_device_state_layout [layout_simps]:
  "sizeof enum_scsi_device_state = 4 \<and> alignof enum_scsi_device_state = 4 \<and> wf_cty enum_scsi_device_state"
  by (simp add: enum_scsi_device_state_def base_types layout_eval
      del: One_nat_def)

lemma struct_scsi_device_layout [layout_simps]:
  "sizeof struct_scsi_device = 2208 \<and> alignof struct_scsi_device = 8 \<and> wf_cty struct_scsi_device"
  by (simp add: struct_scsi_device_def base_types layout_eval struct_list_head_layout struct_sbitmap_layout
      atomic_t_layout spinlock_t_def struct_spinlock_layout u64_def c__u64_def struct_mutex_layout
      blist_flags_t_def bool_def struct_work_struct_layout struct_device_layout size_t_def
      c__kernel_size_t_def c__kernel_ulong_t_def enum_scsi_device_state_layout
      del: One_nat_def)

end
