(* ===== verification/KernelLargei.thy ===== *)
theory KernelLargei
  imports KernelHelpers2 KernelLargeh
begin

text \<open>
  Types of other subsystems in \<^verbatim>\<open>bpf/vmlinux.h\<close>: those that take 25 lines and more there, with every type they
  hold by value (part 9 of 10).
\<close>

section \<open>Types\<close>

definition struct_zoned_disk_info :: cty where
  "struct_zoned_disk_info = CStruct ''zoned_disk_info'' False
     [Field ''nr_zones'' u32,
      Field ''zone_blocks'' u32]"

definition struct_scsi_disk :: cty where
  "struct_scsi_disk = CStruct ''scsi_disk'' False
     [Field ''device'' (CPtr ''struct scsi_device''),
      Field ''disk_dev'' struct_device,
      Field ''disk'' (CPtr ''struct gendisk''),
      Field ''opal_dev'' (CPtr ''struct opal_dev''),
      Field ''early_zone_info'' struct_zoned_disk_info,
      Field ''zone_info'' struct_zoned_disk_info,
      Field ''zones_optimal_open'' u32,
      Field ''zones_optimal_nonseq'' u32,
      Field ''zones_max_open'' u32,
      Field ''zone_starting_lba_gran'' u32,
      Field ''openers'' atomic_t,
      Field ''capacity'' sector_t,
      Field ''max_retries'' c_int,
      Field ''min_xfer_blocks'' u32,
      Field ''max_xfer_blocks'' u32,
      Field ''opt_xfer_blocks'' u32,
      Field ''max_ws_blocks'' u32,
      Field ''max_unmap_blocks'' u32,
      Field ''unmap_granularity'' u32,
      Field ''unmap_alignment'' u32,
      Field ''max_atomic'' u32,
      Field ''atomic_alignment'' u32,
      Field ''atomic_granularity'' u32,
      Field ''max_atomic_with_boundary'' u32,
      Field ''max_atomic_boundary'' u32,
      Field ''index'' u32,
      Field ''physical_block_size'' unsigned_int,
      Field ''max_medium_access_timeouts'' unsigned_int,
      Field ''medium_access_timed_out'' unsigned_int,
      Field ''permanent_stream_count'' u16,
      Field ''media_present'' u8,
      Field ''write_prot'' u8,
      Field ''protection_type'' u8,
      Field ''provisioning_mode'' u8,
      Field ''zeroing_mode'' u8,
      Field ''nr_actuators'' u8,
      Field ''suspended'' bool,
      BitField ''ATO'' unsigned_int 1,
      BitField ''cache_override'' unsigned_int 1,
      BitField ''WCE'' unsigned_int 1,
      BitField ''RCD'' unsigned_int 1,
      BitField ''DPOFUA'' unsigned_int 1,
      BitField ''first_scan'' unsigned_int 1,
      BitField ''lbpme'' unsigned_int 1,
      BitField ''lbprz'' unsigned_int 1,
      BitField ''lbpu'' unsigned_int 1,
      BitField ''lbpws'' unsigned_int 1,
      BitField ''lbpws10'' unsigned_int 1,
      BitField ''lbpvpd'' unsigned_int 1,
      BitField ''ws10'' unsigned_int 1,
      BitField ''ws16'' unsigned_int 1,
      BitField ''rc_basis'' unsigned_int 2,
      BitField ''zoned'' unsigned_int 2,
      BitField ''urswrz'' unsigned_int 1,
      BitField ''security'' unsigned_int 1,
      BitField ''ignore_medium_access_errors'' unsigned_int 1,
      BitField ''rscs'' unsigned_int 1,
      BitField ''use_atomic_write_boundary'' unsigned_int 1]"

definition struct_scsi_host_template :: cty where
  "struct_scsi_host_template = CStruct ''scsi_host_template'' False
     [Field ''cmd_size'' unsigned_int,
      Field ''queuecommand'' (CPtr ''enum scsi_qc_status (struct Scsi_Host *, struct scsi_cmnd *)''),
      Field ''queue_reserved_command'' (CPtr ''enum scsi_qc_status (struct Scsi_Host *, struct scsi_cmnd *)''),
      Field ''commit_rqs'' (CPtr ''void (struct Scsi_Host *, u16)''),
      Field ''module'' (CPtr ''struct module''),
      Field ''name'' (CPtr ''const char''),
      Field ''info'' (CPtr ''const char * (struct Scsi_Host *)''),
      Field ''ioctl'' (CPtr ''int (struct scsi_device *, unsigned int, void *)''),
      Field ''compat_ioctl'' (CPtr ''int (struct scsi_device *, unsigned int, void *)''),
      Field ''init_cmd_priv'' (CPtr ''int (struct Scsi_Host *, struct scsi_cmnd *)''),
      Field ''exit_cmd_priv'' (CPtr ''int (struct Scsi_Host *, struct scsi_cmnd *)''),
      Field ''eh_abort_handler'' (CPtr ''int (struct scsi_cmnd *)''),
      Field ''eh_device_reset_handler'' (CPtr ''int (struct scsi_cmnd *)''),
      Field ''eh_target_reset_handler'' (CPtr ''int (struct scsi_cmnd *)''),
      Field ''eh_bus_reset_handler'' (CPtr ''int (struct scsi_cmnd *)''),
      Field ''eh_host_reset_handler'' (CPtr ''int (struct scsi_cmnd *)''),
      Field ''sdev_init'' (CPtr ''int (struct scsi_device *)''),
      Field ''sdev_configure'' (CPtr ''int (struct scsi_device *, struct queue_limits *)''),
      Field ''sdev_destroy'' (CPtr ''void (struct scsi_device *)''),
      Field ''target_alloc'' (CPtr ''int (struct scsi_target *)''),
      Field ''target_destroy'' (CPtr ''void (struct scsi_target *)''),
      Field ''scan_finished'' (CPtr ''int (struct Scsi_Host *, long unsigned int)''),
      Field ''scan_start'' (CPtr ''void (struct Scsi_Host *)''),
      Field ''change_queue_depth'' (CPtr ''int (struct scsi_device *, int)''),
      Field ''map_queues'' (CPtr ''void (struct Scsi_Host *)''),
      Field ''mq_poll'' (CPtr ''int (struct Scsi_Host *, unsigned int)''),
      Field ''dma_need_drain'' (CPtr ''bool (struct request *)''),
      Field ''bios_param'' (CPtr ''int (struct scsi_device *, struct gendisk *, sector_t, int *)''),
      Field ''unlock_native_capacity'' (CPtr ''void (struct scsi_device *)''),
      Field ''show_info'' (CPtr ''int (struct seq_file *, struct Scsi_Host *)''),
      Field ''write_info'' (CPtr ''int (struct Scsi_Host *, char *, int)''),
      Field ''eh_timed_out'' (CPtr ''enum scsi_timeout_action (struct scsi_cmnd *)''),
      Field ''eh_should_retry_cmd'' (CPtr ''bool (struct scsi_cmnd *)''),
      Field ''host_reset'' (CPtr ''int (struct Scsi_Host *, int)''),
      Field ''proc_name'' (CPtr ''const char''),
      Field ''can_queue'' c_int,
      Field ''nr_reserved_cmds'' c_int,
      Field ''this_id'' c_int,
      Field ''sg_tablesize'' short_unsigned_int,
      Field ''sg_prot_tablesize'' short_unsigned_int,
      Field ''max_sectors'' unsigned_int,
      Field ''max_segment_size'' unsigned_int,
      Field ''dma_alignment'' unsigned_int,
      Field ''dma_boundary'' long_unsigned_int,
      Field ''virt_boundary_mask'' long_unsigned_int,
      Field ''cmd_per_lun'' short_int,
      BitField ''tag_alloc_policy_rr'' bool 1,
      BitField ''track_queue_depth'' unsigned_int 1,
      BitField ''supported_mode'' unsigned_int 2,
      BitField ''emulated'' unsigned_int 1,
      BitField ''skip_settle_delay'' unsigned_int 1,
      BitField ''no_write_same'' unsigned_int 1,
      BitField ''host_tagset'' unsigned_int 1,
      BitField ''queuecommand_may_block'' unsigned_int 1,
      Field ''max_host_blocked'' unsigned_int,
      Field ''shost_groups'' (CPtr ''const struct attribute_group *''),
      Field ''sdev_groups'' (CPtr ''const struct attribute_group *''),
      Field ''vendor_id'' u64]"

definition struct_sctp_af :: cty where
  "struct_sctp_af = CStruct ''sctp_af'' False
     [Field ''sctp_xmit'' (CPtr ''int (struct sk_buff *, struct sctp_transport *)''),
      Field ''setsockopt'' (CPtr ''int (struct sock *, int, int, sockptr_t, unsigned int)''),
      Field ''getsockopt'' (CPtr ''int (struct sock *, int, int, char *, int *)''),
      Field ''get_dst'' (CPtr ''void (struct sctp_transport *, union sctp_addr *, struct flowi *, struct sock *)''),
      Field ''get_saddr'' (CPtr ''void (struct sctp_sock *, struct sctp_transport *, struct flowi *)''),
      Field ''copy_addrlist'' (CPtr ''void (struct list_head *, struct net_device *)''),
      Field ''cmp_addr'' (CPtr ''int (const union sctp_addr *, const union sctp_addr *)''),
      Field ''addr_copy'' (CPtr ''void (union sctp_addr *, union sctp_addr *)''),
      Field ''from_skb'' (CPtr ''void (union sctp_addr *, struct sk_buff *, int)''),
      Field ''from_sk'' (CPtr ''void (union sctp_addr *, struct sock *)''),
      Field ''from_addr_param'' (CPtr ''bool (union sctp_addr *, union sctp_addr_param *, __be16, int)''),
      Field ''to_addr_param'' (CPtr ''int (const union sctp_addr *, union sctp_addr_param *)''),
      Field ''addr_valid'' (CPtr ''int (union sctp_addr *, struct sctp_sock *, const struct sk_buff *)''),
      Field ''scope'' (CPtr ''enum sctp_scope (union sctp_addr *)''),
      Field ''inaddr_any'' (CPtr ''void (union sctp_addr *, __be16)''),
      Field ''is_any'' (CPtr ''int (const union sctp_addr *)''),
      Field ''available'' (CPtr ''int (union sctp_addr *, struct sctp_sock *)''),
      Field ''skb_iif'' (CPtr ''int (const struct sk_buff *)''),
      Field ''skb_sdif'' (CPtr ''int (const struct sk_buff *)''),
      Field ''is_ce'' (CPtr ''int (const struct sk_buff *)''),
      Field ''seq_dump_addr'' (CPtr ''void (struct seq_file *, union sctp_addr *)''),
      Field ''ecn_capable'' (CPtr ''void (struct sock *)''),
      Field ''net_header_len'' c__u16,
      Field ''sockaddr_len'' c_int,
      Field ''ip_options_len'' (CPtr ''int (struct sock *)''),
      Field ''sa_family'' sa_family_t,
      Field ''list'' struct_list_head]"

definition struct___genradix :: cty where
  "struct___genradix = CStruct ''__genradix'' False
     [Field ''root'' (CPtr ''struct genradix_root'')]"

definition struct_sctp_stream_out :: cty where
  "struct_sctp_stream_out = CStruct ''sctp_stream_out'' False
     [Field [] (CUnion [] False
        [Field ''mid'' c__u32,
         Field ''ssn'' c__u16]),
      Field ''mid_uo'' c__u32,
      Field ''ext'' (CPtr ''struct sctp_stream_out_ext''),
      Field ''state'' c__u8]"

definition struct_sctp_stream_in :: cty where
  "struct_sctp_stream_in = CStruct ''sctp_stream_in'' False
     [Field [] (CUnion [] False
        [Field ''mid'' c__u32,
         Field ''ssn'' c__u16]),
      Field ''mid_uo'' c__u32,
      Field ''fsn'' c__u32,
      Field ''fsn_uo'' c__u32,
      Field ''pd_mode'' c_char,
      Field ''pd_mode_uo'' c_char]"

definition struct_sctp_stream :: cty where
  "struct_sctp_stream = CStruct ''sctp_stream'' False
     [Field ''out'' (CStruct [] False
        [Field ''tree'' struct___genradix,
         Field ''type'' (CArr 0 struct_sctp_stream_out)]),
      Field ''in'' (CStruct [] False
        [Field ''tree'' struct___genradix,
         Field ''type'' (CArr 0 struct_sctp_stream_in)]),
      Field ''outcnt'' c__u16,
      Field ''incnt'' c__u16,
      Field ''out_curr'' (CPtr ''struct sctp_stream_out''),
      Field [] (CUnion [] False
        [Field [] (CStruct [] False
           [Field ''prio_list'' struct_list_head]),
         Field [] (CStruct [] False
           [Field ''rr_list'' struct_list_head,
            Field ''rr_next'' (CPtr ''struct sctp_stream_out_ext'')]),
         Field [] (CStruct [] False
           [Field ''fc_list'' struct_list_head])]),
      Field ''si'' (CPtr ''struct sctp_stream_interleave'')]"

definition enum_sctp_endpoint_type :: cty where
  "enum_sctp_endpoint_type = CEnum 4
     [(''SCTP_EP_TYPE_SOCKET'', 0), (''SCTP_EP_TYPE_ASSOCIATION'', 1)]"

definition struct_sctp_inq :: cty where
  "struct_sctp_inq = CStruct ''sctp_inq'' False
     [Field ''in_chunk_list'' struct_list_head,
      Field ''in_progress'' (CPtr ''struct sctp_chunk''),
      Field ''immediate'' struct_work_struct]"

definition struct_sctp_bind_addr :: cty where
  "struct_sctp_bind_addr = CStruct ''sctp_bind_addr'' False
     [Field ''port'' c__u16,
      Field ''address_list'' struct_list_head]"

definition struct_sctp_ep_common :: cty where
  "struct_sctp_ep_common = CStruct ''sctp_ep_common'' False
     [Field ''type'' enum_sctp_endpoint_type,
      Field ''refcnt'' refcount_t,
      Field ''dead'' bool,
      Field ''sk'' (CPtr ''struct sock''),
      Field ''net'' (CPtr ''struct net''),
      Field ''inqueue'' struct_sctp_inq,
      Field ''bind_addr'' struct_sctp_bind_addr]"

definition sctp_assoc_t :: cty where [layout_simps]:
  "sctp_assoc_t = c__s32"

definition struct_sockaddr_inet :: cty where
  "struct_sockaddr_inet = CStruct ''sockaddr_inet'' False
     [Field ''sa_family'' short_unsigned_int,
      Field ''sa_data'' (CArr 26 c_char)]"

definition struct_sockaddr_in :: cty where
  "struct_sockaddr_in = CStruct ''sockaddr_in'' False
     [Field ''sin_family'' c__kernel_sa_family_t,
      Field ''sin_port'' c__be16,
      Field ''sin_addr'' struct_in_addr,
      Field ''__pad'' (CArr 8 unsigned_char)]"

definition struct_sockaddr_in6 :: cty where
  "struct_sockaddr_in6 = CStruct ''sockaddr_in6'' False
     [Field ''sin6_family'' short_unsigned_int,
      Field ''sin6_port'' c__be16,
      Field ''sin6_flowinfo'' c__be32,
      Field ''sin6_addr'' struct_in6_addr,
      Field ''sin6_scope_id'' c__u32]"

definition union_sctp_addr :: cty where
  "union_sctp_addr = CUnion ''sctp_addr'' False
     [Field ''sa'' struct_sockaddr_inet,
      Field ''v4'' struct_sockaddr_in,
      Field ''v6'' struct_sockaddr_in6]"

definition struct_sctp_cookie :: cty where
  "struct_sctp_cookie = CStruct ''sctp_cookie'' False
     [Field ''my_vtag'' c__u32,
      Field ''peer_vtag'' c__u32,
      Field ''my_ttag'' c__u32,
      Field ''peer_ttag'' c__u32,
      Field ''expiration'' ktime_t,
      Field ''sinit_num_ostreams'' c__u16,
      Field ''sinit_max_instreams'' c__u16,
      Field ''initial_tsn'' c__u32,
      Field ''peer_addr'' union_sctp_addr,
      Field ''my_port'' c__u16,
      Field ''prsctp_capable'' c__u8,
      Field ''padding'' c__u8,
      Field ''adaptation_ind'' c__u32,
      Field ''auth_random'' (CArr 36 c__u8),
      Field ''auth_hmacs'' (CArr 10 c__u8),
      Field ''auth_chunks'' (CArr 20 c__u8),
      Field ''raw_addr_list_len'' c__u32]"

definition struct_sctp_tsnmap :: cty where
  "struct_sctp_tsnmap = CStruct ''sctp_tsnmap'' False
     [Field ''tsn_map'' (CPtr ''long unsigned int''),
      Field ''base_tsn'' c__u32,
      Field ''cumulative_tsn_ack_point'' c__u32,
      Field ''max_tsn_seen'' c__u32,
      Field ''len'' c__u16,
      Field ''pending_data'' c__u16,
      Field ''num_dup_tsns'' c__u16,
      Field ''dup_tsns'' (CArr 16 c__be32)]"

definition struct_sctp_inithdr_host :: cty where
  "struct_sctp_inithdr_host = CStruct ''sctp_inithdr_host'' False
     [Field ''init_tag'' c__u32,
      Field ''a_rwnd'' c__u32,
      Field ''num_outbound_streams'' c__u16,
      Field ''num_inbound_streams'' c__u16,
      Field ''initial_tsn'' c__u32]"

definition enum_sctp_state :: cty where
  "enum_sctp_state = CEnum 4
     [(''SCTP_STATE_CLOSED'', 0), (''SCTP_STATE_COOKIE_WAIT'', 1),
      (''SCTP_STATE_COOKIE_ECHOED'', 2), (''SCTP_STATE_ESTABLISHED'', 3),
      (''SCTP_STATE_SHUTDOWN_PENDING'', 4), (''SCTP_STATE_SHUTDOWN_SENT'', 5),
      (''SCTP_STATE_SHUTDOWN_RECEIVED'', 6), (''SCTP_STATE_SHUTDOWN_ACK_SENT'', 7)]"

definition struct_sctp_outq :: cty where
  "struct_sctp_outq = CStruct ''sctp_outq'' False
     [Field ''asoc'' (CPtr ''struct sctp_association''),
      Field ''out_chunk_list'' struct_list_head,
      Field ''sched'' (CPtr ''const struct sctp_sched_ops''),
      Field ''out_qlen'' unsigned_int,
      Field ''error'' unsigned_int,
      Field ''control_chunk_list'' struct_list_head,
      Field ''sacked'' struct_list_head,
      Field ''retransmit'' struct_list_head,
      Field ''abandoned'' struct_list_head,
      Field ''outstanding_bytes'' c__u32,
      Field ''fast_rtx'' c_char,
      Field ''cork'' c_char]"

definition struct_sctp_ulpq :: cty where
  "struct_sctp_ulpq = CStruct ''sctp_ulpq'' False
     [Field ''pd_mode'' c_char,
      Field ''asoc'' (CPtr ''struct sctp_association''),
      Field ''reasm'' struct_sk_buff_head,
      Field ''reasm_uo'' struct_sk_buff_head,
      Field ''lobby'' struct_sk_buff_head]"

definition struct_sctp_priv_assoc_stats :: cty where
  "struct_sctp_priv_assoc_stats = CStruct ''sctp_priv_assoc_stats'' False
     [Field ''obs_rto_ipaddr'' struct___kernel_sockaddr_storage,
      Field ''max_obs_rto'' c__u64,
      Field ''isacks'' c__u64,
      Field ''osacks'' c__u64,
      Field ''opackets'' c__u64,
      Field ''ipackets'' c__u64,
      Field ''rtxchunks'' c__u64,
      Field ''outofseqtsns'' c__u64,
      Field ''idupchunks'' c__u64,
      Field ''gapcnt'' c__u64,
      Field ''ouodchunks'' c__u64,
      Field ''iuodchunks'' c__u64,
      Field ''oodchunks'' c__u64,
      Field ''iodchunks'' c__u64,
      Field ''octrlchunks'' c__u64,
      Field ''ictrlchunks'' c__u64]"

definition struct_sctp_association :: cty where
  "struct_sctp_association = CStruct ''sctp_association'' False
     [Field ''base'' struct_sctp_ep_common,
      Field ''asocs'' struct_list_head,
      Field ''assoc_id'' sctp_assoc_t,
      Field ''ep'' (CPtr ''struct sctp_endpoint''),
      Field ''c'' struct_sctp_cookie,
      Field ''peer'' (CStruct [] False
        [Field ''transport_addr_list'' struct_list_head,
         Field ''rwnd'' c__u32,
         Field ''transport_count'' c__u16,
         Field ''port'' c__u16,
         Field ''primary_path'' (CPtr ''struct sctp_transport''),
         Field ''primary_addr'' union_sctp_addr,
         Field ''active_path'' (CPtr ''struct sctp_transport''),
         Field ''retran_path'' (CPtr ''struct sctp_transport''),
         Field ''last_sent_to'' (CPtr ''struct sctp_transport''),
         Field ''last_data_from'' (CPtr ''struct sctp_transport''),
         Field ''tsn_map'' struct_sctp_tsnmap,
         Field ''addip_disabled_mask'' c__be16,
         BitField ''ecn_capable'' c__u16 1,
         BitField ''ipv4_address'' c__u16 1,
         BitField ''ipv6_address'' c__u16 1,
         BitField ''asconf_capable'' c__u16 1,
         BitField ''prsctp_capable'' c__u16 1,
         BitField ''reconf_capable'' c__u16 1,
         BitField ''intl_capable'' c__u16 1,
         BitField ''auth_capable'' c__u16 1,
         BitField ''sack_needed'' c__u16 1,
         BitField ''sack_generation'' c__u16 1,
         BitField ''zero_window_announced'' c__u16 1,
         Field ''sack_cnt'' c__u32,
         Field ''adaptation_ind'' c__u32,
         Field ''i'' struct_sctp_inithdr_host,
         Field ''cookie'' (CPtr ''void''),
         Field ''cookie_len'' c_int,
         Field ''addip_serial'' c__u32,
         Field ''peer_random'' (CPtr ''struct sctp_random_param''),
         Field ''peer_chunks'' (CPtr ''struct sctp_chunks_param''),
         Field ''peer_hmacs'' (CPtr ''struct sctp_hmac_algo_param'')]),
      Field ''state'' enum_sctp_state,
      Field ''overall_error_count'' c_int,
      Field ''cookie_life'' ktime_t,
      Field ''rto_initial'' long_unsigned_int,
      Field ''rto_max'' long_unsigned_int,
      Field ''rto_min'' long_unsigned_int,
      Field ''max_burst'' c_int,
      Field ''max_retrans'' c_int,
      Field ''pf_retrans'' c__u16,
      Field ''ps_retrans'' c__u16,
      Field ''max_init_attempts'' c__u16,
      Field ''init_retries'' c__u16,
      Field ''max_init_timeo'' long_unsigned_int,
      Field ''hbinterval'' long_unsigned_int,
      Field ''probe_interval'' long_unsigned_int,
      Field ''encap_port'' c__be16,
      Field ''pathmaxrxt'' c__u16,
      Field ''flowlabel'' c__u32,
      Field ''dscp'' c__u8,
      Field ''pmtu_pending'' c__u8,
      Field ''pathmtu'' c__u32,
      Field ''param_flags'' c__u32,
      Field ''sackfreq'' c__u32,
      Field ''sackdelay'' long_unsigned_int,
      Field ''timeouts'' (CArr 12 long_unsigned_int),
      Field ''timers'' (CArr 12 struct_timer_list),
      Field ''shutdown_last_sent_to'' (CPtr ''struct sctp_transport''),
      Field ''init_last_sent_to'' (CPtr ''struct sctp_transport''),
      Field ''shutdown_retries'' c_int,
      Field ''next_tsn'' c__u32,
      Field ''ctsn_ack_point'' c__u32,
      Field ''adv_peer_ack_point'' c__u32,
      Field ''highest_sacked'' c__u32,
      Field ''fast_recovery_exit'' c__u32,
      Field ''fast_recovery'' c__u8,
      Field ''unack_data'' c__u16,
      Field ''rtx_data_chunks'' c__u32,
      Field ''rwnd'' c__u32,
      Field ''a_rwnd'' c__u32,
      Field ''rwnd_over'' c__u32,
      Field ''rwnd_press'' c__u32,
      Field ''sndbuf_used'' c_int,
      Field ''rmem_alloc'' atomic_t,
      Field ''wait'' wait_queue_head_t,
      Field ''frag_point'' c__u32,
      Field ''user_frag'' c__u32,
      Field ''init_err_counter'' c_int,
      Field ''init_cycle'' c_int,
      Field ''default_stream'' c__u16,
      Field ''default_flags'' c__u16,
      Field ''default_ppid'' c__u32,
      Field ''default_context'' c__u32,
      Field ''default_timetolive'' c__u32,
      Field ''default_rcv_context'' c__u32,
      Field ''stream'' struct_sctp_stream,
      Field ''outqueue'' struct_sctp_outq,
      Field ''ulpq'' struct_sctp_ulpq,
      Field ''last_ecne_tsn'' c__u32,
      Field ''last_cwr_tsn'' c__u32,
      Field ''numduptsns'' c_int,
      Field ''addip_last_asconf'' (CPtr ''struct sctp_chunk''),
      Field ''asconf_ack_list'' struct_list_head,
      Field ''addip_chunk_list'' struct_list_head,
      Field ''addip_serial'' c__u32,
      Field ''src_out_of_asoc_ok'' c_int,
      Field ''asconf_addr_del_pending'' (CPtr ''union sctp_addr''),
      Field ''new_transport'' (CPtr ''struct sctp_transport''),
      Field ''endpoint_shared_keys'' struct_list_head,
      Field ''asoc_shared_key'' (CPtr ''struct sctp_auth_bytes''),
      Field ''shkey'' (CPtr ''struct sctp_shared_key''),
      Field ''default_hmac_id'' c__u16,
      Field ''active_key_id'' c__u16,
      BitField ''need_ecne'' c__u8 1,
      BitField ''temp'' c__u8 1,
      BitField ''pf_expose'' c__u8 2,
      BitField ''force_delay'' c__u8 1,
      Field ''strreset_enable'' c__u8,
      Field ''strreset_outstanding'' c__u8,
      Field ''strreset_outseq'' c__u32,
      Field ''strreset_inseq'' c__u32,
      Field ''strreset_result'' (CArr 2 c__u32),
      Field ''strreset_chunk'' (CPtr ''struct sctp_chunk''),
      Field ''stats'' struct_sctp_priv_assoc_stats,
      Field ''sent_cnt_removable'' c_int,
      Field ''subscribe'' c__u16,
      Field ''abandoned_unsent'' (CArr 3 c__u64),
      Field ''abandoned_sent'' (CArr 3 c__u64),
      Field ''secid'' u32,
      Field ''peer_secid'' u32,
      Field ''rcu'' struct_callback_head]"

definition union_sctp_params :: cty where
  "union_sctp_params = CUnion ''sctp_params'' False
     [Field ''v'' (CPtr ''void''),
      Field ''p'' (CPtr ''struct sctp_paramhdr''),
      Field ''life'' (CPtr ''struct sctp_cookie_preserve_param''),
      Field ''dns'' (CPtr ''struct sctp_hostname_param''),
      Field ''cookie'' (CPtr ''struct sctp_cookie_param''),
      Field ''sat'' (CPtr ''struct sctp_supported_addrs_param''),
      Field ''v4'' (CPtr ''struct sctp_ipv4addr_param''),
      Field ''v6'' (CPtr ''struct sctp_ipv6addr_param''),
      Field ''addr'' (CPtr ''union sctp_addr_param''),
      Field ''aind'' (CPtr ''struct sctp_adaptation_ind_param''),
      Field ''ext'' (CPtr ''struct sctp_supported_ext_param''),
      Field ''random'' (CPtr ''struct sctp_random_param''),
      Field ''chunks'' (CPtr ''struct sctp_chunks_param''),
      Field ''hmac_algo'' (CPtr ''struct sctp_hmac_algo_param''),
      Field ''addip'' (CPtr ''struct sctp_addip_param'')]"

definition struct_sctp_sndrcvinfo :: cty where
  "struct_sctp_sndrcvinfo = CStruct ''sctp_sndrcvinfo'' False
     [Field ''sinfo_stream'' c__u16,
      Field ''sinfo_ssn'' c__u16,
      Field ''sinfo_flags'' c__u16,
      Field ''sinfo_ppid'' c__u32,
      Field ''sinfo_context'' c__u32,
      Field ''sinfo_timetolive'' c__u32,
      Field ''sinfo_tsn'' c__u32,
      Field ''sinfo_cumtsn'' c__u32,
      Field ''sinfo_assoc_id'' sctp_assoc_t]"

definition struct_sctp_chunk :: cty where
  "struct_sctp_chunk = CStruct ''sctp_chunk'' False
     [Field ''list'' struct_list_head,
      Field ''refcnt'' refcount_t,
      Field ''sent_count'' c_int,
      Field [] (CUnion [] False
        [Field ''transmitted_list'' struct_list_head,
         Field ''stream_list'' struct_list_head]),
      Field ''frag_list'' struct_list_head,
      Field ''skb'' (CPtr ''struct sk_buff''),
      Field [] (CUnion [] False
        [Field ''head_skb'' (CPtr ''struct sk_buff''),
         Field ''shkey'' (CPtr ''struct sctp_shared_key'')]),
      Field ''param_hdr'' union_sctp_params,
      Field ''subh'' (CUnion [] False
        [Field ''v'' (CPtr ''__u8''),
         Field ''data_hdr'' (CPtr ''struct sctp_datahdr''),
         Field ''init_hdr'' (CPtr ''struct sctp_inithdr''),
         Field ''sack_hdr'' (CPtr ''struct sctp_sackhdr''),
         Field ''hb_hdr'' (CPtr ''struct sctp_heartbeathdr''),
         Field ''hbs_hdr'' (CPtr ''struct sctp_sender_hb_info''),
         Field ''shutdown_hdr'' (CPtr ''struct sctp_shutdownhdr''),
         Field ''cookie_hdr'' (CPtr ''struct sctp_signed_cookie''),
         Field ''ecne_hdr'' (CPtr ''struct sctp_ecnehdr''),
         Field ''ecn_cwr_hdr'' (CPtr ''struct sctp_cwrhdr''),
         Field ''err_hdr'' (CPtr ''struct sctp_errhdr''),
         Field ''addip_hdr'' (CPtr ''struct sctp_addiphdr''),
         Field ''fwdtsn_hdr'' (CPtr ''struct sctp_fwdtsn_hdr''),
         Field ''auth_hdr'' (CPtr ''struct sctp_authhdr''),
         Field ''idata_hdr'' (CPtr ''struct sctp_idatahdr''),
         Field ''ifwdtsn_hdr'' (CPtr ''struct sctp_ifwdtsn_hdr'')]),
      Field ''chunk_end'' (CPtr ''__u8''),
      Field ''chunk_hdr'' (CPtr ''struct sctp_chunkhdr''),
      Field ''sctp_hdr'' (CPtr ''struct sctphdr''),
      Field ''sinfo'' struct_sctp_sndrcvinfo,
      Field ''asoc'' (CPtr ''struct sctp_association''),
      Field ''rcvr'' (CPtr ''struct sctp_ep_common''),
      Field ''sent_at'' long_unsigned_int,
      Field ''source'' union_sctp_addr,
      Field ''dest'' union_sctp_addr,
      Field ''msg'' (CPtr ''struct sctp_datamsg''),
      Field ''transport'' (CPtr ''struct sctp_transport''),
      Field ''auth_chunk'' (CPtr ''struct sk_buff''),
      BitField ''rtt_in_progress'' c__u16 1,
      BitField ''has_tsn'' c__u16 1,
      BitField ''has_ssn'' c__u16 1,
      BitField ''singleton'' c__u16 1,
      BitField ''end_of_packet'' c__u16 1,
      BitField ''ecn_ce_done'' c__u16 1,
      BitField ''pdiscard'' c__u16 1,
      BitField ''tsn_gap_acked'' c__u16 1,
      BitField ''data_accepted'' c__u16 1,
      BitField ''auth'' c__u16 1,
      BitField ''has_asconf'' c__u16 1,
      BitField ''pmtu_probe'' c__u16 1,
      BitField ''tsn_missing_report'' c__u16 2,
      BitField ''fast_retransmit'' c__u16 2]"

definition enum_sctp_socket_type :: cty where
  "enum_sctp_socket_type = CEnum 4
     [(''SCTP_SOCKET_UDP'', 0), (''SCTP_SOCKET_UDP_HIGH_BANDWIDTH'', 1),
      (''SCTP_SOCKET_TCP'', 2)]"

definition struct_sctp_rtoinfo :: cty where
  "struct_sctp_rtoinfo = CStruct ''sctp_rtoinfo'' False
     [Field ''srto_assoc_id'' sctp_assoc_t,
      Field ''srto_initial'' c__u32,
      Field ''srto_max'' c__u32,
      Field ''srto_min'' c__u32]"

definition struct_sctp_paddrparams :: cty where
  "struct_sctp_paddrparams = CStruct ''sctp_paddrparams'' True
     [Field ''spp_assoc_id'' sctp_assoc_t,
      Field ''spp_address'' struct___kernel_sockaddr_storage,
      Field ''spp_hbinterval'' c__u32,
      Field ''spp_pathmaxrxt'' c__u16,
      Field ''spp_pathmtu'' c__u32,
      Field ''spp_sackdelay'' c__u32,
      Field ''spp_flags'' c__u32,
      Field ''spp_ipv6_flowlabel'' c__u32,
      Field ''spp_dscp'' c__u8,
      BitField [] c_int 0]"

definition struct_sctp_assocparams :: cty where
  "struct_sctp_assocparams = CStruct ''sctp_assocparams'' False
     [Field ''sasoc_assoc_id'' sctp_assoc_t,
      Field ''sasoc_asocmaxrxt'' c__u16,
      Field ''sasoc_number_peer_destinations'' c__u16,
      Field ''sasoc_peer_rwnd'' c__u32,
      Field ''sasoc_local_rwnd'' c__u32,
      Field ''sasoc_cookie_life'' c__u32]"

definition struct_sctp_initmsg :: cty where
  "struct_sctp_initmsg = CStruct ''sctp_initmsg'' False
     [Field ''sinit_num_ostreams'' c__u16,
      Field ''sinit_max_instreams'' c__u16,
      Field ''sinit_max_attempts'' c__u16,
      Field ''sinit_max_init_timeo'' c__u16]"

definition struct_sctp_sock :: cty where
  "struct_sctp_sock = CStruct ''sctp_sock'' False
     [Field ''inet'' struct_inet_sock,
      Field ''type'' enum_sctp_socket_type,
      Field ''pf'' (CPtr ''struct sctp_pf''),
      Field ''ep'' (CPtr ''struct sctp_endpoint''),
      Field ''bind_hash'' (CPtr ''struct sctp_bind_bucket''),
      Field ''default_stream'' c__u16,
      Field ''default_ppid'' c__u32,
      Field ''default_flags'' c__u16,
      Field ''default_context'' c__u32,
      Field ''default_timetolive'' c__u32,
      Field ''default_rcv_context'' c__u32,
      Field ''max_burst'' c_int,
      Field ''hbinterval'' c__u32,
      Field ''probe_interval'' c__u32,
      Field ''udp_port'' c__be16,
      Field ''encap_port'' c__be16,
      Field ''pathmaxrxt'' c__u16,
      Field ''flowlabel'' c__u32,
      Field ''dscp'' c__u8,
      Field ''pf_retrans'' c__u16,
      Field ''ps_retrans'' c__u16,
      Field ''pathmtu'' c__u32,
      Field ''sackdelay'' c__u32,
      Field ''sackfreq'' c__u32,
      Field ''param_flags'' c__u32,
      Field ''default_ss'' c__u32,
      Field ''rtoinfo'' struct_sctp_rtoinfo,
      Field ''paddrparam'' struct_sctp_paddrparams,
      Field ''assocparams'' struct_sctp_assocparams,
      Field ''subscribe'' c__u16,
      Field ''initmsg'' struct_sctp_initmsg,
      Field ''user_frag'' c_int,
      Field ''autoclose'' c__u32,
      Field ''adaptation_ind'' c__u32,
      Field ''pd_point'' c__u32,
      BitField ''nodelay'' c__u16 1,
      BitField ''pf_expose'' c__u16 2,
      BitField ''reuse'' c__u16 1,
      BitField ''disable_fragments'' c__u16 1,
      BitField ''v4mapped'' c__u16 1,
      BitField ''frag_interleave'' c__u16 1,
      BitField ''recvrcvinfo'' c__u16 1,
      BitField ''recvnxtinfo'' c__u16 1,
      BitField ''data_ready_signalled'' c__u16 1,
      BitField ''cookie_auth_enable'' c__u16 1,
      Field ''pd_mode'' atomic_t,
      Field ''pd_lobby'' struct_sk_buff_head,
      Field ''auto_asconf_list'' struct_list_head,
      Field ''do_auto_asconf'' c_int]"

definition struct_sctp_packet :: cty where
  "struct_sctp_packet = CStruct ''sctp_packet'' False
     [Field ''source_port'' c__u16,
      Field ''destination_port'' c__u16,
      Field ''vtag'' c__u32,
      Field ''chunk_list'' struct_list_head,
      Field ''overhead'' size_t,
      Field ''size'' size_t,
      Field ''max_size'' size_t,
      Field ''transport'' (CPtr ''struct sctp_transport''),
      Field ''auth'' (CPtr ''struct sctp_chunk''),
      BitField ''has_cookie_echo'' u8 1,
      BitField ''has_sack'' u8 1,
      BitField ''has_auth'' u8 1,
      BitField ''has_data'' u8 1,
      BitField ''ipfragok'' u8 1]"

definition struct_sctp_transport :: cty where
  "struct_sctp_transport = CStruct ''sctp_transport'' False
     [Field ''transports'' struct_list_head,
      Field ''node'' struct_rhlist_head,
      Field ''refcnt'' refcount_t,
      BitField ''dead'' c__u32 1,
      BitField ''rto_pending'' c__u32 1,
      BitField ''hb_sent'' c__u32 1,
      BitField ''pmtu_pending'' c__u32 1,
      BitField ''dst_pending_confirm'' c__u32 1,
      BitField ''sack_generation'' c__u32 1,
      Field ''dst_cookie'' u32,
      Field ''fl'' struct_flowi,
      Field ''ipaddr'' union_sctp_addr,
      Field ''af_specific'' (CPtr ''struct sctp_af''),
      Field ''asoc'' (CPtr ''struct sctp_association''),
      Field ''rto'' long_unsigned_int,
      Field ''rtt'' c__u32,
      Field ''rttvar'' c__u32,
      Field ''srtt'' c__u32,
      Field ''cwnd'' c__u32,
      Field ''ssthresh'' c__u32,
      Field ''partial_bytes_acked'' c__u32,
      Field ''flight_size'' c__u32,
      Field ''burst_limited'' c__u32,
      Field ''dst'' (CPtr ''struct dst_entry''),
      Field ''saddr'' union_sctp_addr,
      Field ''hbinterval'' long_unsigned_int,
      Field ''probe_interval'' long_unsigned_int,
      Field ''sackdelay'' long_unsigned_int,
      Field ''sackfreq'' c__u32,
      Field ''mtu_info'' atomic_t,
      Field ''last_time_heard'' ktime_t,
      Field ''last_time_sent'' long_unsigned_int,
      Field ''last_time_ecne_reduced'' long_unsigned_int,
      Field ''encap_port'' c__be16,
      Field ''pathmaxrxt'' c__u16,
      Field ''flowlabel'' c__u32,
      Field ''dscp'' c__u8,
      Field ''pf_retrans'' c__u16,
      Field ''ps_retrans'' c__u16,
      Field ''pathmtu'' c__u32,
      Field ''param_flags'' c__u32,
      Field ''init_sent_count'' c_int,
      Field ''state'' c_int,
      Field ''error_count'' short_unsigned_int,
      Field ''T3_rtx_timer'' struct_timer_list,
      Field ''hb_timer'' struct_timer_list,
      Field ''proto_unreach_timer'' struct_timer_list,
      Field ''reconf_timer'' struct_timer_list,
      Field ''probe_timer'' struct_timer_list,
      Field ''transmitted'' struct_list_head,
      Field ''packet'' struct_sctp_packet,
      Field ''send_ready'' struct_list_head,
      Field ''cacc'' (CStruct [] False
        [Field ''next_tsn_at_change'' c__u32,
         Field ''changeover_active'' c_char,
         Field ''cycling_changeover'' c_char,
         Field ''cacc_saw_newack'' c_char]),
      Field ''pl'' (CStruct [] False
        [Field ''pmtu'' c__u16,
         Field ''probe_size'' c__u16,
         Field ''probe_high'' c__u16,
         Field ''probe_count'' c__u8,
         Field ''state'' c__u8]),
      Field ''hb_nonce'' c__u64,
      Field ''rcu'' struct_callback_head]"

definition union_security_list_options :: cty where
  "union_security_list_options = CUnion ''security_list_options'' False
     [Field ''binder_set_context_mgr'' (CPtr ''int (const struct cred *)''),
      Field ''binder_transaction'' (CPtr ''int (const struct cred *, const struct cred *)''),
      Field ''binder_transfer_binder'' (CPtr ''int (const struct cred *, const struct cred *)''),
      Field ''binder_transfer_file'' (CPtr ''int (const struct cred *, const struct cred *, const struct file *)''),
      Field ''ptrace_access_check'' (CPtr ''int (struct task_struct *, unsigned int)''),
      Field ''ptrace_traceme'' (CPtr ''int (struct task_struct *)''),
      Field ''capget'' (CPtr ''int (const struct task_struct *, kernel_cap_t *, kernel_cap_t *, kernel_cap_t *)''),
      Field ''capset'' (CPtr ''int (struct cred *, const struct cred *, const kernel_cap_t *, const kernel_cap_t *, const kernel_cap_t *)''),
      Field ''capable'' (CPtr ''int (const struct cred *, struct user_namespace *, int, unsigned int)''),
      Field ''quotactl'' (CPtr ''int (int, int, int, const struct super_block *)''),
      Field ''quota_on'' (CPtr ''int (struct dentry *)''),
      Field ''syslog'' (CPtr ''int (int)''),
      Field ''settime'' (CPtr ''int (const struct timespec64 *, const struct timezone *)''),
      Field ''vm_enough_memory'' (CPtr ''int (struct mm_struct *, long int)''),
      Field ''bprm_creds_for_exec'' (CPtr ''int (struct linux_binprm *)''),
      Field ''bprm_creds_from_file'' (CPtr ''int (struct linux_binprm *, const struct file *)''),
      Field ''bprm_check_security'' (CPtr ''int (struct linux_binprm *)''),
      Field ''bprm_committing_creds'' (CPtr ''void (const struct linux_binprm *)''),
      Field ''bprm_committed_creds'' (CPtr ''void (const struct linux_binprm *)''),
      Field ''fs_context_submount'' (CPtr ''int (struct fs_context *, struct super_block *)''),
      Field ''fs_context_dup'' (CPtr ''int (struct fs_context *, struct fs_context *)''),
      Field ''fs_context_parse_param'' (CPtr ''int (struct fs_context *, struct fs_parameter *)''),
      Field ''sb_alloc_security'' (CPtr ''int (struct super_block *)''),
      Field ''sb_delete'' (CPtr ''void (struct super_block *)''),
      Field ''sb_free_security'' (CPtr ''void (struct super_block *)''),
      Field ''sb_free_mnt_opts'' (CPtr ''void (void *)''),
      Field ''sb_eat_lsm_opts'' (CPtr ''int (char *, void **)''),
      Field ''sb_mnt_opts_compat'' (CPtr ''int (struct super_block *, void *)''),
      Field ''sb_remount'' (CPtr ''int (struct super_block *, void *)''),
      Field ''sb_kern_mount'' (CPtr ''int (const struct super_block *)''),
      Field ''sb_show_options'' (CPtr ''int (struct seq_file *, struct super_block *)''),
      Field ''sb_statfs'' (CPtr ''int (struct dentry *)''),
      Field ''sb_mount'' (CPtr ''int (const char *, const struct path *, const char *, long unsigned int, void *)''),
      Field ''sb_umount'' (CPtr ''int (struct vfsmount *, int)''),
      Field ''sb_pivotroot'' (CPtr ''int (const struct path *, const struct path *)''),
      Field ''sb_set_mnt_opts'' (CPtr ''int (struct super_block *, void *, long unsigned int, long unsigned int *)''),
      Field ''sb_clone_mnt_opts'' (CPtr ''int (const struct super_block *, struct super_block *, long unsigned int, long unsigned int *)''),
      Field ''move_mount'' (CPtr ''int (const struct path *, const struct path *)''),
      Field ''dentry_init_security'' (CPtr ''int (struct dentry *, int, const struct qstr *, const char **, struct lsm_context *)''),
      Field ''dentry_create_files_as'' (CPtr ''int (struct dentry *, int, const struct qstr *, const struct cred *, struct cred *)''),
      Field ''path_unlink'' (CPtr ''int (const struct path *, struct dentry *)''),
      Field ''path_mkdir'' (CPtr ''int (const struct path *, struct dentry *, umode_t)''),
      Field ''path_rmdir'' (CPtr ''int (const struct path *, struct dentry *)''),
      Field ''path_mknod'' (CPtr ''int (const struct path *, struct dentry *, umode_t, unsigned int)''),
      Field ''path_post_mknod'' (CPtr ''void (struct mnt_idmap *, struct dentry *)''),
      Field ''path_truncate'' (CPtr ''int (const struct path *)''),
      Field ''path_symlink'' (CPtr ''int (const struct path *, struct dentry *, const char *)''),
      Field ''path_link'' (CPtr ''int (struct dentry *, const struct path *, struct dentry *)''),
      Field ''path_rename'' (CPtr ''int (const struct path *, struct dentry *, const struct path *, struct dentry *, unsigned int)''),
      Field ''path_chmod'' (CPtr ''int (const struct path *, umode_t)''),
      Field ''path_chown'' (CPtr ''int (const struct path *, kuid_t, kgid_t)''),
      Field ''path_chroot'' (CPtr ''int (const struct path *)''),
      Field ''path_notify'' (CPtr ''int (const struct path *, u64, unsigned int)''),
      Field ''inode_alloc_security'' (CPtr ''int (struct inode *)''),
      Field ''inode_free_security'' (CPtr ''void (struct inode *)''),
      Field ''inode_free_security_rcu'' (CPtr ''void (void *)''),
      Field ''inode_init_security'' (CPtr ''int (struct inode *, struct inode *, const struct qstr *, struct xattr *, int *)''),
      Field ''inode_init_security_anon'' (CPtr ''int (struct inode *, const struct qstr *, const struct inode *)''),
      Field ''inode_create'' (CPtr ''int (struct inode *, struct dentry *, umode_t)''),
      Field ''inode_post_create_tmpfile'' (CPtr ''void (struct mnt_idmap *, struct inode *)''),
      Field ''inode_link'' (CPtr ''int (struct dentry *, struct inode *, struct dentry *)''),
      Field ''inode_unlink'' (CPtr ''int (struct inode *, struct dentry *)''),
      Field ''inode_symlink'' (CPtr ''int (struct inode *, struct dentry *, const char *)''),
      Field ''inode_mkdir'' (CPtr ''int (struct inode *, struct dentry *, umode_t)''),
      Field ''inode_rmdir'' (CPtr ''int (struct inode *, struct dentry *)''),
      Field ''inode_mknod'' (CPtr ''int (struct inode *, struct dentry *, umode_t, dev_t)''),
      Field ''inode_rename'' (CPtr ''int (struct inode *, struct dentry *, struct inode *, struct dentry *)''),
      Field ''inode_readlink'' (CPtr ''int (struct dentry *)''),
      Field ''inode_follow_link'' (CPtr ''int (struct dentry *, struct inode *, bool)''),
      Field ''inode_permission'' (CPtr ''int (struct inode *, int)''),
      Field ''inode_setattr'' (CPtr ''int (struct mnt_idmap *, struct dentry *, struct iattr *)''),
      Field ''inode_post_setattr'' (CPtr ''void (struct mnt_idmap *, struct dentry *, int)''),
      Field ''inode_getattr'' (CPtr ''int (const struct path *)''),
      Field ''inode_xattr_skipcap'' (CPtr ''int (const char *)''),
      Field ''inode_setxattr'' (CPtr ''int (struct mnt_idmap *, struct dentry *, const char *, const void *, size_t, int)''),
      Field ''inode_post_setxattr'' (CPtr ''void (struct dentry *, const char *, const void *, size_t, int)''),
      Field ''inode_getxattr'' (CPtr ''int (struct dentry *, const char *)''),
      Field ''inode_listxattr'' (CPtr ''int (struct dentry *)''),
      Field ''inode_removexattr'' (CPtr ''int (struct mnt_idmap *, struct dentry *, const char *)''),
      Field ''inode_post_removexattr'' (CPtr ''void (struct dentry *, const char *)''),
      Field ''inode_file_setattr'' (CPtr ''int (struct dentry *, struct file_kattr *)''),
      Field ''inode_file_getattr'' (CPtr ''int (struct dentry *, struct file_kattr *)''),
      Field ''inode_set_acl'' (CPtr ''int (struct mnt_idmap *, struct dentry *, const char *, struct posix_acl *)''),
      Field ''inode_post_set_acl'' (CPtr ''void (struct dentry *, const char *, struct posix_acl *)''),
      Field ''inode_get_acl'' (CPtr ''int (struct mnt_idmap *, struct dentry *, const char *)''),
      Field ''inode_remove_acl'' (CPtr ''int (struct mnt_idmap *, struct dentry *, const char *)''),
      Field ''inode_post_remove_acl'' (CPtr ''void (struct mnt_idmap *, struct dentry *, const char *)''),
      Field ''inode_need_killpriv'' (CPtr ''int (struct dentry *)''),
      Field ''inode_killpriv'' (CPtr ''int (struct mnt_idmap *, struct dentry *)''),
      Field ''inode_getsecurity'' (CPtr ''int (struct mnt_idmap *, struct inode *, const char *, void **, bool)''),
      Field ''inode_setsecurity'' (CPtr ''int (struct inode *, const char *, const void *, size_t, int)''),
      Field ''inode_listsecurity'' (CPtr ''int (struct inode *, char *, size_t)''),
      Field ''inode_getlsmprop'' (CPtr ''void (struct inode *, struct lsm_prop *)''),
      Field ''inode_copy_up'' (CPtr ''int (struct dentry *, struct cred **)''),
      Field ''inode_copy_up_xattr'' (CPtr ''int (struct dentry *, const char *)''),
      Field ''inode_setintegrity'' (CPtr ''int (const struct inode *, enum lsm_integrity_type, const void *, size_t)''),
      Field ''kernfs_init_security'' (CPtr ''int (struct kernfs_node *, struct kernfs_node *)''),
      Field ''file_permission'' (CPtr ''int (struct file *, int)''),
      Field ''file_alloc_security'' (CPtr ''int (struct file *)''),
      Field ''file_release'' (CPtr ''void (struct file *)''),
      Field ''file_free_security'' (CPtr ''void (struct file *)''),
      Field ''backing_file_alloc'' (CPtr ''int (struct file *, const struct file *)''),
      Field ''backing_file_free'' (CPtr ''void (struct file *)''),
      Field ''file_ioctl'' (CPtr ''int (struct file *, unsigned int, long unsigned int)''),
      Field ''file_ioctl_compat'' (CPtr ''int (struct file *, unsigned int, long unsigned int)''),
      Field ''mmap_addr'' (CPtr ''int (long unsigned int)''),
      Field ''mmap_file'' (CPtr ''int (struct file *, long unsigned int, long unsigned int, long unsigned int)''),
      Field ''mmap_backing_file'' (CPtr ''int (struct vm_area_struct *, struct file *, struct file *)''),
      Field ''file_mprotect'' (CPtr ''int (struct vm_area_struct *, long unsigned int, long unsigned int)''),
      Field ''file_lock'' (CPtr ''int (struct file *, unsigned int)''),
      Field ''file_fcntl'' (CPtr ''int (struct file *, unsigned int, long unsigned int)''),
      Field ''file_set_fowner'' (CPtr ''void (struct file *)''),
      Field ''file_send_sigiotask'' (CPtr ''int (struct task_struct *, struct fown_struct *, int)''),
      Field ''file_receive'' (CPtr ''int (struct file *)''),
      Field ''file_open'' (CPtr ''int (struct file *)''),
      Field ''file_post_open'' (CPtr ''int (struct file *, int)''),
      Field ''file_truncate'' (CPtr ''int (struct file *)''),
      Field ''task_alloc'' (CPtr ''int (struct task_struct *, u64)''),
      Field ''task_free'' (CPtr ''void (struct task_struct *)''),
      Field ''cred_alloc_blank'' (CPtr ''int (struct cred *, gfp_t)''),
      Field ''cred_free'' (CPtr ''void (struct cred *)''),
      Field ''cred_prepare'' (CPtr ''int (struct cred *, const struct cred *, gfp_t)''),
      Field ''cred_transfer'' (CPtr ''void (struct cred *, const struct cred *)''),
      Field ''cred_getsecid'' (CPtr ''void (const struct cred *, u32 *)''),
      Field ''cred_getlsmprop'' (CPtr ''void (const struct cred *, struct lsm_prop *)''),
      Field ''kernel_act_as'' (CPtr ''int (struct cred *, u32)''),
      Field ''kernel_create_files_as'' (CPtr ''int (struct cred *, struct inode *)''),
      Field ''kernel_module_request'' (CPtr ''int (char *)''),
      Field ''kernel_load_data'' (CPtr ''int (enum kernel_load_data_id, bool)''),
      Field ''kernel_post_load_data'' (CPtr ''int (char *, loff_t, enum kernel_load_data_id, char *)''),
      Field ''kernel_read_file'' (CPtr ''int (struct file *, enum kernel_read_file_id, bool)''),
      Field ''kernel_post_read_file'' (CPtr ''int (struct file *, char *, loff_t, enum kernel_read_file_id)''),
      Field ''task_fix_setuid'' (CPtr ''int (struct cred *, const struct cred *, int)''),
      Field ''task_fix_setgid'' (CPtr ''int (struct cred *, const struct cred *, int)''),
      Field ''task_fix_setgroups'' (CPtr ''int (struct cred *, const struct cred *)''),
      Field ''task_setpgid'' (CPtr ''int (struct task_struct *, pid_t)''),
      Field ''task_getpgid'' (CPtr ''int (struct task_struct *)''),
      Field ''task_getsid'' (CPtr ''int (struct task_struct *)''),
      Field ''current_getlsmprop_subj'' (CPtr ''void (struct lsm_prop *)''),
      Field ''task_getlsmprop_obj'' (CPtr ''void (struct task_struct *, struct lsm_prop *)''),
      Field ''task_setnice'' (CPtr ''int (struct task_struct *, int)''),
      Field ''task_setioprio'' (CPtr ''int (struct task_struct *, int)''),
      Field ''task_getioprio'' (CPtr ''int (struct task_struct *)''),
      Field ''task_prlimit'' (CPtr ''int (const struct cred *, const struct cred *, unsigned int)''),
      Field ''task_setrlimit'' (CPtr ''int (struct task_struct *, unsigned int, struct rlimit *)''),
      Field ''task_setscheduler'' (CPtr ''int (struct task_struct *)''),
      Field ''task_getscheduler'' (CPtr ''int (struct task_struct *)''),
      Field ''task_movememory'' (CPtr ''int (struct task_struct *)''),
      Field ''task_kill'' (CPtr ''int (struct task_struct *, struct kernel_siginfo *, int, const struct cred *)''),
      Field ''task_prctl'' (CPtr ''int (int, long unsigned int, long unsigned int, long unsigned int, long unsigned int)''),
      Field ''task_to_inode'' (CPtr ''void (struct task_struct *, struct inode *)''),
      Field ''userns_create'' (CPtr ''int (const struct cred *)''),
      Field ''ipc_permission'' (CPtr ''int (struct kern_ipc_perm *, short int)''),
      Field ''ipc_getlsmprop'' (CPtr ''void (struct kern_ipc_perm *, struct lsm_prop *)''),
      Field ''msg_msg_alloc_security'' (CPtr ''int (struct msg_msg *)''),
      Field ''msg_msg_free_security'' (CPtr ''void (struct msg_msg *)''),
      Field ''msg_queue_alloc_security'' (CPtr ''int (struct kern_ipc_perm *)''),
      Field ''msg_queue_free_security'' (CPtr ''void (struct kern_ipc_perm *)''),
      Field ''msg_queue_associate'' (CPtr ''int (struct kern_ipc_perm *, int)''),
      Field ''msg_queue_msgctl'' (CPtr ''int (struct kern_ipc_perm *, int)''),
      Field ''msg_queue_msgsnd'' (CPtr ''int (struct kern_ipc_perm *, struct msg_msg *, int)''),
      Field ''msg_queue_msgrcv'' (CPtr ''int (struct kern_ipc_perm *, struct msg_msg *, struct task_struct *, long int, int)''),
      Field ''shm_alloc_security'' (CPtr ''int (struct kern_ipc_perm *)''),
      Field ''shm_free_security'' (CPtr ''void (struct kern_ipc_perm *)''),
      Field ''shm_associate'' (CPtr ''int (struct kern_ipc_perm *, int)''),
      Field ''shm_shmctl'' (CPtr ''int (struct kern_ipc_perm *, int)''),
      Field ''shm_shmat'' (CPtr ''int (struct kern_ipc_perm *, char *, int)''),
      Field ''sem_alloc_security'' (CPtr ''int (struct kern_ipc_perm *)''),
      Field ''sem_free_security'' (CPtr ''void (struct kern_ipc_perm *)''),
      Field ''sem_associate'' (CPtr ''int (struct kern_ipc_perm *, int)''),
      Field ''sem_semctl'' (CPtr ''int (struct kern_ipc_perm *, int)''),
      Field ''sem_semop'' (CPtr ''int (struct kern_ipc_perm *, struct sembuf *, unsigned int, int)''),
      Field ''netlink_send'' (CPtr ''int (struct sock *, struct sk_buff *)''),
      Field ''d_instantiate'' (CPtr ''void (struct dentry *, struct inode *)''),
      Field ''getselfattr'' (CPtr ''int (unsigned int, struct lsm_ctx *, u32 *, u32)''),
      Field ''setselfattr'' (CPtr ''int (unsigned int, struct lsm_ctx *, u32, u32)''),
      Field ''getprocattr'' (CPtr ''int (struct task_struct *, const char *, char **)''),
      Field ''setprocattr'' (CPtr ''int (const char *, void *, size_t)''),
      Field ''ismaclabel'' (CPtr ''int (const char *)''),
      Field ''secid_to_secctx'' (CPtr ''int (u32, struct lsm_context *)''),
      Field ''lsmprop_to_secctx'' (CPtr ''int (struct lsm_prop *, struct lsm_context *)''),
      Field ''secctx_to_secid'' (CPtr ''int (const char *, u32, u32 *)''),
      Field ''release_secctx'' (CPtr ''void (struct lsm_context *)''),
      Field ''inode_invalidate_secctx'' (CPtr ''void (struct inode *)''),
      Field ''inode_notifysecctx'' (CPtr ''int (struct inode *, void *, u32)''),
      Field ''inode_setsecctx'' (CPtr ''int (struct dentry *, void *, u32)''),
      Field ''inode_getsecctx'' (CPtr ''int (struct inode *, struct lsm_context *)''),
      Field ''post_notification'' (CPtr ''int (const struct cred *, const struct cred *, struct watch_notification *)''),
      Field ''watch_key'' (CPtr ''int (struct key *)''),
      Field ''unix_stream_connect'' (CPtr ''int (struct sock *, struct sock *, struct sock *)''),
      Field ''unix_may_send'' (CPtr ''int (struct socket *, struct socket *)''),
      Field ''socket_create'' (CPtr ''int (int, int, int, int)''),
      Field ''socket_post_create'' (CPtr ''int (struct socket *, int, int, int, int)''),
      Field ''socket_socketpair'' (CPtr ''int (struct socket *, struct socket *)''),
      Field ''socket_bind'' (CPtr ''int (struct socket *, struct sockaddr *, int)''),
      Field ''socket_connect'' (CPtr ''int (struct socket *, struct sockaddr *, int)''),
      Field ''socket_listen'' (CPtr ''int (struct socket *, int)''),
      Field ''socket_accept'' (CPtr ''int (struct socket *, struct socket *)''),
      Field ''socket_sendmsg'' (CPtr ''int (struct socket *, struct msghdr *, int)''),
      Field ''socket_recvmsg'' (CPtr ''int (struct socket *, struct msghdr *, int, int)''),
      Field ''socket_getsockname'' (CPtr ''int (struct socket *)''),
      Field ''socket_getpeername'' (CPtr ''int (struct socket *)''),
      Field ''socket_getsockopt'' (CPtr ''int (struct socket *, int, int)''),
      Field ''socket_setsockopt'' (CPtr ''int (struct socket *, int, int)''),
      Field ''socket_shutdown'' (CPtr ''int (struct socket *, int)''),
      Field ''socket_sock_rcv_skb'' (CPtr ''int (struct sock *, struct sk_buff *)''),
      Field ''socket_getpeersec_stream'' (CPtr ''int (struct socket *, sockptr_t, sockptr_t, unsigned int)''),
      Field ''socket_getpeersec_dgram'' (CPtr ''int (struct socket *, struct sk_buff *, u32 *)''),
      Field ''sk_alloc_security'' (CPtr ''int (struct sock *, int, gfp_t)''),
      Field ''sk_free_security'' (CPtr ''void (struct sock *)''),
      Field ''sk_clone_security'' (CPtr ''void (const struct sock *, struct sock *)''),
      Field ''sk_getsecid'' (CPtr ''void (const struct sock *, u32 *)''),
      Field ''sock_graft'' (CPtr ''void (struct sock *, struct socket *)''),
      Field ''inet_conn_request'' (CPtr ''int (const struct sock *, struct sk_buff *, struct request_sock *)''),
      Field ''inet_csk_clone'' (CPtr ''void (struct sock *, const struct request_sock *)''),
      Field ''inet_conn_established'' (CPtr ''void (struct sock *, struct sk_buff *)''),
      Field ''secmark_relabel_packet'' (CPtr ''int (u32)''),
      Field ''secmark_refcount_inc'' (CPtr ''void (void)''),
      Field ''secmark_refcount_dec'' (CPtr ''void (void)''),
      Field ''req_classify_flow'' (CPtr ''void (const struct request_sock *, struct flowi_common *)''),
      Field ''tun_dev_alloc_security'' (CPtr ''int (void *)''),
      Field ''tun_dev_create'' (CPtr ''int (void)''),
      Field ''tun_dev_attach_queue'' (CPtr ''int (void *)''),
      Field ''tun_dev_attach'' (CPtr ''int (struct sock *, void *)''),
      Field ''tun_dev_open'' (CPtr ''int (void *)''),
      Field ''sctp_assoc_request'' (CPtr ''int (struct sctp_association *, struct sk_buff *)''),
      Field ''sctp_bind_connect'' (CPtr ''int (struct sock *, int, struct sockaddr *, int)''),
      Field ''sctp_sk_clone'' (CPtr ''void (struct sctp_association *, struct sock *, struct sock *)''),
      Field ''sctp_assoc_established'' (CPtr ''int (struct sctp_association *, struct sk_buff *)''),
      Field ''mptcp_add_subflow'' (CPtr ''int (struct sock *, struct sock *)''),
      Field ''ib_pkey_access'' (CPtr ''int (void *, u64, u16)''),
      Field ''ib_endport_manage_subnet'' (CPtr ''int (void *, const char *, u8)''),
      Field ''ib_alloc_security'' (CPtr ''int (void *)''),
      Field ''xfrm_policy_alloc_security'' (CPtr ''int (struct xfrm_sec_ctx **, struct xfrm_user_sec_ctx *, gfp_t)''),
      Field ''xfrm_policy_clone_security'' (CPtr ''int (struct xfrm_sec_ctx *, struct xfrm_sec_ctx **)''),
      Field ''xfrm_policy_free_security'' (CPtr ''void (struct xfrm_sec_ctx *)''),
      Field ''xfrm_policy_delete_security'' (CPtr ''int (struct xfrm_sec_ctx *)''),
      Field ''xfrm_state_alloc'' (CPtr ''int (struct xfrm_state *, struct xfrm_user_sec_ctx *)''),
      Field ''xfrm_state_alloc_acquire'' (CPtr ''int (struct xfrm_state *, struct xfrm_sec_ctx *, u32)''),
      Field ''xfrm_state_free_security'' (CPtr ''void (struct xfrm_state *)''),
      Field ''xfrm_state_delete_security'' (CPtr ''int (struct xfrm_state *)''),
      Field ''xfrm_policy_lookup'' (CPtr ''int (struct xfrm_sec_ctx *, u32)''),
      Field ''xfrm_state_pol_flow_match'' (CPtr ''int (struct xfrm_state *, struct xfrm_policy *, const struct flowi_common *)''),
      Field ''xfrm_decode_session'' (CPtr ''int (struct sk_buff *, u32 *, int)''),
      Field ''key_alloc'' (CPtr ''int (struct key *, const struct cred *, long unsigned int)''),
      Field ''key_permission'' (CPtr ''int (key_ref_t, const struct cred *, enum key_need_perm)''),
      Field ''key_getsecurity'' (CPtr ''int (struct key *, char **)''),
      Field ''key_post_create_or_update'' (CPtr ''void (struct key *, struct key *, const void *, size_t, long unsigned int, bool)''),
      Field ''audit_rule_init'' (CPtr ''int (u32, u32, char *, void **, gfp_t)''),
      Field ''audit_rule_known'' (CPtr ''int (struct audit_krule *)''),
      Field ''audit_rule_match'' (CPtr ''int (struct lsm_prop *, u32, u32, void *)''),
      Field ''audit_rule_free'' (CPtr ''void (void *)''),
      Field ''bpf'' (CPtr ''int (int, union bpf_attr *, unsigned int, bool)''),
      Field ''bpf_map'' (CPtr ''int (struct bpf_map *, fmode_t)''),
      Field ''bpf_prog'' (CPtr ''int (struct bpf_prog *)''),
      Field ''bpf_map_create'' (CPtr ''int (struct bpf_map *, union bpf_attr *, struct bpf_token *, bool)''),
      Field ''bpf_map_free'' (CPtr ''void (struct bpf_map *)''),
      Field ''bpf_prog_load'' (CPtr ''int (struct bpf_prog *, union bpf_attr *, struct bpf_token *, bool)''),
      Field ''bpf_prog_free'' (CPtr ''void (struct bpf_prog *)''),
      Field ''bpf_token_create'' (CPtr ''int (struct bpf_token *, union bpf_attr *, const struct path *)''),
      Field ''bpf_token_free'' (CPtr ''void (struct bpf_token *)''),
      Field ''bpf_token_cmd'' (CPtr ''int (const struct bpf_token *, enum bpf_cmd)''),
      Field ''bpf_token_capable'' (CPtr ''int (const struct bpf_token *, int)''),
      Field ''locked_down'' (CPtr ''int (enum lockdown_reason)''),
      Field ''perf_event_open'' (CPtr ''int (int)''),
      Field ''perf_event_alloc'' (CPtr ''int (struct perf_event *)''),
      Field ''perf_event_read'' (CPtr ''int (struct perf_event *)''),
      Field ''perf_event_write'' (CPtr ''int (struct perf_event *)''),
      Field ''uring_override_creds'' (CPtr ''int (const struct cred *)''),
      Field ''uring_sqpoll'' (CPtr ''int (void)''),
      Field ''uring_cmd'' (CPtr ''int (struct io_uring_cmd *)''),
      Field ''uring_allowed'' (CPtr ''int (void)''),
      Field ''initramfs_populated'' (CPtr ''void (void)''),
      Field ''bdev_alloc_security'' (CPtr ''int (struct block_device *)''),
      Field ''bdev_free_security'' (CPtr ''void (struct block_device *)''),
      Field ''bdev_setintegrity'' (CPtr ''int (struct block_device *, enum lsm_integrity_type, const void *, size_t)''),
      Field ''lsm_func_addr'' (CPtr ''void'')]"

definition struct_vmcb_seg :: cty where
  "struct_vmcb_seg = CStruct ''vmcb_seg'' False
     [Field ''selector'' u16,
      Field ''attrib'' u16,
      Field ''limit'' u32,
      Field ''base'' u64]"

definition struct_sev_es_save_area :: cty where
  "struct_sev_es_save_area = CStruct ''sev_es_save_area'' False
     [Field ''es'' struct_vmcb_seg,
      Field ''cs'' struct_vmcb_seg,
      Field ''ss'' struct_vmcb_seg,
      Field ''ds'' struct_vmcb_seg,
      Field ''fs'' struct_vmcb_seg,
      Field ''gs'' struct_vmcb_seg,
      Field ''gdtr'' struct_vmcb_seg,
      Field ''ldtr'' struct_vmcb_seg,
      Field ''idtr'' struct_vmcb_seg,
      Field ''tr'' struct_vmcb_seg,
      Field ''pl0_ssp'' u64,
      Field ''pl1_ssp'' u64,
      Field ''pl2_ssp'' u64,
      Field ''pl3_ssp'' u64,
      Field ''u_cet'' u64,
      Field ''reserved_0xc8'' (CArr 2 u8),
      Field ''vmpl'' u8,
      Field ''cpl'' u8,
      Field ''reserved_0xcc'' (CArr 4 u8),
      Field ''efer'' u64,
      Field ''reserved_0xd8'' (CArr 104 u8),
      Field ''xss'' u64,
      Field ''cr4'' u64,
      Field ''cr3'' u64,
      Field ''cr0'' u64,
      Field ''dr7'' u64,
      Field ''dr6'' u64,
      Field ''rflags'' u64,
      Field ''rip'' u64,
      Field ''dr0'' u64,
      Field ''dr1'' u64,
      Field ''dr2'' u64,
      Field ''dr3'' u64,
      Field ''dr0_addr_mask'' u64,
      Field ''dr1_addr_mask'' u64,
      Field ''dr2_addr_mask'' u64,
      Field ''dr3_addr_mask'' u64,
      Field ''reserved_0x1c0'' (CArr 24 u8),
      Field ''rsp'' u64,
      Field ''s_cet'' u64,
      Field ''ssp'' u64,
      Field ''isst_addr'' u64,
      Field ''rax'' u64,
      Field ''star'' u64,
      Field ''lstar'' u64,
      Field ''cstar'' u64,
      Field ''sfmask'' u64,
      Field ''kernel_gs_base'' u64,
      Field ''sysenter_cs'' u64,
      Field ''sysenter_esp'' u64,
      Field ''sysenter_eip'' u64,
      Field ''cr2'' u64,
      Field ''reserved_0x248'' (CArr 32 u8),
      Field ''g_pat'' u64,
      Field ''dbgctl'' u64,
      Field ''br_from'' u64,
      Field ''br_to'' u64,
      Field ''last_excp_from'' u64,
      Field ''last_excp_to'' u64,
      Field ''reserved_0x298'' (CArr 80 u8),
      Field ''pkru'' u32,
      Field ''tsc_aux'' u32,
      Field ''tsc_scale'' u64,
      Field ''tsc_offset'' u64,
      Field ''reserved_0x300'' (CArr 8 u8),
      Field ''rcx'' u64,
      Field ''rdx'' u64,
      Field ''rbx'' u64,
      Field ''reserved_0x320'' u64,
      Field ''rbp'' u64,
      Field ''rsi'' u64,
      Field ''rdi'' u64,
      Field ''r8'' u64,
      Field ''r9'' u64,
      Field ''r10'' u64,
      Field ''r11'' u64,
      Field ''r12'' u64,
      Field ''r13'' u64,
      Field ''r14'' u64,
      Field ''r15'' u64,
      Field ''reserved_0x380'' (CArr 16 u8),
      Field ''guest_exit_info_1'' u64,
      Field ''guest_exit_info_2'' u64,
      Field ''guest_exit_int_info'' u64,
      Field ''guest_nrip'' u64,
      Field ''sev_features'' u64,
      Field ''vintr_ctrl'' u64,
      Field ''guest_exit_code'' u64,
      Field ''virtual_tom'' u64,
      Field ''tlb_id'' u64,
      Field ''pcpu_id'' u64,
      Field ''event_inj'' u64,
      Field ''xcr0'' u64,
      Field ''reserved_0x3f0'' (CArr 16 u8),
      Field ''x87_dp'' u64,
      Field ''mxcsr'' u32,
      Field ''x87_ftw'' u16,
      Field ''x87_fsw'' u16,
      Field ''x87_fcw'' u16,
      Field ''x87_fop'' u16,
      Field ''x87_ds'' u16,
      Field ''x87_cs'' u16,
      Field ''x87_rip'' u64,
      Field ''fpreg_x87'' (CArr 80 u8),
      Field ''fpreg_xmm'' (CArr 256 u8),
      Field ''fpreg_ymm'' (CArr 256 u8)]"

definition struct_sfp_eeprom_base :: cty where
  "struct_sfp_eeprom_base = CStruct ''sfp_eeprom_base'' False
     [Field ''phys_id'' u8,
      Field ''phys_ext_id'' u8,
      Field ''connector'' u8,
      BitField ''if_1x_copper_passive'' u8 1,
      BitField ''if_1x_copper_active'' u8 1,
      BitField ''if_1x_lx'' u8 1,
      BitField ''if_1x_sx'' u8 1,
      BitField ''e10g_base_sr'' u8 1,
      BitField ''e10g_base_lr'' u8 1,
      BitField ''e10g_base_lrm'' u8 1,
      BitField ''e10g_base_er'' u8 1,
      BitField ''sonet_oc3_short_reach'' u8 1,
      BitField ''sonet_oc3_smf_intermediate_reach'' u8 1,
      BitField ''sonet_oc3_smf_long_reach'' u8 1,
      BitField ''unallocated_5_3'' u8 1,
      BitField ''sonet_oc12_short_reach'' u8 1,
      BitField ''sonet_oc12_smf_intermediate_reach'' u8 1,
      BitField ''sonet_oc12_smf_long_reach'' u8 1,
      BitField ''unallocated_5_7'' u8 1,
      BitField ''sonet_oc48_short_reach'' u8 1,
      BitField ''sonet_oc48_intermediate_reach'' u8 1,
      BitField ''sonet_oc48_long_reach'' u8 1,
      BitField ''sonet_reach_bit2'' u8 1,
      BitField ''sonet_reach_bit1'' u8 1,
      BitField ''sonet_oc192_short_reach'' u8 1,
      BitField ''escon_smf_1310_laser'' u8 1,
      BitField ''escon_mmf_1310_led'' u8 1,
      BitField ''e1000_base_sx'' u8 1,
      BitField ''e1000_base_lx'' u8 1,
      BitField ''e1000_base_cx'' u8 1,
      BitField ''e1000_base_t'' u8 1,
      BitField ''e100_base_lx'' u8 1,
      BitField ''e100_base_fx'' u8 1,
      BitField ''e_base_bx10'' u8 1,
      BitField ''e_base_px'' u8 1,
      BitField ''fc_tech_electrical_inter_enclosure'' u8 1,
      BitField ''fc_tech_lc'' u8 1,
      BitField ''fc_tech_sa'' u8 1,
      BitField ''fc_ll_m'' u8 1,
      BitField ''fc_ll_l'' u8 1,
      BitField ''fc_ll_i'' u8 1,
      BitField ''fc_ll_s'' u8 1,
      BitField ''fc_ll_v'' u8 1,
      BitField ''unallocated_8_0'' u8 1,
      BitField ''unallocated_8_1'' u8 1,
      BitField ''sfp_ct_passive'' u8 1,
      BitField ''sfp_ct_active'' u8 1,
      BitField ''fc_tech_ll'' u8 1,
      BitField ''fc_tech_sl'' u8 1,
      BitField ''fc_tech_sn'' u8 1,
      BitField ''fc_tech_electrical_intra_enclosure'' u8 1,
      BitField ''fc_media_sm'' u8 1,
      BitField ''unallocated_9_1'' u8 1,
      BitField ''fc_media_m5'' u8 1,
      BitField ''fc_media_m6'' u8 1,
      BitField ''fc_media_tv'' u8 1,
      BitField ''fc_media_mi'' u8 1,
      BitField ''fc_media_tp'' u8 1,
      BitField ''fc_media_tw'' u8 1,
      BitField ''fc_speed_100'' u8 1,
      BitField ''unallocated_10_1'' u8 1,
      BitField ''fc_speed_200'' u8 1,
      BitField ''fc_speed_3200'' u8 1,
      BitField ''fc_speed_400'' u8 1,
      BitField ''fc_speed_1600'' u8 1,
      BitField ''fc_speed_800'' u8 1,
      BitField ''fc_speed_1200'' u8 1,
      Field ''encoding'' u8,
      Field ''br_nominal'' u8,
      Field ''rate_id'' u8,
      Field ''link_len'' (CArr 6 u8),
      Field ''vendor_name'' (CArr 16 c_char),
      Field ''extended_cc'' u8,
      Field ''vendor_oui'' (CArr 3 c_char),
      Field ''vendor_pn'' (CArr 16 c_char),
      Field ''vendor_rev'' (CArr 4 c_char),
      Field [] (CUnion [] False
        [Field ''optical_wavelength'' c__be16,
         Field ''cable_compliance'' c__be16,
         Field ''passive'' (CStruct [] False
           [BitField ''sff8431_app_e'' u8 1,
            BitField ''fc_pi_4_app_h'' u8 1,
            BitField ''reserved60_2'' u8 6,
            BitField ''reserved61'' u8 8]),
         Field ''active'' (CStruct [] False
           [BitField ''sff8431_app_e'' u8 1,
            BitField ''fc_pi_4_app_h'' u8 1,
            BitField ''sff8431_lim'' u8 1,
            BitField ''fc_pi_4_lim'' u8 1,
            BitField ''reserved60_4'' u8 4,
            BitField ''reserved61'' u8 8])]),
      Field ''reserved62'' u8,
      Field ''cc_base'' u8]"

definition struct_sg_io_v4 :: cty where
  "struct_sg_io_v4 = CStruct ''sg_io_v4'' False
     [Field ''guard'' c__s32,
      Field ''protocol'' c__u32,
      Field ''subprotocol'' c__u32,
      Field ''request_len'' c__u32,
      Field ''request'' c__u64,
      Field ''request_tag'' c__u64,
      Field ''request_attr'' c__u32,
      Field ''request_priority'' c__u32,
      Field ''request_extra'' c__u32,
      Field ''max_response_len'' c__u32,
      Field ''response'' c__u64,
      Field ''dout_iovec_count'' c__u32,
      Field ''dout_xfer_len'' c__u32,
      Field ''din_iovec_count'' c__u32,
      Field ''din_xfer_len'' c__u32,
      Field ''dout_xferp'' c__u64,
      Field ''din_xferp'' c__u64,
      Field ''timeout'' c__u32,
      Field ''flags'' c__u32,
      Field ''usr_ptr'' c__u64,
      Field ''spare_in'' c__u32,
      Field ''driver_status'' c__u32,
      Field ''transport_status'' c__u32,
      Field ''device_status'' c__u32,
      Field ''retry_delay'' c__u32,
      Field ''info'' c__u32,
      Field ''duration'' c__u32,
      Field ''response_len'' c__u32,
      Field ''din_resid'' c__s32,
      Field ''dout_resid'' c__s32,
      Field ''generated_tag'' c__u64,
      Field ''spare_out'' c__u32,
      Field ''padding'' c__u32]"

definition struct_strp_stats :: cty where
  "struct_strp_stats = CStruct ''strp_stats'' False
     [Field ''msgs'' long_long_unsigned_int,
      Field ''bytes'' long_long_unsigned_int,
      Field ''mem_fail'' unsigned_int,
      Field ''need_more_hdr'' unsigned_int,
      Field ''msg_too_big'' unsigned_int,
      Field ''msg_timeouts'' unsigned_int,
      Field ''bad_hdr_len'' unsigned_int]"

definition struct_strp_callbacks :: cty where
  "struct_strp_callbacks = CStruct ''strp_callbacks'' False
     [Field ''parse_msg'' (CPtr ''int (struct strparser *, struct sk_buff *)''),
      Field ''rcv_msg'' (CPtr ''void (struct strparser *, struct sk_buff *)''),
      Field ''read_sock'' (CPtr ''int (struct strparser *, read_descriptor_t *, sk_read_actor_t)''),
      Field ''read_sock_done'' (CPtr ''int (struct strparser *, int)''),
      Field ''abort_parser'' (CPtr ''void (struct strparser *, int)''),
      Field ''lock'' (CPtr ''void (struct strparser *)''),
      Field ''unlock'' (CPtr ''void (struct strparser *)'')]"

definition struct_strparser :: cty where
  "struct_strparser = CStruct ''strparser'' False
     [Field ''sk'' (CPtr ''struct sock''),
      BitField ''stopped'' u32 1,
      BitField ''paused'' u32 1,
      BitField ''aborted'' u32 1,
      BitField ''interrupted'' u32 1,
      BitField ''unrecov_intr'' u32 1,
      Field ''skb_nextp'' (CPtr ''struct sk_buff *''),
      Field ''skb_head'' (CPtr ''struct sk_buff''),
      Field ''need_bytes'' unsigned_int,
      Field ''msg_timer_work'' struct_delayed_work,
      Field ''work'' struct_work_struct,
      Field ''stats'' struct_strp_stats,
      Field ''cb'' struct_strp_callbacks]"

definition struct_sk_psock_work_state :: cty where
  "struct_sk_psock_work_state = CStruct ''sk_psock_work_state'' False
     [Field ''len'' u32,
      Field ''off'' u32]"

definition struct_sk_psock :: cty where
  "struct_sk_psock = CStruct ''sk_psock'' False
     [Field ''sk'' (CPtr ''struct sock''),
      Field ''sk_redir'' (CPtr ''struct sock''),
      Field ''apply_bytes'' u32,
      Field ''cork_bytes'' u32,
      Field ''eval'' u32,
      Field ''redir_ingress'' bool,
      Field ''cork'' (CPtr ''struct sk_msg''),
      Field ''progs'' struct_sk_psock_progs,
      Field ''strp'' struct_strparser,
      Field ''copied_seq'' u32,
      Field ''ingress_bytes'' u32,
      Field ''ingress_skb'' struct_sk_buff_head,
      Field ''ingress_msg'' struct_list_head,
      Field ''ingress_lock'' spinlock_t,
      Field ''msg_tot_len'' u32,
      Field ''state'' long_unsigned_int,
      Field ''link'' struct_list_head,
      Field ''link_lock'' spinlock_t,
      Field ''refcnt'' refcount_t,
      Field ''saved_unhash'' (CPtr ''void (struct sock *)''),
      Field ''saved_destroy'' (CPtr ''void (struct sock *)''),
      Field ''saved_close'' (CPtr ''void (struct sock *, long int)''),
      Field ''saved_write_space'' (CPtr ''void (struct sock *)''),
      Field ''saved_data_ready'' (CPtr ''void (struct sock *)''),
      Field ''psock_update_sk_prot'' (CPtr ''int (struct sock *, struct sk_psock *, bool)''),
      Field ''sk_proto'' (CPtr ''struct proto''),
      Field ''work_mutex'' struct_mutex,
      Field ''work_state'' struct_sk_psock_work_state,
      Field ''work'' struct_delayed_work,
      Field ''sk_pair'' (CPtr ''struct sock''),
      Field ''rwork'' struct_rcu_work]"

definition struct_scatter_walk :: cty where
  "struct_scatter_walk = CStruct ''scatter_walk'' False
     [Field [] (CUnion [] False
        [Field ''addr'' (CPtr ''void''),
         Field ''__addr'' (CPtr ''union crypto_no_such_thing'')]),
      Field ''sg'' (CPtr ''struct scatterlist''),
      Field ''offset'' unsigned_int]"

definition struct_skcipher_walk :: cty where
  "struct_skcipher_walk = CStruct ''skcipher_walk'' False
     [Field [] (CUnion [] False
        [Field ''src'' (CStruct [] False
           [Field ''virt'' (CStruct [] False
              [Field ''addr'' (CPtr ''const void'')])]),
         Field ''in'' struct_scatter_walk]),
      Field [] (CUnion [] False
        [Field ''dst'' (CStruct [] False
           [Field ''virt'' (CStruct [] False
              [Field ''addr'' (CPtr ''void'')])]),
         Field ''out'' struct_scatter_walk]),
      Field ''nbytes'' unsigned_int,
      Field ''total'' unsigned_int,
      Field ''page'' (CPtr ''u8''),
      Field ''buffer'' (CPtr ''u8''),
      Field ''oiv'' (CPtr ''u8''),
      Field ''iv'' (CPtr ''void''),
      Field ''ivsize'' unsigned_int,
      Field ''flags'' c_int,
      Field ''blocksize'' unsigned_int,
      Field ''stride'' unsigned_int,
      Field ''alignmask'' unsigned_int]"

definition struct_netdev_xmit :: cty where
  "struct_netdev_xmit = CStruct ''netdev_xmit'' False
     [Field ''recursion'' u16,
      Field ''more'' u8,
      Field ''skip_txqueue'' u8,
      Field ''sched_mirred_nest'' u8,
      Field ''sched_mirred_dev'' (CArr 4 (CPtr ''struct net_device'')),
      Field ''nf_dup_skb_recursion'' u8]"

definition struct_softnet_data :: cty where
  "struct_softnet_data = CStruct ''softnet_data'' False
     [Field ''poll_list'' struct_list_head,
      Field ''process_queue'' struct_sk_buff_head,
      Field ''process_queue_bh_lock'' local_lock_t,
      Field ''processed'' unsigned_int,
      Field ''time_squeeze'' unsigned_int,
      Field ''rps_ipi_list'' (CPtr ''struct softnet_data''),
      Field ''received_rps'' unsigned_int,
      Field ''in_net_rx_action'' bool,
      Field ''in_napi_threaded_poll'' bool,
      Field ''flow_limit'' (CPtr ''struct sd_flow_limit''),
      Field ''output_queue'' (CPtr ''struct Qdisc''),
      Field ''output_queue_tailp'' (CPtr ''struct Qdisc *''),
      Field ''completion_queue'' (CPtr ''struct sk_buff''),
      Field ''xfrm_backlog'' struct_sk_buff_head,
      Field ''xmit'' struct_netdev_xmit,
      BitField [] c_long 64,
      BitField [] c_long 64,
      BitField [] c_long 64,
      Field ''input_queue_head'' unsigned_int,
      BitField [] c_long 64,
      BitField [] c_long 64,
      BitField [] c_long 64,
      BitField [] c_long 64,
      BitField [] c_long 64,
      BitField [] c_long 64,
      BitField [] c_long 64,
      Field ''csd'' call_single_data_t,
      Field ''rps_ipi_next'' (CPtr ''struct softnet_data''),
      Field ''cpu'' unsigned_int,
      BitField [] c_long 64,
      BitField [] c_long 64,
      Field ''pad'' (CArr 3 c_long),
      Field ''input_queue_tail'' unsigned_int,
      Field ''input_pkt_queue'' struct_sk_buff_head,
      Field ''backlog'' struct_napi_struct,
      BitField [] c_long 64,
      BitField [] c_long 64,
      BitField [] c_long 64,
      Field ''drop_counters'' struct_numa_drop_counters,
      Field ''defer_ipi_scheduled'' c_int,
      BitField [] c_long 64,
      BitField [] c_long 64,
      BitField [] c_long 64,
      Field ''defer_csd'' call_single_data_t]"

definition struct_spi_controller :: cty where
  "struct_spi_controller = CStruct ''spi_controller'' False
     [Field ''dev'' struct_device,
      Field ''list'' struct_list_head,
      Field ''bus_num'' s16,
      Field ''num_chipselect'' u16,
      Field ''num_data_lanes'' u16,
      Field ''dma_alignment'' u16,
      Field ''mode_bits'' u32,
      Field ''buswidth_override_bits'' u32,
      Field ''bits_per_word_mask'' u32,
      Field ''min_speed_hz'' u32,
      Field ''max_speed_hz'' u32,
      Field ''flags'' u16,
      Field ''devm_allocated'' bool,
      Field [] (CUnion [] False
        [Field ''slave'' bool,
         Field ''target'' bool]),
      Field ''max_transfer_size'' (CPtr ''size_t (struct spi_device *)''),
      Field ''max_message_size'' (CPtr ''size_t (struct spi_device *)''),
      Field ''io_mutex'' struct_mutex,
      Field ''add_lock'' struct_mutex,
      Field ''bus_lock_spinlock'' spinlock_t,
      Field ''bus_lock_mutex'' struct_mutex,
      Field ''bus_lock_flag'' bool,
      Field ''setup'' (CPtr ''int (struct spi_device *)''),
      Field ''set_cs_timing'' (CPtr ''int (struct spi_device *)''),
      Field ''transfer'' (CPtr ''int (struct spi_device *, struct spi_message *)''),
      Field ''cleanup'' (CPtr ''void (struct spi_device *)''),
      Field ''can_dma'' (CPtr ''bool (struct spi_controller *, struct spi_device *, struct spi_transfer *)''),
      Field ''dma_map_dev'' (CPtr ''struct device''),
      Field ''cur_rx_dma_dev'' (CPtr ''struct device''),
      Field ''cur_tx_dma_dev'' (CPtr ''struct device''),
      Field ''queued'' bool,
      Field ''kworker'' (CPtr ''struct kthread_worker''),
      Field ''pump_messages'' struct_kthread_work,
      Field ''queue_lock'' spinlock_t,
      Field ''queue'' struct_list_head,
      Field ''cur_msg'' (CPtr ''struct spi_message''),
      Field ''cur_msg_completion'' struct_completion,
      Field ''cur_msg_incomplete'' bool,
      Field ''cur_msg_need_completion'' bool,
      Field ''busy'' bool,
      Field ''running'' bool,
      Field ''rt'' bool,
      Field ''auto_runtime_pm'' bool,
      Field ''fallback'' bool,
      Field ''last_cs_mode_high'' bool,
      Field ''last_cs'' (CArr 4 s8),
      BitField ''last_cs_index_mask'' u32 4,
      Field ''xfer_completion'' struct_completion,
      Field ''max_dma_len'' size_t,
      Field ''optimize_message'' (CPtr ''int (struct spi_message *)''),
      Field ''unoptimize_message'' (CPtr ''int (struct spi_message *)''),
      Field ''prepare_transfer_hardware'' (CPtr ''int (struct spi_controller *)''),
      Field ''transfer_one_message'' (CPtr ''int (struct spi_controller *, struct spi_message *)''),
      Field ''unprepare_transfer_hardware'' (CPtr ''int (struct spi_controller *)''),
      Field ''prepare_message'' (CPtr ''int (struct spi_controller *, struct spi_message *)''),
      Field ''unprepare_message'' (CPtr ''int (struct spi_controller *, struct spi_message *)''),
      Field ''target_abort'' (CPtr ''int (struct spi_controller *)''),
      Field ''set_cs'' (CPtr ''void (struct spi_device *, bool)''),
      Field ''transfer_one'' (CPtr ''int (struct spi_controller *, struct spi_device *, struct spi_transfer *)''),
      Field ''handle_err'' (CPtr ''void (struct spi_controller *, struct spi_message *)''),
      Field ''mem_ops'' (CPtr ''const struct spi_controller_mem_ops''),
      Field ''mem_caps'' (CPtr ''const struct spi_controller_mem_caps''),
      Field ''dtr_caps'' bool,
      Field ''get_offload'' (CPtr ''struct spi_offload * (struct spi_device *, const struct spi_offload_config *)''),
      Field ''put_offload'' (CPtr ''void (struct spi_offload *)''),
      Field ''cs_gpiods'' (CPtr ''struct gpio_desc *''),
      Field ''use_gpio_descriptors'' bool,
      Field ''unused_native_cs'' s8,
      Field ''max_native_cs'' s8,
      Field ''pcpu_statistics'' (CPtr ''struct spi_statistics''),
      Field ''dma_tx'' (CPtr ''struct dma_chan''),
      Field ''dma_rx'' (CPtr ''struct dma_chan''),
      Field ''dummy_rx'' (CPtr ''void''),
      Field ''dummy_tx'' (CPtr ''void''),
      Field ''fw_translate_cs'' (CPtr ''int (struct spi_controller *, unsigned int)''),
      Field ''ptp_sts_supported'' bool,
      Field ''irq_flags'' long_unsigned_int,
      Field ''queue_empty'' bool,
      Field ''must_async'' bool,
      Field ''defer_optimize_message'' bool]"

definition struct_spi_device :: cty where
  "struct_spi_device = CStruct ''spi_device'' False
     [Field ''dev'' struct_device,
      Field ''controller'' (CPtr ''struct spi_controller''),
      Field ''max_speed_hz'' u32,
      Field ''bits_per_word'' u8,
      Field ''rt'' bool,
      Field ''mode'' u32,
      Field ''irq'' c_int,
      Field ''controller_state'' (CPtr ''void''),
      Field ''controller_data'' (CPtr ''void''),
      Field ''modalias'' (CArr 32 c_char),
      Field ''pcpu_statistics'' (CPtr ''struct spi_statistics''),
      Field ''word_delay'' struct_spi_delay,
      Field ''cs_setup'' struct_spi_delay,
      Field ''cs_hold'' struct_spi_delay,
      Field ''cs_inactive'' struct_spi_delay,
      Field ''chip_select'' (CArr 4 u8),
      Field ''num_chipselect'' u8,
      BitField ''cs_index_mask'' u32 4,
      Field ''cs_gpiod'' (CArr 4 (CPtr ''struct gpio_desc'')),
      Field ''tx_lane_map'' (CArr 8 u8),
      Field ''num_tx_lanes'' u8,
      Field ''rx_lane_map'' (CArr 8 u8),
      Field ''num_rx_lanes'' u8]"

definition enum_spi_mem_data_dir :: cty where
  "enum_spi_mem_data_dir = CEnum 4
     [(''SPI_MEM_NO_DATA'', 0), (''SPI_MEM_DATA_IN'', 1), (''SPI_MEM_DATA_OUT'', 2)]"

definition struct_spi_mem_op :: cty where
  "struct_spi_mem_op = CStruct ''spi_mem_op'' False
     [Field ''cmd'' (CStruct [] False
        [Field ''nbytes'' u8,
         Field ''buswidth'' u8,
         BitField ''dtr'' u8 1,
         BitField ''__pad'' u8 7,
         Field ''opcode'' u16]),
      Field ''addr'' (CStruct [] False
        [Field ''nbytes'' u8,
         Field ''buswidth'' u8,
         BitField ''dtr'' u8 1,
         BitField ''__pad'' u8 7,
         Field ''val'' u64]),
      Field ''dummy'' (CStruct [] False
        [Field ''nbytes'' u8,
         Field ''buswidth'' u8,
         BitField ''dtr'' u8 1,
         BitField ''__pad'' u8 7]),
      Field ''data'' (CStruct [] False
        [Field ''buswidth'' u8,
         BitField ''dtr'' u8 1,
         BitField ''ecc'' u8 1,
         BitField ''swap16'' u8 1,
         BitField ''__pad'' u8 5,
         Field ''dir'' enum_spi_mem_data_dir,
         Field ''nbytes'' unsigned_int,
         Field ''buf'' (CUnion [] False
           [Field ''in'' (CPtr ''void''),
            Field ''out'' (CPtr ''const void'')])]),
      Field ''max_freq'' unsigned_int]"

definition struct_squashfs_sb_info :: cty where
  "struct_squashfs_sb_info = CStruct ''squashfs_sb_info'' False
     [Field ''decompressor'' (CPtr ''const struct squashfs_decompressor''),
      Field ''devblksize'' c_int,
      Field ''devblksize_log2'' c_int,
      Field ''block_cache'' (CPtr ''struct squashfs_cache''),
      Field ''fragment_cache'' (CPtr ''struct squashfs_cache''),
      Field ''read_page'' (CPtr ''struct squashfs_cache''),
      Field ''cache_mapping'' (CPtr ''struct address_space''),
      Field ''next_meta_index'' c_int,
      Field ''id_table'' (CPtr ''__le64''),
      Field ''fragment_index'' (CPtr ''__le64''),
      Field ''xattr_id_table'' (CPtr ''__le64''),
      Field ''meta_index_mutex'' struct_mutex,
      Field ''meta_index'' (CPtr ''struct meta_index''),
      Field ''stream'' (CPtr ''void''),
      Field ''inode_lookup_table'' (CPtr ''__le64''),
      Field ''inode_table'' u64,
      Field ''directory_table'' u64,
      Field ''xattr_table'' u64,
      Field ''block_size'' unsigned_int,
      Field ''block_log'' short_unsigned_int,
      Field ''bytes_used'' long_long_int,
      Field ''inodes'' unsigned_int,
      Field ''fragments'' unsigned_int,
      Field ''xattr_ids'' unsigned_int,
      Field ''ids'' unsigned_int,
      Field ''panic_on_errors'' bool,
      Field ''thread_ops'' (CPtr ''const struct squashfs_decompressor_thread_ops''),
      Field ''max_thread_num'' c_int]"

definition xen_pfn_t :: cty where [layout_simps]:
  "xen_pfn_t = long_unsigned_int"

definition int8_t :: cty where [layout_simps]:
  "int8_t = s8"

definition struct_start_info :: cty where
  "struct_start_info = CStruct ''start_info'' False
     [Field ''magic'' (CArr 32 c_char),
      Field ''nr_pages'' long_unsigned_int,
      Field ''shared_info'' long_unsigned_int,
      Field ''flags'' uint32_t,
      Field ''store_mfn'' xen_pfn_t,
      Field ''store_evtchn'' uint32_t,
      Field ''console'' (CUnion [] False
        [Field ''domU'' (CStruct [] False
           [Field ''mfn'' xen_pfn_t,
            Field ''evtchn'' uint32_t]),
         Field ''dom0'' (CStruct [] False
           [Field ''info_off'' uint32_t,
            Field ''info_size'' uint32_t])]),
      Field ''pt_base'' long_unsigned_int,
      Field ''nr_pt_frames'' long_unsigned_int,
      Field ''mfn_list'' long_unsigned_int,
      Field ''mod_start'' long_unsigned_int,
      Field ''mod_len'' long_unsigned_int,
      Field ''cmd_line'' (CArr 1024 int8_t),
      Field ''first_p2m_pfn'' long_unsigned_int,
      Field ''nr_p2m_frames'' long_unsigned_int]"

definition struct_statx_timestamp :: cty where
  "struct_statx_timestamp = CStruct ''statx_timestamp'' False
     [Field ''tv_sec'' c__s64,
      Field ''tv_nsec'' c__u32,
      Field ''__reserved'' c__s32]"

definition struct_statx :: cty where
  "struct_statx = CStruct ''statx'' False
     [Field ''stx_mask'' c__u32,
      Field ''stx_blksize'' c__u32,
      Field ''stx_attributes'' c__u64,
      Field ''stx_nlink'' c__u32,
      Field ''stx_uid'' c__u32,
      Field ''stx_gid'' c__u32,
      Field ''stx_mode'' c__u16,
      Field ''__spare0'' (CArr 1 c__u16),
      Field ''stx_ino'' c__u64,
      Field ''stx_size'' c__u64,
      Field ''stx_blocks'' c__u64,
      Field ''stx_attributes_mask'' c__u64,
      Field ''stx_atime'' struct_statx_timestamp,
      Field ''stx_btime'' struct_statx_timestamp,
      Field ''stx_ctime'' struct_statx_timestamp,
      Field ''stx_mtime'' struct_statx_timestamp,
      Field ''stx_rdev_major'' c__u32,
      Field ''stx_rdev_minor'' c__u32,
      Field ''stx_dev_major'' c__u32,
      Field ''stx_dev_minor'' c__u32,
      Field ''stx_mnt_id'' c__u64,
      Field ''stx_dio_mem_align'' c__u32,
      Field ''stx_dio_offset_align'' c__u32,
      Field ''stx_subvol'' c__u64,
      Field ''stx_atomic_write_unit_min'' c__u32,
      Field ''stx_atomic_write_unit_max'' c__u32,
      Field ''stx_atomic_write_segments_max'' c__u32,
      Field ''stx_dio_read_offset_align'' c__u32,
      Field ''stx_atomic_write_unit_max_opt'' c__u32,
      Field ''__spare2'' (CArr 1 c__u32),
      Field ''__spare3'' (CArr 8 c__u64)]"

definition struct_svc_cred :: cty where
  "struct_svc_cred = CStruct ''svc_cred'' False
     [Field ''cr_uid'' kuid_t,
      Field ''cr_gid'' kgid_t,
      Field ''cr_group_info'' (CPtr ''struct group_info''),
      Field ''cr_flavor'' u32,
      Field ''cr_raw_principal'' (CPtr ''char''),
      Field ''cr_principal'' (CPtr ''char''),
      Field ''cr_targ_princ'' (CPtr ''char''),
      Field ''cr_gss_mech'' (CPtr ''struct gss_api_mech'')]"

definition struct_xdr_stream :: cty where
  "struct_xdr_stream = CStruct ''xdr_stream'' False
     [Field ''p'' (CPtr ''__be32''),
      Field ''buf'' (CPtr ''struct xdr_buf''),
      Field ''end'' (CPtr ''__be32''),
      Field ''iov'' (CPtr ''struct kvec''),
      Field ''scratch'' struct_kvec,
      Field ''page_ptr'' (CPtr ''struct page *''),
      Field ''page_kaddr'' (CPtr ''void''),
      Field ''nwords'' unsigned_int,
      Field ''rqst'' (CPtr ''struct rpc_rqst'')]"

definition struct_cache_req :: cty where
  "struct_cache_req = CStruct ''cache_req'' False
     [Field ''defer'' (CPtr ''struct cache_deferred_req * (struct cache_req *)''),
      Field ''thread_wait'' long_unsigned_int]"

definition struct_svc_rqst :: cty where
  "struct_svc_rqst = CStruct ''svc_rqst'' False
     [Field ''rq_all'' struct_list_head,
      Field ''rq_idle'' struct_llist_node,
      Field ''rq_rcu_head'' struct_callback_head,
      Field ''rq_xprt'' (CPtr ''struct svc_xprt''),
      Field ''rq_addr'' struct___kernel_sockaddr_storage,
      Field ''rq_addrlen'' size_t,
      Field ''rq_daddr'' struct___kernel_sockaddr_storage,
      Field ''rq_daddrlen'' size_t,
      Field ''rq_server'' (CPtr ''struct svc_serv''),
      Field ''rq_pool'' (CPtr ''struct svc_pool''),
      Field ''rq_procinfo'' (CPtr ''const struct svc_procedure''),
      Field ''rq_authop'' (CPtr ''struct auth_ops''),
      Field ''rq_cred'' struct_svc_cred,
      Field ''rq_xprt_ctxt'' (CPtr ''void''),
      Field ''rq_deferred'' (CPtr ''struct svc_deferred_req''),
      Field ''rq_arg'' struct_xdr_buf,
      Field ''rq_arg_stream'' struct_xdr_stream,
      Field ''rq_res_stream'' struct_xdr_stream,
      Field ''rq_scratch_folio'' (CPtr ''struct folio''),
      Field ''rq_res'' struct_xdr_buf,
      Field ''rq_maxpages'' long_unsigned_int,
      Field ''rq_pages'' (CPtr ''struct page *''),
      Field ''rq_respages'' (CPtr ''struct page *''),
      Field ''rq_next_page'' (CPtr ''struct page *''),
      Field ''rq_page_end'' (CPtr ''struct page *''),
      Field ''rq_fbatch'' struct_folio_batch,
      Field ''rq_bvec'' (CPtr ''struct bio_vec''),
      Field ''rq_xid'' c__be32,
      Field ''rq_prog'' u32,
      Field ''rq_vers'' u32,
      Field ''rq_proc'' u32,
      Field ''rq_prot'' u32,
      Field ''rq_cachetype'' c_int,
      Field ''rq_flags'' long_unsigned_int,
      Field ''rq_qtime'' ktime_t,
      Field ''rq_argp'' (CPtr ''void''),
      Field ''rq_resp'' (CPtr ''void''),
      Field ''rq_accept_statp'' (CPtr ''__be32''),
      Field ''rq_auth_data'' (CPtr ''void''),
      Field ''rq_auth_stat'' c__be32,
      Field ''rq_auth_slack'' c_int,
      Field ''rq_reserved'' c_int,
      Field ''rq_stime'' ktime_t,
      Field ''rq_chandle'' struct_cache_req,
      Field ''rq_client'' (CPtr ''struct auth_domain''),
      Field ''rq_gssclient'' (CPtr ''struct auth_domain''),
      Field ''rq_task'' (CPtr ''struct task_struct''),
      Field ''rq_bc_net'' (CPtr ''struct net''),
      Field ''rq_err'' c_int,
      Field ''bc_to_initval'' long_unsigned_int,
      Field ''bc_to_retries'' unsigned_int,
      Field ''rq_status_counter'' unsigned_int,
      Field ''rq_lease_breaker'' (CPtr ''void *'')]"

definition struct_swap_info_struct :: cty where
  "struct_swap_info_struct = CStruct ''swap_info_struct'' False
     [Field ''users'' struct_percpu_ref,
      Field ''flags'' long_unsigned_int,
      Field ''prio'' short_int,
      Field ''list'' struct_plist_node,
      Field ''type'' signed_char,
      Field ''max'' unsigned_int,
      Field ''swap_map'' (CPtr ''unsigned char''),
      Field ''zeromap'' (CPtr ''long unsigned int''),
      Field ''cluster_info'' (CPtr ''struct swap_cluster_info''),
      Field ''free_clusters'' struct_list_head,
      Field ''full_clusters'' struct_list_head,
      Field ''nonfull_clusters'' (CArr 10 struct_list_head),
      Field ''frag_clusters'' (CArr 10 struct_list_head),
      Field ''pages'' unsigned_int,
      Field ''inuse_pages'' atomic_long_t,
      Field ''global_cluster'' (CPtr ''struct swap_sequential_cluster''),
      Field ''global_cluster_lock'' spinlock_t,
      Field ''swap_extent_root'' struct_rb_root,
      Field ''bdev'' (CPtr ''struct block_device''),
      Field ''swap_file'' (CPtr ''struct file''),
      Field ''comp'' struct_completion,
      Field ''lock'' spinlock_t,
      Field ''cont_lock'' spinlock_t,
      Field ''discard_work'' struct_work_struct,
      Field ''reclaim_work'' struct_work_struct,
      Field ''discard_clusters'' struct_list_head,
      Field ''avail_list'' struct_plist_node]"

definition dm_ctr_fn :: cty where [layout_simps]:
  "dm_ctr_fn = CPtr ''int (struct dm_target *, unsigned int, char **)''"

definition dm_dtr_fn :: cty where [layout_simps]:
  "dm_dtr_fn = CPtr ''void (struct dm_target *)''"

definition dm_map_fn :: cty where [layout_simps]:
  "dm_map_fn = CPtr ''int (struct dm_target *, struct bio *)''"

definition dm_clone_and_map_request_fn :: cty where [layout_simps]:
  "dm_clone_and_map_request_fn = CPtr ''int (struct dm_target *, struct request *, union map_info *, struct request **)''"

definition dm_release_clone_request_fn :: cty where [layout_simps]:
  "dm_release_clone_request_fn = CPtr ''void (struct request *, union map_info *)''"

definition dm_endio_fn :: cty where [layout_simps]:
  "dm_endio_fn = CPtr ''int (struct dm_target *, struct bio *, blk_status_t *)''"

definition dm_request_endio_fn :: cty where [layout_simps]:
  "dm_request_endio_fn = CPtr ''int (struct dm_target *, struct request *, blk_status_t, union map_info *)''"

definition dm_presuspend_fn :: cty where [layout_simps]:
  "dm_presuspend_fn = CPtr ''void (struct dm_target *)''"

definition dm_presuspend_undo_fn :: cty where [layout_simps]:
  "dm_presuspend_undo_fn = CPtr ''void (struct dm_target *)''"

definition dm_postsuspend_fn :: cty where [layout_simps]:
  "dm_postsuspend_fn = CPtr ''void (struct dm_target *)''"

definition dm_preresume_fn :: cty where [layout_simps]:
  "dm_preresume_fn = CPtr ''int (struct dm_target *)''"

definition dm_resume_fn :: cty where [layout_simps]:
  "dm_resume_fn = CPtr ''void (struct dm_target *)''"

definition dm_status_fn :: cty where [layout_simps]:
  "dm_status_fn = CPtr ''void (struct dm_target *, status_type_t, unsigned int, char *, unsigned int)''"

definition dm_message_fn :: cty where [layout_simps]:
  "dm_message_fn = CPtr ''int (struct dm_target *, unsigned int, char **, char *, unsigned int)''"

definition dm_prepare_ioctl_fn :: cty where [layout_simps]:
  "dm_prepare_ioctl_fn = CPtr ''int (struct dm_target *, struct block_device **, unsigned int, long unsigned int, bool *)''"

definition dm_report_zones_fn :: cty where [layout_simps]:
  "dm_report_zones_fn = CPtr ''int (struct dm_target *, struct dm_report_zones_args *, unsigned int)''"

definition dm_busy_fn :: cty where [layout_simps]:
  "dm_busy_fn = CPtr ''int (struct dm_target *)''"

definition dm_iterate_devices_fn :: cty where [layout_simps]:
  "dm_iterate_devices_fn = CPtr ''int (struct dm_target *, iterate_devices_callout_fn, void *)''"

definition dm_io_hints_fn :: cty where [layout_simps]:
  "dm_io_hints_fn = CPtr ''void (struct dm_target *, struct queue_limits *)''"

definition dm_dax_direct_access_fn :: cty where [layout_simps]:
  "dm_dax_direct_access_fn = CPtr ''long int (struct dm_target *, long unsigned int, long int, enum dax_access_mode, void **, long unsigned int *)''"

definition dm_dax_zero_page_range_fn :: cty where [layout_simps]:
  "dm_dax_zero_page_range_fn = CPtr ''int (struct dm_target *, long unsigned int, size_t)''"

definition dm_dax_recovery_write_fn :: cty where [layout_simps]:
  "dm_dax_recovery_write_fn = CPtr ''size_t (struct dm_target *, long unsigned int, void *, size_t, struct iov_iter *)''"

definition struct_target_type :: cty where
  "struct_target_type = CStruct ''target_type'' False
     [Field ''features'' uint64_t,
      Field ''name'' (CPtr ''const char''),
      Field ''module'' (CPtr ''struct module''),
      Field ''version'' (CArr 3 unsigned_int),
      Field ''ctr'' dm_ctr_fn,
      Field ''dtr'' dm_dtr_fn,
      Field ''map'' dm_map_fn,
      Field ''clone_and_map_rq'' dm_clone_and_map_request_fn,
      Field ''release_clone_rq'' dm_release_clone_request_fn,
      Field ''end_io'' dm_endio_fn,
      Field ''rq_end_io'' dm_request_endio_fn,
      Field ''presuspend'' dm_presuspend_fn,
      Field ''presuspend_undo'' dm_presuspend_undo_fn,
      Field ''postsuspend'' dm_postsuspend_fn,
      Field ''preresume'' dm_preresume_fn,
      Field ''resume'' dm_resume_fn,
      Field ''status'' dm_status_fn,
      Field ''message'' dm_message_fn,
      Field ''prepare_ioctl'' dm_prepare_ioctl_fn,
      Field ''report_zones'' dm_report_zones_fn,
      Field ''busy'' dm_busy_fn,
      Field ''iterate_devices'' dm_iterate_devices_fn,
      Field ''io_hints'' dm_io_hints_fn,
      Field ''direct_access'' dm_dax_direct_access_fn,
      Field ''dax_zero_page_range'' dm_dax_zero_page_range_fn,
      Field ''dax_recovery_write'' dm_dax_recovery_write_fn,
      Field ''list'' struct_list_head]"

definition struct_tcf_t :: cty where
  "struct_tcf_t = CStruct ''tcf_t'' False
     [Field ''install'' c__u64,
      Field ''lastuse'' c__u64,
      Field ''expires'' c__u64,
      Field ''firstuse'' c__u64]"

definition struct_tc_action :: cty where
  "struct_tc_action = CStruct ''tc_action'' False
     [Field ''ops'' (CPtr ''const struct tc_action_ops''),
      Field ''type'' c__u32,
      Field ''idrinfo'' (CPtr ''struct tcf_idrinfo''),
      Field ''tcfa_index'' u32,
      Field ''tcfa_refcnt'' refcount_t,
      Field ''tcfa_bindcnt'' atomic_t,
      Field ''tcfa_action'' c_int,
      Field ''tcfa_tm'' struct_tcf_t,
      BitField [] c_long 64,
      Field ''tcfa_bstats'' struct_gnet_stats_basic_sync,
      Field ''tcfa_bstats_hw'' struct_gnet_stats_basic_sync,
      Field ''tcfa_drops'' atomic_t,
      Field ''tcfa_overlimits'' atomic_t,
      Field ''tcfa_rate_est'' (CPtr ''struct net_rate_estimator''),
      Field ''tcfa_lock'' spinlock_t,
      Field ''cpu_bstats'' (CPtr ''struct gnet_stats_basic_sync''),
      Field ''cpu_bstats_hw'' (CPtr ''struct gnet_stats_basic_sync''),
      Field ''cpu_qstats'' (CPtr ''struct gnet_stats_queue''),
      Field ''user_cookie'' (CPtr ''struct tc_cookie''),
      Field ''goto_chain'' (CPtr ''struct tcf_chain''),
      Field ''tcfa_flags'' u32,
      Field ''hw_stats'' u8,
      Field ''used_hw_stats'' u8,
      Field ''used_hw_stats_valid'' bool,
      Field ''in_hw_count'' u32]"

definition struct_flow_block :: cty where
  "struct_flow_block = CStruct ''flow_block'' False
     [Field ''cb_list'' struct_list_head]"

definition struct_tcf_block :: cty where
  "struct_tcf_block = CStruct ''tcf_block'' False
     [Field ''ports'' struct_xarray,
      Field ''lock'' struct_mutex,
      Field ''chain_list'' struct_list_head,
      Field ''index'' u32,
      Field ''classid'' u32,
      Field ''refcnt'' refcount_t,
      Field ''net'' (CPtr ''struct net''),
      Field ''q'' (CPtr ''struct Qdisc''),
      Field ''cb_lock'' struct_rw_semaphore,
      Field ''flow_block'' struct_flow_block,
      Field ''owner_list'' struct_list_head,
      Field ''keep_dst'' bool,
      Field ''useswcnt'' atomic_t,
      Field ''offloadcnt'' atomic_t,
      Field ''nooffloaddevcnt'' unsigned_int,
      Field ''lockeddevcnt'' unsigned_int,
      Field ''chain0'' (CStruct [] False
        [Field ''chain'' (CPtr ''struct tcf_chain''),
         Field ''filter_chain_list'' struct_list_head]),
      Field ''rcu'' struct_callback_head,
      Field ''proto_destroy_ht'' (CArr 128 struct_hlist_head),
      Field ''proto_destroy_lock'' struct_mutex]"

definition struct_tcf_proto_ops :: cty where
  "struct_tcf_proto_ops = CStruct ''tcf_proto_ops'' False
     [Field ''head'' struct_list_head,
      Field ''kind'' (CArr 16 c_char),
      Field ''classify'' (CPtr ''int (struct sk_buff *, const struct tcf_proto *, struct tcf_result *)''),
      Field ''init'' (CPtr ''int (struct tcf_proto *)''),
      Field ''destroy'' (CPtr ''void (struct tcf_proto *, bool, struct netlink_ext_ack *)''),
      Field ''get'' (CPtr ''void * (struct tcf_proto *, u32)''),
      Field ''put'' (CPtr ''void (struct tcf_proto *, void *)''),
      Field ''change'' (CPtr ''int (struct net *, struct sk_buff *, struct tcf_proto *, long unsigned int, u32, struct nlattr **, void **, u32, struct netlink_ext_ack *)''),
      Field ''delete'' (CPtr ''int (struct tcf_proto *, void *, bool *, bool, struct netlink_ext_ack *)''),
      Field ''delete_empty'' (CPtr ''bool (struct tcf_proto *)''),
      Field ''walk'' (CPtr ''void (struct tcf_proto *, struct tcf_walker *, bool)''),
      Field ''reoffload'' (CPtr ''int (struct tcf_proto *, bool, flow_setup_cb_t *, void *, struct netlink_ext_ack *)''),
      Field ''hw_add'' (CPtr ''void (struct tcf_proto *, void *)''),
      Field ''hw_del'' (CPtr ''void (struct tcf_proto *, void *)''),
      Field ''bind_class'' (CPtr ''void (void *, u32, long unsigned int, void *, long unsigned int)''),
      Field ''tmplt_create'' (CPtr ''void * (struct net *, struct tcf_chain *, struct nlattr **, struct netlink_ext_ack *)''),
      Field ''tmplt_destroy'' (CPtr ''void (void *)''),
      Field ''tmplt_reoffload'' (CPtr ''void (struct tcf_chain *, bool, flow_setup_cb_t *, void *)''),
      Field ''get_exts'' (CPtr ''struct tcf_exts * (const struct tcf_proto *, u32)''),
      Field ''dump'' (CPtr ''int (struct net *, struct tcf_proto *, void *, struct sk_buff *, struct tcmsg *, bool)''),
      Field ''terse_dump'' (CPtr ''int (struct net *, struct tcf_proto *, void *, struct sk_buff *, struct tcmsg *, bool)''),
      Field ''tmplt_dump'' (CPtr ''int (struct sk_buff *, struct net *, void *)''),
      Field ''owner'' (CPtr ''struct module''),
      Field ''flags'' c_int]"

definition struct_tcp_info :: cty where
  "struct_tcp_info = CStruct ''tcp_info'' False
     [Field ''tcpi_state'' c__u8,
      Field ''tcpi_ca_state'' c__u8,
      Field ''tcpi_retransmits'' c__u8,
      Field ''tcpi_probes'' c__u8,
      Field ''tcpi_backoff'' c__u8,
      Field ''tcpi_options'' c__u8,
      BitField ''tcpi_snd_wscale'' c__u8 4,
      BitField ''tcpi_rcv_wscale'' c__u8 4,
      BitField ''tcpi_delivery_rate_app_limited'' c__u8 1,
      BitField ''tcpi_fastopen_client_fail'' c__u8 2,
      Field ''tcpi_rto'' c__u32,
      Field ''tcpi_ato'' c__u32,
      Field ''tcpi_snd_mss'' c__u32,
      Field ''tcpi_rcv_mss'' c__u32,
      Field ''tcpi_unacked'' c__u32,
      Field ''tcpi_sacked'' c__u32,
      Field ''tcpi_lost'' c__u32,
      Field ''tcpi_retrans'' c__u32,
      Field ''tcpi_fackets'' c__u32,
      Field ''tcpi_last_data_sent'' c__u32,
      Field ''tcpi_last_ack_sent'' c__u32,
      Field ''tcpi_last_data_recv'' c__u32,
      Field ''tcpi_last_ack_recv'' c__u32,
      Field ''tcpi_pmtu'' c__u32,
      Field ''tcpi_rcv_ssthresh'' c__u32,
      Field ''tcpi_rtt'' c__u32,
      Field ''tcpi_rttvar'' c__u32,
      Field ''tcpi_snd_ssthresh'' c__u32,
      Field ''tcpi_snd_cwnd'' c__u32,
      Field ''tcpi_advmss'' c__u32,
      Field ''tcpi_reordering'' c__u32,
      Field ''tcpi_rcv_rtt'' c__u32,
      Field ''tcpi_rcv_space'' c__u32,
      Field ''tcpi_total_retrans'' c__u32,
      Field ''tcpi_pacing_rate'' c__u64,
      Field ''tcpi_max_pacing_rate'' c__u64,
      Field ''tcpi_bytes_acked'' c__u64,
      Field ''tcpi_bytes_received'' c__u64,
      Field ''tcpi_segs_out'' c__u32,
      Field ''tcpi_segs_in'' c__u32,
      Field ''tcpi_notsent_bytes'' c__u32,
      Field ''tcpi_min_rtt'' c__u32,
      Field ''tcpi_data_segs_in'' c__u32,
      Field ''tcpi_data_segs_out'' c__u32,
      Field ''tcpi_delivery_rate'' c__u64,
      Field ''tcpi_busy_time'' c__u64,
      Field ''tcpi_rwnd_limited'' c__u64,
      Field ''tcpi_sndbuf_limited'' c__u64,
      Field ''tcpi_delivered'' c__u32,
      Field ''tcpi_delivered_ce'' c__u32,
      Field ''tcpi_bytes_sent'' c__u64,
      Field ''tcpi_bytes_retrans'' c__u64,
      Field ''tcpi_dsack_dups'' c__u32,
      Field ''tcpi_reord_seen'' c__u32,
      Field ''tcpi_rcv_ooopack'' c__u32,
      Field ''tcpi_snd_wnd'' c__u32,
      Field ''tcpi_rcv_wnd'' c__u32,
      Field ''tcpi_rehash'' c__u32,
      Field ''tcpi_total_rto'' c__u16,
      Field ''tcpi_total_rto_recoveries'' c__u16,
      Field ''tcpi_total_rto_time'' c__u32,
      Field ''tcpi_received_ce'' c__u32,
      Field ''tcpi_delivered_e1_bytes'' c__u32,
      Field ''tcpi_delivered_e0_bytes'' c__u32,
      Field ''tcpi_delivered_ce_bytes'' c__u32,
      Field ''tcpi_received_e1_bytes'' c__u32,
      Field ''tcpi_received_e0_bytes'' c__u32,
      Field ''tcpi_received_ce_bytes'' c__u32,
      BitField ''tcpi_ecn_mode'' c__u32 2,
      BitField ''tcpi_accecn_opt_seen'' c__u32 2,
      BitField ''tcpi_accecn_fail_mode'' c__u32 4,
      BitField ''tcpi_options2'' c__u32 24]"

definition struct_inet_skb_parm :: cty where
  "struct_inet_skb_parm = CStruct ''inet_skb_parm'' False
     [Field ''iif'' c_int,
      Field ''opt'' struct_ip_options,
      Field ''flags'' u16,
      Field ''frag_max_size'' u16]"

definition struct_inet6_skb_parm :: cty where
  "struct_inet6_skb_parm = CStruct ''inet6_skb_parm'' False
     [Field ''iif'' c_int,
      Field ''ra'' c__be16,
      Field ''dst0'' c__u16,
      Field ''srcrt'' c__u16,
      Field ''dst1'' c__u16,
      Field ''lastopt'' c__u16,
      Field ''nhoff'' c__u16,
      Field ''flags'' c__u16,
      Field ''dsthao'' c__u16,
      Field ''frag_max_size'' c__u16,
      Field ''srhoff'' c__u16]"

definition struct_tcp_skb_cb :: cty where
  "struct_tcp_skb_cb = CStruct ''tcp_skb_cb'' False
     [Field ''seq'' c__u32,
      Field ''end_seq'' c__u32,
      Field [] (CUnion [] False
        [Field ''tcp_tw_isn'' u32,
         Field [] (CStruct [] False
           [Field ''tcp_gso_segs'' u16,
            Field ''tcp_gso_size'' u16])]),
      Field ''tcp_flags'' c__u16,
      Field ''sacked'' c__u8,
      Field ''ip_dsfield'' c__u8,
      BitField ''txstamp_ack'' c__u8 2,
      BitField ''eor'' c__u8 1,
      BitField ''has_rxtstamp'' c__u8 1,
      BitField ''unused'' c__u8 4,
      Field ''ack_seq'' c__u32,
      Field [] (CUnion [] False
        [Field ''tx'' (CStruct [] False
           [BitField ''is_app_limited'' c__u32 1,
            BitField ''delivered_ce'' c__u32 20,
            BitField ''unused'' c__u32 11,
            Field ''delivered'' c__u32,
            Field ''first_tx_mstamp'' u64,
            Field ''delivered_mstamp'' u64]),
         Field ''header'' (CUnion [] False
           [Field ''h4'' struct_inet_skb_parm,
            Field ''h6'' struct_inet6_skb_parm])])]"

definition struct_tdmr_reserved_area :: cty where
  "struct_tdmr_reserved_area = CStruct ''tdmr_reserved_area'' False
     [Field ''offset'' u64,
      Field ''size'' u64]"

definition struct_tdmr_info :: cty where
  "struct_tdmr_info = CStruct ''tdmr_info'' False
     [Field ''base'' u64,
      Field ''size'' u64,
      Field ''pamt_1g_base'' u64,
      Field ''pamt_1g_size'' u64,
      Field ''pamt_2m_base'' u64,
      Field ''pamt_2m_size'' u64,
      Field ''pamt_4k_base'' u64,
      Field ''pamt_4k_size'' u64,
      Field [] (CStruct [] False
        [Field ''__empty_reserved_areas'' (CStruct [] False
           []),
         Field ''reserved_areas'' (CArr 0 struct_tdmr_reserved_area)]),
      BitField [] c_long 64,
      BitField [] c_long 64,
      BitField [] c_long 64,
      BitField [] c_long 64,
      BitField [] c_long 64,
      BitField [] c_long 64,
      BitField [] c_long 64,
      BitField [] c_long 64,
      BitField [] c_long 64,
      BitField [] c_long 64,
      BitField [] c_long 64,
      BitField [] c_long 64,
      BitField [] c_long 64,
      BitField [] c_long 64,
      BitField [] c_long 64,
      BitField [] c_long 64,
      BitField [] c_long 64,
      BitField [] c_long 64,
      BitField [] c_long 64,
      BitField [] c_long 64,
      BitField [] c_long 64,
      BitField [] c_long 64,
      BitField [] c_long 64,
      BitField [] c_long 64,
      BitField [] c_long 64,
      BitField [] c_long 64,
      BitField [] c_long 64,
      BitField [] c_long 64,
      BitField [] c_long 64,
      BitField [] c_long 64,
      BitField [] c_long 64,
      BitField [] c_long 64,
      BitField [] c_long 64,
      BitField [] c_long 64,
      BitField [] c_long 64,
      BitField [] c_long 64,
      BitField [] c_long 64,
      BitField [] c_long 64,
      BitField [] c_long 64,
      BitField [] c_long 64,
      BitField [] c_long 64,
      BitField [] c_long 64,
      BitField [] c_long 64,
      BitField [] c_long 64,
      BitField [] c_long 64,
      BitField [] c_long 64,
      BitField [] c_long 64,
      BitField [] c_long 64,
      BitField [] c_long 64,
      BitField [] c_long 64,
      BitField [] c_long 64,
      BitField [] c_long 64,
      BitField [] c_long 64,
      BitField [] c_long 64,
      BitField [] c_long 64,
      BitField [] c_long 64]"

definition enum_thermal_device_mode :: cty where
  "enum_thermal_device_mode = CEnum 4
     [(''THERMAL_DEVICE_DISABLED'', 0), (''THERMAL_DEVICE_ENABLED'', 1)]"

definition struct_thermal_zone_device_ops :: cty where
  "struct_thermal_zone_device_ops = CStruct ''thermal_zone_device_ops'' False
     [Field ''should_bind'' (CPtr ''bool (struct thermal_zone_device *, const struct thermal_trip *, struct thermal_cooling_device *, struct cooling_spec *)''),
      Field ''get_temp'' (CPtr ''int (struct thermal_zone_device *, int *)''),
      Field ''set_trips'' (CPtr ''int (struct thermal_zone_device *, int, int)''),
      Field ''change_mode'' (CPtr ''int (struct thermal_zone_device *, enum thermal_device_mode)''),
      Field ''set_trip_temp'' (CPtr ''int (struct thermal_zone_device *, const struct thermal_trip *, int)''),
      Field ''get_crit_temp'' (CPtr ''int (struct thermal_zone_device *, int *)''),
      Field ''set_emul_temp'' (CPtr ''int (struct thermal_zone_device *, int)''),
      Field ''get_trend'' (CPtr ''int (struct thermal_zone_device *, const struct thermal_trip *, enum thermal_trend *)''),
      Field ''hot'' (CPtr ''void (struct thermal_zone_device *)''),
      Field ''critical'' (CPtr ''void (struct thermal_zone_device *)'')]"

definition enum_thermal_notify_event :: cty where
  "enum_thermal_notify_event = CEnum 4
     [(''THERMAL_EVENT_UNSPECIFIED'', 0), (''THERMAL_EVENT_TEMP_SAMPLE'', 1),
      (''THERMAL_TRIP_VIOLATED'', 2), (''THERMAL_TRIP_CHANGED'', 3),
      (''THERMAL_DEVICE_DOWN'', 4), (''THERMAL_DEVICE_UP'', 5),
      (''THERMAL_DEVICE_POWER_CAPABILITY_CHANGED'', 6), (''THERMAL_TABLE_CHANGED'', 7),
      (''THERMAL_EVENT_KEEP_ALIVE'', 8), (''THERMAL_TZ_BIND_CDEV'', 9),
      (''THERMAL_TZ_UNBIND_CDEV'', 10), (''THERMAL_INSTANCE_WEIGHT_CHANGED'', 11),
      (''THERMAL_TZ_RESUME'', 12), (''THERMAL_TZ_ADD_THRESHOLD'', 13),
      (''THERMAL_TZ_DEL_THRESHOLD'', 14), (''THERMAL_TZ_FLUSH_THRESHOLDS'', 15)]"

definition enum_thermal_trip_type :: cty where
  "enum_thermal_trip_type = CEnum 4
     [(''THERMAL_TRIP_ACTIVE'', 0), (''THERMAL_TRIP_PASSIVE'', 1), (''THERMAL_TRIP_HOT'', 2),
      (''THERMAL_TRIP_CRITICAL'', 3)]"

definition struct_thermal_trip :: cty where
  "struct_thermal_trip = CStruct ''thermal_trip'' False
     [Field ''temperature'' c_int,
      Field ''hysteresis'' c_int,
      Field ''type'' enum_thermal_trip_type,
      Field ''flags'' u8,
      Field ''priv'' (CPtr ''void'')]"

definition struct_thermal_attr :: cty where
  "struct_thermal_attr = CStruct ''thermal_attr'' False
     [Field ''attr'' struct_device_attribute,
      Field ''name'' (CArr 20 c_char)]"

definition struct_thermal_trip_attrs :: cty where
  "struct_thermal_trip_attrs = CStruct ''thermal_trip_attrs'' False
     [Field ''type'' struct_thermal_attr,
      Field ''temp'' struct_thermal_attr,
      Field ''hyst'' struct_thermal_attr]"

definition struct_thermal_trip_desc :: cty where
  "struct_thermal_trip_desc = CStruct ''thermal_trip_desc'' False
     [Field ''trip'' struct_thermal_trip,
      Field ''trip_attrs'' struct_thermal_trip_attrs,
      Field ''list_node'' struct_list_head,
      Field ''thermal_instances'' struct_list_head,
      Field ''threshold'' c_int]"

definition struct_thermal_zone_device :: cty where
  "struct_thermal_zone_device = CStruct ''thermal_zone_device'' False
     [Field ''id'' c_int,
      Field ''type'' (CArr 20 c_char),
      Field ''device'' struct_device,
      Field ''removal'' struct_completion,
      Field ''resume'' struct_completion,
      Field ''trips_attribute_group'' struct_attribute_group,
      Field ''trips_high'' struct_list_head,
      Field ''trips_reached'' struct_list_head,
      Field ''trips_invalid'' struct_list_head,
      Field ''mode'' enum_thermal_device_mode,
      Field ''devdata'' (CPtr ''void''),
      Field ''num_trips'' c_int,
      Field ''passive_delay_jiffies'' long_unsigned_int,
      Field ''polling_delay_jiffies'' long_unsigned_int,
      Field ''recheck_delay_jiffies'' long_unsigned_int,
      Field ''temperature'' c_int,
      Field ''last_temperature'' c_int,
      Field ''emul_temperature'' c_int,
      Field ''passive'' c_int,
      Field ''prev_low_trip'' c_int,
      Field ''prev_high_trip'' c_int,
      Field ''ops'' struct_thermal_zone_device_ops,
      Field ''tzp'' (CPtr ''struct thermal_zone_params''),
      Field ''governor'' (CPtr ''struct thermal_governor''),
      Field ''governor_data'' (CPtr ''void''),
      Field ''ida'' struct_ida,
      Field ''lock'' struct_mutex,
      Field ''node'' struct_list_head,
      Field ''poll_queue'' struct_delayed_work,
      Field ''notify_event'' enum_thermal_notify_event,
      Field ''state'' u8,
      Field ''user_thresholds'' struct_list_head,
      Field ''trips'' (CArr 0 struct_thermal_trip_desc)]"

definition struct_tick_sched :: cty where
  "struct_tick_sched = CStruct ''tick_sched'' False
     [Field ''flags'' long_unsigned_int,
      Field ''stalled_jiffies'' unsigned_int,
      Field ''last_tick_jiffies'' long_unsigned_int,
      Field ''sched_timer'' struct_hrtimer,
      Field ''last_tick'' ktime_t,
      Field ''next_tick'' ktime_t,
      Field ''idle_jiffies'' long_unsigned_int,
      Field ''idle_waketime'' ktime_t,
      Field ''got_idle_tick'' unsigned_int,
      Field ''idle_sleeptime_seq'' seqcount_t,
      Field ''idle_entrytime'' ktime_t,
      Field ''last_jiffies'' long_unsigned_int,
      Field ''timer_expires_base'' u64,
      Field ''timer_expires'' u64,
      Field ''next_timer'' u64,
      Field ''idle_expires'' ktime_t,
      Field ''idle_calls'' long_unsigned_int,
      Field ''idle_sleeps'' long_unsigned_int,
      Field ''idle_exittime'' ktime_t,
      Field ''idle_sleeptime'' ktime_t,
      Field ''iowait_sleeptime'' ktime_t,
      Field ''tick_dep_mask'' atomic_t,
      Field ''check_clocks'' long_unsigned_int]"

definition struct_tk_read_base :: cty where
  "struct_tk_read_base = CStruct ''tk_read_base'' False
     [Field ''clock'' (CPtr ''struct clocksource''),
      Field ''mask'' u64,
      Field ''cycle_last'' u64,
      Field ''mult'' u32,
      Field ''shift'' u32,
      Field ''xtime_nsec'' u64,
      Field ''base'' ktime_t,
      Field ''base_real'' u64]"

definition enum_timekeeper_ids :: cty where
  "enum_timekeeper_ids = CEnum 4
     [(''TIMEKEEPER_CORE'', 0), (''TIMEKEEPER_AUX_FIRST'', 1), (''TIMEKEEPER_AUX_LAST'', 8),
      (''TIMEKEEPERS_MAX'', 9)]"

definition struct_timekeeper :: cty where
  "struct_timekeeper = CStruct ''timekeeper'' False
     [Field ''tkr_mono'' struct_tk_read_base,
      Field ''xtime_sec'' u64,
      Field ''ktime_sec'' long_unsigned_int,
      Field ''wall_to_monotonic'' struct_timespec64,
      Field ''offs_real'' ktime_t,
      Field ''offs_boot'' ktime_t,
      Field [] (CUnion [] False
        [Field ''offs_tai'' ktime_t,
         Field ''offs_aux'' ktime_t]),
      Field ''coarse_nsec'' u32,
      Field ''id'' enum_timekeeper_ids,
      Field ''tkr_raw'' struct_tk_read_base,
      Field ''raw_sec'' u64,
      Field ''clock_was_set_seq'' unsigned_int,
      Field ''cs_was_changed_seq'' u8,
      Field ''clock_valid'' u8,
      Field [] (CUnion [] False
        [Field ''monotonic_to_boot'' struct_timespec64,
         Field ''monotonic_to_aux'' struct_timespec64]),
      Field ''cycle_interval'' u64,
      Field ''xtime_interval'' u64,
      Field ''xtime_remainder'' s64,
      Field ''raw_interval'' u64,
      Field ''next_leap_ktime'' ktime_t,
      Field ''ntp_tick'' u64,
      Field ''ntp_error'' s64,
      Field ''ntp_error_shift'' u32,
      Field ''ntp_err_mult'' u32,
      Field ''skip_second_overflow'' u32,
      Field ''tai_offset'' s32]"

definition struct_tls_prot_info :: cty where
  "struct_tls_prot_info = CStruct ''tls_prot_info'' False
     [Field ''version'' u16,
      Field ''cipher_type'' u16,
      Field ''prepend_size'' u16,
      Field ''tag_size'' u16,
      Field ''overhead_size'' u16,
      Field ''iv_size'' u16,
      Field ''salt_size'' u16,
      Field ''rec_seq_size'' u16,
      Field ''aad_size'' u16,
      Field ''tail_size'' u16]"

definition struct_cipher_context :: cty where
  "struct_cipher_context = CStruct ''cipher_context'' False
     [Field ''iv'' (CArr 20 c_char),
      Field ''rec_seq'' (CArr 8 c_char)]"

definition struct_tls_crypto_info :: cty where
  "struct_tls_crypto_info = CStruct ''tls_crypto_info'' False
     [Field ''version'' c__u16,
      Field ''cipher_type'' c__u16]"

definition struct_tls12_crypto_info_aes_gcm_128 :: cty where
  "struct_tls12_crypto_info_aes_gcm_128 = CStruct ''tls12_crypto_info_aes_gcm_128'' False
     [Field ''info'' struct_tls_crypto_info,
      Field ''iv'' (CArr 8 unsigned_char),
      Field ''key'' (CArr 16 unsigned_char),
      Field ''salt'' (CArr 4 unsigned_char),
      Field ''rec_seq'' (CArr 8 unsigned_char)]"

definition struct_tls12_crypto_info_aes_gcm_256 :: cty where
  "struct_tls12_crypto_info_aes_gcm_256 = CStruct ''tls12_crypto_info_aes_gcm_256'' False
     [Field ''info'' struct_tls_crypto_info,
      Field ''iv'' (CArr 8 unsigned_char),
      Field ''key'' (CArr 32 unsigned_char),
      Field ''salt'' (CArr 4 unsigned_char),
      Field ''rec_seq'' (CArr 8 unsigned_char)]"

definition struct_tls12_crypto_info_chacha20_poly1305 :: cty where
  "struct_tls12_crypto_info_chacha20_poly1305 = CStruct ''tls12_crypto_info_chacha20_poly1305'' False
     [Field ''info'' struct_tls_crypto_info,
      Field ''iv'' (CArr 12 unsigned_char),
      Field ''key'' (CArr 32 unsigned_char),
      Field ''salt'' (CArr 0 unsigned_char),
      Field ''rec_seq'' (CArr 8 unsigned_char)]"

definition struct_tls12_crypto_info_sm4_gcm :: cty where
  "struct_tls12_crypto_info_sm4_gcm = CStruct ''tls12_crypto_info_sm4_gcm'' False
     [Field ''info'' struct_tls_crypto_info,
      Field ''iv'' (CArr 8 unsigned_char),
      Field ''key'' (CArr 16 unsigned_char),
      Field ''salt'' (CArr 4 unsigned_char),
      Field ''rec_seq'' (CArr 8 unsigned_char)]"

definition struct_tls12_crypto_info_sm4_ccm :: cty where
  "struct_tls12_crypto_info_sm4_ccm = CStruct ''tls12_crypto_info_sm4_ccm'' False
     [Field ''info'' struct_tls_crypto_info,
      Field ''iv'' (CArr 8 unsigned_char),
      Field ''key'' (CArr 16 unsigned_char),
      Field ''salt'' (CArr 4 unsigned_char),
      Field ''rec_seq'' (CArr 8 unsigned_char)]"

definition union_tls_crypto_context :: cty where
  "union_tls_crypto_context = CUnion ''tls_crypto_context'' False
     [Field ''info'' struct_tls_crypto_info,
      Field [] (CUnion [] False
        [Field ''aes_gcm_128'' struct_tls12_crypto_info_aes_gcm_128,
         Field ''aes_gcm_256'' struct_tls12_crypto_info_aes_gcm_256,
         Field ''chacha20_poly1305'' struct_tls12_crypto_info_chacha20_poly1305,
         Field ''sm4_gcm'' struct_tls12_crypto_info_sm4_gcm,
         Field ''sm4_ccm'' struct_tls12_crypto_info_sm4_ccm])]"

definition struct_tls_context :: cty where
  "struct_tls_context = CStruct ''tls_context'' False
     [Field ''prot_info'' struct_tls_prot_info,
      BitField ''tx_conf'' u8 3,
      BitField ''rx_conf'' u8 3,
      BitField ''zerocopy_sendfile'' u8 1,
      BitField ''rx_no_pad'' u8 1,
      Field ''tx_max_payload_len'' u16,
      Field ''push_pending_record'' (CPtr ''int (struct sock *, int)''),
      Field ''sk_write_space'' (CPtr ''void (struct sock *)''),
      Field ''priv_ctx_tx'' (CPtr ''void''),
      Field ''priv_ctx_rx'' (CPtr ''void''),
      Field ''netdev'' (CPtr ''struct net_device''),
      Field ''tx'' struct_cipher_context,
      Field ''rx'' struct_cipher_context,
      Field ''partially_sent_record'' (CPtr ''struct scatterlist''),
      Field ''partially_sent_offset'' u16,
      Field ''splicing_pages'' bool,
      Field ''pending_open_record_frags'' bool,
      Field ''tx_lock'' struct_mutex,
      Field ''flags'' long_unsigned_int,
      Field ''sk_proto'' (CPtr ''struct proto''),
      Field ''sk'' (CPtr ''struct sock''),
      Field ''sk_destruct'' (CPtr ''void (struct sock *)''),
      Field ''crypto_send'' union_tls_crypto_context,
      Field ''crypto_recv'' union_tls_crypto_context,
      Field ''list'' struct_list_head,
      Field ''refcount'' refcount_t,
      Field ''rcu'' struct_callback_head]"

definition struct_tomoyo_request_info :: cty where
  "struct_tomoyo_request_info = CStruct ''tomoyo_request_info'' False
     [Field ''obj'' (CPtr ''struct tomoyo_obj_info''),
      Field ''ee'' (CPtr ''struct tomoyo_execve''),
      Field ''domain'' (CPtr ''struct tomoyo_domain_info''),
      Field ''param'' (CUnion [] False
        [Field ''path'' (CStruct [] False
           [Field ''filename'' (CPtr ''const struct tomoyo_path_info''),
            Field ''matched_path'' (CPtr ''const struct tomoyo_path_info''),
            Field ''operation'' u8]),
         Field ''path2'' (CStruct [] False
           [Field ''filename1'' (CPtr ''const struct tomoyo_path_info''),
            Field ''filename2'' (CPtr ''const struct tomoyo_path_info''),
            Field ''operation'' u8]),
         Field ''mkdev'' (CStruct [] False
           [Field ''filename'' (CPtr ''const struct tomoyo_path_info''),
            Field ''mode'' unsigned_int,
            Field ''major'' unsigned_int,
            Field ''minor'' unsigned_int,
            Field ''operation'' u8]),
         Field ''path_number'' (CStruct [] False
           [Field ''filename'' (CPtr ''const struct tomoyo_path_info''),
            Field ''number'' long_unsigned_int,
            Field ''operation'' u8]),
         Field ''environ'' (CStruct [] False
           [Field ''name'' (CPtr ''const struct tomoyo_path_info'')]),
         Field ''inet_network'' (CStruct [] False
           [Field ''address'' (CPtr ''const __be32''),
            Field ''port'' u16,
            Field ''protocol'' u8,
            Field ''operation'' u8,
            Field ''is_ipv6'' bool]),
         Field ''unix_network'' (CStruct [] False
           [Field ''address'' (CPtr ''const struct tomoyo_path_info''),
            Field ''protocol'' u8,
            Field ''operation'' u8]),
         Field ''mount'' (CStruct [] False
           [Field ''type'' (CPtr ''const struct tomoyo_path_info''),
            Field ''dir'' (CPtr ''const struct tomoyo_path_info''),
            Field ''dev'' (CPtr ''const struct tomoyo_path_info''),
            Field ''flags'' long_unsigned_int,
            Field ''need_dev'' c_int]),
         Field ''task'' (CStruct [] False
           [Field ''domainname'' (CPtr ''const struct tomoyo_path_info'')])]),
      Field ''matched_acl'' (CPtr ''struct tomoyo_acl_info''),
      Field ''param_type'' u8,
      Field ''granted'' bool,
      Field ''retry'' u8,
      Field ''profile'' u8,
      Field ''mode'' u8,
      Field ''type'' u8]"

section \<open>Sizes and alignments\<close>

lemma struct_zoned_disk_info_layout [layout_simps]:
  "sizeof struct_zoned_disk_info = 8 \<and> alignof struct_zoned_disk_info = 4 \<and> wf_cty struct_zoned_disk_info"
  by (simp add: struct_zoned_disk_info_def base_types layout_eval u32_def c__u32_def
      del: One_nat_def)

lemma struct_scsi_disk_layout [layout_simps]:
  "sizeof struct_scsi_disk = 960 \<and> alignof struct_scsi_disk = 8 \<and> wf_cty struct_scsi_disk"
  by (simp add: struct_scsi_disk_def base_types layout_eval struct_device_layout struct_zoned_disk_info_layout u32_def
      c__u32_def atomic_t_layout sector_t_def u64_def c__u64_def u16_def c__u16_def u8_def c__u8_def
      bool_def
      del: One_nat_def)

lemma struct_scsi_host_template_layout [layout_simps]:
  "sizeof struct_scsi_host_template = 360 \<and> alignof struct_scsi_host_template = 8 \<and> wf_cty struct_scsi_host_template"
  by (simp add: struct_scsi_host_template_def base_types layout_eval bool_def u64_def c__u64_def
      del: One_nat_def)

lemma struct_sctp_af_layout [layout_simps]:
  "sizeof struct_sctp_af = 216 \<and> alignof struct_sctp_af = 8 \<and> wf_cty struct_sctp_af"
  by (simp add: struct_sctp_af_def base_types layout_eval c__u16_def sa_family_t_def c__kernel_sa_family_t_def
      struct_list_head_layout
      del: One_nat_def)

lemma struct___genradix_layout [layout_simps]:
  "sizeof struct___genradix = 8 \<and> alignof struct___genradix = 8 \<and> wf_cty struct___genradix"
  by (simp add: struct___genradix_def base_types layout_eval
      del: One_nat_def)

lemma struct_sctp_stream_out_layout [layout_simps]:
  "sizeof struct_sctp_stream_out = 24 \<and> alignof struct_sctp_stream_out = 8 \<and> wf_cty struct_sctp_stream_out"
  by (simp add: struct_sctp_stream_out_def base_types layout_eval c__u32_def c__u16_def c__u8_def
      del: One_nat_def)

lemma struct_sctp_stream_in_layout [layout_simps]:
  "sizeof struct_sctp_stream_in = 20 \<and> alignof struct_sctp_stream_in = 4 \<and> wf_cty struct_sctp_stream_in"
  by (simp add: struct_sctp_stream_in_def base_types layout_eval c__u32_def c__u16_def
      del: One_nat_def)

lemma struct_sctp_stream_layout [layout_simps]:
  "sizeof struct_sctp_stream = 64 \<and> alignof struct_sctp_stream = 8 \<and> wf_cty struct_sctp_stream"
  by (simp add: struct_sctp_stream_def base_types layout_eval struct___genradix_layout struct_sctp_stream_out_layout
      struct_sctp_stream_in_layout c__u16_def struct_list_head_layout
      del: One_nat_def)

lemma enum_sctp_endpoint_type_layout [layout_simps]:
  "sizeof enum_sctp_endpoint_type = 4 \<and> alignof enum_sctp_endpoint_type = 4 \<and> wf_cty enum_sctp_endpoint_type"
  by (simp add: enum_sctp_endpoint_type_def base_types layout_eval
      del: One_nat_def)

lemma struct_sctp_inq_layout [layout_simps]:
  "sizeof struct_sctp_inq = 56 \<and> alignof struct_sctp_inq = 8 \<and> wf_cty struct_sctp_inq"
  by (simp add: struct_sctp_inq_def base_types layout_eval struct_list_head_layout struct_work_struct_layout
      del: One_nat_def)

lemma struct_sctp_bind_addr_layout [layout_simps]:
  "sizeof struct_sctp_bind_addr = 24 \<and> alignof struct_sctp_bind_addr = 8 \<and> wf_cty struct_sctp_bind_addr"
  by (simp add: struct_sctp_bind_addr_def base_types layout_eval c__u16_def struct_list_head_layout
      del: One_nat_def)

lemma struct_sctp_ep_common_layout [layout_simps]:
  "sizeof struct_sctp_ep_common = 112 \<and> alignof struct_sctp_ep_common = 8 \<and> wf_cty struct_sctp_ep_common"
  by (simp add: struct_sctp_ep_common_def base_types layout_eval enum_sctp_endpoint_type_layout refcount_t_def
      struct_refcount_struct_layout bool_def struct_sctp_inq_layout struct_sctp_bind_addr_layout
      del: One_nat_def)

lemma struct_sockaddr_inet_layout [layout_simps]:
  "sizeof struct_sockaddr_inet = 28 \<and> alignof struct_sockaddr_inet = 2 \<and> wf_cty struct_sockaddr_inet"
  by (simp add: struct_sockaddr_inet_def base_types layout_eval
      del: One_nat_def)

lemma struct_sockaddr_in_layout [layout_simps]:
  "sizeof struct_sockaddr_in = 16 \<and> alignof struct_sockaddr_in = 4 \<and> wf_cty struct_sockaddr_in"
  by (simp add: struct_sockaddr_in_def base_types layout_eval c__kernel_sa_family_t_def c__be16_def c__u16_def
      struct_in_addr_layout
      del: One_nat_def)

lemma struct_sockaddr_in6_layout [layout_simps]:
  "sizeof struct_sockaddr_in6 = 28 \<and> alignof struct_sockaddr_in6 = 4 \<and> wf_cty struct_sockaddr_in6"
  by (simp add: struct_sockaddr_in6_def base_types layout_eval c__be16_def c__u16_def c__be32_def c__u32_def
      struct_in6_addr_layout
      del: One_nat_def)

lemma union_sctp_addr_layout [layout_simps]:
  "sizeof union_sctp_addr = 28 \<and> alignof union_sctp_addr = 4 \<and> wf_cty union_sctp_addr"
  by (simp add: union_sctp_addr_def base_types layout_eval struct_sockaddr_inet_layout struct_sockaddr_in_layout
      struct_sockaddr_in6_layout
      del: One_nat_def)

lemma struct_sctp_cookie_layout [layout_simps]:
  "sizeof struct_sctp_cookie = 144 \<and> alignof struct_sctp_cookie = 8 \<and> wf_cty struct_sctp_cookie"
  by (simp add: struct_sctp_cookie_def base_types layout_eval c__u32_def ktime_t_def s64_def c__s64_def c__u16_def
      union_sctp_addr_layout c__u8_def
      del: One_nat_def)

lemma struct_sctp_tsnmap_layout [layout_simps]:
  "sizeof struct_sctp_tsnmap = 96 \<and> alignof struct_sctp_tsnmap = 8 \<and> wf_cty struct_sctp_tsnmap"
  by (simp add: struct_sctp_tsnmap_def base_types layout_eval c__u32_def c__u16_def c__be32_def
      del: One_nat_def)

lemma struct_sctp_inithdr_host_layout [layout_simps]:
  "sizeof struct_sctp_inithdr_host = 16 \<and> alignof struct_sctp_inithdr_host = 4 \<and> wf_cty struct_sctp_inithdr_host"
  by (simp add: struct_sctp_inithdr_host_def base_types layout_eval c__u32_def c__u16_def
      del: One_nat_def)

lemma enum_sctp_state_layout [layout_simps]:
  "sizeof enum_sctp_state = 4 \<and> alignof enum_sctp_state = 4 \<and> wf_cty enum_sctp_state"
  by (simp add: enum_sctp_state_def base_types layout_eval
      del: One_nat_def)

lemma struct_sctp_outq_layout [layout_simps]:
  "sizeof struct_sctp_outq = 112 \<and> alignof struct_sctp_outq = 8 \<and> wf_cty struct_sctp_outq"
  by (simp add: struct_sctp_outq_def base_types layout_eval struct_list_head_layout c__u32_def
      del: One_nat_def)

lemma struct_sctp_ulpq_layout [layout_simps]:
  "sizeof struct_sctp_ulpq = 88 \<and> alignof struct_sctp_ulpq = 8 \<and> wf_cty struct_sctp_ulpq"
  by (simp add: struct_sctp_ulpq_def base_types layout_eval struct_sk_buff_head_layout
      del: One_nat_def)

lemma struct_sctp_priv_assoc_stats_layout [layout_simps]:
  "sizeof struct_sctp_priv_assoc_stats = 248 \<and> alignof struct_sctp_priv_assoc_stats = 8 \<and> wf_cty struct_sctp_priv_assoc_stats"
  by (simp add: struct_sctp_priv_assoc_stats_def base_types layout_eval struct___kernel_sockaddr_storage_layout
      c__u64_def
      del: One_nat_def)

lemma struct_sctp_association_layout [layout_simps]:
  "sizeof struct_sctp_association = 2112 \<and> alignof struct_sctp_association = 8 \<and> wf_cty struct_sctp_association"
  by (simp add: struct_sctp_association_def base_types layout_eval struct_sctp_ep_common_layout struct_list_head_layout
      sctp_assoc_t_def c__s32_def struct_sctp_cookie_layout c__u32_def c__u16_def union_sctp_addr_layout
      struct_sctp_tsnmap_layout c__be16_def struct_sctp_inithdr_host_layout enum_sctp_state_layout
      ktime_t_def s64_def c__s64_def c__u8_def struct_timer_list_layout atomic_t_layout
      wait_queue_head_t_def struct_wait_queue_head_layout struct_sctp_stream_layout
      struct_sctp_outq_layout struct_sctp_ulpq_layout struct_sctp_priv_assoc_stats_layout c__u64_def
      u32_def struct_callback_head_layout
      del: One_nat_def)

lemma union_sctp_params_layout [layout_simps]:
  "sizeof union_sctp_params = 8 \<and> alignof union_sctp_params = 8 \<and> wf_cty union_sctp_params"
  by (simp add: union_sctp_params_def base_types layout_eval
      del: One_nat_def)

lemma struct_sctp_sndrcvinfo_layout [layout_simps]:
  "sizeof struct_sctp_sndrcvinfo = 32 \<and> alignof struct_sctp_sndrcvinfo = 4 \<and> wf_cty struct_sctp_sndrcvinfo"
  by (simp add: struct_sctp_sndrcvinfo_def base_types layout_eval c__u16_def c__u32_def sctp_assoc_t_def c__s32_def
      del: One_nat_def)

lemma struct_sctp_chunk_layout [layout_simps]:
  "sizeof struct_sctp_chunk = 256 \<and> alignof struct_sctp_chunk = 8 \<and> wf_cty struct_sctp_chunk"
  by (simp add: struct_sctp_chunk_def base_types layout_eval struct_list_head_layout refcount_t_def
      struct_refcount_struct_layout union_sctp_params_layout struct_sctp_sndrcvinfo_layout
      union_sctp_addr_layout c__u16_def
      del: One_nat_def)

lemma enum_sctp_socket_type_layout [layout_simps]:
  "sizeof enum_sctp_socket_type = 4 \<and> alignof enum_sctp_socket_type = 4 \<and> wf_cty enum_sctp_socket_type"
  by (simp add: enum_sctp_socket_type_def base_types layout_eval
      del: One_nat_def)

lemma struct_sctp_rtoinfo_layout [layout_simps]:
  "sizeof struct_sctp_rtoinfo = 16 \<and> alignof struct_sctp_rtoinfo = 4 \<and> wf_cty struct_sctp_rtoinfo"
  by (simp add: struct_sctp_rtoinfo_def base_types layout_eval sctp_assoc_t_def c__s32_def c__u32_def
      del: One_nat_def)

lemma struct_sctp_paddrparams_layout [layout_simps]:
  "sizeof struct_sctp_paddrparams = 156 \<and> alignof struct_sctp_paddrparams = 1 \<and> wf_cty struct_sctp_paddrparams"
  by (simp add: struct_sctp_paddrparams_def base_types layout_eval sctp_assoc_t_def c__s32_def
      struct___kernel_sockaddr_storage_layout c__u32_def c__u16_def c__u8_def
      del: One_nat_def)

lemma struct_sctp_assocparams_layout [layout_simps]:
  "sizeof struct_sctp_assocparams = 20 \<and> alignof struct_sctp_assocparams = 4 \<and> wf_cty struct_sctp_assocparams"
  by (simp add: struct_sctp_assocparams_def base_types layout_eval sctp_assoc_t_def c__s32_def c__u16_def c__u32_def
      del: One_nat_def)

lemma struct_sctp_initmsg_layout [layout_simps]:
  "sizeof struct_sctp_initmsg = 8 \<and> alignof struct_sctp_initmsg = 2 \<and> wf_cty struct_sctp_initmsg"
  by (simp add: struct_sctp_initmsg_def base_types layout_eval c__u16_def
      del: One_nat_def)

lemma struct_sctp_sock_layout [layout_simps]:
  "sizeof struct_sctp_sock = 1440 \<and> alignof struct_sctp_sock = 8 \<and> wf_cty struct_sctp_sock"
  by (simp add: struct_sctp_sock_def base_types layout_eval struct_inet_sock_layout enum_sctp_socket_type_layout
      c__u16_def c__u32_def c__be16_def c__u8_def struct_sctp_rtoinfo_layout
      struct_sctp_paddrparams_layout struct_sctp_assocparams_layout struct_sctp_initmsg_layout
      atomic_t_layout struct_sk_buff_head_layout struct_list_head_layout
      del: One_nat_def)

lemma struct_sctp_packet_layout [layout_simps]:
  "sizeof struct_sctp_packet = 72 \<and> alignof struct_sctp_packet = 8 \<and> wf_cty struct_sctp_packet"
  by (simp add: struct_sctp_packet_def base_types layout_eval c__u16_def c__u32_def struct_list_head_layout size_t_def
      c__kernel_size_t_def c__kernel_ulong_t_def u8_def c__u8_def
      del: One_nat_def)

lemma struct_sctp_transport_layout [layout_simps]:
  "sizeof struct_sctp_transport = 704 \<and> alignof struct_sctp_transport = 8 \<and> wf_cty struct_sctp_transport"
  by (simp add: struct_sctp_transport_def base_types layout_eval struct_list_head_layout struct_rhlist_head_layout
      refcount_t_def struct_refcount_struct_layout c__u32_def u32_def struct_flowi_layout
      union_sctp_addr_layout atomic_t_layout ktime_t_def s64_def c__s64_def c__be16_def c__u16_def
      c__u8_def struct_timer_list_layout struct_sctp_packet_layout c__u64_def struct_callback_head_layout
      del: One_nat_def)

lemma union_security_list_options_layout [layout_simps]:
  "sizeof union_security_list_options = 8 \<and> alignof union_security_list_options = 8 \<and> wf_cty union_security_list_options"
  by (simp add: union_security_list_options_def base_types layout_eval
      del: One_nat_def)

lemma struct_vmcb_seg_layout [layout_simps]:
  "sizeof struct_vmcb_seg = 16 \<and> alignof struct_vmcb_seg = 8 \<and> wf_cty struct_vmcb_seg"
  by (simp add: struct_vmcb_seg_def base_types layout_eval u16_def c__u16_def u32_def c__u32_def u64_def c__u64_def
      del: One_nat_def)

lemma struct_sev_es_save_area_layout [layout_simps]:
  "sizeof struct_sev_es_save_area = 1648 \<and> alignof struct_sev_es_save_area = 8 \<and> wf_cty struct_sev_es_save_area"
  by (simp add: struct_sev_es_save_area_def base_types layout_eval struct_vmcb_seg_layout u64_def c__u64_def u8_def
      c__u8_def u32_def c__u32_def u16_def c__u16_def
      del: One_nat_def)

lemma struct_sfp_eeprom_base_layout [layout_simps]:
  "sizeof struct_sfp_eeprom_base = 64 \<and> alignof struct_sfp_eeprom_base = 2 \<and> wf_cty struct_sfp_eeprom_base"
  by (simp add: struct_sfp_eeprom_base_def base_types layout_eval u8_def c__u8_def c__be16_def c__u16_def
      del: One_nat_def)

lemma struct_sg_io_v4_layout [layout_simps]:
  "sizeof struct_sg_io_v4 = 160 \<and> alignof struct_sg_io_v4 = 8 \<and> wf_cty struct_sg_io_v4"
  by (simp add: struct_sg_io_v4_def base_types layout_eval c__s32_def c__u32_def c__u64_def
      del: One_nat_def)

lemma struct_strp_stats_layout [layout_simps]:
  "sizeof struct_strp_stats = 40 \<and> alignof struct_strp_stats = 8 \<and> wf_cty struct_strp_stats"
  by (simp add: struct_strp_stats_def base_types layout_eval
      del: One_nat_def)

lemma struct_strp_callbacks_layout [layout_simps]:
  "sizeof struct_strp_callbacks = 56 \<and> alignof struct_strp_callbacks = 8 \<and> wf_cty struct_strp_callbacks"
  by (simp add: struct_strp_callbacks_def base_types layout_eval
      del: One_nat_def)

lemma struct_strparser_layout [layout_simps]:
  "sizeof struct_strparser = 256 \<and> alignof struct_strparser = 8 \<and> wf_cty struct_strparser"
  by (simp add: struct_strparser_def base_types layout_eval u32_def c__u32_def struct_delayed_work_layout
      struct_work_struct_layout struct_strp_stats_layout struct_strp_callbacks_layout
      del: One_nat_def)

lemma struct_sk_psock_work_state_layout [layout_simps]:
  "sizeof struct_sk_psock_work_state = 8 \<and> alignof struct_sk_psock_work_state = 4 \<and> wf_cty struct_sk_psock_work_state"
  by (simp add: struct_sk_psock_work_state_def base_types layout_eval u32_def c__u32_def
      del: One_nat_def)

lemma struct_sk_psock_layout [layout_simps]:
  "sizeof struct_sk_psock = 696 \<and> alignof struct_sk_psock = 8 \<and> wf_cty struct_sk_psock"
  by (simp add: struct_sk_psock_def base_types layout_eval u32_def c__u32_def bool_def struct_sk_psock_progs_layout
      struct_strparser_layout struct_sk_buff_head_layout struct_list_head_layout spinlock_t_def
      struct_spinlock_layout refcount_t_def struct_refcount_struct_layout struct_mutex_layout
      struct_sk_psock_work_state_layout struct_delayed_work_layout struct_rcu_work_layout
      del: One_nat_def)

lemma struct_scatter_walk_layout [layout_simps]:
  "sizeof struct_scatter_walk = 24 \<and> alignof struct_scatter_walk = 8 \<and> wf_cty struct_scatter_walk"
  by (simp add: struct_scatter_walk_def base_types layout_eval
      del: One_nat_def)

lemma struct_skcipher_walk_layout [layout_simps]:
  "sizeof struct_skcipher_walk = 112 \<and> alignof struct_skcipher_walk = 8 \<and> wf_cty struct_skcipher_walk"
  by (simp add: struct_skcipher_walk_def base_types layout_eval struct_scatter_walk_layout
      del: One_nat_def)

lemma struct_netdev_xmit_layout [layout_simps]:
  "sizeof struct_netdev_xmit = 48 \<and> alignof struct_netdev_xmit = 8 \<and> wf_cty struct_netdev_xmit"
  by (simp add: struct_netdev_xmit_def base_types layout_eval u16_def c__u16_def u8_def c__u8_def
      del: One_nat_def)

lemma struct_softnet_data_layout [layout_simps]:
  "sizeof struct_softnet_data = 1088 \<and> alignof struct_softnet_data = 8 \<and> wf_cty struct_softnet_data"
  by (simp add: struct_softnet_data_def base_types layout_eval struct_list_head_layout struct_sk_buff_head_layout
      local_lock_t_def struct_local_lock_layout bool_def struct_netdev_xmit_layout call_single_data_t_def
      struct___call_single_data_layout struct_napi_struct_layout struct_numa_drop_counters_layout
      del: One_nat_def)

lemma struct_spi_controller_layout [layout_simps]:
  "sizeof struct_spi_controller = 1440 \<and> alignof struct_spi_controller = 8 \<and> wf_cty struct_spi_controller"
  by (simp add: struct_spi_controller_def base_types layout_eval struct_device_layout struct_list_head_layout s16_def
      c__s16_def u16_def c__u16_def u32_def c__u32_def bool_def struct_mutex_layout spinlock_t_def
      struct_spinlock_layout struct_kthread_work_layout struct_completion_layout s8_def c__s8_def
      size_t_def c__kernel_size_t_def c__kernel_ulong_t_def
      del: One_nat_def)

lemma struct_spi_device_layout [layout_simps]:
  "sizeof struct_spi_device = 968 \<and> alignof struct_spi_device = 8 \<and> wf_cty struct_spi_device"
  by (simp add: struct_spi_device_def base_types layout_eval struct_device_layout u32_def c__u32_def u8_def c__u8_def
      bool_def struct_spi_delay_layout
      del: One_nat_def)

lemma enum_spi_mem_data_dir_layout [layout_simps]:
  "sizeof enum_spi_mem_data_dir = 4 \<and> alignof enum_spi_mem_data_dir = 4 \<and> wf_cty enum_spi_mem_data_dir"
  by (simp add: enum_spi_mem_data_dir_def base_types layout_eval
      del: One_nat_def)

lemma struct_spi_mem_op_layout [layout_simps]:
  "sizeof struct_spi_mem_op = 64 \<and> alignof struct_spi_mem_op = 8 \<and> wf_cty struct_spi_mem_op"
  by (simp add: struct_spi_mem_op_def base_types layout_eval u8_def c__u8_def u16_def c__u16_def u64_def c__u64_def
      enum_spi_mem_data_dir_layout
      del: One_nat_def)

lemma struct_squashfs_sb_info_layout [layout_simps]:
  "sizeof struct_squashfs_sb_info = 216 \<and> alignof struct_squashfs_sb_info = 8 \<and> wf_cty struct_squashfs_sb_info"
  by (simp add: struct_squashfs_sb_info_def base_types layout_eval struct_mutex_layout u64_def c__u64_def bool_def
      del: One_nat_def)

lemma struct_start_info_layout [layout_simps]:
  "sizeof struct_start_info = 1168 \<and> alignof struct_start_info = 8 \<and> wf_cty struct_start_info"
  by (simp add: struct_start_info_def base_types layout_eval uint32_t_def u32_def c__u32_def xen_pfn_t_def int8_t_def
      s8_def c__s8_def
      del: One_nat_def)

lemma struct_statx_timestamp_layout [layout_simps]:
  "sizeof struct_statx_timestamp = 16 \<and> alignof struct_statx_timestamp = 8 \<and> wf_cty struct_statx_timestamp"
  by (simp add: struct_statx_timestamp_def base_types layout_eval c__s64_def c__u32_def c__s32_def
      del: One_nat_def)

lemma struct_statx_layout [layout_simps]:
  "sizeof struct_statx = 256 \<and> alignof struct_statx = 8 \<and> wf_cty struct_statx"
  by (simp add: struct_statx_def base_types layout_eval c__u32_def c__u64_def c__u16_def struct_statx_timestamp_layout
      del: One_nat_def)

lemma struct_svc_cred_layout [layout_simps]:
  "sizeof struct_svc_cred = 56 \<and> alignof struct_svc_cred = 8 \<and> wf_cty struct_svc_cred"
  by (simp add: struct_svc_cred_def base_types layout_eval kuid_t_layout kgid_t_layout u32_def c__u32_def
      del: One_nat_def)

lemma struct_xdr_stream_layout [layout_simps]:
  "sizeof struct_xdr_stream = 80 \<and> alignof struct_xdr_stream = 8 \<and> wf_cty struct_xdr_stream"
  by (simp add: struct_xdr_stream_def base_types layout_eval struct_kvec_layout
      del: One_nat_def)

lemma struct_cache_req_layout [layout_simps]:
  "sizeof struct_cache_req = 16 \<and> alignof struct_cache_req = 8 \<and> wf_cty struct_cache_req"
  by (simp add: struct_cache_req_def base_types layout_eval
      del: One_nat_def)

lemma struct_svc_rqst_layout [layout_simps]:
  "sizeof struct_svc_rqst = 1216 \<and> alignof struct_svc_rqst = 8 \<and> wf_cty struct_svc_rqst"
  by (simp add: struct_svc_rqst_def base_types layout_eval struct_list_head_layout struct_llist_node_layout
      struct_callback_head_layout struct___kernel_sockaddr_storage_layout size_t_def c__kernel_size_t_def
      c__kernel_ulong_t_def struct_svc_cred_layout struct_xdr_buf_layout struct_xdr_stream_layout
      struct_folio_batch_layout c__be32_def c__u32_def u32_def ktime_t_def s64_def c__s64_def
      struct_cache_req_layout
      del: One_nat_def)

lemma struct_swap_info_struct_layout [layout_simps]:
  "sizeof struct_swap_info_struct = 672 \<and> alignof struct_swap_info_struct = 8 \<and> wf_cty struct_swap_info_struct"
  by (simp add: struct_swap_info_struct_def base_types layout_eval struct_percpu_ref_layout struct_plist_node_layout
      struct_list_head_layout atomic_long_t_def atomic64_t_layout spinlock_t_def struct_spinlock_layout
      struct_rb_root_layout struct_completion_layout struct_work_struct_layout
      del: One_nat_def)

lemma struct_target_type_layout [layout_simps]:
  "sizeof struct_target_type = 232 \<and> alignof struct_target_type = 8 \<and> wf_cty struct_target_type"
  by (simp add: struct_target_type_def base_types layout_eval uint64_t_def u64_def c__u64_def dm_ctr_fn_def dm_dtr_fn_def
      dm_map_fn_def dm_clone_and_map_request_fn_def dm_release_clone_request_fn_def dm_endio_fn_def
      dm_request_endio_fn_def dm_presuspend_fn_def dm_presuspend_undo_fn_def dm_postsuspend_fn_def
      dm_preresume_fn_def dm_resume_fn_def dm_status_fn_def dm_message_fn_def dm_prepare_ioctl_fn_def
      dm_report_zones_fn_def dm_busy_fn_def dm_iterate_devices_fn_def dm_io_hints_fn_def
      dm_dax_direct_access_fn_def dm_dax_zero_page_range_fn_def dm_dax_recovery_write_fn_def
      struct_list_head_layout
      del: One_nat_def)

lemma struct_tcf_t_layout [layout_simps]:
  "sizeof struct_tcf_t = 32 \<and> alignof struct_tcf_t = 8 \<and> wf_cty struct_tcf_t"
  by (simp add: struct_tcf_t_def base_types layout_eval c__u64_def
      del: One_nat_def)

lemma struct_tc_action_layout [layout_simps]:
  "sizeof struct_tc_action = 192 \<and> alignof struct_tc_action = 8 \<and> wf_cty struct_tc_action"
  by (simp add: struct_tc_action_def base_types layout_eval c__u32_def u32_def refcount_t_def
      struct_refcount_struct_layout atomic_t_layout struct_tcf_t_layout
      struct_gnet_stats_basic_sync_layout spinlock_t_def struct_spinlock_layout u8_def c__u8_def bool_def
      del: One_nat_def)

lemma struct_flow_block_layout [layout_simps]:
  "sizeof struct_flow_block = 16 \<and> alignof struct_flow_block = 8 \<and> wf_cty struct_flow_block"
  by (simp add: struct_flow_block_def base_types layout_eval struct_list_head_layout
      del: One_nat_def)

lemma struct_tcf_block_layout [layout_simps]:
  "sizeof struct_tcf_block = 1288 \<and> alignof struct_tcf_block = 8 \<and> wf_cty struct_tcf_block"
  by (simp add: struct_tcf_block_def base_types layout_eval struct_xarray_layout struct_mutex_layout
      struct_list_head_layout u32_def c__u32_def refcount_t_def struct_refcount_struct_layout
      struct_rw_semaphore_layout struct_flow_block_layout bool_def atomic_t_layout
      struct_callback_head_layout struct_hlist_head_layout
      del: One_nat_def)

lemma struct_tcf_proto_ops_layout [layout_simps]:
  "sizeof struct_tcf_proto_ops = 208 \<and> alignof struct_tcf_proto_ops = 8 \<and> wf_cty struct_tcf_proto_ops"
  by (simp add: struct_tcf_proto_ops_def base_types layout_eval struct_list_head_layout
      del: One_nat_def)

lemma struct_tcp_info_layout [layout_simps]:
  "sizeof struct_tcp_info = 280 \<and> alignof struct_tcp_info = 8 \<and> wf_cty struct_tcp_info"
  by (simp add: struct_tcp_info_def base_types layout_eval c__u8_def c__u32_def c__u64_def c__u16_def
      del: One_nat_def)

lemma struct_inet_skb_parm_layout [layout_simps]:
  "sizeof struct_inet_skb_parm = 24 \<and> alignof struct_inet_skb_parm = 4 \<and> wf_cty struct_inet_skb_parm"
  by (simp add: struct_inet_skb_parm_def base_types layout_eval struct_ip_options_layout u16_def c__u16_def
      del: One_nat_def)

lemma struct_inet6_skb_parm_layout [layout_simps]:
  "sizeof struct_inet6_skb_parm = 24 \<and> alignof struct_inet6_skb_parm = 4 \<and> wf_cty struct_inet6_skb_parm"
  by (simp add: struct_inet6_skb_parm_def base_types layout_eval c__be16_def c__u16_def
      del: One_nat_def)

lemma struct_tcp_skb_cb_layout [layout_simps]:
  "sizeof struct_tcp_skb_cb = 48 \<and> alignof struct_tcp_skb_cb = 8 \<and> wf_cty struct_tcp_skb_cb"
  by (simp add: struct_tcp_skb_cb_def base_types layout_eval c__u32_def u32_def u16_def c__u16_def c__u8_def u64_def
      c__u64_def struct_inet_skb_parm_layout struct_inet6_skb_parm_layout
      del: One_nat_def)

lemma struct_tdmr_reserved_area_layout [layout_simps]:
  "sizeof struct_tdmr_reserved_area = 16 \<and> alignof struct_tdmr_reserved_area = 8 \<and> wf_cty struct_tdmr_reserved_area"
  by (simp add: struct_tdmr_reserved_area_def base_types layout_eval u64_def c__u64_def
      del: One_nat_def)

lemma struct_tdmr_info_layout [layout_simps]:
  "sizeof struct_tdmr_info = 512 \<and> alignof struct_tdmr_info = 8 \<and> wf_cty struct_tdmr_info"
  by (simp add: struct_tdmr_info_def base_types layout_eval u64_def c__u64_def struct_tdmr_reserved_area_layout
      del: One_nat_def)

lemma enum_thermal_device_mode_layout [layout_simps]:
  "sizeof enum_thermal_device_mode = 4 \<and> alignof enum_thermal_device_mode = 4 \<and> wf_cty enum_thermal_device_mode"
  by (simp add: enum_thermal_device_mode_def base_types layout_eval
      del: One_nat_def)

lemma struct_thermal_zone_device_ops_layout [layout_simps]:
  "sizeof struct_thermal_zone_device_ops = 80 \<and> alignof struct_thermal_zone_device_ops = 8 \<and> wf_cty struct_thermal_zone_device_ops"
  by (simp add: struct_thermal_zone_device_ops_def base_types layout_eval
      del: One_nat_def)

lemma enum_thermal_notify_event_layout [layout_simps]:
  "sizeof enum_thermal_notify_event = 4 \<and> alignof enum_thermal_notify_event = 4 \<and> wf_cty enum_thermal_notify_event"
  by (simp add: enum_thermal_notify_event_def base_types layout_eval
      del: One_nat_def)

lemma enum_thermal_trip_type_layout [layout_simps]:
  "sizeof enum_thermal_trip_type = 4 \<and> alignof enum_thermal_trip_type = 4 \<and> wf_cty enum_thermal_trip_type"
  by (simp add: enum_thermal_trip_type_def base_types layout_eval
      del: One_nat_def)

lemma struct_thermal_trip_layout [layout_simps]:
  "sizeof struct_thermal_trip = 24 \<and> alignof struct_thermal_trip = 8 \<and> wf_cty struct_thermal_trip"
  by (simp add: struct_thermal_trip_def base_types layout_eval enum_thermal_trip_type_layout u8_def c__u8_def
      del: One_nat_def)

lemma struct_thermal_attr_layout [layout_simps]:
  "sizeof struct_thermal_attr = 56 \<and> alignof struct_thermal_attr = 8 \<and> wf_cty struct_thermal_attr"
  by (simp add: struct_thermal_attr_def base_types layout_eval struct_device_attribute_layout
      del: One_nat_def)

lemma struct_thermal_trip_attrs_layout [layout_simps]:
  "sizeof struct_thermal_trip_attrs = 168 \<and> alignof struct_thermal_trip_attrs = 8 \<and> wf_cty struct_thermal_trip_attrs"
  by (simp add: struct_thermal_trip_attrs_def base_types layout_eval struct_thermal_attr_layout
      del: One_nat_def)

lemma struct_thermal_trip_desc_layout [layout_simps]:
  "sizeof struct_thermal_trip_desc = 232 \<and> alignof struct_thermal_trip_desc = 8 \<and> wf_cty struct_thermal_trip_desc"
  by (simp add: struct_thermal_trip_desc_def base_types layout_eval struct_thermal_trip_layout
      struct_thermal_trip_attrs_layout struct_list_head_layout
      del: One_nat_def)

lemma struct_thermal_zone_device_layout [layout_simps]:
  "sizeof struct_thermal_zone_device = 1344 \<and> alignof struct_thermal_zone_device = 8 \<and> wf_cty struct_thermal_zone_device"
  by (simp add: struct_thermal_zone_device_def base_types layout_eval struct_device_layout struct_completion_layout
      struct_attribute_group_layout struct_list_head_layout enum_thermal_device_mode_layout
      struct_thermal_zone_device_ops_layout struct_ida_layout struct_mutex_layout
      struct_delayed_work_layout enum_thermal_notify_event_layout u8_def c__u8_def
      struct_thermal_trip_desc_layout
      del: One_nat_def)

lemma struct_tick_sched_layout [layout_simps]:
  "sizeof struct_tick_sched = 232 \<and> alignof struct_tick_sched = 8 \<and> wf_cty struct_tick_sched"
  by (simp add: struct_tick_sched_def base_types layout_eval struct_hrtimer_layout ktime_t_def s64_def c__s64_def
      seqcount_t_def struct_seqcount_layout u64_def c__u64_def atomic_t_layout
      del: One_nat_def)

lemma struct_tk_read_base_layout [layout_simps]:
  "sizeof struct_tk_read_base = 56 \<and> alignof struct_tk_read_base = 8 \<and> wf_cty struct_tk_read_base"
  by (simp add: struct_tk_read_base_def base_types layout_eval u64_def c__u64_def u32_def c__u32_def ktime_t_def s64_def
      c__s64_def
      del: One_nat_def)

lemma enum_timekeeper_ids_layout [layout_simps]:
  "sizeof enum_timekeeper_ids = 4 \<and> alignof enum_timekeeper_ids = 4 \<and> wf_cty enum_timekeeper_ids"
  by (simp add: enum_timekeeper_ids_def base_types layout_eval
      del: One_nat_def)

lemma struct_timekeeper_layout [layout_simps]:
  "sizeof struct_timekeeper = 280 \<and> alignof struct_timekeeper = 8 \<and> wf_cty struct_timekeeper"
  by (simp add: struct_timekeeper_def base_types layout_eval struct_tk_read_base_layout u64_def c__u64_def
      struct_timespec64_layout ktime_t_def s64_def c__s64_def u32_def c__u32_def
      enum_timekeeper_ids_layout u8_def c__u8_def s32_def c__s32_def
      del: One_nat_def)

lemma struct_tls_prot_info_layout [layout_simps]:
  "sizeof struct_tls_prot_info = 20 \<and> alignof struct_tls_prot_info = 2 \<and> wf_cty struct_tls_prot_info"
  by (simp add: struct_tls_prot_info_def base_types layout_eval u16_def c__u16_def
      del: One_nat_def)

lemma struct_cipher_context_layout [layout_simps]:
  "sizeof struct_cipher_context = 28 \<and> alignof struct_cipher_context = 1 \<and> wf_cty struct_cipher_context"
  by (simp add: struct_cipher_context_def base_types layout_eval
      del: One_nat_def)

lemma struct_tls_crypto_info_layout [layout_simps]:
  "sizeof struct_tls_crypto_info = 4 \<and> alignof struct_tls_crypto_info = 2 \<and> wf_cty struct_tls_crypto_info"
  by (simp add: struct_tls_crypto_info_def base_types layout_eval c__u16_def
      del: One_nat_def)

lemma struct_tls12_crypto_info_aes_gcm_128_layout [layout_simps]:
  "sizeof struct_tls12_crypto_info_aes_gcm_128 = 40 \<and> alignof struct_tls12_crypto_info_aes_gcm_128 = 2 \<and> wf_cty struct_tls12_crypto_info_aes_gcm_128"
  by (simp add: struct_tls12_crypto_info_aes_gcm_128_def base_types layout_eval struct_tls_crypto_info_layout
      del: One_nat_def)

lemma struct_tls12_crypto_info_aes_gcm_256_layout [layout_simps]:
  "sizeof struct_tls12_crypto_info_aes_gcm_256 = 56 \<and> alignof struct_tls12_crypto_info_aes_gcm_256 = 2 \<and> wf_cty struct_tls12_crypto_info_aes_gcm_256"
  by (simp add: struct_tls12_crypto_info_aes_gcm_256_def base_types layout_eval struct_tls_crypto_info_layout
      del: One_nat_def)

lemma struct_tls12_crypto_info_chacha20_poly1305_layout [layout_simps]:
  "sizeof struct_tls12_crypto_info_chacha20_poly1305 = 56 \<and> alignof struct_tls12_crypto_info_chacha20_poly1305 = 2 \<and> wf_cty struct_tls12_crypto_info_chacha20_poly1305"
  by (simp add: struct_tls12_crypto_info_chacha20_poly1305_def base_types layout_eval struct_tls_crypto_info_layout
      del: One_nat_def)

lemma struct_tls12_crypto_info_sm4_gcm_layout [layout_simps]:
  "sizeof struct_tls12_crypto_info_sm4_gcm = 40 \<and> alignof struct_tls12_crypto_info_sm4_gcm = 2 \<and> wf_cty struct_tls12_crypto_info_sm4_gcm"
  by (simp add: struct_tls12_crypto_info_sm4_gcm_def base_types layout_eval struct_tls_crypto_info_layout
      del: One_nat_def)

lemma struct_tls12_crypto_info_sm4_ccm_layout [layout_simps]:
  "sizeof struct_tls12_crypto_info_sm4_ccm = 40 \<and> alignof struct_tls12_crypto_info_sm4_ccm = 2 \<and> wf_cty struct_tls12_crypto_info_sm4_ccm"
  by (simp add: struct_tls12_crypto_info_sm4_ccm_def base_types layout_eval struct_tls_crypto_info_layout
      del: One_nat_def)

lemma union_tls_crypto_context_layout [layout_simps]:
  "sizeof union_tls_crypto_context = 56 \<and> alignof union_tls_crypto_context = 2 \<and> wf_cty union_tls_crypto_context"
  by (simp add: union_tls_crypto_context_def base_types layout_eval struct_tls_crypto_info_layout
      struct_tls12_crypto_info_aes_gcm_128_layout struct_tls12_crypto_info_aes_gcm_256_layout
      struct_tls12_crypto_info_chacha20_poly1305_layout struct_tls12_crypto_info_sm4_gcm_layout
      struct_tls12_crypto_info_sm4_ccm_layout
      del: One_nat_def)

lemma struct_tls_context_layout [layout_simps]:
  "sizeof struct_tls_context = 352 \<and> alignof struct_tls_context = 8 \<and> wf_cty struct_tls_context"
  by (simp add: struct_tls_context_def base_types layout_eval struct_tls_prot_info_layout u8_def c__u8_def u16_def
      c__u16_def struct_cipher_context_layout bool_def struct_mutex_layout
      union_tls_crypto_context_layout struct_list_head_layout refcount_t_def
      struct_refcount_struct_layout struct_callback_head_layout
      del: One_nat_def)

lemma struct_tomoyo_request_info_layout [layout_simps]:
  "sizeof struct_tomoyo_request_info = 80 \<and> alignof struct_tomoyo_request_info = 8 \<and> wf_cty struct_tomoyo_request_info"
  by (simp add: struct_tomoyo_request_info_def base_types layout_eval u8_def c__u8_def u16_def c__u16_def bool_def
      del: One_nat_def)

end
