(* ===== verification/KernelSubDrm.thy ===== *)
theory KernelSubDrm
  imports KernelReach5a
begin

text \<open>
  The other types of \<^verbatim>\<open>bpf/vmlinux.h\<close> that belong to DRM and Intel's drivers, with every type they hold by value.
\<close>

section \<open>Types\<close>

definition enum_drm_bus_flags :: cty where
  "enum_drm_bus_flags = CEnum 4
     [(''DRM_BUS_FLAG_DE_LOW'', 1), (''DRM_BUS_FLAG_DE_HIGH'', 2),
      (''DRM_BUS_FLAG_PIXDATA_DRIVE_POSEDGE'', 4), (''DRM_BUS_FLAG_PIXDATA_DRIVE_NEGEDGE'', 8),
      (''DRM_BUS_FLAG_PIXDATA_SAMPLE_POSEDGE'', 8),
      (''DRM_BUS_FLAG_PIXDATA_SAMPLE_NEGEDGE'', 4), (''DRM_BUS_FLAG_DATA_MSB_TO_LSB'', 16),
      (''DRM_BUS_FLAG_DATA_LSB_TO_MSB'', 32), (''DRM_BUS_FLAG_SYNC_DRIVE_POSEDGE'', 64),
      (''DRM_BUS_FLAG_SYNC_DRIVE_NEGEDGE'', 128), (''DRM_BUS_FLAG_SYNC_SAMPLE_POSEDGE'', 128),
      (''DRM_BUS_FLAG_SYNC_SAMPLE_NEGEDGE'', 64), (''DRM_BUS_FLAG_SHARP_SIGNALS'', 256)]"

definition enum_drm_driver_feature :: cty where
  "enum_drm_driver_feature = CEnum 4
     [(''DRIVER_GEM'', 1), (''DRIVER_MODESET'', 2), (''DRIVER_RENDER'', 8),
      (''DRIVER_ATOMIC'', 16), (''DRIVER_SYNCOBJ'', 32), (''DRIVER_SYNCOBJ_TIMELINE'', 64),
      (''DRIVER_COMPUTE_ACCEL'', 128), (''DRIVER_GEM_GPUVA'', 256),
      (''DRIVER_CURSOR_HOTSPOT'', 512), (''DRIVER_USE_AGP'', 33554432),
      (''DRIVER_LEGACY'', 67108864), (''DRIVER_PCI_DMA'', 134217728),
      (''DRIVER_SG'', 268435456), (''DRIVER_HAVE_DMA'', 536870912),
      (''DRIVER_HAVE_IRQ'', 1073741824)]"

definition enum_drm_edid_internal_quirk :: cty where
  "enum_drm_edid_internal_quirk = CEnum 4
     [(''EDID_QUIRK_PREFER_LARGE_60'', 1), (''EDID_QUIRK_135_CLOCK_TOO_HIGH'', 2),
      (''EDID_QUIRK_PREFER_LARGE_75'', 3), (''EDID_QUIRK_DETAILED_IN_CM'', 4),
      (''EDID_QUIRK_DETAILED_USE_MAXIMUM_SIZE'', 5), (''EDID_QUIRK_DETAILED_SYNC_PP'', 6),
      (''EDID_QUIRK_FORCE_REDUCED_BLANKING'', 7), (''EDID_QUIRK_FORCE_8BPC'', 8),
      (''EDID_QUIRK_FORCE_12BPC'', 9), (''EDID_QUIRK_FORCE_6BPC'', 10),
      (''EDID_QUIRK_FORCE_10BPC'', 11), (''EDID_QUIRK_NON_DESKTOP'', 12),
      (''EDID_QUIRK_CAP_DSC_15BPP'', 13)]"

definition enum_drm_gpuva_op_type :: cty where
  "enum_drm_gpuva_op_type = CEnum 4
     [(''DRM_GPUVA_OP_MAP'', 0), (''DRM_GPUVA_OP_REMAP'', 1), (''DRM_GPUVA_OP_UNMAP'', 2),
      (''DRM_GPUVA_OP_PREFETCH'', 3), (''DRM_GPUVA_OP_DRIVER'', 4)]"

definition enum_drm_mm_insert_mode :: cty where
  "enum_drm_mm_insert_mode = CEnum 4
     [(''DRM_MM_INSERT_BEST'', 0), (''DRM_MM_INSERT_LOW'', 1), (''DRM_MM_INSERT_HIGH'', 2),
      (''DRM_MM_INSERT_EVICT'', 3), (''DRM_MM_INSERT_ONCE'', 2147483648),
      (''DRM_MM_INSERT_HIGHEST'', 2147483650), (''DRM_MM_INSERT_LOWEST'', 2147483649)]"

definition enum_drm_stat_type :: cty where
  "enum_drm_stat_type = CEnum 4
     [(''_DRM_STAT_LOCK'', 0), (''_DRM_STAT_OPENS'', 1), (''_DRM_STAT_CLOSES'', 2),
      (''_DRM_STAT_IOCTLS'', 3), (''_DRM_STAT_LOCKS'', 4), (''_DRM_STAT_UNLOCKS'', 5),
      (''_DRM_STAT_VALUE'', 6), (''_DRM_STAT_BYTE'', 7), (''_DRM_STAT_COUNT'', 8),
      (''_DRM_STAT_IRQ'', 9), (''_DRM_STAT_PRIMARY'', 10), (''_DRM_STAT_SECONDARY'', 11),
      (''_DRM_STAT_DMA'', 12), (''_DRM_STAT_SPECIAL'', 13), (''_DRM_STAT_MISSED'', 14)]"

definition enum_drm_vblank_seq_type :: cty where
  "enum_drm_vblank_seq_type = CEnum 4
     [(''_DRM_VBLANK_ABSOLUTE'', 0), (''_DRM_VBLANK_RELATIVE'', 1),
      (''_DRM_VBLANK_HIGH_CRTC_MASK'', 62), (''_DRM_VBLANK_EVENT'', 67108864),
      (''_DRM_VBLANK_FLIP'', 134217728), (''_DRM_VBLANK_NEXTONMISS'', 268435456),
      (''_DRM_VBLANK_SECONDARY'', 536870912), (''_DRM_VBLANK_SIGNAL'', 1073741824)]"

definition enum_intel_cht_wc_models :: cty where
  "enum_intel_cht_wc_models = CEnum 4
     [(''INTEL_CHT_WC_UNKNOWN'', 0), (''INTEL_CHT_WC_GPD_WIN_POCKET'', 1),
      (''INTEL_CHT_WC_XIAOMI_MIPAD2'', 2), (''INTEL_CHT_WC_LENOVO_YOGABOOK1'', 3),
      (''INTEL_CHT_WC_LENOVO_YT3_X90'', 4)]"

definition struct__intel_private :: cty where
  "struct__intel_private = CStruct ''_intel_private'' False
     [Field ''driver'' (CPtr ''const struct intel_gtt_driver''),
      Field ''pcidev'' (CPtr ''struct pci_dev''),
      Field ''bridge_dev'' (CPtr ''struct pci_dev''),
      Field ''registers'' (CPtr ''u8''),
      Field ''gtt_phys_addr'' phys_addr_t,
      Field ''PGETBL_save'' u32,
      Field ''gtt'' (CPtr ''u32''),
      Field ''clear_fake_agp'' bool,
      Field ''num_dcache_entries'' c_int,
      Field ''i9xx_flush_page'' (CPtr ''void''),
      Field ''i81x_gtt_table'' (CPtr ''char''),
      Field ''ifp_resource'' struct_resource,
      Field ''resource_valid'' c_int,
      Field ''scratch_page'' (CPtr ''struct page''),
      Field ''scratch_page_dma'' phys_addr_t,
      Field ''refcount'' c_int,
      BitField ''needs_dmar'' unsigned_int 1,
      Field ''gma_bus_addr'' phys_addr_t,
      Field ''stolen_size'' resource_size_t,
      Field ''gtt_total_entries'' unsigned_int,
      Field ''gtt_mappable_entries'' unsigned_int]"

definition struct_drm_afbc_framebuffer :: cty where
  "struct_drm_afbc_framebuffer = CStruct ''drm_afbc_framebuffer'' False
     [Field ''base'' struct_drm_framebuffer,
      Field ''block_width'' u32,
      Field ''block_height'' u32,
      Field ''aligned_width'' u32,
      Field ''aligned_height'' u32,
      Field ''offset'' u32,
      Field ''afbc_size'' u32]"

definition struct_drm_atomic_helper_damage_iter :: cty where
  "struct_drm_atomic_helper_damage_iter = CStruct ''drm_atomic_helper_damage_iter'' False
     [Field ''plane_src'' struct_drm_rect,
      Field ''clips'' (CPtr ''const struct drm_rect''),
      Field ''num_clips'' uint32_t,
      Field ''curr_clip'' uint32_t,
      Field ''full_update'' bool]"

definition struct_drm_client :: cty where
  "struct_drm_client = CStruct ''drm_client'' False
     [Field ''idx'' c_int,
      Field ''auth'' c_int,
      Field ''pid'' long_unsigned_int,
      Field ''uid'' long_unsigned_int,
      Field ''magic'' long_unsigned_int,
      Field ''iocs'' long_unsigned_int]"

definition struct_drm_client32 :: cty where
  "struct_drm_client32 = CStruct ''drm_client32'' False
     [Field ''idx'' c_int,
      Field ''auth'' c_int,
      Field ''pid'' u32,
      Field ''uid'' u32,
      Field ''magic'' u32,
      Field ''iocs'' u32]"

definition struct_drm_dsc_rc_range_parameters :: cty where
  "struct_drm_dsc_rc_range_parameters = CStruct ''drm_dsc_rc_range_parameters'' False
     [Field ''range_min_qp'' u8,
      Field ''range_max_qp'' u8,
      Field ''range_bpg_offset'' u8]"

definition struct_drm_dsc_config :: cty where
  "struct_drm_dsc_config = CStruct ''drm_dsc_config'' False
     [Field ''line_buf_depth'' u8,
      Field ''bits_per_component'' u8,
      Field ''convert_rgb'' bool,
      Field ''slice_count'' u8,
      Field ''slice_width'' u16,
      Field ''slice_height'' u16,
      Field ''simple_422'' bool,
      Field ''pic_width'' u16,
      Field ''pic_height'' u16,
      Field ''rc_tgt_offset_high'' u8,
      Field ''rc_tgt_offset_low'' u8,
      Field ''bits_per_pixel'' u16,
      Field ''rc_edge_factor'' u8,
      Field ''rc_quant_incr_limit1'' u8,
      Field ''rc_quant_incr_limit0'' u8,
      Field ''initial_xmit_delay'' u16,
      Field ''initial_dec_delay'' u16,
      Field ''block_pred_enable'' bool,
      Field ''first_line_bpg_offset'' u8,
      Field ''initial_offset'' u16,
      Field ''rc_buf_thresh'' (CArr 14 u16),
      Field ''rc_range_params'' (CArr 15 struct_drm_dsc_rc_range_parameters),
      Field ''rc_model_size'' u16,
      Field ''flatness_min_qp'' u8,
      Field ''flatness_max_qp'' u8,
      Field ''initial_scale_value'' u8,
      Field ''scale_decrement_interval'' u16,
      Field ''scale_increment_interval'' u16,
      Field ''nfl_bpg_offset'' u16,
      Field ''slice_bpg_offset'' u16,
      Field ''final_offset'' u16,
      Field ''vbr_enable'' bool,
      Field ''mux_word_size'' u8,
      Field ''slice_chunk_size'' u16,
      Field ''rc_bits'' u16,
      Field ''dsc_version_minor'' u8,
      Field ''dsc_version_major'' u8,
      Field ''native_422'' bool,
      Field ''native_420'' bool,
      Field ''second_line_bpg_offset'' u8,
      Field ''nsl_bpg_offset'' u16,
      Field ''second_line_offset_adj'' u16]"

definition struct_drm_dsc_picture_parameter_set :: cty where
  "struct_drm_dsc_picture_parameter_set = CStruct ''drm_dsc_picture_parameter_set'' True
     [Field ''dsc_version'' u8,
      Field ''pps_identifier'' u8,
      Field ''pps_reserved'' u8,
      Field ''pps_3'' u8,
      Field ''pps_4'' u8,
      Field ''bits_per_pixel_low'' u8,
      Field ''pic_height'' c__be16,
      Field ''pic_width'' c__be16,
      Field ''slice_height'' c__be16,
      Field ''slice_width'' c__be16,
      Field ''chunk_size'' c__be16,
      Field ''initial_xmit_delay_high'' u8,
      Field ''initial_xmit_delay_low'' u8,
      Field ''initial_dec_delay'' c__be16,
      Field ''pps20_reserved'' u8,
      Field ''initial_scale_value'' u8,
      Field ''scale_increment_interval'' c__be16,
      Field ''scale_decrement_interval_high'' u8,
      Field ''scale_decrement_interval_low'' u8,
      Field ''pps26_reserved'' u8,
      Field ''first_line_bpg_offset'' u8,
      Field ''nfl_bpg_offset'' c__be16,
      Field ''slice_bpg_offset'' c__be16,
      Field ''initial_offset'' c__be16,
      Field ''final_offset'' c__be16,
      Field ''flatness_min_qp'' u8,
      Field ''flatness_max_qp'' u8,
      Field ''rc_model_size'' c__be16,
      Field ''rc_edge_factor'' u8,
      Field ''rc_quant_incr_limit0'' u8,
      Field ''rc_quant_incr_limit1'' u8,
      Field ''rc_tgt_offset'' u8,
      Field ''rc_buf_thresh'' (CArr 14 u8),
      Field ''rc_range_parameters'' (CArr 15 c__be16),
      Field ''native_422_420'' u8,
      Field ''second_line_bpg_offset'' u8,
      Field ''nsl_bpg_offset'' c__be16,
      Field ''second_line_offset_adj'' c__be16,
      Field ''pps_long_94_reserved'' u32,
      Field ''pps_long_98_reserved'' u32,
      Field ''pps_long_102_reserved'' u32,
      Field ''pps_long_106_reserved'' u32,
      Field ''pps_long_110_reserved'' u32,
      Field ''pps_long_114_reserved'' u32,
      Field ''pps_long_118_reserved'' u32,
      Field ''pps_long_122_reserved'' u32,
      Field ''pps_short_126_reserved'' c__be16]"

definition struct_drm_fb_helper_surface_size :: cty where
  "struct_drm_fb_helper_surface_size = CStruct ''drm_fb_helper_surface_size'' False
     [Field ''fb_width'' u32,
      Field ''fb_height'' u32,
      Field ''surface_width'' u32,
      Field ''surface_height'' u32,
      Field ''surface_bpp'' u32,
      Field ''surface_depth'' u32]"

definition drm_flip_func_t :: cty where [layout_simps]:
  "drm_flip_func_t = CPtr ''void (struct drm_flip_work *, void *)''"

definition struct_drm_flip_work :: cty where
  "struct_drm_flip_work = CStruct ''drm_flip_work'' False
     [Field ''name'' (CPtr ''const char''),
      Field ''func'' drm_flip_func_t,
      Field ''worker'' struct_work_struct,
      Field ''queued'' struct_list_head,
      Field ''commited'' struct_list_head,
      Field ''lock'' spinlock_t]"

definition struct_drm_format_conv_state :: cty where
  "struct_drm_format_conv_state = CStruct ''drm_format_conv_state'' False
     [Field ''tmp'' (CStruct [] False
        [Field ''mem'' (CPtr ''void''),
         Field ''size'' size_t,
         Field ''preallocated'' bool])]"

definition struct_drm_format_modifier_blob :: cty where
  "struct_drm_format_modifier_blob = CStruct ''drm_format_modifier_blob'' False
     [Field ''version'' c__u32,
      Field ''flags'' c__u32,
      Field ''count_formats'' c__u32,
      Field ''formats_offset'' c__u32,
      Field ''count_modifiers'' c__u32,
      Field ''modifiers_offset'' c__u32]"

definition struct_drm_gem_shmem_object :: cty where
  "struct_drm_gem_shmem_object = CStruct ''drm_gem_shmem_object'' False
     [Field ''base'' struct_drm_gem_object,
      Field ''pages'' (CPtr ''struct page *''),
      Field ''pages_use_count'' refcount_t,
      Field ''pages_pin_count'' refcount_t,
      Field ''madv'' c_int,
      Field ''madv_list'' struct_list_head,
      Field ''sgt'' (CPtr ''struct sg_table''),
      Field ''vaddr'' (CPtr ''void''),
      Field ''vmap_use_count'' refcount_t,
      BitField ''pages_mark_dirty_on_put'' bool 1,
      BitField ''pages_mark_accessed_on_put'' bool 1,
      BitField ''map_wc'' bool 1]"

definition struct_drm_gpuva_op_map :: cty where
  "struct_drm_gpuva_op_map = CStruct ''drm_gpuva_op_map'' False
     [Field ''va'' (CStruct [] False
        [Field ''addr'' u64,
         Field ''range'' u64]),
      Field ''gem'' (CStruct [] False
        [Field ''offset'' u64,
         Field ''obj'' (CPtr ''struct drm_gem_object'')])]"

definition struct_drm_gpuva_op_remap :: cty where
  "struct_drm_gpuva_op_remap = CStruct ''drm_gpuva_op_remap'' False
     [Field ''prev'' (CPtr ''struct drm_gpuva_op_map''),
      Field ''next'' (CPtr ''struct drm_gpuva_op_map''),
      Field ''unmap'' (CPtr ''struct drm_gpuva_op_unmap'')]"

definition struct_drm_gpuva_op_unmap :: cty where
  "struct_drm_gpuva_op_unmap = CStruct ''drm_gpuva_op_unmap'' False
     [Field ''va'' (CPtr ''struct drm_gpuva''),
      Field ''keep'' bool]"

definition struct_drm_gpuva_op_prefetch :: cty where
  "struct_drm_gpuva_op_prefetch = CStruct ''drm_gpuva_op_prefetch'' False
     [Field ''va'' (CPtr ''struct drm_gpuva'')]"

definition struct_drm_gpuva_op :: cty where
  "struct_drm_gpuva_op = CStruct ''drm_gpuva_op'' False
     [Field ''entry'' struct_list_head,
      Field ''op'' enum_drm_gpuva_op_type,
      Field [] (CUnion [] False
        [Field ''map'' struct_drm_gpuva_op_map,
         Field ''remap'' struct_drm_gpuva_op_remap,
         Field ''unmap'' struct_drm_gpuva_op_unmap,
         Field ''prefetch'' struct_drm_gpuva_op_prefetch])]"

definition uint :: cty where [layout_simps]:
  "uint = unsigned_int"

definition enum_nbcon_prio :: cty where
  "enum_nbcon_prio = CEnum 4
     [(''NBCON_PRIO_NONE'', 0), (''NBCON_PRIO_NORMAL'', 1), (''NBCON_PRIO_EMERGENCY'', 2),
      (''NBCON_PRIO_PANIC'', 3), (''NBCON_PRIO_MAX'', 4)]"

definition struct_nbcon_context :: cty where
  "struct_nbcon_context = CStruct ''nbcon_context'' False
     [Field ''console'' (CPtr ''struct console''),
      Field ''spinwait_max_us'' unsigned_int,
      Field ''prio'' enum_nbcon_prio,
      BitField ''allow_unsafe_takeover'' unsigned_int 1,
      BitField ''backlog'' unsigned_int 1,
      Field ''pbufs'' (CPtr ''struct printk_buffers''),
      Field ''seq'' u64]"

definition struct_console :: cty where
  "struct_console = CStruct ''console'' False
     [Field ''name'' (CArr 16 c_char),
      Field ''write'' (CPtr ''void (struct console *, const char *, unsigned int)''),
      Field ''read'' (CPtr ''int (struct console *, char *, unsigned int)''),
      Field ''device'' (CPtr ''struct tty_driver * (struct console *, int *)''),
      Field ''unblank'' (CPtr ''void (void)''),
      Field ''setup'' (CPtr ''int (struct console *, char *)''),
      Field ''exit'' (CPtr ''int (struct console *)''),
      Field ''match'' (CPtr ''int (struct console *, char *, int, char *)''),
      Field ''flags'' short_int,
      Field ''index'' short_int,
      Field ''cflag'' c_int,
      Field ''ispeed'' uint,
      Field ''ospeed'' uint,
      Field ''seq'' u64,
      Field ''dropped'' long_unsigned_int,
      Field ''data'' (CPtr ''void''),
      Field ''node'' struct_hlist_node,
      Field ''write_atomic'' (CPtr ''void (struct console *, struct nbcon_write_context *)''),
      Field ''write_thread'' (CPtr ''void (struct console *, struct nbcon_write_context *)''),
      Field ''device_lock'' (CPtr ''void (struct console *, long unsigned int *)''),
      Field ''device_unlock'' (CPtr ''void (struct console *, long unsigned int)''),
      Field ''nbcon_state'' atomic_t,
      Field ''nbcon_seq'' atomic_long_t,
      Field ''nbcon_device_ctxt'' struct_nbcon_context,
      Field ''nbcon_prev_seq'' atomic_long_t,
      Field ''pbufs'' (CPtr ''struct printk_buffers''),
      Field ''kthread'' (CPtr ''struct task_struct''),
      Field ''rcuwait'' struct_rcuwait,
      Field ''irq_work'' struct_irq_work]"

definition struct_drm_log :: cty where
  "struct_drm_log = CStruct ''drm_log'' False
     [Field ''lock'' struct_mutex,
      Field ''client'' struct_drm_client_dev,
      Field ''con'' struct_console,
      Field ''probed'' bool,
      Field ''n_scanout'' u32,
      Field ''scanout'' (CPtr ''struct drm_log_scanout'')]"

definition struct_drm_log_scanout :: cty where
  "struct_drm_log_scanout = CStruct ''drm_log_scanout'' False
     [Field ''buffer'' (CPtr ''struct drm_client_buffer''),
      Field ''font'' (CPtr ''const struct font_desc''),
      Field ''rows'' u32,
      Field ''columns'' u32,
      Field ''scaled_font_h'' u32,
      Field ''scaled_font_w'' u32,
      Field ''line'' u32,
      Field ''format'' u32,
      Field ''px_width'' u32,
      Field ''front_color'' u32,
      Field ''prefix_color'' u32]"

definition struct_drm_memory_stats :: cty where
  "struct_drm_memory_stats = CStruct ''drm_memory_stats'' False
     [Field ''shared'' u64,
      Field ''private'' u64,
      Field ''resident'' u64,
      Field ''purgeable'' u64,
      Field ''active'' u64]"

definition struct_drm_mm_scan :: cty where
  "struct_drm_mm_scan = CStruct ''drm_mm_scan'' False
     [Field ''mm'' (CPtr ''struct drm_mm''),
      Field ''size'' u64,
      Field ''alignment'' u64,
      Field ''remainder_mask'' u64,
      Field ''range_start'' u64,
      Field ''range_end'' u64,
      Field ''hit_start'' u64,
      Field ''hit_end'' u64,
      Field ''color'' long_unsigned_int,
      Field ''mode'' enum_drm_mm_insert_mode]"

definition struct_drm_mode_atomic :: cty where
  "struct_drm_mode_atomic = CStruct ''drm_mode_atomic'' False
     [Field ''flags'' c__u32,
      Field ''count_objs'' c__u32,
      Field ''objs_ptr'' c__u64,
      Field ''count_props_ptr'' c__u64,
      Field ''props_ptr'' c__u64,
      Field ''prop_values_ptr'' c__u64,
      Field ''reserved'' c__u64,
      Field ''user_data'' c__u64]"

definition struct_drm_mode_card_res :: cty where
  "struct_drm_mode_card_res = CStruct ''drm_mode_card_res'' False
     [Field ''fb_id_ptr'' c__u64,
      Field ''crtc_id_ptr'' c__u64,
      Field ''connector_id_ptr'' c__u64,
      Field ''encoder_id_ptr'' c__u64,
      Field ''count_fbs'' c__u32,
      Field ''count_crtcs'' c__u32,
      Field ''count_connectors'' c__u32,
      Field ''count_encoders'' c__u32,
      Field ''min_width'' c__u32,
      Field ''max_width'' c__u32,
      Field ''min_height'' c__u32,
      Field ''max_height'' c__u32]"

definition struct_drm_mode_create_dumb :: cty where
  "struct_drm_mode_create_dumb = CStruct ''drm_mode_create_dumb'' False
     [Field ''height'' c__u32,
      Field ''width'' c__u32,
      Field ''bpp'' c__u32,
      Field ''flags'' c__u32,
      Field ''handle'' c__u32,
      Field ''pitch'' c__u32,
      Field ''size'' c__u64]"

definition struct_drm_mode_create_lease :: cty where
  "struct_drm_mode_create_lease = CStruct ''drm_mode_create_lease'' False
     [Field ''object_ids'' c__u64,
      Field ''object_count'' c__u32,
      Field ''flags'' c__u32,
      Field ''lessee_id'' c__u32,
      Field ''fd'' c__u32]"

definition struct_drm_mode_crtc :: cty where
  "struct_drm_mode_crtc = CStruct ''drm_mode_crtc'' False
     [Field ''set_connectors_ptr'' c__u64,
      Field ''count_connectors'' c__u32,
      Field ''crtc_id'' c__u32,
      Field ''fb_id'' c__u32,
      Field ''x'' c__u32,
      Field ''y'' c__u32,
      Field ''gamma_size'' c__u32,
      Field ''mode_valid'' c__u32,
      Field ''mode'' struct_drm_mode_modeinfo]"

definition struct_drm_mode_crtc_lut :: cty where
  "struct_drm_mode_crtc_lut = CStruct ''drm_mode_crtc_lut'' False
     [Field ''crtc_id'' c__u32,
      Field ''gamma_size'' c__u32,
      Field ''red'' c__u64,
      Field ''green'' c__u64,
      Field ''blue'' c__u64]"

definition struct_drm_mode_crtc_page_flip_target :: cty where
  "struct_drm_mode_crtc_page_flip_target = CStruct ''drm_mode_crtc_page_flip_target'' False
     [Field ''crtc_id'' c__u32,
      Field ''fb_id'' c__u32,
      Field ''flags'' c__u32,
      Field ''sequence'' c__u32,
      Field ''user_data'' c__u64]"

definition struct_drm_mode_cursor :: cty where
  "struct_drm_mode_cursor = CStruct ''drm_mode_cursor'' False
     [Field ''flags'' c__u32,
      Field ''crtc_id'' c__u32,
      Field ''x'' c__s32,
      Field ''y'' c__s32,
      Field ''width'' c__u32,
      Field ''height'' c__u32,
      Field ''handle'' c__u32]"

definition struct_drm_mode_cursor2 :: cty where
  "struct_drm_mode_cursor2 = CStruct ''drm_mode_cursor2'' False
     [Field ''flags'' c__u32,
      Field ''crtc_id'' c__u32,
      Field ''x'' c__s32,
      Field ''y'' c__s32,
      Field ''width'' c__u32,
      Field ''height'' c__u32,
      Field ''handle'' c__u32,
      Field ''hot_x'' c__s32,
      Field ''hot_y'' c__s32]"

definition struct_drm_mode_fb_cmd :: cty where
  "struct_drm_mode_fb_cmd = CStruct ''drm_mode_fb_cmd'' False
     [Field ''fb_id'' c__u32,
      Field ''width'' c__u32,
      Field ''height'' c__u32,
      Field ''pitch'' c__u32,
      Field ''bpp'' c__u32,
      Field ''depth'' c__u32,
      Field ''handle'' c__u32]"

definition struct_drm_mode_fb_cmd2 :: cty where
  "struct_drm_mode_fb_cmd2 = CStruct ''drm_mode_fb_cmd2'' False
     [Field ''fb_id'' c__u32,
      Field ''width'' c__u32,
      Field ''height'' c__u32,
      Field ''pixel_format'' c__u32,
      Field ''flags'' c__u32,
      Field ''handles'' (CArr 4 c__u32),
      Field ''pitches'' (CArr 4 c__u32),
      Field ''offsets'' (CArr 4 c__u32),
      Field ''modifier'' (CArr 4 c__u64)]"

definition struct_drm_mode_fb_cmd232 :: cty where
  "struct_drm_mode_fb_cmd232 = CStruct ''drm_mode_fb_cmd232'' True
     [Field ''fb_id'' u32,
      Field ''width'' u32,
      Field ''height'' u32,
      Field ''pixel_format'' u32,
      Field ''flags'' u32,
      Field ''handles'' (CArr 4 u32),
      Field ''pitches'' (CArr 4 u32),
      Field ''offsets'' (CArr 4 u32),
      Field ''modifier'' (CArr 4 u64)]"

definition struct_drm_mode_fb_dirty_cmd :: cty where
  "struct_drm_mode_fb_dirty_cmd = CStruct ''drm_mode_fb_dirty_cmd'' False
     [Field ''fb_id'' c__u32,
      Field ''flags'' c__u32,
      Field ''color'' c__u32,
      Field ''num_clips'' c__u32,
      Field ''clips_ptr'' c__u64]"

definition struct_drm_mode_get_connector :: cty where
  "struct_drm_mode_get_connector = CStruct ''drm_mode_get_connector'' False
     [Field ''encoders_ptr'' c__u64,
      Field ''modes_ptr'' c__u64,
      Field ''props_ptr'' c__u64,
      Field ''prop_values_ptr'' c__u64,
      Field ''count_modes'' c__u32,
      Field ''count_props'' c__u32,
      Field ''count_encoders'' c__u32,
      Field ''encoder_id'' c__u32,
      Field ''connector_id'' c__u32,
      Field ''connector_type'' c__u32,
      Field ''connector_type_id'' c__u32,
      Field ''connection'' c__u32,
      Field ''mm_width'' c__u32,
      Field ''mm_height'' c__u32,
      Field ''subpixel'' c__u32,
      Field ''pad'' c__u32]"

definition struct_drm_mode_get_encoder :: cty where
  "struct_drm_mode_get_encoder = CStruct ''drm_mode_get_encoder'' False
     [Field ''encoder_id'' c__u32,
      Field ''encoder_type'' c__u32,
      Field ''crtc_id'' c__u32,
      Field ''possible_crtcs'' c__u32,
      Field ''possible_clones'' c__u32]"

definition struct_drm_mode_get_plane :: cty where
  "struct_drm_mode_get_plane = CStruct ''drm_mode_get_plane'' False
     [Field ''plane_id'' c__u32,
      Field ''crtc_id'' c__u32,
      Field ''fb_id'' c__u32,
      Field ''possible_crtcs'' c__u32,
      Field ''gamma_size'' c__u32,
      Field ''count_format_types'' c__u32,
      Field ''format_type_ptr'' c__u64]"

definition struct_drm_mode_get_property :: cty where
  "struct_drm_mode_get_property = CStruct ''drm_mode_get_property'' False
     [Field ''values_ptr'' c__u64,
      Field ''enum_blob_ptr'' c__u64,
      Field ''prop_id'' c__u32,
      Field ''flags'' c__u32,
      Field ''name'' (CArr 32 c_char),
      Field ''count_values'' c__u32,
      Field ''count_enum_blobs'' c__u32]"

definition struct_drm_mode_obj_get_properties :: cty where
  "struct_drm_mode_obj_get_properties = CStruct ''drm_mode_obj_get_properties'' False
     [Field ''props_ptr'' c__u64,
      Field ''prop_values_ptr'' c__u64,
      Field ''count_props'' c__u32,
      Field ''obj_id'' c__u32,
      Field ''obj_type'' c__u32]"

definition struct_drm_mode_set_plane :: cty where
  "struct_drm_mode_set_plane = CStruct ''drm_mode_set_plane'' False
     [Field ''plane_id'' c__u32,
      Field ''crtc_id'' c__u32,
      Field ''fb_id'' c__u32,
      Field ''flags'' c__u32,
      Field ''crtc_x'' c__s32,
      Field ''crtc_y'' c__s32,
      Field ''crtc_w'' c__u32,
      Field ''crtc_h'' c__u32,
      Field ''src_x'' c__u32,
      Field ''src_y'' c__u32,
      Field ''src_h'' c__u32,
      Field ''src_w'' c__u32]"

definition struct_drm_named_mode :: cty where
  "struct_drm_named_mode = CStruct ''drm_named_mode'' False
     [Field ''name'' (CPtr ''const char''),
      Field ''pixel_clock_khz'' unsigned_int,
      Field ''xres'' unsigned_int,
      Field ''yres'' unsigned_int,
      Field ''flags'' unsigned_int,
      Field ''tv_mode'' unsigned_int]"

definition struct_drm_scanout_buffer :: cty where
  "struct_drm_scanout_buffer = CStruct ''drm_scanout_buffer'' False
     [Field ''format'' (CPtr ''const struct drm_format_info''),
      Field ''map'' (CArr 4 struct_iosys_map),
      Field ''pages'' (CPtr ''struct page *''),
      Field ''width'' unsigned_int,
      Field ''height'' unsigned_int,
      Field ''pitch'' (CArr 4 unsigned_int),
      Field ''set_pixel'' (CPtr ''void (struct drm_scanout_buffer *, unsigned int, unsigned int, u32)''),
      Field ''private'' (CPtr ''void'')]"

definition struct_drm_simple_display_pipe :: cty where
  "struct_drm_simple_display_pipe = CStruct ''drm_simple_display_pipe'' False
     [Field ''crtc'' struct_drm_crtc,
      Field ''plane'' struct_drm_plane,
      Field ''encoder'' struct_drm_encoder,
      Field ''connector'' (CPtr ''struct drm_connector''),
      Field ''funcs'' (CPtr ''const struct drm_simple_display_pipe_funcs'')]"

definition struct_drm_simple_display_pipe_funcs :: cty where
  "struct_drm_simple_display_pipe_funcs = CStruct ''drm_simple_display_pipe_funcs'' False
     [Field ''mode_valid'' (CPtr ''enum drm_mode_status (struct drm_simple_display_pipe *, const struct drm_display_mode *)''),
      Field ''enable'' (CPtr ''void (struct drm_simple_display_pipe *, struct drm_crtc_state *, struct drm_plane_state *)''),
      Field ''disable'' (CPtr ''void (struct drm_simple_display_pipe *)''),
      Field ''check'' (CPtr ''int (struct drm_simple_display_pipe *, struct drm_plane_state *, struct drm_crtc_state *)''),
      Field ''update'' (CPtr ''void (struct drm_simple_display_pipe *, struct drm_plane_state *)''),
      Field ''prepare_fb'' (CPtr ''int (struct drm_simple_display_pipe *, struct drm_plane_state *)''),
      Field ''cleanup_fb'' (CPtr ''void (struct drm_simple_display_pipe *, struct drm_plane_state *)''),
      Field ''begin_fb_access'' (CPtr ''int (struct drm_simple_display_pipe *, struct drm_plane_state *)''),
      Field ''end_fb_access'' (CPtr ''void (struct drm_simple_display_pipe *, struct drm_plane_state *)''),
      Field ''enable_vblank'' (CPtr ''int (struct drm_simple_display_pipe *)''),
      Field ''disable_vblank'' (CPtr ''void (struct drm_simple_display_pipe *)''),
      Field ''reset_crtc'' (CPtr ''void (struct drm_simple_display_pipe *)''),
      Field ''duplicate_crtc_state'' (CPtr ''struct drm_crtc_state * (struct drm_simple_display_pipe *)''),
      Field ''destroy_crtc_state'' (CPtr ''void (struct drm_simple_display_pipe *, struct drm_crtc_state *)''),
      Field ''reset_plane'' (CPtr ''void (struct drm_simple_display_pipe *)''),
      Field ''duplicate_plane_state'' (CPtr ''struct drm_plane_state * (struct drm_simple_display_pipe *)''),
      Field ''destroy_plane_state'' (CPtr ''void (struct drm_simple_display_pipe *, struct drm_plane_state *)'')]"

definition struct_drm_stats :: cty where
  "struct_drm_stats = CStruct ''drm_stats'' False
     [Field ''count'' long_unsigned_int,
      Field ''data'' (CArr 15 (CStruct [] False
        [Field ''value'' long_unsigned_int,
         Field ''type'' enum_drm_stat_type]))]"

definition struct_drm_stats32 :: cty where
  "struct_drm_stats32 = CStruct ''drm_stats32'' False
     [Field ''count'' u32,
      Field ''data'' (CArr 15 (CStruct [] False
        [Field ''value'' u32,
         Field ''type'' enum_drm_stat_type]))]"

definition struct_drm_syncobj_eventfd :: cty where
  "struct_drm_syncobj_eventfd = CStruct ''drm_syncobj_eventfd'' False
     [Field ''handle'' c__u32,
      Field ''flags'' c__u32,
      Field ''point'' c__u64,
      Field ''fd'' c__s32,
      Field ''pad'' c__u32]"

definition struct_drm_syncobj_handle :: cty where
  "struct_drm_syncobj_handle = CStruct ''drm_syncobj_handle'' False
     [Field ''handle'' c__u32,
      Field ''flags'' c__u32,
      Field ''fd'' c__s32,
      Field ''pad'' c__u32,
      Field ''point'' c__u64]"

definition struct_drm_syncobj_timeline_wait :: cty where
  "struct_drm_syncobj_timeline_wait = CStruct ''drm_syncobj_timeline_wait'' False
     [Field ''handles'' c__u64,
      Field ''points'' c__u64,
      Field ''timeout_nsec'' c__s64,
      Field ''count_handles'' c__u32,
      Field ''flags'' c__u32,
      Field ''first_signaled'' c__u32,
      Field ''pad'' c__u32,
      Field ''deadline_nsec'' c__u64]"

definition struct_drm_syncobj_transfer :: cty where
  "struct_drm_syncobj_transfer = CStruct ''drm_syncobj_transfer'' False
     [Field ''src_handle'' c__u32,
      Field ''dst_handle'' c__u32,
      Field ''src_point'' c__u64,
      Field ''dst_point'' c__u64,
      Field ''flags'' c__u32,
      Field ''pad'' c__u32]"

definition struct_drm_syncobj_wait :: cty where
  "struct_drm_syncobj_wait = CStruct ''drm_syncobj_wait'' False
     [Field ''handles'' c__u64,
      Field ''timeout_nsec'' c__s64,
      Field ''count_handles'' c__u32,
      Field ''flags'' c__u32,
      Field ''first_signaled'' c__u32,
      Field ''pad'' c__u32,
      Field ''deadline_nsec'' c__u64]"

definition struct_drm_sysfb_device :: cty where
  "struct_drm_sysfb_device = CStruct ''drm_sysfb_device'' False
     [Field ''dev'' struct_drm_device,
      Field ''edid'' (CPtr ''const u8''),
      Field ''fb_mode'' struct_drm_display_mode,
      Field ''fb_format'' (CPtr ''const struct drm_format_info''),
      Field ''fb_pitch'' unsigned_int,
      Field ''fb_gamma_lut_size'' unsigned_int,
      Field ''fb_addr'' struct_iosys_map]"

definition struct_drm_vblank_work :: cty where
  "struct_drm_vblank_work = CStruct ''drm_vblank_work'' False
     [Field ''base'' struct_kthread_work,
      Field ''vblank'' (CPtr ''struct drm_vblank_crtc''),
      Field ''count'' u64,
      Field ''cancelling'' c_int,
      Field ''node'' struct_list_head]"

definition struct_drm_version :: cty where
  "struct_drm_version = CStruct ''drm_version'' False
     [Field ''version_major'' c_int,
      Field ''version_minor'' c_int,
      Field ''version_patchlevel'' c_int,
      Field ''name_len'' c__kernel_size_t,
      Field ''name'' (CPtr ''char''),
      Field ''date_len'' c__kernel_size_t,
      Field ''date'' (CPtr ''char''),
      Field ''desc_len'' c__kernel_size_t,
      Field ''desc'' (CPtr ''char'')]"

definition struct_drm_version_32 :: cty where
  "struct_drm_version_32 = CStruct ''drm_version_32'' False
     [Field ''version_major'' c_int,
      Field ''version_minor'' c_int,
      Field ''version_patchlevel'' c_int,
      Field ''name_len'' u32,
      Field ''name'' u32,
      Field ''date_len'' u32,
      Field ''date'' u32,
      Field ''desc_len'' u32,
      Field ''desc'' u32]"

definition struct_ifaddrmsg :: cty where
  "struct_ifaddrmsg = CStruct ''ifaddrmsg'' False
     [Field ''ifa_family'' c__u8,
      Field ''ifa_prefixlen'' c__u8,
      Field ''ifa_flags'' c__u8,
      Field ''ifa_scope'' c__u8,
      Field ''ifa_index'' c__u32]"

definition struct_intel_community :: cty where
  "struct_intel_community = CStruct ''intel_community'' False
     [Field ''barno'' unsigned_int,
      Field ''padown_offset'' unsigned_int,
      Field ''padcfglock_offset'' unsigned_int,
      Field ''hostown_offset'' unsigned_int,
      Field ''is_offset'' unsigned_int,
      Field ''ie_offset'' unsigned_int,
      Field ''features'' unsigned_int,
      Field ''pin_base'' unsigned_int,
      Field ''npins'' size_t,
      Field ''gpp_size'' unsigned_int,
      Field ''gpp_num_padown_regs'' unsigned_int,
      Field ''gpps'' (CPtr ''const struct intel_padgroup''),
      Field ''ngpps'' size_t,
      Field ''pad_map'' (CPtr ''const unsigned int''),
      Field ''nirqs'' short_unsigned_int,
      Field ''acpi_space_id'' short_unsigned_int,
      Field ''regs'' (CPtr ''void''),
      Field ''pad_regs'' (CPtr ''void'')]"

definition enum_intel_excl_state_type :: cty where
  "enum_intel_excl_state_type = CEnum 4
     [(''INTEL_EXCL_UNUSED'', 0), (''INTEL_EXCL_SHARED'', 1), (''INTEL_EXCL_EXCLUSIVE'', 2)]"

definition struct_intel_excl_states :: cty where
  "struct_intel_excl_states = CStruct ''intel_excl_states'' False
     [Field ''state'' (CArr 64 enum_intel_excl_state_type),
      Field ''sched_started'' bool]"

definition struct_intel_excl_cntrs :: cty where
  "struct_intel_excl_cntrs = CStruct ''intel_excl_cntrs'' False
     [Field ''lock'' raw_spinlock_t,
      Field ''states'' (CArr 2 struct_intel_excl_states),
      Field [] (CUnion [] False
        [Field ''has_exclusive'' (CArr 2 u16),
         Field ''exclusive_present'' u32]),
      Field ''refcnt'' c_int,
      Field ''core_id'' unsigned_int]"

definition struct_intel_gtt_driver :: cty where
  "struct_intel_gtt_driver = CStruct ''intel_gtt_driver'' False
     [BitField ''gen'' unsigned_int 8,
      BitField ''is_g33'' unsigned_int 1,
      BitField ''is_pineview'' unsigned_int 1,
      BitField ''is_ironlake'' unsigned_int 1,
      BitField ''has_pgtbl_enable'' unsigned_int 1,
      BitField ''dma_mask_size'' unsigned_int 8,
      Field ''setup'' (CPtr ''int (void)''),
      Field ''cleanup'' (CPtr ''void (void)''),
      Field ''write_entry'' (CPtr ''void (dma_addr_t, unsigned int, unsigned int)''),
      Field ''read_entry'' (CPtr ''dma_addr_t (unsigned int, bool *, bool *)''),
      Field ''check_flags'' (CPtr ''bool (unsigned int)''),
      Field ''chipset_flush'' (CPtr ''void (void)'')]"

definition struct_iommu_flush :: cty where
  "struct_iommu_flush = CStruct ''iommu_flush'' False
     [Field ''flush_context'' (CPtr ''void (struct intel_iommu *, u16, u16, u8, u64)''),
      Field ''flush_iotlb'' (CPtr ''void (struct intel_iommu *, u16, u64, unsigned int, u64)'')]"

definition struct_intel_iommu :: cty where
  "struct_intel_iommu = CStruct ''intel_iommu'' False
     [Field ''reg'' (CPtr ''void''),
      Field ''reg_phys'' u64,
      Field ''reg_size'' u64,
      Field ''cap'' u64,
      Field ''ecap'' u64,
      Field ''vccap'' u64,
      Field ''ecmdcap'' (CArr 4 u64),
      Field ''gcmd'' u32,
      Field ''register_lock'' raw_spinlock_t,
      Field ''seq_id'' c_int,
      Field ''agaw'' c_int,
      Field ''msagaw'' c_int,
      Field ''irq'' unsigned_int,
      Field ''pr_irq'' unsigned_int,
      Field ''perf_irq'' unsigned_int,
      Field ''segment'' u16,
      Field ''name'' (CArr 16 unsigned_char),
      Field ''did_lock'' struct_mutex,
      Field ''domain_ida'' struct_ida,
      Field ''copied_tables'' (CPtr ''long unsigned int''),
      Field ''lock'' spinlock_t,
      Field ''root_entry'' (CPtr ''struct root_entry''),
      Field ''flush'' struct_iommu_flush,
      Field ''prq'' (CPtr ''struct page_req_dsc''),
      Field ''prq_name'' (CArr 16 unsigned_char),
      Field ''prq_seq_number'' long_unsigned_int,
      Field ''prq_complete'' struct_completion,
      Field ''iopf_queue'' (CPtr ''struct iopf_queue''),
      Field ''iopfq_name'' (CArr 16 unsigned_char),
      Field ''iopf_lock'' struct_mutex,
      Field ''qi'' (CPtr ''struct q_inval''),
      Field ''iommu_state'' (CArr 4 u32),
      Field ''device_rbtree'' struct_rb_root,
      Field ''device_rbtree_lock'' spinlock_t,
      Field ''ir_table'' (CPtr ''struct ir_table''),
      Field ''ir_domain'' (CPtr ''struct irq_domain''),
      Field ''iommu'' struct_iommu_device,
      Field ''node'' c_int,
      Field ''flags'' u32,
      Field ''drhd'' (CPtr ''struct dmar_drhd_unit''),
      Field ''perf_statistic'' (CPtr ''void''),
      Field ''pmu'' (CPtr ''struct iommu_pmu'')]"

definition struct_irq_2_iommu :: cty where
  "struct_irq_2_iommu = CStruct ''irq_2_iommu'' False
     [Field ''iommu'' (CPtr ''struct intel_iommu''),
      Field ''irte_index'' u16,
      Field ''sub_handle'' u16,
      Field ''irte_mask'' u8,
      Field ''posted_msi'' bool,
      Field ''posted_vcpu'' bool]"

definition c__u128 :: cty where [layout_simps]:
  "c__u128 = c__int128_unsigned"

definition struct_irte :: cty where
  "struct_irte = CStruct ''irte'' False
     [Field [] (CUnion [] False
        [Field [] (CStruct [] False
           [Field [] (CUnion [] False
              [Field [] (CStruct [] False
                 [BitField ''present'' c__u64 1,
                  BitField ''fpd'' c__u64 1,
                  BitField ''__res0'' c__u64 6,
                  BitField ''avail'' c__u64 4,
                  BitField ''__res1'' c__u64 3,
                  BitField ''pst'' c__u64 1,
                  BitField ''vector'' c__u64 8,
                  BitField ''__res2'' c__u64 40]),
               Field [] (CStruct [] False
                 [BitField ''r_present'' c__u64 1,
                  BitField ''r_fpd'' c__u64 1,
                  BitField ''dst_mode'' c__u64 1,
                  BitField ''redir_hint'' c__u64 1,
                  BitField ''trigger_mode'' c__u64 1,
                  BitField ''dlvry_mode'' c__u64 3,
                  BitField ''r_avail'' c__u64 4,
                  BitField ''r_res0'' c__u64 4,
                  BitField ''r_vector'' c__u64 8,
                  BitField ''r_res1'' c__u64 8,
                  BitField ''dest_id'' c__u64 32]),
               Field [] (CStruct [] False
                 [BitField ''p_present'' c__u64 1,
                  BitField ''p_fpd'' c__u64 1,
                  BitField ''p_res0'' c__u64 6,
                  BitField ''p_avail'' c__u64 4,
                  BitField ''p_res1'' c__u64 2,
                  BitField ''p_urgent'' c__u64 1,
                  BitField ''p_pst'' c__u64 1,
                  BitField ''p_vector'' c__u64 8,
                  BitField ''p_res2'' c__u64 14,
                  BitField ''pda_l'' c__u64 26]),
               Field ''low'' c__u64]),
            Field [] (CUnion [] False
              [Field [] (CStruct [] False
                 [BitField ''sid'' c__u64 16,
                  BitField ''sq'' c__u64 2,
                  BitField ''svt'' c__u64 2,
                  BitField ''__res3'' c__u64 44]),
               Field [] (CStruct [] False
                 [BitField ''p_sid'' c__u64 16,
                  BitField ''p_sq'' c__u64 2,
                  BitField ''p_svt'' c__u64 2,
                  BitField ''p_res3'' c__u64 12,
                  BitField ''pda_h'' c__u64 32]),
               Field ''high'' c__u64])]),
         Field ''irte'' c__u128])]"

definition struct_intel_ir_data :: cty where
  "struct_intel_ir_data = CStruct ''intel_ir_data'' False
     [Field ''irq_2_iommu'' struct_irq_2_iommu,
      Field ''irte_entry'' struct_irte,
      Field [] (CUnion [] False
        [Field ''msi_entry'' struct_msi_msg])]"

definition struct_intel_padgroup :: cty where
  "struct_intel_padgroup = CStruct ''intel_padgroup'' False
     [Field ''reg_num'' unsigned_int,
      Field ''base'' unsigned_int,
      Field ''size'' unsigned_int,
      Field ''gpio_base'' c_int,
      Field ''padown_num'' unsigned_int]"

definition struct_pinctrl_desc :: cty where
  "struct_pinctrl_desc = CStruct ''pinctrl_desc'' False
     [Field ''name'' (CPtr ''const char''),
      Field ''pins'' (CPtr ''const struct pinctrl_pin_desc''),
      Field ''npins'' unsigned_int,
      Field ''pctlops'' (CPtr ''const struct pinctrl_ops''),
      Field ''pmxops'' (CPtr ''const struct pinmux_ops''),
      Field ''confops'' (CPtr ''const struct pinconf_ops''),
      Field ''owner'' (CPtr ''struct module''),
      Field ''num_custom_params'' unsigned_int,
      Field ''custom_params'' (CPtr ''const struct pinconf_generic_params''),
      Field ''custom_conf_items'' (CPtr ''const struct pin_config_item''),
      Field ''link_consumers'' bool]"

definition struct_intel_pinctrl_context :: cty where
  "struct_intel_pinctrl_context = CStruct ''intel_pinctrl_context'' False
     [Field ''pads'' (CPtr ''struct intel_pad_context''),
      Field ''communities'' (CPtr ''struct intel_community_context'')]"

definition struct_intel_pinctrl :: cty where
  "struct_intel_pinctrl = CStruct ''intel_pinctrl'' False
     [Field ''dev'' (CPtr ''struct device''),
      Field ''lock'' raw_spinlock_t,
      Field ''pctldesc'' struct_pinctrl_desc,
      Field ''pctldev'' (CPtr ''struct pinctrl_dev''),
      Field ''chip'' struct_gpio_chip,
      Field ''soc'' (CPtr ''const struct intel_pinctrl_soc_data''),
      Field ''communities'' (CPtr ''struct intel_community''),
      Field ''ncommunities'' size_t,
      Field ''context'' struct_intel_pinctrl_context,
      Field ''irq'' c_int]"

definition struct_intel_pinctrl_context___2 :: cty where
  "struct_intel_pinctrl_context___2 = CStruct ''intel_pinctrl_context___2'' False
     [Field ''pads'' (CPtr ''struct intel_pad_context___2''),
      Field ''communities'' (CPtr ''struct intel_community_context___2'')]"

definition struct_intel_pinctrl___2 :: cty where
  "struct_intel_pinctrl___2 = CStruct ''intel_pinctrl___2'' False
     [Field ''dev'' (CPtr ''struct device''),
      Field ''lock'' raw_spinlock_t,
      Field ''pctldesc'' struct_pinctrl_desc,
      Field ''pctldev'' (CPtr ''struct pinctrl_dev''),
      Field ''chip'' struct_gpio_chip,
      Field ''soc'' (CPtr ''const struct intel_pinctrl_soc_data''),
      Field ''communities'' (CPtr ''struct intel_community''),
      Field ''ncommunities'' size_t,
      Field ''context'' struct_intel_pinctrl_context___2,
      Field ''irq'' c_int]"

definition struct_intel_pinctrl_context___3 :: cty where
  "struct_intel_pinctrl_context___3 = CStruct ''intel_pinctrl_context___3'' False
     [Field ''pads'' (CPtr ''struct intel_pad_context___3''),
      Field ''communities'' (CPtr ''struct intel_community_context'')]"

definition struct_intel_pinctrl___3 :: cty where
  "struct_intel_pinctrl___3 = CStruct ''intel_pinctrl___3'' False
     [Field ''dev'' (CPtr ''struct device''),
      Field ''lock'' raw_spinlock_t,
      Field ''pctldesc'' struct_pinctrl_desc,
      Field ''pctldev'' (CPtr ''struct pinctrl_dev''),
      Field ''chip'' struct_gpio_chip,
      Field ''soc'' (CPtr ''const struct intel_pinctrl_soc_data''),
      Field ''communities'' (CPtr ''struct intel_community''),
      Field ''ncommunities'' size_t,
      Field ''context'' struct_intel_pinctrl_context___3,
      Field ''irq'' c_int]"

definition struct_intel_pinctrl_soc_data :: cty where
  "struct_intel_pinctrl_soc_data = CStruct ''intel_pinctrl_soc_data'' False
     [Field ''uid'' (CPtr ''const char''),
      Field ''pins'' (CPtr ''const struct pinctrl_pin_desc''),
      Field ''npins'' size_t,
      Field ''groups'' (CPtr ''const struct intel_pingroup''),
      Field ''ngroups'' size_t,
      Field ''functions'' (CPtr ''const struct intel_function''),
      Field ''nfunctions'' size_t,
      Field ''communities'' (CPtr ''const struct intel_community''),
      Field ''ncommunities'' size_t]"

definition struct_intel_pmic_regs_handler_ctx :: cty where
  "struct_intel_pmic_regs_handler_ctx = CStruct ''intel_pmic_regs_handler_ctx'' False
     [Field ''val'' unsigned_int,
      Field ''addr'' u16]"

definition struct_intel_pmic_opregion :: cty where
  "struct_intel_pmic_opregion = CStruct ''intel_pmic_opregion'' False
     [Field ''lock'' struct_mutex,
      Field ''lpat_table'' (CPtr ''struct acpi_lpat_conversion_table''),
      Field ''regmap'' (CPtr ''struct regmap''),
      Field ''data'' (CPtr ''const struct intel_pmic_opregion_data''),
      Field ''ctx'' struct_intel_pmic_regs_handler_ctx]"

definition struct_intel_pmic_opregion_data :: cty where
  "struct_intel_pmic_opregion_data = CStruct ''intel_pmic_opregion_data'' False
     [Field ''get_power'' (CPtr ''int (struct regmap *, int, int, u64 *)''),
      Field ''update_power'' (CPtr ''int (struct regmap *, int, int, bool)''),
      Field ''get_raw_temp'' (CPtr ''int (struct regmap *, int)''),
      Field ''update_aux'' (CPtr ''int (struct regmap *, int, int)''),
      Field ''get_policy'' (CPtr ''int (struct regmap *, int, int, u64 *)''),
      Field ''update_policy'' (CPtr ''int (struct regmap *, int, int, int)''),
      Field ''exec_mipi_pmic_seq_element'' (CPtr ''int (struct regmap *, u16, u32, u32, u32)''),
      Field ''lpat_raw_to_temp'' (CPtr ''int (struct acpi_lpat_conversion_table *, int)''),
      Field ''power_table'' (CPtr ''const struct pmic_table''),
      Field ''power_table_count'' c_int,
      Field ''thermal_table'' (CPtr ''const struct pmic_table''),
      Field ''thermal_table_count'' c_int,
      Field ''pmic_i2c_address'' c_int]"

definition struct_intel_scu_ipc_data :: cty where
  "struct_intel_scu_ipc_data = CStruct ''intel_scu_ipc_data'' False
     [Field ''mem'' struct_resource,
      Field ''irq'' c_int]"

definition struct_intel_scu_ipc_dev :: cty where
  "struct_intel_scu_ipc_dev = CStruct ''intel_scu_ipc_dev'' False
     [Field ''dev'' struct_device,
      Field ''owner'' (CPtr ''struct module''),
      Field ''ipc_base'' (CPtr ''void''),
      Field ''cmd_complete'' struct_completion,
      Field ''data'' struct_intel_scu_ipc_data]"

definition struct_intel_soc_pmic :: cty where
  "struct_intel_soc_pmic = CStruct ''intel_soc_pmic'' False
     [Field ''irq'' c_int,
      Field ''regmap'' (CPtr ''struct regmap''),
      Field ''irq_chip_data'' (CPtr ''struct regmap_irq_chip_data''),
      Field ''irq_chip_data_pwrbtn'' (CPtr ''struct regmap_irq_chip_data''),
      Field ''irq_chip_data_tmu'' (CPtr ''struct regmap_irq_chip_data''),
      Field ''irq_chip_data_bcu'' (CPtr ''struct regmap_irq_chip_data''),
      Field ''irq_chip_data_adc'' (CPtr ''struct regmap_irq_chip_data''),
      Field ''irq_chip_data_chgr'' (CPtr ''struct regmap_irq_chip_data''),
      Field ''irq_chip_data_crit'' (CPtr ''struct regmap_irq_chip_data''),
      Field ''dev'' (CPtr ''struct device''),
      Field ''scu'' (CPtr ''struct intel_scu_ipc_dev''),
      Field ''cht_wc_model'' enum_intel_cht_wc_models]"

definition struct_intel_uncore_extra_reg :: cty where
  "struct_intel_uncore_extra_reg = CStruct ''intel_uncore_extra_reg'' False
     [Field ''lock'' raw_spinlock_t,
      Field ''config'' u64,
      Field ''config1'' u64,
      Field ''config2'' u64,
      Field ''ref'' atomic_t]"

definition struct_intel_uncore_box :: cty where
  "struct_intel_uncore_box = CStruct ''intel_uncore_box'' False
     [Field ''dieid'' c_int,
      Field ''n_active'' c_int,
      Field ''n_events'' c_int,
      Field ''cpu'' c_int,
      Field ''flags'' long_unsigned_int,
      Field ''refcnt'' atomic_t,
      Field ''events'' (CArr 10 (CPtr ''struct perf_event'')),
      Field ''event_list'' (CArr 10 (CPtr ''struct perf_event'')),
      Field ''event_constraint'' (CArr 10 (CPtr ''struct event_constraint'')),
      Field ''active_mask'' (CArr 1 long_unsigned_int),
      Field ''tags'' (CArr 10 u64),
      Field ''pci_dev'' (CPtr ''struct pci_dev''),
      Field ''pmu'' (CPtr ''struct intel_uncore_pmu''),
      Field ''hrtimer_duration'' u64,
      Field ''hrtimer'' struct_hrtimer,
      Field ''list'' struct_list_head,
      Field ''active_list'' struct_list_head,
      Field ''io_addr'' (CPtr ''void''),
      Field ''shared_regs'' (CArr 0 struct_intel_uncore_extra_reg)]"

definition enum_uncore_access_type :: cty where
  "enum_uncore_access_type = CEnum 4
     [(''UNCORE_ACCESS_MSR'', 0), (''UNCORE_ACCESS_MMIO'', 1), (''UNCORE_ACCESS_PCI'', 2),
      (''UNCORE_ACCESS_MAX'', 3)]"

definition struct_intel_uncore_discovery_type :: cty where
  "struct_intel_uncore_discovery_type = CStruct ''intel_uncore_discovery_type'' False
     [Field ''node'' struct_rb_node,
      Field ''access_type'' enum_uncore_access_type,
      Field ''units'' struct_rb_root,
      Field ''type'' u16,
      Field ''num_counters'' u8,
      Field ''counter_width'' u8,
      Field ''ctl_offset'' u8,
      Field ''ctr_offset'' u8,
      Field ''num_units'' u16]"

definition struct_intel_uncore_discovery_unit :: cty where
  "struct_intel_uncore_discovery_unit = CStruct ''intel_uncore_discovery_unit'' False
     [Field ''node'' struct_rb_node,
      Field ''pmu_idx'' unsigned_int,
      Field ''id'' unsigned_int,
      Field ''die'' unsigned_int,
      Field ''addr'' u64]"

definition struct_intel_uncore_ops :: cty where
  "struct_intel_uncore_ops = CStruct ''intel_uncore_ops'' False
     [Field ''init_box'' (CPtr ''void (struct intel_uncore_box *)''),
      Field ''exit_box'' (CPtr ''void (struct intel_uncore_box *)''),
      Field ''disable_box'' (CPtr ''void (struct intel_uncore_box *)''),
      Field ''enable_box'' (CPtr ''void (struct intel_uncore_box *)''),
      Field ''disable_event'' (CPtr ''void (struct intel_uncore_box *, struct perf_event *)''),
      Field ''enable_event'' (CPtr ''void (struct intel_uncore_box *, struct perf_event *)''),
      Field ''read_counter'' (CPtr ''u64 (struct intel_uncore_box *, struct perf_event *)''),
      Field ''hw_config'' (CPtr ''int (struct intel_uncore_box *, struct perf_event *)''),
      Field ''get_constraint'' (CPtr ''struct event_constraint * (struct intel_uncore_box *, struct perf_event *)''),
      Field ''put_constraint'' (CPtr ''void (struct intel_uncore_box *, struct perf_event *)'')]"

definition struct_intel_uncore_pmu :: cty where
  "struct_intel_uncore_pmu = CStruct ''intel_uncore_pmu'' False
     [Field ''pmu'' struct_pmu,
      Field ''name'' (CArr 32 c_char),
      Field ''pmu_idx'' c_int,
      Field ''registered'' bool,
      Field ''activeboxes'' atomic_t,
      Field ''cpu_mask'' cpumask_t,
      Field ''type'' (CPtr ''struct intel_uncore_type''),
      Field ''boxes'' (CPtr ''struct intel_uncore_box *'')]"

definition struct_intel_uncore_topology :: cty where
  "struct_intel_uncore_topology = CStruct ''intel_uncore_topology'' False
     [Field ''pmu_idx'' c_int,
      Field [] (CUnion [] False
        [Field ''untyped'' (CPtr ''void''),
         Field ''iio'' (CPtr ''struct uncore_iio_topology''),
         Field ''upi'' (CPtr ''struct uncore_upi_topology'')])]"

definition struct_event_constraint :: cty where
  "struct_event_constraint = CStruct ''event_constraint'' False
     [Field [] (CUnion [] False
        [Field ''idxmsk'' (CArr 1 long_unsigned_int),
         Field ''idxmsk64'' u64]),
      Field ''code'' u64,
      Field ''cmask'' u64,
      Field ''weight'' c_int,
      Field ''overlap'' c_int,
      Field ''flags'' c_int,
      Field ''size'' unsigned_int]"

definition struct_intel_uncore_type :: cty where
  "struct_intel_uncore_type = CStruct ''intel_uncore_type'' False
     [Field ''name'' (CPtr ''const char''),
      Field ''num_counters'' c_int,
      Field ''num_boxes'' c_int,
      Field ''perf_ctr_bits'' c_int,
      Field ''fixed_ctr_bits'' c_int,
      Field ''num_freerunning_types'' c_int,
      Field ''type_id'' c_int,
      Field ''perf_ctr'' unsigned_int,
      Field ''event_ctl'' unsigned_int,
      Field ''event_mask'' unsigned_int,
      Field ''event_mask_ext'' unsigned_int,
      Field ''fixed_ctr'' unsigned_int,
      Field ''fixed_ctl'' unsigned_int,
      Field ''box_ctl'' unsigned_int,
      Field [] (CUnion [] False
        [Field ''msr_offset'' unsigned_int,
         Field ''mmio_offset'' unsigned_int]),
      Field ''mmio_map_size'' unsigned_int,
      BitField ''num_shared_regs'' unsigned_int 8,
      BitField ''single_fixed'' unsigned_int 1,
      BitField ''pair_ctr_ctl'' unsigned_int 1,
      Field [] (CUnion [] False
        [Field ''msr_offsets'' (CPtr ''u64''),
         Field ''pci_offsets'' (CPtr ''u64''),
         Field ''mmio_offsets'' (CPtr ''u64'')]),
      Field ''unconstrainted'' struct_event_constraint,
      Field ''constraints'' (CPtr ''struct event_constraint''),
      Field ''pmus'' (CPtr ''struct intel_uncore_pmu''),
      Field ''ops'' (CPtr ''struct intel_uncore_ops''),
      Field ''event_descs'' (CPtr ''struct uncore_event_desc''),
      Field ''freerunning'' (CPtr ''struct freerunning_counters''),
      Field ''attr_groups'' (CArr 4 (CPtr ''const struct attribute_group'')),
      Field ''attr_update'' (CPtr ''const struct attribute_group *''),
      Field ''pmu'' (CPtr ''struct pmu''),
      Field ''boxes'' (CPtr ''struct rb_root''),
      Field ''topology'' (CPtr ''struct intel_uncore_topology *''),
      Field ''get_topology'' (CPtr ''int (struct intel_uncore_type *)''),
      Field ''set_mapping'' (CPtr ''void (struct intel_uncore_type *)''),
      Field ''cleanup_mapping'' (CPtr ''void (struct intel_uncore_type *)''),
      Field ''cleanup_extra_boxes'' (CPtr ''void (struct intel_uncore_type *)'')]"

definition union_intel_x86_pebs_dse :: cty where
  "union_intel_x86_pebs_dse = CUnion ''intel_x86_pebs_dse'' False
     [Field ''val'' u64,
      Field [] (CStruct [] False
        [BitField ''ld_dse'' unsigned_int 4,
         BitField ''ld_stlb_miss'' unsigned_int 1,
         BitField ''ld_locked'' unsigned_int 1,
         BitField ''ld_data_blk'' unsigned_int 1,
         BitField ''ld_addr_blk'' unsigned_int 1,
         BitField ''ld_reserved'' unsigned_int 24]),
      Field [] (CStruct [] False
        [BitField ''st_l1d_hit'' unsigned_int 1,
         BitField ''st_reserved1'' unsigned_int 3,
         BitField ''st_stlb_miss'' unsigned_int 1,
         BitField ''st_locked'' unsigned_int 1,
         BitField ''st_reserved2'' unsigned_int 26]),
      Field [] (CStruct [] False
        [BitField ''st_lat_dse'' unsigned_int 4,
         BitField ''st_lat_stlb_miss'' unsigned_int 1,
         BitField ''st_lat_locked'' unsigned_int 1,
         BitField ''ld_reserved3'' unsigned_int 26]),
      Field [] (CStruct [] False
        [BitField ''mtl_dse'' unsigned_int 5,
         BitField ''mtl_locked'' unsigned_int 1,
         BitField ''mtl_stlb_miss'' unsigned_int 1,
         BitField ''mtl_fwd_blk'' unsigned_int 1,
         BitField ''ld_reserved4'' unsigned_int 24]),
      Field [] (CStruct [] False
        [BitField ''lnc_dse'' unsigned_int 8,
         BitField ''ld_reserved5'' unsigned_int 2,
         BitField ''lnc_stlb_miss'' unsigned_int 1,
         BitField ''lnc_locked'' unsigned_int 1,
         BitField ''lnc_data_blk'' unsigned_int 1,
         BitField ''lnc_addr_blk'' unsigned_int 1,
         BitField ''ld_reserved6'' unsigned_int 18]),
      Field [] (CStruct [] False
        [BitField ''pnc_dse'' unsigned_int 8,
         BitField ''pnc_l2_miss'' unsigned_int 1,
         BitField ''pnc_stlb_clean_hit'' unsigned_int 1,
         BitField ''pnc_stlb_any_hit'' unsigned_int 1,
         BitField ''pnc_stlb_miss'' unsigned_int 1,
         BitField ''pnc_locked'' unsigned_int 1,
         BitField ''pnc_data_blk'' unsigned_int 1,
         BitField ''pnc_addr_blk'' unsigned_int 1,
         BitField ''pnc_fb_full'' unsigned_int 1,
         BitField ''ld_reserved8'' unsigned_int 16]),
      Field [] (CStruct [] False
        [BitField ''arw_dse'' unsigned_int 8,
         BitField ''arw_l2_miss'' unsigned_int 1,
         BitField ''arw_xq_promotion'' unsigned_int 1,
         BitField ''arw_reissue'' unsigned_int 1,
         BitField ''arw_stlb_miss'' unsigned_int 1,
         BitField ''arw_locked'' unsigned_int 1,
         BitField ''arw_data_blk'' unsigned_int 1,
         BitField ''arw_addr_blk'' unsigned_int 1,
         BitField ''arw_fb_full'' unsigned_int 1,
         BitField ''ld_reserved9'' unsigned_int 16])]"

definition struct_microcode_header_intel :: cty where
  "struct_microcode_header_intel = CStruct ''microcode_header_intel'' False
     [Field ''hdrver'' unsigned_int,
      Field ''rev'' unsigned_int,
      Field ''date'' unsigned_int,
      Field ''sig'' unsigned_int,
      Field ''cksum'' unsigned_int,
      Field ''ldrver'' unsigned_int,
      Field ''pf'' unsigned_int,
      Field ''datasize'' unsigned_int,
      Field ''totalsize'' unsigned_int,
      Field ''metasize'' unsigned_int,
      Field ''min_req_ver'' unsigned_int,
      Field ''reserved'' unsigned_int]"

definition struct_mpf_intel :: cty where
  "struct_mpf_intel = CStruct ''mpf_intel'' False
     [Field ''signature'' (CArr 4 c_char),
      Field ''physptr'' unsigned_int,
      Field ''length'' unsigned_char,
      Field ''specification'' unsigned_char,
      Field ''checksum'' unsigned_char,
      Field ''feature1'' unsigned_char,
      Field ''feature2'' unsigned_char,
      Field ''feature3'' unsigned_char,
      Field ''feature4'' unsigned_char,
      Field ''feature5'' unsigned_char]"

definition struct_simpledrm_device :: cty where
  "struct_simpledrm_device = CStruct ''simpledrm_device'' False
     [Field ''sysfb'' struct_drm_sysfb_device,
      Field ''formats'' (CArr 2 u32),
      Field ''primary_plane'' struct_drm_plane,
      Field ''crtc'' struct_drm_crtc,
      Field ''encoder'' struct_drm_encoder,
      Field ''connector'' struct_drm_connector]"

definition struct_xen_pmu_intel_ctxt :: cty where
  "struct_xen_pmu_intel_ctxt = CStruct ''xen_pmu_intel_ctxt'' False
     [Field ''fixed_counters'' uint32_t,
      Field ''arch_counters'' uint32_t,
      Field ''global_ctrl'' uint64_t,
      Field ''global_ovf_ctrl'' uint64_t,
      Field ''global_status'' uint64_t,
      Field ''fixed_ctrl'' uint64_t,
      Field ''ds_area'' uint64_t,
      Field ''pebs_enable'' uint64_t,
      Field ''debugctl'' uint64_t,
      Field ''regs'' (CArr 0 uint64_t)]"

section \<open>Sizes and alignments\<close>

lemma enum_drm_bus_flags_layout [layout_simps]:
  "sizeof enum_drm_bus_flags = 4 \<and> alignof enum_drm_bus_flags = 4 \<and> wf_cty enum_drm_bus_flags"
  by (simp add: enum_drm_bus_flags_def base_types layout_eval
      del: One_nat_def)

lemma enum_drm_driver_feature_layout [layout_simps]:
  "sizeof enum_drm_driver_feature = 4 \<and> alignof enum_drm_driver_feature = 4 \<and> wf_cty enum_drm_driver_feature"
  by (simp add: enum_drm_driver_feature_def base_types layout_eval
      del: One_nat_def)

lemma enum_drm_edid_internal_quirk_layout [layout_simps]:
  "sizeof enum_drm_edid_internal_quirk = 4 \<and> alignof enum_drm_edid_internal_quirk = 4 \<and> wf_cty enum_drm_edid_internal_quirk"
  by (simp add: enum_drm_edid_internal_quirk_def base_types layout_eval
      del: One_nat_def)

lemma enum_drm_gpuva_op_type_layout [layout_simps]:
  "sizeof enum_drm_gpuva_op_type = 4 \<and> alignof enum_drm_gpuva_op_type = 4 \<and> wf_cty enum_drm_gpuva_op_type"
  by (simp add: enum_drm_gpuva_op_type_def base_types layout_eval
      del: One_nat_def)

lemma enum_drm_mm_insert_mode_layout [layout_simps]:
  "sizeof enum_drm_mm_insert_mode = 4 \<and> alignof enum_drm_mm_insert_mode = 4 \<and> wf_cty enum_drm_mm_insert_mode"
  by (simp add: enum_drm_mm_insert_mode_def base_types layout_eval
      del: One_nat_def)

lemma enum_drm_stat_type_layout [layout_simps]:
  "sizeof enum_drm_stat_type = 4 \<and> alignof enum_drm_stat_type = 4 \<and> wf_cty enum_drm_stat_type"
  by (simp add: enum_drm_stat_type_def base_types layout_eval
      del: One_nat_def)

lemma enum_drm_vblank_seq_type_layout [layout_simps]:
  "sizeof enum_drm_vblank_seq_type = 4 \<and> alignof enum_drm_vblank_seq_type = 4 \<and> wf_cty enum_drm_vblank_seq_type"
  by (simp add: enum_drm_vblank_seq_type_def base_types layout_eval
      del: One_nat_def)

lemma enum_intel_cht_wc_models_layout [layout_simps]:
  "sizeof enum_intel_cht_wc_models = 4 \<and> alignof enum_intel_cht_wc_models = 4 \<and> wf_cty enum_intel_cht_wc_models"
  by (simp add: enum_intel_cht_wc_models_def base_types layout_eval
      del: One_nat_def)

lemma struct__intel_private_layout [layout_simps]:
  "sizeof struct__intel_private = 200 \<and> alignof struct__intel_private = 8 \<and> wf_cty struct__intel_private"
  by (simp add: struct__intel_private_def base_types layout_eval phys_addr_t_def u64_def c__u64_def u32_def c__u32_def
      bool_def struct_resource_layout resource_size_t_def
      del: One_nat_def)

lemma struct_drm_afbc_framebuffer_layout [layout_simps]:
  "sizeof struct_drm_afbc_framebuffer = 216 \<and> alignof struct_drm_afbc_framebuffer = 8 \<and> wf_cty struct_drm_afbc_framebuffer"
  by (simp add: struct_drm_afbc_framebuffer_def base_types layout_eval struct_drm_framebuffer_layout u32_def c__u32_def
      del: One_nat_def)

lemma struct_drm_atomic_helper_damage_iter_layout [layout_simps]:
  "sizeof struct_drm_atomic_helper_damage_iter = 40 \<and> alignof struct_drm_atomic_helper_damage_iter = 8 \<and> wf_cty struct_drm_atomic_helper_damage_iter"
  by (simp add: struct_drm_atomic_helper_damage_iter_def base_types layout_eval struct_drm_rect_layout uint32_t_def
      u32_def c__u32_def bool_def
      del: One_nat_def)

lemma struct_drm_client_layout [layout_simps]:
  "sizeof struct_drm_client = 40 \<and> alignof struct_drm_client = 8 \<and> wf_cty struct_drm_client"
  by (simp add: struct_drm_client_def base_types layout_eval
      del: One_nat_def)

lemma struct_drm_client32_layout [layout_simps]:
  "sizeof struct_drm_client32 = 24 \<and> alignof struct_drm_client32 = 4 \<and> wf_cty struct_drm_client32"
  by (simp add: struct_drm_client32_def base_types layout_eval u32_def c__u32_def
      del: One_nat_def)

lemma struct_drm_dsc_rc_range_parameters_layout [layout_simps]:
  "sizeof struct_drm_dsc_rc_range_parameters = 3 \<and> alignof struct_drm_dsc_rc_range_parameters = 1 \<and> wf_cty struct_drm_dsc_rc_range_parameters"
  by (simp add: struct_drm_dsc_rc_range_parameters_def base_types layout_eval u8_def c__u8_def
      del: One_nat_def)

lemma struct_drm_dsc_config_layout [layout_simps]:
  "sizeof struct_drm_dsc_config = 136 \<and> alignof struct_drm_dsc_config = 2 \<and> wf_cty struct_drm_dsc_config"
  by (simp add: struct_drm_dsc_config_def base_types layout_eval u8_def c__u8_def bool_def u16_def c__u16_def
      struct_drm_dsc_rc_range_parameters_layout
      del: One_nat_def)

lemma struct_drm_dsc_picture_parameter_set_layout [layout_simps]:
  "sizeof struct_drm_dsc_picture_parameter_set = 128 \<and> alignof struct_drm_dsc_picture_parameter_set = 1 \<and> wf_cty struct_drm_dsc_picture_parameter_set"
  by (simp add: struct_drm_dsc_picture_parameter_set_def base_types layout_eval u8_def c__u8_def c__be16_def c__u16_def
      u32_def c__u32_def
      del: One_nat_def)

lemma struct_drm_fb_helper_surface_size_layout [layout_simps]:
  "sizeof struct_drm_fb_helper_surface_size = 24 \<and> alignof struct_drm_fb_helper_surface_size = 4 \<and> wf_cty struct_drm_fb_helper_surface_size"
  by (simp add: struct_drm_fb_helper_surface_size_def base_types layout_eval u32_def c__u32_def
      del: One_nat_def)

lemma struct_drm_flip_work_layout [layout_simps]:
  "sizeof struct_drm_flip_work = 88 \<and> alignof struct_drm_flip_work = 8 \<and> wf_cty struct_drm_flip_work"
  by (simp add: struct_drm_flip_work_def base_types layout_eval drm_flip_func_t_def struct_work_struct_layout
      struct_list_head_layout spinlock_t_def struct_spinlock_layout
      del: One_nat_def)

lemma struct_drm_format_conv_state_layout [layout_simps]:
  "sizeof struct_drm_format_conv_state = 24 \<and> alignof struct_drm_format_conv_state = 8 \<and> wf_cty struct_drm_format_conv_state"
  by (simp add: struct_drm_format_conv_state_def base_types layout_eval size_t_def c__kernel_size_t_def
      c__kernel_ulong_t_def bool_def
      del: One_nat_def)

lemma struct_drm_format_modifier_blob_layout [layout_simps]:
  "sizeof struct_drm_format_modifier_blob = 24 \<and> alignof struct_drm_format_modifier_blob = 4 \<and> wf_cty struct_drm_format_modifier_blob"
  by (simp add: struct_drm_format_modifier_blob_def base_types layout_eval c__u32_def
      del: One_nat_def)

lemma struct_drm_gem_shmem_object_layout [layout_simps]:
  "sizeof struct_drm_gem_shmem_object = 448 \<and> alignof struct_drm_gem_shmem_object = 8 \<and> wf_cty struct_drm_gem_shmem_object"
  by (simp add: struct_drm_gem_shmem_object_def base_types layout_eval struct_drm_gem_object_layout refcount_t_def
      struct_refcount_struct_layout struct_list_head_layout bool_def
      del: One_nat_def)

lemma struct_drm_gpuva_op_map_layout [layout_simps]:
  "sizeof struct_drm_gpuva_op_map = 32 \<and> alignof struct_drm_gpuva_op_map = 8 \<and> wf_cty struct_drm_gpuva_op_map"
  by (simp add: struct_drm_gpuva_op_map_def base_types layout_eval u64_def c__u64_def
      del: One_nat_def)

lemma struct_drm_gpuva_op_remap_layout [layout_simps]:
  "sizeof struct_drm_gpuva_op_remap = 24 \<and> alignof struct_drm_gpuva_op_remap = 8 \<and> wf_cty struct_drm_gpuva_op_remap"
  by (simp add: struct_drm_gpuva_op_remap_def base_types layout_eval
      del: One_nat_def)

lemma struct_drm_gpuva_op_unmap_layout [layout_simps]:
  "sizeof struct_drm_gpuva_op_unmap = 16 \<and> alignof struct_drm_gpuva_op_unmap = 8 \<and> wf_cty struct_drm_gpuva_op_unmap"
  by (simp add: struct_drm_gpuva_op_unmap_def base_types layout_eval bool_def
      del: One_nat_def)

lemma struct_drm_gpuva_op_prefetch_layout [layout_simps]:
  "sizeof struct_drm_gpuva_op_prefetch = 8 \<and> alignof struct_drm_gpuva_op_prefetch = 8 \<and> wf_cty struct_drm_gpuva_op_prefetch"
  by (simp add: struct_drm_gpuva_op_prefetch_def base_types layout_eval
      del: One_nat_def)

lemma struct_drm_gpuva_op_layout [layout_simps]:
  "sizeof struct_drm_gpuva_op = 56 \<and> alignof struct_drm_gpuva_op = 8 \<and> wf_cty struct_drm_gpuva_op"
  by (simp add: struct_drm_gpuva_op_def base_types layout_eval struct_list_head_layout enum_drm_gpuva_op_type_layout
      struct_drm_gpuva_op_map_layout struct_drm_gpuva_op_remap_layout struct_drm_gpuva_op_unmap_layout
      struct_drm_gpuva_op_prefetch_layout
      del: One_nat_def)

lemma enum_nbcon_prio_layout [layout_simps]:
  "sizeof enum_nbcon_prio = 4 \<and> alignof enum_nbcon_prio = 4 \<and> wf_cty enum_nbcon_prio"
  by (simp add: enum_nbcon_prio_def base_types layout_eval
      del: One_nat_def)

lemma struct_nbcon_context_layout [layout_simps]:
  "sizeof struct_nbcon_context = 40 \<and> alignof struct_nbcon_context = 8 \<and> wf_cty struct_nbcon_context"
  by (simp add: struct_nbcon_context_def base_types layout_eval enum_nbcon_prio_layout u64_def c__u64_def
      del: One_nat_def)

lemma struct_console_layout [layout_simps]:
  "sizeof struct_console = 280 \<and> alignof struct_console = 8 \<and> wf_cty struct_console"
  by (simp add: struct_console_def base_types layout_eval uint_def u64_def c__u64_def struct_hlist_node_layout
      atomic_t_layout atomic_long_t_def atomic64_t_layout struct_nbcon_context_layout
      struct_rcuwait_layout struct_irq_work_layout
      del: One_nat_def)

lemma struct_drm_log_layout [layout_simps]:
  "sizeof struct_drm_log = 424 \<and> alignof struct_drm_log = 8 \<and> wf_cty struct_drm_log"
  by (simp add: struct_drm_log_def base_types layout_eval struct_mutex_layout struct_drm_client_dev_layout
      struct_console_layout bool_def u32_def c__u32_def
      del: One_nat_def)

lemma struct_drm_log_scanout_layout [layout_simps]:
  "sizeof struct_drm_log_scanout = 56 \<and> alignof struct_drm_log_scanout = 8 \<and> wf_cty struct_drm_log_scanout"
  by (simp add: struct_drm_log_scanout_def base_types layout_eval u32_def c__u32_def
      del: One_nat_def)

lemma struct_drm_memory_stats_layout [layout_simps]:
  "sizeof struct_drm_memory_stats = 40 \<and> alignof struct_drm_memory_stats = 8 \<and> wf_cty struct_drm_memory_stats"
  by (simp add: struct_drm_memory_stats_def base_types layout_eval u64_def c__u64_def
      del: One_nat_def)

lemma struct_drm_mm_scan_layout [layout_simps]:
  "sizeof struct_drm_mm_scan = 80 \<and> alignof struct_drm_mm_scan = 8 \<and> wf_cty struct_drm_mm_scan"
  by (simp add: struct_drm_mm_scan_def base_types layout_eval u64_def c__u64_def enum_drm_mm_insert_mode_layout
      del: One_nat_def)

lemma struct_drm_mode_atomic_layout [layout_simps]:
  "sizeof struct_drm_mode_atomic = 56 \<and> alignof struct_drm_mode_atomic = 8 \<and> wf_cty struct_drm_mode_atomic"
  by (simp add: struct_drm_mode_atomic_def base_types layout_eval c__u32_def c__u64_def
      del: One_nat_def)

lemma struct_drm_mode_card_res_layout [layout_simps]:
  "sizeof struct_drm_mode_card_res = 64 \<and> alignof struct_drm_mode_card_res = 8 \<and> wf_cty struct_drm_mode_card_res"
  by (simp add: struct_drm_mode_card_res_def base_types layout_eval c__u64_def c__u32_def
      del: One_nat_def)

lemma struct_drm_mode_create_dumb_layout [layout_simps]:
  "sizeof struct_drm_mode_create_dumb = 32 \<and> alignof struct_drm_mode_create_dumb = 8 \<and> wf_cty struct_drm_mode_create_dumb"
  by (simp add: struct_drm_mode_create_dumb_def base_types layout_eval c__u32_def c__u64_def
      del: One_nat_def)

lemma struct_drm_mode_create_lease_layout [layout_simps]:
  "sizeof struct_drm_mode_create_lease = 24 \<and> alignof struct_drm_mode_create_lease = 8 \<and> wf_cty struct_drm_mode_create_lease"
  by (simp add: struct_drm_mode_create_lease_def base_types layout_eval c__u64_def c__u32_def
      del: One_nat_def)

lemma struct_drm_mode_crtc_layout [layout_simps]:
  "sizeof struct_drm_mode_crtc = 104 \<and> alignof struct_drm_mode_crtc = 8 \<and> wf_cty struct_drm_mode_crtc"
  by (simp add: struct_drm_mode_crtc_def base_types layout_eval c__u64_def c__u32_def struct_drm_mode_modeinfo_layout
      del: One_nat_def)

lemma struct_drm_mode_crtc_lut_layout [layout_simps]:
  "sizeof struct_drm_mode_crtc_lut = 32 \<and> alignof struct_drm_mode_crtc_lut = 8 \<and> wf_cty struct_drm_mode_crtc_lut"
  by (simp add: struct_drm_mode_crtc_lut_def base_types layout_eval c__u32_def c__u64_def
      del: One_nat_def)

lemma struct_drm_mode_crtc_page_flip_target_layout [layout_simps]:
  "sizeof struct_drm_mode_crtc_page_flip_target = 24 \<and> alignof struct_drm_mode_crtc_page_flip_target = 8 \<and> wf_cty struct_drm_mode_crtc_page_flip_target"
  by (simp add: struct_drm_mode_crtc_page_flip_target_def base_types layout_eval c__u32_def c__u64_def
      del: One_nat_def)

lemma struct_drm_mode_cursor_layout [layout_simps]:
  "sizeof struct_drm_mode_cursor = 28 \<and> alignof struct_drm_mode_cursor = 4 \<and> wf_cty struct_drm_mode_cursor"
  by (simp add: struct_drm_mode_cursor_def base_types layout_eval c__u32_def c__s32_def
      del: One_nat_def)

lemma struct_drm_mode_cursor2_layout [layout_simps]:
  "sizeof struct_drm_mode_cursor2 = 36 \<and> alignof struct_drm_mode_cursor2 = 4 \<and> wf_cty struct_drm_mode_cursor2"
  by (simp add: struct_drm_mode_cursor2_def base_types layout_eval c__u32_def c__s32_def
      del: One_nat_def)

lemma struct_drm_mode_fb_cmd_layout [layout_simps]:
  "sizeof struct_drm_mode_fb_cmd = 28 \<and> alignof struct_drm_mode_fb_cmd = 4 \<and> wf_cty struct_drm_mode_fb_cmd"
  by (simp add: struct_drm_mode_fb_cmd_def base_types layout_eval c__u32_def
      del: One_nat_def)

lemma struct_drm_mode_fb_cmd2_layout [layout_simps]:
  "sizeof struct_drm_mode_fb_cmd2 = 104 \<and> alignof struct_drm_mode_fb_cmd2 = 8 \<and> wf_cty struct_drm_mode_fb_cmd2"
  by (simp add: struct_drm_mode_fb_cmd2_def base_types layout_eval c__u32_def c__u64_def
      del: One_nat_def)

lemma struct_drm_mode_fb_cmd232_layout [layout_simps]:
  "sizeof struct_drm_mode_fb_cmd232 = 100 \<and> alignof struct_drm_mode_fb_cmd232 = 1 \<and> wf_cty struct_drm_mode_fb_cmd232"
  by (simp add: struct_drm_mode_fb_cmd232_def base_types layout_eval u32_def c__u32_def u64_def c__u64_def
      del: One_nat_def)

lemma struct_drm_mode_fb_dirty_cmd_layout [layout_simps]:
  "sizeof struct_drm_mode_fb_dirty_cmd = 24 \<and> alignof struct_drm_mode_fb_dirty_cmd = 8 \<and> wf_cty struct_drm_mode_fb_dirty_cmd"
  by (simp add: struct_drm_mode_fb_dirty_cmd_def base_types layout_eval c__u32_def c__u64_def
      del: One_nat_def)

lemma struct_drm_mode_get_connector_layout [layout_simps]:
  "sizeof struct_drm_mode_get_connector = 80 \<and> alignof struct_drm_mode_get_connector = 8 \<and> wf_cty struct_drm_mode_get_connector"
  by (simp add: struct_drm_mode_get_connector_def base_types layout_eval c__u64_def c__u32_def
      del: One_nat_def)

lemma struct_drm_mode_get_encoder_layout [layout_simps]:
  "sizeof struct_drm_mode_get_encoder = 20 \<and> alignof struct_drm_mode_get_encoder = 4 \<and> wf_cty struct_drm_mode_get_encoder"
  by (simp add: struct_drm_mode_get_encoder_def base_types layout_eval c__u32_def
      del: One_nat_def)

lemma struct_drm_mode_get_plane_layout [layout_simps]:
  "sizeof struct_drm_mode_get_plane = 32 \<and> alignof struct_drm_mode_get_plane = 8 \<and> wf_cty struct_drm_mode_get_plane"
  by (simp add: struct_drm_mode_get_plane_def base_types layout_eval c__u32_def c__u64_def
      del: One_nat_def)

lemma struct_drm_mode_get_property_layout [layout_simps]:
  "sizeof struct_drm_mode_get_property = 64 \<and> alignof struct_drm_mode_get_property = 8 \<and> wf_cty struct_drm_mode_get_property"
  by (simp add: struct_drm_mode_get_property_def base_types layout_eval c__u64_def c__u32_def
      del: One_nat_def)

lemma struct_drm_mode_obj_get_properties_layout [layout_simps]:
  "sizeof struct_drm_mode_obj_get_properties = 32 \<and> alignof struct_drm_mode_obj_get_properties = 8 \<and> wf_cty struct_drm_mode_obj_get_properties"
  by (simp add: struct_drm_mode_obj_get_properties_def base_types layout_eval c__u64_def c__u32_def
      del: One_nat_def)

lemma struct_drm_mode_set_plane_layout [layout_simps]:
  "sizeof struct_drm_mode_set_plane = 48 \<and> alignof struct_drm_mode_set_plane = 4 \<and> wf_cty struct_drm_mode_set_plane"
  by (simp add: struct_drm_mode_set_plane_def base_types layout_eval c__u32_def c__s32_def
      del: One_nat_def)

lemma struct_drm_named_mode_layout [layout_simps]:
  "sizeof struct_drm_named_mode = 32 \<and> alignof struct_drm_named_mode = 8 \<and> wf_cty struct_drm_named_mode"
  by (simp add: struct_drm_named_mode_def base_types layout_eval
      del: One_nat_def)

lemma struct_drm_scanout_buffer_layout [layout_simps]:
  "sizeof struct_drm_scanout_buffer = 120 \<and> alignof struct_drm_scanout_buffer = 8 \<and> wf_cty struct_drm_scanout_buffer"
  by (simp add: struct_drm_scanout_buffer_def base_types layout_eval struct_iosys_map_layout
      del: One_nat_def)

lemma struct_drm_simple_display_pipe_layout [layout_simps]:
  "sizeof struct_drm_simple_display_pipe = 3160 \<and> alignof struct_drm_simple_display_pipe = 8 \<and> wf_cty struct_drm_simple_display_pipe"
  by (simp add: struct_drm_simple_display_pipe_def base_types layout_eval struct_drm_crtc_layout struct_drm_plane_layout
      struct_drm_encoder_layout
      del: One_nat_def)

lemma struct_drm_simple_display_pipe_funcs_layout [layout_simps]:
  "sizeof struct_drm_simple_display_pipe_funcs = 136 \<and> alignof struct_drm_simple_display_pipe_funcs = 8 \<and> wf_cty struct_drm_simple_display_pipe_funcs"
  by (simp add: struct_drm_simple_display_pipe_funcs_def base_types layout_eval
      del: One_nat_def)

lemma struct_drm_stats_layout [layout_simps]:
  "sizeof struct_drm_stats = 248 \<and> alignof struct_drm_stats = 8 \<and> wf_cty struct_drm_stats"
  by (simp add: struct_drm_stats_def base_types layout_eval enum_drm_stat_type_layout
      del: One_nat_def)

lemma struct_drm_stats32_layout [layout_simps]:
  "sizeof struct_drm_stats32 = 124 \<and> alignof struct_drm_stats32 = 4 \<and> wf_cty struct_drm_stats32"
  by (simp add: struct_drm_stats32_def base_types layout_eval u32_def c__u32_def enum_drm_stat_type_layout
      del: One_nat_def)

lemma struct_drm_syncobj_eventfd_layout [layout_simps]:
  "sizeof struct_drm_syncobj_eventfd = 24 \<and> alignof struct_drm_syncobj_eventfd = 8 \<and> wf_cty struct_drm_syncobj_eventfd"
  by (simp add: struct_drm_syncobj_eventfd_def base_types layout_eval c__u32_def c__u64_def c__s32_def
      del: One_nat_def)

lemma struct_drm_syncobj_handle_layout [layout_simps]:
  "sizeof struct_drm_syncobj_handle = 24 \<and> alignof struct_drm_syncobj_handle = 8 \<and> wf_cty struct_drm_syncobj_handle"
  by (simp add: struct_drm_syncobj_handle_def base_types layout_eval c__u32_def c__s32_def c__u64_def
      del: One_nat_def)

lemma struct_drm_syncobj_timeline_wait_layout [layout_simps]:
  "sizeof struct_drm_syncobj_timeline_wait = 48 \<and> alignof struct_drm_syncobj_timeline_wait = 8 \<and> wf_cty struct_drm_syncobj_timeline_wait"
  by (simp add: struct_drm_syncobj_timeline_wait_def base_types layout_eval c__u64_def c__s64_def c__u32_def
      del: One_nat_def)

lemma struct_drm_syncobj_transfer_layout [layout_simps]:
  "sizeof struct_drm_syncobj_transfer = 32 \<and> alignof struct_drm_syncobj_transfer = 8 \<and> wf_cty struct_drm_syncobj_transfer"
  by (simp add: struct_drm_syncobj_transfer_def base_types layout_eval c__u32_def c__u64_def
      del: One_nat_def)

lemma struct_drm_syncobj_wait_layout [layout_simps]:
  "sizeof struct_drm_syncobj_wait = 40 \<and> alignof struct_drm_syncobj_wait = 8 \<and> wf_cty struct_drm_syncobj_wait"
  by (simp add: struct_drm_syncobj_wait_def base_types layout_eval c__u64_def c__s64_def c__u32_def
      del: One_nat_def)

lemma struct_drm_sysfb_device_layout [layout_simps]:
  "sizeof struct_drm_sysfb_device = 1792 \<and> alignof struct_drm_sysfb_device = 8 \<and> wf_cty struct_drm_sysfb_device"
  by (simp add: struct_drm_sysfb_device_def base_types layout_eval struct_drm_device_layout
      struct_drm_display_mode_layout struct_iosys_map_layout
      del: One_nat_def)

lemma struct_drm_vblank_work_layout [layout_simps]:
  "sizeof struct_drm_vblank_work = 80 \<and> alignof struct_drm_vblank_work = 8 \<and> wf_cty struct_drm_vblank_work"
  by (simp add: struct_drm_vblank_work_def base_types layout_eval struct_kthread_work_layout u64_def c__u64_def
      struct_list_head_layout
      del: One_nat_def)

lemma struct_drm_version_layout [layout_simps]:
  "sizeof struct_drm_version = 64 \<and> alignof struct_drm_version = 8 \<and> wf_cty struct_drm_version"
  by (simp add: struct_drm_version_def base_types layout_eval c__kernel_size_t_def c__kernel_ulong_t_def
      del: One_nat_def)

lemma struct_drm_version_32_layout [layout_simps]:
  "sizeof struct_drm_version_32 = 36 \<and> alignof struct_drm_version_32 = 4 \<and> wf_cty struct_drm_version_32"
  by (simp add: struct_drm_version_32_def base_types layout_eval u32_def c__u32_def
      del: One_nat_def)

lemma struct_ifaddrmsg_layout [layout_simps]:
  "sizeof struct_ifaddrmsg = 8 \<and> alignof struct_ifaddrmsg = 4 \<and> wf_cty struct_ifaddrmsg"
  by (simp add: struct_ifaddrmsg_def base_types layout_eval c__u8_def c__u32_def
      del: One_nat_def)

lemma struct_intel_community_layout [layout_simps]:
  "sizeof struct_intel_community = 96 \<and> alignof struct_intel_community = 8 \<and> wf_cty struct_intel_community"
  by (simp add: struct_intel_community_def base_types layout_eval size_t_def c__kernel_size_t_def c__kernel_ulong_t_def
      del: One_nat_def)

lemma enum_intel_excl_state_type_layout [layout_simps]:
  "sizeof enum_intel_excl_state_type = 4 \<and> alignof enum_intel_excl_state_type = 4 \<and> wf_cty enum_intel_excl_state_type"
  by (simp add: enum_intel_excl_state_type_def base_types layout_eval
      del: One_nat_def)

lemma struct_intel_excl_states_layout [layout_simps]:
  "sizeof struct_intel_excl_states = 260 \<and> alignof struct_intel_excl_states = 4 \<and> wf_cty struct_intel_excl_states"
  by (simp add: struct_intel_excl_states_def base_types layout_eval enum_intel_excl_state_type_layout bool_def
      del: One_nat_def)

lemma struct_intel_excl_cntrs_layout [layout_simps]:
  "sizeof struct_intel_excl_cntrs = 536 \<and> alignof struct_intel_excl_cntrs = 4 \<and> wf_cty struct_intel_excl_cntrs"
  by (simp add: struct_intel_excl_cntrs_def base_types layout_eval raw_spinlock_t_def struct_raw_spinlock_layout
      struct_intel_excl_states_layout u16_def c__u16_def u32_def c__u32_def
      del: One_nat_def)

lemma struct_intel_gtt_driver_layout [layout_simps]:
  "sizeof struct_intel_gtt_driver = 56 \<and> alignof struct_intel_gtt_driver = 8 \<and> wf_cty struct_intel_gtt_driver"
  by (simp add: struct_intel_gtt_driver_def base_types layout_eval
      del: One_nat_def)

lemma struct_iommu_flush_layout [layout_simps]:
  "sizeof struct_iommu_flush = 16 \<and> alignof struct_iommu_flush = 8 \<and> wf_cty struct_iommu_flush"
  by (simp add: struct_iommu_flush_def base_types layout_eval
      del: One_nat_def)

lemma struct_intel_iommu_layout [layout_simps]:
  "sizeof struct_intel_iommu = 488 \<and> alignof struct_intel_iommu = 8 \<and> wf_cty struct_intel_iommu"
  by (simp add: struct_intel_iommu_def base_types layout_eval u64_def c__u64_def u32_def c__u32_def raw_spinlock_t_def
      struct_raw_spinlock_layout u16_def c__u16_def struct_mutex_layout struct_ida_layout spinlock_t_def
      struct_spinlock_layout struct_iommu_flush_layout struct_completion_layout struct_rb_root_layout
      struct_iommu_device_layout
      del: One_nat_def)

lemma struct_irq_2_iommu_layout [layout_simps]:
  "sizeof struct_irq_2_iommu = 16 \<and> alignof struct_irq_2_iommu = 8 \<and> wf_cty struct_irq_2_iommu"
  by (simp add: struct_irq_2_iommu_def base_types layout_eval u16_def c__u16_def u8_def c__u8_def bool_def
      del: One_nat_def)

lemma struct_irte_layout [layout_simps]:
  "sizeof struct_irte = 16 \<and> alignof struct_irte = 16 \<and> wf_cty struct_irte"
  by (simp add: struct_irte_def base_types layout_eval c__u64_def c__u128_def
      del: One_nat_def)

lemma struct_intel_ir_data_layout [layout_simps]:
  "sizeof struct_intel_ir_data = 48 \<and> alignof struct_intel_ir_data = 16 \<and> wf_cty struct_intel_ir_data"
  by (simp add: struct_intel_ir_data_def base_types layout_eval struct_irq_2_iommu_layout struct_irte_layout
      struct_msi_msg_layout
      del: One_nat_def)

lemma struct_intel_padgroup_layout [layout_simps]:
  "sizeof struct_intel_padgroup = 20 \<and> alignof struct_intel_padgroup = 4 \<and> wf_cty struct_intel_padgroup"
  by (simp add: struct_intel_padgroup_def base_types layout_eval
      del: One_nat_def)

lemma struct_pinctrl_desc_layout [layout_simps]:
  "sizeof struct_pinctrl_desc = 88 \<and> alignof struct_pinctrl_desc = 8 \<and> wf_cty struct_pinctrl_desc"
  by (simp add: struct_pinctrl_desc_def base_types layout_eval bool_def
      del: One_nat_def)

lemma struct_intel_pinctrl_context_layout [layout_simps]:
  "sizeof struct_intel_pinctrl_context = 16 \<and> alignof struct_intel_pinctrl_context = 8 \<and> wf_cty struct_intel_pinctrl_context"
  by (simp add: struct_intel_pinctrl_context_def base_types layout_eval
      del: One_nat_def)

lemma struct_intel_pinctrl_layout [layout_simps]:
  "sizeof struct_intel_pinctrl = 640 \<and> alignof struct_intel_pinctrl = 8 \<and> wf_cty struct_intel_pinctrl"
  by (simp add: struct_intel_pinctrl_def base_types layout_eval raw_spinlock_t_def struct_raw_spinlock_layout
      struct_pinctrl_desc_layout struct_gpio_chip_layout size_t_def c__kernel_size_t_def
      c__kernel_ulong_t_def struct_intel_pinctrl_context_layout
      del: One_nat_def)

lemma struct_intel_pinctrl_context___2_layout [layout_simps]:
  "sizeof struct_intel_pinctrl_context___2 = 16 \<and> alignof struct_intel_pinctrl_context___2 = 8 \<and> wf_cty struct_intel_pinctrl_context___2"
  by (simp add: struct_intel_pinctrl_context___2_def base_types layout_eval
      del: One_nat_def)

lemma struct_intel_pinctrl___2_layout [layout_simps]:
  "sizeof struct_intel_pinctrl___2 = 640 \<and> alignof struct_intel_pinctrl___2 = 8 \<and> wf_cty struct_intel_pinctrl___2"
  by (simp add: struct_intel_pinctrl___2_def base_types layout_eval raw_spinlock_t_def struct_raw_spinlock_layout
      struct_pinctrl_desc_layout struct_gpio_chip_layout size_t_def c__kernel_size_t_def
      c__kernel_ulong_t_def struct_intel_pinctrl_context___2_layout
      del: One_nat_def)

lemma struct_intel_pinctrl_context___3_layout [layout_simps]:
  "sizeof struct_intel_pinctrl_context___3 = 16 \<and> alignof struct_intel_pinctrl_context___3 = 8 \<and> wf_cty struct_intel_pinctrl_context___3"
  by (simp add: struct_intel_pinctrl_context___3_def base_types layout_eval
      del: One_nat_def)

lemma struct_intel_pinctrl___3_layout [layout_simps]:
  "sizeof struct_intel_pinctrl___3 = 640 \<and> alignof struct_intel_pinctrl___3 = 8 \<and> wf_cty struct_intel_pinctrl___3"
  by (simp add: struct_intel_pinctrl___3_def base_types layout_eval raw_spinlock_t_def struct_raw_spinlock_layout
      struct_pinctrl_desc_layout struct_gpio_chip_layout size_t_def c__kernel_size_t_def
      c__kernel_ulong_t_def struct_intel_pinctrl_context___3_layout
      del: One_nat_def)

lemma struct_intel_pinctrl_soc_data_layout [layout_simps]:
  "sizeof struct_intel_pinctrl_soc_data = 72 \<and> alignof struct_intel_pinctrl_soc_data = 8 \<and> wf_cty struct_intel_pinctrl_soc_data"
  by (simp add: struct_intel_pinctrl_soc_data_def base_types layout_eval size_t_def c__kernel_size_t_def
      c__kernel_ulong_t_def
      del: One_nat_def)

lemma struct_intel_pmic_regs_handler_ctx_layout [layout_simps]:
  "sizeof struct_intel_pmic_regs_handler_ctx = 8 \<and> alignof struct_intel_pmic_regs_handler_ctx = 4 \<and> wf_cty struct_intel_pmic_regs_handler_ctx"
  by (simp add: struct_intel_pmic_regs_handler_ctx_def base_types layout_eval u16_def c__u16_def
      del: One_nat_def)

lemma struct_intel_pmic_opregion_layout [layout_simps]:
  "sizeof struct_intel_pmic_opregion = 64 \<and> alignof struct_intel_pmic_opregion = 8 \<and> wf_cty struct_intel_pmic_opregion"
  by (simp add: struct_intel_pmic_opregion_def base_types layout_eval struct_mutex_layout
      struct_intel_pmic_regs_handler_ctx_layout
      del: One_nat_def)

lemma struct_intel_pmic_opregion_data_layout [layout_simps]:
  "sizeof struct_intel_pmic_opregion_data = 96 \<and> alignof struct_intel_pmic_opregion_data = 8 \<and> wf_cty struct_intel_pmic_opregion_data"
  by (simp add: struct_intel_pmic_opregion_data_def base_types layout_eval
      del: One_nat_def)

lemma struct_intel_scu_ipc_data_layout [layout_simps]:
  "sizeof struct_intel_scu_ipc_data = 72 \<and> alignof struct_intel_scu_ipc_data = 8 \<and> wf_cty struct_intel_scu_ipc_data"
  by (simp add: struct_intel_scu_ipc_data_def base_types layout_eval struct_resource_layout
      del: One_nat_def)

lemma struct_intel_scu_ipc_dev_layout [layout_simps]:
  "sizeof struct_intel_scu_ipc_dev = 928 \<and> alignof struct_intel_scu_ipc_dev = 8 \<and> wf_cty struct_intel_scu_ipc_dev"
  by (simp add: struct_intel_scu_ipc_dev_def base_types layout_eval struct_device_layout struct_completion_layout
      struct_intel_scu_ipc_data_layout
      del: One_nat_def)

lemma struct_intel_soc_pmic_layout [layout_simps]:
  "sizeof struct_intel_soc_pmic = 96 \<and> alignof struct_intel_soc_pmic = 8 \<and> wf_cty struct_intel_soc_pmic"
  by (simp add: struct_intel_soc_pmic_def base_types layout_eval enum_intel_cht_wc_models_layout
      del: One_nat_def)

lemma struct_intel_uncore_extra_reg_layout [layout_simps]:
  "sizeof struct_intel_uncore_extra_reg = 40 \<and> alignof struct_intel_uncore_extra_reg = 8 \<and> wf_cty struct_intel_uncore_extra_reg"
  by (simp add: struct_intel_uncore_extra_reg_def base_types layout_eval raw_spinlock_t_def struct_raw_spinlock_layout
      u64_def c__u64_def atomic_t_layout
      del: One_nat_def)

lemma struct_intel_uncore_box_layout [layout_simps]:
  "sizeof struct_intel_uncore_box = 488 \<and> alignof struct_intel_uncore_box = 8 \<and> wf_cty struct_intel_uncore_box"
  by (simp add: struct_intel_uncore_box_def base_types layout_eval atomic_t_layout u64_def c__u64_def
      struct_hrtimer_layout struct_list_head_layout struct_intel_uncore_extra_reg_layout
      del: One_nat_def)

lemma enum_uncore_access_type_layout [layout_simps]:
  "sizeof enum_uncore_access_type = 4 \<and> alignof enum_uncore_access_type = 4 \<and> wf_cty enum_uncore_access_type"
  by (simp add: enum_uncore_access_type_def base_types layout_eval
      del: One_nat_def)

lemma struct_intel_uncore_discovery_type_layout [layout_simps]:
  "sizeof struct_intel_uncore_discovery_type = 48 \<and> alignof struct_intel_uncore_discovery_type = 8 \<and> wf_cty struct_intel_uncore_discovery_type"
  by (simp add: struct_intel_uncore_discovery_type_def base_types layout_eval struct_rb_node_layout
      enum_uncore_access_type_layout struct_rb_root_layout u16_def c__u16_def u8_def c__u8_def
      del: One_nat_def)

lemma struct_intel_uncore_discovery_unit_layout [layout_simps]:
  "sizeof struct_intel_uncore_discovery_unit = 48 \<and> alignof struct_intel_uncore_discovery_unit = 8 \<and> wf_cty struct_intel_uncore_discovery_unit"
  by (simp add: struct_intel_uncore_discovery_unit_def base_types layout_eval struct_rb_node_layout u64_def c__u64_def
      del: One_nat_def)

lemma struct_intel_uncore_ops_layout [layout_simps]:
  "sizeof struct_intel_uncore_ops = 80 \<and> alignof struct_intel_uncore_ops = 8 \<and> wf_cty struct_intel_uncore_ops"
  by (simp add: struct_intel_uncore_ops_def base_types layout_eval
      del: One_nat_def)

lemma struct_intel_uncore_pmu_layout [layout_simps]:
  "sizeof struct_intel_uncore_pmu = 1408 \<and> alignof struct_intel_uncore_pmu = 8 \<and> wf_cty struct_intel_uncore_pmu"
  by (simp add: struct_intel_uncore_pmu_def base_types layout_eval struct_pmu_layout bool_def atomic_t_layout
      cpumask_t_def struct_cpumask_layout
      del: One_nat_def)

lemma struct_intel_uncore_topology_layout [layout_simps]:
  "sizeof struct_intel_uncore_topology = 16 \<and> alignof struct_intel_uncore_topology = 8 \<and> wf_cty struct_intel_uncore_topology"
  by (simp add: struct_intel_uncore_topology_def base_types layout_eval
      del: One_nat_def)

lemma struct_event_constraint_layout [layout_simps]:
  "sizeof struct_event_constraint = 40 \<and> alignof struct_event_constraint = 8 \<and> wf_cty struct_event_constraint"
  by (simp add: struct_event_constraint_def base_types layout_eval u64_def c__u64_def
      del: One_nat_def)

lemma struct_intel_uncore_type_layout [layout_simps]:
  "sizeof struct_intel_uncore_type = 256 \<and> alignof struct_intel_uncore_type = 8 \<and> wf_cty struct_intel_uncore_type"
  by (simp add: struct_intel_uncore_type_def base_types layout_eval struct_event_constraint_layout
      del: One_nat_def)

lemma union_intel_x86_pebs_dse_layout [layout_simps]:
  "sizeof union_intel_x86_pebs_dse = 8 \<and> alignof union_intel_x86_pebs_dse = 8 \<and> wf_cty union_intel_x86_pebs_dse"
  by (simp add: union_intel_x86_pebs_dse_def base_types layout_eval u64_def c__u64_def
      del: One_nat_def)

lemma struct_microcode_header_intel_layout [layout_simps]:
  "sizeof struct_microcode_header_intel = 48 \<and> alignof struct_microcode_header_intel = 4 \<and> wf_cty struct_microcode_header_intel"
  by (simp add: struct_microcode_header_intel_def base_types layout_eval
      del: One_nat_def)

lemma struct_mpf_intel_layout [layout_simps]:
  "sizeof struct_mpf_intel = 16 \<and> alignof struct_mpf_intel = 4 \<and> wf_cty struct_mpf_intel"
  by (simp add: struct_mpf_intel_def base_types layout_eval
      del: One_nat_def)

lemma struct_simpledrm_device_layout [layout_simps]:
  "sizeof struct_simpledrm_device = 7224 \<and> alignof struct_simpledrm_device = 8 \<and> wf_cty struct_simpledrm_device"
  by (simp add: struct_simpledrm_device_def base_types layout_eval struct_drm_sysfb_device_layout u32_def c__u32_def
      struct_drm_plane_layout struct_drm_crtc_layout struct_drm_encoder_layout
      struct_drm_connector_layout
      del: One_nat_def)

lemma struct_xen_pmu_intel_ctxt_layout [layout_simps]:
  "sizeof struct_xen_pmu_intel_ctxt = 64 \<and> alignof struct_xen_pmu_intel_ctxt = 8 \<and> wf_cty struct_xen_pmu_intel_ctxt"
  by (simp add: struct_xen_pmu_intel_ctxt_def base_types layout_eval uint32_t_def u32_def c__u32_def uint64_t_def u64_def
      c__u64_def
      del: One_nat_def)

end
