(* ===== verification/KernelLargej.thy ===== *)
theory KernelLargej
  imports KernelLargei KernelSubDrm
begin

text \<open>
  Types of other subsystems in \<^verbatim>\<open>bpf/vmlinux.h\<close>: those that take 25 lines and more there, with every type they
  hold by value (part 10 of 10).
\<close>

section \<open>Types\<close>

definition enum_tomoyo_securityfs_interface_index :: cty where
  "enum_tomoyo_securityfs_interface_index = CEnum 4
     [(''TOMOYO_DOMAINPOLICY'', 0), (''TOMOYO_EXCEPTIONPOLICY'', 1),
      (''TOMOYO_PROCESS_STATUS'', 2), (''TOMOYO_STAT'', 3), (''TOMOYO_AUDIT'', 4),
      (''TOMOYO_VERSION'', 5), (''TOMOYO_PROFILE'', 6), (''TOMOYO_QUERY'', 7),
      (''TOMOYO_MANAGER'', 8)]"

definition struct_tomoyo_io_buffer :: cty where
  "struct_tomoyo_io_buffer = CStruct ''tomoyo_io_buffer'' False
     [Field ''read'' (CPtr ''void (struct tomoyo_io_buffer *)''),
      Field ''write'' (CPtr ''int (struct tomoyo_io_buffer *)''),
      Field ''poll'' (CPtr ''__poll_t (struct file *, poll_table *)''),
      Field ''io_sem'' struct_mutex,
      Field ''read_user_buf'' (CPtr ''char''),
      Field ''read_user_buf_avail'' size_t,
      Field ''r'' (CStruct [] False
        [Field ''ns'' (CPtr ''struct list_head''),
         Field ''domain'' (CPtr ''struct list_head''),
         Field ''group'' (CPtr ''struct list_head''),
         Field ''acl'' (CPtr ''struct list_head''),
         Field ''avail'' size_t,
         Field ''step'' unsigned_int,
         Field ''query_index'' unsigned_int,
         Field ''index'' u16,
         Field ''cond_index'' u16,
         Field ''acl_group_index'' u8,
         Field ''cond_step'' u8,
         Field ''bit'' u8,
         Field ''w_pos'' u8,
         Field ''eof'' bool,
         Field ''print_this_domain_only'' bool,
         Field ''print_transition_related_only'' bool,
         Field ''print_cond_part'' bool,
         Field ''w'' (CArr 64 (CPtr ''const char''))]),
      Field ''w'' (CStruct [] False
        [Field ''ns'' (CPtr ''struct tomoyo_policy_namespace''),
         Field ''domain'' (CPtr ''struct tomoyo_domain_info''),
         Field ''avail'' size_t,
         Field ''is_delete'' bool]),
      Field ''read_buf'' (CPtr ''char''),
      Field ''readbuf_size'' size_t,
      Field ''write_buf'' (CPtr ''char''),
      Field ''writebuf_size'' size_t,
      Field ''type'' enum_tomoyo_securityfs_interface_index,
      Field ''users'' u8,
      Field ''list'' struct_list_head]"

definition struct_tpm_bios_log :: cty where
  "struct_tpm_bios_log = CStruct ''tpm_bios_log'' False
     [Field ''bios_event_log'' (CPtr ''void''),
      Field ''bios_event_log_end'' (CPtr ''void'')]"

definition struct_tpm_chip_seqops :: cty where
  "struct_tpm_chip_seqops = CStruct ''tpm_chip_seqops'' False
     [Field ''chip'' (CPtr ''struct tpm_chip''),
      Field ''seqops'' (CPtr ''const struct seq_operations'')]"

definition struct_hwrng :: cty where
  "struct_hwrng = CStruct ''hwrng'' False
     [Field ''name'' (CPtr ''const char''),
      Field ''init'' (CPtr ''int (struct hwrng *)''),
      Field ''cleanup'' (CPtr ''void (struct hwrng *)''),
      Field ''data_present'' (CPtr ''int (struct hwrng *, int)''),
      Field ''data_read'' (CPtr ''int (struct hwrng *, u32 *)''),
      Field ''read'' (CPtr ''int (struct hwrng *, void *, size_t, bool)''),
      Field ''priv'' long_unsigned_int,
      Field ''quality'' short_unsigned_int,
      Field ''list'' struct_list_head,
      Field ''ref'' struct_kref,
      Field ''cleanup_work'' struct_work_struct,
      Field ''cleanup_done'' struct_completion,
      Field ''dying'' struct_completion]"

definition struct_tpm_bank_info :: cty where
  "struct_tpm_bank_info = CStruct ''tpm_bank_info'' False
     [Field ''alg_id'' u16,
      Field ''digest_size'' u16,
      Field ''crypto_id'' u16]"

definition struct_tpm_space :: cty where
  "struct_tpm_space = CStruct ''tpm_space'' False
     [Field ''context_tbl'' (CArr 3 u32),
      Field ''context_buf'' (CPtr ''u8''),
      Field ''session_tbl'' (CArr 3 u32),
      Field ''session_buf'' (CPtr ''u8''),
      Field ''buf_size'' u32]"

definition struct_tpm_chip :: cty where
  "struct_tpm_chip = CStruct ''tpm_chip'' False
     [Field ''dev'' struct_device,
      Field ''devs'' struct_device,
      Field ''cdev'' struct_cdev,
      Field ''cdevs'' struct_cdev,
      Field ''ops_sem'' struct_rw_semaphore,
      Field ''ops'' (CPtr ''const struct tpm_class_ops''),
      Field ''log'' struct_tpm_bios_log,
      Field ''bin_log_seqops'' struct_tpm_chip_seqops,
      Field ''ascii_log_seqops'' struct_tpm_chip_seqops,
      Field ''flags'' unsigned_int,
      Field ''dev_num'' c_int,
      Field ''is_open'' long_unsigned_int,
      Field ''hwrng_name'' (CArr 64 c_char),
      Field ''hwrng'' struct_hwrng,
      Field ''tpm_mutex'' struct_mutex,
      Field ''timeout_a'' long_unsigned_int,
      Field ''timeout_b'' long_unsigned_int,
      Field ''timeout_c'' long_unsigned_int,
      Field ''timeout_d'' long_unsigned_int,
      Field ''timeout_adjusted'' bool,
      Field ''duration'' (CArr 4 long_unsigned_int),
      Field ''duration_adjusted'' bool,
      Field ''bios_dir'' (CPtr ''struct dentry''),
      Field ''groups'' (CArr 8 (CPtr ''const struct attribute_group'')),
      Field ''groups_cnt'' unsigned_int,
      Field ''nr_allocated_banks'' u32,
      Field ''allocated_banks'' (CArr 8 struct_tpm_bank_info),
      Field ''acpi_dev_handle'' acpi_handle,
      Field ''ppi_version'' (CArr 4 c_char),
      Field ''work_space'' struct_tpm_space,
      Field ''last_cc'' u32,
      Field ''nr_commands'' u32,
      Field ''cc_attrs_tbl'' (CPtr ''u32''),
      Field ''locality'' c_int]"

definition struct_array_buffer :: cty where
  "struct_array_buffer = CStruct ''array_buffer'' False
     [Field ''tr'' (CPtr ''struct trace_array''),
      Field ''buffer'' (CPtr ''struct trace_buffer''),
      Field ''data'' (CPtr ''struct trace_array_cpu''),
      Field ''time_start'' u64,
      Field ''cpu'' c_int]"

definition struct_trace_array :: cty where
  "struct_trace_array = CStruct ''trace_array'' False
     [Field ''list'' struct_list_head,
      Field ''name'' (CPtr ''char''),
      Field ''array_buffer'' struct_array_buffer,
      Field ''snapshot_buffer'' struct_array_buffer,
      Field ''allocated_snapshot'' bool,
      Field ''snapshot_trigger_lock'' spinlock_t,
      Field ''snapshot'' unsigned_int,
      Field ''max_latency'' long_unsigned_int,
      Field ''d_max_latency'' (CPtr ''struct dentry''),
      Field ''fsnotify_work'' struct_work_struct,
      Field ''fsnotify_irqwork'' struct_irq_work,
      Field ''mapped'' unsigned_int,
      Field ''range_addr_start'' long_unsigned_int,
      Field ''range_addr_size'' long_unsigned_int,
      Field ''range_name'' (CPtr ''char''),
      Field ''text_delta'' c_long,
      Field ''module_delta'' (CPtr ''struct trace_module_delta''),
      Field ''scratch'' (CPtr ''void''),
      Field ''scratch_size'' c_int,
      Field ''buffer_disabled'' c_int,
      Field ''filtered_pids'' (CPtr ''struct trace_pid_list''),
      Field ''filtered_no_pids'' (CPtr ''struct trace_pid_list''),
      Field ''max_lock'' arch_spinlock_t,
      Field ''sys_refcount_enter'' c_int,
      Field ''sys_refcount_exit'' c_int,
      Field ''enter_syscall_files'' (CArr 472 (CPtr ''struct trace_event_file'')),
      Field ''exit_syscall_files'' (CArr 472 (CPtr ''struct trace_event_file'')),
      Field ''stop_count'' c_int,
      Field ''clock_id'' c_int,
      Field ''nr_topts'' c_int,
      Field ''clear_trace'' bool,
      Field ''buffer_percent'' c_int,
      Field ''n_err_log_entries'' unsigned_int,
      Field ''current_trace'' (CPtr ''struct tracer''),
      Field ''current_trace_flags'' (CPtr ''struct tracer_flags''),
      Field ''trace_flags'' u64,
      Field ''trace_flags_index'' (CArr 64 unsigned_char),
      Field ''flags'' unsigned_int,
      Field ''start_lock'' raw_spinlock_t,
      Field ''system_names'' (CPtr ''const char''),
      Field ''err_log'' struct_list_head,
      Field ''dir'' (CPtr ''struct dentry''),
      Field ''options'' (CPtr ''struct dentry''),
      Field ''percpu_dir'' (CPtr ''struct dentry''),
      Field ''event_dir'' (CPtr ''struct eventfs_inode''),
      Field ''topts'' (CPtr ''struct trace_options''),
      Field ''systems'' struct_list_head,
      Field ''events'' struct_list_head,
      Field ''marker_list'' struct_list_head,
      Field ''tracers'' struct_list_head,
      Field ''trace_marker_file'' (CPtr ''struct trace_event_file''),
      Field ''tracing_cpumask'' cpumask_var_t,
      Field ''pipe_cpumask'' cpumask_var_t,
      Field ''ref'' c_int,
      Field ''trace_ref'' c_int,
      Field ''mod_events'' struct_list_head,
      Field ''ops'' (CPtr ''struct ftrace_ops''),
      Field ''function_pids'' (CPtr ''struct trace_pid_list''),
      Field ''function_no_pids'' (CPtr ''struct trace_pid_list''),
      Field ''gops'' (CPtr ''struct fgraph_ops''),
      Field ''func_probes'' struct_list_head,
      Field ''mod_trace'' struct_list_head,
      Field ''mod_notrace'' struct_list_head,
      Field ''function_enabled'' c_int,
      Field ''no_filter_buffering_ref'' c_int,
      Field ''syscall_buf_sz'' unsigned_int,
      Field ''hist_vars'' struct_list_head,
      Field ''cond_snapshot'' (CPtr ''struct cond_snapshot''),
      Field ''last_func_repeats'' (CPtr ''struct trace_func_repeats''),
      Field ''ring_buffer_expanded'' bool]"

definition struct_trace_entry :: cty where
  "struct_trace_entry = CStruct ''trace_entry'' False
     [Field ''type'' short_unsigned_int,
      Field ''flags'' unsigned_char,
      Field ''preempt_count'' unsigned_char,
      Field ''pid'' c_int]"

definition struct_trace_event_raw_mmc_request_done :: cty where
  "struct_trace_event_raw_mmc_request_done = CStruct ''trace_event_raw_mmc_request_done'' False
     [Field ''ent'' struct_trace_entry,
      Field ''cmd_opcode'' u32,
      Field ''cmd_err'' c_int,
      Field ''cmd_resp'' (CArr 4 u32),
      Field ''cmd_retries'' unsigned_int,
      Field ''stop_opcode'' u32,
      Field ''stop_err'' c_int,
      Field ''stop_resp'' (CArr 4 u32),
      Field ''stop_retries'' unsigned_int,
      Field ''sbc_opcode'' u32,
      Field ''sbc_err'' c_int,
      Field ''sbc_resp'' (CArr 4 u32),
      Field ''sbc_retries'' unsigned_int,
      Field ''bytes_xfered'' unsigned_int,
      Field ''data_err'' c_int,
      Field ''tag'' c_int,
      Field ''can_retune'' unsigned_int,
      Field ''doing_retune'' unsigned_int,
      Field ''retune_now'' unsigned_int,
      Field ''need_retune'' c_int,
      Field ''hold_retune'' c_int,
      Field ''retune_period'' unsigned_int,
      Field ''mrq'' (CPtr ''struct mmc_request''),
      Field ''__data_loc_name'' u32,
      Field ''__data'' (CArr 0 c_char)]"

definition struct_trace_event_raw_mmc_request_start :: cty where
  "struct_trace_event_raw_mmc_request_start = CStruct ''trace_event_raw_mmc_request_start'' False
     [Field ''ent'' struct_trace_entry,
      Field ''cmd_opcode'' u32,
      Field ''cmd_arg'' u32,
      Field ''cmd_flags'' unsigned_int,
      Field ''cmd_retries'' unsigned_int,
      Field ''stop_opcode'' u32,
      Field ''stop_arg'' u32,
      Field ''stop_flags'' unsigned_int,
      Field ''stop_retries'' unsigned_int,
      Field ''sbc_opcode'' u32,
      Field ''sbc_arg'' u32,
      Field ''sbc_flags'' unsigned_int,
      Field ''sbc_retries'' unsigned_int,
      Field ''blocks'' unsigned_int,
      Field ''blk_addr'' unsigned_int,
      Field ''blksz'' unsigned_int,
      Field ''data_flags'' unsigned_int,
      Field ''tag'' c_int,
      Field ''can_retune'' unsigned_int,
      Field ''doing_retune'' unsigned_int,
      Field ''retune_now'' unsigned_int,
      Field ''need_retune'' c_int,
      Field ''hold_retune'' c_int,
      Field ''retune_period'' unsigned_int,
      Field ''mrq'' (CPtr ''struct mmc_request''),
      Field ''__data_loc_name'' u32,
      Field ''__data'' (CArr 0 c_char)]"

definition struct_tracer :: cty where
  "struct_tracer = CStruct ''tracer'' False
     [Field ''name'' (CPtr ''const char''),
      Field ''init'' (CPtr ''int (struct trace_array *)''),
      Field ''reset'' (CPtr ''void (struct trace_array *)''),
      Field ''start'' (CPtr ''void (struct trace_array *)''),
      Field ''stop'' (CPtr ''void (struct trace_array *)''),
      Field ''update_thresh'' (CPtr ''int (struct trace_array *)''),
      Field ''open'' (CPtr ''void (struct trace_iterator *)''),
      Field ''pipe_open'' (CPtr ''void (struct trace_iterator *)''),
      Field ''close'' (CPtr ''void (struct trace_iterator *)''),
      Field ''pipe_close'' (CPtr ''void (struct trace_iterator *)''),
      Field ''read'' (CPtr ''ssize_t (struct trace_iterator *, struct file *, char *, size_t, loff_t *)''),
      Field ''splice_read'' (CPtr ''ssize_t (struct trace_iterator *, struct file *, loff_t *, struct pipe_inode_info *, size_t, unsigned int)''),
      Field ''print_header'' (CPtr ''void (struct seq_file *)''),
      Field ''print_line'' (CPtr ''enum print_line_t (struct trace_iterator *)''),
      Field ''set_flag'' (CPtr ''int (struct trace_array *, u32, u32, int)''),
      Field ''flag_changed'' (CPtr ''int (struct trace_array *, u64, int)''),
      Field ''next'' (CPtr ''struct tracer''),
      Field ''flags'' (CPtr ''struct tracer_flags''),
      Field ''default_flags'' (CPtr ''struct tracer_flags''),
      Field ''enabled'' c_int,
      Field ''print_max'' bool,
      Field ''allow_instances'' bool,
      Field ''use_max_tr'' bool,
      Field ''noboot'' bool]"

definition struct_transaction_chp_stats_s :: cty where
  "struct_transaction_chp_stats_s = CStruct ''transaction_chp_stats_s'' False
     [Field ''cs_chp_time'' long_unsigned_int,
      Field ''cs_forced_to_close'' c__u32,
      Field ''cs_written'' c__u32,
      Field ''cs_dropped'' c__u32]"

definition struct_transaction_s :: cty where
  "struct_transaction_s = CStruct ''transaction_s'' False
     [Field ''t_journal'' (CPtr ''journal_t''),
      Field ''t_tid'' tid_t,
      Field ''t_state'' (CEnum 4 [(''T_RUNNING'', 0), (''T_LOCKED'', 1), (''T_SWITCH'', 2), (''T_FLUSH'', 3),
         (''T_COMMIT'', 4), (''T_COMMIT_DFLUSH'', 5), (''T_COMMIT_JFLUSH'', 6),
         (''T_COMMIT_CALLBACK'', 7), (''T_FINISHED'', 8)]),
      Field ''t_log_start'' long_unsigned_int,
      Field ''t_nr_buffers'' c_int,
      Field ''t_reserved_list'' (CPtr ''struct journal_head''),
      Field ''t_buffers'' (CPtr ''struct journal_head''),
      Field ''t_forget'' (CPtr ''struct journal_head''),
      Field ''t_checkpoint_list'' (CPtr ''struct journal_head''),
      Field ''t_shadow_list'' (CPtr ''struct journal_head''),
      Field ''t_inode_list'' struct_list_head,
      Field ''t_max_wait'' long_unsigned_int,
      Field ''t_start'' long_unsigned_int,
      Field ''t_requested'' long_unsigned_int,
      Field ''t_chp_stats'' struct_transaction_chp_stats_s,
      Field ''t_updates'' atomic_t,
      Field ''t_outstanding_credits'' atomic_t,
      Field ''t_outstanding_revokes'' atomic_t,
      Field ''t_handle_count'' atomic_t,
      Field ''t_cpnext'' (CPtr ''transaction_t''),
      Field ''t_cpprev'' (CPtr ''transaction_t''),
      Field ''t_expires'' long_unsigned_int,
      Field ''t_start_time'' ktime_t,
      BitField ''t_synchronous_commit'' unsigned_int 1,
      Field ''t_need_data_flush'' c_int]"

definition struct_tun_file :: cty where
  "struct_tun_file = CStruct ''tun_file'' False
     [Field ''sk'' struct_sock,
      BitField [] c_long 64,
      BitField [] c_long 64,
      BitField [] c_long 64,
      Field ''socket'' struct_socket,
      Field ''tun'' (CPtr ''struct tun_struct''),
      Field ''fasync'' (CPtr ''struct fasync_struct''),
      Field ''flags'' unsigned_int,
      Field [] (CUnion [] False
        [Field ''queue_index'' u16,
         Field ''ifindex'' unsigned_int]),
      Field ''napi'' struct_napi_struct,
      Field ''napi_enabled'' bool,
      Field ''napi_frags_enabled'' bool,
      Field ''napi_mutex'' struct_mutex,
      Field ''next'' struct_list_head,
      Field ''detached'' (CPtr ''struct tun_struct''),
      BitField [] c_long 64,
      BitField [] c_long 64,
      BitField [] c_long 64,
      BitField [] c_long 64,
      BitField [] c_long 64,
      BitField [] c_long 64,
      BitField [] c_long 64,
      Field ''tx_ring'' struct_ptr_ring,
      Field ''xdp_rxq'' struct_xdp_rxq_info]"

definition struct_tap_filter :: cty where
  "struct_tap_filter = CStruct ''tap_filter'' False
     [Field ''count'' unsigned_int,
      Field ''mask'' (CArr 2 u32),
      Field ''addr'' (CArr 48 unsigned_char)]"

definition struct_sock_fprog :: cty where
  "struct_sock_fprog = CStruct ''sock_fprog'' False
     [Field ''len'' short_unsigned_int,
      Field ''filter'' (CPtr ''struct sock_filter'')]"

definition struct_ethtool_link_settings :: cty where
  "struct_ethtool_link_settings = CStruct ''ethtool_link_settings'' False
     [Field ''cmd'' c__u32,
      Field ''speed'' c__u32,
      Field ''duplex'' c__u8,
      Field ''port'' c__u8,
      Field ''phy_address'' c__u8,
      Field ''autoneg'' c__u8,
      Field ''mdio_support'' c__u8,
      Field ''eth_tp_mdix'' c__u8,
      Field ''eth_tp_mdix_ctrl'' c__u8,
      Field ''link_mode_masks_nwords'' c__s8,
      Field ''transceiver'' c__u8,
      Field ''master_slave_cfg'' c__u8,
      Field ''master_slave_state'' c__u8,
      Field ''rate_matching'' c__u8,
      Field ''reserved'' (CArr 7 c__u32)]"

definition struct_ethtool_link_ksettings :: cty where
  "struct_ethtool_link_ksettings = CStruct ''ethtool_link_ksettings'' False
     [Field ''base'' struct_ethtool_link_settings,
      Field ''link_modes'' (CStruct [] False
        [Field ''supported'' (CArr 2 long_unsigned_int),
         Field ''advertising'' (CArr 2 long_unsigned_int),
         Field ''lp_advertising'' (CArr 2 long_unsigned_int)]),
      Field ''lanes'' u32]"

definition struct_tun_struct :: cty where
  "struct_tun_struct = CStruct ''tun_struct'' False
     [Field ''tfiles'' (CArr 256 (CPtr ''struct tun_file'')),
      Field ''numqueues'' unsigned_int,
      Field ''flags'' unsigned_int,
      Field ''owner'' kuid_t,
      Field ''group'' kgid_t,
      Field ''dev'' (CPtr ''struct net_device''),
      Field ''set_features'' netdev_features_t,
      Field ''align'' c_int,
      Field ''vnet_hdr_sz'' c_int,
      Field ''sndbuf'' c_int,
      Field ''txflt'' struct_tap_filter,
      Field ''fprog'' struct_sock_fprog,
      Field ''filter_attached'' bool,
      Field ''msg_enable'' u32,
      Field ''lock'' spinlock_t,
      Field ''flows'' (CArr 1024 struct_hlist_head),
      Field ''flow_gc_timer'' struct_timer_list,
      Field ''ageing_time'' long_unsigned_int,
      Field ''numdisabled'' unsigned_int,
      Field ''disabled'' struct_list_head,
      Field ''security'' (CPtr ''void''),
      Field ''flow_count'' u32,
      Field ''rx_batched'' u32,
      Field ''rx_frame_errors'' atomic_long_t,
      Field ''xdp_prog'' (CPtr ''struct bpf_prog''),
      Field ''steering_prog'' (CPtr ''struct tun_prog''),
      Field ''filter_prog'' (CPtr ''struct tun_prog''),
      Field ''link_ksettings'' struct_ethtool_link_ksettings,
      Field ''file'' (CPtr ''struct file''),
      Field ''ifr'' (CPtr ''struct ifreq'')]"

definition struct_uart_8250_port :: cty where
  "struct_uart_8250_port = CStruct ''uart_8250_port'' False
     [Field ''port'' struct_uart_port,
      Field ''timer'' struct_timer_list,
      Field ''list'' struct_list_head,
      Field ''capabilities'' u32,
      Field ''bugs'' u16,
      Field ''tx_loadsz'' unsigned_int,
      Field ''acr'' unsigned_char,
      Field ''fcr'' unsigned_char,
      Field ''ier'' unsigned_char,
      Field ''lcr'' unsigned_char,
      Field ''mcr'' unsigned_char,
      Field ''cur_iotype'' unsigned_char,
      Field ''rpm_tx_active'' unsigned_int,
      Field ''canary'' unsigned_char,
      Field ''probe'' unsigned_char,
      Field ''gpios'' (CPtr ''struct mctrl_gpios''),
      Field ''lsr_saved_flags'' u16,
      Field ''lsr_save_mask'' u16,
      Field ''msr_saved_flags'' unsigned_char,
      Field ''dma'' (CPtr ''struct uart_8250_dma''),
      Field ''ops'' (CPtr ''const struct uart_8250_ops''),
      Field ''dl_read'' (CPtr ''u32 (struct uart_8250_port *)''),
      Field ''dl_write'' (CPtr ''void (struct uart_8250_port *, u32)''),
      Field ''em485'' (CPtr ''struct uart_8250_em485''),
      Field ''rs485_start_tx'' (CPtr ''void (struct uart_8250_port *, bool)''),
      Field ''rs485_stop_tx'' (CPtr ''void (struct uart_8250_port *, bool)''),
      Field ''overrun_backoff'' struct_delayed_work,
      Field ''overrun_backoff_time_ms'' u32]"

definition struct_uart_ops :: cty where
  "struct_uart_ops = CStruct ''uart_ops'' False
     [Field ''tx_empty'' (CPtr ''unsigned int (struct uart_port *)''),
      Field ''set_mctrl'' (CPtr ''void (struct uart_port *, unsigned int)''),
      Field ''get_mctrl'' (CPtr ''unsigned int (struct uart_port *)''),
      Field ''stop_tx'' (CPtr ''void (struct uart_port *)''),
      Field ''start_tx'' (CPtr ''void (struct uart_port *)''),
      Field ''throttle'' (CPtr ''void (struct uart_port *)''),
      Field ''unthrottle'' (CPtr ''void (struct uart_port *)''),
      Field ''send_xchar'' (CPtr ''void (struct uart_port *, char)''),
      Field ''stop_rx'' (CPtr ''void (struct uart_port *)''),
      Field ''start_rx'' (CPtr ''void (struct uart_port *)''),
      Field ''enable_ms'' (CPtr ''void (struct uart_port *)''),
      Field ''break_ctl'' (CPtr ''void (struct uart_port *, int)''),
      Field ''startup'' (CPtr ''int (struct uart_port *)''),
      Field ''shutdown'' (CPtr ''void (struct uart_port *)''),
      Field ''flush_buffer'' (CPtr ''void (struct uart_port *)''),
      Field ''set_termios'' (CPtr ''void (struct uart_port *, struct ktermios *, const struct ktermios *)''),
      Field ''set_ldisc'' (CPtr ''void (struct uart_port *, struct ktermios *)''),
      Field ''pm'' (CPtr ''void (struct uart_port *, unsigned int, unsigned int)''),
      Field ''type'' (CPtr ''const char * (struct uart_port *)''),
      Field ''release_port'' (CPtr ''void (struct uart_port *)''),
      Field ''request_port'' (CPtr ''int (struct uart_port *)''),
      Field ''config_port'' (CPtr ''void (struct uart_port *, int)''),
      Field ''verify_port'' (CPtr ''int (struct uart_port *, struct serial_struct *)''),
      Field ''ioctl'' (CPtr ''int (struct uart_port *, unsigned int, long unsigned int)''),
      Field ''poll_init'' (CPtr ''int (struct uart_port *)''),
      Field ''poll_put_char'' (CPtr ''void (struct uart_port *, unsigned char)''),
      Field ''poll_get_char'' (CPtr ''int (struct uart_port *)'')]"

definition struct_uffd_msg :: cty where
  "struct_uffd_msg = CStruct ''uffd_msg'' False
     [Field ''event'' c__u8,
      Field ''reserved1'' c__u8,
      Field ''reserved2'' c__u16,
      Field ''reserved3'' c__u32,
      Field ''arg'' (CUnion [] False
        [Field ''pagefault'' (CStruct [] False
           [Field ''flags'' c__u64,
            Field ''address'' c__u64,
            Field ''feat'' (CUnion [] False
              [Field ''ptid'' c__u32])]),
         Field ''fork'' (CStruct [] False
           [Field ''ufd'' c__u32]),
         Field ''remap'' (CStruct [] False
           [Field ''from'' c__u64,
            Field ''to'' c__u64,
            Field ''len'' c__u64]),
         Field ''remove'' (CStruct [] False
           [Field ''start'' c__u64,
            Field ''end'' c__u64]),
         Field ''reserved'' (CStruct [] False
           [Field ''reserved1'' c__u64,
            Field ''reserved2'' c__u64,
            Field ''reserved3'' c__u64])])]"

definition enum_uhci_rh_state :: cty where
  "enum_uhci_rh_state = CEnum 4
     [(''UHCI_RH_RESET'', 0), (''UHCI_RH_SUSPENDED'', 1), (''UHCI_RH_AUTO_STOPPED'', 2),
      (''UHCI_RH_RESUMING'', 3), (''UHCI_RH_SUSPENDING'', 4), (''UHCI_RH_RUNNING'', 5),
      (''UHCI_RH_RUNNING_NODEVS'', 6)]"

definition struct_uhci_hcd :: cty where
  "struct_uhci_hcd = CStruct ''uhci_hcd'' False
     [Field ''io_addr'' long_unsigned_int,
      Field ''regs'' (CPtr ''void''),
      Field ''qh_pool'' (CPtr ''struct dma_pool''),
      Field ''td_pool'' (CPtr ''struct dma_pool''),
      Field ''term_td'' (CPtr ''struct uhci_td''),
      Field ''skelqh'' (CArr 11 (CPtr ''struct uhci_qh'')),
      Field ''next_qh'' (CPtr ''struct uhci_qh''),
      Field ''lock'' spinlock_t,
      Field ''frame_dma_handle'' dma_addr_t,
      Field ''frame'' (CPtr ''__le32''),
      Field ''frame_cpu'' (CPtr ''void *''),
      Field ''rh_state'' enum_uhci_rh_state,
      Field ''auto_stop_time'' long_unsigned_int,
      Field ''frame_number'' unsigned_int,
      Field ''is_stopped'' unsigned_int,
      Field ''last_iso_frame'' unsigned_int,
      Field ''cur_iso_frame'' unsigned_int,
      BitField ''scan_in_progress'' unsigned_int 1,
      BitField ''need_rescan'' unsigned_int 1,
      BitField ''dead'' unsigned_int 1,
      BitField ''RD_enable'' unsigned_int 1,
      BitField ''is_initialized'' unsigned_int 1,
      BitField ''fsbr_is_on'' unsigned_int 1,
      BitField ''fsbr_is_wanted'' unsigned_int 1,
      BitField ''fsbr_expiring'' unsigned_int 1,
      Field ''fsbr_timer'' struct_timer_list,
      BitField ''oc_low'' unsigned_int 1,
      BitField ''wait_for_hp'' unsigned_int 1,
      BitField ''big_endian_mmio'' unsigned_int 1,
      BitField ''big_endian_desc'' unsigned_int 1,
      BitField ''is_aspeed'' unsigned_int 1,
      Field ''port_c_suspend'' long_unsigned_int,
      Field ''resuming_ports'' long_unsigned_int,
      Field ''ports_timeout'' long_unsigned_int,
      Field ''idle_qh_list'' struct_list_head,
      Field ''rh_numports'' c_int,
      Field ''waitqh'' wait_queue_head_t,
      Field ''num_waiting'' c_int,
      Field ''total_load'' c_int,
      Field ''load'' (CArr 32 short_int),
      Field ''clk'' (CPtr ''struct clk''),
      Field ''rsts'' (CPtr ''struct reset_control''),
      Field ''reset_hc'' (CPtr ''void (struct uhci_hcd *)''),
      Field ''check_and_reset_hc'' (CPtr ''int (struct uhci_hcd *)''),
      Field ''configure_hc'' (CPtr ''void (struct uhci_hcd *)''),
      Field ''resume_detect_interrupts_are_broken'' (CPtr ''int (struct uhci_hcd *)''),
      Field ''global_suspend_mode_is_broken'' (CPtr ''int (struct uhci_hcd *)'')]"

definition struct_uhci_qh :: cty where
  "struct_uhci_qh = CStruct ''uhci_qh'' False
     [Field ''link'' c__le32,
      Field ''element'' c__le32,
      Field ''dma_handle'' dma_addr_t,
      Field ''node'' struct_list_head,
      Field ''hep'' (CPtr ''struct usb_host_endpoint''),
      Field ''udev'' (CPtr ''struct usb_device''),
      Field ''queue'' struct_list_head,
      Field ''dummy_td'' (CPtr ''struct uhci_td''),
      Field ''post_td'' (CPtr ''struct uhci_td''),
      Field ''iso_packet_desc'' (CPtr ''struct usb_iso_packet_descriptor''),
      Field ''advance_jiffies'' long_unsigned_int,
      Field ''unlink_frame'' unsigned_int,
      Field ''period'' unsigned_int,
      Field ''phase'' short_int,
      Field ''load'' short_int,
      Field ''iso_frame'' unsigned_int,
      Field ''state'' c_int,
      Field ''type'' c_int,
      Field ''skel'' c_int,
      BitField ''initial_toggle'' unsigned_int 1,
      BitField ''needs_fixup'' unsigned_int 1,
      BitField ''is_stopped'' unsigned_int 1,
      BitField ''wait_expired'' unsigned_int 1,
      BitField ''bandwidth_reserved'' unsigned_int 1]"

definition usb_complete_t :: cty where [layout_simps]:
  "usb_complete_t = CPtr ''void (struct urb *)''"

definition struct_usb_iso_packet_descriptor :: cty where
  "struct_usb_iso_packet_descriptor = CStruct ''usb_iso_packet_descriptor'' False
     [Field ''offset'' unsigned_int,
      Field ''length'' unsigned_int,
      Field ''actual_length'' unsigned_int,
      Field ''status'' c_int]"

definition struct_urb :: cty where
  "struct_urb = CStruct ''urb'' False
     [Field ''kref'' struct_kref,
      Field ''unlinked'' c_int,
      Field ''hcpriv'' (CPtr ''void''),
      Field ''use_count'' atomic_t,
      Field ''reject'' atomic_t,
      Field ''urb_list'' struct_list_head,
      Field ''anchor_list'' struct_list_head,
      Field ''anchor'' (CPtr ''struct usb_anchor''),
      Field ''dev'' (CPtr ''struct usb_device''),
      Field ''ep'' (CPtr ''struct usb_host_endpoint''),
      Field ''pipe'' unsigned_int,
      Field ''stream_id'' unsigned_int,
      Field ''status'' c_int,
      Field ''transfer_flags'' unsigned_int,
      Field ''transfer_buffer'' (CPtr ''void''),
      Field ''transfer_dma'' dma_addr_t,
      Field ''sg'' (CPtr ''struct scatterlist''),
      Field ''sgt'' (CPtr ''struct sg_table''),
      Field ''num_mapped_sgs'' c_int,
      Field ''num_sgs'' c_int,
      Field ''transfer_buffer_length'' u32,
      Field ''actual_length'' u32,
      Field ''setup_packet'' (CPtr ''unsigned char''),
      Field ''setup_dma'' dma_addr_t,
      Field ''start_frame'' c_int,
      Field ''number_of_packets'' c_int,
      Field ''interval'' c_int,
      Field ''error_count'' c_int,
      Field ''context'' (CPtr ''void''),
      Field ''complete'' usb_complete_t,
      Field ''iso_frame_desc'' (CArr 0 struct_usb_iso_packet_descriptor)]"

definition enum_usb_device_state :: cty where
  "enum_usb_device_state = CEnum 4
     [(''USB_STATE_NOTATTACHED'', 0), (''USB_STATE_ATTACHED'', 1), (''USB_STATE_POWERED'', 2),
      (''USB_STATE_RECONNECTING'', 3), (''USB_STATE_UNAUTHENTICATED'', 4),
      (''USB_STATE_DEFAULT'', 5), (''USB_STATE_ADDRESS'', 6), (''USB_STATE_CONFIGURED'', 7),
      (''USB_STATE_SUSPENDED'', 8)]"

definition enum_usb_device_speed :: cty where
  "enum_usb_device_speed = CEnum 4
     [(''USB_SPEED_UNKNOWN'', 0), (''USB_SPEED_LOW'', 1), (''USB_SPEED_FULL'', 2),
      (''USB_SPEED_HIGH'', 3), (''USB_SPEED_WIRELESS'', 4), (''USB_SPEED_SUPER'', 5),
      (''USB_SPEED_SUPER_PLUS'', 6)]"

definition enum_usb_ssp_rate :: cty where
  "enum_usb_ssp_rate = CEnum 4
     [(''USB_SSP_GEN_UNKNOWN'', 0), (''USB_SSP_GEN_2x1'', 1), (''USB_SSP_GEN_1x2'', 2),
      (''USB_SSP_GEN_2x2'', 3)]"

definition struct_usb_endpoint_descriptor :: cty where
  "struct_usb_endpoint_descriptor = CStruct ''usb_endpoint_descriptor'' True
     [Field ''bLength'' c__u8,
      Field ''bDescriptorType'' c__u8,
      Field ''bEndpointAddress'' c__u8,
      Field ''bmAttributes'' c__u8,
      Field ''wMaxPacketSize'' c__le16,
      Field ''bInterval'' c__u8,
      Field ''bRefresh'' c__u8,
      Field ''bSynchAddress'' c__u8]"

definition struct_usb_ss_ep_comp_descriptor :: cty where
  "struct_usb_ss_ep_comp_descriptor = CStruct ''usb_ss_ep_comp_descriptor'' False
     [Field ''bLength'' c__u8,
      Field ''bDescriptorType'' c__u8,
      Field ''bMaxBurst'' c__u8,
      Field ''bmAttributes'' c__u8,
      Field ''wBytesPerInterval'' c__le16]"

definition struct_usb_ssp_isoc_ep_comp_descriptor :: cty where
  "struct_usb_ssp_isoc_ep_comp_descriptor = CStruct ''usb_ssp_isoc_ep_comp_descriptor'' False
     [Field ''bLength'' c__u8,
      Field ''bDescriptorType'' c__u8,
      Field ''wReseved'' c__le16,
      Field ''dwBytesPerInterval'' c__le32]"

definition struct_usb_eusb2_isoc_ep_comp_descriptor :: cty where
  "struct_usb_eusb2_isoc_ep_comp_descriptor = CStruct ''usb_eusb2_isoc_ep_comp_descriptor'' False
     [Field ''bLength'' c__u8,
      Field ''bDescriptorType'' c__u8,
      Field ''wMaxPacketSize'' c__le16,
      Field ''dwBytesPerInterval'' c__le32]"

definition struct_usb_host_endpoint :: cty where
  "struct_usb_host_endpoint = CStruct ''usb_host_endpoint'' True
     [Field ''desc'' struct_usb_endpoint_descriptor,
      Field ''ss_ep_comp'' struct_usb_ss_ep_comp_descriptor,
      Field ''ssp_isoc_ep_comp'' struct_usb_ssp_isoc_ep_comp_descriptor,
      Field ''eusb2_isoc_ep_comp'' struct_usb_eusb2_isoc_ep_comp_descriptor,
      BitField [] c_long 0,
      Field ''urb_list'' struct_list_head,
      Field ''hcpriv'' (CPtr ''void''),
      Field ''ep_dev'' (CPtr ''struct ep_device''),
      Field ''extra'' (CPtr ''unsigned char''),
      Field ''extralen'' c_int,
      Field ''enabled'' c_int,
      Field ''streams'' c_int,
      BitField [] c_long 0]"

definition struct_usb_device_descriptor :: cty where
  "struct_usb_device_descriptor = CStruct ''usb_device_descriptor'' False
     [Field ''bLength'' c__u8,
      Field ''bDescriptorType'' c__u8,
      Field ''bcdUSB'' c__le16,
      Field ''bDeviceClass'' c__u8,
      Field ''bDeviceSubClass'' c__u8,
      Field ''bDeviceProtocol'' c__u8,
      Field ''bMaxPacketSize0'' c__u8,
      Field ''idVendor'' c__le16,
      Field ''idProduct'' c__le16,
      Field ''bcdDevice'' c__le16,
      Field ''iManufacturer'' c__u8,
      Field ''iProduct'' c__u8,
      Field ''iSerialNumber'' c__u8,
      Field ''bNumConfigurations'' c__u8]"

definition enum_usb_link_tunnel_mode :: cty where
  "enum_usb_link_tunnel_mode = CEnum 4
     [(''USB_LINK_UNKNOWN'', 0), (''USB_LINK_NATIVE'', 1), (''USB_LINK_TUNNELED'', 2)]"

definition struct_usb2_lpm_parameters :: cty where
  "struct_usb2_lpm_parameters = CStruct ''usb2_lpm_parameters'' False
     [Field ''besl'' unsigned_int,
      Field ''timeout'' c_int]"

definition struct_usb3_lpm_parameters :: cty where
  "struct_usb3_lpm_parameters = CStruct ''usb3_lpm_parameters'' False
     [Field ''mel'' unsigned_int,
      Field ''pel'' unsigned_int,
      Field ''sel'' unsigned_int,
      Field ''timeout'' c_int]"

definition struct_usb_device :: cty where
  "struct_usb_device = CStruct ''usb_device'' False
     [Field ''devnum'' c_int,
      Field ''devpath'' (CArr 16 c_char),
      Field ''route'' u32,
      Field ''state'' enum_usb_device_state,
      Field ''speed'' enum_usb_device_speed,
      Field ''rx_lanes'' unsigned_int,
      Field ''tx_lanes'' unsigned_int,
      Field ''ssp_rate'' enum_usb_ssp_rate,
      Field ''tt'' (CPtr ''struct usb_tt''),
      Field ''ttport'' c_int,
      Field ''toggle'' (CArr 2 unsigned_int),
      Field ''parent'' (CPtr ''struct usb_device''),
      Field ''bus'' (CPtr ''struct usb_bus''),
      Field ''ep0'' struct_usb_host_endpoint,
      Field ''dev'' struct_device,
      Field ''descriptor'' struct_usb_device_descriptor,
      Field ''bos'' (CPtr ''struct usb_host_bos''),
      Field ''config'' (CPtr ''struct usb_host_config''),
      Field ''actconfig'' (CPtr ''struct usb_host_config''),
      Field ''ep_in'' (CArr 16 (CPtr ''struct usb_host_endpoint'')),
      Field ''ep_out'' (CArr 16 (CPtr ''struct usb_host_endpoint'')),
      Field ''rawdescriptors'' (CPtr ''char *''),
      Field ''bus_mA'' short_unsigned_int,
      Field ''portnum'' u8,
      Field ''level'' u8,
      Field ''devaddr'' u8,
      BitField ''can_submit'' unsigned_int 1,
      BitField ''persist_enabled'' unsigned_int 1,
      BitField ''reset_in_progress'' unsigned_int 1,
      BitField ''have_langid'' unsigned_int 1,
      BitField ''authorized'' unsigned_int 1,
      BitField ''authenticated'' unsigned_int 1,
      BitField ''lpm_capable'' unsigned_int 1,
      BitField ''lpm_devinit_allow'' unsigned_int 1,
      BitField ''usb2_hw_lpm_capable'' unsigned_int 1,
      BitField ''usb2_hw_lpm_besl_capable'' unsigned_int 1,
      BitField ''usb2_hw_lpm_enabled'' unsigned_int 1,
      BitField ''usb2_hw_lpm_allowed'' unsigned_int 1,
      BitField ''usb3_lpm_u1_enabled'' unsigned_int 1,
      BitField ''usb3_lpm_u2_enabled'' unsigned_int 1,
      Field ''string_langid'' c_int,
      Field ''product'' (CPtr ''char''),
      Field ''manufacturer'' (CPtr ''char''),
      Field ''serial'' (CPtr ''char''),
      Field ''filelist'' struct_list_head,
      Field ''maxchild'' c_int,
      Field ''quirks'' u32,
      Field ''urbnum'' atomic_t,
      Field ''active_duration'' long_unsigned_int,
      Field ''connect_time'' long_unsigned_int,
      BitField ''do_remote_wakeup'' unsigned_int 1,
      BitField ''reset_resume'' unsigned_int 1,
      BitField ''port_is_suspended'' unsigned_int 1,
      BitField ''offload_pm_locked'' unsigned_int 1,
      Field ''offload_usage'' c_int,
      Field ''offload_lock'' spinlock_t,
      Field ''tunnel_mode'' enum_usb_link_tunnel_mode,
      Field ''usb4_link'' (CPtr ''struct device_link''),
      Field ''slot_id'' c_int,
      Field ''l1_params'' struct_usb2_lpm_parameters,
      Field ''u1_params'' struct_usb3_lpm_parameters,
      Field ''u2_params'' struct_usb3_lpm_parameters,
      Field ''lpm_disable_count'' unsigned_int,
      Field ''hub_delay'' u16,
      BitField ''use_generic_driver'' unsigned_int 1]"

definition struct_usb_gadget :: cty where
  "struct_usb_gadget = CStruct ''usb_gadget'' False
     [Field ''work'' struct_work_struct,
      Field ''udc'' (CPtr ''struct usb_udc''),
      Field ''ops'' (CPtr ''const struct usb_gadget_ops''),
      Field ''ep0'' (CPtr ''struct usb_ep''),
      Field ''ep_list'' struct_list_head,
      Field ''speed'' enum_usb_device_speed,
      Field ''max_speed'' enum_usb_device_speed,
      Field ''ssp_rate'' enum_usb_ssp_rate,
      Field ''max_ssp_rate'' enum_usb_ssp_rate,
      Field ''state'' enum_usb_device_state,
      Field ''state_lock'' spinlock_t,
      Field ''teardown'' bool,
      Field ''name'' (CPtr ''const char''),
      Field ''dev'' struct_device,
      Field ''isoch_delay'' unsigned_int,
      Field ''out_epnum'' unsigned_int,
      Field ''in_epnum'' unsigned_int,
      Field ''mA'' unsigned_int,
      Field ''otg_caps'' (CPtr ''struct usb_otg_caps''),
      BitField ''sg_supported'' unsigned_int 1,
      BitField ''is_otg'' unsigned_int 1,
      BitField ''is_a_peripheral'' unsigned_int 1,
      BitField ''b_hnp_enable'' unsigned_int 1,
      BitField ''a_hnp_support'' unsigned_int 1,
      BitField ''a_alt_hnp_support'' unsigned_int 1,
      BitField ''hnp_polling_support'' unsigned_int 1,
      BitField ''host_request_flag'' unsigned_int 1,
      BitField ''quirk_ep_out_aligned_size'' unsigned_int 1,
      BitField ''quirk_altset_not_supp'' unsigned_int 1,
      BitField ''quirk_stall_not_supp'' unsigned_int 1,
      BitField ''quirk_zlp_not_supp'' unsigned_int 1,
      BitField ''quirk_avoids_skb_reserve'' unsigned_int 1,
      BitField ''is_selfpowered'' unsigned_int 1,
      BitField ''deactivated'' unsigned_int 1,
      BitField ''connected'' unsigned_int 1,
      BitField ''lpm_capable'' unsigned_int 1,
      BitField ''wakeup_capable'' unsigned_int 1,
      BitField ''wakeup_armed'' unsigned_int 1,
      Field ''irq'' c_int,
      Field ''id_number'' c_int]"

definition struct_usb_bus :: cty where
  "struct_usb_bus = CStruct ''usb_bus'' False
     [Field ''controller'' (CPtr ''struct device''),
      Field ''sysdev'' (CPtr ''struct device''),
      Field ''busnum'' c_int,
      Field ''bus_name'' (CPtr ''const char''),
      Field ''uses_pio_for_control'' u8,
      Field ''otg_port'' u8,
      BitField ''is_b_host'' unsigned_int 1,
      BitField ''b_hnp_enable'' unsigned_int 1,
      BitField ''no_stop_on_short'' unsigned_int 1,
      BitField ''no_sg_constraint'' unsigned_int 1,
      Field ''sg_tablesize'' unsigned_int,
      Field ''devnum_next'' c_int,
      Field ''devnum_next_mutex'' struct_mutex,
      Field ''devmap'' (CArr 2 long_unsigned_int),
      Field ''root_hub'' (CPtr ''struct usb_device''),
      Field ''hs_companion'' (CPtr ''struct usb_bus''),
      Field ''bandwidth_allocated'' c_int,
      Field ''bandwidth_int_reqs'' c_int,
      Field ''bandwidth_isoc_reqs'' c_int,
      Field ''resuming_ports'' unsigned_int,
      Field ''mon_bus'' (CPtr ''struct mon_bus''),
      Field ''monitored'' c_int]"

definition enum_usb_dev_authorize_policy :: cty where
  "enum_usb_dev_authorize_policy = CEnum 4
     [(''USB_DEVICE_AUTHORIZE_NONE'', 0), (''USB_DEVICE_AUTHORIZE_ALL'', 1),
      (''USB_DEVICE_AUTHORIZE_INTERNAL'', 2)]"

definition struct_giveback_urb_bh :: cty where
  "struct_giveback_urb_bh = CStruct ''giveback_urb_bh'' False
     [Field ''running'' bool,
      Field ''high_prio'' bool,
      Field ''lock'' spinlock_t,
      Field ''head'' struct_list_head,
      Field ''bh'' struct_work_struct,
      Field ''completing_ep'' (CPtr ''struct usb_host_endpoint'')]"

definition struct_usb_hcd :: cty where
  "struct_usb_hcd = CStruct ''usb_hcd'' False
     [Field ''self'' struct_usb_bus,
      Field ''kref'' struct_kref,
      Field ''product_desc'' (CPtr ''const char''),
      Field ''speed'' c_int,
      Field ''irq_descr'' (CArr 24 c_char),
      Field ''rh_timer'' struct_timer_list,
      Field ''status_urb'' (CPtr ''struct urb''),
      Field ''wakeup_work'' struct_work_struct,
      Field ''died_work'' struct_work_struct,
      Field ''driver'' (CPtr ''const struct hc_driver''),
      Field ''usb_phy'' (CPtr ''struct usb_phy''),
      Field ''phy_roothub'' (CPtr ''struct usb_phy_roothub''),
      Field ''flags'' long_unsigned_int,
      Field ''dev_policy'' enum_usb_dev_authorize_policy,
      BitField ''rh_registered'' unsigned_int 1,
      BitField ''rh_pollable'' unsigned_int 1,
      BitField ''msix_enabled'' unsigned_int 1,
      BitField ''msi_enabled'' unsigned_int 1,
      BitField ''skip_phy_initialization'' unsigned_int 1,
      BitField ''uses_new_polling'' unsigned_int 1,
      BitField ''has_tt'' unsigned_int 1,
      BitField ''amd_resume_bug'' unsigned_int 1,
      BitField ''can_do_streams'' unsigned_int 1,
      BitField ''tpl_support'' unsigned_int 1,
      BitField ''cant_recv_wakeups'' unsigned_int 1,
      Field ''irq'' unsigned_int,
      Field ''regs'' (CPtr ''void''),
      Field ''rsrc_start'' resource_size_t,
      Field ''rsrc_len'' resource_size_t,
      Field ''power_budget'' unsigned_int,
      Field ''high_prio_bh'' struct_giveback_urb_bh,
      Field ''low_prio_bh'' struct_giveback_urb_bh,
      Field ''address0_mutex'' (CPtr ''struct mutex''),
      Field ''bandwidth_mutex'' (CPtr ''struct mutex''),
      Field ''shared_hcd'' (CPtr ''struct usb_hcd''),
      Field ''primary_hcd'' (CPtr ''struct usb_hcd''),
      Field ''pool'' (CArr 4 (CPtr ''struct dma_pool'')),
      Field ''state'' c_int,
      Field ''localmem_pool'' (CPtr ''struct gen_pool''),
      Field ''hcd_priv'' (CArr 0 long_unsigned_int)]"

definition struct_usb_tt :: cty where
  "struct_usb_tt = CStruct ''usb_tt'' False
     [Field ''hub'' (CPtr ''struct usb_device''),
      Field ''multi'' c_int,
      Field ''think_time'' unsigned_int,
      Field ''hcpriv'' (CPtr ''void''),
      Field ''lock'' spinlock_t,
      Field ''clear_list'' struct_list_head,
      Field ''clear_work'' struct_work_struct]"

definition struct_usb_hub :: cty where
  "struct_usb_hub = CStruct ''usb_hub'' False
     [Field ''intfdev'' (CPtr ''struct device''),
      Field ''hdev'' (CPtr ''struct usb_device''),
      Field ''kref'' struct_kref,
      Field ''urb'' (CPtr ''struct urb''),
      Field ''buffer'' (CPtr ''u8[8]''),
      Field ''status'' (CPtr ''union''),
      Field ''status_mutex'' struct_mutex,
      Field ''error'' c_int,
      Field ''nerrors'' c_int,
      Field ''event_bits'' (CArr 1 long_unsigned_int),
      Field ''change_bits'' (CArr 1 long_unsigned_int),
      Field ''removed_bits'' (CArr 1 long_unsigned_int),
      Field ''wakeup_bits'' (CArr 1 long_unsigned_int),
      Field ''power_bits'' (CArr 1 long_unsigned_int),
      Field ''child_usage_bits'' (CArr 1 long_unsigned_int),
      Field ''warm_reset_bits'' (CArr 1 long_unsigned_int),
      Field ''descriptor'' (CPtr ''struct usb_hub_descriptor''),
      Field ''tt'' struct_usb_tt,
      Field ''mA_per_port'' unsigned_int,
      Field ''wakeup_enabled_descendants'' unsigned_int,
      BitField ''limited_power'' unsigned_int 1,
      BitField ''quiescing'' unsigned_int 1,
      BitField ''disconnected'' unsigned_int 1,
      BitField ''in_reset'' unsigned_int 1,
      BitField ''quirk_disable_autosuspend'' unsigned_int 1,
      BitField ''quirk_check_port_auto_suspend'' unsigned_int 1,
      BitField ''has_indicators'' unsigned_int 1,
      Field ''indicator'' (CArr 31 u8),
      Field ''leds'' struct_delayed_work,
      Field ''init_work'' struct_delayed_work,
      Field ''post_resume_work'' struct_delayed_work,
      Field ''events'' struct_work_struct,
      Field ''irq_urb_lock'' spinlock_t,
      Field ''irq_urb_retry'' struct_timer_list,
      Field ''ports'' (CPtr ''struct usb_port *''),
      Field ''onboard_devs'' struct_list_head]"

definition enum_usb_phy_type :: cty where
  "enum_usb_phy_type = CEnum 4
     [(''USB_PHY_TYPE_UNDEFINED'', 0), (''USB_PHY_TYPE_USB2'', 1), (''USB_PHY_TYPE_USB3'', 2)]"

definition enum_usb_phy_events :: cty where
  "enum_usb_phy_events = CEnum 4
     [(''USB_EVENT_NONE'', 0), (''USB_EVENT_VBUS'', 1), (''USB_EVENT_ID'', 2),
      (''USB_EVENT_CHARGER'', 3), (''USB_EVENT_ENUMERATED'', 4)]"

definition enum_usb_charger_type :: cty where
  "enum_usb_charger_type = CEnum 4
     [(''UNKNOWN_TYPE'', 0), (''SDP_TYPE'', 1), (''DCP_TYPE'', 2), (''CDP_TYPE'', 3),
      (''ACA_TYPE'', 4)]"

definition enum_usb_charger_state :: cty where
  "enum_usb_charger_state = CEnum 4
     [(''USB_CHARGER_DEFAULT'', 0), (''USB_CHARGER_PRESENT'', 1), (''USB_CHARGER_ABSENT'', 2)]"

definition struct_usb_charger_current :: cty where
  "struct_usb_charger_current = CStruct ''usb_charger_current'' False
     [Field ''sdp_min'' unsigned_int,
      Field ''sdp_max'' unsigned_int,
      Field ''dcp_min'' unsigned_int,
      Field ''dcp_max'' unsigned_int,
      Field ''cdp_min'' unsigned_int,
      Field ''cdp_max'' unsigned_int,
      Field ''aca_min'' unsigned_int,
      Field ''aca_max'' unsigned_int]"

definition struct_atomic_notifier_head :: cty where
  "struct_atomic_notifier_head = CStruct ''atomic_notifier_head'' False
     [Field ''lock'' spinlock_t,
      Field ''head'' (CPtr ''struct notifier_block'')]"

definition struct_usb_phy :: cty where
  "struct_usb_phy = CStruct ''usb_phy'' False
     [Field ''dev'' (CPtr ''struct device''),
      Field ''label'' (CPtr ''const char''),
      Field ''flags'' unsigned_int,
      Field ''type'' enum_usb_phy_type,
      Field ''last_event'' enum_usb_phy_events,
      Field ''otg'' (CPtr ''struct usb_otg''),
      Field ''io_dev'' (CPtr ''struct device''),
      Field ''io_ops'' (CPtr ''struct usb_phy_io_ops''),
      Field ''io_priv'' (CPtr ''void''),
      Field ''edev'' (CPtr ''struct extcon_dev''),
      Field ''id_edev'' (CPtr ''struct extcon_dev''),
      Field ''vbus_nb'' struct_notifier_block,
      Field ''id_nb'' struct_notifier_block,
      Field ''type_nb'' struct_notifier_block,
      Field ''chg_type'' enum_usb_charger_type,
      Field ''chg_state'' enum_usb_charger_state,
      Field ''chg_cur'' struct_usb_charger_current,
      Field ''chg_work'' struct_work_struct,
      Field ''notifier'' struct_atomic_notifier_head,
      Field ''port_status'' u16,
      Field ''port_change'' u16,
      Field ''head'' struct_list_head,
      Field ''init'' (CPtr ''int (struct usb_phy *)''),
      Field ''shutdown'' (CPtr ''void (struct usb_phy *)''),
      Field ''set_vbus'' (CPtr ''int (struct usb_phy *, int)''),
      Field ''set_power'' (CPtr ''int (struct usb_phy *, unsigned int)''),
      Field ''set_suspend'' (CPtr ''int (struct usb_phy *, int)''),
      Field ''set_wakeup'' (CPtr ''int (struct usb_phy *, bool)''),
      Field ''notify_connect'' (CPtr ''int (struct usb_phy *, enum usb_device_speed)''),
      Field ''notify_disconnect'' (CPtr ''int (struct usb_phy *, enum usb_device_speed)''),
      Field ''charger_detect'' (CPtr ''enum usb_charger_type (struct usb_phy *)'')]"

definition struct_uv_hub_info_s :: cty where
  "struct_uv_hub_info_s = CStruct ''uv_hub_info_s'' False
     [Field ''hub_type'' unsigned_int,
      Field ''hub_revision'' unsigned_char,
      Field ''global_mmr_base'' long_unsigned_int,
      Field ''global_mmr_shift'' long_unsigned_int,
      Field ''gpa_mask'' long_unsigned_int,
      Field ''socket_to_node'' (CPtr ''short unsigned int''),
      Field ''socket_to_pnode'' (CPtr ''short unsigned int''),
      Field ''pnode_to_socket'' (CPtr ''short unsigned int''),
      Field ''gr_table'' (CPtr ''struct uv_gam_range_s''),
      Field ''min_socket'' short_unsigned_int,
      Field ''min_pnode'' short_unsigned_int,
      Field ''m_val'' unsigned_char,
      Field ''n_val'' unsigned_char,
      Field ''gr_table_len'' unsigned_char,
      Field ''apic_pnode_shift'' unsigned_char,
      Field ''gpa_shift'' unsigned_char,
      Field ''nasid_shift'' unsigned_char,
      Field ''m_shift'' unsigned_char,
      Field ''n_lshift'' unsigned_char,
      Field ''gnode_extra'' unsigned_int,
      Field ''gnode_upper'' long_unsigned_int,
      Field ''lowmem_remap_top'' long_unsigned_int,
      Field ''lowmem_remap_base'' long_unsigned_int,
      Field ''global_gru_base'' long_unsigned_int,
      Field ''global_gru_shift'' long_unsigned_int,
      Field ''pnode'' short_unsigned_int,
      Field ''pnode_mask'' short_unsigned_int,
      Field ''coherency_domain_number'' short_unsigned_int,
      Field ''numa_blade_id'' short_unsigned_int,
      Field ''nr_possible_cpus'' short_unsigned_int,
      Field ''nr_online_cpus'' short_unsigned_int,
      Field ''memory_nid'' short_int,
      Field ''node_to_socket'' (CPtr ''short unsigned int'')]"

definition enum_vc_intensity :: cty where
  "enum_vc_intensity = CEnum 4
     [(''VCI_HALF_BRIGHT'', 0), (''VCI_NORMAL'', 1), (''VCI_BOLD'', 2), (''VCI_MASK'', 3)]"

definition struct_vc_state :: cty where
  "struct_vc_state = CStruct ''vc_state'' False
     [Field ''x'' unsigned_int,
      Field ''y'' unsigned_int,
      Field ''color'' unsigned_char,
      Field ''Gx_charset'' (CArr 2 unsigned_char),
      BitField ''charset'' unsigned_int 1,
      Field ''intensity'' enum_vc_intensity,
      Field ''italic'' bool,
      Field ''underline'' bool,
      Field ''blink'' bool,
      Field ''reverse'' bool]"

definition struct_console_font :: cty where
  "struct_console_font = CStruct ''console_font'' False
     [Field ''width'' unsigned_int,
      Field ''height'' unsigned_int,
      Field ''charcount'' unsigned_int,
      Field ''data'' (CPtr ''unsigned char'')]"

definition struct_vt_mode :: cty where
  "struct_vt_mode = CStruct ''vt_mode'' False
     [Field ''mode'' c__u8,
      Field ''waitv'' c__u8,
      Field ''relsig'' c__s16,
      Field ''acqsig'' c__s16,
      Field ''frsig'' c__s16]"

definition struct_vc_data :: cty where
  "struct_vc_data = CStruct ''vc_data'' False
     [Field ''port'' struct_tty_port,
      Field ''state'' struct_vc_state,
      Field ''saved_state'' struct_vc_state,
      Field ''vc_num'' short_unsigned_int,
      Field ''vc_cols'' unsigned_int,
      Field ''vc_rows'' unsigned_int,
      Field ''vc_size_row'' unsigned_int,
      Field ''vc_scan_lines'' unsigned_int,
      Field ''vc_cell_height'' unsigned_int,
      Field ''vc_origin'' long_unsigned_int,
      Field ''vc_scr_end'' long_unsigned_int,
      Field ''vc_visible_origin'' long_unsigned_int,
      Field ''vc_top'' unsigned_int,
      Field ''vc_bottom'' unsigned_int,
      Field ''vc_sw'' (CPtr ''const struct consw''),
      Field ''vc_screenbuf'' (CPtr ''short unsigned int''),
      Field ''vc_screenbuf_size'' unsigned_int,
      Field ''vc_mode'' unsigned_char,
      Field ''vc_attr'' unsigned_char,
      Field ''vc_def_color'' unsigned_char,
      Field ''vc_ulcolor'' unsigned_char,
      Field ''vc_itcolor'' unsigned_char,
      Field ''vc_halfcolor'' unsigned_char,
      Field ''vc_cursor_type'' unsigned_int,
      Field ''vc_complement_mask'' short_unsigned_int,
      Field ''vc_s_complement_mask'' short_unsigned_int,
      Field ''vc_pos'' long_unsigned_int,
      Field ''vc_hi_font_mask'' short_unsigned_int,
      Field ''vc_font'' struct_console_font,
      Field ''vc_video_erase_char'' short_unsigned_int,
      Field ''vc_state'' unsigned_int,
      Field ''vc_npar'' unsigned_int,
      Field ''vc_par'' (CArr 16 unsigned_int),
      Field ''vt_mode'' struct_vt_mode,
      Field ''vt_pid'' (CPtr ''struct pid''),
      Field ''vt_newvt'' c_int,
      Field ''paste_wait'' wait_queue_head_t,
      BitField ''vc_disp_ctrl'' unsigned_int 1,
      BitField ''vc_toggle_meta'' unsigned_int 1,
      BitField ''vc_decscnm'' unsigned_int 1,
      BitField ''vc_decom'' unsigned_int 1,
      BitField ''vc_decawm'' unsigned_int 1,
      BitField ''vc_deccm'' unsigned_int 1,
      BitField ''vc_decim'' unsigned_int 1,
      BitField ''vc_priv'' unsigned_int 3,
      BitField ''vc_need_wrap'' unsigned_int 1,
      BitField ''vc_can_do_color'' unsigned_int 1,
      BitField ''vc_report_mouse'' unsigned_int 2,
      BitField ''vc_bracketed_paste'' unsigned_int 1,
      BitField ''vc_utf'' unsigned_char 1,
      Field ''vc_utf_count'' unsigned_char,
      Field ''vc_utf_char'' c_int,
      Field ''vc_tab_stop'' (CArr 4 long_unsigned_int),
      Field ''vc_palette'' (CArr 48 unsigned_char),
      Field ''vc_translate'' (CPtr ''short unsigned int''),
      Field ''vc_bell_pitch'' unsigned_int,
      Field ''vc_bell_duration'' unsigned_int,
      Field ''vc_cur_blink_ms'' short_unsigned_int,
      Field ''vc_display_fg'' (CPtr ''struct vc_data *''),
      Field ''uni_pagedict'' (CPtr ''struct uni_pagedict''),
      Field ''uni_pagedict_loc'' (CPtr ''struct uni_pagedict *''),
      Field ''vc_uni_lines'' (CPtr ''u32 *''),
      Field ''vc_saved_screen'' (CPtr ''u16''),
      Field ''vc_saved_uni_lines'' (CPtr ''u32 *''),
      Field ''vc_saved_cols'' unsigned_int,
      Field ''vc_saved_rows'' unsigned_int]"

definition c__virtio32 :: cty where [layout_simps]:
  "c__virtio32 = c__u32"

definition struct_balloon_dev_info :: cty where
  "struct_balloon_dev_info = CStruct ''balloon_dev_info'' False
     [Field ''isolated_pages'' long_unsigned_int,
      Field ''pages'' struct_list_head,
      Field ''migratepage'' (CPtr ''int (struct balloon_dev_info *, struct page *, struct page *, enum migrate_mode)''),
      Field ''adjust_managed_page_count'' bool]"

definition c__virtio16 :: cty where [layout_simps]:
  "c__virtio16 = c__u16"

definition c__virtio64 :: cty where [layout_simps]:
  "c__virtio64 = c__u64"

definition struct_virtio_balloon_stat :: cty where
  "struct_virtio_balloon_stat = CStruct ''virtio_balloon_stat'' True
     [Field ''tag'' c__virtio16,
      Field ''val'' c__virtio64]"

definition struct_page_reporting_dev_info :: cty where
  "struct_page_reporting_dev_info = CStruct ''page_reporting_dev_info'' False
     [Field ''report'' (CPtr ''int (struct page_reporting_dev_info *, struct scatterlist *, unsigned int)''),
      Field ''work'' struct_delayed_work,
      Field ''state'' atomic_t,
      Field ''order'' unsigned_int]"

definition struct_virtio_balloon :: cty where
  "struct_virtio_balloon = CStruct ''virtio_balloon'' False
     [Field ''vdev'' (CPtr ''struct virtio_device''),
      Field ''inflate_vq'' (CPtr ''struct virtqueue''),
      Field ''deflate_vq'' (CPtr ''struct virtqueue''),
      Field ''stats_vq'' (CPtr ''struct virtqueue''),
      Field ''free_page_vq'' (CPtr ''struct virtqueue''),
      Field ''balloon_wq'' (CPtr ''struct workqueue_struct''),
      Field ''report_free_page_work'' struct_work_struct,
      Field ''update_balloon_stats_work'' struct_work_struct,
      Field ''update_balloon_size_work'' struct_work_struct,
      Field ''stop_update_lock'' spinlock_t,
      Field ''stop_update'' bool,
      Field ''config_read_bitmap'' long_unsigned_int,
      Field ''free_page_list'' struct_list_head,
      Field ''free_page_list_lock'' spinlock_t,
      Field ''num_free_page_blocks'' long_unsigned_int,
      Field ''cmd_id_received_cache'' u32,
      Field ''cmd_id_active'' c__virtio32,
      Field ''cmd_id_stop'' c__virtio32,
      Field ''acked'' wait_queue_head_t,
      Field ''num_pages'' unsigned_int,
      Field ''vb_dev_info'' struct_balloon_dev_info,
      Field ''balloon_lock'' struct_mutex,
      Field ''num_pfns'' unsigned_int,
      Field ''pfns'' (CArr 256 c__virtio32),
      Field ''stats'' (CArr 16 struct_virtio_balloon_stat),
      Field ''shrinker'' (CPtr ''struct shrinker''),
      Field ''oom_nb'' struct_notifier_block,
      Field ''reporting_vq'' (CPtr ''struct virtqueue''),
      Field ''pr_dev_info'' struct_page_reporting_dev_info,
      Field ''wakeup_lock'' spinlock_t,
      Field ''processing_wakeup_event'' bool,
      Field ''wakeup_signal_mask'' u32]"

definition struct_virtio_blk_geometry :: cty where
  "struct_virtio_blk_geometry = CStruct ''virtio_blk_geometry'' False
     [Field ''cylinders'' c__virtio16,
      Field ''heads'' c__u8,
      Field ''sectors'' c__u8]"

definition struct_virtio_blk_zoned_characteristics :: cty where
  "struct_virtio_blk_zoned_characteristics = CStruct ''virtio_blk_zoned_characteristics'' False
     [Field ''zone_sectors'' c__virtio32,
      Field ''max_open_zones'' c__virtio32,
      Field ''max_active_zones'' c__virtio32,
      Field ''max_append_sectors'' c__virtio32,
      Field ''write_granularity'' c__virtio32,
      Field ''model'' c__u8,
      Field ''unused2'' (CArr 3 c__u8)]"

definition struct_virtio_blk_config :: cty where
  "struct_virtio_blk_config = CStruct ''virtio_blk_config'' False
     [Field ''capacity'' c__virtio64,
      Field ''size_max'' c__virtio32,
      Field ''seg_max'' c__virtio32,
      Field ''geometry'' struct_virtio_blk_geometry,
      Field ''blk_size'' c__virtio32,
      Field ''physical_block_exp'' c__u8,
      Field ''alignment_offset'' c__u8,
      Field ''min_io_size'' c__virtio16,
      Field ''opt_io_size'' c__virtio32,
      Field ''wce'' c__u8,
      Field ''unused'' c__u8,
      Field ''num_queues'' c__virtio16,
      Field ''max_discard_sectors'' c__virtio32,
      Field ''max_discard_seg'' c__virtio32,
      Field ''discard_sector_alignment'' c__virtio32,
      Field ''max_write_zeroes_sectors'' c__virtio32,
      Field ''max_write_zeroes_seg'' c__virtio32,
      Field ''write_zeroes_may_unmap'' c__u8,
      Field ''unused1'' (CArr 3 c__u8),
      Field ''max_secure_erase_sectors'' c__virtio32,
      Field ''max_secure_erase_seg'' c__virtio32,
      Field ''secure_erase_sector_alignment'' c__virtio32,
      Field ''zoned'' struct_virtio_blk_zoned_characteristics]"

definition struct_virtio_net_rss_config_trailer :: cty where
  "struct_virtio_net_rss_config_trailer = CStruct ''virtio_net_rss_config_trailer'' False
     [Field ''max_tx_vq'' c__le16,
      Field ''hash_key_length'' c__u8,
      Field ''hash_key_data'' (CArr 0 c__u8)]"

definition struct_virtnet_info :: cty where
  "struct_virtnet_info = CStruct ''virtnet_info'' False
     [Field ''vdev'' (CPtr ''struct virtio_device''),
      Field ''cvq'' (CPtr ''struct virtqueue''),
      Field ''dev'' (CPtr ''struct net_device''),
      Field ''sq'' (CPtr ''struct send_queue''),
      Field ''rq'' (CPtr ''struct receive_queue''),
      Field ''status'' unsigned_int,
      Field ''max_queue_pairs'' u16,
      Field ''curr_queue_pairs'' u16,
      Field ''xdp_queue_pairs'' u16,
      Field ''xdp_enabled'' bool,
      Field ''big_packets'' bool,
      Field ''big_packets_num_skbfrags'' unsigned_int,
      Field ''mergeable_rx_bufs'' bool,
      Field ''has_rss'' bool,
      Field ''has_rss_hash_report'' bool,
      Field ''rss_key_size'' u8,
      Field ''rss_indir_table_size'' u16,
      Field ''rss_hash_types_supported'' u32,
      Field ''rss_hash_types_saved'' u32,
      Field ''has_cvq'' bool,
      Field ''cvq_lock'' struct_mutex,
      Field ''any_header_sg'' bool,
      Field ''hdr_len'' u8,
      Field ''tx_tnl'' bool,
      Field ''rx_tnl'' bool,
      Field ''rx_tnl_csum'' bool,
      Field ''config_work'' struct_work_struct,
      Field ''rx_mode_work'' struct_work_struct,
      Field ''rx_mode_work_enabled'' bool,
      Field ''affinity_hint_set'' bool,
      Field ''node'' struct_hlist_node,
      Field ''node_dead'' struct_hlist_node,
      Field ''ctrl'' (CPtr ''struct control_buf''),
      Field ''duplex'' u8,
      Field ''speed'' u32,
      Field ''rx_dim_enabled'' bool,
      Field ''intr_coal_tx'' struct_virtnet_interrupt_coalesce,
      Field ''intr_coal_rx'' struct_virtnet_interrupt_coalesce,
      Field ''guest_offloads'' long_unsigned_int,
      Field ''guest_offloads_capable'' long_unsigned_int,
      Field ''failover'' (CPtr ''struct failover''),
      Field ''device_stats_cap'' u64,
      Field ''rss_hdr'' (CPtr ''struct virtio_net_rss_config_hdr''),
      Field [] (CUnion [] False
        [Field ''rss_trailer'' struct_virtio_net_rss_config_trailer,
         Field [] (CStruct [] False
           [Field ''__offset_to_FAM'' (CArr 3 unsigned_char),
            Field ''rss_hash_key_data'' (CArr 256 u8)])])]"

definition enum_vma_merge_state :: cty where
  "enum_vma_merge_state = CEnum 4
     [(''VMA_MERGE_START'', 0), (''VMA_MERGE_ERROR_NOMEM'', 1), (''VMA_MERGE_NOMERGE'', 2),
      (''VMA_MERGE_SUCCESS'', 3)]"

definition struct_vma_merge_struct :: cty where
  "struct_vma_merge_struct = CStruct ''vma_merge_struct'' False
     [Field ''mm'' (CPtr ''struct mm_struct''),
      Field ''vmi'' (CPtr ''struct vma_iterator''),
      Field ''prev'' (CPtr ''struct vm_area_struct''),
      Field ''middle'' (CPtr ''struct vm_area_struct''),
      Field ''next'' (CPtr ''struct vm_area_struct''),
      Field ''target'' (CPtr ''struct vm_area_struct''),
      Field ''start'' long_unsigned_int,
      Field ''end'' long_unsigned_int,
      Field ''pgoff'' long_unsigned_int,
      Field ''vm_flags'' vm_flags_t,
      Field ''file'' (CPtr ''struct file''),
      Field ''anon_vma'' (CPtr ''struct anon_vma''),
      Field ''policy'' (CPtr ''struct mempolicy''),
      Field ''uffd_ctx'' struct_vm_userfaultfd_ctx,
      Field ''anon_name'' (CPtr ''struct anon_vma_name''),
      Field ''state'' enum_vma_merge_state,
      Field ''copied_from'' (CPtr ''struct vm_area_struct''),
      BitField ''just_expand'' bool 1,
      BitField ''give_up_on_oom'' bool 1,
      BitField ''skip_vma_uprobe'' bool 1,
      BitField ''__adjust_middle_start'' bool 1,
      BitField ''__adjust_next_start'' bool 1,
      BitField ''__remove_middle'' bool 1,
      BitField ''__remove_next'' bool 1]"

definition struct_vme_callback :: cty where
  "struct_vme_callback = CStruct ''vme_callback'' False
     [Field ''func'' (CPtr ''void (int, int, void *)''),
      Field ''priv_data'' (CPtr ''void'')]"

definition struct_vme_irq :: cty where
  "struct_vme_irq = CStruct ''vme_irq'' False
     [Field ''count'' c_int,
      Field ''callback'' (CArr 256 struct_vme_callback)]"

definition struct_vme_bridge :: cty where
  "struct_vme_bridge = CStruct ''vme_bridge'' False
     [Field ''name'' (CArr 16 c_char),
      Field ''num'' c_int,
      Field ''master_resources'' struct_list_head,
      Field ''slave_resources'' struct_list_head,
      Field ''dma_resources'' struct_list_head,
      Field ''lm_resources'' struct_list_head,
      Field ''vme_error_handlers'' struct_list_head,
      Field ''devices'' struct_list_head,
      Field ''parent'' (CPtr ''struct device''),
      Field ''driver_priv'' (CPtr ''void''),
      Field ''bus_list'' struct_list_head,
      Field ''irq'' (CArr 7 struct_vme_irq),
      Field ''irq_mtx'' struct_mutex,
      Field ''slave_get'' (CPtr ''int (struct vme_slave_resource *, int *, long long unsigned int *, long long unsigned int *, dma_addr_t *, u32 *, u32 *)''),
      Field ''slave_set'' (CPtr ''int (struct vme_slave_resource *, int, long long unsigned int, long long unsigned int, dma_addr_t, u32, u32)''),
      Field ''master_get'' (CPtr ''int (struct vme_master_resource *, int *, long long unsigned int *, long long unsigned int *, u32 *, u32 *, u32 *)''),
      Field ''master_set'' (CPtr ''int (struct vme_master_resource *, int, long long unsigned int, long long unsigned int, u32, u32, u32)''),
      Field ''master_read'' (CPtr ''ssize_t (struct vme_master_resource *, void *, size_t, loff_t)''),
      Field ''master_write'' (CPtr ''ssize_t (struct vme_master_resource *, void *, size_t, loff_t)''),
      Field ''master_rmw'' (CPtr ''unsigned int (struct vme_master_resource *, unsigned int, unsigned int, unsigned int, loff_t)''),
      Field ''dma_list_add'' (CPtr ''int (struct vme_dma_list *, struct vme_dma_attr *, struct vme_dma_attr *, size_t)''),
      Field ''dma_list_exec'' (CPtr ''int (struct vme_dma_list *)''),
      Field ''dma_list_empty'' (CPtr ''int (struct vme_dma_list *)''),
      Field ''irq_set'' (CPtr ''void (struct vme_bridge *, int, int, int)''),
      Field ''irq_generate'' (CPtr ''int (struct vme_bridge *, int, int)''),
      Field ''lm_set'' (CPtr ''int (struct vme_lm_resource *, long long unsigned int, u32, u32)''),
      Field ''lm_get'' (CPtr ''int (struct vme_lm_resource *, long long unsigned int *, u32 *, u32 *)''),
      Field ''lm_attach'' (CPtr ''int (struct vme_lm_resource *, int, void(*)(void *), void *)''),
      Field ''lm_detach'' (CPtr ''int (struct vme_lm_resource *, int)''),
      Field ''slot_get'' (CPtr ''int (struct vme_bridge *)''),
      Field ''alloc_consistent'' (CPtr ''void * (struct device *, size_t, dma_addr_t *)''),
      Field ''free_consistent'' (CPtr ''void (struct device *, size_t, void *, dma_addr_t)'')]"

definition struct_wm831x_pdata :: cty where
  "struct_wm831x_pdata = CStruct ''wm831x_pdata'' False
     [Field ''wm831x_num'' c_int,
      Field ''pre_init'' (CPtr ''int (struct wm831x *)''),
      Field ''post_init'' (CPtr ''int (struct wm831x *)''),
      Field ''irq_cmos'' bool,
      Field ''disable_touch'' bool,
      Field ''soft_shutdown'' bool,
      Field ''irq_base'' c_int,
      Field ''gpio_base'' c_int,
      Field ''gpio_defaults'' (CArr 16 c_int),
      Field ''backlight'' (CPtr ''struct wm831x_backlight_pdata''),
      Field ''backup'' (CPtr ''struct wm831x_backup_pdata''),
      Field ''battery'' (CPtr ''struct wm831x_battery_pdata''),
      Field ''touch'' (CPtr ''struct wm831x_touch_pdata''),
      Field ''watchdog'' (CPtr ''struct wm831x_watchdog_pdata''),
      Field ''status'' (CArr 2 (CPtr ''struct wm831x_status_pdata'')),
      Field ''dcdc'' (CArr 4 (CPtr ''struct regulator_init_data'')),
      Field ''epe'' (CArr 2 (CPtr ''struct regulator_init_data'')),
      Field ''ldo'' (CArr 11 (CPtr ''struct regulator_init_data'')),
      Field ''isink'' (CArr 2 (CPtr ''struct regulator_init_data''))]"

definition enum_wm831x_parent :: cty where
  "enum_wm831x_parent = CEnum 4
     [(''WM8310'', 33552), (''WM8311'', 33553), (''WM8312'', 33554), (''WM8320'', 33568),
      (''WM8321'', 33569), (''WM8325'', 33573), (''WM8326'', 33574)]"

definition wm831x_auxadc_read_fn :: cty where [layout_simps]:
  "wm831x_auxadc_read_fn = CPtr ''int (struct wm831x *, enum wm831x_auxadc)''"

definition struct_wm831x :: cty where
  "struct_wm831x = CStruct ''wm831x'' False
     [Field ''io_lock'' struct_mutex,
      Field ''dev'' (CPtr ''struct device''),
      Field ''regmap'' (CPtr ''struct regmap''),
      Field ''pdata'' struct_wm831x_pdata,
      Field ''type'' enum_wm831x_parent,
      Field ''irq'' c_int,
      Field ''irq_lock'' struct_mutex,
      Field ''irq_domain'' (CPtr ''struct irq_domain''),
      Field ''irq_masks_cur'' (CArr 5 c_int),
      Field ''irq_masks_cache'' (CArr 5 c_int),
      Field ''soft_shutdown'' bool,
      BitField ''has_gpio_ena'' unsigned_int 1,
      BitField ''has_cs_sts'' unsigned_int 1,
      BitField ''charger_irq_wake'' unsigned_int 1,
      Field ''num_gpio'' c_int,
      Field ''gpio_update'' (CArr 16 c_int),
      Field ''gpio_level_high'' (CArr 16 bool),
      Field ''gpio_level_low'' (CArr 16 bool),
      Field ''auxadc_lock'' struct_mutex,
      Field ''auxadc_pending'' struct_list_head,
      Field ''auxadc_active'' u16,
      Field ''auxadc_read'' wm831x_auxadc_read_fn,
      Field ''key_lock'' struct_mutex,
      BitField ''locked'' unsigned_int 1]"

definition enum_writeback_sync_modes :: cty where
  "enum_writeback_sync_modes = CEnum 4
     [(''WB_SYNC_NONE'', 0), (''WB_SYNC_ALL'', 1)]"

definition struct_writeback_control :: cty where
  "struct_writeback_control = CStruct ''writeback_control'' False
     [Field ''nr_to_write'' c_long,
      Field ''pages_skipped'' c_long,
      Field ''range_start'' loff_t,
      Field ''range_end'' loff_t,
      Field ''sync_mode'' enum_writeback_sync_modes,
      BitField ''for_kupdate'' unsigned_int 1,
      BitField ''for_background'' unsigned_int 1,
      BitField ''tagged_writepages'' unsigned_int 1,
      BitField ''range_cyclic'' unsigned_int 1,
      BitField ''for_sync'' unsigned_int 1,
      BitField ''unpinned_netfs_wb'' unsigned_int 1,
      BitField ''no_cgroup_owner'' unsigned_int 1,
      Field ''fbatch'' struct_folio_batch,
      Field ''index'' long_unsigned_int,
      Field ''saved_err'' c_int,
      Field ''wb'' (CPtr ''struct bdi_writeback''),
      Field ''inode'' (CPtr ''struct inode''),
      Field ''wb_id'' c_int,
      Field ''wb_lcand_id'' c_int,
      Field ''wb_tcand_id'' c_int,
      Field ''wb_bytes'' size_t,
      Field ''wb_lcand_bytes'' size_t,
      Field ''wb_tcand_bytes'' size_t]"

definition struct_x509_certificate :: cty where
  "struct_x509_certificate = CStruct ''x509_certificate'' False
     [Field ''next'' (CPtr ''struct x509_certificate''),
      Field ''signer'' (CPtr ''struct x509_certificate''),
      Field ''pub'' (CPtr ''struct public_key''),
      Field ''sig'' (CPtr ''struct public_key_signature''),
      Field ''sha256'' (CArr 32 u8),
      Field ''issuer'' (CPtr ''char''),
      Field ''subject'' (CPtr ''char''),
      Field ''id'' (CPtr ''struct asymmetric_key_id''),
      Field ''skid'' (CPtr ''struct asymmetric_key_id''),
      Field ''valid_from'' time64_t,
      Field ''valid_to'' time64_t,
      Field ''tbs'' (CPtr ''const void''),
      Field ''tbs_size'' unsigned_int,
      Field ''raw_sig_size'' unsigned_int,
      Field ''raw_sig'' (CPtr ''const void''),
      Field ''raw_serial'' (CPtr ''const void''),
      Field ''raw_serial_size'' unsigned_int,
      Field ''raw_issuer_size'' unsigned_int,
      Field ''raw_issuer'' (CPtr ''const void''),
      Field ''raw_subject'' (CPtr ''const void''),
      Field ''raw_subject_size'' unsigned_int,
      Field ''raw_skid_size'' unsigned_int,
      Field ''raw_skid'' (CPtr ''const void''),
      Field ''index'' unsigned_int,
      Field ''seen'' bool,
      Field ''verified'' bool,
      Field ''self_signed'' bool,
      Field ''unsupported_sig'' bool,
      Field ''blacklisted'' bool]"

definition enum_hybrid_pmu_type :: cty where
  "enum_hybrid_pmu_type = CEnum 4
     [(''not_hybrid'', 0), (''hybrid_small'', 1), (''hybrid_big'', 2), (''hybrid_tiny'', 4),
      (''hybrid_big_small'', 3), (''hybrid_small_tiny'', 5), (''hybrid_big_small_tiny'', 7)]"

definition struct_arch_pebs_cap :: cty where
  "struct_arch_pebs_cap = CStruct ''arch_pebs_cap'' False
     [Field ''caps'' u64,
      Field ''counters'' u64,
      Field ''pdists'' u64]"

definition struct_x86_hybrid_pmu :: cty where
  "struct_x86_hybrid_pmu = CStruct ''x86_hybrid_pmu'' False
     [Field ''pmu'' struct_pmu,
      Field ''name'' (CPtr ''const char''),
      Field ''pmu_type'' enum_hybrid_pmu_type,
      Field ''supported_cpus'' cpumask_t,
      Field ''intel_cap'' union_perf_capabilities,
      Field ''intel_ctrl'' u64,
      Field ''pebs_events_mask'' u64,
      Field ''config_mask'' u64,
      Field [] (CUnion [] False
        [Field ''cntr_mask64'' u64,
         Field ''cntr_mask'' (CArr 1 long_unsigned_int)]),
      Field [] (CUnion [] False
        [Field ''fixed_cntr_mask64'' u64,
         Field ''fixed_cntr_mask'' (CArr 1 long_unsigned_int)]),
      Field [] (CUnion [] False
        [Field ''acr_cntr_mask64'' u64,
         Field ''acr_cntr_mask'' (CArr 1 long_unsigned_int)]),
      Field [] (CUnion [] False
        [Field ''acr_cause_mask64'' u64,
         Field ''acr_cause_mask'' (CArr 1 long_unsigned_int)]),
      Field ''unconstrained'' struct_event_constraint,
      Field ''hw_cache_event_ids'' (CArr 42 u64),
      Field ''hw_cache_extra_regs'' (CArr 42 u64),
      Field ''event_constraints'' (CPtr ''struct event_constraint''),
      Field ''pebs_constraints'' (CPtr ''struct event_constraint''),
      Field ''extra_regs'' (CPtr ''struct extra_reg''),
      BitField ''late_ack'' unsigned_int 1,
      BitField ''mid_ack'' unsigned_int 1,
      BitField ''enabled_ack'' unsigned_int 1,
      Field ''arch_pebs_cap'' struct_arch_pebs_cap,
      Field ''pebs_data_source'' (CArr 256 u64)]"

definition struct_x86_pmu :: cty where
  "struct_x86_pmu = CStruct ''x86_pmu'' False
     [Field ''name'' (CPtr ''const char''),
      Field ''version'' c_int,
      Field ''handle_irq'' (CPtr ''int (struct pt_regs *)''),
      Field ''disable_all'' (CPtr ''void (void)''),
      Field ''enable_all'' (CPtr ''void (int)''),
      Field ''enable'' (CPtr ''void (struct perf_event *)''),
      Field ''disable'' (CPtr ''void (struct perf_event *)''),
      Field ''assign'' (CPtr ''void (struct perf_event *, int)''),
      Field ''add'' (CPtr ''void (struct perf_event *)''),
      Field ''del'' (CPtr ''void (struct perf_event *)''),
      Field ''read'' (CPtr ''void (struct perf_event *)''),
      Field ''set_period'' (CPtr ''int (struct perf_event *)''),
      Field ''update'' (CPtr ''u64 (struct perf_event *)''),
      Field ''hw_config'' (CPtr ''int (struct perf_event *)''),
      Field ''schedule_events'' (CPtr ''int (struct cpu_hw_events *, int, int *)''),
      Field ''late_setup'' (CPtr ''void (void)''),
      Field ''pebs_enable'' (CPtr ''void (struct perf_event *)''),
      Field ''pebs_disable'' (CPtr ''void (struct perf_event *)''),
      Field ''pebs_enable_all'' (CPtr ''void (void)''),
      Field ''pebs_disable_all'' (CPtr ''void (void)''),
      Field ''eventsel'' unsigned_int,
      Field ''perfctr'' unsigned_int,
      Field ''fixedctr'' unsigned_int,
      Field ''addr_offset'' (CPtr ''int (int, bool)''),
      Field ''rdpmc_index'' (CPtr ''int (int)''),
      Field ''event_map'' (CPtr ''u64 (int)''),
      Field ''max_events'' c_int,
      Field ''config_mask'' u64,
      Field [] (CUnion [] False
        [Field ''cntr_mask64'' u64,
         Field ''cntr_mask'' (CArr 1 long_unsigned_int)]),
      Field [] (CUnion [] False
        [Field ''fixed_cntr_mask64'' u64,
         Field ''fixed_cntr_mask'' (CArr 1 long_unsigned_int)]),
      Field [] (CUnion [] False
        [Field ''acr_cntr_mask64'' u64,
         Field ''acr_cntr_mask'' (CArr 1 long_unsigned_int)]),
      Field [] (CUnion [] False
        [Field ''acr_cause_mask64'' u64,
         Field ''acr_cause_mask'' (CArr 1 long_unsigned_int)]),
      Field ''cntval_bits'' c_int,
      Field ''cntval_mask'' u64,
      Field [] (CUnion [] False
        [Field ''events_maskl'' long_unsigned_int,
         Field ''events_mask'' (CArr 1 long_unsigned_int)]),
      Field ''events_mask_len'' c_int,
      Field ''apic'' c_int,
      Field ''max_period'' u64,
      Field ''get_event_constraints'' (CPtr ''struct event_constraint * (struct cpu_hw_events *, int, struct perf_event *)''),
      Field ''put_event_constraints'' (CPtr ''void (struct cpu_hw_events *, struct perf_event *)''),
      Field ''start_scheduling'' (CPtr ''void (struct cpu_hw_events *)''),
      Field ''commit_scheduling'' (CPtr ''void (struct cpu_hw_events *, int, int)''),
      Field ''stop_scheduling'' (CPtr ''void (struct cpu_hw_events *)''),
      Field ''event_constraints'' (CPtr ''struct event_constraint''),
      Field ''quirks'' (CPtr ''struct x86_pmu_quirk''),
      Field ''limit_period'' (CPtr ''void (struct perf_event *, s64 *)''),
      BitField ''late_ack'' unsigned_int 1,
      BitField ''mid_ack'' unsigned_int 1,
      BitField ''enabled_ack'' unsigned_int 1,
      Field ''attr_rdpmc_broken'' c_int,
      Field ''attr_rdpmc'' c_int,
      Field ''format_attrs'' (CPtr ''struct attribute *''),
      Field ''events_sysfs_show'' (CPtr ''ssize_t (char *, u64)''),
      Field ''attr_update'' (CPtr ''const struct attribute_group *''),
      Field ''attr_freeze_on_smi'' long_unsigned_int,
      Field ''cpu_prepare'' (CPtr ''int (int)''),
      Field ''cpu_starting'' (CPtr ''void (int)''),
      Field ''cpu_dying'' (CPtr ''void (int)''),
      Field ''cpu_dead'' (CPtr ''void (int)''),
      Field ''check_microcode'' (CPtr ''void (void)''),
      Field ''sched_task'' (CPtr ''void (struct perf_event_pmu_context *, struct task_struct *, bool)''),
      Field ''intel_ctrl'' u64,
      Field ''intel_cap'' union_perf_capabilities,
      BitField ''bts'' unsigned_int 1,
      BitField ''bts_active'' unsigned_int 1,
      BitField ''ds_pebs'' unsigned_int 1,
      BitField ''pebs_active'' unsigned_int 1,
      BitField ''pebs_broken'' unsigned_int 1,
      BitField ''pebs_prec_dist'' unsigned_int 1,
      BitField ''pebs_no_tlb'' unsigned_int 1,
      BitField ''pebs_no_isolation'' unsigned_int 1,
      BitField ''pebs_block'' unsigned_int 1,
      BitField ''pebs_ept'' unsigned_int 1,
      BitField ''arch_pebs'' unsigned_int 1,
      Field ''pebs_record_size'' c_int,
      Field ''pebs_buffer_size'' c_int,
      Field ''pebs_events_mask'' u64,
      Field ''drain_pebs'' (CPtr ''void (struct pt_regs *, struct perf_sample_data *)''),
      Field ''pebs_constraints'' (CPtr ''struct event_constraint''),
      Field ''pebs_aliases'' (CPtr ''void (struct perf_event *)''),
      Field ''pebs_latency_data'' (CPtr ''u64 (struct perf_event *, u64)''),
      Field ''large_pebs_flags'' long_unsigned_int,
      Field ''rtm_abort_event'' u64,
      Field ''pebs_capable'' u64,
      Field ''arch_pebs_cap'' struct_arch_pebs_cap,
      Field ''lbr_tos'' unsigned_int,
      Field ''lbr_from'' unsigned_int,
      Field ''lbr_to'' unsigned_int,
      Field ''lbr_info'' unsigned_int,
      Field ''lbr_nr'' unsigned_int,
      Field [] (CUnion [] False
        [Field ''lbr_sel_mask'' u64,
         Field ''lbr_ctl_mask'' u64]),
      Field [] (CUnion [] False
        [Field ''lbr_sel_map'' (CPtr ''const int''),
         Field ''lbr_ctl_map'' (CPtr ''int'')]),
      Field ''lbr_callstack_users'' u64,
      Field ''lbr_double_abort'' bool,
      Field ''lbr_pt_coexist'' bool,
      BitField ''lbr_has_info'' unsigned_int 1,
      BitField ''lbr_has_tsx'' unsigned_int 1,
      BitField ''lbr_from_flags'' unsigned_int 1,
      BitField ''lbr_to_cycles'' unsigned_int 1,
      BitField ''lbr_depth_mask'' unsigned_int 8,
      BitField ''lbr_deep_c_reset'' unsigned_int 1,
      BitField ''lbr_lip'' unsigned_int 1,
      BitField ''lbr_cpl'' unsigned_int 1,
      BitField ''lbr_filter'' unsigned_int 1,
      BitField ''lbr_call_stack'' unsigned_int 1,
      BitField ''lbr_mispred'' unsigned_int 1,
      BitField ''lbr_timed_lbr'' unsigned_int 1,
      BitField ''lbr_br_type'' unsigned_int 1,
      BitField ''lbr_counters'' unsigned_int 4,
      Field ''lbr_reset'' (CPtr ''void (void)''),
      Field ''lbr_read'' (CPtr ''void (struct cpu_hw_events *)''),
      Field ''lbr_save'' (CPtr ''void (void *)''),
      Field ''lbr_restore'' (CPtr ''void (void *)''),
      Field ''lbr_exclusive'' (CArr 3 atomic_t),
      Field ''num_topdown_events'' c_int,
      BitField ''amd_nb_constraints'' unsigned_int 1,
      Field ''perf_ctr_pair_en'' u64,
      Field ''extra_regs'' (CPtr ''struct extra_reg''),
      Field ''flags'' unsigned_int,
      Field ''guest_get_msrs'' (CPtr ''struct perf_guest_switch_msr * (int *, void *)''),
      Field ''check_period'' (CPtr ''int (struct perf_event *, u64)''),
      Field ''aux_output_match'' (CPtr ''int (struct perf_event *)''),
      Field ''filter'' (CPtr ''void (struct pmu *, int, bool *)''),
      Field ''num_hybrid_pmus'' c_int,
      Field ''hybrid_pmu'' (CPtr ''struct x86_hybrid_pmu''),
      Field ''get_hybrid_cpu_type'' (CPtr ''enum intel_cpu_type (void)'')]"

definition struct_xdbc_ring :: cty where
  "struct_xdbc_ring = CStruct ''xdbc_ring'' False
     [Field ''segment'' (CPtr ''struct xdbc_segment''),
      Field ''enqueue'' (CPtr ''struct xdbc_trb''),
      Field ''dequeue'' (CPtr ''struct xdbc_trb''),
      Field ''cycle_state'' u32]"

definition struct_xdbc_segment :: cty where
  "struct_xdbc_segment = CStruct ''xdbc_segment'' False
     [Field ''trbs'' (CPtr ''struct xdbc_trb''),
      Field ''dma'' dma_addr_t]"

definition struct_xdbc_state :: cty where
  "struct_xdbc_state = CStruct ''xdbc_state'' False
     [Field ''vendor'' u16,
      Field ''device'' u16,
      Field ''bus'' u32,
      Field ''dev'' u32,
      Field ''func'' u32,
      Field ''xhci_base'' (CPtr ''void''),
      Field ''xhci_start'' u64,
      Field ''xhci_length'' size_t,
      Field ''port_number'' c_int,
      Field ''xdbc_reg'' (CPtr ''struct xdbc_regs''),
      Field ''table_dma'' dma_addr_t,
      Field ''table_base'' (CPtr ''void''),
      Field ''erst_dma'' dma_addr_t,
      Field ''erst_size'' size_t,
      Field ''erst_base'' (CPtr ''void''),
      Field ''evt_ring'' struct_xdbc_ring,
      Field ''evt_seg'' struct_xdbc_segment,
      Field ''dbcc_dma'' dma_addr_t,
      Field ''dbcc_size'' size_t,
      Field ''dbcc_base'' (CPtr ''void''),
      Field ''string_dma'' dma_addr_t,
      Field ''string_size'' size_t,
      Field ''string_base'' (CPtr ''void''),
      Field ''out_ring'' struct_xdbc_ring,
      Field ''out_seg'' struct_xdbc_segment,
      Field ''out_buf'' (CPtr ''void''),
      Field ''out_dma'' dma_addr_t,
      Field ''in_ring'' struct_xdbc_ring,
      Field ''in_seg'' struct_xdbc_segment,
      Field ''in_buf'' (CPtr ''void''),
      Field ''in_dma'' dma_addr_t,
      Field ''flags'' u32,
      Field ''lock'' raw_spinlock_t]"

definition struct_xdp_sock :: cty where
  "struct_xdp_sock = CStruct ''xdp_sock'' False
     [Field ''sk'' struct_sock,
      BitField [] c_long 64,
      BitField [] c_long 64,
      BitField [] c_long 64,
      Field ''rx'' (CPtr ''struct xsk_queue''),
      Field ''dev'' (CPtr ''struct net_device''),
      Field ''umem'' (CPtr ''struct xdp_umem''),
      Field ''flush_node'' struct_list_head,
      Field ''pool'' (CPtr ''struct xsk_buff_pool''),
      Field ''queue_id'' u16,
      Field ''zc'' bool,
      Field ''sg'' bool,
      Field ''state'' (CEnum 4 [(''XSK_READY'', 0), (''XSK_BOUND'', 1), (''XSK_UNBOUND'', 2)]),
      BitField [] c_long 64,
      Field ''tx'' (CPtr ''struct xsk_queue''),
      Field ''tx_list'' struct_list_head,
      Field ''tx_budget_spent'' u32,
      Field ''rx_dropped'' u64,
      Field ''rx_queue_full'' u64,
      Field ''skb'' (CPtr ''struct sk_buff''),
      Field ''map_list'' struct_list_head,
      Field ''map_list_lock'' spinlock_t,
      Field ''max_tx_budget'' u32,
      Field ''mutex'' struct_mutex,
      Field ''fq_tmp'' (CPtr ''struct xsk_queue''),
      Field ''cq_tmp'' (CPtr ''struct xsk_queue'')]"

definition xen_ulong_t :: cty where [layout_simps]:
  "xen_ulong_t = long_unsigned_int"

definition int16_t :: cty where [layout_simps]:
  "int16_t = s16"

definition struct_xenpf_efi_time :: cty where
  "struct_xenpf_efi_time = CStruct ''xenpf_efi_time'' False
     [Field ''year'' uint16_t,
      Field ''month'' uint8_t,
      Field ''day'' uint8_t,
      Field ''hour'' uint8_t,
      Field ''min'' uint8_t,
      Field ''sec'' uint8_t,
      Field ''ns'' uint32_t,
      Field ''tz'' int16_t,
      Field ''daylight'' uint8_t]"

definition c__guest_handle_void :: cty where [layout_simps]:
  "c__guest_handle_void = CPtr ''void''"

definition struct_xenpf_efi_guid :: cty where
  "struct_xenpf_efi_guid = CStruct ''xenpf_efi_guid'' False
     [Field ''data1'' uint32_t,
      Field ''data2'' uint16_t,
      Field ''data3'' uint16_t,
      Field ''data4'' (CArr 8 uint8_t)]"

definition struct_xenpf_efi_runtime_call :: cty where
  "struct_xenpf_efi_runtime_call = CStruct ''xenpf_efi_runtime_call'' False
     [Field ''function'' uint32_t,
      Field ''misc'' uint32_t,
      Field ''status'' xen_ulong_t,
      Field ''u'' (CUnion [] False
        [Field ''get_time'' (CStruct [] False
           [Field ''time'' struct_xenpf_efi_time,
            Field ''resolution'' uint32_t,
            Field ''accuracy'' uint32_t]),
         Field ''set_time'' struct_xenpf_efi_time,
         Field ''get_wakeup_time'' struct_xenpf_efi_time,
         Field ''set_wakeup_time'' struct_xenpf_efi_time,
         Field ''get_variable'' (CStruct [] False
           [Field ''name'' c__guest_handle_void,
            Field ''size'' xen_ulong_t,
            Field ''data'' c__guest_handle_void,
            Field ''vendor_guid'' struct_xenpf_efi_guid]),
         Field ''set_variable'' (CStruct [] False
           [Field ''name'' c__guest_handle_void,
            Field ''size'' xen_ulong_t,
            Field ''data'' c__guest_handle_void,
            Field ''vendor_guid'' struct_xenpf_efi_guid]),
         Field ''get_next_variable_name'' (CStruct [] False
           [Field ''size'' xen_ulong_t,
            Field ''name'' c__guest_handle_void,
            Field ''vendor_guid'' struct_xenpf_efi_guid]),
         Field ''query_variable_info'' (CStruct [] False
           [Field ''attr'' uint32_t,
            Field ''max_store_size'' uint64_t,
            Field ''remain_store_size'' uint64_t,
            Field ''max_size'' uint64_t]),
         Field ''query_capsule_capabilities'' (CStruct [] False
           [Field ''capsule_header_array'' c__guest_handle_void,
            Field ''capsule_count'' xen_ulong_t,
            Field ''max_capsule_size'' uint64_t,
            Field ''reset_type'' uint32_t]),
         Field ''update_capsule'' (CStruct [] False
           [Field ''capsule_header_array'' c__guest_handle_void,
            Field ''capsule_count'' xen_ulong_t,
            Field ''sg_list'' uint64_t])])]"

definition c__guest_handle_uchar :: cty where [layout_simps]:
  "c__guest_handle_uchar = CPtr ''unsigned char''"

definition union_xenpf_efi_info :: cty where
  "union_xenpf_efi_info = CUnion ''xenpf_efi_info'' False
     [Field ''version'' uint32_t,
      Field ''cfg'' (CStruct [] False
        [Field ''addr'' uint64_t,
         Field ''nent'' uint32_t]),
      Field ''vendor'' (CStruct [] False
        [Field ''revision'' uint32_t,
         Field ''bufsz'' uint32_t,
         Field ''name'' c__guest_handle_void]),
      Field ''mem'' (CStruct [] False
        [Field ''addr'' uint64_t,
         Field ''size'' uint64_t,
         Field ''attr'' uint64_t,
         Field ''type'' uint32_t])]"

definition struct_xenpf_firmware_info :: cty where
  "struct_xenpf_firmware_info = CStruct ''xenpf_firmware_info'' False
     [Field ''type'' uint32_t,
      Field ''index'' uint32_t,
      Field ''u'' (CUnion [] False
        [Field ''disk_info'' (CStruct [] False
           [Field ''device'' uint8_t,
            Field ''version'' uint8_t,
            Field ''interface_support'' uint16_t,
            Field ''legacy_max_cylinder'' uint16_t,
            Field ''legacy_max_head'' uint8_t,
            Field ''legacy_sectors_per_track'' uint8_t,
            Field ''edd_params'' c__guest_handle_void]),
         Field ''disk_mbr_signature'' (CStruct [] False
           [Field ''device'' uint8_t,
            Field ''mbr_signature'' uint32_t]),
         Field ''vbeddc_info'' (CStruct [] False
           [Field ''capabilities'' uint8_t,
            Field ''edid_transfer_time'' uint8_t,
            Field ''edid'' c__guest_handle_uchar]),
         Field ''efi_info'' union_xenpf_efi_info,
         Field ''kbd_shift_flags'' uint8_t])]"

definition struct_xenpf_settime32 :: cty where
  "struct_xenpf_settime32 = CStruct ''xenpf_settime32'' False
     [Field ''secs'' uint32_t,
      Field ''nsecs'' uint32_t,
      Field ''system_time'' uint64_t]"

definition struct_xenpf_settime64 :: cty where
  "struct_xenpf_settime64 = CStruct ''xenpf_settime64'' False
     [Field ''secs'' uint64_t,
      Field ''nsecs'' uint32_t,
      Field ''mbz'' uint32_t,
      Field ''system_time'' uint64_t]"

definition struct_xenpf_add_memtype :: cty where
  "struct_xenpf_add_memtype = CStruct ''xenpf_add_memtype'' False
     [Field ''mfn'' xen_pfn_t,
      Field ''nr_mfns'' uint64_t,
      Field ''type'' uint32_t,
      Field ''handle'' uint32_t,
      Field ''reg'' uint32_t]"

definition struct_xenpf_del_memtype :: cty where
  "struct_xenpf_del_memtype = CStruct ''xenpf_del_memtype'' False
     [Field ''handle'' uint32_t,
      Field ''reg'' uint32_t]"

definition struct_xenpf_read_memtype :: cty where
  "struct_xenpf_read_memtype = CStruct ''xenpf_read_memtype'' False
     [Field ''reg'' uint32_t,
      Field ''mfn'' xen_pfn_t,
      Field ''nr_mfns'' uint64_t,
      Field ''type'' uint32_t]"

definition struct_xenpf_microcode_update :: cty where
  "struct_xenpf_microcode_update = CStruct ''xenpf_microcode_update'' False
     [Field ''data'' c__guest_handle_void,
      Field ''length'' uint32_t]"

definition struct_xenpf_platform_quirk :: cty where
  "struct_xenpf_platform_quirk = CStruct ''xenpf_platform_quirk'' False
     [Field ''quirk_id'' uint32_t]"

definition struct_xenpf_enter_acpi_sleep :: cty where
  "struct_xenpf_enter_acpi_sleep = CStruct ''xenpf_enter_acpi_sleep'' False
     [Field ''val_a'' uint16_t,
      Field ''val_b'' uint16_t,
      Field ''sleep_state'' uint32_t,
      Field ''flags'' uint32_t]"

definition struct_xenpf_change_freq :: cty where
  "struct_xenpf_change_freq = CStruct ''xenpf_change_freq'' False
     [Field ''flags'' uint32_t,
      Field ''cpu'' uint32_t,
      Field ''freq'' uint64_t]"

definition c__guest_handle_uint64_t :: cty where [layout_simps]:
  "c__guest_handle_uint64_t = CPtr ''uint64_t''"

definition struct_xenpf_getidletime :: cty where
  "struct_xenpf_getidletime = CStruct ''xenpf_getidletime'' False
     [Field ''cpumap_bitmap'' c__guest_handle_uchar,
      Field ''cpumap_nr_cpus'' uint32_t,
      Field ''idletime'' c__guest_handle_uint64_t,
      Field ''now'' uint64_t]"

definition struct_xen_processor_flags :: cty where
  "struct_xen_processor_flags = CStruct ''xen_processor_flags'' False
     [BitField ''bm_control'' uint32_t 1,
      BitField ''bm_check'' uint32_t 1,
      BitField ''has_cst'' uint32_t 1,
      BitField ''power_setup_done'' uint32_t 1,
      BitField ''bm_rld_set'' uint32_t 1]"

definition c__guest_handle_xen_processor_cx :: cty where [layout_simps]:
  "c__guest_handle_xen_processor_cx = CPtr ''struct xen_processor_cx''"

definition struct_xen_processor_power :: cty where
  "struct_xen_processor_power = CStruct ''xen_processor_power'' False
     [Field ''count'' uint32_t,
      Field ''flags'' struct_xen_processor_flags,
      Field ''states'' c__guest_handle_xen_processor_cx]"

definition c__guest_handle_uint32_t :: cty where [layout_simps]:
  "c__guest_handle_uint32_t = CPtr ''uint32_t''"

definition struct_xenpf_set_processor_pminfo :: cty where
  "struct_xenpf_set_processor_pminfo = CStruct ''xenpf_set_processor_pminfo'' False
     [Field ''id'' uint32_t,
      Field ''type'' uint32_t,
      Field [] (CUnion [] False
        [Field ''power'' struct_xen_processor_power,
         Field ''perf'' struct_xen_processor_performance,
         Field ''pdc'' c__guest_handle_uint32_t])]"

definition struct_xenpf_pcpuinfo :: cty where
  "struct_xenpf_pcpuinfo = CStruct ''xenpf_pcpuinfo'' False
     [Field ''xen_cpuid'' uint32_t,
      Field ''max_present'' uint32_t,
      Field ''flags'' uint32_t,
      Field ''apic_id'' uint32_t,
      Field ''acpi_id'' uint32_t]"

definition struct_xenpf_cpu_ol :: cty where
  "struct_xenpf_cpu_ol = CStruct ''xenpf_cpu_ol'' False
     [Field ''cpuid'' uint32_t]"

definition struct_xenpf_cpu_hotadd :: cty where
  "struct_xenpf_cpu_hotadd = CStruct ''xenpf_cpu_hotadd'' False
     [Field ''apic_id'' uint32_t,
      Field ''acpi_id'' uint32_t,
      Field ''pxm'' uint32_t]"

definition struct_xenpf_mem_hotadd :: cty where
  "struct_xenpf_mem_hotadd = CStruct ''xenpf_mem_hotadd'' False
     [Field ''spfn'' uint64_t,
      Field ''epfn'' uint64_t,
      Field ''pxm'' uint32_t,
      Field ''flags'' uint32_t]"

definition struct_xenpf_core_parking :: cty where
  "struct_xenpf_core_parking = CStruct ''xenpf_core_parking'' False
     [Field ''type'' uint32_t,
      Field ''idle_nums'' uint32_t]"

definition c__guest_handle_char :: cty where [layout_simps]:
  "c__guest_handle_char = CPtr ''char''"

definition struct_xenpf_symdata :: cty where
  "struct_xenpf_symdata = CStruct ''xenpf_symdata'' False
     [Field ''namelen'' uint32_t,
      Field ''symnum'' uint32_t,
      Field ''name'' c__guest_handle_char,
      Field ''address'' uint64_t,
      Field ''type'' c_char]"

definition struct_xen_platform_op :: cty where
  "struct_xen_platform_op = CStruct ''xen_platform_op'' False
     [Field ''cmd'' uint32_t,
      Field ''interface_version'' uint32_t,
      Field ''u'' (CUnion [] False
        [Field ''settime32'' struct_xenpf_settime32,
         Field ''settime64'' struct_xenpf_settime64,
         Field ''add_memtype'' struct_xenpf_add_memtype,
         Field ''del_memtype'' struct_xenpf_del_memtype,
         Field ''read_memtype'' struct_xenpf_read_memtype,
         Field ''microcode'' struct_xenpf_microcode_update,
         Field ''platform_quirk'' struct_xenpf_platform_quirk,
         Field ''efi_runtime_call'' struct_xenpf_efi_runtime_call,
         Field ''firmware_info'' struct_xenpf_firmware_info,
         Field ''enter_acpi_sleep'' struct_xenpf_enter_acpi_sleep,
         Field ''change_freq'' struct_xenpf_change_freq,
         Field ''getidletime'' struct_xenpf_getidletime,
         Field ''set_pminfo'' struct_xenpf_set_processor_pminfo,
         Field ''pcpu_info'' struct_xenpf_pcpuinfo,
         Field ''cpu_ol'' struct_xenpf_cpu_ol,
         Field ''cpu_add'' struct_xenpf_cpu_hotadd,
         Field ''mem_add'' struct_xenpf_mem_hotadd,
         Field ''core_parking'' struct_xenpf_core_parking,
         Field ''symdata'' struct_xenpf_symdata,
         Field ''dom0_console'' struct_dom0_vga_console_info,
         Field ''pad'' (CArr 128 uint8_t)])]"

definition struct_xhci_erst :: cty where
  "struct_xhci_erst = CStruct ''xhci_erst'' False
     [Field ''entries'' (CPtr ''struct xhci_erst_entry''),
      Field ''num_entries'' unsigned_int,
      Field ''erst_dma_addr'' dma_addr_t]"

definition struct_dbc_str :: cty where
  "struct_dbc_str = CStruct ''dbc_str'' False
     [Field ''manufacturer'' (CArr 127 c_char),
      Field ''product'' (CArr 127 c_char),
      Field ''serial'' (CArr 127 c_char)]"

definition enum_dbc_state :: cty where
  "enum_dbc_state = CEnum 4
     [(''DS_DISABLED'', 0), (''DS_INITIALIZED'', 1), (''DS_ENABLED'', 2), (''DS_CONNECTED'', 3),
      (''DS_CONFIGURED'', 4), (''DS_MAX'', 5)]"

definition struct_dbc_ep :: cty where
  "struct_dbc_ep = CStruct ''dbc_ep'' False
     [Field ''dbc'' (CPtr ''struct xhci_dbc''),
      Field ''list_pending'' struct_list_head,
      Field ''ring'' (CPtr ''struct xhci_ring''),
      BitField ''direction'' unsigned_int 1,
      BitField ''halted'' unsigned_int 1]"

definition struct_xhci_dbc :: cty where
  "struct_xhci_dbc = CStruct ''xhci_dbc'' False
     [Field ''lock'' spinlock_t,
      Field ''dev'' (CPtr ''struct device''),
      Field ''xhci'' (CPtr ''struct xhci_hcd''),
      Field ''regs'' (CPtr ''struct dbc_regs''),
      Field ''ring_evt'' (CPtr ''struct xhci_ring''),
      Field ''ring_in'' (CPtr ''struct xhci_ring''),
      Field ''ring_out'' (CPtr ''struct xhci_ring''),
      Field ''erst'' struct_xhci_erst,
      Field ''ctx'' (CPtr ''struct xhci_container_ctx''),
      Field ''str_descs'' (CPtr ''struct dbc_str_descs''),
      Field ''str_descs_dma'' dma_addr_t,
      Field ''str_descs_size'' size_t,
      Field ''str'' struct_dbc_str,
      Field ''idVendor'' u16,
      Field ''idProduct'' u16,
      Field ''bcdDevice'' u16,
      Field ''bInterfaceProtocol'' u8,
      Field ''state'' enum_dbc_state,
      Field ''event_work'' struct_delayed_work,
      Field ''poll_interval'' unsigned_int,
      Field ''xfer_timestamp'' long_unsigned_int,
      BitField ''resume_required'' unsigned_int 1,
      Field ''eps'' (CArr 2 struct_dbc_ep),
      Field ''driver'' (CPtr ''const struct dbc_driver''),
      Field ''priv'' (CPtr ''void'')]"

definition struct_s3_save :: cty where
  "struct_s3_save = CStruct ''s3_save'' False
     [Field ''command'' u32,
      Field ''dev_nt'' u32,
      Field ''dcbaa_ptr'' u64,
      Field ''config_reg'' u32]"

definition struct_xhci_bus_state :: cty where
  "struct_xhci_bus_state = CStruct ''xhci_bus_state'' False
     [Field ''bus_suspended'' long_unsigned_int,
      Field ''next_statechange'' long_unsigned_int,
      Field ''port_c_suspend'' u32,
      Field ''suspended_ports'' u32,
      Field ''port_remote_wakeup'' u32,
      Field ''resuming_ports'' long_unsigned_int]"

definition struct_xhci_hub :: cty where
  "struct_xhci_hub = CStruct ''xhci_hub'' False
     [Field ''ports'' (CPtr ''struct xhci_port *''),
      Field ''num_ports'' unsigned_int,
      Field ''hcd'' (CPtr ''struct usb_hcd''),
      Field ''bus_state'' struct_xhci_bus_state,
      Field ''maj_rev'' u8,
      Field ''min_rev'' u8]"

definition struct_xhci_hcd :: cty where
  "struct_xhci_hcd = CStruct ''xhci_hcd'' False
     [Field ''main_hcd'' (CPtr ''struct usb_hcd''),
      Field ''shared_hcd'' (CPtr ''struct usb_hcd''),
      Field ''cap_regs'' (CPtr ''struct xhci_cap_regs''),
      Field ''op_regs'' (CPtr ''struct xhci_op_regs''),
      Field ''run_regs'' (CPtr ''struct xhci_run_regs''),
      Field ''dba'' (CPtr ''struct xhci_doorbell_array''),
      Field ''hcs_params2'' c__u32,
      Field ''hcs_params3'' c__u32,
      Field ''hcc_params'' c__u32,
      Field ''hcc_params2'' c__u32,
      Field ''lock'' spinlock_t,
      Field ''hci_version'' u16,
      Field ''max_interrupters'' u16,
      Field ''max_slots'' u8,
      Field ''max_ports'' u8,
      Field ''imod_interval'' u32,
      Field ''page_size'' u32,
      Field ''nvecs'' c_int,
      Field ''clk'' (CPtr ''struct clk''),
      Field ''reg_clk'' (CPtr ''struct clk''),
      Field ''reset'' (CPtr ''struct reset_control''),
      Field ''dcbaa'' (CPtr ''struct xhci_device_context_array''),
      Field ''interrupters'' (CPtr ''struct xhci_interrupter *''),
      Field ''cmd_ring'' (CPtr ''struct xhci_ring''),
      Field ''cmd_ring_state'' unsigned_int,
      Field ''cmd_list'' struct_list_head,
      Field ''cmd_ring_reserved_trbs'' unsigned_int,
      Field ''cmd_timer'' struct_delayed_work,
      Field ''cmd_ring_stop_completion'' struct_completion,
      Field ''current_cmd'' (CPtr ''struct xhci_command''),
      Field ''scratchpad'' (CPtr ''struct xhci_scratchpad''),
      Field ''mutex'' struct_mutex,
      Field ''devs'' (CArr 256 (CPtr ''struct xhci_virt_device'')),
      Field ''rh_bw'' (CPtr ''struct xhci_root_port_bw_info''),
      Field ''device_pool'' (CPtr ''struct dma_pool''),
      Field ''segment_pool'' (CPtr ''struct dma_pool''),
      Field ''small_streams_pool'' (CPtr ''struct dma_pool''),
      Field ''port_bw_pool'' (CPtr ''struct dma_pool''),
      Field ''medium_streams_pool'' (CPtr ''struct dma_pool''),
      Field ''xhc_state'' unsigned_int,
      Field ''run_graceperiod'' long_unsigned_int,
      Field ''s3'' struct_s3_save,
      Field ''quirks'' long_long_unsigned_int,
      Field ''num_active_eps'' unsigned_int,
      Field ''limit_active_eps'' unsigned_int,
      Field ''hw_ports'' (CPtr ''struct xhci_port''),
      Field ''usb2_rhub'' struct_xhci_hub,
      Field ''usb3_rhub'' struct_xhci_hub,
      BitField ''hw_lpm_support'' unsigned_int 1,
      BitField ''broken_suspend'' unsigned_int 1,
      BitField ''allow_single_roothub'' unsigned_int 1,
      Field ''port_caps'' (CPtr ''struct xhci_port_cap''),
      Field ''num_port_caps'' unsigned_int,
      Field ''comp_mode_recovery_timer'' struct_timer_list,
      Field ''port_status_u0'' u32,
      Field ''test_mode'' u16,
      Field ''debugfs_root'' (CPtr ''struct dentry''),
      Field ''debugfs_slots'' (CPtr ''struct dentry''),
      Field ''regset_list'' struct_list_head,
      Field ''dbc'' (CPtr ''void''),
      Field ''priv'' (CArr 0 long_unsigned_int)]"

definition vli_type :: cty where [layout_simps]:
  "vli_type = uint64_t"

definition enum_xz_check :: cty where
  "enum_xz_check = CEnum 4
     [(''XZ_CHECK_NONE'', 0), (''XZ_CHECK_CRC32'', 1), (''XZ_CHECK_CRC64'', 4),
      (''XZ_CHECK_SHA256'', 10)]"

definition enum_xz_mode :: cty where
  "enum_xz_mode = CEnum 4
     [(''XZ_SINGLE'', 0), (''XZ_PREALLOC'', 1), (''XZ_DYNALLOC'', 2)]"

definition struct_xz_dec_hash :: cty where
  "struct_xz_dec_hash = CStruct ''xz_dec_hash'' False
     [Field ''unpadded'' vli_type,
      Field ''uncompressed'' vli_type,
      Field ''crc32'' uint32_t]"

definition struct_xz_dec :: cty where
  "struct_xz_dec = CStruct ''xz_dec'' False
     [Field ''sequence'' (CEnum 4 [(''SEQ_STREAM_HEADER'', 0), (''SEQ_BLOCK_START'', 1), (''SEQ_BLOCK_HEADER'', 2),
         (''SEQ_BLOCK_UNCOMPRESS'', 3), (''SEQ_BLOCK_PADDING'', 4), (''SEQ_BLOCK_CHECK'', 5),
         (''SEQ_INDEX'', 6), (''SEQ_INDEX_PADDING'', 7), (''SEQ_INDEX_CRC32'', 8),
         (''SEQ_STREAM_FOOTER'', 9)]),
      Field ''pos'' uint32_t,
      Field ''vli'' vli_type,
      Field ''in_start'' size_t,
      Field ''out_start'' size_t,
      Field ''crc32'' uint32_t,
      Field ''check_type'' enum_xz_check,
      Field ''mode'' enum_xz_mode,
      Field ''allow_buf_error'' bool,
      Field ''block_header'' (CStruct [] False
        [Field ''compressed'' vli_type,
         Field ''uncompressed'' vli_type,
         Field ''size'' uint32_t]),
      Field ''block'' (CStruct [] False
        [Field ''compressed'' vli_type,
         Field ''uncompressed'' vli_type,
         Field ''count'' vli_type,
         Field ''hash'' struct_xz_dec_hash]),
      Field ''index'' (CStruct [] False
        [Field ''sequence'' (CEnum 4 [(''SEQ_INDEX_COUNT'', 0), (''SEQ_INDEX_UNPADDED'', 1), (''SEQ_INDEX_UNCOMPRESSED'', 2)]),
         Field ''size'' vli_type,
         Field ''count'' vli_type,
         Field ''hash'' struct_xz_dec_hash]),
      Field ''temp'' (CStruct [] False
        [Field ''pos'' size_t,
         Field ''size'' size_t,
         Field ''buf'' (CArr 1024 uint8_t)]),
      Field ''lzma2'' (CPtr ''struct xz_dec_lzma2''),
      Field ''bcj'' (CPtr ''struct xz_dec_bcj''),
      Field ''bcj_active'' bool]"

section \<open>Sizes and alignments\<close>

lemma enum_tomoyo_securityfs_interface_index_layout [layout_simps]:
  "sizeof enum_tomoyo_securityfs_interface_index = 4 \<and> alignof enum_tomoyo_securityfs_interface_index = 4 \<and> wf_cty enum_tomoyo_securityfs_interface_index"
  by (simp add: enum_tomoyo_securityfs_interface_index_def base_types layout_eval
      del: One_nat_def)

lemma struct_tomoyo_io_buffer_layout [layout_simps]:
  "sizeof struct_tomoyo_io_buffer = 736 \<and> alignof struct_tomoyo_io_buffer = 8 \<and> wf_cty struct_tomoyo_io_buffer"
  by (simp add: struct_tomoyo_io_buffer_def base_types layout_eval struct_mutex_layout size_t_def c__kernel_size_t_def
      c__kernel_ulong_t_def u16_def c__u16_def u8_def c__u8_def bool_def
      enum_tomoyo_securityfs_interface_index_layout struct_list_head_layout
      del: One_nat_def)

lemma struct_tpm_bios_log_layout [layout_simps]:
  "sizeof struct_tpm_bios_log = 16 \<and> alignof struct_tpm_bios_log = 8 \<and> wf_cty struct_tpm_bios_log"
  by (simp add: struct_tpm_bios_log_def base_types layout_eval
      del: One_nat_def)

lemma struct_tpm_chip_seqops_layout [layout_simps]:
  "sizeof struct_tpm_chip_seqops = 16 \<and> alignof struct_tpm_chip_seqops = 8 \<and> wf_cty struct_tpm_chip_seqops"
  by (simp add: struct_tpm_chip_seqops_def base_types layout_eval
      del: One_nat_def)

lemma struct_hwrng_layout [layout_simps]:
  "sizeof struct_hwrng = 184 \<and> alignof struct_hwrng = 8 \<and> wf_cty struct_hwrng"
  by (simp add: struct_hwrng_def base_types layout_eval struct_list_head_layout struct_kref_layout
      struct_work_struct_layout struct_completion_layout
      del: One_nat_def)

lemma struct_tpm_bank_info_layout [layout_simps]:
  "sizeof struct_tpm_bank_info = 6 \<and> alignof struct_tpm_bank_info = 2 \<and> wf_cty struct_tpm_bank_info"
  by (simp add: struct_tpm_bank_info_def base_types layout_eval u16_def c__u16_def
      del: One_nat_def)

lemma struct_tpm_space_layout [layout_simps]:
  "sizeof struct_tpm_space = 56 \<and> alignof struct_tpm_space = 8 \<and> wf_cty struct_tpm_space"
  by (simp add: struct_tpm_space_def base_types layout_eval u32_def c__u32_def
      del: One_nat_def)

lemma struct_tpm_chip_layout [layout_simps]:
  "sizeof struct_tpm_chip = 2520 \<and> alignof struct_tpm_chip = 8 \<and> wf_cty struct_tpm_chip"
  by (simp add: struct_tpm_chip_def base_types layout_eval struct_device_layout struct_cdev_layout
      struct_rw_semaphore_layout struct_tpm_bios_log_layout struct_tpm_chip_seqops_layout
      struct_hwrng_layout struct_mutex_layout bool_def u32_def c__u32_def struct_tpm_bank_info_layout
      acpi_handle_def struct_tpm_space_layout
      del: One_nat_def)

lemma struct_array_buffer_layout [layout_simps]:
  "sizeof struct_array_buffer = 40 \<and> alignof struct_array_buffer = 8 \<and> wf_cty struct_array_buffer"
  by (simp add: struct_array_buffer_def base_types layout_eval u64_def c__u64_def
      del: One_nat_def)

lemma struct_trace_array_layout [layout_simps]:
  "sizeof struct_trace_array = 8280 \<and> alignof struct_trace_array = 8 \<and> wf_cty struct_trace_array"
  by (simp add: struct_trace_array_def base_types layout_eval struct_list_head_layout struct_array_buffer_layout bool_def
      spinlock_t_def struct_spinlock_layout struct_work_struct_layout struct_irq_work_layout
      arch_spinlock_t_def struct_qspinlock_layout u64_def c__u64_def raw_spinlock_t_def
      struct_raw_spinlock_layout cpumask_var_t_def
      del: One_nat_def)

lemma struct_trace_entry_layout [layout_simps]:
  "sizeof struct_trace_entry = 8 \<and> alignof struct_trace_entry = 4 \<and> wf_cty struct_trace_entry"
  by (simp add: struct_trace_entry_def base_types layout_eval
      del: One_nat_def)

lemma struct_trace_event_raw_mmc_request_done_layout [layout_simps]:
  "sizeof struct_trace_event_raw_mmc_request_done = 144 \<and> alignof struct_trace_event_raw_mmc_request_done = 8 \<and> wf_cty struct_trace_event_raw_mmc_request_done"
  by (simp add: struct_trace_event_raw_mmc_request_done_def base_types layout_eval struct_trace_entry_layout u32_def
      c__u32_def
      del: One_nat_def)

lemma struct_trace_event_raw_mmc_request_start_layout [layout_simps]:
  "sizeof struct_trace_event_raw_mmc_request_start = 120 \<and> alignof struct_trace_event_raw_mmc_request_start = 8 \<and> wf_cty struct_trace_event_raw_mmc_request_start"
  by (simp add: struct_trace_event_raw_mmc_request_start_def base_types layout_eval struct_trace_entry_layout u32_def
      c__u32_def
      del: One_nat_def)

lemma struct_tracer_layout [layout_simps]:
  "sizeof struct_tracer = 160 \<and> alignof struct_tracer = 8 \<and> wf_cty struct_tracer"
  by (simp add: struct_tracer_def base_types layout_eval bool_def
      del: One_nat_def)

lemma struct_transaction_chp_stats_s_layout [layout_simps]:
  "sizeof struct_transaction_chp_stats_s = 24 \<and> alignof struct_transaction_chp_stats_s = 8 \<and> wf_cty struct_transaction_chp_stats_s"
  by (simp add: struct_transaction_chp_stats_s_def base_types layout_eval c__u32_def
      del: One_nat_def)

lemma struct_transaction_s_layout [layout_simps]:
  "sizeof struct_transaction_s = 192 \<and> alignof struct_transaction_s = 8 \<and> wf_cty struct_transaction_s"
  by (simp add: struct_transaction_s_def base_types layout_eval tid_t_def struct_list_head_layout
      struct_transaction_chp_stats_s_layout atomic_t_layout ktime_t_def s64_def c__s64_def
      del: One_nat_def)

lemma struct_tun_file_layout [layout_simps]:
  "sizeof struct_tun_file = 1856 \<and> alignof struct_tun_file = 8 \<and> wf_cty struct_tun_file"
  by (simp add: struct_tun_file_def base_types layout_eval struct_sock_layout struct_socket_layout u16_def c__u16_def
      struct_napi_struct_layout bool_def struct_mutex_layout struct_list_head_layout
      struct_ptr_ring_layout struct_xdp_rxq_info_layout
      del: One_nat_def)

lemma struct_tap_filter_layout [layout_simps]:
  "sizeof struct_tap_filter = 60 \<and> alignof struct_tap_filter = 4 \<and> wf_cty struct_tap_filter"
  by (simp add: struct_tap_filter_def base_types layout_eval u32_def c__u32_def
      del: One_nat_def)

lemma struct_sock_fprog_layout [layout_simps]:
  "sizeof struct_sock_fprog = 16 \<and> alignof struct_sock_fprog = 8 \<and> wf_cty struct_sock_fprog"
  by (simp add: struct_sock_fprog_def base_types layout_eval
      del: One_nat_def)

lemma struct_ethtool_link_settings_layout [layout_simps]:
  "sizeof struct_ethtool_link_settings = 48 \<and> alignof struct_ethtool_link_settings = 4 \<and> wf_cty struct_ethtool_link_settings"
  by (simp add: struct_ethtool_link_settings_def base_types layout_eval c__u32_def c__u8_def c__s8_def
      del: One_nat_def)

lemma struct_ethtool_link_ksettings_layout [layout_simps]:
  "sizeof struct_ethtool_link_ksettings = 104 \<and> alignof struct_ethtool_link_ksettings = 8 \<and> wf_cty struct_ethtool_link_ksettings"
  by (simp add: struct_ethtool_link_ksettings_def base_types layout_eval struct_ethtool_link_settings_layout u32_def
      c__u32_def
      del: One_nat_def)

lemma struct_tun_struct_layout [layout_simps]:
  "sizeof struct_tun_struct = 10616 \<and> alignof struct_tun_struct = 8 \<and> wf_cty struct_tun_struct"
  by (simp add: struct_tun_struct_def base_types layout_eval kuid_t_layout kgid_t_layout netdev_features_t_def u64_def
      c__u64_def struct_tap_filter_layout struct_sock_fprog_layout bool_def u32_def c__u32_def
      spinlock_t_def struct_spinlock_layout struct_hlist_head_layout struct_timer_list_layout
      struct_list_head_layout atomic_long_t_def atomic64_t_layout struct_ethtool_link_ksettings_layout
      del: One_nat_def)

lemma struct_uart_8250_port_layout [layout_simps]:
  "sizeof struct_uart_8250_port = 784 \<and> alignof struct_uart_8250_port = 8 \<and> wf_cty struct_uart_8250_port"
  by (simp add: struct_uart_8250_port_def base_types layout_eval struct_uart_port_layout struct_timer_list_layout
      struct_list_head_layout u32_def c__u32_def u16_def c__u16_def struct_delayed_work_layout
      del: One_nat_def)

lemma struct_uart_ops_layout [layout_simps]:
  "sizeof struct_uart_ops = 216 \<and> alignof struct_uart_ops = 8 \<and> wf_cty struct_uart_ops"
  by (simp add: struct_uart_ops_def base_types layout_eval
      del: One_nat_def)

lemma struct_uffd_msg_layout [layout_simps]:
  "sizeof struct_uffd_msg = 32 \<and> alignof struct_uffd_msg = 8 \<and> wf_cty struct_uffd_msg"
  by (simp add: struct_uffd_msg_def base_types layout_eval c__u8_def c__u16_def c__u32_def c__u64_def
      del: One_nat_def)

lemma enum_uhci_rh_state_layout [layout_simps]:
  "sizeof enum_uhci_rh_state = 4 \<and> alignof enum_uhci_rh_state = 4 \<and> wf_cty enum_uhci_rh_state"
  by (simp add: enum_uhci_rh_state_def base_types layout_eval
      del: One_nat_def)

lemma struct_uhci_hcd_layout [layout_simps]:
  "sizeof struct_uhci_hcd = 456 \<and> alignof struct_uhci_hcd = 8 \<and> wf_cty struct_uhci_hcd"
  by (simp add: struct_uhci_hcd_def base_types layout_eval spinlock_t_def struct_spinlock_layout dma_addr_t_def u64_def
      c__u64_def enum_uhci_rh_state_layout struct_timer_list_layout struct_list_head_layout
      wait_queue_head_t_def struct_wait_queue_head_layout
      del: One_nat_def)

lemma struct_uhci_qh_layout [layout_simps]:
  "sizeof struct_uhci_qh = 128 \<and> alignof struct_uhci_qh = 8 \<and> wf_cty struct_uhci_qh"
  by (simp add: struct_uhci_qh_def base_types layout_eval c__le32_def c__u32_def dma_addr_t_def u64_def c__u64_def
      struct_list_head_layout
      del: One_nat_def)

lemma struct_usb_iso_packet_descriptor_layout [layout_simps]:
  "sizeof struct_usb_iso_packet_descriptor = 16 \<and> alignof struct_usb_iso_packet_descriptor = 4 \<and> wf_cty struct_usb_iso_packet_descriptor"
  by (simp add: struct_usb_iso_packet_descriptor_def base_types layout_eval
      del: One_nat_def)

lemma struct_urb_layout [layout_simps]:
  "sizeof struct_urb = 192 \<and> alignof struct_urb = 8 \<and> wf_cty struct_urb"
  by (simp add: struct_urb_def base_types layout_eval struct_kref_layout atomic_t_layout struct_list_head_layout
      dma_addr_t_def u64_def c__u64_def u32_def c__u32_def usb_complete_t_def
      struct_usb_iso_packet_descriptor_layout
      del: One_nat_def)

lemma enum_usb_device_state_layout [layout_simps]:
  "sizeof enum_usb_device_state = 4 \<and> alignof enum_usb_device_state = 4 \<and> wf_cty enum_usb_device_state"
  by (simp add: enum_usb_device_state_def base_types layout_eval
      del: One_nat_def)

lemma enum_usb_device_speed_layout [layout_simps]:
  "sizeof enum_usb_device_speed = 4 \<and> alignof enum_usb_device_speed = 4 \<and> wf_cty enum_usb_device_speed"
  by (simp add: enum_usb_device_speed_def base_types layout_eval
      del: One_nat_def)

lemma enum_usb_ssp_rate_layout [layout_simps]:
  "sizeof enum_usb_ssp_rate = 4 \<and> alignof enum_usb_ssp_rate = 4 \<and> wf_cty enum_usb_ssp_rate"
  by (simp add: enum_usb_ssp_rate_def base_types layout_eval
      del: One_nat_def)

lemma struct_usb_endpoint_descriptor_layout [layout_simps]:
  "sizeof struct_usb_endpoint_descriptor = 9 \<and> alignof struct_usb_endpoint_descriptor = 1 \<and> wf_cty struct_usb_endpoint_descriptor"
  by (simp add: struct_usb_endpoint_descriptor_def base_types layout_eval c__u8_def c__le16_def c__u16_def
      del: One_nat_def)

lemma struct_usb_ss_ep_comp_descriptor_layout [layout_simps]:
  "sizeof struct_usb_ss_ep_comp_descriptor = 6 \<and> alignof struct_usb_ss_ep_comp_descriptor = 2 \<and> wf_cty struct_usb_ss_ep_comp_descriptor"
  by (simp add: struct_usb_ss_ep_comp_descriptor_def base_types layout_eval c__u8_def c__le16_def c__u16_def
      del: One_nat_def)

lemma struct_usb_ssp_isoc_ep_comp_descriptor_layout [layout_simps]:
  "sizeof struct_usb_ssp_isoc_ep_comp_descriptor = 8 \<and> alignof struct_usb_ssp_isoc_ep_comp_descriptor = 4 \<and> wf_cty struct_usb_ssp_isoc_ep_comp_descriptor"
  by (simp add: struct_usb_ssp_isoc_ep_comp_descriptor_def base_types layout_eval c__u8_def c__le16_def c__u16_def
      c__le32_def c__u32_def
      del: One_nat_def)

lemma struct_usb_eusb2_isoc_ep_comp_descriptor_layout [layout_simps]:
  "sizeof struct_usb_eusb2_isoc_ep_comp_descriptor = 8 \<and> alignof struct_usb_eusb2_isoc_ep_comp_descriptor = 4 \<and> wf_cty struct_usb_eusb2_isoc_ep_comp_descriptor"
  by (simp add: struct_usb_eusb2_isoc_ep_comp_descriptor_def base_types layout_eval c__u8_def c__le16_def c__u16_def
      c__le32_def c__u32_def
      del: One_nat_def)

lemma struct_usb_host_endpoint_layout [layout_simps]:
  "sizeof struct_usb_host_endpoint = 88 \<and> alignof struct_usb_host_endpoint = 1 \<and> wf_cty struct_usb_host_endpoint"
  by (simp add: struct_usb_host_endpoint_def base_types layout_eval struct_usb_endpoint_descriptor_layout
      struct_usb_ss_ep_comp_descriptor_layout struct_usb_ssp_isoc_ep_comp_descriptor_layout
      struct_usb_eusb2_isoc_ep_comp_descriptor_layout struct_list_head_layout
      del: One_nat_def)

lemma struct_usb_device_descriptor_layout [layout_simps]:
  "sizeof struct_usb_device_descriptor = 18 \<and> alignof struct_usb_device_descriptor = 2 \<and> wf_cty struct_usb_device_descriptor"
  by (simp add: struct_usb_device_descriptor_def base_types layout_eval c__u8_def c__le16_def c__u16_def
      del: One_nat_def)

lemma enum_usb_link_tunnel_mode_layout [layout_simps]:
  "sizeof enum_usb_link_tunnel_mode = 4 \<and> alignof enum_usb_link_tunnel_mode = 4 \<and> wf_cty enum_usb_link_tunnel_mode"
  by (simp add: enum_usb_link_tunnel_mode_def base_types layout_eval
      del: One_nat_def)

lemma struct_usb2_lpm_parameters_layout [layout_simps]:
  "sizeof struct_usb2_lpm_parameters = 8 \<and> alignof struct_usb2_lpm_parameters = 4 \<and> wf_cty struct_usb2_lpm_parameters"
  by (simp add: struct_usb2_lpm_parameters_def base_types layout_eval
      del: One_nat_def)

lemma struct_usb3_lpm_parameters_layout [layout_simps]:
  "sizeof struct_usb3_lpm_parameters = 16 \<and> alignof struct_usb3_lpm_parameters = 4 \<and> wf_cty struct_usb3_lpm_parameters"
  by (simp add: struct_usb3_lpm_parameters_def base_types layout_eval
      del: One_nat_def)

lemma struct_usb_device_layout [layout_simps]:
  "sizeof struct_usb_device = 1464 \<and> alignof struct_usb_device = 8 \<and> wf_cty struct_usb_device"
  by (simp add: struct_usb_device_def base_types layout_eval u32_def c__u32_def enum_usb_device_state_layout
      enum_usb_device_speed_layout enum_usb_ssp_rate_layout struct_usb_host_endpoint_layout
      struct_device_layout struct_usb_device_descriptor_layout u8_def c__u8_def struct_list_head_layout
      atomic_t_layout spinlock_t_def struct_spinlock_layout enum_usb_link_tunnel_mode_layout
      struct_usb2_lpm_parameters_layout struct_usb3_lpm_parameters_layout u16_def c__u16_def
      del: One_nat_def)

lemma struct_usb_gadget_layout [layout_simps]:
  "sizeof struct_usb_gadget = 960 \<and> alignof struct_usb_gadget = 8 \<and> wf_cty struct_usb_gadget"
  by (simp add: struct_usb_gadget_def base_types layout_eval struct_work_struct_layout struct_list_head_layout
      enum_usb_device_speed_layout enum_usb_ssp_rate_layout enum_usb_device_state_layout spinlock_t_def
      struct_spinlock_layout bool_def struct_device_layout
      del: One_nat_def)

lemma struct_usb_bus_layout [layout_simps]:
  "sizeof struct_usb_bus = 144 \<and> alignof struct_usb_bus = 8 \<and> wf_cty struct_usb_bus"
  by (simp add: struct_usb_bus_def base_types layout_eval u8_def c__u8_def struct_mutex_layout
      del: One_nat_def)

lemma enum_usb_dev_authorize_policy_layout [layout_simps]:
  "sizeof enum_usb_dev_authorize_policy = 4 \<and> alignof enum_usb_dev_authorize_policy = 4 \<and> wf_cty enum_usb_dev_authorize_policy"
  by (simp add: enum_usb_dev_authorize_policy_def base_types layout_eval
      del: One_nat_def)

lemma struct_giveback_urb_bh_layout [layout_simps]:
  "sizeof struct_giveback_urb_bh = 64 \<and> alignof struct_giveback_urb_bh = 8 \<and> wf_cty struct_giveback_urb_bh"
  by (simp add: struct_giveback_urb_bh_def base_types layout_eval bool_def spinlock_t_def struct_spinlock_layout
      struct_list_head_layout struct_work_struct_layout
      del: One_nat_def)

lemma struct_usb_hcd_layout [layout_simps]:
  "sizeof struct_usb_hcd = 592 \<and> alignof struct_usb_hcd = 8 \<and> wf_cty struct_usb_hcd"
  by (simp add: struct_usb_hcd_def base_types layout_eval struct_usb_bus_layout struct_kref_layout
      struct_timer_list_layout struct_work_struct_layout enum_usb_dev_authorize_policy_layout
      resource_size_t_def phys_addr_t_def u64_def c__u64_def struct_giveback_urb_bh_layout
      del: One_nat_def)

lemma struct_usb_tt_layout [layout_simps]:
  "sizeof struct_usb_tt = 80 \<and> alignof struct_usb_tt = 8 \<and> wf_cty struct_usb_tt"
  by (simp add: struct_usb_tt_def base_types layout_eval spinlock_t_def struct_spinlock_layout struct_list_head_layout
      struct_work_struct_layout
      del: One_nat_def)

lemma struct_usb_hub_layout [layout_simps]:
  "sizeof struct_usb_hub = 640 \<and> alignof struct_usb_hub = 8 \<and> wf_cty struct_usb_hub"
  by (simp add: struct_usb_hub_def base_types layout_eval struct_kref_layout struct_mutex_layout struct_usb_tt_layout
      u8_def c__u8_def struct_delayed_work_layout struct_work_struct_layout spinlock_t_def
      struct_spinlock_layout struct_timer_list_layout struct_list_head_layout
      del: One_nat_def)

lemma enum_usb_phy_type_layout [layout_simps]:
  "sizeof enum_usb_phy_type = 4 \<and> alignof enum_usb_phy_type = 4 \<and> wf_cty enum_usb_phy_type"
  by (simp add: enum_usb_phy_type_def base_types layout_eval
      del: One_nat_def)

lemma enum_usb_phy_events_layout [layout_simps]:
  "sizeof enum_usb_phy_events = 4 \<and> alignof enum_usb_phy_events = 4 \<and> wf_cty enum_usb_phy_events"
  by (simp add: enum_usb_phy_events_def base_types layout_eval
      del: One_nat_def)

lemma enum_usb_charger_type_layout [layout_simps]:
  "sizeof enum_usb_charger_type = 4 \<and> alignof enum_usb_charger_type = 4 \<and> wf_cty enum_usb_charger_type"
  by (simp add: enum_usb_charger_type_def base_types layout_eval
      del: One_nat_def)

lemma enum_usb_charger_state_layout [layout_simps]:
  "sizeof enum_usb_charger_state = 4 \<and> alignof enum_usb_charger_state = 4 \<and> wf_cty enum_usb_charger_state"
  by (simp add: enum_usb_charger_state_def base_types layout_eval
      del: One_nat_def)

lemma struct_usb_charger_current_layout [layout_simps]:
  "sizeof struct_usb_charger_current = 32 \<and> alignof struct_usb_charger_current = 4 \<and> wf_cty struct_usb_charger_current"
  by (simp add: struct_usb_charger_current_def base_types layout_eval
      del: One_nat_def)

lemma struct_atomic_notifier_head_layout [layout_simps]:
  "sizeof struct_atomic_notifier_head = 16 \<and> alignof struct_atomic_notifier_head = 8 \<and> wf_cty struct_atomic_notifier_head"
  by (simp add: struct_atomic_notifier_head_def base_types layout_eval spinlock_t_def struct_spinlock_layout
      del: One_nat_def)

lemma struct_usb_phy_layout [layout_simps]:
  "sizeof struct_usb_phy = 336 \<and> alignof struct_usb_phy = 8 \<and> wf_cty struct_usb_phy"
  by (simp add: struct_usb_phy_def base_types layout_eval enum_usb_phy_type_layout enum_usb_phy_events_layout
      struct_notifier_block_layout enum_usb_charger_type_layout enum_usb_charger_state_layout
      struct_usb_charger_current_layout struct_work_struct_layout struct_atomic_notifier_head_layout
      u16_def c__u16_def struct_list_head_layout
      del: One_nat_def)

lemma struct_uv_hub_info_s_layout [layout_simps]:
  "sizeof struct_uv_hub_info_s = 144 \<and> alignof struct_uv_hub_info_s = 8 \<and> wf_cty struct_uv_hub_info_s"
  by (simp add: struct_uv_hub_info_s_def base_types layout_eval
      del: One_nat_def)

lemma enum_vc_intensity_layout [layout_simps]:
  "sizeof enum_vc_intensity = 4 \<and> alignof enum_vc_intensity = 4 \<and> wf_cty enum_vc_intensity"
  by (simp add: enum_vc_intensity_def base_types layout_eval
      del: One_nat_def)

lemma struct_vc_state_layout [layout_simps]:
  "sizeof struct_vc_state = 20 \<and> alignof struct_vc_state = 4 \<and> wf_cty struct_vc_state"
  by (simp add: struct_vc_state_def base_types layout_eval enum_vc_intensity_layout bool_def
      del: One_nat_def)

lemma struct_console_font_layout [layout_simps]:
  "sizeof struct_console_font = 24 \<and> alignof struct_console_font = 8 \<and> wf_cty struct_console_font"
  by (simp add: struct_console_font_def base_types layout_eval
      del: One_nat_def)

lemma struct_vt_mode_layout [layout_simps]:
  "sizeof struct_vt_mode = 8 \<and> alignof struct_vt_mode = 2 \<and> wf_cty struct_vt_mode"
  by (simp add: struct_vt_mode_def base_types layout_eval c__u8_def c__s16_def
      del: One_nat_def)

lemma struct_vc_data_layout [layout_simps]:
  "sizeof struct_vc_data = 848 \<and> alignof struct_vc_data = 8 \<and> wf_cty struct_vc_data"
  by (simp add: struct_vc_data_def base_types layout_eval struct_tty_port_layout struct_vc_state_layout
      struct_console_font_layout struct_vt_mode_layout wait_queue_head_t_def
      struct_wait_queue_head_layout
      del: One_nat_def)

lemma struct_balloon_dev_info_layout [layout_simps]:
  "sizeof struct_balloon_dev_info = 40 \<and> alignof struct_balloon_dev_info = 8 \<and> wf_cty struct_balloon_dev_info"
  by (simp add: struct_balloon_dev_info_def base_types layout_eval struct_list_head_layout bool_def
      del: One_nat_def)

lemma struct_virtio_balloon_stat_layout [layout_simps]:
  "sizeof struct_virtio_balloon_stat = 10 \<and> alignof struct_virtio_balloon_stat = 1 \<and> wf_cty struct_virtio_balloon_stat"
  by (simp add: struct_virtio_balloon_stat_def base_types layout_eval c__virtio16_def c__u16_def c__virtio64_def
      c__u64_def
      del: One_nat_def)

lemma struct_page_reporting_dev_info_layout [layout_simps]:
  "sizeof struct_page_reporting_dev_info = 104 \<and> alignof struct_page_reporting_dev_info = 8 \<and> wf_cty struct_page_reporting_dev_info"
  by (simp add: struct_page_reporting_dev_info_def base_types layout_eval struct_delayed_work_layout atomic_t_layout
      del: One_nat_def)

lemma struct_virtio_balloon_layout [layout_simps]:
  "sizeof struct_virtio_balloon = 1664 \<and> alignof struct_virtio_balloon = 8 \<and> wf_cty struct_virtio_balloon"
  by (simp add: struct_virtio_balloon_def base_types layout_eval struct_work_struct_layout spinlock_t_def
      struct_spinlock_layout bool_def struct_list_head_layout u32_def c__u32_def c__virtio32_def
      wait_queue_head_t_def struct_wait_queue_head_layout struct_balloon_dev_info_layout
      struct_mutex_layout struct_virtio_balloon_stat_layout struct_notifier_block_layout
      struct_page_reporting_dev_info_layout
      del: One_nat_def)

lemma struct_virtio_blk_geometry_layout [layout_simps]:
  "sizeof struct_virtio_blk_geometry = 4 \<and> alignof struct_virtio_blk_geometry = 2 \<and> wf_cty struct_virtio_blk_geometry"
  by (simp add: struct_virtio_blk_geometry_def base_types layout_eval c__virtio16_def c__u16_def c__u8_def
      del: One_nat_def)

lemma struct_virtio_blk_zoned_characteristics_layout [layout_simps]:
  "sizeof struct_virtio_blk_zoned_characteristics = 24 \<and> alignof struct_virtio_blk_zoned_characteristics = 4 \<and> wf_cty struct_virtio_blk_zoned_characteristics"
  by (simp add: struct_virtio_blk_zoned_characteristics_def base_types layout_eval c__virtio32_def c__u32_def c__u8_def
      del: One_nat_def)

lemma struct_virtio_blk_config_layout [layout_simps]:
  "sizeof struct_virtio_blk_config = 96 \<and> alignof struct_virtio_blk_config = 8 \<and> wf_cty struct_virtio_blk_config"
  by (simp add: struct_virtio_blk_config_def base_types layout_eval c__virtio64_def c__u64_def c__virtio32_def c__u32_def
      struct_virtio_blk_geometry_layout c__u8_def c__virtio16_def c__u16_def
      struct_virtio_blk_zoned_characteristics_layout
      del: One_nat_def)

lemma struct_virtio_net_rss_config_trailer_layout [layout_simps]:
  "sizeof struct_virtio_net_rss_config_trailer = 4 \<and> alignof struct_virtio_net_rss_config_trailer = 2 \<and> wf_cty struct_virtio_net_rss_config_trailer"
  by (simp add: struct_virtio_net_rss_config_trailer_def base_types layout_eval c__le16_def c__u16_def c__u8_def
      del: One_nat_def)

lemma struct_virtnet_info_layout [layout_simps]:
  "sizeof struct_virtnet_info = 568 \<and> alignof struct_virtnet_info = 8 \<and> wf_cty struct_virtnet_info"
  by (simp add: struct_virtnet_info_def base_types layout_eval u16_def c__u16_def bool_def u8_def c__u8_def u32_def
      c__u32_def struct_mutex_layout struct_work_struct_layout struct_hlist_node_layout
      struct_virtnet_interrupt_coalesce_layout u64_def c__u64_def
      struct_virtio_net_rss_config_trailer_layout
      del: One_nat_def)

lemma enum_vma_merge_state_layout [layout_simps]:
  "sizeof enum_vma_merge_state = 4 \<and> alignof enum_vma_merge_state = 4 \<and> wf_cty enum_vma_merge_state"
  by (simp add: enum_vma_merge_state_def base_types layout_eval
      del: One_nat_def)

lemma struct_vma_merge_struct_layout [layout_simps]:
  "sizeof struct_vma_merge_struct = 144 \<and> alignof struct_vma_merge_struct = 8 \<and> wf_cty struct_vma_merge_struct"
  by (simp add: struct_vma_merge_struct_def base_types layout_eval vm_flags_t_def struct_vm_userfaultfd_ctx_layout
      enum_vma_merge_state_layout bool_def
      del: One_nat_def)

lemma struct_vme_callback_layout [layout_simps]:
  "sizeof struct_vme_callback = 16 \<and> alignof struct_vme_callback = 8 \<and> wf_cty struct_vme_callback"
  by (simp add: struct_vme_callback_def base_types layout_eval
      del: One_nat_def)

lemma struct_vme_irq_layout [layout_simps]:
  "sizeof struct_vme_irq = 4104 \<and> alignof struct_vme_irq = 8 \<and> wf_cty struct_vme_irq"
  by (simp add: struct_vme_irq_def base_types layout_eval struct_vme_callback_layout
      del: One_nat_def)

lemma struct_vme_bridge_layout [layout_simps]:
  "sizeof struct_vme_bridge = 29064 \<and> alignof struct_vme_bridge = 8 \<and> wf_cty struct_vme_bridge"
  by (simp add: struct_vme_bridge_def base_types layout_eval struct_list_head_layout struct_vme_irq_layout
      struct_mutex_layout
      del: One_nat_def)

lemma struct_wm831x_pdata_layout [layout_simps]:
  "sizeof struct_wm831x_pdata = 312 \<and> alignof struct_wm831x_pdata = 8 \<and> wf_cty struct_wm831x_pdata"
  by (simp add: struct_wm831x_pdata_def base_types layout_eval bool_def
      del: One_nat_def)

lemma enum_wm831x_parent_layout [layout_simps]:
  "sizeof enum_wm831x_parent = 4 \<and> alignof enum_wm831x_parent = 4 \<and> wf_cty enum_wm831x_parent"
  by (simp add: enum_wm831x_parent_def base_types layout_eval
      del: One_nat_def)

lemma struct_wm831x_layout [layout_simps]:
  "sizeof struct_wm831x = 656 \<and> alignof struct_wm831x = 8 \<and> wf_cty struct_wm831x"
  by (simp add: struct_wm831x_def base_types layout_eval struct_mutex_layout struct_wm831x_pdata_layout
      enum_wm831x_parent_layout bool_def struct_list_head_layout u16_def c__u16_def
      wm831x_auxadc_read_fn_def
      del: One_nat_def)

lemma enum_writeback_sync_modes_layout [layout_simps]:
  "sizeof enum_writeback_sync_modes = 4 \<and> alignof enum_writeback_sync_modes = 4 \<and> wf_cty enum_writeback_sync_modes"
  by (simp add: enum_writeback_sync_modes_def base_types layout_eval
      del: One_nat_def)

lemma struct_writeback_control_layout [layout_simps]:
  "sizeof struct_writeback_control = 368 \<and> alignof struct_writeback_control = 8 \<and> wf_cty struct_writeback_control"
  by (simp add: struct_writeback_control_def base_types layout_eval loff_t_def c__kernel_loff_t_def
      enum_writeback_sync_modes_layout struct_folio_batch_layout size_t_def c__kernel_size_t_def
      c__kernel_ulong_t_def
      del: One_nat_def)

lemma struct_x509_certificate_layout [layout_simps]:
  "sizeof struct_x509_certificate = 200 \<and> alignof struct_x509_certificate = 8 \<and> wf_cty struct_x509_certificate"
  by (simp add: struct_x509_certificate_def base_types layout_eval u8_def c__u8_def time64_t_def c__s64_def bool_def
      del: One_nat_def)

lemma enum_hybrid_pmu_type_layout [layout_simps]:
  "sizeof enum_hybrid_pmu_type = 4 \<and> alignof enum_hybrid_pmu_type = 4 \<and> wf_cty enum_hybrid_pmu_type"
  by (simp add: enum_hybrid_pmu_type_def base_types layout_eval
      del: One_nat_def)

lemma struct_arch_pebs_cap_layout [layout_simps]:
  "sizeof struct_arch_pebs_cap = 24 \<and> alignof struct_arch_pebs_cap = 8 \<and> wf_cty struct_arch_pebs_cap"
  by (simp add: struct_arch_pebs_cap_def base_types layout_eval u64_def c__u64_def
      del: One_nat_def)

lemma struct_x86_hybrid_pmu_layout [layout_simps]:
  "sizeof struct_x86_hybrid_pmu = 4240 \<and> alignof struct_x86_hybrid_pmu = 8 \<and> wf_cty struct_x86_hybrid_pmu"
  by (simp add: struct_x86_hybrid_pmu_def base_types layout_eval struct_pmu_layout enum_hybrid_pmu_type_layout
      cpumask_t_def struct_cpumask_layout union_perf_capabilities_layout u64_def c__u64_def
      struct_event_constraint_layout struct_arch_pebs_cap_layout
      del: One_nat_def)

lemma struct_x86_pmu_layout [layout_simps]:
  "sizeof struct_x86_pmu = 760 \<and> alignof struct_x86_pmu = 8 \<and> wf_cty struct_x86_pmu"
  by (simp add: struct_x86_pmu_def base_types layout_eval u64_def c__u64_def union_perf_capabilities_layout
      struct_arch_pebs_cap_layout bool_def atomic_t_layout
      del: One_nat_def)

lemma struct_xdbc_ring_layout [layout_simps]:
  "sizeof struct_xdbc_ring = 32 \<and> alignof struct_xdbc_ring = 8 \<and> wf_cty struct_xdbc_ring"
  by (simp add: struct_xdbc_ring_def base_types layout_eval u32_def c__u32_def
      del: One_nat_def)

lemma struct_xdbc_segment_layout [layout_simps]:
  "sizeof struct_xdbc_segment = 16 \<and> alignof struct_xdbc_segment = 8 \<and> wf_cty struct_xdbc_segment"
  by (simp add: struct_xdbc_segment_def base_types layout_eval dma_addr_t_def u64_def c__u64_def
      del: One_nat_def)

lemma struct_xdbc_state_layout [layout_simps]:
  "sizeof struct_xdbc_state = 328 \<and> alignof struct_xdbc_state = 8 \<and> wf_cty struct_xdbc_state"
  by (simp add: struct_xdbc_state_def base_types layout_eval u16_def c__u16_def u32_def c__u32_def u64_def c__u64_def
      size_t_def c__kernel_size_t_def c__kernel_ulong_t_def dma_addr_t_def struct_xdbc_ring_layout
      struct_xdbc_segment_layout raw_spinlock_t_def struct_raw_spinlock_layout
      del: One_nat_def)

lemma struct_xdp_sock_layout [layout_simps]:
  "sizeof struct_xdp_sock = 1024 \<and> alignof struct_xdp_sock = 8 \<and> wf_cty struct_xdp_sock"
  by (simp add: struct_xdp_sock_def base_types layout_eval struct_sock_layout struct_list_head_layout u16_def c__u16_def
      bool_def u32_def c__u32_def u64_def c__u64_def spinlock_t_def struct_spinlock_layout
      struct_mutex_layout
      del: One_nat_def)

lemma struct_xenpf_efi_time_layout [layout_simps]:
  "sizeof struct_xenpf_efi_time = 16 \<and> alignof struct_xenpf_efi_time = 4 \<and> wf_cty struct_xenpf_efi_time"
  by (simp add: struct_xenpf_efi_time_def base_types layout_eval uint16_t_def u16_def c__u16_def uint8_t_def u8_def
      c__u8_def uint32_t_def u32_def c__u32_def int16_t_def s16_def c__s16_def
      del: One_nat_def)

lemma struct_xenpf_efi_guid_layout [layout_simps]:
  "sizeof struct_xenpf_efi_guid = 16 \<and> alignof struct_xenpf_efi_guid = 4 \<and> wf_cty struct_xenpf_efi_guid"
  by (simp add: struct_xenpf_efi_guid_def base_types layout_eval uint32_t_def u32_def c__u32_def uint16_t_def u16_def
      c__u16_def uint8_t_def u8_def c__u8_def
      del: One_nat_def)

lemma struct_xenpf_efi_runtime_call_layout [layout_simps]:
  "sizeof struct_xenpf_efi_runtime_call = 56 \<and> alignof struct_xenpf_efi_runtime_call = 8 \<and> wf_cty struct_xenpf_efi_runtime_call"
  by (simp add: struct_xenpf_efi_runtime_call_def base_types layout_eval uint32_t_def u32_def c__u32_def xen_ulong_t_def
      struct_xenpf_efi_time_layout c__guest_handle_void_def struct_xenpf_efi_guid_layout uint64_t_def
      u64_def c__u64_def
      del: One_nat_def)

lemma union_xenpf_efi_info_layout [layout_simps]:
  "sizeof union_xenpf_efi_info = 32 \<and> alignof union_xenpf_efi_info = 8 \<and> wf_cty union_xenpf_efi_info"
  by (simp add: union_xenpf_efi_info_def base_types layout_eval uint32_t_def u32_def c__u32_def uint64_t_def u64_def
      c__u64_def c__guest_handle_void_def
      del: One_nat_def)

lemma struct_xenpf_firmware_info_layout [layout_simps]:
  "sizeof struct_xenpf_firmware_info = 40 \<and> alignof struct_xenpf_firmware_info = 8 \<and> wf_cty struct_xenpf_firmware_info"
  by (simp add: struct_xenpf_firmware_info_def base_types layout_eval uint32_t_def u32_def c__u32_def uint8_t_def u8_def
      c__u8_def uint16_t_def u16_def c__u16_def c__guest_handle_void_def c__guest_handle_uchar_def
      union_xenpf_efi_info_layout
      del: One_nat_def)

lemma struct_xenpf_settime32_layout [layout_simps]:
  "sizeof struct_xenpf_settime32 = 16 \<and> alignof struct_xenpf_settime32 = 8 \<and> wf_cty struct_xenpf_settime32"
  by (simp add: struct_xenpf_settime32_def base_types layout_eval uint32_t_def u32_def c__u32_def uint64_t_def u64_def
      c__u64_def
      del: One_nat_def)

lemma struct_xenpf_settime64_layout [layout_simps]:
  "sizeof struct_xenpf_settime64 = 24 \<and> alignof struct_xenpf_settime64 = 8 \<and> wf_cty struct_xenpf_settime64"
  by (simp add: struct_xenpf_settime64_def base_types layout_eval uint64_t_def u64_def c__u64_def uint32_t_def u32_def
      c__u32_def
      del: One_nat_def)

lemma struct_xenpf_add_memtype_layout [layout_simps]:
  "sizeof struct_xenpf_add_memtype = 32 \<and> alignof struct_xenpf_add_memtype = 8 \<and> wf_cty struct_xenpf_add_memtype"
  by (simp add: struct_xenpf_add_memtype_def base_types layout_eval xen_pfn_t_def uint64_t_def u64_def c__u64_def
      uint32_t_def u32_def c__u32_def
      del: One_nat_def)

lemma struct_xenpf_del_memtype_layout [layout_simps]:
  "sizeof struct_xenpf_del_memtype = 8 \<and> alignof struct_xenpf_del_memtype = 4 \<and> wf_cty struct_xenpf_del_memtype"
  by (simp add: struct_xenpf_del_memtype_def base_types layout_eval uint32_t_def u32_def c__u32_def
      del: One_nat_def)

lemma struct_xenpf_read_memtype_layout [layout_simps]:
  "sizeof struct_xenpf_read_memtype = 32 \<and> alignof struct_xenpf_read_memtype = 8 \<and> wf_cty struct_xenpf_read_memtype"
  by (simp add: struct_xenpf_read_memtype_def base_types layout_eval uint32_t_def u32_def c__u32_def xen_pfn_t_def
      uint64_t_def u64_def c__u64_def
      del: One_nat_def)

lemma struct_xenpf_microcode_update_layout [layout_simps]:
  "sizeof struct_xenpf_microcode_update = 16 \<and> alignof struct_xenpf_microcode_update = 8 \<and> wf_cty struct_xenpf_microcode_update"
  by (simp add: struct_xenpf_microcode_update_def base_types layout_eval c__guest_handle_void_def uint32_t_def u32_def
      c__u32_def
      del: One_nat_def)

lemma struct_xenpf_platform_quirk_layout [layout_simps]:
  "sizeof struct_xenpf_platform_quirk = 4 \<and> alignof struct_xenpf_platform_quirk = 4 \<and> wf_cty struct_xenpf_platform_quirk"
  by (simp add: struct_xenpf_platform_quirk_def base_types layout_eval uint32_t_def u32_def c__u32_def
      del: One_nat_def)

lemma struct_xenpf_enter_acpi_sleep_layout [layout_simps]:
  "sizeof struct_xenpf_enter_acpi_sleep = 12 \<and> alignof struct_xenpf_enter_acpi_sleep = 4 \<and> wf_cty struct_xenpf_enter_acpi_sleep"
  by (simp add: struct_xenpf_enter_acpi_sleep_def base_types layout_eval uint16_t_def u16_def c__u16_def uint32_t_def
      u32_def c__u32_def
      del: One_nat_def)

lemma struct_xenpf_change_freq_layout [layout_simps]:
  "sizeof struct_xenpf_change_freq = 16 \<and> alignof struct_xenpf_change_freq = 8 \<and> wf_cty struct_xenpf_change_freq"
  by (simp add: struct_xenpf_change_freq_def base_types layout_eval uint32_t_def u32_def c__u32_def uint64_t_def u64_def
      c__u64_def
      del: One_nat_def)

lemma struct_xenpf_getidletime_layout [layout_simps]:
  "sizeof struct_xenpf_getidletime = 32 \<and> alignof struct_xenpf_getidletime = 8 \<and> wf_cty struct_xenpf_getidletime"
  by (simp add: struct_xenpf_getidletime_def base_types layout_eval c__guest_handle_uchar_def uint32_t_def u32_def
      c__u32_def c__guest_handle_uint64_t_def uint64_t_def u64_def c__u64_def
      del: One_nat_def)

lemma struct_xen_processor_flags_layout [layout_simps]:
  "sizeof struct_xen_processor_flags = 4 \<and> alignof struct_xen_processor_flags = 4 \<and> wf_cty struct_xen_processor_flags"
  by (simp add: struct_xen_processor_flags_def base_types layout_eval uint32_t_def u32_def c__u32_def
      del: One_nat_def)

lemma struct_xen_processor_power_layout [layout_simps]:
  "sizeof struct_xen_processor_power = 16 \<and> alignof struct_xen_processor_power = 8 \<and> wf_cty struct_xen_processor_power"
  by (simp add: struct_xen_processor_power_def base_types layout_eval uint32_t_def u32_def c__u32_def
      struct_xen_processor_flags_layout c__guest_handle_xen_processor_cx_def
      del: One_nat_def)

lemma struct_xenpf_set_processor_pminfo_layout [layout_simps]:
  "sizeof struct_xenpf_set_processor_pminfo = 112 \<and> alignof struct_xenpf_set_processor_pminfo = 8 \<and> wf_cty struct_xenpf_set_processor_pminfo"
  by (simp add: struct_xenpf_set_processor_pminfo_def base_types layout_eval uint32_t_def u32_def c__u32_def
      struct_xen_processor_power_layout struct_xen_processor_performance_layout
      c__guest_handle_uint32_t_def
      del: One_nat_def)

lemma struct_xenpf_pcpuinfo_layout [layout_simps]:
  "sizeof struct_xenpf_pcpuinfo = 20 \<and> alignof struct_xenpf_pcpuinfo = 4 \<and> wf_cty struct_xenpf_pcpuinfo"
  by (simp add: struct_xenpf_pcpuinfo_def base_types layout_eval uint32_t_def u32_def c__u32_def
      del: One_nat_def)

lemma struct_xenpf_cpu_ol_layout [layout_simps]:
  "sizeof struct_xenpf_cpu_ol = 4 \<and> alignof struct_xenpf_cpu_ol = 4 \<and> wf_cty struct_xenpf_cpu_ol"
  by (simp add: struct_xenpf_cpu_ol_def base_types layout_eval uint32_t_def u32_def c__u32_def
      del: One_nat_def)

lemma struct_xenpf_cpu_hotadd_layout [layout_simps]:
  "sizeof struct_xenpf_cpu_hotadd = 12 \<and> alignof struct_xenpf_cpu_hotadd = 4 \<and> wf_cty struct_xenpf_cpu_hotadd"
  by (simp add: struct_xenpf_cpu_hotadd_def base_types layout_eval uint32_t_def u32_def c__u32_def
      del: One_nat_def)

lemma struct_xenpf_mem_hotadd_layout [layout_simps]:
  "sizeof struct_xenpf_mem_hotadd = 24 \<and> alignof struct_xenpf_mem_hotadd = 8 \<and> wf_cty struct_xenpf_mem_hotadd"
  by (simp add: struct_xenpf_mem_hotadd_def base_types layout_eval uint64_t_def u64_def c__u64_def uint32_t_def u32_def
      c__u32_def
      del: One_nat_def)

lemma struct_xenpf_core_parking_layout [layout_simps]:
  "sizeof struct_xenpf_core_parking = 8 \<and> alignof struct_xenpf_core_parking = 4 \<and> wf_cty struct_xenpf_core_parking"
  by (simp add: struct_xenpf_core_parking_def base_types layout_eval uint32_t_def u32_def c__u32_def
      del: One_nat_def)

lemma struct_xenpf_symdata_layout [layout_simps]:
  "sizeof struct_xenpf_symdata = 32 \<and> alignof struct_xenpf_symdata = 8 \<and> wf_cty struct_xenpf_symdata"
  by (simp add: struct_xenpf_symdata_def base_types layout_eval uint32_t_def u32_def c__u32_def c__guest_handle_char_def
      uint64_t_def u64_def c__u64_def
      del: One_nat_def)

lemma struct_xen_platform_op_layout [layout_simps]:
  "sizeof struct_xen_platform_op = 136 \<and> alignof struct_xen_platform_op = 8 \<and> wf_cty struct_xen_platform_op"
  by (simp add: struct_xen_platform_op_def base_types layout_eval uint32_t_def u32_def c__u32_def
      struct_xenpf_settime32_layout struct_xenpf_settime64_layout struct_xenpf_add_memtype_layout
      struct_xenpf_del_memtype_layout struct_xenpf_read_memtype_layout
      struct_xenpf_microcode_update_layout struct_xenpf_platform_quirk_layout
      struct_xenpf_efi_runtime_call_layout struct_xenpf_firmware_info_layout
      struct_xenpf_enter_acpi_sleep_layout struct_xenpf_change_freq_layout
      struct_xenpf_getidletime_layout struct_xenpf_set_processor_pminfo_layout
      struct_xenpf_pcpuinfo_layout struct_xenpf_cpu_ol_layout struct_xenpf_cpu_hotadd_layout
      struct_xenpf_mem_hotadd_layout struct_xenpf_core_parking_layout struct_xenpf_symdata_layout
      struct_dom0_vga_console_info_layout uint8_t_def u8_def c__u8_def
      del: One_nat_def)

lemma struct_xhci_erst_layout [layout_simps]:
  "sizeof struct_xhci_erst = 24 \<and> alignof struct_xhci_erst = 8 \<and> wf_cty struct_xhci_erst"
  by (simp add: struct_xhci_erst_def base_types layout_eval dma_addr_t_def u64_def c__u64_def
      del: One_nat_def)

lemma struct_dbc_str_layout [layout_simps]:
  "sizeof struct_dbc_str = 381 \<and> alignof struct_dbc_str = 1 \<and> wf_cty struct_dbc_str"
  by (simp add: struct_dbc_str_def base_types layout_eval
      del: One_nat_def)

lemma enum_dbc_state_layout [layout_simps]:
  "sizeof enum_dbc_state = 4 \<and> alignof enum_dbc_state = 4 \<and> wf_cty enum_dbc_state"
  by (simp add: enum_dbc_state_def base_types layout_eval
      del: One_nat_def)

lemma struct_dbc_ep_layout [layout_simps]:
  "sizeof struct_dbc_ep = 40 \<and> alignof struct_dbc_ep = 8 \<and> wf_cty struct_dbc_ep"
  by (simp add: struct_dbc_ep_def base_types layout_eval struct_list_head_layout
      del: One_nat_def)

lemma struct_xhci_dbc_layout [layout_simps]:
  "sizeof struct_xhci_dbc = 720 \<and> alignof struct_xhci_dbc = 8 \<and> wf_cty struct_xhci_dbc"
  by (simp add: struct_xhci_dbc_def base_types layout_eval spinlock_t_def struct_spinlock_layout struct_xhci_erst_layout
      dma_addr_t_def u64_def c__u64_def size_t_def c__kernel_size_t_def c__kernel_ulong_t_def
      struct_dbc_str_layout u16_def c__u16_def u8_def c__u8_def enum_dbc_state_layout
      struct_delayed_work_layout struct_dbc_ep_layout
      del: One_nat_def)

lemma struct_s3_save_layout [layout_simps]:
  "sizeof struct_s3_save = 24 \<and> alignof struct_s3_save = 8 \<and> wf_cty struct_s3_save"
  by (simp add: struct_s3_save_def base_types layout_eval u32_def c__u32_def u64_def c__u64_def
      del: One_nat_def)

lemma struct_xhci_bus_state_layout [layout_simps]:
  "sizeof struct_xhci_bus_state = 40 \<and> alignof struct_xhci_bus_state = 8 \<and> wf_cty struct_xhci_bus_state"
  by (simp add: struct_xhci_bus_state_def base_types layout_eval u32_def c__u32_def
      del: One_nat_def)

lemma struct_xhci_hub_layout [layout_simps]:
  "sizeof struct_xhci_hub = 72 \<and> alignof struct_xhci_hub = 8 \<and> wf_cty struct_xhci_hub"
  by (simp add: struct_xhci_hub_def base_types layout_eval struct_xhci_bus_state_layout u8_def c__u8_def
      del: One_nat_def)

lemma struct_xhci_hcd_layout [layout_simps]:
  "sizeof struct_xhci_hcd = 2752 \<and> alignof struct_xhci_hcd = 8 \<and> wf_cty struct_xhci_hcd"
  by (simp add: struct_xhci_hcd_def base_types layout_eval c__u32_def spinlock_t_def struct_spinlock_layout u16_def
      c__u16_def u8_def c__u8_def u32_def struct_list_head_layout struct_delayed_work_layout
      struct_completion_layout struct_mutex_layout struct_s3_save_layout struct_xhci_hub_layout
      struct_timer_list_layout
      del: One_nat_def)

lemma enum_xz_check_layout [layout_simps]:
  "sizeof enum_xz_check = 4 \<and> alignof enum_xz_check = 4 \<and> wf_cty enum_xz_check"
  by (simp add: enum_xz_check_def base_types layout_eval
      del: One_nat_def)

lemma enum_xz_mode_layout [layout_simps]:
  "sizeof enum_xz_mode = 4 \<and> alignof enum_xz_mode = 4 \<and> wf_cty enum_xz_mode"
  by (simp add: enum_xz_mode_def base_types layout_eval
      del: One_nat_def)

lemma struct_xz_dec_hash_layout [layout_simps]:
  "sizeof struct_xz_dec_hash = 24 \<and> alignof struct_xz_dec_hash = 8 \<and> wf_cty struct_xz_dec_hash"
  by (simp add: struct_xz_dec_hash_def base_types layout_eval vli_type_def uint64_t_def u64_def c__u64_def uint32_t_def
      u32_def c__u32_def
      del: One_nat_def)

lemma struct_xz_dec_layout [layout_simps]:
  "sizeof struct_xz_dec = 1232 \<and> alignof struct_xz_dec = 8 \<and> wf_cty struct_xz_dec"
  by (simp add: struct_xz_dec_def base_types layout_eval uint32_t_def u32_def c__u32_def vli_type_def uint64_t_def
      u64_def c__u64_def size_t_def c__kernel_size_t_def c__kernel_ulong_t_def enum_xz_check_layout
      enum_xz_mode_layout bool_def struct_xz_dec_hash_layout uint8_t_def u8_def c__u8_def
      del: One_nat_def)

end
