(* ===== verification/KernelObjects.thy ===== *)
theory KernelObjects
  imports HelperTypes KernelLargeb KernelLargef KernelLargej
begin

text \<open>
  All structs and unions of \<^verbatim>\<open>bpf/vmlinux.h\<close> that the \<open>Kernel\<close> theories model, as lists, and what holds of
  every read of a member of one of them: the object is where the layout theorems of \<open>CLayout\<close> apply. Also the
  places in kernel objects that code outside the kernel relies on.
\<close>

section \<open>The modelled types\<close>

definition kernel_fs :: "cty list" where
  "kernel_fs =
     [struct_qspinlock, struct_raw_spinlock, struct_spinlock, struct_path,
      struct_optimistic_spin_queue, struct_list_head, struct_mutex, struct_callback_head,
      struct_llist_node, struct_file_ra_state, struct_file, struct_inode_state_flags,
      struct_rw_semaphore, struct_hlist_node, struct_hlist_head, struct_xarray, struct_rb_root,
      struct_rb_root_cached, struct_address_space, struct_inode, struct_seqcount,
      struct_seqcount_spinlock, struct_hlist_bl_node, struct_qstr, union_shortname_store,
      struct_lockref, struct_dentry, struct_refcount_struct, struct_kref, struct_kobject,
      struct_cdev, struct_hlist_bl_head, struct_mem_dqinfo, struct_quota_info,
      struct_wait_queue_head, struct_rcu_sync, struct_rcuwait, struct_percpu_rw_semaphore,
      struct_sb_writers, struct_list_lru, struct_work_struct, struct_super_block]"

definition kernel_task :: "cty list" where
  "kernel_task =
     [struct_thread_info, struct___call_single_node, struct_load_weight, struct_rb_node,
      struct_sched_avg, struct_sched_entity, struct_sched_rt_entity, struct_timerqueue_node,
      struct_hrtimer, struct_sched_dl_entity, struct_scx_dsq_list_node, struct_sched_ext_entity,
      struct_uclamp_se, struct_sched_statistics, struct_cpumask, union_rcu_special,
      struct_timespec64, struct_sched_info, struct_plist_node, struct_restart_block,
      struct_prev_cputime, struct_vtime, struct_timerqueue_head, struct_posix_cputimer_base,
      struct_posix_cputimers, struct_posix_cputimers_work, struct_sysv_sem, struct_sysv_shm,
      struct_sigpending, struct_seccomp, struct_syscall_user_dispatch, struct_wake_q_node,
      struct_task_io_accounting, struct_rseq_event, struct_rseq_ids, struct_rseq_data,
      struct_sched_mm_cid, struct_arch_tlbflush_unmap_batch, struct_tlbflush_unmap_batch,
      struct_page_frag, struct_lazy_mmu_state, struct_latency_record, struct_kmap_ctrl,
      struct_timer_list, struct_llist_head, struct_da_monitor, struct_ltl_monitor,
      union_rv_task_monitor, union_unwind_task_id, struct_unwind_task_info, struct_desc_struct,
      struct_thread_shstk, struct_thread_struct, struct_task_struct, struct_cred, struct_rhash_head,
      struct_upid, struct_pid, struct_cpu_itimer, struct_task_cputime_atomic,
      struct_thread_group_cputimer, struct_seqlock, struct_rlimit, struct_pacct_struct,
      struct_signal_struct]"

definition kernel_cgroup :: "cty list" where
  "kernel_cgroup =
     [struct_css_set, struct_percpu_ref, struct_rcu_work, struct_cgroup_subsys_state,
      struct_cgroup_file, struct_cacheline_padding, struct_task_cputime, struct_cgroup_base_stat,
      struct_cgroup_bpf, struct_cgroup_freezer_state, struct_cgroup, struct_kernfs_elem_dir,
      struct_kernfs_elem_symlink, struct_kernfs_elem_attr, struct_kernfs_node]"

definition kernel_bpf :: "cty list" where
  "kernel_bpf =
     [struct_bpf_map, struct_bpf_array, struct_bpf_mem_alloc, struct_pcpu_freelist,
      struct_bpf_lru_list, struct_bpf_common_lru, struct_bpf_lru, struct_percpu_counter,
      struct_bpf_htab, struct_bpf_ringbuf_hdr, struct_bpf_ringbuf_map, struct_sock_filter,
      struct_bpf_insn, struct_bpf_prog, struct_latch_tree_node, struct_bpf_ksym, struct_bpf_stream,
      struct_bpf_prog_aux, struct_bpf_link, struct_bpf_tramp_link, struct_bpf_tracing_link,
      struct_btf_func_model, struct_bpf_trampoline, struct_fred_cs, struct_fred_ss, struct_pt_regs,
      struct_irq_work, struct_bpf_ringbuf]"

definition kernel_drm :: "cty list" where
  "kernel_drm =
     [struct_idr, struct_drm_prime_file_private, struct_drm_file, struct_drm_minor, struct_ww_mutex,
      struct_drm_modeset_lock, struct_ida, struct_delayed_work, struct_drm_mode_config,
      struct_drm_device, struct_drm_driver, struct_drm_ioctl_desc, struct_file_operations,
      struct_qrwlock, struct_rwlock, struct_drm_mm_node, struct_drm_vma_offset_node,
      struct_dma_resv, struct_drm_gem_object]"

definition kernel_mm :: "cty list" where
  "kernel_mm =
     [struct_maple_tree, struct_mm_mm_cid, struct_uprobes_state, struct_mm_struct, struct_pgprot,
      struct_vm_userfaultfd_ctx, struct_vm_area_struct, struct_page, struct_folio,
      struct_vm_operations_struct, struct_vm_fault, struct_address_space_operations]"

definition kernel_vfs :: "cty list" where
  "kernel_vfs =
     [struct_inode_operations, struct_dentry_operations, struct_super_operations,
      struct_lock_class_key, struct_file_system_type, struct_vfsmount, struct_mount, struct_kiocb,
      struct_iovec, struct_iov_iter, struct_file_lock_core, struct_nfs_lock_info,
      struct_nfs4_lock_info, struct_file_lock, struct_p_log, struct_fs_context, struct_dir_context,
      struct_kstat, struct_export_operations, struct_dev_links_info, struct_pm_message,
      struct_swait_queue_head, struct_completion, struct_dev_pm_info, struct_dev_msi_info,
      struct_dev_archdata, struct_device, struct_block_device, struct_mempool, struct_bio_list,
      struct_bio_set, struct_lockdep_map, struct_gendisk, struct_bvec_iter, struct_bio,
      struct_blk_integrity, struct_queue_limits, struct_request_queue]"

definition kernel_dev :: "cty list" where
  "kernel_dev =
     [struct_device_driver, struct_bus_type, struct_class, struct_device_dma_parameters,
      struct_resource, struct_pci_vpd, struct_pci_dev, struct_pci_dynids, struct_pci_driver,
      struct_pci_bus, struct_dev_pm_ops, struct_module_kobject, struct_mod_tree_node,
      struct_module_memory, struct_its_array, struct_mod_arch_specific, struct_mod_kallsyms,
      struct__ddebug_info, struct_module, struct_kset, struct_attribute_group, struct_device_type,
      struct_iommu_group]"

definition kernel_kms :: "cty list" where
  "kernel_kms =
     [struct_drm_mode_object, struct_drm_scrambling, struct_drm_scdc, struct_drm_hdmi_dsc_cap,
      struct_drm_hdmi_info, struct_hdr_static_metadata, struct_hdr_sink_metadata,
      struct_drm_monitor_range_info, struct_drm_luminance_range_info, struct_drm_display_info,
      struct_drm_object_properties, struct_notifier_block, struct_drm_connector_tv_margins,
      struct_drm_cmdline_mode, struct_hdmi_any_infoframe, struct_hdmi_avi_infoframe,
      struct_hdmi_spd_infoframe, struct_hdmi_vendor_infoframe, union_hdmi_vendor_any_infoframe,
      struct_hdmi_audio_infoframe, struct_hdmi_drm_infoframe, union_hdmi_infoframe,
      struct_drm_connector_hdmi_infoframe, struct_drm_connector_hdmi,
      struct_drm_connector_hdmi_audio, struct_drm_connector_cec, struct_drm_connector,
      struct_drm_display_mode, struct_drm_crtc_crc, struct_drm_crtc, struct_kmsg_dumper,
      struct_drm_plane, struct_drm_framebuffer, struct_drm_encoder, struct_drm_mode_config_funcs,
      struct_drm_crtc_state, struct_drm_rect, struct_drm_plane_state, struct_drm_tv_connector_state,
      struct_drm_connector_hdmi_state, struct_drm_connector_state, struct_drm_atomic_state,
      struct_drm_property, struct_drm_private_obj, struct_drm_bridge, struct_drm_panel,
      struct_drm_client_dev, struct_drm_clip_rect, struct_fb_deferred_io, struct_drm_fb_helper,
      struct_drm_mode_modeinfo, struct_drm_event, struct_drm_pending_event, struct_drm_event_vblank,
      struct_drm_event_crtc_sequence, struct_drm_pending_vblank_event,
      struct_drm_vblank_crtc_config, struct_drm_vblank_crtc_timer, struct_drm_vblank_crtc,
      struct_drm_master, struct_drm_syncobj, struct_drm_gpuva, struct_drm_gpuvm,
      struct_ww_acquire_ctx, struct_drm_exec, struct_drm_printer, struct_drm_gem_object_funcs,
      struct_drm_mm, struct_iosys_map, struct_dma_fence_cb, struct_dma_buf_poll_cb_t,
      struct_dma_buf, struct_dma_fence, struct_dma_fence_ops, struct_dma_resv_list,
      struct_sync_file, struct_dma_buf_ops, struct_dma_buf_attachment]"

definition kernel_verifier :: "cty list" where
  "kernel_verifier =
     [struct_btf_header, struct_btf, struct_btf_mod_pair, struct_bpf_verifier_log,
      struct_bpf_subprog_arg_info, struct_bpf_subprog_info, struct_bpf_id_pair, struct_bpf_idmap,
      struct_bpf_idset, struct_backtrack_state, struct_tnum, struct_bpf_reg_state,
      struct_bpf_scc_callchain, struct_bpf_verifier_env, struct_bpf_func_proto, struct_bpf_map_ops,
      struct_bpf_prog_ops, struct_bpf_verifier_ops, struct_bpf_link_ops, struct_bpf_link_info,
      struct_bpf_prog_info, struct_bpf_map_info, struct_bpf_btf_info, struct_bpf_dispatcher_prog,
      struct_bpf_dispatcher, struct_bpf_tramp_image, struct_bpf_run_ctx, struct_bpf_tramp_run_ctx,
      struct_bpf_map_ptr_state, struct_bpf_loop_inline_state, struct_bpf_insn_aux_data,
      struct_bpf_retval_range, struct_bpf_func_state, struct_bpf_cgroup_storage_key,
      struct_bpf_cgroup_storage, struct_bpf_storage_buffer, struct_bpf_local_storage,
      struct_bpf_offload_dev, struct_bpf_perf_event_data, struct_bpf_raw_tracepoint_args,
      struct_bpf_iter_num, struct_bpf_stack_state, struct_bpf_timer, struct_bpf_spin_lock,
      struct_bpf_dynptr, struct_bpf_list_head, struct_bpf_rb_root, struct_bpf_wq, struct_range_tree,
      struct_bpf_arena, struct_ftrace_ops_hash, struct_ftrace_ops, struct_ftrace_regs,
      struct_trace_event, struct_trace_event_call, struct_perf_event_attr,
      struct_hw_perf_event_extra, struct_arch_hw_breakpoint, struct_rhlist_head,
      struct_hw_perf_event, struct_perf_addr_filters_head, struct_perf_event,
      struct_bpf_trace_run_ctx, union_bpf_attr, union_bpf_iter_link_info]"

definition kernel_fs_refs :: "cty list" where
  "kernel_fs_refs =
     [struct_fprop_local_percpu, struct_bdi_writeback, struct_backing_dev_info,
      struct_dquot_operations, struct_file_lock_context, struct_fown_struct, struct_fscrypt_keyring,
      struct_fscrypt_operations, struct_fsnotify_mark_connector, struct_fsnotify_sb_info,
      struct_fsverity_operations, struct_kobj_type, struct_list_lru_one, struct_list_lru_node,
      union_pipe_index, struct_pipe_inode_info, struct_posix_acl_hdr, struct_posix_acl_entry,
      struct_posix_acl, struct_quota_format_ops, struct_quota_format_type, struct_quotactl_ops,
      struct_shrinker, struct_unicode_map, struct_uid_gid_extent, struct_uid_gid_map,
      struct_ns_tree_node, struct_ns_tree_root, struct_ns_tree, struct_ns_common,
      struct_ctl_table_header, struct_ctl_dir, struct_ctl_table_set, struct_user_namespace,
      struct_workqueue_struct, struct_xattr_handler]"

definition kernel_task_refs1 :: "cty list" where
  "kernel_task_refs1 =
     [struct___kernel_timespec, struct_audit_stamp, struct_lsm_prop_selinux, struct_lsm_prop_smack,
      struct_lsm_prop_apparmor, struct_lsm_prop_bpf, struct_lsm_prop, struct_audit_cap_data,
      struct_audit_names, struct_mq_attr, struct_open_how, struct_audit_ntp_val,
      struct_audit_ntp_data, struct_audit_proctitle, struct_audit_context, struct_autogroup,
      struct_rq_list, struct_blk_plug, struct_in6_addr, struct_bpf_nh_params,
      struct_bpf_redirect_info, struct_bpf_net_context, struct_capture_control, struct_cfs_rq,
      struct_compat_robust_list, struct_compat_robust_list_head, struct_core_thread,
      struct_core_state, struct_fdtable, struct_files_struct, struct_fs_struct,
      struct_rt_mutex_base, union_futex_key, struct_futex_pi_state, struct_group_info,
      struct_seqcount_raw_spinlock, struct_hrtimer_clock_base, struct_io_bitmap, struct_io_context,
      struct_io_restriction, struct_io_uring_task, struct_keyring_index_key, union_key_payload,
      struct_assoc_array, struct_key, struct_mem_cgroup_private_id, struct_page_counter,
      struct_vmpressure, struct_fprop_global, struct_wb_domain, struct_wb_completion,
      struct_memcg_cgwb_frn, struct_deferred_split, struct_lru_gen_mm_list, struct_mem_cgroup,
      struct_mempolicy, struct_delayed_call, struct_saved, struct_nameidata, struct_nsproxy,
      struct_numa_group, struct_obj_cgroup, struct_old_timespec32, struct_perf_ctx_data,
      struct_perf_event_groups, struct_perf_time_ctx, struct_perf_event_context,
      struct_pid_namespace, struct_pidfs_attr, struct_pollfd, struct_rt_mutex, struct_kthread_work,
      struct_rcu_exp_work, struct_rcu_node, struct_reclaim_state, struct_robust_list,
      struct_robust_list_head]"

definition kernel_task_refs2 :: "cty list" where
  "kernel_task_refs2 =
     [struct___call_single_data, struct_uclamp_bucket, struct_uclamp_rq, struct_rt_prio_array,
      struct_plist_head, struct_rt_rq, struct_dl_rq, struct_scx_dispatch_q, struct_balance_callback,
      struct_scx_rq, struct_cpu_stop_work, struct_rq, struct_rseq_slice_ctrl, struct_rseq,
      struct_rt_waiter_node, struct_rt_mutex_waiter, struct_sched_class, struct_action_cache,
      struct_seccomp_filter, struct_sem_undo_list, struct_sigaction, struct_k_sigaction,
      struct_sighand_struct, struct_srcu_ctr, struct_task_delay_info, struct_scx_task_group,
      struct_cfs_bandwidth, struct_task_group, struct_taskstats, struct_tty_audit_buf,
      struct_ld_semaphore, struct_ktermios, struct_winsize, struct_tty_struct,
      struct_hlist_nulls_node, struct_ucounts, struct_unwind_cache, struct_arch_uprobe_task,
      struct_uprobe_task, struct_user_event_mm, struct_ratelimit_state, struct_user_struct,
      struct_vm_struct, union_sigval, union___sifields, struct_kernel_siginfo]"

definition kernel_cgroup_refs :: "cty list" where
  "kernel_cgroup_refs =
     [struct_bpf_prog_array_item, struct_bpf_prog_array, struct_cgroup_root, struct_u64_stats_sync,
      struct_cgroup_rstat_base_cpu, struct_cgroup_subsys, struct_css_rstat_cpu,
      struct_simple_xattrs, struct_kernfs_iattrs, struct_kernfs_open_node, struct_kernfs_ops,
      struct_kernfs_root, struct_percpu_ref_data, struct_psi_group]"

definition kernel_bpf_refs :: "cty list" where
  "kernel_bpf_refs =
     [struct_bpf_array_aux, struct_bpf_ctx_arg_aux, struct_bpf_func_info, struct_bpf_func_info_aux,
      struct_bpf_jit_poke_descriptor, struct_bpf_kfunc_btf, struct_bpf_kfunc_btf_tab,
      struct_bpf_kfunc_desc, struct_bpf_kfunc_desc_tab, struct_bpf_line_info,
      struct_bpf_lru_locallist, struct_bpf_map_owner, struct_bpf_mem_cache, struct_bpf_mem_caches,
      struct_bpf_prog_offload, struct_bpf_prog_stats, struct_bpf_struct_ops, struct_bpf_token,
      struct_btf_field_kptr, struct_btf_field_graph_root, struct_btf_field, struct_btf_record,
      struct_btf_type, struct_hlist_nulls_head, struct_bucket, struct_drm_gem_lru,
      struct_drm_mode_config_helper_funcs, struct_drm_modeset_acquire_ctx,
      struct_drm_vma_offset_manager, struct_exception_table_entry, struct_pcpu_freelist_node,
      struct_bpf_lru_node, struct_htab_elem, struct_pcpu_freelist_head, struct_sock_fprog_kern]"

definition kernel_mm_refs :: "cty list" where
  "kernel_mm_refs =
     [struct_anon_vma, struct_anon_vma_name, struct_vmem_altmap, struct_range, struct_dev_pagemap,
      struct_futex_hash_bucket, struct_futex_private_hash, struct_iommu_mm_data,
      struct_kioctx_table, struct_ldt_struct, struct_linux_binfmt, struct_mm_cid_pcpu,
      struct_mmu_notifier_subscriptions, struct_page_pool_params_fast, struct_page_pool_alloc_stats,
      struct_pp_alloc_cache, struct_ptr_ring, struct_page_pool_params_slow, struct_page_pool,
      struct_pfnmap_track_ctx, struct_userfaultfd_ctx, struct_vdso_image, struct_vma_numab_state,
      struct_xol_area]"

definition kernel_vfs_refs1 :: "cty list" where
  "kernel_vfs_refs1 =
     [struct_badblocks, struct_bio_alloc_cache, struct_bio_crypt_ctx, struct_bio_integrity_payload,
      struct_bio_vec, struct_blk_crypto_ll_ops, struct_blk_crypto_profile, struct_blk_flush_queue,
      struct_blk_holder_ops, struct_blk_independent_access_range,
      struct_blk_independent_access_ranges, struct_blk_mq_ctx, struct_sbitmap,
      struct_wait_queue_entry, struct_blk_mq_hw_ctx, struct_blk_mq_ops, struct_blk_mq_queue_map,
      struct_srcu_struct, struct_blk_mq_tag_set, struct_sbitmap_queue, struct_blk_mq_tags,
      struct_blk_queue_stats, struct_blk_trace, struct_blkg_iostat, struct_blkg_iostat_set,
      struct_blkcg_gq, struct_block_device_operations, struct_bus_dma_region,
      struct_cdrom_device_info, struct_debugfs_u32_array, struct_cma_memrange, struct_cma,
      struct_dev_iommu, struct_dev_pin_info, struct_dev_pm_domain, struct_pm_qos_constraints,
      struct_blocking_notifier_head, struct_freq_constraints, struct_pm_qos_flags,
      struct_dev_pm_qos, struct_fwnode_handle, struct_device_node, struct_device_physical_location,
      struct_klist, struct_klist_node, struct_driver_type, struct_device_private,
      struct_disk_events, struct_disk_stats, struct_dma_map_ops, struct_elevator_queue,
      struct_em_perf_domain, struct_fc_log, struct_file_lock_operations, struct_folio_batch,
      struct_folio_queue, struct_fs_context_operations, struct_fs_parameter_spec,
      struct_io_tlb_pool, struct_io_tlb_mem, struct_irq_domain, struct_reciprocal_value,
      struct_kmem_cache_order_objects, struct_kmem_cache, struct_kvec,
      struct_lock_manager_operations, struct_mnt_idmap, struct_mnt_namespace, struct_mnt_pcp,
      struct_mountpoint, struct_msi_dev_domain, struct_msi_device_data, struct_ref_tracker_dir,
      struct_raw_notifier_head, struct_netns_core, struct_netns_mib, struct_netns_packet,
      struct_unix_table, struct_netns_unix, struct_netns_nexthop, struct_inet_timewait_death_row,
      struct_udp_tunnel_gro, struct_local_ports, struct_ping_group_range,
      struct_sysctl_fib_multipath_hash_seed, struct_netns_ipv4]"

definition kernel_vfs_refs2 :: "cty list" where
  "kernel_vfs_refs2 =
     [struct_dst_ops, struct_netns_sysctl_ipv6, struct_netns_ipv6, struct_netns_sysctl_lowpan,
      struct_netns_ieee802154_lowpan, struct_netns_sctp, struct_netns_nf, struct_nf_generic_net,
      struct_nf_tcp_net, struct_nf_udp_net, struct_nf_icmp_net, struct_nf_sctp_net,
      struct_nf_gre_net, struct_nf_ip_net, struct_netns_ct, struct_netns_nftables, struct_netns_ft,
      struct_sk_buff_list, struct_sk_buff_head, struct_netns_bpf, struct_xfrm_policy_hash,
      struct_xfrm_policy_hthresh, struct_netns_xfrm, struct_seqcount_mutex, struct_netns_mpls,
      struct_netns_can, struct_netns_xdp, struct_netns_mctp, struct_netns_smc, struct_netns_vsock,
      struct_net, struct_rpc_timer, struct_rpc_wait_queue, struct_nfs_seqid_counter,
      struct_nfs4_stateid_struct, struct_nfs4_lock_state, struct_partition_meta_info,
      struct_pm_subsys_data, struct_request, struct_rq_qos, struct_throtl_service_queue,
      struct_throtl_data, struct_timer_rand_state, struct_wait_page_queue, struct_wake_irq,
      struct_wakeup_source]"

definition kernel_dev_refs :: "cty list" where
  "kernel_dev_refs =
     [struct_static_key, struct_static_key_true, struct_static_key_false, struct__ddebug,
      struct_acpi_device_id, struct_aer_info, struct_attribute, struct_bin_attribute,
      struct_bpf_raw_event_map, struct_bug_entry, struct_ddebug_class_map, struct_driver_private,
      struct_error_injection_entry, struct_iommu_domain_geometry, struct_iommu_domain,
      struct_jump_entry, struct_kernel_param, struct_kernel_symbol, struct_elf64_hdr,
      struct_klp_modinfo, struct_kobj_ns_type_operations, struct_kset_uevent_ops,
      struct_module_attribute, struct_module_notes_attrs, struct_param_attribute,
      struct_module_param_attrs, struct_module_sect_attrs, struct_led_classdev, struct_npem_led,
      struct_npem, struct_of_device_id, struct_pci_device_id, struct_pci_error_handlers,
      struct_pci_ops, struct_p2pdma_provider, struct_pci_p2pdma, struct_pci_slot, struct_pci_sriov,
      struct_pci_tsm, struct_pcie_bwctrl_data, struct_pcie_link_state, struct_proc_dir_entry,
      struct_rcec_ea, struct_static_call_site, struct_trace_eval_map, struct_elf64_sym]"

definition kernel_kms_refs :: "cty list" where
  "kernel_kms_refs =
     [struct___drm_colorops_state, struct___drm_connnectors_state, struct___drm_crtcs_state,
      struct___drm_planes_state, struct___drm_private_objs_state, struct_backlight_properties,
      struct_backlight_device, struct_device_attribute, struct_dma_buf_attach_ops,
      struct_drm_bridge_funcs, struct_drm_bridge_timings, struct_drm_client_buffer,
      struct_drm_client_funcs, struct_drm_colorop, struct_drm_connector_cec_funcs,
      struct_drm_connector_funcs, struct_drm_connector_hdmi_audio_funcs,
      struct_drm_connector_infoframe_funcs, struct_drm_connector_hdmi_funcs,
      struct_drm_connector_helper_funcs, struct_drm_crtc_commit, struct_drm_crtc_crc_entry,
      struct_drm_crtc_funcs, struct_drm_crtc_helper_funcs, struct_drm_edid,
      struct_drm_encoder_funcs, struct_drm_encoder_helper_funcs, struct_drm_fb_helper_funcs,
      struct_drm_format_info, struct_drm_framebuffer_funcs, struct_drm_gpuvm_bo,
      struct_drm_gpuvm_ops, struct_drm_mode_set, struct_drm_panel_funcs, struct_drm_plane_funcs,
      struct_drm_plane_helper_funcs, struct_drm_privacy_screen, struct_drm_private_state,
      struct_drm_private_state_funcs, struct_drm_property_blob, struct_ewma_psr_time,
      struct_drm_self_refresh_data, struct_drm_tile_group, struct_drm_writeback_job,
      struct_fb_bitfield, struct_fb_var_screeninfo, struct_fb_fix_screeninfo, struct_fb_chroma,
      struct_fb_monspecs, struct_fb_pixmap, struct_fb_cmap, struct_fb_info, struct_i2c_adapter,
      struct_kthread_worker, struct_pdev_archdata, struct_platform_device]"

definition kernel_verifier_refs :: "cty list" where
  "kernel_verifier_refs =
     [struct_bpf_cgroup_storage_map, struct_bpf_iarray, struct_bpf_iter_seq_info,
      struct_bpf_jmp_history_entry, struct_live_stack_query, struct_bpf_liveness,
      struct_bpf_local_storage_data, struct_bpf_prog_offload_ops, struct_bpf_scc_visit,
      struct_bpf_scc_info, struct_bpf_verifier_state, struct_bpf_verifier_stack_elem,
      struct_btf_id_dtor_kfunc, struct_btf_id_dtor_kfunc_tab, struct_btf_kfunc_hook_filter,
      struct_btf_kfunc_set_tab, struct_btf_struct_meta, struct_btf_struct_metas,
      struct_bpf_struct_ops_desc, struct_btf_struct_ops_tab, struct_event_filter,
      struct_fasync_struct, struct_ftrace_hash, struct_perf_addr_filter_range, struct_perf_buffer,
      struct_perf_cgroup, struct_perf_event_pmu_context, struct_pmu, struct_static_call_key,
      struct_trace_event_class, struct_trace_event_functions, struct_tracepoint]"

definition kernel_reach2a :: "cty list" where
  "kernel_reach2a =
     [struct___kernel_sockaddr_storage, struct_aa_common_ref, struct_aa_label, struct_arch_uprobe,
      struct_audit_aux_data, struct_audit_tree_refs, struct_backlight_ops, struct_binfmt_misc,
      struct_blk_crypto_config, struct_blk_crypto_key, struct_blk_crypto_keyslot,
      struct_blk_mq_ctxs, struct_blkcg, struct_blkg_policy_data, struct_bpf_local_storage_map,
      struct_bpf_reference_state, struct_bpf_scc_backedge, struct_bpf_struct_ops_arg_info,
      struct_btf_id_set8, struct_cdrom_device_ops, struct_cftype, struct_cgroup_namespace,
      struct_cma_kobject, struct_compact_control, struct_cpu_stop_done, struct_cpuidle_state,
      struct_ctl_node, struct_ctl_table, struct_ctl_table_root, struct_dev_pagemap_ops,
      struct_pm_qos_flags_request, struct_freq_qos_request, struct_dev_pm_qos_request,
      struct_drm_colorop_state, struct_drm_privacy_screen_ops, struct_drm_writeback_connector,
      struct_drm_edid_product_id, struct_est_timings, struct_std_timing,
      struct_detailed_pixel_timing, struct_detailed_data_string, struct_detailed_data_monitor_range,
      struct_detailed_data_wpindex, struct_cvt_timing, struct_detailed_non_pixel,
      struct_detailed_timing, struct_edid, struct_elevator_tags, struct_elevator_mq_ops,
      struct_elevator_type, struct_em_perf_state, struct_em_perf_table,
      struct_fb_deferred_io_pageref, struct_fb_deferred_io_state, struct_fb_ops, struct_fb_tile_ops,
      struct_fb_videomode, struct_fbcurpos, struct_fb_image, struct_fb_cursor, struct_fbcon_par,
      struct_rt6key, struct_fib_nh_common, struct_fib6_nh, struct_fib6_info, struct_fib6_node,
      struct_inet_peer_base, struct_fib6_table, struct_fib_notifier_ops, struct_fib_rules_ops,
      struct_fib_table, struct___filename_head, struct_filename, struct_rhashtable_params,
      struct_rhashtable, struct_fqdir, struct_fs_pin, struct_callchain, struct_func_instance,
      struct_fwnode_operations, struct_gen_pool, struct_hotplug_slot, struct_hrtimer_cpu_base,
      struct_i2c_adapter_quirks, struct_i2c_algorithm, struct_i2c_bus_recovery_info,
      struct_i2c_lock_operations, struct_icmp_mib, struct_icmpmsg_mib, struct_icmpv6_mib,
      struct_icmpv6msg_mib, struct_indication, struct_inet_hashinfo]"

definition kernel_reach2b :: "cty list" where
  "kernel_reach2b =
     [struct_io_bpf_filters, struct_io_cq, struct_io_rsrc_data, struct_io_file_table,
      struct_io_alloc_cache, struct_io_wq_work_node, struct_io_wq_work_list, struct_io_submit_link,
      struct_io_submit_state, struct_io_hash_table, struct_io_mapped_region, struct_io_ring_ctx,
      struct_io_tlb_area, struct_io_tlb_slot, struct_io_wq_acct, struct_io_wq,
      struct_ioam6_pernet_data, struct_iommu_device, struct_iommu_dirty_ops, struct_iova,
      struct_iova_domain, struct_iommu_dma_options, struct_iommu_dma_cookie,
      struct_iommu_dma_msi_cookie, struct_iommu_domain_ops, struct_iommu_fault_param,
      struct_iommu_fwspec, struct_iommu_ops, struct_iommufd_object, struct_iommufd_hw_pagetable,
      struct_ip_conntrack_stat, struct_ip_ra_chain, struct_ipc_ids, struct_ipc_namespace,
      struct_ipstats_mib, struct_ipv4_devconf, struct_ipv6_stable_secret, struct_ipv6_devconf,
      struct_irq_data, struct_irq_domain_chip_generic, struct_irq_domain_ops,
      struct_kernel_param_ops, struct_kernfs_syscall_ops, struct_key_restriction, struct_key_tag,
      struct_key_type, struct_key_user, struct_kioctx, struct_kmem_cache_node, struct_kparam_array,
      struct_kparam_string, struct_lcd_properties, struct_lcd_device, struct_led_hw_trigger_type,
      struct_led_trigger, struct_linux_mib, struct_linux_tls_mib, struct_linux_xfrm_mib,
      struct_lru_gen_mm_walk, struct_lru_gen_folio, struct_lru_gen_mm_state,
      struct_zswap_lruvec_state, struct_lruvec, struct_mem_cgroup_reclaim_iter,
      struct_mem_cgroup_per_node, struct_memcg_vmstats, struct_memcg_vmstats_percpu,
      struct_memory_provider_ops, struct_mfd_cell, struct_mptcp_mib, struct_msi_parent_ops,
      struct_gro_list, struct_gro_node, struct_irq_affinity_notify, struct_napi_struct,
      struct_netdev_tc_txq, struct_net_device_stats]"

definition kernel_reach2c :: "cty list" where
  "kernel_reach2c =
     [struct_netdev_hw_addr_list, struct_bpf_xdp_entity, struct_net_device, struct_net_generic,
      struct_nf_ct_event_notifier, struct_nf_flow_table_stat, struct_nf_hook_entry,
      struct_nf_hook_entries, struct_nf_logger, struct_nfs4_state, struct_notification,
      struct_npem_ops, struct_page_pool_recycle_stats, struct_pci_tdi, struct_perf_cgroup_info,
      struct_perf_cpu_pmu_context, struct_perf_event_mmap_page, struct_pinctrl,
      struct_pinctrl_state, struct_pipe_buffer, struct_platform_device_id, struct_pm_domain_data,
      struct_pool_workqueue, struct_pr_ops, struct_proc_ns_operations, struct_proc_ops,
      struct_prog_entry, struct_property, struct_prot_inuse, struct_psi_group_cpu, struct_rchan,
      struct_regulator_voltage, struct_regulator, struct_hprobe, struct_return_consumer,
      struct_return_instance, struct_dl_bw, struct_cpudl, struct_cpupri_vec, struct_cpupri,
      struct_root_domain, struct_rq_qos_ops, struct_dst_entry, struct_rt6_info,
      struct_rt6_statistics, struct_sbitmap_word, struct_sbq_wait_state, struct_sched_domain,
      struct_seg6_pernet_data, struct_seq_operations, struct_sk_buff, struct_local_trylock,
      struct_slub_percpu_sheaves, struct_netlbl_lsm_secattr, struct_smack_known, struct_smc_hs_ctrl,
      struct_sock_common, struct_sock_cgroup_data, struct_sock]"

definition kernel_reach2d :: "cty list" where
  "kernel_reach2d =
     [struct_rcu_segcblist, struct_srcu_data, struct_srcu_usage, struct_static_call_mod,
      struct_static_key_mod, struct_sysfs_ops, struct_tcp_congestion_ops,
      struct_tcp_fastopen_context, struct_tcp_mib, struct_thermal_cooling_device,
      struct_timens_offsets, struct_time_namespace, struct_trace_event_fields,
      struct_tracepoint_ext, struct_tracepoint_func, struct_tsm_dev, struct_tty_driver,
      struct_tty_ldisc, struct_tty_operations, struct_tty_buffer, struct_tty_bufhead,
      struct___kfifo, struct_tty_port, struct_udp_mib, struct_udp_table, struct_uevent_sock,
      struct_uprobe, struct_utf8data, struct_utf8data_table, struct_new_utsname,
      struct_uts_namespace, struct_watch_list, struct_watch_queue, struct_worker,
      struct_workqueue_attrs, struct_wq_device, struct_wq_flusher, struct_wq_node_nr_active,
      struct_elf64_shdr]"

definition kernel_reach3a :: "cty list" where
  "kernel_reach3a =
     [struct_qdisc_skb_head, struct_gnet_stats_basic_sync, struct_gnet_stats_queue, struct_Qdisc,
      struct_aa_policy, struct_aa_attachment, struct_aa_audit_cache, struct_aa_profile,
      struct_aa_proxy, struct_aa_caps, struct_aa_rlimit, struct_aa_ruleset, struct_audit_node,
      struct_audit_chunk, struct_ax25_dev, struct_blk_mq_debugfs_attr, struct_blkcg_policy_data,
      struct_bpf_local_storage_map_bucket, struct_bpf_mprog_fp, struct_bpf_mprog_entry,
      struct_bpf_xdp_link, struct_bucket_table, struct_cpu_rmap, struct_cpudl_item,
      struct_ctl_table_poll, struct_ctx_rq_wait, struct_dcbnl_rtnl_ops, struct_dev_ifalias,
      struct_netdev_phys_item_id, struct_devlink_port_phys_attrs, struct_devlink_port_pci_pf_attrs,
      struct_devlink_port_pci_vf_attrs, struct_devlink_port_pci_sf_attrs, struct_devlink_port_attrs,
      struct_devlink_port, struct_dim_irq_moder, struct_dm_hw_stat_delta,
      struct_dpll_pin_phase_adjust_range, struct_dpll_pin_properties, struct_dpll_pin,
      struct_phylink_config, struct_dsa_port, struct_dst_metrics, struct_elv_fs_entry,
      struct_ethtool_netdev_state, struct_ethtool_ops, struct_fbcon_bitops, struct_fbcon_display,
      struct_filter_pred, struct_fnhe_hash_bucket, struct_gpio_desc, struct_header_ops,
      struct_hotplug_slot_ops, struct_hwtstamp_provider_desc, struct_hwtstamp_provider,
      struct_in_device, struct_ipv6_devstat, struct_inet6_dev, struct_inet_bind_hashbucket,
      struct_inet_ehash_bucket, struct_inet_frags, struct_inet_listen_hashbucket,
      struct_io_bpf_filter, struct_io_ev_fd, struct_io_hash_bucket, struct_io_cmd_data,
      struct_io_cqe, struct_io_task_work, struct_io_wq_work, struct_io_big_cqe, struct_io_kiocb,
      struct_io_uring, struct_io_uring_cqe, struct_io_rings, struct_io_rsrc_node, struct_io_sq_data,
      struct_io_uring_sqe]"

definition kernel_reach3b :: "cty list" where
  "kernel_reach3b =
     [struct_io_wq_hash, struct_iommufd_eventq, struct_iommufd_fault, struct_iopf_queue,
      struct_iommu_pages_list, struct_iova_fq_entry, struct_iova_fq, struct_iova_rcache,
      struct_irq_chip, struct_irq_chip_regs, struct_irq_chip_type, struct_irq_chip_generic,
      struct_irq_common_data, struct_iw_handler_def, struct_kioctx_cpu, struct_kvm_memslots,
      struct_kvm_vm_stat_generic, struct_kvm_vm_stat, struct_kvm_possible_nx_huge_pages,
      struct_kvm_page_track_notifier_head, struct_ms_hyperv_tsc_page, struct_kvm_hv_syndbg,
      struct_kvm_hv, struct_gfn_to_pfn_cache, struct_kvm_xen_hvm_config, struct_kvm_xen,
      struct_once, struct_kvm_mmu_memory_cache, struct_kvm_arch, struct_mmu_notifier, struct_kvm,
      struct_l3mdev_ops, struct_lcd_ops, struct_lruvec_stats, struct_lruvec_stats_percpu,
      struct_lwtunnel_state, struct_macsec_ops, struct_mctp_dev, struct_mfd_cell_acpi_match,
      struct_napi_config, struct_ndisc_ops, struct_net_device_core_stats, struct_net_device_ops,
      struct_net_shaper_hierarchy, struct_netdev_config, struct_netdev_name_node, struct_dql,
      struct_netdev_queue, struct_netdev_queue_mgmt_ops, struct_xdp_mem_info, struct_xdp_rxq_info,
      struct_netdev_queue_config, struct_pp_memory_provider_params, struct_netdev_rx_queue,
      struct_netdev_stat_ops, struct_netlbl_lsm_cache, struct_netlbl_lsm_catmap, struct_semaphore,
      struct_netpoll_info, struct_netprio_map, struct_nexthop, struct_nfs4_state_owner,
      struct_node_barn, struct_numa_drop_counters, struct_pci_tsm_link_ops,
      struct_pci_tsm_devsec_ops, struct_pci_tsm_ops, struct_pcpu_dstats, struct_pcpu_lstats,
      struct_pcpu_sw_netstats, struct_per_frame_masks, struct_perf_domain, struct_free_area,
      struct_zone, struct_zoneref, struct_zonelist, struct_lru_gen_memcg]"

definition kernel_reach3c :: "cty list" where
  "kernel_reach3c =
     [struct_memory_failure_stats, struct_pglist_data, struct_mdio_device,
      struct_phy_c45_device_ids, struct_eee_config, struct_phy_oatc14_sqi_capability,
      struct_phy_device, struct_phy_link_topology, struct_pipe_buf_operations, struct_proto,
      struct_psp_key_parsed, struct_psp_assoc, struct_psp_dev_config, struct_psp_dev,
      struct_rchan_buf_stats, struct_rchan_buf, struct_rchan_callbacks, struct_coupling_desc,
      struct_regulator_dev, struct_rt6_exception_bucket, struct_rtable, struct_rtnl_hw_stats64,
      struct_rtnl_link_ops, struct_sched_domain_shared, struct_sched_group, struct_sfp_module_caps,
      struct_sfp_bus, struct_shrinker_info, struct_sk_filter, struct_skb_ext, struct_slab_sheaf,
      struct_sock_reuseport, struct_socket_wq, struct_socket, struct_software_node,
      struct_srcu_node, struct_thermal_cooling_device_ops, struct_tlsdev_ops, struct_tty_ldisc_ops,
      struct_tty_port_client_operations, struct_tty_port_operations, struct_udp_hslot,
      struct_udp_hslot_main, struct_udp_tunnel_nic_table_info, struct_udp_tunnel_nic_info,
      struct_uncached_list, struct_uprobe_xol_ops, struct_vlan_group, struct_vlan_info,
      struct_watch_type_filter, struct_watch_filter, struct_ieee80211_edmg,
      struct_cfg80211_chan_def, struct_ieee80211_mcs_info, struct_ieee80211_ht_cap,
      struct_cfg80211_ibss_params, struct_cfg80211_crypto_settings, struct_ieee80211_vht_mcs_info,
      struct_ieee80211_vht_cap, struct_cfg80211_bss_select_adjust, struct_cfg80211_bss_selection,
      struct_cfg80211_connect_params, struct_wiphy_work, struct_wireless_dev]"

definition kernel_reach3d :: "cty list" where
  "kernel_reach3d =
     [struct_worker_pool, struct_wpan_dev, struct_local_lock, struct_xdp_dev_bulk_queue,
      struct_xdp_metadata_ops, struct_xfrm_mark, struct_xfrm_selector, struct_xfrm_lifetime_cfg,
      struct_xfrm_lifetime_cur, struct_xfrm_policy_walk_entry, struct_xfrm_policy_queue,
      struct_xfrm_id, struct_xfrm_tmpl, struct_xfrm_dev_offload, struct_xfrm_policy,
      struct_xfrm_state_walk, struct_xfrm_replay_state, struct_xfrm_stats, struct_xfrm_mode,
      struct_xfrm_state, struct_xfrmdev_ops, struct_xps_dev_maps, struct_xsk_tx_metadata_ops]"

definition kernel_reach4a :: "cty list" where
  "kernel_reach4a =
     [struct_Qdisc_ops, struct_aa_loaddata, struct_aa_net_compat, struct_aa_ns_acct,
      struct_aa_labelset, struct_aa_ns, struct_aa_str_table, struct_aa_tags_struct,
      struct_aa_policydb, struct_aa_secmark, struct_io_poll, struct_async_poll, struct_audit_tree,
      struct_bpf_mprog_cp, struct_bpf_mprog_bundle, struct_device_link, struct_devlink_dev_stats,
      struct_devlink, struct_devlink_linecard, struct_devlink_port_ops, struct_devlink_rate,
      struct_dim_cq_moder, struct_dpll_pin_frequency, struct_dsa_bridge, struct_dsa_device_ops,
      struct_dsa_lag, struct_dsa_switch, struct_dsa_switch_tree, struct_eventfd_ctx,
      struct_fib_nh_exception, struct_fsnotify_mark, struct_ftrace_event_field,
      struct_gpio_desc_label, struct_gpio_device, struct_hv_partition_assist_pg,
      struct_ib_device_ops, struct_ib_core_device, struct_ib_odp_caps, struct_ib_rss_caps,
      struct_ib_tm_caps, struct_ib_cq_caps, struct_ib_device_attr, struct_rdmacg_device,
      struct_ib_device, struct_icmpv6_mib_device, struct_icmpv6msg_mib_device,
      struct_ieee80211_channel, struct_ieee802154_pan_device, struct_ifacaddr6, struct_ifmcaddr6,
      struct_in_ifaddr, struct_io_buffer, struct_io_mapped_ubuf, struct_iommufd_ctx,
      struct_iova_cpu_rcache, struct_iova_magazine, struct_ip_mc_list, struct_iw_priv_args,
      struct_key_params, struct_kvm_apic_map, struct_kvm_coalesced_mmio,
      struct_kvm_coalesced_mmio_ring, struct_kvm_io_range, struct_kvm_io_bus,
      struct_kvm_irq_routing_table]"

definition kernel_reach4b :: "cty list" where
  "kernel_reach4b =
     [struct_interval_tree_node, struct_kvm_arch_memory_slot, struct_kvm_memory_slot,
      struct_kvm_stat_data, struct_msr_bitmap_range, struct_kvm_x86_msr_filter,
      struct_kvm_x86_pmu_event_filter, struct_mctp_netdev_ops, struct_memory_tier,
      struct_mdio_bus_stats, struct_mii_bus, struct_mii_timestamper, struct_mmu_notifier_ops,
      struct_x86_msi_addr_lo, struct_x86_msi_addr_hi, struct_x86_msi_data, struct_msi_msg,
      struct_pci_msi_desc, union_msi_domain_cookie, union_msi_instance_cookie, struct_msi_desc_data,
      struct_msi_desc, struct_neigh_parms, struct_net_rate_estimator, struct_net_shaper_ops,
      struct_nfs_fsid, struct_nfs_auth_info, struct_nfs_server, struct_nh_grp_entry,
      struct_nh_group, struct_fib_nh, struct_nh_info, struct_nla_policy, struct_nlattr,
      struct_per_cpu_nodestat, struct_per_cpu_pages, struct_per_cpu_zonestat,
      struct_mdio_driver_common, struct_phy_driver, struct_phy_led_trigger, struct_property_entry,
      struct_proto_ops, struct_pse_control, struct_psp_dev_caps, struct_psp_dev_ops,
      struct_tc_sizespec, struct_qdisc_size_table, struct_raw_hashinfo, struct_regex,
      struct_regmap_format, struct_regmap, struct_regulator_state, struct_notification_limit,
      struct_regulation_constraints, struct_regulator_coupler, struct_regulator_desc,
      struct_regulator_enable_gpio, struct_request_sock_ops, struct_reset_control,
      struct_rhash_lock_head, struct_rps_dev_flow, struct_rps_dev_flow_table, struct_rps_map,
      struct_sched_group_capacity, struct_sfp_socket_ops, struct_sfp_upstream_ops,
      struct_shrinker_info_unit, struct_smc_hashinfo, struct_timewait_sock_ops,
      struct_udp_tunnel_nic_shared, struct_vhost_task, struct_wiphy_nan_capa, struct_wiphy,
      struct_wpan_dev_header_ops, struct_wpan_phy_supported, struct_wpan_phy_cca, struct_wpan_phy,
      struct_xdp_frame, struct_xfrm_address_filter, struct_xfrm_algo, struct_xfrm_algo_aead,
      struct_xfrm_algo_auth, struct_xfrm_encap_tmpl, struct_xfrm_mode_cbs,
      struct_xfrm_replay_state_esn, struct_xfrm_sec_ctx, struct_xfrm_type, struct_xfrm_type_offload,
      struct_xps_map, struct_xsk_buff_pool]"

definition kernel_reach5a :: "cty list" where
  "kernel_reach5a =
     [struct_Qdisc_class_ops, struct_aa_dfa, struct_aa_perms, struct_aa_str_table_ent,
      struct_aa_tags_header, struct_cfg80211_pmsr_capabilities, struct_cfg80211_sar_capa,
      struct_cfg80211_wowlan, struct_devlink_dpipe_headers, struct_devlink_linecard_ops,
      struct_devlink_linecard_type, struct_devlink_ops, struct_devlink_rel, struct_dsa_chip_data,
      struct_dsa_platform_data, struct_dsa_switch_ops, struct_fib_info,
      struct_inotify_group_private_data, struct_fanotify_group_private_data, struct_fsnotify_group,
      struct_gpio_irq_chip, struct_gpio_chip, struct_hwspinlock, struct_ib_port_immutable,
      struct_ib_port_cache, struct_auto_mode_param, struct_rdma_counter_mode,
      struct_rdma_port_counter, struct_ib_port_data, struct_ieee80211_iface_combination,
      struct_ieee80211_freq_range, struct_ieee80211_power_rule, struct_ieee80211_wmm_ac,
      struct_ieee80211_wmm_rule, struct_ieee80211_reg_rule, struct_ieee80211_regdomain,
      struct_ieee80211_sta_ht_cap, struct_ieee80211_sta_vht_cap, struct_ieee80211_sta_s1g_cap,
      struct_ieee80211_supported_band, struct_ieee80211_txrx_stypes, struct_io_pagetable,
      struct_iommufd_ioas, struct_ip6_sf_list, struct_ip_sf_list, struct_irq_affinity_desc,
      struct_kvm_lpage_info, struct_kvm_rmap_head, struct_kvm_stats_desc, struct_linear_range,
      struct_mac_address, struct_neigh_table, struct_netlink_range_validation,
      struct_netlink_range_validation_signed, struct_xprtsec_parms, struct_nfs_client,
      struct_nh_grp_entry_stats, struct_nh_res_bucket, struct_nh_res_table,
      struct_nl80211_vendor_cmd_info, struct_phylink_mac_ops, struct_pse_ntf,
      struct_pse_controller_dev, struct_rdma_link_ops, struct_reg_default, struct_reg_sequence,
      struct_regcache_ops, struct_regmap_access_table, struct_regmap_bus, struct_regulator_ops,
      struct_reset_controller_dev, struct_rfkill, struct_rpc_pipe_dir_head, struct_rpc_rtt]"

definition kernel_reach5b :: "cty list" where
  "kernel_reach5b =
     [struct_rpc_timeout, struct_rpc_xprt_iter, struct_rpc_clnt, struct_wiphy_coalesce_support,
      struct_wiphy_iftype_akm_suites, struct_wiphy_iftype_ext_capab, struct_wiphy_radio,
      struct_wiphy_radio_cfg, struct_wiphy_vendor_command, struct_wiphy_wowlan_support,
      struct_xdp_buff, struct_xdp_buff_xsk, struct_xdp_desc, struct_xdp_umem, struct_xsk_queue,
      struct_cfg80211_pkt_pattern, struct_cfg80211_sar_freq_ranges,
      struct_cfg80211_sched_scan_request, struct_nl80211_wowlan_tcp_data_seq,
      struct_nl80211_wowlan_tcp_data_token, struct_cfg80211_wowlan_tcp, struct_devlink_dpipe_header,
      struct_fsnotify_event, struct_fsnotify_ops, struct_hwspinlock_device,
      struct_ieee80211_iface_limit, struct_ieee80211_rate, struct_ieee80211_he_cap_elem,
      struct_ieee80211_he_mcs_nss_supp, struct_ieee80211_sta_he_cap, struct_ieee80211_he_6ghz_capa,
      struct_ieee80211_eht_cap_elem_fixed, struct_ieee80211_eht_mcs_nss_supp_20mhz_only,
      struct_ieee80211_eht_mcs_nss_supp_bw, struct_ieee80211_eht_mcs_nss_supp,
      struct_ieee80211_sta_eht_cap, struct_ieee80211_uhr_cap_mac, struct_ieee80211_uhr_cap_phy,
      struct_ieee80211_sta_uhr_cap, struct_ieee80211_sband_iftype_data, struct_neigh_hash_table,
      struct_neigh_statistics, struct_nfstime4, struct_nfs41_impl_id, struct_nfs41_server_owner,
      struct_nfs41_server_scope, struct_nfs4_minor_version_ops, struct_nfs_rpc_ops,
      struct_of_phandle_args, struct_pneigh_entry, struct_pse_controller_ops, struct_pse_pi_pairset,
      struct_pse_pi, struct_rdma_hw_stats, struct_regmap_range, struct_reset_control_ops,
      struct_rfkill_ops, struct_rpc_auth, struct_rpc_procinfo, struct_rpc_program, struct_rpc_stat,
      struct_rpc_sysfs_client, struct_rpc_xprt, struct_rpc_xprt_iter_ops, struct_rpc_xprt_switch,
      struct_table_header, struct_wiphy_radio_freq_range, struct_wiphy_wowlan_tcp_support,
      struct_xdp_ring, struct_xdp_txq_info, struct_cfg80211_ssid, struct_cfg80211_match_set,
      struct_cfg80211_sched_scan_plan, struct_devlink_dpipe_field, struct_hwspinlock_ops,
      struct_nfs4_mig_recovery_ops, struct_nfs4_sequence_slot_ops,
      struct_nfs4_state_maintenance_ops, struct_nfs4_state_recovery_ops,
      struct_nl80211_wowlan_tcp_data_token_feature, struct_pse_power_domain, struct_rdma_stat_desc,
      struct_rpc_authops, struct_rpc_call_ops, struct_rpc_wait, struct_rpc_message, struct_rpc_task,
      struct_rpc_version, struct_rpc_xprt_ops, struct_lwq, struct_svc_serv, struct_xprt_class,
      struct_rpc_cred, struct_xdr_buf, struct_lwq_node, struct_rpc_rqst, struct_svc_pool,
      struct_svc_program, struct_svc_stat, struct_rpc_credops, struct_svc_version,
      struct_svc_procedure]"

definition kernel_helpers1 :: "cty list" where
  "kernel_helpers1 =
     [struct_bpf_fib_lookup, struct_bpf_sk_lookup, struct_bpf_perf_event_value,
      struct_bpf_pidns_info, struct_bpf_redir_neigh, struct_bpf_sock, struct_bpf_sock_addr,
      struct_bpf_sock_ops, struct_bpf_sock_tuple, struct_bpf_sysctl, struct_bpf_tcp_sock,
      struct_bpf_tunnel_key, struct_bpf_xfrm_state, struct_linux_binprm, struct_sk_reuseport_md,
      struct_sockaddr, struct_tcphdr, struct_seq_file, struct_inet_cork, struct_flowi_tunnel,
      struct_flowi_common, union_flowi_uli, struct_flowi4, struct_flowi6, struct_flowi,
      struct_inet6_cork, struct_inet_cork_full, struct_inet_sock, struct_fastopen_queue,
      struct_request_sock_queue, struct_inet_connection_sock, struct_minmax_sample, struct_minmax,
      struct_tcp_options_received, struct_tcp_rack, struct_tcp_sack_block, struct_tcp_sock,
      struct_in6_pktinfo, struct_ipv6_pinfo, struct_tcp6_sock, struct_inet_timewait_sock,
      struct_tcp_timewait_sock, struct_request_sock, struct_inet_request_sock,
      struct_tcp_request_sock, struct_udp_sock, struct_udp6_sock, struct_scm_stat, struct_unix_sock,
      struct___sk_buff, struct_sk_msg_md, struct_xdp_md, struct_btf_ptr, struct_in_addr,
      struct_mptcp_addr_info, struct_mptcp_rm_list, struct_mptcp_pm_data]"

definition kernel_helpers2 :: "cty list" where
  "kernel_helpers2 =
     [struct_mptcp_sock, struct_iphdr, struct_ipv6hdr, struct_bpf_flow_keys,
      struct_inet_bind2_bucket, struct_inet_bind_bucket, struct_inet_connection_sock_af_ops,
      struct_ip_mreqn, struct_ip_mc_socklist, struct_ip_options, struct_ip_options_rcu,
      struct_ipv6_ac_socklist, struct_ipv6_fl_socklist, struct_ipv6_mc_socklist,
      struct_ipv6_txoptions, struct_mptcp_data_frag, struct_mptcp_sched_ops, struct_saved_syn,
      struct_tcp_ao_counters, struct_tcp_ao_info, struct_tcp_fastopen_cookie,
      struct_tcp_fastopen_request, struct_tcp_md5sig_info, union_tcp_ao_addr, struct_tcp_md5sig_key,
      struct_tcp_request_sock_ops, struct_tcp_sock_af_ops, struct_tcp_ulp_ops,
      struct_udp_prod_queue, struct_sockaddr_un, struct_unix_address, struct_unix_vertex,
      struct_ip6_flowlabel, struct_ip6_sf_socklist, struct_ip_sf_socklist, struct_ipv6_opt_hdr,
      struct_ipv6_rt_hdr, struct_msghdr, struct_tcp_ao_key, struct_ubuf_info, struct_ubuf_info_ops]"

definition kernel_sub_bpf :: "cty list" where
  "kernel_sub_bpf =
     [struct_bpf_async_cb, struct_bpf_async_kern, struct_bpf_attach_target_info,
      struct_bpf_bloom_filter, struct_bpf_map_desc, struct_bpf_call_arg_meta, struct_bpf_cand_cache,
      struct_bpf_core_relo_res, struct_bpf_core_accessor, struct_bpf_core_spec,
      struct_bpf_cpumap_val, struct_bpf_cpu_map_entry, struct_bpf_crypto_ctx,
      struct_bpf_crypto_params, struct_bpf_crypto_type, struct_bpf_sock_addr_kern,
      struct_bpf_sock_ops_kern, struct_bpf_sysctl_kern, struct_bpf_sockopt, struct_bpf_sockopt_kern,
      struct_bpf_sk_lookup_kern, struct_scatterlist, struct_sk_msg_sg, struct_sk_msg,
      struct_bpf_flow_dissector, struct_bpf_perf_event_data_kern, struct_bpf_cgroup_dev_ctx,
      struct_sk_reuseport_kern, struct_bpf_nf_ctx, struct_bpf_ctx_convert, struct_bpf_devmap_val,
      struct_bpf_dtab, struct_bpf_dtab_netdev, struct_bpf_insn_access_aux,
      struct_bpf_insn_array_value, struct_bpf_insn_array, struct_bpf_iter__bpf_link,
      struct_bpf_iter__bpf_map, struct_bpf_iter__bpf_map_elem, struct_bpf_iter__bpf_prog,
      struct_bpf_iter__bpf_sk_storage_map, struct_bpf_iter__cgroup, struct_bpf_iter__dmabuf,
      struct_bpf_iter__ipv6_route, struct_bpf_iter__kmem_cache, struct_bpf_iter__ksym,
      struct_bpf_iter__netlink, struct_bpf_iter__sockmap, struct_bpf_iter__task,
      struct_bpf_iter__task_file, struct_bpf_iter__task_vma, struct_bpf_iter__tcp,
      struct_bpf_iter__udp, struct_bpf_iter__unix, struct_bpf_iter_aux_info,
      struct_bpf_iter_bits_kern, struct_bpf_iter_meta, struct_bpf_iter_priv_data,
      struct_bpf_iter_reg, struct_bpf_iter_seq_hash_map_info, struct_bpf_iter_seq_task_common,
      struct_bpf_iter_seq_task_vma_info, struct_bpf_iter_task_vma_kern_data,
      struct_bpf_kfunc_call_arg_meta, struct_bpf_kfunc_meta, struct_fprobe,
      struct_bpf_kprobe_multi_link, struct_bpf_local_storage_elem, struct_bpf_lpm_trie_key_hdr,
      struct_bpf_lpm_trie_key_u8, struct_bpf_mount_opts, struct_nf_hook_ops, struct_bpf_nf_link,
      struct_bpf_offload_netdev, struct_bpf_offloaded_map, struct_bpf_prog_list,
      struct_bpf_queue_stack, struct_sk_psock_progs, struct_bpf_shtab, struct_bpf_shtab_elem,
      struct_bpf_stack_build_id, struct_bpf_stack_map, struct_bpf_struct_ops_common_value,
      struct_bpf_struct_ops_Qdisc_ops, struct_bpf_dummy_ops, struct_bpf_struct_ops_bpf_dummy_ops,
      struct_hid_bpf_ops, struct_bpf_struct_ops_hid_bpf_ops, struct_bpf_struct_ops_value,
      struct_bpf_struct_ops_map, struct_sched_ext_ops, struct_bpf_struct_ops_sched_ext_ops,
      struct_bpf_struct_ops_tcp_congestion_ops, struct_bpf_task_work_ctx, struct_seq_net_private,
      struct_tcp_iter_state, struct_bpf_tcp_iter_state, struct_bpf_tcp_req_attrs,
      struct_udp_iter_state, struct_bpf_udp_iter_state, struct_bpf_unix_iter_state,
      struct_uprobe_consumer, struct_bpf_uprobe, struct_bpf_uprobe_multi_link,
      struct_bpf_verifier_state_list, struct_bpf_xfrm_state_opts, struct_bpffs_btf_enums,
      struct_btf_field_desc, struct_btf_field_info, struct_btf_field_iter,
      struct_btf_kind_operations, struct_btf_module, struct_btf_relocate, struct_btf_show,
      struct_resolve_vertex, struct_btf_verifier_env, struct_hid_bpf, struct_hid_bpf_ctx,
      struct_io_uring_bpf_filter, struct_io_uring_bpf, struct_io_uring_bpf_ctx,
      struct_ipv6_bpf_stub, struct_netdev_bpf, struct_perf_event_header, struct_perf_bpf_event]"

definition kernel_sub_drm :: "cty list" where
  "kernel_sub_drm =
     [struct__intel_private, struct_drm_afbc_framebuffer, struct_drm_atomic_helper_damage_iter,
      struct_drm_client, struct_drm_client32, struct_drm_dsc_rc_range_parameters,
      struct_drm_dsc_config, struct_drm_dsc_picture_parameter_set,
      struct_drm_fb_helper_surface_size, struct_drm_flip_work, struct_drm_format_conv_state,
      struct_drm_format_modifier_blob, struct_drm_gem_shmem_object, struct_drm_gpuva_op_map,
      struct_drm_gpuva_op_remap, struct_drm_gpuva_op_unmap, struct_drm_gpuva_op_prefetch,
      struct_drm_gpuva_op, struct_nbcon_context, struct_console, struct_drm_log,
      struct_drm_log_scanout, struct_drm_memory_stats, struct_drm_mm_scan, struct_drm_mode_atomic,
      struct_drm_mode_card_res, struct_drm_mode_create_dumb, struct_drm_mode_create_lease,
      struct_drm_mode_crtc, struct_drm_mode_crtc_lut, struct_drm_mode_crtc_page_flip_target,
      struct_drm_mode_cursor, struct_drm_mode_cursor2, struct_drm_mode_fb_cmd,
      struct_drm_mode_fb_cmd2, struct_drm_mode_fb_cmd232, struct_drm_mode_fb_dirty_cmd,
      struct_drm_mode_get_connector, struct_drm_mode_get_encoder, struct_drm_mode_get_plane,
      struct_drm_mode_get_property, struct_drm_mode_obj_get_properties, struct_drm_mode_set_plane,
      struct_drm_named_mode, struct_drm_scanout_buffer, struct_drm_simple_display_pipe,
      struct_drm_simple_display_pipe_funcs, struct_drm_stats, struct_drm_stats32,
      struct_drm_syncobj_eventfd, struct_drm_syncobj_handle, struct_drm_syncobj_timeline_wait,
      struct_drm_syncobj_transfer, struct_drm_syncobj_wait, struct_drm_sysfb_device,
      struct_drm_vblank_work, struct_drm_version, struct_drm_version_32, struct_ifaddrmsg,
      struct_intel_community, struct_intel_excl_states, struct_intel_excl_cntrs,
      struct_intel_gtt_driver, struct_iommu_flush, struct_intel_iommu, struct_irq_2_iommu,
      struct_irte, struct_intel_ir_data, struct_intel_padgroup, struct_pinctrl_desc,
      struct_intel_pinctrl_context, struct_intel_pinctrl, struct_intel_pinctrl_context___2,
      struct_intel_pinctrl___2, struct_intel_pinctrl_context___3, struct_intel_pinctrl___3,
      struct_intel_pinctrl_soc_data, struct_intel_pmic_regs_handler_ctx, struct_intel_pmic_opregion,
      struct_intel_pmic_opregion_data, struct_intel_scu_ipc_data, struct_intel_scu_ipc_dev,
      struct_intel_soc_pmic, struct_intel_uncore_extra_reg, struct_intel_uncore_box,
      struct_intel_uncore_discovery_type, struct_intel_uncore_discovery_unit,
      struct_intel_uncore_ops, struct_intel_uncore_pmu, struct_intel_uncore_topology,
      struct_event_constraint, struct_intel_uncore_type, union_intel_x86_pebs_dse,
      struct_microcode_header_intel, struct_mpf_intel, struct_simpledrm_device,
      struct_xen_pmu_intel_ctxt]"

definition kernel_sub_dma :: "cty list" where
  "kernel_sub_dma =
     [struct_acpi_dma, struct_acpi_dmar_header, struct_acpi_dmar_andd,
      struct_acpi_dmar_device_scope, struct_acpi_dmar_hardware_unit,
      struct_acpi_dmar_reserved_memory, struct_acpi_resource_dma, struct_pci_p2pdma_map_state,
      struct_blk_map_iter, struct_blk_dma_iter, struct_dma_async_tx_descriptor,
      struct_dma_buf_export_info, struct_dma_chan, struct_dma_filter, struct_dma_device,
      struct_dma_fence_array_cb, struct_dma_fence_array, struct_dma_fence_chain, struct_dma_heap,
      struct_data_chunk, struct_dma_interleaved_template, struct_dma_pool, struct_dma_resv_iter,
      struct_dma_slave_caps, struct_dma_slave_config, struct_dmabuf_cmsg,
      struct_dmaengine_unmap_data, struct_dmar_atsr_unit, struct_pt_iommu, struct_pt_common,
      struct_pt_x86_64, struct_pt_iommu_x86_64, struct_pt_vtdss, struct_pt_iommu_vtdss,
      struct_iommu_hwpt_vtd_s1, struct_dmar_domain, struct_dmar_drhd_unit, struct_dmar_pci_path,
      struct_dmar_pci_notify_info, struct_dmar_rmrr_unit, struct_dmar_satc_unit,
      struct_uart_8250_dma, struct_dw_edma_region, struct_dw_edma_chip,
      struct_gnttab_dma_alloc_args, struct_tasklet_struct, struct_virt_dma_chan,
      struct_hsu_dma_chan, struct_hsu_dma_chip, struct_dmaengine_result, struct_virt_dma_desc,
      struct_hsu_dma_desc, struct_rdma_restrack_entry, struct_ib_dmah, union_ib_gid,
      struct_ib_global_route, struct_ib_ah_attr, struct_roce_ah_attr, struct_opa_ah_attr,
      struct_rdma_ah_attr, struct_ldma_chan, struct_ldma_dev, struct_ldma_inst_data,
      struct_ldma_port, struct_net_devmem_dmabuf_binding, struct_of_dma,
      struct_pci_p2pdma_whitelist_entry, struct_rdma_counter, struct_rdma_netdev_alloc_params,
      struct_rdma_user_mmap_entry, struct_rdmacg_resource, struct_rdmacg_resource_pool,
      struct_rio_dma_data, struct_udmabuf, struct_vme_dma_resource, struct_xsk_dma_map]"

definition kernel_sub_pci :: "cty list" where
  "kernel_sub_pci =
     [struct_acpi_pci_ioapic, struct_acpi_pci_link_irq, struct_acpi_pci_root,
      struct_acpi_pci_root_info, struct_acpi_pci_routing_table, struct_acpi_viot_header,
      struct_acpi_viot_pci_range, struct_pcie_tlp_log, struct_amd_iommu_pci_seg,
      struct_cpci_hp_controller, struct_cper_sec_pcie, struct_pci_eq_presets, struct_dw_pcie_rp,
      struct_dw_pcie_ep, struct_clk_bulk_data, struct_reset_control_bulk_data, struct_dw_pcie,
      struct_dw_pcie_ep_func, struct_dw_pcie_ep_ops, struct_dw_pcie_host_ops,
      struct_dw_pcie_ob_atu_cfg, struct_dw_pcie_ops, struct_edac_pci_counter,
      struct_edac_pci_ctl_info, union_hv_pci_bdf, union_hv_pci_bus_range, struct_of_pci_range,
      struct_of_pci_range_parser, struct_pci_config_window, struct_pci_dev_resource,
      struct_pci_doe_mb, struct_pci_doe_feature, struct_pci_doe_task, struct_pci_ecam_ops,
      struct_pci_epc, struct_pci_epc_event_ops, struct_pci_epc_bar_desc, struct_pci_epc_features,
      struct_pci_epc_map, struct_pci_epc_ops, struct_pci_epf_bar, struct_pci_epf,
      struct_pci_epf_driver, struct_config_item, struct_config_group, struct_pci_epf_group,
      struct_pci_epf_header, struct_pci_fixup, struct_pci_host_bridge, struct_pci_bus_region,
      struct_pci_ide_partner, struct_pci_ide, struct_pci_ide_regs,
      struct_pci_mmcfg_hostbridge_probe, struct_pci_mmcfg_region, struct_pci_root_info,
      struct_pci_sysdata, struct_pci_root_info___2, struct_pci_serial_quirk, struct_setup_data,
      struct_pci_setup_rom, struct_pcie_device, struct_pcie_port_service_driver,
      struct_pcie_ptm_ops, struct_pcim_addr_devres, struct_pciserial_board,
      struct_physdev_manage_pci_ext, struct_physdev_pci_device_add,
      struct_physdev_pci_mmcfg_reserved, struct_virtio_pci_admin_vq, struct_virtio_pci_common_cfg,
      struct_virtio_device_id, struct_virtio_pci_modern_device, union_virtio_map,
      struct_virtio_device, struct_virtio_pci_legacy_device, struct_virtio_pci_device,
      struct_virtio_pci_modern_common_cfg]"

definition kernel_sub_run :: "cty list" where
  "kernel_sub_run =
     [struct_acpi_device_perf_state, struct_acpi_prmt_module_info, struct_acpi_pct_register,
      struct_acpi_psd_package, struct_acpi_processor_performance, union_perf_cached,
      struct_aperfmperf, struct_fpdt_record_header, struct_boot_performance_record,
      union_perf_sample_weight, union_perf_mem_data_src, struct_perf_regs, struct_perf_sample_data,
      struct_perf_output_handle, struct_css_task_iter, struct_cgroup_of_peak,
      struct_cgroup_file_ctx, struct_kernfs_fs_context, struct_cgroup_fs_context,
      struct_cgroup_taskset, struct_cgroup_pidlist, struct_cgroupstats, struct_cppc_perf_caps,
      struct_cppc_perf_ctrls, struct_perf_branch_entry, struct_cpuidle_state_kobj,
      struct_cxl_event_record_hdr, struct_cxl_get_health_info, struct_cxl_event_mem_module,
      struct_kobj_uevent_env, struct_dm_uevent, struct_dmem_cgroup_pool_state,
      struct_dmem_cgroup_region, struct_ethtool_module_eeprom, struct_fw_sysfs,
      struct_hugetlb_cgroup, struct_hyp_sysfs_attr, struct_module_signature,
      struct_perf_addr_filter, struct_perf_amd_iommu, struct_perf_callchain_deferred_event,
      struct_perf_callchain_entry_ctx, union_perf_capabilities, struct_perf_cgroup_event,
      struct_perf_comm_event, struct_perf_cpu_context, struct_perf_ibs, struct_perf_ibs_data,
      struct_perf_ksymbol_event, struct_perf_mmap_event, struct_perf_msr, struct_perf_ns_link_info,
      struct_perf_namespaces_event, struct_perf_raw_frag, struct_sched_state, struct_perf_sched,
      struct_perf_switch_event, struct_perf_task_event, struct_perf_text_poke_event,
      struct_pids_cgroup, struct_prm_handler_info, struct_prm_module_info, struct_queue_sysfs_entry,
      struct_smp_alt_module, struct_tdx_module_args, struct_x86_perf_task_context_opt,
      struct_lbr_entry, struct_x86_perf_task_context, struct_fxregs_state, struct_xstate_header,
      struct_xregs_state, struct_arch_lbr_state, struct_x86_perf_task_context_arch_lbr_xsave,
      struct_xen_pct_register, struct_xen_psd_package, struct_xen_processor_performance]"

definition kernel_largea :: "cty list" where
  "kernel_largea =
     []"

definition kernel_largeb :: "cty list" where
  "kernel_largeb =
     []"

definition kernel_largec :: "cty list" where
  "kernel_largec =
     [struct_IO_APIC_route_entry, struct_RigidDiskBlock, struct_Scsi_Host,
      struct_ZSTD_CCtx_params_s, struct_xxh64_state, struct_ZSTD_MatchState_t,
      struct_ZSTD_inBuffer_s, struct_ZSTD_prefixDict_s, struct_ZSTD_CCtx_s, struct_ZSTD_outBuffer_s,
      struct_ZSTD_DCtx_s, struct___kernel_timex_timeval, struct___kernel_timex, struct__fpreg,
      struct__fpxreg, struct__xmmreg, struct__fpx_sw_bytes, struct__fpstate_32,
      struct_common_audit_data, struct_apparmor_audit_data, struct_power_supply_desc,
      struct_acpi_battery, struct_acpi_object_common, struct_acpi_object_integer,
      struct_acpi_object_string, struct_acpi_object_buffer, struct_acpi_object_package,
      struct_acpi_object_event, struct_acpi_object_method, struct_acpi_object_mutex,
      struct_acpi_object_region, struct_acpi_object_notify_common, struct_acpi_object_device,
      struct_acpi_object_power_resource, struct_acpi_object_processor,
      struct_acpi_object_thermal_zone, struct_acpi_object_field_common,
      struct_acpi_object_region_field, struct_acpi_object_buffer_field,
      struct_acpi_object_bank_field, struct_acpi_object_index_field,
      struct_acpi_object_notify_handler, struct_acpi_object_addr_handler,
      struct_acpi_object_reference, struct_acpi_object_extra, struct_acpi_object_data,
      struct_acpi_object_cache_list, union_acpi_name_union, struct_acpi_namespace_node,
      union_acpi_operand_object, union_acpi_parse_value, struct_acpi_parse_obj_asl,
      struct_acpi_device_status, struct_acpi_device_flags, struct_acpi_pnp_type,
      struct_acpi_device_pnp, struct_acpi_device_power_flags, struct_acpi_device_power_state,
      struct_acpi_device_power, struct_acpi_device_wakeup_flags, struct_acpi_device_wakeup_context,
      struct_acpi_device_wakeup, struct_acpi_device_perf_flags, struct_acpi_device_perf,
      struct_acpi_device_dir, struct_acpi_device_data, struct_acpi_device, union_acpi_object,
      struct_acpi_subtable_header, struct_acpi_generic_address, struct_acpi_pcct_ext_pcc_master,
      struct_acpi_pcct_ext_pcc_slave, struct_acpi_pld_info, struct_acpi_resource_irq,
      struct_acpi_resource_start_dependent, struct_acpi_resource_io, struct_acpi_resource_fixed_io,
      struct_acpi_resource_fixed_dma, struct_acpi_resource_vendor,
      struct_acpi_resource_vendor_typed, struct_acpi_resource_end_tag,
      struct_acpi_resource_memory24, struct_acpi_resource_memory32,
      struct_acpi_resource_fixed_memory32, struct_acpi_memory_attribute, struct_acpi_io_attribute,
      union_acpi_resource_attribute, struct_acpi_address16_attribute, struct_acpi_resource_source,
      struct_acpi_resource_address16, struct_acpi_address32_attribute,
      struct_acpi_resource_address32, struct_acpi_address64_attribute,
      struct_acpi_resource_address64, struct_acpi_resource_extended_address64,
      struct_acpi_resource_extended_irq, struct_acpi_resource_generic_register,
      struct_acpi_resource_gpio, struct_acpi_resource_i2c_serialbus,
      struct_acpi_resource_spi_serialbus, struct_acpi_resource_uart_serialbus,
      struct_acpi_resource_csi2_serialbus, struct_acpi_resource_common_serialbus,
      struct_acpi_resource_pin_function, struct_acpi_resource_pin_config,
      struct_acpi_resource_label, struct_acpi_resource_pin_group,
      struct_acpi_resource_pin_group_function, struct_acpi_resource_pin_group_config,
      struct_acpi_resource_clock_input, struct_acpi_resource_address, union_acpi_resource_data,
      struct_acpi_table_header, struct_acpi_table_fadt, struct_acpi_table_spcr,
      struct_acpi_parse_state, struct_acpi_walk_state, struct_action_data, struct_agp_bridge_data,
      struct_agp_bridge_driver, struct_amd_iommu, struct_aml_resource_small_header,
      struct_aml_resource_large_header, struct_aml_resource_irq]"

definition kernel_larged :: "cty list" where
  "kernel_larged =
     [struct_aml_resource_dma, struct_aml_resource_start_dependent,
      struct_aml_resource_end_dependent, struct_aml_resource_io, struct_aml_resource_fixed_io,
      struct_aml_resource_fixed_dma, struct_aml_resource_vendor_small, struct_aml_resource_end_tag,
      struct_aml_resource_memory24, struct_aml_resource_generic_register,
      struct_aml_resource_vendor_large, struct_aml_resource_memory32,
      struct_aml_resource_fixed_memory32, struct_aml_resource_address16,
      struct_aml_resource_address32, struct_aml_resource_address64,
      struct_aml_resource_extended_address64, struct_aml_resource_extended_irq,
      struct_aml_resource_gpio, struct_aml_resource_i2c_serialbus,
      struct_aml_resource_spi_serialbus, struct_aml_resource_uart_serialbus,
      struct_aml_resource_csi2_serialbus, struct_aml_resource_common_serialbus,
      struct_aml_resource_pin_function, struct_aml_resource_pin_config,
      struct_aml_resource_pin_group, struct_aml_resource_pin_group_function,
      struct_aml_resource_pin_group_config, struct_aml_resource_clock_input,
      struct_aml_resource_address, union_aml_resource, struct_apic, struct_arch_pebs_header,
      struct_assoc_array_edit, struct_ata_ering_entry, struct_ata_ering, struct_ata_device,
      struct_ata_eh_info, struct_ata_eh_context, struct_ata_link, struct_ata_taskfile,
      struct_ata_queued_cmd, struct_ata_ioports, struct_ata_port_stats, struct_ata_acpi_drive,
      struct_ata_acpi_gtm, struct_ata_port, struct_ata_reset_operations, struct_ata_port_operations,
      struct_ps2dev, struct_vivaldi_data, struct_atkbd, struct_md_submodule_head,
      struct_bitmap_operations, struct_blkfront_info, struct_screen_info, struct_setup_header,
      struct_edd_device_params, struct_apm_bios_info, struct_ist_info, struct_sys_desc_table,
      struct_olpc_ofw_header, struct_edid_info, struct_efi_info, struct_boot_e820_entry,
      struct_edd_info, struct_boot_params, struct_bsd_partition, struct_bsd_disklabel,
      struct_group_data, struct_bunzip_data, struct_clk_ops, struct_clk_duty, struct_clk_core,
      struct_clock_event_device, struct_clocksource, struct_ethtool_coalesce,
      struct_user_regs_struct, union_compat_sigval, struct_compat_siginfo, struct_mce,
      struct_perf_branch_stack, struct_perf_guest_switch_msr, struct_cpu_hw_events,
      struct_cpu_user_regs, struct_update_util_data, struct_pstate_data, struct_vid_data,
      struct_sample, struct_cpudata, struct_cpufreq_driver, struct_cpufreq_cpuinfo,
      struct_cpufreq_policy, struct_cpuinfo_topology, struct_cpuinfo_x86,
      struct_cxl_cper_sec_prot_err, struct_ct_data_s, struct_tree_desc_s, struct_deflate_state,
      struct_devfreq_dev_status, struct_devfreq_stats, struct_srcu_notifier_head, struct_devfreq,
      struct_dio, struct_dio_submit, struct_d_partition, struct_disklabel,
      struct_dom0_vga_console_info, struct_crypto_wait, struct_drbg_string, struct_drbg_state,
      struct_pixel_format, struct_i2c_timings, struct_dw_i2c_dev]"

definition kernel_largee :: "cty list" where
  "kernel_largee =
     [struct_usb_otg_caps, struct_dwc2_core_params, struct_dwc2_host_chan, struct_dwc2_hw_params,
      struct_regulator_bulk_data, struct_dwc2_gregs_backup, struct_dwc2_dregs_backup,
      struct_dwc2_hregs_backup, union_dwc2_hcd_internal_flags, struct_dwc2_hsotg,
      struct_dwc2_hs_transfer_time, struct_dwc2_qh, struct_uart_icount, struct_serial_rs485,
      struct_serial_iso7816, struct_uart_port, struct_edac_device_counter,
      struct_edac_device_ctl_info, struct_edac_mem_repair_ops, struct_efi_memory_map, struct_efi,
      union_efi_rts_args, struct_ehci_stats, struct_ehci_hcd, struct_ehci_regs,
      struct_touchscreen_properties, struct_elants_data, struct_insn_field, struct_insn,
      struct_ethtool_eth_mac_stats, struct_ext4_free_extent, struct_ext4_allocation_context,
      struct_fscrypt_dummy_policy, struct_ext4_fs_context, struct_ext4_group_desc,
      struct_ext4_inode, struct_ext4_es_tree, struct_ext4_pending_tree, struct_ext4_inode_info,
      struct_ext4_orphan_info, struct_ext4_es_stats, struct_jbd2_buffer_trigger_type,
      struct_ext4_journal_trigger, struct_ext4_fc_stats, struct_ext4_fc_replay_state,
      struct_ext4_sb_info, struct_ext4_super_block, struct_ext4_tune_sb_params,
      struct_fat_boot_sector, struct_fat_mount_options, struct_fb_cvt_data, struct_fib_kuid_range,
      struct_fib_rule_port_range, struct_fib_rule, struct_nl_info, struct_fib6_config,
      struct_fib_config, struct_fid, struct_flow_action_police, struct_flow_action_entry,
      struct_fs_disk_quota, struct_seq_buf, struct_trace_seq, struct_trace_iterator,
      struct_fuse_in_arg, struct_fuse_arg, struct_fuse_args, struct_fuse_forget_one,
      struct_fuse_forget_link, struct_fuse_iqueue, struct_fuse_conn, struct_fuse_file,
      struct_fuse_inode, struct_gpd_dev_ops, struct_generic_pm_domain, struct_genl_family,
      struct_ghcb_save_area, struct_hc_driver]"

definition kernel_largef :: "cty list" where
  "kernel_largef =
     [struct_hid_report_enum, struct_hid_device, struct_hid_driver, struct_hid_field,
      struct_tracing_map_sort_key, struct_hist_trigger_data, union_hv_device_id, struct_ghcb,
      union_hv_ghcb, struct_user_regs_struct32, struct_ib_port_attr, struct_ib_qp, struct_ib_qp_cap,
      struct_ib_qp_attr, struct_ib_wc, union_ibs_op_data3, struct_ima_rule_entry,
      struct_inet6_ifaddr, struct_inflate_state, struct_input_id, struct_input_dev, struct_iou_vec,
      struct_iov_iter_state, struct_uio_meta, struct_io_meta_state, struct_io_async_rw,
      struct_ioam6_trace_hdr, struct_ioc_params, struct_ioc_margins, struct_ioc, struct_iocg_stat,
      struct_ioc_gq, struct_dst_cache, struct_ip_tunnel_parm_kern, struct_ip_tunnel_encap,
      struct_ip_tunnel_6rd_parm, struct_ip_tunnel_fan, struct_gro_cells, struct_ip_tunnel,
      struct_ipv6_stub, struct_irq_redirect, struct_irq_desc, struct_irq_info___2,
      struct_transaction_run_stats_s, struct_transaction_stats_s, struct_journal_s, struct_sigqueue,
      struct_cpu_timer, struct_alarm, struct_k_itimer, struct_kexec_segment, struct_kimage_arch,
      struct_purgatory_info, struct_kimage, struct_statmount, struct_kvm_hyperv_exit,
      struct_kvm_pmc, struct_kvm_pmu, struct_kvm_vcpu_events, struct_kvm_debug_exit_arch,
      struct_kvm_xen_exit, struct_kvm_exit_snp_req_certs, struct_kvm_regs, struct_kvm_segment,
      struct_kvm_dtable, struct_kvm_sregs, struct_kvm_sync_regs, struct_kvm_run,
      struct_kvm_mmu_root_info, union_kvm_mmu_page_role, union_kvm_mmu_extended_role,
      union_kvm_cpu_role, struct_rsvd_bits_validate, struct_kvm_mmu, struct_fpu_guest,
      struct_kvm_pio_request, struct_kvm_queued_exception, struct_kvm_queued_interrupt,
      struct_gfn_to_hva_cache, struct_kvm_mtrr, struct_kvm_hypervisor_cpuid, struct_kvm_vcpu_xen,
      struct_kvm_vcpu_arch, struct_kvm_vcpu_stat_generic, struct_kvm_vcpu_stat,
      struct_preempt_notifier, struct_kvm_mmio_fragment, struct_kvm_dirty_ring, struct_kvm_vcpu,
      struct_kvm_vcpu_hv_synic, union_hv_stimer_config, union_hv_message_flags, union_hv_port_id,
      struct_hv_message_header, struct_hv_message, struct_kvm_vcpu_hv_stimer,
      struct_kvm_vcpu_hv_tlb_flush_fifo, struct_hv_nested_enlightenments_control,
      struct_hv_vp_assist_page, struct_kvm_vcpu_hv, struct_kvm_x86_ops]"

definition kernel_largeg :: "cty list" where
  "kernel_largeg =
     [struct_load_info, struct_loop_device, struct_lsm_static_call, struct_lsm_static_calls_table,
      struct_macsec_context, struct_hd_geometry, struct_dm_stats, struct_dm_kobject_holder,
      struct_dm_ima_device_table_metadata, struct_dm_ima_measurements, struct_mapped_device,
      struct_max8925_platform_data, struct_md_cluster_operations, struct_md_rdev, struct_mddev,
      struct_mdp_superblock_1, struct_mdp_device_descriptor_s, struct_mdp_superblock_s,
      struct_edac_raw_error_desc, struct_mem_ctl_info, struct_mr_mfc, struct_vma_munmap_struct,
      struct_ma_state, struct_mmap_state, struct_mmc_ext_csd, struct_sd_uhs2_config, struct_mmc_cid,
      struct_mmc_csd, struct_sd_scr, struct_sd_ssr, struct_sd_switch_caps, struct_sd_ext_reg,
      struct_sdio_cccr, struct_sdio_cis, struct_mmc_part, struct_mmc_card, struct_sd_uhs2_caps,
      struct_mmc_ios, struct_mmc_ctx, struct_mmc_slot, struct_mmc_supply, struct_mmc_host,
      struct_mmc_host_ops, struct_mptcp_info, struct_mptcp_options_received, struct_mptcp_ext,
      struct_mptcp_out_options, struct_mptcp_subflow_context, struct_ms_hyperv_info,
      struct_msdos_sb_info, struct_n_tty_data, struct_napi_gro_cb, struct_ncsi_channel_stats,
      struct_ncsi_dev, struct_nlmsghdr, struct_ncsi_request, struct_packet_type,
      struct_ncsi_dev_priv, struct_ncsi_pkt_hdr, struct_ncsi_rsp_pkt_hdr, struct_ncsi_rsp_gcps_pkt,
      struct_nd_mapping, struct_nd_region, struct_hh_cache, struct_neighbour,
      struct_net_aligned_data, struct_bridge_mcast_other_query, struct_bridge_mcast_own_query,
      struct_br_ip, struct_bridge_mcast_querier, struct_net_bridge_mcast, struct_bridge_id,
      struct_net_bridge, struct_net_bridge_mcast_port, struct_bridge_stp_xstats,
      struct_net_bridge_port, struct_br_tunnel_info, struct_net_bridge_vlan, struct_net_device_path,
      struct_rtnl_link_stats64, struct_offload_callbacks, struct_packet_offload, struct_net_offload,
      struct_net_protocol, struct_inet6_protocol, struct_net_hotdata]"

definition kernel_largeh :: "cty list" where
  "kernel_largeh =
     [struct_xen_netif_tx_front_ring, struct_xen_netif_rx_front_ring, struct_netfront_queue,
      struct_xen_netif_extra_info, struct_netlink_callback, struct_netlink_sock, union_nf_inet_addr,
      union_nf_conntrack_man_proto, struct_nf_conntrack_man, struct_nf_conntrack_tuple,
      struct_nfs_fattr, struct_nfs_write_verifier, struct_nfs_writeverf, struct_nfs4_sequence_args,
      struct_nfs_pgio_args, struct_nfs4_sequence_res, struct_nfs_pgio_res, struct_nfs_page_array,
      struct_nfs_pgio_header, struct_nh_config, struct_ntb_ctrl_regs, struct_nvmem_config,
      struct_nvmem_device, struct_ebitmap, struct_mls_level, struct_mls_range, struct_context___2,
      struct_ocontext, struct_ohci_hcd, struct_old_timeval32, struct_old_timex32, struct_opp_table,
      struct_packet_fanout, struct_tpacket_stats, struct_tpacket_stats_v3, union_tpacket_stats_u,
      struct_tpacket_kbdq_core, struct_packet_ring_buffer, struct_packet_sock,
      struct_page_pool_params, struct_page_req_dsc, struct_pv_cpu_ops, struct_paravirt_callee_save,
      struct_pv_lazy_ops, struct_pv_mmu_ops, struct_pcpu_block_md, struct_pcpu_chunk,
      struct_pe32_opt_hdr, struct_pe32plus_opt_hdr, struct_pebs_record_skl,
      struct_phy_configure_opts_mipi_dphy, struct_plat_serial8250_port, struct_pm860x_platform_data,
      struct_hashtab, struct_symtab, struct_avtab, struct_policydb, struct_power_supply,
      struct_power_supply_battery_info, struct_ppp_file, struct_ppp, struct_ptdesc,
      struct_posix_clock_operations, struct_posix_clock, struct_kthread_delayed_work,
      struct_ptp_clock, struct_ptp_clock_info, union_rcu_noqs, struct_rcu_cblist,
      struct_rcu_snap_record, struct_rcu_data, struct_sr_wait_node, struct_rcu_state,
      struct_rcu_tasks, struct_virtnet_rq_stats, struct_dim_stats, struct_dim_sample, struct_dim,
      struct_virtnet_interrupt_coalesce, struct_ewma_pkt_len, struct_receive_queue, struct_sg_table,
      struct_spi_delay, struct_spi_transfer, struct_regmap_config, struct_regmap_irq_chip,
      struct_rb_time_struct, struct_rb_irq_work, struct_ring_buffer_per_cpu, struct_rio_switch,
      struct_rio_dev, struct_rio_msg, struct_rio_mport, struct_rproc, struct_sigcontext_64,
      struct_sigcontext_32, struct_rtc_timer, struct_rtc_device, struct_rtnl_link_stats,
      struct_saved_msrs, struct_desc_ptr, struct_saved_context, struct_scan_control,
      struct_scsi_data_buffer, struct_scsi_cmnd, struct_scsi_device]"

definition kernel_largei :: "cty list" where
  "kernel_largei =
     [struct_zoned_disk_info, struct_scsi_disk, struct_scsi_host_template, struct_sctp_af,
      struct___genradix, struct_sctp_stream_out, struct_sctp_stream_in, struct_sctp_stream,
      struct_sctp_inq, struct_sctp_bind_addr, struct_sctp_ep_common, struct_sockaddr_inet,
      struct_sockaddr_in, struct_sockaddr_in6, union_sctp_addr, struct_sctp_cookie,
      struct_sctp_tsnmap, struct_sctp_inithdr_host, struct_sctp_outq, struct_sctp_ulpq,
      struct_sctp_priv_assoc_stats, struct_sctp_association, union_sctp_params,
      struct_sctp_sndrcvinfo, struct_sctp_chunk, struct_sctp_rtoinfo, struct_sctp_paddrparams,
      struct_sctp_assocparams, struct_sctp_initmsg, struct_sctp_sock, struct_sctp_packet,
      struct_sctp_transport, union_security_list_options, struct_vmcb_seg, struct_sev_es_save_area,
      struct_sfp_eeprom_base, struct_sg_io_v4, struct_strp_stats, struct_strp_callbacks,
      struct_strparser, struct_sk_psock_work_state, struct_sk_psock, struct_scatter_walk,
      struct_skcipher_walk, struct_netdev_xmit, struct_softnet_data, struct_spi_controller,
      struct_spi_device, struct_spi_mem_op, struct_squashfs_sb_info, struct_start_info,
      struct_statx_timestamp, struct_statx, struct_svc_cred, struct_xdr_stream, struct_cache_req,
      struct_svc_rqst, struct_swap_info_struct, struct_target_type, struct_tcf_t, struct_tc_action,
      struct_flow_block, struct_tcf_block, struct_tcf_proto_ops, struct_tcp_info,
      struct_inet_skb_parm, struct_inet6_skb_parm, struct_tcp_skb_cb, struct_tdmr_reserved_area,
      struct_tdmr_info, struct_thermal_zone_device_ops, struct_thermal_trip, struct_thermal_attr,
      struct_thermal_trip_attrs, struct_thermal_trip_desc, struct_thermal_zone_device,
      struct_tick_sched, struct_tk_read_base, struct_timekeeper, struct_tls_prot_info,
      struct_cipher_context, struct_tls_crypto_info, struct_tls12_crypto_info_aes_gcm_128,
      struct_tls12_crypto_info_aes_gcm_256, struct_tls12_crypto_info_chacha20_poly1305,
      struct_tls12_crypto_info_sm4_gcm, struct_tls12_crypto_info_sm4_ccm, union_tls_crypto_context,
      struct_tls_context, struct_tomoyo_request_info]"

definition kernel_largej :: "cty list" where
  "kernel_largej =
     [struct_tomoyo_io_buffer, struct_tpm_bios_log, struct_tpm_chip_seqops, struct_hwrng,
      struct_tpm_bank_info, struct_tpm_space, struct_tpm_chip, struct_array_buffer,
      struct_trace_array, struct_trace_entry, struct_trace_event_raw_mmc_request_done,
      struct_trace_event_raw_mmc_request_start, struct_tracer, struct_transaction_chp_stats_s,
      struct_transaction_s, struct_tun_file, struct_tap_filter, struct_sock_fprog,
      struct_ethtool_link_settings, struct_ethtool_link_ksettings, struct_tun_struct,
      struct_uart_8250_port, struct_uart_ops, struct_uffd_msg, struct_uhci_hcd, struct_uhci_qh,
      struct_usb_iso_packet_descriptor, struct_urb, struct_usb_endpoint_descriptor,
      struct_usb_ss_ep_comp_descriptor, struct_usb_ssp_isoc_ep_comp_descriptor,
      struct_usb_eusb2_isoc_ep_comp_descriptor, struct_usb_host_endpoint,
      struct_usb_device_descriptor, struct_usb2_lpm_parameters, struct_usb3_lpm_parameters,
      struct_usb_device, struct_usb_gadget, struct_usb_bus, struct_giveback_urb_bh, struct_usb_hcd,
      struct_usb_tt, struct_usb_hub, struct_usb_charger_current, struct_atomic_notifier_head,
      struct_usb_phy, struct_uv_hub_info_s, struct_vc_state, struct_console_font, struct_vt_mode,
      struct_vc_data, struct_balloon_dev_info, struct_virtio_balloon_stat,
      struct_page_reporting_dev_info, struct_virtio_balloon, struct_virtio_blk_geometry,
      struct_virtio_blk_zoned_characteristics, struct_virtio_blk_config,
      struct_virtio_net_rss_config_trailer, struct_virtnet_info, struct_vma_merge_struct,
      struct_vme_callback, struct_vme_irq, struct_vme_bridge, struct_wm831x_pdata, struct_wm831x,
      struct_writeback_control, struct_x509_certificate, struct_arch_pebs_cap,
      struct_x86_hybrid_pmu, struct_x86_pmu, struct_xdbc_ring, struct_xdbc_segment,
      struct_xdbc_state, struct_xdp_sock, struct_xenpf_efi_time, struct_xenpf_efi_guid,
      struct_xenpf_efi_runtime_call, union_xenpf_efi_info, struct_xenpf_firmware_info,
      struct_xenpf_settime32, struct_xenpf_settime64, struct_xenpf_add_memtype,
      struct_xenpf_del_memtype, struct_xenpf_read_memtype, struct_xenpf_microcode_update,
      struct_xenpf_platform_quirk, struct_xenpf_enter_acpi_sleep, struct_xenpf_change_freq,
      struct_xenpf_getidletime, struct_xen_processor_flags, struct_xen_processor_power,
      struct_xenpf_set_processor_pminfo, struct_xenpf_pcpuinfo, struct_xenpf_cpu_ol,
      struct_xenpf_cpu_hotadd, struct_xenpf_mem_hotadd, struct_xenpf_core_parking,
      struct_xenpf_symdata, struct_xen_platform_op, struct_xhci_erst, struct_dbc_str, struct_dbc_ep,
      struct_xhci_dbc, struct_s3_save, struct_xhci_bus_state, struct_xhci_hub, struct_xhci_hcd,
      struct_xz_dec_hash, struct_xz_dec]"

definition kernel_types :: "cty list" where
  "kernel_types = kernel_fs @ kernel_task @ kernel_cgroup @ kernel_bpf @ kernel_drm @ kernel_mm @ kernel_vfs @
     kernel_dev @ kernel_kms @ kernel_verifier @ kernel_fs_refs @ kernel_task_refs1 @
     kernel_task_refs2 @ kernel_cgroup_refs @ kernel_bpf_refs @ kernel_mm_refs @ kernel_vfs_refs1 @
     kernel_vfs_refs2 @ kernel_dev_refs @ kernel_kms_refs @ kernel_verifier_refs @ kernel_reach2a @
     kernel_reach2b @ kernel_reach2c @ kernel_reach2d @ kernel_reach3a @ kernel_reach3b @
     kernel_reach3c @ kernel_reach3d @ kernel_reach4a @ kernel_reach4b @ kernel_reach5a @
     kernel_reach5b @ kernel_helpers1 @ kernel_helpers2 @ kernel_sub_bpf @ kernel_sub_drm @
     kernel_sub_dma @ kernel_sub_pci @ kernel_sub_run @ kernel_largea @ kernel_largeb @
     kernel_largec @ kernel_larged @ kernel_largee @ kernel_largef @ kernel_largeg @ kernel_largeh @
     kernel_largei @ kernel_largej @ helper_structs"

section \<open>Well-formedness\<close>

lemma kernel_fs_wf: "list_all wf_cty kernel_fs"
  by (simp add: kernel_fs_def layout_simps)

lemma kernel_task_wf: "list_all wf_cty kernel_task"
  by (simp add: kernel_task_def layout_simps)

lemma kernel_cgroup_wf: "list_all wf_cty kernel_cgroup"
  by (simp add: kernel_cgroup_def layout_simps)

lemma kernel_bpf_wf: "list_all wf_cty kernel_bpf"
  by (simp add: kernel_bpf_def layout_simps)

lemma kernel_drm_wf: "list_all wf_cty kernel_drm"
  by (simp add: kernel_drm_def layout_simps)

lemma kernel_mm_wf: "list_all wf_cty kernel_mm"
  by (simp add: kernel_mm_def layout_simps)

lemma kernel_vfs_wf: "list_all wf_cty kernel_vfs"
  by (simp add: kernel_vfs_def layout_simps)

lemma kernel_dev_wf: "list_all wf_cty kernel_dev"
  by (simp add: kernel_dev_def layout_simps)

lemma kernel_kms_wf: "list_all wf_cty kernel_kms"
  by (simp add: kernel_kms_def layout_simps)

lemma kernel_verifier_wf: "list_all wf_cty kernel_verifier"
  by (simp add: kernel_verifier_def layout_simps)

lemma kernel_fs_refs_wf: "list_all wf_cty kernel_fs_refs"
  by (simp add: kernel_fs_refs_def layout_simps)

lemma kernel_task_refs1_wf: "list_all wf_cty kernel_task_refs1"
  by (simp add: kernel_task_refs1_def layout_simps)

lemma kernel_task_refs2_wf: "list_all wf_cty kernel_task_refs2"
  by (simp add: kernel_task_refs2_def layout_simps)

lemma kernel_cgroup_refs_wf: "list_all wf_cty kernel_cgroup_refs"
  by (simp add: kernel_cgroup_refs_def layout_simps)

lemma kernel_bpf_refs_wf: "list_all wf_cty kernel_bpf_refs"
  by (simp add: kernel_bpf_refs_def layout_simps)

lemma kernel_mm_refs_wf: "list_all wf_cty kernel_mm_refs"
  by (simp add: kernel_mm_refs_def layout_simps)

lemma kernel_vfs_refs1_wf: "list_all wf_cty kernel_vfs_refs1"
  by (simp add: kernel_vfs_refs1_def layout_simps)

lemma kernel_vfs_refs2_wf: "list_all wf_cty kernel_vfs_refs2"
  by (simp add: kernel_vfs_refs2_def layout_simps)

lemma kernel_dev_refs_wf: "list_all wf_cty kernel_dev_refs"
  by (simp add: kernel_dev_refs_def layout_simps)

lemma kernel_kms_refs_wf: "list_all wf_cty kernel_kms_refs"
  by (simp add: kernel_kms_refs_def layout_simps)

lemma kernel_verifier_refs_wf: "list_all wf_cty kernel_verifier_refs"
  by (simp add: kernel_verifier_refs_def layout_simps)

lemma kernel_reach2a_wf: "list_all wf_cty kernel_reach2a"
  by (simp add: kernel_reach2a_def layout_simps)

lemma kernel_reach2b_wf: "list_all wf_cty kernel_reach2b"
  by (simp add: kernel_reach2b_def layout_simps)

lemma kernel_reach2c_wf: "list_all wf_cty kernel_reach2c"
  by (simp add: kernel_reach2c_def layout_simps)

lemma kernel_reach2d_wf: "list_all wf_cty kernel_reach2d"
  by (simp add: kernel_reach2d_def layout_simps)

lemma kernel_reach3a_wf: "list_all wf_cty kernel_reach3a"
  by (simp add: kernel_reach3a_def layout_simps)

lemma kernel_reach3b_wf: "list_all wf_cty kernel_reach3b"
  by (simp add: kernel_reach3b_def layout_simps)

lemma kernel_reach3c_wf: "list_all wf_cty kernel_reach3c"
  by (simp add: kernel_reach3c_def layout_simps)

lemma kernel_reach3d_wf: "list_all wf_cty kernel_reach3d"
  by (simp add: kernel_reach3d_def layout_simps)

lemma kernel_reach4a_wf: "list_all wf_cty kernel_reach4a"
  by (simp add: kernel_reach4a_def layout_simps)

lemma kernel_reach4b_wf: "list_all wf_cty kernel_reach4b"
  by (simp add: kernel_reach4b_def layout_simps)

lemma kernel_reach5a_wf: "list_all wf_cty kernel_reach5a"
  by (simp add: kernel_reach5a_def layout_simps)

lemma kernel_reach5b_wf: "list_all wf_cty kernel_reach5b"
  by (simp add: kernel_reach5b_def layout_simps)

lemma kernel_helpers1_wf: "list_all wf_cty kernel_helpers1"
  by (simp add: kernel_helpers1_def layout_simps)

lemma kernel_helpers2_wf: "list_all wf_cty kernel_helpers2"
  by (simp add: kernel_helpers2_def layout_simps)

lemma kernel_sub_bpf_wf: "list_all wf_cty kernel_sub_bpf"
  by (simp add: kernel_sub_bpf_def layout_simps)

lemma kernel_sub_drm_wf: "list_all wf_cty kernel_sub_drm"
  by (simp add: kernel_sub_drm_def layout_simps)

lemma kernel_sub_dma_wf: "list_all wf_cty kernel_sub_dma"
  by (simp add: kernel_sub_dma_def layout_simps)

lemma kernel_sub_pci_wf: "list_all wf_cty kernel_sub_pci"
  by (simp add: kernel_sub_pci_def layout_simps)

lemma kernel_sub_run_wf: "list_all wf_cty kernel_sub_run"
  by (simp add: kernel_sub_run_def layout_simps)

lemma kernel_largea_wf: "list_all wf_cty kernel_largea"
  by (simp add: kernel_largea_def layout_simps)

lemma kernel_largeb_wf: "list_all wf_cty kernel_largeb"
  by (simp add: kernel_largeb_def layout_simps)

lemma kernel_largec_wf: "list_all wf_cty kernel_largec"
  by (simp add: kernel_largec_def layout_simps)

lemma kernel_larged_wf: "list_all wf_cty kernel_larged"
  by (simp add: kernel_larged_def layout_simps)

lemma kernel_largee_wf: "list_all wf_cty kernel_largee"
  by (simp add: kernel_largee_def layout_simps)

lemma kernel_largef_wf: "list_all wf_cty kernel_largef"
  by (simp add: kernel_largef_def layout_simps)

lemma kernel_largeg_wf: "list_all wf_cty kernel_largeg"
  by (simp add: kernel_largeg_def layout_simps)

lemma kernel_largeh_wf: "list_all wf_cty kernel_largeh"
  by (simp add: kernel_largeh_def layout_simps)

lemma kernel_largei_wf: "list_all wf_cty kernel_largei"
  by (simp add: kernel_largei_def layout_simps)

lemma kernel_largej_wf: "list_all wf_cty kernel_largej"
  by (simp add: kernel_largej_def layout_simps)

lemmas kernel_wf = kernel_fs_wf kernel_task_wf kernel_cgroup_wf kernel_bpf_wf kernel_drm_wf kernel_mm_wf kernel_vfs_wf
  kernel_dev_wf kernel_kms_wf kernel_verifier_wf kernel_fs_refs_wf kernel_task_refs1_wf
  kernel_task_refs2_wf kernel_cgroup_refs_wf kernel_bpf_refs_wf kernel_mm_refs_wf
  kernel_vfs_refs1_wf kernel_vfs_refs2_wf kernel_dev_refs_wf kernel_kms_refs_wf
  kernel_verifier_refs_wf kernel_reach2a_wf kernel_reach2b_wf kernel_reach2c_wf kernel_reach2d_wf
  kernel_reach3a_wf kernel_reach3b_wf kernel_reach3c_wf kernel_reach3d_wf kernel_reach4a_wf
  kernel_reach4b_wf kernel_reach5a_wf kernel_reach5b_wf kernel_helpers1_wf kernel_helpers2_wf
  kernel_sub_bpf_wf kernel_sub_drm_wf kernel_sub_dma_wf kernel_sub_pci_wf kernel_sub_run_wf
  kernel_largea_wf kernel_largeb_wf kernel_largec_wf kernel_larged_wf kernel_largee_wf
  kernel_largef_wf kernel_largeg_wf kernel_largeh_wf kernel_largei_wf kernel_largej_wf

lemma helper_structs_wf: "list_all wf_cty helper_structs"
  using helper_structs_ok by (simp add: list_all_iff)

lemma kernel_types_wf: "t \<in> set kernel_types \<Longrightarrow> wf_cty t"
  using kernel_wf helper_structs_wf by (auto simp: kernel_types_def list_all_iff)

text \<open>The members of a struct in order, each after the end of the one before.\<close>

definition members_apart :: "cty \<Rightarrow> bool" where
  "members_apart t \<longleftrightarrow> (case t of
     CStruct tag packed ms \<Rightarrow>
       sorted_wrt (\<lambda>(m, b) (m', b'). b + member_bits m \<le> b') (layout t) \<and>
       (\<forall>(m, b) \<in> set (layout t). b + member_bits m \<le> 8 * sizeof t)
   | _ \<Rightarrow> True)"

lemma members_apart_all: "members_apart t"
proof (cases t)
  case (CStruct tag packed ms)
  have "b + member_bits m \<le> 8 * sizeof t" if "(m, b) \<in> set (struct_layout packed 0 ms)" for m b
    using struct_layout_bounds [OF that] struct_end_sizeof [of packed ms tag] unfolding CStruct by linarith
  then show ?thesis
    using struct_layout_ordered by (auto simp: members_apart_def CStruct layout_def simp del: sizeof.simps)
qed (simp_all add: members_apart_def)

section \<open>Property\<close>

text \<open>A program that reads a member of any modelled kernel object by its compiled offset reads inside the
  object: the member ends within it, members of a struct do not overlap, the size is a multiple of the
  alignment, and without the packed attribute the member is naturally aligned. The ring buffer has the shape
  user space maps: the consumer's and the producer's positions start a page each, and the data the page after.
  The generic object is at the start of each specific one (array, hash table, ring buffer map, tracing link),
  so a pointer to one is a pointer to the other. Every struct that a helper of the kernel takes a pointer to is one of
  the modelled types, so what the program may hand to a helper is covered.\<close>

lemma kernel_objects_sound:
  "(\<forall>t \<in> set kernel_types. \<forall>f b ft. offset_bits t f = Some (b, ft) \<longrightarrow>
      b + 8 * sizeof ft \<le> 8 * sizeof t \<and> (packed_free t \<longrightarrow> 8 * alignof ft dvd b)) \<and>
   (\<forall>t \<in> set kernel_types. members_apart t \<and> 0 < alignof t \<and> alignof t dvd sizeof t) \<and>
   map (offsetof struct_bpf_ringbuf) [''consumer_pos'', ''producer_pos'', ''data''] =
     [Some 4096, Some 8192, Some (sizeof struct_bpf_ringbuf)] \<and>
   offset_bits struct_bpf_array ''map'' = Some (0, struct_bpf_map) \<and>
   offset_bits struct_bpf_htab ''map'' = Some (0, struct_bpf_map) \<and>
   offset_bits struct_bpf_ringbuf_map ''map'' = Some (0, struct_bpf_map) \<and>
   offset_bits struct_bpf_tracing_link ''link'' = Some (0, struct_bpf_tramp_link) \<and>
   offset_bits struct_bpf_tramp_link ''link'' = Some (0, struct_bpf_link) \<and>
   (\<forall>h \<in> set bpf_helper_defs. \<forall>arg \<in> set (h_args h). \<forall>tag. struct_arg arg = Some tag \<longrightarrow>
      (\<exists>t \<in> set kernel_types. tag_of t = tag \<and> 0 < sizeof t))"
proof -
  have "b + 8 * sizeof ft \<le> 8 * sizeof t \<and> (packed_free t \<longrightarrow> 8 * alignof ft dvd b)"
    if "t \<in> set kernel_types" "offset_bits t f = Some (b, ft)" for t f b ft
    using offset_bits_in_bounds(1) [OF that(2)] offset_bits_aligned(1) [OF that(2) kernel_types_wf [OF that(1)]]
    by blast
  moreover have "members_apart t \<and> 0 < alignof t \<and> alignof t dvd sizeof t" if "t \<in> set kernel_types" for t
    using members_apart_all alignof_pos alignof_dvd_sizeof kernel_types_wf [OF that] by blast
  moreover have "map (offsetof struct_bpf_ringbuf) [''consumer_pos'', ''producer_pos'', ''data''] =
      [Some 4096, Some 8192, Some (sizeof struct_bpf_ringbuf)]"
    by (simp add: struct_bpf_ringbuf_layout) (simp add: struct_bpf_ringbuf_def ringbuf_kernel_members_def
        ringbuf_consumer_members_def ringbuf_producer_members_def offsetof_def find_struct_append layout_eval
        layout_simps del: One_nat_def)
  moreover have "offset_bits struct_bpf_array ''map'' = Some (0, struct_bpf_map)"
    "offset_bits struct_bpf_htab ''map'' = Some (0, struct_bpf_map)"
    "offset_bits struct_bpf_ringbuf_map ''map'' = Some (0, struct_bpf_map)"
    "offset_bits struct_bpf_tracing_link ''link'' = Some (0, struct_bpf_tramp_link)"
    "offset_bits struct_bpf_tramp_link ''link'' = Some (0, struct_bpf_link)"
    by (simp_all add: struct_bpf_array_def struct_bpf_htab_def struct_bpf_ringbuf_map_def
        struct_bpf_tracing_link_def struct_bpf_tramp_link_def layout_eval layout_simps del: One_nat_def)
  moreover have "\<exists>t \<in> set kernel_types. tag_of t = tag \<and> 0 < sizeof t"
    if "h \<in> set bpf_helper_defs" "arg \<in> set (h_args h)" "struct_arg arg = Some tag" for h arg tag
    using helper_structs_defined [OF that] by (auto simp: kernel_types_def)
  ultimately show ?thesis by (intro conjI ballI allI impI) simp_all
qed

lemma kernel_objects_f_inode:
  "offset_bits struct_file ''f_inode'' = Some (256, CPtr ''struct inode'') \<and> 256 + 64 \<le> 8 * sizeof struct_file \<and>
   64 dvd (256 :: nat)"
proof -
  have t: "struct_file \<in> set kernel_types"
    unfolding kernel_types_def set_append kernel_fs_def by (intro UnI1) simp
  have b: "offset_bits struct_file ''f_inode'' = Some (256, CPtr ''struct inode'')"
    by (simp add: struct_file_def layout_eval layout_simps del: One_nat_def)
  have "256 + 8 * sizeof (CPtr ''struct inode'') \<le> 8 * sizeof struct_file"
    using conjunct1 [OF kernel_objects_sound, rule_format, OF t b] by (rule conjunct1)
  with b show ?thesis by simp
qed

end
