(* ===== verification/BpfKprobe.thy ===== *)
theory BpfKprobe
  imports BpfTracing
begin

text \<open>
  The part of \<^verbatim>\<open>bpf/bpf/bpf_tracing.h\<close> for programs attached to kprobes, function returns and system
  calls: through which structure a register is read, whether directly or by a CO-RE probe read, where the
  return address is, and which values the bodies declared with \<^verbatim>\<open>BPF_KPROBE\<close>, \<^verbatim>\<open>BPF_KRETPROBE\<close> and
  \<^verbatim>\<open>BPF_KSYSCALL\<close> receive. Reading memory (directly, by \<^verbatim>\<open>BPF_CORE_READ\<close> or by
  \<^verbatim>\<open>bpf_probe_read_kernel\<close>) is the argument \<open>rd\<close>. Without a target every macro is a compile-time error,
  which is the result \<open>None\<close>.
\<close>

section \<open>Accesses\<close>

text \<open>\<^verbatim>\<open>__PT_REGS_CAST\<close>.\<close>

definition PT_REGS_CAST :: "bpf_target \<Rightarrow> string" where
  "PT_REGS_CAST t = (case t of
      Target_s390 \<Rightarrow> ''user_pt_regs''
    | Target_arm64 \<Rightarrow> ''struct user_pt_regs''
    | Target_riscv \<Rightarrow> ''struct user_regs_struct''
    | Target_arc \<Rightarrow> ''struct user_regs_struct''
    | Target_loongarch \<Rightarrow> ''struct user_pt_regs''
    | _ \<Rightarrow> ''struct pt_regs'')"

text \<open>A read of a member through a structure type; \<open>ra_core\<close> tells a \<^verbatim>\<open>BPF_CORE_READ\<close> from \<^verbatim>\<open>->\<close>.\<close>

record reg_access =
  ra_struct :: string
  ra_member :: string
  ra_core :: bool

text \<open>The build: which macros are defined, and the target.\<close>

record build =
  b_defined :: "string \<Rightarrow> bool"
  b_target :: "bpf_target option"

text \<open>A register that the convention does not have is the member \<^verbatim>\<open>__unsupported__\<close>, which no structure has, so
  the access does not compile.\<close>

definition reg_access_of :: "build \<Rightarrow> bool \<Rightarrow> (pt_regs_abi \<Rightarrow> string) \<Rightarrow> reg_access option" where
  "reg_access_of b core reg = Option.bind (b_target b) (\<lambda>t.
     let member = reg (pt_regs_of (b_defined b) t) in
     if member = ''__unsupported__'' then None
     else Some \<lparr>ra_struct = PT_REGS_CAST t, ra_member = member, ra_core = core\<rparr>)"

text \<open>\<^verbatim>\<open>PT_REGS_PARMn\<close> to \<^verbatim>\<open>PT_REGS_IP\<close> and their \<^verbatim>\<open>_CORE\<close> variants.\<close>

definition PT_REGS_PARM_access :: "build \<Rightarrow> bool \<Rightarrow> nat \<Rightarrow> reg_access option" where
  "PT_REGS_PARM_access b core n = reg_access_of b core (\<lambda>abi. PT_REGS_PARM abi n)"

definition PT_REGS_RET :: "build \<Rightarrow> bool \<Rightarrow> reg_access option" where
  "PT_REGS_RET b core = reg_access_of b core ret_reg"

definition PT_REGS_FP :: "build \<Rightarrow> bool \<Rightarrow> reg_access option" where
  "PT_REGS_FP b core = reg_access_of b core fp_reg"

definition PT_REGS_RC :: "build \<Rightarrow> bool \<Rightarrow> reg_access option" where
  "PT_REGS_RC b core = reg_access_of b core rc_reg"

definition PT_REGS_SP :: "build \<Rightarrow> bool \<Rightarrow> reg_access option" where
  "PT_REGS_SP b core = reg_access_of b core sp_reg"

definition PT_REGS_IP :: "build \<Rightarrow> bool \<Rightarrow> reg_access option" where
  "PT_REGS_IP b core = reg_access_of b core ip_reg"

text \<open>Three architectures keep the first system call argument outside the structure user space sees.\<close>

definition orig_regs_struct :: "bpf_target \<Rightarrow> string option" where
  "orig_regs_struct t = (case t of
      Target_s390 \<Rightarrow> Some ''struct pt_regs___s390''
    | Target_arm64 \<Rightarrow> Some ''struct pt_regs___arm64''
    | Target_riscv \<Rightarrow> Some ''struct pt_regs___riscv''
    | _ \<Rightarrow> None)"

definition PT_REGS_PARM_SYSCALL_access :: "build \<Rightarrow> bool \<Rightarrow> nat \<Rightarrow> reg_access option" where
  "PT_REGS_PARM_SYSCALL_access b core n = Option.bind (b_target b) (\<lambda>t.
     let member = PT_REGS_PARM_SYSCALL (pt_regs_of (b_defined b) t) n in
     if member = ''__unsupported__'' then None
     else Some \<lparr>ra_struct = (case orig_regs_struct t of
                     Some s \<Rightarrow> if n = 1 then s else PT_REGS_CAST t
                   | None \<Rightarrow> PT_REGS_CAST t),
                ra_member = member, ra_core = core\<rparr>)"

section \<open>The return address\<close>

text \<open>Where \<^verbatim>\<open>BPF_KPROBE_READ_RET_IP\<close> and \<^verbatim>\<open>BPF_KRETPROBE_READ_RET_IP\<close> take it from: a member of the
  context, a register, or memory at a register plus an offset.\<close>

datatype ret_ip = From_member string | From_register reg_access | From_memory reg_access nat

definition KPROBE_READ_RET_IP :: "build \<Rightarrow> ret_ip option" where
  "KPROBE_READ_RET_IP b = (case b_target b of
      None \<Rightarrow> None
    | Some Target_powerpc \<Rightarrow> Some (From_member ''link'')
    | Some Target_sparc \<Rightarrow> map_option From_register (PT_REGS_RET b False)
    | Some Target_arm64 \<Rightarrow> map_option From_register (PT_REGS_RET b False)
    | Some _ \<Rightarrow> map_option (\<lambda>r. From_memory r 0) (PT_REGS_RET b False))"

definition KRETPROBE_READ_RET_IP :: "build \<Rightarrow> nat \<Rightarrow> ret_ip option" where
  "KRETPROBE_READ_RET_IP b sizeof_ip = (case b_target b of
      None \<Rightarrow> None
    | Some Target_powerpc \<Rightarrow> KPROBE_READ_RET_IP b
    | Some Target_sparc \<Rightarrow> KPROBE_READ_RET_IP b
    | Some Target_arm64 \<Rightarrow> KPROBE_READ_RET_IP b
    | Some _ \<Rightarrow> map_option (\<lambda>r. From_memory r sizeof_ip) (PT_REGS_FP b False))"

section \<open>Programs\<close>

type_synonym reg_reader = "reg_access \<Rightarrow> u64 \<Rightarrow> u64"

text \<open>\<^verbatim>\<open>___bpf_kprobe_argsN\<close> and the two families for system calls have the same recursion: the arguments but
  the first, then the register whose number is the count. \<open>parm n\<close> is the value of the \<open>n\<close>-th register.\<close>

fun parm_args :: "(nat \<Rightarrow> u64 option) \<Rightarrow> 'p list \<Rightarrow> u64 list option" where
  "parm_args parm [] = Some []"
| "parm_args parm (x # args) =
     Option.bind (parm_args parm args) (\<lambda>vs. map_option (\<lambda>v. vs @ [v]) (parm (Suc (length args))))"

text \<open>The macros of \<^verbatim>\<open>BPF_KPROBE\<close> end at 8, those of the system calls at 7.\<close>

definition BPF_KPROBE :: "build \<Rightarrow> reg_reader \<Rightarrow> 'p list \<Rightarrow> (u64 \<Rightarrow> u64 list \<Rightarrow> 'r) \<Rightarrow> u64 \<Rightarrow> 'r option" where
  "BPF_KPROBE b rd args body ctx =
     map_option (body ctx) (bpf_apply 8 (bpf_narg args)
       (parm_args (\<lambda>n. map_option (\<lambda>r. rd r ctx) (PT_REGS_PARM_access b False n)) args))"

text \<open>\<^verbatim>\<open>BPF_KRETPROBE\<close> has at most the return value as an argument.\<close>

definition BPF_KRETPROBE :: "build \<Rightarrow> reg_reader \<Rightarrow> 'p list \<Rightarrow> (u64 \<Rightarrow> u64 list \<Rightarrow> 'r) \<Rightarrow> u64 \<Rightarrow> 'r option" where
  "BPF_KRETPROBE b rd args body ctx = (case args of
      [] \<Rightarrow> Some (body ctx [])
    | [x] \<Rightarrow> map_option (\<lambda>r. body ctx [rd r ctx]) (PT_REGS_RC b False)
    | _ \<Rightarrow> None)"

text \<open>\<^verbatim>\<open>BPF_KSYSCALL\<close>: \<open>wrapper\<close> is \<^verbatim>\<open>LINUX_HAS_SYSCALL_WRAPPER\<close>; then the registers of the system call are
  behind the pointer in the first parameter, and are read with \<^verbatim>\<open>___bpf_syswrap_args\<close>, else with
  \<^verbatim>\<open>___bpf_syscall_args\<close>.\<close>

definition BPF_KSYSCALL ::
  "build \<Rightarrow> reg_reader \<Rightarrow> bool \<Rightarrow> 'p list \<Rightarrow> (u64 \<Rightarrow> u64 list \<Rightarrow> 'r) \<Rightarrow> u64 \<Rightarrow> 'r option" where
  "BPF_KSYSCALL b rd wrapper args body ctx =
     Option.bind (if wrapper then map_option (\<lambda>r. rd r ctx) (PT_REGS_PARM_access b False 1) else Some ctx)
       (\<lambda>regs.
          if wrapper
          then map_option (body ctx) (bpf_apply 7 (bpf_narg args)
                 (parm_args (\<lambda>n. map_option (\<lambda>r. rd r regs) (PT_REGS_PARM_SYSCALL_access b True n)) args))
          else map_option (body ctx) (bpf_apply 7 (bpf_narg args)
                 (parm_args (\<lambda>n. map_option (\<lambda>r. rd r regs) (PT_REGS_PARM_SYSCALL_access b False n)) args)))"

text \<open>\<^verbatim>\<open>PT_REGS_SYSCALL_REGS\<close>.\<close>

definition PT_REGS_SYSCALL_REGS :: "build \<Rightarrow> reg_reader \<Rightarrow> u64 \<Rightarrow> u64 option" where
  "PT_REGS_SYSCALL_REGS b rd ctx =
     (if b_target b \<in> {Some Target_powerpc, Some Target_arc, Some Target_loongarch} then Some ctx
      else map_option (\<lambda>r. rd r ctx) (PT_REGS_PARM_access b False 1))"

section \<open>Lemmas\<close>

lemma parm_args_map:
  "parm_args parm args =
     (if \<forall>i < length args. parm (Suc i) \<noteq> None then Some (map (\<lambda>i. the (parm (Suc i))) [0..<length args]) else None)"
  by (induction args) (auto simp: All_less_Suc less_Suc_eq)

text \<open>Every convention names its registers, and has at least one for parameters.\<close>

lemma conventions_named:
  "''__unsupported__'' \<notin> set (parm_regs (pt_regs_of defined t))"
  "''__unsupported__'' \<notin> set (syscall_regs (pt_regs_of defined t))"
  "parm_regs (pt_regs_of defined t) \<noteq> []"
  by (cases t; simp add: pt_regs_of_def x86_vmlinux_regs_def i386_regs_def x86_64_user_regs_def s390_regs_def
      arm_regs_def arm64_regs_def mips_regs_def powerpc_regs_def sparc_regs_def riscv_regs_def arc_regs_def
      loongarch_regs_def)+

lemma PARM_unsupported:
  "PT_REGS_PARM (pt_regs_of defined t) n = ''__unsupported__'' \<longleftrightarrow>
     \<not> (1 \<le> n \<and> n \<le> length (parm_regs (pt_regs_of defined t)))"
  "PT_REGS_PARM_SYSCALL (pt_regs_of defined t) n = ''__unsupported__'' \<longleftrightarrow>
     \<not> (1 \<le> n \<and> n \<le> length (syscall_regs (pt_regs_of defined t)))"
proof -
  have other: "rs ! (n - 1) \<noteq> ''__unsupported__''" if "''__unsupported__'' \<notin> set rs" "1 \<le> n" "n \<le> length rs" for rs
  proof -
    have "n - 1 < length rs" using that(2,3) by linarith
    then have "rs ! (n - 1) \<in> set rs" by (rule nth_mem)
    with that(1) show ?thesis by metis
  qed
  show "PT_REGS_PARM (pt_regs_of defined t) n = ''__unsupported__'' \<longleftrightarrow>
      \<not> (1 \<le> n \<and> n \<le> length (parm_regs (pt_regs_of defined t)))"
    "PT_REGS_PARM_SYSCALL (pt_regs_of defined t) n = ''__unsupported__'' \<longleftrightarrow>
      \<not> (1 \<le> n \<and> n \<le> length (syscall_regs (pt_regs_of defined t)))"
    using other [OF conventions_named(1) [of defined t]] other [OF conventions_named(2) [of defined t]]
    by (auto simp: PT_REGS_PARM_def PT_REGS_PARM_SYSCALL_def)
qed

lemma access_target:
  assumes "b_target b = Some t"
  shows "PT_REGS_PARM_access b core 1 = Some \<lparr>ra_struct = PT_REGS_CAST t,
      ra_member = PT_REGS_PARM (pt_regs_of (b_defined b) t) 1, ra_core = core\<rparr>"
    and "PT_REGS_PARM_SYSCALL_access b core (Suc n) =
      (if n < length (syscall_regs (pt_regs_of (b_defined b) t))
       then Some \<lparr>ra_struct = (if n = 0 then (case orig_regs_struct t of Some s \<Rightarrow> s | None \<Rightarrow> PT_REGS_CAST t)
                               else PT_REGS_CAST t),
         ra_member = PT_REGS_PARM_SYSCALL (pt_regs_of (b_defined b) t) (Suc n), ra_core = core\<rparr>
       else None)"
  using assms conventions_named(3) [of "b_defined b" t]
  by (auto simp: PT_REGS_PARM_access_def reg_access_of_def PT_REGS_PARM_SYSCALL_access_def PARM_unsupported
      Let_def Suc_le_eq split: option.split)

text \<open>Where the registers of the system call are.\<close>

definition syscall_regs_at :: "build \<Rightarrow> bpf_target \<Rightarrow> reg_reader \<Rightarrow> bool \<Rightarrow> u64 \<Rightarrow> u64" where
  "syscall_regs_at b t rd wrapper ctx =
     (if wrapper then rd \<lparr>ra_struct = PT_REGS_CAST t,
        ra_member = PT_REGS_PARM (pt_regs_of (b_defined b) t) 1, ra_core = False\<rparr> ctx else ctx)"

text \<open>The registers that are members of the kernel's own structure, for the build of this program.\<close>

definition x86_build :: build where
  "x86_build = \<lparr>b_defined = (\<lambda>m. m = ''__TARGET_ARCH_x86'' \<or> m = ''__VMLINUX_H__''), b_target = Some Target_x86\<rparr>"

lemma x86_build_target: "b_target x86_build = bpf_target_of (b_defined x86_build) 0"
  by (simp add: x86_build_def bpf_target_of_def bpf_target_requested_def)

section \<open>Properties\<close>



text \<open>An eight-byte member of the kernel's structure at a multiple of eight bytes.\<close>

definition eight_byte_member :: "cty \<Rightarrow> string \<Rightarrow> bool" where
  "eight_byte_member ty reg \<longleftrightarrow> (case offset_bits ty reg of
      Some (bits, t) \<Rightarrow> bits mod 64 = 0 \<and> sizeof t = 8 \<and> bits div 8 + 8 \<le> sizeof ty
    | None \<Rightarrow> False)"

lemma pt_regs_members:
  "\<forall>reg \<in> {''di'', ''si'', ''dx'', ''cx'', ''ax'', ''r8'', ''r9'', ''r10'', ''bp'', ''ip'', ''sp''}.
     eight_byte_member struct_pt_regs reg"
proof -
  have "sizeof struct_pt_regs = 168" by (simp add: struct_pt_regs_layout)
  then show ?thesis
    by (simp add: eight_byte_member_def struct_pt_regs_def layout_eval layout_simps del: One_nat_def)
qed

text \<open>On the build of this program, every register that the macros name is an eight-byte member of the
  kernel's \<^verbatim>\<open>struct pt_regs\<close> at an offset that is a multiple of eight, except the parameters 7 and 8 and the
  system call parameter 7, which the convention does not have and which do not compile.\<close>

theorem x86_registers_exist:
  "let abi = pt_regs_of (b_defined x86_build) Target_x86 in
   (\<forall>reg \<in> set (map (PT_REGS_PARM abi) [1..<7] @ map (PT_REGS_PARM_SYSCALL abi) [1..<7] @
        [ret_reg abi, fp_reg abi, rc_reg abi, sp_reg abi, ip_reg abi]).
      eight_byte_member struct_pt_regs reg) \<and>
   map (PT_REGS_PARM abi) [7, 8] = [''__unsupported__'', ''__unsupported__''] \<and>
   PT_REGS_PARM_SYSCALL abi 7 = ''__unsupported__''"
proof -
  have abi: "pt_regs_of (b_defined x86_build) Target_x86 = x86_vmlinux_regs"
    by (simp add: pt_regs_of_def x86_build_def)
  have u: "[1..<7] = [1, 2, 3, 4, 5, 6 :: nat]" by (simp add: upt_rec)
  have parm: "map (PT_REGS_PARM x86_vmlinux_regs) [1..<7] = [''di'', ''si'', ''dx'', ''cx'', ''r8'', ''r9'']"
    "map (PT_REGS_PARM_SYSCALL x86_vmlinux_regs) [1..<7] = [''di'', ''si'', ''dx'', ''r10'', ''r8'', ''r9'']"
    unfolding u by (simp_all add: PT_REGS_PARM_def PT_REGS_PARM_SYSCALL_def x86_vmlinux_regs_def)
  have other: "ret_reg x86_vmlinux_regs = ''sp''" "fp_reg x86_vmlinux_regs = ''bp''"
    "rc_reg x86_vmlinux_regs = ''ax''" "sp_reg x86_vmlinux_regs = ''sp''" "ip_reg x86_vmlinux_regs = ''ip''"
    by (simp_all add: x86_vmlinux_regs_def)
  have unsupported: "map (PT_REGS_PARM x86_vmlinux_regs) [7, 8] = [''__unsupported__'', ''__unsupported__'']"
    "PT_REGS_PARM_SYSCALL x86_vmlinux_regs 7 = ''__unsupported__''"
    by (simp_all add: PT_REGS_PARM_def PT_REGS_PARM_SYSCALL_def x86_vmlinux_regs_def)
  show ?thesis
    unfolding Let_def abi parm other unsupported set_append ball_Un list.set
    using pt_regs_members by (simp only: ball_simps simp_thms)
qed

theorem x86_registers_exist_witness:
  "eight_byte_member struct_pt_regs ''ax''"
proof -
  let ?abi = "pt_regs_of (b_defined x86_build) Target_x86"
  have "\<forall>reg \<in> {rc_reg ?abi}. eight_byte_member struct_pt_regs reg"
    using x86_registers_exist unfolding Let_def set_append ball_Un list.set by (simp only: ball_simps simp_thms)
  then show ?thesis by (simp add: pt_regs_of_def x86_build_def x86_vmlinux_regs_def)
qed

end
