(* ===== verification/BpfHelpers.thy ===== *)
theory BpfHelpers
  imports CLayout BpfHelperDefs
begin

text \<open>
  The macros of \<^verbatim>\<open>bpf/bpf/bpf_helpers.h\<close> that compute something: kernel versions, \<^verbatim>\<open>container_of\<close>, the
  argument arrays of the printing macros and the choice between the two printing helpers, and the loops over
  open-coded iterators. A call of a helper is a value (its name and what it is passed); an iterator is its
  three functions, which the kernel supplies. Section and tag attributes have no run-time meaning.
\<close>

section \<open>Small macros\<close>

text \<open>\<^verbatim>\<open>KERNEL_VERSION\<close> on the non-negative integers it is used with.\<close>

definition KERNEL_VERSION :: "nat \<Rightarrow> nat \<Rightarrow> nat \<Rightarrow> nat" where
  "KERNEL_VERSION a b c = push_bit 16 a + push_bit 8 b + (if 255 < c then 255 else c)"

text \<open>\<^verbatim>\<open>container_of(ptr, type, member)\<close>; a member the type does not have is a compile-time error.\<close>

definition container_of :: "u64 \<Rightarrow> cty \<Rightarrow> string \<Rightarrow> u64 option" where
  "container_of ptr type member = map_option (\<lambda>off. ptr - of_nat off) (offsetof type member)"

datatype libbpf_pin_type = LIBBPF_PIN_NONE | LIBBPF_PIN_BY_NAME

datatype libbpf_tristate = TRI_NO | TRI_YES | TRI_MODULE

text \<open>The numbers of the enumerators, as the C enumerations give them.\<close>

primrec pin_type_value :: "libbpf_pin_type \<Rightarrow> int" where
  "pin_type_value LIBBPF_PIN_NONE = 0"
| "pin_type_value LIBBPF_PIN_BY_NAME = 1"

primrec tristate_value :: "libbpf_tristate \<Rightarrow> int" where
  "tristate_value TRI_NO = 0"
| "tristate_value TRI_YES = 1"
| "tristate_value TRI_MODULE = 2"

text \<open>\<^verbatim>\<open>bpf_tail_call_static\<close> refuses a slot that is not constant at compile time and otherwise calls helper
  12 with its three arguments in \<^verbatim>\<open>r1\<close>, \<^verbatim>\<open>r2\<close> and \<^verbatim>\<open>r3\<close>.\<close>

definition bpf_tail_call_static :: "bool \<Rightarrow> u64 \<Rightarrow> u64 \<Rightarrow> u32 \<Rightarrow> (nat \<times> u64 list) option" where
  "bpf_tail_call_static constant ctx mp slot =
     (if \<not> constant then None else Some (12, [ctx, mp, ucast slot]))"

section \<open>Counting and filling arguments\<close>

text \<open>\<^verbatim>\<open>___bpf_narg\<close> picks the fourteenth of the given arguments followed by the numbers from 12 down to 0:
  \<open>Inr\<close> a number, \<open>Inl\<close> one of the arguments.\<close>

definition narg :: "'a list \<Rightarrow> 'a + nat" where
  "narg args = (map Inl args @ map Inr (rev [0..<13])) ! 12"

text \<open>\<^verbatim>\<open>___bpf_fillN(arr, p, x, args)\<close>: store the first argument at \<open>p\<close> and go on at \<open>p + 1\<close>.\<close>

fun bpf_fill :: "u64 list \<Rightarrow> nat \<Rightarrow> u64 list \<Rightarrow> u64 list" where
  "bpf_fill arr p [] = arr"
| "bpf_fill arr p (x # args) = bpf_fill (arr[p := x]) (p + 1) args"

text \<open>The array \<^verbatim>\<open>___param\<close>: as long as the argument count, its elements undefined (\<open>junk\<close>) before it is
  filled. With more than twelve arguments the count is not a number and the macro does not compile.\<close>

definition param_array :: "u64 \<Rightarrow> u64 list \<Rightarrow> u64 list option" where
  "param_array junk args =
     (case narg args of Inr n \<Rightarrow> Some (bpf_fill (replicate n junk) 0 args) | Inl _ \<Rightarrow> None)"

section \<open>Printing\<close>

text \<open>The helper calls the macros make. A format is its bytes with the terminating zero, \<^verbatim>\<open>sizeof(___fmt)\<close> its
  length; a size of parameters is in bytes.\<close>

datatype print_call =
    Call_seq_printf u64 "u8 list" nat "u64 list" nat
  | Call_snprintf u64 nat "u8 list" "u64 list" nat
  | Call_trace_printk "u8 list" nat "u64 list"
  | Call_trace_vprintk "u8 list" nat "u64 list" nat
  | Call_stream_vprintk int "u8 list" "u64 list" nat

definition BPF_SEQ_PRINTF :: "u64 \<Rightarrow> u64 \<Rightarrow> u8 list \<Rightarrow> u64 list \<Rightarrow> print_call option" where
  "BPF_SEQ_PRINTF junk seq fmt args =
     map_option (\<lambda>param. Call_seq_printf seq fmt (length fmt) param (8 * length param)) (param_array junk args)"

definition BPF_SNPRINTF :: "u64 \<Rightarrow> u64 \<Rightarrow> nat \<Rightarrow> u8 list \<Rightarrow> u64 list \<Rightarrow> print_call option" where
  "BPF_SNPRINTF junk out out_size fmt args =
     map_option (\<lambda>param. Call_snprintf out out_size fmt param (8 * length param)) (param_array junk args)"

definition bpf_printk_direct :: "u8 list \<Rightarrow> u64 list \<Rightarrow> print_call option" where
  "bpf_printk_direct fmt args = Some (Call_trace_printk fmt (length fmt) args)"

definition bpf_vprintk :: "u64 \<Rightarrow> u8 list \<Rightarrow> u64 list \<Rightarrow> print_call option" where
  "bpf_vprintk junk fmt args =
     map_option (\<lambda>param. Call_trace_vprintk fmt (length fmt) param (8 * length param)) (param_array junk args)"

definition bpf_stream_printk :: "u64 \<Rightarrow> int \<Rightarrow> u8 list \<Rightarrow> u64 list \<Rightarrow> print_call option" where
  "bpf_stream_printk junk stream_id fmt args =
     map_option (\<lambda>param. Call_stream_vprintk stream_id fmt param (8 * length param)) (param_array junk args)"

text \<open>\<^verbatim>\<open>___bpf_pick_printk\<close> picks the fourteenth of the arguments followed by nine times \<^verbatim>\<open>__bpf_vprintk\<close> and
  four times \<^verbatim>\<open>__bpf_printk\<close>. \<open>None\<close> stands for picking one of the arguments, which is not a macro.\<close>

datatype printk_macro = Bpf_printk | Bpf_vprintk

definition pick_printk :: "u64 list \<Rightarrow> printk_macro option" where
  "pick_printk args =
     (map (\<lambda>_. None) args @ map Some (replicate 9 Bpf_vprintk @ replicate 4 Bpf_printk)) ! 12"

definition bpf_printk :: "u64 \<Rightarrow> u8 list \<Rightarrow> u64 list \<Rightarrow> print_call option" where
  "bpf_printk junk fmt args =
     (case pick_printk args of
        Some Bpf_printk \<Rightarrow> bpf_printk_direct fmt args
      | Some Bpf_vprintk \<Rightarrow> bpf_vprintk junk fmt args
      | None \<Rightarrow> None)"

section \<open>Loops over iterators\<close>

text \<open>The functions of an iterator of type \<open>'it\<close> over elements \<open>'e\<close>; \<open>None\<close> is the null pointer of
  \<^verbatim>\<open>next\<close>. The body of a loop returns whether it left the loop with \<^verbatim>\<open>break\<close>.\<close>

record ('it, 'e) iter_ops =
  iter_next :: "'it \<Rightarrow> 'e option \<times> 'it"
  iter_destroy :: "'it \<Rightarrow> 'it"

partial_function (option) iter_loop ::
  "('it \<Rightarrow> 'e option \<times> 'it) \<Rightarrow> ('e \<Rightarrow> bool) \<Rightarrow> ('e \<Rightarrow> 's \<Rightarrow> bool \<times> 's) \<Rightarrow> 'it \<Rightarrow> 's \<Rightarrow> ('it \<times> 's) option" where
  "iter_loop nxt check body it s =
     (case nxt it of
        (None, it') \<Rightarrow> Some (it', s)
      | (Some e, it') \<Rightarrow>
          if \<not> check e then Some (it', s)
          else (case body e s of
                  (brk, s') \<Rightarrow> if brk then Some (it', s') else iter_loop nxt check body it' s'))"

text \<open>\<^verbatim>\<open>cleanup\<close> destroys the iterator when the loop is left, in whatever way.\<close>

definition bpf_for_each ::
  "('it, 'e) iter_ops \<Rightarrow> 'it \<Rightarrow> ('e \<Rightarrow> 's \<Rightarrow> bool \<times> 's) \<Rightarrow> 's \<Rightarrow> ('it \<times> 's) option" where
  "bpf_for_each ops it body s =
     map_option (\<lambda>(it', s'). (iter_destroy ops it', s')) (iter_loop (iter_next ops) (\<lambda>_. True) body it s)"

definition bpf_for ::
  "('it, int) iter_ops \<Rightarrow> (int \<Rightarrow> int \<Rightarrow> 'it) \<Rightarrow> int \<Rightarrow> int \<Rightarrow> (int \<Rightarrow> 's \<Rightarrow> bool \<times> 's) \<Rightarrow> 's \<Rightarrow>
     ('it \<times> 's) option" where
  "bpf_for ops iter_num_new start stop body s =
     map_option (\<lambda>(it', s'). (iter_destroy ops it', s'))
       (iter_loop (iter_next ops) (\<lambda>i. start \<le> i \<and> i < stop) body (iter_num_new start stop) s)"

definition bpf_repeat ::
  "('it, int) iter_ops \<Rightarrow> (int \<Rightarrow> int \<Rightarrow> 'it) \<Rightarrow> int \<Rightarrow> ('s \<Rightarrow> bool \<times> 's) \<Rightarrow> 's \<Rightarrow> ('it \<times> 's) option" where
  "bpf_repeat ops iter_num_new N body s =
     map_option (\<lambda>(it', s'). (iter_destroy ops it', s'))
       (iter_loop (iter_next ops) (\<lambda>_. True) (\<lambda>_. body) (iter_num_new 0 N) s)"

section \<open>Lemmas\<close>

lemma narg_length: "length args \<le> 12 \<Longrightarrow> narg args = Inr (length args)"
  by (auto simp: narg_def nth_append rev_nth)

lemma bpf_fill_append: "p = length done_args \<Longrightarrow> bpf_fill (done_args @ replicate (length args) junk) p args = done_args @ args"
proof (induction args arbitrary: done_args p)
  case (Cons x args)
  have "(done_args @ replicate (length (x # args)) junk)[p := x] = (done_args @ [x]) @ replicate (length args) junk"
    using Cons.prems by (simp add: list_update_append)
  with Cons.IH [of "p + 1" "done_args @ [x]"] Cons.prems show ?case by simp
qed simp

lemma param_array_args: "length args \<le> 12 \<Longrightarrow> param_array junk args = Some args"
  using bpf_fill_append [of 0 "[]" args junk] by (simp add: param_array_def narg_length)

lemma pick_printk_cases:
  "length args \<le> 12 \<Longrightarrow> pick_printk args = Some (if length args \<le> 3 then Bpf_printk else Bpf_vprintk)"
proof -
  assume l: "length args \<le> 12"
  have "pick_printk args = Some ((replicate 9 Bpf_vprintk @ replicate 4 Bpf_printk) ! (12 - length args))"
    using l by (simp add: pick_printk_def nth_append)
  also have "(replicate 9 Bpf_vprintk @ replicate 4 Bpf_printk) ! (12 - length args) =
      (if length args \<le> 3 then Bpf_printk else Bpf_vprintk)"
    using l by (auto simp: nth_append)
  finally show ?thesis .
qed

text \<open>The iterator yields these elements, then null.\<close>

fun yields :: "('it \<Rightarrow> 'e option \<times> 'it) \<Rightarrow> 'it \<Rightarrow> 'e list \<Rightarrow> bool" where
  "yields nxt it [] \<longleftrightarrow> fst (nxt it) = None"
| "yields nxt it (x # xs) \<longleftrightarrow> fst (nxt it) = Some x \<and> yields nxt (snd (nxt it)) xs"

text \<open>A \<^verbatim>\<open>for\<close> loop with \<^verbatim>\<open>break\<close> over a list.\<close>

fun for_list :: "('e \<Rightarrow> 's \<Rightarrow> bool \<times> 's) \<Rightarrow> 'e list \<Rightarrow> 's \<Rightarrow> 's" where
  "for_list body [] s = s"
| "for_list body (x # xs) s = (case body x s of (brk, s') \<Rightarrow> if brk then s' else for_list body xs s')"

lemma iter_loop_yields:
  "yields nxt it xs \<Longrightarrow> \<forall>x \<in> set xs. check x \<Longrightarrow>
   \<exists>it'. iter_loop nxt check body it s = Some (it', for_list body xs s)"
proof (induction xs arbitrary: it s)
  case Nil
  then show ?case by (subst iter_loop.simps) (cases "nxt it"; simp)
next
  case (Cons x xs)
  then obtain it1 where n: "nxt it = (Some x, it1)" "yields nxt it1 xs" by (cases "nxt it") auto
  obtain brk s1 where b: "body x s = (brk, s1)" by fastforce
  show ?case
  proof (cases brk)
    case True
    with n b Cons.prems(2) show ?thesis by (subst iter_loop.simps) simp
  next
    case False
    moreover have "\<exists>it'. iter_loop nxt check body it1 s1 = Some (it', for_list body xs s1)"
      using Cons.IH [OF n(2)] Cons.prems(2) by simp
    ultimately show ?thesis using n b Cons.prems(2) by (subst iter_loop.simps) simp
  qed
qed


text \<open>Whatever the iterator yields, the body runs only on elements that pass the check.\<close>

lemma iter_loop_checked:
  fixes nxt :: "'it \<Rightarrow> 'e option \<times> 'it" and body :: "'e \<Rightarrow> 's \<Rightarrow> bool \<times> 's"
  assumes "iter_loop nxt check body it s = Some r" "Q s"
    and "\<And>e s. check e \<Longrightarrow> Q s \<Longrightarrow> Q (snd (body e s))"
  shows "Q (snd r)"
proof -
  have "(\<forall>e s. check e \<longrightarrow> Q s \<longrightarrow> Q (snd (body e s))) \<longrightarrow> Q s \<longrightarrow> Q (snd r)"
  proof (rule iter_loop.raw_induct [OF _ assms(1), where P = "\<lambda>nxt check body it s r.
      (\<forall>e s. check e \<longrightarrow> Q s \<longrightarrow> Q (snd (body e s))) \<longrightarrow> Q s \<longrightarrow> Q (snd r)"])
    fix loop :: "('it \<Rightarrow> 'e option \<times> 'it) \<Rightarrow> ('e \<Rightarrow> bool) \<Rightarrow> ('e \<Rightarrow> 's \<Rightarrow> bool \<times> 's) \<Rightarrow> 'it \<Rightarrow> 's \<Rightarrow>
        ('it \<times> 's) option"
      and nxt check and body :: "'e \<Rightarrow> 's \<Rightarrow> bool \<times> 's" and it s r
    assume IH: "\<And>nxt check body it s r. loop nxt check body it s = Some r \<Longrightarrow>
        (\<forall>e s. check e \<longrightarrow> Q s \<longrightarrow> Q (snd (body e s))) \<longrightarrow> Q s \<longrightarrow> Q (snd r)"
      and step: "(case nxt it of (None, it') \<Rightarrow> Some (it', s)
        | (Some e, it') \<Rightarrow> if \<not> check e then Some (it', s)
            else case body e s of (brk, s') \<Rightarrow> if brk then Some (it', s') else loop nxt check body it' s') = Some r"
    show "(\<forall>e s. check e \<longrightarrow> Q s \<longrightarrow> Q (snd (body e s))) \<longrightarrow> Q s \<longrightarrow> Q (snd r)"
    proof (intro impI)
      assume b: "\<forall>e s. check e \<longrightarrow> Q s \<longrightarrow> Q (snd (body e s))" and q: "Q s"
      show "Q (snd r)"
      proof (cases "nxt it")
        case (Pair eo it')
        show ?thesis
        proof (cases "\<exists>e. eo = Some e \<and> check e")
          case False
          with Pair step q show ?thesis by (cases eo) auto
        next
          case True
          then obtain e where e: "eo = Some e" "check e" by blast
          obtain brk s1 where s1: "body e s = (brk, s1)" by fastforce
          then have "Q s1" using b e(2) q by (metis snd_conv)
          with Pair e s1 step b IH [of nxt check body it' s1 r] show ?thesis by (cases brk) auto
        qed
      qed
    qed
  qed
  with assms(2,3) show ?thesis by blast
qed

section \<open>Properties\<close>

text \<open>With at most twelve arguments the printing macros pass exactly their arguments: the parameter array
  is filled completely, whatever it held before, its size is eight bytes per argument and the format's size
  includes its terminating zero; \<^verbatim>\<open>bpf_printk\<close> uses the helper with direct arguments up to three of them,
  so that it never needs more than five registers, and the one with an array above.\<close>

theorem printing_arguments:
  assumes "length args \<le> 12"
  shows "bpf_printk junk fmt args = Some (if length args \<le> 3 then Call_trace_printk fmt (length fmt) args
      else Call_trace_vprintk fmt (length fmt) args (8 * length args)) \<and>
    BPF_SEQ_PRINTF junk seq fmt args = Some (Call_seq_printf seq fmt (length fmt) args (8 * length args)) \<and>
    BPF_SNPRINTF junk out out_size fmt args = Some (Call_snprintf out out_size fmt args (8 * length args)) \<and>
    bpf_stream_printk junk stream_id fmt args = Some (Call_stream_vprintk stream_id fmt args (8 * length args)) \<and>
    (\<forall>f n vs. bpf_printk junk fmt args = Some (Call_trace_printk f n vs) \<longrightarrow> 2 + length vs \<le> 5)"
  using param_array_args [OF assms, of junk] pick_printk_cases [OF assms]
  by (auto simp: bpf_printk_def bpf_printk_direct_def bpf_vprintk_def BPF_SEQ_PRINTF_def BPF_SNPRINTF_def
      bpf_stream_printk_def)

theorem printing_arguments_witness:
  "bpf_printk 99 [37, 100, 0] [1, 2, 3, 4] = Some (Call_trace_vprintk [37, 100, 0] 3 [1, 2, 3, 4] 32) \<and>
   bpf_printk 99 [37, 100, 0] [1, 2, 3] = Some (Call_trace_printk [37, 100, 0] 3 [1, 2, 3])"
  using printing_arguments [of "[1, 2, 3, 4]" 99 "[37, 100, 0]"] printing_arguments [of "[1, 2, 3]" 99 "[37, 100, 0]"]
  by simp

text \<open>C34: \<^verbatim>\<open>bpf_for\<close> is a counting loop. If the kernel's iterator yields the integers from \<open>start\<close> up to but
  not including \<open>stop\<close>, the loop ends, runs its body on them in order until the body breaks, and destroys
  the iterator. Whatever the iterator yields, the body runs only on integers of the range: what the body
  preserves there, the loop preserves.\<close>

theorem bpf_for_counts:
  assumes "\<And>i s. start \<le> i \<Longrightarrow> i < stop \<Longrightarrow> Q s \<Longrightarrow> Q (snd (body i s))" and "Q s"
  shows "(yields (iter_next ops) (iter_num_new start stop) [start..stop - 1] \<longrightarrow>
      (\<exists>it'. bpf_for ops iter_num_new start stop body s =
         Some (iter_destroy ops it', for_list body [start..stop - 1] s))) \<and>
    (\<forall>it' s'. bpf_for ops iter_num_new start stop body s = Some (it', s') \<longrightarrow> Q s')"
proof -
  have "\<exists>it'. iter_loop (iter_next ops) (\<lambda>i. start \<le> i \<and> i < stop) body (iter_num_new start stop) s =
      Some (it', for_list body [start..stop - 1] s)"
    if "yields (iter_next ops) (iter_num_new start stop) [start..stop - 1]"
    by (rule iter_loop_yields [OF that]) simp
  moreover have "Q (snd r)"
    if "iter_loop (iter_next ops) (\<lambda>i. start \<le> i \<and> i < stop) body (iter_num_new start stop) s = Some r" for r
    using iter_loop_checked [where Q = Q, OF that assms(2)] assms(1) by blast
  ultimately show ?thesis unfolding bpf_for_def by fastforce
qed

text \<open>An iterator over integers as the kernel documents it, for the witness: the next value and the end.\<close>

definition sample_iter :: "(int \<times> int, int) iter_ops" where
  "sample_iter = \<lparr>iter_next = (\<lambda>(c, e). if c < e then (Some c, (c + 1, e)) else (None, (c, e))),
     iter_destroy = (\<lambda>it. it)\<rparr>"

theorem bpf_for_counts_witness:
  "\<exists>it'. bpf_for sample_iter Pair 0 4 (\<lambda>i s. (i = 2, s @ [i])) [] = Some (it', [0, 1, 2])"
proof -
  have u: "[0..3] = [0, 1, 2, 3 :: int]" by (simp add: upto.simps)
  have "yields (iter_next sample_iter) (0, 4) [0..4 - 1]" by (simp add: u sample_iter_def)
  with bpf_for_counts [where start = 0 and stop = 4 and body = "\<lambda>i s. (i = 2, s @ [i])" and s = "[]"
      and Q = "\<lambda>_. True" and ops = sample_iter and iter_num_new = Pair]
  show ?thesis by (auto simp: u)
qed

end
