(* ===== verification/Spec2Isabelle.thy ===== *)
theory Spec2Isabelle
  imports AgentHttp Kubenpuctl KernelObjects BpfKprobe BpfHelpers
begin

text \<open>
  Verification of KubeNPU.

  KubeNPU counts the calls that pods make to GPUs and NPUs. Every DRM and accel driver sends its ioctls
  through the kernel function \<^verbatim>\<open>drm_ioctl\<close>. An eBPF program is attached there; it looks the device number
  up in the hash map \<^verbatim>\<open>devices\<close>, the ioctl number in the hash map \<^verbatim>\<open>ioctls\<close>, and writes one record per
  registered call into a ring buffer, or counts the call as dropped when the ring buffer is full. An agent
  on each node discovers the devices, fills the two tables, attaches the program, reads the records, finds
  the pod of each by its cgroup ID and exports counters to Prometheus. The tool \<^verbatim>\<open>kubenpuctl\<close> prints the
  discovered devices.

  Bottom up, the theories model:

  \<^item> \<open>Prelude\<close>: word types, little-endian bytes and lemmas on words that the others share.
  \<^item> \<open>CLayout\<close>: C types and their layout on amd64, with the theorem that placed members do not overlap.
  \<^item> \<open>KernelFs\<close>, \<open>KernelTask\<close>, \<open>KernelCgroup\<close>, \<open>KernelBpf\<close>, \<open>KernelDrm\<close>: types of \<^verbatim>\<open>bpf/vmlinux.h\<close>, each a
    C type with its size and alignment computed: what the arguments of \<^verbatim>\<open>drm_ioctl\<close>, the file, its inode
    and what they embed, and the objects behind the helpers the program calls consist of. \<open>KernelMm\<close>,
    \<open>KernelVfs\<close>, \<open>KernelDev\<close>, \<open>KernelKms\<close> and \<open>KernelVerifier\<close>: the memory, file system, device, display
    and loading side of the same objects; the theories whose name ends in \<open>Refs\<close>: what all of these point
    to, and \<open>KernelReach2a\<close> to \<open>KernelReach5b\<close>: what they reach in two and more dereferences, until nothing is
    left. \<open>KernelHelpers1\<close>, \<open>KernelHelpers2\<close>, \<open>HelperTypes\<close>: the same for the structs the helpers take pointers to.
    \<open>KernelSubBpf\<close>, \<open>KernelSubDrm\<close>, \<open>KernelSubDma\<close>, \<open>KernelSubPci\<close>, \<open>KernelSubRun\<close>: the other types of seven lines
    and more of the subsystems the program works with (BPF, DRM, DMA, PCI, cgroups, perf events, modules);
    \<open>KernelLargea\<close> to \<open>KernelLargej\<close>: those of 25 to 300 lines of the other subsystems.
    \<open>KernelObjects\<close>: the list of these types and what holds of a read of any member of any of them.
  \<^item> \<open>BpfHelperDefs\<close>: \<^verbatim>\<open>bpf/bpf/bpf_helper_defs.h\<close>, the numbers and types of the helpers, against
    \<^verbatim>\<open>enum bpf_func_id\<close>; \<open>HelperArgs\<close>: the structs in their signatures.
  \<^item> \<open>BpfTracing\<close>: \<^verbatim>\<open>bpf/bpf/bpf_tracing.h\<close>, how the macro \<^verbatim>\<open>BPF_PROG\<close> and its relatives find the
    arguments of the traced function; \<open>BpfKprobe\<close>: the same for kprobes, function returns and system calls;
    \<open>BpfHelpers\<close>: the macros of \<^verbatim>\<open>bpf/bpf/bpf_helpers.h\<close> that compute something.
  \<^item> \<open>DrmBpf\<close>: \<^verbatim>\<open>bpf/common.h\<close> and \<^verbatim>\<open>bpf/drm_common.bpf.c\<close>. \<open>kubenpu_ioctl\<close> is the program statement by
    statement over the contents of its four maps (\<open>bpf_state\<close>); its stores into the reserved sample are
    byte stores at the offsets of the layout; \<open>hook_run\<close> is a sequence of calls.
  \<^item> \<open>GoLib\<close>: what the Go code uses of \<^verbatim>\<open>errors\<close>, \<^verbatim>\<open>strings\<close>, \<^verbatim>\<open>strconv\<close>, \<^verbatim>\<open>path/filepath\<close> and \<^verbatim>\<open>time\<close>.
    An error is a tree of messages over sentinels, and \<open>errors_Is\<close> looks for a sentinel in it.
  \<^item> \<open>Discovery\<close>: \<^verbatim>\<open>pkg/discovery\<close>; \<open>Hw\<close>: \<^verbatim>\<open>pkg/hw\<close> with the vendors i915 and ivpu; \<open>Loader\<close>:
    \<^verbatim>\<open>pkg/loader\<close>; \<open>Cgroup\<close>, \<open>Cri\<close>, \<open>PodMap\<close>: the three files of \<^verbatim>\<open>pkg/podmap\<close>; \<open>Metrics\<close>, \<open>Server\<close>: the two
    files of \<^verbatim>\<open>pkg/metrics\<close>; \<open>Config\<close>: \<^verbatim>\<open>pkg/config\<close>; \<open>Kubenpuctl\<close>: the program \<^verbatim>\<open>cmd/kubenpuctl\<close> from its
    arguments to its output and exit code, with \<open>Tabwriter\<close>, what it uses of \<^verbatim>\<open>text/tabwriter\<close>.
  \<^item> \<open>AgentSetup\<close>: \<^verbatim>\<open>cmd/agent/main.go\<close> up to readiness, as one function with an error result;
    \<open>Agent\<close>: the same file from there on, as steps of the hook, the reader loop, the worker, the signal
    goroutine and the end of the process over one state record; \<open>AgentRun\<close>: the properties of its runs;
    \<open>AgentSpec\<close>: an abstract machine that counts events in order, which the agent implements;
    \<open>AgentLive\<close>: progress of the pipeline; \<open>Flags\<close>: the command line; \<open>AgentHttp\<close>: the beginning of \<^verbatim>\<open>main\<close>
    and its queue, and the answers of the HTTP server as a function of the state a request meets.

  Conventions. Structs are records and interfaces records of functions. Integers of fixed width are words.
  A call that returns an error returns \<open>goerr + 'a\<close>, or \<open>goerr option\<close> when it returns only the error.
  A method returns the changed receiver. Maps are partial functions; where Go iterates over a map, the
  order is an argument with the hypothesis that it lists the keys. A mutex-protected method is one step.

  What the code calls and this repository does not contain is an argument: the eBPF library and the kernel
  behind it (\<open>ebpf_env\<close>, \<open>bpf_env\<close>), the file system (\<open>os_env\<close>, \<open>lstat\<close>), the container runtime (\<open>cri_env\<close>),
  clocks, Prometheus' \<^verbatim>\<open>float64\<close>. Hypotheses on them are named: \<open>hash_put_ok\<close> (a hash map with \<open>n\<close> slots
  refuses a new key only when full), \<open>reserve_sized\<close> (a reservation has the size asked for), \<open>reserve_until_full\<close> (it fails only when the
  ring buffer is full), \<open>percpu_lookup_ok\<close> (a lookup in a per-CPU array returns the value of each CPU), \<open>clock_ok\<close>
  (time does not run backwards during a call), \<open>cri_foreign\<close> (errors of the runtime are not the agent's own
  sentinels), \<open>deadline_ok\<close> (a call of the runtime whose time is up fails), \<open>cobra_ok\<close> (the library runs the command that is
  named and refuses one that is not there).

  Interfaces between components are locales, each interpreted on the model's own definitions: \<open>codec\<close> (a
  memory image both sides of the kernel boundary agree on; for the event and both map keys), \<open>vendor\<close> (what
  the probe needs of a vendor's ioctl table; for i915 and ivpu), \<open>cgroup_driver\<close> (how a runtime names pod
  and container directories; for the systemd and the cgroupfs driver), \<open>counter\<close> (a family of monotone
  counters; for the ioctl and the drop counters).

  What the properties say, from the whole to the parts:

  \<^item> \<open>AgentRun\<close>: conservation of events from the hook to the counters over every interleaving, from the moment the
    hook is attached (\<open>agent_start_traced_run\<close>: the calls seen before readiness are the beginning of a run), every
    exported series can be named and joined, the order of the shutdown, its termination (a measure on the
    state and the fact that some step is always enabled), and where the worker counts each outcome. The
    phases of the shutdown are a linear order that no step goes back in.
  \<^item> \<open>AgentSpec\<close>: a simulation of the whole pipeline (probe, ring buffer, reader, queue, worker) by one line
    of waiting events: order is kept, no event is counted twice, the queue drops only when it is full.
  \<^item> \<open>AgentLive\<close>: every reported call is counted in the end; a weight on the uncounted samples bounds the
    steps of the reader and the worker.
  \<^item> \<open>AgentHttp\<close>: what the command line, the configured durations and the queue size decide, which step of the start
    fails first, when the process runs, what the endpoints answer in each phase, that a scrape is well formed and adds
    up to the calls reported, and that no exported counter is ever reset.
  \<^item> \<open>DrmBpf\<close>, \<open>Loader\<close>: which calls the probe reports and what bytes it writes, that filtering touches
    nothing, the accounting of drops and the bursts the ring buffer holds, the round trip from the kernel's bytes to the
    Go event, exactness of the summed drop counter, the requirements of \<^verbatim>\<open>NewLoader\<close> in their order and the release
    of resources. The layout facts behind them (agreement of the C and Go structs, the offsets of the two kernel
    fields) are lemmas.
  \<^item> \<open>BpfTracing\<close>, \<open>BpfKprobe\<close>, \<open>BpfHelpers\<close>: which arguments a body gets, how many a macro can take, that the loop over
    an iterator is the counted loop. \<open>KernelObjects\<close> and \<open>BpfHelperDefs\<close> have lemmas only: member reads stay inside
    their objects, the pages of the ring buffer, and that every struct a helper takes a pointer to is among the types.
  \<^item> \<open>AgentSetup\<close>: the tables hold exactly what discovery and the registry give, and have room for it.
  \<^item> \<open>PodMap\<close>, \<open>Cgroup\<close>: the invariant of the cache, the classification of failed lookups, new pods are
    found after the interval, the rate limit, the paths of both cgroup drivers, the index of the walk.
  \<^item> \<open>Metrics\<close>, \<open>Server\<close>, \<open>Config\<close>, \<open>Discovery\<close>, \<open>Hw\<close>, \<open>Kubenpuctl\<close>: counters count their own increments, a
    scrape is well formed, endpoints, valid configurations, grouping of device nodes (a refinement of the
    set of nodes), uevent round trips, the printed table can be cut back into the fields of the devices,
    uniqueness of vendor IDs.

  Bounds and termination. All recursive functions are total in HOL; the directory walk recurses over a
  finite tree. The agent's loops are runs of steps, so nothing is assumed about their length. Counters are
  64-bit words and the equations about them are equations of words. The queue is bounded by the largest object of
  the Go runtime on amd64.

  Idealisations. A scrape reads the collector and the drop counter of the kernel in one step, and the shutdown of the
  server is one step: requests that are in flight while \<^verbatim>\<open>Shutdown\<close> waits are not distinguished. The router answers the
  three registered paths; that \<^verbatim>\<open>http.ServeMux\<close> redirects a path that is not clean is not modelled.

  Not modelled: the types of \<^verbatim>\<open>bpf/vmlinux.h\<close>, a dump of all types of one kernel, that are shorter than 25 lines or
  longer than 300 and that neither a chain of data pointers reaches from the objects the program and its loading touch
  or from the arguments of the helpers, nor the subsystems above contain; its enumerations without a name;
  the compiler attributes and tags of \<^verbatim>\<open>bpf/bpf/bpf_helpers.h\<close>; the compiled object; log lines and the texts
  interpolated into error messages; the Prometheus registry, \<^verbatim>\<open>net/http\<close>, gRPC and cobra beyond the results the
  code uses; deployment files and the image.
\<close>

end
